(* ===== verification/Prelude.thy ===== *)
theory Prelude
  imports Main "HOL-Library.Word" "HOL-Library.Monad_Syntax"
begin

text \<open>
  Shared vocabulary of the development.

  \<^item> the machine types of the C++ code: \<open>u8\<close> for \<open>char\<close> and \<open>unsigned char\<close>,
    \<open>u32\<close> for \<open>unsigned\<close>, \<open>bytes\<close> for the contents of a character array;
  \<^item> results: a C++ operation is a function into \<open>option\<close>. \<open>None\<close> means that the C++
    program has no defined result: it reads or writes outside an object, or it never returns.
    A theorem that a result is \<open>Some r\<close> therefore states memory safety and termination;
  \<^item> checked reads of a NUL-terminated array (\<open>rd\<close>) and of a vector (\<open>vec_at\<close>);
  \<^item> generic lemmas about lists and the option monad.
\<close>

unbundle bit_operations_syntax

type_synonym u8 = "8 word"
type_synonym u32 = "32 word"
type_synonym bytes = "u8 list"

named_theorems access \<open>what a checked access returns inside its object\<close>

section \<open>Objects in memory\<close>

text \<open>
  The contents of a C string (\<open>std::string::c_str()\<close>, or the string that Ruby's
  \<open>StringValueCStr\<close> hands out) are followed by one NUL. A pointer into it is an offset:
  offsets up to and including the NUL may be read.
\<close>

definition rd :: "bytes \<Rightarrow> nat \<Rightarrow> u8 option" where
  "rd s p = (if p < length s then Some (s ! p) else if p = length s then Some 0 else None)"

definition vec_at :: "'a list \<Rightarrow> nat \<Rightarrow> 'a option" where
  "vec_at xs i = (if i < length xs then Some (xs ! i) else None)"

text \<open>The bytes in the half-open range from \<open>p\<close> to \<open>q\<close>, the argument of
  \<open>std::string::append(first, last)\<close> and \<open>assign\<close>; the terminating NUL is not part of it.\<close>

definition slice :: "bytes \<Rightarrow> nat \<Rightarrow> nat \<Rightarrow> bytes option" where
  "slice s p q = (if p \<le> q \<and> q \<le> length s then Some (take (q - p) (drop p s)) else None)"

section \<open>Generic lemmas\<close>

lemma bind_weak_cong: "m = m' \<Longrightarrow> Option.bind m f = Option.bind m' f"
  by simp

lemma rd_append [access]: "rd (xs @ ys) (length xs + n) = rd ys n"
  by (auto simp: rd_def nth_append)

lemma rd_append0 [access]: "rd (xs @ ys) (length xs) = rd ys 0"
  using rd_append [of xs ys 0] by simp

lemma rd_in_prefix: "p < length xs \<Longrightarrow> rd (xs @ ys) p = Some (xs ! p)"
  by (simp add: rd_def nth_append)

lemma rd_Nil [access, simp]: "rd [] 0 = Some 0"
  by (simp add: rd_def)

lemma rd_Cons0 [access, simp]: "rd (x # xs) 0 = Some x"
  by (simp add: rd_def)

lemma rd_Cons_Suc [access, simp]: "rd (x # xs) (Suc n) = rd xs n"
  by (simp add: rd_def)

lemma rd_Some_iff: "(\<exists>b. rd s p = Some b) \<longleftrightarrow> p \<le> length s"
  by (auto simp: rd_def)

lemma slice_append [access]: "slice (xs @ ys @ zs) (length xs) (length xs + length ys) = Some ys"
  by (simp add: slice_def)

lemma vec_at_append [access]: "vec_at (xs @ y # ys) (length xs) = Some y"
  by (simp add: vec_at_def)

lemma vec_at_Some [access]: "i < length xs \<Longrightarrow> vec_at xs i = Some (xs ! i)"
  by (simp add: vec_at_def)

lemma nat_lt_256_u8 [simp]: "unat (b :: u8) < 256"
  using unsigned_less [of b, where 'a = nat] by simp

lemma unat_ucast_u8_u32 [simp]: "unat (ucast (b :: u8) :: u32) = unat b"
  by (simp add: unsigned_ucast_eq take_bit_nat_eq_self_iff less_trans [OF nat_lt_256_u8])

lemma ucast_u8_u32_eq_iff [simp]: "(ucast (a :: u8) :: u32) = ucast b \<longleftrightarrow> a = b"
  by (metis unat_ucast_u8_u32 word_unat_eq_iff)

lemma ucast_u8_u32_eq_0_iff [simp]: "(ucast (a :: u8) :: u32) = 0 \<longleftrightarrow> a = 0"
  by (metis unat_ucast_u8_u32 unat_0 word_unat_eq_iff)

lemma replicate_Suc_add: "replicate (Suc (m + n)) x = replicate m x @ replicate (Suc n) x"
  using replicate_add [of m "Suc n" x] by simp

end
