(* ===== verification/Utf8_Util.thy ===== *)
theory Utf8_Util
  imports Prelude
begin

text \<open>
  The namespace \<open>UNF::Util\<close> of \<open>unf/util.hh\<close>: recognising the first byte of a UTF-8
  sequence and moving a pointer or a stream forward to one. The stream version is a template
  over the stream class; here the stream's \<open>peek\<close> and \<open>read\<close> are its arguments, and the
  locale \<open>byte_stream\<close> states what it needs of them.
\<close>

section \<open>Definitions\<close>

definition is_utf8_char_start_byte :: "u8 \<Rightarrow> bool" where
  "is_utf8_char_start_byte byte =
     (if byte AND 0x80 = 0 then True
      else if byte AND 0x40 \<noteq> 0 then True
      else False)"

partial_function (option) nearest_utf8_char_start_point :: "bytes \<Rightarrow> nat \<Rightarrow> nat option" where
  "nearest_utf8_char_start_point str s = do {
     b \<leftarrow> rd str s;
     if is_utf8_char_start_byte b = False
     then nearest_utf8_char_start_point str (s + 1)
     else Some s
   }"

partial_function (option) eat_until_utf8_char_start_point ::
    "('s \<Rightarrow> u8 option) \<Rightarrow> ('s \<Rightarrow> (u8 \<times> 's) option) \<Rightarrow> 's \<Rightarrow> 's option" where
  "eat_until_utf8_char_start_point peek read inp = do {
     b \<leftarrow> peek inp;
     if is_utf8_char_start_byte b = False
     then do {
       r \<leftarrow> read inp;
       eat_until_utf8_char_start_point peek read (snd r)
     }
     else Some inp
   }"

text \<open>A byte that is not a start byte is a continuation byte \<open>10xxxxxx\<close>.\<close>

abbreviation cont_byte :: "u8 \<Rightarrow> bool" where
  "cont_byte b \<equiv> \<not> is_utf8_char_start_byte b"

section \<open>Start bytes\<close>

lemma start_byte_0 [simp]: "is_utf8_char_start_byte 0"
  by (simp add: is_utf8_char_start_byte_def)

lemma start_byte_bits: "is_utf8_char_start_byte b \<longleftrightarrow> \<not> bit b 7 \<or> bit b 6"
  using and_exp_eq_0_iff_not_bit [of b 7] and_exp_eq_0_iff_not_bit [of b 6]
  by (simp add: is_utf8_char_start_byte_def)

lemma start_byte_unat: "is_utf8_char_start_byte b \<longleftrightarrow> unat b < 128 \<or> 192 \<le> unat b"
proof -
  have bits: "bit b n \<longleftrightarrow> odd (unat b div 2 ^ n)" for n
    by (simp add: bit_iff_odd [of "unat b", symmetric] bit_unsigned_iff)
  have b7: "odd (x div 128) \<longleftrightarrow> 128 \<le> x" if "x < 256" for x :: nat
    using that by (cases "x < 128") (simp_all add: div_nat_eqI [of 128 1 x])
  have b6: "odd (x div 64) \<longleftrightarrow> 64 \<le> x \<and> x < 128 \<or> 192 \<le> x" if "x < 256" for x :: nat
  proof -
    consider "x < 64" | "64 \<le> x" "x < 128" | "128 \<le> x" "x < 192" | "192 \<le> x" by linarith
    then show ?thesis
      using that by cases (simp_all add: div_nat_eqI [of 64 1 x] div_nat_eqI [of 64 2 x]
          div_nat_eqI [of 64 3 x])
  qed
  show ?thesis
    unfolding start_byte_bits bits
    using b7 [of "unat b"] b6 [of "unat b"] nat_lt_256_u8 [of b] by auto
qed

section \<open>Moving a pointer\<close>

text \<open>
  The pointer loop always stops inside the object, because the NUL after the text is a start
  byte, and it skips exactly the continuation bytes in front of it.
\<close>

lemma nearest_utf8_char_start_point_eq:
  "p \<le> length str \<Longrightarrow>
   nearest_utf8_char_start_point str p = Some (p + length (takeWhile cont_byte (drop p str)))"
proof (induction "length str - p" arbitrary: p)
  case 0
  then show ?case
    by (subst nearest_utf8_char_start_point.simps) (simp add: rd_def)
next
  case (Suc n)
  then have p: "p < length str" by simp
  have split: "drop p str = str ! p # drop (Suc p) str"
    using p by (simp add: Cons_nth_drop_Suc)
  have IH: "nearest_utf8_char_start_point str (Suc p) =
      Some (Suc p + length (takeWhile cont_byte (drop (Suc p) str)))"
    by (rule Suc.hyps(1)) (use Suc.hyps(2) p in auto)
  show ?case
    by (subst nearest_utf8_char_start_point.simps) (simp add: rd_def p split IH del: drop_Suc_Cons)
qed

lemma nearest_at_start:
  "p \<le> length str \<Longrightarrow> (p < length str \<Longrightarrow> is_utf8_char_start_byte (str ! p)) \<Longrightarrow>
   nearest_utf8_char_start_point str p = Some p"
  by (cases "p < length str")
    (simp_all add: nearest_utf8_char_start_point_eq takeWhile_eq_Nil_iff hd_drop_conv_nth)

section \<open>Moving a stream\<close>

text \<open>
  What the template needs of its stream class: \<open>rest s\<close> are the bytes the stream has left,
  \<open>read\<close> takes one of them, and at the end \<open>peek\<close> shows a start byte.
\<close>

locale byte_stream =
  fixes peek :: "'s \<Rightarrow> u8 option"
    and read :: "'s \<Rightarrow> (u8 \<times> 's) option"
    and rest :: "'s \<Rightarrow> bytes"
    and adv :: "nat \<Rightarrow> 's \<Rightarrow> 's"
    and valid :: "'s \<Rightarrow> bool"
  assumes peek_Cons: "valid s \<Longrightarrow> rest s = b # bs \<Longrightarrow> peek s = Some b"
    and read_Cons: "valid s \<Longrightarrow> rest s = b # bs \<Longrightarrow> read s = Some (b, adv (Suc 0) s)"
    and rest_adv: "valid s \<Longrightarrow> rest s = b # bs \<Longrightarrow> rest (adv (Suc 0) s) = bs"
    and valid_adv: "valid s \<Longrightarrow> rest s = b # bs \<Longrightarrow> valid (adv (Suc 0) s)"
    and peek_Nil: "valid s \<Longrightarrow> rest s = [] \<Longrightarrow> \<exists>b. peek s = Some b \<and> is_utf8_char_start_byte b"
    and adv_0: "adv 0 s = s"
    and adv_Suc: "adv n (adv (Suc 0) s) = adv (Suc n) s"
begin

lemma eat_until_eq:
  "valid s \<Longrightarrow> eat_until_utf8_char_start_point peek read s =
     Some (adv (length (takeWhile cont_byte (rest s))) s)"
proof (induction "rest s" arbitrary: s)
  case Nil
  then obtain b where "peek s = Some b" "is_utf8_char_start_byte b"
    using peek_Nil by metis
  with Nil show ?case
    by (subst eat_until_utf8_char_start_point.simps) (simp add: adv_0 flip: Nil(1))
next
  case (Cons b bs)
  note r = Cons.hyps(2) [symmetric]
  have IH: "eat_until_utf8_char_start_point peek read (adv (Suc 0) s) =
      Some (adv (length (takeWhile cont_byte bs)) (adv (Suc 0) s))"
    using Cons.hyps(1) [of "adv (Suc 0) s"] rest_adv [OF Cons.prems r] valid_adv [OF Cons.prems r]
    by simp
  show ?case
    by (subst eat_until_utf8_char_start_point.simps)
      (simp add: peek_Cons [OF Cons.prems r] read_Cons [OF Cons.prems r] IH r adv_0 adv_Suc)
qed

end

text \<open>A stream that can also look back at the byte it has just read.\<close>

locale byte_stream_prev = byte_stream +
  fixes prev :: "'s \<Rightarrow> u8 option"
  assumes prev_adv: "valid s \<Longrightarrow> rest s = b # bs \<Longrightarrow> prev (adv (Suc 0) s) = Some b"

section \<open>Properties\<close>

text \<open>
  From any offset of a C string, its NUL included, the pointer loop terminates without reading
  past the NUL, and stops at the first start byte (or the NUL) at or behind the offset.
\<close>

theorem nearest_start_point_first:
  assumes "p \<le> length str"
  shows "\<exists>q. nearest_utf8_char_start_point str p = Some q \<and> p \<le> q \<and> q \<le> length str \<and>
    (q < length str \<longrightarrow> is_utf8_char_start_byte (str ! q)) \<and>
    (\<forall>k. p \<le> k \<and> k < q \<longrightarrow> \<not> is_utf8_char_start_byte (str ! k))"
proof -
  define l where "l = length (takeWhile cont_byte (drop p str))"
  have "l \<le> length (drop p str)" unfolding l_def by (rule length_takeWhile_le)
  moreover have "is_utf8_char_start_byte (str ! (p + l))" if "p + l < length str"
    using nth_length_takeWhile [of cont_byte "drop p str"] that assms by (simp add: l_def)
  moreover have "\<not> is_utf8_char_start_byte (str ! k)" if "p \<le> k" "k < p + l" for k
    using set_takeWhileD [of "str ! k" cont_byte "drop p str"] that assms
      nth_mem [of "k - p" "takeWhile cont_byte (drop p str)"]
    by (simp add: l_def takeWhile_nth)
  ultimately show ?thesis
    using nearest_utf8_char_start_point_eq [OF assms] assms
    by (intro exI [of _ "p + l"]) (auto simp: l_def [symmetric])
qed

theorem nearest_start_point_first_witness:
  "\<exists>q. nearest_utf8_char_start_point [0xC3, 0x85, 0x41] 1 = Some q \<and> 1 \<le> q \<and> q \<le> 3"
  using nearest_start_point_first [of 1 "[0xC3, 0x85, 0x41]"] by auto

end
