(* ===== verification/Char_Stream.thy ===== *)
theory Char_Stream
  imports Utf8_Util
begin

text \<open>
  The stream classes of \<open>unf/trie/char_stream.hh\<close>, one record per class and one definition per
  member function. A stream over one string keeps that string and an offset. The compound streams
  run over two strings one after the other; their pointers (\<open>ptr\<close>) say which string they point
  into, so that mixing the two is visible:
  \<^item> a difference of pointers into different strings is not defined (\<open>None\<close>);
  \<^item> the test \<open>beg1 <= p && p <= cur1\<close> of \<open>setCur\<close> is false for a pointer into the other
    string, whichever of the two strings has the higher addresses.

  Offsets are natural numbers: the strings are assumed shorter than \<open>2 ^ 32\<close> bytes, so that the
  code's \<open>unsigned\<close> offsets do not wrap. The one place where the wrap-around is used on purpose,
  \<open>offset()-1\<close> at offset 0, is written out.
\<close>

section \<open>CharStream\<close>

record char_stream =
  cs_str :: bytes
  cs_cur :: nat

definition CharStream :: "bytes \<Rightarrow> nat \<Rightarrow> char_stream" where
  "CharStream str p = \<lparr>cs_str = str, cs_cur = p\<rparr>"

definition cs_peek :: "char_stream \<Rightarrow> u8 option" where
  "cs_peek s = rd (cs_str s) (cs_cur s)"

definition cs_eos :: "char_stream \<Rightarrow> bool option" where
  "cs_eos s = do { b \<leftarrow> rd (cs_str s) (cs_cur s); Some (b = 0) }"

definition cs_read :: "char_stream \<Rightarrow> (u8 \<times> char_stream) option" where
  "cs_read s = do {
     e \<leftarrow> cs_eos s;
     if e then Some (0, s)
     else do {
       b \<leftarrow> rd (cs_str s) (cs_cur s);
       Some (b, s\<lparr>cs_cur := cs_cur s + 1\<rparr>)
     }
   }"

definition cs_prev :: "char_stream \<Rightarrow> u8 option" where
  "cs_prev s = (if cs_cur s = 0 then None else rd (cs_str s) (cs_cur s - 1))"

definition cs_setCur :: "char_stream \<Rightarrow> nat \<Rightarrow> char_stream" where
  "cs_setCur s new_cur = s\<lparr>cs_cur := new_cur\<rparr>"

section \<open>RangeCharStream\<close>

record range_char_stream =
  rs_str :: bytes
  rs_cur :: nat
  rs_end :: nat

definition RangeCharStream :: "bytes \<Rightarrow> nat \<Rightarrow> nat \<Rightarrow> range_char_stream" where
  "RangeCharStream str b e = \<lparr>rs_str = str, rs_cur = b, rs_end = e\<rparr>"

definition rs_eos :: "range_char_stream \<Rightarrow> bool" where
  "rs_eos s \<longleftrightarrow> rs_cur s = rs_end s"

definition rs_peek :: "range_char_stream \<Rightarrow> u8 option" where
  "rs_peek s = rd (rs_str s) (rs_cur s)"

definition rs_read :: "range_char_stream \<Rightarrow> (u8 \<times> range_char_stream) option" where
  "rs_read s =
     (if rs_eos s then Some (0, s)
      else do {
        b \<leftarrow> rd (rs_str s) (rs_cur s);
        Some (b, s\<lparr>rs_cur := rs_cur s + 1\<rparr>)
      })"

definition rs_prev :: "range_char_stream \<Rightarrow> u8 option" where
  "rs_prev s = (if rs_cur s = 0 then None else rd (rs_str s) (rs_cur s - 1))"

section \<open>CompoundCharStream\<close>

datatype ptr = First nat | Second nat

record compound_char_stream =
  str1 :: bytes
  str2 :: bytes
  beg1 :: ptr
  beg2 :: ptr
  cur1 :: ptr
  cur2 :: ptr

fun deref :: "'a compound_char_stream_scheme \<Rightarrow> ptr \<Rightarrow> u8 option" where
  "deref s (First p) = rd (str1 s) p"
| "deref s (Second p) = rd (str2 s) p"

fun ptr_succ :: "ptr \<Rightarrow> ptr" where
  "ptr_succ (First p) = First (p + 1)"
| "ptr_succ (Second p) = Second (p + 1)"

fun ptr_pred :: "ptr \<Rightarrow> ptr option" where
  "ptr_pred (First p) = (if p = 0 then None else Some (First (p - 1)))"
| "ptr_pred (Second p) = (if p = 0 then None else Some (Second (p - 1)))"

fun ptr_diff :: "ptr \<Rightarrow> ptr \<Rightarrow> int option" where
  "ptr_diff (First p) (First q) = Some (int p - int q)"
| "ptr_diff (Second p) (Second q) = Some (int p - int q)"
| "ptr_diff _ _ = None"

fun ptr_between :: "ptr \<Rightarrow> ptr \<Rightarrow> ptr \<Rightarrow> bool" where
  "ptr_between (First a) (First p) (First b) \<longleftrightarrow> a \<le> p \<and> p \<le> b"
| "ptr_between (Second a) (Second p) (Second b) \<longleftrightarrow> a \<le> p \<and> p \<le> b"
| "ptr_between _ _ _ \<longleftrightarrow> False"

text \<open>The range \<open>[p, q)\<close> that \<open>std::string::append\<close> copies.\<close>

fun ptr_slice :: "'a compound_char_stream_scheme \<Rightarrow> ptr \<Rightarrow> ptr \<Rightarrow> bytes option" where
  "ptr_slice s (First p) (First q) = slice (str1 s) p q"
| "ptr_slice s (Second p) (Second q) = slice (str2 s) p q"
| "ptr_slice _ _ _ = None"

definition eos1 :: "'a compound_char_stream_scheme \<Rightarrow> bool option" where
  "eos1 s = do { b \<leftarrow> deref s (cur1 s); Some (b = 0) }"

definition eos2 :: "'a compound_char_stream_scheme \<Rightarrow> bool option" where
  "eos2 s = do { b \<leftarrow> deref s (cur2 s); Some (b = 0) }"

definition read1 ::
    "'a compound_char_stream_scheme \<Rightarrow> (u8 \<times> 'a compound_char_stream_scheme) option" where
  "read1 s = do {
     e \<leftarrow> eos1 s;
     if e then Some (0, s)
     else do { b \<leftarrow> deref s (cur1 s); Some (b, s\<lparr>cur1 := ptr_succ (cur1 s)\<rparr>) }
   }"

definition read2 ::
    "'a compound_char_stream_scheme \<Rightarrow> (u8 \<times> 'a compound_char_stream_scheme) option" where
  "read2 s = do {
     e \<leftarrow> eos2 s;
     if e then Some (0, s)
     else do { b \<leftarrow> deref s (cur2 s); Some (b, s\<lparr>cur2 := ptr_succ (cur2 s)\<rparr>) }
   }"

definition ccs_read ::
    "'a compound_char_stream_scheme \<Rightarrow> (u8 \<times> 'a compound_char_stream_scheme) option" where
  "ccs_read s = do { e \<leftarrow> eos1 s; if \<not> e then read1 s else read2 s }"

definition ccs_peek :: "'a compound_char_stream_scheme \<Rightarrow> u8 option" where
  "ccs_peek s = do { e \<leftarrow> eos1 s; if \<not> e then deref s (cur1 s) else deref s (cur2 s) }"

definition ccs_prev :: "'a compound_char_stream_scheme \<Rightarrow> u8 option" where
  "ccs_prev s = do {
     e \<leftarrow> eos1 s;
     p \<leftarrow> (if \<not> e \<or> beg2 s = cur2 s then ptr_pred (cur1 s) else ptr_pred (cur2 s));
     deref s p
   }"

definition ccs_cur :: "'a compound_char_stream_scheme \<Rightarrow> ptr option" where
  "ccs_cur s = do { e \<leftarrow> eos1 s; Some (if \<not> e then cur1 s else cur2 s) }"

definition ccs_eos :: "'a compound_char_stream_scheme \<Rightarrow> bool option" where
  "ccs_eos s = do { e \<leftarrow> eos1 s; if e then eos2 s else Some False }"

definition within_first :: "'a compound_char_stream_scheme \<Rightarrow> bool option" where
  "within_first s = do { e \<leftarrow> eos1 s; Some (\<not> e) }"

definition offset :: "'a compound_char_stream_scheme \<Rightarrow> int option" where
  "offset s = do {
     d1 \<leftarrow> ptr_diff (cur1 s) (beg1 s);
     d2 \<leftarrow> ptr_diff (cur2 s) (beg2 s);
     Some ((d1 + d2) mod 2 ^ 32)
   }"

definition ccs_setCur :: "'a compound_char_stream_scheme \<Rightarrow> ptr \<Rightarrow> 'a compound_char_stream_scheme" where
  "ccs_setCur s p =
     (if ptr_between (beg1 s) p (cur1 s)
      then s\<lparr>cur1 := p, cur2 := beg2 s\<rparr>
      else s\<lparr>cur2 := p\<rparr>)"

section \<open>CharStreamForComposition\<close>

text \<open>
  \<open>skipped_tail\<close> and \<open>marked_point\<close> are not initialised by the constructor: reading them
  before \<open>init_skipinfo\<close> and \<open>mark_as_last_valid_point\<close> have set them is undefined.
\<close>

record char_stream_for_composition = compound_char_stream +
  classes :: "u8 list"
  skipped :: bytes
  skipped_tail :: "nat option"
  marked_point :: "ptr option"

definition CharStreamForComposition ::
    "bytes \<Rightarrow> ptr \<Rightarrow> bytes \<Rightarrow> ptr \<Rightarrow> u8 list \<Rightarrow> bytes \<Rightarrow> char_stream_for_composition" where
  "CharStreamForComposition s1 first s2 second canonical_classes buf =
     \<lparr>str1 = s1, str2 = s2, beg1 = first, beg2 = second, cur1 = first, cur2 = second,
      classes = canonical_classes, skipped = buf, skipped_tail = None, marked_point = None\<rparr>"

definition init_skipinfo :: "char_stream_for_composition \<Rightarrow> char_stream_for_composition" where
  "init_skipinfo s = s\<lparr>skipped := [], skipped_tail := Some 0\<rparr>"

definition mark_as_last_valid_point ::
    "char_stream_for_composition \<Rightarrow> char_stream_for_composition option" where
  "mark_as_last_valid_point s = do {
     p \<leftarrow> ccs_cur s;
     Some (s\<lparr>skipped_tail := Some (length (skipped s)), marked_point := Some p\<rparr>)
   }"

definition reset_at_marked_point ::
    "char_stream_for_composition \<Rightarrow> char_stream_for_composition option" where
  "reset_at_marked_point s = do { p \<leftarrow> marked_point s; Some (ccs_setCur s p) }"

definition append_read_char_to_str ::
    "char_stream_for_composition \<Rightarrow> bytes \<Rightarrow> ptr \<Rightarrow> bytes option" where
  "append_read_char_to_str s str beg = do {
     e \<leftarrow> eos1 s;
     c \<leftarrow> ccs_cur s;
     if e = False then do { xs \<leftarrow> ptr_slice s beg c; Some (str @ xs) }
     else do {
       xs \<leftarrow> ptr_slice s beg (cur1 s);
       ys \<leftarrow> ptr_slice s (beg2 s) c;
       Some (str @ xs @ ys)
     }
   }"

definition append_skipped_chars_to_str ::
    "char_stream_for_composition \<Rightarrow> bytes \<Rightarrow> bytes option" where
  "append_skipped_chars_to_str s str = do {
     n \<leftarrow> skipped_tail s;
     if n \<le> length (skipped s) then Some (str @ take n (skipped s)) else None
   }"

definition get_canonical_class :: "char_stream_for_composition \<Rightarrow> u8 option" where
  "get_canonical_class s = do {
     k \<leftarrow> offset s;
     Some (if k < int (length (classes s)) then classes s ! nat k else 0)
   }"

definition get_prev_canonical_class :: "char_stream_for_composition \<Rightarrow> u8 option" where
  "get_prev_canonical_class s = do {
     k \<leftarrow> offset s;
     let k = (k - 1) mod 2 ^ 32;
     Some (if k < int (length (classes s)) then classes s ! nat k else 0)
   }"

partial_function (option) next_combining_char ::
    "char_stream_for_composition \<Rightarrow> u8 \<Rightarrow> ptr \<Rightarrow> (bool \<times> char_stream_for_composition) option" where
  "next_combining_char s prev_class ppp = do {
     s \<leftarrow> eat_until_utf8_char_start_point ccs_peek ccs_read s;
     mid_class \<leftarrow> get_prev_canonical_class s;
     cur_class \<leftarrow> get_canonical_class s;
     if prev_class = 0 \<and> mid_class = 0 \<and> cur_class \<noteq> 0 then Some (False, s)
     else if prev_class < cur_class \<and> mid_class < cur_class then do {
       c \<leftarrow> ccs_cur s;
       xs \<leftarrow> ptr_slice s ppp c;
       Some (True, s\<lparr>skipped := skipped s @ xs\<rparr>)
     }
     else if cur_class \<noteq> 0 then do {
       r \<leftarrow> ccs_read s;
       next_combining_char (snd r) prev_class ppp
     }
     else Some (False, s)
   }"

section \<open>The single-string streams are byte streams\<close>

definition cs_rest :: "char_stream \<Rightarrow> bytes" where
  "cs_rest s = drop (cs_cur s) (cs_str s)"

definition cs_adv :: "nat \<Rightarrow> char_stream \<Rightarrow> char_stream" where
  "cs_adv n s = s\<lparr>cs_cur := cs_cur s + n\<rparr>"

definition cs_valid :: "char_stream \<Rightarrow> bool" where
  "cs_valid s \<longleftrightarrow> cs_cur s \<le> length (cs_str s) \<and> 0 \<notin> set (cs_rest s)"

definition rs_rest :: "range_char_stream \<Rightarrow> bytes" where
  "rs_rest s = take (rs_end s - rs_cur s) (drop (rs_cur s) (rs_str s))"

definition rs_adv :: "nat \<Rightarrow> range_char_stream \<Rightarrow> range_char_stream" where
  "rs_adv n s = s\<lparr>rs_cur := rs_cur s + n\<rparr>"

definition rs_valid :: "range_char_stream \<Rightarrow> bool" where
  "rs_valid s \<longleftrightarrow> rs_cur s \<le> rs_end s \<and> rs_end s \<le> length (rs_str s) \<and>
     (rs_end s < length (rs_str s) \<longrightarrow> is_utf8_char_start_byte (rs_str s ! rs_end s))"

lemma drop_eq_ConsD: "drop n xs = y # ys \<Longrightarrow> n < length xs \<and> xs ! n = y \<and> drop (Suc n) xs = ys"
  by (metis Cons_nth_drop_Suc drop_eq_Nil linorder_not_less list.distinct(1) list.inject)

lemma take_drop_eq_ConsD:
  assumes "take (e - n) (drop n xs) = y # ys"
  shows "n < e \<and> n < length xs \<and> xs ! n = y \<and> take (e - Suc n) (drop (Suc n) xs) = ys"
proof -
  obtain k where k: "e - n = Suc k" using assms by (cases "e - n") auto
  obtain z zs where d: "drop n xs = z # zs" using assms by (cases "drop n xs") auto
  have "e - Suc n = k" using k by simp
  with assms k d drop_eq_ConsD [OF d] show ?thesis by auto
qed

interpretation cs: byte_stream_prev cs_peek cs_read cs_rest cs_adv cs_valid cs_prev
proof unfold_locales
  fix s b bs assume v: "cs_valid s" and r: "cs_rest s = b # bs"
  note d = drop_eq_ConsD [OF r [unfolded cs_rest_def]]
  have b: "b \<noteq> 0" using v r by (auto simp: cs_valid_def)
  have rd: "rd (cs_str s) (cs_cur s) = Some b" using d by (simp add: rd_def)
  show "cs_peek s = Some b" by (simp add: cs_peek_def rd)
  show "cs_read s = Some (b, cs_adv (Suc 0) s)"
    by (simp add: cs_read_def cs_eos_def rd b cs_adv_def)
  show rest: "cs_rest (cs_adv (Suc 0) s) = bs" using d by (simp add: cs_rest_def cs_adv_def)
  show "cs_valid (cs_adv (Suc 0) s)"
    using v d r rest by (simp add: cs_valid_def) (simp add: cs_adv_def)
  show "cs_prev (cs_adv (Suc 0) s) = Some b" by (simp add: cs_prev_def cs_adv_def rd)
qed (auto simp: cs_valid_def cs_rest_def cs_peek_def rd_def cs_adv_def)

interpretation rs: byte_stream_prev rs_peek rs_read rs_rest rs_adv rs_valid rs_prev
proof unfold_locales
  fix s b bs assume v: "rs_valid s" and r: "rs_rest s = b # bs"
  note d = take_drop_eq_ConsD [OF r [unfolded rs_rest_def]]
  have rd: "rd (rs_str s) (rs_cur s) = Some b" using d by (simp add: rd_def)
  show "rs_peek s = Some b" by (simp add: rs_peek_def rd)
  show "rs_read s = Some (b, rs_adv (Suc 0) s)"
    using d by (simp add: rs_read_def rs_eos_def rd rs_adv_def)
  show "rs_rest (rs_adv (Suc 0) s) = bs" using d by (simp add: rs_rest_def rs_adv_def)
  show "rs_valid (rs_adv (Suc 0) s)" using v d by (auto simp: rs_valid_def rs_adv_def)
  show "rs_prev (rs_adv (Suc 0) s) = Some b" by (simp add: rs_prev_def rs_adv_def rd)
next
  fix s assume v: "rs_valid s" and r: "rs_rest s = []"
  then have "rs_cur s = rs_end s" by (auto simp: rs_rest_def rs_valid_def)
  with v show "\<exists>b. rs_peek s = Some b \<and> is_utf8_char_start_byte b"
    by (cases "rs_end s < length (rs_str s)") (auto simp: rs_peek_def rs_valid_def rd_def)
qed (auto simp: rs_adv_def)

end
