(* ===== verification/Trie_Node.thy ===== *)
theory Trie_Node
  imports Prelude
begin

text \<open>
  \<open>UNF::Trie::Node\<close> of \<open>unf/trie/node.hh\<close>: one entry of a double-array trie, a 32-bit word
  with the label of the edge that leads to the node in its upper 8 bits and the base index of
  the node's children, or the value of a key, in its lower 24 bits.
\<close>

section \<open>Definitions\<close>

record node =
  data :: u32

definition base :: "node \<Rightarrow> u32" where
  "base n = data n AND 0xFFFFFF"

definition jump :: "node \<Rightarrow> u8 \<Rightarrow> u32" where
  "jump n ch = base n + ucast ch"

definition value_of :: "node \<Rightarrow> u32" where
  "value_of n = base n"

definition check_char :: "node \<Rightarrow> u32" where
  "check_char n = drop_bit 24 (data n)"

definition to_uint :: "node \<Rightarrow> u32" where
  "to_uint n = data n"

definition from_uint_array :: "u32 list \<Rightarrow> node list" where
  "from_uint_array node_uints = map (\<lambda>d. \<lparr>data = d\<rparr>) node_uints"

section \<open>Widths\<close>

lemma unat_base: "unat (base n) = unat (data n) mod 2 ^ 24"
proof -
  have "(0xFFFFFF :: u32) = mask 24" by (simp add: mask_eq_exp_minus_1)
  then have "base n = take_bit 24 (data n)" by (simp only: base_def take_bit_eq_mask)
  then show ?thesis by (simp add: unsigned_take_bit_eq take_bit_eq_mod [of 24 "unat (data n)"])
qed

lemma unat_base_less: "unat (base n) < 2 ^ 24"
  by (simp add: unat_base)

text \<open>An index computed by \<open>jump\<close> is never cut off at 32 bits.\<close>

lemma unat_jump: "unat (jump n ch) = unat (base n) + unat ch"
proof -
  have "unat (base n) + unat ch < 2 ^ 32"
    using add_strict_mono [OF unat_base_less [of n] nat_lt_256_u8 [of ch]] by simp
  then show ?thesis
    by (simp add: jump_def unat_word_ariths)
qed

lemma unat_jump_0: "unat (jump n 0) = unat (base n)"
  by (simp add: unat_jump)

lemma unat_check_char: "unat (check_char n) = unat (data n) div 2 ^ 24"
proof -
  have "take_bit 32 (unat (data n)) = unat (data n)"
    using unsigned_less [of "data n"] by (simp add: take_bit_nat_eq_self_iff)
  then show ?thesis
    using drop_bit_eq_div [of 24 "unat (data n)"]
    by (simp add: check_char_def unsigned_drop_bit_eq)
qed

lemma unat_check_char_less: "unat (check_char n) < 256"
proof -
  have "unat (data n) < 2 ^ 32" using unsigned_less [of "data n"] by simp
  then show ?thesis by (simp add: unat_check_char)
qed

text \<open>The two parts determine the node, and every pair of parts is a node.\<close>

lemma data_split: "unat (data n) = unat (check_char n) * 2 ^ 24 + unat (value_of n)"
  by (simp add: unat_check_char value_of_def unat_base)

lemma length_from_uint_array [simp]: "length (from_uint_array xs) = length xs"
  by (simp add: from_uint_array_def)

lemma nth_from_uint_array [simp]: "i < length xs \<Longrightarrow> from_uint_array xs ! i = \<lparr>data = xs ! i\<rparr>"
  by (simp add: from_uint_array_def)

lemma to_uint_from_uint_array: "map to_uint (from_uint_array xs) = xs"
  by (simp add: from_uint_array_def to_uint_def comp_def)

section \<open>Properties\<close>

text \<open>
  The label and the value of a node are its upper 8 and lower 24 bits and determine it, and an
  index computed from a node never wraps around at 32 bits.
\<close>

theorem node_fields:
  "unat (to_uint n) = unat (check_char n) * 2 ^ 24 + unat (value_of n) \<and>
   unat (check_char n) < 2 ^ 8 \<and> unat (value_of n) < 2 ^ 24 \<and>
   unat (jump n ch) = unat (value_of n) + unat ch"
  using data_split [of n] unat_check_char_less [of n] unat_base_less [of n] unat_jump [of n ch]
  by (simp add: to_uint_def value_of_def)

end
