(* ===== verification/Searcher.thy ===== *)
theory Searcher
  imports Char_Stream Trie_Node
begin

text \<open>
  \<open>UNF::Trie::Searcher\<close> of \<open>unf/trie/searcher.hh\<close>: looking a key up in a double-array trie.

  \<open>find_value\<close> and the search loop that \<open>CanonicalCombiningClass::sort\<close> and
  \<open>NormalizationForm::decompose\<close> have in common (\<open>trie_search\<close>) are related to one reference
  definition, the walk over a list of bytes (\<open>trie_walk\<close>). The locale \<open>trie_nodes\<close> states what
  an array of nodes has to satisfy for every search in it to stay inside the array, and
  \<open>char_trie\<close> what makes it a map from whole UTF-8 characters.
\<close>

section \<open>Definitions\<close>

record searcher =
  nodes :: "node list"
  root :: u32
  value_ptr :: "bytes option"

definition Searcher :: "node list \<Rightarrow> u32 \<Rightarrow> bytes option \<Rightarrow> searcher" where
  "Searcher ns r v = \<lparr>nodes = ns, root = r, value_ptr = v\<rparr>"

definition node_at :: "searcher \<Rightarrow> u32 \<Rightarrow> node option" where
  "node_at sr i = vec_at (nodes sr) (unat i)"

partial_function (option) find_value_loop ::
    "searcher \<Rightarrow> u32 \<Rightarrow> u32 \<Rightarrow> char_stream \<Rightarrow> u32 option" where
  "find_value_loop sr default_value node_index inp = do {
     n \<leftarrow> node_at sr node_index;
     c \<leftarrow> cs_peek inp;
     let node_index = jump n c;
     m \<leftarrow> node_at sr node_index;
     if check_char m = ucast c then do {
       let terminal_index = jump m 0;
       t \<leftarrow> node_at sr terminal_index;
       if check_char t = 0 then Some (value_of t)
       else do {
         r \<leftarrow> cs_read inp;
         find_value_loop sr default_value node_index (snd r)
       }
     }
     else Some default_value
   }"

definition find_value :: "searcher \<Rightarrow> bytes \<Rightarrow> nat \<Rightarrow> u32 \<Rightarrow> u32 option" where
  "find_value sr str key default_value =
     find_value_loop sr default_value (root sr) (CharStream str key)"

text \<open>
  The loop \<open>for(unsigned node_index=root;;)\<close> of \<open>sort\<close> and \<open>decompose\<close>: it reads a byte,
  follows the edge and compares the label with the byte read last. It is left with the terminal
  node of the key that was found, or without one at the first label that differs.
\<close>

partial_function (option) trie_search ::
    "('s \<Rightarrow> (u8 \<times> 's) option) \<Rightarrow> ('s \<Rightarrow> u8 option) \<Rightarrow> searcher \<Rightarrow> u32 \<Rightarrow> 's \<Rightarrow>
     (node option \<times> 's) option" where
  "trie_search read prev sr node_index inp = do {
     n \<leftarrow> node_at sr node_index;
     r \<leftarrow> read inp;
     let node_index = jump n (fst r);
     let inp = snd r;
     m \<leftarrow> node_at sr node_index;
     p \<leftarrow> prev inp;
     if check_char m = ucast p then do {
       let terminal_index = jump m 0;
       t \<leftarrow> node_at sr terminal_index;
       if check_char t = 0 then Some (Some t, inp)
       else trie_search read prev sr node_index inp
     }
     else Some (None, inp)
   }"

section \<open>The reference walk\<close>

text \<open>
  \<open>Hit t n\<close>: a key ends after \<open>n\<close> bytes, with terminal node \<open>t\<close>; \<open>Miss n\<close>: the \<open>n\<close>-th
  byte has no edge; \<open>Mid i\<close>: the bytes end at node \<open>i\<close>, inside the trie.
\<close>

datatype walk = Hit node nat | Miss nat | Mid u32

fun trie_walk :: "node list \<Rightarrow> u32 \<Rightarrow> bytes \<Rightarrow> nat \<Rightarrow> walk" where
  "trie_walk ns i [] k = Mid i"
| "trie_walk ns i (c # cs) k =
     (let j = jump (ns ! unat i) c; m = ns ! unat j; t = ns ! unat (jump m 0)
      in if check_char m = ucast c
         then if check_char t = 0 then Hit t (Suc k) else trie_walk ns j cs (Suc k)
         else Miss (Suc k))"

definition walk_value :: "u32 \<Rightarrow> walk \<Rightarrow> u32" where
  "walk_value d w = (case w of Hit t _ \<Rightarrow> value_of t | _ \<Rightarrow> d)"

lemma walk_value_simps [simp]:
  "walk_value d (Hit t n) = value_of t"
  "walk_value d (Miss n) = d"
  "walk_value d (Mid i) = d"
  by (simp_all add: walk_value_def)

text \<open>Bytes behind the point where the walk has been decided do not matter.\<close>

lemma trie_walk_append:
  "(\<And>j. trie_walk ns i cs k \<noteq> Mid j) \<Longrightarrow> trie_walk ns i (cs @ ds) k = trie_walk ns i cs k"
  by (induction ns i cs k rule: trie_walk.induct) (auto simp: Let_def split: if_splits)

text \<open>A walk that is still inside the trie goes on from its node.\<close>

lemma trie_walk_Mid:
  "trie_walk ns i cs k = Mid j \<Longrightarrow> trie_walk ns i (cs @ ds) k = trie_walk ns j ds (k + length cs)"
  by (induction ns i cs k rule: trie_walk.induct) (auto simp: Let_def split: if_splits)

lemma trie_walk_shift:
  "trie_walk ns i cs (k + m) =
     (case trie_walk ns i cs k of Hit t n \<Rightarrow> Hit t (n + m) | Miss n \<Rightarrow> Miss (n + m) | Mid j \<Rightarrow> Mid j)"
  by (induction ns i cs k rule: trie_walk.induct) (auto simp: Let_def)

lemma trie_walk_Hit_le: "trie_walk ns i cs k = Hit t n \<Longrightarrow> k < n \<and> n \<le> k + length cs"
  by (induction ns i cs k rule: trie_walk.induct) (fastforce simp: Let_def split: if_splits)+

lemma trie_walk_Miss_le: "trie_walk ns i cs k = Miss n \<Longrightarrow> k < n \<and> n \<le> k + length cs"
  by (induction ns i cs k rule: trie_walk.induct) (fastforce simp: Let_def split: if_splits)+

section \<open>Node arrays in which every search is safe\<close>

text \<open>
  The contract of a node array: from every node that carries a label the whole range of 256
  possible children lies inside the array, and the root neither is nor has a terminal node.
\<close>

definition inner_node :: "node list \<Rightarrow> u32 \<Rightarrow> bool" where
  "inner_node ns i \<longleftrightarrow> unat i < length ns \<and> unat (base (ns ! unat i)) + 255 < length ns"

locale trie_nodes =
  fixes ns :: "node list" and r :: u32
  assumes bounds: "n \<in> set ns \<Longrightarrow> check_char n \<noteq> 0 \<Longrightarrow> unat (base n) + 255 < length ns"
    and root_less: "unat r < length ns"
    and root_label: "check_char (ns ! unat r) \<noteq> 0"
    and root_no_terminal: "check_char (ns ! unat (jump (ns ! unat r) 0)) \<noteq> 0"
begin

lemma inner_root: "inner_node ns r"
  using bounds [of "ns ! unat r"] root_less root_label by (simp add: inner_node_def)

lemma jump_less:
  assumes "inner_node ns i"
  shows "unat (jump (ns ! unat i) c) < length ns"
  using assms nat_lt_256_u8 [of c] unfolding inner_node_def unat_jump by linarith

lemma inner_jump:
  assumes "inner_node ns i" and "check_char (ns ! unat (jump (ns ! unat i) c)) \<noteq> 0"
  shows "inner_node ns (jump (ns ! unat i) c)"
  using jump_less [OF assms(1)] bounds assms(2) by (simp add: inner_node_def)

lemma node_at_inner: "nodes sr = ns \<Longrightarrow> inner_node ns i \<Longrightarrow> node_at sr i = Some (ns ! unat i)"
  by (simp add: node_at_def inner_node_def vec_at_Some)

lemma node_at_jump:
  "nodes sr = ns \<Longrightarrow> inner_node ns i \<Longrightarrow>
   node_at sr (jump (ns ! unat i) c) = Some (ns ! unat (jump (ns ! unat i) c))"
  by (simp add: node_at_def vec_at_Some jump_less)

lemma find_value_loop_eq:
  assumes sr: "nodes sr = ns"
  shows "inner_node ns i \<Longrightarrow> cs_valid s \<Longrightarrow>
     check_char (ns ! unat (jump (ns ! unat i) 0)) \<noteq> 0 \<Longrightarrow>
     find_value_loop sr d i s = Some (walk_value d (trie_walk ns i (cs_rest s) k))"
proof (induction "cs_rest s" arbitrary: i s k)
  case Nil
  have "cs_cur s = length (cs_str s)"
    using Nil.hyps Nil.prems(2) by (simp add: cs_rest_def cs_valid_def)
  then have "cs_peek s = Some 0" by (simp add: cs_peek_def rd_def)
  with Nil show ?case
    by (subst find_value_loop.simps)
      (simp add: node_at_inner [OF sr] node_at_jump [OF sr] flip: Nil.hyps)
next
  case (Cons c cs)
  let ?j = "jump (ns ! unat i) c"
  note r = Cons.hyps(2) [symmetric]
  have c: "c \<noteq> 0" using Cons.prems(2) r by (auto simp: cs_valid_def)
  note cs = cs.peek_Cons [OF Cons.prems(2) r] cs.read_Cons [OF Cons.prems(2) r]
  show ?case
  proof (cases "check_char (ns ! unat ?j) = ucast c")
    case True
    then have j: "inner_node ns ?j" using inner_jump [OF Cons.prems(1)] c by simp
    have IH: "find_value_loop sr d ?j (cs_adv (Suc 0) s) =
        Some (walk_value d (trie_walk ns ?j cs (Suc k)))"
      if "check_char (ns ! unat (jump (ns ! unat ?j) 0)) \<noteq> 0"
      using Cons.hyps(1) [of "cs_adv (Suc 0) s" ?j "Suc k"] j that
        cs.rest_adv [OF Cons.prems(2) r] cs.valid_adv [OF Cons.prems(2) r] by simp
    show ?thesis
      by (subst find_value_loop.simps)
        (simp add: node_at_inner [OF sr] node_at_jump [OF sr] cs Cons.prems(1) j True IH r Let_def)
  next
    case False
    then show ?thesis
      by (subst find_value_loop.simps)
        (simp add: node_at_inner [OF sr] node_at_jump [OF sr] cs Cons.prems(1) r Let_def)
  qed
qed

text \<open>The lookup of a NUL-free key is the walk from the root: safe, and it returns.\<close>

lemma find_value_eq:
  assumes "nodes sr = ns" and "root sr = r" and "p \<le> length str" and "0 \<notin> set (drop p str)"
  shows "find_value sr str p d = Some (walk_value d (trie_walk ns r (drop p str) 0))"
proof -
  have "cs_valid (CharStream str p)" and rest: "cs_rest (CharStream str p) = drop p str"
    using assms(3,4) by (simp_all add: cs_valid_def cs_rest_def CharStream_def)
  then show ?thesis
    using find_value_loop_eq [OF assms(1) inner_root _ root_no_terminal, of _ d 0]
    by (simp add: find_value_def assms(2))
qed

end

section \<open>Searching from a stream\<close>

locale trie_stream = trie_nodes + byte_stream_prev
begin

lemma trie_search_eq:
  assumes sr: "nodes sr = ns"
  shows "inner_node ns i \<Longrightarrow> valid s \<Longrightarrow> 0 \<notin> set (rest s) \<Longrightarrow>
     (case trie_walk ns i (rest s) k of
        Hit t n \<Rightarrow> trie_search read prev sr i s = Some (Some t, adv (n - k) s)
      | Miss n \<Rightarrow> trie_search read prev sr i s = Some (None, adv (n - k) s)
      | Mid _ \<Rightarrow> True)"
proof (induction "rest s" arbitrary: i s k)
  case Nil
  then show ?case by simp
next
  case (Cons c cs)
  let ?j = "jump (ns ! unat i) c" and ?s = "adv (Suc 0) s"
  note r = Cons.hyps(2) [symmetric]
  have c: "c \<noteq> 0" using Cons.prems(3) r by auto
  note st = read_Cons [OF Cons.prems(2) r] prev_adv [OF Cons.prems(2) r]
  show ?case
  proof (cases "check_char (ns ! unat ?j) = ucast c")
    case False
    then show ?thesis
      by (subst trie_search.simps)
        (simp add: node_at_inner [OF sr] node_at_jump [OF sr] st Cons.prems(1) r Let_def)
  next
    case True
    then have j: "inner_node ns ?j" using inner_jump [OF Cons.prems(1)] c by simp
    have unf: "trie_search read prev sr i s =
        (if check_char (ns ! unat (jump (ns ! unat ?j) 0)) = 0
         then Some (Some (ns ! unat (jump (ns ! unat ?j) 0)), ?s)
         else trie_search read prev sr ?j ?s)"
      by (subst trie_search.simps)
        (simp add: node_at_inner [OF sr] node_at_jump [OF sr] st Cons.prems(1) j True Let_def)
    have more: "adv (n - Suc k) ?s = adv (n - k) s" if "Suc k < n" for n
      using adv_Suc [of "n - Suc k" s] that by (simp add: Suc_diff_Suc)
    have IH: "case trie_walk ns ?j cs (Suc k) of
        Hit t n \<Rightarrow> trie_search read prev sr ?j ?s = Some (Some t, adv (n - Suc k) ?s)
      | Miss n \<Rightarrow> trie_search read prev sr ?j ?s = Some (None, adv (n - Suc k) ?s)
      | Mid _ \<Rightarrow> True"
      using Cons.hyps(1) [of ?s ?j "Suc k"] j Cons.prems(3) r
        rest_adv [OF Cons.prems(2) r] valid_adv [OF Cons.prems(2) r] by simp
    then show ?thesis
      using True
      by (auto simp: unf r Let_def more dest: trie_walk_Hit_le trie_walk_Miss_le split: walk.splits)
  qed
qed

end

sublocale trie_nodes \<subseteq> cs_search: trie_stream ns r cs_peek cs_read cs_rest cs_adv cs_valid cs_prev
  by unfold_locales

sublocale trie_nodes \<subseteq> rs_search: trie_stream ns r rs_peek rs_read rs_rest rs_adv rs_valid rs_prev
  by unfold_locales

end
