(* ===== verification/Utf8_Text.thy ===== *)
theory Utf8_Text
  imports Searcher
begin

text \<open>
  The texts the normalizer is meant for. A character is a lead byte followed by the number of
  continuation bytes the lead byte announces; a text is a sequence of characters, none of them
  NUL. \<open>utf8_split\<close> cuts a byte string into its characters and fails where it is not a text.
  The interface \<open>char_trie\<close> describes the tries whose keys are single characters.
\<close>

section \<open>Characters\<close>

definition utf8_len :: "u8 \<Rightarrow> nat" where
  "utf8_len b =
     (if b = 0 then 0
      else if unat b < 0x80 then 1
      else if unat b < 0xC0 then 0
      else if unat b < 0xE0 then 2
      else if unat b < 0xF0 then 3
      else if unat b < 0xF8 then 4
      else 0)"

definition utf8_char :: "bytes \<Rightarrow> bool" where
  "utf8_char c \<longleftrightarrow> (case c of [] \<Rightarrow> False
     | b # bs \<Rightarrow> utf8_len b = Suc (length bs) \<and> list_all cont_byte bs)"

function utf8_split :: "bytes \<Rightarrow> bytes list option" where
  "utf8_split [] = Some []"
| "utf8_split (b # bs) =
     (let c = b # take (utf8_len b - 1) bs
      in if utf8_char c
         then do { cs \<leftarrow> utf8_split (drop (utf8_len b - 1) bs); Some (c # cs) }
         else None)"
  by pat_completeness auto
termination
  by (relation "measure length") auto

lemma utf8_len_start: "utf8_len b \<noteq> 0 \<Longrightarrow> is_utf8_char_start_byte b \<and> b \<noteq> 0"
  by (auto simp: utf8_len_def start_byte_unat split: if_splits)

lemma cont_byte_not_0: "cont_byte b \<Longrightarrow> b \<noteq> 0"
  by auto

lemma utf8_charE:
  assumes "utf8_char c"
  obtains b bs where "c = b # bs" "is_utf8_char_start_byte b" "b \<noteq> 0"
    "utf8_len b = Suc (length bs)" "list_all cont_byte bs"
  using assms utf8_len_start by (auto simp: utf8_char_def split: list.splits)

lemma utf8_char_not_Nil [simp]: "\<not> utf8_char []"
  by (simp add: utf8_char_def)

lemma utf8_char_no_nul: "utf8_char c \<Longrightarrow> 0 \<notin> set c"
  using start_byte_0 by (fastforce elim!: utf8_charE simp: list_all_iff)

lemma text_no_nul: "list_all utf8_char cs \<Longrightarrow> 0 \<notin> set (concat cs)"
  by (auto simp: list_all_iff dest: utf8_char_no_nul)

text \<open>Splitting a text and joining its characters are inverse to each other.\<close>

lemma utf8_split_Cons:
  assumes "utf8_char c"
  shows "utf8_split (c @ bs) = do { cs \<leftarrow> utf8_split bs; Some (c # cs) }"
proof -
  obtain b ds where "c = b # ds" "utf8_len b = Suc (length ds)"
    using assms by (auto elim: utf8_charE)
  with assms show ?thesis by (simp add: Let_def)
qed

lemma utf8_split_concat: "list_all utf8_char cs \<Longrightarrow> utf8_split (concat cs) = Some cs"
  by (induction cs) (auto simp: utf8_split_Cons)

lemma utf8_split_SomeD: "utf8_split bs = Some cs \<Longrightarrow> bs = concat cs \<and> list_all utf8_char cs"
proof (induction bs arbitrary: cs rule: utf8_split.induct)
  case 1
  then show ?case by simp
next
  case (2 b bs)
  let ?c = "b # take (utf8_len b - 1) bs" and ?rest = "drop (utf8_len b - 1) bs"
  from "2.prems" obtain ds where c: "utf8_char ?c" and ds: "utf8_split ?rest = Some ds"
    and cs: "cs = ?c # ds"
    by (auto simp: Let_def Option.bind_eq_Some_conv split: if_splits)
  from "2.IH" [OF refl c ds] show ?case
    using c cs by (metis append_Cons append_take_drop_id concat.simps(2) list.pred_inject(2))
qed

section \<open>Texts seen through pointers\<close>

lemma start_of_text:
  "list_all utf8_char cs \<Longrightarrow> concat cs \<noteq> [] \<Longrightarrow> is_utf8_char_start_byte (concat cs ! 0)"
  by (cases cs) (auto elim!: utf8_charE)

lemma takeWhile_cont_text: "list_all utf8_char cs \<Longrightarrow> takeWhile cont_byte (concat cs) = []"
  by (cases cs) (auto elim!: utf8_charE)

lemma takeWhile_cont_char:
  assumes "list_all cont_byte bs" "list_all utf8_char cs"
  shows "takeWhile cont_byte (bs @ concat cs) = bs"
  using assms by (simp add: takeWhile_append list_all_iff takeWhile_cont_text)

text \<open>From a point at a character the pointer loop stays; from the byte behind it moves to the
  next character.\<close>

lemma nearest_at_text:
  "list_all utf8_char cs \<Longrightarrow>
   nearest_utf8_char_start_point (pre @ concat cs) (length pre) = Some (length pre)"
  by (simp add: nearest_utf8_char_start_point_eq takeWhile_cont_text)

lemma nearest_after_char:
  assumes "utf8_char c" "list_all utf8_char cs"
  shows "nearest_utf8_char_start_point (pre @ c @ concat cs) (Suc (length pre)) =
    Some (length pre + length c)"
  using assms by (auto elim!: utf8_charE simp: nearest_utf8_char_start_point_eq takeWhile_cont_char)

section \<open>Tries over characters\<close>

definition char_value :: "node list \<Rightarrow> u32 \<Rightarrow> bytes \<Rightarrow> u32 option" where
  "char_value ns r c = (case trie_walk ns r c 0 of Hit t _ \<Rightarrow> Some (value_of t) | _ \<Rightarrow> None)"

text \<open>
  On a whole character the walk is decided by its last byte at the latest, and if it finds a
  key, the key is the whole character.
\<close>

locale char_trie = trie_nodes +
  assumes char_walk: "utf8_char c \<Longrightarrow>
    (\<exists>t. trie_walk ns r c 0 = Hit t (length c)) \<or> (\<exists>n. trie_walk ns r c 0 = Miss n)"
begin

lemma char_walk_append:
  assumes "utf8_char c"
  shows "trie_walk ns r (c @ ds) 0 = trie_walk ns r c 0"
  using char_walk [OF assms] by (intro trie_walk_append) auto

lemma find_value_char:
  assumes "nodes sr = ns" "root sr = r" "utf8_char c" "0 \<notin> set ds"
  shows "find_value sr (pre @ c @ ds) (length pre) d =
    Some (case char_value ns r c of None \<Rightarrow> d | Some v \<Rightarrow> v)"
  using char_walk [OF assms(3)] assms utf8_char_no_nul [OF assms(3)]
  by (auto simp: find_value_eq char_walk_append char_value_def)

lemma find_value_end:
  assumes "nodes sr = ns" "root sr = r"
  shows "find_value sr pre (length pre) d = Some d"
  using assms by (simp add: find_value_eq)

end

end
