(* ===== verification/Bubble_Sort.thy ===== *)
theory Bubble_Sort
  imports Prelude
begin

text \<open>
  \<open>CanonicalCombiningClass::bubble_sort\<close> of \<open>unf/trie/searcher.hh\<close>. The loop sorts a range of
  the text byte by byte, by the combining class of the character each byte belongs to, and keeps
  the vector of classes in step. The result is shown to be the stable sort of the range, so the
  bytes of a character stay together and in order.
\<close>

section \<open>Definitions\<close>

text \<open>
  One run of the inner loop, from index \<open>i\<close> up to \<open>limit\<close>. Indices are relative to the pointer
  \<open>str\<close> into the buffer; accesses outside the vector or the buffer are undefined.
\<close>

function bubble_pass ::
    "nat \<Rightarrow> nat \<Rightarrow> nat \<Rightarrow> bytes \<Rightarrow> u8 list \<Rightarrow> nat \<Rightarrow> (bytes \<times> u8 list \<times> nat) option" where
  "bubble_pass str limit i buf canonical_classes next =
     (if i < limit then do {
        a \<leftarrow> vec_at canonical_classes (i - 1);
        b \<leftarrow> vec_at canonical_classes i;
        if a > b then do {
          x \<leftarrow> vec_at buf (str + (i - 1));
          y \<leftarrow> vec_at buf (str + i);
          bubble_pass str limit (i + 1) (buf[str + (i - 1) := y, str + i := x])
            (canonical_classes[i - 1 := b, i := a]) i
        }
        else bubble_pass str limit (i + 1) buf canonical_classes next
      }
      else Some (buf, canonical_classes, next))"
  by pat_completeness auto
termination
  by (relation "measure (\<lambda>(str, limit, i, buf, cc, next). limit - i)") auto

declare bubble_pass.simps [simp del]

partial_function (option) bubble_sort_loop ::
    "nat \<Rightarrow> nat \<Rightarrow> nat \<Rightarrow> nat \<Rightarrow> bytes \<Rightarrow> u8 list \<Rightarrow> (bytes \<times> u8 list) option" where
  "bubble_sort_loop str beg limit next buf canonical_classes =
     (if limit \<noteq> next then do {
        let limit = next;
        r \<leftarrow> bubble_pass str limit (beg + 1) buf canonical_classes next;
        bubble_sort_loop str beg limit (snd (snd r)) (fst r) (fst (snd r))
      }
      else Some (buf, canonical_classes))"

definition bubble_sort ::
    "nat \<Rightarrow> nat \<Rightarrow> nat \<Rightarrow> bytes \<Rightarrow> u8 list \<Rightarrow> (bytes \<times> u8 list) option" where
  "bubble_sort str beg end' buf canonical_classes =
     bubble_sort_loop str beg beg end' buf canonical_classes"

section \<open>Stable sorting by adjacent swaps\<close>

text \<open>
  Swapping two neighbours that are out of order does not change the stable sort of a list.
\<close>

lemma insort_key_swap:
  "f x \<noteq> f y \<Longrightarrow> insort_key f x (insort_key f y zs) = insort_key f y (insort_key f x zs)"
  by (induction zs) auto

lemma sort_key_swap:
  fixes f :: "'a \<Rightarrow> 'b::linorder"
  assumes "f x \<noteq> f y"
  shows "sort_key f (as @ x # y # bs) = sort_key f (as @ y # x # bs)"
  using assms by (induction as) (auto simp: insort_key_swap sort_key_def)

lemma swap_split:
  assumes "Suc j < length zs"
  shows "zs = take j zs @ zs ! j # zs ! Suc j # drop (Suc (Suc j)) zs"
    and "zs[j := zs ! Suc j, Suc j := zs ! j] =
      take j zs @ zs ! Suc j # zs ! j # drop (Suc (Suc j)) zs"
proof -
  show zs: "zs = take j zs @ zs ! j # zs ! Suc j # drop (Suc (Suc j)) zs"
    using assms by (metis Cons_nth_drop_Suc Suc_lessD append_take_drop_id)
  show "zs[j := zs ! Suc j, Suc j := zs ! j] =
      take j zs @ zs ! Suc j # zs ! j # drop (Suc (Suc j)) zs"
    using assms by (subst (1) zs) (simp add: list_update_append)
qed

text \<open>
  The invariant of both loops: from index \<open>n\<close> up to \<open>m\<close>, every element is at least as large
  as all the elements in front of it.
\<close>

definition settled :: "('k::linorder \<times> 'v) list \<Rightarrow> nat \<Rightarrow> nat \<Rightarrow> bool" where
  "settled zs n m \<longleftrightarrow> (\<forall>a b. a \<le> b \<longrightarrow> n \<le> b \<longrightarrow> b < m \<longrightarrow> fst (zs ! a) \<le> fst (zs ! b))"

lemma settled_extend:
  assumes "settled zs n (Suc j)" "n \<le> j" "fst (zs ! j) \<le> fst (zs ! Suc j)"
  shows "settled zs n (Suc (Suc j))"
  unfolding settled_def
proof (intro allI impI)
  fix a b assume ab: "a \<le> b" "n \<le> b" "b < Suc (Suc j)"
  show "fst (zs ! a) \<le> fst (zs ! b)"
  proof (cases "b = Suc j \<and> a \<le> j")
    case True
    then have "fst (zs ! a) \<le> fst (zs ! j)"
      using assms(1,2) by (auto simp: settled_def)
    with assms(3) True show ?thesis by (meson order_trans)
  next
    case False
    then have "a = b \<or> b < Suc j" using ab by auto
    with ab assms(1) show ?thesis by (auto simp: settled_def)
  qed
qed

lemma settled_swap:
  assumes "settled zs n (Suc j)" "n \<le> j" "Suc j < length zs" "fst (zs ! Suc j) < fst (zs ! j)"
  shows "settled (zs[j := zs ! Suc j, Suc j := zs ! j]) (Suc j) (Suc (Suc j))"
  unfolding settled_def
proof (intro allI impI)
  fix a b assume ab: "a \<le> b" "Suc j \<le> b" "b < Suc (Suc j)"
  then have b: "b = Suc j" by simp
  have "fst (zs ! a) \<le> fst (zs ! j)" if "a < j"
    using that assms(1,2) by (auto simp: settled_def)
  with ab b assms(3,4) show "fst (zs[j := zs ! Suc j, Suc j := zs ! j] ! a)
      \<le> fst (zs[j := zs ! Suc j, Suc j := zs ! j] ! b)"
    by (cases "a = Suc j"; cases "a = j") auto
qed

lemma settled_sorted: "settled zs 0 (length zs) \<Longrightarrow> sort_key fst zs = zs"
  by (rule sort_key_id_if_sorted) (auto simp: settled_def sorted_iff_nth_mono)

lemma settled_beyond:
  assumes "settled zs m (length zs)" "settled zs' n m" "n \<le> m" "m \<le> length zs"
    and "length zs' = length zs" "drop m zs' = drop m zs" "set (take m zs') = set (take m zs)"
  shows "settled zs' n (length zs')"
  unfolding settled_def
proof (intro allI impI)
  fix a b assume ab: "a \<le> b" "n \<le> b" "b < length zs'"
  have same: "zs' ! k = zs ! k" if "m \<le> k" "k < length zs" for k
    using arg_cong [OF assms(6), of "\<lambda>xs. xs ! (k - m)"] that assms(5) by simp
  show "fst (zs' ! a) \<le> fst (zs' ! b)"
  proof (cases "b < m")
    case True
    with ab assms(2) show ?thesis by (auto simp: settled_def)
  next
    case False
    have "\<exists>k < m. zs' ! a = zs ! k" if "a < m"
    proof -
      have "take m zs' ! a \<in> set (take m zs')" using that assms(4,5) by (intro nth_mem) simp
      then have "zs' ! a \<in> set (take m zs)" using that assms(7) by simp
      then show ?thesis using assms(4) by (auto simp: in_set_conv_nth)
    qed
    then obtain k where "k \<le> b" "zs' ! a = zs ! k"
      using same [of a] False ab assms(5) by (metis le_trans less_imp_le not_less)
    moreover have "zs' ! b = zs ! b" using same [of b] False ab assms(5) by simp
    ultimately show ?thesis using assms(1,5) False ab by (auto simp: settled_def)
  qed
qed

section \<open>The loops\<close>

lemma bubble_pass_correct:
  fixes zs :: "(u8 \<times> u8) list"
  assumes len: "length pb = str + beg" "length pc = beg"
  shows "Suc j \<le> limit \<Longrightarrow> limit \<le> length zs \<Longrightarrow> n \<le> j \<Longrightarrow> settled zs n (Suc j) \<Longrightarrow>
    \<exists>zs' next'. bubble_pass str (beg + limit) (Suc (beg + j)) (pb @ map snd zs @ qb)
        (pc @ map fst zs @ qc) (beg + next) =
        Some (pb @ map snd zs' @ qb, pc @ map fst zs' @ qc, beg + next') \<and>
      length zs' = length zs \<and> sort_key fst zs' = sort_key fst zs \<and>
      drop limit zs' = drop limit zs \<and> set (take limit zs') = set (take limit zs) \<and>
      (settled zs' n limit \<and> next' = next \<or> settled zs' next' limit \<and> 0 < next' \<and> next' < limit)"
proof (induction "limit - Suc j" arbitrary: j zs n "next")
  case 0
  then show ?case by (subst bubble_pass.simps) fastforce
next
  case (Suc d)
  from Suc.hyps(2) Suc.prems have il: "Suc j < limit" "Suc j < length zs"
    and d: "d = limit - Suc (Suc j)" by auto
  let ?zs = "zs[j := zs ! Suc j, Suc j := zs ! j]"
  have at: "vec_at (pc @ map fst zs @ qc) (beg + j) = Some (fst (zs ! j))"
    "vec_at (pc @ map fst zs @ qc) (Suc (beg + j)) = Some (fst (zs ! Suc j))"
    "vec_at (pb @ map snd zs @ qb) (str + (beg + j)) = Some (snd (zs ! j))"
    "vec_at (pb @ map snd zs @ qb) (Suc (str + (beg + j))) = Some (snd (zs ! Suc j))"
    using il len by (auto simp: vec_at_def nth_append)
  show ?case
  proof (cases "fst (zs ! Suc j) < fst (zs ! j)")
    case False
    have "settled zs n (Suc (Suc j))" using settled_extend [OF Suc.prems(4,3)] False by simp
    from Suc.hyps(1) [OF d _ Suc.prems(2) _ this, of "next"] il Suc.prems(3) show ?thesis
      by (subst bubble_pass.simps) (simp add: at il False)
  next
    case True
    have upd: "(pb @ map snd zs @ qb)[str + (beg + j) := snd (zs ! Suc j),
          Suc (str + (beg + j)) := snd (zs ! j)] = pb @ map snd ?zs @ qb"
      "(pc @ map fst zs @ qc)[beg + j := fst (zs ! Suc j), Suc (beg + j) := fst (zs ! j)] =
        pc @ map fst ?zs @ qc"
      using il len by (auto simp: list_update_append map_update)
    have "sort_key fst ?zs = sort_key fst zs"
      using sort_key_swap [of fst "zs ! j" "zs ! Suc j"] True swap_split [OF il(2)]
      by (metis order_less_irrefl)
    then have keep: "length ?zs = length zs" "sort_key fst ?zs = sort_key fst zs"
      "drop limit ?zs = drop limit zs" "set (take limit ?zs) = set (take limit zs)"
      using il set_swap [of j "take limit zs" "Suc j"] by (simp_all add: take_update_swap)
    have unf: "bubble_pass str (beg + limit) (Suc (beg + j)) (pb @ map snd zs @ qb)
          (pc @ map fst zs @ qc) (beg + next) =
        bubble_pass str (beg + limit) (Suc (beg + Suc j)) (pb @ map snd ?zs @ qb)
          (pc @ map fst ?zs @ qc) (beg + Suc j)"
      using il by (subst bubble_pass.simps) (simp add: at True upd)
    have "settled ?zs (Suc j) (Suc (Suc j))" using settled_swap [OF Suc.prems(4,3) il(2) True] .
    then show ?thesis
      using Suc.hyps(1) [OF d _ _ order_refl, of ?zs "Suc j"] Suc.prems(2) il(1)
      unfolding unf keep by (metis Suc_leI keep(1) zero_less_Suc)
  qed
qed

text \<open>
  The outer loop ends, since every run either leaves \<open>next\<close> alone or moves it down, and it ends
  with the stable sort of the range.
\<close>

lemma bubble_sort_loop_correct:
  fixes zs :: "(u8 \<times> u8) list"
  assumes len: "length pb = str + beg" "length pc = beg"
  shows "m \<le> length zs \<Longrightarrow> settled zs m (length zs) \<Longrightarrow> limit = beg + m \<longrightarrow> settled zs 0 (length zs) \<Longrightarrow>
    m = 0 \<longrightarrow> limit = beg \<Longrightarrow>
    bubble_sort_loop str beg limit (beg + m) (pb @ map snd zs @ qb) (pc @ map fst zs @ qc) =
      Some (pb @ map snd (sort_key fst zs) @ qb, pc @ map fst (sort_key fst zs) @ qc)"
proof (induction m arbitrary: zs limit rule: less_induct)
  case (less m)
  show ?case
  proof (cases "limit = beg + m")
    case True
    with less.prems(3) show ?thesis
      by (subst bubble_sort_loop.simps) (simp add: settled_sorted)
  next
    case False
    with less.prems(4) have m: "Suc 0 \<le> m" by (cases m) auto
    have "settled zs 0 (Suc 0)" by (simp add: settled_def)
    from bubble_pass_correct [OF len m less.prems(1) _ this, of qb qc m] obtain zs' next' where
      pass: "bubble_pass str (beg + m) (Suc beg) (pb @ map snd zs @ qb) (pc @ map fst zs @ qc) (beg + m) =
        Some (pb @ map snd zs' @ qb, pc @ map fst zs' @ qc, beg + next')"
      and keep: "length zs' = length zs" "sort_key fst zs' = sort_key fst zs"
        "drop m zs' = drop m zs" "set (take m zs') = set (take m zs)"
      and next': "settled zs' 0 m \<and> next' = m \<or> settled zs' next' m \<and> 0 < next' \<and> next' < m"
      by auto
    have unf: "bubble_sort_loop str beg limit (beg + m) (pb @ map snd zs @ qb) (pc @ map fst zs @ qc) =
        bubble_sort_loop str beg (beg + m) (beg + next') (pb @ map snd zs' @ qb) (pc @ map fst zs' @ qc)"
      using False by (subst bubble_sort_loop.simps) (simp add: pass Let_def)
    note beyond = settled_beyond [OF less.prems(2) _ _ less.prems(1) keep(1,3,4)]
    from next' show ?thesis
    proof (elim disjE conjE)
      assume "settled zs' 0 m" "next' = m"
      with beyond [of 0] show ?thesis
        unfolding unf by (subst bubble_sort_loop.simps) (simp add: settled_sorted flip: keep(2))
    next
      assume n: "settled zs' next' m" "0 < next'" "next' < m"
      with beyond [of next'] keep(1) less.prems(1) show ?thesis
        unfolding unf by (subst less.IH) (auto simp: keep(2))
    qed
  qed
qed

lemma bubble_sort_eq:
  fixes zs :: "(u8 \<times> u8) list"
  assumes "length pb = str + beg" "length pc = beg" "end' = beg + length zs"
  shows "bubble_sort str beg end' (pb @ map snd zs @ qb) (pc @ map fst zs @ qc) =
    Some (pb @ map snd (sort_key fst zs) @ qb, pc @ map fst (sort_key fst zs) @ qc)"
  unfolding bubble_sort_def assms(3)
  by (rule bubble_sort_loop_correct [OF assms(1,2)]) (auto simp: settled_def)

section \<open>Properties\<close>

text \<open>
  C8. On any range of the buffer that lies inside it and inside the vector of classes, the sort
  terminates, leaves everything outside the range alone, and puts the bytes of the range, paired
  with their classes, in the order of a stable sort by class.
\<close>

theorem bubble_sort_stable:
  assumes "beg \<le> e" "e \<le> length cc" "str + e \<le> length buf"
  shows "\<exists>buf' cc'. bubble_sort str beg e buf cc = Some (buf', cc') \<and>
    length buf' = length buf \<and> length cc' = length cc \<and>
    take (str + beg) buf' = take (str + beg) buf \<and> drop (str + e) buf' = drop (str + e) buf \<and>
    take beg cc' = take beg cc \<and> drop e cc' = drop e cc \<and>
    zip (take (e - beg) (drop beg cc')) (take (e - beg) (drop (str + beg) buf')) =
      sort_key fst (zip (take (e - beg) (drop beg cc)) (take (e - beg) (drop (str + beg) buf)))"
proof -
  define xs where "xs = take (e - beg) (drop beg cc)"
  define ys where "ys = take (e - beg) (drop (str + beg) buf)"
  define zs where "zs = zip xs ys"
  have len: "length xs = e - beg" "length ys = e - beg" using assms by (simp_all add: xs_def ys_def)
  then have z: "map fst zs = xs" "map snd zs = ys" "length zs = e - beg" by (simp_all add: zs_def)
  have split: "cc = take beg cc @ xs @ drop e cc" "buf = take (str + beg) buf @ ys @ drop (str + e) buf"
    using assms append_take_drop_id [of "e - beg" "drop beg cc"]
      append_take_drop_id [of "e - beg" "drop (str + beg) buf"]
    by (simp_all add: xs_def ys_def add.commute [of e str])
  have "bubble_sort str beg e (take (str + beg) buf @ map snd zs @ drop (str + e) buf)
      (take beg cc @ map fst zs @ drop e cc) =
    Some (take (str + beg) buf @ map snd (sort_key fst zs) @ drop (str + e) buf,
      take beg cc @ map fst (sort_key fst zs) @ drop e cc)"
    by (rule bubble_sort_eq) (use assms z in simp_all)
  then have "bubble_sort str beg e buf cc =
    Some (take (str + beg) buf @ map snd (sort_key fst zs) @ drop (str + e) buf,
      take beg cc @ map fst (sort_key fst zs) @ drop e cc)"
    unfolding z(1,2) using split by simp
  then show ?thesis
    using assms z(3) zip_map_fst_snd [of "sort_key fst zs"]
    by (auto simp: zs_def xs_def ys_def simp del: append_assoc)
qed

theorem bubble_sort_stable_witness:
  "\<exists>buf' cc'. bubble_sort 0 0 2 [0x10, 0x20] [230, 220] = Some (buf', cc') \<and>
    zip cc' buf' = [(220, 0x20), (230, 0x10)]"
  using bubble_sort_stable [of 0 2 "[230, 220]" 0 "[0x10, 0x20]"] by auto

end
