(* ===== verification/Canonical_Order.thy ===== *)
theory Canonical_Order
  imports Bubble_Sort "HOL-Library.Multiset"
begin

text \<open>
  The canonical ordering of Unicode as a reference definition on sequences of characters: every
  maximal run of characters with a combining class other than zero is sorted stably by class.
  The lemmas show that this definition has the properties the standard asks for (a permutation
  with no reorderable pair left, in which starters keep their place and characters of one class
  keep their order), and that sorting a run byte by byte is the same as sorting it by character.
\<close>

section \<open>Definition\<close>

fun reorder :: "('c \<Rightarrow> 'k::{linorder,zero}) \<Rightarrow> 'c list \<Rightarrow> 'c list \<Rightarrow> 'c list" where
  "reorder k run [] = sort_key k run"
| "reorder k run (c # cs) =
     (if k c = 0 then sort_key k run @ c # reorder k [] cs else reorder k (run @ [c]) cs)"

definition canonical_order :: "('c \<Rightarrow> 'k::{linorder,zero}) \<Rightarrow> 'c list \<Rightarrow> 'c list" where
  "canonical_order k cs = reorder k [] cs"

section \<open>What it guarantees\<close>

lemma mset_reorder: "mset (reorder k run cs) = mset run + mset cs"
  by (induction k run cs rule: reorder.induct) auto

lemma mset_canonical_order: "mset (canonical_order k cs) = mset cs"
  by (simp add: canonical_order_def mset_reorder)

lemma set_canonical_order [simp]: "set (canonical_order k cs) = set cs"
  using mset_canonical_order by (metis set_mset_mset)

lemma reorder_append_starter:
  "k c = 0 \<Longrightarrow> reorder k run (as @ c # bs) = reorder k run as @ reorder k [] (c # bs)"
  by (induction k run as rule: reorder.induct) auto

text \<open>A starter cuts the text into parts that are ordered independently.\<close>

lemma canonical_order_append:
  "bs \<noteq> [] \<Longrightarrow> k (hd bs) = 0 \<Longrightarrow> canonical_order k (as @ bs) = canonical_order k as @ canonical_order k bs"
  by (cases bs) (simp_all add: canonical_order_def reorder_append_starter)

text \<open>A text in which no two neighbours are out of order is left alone.\<close>

fun ordered :: "('c \<Rightarrow> 'k::{linorder,zero}) \<Rightarrow> 'c list \<Rightarrow> bool" where
  "ordered k (a # b # cs) \<longleftrightarrow> (k b = 0 \<or> k a \<le> k b) \<and> ordered k (b # cs)"
| "ordered k _ \<longleftrightarrow> True"

lemma reorder_ordered:
  "sorted (map k run) \<Longrightarrow> ordered k (run @ cs) \<Longrightarrow> reorder k run cs = run @ cs"
proof (induction k run cs rule: reorder.induct)
  case (1 k run)
  then show ?case by (simp add: sort_key_id_if_sorted)
next
  case (2 k run c cs)
  have tail: "ordered k (as @ bs) \<Longrightarrow> ordered k bs" for as bs
    by (induction k as rule: ordered.induct) (auto, (cases bs; auto)+)
  have last: "ordered k (as @ a # c # cs) \<Longrightarrow> k c = 0 \<or> k a \<le> k c" for as a
    using tail [of as "a # c # cs"] by simp
  show ?case
  proof (cases "k c = 0")
    case True
    with 2 tail [of run "c # cs"] tail [of "[c]" cs] show ?thesis
      by (simp add: sort_key_id_if_sorted)
  next
    case False
    have "sorted (map k (run @ [c]))"
    proof (cases run rule: rev_cases)
      case (snoc as a)
      with "2.prems" last [of as a] False show ?thesis
        by (auto simp: sorted_append intro: order_trans)
    qed simp
    with 2 False show ?thesis by simp
  qed
qed

lemma canonical_order_id: "ordered k cs \<Longrightarrow> canonical_order k cs = cs"
  using reorder_ordered [of k "[]" cs] by (simp add: canonical_order_def)

text \<open>The result has no reorderable pair, so ordering it again changes nothing.\<close>

lemma ordered_append:
  "ordered k as \<Longrightarrow> ordered k bs \<Longrightarrow> (bs \<noteq> [] \<Longrightarrow> k (hd bs) = 0) \<Longrightarrow> ordered k (as @ bs)"
proof (induction as rule: induct_list012)
  case (2 a)
  then show ?case by (cases bs) auto
qed auto

lemma ordered_sorted: "sorted (map k cs) \<Longrightarrow> ordered k cs"
  by (induction k cs rule: ordered.induct) auto

lemma ordered_reorder:
  fixes k :: "'c \<Rightarrow> u8"
  shows "ordered k (reorder k run cs)"
proof (induction k run cs rule: reorder.induct)
  case (1 k run)
  then show ?case by (simp add: ordered_sorted)
next
  case (2 k run c cs)
  have "ordered k (c # reorder k [] cs)" if "k c = 0"
    using 2 that by (cases "reorder k [] cs") auto
  with 2 show ?case by (auto intro!: ordered_append simp: ordered_sorted)
qed

lemma ordered_canonical_order: "ordered k (canonical_order k cs)" for k :: "'c \<Rightarrow> u8"
  by (simp add: canonical_order_def ordered_reorder)

lemma canonical_order_idem: "canonical_order k (canonical_order k cs) = canonical_order k cs"
  for k :: "'c \<Rightarrow> u8"
  by (rule canonical_order_id [OF ordered_canonical_order])

text \<open>Characters of one class keep their order, and starters keep their position.\<close>

lemma filter_reorder:
  "filter (\<lambda>c. k c = v) (reorder k run cs) = filter (\<lambda>c. k c = v) (run @ cs)"
  by (induction k run cs rule: reorder.induct) (auto simp: sort_key_stable)

lemma canonical_order_stable:
  "filter (\<lambda>c. k c = v) (canonical_order k cs) = filter (\<lambda>c. k c = v) cs"
  by (simp add: canonical_order_def filter_reorder)

lemma starters_reorder:
  "\<forall>c \<in> set run. k c \<noteq> 0 \<Longrightarrow>
   map (\<lambda>c. k c = 0) (reorder k run cs) = map (\<lambda>c. k c = 0) (run @ cs)"
proof (induction k run cs rule: reorder.induct)
  case (1 k run)
  then show ?case by (simp add: map_idI list_eq_iff_nth_eq) (metis nth_mem set_sort length_sort)
next
  case (2 k run c cs)
  have "map (\<lambda>c. k c = 0) (sort_key k run) = map (\<lambda>c. k c = 0) run"
    using "2.prems" by (simp add: list_eq_iff_nth_eq) (metis nth_mem set_sort length_sort)
  with 2 show ?case by auto
qed

lemma canonical_order_starters:
  "map (\<lambda>c. k c = 0) (canonical_order k cs) = map (\<lambda>c. k c = 0) cs"
  by (simp add: canonical_order_def starters_reorder)

section \<open>Ordering byte by byte\<close>

text \<open>A run of characters as the bubble sort sees it: every byte with the class of its character.\<close>

definition tagged :: "(bytes \<Rightarrow> u8) \<Rightarrow> bytes list \<Rightarrow> (u8 \<times> u8) list" where
  "tagged k cs = concat (map (\<lambda>c. map (Pair (k c)) c) cs)"

definition class_bytes :: "(bytes \<Rightarrow> u8) \<Rightarrow> bytes list \<Rightarrow> u8 list" where
  "class_bytes k cs = concat (map (\<lambda>c. replicate (length c) (k c)) cs)"

lemma tagged_simps [simp]:
  "tagged k [] = []"
  "tagged k (c # cs) = map (Pair (k c)) c @ tagged k cs"
  "tagged k (as @ bs) = tagged k as @ tagged k bs"
  by (simp_all add: tagged_def)

lemma class_bytes_simps [simp]:
  "class_bytes k [] = []"
  "class_bytes k (c # cs) = replicate (length c) (k c) @ class_bytes k cs"
  "class_bytes k (as @ bs) = class_bytes k as @ class_bytes k bs"
  by (simp_all add: class_bytes_def)

lemma map_snd_tagged [simp]: "map snd (tagged k cs) = concat cs"
  by (induction cs) (simp_all add: comp_def)

lemma map_fst_tagged [simp]: "map fst (tagged k cs) = class_bytes k cs"
  by (induction cs) (simp_all add: comp_def map_replicate_const)

lemma length_tagged [simp]: "length (tagged k cs) = length (concat cs)"
  using length_map [of snd "tagged k cs"] by simp

lemma length_class_bytes [simp]: "length (class_bytes k cs) = length (concat cs)"
  using length_map [of fst "tagged k cs"] by simp

lemma mset_tagged: "mset cs = mset ds \<Longrightarrow> mset (tagged k cs) = mset (tagged k ds)"
proof -
  have "mset (tagged k cs) = sum_mset (image_mset (\<lambda>c. mset (map (Pair (k c)) c)) (mset cs))" for cs
    by (induction cs) simp_all
  then show "mset cs = mset ds \<Longrightarrow> mset (tagged k cs) = mset (tagged k ds)" by simp
qed

lemma length_concat_mset: "mset cs = mset ds \<Longrightarrow> length (concat cs) = length (concat ds)"
  by (metis length_concat mset_map sum_mset_sum_list)

lemma length_concat_sort_key [simp]: "length (concat (sort_key k cs)) = length (concat cs)"
  by (rule length_concat_mset) simp

lemma length_concat_canonical_order: "length (concat (canonical_order k cs)) = length (concat cs)"
  by (rule length_concat_mset) (simp add: mset_canonical_order)

lemma filter_tagged: "filter (\<lambda>x. fst x = v) (tagged k cs) = tagged k (filter (\<lambda>c. k c = v) cs)"
  by (induction cs) (auto simp: filter_map comp_def)

lemma sorted_class_bytes: "sorted (map k cs) \<Longrightarrow> sorted (class_bytes k cs)"
  by (induction cs) (auto simp: sorted_append class_bytes_def)

theorem sort_key_tagged: "sort_key fst (tagged k cs) = tagged k (sort_key k cs)"
proof (rule properties_for_sort_key)
  show "mset (tagged k (sort_key k cs)) = mset (tagged k cs)"
    by (rule mset_tagged) simp
  show "sorted (map fst (tagged k (sort_key k cs)))"
    by (simp add: sorted_class_bytes)
  show "filter (\<lambda>x. fst a = fst x) (tagged k (sort_key k cs)) =
      filter (\<lambda>x. fst a = fst x) (tagged k cs)" for a
    using filter_tagged [of "fst a" k] by (simp add: sort_key_stable eq_commute [of "fst a"])
qed

end
