(* ===== verification/Combining_Class.thy ===== *)
theory Combining_Class
  imports Utf8_Text Canonical_Order
begin

text \<open>
  \<open>UNF::Trie::CanonicalCombiningClass\<close> of \<open>unf/trie/searcher.hh\<close>: the class of a character and
  the in-place canonical ordering of a text. The offsets and the count that \<open>sort\<close> keeps are
  unsigned numbers of 32 bits. It is shown to return on every non-empty text of fewer than
  \<open>2\<^sup>3\<^sup>2\<close> bytes, to stay inside the text and the class vector, and to compute the reference
  ordering \<open>canonical_order\<close> together with the class of every byte of the result.
\<close>

section \<open>Definitions\<close>

definition CanonicalCombiningClass :: "u32 list \<Rightarrow> u32 \<Rightarrow> searcher" where
  "CanonicalCombiningClass node_uints r = Searcher (from_uint_array node_uints) r None"

definition get_class :: "searcher \<Rightarrow> bytes \<Rightarrow> nat \<Rightarrow> u32 option" where
  "get_class ccc str p = find_value ccc str p 0"

function fill_classes :: "nat \<Rightarrow> nat \<Rightarrow> u8 \<Rightarrow> u8 list \<Rightarrow> u8 list option" where
  "fill_classes i sort_end klass cls =
     (if i < sort_end
      then if i < length cls then fill_classes (i + 1) sort_end klass (cls[i := klass]) else None
      else Some cls)"
  by pat_completeness auto
termination
  by (relation "measure (\<lambda>(i, sort_end, _). sort_end - i)") auto

declare fill_classes.simps [simp del]

text \<open>
  The local variables of \<open>sort\<close>. The string that the stream reads is the buffer that
  \<open>bubble_sort\<close> rearranges, so the stream's string is the only copy of it. An offset is a
  difference of pointers that is stored in an \<open>unsigned\<close>.
\<close>

record sort_state =
  sort_in :: char_stream
  sort_classes :: "u8 list"
  sort_beg :: u32
  sort_end :: u32
  unicode_char_count :: u32

definition unsigned_offset :: "char_stream \<Rightarrow> nat \<Rightarrow> u32" where
  "unsigned_offset inp str = of_nat (cs_cur inp - str)"

definition sort_flush :: "nat \<Rightarrow> sort_state \<Rightarrow> sort_state option" where
  "sort_flush str st =
     (if unicode_char_count st > 1 then do {
        r \<leftarrow> bubble_sort str (unat (sort_beg st)) (unat (sort_end st)) (cs_str (sort_in st)) (sort_classes st);
        Some (st\<lparr>sort_in := (sort_in st)\<lparr>cs_str := fst r\<rparr>, sort_classes := snd r\<rparr>)
      }
      else Some st)"

definition sort_found :: "nat \<Rightarrow> u32 \<Rightarrow> node \<Rightarrow> sort_state \<Rightarrow> sort_state option" where
  "sort_found str beg t st = do {
     let st = (if unicode_char_count st = 0 then st\<lparr>sort_beg := beg\<rparr> else st);
     let st = st\<lparr>unicode_char_count := unicode_char_count st + 1\<rparr>;
     let st = st\<lparr>sort_end := unsigned_offset (sort_in st) str\<rparr>;
     let klass = (ucast (value_of t) :: u8);
     cc \<leftarrow> fill_classes (unat beg) (unat (sort_end st)) klass (sort_classes st);
     Some (st\<lparr>sort_classes := cc\<rparr>)
   }"

definition sort_not_found :: "nat \<Rightarrow> sort_state \<Rightarrow> sort_state option" where
  "sort_not_found str st = do {
     st \<leftarrow> sort_flush str st;
     Some (st\<lparr>unicode_char_count := 0\<rparr>)
   }"

partial_function (option) sort_loop :: "searcher \<Rightarrow> nat \<Rightarrow> sort_state \<Rightarrow> sort_state option" where
  "sort_loop ccc str st = do {
     let beg = unsigned_offset (sort_in st) str;
     r \<leftarrow> trie_search cs_read cs_prev ccc (root ccc) (sort_in st);
     let st = st\<lparr>sort_in := snd r\<rparr>;
     st \<leftarrow> (case fst r of Some t \<Rightarrow> sort_found str beg t st | None \<Rightarrow> sort_not_found str st);
     inp \<leftarrow> eat_until_utf8_char_start_point cs_peek cs_read (sort_in st);
     let st = st\<lparr>sort_in := inp\<rparr>;
     e \<leftarrow> cs_eos inp;
     if e = False then sort_loop ccc str st else sort_flush str st
   }"

definition ccc_sort :: "searcher \<Rightarrow> bytes \<Rightarrow> nat \<Rightarrow> u8 list \<Rightarrow> (bytes \<times> u8 list) option" where
  "ccc_sort ccc buf str cls = do {
     st \<leftarrow> sort_loop ccc str
       \<lparr>sort_in = CharStream buf str, sort_classes = cls, sort_beg = 0, sort_end = 0,
        unicode_char_count = 0\<rparr>;
     Some (cs_str (sort_in st), sort_classes st)
   }"

section \<open>Filling in the class of a character\<close>

lemma fill_classes_eq:
  "length pc = i \<Longrightarrow> e = i + length xs \<Longrightarrow>
   fill_classes i e klass (pc @ xs @ qc) = Some (pc @ replicate (length xs) klass @ qc)"
proof (induction xs arbitrary: i pc)
  case Nil
  then show ?case by (simp add: fill_classes.simps)
next
  case (Cons x xs)
  have "fill_classes i e klass (pc @ (x # xs) @ qc) =
      fill_classes (i + 1) e klass ((pc @ [klass]) @ xs @ qc)"
    using Cons.prems by (subst fill_classes.simps) (simp add: list_update_append)
  also have "\<dots> = Some ((pc @ [klass]) @ replicate (length xs) klass @ qc)"
    by (rule Cons.IH) (use Cons.prems in auto)
  finally show ?case by simp
qed

section \<open>The state between two characters\<close>

text \<open>
  \<open>sort_inv\<close>: the text before the run is final, the characters of \<open>run\<close> have a class other than
  zero and wait to be sorted, the characters of \<open>cs\<close> are still to be read.
\<close>

definition sort_inv ::
    "(bytes \<Rightarrow> u8) \<Rightarrow> bytes \<Rightarrow> bytes list \<Rightarrow> bytes list \<Rightarrow> bytes list \<Rightarrow> sort_state \<Rightarrow> bool" where
  "sort_inv k pre done run cs st \<longleftrightarrow>
     cs_str (sort_in st) = pre @ concat (done @ run @ cs) \<and>
     cs_cur (sort_in st) = length (pre @ concat (done @ run)) \<and>
     sort_classes st = class_bytes k (done @ run) @ replicate (Suc (length (concat cs))) 0 \<and>
     unicode_char_count st = of_nat (length run) \<and>
     (run \<noteq> [] \<longrightarrow> sort_beg st = of_nat (length (concat done)) \<and> sort_end st = of_nat (length (concat (done @ run)))) \<and>
     length (concat (done @ run @ cs)) < 2 ^ 32 \<and> length (run @ cs) < 2 ^ 32"

lemma unat_offset: "n < 2 ^ 32 \<Longrightarrow> unat (of_nat n :: u32) = n"
  by (simp add: unat_of_nat take_bit_nat_eq_self_iff)

lemma count_more: "n < 2 ^ 32 \<Longrightarrow> (of_nat n :: u32) > 1 \<longleftrightarrow> n > 1" "n < 2 ^ 32 \<Longrightarrow> (of_nat n :: u32) = 0 \<longleftrightarrow> n = 0"
  by (simp_all add: word_less_nat_alt word_unat_eq_iff unat_offset)

text \<open>Sorting the run touches neither the position in the text nor what is still to be read.\<close>

lemma sort_flush_inv:
  assumes inv: "sort_inv k pre done run cs st"
  shows "\<exists>st'. sort_flush (length pre) (st\<lparr>sort_in := CharStream (cs_str (sort_in st)) p\<rparr>) = Some st' \<and>
    sort_in st' = CharStream (pre @ concat (done @ sort_key k run @ cs)) p \<and>
    sort_classes st' = class_bytes k (done @ sort_key k run) @ replicate (Suc (length (concat cs))) 0"
proof (cases "length run > 1")
  case True
  let ?pb = "pre @ concat done" and ?pc = "class_bytes k done" and ?zs = "tagged k run"
  from True have "run \<noteq> []" by auto
  with inv have be: "unat (sort_beg st) = length (concat done)" "unat (sort_end st) = length (concat (done @ run))"
    by (simp_all add: sort_inv_def unat_offset del: of_nat_add)
  have many: "unicode_char_count st > 1" using inv True by (simp add: sort_inv_def count_more)
  have "bubble_sort (length pre) (unat (sort_beg st)) (unat (sort_end st)) (?pb @ map snd ?zs @ concat cs)
      (?pc @ map fst ?zs @ replicate (Suc (length (concat cs))) 0) =
    Some (?pb @ map snd (sort_key fst ?zs) @ concat cs,
      ?pc @ map fst (sort_key fst ?zs) @ replicate (Suc (length (concat cs))) 0)"
    by (rule bubble_sort_eq) (simp_all add: be)
  with inv many show ?thesis
    by (simp add: sort_flush_def sort_inv_def sort_key_tagged CharStream_def)
next
  case False
  then have "sort_key k run = run" by (cases run; cases "tl run") auto
  moreover have "\<not> unicode_char_count st > 1" using inv False by (simp add: sort_inv_def count_more)
  ultimately show ?thesis
    using inv by (simp add: sort_flush_def sort_inv_def CharStream_def)
qed

lemma sort_not_found_inv:
  assumes inv: "sort_inv k pre done run (c # cs) st"
  shows "\<exists>st'. sort_not_found (length pre) (st\<lparr>sort_in := CharStream (cs_str (sort_in st)) p\<rparr>) = Some st' \<and>
    sort_in st' = CharStream ((pre @ concat (done @ sort_key k run)) @ c @ concat cs) p \<and>
    (k c = 0 \<longrightarrow> sort_inv k pre (done @ sort_key k run @ [c]) [] cs (st'\<lparr>sort_in :=
       CharStream ((pre @ concat (done @ sort_key k run)) @ c @ concat cs)
         (length ((pre @ concat (done @ sort_key k run)) @ c))\<rparr>))"
proof -
  have "length (concat (done @ sort_key k run @ c # cs)) < 2 ^ 32" "length cs < 2 ^ 32"
    using inv by (simp_all add: sort_inv_def)
  then show ?thesis
    using sort_flush_inv [OF inv, of p]
    by (auto simp: sort_not_found_def sort_inv_def CharStream_def replicate_Suc_add
        simp del: replicate_Suc)
qed

lemma sort_found_inv:
  assumes inv: "sort_inv k pre done run (c # cs) st" and k: "k c = ucast (value_of t)"
  shows "\<exists>st'. sort_found (length pre) (of_nat (length (concat (done @ run)))) t (st\<lparr>sort_in :=
      CharStream (cs_str (sort_in st)) (length (pre @ concat (done @ run)) + length c)\<rparr>) = Some st' \<and>
    sort_inv k pre done (run @ [c]) cs st'"
proof -
  let ?beg = "length (concat (done @ run))"
  have "sort_classes st = class_bytes k (done @ run) @ replicate (length c) 0 @
      replicate (Suc (length (concat cs))) 0"
    using inv by (simp add: sort_inv_def replicate_Suc_add del: replicate_Suc)
  then have fill: "fill_classes ?beg (?beg + length c) (k c) (sort_classes st) =
      Some (class_bytes k (done @ run @ [c]) @ replicate (Suc (length (concat cs))) 0)"
    using fill_classes_eq [of "class_bytes k (done @ run)" ?beg "?beg + length c"
        "replicate (length c) 0" "k c" "replicate (Suc (length (concat cs))) 0"] by simp
  have st: "cs_str (sort_in st) = pre @ concat (done @ run @ c # cs)" "unicode_char_count st = of_nat (length run)"
    "run \<noteq> [] \<longrightarrow> sort_beg st = of_nat (length (concat done))"
    "length (concat (done @ run @ c # cs)) < 2 ^ 32" "length (run @ c # cs) < 2 ^ 32"
    using inv by (simp_all add: sort_inv_def)
  have empty: "(of_nat (length run) :: u32) = 0 \<longleftrightarrow> run = []" using st(5) by (simp add: count_more)
  define beg e where "beg = (of_nat ?beg :: u32)" and "e = (of_nat (?beg + length c) :: u32)"
  have ends: "unat beg = ?beg" "unat e = ?beg + length c"
    using st(4) by (simp_all add: beg_def e_def unat_offset del: of_nat_add)
  define inp where "inp = CharStream (cs_str (sort_in st)) (length (pre @ concat (done @ run)) + length c)"
  have off: "unsigned_offset inp (length pre) = e" by (simp add: unsigned_offset_def inp_def e_def CharStream_def add.assoc)
  define cc where "cc = class_bytes k (done @ run @ [c]) @ replicate (Suc (length (concat cs))) 0"
  have fill': "fill_classes (unat beg) (unat e) (ucast (value_of t)) (sort_classes st) = Some cc"
    using fill by (simp only: ends cc_def k)
  define st' where "st' = st\<lparr>sort_in := inp, sort_beg := (if run = [] then beg else sort_beg st),
    unicode_char_count := unicode_char_count st + 1, sort_end := e, sort_classes := cc\<rparr>"
  have "sort_found (length pre) beg t (st\<lparr>sort_in := inp\<rparr>) = Some st'"
    using st(2) empty fill' by (cases "run = []") (simp_all add: sort_found_def off Let_def st'_def)
  moreover have "sort_inv k pre done (run @ [c]) cs st'"
    using st by (auto simp: sort_inv_def st'_def beg_def e_def inp_def cc_def CharStream_def ac_simps simp del: replicate_Suc)
  ultimately show ?thesis unfolding beg_def inp_def by blast
qed

section \<open>The loop\<close>

text \<open>
  The class trie: its keys are characters, and the classes it holds fit into a byte and are not
  zero.
\<close>

definition char_class :: "node list \<Rightarrow> u32 \<Rightarrow> bytes \<Rightarrow> u8" where
  "char_class ns r c = (case char_value ns r c of None \<Rightarrow> 0 | Some v \<Rightarrow> ucast v)"

locale class_trie = char_trie +
  assumes class_byte: "char_value ns r c = Some v \<Longrightarrow> utf8_char c \<Longrightarrow> 0 < unat v \<and> unat v < 256"
begin

abbreviation klass :: "bytes \<Rightarrow> u8" where
  "klass \<equiv> char_class ns r"

lemma class_not_0:
  assumes "char_value ns r c = Some v" "utf8_char c"
  shows "(ucast v :: u8) \<noteq> 0" and "(ucast (ucast v :: u8) :: u32) = v"
proof -
  have "unat (ucast v :: u8) = unat v"
    using class_byte [OF assms] by (simp add: unsigned_ucast_eq take_bit_nat_eq_self_iff)
  then show "(ucast v :: u8) \<noteq> 0" "(ucast (ucast v :: u8) :: u32) = v"
    using class_byte [OF assms] by (auto simp: word_unat_eq_iff)
qed

lemma get_class_char:
  assumes "nodes ccc = ns" "root ccc = r" "utf8_char c" "0 \<notin> set ds"
  shows "get_class ccc (pre @ c @ ds) (length pre) = Some (ucast (klass c))"
  using find_value_char [OF assms] class_not_0(2) [OF _ assms(3)]
  by (auto simp: get_class_def char_class_def split: option.splits)

lemma get_class_end:
  assumes "nodes ccc = ns" "root ccc = r"
  shows "get_class ccc pre (length pre) = Some 0"
  using find_value_end [OF assms] by (simp add: get_class_def)

text \<open>
  One search from the start of a character: it finds the character's terminal node and stands
  behind it, or it stops inside the character.
\<close>

lemma search_char:
  assumes sr: "nodes ccc = ns" "root ccc = r" and c: "utf8_char c" and cs: "list_all utf8_char cs"
  shows "\<exists>res n. trie_search cs_read cs_prev ccc (root ccc) (CharStream (pre @ c @ concat cs) (length pre)) =
      Some (res, CharStream (pre @ c @ concat cs) (length pre + n)) \<and> 0 < n \<and> n \<le> length c \<and>
    (case res of None \<Rightarrow> char_value ns r c = None
     | Some t \<Rightarrow> char_value ns r c = Some (value_of t) \<and> n = length c)"
proof -
  let ?s = "CharStream (pre @ c @ concat cs) (length pre)"
  have rest: "cs_rest ?s = c @ concat cs" by (simp add: cs_rest_def CharStream_def)
  have nul: "0 \<notin> set (c @ concat cs)"
    using utf8_char_no_nul [OF c] text_no_nul [OF cs] by simp
  have valid: "cs_valid ?s" using nul rest by (simp add: cs_valid_def) (simp add: CharStream_def)
  have adv: "cs_adv n ?s = CharStream (pre @ c @ concat cs) (length pre + n)" for n
    by (simp add: cs_adv_def CharStream_def)
  note search = cs_search.trie_search_eq [OF sr(1) inner_root valid, unfolded rest,
      OF nul, of 0, unfolded char_walk_append [OF c] adv, folded sr(2)]
  from char_walk [OF c] show ?thesis
  proof (elim disjE exE)
    fix t assume "trie_walk ns r c 0 = Hit t (length c)"
    moreover have "0 < length c" using c by (cases c) auto
    ultimately show ?thesis
      using search sr(2) by (intro exI [of _ "Some t"] exI [of _ "length c"]) (simp add: char_value_def)
  next
    fix n assume "trie_walk ns r c 0 = Miss n"
    with trie_walk_Miss_le [OF this] show ?thesis
      using search sr(2) by (intro exI [of _ None] exI [of _ n]) (simp add: char_value_def)
  qed
qed

lemma eat_to_next_char:
  assumes c: "utf8_char c" and cs: "list_all utf8_char cs" and n: "0 < n" "n \<le> length c"
  shows "eat_until_utf8_char_start_point cs_peek cs_read (CharStream (pre @ c @ concat cs) (length pre + n)) =
    Some (CharStream (pre @ c @ concat cs) (length (pre @ c)))"
proof -
  obtain b bs where b: "c = b # bs" "list_all cont_byte bs" using c by (rule utf8_charE)
  obtain m where m: "n = Suc m" using n(1) by (cases n) auto
  let ?s = "CharStream (pre @ c @ concat cs) (length pre + n)"
  have rest: "cs_rest ?s = drop m bs @ concat cs"
    using n b m by (simp add: cs_rest_def CharStream_def)
  have "0 \<notin> set (drop m bs @ concat cs)"
    using utf8_char_no_nul [OF c] text_no_nul [OF cs] b by (auto dest: in_set_dropD)
  then have valid: "cs_valid ?s" using n rest by (simp add: cs_valid_def) (simp add: CharStream_def)
  have "list_all cont_byte (drop m bs)" using b(2) by (auto simp: list_all_iff dest: in_set_dropD)
  then have "takeWhile cont_byte (cs_rest ?s) = drop m bs"
    unfolding rest by (rule takeWhile_cont_char [OF _ cs])
  then show ?thesis
    using cs.eat_until_eq [OF valid] n b m by (simp add: cs_adv_def CharStream_def)
qed

text \<open>One turn of the loop takes one character, up to the test for the end of the text.\<close>

lemma sort_step:
  assumes sr: "nodes ccc = ns" "root ccc = r" and c: "utf8_char c" and cs: "list_all utf8_char cs"
    and inv: "sort_inv klass pre done run (c # cs) st"
  shows "\<exists>st' done' run'. sort_inv klass pre done' run' cs st' \<and>
    done' @ reorder klass run' cs = done @ reorder klass run (c # cs) \<and>
    sort_loop ccc (length pre) st =
      do { e \<leftarrow> cs_eos (sort_in st');
           if e = False then sort_loop ccc (length pre) st' else sort_flush (length pre) st' }"
proof -
  let ?pre = "pre @ concat (done @ run)"
  have inp: "sort_in st = CharStream (?pre @ c @ concat cs) (length ?pre)"
    using inv by (intro char_stream.equality) (auto simp: sort_inv_def CharStream_def)
  have beg: "unsigned_offset (sort_in st) (length pre) = of_nat (length (concat (done @ run)))"
    by (simp add: inp unsigned_offset_def CharStream_def)
  from search_char [OF sr c cs, of ?pre] obtain o' n where
    search: "trie_search cs_read cs_prev ccc (root ccc) (sort_in st) =
      Some (o', CharStream (cs_str (sort_in st)) (length ?pre + n))"
    and n: "0 < n" "n \<le> length c"
    and o': "case o' of None \<Rightarrow> char_value ns r c = None
      | Some t \<Rightarrow> char_value ns r c = Some (value_of t) \<and> n = length c"
    unfolding inp by (auto simp: CharStream_def)
  show ?thesis
  proof (cases o')
    case (Some t)
    with o' have v: "char_value ns r c = Some (value_of t)" and nc: "n = length c" by auto
    have k: "klass c = ucast (value_of t)" "klass c \<noteq> 0"
      using v class_not_0(1) [OF v c] by (simp_all add: char_class_def)
    from sort_found_inv [OF inv k(1)] obtain st' where
      found: "sort_found (length pre) (of_nat (length (concat (done @ run)))) t
        (st\<lparr>sort_in := CharStream (cs_str (sort_in st)) (length ?pre + n)\<rparr>) = Some st'"
      and inv': "sort_inv klass pre done (run @ [c]) cs st'"
      unfolding nc by blast
    have in': "sort_in st' = CharStream (?pre @ c @ concat cs) (length ?pre + length c)"
      using inv' by (intro char_stream.equality) (auto simp: sort_inv_def CharStream_def)
    have same: "st'\<lparr>sort_in := sort_in st'\<rparr> = st'" by simp
    have "eat_until_utf8_char_start_point cs_peek cs_read (sort_in st') = Some (sort_in st')"
      unfolding in' using eat_to_next_char [OF c cs, of "length c" ?pre] n
      by (simp only: length_append)
    then have "sort_loop ccc (length pre) st =
        do { e \<leftarrow> cs_eos (sort_in st');
             if e = False then sort_loop ccc (length pre) st' else sort_flush (length pre) st' }"
      using found search by (subst sort_loop.simps) (simp add: Some beg Let_def, simp only: same)
    with inv' k(2) show ?thesis by fastforce
  next
    case None
    with o' have k: "klass c = 0" by (simp add: char_class_def)
    let ?pre' = "pre @ concat (done @ sort_key klass run)"
    have len: "length ?pre' = length ?pre"
      using arg_cong [OF sort_key_tagged [of klass run], of length] by simp
    define fin where "fin = CharStream (?pre' @ c @ concat cs) (length (?pre' @ c))"
    from sort_not_found_inv [OF inv, of "length ?pre + n"] k obtain st' where
      found: "sort_not_found (length pre)
        (st\<lparr>sort_in := CharStream (cs_str (sort_in st)) (length ?pre + n)\<rparr>) = Some st'"
      and in': "sort_in st' = CharStream (?pre' @ c @ concat cs) (length ?pre' + n)"
      and inv': "sort_inv klass pre (done @ sort_key klass run @ [c]) [] cs (st'\<lparr>sort_in := fin\<rparr>)"
      unfolding len fin_def by blast
    have "eat_until_utf8_char_start_point cs_peek cs_read (sort_in st') = Some fin"
      unfolding in' fin_def by (rule eat_to_next_char [OF c cs n])
    then have "sort_loop ccc (length pre) st =
        do { e \<leftarrow> cs_eos fin; if e = False then sort_loop ccc (length pre) (st'\<lparr>sort_in := fin\<rparr>)
             else sort_flush (length pre) (st'\<lparr>sort_in := fin\<rparr>) }"
      using found search by (subst sort_loop.simps) (simp add: None beg Let_def)
    with inv' k show ?thesis by fastforce
  qed
qed

lemma sort_loop_correct:
  assumes sr: "nodes ccc = ns" "root ccc = r"
  shows "list_all utf8_char (c # cs) \<Longrightarrow> sort_inv klass pre done run (c # cs) st \<Longrightarrow>
    \<exists>st'. sort_loop ccc (length pre) st = Some st' \<and>
      cs_str (sort_in st') = pre @ concat (done @ reorder klass run (c # cs)) \<and>
      sort_classes st' = class_bytes klass (done @ reorder klass run (c # cs)) @ [0]"
proof (induction cs arbitrary: c "done" run st)
  case Nil
  from sort_step [OF sr _ _ Nil.prems(2)] Nil.prems(1) obtain st' done' run' where
    st': "sort_inv klass pre done' run' [] st'"
    "done' @ reorder klass run' [] = done @ reorder klass run [c]"
    "sort_loop ccc (length pre) st = do { e \<leftarrow> cs_eos (sort_in st');
       if e = False then sort_loop ccc (length pre) st' else sort_flush (length pre) st' }"
    by auto
  have eos: "cs_eos (sort_in st') = Some True"
    using st'(1) by (simp add: sort_inv_def cs_eos_def rd_def)
  have same: "st'\<lparr>sort_in := CharStream (cs_str (sort_in st')) (cs_cur (sort_in st'))\<rparr> = st'"
    by (simp add: CharStream_def)
  show ?case
    using sort_flush_inv [OF st'(1), of "cs_cur (sort_in st')"]
    unfolding same st'(2) [symmetric] st'(3) eos by (auto simp: CharStream_def)
next
  case (Cons d ds)
  from sort_step [OF sr _ _ Cons.prems(2)] Cons.prems(1) obtain st' done' run' where
    st': "sort_inv klass pre done' run' (d # ds) st'"
    "done' @ reorder klass run' (d # ds) = done @ reorder klass run (c # d # ds)"
    "sort_loop ccc (length pre) st = do { e \<leftarrow> cs_eos (sort_in st');
       if e = False then sort_loop ccc (length pre) st' else sort_flush (length pre) st' }"
    by auto
  obtain b bs where "d = b # bs" "b \<noteq> 0" using Cons.prems(1) by (auto elim: utf8_charE)
  then have eos: "cs_eos (sort_in st') = Some False"
    using st'(1) by (simp add: sort_inv_def cs_eos_def rd_append rd_append0)
  show ?case
    using Cons.IH [OF _ st'(1)] Cons.prems(1) unfolding st'(2) [symmetric] st'(3) eos by simp
qed

lemma ccc_sort_eq:
  assumes "nodes ccc = ns" "root ccc = r" "list_all utf8_char cs" "cs \<noteq> []" "length (concat cs) < 2 ^ 32"
  shows "ccc_sort ccc (pre @ concat cs) (length pre) (replicate (Suc (length (concat cs))) 0) =
    Some (pre @ concat (canonical_order klass cs), class_bytes klass (canonical_order klass cs) @ [0])"
proof -
  obtain c ds where cs: "cs = c # ds" using assms(4) by (cases cs) auto
  let ?st = "\<lparr>sort_in = CharStream (pre @ concat cs) (length pre),
     sort_classes = replicate (Suc (length (concat cs))) 0, sort_beg = 0, sort_end = 0,
     unicode_char_count = 0\<rparr>"
  have "length ds \<le> length (concat ds)" if "list_all utf8_char ds" for ds
    using that by (induction ds) (auto elim!: utf8_charE)
  then have "length cs < 2 ^ 32" using assms(3,5) by fastforce
  then have "sort_inv klass pre [] [] (c # ds) ?st"
    using assms(5) by (simp add: sort_inv_def CharStream_def cs)
  from sort_loop_correct [OF assms(1,2) _ this] assms(3) cs show ?thesis
    by (auto simp: ccc_sort_def canonical_order_def simp del: replicate_Suc)
qed

end

end
