(* ===== verification/Norm_Form.thy ===== *)
theory Norm_Form
  imports Combining_Class
begin

text \<open>
  \<open>UNF::Trie::NormalizationForm\<close> of \<open>unf/trie/searcher.hh\<close>: the quick check of a character, the
  decomposition of a range of text and the composition of one character from a stream. The
  decomposition is related to its reference definition, the concatenation of the words the trie
  assigns to the characters.
\<close>

section \<open>Quick check and decomposition\<close>

definition NormalizationForm :: "u32 list \<Rightarrow> u32 \<Rightarrow> bytes option \<Rightarrow> searcher" where
  "NormalizationForm node_uints r value = Searcher (from_uint_array node_uints) r value"

definition quick_check :: "searcher \<Rightarrow> bytes \<Rightarrow> nat \<Rightarrow> bool option" where
  "quick_check nf str key = do {
     v \<leftarrow> find_value nf str key 0xFFFFFFFF;
     Some (v = 0xFFFFFFFF)
   }"

text \<open>A value of a decomposition trie packs the position and the length of a word of the
  string table.\<close>

definition word_pos :: "u32 \<Rightarrow> nat" where
  "word_pos pos_info = unat (pos_info AND 0x3FFFF)"

definition word_len :: "u32 \<Rightarrow> nat" where
  "word_len pos_info = unat (drop_bit 18 pos_info)"

definition word_append :: "bytes \<Rightarrow> bytes option \<Rightarrow> u32 \<Rightarrow> bytes option" where
  "word_append buffer strs pos_info = do {
     table \<leftarrow> strs;
     xs \<leftarrow> slice table (word_pos pos_info) (word_pos pos_info + word_len pos_info);
     Some (buffer @ xs)
   }"

partial_function (option) decompose_loop ::
    "searcher \<Rightarrow> range_char_stream \<Rightarrow> bytes \<Rightarrow> bytes option" where
  "decompose_loop nf inp buffer = do {
     let beg = rs_cur inp;
     r \<leftarrow> trie_search rs_read rs_prev nf (root nf) inp;
     r \<leftarrow> (case fst r of
         Some t \<Rightarrow> do {
           buffer \<leftarrow> word_append buffer (value_ptr nf) (value_of t);
           Some (snd r, buffer)
         }
       | None \<Rightarrow> do {
           inp \<leftarrow> eat_until_utf8_char_start_point rs_peek rs_read (snd r);
           xs \<leftarrow> slice (rs_str inp) beg (rs_cur inp);
           Some (inp, buffer @ xs)
         });
     if rs_eos (fst r) = False then decompose_loop nf (fst r) (snd r) else Some (snd r)
   }"

definition decompose :: "searcher \<Rightarrow> range_char_stream \<Rightarrow> bytes \<Rightarrow> bytes option" where
  "decompose nf inp buffer = decompose_loop nf inp buffer"

section \<open>Composition\<close>

text \<open>The local variables of \<open>compose\<close>.\<close>

record compose_state =
  comp_in :: char_stream_for_composition
  current_char_head :: ptr
  composed_char_info :: u32
  node_index :: u32
  retry_root_node :: u32
  retry_root_class :: u8
  first :: bool

datatype compose_next = Next_Char | Retry | Break

text \<open>The loop body up to the label \<open>retry\<close>.\<close>

definition compose_head :: "searcher \<Rightarrow> compose_state \<Rightarrow> compose_state option" where
  "compose_head nf st = do {
     b \<leftarrow> ccs_peek (comp_in st);
     if is_utf8_char_start_byte b then do {
       let st = (if node_index st \<noteq> root nf then st\<lparr>first := False\<rparr> else st);
       p \<leftarrow> ccs_cur (comp_in st);
       k \<leftarrow> get_canonical_class (comp_in st);
       Some (st\<lparr>current_char_head := p, retry_root_node := node_index st, retry_root_class := k\<rparr>)
     }
     else Some st
   }"

text \<open>The loop body from the label \<open>retry\<close> on.\<close>

definition compose_retry :: "searcher \<Rightarrow> compose_state \<Rightarrow> (compose_next \<times> compose_state) option" where
  "compose_retry nf st = do {
     n \<leftarrow> node_at nf (node_index st);
     b \<leftarrow> ccs_peek (comp_in st);
     let next_index = jump n b;
     m \<leftarrow> node_at nf next_index;
     r \<leftarrow> ccs_read (comp_in st);
     let st = st\<lparr>comp_in := snd r\<rparr>;
     if check_char m = ucast (fst r) then do {
       let st = st\<lparr>node_index := next_index\<rparr>;
       let terminal_index = jump m 0;
       t \<leftarrow> node_at nf terminal_index;
       if check_char t = 0 then do {
         let st = st\<lparr>composed_char_info := value_of t\<rparr>;
         inp \<leftarrow> mark_as_last_valid_point (comp_in st);
         let st = st\<lparr>comp_in := inp\<rparr>;
         e \<leftarrow> ccs_eos inp;
         if e then Some (Break, st)
         else do {
           k \<leftarrow> get_canonical_class inp;
           if retry_root_class st > k then Some (Break, st) else Some (Next_Char, st)
         }
       }
       else Some (Next_Char, st)
     }
     else if first st then Some (Break, st)
     else do {
       q \<leftarrow> next_combining_char (comp_in st) (retry_root_class st) (current_char_head st);
       let st = st\<lparr>comp_in := snd q\<rparr>;
       if fst q then do {
         p \<leftarrow> ccs_cur (comp_in st);
         Some (Retry, st\<lparr>node_index := retry_root_node st, current_char_head := p\<rparr>)
       }
       else Some (Break, st)
     }
   }"

partial_function (option) compose_loop :: "searcher \<Rightarrow> bool \<Rightarrow> compose_state \<Rightarrow> compose_state option" where
  "compose_loop nf retry st = do {
     st \<leftarrow> (if retry then Some st else compose_head nf st);
     r \<leftarrow> compose_retry nf st;
     case fst r of
       Break \<Rightarrow> Some (snd r)
     | Next_Char \<Rightarrow> compose_loop nf False (snd r)
     | Retry \<Rightarrow> compose_loop nf True (snd r)
   }"

fun nearest_ptr :: "'a compound_char_stream_scheme \<Rightarrow> ptr \<Rightarrow> ptr option" where
  "nearest_ptr s (First p) = map_option First (nearest_utf8_char_start_point (str1 s) p)"
| "nearest_ptr s (Second p) = map_option Second (nearest_utf8_char_start_point (str2 s) p)"

definition compose ::
    "searcher \<Rightarrow> char_stream_for_composition \<Rightarrow> bytes \<Rightarrow> (char_stream_for_composition \<times> bytes) option" where
  "compose nf inp buf = do {
     let inp = init_skipinfo inp;
     beg \<leftarrow> ccs_cur inp;
     st \<leftarrow> compose_loop nf False
       \<lparr>comp_in = inp, current_char_head = beg, composed_char_info = 0, node_index = root nf,
        retry_root_node = root nf, retry_root_class = 0, first = True\<rparr>;
     let inp = comp_in st;
     if composed_char_info st \<noteq> 0 then do {
       buf \<leftarrow> word_append buf (value_ptr nf) (composed_char_info st);
       buf \<leftarrow> append_skipped_chars_to_str inp buf;
       inp \<leftarrow> reset_at_marked_point inp;
       Some (inp, buf)
     }
     else do {
       p \<leftarrow> nearest_ptr inp (ptr_succ beg);
       let inp = ccs_setCur inp p;
       buf \<leftarrow> append_read_char_to_str inp buf beg;
       Some (inp, buf)
     }
   }"

section \<open>What decomposition computes\<close>

definition table_word :: "bytes \<Rightarrow> u32 \<Rightarrow> bytes" where
  "table_word strs v = take (word_len v) (drop (word_pos v) strs)"

definition decomp_char :: "node list \<Rightarrow> u32 \<Rightarrow> bytes \<Rightarrow> bytes \<Rightarrow> bytes" where
  "decomp_char ns r strs c = (case char_value ns r c of None \<Rightarrow> c | Some v \<Rightarrow> table_word strs v)"

lemma value_of_not_default: "value_of t \<noteq> 0xFFFFFFFF"
proof
  assume "value_of t = 0xFFFFFFFF"
  then have "unat (base t) = unat (0xFFFFFFFF :: u32)" by (simp add: value_of_def)
  then show False using unat_base_less [of t] by simp
qed

lemma char_value_not_default: "char_value ns r c = Some v \<Longrightarrow> v \<noteq> 0xFFFFFFFF"
  using value_of_not_default by (auto simp: char_value_def split: walk.splits)

context char_trie
begin

lemma quick_check_char:
  assumes "nodes nf = ns" "root nf = r" "utf8_char c" "0 \<notin> set ds"
  shows "quick_check nf (pre @ c @ ds) (length pre) = Some (char_value ns r c = None)"
  using find_value_char [OF assms] char_value_not_default [of ns r c]
  by (auto simp: quick_check_def split: option.splits)

lemma quick_check_end:
  assumes "nodes nf = ns" "root nf = r"
  shows "quick_check nf pre (length pre) = Some True"
  using find_value_end [OF assms] by (simp add: quick_check_def)

end

text \<open>
  A decomposition trie: the words its values denote lie in the string table and are themselves
  non-empty texts.
\<close>

locale decomp_trie = char_trie +
  fixes strs :: bytes
  assumes word_in: "utf8_char c \<Longrightarrow> char_value ns r c = Some v \<Longrightarrow>
      word_pos v + word_len v \<le> length strs"
    and word_text: "utf8_char c \<Longrightarrow> char_value ns r c = Some v \<Longrightarrow>
      \<exists>ds. ds \<noteq> [] \<and> utf8_split (table_word strs v) = Some ds"
begin

abbreviation decomp :: "bytes \<Rightarrow> bytes" where
  "decomp \<equiv> decomp_char ns r strs"

lemma word_append_eq:
  assumes "utf8_char c" "char_value ns r c = Some v"
  shows "word_append buffer (Some strs) v = Some (buffer @ table_word strs v)"
  using word_in [OF assms] by (simp add: word_append_def slice_def table_word_def)

text \<open>One turn of the loop decomposes one character of the range.\<close>

lemma decompose_step:
  fixes pre :: bytes
  assumes nf: "nodes nf = ns" "root nf = r" "value_ptr nf = Some strs"
    and c: "utf8_char c" and cs: "list_all utf8_char cs" and post: "list_all utf8_char post"
  defines "str \<equiv> pre @ c @ concat cs @ concat post"
    and "e \<equiv> length pre + length c + length (concat cs)"
  shows "decompose_loop nf (RangeCharStream str (length pre) e) buffer =
    (if cs \<noteq> [] then decompose_loop nf (RangeCharStream str (length pre + length c) e) (buffer @ decomp c)
     else Some (buffer @ decomp c))"
proof -
  let ?s = "\<lambda>n. RangeCharStream str (length pre + n) e"
  obtain b bs where b: "c = b # bs" "list_all cont_byte bs" using c by (rule utf8_charE)
  have rest: "rs_rest (?s n) = drop n c @ concat cs" if "n \<le> length c" for n
    using that by (simp add: rs_rest_def RangeCharStream_def str_def e_def)
  have "is_utf8_char_start_byte (str ! e)" if "e < length str"
    using that start_of_text [OF post] by (simp add: str_def e_def nth_append)
  then have valid: "rs_valid (?s n)" if "n \<le> length c" for n
    using that by (auto simp: rs_valid_def RangeCharStream_def str_def e_def)
  have adv: "rs_adv n (?s m) = ?s (m + n)" for m n by (simp add: rs_adv_def RangeCharStream_def)
  have eos: "rs_eos (?s (length c)) \<longleftrightarrow> cs = []"
    using cs by (cases cs) (auto simp: rs_eos_def RangeCharStream_def e_def)
  have nul: "0 \<notin> set (c @ concat cs)"
    using utf8_char_no_nul [OF c] text_no_nul [OF cs] by simp
  have search: "case trie_walk ns r c 0 of
      Hit t n \<Rightarrow> trie_search rs_read rs_prev nf r (?s 0) = Some (Some t, ?s n)
    | Miss n \<Rightarrow> trie_search rs_read rs_prev nf r (?s 0) = Some (None, ?s n)
    | Mid _ \<Rightarrow> True"
    using rs_search.trie_search_eq [OF nf(1) inner_root valid [of 0], of 0] nul
    by (simp add: rest [of 0, simplified] char_walk_append [OF c] adv [of _ 0, simplified] split: walk.splits)
  from char_walk [OF c] show ?thesis
  proof (elim disjE exE)
    fix t assume hit: "trie_walk ns r c 0 = Hit t (length c)"
    then have v: "char_value ns r c = Some (value_of t)" by (simp add: char_value_def)
    with hit search eos nf word_append_eq [OF c v] show ?thesis
      by (subst decompose_loop.simps) (simp add: decomp_char_def)
  next
    fix n assume miss: "trie_walk ns r c 0 = Miss n"
    then have v: "char_value ns r c = None" by (simp add: char_value_def)
    have n: "0 < n" "n \<le> length c" using trie_walk_Miss_le [OF miss] by auto
    have "takeWhile cont_byte (rs_rest (?s n)) = drop n c"
      unfolding rest [OF n(2)] using b n(1)
      by (intro takeWhile_cont_char [OF _ cs]) (cases n, auto simp: list_all_iff dest: in_set_dropD)
    then have "eat_until_utf8_char_start_point rs_peek rs_read (?s n) = Some (?s (length c))"
      using rs.eat_until_eq [OF valid [OF n(2)]] n(2) by (simp add: adv)
    moreover have "slice str (length pre) (length pre + length c) = Some c"
      by (simp add: str_def slice_append)
    ultimately show ?thesis
      using miss search eos v nf
      by (subst decompose_loop.simps) (simp add: decomp_char_def RangeCharStream_def)
  qed
qed

lemma decompose_eq:
  assumes nf: "nodes nf = ns" "root nf = r" "value_ptr nf = Some strs" and post: "list_all utf8_char post"
  shows "list_all utf8_char (c # cs) \<Longrightarrow>
    decompose nf (RangeCharStream (pre @ concat (c # cs) @ concat post) (length pre)
        (length pre + length (concat (c # cs)))) buffer =
      Some (buffer @ concat (map decomp (c # cs)))"
proof (induction cs arbitrary: c pre buffer)
  case Nil
  with decompose_step [OF nf _ _ post, of c "[]" pre buffer] show ?case
    by (simp add: decompose_def)
next
  case (Cons d ds)
  have "decompose_loop nf (RangeCharStream ((pre @ c) @ concat (d # ds) @ concat post) (length (pre @ c))
        (length (pre @ c) + length (concat (d # ds)))) (buffer @ decomp c) =
      Some ((buffer @ decomp c) @ concat (map decomp (d # ds)))"
    using Cons.IH [of d "pre @ c" "buffer @ decomp c"] Cons.prems by (simp add: decompose_def)
  with decompose_step [OF nf _ _ post, of c "d # ds" pre buffer] Cons.prems show ?case
    by (simp add: decompose_def add.assoc)
qed

end

end
