(* ===== verification/Normalizer.thy ===== *)
theory Normalizer
  imports Norm_Form
begin

text \<open>
  \<open>UNF::Normalizer\<close> of \<open>unf/normalizer.hh\<close>: scanning a text for parts that are not normalized,
  decomposing and recomposing those parts, and copying the rest. The class's members are a record;
  every member function takes it and, where the code changes a member, returns it.
\<close>

section \<open>Definitions\<close>

datatype form = FORM_NFD | FORM_NFC | FORM_NFKD | FORM_NFKC

record normalizer =
  nf_d :: searcher
  nf_kd :: searcher
  nf_c :: searcher
  nf_c_qc :: searcher
  nf_kc_qc :: searcher
  ccc :: searcher
  buffer :: bytes
  buffer2 :: bytes
  buffer3 :: bytes
  canonical_classes :: "u8 list"

text \<open>
  The tables of \<open>UNF::TABLE\<close> as the constructor uses them: the node array, the string table and
  the root index of each trie.
\<close>

record table =
  NODES :: "u32 list"
  STRINGS :: bytes
  CANONICAL_COM_ROOT :: u32
  CANONICAL_DECOM_ROOT :: u32
  COMPATIBILITY_DECOM_ROOT :: u32
  CANONICAL_CLASS_ROOT :: u32
  NFC_ILLEGAL_ROOT :: u32
  NFKC_ILLEGAL_ROOT :: u32

definition Normalizer :: "table \<Rightarrow> normalizer" where
  "Normalizer T =
     \<lparr>nf_d = NormalizationForm (NODES T) (CANONICAL_DECOM_ROOT T) (Some (STRINGS T)),
      nf_kd = NormalizationForm (NODES T) (COMPATIBILITY_DECOM_ROOT T) (Some (STRINGS T)),
      nf_c = NormalizationForm (NODES T) (CANONICAL_COM_ROOT T) (Some (STRINGS T)),
      nf_c_qc = NormalizationForm (NODES T) (NFC_ILLEGAL_ROOT T) None,
      nf_kc_qc = NormalizationForm (NODES T) (NFKC_ILLEGAL_ROOT T) None,
      ccc = CanonicalCombiningClass (NODES T) (CANONICAL_CLASS_ROOT T),
      buffer = [], buffer2 = [], buffer3 = [], canonical_classes = []\<rparr>"

partial_function (option) next_invalid_char_loop ::
    "normalizer \<Rightarrow> searcher \<Rightarrow> bytes \<Rightarrow> int \<Rightarrow> nat \<Rightarrow> nat \<Rightarrow> nat option" where
  "next_invalid_char_loop n nf str last_canonical_class starter cur = do {
     b \<leftarrow> rd str cur;
     if b \<noteq> 0 then do {
       k \<leftarrow> get_class (ccc n) str cur;
       let canonical_class = sint k;
       if last_canonical_class > canonical_class \<and> canonical_class \<noteq> 0 then Some starter
       else do {
         q \<leftarrow> quick_check nf str cur;
         if q = False then Some starter
         else do {
           let starter = (if canonical_class = 0 then cur else starter);
           let last_canonical_class = canonical_class;
           cur \<leftarrow> nearest_utf8_char_start_point str (cur + 1);
           next_invalid_char_loop n nf str last_canonical_class starter cur
         }
       }
     }
     else Some cur
   }"

definition next_invalid_char :: "normalizer \<Rightarrow> searcher \<Rightarrow> bytes \<Rightarrow> nat \<Rightarrow> nat option" where
  "next_invalid_char n nf str src = do {
     cur \<leftarrow> nearest_utf8_char_start_point str src;
     next_invalid_char_loop n nf str 0 cur cur
   }"

partial_function (option) next_valid_starter_loop ::
    "normalizer \<Rightarrow> searcher \<Rightarrow> bytes \<Rightarrow> nat \<Rightarrow> nat option" where
  "next_valid_starter_loop n nf str cur = do {
     k \<leftarrow> get_class (ccc n) str cur;
     again \<leftarrow> (if k \<noteq> 0 then Some True
       else do { q \<leftarrow> quick_check nf str cur; Some (q = False) });
     if again then do {
       cur \<leftarrow> nearest_utf8_char_start_point str (cur + 1);
       next_valid_starter_loop n nf str cur
     }
     else Some cur
   }"

definition next_valid_starter :: "normalizer \<Rightarrow> searcher \<Rightarrow> bytes \<Rightarrow> nat \<Rightarrow> nat option" where
  "next_valid_starter n nf str src = do {
     cur \<leftarrow> nearest_utf8_char_start_point str (src + 1);
     next_valid_starter_loop n nf str cur
   }"

text \<open>The buffer whose tail \<open>beg\<close> to \<open>end\<close> is put in order is \<open>buf\<close>; it is changed in place.\<close>

definition canonical_combining_class_ordering ::
    "normalizer \<Rightarrow> bytes \<Rightarrow> nat \<Rightarrow> nat \<Rightarrow> (normalizer \<times> bytes) option" where
  "canonical_combining_class_ordering n buf beg end' = do {
     let n = n\<lparr>canonical_classes := replicate (end' - beg + 1) 0\<rparr>;
     r \<leftarrow> ccc_sort (ccc n) buf beg (canonical_classes n);
     Some (n\<lparr>canonical_classes := snd r\<rparr>, fst r)
   }"

text \<open>\<open>last\<close> is an \<open>unsigned\<close>: the size of the buffer modulo \<open>2\<^sup>3\<^sup>2\<close>.\<close>

definition decompose_one ::
    "normalizer \<Rightarrow> bytes \<Rightarrow> nat \<Rightarrow> nat \<Rightarrow> searcher \<Rightarrow> bytes \<Rightarrow> (normalizer \<times> bytes) option" where
  "decompose_one n str beg end' nf buf = do {
     let last = (of_nat (length buf) :: u32);
     buf \<leftarrow> decompose nf (RangeCharStream str beg end') buf;
     canonical_combining_class_ordering n buf (unat last) (length buf)
   }"

partial_function (option) norm_decompose_loop ::
    "normalizer \<Rightarrow> searcher \<Rightarrow> bytes \<Rightarrow> nat \<Rightarrow> normalizer option" where
  "norm_decompose_loop n nf str beg = do {
     end' \<leftarrow> next_valid_starter n nf str beg;
     r \<leftarrow> decompose_one n str beg end' nf (buffer n);
     let n = (fst r)\<lparr>buffer := snd r\<rparr>;
     beg \<leftarrow> next_invalid_char n nf str end';
     xs \<leftarrow> slice str end' beg;
     let n = n\<lparr>buffer := buffer n @ xs\<rparr>;
     b \<leftarrow> rd str beg;
     if b \<noteq> 0 then norm_decompose_loop n nf str beg else Some n
   }"

text \<open>
  The pointer that a normalization returns is the argument itself (\<open>Source\<close>) or the contents of
  the member \<open>buffer\<close> (\<open>Buffer_c_str\<close>); \<open>result_text\<close> is the string it points to.
\<close>

datatype result = Source nat | Buffer_c_str

definition result_text :: "bytes \<Rightarrow> result \<times> normalizer \<Rightarrow> bytes" where
  "result_text str r = (case fst r of Source p \<Rightarrow> drop p str | Buffer_c_str \<Rightarrow> buffer (snd r))"

definition norm_decompose ::
    "normalizer \<Rightarrow> bytes \<Rightarrow> nat \<Rightarrow> searcher \<Rightarrow> (result \<times> normalizer) option" where
  "norm_decompose n str src nf = do {
     beg \<leftarrow> next_invalid_char n nf str src;
     b \<leftarrow> rd str beg;
     if b = 0 then Some (Source src, n)
     else do {
       xs \<leftarrow> slice str src beg;
       n \<leftarrow> norm_decompose_loop (n\<lparr>buffer := xs\<rparr>) nf str beg;
       Some (Buffer_c_str, n)
     }
   }"

partial_function (option) compose_one_loop ::
    "searcher \<Rightarrow> char_stream_for_composition \<Rightarrow> bytes \<Rightarrow> (char_stream_for_composition \<times> bytes) option" where
  "compose_one_loop nf inp buf = do {
     w \<leftarrow> within_first inp;
     if w then do {
       r \<leftarrow> compose nf inp buf;
       compose_one_loop nf (fst r) (snd r)
     }
     else Some (inp, buf)
   }"

text \<open>\<open>starter\<close> is \<open>buffer2.c_str()\<close>, \<open>rest_starter\<close> a pointer into the source text.\<close>

definition compose_one ::
    "normalizer \<Rightarrow> bytes \<Rightarrow> nat \<Rightarrow> bytes \<Rightarrow> (ptr \<times> normalizer \<times> bytes) option" where
  "compose_one n str rest_starter buf = do {
     let inp = CharStreamForComposition (buffer2 n) (First 0) str (Second rest_starter)
                 (canonical_classes n) (buffer3 n);
     r \<leftarrow> compose_one_loop (nf_c n) inp buf;
     p \<leftarrow> ccs_cur (fst r);
     Some (p, n\<lparr>buffer3 := skipped (fst r)\<rparr>, snd r)
   }"

text \<open>
  The scan continues in the source text from the pointer that \<open>compose_one\<close> returns; a pointer
  into \<open>buffer2\<close> would make it run on in the wrong string, which is undefined here.
\<close>

fun in_source :: "ptr \<Rightarrow> nat option" where
  "in_source (First p) = None"
| "in_source (Second p) = Some p"

partial_function (option) norm_compose_loop ::
    "normalizer \<Rightarrow> searcher \<Rightarrow> searcher \<Rightarrow> bytes \<Rightarrow> nat \<Rightarrow> normalizer option" where
  "norm_compose_loop n nf nf_decomp str beg = do {
     b \<leftarrow> rd str beg;
     if b \<noteq> 0 then do {
       end' \<leftarrow> next_valid_starter n nf str beg;
       r \<leftarrow> decompose_one n str beg end' nf_decomp [];
       let n = (fst r)\<lparr>buffer2 := snd r\<rparr>;
       r \<leftarrow> compose_one n str end' (buffer n);
       let n = (fst (snd r))\<lparr>buffer := snd (snd r)\<rparr>;
       end' \<leftarrow> in_source (fst r);
       beg \<leftarrow> next_invalid_char n nf str end';
       xs \<leftarrow> slice str end' beg;
       norm_compose_loop (n\<lparr>buffer := buffer n @ xs\<rparr>) nf nf_decomp str beg
     }
     else Some n
   }"

definition norm_compose ::
    "normalizer \<Rightarrow> bytes \<Rightarrow> nat \<Rightarrow> searcher \<Rightarrow> searcher \<Rightarrow> (result \<times> normalizer) option" where
  "norm_compose n str src nf nf_decomp = do {
     beg \<leftarrow> next_invalid_char n nf str src;
     b \<leftarrow> rd str beg;
     if b = 0 then Some (Source src, n)
     else do {
       xs \<leftarrow> slice str src beg;
       n \<leftarrow> norm_compose_loop (n\<lparr>buffer := xs\<rparr>) nf nf_decomp str beg;
       Some (Buffer_c_str, n)
     }
   }"

definition nfd :: "normalizer \<Rightarrow> bytes \<Rightarrow> nat \<Rightarrow> (result \<times> normalizer) option" where
  "nfd n str src = norm_decompose n str src (nf_d n)"

definition nfkd :: "normalizer \<Rightarrow> bytes \<Rightarrow> nat \<Rightarrow> (result \<times> normalizer) option" where
  "nfkd n str src = norm_decompose n str src (nf_kd n)"

definition nfc :: "normalizer \<Rightarrow> bytes \<Rightarrow> nat \<Rightarrow> (result \<times> normalizer) option" where
  "nfc n str src = norm_compose n str src (nf_c_qc n) (nf_d n)"

definition nfkc :: "normalizer \<Rightarrow> bytes \<Rightarrow> nat \<Rightarrow> (result \<times> normalizer) option" where
  "nfkc n str src = norm_compose n str src (nf_kc_qc n) (nf_kd n)"

text \<open>The \<open>default\<close> branch of the \<open>switch\<close> has no counterpart: \<open>form\<close> has no other values.\<close>

fun normalize :: "normalizer \<Rightarrow> bytes \<Rightarrow> nat \<Rightarrow> form \<Rightarrow> (result \<times> normalizer) option" where
  "normalize n str src FORM_NFD = nfd n str src"
| "normalize n str src FORM_NFC = nfc n str src"
| "normalize n str src FORM_NFKD = nfkd n str src"
| "normalize n str src FORM_NFKC = nfkc n str src"

end
