(* ===== verification/Table_Access.thy ===== *)
theory Table_Access
  imports Prelude
begin

text \<open>
  Reading the generated tables inside the logic. A table is kept as in the source, as a list of
  lines of literals. This theory splits a literal into its upper and lower bits by rewriting, and
  cuts a table into blocks of sixteen entries that the simplifier finds by their number
  (\<open>blocks\<close>). A check over a table is a predicate of a block, handed to \<open>with_block\<close>, so that a
  block is never traversed but for the entries the check asks for.
\<close>

section \<open>Splitting a literal\<close>

text \<open>\<open>bits\<close> says how many low bits there are, one list element per bit.\<close>

fun upper :: "unit list \<Rightarrow> num \<Rightarrow> nat" where
  "upper (x # bits) num.One = 0"
| "upper (x # bits) (num.Bit0 n) = upper bits n"
| "upper (x # bits) (num.Bit1 n) = upper bits n"
| "upper [] n = numeral n"

definition twice :: "nat \<Rightarrow> nat" where
  "twice n = 2 * n"

definition twice_plus :: "nat \<Rightarrow> nat" where
  "twice_plus n = 2 * n + 1"

fun lower :: "unit list \<Rightarrow> num \<Rightarrow> nat" where
  "lower (x # bits) num.One = 1"
| "lower (x # bits) (num.Bit0 n) = twice (lower bits n)"
| "lower (x # bits) (num.Bit1 n) = twice_plus (lower bits n)"
| "lower [] n = 0"

lemma twice_simps:
  "twice 0 = 0" "twice 1 = 2" "twice (numeral k) = numeral (num.Bit0 k)"
  "twice_plus 0 = 1" "twice_plus 1 = 3" "twice_plus (numeral k) = numeral (num.Bit1 k)"
  by (simp_all add: twice_def twice_plus_def numeral_Bit0 numeral_Bit1)

lemma upper_eq: "upper bits n = numeral n div 2 ^ length bits"
proof (induction bits n rule: upper.induct)
  case (1 x bits)
  then show ?case using one_less_power [of "2 :: nat" "Suc (length bits)"] by (simp add: div_eq_0_iff)
next
  case (2 x bits n)
  then show ?case by (simp add: div_mult2_eq numeral_Bit0_div_2)
next
  case (3 x bits n)
  then show ?case by (simp add: div_mult2_eq numeral_Bit1_div_2)
qed simp

lemma mod_double: "(2 * a + b) mod (2 * m) = 2 * (a mod m) + b" if "b < 2" for a b m :: nat
proof -
  have "(2 * a + b) mod (2 * m) = 2 * ((2 * a + b) div 2 mod m) + (2 * a + b) mod 2"
    by (rule mod_mult2_eq)
  moreover have "(2 * a + b) div 2 = a" "(2 * a + b) mod 2 = b" using that by auto
  ultimately show ?thesis by simp
qed

lemma numeral_double:
  "(numeral (num.Bit0 n) :: nat) = 2 * numeral n + 0" "(numeral (num.Bit1 n) :: nat) = 2 * numeral n + 1"
  by (subst numeral_Bit0 numeral_Bit1, simp only: mult_2 add_0_right)+

lemma lower_eq: "lower bits n = numeral n mod 2 ^ length bits"
proof (induction bits n rule: lower.induct)
  case (1 x bits)
  then show ?case using one_less_power [of "2 :: nat" "Suc (length bits)"] by simp
next
  case (2 x bits n)
  have "numeral (num.Bit0 n) mod (2 * 2 ^ length bits) = 2 * (numeral n mod 2 ^ length bits) + (0 :: nat)"
    by (subst numeral_double, rule mod_double) simp
  with 2 show ?case by (simp only: lower.simps twice_def length_Cons power_Suc add_0_right)
next
  case (3 x bits n)
  have "numeral (num.Bit1 n) mod (2 * 2 ^ length bits) = 2 * (numeral n mod 2 ^ length bits) + (1 :: nat)"
    by (subst numeral_double, rule mod_double) simp
  with 3 show ?case by (simp only: lower.simps twice_plus_def length_Cons power_Suc)
qed simp

definition bits24 :: "unit list" where
  "bits24 = [(), (), (), (), (), (), (), (), (), (), (), (), (), (), (), (), (), (), (), (), (), (), (), ()]"

definition bits18 :: "unit list" where
  "bits18 = [(), (), (), (), (), (), (), (), (), (), (), (), (), (), (), (), (), ()]"

definition hi24 :: "nat \<Rightarrow> nat" where
  "hi24 d = d div 2 ^ 24"

definition lo24 :: "nat \<Rightarrow> nat" where
  "lo24 d = d mod 2 ^ 24"

definition hi18 :: "nat \<Rightarrow> nat" where
  "hi18 d = d div 2 ^ 18"

definition lo18 :: "nat \<Rightarrow> nat" where
  "lo18 d = d mod 2 ^ 18"

lemma split24:
  "hi24 (numeral n) = upper bits24 n" "lo24 (numeral n) = lower bits24 n"
  "hi24 0 = 0" "lo24 0 = 0" "hi24 1 = 0" "lo24 1 = 1"
  by (simp_all add: upper_eq lower_eq bits24_def hi24_def lo24_def)

lemma split18:
  "hi18 (numeral n) = upper bits18 n" "lo18 (numeral n) = lower bits18 n"
  "hi18 0 = 0" "lo18 0 = 0" "hi18 1 = 0" "lo18 1 = 1"
  by (simp_all add: upper_eq lower_eq bits18_def hi18_def lo18_def)

text \<open>Whether a literal has at most as many bits as \<open>bits\<close> has elements.\<close>

fun short :: "unit list \<Rightarrow> num \<Rightarrow> bool" where
  "short (x # bits) num.One = True"
| "short (x # bits) (num.Bit0 n) = short bits n"
| "short (x # bits) (num.Bit1 n) = short bits n"
| "short [] n = False"

text \<open>
  Comparison of the low bits of a literal with a constant, from the lowest bit up, and of the
  number of its other bits with \<open>hs\<close>; a literal with no other bits passes.
\<close>

fun low_less :: "unit list \<Rightarrow> bool list \<Rightarrow> num \<Rightarrow> bool \<Rightarrow> bool" where
  "low_less hs [] n True = short hs n"
| "low_less hs [] n False = False"
| "low_less hs (b # bs) num.One l = True"
| "low_less hs (True # bs) (num.Bit0 n) l = low_less hs bs n True"
| "low_less hs (True # bs) (num.Bit1 n) l = low_less hs bs n l"
| "low_less hs (False # bs) (num.Bit0 n) l = low_less hs bs n l"
| "low_less hs (False # bs) (num.Bit1 n) l = low_less hs bs n False"

fun bits_value :: "bool list \<Rightarrow> nat" where
  "bits_value [] = 0"
| "bits_value (b # bs) = of_bool b + 2 * bits_value bs"

lemma double_less:
  "(numeral (num.Bit0 n) :: nat) < 2 * m \<longleftrightarrow> numeral n < m"
  "(numeral (num.Bit1 n) :: nat) < 2 * m \<longleftrightarrow> numeral n < m"
proof -
  have "(2 * numeral n + 1 :: nat) < 2 * m \<longleftrightarrow> numeral n < m" by linarith
  then show "(numeral (num.Bit1 n) :: nat) < 2 * m \<longleftrightarrow> numeral n < m"
    by (simp only: numeral_double [of n])
  show "(numeral (num.Bit0 n) :: nat) < 2 * m \<longleftrightarrow> numeral n < m"
    by (simp only: numeral_double(1) [of n]) linarith
qed

lemma double_mod:
  "(numeral (num.Bit0 n) :: nat) mod (2 * m) = 2 * (numeral n mod m)"
  "(numeral (num.Bit1 n) :: nat) mod (2 * m) = 2 * (numeral n mod m) + 1"
  using mod_double [of 0 "numeral n" m] mod_double [of 1 "numeral n" m]
  by (simp_all only: numeral_double [of n] add_0_right)

lemma short_eq: "short bits n \<longleftrightarrow> (numeral n :: nat) < 2 ^ length bits"
proof (induction bits n rule: short.induct)
  case (1 x bits)
  then show ?case using one_less_power [of "2 :: nat" "Suc (length bits)"] by simp
qed (simp_all only: short.simps length_Cons power_Suc double_less, simp)

lemma low_less_eq:
  "low_less hs bs n l \<longleftrightarrow> numeral n < (2 :: nat) ^ length bs \<or>
     numeral n < (2 :: nat) ^ (length bs + length hs) \<and>
       (numeral n mod 2 ^ length bs < bits_value bs \<or> numeral n mod 2 ^ length bs = bits_value bs \<and> l)"
proof (induction hs bs n l rule: low_less.induct)
  case (3 hs b bs l)
  then show ?case using one_less_power [of "2 :: nat" "Suc (length bs)"] by simp
qed (simp_all only: low_less.simps short_eq length_Cons list.size(3) add_Suc power_Suc double_less
    double_mod bits_value.simps of_bool_eq power_0 mod_by_1 add_0_left add_0, auto)

text \<open>
  Comparison of the low bits of a literal with a constant whose highest bit is set; a literal with
  fewer bits is smaller than the constant.
\<close>

fun low_below :: "bool list \<Rightarrow> num \<Rightarrow> bool \<Rightarrow> bool" where
  "low_below [] n l = l"
| "low_below [b] num.One l = (b \<and> l)"
| "low_below (b # c # bs) num.One l = True"
| "low_below (True # bs) (num.Bit0 n) l = low_below bs n True"
| "low_below (True # bs) (num.Bit1 n) l = low_below bs n l"
| "low_below (False # bs) (num.Bit0 n) l = low_below bs n l"
| "low_below (False # bs) (num.Bit1 n) l = low_below bs n False"

lemma last_value: "bs \<noteq> [] \<Longrightarrow> last bs \<Longrightarrow> 0 < bits_value bs"
  by (induction bs) (auto split: if_splits)

lemma low_below_eq:
  "bs = [] \<or> last bs \<Longrightarrow> low_below bs n l \<longleftrightarrow>
     numeral n mod 2 ^ length bs < bits_value bs \<or> numeral n mod 2 ^ length bs = bits_value bs \<and> l"
proof (induction bs n l rule: low_below.induct)
  case (3 b c bs l)
  have "Suc 0 mod (2 * (2 * 2 ^ length bs)) = 1"
    using one_less_power [of "2 :: nat" "Suc (Suc (length bs))"] by simp
  moreover have "0 < bits_value (c # bs)" using last_value [of "c # bs"] 3 by simp
  ultimately show ?case by auto
qed (simp_all only: low_below.simps length_Cons list.size(3) power_Suc power_0 mod_by_1
    double_mod bits_value.simps of_bool_eq add_0_left add_0 last_ConsR, auto split: if_splits)

section \<open>Blocks of a table\<close>

text \<open>
  \<open>f P n\<close> is the check \<open>P\<close> on block \<open>n\<close> of the entries: the blocks of \<open>xs\<close> are those from \<open>i\<close> on.
\<close>

definition blocks :: "(('a list \<Rightarrow> bool) \<Rightarrow> nat \<Rightarrow> bool) \<Rightarrow> nat \<Rightarrow> 'a list \<Rightarrow> bool" where
  "blocks f i xs \<longleftrightarrow>
     (\<forall>j. 16 * j < length xs \<longrightarrow> (\<forall>P. f P (i + j) = P (take 16 (drop (16 * j) xs))))"

definition line_blocks :: "(('a list \<Rightarrow> bool) \<Rightarrow> nat \<Rightarrow> bool) \<Rightarrow> nat \<Rightarrow> 'a list list \<Rightarrow> bool" where
  "line_blocks f i ls = blocks f i (concat ls)"

definition with_block :: "'a list list \<Rightarrow> ('a list \<Rightarrow> bool) \<Rightarrow> nat \<Rightarrow> bool" where
  "with_block ls P n = P (take 16 (drop (16 * n) (concat ls)))"

lemma line_blocks_with_block: "line_blocks (with_block ls) 0 ls"
  by (simp add: line_blocks_def blocks_def with_block_def)

lemma blocks_append:
  assumes "length xs = 16 * m"
  shows "blocks f i (xs @ ys) \<longleftrightarrow> blocks f i xs \<and> blocks f (i + m) ys"
proof (intro iffI conjI)
  assume l: "blocks f i (xs @ ys)"
  show "blocks f i xs"
    unfolding blocks_def
  proof (intro allI impI)
    fix j P
    assume "16 * j < length xs"
    then have "16 * j + 16 \<le> length xs" using assms by simp
    then show "f P (i + j) = P (take 16 (drop (16 * j) xs))"
      using l [unfolded blocks_def, rule_format, of j P] by simp
  qed
  show "blocks f (i + m) ys"
    unfolding blocks_def
    using l [unfolded blocks_def, rule_format, of "m + _"] assms
    by (simp add: add.assoc distrib_left)
next
  assume r: "blocks f i xs \<and> blocks f (i + m) ys"
  show "blocks f i (xs @ ys)"
    unfolding blocks_def
  proof (intro allI impI)
    fix j P
    assume j: "16 * j < length (xs @ ys)"
    show "f P (i + j) = P (take 16 (drop (16 * j) (xs @ ys)))"
    proof (cases "j < m")
      case True
      then have "16 * j + 16 \<le> length xs" using assms by simp
      then show ?thesis
        using conjunct1 [OF r, unfolded blocks_def, rule_format, of j P] by simp
    next
      case False
      then obtain k where "j = m + k" using le_Suc_ex [of m j] by auto
      then show ?thesis
        using conjunct2 [OF r, unfolded blocks_def, rule_format, of k P] j assms
        by (simp add: add.assoc distrib_left)
    qed
  qed
qed

lemma blocks_one: "xs \<noteq> [] \<Longrightarrow> length xs \<le> 16 \<Longrightarrow> blocks f i xs \<longleftrightarrow> (\<forall>P. f P i = P xs)"
proof -
  assume "xs \<noteq> []" "length xs \<le> 16"
  then have "16 * j < length xs \<longleftrightarrow> j = 0" for j by (cases j) auto
  with \<open>length xs \<le> 16\<close> show ?thesis by (simp add: blocks_def)
qed

lemma line_blocks_append:
  assumes "length (concat as) = 16 * m"
  shows "line_blocks f i (as @ bs) \<longleftrightarrow> line_blocks f i as \<and> line_blocks f (i + m) bs"
  using blocks_append [OF assms] by (simp add: line_blocks_def)

lemma blocks_Nil: "blocks f i []"
  by (simp add: blocks_def)

lemma line_blocks_Nil: "line_blocks f i []"
  by (simp add: line_blocks_def blocks_Nil)

lemma blocks_16:
  "blocks f i (a0 # a1 # a2 # a3 # a4 # a5 # a6 # a7 # a8 # a9 # a10 # a11 # a12 # a13 # a14 # a15 # xs) \<longleftrightarrow>
     (\<forall>P. f P i = P [a0, a1, a2, a3, a4, a5, a6, a7, a8, a9, a10, a11, a12, a13, a14, a15]) \<and> blocks f (Suc i) xs"
  using blocks_append [of "[a0, a1, a2, a3, a4, a5, a6, a7, a8, a9, a10, a11, a12, a13, a14, a15]" 1 f i xs] by (simp add: blocks_one)

text \<open>
  The rules that cut a table: eight lines of ten entries, or four lines of twenty, are five
  blocks, and three times as many lines are three such groups. What remains at the end of a
  table is less than that.
\<close>

lemma line_blocks_8_10:
  "line_blocks f i
     ([a0, a1, a2, a3, a4, a5, a6, a7, a8, a9] #
      [a10, a11, a12, a13, a14, a15, a16, a17, a18, a19] #
      [a20, a21, a22, a23, a24, a25, a26, a27, a28, a29] #
      [a30, a31, a32, a33, a34, a35, a36, a37, a38, a39] #
      [a40, a41, a42, a43, a44, a45, a46, a47, a48, a49] #
      [a50, a51, a52, a53, a54, a55, a56, a57, a58, a59] #
      [a60, a61, a62, a63, a64, a65, a66, a67, a68, a69] #
      [a70, a71, a72, a73, a74, a75, a76, a77, a78, a79] # ls) \<longleftrightarrow>
     ((\<forall>P. f P i = P [a0, a1, a2, a3, a4, a5, a6, a7, a8, a9, a10, a11, a12, a13, a14, a15]) \<and>
       (\<forall>P. f P (Suc i) = P [a16, a17, a18, a19, a20, a21, a22, a23, a24, a25, a26, a27, a28, a29, a30, a31]) \<and>
       (\<forall>P. f P (Suc (Suc i)) = P [a32, a33, a34, a35, a36, a37, a38, a39, a40, a41, a42, a43, a44, a45, a46, a47]) \<and>
       (\<forall>P. f P (Suc (Suc (Suc i))) = P [a48, a49, a50, a51, a52, a53, a54, a55, a56, a57, a58, a59, a60, a61, a62, a63]) \<and>
       (\<forall>P. f P (Suc (Suc (Suc (Suc i)))) = P [a64, a65, a66, a67, a68, a69, a70, a71, a72, a73, a74, a75, a76, a77, a78, a79])) \<and>
     line_blocks f (Suc (Suc (Suc (Suc (Suc i))))) ls"
  by (simp only: line_blocks_def concat.simps append.simps blocks_16 conj_assoc)

lemma line_blocks_4_20:
  "line_blocks f i
     ([a0, a1, a2, a3, a4, a5, a6, a7, a8, a9, a10, a11, a12, a13, a14, a15, a16, a17, a18, a19] #
      [a20, a21, a22, a23, a24, a25, a26, a27, a28, a29, a30, a31, a32, a33, a34, a35, a36, a37, a38, a39] #
      [a40, a41, a42, a43, a44, a45, a46, a47, a48, a49, a50, a51, a52, a53, a54, a55, a56, a57, a58, a59] #
      [a60, a61, a62, a63, a64, a65, a66, a67, a68, a69, a70, a71, a72, a73, a74, a75, a76, a77, a78, a79] # ls) \<longleftrightarrow>
     ((\<forall>P. f P i = P [a0, a1, a2, a3, a4, a5, a6, a7, a8, a9, a10, a11, a12, a13, a14, a15]) \<and>
       (\<forall>P. f P (Suc i) = P [a16, a17, a18, a19, a20, a21, a22, a23, a24, a25, a26, a27, a28, a29, a30, a31]) \<and>
       (\<forall>P. f P (Suc (Suc i)) = P [a32, a33, a34, a35, a36, a37, a38, a39, a40, a41, a42, a43, a44, a45, a46, a47]) \<and>
       (\<forall>P. f P (Suc (Suc (Suc i))) = P [a48, a49, a50, a51, a52, a53, a54, a55, a56, a57, a58, a59, a60, a61, a62, a63]) \<and>
       (\<forall>P. f P (Suc (Suc (Suc (Suc i)))) = P [a64, a65, a66, a67, a68, a69, a70, a71, a72, a73, a74, a75, a76, a77, a78, a79])) \<and>
     line_blocks f (Suc (Suc (Suc (Suc (Suc i))))) ls"
  by (simp only: line_blocks_def concat.simps append.simps blocks_16 conj_assoc)

lemma line_blocks_24_10:
  "line_blocks f i
     ([a0, a1, a2, a3, a4, a5, a6, a7, a8, a9] #
      [a10, a11, a12, a13, a14, a15, a16, a17, a18, a19] #
      [a20, a21, a22, a23, a24, a25, a26, a27, a28, a29] #
      [a30, a31, a32, a33, a34, a35, a36, a37, a38, a39] #
      [a40, a41, a42, a43, a44, a45, a46, a47, a48, a49] #
      [a50, a51, a52, a53, a54, a55, a56, a57, a58, a59] #
      [a60, a61, a62, a63, a64, a65, a66, a67, a68, a69] #
      [a70, a71, a72, a73, a74, a75, a76, a77, a78, a79] #
      [a80, a81, a82, a83, a84, a85, a86, a87, a88, a89] #
      [a90, a91, a92, a93, a94, a95, a96, a97, a98, a99] #
      [a100, a101, a102, a103, a104, a105, a106, a107, a108, a109] #
      [a110, a111, a112, a113, a114, a115, a116, a117, a118, a119] #
      [a120, a121, a122, a123, a124, a125, a126, a127, a128, a129] #
      [a130, a131, a132, a133, a134, a135, a136, a137, a138, a139] #
      [a140, a141, a142, a143, a144, a145, a146, a147, a148, a149] #
      [a150, a151, a152, a153, a154, a155, a156, a157, a158, a159] #
      [a160, a161, a162, a163, a164, a165, a166, a167, a168, a169] #
      [a170, a171, a172, a173, a174, a175, a176, a177, a178, a179] #
      [a180, a181, a182, a183, a184, a185, a186, a187, a188, a189] #
      [a190, a191, a192, a193, a194, a195, a196, a197, a198, a199] #
      [a200, a201, a202, a203, a204, a205, a206, a207, a208, a209] #
      [a210, a211, a212, a213, a214, a215, a216, a217, a218, a219] #
      [a220, a221, a222, a223, a224, a225, a226, a227, a228, a229] #
      [a230, a231, a232, a233, a234, a235, a236, a237, a238, a239] # ls) \<longleftrightarrow>
     (((\<forall>P. f P i = P [a0, a1, a2, a3, a4, a5, a6, a7, a8, a9, a10, a11, a12, a13, a14, a15]) \<and>
       (\<forall>P. f P (Suc i) = P [a16, a17, a18, a19, a20, a21, a22, a23, a24, a25, a26, a27, a28, a29, a30, a31]) \<and>
       (\<forall>P. f P (Suc (Suc i)) = P [a32, a33, a34, a35, a36, a37, a38, a39, a40, a41, a42, a43, a44, a45, a46, a47]) \<and>
       (\<forall>P. f P (Suc (Suc (Suc i))) = P [a48, a49, a50, a51, a52, a53, a54, a55, a56, a57, a58, a59, a60, a61, a62, a63]) \<and>
       (\<forall>P. f P (Suc (Suc (Suc (Suc i)))) = P [a64, a65, a66, a67, a68, a69, a70, a71, a72, a73, a74, a75, a76, a77, a78, a79])) \<and>
      ((\<forall>P. f P (Suc (Suc (Suc (Suc (Suc i))))) = P [a80, a81, a82, a83, a84, a85, a86, a87, a88, a89, a90, a91, a92, a93, a94, a95]) \<and>
       (\<forall>P. f P (Suc (Suc (Suc (Suc (Suc (Suc i)))))) = P [a96, a97, a98, a99, a100, a101, a102, a103, a104, a105, a106, a107, a108, a109, a110, a111]) \<and>
       (\<forall>P. f P (Suc (Suc (Suc (Suc (Suc (Suc (Suc i))))))) = P [a112, a113, a114, a115, a116, a117, a118, a119, a120, a121, a122, a123, a124, a125, a126, a127]) \<and>
       (\<forall>P. f P (Suc (Suc (Suc (Suc (Suc (Suc (Suc (Suc i)))))))) = P [a128, a129, a130, a131, a132, a133, a134, a135, a136, a137, a138, a139, a140, a141, a142, a143]) \<and>
       (\<forall>P. f P (Suc (Suc (Suc (Suc (Suc (Suc (Suc (Suc (Suc i))))))))) = P [a144, a145, a146, a147, a148, a149, a150, a151, a152, a153, a154, a155, a156, a157, a158, a159])) \<and>
      ((\<forall>P. f P (Suc (Suc (Suc (Suc (Suc (Suc (Suc (Suc (Suc (Suc i)))))))))) = P [a160, a161, a162, a163, a164, a165, a166, a167, a168, a169, a170, a171, a172, a173, a174, a175]) \<and>
       (\<forall>P. f P (Suc (Suc (Suc (Suc (Suc (Suc (Suc (Suc (Suc (Suc (Suc i))))))))))) = P [a176, a177, a178, a179, a180, a181, a182, a183, a184, a185, a186, a187, a188, a189, a190, a191]) \<and>
       (\<forall>P. f P (Suc (Suc (Suc (Suc (Suc (Suc (Suc (Suc (Suc (Suc (Suc (Suc i)))))))))))) = P [a192, a193, a194, a195, a196, a197, a198, a199, a200, a201, a202, a203, a204, a205, a206, a207]) \<and>
       (\<forall>P. f P (Suc (Suc (Suc (Suc (Suc (Suc (Suc (Suc (Suc (Suc (Suc (Suc (Suc i))))))))))))) = P [a208, a209, a210, a211, a212, a213, a214, a215, a216, a217, a218, a219, a220, a221, a222, a223]) \<and>
       (\<forall>P. f P (Suc (Suc (Suc (Suc (Suc (Suc (Suc (Suc (Suc (Suc (Suc (Suc (Suc (Suc i)))))))))))))) = P [a224, a225, a226, a227, a228, a229, a230, a231, a232, a233, a234, a235, a236, a237, a238, a239]))) \<and>
     line_blocks f (Suc (Suc (Suc (Suc (Suc (Suc (Suc (Suc (Suc (Suc (Suc (Suc (Suc (Suc (Suc i))))))))))))))) ls"
  by (simp only: line_blocks_def concat.simps append.simps blocks_16 conj_assoc)

lemma line_blocks_12_20:
  "line_blocks f i
     ([a0, a1, a2, a3, a4, a5, a6, a7, a8, a9, a10, a11, a12, a13, a14, a15, a16, a17, a18, a19] #
      [a20, a21, a22, a23, a24, a25, a26, a27, a28, a29, a30, a31, a32, a33, a34, a35, a36, a37, a38, a39] #
      [a40, a41, a42, a43, a44, a45, a46, a47, a48, a49, a50, a51, a52, a53, a54, a55, a56, a57, a58, a59] #
      [a60, a61, a62, a63, a64, a65, a66, a67, a68, a69, a70, a71, a72, a73, a74, a75, a76, a77, a78, a79] #
      [a80, a81, a82, a83, a84, a85, a86, a87, a88, a89, a90, a91, a92, a93, a94, a95, a96, a97, a98, a99] #
      [a100, a101, a102, a103, a104, a105, a106, a107, a108, a109, a110, a111, a112, a113, a114, a115, a116, a117, a118, a119] #
      [a120, a121, a122, a123, a124, a125, a126, a127, a128, a129, a130, a131, a132, a133, a134, a135, a136, a137, a138, a139] #
      [a140, a141, a142, a143, a144, a145, a146, a147, a148, a149, a150, a151, a152, a153, a154, a155, a156, a157, a158, a159] #
      [a160, a161, a162, a163, a164, a165, a166, a167, a168, a169, a170, a171, a172, a173, a174, a175, a176, a177, a178, a179] #
      [a180, a181, a182, a183, a184, a185, a186, a187, a188, a189, a190, a191, a192, a193, a194, a195, a196, a197, a198, a199] #
      [a200, a201, a202, a203, a204, a205, a206, a207, a208, a209, a210, a211, a212, a213, a214, a215, a216, a217, a218, a219] #
      [a220, a221, a222, a223, a224, a225, a226, a227, a228, a229, a230, a231, a232, a233, a234, a235, a236, a237, a238, a239] # ls) \<longleftrightarrow>
     (((\<forall>P. f P i = P [a0, a1, a2, a3, a4, a5, a6, a7, a8, a9, a10, a11, a12, a13, a14, a15]) \<and>
       (\<forall>P. f P (Suc i) = P [a16, a17, a18, a19, a20, a21, a22, a23, a24, a25, a26, a27, a28, a29, a30, a31]) \<and>
       (\<forall>P. f P (Suc (Suc i)) = P [a32, a33, a34, a35, a36, a37, a38, a39, a40, a41, a42, a43, a44, a45, a46, a47]) \<and>
       (\<forall>P. f P (Suc (Suc (Suc i))) = P [a48, a49, a50, a51, a52, a53, a54, a55, a56, a57, a58, a59, a60, a61, a62, a63]) \<and>
       (\<forall>P. f P (Suc (Suc (Suc (Suc i)))) = P [a64, a65, a66, a67, a68, a69, a70, a71, a72, a73, a74, a75, a76, a77, a78, a79])) \<and>
      ((\<forall>P. f P (Suc (Suc (Suc (Suc (Suc i))))) = P [a80, a81, a82, a83, a84, a85, a86, a87, a88, a89, a90, a91, a92, a93, a94, a95]) \<and>
       (\<forall>P. f P (Suc (Suc (Suc (Suc (Suc (Suc i)))))) = P [a96, a97, a98, a99, a100, a101, a102, a103, a104, a105, a106, a107, a108, a109, a110, a111]) \<and>
       (\<forall>P. f P (Suc (Suc (Suc (Suc (Suc (Suc (Suc i))))))) = P [a112, a113, a114, a115, a116, a117, a118, a119, a120, a121, a122, a123, a124, a125, a126, a127]) \<and>
       (\<forall>P. f P (Suc (Suc (Suc (Suc (Suc (Suc (Suc (Suc i)))))))) = P [a128, a129, a130, a131, a132, a133, a134, a135, a136, a137, a138, a139, a140, a141, a142, a143]) \<and>
       (\<forall>P. f P (Suc (Suc (Suc (Suc (Suc (Suc (Suc (Suc (Suc i))))))))) = P [a144, a145, a146, a147, a148, a149, a150, a151, a152, a153, a154, a155, a156, a157, a158, a159])) \<and>
      ((\<forall>P. f P (Suc (Suc (Suc (Suc (Suc (Suc (Suc (Suc (Suc (Suc i)))))))))) = P [a160, a161, a162, a163, a164, a165, a166, a167, a168, a169, a170, a171, a172, a173, a174, a175]) \<and>
       (\<forall>P. f P (Suc (Suc (Suc (Suc (Suc (Suc (Suc (Suc (Suc (Suc (Suc i))))))))))) = P [a176, a177, a178, a179, a180, a181, a182, a183, a184, a185, a186, a187, a188, a189, a190, a191]) \<and>
       (\<forall>P. f P (Suc (Suc (Suc (Suc (Suc (Suc (Suc (Suc (Suc (Suc (Suc (Suc i)))))))))))) = P [a192, a193, a194, a195, a196, a197, a198, a199, a200, a201, a202, a203, a204, a205, a206, a207]) \<and>
       (\<forall>P. f P (Suc (Suc (Suc (Suc (Suc (Suc (Suc (Suc (Suc (Suc (Suc (Suc (Suc i))))))))))))) = P [a208, a209, a210, a211, a212, a213, a214, a215, a216, a217, a218, a219, a220, a221, a222, a223]) \<and>
       (\<forall>P. f P (Suc (Suc (Suc (Suc (Suc (Suc (Suc (Suc (Suc (Suc (Suc (Suc (Suc (Suc i)))))))))))))) = P [a224, a225, a226, a227, a228, a229, a230, a231, a232, a233, a234, a235, a236, a237, a238, a239]))) \<and>
     line_blocks f (Suc (Suc (Suc (Suc (Suc (Suc (Suc (Suc (Suc (Suc (Suc (Suc (Suc (Suc (Suc i))))))))))))))) ls"
  by (simp only: line_blocks_def concat.simps append.simps blocks_16 conj_assoc)

lemma blocks_7: "blocks f i [a0, a1, a2, a3, a4, a5, a6] \<longleftrightarrow> (\<forall>P. f P i = P [a0, a1, a2, a3, a4, a5, a6])"
  by (simp add: blocks_one)

lemma blocks_13:
  "blocks f i [a0, a1, a2, a3, a4, a5, a6, a7, a8, a9, a10, a11, a12] \<longleftrightarrow>
     (\<forall>P. f P i = P [a0, a1, a2, a3, a4, a5, a6, a7, a8, a9, a10, a11, a12])"
  by (simp add: blocks_one)

text \<open>The number of entries, by the same groups of lines.\<close>

definition count_from :: "nat \<Rightarrow> 'a list list \<Rightarrow> nat" where
  "count_from i ls = i + length (concat ls)"

lemma count_10:
  "count_from i
     ([a0, a1, a2, a3, a4, a5, a6, a7, a8, a9] #
      [b0, b1, b2, b3, b4, b5, b6, b7, b8, b9] #
      [c0, c1, c2, c3, c4, c5, c6, c7, c8, c9] #
      [d0, d1, d2, d3, d4, d5, d6, d7, d8, d9] #
      [e0, e1, e2, e3, e4, e5, e6, e7, e8, e9] #
      [g0, g1, g2, g3, g4, g5, g6, g7, g8, g9] #
      [h0, h1, h2, h3, h4, h5, h6, h7, h8, h9] #
      [j0, j1, j2, j3, j4, j5, j6, j7, j8, j9] # ls) =
     count_from (i + 80) ls"
  by (simp add: count_from_def)

lemma count_20:
  "count_from i
     ([a0, a1, a2, a3, a4, a5, a6, a7, a8, a9, a10, a11, a12, a13, a14, a15, a16, a17, a18, a19] #
      [b0, b1, b2, b3, b4, b5, b6, b7, b8, b9, b10, b11, b12, b13, b14, b15, b16, b17, b18, b19] #
      [c0, c1, c2, c3, c4, c5, c6, c7, c8, c9, c10, c11, c12, c13, c14, c15, c16, c17, c18, c19] #
      [d0, d1, d2, d3, d4, d5, d6, d7, d8, d9, d10, d11, d12, d13, d14, d15, d16, d17, d18, d19] # ls) =
     count_from (i + 80) ls"
  by (simp add: count_from_def)

lemma count_from_Nil: "count_from i [] = i"
  by (simp add: count_from_def)

section \<open>Numbers\<close>

lemma Suc_numeral_inc: "Suc (numeral n) = numeral (Num.inc n)"
  by (simp add: add_One_commute flip: add_One)

lemmas index_simps = Suc_numeral_inc Num.inc.simps One_nat_def [symmetric] Suc_1

lemmas sum_simps = add_0 add_num_simps numeral_plus_numeral

end
