(* ===== verification/Table_Nodes_1.thy ===== *)
theory Table_Nodes_1
  imports Main
begin

text \<open>
  Lines 13 to 1020 of \<open>unf/table.hh\<close>: part of the array \<open>NODES\<close>, one list per line of the source.
\<close>

definition NODES_00 :: "nat list list" where
  "NODES_00 = [
    [0x000000D1,0xFF000000,0xFF000000,0xFF000000,0xFF000000,0xFF000000,0xFF000000,0xFF000000,0xFF000000,0xFF000000],
    [0xFF000000,0xFF000000,0xFF000000,0xFF000000,0xFF000000,0xFF000000,0xFF000000,0xFF000000,0xFF000000,0xFF000000],
    [0xFF000000,0xFF000000,0xFF000000,0xFF000000,0xFF000000,0xFF000000,0xFF000000,0xFF000000,0xFF000000,0xFF000000],
    [0xFF000000,0xFF000000,0xFF000000,0xFF000000,0xFF000000,0xFF000000,0xFF000000,0xFF000000,0xFF000000,0xFF000000],
    [0xFF000000,0xFF000000,0xFF000000,0xFF000000,0xFF000000,0xFF000000,0xFF000000,0xFF000000,0xFF000000,0xFF000000],
    [0xFF000000,0xFF000000,0xFF000000,0xFF000000,0xFF000000,0xFF000000,0xFF000000,0xFF000000,0xFF000000,0xFF000000],
    [0xFF000000,0xFF000000,0xFF000000,0xFF000000,0xFF000000,0xFF000000,0xFF000000,0xFF000000,0xFF000000,0xFF000000],
    [0xFF000000,0xFF000000,0xFF000000,0xFF000000,0xFF000000,0xFF000000,0xFF000000,0xFF000000,0xFF000000,0xFF000000],
    [0xFF000000,0xFF000000,0xFF000000,0xFF000000,0xFF000000,0xFF000000,0xFF000000,0xFF000000,0xFF000000,0xFF000000],
    [0xFF000000,0xFF000000,0xFF000000,0xFF000000,0xFF000000,0xFF000000,0xFF000000,0xFF000000,0xFF000000,0xFF000000],
    [0xFF000000,0xFF000000,0xFF000000,0xFF000000,0xFF000000,0xFF000000,0xFF000000,0xFF000000,0xFF000000,0xFF000000],
    [0xFF000000,0xFF000000,0xFF000000,0xFF000000,0xFF000000,0xFF000000,0xFF000000,0xFF000000,0xFF000000,0xFF000000],
    [0xFF000000,0xFF000000,0xFF000000,0xFF000000,0xFF000000,0xFF000000,0xFF000000,0xFF000000,0xFF000000,0xFF000000],
    [0xFF000000,0xFF000000,0xFF000000,0xFF000000,0xFF000000,0xFF000000,0xFF000000,0xFF000000,0xFF000000,0xFF000000],
    [0xFF000000,0xFF000000,0xFF000000,0xFF000000,0xFF000000,0xFF000000,0xFF000000,0xFF000000,0xFF000000,0xFF000000],
    [0xFF000000,0xFF000000,0xFF000000,0xFF000000,0xFF000000,0xFF000000,0xFF000000,0xFF000000,0xFF000000,0xFF000000],
    [0xFF000000,0xFF000000,0xFF000000,0xFF000000,0xFF000000,0xFF000000,0xFF000000,0xFF000000,0xFF000000,0xFF000000],
    [0xFF000000,0xFF000000,0xFF000000,0xFF000000,0xFF000000,0xFF000000,0xFF000000,0xFF000000,0xFF000000,0xFF000000],
    [0xFF000000,0xFF000000,0xFF000000,0xFF000000,0xFF000000,0xFF000000,0xFF000000,0xFF000000,0xFF000000,0xFF000000],
    [0xFF000000,0xFF000000,0xFF000000,0xFF000000,0xFF000000,0xFF000000,0xFF000000,0xFF000000,0xFF000000,0xFF000000],
    [0xFF000000,0xFF000000,0xFF000000,0xFF000000,0xFF000000,0xFF000000,0xFF000000,0xFF000000,0xFF000000,0xFF000000],
    [0xFF000000,0xFF000000,0xFF000000,0xFF000000,0xFF000000,0xFF000000,0xFF000000,0xFF000000,0xFF000000,0xFF000000],
    [0xFF000000,0xFF000000,0xFF000000,0xFF000000,0xFF000000,0xFF000000,0xFF000000,0xFF000000,0xFF000000,0xFF000000],
    [0xFF000000,0xFF000000,0xFF000000,0xFF000000,0xFF000000,0xFF000000,0xFF000000,0xFF000000,0xFF000000,0xFF000000],
    [0xFF000000,0xFF000000,0xFF000000,0xFF000000,0xFF000000,0xFF000000,0xFF000000,0xFF000000,0xFF000000,0xFF000000],
    [0xFF000000,0xFF000000,0xFF000000,0xFF000000,0xFF000000,0xFF000000,0xFF000000,0x300000CB,0x310066B9,0x3200CED3],
    [0x3300E546,0x3400E837,0x3500EA90,0x3C00003E,0x3D00005A,0x3E00005D,0xCC000053,0xB800011C,0x41000070,0x420000B4],
    [0x430000B8,0x440000C3,0x450000DC,0x46000115,0x47000118,0x48000129,0x49000133,0x4A000161,0x4B000163,0x4C00016A],
    [0x4D00017A,0x4E000180,0x4F00018E,0x500001E1,0x000C9C53,0x520001E6,0x530001FC,0x5400020A,0x55000221,0x56000256],
    [0x5700025C,0x5800026B,0x59000277,0x5A00028B,0xCC00006F,0xB8000128,0x000C9C50,0xCC000072,0xB800012B,0x000C9C4D],
    [0x61000297,0x620002CC,0x630002D6,0x640002E9,0x650002FB,0x66000334,0x67000337,0x68000346,0x69000355,0x6A000374],
    [0x6B00037D,0x6C00038A,0x6D000398,0x6E000399,0x6F0003B1,0x70000400,0xCC0000C6,0x72000402,0x73000412,0x74000426],
    [0x75000436,0x76000473,0x77000479,0x7800048A,0x7900048E,0x7A0004A3,0x8000014B,0x81000151,0x82000153,0x8300015D],
    [0x8400015E,0x00089C4B,0x8600015F,0x87000168,0x8800016F,0x89000172,0x8A000173,0x00089C49,0x8C000176,0x00089C47],
    [0x000C9C44,0x8F000177,0x000C9C41,0x91000178,0x80000154,0x81000156,0x000C9C3E,0x8300015A,0x000C9C3B,0x00089C39],
    [0x00089C37,0x00089C35,0x000C9C32,0x8900015C,0x000C9C2F,0x80000160,0x81000162,0x000C9C2C,0x83000165,0x000C9C29],
    [0x00089C27,0xA3000179,0x8400016D,0xA500017D,0x89000167,0x00089C25,0xA800017F,0x00089C23,0x84000171,0x00089C21],
    [0x000C9C1E,0x00089C1C,0x81000175,0x00089C1A,0x00089C18,0x00089C16,0x00089C14,0x000C9C11,0x8200017B,0x000C9C0E],
    [0x000C9C0B,0x000C9C08,0x8600017C,0x00089C06,0xCC0000FE,0x000C9C03,0x000C9C00,0x000C9BFD,0xCC000111,0x87000181],
    [0x00089BFB,0x00089BF9,0x00089BF7,0x00089BF5,0x00089BF3,0x8100018C,0x000C9BF0,0xC20004DC,0xC300050B,0xCC000119],
    [0xC50004E1,0xC60004F4,0x81000186,0x82000187,0x000C9BED,0xCA000523,0x00089BEB,0x000C9BE8,0x87000188,0xCE00052B],
    [0xCF0006EE,0xD0000789,0xD10007EB,0x8C000189,0xD30007FF,0x000C9BE5,0x87000194,0xA3000182,0x000C9BE2,0xD8000806],
    [0xD900082C,0x8C000196,0xDB000839,0x000C9BDF,0xCC00014C,0x00089BDD,0x00089BDB,0xE0000823,0xE10008B3,0xE2006533],
    [0xE30065E0,0xB1000183,0x00089BD9,0x800001B3,0x810001B5,0x000C9BD6,0x830001B6,0x000C9BD3,0x000C9BD0,0x000C9BCD],
    [0xA700018A,0x000C9BCA,0x890001B7,0xF00066D9,0xA3000197,0x00089BC8,0x800001C1,0x810001C2,0xA700019F,0x000C9BC5],
    [0x000C9BC2,0x00089BC0,0x00089BBE,0x00089BBC,0xAD0001A2,0x000C9BB9,0x00089BB7,0x00089BB5,0xB10001A7,0x00089BB3],
    [0x800001A9,0x810001AA,0x820001B0,0x830001B9,0x840001BD,0x000C9BB0,0x860001C3,0x870001C4,0x880001C5,0x890001C7],
    [0x000C9BAD,0x820001D6,0x8C0001C8,0x00089BAB,0x000C9BA8,0x8F0001C9,0x00089BA6,0x910001CB,0x860001DA,0x000C9BA3],
    [0x000C9BA0,0xCC00015B,0x870001E3,0x000C9B9D,0xCC000164,0x810001E7,0x820001E9,0x00089B9B,0x840001EC,0x00089B99],
    [0x860001ED,0x870001EE,0x000C9B96,0x00089B94,0x00089B92,0xA30001D1,0x8C0001F1,0x00089B90,0x00089B8E,0xA70001D9],
    [0xA80001DC,0xCC00017E,0x00089B8C,0x000C9B89,0x000C9B86,0xAD0001DF,0x00089B84,0x000C9B81,0xB00001E0,0x000C9B7E],
    [0x000C9B7B,0xCC00018D,0x820001F6,0x00089B79,0x00089B77,0x00089B75,0x00089B73,0x870001F7,0x880001F8,0x00089B71],
    [0x00089B6F,0x00089B6D,0x8C0001FA,0xA70001F2,0x00089B6B,0x80000201,0x81000202,0x82000203,0x83000204,0x84000207],
    [0x81000217,0x86000208,0x87000209,0x8800020C,0x89000218,0x000C9B68,0x000C9B65,0x8C00021A,0x00089B63,0x00089B61],
    [0x8F00021B,0x00089B5F,0x9100021D,0xCC0000D8,0x000C9B5C,0xA30001FB,0x00089B5A,0x000C9B57,0x00089B55,0xA70001FD],
    [0x82000224,0x81000228,0x000C9B52,0x00089B50,0x000C9B4D,0xCC0000E3,0xAE0001FE,0xCC0001A4,0x00089B4B,0xCC0001A6],
    [0xA3000220,0x000C9B48,0x8C000229,0x81000237,0xCC0000E6,0xA8000222,0xCC0001B2,0x00089B46,0x00089B44,0x000C9B41],
    [0x000C9B3E,0xCC0000EC,0x8400023A,0xB0000223,0x8C000238,0xCC0000F3,0x00089B3C,0x000C9B39,0x000C9B36,0x000C9B33],
    [0x000C9B30,0xCC0000F8,0xCC0001CA,0x000C9B2D,0x00089B2B,0xA300022A,0x00089B29,0x81000243,0xCC0001DB,0xA700022E],
    [0x00089B27,0x000C9B24,0x00089B22,0x87000244,0x000C9B1F,0x00089B1D,0x000C9B1A,0xA3000239,0xCC00010A,0xB1000231],
    [0x000C9B17,0xA7000240,0xCC0001E8,0x80000248,0x8100024A,0x00089B15,0x8300024E,0xAD000241,0x00089B13,0x00089B11],
    [0x8700024F,0xB1000242,0x000C9B0E,0x000C9B0B,0x000C9B08,0x8C000250,0x8000025D,0x81000260,0x82000261,0x83000275],
    [0x8400027F,0xA3000247,0x86000287,0x8700028A,0x88000292,0x89000296,0x000C9B05,0x8B000298,0x8C000299,0x00089B03],
    [0x000C9B00,0x8F00029A,0x00089AFE,0x9100029B,0x81000276,0x000C9AFB,0xCC000131,0x84000278,0xA3000252,0x00089AF9],
    [0x000C9AF6,0x8800027B,0xA7000253,0x9B00029C,0x000C9AF3,0x80000280,0x81000284,0x00089AF1,0xAD000254,0xCC00013E],
    [0x00089AEF,0xA30002A8,0xB1000258,0x00089AED,0x80000264,0x81000265,0xA80002AB,0x83000266,0x00089AEB,0x8400028D],
    [0x84000295,0x00089AE9,0x000C9AE6,0x89000272,0x00089AE4,0x00089AE2,0x00089AE0,0x00089ADE,0x00089ADC,0xCC000155],
    [0x800002A0,0x810002A2,0x000C9AD9,0x830002A3,0x000C9AD6,0x000C9AD3,0x000C9AD0,0xCC000158,0x000C9ACD,0x890002A4],
    [0x000C9ACA,0x820002AA,0x000C9AC7,0x00089AC5,0x00089AC3,0xCC00022D,0x810002B0,0x840002AC,0x000C9AC0,0x000C9ABD],
    [0xCC000234,0x00089ABB,0x870002B1,0x810002B3,0x000C9AB8,0x00089AB6,0x00089AB4,0x00089AB2,0x000C9AAF,0x870002B6],
    [0x000C9AAC,0x00089AAA,0x000C9AA7,0x840002BC,0x8C0002B7,0xA30002A6,0x00089AA5,0x8F0002B8,0x870002C9,0x910002B9],
    [0x810002C2,0x820002CA,0xCC000245,0x000C9AA2,0x00089AA0,0x000C9A9D,0x870002CB,0x00089A9B,0x000C9A98,0x000C9A95],
    [0x870002CE,0x8C0002CD,0x870002D3,0x000C9A92,0x00089A90,0x00089A8E,0xCC000255,0xA30002BA,0xCC000191,0x000C9A8B],
    [0x00089A89,0xA70002BD,0x870002D9,0x000C9A86,0x00089A84,0x00089A82,0x000C9A7F,0x8C0002DA,0x000C9A7C,0x00089A7A],
    [0x00089A78,0xB10002BE,0x00089A76,0x00089A74,0xA30002CF,0x810002EA,0x000C9A71,0xA60002D4,0xA70002D5,0xCC000288],
    [0x00089A6F,0x880002F0,0x000C9A6C,0x00089A6A,0x00089A68,0x800002F5,0x810002F6,0x00089A66,0x00089A64,0x840002F9],
    [0xA30002DD,0x00089A62,0x00089A60,0xA60002DE,0xA70002DF,0x000C9A5D,0x00089A5B,0x8C0002FA,0x00089A59,0x00089A57],
    [0xAD0002E0,0x00089A55,0x00089A53,0xCC0001B8,0xB10002E2,0x00089A51,0x800002E3,0x810002E4,0x820002E6,0x830002E7],
    [0x840002EE,0x000C9A4E,0x860002F1,0x000C9A4B,0x880002F2,0x890002FD,0x8A0002FE,0x8B000300,0x8C000301,0x000C9A48],
    [0x000C9A45,0x8F000303,0x000C9A42,0x91000304,0x000C9A3F,0x000C9A3C,0x00089A3A,0x8000030D,0x8100030F,0x000C9A37],
    [0x83000315,0x000C9A34,0xCC0002A1,0x9B000307,0x83000325,0x000C9A31,0x89000316,0x000C9A2E,0xCC0002B2,0x000C9A2B],
    [0x000C9A28,0xA300031A,0xA400031B,0xCC00020E,0x00089A26,0x000C9A23,0xA800031C,0x000C9A20,0x80000329,0x8100032A],
    [0x8200032E,0xAD00031F,0x000C9A1D,0xCC0002B4,0xB0000321,0x8700032F,0x88000331,0x8700033D,0x8800033E,0x000C9A1A],
    [0x000C9A17,0x000C9A14,0xA3000318,0xCC0001F9,0x00089A12,0xCC0002C6,0xA3000327,0x00089A10,0x8000033F,0x81000342],
    [0x82000345,0x8300034C,0x84000350,0xCC000205,0x000C9A0D,0x87000351,0x88000352,0x89000353,0x00089A0B,0x000C9A08],
    [0x00089A06,0x000C9A03,0x000C9A00,0xA3000336,0xCC00020F,0xCC0002D8,0x000899FE,0x81000358,0x8200035B,0x000C99FB],
    [0x000899F9,0x000899F7,0xCC000210,0x8700035C,0x000C99F4,0x000C99F1,0x000899EF,0xCC00031D,0x8C00035D,0x000899ED],
    [0x000899EB,0x000C99E8,0xCC00021E,0xA3000354,0x000C99E5,0x000C99E2,0x80000367,0x8100036A,0x000C99DF,0x8300036B],
    [0x000899DD,0x000899DB,0x000899D9,0x000C99D6,0xCC000227,0x8900036E,0x000C99D3,0xCC00022B,0x000C99D0,0x000C99CD],
    [0x000899CB,0xA3000360,0x80000373,0x81000376,0x000899C9,0x83000378,0x000899C7,0x000899C5,0x000C99C2,0x8400037E],
    [0x000899C0,0x89000379,0xCC00023B,0x000899BE,0x000899BC,0xB1000361,0x84000381,0x81000387,0x000899BA,0x000899B8],
    [0xCC00023D,0x000C99B5,0x82000391,0x000C99B2,0x000C99AF,0x000C99AC,0x86000392,0x000899AA,0x000C99A7,0x000C99A4],
    [0xCC000313,0xCC000249,0x87000396,0xCC00024B,0x000C99A1,0x80000362,0x81000365,0x82000366,0x83000370,0x84000371],
    [0xCC000330,0x86000372,0x8700037A,0x88000380,0x89000382,0x8A000384,0x0008999F,0x8C000388,0x0008999D,0x0008999B],
    [0x8F00038C,0x00089999,0x9100038D,0x00089997,0x000C9994,0x810003A8,0x820003AA,0xCC000268,0x810003B0,0xCC00033A],
    [0xA3000397,0x870003AB,0x000C9991,0x0008998F,0xCC000267,0x000C998C,0x8C0003AD,0x000C9989,0xCC000273,0x000C9986],
    [0xA300038F,0x870003B8,0xA5000393,0x000C9983,0xB100039C,0xA8000395,0x8C0003B9,0xCC000349,0x00089981,0x800003C8],
    [0x810003CE,0x820003D4,0x830003DE,0x840003E3,0x0008997F,0x860003EA,0x870003ED,0x880003EE,0x890003EF,0xCC00029D],
    [0x0008997D,0x8C0003F2,0x000C997A,0xA70003AF,0x8F0003F3,0x000C9977,0x910003F4,0x000C9974,0x000C9971,0xA30003BB],
    [0x000C996E,0x800003D6,0x810003D9,0xA70003BD,0x830003DB,0x0008996C,0x800003E6,0x810003E9,0x000C9969,0xAD0003BF],
    [0x890003DC,0x000C9966,0x00089964,0xB10003C3,0xA30003F5,0x00089962,0x00089960,0x000C995D,0xA70003FA,0xA80003FC],
    [0x0008995B,0x00089959,0x00089957,0x000C9954,0xAD0003FE,0x820003F8,0x000C9951,0xB00003FF,0x0008994F,0x000C994C],
    [0x0008994A,0x860003FB,0x000C9947,0x000C9944,0xCC00037B,0x000C9941,0x87000401,0xCC000383,0x81000406,0x82000408],
    [0x0008993F,0x8400040B,0x0008993D,0x8600040C,0x8700040D,0x000C993A,0x00089938,0x00089936,0x00089934,0x8C00040E],
    [0x00089932,0x00089930,0xCC000394,0x000C992D,0x000C992A,0x00089928,0x82000411,0x000C9925,0x000C9922,0x000C991F],
    [0x000C991C,0x87000413,0x88000414,0x0008991A,0x00089918,0x00089916,0x8C000415,0xCC0003A5,0x00089914,0x00089912],
    [0x00089910,0x8000041D,0x8100041E,0x8200041F,0x83000422,0x84000423,0xA7000410,0x86000424,0x0008990E,0x8800042C],
    [0x89000433,0x81000430,0x000C990B,0x8C000435,0xCC0002EC,0x000C9908,0x8F000438,0x00089906,0x91000439,0xA3000417],
    [0x00089904,0x00089902,0x000C98FF,0xA7000418,0x000898FD,0x000C98FA,0xCC0002FC,0x000898F8,0xCC0003C2,0x000898F6],
    [0xAE000419,0x000C98F3,0x8200043F,0xB100041A,0xCC0002FF,0x81000443,0xA300043A,0xCC0003C6,0x000898F1,0x000C98EE],
    [0xCC000306,0xA800043C,0x8C000441,0x000898EC,0xCC00030A,0x000C98E9,0x8C00044A,0x81000454,0x000898E7,0xB000043D],
    [0xCC0003D2,0x000898E5,0x000C98E2,0x8400045A,0x000C98DF,0xCC00030E,0x000898DD,0x000C98DA,0x8C000457,0x000C98D7],
    [0x81000461,0x000C98D4,0x000C98D1,0x000C98CE,0xCC0003DF,0xCC0003E7,0x87000462,0x8000046B,0x8100046C,0xA300044B],
    [0x8300046F,0x000898CC,0x000898CA,0xA700044F,0x87000470,0x000898C8,0x000C98C5,0x000898C3,0x000C98C0,0x8C000471],
    [0x000898BE,0xA3000458,0x000C98BB,0xB1000451,0x000C98B8,0xA700045C,0x000898B6,0xCC000333,0x000898B4,0xCC00041B],
    [0x000898B2,0xAD00045D,0x000C98AF,0x000C98AC,0xA3000463,0xB100045F,0x80000480,0x81000481,0x000C98A9,0x83000486],
    [0x000C98A6,0x000898A4,0xA3000472,0x000C98A1,0x0008989F,0x89000488,0xA7000474,0x000C989C,0x8100048B,0x0008989A],
    [0x000C9897,0x8400048C,0xAD000476,0x000C9894,0x00089892,0x8800048F,0xB1000478,0x00089890,0x840004A5,0x8000047A],
    [0x8100047C,0x8200047E,0x83000489,0x84000491,0xCC00035F,0x86000496,0x87000499,0x880004AB,0x890004B0,0x0008988E],
    [0x8B0004B1,0x8C0004B2,0x80000492,0x81000495,0x8F0004B3,0x0008988C,0x910004B4,0x840004AE,0x0008988A,0xCC000364],
    [0x000C9887,0x00089885,0x00089883,0x00089881,0x0008987F,0x0008987D,0x9B0004B5,0x800004B9,0x810004BB,0x000C987A],
    [0x830004BC,0x000C9877,0x000C9874,0x000C9871,0xA30004C2,0x000C986E,0x890004BD,0xCC000375,0x000C986B,0xA80004C7],
    [0x820004C5,0x000C9868,0xCC000377,0x00089866,0x840004C9,0x00089864,0x810004CB,0x000C9861,0xCC000449,0x000C985E],
    [0xCC000450,0x0008985C,0x870004CD,0x810004CF,0x000C9859,0x00089857,0x00089855,0x00089853,0x000C9850,0x870004D2],
    [0x000C984D,0x840004D8,0xA30004BF,0x0008984B,0x8C0004D3,0x000C9848,0xCC000464,0x8F0004D4,0x00089846,0x910004D5],
    [0x870004E3,0x000C9843,0x00089841,0x810004E0,0x820004E4,0x000C983E,0x0008983C,0x000C9839,0x000C9836,0x870004E7],
    [0x870004E9,0x870004EE,0x000C9833,0x00089831,0x8C0004E8,0x0008982F,0xCC00046D,0xA30004D6,0x870004F6,0x880004FA],
    [0x000C982C,0xA70004DB,0xCC0003AE,0x8C0004FB,0x000C9829,0x00089827,0x000C9824,0x00089822,0x00089820,0x000C981D],
    [0x000C981A,0xB10004DD,0xCC00049F,0x00089818,0x00089816,0x00089814,0x00089812,0xA30004EA,0x81000509,0x000C980F],
    [0xA60004EF,0xA70004F1,0x0008980D,0x8800050E,0x000C980A,0x00089808,0xA30004FC,0x00089806,0x00089804,0xA60004FD],
    [0xA70004FE,0x00089802,0x00089800,0x000897FE,0x000C97FB,0x000897F9,0xAD0004FF,0x000897F7,0x000897F5,0x000897F3],
    [0xB1000500,0x80000503,0x81000504,0x82000505,0x83000506,0x8400050C,0xCC0003D5,0x8600050F,0x000897F1,0x88000511],
    [0x89000518,0x8A000519,0x8B00051B,0x8C00051C,0x000897EF,0x000C97EC,0x8F00051D,0x000C97E9,0x91000526,0x000C97E6],
    [0x000C97E3,0x000C97E0,0x000C97DD,0x000C97DA,0x000897D8,0x000C97D5,0x80000512,0x81000515,0x9B00052C,0x000C97D2],
    [0x84000516,0x000C97CF,0x000C97CC,0xCC0004BE,0x000C97C9,0x8300053D,0xA3000534,0xA4000535,0x8C000517,0xCC0004E2],
    [0x000C97C6,0xA8000536,0x8000052D,0x8100052F,0xCC000404,0x83000531,0xAD000537,0x000897C4,0x000C97C1,0xB000053B],
    [0x000C97BE,0x89000532,0x000C97BB,0x000C97B8,0x000C97B5,0xCC00040F,0xCC0004D0,0x87000554,0x88000559,0x000C97B2],
    [0xCC0004F2,0x000C97AF,0x000897AD,0xCC000428,0x000897AB,0x000C97A8,0x000897A6,0xA300053E,0x80000540,0x81000546],
    [0x8200054D,0xCC000416,0x000C97A3,0x000897A1,0x000C979E,0x8700054E,0x88000550,0xA3000533,0x8A000552,0x000C979B],
    [0x000C9798,0xCC000501,0x00089796,0x000C9793,0x8000055B,0x8100055C,0x8200055E,0x8300055F,0x84000560,0xCC000429],
    [0x00089791,0x87000566,0x88000567,0x89000568,0x8A00056D,0x0008978F,0x000C978C,0x000C9789,0x000C9786,0xCC000437],
    [0x81000570,0x82000571,0xA80004BA,0xA3000553,0xCC00050A,0xCD00050D,0x87000578,0x00089784,0x80000580,0x81000589],
    [0x000C9781,0x8C00057D,0xCC000442,0x8200058C,0xCC000513,0x860004C4,0x0008977F,0xCC000444,0x81000592,0xA300056E],
    [0x0008977D,0x84000596,0xCC00051A,0x0008977B,0xCC000524,0x81000599,0x00089779,0x00089777,0x00089775,0x8100059E]]"

definition NODES_01 :: "nat list list" where
  "NODES_01 = [
    [0xBF0004DE,0x000C9772,0xCC000455,0x980004CC,0xA300057E,0x8100059C,0xCC00051E,0x870005A1,0x8400059D,0x00089770],
    [0xCC000520,0xB70004EB,0xCC00045B,0x8C0005A9,0x8C0005AF,0x0008976E,0x000C976B,0xA60004CE,0xB100057F,0x00089769],
    [0xCC000465,0x920004EC,0xCC000466,0xCC000521,0xCC000522,0xCC000547,0xCD00056F,0x000C9766,0x910004ED,0x000C9763],
    [0x000C9760,0x000C975D,0x95000527,0x850005C9,0x97000538,0xB80004DA,0x99000563,0x800005BF,0x810005CE,0x800005B0],
    [0x810005B3,0x000C975A,0x9F000582,0x840005BB,0xA100058F,0x860005BD,0x000C9757,0x850005D1,0xA5000590,0x000C9754],
    [0xCC000487,0x820005D5,0xA90005A5,0x000C9751,0x850005D9,0x000C974E,0xCC000485,0x000C974B,0x930005BE,0x940005DE],
    [0xB10005D2,0xCC0004B8,0x000C9748,0x850005D7,0xB500060E,0x000C9745,0xB7000629,0x000C9742,0xB900065D,0x800005E1],
    [0x810005E8,0x850005E3,0x000C973F,0x850005EB,0xBF00068A,0x000C973C,0x820005ED,0x000C9739,0x850005F0,0x850005F1],
    [0x000C9736,0x000C9733,0x000C9730,0xCC000575,0x850005F2,0x800005F7,0x810005F9,0x000C972D,0xCC0004C8,0x0008972B],
    [0x000C9728,0x800005FD,0x810005FE,0x000C9725,0x000C9722,0x000C971F,0x000C971C,0x80000600,0x81000603,0x000C9719],
    [0xCC000586,0xCD0005A7,0x8000060A,0x8100060B,0x930005FA,0x940005FF,0x000C9716,0x00089714,0x000C9711,0x8000060F],
    [0x81000612,0x000C970E,0x85000611,0x000C970B,0x000C9708,0x85000614,0x000C9705,0x82000616,0x000C9702,0x000C96FF],
    [0x8500061B,0x9300060C,0x9400061D,0x000C96FC,0x85000617,0x000C96F9,0x000C96F6,0x8000061E,0x81000622,0x000C96F3],
    [0x000C96F0,0x000C96ED,0x000C96EA,0x85000621,0x82000624,0x85000623,0x8500062A,0x8500062B,0x000C96E7,0x000C96E4],
    [0x8500062D,0x000C96E1,0x000C96DE,0xCC0005B1,0x000896DC,0x8000062E,0x81000630,0x000C96D9,0x000C96D6,0x84000633],
    [0x000896D4,0x86000634,0x000C96D1,0x88000636,0x8000063C,0x8100063D,0x000C96CE,0x000C96CB,0x8200063F,0x000C96C8],
    [0x000C96C5,0x80000643,0x81000646,0x000C96C2,0x93000638,0x94000640,0x000C96BF,0x82000648,0x000C96BC,0x000C96B9],
    [0x80000649,0x8100064C,0x000896B7,0x000C96B4,0xCC0005CA,0x80000651,0x81000652,0x000C96B1,0x000C96AE,0x000C96AB],
    [0x80000656,0x81000657,0x000C96A8,0x000C96A5,0x94000659,0x000C96A2,0x000C969F,0xCC0005C4,0xCC0005DF,0x9300064D],
    [0x94000653,0x8000065A,0x81000661,0x0008969D,0x000C969A,0x84000662,0x000C9697,0x86000664,0x00089695,0x88000666],
    [0x000C9692,0x8000066B,0x8100066C,0x000C968F,0x000C968C,0x000C9689,0x8200066D,0x80000674,0x81000675,0xCC0005EF],
    [0xCD000618,0x94000668,0x000C9686,0x00089684,0x000C9681,0x000C967E,0x80000677,0x8100067C,0x8500067B,0x000C967B],
    [0x000C9678,0x000C9675,0x8200067F,0x000C9672,0x8500067D,0x85000685,0x93000676,0x94000687,0x000C966F,0x000C966C],
    [0x85000684,0x000C9669,0x8000068D,0x81000690,0xCC000545,0xCD000551,0xCD00053C,0x000C9666,0x8500068F,0x000C9663],
    [0x000C9660,0x000C965D,0x85000691,0x000C965A,0x000C9657,0x82000693,0x000C9654,0x000C9651,0x85000696,0x000C964E],
    [0x85000694,0xCD00054A,0x000C964B,0x85000697,0xCC000620,0xCD000650,0x80000699,0x810006A3,0xCD00055A,0x00089649],
    [0x840006A7,0x000C9646,0x860006A8,0x000C9643,0x000C9640,0x000C963D,0xCC000565,0xCD00056A,0x8500069C,0x850006A5],
    [0xCD000562,0x800006B1,0x810006B7,0x000C963A,0x000C9637,0x930006A9,0x940006C1,0xCD000564,0x850006B2,0x000C9634],
    [0x000C9631,0x000C962E,0xCD000569,0x820006B9,0x850006B8,0x000C962B,0x850006C0,0x850006BD,0x000C9628,0x000C9625],
    [0x800006C4,0x810006C7,0x000C9622,0x000C961F,0xCC00057B,0x000C961C,0x000C9619,0x850006C5,0x850006C8,0xCC000581],
    [0x820006CD,0x000C9616,0x000C9613,0x850006D1,0x850006CE,0x000C9610,0x820006D3,0x000C960D,0x850006D6,0x850006D7],
    [0x000C960A,0x000C9607,0xCC00058D,0xCD000593,0xCC000660,0x000C9604,0xCD00058B,0x00089602,0x000C95FF,0xCD00058E],
    [0x800006DB,0x810006DD,0x000C95FC,0xCD000597,0x000C95F9,0x800006E2,0x810006E4,0x000C95F6,0x000C95F3,0xCC00059F],
    [0xCD0005A4,0xCD0005A0,0x000C95F0,0x000C95ED,0x850006F0,0xCD0005A2,0x000C95EA,0xCD0005A3,0x000895E8,0x930006DE],
    [0x940006E7,0xCC00067E,0xCD00069F,0x850006FA,0x800006E8,0x810006EC,0x000C95E5,0x000C95E2,0x000C95DF,0x000C95DC],
    [0x800006ED,0x810006F2,0x800006FC,0x81000702,0x000C95D9,0x000C95D6,0xCC0005BA,0xCD0005BC,0x850006FD,0x85000703],
    [0x82000709,0x000C95D3,0x000C95D0,0x8500070F,0xCC0005C1,0xCD0005C5,0x8500070A,0x000C95CD,0x000C95CA,0x930006FB],
    [0x94000710,0x000C95C7,0x000C95C4,0x80000713,0x81000718,0x85000714,0x000C95C1,0xCC0005CF,0x000C95BE,0x000C95BB],
    [0x000C95B8,0x8500071A,0x000C95B5,0xCC0005D4,0x8200071B,0x82000725,0x8500071C,0x8500071E,0x85000728,0x000C95B2],
    [0x85000727,0x000C95AF,0x000C95AC,0xCC0006AB,0xCD0006D0,0x8000072D,0x8100072E,0x000C95A9,0x000895A7,0x84000730],
    [0x000C95A4,0x86000732,0x000C95A1,0x88000736,0xCC0005E9,0xCD0005EC,0x0008959F,0x000C959C,0x0008959A,0x000C9597],
    [0x80000737,0x81000738,0x000C9594,0x82000739,0x9300073C,0x9400074A,0x000C9591,0x000C958E,0xCC0005F8,0xCD0005FC],
    [0xCD0005F5,0x82000748,0x80000740,0x81000741,0x000C958B,0xCD0005FB,0x000C9588,0x000C9585,0xCD000601,0x000C9582],
    [0x82000751,0x8000074B,0x8100074D,0x000C957F,0x82000755,0xCC000608,0xCD000613,0x000C957C,0xCC0006D8,0x000C9579],
    [0x80000757,0x8100075B,0xCD000609,0x00089577,0x000C9574,0xCD00060D,0x000C9571,0x000C956E,0xCD000615,0x8000075E],
    [0x8100075F,0x000C956B,0x000C9568,0x000C9565,0xCD000627,0xCC0006DA,0x000C9562,0x80000764,0x81000765,0x9300075C],
    [0x94000763,0x93000768,0x94000771,0x8100069B,0xCD000628,0x000C955F,0x000C955C,0x850006AC,0x0008955A,0xCC00062F],
    [0xCD000639,0x890006D9,0xCC000715,0xCD00071F,0x000C9557,0x000C9554,0x00089552,0x000C954F,0xCD000631,0x0008954D],
    [0x92000716,0x8000077D,0x8100077F,0x000C954A,0xCD000637,0x000C9547,0xCD00063A,0x82000783,0x8000078A,0x8100078B],
    [0x000C9544,0x000C9541,0x000C953E,0xCC000642,0xCD00064A,0x8200078C,0x000C953B,0xCD000644,0x80000797,0x81000798],
    [0xCD000645,0x80000772,0x81000774,0x000C9538,0x000C9535,0x8400077A,0xCD00064B,0x8600077B,0x000C9532,0x8800077C],
    [0x000C952F,0x8200079C,0xCD00064F,0x8200079E,0x800007A4,0x810007AC,0x000C952C,0xCC000722,0xCD000756,0x000C9529],
    [0x93000785,0x94000790,0xCC000665,0x850007A7,0x00089527,0x000C9524,0x850007AD,0x000C9521,0x000C951E,0x800007B0],
    [0x810007B8,0xCC000678,0x850007B7,0x930007AF,0x940007C3,0x000C951B,0x000C9518,0x850007BB,0xCD000669,0x000C9515],
    [0x000C9512,0x820007BC,0x000C950F,0xCD000672,0x850007C1,0x000C950C,0x850007BE,0x000C9509,0x800007C6,0x810007CC],
    [0x000C9506,0xCC000680,0xCD000686,0xCD000681,0x850007CB,0x000C9503,0x000C9500,0x000C94FD,0x850007CD,0xCD000682],
    [0x820007D1,0x000C94FA,0x000C94F7,0x850007D5,0x850007D2,0x000C94F4,0xCD000689,0x000C94F1,0x820007D7,0x850007DA],
    [0x000C94EE,0x850007DE,0xCC000695,0xCD00069E,0x000C94EB,0x000894E9,0xCD000692,0x000894E7,0xCC000762,0x810007DF],
    [0x000894E5,0xCD000698,0x000894E3,0x000894E1,0xCD00069D,0x880007E4,0x880007E1,0x810007EE,0xCC000761,0xCC000769],
    [0x000894DF,0x860007E6,0xCC00076A,0x880007E7,0xCD0006A1,0x800007F4,0x000894DD,0x000894DB,0xCC000773,0x000894D9],
    [0xCC000776,0x860007F5,0x000894D7,0x880007F7,0x860007FA,0x000894D5,0x880007FD,0xCC000778,0x88000801,0x000894D3],
    [0xCC0006BA,0xCD0006BB,0x000894D1,0x000894CF,0xCC00078D,0x000894CD,0xCC0006C6,0xCD0006C3,0x000894CB,0xCC00078F],
    [0x000894C9,0x80000804,0xCC000792,0x86000720,0x8100080C,0x84000805,0x000894C7,0x86000807,0x000894C5,0x8800080A],
    [0xCC0006CF,0xCD0006CC,0xCC0007C8,0x90000721,0x88000812,0x000894C3,0x93000724,0x000894C1,0x9500072A,0x9600072C],
    [0x97000733,0x9800073A,0x000894BF,0x9A00073F,0xCC00079D,0x88000826,0x000894BD,0x9E000742,0xCC0006E1,0xCC0007A2],
    [0x8800082B,0x000894BB,0xA300074C,0x8800082E,0x000894B9,0xCC0006E9,0xA7000758,0x000894B7,0xCC0007A5,0xCC0007B2],
    [0xAB00075D,0x000894B5,0xAD000766,0xCC0007BA,0x86000831,0xB0000767,0x88000835,0x8100083D,0xB300076B,0x000894B3],
    [0xB5000779,0xB600077E,0xB700078E,0xB8000793,0x000894B1,0xBA000799,0x000894AF,0xCC0007CF,0x000894AD,0xBE00079F],
    [0xCC000701,0xCD000705,0xCC0007C5,0x86000854,0x84000814,0x88000856,0x8600081B,0x80000842,0x8800081D,0xCC000708],
    [0xCD00070D,0x8B000822,0x000894AB,0x86000844,0x000894A9,0x88000846,0x88000859,0x000894A7,0xCC0007D0,0x000894A5],
    [0xCC000712,0xCD00071D,0x000894A3,0xCC0007E0,0x8000085B,0x000894A1,0x0008949F,0x81000867,0x8400085E,0xCC0007E2],
    [0x86000861,0x0008949D,0x88000862,0x0008949B,0x00089499,0xCC0007E5,0xCC0007EF,0x88000869,0x830007A0,0x00089497],
    [0x00089495,0xCD000726,0x870007B3,0x8400086A,0x00089493,0x8600086F,0x8B0007B6,0x88000870,0x8D0007BF,0xCD000729],
    [0x8B000874,0xCC000731,0xCD00073B,0xCD00072F,0x88000880,0xCC0007F6,0x00089491,0x960007C0,0xCC0007FB,0x88000884],
    [0x0008948F,0xCD000734,0x88000887,0x0008948D,0x8800088A,0xCD00073D,0x0008948B,0xCC0007FE,0xCC000800,0x00089489],
    [0xCC000802,0xCC000744,0xCD00074E,0x8F00088D,0x8F000894,0xCD000745,0x00089487,0xCC000803,0xCC000813,0x980007CA],
    [0x990007D6,0xCD000749,0x00089485,0x8800089A,0x00089483,0x8800089C,0xCD00074F,0xB40007C2,0xB50007C9,0x880008A3],
    [0xCC000815,0x00089481,0xCD000754,0xCC000819,0x880008AA,0xA80007D9,0xA90007DD,0xCC00081E,0x0008947F,0x0008947D],
    [0xD900081C,0xA70007D3,0x0008947B,0x930008AB,0x940008AE,0x950008B2,0x00089479,0x940008B7,0x880007DC,0xD900081F],
    [0x8A0007E3,0x00089477,0x940008B9,0x00089475,0x810007E8,0x940008BD,0xD9000824,0x00089473,0x940008BF,0x00089471],
    [0x0008946F,0xD9000827,0xD900082A,0xD9000830,0x940008C0,0xA400080D,0x000C946C,0xA400082F,0x000C9469,0xBC0008C6],
    [0xA7000857,0x920007E9,0xE0000821,0xE0000837,0x950007EA,0x000C9466,0xAD000860,0xAE000863,0xAF000871,0xBC0008C8],
    [0xB100087E,0xB2000848,0xB3000886,0xA80007EC,0xB5000892,0xE0000838,0xB700088F,0xA4000817,0xA4000825,0x000C9463],
    [0x87000808,0xB00007ED,0x970008E3,0xBC0008CF,0xB30007F9,0x000C9460,0xA6000828,0xA7000849,0xBE0008DD,0x87000809],
    [0xE000083E,0xE000083F,0x000C945D,0xAC000832,0xAD000858,0x000C945A,0x960008ED,0x970008F1,0xBE0008EA,0x000C9457],
    [0xAF00085C,0x970008F4,0x000C9454,0x92000816,0xE0000843,0x8600081A,0x87000820,0xBE0008FD,0xE000084D,0xAE00083B],
    [0xAF000868,0x000C9451,0x000C944E,0x970008FE,0xE0000853,0xAE000845,0x000C944B,0xBE000902,0x86000829,0x000C9448],
    [0xB1000872,0xBF00082D,0x96000905,0xE0000855,0x9500090B,0x000C9445,0x86000833,0xE000085D,0x8200090F,0x000C9442],
    [0xB3000875,0x95000914,0xB300088C,0xE000085F,0x000C943F,0x000C943C,0x000C9439,0xB300087C,0x8600083A,0x87000847],
    [0xE000086B,0x000C9436,0x9700091D,0x000C9433,0x000C9430,0xB4000865,0xB5000885,0x95000915,0x96000916,0xBE00091B],
    [0xBE00091E,0xB700089F,0x000C942D,0xE0000876,0x9900084B,0x8A000926,0xB4000866,0xE000086E,0x000C942A,0x000C9427],
    [0x8F00092C,0xB70008A6,0x8A00092D,0x000C9424,0xE10008B4,0x80000890,0x80000888,0xA5000851,0xAE000938,0x840008C1],
    [0x000C9421,0x000C941E,0x850008D2,0xE10008B5,0x860008E0,0x870008EC,0x9F000931,0x000C941B,0x000C9418,0x8000085A],
    [0x81000D50,0x82001235,0x83001702,0x84001BDE,0x850020AC,0x86002596,0x87002A5E,0x88002F48,0x89003410,0x8A0038FA],
    [0x8B003DC2,0x8C0042AC,0x8D004774,0x8E004C5E,0x8F005126,0x90005610,0x91005AD8,0x92005FC2,0x000C9415,0x000C9412],
    [0x000C940F,0x000C940C,0x000C9409,0x000C9406,0x000C9403,0x000C9400,0x000C93FD,0x000C93FA,0x000C93F7,0xAC0064E6],
    [0xAD006516,0x000C93F4,0x000C93F1,0x000C93EE,0x000C93EB,0x000C93E8,0x000C93E5,0x000C93E2,0x000C93DF,0x000C93DC],
    [0x000C93D9,0x000C93D6,0x8000096F,0x81000970,0x820009A0,0x000C93D3,0x000C93D0,0xBE0064E2,0xBF0064F3,0xA1000939],
    [0xA20009A1,0xA30009D7,0xA4000A15,0xA5000A4C,0xA6000A89,0xA7000AC0,0xA8000AE4,0xA9000B1E,0xAA000B6E,0xAB000B92],
    [0xAC000BE5,0xAD000C1C,0xAE000C59,0xAF000C93,0xB0000CCD,0xB1000D07,0xB2000D41,0xB3000D78,0xB4000DB5,0xB5000DEC],
    [0xA800093F,0xA9000940,0xAA000954,0xAB000955,0xAC000956,0xAD000957,0xAE000958,0xAF000959,0xB000095A,0xB100095B],
    [0xB200095C,0xB300095D,0xB400095E,0xB5000961,0xB6000962,0xB7000963,0xB8000964,0xB9000965,0xBA000966,0xBB000967],
    [0xBC000968,0xBD000969,0xBE00096A,0xBF00096B,0x000C93CD,0x000C93CA,0x860008FC,0x8700095F,0xA80009BC,0xA90009BD],
    [0xAA0009BE,0xAB0009BF,0xAC0009C0,0xAD0009C1,0xAE0009C2,0xAF0009C3,0xB00009C4,0xB10009C5,0xB20009C6,0xB30009C7],
    [0xB40009C8,0xB50009C9,0xB60009CA,0xB70009CB,0xB80009CC,0xB90009CD,0xBA0009CE,0xBB0009CF,0xBC0009D0,0xBD0009D1],
    [0xBE0009D2,0xBF0009D3,0x000C93C7,0x000C93C4,0x000C93C1,0x000C93BE,0x000C93BB,0x000C93B8,0x000C93B5,0x000C93B2],
    [0x000C93AF,0x000C93AC,0x000C93A9,0x000C93A6,0x000C93A3,0x000C93A0,0x000C939D,0x000C939A,0x000C9397,0x000C9394],
    [0x000C9391,0x000C938E,0x000C938B,0x000C9388,0x000C9385,0x000C9382,0x000C937F,0x000C937C,0x000C9379,0x000C9376],
    [0x86000948,0x8700098F,0x000C9373,0x000C9370,0x000C936D,0x000C936A,0x000C9367,0x800009D4,0x810009D5,0x820009D6],
    [0x000C9364,0x000C9361,0x000C935E,0x000C935B,0x000C9358,0x000C9355,0x000C9352,0x000C934F,0x000C934C,0x000C9349],
    [0x000C9346,0x000C9343,0x000C9340,0xE0000864,0xA80009DA,0xA90009DB,0xAA0009DC,0xAB0009DD,0xAC0009DE,0xAD0009E2],
    [0xAE0009E3,0xAF0009E4,0xB00009E5,0xB10009E6,0xB20009E7,0xB30009E8,0xB40009E9,0xB50009EA,0xB60009EB,0xB70009EC],
    [0xB80009ED,0xB90009EE,0xBA000A08,0xBB000A09,0xBC000A0A,0xBD000A0B,0xBE000A0D,0xBF000A0E,0x000C933D,0x000C933A],
    [0x000C9337,0x000C9334,0xE0000878,0x000C9331,0x000C932E,0x80000A12,0x81000A13,0x82000A14,0x000C932B,0x000C9328],
    [0x000C9325,0x000C9322,0x86000973,0x870009D8,0x000C931F,0x000C931C,0xE10008B6,0xA8000A18,0xA9000A19,0xAA000A33],
    [0xAB000A34,0xAC000A35,0xAD000A36,0xAE000A37,0xAF000A38,0xB0000A39,0xB1000A3A,0xB2000A3B,0xB3000A3C,0xB4000A3D],
    [0xB5000A3E,0xB6000A3F,0xB7000A40,0xB8000A41,0xB9000A42,0xBA000A43,0xBB000A44,0xBC000A45,0xBD000A46,0xBE000A47],
    [0xBF000A48,0x000C9319,0x000C9316,0x000C9313,0x000C9310,0x000C930D,0x000C930A,0x000C9307,0x000C9304,0x000C9301],
    [0x000C92FE,0x000C92FB,0x000C92F8,0x000C92F5,0x000C92F2,0x000C92EF,0x000C92EC,0x000C92E9,0x000C92E6,0x000C92E3],
    [0x000C92E0,0x000C92DD,0x000C92DA,0x000C92D7,0x000C92D4,0x000C92D1,0x000C92CE,0x000C92CB,0x000C92C8,0x000C92C5],
    [0x000C92C2,0x000C92BF,0x000C92BC,0x000C92B9,0x000C92B6,0x000C92B3,0x000C92B0,0x000C92AD,0x80000A49,0x81000A4A],
    [0x82000A4B,0x000C92AA,0x000C92A7,0x000C92A4,0x000C92A1,0x860009B9,0x87000A03,0xA8000A4D,0xA9000A4E,0xAA000A4F],
    [0xAB000A50,0xAC000A51,0xAD000A52,0xAE000A53,0xAF000A54,0xB0000A55,0xB1000A56,0xB2000A57,0xB3000A5B,0xB4000A5C],
    [0xB5000A5D,0xB6000A5E,0xB7000A79,0xB8000A7A,0xB9000A7B,0xBA000A7C,0xBB000A7D,0xBC000A7E,0xBD000A7F,0xBE000A80],
    [0xBF000A81,0x000C929E,0x000C929B,0x000C9298,0x000C9295,0x000C9292,0x000C928F,0x000C928C,0x000C9289,0x000C9286],
    [0xE100091C,0x80000A86,0x81000A87,0x82000A88,0x000C9283,0x000C9280,0x000C927D,0x000C927A,0x860009EF,0x87000A58],
    [0x000C9277,0x000C9274,0x000C9271,0x000C926E,0x000C926B,0x000C9268,0x000C9265,0x000C9262,0x000C925F,0x000C925C],
    [0x000C9259,0xA8000A8C,0xA9000A8D,0xAA000A8E,0xAB000A8F,0xAC000A90,0xAD000A91,0xAE000A92,0xAF000A93,0xB0000A94],
    [0xB1000A95,0xB2000A96,0xB3000AAF,0xB4000AB0,0xB5000AB1,0xB6000AB2,0xB7000AB3,0xB8000AB4,0xB9000AB5,0xBA000AB6],
    [0xBB000AB7,0xBC000AB9,0xBD000ABA,0xBE000ABB,0xBF000ABC,0x000C9256,0x000C9253,0x000C9250,0x000C924D,0x000C924A],
    [0x000C9247,0x000C9244,0x000C9241,0x000C923E,0xE1000952,0x000C923B,0x000C9238,0x000C9235,0x000C9232,0x000C922F],
    [0x000C922C,0x000C9229,0x000C9226,0x000C9223,0x000C9220,0x000C921D,0x000C921A,0x000C9217,0x000C9214,0x000C9211],
    [0x000C920E,0x000C920B,0x000C9208,0x000C9205,0x000C9202,0x000C91FF,0x000C91FC,0x000C91F9,0x000C91F6,0x000C91F3],
    [0x000C91F0,0x000C91ED,0x000C91EA,0x000C91E7,0x000C91E4,0x000C91E1,0x80000ABD,0x81000ABE,0x82000ABF,0x000C91DE],
    [0x000C91DB,0x000C91D8,0x000C91D5,0x86000A5A,0x87000A61,0x80000ADC,0x81000ADD,0x82000ADE,0x000C91D2,0x86000A8A],
    [0x87000A9A,0x000C91CF,0x000C91CC,0x000C91C9,0x000C91C6,0x000C91C3,0x000C91C0,0x000C91BD,0x000C91BA,0x000C91B7],
    [0x000C91B4,0x000C91B1,0x000C91AE,0x000C91AB,0x000C91A8,0x000C91A5,0xE1000990,0x000C91A2,0x000C919F,0x000C919C],
    [0x000C9199,0x000C9196,0x000C9193,0x000C9190,0x000C918D,0x000C918A,0x000C9187,0x000C9184,0xA8000AC1,0xA9000AC2],
    [0xAA000AC3,0xAB000AC4,0xAC000AC5,0xAD000AC6,0xAE000AC7,0xAF000AC8,0xB0000AC9,0xB1000ACA,0xB2000ACB,0xB3000ACC],
    [0xB4000ACD,0xB5000ACE,0xB6000ACF,0xB7000AD0,0xB8000AD1,0xB9000AD2,0xBA000AD3,0xBB000AD4,0xBC000AD5,0xBD000AD6],
    [0xBE000AD7,0xBF000ADB,0x80000B00,0x81000B01,0x82000B1D,0x000C9181,0x000C917E,0x86000AA2,0x87000AF6,0x000C917B],
    [0x000C9178,0x000C9175,0x000C9172,0x000C916F,0x000C916C,0x000C9169,0x000C9166,0x000C9163,0x000C9160,0x000C915D],
    [0x000C915A,0xE10009D9,0x000C9157,0x000C9154,0x000C9151,0x000C914E,0xA8000AE7,0xA9000AE8,0xAA000AE9,0xAB000AEA],
    [0xAC000AEB,0xAD000AEC,0xAE000AED,0xAF000AEE,0xB0000AEF,0xB1000AF0,0xB2000AF1,0xB3000AF2,0xB4000AF3,0xB5000AF4]]"

definition NODES_02 :: "nat list list" where
  "NODES_02 = [
    [0xB6000AF5,0xB7000AF7,0xB8000AF8,0xB9000AF9,0xBA000AFA,0xBB000AFB,0xBC000AFC,0xBD000AFD,0xBE000AFE,0xBF000AFF],
    [0xA8000B21,0xA9000B22,0xAA000B23,0xAB000B24,0xAC000B25,0xAD000B26,0xAE000B27,0xAF000B28,0xB0000B29,0xB1000B2A],
    [0xB2000B2B,0xB3000B2C,0xB4000B2E,0xB5000B2F,0xB6000B30,0xB7000B31,0xB8000B62,0xB9000B63,0xBA000B64,0xBB000B65],
    [0xBC000B66,0xBD000B67,0xBE000B68,0xBF000B69,0x000C914B,0x000C9148,0x000C9145,0x000C9142,0x000C913F,0x000C913C],
    [0x000C9139,0x000C9136,0xE1000A04,0x000C9133,0x000C9130,0x000C912D,0x000C912A,0x000C9127,0x000C9124,0x000C9121],
    [0x000C911E,0x000C911B,0x000C9118,0x000C9115,0x80000B6B,0x81000B6C,0x82000B6D,0x000C9112,0x000C910F,0x000C910C],
    [0x000C9109,0x000C9106,0x000C9103,0x000C9100,0x000C90FD,0x000C90FA,0x000C90F7,0x000C90F4,0x000C90F1,0x000C90EE],
    [0x000C90EB,0x000C90E8,0x86000B03,0x87000B0C,0x000C90E5,0x000C90E2,0x80000B8F,0x81000B90,0x82000B91,0x000C90DF],
    [0x000C90DC,0x000C90D9,0x000C90D6,0x86000B1F,0x87000B5F,0x000C90D3,0x000C90D0,0x000C90CD,0x000C90CA,0x000C90C7],
    [0x000C90C4,0x000C90C1,0x000C90BE,0x000C90BB,0x000C90B8,0x000C90B5,0x000C90B2,0xE1000A59,0x000C90AF,0x000C90AC],
    [0x000C90A9,0x000C90A6,0x000C90A3,0x000C90A0,0x000C909D,0x000C909A,0x000C9097,0xA8000B6F,0xA9000B70,0xAA000B71],
    [0xAB000B72,0xAC000B73,0xAD000B74,0xAE000B75,0xAF000B79,0xB0000B7A,0xB1000B7B,0xB2000B7C,0xB3000B7D,0xB4000B7E],
    [0xB5000B7F,0xB6000B80,0xB7000B81,0xB8000B82,0xB9000B83,0xBA000B84,0xBB000B85,0xBC000B86,0xBD000B87,0xBE000B8A],
    [0xBF000B8B,0x000C9094,0x000C9091,0xE1000A5F,0x000C908E,0xA8000B95,0xA9000B96,0xAA000B97,0xAB000B98,0xAC000B99],
    [0xAD000B9A,0xAE000B9B,0xAF000B9C,0xB0000B9D,0xB1000B9E,0xB2000B9F,0xB3000BA0,0xB4000BA2,0xB5000BA3,0xB6000BA4],
    [0xB7000BA5,0xB8000BA6,0xB9000BA7,0xBA000BA8,0xBB000BA9,0xBC000BAA,0xBD000BC3,0xBE000BC4,0xBF000BC6,0x80000BE2],
    [0x81000BE3,0x82000BE4,0x000C908B,0x000C9088,0x000C9085,0x000C9082,0x86000B58,0x87000BA1,0x000C907F,0x000C907C],
    [0x000C9079,0x000C9076,0x000C9073,0x000C9070,0x000C906D,0x000C906A,0x000C9067,0x000C9064,0x000C9061,0x000C905E],
    [0x000C905B,0x000C9058,0x000C9055,0x000C9052,0x000C904F,0x000C904C,0x000C9049,0x000C9046,0x000C9043,0x000C9040],
    [0x000C903D,0xE1000A99,0xA8000BE8,0xA9000BE9,0xAA000BEA,0xAB000BEB,0xAC000BEC,0xAD000BED,0xAE000BEE,0xAF000BEF],
    [0xB0000BF0,0xB1000BF1,0xB2000BF2,0xB3000BF3,0xB4000BF4,0xB5000BF5,0xB6000BF6,0xB7000BF7,0xB8000BF8,0xB9000BF9],
    [0xBA000BFA,0xBB000BFB,0xBC000BFC,0xBD000BFD,0xBE000BFE,0xBF000C18,0x000C903A,0x000C9037,0x000C9034,0x000C9031],
    [0x000C902E,0x000C902B,0x000C9028,0x000C9025,0x000C9022,0x80000C19,0x81000C1A,0x82000C1B,0x000C901F,0x000C901C],
    [0x000C9019,0x000C9016,0x000C9013,0x000C9010,0x000C900D,0x000C900A,0x000C9007,0x000C9004,0x000C9001,0x000C8FFE],
    [0x000C8FFB,0x86000B8C,0x87000BD3,0x000C8FF8,0xA8000C1D,0xA9000C1E,0xAA000C1F,0xAB000C20,0xAC000C24,0xAD000C25],
    [0xAE000C26,0xAF000C27,0xB0000C28,0xB1000C29,0xB2000C2A,0xB3000C2B,0xB4000C2C,0xB5000C2D,0xB6000C2E,0xB7000C2F],
    [0xB8000C30,0xB9000C33,0xBA000C4C,0xBB000C4D,0xBC000C4E,0xBD000C50,0xBE000C51,0xBF000C52,0x000C8FF5,0x000C8FF2],
    [0x000C8FEF,0xE1000B02,0x000C8FEC,0x000C8FE9,0x000C8FE6,0x80000C56,0x81000C57,0x82000C58,0x000C8FE3,0x000C8FE0],
    [0x000C8FDD,0x000C8FDA,0x86000BCC,0x87000C0D,0x000C8FD7,0x000C8FD4,0x000C8FD1,0x000C8FCE,0x000C8FCB,0x000C8FC8],
    [0x000C8FC5,0x000C8FC2,0x000C8FBF,0x000C8FBC,0x000C8FB9,0x000C8FB6,0x000C8FB3,0x000C8FB0,0x000C8FAD,0x000C8FAA],
    [0x000C8FA7,0x000C8FA4,0x000C8FA1,0x000C8F9E,0x000C8F9B,0x000C8F98,0x000C8F95,0xE1000B0D,0xA8000C5C,0xA9000C5D],
    [0xAA000C5E,0xAB000C5F,0xAC000C60,0xAD000C61,0xAE000C62,0xAF000C63,0xB0000C64,0xB1000C65,0xB2000C66,0xB3000C67],
    [0xB4000C68,0xB5000C69,0xB6000C6A,0xB7000C6B,0xB8000C6C,0xB9000C6D,0xBA000C6E,0xBB000C6F,0xBC000C70,0xBD000C71],
    [0xBE000C72,0xBF000C8C,0x000C8F92,0x80000C90,0x81000C91,0x82000C92,0x000C8F8F,0x000C8F8C,0x000C8F89,0x000C8F86],
    [0x86000BFF,0x87000C47,0x000C8F83,0x000C8F80,0x000C8F7D,0x000C8F7A,0x000C8F77,0x000C8F74,0x000C8F71,0x000C8F6E],
    [0x000C8F6B,0x000C8F68,0x000C8F65,0x000C8F62,0x000C8F5F,0x000C8F5C,0x000C8F59,0x000C8F56,0x000C8F53,0xA8000C96],
    [0xA9000C97,0xAA000C98,0xAB000C99,0xAC000C9A,0xAD000C9B,0xAE000C9C,0xAF000C9D,0xB0000C9E,0xB1000C9F,0xB2000CA0],
    [0xB3000CA1,0xB4000CA2,0xB5000CA3,0xB6000CA4,0xB7000CA5,0xB8000CA6,0xB9000CBF,0xBA000CC0,0xBB000CC1,0xBC000CC2],
    [0xBD000CC3,0xBE000CC4,0xBF000CC5,0x000C8F50,0x000C8F4D,0x000C8F4A,0x000C8F47,0x000C8F44,0x000C8F41,0x000C8F3E],
    [0xE1000B60,0x80000CCA,0x81000CCB,0x82000CCC,0x000C8F3B,0x000C8F38,0x000C8F35,0x000C8F32,0x86000C31,0x87000C81],
    [0x000C8F2F,0x000C8F2C,0x000C8F29,0x000C8F26,0x000C8F23,0x000C8F20,0x000C8F1D,0x000C8F1A,0x000C8F17,0xA8000CD0],
    [0xA9000CD1,0xAA000CD2,0xAB000CD3,0xAC000CD4,0xAD000CD5,0xAE000CD6,0xAF000CD7,0xB0000CD8,0xB1000CF1,0xB2000CF2],
    [0xB3000CF3,0xB4000CF4,0xB5000CF5,0xB6000CF6,0xB7000CF7,0xB8000CF8,0xB9000CF9,0xBA000CFA,0xBB000CFB,0xBC000CFC],
    [0xBD000CFE,0xBE000CFF,0xBF000D00,0x000C8F14,0x000C8F11,0x000C8F0E,0x000C8F0B,0x000C8F08,0x000C8F05,0x000C8F02],
    [0x000C8EFF,0x000C8EFC,0x000C8EF9,0x000C8EF6,0x000C8EF3,0xE1000BAB,0x000C8EF0,0x000C8EED,0x000C8EEA,0x80000D04],
    [0x81000D05,0x82000D06,0x000C8EE7,0x000C8EE4,0x000C8EE1,0x000C8EDE,0x86000C73,0x87000CBB,0x000C8EDB,0x000C8ED8],
    [0x000C8ED5,0x000C8ED2,0x000C8ECF,0x000C8ECC,0x000C8EC9,0x000C8EC6,0x000C8EC3,0x000C8EC0,0x000C8EBD,0x000C8EBA],
    [0x000C8EB7,0x000C8EB4,0x000C8EB1,0x000C8EAE,0x000C8EAB,0xA8000D0A,0xA9000D0B,0xAA000D0C,0xAB000D0D,0xAC000D0E],
    [0xAD000D0F,0xAE000D10,0xAF000D11,0xB0000D12,0xB1000D13,0xB2000D14,0xB3000D15,0xB4000D16,0xB5000D17,0xB6000D18],
    [0xB7000D19,0xB8000D1A,0xB9000D33,0xBA000D34,0xBB000D35,0xBC000D36,0xBD000D37,0xBE000D38,0xBF000D39,0x000C8EA8],
    [0x000C8EA5,0x000C8EA2,0x000C8E9F,0x000C8E9C,0x000C8E99,0x000C8E96,0xE1000BD4,0x80000D3E,0x81000D3F,0x82000D40],
    [0x000C8E93,0x000C8E90,0x000C8E8D,0x000C8E8A,0x86000CA7,0x87000CFD,0x000C8E87,0x000C8E84,0x000C8E81,0x000C8E7E],
    [0x000C8E7B,0x000C8E78,0x000C8E75,0x000C8E72,0x000C8E6F,0x000C8E6C,0x000C8E69,0xA8000D44,0xA9000D45,0xAA000D46],
    [0xAB000D47,0xAC000D48,0xAD000D49,0xAE000D4A,0xAF000D4B,0xB0000D4C,0xB1000D4D,0xB2000D4E,0xB3000D67,0xB4000D68],
    [0xB5000D69,0xB6000D6A,0xB7000D6B,0xB8000D6C,0xB9000D6D,0xBA000D6E,0xBB000D6F,0xBC000D70,0xBD000D71,0xBE000D72],
    [0xBF000D73,0x000C8E66,0x000C8E63,0x000C8E60,0x000C8E5D,0x000C8E5A,0x000C8E57,0x000C8E54,0x000C8E51,0x000C8E4E],
    [0x000C8E4B,0x000C8E48,0x000C8E45,0x000C8E42,0xE1000C0E,0x000C8E3F,0x000C8E3C,0x000C8E39,0x000C8E36,0x000C8E33],
    [0x000C8E30,0x000C8E2D,0x000C8E2A,0x80000D75,0x81000D76,0x82000D77,0x000C8E27,0x000C8E24,0x000C8E21,0x000C8E1E],
    [0x000C8E1B,0x000C8E18,0x000C8E15,0x86000CE1,0x87000D2F,0xA8000D79,0xA9000D7A,0xAA000D7B,0xAB000D7C,0xAC000D80],
    [0xAD000D81,0xAE000D82,0xAF000D83,0xB0000D84,0xB1000D85,0xB2000D86,0xB3000DA1,0xB4000DA2,0xB5000DA3,0xB6000DA4],
    [0xB7000DA5,0xB8000DA6,0xB9000DA7,0xBA000DA8,0xBB000DA9,0xBC000DAA,0xBD000DAB,0xBE000DAC,0xBF000DAD,0x000C8E12],
    [0x000C8E0F,0x000C8E0C,0x000C8E09,0x000C8E06,0x000C8E03,0x000C8E00,0x000C8DFD,0x000C8DFA,0x000C8DF7,0x000C8DF4],
    [0x000C8DF1,0x000C8DEE,0xE1000C48,0x80000DB2,0x81000DB3,0x82000DB4,0x000C8DEB,0x000C8DE8,0x000C8DE5,0x000C8DE2],
    [0x86000D1B,0x87000D74,0x000C8DDF,0x000C8DDC,0x000C8DD9,0x000C8DD6,0x000C8DD3,0x000C8DD0,0x000C8DCD,0x000C8DCA],
    [0x000C8DC7,0x000C8DC4,0x000C8DC1,0xA8000DB8,0xA9000DB9,0xAA000DBA,0xAB000DBB,0xAC000DBC,0xAD000DBD,0xAE000DBE],
    [0xAF000DBF,0xB0000DC0,0xB1000DC1,0xB2000DC2,0xB3000DDB,0xB4000DDC,0xB5000DDD,0xB6000DDE,0xB7000DDF,0xB8000DE0],
    [0xB9000DE1,0xBA000DE2,0xBB000DE3,0xBC000DE4,0xBD000DE5,0xBE000DE6,0xBF000DE7,0x000C8DBE,0x000C8DBB,0x000C8DB8],
    [0x000C8DB5,0x000C8DB2,0x000C8DAF,0x000C8DAC,0x000C8DA9,0x000C8DA6,0x000C8DA3,0x000C8DA0,0x000C8D9D,0x000C8D9A],
    [0xE1000C82,0x000C8D97,0x000C8D94,0x000C8D91,0x000C8D8E,0x000C8D8B,0x000C8D88,0x000C8D85,0x000C8D82,0x000C8D7F],
    [0x000C8D7C,0x000C8D79,0x80000DE9,0x81000DEA,0x82000DEB,0x000C8D76,0x000C8D73,0x000C8D70,0x000C8D6D,0x000C8D6A],
    [0x000C8D67,0x000C8D64,0x000C8D61,0x000C8D5E,0x000C8D5B,0x000C8D58,0x000C8D55,0x86000D5D,0x87000DAE,0xA8000DED],
    [0xA9000DEE,0xAA000DEF,0xAB000DF0,0xAC000DF1,0xAD000DF2,0xAE000DF3,0xAF000DF7,0xB0000DF8,0xB1000DF9,0xB2000DFA],
    [0xB3000DFB,0xB4000DFC,0xB5000DFD,0xB6000DFE,0xB7000DFF,0xB8000E00,0xB9000E01,0xBA000E02,0xBB000E1D,0xBC000E1E],
    [0xBD000E1F,0xBE000E20,0xBF000E21,0x000C8D52,0x000C8D4F,0x000C8D4C,0x000C8D49,0x000C8D46,0xE1000CBC,0x000C8D43],
    [0x000C8D40,0x000C8D3D,0x000C8D3A,0x000C8D37,0x000C8D34,0x000C8D31,0x000C8D2E,0x000C8D2B,0x000C8D28,0x000C8D25],
    [0x80000E23,0x81000E24,0x82000E25,0xE1000DAF,0x000C8D22,0x000C8D1F,0x85000D94,0xA1000E26,0xA2000E7A,0xA3000EB4],
    [0xA4000ED3,0xA5000F25,0xA6000F62,0xA7000F9C,0xA8000FD3,0xA9001010,0xAA00104A,0xAB001081,0xAC0010BB,0xAD0010F8],
    [0xAE00112F,0xAF001153,0xB00011A3,0xB10011DD,0xB200121A,0xB3001254,0xB400128E,0xB50012C8,0x86000DB6,0x87000DF6],
    [0x000C8D1C,0x000C8D19,0x000C8D16,0x000C8D13,0x000C8D10,0x000C8D0D,0x000C8D0A,0x000C8D07,0x000C8D04,0x000C8D01],
    [0x000C8CFE,0x000C8CFB,0x000C8CF8,0xE1000D01,0x000C8CF5,0x000C8CF2,0x000C8CEF,0x000C8CEC,0xA8000E27,0xA9000E28],
    [0xAA000E29,0xAB000E2A,0xAC000E2B,0xAD000E2C,0xAE000E2D,0xAF000E32,0xB0000E33,0xB1000E4C,0xB2000E4D,0xB3000E4E],
    [0xB4000E4F,0xB5000E50,0xB6000E51,0xB7000E52,0xB8000E53,0xB9000E54,0xBA000E55,0xBB000E56,0xBC000E57,0xBD000E58],
    [0xBE000E5A,0xBF000E5B,0x80000E5C,0x81000E5D,0x82000E79,0x000C8CE9,0x000C8CE6,0x86000DD5,0x87000E2E,0xA8000E95],
    [0xA9000E97,0xAA000E98,0xAB000E99,0xAC000E9A,0xAD000E9B,0xAE000E9C,0xAF000E9D,0xB0000E9E,0xB1000E9F,0xB2000EA0],
    [0xB3000EA1,0xB4000EA2,0xB5000EA3,0xB6000EA4,0xB7000EA5,0xB8000EA6,0xB9000EA7,0xBA000EA8,0xBB000EA9,0xBC000EAA],
    [0xBD000EAB,0xBE000EAC,0xBF000EAD,0x000C8CE3,0xE1000D30,0x000C8CE0,0x000C8CDD,0x000C8CDA,0x000C8CD7,0x000C8CD4],
    [0x000C8CD1,0x000C8CCE,0x000C8CCB,0x000C8CC8,0x000C8CC5,0x000C8CC2,0x000C8CBF,0x000C8CBC,0x000C8CB9,0x000C8CB6],
    [0x000C8CB3,0x000C8CB0,0x000C8CAD,0x000C8CAA,0x000C8CA7,0x000C8CA4,0x000C8CA1,0x000C8C9E,0x80000EB1,0x81000EB2],
    [0x82000EB3,0x000C8C9B,0x000C8C98,0x000C8C95,0x000C8C92,0x86000E30,0x87000E70,0x000C8C8F,0x000C8C8C,0x000C8C89],
    [0x000C8C86,0x000C8C83,0x000C8C80,0x000C8C7D,0x000C8C7A,0x000C8C77,0x000C8C74,0x000C8C71,0x000C8C6E,0x000C8C6B],
    [0x000C8C68,0x000C8C65,0x000C8C62,0x000C8C5F,0x000C8C5C,0x000C8C59,0x000C8C56,0x000C8C53,0x000C8C50,0xE1000D7D],
    [0x000C8C4D,0x000C8C4A,0x000C8C47,0x000C8C44,0x000C8C41,0x000C8C3E,0x000C8C3B,0x000C8C38,0x000C8C35,0x000C8C32],
    [0xA8000EB7,0xA9000EB8,0xAA000EB9,0xAB000EBA,0xAC000EBB,0xAD000EBC,0xAE000EBD,0xAF000EBE,0xB0000EBF,0xB1000EC0],
    [0xB2000EC1,0xB3000EC2,0xB4000EC3,0xB5000EC4,0xB6000EC5,0xB7000EC6,0xB8000EC7,0xB9000EC8,0xBA000EC9,0xBB000ECA],
    [0xBC000ECB,0xBD000ECC,0xBE000ECE,0xBF000ECF,0x80000ED0,0x81000ED1,0x82000ED2,0x86000E60,0x87000EAE,0x000C8C2F],
    [0x000C8C2C,0x000C8C29,0x000C8C26,0x000C8C23,0x000C8C20,0x000C8C1D,0x000C8C1A,0x000C8C17,0x000C8C14,0x000C8C11],
    [0x000C8C0E,0x000C8C0B,0x000C8C08,0x000C8C05,0x000C8C02,0x000C8BFF,0x000C8BFC,0xE1000DC4,0xA8000ED4,0xA9000ED5],
    [0xAA000ED6,0xAB000ED7,0xAC000EF5,0xAD000EF6,0xAE000EF7,0xAF000EF8,0xB0000EF9,0xB1000EFA,0xB2000EFB,0xB3000EFC],
    [0xB4000EFD,0xB5000EFE,0xB6000EFF,0xB7000F00,0xB8000F01,0xB9000F02,0xBA000F03,0xBB000F04,0xBC000F05,0xBD000F06],
    [0xBE000F20,0xBF000F21,0x000C8BF9,0x000C8BF6,0x000C8BF3,0x000C8BF0,0x000C8BED,0x000C8BEA,0x000C8BE7,0x000C8BE4],
    [0x000C8BE1,0x000C8BDE,0x000C8BDB,0x000C8BD8,0x000C8BD5,0x000C8BD2,0x80000F22,0x81000F23,0x82000F24,0x000C8BCF],
    [0x000C8BCC,0x000C8BC9,0x000C8BC6,0x86000E8F,0x87000EDC,0xA8000F26,0xA9000F27,0xAA000F28,0xAB000F29,0xAC000F2A],
    [0xAD000F2B,0xAE000F2C,0xAF000F2D,0xB0000F31,0xB1000F32,0xB2000F33,0xB3000F34,0xB4000F4F,0xB5000F50,0xB6000F51],
    [0xB7000F52,0xB8000F53,0xB9000F54,0xBA000F55,0xBB000F56,0xBC000F57,0xBD000F58,0xBE000F59,0xBF000F5A,0x000C8BC3],
    [0x000C8BC0,0x000C8BBD,0x000C8BBA,0x000C8BB7,0x000C8BB4,0x000C8BB1,0x000C8BAE,0x000C8BAB,0x000C8BA8,0x000C8BA5],
    [0x000C8BA2,0xE1000DF5,0x80000F5F,0x81000F60,0x82000F61,0x000C8B9F,0x000C8B9C,0x000C8B99,0x000C8B96,0x86000ECD],
    [0x87000F16,0x000C8B93,0x000C8B90,0x000C8B8D,0x000C8B8A,0x000C8B87,0x000C8B84,0x000C8B81,0x000C8B7E,0x000C8B7B],
    [0x000C8B78,0x000C8B75,0x000C8B72,0x000C8B6F,0x000C8B6C,0x000C8B69,0x000C8B66,0xA8000F65,0xA9000F66,0xAA000F67],
    [0xAB000F68,0xAC000F69,0xAD000F6A,0xAE000F6B,0xAF000F6C,0xB0000F6D,0xB1000F6E,0xB2000F6F,0xB3000F70,0xB4000F71],
    [0xB5000F72,0xB6000F73,0xB7000F74,0xB8000F8D,0xB9000F8E,0xBA000F8F,0xBB000F90,0xBC000F91,0xBD000F92,0xBE000F93],
    [0xBF000F94,0x000C8B63,0x000C8B60,0x000C8B5D,0x000C8B5A,0x000C8B57,0x000C8B54,0x000C8B51,0x000C8B4E,0xE1000E2F],
    [0x80000F99,0x81000F9A,0x82000F9B,0x000C8B4B,0x000C8B48,0x000C8B45,0x000C8B42,0x86000F0D,0x87000F5B,0x000C8B3F],
    [0x000C8B3C,0x000C8B39,0x000C8B36,0x000C8B33,0x000C8B30,0x000C8B2D,0x000C8B2A,0x000C8B27,0x000C8B24,0x000C8B21],
    [0x000C8B1E,0x000C8B1B,0x000C8B18,0x000C8B15,0x000C8B12,0x000C8B0F,0x000C8B0C,0x000C8B09,0x000C8B06,0x000C8B03],
    [0xE1000E6D,0xA8000F9F,0xA9000FA0,0xAA000FA1,0xAB000FA2,0xAC000FA3,0xAD000FA4,0xAE000FA5,0xAF000FA6,0xB0000FA7],
    [0xB1000FA8,0xB2000FA9,0xB3000FAA,0xB4000FAB,0xB5000FAC,0xB6000FAD,0xB7000FAE,0xB8000FAF,0xB9000FB0,0xBA000FB1],
    [0xBB000FB2,0xBC000FB3,0xBD000FCD,0xBE000FCE,0xBF000FCF,0x000C8B00,0x000C8AFD,0x000C8AFA,0x000C8AF7,0x000C8AF4],
    [0x000C8AF1,0x000C8AEE,0x86000F36,0x87000F8A,0x000C8AEB,0x000C8AE8,0x000C8AE5,0x000C8AE2,0x000C8ADF,0x80000FD0],
    [0x81000FD1,0x82000FD2,0xA8000FD6,0xA9000FD7,0xAA000FD8,0xAB000FD9,0xAC000FDA,0xAD000FF6,0xAE000FF7,0xAF000FF8],
    [0xB0000FF9,0xB1000FFA,0xB2000FFB,0xB3000FFC,0xB4000FFD,0xB5000FFE,0xB6000FFF,0xB7001000,0xB8001001,0xB9001002],
    [0xBA001003,0xBB001004,0xBC001005,0xBD001007,0xBE001008,0xBF001009,0x000C8ADC,0x000C8AD9,0x000C8AD6,0x000C8AD3],
    [0x000C8AD0,0x000C8ACD,0x000C8ACA,0x000C8AC7,0x000C8AC4,0x000C8AC1,0x000C8ABE,0x000C8ABB,0x000C8AB8,0x000C8AB5],
    [0x000C8AB2,0x000C8AAF,0xE1000EAF,0x000C8AAC,0x000C8AA9,0x000C8AA6,0x8000100D,0x8100100E,0x8200100F,0x000C8AA3],
    [0x000C8AA0,0x000C8A9D,0x000C8A9A,0x86000F75,0x87000FC4,0x000C8A97,0x000C8A94,0x000C8A91,0x000C8A8E,0x000C8A8B],
    [0x000C8A88,0x000C8A85,0x000C8A82,0x000C8A7F,0x000C8A7C,0xA8001013,0xA9001014,0xAA001015,0xAB001016,0xAC001017],
    [0xAD001018,0xAE001019,0xAF00101A,0xB000101B,0xB100101C,0xB2001035,0xB3001036,0xB4001037,0xB5001038,0xB6001039],
    [0xB700103A,0xB800103B,0xB900103C,0xBA00103D,0xBB00103E,0xBC00103F,0xBD001040,0xBE001041,0xBF001042,0x000C8A79],
    [0x000C8A76,0x000C8A73,0x000C8A70,0x000C8A6D,0x000C8A6A,0x000C8A67,0x000C8A64,0x000C8A61,0x000C8A5E,0x000C8A5B],
    [0x000C8A58,0x000C8A55,0x000C8A52,0xE1000EDD,0x80001047,0x81001048,0x82001049,0x000C8A4F,0x000C8A4C,0x000C8A49],
    [0x000C8A46,0x86000FB4,0x87001006,0x000C8A43,0x000C8A40,0x000C8A3D,0x000C8A3A,0x000C8A37,0x000C8A34,0x000C8A31],
    [0x000C8A2E,0x000C8A2B,0x000C8A28,0x000C8A25,0x000C8A22,0x000C8A1F,0x000C8A1C,0x000C8A19,0xA800104D,0xA900104E],
    [0xAA00104F,0xAB001050,0xAC001051,0xAD001052,0xAE001053,0xAF001054,0xB0001055,0xB1001056,0xB2001057,0xB3001058],
    [0xB4001059,0xB500105A,0xB600105B,0xB7001074,0xB8001075,0xB9001076,0xBA001077,0xBB001078,0xBC001079,0xBD00107A],
    [0xBE00107B,0xBF00107C,0x000C8A16,0x000C8A13,0x000C8A10,0x000C8A0D,0x000C8A0A,0x000C8A07,0x000C8A04,0x000C8A01],
    [0x000C89FE,0xE1000F17,0x000C89FB,0x000C89F8,0x000C89F5,0x000C89F2,0x000C89EF,0x000C89EC,0x000C89E9,0x000C89E6],
    [0x8000107E,0x8100107F,0x82001080,0x000C89E3,0x000C89E0,0x000C89DD,0x000C89DA,0x000C89D7,0x000C89D4,0x000C89D1],
    [0x86000FEA,0x87001043,0xA8001082,0xA9001083,0xAA001084,0xAB001085,0xAC001089,0xAD00108A,0xAE00108B,0xAF00108C],
    [0xB000108D,0xB100108E,0xB200108F,0xB30010AA,0xB40010AB,0xB50010AC,0xB60010AD,0xB70010AE,0xB80010AF,0xB90010B0],
    [0xBA0010B1,0xBB0010B2,0xBC0010B3,0xBD0010B5,0xBE0010B6,0xBF0010B7,0x000C89CE,0x000C89CB,0x000C89C8,0x000C89C5],
    [0x000C89C2,0x000C89BF,0x000C89BC,0x000C89B9,0x000C89B6,0x000C89B3,0xE1000F4E,0x000C89B0,0x000C89AD,0x000C89AA],
    [0x000C89A7,0x000C89A4,0x000C89A1,0x000C899E,0x000C899B,0x000C8998,0x000C8995,0x000C8992,0x000C898F,0x000C898C],
    [0x000C8989,0x800010B8,0x810010B9,0x820010BA,0x000C8986,0x000C8983,0x000C8980,0x000C897D,0x86001024,0x87001072],
    [0xA80010BC,0xA90010BD,0xAA0010BE,0xAB0010BF,0xAC0010C0,0xAD0010C1,0xAE0010C2,0xAF0010C6,0xB00010C7,0xB10010C8],
    [0xB20010C9,0xB30010E4,0xB40010E5,0xB50010E6,0xB60010E7,0xB70010E8,0xB80010E9,0xB90010EA,0xBA0010EB,0xBB0010EC]]"

definition NODES_03 :: "nat list list" where
  "NODES_03 = [
    [0xBC0010ED,0xBD0010EE,0xBE0010EF,0xBF0010F0,0x000C897A,0x000C8977,0x000C8974,0x000C8971,0x000C896E,0x000C896B],
    [0x000C8968,0x000C8965,0x000C8962,0x000C895F,0x000C895C,0x000C8959,0x000C8956,0xE1000F8B,0x800010F5,0x810010F6],
    [0x820010F7,0x000C8953,0x000C8950,0x000C894D,0x000C894A,0x8600105C,0x870010B4,0x000C8947,0x000C8944,0x000C8941],
    [0x000C893E,0x000C893B,0x000C8938,0x000C8935,0x000C8932,0x000C892F,0xA80010FB,0xA90010FC,0xAA0010FD,0xAB0010FE],
    [0xAC0010FF,0xAD001100,0xAE001101,0xAF001102,0xB0001103,0xB100111C,0xB200111D,0xB300111E,0xB400111F,0xB5001120],
    [0xB6001121,0xB7001122,0xB8001123,0xB9001124,0xBA001125,0xBB001126,0xBC001127,0xBD001128,0xBE001129,0xBF00112A],
    [0x000C892C,0x000C8929,0x000C8926,0x000C8923,0x000C8920,0x000C891D,0x000C891A,0x000C8917,0x000C8914,0x000C8911],
    [0x000C890E,0x000C890B,0x000C8908,0x000C8905,0x000C8902,0xE1000FC5,0x000C88FF,0x000C88FC,0x000C88F9,0x000C88F6],
    [0x000C88F3,0x000C88F0,0x000C88ED,0x000C88EA,0x8000112C,0x8100112D,0x8200112E,0x000C88E7,0x000C88E4,0x000C88E1],
    [0x000C88DE,0x000C88DB,0x000C88D8,0x000C88D5,0x000C88D2,0x000C88CF,0x000C88CC,0x000C88C9,0x000C88C6,0x000C88C3],
    [0x000C88C0,0x000C88BD,0x000C88BA,0x000C88B7,0x000C88B4,0x860010C4,0x870010CD,0x000C88B1,0x000C88AE,0x80001150],
    [0x81001151,0x82001152,0x000C88AB,0x000C88A8,0x000C88A5,0x000C88A2,0x860010DC,0x8700112B,0x000C889F,0x000C889C],
    [0x000C8899,0x000C8896,0x000C8893,0x000C8890,0x000C888D,0x000C888A,0x000C8887,0x000C8884,0x000C8881,0x000C887E],
    [0xE100100A,0x000C887B,0x000C8878,0x000C8875,0x000C8872,0x000C886F,0x000C886C,0x000C8869,0x000C8866,0x000C8863],
    [0xA8001130,0xA9001131,0xAA001132,0xAB001133,0xAC001137,0xAD001138,0xAE001139,0xAF00113A,0xB000113B,0xB100113C],
    [0xB200113D,0xB300113E,0xB400113F,0xB5001140,0xB6001141,0xB7001142,0xB8001143,0xB9001144,0xBA001145,0xBB001146],
    [0xBC001147,0xBD001148,0xBE00114B,0xBF00114C,0xA8001156,0xA9001157,0xAA001158,0xAB001159,0xAC00115A,0xAD00115B],
    [0xAE00115C,0xAF00115D,0xB000115E,0xB100115F,0xB2001160,0xB3001161,0xB4001163,0xB5001164,0xB6001165,0xB7001166],
    [0xB8001167,0xB9001168,0xBA001169,0xBB00116A,0xBC00116B,0xBD00119D,0xBE00119E,0xBF00119F,0xE1001044,0x000C8860],
    [0x000C885D,0x000C885A,0x000C8857,0x000C8854,0x000C8851,0x000C884E,0x000C884B,0x000C8848,0x000C8845,0x000C8842],
    [0x000C883F,0x000C883C,0x000C8839,0x800011A0,0x810011A1,0x820011A2,0x000C8836,0x000C8833,0x000C8830,0x000C882D],
    [0x000C882A,0x000C8827,0x000C8824,0x000C8821,0x000C881E,0x000C881B,0x000C8818,0x000C8815,0x86001114,0x87001162],
    [0xA80011A4,0xA90011A5,0xAA0011A6,0xAB0011A7,0xAC0011A8,0xAD0011A9,0xAE0011AA,0xAF0011AE,0xB00011AF,0xB10011B0],
    [0xB20011B1,0xB30011B2,0xB40011B3,0xB50011B4,0xB60011B5,0xB70011B6,0xB80011B7,0xB90011B8,0xBA0011B9,0xBB0011D4],
    [0xBC0011D5,0xBD0011D6,0xBE0011D7,0xBF0011D8,0x000C8812,0x000C880F,0x000C880C,0x000C8809,0x000C8806,0xE1001073],
    [0x000C8803,0x000C8800,0x000C87FD,0x000C87FA,0x000C87F7,0x000C87F4,0x000C87F1,0x000C87EE,0x800011DA,0x810011DB],
    [0x820011DC,0x000C87EB,0x000C87E8,0x000C87E5,0x000C87E2,0x000C87DF,0x000C87DC,0x000C87D9,0x000C87D6,0x000C87D3],
    [0x000C87D0,0x000C87CD,0x000C87CA,0x000C87C7,0x8600114D,0x87001194,0x000C87C4,0xA80011DE,0xA90011DF,0xAA0011E0],
    [0xAB0011E1,0xAC0011E5,0xAD0011E6,0xAE0011E7,0xAF0011E8,0xB00011E9,0xB10011EA,0xB20011EB,0xB30011EC,0xB40011ED],
    [0xB50011EE,0xB60011EF,0xB70011F0,0xB80011F1,0xB90011F4,0xBA00120D,0xBB00120E,0xBC00120F,0xBD001211,0xBE001212],
    [0xBF001213,0x000C87C1,0x000C87BE,0x000C87BB,0xE10010C3,0x000C87B8,0x000C87B5,0x000C87B2,0x80001217,0x81001218],
    [0x82001219,0x000C87AF,0x000C87AC,0x000C87A9,0x000C87A6,0x8600118D,0x870011CE,0x000C87A3,0x000C87A0,0x000C879D],
    [0x000C879A,0x000C8797,0x000C8794,0x000C8791,0x000C878E,0x000C878B,0x000C8788,0x000C8785,0x000C8782,0x000C877F],
    [0x000C877C,0x000C8779,0x000C8776,0x000C8773,0x000C8770,0x000C876D,0x000C876A,0x000C8767,0x000C8764,0x000C8761],
    [0xE10010CE,0xA800121D,0xA900121E,0xAA00121F,0xAB001220,0xAC001221,0xAD001222,0xAE001223,0xAF001224,0xB0001225],
    [0xB1001226,0xB2001227,0xB3001228,0xB4001229,0xB500122A,0xB600122B,0xB700122C,0xB800122D,0xB900122E,0xBA00122F],
    [0xBB001230,0xBC001231,0xBD001232,0xBE001233,0xBF00124D,0x000C875E,0x80001251,0x81001252,0x82001253,0x000C875B],
    [0x000C8758,0x000C8755,0x000C8752,0x860011BA,0x87001208,0x000C874F,0x000C874C,0x000C8749,0x000C8746,0x000C8743],
    [0x000C8740,0x000C873D,0x000C873A,0x000C8737,0x000C8734,0x000C8731,0xA8001257,0xA9001258,0xAA001259,0xAB00125A],
    [0xAC00125B,0xAD00125C,0xAE00125D,0xAF00125E,0xB000125F,0xB1001260,0xB2001261,0xB300127A,0xB400127B,0xB500127C],
    [0xB600127D,0xB700127E,0xB800127F,0xB9001280,0xBA001281,0xBB001282,0xBC001283,0xBD001285,0xBE001286,0xBF001287],
    [0x000C872E,0x000C872B,0x000C8728,0x000C8725,0x000C8722,0x000C871F,0x000C871C,0x000C8719,0x000C8716,0x000C8713],
    [0xE1001134,0x000C8710,0x000C870D,0x000C870A,0x8000128B,0x8100128C,0x8200128D,0x000C8707,0x000C8704,0x000C8701],
    [0x000C86FE,0x860011F2,0x87001242,0x000C86FB,0x000C86F8,0x000C86F5,0x000C86F2,0x000C86EF,0x000C86EC,0x000C86E9],
    [0x000C86E6,0x000C86E3,0xA8001291,0xA9001292,0xAA001293,0xAB001294,0xAC001295,0xAD001296,0xAE001297,0xAF001298],
    [0xB0001299,0xB10012B2,0xB20012B3,0xB30012B4,0xB40012B5,0xB50012B6,0xB60012B7,0xB70012B8,0xB80012B9,0xB90012BA],
    [0xBA0012BB,0xBB0012BC,0xBC0012BD,0xBD0012BF,0xBE0012C0,0xBF0012C1,0x000C86E0,0x000C86DD,0x000C86DA,0x000C86D7],
    [0x000C86D4,0x000C86D1,0x000C86CE,0x000C86CB,0x000C86C8,0x000C86C5,0x000C86C2,0x000C86BF,0xE100116C,0x000C86BC],
    [0x000C86B9,0x000C86B6,0x800012C5,0x810012C6,0x820012C7,0x000C86B3,0x000C86B0,0x000C86AD,0x000C86AA,0x86001234],
    [0x87001284,0x000C86A7,0x000C86A4,0x000C86A1,0x000C869E,0x000C869B,0x000C8698,0x000C8695,0x000C8692,0x000C868F],
    [0x000C868C,0x000C8689,0x000C8686,0x000C8683,0x000C8680,0x000C867D,0x000C867A,0x000C8677,0xA80012CB,0xA90012CC],
    [0xAA0012CD,0xAB0012CE,0xAC0012CF,0xAD0012D0,0xAE0012D1,0xAF0012D2,0xB00012D3,0xB10012D4,0xB20012D5,0xB30012D6],
    [0xB40012D7,0xB50012D8,0xB60012D9,0xB70012DA,0xB80012DB,0xB90012F4,0xBA0012F5,0xBB0012F6,0xBC0012F7,0xBD0012F8],
    [0xBE0012F9,0xBF0012FA,0x000C8674,0x000C8671,0x000C866E,0x000C866B,0x000C8668,0x000C8665,0x000C8662,0xE1001195],
    [0x000C865F,0x000C865C,0x000C8659,0x000C8656,0x000C8653,0x000C8650,0x000C864D,0x000C864A,0x800012FC,0x810012FD],
    [0x820012FE,0x000C8647,0x000C8644,0x000C8641,0x000C863E,0x000C863B,0x000C8638,0x85001276,0x000C8635,0x8600128F],
    [0x870012DC,0x000C8632,0x000C862F,0x000C862C,0x000C8629,0x000C8626,0xE1001288,0xA10012FF,0xA2001350,0xA300138A],
    [0xA40013C7,0xA5001401,0xA6001438,0xA7001475,0xA80014AC,0xA90014D0,0xAA001507,0xAB00155A,0xAC001594,0xAD0015D1],
    [0xAE00160B,0xAF001645,0xB000167F,0xB10016B6,0xB20016F3,0xB300172D,0xB4001764,0xB500179E,0x000C8623,0x000C8620],
    [0x000C861D,0x000C861A,0x000C8617,0x000C8614,0x000C8611,0x000C860E,0x000C860B,0xE10011CF,0x000C8608,0xA8001300],
    [0xA9001301,0xAA001302,0xAB001303,0xAC001307,0xAD001308,0xAE001309,0xAF00130A,0xB000130B,0xB100130C,0xB200130E],
    [0xB3001311,0xB4001312,0xB5001313,0xB6001314,0xB7001315,0xB800132C,0xB900132D,0xBA00132E,0xBB00132F,0xBC001330],
    [0xBD001331,0xBE001332,0xBF001333,0x000C8605,0x000C8602,0x000C85FF,0x000C85FC,0x000C85F9,0x000C85F6,0x000C85F3],
    [0x000C85F0,0x000C85ED,0x000C85EA,0x000C85E7,0x000C85E4,0x000C85E1,0x80001334,0x81001336,0x8200134F,0x000C85DE],
    [0x000C85DB,0x000C85D8,0x000C85D5,0x860012C9,0x8700130D,0x000C85D2,0x000C85CF,0x000C85CC,0x000C85C9,0x000C85C6],
    [0x000C85C3,0x000C85C0,0x000C85BD,0x000C85BA,0x000C85B7,0xE1001209,0x000C85B4,0xA8001351,0xA9001352,0xAA001353],
    [0xAB001354,0xAC001355,0xAD001356,0xAE001357,0xAF001358,0xB0001359,0xB100135A,0xB200135B,0xB300135F,0xB4001360],
    [0xB5001361,0xB6001362,0xB7001365,0xB8001366,0xB9001367,0xBA001368,0xBB001369,0xBC00136A,0xBD00136B,0xBE00136C],
    [0xBF00136D,0x000C85B1,0x000C85AE,0x860012E8,0x87001341,0x8000136E,0x81001370,0x82001389,0xA80013A8,0xA90013AA],
    [0xAA0013AB,0xAB0013AC,0xAC0013AD,0xAD0013AE,0xAE0013AF,0xAF0013B0,0xB00013B1,0xB10013B2,0xB20013B3,0xB30013B4],
    [0xB40013B5,0xB50013B6,0xB60013B7,0xB70013B8,0xB80013B9,0xB90013BA,0xBA0013BB,0xBB0013BC,0xBC0013BD,0xBD0013BE],
    [0xBE0013BF,0xBF0013C0,0x000C85AB,0xE1001243,0x000C85A8,0x000C85A5,0x000C85A2,0x000C859F,0x000C859C,0x000C8599],
    [0x000C8596,0x000C8593,0x000C8590,0x000C858D,0x000C858A,0x000C8587,0x000C8584,0x000C8581,0x000C857E,0x000C857B],
    [0x000C8578,0x000C8575,0x000C8572,0x000C856F,0x000C856C,0x000C8569,0x000C8566,0x800013C4,0x810013C5,0x820013C6],
    [0x000C8563,0x000C8560,0x000C855D,0x000C855A,0x86001339,0x8700137B,0x000C8557,0x000C8554,0x000C8551,0x000C854E],
    [0x000C854B,0x000C8548,0x000C8545,0x000C8542,0x000C853F,0x000C853C,0x000C8539,0x000C8536,0x000C8533,0x000C8530],
    [0x000C852D,0x000C852A,0x000C8527,0x000C8524,0x000C8521,0x000C851E,0x000C851B,0x000C8518,0xE1001289,0xA80013CA],
    [0xA90013CB,0xAA0013CC,0xAB0013CD,0xAC0013CE,0xAD0013CF,0xAE0013D0,0xAF0013D1,0xB00013D2,0xB10013D3,0xB20013D4],
    [0xB30013D5,0xB40013D6,0xB50013D7,0xB60013D8,0xB70013D9,0xB80013DA,0xB90013DB,0xBA0013DC,0xBB0013DD,0xBC0013DE],
    [0xBD0013DF,0xBE0013F9,0xBF0013FA,0x000C8515,0x000C8512,0x800013FE,0x810013FF,0x82001400,0x000C850F,0x000C850C],
    [0x000C8509,0x000C8506,0x8600135C,0x870013C1,0xA800141C,0xA900141D,0xAA00141E,0xAB00141F,0xAC001420,0xAD001421],
    [0xAE001422,0xAF001423,0xB0001424,0xB1001425,0xB2001426,0xB3001427,0xB4001428,0xB5001429,0xB600142A,0xB700142B],
    [0xB800142C,0xB900142D,0xBA00142E,0xBB00142F,0xBC001430,0xBD001432,0xBE001433,0xBF001434,0x000C8503,0x000C8500],
    [0x000C84FD,0x000C84FA,0x000C84F7,0x000C84F4,0x000C84F1,0x000C84EE,0x000C84EB,0x000C84E8,0x000C84E5,0x000C84E2],
    [0x000C84DF,0x000C84DC,0x000C84D9,0x000C84D6,0x000C84D3,0x000C84D0,0x000C84CD,0x000C84CA,0x000C84C7,0xE10012DD],
    [0x000C84C4,0x000C84C1,0x000C84BE,0x000C84BB,0x000C84B8,0x000C84B5,0x000C84B2,0x000C84AF,0x000C84AC,0x000C84A9],
    [0x000C84A6,0x000C84A3,0x000C84A0,0x000C849D,0x000C849A,0x80001435,0x81001436,0x82001437,0x000C8497,0x000C8494],
    [0x000C8491,0x000C848E,0x860013A2,0x870013EF,0xA8001439,0xA900143A,0xAA00143B,0xAB00143C,0xAC00143D,0xAD00143E],
    [0xAE00143F,0xAF001440,0xB0001444,0xB1001445,0xB2001446,0xB3001447,0xB4001462,0xB5001463,0xB6001464,0xB7001465],
    [0xB8001466,0xB9001467,0xBA001468,0xBB001469,0xBC00146A,0xBD00146C,0xBE00146D,0xBF00146E,0x000C848B,0x000C8488],
    [0x000C8485,0x000C8482,0x000C847F,0x000C847C,0x000C8479,0x000C8476,0x000C8473,0xE1001305,0x000C8470,0x000C846D],
    [0x000C846A,0x80001472,0x81001473,0x82001474,0x000C8467,0x000C8464,0x000C8461,0x000C845E,0x860013E0,0x87001431],
    [0x000C845B,0x000C8458,0x000C8455,0x000C8452,0x000C844F,0x000C844C,0x000C8449,0x000C8446,0x000C8443,0x000C8440],
    [0x000C843D,0x000C843A,0x000C8437,0x000C8434,0x000C8431,0x000C842E,0xA8001478,0xA9001479,0xAA00147A,0xAB00147B],
    [0xAC00147C,0xAD00147D,0xAE00147E,0xAF00147F,0xB0001480,0xB1001481,0xB2001482,0xB3001483,0xB4001484,0xB5001485],
    [0xB6001486,0xB7001487,0xB80014A0,0xB90014A1,0xBA0014A2,0xBB0014A3,0xBC0014A4,0xBD0014A5,0xBE0014A6,0xBF0014A7],
    [0x000C842B,0x000C8428,0x000C8425,0x000C8422,0x000C841F,0x000C841C,0x000C8419,0x000C8416,0xE1001342,0x000C8413],
    [0x000C8410,0x000C840D,0x000C840A,0x000C8407,0x000C8404,0x000C8401,0x000C83FE,0x800014A9,0x810014AA,0x820014AB],
    [0x000C83FB,0x000C83F8,0x000C83F5,0x000C83F2,0x000C83EF,0x000C83EC,0x000C83E9,0x000C83E6,0x000C83E3,0x000C83E0],
    [0x000C83DD,0x000C83DA,0x000C83D7,0x000C83D4,0x000C83D1,0x000C83CE,0x000C83CB,0x000C83C8,0x000C83C5,0x86001442],
    [0x8700144A,0x000C83C2,0x800014CD,0x810014CE,0x820014CF,0x000C83BF,0x000C83BC,0x000C83B9,0x000C83B6,0x86001476],
    [0x87001488,0x000C83B3,0x000C83B0,0x000C83AD,0x000C83AA,0x000C83A7,0x000C83A4,0x000C83A1,0x000C839E,0x000C839B],
    [0x000C8398,0x000C8395,0x000C8392,0x000C838F,0x000C838C,0x000C8389,0xE100137C,0x000C8386,0x000C8383,0x000C8380],
    [0x000C837D,0x000C837A,0x000C8377,0x000C8374,0xA80014AD,0xA90014AE,0xAA0014AF,0xAB0014B0,0xAC0014B4,0xAD0014B5],
    [0xAE0014B6,0xAF0014B7,0xB00014B8,0xB10014B9,0xB20014BA,0xB30014BB,0xB40014BC,0xB50014BD,0xB60014BE,0xB70014BF],
    [0xB80014C0,0xB90014C1,0xBA0014C2,0xBB0014C3,0xBC0014C4,0xBD0014C5,0xBE0014C6,0xBF0014C9,0x000C8371,0x000C836E],
    [0x000C836B,0x000C8368,0x000C8365,0x000C8362,0x80001504,0x81001505,0x82001506,0x000C835F,0x000C835C,0x000C8359],
    [0x000C8356,0x8600148E,0x870014E2,0x000C8353,0x000C8350,0x000C834D,0x000C834A,0x000C8347,0x000C8344,0x000C8341],
    [0x000C833E,0xE10013C2,0x000C833B,0x000C8338,0x000C8335,0x000C8332,0xA80014D3,0xA90014D4,0xAA0014D5,0xAB0014D6],
    [0xAC0014D7,0xAD0014D8,0xAE0014D9,0xAF0014DA,0xB00014DB,0xB10014DC,0xB20014DD,0xB30014DE,0xB40014DF,0xB50014E0],
    [0xB60014E1,0xB70014E3,0xB80014E4,0xB90014E5,0xBA0014E6,0xBB0014E7,0xBC0014E8,0xBD0014E9,0xBE001502,0xBF001503],
    [0xA800150B,0xA900150C,0xAA00150D,0xAB00150E,0xAC001511,0xAD001512,0xAE001513,0xAF001514,0xB0001515,0xB1001516],
    [0xB2001517,0xB3001518,0xB400151A,0xB500151B,0xB600151C,0xB700151D,0xB800154E,0xB900154F,0xBA001550,0xBB001551],
    [0xBC001552,0xBD001553,0xBE001554,0xBF001555,0x000C832F,0x000C832C,0x000C8329,0x000C8326,0x000C8323,0x000C8320],
    [0x000C831D,0x000C831A,0xE10013F0,0x000C8317,0x000C8314,0x000C8311,0x000C830E,0x000C830B,0x000C8308,0x000C8305],
    [0x000C8302,0x000C82FF,0x000C82FC,0x000C82F9,0x80001557,0x81001558,0x82001559,0x000C82F6,0x000C82F3,0x000C82F0],
    [0x000C82ED,0x000C82EA,0x000C82E7,0x000C82E4,0x000C82E1,0x000C82DE,0x000C82DB,0x000C82D8,0x860014CA,0x87001519],
    [0xA800155B,0xA900155C,0xAA00155D,0xAB00155E,0xAC00155F,0xAD001560,0xAE001561,0xAF001565,0xB0001566,0xB1001567],
    [0xB2001568,0xB3001569,0xB400156A,0xB500156B,0xB600156C,0xB700156D,0xB800156E,0xB900156F,0xBA00158A,0xBB00158B],
    [0xBC00158C,0xBD00158E,0xBE00158F,0xBF001590,0x000C82D5,0x000C82D2,0x000C82CF,0xE1001441,0x000C82CC,0x000C82C9],
    [0x000C82C6,0x000C82C3,0x000C82C0,0x000C82BD,0x000C82BA,0x8600150A,0x8700154B,0x000C82B7,0x000C82B4,0x80001591],
    [0x81001592,0x82001593,0x000C82B1,0x000C82AE,0x000C82AB,0x000C82A8,0x000C82A5,0x000C82A2,0x000C829F,0x000C829C],
    [0x000C8299,0x000C8296,0x000C8293,0x000C8290,0x000C828D,0x000C828A,0x000C8287,0x000C8284,0x000C8281,0x000C827E],
    [0x000C827B,0x000C8278,0x000C8275,0xE100144B,0xA8001597,0xA9001598,0xAA00159C,0xAB00159D,0xAC00159E,0xAD00159F],
    [0xAE0015A0,0xAF0015A1,0xB00015A2,0xB10015A3,0xB20015A4,0xB30015A5,0xB40015A6,0xB50015A7,0xB60015A8,0xB70015A9],
    [0xB80015AA,0xB90015AB,0xBA0015AC,0xBB0015AD,0xBC0015AE,0xBD0015AF,0xBE0015B0,0xBF0015CA,0x000C8272,0x800015CE],
    [0x810015CF,0x820015D0,0x000C826F,0x000C826C,0x000C8269,0x000C8266,0x86001541,0x87001585,0x000C8263,0x000C8260],
    [0x000C825D,0x000C825A,0x000C8257,0x000C8254,0x000C8251,0x000C824E,0x000C824B,0x000C8248,0x000C8245,0x000C8242],
    [0x000C823F,0x000C823C,0x000C8239,0x000C8236,0x000C8233,0x000C8230,0x000C822D,0x000C822A,0xE1001489,0xA80015D4],
    [0xA90015D5,0xAA0015D6,0xAB0015D7,0xAC0015D8,0xAD0015D9,0xAE0015DA,0xAF0015DB,0xB00015DC,0xB10015DD,0xB20015DE],
    [0xB30015DF,0xB40015E0,0xB50015E1,0xB60015E2,0xB70015E3,0xB80015E4,0xB90015E5,0xBA0015E6,0xBB0015E7,0xBC001601],
    [0xBD001602,0xBE001603,0xBF001604,0x000C8227,0x000C8224,0x000C8221,0x000C821E,0x80001608,0x81001609,0x8200160A],
    [0x000C821B,0x000C8218,0x000C8215,0x000C8212,0x86001570,0x870015BF,0x000C820F,0x000C820C,0x000C8209,0x000C8206],
    [0x000C8203,0x000C8200,0x000C81FD,0x000C81FA,0x000C81F7,0x000C81F4,0xA800160E,0xA900160F,0xAA001610,0xAB001611],
    [0xAC001612,0xAD001613,0xAE001614,0xAF001615,0xB0001616,0xB1001617,0xB2001630,0xB3001631,0xB4001632,0xB5001633],
    [0xB6001634,0xB7001635,0xB8001636,0xB9001637,0xBA001638,0xBB001639,0xBC00163A,0xBD00163C,0xBE00163D,0xBF00163E],
    [0x000C81F1,0x000C81EE,0x000C81EB,0x000C81E8,0x000C81E5,0x000C81E2,0x000C81DF,0x000C81DC,0x000C81D9,0x000C81D6],
    [0x000C81D3,0xE10014EA,0x000C81D0,0x000C81CD,0x000C81CA,0x80001642,0x81001643,0x82001644,0x000C81C7,0x000C81C4],
    [0x000C81C1,0x000C81BE,0x860015B1,0x870015F9,0x000C81BB,0x000C81B8,0x000C81B5,0x000C81B2,0x000C81AF,0x000C81AC],
    [0x000C81A9,0x000C81A6,0x000C81A3,0x000C81A0,0x000C819D,0x000C819A,0x000C8197,0x000C8194,0x000C8191,0x000C818E],
    [0x000C818B,0xA8001648,0xA9001649,0xAA00164A,0xAB00164B,0xAC00164C,0xAD00164D,0xAE00164E,0xAF00164F,0xB0001650],
    [0xB1001651,0xB2001652,0xB3001653,0xB4001654,0xB5001655,0xB6001656,0xB7001657,0xB8001658,0xB9001671,0xBA001672],
    [0xBB001673,0xBC001674,0xBD001676,0xBE001677,0xBF001678,0x000C8188,0x000C8185,0x000C8182,0x000C817F,0xE100150F],
    [0x000C817C,0x000C8179,0x000C8176,0x8000167C,0x8100167D,0x8200167E,0x000C8173,0x000C8170,0x000C816D,0x000C816A]]"

definition NODES_04 :: "nat list list" where
  "NODES_04 = [
    [0x860015E8,0x8700163B,0x000C8167,0x000C8164,0x000C8161,0x000C815E,0x000C815B,0x000C8158,0x000C8155,0x000C8152],
    [0x000C814F,0x000C814C,0x000C8149,0x000C8146,0x000C8143,0x000C8140,0xA8001682,0xA9001683,0xAA001684,0xAB001685],
    [0xAC001686,0xAD001687,0xAE001688,0xAF001689,0xB000168A,0xB100168B,0xB200168C,0xB300168D,0xB400168E,0xB500168F],
    [0xB60016A8,0xB70016A9,0xB80016AA,0xB90016AB,0xBA0016AC,0xBB0016AD,0xBC0016AE,0xBD0016AF,0xBE0016B0,0xBF0016B1],
    [0x000C813D,0x000C813A,0x000C8137,0x000C8134,0x000C8131,0x000C812E,0x000C812B,0x000C8128,0x000C8125,0x000C8122],
    [0xE100154C,0x000C811F,0x000C811C,0x000C8119,0x000C8116,0x000C8113,0x000C8110,0x000C810D,0x000C810A,0x800016B3],
    [0x810016B4,0x820016B5,0x000C8107,0x000C8104,0x000C8101,0x000C80FE,0x000C80FB,0x000C80F8,0x000C80F5,0x8600161F],
    [0x8700166D,0xA80016B7,0xA90016B8,0xAA0016B9,0xAB0016BA,0xAC0016BE,0xAD0016BF,0xAE0016C0,0xAF0016C1,0xB00016C2],
    [0xB10016C3,0xB20016C4,0xB30016DF,0xB40016E0,0xB50016E1,0xB60016E2,0xB70016E3,0xB80016E4,0xB90016E5,0xBA0016E6],
    [0xBB0016E7,0xBC0016E8,0xBD0016E9,0xBE0016EA,0xBF0016EB,0x000C80F2,0x000C80EF,0x000C80EC,0x000C80E9,0x000C80E6],
    [0x000C80E3,0x000C80E0,0x000C80DD,0x000C80DA,0x000C80D7,0x000C80D4,0x000C80D1,0x000C80CE,0xE1001586,0x800016F0],
    [0x810016F1,0x820016F2,0x000C80CB,0x000C80C8,0x000C80C5,0x000C80C2,0x86001659,0x870016A7,0x000C80BF,0x000C80BC],
    [0x000C80B9,0x000C80B6,0x000C80B3,0x000C80B0,0x000C80AD,0x000C80AA,0x000C80A7,0x000C80A4,0x000C80A1,0xA80016F6],
    [0xA90016F7,0xAA0016F8,0xAB0016F9,0xAC0016FA,0xAD0016FB,0xAE0016FC,0xAF0016FD,0xB00016FE,0xB10016FF,0xB2001700],
    [0xB3001719,0xB400171A,0xB500171B,0xB600171C,0xB700171D,0xB800171E,0xB900171F,0xBA001720,0xBB001721,0xBC001722],
    [0xBD001723,0xBE001724,0xBF001725,0x000C809E,0x000C809B,0x000C8098,0x000C8095,0x000C8092,0x000C808F,0x000C808C],
    [0x000C8089,0x000C8086,0x000C8083,0x000C8080,0x000C807D,0x000C807A,0xE10015C0,0x8000172A,0x8100172B,0x8200172C],
    [0x000C8077,0x000C8074,0x000C8071,0x000C806E,0x000C806B,0x000C8068,0x000C8065,0x000C8062,0x000C805F,0x000C805C],
    [0x000C8059,0x000C8056,0x000C8053,0x000C8050,0x86001692,0x870016EC,0xA800172E,0xA900172F,0xAA001730,0xAB001731],
    [0xAC001732,0xAD001733,0xAE001734,0xAF001735,0xB0001736,0xB1001737,0xB2001752,0xB3001753,0xB4001754,0xB5001755],
    [0xB6001756,0xB7001757,0xB8001758,0xB9001759,0xBA00175A,0xBB00175B,0xBC00175C,0xBD00175D,0xBE00175E,0xBF00175F],
    [0x000C804D,0x000C804A,0x000C8047,0x000C8044,0x000C8041,0x000C803E,0x000C803B,0x000C8038,0x000C8035,0x000C8032],
    [0x000C802F,0x000C802C,0x000C8029,0x000C8026,0xE10015FA,0x000C8023,0x000C8020,0x000C801D,0x000C801A,0x000C8017],
    [0x000C8014,0x000C8011,0x000C800E,0x000C800B,0x000C8008,0x000C8005,0x80001761,0x81001762,0x82001763,0x000C8002],
    [0x000C7FFF,0x000C7FFC,0x000C7FF9,0x860016CD,0x87001726,0xA8001765,0xA9001766,0xAA001767,0xAB001768,0xAC001769],
    [0xAD00176A,0xAE00176B,0xAF00176F,0xB0001770,0xB1001771,0xB2001772,0xB300178D,0xB400178E,0xB500178F,0xB6001790],
    [0xB7001791,0xB8001792,0xB9001793,0xBA001794,0xBB001795,0xBC001796,0xBD001798,0xBE001799,0xBF00179A,0x000C7FF6],
    [0x000C7FF3,0x000C7FF0,0x000C7FED,0x000C7FEA,0x000C7FE7,0x000C7FE4,0x000C7FE1,0x000C7FDE,0x000C7FDB,0xE100163F],
    [0x000C7FD8,0x000C7FD5,0x000C7FD2,0x000C7FCF,0x000C7FCC,0x000C7FC9,0x000C7FC6,0x000C7FC3,0x000C7FC0,0x000C7FBD],
    [0x000C7FBA,0x000C7FB7,0x000C7FB4,0x000C7FB1,0x8000179B,0x8100179C,0x8200179D,0x000C7FAE,0x000C7FAB,0x000C7FA8],
    [0x000C7FA5,0x86001707,0x87001760,0xA800179F,0xA90017A0,0xAA0017A1,0xAB0017A2,0xAC0017A3,0xAD0017A4,0xAE0017A5],
    [0xAF0017A9,0xB00017AA,0xB10017AB,0xB20017AC,0xB30017C7,0xB40017C8,0xB50017C9,0xB60017CA,0xB70017CB,0xB80017CC],
    [0xB90017CD,0xBA0017CE,0xBB0017CF,0xBC0017D0,0xBD0017D1,0xBE0017D2,0xBF0017D3,0x000C7FA2,0x000C7F9F,0x000C7F9C],
    [0x000C7F99,0x000C7F96,0x000C7F93,0x000C7F90,0x000C7F8D,0x000C7F8A,0x000C7F87,0x000C7F84,0x000C7F81,0x000C7F7E],
    [0xE100166E,0x000C7F7B,0x000C7F78,0x000C7F75,0x000C7F72,0x000C7F6F,0x000C7F6C,0x000C7F69,0x000C7F66,0x000C7F63],
    [0x000C7F60,0x000C7F5D,0x800017D5,0x810017D6,0x820017D7,0xE100176C,0x000C7F5A,0x000C7F57,0x000C7F54,0x000C7F51],
    [0x000C7F4E,0x000C7F4B,0x000C7F48,0x000C7F45,0x000C7F42,0x000C7F3F,0x000C7F3C,0x000C7F39,0x000C7F36,0x85001751],
    [0xA10017D8,0xA2001811,0xA300184B,0xA40018A0,0xA50018DA,0xA6001914,0xA700194E,0xA8001988,0xA90019C2,0xAA0019FC],
    [0xAB001A36,0xAC001A70,0xAD001AA7,0xAE001AE1,0xAF001B1B,0xB0001B55,0xB1001B79,0xB2001BCC,0xB3001C03,0xB4001C40],
    [0xB5001C7A,0x8600176D,0x870017AD,0x000C7F33,0x000C7F30,0x000C7F2D,0x000C7F2A,0x000C7F27,0xE10016B2,0x000C7F24],
    [0x000C7F21,0x000C7F1E,0x860017A6,0x870017F1,0x000C7F1B,0xA80017D9,0xA90017DA,0xAA0017DB,0xAB0017DC,0xAC0017DD],
    [0xAD0017DE,0xAE0017DF,0xAF0017E4,0xB00017E5,0xB10017E6,0xB20017E7,0xB30017E8,0xB40017E9,0xB50017EA,0xB60017EB],
    [0xB70017EC,0xB80017ED,0xB90017EE,0xBA0017EF,0xBB0017F0,0xBC001809,0xBD00180A,0xBE00180B,0xBF00180C,0x8000180D],
    [0x8100180F,0x82001810,0x000C7F18,0x000C7F15,0x000C7F12,0x000C7F0F,0x000C7F0C,0x000C7F09,0x000C7F06,0x000C7F03],
    [0x000C7F00,0x000C7EFD,0x000C7EFA,0x000C7EF7,0x000C7EF4,0x000C7EF1,0x000C7EEE,0x000C7EEB,0x000C7EE8,0x000C7EE5],
    [0x000C7EE2,0x000C7EDF,0x000C7EDC,0xE10016ED,0x000C7ED9,0x000C7ED6,0x000C7ED3,0x000C7ED0,0x000C7ECD,0x000C7ECA],
    [0x860017E0,0x87001802,0xA8001814,0xA9001830,0xAA001831,0xAB001832,0xAC001833,0xAD001834,0xAE001835,0xAF001836],
    [0xB0001837,0xB1001838,0xB2001839,0xB300183A,0xB400183B,0xB500183C,0xB600183D,0xB700183E,0xB800183F,0xB9001840],
    [0xBA001841,0xBB001842,0xBC001843,0xBD001844,0xBE001846,0xBF001847,0x000C7EC7,0x000C7EC4,0x000C7EC1,0x000C7EBE],
    [0x000C7EBB,0x000C7EB8,0x000C7EB5,0x000C7EB2,0x000C7EAF,0x000C7EAC,0x000C7EA9,0x80001848,0x81001849,0x8200184A],
    [0x000C7EA6,0x000C7EA3,0x000C7EA0,0x000C7E9D,0x000C7E9A,0x000C7E97,0x000C7E94,0x000C7E91,0x000C7E8E,0x000C7E8B],
    [0x000C7E88,0xE1001727,0x000C7E85,0x000C7E82,0x80001885,0x81001886,0x82001887,0x000C7E7F,0x000C7E7C,0x000C7E79],
    [0xA8001866,0xA9001867,0xAA001868,0xAB001869,0xAC00186A,0xAD00186B,0xAE00186C,0xAF00186D,0xB000186E,0xB100186F],
    [0xB2001870,0xB3001874,0xB4001875,0xB5001876,0xB6001877,0xB7001878,0xB8001879,0xB900187A,0xBA00187B,0xBB00187C],
    [0xBC00187D,0xBD00187E,0xBE001880,0xBF001881,0x000C7E76,0x86001812,0x87001854,0x000C7E73,0x000C7E70,0x000C7E6D],
    [0x000C7E6A,0x000C7E67,0x000C7E64,0x000C7E61,0x000C7E5E,0x000C7E5B,0x000C7E58,0x000C7E55,0x000C7E52,0x000C7E4F],
    [0x000C7E4C,0x000C7E49,0x000C7E46,0x000C7E43,0x000C7E40,0x000C7E3D,0x000C7E3A,0x000C7E37,0x000C7E34,0xE1001781],
    [0xA80018A3,0xA90018A4,0xAA0018A5,0xAB0018A6,0xAC0018A7,0xAD0018A8,0xAE0018A9,0xAF0018AA,0xB00018AB,0xB10018AC],
    [0xB20018AD,0xB30018AE,0xB40018AF,0xB50018B0,0xB60018B1,0xB70018B2,0xB80018B3,0xB90018B4,0xBA0018B5,0xBB0018B6],
    [0xBC0018B7,0xBD0018B8,0xBE0018D2,0xBF0018D3,0x000C7E31,0x000C7E2E,0x800018D7,0x810018D8,0x820018D9,0x000C7E2B],
    [0x000C7E28,0x000C7E25,0x000C7E22,0x8600184C,0x8700188E,0x000C7E1F,0x000C7E1C,0x000C7E19,0x000C7E16,0x000C7E13],
    [0x000C7E10,0x000C7E0D,0x000C7E0A,0x000C7E07,0x000C7E04,0x000C7E01,0x000C7DFE,0x000C7DFB,0x000C7DF8,0x000C7DF5],
    [0x000C7DF2,0x000C7DEF,0x000C7DEC,0x000C7DE9,0x000C7DE6,0x000C7DE3,0xE100178C,0x000C7DE0,0xA80018DD,0xA90018DE],
    [0xAA0018DF,0xAB0018E0,0xAC0018E1,0xAD0018E2,0xAE0018E3,0xAF0018E4,0xB00018E5,0xB10018E6,0xB20018E7,0xB30018E8],
    [0xB40018E9,0xB50018EA,0xB60018EB,0xB70018EC,0xB80018ED,0xB90018EE,0xBA0018EF,0xBB0018F0,0xBC0018F1,0xBD0018F3],
    [0xBE00190C,0xBF00190D,0x000C7DDD,0x000C7DDA,0x80001911,0x81001912,0x82001913,0x000C7DD7,0x000C7DD4,0x000C7DD1],
    [0x000C7DCE,0x86001888,0x870018C8,0x000C7DCB,0x000C7DC8,0x000C7DC5,0x000C7DC2,0x000C7DBF,0x000C7DBC,0x000C7DB9],
    [0x000C7DB6,0x000C7DB3,0x000C7DB0,0x000C7DAD,0x000C7DAA,0x000C7DA7,0x000C7DA4,0x000C7DA1,0x000C7D9E,0x000C7D9B],
    [0x000C7D98,0x000C7D95,0x000C7D92,0x000C7D8F,0xE10017C6,0x000C7D8C,0x000C7D89,0x000C7D86,0xA8001917,0xA9001918],
    [0xAA001919,0xAB00191A,0xAC00191B,0xAD00191C,0xAE00191D,0xAF00191E,0xB000191F,0xB1001920,0xB2001921,0xB3001922],
    [0xB4001923,0xB5001924,0xB6001925,0xB7001926,0xB8001927,0xB9001928,0xBA001929,0xBB00192A,0xBC00192B,0xBD00192D],
    [0xBE00192E,0xBF00192F,0x8000194B,0x8100194C,0x8200194D,0x000C7D83,0x000C7D80,0x000C7D7D,0x000C7D7A,0x860018B9],
    [0x87001902,0x000C7D77,0x000C7D74,0x000C7D71,0x000C7D6E,0x000C7D6B,0x000C7D68,0x000C7D65,0x000C7D62,0x000C7D5F],
    [0x000C7D5C,0x000C7D59,0x000C7D56,0x000C7D53,0x000C7D50,0x000C7D4D,0x000C7D4A,0xA8001951,0xA9001952,0xAA001953],
    [0xAB001954,0xAC001955,0xAD001956,0xAE001957,0xAF001958,0xB0001959,0xB100195A,0xB200195B,0xB300195C,0xB400195D],
    [0xB500195E,0xB600195F,0xB7001960,0xB8001979,0xB900197A,0xBA00197B,0xBB00197C,0xBC00197D,0xBD00197E,0xBE00197F],
    [0xBF001980,0x000C7D47,0x000C7D44,0x000C7D41,0x000C7D3E,0x000C7D3B,0x000C7D38,0x000C7D35,0x000C7D32,0xE100181B],
    [0x80001985,0x81001986,0x82001987,0x000C7D2F,0x000C7D2C,0x000C7D29,0x000C7D26,0x860018F2,0x8700193C,0x000C7D23],
    [0x000C7D20,0x000C7D1D,0x000C7D1A,0x000C7D17,0x000C7D14,0x000C7D11,0x000C7D0E,0x000C7D0B,0x000C7D08,0x000C7D05],
    [0x000C7D02,0x000C7CFF,0x000C7CFC,0x000C7CF9,0xA800198B,0xA900198C,0xAA00198D,0xAB00198E,0xAC00198F,0xAD001990],
    [0xAE001991,0xAF001992,0xB0001993,0xB1001994,0xB2001995,0xB3001996,0xB4001997,0xB5001998,0xB6001999,0xB70019B2],
    [0xB80019B3,0xB90019B4,0xBA0019B5,0xBB0019B6,0xBC0019B7,0xBD0019B8,0xBE0019B9,0xBF0019BA,0x000C7CF6,0x000C7CF3],
    [0x000C7CF0,0x000C7CED,0x000C7CEA,0x000C7CE7,0x000C7CE4,0x000C7CE1,0x000C7CDE,0xE1001855,0x800019BF,0x810019C0],
    [0x820019C1,0x000C7CDB,0x000C7CD8,0x000C7CD5,0x000C7CD2,0x8600192C,0x87001976,0x000C7CCF,0x000C7CCC,0x000C7CC9],
    [0x000C7CC6,0x000C7CC3,0x000C7CC0,0x000C7CBD,0x000C7CBA,0x000C7CB7,0x000C7CB4,0x000C7CB1,0x000C7CAE,0x000C7CAB],
    [0x000C7CA8,0x000C7CA5,0xA80019C5,0xA90019C6,0xAA0019C7,0xAB0019C8,0xAC0019C9,0xAD0019CA,0xAE0019CB,0xAF0019CC],
    [0xB00019CD,0xB10019CE,0xB20019CF,0xB30019D0,0xB40019D1,0xB50019D2,0xB60019D3,0xB70019EC,0xB80019ED,0xB90019EE],
    [0xBA0019EF,0xBB0019F0,0xBC0019F1,0xBD0019F2,0xBE0019F3,0xBF0019F4,0x000C7CA2,0x000C7C9F,0x000C7C9C,0x000C7C99],
    [0x000C7C96,0x000C7C93,0x000C7C90,0x000C7C8D,0x000C7C8A,0xE100188F,0x800019F9,0x810019FA,0x820019FB,0x000C7C87],
    [0x000C7C84,0x000C7C81,0x000C7C7E,0x86001961,0x870019B0,0x000C7C7B,0x000C7C78,0x000C7C75,0x000C7C72,0x000C7C6F],
    [0x000C7C6C,0x000C7C69,0x000C7C66,0x000C7C63,0x000C7C60,0xA80019FF,0xA9001A00,0xAA001A01,0xAB001A02,0xAC001A03],
    [0xAD001A04,0xAE001A05,0xAF001A06,0xB0001A07,0xB1001A08,0xB2001A21,0xB3001A22,0xB4001A23,0xB5001A24,0xB6001A25],
    [0xB7001A26,0xB8001A27,0xB9001A28,0xBA001A29,0xBB001A2A,0xBC001A2B,0xBD001A2C,0xBE001A2D,0xBF001A2E,0x000C7C5D],
    [0x000C7C5A,0x000C7C57,0x000C7C54,0x000C7C51,0x000C7C4E,0x000C7C4B,0x000C7C48,0x000C7C45,0x000C7C42,0x000C7C3F],
    [0x000C7C3C,0x000C7C39,0x000C7C36,0xE10018C9,0x80001A33,0x81001A34,0x82001A35,0x000C7C33,0x000C7C30,0x000C7C2D],
    [0x000C7C2A,0x8600199A,0x870019EA,0x000C7C27,0x000C7C24,0x000C7C21,0x000C7C1E,0x000C7C1B,0x000C7C18,0x000C7C15],
    [0x000C7C12,0x000C7C0F,0xA8001A39,0xA9001A3A,0xAA001A3B,0xAB001A3C,0xAC001A3D,0xAD001A3E,0xAE001A3F,0xAF001A40],
    [0xB0001A41,0xB1001A5A,0xB2001A5B,0xB3001A5C,0xB4001A5D,0xB5001A5E,0xB6001A5F,0xB7001A60,0xB8001A61,0xB9001A62],
    [0xBA001A63,0xBB001A64,0xBC001A65,0xBD001A66,0xBE001A67,0xBF001A68,0x000C7C0C,0x000C7C09,0x000C7C06,0x000C7C03],
    [0x000C7C00,0x000C7BFD,0x000C7BFA,0x000C7BF7,0x000C7BF4,0x000C7BF1,0x000C7BEE,0x000C7BEB,0x000C7BE8,0x000C7BE5],
    [0x000C7BE2,0xE1001903,0x80001A6D,0x81001A6E,0x82001A6F,0x000C7BDF,0x000C7BDC,0x000C7BD9,0x000C7BD6,0x860019D4],
    [0x87001A2F,0x000C7BD3,0x000C7BD0,0x000C7BCD,0x000C7BCA,0x000C7BC7,0x000C7BC4,0x000C7BC1,0x000C7BBE,0x000C7BBB],
    [0xA8001A73,0xA9001A74,0xAA001A75,0xAB001A76,0xAC001A77,0xAD001A78,0xAE001A79,0xAF001A7A,0xB0001A7B,0xB1001A94],
    [0xB2001A95,0xB3001A96,0xB4001A97,0xB5001A98,0xB6001A99,0xB7001A9A,0xB8001A9B,0xB9001A9C,0xBA001A9D,0xBB001A9E],
    [0xBC001A9F,0xBD001AA0,0xBE001AA1,0xBF001AA2,0x000C7BB8,0x000C7BB5,0x000C7BB2,0x000C7BAF,0x000C7BAC,0x000C7BA9],
    [0x000C7BA6,0x000C7BA3,0x000C7BA0,0x000C7B9D,0x000C7B9A,0x000C7B97,0x000C7B94,0x000C7B91,0x000C7B8E,0xE100193D],
    [0x000C7B8B,0x000C7B88,0x000C7B85,0x000C7B82,0x000C7B7F,0x000C7B7C,0x000C7B79,0x000C7B76,0x000C7B73,0x000C7B70],
    [0x000C7B6D,0x80001AA4,0x81001AA5,0x82001AA6,0x000C7B6A,0x000C7B67,0x000C7B64,0x000C7B61,0x86001A10,0x87001A69],
    [0xA8001AA8,0xA9001AA9,0xAA001AAA,0xAB001AAB,0xAC001AAC,0xAD001AAD,0xAE001AAE,0xAF001AB2,0xB0001AB3,0xB1001AB4],
    [0xB2001AB5,0xB3001AD0,0xB4001AD1,0xB5001AD2,0xB6001AD3,0xB7001AD4,0xB8001AD5,0xB9001AD6,0xBA001AD7,0xBB001AD8],
    [0xBC001AD9,0xBD001ADA,0xBE001ADB,0xBF001ADC,0x000C7B5E,0x000C7B5B,0x000C7B58,0x000C7B55,0x000C7B52,0x000C7B4F],
    [0x000C7B4C,0x000C7B49,0x000C7B46,0x000C7B43,0x000C7B40,0x000C7B3D,0x000C7B3A,0xE1001977,0x000C7B37,0x000C7B34],
    [0x000C7B31,0x000C7B2E,0x000C7B2B,0x000C7B28,0x000C7B25,0x000C7B22,0x000C7B1F,0x000C7B1C,0x000C7B19,0x80001ADE],
    [0x81001ADF,0x82001AE0,0x000C7B16,0x000C7B13,0x000C7B10,0x000C7B0D,0x86001A4A,0x87001AA3,0xA8001AE2,0xA9001AE3],
    [0xAA001AE4,0xAB001AE5,0xAC001AE6,0xAD001AE7,0xAE001AE8,0xAF001AEC,0xB0001AED,0xB1001AEE,0xB2001AEF,0xB3001B0A],
    [0xB4001B0B,0xB5001B0C,0xB6001B0D,0xB7001B0E,0xB8001B0F,0xB9001B10,0xBA001B11,0xBB001B12,0xBC001B13,0xBD001B14],
    [0xBE001B15,0xBF001B16,0x000C7B0A,0x000C7B07,0x000C7B04,0x000C7B01,0x000C7AFE,0x000C7AFB,0x000C7AF8,0x000C7AF5],
    [0x000C7AF2,0x000C7AEF,0x000C7AEC,0x000C7AE9,0x000C7AE6,0xE10019B1,0x000C7AE3,0x000C7AE0,0x000C7ADD,0x000C7ADA],
    [0x000C7AD7,0x000C7AD4,0x000C7AD1,0x000C7ACE,0x000C7ACB,0x000C7AC8,0x000C7AC5,0x80001B18,0x81001B19,0x82001B1A],
    [0x000C7AC2,0x000C7ABF,0x000C7ABC,0x000C7AB9,0x000C7AB6,0x000C7AB3,0x000C7AB0,0x000C7AAD,0x000C7AAA,0x000C7AA7],
    [0x000C7AA4,0x000C7AA1,0x000C7A9E,0x000C7A9B,0x000C7A98,0x86001A8F,0x87001ADD,0xA8001B1C,0xA9001B1D,0xAA001B1E],
    [0xAB001B1F,0xAC001B20,0xAD001B21,0xAE001B22,0xAF001B26,0xB0001B27,0xB1001B28,0xB2001B29,0xB3001B2A,0xB4001B2B],
    [0xB5001B2C,0xB6001B2D,0xB7001B2E,0xB8001B2F,0xB9001B30,0xBA001B31,0xBB001B32,0xBC001B33,0xBD001B34,0xBE001B4F],
    [0xBF001B50,0x000C7A95,0x000C7A92,0xE10019EB,0x000C7A8F,0x000C7A8C,0x000C7A89,0x000C7A86,0x000C7A83,0x000C7A80],
    [0x000C7A7D,0x000C7A7A,0x000C7A77,0x000C7A74,0x000C7A71,0x80001B52,0x81001B53,0x82001B54,0x000C7A6E,0x000C7A6B],
    [0x000C7A68,0x000C7A65,0x000C7A62,0x000C7A5F,0x000C7A5C,0x000C7A59,0x000C7A56,0x000C7A53,0x000C7A50,0x000C7A4D],
    [0x000C7A4A,0x000C7A47,0x000C7A44,0x86001AEA,0x87001AF3,0x000C7A41,0x000C7A3E,0x80001B76,0x81001B77,0x82001B78],
    [0x000C7A3B,0x000C7A38,0x000C7A35,0x000C7A32,0x86001B02,0x87001B46,0x000C7A2F,0x000C7A2C,0x000C7A29,0x000C7A26],
    [0x000C7A23,0x000C7A20,0x000C7A1D,0x000C7A1A,0x000C7A17,0x000C7A14,0x000C7A11,0x000C7A0E,0xE1001A30,0x000C7A0B],
    [0x000C7A08,0x000C7A05,0x000C7A02,0x000C79FF,0x000C79FC,0x000C79F9,0x000C79F6,0x000C79F3,0xA8001B56,0xA9001B57],
    [0xAA001B58,0xAB001B59,0xAC001B5A,0xAD001B5B,0xAE001B5C,0xAF001B60,0xB0001B61,0xB1001B62,0xB2001B63,0xB3001B64],
    [0xB4001B65,0xB5001B66,0xB6001B67,0xB7001B68,0xB8001B69,0xB9001B6A,0xBA001B6B,0xBB001B6C,0xBC001B6D,0xBD001B6E],
    [0xBE001B71,0xBF001B72,0xA8001B7C,0xA9001B7D,0xAA001B7E,0xAB001B7F,0xAC001B80,0xAD001B81,0xAE001B82,0xAF001B83],
    [0xB0001B84,0xB1001B85,0xB2001B86,0xB3001B87,0xB4001B89,0xB5001B8A,0xB6001B8B,0xB7001B8C,0xB8001B8D,0xB9001B8E],
    [0xBA001B8F,0xBB001B90,0xBC001B91,0xBD001BC3,0xBE001BC4,0xBF001BC5,0xE1001A6A,0x000C79F0,0x000C79ED,0x000C79EA],
    [0x80001BC9,0x81001BCA,0x82001BCB,0x000C79E7,0x000C79E4,0x000C79E1,0x000C79DE,0x86001B35,0x87001B88,0x000C79DB],
    [0x000C79D8,0x000C79D5,0x000C79D2,0x000C79CF,0x000C79CC,0x000C79C9,0x000C79C6,0x000C79C3,0x000C79C0,0x000C79BD],
    [0x000C79BA,0x000C79B7,0x000C79B4,0xA8001BCF,0xA9001BD0,0xAA001BD1,0xAB001BD2,0xAC001BD3,0xAD001BD4,0xAE001BD5],
    [0xAF001BD6,0xB0001BD7,0xB1001BD8,0xB2001BD9,0xB3001BDA,0xB4001BDB,0xB5001BDC,0xB6001BF5,0xB7001BF6,0xB8001BF7],
    [0xB9001BF8,0xBA001BF9,0xBB001BFA,0xBC001BFB,0xBD001BFD,0xBE001BFE,0xBF001BFF,0x000C79B1,0x000C79AE,0x000C79AB],
    [0x000C79A8,0x000C79A5,0x000C79A2,0x000C799F,0xE1001AAF,0x000C799C,0x000C7999,0x000C7996,0x000C7993,0x000C7990],
    [0x000C798D,0x000C798A,0x000C7987,0x000C7984,0x000C7981,0x000C797E,0x80001C00,0x81001C01,0x82001C02,0x000C797B],
    [0x000C7978,0x000C7975,0x000C7972,0x000C796F,0x000C796C,0x000C7969,0x000C7966,0x000C7963,0x000C7960,0x000C795D],
    [0x000C795A,0x000C7957,0x86001B73,0x87001BBA,0x000C7954,0xA8001C04,0xA9001C05,0xAA001C06,0xAB001C07,0xAC001C0B]]"

definition NODES_05 :: "nat list list" where
  "NODES_05 = [
    [0xAD001C0C,0xAE001C0D,0xAF001C0E,0xB0001C0F,0xB1001C10,0xB2001C11,0xB3001C12,0xB4001C13,0xB5001C14,0xB6001C15],
    [0xB7001C16,0xB8001C17,0xB9001C1A,0xBA001C33,0xBB001C34,0xBC001C35,0xBD001C37,0xBE001C38,0xBF001C39,0x000C7951],
    [0x000C794E,0x000C794B,0xE1001AE9,0x000C7948,0x000C7945,0x000C7942,0x80001C3D,0x81001C3E,0x82001C3F,0x000C793F],
    [0x000C793C,0x000C7939,0x000C7936,0x86001BB3,0x87001BF4,0x000C7933,0x000C7930,0x000C792D,0x000C792A,0x000C7927],
    [0x000C7924,0x000C7921,0x000C791E,0x000C791B,0x000C7918,0x000C7915,0x000C7912,0x000C790F,0x000C790C,0x000C7909],
    [0x000C7906,0x000C7903,0x000C7900,0x000C78FD,0x000C78FA,0x000C78F7,0x000C78F4,0x000C78F1,0xE1001AF4,0xA8001C43],
    [0xA9001C44,0xAA001C45,0xAB001C46,0xAC001C47,0xAD001C48,0xAE001C49,0xAF001C4A,0xB0001C4B,0xB1001C4C,0xB2001C4D],
    [0xB3001C4E,0xB4001C4F,0xB5001C50,0xB6001C51,0xB7001C52,0xB8001C53,0xB9001C54,0xBA001C55,0xBB001C56,0xBC001C57],
    [0xBD001C58,0xBE001C59,0xBF001C73,0x000C78EE,0x80001C77,0x81001C78,0x82001C79,0x000C78EB,0x000C78E8,0x000C78E5],
    [0x000C78E2,0x000C78DF,0x000C78DC,0x000C78D9,0x000C78D6,0x000C78D3,0x000C78D0,0x000C78CD,0x86001BDD,0x87001C2E],
    [0x000C78CA,0xA8001C7B,0xA9001C7C,0xAA001C7D,0xAB001C7E,0xAC001C7F,0xAD001C80,0xAE001C81,0xAF001C84,0xB0001C9D],
    [0xB1001C9E,0xB2001C9F,0xB3001CA0,0xB4001CA1,0xB5001CA2,0xB6001CA3,0xB7001CA4,0xB8001CA5,0xB9001CA6,0xBA001CA7],
    [0xBB001CA8,0xBC001CA9,0xBD001CAA,0xBE001CAB,0xBF001CAC,0x000C78C7,0x000C78C4,0x000C78C1,0x000C78BE,0x000C78BB],
    [0x000C78B8,0x000C78B5,0x000C78B2,0x000C78AF,0x000C78AC,0x000C78A9,0x000C78A6,0x000C78A3,0x000C78A0,0x000C789D],
    [0x000C789A,0xE1001B47,0x80001CB1,0x81001CB2,0x82001CB3,0x000C7897,0x000C7894,0x000C7891,0x85001C1F,0x000C788E],
    [0x86001C41,0x87001C82,0x000C788B,0x000C7888,0x000C7885,0x000C7882,0x000C787F,0x000C787C,0x000C7879,0xE1001C2F],
    [0xA1001CB5,0xA2001D05,0xA3001D24,0xA4001D79,0xA5001DB3,0xA6001DED,0xA7001E27,0xA8001E61,0xA9001E9B,0xAA001ED5],
    [0xAB001F0C,0xAC001F49,0xAD001F83,0xAE001FBA,0xAF001FF4,0xB000202E,0xB1002068,0xB200208C,0xB30020DF,0xB4002116],
    [0xB5002153,0x000C7876,0x000C7873,0x000C7870,0x000C786D,0x000C786A,0x000C7867,0x000C7864,0x000C7861,0x000C785E],
    [0x000C785B,0x000C7858,0x000C7855,0x000C7852,0x000C784F,0x000C784C,0xE1001B92,0x000C7849,0x000C7846,0x000C7843],
    [0x000C7840,0xA8001CB8,0xA9001CB9,0xAA001CBA,0xAB001CBB,0xAC001CBC,0xAD001CBD,0xAE001CBE,0xAF001CD5,0xB0001CD6],
    [0xB1001CD7,0xB2001CD8,0xB3001CD9,0xB4001CDA,0xB5001CDB,0xB6001CDC,0xB7001CDD,0xB8001CDE,0xB9001CDF,0xBA001CE0],
    [0xBB001CE1,0xBC001CE2,0xBD001CE3,0xBE001CE5,0xBF001CE6,0x000C783D,0x80001CE7,0x81001CE8,0x82001D01,0x000C783A],
    [0x000C7837,0x000C7834,0x000C7831,0x86001C85,0x87001CC5,0x000C782E,0x000C782B,0x000C7828,0x000C7825,0x000C7822],
    [0x000C781F,0x000C781C,0x000C7819,0x000C7816,0x000C7813,0x000C7810,0x000C780D,0x000C780A,0x000C7807,0x000C7804],
    [0x000C7801,0x000C77FE,0x000C77FB,0x000C77F8,0x000C77F5,0x000C77F2,0x000C77EF,0xE1001BBB,0x000C77EC,0x000C77E9],
    [0x000C77E6,0x000C77E3,0x000C77E0,0x000C77DD,0x000C77DA,0x000C77D7,0x000C77D4,0x000C77D1,0x000C77CE,0xA8001D06],
    [0xA9001D07,0xAA001D08,0xAB001D0B,0xAC001D0C,0xAD001D0D,0xAE001D0E,0xAF001D0F,0xB0001D10,0xB1001D11,0xB2001D12],
    [0xB3001D13,0xB4001D14,0xB5001D15,0xB6001D16,0xB7001D17,0xB8001D18,0xB9001D19,0xBA001D1A,0xBB001D1B,0xBC001D1C],
    [0xBD001D1D,0xBE001D1E,0xBF001D1F,0x80001D20,0x81001D22,0x82001D23,0x86001CB4,0x87001CF4,0x000C77CB,0x000C77C8],
    [0x000C77C5,0x000C77C2,0x000C77BF,0x000C77BC,0x000C77B9,0x000C77B6,0x000C77B3,0x000C77B0,0x000C77AD,0x000C77AA],
    [0x000C77A7,0x000C77A4,0x000C77A1,0x000C779E,0x000C779B,0xE1001BFC,0xA8001D25,0xA9001D26,0xAA001D27,0xAB001D28],
    [0xAC001D29,0xAD001D2A,0xAE001D2B,0xAF001D2C,0xB0001D4A,0xB1001D4B,0xB2001D4C,0xB3001D4D,0xB4001D4E,0xB5001D4F],
    [0xB6001D50,0xB7001D51,0xB8001D52,0xB9001D53,0xBA001D54,0xBB001D55,0xBC001D56,0xBD001D57,0xBE001D58,0xBF001D59],
    [0x80001D5A,0x81001D77,0x82001D78,0x000C7798,0x000C7795,0x000C7792,0x000C778F,0x86001CEF,0x87001D2F,0x000C778C],
    [0x000C7789,0x000C7786,0x000C7783,0x000C7780,0x000C777D,0x000C777A,0x000C7777,0x000C7774,0x000C7771,0x000C776E],
    [0x000C776B,0x000C7768,0x000C7765,0x000C7762,0x000C775F,0x000C775C,0x000C7759,0x000C7756,0x000C7753,0x000C7750],
    [0x000C774D,0x000C774A,0x000C7747,0x000C7744,0xE1001C30,0xA8001D7A,0xA9001D7D,0xAA001D7E,0xAB001D7F,0xAC001D80],
    [0xAD001D81,0xAE001D82,0xAF001D83,0xB0001D84,0xB1001D85,0xB2001D86,0xB3001D87,0xB4001D88,0xB5001D89,0xB6001D8A],
    [0xB7001D8B,0xB8001D8C,0xB9001D8D,0xBA001D8E,0xBB001D8F,0xBC001D90,0xBD001D91,0xBE001D92,0xBF001D93,0x80001D94],
    [0x81001D95,0x82001DB2,0x000C7741,0x000C773E,0x86001D21,0x87001D67,0x000C773B,0x000C7738,0x000C7735,0x000C7732],
    [0x000C772F,0x000C772C,0x000C7729,0x000C7726,0x000C7723,0x000C7720,0x000C771D,0x000C771A,0x000C7717,0x000C7714],
    [0x000C7711,0x000C770E,0x000C770B,0x000C7708,0x000C7705,0xA8001DB6,0xA9001DB7,0xAA001DB8,0xAB001DB9,0xAC001DBA],
    [0xAD001DBB,0xAE001DBC,0xAF001DBD,0xB0001DBE,0xB1001DBF,0xB2001DC0,0xB3001DC1,0xB4001DC2,0xB5001DC3,0xB6001DC4],
    [0xB7001DC5,0xB8001DC6,0xB9001DC7,0xBA001DC8,0xBB001DE1,0xBC001DE2,0xBD001DE3,0xBE001DE4,0xBF001DE5,0x000C7702],
    [0x000C76FF,0x000C76FC,0x000C76F9,0x000C76F6,0xE1001C83,0x80001DEA,0x81001DEB,0x82001DEC,0x000C76F3,0x000C76F0],
    [0x000C76ED,0x000C76EA,0x86001D5E,0x87001DA1,0x000C76E7,0x000C76E4,0x000C76E1,0x000C76DE,0x000C76DB,0x000C76D8],
    [0x000C76D5,0x000C76D2,0x000C76CF,0x000C76CC,0x000C76C9,0x000C76C6,0x000C76C3,0x000C76C0,0x000C76BD,0x000C76BA],
    [0x000C76B7,0x000C76B4,0x000C76B1,0x000C76AE,0x000C76AB,0xE1001CC2,0xA8001DF0,0xA9001DF1,0xAA001DF2,0xAB001DF3],
    [0xAC001DF4,0xAD001DF5,0xAE001DF6,0xAF001DF7,0xB0001DF8,0xB1001DF9,0xB2001DFA,0xB3001DFB,0xB4001DFC,0xB5001DFD],
    [0xB6001DFE,0xB7001DFF,0xB8001E00,0xB9001E01,0xBA001E02,0xBB001E03,0xBC001E04,0xBD001E1E,0xBE001E1F,0xBF001E20],
    [0x000C76A8,0x000C76A5,0x000C76A2,0x80001E24,0x81001E25,0x82001E26,0x000C769F,0x000C769C,0x000C7699,0x000C7696],
    [0x86001D96,0x87001DDB,0x000C7693,0x000C7690,0x000C768D,0x000C768A,0x000C7687,0x000C7684,0x000C7681,0x000C767E],
    [0x000C767B,0x000C7678,0x000C7675,0x000C7672,0x000C766F,0x000C766C,0x000C7669,0x000C7666,0x000C7663,0x000C7660],
    [0x000C765D,0x000C765A,0xA8001E2A,0xA9001E2B,0xAA001E2C,0xAB001E2D,0xAC001E2E,0xAD001E2F,0xAE001E30,0xAF001E31],
    [0xB0001E32,0xB1001E33,0xB2001E34,0xB3001E35,0xB4001E36,0xB5001E37,0xB6001E38,0xB7001E39,0xB8001E3A,0xB9001E3B],
    [0xBA001E3C,0xBB001E3D,0xBC001E56,0xBD001E57,0xBE001E58,0xBF001E59,0x000C7657,0x000C7654,0x000C7651,0x000C764E],
    [0xE1001CF5,0x80001E5E,0x81001E5F,0x82001E60,0x000C764B,0x000C7648,0x000C7645,0x000C7642,0x86001DC9,0x87001E15],
    [0x000C763F,0x000C763C,0x000C7639,0x000C7636,0x000C7633,0x000C7630,0x000C762D,0x000C762A,0x000C7627,0x000C7624],
    [0x000C7621,0x000C761E,0x000C761B,0xA8001E64,0xA9001E65,0xAA001E66,0xAB001E67,0xAC001E68,0xAD001E69,0xAE001E6A],
    [0xAF001E6B,0xB0001E6C,0xB1001E6D,0xB2001E6E,0xB3001E6F,0xB4001E70,0xB5001E89,0xB6001E8A,0xB7001E8B,0xB8001E8C],
    [0xB9001E8D,0xBA001E8E,0xBB001E8F,0xBC001E90,0xBD001E91,0xBE001E92,0xBF001E93,0x000C7618,0x000C7615,0x000C7612],
    [0x000C760F,0x000C760C,0x000C7609,0x000C7606,0x000C7603,0x000C7600,0x000C75FD,0x000C75FA,0xE1001D2E,0x80001E98],
    [0x81001E99,0x82001E9A,0x000C75F7,0x000C75F4,0x000C75F1,0x000C75EE,0x86001E05,0x87001E4F,0x000C75EB,0x000C75E8],
    [0x000C75E5,0x000C75E2,0x000C75DF,0x000C75DC,0x000C75D9,0x000C75D6,0x000C75D3,0x000C75D0,0x000C75CD,0x000C75CA],
    [0x000C75C7,0x000C75C4,0x000C75C1,0xA8001E9E,0xA9001E9F,0xAA001EA0,0xAB001EA1,0xAC001EA2,0xAD001EA3,0xAE001EA4],
    [0xAF001EA5,0xB0001EA6,0xB1001EA7,0xB2001EA8,0xB3001EA9,0xB4001EAA,0xB5001EAB,0xB6001EAC,0xB7001EC5,0xB8001EC6],
    [0xB9001EC7,0xBA001EC8,0xBB001EC9,0xBC001ECA,0xBD001ECB,0xBE001ECC,0xBF001ECD,0x000C75BE,0x000C75BB,0x000C75B8],
    [0x000C75B5,0x000C75B2,0x000C75AF,0x000C75AC,0x000C75A9,0x000C75A6,0xE1001D68,0x80001ED2,0x81001ED3,0x82001ED4],
    [0x000C75A3,0x000C75A0,0x000C759D,0x000C759A,0x86001E3E,0x87001E94,0x000C7597,0x000C7594,0x000C7591,0x000C758E],
    [0x000C758B,0x000C7588,0x000C7585,0x000C7582,0x000C757F,0x000C757C,0x000C7579,0x000C7576,0x000C7573,0x000C7570],
    [0xA8001ED8,0xA9001ED9,0xAA001EDA,0xAB001EDB,0xAC001EDC,0xAD001EDD,0xAE001EDE,0xAF001EDF,0xB0001EE0,0xB1001EE1],
    [0xB2001EE2,0xB3001EE3,0xB4001EE4,0xB5001EE5,0xB6001EFE,0xB7001EFF,0xB8001F00,0xB9001F01,0xBA001F02,0xBB001F03],
    [0xBC001F04,0xBD001F05,0xBE001F06,0xBF001F07,0x000C756D,0x000C756A,0x000C7567,0x000C7564,0x000C7561,0x000C755E],
    [0x000C755B,0x000C7558,0x000C7555,0x000C7552,0xE1001DA2,0x000C754F,0x000C754C,0x000C7549,0x000C7546,0x86001E71],
    [0x87001EC3,0x000C7543,0x000C7540,0x000C753D,0x000C753A,0x000C7537,0x80001F09,0x81001F0A,0x82001F0B,0x000C7534],
    [0x000C7531,0xA8001F0F,0xA9001F10,0xAA001F11,0xAB001F12,0xAC001F13,0xAD001F17,0xAE001F18,0xAF001F31,0xB0001F32],
    [0xB1001F33,0xB2001F34,0xB3001F35,0xB4001F36,0xB5001F37,0xB6001F38,0xB7001F39,0xB8001F3A,0xB9001F3B,0xBA001F3C],
    [0xBB001F3D,0xBC001F3E,0xBD001F3F,0xBE001F40,0xBF001F41,0x000C752E,0x000C752B,0x000C7528,0x000C7525,0x000C7522],
    [0x000C751F,0x000C751C,0x000C7519,0x000C7516,0x000C7513,0x000C7510,0x000C750D,0x000C750A,0x000C7507,0x000C7504],
    [0x000C7501,0x000C74FE,0xE1001DDC,0x80001F46,0x81001F47,0x82001F48,0x000C74FB,0x000C74F8,0x000C74F5,0x000C74F2],
    [0x86001EAD,0x87001EFD,0x000C74EF,0x000C74EC,0x000C74E9,0x000C74E6,0x000C74E3,0x000C74E0,0x000C74DD,0x000C74DA],
    [0x000C74D7,0xA8001F4C,0xA9001F4D,0xAA001F4E,0xAB001F4F,0xAC001F50,0xAD001F51,0xAE001F52,0xAF001F53,0xB0001F54],
    [0xB1001F6D,0xB2001F6E,0xB3001F6F,0xB4001F70,0xB5001F71,0xB6001F72,0xB7001F73,0xB8001F74,0xB9001F75,0xBA001F76],
    [0xBB001F77,0xBC001F78,0xBD001F79,0xBE001F7A,0xBF001F7B,0x000C74D4,0x000C74D1,0x000C74CE,0x000C74CB,0x000C74C8],
    [0x000C74C5,0x000C74C2,0x000C74BF,0x000C74BC,0x000C74B9,0x000C74B6,0x000C74B3,0x000C74B0,0x000C74AD,0x000C74AA],
    [0xE1001E16,0x80001F80,0x81001F81,0x82001F82,0x000C74A7,0x000C74A4,0x000C74A1,0x000C749E,0x000C749B,0x000C7498],
    [0x000C7495,0x000C7492,0x000C748F,0x000C748C,0x000C7489,0x000C7486,0x000C7483,0x000C7480,0x86001EE8,0x87001F42],
    [0xA8001F84,0xA9001F85,0xAA001F86,0xAB001F87,0xAC001F88,0xAD001F89,0xAE001F8A,0xAF001F8B,0xB0001F8C,0xB1001F8D],
    [0xB2001FA8,0xB3001FA9,0xB4001FAA,0xB5001FAB,0xB6001FAC,0xB7001FAD,0xB8001FAE,0xB9001FAF,0xBA001FB0,0xBB001FB1],
    [0xBC001FB2,0xBD001FB3,0xBE001FB4,0xBF001FB5,0x000C747D,0x000C747A,0x000C7477,0x000C7474,0x000C7471,0x000C746E],
    [0x000C746B,0x000C7468,0x000C7465,0x000C7462,0x000C745F,0x000C745C,0x000C7459,0x000C7456,0xE1001E50,0x000C7453],
    [0x000C7450,0x000C744D,0x000C744A,0x000C7447,0x000C7444,0x000C7441,0x000C743E,0x000C743B,0x000C7438,0x000C7435],
    [0x80001FB7,0x81001FB8,0x82001FB9,0x000C7432,0x000C742F,0x000C742C,0x000C7429,0x86001F23,0x87001F7C,0xA8001FBB],
    [0xA9001FBC,0xAA001FBD,0xAB001FBE,0xAC001FBF,0xAD001FC0,0xAE001FC1,0xAF001FC5,0xB0001FC6,0xB1001FC7,0xB2001FC8],
    [0xB3001FE3,0xB4001FE4,0xB5001FE5,0xB6001FE6,0xB7001FE7,0xB8001FE8,0xB9001FE9,0xBA001FEA,0xBB001FEB,0xBC001FEC],
    [0xBD001FEE,0xBE001FEF,0xBF001FF0,0x000C7426,0x000C7423,0x000C7420,0x000C741D,0x000C741A,0x000C7417,0x000C7414],
    [0x000C7411,0x000C740E,0x000C740B,0xE1001E87,0x000C7408,0x000C7405,0x000C7402,0x000C73FF,0x000C73FC,0x000C73F9],
    [0x000C73F6,0x000C73F3,0x000C73F0,0x000C73ED,0x000C73EA,0x000C73E7,0x000C73E4,0x000C73E1,0x80001FF1,0x81001FF2],
    [0x82001FF3,0x000C73DE,0x000C73DB,0x000C73D8,0x000C73D5,0x86001F5D,0x87001FB6,0xA8001FF5,0xA9001FF6,0xAA001FF7],
    [0xAB001FF8,0xAC001FF9,0xAD001FFA,0xAE001FFB,0xAF001FFF,0xB0002000,0xB1002001,0xB2002002,0xB300201D,0xB400201E],
    [0xB500201F,0xB6002020,0xB7002021,0xB8002022,0xB9002023,0xBA002024,0xBB002025,0xBC002026,0xBD002027,0xBE002028],
    [0xBF002029,0x000C73D2,0x000C73CF,0x000C73CC,0x000C73C9,0x000C73C6,0x000C73C3,0x000C73C0,0x000C73BD,0x000C73BA],
    [0x000C73B7,0x000C73B4,0x000C73B1,0x000C73AE,0xE1001EC4,0x000C73AB,0x000C73A8,0x000C73A5,0x000C73A2,0x000C739F],
    [0x000C739C,0x000C7399,0x000C7396,0x000C7393,0x000C7390,0x000C738D,0x8000202B,0x8100202C,0x8200202D,0x000C738A],
    [0x000C7387,0x000C7384,0x000C7381,0x000C737E,0x000C737B,0x000C7378,0x000C7375,0x000C7372,0x000C736F,0x000C736C],
    [0x000C7369,0x000C7366,0x000C7363,0x000C7360,0x86001FA2,0x87001FED,0xA800202F,0xA9002030,0xAA002031,0xAB002032],
    [0xAC002033,0xAD002034,0xAE002035,0xAF002039,0xB000203A,0xB100203B,0xB200203C,0xB300203D,0xB400203E,0xB500203F],
    [0xB6002040,0xB7002041,0xB8002042,0xB9002043,0xBA002044,0xBB002045,0xBC002046,0xBD002047,0xBE002062,0xBF002063],
    [0x000C735D,0x000C735A,0xE1001F08,0x000C7357,0x000C7354,0x000C7351,0x000C734E,0x000C734B,0x000C7348,0x000C7345],
    [0x000C7342,0x80002065,0x81002066,0x82002067,0x000C733F,0x000C733C,0x000C7339,0x000C7336,0x000C7333,0x000C7330],
    [0x000C732D,0x000C732A,0x000C7327,0x000C7324,0x000C7321,0x000C731E,0x000C731B,0x000C7318,0x000C7315,0x000C7312],
    [0x000C730F,0x000C730C,0x86001FFD,0x87002006,0x000C7309,0x000C7306,0x80002089,0x8100208A,0x8200208B,0x000C7303],
    [0x000C7300,0x000C72FD,0x000C72FA,0x86002015,0x87002059,0x000C72F7,0x000C72F4,0x000C72F1,0x000C72EE,0x000C72EB],
    [0x000C72E8,0x000C72E5,0x000C72E2,0x000C72DF,0x000C72DC,0x000C72D9,0x000C72D6,0xE1001F43,0x000C72D3,0x000C72D0],
    [0x000C72CD,0x000C72CA,0x000C72C7,0x000C72C4,0x000C72C1,0x000C72BE,0x000C72BB,0xA8002069,0xA900206A,0xAA00206B],
    [0xAB00206C,0xAC002070,0xAD002071,0xAE002072,0xAF002073,0xB0002074,0xB1002075,0xB2002076,0xB3002077,0xB4002078],
    [0xB5002079,0xB600207A,0xB700207B,0xB800207C,0xB900207D,0xBA00207E,0xBB00207F,0xBC002080,0xBD002081,0xBE002084],
    [0xBF002085,0xA800208F,0xA9002090,0xAA002091,0xAB002092,0xAC002093,0xAD002094,0xAE002095,0xAF002096,0xB0002097],
    [0xB1002098,0xB2002099,0xB300209A,0xB400209C,0xB500209D,0xB600209E,0xB700209F,0xB80020A0,0xB90020A1,0xBA0020A2],
    [0xBB0020A3,0xBC0020A4,0xBD0020D6,0xBE0020D7,0xBF0020D8,0xE1001F7D,0x000C72B8,0x000C72B5,0x000C72B2,0x800020DC],
    [0x810020DD,0x820020DE,0x000C72AF,0x000C72AC,0x000C72A9,0x000C72A6,0x86002048,0x8700209B,0x000C72A3,0x000C72A0],
    [0x000C729D,0x000C729A,0x000C7297,0x000C7294,0x000C7291,0x000C728E,0x000C728B,0x000C7288,0x000C7285,0x000C7282],
    [0x000C727F,0x000C727C,0xA80020E2,0xA90020E3,0xAA0020E4,0xAB0020E5,0xAC0020E6,0xAD0020E7,0xAE0020E8,0xAF0020E9],
    [0xB00020EA,0xB10020EB,0xB20020EC,0xB30020ED,0xB40020EE,0xB50020EF,0xB6002108,0xB7002109,0xB800210A,0xB900210B],
    [0xBA00210C,0xBB00210D,0xBC00210E,0xBD002110,0xBE002111,0xBF002112,0x000C7279,0x000C7276,0x000C7273,0x000C7270],
    [0x000C726D,0x000C726A,0x000C7267,0xE1001FC2,0x000C7264,0x000C7261,0x000C725E,0x000C725B,0x000C7258,0x000C7255],
    [0x000C7252,0x000C724F,0x000C724C,0x000C7249,0x000C7246,0x80002113,0x81002114,0x82002115,0x000C7243,0x000C7240],
    [0x000C723D,0x000C723A,0x000C7237,0x000C7234,0x000C7231,0x000C722E,0x000C722B,0x000C7228,0x000C7225,0x000C7222],
    [0x000C721F,0x86002086,0x870020CD,0x000C721C,0xA8002117,0xA9002118,0xAA002119,0xAB00211A,0xAC00211E,0xAD00211F],
    [0xAE002120,0xAF002121,0xB0002122,0xB1002123,0xB2002124,0xB3002125,0xB4002126,0xB5002127,0xB6002128,0xB7002129],
    [0xB800212A,0xB900212D,0xBA002146,0xBB002147,0xBC002148,0xBD00214A,0xBE00214B,0xBF00214C,0x000C7219,0x000C7216],
    [0x000C7213,0xE1001FFC,0x000C7210,0x000C720D,0x000C720A,0x80002150,0x81002151,0x82002152,0x000C7207,0x000C7204],
    [0x000C7201,0x000C71FE,0x860020C6,0x87002107,0x000C71FB,0x000C71F8,0x000C71F5,0x000C71F2,0x000C71EF,0x000C71EC],
    [0x000C71E9,0x000C71E6,0x000C71E3,0x000C71E0,0x000C71DD,0x000C71DA,0x000C71D7,0x000C71D4,0x000C71D1,0x000C71CE],
    [0x000C71CB,0x000C71C8,0x000C71C5,0x000C71C2,0x000C71BF,0x000C71BC,0x000C71B9,0xE1002007,0xA8002156,0xA9002157],
    [0xAA002158,0xAB002159,0xAC00215A,0xAD00215B,0xAE00215C,0xAF00215D,0xB000215E,0xB100215F,0xB2002160,0xB3002161],
    [0xB4002162,0xB5002163,0xB6002164,0xB7002165,0xB8002166,0xB9002167,0xBA002168,0xBB002169,0xBC00216A,0xBD00216B],
    [0xBE00216C,0xBF002186,0x000C71B6,0x8000218A,0x8100218B,0x8200218C,0x000C71B3,0x000C71B0,0x000C71AD,0xE100210F],
    [0x000C71AA,0x000C71A7,0x000C71A4,0x000C71A1,0x000C719E,0x000C719B,0x850020F4,0xA100218E,0xA20021DB,0xA3002218],
    [0xA4002252,0xA500228C,0xA60022C6,0xA7002300,0xA8002337,0xA9002374,0xAA0023AE,0xAB0023E5,0xAC00241F,0xAD00245C],
    [0xAE002493,0xAF0024CD,0xB0002507,0xB1002544,0xB200257B,0xB300259C,0xB40025EF,0xB500262C,0x000C7198,0x000C7195],
    [0x000C7192,0x000C718F,0x000C718C,0x000C7189,0x000C7186,0x8600211B,0x8700216D,0x000C7183,0x000C7180,0x000C717D],
    [0x000C717A,0x000C7177,0x000C7174,0x000C7171,0x000C716E,0x000C716B,0x000C7168,0x000C7165,0x000C7162,0x000C715F]]"

definition NODES_06 :: "nat list list" where
  "NODES_06 = [
    [0xE100205A,0x000C715C,0x000C7159,0xA800218F,0xA9002190,0xAA002191,0xAB002192,0xAC002193,0xAD0021AA,0xAE0021AB],
    [0xAF0021AC,0xB00021AD,0xB10021AE,0xB20021AF,0xB30021B0,0xB40021B3,0xB50021B4,0xB60021B5,0xB70021B6,0xB80021B7],
    [0xB90021B8,0xBA0021B9,0xBB0021BA,0xBC0021BB,0xBD0021BC,0xBE0021BD,0xBF0021BE,0x000C7156,0x000C7153,0x000C7150],
    [0x000C714D,0x000C714A,0x000C7147,0x000C7144,0x000C7141,0x000C713E,0x000C713B,0x000C7138,0x000C7135,0x000C7132],
    [0x000C712F,0x000C712C,0x000C7129,0x000C7126,0x000C7123,0x800021BF,0x810021C1,0x820021C2,0x000C7120,0x000C711D],
    [0x000C711A,0x000C7117,0x86002154,0x87002194,0x000C7114,0xE10020A5,0x000C7111,0x000C710E,0x000C710B,0x000C7108],
    [0xA80021DC,0xA90021DD,0xAA0021DE,0xAB0021DF,0xAC0021E0,0xAD0021E1,0xAE0021E2,0xAF0021E3,0xB00021E4,0xB10021E5],
    [0xB20021E6,0xB30021E7,0xB40021E8,0xB50021E9,0xB60021EA,0xB70021EB,0xB80021EC,0xB90021F0,0xBA0021F1,0xBB0021F2],
    [0xBC0021F3,0xBD0021F6,0xBE0021F8,0xBF0021F9,0x800021FA,0x810021FB,0x82002217,0x000C7105,0x000C7102,0x000C70FF],
    [0x000C70FC,0x8600218D,0x870021CD,0x000C70F9,0x000C70F6,0x000C70F3,0x000C70F0,0x000C70ED,0x000C70EA,0x000C70E7],
    [0x000C70E4,0x000C70E1,0x000C70DE,0x000C70DB,0x000C70D8,0x000C70D5,0x000C70D2,0x000C70CF,0x000C70CC,0x000C70C9],
    [0x000C70C6,0x000C70C3,0x000C70C0,0x000C70BD,0x000C70BA,0x000C70B7,0xE10020CE,0xA8002219,0xA900221A,0xAA00221D],
    [0xAB00221E,0xAC00221F,0xAD002220,0xAE002221,0xAF002222,0xB0002223,0xB1002224,0xB2002225,0xB3002226,0xB4002227],
    [0xB5002228,0xB6002229,0xB700222A,0xB800222B,0xB900222C,0xBA00222D,0xBB00222E,0xBC00222F,0xBD002230,0xBE002231],
    [0xBF002232,0x80002233,0x81002250,0x82002251,0x000C70B4,0x000C70B1,0x000C70AE,0x000C70AB,0x860021C8,0x87002208],
    [0x000C70A8,0x000C70A5,0x000C70A2,0x000C709F,0x000C709C,0x000C7099,0x000C7096,0x000C7093,0x000C7090,0x000C708D],
    [0x000C708A,0x000C7087,0x000C7084,0x000C7081,0x000C707E,0x000C707B,0x000C7078,0x000C7075,0x000C7072,0x000C706F],
    [0x000C706C,0x000C7069,0x000C7066,0x000C7063,0x000C7060,0xE100212B,0xA8002253,0xA9002256,0xAA002257,0xAB002258],
    [0xAC002259,0xAD00225A,0xAE00225B,0xAF00225C,0xB000225D,0xB100225E,0xB200225F,0xB3002260,0xB4002261,0xB5002262],
    [0xB6002263,0xB7002264,0xB8002265,0xB9002266,0xBA002267,0xBB002268,0xBC002269,0xBD00226A,0xBE00226B,0xBF00226C],
    [0x8000226D,0x8100226E,0x8200228B,0x000C705D,0x000C705A,0x860021ED,0x87002240,0x000C7057,0x000C7054,0x000C7051],
    [0x000C704E,0x000C704B,0x000C7048,0xA800228F,0xA9002290,0xAA002291,0xAB002292,0xAC002293,0xAD002294,0xAE0022AD],
    [0xAF0022AE,0xB00022AF,0xB10022B0,0xB20022B1,0xB30022B2,0xB40022B3,0xB50022B4,0xB60022B5,0xB70022B6,0xB80022B7],
    [0xB90022B8,0xBA0022B9,0xBB0022BA,0xBC0022BB,0xBD0022BD,0xBE0022BE,0xBF0022BF,0x000C7045,0x000C7042,0x000C703F],
    [0x000C703C,0x000C7039,0x000C7036,0x000C7033,0x000C7030,0x000C702D,0x000C702A,0x000C7027,0x000C7024,0x000C7021],
    [0x000C701E,0x000C701B,0xE100216E,0x000C7018,0x000C7015,0x000C7012,0x800022C3,0x810022C4,0x820022C5,0x000C700F],
    [0x000C700C,0x000C7009,0x000C7006,0x86002234,0x8700227A,0x000C7003,0x000C7000,0x000C6FFD,0x000C6FFA,0x000C6FF7],
    [0x000C6FF4,0x000C6FF1,0x000C6FEE,0x000C6FEB,0x000C6FE8,0x000C6FE5,0x000C6FE2,0x000C6FDF,0x000C6FDC,0x000C6FD9],
    [0x000C6FD6,0x000C6FD3,0x000C6FD0,0x000C6FCD,0xA80022C9,0xA90022CA,0xAA0022CB,0xAB0022CC,0xAC0022CD,0xAD0022CE],
    [0xAE0022CF,0xAF0022D0,0xB00022D1,0xB10022D2,0xB20022D3,0xB30022D4,0xB40022D5,0xB50022D6,0xB60022D7,0xB70022D8],
    [0xB80022D9,0xB90022DA,0xBA0022DB,0xBB0022F4,0xBC0022F5,0xBD0022F6,0xBE0022F7,0xBF0022F8,0x000C6FCA,0x000C6FC7],
    [0x000C6FC4,0x000C6FC1,0x000C6FBE,0xE1002195,0x800022FD,0x810022FE,0x820022FF,0x000C6FBB,0x000C6FB8,0x000C6FB5],
    [0x000C6FB2,0x8600226F,0x870022BC,0x000C6FAF,0x000C6FAC,0x000C6FA9,0x000C6FA6,0x000C6FA3,0x000C6FA0,0x000C6F9D],
    [0x000C6F9A,0x000C6F97,0x000C6F94,0x000C6F91,0x000C6F8E,0x000C6F8B,0x000C6F88,0x000C6F85,0x000C6F82,0x000C6F7F],
    [0x000C6F7C,0x000C6F79,0x000C6F76,0xA8002303,0xA9002304,0xAA002305,0xAB002306,0xAC002307,0xAD002308,0xAE002309],
    [0xAF00230A,0xB000230B,0xB100230C,0xB200230D,0xB300230E,0xB400230F,0xB5002310,0xB6002311,0xB7002312,0xB8002313],
    [0xB9002314,0xBA002315,0xBB002316,0xBC00232F,0xBD002330,0xBE002331,0xBF002332,0x000C6F73,0x000C6F70,0x000C6F6D],
    [0x000C6F6A,0xE10021CE,0x000C6F67,0x000C6F64,0x000C6F61,0x000C6F5E,0x000C6F5B,0x000C6F58,0x000C6F55,0x000C6F52],
    [0x80002334,0x81002335,0x82002336,0x000C6F4F,0x000C6F4C,0x000C6F49,0x000C6F46,0x000C6F43,0x000C6F40,0x000C6F3D],
    [0x860022A0,0x870022EE,0xA8002338,0xA9002339,0xAA00233A,0xAB00233B,0xAC00233F,0xAD002340,0xAE002341,0xAF002342],
    [0xB0002343,0xB1002344,0xB2002345,0xB3002360,0xB4002361,0xB5002362,0xB6002363,0xB7002364,0xB8002365,0xB9002366],
    [0xBA002367,0xBB002368,0xBC002369,0xBD00236A,0xBE00236B,0xBF00236C,0x000C6F3A,0x000C6F37,0x000C6F34,0x000C6F31],
    [0x000C6F2E,0x000C6F2B,0x000C6F28,0x000C6F25,0x000C6F22,0x000C6F1F,0x000C6F1C,0x000C6F19,0x000C6F16,0xE1002207],
    [0x80002371,0x81002372,0x82002373,0x000C6F13,0x000C6F10,0x000C6F0D,0x000C6F0A,0x860022DC,0x87002328,0x000C6F07],
    [0x000C6F04,0x000C6F01,0x000C6EFE,0x000C6EFB,0x000C6EF8,0x000C6EF5,0x000C6EF2,0x000C6EEF,0x000C6EEC,0x000C6EE9],
    [0x000C6EE6,0x000C6EE3,0xA8002377,0xA9002378,0xAA002379,0xAB00237A,0xAC00237B,0xAD00237C,0xAE00237D,0xAF00237E],
    [0xB000237F,0xB1002380,0xB2002381,0xB3002382,0xB4002383,0xB500239C,0xB600239D,0xB700239E,0xB800239F,0xB90023A0],
    [0xBA0023A1,0xBB0023A2,0xBC0023A3,0xBD0023A4,0xBE0023A5,0xBF0023A6,0x000C6EE0,0x000C6EDD,0x000C6EDA,0x000C6ED7],
    [0x000C6ED4,0x000C6ED1,0x000C6ECE,0x000C6ECB,0x000C6EC8,0x000C6EC5,0x000C6EC2,0xE1002241,0x800023AB,0x810023AC],
    [0x820023AD,0x000C6EBF,0x000C6EBC,0x000C6EB9,0x000C6EB6,0x86002317,0x8700236D,0x000C6EB3,0x000C6EB0,0x000C6EAD],
    [0x000C6EAA,0x000C6EA7,0x000C6EA4,0x000C6EA1,0x000C6E9E,0x000C6E9B,0x000C6E98,0x000C6E95,0x000C6E92,0x000C6E8F],
    [0x000C6E8C,0xA80023B1,0xA90023B2,0xAA0023B3,0xAB0023B4,0xAC0023B5,0xAD0023B6,0xAE0023B7,0xAF0023B8,0xB00023B9],
    [0xB10023BA,0xB20023BB,0xB30023BC,0xB40023BD,0xB50023BE,0xB60023D7,0xB70023D8,0xB80023D9,0xB90023DA,0xBA0023DB],
    [0xBB0023DC,0xBC0023DD,0xBD0023DE,0xBE0023DF,0xBF0023E0,0x000C6E89,0x000C6E86,0x000C6E83,0x000C6E80,0x000C6E7D],
    [0x000C6E7A,0x000C6E77,0x000C6E74,0x000C6E71,0x000C6E6E,0xE100227B,0x000C6E6B,0x000C6E68,0x000C6E65,0x000C6E62],
    [0x000C6E5F,0x000C6E5C,0x000C6E59,0x000C6E56,0x000C6E53,0x000C6E50,0x000C6E4D,0x800023E2,0x810023E3,0x820023E4],
    [0x000C6E4A,0x000C6E47,0x000C6E44,0x000C6E41,0x8600234E,0x870023A7,0xA80023E6,0xA90023E7,0xAA0023E8,0xAB0023E9],
    [0xAC0023EA,0xAD0023EB,0xAE0023EC,0xAF0023F0,0xB00023F1,0xB10023F2,0xB20023F3,0xB300240E,0xB400240F,0xB5002410],
    [0xB6002411,0xB7002412,0xB8002413,0xB9002414,0xBA002415,0xBB002416,0xBC002417,0xBD002419,0xBE00241A,0xBF00241B],
    [0x000C6E3E,0x000C6E3B,0x000C6E38,0x000C6E35,0x000C6E32,0x000C6E2F,0x000C6E2C,0x000C6E29,0x000C6E26,0x000C6E23],
    [0xE10022C0,0x000C6E20,0x000C6E1D,0x000C6E1A,0x000C6E17,0x000C6E14,0x000C6E11,0x000C6E0E,0x86002384,0x870023D6],
    [0x000C6E0B,0x000C6E08,0x000C6E05,0x000C6E02,0x000C6DFF,0x8000241C,0x8100241D,0x8200241E,0x000C6DFC,0x000C6DF9],
    [0xA8002422,0xA9002423,0xAA002424,0xAB002425,0xAC002426,0xAD00242A,0xAE00242B,0xAF002444,0xB0002445,0xB1002446],
    [0xB2002447,0xB3002448,0xB4002449,0xB500244A,0xB600244B,0xB700244C,0xB800244D,0xB900244E,0xBA00244F,0xBB002450],
    [0xBC002451,0xBD002452,0xBE002453,0xBF002454,0x000C6DF6,0x000C6DF3,0x000C6DF0,0x000C6DED,0x000C6DEA,0x000C6DE7],
    [0x000C6DE4,0x000C6DE1,0x000C6DDE,0x000C6DDB,0x000C6DD8,0x000C6DD5,0x000C6DD2,0x000C6DCF,0x000C6DCC,0x000C6DC9],
    [0x000C6DC6,0xE10022EF,0x80002459,0x8100245A,0x8200245B,0x000C6DC3,0x000C6DC0,0x000C6DBD,0x000C6DBA,0x000C6DB7],
    [0x000C6DB4,0x000C6DB1,0x000C6DAE,0x000C6DAB,0x000C6DA8,0x000C6DA5,0x000C6DA2,0x000C6D9F,0x000C6D9C,0x860023C1],
    [0x87002418,0xA800245D,0xA900245E,0xAA00245F,0xAB002460,0xAC002461,0xAD002462,0xAE002463,0xAF002464,0xB0002465],
    [0xB1002466,0xB2002481,0xB3002482,0xB4002483,0xB5002484,0xB6002485,0xB7002486,0xB8002487,0xB9002488,0xBA002489],
    [0xBB00248A,0xBC00248B,0xBD00248C,0xBE00248D,0xBF00248E,0x000C6D99,0x000C6D96,0x000C6D93,0x000C6D90,0x000C6D8D],
    [0x000C6D8A,0x000C6D87,0x000C6D84,0x000C6D81,0x000C6D7E,0x000C6D7B,0x000C6D78,0x000C6D75,0x000C6D72,0xE1002329],
    [0x000C6D6F,0x000C6D6C,0x000C6D69,0x000C6D66,0x000C6D63,0x000C6D60,0x000C6D5D,0x000C6D5A,0x80002490,0x81002491],
    [0x82002492,0x000C6D57,0x000C6D54,0x000C6D51,0x000C6D4E,0x000C6D4B,0x000C6D48,0x000C6D45,0x000C6D42,0x000C6D3F],
    [0x000C6D3C,0x000C6D39,0x86002400,0x87002455,0xA8002494,0xA9002495,0xAA002496,0xAB002497,0xAC00249B,0xAD00249C],
    [0xAE00249D,0xAF00249E,0xB000249F,0xB10024A0,0xB20024A1,0xB30024A2,0xB40024A3,0xB50024A4,0xB60024A5,0xB70024C0],
    [0xB80024C1,0xB90024C2,0xBA0024C3,0xBB0024C4,0xBC0024C5,0xBD0024C7,0xBE0024C8,0xBF0024C9,0x000C6D36,0x000C6D33],
    [0x000C6D30,0x000C6D2D,0x000C6D2A,0x000C6D27,0xE100236E,0x000C6D24,0x000C6D21,0x000C6D1E,0x000C6D1B,0x000C6D18],
    [0x000C6D15,0x000C6D12,0x000C6D0F,0x000C6D0C,0x000C6D09,0x000C6D06,0x000C6D03,0x000C6D00,0x000C6CFD,0x800024CA],
    [0x810024CB,0x820024CC,0x000C6CFA,0x000C6CF7,0x000C6CF4,0x000C6CF1,0x86002436,0x8700248F,0xA80024CE,0xA90024CF],
    [0xAA0024D0,0xAB0024D1,0xAC0024D2,0xAD0024D3,0xAE0024D4,0xAF0024D8,0xB00024D9,0xB10024DA,0xB20024DB,0xB30024F6],
    [0xB40024F7,0xB50024F8,0xB60024F9,0xB70024FA,0xB80024FB,0xB90024FC,0xBA0024FD,0xBB0024FE,0xBC0024FF,0xBD002501],
    [0xBE002502,0xBF002503,0x000C6CEE,0x000C6CEB,0x000C6CE8,0x000C6CE5,0x000C6CE2,0x000C6CDF,0x000C6CDC,0x000C6CD9],
    [0x000C6CD6,0x000C6CD3,0xE100239A,0x000C6CD0,0x000C6CCD,0x000C6CCA,0x000C6CC7,0x000C6CC4,0x000C6CC1,0x000C6CBE],
    [0x000C6CBB,0x000C6CB8,0x000C6CB5,0x000C6CB2,0x000C6CAF,0x000C6CAC,0x000C6CA9,0x80002504,0x81002505,0x82002506],
    [0x000C6CA6,0x000C6CA3,0x000C6CA0,0x000C6C9D,0x000C6C9A,0x000C6C97,0x000C6C94,0x000C6C91,0x000C6C8E,0x000C6C8B],
    [0x000C6C88,0x000C6C85,0x86002478,0x870024BE,0xA8002508,0xA9002509,0xAA00250A,0xAB00250B,0xAC00250C,0xAD00250D],
    [0xAE00250E,0xAF002512,0xB0002513,0xB1002514,0xB2002515,0xB3002516,0xB4002517,0xB5002518,0xB6002519,0xB700251A],
    [0xB800251B,0xB900251C,0xBA00251D,0xBB002538,0xBC002539,0xBD00253A,0xBE00253B,0xBF00253C,0x000C6C82,0x000C6C7F],
    [0x000C6C7C,0x000C6C79,0x000C6C76,0xE10023E1,0x80002541,0x81002542,0x82002543,0x000C6C73,0x000C6C70,0x000C6C6D],
    [0x000C6C6A,0x860024A6,0x87002500,0x000C6C67,0x000C6C64,0x000C6C61,0x000C6C5E,0x000C6C5B,0x000C6C58,0x000C6C55],
    [0xA8002547,0xA9002548,0xAA002549,0xAB00254A,0xAC00254B,0xAD00254C,0xAE00254D,0xAF002566,0xB0002567,0xB1002568],
    [0xB2002569,0xB300256A,0xB400256B,0xB500256C,0xB600256D,0xB700256E,0xB800256F,0xB9002570,0xBA002571,0xBB002572],
    [0xBC002573,0xBD002575,0xBE002576,0xBF002577,0x000C6C52,0x000C6C4F,0x000C6C4C,0x000C6C49,0x000C6C46,0x000C6C43],
    [0x000C6C40,0x000C6C3D,0x000C6C3A,0x000C6C37,0x000C6C34,0x000C6C31,0x000C6C2E,0x000C6C2B,0xE1002420,0x000C6C28],
    [0x000C6C25,0x000C6C22,0x000C6C1F,0x000C6C1C,0x000C6C19,0x000C6C16,0x000C6C13,0x000C6C10,0x000C6C0D,0x000C6C0A],
    [0x80002578,0x81002579,0x8200257A,0x000C6C07,0x000C6C04,0x000C6C01,0x000C6BFE,0x000C6BFB,0x000C6BF8,0x000C6BF5],
    [0x000C6BF2,0x000C6BEF,0x000C6BEC,0x000C6BE9,0x000C6BE6,0x000C6BE3,0x000C6BE0,0x000C6BDD,0x000C6BDA,0x000C6BD7],
    [0x000C6BD4,0x86002510,0x8700251E,0x000C6BD1,0x000C6BCE,0x000C6BCB,0x000C6BC8,0x000C6BC5,0x000C6BC2,0x000C6BBF],
    [0x80002599,0x8100259A,0x8200259B,0x000C6BBC,0x000C6BB9,0x000C6BB6,0x000C6BB3,0x86002528,0x87002574,0x000C6BB0],
    [0x000C6BAD,0x000C6BAA,0x000C6BA7,0x000C6BA4,0x000C6BA1,0x000C6B9E,0xE1002456,0x000C6B9B,0x000C6B98,0x000C6B95],
    [0x000C6B92,0x000C6B8F,0x000C6B8C,0x000C6B89,0x000C6B86,0x000C6B83,0xA800257C,0xA900257D,0xAA00257E,0xAB00257F],
    [0xAC002583,0xAD002584,0xAE002585,0xAF002586,0xB0002587,0xB1002588,0xB2002589,0xB300258A,0xB400258B,0xB500258C],
    [0xB600258D,0xB700258E,0xB800258F,0xB9002590,0xBA002591,0xBB002592,0xBC002593,0xBD002594,0xBE002597,0xBF002598],
    [0xA800259D,0xA90025A1,0xAA0025A2,0xAB0025A3,0xAC0025A4,0xAD0025A7,0xAE0025A8,0xAF0025A9,0xB00025AA,0xB10025AB],
    [0xB20025AC,0xB30025AD,0xB40025AF,0xB50025B0,0xB60025B1,0xB70025B2,0xB80025B3,0xB90025B4,0xBA0025B5,0xBB0025B6],
    [0xBC0025B7,0xBD0025E9,0xBE0025EA,0xBF0025EB,0xE1002498,0x000C6B80,0x000C6B7D,0x000C6B7A,0x000C6B77,0x000C6B74],
    [0x000C6B71,0x000C6B6E,0x000C6B6B,0x000C6B68,0x000C6B65,0x000C6B62,0x800025EC,0x810025ED,0x820025EE,0x000C6B5F],
    [0x000C6B5C,0x000C6B59,0x000C6B56,0x000C6B53,0x000C6B50,0x000C6B4D,0x000C6B4A,0x000C6B47,0x000C6B44,0x000C6B41],
    [0x000C6B3E,0x000C6B3B,0x000C6B38,0x000C6B35,0x86002560,0x870025A6,0xA80025F0,0xA90025F1,0xAA0025F2,0xAB0025F3],
    [0xAC0025F7,0xAD0025F8,0xAE0025F9,0xAF0025FA,0xB00025FB,0xB10025FC,0xB20025FD,0xB30025FE,0xB40025FF,0xB5002600],
    [0xB6002601,0xB7002602,0xB8002603,0xB9002604,0xBA002605,0xBB002620,0xBC002621,0xBD002622,0xBE002623,0xBF002624],
    [0x000C6B32,0x000C6B2F,0x000C6B2C,0x000C6B29,0x000C6B26,0xE10024BF,0x80002629,0x8100262A,0x8200262B,0x000C6B23],
    [0x000C6B20,0x000C6B1D,0x000C6B1A,0x000C6B17,0x000C6B14,0x000C6B11,0x000C6B0E,0x000C6B0B,0x000C6B08,0x000C6B05],
    [0x86002595,0x870025E0,0x000C6B02,0x000C6AFF,0x000C6AFC,0x000C6AF9,0x000C6AF6,0x000C6AF3,0x000C6AF0,0xA800262D],
    [0xA900262E,0xAA00262F,0xAB002630,0xAC002631,0xAD002632,0xAE002633,0xAF002636,0xB0002637,0xB1002638,0xB2002639],
    [0xB300263A,0xB400263B,0xB500263C,0xB6002655,0xB7002656,0xB8002657,0xB9002658,0xBA002659,0xBB00265A,0xBC00265B],
    [0xBD00265D,0xBE00265E,0xBF00265F,0x000C6AED,0x000C6AEA,0x000C6AE7,0x000C6AE4,0x000C6AE1,0x000C6ADE,0x000C6ADB],
    [0xE100250F,0x000C6AD8,0x000C6AD5,0x000C6AD2,0x80002663,0x81002664,0x82002665,0x000C6ACF,0x000C6ACC,0x000C6AC9],
    [0x850025DD,0x000C6AC6,0x860025F4,0x87002619,0x000C6AC3,0x000C6AC0,0x000C6ABD,0x000C6ABA,0x000C6AB7,0x000C6AB4],
    [0x000C6AB1,0x000C6AAE,0x000C6AAB,0x000C6AA8,0x000C6AA5,0x000C6AA2,0x000C6A9F,0xE10025E1,0x000C6A9C,0x000C6A99],
    [0x000C6A96,0x000C6A93,0x000C6A90,0xE100251F,0xA1002667,0xA20026B7,0xA30026D9,0xA400272B,0xA5002765,0xA600279C],
    [0xA70027C1,0xA8002813,0xA900284A,0xAA002884,0xAB0028BE,0xAC0028FB,0xAD002935,0xAE00296F,0xAF0029A6,0xB00029E0],
    [0xB1002A1A,0xB2002A54,0xB3002A8E,0xB4002ACB,0xB5002B05,0x000C6A8D,0x000C6A8A,0x000C6A87,0x000C6A84,0x000C6A81],
    [0x000C6A7E,0x800026B4,0x810026B5,0x820026B6,0xA800266A,0xA900266B,0xAA00266C,0xAB00266D,0xAC00266E,0xAD00266F],
    [0xAE002670,0xAF002671,0xB0002672,0xB1002673,0xB2002674,0xB3002675,0xB4002676,0xB5002678,0xB6002679,0xB700267A],
    [0xB800267B,0xB900267C,0xBA002693,0xBB002694,0xBC002695,0xBD002696,0xBE002697,0xBF002698,0x000C6A7B,0x000C6A78],
    [0x000C6A75,0x000C6A72,0x000C6A6F,0x000C6A6C,0x86002635,0x87002653,0x000C6A69,0x000C6A66,0x000C6A63,0x000C6A60],
    [0x000C6A5D,0x000C6A5A,0x000C6A57,0x000C6A54,0x000C6A51,0x000C6A4E,0x000C6A4B,0x000C6A48,0x000C6A45,0x000C6A42],
    [0x000C6A3F,0x000C6A3C,0x000C6A39,0x000C6A36,0x000C6A33,0x000C6A30,0xE1002580,0x000C6A2D,0x000C6A2A,0x800026D6],
    [0x810026D7,0x820026D8,0x000C6A27,0x000C6A24,0x000C6A21,0x000C6A1E,0x8600264D,0x870026A5,0x000C6A1B,0xA80026B8],
    [0xA90026B9,0xAA0026BC,0xAB0026BD,0xAC0026BE,0xAD0026BF,0xAE0026C0,0xAF0026C1,0xB00026C2,0xB10026C3,0xB20026C4],
    [0xB30026C5,0xB40026C6,0xB50026C7,0xB60026C8,0xB70026C9,0xB80026CA,0xB90026CB,0xBA0026CC,0xBB0026CD,0xBC0026CE],
    [0xBD0026CF,0xBE0026D1,0xBF0026D2,0xA80026DC,0xA900270E,0xAA00270F,0xAB002710,0xAC002711,0xAD002712,0xAE002713],
    [0xAF002714,0xB0002715,0xB1002716,0xB2002717,0xB3002718,0xB4002719,0xB500271A,0xB600271B,0xB700271C,0xB800271D],
    [0xB900271E,0xBA00271F,0xBB002720,0xBC002721,0xBD002722,0xBE002723,0xBF002724,0xE10025AE,0x000C6A18,0x000C6A15],
    [0x000C6A12,0x000C6A0F,0x000C6A0C,0x000C6A09,0x000C6A06,0x000C6A03,0x000C6A00,0x000C69FD,0x000C69FA,0x000C69F7],
    [0x000C69F4,0x000C69F1,0x000C69EE,0x000C69EB,0x000C69E8,0x000C69E5,0x000C69E2,0x000C69DF,0x000C69DC,0x000C69D9],
    [0x000C69D6,0x80002728,0x81002729,0x8200272A,0x000C69D3,0x000C69D0,0x000C69CD,0x000C69CA,0x86002686,0x870026DF],
    [0xA8002746,0xA9002747,0xAA002749,0xAB00274A,0xAC00274B,0xAD00274C,0xAE00274D,0xAF00274E,0xB000274F,0xB1002750],
    [0xB2002751,0xB3002752,0xB4002753,0xB5002754,0xB6002755,0xB7002756,0xB8002757,0xB9002758,0xBA002759,0xBB00275A],
    [0xBC00275B,0xBD00275C,0xBE00275D,0xBF00275E,0x000C69C7,0x000C69C4,0xE10025E2,0x000C69C1,0x000C69BE,0x000C69BB],
    [0x000C69B8,0x000C69B5,0x000C69B2,0x000C69AF,0x000C69AC,0x000C69A9,0x000C69A6,0x000C69A3,0x000C69A0,0x000C699D],
    [0x000C699A,0x000C6997,0x000C6994,0x000C6991,0x000C698E,0x000C698B,0x000C6988,0x000C6985,0x000C6982,0x80002762]]"

end
