(* ===== verification/Table_Nodes_2.thy ===== *)
theory Table_Nodes_2
  imports Main
begin

text \<open>
  Lines 1021 to 2028 of \<open>unf/table.hh\<close>: part of the array \<open>NODES\<close>, one list per line of the source.
\<close>

definition NODES_07 :: "nat list list" where
  "NODES_07 = [
    [0x81002763,0x82002764,0x000C697F,0x000C697C,0x000C6979,0x000C6976,0x860026D0,0x87002725,0x000C6973,0x000C6970],
    [0x000C696D,0x000C696A,0x000C6967,0x000C6964,0x000C6961,0x000C695E,0x000C695B,0x000C6958,0x000C6955,0x000C6952],
    [0x000C694F,0x000C694C,0x000C6949,0x000C6946,0xA8002768,0xA9002769,0xAA00276A,0xAB00276B,0xAC00276C,0xAD00276D],
    [0xAE00276E,0xAF00276F,0xB0002770,0xB1002771,0xB2002772,0xB3002773,0xB4002774,0xB5002775,0xB6002776,0xB7002777],
    [0xB8002790,0xB9002791,0xBA002792,0xBB002793,0xBC002794,0xBD002795,0xBE002796,0xBF002797,0x000C6943,0x000C6940],
    [0x000C693D,0x000C693A,0x000C6937,0x000C6934,0x000C6931,0x000C692E,0xE1002634,0x000C692B,0x000C6928,0x000C6925],
    [0x000C6922,0x000C691F,0x000C691C,0x000C6919,0x000C6916,0x000C6913,0x000C6910,0x000C690D,0x000C690A,0x80002799],
    [0x8100279A,0x8200279B,0x000C6907,0x000C6904,0x000C6901,0x000C68FE,0x86002727,0x8700273B,0x000C68FB,0x000C68F8],
    [0x000C68F5,0x000C68F2,0x000C68EF,0x000C68EC,0x000C68E9,0x000C68E6,0x000C68E3,0x000C68E0,0x000C68DD,0x000C68DA],
    [0xE1002654,0x800027BE,0x810027BF,0x820027C0,0x000C68D7,0x000C68D4,0x000C68D1,0x000C68CE,0x8600273F,0x8700278D],
    [0x000C68CB,0x000C68C8,0x000C68C5,0x000C68C2,0x000C68BF,0x000C68BC,0x000C68B9,0x000C68B6,0x000C68B3,0x000C68B0],
    [0x000C68AD,0xA800279D,0xA900279E,0xAA00279F,0xAB0027A0,0xAC0027A1,0xAD0027A2,0xAE0027A3,0xAF0027A4,0xB00027A8],
    [0xB10027A9,0xB20027AA,0xB30027AB,0xB40027AE,0xB50027AF,0xB60027B0,0xB70027B1,0xB80027B2,0xB90027B3,0xBA0027B4],
    [0xBB0027B5,0xBC0027B6,0xBD0027B7,0xBE0027B8,0xBF0027B9,0xA80027C4,0xA90027C5,0xAA0027C6,0xAB0027C7,0xAC0027C8],
    [0xAD0027C9,0xAE0027CA,0xAF0027CB,0xB00027CC,0xB10027CD,0xB20027CE,0xB30027FF,0xB4002800,0xB5002801,0xB6002802],
    [0xB7002803,0xB8002804,0xB9002805,0xBA002806,0xBB002807,0xBC002808,0xBD002809,0xBE00280A,0xBF00280B,0x000C68AA],
    [0x000C68A7,0x000C68A4,0x000C68A1,0x000C689E,0x000C689B,0x000C6898,0x000C6895,0x000C6892,0x000C688F,0x000C688C],
    [0x000C6889,0x000C6886,0xE10026A6,0x80002810,0x81002811,0x82002812,0x000C6883,0x000C6880,0x000C687D,0x000C687A],
    [0x86002778,0x870027CF,0x000C6877,0x000C6874,0x000C6871,0x000C686E,0x000C686B,0x000C6868,0x000C6865,0x000C6862],
    [0x000C685F,0x000C685C,0xA8002816,0xA9002817,0xAA002818,0xAB002819,0xAC00281A,0xAD00281B,0xAE00281C,0xAF00281D],
    [0xB000281E,0xB100281F,0xB2002838,0xB3002839,0xB400283A,0xB500283B,0xB600283C,0xB700283D,0xB800283E,0xB900283F],
    [0xBA002840,0xBB002841,0xBC002842,0xBD002843,0xBE002844,0xBF002845,0x000C6859,0x000C6856,0x000C6853,0x000C6850],
    [0x000C684D,0x000C684A,0x000C6847,0x000C6844,0x000C6841,0x000C683E,0x000C683B,0x000C6838,0x000C6835,0x000C6832],
    [0xE10026E0,0x000C682F,0x000C682C,0x000C6829,0x000C6826,0x000C6823,0x000C6820,0x000C681D,0x000C681A,0x80002847],
    [0x81002848,0x82002849,0x000C6817,0x000C6814,0x000C6811,0x000C680E,0x860027BA,0x8700280C,0x000C680B,0x000C6808],
    [0x000C6805,0x000C6802,0x000C67FF,0x000C67FC,0x000C67F9,0x000C67F6,0x000C67F3,0x000C67F0,0xA800284B,0xA900284C],
    [0xAA00284D,0xAB00284E,0xAC002852,0xAD002853,0xAE002854,0xAF002855,0xB0002858,0xB1002859,0xB200285A,0xB300285B],
    [0xB400285C,0xB500285D,0xB600285E,0xB700285F,0xB8002860,0xB9002861,0xBA00287A,0xBB00287B,0xBC00287C,0xBD00287E],
    [0xBE00287F,0xBF002880,0x000C67ED,0x000C67EA,0x000C67E7,0xE1002726,0x000C67E4,0x000C67E1,0x000C67DE,0x000C67DB],
    [0x000C67D8,0x000C67D5,0x000C67D2,0x000C67CF,0x000C67CC,0x000C67C9,0x000C67C6,0x000C67C3,0x000C67C0,0x000C67BD],
    [0x80002881,0x81002882,0x82002883,0x000C67BA,0x000C67B7,0x000C67B4,0x000C67B1,0x860027FB,0x87002846,0x000C67AE],
    [0x000C67AB,0x000C67A8,0x000C67A5,0x000C67A2,0x000C679F,0x000C679C,0x000C6799,0x000C6796,0x000C6793,0x000C6790],
    [0x000C678D,0x000C678A,0xE100273C,0xA8002885,0xA9002886,0xAA002887,0xAB002888,0xAC002889,0xAD00288A,0xAE00288B],
    [0xAF00288F,0xB0002890,0xB1002891,0xB2002892,0xB3002895,0xB4002896,0xB5002897,0xB6002898,0xB7002899,0xB800289A],
    [0xB900289B,0xBA00289C,0xBB00289D,0xBC00289E,0xBD00289F,0xBE0028A0,0xBF0028A1,0x000C6787,0x000C6784,0x000C6781],
    [0x000C677E,0x000C677B,0x000C6778,0x000C6775,0x000C6772,0x000C676F,0x000C676C,0x000C6769,0x800028BB,0x810028BC],
    [0x820028BD,0x000C6766,0x000C6763,0x000C6760,0x000C675D,0x000C675A,0x000C6757,0x000C6754,0x000C6751,0x000C674E],
    [0x000C674B,0x000C6748,0x000C6745,0x8600282F,0x87002875,0xA80028BF,0xA90028C0,0xAA0028C1,0xAB0028C2,0xAC0028C3],
    [0xAD0028C4,0xAE0028C5,0xAF0028C9,0xB00028CA,0xB10028CB,0xB20028CC,0xB30028CD,0xB40028CE,0xB50028CF,0xB60028D0],
    [0xB70028D1,0xB80028D2,0xB90028D3,0xBA0028D4,0xBB0028EF,0xBC0028F0,0xBD0028F1,0xBE0028F2,0xBF0028F3,0x000C6742],
    [0x000C673F,0x000C673C,0x000C6739,0x000C6736,0xE100278E,0x800028F8,0x810028F9,0x820028FA,0x000C6733,0x000C6730],
    [0x000C672D,0x000C672A,0x86002856,0x870028AF,0xA8002916,0xA9002917,0xAA002918,0xAB002919,0xAC00291A,0xAD00291B],
    [0xAE00291C,0xAF00291D,0xB000291E,0xB100291F,0xB2002920,0xB3002921,0xB4002922,0xB5002923,0xB6002924,0xB7002925],
    [0xB8002926,0xB9002927,0xBA002928,0xBB002929,0xBC00292A,0xBD00292C,0xBE00292D,0xBF00292E,0x000C6727,0x000C6724],
    [0x000C6721,0x000C671E,0x000C671B,0x000C6718,0x000C6715,0x000C6712,0x000C670F,0x000C670C,0x000C6709,0x000C6706],
    [0x000C6703,0x000C6700,0x000C66FD,0x000C66FA,0x000C66F7,0x000C66F4,0x000C66F1,0x000C66EE,0x000C66EB,0xE10027D0],
    [0x000C66E8,0x000C66E5,0x000C66E2,0x80002932,0x81002933,0x82002934,0x000C66DF,0x000C66DC,0x000C66D9,0x000C66D6],
    [0x86002893,0x870028E9,0x000C66D3,0x000C66D0,0x000C66CD,0xA8002938,0xA9002939,0xAA00293A,0xAB002953,0xAC002954],
    [0xAD002955,0xAE002956,0xAF002957,0xB0002958,0xB1002959,0xB200295A,0xB300295B,0xB400295C,0xB500295D,0xB600295E],
    [0xB700295F,0xB8002960,0xB9002961,0xBA002962,0xBB002963,0xBC002964,0xBD002966,0xBE002967,0xBF002968,0x000C66CA],
    [0x000C66C7,0x000C66C4,0x000C66C1,0x000C66BE,0x000C66BB,0x000C66B8,0x000C66B5,0x000C66B2,0x000C66AF,0x000C66AC],
    [0x000C66A9,0x000C66A6,0x000C66A3,0x000C66A0,0x000C669D,0x000C669A,0x000C6697,0xE100280D,0x000C6694,0x000C6691],
    [0x000C668E,0x8000296C,0x8100296D,0x8200296E,0x000C668B,0x000C6688,0x000C6685,0x000C6682,0x860028D5,0x8700292B],
    [0x000C667F,0x000C667C,0x000C6679,0x000C6676,0x000C6673,0x000C6670,0x000C666D,0x000C666A,0x000C6667,0x000C6664],
    [0x000C6661,0xA8002972,0xA9002973,0xAA002974,0xAB002975,0xAC002976,0xAD002977,0xAE002978,0xAF002979,0xB000297A],
    [0xB100297B,0xB200297C,0xB3002995,0xB4002996,0xB5002997,0xB6002998,0xB7002999,0xB800299A,0xB900299B,0xBA00299C],
    [0xBB00299D,0xBC00299E,0xBD0029A0,0xBE0029A1,0xBF0029A2,0x000C665E,0x000C665B,0x000C6658,0x000C6655,0x000C6652],
    [0x000C664F,0x000C664C,0x000C6649,0x000C6646,0x000C6643,0xE100284F,0x000C6640,0x000C663D,0x000C663A,0x000C6637],
    [0x000C6634,0x000C6631,0x000C662E,0x000C662B,0x000C6628,0x000C6625,0x000C6622,0x800029A3,0x810029A4,0x820029A5],
    [0x000C661F,0x000C661C,0x000C6619,0x000C6616,0x000C6613,0x000C6610,0x000C660D,0x8600290F,0x87002965,0xA80029A7],
    [0xA90029A8,0xAA0029A9,0xAB0029AA,0xAC0029AE,0xAD0029AF,0xAE0029B0,0xAF0029B1,0xB00029B2,0xB10029B3,0xB20029B4],
    [0xB30029CF,0xB40029D0,0xB50029D1,0xB60029D2,0xB70029D3,0xB80029D4,0xB90029D5,0xBA0029D6,0xBB0029D7,0xBC0029D8],
    [0xBD0029D9,0xBE0029DA,0xBF0029DB,0x000C660A,0x000C6607,0x000C6604,0x000C6601,0x000C65FE,0x000C65FB,0x000C65F8],
    [0x000C65F5,0x000C65F2,0x000C65EF,0x000C65EC,0x000C65E9,0x000C65E6,0xE1002876,0x000C65E3,0x000C65E0,0x000C65DD],
    [0x000C65DA,0x000C65D7,0x000C65D4,0x000C65D1,0x000C65CE,0x800029DD,0x810029DE,0x820029DF,0x000C65CB,0x000C65C8],
    [0x000C65C5,0x000C65C2,0x000C65BF,0x000C65BC,0x000C65B9,0x86002949,0x8700299F,0xA80029E1,0xA90029E2,0xAA0029E3],
    [0xAB0029E4,0xAC0029E8,0xAD0029E9,0xAE0029EA,0xAF0029EB,0xB00029EC,0xB10029ED,0xB20029EE,0xB3002A09,0xB4002A0A],
    [0xB5002A0B,0xB6002A0C,0xB7002A0D,0xB8002A0E,0xB9002A0F,0xBA002A10,0xBB002A11,0xBC002A12,0xBD002A13,0xBE002A14],
    [0xBF002A15,0x000C65B6,0x000C65B3,0x000C65B0,0x000C65AD,0x000C65AA,0x000C65A7,0x000C65A4,0x000C65A1,0x000C659E],
    [0x000C659B,0x000C6598,0x000C6595,0x000C6592,0xE10028B0,0x000C658F,0x000C658C,0x000C6589,0x000C6586,0x000C6583],
    [0x000C6580,0x000C657D,0x000C657A,0x80002A17,0x81002A18,0x82002A19,0x000C6577,0x000C6574,0x000C6571,0x000C656E],
    [0x000C656B,0x000C6568,0x000C6565,0x000C6562,0x000C655F,0x000C655C,0x000C6559,0x000C6556,0x000C6553,0x000C6550],
    [0x000C654D,0x8600298B,0x870029DC,0xA8002A1B,0xA9002A1C,0xAA002A1D,0xAB002A1E,0xAC002A22,0xAD002A23,0xAE002A24],
    [0xAF002A25,0xB0002A26,0xB1002A27,0xB2002A28,0xB3002A29,0xB4002A2A,0xB5002A2B,0xB6002A2C,0xB7002A2D,0xB8002A2E],
    [0xB9002A2F,0xBA002A30,0xBB002A4B,0xBC002A4C,0xBD002A4D,0xBE002A4E,0xBF002A4F,0x000C654A,0x000C6547,0x000C6544],
    [0x000C6541,0x000C653E,0xE10028EA,0x000C653B,0x000C6538,0x000C6535,0x000C6532,0x000C652F,0x000C652C,0x000C6529],
    [0x000C6526,0x000C6523,0x000C6520,0x000C651D,0x80002A51,0x81002A52,0x82002A53,0x000C651A,0x000C6517,0x000C6514],
    [0x000C6511,0x000C650E,0x000C650B,0x000C6508,0x000C6505,0x000C6502,0x000C64FF,0x000C64FC,0x000C64F9,0x860029C5],
    [0x87002A16,0xA8002A55,0xA9002A56,0xAA002A57,0xAB002A58,0xAC002A59,0xAD002A5A,0xAE002A5B,0xAF002A5F,0xB0002A60],
    [0xB1002A61,0xB2002A62,0xB3002A63,0xB4002A64,0xB5002A65,0xB6002A66,0xB7002A67,0xB8002A68,0xB9002A69,0xBA002A6A],
    [0xBB002A85,0xBC002A86,0xBD002A88,0xBE002A89,0xBF002A8A,0x000C64F6,0x000C64F3,0xE100292F,0x000C64F0,0x000C64ED],
    [0x000C64EA,0x000C64E7,0x000C64E4,0x000C64E1,0x000C64DE,0x000C64DB,0x000C64D8,0x000C64D5,0x000C64D2,0x000C64CF],
    [0x000C64CC,0x000C64C9,0x80002A8B,0x81002A8C,0x82002A8D,0x000C64C6,0x000C64C3,0x000C64C0,0x000C64BD,0x000C64BA],
    [0x000C64B7,0x000C64B4,0x000C64B1,0x000C64AE,0x000C64AB,0x000C64A8,0x000C64A5,0x860029FF,0x87002A45,0xA8002A8F],
    [0xA9002A90,0xAA002A91,0xAB002A92,0xAC002A93,0xAD002A94,0xAE002A95,0xAF002A99,0xB0002A9A,0xB1002A9B,0xB2002A9C],
    [0xB3002A9D,0xB4002A9E,0xB5002A9F,0xB6002AA0,0xB7002AA1,0xB8002AA2,0xB9002AA3,0xBA002AA4,0xBB002ABF,0xBC002AC0],
    [0xBD002AC2,0xBE002AC3,0xBF002AC4,0x000C64A2,0x000C649F,0xE1002969,0x000C649C,0x000C6499,0x000C6496,0x80002AC8],
    [0x81002AC9,0x82002ACA,0x000C6493,0x000C6490,0x000C648D,0x000C648A,0x86002A31,0x87002A7F,0x000C6487,0x000C6484],
    [0x000C6481,0x000C647E,0x000C647B,0x000C6478,0x000C6475,0x000C6472,0x000C646F,0x000C646C,0x000C6469,0xA8002ACE],
    [0xA9002ACF,0xAA002AD0,0xAB002AD1,0xAC002AD2,0xAD002AD3,0xAE002AD4,0xAF002AD5,0xB0002AD6,0xB1002AD7,0xB2002AD8],
    [0xB3002AF1,0xB4002AF2,0xB5002AF3,0xB6002AF4,0xB7002AF5,0xB8002AF6,0xB9002AF7,0xBA002AF8,0xBB002AF9,0xBC002AFA],
    [0xBD002AFC,0xBE002AFD,0xBF002AFE,0x000C6466,0x000C6463,0x000C6460,0x000C645D,0x000C645A,0x000C6457,0x000C6454],
    [0x000C6451,0x000C644E,0x000C644B,0xE10029AB,0x000C6448,0x000C6445,0x000C6442,0x80002B02,0x81002B03,0x82002B04],
    [0x000C643F,0x000C643C,0x000C6439,0x000C6436,0x86002A6B,0x87002AB9,0x000C6433,0x000C6430,0x000C642D,0x000C642A],
    [0x000C6427,0x000C6424,0x000C6421,0x000C641E,0x000C641B,0x000C6418,0x000C6415,0xA8002B08,0xA9002B09,0xAA002B0A],
    [0xAB002B0B,0xAC002B0C,0xAD002B0D,0xAE002B0E,0xAF002B0F,0xB0002B10,0xB1002B11,0xB2002B12,0xB3002B2B,0xB4002B2C],
    [0xB5002B2D,0xB6002B2E,0xB7002B2F,0xB8002B30,0xB9002B31,0xBA002B32,0xBB002B33,0xBC002B34,0xBD002B36,0xBE002B37],
    [0xBF002B38,0x000C6412,0x000C640F,0x000C640C,0x000C6409,0x000C6406,0x000C6403,0x000C6400,0x000C63FD,0x000C63FA],
    [0x000C63F7,0xE10029E5,0x000C63F4,0x000C63F1,0x000C63EE,0x80002B3C,0x81002B3D,0x82002B3E,0x000C63EB,0x000C63E8],
    [0x000C63E5,0xE1002ABB,0x85002AA5,0x000C63E2,0x86002ACC,0x87002B13,0x000C63DF,0x000C63DC,0xA1002B41,0xA2002B8D],
    [0xA3002BCA,0xA4002C04,0xA5002C3E,0xA6002C78,0xA7002CB2,0xA8002CE9,0xA9002D26,0xAA002D60,0xAB002D97,0xAC002DD1],
    [0xAD002E0E,0xAE002E45,0xAF002E7F,0xB0002EB9,0xB1002EF6,0xB2002F2D,0xB3002F4E,0xB4002FA1,0xB5002FDE,0x000C63D9],
    [0x000C63D6,0x000C63D3,0x000C63D0,0x000C63CD,0x000C63CA,0x000C63C7,0x000C63C4,0x000C63C1,0x000C63BE,0x000C63BB],
    [0x000C63B8,0x000C63B5,0x000C63B2,0x000C63AF,0x000C63AC,0x000C63A9,0x000C63A6,0x000C63A3,0x000C63A0,0xE1002A1F],
    [0x000C639D,0x000C639A,0x000C6397,0x000C6394,0xA8002B44,0xA9002B45,0xAA002B5B,0xAB002B5C,0xAC002B5D,0xAD002B5E],
    [0xAE002B5F,0xAF002B60,0xB0002B61,0xB1002B62,0xB2002B63,0xB3002B64,0xB4002B65,0xB5002B66,0xB6002B67,0xB7002B68],
    [0xB8002B69,0xB9002B6A,0xBA002B6B,0xBB002B6C,0xBC002B6D,0xBD002B6E,0xBE002B70,0xBF002B71,0x000C6391,0x000C638E],
    [0x000C638B,0x000C6388,0x000C6385,0x000C6382,0x000C637F,0x80002B72,0x81002B73,0x82002B8C,0x000C637C,0x000C6379],
    [0x000C6376,0x000C6373,0x86002B06,0x87002B46,0x000C6370,0x000C636D,0x000C636A,0x000C6367,0x000C6364,0x000C6361],
    [0x000C635E,0x000C635B,0x000C6358,0x000C6355,0x000C6352,0x000C634F,0x000C634C,0x000C6349,0x000C6346,0x000C6343],
    [0xE1002A46,0x000C6340,0xA8002B8E,0xA9002B8F,0xAA002B90,0xAB002B91,0xAC002B92,0xAD002B96,0xAE002B97,0xAF002B98],
    [0xB0002B99,0xB1002B9C,0xB2002B9D,0xB3002B9E,0xB4002B9F,0xB5002BA0,0xB6002BA1,0xB7002BA2,0xB8002BA3,0xB9002BA4],
    [0xBA002BA5,0xBB002BA6,0xBC002BA7,0xBD002BA8,0xBE002BA9,0xBF002BAA,0x80002BAB,0x81002BAD,0x82002BC9,0x000C633D],
    [0x000C633A,0x000C6337,0x000C6334,0x86002B3F,0x87002B7F,0x000C6331,0x000C632E,0x000C632B,0x000C6328,0x000C6325],
    [0x000C6322,0x000C631F,0x000C631C,0x000C6319,0x000C6316,0x000C6313,0x000C6310,0x000C630D,0x000C630A,0x000C6307],
    [0x000C6304,0x000C6301,0x000C62FE,0x000C62FB,0x000C62F8,0x000C62F5,0x000C62F2,0x000C62EF,0xE1002A80,0xA8002BCB],
    [0xA9002BCC,0xAA002BCF,0xAB002BD0,0xAC002BD1,0xAD002BD2,0xAE002BD3,0xAF002BD4,0xB0002BD5,0xB1002BD6,0xB2002BD7],
    [0xB3002BD8,0xB4002BD9,0xB5002BDA,0xB6002BDB,0xB7002BDC,0xB8002BDD,0xB9002BDE,0xBA002BDF,0xBB002BE0,0xBC002BE1],
    [0xBD002BE2,0xBE002BE3,0xBF002BE4,0x80002BE5,0x81002C02,0x82002C03,0x000C62EC,0x000C62E9,0x000C62E6,0x000C62E3],
    [0x86002B7B,0x87002BBB,0x000C62E0,0x000C62DD,0x000C62DA,0x000C62D7,0x000C62D4,0x000C62D1,0x000C62CE,0x000C62CB],
    [0x000C62C8,0x000C62C5,0x000C62C2,0x000C62BF,0x000C62BC,0x000C62B9,0x000C62B6,0x000C62B3,0x000C62B0,0x000C62AD],
    [0x000C62AA,0x000C62A7,0x000C62A4,0x000C62A1,0x000C629E,0x000C629B,0x000C6298,0x000C6295,0xE1002ABC,0xA8002C05],
    [0xA9002C08,0xAA002C09,0xAB002C0A,0xAC002C0B,0xAD002C0C,0xAE002C0D,0xAF002C0E,0xB0002C0F,0xB1002C10,0xB2002C11],
    [0xB3002C12,0xB4002C13,0xB5002C14,0xB6002C15,0xB7002C16,0xB8002C17,0xB9002C18,0xBA002C19,0xBB002C1A,0xBC002C1B],
    [0xBD002C1C,0xBE002C1D,0xBF002C1E,0x80002C1F,0x81002C20,0x82002C21,0x000C6292,0x86002B9A,0x87002BF2,0x000C628F],
    [0xA8002C41,0xA9002C5A,0xAA002C5B,0xAB002C5C,0xAC002C5D,0xAD002C5E,0xAE002C5F,0xAF002C60,0xB0002C61,0xB1002C62],
    [0xB2002C63,0xB3002C64,0xB4002C65,0xB5002C66,0xB6002C67,0xB7002C68,0xB8002C69,0xB9002C6A,0xBA002C6B,0xBB002C6C],
    [0xBC002C6D,0xBD002C6F,0xBE002C70,0xBF002C71,0x000C628C,0x000C6289,0x000C6286,0x000C6283,0x000C6280,0x000C627D],
    [0x000C627A,0x000C6277,0x000C6274,0x000C6271,0x000C626E,0x000C626B,0x000C6268,0x000C6265,0x000C6262,0x000C625F],
    [0x000C625C,0x000C6259,0x000C6256,0x000C6253,0xE1002B14,0x000C6250,0x000C624D,0x000C624A,0x80002C75,0x81002C76],
    [0x82002C77,0x000C6247,0x000C6244,0x000C6241,0x000C623E,0x86002BE6,0x87002C2C,0x000C623B,0x000C6238,0x000C6235],
    [0x000C6232,0x000C622F,0x000C622C,0x000C6229,0x000C6226,0x000C6223,0x000C6220,0x000C621D,0x000C621A,0x000C6217],
    [0x000C6214,0x000C6211,0x000C620E,0x000C620B,0x000C6208,0x000C6205,0xA8002C7B,0xA9002C7C,0xAA002C7D,0xAB002C7E],
    [0xAC002C7F,0xAD002C80,0xAE002C81,0xAF002C82,0xB0002C83,0xB1002C84,0xB2002C85,0xB3002C86,0xB4002C87,0xB5002C88],
    [0xB6002C89,0xB7002C8A,0xB8002C8B,0xB9002C8C,0xBA002C8D,0xBB002CA6,0xBC002CA7,0xBD002CA8,0xBE002CA9,0xBF002CAA],
    [0x000C6202,0x000C61FF,0x000C61FC,0x000C61F9,0x000C61F6,0xE1002B47,0x80002CAF,0x81002CB0,0x82002CB1,0x000C61F3],
    [0x000C61F0,0x000C61ED,0x000C61EA,0x86002C22,0x87002C6E,0x000C61E7,0x000C61E4,0x000C61E1,0x000C61DE,0x000C61DB],
    [0x000C61D8,0x000C61D5,0x000C61D2,0x000C61CF,0x000C61CC,0x000C61C9,0x000C61C6,0x000C61C3,0x000C61C0,0x000C61BD],
    [0x000C61BA,0x000C61B7,0x000C61B4,0x000C61B1,0x000C61AE,0x000C61AB,0xA8002CB5,0xA9002CB6,0xAA002CB7,0xAB002CB8],
    [0xAC002CB9,0xAD002CBA,0xAE002CBB,0xAF002CBC,0xB0002CBD,0xB1002CBE,0xB2002CBF,0xB3002CC0,0xB4002CC1,0xB5002CC2],
    [0xB6002CC3,0xB7002CC4,0xB8002CC5,0xB9002CC6,0xBA002CC7,0xBB002CC8,0xBC002CC9,0xBD002CE2,0xBE002CE3,0xBF002CE4],
    [0x000C61A8,0x000C61A5,0x000C61A2,0xE1002B80,0x000C619F,0x000C619C,0x000C6199,0x000C6196,0x000C6193,0x000C6190],
    [0x000C618D,0x000C618A,0x80002CE6,0x81002CE7,0x82002CE8,0x000C6187,0x000C6184,0x000C6181,0x000C617E,0x000C617B],
    [0x000C6178,0x000C6175,0x86002C52,0x87002CA0,0xA8002CEA,0xA9002CEB,0xAA002CEC,0xAB002CED,0xAC002CF1,0xAD002CF2]]"

definition NODES_08 :: "nat list list" where
  "NODES_08 = [
    [0xAE002CF3,0xAF002CF4,0xB0002CF5,0xB1002CF6,0xB2002CF7,0xB3002D12,0xB4002D13,0xB5002D14,0xB6002D15,0xB7002D16],
    [0xB8002D17,0xB9002D18,0xBA002D19,0xBB002D1A,0xBC002D1B,0xBD002D1C,0xBE002D1D,0xBF002D1E,0x000C6172,0x000C616F],
    [0x000C616C,0x000C6169,0x000C6166,0x000C6163,0x000C6160,0x000C615D,0x000C615A,0x000C6157,0x000C6154,0x000C6151],
    [0x000C614E,0xE1002BB9,0x80002D23,0x81002D24,0x82002D25,0x000C614B,0x000C6148,0x000C6145,0x000C6142,0x86002C8E],
    [0x87002CDA,0x000C613F,0x000C613C,0x000C6139,0x000C6136,0x000C6133,0x000C6130,0x000C612D,0x000C612A,0x000C6127],
    [0x000C6124,0x000C6121,0x000C611E,0x000C611B,0xA8002D29,0xA9002D2A,0xAA002D2B,0xAB002D2C,0xAC002D2D,0xAD002D2E],
    [0xAE002D2F,0xAF002D30,0xB0002D31,0xB1002D32,0xB2002D33,0xB3002D34,0xB4002D35,0xB5002D4E,0xB6002D4F,0xB7002D50],
    [0xB8002D51,0xB9002D52,0xBA002D53,0xBB002D54,0xBC002D55,0xBD002D56,0xBE002D57,0xBF002D58,0x000C6118,0x000C6115],
    [0x000C6112,0x000C610F,0x000C610C,0x000C6109,0x000C6106,0x000C6103,0x000C6100,0x000C60FD,0x000C60FA,0xE1002BF3],
    [0x80002D5D,0x81002D5E,0x82002D5F,0x000C60F7,0x000C60F4,0x000C60F1,0x000C60EE,0x86002CCA,0x87002D1F,0x000C60EB],
    [0x000C60E8,0x000C60E5,0x000C60E2,0x000C60DF,0x000C60DC,0x000C60D9,0x000C60D6,0x000C60D3,0x000C60D0,0x000C60CD],
    [0x000C60CA,0x000C60C7,0x000C60C4,0x000C60C1,0xA8002D63,0xA9002D64,0xAA002D65,0xAB002D66,0xAC002D67,0xAD002D68],
    [0xAE002D69,0xAF002D6A,0xB0002D6B,0xB1002D6C,0xB2002D6D,0xB3002D6E,0xB4002D6F,0xB5002D70,0xB6002D71,0xB7002D8A],
    [0xB8002D8B,0xB9002D8C,0xBA002D8D,0xBB002D8E,0xBC002D8F,0xBD002D90,0xBE002D91,0xBF002D92,0x000C60BE,0x000C60BB],
    [0x000C60B8,0x000C60B5,0x000C60B2,0x000C60AF,0x000C60AC,0x000C60A9,0x000C60A6,0xE1002C2D,0x000C60A3,0x000C60A0],
    [0x000C609D,0x000C609A,0x000C6097,0x000C6094,0x000C6091,0x000C608E,0x000C608B,0x000C6088,0x000C6085,0x80002D94],
    [0x81002D95,0x82002D96,0x000C6082,0x000C607F,0x000C607C,0x000C6079,0x86002D00,0x87002D59,0xA8002D98,0xA9002D99],
    [0xAA002D9A,0xAB002D9B,0xAC002D9C,0xAD002D9D,0xAE002D9E,0xAF002DA2,0xB0002DA3,0xB1002DA4,0xB2002DA5,0xB3002DC0],
    [0xB4002DC1,0xB5002DC2,0xB6002DC3,0xB7002DC4,0xB8002DC5,0xB9002DC6,0xBA002DC7,0xBB002DC8,0xBC002DC9,0xBD002DCB],
    [0xBE002DCC,0xBF002DCD,0x000C6076,0x000C6073,0x000C6070,0x000C606D,0x000C606A,0x000C6067,0x000C6064,0x000C6061],
    [0x000C605E,0x000C605B,0xE1002C72,0x000C6058,0x000C6055,0x000C6052,0x000C604F,0x000C604C,0x000C6049,0x000C6046],
    [0x86002D36,0x87002D88,0x000C6043,0x000C6040,0x000C603D,0x000C603A,0x000C6037,0x80002DCE,0x81002DCF,0x82002DD0],
    [0x000C6034,0x000C6031,0xA8002DD4,0xA9002DD5,0xAA002DD6,0xAB002DD7,0xAC002DD8,0xAD002DDC,0xAE002DDD,0xAF002DF6],
    [0xB0002DF7,0xB1002DF8,0xB2002DF9,0xB3002DFA,0xB4002DFB,0xB5002DFC,0xB6002DFD,0xB7002DFE,0xB8002DFF,0xB9002E00],
    [0xBA002E01,0xBB002E02,0xBC002E03,0xBD002E04,0xBE002E05,0xBF002E06,0x000C602E,0x000C602B,0x000C6028,0x000C6025],
    [0x000C6022,0x000C601F,0x000C601C,0x000C6019,0x000C6016,0x000C6013,0x000C6010,0x000C600D,0x000C600A,0x000C6007],
    [0x000C6004,0x000C6001,0x000C5FFE,0xE1002CA1,0x80002E0B,0x81002E0C,0x82002E0D,0x000C5FFB,0x000C5FF8,0x000C5FF5],
    [0x000C5FF2,0x86002D72,0x87002DCA,0x000C5FEF,0x000C5FEC,0x000C5FE9,0x000C5FE6,0x000C5FE3,0x000C5FE0,0x000C5FDD],
    [0x000C5FDA,0x000C5FD7,0xA8002E11,0xA9002E12,0xAA002E13,0xAB002E14,0xAC002E15,0xAD002E16,0xAE002E17,0xAF002E18],
    [0xB0002E19,0xB1002E32,0xB2002E33,0xB3002E34,0xB4002E35,0xB5002E36,0xB6002E37,0xB7002E38,0xB8002E39,0xB9002E3A],
    [0xBA002E3B,0xBB002E3C,0xBC002E3D,0xBD002E3E,0xBE002E3F,0xBF002E40,0x000C5FD4,0x000C5FD1,0x000C5FCE,0x000C5FCB],
    [0x000C5FC8,0x000C5FC5,0x000C5FC2,0x000C5FBF,0x000C5FBC,0x000C5FB9,0x000C5FB6,0x000C5FB3,0x000C5FB0,0x000C5FAD],
    [0x000C5FAA,0xE1002CDB,0x000C5FA7,0x000C5FA4,0x000C5FA1,0x000C5F9E,0x000C5F9B,0x000C5F98,0x000C5F95,0x000C5F92],
    [0x80002E42,0x81002E43,0x82002E44,0x000C5F8F,0x000C5F8C,0x000C5F89,0x000C5F86,0x000C5F83,0x000C5F80,0x000C5F7D],
    [0x000C5F7A,0x000C5F77,0x000C5F74,0x000C5F71,0x86002DB2,0x87002E07,0xA8002E46,0xA9002E47,0xAA002E48,0xAB002E49],
    [0xAC002E4D,0xAD002E4E,0xAE002E4F,0xAF002E50,0xB0002E51,0xB1002E52,0xB2002E53,0xB3002E54,0xB4002E55,0xB5002E56],
    [0xB6002E57,0xB7002E72,0xB8002E73,0xB9002E74,0xBA002E75,0xBB002E76,0xBC002E77,0xBD002E79,0xBE002E7A,0xBF002E7B],
    [0x000C5F6E,0x000C5F6B,0x000C5F68,0x000C5F65,0x000C5F62,0x000C5F5F,0xE1002D20,0x000C5F5C,0x000C5F59,0x000C5F56],
    [0x000C5F53,0x000C5F50,0x000C5F4D,0x000C5F4A,0x000C5F47,0x000C5F44,0x000C5F41,0x000C5F3E,0x000C5F3B,0x000C5F38],
    [0x000C5F35,0x80002E7C,0x81002E7D,0x82002E7E,0x000C5F32,0x000C5F2F,0x000C5F2C,0x000C5F29,0x86002DE8,0x87002E41],
    [0xA8002E80,0xA9002E81,0xAA002E82,0xAB002E83,0xAC002E84,0xAD002E85,0xAE002E86,0xAF002E8A,0xB0002E8B,0xB1002E8C],
    [0xB2002E8D,0xB3002EA8,0xB4002EA9,0xB5002EAA,0xB6002EAB,0xB7002EAC,0xB8002EAD,0xB9002EAE,0xBA002EAF,0xBB002EB0],
    [0xBC002EB1,0xBD002EB3,0xBE002EB4,0xBF002EB5,0x000C5F26,0x000C5F23,0x000C5F20,0x000C5F1D,0x000C5F1A,0x000C5F17],
    [0x000C5F14,0x000C5F11,0x000C5F0E,0x000C5F0B,0xE1002D4C,0x000C5F08,0x000C5F05,0x000C5F02,0x000C5EFF,0x000C5EFC],
    [0x000C5EF9,0x000C5EF6,0x000C5EF3,0x000C5EF0,0x000C5EED,0x000C5EEA,0x000C5EE7,0x000C5EE4,0x000C5EE1,0x80002EB6],
    [0x81002EB7,0x82002EB8,0x000C5EDE,0x000C5EDB,0x000C5ED8,0x000C5ED5,0x000C5ED2,0x000C5ECF,0x000C5ECC,0x000C5EC9],
    [0x000C5EC6,0x000C5EC3,0x000C5EC0,0x000C5EBD,0x86002E2A,0x87002E70,0xA8002EBA,0xA9002EBB,0xAA002EBC,0xAB002EBD],
    [0xAC002EBE,0xAD002EBF,0xAE002EC0,0xAF002EC4,0xB0002EC5,0xB1002EC6,0xB2002EC7,0xB3002EC8,0xB4002EC9,0xB5002ECA],
    [0xB6002ECB,0xB7002ECC,0xB8002ECD,0xB9002ECE,0xBA002ECF,0xBB002EEA,0xBC002EEB,0xBD002EEC,0xBE002EED,0xBF002EEE],
    [0x000C5EBA,0x000C5EB7,0x000C5EB4,0x000C5EB1,0x000C5EAE,0xE1002D89,0x80002EF3,0x81002EF4,0x82002EF5,0x000C5EAB],
    [0x000C5EA8,0x000C5EA5,0x000C5EA2,0x86002E58,0x87002EB2,0x000C5E9F,0x000C5E9C,0x000C5E99,0x000C5E96,0x000C5E93],
    [0x000C5E90,0x000C5E8D,0xA8002EF9,0xA9002EFA,0xAA002EFB,0xAB002EFC,0xAC002EFD,0xAD002EFE,0xAE002EFF,0xAF002F18],
    [0xB0002F19,0xB1002F1A,0xB2002F1B,0xB3002F1C,0xB4002F1D,0xB5002F1E,0xB6002F1F,0xB7002F20,0xB8002F21,0xB9002F22],
    [0xBA002F23,0xBB002F24,0xBC002F25,0xBD002F27,0xBE002F28,0xBF002F29,0x000C5E8A,0x000C5E87,0x000C5E84,0x000C5E81],
    [0x000C5E7E,0x000C5E7B,0x000C5E78,0x000C5E75,0x000C5E72,0x000C5E6F,0x000C5E6C,0x000C5E69,0x000C5E66,0x000C5E63],
    [0xE1002DD2,0x000C5E60,0x000C5E5D,0x000C5E5A,0x000C5E57,0x000C5E54,0x000C5E51,0x000C5E4E,0x000C5E4B,0x000C5E48],
    [0x000C5E45,0x000C5E42,0x80002F2A,0x81002F2B,0x82002F2C,0x000C5E3F,0x000C5E3C,0x000C5E39,0x000C5E36,0x000C5E33],
    [0x000C5E30,0x000C5E2D,0x000C5E2A,0x000C5E27,0x000C5E24,0x000C5E21,0x000C5E1E,0x000C5E1B,0x000C5E18,0x000C5E15],
    [0x000C5E12,0x000C5E0F,0x000C5E0C,0x86002EC2,0x87002ED0,0x000C5E09,0x000C5E06,0x000C5E03,0x000C5E00,0x000C5DFD],
    [0x000C5DFA,0x000C5DF7,0x80002F4B,0x81002F4C,0x82002F4D,0x000C5DF4,0x000C5DF1,0x000C5DEE,0x000C5DEB,0x86002EDA],
    [0x87002F26,0x000C5DE8,0x000C5DE5,0x000C5DE2,0x000C5DDF,0x000C5DDC,0x000C5DD9,0x000C5DD6,0xE1002E08,0x000C5DD3],
    [0x000C5DD0,0x000C5DCD,0x000C5DCA,0x000C5DC7,0x000C5DC4,0x000C5DC1,0x000C5DBE,0x000C5DBB,0xA8002F2E,0xA9002F2F],
    [0xAA002F30,0xAB002F31,0xAC002F35,0xAD002F36,0xAE002F37,0xAF002F38,0xB0002F39,0xB1002F3A,0xB2002F3B,0xB3002F3C],
    [0xB4002F3D,0xB5002F3E,0xB6002F3F,0xB7002F40,0xB8002F41,0xB9002F42,0xBA002F43,0xBB002F44,0xBC002F45,0xBD002F46],
    [0xBE002F49,0xBF002F4A,0xA8002F4F,0xA9002F53,0xAA002F54,0xAB002F55,0xAC002F56,0xAD002F59,0xAE002F5A,0xAF002F5B],
    [0xB0002F5C,0xB1002F5D,0xB2002F5E,0xB3002F5F,0xB4002F61,0xB5002F62,0xB6002F63,0xB7002F64,0xB8002F65,0xB9002F66],
    [0xBA002F67,0xBB002F68,0xBC002F69,0xBD002F9B,0xBE002F9C,0xBF002F9D,0xE1002E4A,0x000C5DB8,0x000C5DB5,0x000C5DB2],
    [0x000C5DAF,0x000C5DAC,0x000C5DA9,0x000C5DA6,0x000C5DA3,0x000C5DA0,0x000C5D9D,0x000C5D9A,0x80002F9E,0x81002F9F],
    [0x82002FA0,0x000C5D97,0x000C5D94,0x000C5D91,0x000C5D8E,0x000C5D8B,0x000C5D88,0x000C5D85,0x000C5D82,0x000C5D7F],
    [0x000C5D7C,0x000C5D79,0x000C5D76,0x000C5D73,0x000C5D70,0x000C5D6D,0x86002F12,0x87002F58,0xA8002FA2,0xA9002FA3],
    [0xAA002FA4,0xAB002FA5,0xAC002FA9,0xAD002FAA,0xAE002FAB,0xAF002FAC,0xB0002FAD,0xB1002FAE,0xB2002FAF,0xB3002FB0],
    [0xB4002FB1,0xB5002FB2,0xB6002FB3,0xB7002FB4,0xB8002FB5,0xB9002FB6,0xBA002FB7,0xBB002FD2,0xBC002FD3,0xBD002FD4],
    [0xBE002FD5,0xBF002FD6,0x000C5D6A,0x000C5D67,0x000C5D64,0x000C5D61,0x000C5D5E,0xE1002E71,0x80002FDB,0x81002FDC],
    [0x82002FDD,0x000C5D5B,0x000C5D58,0x000C5D55,0x000C5D52,0x000C5D4F,0x000C5D4C,0x000C5D49,0x000C5D46,0x000C5D43],
    [0x000C5D40,0x000C5D3D,0x86002F47,0x87002F92,0x000C5D3A,0x000C5D37,0x000C5D34,0x000C5D31,0x000C5D2E,0x000C5D2B],
    [0x000C5D28,0xA8002FDF,0xA9002FE0,0xAA002FE1,0xAB002FE2,0xAC002FE3,0xAD002FE4,0xAE002FE5,0xAF002FE8,0xB0002FE9],
    [0xB1002FEA,0xB2002FEB,0xB3002FEC,0xB4002FED,0xB5002FEE,0xB6003007,0xB7003008,0xB8003009,0xB900300A,0xBA00300B],
    [0xBB00300C,0xBC00300D,0xBD00300F,0xBE003010,0xBF003011,0x000C5D25,0x000C5D22,0x000C5D1F,0x000C5D1C,0x000C5D19],
    [0x000C5D16,0x000C5D13,0xE1002EC1,0x000C5D10,0x000C5D0D,0x000C5D0A,0x80003015,0x81003016,0x82003017,0x000C5D07],
    [0x000C5D04,0x000C5D01,0x85002F8F,0x000C5CFE,0x86002FA6,0x87002FCB,0x000C5CFB,0x000C5CF8,0x000C5CF5,0x000C5CF2],
    [0x000C5CEF,0x000C5CEC,0x000C5CE9,0x000C5CE6,0x000C5CE3,0x000C5CE0,0x000C5CDD,0x000C5CDA,0x000C5CD7,0xE1002F93],
    [0x000C5CD4,0x000C5CD1,0x000C5CCE,0x000C5CCB,0x000C5CC8,0xE1002ED1,0xA1003019,0xA2003069,0xA300308B,0xA40030DD],
    [0xA5003117,0xA600314E,0xA7003173,0xA80031C5,0xA90031FC,0xAA003236,0xAB003270,0xAC0032AD,0xAD0032E7,0xAE003321],
    [0xAF003358,0xB0003392,0xB10033CC,0xB2003406,0xB3003440,0xB400347D,0xB50034B7,0x000C5CC5,0x000C5CC2,0x000C5CBF],
    [0x000C5CBC,0x000C5CB9,0x000C5CB6,0x80003066,0x81003067,0x82003068,0xA800301C,0xA900301D,0xAA00301E,0xAB00301F],
    [0xAC003020,0xAD003021,0xAE003022,0xAF003023,0xB0003024,0xB1003025,0xB2003026,0xB3003027,0xB4003028,0xB500302A],
    [0xB600302B,0xB700302C,0xB800302D,0xB900302E,0xBA003045,0xBB003046,0xBC003047,0xBD003048,0xBE003049,0xBF00304A],
    [0x000C5CB3,0x000C5CB0,0x000C5CAD,0x000C5CAA,0x000C5CA7,0x000C5CA4,0x86002FE7,0x87003005,0x000C5CA1,0x000C5C9E],
    [0x000C5C9B,0x000C5C98,0x000C5C95,0x000C5C92,0x000C5C8F,0x000C5C8C,0x000C5C89,0x000C5C86,0x000C5C83,0x000C5C80],
    [0x000C5C7D,0x000C5C7A,0x000C5C77,0x000C5C74,0x000C5C71,0x000C5C6E,0x000C5C6B,0x000C5C68,0xE1002F32,0x000C5C65],
    [0x000C5C62,0x80003088,0x81003089,0x8200308A,0x000C5C5F,0x000C5C5C,0x000C5C59,0x000C5C56,0x86002FFF,0x87003057],
    [0x000C5C53,0xA800306A,0xA900306B,0xAA00306E,0xAB00306F,0xAC003070,0xAD003071,0xAE003072,0xAF003073,0xB0003074],
    [0xB1003075,0xB2003076,0xB3003077,0xB4003078,0xB5003079,0xB600307A,0xB700307B,0xB800307C,0xB900307D,0xBA00307E],
    [0xBB00307F,0xBC003080,0xBD003081,0xBE003083,0xBF003084,0xA800308E,0xA90030C0,0xAA0030C1,0xAB0030C2,0xAC0030C3],
    [0xAD0030C4,0xAE0030C5,0xAF0030C6,0xB00030C7,0xB10030C8,0xB20030C9,0xB30030CA,0xB40030CB,0xB50030CC,0xB60030CD],
    [0xB70030CE,0xB80030CF,0xB90030D0,0xBA0030D1,0xBB0030D2,0xBC0030D3,0xBD0030D4,0xBE0030D5,0xBF0030D6,0xE1002F60],
    [0x000C5C50,0x000C5C4D,0x000C5C4A,0x000C5C47,0x000C5C44,0x000C5C41,0x000C5C3E,0x000C5C3B,0x000C5C38,0x000C5C35],
    [0x000C5C32,0x000C5C2F,0x000C5C2C,0x000C5C29,0x000C5C26,0x000C5C23,0x000C5C20,0x000C5C1D,0x000C5C1A,0x000C5C17],
    [0x000C5C14,0x000C5C11,0x000C5C0E,0x800030DA,0x810030DB,0x820030DC,0x000C5C0B,0x000C5C08,0x000C5C05,0x000C5C02],
    [0x86003038,0x87003091,0xA80030F8,0xA90030F9,0xAA0030FB,0xAB0030FC,0xAC0030FD,0xAD0030FE,0xAE0030FF,0xAF003100],
    [0xB0003101,0xB1003102,0xB2003103,0xB3003104,0xB4003105,0xB5003106,0xB6003107,0xB7003108,0xB8003109,0xB900310A],
    [0xBA00310B,0xBB00310C,0xBC00310D,0xBD00310E,0xBE00310F,0xBF003110,0x000C5BFF,0x000C5BFC,0xE1002F94,0x000C5BF9],
    [0x000C5BF6,0x000C5BF3,0x000C5BF0,0x000C5BED,0x000C5BEA,0x000C5BE7,0x000C5BE4,0x000C5BE1,0x000C5BDE,0x000C5BDB],
    [0x000C5BD8,0x000C5BD5,0x000C5BD2,0x000C5BCF,0x000C5BCC,0x000C5BC9,0x000C5BC6,0x000C5BC3,0x000C5BC0,0x000C5BBD],
    [0x000C5BBA,0x80003114,0x81003115,0x82003116,0x000C5BB7,0x000C5BB4,0x000C5BB1,0x000C5BAE,0x86003082,0x870030D7],
    [0x000C5BAB,0x000C5BA8,0x000C5BA5,0x000C5BA2,0x000C5B9F,0x000C5B9C,0x000C5B99,0x000C5B96,0x000C5B93,0x000C5B90],
    [0x000C5B8D,0x000C5B8A,0x000C5B87,0x000C5B84,0x000C5B81,0x000C5B7E,0xA800311A,0xA900311B,0xAA00311C,0xAB00311D],
    [0xAC00311E,0xAD00311F,0xAE003120,0xAF003121,0xB0003122,0xB1003123,0xB2003124,0xB3003125,0xB4003126,0xB5003127],
    [0xB6003128,0xB7003129,0xB8003142,0xB9003143,0xBA003144,0xBB003145,0xBC003146,0xBD003147,0xBE003148,0xBF003149],
    [0x000C5B7B,0x000C5B78,0x000C5B75,0x000C5B72,0x000C5B6F,0x000C5B6C,0x000C5B69,0x000C5B66,0xE1002FE6,0x000C5B63],
    [0x000C5B60,0x000C5B5D,0x000C5B5A,0x000C5B57,0x000C5B54,0x000C5B51,0x000C5B4E,0x000C5B4B,0x000C5B48,0x000C5B45],
    [0x000C5B42,0x8000314B,0x8100314C,0x8200314D,0x000C5B3F,0x000C5B3C,0x000C5B39,0x000C5B36,0x860030D9,0x870030ED],
    [0x000C5B33,0x000C5B30,0x000C5B2D,0x000C5B2A,0x000C5B27,0x000C5B24,0x000C5B21,0x000C5B1E,0x000C5B1B,0x000C5B18],
    [0x000C5B15,0x000C5B12,0xE1003006,0x80003170,0x81003171,0x82003172,0x000C5B0F,0x000C5B0C,0x000C5B09,0x000C5B06],
    [0x860030F1,0x8700313F,0x000C5B03,0x000C5B00,0x000C5AFD,0x000C5AFA,0x000C5AF7,0x000C5AF4,0x000C5AF1,0x000C5AEE],
    [0x000C5AEB,0x000C5AE8,0x000C5AE5,0xA800314F,0xA9003150,0xAA003151,0xAB003152,0xAC003153,0xAD003154,0xAE003155],
    [0xAF003156,0xB000315A,0xB100315B,0xB200315C,0xB300315D,0xB4003160,0xB5003161,0xB6003162,0xB7003163,0xB8003164],
    [0xB9003165,0xBA003166,0xBB003167,0xBC003168,0xBD003169,0xBE00316A,0xBF00316B,0xA8003176,0xA9003177,0xAA003178],
    [0xAB003179,0xAC00317A,0xAD00317B,0xAE00317C,0xAF00317D,0xB000317E,0xB100317F,0xB2003180,0xB30031B1,0xB40031B2],
    [0xB50031B3,0xB60031B4,0xB70031B5,0xB80031B6,0xB90031B7,0xBA0031B8,0xBB0031B9,0xBC0031BA,0xBD0031BB,0xBE0031BC],
    [0xBF0031BD,0x000C5AE2,0x000C5ADF,0x000C5ADC,0x000C5AD9,0x000C5AD6,0x000C5AD3,0x000C5AD0,0x000C5ACD,0x000C5ACA],
    [0x000C5AC7,0x000C5AC4,0x000C5AC1,0x000C5ABE,0xE1003058,0x800031C2,0x810031C3,0x820031C4,0x000C5ABB,0x000C5AB8],
    [0x000C5AB5,0x000C5AB2,0x8600312A,0x87003181,0x000C5AAF,0x000C5AAC,0x000C5AA9,0x000C5AA6,0x000C5AA3,0x000C5AA0],
    [0x000C5A9D,0x000C5A9A,0x000C5A97,0x000C5A94,0xA80031C8,0xA90031C9,0xAA0031CA,0xAB0031CB,0xAC0031CC,0xAD0031CD],
    [0xAE0031CE,0xAF0031CF,0xB00031D0,0xB10031D1,0xB20031EA,0xB30031EB,0xB40031EC,0xB50031ED,0xB60031EE,0xB70031EF],
    [0xB80031F0,0xB90031F1,0xBA0031F2,0xBB0031F3,0xBC0031F4,0xBD0031F5,0xBE0031F6,0xBF0031F7,0x000C5A91,0x000C5A8E],
    [0x000C5A8B,0x000C5A88,0x000C5A85,0x000C5A82,0x000C5A7F,0x000C5A7C,0x000C5A79,0x000C5A76,0x000C5A73,0x000C5A70],
    [0x000C5A6D,0x000C5A6A,0xE1003092,0x000C5A67,0x000C5A64,0x000C5A61,0x000C5A5E,0x000C5A5B,0x000C5A58,0x000C5A55],
    [0x000C5A52,0x800031F9,0x810031FA,0x820031FB,0x000C5A4F,0x000C5A4C,0x000C5A49,0x000C5A46,0x8600316C,0x870031BE],
    [0x000C5A43,0x000C5A40,0x000C5A3D,0x000C5A3A,0x000C5A37,0x000C5A34,0x000C5A31,0x000C5A2E,0x000C5A2B,0x000C5A28],
    [0xA80031FD,0xA90031FE,0xAA0031FF,0xAB003200,0xAC003204,0xAD003205,0xAE003206,0xAF003207,0xB000320A,0xB100320B],
    [0xB200320C,0xB300320D,0xB400320E,0xB500320F,0xB6003210,0xB7003211,0xB8003212,0xB9003213,0xBA00322C,0xBB00322D],
    [0xBC00322E,0xBD003230,0xBE003231,0xBF003232,0x000C5A25,0x000C5A22,0x000C5A1F,0xE10030D8,0x000C5A1C,0x000C5A19],
    [0x000C5A16,0x000C5A13,0x000C5A10,0x000C5A0D,0x000C5A0A,0x000C5A07,0x000C5A04,0x000C5A01,0x000C59FE,0x000C59FB],
    [0x000C59F8,0x000C59F5,0x80003233,0x81003234,0x82003235,0x000C59F2,0x000C59EF,0x000C59EC,0x000C59E9,0x860031AD],
    [0x870031F8,0x000C59E6,0x000C59E3,0x000C59E0,0x000C59DD,0x000C59DA,0x000C59D7,0x000C59D4,0x000C59D1,0x000C59CE],
    [0x000C59CB,0x000C59C8,0x000C59C5,0x000C59C2,0xE10030EE,0xA8003237,0xA9003238,0xAA003239,0xAB00323A,0xAC00323B],
    [0xAD00323C,0xAE00323D,0xAF003241,0xB0003242,0xB1003243,0xB2003244,0xB3003247,0xB4003248,0xB5003249,0xB600324A],
    [0xB700324B,0xB800324C,0xB900324D,0xBA00324E,0xBB00324F,0xBC003250,0xBD003251,0xBE003252,0xBF003253,0x000C59BF],
    [0x000C59BC,0x000C59B9,0x000C59B6,0x000C59B3,0x000C59B0,0x000C59AD,0x000C59AA,0x000C59A7,0x000C59A4,0x000C59A1],
    [0x8000326D,0x8100326E,0x8200326F,0x000C599E,0x000C599B,0x000C5998,0x000C5995,0x000C5992,0x000C598F,0x000C598C],
    [0x000C5989,0x000C5986,0x000C5983,0x000C5980,0x000C597D,0x860031E1,0x87003227,0xA8003271,0xA9003272,0xAA003273],
    [0xAB003274,0xAC003275,0xAD003276,0xAE003277,0xAF00327B,0xB000327C,0xB100327D,0xB200327E,0xB300327F,0xB4003280],
    [0xB5003281,0xB6003282,0xB7003283,0xB8003284,0xB9003285,0xBA003286,0xBB0032A1,0xBC0032A2,0xBD0032A3,0xBE0032A4]]"

definition NODES_09 :: "nat list list" where
  "NODES_09 = [
    [0xBF0032A5,0x000C597A,0x000C5977,0x000C5974,0x000C5971,0x000C596E,0xE1003140,0x800032AA,0x810032AB,0x820032AC],
    [0x000C596B,0x000C5968,0x000C5965,0x000C5962,0x86003208,0x87003261,0xA80032C8,0xA90032C9,0xAA0032CA,0xAB0032CB],
    [0xAC0032CC,0xAD0032CD,0xAE0032CE,0xAF0032CF,0xB00032D0,0xB10032D1,0xB20032D2,0xB30032D3,0xB40032D4,0xB50032D5],
    [0xB60032D6,0xB70032D7,0xB80032D8,0xB90032D9,0xBA0032DA,0xBB0032DB,0xBC0032DC,0xBD0032DE,0xBE0032DF,0xBF0032E0],
    [0x000C595F,0x000C595C,0x000C5959,0x000C5956,0x000C5953,0x000C5950,0x000C594D,0x000C594A,0x000C5947,0x000C5944],
    [0x000C5941,0x000C593E,0x000C593B,0x000C5938,0x000C5935,0x000C5932,0x000C592F,0x000C592C,0x000C5929,0x000C5926],
    [0x000C5923,0xE1003182,0x000C5920,0x000C591D,0x000C591A,0x800032E4,0x810032E5,0x820032E6,0x000C5917,0x000C5914],
    [0x000C5911,0x000C590E,0x86003245,0x8700329B,0x000C590B,0x000C5908,0x000C5905,0xA80032EA,0xA90032EB,0xAA0032EC],
    [0xAB003305,0xAC003306,0xAD003307,0xAE003308,0xAF003309,0xB000330A,0xB100330B,0xB200330C,0xB300330D,0xB400330E],
    [0xB500330F,0xB6003310,0xB7003311,0xB8003312,0xB9003313,0xBA003314,0xBB003315,0xBC003316,0xBD003318,0xBE003319],
    [0xBF00331A,0x000C5902,0x000C58FF,0x000C58FC,0x000C58F9,0x000C58F6,0x000C58F3,0x000C58F0,0x000C58ED,0x000C58EA],
    [0x000C58E7,0x000C58E4,0x000C58E1,0x000C58DE,0x000C58DB,0x000C58D8,0x000C58D5,0x000C58D2,0x000C58CF,0xE10031BF],
    [0x000C58CC,0x000C58C9,0x000C58C6,0x8000331E,0x8100331F,0x82003320,0x000C58C3,0x000C58C0,0x000C58BD,0x000C58BA],
    [0x86003287,0x870032DD,0x000C58B7,0x000C58B4,0x000C58B1,0x000C58AE,0x000C58AB,0x000C58A8,0x000C58A5,0x000C58A2],
    [0x000C589F,0x000C589C,0x000C5899,0xA8003324,0xA9003325,0xAA003326,0xAB003327,0xAC003328,0xAD003329,0xAE00332A],
    [0xAF00332B,0xB000332C,0xB100332D,0xB200332E,0xB3003347,0xB4003348,0xB5003349,0xB600334A,0xB700334B,0xB800334C],
    [0xB900334D,0xBA00334E,0xBB00334F,0xBC003350,0xBD003352,0xBE003353,0xBF003354,0x000C5896,0x000C5893,0x000C5890],
    [0x000C588D,0x000C588A,0x000C5887,0x000C5884,0x000C5881,0x000C587E,0x000C587B,0xE1003201,0x000C5878,0x000C5875],
    [0x000C5872,0x000C586F,0x000C586C,0x000C5869,0x000C5866,0x000C5863,0x000C5860,0x000C585D,0x000C585A,0x80003355],
    [0x81003356,0x82003357,0x000C5857,0x000C5854,0x000C5851,0x000C584E,0x000C584B,0x000C5848,0x000C5845,0x860032C1],
    [0x87003317,0xA8003359,0xA900335A,0xAA00335B,0xAB00335C,0xAC003360,0xAD003361,0xAE003362,0xAF003363,0xB0003364],
    [0xB1003365,0xB2003366,0xB3003381,0xB4003382,0xB5003383,0xB6003384,0xB7003385,0xB8003386,0xB9003387,0xBA003388],
    [0xBB003389,0xBC00338A,0xBD00338B,0xBE00338C,0xBF00338D,0x000C5842,0x000C583F,0x000C583C,0x000C5839,0x000C5836],
    [0x000C5833,0x000C5830,0x000C582D,0x000C582A,0x000C5827,0x000C5824,0x000C5821,0x000C581E,0xE1003228,0x000C581B],
    [0x000C5818,0x000C5815,0x000C5812,0x000C580F,0x000C580C,0x000C5809,0x000C5806,0x8000338F,0x81003390,0x82003391],
    [0x000C5803,0x000C5800,0x000C57FD,0x000C57FA,0x000C57F7,0x000C57F4,0x000C57F1,0x860032FB,0x87003351,0xA8003393],
    [0xA9003394,0xAA003395,0xAB003396,0xAC00339A,0xAD00339B,0xAE00339C,0xAF00339D,0xB000339E,0xB100339F,0xB20033A0],
    [0xB30033BB,0xB40033BC,0xB50033BD,0xB60033BE,0xB70033BF,0xB80033C0,0xB90033C1,0xBA0033C2,0xBB0033C3,0xBC0033C4],
    [0xBD0033C5,0xBE0033C6,0xBF0033C7,0x000C57EE,0x000C57EB,0x000C57E8,0x000C57E5,0x000C57E2,0x000C57DF,0x000C57DC],
    [0x000C57D9,0x000C57D6,0x000C57D3,0x000C57D0,0x000C57CD,0x000C57CA,0xE1003262,0x000C57C7,0x000C57C4,0x000C57C1],
    [0x000C57BE,0x000C57BB,0x000C57B8,0x000C57B5,0x000C57B2,0x800033C9,0x810033CA,0x820033CB,0x000C57AF,0x000C57AC],
    [0x000C57A9,0x000C57A6,0x000C57A3,0x000C57A0,0x000C579D,0x000C579A,0x000C5797,0x000C5794,0x000C5791,0x000C578E],
    [0x000C578B,0x000C5788,0x000C5785,0x8600333D,0x8700338E,0xA80033CD,0xA90033CE,0xAA0033CF,0xAB0033D0,0xAC0033D4],
    [0xAD0033D5,0xAE0033D6,0xAF0033D7,0xB00033D8,0xB10033D9,0xB20033DA,0xB30033DB,0xB40033DC,0xB50033DD,0xB60033DE],
    [0xB70033DF,0xB80033E0,0xB90033E1,0xBA0033E2,0xBB0033FD,0xBC0033FE,0xBD0033FF,0xBE003400,0xBF003401,0x000C5782],
    [0x000C577F,0x000C577C,0x000C5779,0x000C5776,0xE100329C,0x000C5773,0x000C5770,0x000C576D,0x000C576A,0x000C5767],
    [0x000C5764,0x000C5761,0x000C575E,0x000C575B,0x000C5758,0x000C5755,0x80003403,0x81003404,0x82003405,0x000C5752],
    [0x000C574F,0x000C574C,0x000C5749,0x000C5746,0x000C5743,0x000C5740,0x000C573D,0x000C573A,0x000C5737,0x000C5734],
    [0x000C5731,0x86003377,0x870033C8,0xA8003407,0xA9003408,0xAA003409,0xAB00340A,0xAC00340B,0xAD00340C,0xAE00340D],
    [0xAF003411,0xB0003412,0xB1003413,0xB2003414,0xB3003415,0xB4003416,0xB5003417,0xB6003418,0xB7003419,0xB800341A],
    [0xB900341B,0xBA00341C,0xBB003437,0xBC003438,0xBD00343A,0xBE00343B,0xBF00343C,0x000C572E,0x000C572B,0xE10032E1],
    [0x000C5728,0x000C5725,0x000C5722,0x000C571F,0x000C571C,0x000C5719,0x000C5716,0x000C5713,0x000C5710,0x000C570D],
    [0x000C570A,0x000C5707,0x000C5704,0x000C5701,0x8000343D,0x8100343E,0x8200343F,0x000C56FE,0x000C56FB,0x000C56F8],
    [0x000C56F5,0x000C56F2,0x000C56EF,0x000C56EC,0x000C56E9,0x000C56E6,0x000C56E3,0x000C56E0,0x000C56DD,0x860033B1],
    [0x870033F7,0xA8003441,0xA9003442,0xAA003443,0xAB003444,0xAC003445,0xAD003446,0xAE003447,0xAF00344B,0xB000344C],
    [0xB100344D,0xB200344E,0xB300344F,0xB4003450,0xB5003451,0xB6003452,0xB7003453,0xB8003454,0xB9003455,0xBA003456],
    [0xBB003471,0xBC003472,0xBD003474,0xBE003475,0xBF003476,0x000C56DA,0x000C56D7,0xE100331B,0x000C56D4,0x000C56D1],
    [0x000C56CE,0x8000347A,0x8100347B,0x8200347C,0x000C56CB,0x000C56C8,0x000C56C5,0x000C56C2,0x860033E3,0x87003431],
    [0x000C56BF,0x000C56BC,0x000C56B9,0x000C56B6,0x000C56B3,0x000C56B0,0x000C56AD,0x000C56AA,0x000C56A7,0x000C56A4],
    [0x000C56A1,0xA8003480,0xA9003481,0xAA003482,0xAB003483,0xAC003484,0xAD003485,0xAE003486,0xAF003487,0xB0003488],
    [0xB1003489,0xB200348A,0xB30034A3,0xB40034A4,0xB50034A5,0xB60034A6,0xB70034A7,0xB80034A8,0xB90034A9,0xBA0034AA],
    [0xBB0034AB,0xBC0034AC,0xBD0034AE,0xBE0034AF,0xBF0034B0,0x000C569E,0x000C569B,0x000C5698,0x000C5695,0x000C5692],
    [0x000C568F,0x000C568C,0x000C5689,0x000C5686,0x000C5683,0xE100335D,0x000C5680,0x000C567D,0x000C567A,0x800034B4],
    [0x810034B5,0x820034B6,0x000C5677,0x000C5674,0x000C5671,0x000C566E,0x8600341D,0x8700346B,0x000C566B,0x000C5668],
    [0x000C5665,0x000C5662,0x000C565F,0x000C565C,0x000C5659,0x000C5656,0x000C5653,0x000C5650,0x000C564D,0xA80034BA],
    [0xA90034BB,0xAA0034BC,0xAB0034BD,0xAC0034BE,0xAD0034BF,0xAE0034C0,0xAF0034C1,0xB00034C2,0xB10034C3,0xB20034C4],
    [0xB30034DD,0xB40034DE,0xB50034DF,0xB60034E0,0xB70034E1,0xB80034E2,0xB90034E3,0xBA0034E4,0xBB0034E5,0xBC0034E6],
    [0xBD0034E8,0xBE0034E9,0xBF0034EA,0x000C564A,0x000C5647,0x000C5644,0x000C5641,0x000C563E,0x000C563B,0x000C5638],
    [0x000C5635,0x000C5632,0x000C562F,0xE1003397,0x000C562C,0x000C5629,0x000C5626,0x800034EE,0x810034EF,0x820034F0],
    [0x000C5623,0x000C5620,0x000C561D,0xE100346D,0x85003457,0x000C561A,0x8600347E,0x870034C5,0x000C5617,0x000C5614],
    [0xA10034F3,0xA200353F,0xA300357C,0xA40035B6,0xA50035F0,0xA600362A,0xA7003664,0xA800369B,0xA90036D8,0xAA003712],
    [0xAB003749,0xAC003783,0xAD0037C0,0xAE0037F7,0xAF003831,0xB000386B,0xB10038A8,0xB20038DF,0xB3003900,0xB4003953],
    [0xB5003990,0x000C5611,0x000C560E,0x000C560B,0x000C5608,0x000C5605,0x000C5602,0x000C55FF,0x000C55FC,0x000C55F9],
    [0x000C55F6,0x000C55F3,0x000C55F0,0x000C55ED,0x000C55EA,0x000C55E7,0x000C55E4,0x000C55E1,0x000C55DE,0x000C55DB],
    [0x000C55D8,0xE10033D1,0x000C55D5,0x000C55D2,0x000C55CF,0x000C55CC,0xA80034F6,0xA90034F7,0xAA00350D,0xAB00350E],
    [0xAC00350F,0xAD003510,0xAE003511,0xAF003512,0xB0003513,0xB1003514,0xB2003515,0xB3003516,0xB4003517,0xB5003518],
    [0xB6003519,0xB700351A,0xB800351B,0xB900351C,0xBA00351D,0xBB00351E,0xBC00351F,0xBD003520,0xBE003522,0xBF003523],
    [0x000C55C9,0x000C55C6,0x000C55C3,0x000C55C0,0x000C55BD,0x000C55BA,0x000C55B7,0x80003524,0x81003525,0x8200353E],
    [0x000C55B4,0x000C55B1,0x000C55AE,0x000C55AB,0x860034B8,0x870034F8,0x000C55A8,0x000C55A5,0x000C55A2,0x000C559F],
    [0x000C559C,0x000C5599,0x000C5596,0x000C5593,0x000C5590,0x000C558D,0x000C558A,0x000C5587,0x000C5584,0x000C5581],
    [0x000C557E,0x000C557B,0xE10033F8,0x000C5578,0xA8003540,0xA9003541,0xAA003542,0xAB003543,0xAC003544,0xAD003548],
    [0xAE003549,0xAF00354A,0xB000354B,0xB100354E,0xB200354F,0xB3003550,0xB4003551,0xB5003552,0xB6003553,0xB7003554],
    [0xB8003555,0xB9003556,0xBA003557,0xBB003558,0xBC003559,0xBD00355A,0xBE00355B,0xBF00355C,0x8000355D,0x8100355F],
    [0x8200357B,0x000C5575,0x000C5572,0x000C556F,0x000C556C,0x860034F1,0x87003531,0x000C5569,0x000C5566,0x000C5563],
    [0x000C5560,0x000C555D,0x000C555A,0x000C5557,0x000C5554,0x000C5551,0x000C554E,0x000C554B,0x000C5548,0x000C5545],
    [0x000C5542,0x000C553F,0x000C553C,0x000C5539,0x000C5536,0x000C5533,0x000C5530,0x000C552D,0x000C552A,0x000C5527],
    [0xE1003432,0xA800357D,0xA900357E,0xAA003581,0xAB003582,0xAC003583,0xAD003584,0xAE003585,0xAF003586,0xB0003587],
    [0xB1003588,0xB2003589,0xB300358A,0xB400358B,0xB500358C,0xB600358D,0xB700358E,0xB800358F,0xB9003590,0xBA003591],
    [0xBB003592,0xBC003593,0xBD003594,0xBE003595,0xBF003596,0x80003597,0x810035B4,0x820035B5,0x000C5524,0x000C5521],
    [0x000C551E,0x000C551B,0x8600352D,0x8700356D,0x000C5518,0x000C5515,0x000C5512,0x000C550F,0x000C550C,0x000C5509],
    [0x000C5506,0x000C5503,0x000C5500,0x000C54FD,0x000C54FA,0x000C54F7,0x000C54F4,0x000C54F1,0x000C54EE,0x000C54EB],
    [0x000C54E8,0x000C54E5,0x000C54E2,0x000C54DF,0x000C54DC,0x000C54D9,0x000C54D6,0x000C54D3,0x000C54D0,0x000C54CD],
    [0xE100346E,0xA80035B7,0xA90035BA,0xAA0035BB,0xAB0035BC,0xAC0035BD,0xAD0035BE,0xAE0035BF,0xAF0035C0,0xB00035C1],
    [0xB10035C2,0xB20035C3,0xB30035C4,0xB40035C5,0xB50035C6,0xB60035C7,0xB70035C8,0xB80035C9,0xB90035CA,0xBA0035CB],
    [0xBB0035CC,0xBC0035CD,0xBD0035CE,0xBE0035CF,0xBF0035D0,0x800035D1,0x810035D2,0x820035D3,0x000C54CA,0x8600354C],
    [0x870035A4,0x000C54C7,0xA80035F3,0xA900360C,0xAA00360D,0xAB00360E,0xAC00360F,0xAD003610,0xAE003611,0xAF003612],
    [0xB0003613,0xB1003614,0xB2003615,0xB3003616,0xB4003617,0xB5003618,0xB6003619,0xB700361A,0xB800361B,0xB900361C],
    [0xBA00361D,0xBB00361E,0xBC00361F,0xBD003621,0xBE003622,0xBF003623,0x000C54C4,0x000C54C1,0x000C54BE,0x000C54BB],
    [0x000C54B8,0x000C54B5,0x000C54B2,0x000C54AF,0x000C54AC,0x000C54A9,0x000C54A6,0x000C54A3,0x000C54A0,0x000C549D],
    [0x000C549A,0x000C5497,0x000C5494,0x000C5491,0x000C548E,0x000C548B,0xE10034C6,0x000C5488,0x000C5485,0x000C5482],
    [0x80003627,0x81003628,0x82003629,0x000C547F,0x000C547C,0x000C5479,0x000C5476,0x86003598,0x870035DE,0x000C5473],
    [0x000C5470,0x000C546D,0x000C546A,0x000C5467,0x000C5464,0x000C5461,0x000C545E,0x000C545B,0x000C5458,0x000C5455],
    [0x000C5452,0x000C544F,0x000C544C,0x000C5449,0x000C5446,0x000C5443,0x000C5440,0x000C543D,0xA800362D,0xA900362E],
    [0xAA00362F,0xAB003630,0xAC003631,0xAD003632,0xAE003633,0xAF003634,0xB0003635,0xB1003636,0xB2003637,0xB3003638],
    [0xB4003639,0xB500363A,0xB600363B,0xB700363C,0xB800363D,0xB900363E,0xBA00363F,0xBB003658,0xBC003659,0xBD00365A],
    [0xBE00365B,0xBF00365C,0x000C543A,0x000C5437,0x000C5434,0x000C5431,0x000C542E,0xE10034F9,0x80003661,0x81003662],
    [0x82003663,0x000C542B,0x000C5428,0x000C5425,0x000C5422,0x860035D4,0x87003620,0x000C541F,0x000C541C,0x000C5419],
    [0x000C5416,0x000C5413,0x000C5410,0x000C540D,0x000C540A,0x000C5407,0x000C5404,0x000C5401,0x000C53FE,0x000C53FB],
    [0x000C53F8,0x000C53F5,0x000C53F2,0x000C53EF,0x000C53EC,0x000C53E9,0x000C53E6,0x000C53E3,0xA8003667,0xA9003668],
    [0xAA003669,0xAB00366A,0xAC00366B,0xAD00366C,0xAE00366D,0xAF00366E,0xB000366F,0xB1003670,0xB2003671,0xB3003672],
    [0xB4003673,0xB5003674,0xB6003675,0xB7003676,0xB8003677,0xB9003678,0xBA003679,0xBB00367A,0xBC00367B,0xBD003694],
    [0xBE003695,0xBF003696,0x000C53E0,0x000C53DD,0x000C53DA,0xE1003532,0x000C53D7,0x000C53D4,0x000C53D1,0x000C53CE],
    [0x000C53CB,0x000C53C8,0x000C53C5,0x000C53C2,0x80003698,0x81003699,0x8200369A,0x000C53BF,0x000C53BC,0x000C53B9],
    [0x000C53B6,0x000C53B3,0x000C53B0,0x000C53AD,0x86003604,0x87003652,0xA800369C,0xA900369D,0xAA00369E,0xAB00369F],
    [0xAC0036A3,0xAD0036A4,0xAE0036A5,0xAF0036A6,0xB00036A7,0xB10036A8,0xB20036A9,0xB30036C4,0xB40036C5,0xB50036C6],
    [0xB60036C7,0xB70036C8,0xB80036C9,0xB90036CA,0xBA0036CB,0xBB0036CC,0xBC0036CD,0xBD0036CE,0xBE0036CF,0xBF0036D0],
    [0x000C53AA,0x000C53A7,0x000C53A4,0x000C53A1,0x000C539E,0x000C539B,0x000C5398,0x000C5395,0x000C5392,0x000C538F],
    [0x000C538C,0x000C5389,0x000C5386,0xE100356B,0x800036D5,0x810036D6,0x820036D7,0x000C5383,0x000C5380,0x000C537D],
    [0x000C537A,0x86003640,0x8700368C,0x000C5377,0x000C5374,0x000C5371,0x000C536E,0x000C536B,0x000C5368,0x000C5365],
    [0x000C5362,0x000C535F,0x000C535C,0x000C5359,0x000C5356,0x000C5353,0xA80036DB,0xA90036DC,0xAA0036DD,0xAB0036DE],
    [0xAC0036DF,0xAD0036E0,0xAE0036E1,0xAF0036E2,0xB00036E3,0xB10036E4,0xB20036E5,0xB30036E6,0xB40036E7,0xB5003700],
    [0xB6003701,0xB7003702,0xB8003703,0xB9003704,0xBA003705,0xBB003706,0xBC003707,0xBD003708,0xBE003709,0xBF00370A],
    [0x000C5350,0x000C534D,0x000C534A,0x000C5347,0x000C5344,0x000C5341,0x000C533E,0x000C533B,0x000C5338,0x000C5335],
    [0x000C5332,0xE10035A5,0x8000370F,0x81003710,0x82003711,0x000C532F,0x000C532C,0x000C5329,0x000C5326,0x8600367C],
    [0x870036D1,0x000C5323,0x000C5320,0x000C531D,0x000C531A,0x000C5317,0x000C5314,0x000C5311,0x000C530E,0x000C530B],
    [0x000C5308,0x000C5305,0x000C5302,0x000C52FF,0x000C52FC,0x000C52F9,0xA8003715,0xA9003716,0xAA003717,0xAB003718],
    [0xAC003719,0xAD00371A,0xAE00371B,0xAF00371C,0xB000371D,0xB100371E,0xB200371F,0xB3003720,0xB4003721,0xB5003722],
    [0xB6003723,0xB700373C,0xB800373D,0xB900373E,0xBA00373F,0xBB003740,0xBC003741,0xBD003742,0xBE003743,0xBF003744],
    [0x000C52F6,0x000C52F3,0x000C52F0,0x000C52ED,0x000C52EA,0x000C52E7,0x000C52E4,0x000C52E1,0x000C52DE,0xE10035DF],
    [0x000C52DB,0x000C52D8,0x000C52D5,0x000C52D2,0x000C52CF,0x000C52CC,0x000C52C9,0x000C52C6,0x000C52C3,0x000C52C0],
    [0x000C52BD,0x80003746,0x81003747,0x82003748,0x000C52BA,0x000C52B7,0x000C52B4,0x000C52B1,0x860036B2,0x8700370B],
    [0xA800374A,0xA900374B,0xAA00374C,0xAB00374D,0xAC00374E,0xAD00374F,0xAE003750,0xAF003754,0xB0003755,0xB1003756],
    [0xB2003757,0xB3003772,0xB4003773,0xB5003774,0xB6003775,0xB7003776,0xB8003777,0xB9003778,0xBA003779,0xBB00377A],
    [0xBC00377B,0xBD00377D,0xBE00377E,0xBF00377F,0x000C52AE,0x000C52AB,0x000C52A8,0x000C52A5,0x000C52A2,0x000C529F],
    [0x000C529C,0x000C5299,0x000C5296,0x000C5293,0xE1003624,0x000C5290,0x000C528D,0x000C528A,0x000C5287,0x000C5284],
    [0x000C5281,0x000C527E,0x860036E8,0x8700373A,0x000C527B,0x000C5278,0x000C5275,0x000C5272,0x000C526F,0x80003780],
    [0x81003781,0x82003782,0x000C526C,0x000C5269,0xA8003786,0xA9003787,0xAA003788,0xAB003789,0xAC00378A,0xAD00378E],
    [0xAE00378F,0xAF0037A8,0xB00037A9,0xB10037AA,0xB20037AB,0xB30037AC,0xB40037AD,0xB50037AE,0xB60037AF,0xB70037B0],
    [0xB80037B1,0xB90037B2,0xBA0037B3,0xBB0037B4,0xBC0037B5,0xBD0037B6,0xBE0037B7,0xBF0037B8,0x000C5266,0x000C5263],
    [0x000C5260,0x000C525D,0x000C525A,0x000C5257,0x000C5254,0x000C5251,0x000C524E,0x000C524B,0x000C5248,0x000C5245],
    [0x000C5242,0x000C523F,0x000C523C,0x000C5239,0x000C5236,0xE1003653,0x800037BD,0x810037BE,0x820037BF,0x000C5233],
    [0x000C5230,0x000C522D,0x000C522A,0x86003724,0x8700377C,0x000C5227,0x000C5224,0x000C5221,0x000C521E,0x000C521B],
    [0x000C5218,0x000C5215,0x000C5212,0x000C520F,0xA80037C3,0xA90037C4,0xAA0037C5,0xAB0037C6,0xAC0037C7,0xAD0037C8],
    [0xAE0037C9,0xAF0037CA,0xB00037CB,0xB10037E4,0xB20037E5,0xB30037E6,0xB40037E7,0xB50037E8,0xB60037E9,0xB70037EA],
    [0xB80037EB,0xB90037EC,0xBA0037ED,0xBB0037EE,0xBC0037EF,0xBD0037F0,0xBE0037F1,0xBF0037F2,0x000C520C,0x000C5209],
    [0x000C5206,0x000C5203,0x000C5200,0x000C51FD,0x000C51FA,0x000C51F7,0x000C51F4,0x000C51F1,0x000C51EE,0x000C51EB],
    [0x000C51E8,0x000C51E5,0x000C51E2,0xE100368D,0x000C51DF,0x000C51DC,0x000C51D9,0x000C51D6,0x000C51D3,0x000C51D0],
    [0x000C51CD,0x000C51CA,0x800037F4,0x810037F5,0x820037F6,0x000C51C7,0x000C51C4,0x000C51C1,0x000C51BE,0x000C51BB],
    [0x000C51B8,0x000C51B5,0x000C51B2,0x000C51AF,0x000C51AC,0x000C51A9,0x86003764,0x870037B9,0xA80037F8,0xA90037F9],
    [0xAA0037FA,0xAB0037FB,0xAC0037FF,0xAD003800,0xAE003801,0xAF003802,0xB0003803,0xB1003804,0xB2003805,0xB3003806],
    [0xB4003807,0xB5003808,0xB6003809,0xB7003824,0xB8003825,0xB9003826,0xBA003827,0xBB003828,0xBC003829,0xBD00382B],
    [0xBE00382C,0xBF00382D,0x000C51A6,0x000C51A3,0x000C51A0,0x000C519D,0x000C519A,0x000C5197,0xE10036D2,0x000C5194],
    [0x000C5191,0x000C518E,0x000C518B,0x000C5188,0x000C5185,0x000C5182,0x000C517F,0x000C517C,0x000C5179,0x000C5176],
    [0x000C5173,0x000C5170,0x000C516D,0x8000382E,0x8100382F,0x82003830,0x000C516A,0x000C5167,0x000C5164,0x000C5161]]"

definition NODES_10 :: "nat list list" where
  "NODES_10 = [
    [0x8600379A,0x870037F3,0xA8003832,0xA9003833,0xAA003834,0xAB003835,0xAC003836,0xAD003837,0xAE003838,0xAF00383C],
    [0xB000383D,0xB100383E,0xB200383F,0xB300385A,0xB400385B,0xB500385C,0xB600385D,0xB700385E,0xB800385F,0xB9003860],
    [0xBA003861,0xBB003862,0xBC003863,0xBD003865,0xBE003866,0xBF003867,0x000C515E,0x000C515B,0x000C5158,0x000C5155],
    [0x000C5152,0x000C514F,0x000C514C,0x000C5149,0x000C5146,0x000C5143,0xE10036FE,0x000C5140,0x000C513D,0x000C513A],
    [0x000C5137,0x000C5134,0x000C5131,0x000C512E,0x000C512B,0x000C5128,0x000C5125,0x000C5122,0x000C511F,0x000C511C],
    [0x000C5119,0x80003868,0x81003869,0x8200386A,0x000C5116,0x000C5113,0x000C5110,0x000C510D,0x000C510A,0x000C5107],
    [0x000C5104,0x000C5101,0x000C50FE,0x000C50FB,0x000C50F8,0x000C50F5,0x860037DC,0x87003822,0xA800386C,0xA900386D],
    [0xAA00386E,0xAB00386F,0xAC003870,0xAD003871,0xAE003872,0xAF003876,0xB0003877,0xB1003878,0xB2003879,0xB300387A],
    [0xB400387B,0xB500387C,0xB600387D,0xB700387E,0xB800387F,0xB9003880,0xBA003881,0xBB00389C,0xBC00389D,0xBD00389E],
    [0xBE00389F,0xBF0038A0,0x000C50F2,0x000C50EF,0x000C50EC,0x000C50E9,0x000C50E6,0xE100373B,0x800038A5,0x810038A6],
    [0x820038A7,0x000C50E3,0x000C50E0,0x000C50DD,0x000C50DA,0x8600380A,0x87003864,0x000C50D7,0x000C50D4,0x000C50D1],
    [0x000C50CE,0x000C50CB,0x000C50C8,0x000C50C5,0xA80038AB,0xA90038AC,0xAA0038AD,0xAB0038AE,0xAC0038AF,0xAD0038B0],
    [0xAE0038B1,0xAF0038CA,0xB00038CB,0xB10038CC,0xB20038CD,0xB30038CE,0xB40038CF,0xB50038D0,0xB60038D1,0xB70038D2],
    [0xB80038D3,0xB90038D4,0xBA0038D5,0xBB0038D6,0xBC0038D7,0xBD0038D9,0xBE0038DA,0xBF0038DB,0x000C50C2,0x000C50BF],
    [0x000C50BC,0x000C50B9,0x000C50B6,0x000C50B3,0x000C50B0,0x000C50AD,0x000C50AA,0x000C50A7,0x000C50A4,0x000C50A1],
    [0x000C509E,0x000C509B,0xE1003784,0x000C5098,0x000C5095,0x000C5092,0x000C508F,0x000C508C,0x000C5089,0x000C5086],
    [0x000C5083,0x000C5080,0x000C507D,0x000C507A,0x800038DC,0x810038DD,0x820038DE,0x000C5077,0x000C5074,0x000C5071],
    [0x000C506E,0x000C506B,0x000C5068,0x000C5065,0x000C5062,0x000C505F,0x000C505C,0x000C5059,0x000C5056,0x000C5053],
    [0x000C5050,0x000C504D,0x000C504A,0x000C5047,0x000C5044,0x86003874,0x87003882,0x000C5041,0x000C503E,0x000C503B],
    [0x000C5038,0x000C5035,0x000C5032,0x000C502F,0x800038FD,0x810038FE,0x820038FF,0x000C502C,0x000C5029,0x000C5026],
    [0x000C5023,0x8600388C,0x870038D8,0x000C5020,0x000C501D,0x000C501A,0x000C5017,0x000C5014,0x000C5011,0x000C500E],
    [0xE10037BA,0x000C500B,0x000C5008,0x000C5005,0x000C5002,0x000C4FFF,0x000C4FFC,0x000C4FF9,0x000C4FF6,0x000C4FF3],
    [0xA80038E0,0xA90038E1,0xAA0038E2,0xAB0038E3,0xAC0038E7,0xAD0038E8,0xAE0038E9,0xAF0038EA,0xB00038EB,0xB10038EC],
    [0xB20038ED,0xB30038EE,0xB40038EF,0xB50038F0,0xB60038F1,0xB70038F2,0xB80038F3,0xB90038F4,0xBA0038F5,0xBB0038F6],
    [0xBC0038F7,0xBD0038F8,0xBE0038FB,0xBF0038FC,0xA8003901,0xA9003905,0xAA003906,0xAB003907,0xAC003908,0xAD00390B],
    [0xAE00390C,0xAF00390D,0xB000390E,0xB100390F,0xB2003910,0xB3003911,0xB4003913,0xB5003914,0xB6003915,0xB7003916],
    [0xB8003917,0xB9003918,0xBA003919,0xBB00391A,0xBC00391B,0xBD00394D,0xBE00394E,0xBF00394F,0xE10037FC,0x000C4FF0],
    [0x000C4FED,0x000C4FEA,0x000C4FE7,0x000C4FE4,0x000C4FE1,0x000C4FDE,0x000C4FDB,0x000C4FD8,0x000C4FD5,0x000C4FD2],
    [0x80003950,0x81003951,0x82003952,0x000C4FCF,0x000C4FCC,0x000C4FC9,0x000C4FC6,0x000C4FC3,0x000C4FC0,0x000C4FBD],
    [0x000C4FBA,0x000C4FB7,0x000C4FB4,0x000C4FB1,0x000C4FAE,0x000C4FAB,0x000C4FA8,0x000C4FA5,0x860038C4,0x8700390A],
    [0xA8003954,0xA9003955,0xAA003956,0xAB003957,0xAC00395B,0xAD00395C,0xAE00395D,0xAF00395E,0xB000395F,0xB1003960],
    [0xB2003961,0xB3003962,0xB4003963,0xB5003964,0xB6003965,0xB7003966,0xB8003967,0xB9003968,0xBA003969,0xBB003984],
    [0xBC003985,0xBD003986,0xBE003987,0xBF003988,0x000C4FA2,0x000C4F9F,0x000C4F9C,0x000C4F99,0x000C4F96,0xE1003823],
    [0x8000398D,0x8100398E,0x8200398F,0x000C4F93,0x000C4F90,0x000C4F8D,0x000C4F8A,0x000C4F87,0x000C4F84,0x000C4F81],
    [0x000C4F7E,0x000C4F7B,0x000C4F78,0x000C4F75,0x860038F9,0x87003944,0x000C4F72,0x000C4F6F,0x000C4F6C,0x000C4F69],
    [0x000C4F66,0x000C4F63,0x000C4F60,0xA8003991,0xA9003992,0xAA003993,0xAB003994,0xAC003995,0xAD003996,0xAE003997],
    [0xAF00399A,0xB000399B,0xB100399C,0xB200399D,0xB300399E,0xB400399F,0xB50039A0,0xB60039B9,0xB70039BA,0xB80039BB],
    [0xB90039BC,0xBA0039BD,0xBB0039BE,0xBC0039BF,0xBD0039C1,0xBE0039C2,0xBF0039C3,0x000C4F5D,0x000C4F5A,0x000C4F57],
    [0x000C4F54,0x000C4F51,0x000C4F4E,0x000C4F4B,0xE1003873,0x000C4F48,0x000C4F45,0x000C4F42,0x800039C7,0x810039C8],
    [0x820039C9,0x000C4F3F,0x000C4F3C,0x000C4F39,0x85003941,0x000C4F36,0x86003958,0x8700397D,0x000C4F33,0x000C4F30],
    [0x000C4F2D,0x000C4F2A,0x000C4F27,0x000C4F24,0x000C4F21,0x000C4F1E,0x000C4F1B,0x000C4F18,0x000C4F15,0x000C4F12],
    [0x000C4F0F,0xE1003945,0x000C4F0C,0x000C4F09,0x000C4F06,0x000C4F03,0x000C4F00,0xE1003883,0xA10039CB,0xA2003A1B],
    [0xA3003A3D,0xA4003A8F,0xA5003AC9,0xA6003B00,0xA7003B25,0xA8003B77,0xA9003BAE,0xAA003BE8,0xAB003C22,0xAC003C5F],
    [0xAD003C99,0xAE003CD3,0xAF003D0A,0xB0003D44,0xB1003D7E,0xB2003DB8,0xB3003DF2,0xB4003E2F,0xB5003E69,0x000C4EFD],
    [0x000C4EFA,0x000C4EF7,0x000C4EF4,0x000C4EF1,0x000C4EEE,0x80003A18,0x81003A19,0x82003A1A,0xA80039CE,0xA90039CF],
    [0xAA0039D0,0xAB0039D1,0xAC0039D2,0xAD0039D3,0xAE0039D4,0xAF0039D5,0xB00039D6,0xB10039D7,0xB20039D8,0xB30039D9],
    [0xB40039DA,0xB50039DC,0xB60039DD,0xB70039DE,0xB80039DF,0xB90039E0,0xBA0039F7,0xBB0039F8,0xBC0039F9,0xBD0039FA],
    [0xBE0039FB,0xBF0039FC,0x000C4EEB,0x000C4EE8,0x000C4EE5,0x000C4EE2,0x000C4EDF,0x000C4EDC,0x86003999,0x870039B7],
    [0x000C4ED9,0x000C4ED6,0x000C4ED3,0x000C4ED0,0x000C4ECD,0x000C4ECA,0x000C4EC7,0x000C4EC4,0x000C4EC1,0x000C4EBE],
    [0x000C4EBB,0x000C4EB8,0x000C4EB5,0x000C4EB2,0x000C4EAF,0x000C4EAC,0x000C4EA9,0x000C4EA6,0x000C4EA3,0x000C4EA0],
    [0xE10038E4,0x000C4E9D,0x000C4E9A,0x80003A3A,0x81003A3B,0x82003A3C,0x000C4E97,0x000C4E94,0x000C4E91,0x000C4E8E],
    [0x860039B1,0x87003A09,0x000C4E8B,0xA8003A1C,0xA9003A1D,0xAA003A20,0xAB003A21,0xAC003A22,0xAD003A23,0xAE003A24],
    [0xAF003A25,0xB0003A26,0xB1003A27,0xB2003A28,0xB3003A29,0xB4003A2A,0xB5003A2B,0xB6003A2C,0xB7003A2D,0xB8003A2E],
    [0xB9003A2F,0xBA003A30,0xBB003A31,0xBC003A32,0xBD003A33,0xBE003A35,0xBF003A36,0xA8003A40,0xA9003A72,0xAA003A73],
    [0xAB003A74,0xAC003A75,0xAD003A76,0xAE003A77,0xAF003A78,0xB0003A79,0xB1003A7A,0xB2003A7B,0xB3003A7C,0xB4003A7D],
    [0xB5003A7E,0xB6003A7F,0xB7003A80,0xB8003A81,0xB9003A82,0xBA003A83,0xBB003A84,0xBC003A85,0xBD003A86,0xBE003A87],
    [0xBF003A88,0xE1003912,0x000C4E88,0x000C4E85,0x000C4E82,0x000C4E7F,0x000C4E7C,0x000C4E79,0x000C4E76,0x000C4E73],
    [0x000C4E70,0x000C4E6D,0x000C4E6A,0x000C4E67,0x000C4E64,0x000C4E61,0x000C4E5E,0x000C4E5B,0x000C4E58,0x000C4E55],
    [0x000C4E52,0x000C4E4F,0x000C4E4C,0x000C4E49,0x000C4E46,0x80003A8C,0x81003A8D,0x82003A8E,0x000C4E43,0x000C4E40],
    [0x000C4E3D,0x000C4E3A,0x860039EA,0x87003A43,0xA8003AAA,0xA9003AAB,0xAA003AAD,0xAB003AAE,0xAC003AAF,0xAD003AB0],
    [0xAE003AB1,0xAF003AB2,0xB0003AB3,0xB1003AB4,0xB2003AB5,0xB3003AB6,0xB4003AB7,0xB5003AB8,0xB6003AB9,0xB7003ABA],
    [0xB8003ABB,0xB9003ABC,0xBA003ABD,0xBB003ABE,0xBC003ABF,0xBD003AC0,0xBE003AC1,0xBF003AC2,0x000C4E37,0x000C4E34],
    [0xE1003946,0x000C4E31,0x000C4E2E,0x000C4E2B,0x000C4E28,0x000C4E25,0x000C4E22,0x000C4E1F,0x000C4E1C,0x000C4E19],
    [0x000C4E16,0x000C4E13,0x000C4E10,0x000C4E0D,0x000C4E0A,0x000C4E07,0x000C4E04,0x000C4E01,0x000C4DFE,0x000C4DFB],
    [0x000C4DF8,0x000C4DF5,0x000C4DF2,0x80003AC6,0x81003AC7,0x82003AC8,0x000C4DEF,0x000C4DEC,0x000C4DE9,0x000C4DE6],
    [0x86003A34,0x87003A89,0x000C4DE3,0x000C4DE0,0x000C4DDD,0x000C4DDA,0x000C4DD7,0x000C4DD4,0x000C4DD1,0x000C4DCE],
    [0x000C4DCB,0x000C4DC8,0x000C4DC5,0x000C4DC2,0x000C4DBF,0x000C4DBC,0x000C4DB9,0x000C4DB6,0xA8003ACC,0xA9003ACD],
    [0xAA003ACE,0xAB003ACF,0xAC003AD0,0xAD003AD1,0xAE003AD2,0xAF003AD3,0xB0003AD4,0xB1003AD5,0xB2003AD6,0xB3003AD7],
    [0xB4003AD8,0xB5003AD9,0xB6003ADA,0xB7003ADB,0xB8003AF4,0xB9003AF5,0xBA003AF6,0xBB003AF7,0xBC003AF8,0xBD003AF9],
    [0xBE003AFA,0xBF003AFB,0x000C4DB3,0x000C4DB0,0x000C4DAD,0x000C4DAA,0x000C4DA7,0x000C4DA4,0x000C4DA1,0x000C4D9E],
    [0xE1003998,0x000C4D9B,0x000C4D98,0x000C4D95,0x000C4D92,0x000C4D8F,0x000C4D8C,0x000C4D89,0x000C4D86,0x000C4D83],
    [0x000C4D80,0x000C4D7D,0x000C4D7A,0x80003AFD,0x81003AFE,0x82003AFF,0x000C4D77,0x000C4D74,0x000C4D71,0x000C4D6E],
    [0x86003A8B,0x87003A9F,0x000C4D6B,0x000C4D68,0x000C4D65,0x000C4D62,0x000C4D5F,0x000C4D5C,0x000C4D59,0x000C4D56],
    [0x000C4D53,0x000C4D50,0x000C4D4D,0x000C4D4A,0xE10039B8,0x80003B22,0x81003B23,0x82003B24,0x000C4D47,0x000C4D44],
    [0x000C4D41,0x000C4D3E,0x86003AA3,0x87003AF1,0x000C4D3B,0x000C4D38,0x000C4D35,0x000C4D32,0x000C4D2F,0x000C4D2C],
    [0x000C4D29,0x000C4D26,0x000C4D23,0x000C4D20,0x000C4D1D,0xA8003B01,0xA9003B02,0xAA003B03,0xAB003B04,0xAC003B05],
    [0xAD003B06,0xAE003B07,0xAF003B08,0xB0003B0C,0xB1003B0D,0xB2003B0E,0xB3003B0F,0xB4003B12,0xB5003B13,0xB6003B14],
    [0xB7003B15,0xB8003B16,0xB9003B17,0xBA003B18,0xBB003B19,0xBC003B1A,0xBD003B1B,0xBE003B1C,0xBF003B1D,0xA8003B28],
    [0xA9003B29,0xAA003B2A,0xAB003B2B,0xAC003B2C,0xAD003B2D,0xAE003B2E,0xAF003B2F,0xB0003B30,0xB1003B31,0xB2003B32],
    [0xB3003B63,0xB4003B64,0xB5003B65,0xB6003B66,0xB7003B67,0xB8003B68,0xB9003B69,0xBA003B6A,0xBB003B6B,0xBC003B6C],
    [0xBD003B6D,0xBE003B6E,0xBF003B6F,0x000C4D1A,0x000C4D17,0x000C4D14,0x000C4D11,0x000C4D0E,0x000C4D0B,0x000C4D08],
    [0x000C4D05,0x000C4D02,0x000C4CFF,0x000C4CFC,0x000C4CF9,0x000C4CF6,0xE1003A0A,0x80003B74,0x81003B75,0x82003B76],
    [0x000C4CF3,0x000C4CF0,0x000C4CED,0x000C4CEA,0x86003ADC,0x87003B33,0x000C4CE7,0x000C4CE4,0x000C4CE1,0x000C4CDE],
    [0x000C4CDB,0x000C4CD8,0x000C4CD5,0x000C4CD2,0x000C4CCF,0x000C4CCC,0xA8003B7A,0xA9003B7B,0xAA003B7C,0xAB003B7D],
    [0xAC003B7E,0xAD003B7F,0xAE003B80,0xAF003B81,0xB0003B82,0xB1003B83,0xB2003B9C,0xB3003B9D,0xB4003B9E,0xB5003B9F],
    [0xB6003BA0,0xB7003BA1,0xB8003BA2,0xB9003BA3,0xBA003BA4,0xBB003BA5,0xBC003BA6,0xBD003BA7,0xBE003BA8,0xBF003BA9],
    [0x000C4CC9,0x000C4CC6,0x000C4CC3,0x000C4CC0,0x000C4CBD,0x000C4CBA,0x000C4CB7,0x000C4CB4,0x000C4CB1,0x000C4CAE],
    [0x000C4CAB,0x000C4CA8,0x000C4CA5,0x000C4CA2,0xE1003A44,0x000C4C9F,0x000C4C9C,0x000C4C99,0x000C4C96,0x000C4C93],
    [0x000C4C90,0x000C4C8D,0x000C4C8A,0x80003BAB,0x81003BAC,0x82003BAD,0x000C4C87,0x000C4C84,0x000C4C81,0x000C4C7E],
    [0x86003B1E,0x87003B70,0x000C4C7B,0x000C4C78,0x000C4C75,0x000C4C72,0x000C4C6F,0x000C4C6C,0x000C4C69,0x000C4C66],
    [0x000C4C63,0x000C4C60,0xA8003BAF,0xA9003BB0,0xAA003BB1,0xAB003BB2,0xAC003BB6,0xAD003BB7,0xAE003BB8,0xAF003BB9],
    [0xB0003BBC,0xB1003BBD,0xB2003BBE,0xB3003BBF,0xB4003BC0,0xB5003BC1,0xB6003BC2,0xB7003BC3,0xB8003BC4,0xB9003BC5],
    [0xBA003BDE,0xBB003BDF,0xBC003BE0,0xBD003BE2,0xBE003BE3,0xBF003BE4,0x000C4C5D,0x000C4C5A,0x000C4C57,0xE1003A8A],
    [0x000C4C54,0x000C4C51,0x000C4C4E,0x000C4C4B,0x000C4C48,0x000C4C45,0x000C4C42,0x000C4C3F,0x000C4C3C,0x000C4C39],
    [0x000C4C36,0x000C4C33,0x000C4C30,0x000C4C2D,0x80003BE5,0x81003BE6,0x82003BE7,0x000C4C2A,0x000C4C27,0x000C4C24],
    [0x000C4C21,0x86003B5F,0x87003BAA,0x000C4C1E,0x000C4C1B,0x000C4C18,0x000C4C15,0x000C4C12,0x000C4C0F,0x000C4C0C],
    [0x000C4C09,0x000C4C06,0x000C4C03,0x000C4C00,0x000C4BFD,0x000C4BFA,0xE1003AA0,0xA8003BE9,0xA9003BEA,0xAA003BEB],
    [0xAB003BEC,0xAC003BED,0xAD003BEE,0xAE003BEF,0xAF003BF3,0xB0003BF4,0xB1003BF5,0xB2003BF6,0xB3003BF9,0xB4003BFA],
    [0xB5003BFB,0xB6003BFC,0xB7003BFD,0xB8003BFE,0xB9003BFF,0xBA003C00,0xBB003C01,0xBC003C02,0xBD003C03,0xBE003C04],
    [0xBF003C05,0x000C4BF7,0x000C4BF4,0x000C4BF1,0x000C4BEE,0x000C4BEB,0x000C4BE8,0x000C4BE5,0x000C4BE2,0x000C4BDF],
    [0x000C4BDC,0x000C4BD9,0x80003C1F,0x81003C20,0x82003C21,0x000C4BD6,0x000C4BD3,0x000C4BD0,0x000C4BCD,0x000C4BCA],
    [0x000C4BC7,0x000C4BC4,0x000C4BC1,0x000C4BBE,0x000C4BBB,0x000C4BB8,0x000C4BB5,0x86003B93,0x87003BD9,0xA8003C23],
    [0xA9003C24,0xAA003C25,0xAB003C26,0xAC003C27,0xAD003C28,0xAE003C29,0xAF003C2D,0xB0003C2E,0xB1003C2F,0xB2003C30],
    [0xB3003C31,0xB4003C32,0xB5003C33,0xB6003C34,0xB7003C35,0xB8003C36,0xB9003C37,0xBA003C38,0xBB003C53,0xBC003C54],
    [0xBD003C55,0xBE003C56,0xBF003C57,0x000C4BB2,0x000C4BAF,0x000C4BAC,0x000C4BA9,0x000C4BA6,0xE1003AF2,0x80003C5C],
    [0x81003C5D,0x82003C5E,0x000C4BA3,0x000C4BA0,0x000C4B9D,0x000C4B9A,0x86003BBA,0x87003C13,0xA8003C7A,0xA9003C7B],
    [0xAA003C7C,0xAB003C7D,0xAC003C7E,0xAD003C7F,0xAE003C80,0xAF003C81,0xB0003C82,0xB1003C83,0xB2003C84,0xB3003C85],
    [0xB4003C86,0xB5003C87,0xB6003C88,0xB7003C89,0xB8003C8A,0xB9003C8B,0xBA003C8C,0xBB003C8D,0xBC003C8E,0xBD003C90],
    [0xBE003C91,0xBF003C92,0x000C4B97,0x000C4B94,0x000C4B91,0x000C4B8E,0x000C4B8B,0x000C4B88,0x000C4B85,0x000C4B82],
    [0x000C4B7F,0x000C4B7C,0x000C4B79,0x000C4B76,0x000C4B73,0x000C4B70,0x000C4B6D,0x000C4B6A,0x000C4B67,0x000C4B64],
    [0x000C4B61,0x000C4B5E,0x000C4B5B,0xE1003B34,0x000C4B58,0x000C4B55,0x000C4B52,0x80003C96,0x81003C97,0x82003C98],
    [0x000C4B4F,0x000C4B4C,0x000C4B49,0x000C4B46,0x86003BF7,0x87003C4D,0x000C4B43,0x000C4B40,0x000C4B3D,0xA8003C9C],
    [0xA9003C9D,0xAA003C9E,0xAB003CB7,0xAC003CB8,0xAD003CB9,0xAE003CBA,0xAF003CBB,0xB0003CBC,0xB1003CBD,0xB2003CBE],
    [0xB3003CBF,0xB4003CC0,0xB5003CC1,0xB6003CC2,0xB7003CC3,0xB8003CC4,0xB9003CC5,0xBA003CC6,0xBB003CC7,0xBC003CC8],
    [0xBD003CCA,0xBE003CCB,0xBF003CCC,0x000C4B3A,0x000C4B37,0x000C4B34,0x000C4B31,0x000C4B2E,0x000C4B2B,0x000C4B28],
    [0x000C4B25,0x000C4B22,0x000C4B1F,0x000C4B1C,0x000C4B19,0x000C4B16,0x000C4B13,0x000C4B10,0x000C4B0D,0x000C4B0A],
    [0x000C4B07,0xE1003B71,0x000C4B04,0x000C4B01,0x000C4AFE,0x80003CD0,0x81003CD1,0x82003CD2,0x000C4AFB,0x000C4AF8],
    [0x000C4AF5,0x000C4AF2,0x86003C39,0x87003C8F,0x000C4AEF,0x000C4AEC,0x000C4AE9,0x000C4AE6,0x000C4AE3,0x000C4AE0],
    [0x000C4ADD,0x000C4ADA,0x000C4AD7,0x000C4AD4,0x000C4AD1,0xA8003CD6,0xA9003CD7,0xAA003CD8,0xAB003CD9,0xAC003CDA],
    [0xAD003CDB,0xAE003CDC,0xAF003CDD,0xB0003CDE,0xB1003CDF,0xB2003CE0,0xB3003CF9,0xB4003CFA,0xB5003CFB,0xB6003CFC],
    [0xB7003CFD,0xB8003CFE,0xB9003CFF,0xBA003D00,0xBB003D01,0xBC003D02,0xBD003D04,0xBE003D05,0xBF003D06,0x000C4ACE],
    [0x000C4ACB,0x000C4AC8,0x000C4AC5,0x000C4AC2,0x000C4ABF,0x000C4ABC,0x000C4AB9,0x000C4AB6,0x000C4AB3,0xE1003BB3],
    [0x000C4AB0,0x000C4AAD,0x000C4AAA,0x000C4AA7,0x000C4AA4,0x000C4AA1,0x000C4A9E,0x000C4A9B,0x000C4A98,0x000C4A95],
    [0x000C4A92,0x80003D07,0x81003D08,0x82003D09,0x000C4A8F,0x000C4A8C,0x000C4A89,0x000C4A86,0x000C4A83,0x000C4A80],
    [0x000C4A7D,0x86003C73,0x87003CC9,0xA8003D0B,0xA9003D0C,0xAA003D0D,0xAB003D0E,0xAC003D12,0xAD003D13,0xAE003D14],
    [0xAF003D15,0xB0003D16,0xB1003D17,0xB2003D18,0xB3003D33,0xB4003D34,0xB5003D35,0xB6003D36,0xB7003D37,0xB8003D38],
    [0xB9003D39,0xBA003D3A,0xBB003D3B,0xBC003D3C,0xBD003D3D,0xBE003D3E,0xBF003D3F,0x000C4A7A,0x000C4A77,0x000C4A74],
    [0x000C4A71,0x000C4A6E,0x000C4A6B,0x000C4A68,0x000C4A65,0x000C4A62,0x000C4A5F,0x000C4A5C,0x000C4A59,0x000C4A56],
    [0xE1003BDA,0x000C4A53,0x000C4A50,0x000C4A4D,0x000C4A4A,0x000C4A47,0x000C4A44,0x000C4A41,0x000C4A3E,0x80003D41],
    [0x81003D42,0x82003D43,0x000C4A3B,0x000C4A38,0x000C4A35,0x000C4A32,0x000C4A2F,0x000C4A2C,0x000C4A29,0x86003CAD],
    [0x87003D03,0xA8003D45,0xA9003D46,0xAA003D47,0xAB003D48,0xAC003D4C,0xAD003D4D,0xAE003D4E,0xAF003D4F,0xB0003D50],
    [0xB1003D51,0xB2003D52,0xB3003D6D,0xB4003D6E,0xB5003D6F,0xB6003D70,0xB7003D71,0xB8003D72,0xB9003D73,0xBA003D74],
    [0xBB003D75,0xBC003D76,0xBD003D77,0xBE003D78,0xBF003D79,0x000C4A26,0x000C4A23,0x000C4A20,0x000C4A1D,0x000C4A1A],
    [0x000C4A17,0x000C4A14,0x000C4A11,0x000C4A0E,0x000C4A0B,0x000C4A08,0x000C4A05,0x000C4A02,0xE1003C14,0x000C49FF],
    [0x000C49FC,0x000C49F9,0x000C49F6,0x000C49F3,0x000C49F0,0x000C49ED,0x000C49EA,0x80003D7B,0x81003D7C,0x82003D7D],
    [0x000C49E7,0x000C49E4,0x000C49E1,0x000C49DE,0x000C49DB,0x000C49D8,0x000C49D5,0x000C49D2,0x000C49CF,0x000C49CC],
    [0x000C49C9,0x000C49C6,0x000C49C3,0x000C49C0,0x000C49BD,0x86003CEF,0x87003D40,0xA8003D7F,0xA9003D80,0xAA003D81],
    [0xAB003D82,0xAC003D86,0xAD003D87,0xAE003D88,0xAF003D89,0xB0003D8A,0xB1003D8B,0xB2003D8C,0xB3003D8D,0xB4003D8E],
    [0xB5003D8F,0xB6003D90,0xB7003D91,0xB8003D92,0xB9003D93,0xBA003D94,0xBB003DAF,0xBC003DB0,0xBD003DB1,0xBE003DB2],
    [0xBF003DB3,0x000C49BA,0x000C49B7,0x000C49B4,0x000C49B1,0x000C49AE,0xE1003C4E,0x000C49AB,0x000C49A8,0x000C49A5],
    [0x000C49A2,0x000C499F,0x000C499C,0x000C4999,0x000C4996,0x000C4993,0x000C4990,0x000C498D,0x80003DB5,0x81003DB6],
    [0x82003DB7,0x000C498A,0x000C4987,0x000C4984,0x000C4981,0x000C497E,0x000C497B,0x000C4978,0x000C4975,0x000C4972],
    [0x000C496F,0x000C496C,0x000C4969,0x86003D29,0x87003D7A,0xA8003DB9,0xA9003DBA,0xAA003DBB,0xAB003DBC,0xAC003DBD],
    [0xAD003DBE,0xAE003DBF,0xAF003DC3,0xB0003DC4,0xB1003DC5,0xB2003DC6,0xB3003DC7,0xB4003DC8,0xB5003DC9,0xB6003DCA]]"

definition NODES_11 :: "nat list list" where
  "NODES_11 = [
    [0xB7003DCB,0xB8003DCC,0xB9003DCD,0xBA003DCE,0xBB003DE9,0xBC003DEA,0xBD003DEC,0xBE003DED,0xBF003DEE,0x000C4966],
    [0x000C4963,0xE1003C93,0x000C4960,0x000C495D,0x000C495A,0x000C4957,0x000C4954,0x000C4951,0x000C494E,0x000C494B],
    [0x000C4948,0x000C4945,0x000C4942,0x000C493F,0x000C493C,0x000C4939,0x80003DEF,0x81003DF0,0x82003DF1,0x000C4936],
    [0x000C4933,0x000C4930,0x000C492D,0x000C492A,0x000C4927,0x000C4924,0x000C4921,0x000C491E,0x000C491B,0x000C4918],
    [0x000C4915,0x86003D63,0x87003DA9,0xA8003DF3,0xA9003DF4,0xAA003DF5,0xAB003DF6,0xAC003DF7,0xAD003DF8,0xAE003DF9],
    [0xAF003DFD,0xB0003DFE,0xB1003DFF,0xB2003E00,0xB3003E01,0xB4003E02,0xB5003E03,0xB6003E04,0xB7003E05,0xB8003E06],
    [0xB9003E07,0xBA003E08,0xBB003E23,0xBC003E24,0xBD003E26,0xBE003E27,0xBF003E28,0x000C4912,0x000C490F,0xE1003CCD],
    [0x000C490C,0x000C4909,0x000C4906,0x80003E2C,0x81003E2D,0x82003E2E,0x000C4903,0x000C4900,0x000C48FD,0x000C48FA],
    [0x86003D95,0x87003DE3,0x000C48F7,0x000C48F4,0x000C48F1,0x000C48EE,0x000C48EB,0x000C48E8,0x000C48E5,0x000C48E2],
    [0x000C48DF,0x000C48DC,0x000C48D9,0xA8003E32,0xA9003E33,0xAA003E34,0xAB003E35,0xAC003E36,0xAD003E37,0xAE003E38],
    [0xAF003E39,0xB0003E3A,0xB1003E3B,0xB2003E3C,0xB3003E55,0xB4003E56,0xB5003E57,0xB6003E58,0xB7003E59,0xB8003E5A],
    [0xB9003E5B,0xBA003E5C,0xBB003E5D,0xBC003E5E,0xBD003E60,0xBE003E61,0xBF003E62,0x000C48D6,0x000C48D3,0x000C48D0],
    [0x000C48CD,0x000C48CA,0x000C48C7,0x000C48C4,0x000C48C1,0x000C48BE,0x000C48BB,0xE1003D0F,0x000C48B8,0x000C48B5],
    [0x000C48B2,0x80003E66,0x81003E67,0x82003E68,0x000C48AF,0x000C48AC,0x000C48A9,0x000C48A6,0x86003DCF,0x87003E1D],
    [0x000C48A3,0x000C48A0,0x000C489D,0x000C489A,0x000C4897,0x000C4894,0x000C4891,0x000C488E,0x000C488B,0x000C4888],
    [0x000C4885,0xA8003E6C,0xA9003E6D,0xAA003E6E,0xAB003E6F,0xAC003E70,0xAD003E71,0xAE003E72,0xAF003E73,0xB0003E74],
    [0xB1003E75,0xB2003E76,0xB3003E8F,0xB4003E90,0xB5003E91,0xB6003E92,0xB7003E93,0xB8003E94,0xB9003E95,0xBA003E96],
    [0xBB003E97,0xBC003E98,0xBD003E9A,0xBE003E9B,0xBF003E9C,0x000C4882,0x000C487F,0x000C487C,0x000C4879,0x000C4876],
    [0x000C4873,0x000C4870,0x000C486D,0x000C486A,0x000C4867,0xE1003D49,0x000C4864,0x000C4861,0x000C485E,0x80003EA0],
    [0x81003EA1,0x82003EA2,0x000C485B,0x000C4858,0x000C4855,0xE1003E1F,0x85003E09,0x000C4852,0x86003E30,0x87003E77],
    [0x000C484F,0x000C484C,0xA1003EA5,0xA2003EF1,0xA3003F2E,0xA4003F68,0xA5003FA2,0xA6003FDC,0xA7004016,0xA800404D],
    [0xA900408A,0xAA0040C4,0xAB0040FB,0xAC004135,0xAD004172,0xAE0041A9,0xAF0041E3,0xB000421D,0xB100425A,0xB2004291],
    [0xB30042B2,0xB4004305,0xB5004342,0x000C4849,0x000C4846,0x000C4843,0x000C4840,0x000C483D,0x000C483A,0x000C4837],
    [0x000C4834,0x000C4831,0x000C482E,0x000C482B,0x000C4828,0x000C4825,0x000C4822,0x000C481F,0x000C481C,0x000C4819],
    [0x000C4816,0x000C4813,0x000C4810,0xE1003D83,0x000C480D,0x000C480A,0x000C4807,0x000C4804,0xA8003EA8,0xA9003EA9],
    [0xAA003EBF,0xAB003EC0,0xAC003EC1,0xAD003EC2,0xAE003EC3,0xAF003EC4,0xB0003EC5,0xB1003EC6,0xB2003EC7,0xB3003EC8],
    [0xB4003EC9,0xB5003ECA,0xB6003ECB,0xB7003ECC,0xB8003ECD,0xB9003ECE,0xBA003ECF,0xBB003ED0,0xBC003ED1,0xBD003ED2],
    [0xBE003ED4,0xBF003ED5,0x000C4801,0x000C47FE,0x000C47FB,0x000C47F8,0x000C47F5,0x000C47F2,0x000C47EF,0x80003ED6],
    [0x81003ED7,0x82003EF0,0x000C47EC,0x000C47E9,0x000C47E6,0x000C47E3,0x86003E6A,0x87003EAA,0x000C47E0,0x000C47DD],
    [0x000C47DA,0x000C47D7,0x000C47D4,0x000C47D1,0x000C47CE,0x000C47CB,0x000C47C8,0x000C47C5,0x000C47C2,0x000C47BF],
    [0x000C47BC,0x000C47B9,0x000C47B6,0x000C47B3,0xE1003DAA,0x000C47B0,0xA8003EF2,0xA9003EF3,0xAA003EF4,0xAB003EF5],
    [0xAC003EF6,0xAD003EFA,0xAE003EFB,0xAF003EFC,0xB0003EFD,0xB1003F00,0xB2003F01,0xB3003F02,0xB4003F03,0xB5003F04],
    [0xB6003F05,0xB7003F06,0xB8003F07,0xB9003F08,0xBA003F09,0xBB003F0A,0xBC003F0B,0xBD003F0C,0xBE003F0D,0xBF003F0E],
    [0x80003F0F,0x81003F11,0x82003F2D,0x000C47AD,0x000C47AA,0x000C47A7,0x000C47A4,0x86003EA3,0x87003EE3,0x000C47A1],
    [0x000C479E,0x000C479B,0x000C4798,0x000C4795,0x000C4792,0x000C478F,0x000C478C,0x000C4789,0x000C4786,0x000C4783],
    [0x000C4780,0x000C477D,0x000C477A,0x000C4777,0x000C4774,0x000C4771,0x000C476E,0x000C476B,0x000C4768,0x000C4765],
    [0x000C4762,0x000C475F,0xE1003DE4,0xA8003F2F,0xA9003F30,0xAA003F33,0xAB003F34,0xAC003F35,0xAD003F36,0xAE003F37],
    [0xAF003F38,0xB0003F39,0xB1003F3A,0xB2003F3B,0xB3003F3C,0xB4003F3D,0xB5003F3E,0xB6003F3F,0xB7003F40,0xB8003F41],
    [0xB9003F42,0xBA003F43,0xBB003F44,0xBC003F45,0xBD003F46,0xBE003F47,0xBF003F48,0x80003F49,0x81003F66,0x82003F67],
    [0x000C475C,0x000C4759,0x000C4756,0x000C4753,0x86003EDF,0x87003F1F,0x000C4750,0x000C474D,0x000C474A,0x000C4747],
    [0x000C4744,0x000C4741,0x000C473E,0x000C473B,0x000C4738,0x000C4735,0x000C4732,0x000C472F,0x000C472C,0x000C4729],
    [0x000C4726,0x000C4723,0x000C4720,0x000C471D,0x000C471A,0x000C4717,0x000C4714,0x000C4711,0x000C470E,0x000C470B],
    [0x000C4708,0x000C4705,0xE1003E20,0xA8003F69,0xA9003F6C,0xAA003F6D,0xAB003F6E,0xAC003F6F,0xAD003F70,0xAE003F71],
    [0xAF003F72,0xB0003F73,0xB1003F74,0xB2003F75,0xB3003F76,0xB4003F77,0xB5003F78,0xB6003F79,0xB7003F7A,0xB8003F7B],
    [0xB9003F7C,0xBA003F7D,0xBB003F7E,0xBC003F7F,0xBD003F80,0xBE003F81,0xBF003F82,0x80003F83,0x81003F84,0x82003F85],
    [0x000C4702,0x86003EFE,0x87003F56,0x000C46FF,0xA8003FA5,0xA9003FBE,0xAA003FBF,0xAB003FC0,0xAC003FC1,0xAD003FC2],
    [0xAE003FC3,0xAF003FC4,0xB0003FC5,0xB1003FC6,0xB2003FC7,0xB3003FC8,0xB4003FC9,0xB5003FCA,0xB6003FCB,0xB7003FCC],
    [0xB8003FCD,0xB9003FCE,0xBA003FCF,0xBB003FD0,0xBC003FD1,0xBD003FD3,0xBE003FD4,0xBF003FD5,0x000C46FC,0x000C46F9],
    [0x000C46F6,0x000C46F3,0x000C46F0,0x000C46ED,0x000C46EA,0x000C46E7,0x000C46E4,0x000C46E1,0x000C46DE,0x000C46DB],
    [0x000C46D8,0x000C46D5,0x000C46D2,0x000C46CF,0x000C46CC,0x000C46C9,0x000C46C6,0x000C46C3,0xE1003E78,0x000C46C0],
    [0x000C46BD,0x000C46BA,0x80003FD9,0x81003FDA,0x82003FDB,0x000C46B7,0x000C46B4,0x000C46B1,0x000C46AE,0x86003F4A],
    [0x87003F90,0x000C46AB,0x000C46A8,0x000C46A5,0x000C46A2,0x000C469F,0x000C469C,0x000C4699,0x000C4696,0x000C4693],
    [0x000C4690,0x000C468D,0x000C468A,0x000C4687,0x000C4684,0x000C4681,0x000C467E,0x000C467B,0x000C4678,0x000C4675],
    [0xA8003FDF,0xA9003FE0,0xAA003FE1,0xAB003FE2,0xAC003FE3,0xAD003FE4,0xAE003FE5,0xAF003FE6,0xB0003FE7,0xB1003FE8],
    [0xB2003FE9,0xB3003FEA,0xB4003FEB,0xB5003FEC,0xB6003FED,0xB7003FEE,0xB8003FEF,0xB9003FF0,0xBA003FF1,0xBB00400A],
    [0xBC00400B,0xBD00400C,0xBE00400D,0xBF00400E,0x000C4672,0x000C466F,0x000C466C,0x000C4669,0x000C4666,0xE1003EAB],
    [0x80004013,0x81004014,0x82004015,0x000C4663,0x000C4660,0x000C465D,0x000C465A,0x86003F86,0x87003FD2,0x000C4657],
    [0x000C4654,0x000C4651,0x000C464E,0x000C464B,0x000C4648,0x000C4645,0x000C4642,0x000C463F,0x000C463C,0x000C4639],
    [0x000C4636,0x000C4633,0x000C4630,0x000C462D,0x000C462A,0x000C4627,0x000C4624,0x000C4621,0x000C461E,0x000C461B],
    [0xA8004019,0xA900401A,0xAA00401B,0xAB00401C,0xAC00401D,0xAD00401E,0xAE00401F,0xAF004020,0xB0004021,0xB1004022],
    [0xB2004023,0xB3004024,0xB4004025,0xB5004026,0xB6004027,0xB7004028,0xB8004029,0xB900402A,0xBA00402B,0xBB00402C],
    [0xBC00402D,0xBD004046,0xBE004047,0xBF004048,0x000C4618,0x000C4615,0x000C4612,0xE1003EE4,0x000C460F,0x000C460C],
    [0x000C4609,0x000C4606,0x000C4603,0x000C4600,0x000C45FD,0x000C45FA,0x8000404A,0x8100404B,0x8200404C,0x000C45F7],
    [0x000C45F4,0x000C45F1,0x000C45EE,0x000C45EB,0x000C45E8,0x000C45E5,0x86003FB6,0x87004004,0xA800404E,0xA900404F],
    [0xAA004050,0xAB004051,0xAC004055,0xAD004056,0xAE004057,0xAF004058,0xB0004059,0xB100405A,0xB200405B,0xB3004076],
    [0xB4004077,0xB5004078,0xB6004079,0xB700407A,0xB800407B,0xB900407C,0xBA00407D,0xBB00407E,0xBC00407F,0xBD004080],
    [0xBE004081,0xBF004082,0x000C45E2,0x000C45DF,0x000C45DC,0x000C45D9,0x000C45D6,0x000C45D3,0x000C45D0,0x000C45CD],
    [0x000C45CA,0x000C45C7,0x000C45C4,0x000C45C1,0x000C45BE,0xE1003F1D,0x80004087,0x81004088,0x82004089,0x000C45BB],
    [0x000C45B8,0x000C45B5,0x000C45B2,0x86003FF2,0x8700403E,0x000C45AF,0x000C45AC,0x000C45A9,0x000C45A6,0x000C45A3],
    [0x000C45A0,0x000C459D,0x000C459A,0x000C4597,0x000C4594,0x000C4591,0x000C458E,0x000C458B,0xA800408D,0xA900408E],
    [0xAA00408F,0xAB004090,0xAC004091,0xAD004092,0xAE004093,0xAF004094,0xB0004095,0xB1004096,0xB2004097,0xB3004098],
    [0xB4004099,0xB50040B2,0xB60040B3,0xB70040B4,0xB80040B5,0xB90040B6,0xBA0040B7,0xBB0040B8,0xBC0040B9,0xBD0040BA],
    [0xBE0040BB,0xBF0040BC,0x000C4588,0x000C4585,0x000C4582,0x000C457F,0x000C457C,0x000C4579,0x000C4576,0x000C4573],
    [0x000C4570,0x000C456D,0x000C456A,0xE1003F57,0x800040C1,0x810040C2,0x820040C3,0x000C4567,0x000C4564,0x000C4561],
    [0x000C455E,0x8600402E,0x87004083,0x000C455B,0x000C4558,0x000C4555,0x000C4552,0x000C454F,0x000C454C,0x000C4549],
    [0x000C4546,0x000C4543,0x000C4540,0x000C453D,0x000C453A,0x000C4537,0x000C4534,0x000C4531,0xA80040C7,0xA90040C8],
    [0xAA0040C9,0xAB0040CA,0xAC0040CB,0xAD0040CC,0xAE0040CD,0xAF0040CE,0xB00040CF,0xB10040D0,0xB20040D1,0xB30040D2],
    [0xB40040D3,0xB50040D4,0xB60040D5,0xB70040EE,0xB80040EF,0xB90040F0,0xBA0040F1,0xBB0040F2,0xBC0040F3,0xBD0040F4],
    [0xBE0040F5,0xBF0040F6,0x000C452E,0x000C452B,0x000C4528,0x000C4525,0x000C4522,0x000C451F,0x000C451C,0x000C4519],
    [0x000C4516,0xE1003F91,0x000C4513,0x000C4510,0x000C450D,0x000C450A,0x000C4507,0x000C4504,0x000C4501,0x000C44FE],
    [0x000C44FB,0x000C44F8,0x000C44F5,0x800040F8,0x810040F9,0x820040FA,0x000C44F2,0x000C44EF,0x000C44EC,0x000C44E9],
    [0x86004064,0x870040BD,0xA80040FC,0xA90040FD,0xAA0040FE,0xAB0040FF,0xAC004100,0xAD004101,0xAE004102,0xAF004106],
    [0xB0004107,0xB1004108,0xB2004109,0xB3004124,0xB4004125,0xB5004126,0xB6004127,0xB7004128,0xB8004129,0xB900412A],
    [0xBA00412B,0xBB00412C,0xBC00412D,0xBD00412F,0xBE004130,0xBF004131,0x000C44E6,0x000C44E3,0x000C44E0,0x000C44DD],
    [0x000C44DA,0x000C44D7,0x000C44D4,0x000C44D1,0x000C44CE,0x000C44CB,0xE1003FD6,0x000C44C8,0x000C44C5,0x000C44C2],
    [0x000C44BF,0x000C44BC,0x000C44B9,0x000C44B6,0x8600409A,0x870040EC,0x000C44B3,0x000C44B0,0x000C44AD,0x000C44AA],
    [0x000C44A7,0x80004132,0x81004133,0x82004134,0x000C44A4,0x000C44A1,0xA8004138,0xA9004139,0xAA00413A,0xAB00413B],
    [0xAC00413C,0xAD004140,0xAE004141,0xAF00415A,0xB000415B,0xB100415C,0xB200415D,0xB300415E,0xB400415F,0xB5004160],
    [0xB6004161,0xB7004162,0xB8004163,0xB9004164,0xBA004165,0xBB004166,0xBC004167,0xBD004168,0xBE004169,0xBF00416A],
    [0x000C449E,0x000C449B,0x000C4498,0x000C4495,0x000C4492,0x000C448F,0x000C448C,0x000C4489,0x000C4486,0x000C4483],
    [0x000C4480,0x000C447D,0x000C447A,0x000C4477,0x000C4474,0x000C4471,0x000C446E,0xE1004005,0x8000416F,0x81004170],
    [0x82004171,0x000C446B,0x000C4468,0x000C4465,0x000C4462,0x860040D6,0x8700412E,0x000C445F,0x000C445C,0x000C4459],
    [0x000C4456,0x000C4453,0x000C4450,0x000C444D,0x000C444A,0x000C4447,0xA8004175,0xA9004176,0xAA004177,0xAB004178],
    [0xAC004179,0xAD00417A,0xAE00417B,0xAF00417C,0xB000417D,0xB1004196,0xB2004197,0xB3004198,0xB4004199,0xB500419A],
    [0xB600419B,0xB700419C,0xB800419D,0xB900419E,0xBA00419F,0xBB0041A0,0xBC0041A1,0xBD0041A2,0xBE0041A3,0xBF0041A4],
    [0x000C4444,0x000C4441,0x000C443E,0x000C443B,0x000C4438,0x000C4435,0x000C4432,0x000C442F,0x000C442C,0x000C4429],
    [0x000C4426,0x000C4423,0x000C4420,0x000C441D,0x000C441A,0xE100403F,0x000C4417,0x000C4414,0x000C4411,0x000C440E],
    [0x000C440B,0x000C4408,0x000C4405,0x000C4402,0x800041A6,0x810041A7,0x820041A8,0x000C43FF,0x000C43FC,0x000C43F9],
    [0x000C43F6,0x000C43F3,0x000C43F0,0x000C43ED,0x000C43EA,0x000C43E7,0x000C43E4,0x000C43E1,0x86004116,0x8700416B],
    [0xA80041AA,0xA90041AB,0xAA0041AC,0xAB0041AD,0xAC0041B1,0xAD0041B2,0xAE0041B3,0xAF0041B4,0xB00041B5,0xB10041B6],
    [0xB20041B7,0xB30041B8,0xB40041B9,0xB50041BA,0xB60041BB,0xB70041D6,0xB80041D7,0xB90041D8,0xBA0041D9,0xBB0041DA],
    [0xBC0041DB,0xBD0041DD,0xBE0041DE,0xBF0041DF,0x000C43DE,0x000C43DB,0x000C43D8,0x000C43D5,0x000C43D2,0x000C43CF],
    [0xE1004084,0x000C43CC,0x000C43C9,0x000C43C6,0x000C43C3,0x000C43C0,0x000C43BD,0x000C43BA,0x000C43B7,0x000C43B4],
    [0x000C43B1,0x000C43AE,0x000C43AB,0x000C43A8,0x000C43A5,0x800041E0,0x810041E1,0x820041E2,0x000C43A2,0x000C439F],
    [0x000C439C,0x000C4399,0x8600414C,0x870041A5,0xA80041E4,0xA90041E5,0xAA0041E6,0xAB0041E7,0xAC0041E8,0xAD0041E9],
    [0xAE0041EA,0xAF0041EE,0xB00041EF,0xB10041F0,0xB20041F1,0xB300420C,0xB400420D,0xB500420E,0xB600420F,0xB7004210],
    [0xB8004211,0xB9004212,0xBA004213,0xBB004214,0xBC004215,0xBD004217,0xBE004218,0xBF004219,0x000C4396,0x000C4393],
    [0x000C4390,0x000C438D,0x000C438A,0x000C4387,0x000C4384,0x000C4381,0x000C437E,0x000C437B,0xE10040B0,0x000C4378],
    [0x000C4375,0x000C4372,0x000C436F,0x000C436C,0x000C4369,0x000C4366,0x000C4363,0x000C4360,0x000C435D,0x000C435A],
    [0x000C4357,0x000C4354,0x000C4351,0x8000421A,0x8100421B,0x8200421C,0x000C434E,0x000C434B,0x000C4348,0x000C4345],
    [0x000C4342,0x000C433F,0x000C433C,0x000C4339,0x000C4336,0x000C4333,0x000C4330,0x000C432D,0x8600418E,0x870041D4],
    [0xA800421E,0xA900421F,0xAA004220,0xAB004221,0xAC004222,0xAD004223,0xAE004224,0xAF004228,0xB0004229,0xB100422A],
    [0xB200422B,0xB300422C,0xB400422D,0xB500422E,0xB600422F,0xB7004230,0xB8004231,0xB9004232,0xBA004233,0xBB00424E],
    [0xBC00424F,0xBD004250,0xBE004251,0xBF004252,0x000C432A,0x000C4327,0x000C4324,0x000C4321,0x000C431E,0xE10040ED],
    [0x80004257,0x81004258,0x82004259,0x000C431B,0x000C4318,0x000C4315,0x000C4312,0x860041BC,0x87004216,0x000C430F],
    [0x000C430C,0x000C4309,0x000C4306,0x000C4303,0x000C4300,0x000C42FD,0xA800425D,0xA900425E,0xAA00425F,0xAB004260],
    [0xAC004261,0xAD004262,0xAE004263,0xAF00427C,0xB000427D,0xB100427E,0xB200427F,0xB3004280,0xB4004281,0xB5004282],
    [0xB6004283,0xB7004284,0xB8004285,0xB9004286,0xBA004287,0xBB004288,0xBC004289,0xBD00428B,0xBE00428C,0xBF00428D],
    [0x000C42FA,0x000C42F7,0x000C42F4,0x000C42F1,0x000C42EE,0x000C42EB,0x000C42E8,0x000C42E5,0x000C42E2,0x000C42DF],
    [0x000C42DC,0x000C42D9,0x000C42D6,0x000C42D3,0xE1004136,0x000C42D0,0x000C42CD,0x000C42CA,0x000C42C7,0x000C42C4],
    [0x000C42C1,0x000C42BE,0x000C42BB,0x000C42B8,0x000C42B5,0x000C42B2,0x8000428E,0x8100428F,0x82004290,0x000C42AF],
    [0x000C42AC,0x000C42A9,0x000C42A6,0x000C42A3,0x000C42A0,0x000C429D,0x000C429A,0x000C4297,0x000C4294,0x000C4291],
    [0x000C428E,0x000C428B,0x000C4288,0x000C4285,0x000C4282,0x000C427F,0x000C427C,0x86004226,0x87004234,0x000C4279],
    [0x000C4276,0x000C4273,0x000C4270,0x000C426D,0x000C426A,0x000C4267,0x800042AF,0x810042B0,0x820042B1,0x000C4264],
    [0x000C4261,0x000C425E,0x000C425B,0x8600423E,0x8700428A,0x000C4258,0x000C4255,0x000C4252,0x000C424F,0x000C424C],
    [0x000C4249,0x000C4246,0xE100416C,0x000C4243,0x000C4240,0x000C423D,0x000C423A,0x000C4237,0x000C4234,0x000C4231],
    [0x000C422E,0x000C422B,0xA8004292,0xA9004293,0xAA004294,0xAB004295,0xAC004299,0xAD00429A,0xAE00429B,0xAF00429C],
    [0xB000429D,0xB100429E,0xB200429F,0xB30042A0,0xB40042A1,0xB50042A2,0xB60042A3,0xB70042A4,0xB80042A5,0xB90042A6],
    [0xBA0042A7,0xBB0042A8,0xBC0042A9,0xBD0042AA,0xBE0042AD,0xBF0042AE,0xA80042B3,0xA90042B7,0xAA0042B8,0xAB0042B9],
    [0xAC0042BA,0xAD0042BD,0xAE0042BE,0xAF0042BF,0xB00042C0,0xB10042C1,0xB20042C2,0xB30042C3,0xB40042C5,0xB50042C6],
    [0xB60042C7,0xB70042C8,0xB80042C9,0xB90042CA,0xBA0042CB,0xBB0042CC,0xBC0042CD,0xBD0042FF,0xBE004300,0xBF004301],
    [0xE10041AE,0x000C4228,0x000C4225,0x000C4222,0x000C421F,0x000C421C,0x000C4219,0x000C4216,0x000C4213,0x000C4210],
    [0x000C420D,0x000C420A,0x80004302,0x81004303,0x82004304,0x000C4207,0x000C4204,0x000C4201,0x000C41FE,0x000C41FB],
    [0x000C41F8,0x000C41F5,0x000C41F2,0x000C41EF,0x000C41EC,0x000C41E9,0x000C41E6,0x000C41E3,0x000C41E0,0x000C41DD],
    [0x86004276,0x870042BC,0xA8004306,0xA9004307,0xAA004308,0xAB004309,0xAC00430D,0xAD00430E,0xAE00430F,0xAF004310],
    [0xB0004311,0xB1004312,0xB2004313,0xB3004314,0xB4004315,0xB5004316,0xB6004317,0xB7004318,0xB8004319,0xB900431A],
    [0xBA00431B,0xBB004336,0xBC004337,0xBD004338,0xBE004339,0xBF00433A,0x000C41DA,0x000C41D7,0x000C41D4,0x000C41D1],
    [0x000C41CE,0xE10041D5,0x8000433F,0x81004340,0x82004341,0x000C41CB,0x000C41C8,0x000C41C5,0x000C41C2,0x000C41BF],
    [0x000C41BC,0x000C41B9,0x000C41B6,0x000C41B3,0x000C41B0,0x000C41AD,0x860042AB,0x870042F6,0x000C41AA,0x000C41A7],
    [0x000C41A4,0x000C41A1,0x000C419E,0x000C419B,0x000C4198,0xA8004343,0xA9004344,0xAA004345,0xAB004346,0xAC004347],
    [0xAD004348,0xAE004349,0xAF00434C,0xB000434D,0xB100434E,0xB200434F,0xB3004350,0xB4004351,0xB5004352,0xB600436B],
    [0xB700436C,0xB800436D,0xB900436E,0xBA00436F,0xBB004370,0xBC004371,0xBD004373,0xBE004374,0xBF004375,0x000C4195],
    [0x000C4192,0x000C418F,0x000C418C,0x000C4189,0x000C4186,0x000C4183,0xE1004225,0x000C4180,0x000C417D,0x000C417A],
    [0x80004379,0x8100437A,0x8200437B,0x000C4177,0x000C4174,0x000C4171,0x850042F3,0x000C416E,0x8600430A,0x8700432F]]"

definition NODES_12 :: "nat list list" where
  "NODES_12 = [
    [0x000C416B,0x000C4168,0x000C4165,0x000C4162,0x000C415F,0x000C415C,0x000C4159,0x000C4156,0x000C4153,0x000C4150],
    [0x000C414D,0x000C414A,0x000C4147,0xE10042F7,0x000C4144,0x000C4141,0x000C413E,0x000C413B,0x000C4138,0xE1004235],
    [0xA100437D,0xA20043CD,0xA30043EF,0xA4004441,0xA500447B,0xA60044B2,0xA70044D7,0xA8004529,0xA9004560,0xAA00459A],
    [0xAB0045D4,0xAC004611,0xAD00464B,0xAE004685,0xAF0046BC,0xB00046F6,0xB1004730,0xB200476A,0xB30047A4,0xB40047E1],
    [0xB500481B,0x000C4135,0x000C4132,0x000C412F,0x000C412C,0x000C4129,0x000C4126,0x800043CA,0x810043CB,0x820043CC],
    [0xA8004380,0xA9004381,0xAA004382,0xAB004383,0xAC004384,0xAD004385,0xAE004386,0xAF004387,0xB0004388,0xB1004389],
    [0xB200438A,0xB300438B,0xB400438C,0xB500438E,0xB600438F,0xB7004390,0xB8004391,0xB9004392,0xBA0043A9,0xBB0043AA],
    [0xBC0043AB,0xBD0043AC,0xBE0043AD,0xBF0043AE,0x000C4123,0x000C4120,0x000C411D,0x000C411A,0x000C4117,0x000C4114],
    [0x8600434B,0x87004369,0x000C4111,0x000C410E,0x000C410B,0x000C4108,0x000C4105,0x000C4102,0x000C40FF,0x000C40FC],
    [0x000C40F9,0x000C40F6,0x000C40F3,0x000C40F0,0x000C40ED,0x000C40EA,0x000C40E7,0x000C40E4,0x000C40E1,0x000C40DE],
    [0x000C40DB,0x000C40D8,0xE1004296,0x000C40D5,0x000C40D2,0x800043EC,0x810043ED,0x820043EE,0x000C40CF,0x000C40CC],
    [0x000C40C9,0x000C40C6,0x86004363,0x870043BB,0x000C40C3,0xA80043CE,0xA90043CF,0xAA0043D2,0xAB0043D3,0xAC0043D4],
    [0xAD0043D5,0xAE0043D6,0xAF0043D7,0xB00043D8,0xB10043D9,0xB20043DA,0xB30043DB,0xB40043DC,0xB50043DD,0xB60043DE],
    [0xB70043DF,0xB80043E0,0xB90043E1,0xBA0043E2,0xBB0043E3,0xBC0043E4,0xBD0043E5,0xBE0043E7,0xBF0043E8,0xA80043F2],
    [0xA9004424,0xAA004425,0xAB004426,0xAC004427,0xAD004428,0xAE004429,0xAF00442A,0xB000442B,0xB100442C,0xB200442D],
    [0xB300442E,0xB400442F,0xB5004430,0xB6004431,0xB7004432,0xB8004433,0xB9004434,0xBA004435,0xBB004436,0xBC004437],
    [0xBD004438,0xBE004439,0xBF00443A,0xE10042C4,0x000C40C0,0x000C40BD,0x000C40BA,0x000C40B7,0x000C40B4,0x000C40B1],
    [0x000C40AE,0x000C40AB,0x000C40A8,0x000C40A5,0x000C40A2,0x000C409F,0x000C409C,0x000C4099,0x000C4096,0x000C4093],
    [0x000C4090,0x000C408D,0x000C408A,0x000C4087,0x000C4084,0x000C4081,0x000C407E,0x8000443E,0x8100443F,0x82004440],
    [0x000C407B,0x000C4078,0x000C4075,0x000C4072,0x8600439C,0x870043F5,0xA800445C,0xA900445D,0xAA00445F,0xAB004460],
    [0xAC004461,0xAD004462,0xAE004463,0xAF004464,0xB0004465,0xB1004466,0xB2004467,0xB3004468,0xB4004469,0xB500446A],
    [0xB600446B,0xB700446C,0xB800446D,0xB900446E,0xBA00446F,0xBB004470,0xBC004471,0xBD004472,0xBE004473,0xBF004474],
    [0x000C406F,0x000C406C,0xE10042F8,0x000C4069,0x000C4066,0x000C4063,0x000C4060,0x000C405D,0x000C405A,0x000C4057],
    [0x000C4054,0x000C4051,0x000C404E,0x000C404B,0x000C4048,0x000C4045,0x000C4042,0x000C403F,0x000C403C,0x000C4039],
    [0x000C4036,0x000C4033,0x000C4030,0x000C402D,0x000C402A,0x80004478,0x81004479,0x8200447A,0x000C4027,0x000C4024],
    [0x000C4021,0x000C401E,0x860043E6,0x8700443B,0x000C401B,0x000C4018,0x000C4015,0x000C4012,0x000C400F,0x000C400C],
    [0x000C4009,0x000C4006,0x000C4003,0x000C4000,0x000C3FFD,0x000C3FFA,0x000C3FF7,0x000C3FF4,0x000C3FF1,0x000C3FEE],
    [0xA800447E,0xA900447F,0xAA004480,0xAB004481,0xAC004482,0xAD004483,0xAE004484,0xAF004485,0xB0004486,0xB1004487],
    [0xB2004488,0xB3004489,0xB400448A,0xB500448B,0xB600448C,0xB700448D,0xB80044A6,0xB90044A7,0xBA0044A8,0xBB0044A9],
    [0xBC0044AA,0xBD0044AB,0xBE0044AC,0xBF0044AD,0x000C3FEB,0x000C3FE8,0x000C3FE5,0x000C3FE2,0x000C3FDF,0x000C3FDC],
    [0x000C3FD9,0x000C3FD6,0xE100434A,0x000C3FD3,0x000C3FD0,0x000C3FCD,0x000C3FCA,0x000C3FC7,0x000C3FC4,0x000C3FC1],
    [0x000C3FBE,0x000C3FBB,0x000C3FB8,0x000C3FB5,0x000C3FB2,0x800044AF,0x810044B0,0x820044B1,0x000C3FAF,0x000C3FAC],
    [0x000C3FA9,0x000C3FA6,0x8600443D,0x87004451,0x000C3FA3,0x000C3FA0,0x000C3F9D,0x000C3F9A,0x000C3F97,0x000C3F94],
    [0x000C3F91,0x000C3F8E,0x000C3F8B,0x000C3F88,0x000C3F85,0x000C3F82,0xE100436A,0x800044D4,0x810044D5,0x820044D6],
    [0x000C3F7F,0x000C3F7C,0x000C3F79,0x000C3F76,0x86004455,0x870044A3,0x000C3F73,0x000C3F70,0x000C3F6D,0x000C3F6A],
    [0x000C3F67,0x000C3F64,0x000C3F61,0x000C3F5E,0x000C3F5B,0x000C3F58,0x000C3F55,0xA80044B3,0xA90044B4,0xAA0044B5],
    [0xAB0044B6,0xAC0044B7,0xAD0044B8,0xAE0044B9,0xAF0044BA,0xB00044BE,0xB10044BF,0xB20044C0,0xB30044C1,0xB40044C4],
    [0xB50044C5,0xB60044C6,0xB70044C7,0xB80044C8,0xB90044C9,0xBA0044CA,0xBB0044CB,0xBC0044CC,0xBD0044CD,0xBE0044CE],
    [0xBF0044CF,0xA80044DA,0xA90044DB,0xAA0044DC,0xAB0044DD,0xAC0044DE,0xAD0044DF,0xAE0044E0,0xAF0044E1,0xB00044E2],
    [0xB10044E3,0xB20044E4,0xB3004515,0xB4004516,0xB5004517,0xB6004518,0xB7004519,0xB800451A,0xB900451B,0xBA00451C],
    [0xBB00451D,0xBC00451E,0xBD00451F,0xBE004520,0xBF004521,0x000C3F52,0x000C3F4F,0x000C3F4C,0x000C3F49,0x000C3F46],
    [0x000C3F43,0x000C3F40,0x000C3F3D,0x000C3F3A,0x000C3F37,0x000C3F34,0x000C3F31,0x000C3F2E,0xE10043BC,0x80004526],
    [0x81004527,0x82004528,0x000C3F2B,0x000C3F28,0x000C3F25,0x000C3F22,0x8600448E,0x870044E5,0x000C3F1F,0x000C3F1C],
    [0x000C3F19,0x000C3F16,0x000C3F13,0x000C3F10,0x000C3F0D,0x000C3F0A,0x000C3F07,0x000C3F04,0xA800452C,0xA900452D],
    [0xAA00452E,0xAB00452F,0xAC004530,0xAD004531,0xAE004532,0xAF004533,0xB0004534,0xB1004535,0xB200454E,0xB300454F],
    [0xB4004550,0xB5004551,0xB6004552,0xB7004553,0xB8004554,0xB9004555,0xBA004556,0xBB004557,0xBC004558,0xBD004559],
    [0xBE00455A,0xBF00455B,0x000C3F01,0x000C3EFE,0x000C3EFB,0x000C3EF8,0x000C3EF5,0x000C3EF2,0x000C3EEF,0x000C3EEC],
    [0x000C3EE9,0x000C3EE6,0x000C3EE3,0x000C3EE0,0x000C3EDD,0x000C3EDA,0xE10043F6,0x000C3ED7,0x000C3ED4,0x000C3ED1],
    [0x000C3ECE,0x000C3ECB,0x000C3EC8,0x000C3EC5,0x000C3EC2,0x8000455D,0x8100455E,0x8200455F,0x000C3EBF,0x000C3EBC],
    [0x000C3EB9,0x000C3EB6,0x860044D0,0x87004522,0x000C3EB3,0x000C3EB0,0x000C3EAD,0x000C3EAA,0x000C3EA7,0x000C3EA4],
    [0x000C3EA1,0x000C3E9E,0x000C3E9B,0x000C3E98,0xA8004561,0xA9004562,0xAA004563,0xAB004564,0xAC004568,0xAD004569],
    [0xAE00456A,0xAF00456B,0xB000456E,0xB100456F,0xB2004570,0xB3004571,0xB4004572,0xB5004573,0xB6004574,0xB7004575],
    [0xB8004576,0xB9004577,0xBA004590,0xBB004591,0xBC004592,0xBD004594,0xBE004595,0xBF004596,0x000C3E95,0x000C3E92],
    [0x000C3E8F,0xE100443C,0x000C3E8C,0x000C3E89,0x000C3E86,0x000C3E83,0x000C3E80,0x000C3E7D,0x000C3E7A,0x000C3E77],
    [0x000C3E74,0x000C3E71,0x000C3E6E,0x000C3E6B,0x000C3E68,0x000C3E65,0x80004597,0x81004598,0x82004599,0x000C3E62],
    [0x000C3E5F,0x000C3E5C,0x000C3E59,0x86004511,0x8700455C,0x000C3E56,0x000C3E53,0x000C3E50,0x000C3E4D,0x000C3E4A],
    [0x000C3E47,0x000C3E44,0x000C3E41,0x000C3E3E,0x000C3E3B,0x000C3E38,0x000C3E35,0x000C3E32,0xE1004452,0xA800459B],
    [0xA900459C,0xAA00459D,0xAB00459E,0xAC00459F,0xAD0045A0,0xAE0045A1,0xAF0045A5,0xB00045A6,0xB10045A7,0xB20045A8],
    [0xB30045AB,0xB40045AC,0xB50045AD,0xB60045AE,0xB70045AF,0xB80045B0,0xB90045B1,0xBA0045B2,0xBB0045B3,0xBC0045B4],
    [0xBD0045B5,0xBE0045B6,0xBF0045B7,0x000C3E2F,0x000C3E2C,0x000C3E29,0x000C3E26,0x000C3E23,0x000C3E20,0x000C3E1D],
    [0x000C3E1A,0x000C3E17,0x000C3E14,0x000C3E11,0x800045D1,0x810045D2,0x820045D3,0x000C3E0E,0x000C3E0B,0x000C3E08],
    [0x000C3E05,0x000C3E02,0x000C3DFF,0x000C3DFC,0x000C3DF9,0x000C3DF6,0x000C3DF3,0x000C3DF0,0x000C3DED,0x86004545],
    [0x8700458B,0xA80045D5,0xA90045D6,0xAA0045D7,0xAB0045D8,0xAC0045D9,0xAD0045DA,0xAE0045DB,0xAF0045DF,0xB00045E0],
    [0xB10045E1,0xB20045E2,0xB30045E3,0xB40045E4,0xB50045E5,0xB60045E6,0xB70045E7,0xB80045E8,0xB90045E9,0xBA0045EA],
    [0xBB004605,0xBC004606,0xBD004607,0xBE004608,0xBF004609,0x000C3DEA,0x000C3DE7,0x000C3DE4,0x000C3DE1,0x000C3DDE],
    [0xE10044A4,0x8000460E,0x8100460F,0x82004610,0x000C3DDB,0x000C3DD8,0x000C3DD5,0x000C3DD2,0x8600456C,0x870045C5],
    [0xA800462C,0xA900462D,0xAA00462E,0xAB00462F,0xAC004630,0xAD004631,0xAE004632,0xAF004633,0xB0004634,0xB1004635],
    [0xB2004636,0xB3004637,0xB4004638,0xB5004639,0xB600463A,0xB700463B,0xB800463C,0xB900463D,0xBA00463E,0xBB00463F],
    [0xBC004640,0xBD004642,0xBE004643,0xBF004644,0x000C3DCF,0x000C3DCC,0x000C3DC9,0x000C3DC6,0x000C3DC3,0x000C3DC0],
    [0x000C3DBD,0x000C3DBA,0x000C3DB7,0x000C3DB4,0x000C3DB1,0x000C3DAE,0x000C3DAB,0x000C3DA8,0x000C3DA5,0x000C3DA2],
    [0x000C3D9F,0x000C3D9C,0x000C3D99,0x000C3D96,0x000C3D93,0xE10044E6,0x000C3D90,0x000C3D8D,0x000C3D8A,0x80004648],
    [0x81004649,0x8200464A,0x000C3D87,0x000C3D84,0x000C3D81,0x000C3D7E,0x860045A9,0x870045FF,0x000C3D7B,0x000C3D78],
    [0x000C3D75,0xA800464E,0xA900464F,0xAA004650,0xAB004669,0xAC00466A,0xAD00466B,0xAE00466C,0xAF00466D,0xB000466E],
    [0xB100466F,0xB2004670,0xB3004671,0xB4004672,0xB5004673,0xB6004674,0xB7004675,0xB8004676,0xB9004677,0xBA004678],
    [0xBB004679,0xBC00467A,0xBD00467C,0xBE00467D,0xBF00467E,0x000C3D72,0x000C3D6F,0x000C3D6C,0x000C3D69,0x000C3D66],
    [0x000C3D63,0x000C3D60,0x000C3D5D,0x000C3D5A,0x000C3D57,0x000C3D54,0x000C3D51,0x000C3D4E,0x000C3D4B,0x000C3D48],
    [0x000C3D45,0x000C3D42,0x000C3D3F,0xE1004523,0x000C3D3C,0x000C3D39,0x000C3D36,0x80004682,0x81004683,0x82004684],
    [0x000C3D33,0x000C3D30,0x000C3D2D,0x000C3D2A,0x860045EB,0x87004641,0x000C3D27,0x000C3D24,0x000C3D21,0x000C3D1E],
    [0x000C3D1B,0x000C3D18,0x000C3D15,0x000C3D12,0x000C3D0F,0x000C3D0C,0x000C3D09,0xA8004688,0xA9004689,0xAA00468A],
    [0xAB00468B,0xAC00468C,0xAD00468D,0xAE00468E,0xAF00468F,0xB0004690,0xB1004691,0xB2004692,0xB30046AB,0xB40046AC],
    [0xB50046AD,0xB60046AE,0xB70046AF,0xB80046B0,0xB90046B1,0xBA0046B2,0xBB0046B3,0xBC0046B4,0xBD0046B6,0xBE0046B7],
    [0xBF0046B8,0x000C3D06,0x000C3D03,0x000C3D00,0x000C3CFD,0x000C3CFA,0x000C3CF7,0x000C3CF4,0x000C3CF1,0x000C3CEE],
    [0x000C3CEB,0xE1004565,0x000C3CE8,0x000C3CE5,0x000C3CE2,0x000C3CDF,0x000C3CDC,0x000C3CD9,0x000C3CD6,0x000C3CD3],
    [0x000C3CD0,0x000C3CCD,0x000C3CCA,0x800046B9,0x810046BA,0x820046BB,0x000C3CC7,0x000C3CC4,0x000C3CC1,0x000C3CBE],
    [0x000C3CBB,0x000C3CB8,0x000C3CB5,0x86004625,0x8700467B,0xA80046BD,0xA90046BE,0xAA0046BF,0xAB0046C0,0xAC0046C4],
    [0xAD0046C5,0xAE0046C6,0xAF0046C7,0xB00046C8,0xB10046C9,0xB20046CA,0xB30046E5,0xB40046E6,0xB50046E7,0xB60046E8],
    [0xB70046E9,0xB80046EA,0xB90046EB,0xBA0046EC,0xBB0046ED,0xBC0046EE,0xBD0046EF,0xBE0046F0,0xBF0046F1,0x000C3CB2],
    [0x000C3CAF,0x000C3CAC,0x000C3CA9,0x000C3CA6,0x000C3CA3,0x000C3CA0,0x000C3C9D,0x000C3C9A,0x000C3C97,0x000C3C94],
    [0x000C3C91,0x000C3C8E,0xE100458C,0x000C3C8B,0x000C3C88,0x000C3C85,0x000C3C82,0x000C3C7F,0x000C3C7C,0x000C3C79],
    [0x000C3C76,0x800046F3,0x810046F4,0x820046F5,0x000C3C73,0x000C3C70,0x000C3C6D,0x000C3C6A,0x000C3C67,0x000C3C64],
    [0x000C3C61,0x8600465F,0x870046B5,0xA80046F7,0xA90046F8,0xAA0046F9,0xAB0046FA,0xAC0046FE,0xAD0046FF,0xAE004700],
    [0xAF004701,0xB0004702,0xB1004703,0xB2004704,0xB300471F,0xB4004720,0xB5004721,0xB6004722,0xB7004723,0xB8004724],
    [0xB9004725,0xBA004726,0xBB004727,0xBC004728,0xBD004729,0xBE00472A,0xBF00472B,0x000C3C5E,0x000C3C5B,0x000C3C58],
    [0x000C3C55,0x000C3C52,0x000C3C4F,0x000C3C4C,0x000C3C49,0x000C3C46,0x000C3C43,0x000C3C40,0x000C3C3D,0x000C3C3A],
    [0xE10045C6,0x000C3C37,0x000C3C34,0x000C3C31,0x000C3C2E,0x000C3C2B,0x000C3C28,0x000C3C25,0x000C3C22,0x8000472D],
    [0x8100472E,0x8200472F,0x000C3C1F,0x000C3C1C,0x000C3C19,0x000C3C16,0x000C3C13,0x000C3C10,0x000C3C0D,0x000C3C0A],
    [0x000C3C07,0x000C3C04,0x000C3C01,0x000C3BFE,0x000C3BFB,0x000C3BF8,0x000C3BF5,0x860046A1,0x870046F2,0xA8004731],
    [0xA9004732,0xAA004733,0xAB004734,0xAC004738,0xAD004739,0xAE00473A,0xAF00473B,0xB000473C,0xB100473D,0xB200473E],
    [0xB300473F,0xB4004740,0xB5004741,0xB6004742,0xB7004743,0xB8004744,0xB9004745,0xBA004746,0xBB004761,0xBC004762],
    [0xBD004763,0xBE004764,0xBF004765,0x000C3BF2,0x000C3BEF,0x000C3BEC,0x000C3BE9,0x000C3BE6,0xE1004600,0x000C3BE3],
    [0x000C3BE0,0x000C3BDD,0x000C3BDA,0x000C3BD7,0x000C3BD4,0x000C3BD1,0x000C3BCE,0x000C3BCB,0x000C3BC8,0x000C3BC5],
    [0x80004767,0x81004768,0x82004769,0x000C3BC2,0x000C3BBF,0x000C3BBC,0x000C3BB9,0x000C3BB6,0x000C3BB3,0x000C3BB0],
    [0x000C3BAD,0x000C3BAA,0x000C3BA7,0x000C3BA4,0x000C3BA1,0x860046DB,0x8700472C,0xA800476B,0xA900476C,0xAA00476D],
    [0xAB00476E,0xAC00476F,0xAD004770,0xAE004771,0xAF004775,0xB0004776,0xB1004777,0xB2004778,0xB3004779,0xB400477A],
    [0xB500477B,0xB600477C,0xB700477D,0xB800477E,0xB900477F,0xBA004780,0xBB00479B,0xBC00479C,0xBD00479E,0xBE00479F],
    [0xBF0047A0,0x000C3B9E,0x000C3B9B,0xE1004645,0x000C3B98,0x000C3B95,0x000C3B92,0x000C3B8F,0x000C3B8C,0x000C3B89],
    [0x000C3B86,0x000C3B83,0x000C3B80,0x000C3B7D,0x000C3B7A,0x000C3B77,0x000C3B74,0x000C3B71,0x800047A1,0x810047A2],
    [0x820047A3,0x000C3B6E,0x000C3B6B,0x000C3B68,0x000C3B65,0x000C3B62,0x000C3B5F,0x000C3B5C,0x000C3B59,0x000C3B56],
    [0x000C3B53,0x000C3B50,0x000C3B4D,0x86004715,0x8700475B,0xA80047A5,0xA90047A6,0xAA0047A7,0xAB0047A8,0xAC0047A9],
    [0xAD0047AA,0xAE0047AB,0xAF0047AF,0xB00047B0,0xB10047B1,0xB20047B2,0xB30047B3,0xB40047B4,0xB50047B5,0xB60047B6],
    [0xB70047B7,0xB80047B8,0xB90047B9,0xBA0047BA,0xBB0047D5,0xBC0047D6,0xBD0047D8,0xBE0047D9,0xBF0047DA,0x000C3B4A],
    [0x000C3B47,0xE100467F,0x000C3B44,0x000C3B41,0x000C3B3E,0x800047DE,0x810047DF,0x820047E0,0x000C3B3B,0x000C3B38],
    [0x000C3B35,0x000C3B32,0x86004747,0x87004795,0x000C3B2F,0x000C3B2C,0x000C3B29,0x000C3B26,0x000C3B23,0x000C3B20],
    [0x000C3B1D,0x000C3B1A,0x000C3B17,0x000C3B14,0x000C3B11,0xA80047E4,0xA90047E5,0xAA0047E6,0xAB0047E7,0xAC0047E8],
    [0xAD0047E9,0xAE0047EA,0xAF0047EB,0xB00047EC,0xB10047ED,0xB20047EE,0xB3004807,0xB4004808,0xB5004809,0xB600480A],
    [0xB700480B,0xB800480C,0xB900480D,0xBA00480E,0xBB00480F,0xBC004810,0xBD004812,0xBE004813,0xBF004814,0x000C3B0E],
    [0x000C3B0B,0x000C3B08,0x000C3B05,0x000C3B02,0x000C3AFF,0x000C3AFC,0x000C3AF9,0x000C3AF6,0x000C3AF3,0xE10046C1],
    [0x000C3AF0,0x000C3AED,0x000C3AEA,0x80004818,0x81004819,0x8200481A,0x000C3AE7,0x000C3AE4,0x000C3AE1,0x000C3ADE],
    [0x86004781,0x870047CF,0x000C3ADB,0x000C3AD8,0x000C3AD5,0x000C3AD2,0x000C3ACF,0x000C3ACC,0x000C3AC9,0x000C3AC6],
    [0x000C3AC3,0x000C3AC0,0x000C3ABD,0xA800481E,0xA900481F,0xAA004820,0xAB004821,0xAC004822,0xAD004823,0xAE004824],
    [0xAF004825,0xB0004826,0xB1004827,0xB2004828,0xB3004841,0xB4004842,0xB5004843,0xB6004844,0xB7004845,0xB8004846],
    [0xB9004847,0xBA004848,0xBB004849,0xBC00484A,0xBD00484C,0xBE00484D,0xBF00484E,0x000C3ABA,0x000C3AB7,0x000C3AB4],
    [0x000C3AB1,0x000C3AAE,0x000C3AAB,0x000C3AA8,0x000C3AA5,0x000C3AA2,0x000C3A9F,0xE10046FB,0x000C3A9C,0x000C3A99],
    [0x000C3A96,0x80004852,0x81004853,0x82004854,0x000C3A93,0x000C3A90,0x000C3A8D,0xE10047D1,0x850047BB,0x000C3A8A],
    [0x860047E2,0x87004829,0x000C3A87,0x000C3A84,0xA1004857,0xA20048A3,0xA30048E0,0xA400491A,0xA5004954,0xA600498E],
    [0xA70049C8,0xA80049FF,0xA9004A3C,0xAA004A76,0xAB004AAD,0xAC004AE7,0xAD004B24,0xAE004B5B,0xAF004B95,0xB0004BCF],
    [0xB1004C0C,0xB2004C43,0xB3004C64,0xB4004CB7,0xB5004CF4,0x000C3A81,0x000C3A7E,0x000C3A7B,0x000C3A78,0x000C3A75],
    [0x000C3A72,0x000C3A6F,0x000C3A6C,0x000C3A69,0x000C3A66,0x000C3A63,0x000C3A60,0x000C3A5D,0x000C3A5A,0x000C3A57],
    [0x000C3A54,0x000C3A51,0x000C3A4E,0x000C3A4B,0x000C3A48,0xE1004735,0x000C3A45,0x000C3A42,0x000C3A3F,0x000C3A3C],
    [0xA800485A,0xA900485B,0xAA004871,0xAB004872,0xAC004873,0xAD004874,0xAE004875,0xAF004876,0xB0004877,0xB1004878],
    [0xB2004879,0xB300487A,0xB400487B,0xB500487C,0xB600487D,0xB700487E,0xB800487F,0xB9004880,0xBA004881,0xBB004882],
    [0xBC004883,0xBD004884,0xBE004886,0xBF004887,0x000C3A39,0x000C3A36,0x000C3A33,0x000C3A30,0x000C3A2D,0x000C3A2A],
    [0x000C3A27,0x80004888,0x81004889,0x820048A2,0x000C3A24,0x000C3A21,0x000C3A1E,0x000C3A1B,0x8600481C,0x8700485C],
    [0x000C3A18,0x000C3A15,0x000C3A12,0x000C3A0F,0x000C3A0C,0x000C3A09,0x000C3A06,0x000C3A03,0x000C3A00,0x000C39FD],
    [0x000C39FA,0x000C39F7,0x000C39F4,0x000C39F1,0x000C39EE,0x000C39EB,0xE100475C,0x000C39E8,0xA80048A4,0xA90048A5],
    [0xAA0048A6,0xAB0048A7,0xAC0048A8,0xAD0048AC,0xAE0048AD,0xAF0048AE,0xB00048AF,0xB10048B2,0xB20048B3,0xB30048B4],
    [0xB40048B5,0xB50048B6,0xB60048B7,0xB70048B8,0xB80048B9,0xB90048BA,0xBA0048BB,0xBB0048BC,0xBC0048BD,0xBD0048BE],
    [0xBE0048BF,0xBF0048C0,0x800048C1,0x810048C3,0x820048DF,0x000C39E5,0x000C39E2,0x000C39DF,0x000C39DC,0x86004855],
    [0x87004895,0x000C39D9,0x000C39D6,0x000C39D3,0x000C39D0,0x000C39CD,0x000C39CA,0x000C39C7,0x000C39C4,0x000C39C1],
    [0x000C39BE,0x000C39BB,0x000C39B8,0x000C39B5,0x000C39B2,0x000C39AF,0x000C39AC,0x000C39A9,0x000C39A6,0x000C39A3],
    [0x000C39A0,0x000C399D,0x000C399A,0x000C3997,0xE1004796,0xA80048E1,0xA90048E2,0xAA0048E5,0xAB0048E6,0xAC0048E7],
    [0xAD0048E8,0xAE0048E9,0xAF0048EA,0xB00048EB,0xB10048EC,0xB20048ED,0xB30048EE,0xB40048EF,0xB50048F0,0xB60048F1],
    [0xB70048F2,0xB80048F3,0xB90048F4,0xBA0048F5,0xBB0048F6,0xBC0048F7,0xBD0048F8,0xBE0048F9,0xBF0048FA,0x800048FB],
    [0x81004918,0x82004919,0x000C3994,0x000C3991,0x000C398E,0x000C398B,0x86004891,0x870048D1,0x000C3988,0x000C3985]]"

definition NODES_13 :: "nat list list" where
  "NODES_13 = [
    [0x000C3982,0x000C397F,0x000C397C,0x000C3979,0x000C3976,0x000C3973,0x000C3970,0x000C396D,0x000C396A,0x000C3967],
    [0x000C3964,0x000C3961,0x000C395E,0x000C395B,0x000C3958,0x000C3955,0x000C3952,0x000C394F,0x000C394C,0x000C3949],
    [0x000C3946,0x000C3943,0x000C3940,0x000C393D,0xE10047D2,0xA800491B,0xA900491E,0xAA00491F,0xAB004920,0xAC004921],
    [0xAD004922,0xAE004923,0xAF004924,0xB0004925,0xB1004926,0xB2004927,0xB3004928,0xB4004929,0xB500492A,0xB600492B],
    [0xB700492C,0xB800492D,0xB900492E,0xBA00492F,0xBB004930,0xBC004931,0xBD004932,0xBE004933,0xBF004934,0x80004935],
    [0x81004936,0x82004937,0x000C393A,0x860048B0,0x87004908,0x000C3937,0xA8004957,0xA9004970,0xAA004971,0xAB004972],
    [0xAC004973,0xAD004974,0xAE004975,0xAF004976,0xB0004977,0xB1004978,0xB2004979,0xB300497A,0xB400497B,0xB500497C],
    [0xB600497D,0xB700497E,0xB800497F,0xB9004980,0xBA004981,0xBB004982,0xBC004983,0xBD004985,0xBE004986,0xBF004987],
    [0x000C3934,0x000C3931,0x000C392E,0x000C392B,0x000C3928,0x000C3925,0x000C3922,0x000C391F,0x000C391C,0x000C3919],
    [0x000C3916,0x000C3913,0x000C3910,0x000C390D,0x000C390A,0x000C3907,0x000C3904,0x000C3901,0x000C38FE,0x000C38FB],
    [0xE100482A,0x000C38F8,0x000C38F5,0x000C38F2,0x8000498B,0x8100498C,0x8200498D,0x000C38EF,0x000C38EC,0x000C38E9],
    [0x000C38E6,0x860048FC,0x87004942,0x000C38E3,0x000C38E0,0x000C38DD,0x000C38DA,0x000C38D7,0x000C38D4,0x000C38D1],
    [0x000C38CE,0x000C38CB,0x000C38C8,0x000C38C5,0x000C38C2,0x000C38BF,0x000C38BC,0x000C38B9,0x000C38B6,0x000C38B3],
    [0x000C38B0,0x000C38AD,0xA8004991,0xA9004992,0xAA004993,0xAB004994,0xAC004995,0xAD004996,0xAE004997,0xAF004998],
    [0xB0004999,0xB100499A,0xB200499B,0xB300499C,0xB400499D,0xB500499E,0xB600499F,0xB70049A0,0xB80049A1,0xB90049A2],
    [0xBA0049A3,0xBB0049BC,0xBC0049BD,0xBD0049BE,0xBE0049BF,0xBF0049C0,0x000C38AA,0x000C38A7,0x000C38A4,0x000C38A1],
    [0x000C389E,0xE100485D,0x800049C5,0x810049C6,0x820049C7,0x000C389B,0x000C3898,0x000C3895,0x000C3892,0x86004938],
    [0x87004984,0x000C388F,0x000C388C,0x000C3889,0x000C3886,0x000C3883,0x000C3880,0x000C387D,0x000C387A,0x000C3877],
    [0x000C3874,0x000C3871,0x000C386E,0x000C386B,0x000C3868,0x000C3865,0x000C3862,0x000C385F,0x000C385C,0x000C3859],
    [0x000C3856,0x000C3853,0xA80049CB,0xA90049CC,0xAA0049CD,0xAB0049CE,0xAC0049CF,0xAD0049D0,0xAE0049D1,0xAF0049D2],
    [0xB00049D3,0xB10049D4,0xB20049D5,0xB30049D6,0xB40049D7,0xB50049D8,0xB60049D9,0xB70049DA,0xB80049DB,0xB90049DC],
    [0xBA0049DD,0xBB0049DE,0xBC0049DF,0xBD0049F8,0xBE0049F9,0xBF0049FA,0x000C3850,0x000C384D,0x000C384A,0xE1004896],
    [0x000C3847,0x000C3844,0x000C3841,0x000C383E,0x000C383B,0x000C3838,0x000C3835,0x000C3832,0x800049FC,0x810049FD],
    [0x820049FE,0x000C382F,0x000C382C,0x000C3829,0x000C3826,0x000C3823,0x000C3820,0x000C381D,0x86004968,0x870049B6],
    [0xA8004A00,0xA9004A01,0xAA004A02,0xAB004A03,0xAC004A07,0xAD004A08,0xAE004A09,0xAF004A0A,0xB0004A0B,0xB1004A0C],
    [0xB2004A0D,0xB3004A28,0xB4004A29,0xB5004A2A,0xB6004A2B,0xB7004A2C,0xB8004A2D,0xB9004A2E,0xBA004A2F,0xBB004A30],
    [0xBC004A31,0xBD004A32,0xBE004A33,0xBF004A34,0x000C381A,0x000C3817,0x000C3814,0x000C3811,0x000C380E,0x000C380B],
    [0x000C3808,0x000C3805,0x000C3802,0x000C37FF,0x000C37FC,0x000C37F9,0x000C37F6,0xE10048CF,0x80004A39,0x81004A3A],
    [0x82004A3B,0x000C37F3,0x000C37F0,0x000C37ED,0x000C37EA,0x860049A4,0x870049F0,0x000C37E7,0x000C37E4,0x000C37E1],
    [0x000C37DE,0x000C37DB,0x000C37D8,0x000C37D5,0x000C37D2,0x000C37CF,0x000C37CC,0x000C37C9,0x000C37C6,0x000C37C3],
    [0xA8004A3F,0xA9004A40,0xAA004A41,0xAB004A42,0xAC004A43,0xAD004A44,0xAE004A45,0xAF004A46,0xB0004A47,0xB1004A48],
    [0xB2004A49,0xB3004A4A,0xB4004A4B,0xB5004A64,0xB6004A65,0xB7004A66,0xB8004A67,0xB9004A68,0xBA004A69,0xBB004A6A],
    [0xBC004A6B,0xBD004A6C,0xBE004A6D,0xBF004A6E,0x000C37C0,0x000C37BD,0x000C37BA,0x000C37B7,0x000C37B4,0x000C37B1],
    [0x000C37AE,0x000C37AB,0x000C37A8,0x000C37A5,0x000C37A2,0xE1004909,0x80004A73,0x81004A74,0x82004A75,0x000C379F],
    [0x000C379C,0x000C3799,0x000C3796,0x860049E0,0x87004A35,0x000C3793,0x000C3790,0x000C378D,0x000C378A,0x000C3787],
    [0x000C3784,0x000C3781,0x000C377E,0x000C377B,0x000C3778,0x000C3775,0x000C3772,0x000C376F,0x000C376C,0x000C3769],
    [0xA8004A79,0xA9004A7A,0xAA004A7B,0xAB004A7C,0xAC004A7D,0xAD004A7E,0xAE004A7F,0xAF004A80,0xB0004A81,0xB1004A82],
    [0xB2004A83,0xB3004A84,0xB4004A85,0xB5004A86,0xB6004A87,0xB7004AA0,0xB8004AA1,0xB9004AA2,0xBA004AA3,0xBB004AA4],
    [0xBC004AA5,0xBD004AA6,0xBE004AA7,0xBF004AA8,0x000C3766,0x000C3763,0x000C3760,0x000C375D,0x000C375A,0x000C3757],
    [0x000C3754,0x000C3751,0x000C374E,0xE1004943,0x000C374B,0x000C3748,0x000C3745,0x000C3742,0x000C373F,0x000C373C],
    [0x000C3739,0x000C3736,0x000C3733,0x000C3730,0x000C372D,0x80004AAA,0x81004AAB,0x82004AAC,0x000C372A,0x000C3727],
    [0x000C3724,0x000C3721,0x86004A16,0x87004A6F,0xA8004AAE,0xA9004AAF,0xAA004AB0,0xAB004AB1,0xAC004AB2,0xAD004AB3],
    [0xAE004AB4,0xAF004AB8,0xB0004AB9,0xB1004ABA,0xB2004ABB,0xB3004AD6,0xB4004AD7,0xB5004AD8,0xB6004AD9,0xB7004ADA],
    [0xB8004ADB,0xB9004ADC,0xBA004ADD,0xBB004ADE,0xBC004ADF,0xBD004AE1,0xBE004AE2,0xBF004AE3,0x000C371E,0x000C371B],
    [0x000C3718,0x000C3715,0x000C3712,0x000C370F,0x000C370C,0x000C3709,0x000C3706,0x000C3703,0xE1004988,0x000C3700],
    [0x000C36FD,0x000C36FA,0x000C36F7,0x000C36F4,0x000C36F1,0x000C36EE,0x86004A4C,0x87004A9E,0x000C36EB,0x000C36E8],
    [0x000C36E5,0x000C36E2,0x000C36DF,0x80004AE4,0x81004AE5,0x82004AE6,0x000C36DC,0x000C36D9,0xA8004AEA,0xA9004AEB],
    [0xAA004AEC,0xAB004AED,0xAC004AEE,0xAD004AF2,0xAE004AF3,0xAF004B0C,0xB0004B0D,0xB1004B0E,0xB2004B0F,0xB3004B10],
    [0xB4004B11,0xB5004B12,0xB6004B13,0xB7004B14,0xB8004B15,0xB9004B16,0xBA004B17,0xBB004B18,0xBC004B19,0xBD004B1A],
    [0xBE004B1B,0xBF004B1C,0x000C36D6,0x000C36D3,0x000C36D0,0x000C36CD,0x000C36CA,0x000C36C7,0x000C36C4,0x000C36C1],
    [0x000C36BE,0x000C36BB,0x000C36B8,0x000C36B5,0x000C36B2,0x000C36AF,0x000C36AC,0x000C36A9,0x000C36A6,0xE10049B7],
    [0x80004B21,0x81004B22,0x82004B23,0x000C36A3,0x000C36A0,0x000C369D,0x000C369A,0x86004A88,0x87004AE0,0x000C3697],
    [0x000C3694,0x000C3691,0x000C368E,0x000C368B,0x000C3688,0x000C3685,0x000C3682,0x000C367F,0xA8004B27,0xA9004B28],
    [0xAA004B29,0xAB004B2A,0xAC004B2B,0xAD004B2C,0xAE004B2D,0xAF004B2E,0xB0004B2F,0xB1004B48,0xB2004B49,0xB3004B4A],
    [0xB4004B4B,0xB5004B4C,0xB6004B4D,0xB7004B4E,0xB8004B4F,0xB9004B50,0xBA004B51,0xBB004B52,0xBC004B53,0xBD004B54],
    [0xBE004B55,0xBF004B56,0x000C367C,0x000C3679,0x000C3676,0x000C3673,0x000C3670,0x000C366D,0x000C366A,0x000C3667],
    [0x000C3664,0x000C3661,0x000C365E,0x000C365B,0x000C3658,0x000C3655,0x000C3652,0xE10049F1,0x000C364F,0x000C364C],
    [0x000C3649,0x000C3646,0x000C3643,0x000C3640,0x000C363D,0x000C363A,0x80004B58,0x81004B59,0x82004B5A,0x000C3637],
    [0x000C3634,0x000C3631,0x000C362E,0x000C362B,0x000C3628,0x000C3625,0x000C3622,0x000C361F,0x000C361C,0x000C3619],
    [0x86004AC8,0x87004B1D,0xA8004B5C,0xA9004B5D,0xAA004B5E,0xAB004B5F,0xAC004B63,0xAD004B64,0xAE004B65,0xAF004B66],
    [0xB0004B67,0xB1004B68,0xB2004B69,0xB3004B6A,0xB4004B6B,0xB5004B6C,0xB6004B6D,0xB7004B88,0xB8004B89,0xB9004B8A],
    [0xBA004B8B,0xBB004B8C,0xBC004B8D,0xBD004B8F,0xBE004B90,0xBF004B91,0x000C3616,0x000C3613,0x000C3610,0x000C360D],
    [0x000C360A,0x000C3607,0xE1004A36,0x000C3604,0x000C3601,0x000C35FE,0x000C35FB,0x000C35F8,0x000C35F5,0x000C35F2],
    [0x000C35EF,0x000C35EC,0x000C35E9,0x000C35E6,0x000C35E3,0x000C35E0,0x000C35DD,0x80004B92,0x81004B93,0x82004B94],
    [0x000C35DA,0x000C35D7,0x000C35D4,0x000C35D1,0x86004AFE,0x87004B57,0xA8004B96,0xA9004B97,0xAA004B98,0xAB004B99],
    [0xAC004B9A,0xAD004B9B,0xAE004B9C,0xAF004BA0,0xB0004BA1,0xB1004BA2,0xB2004BA3,0xB3004BBE,0xB4004BBF,0xB5004BC0],
    [0xB6004BC1,0xB7004BC2,0xB8004BC3,0xB9004BC4,0xBA004BC5,0xBB004BC6,0xBC004BC7,0xBD004BC9,0xBE004BCA,0xBF004BCB],
    [0x000C35CE,0x000C35CB,0x000C35C8,0x000C35C5,0x000C35C2,0x000C35BF,0x000C35BC,0x000C35B9,0x000C35B6,0x000C35B3],
    [0xE1004A62,0x000C35B0,0x000C35AD,0x000C35AA,0x000C35A7,0x000C35A4,0x000C35A1,0x000C359E,0x000C359B,0x000C3598],
    [0x000C3595,0x000C3592,0x000C358F,0x000C358C,0x000C3589,0x80004BCC,0x81004BCD,0x82004BCE,0x000C3586,0x000C3583],
    [0x000C3580,0x000C357D,0x000C357A,0x000C3577,0x000C3574,0x000C3571,0x000C356E,0x000C356B,0x000C3568,0x000C3565],
    [0x86004B40,0x87004B86,0xA8004BD0,0xA9004BD1,0xAA004BD2,0xAB004BD3,0xAC004BD4,0xAD004BD5,0xAE004BD6,0xAF004BDA],
    [0xB0004BDB,0xB1004BDC,0xB2004BDD,0xB3004BDE,0xB4004BDF,0xB5004BE0,0xB6004BE1,0xB7004BE2,0xB8004BE3,0xB9004BE4],
    [0xBA004BE5,0xBB004C00,0xBC004C01,0xBD004C02,0xBE004C03,0xBF004C04,0x000C3562,0x000C355F,0x000C355C,0x000C3559],
    [0x000C3556,0xE1004A9F,0x80004C09,0x81004C0A,0x82004C0B,0x000C3553,0x000C3550,0x000C354D,0x000C354A,0x86004B6E],
    [0x87004BC8,0x000C3547,0x000C3544,0x000C3541,0x000C353E,0x000C353B,0x000C3538,0x000C3535,0xA8004C0F,0xA9004C10],
    [0xAA004C11,0xAB004C12,0xAC004C13,0xAD004C14,0xAE004C15,0xAF004C2E,0xB0004C2F,0xB1004C30,0xB2004C31,0xB3004C32],
    [0xB4004C33,0xB5004C34,0xB6004C35,0xB7004C36,0xB8004C37,0xB9004C38,0xBA004C39,0xBB004C3A,0xBC004C3B,0xBD004C3D],
    [0xBE004C3E,0xBF004C3F,0x000C3532,0x000C352F,0x000C352C,0x000C3529,0x000C3526,0x000C3523,0x000C3520,0x000C351D],
    [0x000C351A,0x000C3517,0x000C3514,0x000C3511,0x000C350E,0x000C350B,0xE1004AE8,0x000C3508,0x000C3505,0x000C3502],
    [0x000C34FF,0x000C34FC,0x000C34F9,0x000C34F6,0x000C34F3,0x000C34F0,0x000C34ED,0x000C34EA,0x80004C40,0x81004C41],
    [0x82004C42,0x000C34E7,0x000C34E4,0x000C34E1,0x000C34DE,0x000C34DB,0x000C34D8,0x000C34D5,0x000C34D2,0x000C34CF],
    [0x000C34CC,0x000C34C9,0x000C34C6,0x000C34C3,0x000C34C0,0x000C34BD,0x000C34BA,0x000C34B7,0x000C34B4,0x86004BD8],
    [0x87004BE6,0x000C34B1,0x000C34AE,0x000C34AB,0x000C34A8,0x000C34A5,0x000C34A2,0x000C349F,0x80004C61,0x81004C62],
    [0x82004C63,0x000C349C,0x000C3499,0x000C3496,0x000C3493,0x86004BF0,0x87004C3C,0x000C3490,0x000C348D,0x000C348A],
    [0x000C3487,0x000C3484,0x000C3481,0x000C347E,0xE1004B1E,0x000C347B,0x000C3478,0x000C3475,0x000C3472,0x000C346F],
    [0x000C346C,0x000C3469,0x000C3466,0x000C3463,0xA8004C44,0xA9004C45,0xAA004C46,0xAB004C47,0xAC004C4B,0xAD004C4C],
    [0xAE004C4D,0xAF004C4E,0xB0004C4F,0xB1004C50,0xB2004C51,0xB3004C52,0xB4004C53,0xB5004C54,0xB6004C55,0xB7004C56],
    [0xB8004C57,0xB9004C58,0xBA004C59,0xBB004C5A,0xBC004C5B,0xBD004C5C,0xBE004C5F,0xBF004C60,0xA8004C65,0xA9004C69],
    [0xAA004C6A,0xAB004C6B,0xAC004C6C,0xAD004C6F,0xAE004C70,0xAF004C71,0xB0004C72,0xB1004C73,0xB2004C74,0xB3004C75],
    [0xB4004C77,0xB5004C78,0xB6004C79,0xB7004C7A,0xB8004C7B,0xB9004C7C,0xBA004C7D,0xBB004C7E,0xBC004C7F,0xBD004CB1],
    [0xBE004CB2,0xBF004CB3,0xE1004B60,0x000C3460,0x000C345D,0x000C345A,0x000C3457,0x000C3454,0x000C3451,0x000C344E],
    [0x000C344B,0x000C3448,0x000C3445,0x000C3442,0x80004CB4,0x81004CB5,0x82004CB6,0x000C343F,0x000C343C,0x000C3439],
    [0x000C3436,0x000C3433,0x000C3430,0x000C342D,0x000C342A,0x000C3427,0x000C3424,0x000C3421,0x000C341E,0x000C341B],
    [0x000C3418,0x000C3415,0x86004C28,0x87004C6E,0xA8004CB8,0xA9004CB9,0xAA004CBA,0xAB004CBB,0xAC004CBF,0xAD004CC0],
    [0xAE004CC1,0xAF004CC2,0xB0004CC3,0xB1004CC4,0xB2004CC5,0xB3004CC6,0xB4004CC7,0xB5004CC8,0xB6004CC9,0xB7004CCA],
    [0xB8004CCB,0xB9004CCC,0xBA004CCD,0xBB004CE8,0xBC004CE9,0xBD004CEA,0xBE004CEB,0xBF004CEC,0x000C3412,0x000C340F],
    [0x000C340C,0x000C3409,0x000C3406,0xE1004B87,0x80004CF1,0x81004CF2,0x82004CF3,0x000C3403,0x000C3400,0x000C33FD],
    [0x000C33FA,0x000C33F7,0x000C33F4,0x000C33F1,0x000C33EE,0x000C33EB,0x000C33E8,0x000C33E5,0x86004C5D,0x87004CA8],
    [0x000C33E2,0x000C33DF,0x000C33DC,0x000C33D9,0x000C33D6,0x000C33D3,0x000C33D0,0xA8004CF5,0xA9004CF6,0xAA004CF7],
    [0xAB004CF8,0xAC004CF9,0xAD004CFA,0xAE004CFB,0xAF004CFE,0xB0004CFF,0xB1004D00,0xB2004D01,0xB3004D02,0xB4004D03],
    [0xB5004D04,0xB6004D1D,0xB7004D1E,0xB8004D1F,0xB9004D20,0xBA004D21,0xBB004D22,0xBC004D23,0xBD004D25,0xBE004D26],
    [0xBF004D27,0x000C33CD,0x000C33CA,0x000C33C7,0x000C33C4,0x000C33C1,0x000C33BE,0x000C33BB,0xE1004BD7,0x000C33B8],
    [0x000C33B5,0x000C33B2,0x80004D2B,0x81004D2C,0x82004D2D,0x000C33AF,0x000C33AC,0x000C33A9,0x85004CA5,0x000C33A6],
    [0x86004CBC,0x87004CE1,0x000C33A3,0x000C33A0,0x000C339D,0x000C339A,0x000C3397,0x000C3394,0x000C3391,0x000C338E],
    [0x000C338B,0x000C3388,0x000C3385,0x000C3382,0x000C337F,0xE1004CA9,0x000C337C,0x000C3379,0x000C3376,0x000C3373],
    [0x000C3370,0xE1004BE7,0xA1004D2F,0xA2004D7F,0xA3004DA1,0xA4004DF3,0xA5004E2D,0xA6004E64,0xA7004E89,0xA8004EDB],
    [0xA9004F12,0xAA004F4C,0xAB004F86,0xAC004FC3,0xAD004FFD,0xAE005037,0xAF00506E,0xB00050A8,0xB10050E2,0xB200511C],
    [0xB3005156,0xB4005193,0xB50051CD,0x000C336D,0x000C336A,0x000C3367,0x000C3364,0x000C3361,0x000C335E,0x80004D7C],
    [0x81004D7D,0x82004D7E,0xA8004D32,0xA9004D33,0xAA004D34,0xAB004D35,0xAC004D36,0xAD004D37,0xAE004D38,0xAF004D39],
    [0xB0004D3A,0xB1004D3B,0xB2004D3C,0xB3004D3D,0xB4004D3E,0xB5004D40,0xB6004D41,0xB7004D42,0xB8004D43,0xB9004D44],
    [0xBA004D5B,0xBB004D5C,0xBC004D5D,0xBD004D5E,0xBE004D5F,0xBF004D60,0x000C335B,0x000C3358,0x000C3355,0x000C3352],
    [0x000C334F,0x000C334C,0x86004CFD,0x87004D1B,0x000C3349,0x000C3346,0x000C3343,0x000C3340,0x000C333D,0x000C333A],
    [0x000C3337,0x000C3334,0x000C3331,0x000C332E,0x000C332B,0x000C3328,0x000C3325,0x000C3322,0x000C331F,0x000C331C],
    [0x000C3319,0x000C3316,0x000C3313,0x000C3310,0xE1004C48,0x000C330D,0x000C330A,0x80004D9E,0x81004D9F,0x82004DA0],
    [0x000C3307,0x000C3304,0x000C3301,0x000C32FE,0x86004D15,0x87004D6D,0x000C32FB,0xA8004D80,0xA9004D81,0xAA004D84],
    [0xAB004D85,0xAC004D86,0xAD004D87,0xAE004D88,0xAF004D89,0xB0004D8A,0xB1004D8B,0xB2004D8C,0xB3004D8D,0xB4004D8E],
    [0xB5004D8F,0xB6004D90,0xB7004D91,0xB8004D92,0xB9004D93,0xBA004D94,0xBB004D95,0xBC004D96,0xBD004D97,0xBE004D99],
    [0xBF004D9A,0xA8004DA4,0xA9004DD6,0xAA004DD7,0xAB004DD8,0xAC004DD9,0xAD004DDA,0xAE004DDB,0xAF004DDC,0xB0004DDD],
    [0xB1004DDE,0xB2004DDF,0xB3004DE0,0xB4004DE1,0xB5004DE2,0xB6004DE3,0xB7004DE4,0xB8004DE5,0xB9004DE6,0xBA004DE7],
    [0xBB004DE8,0xBC004DE9,0xBD004DEA,0xBE004DEB,0xBF004DEC,0xE1004C76,0x000C32F8,0x000C32F5,0x000C32F2,0x000C32EF],
    [0x000C32EC,0x000C32E9,0x000C32E6,0x000C32E3,0x000C32E0,0x000C32DD,0x000C32DA,0x000C32D7,0x000C32D4,0x000C32D1],
    [0x000C32CE,0x000C32CB,0x000C32C8,0x000C32C5,0x000C32C2,0x000C32BF,0x000C32BC,0x000C32B9,0x000C32B6,0x80004DF0],
    [0x81004DF1,0x82004DF2,0x000C32B3,0x000C32B0,0x000C32AD,0x000C32AA,0x86004D4E,0x87004DA7,0xA8004E0E,0xA9004E0F],
    [0xAA004E11,0xAB004E12,0xAC004E13,0xAD004E14,0xAE004E15,0xAF004E16,0xB0004E17,0xB1004E18,0xB2004E19,0xB3004E1A],
    [0xB4004E1B,0xB5004E1C,0xB6004E1D,0xB7004E1E,0xB8004E1F,0xB9004E20,0xBA004E21,0xBB004E22,0xBC004E23,0xBD004E24],
    [0xBE004E25,0xBF004E26,0x000C32A7,0x000C32A4,0xE1004CAA,0x000C32A1,0x000C329E,0x000C329B,0x000C3298,0x000C3295],
    [0x000C3292,0x000C328F,0x000C328C,0x000C3289,0x000C3286,0x000C3283,0x000C3280,0x000C327D,0x000C327A,0x000C3277],
    [0x000C3274,0x000C3271,0x000C326E,0x000C326B,0x000C3268,0x000C3265,0x000C3262,0x80004E2A,0x81004E2B,0x82004E2C],
    [0x000C325F,0x000C325C,0x000C3259,0x000C3256,0x86004D98,0x87004DED,0x000C3253,0x000C3250,0x000C324D,0x000C324A],
    [0x000C3247,0x000C3244,0x000C3241,0x000C323E,0x000C323B,0x000C3238,0x000C3235,0x000C3232,0x000C322F,0x000C322C],
    [0x000C3229,0x000C3226,0xA8004E30,0xA9004E31,0xAA004E32,0xAB004E33,0xAC004E34,0xAD004E35,0xAE004E36,0xAF004E37],
    [0xB0004E38,0xB1004E39,0xB2004E3A,0xB3004E3B,0xB4004E3C,0xB5004E3D,0xB6004E3E,0xB7004E3F,0xB8004E58,0xB9004E59],
    [0xBA004E5A,0xBB004E5B,0xBC004E5C,0xBD004E5D,0xBE004E5E,0xBF004E5F,0x000C3223,0x000C3220,0x000C321D,0x000C321A],
    [0x000C3217,0x000C3214,0x000C3211,0x000C320E,0xE1004CFC,0x000C320B,0x000C3208,0x000C3205,0x000C3202,0x000C31FF],
    [0x000C31FC,0x000C31F9,0x000C31F6,0x000C31F3,0x000C31F0,0x000C31ED,0x000C31EA,0x80004E61,0x81004E62,0x82004E63],
    [0x000C31E7,0x000C31E4,0x000C31E1,0x000C31DE,0x86004DEF,0x87004E03,0x000C31DB,0x000C31D8,0x000C31D5,0x000C31D2],
    [0x000C31CF,0x000C31CC,0x000C31C9,0x000C31C6,0x000C31C3,0x000C31C0,0x000C31BD,0x000C31BA,0xE1004D1C,0x80004E86],
    [0x81004E87,0x82004E88,0x000C31B7,0x000C31B4,0x000C31B1,0x000C31AE,0x86004E07,0x87004E55,0x000C31AB,0x000C31A8],
    [0x000C31A5,0x000C31A2,0x000C319F,0x000C319C,0x000C3199,0x000C3196,0x000C3193,0x000C3190,0x000C318D,0xA8004E65],
    [0xA9004E66,0xAA004E67,0xAB004E68,0xAC004E69,0xAD004E6A,0xAE004E6B,0xAF004E6C,0xB0004E70,0xB1004E71,0xB2004E72],
    [0xB3004E73,0xB4004E76,0xB5004E77,0xB6004E78,0xB7004E79,0xB8004E7A,0xB9004E7B,0xBA004E7C,0xBB004E7D,0xBC004E7E],
    [0xBD004E7F,0xBE004E80,0xBF004E81,0xA8004E8C,0xA9004E8D,0xAA004E8E,0xAB004E8F,0xAC004E90,0xAD004E91,0xAE004E92],
    [0xAF004E93,0xB0004E94,0xB1004E95,0xB2004E96,0xB3004EC7,0xB4004EC8,0xB5004EC9,0xB6004ECA,0xB7004ECB,0xB8004ECC]]"

end
