(* ===== verification/Table_Nodes_3.thy ===== *)
theory Table_Nodes_3
  imports Main
begin

text \<open>
  Lines 2029 to 3036 of \<open>unf/table.hh\<close>: part of the array \<open>NODES\<close>, one list per line of the source.
\<close>

definition NODES_14 :: "nat list list" where
  "NODES_14 = [
    [0xB9004ECD,0xBA004ECE,0xBB004ECF,0xBC004ED0,0xBD004ED1,0xBE004ED2,0xBF004ED3,0x000C318A,0x000C3187,0x000C3184],
    [0x000C3181,0x000C317E,0x000C317B,0x000C3178,0x000C3175,0x000C3172,0x000C316F,0x000C316C,0x000C3169,0x000C3166],
    [0xE1004D6E,0x80004ED8,0x81004ED9,0x82004EDA,0x000C3163,0x000C3160,0x000C315D,0x000C315A,0x86004E40,0x87004E97],
    [0x000C3157,0x000C3154,0x000C3151,0x000C314E,0x000C314B,0x000C3148,0x000C3145,0x000C3142,0x000C313F,0x000C313C],
    [0xA8004EDE,0xA9004EDF,0xAA004EE0,0xAB004EE1,0xAC004EE2,0xAD004EE3,0xAE004EE4,0xAF004EE5,0xB0004EE6,0xB1004EE7],
    [0xB2004F00,0xB3004F01,0xB4004F02,0xB5004F03,0xB6004F04,0xB7004F05,0xB8004F06,0xB9004F07,0xBA004F08,0xBB004F09],
    [0xBC004F0A,0xBD004F0B,0xBE004F0C,0xBF004F0D,0x000C3139,0x000C3136,0x000C3133,0x000C3130,0x000C312D,0x000C312A],
    [0x000C3127,0x000C3124,0x000C3121,0x000C311E,0x000C311B,0x000C3118,0x000C3115,0x000C3112,0xE1004DA8,0x000C310F],
    [0x000C310C,0x000C3109,0x000C3106,0x000C3103,0x000C3100,0x000C30FD,0x000C30FA,0x80004F0F,0x81004F10,0x82004F11],
    [0x000C30F7,0x000C30F4,0x000C30F1,0x000C30EE,0x86004E82,0x87004ED4,0x000C30EB,0x000C30E8,0x000C30E5,0x000C30E2],
    [0x000C30DF,0x000C30DC,0x000C30D9,0x000C30D6,0x000C30D3,0x000C30D0,0xA8004F13,0xA9004F14,0xAA004F15,0xAB004F16],
    [0xAC004F1A,0xAD004F1B,0xAE004F1C,0xAF004F1D,0xB0004F20,0xB1004F21,0xB2004F22,0xB3004F23,0xB4004F24,0xB5004F25],
    [0xB6004F26,0xB7004F27,0xB8004F28,0xB9004F29,0xBA004F42,0xBB004F43,0xBC004F44,0xBD004F46,0xBE004F47,0xBF004F48],
    [0x000C30CD,0x000C30CA,0x000C30C7,0xE1004DEE,0x000C30C4,0x000C30C1,0x000C30BE,0x000C30BB,0x000C30B8,0x000C30B5],
    [0x000C30B2,0x000C30AF,0x000C30AC,0x000C30A9,0x000C30A6,0x000C30A3,0x000C30A0,0x000C309D,0x80004F49,0x81004F4A],
    [0x82004F4B,0x000C309A,0x000C3097,0x000C3094,0x000C3091,0x86004EC3,0x87004F0E,0x000C308E,0x000C308B,0x000C3088],
    [0x000C3085,0x000C3082,0x000C307F,0x000C307C,0x000C3079,0x000C3076,0x000C3073,0x000C3070,0x000C306D,0x000C306A],
    [0xE1004E04,0xA8004F4D,0xA9004F4E,0xAA004F4F,0xAB004F50,0xAC004F51,0xAD004F52,0xAE004F53,0xAF004F57,0xB0004F58],
    [0xB1004F59,0xB2004F5A,0xB3004F5D,0xB4004F5E,0xB5004F5F,0xB6004F60,0xB7004F61,0xB8004F62,0xB9004F63,0xBA004F64],
    [0xBB004F65,0xBC004F66,0xBD004F67,0xBE004F68,0xBF004F69,0x000C3067,0x000C3064,0x000C3061,0x000C305E,0x000C305B],
    [0x000C3058,0x000C3055,0x000C3052,0x000C304F,0x000C304C,0x000C3049,0x80004F83,0x81004F84,0x82004F85,0x000C3046],
    [0x000C3043,0x000C3040,0x000C303D,0x000C303A,0x000C3037,0x000C3034,0x000C3031,0x000C302E,0x000C302B,0x000C3028],
    [0x000C3025,0x86004EF7,0x87004F3D,0xA8004F87,0xA9004F88,0xAA004F89,0xAB004F8A,0xAC004F8B,0xAD004F8C,0xAE004F8D],
    [0xAF004F91,0xB0004F92,0xB1004F93,0xB2004F94,0xB3004F95,0xB4004F96,0xB5004F97,0xB6004F98,0xB7004F99,0xB8004F9A],
    [0xB9004F9B,0xBA004F9C,0xBB004FB7,0xBC004FB8,0xBD004FB9,0xBE004FBA,0xBF004FBB,0x000C3022,0x000C301F,0x000C301C],
    [0x000C3019,0x000C3016,0xE1004E56,0x80004FC0,0x81004FC1,0x82004FC2,0x000C3013,0x000C3010,0x000C300D,0x000C300A],
    [0x86004F1E,0x87004F77,0xA8004FDE,0xA9004FDF,0xAA004FE0,0xAB004FE1,0xAC004FE2,0xAD004FE3,0xAE004FE4,0xAF004FE5],
    [0xB0004FE6,0xB1004FE7,0xB2004FE8,0xB3004FE9,0xB4004FEA,0xB5004FEB,0xB6004FEC,0xB7004FED,0xB8004FEE,0xB9004FEF],
    [0xBA004FF0,0xBB004FF1,0xBC004FF2,0xBD004FF4,0xBE004FF5,0xBF004FF6,0x000C3007,0x000C3004,0x000C3001,0x000C2FFE],
    [0x000C2FFB,0x000C2FF8,0x000C2FF5,0x000C2FF2,0x000C2FEF,0x000C2FEC,0x000C2FE9,0x000C2FE6,0x000C2FE3,0x000C2FE0],
    [0x000C2FDD,0x000C2FDA,0x000C2FD7,0x000C2FD4,0x000C2FD1,0x000C2FCE,0x000C2FCB,0xE1004E98,0x000C2FC8,0x000C2FC5],
    [0x000C2FC2,0x80004FFA,0x81004FFB,0x82004FFC,0x000C2FBF,0x000C2FBC,0x000C2FB9,0x000C2FB6,0x86004F5B,0x87004FB1],
    [0x000C2FB3,0x000C2FB0,0x000C2FAD,0xA8005000,0xA9005001,0xAA005002,0xAB00501B,0xAC00501C,0xAD00501D,0xAE00501E],
    [0xAF00501F,0xB0005020,0xB1005021,0xB2005022,0xB3005023,0xB4005024,0xB5005025,0xB6005026,0xB7005027,0xB8005028],
    [0xB9005029,0xBA00502A,0xBB00502B,0xBC00502C,0xBD00502E,0xBE00502F,0xBF005030,0x000C2FAA,0x000C2FA7,0x000C2FA4],
    [0x000C2FA1,0x000C2F9E,0x000C2F9B,0x000C2F98,0x000C2F95,0x000C2F92,0x000C2F8F,0x000C2F8C,0x000C2F89,0x000C2F86],
    [0x000C2F83,0x000C2F80,0x000C2F7D,0x000C2F7A,0x000C2F77,0xE1004ED5,0x000C2F74,0x000C2F71,0x000C2F6E,0x80005034],
    [0x81005035,0x82005036,0x000C2F6B,0x000C2F68,0x000C2F65,0x000C2F62,0x86004F9D,0x87004FF3,0x000C2F5F,0x000C2F5C],
    [0x000C2F59,0x000C2F56,0x000C2F53,0x000C2F50,0x000C2F4D,0x000C2F4A,0x000C2F47,0x000C2F44,0x000C2F41,0xA800503A],
    [0xA900503B,0xAA00503C,0xAB00503D,0xAC00503E,0xAD00503F,0xAE005040,0xAF005041,0xB0005042,0xB1005043,0xB2005044],
    [0xB300505D,0xB400505E,0xB500505F,0xB6005060,0xB7005061,0xB8005062,0xB9005063,0xBA005064,0xBB005065,0xBC005066],
    [0xBD005068,0xBE005069,0xBF00506A,0x000C2F3E,0x000C2F3B,0x000C2F38,0x000C2F35,0x000C2F32,0x000C2F2F,0x000C2F2C],
    [0x000C2F29,0x000C2F26,0x000C2F23,0xE1004F17,0x000C2F20,0x000C2F1D,0x000C2F1A,0x000C2F17,0x000C2F14,0x000C2F11],
    [0x000C2F0E,0x000C2F0B,0x000C2F08,0x000C2F05,0x000C2F02,0x8000506B,0x8100506C,0x8200506D,0x000C2EFF,0x000C2EFC],
    [0x000C2EF9,0x000C2EF6,0x000C2EF3,0x000C2EF0,0x000C2EED,0x86004FD7,0x8700502D,0xA800506F,0xA9005070,0xAA005071],
    [0xAB005072,0xAC005076,0xAD005077,0xAE005078,0xAF005079,0xB000507A,0xB100507B,0xB200507C,0xB3005097,0xB4005098],
    [0xB5005099,0xB600509A,0xB700509B,0xB800509C,0xB900509D,0xBA00509E,0xBB00509F,0xBC0050A0,0xBD0050A1,0xBE0050A2],
    [0xBF0050A3,0x000C2EEA,0x000C2EE7,0x000C2EE4,0x000C2EE1,0x000C2EDE,0x000C2EDB,0x000C2ED8,0x000C2ED5,0x000C2ED2],
    [0x000C2ECF,0x000C2ECC,0x000C2EC9,0x000C2EC6,0xE1004F3E,0x000C2EC3,0x000C2EC0,0x000C2EBD,0x000C2EBA,0x000C2EB7],
    [0x000C2EB4,0x000C2EB1,0x000C2EAE,0x800050A5,0x810050A6,0x820050A7,0x000C2EAB,0x000C2EA8,0x000C2EA5,0x000C2EA2],
    [0x000C2E9F,0x000C2E9C,0x000C2E99,0x86005011,0x87005067,0xA80050A9,0xA90050AA,0xAA0050AB,0xAB0050AC,0xAC0050B0],
    [0xAD0050B1,0xAE0050B2,0xAF0050B3,0xB00050B4,0xB10050B5,0xB20050B6,0xB30050D1,0xB40050D2,0xB50050D3,0xB60050D4],
    [0xB70050D5,0xB80050D6,0xB90050D7,0xBA0050D8,0xBB0050D9,0xBC0050DA,0xBD0050DB,0xBE0050DC,0xBF0050DD,0x000C2E96],
    [0x000C2E93,0x000C2E90,0x000C2E8D,0x000C2E8A,0x000C2E87,0x000C2E84,0x000C2E81,0x000C2E7E,0x000C2E7B,0x000C2E78],
    [0x000C2E75,0x000C2E72,0xE1004F78,0x000C2E6F,0x000C2E6C,0x000C2E69,0x000C2E66,0x000C2E63,0x000C2E60,0x000C2E5D],
    [0x000C2E5A,0x800050DF,0x810050E0,0x820050E1,0x000C2E57,0x000C2E54,0x000C2E51,0x000C2E4E,0x000C2E4B,0x000C2E48],
    [0x000C2E45,0x000C2E42,0x000C2E3F,0x000C2E3C,0x000C2E39,0x000C2E36,0x000C2E33,0x000C2E30,0x000C2E2D,0x86005053],
    [0x870050A4,0xA80050E3,0xA90050E4,0xAA0050E5,0xAB0050E6,0xAC0050EA,0xAD0050EB,0xAE0050EC,0xAF0050ED,0xB00050EE],
    [0xB10050EF,0xB20050F0,0xB30050F1,0xB40050F2,0xB50050F3,0xB60050F4,0xB70050F5,0xB80050F6,0xB90050F7,0xBA0050F8],
    [0xBB005113,0xBC005114,0xBD005115,0xBE005116,0xBF005117,0x000C2E2A,0x000C2E27,0x000C2E24,0x000C2E21,0x000C2E1E],
    [0xE1004FB2,0x000C2E1B,0x000C2E18,0x000C2E15,0x000C2E12,0x000C2E0F,0x000C2E0C,0x000C2E09,0x000C2E06,0x000C2E03],
    [0x000C2E00,0x000C2DFD,0x80005119,0x8100511A,0x8200511B,0x000C2DFA,0x000C2DF7,0x000C2DF4,0x000C2DF1,0x000C2DEE],
    [0x000C2DEB,0x000C2DE8,0x000C2DE5,0x000C2DE2,0x000C2DDF,0x000C2DDC,0x000C2DD9,0x8600508D,0x870050DE,0xA800511D],
    [0xA900511E,0xAA00511F,0xAB005120,0xAC005121,0xAD005122,0xAE005123,0xAF005127,0xB0005128,0xB1005129,0xB200512A],
    [0xB300512B,0xB400512C,0xB500512D,0xB600512E,0xB700512F,0xB8005130,0xB9005131,0xBA005132,0xBB00514D,0xBC00514E],
    [0xBD005150,0xBE005151,0xBF005152,0x000C2DD6,0x000C2DD3,0xE1004FF7,0x000C2DD0,0x000C2DCD,0x000C2DCA,0x000C2DC7],
    [0x000C2DC4,0x000C2DC1,0x000C2DBE,0x000C2DBB,0x000C2DB8,0x000C2DB5,0x000C2DB2,0x000C2DAF,0x000C2DAC,0x000C2DA9],
    [0x80005153,0x81005154,0x82005155,0x000C2DA6,0x000C2DA3,0x000C2DA0,0x000C2D9D,0x000C2D9A,0x000C2D97,0x000C2D94],
    [0x000C2D91,0x000C2D8E,0x000C2D8B,0x000C2D88,0x000C2D85,0x860050C7,0x8700510D,0xA8005157,0xA9005158,0xAA005159],
    [0xAB00515A,0xAC00515B,0xAD00515C,0xAE00515D,0xAF005161,0xB0005162,0xB1005163,0xB2005164,0xB3005165,0xB4005166],
    [0xB5005167,0xB6005168,0xB7005169,0xB800516A,0xB900516B,0xBA00516C,0xBB005187,0xBC005188,0xBD00518A,0xBE00518B],
    [0xBF00518C,0x000C2D82,0x000C2D7F,0xE1005031,0x000C2D7C,0x000C2D79,0x000C2D76,0x80005190,0x81005191,0x82005192],
    [0x000C2D73,0x000C2D70,0x000C2D6D,0x000C2D6A,0x860050F9,0x87005147,0x000C2D67,0x000C2D64,0x000C2D61,0x000C2D5E],
    [0x000C2D5B,0x000C2D58,0x000C2D55,0x000C2D52,0x000C2D4F,0x000C2D4C,0x000C2D49,0xA8005196,0xA9005197,0xAA005198],
    [0xAB005199,0xAC00519A,0xAD00519B,0xAE00519C,0xAF00519D,0xB000519E,0xB100519F,0xB20051A0,0xB30051B9,0xB40051BA],
    [0xB50051BB,0xB60051BC,0xB70051BD,0xB80051BE,0xB90051BF,0xBA0051C0,0xBB0051C1,0xBC0051C2,0xBD0051C4,0xBE0051C5],
    [0xBF0051C6,0x000C2D46,0x000C2D43,0x000C2D40,0x000C2D3D,0x000C2D3A,0x000C2D37,0x000C2D34,0x000C2D31,0x000C2D2E],
    [0x000C2D2B,0xE1005073,0x000C2D28,0x000C2D25,0x000C2D22,0x800051CA,0x810051CB,0x820051CC,0x000C2D1F,0x000C2D1C],
    [0x000C2D19,0x000C2D16,0x86005133,0x87005181,0x000C2D13,0x000C2D10,0x000C2D0D,0x000C2D0A,0x000C2D07,0x000C2D04],
    [0x000C2D01,0x000C2CFE,0x000C2CFB,0x000C2CF8,0x000C2CF5,0xA80051D0,0xA90051D1,0xAA0051D2,0xAB0051D3,0xAC0051D4],
    [0xAD0051D5,0xAE0051D6,0xAF0051D7,0xB00051D8,0xB10051D9,0xB20051DA,0xB30051F3,0xB40051F4,0xB50051F5,0xB60051F6],
    [0xB70051F7,0xB80051F8,0xB90051F9,0xBA0051FA,0xBB0051FB,0xBC0051FC,0xBD0051FE,0xBE0051FF,0xBF005200,0x000C2CF2],
    [0x000C2CEF,0x000C2CEC,0x000C2CE9,0x000C2CE6,0x000C2CE3,0x000C2CE0,0x000C2CDD,0x000C2CDA,0x000C2CD7,0xE10050AD],
    [0x000C2CD4,0x000C2CD1,0x000C2CCE,0x80005204,0x81005205,0x82005206,0x000C2CCB,0x000C2CC8,0x000C2CC5,0xE1005183],
    [0x8500516D,0x000C2CC2,0x86005194,0x870051DB,0x000C2CBF,0x000C2CBC,0xA1005209,0xA2005255,0xA3005292,0xA40052CC],
    [0xA5005306,0xA6005340,0xA700537A,0xA80053B1,0xA90053EE,0xAA005428,0xAB00545F,0xAC005499,0xAD0054D6,0xAE00550D],
    [0xAF005547,0xB0005581,0xB10055BE,0xB20055F5,0xB3005616,0xB4005669,0xB50056A6,0x000C2CB9,0x000C2CB6,0x000C2CB3],
    [0x000C2CB0,0x000C2CAD,0x000C2CAA,0x000C2CA7,0x000C2CA4,0x000C2CA1,0x000C2C9E,0x000C2C9B,0x000C2C98,0x000C2C95],
    [0x000C2C92,0x000C2C8F,0x000C2C8C,0x000C2C89,0x000C2C86,0x000C2C83,0x000C2C80,0xE10050E7,0x000C2C7D,0x000C2C7A],
    [0x000C2C77,0x000C2C74,0xA800520C,0xA900520D,0xAA005223,0xAB005224,0xAC005225,0xAD005226,0xAE005227,0xAF005228],
    [0xB0005229,0xB100522A,0xB200522B,0xB300522C,0xB400522D,0xB500522E,0xB600522F,0xB7005230,0xB8005231,0xB9005232],
    [0xBA005233,0xBB005234,0xBC005235,0xBD005236,0xBE005238,0xBF005239,0x000C2C71,0x000C2C6E,0x000C2C6B,0x000C2C68],
    [0x000C2C65,0x000C2C62,0x000C2C5F,0x8000523A,0x8100523B,0x82005254,0x000C2C5C,0x000C2C59,0x000C2C56,0x000C2C53],
    [0x860051CE,0x8700520E,0x000C2C50,0x000C2C4D,0x000C2C4A,0x000C2C47,0x000C2C44,0x000C2C41,0x000C2C3E,0x000C2C3B],
    [0x000C2C38,0x000C2C35,0x000C2C32,0x000C2C2F,0x000C2C2C,0x000C2C29,0x000C2C26,0x000C2C23,0xE100510E,0x000C2C20],
    [0xA8005256,0xA9005257,0xAA005258,0xAB005259,0xAC00525A,0xAD00525E,0xAE00525F,0xAF005260,0xB0005261,0xB1005264],
    [0xB2005265,0xB3005266,0xB4005267,0xB5005268,0xB6005269,0xB700526A,0xB800526B,0xB900526C,0xBA00526D,0xBB00526E],
    [0xBC00526F,0xBD005270,0xBE005271,0xBF005272,0x80005273,0x81005275,0x82005291,0x000C2C1D,0x000C2C1A,0x000C2C17],
    [0x000C2C14,0x86005207,0x87005247,0x000C2C11,0x000C2C0E,0x000C2C0B,0x000C2C08,0x000C2C05,0x000C2C02,0x000C2BFF],
    [0x000C2BFC,0x000C2BF9,0x000C2BF6,0x000C2BF3,0x000C2BF0,0x000C2BED,0x000C2BEA,0x000C2BE7,0x000C2BE4,0x000C2BE1],
    [0x000C2BDE,0x000C2BDB,0x000C2BD8,0x000C2BD5,0x000C2BD2,0x000C2BCF,0xE1005148,0xA8005293,0xA9005294,0xAA005297],
    [0xAB005298,0xAC005299,0xAD00529A,0xAE00529B,0xAF00529C,0xB000529D,0xB100529E,0xB200529F,0xB30052A0,0xB40052A1],
    [0xB50052A2,0xB60052A3,0xB70052A4,0xB80052A5,0xB90052A6,0xBA0052A7,0xBB0052A8,0xBC0052A9,0xBD0052AA,0xBE0052AB],
    [0xBF0052AC,0x800052AD,0x810052CA,0x820052CB,0x000C2BCC,0x000C2BC9,0x000C2BC6,0x000C2BC3,0x86005243,0x87005283],
    [0x000C2BC0,0x000C2BBD,0x000C2BBA,0x000C2BB7,0x000C2BB4,0x000C2BB1,0x000C2BAE,0x000C2BAB,0x000C2BA8,0x000C2BA5],
    [0x000C2BA2,0x000C2B9F,0x000C2B9C,0x000C2B99,0x000C2B96,0x000C2B93,0x000C2B90,0x000C2B8D,0x000C2B8A,0x000C2B87],
    [0x000C2B84,0x000C2B81,0x000C2B7E,0x000C2B7B,0x000C2B78,0x000C2B75,0xE1005184,0xA80052CD,0xA90052D0,0xAA0052D1],
    [0xAB0052D2,0xAC0052D3,0xAD0052D4,0xAE0052D5,0xAF0052D6,0xB00052D7,0xB10052D8,0xB20052D9,0xB30052DA,0xB40052DB],
    [0xB50052DC,0xB60052DD,0xB70052DE,0xB80052DF,0xB90052E0,0xBA0052E1,0xBB0052E2,0xBC0052E3,0xBD0052E4,0xBE0052E5],
    [0xBF0052E6,0x800052E7,0x810052E8,0x820052E9,0x000C2B72,0x86005262,0x870052BA,0x000C2B6F,0xA8005309,0xA9005322],
    [0xAA005323,0xAB005324,0xAC005325,0xAD005326,0xAE005327,0xAF005328,0xB0005329,0xB100532A,0xB200532B,0xB300532C],
    [0xB400532D,0xB500532E,0xB600532F,0xB7005330,0xB8005331,0xB9005332,0xBA005333,0xBB005334,0xBC005335,0xBD005337],
    [0xBE005338,0xBF005339,0x000C2B6C,0x000C2B69,0x000C2B66,0x000C2B63,0x000C2B60,0x000C2B5D,0x000C2B5A,0x000C2B57],
    [0x000C2B54,0x000C2B51,0x000C2B4E,0x000C2B4B,0x000C2B48,0x000C2B45,0x000C2B42,0x000C2B3F,0x000C2B3C,0x000C2B39],
    [0x000C2B36,0x000C2B33,0xE10051DC,0x000C2B30,0x000C2B2D,0x000C2B2A,0x8000533D,0x8100533E,0x8200533F,0x000C2B27],
    [0x000C2B24,0x000C2B21,0x000C2B1E,0x860052AE,0x870052F4,0x000C2B1B,0x000C2B18,0x000C2B15,0x000C2B12,0x000C2B0F],
    [0x000C2B0C,0x000C2B09,0x000C2B06,0x000C2B03,0x000C2B00,0x000C2AFD,0x000C2AFA,0x000C2AF7,0x000C2AF4,0x000C2AF1],
    [0x000C2AEE,0x000C2AEB,0x000C2AE8,0x000C2AE5,0xA8005343,0xA9005344,0xAA005345,0xAB005346,0xAC005347,0xAD005348],
    [0xAE005349,0xAF00534A,0xB000534B,0xB100534C,0xB200534D,0xB300534E,0xB400534F,0xB5005350,0xB6005351,0xB7005352],
    [0xB8005353,0xB9005354,0xBA005355,0xBB00536E,0xBC00536F,0xBD005370,0xBE005371,0xBF005372,0x000C2AE2,0x000C2ADF],
    [0x000C2ADC,0x000C2AD9,0x000C2AD6,0xE100520F,0x80005377,0x81005378,0x82005379,0x000C2AD3,0x000C2AD0,0x000C2ACD],
    [0x000C2ACA,0x860052EA,0x87005336,0x000C2AC7,0x000C2AC4,0x000C2AC1,0x000C2ABE,0x000C2ABB,0x000C2AB8,0x000C2AB5],
    [0x000C2AB2,0x000C2AAF,0x000C2AAC,0x000C2AA9,0x000C2AA6,0x000C2AA3,0x000C2AA0,0x000C2A9D,0x000C2A9A,0x000C2A97],
    [0x000C2A94,0x000C2A91,0x000C2A8E,0x000C2A8B,0xA800537D,0xA900537E,0xAA00537F,0xAB005380,0xAC005381,0xAD005382],
    [0xAE005383,0xAF005384,0xB0005385,0xB1005386,0xB2005387,0xB3005388,0xB4005389,0xB500538A,0xB600538B,0xB700538C],
    [0xB800538D,0xB900538E,0xBA00538F,0xBB005390,0xBC005391,0xBD0053AA,0xBE0053AB,0xBF0053AC,0x000C2A88,0x000C2A85],
    [0x000C2A82,0xE1005248,0x000C2A7F,0x000C2A7C,0x000C2A79,0x000C2A76,0x000C2A73,0x000C2A70,0x000C2A6D,0x000C2A6A],
    [0x800053AE,0x810053AF,0x820053B0,0x000C2A67,0x000C2A64,0x000C2A61,0x000C2A5E,0x000C2A5B,0x000C2A58,0x000C2A55],
    [0x8600531A,0x87005368,0xA80053B2,0xA90053B3,0xAA0053B4,0xAB0053B5,0xAC0053B9,0xAD0053BA,0xAE0053BB,0xAF0053BC],
    [0xB00053BD,0xB10053BE,0xB20053BF,0xB30053DA,0xB40053DB,0xB50053DC,0xB60053DD,0xB70053DE,0xB80053DF,0xB90053E0],
    [0xBA0053E1,0xBB0053E2,0xBC0053E3,0xBD0053E4,0xBE0053E5,0xBF0053E6,0x000C2A52,0x000C2A4F,0x000C2A4C,0x000C2A49],
    [0x000C2A46,0x000C2A43,0x000C2A40,0x000C2A3D,0x000C2A3A,0x000C2A37,0x000C2A34,0x000C2A31,0x000C2A2E,0xE1005281],
    [0x800053EB,0x810053EC,0x820053ED,0x000C2A2B,0x000C2A28,0x000C2A25,0x000C2A22,0x86005356,0x870053A2,0x000C2A1F],
    [0x000C2A1C,0x000C2A19,0x000C2A16,0x000C2A13,0x000C2A10,0x000C2A0D,0x000C2A0A,0x000C2A07,0x000C2A04,0x000C2A01],
    [0x000C29FE,0x000C29FB,0xA80053F1,0xA90053F2,0xAA0053F3,0xAB0053F4,0xAC0053F5,0xAD0053F6,0xAE0053F7,0xAF0053F8],
    [0xB00053F9,0xB10053FA,0xB20053FB,0xB30053FC,0xB40053FD,0xB5005416,0xB6005417,0xB7005418,0xB8005419,0xB900541A],
    [0xBA00541B,0xBB00541C,0xBC00541D,0xBD00541E,0xBE00541F,0xBF005420,0x000C29F8,0x000C29F5,0x000C29F2,0x000C29EF],
    [0x000C29EC,0x000C29E9,0x000C29E6,0x000C29E3,0x000C29E0,0x000C29DD,0x000C29DA,0xE10052BB,0x80005425,0x81005426],
    [0x82005427,0x000C29D7,0x000C29D4,0x000C29D1,0x000C29CE,0x86005392,0x870053E7,0x000C29CB,0x000C29C8,0x000C29C5],
    [0x000C29C2,0x000C29BF,0x000C29BC,0x000C29B9,0x000C29B6,0x000C29B3,0x000C29B0,0x000C29AD,0x000C29AA,0x000C29A7],
    [0x000C29A4,0x000C29A1,0xA800542B,0xA900542C,0xAA00542D,0xAB00542E,0xAC00542F,0xAD005430,0xAE005431,0xAF005432],
    [0xB0005433,0xB1005434,0xB2005435,0xB3005436,0xB4005437,0xB5005438,0xB6005439,0xB7005452,0xB8005453,0xB9005454],
    [0xBA005455,0xBB005456,0xBC005457,0xBD005458,0xBE005459,0xBF00545A,0x000C299E,0x000C299B,0x000C2998,0x000C2995],
    [0x000C2992,0x000C298F,0x000C298C,0x000C2989,0x000C2986,0xE10052F5,0x000C2983,0x000C2980,0x000C297D,0x000C297A]]"

definition NODES_15 :: "nat list list" where
  "NODES_15 = [
    [0x000C2977,0x000C2974,0x000C2971,0x000C296E,0x000C296B,0x000C2968,0x000C2965,0x8000545C,0x8100545D,0x8200545E],
    [0x000C2962,0x000C295F,0x000C295C,0x000C2959,0x860053C8,0x87005421,0xA8005460,0xA9005461,0xAA005462,0xAB005463],
    [0xAC005464,0xAD005465,0xAE005466,0xAF00546A,0xB000546B,0xB100546C,0xB200546D,0xB3005488,0xB4005489,0xB500548A],
    [0xB600548B,0xB700548C,0xB800548D,0xB900548E,0xBA00548F,0xBB005490,0xBC005491,0xBD005493,0xBE005494,0xBF005495],
    [0x000C2956,0x000C2953,0x000C2950,0x000C294D,0x000C294A,0x000C2947,0x000C2944,0x000C2941,0x000C293E,0x000C293B],
    [0xE100533A,0x000C2938,0x000C2935,0x000C2932,0x000C292F,0x000C292C,0x000C2929,0x000C2926,0x860053FE,0x87005450],
    [0x000C2923,0x000C2920,0x000C291D,0x000C291A,0x000C2917,0x80005496,0x81005497,0x82005498,0x000C2914,0x000C2911],
    [0xA800549C,0xA900549D,0xAA00549E,0xAB00549F,0xAC0054A0,0xAD0054A4,0xAE0054A5,0xAF0054BE,0xB00054BF,0xB10054C0],
    [0xB20054C1,0xB30054C2,0xB40054C3,0xB50054C4,0xB60054C5,0xB70054C6,0xB80054C7,0xB90054C8,0xBA0054C9,0xBB0054CA],
    [0xBC0054CB,0xBD0054CC,0xBE0054CD,0xBF0054CE,0x000C290E,0x000C290B,0x000C2908,0x000C2905,0x000C2902,0x000C28FF],
    [0x000C28FC,0x000C28F9,0x000C28F6,0x000C28F3,0x000C28F0,0x000C28ED,0x000C28EA,0x000C28E7,0x000C28E4,0x000C28E1],
    [0x000C28DE,0xE1005369,0x800054D3,0x810054D4,0x820054D5,0x000C28DB,0x000C28D8,0x000C28D5,0x000C28D2,0x8600543A],
    [0x87005492,0x000C28CF,0x000C28CC,0x000C28C9,0x000C28C6,0x000C28C3,0x000C28C0,0x000C28BD,0x000C28BA,0x000C28B7],
    [0xA80054D9,0xA90054DA,0xAA0054DB,0xAB0054DC,0xAC0054DD,0xAD0054DE,0xAE0054DF,0xAF0054E0,0xB00054E1,0xB10054FA],
    [0xB20054FB,0xB30054FC,0xB40054FD,0xB50054FE,0xB60054FF,0xB7005500,0xB8005501,0xB9005502,0xBA005503,0xBB005504],
    [0xBC005505,0xBD005506,0xBE005507,0xBF005508,0x000C28B4,0x000C28B1,0x000C28AE,0x000C28AB,0x000C28A8,0x000C28A5],
    [0x000C28A2,0x000C289F,0x000C289C,0x000C2899,0x000C2896,0x000C2893,0x000C2890,0x000C288D,0x000C288A,0xE10053A3],
    [0x000C2887,0x000C2884,0x000C2881,0x000C287E,0x000C287B,0x000C2878,0x000C2875,0x000C2872,0x8000550A,0x8100550B],
    [0x8200550C,0x000C286F,0x000C286C,0x000C2869,0x000C2866,0x000C2863,0x000C2860,0x000C285D,0x000C285A,0x000C2857],
    [0x000C2854,0x000C2851,0x8600547A,0x870054CF,0xA800550E,0xA900550F,0xAA005510,0xAB005511,0xAC005515,0xAD005516],
    [0xAE005517,0xAF005518,0xB0005519,0xB100551A,0xB200551B,0xB300551C,0xB400551D,0xB500551E,0xB600551F,0xB700553A],
    [0xB800553B,0xB900553C,0xBA00553D,0xBB00553E,0xBC00553F,0xBD005541,0xBE005542,0xBF005543,0x000C284E,0x000C284B],
    [0x000C2848,0x000C2845,0x000C2842,0x000C283F,0xE10053E8,0x000C283C,0x000C2839,0x000C2836,0x000C2833,0x000C2830],
    [0x000C282D,0x000C282A,0x000C2827,0x000C2824,0x000C2821,0x000C281E,0x000C281B,0x000C2818,0x000C2815,0x80005544],
    [0x81005545,0x82005546,0x000C2812,0x000C280F,0x000C280C,0x000C2809,0x860054B0,0x87005509,0xA8005548,0xA9005549],
    [0xAA00554A,0xAB00554B,0xAC00554C,0xAD00554D,0xAE00554E,0xAF005552,0xB0005553,0xB1005554,0xB2005555,0xB3005570],
    [0xB4005571,0xB5005572,0xB6005573,0xB7005574,0xB8005575,0xB9005576,0xBA005577,0xBB005578,0xBC005579,0xBD00557B],
    [0xBE00557C,0xBF00557D,0x000C2806,0x000C2803,0x000C2800,0x000C27FD,0x000C27FA,0x000C27F7,0x000C27F4,0x000C27F1],
    [0x000C27EE,0x000C27EB,0xE1005414,0x000C27E8,0x000C27E5,0x000C27E2,0x000C27DF,0x000C27DC,0x000C27D9,0x000C27D6],
    [0x000C27D3,0x000C27D0,0x000C27CD,0x000C27CA,0x000C27C7,0x000C27C4,0x000C27C1,0x8000557E,0x8100557F,0x82005580],
    [0x000C27BE,0x000C27BB,0x000C27B8,0x000C27B5,0x000C27B2,0x000C27AF,0x000C27AC,0x000C27A9,0x000C27A6,0x000C27A3],
    [0x000C27A0,0x000C279D,0x860054F2,0x87005538,0xA8005582,0xA9005583,0xAA005584,0xAB005585,0xAC005586,0xAD005587],
    [0xAE005588,0xAF00558C,0xB000558D,0xB100558E,0xB200558F,0xB3005590,0xB4005591,0xB5005592,0xB6005593,0xB7005594],
    [0xB8005595,0xB9005596,0xBA005597,0xBB0055B2,0xBC0055B3,0xBD0055B4,0xBE0055B5,0xBF0055B6,0x000C279A,0x000C2797],
    [0x000C2794,0x000C2791,0x000C278E,0xE1005451,0x800055BB,0x810055BC,0x820055BD,0x000C278B,0x000C2788,0x000C2785],
    [0x000C2782,0x86005520,0x8700557A,0x000C277F,0x000C277C,0x000C2779,0x000C2776,0x000C2773,0x000C2770,0x000C276D],
    [0xA80055C1,0xA90055C2,0xAA0055C3,0xAB0055C4,0xAC0055C5,0xAD0055C6,0xAE0055C7,0xAF0055E0,0xB00055E1,0xB10055E2],
    [0xB20055E3,0xB30055E4,0xB40055E5,0xB50055E6,0xB60055E7,0xB70055E8,0xB80055E9,0xB90055EA,0xBA0055EB,0xBB0055EC],
    [0xBC0055ED,0xBD0055EF,0xBE0055F0,0xBF0055F1,0x000C276A,0x000C2767,0x000C2764,0x000C2761,0x000C275E,0x000C275B],
    [0x000C2758,0x000C2755,0x000C2752,0x000C274F,0x000C274C,0x000C2749,0x000C2746,0x000C2743,0xE100549A,0x000C2740],
    [0x000C273D,0x000C273A,0x000C2737,0x000C2734,0x000C2731,0x000C272E,0x000C272B,0x000C2728,0x000C2725,0x000C2722],
    [0x800055F2,0x810055F3,0x820055F4,0x000C271F,0x000C271C,0x000C2719,0x000C2716,0x000C2713,0x000C2710,0x000C270D],
    [0x000C270A,0x000C2707,0x000C2704,0x000C2701,0x000C26FE,0x000C26FB,0x000C26F8,0x000C26F5,0x000C26F2,0x000C26EF],
    [0x000C26EC,0x8600558A,0x87005598,0x000C26E9,0x000C26E6,0x000C26E3,0x000C26E0,0x000C26DD,0x000C26DA,0x000C26D7],
    [0x80005613,0x81005614,0x82005615,0x000C26D4,0x000C26D1,0x000C26CE,0x000C26CB,0x860055A2,0x870055EE,0x000C26C8],
    [0x000C26C5,0x000C26C2,0x000C26BF,0x000C26BC,0x000C26B9,0x000C26B6,0xE10054D0,0x000C26B3,0x000C26B0,0x000C26AD],
    [0x000C26AA,0x000C26A7,0x000C26A4,0x000C26A1,0x000C269E,0x000C269B,0xA80055F6,0xA90055F7,0xAA0055F8,0xAB0055F9],
    [0xAC0055FD,0xAD0055FE,0xAE0055FF,0xAF005600,0xB0005601,0xB1005602,0xB2005603,0xB3005604,0xB4005605,0xB5005606],
    [0xB6005607,0xB7005608,0xB8005609,0xB900560A,0xBA00560B,0xBB00560C,0xBC00560D,0xBD00560E,0xBE005611,0xBF005612],
    [0xA8005617,0xA900561B,0xAA00561C,0xAB00561D,0xAC00561E,0xAD005621,0xAE005622,0xAF005623,0xB0005624,0xB1005625],
    [0xB2005626,0xB3005627,0xB4005629,0xB500562A,0xB600562B,0xB700562C,0xB800562D,0xB900562E,0xBA00562F,0xBB005630],
    [0xBC005631,0xBD005663,0xBE005664,0xBF005665,0xE1005512,0x000C2698,0x000C2695,0x000C2692,0x000C268F,0x000C268C],
    [0x000C2689,0x000C2686,0x000C2683,0x000C2680,0x000C267D,0x000C267A,0x80005666,0x81005667,0x82005668,0x000C2677],
    [0x000C2674,0x000C2671,0x000C266E,0x000C266B,0x000C2668,0x000C2665,0x000C2662,0x000C265F,0x000C265C,0x000C2659],
    [0x000C2656,0x000C2653,0x000C2650,0x000C264D,0x860055DA,0x87005620,0xA800566A,0xA900566B,0xAA00566C,0xAB00566D],
    [0xAC005671,0xAD005672,0xAE005673,0xAF005674,0xB0005675,0xB1005676,0xB2005677,0xB3005678,0xB4005679,0xB500567A],
    [0xB600567B,0xB700567C,0xB800567D,0xB900567E,0xBA00567F,0xBB00569A,0xBC00569B,0xBD00569C,0xBE00569D,0xBF00569E],
    [0x000C264A,0x000C2647,0x000C2644,0x000C2641,0x000C263E,0xE1005539,0x800056A3,0x810056A4,0x820056A5,0x000C263B],
    [0x000C2638,0x000C2635,0x000C2632,0x000C262F,0x000C262C,0x000C2629,0x000C2626,0x000C2623,0x000C2620,0x000C261D],
    [0x8600560F,0x8700565A,0x000C261A,0x000C2617,0x000C2614,0x000C2611,0x000C260E,0x000C260B,0x000C2608,0xA80056A7],
    [0xA90056A8,0xAA0056A9,0xAB0056AA,0xAC0056AB,0xAD0056AC,0xAE0056AD,0xAF0056B0,0xB00056B1,0xB10056B2,0xB20056B3],
    [0xB30056B4,0xB40056B5,0xB50056B6,0xB60056CF,0xB70056D0,0xB80056D1,0xB90056D2,0xBA0056D3,0xBB0056D4,0xBC0056D5],
    [0xBD0056D7,0xBE0056D8,0xBF0056D9,0x000C2605,0x000C2602,0x000C25FF,0x000C25FC,0x000C25F9,0x000C25F6,0x000C25F3],
    [0xE1005589,0x000C25F0,0x000C25ED,0x000C25EA,0x800056DD,0x810056DE,0x820056DF,0x000C25E7,0x000C25E4,0x000C25E1],
    [0x85005657,0x000C25DE,0x8600566E,0x87005693,0x000C25DB,0x000C25D8,0x000C25D5,0x000C25D2,0x000C25CF,0x000C25CC],
    [0x000C25C9,0x000C25C6,0x000C25C3,0x000C25C0,0x000C25BD,0x000C25BA,0x000C25B7,0xE100565B,0x000C25B4,0x000C25B1],
    [0x000C25AE,0x000C25AB,0x000C25A8,0xE1005599,0xA10056E1,0xA2005731,0xA3005753,0xA40057A5,0xA50057DF,0xA6005816],
    [0xA700583B,0xA800588D,0xA90058C4,0xAA0058FE,0xAB005938,0xAC005975,0xAD0059AF,0xAE0059E9,0xAF005A20,0xB0005A5A],
    [0xB1005A94,0xB2005ACE,0xB3005B08,0xB4005B45,0xB5005B7F,0x000C25A5,0x000C25A2,0x000C259F,0x000C259C,0x000C2599],
    [0x000C2596,0x8000572E,0x8100572F,0x82005730,0xA80056E4,0xA90056E5,0xAA0056E6,0xAB0056E7,0xAC0056E8,0xAD0056E9],
    [0xAE0056EA,0xAF0056EB,0xB00056EC,0xB10056ED,0xB20056EE,0xB30056EF,0xB40056F0,0xB50056F2,0xB60056F3,0xB70056F4],
    [0xB80056F5,0xB90056F6,0xBA00570D,0xBB00570E,0xBC00570F,0xBD005710,0xBE005711,0xBF005712,0x000C2593,0x000C2590],
    [0x000C258D,0x000C258A,0x000C2587,0x000C2584,0x860056AF,0x870056CD,0x000C2581,0x000C257E,0x000C257B,0x000C2578],
    [0x000C2575,0x000C2572,0x000C256F,0x000C256C,0x000C2569,0x000C2566,0x000C2563,0x000C2560,0x000C255D,0x000C255A],
    [0x000C2557,0x000C2554,0x000C2551,0x000C254E,0x000C254B,0x000C2548,0xE10055FA,0x000C2545,0x000C2542,0x80005750],
    [0x81005751,0x82005752,0x000C253F,0x000C253C,0x000C2539,0x000C2536,0x860056C7,0x8700571F,0x000C2533,0xA8005732],
    [0xA9005733,0xAA005736,0xAB005737,0xAC005738,0xAD005739,0xAE00573A,0xAF00573B,0xB000573C,0xB100573D,0xB200573E],
    [0xB300573F,0xB4005740,0xB5005741,0xB6005742,0xB7005743,0xB8005744,0xB9005745,0xBA005746,0xBB005747,0xBC005748],
    [0xBD005749,0xBE00574B,0xBF00574C,0xA8005756,0xA9005788,0xAA005789,0xAB00578A,0xAC00578B,0xAD00578C,0xAE00578D],
    [0xAF00578E,0xB000578F,0xB1005790,0xB2005791,0xB3005792,0xB4005793,0xB5005794,0xB6005795,0xB7005796,0xB8005797],
    [0xB9005798,0xBA005799,0xBB00579A,0xBC00579B,0xBD00579C,0xBE00579D,0xBF00579E,0xE1005628,0x000C2530,0x000C252D],
    [0x000C252A,0x000C2527,0x000C2524,0x000C2521,0x000C251E,0x000C251B,0x000C2518,0x000C2515,0x000C2512,0x000C250F],
    [0x000C250C,0x000C2509,0x000C2506,0x000C2503,0x000C2500,0x000C24FD,0x000C24FA,0x000C24F7,0x000C24F4,0x000C24F1],
    [0x000C24EE,0x800057A2,0x810057A3,0x820057A4,0x000C24EB,0x000C24E8,0x000C24E5,0x000C24E2,0x86005700,0x87005759],
    [0xA80057C0,0xA90057C1,0xAA0057C3,0xAB0057C4,0xAC0057C5,0xAD0057C6,0xAE0057C7,0xAF0057C8,0xB00057C9,0xB10057CA],
    [0xB20057CB,0xB30057CC,0xB40057CD,0xB50057CE,0xB60057CF,0xB70057D0,0xB80057D1,0xB90057D2,0xBA0057D3,0xBB0057D4],
    [0xBC0057D5,0xBD0057D6,0xBE0057D7,0xBF0057D8,0x000C24DF,0x000C24DC,0xE100565C,0x000C24D9,0x000C24D6,0x000C24D3],
    [0x000C24D0,0x000C24CD,0x000C24CA,0x000C24C7,0x000C24C4,0x000C24C1,0x000C24BE,0x000C24BB,0x000C24B8,0x000C24B5],
    [0x000C24B2,0x000C24AF,0x000C24AC,0x000C24A9,0x000C24A6,0x000C24A3,0x000C24A0,0x000C249D,0x000C249A,0x800057DC],
    [0x810057DD,0x820057DE,0x000C2497,0x000C2494,0x000C2491,0x000C248E,0x8600574A,0x8700579F,0x000C248B,0x000C2488],
    [0x000C2485,0x000C2482,0x000C247F,0x000C247C,0x000C2479,0x000C2476,0x000C2473,0x000C2470,0x000C246D,0x000C246A],
    [0x000C2467,0x000C2464,0x000C2461,0x000C245E,0xA80057E2,0xA90057E3,0xAA0057E4,0xAB0057E5,0xAC0057E6,0xAD0057E7],
    [0xAE0057E8,0xAF0057E9,0xB00057EA,0xB10057EB,0xB20057EC,0xB30057ED,0xB40057EE,0xB50057EF,0xB60057F0,0xB70057F1],
    [0xB800580A,0xB900580B,0xBA00580C,0xBB00580D,0xBC00580E,0xBD00580F,0xBE005810,0xBF005811,0x000C245B,0x000C2458],
    [0x000C2455,0x000C2452,0x000C244F,0x000C244C,0x000C2449,0x000C2446,0xE10056AE,0x000C2443,0x000C2440,0x000C243D],
    [0x000C243A,0x000C2437,0x000C2434,0x000C2431,0x000C242E,0x000C242B,0x000C2428,0x000C2425,0x000C2422,0x80005813],
    [0x81005814,0x82005815,0x000C241F,0x000C241C,0x000C2419,0x000C2416,0x860057A1,0x870057B5,0x000C2413,0x000C2410],
    [0x000C240D,0x000C240A,0x000C2407,0x000C2404,0x000C2401,0x000C23FE,0x000C23FB,0x000C23F8,0x000C23F5,0x000C23F2],
    [0xE10056CE,0x80005838,0x81005839,0x8200583A,0x000C23EF,0x000C23EC,0x000C23E9,0x000C23E6,0x860057B9,0x87005807],
    [0x000C23E3,0x000C23E0,0x000C23DD,0x000C23DA,0x000C23D7,0x000C23D4,0x000C23D1,0x000C23CE,0x000C23CB,0x000C23C8],
    [0x000C23C5,0xA8005817,0xA9005818,0xAA005819,0xAB00581A,0xAC00581B,0xAD00581C,0xAE00581D,0xAF00581E,0xB0005822],
    [0xB1005823,0xB2005824,0xB3005825,0xB4005828,0xB5005829,0xB600582A,0xB700582B,0xB800582C,0xB900582D,0xBA00582E],
    [0xBB00582F,0xBC005830,0xBD005831,0xBE005832,0xBF005833,0xA800583E,0xA900583F,0xAA005840,0xAB005841,0xAC005842],
    [0xAD005843,0xAE005844,0xAF005845,0xB0005846,0xB1005847,0xB2005848,0xB3005879,0xB400587A,0xB500587B,0xB600587C],
    [0xB700587D,0xB800587E,0xB900587F,0xBA005880,0xBB005881,0xBC005882,0xBD005883,0xBE005884,0xBF005885,0x000C23C2],
    [0x000C23BF,0x000C23BC,0x000C23B9,0x000C23B6,0x000C23B3,0x000C23B0,0x000C23AD,0x000C23AA,0x000C23A7,0x000C23A4],
    [0x000C23A1,0x000C239E,0xE1005720,0x8000588A,0x8100588B,0x8200588C,0x000C239B,0x000C2398,0x000C2395,0x000C2392],
    [0x860057F2,0x87005849,0x000C238F,0x000C238C,0x000C2389,0x000C2386,0x000C2383,0x000C2380,0x000C237D,0x000C237A],
    [0x000C2377,0x000C2374,0xA8005890,0xA9005891,0xAA005892,0xAB005893,0xAC005894,0xAD005895,0xAE005896,0xAF005897],
    [0xB0005898,0xB1005899,0xB20058B2,0xB30058B3,0xB40058B4,0xB50058B5,0xB60058B6,0xB70058B7,0xB80058B8,0xB90058B9],
    [0xBA0058BA,0xBB0058BB,0xBC0058BC,0xBD0058BD,0xBE0058BE,0xBF0058BF,0x000C2371,0x000C236E,0x000C236B,0x000C2368],
    [0x000C2365,0x000C2362,0x000C235F,0x000C235C,0x000C2359,0x000C2356,0x000C2353,0x000C2350,0x000C234D,0x000C234A],
    [0xE100575A,0x000C2347,0x000C2344,0x000C2341,0x000C233E,0x000C233B,0x000C2338,0x000C2335,0x000C2332,0x800058C1],
    [0x810058C2,0x820058C3,0x000C232F,0x000C232C,0x000C2329,0x000C2326,0x86005834,0x87005886,0x000C2323,0x000C2320],
    [0x000C231D,0x000C231A,0x000C2317,0x000C2314,0x000C2311,0x000C230E,0x000C230B,0x000C2308,0xA80058C5,0xA90058C6],
    [0xAA0058C7,0xAB0058C8,0xAC0058CC,0xAD0058CD,0xAE0058CE,0xAF0058CF,0xB00058D2,0xB10058D3,0xB20058D4,0xB30058D5],
    [0xB40058D6,0xB50058D7,0xB60058D8,0xB70058D9,0xB80058DA,0xB90058DB,0xBA0058F4,0xBB0058F5,0xBC0058F6,0xBD0058F8],
    [0xBE0058F9,0xBF0058FA,0x000C2305,0x000C2302,0x000C22FF,0xE10057A0,0x000C22FC,0x000C22F9,0x000C22F6,0x000C22F3],
    [0x000C22F0,0x000C22ED,0x000C22EA,0x000C22E7,0x000C22E4,0x000C22E1,0x000C22DE,0x000C22DB,0x000C22D8,0x000C22D5],
    [0x800058FB,0x810058FC,0x820058FD,0x000C22D2,0x000C22CF,0x000C22CC,0x000C22C9,0x86005875,0x870058C0,0x000C22C6],
    [0x000C22C3,0x000C22C0,0x000C22BD,0x000C22BA,0x000C22B7,0x000C22B4,0x000C22B1,0x000C22AE,0x000C22AB,0x000C22A8],
    [0x000C22A5,0x000C22A2,0xE10057B6,0xA80058FF,0xA9005900,0xAA005901,0xAB005902,0xAC005903,0xAD005904,0xAE005905],
    [0xAF005909,0xB000590A,0xB100590B,0xB200590C,0xB300590F,0xB4005910,0xB5005911,0xB6005912,0xB7005913,0xB8005914],
    [0xB9005915,0xBA005916,0xBB005917,0xBC005918,0xBD005919,0xBE00591A,0xBF00591B,0x000C229F,0x000C229C,0x000C2299],
    [0x000C2296,0x000C2293,0x000C2290,0x000C228D,0x000C228A,0x000C2287,0x000C2284,0x000C2281,0x80005935,0x81005936],
    [0x82005937,0x000C227E,0x000C227B,0x000C2278,0x000C2275,0x000C2272,0x000C226F,0x000C226C,0x000C2269,0x000C2266],
    [0x000C2263,0x000C2260,0x000C225D,0x860058A9,0x870058EF,0xA8005939,0xA900593A,0xAA00593B,0xAB00593C,0xAC00593D],
    [0xAD00593E,0xAE00593F,0xAF005943,0xB0005944,0xB1005945,0xB2005946,0xB3005947,0xB4005948,0xB5005949,0xB600594A],
    [0xB700594B,0xB800594C,0xB900594D,0xBA00594E,0xBB005969,0xBC00596A,0xBD00596B,0xBE00596C,0xBF00596D,0x000C225A],
    [0x000C2257,0x000C2254,0x000C2251,0x000C224E,0xE1005808,0x80005972,0x81005973,0x82005974,0x000C224B,0x000C2248],
    [0x000C2245,0x000C2242,0x860058D0,0x87005929,0xA8005990,0xA9005991,0xAA005992,0xAB005993,0xAC005994,0xAD005995],
    [0xAE005996,0xAF005997,0xB0005998,0xB1005999,0xB200599A,0xB300599B,0xB400599C,0xB500599D,0xB600599E,0xB700599F],
    [0xB80059A0,0xB90059A1,0xBA0059A2,0xBB0059A3,0xBC0059A4,0xBD0059A6,0xBE0059A7,0xBF0059A8,0x000C223F,0x000C223C],
    [0x000C2239,0x000C2236,0x000C2233,0x000C2230,0x000C222D,0x000C222A,0x000C2227,0x000C2224,0x000C2221,0x000C221E],
    [0x000C221B,0x000C2218,0x000C2215,0x000C2212,0x000C220F,0x000C220C,0x000C2209,0x000C2206,0x000C2203,0xE100584A],
    [0x000C2200,0x000C21FD,0x000C21FA,0x800059AC,0x810059AD,0x820059AE,0x000C21F7,0x000C21F4,0x000C21F1,0x000C21EE],
    [0x8600590D,0x87005963,0x000C21EB,0x000C21E8,0x000C21E5,0xA80059B2,0xA90059B3,0xAA0059B4,0xAB0059CD,0xAC0059CE],
    [0xAD0059CF,0xAE0059D0,0xAF0059D1,0xB00059D2,0xB10059D3,0xB20059D4,0xB30059D5,0xB40059D6,0xB50059D7,0xB60059D8],
    [0xB70059D9,0xB80059DA,0xB90059DB,0xBA0059DC,0xBB0059DD,0xBC0059DE,0xBD0059E0,0xBE0059E1,0xBF0059E2,0x000C21E2],
    [0x000C21DF,0x000C21DC,0x000C21D9,0x000C21D6,0x000C21D3,0x000C21D0,0x000C21CD,0x000C21CA,0x000C21C7,0x000C21C4],
    [0x000C21C1,0x000C21BE,0x000C21BB,0x000C21B8,0x000C21B5,0x000C21B2,0x000C21AF,0xE1005887,0x000C21AC,0x000C21A9],
    [0x000C21A6,0x800059E6,0x810059E7,0x820059E8,0x000C21A3,0x000C21A0,0x000C219D,0x000C219A,0x8600594F,0x870059A5],
    [0x000C2197,0x000C2194,0x000C2191,0x000C218E,0x000C218B,0x000C2188,0x000C2185,0x000C2182,0x000C217F,0x000C217C],
    [0x000C2179,0xA80059EC,0xA90059ED,0xAA0059EE,0xAB0059EF,0xAC0059F0,0xAD0059F1,0xAE0059F2,0xAF0059F3,0xB00059F4]]"

definition NODES_16 :: "nat list list" where
  "NODES_16 = [
    [0xB10059F5,0xB20059F6,0xB3005A0F,0xB4005A10,0xB5005A11,0xB6005A12,0xB7005A13,0xB8005A14,0xB9005A15,0xBA005A16],
    [0xBB005A17,0xBC005A18,0xBD005A1A,0xBE005A1B,0xBF005A1C,0x000C2176,0x000C2173,0x000C2170,0x000C216D,0x000C216A],
    [0x000C2167,0x000C2164,0x000C2161,0x000C215E,0x000C215B,0xE10058C9,0x000C2158,0x000C2155,0x000C2152,0x000C214F],
    [0x000C214C,0x000C2149,0x000C2146,0x000C2143,0x000C2140,0x000C213D,0x000C213A,0x80005A1D,0x81005A1E,0x82005A1F],
    [0x000C2137,0x000C2134,0x000C2131,0x000C212E,0x000C212B,0x000C2128,0x000C2125,0x86005989,0x870059DF,0xA8005A21],
    [0xA9005A22,0xAA005A23,0xAB005A24,0xAC005A28,0xAD005A29,0xAE005A2A,0xAF005A2B,0xB0005A2C,0xB1005A2D,0xB2005A2E],
    [0xB3005A49,0xB4005A4A,0xB5005A4B,0xB6005A4C,0xB7005A4D,0xB8005A4E,0xB9005A4F,0xBA005A50,0xBB005A51,0xBC005A52],
    [0xBD005A53,0xBE005A54,0xBF005A55,0x000C2122,0x000C211F,0x000C211C,0x000C2119,0x000C2116,0x000C2113,0x000C2110],
    [0x000C210D,0x000C210A,0x000C2107,0x000C2104,0x000C2101,0x000C20FE,0xE10058F0,0x000C20FB,0x000C20F8,0x000C20F5],
    [0x000C20F2,0x000C20EF,0x000C20EC,0x000C20E9,0x000C20E6,0x80005A57,0x81005A58,0x82005A59,0x000C20E3,0x000C20E0],
    [0x000C20DD,0x000C20DA,0x000C20D7,0x000C20D4,0x000C20D1,0x860059C3,0x87005A19,0xA8005A5B,0xA9005A5C,0xAA005A5D],
    [0xAB005A5E,0xAC005A62,0xAD005A63,0xAE005A64,0xAF005A65,0xB0005A66,0xB1005A67,0xB2005A68,0xB3005A83,0xB4005A84],
    [0xB5005A85,0xB6005A86,0xB7005A87,0xB8005A88,0xB9005A89,0xBA005A8A,0xBB005A8B,0xBC005A8C,0xBD005A8D,0xBE005A8E],
    [0xBF005A8F,0x000C20CE,0x000C20CB,0x000C20C8,0x000C20C5,0x000C20C2,0x000C20BF,0x000C20BC,0x000C20B9,0x000C20B6],
    [0x000C20B3,0x000C20B0,0x000C20AD,0x000C20AA,0xE100592A,0x000C20A7,0x000C20A4,0x000C20A1,0x000C209E,0x000C209B],
    [0x000C2098,0x000C2095,0x000C2092,0x80005A91,0x81005A92,0x82005A93,0x000C208F,0x000C208C,0x000C2089,0x000C2086],
    [0x000C2083,0x000C2080,0x000C207D,0x000C207A,0x000C2077,0x000C2074,0x000C2071,0x000C206E,0x000C206B,0x000C2068],
    [0x000C2065,0x86005A05,0x87005A56,0xA8005A95,0xA9005A96,0xAA005A97,0xAB005A98,0xAC005A9C,0xAD005A9D,0xAE005A9E],
    [0xAF005A9F,0xB0005AA0,0xB1005AA1,0xB2005AA2,0xB3005AA3,0xB4005AA4,0xB5005AA5,0xB6005AA6,0xB7005AA7,0xB8005AA8],
    [0xB9005AA9,0xBA005AAA,0xBB005AC5,0xBC005AC6,0xBD005AC7,0xBE005AC8,0xBF005AC9,0x000C2062,0x000C205F,0x000C205C],
    [0x000C2059,0x000C2056,0xE1005964,0x000C2053,0x000C2050,0x000C204D,0x000C204A,0x000C2047,0x000C2044,0x000C2041],
    [0x000C203E,0x000C203B,0x000C2038,0x000C2035,0x80005ACB,0x81005ACC,0x82005ACD,0x000C2032,0x000C202F,0x000C202C],
    [0x000C2029,0x000C2026,0x000C2023,0x000C2020,0x000C201D,0x000C201A,0x000C2017,0x000C2014,0x000C2011,0x86005A3F],
    [0x87005A90,0xA8005ACF,0xA9005AD0,0xAA005AD1,0xAB005AD2,0xAC005AD3,0xAD005AD4,0xAE005AD5,0xAF005AD9,0xB0005ADA],
    [0xB1005ADB,0xB2005ADC,0xB3005ADD,0xB4005ADE,0xB5005ADF,0xB6005AE0,0xB7005AE1,0xB8005AE2,0xB9005AE3,0xBA005AE4],
    [0xBB005AFF,0xBC005B00,0xBD005B02,0xBE005B03,0xBF005B04,0x000C200E,0x000C200B,0xE10059A9,0x000C2008,0x000C2005],
    [0x000C2002,0x000C1FFF,0x000C1FFC,0x000C1FF9,0x000C1FF6,0x000C1FF3,0x000C1FF0,0x000C1FED,0x000C1FEA,0x000C1FE7],
    [0x000C1FE4,0x000C1FE1,0x80005B05,0x81005B06,0x82005B07,0x000C1FDE,0x000C1FDB,0x000C1FD8,0x000C1FD5,0x000C1FD2],
    [0x000C1FCF,0x000C1FCC,0x000C1FC9,0x000C1FC6,0x000C1FC3,0x000C1FC0,0x000C1FBD,0x86005A79,0x87005ABF,0xA8005B09],
    [0xA9005B0A,0xAA005B0B,0xAB005B0C,0xAC005B0D,0xAD005B0E,0xAE005B0F,0xAF005B13,0xB0005B14,0xB1005B15,0xB2005B16],
    [0xB3005B17,0xB4005B18,0xB5005B19,0xB6005B1A,0xB7005B1B,0xB8005B1C,0xB9005B1D,0xBA005B1E,0xBB005B39,0xBC005B3A],
    [0xBD005B3C,0xBE005B3D,0xBF005B3E,0x000C1FBA,0x000C1FB7,0xE10059E3,0x000C1FB4,0x000C1FB1,0x000C1FAE,0x80005B42],
    [0x81005B43,0x82005B44,0x000C1FAB,0x000C1FA8,0x000C1FA5,0x000C1FA2,0x86005AAB,0x87005AF9,0x000C1F9F,0x000C1F9C],
    [0x000C1F99,0x000C1F96,0x000C1F93,0x000C1F90,0x000C1F8D,0x000C1F8A,0x000C1F87,0x000C1F84,0x000C1F81,0xA8005B48],
    [0xA9005B49,0xAA005B4A,0xAB005B4B,0xAC005B4C,0xAD005B4D,0xAE005B4E,0xAF005B4F,0xB0005B50,0xB1005B51,0xB2005B52],
    [0xB3005B6B,0xB4005B6C,0xB5005B6D,0xB6005B6E,0xB7005B6F,0xB8005B70,0xB9005B71,0xBA005B72,0xBB005B73,0xBC005B74],
    [0xBD005B76,0xBE005B77,0xBF005B78,0x000C1F7E,0x000C1F7B,0x000C1F78,0x000C1F75,0x000C1F72,0x000C1F6F,0x000C1F6C],
    [0x000C1F69,0x000C1F66,0x000C1F63,0xE1005A25,0x000C1F60,0x000C1F5D,0x000C1F5A,0x80005B7C,0x81005B7D,0x82005B7E],
    [0x000C1F57,0x000C1F54,0x000C1F51,0x000C1F4E,0x86005AE5,0x87005B33,0x000C1F4B,0x000C1F48,0x000C1F45,0x000C1F42],
    [0x000C1F3F,0x000C1F3C,0x000C1F39,0x000C1F36,0x000C1F33,0x000C1F30,0x000C1F2D,0xA8005B82,0xA9005B83,0xAA005B84],
    [0xAB005B85,0xAC005B86,0xAD005B87,0xAE005B88,0xAF005B89,0xB0005B8A,0xB1005B8B,0xB2005B8C,0xB3005BA5,0xB4005BA6],
    [0xB5005BA7,0xB6005BA8,0xB7005BA9,0xB8005BAA,0xB9005BAB,0xBA005BAC,0xBB005BAD,0xBC005BAE,0xBD005BB0,0xBE005BB1],
    [0xBF005BB2,0x000C1F2A,0x000C1F27,0x000C1F24,0x000C1F21,0x000C1F1E,0x000C1F1B,0x000C1F18,0x000C1F15,0x000C1F12],
    [0x000C1F0F,0xE1005A5F,0x000C1F0C,0x000C1F09,0x000C1F06,0x80005BB6,0x81005BB7,0x82005BB8,0x000C1F03,0x000C1F00],
    [0x000C1EFD,0xE1005B35,0x85005B1F,0x000C1EFA,0x86005B46,0x87005B8D,0x000C1EF7,0x000C1EF4,0xA1005BBB,0xA2005C07],
    [0xA3005C44,0xA4005C7E,0xA5005CB8,0xA6005CF2,0xA7005D2C,0xA8005D63,0xA9005DA0,0xAA005DDA,0xAB005E11,0xAC005E4B],
    [0xAD005E88,0xAE005EBF,0xAF005EF9,0xB0005F33,0xB1005F70,0xB2005FA7,0xB3005FC8,0xB400601B,0xB5006058,0x000C1EF1],
    [0x000C1EEE,0x000C1EEB,0x000C1EE8,0x000C1EE5,0x000C1EE2,0x000C1EDF,0x000C1EDC,0x000C1ED9,0x000C1ED6,0x000C1ED3],
    [0x000C1ED0,0x000C1ECD,0x000C1ECA,0x000C1EC7,0x000C1EC4,0x000C1EC1,0x000C1EBE,0x000C1EBB,0x000C1EB8,0xE1005A99],
    [0x000C1EB5,0x000C1EB2,0x000C1EAF,0x000C1EAC,0xA8005BBE,0xA9005BBF,0xAA005BD5,0xAB005BD6,0xAC005BD7,0xAD005BD8],
    [0xAE005BD9,0xAF005BDA,0xB0005BDB,0xB1005BDC,0xB2005BDD,0xB3005BDE,0xB4005BDF,0xB5005BE0,0xB6005BE1,0xB7005BE2],
    [0xB8005BE3,0xB9005BE4,0xBA005BE5,0xBB005BE6,0xBC005BE7,0xBD005BE8,0xBE005BEA,0xBF005BEB,0x000C1EA9,0x000C1EA6],
    [0x000C1EA3,0x000C1EA0,0x000C1E9D,0x000C1E9A,0x000C1E97,0x80005BEC,0x81005BED,0x82005C06,0x000C1E94,0x000C1E91],
    [0x000C1E8E,0x000C1E8B,0x86005B80,0x87005BC0,0x000C1E88,0x000C1E85,0x000C1E82,0x000C1E7F,0x000C1E7C,0x000C1E79],
    [0x000C1E76,0x000C1E73,0x000C1E70,0x000C1E6D,0x000C1E6A,0x000C1E67,0x000C1E64,0x000C1E61,0x000C1E5E,0x000C1E5B],
    [0xE1005AC0,0x000C1E58,0xA8005C08,0xA9005C09,0xAA005C0A,0xAB005C0B,0xAC005C0C,0xAD005C10,0xAE005C11,0xAF005C12],
    [0xB0005C13,0xB1005C16,0xB2005C17,0xB3005C18,0xB4005C19,0xB5005C1A,0xB6005C1B,0xB7005C1C,0xB8005C1D,0xB9005C1E],
    [0xBA005C1F,0xBB005C20,0xBC005C21,0xBD005C22,0xBE005C23,0xBF005C24,0x80005C25,0x81005C27,0x82005C43,0x000C1E55],
    [0x000C1E52,0x000C1E4F,0x000C1E4C,0x86005BB9,0x87005BF9,0x000C1E49,0x000C1E46,0x000C1E43,0x000C1E40,0x000C1E3D],
    [0x000C1E3A,0x000C1E37,0x000C1E34,0x000C1E31,0x000C1E2E,0x000C1E2B,0x000C1E28,0x000C1E25,0x000C1E22,0x000C1E1F],
    [0x000C1E1C,0x000C1E19,0x000C1E16,0x000C1E13,0x000C1E10,0x000C1E0D,0x000C1E0A,0x000C1E07,0xE1005AFA,0xA8005C45],
    [0xA9005C46,0xAA005C49,0xAB005C4A,0xAC005C4B,0xAD005C4C,0xAE005C4D,0xAF005C4E,0xB0005C4F,0xB1005C50,0xB2005C51],
    [0xB3005C52,0xB4005C53,0xB5005C54,0xB6005C55,0xB7005C56,0xB8005C57,0xB9005C58,0xBA005C59,0xBB005C5A,0xBC005C5B],
    [0xBD005C5C,0xBE005C5D,0xBF005C5E,0x80005C5F,0x81005C7C,0x82005C7D,0x000C1E04,0x000C1E01,0x000C1DFE,0x000C1DFB],
    [0x86005BF5,0x87005C35,0x000C1DF8,0x000C1DF5,0x000C1DF2,0x000C1DEF,0x000C1DEC,0x000C1DE9,0x000C1DE6,0x000C1DE3],
    [0x000C1DE0,0x000C1DDD,0x000C1DDA,0x000C1DD7,0x000C1DD4,0x000C1DD1,0x000C1DCE,0x000C1DCB,0x000C1DC8,0x000C1DC5],
    [0x000C1DC2,0x000C1DBF,0x000C1DBC,0x000C1DB9,0x000C1DB6,0x000C1DB3,0x000C1DB0,0x000C1DAD,0xE1005B36,0xA8005C7F],
    [0xA9005C82,0xAA005C83,0xAB005C84,0xAC005C85,0xAD005C86,0xAE005C87,0xAF005C88,0xB0005C89,0xB1005C8A,0xB2005C8B],
    [0xB3005C8C,0xB4005C8D,0xB5005C8E,0xB6005C8F,0xB7005C90,0xB8005C91,0xB9005C92,0xBA005C93,0xBB005C94,0xBC005C95],
    [0xBD005C96,0xBE005C97,0xBF005C98,0x80005C99,0x81005C9A,0x82005C9B,0x000C1DAA,0x86005C14,0x87005C6C,0x000C1DA7],
    [0xA8005CBB,0xA9005CD4,0xAA005CD5,0xAB005CD6,0xAC005CD7,0xAD005CD8,0xAE005CD9,0xAF005CDA,0xB0005CDB,0xB1005CDC],
    [0xB2005CDD,0xB3005CDE,0xB4005CDF,0xB5005CE0,0xB6005CE1,0xB7005CE2,0xB8005CE3,0xB9005CE4,0xBA005CE5,0xBB005CE6],
    [0xBC005CE7,0xBD005CE9,0xBE005CEA,0xBF005CEB,0x000C1DA4,0x000C1DA1,0x000C1D9E,0x000C1D9B,0x000C1D98,0x000C1D95],
    [0x000C1D92,0x000C1D8F,0x000C1D8C,0x000C1D89,0x000C1D86,0x000C1D83,0x000C1D80,0x000C1D7D,0x000C1D7A,0x000C1D77],
    [0x000C1D74,0x000C1D71,0x000C1D6E,0x000C1D6B,0xE1005B8E,0x000C1D68,0x000C1D65,0x000C1D62,0x80005CEF,0x81005CF0],
    [0x82005CF1,0x000C1D5F,0x000C1D5C,0x000C1D59,0x000C1D56,0x86005C60,0x87005CA6,0x000C1D53,0x000C1D50,0x000C1D4D],
    [0x000C1D4A,0x000C1D47,0x000C1D44,0x000C1D41,0x000C1D3E,0x000C1D3B,0x000C1D38,0x000C1D35,0x000C1D32,0x000C1D2F],
    [0x000C1D2C,0x000C1D29,0x000C1D26,0x000C1D23,0x000C1D20,0x000C1D1D,0xA8005CF5,0xA9005CF6,0xAA005CF7,0xAB005CF8],
    [0xAC005CF9,0xAD005CFA,0xAE005CFB,0xAF005CFC,0xB0005CFD,0xB1005CFE,0xB2005CFF,0xB3005D00,0xB4005D01,0xB5005D02],
    [0xB6005D03,0xB7005D04,0xB8005D05,0xB9005D06,0xBA005D07,0xBB005D20,0xBC005D21,0xBD005D22,0xBE005D23,0xBF005D24],
    [0x000C1D1A,0x000C1D17,0x000C1D14,0x000C1D11,0x000C1D0E,0xE1005BC1,0x80005D29,0x81005D2A,0x82005D2B,0x000C1D0B],
    [0x000C1D08,0x000C1D05,0x000C1D02,0x86005C9C,0x87005CE8,0x000C1CFF,0x000C1CFC,0x000C1CF9,0x000C1CF6,0x000C1CF3],
    [0x000C1CF0,0x000C1CED,0x000C1CEA,0x000C1CE7,0x000C1CE4,0x000C1CE1,0x000C1CDE,0x000C1CDB,0x000C1CD8,0x000C1CD5],
    [0x000C1CD2,0x000C1CCF,0x000C1CCC,0x000C1CC9,0x000C1CC6,0x000C1CC3,0xA8005D2F,0xA9005D30,0xAA005D31,0xAB005D32],
    [0xAC005D33,0xAD005D34,0xAE005D35,0xAF005D36,0xB0005D37,0xB1005D38,0xB2005D39,0xB3005D3A,0xB4005D3B,0xB5005D3C],
    [0xB6005D3D,0xB7005D3E,0xB8005D3F,0xB9005D40,0xBA005D41,0xBB005D42,0xBC005D43,0xBD005D5C,0xBE005D5D,0xBF005D5E],
    [0x000C1CC0,0x000C1CBD,0x000C1CBA,0xE1005BFA,0x000C1CB7,0x000C1CB4,0x000C1CB1,0x000C1CAE,0x000C1CAB,0x000C1CA8],
    [0x000C1CA5,0x000C1CA2,0x80005D60,0x81005D61,0x82005D62,0x000C1C9F,0x000C1C9C,0x000C1C99,0x000C1C96,0x000C1C93],
    [0x000C1C90,0x000C1C8D,0x86005CCC,0x87005D1A,0xA8005D64,0xA9005D65,0xAA005D66,0xAB005D67,0xAC005D6B,0xAD005D6C],
    [0xAE005D6D,0xAF005D6E,0xB0005D6F,0xB1005D70,0xB2005D71,0xB3005D8C,0xB4005D8D,0xB5005D8E,0xB6005D8F,0xB7005D90],
    [0xB8005D91,0xB9005D92,0xBA005D93,0xBB005D94,0xBC005D95,0xBD005D96,0xBE005D97,0xBF005D98,0x000C1C8A,0x000C1C87],
    [0x000C1C84,0x000C1C81,0x000C1C7E,0x000C1C7B,0x000C1C78,0x000C1C75,0x000C1C72,0x000C1C6F,0x000C1C6C,0x000C1C69],
    [0x000C1C66,0xE1005C33,0x80005D9D,0x81005D9E,0x82005D9F,0x000C1C63,0x000C1C60,0x000C1C5D,0x000C1C5A,0x86005D08],
    [0x87005D54,0x000C1C57,0x000C1C54,0x000C1C51,0x000C1C4E,0x000C1C4B,0x000C1C48,0x000C1C45,0x000C1C42,0x000C1C3F],
    [0x000C1C3C,0x000C1C39,0x000C1C36,0x000C1C33,0xA8005DA3,0xA9005DA4,0xAA005DA5,0xAB005DA6,0xAC005DA7,0xAD005DA8],
    [0xAE005DA9,0xAF005DAA,0xB0005DAB,0xB1005DAC,0xB2005DAD,0xB3005DAE,0xB4005DAF,0xB5005DC8,0xB6005DC9,0xB7005DCA],
    [0xB8005DCB,0xB9005DCC,0xBA005DCD,0xBB005DCE,0xBC005DCF,0xBD005DD0,0xBE005DD1,0xBF005DD2,0x000C1C30,0x000C1C2D],
    [0x000C1C2A,0x000C1C27,0x000C1C24,0x000C1C21,0x000C1C1E,0x000C1C1B,0x000C1C18,0x000C1C15,0x000C1C12,0xE1005C6D],
    [0x80005DD7,0x81005DD8,0x82005DD9,0x000C1C0F,0x000C1C0C,0x000C1C09,0x000C1C06,0x86005D44,0x87005D99,0x000C1C03],
    [0x000C1C00,0x000C1BFD,0x000C1BFA,0x000C1BF7,0x000C1BF4,0x000C1BF1,0x000C1BEE,0x000C1BEB,0x000C1BE8,0x000C1BE5],
    [0x000C1BE2,0x000C1BDF,0x000C1BDC,0x000C1BD9,0xA8005DDD,0xA9005DDE,0xAA005DDF,0xAB005DE0,0xAC005DE1,0xAD005DE2],
    [0xAE005DE3,0xAF005DE4,0xB0005DE5,0xB1005DE6,0xB2005DE7,0xB3005DE8,0xB4005DE9,0xB5005DEA,0xB6005DEB,0xB7005E04],
    [0xB8005E05,0xB9005E06,0xBA005E07,0xBB005E08,0xBC005E09,0xBD005E0A,0xBE005E0B,0xBF005E0C,0x000C1BD6,0x000C1BD3],
    [0x000C1BD0,0x000C1BCD,0x000C1BCA,0x000C1BC7,0x000C1BC4,0x000C1BC1,0x000C1BBE,0xE1005CA7,0x000C1BBB,0x000C1BB8],
    [0x000C1BB5,0x000C1BB2,0x000C1BAF,0x000C1BAC,0x000C1BA9,0x000C1BA6,0x000C1BA3,0x000C1BA0,0x000C1B9D,0x80005E0E],
    [0x81005E0F,0x82005E10,0x000C1B9A,0x000C1B97,0x000C1B94,0x000C1B91,0x86005D7A,0x87005DD3,0xA8005E12,0xA9005E13],
    [0xAA005E14,0xAB005E15,0xAC005E16,0xAD005E17,0xAE005E18,0xAF005E1C,0xB0005E1D,0xB1005E1E,0xB2005E1F,0xB3005E3A],
    [0xB4005E3B,0xB5005E3C,0xB6005E3D,0xB7005E3E,0xB8005E3F,0xB9005E40,0xBA005E41,0xBB005E42,0xBC005E43,0xBD005E45],
    [0xBE005E46,0xBF005E47,0x000C1B8E,0x000C1B8B,0x000C1B88,0x000C1B85,0x000C1B82,0x000C1B7F,0x000C1B7C,0x000C1B79],
    [0x000C1B76,0x000C1B73,0xE1005CEC,0x000C1B70,0x000C1B6D,0x000C1B6A,0x000C1B67,0x000C1B64,0x000C1B61,0x000C1B5E],
    [0x86005DB0,0x87005E02,0x000C1B5B,0x000C1B58,0x000C1B55,0x000C1B52,0x000C1B4F,0x80005E48,0x81005E49,0x82005E4A],
    [0x000C1B4C,0x000C1B49,0xA8005E4E,0xA9005E4F,0xAA005E50,0xAB005E51,0xAC005E52,0xAD005E56,0xAE005E57,0xAF005E70],
    [0xB0005E71,0xB1005E72,0xB2005E73,0xB3005E74,0xB4005E75,0xB5005E76,0xB6005E77,0xB7005E78,0xB8005E79,0xB9005E7A],
    [0xBA005E7B,0xBB005E7C,0xBC005E7D,0xBD005E7E,0xBE005E7F,0xBF005E80,0x000C1B46,0x000C1B43,0x000C1B40,0x000C1B3D],
    [0x000C1B3A,0x000C1B37,0x000C1B34,0x000C1B31,0x000C1B2E,0x000C1B2B,0x000C1B28,0x000C1B25,0x000C1B22,0x000C1B1F],
    [0x000C1B1C,0x000C1B19,0x000C1B16,0xE1005D1B,0x80005E85,0x81005E86,0x82005E87,0x000C1B13,0x000C1B10,0x000C1B0D],
    [0x000C1B0A,0x86005DEC,0x87005E44,0x000C1B07,0x000C1B04,0x000C1B01,0x000C1AFE,0x000C1AFB,0x000C1AF8,0x000C1AF5],
    [0x000C1AF2,0x000C1AEF,0xA8005E8B,0xA9005E8C,0xAA005E8D,0xAB005E8E,0xAC005E8F,0xAD005E90,0xAE005E91,0xAF005E92],
    [0xB0005E93,0xB1005EAC,0xB2005EAD,0xB3005EAE,0xB4005EAF,0xB5005EB0,0xB6005EB1,0xB7005EB2,0xB8005EB3,0xB9005EB4],
    [0xBA005EB5,0xBB005EB6,0xBC005EB7,0xBD005EB8,0xBE005EB9,0xBF005EBA,0x000C1AEC,0x000C1AE9,0x000C1AE6,0x000C1AE3],
    [0x000C1AE0,0x000C1ADD,0x000C1ADA,0x000C1AD7,0x000C1AD4,0x000C1AD1,0x000C1ACE,0x000C1ACB,0x000C1AC8,0x000C1AC5],
    [0x000C1AC2,0xE1005D55,0x000C1ABF,0x000C1ABC,0x000C1AB9,0x000C1AB6,0x000C1AB3,0x000C1AB0,0x000C1AAD,0x000C1AAA],
    [0x80005EBC,0x81005EBD,0x82005EBE,0x000C1AA7,0x000C1AA4,0x000C1AA1,0x000C1A9E,0x000C1A9B,0x000C1A98,0x000C1A95],
    [0x000C1A92,0x000C1A8F,0x000C1A8C,0x000C1A89,0x86005E2C,0x87005E81,0xA8005EC0,0xA9005EC1,0xAA005EC2,0xAB005EC3],
    [0xAC005EC7,0xAD005EC8,0xAE005EC9,0xAF005ECA,0xB0005ECB,0xB1005ECC,0xB2005ECD,0xB3005ECE,0xB4005ECF,0xB5005ED0],
    [0xB6005ED1,0xB7005EEC,0xB8005EED,0xB9005EEE,0xBA005EEF,0xBB005EF0,0xBC005EF1,0xBD005EF3,0xBE005EF4,0xBF005EF5],
    [0x000C1A86,0x000C1A83,0x000C1A80,0x000C1A7D,0x000C1A7A,0x000C1A77,0xE1005D9A,0x000C1A74,0x000C1A71,0x000C1A6E],
    [0x000C1A6B,0x000C1A68,0x000C1A65,0x000C1A62,0x000C1A5F,0x000C1A5C,0x000C1A59,0x000C1A56,0x000C1A53,0x000C1A50],
    [0x000C1A4D,0x80005EF6,0x81005EF7,0x82005EF8,0x000C1A4A,0x000C1A47,0x000C1A44,0x000C1A41,0x86005E62,0x87005EBB],
    [0xA8005EFA,0xA9005EFB,0xAA005EFC,0xAB005EFD,0xAC005EFE,0xAD005EFF,0xAE005F00,0xAF005F04,0xB0005F05,0xB1005F06],
    [0xB2005F07,0xB3005F22,0xB4005F23,0xB5005F24,0xB6005F25,0xB7005F26,0xB8005F27,0xB9005F28,0xBA005F29,0xBB005F2A],
    [0xBC005F2B,0xBD005F2D,0xBE005F2E,0xBF005F2F,0x000C1A3E,0x000C1A3B,0x000C1A38,0x000C1A35,0x000C1A32,0x000C1A2F],
    [0x000C1A2C,0x000C1A29,0x000C1A26,0x000C1A23,0xE1005DC6,0x000C1A20,0x000C1A1D,0x000C1A1A,0x000C1A17,0x000C1A14],
    [0x000C1A11,0x000C1A0E,0x000C1A0B,0x000C1A08,0x000C1A05,0x000C1A02,0x000C19FF,0x000C19FC,0x000C19F9,0x80005F30],
    [0x81005F31,0x82005F32,0x000C19F6,0x000C19F3,0x000C19F0,0x000C19ED,0x000C19EA,0x000C19E7,0x000C19E4,0x000C19E1],
    [0x000C19DE,0x000C19DB,0x000C19D8,0x000C19D5,0x86005EA4,0x87005EEA,0xA8005F34,0xA9005F35,0xAA005F36,0xAB005F37],
    [0xAC005F38,0xAD005F39,0xAE005F3A,0xAF005F3E,0xB0005F3F,0xB1005F40,0xB2005F41,0xB3005F42,0xB4005F43,0xB5005F44],
    [0xB6005F45,0xB7005F46,0xB8005F47,0xB9005F48,0xBA005F49,0xBB005F64,0xBC005F65,0xBD005F66,0xBE005F67,0xBF005F68],
    [0x000C19D2,0x000C19CF,0x000C19CC,0x000C19C9,0x000C19C6,0xE1005E03,0x80005F6D,0x81005F6E,0x82005F6F,0x000C19C3],
    [0x000C19C0,0x000C19BD,0x000C19BA,0x86005ED2,0x87005F2C,0x000C19B7,0x000C19B4,0x000C19B1,0x000C19AE,0x000C19AB],
    [0x000C19A8,0x000C19A5,0xA8005F73,0xA9005F74,0xAA005F75,0xAB005F76,0xAC005F77,0xAD005F78,0xAE005F79,0xAF005F92],
    [0xB0005F93,0xB1005F94,0xB2005F95,0xB3005F96,0xB4005F97,0xB5005F98,0xB6005F99,0xB7005F9A,0xB8005F9B,0xB9005F9C],
    [0xBA005F9D,0xBB005F9E,0xBC005F9F,0xBD005FA1,0xBE005FA2,0xBF005FA3,0x000C19A2,0x000C199F,0x000C199C,0x000C1999],
    [0x000C1996,0x000C1993,0x000C1990,0x000C198D,0x000C198A,0x000C1987,0x000C1984,0x000C1981,0x000C197E,0x000C197B]]"

definition NODES_17 :: "nat list list" where
  "NODES_17 = [
    [0xE1005E4C,0x000C1978,0x000C1975,0x000C1972,0x000C196F,0x000C196C,0x000C1969,0x000C1966,0x000C1963,0x000C1960],
    [0x000C195D,0x000C195A,0x80005FA4,0x81005FA5,0x82005FA6,0x000C1957,0x000C1954,0x000C1951,0x000C194E,0x000C194B],
    [0x000C1948,0x000C1945,0x000C1942,0x000C193F,0x000C193C,0x000C1939,0x000C1936,0x000C1933,0x000C1930,0x000C192D],
    [0x000C192A,0x000C1927,0x000C1924,0x86005F3C,0x87005F4A,0x000C1921,0x000C191E,0x000C191B,0x000C1918,0x000C1915],
    [0x000C1912,0x000C190F,0x80005FC5,0x81005FC6,0x82005FC7,0x000C190C,0x000C1909,0x000C1906,0x000C1903,0x86005F54],
    [0x87005FA0,0x000C1900,0x000C18FD,0x000C18FA,0x000C18F7,0x000C18F4,0x000C18F1,0x000C18EE,0xE1005E82,0x000C18EB],
    [0x000C18E8,0x000C18E5,0x000C18E2,0x000C18DF,0x000C18DC,0x000C18D9,0x000C18D6,0x000C18D3,0xA8005FA8,0xA9005FA9],
    [0xAA005FAA,0xAB005FAB,0xAC005FAF,0xAD005FB0,0xAE005FB1,0xAF005FB2,0xB0005FB3,0xB1005FB4,0xB2005FB5,0xB3005FB6],
    [0xB4005FB7,0xB5005FB8,0xB6005FB9,0xB7005FBA,0xB8005FBB,0xB9005FBC,0xBA005FBD,0xBB005FBE,0xBC005FBF,0xBD005FC0],
    [0xBE005FC3,0xBF005FC4,0xA8005FC9,0xA9005FCD,0xAA005FCE,0xAB005FCF,0xAC005FD0,0xAD005FD3,0xAE005FD4,0xAF005FD5],
    [0xB0005FD6,0xB1005FD7,0xB2005FD8,0xB3005FD9,0xB4005FDB,0xB5005FDC,0xB6005FDD,0xB7005FDE,0xB8005FDF,0xB9005FE0],
    [0xBA005FE1,0xBB005FE2,0xBC005FE3,0xBD006015,0xBE006016,0xBF006017,0xE1005EC4,0x000C18D0,0x000C18CD,0x000C18CA],
    [0x000C18C7,0x000C18C4,0x000C18C1,0x000C18BE,0x000C18BB,0x000C18B8,0x000C18B5,0x000C18B2,0x80006018,0x81006019],
    [0x8200601A,0x000C18AF,0x000C18AC,0x000C18A9,0x000C18A6,0x000C18A3,0x000C18A0,0x000C189D,0x000C189A,0x000C1897],
    [0x000C1894,0x000C1891,0x000C188E,0x000C188B,0x000C1888,0x000C1885,0x86005F8C,0x87005FD2,0xA800601C,0xA900601D],
    [0xAA00601E,0xAB00601F,0xAC006023,0xAD006024,0xAE006025,0xAF006026,0xB0006027,0xB1006028,0xB2006029,0xB300602A],
    [0xB400602B,0xB500602C,0xB600602D,0xB700602E,0xB800602F,0xB9006030,0xBA006031,0xBB00604C,0xBC00604D,0xBD00604E],
    [0xBE00604F,0xBF006050,0x000C1882,0x000C187F,0x000C187C,0x000C1879,0x000C1876,0xE1005EEB,0x80006055,0x81006056],
    [0x82006057,0x000C1873,0x000C1870,0x000C186D,0x000C186A,0x000C1867,0x000C1864,0x000C1861,0x000C185E,0x000C185B],
    [0x000C1858,0x000C1855,0x86005FC1,0x8700600C,0x000C1852,0x000C184F,0x000C184C,0x000C1849,0x000C1846,0x000C1843],
    [0x000C1840,0xA8006059,0xA900605A,0xAA00605B,0xAB00605C,0xAC00605D,0xAD00605E,0xAE00605F,0xAF006062,0xB0006063],
    [0xB1006064,0xB2006065,0xB3006066,0xB4006067,0xB5006068,0xB6006081,0xB7006082,0xB8006083,0xB9006084,0xBA006085],
    [0xBB006086,0xBC006087,0xBD006089,0xBE00608A,0xBF00608B,0x000C183D,0x000C183A,0x000C1837,0x000C1834,0x000C1831],
    [0x000C182E,0x000C182B,0xE1005F3B,0x000C1828,0x000C1825,0x000C1822,0x8000608F,0x81006090,0x82006091,0x000C181F],
    [0x000C181C,0x000C1819,0x85006009,0x000C1816,0x86006020,0x87006045,0x000C1813,0x000C1810,0x000C180D,0x000C180A],
    [0x000C1807,0x000C1804,0x000C1801,0x000C17FE,0x000C17FB,0x000C17F8,0x000C17F5,0x000C17F2,0x000C17EF,0xE100600D],
    [0x000C17EC,0x000C17E9,0x000C17E6,0x000C17E3,0x000C17E0,0xE1005F4B,0xA1006093,0xA20060E3,0xA3006105,0xA4006157],
    [0xA5006191,0xA60061C8,0xA70061ED,0xA800623F,0xA9006276,0xAA0062B0,0xAB0062EA,0xAC006327,0xAD006361,0xAE00639B],
    [0xAF0063D2,0xB000640C,0xB1006446,0xB2006480,0xB30064BA,0xB40064F7,0xB5006531,0x000C17DD,0x000C17DA,0x000C17D7],
    [0x000C17D4,0x000C17D1,0x000C17CE,0x800060E0,0x810060E1,0x820060E2,0xA8006096,0xA9006097,0xAA006098,0xAB006099],
    [0xAC00609A,0xAD00609B,0xAE00609C,0xAF00609D,0xB000609E,0xB100609F,0xB20060A0,0xB30060A1,0xB40060A2,0xB50060A4],
    [0xB60060A5,0xB70060A6,0xB80060A7,0xB90060A8,0xBA0060BF,0xBB0060C0,0xBC0060C1,0xBD0060C2,0xBE0060C3,0xBF0060C4],
    [0x000C17CB,0x000C17C8,0x000C17C5,0x000C17C2,0x000C17BF,0x000C17BC,0x86006061,0x8700607F,0x000C17B9,0x000C17B6],
    [0x000C17B3,0x000C17B0,0x000C17AD,0x000C17AA,0x000C17A7,0x000C17A4,0x000C17A1,0x000C179E,0x000C179B,0x000C1798],
    [0x000C1795,0x000C1792,0x000C178F,0x000C178C,0x000C1789,0x000C1786,0x000C1783,0x000C1780,0xE1005FAC,0x000C177D],
    [0x000C177A,0x80006102,0x81006103,0x82006104,0x000C1777,0x000C1774,0x000C1771,0x000C176E,0x86006079,0x870060D1],
    [0x000C176B,0xA80060E4,0xA90060E5,0xAA0060E8,0xAB0060E9,0xAC0060EA,0xAD0060EB,0xAE0060EC,0xAF0060ED,0xB00060EE],
    [0xB10060EF,0xB20060F0,0xB30060F1,0xB40060F2,0xB50060F3,0xB60060F4,0xB70060F5,0xB80060F6,0xB90060F7,0xBA0060F8],
    [0xBB0060F9,0xBC0060FA,0xBD0060FB,0xBE0060FD,0xBF0060FE,0xA8006108,0xA900613A,0xAA00613B,0xAB00613C,0xAC00613D],
    [0xAD00613E,0xAE00613F,0xAF006140,0xB0006141,0xB1006142,0xB2006143,0xB3006144,0xB4006145,0xB5006146,0xB6006147],
    [0xB7006148,0xB8006149,0xB900614A,0xBA00614B,0xBB00614C,0xBC00614D,0xBD00614E,0xBE00614F,0xBF006150,0xE1005FDA],
    [0x000C1768,0x000C1765,0x000C1762,0x000C175F,0x000C175C,0x000C1759,0x000C1756,0x000C1753,0x000C1750,0x000C174D],
    [0x000C174A,0x000C1747,0x000C1744,0x000C1741,0x000C173E,0x000C173B,0x000C1738,0x000C1735,0x000C1732,0x000C172F],
    [0x000C172C,0x000C1729,0x000C1726,0x80006154,0x81006155,0x82006156,0x000C1723,0x000C1720,0x000C171D,0x000C171A],
    [0x860060B2,0x8700610B,0xA8006172,0xA9006173,0xAA006175,0xAB006176,0xAC006177,0xAD006178,0xAE006179,0xAF00617A],
    [0xB000617B,0xB100617C,0xB200617D,0xB300617E,0xB400617F,0xB5006180,0xB6006181,0xB7006182,0xB8006183,0xB9006184],
    [0xBA006185,0xBB006186,0xBC006187,0xBD006188,0xBE006189,0xBF00618A,0x000C1717,0x000C1714,0xE100600E,0x000C1711],
    [0x000C170E,0x000C170B,0x000C1708,0x000C1705,0x000C1702,0x000C16FF,0x000C16FC,0x000C16F9,0x000C16F6,0x000C16F3],
    [0x000C16F0,0x000C16ED,0x000C16EA,0x000C16E7,0x000C16E4,0x000C16E1,0x000C16DE,0x000C16DB,0x000C16D8,0x000C16D5],
    [0x000C16D2,0x8000618E,0x8100618F,0x82006190,0x000C16CF,0x000C16CC,0x000C16C9,0x000C16C6,0x860060FC,0x87006151],
    [0x000C16C3,0x000C16C0,0x000C16BD,0x000C16BA,0x000C16B7,0x000C16B4,0x000C16B1,0x000C16AE,0x000C16AB,0x000C16A8],
    [0x000C16A5,0x000C16A2,0x000C169F,0x000C169C,0x000C1699,0x000C1696,0xA8006194,0xA9006195,0xAA006196,0xAB006197],
    [0xAC006198,0xAD006199,0xAE00619A,0xAF00619B,0xB000619C,0xB100619D,0xB200619E,0xB300619F,0xB40061A0,0xB50061A1],
    [0xB60061A2,0xB70061A3,0xB80061BC,0xB90061BD,0xBA0061BE,0xBB0061BF,0xBC0061C0,0xBD0061C1,0xBE0061C2,0xBF0061C3],
    [0x000C1693,0x000C1690,0x000C168D,0x000C168A,0x000C1687,0x000C1684,0x000C1681,0x000C167E,0xE1006060,0x000C167B],
    [0x000C1678,0x000C1675,0x000C1672,0x000C166F,0x000C166C,0x000C1669,0x000C1666,0x000C1663,0x000C1660,0x000C165D],
    [0x000C165A,0x800061C5,0x810061C6,0x820061C7,0x000C1657,0x000C1654,0x000C1651,0x000C164E,0x86006153,0x87006167],
    [0x000C164B,0x000C1648,0x000C1645,0x000C1642,0x000C163F,0x000C163C,0x000C1639,0x000C1636,0x000C1633,0x000C1630],
    [0x000C162D,0x000C162A,0xE1006080,0x800061EA,0x810061EB,0x820061EC,0x000C1627,0x000C1624,0x000C1621,0x000C161E],
    [0x8600616B,0x870061B9,0x000C161B,0x000C1618,0x000C1615,0x000C1612,0x000C160F,0x000C160C,0x000C1609,0x000C1606],
    [0x000C1603,0x000C1600,0x000C15FD,0xA80061C9,0xA90061CA,0xAA0061CB,0xAB0061CC,0xAC0061CD,0xAD0061CE,0xAE0061CF],
    [0xAF0061D0,0xB00061D4,0xB10061D5,0xB20061D6,0xB30061D7,0xB40061DA,0xB50061DB,0xB60061DC,0xB70061DD,0xB80061DE],
    [0xB90061DF,0xBA0061E0,0xBB0061E1,0xBC0061E2,0xBD0061E3,0xBE0061E4,0xBF0061E5,0xA80061F0,0xA90061F1,0xAA0061F2],
    [0xAB0061F3,0xAC0061F4,0xAD0061F5,0xAE0061F6,0xAF0061F7,0xB00061F8,0xB10061F9,0xB20061FA,0xB300622B,0xB400622C],
    [0xB500622D,0xB600622E,0xB700622F,0xB8006230,0xB9006231,0xBA006232,0xBB006233,0xBC006234,0xBD006235,0xBE006236],
    [0xBF006237,0x000C15FA,0x000C15F7,0x000C15F4,0x000C15F1,0x000C15EE,0x000C15EB,0x000C15E8,0x000C15E5,0x000C15E2],
    [0x000C15DF,0x000C15DC,0x000C15D9,0x000C15D6,0xE10060D2,0x8000623C,0x8100623D,0x8200623E,0x000C15D3,0x000C15D0],
    [0x000C15CD,0x000C15CA,0x860061A4,0x870061FB,0x000C15C7,0x000C15C4,0x000C15C1,0x000C15BE,0x000C15BB,0x000C15B8],
    [0x000C15B5,0x000C15B2,0x000C15AF,0x000C15AC,0xA8006242,0xA9006243,0xAA006244,0xAB006245,0xAC006246,0xAD006247],
    [0xAE006248,0xAF006249,0xB000624A,0xB100624B,0xB2006264,0xB3006265,0xB4006266,0xB5006267,0xB6006268,0xB7006269],
    [0xB800626A,0xB900626B,0xBA00626C,0xBB00626D,0xBC00626E,0xBD00626F,0xBE006270,0xBF006271,0x000C15A9,0x000C15A6],
    [0x000C15A3,0x000C15A0,0x000C159D,0x000C159A,0x000C1597,0x000C1594,0x000C1591,0x000C158E,0x000C158B,0x000C1588],
    [0x000C1585,0x000C1582,0xE100610C,0x000C157F,0x000C157C,0x000C1579,0x000C1576,0x000C1573,0x000C1570,0x000C156D],
    [0x000C156A,0x80006273,0x81006274,0x82006275,0x000C1567,0x000C1564,0x000C1561,0x000C155E,0x860061E6,0x87006238],
    [0x000C155B,0x000C1558,0x000C1555,0x000C1552,0x000C154F,0x000C154C,0x000C1549,0x000C1546,0x000C1543,0x000C1540],
    [0xA8006277,0xA9006278,0xAA006279,0xAB00627A,0xAC00627E,0xAD00627F,0xAE006280,0xAF006281,0xB0006284,0xB1006285],
    [0xB2006286,0xB3006287,0xB4006288,0xB5006289,0xB600628A,0xB700628B,0xB800628C,0xB900628D,0xBA0062A6,0xBB0062A7],
    [0xBC0062A8,0xBD0062AA,0xBE0062AB,0xBF0062AC,0x000C153D,0x000C153A,0x000C1537,0xE1006152,0x000C1534,0x000C1531],
    [0x000C152E,0x000C152B,0x000C1528,0x000C1525,0x000C1522,0x000C151F,0x000C151C,0x000C1519,0x000C1516,0x000C1513],
    [0x000C1510,0x000C150D,0x800062AD,0x810062AE,0x820062AF,0x000C150A,0x000C1507,0x000C1504,0x000C1501,0x86006227],
    [0x87006272,0x000C14FE,0x000C14FB,0x000C14F8,0x000C14F5,0x000C14F2,0x000C14EF,0x000C14EC,0x000C14E9,0x000C14E6],
    [0x000C14E3,0x000C14E0,0x000C14DD,0x000C14DA,0xE1006168,0xA80062B1,0xA90062B2,0xAA0062B3,0xAB0062B4,0xAC0062B5],
    [0xAD0062B6,0xAE0062B7,0xAF0062BB,0xB00062BC,0xB10062BD,0xB20062BE,0xB30062C1,0xB40062C2,0xB50062C3,0xB60062C4],
    [0xB70062C5,0xB80062C6,0xB90062C7,0xBA0062C8,0xBB0062C9,0xBC0062CA,0xBD0062CB,0xBE0062CC,0xBF0062CD,0x000C14D7],
    [0x000C14D4,0x000C14D1,0x000C14CE,0x000C14CB,0x000C14C8,0x000C14C5,0x000C14C2,0x000C14BF,0x000C14BC,0x000C14B9],
    [0x800062E7,0x810062E8,0x820062E9,0x000C14B6,0x000C14B3,0x000C14B0,0x000C14AD,0x000C14AA,0x000C14A7,0x000C14A4],
    [0x000C14A1,0x000C149E,0x000C149B,0x000C1498,0x000C1495,0x8600625B,0x870062A1,0xA80062EB,0xA90062EC,0xAA0062ED],
    [0xAB0062EE,0xAC0062EF,0xAD0062F0,0xAE0062F1,0xAF0062F5,0xB00062F6,0xB10062F7,0xB20062F8,0xB30062F9,0xB40062FA],
    [0xB50062FB,0xB60062FC,0xB70062FD,0xB80062FE,0xB90062FF,0xBA006300,0xBB00631B,0xBC00631C,0xBD00631D,0xBE00631E],
    [0xBF00631F,0x000C1492,0x000C148F,0x000C148C,0x000C1489,0x000C1486,0xE10061BA,0x80006324,0x81006325,0x82006326],
    [0x000C1483,0x000C1480,0x000C147D,0x000C147A,0x86006282,0x870062DB,0xA8006342,0xA9006343,0xAA006344,0xAB006345],
    [0xAC006346,0xAD006347,0xAE006348,0xAF006349,0xB000634A,0xB100634B,0xB200634C,0xB300634D,0xB400634E,0xB500634F],
    [0xB6006350,0xB7006351,0xB8006352,0xB9006353,0xBA006354,0xBB006355,0xBC006356,0xBD006358,0xBE006359,0xBF00635A],
    [0x000C1477,0x000C1474,0x000C1471,0x000C146E,0x000C146B,0x000C1468,0x000C1465,0x000C1462,0x000C145F,0x000C145C],
    [0x000C1459,0x000C1456,0x000C1453,0x000C1450,0x000C144D,0x000C144A,0x000C1447,0x000C1444,0x000C1441,0x000C143E],
    [0x000C143B,0xE10061FC,0x000C1438,0x000C1435,0x000C1432,0x8000635E,0x8100635F,0x82006360,0x000C142F,0x000C142C],
    [0x000C1429,0x000C1426,0x860062BF,0x87006315,0x000C1423,0x000C1420,0x000C141D,0xA8006364,0xA9006365,0xAA006366],
    [0xAB00637F,0xAC006380,0xAD006381,0xAE006382,0xAF006383,0xB0006384,0xB1006385,0xB2006386,0xB3006387,0xB4006388],
    [0xB5006389,0xB600638A,0xB700638B,0xB800638C,0xB900638D,0xBA00638E,0xBB00638F,0xBC006390,0xBD006392,0xBE006393],
    [0xBF006394,0x000C141A,0x000C1417,0x000C1414,0x000C1411,0x000C140E,0x000C140B,0x000C1408,0x000C1405,0x000C1402],
    [0x000C13FF,0x000C13FC,0x000C13F9,0x000C13F6,0x000C13F3,0x000C13F0,0x000C13ED,0x000C13EA,0x000C13E7,0xE1006239],
    [0x000C13E4,0x000C13E1,0x000C13DE,0x80006398,0x81006399,0x8200639A,0x000C13DB,0x000C13D8,0x000C13D5,0x000C13D2],
    [0x86006301,0x87006357,0x000C13CF,0x000C13CC,0x000C13C9,0x000C13C6,0x000C13C3,0x000C13C0,0x000C13BD,0x000C13BA],
    [0x000C13B7,0x000C13B4,0x000C13B1,0xA800639E,0xA900639F,0xAA0063A0,0xAB0063A1,0xAC0063A2,0xAD0063A3,0xAE0063A4],
    [0xAF0063A5,0xB00063A6,0xB10063A7,0xB20063A8,0xB30063C1,0xB40063C2,0xB50063C3,0xB60063C4,0xB70063C5,0xB80063C6],
    [0xB90063C7,0xBA0063C8,0xBB0063C9,0xBC0063CA,0xBD0063CC,0xBE0063CD,0xBF0063CE,0x000C13AE,0x000C13AB,0x000C13A8],
    [0x000C13A5,0x000C13A2,0x000C139F,0x000C139C,0x000C1399,0x000C1396,0x000C1393,0xE100627B,0x000C1390,0x000C138D],
    [0x000C138A,0x000C1387,0x000C1384,0x000C1381,0x000C137E,0x000C137B,0x000C1378,0x000C1375,0x000C1372,0x800063CF],
    [0x810063D0,0x820063D1,0x000C136F,0x000C136C,0x000C1369,0x000C1366,0x000C1363,0x000C1360,0x000C135D,0x8600633B],
    [0x87006391,0xA80063D3,0xA90063D4,0xAA0063D5,0xAB0063D6,0xAC0063DA,0xAD0063DB,0xAE0063DC,0xAF0063DD,0xB00063DE],
    [0xB10063DF,0xB20063E0,0xB30063FB,0xB40063FC,0xB50063FD,0xB60063FE,0xB70063FF,0xB8006400,0xB9006401,0xBA006402],
    [0xBB006403,0xBC006404,0xBD006405,0xBE006406,0xBF006407,0x000C135A,0x000C1357,0x000C1354,0x000C1351,0x000C134E],
    [0x000C134B,0x000C1348,0x000C1345,0x000C1342,0x000C133F,0x000C133C,0x000C1339,0x000C1336,0xE10062A2,0x000C1333],
    [0x000C1330,0x000C132D,0x000C132A,0x000C1327,0x000C1324,0x000C1321,0x000C131E,0x80006409,0x8100640A,0x8200640B],
    [0x000C131B,0x000C1318,0x000C1315,0x000C1312,0x000C130F,0x000C130C,0x000C1309,0x86006375,0x870063CB,0xA800640D],
    [0xA900640E,0xAA00640F,0xAB006410,0xAC006414,0xAD006415,0xAE006416,0xAF006417,0xB0006418,0xB1006419,0xB200641A],
    [0xB3006435,0xB4006436,0xB5006437,0xB6006438,0xB7006439,0xB800643A,0xB900643B,0xBA00643C,0xBB00643D,0xBC00643E],
    [0xBD00643F,0xBE006440,0xBF006441,0x000C1306,0x000C1303,0x000C1300,0x000C12FD,0x000C12FA,0x000C12F7,0x000C12F4],
    [0x000C12F1,0x000C12EE,0x000C12EB,0x000C12E8,0x000C12E5,0x000C12E2,0xE10062DC,0x000C12DF,0x000C12DC,0x000C12D9],
    [0x000C12D6,0x000C12D3,0x000C12D0,0x000C12CD,0x000C12CA,0x80006443,0x81006444,0x82006445,0x000C12C7,0x000C12C4],
    [0x000C12C1,0x000C12BE,0x000C12BB,0x000C12B8,0x000C12B5,0x000C12B2,0x000C12AF,0x000C12AC,0x000C12A9,0x000C12A6],
    [0x000C12A3,0x000C12A0,0x000C129D,0x860063B7,0x87006408,0xA8006447,0xA9006448,0xAA006449,0xAB00644A,0xAC00644E],
    [0xAD00644F,0xAE006450,0xAF006451,0xB0006452,0xB1006453,0xB2006454,0xB3006455,0xB4006456,0xB5006457,0xB6006458],
    [0xB7006459,0xB800645A,0xB900645B,0xBA00645C,0xBB006477,0xBC006478,0xBD006479,0xBE00647A,0xBF00647B,0x000C129A],
    [0x000C1297,0x000C1294,0x000C1291,0x000C128E,0xE1006316,0x000C128B,0x000C1288,0x000C1285,0x000C1282,0x000C127F],
    [0x000C127C,0x000C1279,0x000C1276,0x000C1273,0x000C1270,0x000C126D,0x8000647D,0x8100647E,0x8200647F,0x000C126A],
    [0x000C1267,0x000C1264,0x000C1261,0x000C125E,0x000C125B,0x000C1258,0x000C1255,0x000C1252,0x000C124F,0x000C124C],
    [0x000C1249,0x860063F1,0x87006442,0xA8006481,0xA9006482,0xAA006483,0xAB006484,0xAC006485,0xAD006486,0xAE006487],
    [0xAF00648B,0xB000648C,0xB100648D,0xB200648E,0xB300648F,0xB4006490,0xB5006491,0xB6006492,0xB7006493,0xB8006494],
    [0xB9006495,0xBA006496,0xBB0064B1,0xBC0064B2,0xBD0064B4,0xBE0064B5,0xBF0064B6,0x000C1246,0x000C1243,0xE100635B],
    [0x000C1240,0x000C123D,0x000C123A,0x000C1237,0x000C1234,0x000C1231,0x000C122E,0x000C122B,0x000C1228,0x000C1225],
    [0x000C1222,0x000C121F,0x000C121C,0x000C1219,0x800064B7,0x810064B8,0x820064B9,0x000C1216,0x000C1213,0x000C1210],
    [0x000C120D,0x000C120A,0x000C1207,0x000C1204,0x000C1201,0x000C11FE,0x000C11FB,0x000C11F8,0x000C11F5,0x8600642B],
    [0x87006471,0xA80064BB,0xA90064BC,0xAA0064BD,0xAB0064BE,0xAC0064BF,0xAD0064C0,0xAE0064C1,0xAF0064C5,0xB00064C6],
    [0xB10064C7,0xB20064C8,0xB30064C9,0xB40064CA,0xB50064CB,0xB60064CC,0xB70064CD,0xB80064CE,0xB90064CF,0xBA0064D0],
    [0xBB0064EB,0xBC0064EC,0xBD0064EE,0xBE0064EF,0xBF0064F0,0x000C11F2,0x000C11EF,0xE1006395,0x000C11EC,0x000C11E9],
    [0x000C11E6,0x800064F4,0x810064F5,0x820064F6,0x000C11E3,0x000C11E0,0x000C11DD,0x000C11DA,0x8600645D,0x870064AB],
    [0x000C11D7,0x000C11D4,0x000C11D1,0x000C11CE,0x000C11CB,0x000C11C8,0x000C11C5,0x000C11C2,0x000C11BF,0x000C11BC],
    [0x000C11B9,0xA80064FA,0xA90064FB,0xAA0064FC,0xAB0064FD,0xAC0064FE,0xAD0064FF,0xAE006500,0xAF006501,0xB0006502],
    [0xB1006503,0xB2006504,0xB300651D,0xB400651E,0xB500651F,0xB6006520,0xB7006521,0xB8006522,0xB9006523,0xBA006524],
    [0xBB006525,0xBC006526,0xBD006528,0xBE006529,0xBF00652A,0x000C11B6,0x000C11B3,0x000C11B0,0x000C11AD,0x000C11AA],
    [0x000C11A7,0x000C11A4,0x000C11A1,0x000C119E,0x000C119B,0xE10063D7,0x000C1198,0x000C1195,0x000C1192,0x8000652E],
    [0x8100652F,0x82006530,0x000C118F,0x000C118C,0x000C1189,0x000C1186,0x86006497,0x870064E5,0x000C1183,0x000C1180],
    [0x000C117D,0x000C117A,0x000C1177,0x000C1174,0x000C1171,0x000C116E,0x000C116B,0x000C1168,0x000C1165,0xA8006534]]"

definition NODES_18 :: "nat list list" where
  "NODES_18 = [
    [0xA9006535,0xAA006536,0xAB006537,0xAC006538,0xAD006539,0xAE00653A,0xAF00653B,0xB000653C,0xB100653D,0xB200653E],
    [0xB3006557,0xB4006558,0xB5006559,0xB600655A,0xB700655B,0xB800655C,0xB900655D,0xBA00655E,0xBB00655F,0xBC006560],
    [0xBD006562,0xBE006563,0xBF006564,0x000C1162,0x000C115F,0x000C115C,0x000C1159,0x000C1156,0x000C1153,0x000C1150],
    [0x000C114D,0x000C114A,0x000C1147,0xE1006411,0x000C1144,0x000C1141,0x000C113E,0x80006568,0x81006569,0x8200656A],
    [0x000C113B,0x000C1138,0x000C1135,0x85006498,0x000C1132,0x87006499,0xAC0064C3,0x8900649A,0xAC0064D1,0x8B00649B],
    [0x000C112F,0x8D00649C,0x000C112C,0x000C1129,0x000C1126,0x9100649E,0xB500656C,0xE10064C2,0xE10064C4,0xE10064D2],
    [0xE10064D4,0xE10064D6,0xAC0064D3,0xE10064D8,0xAC0064D5,0x000C1123,0xAC0064D7,0xE10064DB,0xAC0064D9,0x000C1120],
    [0xB5006572,0xAC0064DA,0xB5006574,0xE10064DF,0xB5006575,0xAC0064DC,0xB5006576,0x000C111D,0xB5006581,0xB5006585],
    [0xE10064E7,0xB500658D,0xB5006594,0xAC0064DD,0x000C111A,0xAC0064E1,0xB5006597,0x000C1117,0x820064E0,0xAC0064E8],
    [0x000C1114,0xE100644B,0x000C1111,0xB500659A,0x000C110E,0x000C110B,0xBA0064A2,0xBF0064E3,0xBC0064A8,0x000C1108],
    [0xBE0064AF,0xBF0064DE,0x000C1105,0x8000659C,0x8100659E,0x000C1102,0x000C10FF,0x000C10FC,0x000C10F9,0x8200659F],
    [0x820065A9,0xCC006527,0xCD00652B,0xBE0064EA,0x800065A3,0x810065A6,0x000C10F6,0x000C10F3,0xCC006532,0xCD00652C],
    [0x000C10F0,0x8600653F,0x87006540,0x88006553,0x89006565,0x8A0065BE,0xCC006508,0xE10064E9,0xB80065AA,0xE10064ED],
    [0xB80065AB,0xB80065AC,0xCC00650A,0xCC00650B,0xB80065B4,0xB80065B5,0x000C10ED,0xB80065B8,0xB80065C8,0x000C10EA],
    [0x000C10E7,0xB80065CB,0x000C10E4,0x900064F2,0x90006509,0x920064F8,0x9200650D,0x940064F9,0x94006510,0xCC00650E],
    [0x83006513,0x000C10E1,0xE1006472,0xCC00650F,0x000C10DE,0x88006514,0xCC006511,0x000C10DB,0x8B006517,0xCC006512],
    [0xCC006515,0x000C10D8,0x000C10D5,0xCC00652D,0xCC006541,0xB80065CC,0xCC006542,0xCC006543,0x83006544,0x000C10D2],
    [0x85006547,0x000C10CF,0x000C10CC,0x88006548,0x000C10C9,0x000C10C6,0x000C10C3,0x000C10C0,0x8D00654A,0x000C10BD],
    [0x000C10BA,0x000C10B7,0xA3006518,0x000C10B4,0xA500651A,0xB80065CE,0xB80065D7,0xB80065DA,0x000C10B1,0xB80065DD],
    [0xB80065E1,0x000C10AE,0x000C10AB,0xB80065E2,0x000C10A8,0xB80065E9,0xB80065EB,0x000C10A5,0xA100654D,0xB80065EC],
    [0xB80065EE,0xA400654E,0xA5006551,0x000C10A2,0xB80065EF,0xB80065F0,0xB80065F1,0xBC00651B,0xCC006545,0x000C109F],
    [0xE10064AC,0xCC006546,0xCC006549,0x000C109C,0xCC00654B,0xB2006552,0xB3006561,0xCC00654C,0xCC00654F,0xB6006566],
    [0xB7006567,0xCC006550,0xCC006554,0xBA00656D,0xBB00656F,0xBC006571,0xBD006577,0xB80065F3,0x000C1099,0x000C1096],
    [0xB80065F4,0x000C1093,0xB80065F5,0x000C1090,0x000C108D,0xB80065F7,0x000C108A,0xCC006555,0x000C1087,0x820065A5],
    [0xB80065FC,0xB80065FF,0xCC006556,0xCC00656B,0xB8006600,0x000C1084,0xB8006602,0x000C1081,0xB8006605,0xCC00656E],
    [0x000C107E,0xCC006570,0xB800660B,0xCC006573,0x99006635,0xB8006611,0x8200657A,0x8300657B,0xB8006615,0xCC006578],
    [0x8600657D,0x8700657F,0xCC006579,0xCC00657C,0xB8006624,0xCC00657E,0xB8006625,0xCC006580,0x820065BD,0xB8006627],
    [0xCC006584,0x91006582,0x92006586,0xB8006629,0xCC006587,0xB800662A,0xCC00658A,0xCC006590,0x99006637,0xCC006592],
    [0xCC006595,0xB800662C,0xCC006599,0xCC00659B,0xB800662E,0xCC0065A1,0x820065CF,0xCC0065A4,0xA2006588,0x810065F2],
    [0x82006639,0x83006695,0x000C107B,0x820065D1,0xA8006589,0xA900658B,0x9900663A,0xAB00658C,0x99006664,0x9900666D],
    [0x820065D2,0x000C1078,0x99006674,0x820065D5,0xB200658E,0xB300658F,0xB4006591,0xB5006593,0x000C1075,0x000C1072],
    [0x000C106F,0x99006675,0x86006596,0xE30065AD,0x820065DE,0xE30065CA,0x820065E5,0x8B006598,0x99006676,0x8D00659D],
    [0xE30065DC,0x8F0065A7,0x000C106C,0x910065AF,0x000C1069,0x930065B1,0x820065FE,0x950065B2,0x82006607,0x970065B6],
    [0xE30065E3,0x990065B9,0x82006609,0x9B0065BA,0x000C1066,0x9D0065BB,0x8200660C,0x9F0065BC,0xE30065EA,0xA10065C0],
    [0xE30065ED,0xE30065F8,0xA40065C9,0x99006682,0xA60065CD,0xE30065FA,0xA80065D3,0x000C1063,0xE3006604,0xE3006606],
    [0xE300660A,0xE300660E,0x99006684,0xAF0065D6,0x9900668E,0xE3006626,0xB20065DB,0x9900669B,0x990066A9,0xB50065E4],
    [0x8200660D,0x000C1060,0xB80065E8,0x990066AE,0xE300662D,0xBB0065F6,0x000C105D,0x82006612,0xE300662F,0x82006619],
    [0x990066B3,0x000C105A,0x8200661C,0x990066B7,0xE3006632,0x000C1057,0x82006621,0xE3006636,0x990066BC,0x9A0066BD],
    [0x000C1054,0x000C1051,0xE300663D,0x82006628,0x000C104E,0x990066C0,0x9A0066C3,0x000C104B,0x82006630,0x000C1048],
    [0x000C1045,0xE3006642,0x82006633,0x990066C5,0x9A0066C6,0xE3006646,0x990066CE,0x9A0066CF,0x000C1042,0x000C103F],
    [0x82006638,0x990066D3,0x9A0066D4,0x000C103C,0x000C1039,0x8200663E,0x9D0065F9,0x990066D8,0x000C1036,0xE300664E],
    [0x82006644,0x000C1033,0xE3006653,0x990066DB,0xE3006658,0xA60065FB,0xE300665F,0x82006649,0x990066E3,0x000C1030],
    [0xAB0065FD,0x82006650,0xAD006608,0x000C102D,0xAF006610,0x990066E7,0xB1006614,0xE3006663,0xB3006618,0x82006656],
    [0xB500661D,0x990066F1,0xB7006620,0x000C102A,0xB9006623,0xE300666B,0xBB00662B,0x82006660,0xBD006631,0xE3006673],
    [0xBF006634,0x990066FA,0x000C1027,0xE300667A,0x82006665,0x000C1024,0x990066FD,0x82006668,0xE300667D,0x99006702],
    [0x000C1021,0xE3006683,0x000C101E,0x8200666E,0xE3006686,0x99006704,0x82006670,0x9900670A,0x000C101B,0x82006677],
    [0x000C1018,0x82006678,0xE3006689,0x000C1015,0x9900670C,0x9900670F,0x8200667C,0x000C1012,0xE300668B,0x99006713],
    [0x8100663B,0xE3006690,0x82006681,0x8400663C,0x9900671C,0x86006640,0x000C100F,0x88006648,0xE3006696,0xE300669E],
    [0x82006688,0x99006722,0x000C100C,0xE30066A3,0x8F00664C,0x8200668D,0x99006728,0x92006654,0x000C1009,0x82006693],
    [0x95006659,0xE30066A7,0x9900672E,0x98006666,0x000C1006,0xE30066AF,0x9B006669,0x82006699,0x99006734,0x9A006735],
    [0x000C1003,0x000C1000,0x8200669F,0xE30066B4,0x9900673A,0x9A00673B,0x000C0FFD,0x000C0FFA,0xE30066BB,0x820066A5],
    [0x99006740,0x9A006741,0x000C0FF7,0x000C0FF4,0x000C0FF1,0x820066B1,0xAF006671,0xB0006679,0xB100667B,0xB200667E],
    [0x000C0FEE,0xE30066C1,0x99006742,0x9A006748,0xE30066CB,0x820066B5,0x99006750,0x9A006751,0x000C0FEB,0x000C0FE8],
    [0xBD006680,0x820066BE,0xE30066D1,0x000C0FE5,0x000C0FE2,0x99006755,0x820066C2,0x820066C4,0x000C0FDF,0x99006756],
    [0xE30066D6,0x9900675A,0xE30066D7,0x820066C7,0x99006762,0xE30066DD,0x000C0FDC,0xE30066E2,0x820066CC,0x99006766],
    [0x000C0FD9,0x820066D0,0x820066B2,0x9900667F,0x910066E5,0x9B006687,0xBA00676E,0x910066E6,0x00100FD5,0xF00066DC],
    [0x910066EF,0x820066B8,0xBA006773,0x00100FD1,0x820066C8,0xA500668A,0x00100FCD,0xF00066DF,0x000CA925,0x910066F2],
    [0xF00066E8,0x000CA922,0xC300672A,0xC400677D,0xC50067E9,0xC6006836,0xC700686C,0xC80068D6,0xBA006776,0x000E2EB0],
    [0x000CA91F,0x000E2FD2,0xCD00690B,0xCE006916,0xCF006926,0xD0006956,0xD1006957,0x000E2FB4,0xD3006980,0x000E2F6E],
    [0x000CA91C,0x000CA919,0x000E2E4C,0xD800699B,0x000CA916,0x000CA913,0xDB0069BA,0x000CA910,0x000CA90D,0x000E2F46],
    [0x000CA90A,0xE00069A2,0xE1006A3C,0xE2006E29,0xE3006E77,0x000CA907,0x000CA904,0x000E2E1A,0x000E2F28,0x000E2FAA],
    [0x000CA901,0xEA006EF9,0xEB007708,0xEC009788,0xED00B789,0x000CA8FE,0xEF00C6CC,0xF000CA9E,0x80006778,0x8100677B],
    [0x82006783,0x83006784,0x84006785,0x8500678B,0x000CA8FB,0x8700678D,0x8800678E,0x8900678F,0x8A006790,0x8B006792],
    [0x8C006793,0x8D006795,0x8E006796,0x8F006797,0x000E2FDC,0x91006798,0x9200679D,0x9300679E,0x9400679F,0x950067A0],
    [0x960067A1,0x000CA8F8,0x000CA8F5,0x990067A2,0x9A0067A7,0x9B0067B0,0x9C0067BA,0x9D0067C1,0x000CA8F2,0x000E2EAB],
    [0xA00067C2,0xA10067C8,0xA20067C9,0xA30067D0,0xA40067DA,0xA50067E1,0x000CA8EF,0xA70067E2,0xA80067E8,0xA90067EA],
    [0xAA0067EB,0xAB0067EC,0xAC0067ED,0xAD0067EE,0xAE0067EF,0xAF0067F0,0x000E2FCD,0xB10067F1,0xB20067F2,0xB30067F3],
    [0xB40067F4,0xB50067F5,0xB60067F6,0x000E2FAF,0x000E2F69,0xB90067F7,0xBA0067F8,0xBB0067F9,0xBC0067FA,0xBD0067FB],
    [0x000CA8EC,0xBF0067FC,0x000CA8E9,0x000E2E47,0x000CA8E6,0x000CA8E3,0x000CA8E0,0x000CA8DD,0x000E2F41,0x000CA8DA],
    [0x000CA8D7,0x000CA8D4,0x000E2E15,0x000E2F23,0x000E2FA5,0x000CA8D1,0x000CA8CE,0x000CA8CB,0x000E2FD7,0x000CA8C8],
    [0x000CA8C5,0x8000680D,0x8100680E,0x82006823,0x83006824,0x8400682E,0x8500682F,0x86006830,0x87006835,0x8800683C],
    [0x8900683D,0x8A00683E,0x8B00683F,0x8C006840,0x8D006841,0x8E006842,0x8F006843,0x000CA8C2,0x000CA8BF,0x92006844],
    [0x93006845,0x94006846,0x95006847,0x96006848,0x97006849,0x9800684A,0x9900684B,0x9A00684C,0x9B00684D,0x9C00684E],
    [0x9D00684F,0x9E006850,0x9F006851,0xA0006852,0xA1006853,0xA2006854,0xA3006855,0xA4006856,0xA5006857,0x000E2E7E],
    [0x000E2E79,0xA8006858,0xA9006859,0xAA00685A,0xAB00685B,0xAC00685C,0xAD00685D,0xAE00685E,0xAF00685F,0xB0006860],
    [0x000CA8BC,0x000CA8B9,0x000CA8B6,0xB4006861,0xB5006862,0xB6006863,0xB7006864,0x000CA8B3,0xB9006865,0xBA006866],
    [0xBB006867,0xBC006868,0xBD006869,0xBE00686A,0x000CA8B0,0x000CA8AD,0x000CA8AA,0x000CA8A7,0x000CA8A4,0x000CA8A1],
    [0x000CA89E,0x000CA89B,0x000E2F5A,0x000E2F55,0x000CA898,0x000CA895,0x000CA892,0x000CA88F,0x000CA88C,0x000CA889],
    [0x000CA886,0x000CA883,0x000CA880,0x000CA87D,0x000CA87A,0x000CA877,0x000CA874,0x000CA871,0x000CA86E,0x000CA86B],
    [0x000CA868,0x000CA865,0x000CA862,0x000CA85F,0x000CA85C,0x000CA859,0x000CA856,0x000CA853,0x000CA850,0x000CA84D],
    [0x000CA84A,0x000CA847,0x000CA844,0x000CA841,0x000CA83E,0x000CA83B,0x000CA838,0x000CA835,0x000CA832,0x000CA82F],
    [0x000CA82C,0x000CA829,0x8300686B,0x84006872,0x85006873,0x86006874,0x8700687B,0x8800687C,0x000CA826,0x000CA823],
    [0x000CA820,0x8C00688F,0x8D006890,0x8E0068A8,0x8F0068A9,0x900068AA,0x910068AB,0x000CA81D,0x000CA81A,0x940068AC],
    [0x950068AD,0x960068AE,0x970068AF,0x980068B0,0x990068B1,0x9A0068B2,0x9B0068B3,0x9C0068B4,0x9D0068B5,0x9E0068B6],
    [0x9F0068B7,0xA00068B8,0xA10068B9,0xA20068BA,0xA30068BB,0xA40068BC,0xA50068BD,0x000E2F14,0x000E2F0F,0xA80068BE],
    [0xA90068BF,0xAA0068C0,0xAB0068C1,0xAC0068C2,0xAD0068C3,0xAE0068C4,0xAF0068C5,0xB00068C6,0xB10068C7,0xB20068C8],
    [0xB30068C9,0xB40068CA,0xB50068CB,0xB60068CC,0xB70068CD,0xB80068CE,0xB90068CF,0xBA0068D0,0xBB0068D1,0xBC0068D2],
    [0xBD0068D3,0xBE0068D4,0x000CA817,0x000CA814,0x000CA811,0x000CA80E,0x000CA80B,0x000CA808,0x000CA805,0x000CA802],
    [0x000CA7FF,0x000CA7FC,0x000E2F00,0x000E2EFB,0x000CA7F9,0x000CA7F6,0x000CA7F3,0x000CA7F0,0x000E2EF6,0x000E2EF1],
    [0x000CA7ED,0x000CA7EA,0x000CA7E7,0x000CA7E4,0x000E2EE2,0x000E2EDD,0x000E2ED8,0x000E2ED3,0x000CA7E1,0x000CA7DE],
    [0x000CA7DB,0x000CA7D8,0x000CA7D5,0x000CA7D2,0x000CA7CF,0x000CA7CC,0x000CA7C9,0x000CA7C6,0x000CA7C3,0x000CA7C0],
    [0x000CA7BD,0x000CA7BA,0x000CA7B7,0x000CA7B4,0x000CA7B1,0x000CB0FE,0x000CB0F6,0x000E2DDE,0xA00068D5,0xA10068D8],
    [0x000E2DD9,0x000E2DAC,0x000E2DA7,0x000CA7AE,0x000CA7AB,0x000CA7A8,0x000CA7A5,0x000CA7A2,0x000CA79F,0x000CA79C],
    [0x000CA799,0x00162FFA,0x00162FF5,0xAF0068D9,0xB00068DA,0x00162FF0,0x00162FEB,0x00162FE6,0x00162FE1,0x00162FDC],
    [0x00162FD7,0x00162FD2,0x00162FCD,0x00162FC8,0x00162FC3,0x0010A795,0x0010A791,0x000CA78E,0x000CA78B,0x000CA788],
    [0x000CA785,0x000E2FBE,0x000E2FB9,0x8D0068DB,0x8E0068DC,0x8F0068DD,0x900068DE,0x910068DF,0x920068E0,0x930068E1],
    [0x940068E2,0x950068E3,0x960068E4,0x970068E7,0x980068E8,0x990068E9,0x9A0068EA,0x9B0068EB,0x9C0068EC,0x00162FBE],
    [0x9E0068ED,0x9F0068EE,0xA00068EF,0xA10068F0,0xA20068F1,0xA30068F2,0x00162FB9,0x0010A781,0xA60068F3,0xA70068F4],
    [0xA80068F5,0xA90068F6,0xAA0068F7,0xAB0068F8,0xAC006909,0xAD006910,0xAE006911,0xAF00691D,0xB000691E,0x0010A77D],
    [0x000CA77A,0x000CA777,0xB400691F,0xB5006922,0x000CA774,0x000CA771,0xB8006923,0xB900692C,0xBA00692D,0xBB00692E],
    [0xBC00692F,0xBD006930,0xBE006931,0xBF006932,0x000CA76E,0x00162FB4,0x00162FAF,0x0010A76A,0x0010A766,0x0010A762],
    [0x0010A75E,0x000CA75B,0x000CA758,0x000CA755,0x000CA752,0x000CA74F,0x000CA74C,0x000CA749,0x000CA746,0x000CA743],
    [0x000CA740,0x000CA73D,0x000CA73A,0x000CA737,0x000CA734,0x000CA731,0x000CA72E,0x000CA72B,0x000CA728,0x000CA725],
    [0x000CA722,0x000CA71F,0x000CA71C,0x000CA719,0x000CA716,0x000CA713,0x000CA710,0x000CA70D,0x000CA70A,0x000CA707],
    [0x000CA704,0x000E2FC8,0x000E2FC3,0x000E2F50,0x000E2F4B,0x00162FAA,0x80006933,0x81006934,0x82006935,0x83006936],
    [0x84006937,0x85006938,0x86006939,0x8700693A,0x8800693B,0x8900693C,0x8A00693D,0x8B00693E,0x8C00693F,0x8D006940],
    [0x8E006941,0x8F006942,0x90006943,0x91006944,0x92006945,0x93006946,0x94006947,0x95006948,0x96006949,0x9700694A],
    [0x9800694B,0x9900694C,0x9A00694D,0x9B00694E,0x00162FA5,0x00162FA0,0x9E00694F,0x9F006950,0x00162F9B,0x000E2F96],
    [0x000E2F91,0x00162F96,0x00162F91,0x000CA701,0xA6006951,0xA7006952,0xA8006953,0xA9006954,0xAA006955,0xAB006972],
    [0xAC006973,0xAD006976,0xAE006977,0xAF006978,0xB0006979,0xB100697A,0xB200697B,0xB300698A,0x000CA6FE,0x8000698D],
    [0x81006990,0x0008A1F6,0x83006991,0x84006992,0x00089F84,0x0008A21E,0x0010B0F1,0x00080FCB,0x00040FCA,0x0010A6FA],
    [0x0010A6F6,0x00089F77,0x0010A6F2,0x0010A6EE,0x0010A6EA,0x85006995,0x86006996,0x87006997,0x88006998,0x89006999],
    [0x8A00699A,0x0010A6E6,0x8C0069A1,0x0010A6E2,0x8E0069A3,0x8F0069A7,0x900069A8,0x0010A6DE,0x001A2F8B,0x0010A6DA],
    [0x0010A6D6,0x00122C75,0x0010A6D2,0x00122C63,0x0010A6CE,0x001A2F85,0x8A0069B5,0x8B0069B6,0x8C0069B7,0x8D0069B8],
    [0x8E0069BB,0x00122C51,0x00122C45,0x0010A6CA,0x0010A6C6,0x930069BC,0x940069BD,0x00122C39,0x0010A6C2,0x0010A6BE],
    [0x0010A6BA,0xB4006993,0xAA0069A9,0xAB0069AA,0xAC0069AB,0xAD0069AC,0xAE0069AD,0xAF0069AE,0xB00069AF,0x0010A6B6],
    [0x0010A6B2,0xBE006994,0x0010A6AE,0x0010A6AA,0x0010A6A6,0x0010A6A2,0x0010A69E,0x0010A69A,0x0010A696,0x0010A692],
    [0x0010A68E,0x0010A68A,0x0010A686,0x0010A682,0x800069BE,0x810069C7,0x0010A67E,0x830069C8,0x0010A67A,0x0010A676],
    [0x0010A672,0x870069CA,0x0010A66E,0x0010A66A,0x0010A666,0x0010A662,0x8C0069CB,0x8D0069CC,0x8E0069CD,0x0010A65E],
    [0x0010A65A,0x900069D0,0x910069D1,0x0010A656,0x930069D2,0x0010A652,0x0010A64E,0x0010A64A,0x970069D3,0x990069CE],
    [0x0010A646,0x0010A642,0x0010A63E,0x9C0069D4,0x9D0069D5,0x9E0069D8,0x0010A63A,0x0010A636,0x0010A632,0x0010A62E],
    [0x0010A62A,0x0010A626,0x0010A622,0x0010A61E,0x0010A61A,0x0010A616,0x0010A612,0x810069DC,0x820069DE,0x0010A60E],
    [0x0010A60A,0x0010A606,0x0010A602,0x0010A5FE,0x0010A5FA,0x0010A5F6,0x0010A5F2,0x0010A5EE,0x0010A9DF,0xB60069DA],
    [0xB70069DB,0xB90069CF,0x900069DF,0x910069E0,0x920069E1,0x930069E5,0x0010A9D9,0x0010A5EA,0x960069E6,0x970069E9],
    [0x0010A9D3,0x0010AC29,0x9A0069EB,0x9B0069EC,0x9C0069ED,0x9D0069F0,0x9E0069F1,0x9F0069F2,0x0010A5E6,0x0010A5E2],
    [0xA20069F6,0xA30069F7,0xA40069F8,0xA50069F9,0xA60069FA,0xA70069FB,0x0010A5DE,0x0018A5D8,0xAA0069FC,0xAB0069FD],
    [0xAC0069FE,0xAD0069FF,0xAE006A00,0xAF006A03,0xB0006A04,0xB1006A05,0xB2006A06,0xB3006A07,0xB4006A08,0xB5006A09],
    [0x0018A5D2,0x0018A5CC,0xB8006A0A,0xB9006A0B,0x80006A20,0x0018A5C6,0x82006A21,0xA2006A0C,0xA3006A14,0xA4006A15],
    [0xA5006A18,0xA6006A19,0x0018A5C0,0x0018A5BA,0x0018A5B4,0x0018A5AE,0xA40069B1,0xA50069D6,0x0018A5A8,0xA70069DD],
    [0xA80069B0,0xA90069E4,0x0018A5A2,0x93006A28,0x0018A59C,0xAD006A01,0xAE0069E3,0xAF006A0D,0x0018A596,0xB1006A02],
    [0x0018A590,0xB3006A1A,0x0018A58A,0xB5006A1C,0x0018A584,0xB7006A0F,0xA9006A29,0x0018A57E,0x0018A578,0x0018A572],
    [0x0018A56C,0xBD006A1D,0xBE006A32,0x0018A566,0xB1006A36,0xB3006A5C,0x0018A560,0xB4006A37,0xB6006A5D,0x0018A55A],
    [0x8B006A52,0x8C006A54,0x0018A554,0x0018A54E,0x0018A548,0x0018A542,0x98006A3B,0x99006A42,0x9A006A43,0x9B006A44],
    [0x9C006A45,0x9D006A48,0x9E006A4C,0x9F006A4E,0x0018A53C,0x94006A78,0x0018A536,0x9C006A56,0x9D006A58,0x0018A530],
    [0x9F006A5B,0x99006A5E,0x9A006A61,0x9B006A64,0x0018A52A,0x0018A524,0x9E006A67,0x0018A51E,0x0018A518,0x0018A512],
    [0x0018A50C,0x001A2F7C,0x00262F7C,0x88006A6A,0x88006A83,0x0018A506,0x8B006A6B,0x8C006A6C,0x0018A500,0x0018A4FA],
    [0x0018A4F4,0x001A2F73,0x00262F73,0x0018A4EE,0x0018A4E8,0x0018A4E2,0x0018A4DC,0x8A006A7B,0x8B006A80,0x8C006A81],
    [0x80006A84,0x0018A4D6,0x0018A4D0,0x9C006A6D,0x9D006A76,0x0018A4CA,0x83006A94,0x87006A85,0x88006A86,0x0018A4C4],
    [0x8A006A87,0x8B006A88,0x8A006A8B,0x8B006A8E,0x8C006A8F,0x9A006A90,0x8D006A95,0x9C006A91,0x9D006A92,0x9E006A93],
    [0x0018A4BE,0x92006A96,0x0018A4B8,0x0018A4B2,0x0018B0E1,0x81006AB2,0x97006A9B,0x0018A4AC,0x0018A4A6,0x0018A4A0],
    [0x0018A49A,0x9C006A9C,0x0018A494,0x0018A48E,0x80006A17,0xA6006ABE,0x0018A488,0x0018A482,0x0018A47C,0x0018A476],
    [0x0018A470,0x0018A46A,0x0018A464,0x93006AB5,0xA9006A9F,0x0018A45E,0x0018A458,0x80006ACB,0x81006ACD,0x0018A452],
    [0x83006ACE,0x0018A44C,0x0018A446,0x9D006AB6,0xB3006AA3,0x000CA443,0xB5006AAE,0xB6006AB0,0xA2006AB7,0xB8006AB1],
    [0x000CA440,0x000CA43D,0x000CA43A,0xA7006AB8,0x000CA437,0x86006ABF,0x000CA434,0x88006AC0,0xAC006ABA,0x8A006AC1]]"

definition NODES_19 :: "nat list list" where
  "NODES_19 = [
    [0x000CA431,0x8C006AC2,0x000CA42E,0x8E006AC3,0x00162F6E,0x00162F69,0x000CA42B,0x92006AC4,0xAC006A55,0xAD006A49],
    [0x000CA428,0xB9006ABB,0x000CA425,0x000CA422,0x000CA41F,0x000CA41C,0x000CA419,0x000CA416,0x000CA413,0x000CA410],
    [0xB8006A97,0xB9006AEB,0xBA006B6B,0xBB006BEB,0xBC006C6B,0xBD006CEB,0xBE006D6B,0xBF006DEB,0x00162F64,0x00162F5F],
    [0x00162F5A,0x00162F55,0x000CA40D,0x000CA40A,0x000CA407,0x000CA404,0x00162F50,0x00162F4B,0x000CA401,0x000CA3FE],
    [0x000CA3FB,0x000CA3F8,0x000CA3F5,0x000CA3F2,0x000CA3EF,0x000CA3EC,0x000CA3E9,0x000CA3E6,0xBB006AC7,0x000CA3E3],
    [0xBD006AC8,0x000CA3E0,0x000CA3DD,0x000CA3DA,0x000CA3D7,0x80006AD1,0x81006AD6,0x82006AD7,0x83006AD8,0x84006ADA],
    [0x85006ADC,0x86006AE0,0x87006AE2,0x88006AE4,0x89006AE5,0x8A006AE6,0x8B006AEA,0x8C006AEC,0x8D006AED,0x8E006AEE],
    [0x8F006AEF,0x90006AF0,0x91006AF1,0x92006AF2,0x93006AF3,0x94006AFC,0x95006AFD,0x96006AFE,0x97006AFF,0x98006B00],
    [0x99006B01,0x9A006B02,0x9B006B03,0x9C006B04,0x9D006B05,0x9E006B06,0x9F006B07,0xA0006B08,0xA1006B09,0xA2006B0A],
    [0xA3006B0B,0xA4006B0C,0xA5006B0D,0xA6006B0E,0xA7006B0F,0xA8006B11,0xA9006B13,0xAA006B14,0xAB006B15,0xAC006B16],
    [0xAD006B57,0xAE006B58,0xAF006B59,0xB0006B5A,0xB1006B5B,0xB2006B5C,0xB3006B5D,0xB4006B5E,0xB5006B5F,0xB6006B60],
    [0xB7006B61,0xB8006B62,0xB9006B63,0xBA006B64,0xBB006B65,0xBC006B66,0xBD006B67,0xBE006B68,0xBF006B69,0x000CA3D4],
    [0x00162F46,0x00162F41,0x000CA3D1,0x000CA3CE,0x000CA3CB,0x000CA3C8,0x000CA3C5,0x000CA3C2,0x000E2F3C,0x000E2F37],
    [0x00162F3C,0x00162F37,0x000CA3BF,0x000CA3BC,0x000CA3B9,0x000CA3B6,0x000CA3B3,0x000CA3B0,0x000CA3AD,0x80006B6A],
    [0x81006BAB,0x82006BAC,0x83006BAD,0x84006BAE,0x85006BAF,0x86006BB0,0x87006BB1,0x88006BB2,0x89006BB3,0x8A006BB4],
    [0x8B006BB5,0x8C006BB6,0x8D006BB7,0x8E006BB8,0x8F006BB9,0x90006BBA,0x91006BBB,0x92006BBC,0x93006BBD,0x94006BBE],
    [0x95006BBF,0x96006BC0,0x97006BC1,0x98006BC2,0x99006BC3,0x9A006BC4,0x9B006BC5,0x9C006BC6,0x9D006BC7,0x9E006BC8],
    [0x9F006BC9,0xA0006BCA,0xA1006BCB,0xA2006BCC,0xA3006BCD,0xA4006BCE,0xA5006BCF,0xA6006BD0,0xA7006BD1,0xA8006BD2],
    [0xA9006BD3,0xAA006BD4,0xAB006BD5,0xAC006BD6,0xAD006BD7,0xAE006BD8,0xAF006BD9,0xB0006BDA,0xB1006BDB,0xB2006BDC],
    [0xB3006BDD,0xB4006BDE,0xB5006BDF,0xB6006BE0,0xB7006BE1,0xB8006BE2,0xB9006BE3,0xBA006BE4,0xBB006BE5,0xBC006BE6],
    [0xBD006BE7,0xBE006BE8,0xBF006BE9,0x000CA3AA,0x000CA3A7,0x000CA3A4,0x000CA3A1,0x000CA39E,0x000CA39B,0x000CA398],
    [0x000CA395,0x000CA392,0x000CA38F,0x000CA38C,0x00162F32,0x00162F2D,0x00162F28,0x00162F23,0x00162F1E,0x00162F19],
    [0x00162F14,0x00162F0F,0x000CA389,0x000CA386,0x000CA383,0x000CA380,0x000CA37D,0x000CA37A,0x000E2F0A,0x000E2F05],
    [0x00162F0A,0x00162F05,0x000CA377,0x000CA374,0x000CA371,0x000CA36E,0x000E2EEC,0x000E2EE7,0x00162F00,0x00162EFB],
    [0x00162EF6,0x00162EF1,0x00162EEC,0x00162EE7,0x000CA36B,0x000CA368,0x000CA365,0x000CA362,0x000CA35F,0x000CA35C],
    [0x000CA359,0x000CA356,0x000CA353,0x000CA350,0x000CA34D,0x000CA34A,0x000CA347,0x000CA344,0x00162EE2,0x00162EDD],
    [0x00162ED8,0x00162ED3,0x000CA341,0x000CA33E,0x000CA33B,0x000CA338,0x000CA335,0x80006BEA,0x81006C05,0x82006C07],
    [0x83006C08,0x84006C09,0x85006C0A,0x86006C2B,0x87006C2C,0x88006C2D,0x89006C2E,0x8A006C2F,0x8B006C30,0x8C006C31],
    [0x8D006C32,0x8E006C33,0x8F006C34,0x90006C35,0x91006C36,0x92006C37,0x93006C38,0x94006C39,0x95006C3A,0x96006C3B],
    [0x97006C3C,0x98006C3D,0x99006C3E,0x000CA332,0x9B006C3F,0x000CA32F,0x000CA32C,0x000CA329,0x000CA326,0xA0006C40],
    [0xA1006C41,0xA2006C42,0xA3006C43,0xA4006C44,0xA5006C45,0xA6006C46,0xA7006C47,0xA8006C48,0xA9006C49,0xAA006C4A],
    [0xAB006C4B,0xAC006C4C,0xAD006C4D,0xAE006C4E,0xAF006C4F,0xB0006C50,0xB1006C51,0xB2006C52,0xB3006C53,0xB4006C54],
    [0xB5006C55,0xB6006C56,0xB7006C57,0xB8006C58,0xB9006C59,0xBA006C5A,0xBB006C5B,0xBC006C5C,0xBD006C5D,0xBE006C5E],
    [0xBF006C5F,0x000CA323,0x000CA320,0x000CA31D,0x000CA31A,0x000CA317,0x000CA314,0x000CA311,0x000CA30E,0x000CA30B],
    [0x000CA308,0x000CA305,0x000CA302,0x000CA2FF,0x000CA2FC,0x000CA2F9,0x000CA2F6,0x000CA2F3,0x000CA2F0,0x000CA2ED],
    [0x000CA2EA,0x0010A2E6,0x000E2E74,0x000E2E6F,0x000CA2E3,0x000CA2E0,0x00162ECE,0x00162EC9,0x00162EC4,0x00162EBF],
    [0x00162EBA,0x00162EB5,0x00162EB0,0x00162EAB,0x00162EA6,0x00162EA1,0x00162E9C,0x00162E97,0x00162E92,0x00162E8D],
    [0x00162E88,0x00162E83,0x00162E7E,0x00162E79,0x00162E74,0x00162E6F,0x000E2E42,0x000E2E3D,0x000CA2DD,0x000CA2DA],
    [0x000CA2D7,0x000CA2D4,0x00162E6A,0x00162E65,0x00162E60,0x00162E5B,0x00162E56,0x00162E51,0x00162E4C,0x00162E47],
    [0x00162E42,0x00162E3D,0x000CA2D1,0x000CA2CE,0x000CA2CB,0x80006C60,0x81006C61,0x82006C62,0x83006C63,0x84006C64],
    [0x85006C65,0x86006C66,0x87006C67,0x88006C68,0x89006C69,0x8A006C6A,0x8B006CA5,0x8C006CA6,0x8D006CA7,0x8E006CA8],
    [0x8F006CA9,0x90006CAA,0x91006CAB,0x92006CAC,0x93006CAD,0x94006CAE,0x95006CAF,0x96006CB0,0x97006CB1,0x98006CB2],
    [0x99006CB3,0x9A006CB4,0x9B006CB5,0x9C006CB6,0x9D006CB7,0x9E006CB8,0x9F006CB9,0xA0006CBA,0xA1006CBB,0xA2006CBC],
    [0xA3006CBD,0xA4006CBE,0xA5006CBF,0xA6006CC0,0xA7006CC1,0xA8006CC2,0xA9006CC3,0xAA006CC4,0xAB006CC5,0xAC006CC6],
    [0xAD006CC7,0xAE006CC8,0xAF006CC9,0xB0006CCA,0xB1006CCB,0xB2006CCC,0xB3006CCD,0xB4006CCE,0xB5006CCF,0xB6006CD0],
    [0xB7006CD1,0xB8006CD2,0xB9006CD3,0x000CA2C8,0x000E2E10,0x000E2E0B,0x000CA2C5,0x000CA2C2,0x00162E38,0x00162E33],
    [0x00162E2E,0x00162E29,0x00162E24,0x00162E1F,0x00162E1A,0x00162E15,0x00162E10,0x00162E0B,0x00162E06,0x00162E01],
    [0x00162DFC,0x00162DF7,0x00162DF2,0x00162DED,0x00162DE8,0x00162DE3,0x00162DDE,0x00162DD9,0x000CA2BF,0x000CA2BC],
    [0x000CA2B9,0x000CA2B6,0x00162DD4,0x00162DCF,0x00162DCA,0x00162DC5,0x00162DC0,0x00162DBB,0x00162DB6,0x00162DB1],
    [0x00162DAC,0x00162DA7,0x000CA2B3,0x000CA2B0,0x000CA2AD,0x000CA2AA,0x000CA2A7,0x000CA2A4,0x000CA2A1,0x000CA29E],
    [0x00122CC3,0x00122CBD,0x001A3365,0x001A335D,0x001A3355,0x001A334D,0x001A3345,0x001A333D,0x00122CB7,0x00122CB1],
    [0x001A3335,0x001A332D,0x001A3325,0x001A331D,0x001A3315,0x001A330D,0x00122D95,0x00122D8F,0x001A2DA1,0x001A2D9B],
    [0x001A2D95,0x001A2D8F,0x00122D7D,0x80006CD4,0x81006CD5,0x82006CD6,0x83006CD7,0x84006CD8,0x85006CD9,0x86006CDA],
    [0x87006CDB,0x88006CDC,0x89006CDD,0x8A006CDE,0x8B006CDF,0x8C006CE0,0x8D006CE1,0x8E006CE2,0x8F006CE3,0x90006CE4],
    [0x91006CE5,0x92006CE6,0x93006CE7,0x94006CE8,0x95006CE9,0x00122D77,0x001A2D89,0x98006CEA,0x99006D01,0x9A006D02],
    [0x9B006D09,0x9C006D0A,0x9D006D2B,0x001A2D83,0x001A2D7D,0xA0006D2C,0xA1006D2D,0xA2006D2E,0xA3006D2F,0xA4006D30],
    [0xA5006D31,0xA6006D32,0xA7006D33,0xA8006D34,0xA9006D35,0xAA006D36,0xAB006D37,0xAC006D38,0xAD006D39,0xAE006D3A],
    [0xAF006D3B,0xB0006D3C,0xB1006D3D,0xB2006D3E,0xB3006D3F,0xB4006D40,0xB5006D41,0xB6006D42,0xB7006D43,0xB8006D44],
    [0xB9006D45,0xBA006D46,0xBB006D47,0xBC006D48,0xBD006D49,0xBE006D4A,0xBF006D4B,0x001A2D77,0x00122CAB,0x00122CA5],
    [0x001A3305,0x001A32FD,0x001A32F5,0x001A32ED,0x001A32E5,0x001A32DD,0x00122C9F,0x00122C99,0x001A32D5,0x001A32CD],
    [0x001A32C5,0x001A32BD,0x001A32B5,0x001A32AD,0x00122D59,0x00122D53,0x001A2D71,0x001A2D6B,0x001A2D65,0x001A2D5F],
    [0x001A2D59,0x001A2D53,0x00122D35,0x00122D2F,0x001A2D4D,0x001A2D47,0x001A2D41,0x001A2D3B,0x001A2D35,0x001A2D2F],
    [0x00122D1D,0x00122D17,0x001A2D29,0x001A2D23,0x001A2D1D,0x001A2D17,0x00122D05,0x00122CFF,0x001A2D11,0x001A2D0B],
    [0x001A2D05,0x001A2CFF,0x00122CE1,0x00122CDB,0x001A2CF9,0x001A2CF3,0x001A2CED,0x001A2CE7,0x001A2CE1,0x001A2CDB],
    [0x00122CC9,0x001A2CD5,0x001A2CCF,0x001A2CC9,0x00122C93,0x00122C8D,0x001A32A5,0x001A329D,0x001A3295,0x001A328D],
    [0x001A3285,0x80006D4C,0x81006D4D,0x82006D4E,0x83006D4F,0x84006D50,0x85006D51,0x001A327D,0x00122C87,0x88006D52],
    [0x89006D53,0x8A006D54,0x8B006D55,0x8C006D56,0x8D006D57,0x00122C81,0x001A3275,0x90006D58,0x91006D59,0x92006D5A],
    [0x93006D5B,0x94006D5C,0x95006D5D,0x96006D5E,0x97006D5F,0x001A326D,0x99006D60,0x001A3265,0x9B006D61,0x001A325D],
    [0x9D006D62,0x001A3255,0x9F006D63,0xA0006D64,0xA1006D65,0xA2006D66,0xA3006D67,0xA4006D68,0xA5006D69,0xA6006D6A],
    [0xA7006D71,0xA8006D72,0xA9006D79,0xAA006D7A,0xAB006D83,0xAC006D85,0xAD006D87,0xAE006D89,0xAF006DA9,0xB0006DAA],
    [0xB10069AB,0xB2006DAB,0xB30069AC,0xB4006DAC,0xB50069AD,0xB6006DAD,0xB70069AE,0xB8006DAE,0xB90069B7,0xBA006DAF],
    [0xBB0069B8,0xBC006DB0,0xBD0069BB,0x001A324D,0x00122C7B,0x0010A29A,0x00122C69,0x0010A296,0x0010A292,0x0010A28E],
    [0x00122C3F,0x001A2CC3,0x001A2CBD,0x00223365,0x0022335D,0x00223355,0x0022334D,0x00223345,0x0022333D,0x001A2CB7],
    [0x001A2CB1,0x00223335,0x0022332D,0x00223325,0x0022331D,0x00223315,0x0022330D,0x001A2CAB,0x001A2CA5,0x00223305],
    [0x002232FD,0x002232F5,0x002232ED,0x002232E5,0x002232DD,0x001A2C9F,0x001A2C99,0x002232D5,0x002232CD,0x002232C5],
    [0x002232BD,0x002232B5,0x002232AD,0x001A2C93,0x001A2C8D,0x002232A5,0x0022329D,0x00223295,0x0022328D,0x00223285],
    [0x0022327D,0x001A2C87,0x001A2C81,0x00223275,0x0022326D,0x00223265,0x0022325D,0x00223255,0x0022324D,0x0010A28A],
    [0x0010A286,0x001A2C7B,0x0010A282,0x001A2C75,0x00122C6F,0x001A2C6F,0x0010A27E,0x0010A27A,0x0010A276,0x80006DB1],
    [0x81006DB2,0x82006DB3,0x83006DB4,0x84006DB5,0x85006DB6,0x86006DB7,0x87006DB8,0x88006DB9,0x89006DBA,0x8A006DBB],
    [0x8B006DBC,0x8C006DBD,0x8D006DBE,0x8E006DBF,0x8F006DC0,0x90006DC1,0x91006DC2,0x92006DC3,0x93006DC4,0x94006DC5],
    [0x95006DC6,0x96006DC7,0x97006DC8,0x98006DC9,0x99006DCA,0x9A006DCB,0x9B006DCC,0x9C006DCD,0x9D006DCE,0x9E006DCF],
    [0x9F006DD0,0xA0006DD1,0xA1006DD2,0xA2006DD3,0xA3006DD4,0xA4006DD5,0xA5006DD6,0xA6006DD7,0xA7006DD8,0xA8006DD9],
    [0xA9006DDA,0xAA006DDB,0xAB006DDC,0xAC006DDD,0xAD006DDE,0xAE006DDF,0xAF006DE0,0xB0006DE1,0xB1006DE2,0xB2006DE3],
    [0xB3006DE4,0xB4006DE5,0x0010A272,0xB6006DE6,0xB7006DE7,0xB8006DE8,0xB9006DE9,0xBA006DEA,0xBB006996,0xBC006E20],
    [0x0008A243,0xBE006E28,0x0010A26E,0x001A2C69,0x0010A26A,0x001A2C63,0x00122C5D,0x001A2C5D,0x0010A266,0x0010A262],
    [0x0010A25E,0x0014A259,0x0014A254,0x0014A24F,0x0010A24B,0x0010A247,0x001A2C57,0x0010A243,0x001A2C51,0x0010A23F],
    [0x0010A23B,0x0010A237,0x0014A232,0x0014A22D,0x0014A228,0x0010A224,0x0010A220,0x001A2C4B,0x0010A21C,0x0010A218],
    [0x0010A214,0x001A2C45,0x0010A210,0x0010A20C,0x0010A208,0x0010A204,0x0010A200,0x00040FC9,0x001A2C3F,0x0010A1FC],
    [0x001A2C39,0x00122C33,0x001A2C33,0x0010A1F8,0x0010A1F4,0x0010A1F0,0x00080FC7,0x000C0FC4,0x000C0FC1,0x00089E1B],
    [0x00049E06,0x0014A1EB,0x0014A1E6,0x0014A1E1,0xBC00D062,0x0014A1DC,0x0014A1D7,0x0014A1D2,0x0014A1CD,0x0014A1C8],
    [0x0014A1C3,0xBF00E71F,0x0014A1BE,0x0014A1B9,0x0014A1B4,0x0014A1AF,0x0014A1AA,0x0014A1A5,0x81006E2A,0x82006E2B],
    [0x83006E2C,0x84006E2D,0x000CA1A2,0x86006E2E,0x87006E2F,0x88006E30,0x89006998,0x8A006E31,0x8B006999,0x8C006E32],
    [0x8D006E33,0x8E006E34,0x8F006E35,0x90006E36,0x91006E37,0x92006E38,0x930069A8,0x80006E57,0x81006E58,0x96006E39],
    [0x97006E3A,0x98006E3B,0x99006E3C,0x9A006E3D,0x9B00699A,0x0014A19D,0x9D006E3E,0x9E006E3F,0x9F006E40,0xA0006E41],
    [0xA1006E42,0xA2006E43,0xA30069AF,0xA4006E44,0xA5006E45,0xA6006E46,0xA7006E47,0xA8006E48,0xA9006E49,0xAA006E4A],
    [0xAB0069A3,0xAC006E4B,0xAD006E4C,0xAE006995,0xAF006E4D,0x0014A198,0x000CA195,0xB2006E4E,0xB3006E4F,0xB4006E50],
    [0x000CA192,0xB6006E51,0xB7006E52,0xB8006E53,0xB90069A1,0xBA006E54,0xBB0069A7,0xBC006E55,0xBD006E56,0x80006DFF],
    [0x0014A18D,0x9A006E5B,0x9B006E5C,0x84006E10,0x0014A188,0x86006E11,0x87006E5E,0x88006E65,0x89006E6E,0x8A006E7C],
    [0x8B006E8C,0x8C006E27,0xA6006E59,0x0014A183,0x0014A17E,0x0014A179,0xAA006E5A,0xAB00678B,0x0014A174,0x0014A16F],
    [0x0014A16A,0xAE006E5D,0x0014A165,0x0014A160,0x0014A15B,0x0014A156,0x0014A151,0x0014A14C,0x0014A147,0x0014A142],
    [0x0014A13D,0x0014A138,0x0014A133,0x0014A12E,0x0014A129,0x0014A124,0x0014A11F,0x0014A11A,0xA9006ED2,0xAA006ED3],
    [0x000C0FBE,0x000C0FBB,0xAB006E6C,0x0014A115,0x0018A10F,0x0018A109,0x0018A103,0x0018A0FD,0x0018A0F7,0x0018A0F1],
    [0x0018A0EB,0x0018A0E5,0x0018A0DF,0x0018A0D9,0x0018A0D3,0x0018A0CD,0x0018A0C7,0x0018A0C1,0x0018A0BB,0x0018A0B5],
    [0x0018A0AF,0x0018A0A9,0x0018A0A3,0x84006E62,0x0018A09D,0x8D006E5F,0x8E006E60,0x8F006E61,0x89006E63,0x81006E68],
    [0x0018A097,0x8C006E64,0x84006E69,0x0018A091,0x0018A08B,0x87006E6A,0x0018A085,0x89006E6B,0x81006EAF,0x82006ED0],
    [0x83006F0B,0x0018A07F,0x80006EBD,0x81006EBE,0x0018A079,0x0018A073,0x84006EC0,0x85006EC1,0x001A3129,0x001A3117],
    [0x88006EC2,0x89006EC3,0x001A33EE,0x001A345F,0x9C006ED5,0xA4006E66,0x0018A06D,0xA6006E67,0x0018A067,0x001A33C1],
    [0xA0006E70,0x0018A061,0xA2006E87,0x001A34C8,0x0018A05B,0x001A30DB,0x0018A055,0x0018A04F,0x0018AE42,0x0018AE39],
    [0x001A33D6,0x001A30CF,0x0018AE15,0xAD006E9B,0xAE006E9C,0xAF006EA0,0xB0006EAA,0xB1006EAE,0x0018AE1E,0x001A3373],
    [0xB4006EB7,0xB5006EB8,0x0018A049,0x001A3093,0xB8006EB9,0xB9006EBC,0xAC006EC4,0xAD006EC5,0xAE006EC6,0xAF006EC7],
    [0xA0006EC8,0xA1006EC9,0xA2006ECA,0xA3006ECB,0x0018AE03,0x001A3087,0x001A30F9,0x0018A043,0x0018A03D,0x0018A037],
    [0xAA006ECC,0xAB006ECD,0xAC006ECE,0xAD006ECF,0x0018A031,0x8C006ED6,0x0018A02B,0x8E006ED7,0x0018A025,0x90006ED8],
    [0x001A2B40,0x92006ED9,0x00262C2A,0x94006EDA,0x00262C21,0x96006EDB,0x00262C18,0x98006EDC,0x00262C0F,0x9A006EDD],
    [0xB300CFF0,0x9C006EDE,0x00262C06,0x9E006EDF,0x00262BFD,0xA0006EE0,0x00262BF4,0xA2006EE1,0x00262BEB,0x00262BE2],
    [0xA5006EE2,0x00262BD9,0xA7006EE3,0x00262BD0,0xA9006EE4,0x00262BC7,0x00262BBE,0x00262BB5,0x00262BAC,0x00262BA3],
    [0x00262B9A,0xB0006EE5,0xB1006EE6,0x00262B91,0xB3006EE7,0xB4006EE8,0x94006EFE,0xB6006EEA,0xB7006EF0,0x00262B88],
    [0xB9006EF3,0xBA006EF4,0x00262B7F,0xBC006EF6,0xBD006EFB,0x00262B76,0x9E006EFF,0x00262B6D,0x00262B64,0x00262B5B],
    [0x00262B52,0x00262B49,0x00262B40,0x001A2A4D,0x00262B37,0x00262B2E,0x00262B25,0x00262B1C,0x00262B13,0x00262B0A],
    [0xAC006F02,0x00262B01,0xAE006F03,0x00262AF8,0xB0006F06,0x00262AEF,0xB2006F07,0x00262AE6,0xB4006F0A,0x00262ADD],
    [0xB6006F0C,0x00262AD4,0xB8006F0D,0x00262ACB,0xBA006F0F,0x80006F13,0xBC006F11,0x82006F14,0xBE006F12,0x00262AC2],
    [0x85006F15,0x00262AB9,0x87006F16,0x00262AB0,0x89006F17,0x00262AA7,0x00262A9E,0x00262A95,0x00262A8C,0x00262A83],
    [0x00262A7A,0x90006F18,0x91006F19,0x00262A71,0x93006F1A,0x94006F20,0x00262A68,0x96006F21,0x97006F24,0x00262A5F],
    [0x99006F25,0x9A006F30,0x00262A56,0x9C006F31,0x9D006F32,0xB0006F4A,0xB1006F8A,0xB2007008,0xB3007088,0xB4007108],
    [0xB5007188,0xB6007208,0xB7007288,0xB8007308,0xB9007388,0xBA007408,0xBB007488,0xBC007508,0xBD007588,0xBE007608],
    [0xBF007688,0x00262A4D,0x001A295A,0x00262A44,0x00262A3B,0x00262A32,0x00262A29,0xB4006F33,0x00262A20,0x00262A17],
    [0xB7006F34,0xB8006F35,0xB9006F3A,0xBA006F3C,0x00262A0E,0x00262A05,0x002629FC,0xBE006F3E,0x80006F40,0x81006F42],
    [0x82006F44,0x83006F46,0x84006F48,0x85006F4C,0x86006F4E,0x87006F50,0x88006F52,0x89006F53,0x8A006F55,0x8B006F57],
    [0x8C006F59,0x8D006F5A,0x8E006F5B,0x8F006F5C,0x90006F5D,0x91006F5E,0x92006F61,0x93006F67,0x94006F6A,0x95006F6D],
    [0x96006F6F,0x97006F70,0x98006F71,0x99006F72,0x9A006F73,0x9B006F74,0x9C006F75,0x9D006F76,0x9E006F77,0x9F006F78],
    [0xA0006F79,0xA1006F7A,0xA2006F7B,0xA3006F7D,0xA4006F7F,0xA5006F81,0xA6006F83,0xA7006F85,0xA8006F87,0xA9006F89],
    [0xAA006F8F,0xAB006F91,0xAC006F93,0xAD006F95,0xAE006F96,0xAF006F97,0xB0006F98,0xB1006F99,0xB2006F9A,0xB3006F9D],
    [0xB4006FA0,0xB5006FA3,0xB6006FA6,0xB7006FB9,0xB8006FBA,0xB9006FBB,0xBA006FBC,0xBB006FBD,0xBC006FBE,0xBD006FC0],
    [0xBE006FC1,0xBF006FC6,0x80006FC7,0x81006FC8,0x8200704A,0x8300704B,0x8400704C,0x8500704D,0x8600704E,0x8700704F],
    [0x88007050,0x89007051,0x8A007052,0x8B007053,0x8C007054,0x8D007055,0x8E007056,0x8F007057,0x90007058,0x91007059],
    [0x9200705A,0x9300705B,0x9400705C,0x9500705D,0x9600705E,0x9700705F,0x98007060,0x99007061,0x9A007062,0x9B007063],
    [0x9C007064,0x9D007065,0x9E007066,0x9F007067,0xA0007068,0xA1007069,0xA200706A,0xA300706B,0xA400706C,0xA500706D],
    [0xA600706E,0xA700706F,0xA8007070,0xA9007071,0xAA007072,0xAB007073,0xAC007074,0xAD007075,0xAE007076,0xAF007077],
    [0xB0007078,0xB1007079,0xB200707A,0xB300707B,0xB400707C,0xB500707D,0xB600707E,0xB700707F,0xB8007080,0xB9007081],
    [0xBA007082,0xBB007083,0xBC007084,0xBD007085,0xBE007086,0xBF007087,0x002629F3,0x002629EA,0x002629E1,0x002629D8],
    [0x002629CF,0x002629C6,0x002629BD,0x002629B4,0x002629AB,0x002629A2,0x00262999,0x00262990,0x00262987,0x0026297E],
    [0x00262975,0x0026296C,0x00262963,0x0026295A,0x001A2867,0x00262951,0x00262948,0x0026293F,0x00262936,0x0026292D],
    [0x00262924,0x0026291B,0x00262912,0x00262909,0x00262900,0x002628F7,0x002628EE,0x002628E5,0x002628DC,0x002628D3],
    [0x002628CA,0x002628C1,0x002628B8,0x002628AF,0x002628A6,0x0026289D,0x00262894,0x0026288B,0x00262882,0x00262879],
    [0x00262870,0x00262867,0x001A2774,0x0026285E,0x00262855,0x0026284C,0x00262843,0x0026283A,0x00262831,0x00262828]]"

definition NODES_20 :: "nat list list" where
  "NODES_20 = [
    [0x0026281F,0x00262816,0x0026280D,0x00262804,0x002627FB,0x002627F2,0x002627E9,0x002627E0,0x800070C8,0x810070C9],
    [0x820070CA,0x830070CB,0x840070CC,0x850070CD,0x860070CE,0x870070CF,0x880070D0,0x890070D1,0x8A0070D2,0x8B0070D3],
    [0x8C0070D4,0x8D0070D5,0x8E0070D6,0x8F0070D7,0x900070D8,0x910070D9,0x920070DA,0x930070DB,0x940070DC,0x950070DD],
    [0x960070DE,0x970070DF,0x980070E0,0x990070E1,0x9A0070E2,0x9B0070E3,0x9C0070E4,0x9D0070E5,0x9E0070E6,0x9F0070E7],
    [0xA00070E8,0xA10070E9,0xA20070EA,0xA30070EB,0xA40070EC,0xA50070ED,0xA60070EE,0xA70070EF,0xA80070F0,0xA90070F1],
    [0xAA0070F2,0xAB0070F3,0xAC0070F4,0xAD0070F5,0xAE0070F6,0xAF0070F7,0xB00070F8,0xB10070F9,0xB20070FA,0xB30070FB],
    [0xB40070FC,0xB50070FD,0xB60070FE,0xB70070FF,0xB8007100,0xB9007101,0xBA007102,0xBB007103,0xBC007104,0xBD007105],
    [0xBE007106,0xBF007107,0x002627D7,0x002627CE,0x002627C5,0x002627BC,0x002627B3,0x002627AA,0x002627A1,0x00262798],
    [0x0026278F,0x00262786,0x0026277D,0x00262774,0x001A2681,0x0026276B,0x00262762,0x00262759,0x00262750,0x00262747],
    [0x0026273E,0x00262735,0x0026272C,0x00262723,0x0026271A,0x00262711,0x00262708,0x002626FF,0x002626F6,0x002626ED],
    [0x002626E4,0x002626DB,0x002626D2,0x002626C9,0x002626C0,0x002626B7,0x002626AE,0x002626A5,0x0026269C,0x00262693],
    [0x0026268A,0x00262681,0x001A258E,0x00262678,0x0026266F,0x00262666,0x0026265D,0x00262654,0x0026264B,0x00262642],
    [0x00262639,0x00262630,0x00262627,0x0026261E,0x00262615,0x0026260C,0x00262603,0x002625FA,0x002625F1,0x002625E8],
    [0x002625DF,0x002625D6,0x002625CD,0x002625C4,0x002625BB,0x002625B2,0x80007148,0x81007149,0x8200714A,0x8300714B],
    [0x8400714C,0x8500714D,0x8600714E,0x8700714F,0x88007150,0x89007151,0x8A007152,0x8B007153,0x8C007154,0x8D007155],
    [0x8E007156,0x8F007157,0x90007158,0x91007159,0x9200715A,0x9300715B,0x9400715C,0x9500715D,0x9600715E,0x9700715F],
    [0x98007160,0x99007161,0x9A007162,0x9B007163,0x9C007164,0x9D007165,0x9E007166,0x9F007167,0xA0007168,0xA1007169],
    [0xA200716A,0xA300716B,0xA400716C,0xA500716D,0xA600716E,0xA700716F,0xA8007170,0xA9007171,0xAA007172,0xAB007173],
    [0xAC007174,0xAD007175,0xAE007176,0xAF007177,0xB0007178,0xB1007179,0xB200717A,0xB300717B,0xB400717C,0xB500717D],
    [0xB600717E,0xB700717F,0xB8007180,0xB9007181,0xBA007182,0xBB007183,0xBC007184,0xBD007185,0xBE007186,0xBF007187],
    [0x002625A9,0x002625A0,0x00262597,0x0026258E,0x001A249B,0x00262585,0x0026257C,0x00262573,0x0026256A,0x00262561],
    [0x00262558,0x0026254F,0x00262546,0x0026253D,0x00262534,0x0026252B,0x00262522,0x00262519,0x00262510,0x00262507],
    [0x002624FE,0x002624F5,0x002624EC,0x002624E3,0x002624DA,0x002624D1,0x002624C8,0x002624BF,0x002624B6,0x002624AD],
    [0x002624A4,0x0026249B,0x001A23A8,0x00262492,0x00262489,0x00262480,0x00262477,0x0026246E,0x00262465,0x0026245C],
    [0x00262453,0x0026244A,0x00262441,0x00262438,0x0026242F,0x00262426,0x0026241D,0x00262414,0x0026240B,0x00262402],
    [0x002623F9,0x002623F0,0x002623E7,0x002623DE,0x002623D5,0x002623CC,0x002623C3,0x002623BA,0x002623B1,0x002623A8],
    [0x001A22B5,0x0026239F,0x00262396,0x0026238D,0x800071C8,0x810071C9,0x820071CA,0x830071CB,0x840071CC,0x850071CD],
    [0x860071CE,0x870071CF,0x880071D0,0x890071D1,0x8A0071D2,0x8B0071D3,0x8C0071D4,0x8D0071D5,0x8E0071D6,0x8F0071D7],
    [0x900071D8,0x910071D9,0x920071DA,0x930071DB,0x940071DC,0x950071DD,0x960071DE,0x970071DF,0x980071E0,0x990071E1],
    [0x9A0071E2,0x9B0071E3,0x9C0071E4,0x9D0071E5,0x9E0071E6,0x9F0071E7,0xA00071E8,0xA10071E9,0xA20071EA,0xA30071EB],
    [0xA40071EC,0xA50071ED,0xA60071EE,0xA70071EF,0xA80071F0,0xA90071F1,0xAA0071F2,0xAB0071F3,0xAC0071F4,0xAD0071F5],
    [0xAE0071F6,0xAF0071F7,0xB00071F8,0xB10071F9,0xB20071FA,0xB30071FB,0xB40071FC,0xB50071FD,0xB60071FE,0xB70071FF],
    [0xB8007200,0xB9007201,0xBA007202,0xBB007203,0xBC007204,0xBD007205,0xBE007206,0xBF007207,0x00262384,0x0026237B],
    [0x00262372,0x00262369,0x00262360,0x00262357,0x0026234E,0x00262345,0x0026233C,0x00262333,0x0026232A,0x00262321],
    [0x00262318,0x0026230F,0x00262306,0x002622FD,0x002622F4,0x002622EB,0x002622E2,0x002622D9,0x002622D0,0x002622C7],
    [0x002622BE,0x002622B5,0x001A21C2,0x002622AC,0x002622A3,0x0026229A,0x00262291,0x00262288,0x0026227F,0x00262276],
    [0x0026226D,0x00262264,0x0026225B,0x00262252,0x00262249,0x00262240,0x00262237,0x0026222E,0x00262225,0x0026221C],
    [0x00262213,0x0026220A,0x00262201,0x002621F8,0x002621EF,0x002621E6,0x002621DD,0x002621D4,0x002621CB,0x002621C2],
    [0x001A20CF,0x002621B9,0x002621B0,0x002621A7,0x0026219E,0x00262195,0x0026218C,0x00262183,0x0026217A,0x00262171],
    [0x00262168,0x0026215F,0x80007248,0x81007249,0x8200724A,0x8300724B,0x8400724C,0x8500724D,0x8600724E,0x8700724F],
    [0x88007250,0x89007251,0x8A007252,0x8B007253,0x8C007254,0x8D007255,0x8E007256,0x8F007257,0x90007258,0x91007259],
    [0x9200725A,0x9300725B,0x9400725C,0x9500725D,0x9600725E,0x9700725F,0x98007260,0x99007261,0x9A007262,0x9B007263],
    [0x9C007264,0x9D007265,0x9E007266,0x9F007267,0xA0007268,0xA1007269,0xA200726A,0xA300726B,0xA400726C,0xA500726D],
    [0xA600726E,0xA700726F,0xA8007270,0xA9007271,0xAA007272,0xAB007273,0xAC007274,0xAD007275,0xAE007276,0xAF007277],
    [0xB0007278,0xB1007279,0xB200727A,0xB300727B,0xB400727C,0xB500727D,0xB600727E,0xB700727F,0xB8007280,0xB9007281],
    [0xBA007282,0xBB007283,0xBC007284,0xBD007285,0xBE007286,0xBF007287,0x00262156,0x0026214D,0x00262144,0x0026213B],
    [0x00262132,0x00262129,0x00262120,0x00262117,0x0026210E,0x00262105,0x002620FC,0x002620F3,0x002620EA,0x002620E1],
    [0x002620D8,0x002620CF,0x001A1FDC,0x002620C6,0x002620BD,0x002620B4,0x002620AB,0x002620A2,0x00262099,0x00262090],
    [0x00262087,0x0026207E,0x00262075,0x0026206C,0x00262063,0x0026205A,0x00262051,0x00262048,0x0026203F,0x00262036],
    [0x0026202D,0x00262024,0x0026201B,0x00262012,0x00262009,0x00262000,0x00261FF7,0x00261FEE,0x00261FE5,0x00261FDC],
    [0x001A1EE9,0x00261FD3,0x00261FCA,0x00261FC1,0x00261FB8,0x00261FAF,0x00261FA6,0x00261F9D,0x00261F94,0x00261F8B],
    [0x00261F82,0x00261F79,0x00261F70,0x00261F67,0x00261F5E,0x00261F55,0x00261F4C,0x00261F43,0x00261F3A,0x00261F31],
    [0x800072C8,0x810072C9,0x820072CA,0x830072CB,0x840072CC,0x850072CD,0x860072CE,0x870072CF,0x880072D0,0x890072D1],
    [0x8A0072D2,0x8B0072D3,0x8C0072D4,0x8D0072D5,0x8E0072D6,0x8F0072D7,0x900072D8,0x910072D9,0x920072DA,0x930072DB],
    [0x940072DC,0x950072DD,0x960072DE,0x970072DF,0x980072E0,0x990072E1,0x9A0072E2,0x9B0072E3,0x9C0072E4,0x9D0072E5],
    [0x9E0072E6,0x9F0072E7,0xA00072E8,0xA10072E9,0xA20072EA,0xA30072EB,0xA40072EC,0xA50072ED,0xA60072EE,0xA70072EF],
    [0xA80072F0,0xA90072F1,0xAA0072F2,0xAB0072F3,0xAC0072F4,0xAD0072F5,0xAE0072F6,0xAF0072F7,0xB00072F8,0xB10072F9],
    [0xB20072FA,0xB30072FB,0xB40072FC,0xB50072FD,0xB60072FE,0xB70072FF,0xB8007300,0xB9007301,0xBA007302,0xBB007303],
    [0xBC007304,0xBD007305,0xBE007306,0xBF007307,0x00261F28,0x00261F1F,0x00261F16,0x00261F0D,0x00261F04,0x00261EFB],
    [0x00261EF2,0x00261EE9,0x001A1DF6,0x00261EE0,0x00261ED7,0x00261ECE,0x00261EC5,0x00261EBC,0x00261EB3,0x00261EAA],
    [0x00261EA1,0x00261E98,0x00261E8F,0x00261E86,0x00261E7D,0x00261E74,0x00261E6B,0x00261E62,0x00261E59,0x00261E50],
    [0x00261E47,0x00261E3E,0x00261E35,0x00261E2C,0x00261E23,0x00261E1A,0x00261E11,0x00261E08,0x00261DFF,0x00261DF6],
    [0x001A1D03,0x00261DED,0x00261DE4,0x00261DDB,0x00261DD2,0x00261DC9,0x00261DC0,0x00261DB7,0x00261DAE,0x00261DA5],
    [0x00261D9C,0x00261D93,0x00261D8A,0x00261D81,0x00261D78,0x00261D6F,0x00261D66,0x00261D5D,0x00261D54,0x00261D4B],
    [0x00261D42,0x00261D39,0x00261D30,0x00261D27,0x00261D1E,0x00261D15,0x00261D0C,0x00261D03,0x80007348,0x81007349],
    [0x8200734A,0x8300734B,0x8400734C,0x8500734D,0x8600734E,0x8700734F,0x88007350,0x89007351,0x8A007352,0x8B007353],
    [0x8C007354,0x8D007355,0x8E007356,0x8F007357,0x90007358,0x91007359,0x9200735A,0x9300735B,0x9400735C,0x9500735D],
    [0x9600735E,0x9700735F,0x98007360,0x99007361,0x9A007362,0x9B007363,0x9C007364,0x9D007365,0x9E007366,0x9F007367],
    [0xA0007368,0xA1007369,0xA200736A,0xA300736B,0xA400736C,0xA500736D,0xA600736E,0xA700736F,0xA8007370,0xA9007371],
    [0xAA007372,0xAB007373,0xAC007374,0xAD007375,0xAE007376,0xAF007377,0xB0007378,0xB1007379,0xB200737A,0xB300737B],
    [0xB400737C,0xB500737D,0xB600737E,0xB700737F,0xB8007380,0xB9007381,0xBA007382,0xBB007383,0xBC007384,0xBD007385],
    [0xBE007386,0xBF007387,0x001A1C10,0x00261CFA,0x00261CF1,0x00261CE8,0x00261CDF,0x00261CD6,0x00261CCD,0x00261CC4],
    [0x00261CBB,0x00261CB2,0x00261CA9,0x00261CA0,0x00261C97,0x00261C8E,0x00261C85,0x00261C7C,0x00261C73,0x00261C6A],
    [0x00261C61,0x00261C58,0x00261C4F,0x00261C46,0x00261C3D,0x00261C34,0x00261C2B,0x00261C22,0x00261C19,0x00261C10],
    [0x001A1B1D,0x00261C07,0x00261BFE,0x00261BF5,0x00261BEC,0x00261BE3,0x00261BDA,0x00261BD1,0x00261BC8,0x00261BBF],
    [0x00261BB6,0x00261BAD,0x00261BA4,0x00261B9B,0x00261B92,0x00261B89,0x00261B80,0x00261B77,0x00261B6E,0x00261B65],
    [0x00261B5C,0x00261B53,0x00261B4A,0x00261B41,0x00261B38,0x00261B2F,0x00261B26,0x00261B1D,0x001A1A2A,0x00261B14],
    [0x00261B0B,0x00261B02,0x00261AF9,0x00261AF0,0x00261AE7,0x00261ADE,0x800073C8,0x810073C9,0x820073CA,0x830073CB],
    [0x840073CC,0x850073CD,0x860073CE,0x870073CF,0x880073D0,0x890073D1,0x8A0073D2,0x8B0073D3,0x8C0073D4,0x8D0073D5],
    [0x8E0073D6,0x8F0073D7,0x900073D8,0x910073D9,0x920073DA,0x930073DB,0x940073DC,0x950073DD,0x960073DE,0x970073DF],
    [0x980073E0,0x990073E1,0x9A0073E2,0x9B0073E3,0x9C0073E4,0x9D0073E5,0x9E0073E6,0x9F0073E7,0xA00073E8,0xA10073E9],
    [0xA20073EA,0xA30073EB,0xA40073EC,0xA50073ED,0xA60073EE,0xA70073EF,0xA80073F0,0xA90073F1,0xAA0073F2,0xAB0073F3],
    [0xAC0073F4,0xAD0073F5,0xAE0073F6,0xAF0073F7,0xB00073F8,0xB10073F9,0xB20073FA,0xB30073FB,0xB40073FC,0xB50073FD],
    [0xB60073FE,0xB70073FF,0xB8007400,0xB9007401,0xBA007402,0xBB007403,0xBC007404,0xBD007405,0xBE007406,0xBF007407],
    [0x00261AD5,0x00261ACC,0x00261AC3,0x00261ABA,0x00261AB1,0x00261AA8,0x00261A9F,0x00261A96,0x00261A8D,0x00261A84],
    [0x00261A7B,0x00261A72,0x00261A69,0x00261A60,0x00261A57,0x00261A4E,0x00261A45,0x00261A3C,0x00261A33,0x00261A2A],
    [0x001A1937,0x00261A21,0x00261A18,0x00261A0F,0x00261A06,0x002619FD,0x002619F4,0x002619EB,0x002619E2,0x002619D9],
    [0x002619D0,0x002619C7,0x002619BE,0x002619B5,0x002619AC,0x002619A3,0x0026199A,0x00261991,0x00261988,0x0026197F],
    [0x00261976,0x0026196D,0x00261964,0x0026195B,0x00261952,0x00261949,0x00261940,0x00261937,0x001A1844,0x0026192E],
    [0x00261925,0x0026191C,0x00261913,0x0026190A,0x00261901,0x002618F8,0x002618EF,0x002618E6,0x002618DD,0x002618D4],
    [0x002618CB,0x002618C2,0x002618B9,0x002618B0,0x80007448,0x81007449,0x8200744A,0x8300744B,0x8400744C,0x8500744D],
    [0x8600744E,0x8700744F,0x88007450,0x89007451,0x8A007452,0x8B007453,0x8C007454,0x8D007455,0x8E007456,0x8F007457],
    [0x90007458,0x91007459,0x9200745A,0x9300745B,0x9400745C,0x9500745D,0x9600745E,0x9700745F,0x98007460,0x99007461],
    [0x9A007462,0x9B007463,0x9C007464,0x9D007465,0x9E007466,0x9F007467,0xA0007468,0xA1007469,0xA200746A,0xA300746B],
    [0xA400746C,0xA500746D,0xA600746E,0xA700746F,0xA8007470,0xA9007471,0xAA007472,0xAB007473,0xAC007474,0xAD007475],
    [0xAE007476,0xAF007477,0xB0007478,0xB1007479,0xB200747A,0xB300747B,0xB400747C,0xB500747D,0xB600747E,0xB700747F],
    [0xB8007480,0xB9007481,0xBA007482,0xBB007483,0xBC007484,0xBD007485,0xBE007486,0xBF007487,0x002618A7,0x0026189E],
    [0x00261895,0x0026188C,0x00261883,0x0026187A,0x00261871,0x00261868,0x0026185F,0x00261856,0x0026184D,0x00261844],
    [0x001A1751,0x0026183B,0x00261832,0x00261829,0x00261820,0x00261817,0x0026180E,0x00261805,0x002617FC,0x002617F3],
    [0x002617EA,0x002617E1,0x002617D8,0x002617CF,0x002617C6,0x002617BD,0x002617B4,0x002617AB,0x002617A2,0x00261799],
    [0x00261790,0x00261787,0x0026177E,0x00261775,0x0026176C,0x00261763,0x0026175A,0x00261751,0x001A165E,0x00261748],
    [0x0026173F,0x00261736,0x0026172D,0x00261724,0x0026171B,0x00261712,0x00261709,0x00261700,0x002616F7,0x002616EE],
    [0x002616E5,0x002616DC,0x002616D3,0x002616CA,0x002616C1,0x002616B8,0x002616AF,0x002616A6,0x0026169D,0x00261694],
    [0x0026168B,0x00261682,0x800074C8,0x810074C9,0x820074CA,0x830074CB,0x840074CC,0x850074CD,0x860074CE,0x870074CF],
    [0x880074D0,0x890074D1,0x8A0074D2,0x8B0074D3,0x8C0074D4,0x8D0074D5,0x8E0074D6,0x8F0074D7,0x900074D8,0x910074D9],
    [0x920074DA,0x930074DB,0x940074DC,0x950074DD,0x960074DE,0x970074DF,0x980074E0,0x990074E1,0x9A0074E2,0x9B0074E3],
    [0x9C0074E4,0x9D0074E5,0x9E0074E6,0x9F0074E7,0xA00074E8,0xA10074E9,0xA20074EA,0xA30074EB,0xA40074EC,0xA50074ED],
    [0xA60074EE,0xA70074EF,0xA80074F0,0xA90074F1,0xAA0074F2,0xAB0074F3,0xAC0074F4,0xAD0074F5,0xAE0074F6,0xAF0074F7],
    [0xB00074F8,0xB10074F9,0xB20074FA,0xB30074FB,0xB40074FC,0xB50074FD,0xB60074FE,0xB70074FF,0xB8007500,0xB9007501],
    [0xBA007502,0xBB007503,0xBC007504,0xBD007505,0xBE007506,0xBF007507,0x00261679,0x00261670,0x00261667,0x0026165E],
    [0x001A156B,0x00261655,0x0026164C,0x00261643,0x0026163A,0x00261631,0x00261628,0x0026161F,0x00261616,0x0026160D],
    [0x00261604,0x002615FB,0x002615F2,0x002615E9,0x002615E0,0x002615D7,0x002615CE,0x002615C5,0x002615BC,0x002615B3],
    [0x002615AA,0x002615A1,0x00261598,0x0026158F,0x00261586,0x0026157D,0x00261574,0x0026156B,0x001A1478,0x00261562],
    [0x00261559,0x00261550,0x00261547,0x0026153E,0x00261535,0x0026152C,0x00261523,0x0026151A,0x00261511,0x00261508],
    [0x002614FF,0x002614F6,0x002614ED,0x002614E4,0x002614DB,0x002614D2,0x002614C9,0x002614C0,0x002614B7,0x002614AE],
    [0x002614A5,0x0026149C,0x00261493,0x0026148A,0x00261481,0x00261478,0x001A1385,0x0026146F,0x00261466,0x0026145D],
    [0x80007548,0x81007549,0x8200754A,0x8300754B,0x8400754C,0x8500754D,0x8600754E,0x8700754F,0x88007550,0x89007551],
    [0x8A007552,0x8B007553,0x8C007554,0x8D007555,0x8E007556,0x8F007557,0x90007558,0x91007559,0x9200755A,0x9300755B],
    [0x9400755C,0x9500755D,0x9600755E,0x9700755F,0x98007560,0x99007561,0x9A007562,0x9B007563,0x9C007564,0x9D007565],
    [0x9E007566,0x9F007567,0xA0007568,0xA1007569,0xA200756A,0xA300756B,0xA400756C,0xA500756D,0xA600756E,0xA700756F],
    [0xA8007570,0xA9007571,0xAA007572,0xAB007573,0xAC007574,0xAD007575,0xAE007576,0xAF007577,0xB0007578,0xB1007579],
    [0xB200757A,0xB300757B,0xB400757C,0xB500757D,0xB600757E,0xB700757F,0xB8007580,0xB9007581,0xBA007582,0xBB007583],
    [0xBC007584,0xBD007585,0xBE007586,0xBF007587,0x00261454,0x0026144B,0x00261442,0x00261439,0x00261430,0x00261427],
    [0x0026141E,0x00261415,0x0026140C,0x00261403,0x002613FA,0x002613F1,0x002613E8,0x002613DF,0x002613D6,0x002613CD],
    [0x002613C4,0x002613BB,0x002613B2,0x002613A9,0x002613A0,0x00261397,0x0026138E,0x00261385,0x001A1292,0x0026137C],
    [0x00261373,0x0026136A,0x00261361,0x00261358,0x0026134F,0x00261346,0x0026133D,0x00261334,0x0026132B,0x00261322],
    [0x00261319,0x00261310,0x00261307,0x002612FE,0x002612F5,0x002612EC,0x002612E3,0x002612DA,0x002612D1,0x002612C8],
    [0x002612BF,0x002612B6,0x002612AD,0x002612A4,0x0026129B,0x00261292,0x001A119F,0x00261289,0x00261280,0x00261277],
    [0x0026126E,0x00261265,0x0026125C,0x00261253,0x0026124A,0x00261241,0x00261238,0x0026122F,0x800075C8,0x810075C9],
    [0x820075CA,0x830075CB,0x840075CC,0x850075CD,0x860075CE,0x870075CF,0x880075D0,0x890075D1,0x8A0075D2,0x8B0075D3],
    [0x8C0075D4,0x8D0075D5,0x8E0075D6,0x8F0075D7,0x900075D8,0x910075D9,0x920075DA,0x930075DB,0x940075DC,0x950075DD],
    [0x960075DE,0x970075DF,0x980075E0,0x990075E1,0x9A0075E2,0x9B0075E3,0x9C0075E4,0x9D0075E5,0x9E0075E6,0x9F0075E7],
    [0xA00075E8,0xA10075E9,0xA20075EA,0xA30075EB,0xA40075EC,0xA50075ED,0xA60075EE,0xA70075EF,0xA80075F0,0xA90075F1],
    [0xAA0075F2,0xAB0075F3,0xAC0075F4,0xAD0075F5,0xAE0075F6,0xAF0075F7,0xB00075F8,0xB10075F9,0xB20075FA,0xB30075FB],
    [0xB40075FC,0xB50075FD,0xB60075FE,0xB70075FF,0xB8007600,0xB9007601,0xBA007602,0xBB007603,0xBC007604,0xBD007605],
    [0xBE007606,0xBF007607,0x00261226,0x0026121D,0x00261214,0x0026120B,0x00261202,0x002611F9,0x002611F0,0x002611E7],
    [0x002611DE,0x002611D5,0x002611CC,0x002611C3,0x002611BA,0x002611B1,0x002611A8,0x0026119F,0x001A10AC,0x00261196],
    [0x0026118D,0x00261184,0x0026117B,0x00261172,0x00261169,0x00261160,0x00261157,0x0026114E,0x00261145,0x0026113C],
    [0x00261133,0x0026112A,0x00261121,0x00261118,0x0026110F,0x00261106,0x002610FD,0x002610F4,0x002610EB,0x002610E2],
    [0x002610D9,0x002610D0,0x002610C7,0x002610BE,0x002610B5,0x002610AC,0x001A0FB9,0x002610A3,0x0026109A,0x00261091],
    [0x00261088,0x0026107F,0x00261076,0x0026106D,0x00261064,0x0026105B,0x00261052,0x00261049,0x00261040,0x00261037],
    [0x0026102E,0x00261025,0x0026101C,0x00261013,0x0026100A,0x00261001,0x80007648,0x81007649,0x8200764A,0x8300764B],
    [0x8400764C,0x8500764D,0x8600764E,0x8700764F,0x88007650,0x89007651,0x8A007652,0x8B007653,0x8C007654,0x8D007655],
    [0x8E007656,0x8F007657,0x90007658,0x91007659,0x9200765A,0x9300765B,0x9400765C,0x9500765D,0x9600765E,0x9700765F]]"

end
