(* ===== verification/Table_Nodes_4.thy ===== *)
theory Table_Nodes_4
  imports Main
begin

text \<open>
  Lines 3037 to 4044 of \<open>unf/table.hh\<close>: part of the array \<open>NODES\<close>, one list per line of the source.
\<close>

definition NODES_21 :: "nat list list" where
  "NODES_21 = [
    [0x98007660,0x99007661,0x9A007662,0x9B007663,0x9C007664,0x9D007665,0x9E007666,0x9F007667,0xA0007668,0xA1007669],
    [0xA200766A,0xA300766B,0xA400766C,0xA500766D,0xA600766E,0xA700766F,0xA8007670,0xA9007671,0xAA007672,0xAB007673],
    [0xAC007674,0xAD007675,0xAE007676,0xAF007677,0xB0007678,0xB1007679,0xB200767A,0xB300767B,0xB400767C,0xB500767D],
    [0xB600767E,0xB700767F,0xB8007680,0xB9007681,0xBA007682,0xBB007683,0xBC007684,0xBD007685,0xBE007686,0xBF007687],
    [0x00260FF8,0x00260FEF,0x00260FE6,0x00260FDD,0x00260FD4,0x00260FCB,0x00260FC2,0x00260FB9,0x001A0EC6,0x00260FB0],
    [0x00260FA7,0x00260F9E,0x00260F95,0x00260F8C,0x00260F83,0x00260F7A,0x00260F71,0x00260F68,0x00260F5F,0x00260F56],
    [0x00260F4D,0x00260F44,0x00260F3B,0x00260F32,0x00260F29,0x00260F20,0x00260F17,0x00260F0E,0x00260F05,0x00260EFC],
    [0x00260EF3,0x00260EEA,0x00260EE1,0x00260ED8,0x00260ECF,0x00260EC6,0x001A0DD3,0x00260EBD,0x00260EB4,0x00260EAB],
    [0x00260EA2,0x00260E99,0x00260E90,0x00260E87,0x00260E7E,0x00260E75,0x00260E6C,0x00260E63,0x00260E5A,0x00260E51],
    [0x00260E48,0x00260E3F,0x00260E36,0x00260E2D,0x00260E24,0x00260E1B,0x00260E12,0x00260E09,0x00260E00,0x00260DF7],
    [0x00260DEE,0x00260DE5,0x00260DDC,0x00260DD3,0x800076C8,0x810076C9,0x820076CA,0x830076CB,0x840076CC,0x850076CD],
    [0x860076CE,0x870076CF,0x880076D0,0x890076D1,0x8A0076D2,0x8B0076D3,0x8C0076D4,0x8D0076D5,0x8E0076D6,0x8F0076D7],
    [0x900076D8,0x910076D9,0x920076DA,0x930076DB,0x940076DC,0x950076DD,0x960076DE,0x970076DF,0x980076E0,0x990076E1],
    [0x9A0076E2,0x9B0076E3,0x9C0076E4,0x9D0076E5,0x9E0076E6,0x9F0076E7,0xA00076E8,0xA10076E9,0xA20076EA,0xA30076EB],
    [0xA40076EC,0xA50076ED,0xA60076EE,0xA70076EF,0xA80076F0,0xA90076F1,0xAA0076F2,0xAB0076F3,0xAC0076F4,0xAD0076F5],
    [0xAE0076F6,0xAF0076F7,0xB00076F8,0xB10076F9,0xB20076FA,0xB30076FB,0xB40076FC,0xB50076FD,0xB60076FE,0xB70076FF],
    [0xB8007700,0xB9007701,0xBA007702,0xBB007703,0xBC007704,0xBD007705,0xBE007706,0xBF007707,0x001A0CE0,0x00260DCA],
    [0x00260DC1,0x00260DB8,0x00260DAF,0x00260DA6,0x00260D9D,0x00260D94,0x00260D8B,0x00260D82,0x00260D79,0x00260D70],
    [0x00260D67,0x00260D5E,0x00260D55,0x00260D4C,0x00260D43,0x00260D3A,0x00260D31,0x00260D28,0x00260D1F,0x00260D16],
    [0x00260D0D,0x00260D04,0x00260CFB,0x00260CF2,0x00260CE9,0x00260CE0,0x001A0BED,0x00260CD7,0x00260CCE,0x00260CC5],
    [0x00260CBC,0x00260CB3,0x00260CAA,0x00260CA1,0x00260C98,0x00260C8F,0x00260C86,0x00260C7D,0x00260C74,0x00260C6B],
    [0x00260C62,0x00260C59,0x00260C50,0x00260C47,0x00260C3E,0x00260C35,0x00260C2C,0x00260C23,0x00260C1A,0x00260C11],
    [0x00260C08,0x00260BFF,0x00260BF6,0x00260BED,0x001A0AFA,0x00260BE4,0x00260BDB,0x00260BD2,0x00260BC9,0x00260BC0],
    [0x00260BB7,0x00260BAE,0x80007748,0x81007749,0x8200774A,0x8300774B,0x8400774C,0x8500774D,0x8600774E,0x8700774F],
    [0x88007750,0x89007751,0x8A007752,0x8B007753,0x8C007754,0x8D007755,0x8E007756,0x8F007757,0x90007758,0x91007759],
    [0x9200775A,0x9300775B,0x9400775C,0x9500775D,0x9600775E,0x9700775F,0x98007760,0x99007761,0x9A007762,0x9B007763],
    [0x9C007764,0x9D007765,0x9E007766,0x9F007767,0xA0007768,0xA1007769,0xA200776A,0xA300776B,0xA400776C,0xA500776D],
    [0xA600776E,0xA700776F,0xA8007770,0xA9007771,0xAA007772,0xAB007773,0xAC007774,0xAD007775,0xAE007776,0xAF007777],
    [0xB0007778,0xB1007779,0xB200777A,0xB300777B,0xB400777C,0xB500777D,0xB600777E,0xB700777F,0xB8007780,0xB9007781],
    [0xBA007782,0xBB007783,0xBC007784,0xBD007785,0xBE007786,0xBF007787,0x00260BA5,0x00260B9C,0x00260B93,0x00260B8A],
    [0x00260B81,0x00260B78,0x00260B6F,0x00260B66,0x00260B5D,0x00260B54,0x00260B4B,0x00260B42,0x00260B39,0x00260B30],
    [0x00260B27,0x00260B1E,0x00260B15,0x00260B0C,0x00260B03,0x00260AFA,0x001A0A07,0x00260AF1,0x00260AE8,0x00260ADF],
    [0x00260AD6,0x00260ACD,0x00260AC4,0x00260ABB,0x00260AB2,0x00260AA9,0x00260AA0,0x00260A97,0x00260A8E,0x00260A85],
    [0x00260A7C,0x00260A73,0x00260A6A,0x00260A61,0x00260A58,0x00260A4F,0x00260A46,0x00260A3D,0x00260A34,0x00260A2B],
    [0x00260A22,0x00260A19,0x00260A10,0x00260A07,0x001A0914,0x002609FE,0x002609F5,0x002609EC,0x002609E3,0x002609DA],
    [0x002609D1,0x002609C8,0x002609BF,0x002609B6,0x002609AD,0x002609A4,0x0026099B,0x00260992,0x00260989,0x00260980],
    [0x80007788,0x81007808,0x82007888,0x83007908,0x84007988,0x85007A08,0x86007A88,0x87007B08,0x88007B88,0x89007C08],
    [0x8A007C88,0x8B007D08,0x8C007D88,0x8D007E08,0x8E007E88,0x8F007F08,0x90007F88,0x91008008,0x92008088,0x93008108],
    [0x94008188,0x95008208,0x96008288,0x97008308,0x98008388,0x99008408,0x9A008488,0x9B008508,0x9C008588,0x9D008608],
    [0x9E008688,0x9F008708,0xA0008788,0xA1008808,0xA2008888,0xA3008908,0xA4008988,0xA5008A08,0xA6008A88,0xA7008B08],
    [0xA8008B88,0xA9008C08,0xAA008C88,0xAB008D08,0xAC008D88,0xAD008E08,0xAE008E88,0xAF008F08,0xB0008F88,0xB1009008],
    [0xB2009088,0xB3009108,0xB4009188,0xB5009208,0xB6009288,0xB7009308,0xB8009388,0xB9009408,0xBA009488,0xBB009508],
    [0xBC009588,0xBD009608,0xBE009688,0xBF009708,0x00260977,0x0026096E,0x00260965,0x0026095C,0x00260953,0x0026094A],
    [0x00260941,0x00260938,0x0026092F,0x00260926,0x0026091D,0x00260914,0x001A0821,0x0026090B,0x00260902,0x002608F9],
    [0x002608F0,0x002608E7,0x002608DE,0x002608D5,0x002608CC,0x002608C3,0x002608BA,0x002608B1,0x002608A8,0x0026089F],
    [0x00260896,0x0026088D,0x00260884,0x0026087B,0x00260872,0x00260869,0x00260860,0x00260857,0x0026084E,0x00260845],
    [0x0026083C,0x00260833,0x0026082A,0x00260821,0x001A072E,0x00260818,0x0026080F,0x00260806,0x002607FD,0x002607F4],
    [0x002607EB,0x002607E2,0x002607D9,0x002607D0,0x002607C7,0x002607BE,0x002607B5,0x002607AC,0x002607A3,0x0026079A],
    [0x00260791,0x00260788,0x0026077F,0x00260776,0x0026076D,0x00260764,0x0026075B,0x00260752,0x800077C8,0x810077C9],
    [0x820077CA,0x830077CB,0x840077CC,0x850077CD,0x860077CE,0x870077CF,0x880077D0,0x890077D1,0x8A0077D2,0x8B0077D3],
    [0x8C0077D4,0x8D0077D5,0x8E0077D6,0x8F0077D7,0x900077D8,0x910077D9,0x920077DA,0x930077DB,0x940077DC,0x950077DD],
    [0x960077DE,0x970077DF,0x980077E0,0x990077E1,0x9A0077E2,0x9B0077E3,0x9C0077E4,0x9D0077E5,0x9E0077E6,0x9F0077E7],
    [0xA00077E8,0xA10077E9,0xA20077EA,0xA30077EB,0xA40077EC,0xA50077ED,0xA60077EE,0xA70077EF,0xA80077F0,0xA90077F1],
    [0xAA0077F2,0xAB0077F3,0xAC0077F4,0xAD0077F5,0xAE0077F6,0xAF0077F7,0xB00077F8,0xB10077F9,0xB20077FA,0xB30077FB],
    [0xB40077FC,0xB50077FD,0xB60077FE,0xB70077FF,0xB8007800,0xB9007801,0xBA007802,0xBB007803,0xBC007804,0xBD007805],
    [0xBE007806,0xBF007807,0x00260749,0x00260740,0x00260737,0x0026072E,0x001A063B,0x00260725,0x0026071C,0x00260713],
    [0x0026070A,0x00260701,0x002606F8,0x002606EF,0x002606E6,0x002606DD,0x002606D4,0x002606CB,0x002606C2,0x002606B9],
    [0x002606B0,0x002606A7,0x0026069E,0x00260695,0x0026068C,0x00260683,0x0026067A,0x00260671,0x00260668,0x0026065F],
    [0x00260656,0x0026064D,0x00260644,0x0026063B,0x001A0548,0x00260632,0x00260629,0x00260620,0x00260617,0x0026060E],
    [0x00260605,0x002605FC,0x002605F3,0x002605EA,0x002605E1,0x002605D8,0x002605CF,0x002605C6,0x002605BD,0x002605B4],
    [0x002605AB,0x002605A2,0x00260599,0x00260590,0x00260587,0x0026057E,0x00260575,0x0026056C,0x00260563,0x0026055A],
    [0x00260551,0x00260548,0x001A0455,0x0026053F,0x00260536,0x0026052D,0x80007848,0x81007849,0x8200784A,0x8300784B],
    [0x8400784C,0x8500784D,0x8600784E,0x8700784F,0x88007850,0x89007851,0x8A007852,0x8B007853,0x8C007854,0x8D007855],
    [0x8E007856,0x8F007857,0x90007858,0x91007859,0x9200785A,0x9300785B,0x9400785C,0x9500785D,0x9600785E,0x9700785F],
    [0x98007860,0x99007861,0x9A007862,0x9B007863,0x9C007864,0x9D007865,0x9E007866,0x9F007867,0xA0007868,0xA1007869],
    [0xA200786A,0xA300786B,0xA400786C,0xA500786D,0xA600786E,0xA700786F,0xA8007870,0xA9007871,0xAA007872,0xAB007873],
    [0xAC007874,0xAD007875,0xAE007876,0xAF007877,0xB0007878,0xB1007879,0xB200787A,0xB300787B,0xB400787C,0xB500787D],
    [0xB600787E,0xB700787F,0xB8007880,0xB9007881,0xBA007882,0xBB007883,0xBC007884,0xBD007885,0xBE007886,0xBF007887],
    [0x00260524,0x0026051B,0x00260512,0x00260509,0x00260500,0x002604F7,0x002604EE,0x002604E5,0x002604DC,0x002604D3],
    [0x002604CA,0x002604C1,0x002604B8,0x002604AF,0x002604A6,0x0026049D,0x00260494,0x0026048B,0x00260482,0x00260479],
    [0x00260470,0x00260467,0x0026045E,0x00260455,0x001A0362,0x0026044C,0x00260443,0x0026043A,0x00260431,0x00260428],
    [0x0026041F,0x00260416,0x0026040D,0x00260404,0x002603FB,0x002603F2,0x002603E9,0x002603E0,0x002603D7,0x002603CE],
    [0x002603C5,0x002603BC,0x002603B3,0x002603AA,0x002603A1,0x00260398,0x0026038F,0x00260386,0x0026037D,0x00260374],
    [0x0026036B,0x00260362,0x001A026F,0x00260359,0x00260350,0x00260347,0x0026033E,0x00260335,0x0026032C,0x00260323],
    [0x0026031A,0x00260311,0x00260308,0x002602FF,0x800078C8,0x810078C9,0x820078CA,0x830078CB,0x840078CC,0x850078CD],
    [0x860078CE,0x870078CF,0x880078D0,0x890078D1,0x8A0078D2,0x8B0078D3,0x8C0078D4,0x8D0078D5,0x8E0078D6,0x8F0078D7],
    [0x900078D8,0x910078D9,0x920078DA,0x930078DB,0x940078DC,0x950078DD,0x960078DE,0x970078DF,0x980078E0,0x990078E1],
    [0x9A0078E2,0x9B0078E3,0x9C0078E4,0x9D0078E5,0x9E0078E6,0x9F0078E7,0xA00078E8,0xA10078E9,0xA20078EA,0xA30078EB],
    [0xA40078EC,0xA50078ED,0xA60078EE,0xA70078EF,0xA80078F0,0xA90078F1,0xAA0078F2,0xAB0078F3,0xAC0078F4,0xAD0078F5],
    [0xAE0078F6,0xAF0078F7,0xB00078F8,0xB10078F9,0xB20078FA,0xB30078FB,0xB40078FC,0xB50078FD,0xB60078FE,0xB70078FF],
    [0xB8007900,0xB9007901,0xBA007902,0xBB007903,0xBC007904,0xBD007905,0xBE007906,0xBF007907,0x002602F6,0x002602ED],
    [0x002602E4,0x002602DB,0x002602D2,0x002602C9,0x002602C0,0x002602B7,0x002602AE,0x002602A5,0x0026029C,0x00260293],
    [0x0026028A,0x00260281,0x00260278,0x0026026F,0x001A017C,0x00260266,0x0026025D,0x00260254,0x0026024B,0x00260242],
    [0x00260239,0x00260230,0x00260227,0x0026021E,0x00260215,0x0026020C,0x00260203,0x002601FA,0x002601F1,0x002601E8],
    [0x002601DF,0x002601D6,0x002601CD,0x002601C4,0x002601BB,0x002601B2,0x002601A9,0x002601A0,0x00260197,0x0026018E],
    [0x00260185,0x0026017C,0x001A0089,0x00260173,0x0026016A,0x00260161,0x00260158,0x0026014F,0x00260146,0x0026013D],
    [0x00260134,0x0026012B,0x00260122,0x00260119,0x00260110,0x00260107,0x002600FE,0x002600F5,0x002600EC,0x002600E3],
    [0x002600DA,0x002600D1,0x80007948,0x81007949,0x8200794A,0x8300794B,0x8400794C,0x8500794D,0x8600794E,0x8700794F],
    [0x88007950,0x89007951,0x8A007952,0x8B007953,0x8C007954,0x8D007955,0x8E007956,0x8F007957,0x90007958,0x91007959],
    [0x9200795A,0x9300795B,0x9400795C,0x9500795D,0x9600795E,0x9700795F,0x98007960,0x99007961,0x9A007962,0x9B007963],
    [0x9C007964,0x9D007965,0x9E007966,0x9F007967,0xA0007968,0xA1007969,0xA200796A,0xA300796B,0xA400796C,0xA500796D],
    [0xA600796E,0xA700796F,0xA8007970,0xA9007971,0xAA007972,0xAB007973,0xAC007974,0xAD007975,0xAE007976,0xAF007977],
    [0xB0007978,0xB1007979,0xB200797A,0xB300797B,0xB400797C,0xB500797D,0xB600797E,0xB700797F,0xB8007980,0xB9007981],
    [0xBA007982,0xBB007983,0xBC007984,0xBD007985,0xBE007986,0xBF007987,0x002600C8,0x002600BF,0x002600B6,0x002600AD],
    [0x002600A4,0x0026009B,0x00260092,0x00260089,0x0019FF96,0x00260080,0x00260077,0x0026006E,0x00260065,0x0026005C],
    [0x00260053,0x0026004A,0x00260041,0x00260038,0x0026002F,0x00260026,0x0026001D,0x00260014,0x0026000B,0x00260002],
    [0x0025FFF9,0x0025FFF0,0x0025FFE7,0x0025FFDE,0x0025FFD5,0x0025FFCC,0x0025FFC3,0x0025FFBA,0x0025FFB1,0x0025FFA8],
    [0x0025FF9F,0x0025FF96,0x0019FEA3,0x0025FF8D,0x0025FF84,0x0025FF7B,0x0025FF72,0x0025FF69,0x0025FF60,0x0025FF57],
    [0x0025FF4E,0x0025FF45,0x0025FF3C,0x0025FF33,0x0025FF2A,0x0025FF21,0x0025FF18,0x0025FF0F,0x0025FF06,0x0025FEFD],
    [0x0025FEF4,0x0025FEEB,0x0025FEE2,0x0025FED9,0x0025FED0,0x0025FEC7,0x0025FEBE,0x0025FEB5,0x0025FEAC,0x0025FEA3],
    [0x800079C8,0x810079C9,0x820079CA,0x830079CB,0x840079CC,0x850079CD,0x860079CE,0x870079CF,0x880079D0,0x890079D1],
    [0x8A0079D2,0x8B0079D3,0x8C0079D4,0x8D0079D5,0x8E0079D6,0x8F0079D7,0x900079D8,0x910079D9,0x920079DA,0x930079DB],
    [0x940079DC,0x950079DD,0x960079DE,0x970079DF,0x980079E0,0x990079E1,0x9A0079E2,0x9B0079E3,0x9C0079E4,0x9D0079E5],
    [0x9E0079E6,0x9F0079E7,0xA00079E8,0xA10079E9,0xA20079EA,0xA30079EB,0xA40079EC,0xA50079ED,0xA60079EE,0xA70079EF],
    [0xA80079F0,0xA90079F1,0xAA0079F2,0xAB0079F3,0xAC0079F4,0xAD0079F5,0xAE0079F6,0xAF0079F7,0xB00079F8,0xB10079F9],
    [0xB20079FA,0xB30079FB,0xB40079FC,0xB50079FD,0xB60079FE,0xB70079FF,0xB8007A00,0xB9007A01,0xBA007A02,0xBB007A03],
    [0xBC007A04,0xBD007A05,0xBE007A06,0xBF007A07,0x0019FDB0,0x0025FE9A,0x0025FE91,0x0025FE88,0x0025FE7F,0x0025FE76],
    [0x0025FE6D,0x0025FE64,0x0025FE5B,0x0025FE52,0x0025FE49,0x0025FE40,0x0025FE37,0x0025FE2E,0x0025FE25,0x0025FE1C],
    [0x0025FE13,0x0025FE0A,0x0025FE01,0x0025FDF8,0x0025FDEF,0x0025FDE6,0x0025FDDD,0x0025FDD4,0x0025FDCB,0x0025FDC2],
    [0x0025FDB9,0x0025FDB0,0x0019FCBD,0x0025FDA7,0x0025FD9E,0x0025FD95,0x0025FD8C,0x0025FD83,0x0025FD7A,0x0025FD71],
    [0x0025FD68,0x0025FD5F,0x0025FD56,0x0025FD4D,0x0025FD44,0x0025FD3B,0x0025FD32,0x0025FD29,0x0025FD20,0x0025FD17],
    [0x0025FD0E,0x0025FD05,0x0025FCFC,0x0025FCF3,0x0025FCEA,0x0025FCE1,0x0025FCD8,0x0025FCCF,0x0025FCC6,0x0025FCBD],
    [0x0019FBCA,0x0025FCB4,0x0025FCAB,0x0025FCA2,0x0025FC99,0x0025FC90,0x0025FC87,0x0025FC7E,0x80007A48,0x81007A49],
    [0x82007A4A,0x83007A4B,0x84007A4C,0x85007A4D,0x86007A4E,0x87007A4F,0x88007A50,0x89007A51,0x8A007A52,0x8B007A53],
    [0x8C007A54,0x8D007A55,0x8E007A56,0x8F007A57,0x90007A58,0x91007A59,0x92007A5A,0x93007A5B,0x94007A5C,0x95007A5D],
    [0x96007A5E,0x97007A5F,0x98007A60,0x99007A61,0x9A007A62,0x9B007A63,0x9C007A64,0x9D007A65,0x9E007A66,0x9F007A67],
    [0xA0007A68,0xA1007A69,0xA2007A6A,0xA3007A6B,0xA4007A6C,0xA5007A6D,0xA6007A6E,0xA7007A6F,0xA8007A70,0xA9007A71],
    [0xAA007A72,0xAB007A73,0xAC007A74,0xAD007A75,0xAE007A76,0xAF007A77,0xB0007A78,0xB1007A79,0xB2007A7A,0xB3007A7B],
    [0xB4007A7C,0xB5007A7D,0xB6007A7E,0xB7007A7F,0xB8007A80,0xB9007A81,0xBA007A82,0xBB007A83,0xBC007A84,0xBD007A85],
    [0xBE007A86,0xBF007A87,0x0025FC75,0x0025FC6C,0x0025FC63,0x0025FC5A,0x0025FC51,0x0025FC48,0x0025FC3F,0x0025FC36],
    [0x0025FC2D,0x0025FC24,0x0025FC1B,0x0025FC12,0x0025FC09,0x0025FC00,0x0025FBF7,0x0025FBEE,0x0025FBE5,0x0025FBDC],
    [0x0025FBD3,0x0025FBCA,0x0019FAD7,0x0025FBC1,0x0025FBB8,0x0025FBAF,0x0025FBA6,0x0025FB9D,0x0025FB94,0x0025FB8B],
    [0x0025FB82,0x0025FB79,0x0025FB70,0x0025FB67,0x0025FB5E,0x0025FB55,0x0025FB4C,0x0025FB43,0x0025FB3A,0x0025FB31],
    [0x0025FB28,0x0025FB1F,0x0025FB16,0x0025FB0D,0x0025FB04,0x0025FAFB,0x0025FAF2,0x0025FAE9,0x0025FAE0,0x0025FAD7],
    [0x0019F9E4,0x0025FACE,0x0025FAC5,0x0025FABC,0x0025FAB3,0x0025FAAA,0x0025FAA1,0x0025FA98,0x0025FA8F,0x0025FA86],
    [0x0025FA7D,0x0025FA74,0x0025FA6B,0x0025FA62,0x0025FA59,0x0025FA50,0x80007AC8,0x81007AC9,0x82007ACA,0x83007ACB],
    [0x84007ACC,0x85007ACD,0x86007ACE,0x87007ACF,0x88007AD0,0x89007AD1,0x8A007AD2,0x8B007AD3,0x8C007AD4,0x8D007AD5],
    [0x8E007AD6,0x8F007AD7,0x90007AD8,0x91007AD9,0x92007ADA,0x93007ADB,0x94007ADC,0x95007ADD,0x96007ADE,0x97007ADF],
    [0x98007AE0,0x99007AE1,0x9A007AE2,0x9B007AE3,0x9C007AE4,0x9D007AE5,0x9E007AE6,0x9F007AE7,0xA0007AE8,0xA1007AE9],
    [0xA2007AEA,0xA3007AEB,0xA4007AEC,0xA5007AED,0xA6007AEE,0xA7007AEF,0xA8007AF0,0xA9007AF1,0xAA007AF2,0xAB007AF3],
    [0xAC007AF4,0xAD007AF5,0xAE007AF6,0xAF007AF7,0xB0007AF8,0xB1007AF9,0xB2007AFA,0xB3007AFB,0xB4007AFC,0xB5007AFD],
    [0xB6007AFE,0xB7007AFF,0xB8007B00,0xB9007B01,0xBA007B02,0xBB007B03,0xBC007B04,0xBD007B05,0xBE007B06,0xBF007B07],
    [0x0025FA47,0x0025FA3E,0x0025FA35,0x0025FA2C,0x0025FA23,0x0025FA1A,0x0025FA11,0x0025FA08,0x0025F9FF,0x0025F9F6],
    [0x0025F9ED,0x0025F9E4,0x0019F8F1,0x0025F9DB,0x0025F9D2,0x0025F9C9,0x0025F9C0,0x0025F9B7,0x0025F9AE,0x0025F9A5],
    [0x0025F99C,0x0025F993,0x0025F98A,0x0025F981,0x0025F978,0x0025F96F,0x0025F966,0x0025F95D,0x0025F954,0x0025F94B],
    [0x0025F942,0x0025F939,0x0025F930,0x0025F927,0x0025F91E,0x0025F915,0x0025F90C,0x0025F903,0x0025F8FA,0x0025F8F1],
    [0x0019F7FE,0x0025F8E8,0x0025F8DF,0x0025F8D6,0x0025F8CD,0x0025F8C4,0x0025F8BB,0x0025F8B2,0x0025F8A9,0x0025F8A0],
    [0x0025F897,0x0025F88E,0x0025F885,0x0025F87C,0x0025F873,0x0025F86A,0x0025F861,0x0025F858,0x0025F84F,0x0025F846],
    [0x0025F83D,0x0025F834,0x0025F82B,0x0025F822,0x80007B48,0x81007B49,0x82007B4A,0x83007B4B,0x84007B4C,0x85007B4D],
    [0x86007B4E,0x87007B4F,0x88007B50,0x89007B51,0x8A007B52,0x8B007B53,0x8C007B54,0x8D007B55,0x8E007B56,0x8F007B57],
    [0x90007B58,0x91007B59,0x92007B5A,0x93007B5B,0x94007B5C,0x95007B5D,0x96007B5E,0x97007B5F,0x98007B60,0x99007B61],
    [0x9A007B62,0x9B007B63,0x9C007B64,0x9D007B65,0x9E007B66,0x9F007B67,0xA0007B68,0xA1007B69,0xA2007B6A,0xA3007B6B],
    [0xA4007B6C,0xA5007B6D,0xA6007B6E,0xA7007B6F,0xA8007B70,0xA9007B71,0xAA007B72,0xAB007B73,0xAC007B74,0xAD007B75],
    [0xAE007B76,0xAF007B77,0xB0007B78,0xB1007B79,0xB2007B7A,0xB3007B7B,0xB4007B7C,0xB5007B7D,0xB6007B7E,0xB7007B7F]]"

definition NODES_22 :: "nat list list" where
  "NODES_22 = [
    [0xB8007B80,0xB9007B81,0xBA007B82,0xBB007B83,0xBC007B84,0xBD007B85,0xBE007B86,0xBF007B87,0x0025F819,0x0025F810],
    [0x0025F807,0x0025F7FE,0x0019F70B,0x0025F7F5,0x0025F7EC,0x0025F7E3,0x0025F7DA,0x0025F7D1,0x0025F7C8,0x0025F7BF],
    [0x0025F7B6,0x0025F7AD,0x0025F7A4,0x0025F79B,0x0025F792,0x0025F789,0x0025F780,0x0025F777,0x0025F76E,0x0025F765],
    [0x0025F75C,0x0025F753,0x0025F74A,0x0025F741,0x0025F738,0x0025F72F,0x0025F726,0x0025F71D,0x0025F714,0x0025F70B],
    [0x0019F618,0x0025F702,0x0025F6F9,0x0025F6F0,0x0025F6E7,0x0025F6DE,0x0025F6D5,0x0025F6CC,0x0025F6C3,0x0025F6BA],
    [0x0025F6B1,0x0025F6A8,0x0025F69F,0x0025F696,0x0025F68D,0x0025F684,0x0025F67B,0x0025F672,0x0025F669,0x0025F660],
    [0x0025F657,0x0025F64E,0x0025F645,0x0025F63C,0x0025F633,0x0025F62A,0x0025F621,0x0025F618,0x0019F525,0x0025F60F],
    [0x0025F606,0x0025F5FD,0x80007BC8,0x81007BC9,0x82007BCA,0x83007BCB,0x84007BCC,0x85007BCD,0x86007BCE,0x87007BCF],
    [0x88007BD0,0x89007BD1,0x8A007BD2,0x8B007BD3,0x8C007BD4,0x8D007BD5,0x8E007BD6,0x8F007BD7,0x90007BD8,0x91007BD9],
    [0x92007BDA,0x93007BDB,0x94007BDC,0x95007BDD,0x96007BDE,0x97007BDF,0x98007BE0,0x99007BE1,0x9A007BE2,0x9B007BE3],
    [0x9C007BE4,0x9D007BE5,0x9E007BE6,0x9F007BE7,0xA0007BE8,0xA1007BE9,0xA2007BEA,0xA3007BEB,0xA4007BEC,0xA5007BED],
    [0xA6007BEE,0xA7007BEF,0xA8007BF0,0xA9007BF1,0xAA007BF2,0xAB007BF3,0xAC007BF4,0xAD007BF5,0xAE007BF6,0xAF007BF7],
    [0xB0007BF8,0xB1007BF9,0xB2007BFA,0xB3007BFB,0xB4007BFC,0xB5007BFD,0xB6007BFE,0xB7007BFF,0xB8007C00,0xB9007C01],
    [0xBA007C02,0xBB007C03,0xBC007C04,0xBD007C05,0xBE007C06,0xBF007C07,0x0025F5F4,0x0025F5EB,0x0025F5E2,0x0025F5D9],
    [0x0025F5D0,0x0025F5C7,0x0025F5BE,0x0025F5B5,0x0025F5AC,0x0025F5A3,0x0025F59A,0x0025F591,0x0025F588,0x0025F57F],
    [0x0025F576,0x0025F56D,0x0025F564,0x0025F55B,0x0025F552,0x0025F549,0x0025F540,0x0025F537,0x0025F52E,0x0025F525],
    [0x0019F432,0x0025F51C,0x0025F513,0x0025F50A,0x0025F501,0x0025F4F8,0x0025F4EF,0x0025F4E6,0x0025F4DD,0x0025F4D4],
    [0x0025F4CB,0x0025F4C2,0x0025F4B9,0x0025F4B0,0x0025F4A7,0x0025F49E,0x0025F495,0x0025F48C,0x0025F483,0x0025F47A],
    [0x0025F471,0x0025F468,0x0025F45F,0x0025F456,0x0025F44D,0x0025F444,0x0025F43B,0x0025F432,0x0019F33F,0x0025F429],
    [0x0025F420,0x0025F417,0x0025F40E,0x0025F405,0x0025F3FC,0x0025F3F3,0x0025F3EA,0x0025F3E1,0x0025F3D8,0x0025F3CF],
    [0x80007C48,0x81007C49,0x82007C4A,0x83007C4B,0x84007C4C,0x85007C4D,0x86007C4E,0x87007C4F,0x88007C50,0x89007C51],
    [0x8A007C52,0x8B007C53,0x8C007C54,0x8D007C55,0x8E007C56,0x8F007C57,0x90007C58,0x91007C59,0x92007C5A,0x93007C5B],
    [0x94007C5C,0x95007C5D,0x96007C5E,0x97007C5F,0x98007C60,0x99007C61,0x9A007C62,0x9B007C63,0x9C007C64,0x9D007C65],
    [0x9E007C66,0x9F007C67,0xA0007C68,0xA1007C69,0xA2007C6A,0xA3007C6B,0xA4007C6C,0xA5007C6D,0xA6007C6E,0xA7007C6F],
    [0xA8007C70,0xA9007C71,0xAA007C72,0xAB007C73,0xAC007C74,0xAD007C75,0xAE007C76,0xAF007C77,0xB0007C78,0xB1007C79],
    [0xB2007C7A,0xB3007C7B,0xB4007C7C,0xB5007C7D,0xB6007C7E,0xB7007C7F,0xB8007C80,0xB9007C81,0xBA007C82,0xBB007C83],
    [0xBC007C84,0xBD007C85,0xBE007C86,0xBF007C87,0x0025F3C6,0x0025F3BD,0x0025F3B4,0x0025F3AB,0x0025F3A2,0x0025F399],
    [0x0025F390,0x0025F387,0x0025F37E,0x0025F375,0x0025F36C,0x0025F363,0x0025F35A,0x0025F351,0x0025F348,0x0025F33F],
    [0x0019F24C,0x0025F336,0x0025F32D,0x0025F324,0x0025F31B,0x0025F312,0x0025F309,0x0025F300,0x0025F2F7,0x0025F2EE],
    [0x0025F2E5,0x0025F2DC,0x0025F2D3,0x0025F2CA,0x0025F2C1,0x0025F2B8,0x0025F2AF,0x0025F2A6,0x0025F29D,0x0025F294],
    [0x0025F28B,0x0025F282,0x0025F279,0x0025F270,0x0025F267,0x0025F25E,0x0025F255,0x0025F24C,0x0019F159,0x0025F243],
    [0x0025F23A,0x0025F231,0x0025F228,0x0025F21F,0x0025F216,0x0025F20D,0x0025F204,0x0025F1FB,0x0025F1F2,0x0025F1E9],
    [0x0025F1E0,0x0025F1D7,0x0025F1CE,0x0025F1C5,0x0025F1BC,0x0025F1B3,0x0025F1AA,0x0025F1A1,0x80007CC8,0x81007CC9],
    [0x82007CCA,0x83007CCB,0x84007CCC,0x85007CCD,0x86007CCE,0x87007CCF,0x88007CD0,0x89007CD1,0x8A007CD2,0x8B007CD3],
    [0x8C007CD4,0x8D007CD5,0x8E007CD6,0x8F007CD7,0x90007CD8,0x91007CD9,0x92007CDA,0x93007CDB,0x94007CDC,0x95007CDD],
    [0x96007CDE,0x97007CDF,0x98007CE0,0x99007CE1,0x9A007CE2,0x9B007CE3,0x9C007CE4,0x9D007CE5,0x9E007CE6,0x9F007CE7],
    [0xA0007CE8,0xA1007CE9,0xA2007CEA,0xA3007CEB,0xA4007CEC,0xA5007CED,0xA6007CEE,0xA7007CEF,0xA8007CF0,0xA9007CF1],
    [0xAA007CF2,0xAB007CF3,0xAC007CF4,0xAD007CF5,0xAE007CF6,0xAF007CF7,0xB0007CF8,0xB1007CF9,0xB2007CFA,0xB3007CFB],
    [0xB4007CFC,0xB5007CFD,0xB6007CFE,0xB7007CFF,0xB8007D00,0xB9007D01,0xBA007D02,0xBB007D03,0xBC007D04,0xBD007D05],
    [0xBE007D06,0xBF007D07,0x0025F198,0x0025F18F,0x0025F186,0x0025F17D,0x0025F174,0x0025F16B,0x0025F162,0x0025F159],
    [0x0019F066,0x0025F150,0x0025F147,0x0025F13E,0x0025F135,0x0025F12C,0x0025F123,0x0025F11A,0x0025F111,0x0025F108],
    [0x0025F0FF,0x0025F0F6,0x0025F0ED,0x0025F0E4,0x0025F0DB,0x0025F0D2,0x0025F0C9,0x0025F0C0,0x0025F0B7,0x0025F0AE],
    [0x0025F0A5,0x0025F09C,0x0025F093,0x0025F08A,0x0025F081,0x0025F078,0x0025F06F,0x0025F066,0x0019EF73,0x0025F05D],
    [0x0025F054,0x0025F04B,0x0025F042,0x0025F039,0x0025F030,0x0025F027,0x0025F01E,0x0025F015,0x0025F00C,0x0025F003],
    [0x0025EFFA,0x0025EFF1,0x0025EFE8,0x0025EFDF,0x0025EFD6,0x0025EFCD,0x0025EFC4,0x0025EFBB,0x0025EFB2,0x0025EFA9],
    [0x0025EFA0,0x0025EF97,0x0025EF8E,0x0025EF85,0x0025EF7C,0x0025EF73,0x80007D48,0x81007D49,0x82007D4A,0x83007D4B],
    [0x84007D4C,0x85007D4D,0x86007D4E,0x87007D4F,0x88007D50,0x89007D51,0x8A007D52,0x8B007D53,0x8C007D54,0x8D007D55],
    [0x8E007D56,0x8F007D57,0x90007D58,0x91007D59,0x92007D5A,0x93007D5B,0x94007D5C,0x95007D5D,0x96007D5E,0x97007D5F],
    [0x98007D60,0x99007D61,0x9A007D62,0x9B007D63,0x9C007D64,0x9D007D65,0x9E007D66,0x9F007D67,0xA0007D68,0xA1007D69],
    [0xA2007D6A,0xA3007D6B,0xA4007D6C,0xA5007D6D,0xA6007D6E,0xA7007D6F,0xA8007D70,0xA9007D71,0xAA007D72,0xAB007D73],
    [0xAC007D74,0xAD007D75,0xAE007D76,0xAF007D77,0xB0007D78,0xB1007D79,0xB2007D7A,0xB3007D7B,0xB4007D7C,0xB5007D7D],
    [0xB6007D7E,0xB7007D7F,0xB8007D80,0xB9007D81,0xBA007D82,0xBB007D83,0xBC007D84,0xBD007D85,0xBE007D86,0xBF007D87],
    [0x0019EE80,0x0025EF6A,0x0025EF61,0x0025EF58,0x0025EF4F,0x0025EF46,0x0025EF3D,0x0025EF34,0x0025EF2B,0x0025EF22],
    [0x0025EF19,0x0025EF10,0x0025EF07,0x0025EEFE,0x0025EEF5,0x0025EEEC,0x0025EEE3,0x0025EEDA,0x0025EED1,0x0025EEC8],
    [0x0025EEBF,0x0025EEB6,0x0025EEAD,0x0025EEA4,0x0025EE9B,0x0025EE92,0x0025EE89,0x0025EE80,0x0019ED8D,0x0025EE77],
    [0x0025EE6E,0x0025EE65,0x0025EE5C,0x0025EE53,0x0025EE4A,0x0025EE41,0x0025EE38,0x0025EE2F,0x0025EE26,0x0025EE1D],
    [0x0025EE14,0x0025EE0B,0x0025EE02,0x0025EDF9,0x0025EDF0,0x0025EDE7,0x0025EDDE,0x0025EDD5,0x0025EDCC,0x0025EDC3],
    [0x0025EDBA,0x0025EDB1,0x0025EDA8,0x0025ED9F,0x0025ED96,0x0025ED8D,0x0019EC9A,0x0025ED84,0x0025ED7B,0x0025ED72],
    [0x0025ED69,0x0025ED60,0x0025ED57,0x0025ED4E,0x80007DC8,0x81007DC9,0x82007DCA,0x83007DCB,0x84007DCC,0x85007DCD],
    [0x86007DCE,0x87007DCF,0x88007DD0,0x89007DD1,0x8A007DD2,0x8B007DD3,0x8C007DD4,0x8D007DD5,0x8E007DD6,0x8F007DD7],
    [0x90007DD8,0x91007DD9,0x92007DDA,0x93007DDB,0x94007DDC,0x95007DDD,0x96007DDE,0x97007DDF,0x98007DE0,0x99007DE1],
    [0x9A007DE2,0x9B007DE3,0x9C007DE4,0x9D007DE5,0x9E007DE6,0x9F007DE7,0xA0007DE8,0xA1007DE9,0xA2007DEA,0xA3007DEB],
    [0xA4007DEC,0xA5007DED,0xA6007DEE,0xA7007DEF,0xA8007DF0,0xA9007DF1,0xAA007DF2,0xAB007DF3,0xAC007DF4,0xAD007DF5],
    [0xAE007DF6,0xAF007DF7,0xB0007DF8,0xB1007DF9,0xB2007DFA,0xB3007DFB,0xB4007DFC,0xB5007DFD,0xB6007DFE,0xB7007DFF],
    [0xB8007E00,0xB9007E01,0xBA007E02,0xBB007E03,0xBC007E04,0xBD007E05,0xBE007E06,0xBF007E07,0x0025ED45,0x0025ED3C],
    [0x0025ED33,0x0025ED2A,0x0025ED21,0x0025ED18,0x0025ED0F,0x0025ED06,0x0025ECFD,0x0025ECF4,0x0025ECEB,0x0025ECE2],
    [0x0025ECD9,0x0025ECD0,0x0025ECC7,0x0025ECBE,0x0025ECB5,0x0025ECAC,0x0025ECA3,0x0025EC9A,0x0019EBA7,0x0025EC91],
    [0x0025EC88,0x0025EC7F,0x0025EC76,0x0025EC6D,0x0025EC64,0x0025EC5B,0x0025EC52,0x0025EC49,0x0025EC40,0x0025EC37],
    [0x0025EC2E,0x0025EC25,0x0025EC1C,0x0025EC13,0x0025EC0A,0x0025EC01,0x0025EBF8,0x0025EBEF,0x0025EBE6,0x0025EBDD],
    [0x0025EBD4,0x0025EBCB,0x0025EBC2,0x0025EBB9,0x0025EBB0,0x0025EBA7,0x0019EAB4,0x0025EB9E,0x0025EB95,0x0025EB8C],
    [0x0025EB83,0x0025EB7A,0x0025EB71,0x0025EB68,0x0025EB5F,0x0025EB56,0x0025EB4D,0x0025EB44,0x0025EB3B,0x0025EB32],
    [0x0025EB29,0x0025EB20,0x80007E48,0x81007E49,0x82007E4A,0x83007E4B,0x84007E4C,0x85007E4D,0x86007E4E,0x87007E4F],
    [0x88007E50,0x89007E51,0x8A007E52,0x8B007E53,0x8C007E54,0x8D007E55,0x8E007E56,0x8F007E57,0x90007E58,0x91007E59],
    [0x92007E5A,0x93007E5B,0x94007E5C,0x95007E5D,0x96007E5E,0x97007E5F,0x98007E60,0x99007E61,0x9A007E62,0x9B007E63],
    [0x9C007E64,0x9D007E65,0x9E007E66,0x9F007E67,0xA0007E68,0xA1007E69,0xA2007E6A,0xA3007E6B,0xA4007E6C,0xA5007E6D],
    [0xA6007E6E,0xA7007E6F,0xA8007E70,0xA9007E71,0xAA007E72,0xAB007E73,0xAC007E74,0xAD007E75,0xAE007E76,0xAF007E77],
    [0xB0007E78,0xB1007E79,0xB2007E7A,0xB3007E7B,0xB4007E7C,0xB5007E7D,0xB6007E7E,0xB7007E7F,0xB8007E80,0xB9007E81],
    [0xBA007E82,0xBB007E83,0xBC007E84,0xBD007E85,0xBE007E86,0xBF007E87,0x0025EB17,0x0025EB0E,0x0025EB05,0x0025EAFC],
    [0x0025EAF3,0x0025EAEA,0x0025EAE1,0x0025EAD8,0x0025EACF,0x0025EAC6,0x0025EABD,0x0025EAB4,0x0019E9C1,0x0025EAAB],
    [0x0025EAA2,0x0025EA99,0x0025EA90,0x0025EA87,0x0025EA7E,0x0025EA75,0x0025EA6C,0x0025EA63,0x0025EA5A,0x0025EA51],
    [0x0025EA48,0x0025EA3F,0x0025EA36,0x0025EA2D,0x0025EA24,0x0025EA1B,0x0025EA12,0x0025EA09,0x0025EA00,0x0025E9F7],
    [0x0025E9EE,0x0025E9E5,0x0025E9DC,0x0025E9D3,0x0025E9CA,0x0025E9C1,0x0019E8CE,0x0025E9B8,0x0025E9AF,0x0025E9A6],
    [0x0025E99D,0x0025E994,0x0025E98B,0x0025E982,0x0025E979,0x0025E970,0x0025E967,0x0025E95E,0x0025E955,0x0025E94C],
    [0x0025E943,0x0025E93A,0x0025E931,0x0025E928,0x0025E91F,0x0025E916,0x0025E90D,0x0025E904,0x0025E8FB,0x0025E8F2],
    [0x80007EC8,0x81007EC9,0x82007ECA,0x83007ECB,0x84007ECC,0x85007ECD,0x86007ECE,0x87007ECF,0x88007ED0,0x89007ED1],
    [0x8A007ED2,0x8B007ED3,0x8C007ED4,0x8D007ED5,0x8E007ED6,0x8F007ED7,0x90007ED8,0x91007ED9,0x92007EDA,0x93007EDB],
    [0x94007EDC,0x95007EDD,0x96007EDE,0x97007EDF,0x98007EE0,0x99007EE1,0x9A007EE2,0x9B007EE3,0x9C007EE4,0x9D007EE5],
    [0x9E007EE6,0x9F007EE7,0xA0007EE8,0xA1007EE9,0xA2007EEA,0xA3007EEB,0xA4007EEC,0xA5007EED,0xA6007EEE,0xA7007EEF],
    [0xA8007EF0,0xA9007EF1,0xAA007EF2,0xAB007EF3,0xAC007EF4,0xAD007EF5,0xAE007EF6,0xAF007EF7,0xB0007EF8,0xB1007EF9],
    [0xB2007EFA,0xB3007EFB,0xB4007EFC,0xB5007EFD,0xB6007EFE,0xB7007EFF,0xB8007F00,0xB9007F01,0xBA007F02,0xBB007F03],
    [0xBC007F04,0xBD007F05,0xBE007F06,0xBF007F07,0x0025E8E9,0x0025E8E0,0x0025E8D7,0x0025E8CE,0x0019E7DB,0x0025E8C5],
    [0x0025E8BC,0x0025E8B3,0x0025E8AA,0x0025E8A1,0x0025E898,0x0025E88F,0x0025E886,0x0025E87D,0x0025E874,0x0025E86B],
    [0x0025E862,0x0025E859,0x0025E850,0x0025E847,0x0025E83E,0x0025E835,0x0025E82C,0x0025E823,0x0025E81A,0x0025E811],
    [0x0025E808,0x0025E7FF,0x0025E7F6,0x0025E7ED,0x0025E7E4,0x0025E7DB,0x0019E6E8,0x0025E7D2,0x0025E7C9,0x0025E7C0],
    [0x0025E7B7,0x0025E7AE,0x0025E7A5,0x0025E79C,0x0025E793,0x0025E78A,0x0025E781,0x0025E778,0x0025E76F,0x0025E766],
    [0x0025E75D,0x0025E754,0x0025E74B,0x0025E742,0x0025E739,0x0025E730,0x0025E727,0x0025E71E,0x0025E715,0x0025E70C],
    [0x0025E703,0x0025E6FA,0x0025E6F1,0x0025E6E8,0x0019E5F5,0x0025E6DF,0x0025E6D6,0x0025E6CD,0x80007F48,0x81007F49],
    [0x82007F4A,0x83007F4B,0x84007F4C,0x85007F4D,0x86007F4E,0x87007F4F,0x88007F50,0x89007F51,0x8A007F52,0x8B007F53],
    [0x8C007F54,0x8D007F55,0x8E007F56,0x8F007F57,0x90007F58,0x91007F59,0x92007F5A,0x93007F5B,0x94007F5C,0x95007F5D],
    [0x96007F5E,0x97007F5F,0x98007F60,0x99007F61,0x9A007F62,0x9B007F63,0x9C007F64,0x9D007F65,0x9E007F66,0x9F007F67],
    [0xA0007F68,0xA1007F69,0xA2007F6A,0xA3007F6B,0xA4007F6C,0xA5007F6D,0xA6007F6E,0xA7007F6F,0xA8007F70,0xA9007F71],
    [0xAA007F72,0xAB007F73,0xAC007F74,0xAD007F75,0xAE007F76,0xAF007F77,0xB0007F78,0xB1007F79,0xB2007F7A,0xB3007F7B],
    [0xB4007F7C,0xB5007F7D,0xB6007F7E,0xB7007F7F,0xB8007F80,0xB9007F81,0xBA007F82,0xBB007F83,0xBC007F84,0xBD007F85],
    [0xBE007F86,0xBF007F87,0x0025E6C4,0x0025E6BB,0x0025E6B2,0x0025E6A9,0x0025E6A0,0x0025E697,0x0025E68E,0x0025E685],
    [0x0025E67C,0x0025E673,0x0025E66A,0x0025E661,0x0025E658,0x0025E64F,0x0025E646,0x0025E63D,0x0025E634,0x0025E62B],
    [0x0025E622,0x0025E619,0x0025E610,0x0025E607,0x0025E5FE,0x0025E5F5,0x0019E502,0x0025E5EC,0x0025E5E3,0x0025E5DA],
    [0x0025E5D1,0x0025E5C8,0x0025E5BF,0x0025E5B6,0x0025E5AD,0x0025E5A4,0x0025E59B,0x0025E592,0x0025E589,0x0025E580],
    [0x0025E577,0x0025E56E,0x0025E565,0x0025E55C,0x0025E553,0x0025E54A,0x0025E541,0x0025E538,0x0025E52F,0x0025E526],
    [0x0025E51D,0x0025E514,0x0025E50B,0x0025E502,0x0019E40F,0x0025E4F9,0x0025E4F0,0x0025E4E7,0x0025E4DE,0x0025E4D5],
    [0x0025E4CC,0x0025E4C3,0x0025E4BA,0x0025E4B1,0x0025E4A8,0x0025E49F,0x80007FC8,0x81007FC9,0x82007FCA,0x83007FCB],
    [0x84007FCC,0x85007FCD,0x86007FCE,0x87007FCF,0x88007FD0,0x89007FD1,0x8A007FD2,0x8B007FD3,0x8C007FD4,0x8D007FD5],
    [0x8E007FD6,0x8F007FD7,0x90007FD8,0x91007FD9,0x92007FDA,0x93007FDB,0x94007FDC,0x95007FDD,0x96007FDE,0x97007FDF],
    [0x98007FE0,0x99007FE1,0x9A007FE2,0x9B007FE3,0x9C007FE4,0x9D007FE5,0x9E007FE6,0x9F007FE7,0xA0007FE8,0xA1007FE9],
    [0xA2007FEA,0xA3007FEB,0xA4007FEC,0xA5007FED,0xA6007FEE,0xA7007FEF,0xA8007FF0,0xA9007FF1,0xAA007FF2,0xAB007FF3],
    [0xAC007FF4,0xAD007FF5,0xAE007FF6,0xAF007FF7,0xB0007FF8,0xB1007FF9,0xB2007FFA,0xB3007FFB,0xB4007FFC,0xB5007FFD],
    [0xB6007FFE,0xB7007FFF,0xB8008000,0xB9008001,0xBA008002,0xBB008003,0xBC008004,0xBD008005,0xBE008006,0xBF008007],
    [0x0025E496,0x0025E48D,0x0025E484,0x0025E47B,0x0025E472,0x0025E469,0x0025E460,0x0025E457,0x0025E44E,0x0025E445],
    [0x0025E43C,0x0025E433,0x0025E42A,0x0025E421,0x0025E418,0x0025E40F,0x0019E31C,0x0025E406,0x0025E3FD,0x0025E3F4],
    [0x0025E3EB,0x0025E3E2,0x0025E3D9,0x0025E3D0,0x0025E3C7,0x0025E3BE,0x0025E3B5,0x0025E3AC,0x0025E3A3,0x0025E39A],
    [0x0025E391,0x0025E388,0x0025E37F,0x0025E376,0x0025E36D,0x0025E364,0x0025E35B,0x0025E352,0x0025E349,0x0025E340],
    [0x0025E337,0x0025E32E,0x0025E325,0x0025E31C,0x0019E229,0x0025E313,0x0025E30A,0x0025E301,0x0025E2F8,0x0025E2EF],
    [0x0025E2E6,0x0025E2DD,0x0025E2D4,0x0025E2CB,0x0025E2C2,0x0025E2B9,0x0025E2B0,0x0025E2A7,0x0025E29E,0x0025E295],
    [0x0025E28C,0x0025E283,0x0025E27A,0x0025E271,0x80008048,0x81008049,0x8200804A,0x8300804B,0x8400804C,0x8500804D],
    [0x8600804E,0x8700804F,0x88008050,0x89008051,0x8A008052,0x8B008053,0x8C008054,0x8D008055,0x8E008056,0x8F008057],
    [0x90008058,0x91008059,0x9200805A,0x9300805B,0x9400805C,0x9500805D,0x9600805E,0x9700805F,0x98008060,0x99008061],
    [0x9A008062,0x9B008063,0x9C008064,0x9D008065,0x9E008066,0x9F008067,0xA0008068,0xA1008069,0xA200806A,0xA300806B],
    [0xA400806C,0xA500806D,0xA600806E,0xA700806F,0xA8008070,0xA9008071,0xAA008072,0xAB008073,0xAC008074,0xAD008075],
    [0xAE008076,0xAF008077,0xB0008078,0xB1008079,0xB200807A,0xB300807B,0xB400807C,0xB500807D,0xB600807E,0xB700807F],
    [0xB8008080,0xB9008081,0xBA008082,0xBB008083,0xBC008084,0xBD008085,0xBE008086,0xBF008087,0x0025E268,0x0025E25F],
    [0x0025E256,0x0025E24D,0x0025E244,0x0025E23B,0x0025E232,0x0025E229,0x0019E136,0x0025E220,0x0025E217,0x0025E20E],
    [0x0025E205,0x0025E1FC,0x0025E1F3,0x0025E1EA,0x0025E1E1,0x0025E1D8,0x0025E1CF,0x0025E1C6,0x0025E1BD,0x0025E1B4],
    [0x0025E1AB,0x0025E1A2,0x0025E199,0x0025E190,0x0025E187,0x0025E17E,0x0025E175,0x0025E16C,0x0025E163,0x0025E15A],
    [0x0025E151,0x0025E148,0x0025E13F,0x0025E136,0x0019E043,0x0025E12D,0x0025E124,0x0025E11B,0x0025E112,0x0025E109],
    [0x0025E100,0x0025E0F7,0x0025E0EE,0x0025E0E5,0x0025E0DC,0x0025E0D3,0x0025E0CA,0x0025E0C1,0x0025E0B8,0x0025E0AF],
    [0x0025E0A6,0x0025E09D,0x0025E094,0x0025E08B,0x0025E082,0x0025E079,0x0025E070,0x0025E067,0x0025E05E,0x0025E055],
    [0x0025E04C,0x0025E043,0x800080C8,0x810080C9,0x820080CA,0x830080CB,0x840080CC,0x850080CD,0x860080CE,0x870080CF],
    [0x880080D0,0x890080D1,0x8A0080D2,0x8B0080D3,0x8C0080D4,0x8D0080D5,0x8E0080D6,0x8F0080D7,0x900080D8,0x910080D9],
    [0x920080DA,0x930080DB,0x940080DC,0x950080DD,0x960080DE,0x970080DF,0x980080E0,0x990080E1,0x9A0080E2,0x9B0080E3],
    [0x9C0080E4,0x9D0080E5,0x9E0080E6,0x9F0080E7,0xA00080E8,0xA10080E9,0xA20080EA,0xA30080EB,0xA40080EC,0xA50080ED],
    [0xA60080EE,0xA70080EF,0xA80080F0,0xA90080F1,0xAA0080F2,0xAB0080F3,0xAC0080F4,0xAD0080F5,0xAE0080F6,0xAF0080F7],
    [0xB00080F8,0xB10080F9,0xB20080FA,0xB30080FB,0xB40080FC,0xB50080FD,0xB60080FE,0xB70080FF,0xB8008100,0xB9008101],
    [0xBA008102,0xBB008103,0xBC008104,0xBD008105,0xBE008106,0xBF008107,0x0019DF50,0x0025E03A,0x0025E031,0x0025E028],
    [0x0025E01F,0x0025E016,0x0025E00D,0x0025E004,0x0025DFFB,0x0025DFF2,0x0025DFE9,0x0025DFE0,0x0025DFD7,0x0025DFCE],
    [0x0025DFC5,0x0025DFBC,0x0025DFB3,0x0025DFAA,0x0025DFA1,0x0025DF98,0x0025DF8F,0x0025DF86,0x0025DF7D,0x0025DF74]]"

definition NODES_23 :: "nat list list" where
  "NODES_23 = [
    [0x0025DF6B,0x0025DF62,0x0025DF59,0x0025DF50,0x0019DE5D,0x0025DF47,0x0025DF3E,0x0025DF35,0x0025DF2C,0x0025DF23],
    [0x0025DF1A,0x0025DF11,0x0025DF08,0x0025DEFF,0x0025DEF6,0x0025DEED,0x0025DEE4,0x0025DEDB,0x0025DED2,0x0025DEC9],
    [0x0025DEC0,0x0025DEB7,0x0025DEAE,0x0025DEA5,0x0025DE9C,0x0025DE93,0x0025DE8A,0x0025DE81,0x0025DE78,0x0025DE6F],
    [0x0025DE66,0x0025DE5D,0x0019DD6A,0x0025DE54,0x0025DE4B,0x0025DE42,0x0025DE39,0x0025DE30,0x0025DE27,0x0025DE1E],
    [0x80008148,0x81008149,0x8200814A,0x8300814B,0x8400814C,0x8500814D,0x8600814E,0x8700814F,0x88008150,0x89008151],
    [0x8A008152,0x8B008153,0x8C008154,0x8D008155,0x8E008156,0x8F008157,0x90008158,0x91008159,0x9200815A,0x9300815B],
    [0x9400815C,0x9500815D,0x9600815E,0x9700815F,0x98008160,0x99008161,0x9A008162,0x9B008163,0x9C008164,0x9D008165],
    [0x9E008166,0x9F008167,0xA0008168,0xA1008169,0xA200816A,0xA300816B,0xA400816C,0xA500816D,0xA600816E,0xA700816F],
    [0xA8008170,0xA9008171,0xAA008172,0xAB008173,0xAC008174,0xAD008175,0xAE008176,0xAF008177,0xB0008178,0xB1008179],
    [0xB200817A,0xB300817B,0xB400817C,0xB500817D,0xB600817E,0xB700817F,0xB8008180,0xB9008181,0xBA008182,0xBB008183],
    [0xBC008184,0xBD008185,0xBE008186,0xBF008187,0x0025DE15,0x0025DE0C,0x0025DE03,0x0025DDFA,0x0025DDF1,0x0025DDE8],
    [0x0025DDDF,0x0025DDD6,0x0025DDCD,0x0025DDC4,0x0025DDBB,0x0025DDB2,0x0025DDA9,0x0025DDA0,0x0025DD97,0x0025DD8E],
    [0x0025DD85,0x0025DD7C,0x0025DD73,0x0025DD6A,0x0019DC77,0x0025DD61,0x0025DD58,0x0025DD4F,0x0025DD46,0x0025DD3D],
    [0x0025DD34,0x0025DD2B,0x0025DD22,0x0025DD19,0x0025DD10,0x0025DD07,0x0025DCFE,0x0025DCF5,0x0025DCEC,0x0025DCE3],
    [0x0025DCDA,0x0025DCD1,0x0025DCC8,0x0025DCBF,0x0025DCB6,0x0025DCAD,0x0025DCA4,0x0025DC9B,0x0025DC92,0x0025DC89],
    [0x0025DC80,0x0025DC77,0x0019DB84,0x0025DC6E,0x0025DC65,0x0025DC5C,0x0025DC53,0x0025DC4A,0x0025DC41,0x0025DC38],
    [0x0025DC2F,0x0025DC26,0x0025DC1D,0x0025DC14,0x0025DC0B,0x0025DC02,0x0025DBF9,0x0025DBF0,0x800081C8,0x810081C9],
    [0x820081CA,0x830081CB,0x840081CC,0x850081CD,0x860081CE,0x870081CF,0x880081D0,0x890081D1,0x8A0081D2,0x8B0081D3],
    [0x8C0081D4,0x8D0081D5,0x8E0081D6,0x8F0081D7,0x900081D8,0x910081D9,0x920081DA,0x930081DB,0x940081DC,0x950081DD],
    [0x960081DE,0x970081DF,0x980081E0,0x990081E1,0x9A0081E2,0x9B0081E3,0x9C0081E4,0x9D0081E5,0x9E0081E6,0x9F0081E7],
    [0xA00081E8,0xA10081E9,0xA20081EA,0xA30081EB,0xA40081EC,0xA50081ED,0xA60081EE,0xA70081EF,0xA80081F0,0xA90081F1],
    [0xAA0081F2,0xAB0081F3,0xAC0081F4,0xAD0081F5,0xAE0081F6,0xAF0081F7,0xB00081F8,0xB10081F9,0xB20081FA,0xB30081FB],
    [0xB40081FC,0xB50081FD,0xB60081FE,0xB70081FF,0xB8008200,0xB9008201,0xBA008202,0xBB008203,0xBC008204,0xBD008205],
    [0xBE008206,0xBF008207,0x0025DBE7,0x0025DBDE,0x0025DBD5,0x0025DBCC,0x0025DBC3,0x0025DBBA,0x0025DBB1,0x0025DBA8],
    [0x0025DB9F,0x0025DB96,0x0025DB8D,0x0025DB84,0x0019DA91,0x0025DB7B,0x0025DB72,0x0025DB69,0x0025DB60,0x0025DB57],
    [0x0025DB4E,0x0025DB45,0x0025DB3C,0x0025DB33,0x0025DB2A,0x0025DB21,0x0025DB18,0x0025DB0F,0x0025DB06,0x0025DAFD],
    [0x0025DAF4,0x0025DAEB,0x0025DAE2,0x0025DAD9,0x0025DAD0,0x0025DAC7,0x0025DABE,0x0025DAB5,0x0025DAAC,0x0025DAA3],
    [0x0025DA9A,0x0025DA91,0x0019D99E,0x0025DA88,0x0025DA7F,0x0025DA76,0x0025DA6D,0x0025DA64,0x0025DA5B,0x0025DA52],
    [0x0025DA49,0x0025DA40,0x0025DA37,0x0025DA2E,0x0025DA25,0x0025DA1C,0x0025DA13,0x0025DA0A,0x0025DA01,0x0025D9F8],
    [0x0025D9EF,0x0025D9E6,0x0025D9DD,0x0025D9D4,0x0025D9CB,0x0025D9C2,0x80008248,0x81008249,0x8200824A,0x8300824B],
    [0x8400824C,0x8500824D,0x8600824E,0x8700824F,0x88008250,0x89008251,0x8A008252,0x8B008253,0x8C008254,0x8D008255],
    [0x8E008256,0x8F008257,0x90008258,0x91008259,0x9200825A,0x9300825B,0x9400825C,0x9500825D,0x9600825E,0x9700825F],
    [0x98008260,0x99008261,0x9A008262,0x9B008263,0x9C008264,0x9D008265,0x9E008266,0x9F008267,0xA0008268,0xA1008269],
    [0xA200826A,0xA300826B,0xA400826C,0xA500826D,0xA600826E,0xA700826F,0xA8008270,0xA9008271,0xAA008272,0xAB008273],
    [0xAC008274,0xAD008275,0xAE008276,0xAF008277,0xB0008278,0xB1008279,0xB200827A,0xB300827B,0xB400827C,0xB500827D],
    [0xB600827E,0xB700827F,0xB8008280,0xB9008281,0xBA008282,0xBB008283,0xBC008284,0xBD008285,0xBE008286,0xBF008287],
    [0x0025D9B9,0x0025D9B0,0x0025D9A7,0x0025D99E,0x0019D8AB,0x0025D995,0x0025D98C,0x0025D983,0x0025D97A,0x0025D971],
    [0x0025D968,0x0025D95F,0x0025D956,0x0025D94D,0x0025D944,0x0025D93B,0x0025D932,0x0025D929,0x0025D920,0x0025D917],
    [0x0025D90E,0x0025D905,0x0025D8FC,0x0025D8F3,0x0025D8EA,0x0025D8E1,0x0025D8D8,0x0025D8CF,0x0025D8C6,0x0025D8BD],
    [0x0025D8B4,0x0025D8AB,0x0019D7B8,0x0025D8A2,0x0025D899,0x0025D890,0x0025D887,0x0025D87E,0x0025D875,0x0025D86C],
    [0x0025D863,0x0025D85A,0x0025D851,0x0025D848,0x0025D83F,0x0025D836,0x0025D82D,0x0025D824,0x0025D81B,0x0025D812],
    [0x0025D809,0x0025D800,0x0025D7F7,0x0025D7EE,0x0025D7E5,0x0025D7DC,0x0025D7D3,0x0025D7CA,0x0025D7C1,0x0025D7B8],
    [0x0019D6C5,0x0025D7AF,0x0025D7A6,0x0025D79D,0x800082C8,0x810082C9,0x820082CA,0x830082CB,0x840082CC,0x850082CD],
    [0x860082CE,0x870082CF,0x880082D0,0x890082D1,0x8A0082D2,0x8B0082D3,0x8C0082D4,0x8D0082D5,0x8E0082D6,0x8F0082D7],
    [0x900082D8,0x910082D9,0x920082DA,0x930082DB,0x940082DC,0x950082DD,0x960082DE,0x970082DF,0x980082E0,0x990082E1],
    [0x9A0082E2,0x9B0082E3,0x9C0082E4,0x9D0082E5,0x9E0082E6,0x9F0082E7,0xA00082E8,0xA10082E9,0xA20082EA,0xA30082EB],
    [0xA40082EC,0xA50082ED,0xA60082EE,0xA70082EF,0xA80082F0,0xA90082F1,0xAA0082F2,0xAB0082F3,0xAC0082F4,0xAD0082F5],
    [0xAE0082F6,0xAF0082F7,0xB00082F8,0xB10082F9,0xB20082FA,0xB30082FB,0xB40082FC,0xB50082FD,0xB60082FE,0xB70082FF],
    [0xB8008300,0xB9008301,0xBA008302,0xBB008303,0xBC008304,0xBD008305,0xBE008306,0xBF008307,0x0025D794,0x0025D78B],
    [0x0025D782,0x0025D779,0x0025D770,0x0025D767,0x0025D75E,0x0025D755,0x0025D74C,0x0025D743,0x0025D73A,0x0025D731],
    [0x0025D728,0x0025D71F,0x0025D716,0x0025D70D,0x0025D704,0x0025D6FB,0x0025D6F2,0x0025D6E9,0x0025D6E0,0x0025D6D7],
    [0x0025D6CE,0x0025D6C5,0x0019D5D2,0x0025D6BC,0x0025D6B3,0x0025D6AA,0x0025D6A1,0x0025D698,0x0025D68F,0x0025D686],
    [0x0025D67D,0x0025D674,0x0025D66B,0x0025D662,0x0025D659,0x0025D650,0x0025D647,0x0025D63E,0x0025D635,0x0025D62C],
    [0x0025D623,0x0025D61A,0x0025D611,0x0025D608,0x0025D5FF,0x0025D5F6,0x0025D5ED,0x0025D5E4,0x0025D5DB,0x0025D5D2],
    [0x0019D4DF,0x0025D5C9,0x0025D5C0,0x0025D5B7,0x0025D5AE,0x0025D5A5,0x0025D59C,0x0025D593,0x0025D58A,0x0025D581],
    [0x0025D578,0x0025D56F,0x80008348,0x81008349,0x8200834A,0x8300834B,0x8400834C,0x8500834D,0x8600834E,0x8700834F],
    [0x88008350,0x89008351,0x8A008352,0x8B008353,0x8C008354,0x8D008355,0x8E008356,0x8F008357,0x90008358,0x91008359],
    [0x9200835A,0x9300835B,0x9400835C,0x9500835D,0x9600835E,0x9700835F,0x98008360,0x99008361,0x9A008362,0x9B008363],
    [0x9C008364,0x9D008365,0x9E008366,0x9F008367,0xA0008368,0xA1008369,0xA200836A,0xA300836B,0xA400836C,0xA500836D],
    [0xA600836E,0xA700836F,0xA8008370,0xA9008371,0xAA008372,0xAB008373,0xAC008374,0xAD008375,0xAE008376,0xAF008377],
    [0xB0008378,0xB1008379,0xB200837A,0xB300837B,0xB400837C,0xB500837D,0xB600837E,0xB700837F,0xB8008380,0xB9008381],
    [0xBA008382,0xBB008383,0xBC008384,0xBD008385,0xBE008386,0xBF008387,0x0025D566,0x0025D55D,0x0025D554,0x0025D54B],
    [0x0025D542,0x0025D539,0x0025D530,0x0025D527,0x0025D51E,0x0025D515,0x0025D50C,0x0025D503,0x0025D4FA,0x0025D4F1],
    [0x0025D4E8,0x0025D4DF,0x0019D3EC,0x0025D4D6,0x0025D4CD,0x0025D4C4,0x0025D4BB,0x0025D4B2,0x0025D4A9,0x0025D4A0],
    [0x0025D497,0x0025D48E,0x0025D485,0x0025D47C,0x0025D473,0x0025D46A,0x0025D461,0x0025D458,0x0025D44F,0x0025D446],
    [0x0025D43D,0x0025D434,0x0025D42B,0x0025D422,0x0025D419,0x0025D410,0x0025D407,0x0025D3FE,0x0025D3F5,0x0025D3EC],
    [0x0019D2F9,0x0025D3E3,0x0025D3DA,0x0025D3D1,0x0025D3C8,0x0025D3BF,0x0025D3B6,0x0025D3AD,0x0025D3A4,0x0025D39B],
    [0x0025D392,0x0025D389,0x0025D380,0x0025D377,0x0025D36E,0x0025D365,0x0025D35C,0x0025D353,0x0025D34A,0x0025D341],
    [0x800083C8,0x810083C9,0x820083CA,0x830083CB,0x840083CC,0x850083CD,0x860083CE,0x870083CF,0x880083D0,0x890083D1],
    [0x8A0083D2,0x8B0083D3,0x8C0083D4,0x8D0083D5,0x8E0083D6,0x8F0083D7,0x900083D8,0x910083D9,0x920083DA,0x930083DB],
    [0x940083DC,0x950083DD,0x960083DE,0x970083DF,0x980083E0,0x990083E1,0x9A0083E2,0x9B0083E3,0x9C0083E4,0x9D0083E5],
    [0x9E0083E6,0x9F0083E7,0xA00083E8,0xA10083E9,0xA20083EA,0xA30083EB,0xA40083EC,0xA50083ED,0xA60083EE,0xA70083EF],
    [0xA80083F0,0xA90083F1,0xAA0083F2,0xAB0083F3,0xAC0083F4,0xAD0083F5,0xAE0083F6,0xAF0083F7,0xB00083F8,0xB10083F9],
    [0xB20083FA,0xB30083FB,0xB40083FC,0xB50083FD,0xB60083FE,0xB70083FF,0xB8008400,0xB9008401,0xBA008402,0xBB008403],
    [0xBC008404,0xBD008405,0xBE008406,0xBF008407,0x0025D338,0x0025D32F,0x0025D326,0x0025D31D,0x0025D314,0x0025D30B],
    [0x0025D302,0x0025D2F9,0x0019D206,0x0025D2F0,0x0025D2E7,0x0025D2DE,0x0025D2D5,0x0025D2CC,0x0025D2C3,0x0025D2BA],
    [0x0025D2B1,0x0025D2A8,0x0025D29F,0x0025D296,0x0025D28D,0x0025D284,0x0025D27B,0x0025D272,0x0025D269,0x0025D260],
    [0x0025D257,0x0025D24E,0x0025D245,0x0025D23C,0x0025D233,0x0025D22A,0x0025D221,0x0025D218,0x0025D20F,0x0025D206],
    [0x0019D113,0x0025D1FD,0x0025D1F4,0x0025D1EB,0x0025D1E2,0x0025D1D9,0x0025D1D0,0x0025D1C7,0x0025D1BE,0x0025D1B5],
    [0x0025D1AC,0x0025D1A3,0x0025D19A,0x0025D191,0x0025D188,0x0025D17F,0x0025D176,0x0025D16D,0x0025D164,0x0025D15B],
    [0x0025D152,0x0025D149,0x0025D140,0x0025D137,0x0025D12E,0x0025D125,0x0025D11C,0x0025D113,0x80008448,0x81008449],
    [0x8200844A,0x8300844B,0x8400844C,0x8500844D,0x8600844E,0x8700844F,0x88008450,0x89008451,0x8A008452,0x8B008453],
    [0x8C008454,0x8D008455,0x8E008456,0x8F008457,0x90008458,0x91008459,0x9200845A,0x9300845B,0x9400845C,0x9500845D],
    [0x9600845E,0x9700845F,0x98008460,0x99008461,0x9A008462,0x9B008463,0x9C008464,0x9D008465,0x9E008466,0x9F008467],
    [0xA0008468,0xA1008469,0xA200846A,0xA300846B,0xA400846C,0xA500846D,0xA600846E,0xA700846F,0xA8008470,0xA9008471],
    [0xAA008472,0xAB008473,0xAC008474,0xAD008475,0xAE008476,0xAF008477,0xB0008478,0xB1008479,0xB200847A,0xB300847B],
    [0xB400847C,0xB500847D,0xB600847E,0xB700847F,0xB8008480,0xB9008481,0xBA008482,0xBB008483,0xBC008484,0xBD008485],
    [0xBE008486,0xBF008487,0x0019D020,0x0025D10A,0x0025D101,0x0025D0F8,0x0025D0EF,0x0025D0E6,0x0025D0DD,0x0025D0D4],
    [0x0025D0CB,0x0025D0C2,0x0025D0B9,0x0025D0B0,0x0025D0A7,0x0025D09E,0x0025D095,0x0025D08C,0x0025D083,0x0025D07A],
    [0x0025D071,0x0025D068,0x0025D05F,0x0025D056,0x0025D04D,0x0025D044,0x0025D03B,0x0025D032,0x0025D029,0x0025D020],
    [0x0019CF2D,0x0025D017,0x0025D00E,0x0025D005,0x0025CFFC,0x0025CFF3,0x0025CFEA,0x0025CFE1,0x0025CFD8,0x0025CFCF],
    [0x0025CFC6,0x0025CFBD,0x0025CFB4,0x0025CFAB,0x0025CFA2,0x0025CF99,0x0025CF90,0x0025CF87,0x0025CF7E,0x0025CF75],
    [0x0025CF6C,0x0025CF63,0x0025CF5A,0x0025CF51,0x0025CF48,0x0025CF3F,0x0025CF36,0x0025CF2D,0x0019CE3A,0x0025CF24],
    [0x0025CF1B,0x0025CF12,0x0025CF09,0x0025CF00,0x0025CEF7,0x0025CEEE,0x800084C8,0x810084C9,0x820084CA,0x830084CB],
    [0x840084CC,0x850084CD,0x860084CE,0x870084CF,0x880084D0,0x890084D1,0x8A0084D2,0x8B0084D3,0x8C0084D4,0x8D0084D5],
    [0x8E0084D6,0x8F0084D7,0x900084D8,0x910084D9,0x920084DA,0x930084DB,0x940084DC,0x950084DD,0x960084DE,0x970084DF],
    [0x980084E0,0x990084E1,0x9A0084E2,0x9B0084E3,0x9C0084E4,0x9D0084E5,0x9E0084E6,0x9F0084E7,0xA00084E8,0xA10084E9],
    [0xA20084EA,0xA30084EB,0xA40084EC,0xA50084ED,0xA60084EE,0xA70084EF,0xA80084F0,0xA90084F1,0xAA0084F2,0xAB0084F3],
    [0xAC0084F4,0xAD0084F5,0xAE0084F6,0xAF0084F7,0xB00084F8,0xB10084F9,0xB20084FA,0xB30084FB,0xB40084FC,0xB50084FD],
    [0xB60084FE,0xB70084FF,0xB8008500,0xB9008501,0xBA008502,0xBB008503,0xBC008504,0xBD008505,0xBE008506,0xBF008507],
    [0x0025CEE5,0x0025CEDC,0x0025CED3,0x0025CECA,0x0025CEC1,0x0025CEB8,0x0025CEAF,0x0025CEA6,0x0025CE9D,0x0025CE94],
    [0x0025CE8B,0x0025CE82,0x0025CE79,0x0025CE70,0x0025CE67,0x0025CE5E,0x0025CE55,0x0025CE4C,0x0025CE43,0x0025CE3A],
    [0x0019CD47,0x0025CE31,0x0025CE28,0x0025CE1F,0x0025CE16,0x0025CE0D,0x0025CE04,0x0025CDFB,0x0025CDF2,0x0025CDE9],
    [0x0025CDE0,0x0025CDD7,0x0025CDCE,0x0025CDC5,0x0025CDBC,0x0025CDB3,0x0025CDAA,0x0025CDA1,0x0025CD98,0x0025CD8F],
    [0x0025CD86,0x0025CD7D,0x0025CD74,0x0025CD6B,0x0025CD62,0x0025CD59,0x0025CD50,0x0025CD47,0x0019CC54,0x0025CD3E],
    [0x0025CD35,0x0025CD2C,0x0025CD23,0x0025CD1A,0x0025CD11,0x0025CD08,0x0025CCFF,0x0025CCF6,0x0025CCED,0x0025CCE4],
    [0x0025CCDB,0x0025CCD2,0x0025CCC9,0x0025CCC0,0x80008548,0x81008549,0x8200854A,0x8300854B,0x8400854C,0x8500854D],
    [0x8600854E,0x8700854F,0x88008550,0x89008551,0x8A008552,0x8B008553,0x8C008554,0x8D008555,0x8E008556,0x8F008557],
    [0x90008558,0x91008559,0x9200855A,0x9300855B,0x9400855C,0x9500855D,0x9600855E,0x9700855F,0x98008560,0x99008561],
    [0x9A008562,0x9B008563,0x9C008564,0x9D008565,0x9E008566,0x9F008567,0xA0008568,0xA1008569,0xA200856A,0xA300856B],
    [0xA400856C,0xA500856D,0xA600856E,0xA700856F,0xA8008570,0xA9008571,0xAA008572,0xAB008573,0xAC008574,0xAD008575],
    [0xAE008576,0xAF008577,0xB0008578,0xB1008579,0xB200857A,0xB300857B,0xB400857C,0xB500857D,0xB600857E,0xB700857F],
    [0xB8008580,0xB9008581,0xBA008582,0xBB008583,0xBC008584,0xBD008585,0xBE008586,0xBF008587,0x0025CCB7,0x0025CCAE],
    [0x0025CCA5,0x0025CC9C,0x0025CC93,0x0025CC8A,0x0025CC81,0x0025CC78,0x0025CC6F,0x0025CC66,0x0025CC5D,0x0025CC54],
    [0x0019CB61,0x0025CC4B,0x0025CC42,0x0025CC39,0x0025CC30,0x0025CC27,0x0025CC1E,0x0025CC15,0x0025CC0C,0x0025CC03],
    [0x0025CBFA,0x0025CBF1,0x0025CBE8,0x0025CBDF,0x0025CBD6,0x0025CBCD,0x0025CBC4,0x0025CBBB,0x0025CBB2,0x0025CBA9],
    [0x0025CBA0,0x0025CB97,0x0025CB8E,0x0025CB85,0x0025CB7C,0x0025CB73,0x0025CB6A,0x0025CB61,0x0019CA6E,0x0025CB58],
    [0x0025CB4F,0x0025CB46,0x0025CB3D,0x0025CB34,0x0025CB2B,0x0025CB22,0x0025CB19,0x0025CB10,0x0025CB07,0x0025CAFE],
    [0x0025CAF5,0x0025CAEC,0x0025CAE3,0x0025CADA,0x0025CAD1,0x0025CAC8,0x0025CABF,0x0025CAB6,0x0025CAAD,0x0025CAA4],
    [0x0025CA9B,0x0025CA92,0x800085C8,0x810085C9,0x820085CA,0x830085CB,0x840085CC,0x850085CD,0x860085CE,0x870085CF],
    [0x880085D0,0x890085D1,0x8A0085D2,0x8B0085D3,0x8C0085D4,0x8D0085D5,0x8E0085D6,0x8F0085D7,0x900085D8,0x910085D9],
    [0x920085DA,0x930085DB,0x940085DC,0x950085DD,0x960085DE,0x970085DF,0x980085E0,0x990085E1,0x9A0085E2,0x9B0085E3],
    [0x9C0085E4,0x9D0085E5,0x9E0085E6,0x9F0085E7,0xA00085E8,0xA10085E9,0xA20085EA,0xA30085EB,0xA40085EC,0xA50085ED],
    [0xA60085EE,0xA70085EF,0xA80085F0,0xA90085F1,0xAA0085F2,0xAB0085F3,0xAC0085F4,0xAD0085F5,0xAE0085F6,0xAF0085F7],
    [0xB00085F8,0xB10085F9,0xB20085FA,0xB30085FB,0xB40085FC,0xB50085FD,0xB60085FE,0xB70085FF,0xB8008600,0xB9008601],
    [0xBA008602,0xBB008603,0xBC008604,0xBD008605,0xBE008606,0xBF008607,0x0025CA89,0x0025CA80,0x0025CA77,0x0025CA6E],
    [0x0019C97B,0x0025CA65,0x0025CA5C,0x0025CA53,0x0025CA4A,0x0025CA41,0x0025CA38,0x0025CA2F,0x0025CA26,0x0025CA1D],
    [0x0025CA14,0x0025CA0B,0x0025CA02,0x0025C9F9,0x0025C9F0,0x0025C9E7,0x0025C9DE,0x0025C9D5,0x0025C9CC,0x0025C9C3],
    [0x0025C9BA,0x0025C9B1,0x0025C9A8,0x0025C99F,0x0025C996,0x0025C98D,0x0025C984,0x0025C97B,0x0019C888,0x0025C972],
    [0x0025C969,0x0025C960,0x0025C957,0x0025C94E,0x0025C945,0x0025C93C,0x0025C933,0x0025C92A,0x0025C921,0x0025C918],
    [0x0025C90F,0x0025C906,0x0025C8FD,0x0025C8F4,0x0025C8EB,0x0025C8E2,0x0025C8D9,0x0025C8D0,0x0025C8C7,0x0025C8BE],
    [0x0025C8B5,0x0025C8AC,0x0025C8A3,0x0025C89A,0x0025C891,0x0025C888,0x0019C795,0x0025C87F,0x0025C876,0x0025C86D],
    [0x80008648,0x81008649,0x8200864A,0x8300864B,0x8400864C,0x8500864D,0x8600864E,0x8700864F,0x88008650,0x89008651],
    [0x8A008652,0x8B008653,0x8C008654,0x8D008655,0x8E008656,0x8F008657,0x90008658,0x91008659,0x9200865A,0x9300865B],
    [0x9400865C,0x9500865D,0x9600865E,0x9700865F,0x98008660,0x99008661,0x9A008662,0x9B008663,0x9C008664,0x9D008665],
    [0x9E008666,0x9F008667,0xA0008668,0xA1008669,0xA200866A,0xA300866B,0xA400866C,0xA500866D,0xA600866E,0xA700866F],
    [0xA8008670,0xA9008671,0xAA008672,0xAB008673,0xAC008674,0xAD008675,0xAE008676,0xAF008677,0xB0008678,0xB1008679],
    [0xB200867A,0xB300867B,0xB400867C,0xB500867D,0xB600867E,0xB700867F,0xB8008680,0xB9008681,0xBA008682,0xBB008683],
    [0xBC008684,0xBD008685,0xBE008686,0xBF008687,0x0025C864,0x0025C85B,0x0025C852,0x0025C849,0x0025C840,0x0025C837],
    [0x0025C82E,0x0025C825,0x0025C81C,0x0025C813,0x0025C80A,0x0025C801,0x0025C7F8,0x0025C7EF,0x0025C7E6,0x0025C7DD],
    [0x0025C7D4,0x0025C7CB,0x0025C7C2,0x0025C7B9,0x0025C7B0,0x0025C7A7,0x0025C79E,0x0025C795,0x0019C6A2,0x0025C78C],
    [0x0025C783,0x0025C77A,0x0025C771,0x0025C768,0x0025C75F,0x0025C756,0x0025C74D,0x0025C744,0x0025C73B,0x0025C732],
    [0x0025C729,0x0025C720,0x0025C717,0x0025C70E,0x0025C705,0x0025C6FC,0x0025C6F3,0x0025C6EA,0x0025C6E1,0x0025C6D8],
    [0x0025C6CF,0x0025C6C6,0x0025C6BD,0x0025C6B4,0x0025C6AB,0x0025C6A2,0x0019C5AF,0x0025C699,0x0025C690,0x0025C687]]"

definition NODES_24 :: "nat list list" where
  "NODES_24 = [
    [0x0025C67E,0x0025C675,0x0025C66C,0x0025C663,0x0025C65A,0x0025C651,0x0025C648,0x0025C63F,0x800086C8,0x810086C9],
    [0x820086CA,0x830086CB,0x840086CC,0x850086CD,0x860086CE,0x870086CF,0x880086D0,0x890086D1,0x8A0086D2,0x8B0086D3],
    [0x8C0086D4,0x8D0086D5,0x8E0086D6,0x8F0086D7,0x900086D8,0x910086D9,0x920086DA,0x930086DB,0x940086DC,0x950086DD],
    [0x960086DE,0x970086DF,0x980086E0,0x990086E1,0x9A0086E2,0x9B0086E3,0x9C0086E4,0x9D0086E5,0x9E0086E6,0x9F0086E7],
    [0xA00086E8,0xA10086E9,0xA20086EA,0xA30086EB,0xA40086EC,0xA50086ED,0xA60086EE,0xA70086EF,0xA80086F0,0xA90086F1],
    [0xAA0086F2,0xAB0086F3,0xAC0086F4,0xAD0086F5,0xAE0086F6,0xAF0086F7,0xB00086F8,0xB10086F9,0xB20086FA,0xB30086FB],
    [0xB40086FC,0xB50086FD,0xB60086FE,0xB70086FF,0xB8008700,0xB9008701,0xBA008702,0xBB008703,0xBC008704,0xBD008705],
    [0xBE008706,0xBF008707,0x0025C636,0x0025C62D,0x0025C624,0x0025C61B,0x0025C612,0x0025C609,0x0025C600,0x0025C5F7],
    [0x0025C5EE,0x0025C5E5,0x0025C5DC,0x0025C5D3,0x0025C5CA,0x0025C5C1,0x0025C5B8,0x0025C5AF,0x0019C4BC,0x0025C5A6],
    [0x0025C59D,0x0025C594,0x0025C58B,0x0025C582,0x0025C579,0x0025C570,0x0025C567,0x0025C55E,0x0025C555,0x0025C54C],
    [0x0025C543,0x0025C53A,0x0025C531,0x0025C528,0x0025C51F,0x0025C516,0x0025C50D,0x0025C504,0x0025C4FB,0x0025C4F2],
    [0x0025C4E9,0x0025C4E0,0x0025C4D7,0x0025C4CE,0x0025C4C5,0x0025C4BC,0x0019C3C9,0x0025C4B3,0x0025C4AA,0x0025C4A1],
    [0x0025C498,0x0025C48F,0x0025C486,0x0025C47D,0x0025C474,0x0025C46B,0x0025C462,0x0025C459,0x0025C450,0x0025C447],
    [0x0025C43E,0x0025C435,0x0025C42C,0x0025C423,0x0025C41A,0x0025C411,0x80008748,0x81008749,0x8200874A,0x8300874B],
    [0x8400874C,0x8500874D,0x8600874E,0x8700874F,0x88008750,0x89008751,0x8A008752,0x8B008753,0x8C008754,0x8D008755],
    [0x8E008756,0x8F008757,0x90008758,0x91008759,0x9200875A,0x9300875B,0x9400875C,0x9500875D,0x9600875E,0x9700875F],
    [0x98008760,0x99008761,0x9A008762,0x9B008763,0x9C008764,0x9D008765,0x9E008766,0x9F008767,0xA0008768,0xA1008769],
    [0xA200876A,0xA300876B,0xA400876C,0xA500876D,0xA600876E,0xA700876F,0xA8008770,0xA9008771,0xAA008772,0xAB008773],
    [0xAC008774,0xAD008775,0xAE008776,0xAF008777,0xB0008778,0xB1008779,0xB200877A,0xB300877B,0xB400877C,0xB500877D],
    [0xB600877E,0xB700877F,0xB8008780,0xB9008781,0xBA008782,0xBB008783,0xBC008784,0xBD008785,0xBE008786,0xBF008787],
    [0x0025C408,0x0025C3FF,0x0025C3F6,0x0025C3ED,0x0025C3E4,0x0025C3DB,0x0025C3D2,0x0025C3C9,0x0019C2D6,0x0025C3C0],
    [0x0025C3B7,0x0025C3AE,0x0025C3A5,0x0025C39C,0x0025C393,0x0025C38A,0x0025C381,0x0025C378,0x0025C36F,0x0025C366],
    [0x0025C35D,0x0025C354,0x0025C34B,0x0025C342,0x0025C339,0x0025C330,0x0025C327,0x0025C31E,0x0025C315,0x0025C30C],
    [0x0025C303,0x0025C2FA,0x0025C2F1,0x0025C2E8,0x0025C2DF,0x0025C2D6,0x0019C1E3,0x0025C2CD,0x0025C2C4,0x0025C2BB],
    [0x0025C2B2,0x0025C2A9,0x0025C2A0,0x0025C297,0x0025C28E,0x0025C285,0x0025C27C,0x0025C273,0x0025C26A,0x0025C261],
    [0x0025C258,0x0025C24F,0x0025C246,0x0025C23D,0x0025C234,0x0025C22B,0x0025C222,0x0025C219,0x0025C210,0x0025C207],
    [0x0025C1FE,0x0025C1F5,0x0025C1EC,0x0025C1E3,0x800087C8,0x810087C9,0x820087CA,0x830087CB,0x840087CC,0x850087CD],
    [0x860087CE,0x870087CF,0x880087D0,0x890087D1,0x8A0087D2,0x8B0087D3,0x8C0087D4,0x8D0087D5,0x8E0087D6,0x8F0087D7],
    [0x900087D8,0x910087D9,0x920087DA,0x930087DB,0x940087DC,0x950087DD,0x960087DE,0x970087DF,0x980087E0,0x990087E1],
    [0x9A0087E2,0x9B0087E3,0x9C0087E4,0x9D0087E5,0x9E0087E6,0x9F0087E7,0xA00087E8,0xA10087E9,0xA20087EA,0xA30087EB],
    [0xA40087EC,0xA50087ED,0xA60087EE,0xA70087EF,0xA80087F0,0xA90087F1,0xAA0087F2,0xAB0087F3,0xAC0087F4,0xAD0087F5],
    [0xAE0087F6,0xAF0087F7,0xB00087F8,0xB10087F9,0xB20087FA,0xB30087FB,0xB40087FC,0xB50087FD,0xB60087FE,0xB70087FF],
    [0xB8008800,0xB9008801,0xBA008802,0xBB008803,0xBC008804,0xBD008805,0xBE008806,0xBF008807,0x0019C0F0,0x0025C1DA],
    [0x0025C1D1,0x0025C1C8,0x0025C1BF,0x0025C1B6,0x0025C1AD,0x0025C1A4,0x0025C19B,0x0025C192,0x0025C189,0x0025C180],
    [0x0025C177,0x0025C16E,0x0025C165,0x0025C15C,0x0025C153,0x0025C14A,0x0025C141,0x0025C138,0x0025C12F,0x0025C126],
    [0x0025C11D,0x0025C114,0x0025C10B,0x0025C102,0x0025C0F9,0x0025C0F0,0x0019BFFD,0x0025C0E7,0x0025C0DE,0x0025C0D5],
    [0x0025C0CC,0x0025C0C3,0x0025C0BA,0x0025C0B1,0x0025C0A8,0x0025C09F,0x0025C096,0x0025C08D,0x0025C084,0x0025C07B],
    [0x0025C072,0x0025C069,0x0025C060,0x0025C057,0x0025C04E,0x0025C045,0x0025C03C,0x0025C033,0x0025C02A,0x0025C021],
    [0x0025C018,0x0025C00F,0x0025C006,0x0025BFFD,0x0019BF0A,0x0025BFF4,0x0025BFEB,0x0025BFE2,0x0025BFD9,0x0025BFD0],
    [0x0025BFC7,0x0025BFBE,0x80008848,0x81008849,0x8200884A,0x8300884B,0x8400884C,0x8500884D,0x8600884E,0x8700884F],
    [0x88008850,0x89008851,0x8A008852,0x8B008853,0x8C008854,0x8D008855,0x8E008856,0x8F008857,0x90008858,0x91008859],
    [0x9200885A,0x9300885B,0x9400885C,0x9500885D,0x9600885E,0x9700885F,0x98008860,0x99008861,0x9A008862,0x9B008863],
    [0x9C008864,0x9D008865,0x9E008866,0x9F008867,0xA0008868,0xA1008869,0xA200886A,0xA300886B,0xA400886C,0xA500886D],
    [0xA600886E,0xA700886F,0xA8008870,0xA9008871,0xAA008872,0xAB008873,0xAC008874,0xAD008875,0xAE008876,0xAF008877],
    [0xB0008878,0xB1008879,0xB200887A,0xB300887B,0xB400887C,0xB500887D,0xB600887E,0xB700887F,0xB8008880,0xB9008881],
    [0xBA008882,0xBB008883,0xBC008884,0xBD008885,0xBE008886,0xBF008887,0x0025BFB5,0x0025BFAC,0x0025BFA3,0x0025BF9A],
    [0x0025BF91,0x0025BF88,0x0025BF7F,0x0025BF76,0x0025BF6D,0x0025BF64,0x0025BF5B,0x0025BF52,0x0025BF49,0x0025BF40],
    [0x0025BF37,0x0025BF2E,0x0025BF25,0x0025BF1C,0x0025BF13,0x0025BF0A,0x0019BE17,0x0025BF01,0x0025BEF8,0x0025BEEF],
    [0x0025BEE6,0x0025BEDD,0x0025BED4,0x0025BECB,0x0025BEC2,0x0025BEB9,0x0025BEB0,0x0025BEA7,0x0025BE9E,0x0025BE95],
    [0x0025BE8C,0x0025BE83,0x0025BE7A,0x0025BE71,0x0025BE68,0x0025BE5F,0x0025BE56,0x0025BE4D,0x0025BE44,0x0025BE3B],
    [0x0025BE32,0x0025BE29,0x0025BE20,0x0025BE17,0x0019BD24,0x0025BE0E,0x0025BE05,0x0025BDFC,0x0025BDF3,0x0025BDEA],
    [0x0025BDE1,0x0025BDD8,0x0025BDCF,0x0025BDC6,0x0025BDBD,0x0025BDB4,0x0025BDAB,0x0025BDA2,0x0025BD99,0x0025BD90],
    [0x800088C8,0x810088C9,0x820088CA,0x830088CB,0x840088CC,0x850088CD,0x860088CE,0x870088CF,0x880088D0,0x890088D1],
    [0x8A0088D2,0x8B0088D3,0x8C0088D4,0x8D0088D5,0x8E0088D6,0x8F0088D7,0x900088D8,0x910088D9,0x920088DA,0x930088DB],
    [0x940088DC,0x950088DD,0x960088DE,0x970088DF,0x980088E0,0x990088E1,0x9A0088E2,0x9B0088E3,0x9C0088E4,0x9D0088E5],
    [0x9E0088E6,0x9F0088E7,0xA00088E8,0xA10088E9,0xA20088EA,0xA30088EB,0xA40088EC,0xA50088ED,0xA60088EE,0xA70088EF],
    [0xA80088F0,0xA90088F1,0xAA0088F2,0xAB0088F3,0xAC0088F4,0xAD0088F5,0xAE0088F6,0xAF0088F7,0xB00088F8,0xB10088F9],
    [0xB20088FA,0xB30088FB,0xB40088FC,0xB50088FD,0xB60088FE,0xB70088FF,0xB8008900,0xB9008901,0xBA008902,0xBB008903],
    [0xBC008904,0xBD008905,0xBE008906,0xBF008907,0x0025BD87,0x0025BD7E,0x0025BD75,0x0025BD6C,0x0025BD63,0x0025BD5A],
    [0x0025BD51,0x0025BD48,0x0025BD3F,0x0025BD36,0x0025BD2D,0x0025BD24,0x0019BC31,0x0025BD1B,0x0025BD12,0x0025BD09],
    [0x0025BD00,0x0025BCF7,0x0025BCEE,0x0025BCE5,0x0025BCDC,0x0025BCD3,0x0025BCCA,0x0025BCC1,0x0025BCB8,0x0025BCAF],
    [0x0025BCA6,0x0025BC9D,0x0025BC94,0x0025BC8B,0x0025BC82,0x0025BC79,0x0025BC70,0x0025BC67,0x0025BC5E,0x0025BC55],
    [0x0025BC4C,0x0025BC43,0x0025BC3A,0x0025BC31,0x0019BB3E,0x0025BC28,0x0025BC1F,0x0025BC16,0x0025BC0D,0x0025BC04],
    [0x0025BBFB,0x0025BBF2,0x0025BBE9,0x0025BBE0,0x0025BBD7,0x0025BBCE,0x0025BBC5,0x0025BBBC,0x0025BBB3,0x0025BBAA],
    [0x0025BBA1,0x0025BB98,0x0025BB8F,0x0025BB86,0x0025BB7D,0x0025BB74,0x0025BB6B,0x0025BB62,0x80008948,0x81008949],
    [0x8200894A,0x8300894B,0x8400894C,0x8500894D,0x8600894E,0x8700894F,0x88008950,0x89008951,0x8A008952,0x8B008953],
    [0x8C008954,0x8D008955,0x8E008956,0x8F008957,0x90008958,0x91008959,0x9200895A,0x9300895B,0x9400895C,0x9500895D],
    [0x9600895E,0x9700895F,0x98008960,0x99008961,0x9A008962,0x9B008963,0x9C008964,0x9D008965,0x9E008966,0x9F008967],
    [0xA0008968,0xA1008969,0xA200896A,0xA300896B,0xA400896C,0xA500896D,0xA600896E,0xA700896F,0xA8008970,0xA9008971],
    [0xAA008972,0xAB008973,0xAC008974,0xAD008975,0xAE008976,0xAF008977,0xB0008978,0xB1008979,0xB200897A,0xB300897B],
    [0xB400897C,0xB500897D,0xB600897E,0xB700897F,0xB8008980,0xB9008981,0xBA008982,0xBB008983,0xBC008984,0xBD008985],
    [0xBE008986,0xBF008987,0x0025BB59,0x0025BB50,0x0025BB47,0x0025BB3E,0x0019BA4B,0x0025BB35,0x0025BB2C,0x0025BB23],
    [0x0025BB1A,0x0025BB11,0x0025BB08,0x0025BAFF,0x0025BAF6,0x0025BAED,0x0025BAE4,0x0025BADB,0x0025BAD2,0x0025BAC9],
    [0x0025BAC0,0x0025BAB7,0x0025BAAE,0x0025BAA5,0x0025BA9C,0x0025BA93,0x0025BA8A,0x0025BA81,0x0025BA78,0x0025BA6F],
    [0x0025BA66,0x0025BA5D,0x0025BA54,0x0025BA4B,0x0019B958,0x0025BA42,0x0025BA39,0x0025BA30,0x0025BA27,0x0025BA1E],
    [0x0025BA15,0x0025BA0C,0x0025BA03,0x0025B9FA,0x0025B9F1,0x0025B9E8,0x0025B9DF,0x0025B9D6,0x0025B9CD,0x0025B9C4],
    [0x0025B9BB,0x0025B9B2,0x0025B9A9,0x0025B9A0,0x0025B997,0x0025B98E,0x0025B985,0x0025B97C,0x0025B973,0x0025B96A],
    [0x0025B961,0x0025B958,0x0019B865,0x0025B94F,0x0025B946,0x0025B93D,0x800089C8,0x810089C9,0x820089CA,0x830089CB],
    [0x840089CC,0x850089CD,0x860089CE,0x870089CF,0x880089D0,0x890089D1,0x8A0089D2,0x8B0089D3,0x8C0089D4,0x8D0089D5],
    [0x8E0089D6,0x8F0089D7,0x900089D8,0x910089D9,0x920089DA,0x930089DB,0x940089DC,0x950089DD,0x960089DE,0x970089DF],
    [0x980089E0,0x990089E1,0x9A0089E2,0x9B0089E3,0x9C0089E4,0x9D0089E5,0x9E0089E6,0x9F0089E7,0xA00089E8,0xA10089E9],
    [0xA20089EA,0xA30089EB,0xA40089EC,0xA50089ED,0xA60089EE,0xA70089EF,0xA80089F0,0xA90089F1,0xAA0089F2,0xAB0089F3],
    [0xAC0089F4,0xAD0089F5,0xAE0089F6,0xAF0089F7,0xB00089F8,0xB10089F9,0xB20089FA,0xB30089FB,0xB40089FC,0xB50089FD],
    [0xB60089FE,0xB70089FF,0xB8008A00,0xB9008A01,0xBA008A02,0xBB008A03,0xBC008A04,0xBD008A05,0xBE008A06,0xBF008A07],
    [0x0025B934,0x0025B92B,0x0025B922,0x0025B919,0x0025B910,0x0025B907,0x0025B8FE,0x0025B8F5,0x0025B8EC,0x0025B8E3],
    [0x0025B8DA,0x0025B8D1,0x0025B8C8,0x0025B8BF,0x0025B8B6,0x0025B8AD,0x0025B8A4,0x0025B89B,0x0025B892,0x0025B889],
    [0x0025B880,0x0025B877,0x0025B86E,0x0025B865,0x0019B772,0x0025B85C,0x0025B853,0x0025B84A,0x0025B841,0x0025B838],
    [0x0025B82F,0x0025B826,0x0025B81D,0x0025B814,0x0025B80B,0x0025B802,0x0025B7F9,0x0025B7F0,0x0025B7E7,0x0025B7DE],
    [0x0025B7D5,0x0025B7CC,0x0025B7C3,0x0025B7BA,0x0025B7B1,0x0025B7A8,0x0025B79F,0x0025B796,0x0025B78D,0x0025B784],
    [0x0025B77B,0x0025B772,0x0019B67F,0x0025B769,0x0025B760,0x0025B757,0x0025B74E,0x0025B745,0x0025B73C,0x0025B733],
    [0x0025B72A,0x0025B721,0x0025B718,0x0025B70F,0x80008A48,0x81008A49,0x82008A4A,0x83008A4B,0x84008A4C,0x85008A4D],
    [0x86008A4E,0x87008A4F,0x88008A50,0x89008A51,0x8A008A52,0x8B008A53,0x8C008A54,0x8D008A55,0x8E008A56,0x8F008A57],
    [0x90008A58,0x91008A59,0x92008A5A,0x93008A5B,0x94008A5C,0x95008A5D,0x96008A5E,0x97008A5F,0x98008A60,0x99008A61],
    [0x9A008A62,0x9B008A63,0x9C008A64,0x9D008A65,0x9E008A66,0x9F008A67,0xA0008A68,0xA1008A69,0xA2008A6A,0xA3008A6B],
    [0xA4008A6C,0xA5008A6D,0xA6008A6E,0xA7008A6F,0xA8008A70,0xA9008A71,0xAA008A72,0xAB008A73,0xAC008A74,0xAD008A75],
    [0xAE008A76,0xAF008A77,0xB0008A78,0xB1008A79,0xB2008A7A,0xB3008A7B,0xB4008A7C,0xB5008A7D,0xB6008A7E,0xB7008A7F],
    [0xB8008A80,0xB9008A81,0xBA008A82,0xBB008A83,0xBC008A84,0xBD008A85,0xBE008A86,0xBF008A87,0x0025B706,0x0025B6FD],
    [0x0025B6F4,0x0025B6EB,0x0025B6E2,0x0025B6D9,0x0025B6D0,0x0025B6C7,0x0025B6BE,0x0025B6B5,0x0025B6AC,0x0025B6A3],
    [0x0025B69A,0x0025B691,0x0025B688,0x0025B67F,0x0019B58C,0x0025B676,0x0025B66D,0x0025B664,0x0025B65B,0x0025B652],
    [0x0025B649,0x0025B640,0x0025B637,0x0025B62E,0x0025B625,0x0025B61C,0x0025B613,0x0025B60A,0x0025B601,0x0025B5F8],
    [0x0025B5EF,0x0025B5E6,0x0025B5DD,0x0025B5D4,0x0025B5CB,0x0025B5C2,0x0025B5B9,0x0025B5B0,0x0025B5A7,0x0025B59E],
    [0x0025B595,0x0025B58C,0x0019B499,0x0025B583,0x0025B57A,0x0025B571,0x0025B568,0x0025B55F,0x0025B556,0x0025B54D],
    [0x0025B544,0x0025B53B,0x0025B532,0x0025B529,0x0025B520,0x0025B517,0x0025B50E,0x0025B505,0x0025B4FC,0x0025B4F3],
    [0x0025B4EA,0x0025B4E1,0x80008AC8,0x81008AC9,0x82008ACA,0x83008ACB,0x84008ACC,0x85008ACD,0x86008ACE,0x87008ACF],
    [0x88008AD0,0x89008AD1,0x8A008AD2,0x8B008AD3,0x8C008AD4,0x8D008AD5,0x8E008AD6,0x8F008AD7,0x90008AD8,0x91008AD9],
    [0x92008ADA,0x93008ADB,0x94008ADC,0x95008ADD,0x96008ADE,0x97008ADF,0x98008AE0,0x99008AE1,0x9A008AE2,0x9B008AE3],
    [0x9C008AE4,0x9D008AE5,0x9E008AE6,0x9F008AE7,0xA0008AE8,0xA1008AE9,0xA2008AEA,0xA3008AEB,0xA4008AEC,0xA5008AED],
    [0xA6008AEE,0xA7008AEF,0xA8008AF0,0xA9008AF1,0xAA008AF2,0xAB008AF3,0xAC008AF4,0xAD008AF5,0xAE008AF6,0xAF008AF7],
    [0xB0008AF8,0xB1008AF9,0xB2008AFA,0xB3008AFB,0xB4008AFC,0xB5008AFD,0xB6008AFE,0xB7008AFF,0xB8008B00,0xB9008B01],
    [0xBA008B02,0xBB008B03,0xBC008B04,0xBD008B05,0xBE008B06,0xBF008B07,0x0025B4D8,0x0025B4CF,0x0025B4C6,0x0025B4BD],
    [0x0025B4B4,0x0025B4AB,0x0025B4A2,0x0025B499,0x0019B3A6,0x0025B490,0x0025B487,0x0025B47E,0x0025B475,0x0025B46C],
    [0x0025B463,0x0025B45A,0x0025B451,0x0025B448,0x0025B43F,0x0025B436,0x0025B42D,0x0025B424,0x0025B41B,0x0025B412],
    [0x0025B409,0x0025B400,0x0025B3F7,0x0025B3EE,0x0025B3E5,0x0025B3DC,0x0025B3D3,0x0025B3CA,0x0025B3C1,0x0025B3B8],
    [0x0025B3AF,0x0025B3A6,0x0019B2B3,0x0025B39D,0x0025B394,0x0025B38B,0x0025B382,0x0025B379,0x0025B370,0x0025B367],
    [0x0025B35E,0x0025B355,0x0025B34C,0x0025B343,0x0025B33A,0x0025B331,0x0025B328,0x0025B31F,0x0025B316,0x0025B30D],
    [0x0025B304,0x0025B2FB,0x0025B2F2,0x0025B2E9,0x0025B2E0,0x0025B2D7,0x0025B2CE,0x0025B2C5,0x0025B2BC,0x0025B2B3],
    [0x80008B48,0x81008B49,0x82008B4A,0x83008B4B,0x84008B4C,0x85008B4D,0x86008B4E,0x87008B4F,0x88008B50,0x89008B51],
    [0x8A008B52,0x8B008B53,0x8C008B54,0x8D008B55,0x8E008B56,0x8F008B57,0x90008B58,0x91008B59,0x92008B5A,0x93008B5B],
    [0x94008B5C,0x95008B5D,0x96008B5E,0x97008B5F,0x98008B60,0x99008B61,0x9A008B62,0x9B008B63,0x9C008B64,0x9D008B65],
    [0x9E008B66,0x9F008B67,0xA0008B68,0xA1008B69,0xA2008B6A,0xA3008B6B,0xA4008B6C,0xA5008B6D,0xA6008B6E,0xA7008B6F],
    [0xA8008B70,0xA9008B71,0xAA008B72,0xAB008B73,0xAC008B74,0xAD008B75,0xAE008B76,0xAF008B77,0xB0008B78,0xB1008B79],
    [0xB2008B7A,0xB3008B7B,0xB4008B7C,0xB5008B7D,0xB6008B7E,0xB7008B7F,0xB8008B80,0xB9008B81,0xBA008B82,0xBB008B83],
    [0xBC008B84,0xBD008B85,0xBE008B86,0xBF008B87,0x0019B1C0,0x0025B2AA,0x0025B2A1,0x0025B298,0x0025B28F,0x0025B286],
    [0x0025B27D,0x0025B274,0x0025B26B,0x0025B262,0x0025B259,0x0025B250,0x0025B247,0x0025B23E,0x0025B235,0x0025B22C],
    [0x0025B223,0x0025B21A,0x0025B211,0x0025B208,0x0025B1FF,0x0025B1F6,0x0025B1ED,0x0025B1E4,0x0025B1DB,0x0025B1D2],
    [0x0025B1C9,0x0025B1C0,0x0019B0CD,0x0025B1B7,0x0025B1AE,0x0025B1A5,0x0025B19C,0x0025B193,0x0025B18A,0x0025B181],
    [0x0025B178,0x0025B16F,0x0025B166,0x0025B15D,0x0025B154,0x0025B14B,0x0025B142,0x0025B139,0x0025B130,0x0025B127],
    [0x0025B11E,0x0025B115,0x0025B10C,0x0025B103,0x0025B0FA,0x0025B0F1,0x0025B0E8,0x0025B0DF,0x0025B0D6,0x0025B0CD],
    [0x0019AFDA,0x0025B0C4,0x0025B0BB,0x0025B0B2,0x0025B0A9,0x0025B0A0,0x0025B097,0x0025B08E,0x80008BC8,0x81008BC9],
    [0x82008BCA,0x83008BCB,0x84008BCC,0x85008BCD,0x86008BCE,0x87008BCF,0x88008BD0,0x89008BD1,0x8A008BD2,0x8B008BD3],
    [0x8C008BD4,0x8D008BD5,0x8E008BD6,0x8F008BD7,0x90008BD8,0x91008BD9,0x92008BDA,0x93008BDB,0x94008BDC,0x95008BDD],
    [0x96008BDE,0x97008BDF,0x98008BE0,0x99008BE1,0x9A008BE2,0x9B008BE3,0x9C008BE4,0x9D008BE5,0x9E008BE6,0x9F008BE7],
    [0xA0008BE8,0xA1008BE9,0xA2008BEA,0xA3008BEB,0xA4008BEC,0xA5008BED,0xA6008BEE,0xA7008BEF,0xA8008BF0,0xA9008BF1],
    [0xAA008BF2,0xAB008BF3,0xAC008BF4,0xAD008BF5,0xAE008BF6,0xAF008BF7,0xB0008BF8,0xB1008BF9,0xB2008BFA,0xB3008BFB],
    [0xB4008BFC,0xB5008BFD,0xB6008BFE,0xB7008BFF,0xB8008C00,0xB9008C01,0xBA008C02,0xBB008C03,0xBC008C04,0xBD008C05],
    [0xBE008C06,0xBF008C07,0x0025B085,0x0025B07C,0x0025B073,0x0025B06A,0x0025B061,0x0025B058,0x0025B04F,0x0025B046],
    [0x0025B03D,0x0025B034,0x0025B02B,0x0025B022,0x0025B019,0x0025B010,0x0025B007,0x0025AFFE,0x0025AFF5,0x0025AFEC],
    [0x0025AFE3,0x0025AFDA,0x0019AEE7,0x0025AFD1,0x0025AFC8,0x0025AFBF,0x0025AFB6,0x0025AFAD,0x0025AFA4,0x0025AF9B],
    [0x0025AF92,0x0025AF89,0x0025AF80,0x0025AF77,0x0025AF6E,0x0025AF65,0x0025AF5C,0x0025AF53,0x0025AF4A,0x0025AF41],
    [0x0025AF38,0x0025AF2F,0x0025AF26,0x0025AF1D,0x0025AF14,0x0025AF0B,0x0025AF02,0x0025AEF9,0x0025AEF0,0x0025AEE7],
    [0x0019ADF4,0x0025AEDE,0x0025AED5,0x0025AECC,0x0025AEC3,0x0025AEBA,0x0025AEB1,0x0025AEA8,0x0025AE9F,0x0025AE96],
    [0x0025AE8D,0x0025AE84,0x0025AE7B,0x0025AE72,0x0025AE69,0x0025AE60,0x80008C48,0x81008C49,0x82008C4A,0x83008C4B],
    [0x84008C4C,0x85008C4D,0x86008C4E,0x87008C4F,0x88008C50,0x89008C51,0x8A008C52,0x8B008C53,0x8C008C54,0x8D008C55],
    [0x8E008C56,0x8F008C57,0x90008C58,0x91008C59,0x92008C5A,0x93008C5B,0x94008C5C,0x95008C5D,0x96008C5E,0x97008C5F]]"

definition NODES_25 :: "nat list list" where
  "NODES_25 = [
    [0x98008C60,0x99008C61,0x9A008C62,0x9B008C63,0x9C008C64,0x9D008C65,0x9E008C66,0x9F008C67,0xA0008C68,0xA1008C69],
    [0xA2008C6A,0xA3008C6B,0xA4008C6C,0xA5008C6D,0xA6008C6E,0xA7008C6F,0xA8008C70,0xA9008C71,0xAA008C72,0xAB008C73],
    [0xAC008C74,0xAD008C75,0xAE008C76,0xAF008C77,0xB0008C78,0xB1008C79,0xB2008C7A,0xB3008C7B,0xB4008C7C,0xB5008C7D],
    [0xB6008C7E,0xB7008C7F,0xB8008C80,0xB9008C81,0xBA008C82,0xBB008C83,0xBC008C84,0xBD008C85,0xBE008C86,0xBF008C87],
    [0x0025AE57,0x0025AE4E,0x0025AE45,0x0025AE3C,0x0025AE33,0x0025AE2A,0x0025AE21,0x0025AE18,0x0025AE0F,0x0025AE06],
    [0x0025ADFD,0x0025ADF4,0x0019AD01,0x0025ADEB,0x0025ADE2,0x0025ADD9,0x0025ADD0,0x0025ADC7,0x0025ADBE,0x0025ADB5],
    [0x0025ADAC,0x0025ADA3,0x0025AD9A,0x0025AD91,0x0025AD88,0x0025AD7F,0x0025AD76,0x0025AD6D,0x0025AD64,0x0025AD5B],
    [0x0025AD52,0x0025AD49,0x0025AD40,0x0025AD37,0x0025AD2E,0x0025AD25,0x0025AD1C,0x0025AD13,0x0025AD0A,0x0025AD01],
    [0x0019AC0E,0x0025ACF8,0x0025ACEF,0x0025ACE6,0x0025ACDD,0x0025ACD4,0x0025ACCB,0x0025ACC2,0x0025ACB9,0x0025ACB0],
    [0x0025ACA7,0x0025AC9E,0x0025AC95,0x0025AC8C,0x0025AC83,0x0025AC7A,0x0025AC71,0x0025AC68,0x0025AC5F,0x0025AC56],
    [0x0025AC4D,0x0025AC44,0x0025AC3B,0x0025AC32,0x80008CC8,0x81008CC9,0x82008CCA,0x83008CCB,0x84008CCC,0x85008CCD],
    [0x86008CCE,0x87008CCF,0x88008CD0,0x89008CD1,0x8A008CD2,0x8B008CD3,0x8C008CD4,0x8D008CD5,0x8E008CD6,0x8F008CD7],
    [0x90008CD8,0x91008CD9,0x92008CDA,0x93008CDB,0x94008CDC,0x95008CDD,0x96008CDE,0x97008CDF,0x98008CE0,0x99008CE1],
    [0x9A008CE2,0x9B008CE3,0x9C008CE4,0x9D008CE5,0x9E008CE6,0x9F008CE7,0xA0008CE8,0xA1008CE9,0xA2008CEA,0xA3008CEB],
    [0xA4008CEC,0xA5008CED,0xA6008CEE,0xA7008CEF,0xA8008CF0,0xA9008CF1,0xAA008CF2,0xAB008CF3,0xAC008CF4,0xAD008CF5],
    [0xAE008CF6,0xAF008CF7,0xB0008CF8,0xB1008CF9,0xB2008CFA,0xB3008CFB,0xB4008CFC,0xB5008CFD,0xB6008CFE,0xB7008CFF],
    [0xB8008D00,0xB9008D01,0xBA008D02,0xBB008D03,0xBC008D04,0xBD008D05,0xBE008D06,0xBF008D07,0x0025AC29,0x0025AC20],
    [0x0025AC17,0x0025AC0E,0x0019AB1B,0x0025AC05,0x0025ABFC,0x0025ABF3,0x0025ABEA,0x0025ABE1,0x0025ABD8,0x0025ABCF],
    [0x0025ABC6,0x0025ABBD,0x0025ABB4,0x0025ABAB,0x0025ABA2,0x0025AB99,0x0025AB90,0x0025AB87,0x0025AB7E,0x0025AB75],
    [0x0025AB6C,0x0025AB63,0x0025AB5A,0x0025AB51,0x0025AB48,0x0025AB3F,0x0025AB36,0x0025AB2D,0x0025AB24,0x0025AB1B],
    [0x0019AA28,0x0025AB12,0x0025AB09,0x0025AB00,0x0025AAF7,0x0025AAEE,0x0025AAE5,0x0025AADC,0x0025AAD3,0x0025AACA],
    [0x0025AAC1,0x0025AAB8,0x0025AAAF,0x0025AAA6,0x0025AA9D,0x0025AA94,0x0025AA8B,0x0025AA82,0x0025AA79,0x0025AA70],
    [0x0025AA67,0x0025AA5E,0x0025AA55,0x0025AA4C,0x0025AA43,0x0025AA3A,0x0025AA31,0x0025AA28,0x0019A935,0x0025AA1F],
    [0x0025AA16,0x0025AA0D,0x80008D48,0x81008D49,0x82008D4A,0x83008D4B,0x84008D4C,0x85008D4D,0x86008D4E,0x87008D4F],
    [0x88008D50,0x89008D51,0x8A008D52,0x8B008D53,0x8C008D54,0x8D008D55,0x8E008D56,0x8F008D57,0x90008D58,0x91008D59],
    [0x92008D5A,0x93008D5B,0x94008D5C,0x95008D5D,0x96008D5E,0x97008D5F,0x98008D60,0x99008D61,0x9A008D62,0x9B008D63],
    [0x9C008D64,0x9D008D65,0x9E008D66,0x9F008D67,0xA0008D68,0xA1008D69,0xA2008D6A,0xA3008D6B,0xA4008D6C,0xA5008D6D],
    [0xA6008D6E,0xA7008D6F,0xA8008D70,0xA9008D71,0xAA008D72,0xAB008D73,0xAC008D74,0xAD008D75,0xAE008D76,0xAF008D77],
    [0xB0008D78,0xB1008D79,0xB2008D7A,0xB3008D7B,0xB4008D7C,0xB5008D7D,0xB6008D7E,0xB7008D7F,0xB8008D80,0xB9008D81],
    [0xBA008D82,0xBB008D83,0xBC008D84,0xBD008D85,0xBE008D86,0xBF008D87,0x0025AA04,0x0025A9FB,0x0025A9F2,0x0025A9E9],
    [0x0025A9E0,0x0025A9D7,0x0025A9CE,0x0025A9C5,0x0025A9BC,0x0025A9B3,0x0025A9AA,0x0025A9A1,0x0025A998,0x0025A98F],
    [0x0025A986,0x0025A97D,0x0025A974,0x0025A96B,0x0025A962,0x0025A959,0x0025A950,0x0025A947,0x0025A93E,0x0025A935],
    [0x0019A842,0x0025A92C,0x0025A923,0x0025A91A,0x0025A911,0x0025A908,0x0025A8FF,0x0025A8F6,0x0025A8ED,0x0025A8E4],
    [0x0025A8DB,0x0025A8D2,0x0025A8C9,0x0025A8C0,0x0025A8B7,0x0025A8AE,0x0025A8A5,0x0025A89C,0x0025A893,0x0025A88A],
    [0x0025A881,0x0025A878,0x0025A86F,0x0025A866,0x0025A85D,0x0025A854,0x0025A84B,0x0025A842,0x0019A74F,0x0025A839],
    [0x0025A830,0x0025A827,0x0025A81E,0x0025A815,0x0025A80C,0x0025A803,0x0025A7FA,0x0025A7F1,0x0025A7E8,0x0025A7DF],
    [0x80008DC8,0x81008DC9,0x82008DCA,0x83008DCB,0x84008DCC,0x85008DCD,0x86008DCE,0x87008DCF,0x88008DD0,0x89008DD1],
    [0x8A008DD2,0x8B008DD3,0x8C008DD4,0x8D008DD5,0x8E008DD6,0x8F008DD7,0x90008DD8,0x91008DD9,0x92008DDA,0x93008DDB],
    [0x94008DDC,0x95008DDD,0x96008DDE,0x97008DDF,0x98008DE0,0x99008DE1,0x9A008DE2,0x9B008DE3,0x9C008DE4,0x9D008DE5],
    [0x9E008DE6,0x9F008DE7,0xA0008DE8,0xA1008DE9,0xA2008DEA,0xA3008DEB,0xA4008DEC,0xA5008DED,0xA6008DEE,0xA7008DEF],
    [0xA8008DF0,0xA9008DF1,0xAA008DF2,0xAB008DF3,0xAC008DF4,0xAD008DF5,0xAE008DF6,0xAF008DF7,0xB0008DF8,0xB1008DF9],
    [0xB2008DFA,0xB3008DFB,0xB4008DFC,0xB5008DFD,0xB6008DFE,0xB7008DFF,0xB8008E00,0xB9008E01,0xBA008E02,0xBB008E03],
    [0xBC008E04,0xBD008E05,0xBE008E06,0xBF008E07,0x0025A7D6,0x0025A7CD,0x0025A7C4,0x0025A7BB,0x0025A7B2,0x0025A7A9],
    [0x0025A7A0,0x0025A797,0x0025A78E,0x0025A785,0x0025A77C,0x0025A773,0x0025A76A,0x0025A761,0x0025A758,0x0025A74F],
    [0x0019A65C,0x0025A746,0x0025A73D,0x0025A734,0x0025A72B,0x0025A722,0x0025A719,0x0025A710,0x0025A707,0x0025A6FE],
    [0x0025A6F5,0x0025A6EC,0x0025A6E3,0x0025A6DA,0x0025A6D1,0x0025A6C8,0x0025A6BF,0x0025A6B6,0x0025A6AD,0x0025A6A4],
    [0x0025A69B,0x0025A692,0x0025A689,0x0025A680,0x0025A677,0x0025A66E,0x0025A665,0x0025A65C,0x0019A569,0x0025A653],
    [0x0025A64A,0x0025A641,0x0025A638,0x0025A62F,0x0025A626,0x0025A61D,0x0025A614,0x0025A60B,0x0025A602,0x0025A5F9],
    [0x0025A5F0,0x0025A5E7,0x0025A5DE,0x0025A5D5,0x0025A5CC,0x0025A5C3,0x0025A5BA,0x0025A5B1,0x80008E48,0x81008E49],
    [0x82008E4A,0x83008E4B,0x84008E4C,0x85008E4D,0x86008E4E,0x87008E4F,0x88008E50,0x89008E51,0x8A008E52,0x8B008E53],
    [0x8C008E54,0x8D008E55,0x8E008E56,0x8F008E57,0x90008E58,0x91008E59,0x92008E5A,0x93008E5B,0x94008E5C,0x95008E5D],
    [0x96008E5E,0x97008E5F,0x98008E60,0x99008E61,0x9A008E62,0x9B008E63,0x9C008E64,0x9D008E65,0x9E008E66,0x9F008E67],
    [0xA0008E68,0xA1008E69,0xA2008E6A,0xA3008E6B,0xA4008E6C,0xA5008E6D,0xA6008E6E,0xA7008E6F,0xA8008E70,0xA9008E71],
    [0xAA008E72,0xAB008E73,0xAC008E74,0xAD008E75,0xAE008E76,0xAF008E77,0xB0008E78,0xB1008E79,0xB2008E7A,0xB3008E7B],
    [0xB4008E7C,0xB5008E7D,0xB6008E7E,0xB7008E7F,0xB8008E80,0xB9008E81,0xBA008E82,0xBB008E83,0xBC008E84,0xBD008E85],
    [0xBE008E86,0xBF008E87,0x0025A5A8,0x0025A59F,0x0025A596,0x0025A58D,0x0025A584,0x0025A57B,0x0025A572,0x0025A569],
    [0x0019A476,0x0025A560,0x0025A557,0x0025A54E,0x0025A545,0x0025A53C,0x0025A533,0x0025A52A,0x0025A521,0x0025A518],
    [0x0025A50F,0x0025A506,0x0025A4FD,0x0025A4F4,0x0025A4EB,0x0025A4E2,0x0025A4D9,0x0025A4D0,0x0025A4C7,0x0025A4BE],
    [0x0025A4B5,0x0025A4AC,0x0025A4A3,0x0025A49A,0x0025A491,0x0025A488,0x0025A47F,0x0025A476,0x0019A383,0x0025A46D],
    [0x0025A464,0x0025A45B,0x0025A452,0x0025A449,0x0025A440,0x0025A437,0x0025A42E,0x0025A425,0x0025A41C,0x0025A413],
    [0x0025A40A,0x0025A401,0x0025A3F8,0x0025A3EF,0x0025A3E6,0x0025A3DD,0x0025A3D4,0x0025A3CB,0x0025A3C2,0x0025A3B9],
    [0x0025A3B0,0x0025A3A7,0x0025A39E,0x0025A395,0x0025A38C,0x0025A383,0x80008EC8,0x81008EC9,0x82008ECA,0x83008ECB],
    [0x84008ECC,0x85008ECD,0x86008ECE,0x87008ECF,0x88008ED0,0x89008ED1,0x8A008ED2,0x8B008ED3,0x8C008ED4,0x8D008ED5],
    [0x8E008ED6,0x8F008ED7,0x90008ED8,0x91008ED9,0x92008EDA,0x93008EDB,0x94008EDC,0x95008EDD,0x96008EDE,0x97008EDF],
    [0x98008EE0,0x99008EE1,0x9A008EE2,0x9B008EE3,0x9C008EE4,0x9D008EE5,0x9E008EE6,0x9F008EE7,0xA0008EE8,0xA1008EE9],
    [0xA2008EEA,0xA3008EEB,0xA4008EEC,0xA5008EED,0xA6008EEE,0xA7008EEF,0xA8008EF0,0xA9008EF1,0xAA008EF2,0xAB008EF3],
    [0xAC008EF4,0xAD008EF5,0xAE008EF6,0xAF008EF7,0xB0008EF8,0xB1008EF9,0xB2008EFA,0xB3008EFB,0xB4008EFC,0xB5008EFD],
    [0xB6008EFE,0xB7008EFF,0xB8008F00,0xB9008F01,0xBA008F02,0xBB008F03,0xBC008F04,0xBD008F05,0xBE008F06,0xBF008F07],
    [0x0019A290,0x0025A37A,0x0025A371,0x0025A368,0x0025A35F,0x0025A356,0x0025A34D,0x0025A344,0x0025A33B,0x0025A332],
    [0x0025A329,0x0025A320,0x0025A317,0x0025A30E,0x0025A305,0x0025A2FC,0x0025A2F3,0x0025A2EA,0x0025A2E1,0x0025A2D8],
    [0x0025A2CF,0x0025A2C6,0x0025A2BD,0x0025A2B4,0x0025A2AB,0x0025A2A2,0x0025A299,0x0025A290,0x0019A19D,0x0025A287],
    [0x0025A27E,0x0025A275,0x0025A26C,0x0025A263,0x0025A25A,0x0025A251,0x0025A248,0x0025A23F,0x0025A236,0x0025A22D],
    [0x0025A224,0x0025A21B,0x0025A212,0x0025A209,0x0025A200,0x0025A1F7,0x0025A1EE,0x0025A1E5,0x0025A1DC,0x0025A1D3],
    [0x0025A1CA,0x0025A1C1,0x0025A1B8,0x0025A1AF,0x0025A1A6,0x0025A19D,0x0019A0AA,0x0025A194,0x0025A18B,0x0025A182],
    [0x0025A179,0x0025A170,0x0025A167,0x0025A15E,0x80008F48,0x81008F49,0x82008F4A,0x83008F4B,0x84008F4C,0x85008F4D],
    [0x86008F4E,0x87008F4F,0x88008F50,0x89008F51,0x8A008F52,0x8B008F53,0x8C008F54,0x8D008F55,0x8E008F56,0x8F008F57],
    [0x90008F58,0x91008F59,0x92008F5A,0x93008F5B,0x94008F5C,0x95008F5D,0x96008F5E,0x97008F5F,0x98008F60,0x99008F61],
    [0x9A008F62,0x9B008F63,0x9C008F64,0x9D008F65,0x9E008F66,0x9F008F67,0xA0008F68,0xA1008F69,0xA2008F6A,0xA3008F6B],
    [0xA4008F6C,0xA5008F6D,0xA6008F6E,0xA7008F6F,0xA8008F70,0xA9008F71,0xAA008F72,0xAB008F73,0xAC008F74,0xAD008F75],
    [0xAE008F76,0xAF008F77,0xB0008F78,0xB1008F79,0xB2008F7A,0xB3008F7B,0xB4008F7C,0xB5008F7D,0xB6008F7E,0xB7008F7F],
    [0xB8008F80,0xB9008F81,0xBA008F82,0xBB008F83,0xBC008F84,0xBD008F85,0xBE008F86,0xBF008F87,0x0025A155,0x0025A14C],
    [0x0025A143,0x0025A13A,0x0025A131,0x0025A128,0x0025A11F,0x0025A116,0x0025A10D,0x0025A104,0x0025A0FB,0x0025A0F2],
    [0x0025A0E9,0x0025A0E0,0x0025A0D7,0x0025A0CE,0x0025A0C5,0x0025A0BC,0x0025A0B3,0x0025A0AA,0x00199FB7,0x0025A0A1],
    [0x0025A098,0x0025A08F,0x0025A086,0x0025A07D,0x0025A074,0x0025A06B,0x0025A062,0x0025A059,0x0025A050,0x0025A047],
    [0x0025A03E,0x0025A035,0x0025A02C,0x0025A023,0x0025A01A,0x0025A011,0x0025A008,0x00259FFF,0x00259FF6,0x00259FED],
    [0x00259FE4,0x00259FDB,0x00259FD2,0x00259FC9,0x00259FC0,0x00259FB7,0x00199EC4,0x00259FAE,0x00259FA5,0x00259F9C],
    [0x00259F93,0x00259F8A,0x00259F81,0x00259F78,0x00259F6F,0x00259F66,0x00259F5D,0x00259F54,0x00259F4B,0x00259F42],
    [0x00259F39,0x00259F30,0x80008FC8,0x81008FC9,0x82008FCA,0x83008FCB,0x84008FCC,0x85008FCD,0x86008FCE,0x87008FCF],
    [0x88008FD0,0x89008FD1,0x8A008FD2,0x8B008FD3,0x8C008FD4,0x8D008FD5,0x8E008FD6,0x8F008FD7,0x90008FD8,0x91008FD9],
    [0x92008FDA,0x93008FDB,0x94008FDC,0x95008FDD,0x96008FDE,0x97008FDF,0x98008FE0,0x99008FE1,0x9A008FE2,0x9B008FE3],
    [0x9C008FE4,0x9D008FE5,0x9E008FE6,0x9F008FE7,0xA0008FE8,0xA1008FE9,0xA2008FEA,0xA3008FEB,0xA4008FEC,0xA5008FED],
    [0xA6008FEE,0xA7008FEF,0xA8008FF0,0xA9008FF1,0xAA008FF2,0xAB008FF3,0xAC008FF4,0xAD008FF5,0xAE008FF6,0xAF008FF7],
    [0xB0008FF8,0xB1008FF9,0xB2008FFA,0xB3008FFB,0xB4008FFC,0xB5008FFD,0xB6008FFE,0xB7008FFF,0xB8009000,0xB9009001],
    [0xBA009002,0xBB009003,0xBC009004,0xBD009005,0xBE009006,0xBF009007,0x00259F27,0x00259F1E,0x00259F15,0x00259F0C],
    [0x00259F03,0x00259EFA,0x00259EF1,0x00259EE8,0x00259EDF,0x00259ED6,0x00259ECD,0x00259EC4,0x00199DD1,0x00259EBB],
    [0x00259EB2,0x00259EA9,0x00259EA0,0x00259E97,0x00259E8E,0x00259E85,0x00259E7C,0x00259E73,0x00259E6A,0x00259E61],
    [0x00259E58,0x00259E4F,0x00259E46,0x00259E3D,0x00259E34,0x00259E2B,0x00259E22,0x00259E19,0x00259E10,0x00259E07],
    [0x00259DFE,0x00259DF5,0x00259DEC,0x00259DE3,0x00259DDA,0x00259DD1,0x00199CDE,0x00259DC8,0x00259DBF,0x00259DB6],
    [0x00259DAD,0x00259DA4,0x00259D9B,0x00259D92,0x00259D89,0x00259D80,0x00259D77,0x00259D6E,0x00259D65,0x00259D5C],
    [0x00259D53,0x00259D4A,0x00259D41,0x00259D38,0x00259D2F,0x00259D26,0x00259D1D,0x00259D14,0x00259D0B,0x00259D02],
    [0x80009048,0x81009049,0x8200904A,0x8300904B,0x8400904C,0x8500904D,0x8600904E,0x8700904F,0x88009050,0x89009051],
    [0x8A009052,0x8B009053,0x8C009054,0x8D009055,0x8E009056,0x8F009057,0x90009058,0x91009059,0x9200905A,0x9300905B],
    [0x9400905C,0x9500905D,0x9600905E,0x9700905F,0x98009060,0x99009061,0x9A009062,0x9B009063,0x9C009064,0x9D009065],
    [0x9E009066,0x9F009067,0xA0009068,0xA1009069,0xA200906A,0xA300906B,0xA400906C,0xA500906D,0xA600906E,0xA700906F],
    [0xA8009070,0xA9009071,0xAA009072,0xAB009073,0xAC009074,0xAD009075,0xAE009076,0xAF009077,0xB0009078,0xB1009079],
    [0xB200907A,0xB300907B,0xB400907C,0xB500907D,0xB600907E,0xB700907F,0xB8009080,0xB9009081,0xBA009082,0xBB009083],
    [0xBC009084,0xBD009085,0xBE009086,0xBF009087,0x00259CF9,0x00259CF0,0x00259CE7,0x00259CDE,0x00199BEB,0x00259CD5],
    [0x00259CCC,0x00259CC3,0x00259CBA,0x00259CB1,0x00259CA8,0x00259C9F,0x00259C96,0x00259C8D,0x00259C84,0x00259C7B],
    [0x00259C72,0x00259C69,0x00259C60,0x00259C57,0x00259C4E,0x00259C45,0x00259C3C,0x00259C33,0x00259C2A,0x00259C21],
    [0x00259C18,0x00259C0F,0x00259C06,0x00259BFD,0x00259BF4,0x00259BEB,0x00199AF8,0x00259BE2,0x00259BD9,0x00259BD0],
    [0x00259BC7,0x00259BBE,0x00259BB5,0x00259BAC,0x00259BA3,0x00259B9A,0x00259B91,0x00259B88,0x00259B7F,0x00259B76],
    [0x00259B6D,0x00259B64,0x00259B5B,0x00259B52,0x00259B49,0x00259B40,0x00259B37,0x00259B2E,0x00259B25,0x00259B1C],
    [0x00259B13,0x00259B0A,0x00259B01,0x00259AF8,0x00199A05,0x00259AEF,0x00259AE6,0x00259ADD,0x800090C8,0x810090C9],
    [0x820090CA,0x830090CB,0x840090CC,0x850090CD,0x860090CE,0x870090CF,0x880090D0,0x890090D1,0x8A0090D2,0x8B0090D3],
    [0x8C0090D4,0x8D0090D5,0x8E0090D6,0x8F0090D7,0x900090D8,0x910090D9,0x920090DA,0x930090DB,0x940090DC,0x950090DD],
    [0x960090DE,0x970090DF,0x980090E0,0x990090E1,0x9A0090E2,0x9B0090E3,0x9C0090E4,0x9D0090E5,0x9E0090E6,0x9F0090E7],
    [0xA00090E8,0xA10090E9,0xA20090EA,0xA30090EB,0xA40090EC,0xA50090ED,0xA60090EE,0xA70090EF,0xA80090F0,0xA90090F1],
    [0xAA0090F2,0xAB0090F3,0xAC0090F4,0xAD0090F5,0xAE0090F6,0xAF0090F7,0xB00090F8,0xB10090F9,0xB20090FA,0xB30090FB],
    [0xB40090FC,0xB50090FD,0xB60090FE,0xB70090FF,0xB8009100,0xB9009101,0xBA009102,0xBB009103,0xBC009104,0xBD009105],
    [0xBE009106,0xBF009107,0x00259AD4,0x00259ACB,0x00259AC2,0x00259AB9,0x00259AB0,0x00259AA7,0x00259A9E,0x00259A95],
    [0x00259A8C,0x00259A83,0x00259A7A,0x00259A71,0x00259A68,0x00259A5F,0x00259A56,0x00259A4D,0x00259A44,0x00259A3B],
    [0x00259A32,0x00259A29,0x00259A20,0x00259A17,0x00259A0E,0x00259A05,0x00199912,0x002599FC,0x002599F3,0x002599EA],
    [0x002599E1,0x002599D8,0x002599CF,0x002599C6,0x002599BD,0x002599B4,0x002599AB,0x002599A2,0x00259999,0x00259990],
    [0x00259987,0x0025997E,0x00259975,0x0025996C,0x00259963,0x0025995A,0x00259951,0x00259948,0x0025993F,0x00259936],
    [0x0025992D,0x00259924,0x0025991B,0x00259912,0x0019981F,0x00259909,0x00259900,0x002598F7,0x002598EE,0x002598E5],
    [0x002598DC,0x002598D3,0x002598CA,0x002598C1,0x002598B8,0x002598AF,0x80009148,0x81009149,0x8200914A,0x8300914B],
    [0x8400914C,0x8500914D,0x8600914E,0x8700914F,0x88009150,0x89009151,0x8A009152,0x8B009153,0x8C009154,0x8D009155],
    [0x8E009156,0x8F009157,0x90009158,0x91009159,0x9200915A,0x9300915B,0x9400915C,0x9500915D,0x9600915E,0x9700915F],
    [0x98009160,0x99009161,0x9A009162,0x9B009163,0x9C009164,0x9D009165,0x9E009166,0x9F009167,0xA0009168,0xA1009169],
    [0xA200916A,0xA300916B,0xA400916C,0xA500916D,0xA600916E,0xA700916F,0xA8009170,0xA9009171,0xAA009172,0xAB009173],
    [0xAC009174,0xAD009175,0xAE009176,0xAF009177,0xB0009178,0xB1009179,0xB200917A,0xB300917B,0xB400917C,0xB500917D],
    [0xB600917E,0xB700917F,0xB8009180,0xB9009181,0xBA009182,0xBB009183,0xBC009184,0xBD009185,0xBE009186,0xBF009187],
    [0x002598A6,0x0025989D,0x00259894,0x0025988B,0x00259882,0x00259879,0x00259870,0x00259867,0x0025985E,0x00259855],
    [0x0025984C,0x00259843,0x0025983A,0x00259831,0x00259828,0x0025981F,0x0019972C,0x00259816,0x0025980D,0x00259804],
    [0x002597FB,0x002597F2,0x002597E9,0x002597E0,0x002597D7,0x002597CE,0x002597C5,0x002597BC,0x002597B3,0x002597AA],
    [0x002597A1,0x00259798,0x0025978F,0x00259786,0x0025977D,0x00259774,0x0025976B,0x00259762,0x00259759,0x00259750],
    [0x00259747,0x0025973E,0x00259735,0x0025972C,0x00199639,0x00259723,0x0025971A,0x00259711,0x00259708,0x002596FF],
    [0x002596F6,0x002596ED,0x002596E4,0x002596DB,0x002596D2,0x002596C9,0x002596C0,0x002596B7,0x002596AE,0x002596A5],
    [0x0025969C,0x00259693,0x0025968A,0x00259681,0x800091C8,0x810091C9,0x820091CA,0x830091CB,0x840091CC,0x850091CD],
    [0x860091CE,0x870091CF,0x880091D0,0x890091D1,0x8A0091D2,0x8B0091D3,0x8C0091D4,0x8D0091D5,0x8E0091D6,0x8F0091D7],
    [0x900091D8,0x910091D9,0x920091DA,0x930091DB,0x940091DC,0x950091DD,0x960091DE,0x970091DF,0x980091E0,0x990091E1],
    [0x9A0091E2,0x9B0091E3,0x9C0091E4,0x9D0091E5,0x9E0091E6,0x9F0091E7,0xA00091E8,0xA10091E9,0xA20091EA,0xA30091EB],
    [0xA40091EC,0xA50091ED,0xA60091EE,0xA70091EF,0xA80091F0,0xA90091F1,0xAA0091F2,0xAB0091F3,0xAC0091F4,0xAD0091F5],
    [0xAE0091F6,0xAF0091F7,0xB00091F8,0xB10091F9,0xB20091FA,0xB30091FB,0xB40091FC,0xB50091FD,0xB60091FE,0xB70091FF]]"

definition NODES_26 :: "nat list list" where
  "NODES_26 = [
    [0xB8009200,0xB9009201,0xBA009202,0xBB009203,0xBC009204,0xBD009205,0xBE009206,0xBF009207,0x00259678,0x0025966F],
    [0x00259666,0x0025965D,0x00259654,0x0025964B,0x00259642,0x00259639,0x00199546,0x00259630,0x00259627,0x0025961E],
    [0x00259615,0x0025960C,0x00259603,0x002595FA,0x002595F1,0x002595E8,0x002595DF,0x002595D6,0x002595CD,0x002595C4],
    [0x002595BB,0x002595B2,0x002595A9,0x002595A0,0x00259597,0x0025958E,0x00259585,0x0025957C,0x00259573,0x0025956A],
    [0x00259561,0x00259558,0x0025954F,0x00259546,0x00199453,0x0025953D,0x00259534,0x0025952B,0x00259522,0x00259519],
    [0x00259510,0x00259507,0x002594FE,0x002594F5,0x002594EC,0x002594E3,0x002594DA,0x002594D1,0x002594C8,0x002594BF],
    [0x002594B6,0x002594AD,0x002594A4,0x0025949B,0x00259492,0x00259489,0x00259480,0x00259477,0x0025946E,0x00259465],
    [0x0025945C,0x00259453,0x80009248,0x81009249,0x8200924A,0x8300924B,0x8400924C,0x8500924D,0x8600924E,0x8700924F],
    [0x88009250,0x89009251,0x8A009252,0x8B009253,0x8C009254,0x8D009255,0x8E009256,0x8F009257,0x90009258,0x91009259],
    [0x9200925A,0x9300925B,0x9400925C,0x9500925D,0x9600925E,0x9700925F,0x98009260,0x99009261,0x9A009262,0x9B009263],
    [0x9C009264,0x9D009265,0x9E009266,0x9F009267,0xA0009268,0xA1009269,0xA200926A,0xA300926B,0xA400926C,0xA500926D],
    [0xA600926E,0xA700926F,0xA8009270,0xA9009271,0xAA009272,0xAB009273,0xAC009274,0xAD009275,0xAE009276,0xAF009277],
    [0xB0009278,0xB1009279,0xB200927A,0xB300927B,0xB400927C,0xB500927D,0xB600927E,0xB700927F,0xB8009280,0xB9009281],
    [0xBA009282,0xBB009283,0xBC009284,0xBD009285,0xBE009286,0xBF009287,0x00199360,0x0025944A,0x00259441,0x00259438],
    [0x0025942F,0x00259426,0x0025941D,0x00259414,0x0025940B,0x00259402,0x002593F9,0x002593F0,0x002593E7,0x002593DE],
    [0x002593D5,0x002593CC,0x002593C3,0x002593BA,0x002593B1,0x002593A8,0x0025939F,0x00259396,0x0025938D,0x00259384],
    [0x0025937B,0x00259372,0x00259369,0x00259360,0x0019926D,0x00259357,0x0025934E,0x00259345,0x0025933C,0x00259333],
    [0x0025932A,0x00259321,0x00259318,0x0025930F,0x00259306,0x002592FD,0x002592F4,0x002592EB,0x002592E2,0x002592D9],
    [0x002592D0,0x002592C7,0x002592BE,0x002592B5,0x002592AC,0x002592A3,0x0025929A,0x00259291,0x00259288,0x0025927F],
    [0x00259276,0x0025926D,0x0019917A,0x00259264,0x0025925B,0x00259252,0x00259249,0x00259240,0x00259237,0x0025922E],
    [0x800092C8,0x810092C9,0x820092CA,0x830092CB,0x840092CC,0x850092CD,0x860092CE,0x870092CF,0x880092D0,0x890092D1],
    [0x8A0092D2,0x8B0092D3,0x8C0092D4,0x8D0092D5,0x8E0092D6,0x8F0092D7,0x900092D8,0x910092D9,0x920092DA,0x930092DB],
    [0x940092DC,0x950092DD,0x960092DE,0x970092DF,0x980092E0,0x990092E1,0x9A0092E2,0x9B0092E3,0x9C0092E4,0x9D0092E5],
    [0x9E0092E6,0x9F0092E7,0xA00092E8,0xA10092E9,0xA20092EA,0xA30092EB,0xA40092EC,0xA50092ED,0xA60092EE,0xA70092EF],
    [0xA80092F0,0xA90092F1,0xAA0092F2,0xAB0092F3,0xAC0092F4,0xAD0092F5,0xAE0092F6,0xAF0092F7,0xB00092F8,0xB10092F9],
    [0xB20092FA,0xB30092FB,0xB40092FC,0xB50092FD,0xB60092FE,0xB70092FF,0xB8009300,0xB9009301,0xBA009302,0xBB009303],
    [0xBC009304,0xBD009305,0xBE009306,0xBF009307,0x00259225,0x0025921C,0x00259213,0x0025920A,0x00259201,0x002591F8],
    [0x002591EF,0x002591E6,0x002591DD,0x002591D4,0x002591CB,0x002591C2,0x002591B9,0x002591B0,0x002591A7,0x0025919E],
    [0x00259195,0x0025918C,0x00259183,0x0025917A,0x00199087,0x00259171,0x00259168,0x0025915F,0x00259156,0x0025914D],
    [0x00259144,0x0025913B,0x00259132,0x00259129,0x00259120,0x00259117,0x0025910E,0x00259105,0x002590FC,0x002590F3],
    [0x002590EA,0x002590E1,0x002590D8,0x002590CF,0x002590C6,0x002590BD,0x002590B4,0x002590AB,0x002590A2,0x00259099],
    [0x00259090,0x00259087,0x00198F94,0x0025907E,0x00259075,0x0025906C,0x00259063,0x0025905A,0x00259051,0x00259048],
    [0x0025903F,0x00259036,0x0025902D,0x00259024,0x0025901B,0x00259012,0x00259009,0x00259000,0x80009348,0x81009349],
    [0x8200934A,0x8300934B,0x8400934C,0x8500934D,0x8600934E,0x8700934F,0x88009350,0x89009351,0x8A009352,0x8B009353],
    [0x8C009354,0x8D009355,0x8E009356,0x8F009357,0x90009358,0x91009359,0x9200935A,0x9300935B,0x9400935C,0x9500935D],
    [0x9600935E,0x9700935F,0x98009360,0x99009361,0x9A009362,0x9B009363,0x9C009364,0x9D009365,0x9E009366,0x9F009367],
    [0xA0009368,0xA1009369,0xA200936A,0xA300936B,0xA400936C,0xA500936D,0xA600936E,0xA700936F,0xA8009370,0xA9009371],
    [0xAA009372,0xAB009373,0xAC009374,0xAD009375,0xAE009376,0xAF009377,0xB0009378,0xB1009379,0xB200937A,0xB300937B],
    [0xB400937C,0xB500937D,0xB600937E,0xB700937F,0xB8009380,0xB9009381,0xBA009382,0xBB009383,0xBC009384,0xBD009385],
    [0xBE009386,0xBF009387,0x00258FF7,0x00258FEE,0x00258FE5,0x00258FDC,0x00258FD3,0x00258FCA,0x00258FC1,0x00258FB8],
    [0x00258FAF,0x00258FA6,0x00258F9D,0x00258F94,0x00198EA1,0x00258F8B,0x00258F82,0x00258F79,0x00258F70,0x00258F67],
    [0x00258F5E,0x00258F55,0x00258F4C,0x00258F43,0x00258F3A,0x00258F31,0x00258F28,0x00258F1F,0x00258F16,0x00258F0D],
    [0x00258F04,0x00258EFB,0x00258EF2,0x00258EE9,0x00258EE0,0x00258ED7,0x00258ECE,0x00258EC5,0x00258EBC,0x00258EB3],
    [0x00258EAA,0x00258EA1,0x00198DAE,0x00258E98,0x00258E8F,0x00258E86,0x00258E7D,0x00258E74,0x00258E6B,0x00258E62],
    [0x00258E59,0x00258E50,0x00258E47,0x00258E3E,0x00258E35,0x00258E2C,0x00258E23,0x00258E1A,0x00258E11,0x00258E08],
    [0x00258DFF,0x00258DF6,0x00258DED,0x00258DE4,0x00258DDB,0x00258DD2,0x800093C8,0x810093C9,0x820093CA,0x830093CB],
    [0x840093CC,0x850093CD,0x860093CE,0x870093CF,0x880093D0,0x890093D1,0x8A0093D2,0x8B0093D3,0x8C0093D4,0x8D0093D5],
    [0x8E0093D6,0x8F0093D7,0x900093D8,0x910093D9,0x920093DA,0x930093DB,0x940093DC,0x950093DD,0x960093DE,0x970093DF],
    [0x980093E0,0x990093E1,0x9A0093E2,0x9B0093E3,0x9C0093E4,0x9D0093E5,0x9E0093E6,0x9F0093E7,0xA00093E8,0xA10093E9],
    [0xA20093EA,0xA30093EB,0xA40093EC,0xA50093ED,0xA60093EE,0xA70093EF,0xA80093F0,0xA90093F1,0xAA0093F2,0xAB0093F3],
    [0xAC0093F4,0xAD0093F5,0xAE0093F6,0xAF0093F7,0xB00093F8,0xB10093F9,0xB20093FA,0xB30093FB,0xB40093FC,0xB50093FD],
    [0xB60093FE,0xB70093FF,0xB8009400,0xB9009401,0xBA009402,0xBB009403,0xBC009404,0xBD009405,0xBE009406,0xBF009407],
    [0x00258DC9,0x00258DC0,0x00258DB7,0x00258DAE,0x00198CBB,0x00258DA5,0x00258D9C,0x00258D93,0x00258D8A,0x00258D81],
    [0x00258D78,0x00258D6F,0x00258D66,0x00258D5D,0x00258D54,0x00258D4B,0x00258D42,0x00258D39,0x00258D30,0x00258D27],
    [0x00258D1E,0x00258D15,0x00258D0C,0x00258D03,0x00258CFA,0x00258CF1,0x00258CE8,0x00258CDF,0x00258CD6,0x00258CCD],
    [0x00258CC4,0x00258CBB,0x00198BC8,0x00258CB2,0x00258CA9,0x00258CA0,0x00258C97,0x00258C8E,0x00258C85,0x00258C7C],
    [0x00258C73,0x00258C6A,0x00258C61,0x00258C58,0x00258C4F,0x00258C46,0x00258C3D,0x00258C34,0x00258C2B,0x00258C22],
    [0x00258C19,0x00258C10,0x00258C07,0x00258BFE,0x00258BF5,0x00258BEC,0x00258BE3,0x00258BDA,0x00258BD1,0x00258BC8],
    [0x00198AD5,0x00258BBF,0x00258BB6,0x00258BAD,0x80009448,0x81009449,0x8200944A,0x8300944B,0x8400944C,0x8500944D],
    [0x8600944E,0x8700944F,0x88009450,0x89009451,0x8A009452,0x8B009453,0x8C009454,0x8D009455,0x8E009456,0x8F009457],
    [0x90009458,0x91009459,0x9200945A,0x9300945B,0x9400945C,0x9500945D,0x9600945E,0x9700945F,0x98009460,0x99009461],
    [0x9A009462,0x9B009463,0x9C009464,0x9D009465,0x9E009466,0x9F009467,0xA0009468,0xA1009469,0xA200946A,0xA300946B],
    [0xA400946C,0xA500946D,0xA600946E,0xA700946F,0xA8009470,0xA9009471,0xAA009472,0xAB009473,0xAC009474,0xAD009475],
    [0xAE009476,0xAF009477,0xB0009478,0xB1009479,0xB200947A,0xB300947B,0xB400947C,0xB500947D,0xB600947E,0xB700947F],
    [0xB8009480,0xB9009481,0xBA009482,0xBB009483,0xBC009484,0xBD009485,0xBE009486,0xBF009487,0x00258BA4,0x00258B9B],
    [0x00258B92,0x00258B89,0x00258B80,0x00258B77,0x00258B6E,0x00258B65,0x00258B5C,0x00258B53,0x00258B4A,0x00258B41],
    [0x00258B38,0x00258B2F,0x00258B26,0x00258B1D,0x00258B14,0x00258B0B,0x00258B02,0x00258AF9,0x00258AF0,0x00258AE7],
    [0x00258ADE,0x00258AD5,0x001989E2,0x00258ACC,0x00258AC3,0x00258ABA,0x00258AB1,0x00258AA8,0x00258A9F,0x00258A96],
    [0x00258A8D,0x00258A84,0x00258A7B,0x00258A72,0x00258A69,0x00258A60,0x00258A57,0x00258A4E,0x00258A45,0x00258A3C],
    [0x00258A33,0x00258A2A,0x00258A21,0x00258A18,0x00258A0F,0x00258A06,0x002589FD,0x002589F4,0x002589EB,0x002589E2],
    [0x001988EF,0x002589D9,0x002589D0,0x002589C7,0x002589BE,0x002589B5,0x002589AC,0x002589A3,0x0025899A,0x00258991],
    [0x00258988,0x0025897F,0x800094C8,0x810094C9,0x820094CA,0x830094CB,0x840094CC,0x850094CD,0x860094CE,0x870094CF],
    [0x880094D0,0x890094D1,0x8A0094D2,0x8B0094D3,0x8C0094D4,0x8D0094D5,0x8E0094D6,0x8F0094D7,0x900094D8,0x910094D9],
    [0x920094DA,0x930094DB,0x940094DC,0x950094DD,0x960094DE,0x970094DF,0x980094E0,0x990094E1,0x9A0094E2,0x9B0094E3],
    [0x9C0094E4,0x9D0094E5,0x9E0094E6,0x9F0094E7,0xA00094E8,0xA10094E9,0xA20094EA,0xA30094EB,0xA40094EC,0xA50094ED],
    [0xA60094EE,0xA70094EF,0xA80094F0,0xA90094F1,0xAA0094F2,0xAB0094F3,0xAC0094F4,0xAD0094F5,0xAE0094F6,0xAF0094F7],
    [0xB00094F8,0xB10094F9,0xB20094FA,0xB30094FB,0xB40094FC,0xB50094FD,0xB60094FE,0xB70094FF,0xB8009500,0xB9009501],
    [0xBA009502,0xBB009503,0xBC009504,0xBD009505,0xBE009506,0xBF009507,0x00258976,0x0025896D,0x00258964,0x0025895B],
    [0x00258952,0x00258949,0x00258940,0x00258937,0x0025892E,0x00258925,0x0025891C,0x00258913,0x0025890A,0x00258901],
    [0x002588F8,0x002588EF,0x001987FC,0x002588E6,0x002588DD,0x002588D4,0x002588CB,0x002588C2,0x002588B9,0x002588B0],
    [0x002588A7,0x0025889E,0x00258895,0x0025888C,0x00258883,0x0025887A,0x00258871,0x00258868,0x0025885F,0x00258856],
    [0x0025884D,0x00258844,0x0025883B,0x00258832,0x00258829,0x00258820,0x00258817,0x0025880E,0x00258805,0x002587FC],
    [0x00198709,0x002587F3,0x002587EA,0x002587E1,0x002587D8,0x002587CF,0x002587C6,0x002587BD,0x002587B4,0x002587AB],
    [0x002587A2,0x00258799,0x00258790,0x00258787,0x0025877E,0x00258775,0x0025876C,0x00258763,0x0025875A,0x00258751],
    [0x80009548,0x81009549,0x8200954A,0x8300954B,0x8400954C,0x8500954D,0x8600954E,0x8700954F,0x88009550,0x89009551],
    [0x8A009552,0x8B009553,0x8C009554,0x8D009555,0x8E009556,0x8F009557,0x90009558,0x91009559,0x9200955A,0x9300955B],
    [0x9400955C,0x9500955D,0x9600955E,0x9700955F,0x98009560,0x99009561,0x9A009562,0x9B009563,0x9C009564,0x9D009565],
    [0x9E009566,0x9F009567,0xA0009568,0xA1009569,0xA200956A,0xA300956B,0xA400956C,0xA500956D,0xA600956E,0xA700956F],
    [0xA8009570,0xA9009571,0xAA009572,0xAB009573,0xAC009574,0xAD009575,0xAE009576,0xAF009577,0xB0009578,0xB1009579],
    [0xB200957A,0xB300957B,0xB400957C,0xB500957D,0xB600957E,0xB700957F,0xB8009580,0xB9009581,0xBA009582,0xBB009583],
    [0xBC009584,0xBD009585,0xBE009586,0xBF009587,0x00258748,0x0025873F,0x00258736,0x0025872D,0x00258724,0x0025871B],
    [0x00258712,0x00258709,0x00198616,0x00258700,0x002586F7,0x002586EE,0x002586E5,0x002586DC,0x002586D3,0x002586CA],
    [0x002586C1,0x002586B8,0x002586AF,0x002586A6,0x0025869D,0x00258694,0x0025868B,0x00258682,0x00258679,0x00258670],
    [0x00258667,0x0025865E,0x00258655,0x0025864C,0x00258643,0x0025863A,0x00258631,0x00258628,0x0025861F,0x00258616],
    [0x00198523,0x0025860D,0x00258604,0x002585FB,0x002585F2,0x002585E9,0x002585E0,0x002585D7,0x002585CE,0x002585C5],
    [0x002585BC,0x002585B3,0x002585AA,0x002585A1,0x00258598,0x0025858F,0x00258586,0x0025857D,0x00258574,0x0025856B],
    [0x00258562,0x00258559,0x00258550,0x00258547,0x0025853E,0x00258535,0x0025852C,0x00258523,0x800095C8,0x810095C9],
    [0x820095CA,0x830095CB,0x840095CC,0x850095CD,0x860095CE,0x870095CF,0x880095D0,0x890095D1,0x8A0095D2,0x8B0095D3],
    [0x8C0095D4,0x8D0095D5,0x8E0095D6,0x8F0095D7,0x900095D8,0x910095D9,0x920095DA,0x930095DB,0x940095DC,0x950095DD],
    [0x960095DE,0x970095DF,0x980095E0,0x990095E1,0x9A0095E2,0x9B0095E3,0x9C0095E4,0x9D0095E5,0x9E0095E6,0x9F0095E7],
    [0xA00095E8,0xA10095E9,0xA20095EA,0xA30095EB,0xA40095EC,0xA50095ED,0xA60095EE,0xA70095EF,0xA80095F0,0xA90095F1],
    [0xAA0095F2,0xAB0095F3,0xAC0095F4,0xAD0095F5,0xAE0095F6,0xAF0095F7,0xB00095F8,0xB10095F9,0xB20095FA,0xB30095FB],
    [0xB40095FC,0xB50095FD,0xB60095FE,0xB70095FF,0xB8009600,0xB9009601,0xBA009602,0xBB009603,0xBC009604,0xBD009605],
    [0xBE009606,0xBF009607,0x00198430,0x0025851A,0x00258511,0x00258508,0x002584FF,0x002584F6,0x002584ED,0x002584E4],
    [0x002584DB,0x002584D2,0x002584C9,0x002584C0,0x002584B7,0x002584AE,0x002584A5,0x0025849C,0x00258493,0x0025848A],
    [0x00258481,0x00258478,0x0025846F,0x00258466,0x0025845D,0x00258454,0x0025844B,0x00258442,0x00258439,0x00258430],
    [0x0019833D,0x00258427,0x0025841E,0x00258415,0x0025840C,0x00258403,0x002583FA,0x002583F1,0x002583E8,0x002583DF],
    [0x002583D6,0x002583CD,0x002583C4,0x002583BB,0x002583B2,0x002583A9,0x002583A0,0x00258397,0x0025838E,0x00258385],
    [0x0025837C,0x00258373,0x0025836A,0x00258361,0x00258358,0x0025834F,0x00258346,0x0025833D,0x0019824A,0x00258334],
    [0x0025832B,0x00258322,0x00258319,0x00258310,0x00258307,0x002582FE,0x80009648,0x81009649,0x8200964A,0x8300964B],
    [0x8400964C,0x8500964D,0x8600964E,0x8700964F,0x88009650,0x89009651,0x8A009652,0x8B009653,0x8C009654,0x8D009655],
    [0x8E009656,0x8F009657,0x90009658,0x91009659,0x9200965A,0x9300965B,0x9400965C,0x9500965D,0x9600965E,0x9700965F],
    [0x98009660,0x99009661,0x9A009662,0x9B009663,0x9C009664,0x9D009665,0x9E009666,0x9F009667,0xA0009668,0xA1009669],
    [0xA200966A,0xA300966B,0xA400966C,0xA500966D,0xA600966E,0xA700966F,0xA8009670,0xA9009671,0xAA009672,0xAB009673],
    [0xAC009674,0xAD009675,0xAE009676,0xAF009677,0xB0009678,0xB1009679,0xB200967A,0xB300967B,0xB400967C,0xB500967D],
    [0xB600967E,0xB700967F,0xB8009680,0xB9009681,0xBA009682,0xBB009683,0xBC009684,0xBD009685,0xBE009686,0xBF009687],
    [0x002582F5,0x002582EC,0x002582E3,0x002582DA,0x002582D1,0x002582C8,0x002582BF,0x002582B6,0x002582AD,0x002582A4],
    [0x0025829B,0x00258292,0x00258289,0x00258280,0x00258277,0x0025826E,0x00258265,0x0025825C,0x00258253,0x0025824A],
    [0x00198157,0x00258241,0x00258238,0x0025822F,0x00258226,0x0025821D,0x00258214,0x0025820B,0x00258202,0x002581F9],
    [0x002581F0,0x002581E7,0x002581DE,0x002581D5,0x002581CC,0x002581C3,0x002581BA,0x002581B1,0x002581A8,0x0025819F],
    [0x00258196,0x0025818D,0x00258184,0x0025817B,0x00258172,0x00258169,0x00258160,0x00258157,0x00198064,0x0025814E],
    [0x00258145,0x0025813C,0x00258133,0x0025812A,0x00258121,0x00258118,0x0025810F,0x00258106,0x002580FD,0x002580F4],
    [0x002580EB,0x002580E2,0x002580D9,0x002580D0,0x800096C8,0x810096C9,0x820096CA,0x830096CB,0x840096CC,0x850096CD],
    [0x860096CE,0x870096CF,0x880096D0,0x890096D1,0x8A0096D2,0x8B0096D3,0x8C0096D4,0x8D0096D5,0x8E0096D6,0x8F0096D7],
    [0x900096D8,0x910096D9,0x920096DA,0x930096DB,0x940096DC,0x950096DD,0x960096DE,0x970096DF,0x980096E0,0x990096E1],
    [0x9A0096E2,0x9B0096E3,0x9C0096E4,0x9D0096E5,0x9E0096E6,0x9F0096E7,0xA00096E8,0xA10096E9,0xA20096EA,0xA30096EB],
    [0xA40096EC,0xA50096ED,0xA60096EE,0xA70096EF,0xA80096F0,0xA90096F1,0xAA0096F2,0xAB0096F3,0xAC0096F4,0xAD0096F5],
    [0xAE0096F6,0xAF0096F7,0xB00096F8,0xB10096F9,0xB20096FA,0xB30096FB,0xB40096FC,0xB50096FD,0xB60096FE,0xB70096FF],
    [0xB8009700,0xB9009701,0xBA009702,0xBB009703,0xBC009704,0xBD009705,0xBE009706,0xBF009707,0x002580C7,0x002580BE],
    [0x002580B5,0x002580AC,0x002580A3,0x0025809A,0x00258091,0x00258088,0x0025807F,0x00258076,0x0025806D,0x00258064],
    [0x00197F71,0x0025805B,0x00258052,0x00258049,0x00258040,0x00258037,0x0025802E,0x00258025,0x0025801C,0x00258013],
    [0x0025800A,0x00258001,0x00257FF8,0x00257FEF,0x00257FE6,0x00257FDD,0x00257FD4,0x00257FCB,0x00257FC2,0x00257FB9],
    [0x00257FB0,0x00257FA7,0x00257F9E,0x00257F95,0x00257F8C,0x00257F83,0x00257F7A,0x00257F71,0x00197E7E,0x00257F68],
    [0x00257F5F,0x00257F56,0x00257F4D,0x00257F44,0x00257F3B,0x00257F32,0x00257F29,0x00257F20,0x00257F17,0x00257F0E],
    [0x00257F05,0x00257EFC,0x00257EF3,0x00257EEA,0x00257EE1,0x00257ED8,0x00257ECF,0x00257EC6,0x00257EBD,0x00257EB4],
    [0x00257EAB,0x00257EA2,0x80009748,0x81009749,0x8200974A,0x8300974B,0x8400974C,0x8500974D,0x8600974E,0x8700974F],
    [0x88009750,0x89009751,0x8A009752,0x8B009753,0x8C009754,0x8D009755,0x8E009756,0x8F009757,0x90009758,0x91009759],
    [0x9200975A,0x9300975B,0x9400975C,0x9500975D,0x9600975E,0x9700975F,0x98009760,0x99009761,0x9A009762,0x9B009763],
    [0x9C009764,0x9D009765,0x9E009766,0x9F009767,0xA0009768,0xA1009769,0xA200976A,0xA300976B,0xA400976C,0xA500976D],
    [0xA600976E,0xA700976F,0xA8009770,0xA9009771,0xAA009772,0xAB009773,0xAC009774,0xAD009775,0xAE009776,0xAF009777],
    [0xB0009778,0xB1009779,0xB200977A,0xB300977B,0xB400977C,0xB500977D,0xB600977E,0xB700977F,0xB8009780,0xB9009781],
    [0xBA009782,0xBB009783,0xBC009784,0xBD009785,0xBE009786,0xBF009787,0x8200CA96,0x00257E99,0x00257E90,0x00257E87],
    [0x00257E7E,0x00197D8B,0x00257E75,0x00257E6C,0x00257E63,0x00257E5A,0x00257E51,0x00257E48,0x00257E3F,0x00257E36],
    [0x00257E2D,0x00257E24,0x00257E1B,0x00257E12,0x00257E09,0x00257E00,0x00257DF7,0x00257DEE,0x00257DE5,0x00257DDC]]"

definition NODES_27 :: "nat list list" where
  "NODES_27 = [
    [0x00257DD3,0x00257DCA,0x00257DC1,0x00257DB8,0x00257DAF,0x00257DA6,0x00257D9D,0x00257D94,0x00257D8B,0x00197C98],
    [0x00257D82,0x00257D79,0x00257D70,0x00257D67,0x00257D5E,0x00257D55,0x00257D4C,0x00257D43,0x00257D3A,0x00257D31],
    [0x00257D28,0x00257D1F,0x00257D16,0x00257D0D,0x00257D04,0x00257CFB,0x00257CF2,0x00257CE9,0x00257CE0,0x00257CD7],
    [0x00257CCE,0x00257CC5,0x00257CBC,0x00257CB3,0x00257CAA,0x00257CA1,0x00257C98,0x00197BA5,0x00257C8F,0x00257C86],
    [0x800097C8,0x81009809,0x82009889,0x83009909,0x84009989,0x85009A09,0x86009A89,0x87009B09,0x88009B89,0x89009C09],
    [0x8A009C89,0x8B009D09,0x8C009D89,0x8D009E09,0x8E009E89,0x8F009F09,0x90009F89,0x9100A009,0x9200A089,0x9300A109],
    [0x9400A189,0x9500A209,0x9600A289,0x9700A309,0x9800A389,0x9900A409,0x9A00A489,0x9B00A509,0x9C00A589,0x9D00A609],
    [0x9E00A689,0x9F00A709,0xA000A789,0xA100A809,0xA200A889,0xA300A909,0xA400A989,0xA500AA09,0xA600AA89,0xA700AB09],
    [0xA800AB89,0xA900AC09,0xAA00AC89,0xAB00AD09,0xAC00AD89,0xAD00AE09,0xAE00AE89,0xAF00AF09,0xB000AF89,0xB100B009],
    [0xB200B089,0xB300B109,0xB400B189,0xB500B209,0xB600B289,0xB700B309,0xB800B389,0xB900B409,0xBA00B489,0xBB00B509],
    [0xBC00B589,0xBD00B609,0xBE00B689,0xBF00B709,0x800097C9,0x810097CA,0x820097CB,0x830097CC,0x840097CD,0x850097CE],
    [0x860097CF,0x870097D0,0x880097D1,0x890097D2,0x8A0097D3,0x8B0097D4,0x8C0097D5,0x8D0097D6,0x8E0097D7,0x8F0097D8],
    [0x900097D9,0x910097DA,0x920097DB,0x930097DC,0x940097DD,0x950097DE,0x960097DF,0x970097E0,0x980097E1,0x990097E2],
    [0x9A0097E3,0x9B0097E4,0x9C0097E5,0x9D0097E6,0x9E0097E7,0x9F0097E8,0xA00097E9,0xA10097EA,0xA20097EB,0xA30097EC],
    [0xA40097ED,0xA50097EE,0xA60097EF,0xA70097F0,0xA80097F1,0xA90097F2,0xAA0097F3,0xAB0097F4,0xAC0097F5,0xAD0097F6],
    [0xAE0097F7,0xAF0097F8,0xB00097F9,0xB10097FA,0xB20097FB,0xB30097FC,0xB40097FD,0xB50097FE,0xB60097FF,0xB7009800],
    [0xB8009801,0xB9009802,0xBA009803,0xBB009804,0xBC009805,0xBD009806,0xBE009807,0xBF009888,0x00257C7D,0x800098C9],
    [0x810098CA,0x820098CB,0x830098CC,0x840098CD,0x850098CE,0x860098CF,0x870098D0,0x880098D1,0x890098D2,0x8A0098D3],
    [0x8B0098D4,0x8C0098D5,0x8D0098D6,0x8E0098D7,0x8F0098D8,0x900098D9,0x910098DA,0x920098DB,0x930098DC,0x940098DD],
    [0x950098DE,0x960098DF,0x970098E0,0x980098E1,0x990098E2,0x9A0098E3,0x9B0098E4,0x9C0098E5,0x9D0098E6,0x9E0098E7],
    [0x9F0098E8,0xA00098E9,0xA10098EA,0xA20098EB,0xA30098EC,0xA40098ED,0xA50098EE,0xA60098EF,0xA70098F0,0xA80098F1],
    [0xA90098F2,0xAA0098F3,0xAB0098F4,0xAC0098F5,0xAD0098F6,0xAE0098F7,0xAF0098F8,0xB00098F9,0xB10098FA,0xB20098FB],
    [0xB30098FC,0xB40098FD,0xB50098FE,0xB60098FF,0xB7009900,0xB8009901,0xB9009902,0xBA009903,0xBB009904,0xBC009905],
    [0xBD009906,0xBE009907,0xBF009908,0x00257C74,0x00257C6B,0x00257C62,0x00257C59,0x00257C50,0x00257C47,0x00257C3E],
    [0x00257C35,0x00257C2C,0x00257C23,0x00257C1A,0x00257C11,0x00257C08,0x00257BFF,0x00257BF6,0x00257BED,0x00257BE4],
    [0x00257BDB,0x00257BD2,0x00257BC9,0x00257BC0,0x00257BB7,0x00257BAE,0x00257BA5,0x00197AB2,0x00257B9C,0x00257B93],
    [0x00257B8A,0x00257B81,0x00257B78,0x00257B6F,0x00257B66,0x00257B5D,0x00257B54,0x00257B4B,0x00257B42,0x00257B39],
    [0x00257B30,0x00257B27,0x00257B1E,0x00257B15,0x00257B0C,0x00257B03,0x00257AFA,0x00257AF1,0x00257AE8,0x00257ADF],
    [0x00257AD6,0x00257ACD,0x00257AC4,0x00257ABB,0x00257AB2,0x001979BF,0x00257AA9,0x00257AA0,0x00257A97,0x00257A8E],
    [0x00257A85,0x00257A7C,0x00257A73,0x00257A6A,0x00257A61,0x00257A58,0x00257A4F,0x80009949,0x8100994A,0x8200994B],
    [0x8300994C,0x8400994D,0x8500994E,0x8600994F,0x87009950,0x88009951,0x89009952,0x8A009953,0x8B009954,0x8C009955],
    [0x8D009956,0x8E009957,0x8F009958,0x90009959,0x9100995A,0x9200995B,0x9300995C,0x9400995D,0x9500995E,0x9600995F],
    [0x97009960,0x98009961,0x99009962,0x9A009963,0x9B009964,0x9C009965,0x9D009966,0x9E009967,0x9F009968,0xA0009969],
    [0xA100996A,0xA200996B,0xA300996C,0xA400996D,0xA500996E,0xA600996F,0xA7009970,0xA8009971,0xA9009972,0xAA009973],
    [0xAB009974,0xAC009975,0xAD009976,0xAE009977,0xAF009978,0xB0009979,0xB100997A,0xB200997B,0xB300997C,0xB400997D],
    [0xB500997E,0xB600997F,0xB7009980,0xB8009981,0xB9009982,0xBA009983,0xBB009984,0xBC009985,0xBD009986,0xBE009987],
    [0xBF009988,0x00257A46,0x00257A3D,0x00257A34,0x00257A2B,0x00257A22,0x00257A19,0x00257A10,0x00257A07,0x002579FE],
    [0x002579F5,0x002579EC,0x002579E3,0x002579DA,0x002579D1,0x002579C8,0x002579BF,0x001978CC,0x002579B6,0x002579AD],
    [0x002579A4,0x0025799B,0x00257992,0x00257989,0x00257980,0x00257977,0x0025796E,0x00257965,0x0025795C,0x00257953],
    [0x0025794A,0x00257941,0x00257938,0x0025792F,0x00257926,0x0025791D,0x00257914,0x0025790B,0x00257902,0x002578F9],
    [0x002578F0,0x002578E7,0x002578DE,0x002578D5,0x002578CC,0x001977D9,0x002578C3,0x002578BA,0x002578B1,0x002578A8],
    [0x0025789F,0x00257896,0x0025788D,0x00257884,0x0025787B,0x00257872,0x00257869,0x00257860,0x00257857,0x0025784E],
    [0x00257845,0x0025783C,0x00257833,0x0025782A,0x00257821,0x800099C9,0x810099CA,0x820099CB,0x830099CC,0x840099CD],
    [0x850099CE,0x860099CF,0x870099D0,0x880099D1,0x890099D2,0x8A0099D3,0x8B0099D4,0x8C0099D5,0x8D0099D6,0x8E0099D7],
    [0x8F0099D8,0x900099D9,0x910099DA,0x920099DB,0x930099DC,0x940099DD,0x950099DE,0x960099DF,0x970099E0,0x980099E1],
    [0x990099E2,0x9A0099E3,0x9B0099E4,0x9C0099E5,0x9D0099E6,0x9E0099E7,0x9F0099E8,0xA00099E9,0xA10099EA,0xA20099EB],
    [0xA30099EC,0xA40099ED,0xA50099EE,0xA60099EF,0xA70099F0,0xA80099F1,0xA90099F2,0xAA0099F3,0xAB0099F4,0xAC0099F5],
    [0xAD0099F6,0xAE0099F7,0xAF0099F8,0xB00099F9,0xB10099FA,0xB20099FB,0xB30099FC,0xB40099FD,0xB50099FE,0xB60099FF],
    [0xB7009A00,0xB8009A01,0xB9009A02,0xBA009A03,0xBB009A04,0xBC009A05,0xBD009A06,0xBE009A07,0xBF009A08,0x00257818],
    [0x0025780F,0x00257806,0x002577FD,0x002577F4,0x002577EB,0x002577E2,0x002577D9,0x001976E6,0x002577D0,0x002577C7],
    [0x002577BE,0x002577B5,0x002577AC,0x002577A3,0x0025779A,0x00257791,0x00257788,0x0025777F,0x00257776,0x0025776D],
    [0x00257764,0x0025775B,0x00257752,0x00257749,0x00257740,0x00257737,0x0025772E,0x00257725,0x0025771C,0x00257713],
    [0x0025770A,0x00257701,0x002576F8,0x002576EF,0x002576E6,0x001975F3,0x002576DD,0x002576D4,0x002576CB,0x002576C2],
    [0x002576B9,0x002576B0,0x002576A7,0x0025769E,0x00257695,0x0025768C,0x00257683,0x0025767A,0x00257671,0x00257668],
    [0x0025765F,0x00257656,0x0025764D,0x00257644,0x0025763B,0x00257632,0x00257629,0x00257620,0x00257617,0x0025760E],
    [0x00257605,0x002575FC,0x002575F3,0x80009A49,0x81009A4A,0x82009A4B,0x83009A4C,0x84009A4D,0x85009A4E,0x86009A4F],
    [0x87009A50,0x88009A51,0x89009A52,0x8A009A53,0x8B009A54,0x8C009A55,0x8D009A56,0x8E009A57,0x8F009A58,0x90009A59],
    [0x91009A5A,0x92009A5B,0x93009A5C,0x94009A5D,0x95009A5E,0x96009A5F,0x97009A60,0x98009A61,0x99009A62,0x9A009A63],
    [0x9B009A64,0x9C009A65,0x9D009A66,0x9E009A67,0x9F009A68,0xA0009A69,0xA1009A6A,0xA2009A6B,0xA3009A6C,0xA4009A6D],
    [0xA5009A6E,0xA6009A6F,0xA7009A70,0xA8009A71,0xA9009A72,0xAA009A73,0xAB009A74,0xAC009A75,0xAD009A76,0xAE009A77],
    [0xAF009A78,0xB0009A79,0xB1009A7A,0xB2009A7B,0xB3009A7C,0xB4009A7D,0xB5009A7E,0xB6009A7F,0xB7009A80,0xB8009A81],
    [0xB9009A82,0xBA009A83,0xBB009A84,0xBC009A85,0xBD009A86,0xBE009A87,0xBF009A88,0x00197500,0x002575EA,0x002575E1],
    [0x002575D8,0x002575CF,0x002575C6,0x002575BD,0x002575B4,0x002575AB,0x002575A2,0x00257599,0x00257590,0x00257587],
    [0x0025757E,0x00257575,0x0025756C,0x00257563,0x0025755A,0x00257551,0x00257548,0x0025753F,0x00257536,0x0025752D],
    [0x00257524,0x0025751B,0x00257512,0x00257509,0x00257500,0x0019740D,0x002574F7,0x002574EE,0x002574E5,0x002574DC],
    [0x002574D3,0x002574CA,0x002574C1,0x002574B8,0x002574AF,0x002574A6,0x0025749D,0x00257494,0x0025748B,0x00257482],
    [0x00257479,0x00257470,0x00257467,0x0025745E,0x00257455,0x0025744C,0x00257443,0x0025743A,0x00257431,0x00257428],
    [0x0025741F,0x00257416,0x0025740D,0x0019731A,0x00257404,0x002573FB,0x002573F2,0x002573E9,0x002573E0,0x002573D7],
    [0x002573CE,0x80009AC9,0x81009ACA,0x82009ACB,0x83009ACC,0x84009ACD,0x85009ACE,0x86009ACF,0x87009AD0,0x88009AD1],
    [0x89009AD2,0x8A009AD3,0x8B009AD4,0x8C009AD5,0x8D009AD6,0x8E009AD7,0x8F009AD8,0x90009AD9,0x91009ADA,0x92009ADB],
    [0x93009ADC,0x94009ADD,0x95009ADE,0x96009ADF,0x97009AE0,0x98009AE1,0x99009AE2,0x9A009AE3,0x9B009AE4,0x9C009AE5],
    [0x9D009AE6,0x9E009AE7,0x9F009AE8,0xA0009AE9,0xA1009AEA,0xA2009AEB,0xA3009AEC,0xA4009AED,0xA5009AEE,0xA6009AEF],
    [0xA7009AF0,0xA8009AF1,0xA9009AF2,0xAA009AF3,0xAB009AF4,0xAC009AF5,0xAD009AF6,0xAE009AF7,0xAF009AF8,0xB0009AF9],
    [0xB1009AFA,0xB2009AFB,0xB3009AFC,0xB4009AFD,0xB5009AFE,0xB6009AFF,0xB7009B00,0xB8009B01,0xB9009B02,0xBA009B03],
    [0xBB009B04,0xBC009B05,0xBD009B06,0xBE009B07,0xBF009B08,0x002573C5,0x002573BC,0x002573B3,0x002573AA,0x002573A1],
    [0x00257398,0x0025738F,0x00257386,0x0025737D,0x00257374,0x0025736B,0x00257362,0x00257359,0x00257350,0x00257347],
    [0x0025733E,0x00257335,0x0025732C,0x00257323,0x0025731A,0x00197227,0x00257311,0x00257308,0x002572FF,0x002572F6],
    [0x002572ED,0x002572E4,0x002572DB,0x002572D2,0x002572C9,0x002572C0,0x002572B7,0x002572AE,0x002572A5,0x0025729C],
    [0x00257293,0x0025728A,0x00257281,0x00257278,0x0025726F,0x00257266,0x0025725D,0x00257254,0x0025724B,0x00257242],
    [0x00257239,0x00257230,0x00257227,0x00197134,0x0025721E,0x00257215,0x0025720C,0x00257203,0x002571FA,0x002571F1],
    [0x002571E8,0x002571DF,0x002571D6,0x002571CD,0x002571C4,0x002571BB,0x002571B2,0x002571A9,0x002571A0,0x80009B49],
    [0x81009B4A,0x82009B4B,0x83009B4C,0x84009B4D,0x85009B4E,0x86009B4F,0x87009B50,0x88009B51,0x89009B52,0x8A009B53],
    [0x8B009B54,0x8C009B55,0x8D009B56,0x8E009B57,0x8F009B58,0x90009B59,0x91009B5A,0x92009B5B,0x93009B5C,0x94009B5D],
    [0x95009B5E,0x96009B5F,0x97009B60,0x98009B61,0x99009B62,0x9A009B63,0x9B009B64,0x9C009B65,0x9D009B66,0x9E009B67],
    [0x9F009B68,0xA0009B69,0xA1009B6A,0xA2009B6B,0xA3009B6C,0xA4009B6D,0xA5009B6E,0xA6009B6F,0xA7009B70,0xA8009B71],
    [0xA9009B72,0xAA009B73,0xAB009B74,0xAC009B75,0xAD009B76,0xAE009B77,0xAF009B78,0xB0009B79,0xB1009B7A,0xB2009B7B],
    [0xB3009B7C,0xB4009B7D,0xB5009B7E,0xB6009B7F,0xB7009B80,0xB8009B81,0xB9009B82,0xBA009B83,0xBB009B84,0xBC009B85],
    [0xBD009B86,0xBE009B87,0xBF009B88,0x00257197,0x0025718E,0x00257185,0x0025717C,0x00257173,0x0025716A,0x00257161],
    [0x00257158,0x0025714F,0x00257146,0x0025713D,0x00257134,0x00197041,0x0025712B,0x00257122,0x00257119,0x00257110],
    [0x00257107,0x002570FE,0x002570F5,0x002570EC,0x002570E3,0x002570DA,0x002570D1,0x002570C8,0x002570BF,0x002570B6],
    [0x002570AD,0x002570A4,0x0025709B,0x00257092,0x00257089,0x00257080,0x00257077,0x0025706E,0x00257065,0x0025705C],
    [0x00257053,0x0025704A,0x00257041,0x00196F4E,0x00257038,0x0025702F,0x00257026,0x0025701D,0x00257014,0x0025700B],
    [0x00257002,0x00256FF9,0x00256FF0,0x00256FE7,0x00256FDE,0x00256FD5,0x00256FCC,0x00256FC3,0x00256FBA,0x00256FB1],
    [0x00256FA8,0x00256F9F,0x00256F96,0x00256F8D,0x00256F84,0x00256F7B,0x00256F72,0x80009BC9,0x81009BCA,0x82009BCB],
    [0x83009BCC,0x84009BCD,0x85009BCE,0x86009BCF,0x87009BD0,0x88009BD1,0x89009BD2,0x8A009BD3,0x8B009BD4,0x8C009BD5],
    [0x8D009BD6,0x8E009BD7,0x8F009BD8,0x90009BD9,0x91009BDA,0x92009BDB,0x93009BDC,0x94009BDD,0x95009BDE,0x96009BDF],
    [0x97009BE0,0x98009BE1,0x99009BE2,0x9A009BE3,0x9B009BE4,0x9C009BE5,0x9D009BE6,0x9E009BE7,0x9F009BE8,0xA0009BE9],
    [0xA1009BEA,0xA2009BEB,0xA3009BEC,0xA4009BED,0xA5009BEE,0xA6009BEF,0xA7009BF0,0xA8009BF1,0xA9009BF2,0xAA009BF3],
    [0xAB009BF4,0xAC009BF5,0xAD009BF6,0xAE009BF7,0xAF009BF8,0xB0009BF9,0xB1009BFA,0xB2009BFB,0xB3009BFC,0xB4009BFD],
    [0xB5009BFE,0xB6009BFF,0xB7009C00,0xB8009C01,0xB9009C02,0xBA009C03,0xBB009C04,0xBC009C05,0xBD009C06,0xBE009C07],
    [0xBF009C08,0x00256F69,0x00256F60,0x00256F57,0x00256F4E,0x00196E5B,0x00256F45,0x00256F3C,0x00256F33,0x00256F2A],
    [0x00256F21,0x00256F18,0x00256F0F,0x00256F06,0x00256EFD,0x00256EF4,0x00256EEB,0x00256EE2,0x00256ED9,0x00256ED0],
    [0x00256EC7,0x00256EBE,0x00256EB5,0x00256EAC,0x00256EA3,0x00256E9A,0x00256E91,0x00256E88,0x00256E7F,0x00256E76],
    [0x00256E6D,0x00256E64,0x00256E5B,0x00196D68,0x00256E52,0x00256E49,0x00256E40,0x00256E37,0x00256E2E,0x00256E25],
    [0x00256E1C,0x00256E13,0x00256E0A,0x00256E01,0x00256DF8,0x00256DEF,0x00256DE6,0x00256DDD,0x00256DD4,0x00256DCB],
    [0x00256DC2,0x00256DB9,0x00256DB0,0x00256DA7,0x00256D9E,0x00256D95,0x00256D8C,0x00256D83,0x00256D7A,0x00256D71],
    [0x00256D68,0x00196C75,0x00256D5F,0x00256D56,0x00256D4D,0x80009C49,0x81009C4A,0x82009C4B,0x83009C4C,0x84009C4D],
    [0x85009C4E,0x86009C4F,0x87009C50,0x88009C51,0x89009C52,0x8A009C53,0x8B009C54,0x8C009C55,0x8D009C56,0x8E009C57],
    [0x8F009C58,0x90009C59,0x91009C5A,0x92009C5B,0x93009C5C,0x94009C5D,0x95009C5E,0x96009C5F,0x97009C60,0x98009C61],
    [0x99009C62,0x9A009C63,0x9B009C64,0x9C009C65,0x9D009C66,0x9E009C67,0x9F009C68,0xA0009C69,0xA1009C6A,0xA2009C6B],
    [0xA3009C6C,0xA4009C6D,0xA5009C6E,0xA6009C6F,0xA7009C70,0xA8009C71,0xA9009C72,0xAA009C73,0xAB009C74,0xAC009C75],
    [0xAD009C76,0xAE009C77,0xAF009C78,0xB0009C79,0xB1009C7A,0xB2009C7B,0xB3009C7C,0xB4009C7D,0xB5009C7E,0xB6009C7F],
    [0xB7009C80,0xB8009C81,0xB9009C82,0xBA009C83,0xBB009C84,0xBC009C85,0xBD009C86,0xBE009C87,0xBF009C88,0x00256D44],
    [0x00256D3B,0x00256D32,0x00256D29,0x00256D20,0x00256D17,0x00256D0E,0x00256D05,0x00256CFC,0x00256CF3,0x00256CEA],
    [0x00256CE1,0x00256CD8,0x00256CCF,0x00256CC6,0x00256CBD,0x00256CB4,0x00256CAB,0x00256CA2,0x00256C99,0x00256C90],
    [0x00256C87,0x00256C7E,0x00256C75,0x00196B82,0x00256C6C,0x00256C63,0x00256C5A,0x00256C51,0x00256C48,0x00256C3F],
    [0x00256C36,0x00256C2D,0x00256C24,0x00256C1B,0x00256C12,0x00256C09,0x00256C00,0x00256BF7,0x00256BEE,0x00256BE5],
    [0x00256BDC,0x00256BD3,0x00256BCA,0x00256BC1,0x00256BB8,0x00256BAF,0x00256BA6,0x00256B9D,0x00256B94,0x00256B8B],
    [0x00256B82,0x00196A8F,0x00256B79,0x00256B70,0x00256B67,0x00256B5E,0x00256B55,0x00256B4C,0x00256B43,0x00256B3A],
    [0x00256B31,0x00256B28,0x00256B1F,0x80009CC9,0x81009CCA,0x82009CCB,0x83009CCC,0x84009CCD,0x85009CCE,0x86009CCF],
    [0x87009CD0,0x88009CD1,0x89009CD2,0x8A009CD3,0x8B009CD4,0x8C009CD5,0x8D009CD6,0x8E009CD7,0x8F009CD8,0x90009CD9],
    [0x91009CDA,0x92009CDB,0x93009CDC,0x94009CDD,0x95009CDE,0x96009CDF,0x97009CE0,0x98009CE1,0x99009CE2,0x9A009CE3],
    [0x9B009CE4,0x9C009CE5,0x9D009CE6,0x9E009CE7,0x9F009CE8,0xA0009CE9,0xA1009CEA,0xA2009CEB,0xA3009CEC,0xA4009CED],
    [0xA5009CEE,0xA6009CEF,0xA7009CF0,0xA8009CF1,0xA9009CF2,0xAA009CF3,0xAB009CF4,0xAC009CF5,0xAD009CF6,0xAE009CF7],
    [0xAF009CF8,0xB0009CF9,0xB1009CFA,0xB2009CFB,0xB3009CFC,0xB4009CFD,0xB5009CFE,0xB6009CFF,0xB7009D00,0xB8009D01],
    [0xB9009D02,0xBA009D03,0xBB009D04,0xBC009D05,0xBD009D06,0xBE009D07,0xBF009D08,0x00256B16,0x00256B0D,0x00256B04],
    [0x00256AFB,0x00256AF2,0x00256AE9,0x00256AE0,0x00256AD7,0x00256ACE,0x00256AC5,0x00256ABC,0x00256AB3,0x00256AAA],
    [0x00256AA1,0x00256A98,0x00256A8F,0x0019699C,0x00256A86,0x00256A7D,0x00256A74,0x00256A6B,0x00256A62,0x00256A59],
    [0x00256A50,0x00256A47,0x00256A3E,0x00256A35,0x00256A2C,0x00256A23,0x00256A1A,0x00256A11,0x00256A08,0x002569FF],
    [0x002569F6,0x002569ED,0x002569E4,0x002569DB,0x002569D2,0x002569C9,0x002569C0,0x002569B7,0x002569AE,0x002569A5],
    [0x0025699C,0x001968A9,0x00256993,0x0025698A,0x00256981,0x00256978,0x0025696F,0x00256966,0x0025695D,0x00256954],
    [0x0025694B,0x00256942,0x00256939,0x00256930,0x00256927,0x0025691E,0x00256915,0x0025690C,0x00256903,0x002568FA],
    [0x002568F1,0x80009D49,0x81009D4A,0x82009D4B,0x83009D4C,0x84009D4D,0x85009D4E,0x86009D4F,0x87009D50,0x88009D51],
    [0x89009D52,0x8A009D53,0x8B009D54,0x8C009D55,0x8D009D56,0x8E009D57,0x8F009D58,0x90009D59,0x91009D5A,0x92009D5B],
    [0x93009D5C,0x94009D5D,0x95009D5E,0x96009D5F,0x97009D60,0x98009D61,0x99009D62,0x9A009D63,0x9B009D64,0x9C009D65],
    [0x9D009D66,0x9E009D67,0x9F009D68,0xA0009D69,0xA1009D6A,0xA2009D6B,0xA3009D6C,0xA4009D6D,0xA5009D6E,0xA6009D6F],
    [0xA7009D70,0xA8009D71,0xA9009D72,0xAA009D73,0xAB009D74,0xAC009D75,0xAD009D76,0xAE009D77,0xAF009D78,0xB0009D79],
    [0xB1009D7A,0xB2009D7B,0xB3009D7C,0xB4009D7D,0xB5009D7E,0xB6009D7F,0xB7009D80,0xB8009D81,0xB9009D82,0xBA009D83],
    [0xBB009D84,0xBC009D85,0xBD009D86,0xBE009D87,0xBF009D88,0x002568E8,0x002568DF,0x002568D6,0x002568CD,0x002568C4],
    [0x002568BB,0x002568B2,0x002568A9,0x001967B6,0x002568A0,0x00256897,0x0025688E,0x00256885,0x0025687C,0x00256873],
    [0x0025686A,0x00256861,0x00256858,0x0025684F,0x00256846,0x0025683D,0x00256834,0x0025682B,0x00256822,0x00256819],
    [0x00256810,0x00256807,0x002567FE,0x002567F5,0x002567EC,0x002567E3,0x002567DA,0x002567D1,0x002567C8,0x002567BF],
    [0x002567B6,0x001966C3,0x002567AD,0x002567A4,0x0025679B,0x00256792,0x00256789,0x00256780,0x00256777,0x0025676E],
    [0x00256765,0x0025675C,0x00256753,0x0025674A,0x00256741,0x00256738,0x0025672F,0x00256726,0x0025671D,0x00256714]]"

end
