(* ===== verification/Table_Nodes_5.thy ===== *)
theory Table_Nodes_5
  imports Main
begin

text \<open>
  Lines 4045 to 5052 of \<open>unf/table.hh\<close>: part of the array \<open>NODES\<close>, one list per line of the source.
\<close>

definition NODES_28 :: "nat list list" where
  "NODES_28 = [
    [0x0025670B,0x00256702,0x002566F9,0x002566F0,0x002566E7,0x002566DE,0x002566D5,0x002566CC,0x002566C3,0x80009DC9],
    [0x81009DCA,0x82009DCB,0x83009DCC,0x84009DCD,0x85009DCE,0x86009DCF,0x87009DD0,0x88009DD1,0x89009DD2,0x8A009DD3],
    [0x8B009DD4,0x8C009DD5,0x8D009DD6,0x8E009DD7,0x8F009DD8,0x90009DD9,0x91009DDA,0x92009DDB,0x93009DDC,0x94009DDD],
    [0x95009DDE,0x96009DDF,0x97009DE0,0x98009DE1,0x99009DE2,0x9A009DE3,0x9B009DE4,0x9C009DE5,0x9D009DE6,0x9E009DE7],
    [0x9F009DE8,0xA0009DE9,0xA1009DEA,0xA2009DEB,0xA3009DEC,0xA4009DED,0xA5009DEE,0xA6009DEF,0xA7009DF0,0xA8009DF1],
    [0xA9009DF2,0xAA009DF3,0xAB009DF4,0xAC009DF5,0xAD009DF6,0xAE009DF7,0xAF009DF8,0xB0009DF9,0xB1009DFA,0xB2009DFB],
    [0xB3009DFC,0xB4009DFD,0xB5009DFE,0xB6009DFF,0xB7009E00,0xB8009E01,0xB9009E02,0xBA009E03,0xBB009E04,0xBC009E05],
    [0xBD009E06,0xBE009E07,0xBF009E08,0x001965D0,0x002566BA,0x002566B1,0x002566A8,0x0025669F,0x00256696,0x0025668D],
    [0x00256684,0x0025667B,0x00256672,0x00256669,0x00256660,0x00256657,0x0025664E,0x00256645,0x0025663C,0x00256633],
    [0x0025662A,0x00256621,0x00256618,0x0025660F,0x00256606,0x002565FD,0x002565F4,0x002565EB,0x002565E2,0x002565D9],
    [0x002565D0,0x001964DD,0x002565C7,0x002565BE,0x002565B5,0x002565AC,0x002565A3,0x0025659A,0x00256591,0x00256588],
    [0x0025657F,0x00256576,0x0025656D,0x00256564,0x0025655B,0x00256552,0x00256549,0x00256540,0x00256537,0x0025652E],
    [0x00256525,0x0025651C,0x00256513,0x0025650A,0x00256501,0x002564F8,0x002564EF,0x002564E6,0x002564DD,0x001963EA],
    [0x002564D4,0x002564CB,0x002564C2,0x002564B9,0x002564B0,0x002564A7,0x0025649E,0x80009E49,0x81009E4A,0x82009E4B],
    [0x83009E4C,0x84009E4D,0x85009E4E,0x86009E4F,0x87009E50,0x88009E51,0x89009E52,0x8A009E53,0x8B009E54,0x8C009E55],
    [0x8D009E56,0x8E009E57,0x8F009E58,0x90009E59,0x91009E5A,0x92009E5B,0x93009E5C,0x94009E5D,0x95009E5E,0x96009E5F],
    [0x97009E60,0x98009E61,0x99009E62,0x9A009E63,0x9B009E64,0x9C009E65,0x9D009E66,0x9E009E67,0x9F009E68,0xA0009E69],
    [0xA1009E6A,0xA2009E6B,0xA3009E6C,0xA4009E6D,0xA5009E6E,0xA6009E6F,0xA7009E70,0xA8009E71,0xA9009E72,0xAA009E73],
    [0xAB009E74,0xAC009E75,0xAD009E76,0xAE009E77,0xAF009E78,0xB0009E79,0xB1009E7A,0xB2009E7B,0xB3009E7C,0xB4009E7D],
    [0xB5009E7E,0xB6009E7F,0xB7009E80,0xB8009E81,0xB9009E82,0xBA009E83,0xBB009E84,0xBC009E85,0xBD009E86,0xBE009E87],
    [0xBF009E88,0x00256495,0x0025648C,0x00256483,0x0025647A,0x00256471,0x00256468,0x0025645F,0x00256456,0x0025644D],
    [0x00256444,0x0025643B,0x00256432,0x00256429,0x00256420,0x00256417,0x0025640E,0x00256405,0x002563FC,0x002563F3],
    [0x002563EA,0x001962F7,0x002563E1,0x002563D8,0x002563CF,0x002563C6,0x002563BD,0x002563B4,0x002563AB,0x002563A2],
    [0x00256399,0x00256390,0x00256387,0x0025637E,0x00256375,0x0025636C,0x00256363,0x0025635A,0x00256351,0x00256348],
    [0x0025633F,0x00256336,0x0025632D,0x00256324,0x0025631B,0x00256312,0x00256309,0x00256300,0x002562F7,0x00196204],
    [0x002562EE,0x002562E5,0x002562DC,0x002562D3,0x002562CA,0x002562C1,0x002562B8,0x002562AF,0x002562A6,0x0025629D],
    [0x00256294,0x0025628B,0x00256282,0x00256279,0x00256270,0x80009EC9,0x81009ECA,0x82009ECB,0x83009ECC,0x84009ECD],
    [0x85009ECE,0x86009ECF,0x87009ED0,0x88009ED1,0x89009ED2,0x8A009ED3,0x8B009ED4,0x8C009ED5,0x8D009ED6,0x8E009ED7],
    [0x8F009ED8,0x90009ED9,0x91009EDA,0x92009EDB,0x93009EDC,0x94009EDD,0x95009EDE,0x96009EDF,0x97009EE0,0x98009EE1],
    [0x99009EE2,0x9A009EE3,0x9B009EE4,0x9C009EE5,0x9D009EE6,0x9E009EE7,0x9F009EE8,0xA0009EE9,0xA1009EEA,0xA2009EEB],
    [0xA3009EEC,0xA4009EED,0xA5009EEE,0xA6009EEF,0xA7009EF0,0xA8009EF1,0xA9009EF2,0xAA009EF3,0xAB009EF4,0xAC009EF5],
    [0xAD009EF6,0xAE009EF7,0xAF009EF8,0xB0009EF9,0xB1009EFA,0xB2009EFB,0xB3009EFC,0xB4009EFD,0xB5009EFE,0xB6009EFF],
    [0xB7009F00,0xB8009F01,0xB9009F02,0xBA009F03,0xBB009F04,0xBC009F05,0xBD009F06,0xBE009F07,0xBF009F08,0x00256267],
    [0x0025625E,0x00256255,0x0025624C,0x00256243,0x0025623A,0x00256231,0x00256228,0x0025621F,0x00256216,0x0025620D],
    [0x00256204,0x00196111,0x002561FB,0x002561F2,0x002561E9,0x002561E0,0x002561D7,0x002561CE,0x002561C5,0x002561BC],
    [0x002561B3,0x002561AA,0x002561A1,0x00256198,0x0025618F,0x00256186,0x0025617D,0x00256174,0x0025616B,0x00256162],
    [0x00256159,0x00256150,0x00256147,0x0025613E,0x00256135,0x0025612C,0x00256123,0x0025611A,0x00256111,0x0019601E],
    [0x00256108,0x002560FF,0x002560F6,0x002560ED,0x002560E4,0x002560DB,0x002560D2,0x002560C9,0x002560C0,0x002560B7],
    [0x002560AE,0x002560A5,0x0025609C,0x00256093,0x0025608A,0x00256081,0x00256078,0x0025606F,0x00256066,0x0025605D],
    [0x00256054,0x0025604B,0x00256042,0x80009F49,0x81009F4A,0x82009F4B,0x83009F4C,0x84009F4D,0x85009F4E,0x86009F4F],
    [0x87009F50,0x88009F51,0x89009F52,0x8A009F53,0x8B009F54,0x8C009F55,0x8D009F56,0x8E009F57,0x8F009F58,0x90009F59],
    [0x91009F5A,0x92009F5B,0x93009F5C,0x94009F5D,0x95009F5E,0x96009F5F,0x97009F60,0x98009F61,0x99009F62,0x9A009F63],
    [0x9B009F64,0x9C009F65,0x9D009F66,0x9E009F67,0x9F009F68,0xA0009F69,0xA1009F6A,0xA2009F6B,0xA3009F6C,0xA4009F6D],
    [0xA5009F6E,0xA6009F6F,0xA7009F70,0xA8009F71,0xA9009F72,0xAA009F73,0xAB009F74,0xAC009F75,0xAD009F76,0xAE009F77],
    [0xAF009F78,0xB0009F79,0xB1009F7A,0xB2009F7B,0xB3009F7C,0xB4009F7D,0xB5009F7E,0xB6009F7F,0xB7009F80,0xB8009F81],
    [0xB9009F82,0xBA009F83,0xBB009F84,0xBC009F85,0xBD009F86,0xBE009F87,0xBF009F88,0x00256039,0x00256030,0x00256027],
    [0x0025601E,0x00195F2B,0x00256015,0x0025600C,0x00256003,0x00255FFA,0x00255FF1,0x00255FE8,0x00255FDF,0x00255FD6],
    [0x00255FCD,0x00255FC4,0x00255FBB,0x00255FB2,0x00255FA9,0x00255FA0,0x00255F97,0x00255F8E,0x00255F85,0x00255F7C],
    [0x00255F73,0x00255F6A,0x00255F61,0x00255F58,0x00255F4F,0x00255F46,0x00255F3D,0x00255F34,0x00255F2B,0x00195E38],
    [0x00255F22,0x00255F19,0x00255F10,0x00255F07,0x00255EFE,0x00255EF5,0x00255EEC,0x00255EE3,0x00255EDA,0x00255ED1],
    [0x00255EC8,0x00255EBF,0x00255EB6,0x00255EAD,0x00255EA4,0x00255E9B,0x00255E92,0x00255E89,0x00255E80,0x00255E77],
    [0x00255E6E,0x00255E65,0x00255E5C,0x00255E53,0x00255E4A,0x00255E41,0x00255E38,0x00195D45,0x00255E2F,0x00255E26],
    [0x00255E1D,0x80009FC9,0x81009FCA,0x82009FCB,0x83009FCC,0x84009FCD,0x85009FCE,0x86009FCF,0x87009FD0,0x88009FD1],
    [0x89009FD2,0x8A009FD3,0x8B009FD4,0x8C009FD5,0x8D009FD6,0x8E009FD7,0x8F009FD8,0x90009FD9,0x91009FDA,0x92009FDB],
    [0x93009FDC,0x94009FDD,0x95009FDE,0x96009FDF,0x97009FE0,0x98009FE1,0x99009FE2,0x9A009FE3,0x9B009FE4,0x9C009FE5],
    [0x9D009FE6,0x9E009FE7,0x9F009FE8,0xA0009FE9,0xA1009FEA,0xA2009FEB,0xA3009FEC,0xA4009FED,0xA5009FEE,0xA6009FEF],
    [0xA7009FF0,0xA8009FF1,0xA9009FF2,0xAA009FF3,0xAB009FF4,0xAC009FF5,0xAD009FF6,0xAE009FF7,0xAF009FF8,0xB0009FF9],
    [0xB1009FFA,0xB2009FFB,0xB3009FFC,0xB4009FFD,0xB5009FFE,0xB6009FFF,0xB700A000,0xB800A001,0xB900A002,0xBA00A003],
    [0xBB00A004,0xBC00A005,0xBD00A006,0xBE00A007,0xBF00A008,0x00255E14,0x00255E0B,0x00255E02,0x00255DF9,0x00255DF0],
    [0x00255DE7,0x00255DDE,0x00255DD5,0x00255DCC,0x00255DC3,0x00255DBA,0x00255DB1,0x00255DA8,0x00255D9F,0x00255D96],
    [0x00255D8D,0x00255D84,0x00255D7B,0x00255D72,0x00255D69,0x00255D60,0x00255D57,0x00255D4E,0x00255D45,0x00195C52],
    [0x00255D3C,0x00255D33,0x00255D2A,0x00255D21,0x00255D18,0x00255D0F,0x00255D06,0x00255CFD,0x00255CF4,0x00255CEB],
    [0x00255CE2,0x00255CD9,0x00255CD0,0x00255CC7,0x00255CBE,0x00255CB5,0x00255CAC,0x00255CA3,0x00255C9A,0x00255C91],
    [0x00255C88,0x00255C7F,0x00255C76,0x00255C6D,0x00255C64,0x00255C5B,0x00255C52,0x00195B5F,0x00255C49,0x00255C40],
    [0x00255C37,0x00255C2E,0x00255C25,0x00255C1C,0x00255C13,0x00255C0A,0x00255C01,0x00255BF8,0x00255BEF,0x8000A049],
    [0x8100A04A,0x8200A04B,0x8300A04C,0x8400A04D,0x8500A04E,0x8600A04F,0x8700A050,0x8800A051,0x8900A052,0x8A00A053],
    [0x8B00A054,0x8C00A055,0x8D00A056,0x8E00A057,0x8F00A058,0x9000A059,0x9100A05A,0x9200A05B,0x9300A05C,0x9400A05D],
    [0x9500A05E,0x9600A05F,0x9700A060,0x9800A061,0x9900A062,0x9A00A063,0x9B00A064,0x9C00A065,0x9D00A066,0x9E00A067],
    [0x9F00A068,0xA000A069,0xA100A06A,0xA200A06B,0xA300A06C,0xA400A06D,0xA500A06E,0xA600A06F,0xA700A070,0xA800A071],
    [0xA900A072,0xAA00A073,0xAB00A074,0xAC00A075,0xAD00A076,0xAE00A077,0xAF00A078,0xB000A079,0xB100A07A,0xB200A07B],
    [0xB300A07C,0xB400A07D,0xB500A07E,0xB600A07F,0xB700A080,0xB800A081,0xB900A082,0xBA00A083,0xBB00A084,0xBC00A085],
    [0xBD00A086,0xBE00A087,0xBF00A088,0x00255BE6,0x00255BDD,0x00255BD4,0x00255BCB,0x00255BC2,0x00255BB9,0x00255BB0],
    [0x00255BA7,0x00255B9E,0x00255B95,0x00255B8C,0x00255B83,0x00255B7A,0x00255B71,0x00255B68,0x00255B5F,0x00195A6C],
    [0x00255B56,0x00255B4D,0x00255B44,0x00255B3B,0x00255B32,0x00255B29,0x00255B20,0x00255B17,0x00255B0E,0x00255B05],
    [0x00255AFC,0x00255AF3,0x00255AEA,0x00255AE1,0x00255AD8,0x00255ACF,0x00255AC6,0x00255ABD,0x00255AB4,0x00255AAB],
    [0x00255AA2,0x00255A99,0x00255A90,0x00255A87,0x00255A7E,0x00255A75,0x00255A6C,0x00195979,0x00255A63,0x00255A5A],
    [0x00255A51,0x00255A48,0x00255A3F,0x00255A36,0x00255A2D,0x00255A24,0x00255A1B,0x00255A12,0x00255A09,0x00255A00],
    [0x002559F7,0x002559EE,0x002559E5,0x002559DC,0x002559D3,0x002559CA,0x002559C1,0x8000A0C9,0x8100A0CA,0x8200A0CB],
    [0x8300A0CC,0x8400A0CD,0x8500A0CE,0x8600A0CF,0x8700A0D0,0x8800A0D1,0x8900A0D2,0x8A00A0D3,0x8B00A0D4,0x8C00A0D5],
    [0x8D00A0D6,0x8E00A0D7,0x8F00A0D8,0x9000A0D9,0x9100A0DA,0x9200A0DB,0x9300A0DC,0x9400A0DD,0x9500A0DE,0x9600A0DF],
    [0x9700A0E0,0x9800A0E1,0x9900A0E2,0x9A00A0E3,0x9B00A0E4,0x9C00A0E5,0x9D00A0E6,0x9E00A0E7,0x9F00A0E8,0xA000A0E9],
    [0xA100A0EA,0xA200A0EB,0xA300A0EC,0xA400A0ED,0xA500A0EE,0xA600A0EF,0xA700A0F0,0xA800A0F1,0xA900A0F2,0xAA00A0F3],
    [0xAB00A0F4,0xAC00A0F5,0xAD00A0F6,0xAE00A0F7,0xAF00A0F8,0xB000A0F9,0xB100A0FA,0xB200A0FB,0xB300A0FC,0xB400A0FD],
    [0xB500A0FE,0xB600A0FF,0xB700A100,0xB800A101,0xB900A102,0xBA00A103,0xBB00A104,0xBC00A105,0xBD00A106,0xBE00A107],
    [0xBF00A108,0x002559B8,0x002559AF,0x002559A6,0x0025599D,0x00255994,0x0025598B,0x00255982,0x00255979,0x00195886],
    [0x00255970,0x00255967,0x0025595E,0x00255955,0x0025594C,0x00255943,0x0025593A,0x00255931,0x00255928,0x0025591F],
    [0x00255916,0x0025590D,0x00255904,0x002558FB,0x002558F2,0x002558E9,0x002558E0,0x002558D7,0x002558CE,0x002558C5],
    [0x002558BC,0x002558B3,0x002558AA,0x002558A1,0x00255898,0x0025588F,0x00255886,0x00195793,0x0025587D,0x00255874],
    [0x0025586B,0x00255862,0x00255859,0x00255850,0x00255847,0x0025583E,0x00255835,0x0025582C,0x00255823,0x0025581A],
    [0x00255811,0x00255808,0x002557FF,0x002557F6,0x002557ED,0x002557E4,0x002557DB,0x002557D2,0x002557C9,0x002557C0],
    [0x002557B7,0x002557AE,0x002557A5,0x0025579C,0x00255793,0x8000A149,0x8100A14A,0x8200A14B,0x8300A14C,0x8400A14D],
    [0x8500A14E,0x8600A14F,0x8700A150,0x8800A151,0x8900A152,0x8A00A153,0x8B00A154,0x8C00A155,0x8D00A156,0x8E00A157],
    [0x8F00A158,0x9000A159,0x9100A15A,0x9200A15B,0x9300A15C,0x9400A15D,0x9500A15E,0x9600A15F,0x9700A160,0x9800A161],
    [0x9900A162,0x9A00A163,0x9B00A164,0x9C00A165,0x9D00A166,0x9E00A167,0x9F00A168,0xA000A169,0xA100A16A,0xA200A16B],
    [0xA300A16C,0xA400A16D,0xA500A16E,0xA600A16F,0xA700A170,0xA800A171,0xA900A172,0xAA00A173,0xAB00A174,0xAC00A175],
    [0xAD00A176,0xAE00A177,0xAF00A178,0xB000A179,0xB100A17A,0xB200A17B,0xB300A17C,0xB400A17D,0xB500A17E,0xB600A17F],
    [0xB700A180,0xB800A181,0xB900A182,0xBA00A183,0xBB00A184,0xBC00A185,0xBD00A186,0xBE00A187,0xBF00A188,0x001956A0],
    [0x0025578A,0x00255781,0x00255778,0x0025576F,0x00255766,0x0025575D,0x00255754,0x0025574B,0x00255742,0x00255739],
    [0x00255730,0x00255727,0x0025571E,0x00255715,0x0025570C,0x00255703,0x002556FA,0x002556F1,0x002556E8,0x002556DF],
    [0x002556D6,0x002556CD,0x002556C4,0x002556BB,0x002556B2,0x002556A9,0x002556A0,0x001955AD,0x00255697,0x0025568E],
    [0x00255685,0x0025567C,0x00255673,0x0025566A,0x00255661,0x00255658,0x0025564F,0x00255646,0x0025563D,0x00255634],
    [0x0025562B,0x00255622,0x00255619,0x00255610,0x00255607,0x002555FE,0x002555F5,0x002555EC,0x002555E3,0x002555DA],
    [0x002555D1,0x002555C8,0x002555BF,0x002555B6,0x002555AD,0x001954BA,0x002555A4,0x0025559B,0x00255592,0x00255589],
    [0x00255580,0x00255577,0x0025556E,0x8000A1C9,0x8100A1CA,0x8200A1CB,0x8300A1CC,0x8400A1CD,0x8500A1CE,0x8600A1CF],
    [0x8700A1D0,0x8800A1D1,0x8900A1D2,0x8A00A1D3,0x8B00A1D4,0x8C00A1D5,0x8D00A1D6,0x8E00A1D7,0x8F00A1D8,0x9000A1D9],
    [0x9100A1DA,0x9200A1DB,0x9300A1DC,0x9400A1DD,0x9500A1DE,0x9600A1DF,0x9700A1E0,0x9800A1E1,0x9900A1E2,0x9A00A1E3],
    [0x9B00A1E4,0x9C00A1E5,0x9D00A1E6,0x9E00A1E7,0x9F00A1E8,0xA000A1E9,0xA100A1EA,0xA200A1EB,0xA300A1EC,0xA400A1ED],
    [0xA500A1EE,0xA600A1EF,0xA700A1F0,0xA800A1F1,0xA900A1F2,0xAA00A1F3,0xAB00A1F4,0xAC00A1F5,0xAD00A1F6,0xAE00A1F7],
    [0xAF00A1F8,0xB000A1F9,0xB100A1FA,0xB200A1FB,0xB300A1FC,0xB400A1FD,0xB500A1FE,0xB600A1FF,0xB700A200,0xB800A201],
    [0xB900A202,0xBA00A203,0xBB00A204,0xBC00A205,0xBD00A206,0xBE00A207,0xBF00A208,0x00255565,0x0025555C,0x00255553],
    [0x0025554A,0x00255541,0x00255538,0x0025552F,0x00255526,0x0025551D,0x00255514,0x0025550B,0x00255502,0x002554F9],
    [0x002554F0,0x002554E7,0x002554DE,0x002554D5,0x002554CC,0x002554C3,0x002554BA,0x001953C7,0x002554B1,0x002554A8],
    [0x0025549F,0x00255496,0x0025548D,0x00255484,0x0025547B,0x00255472,0x00255469,0x00255460,0x00255457,0x0025544E],
    [0x00255445,0x0025543C,0x00255433,0x0025542A,0x00255421,0x00255418,0x0025540F,0x00255406,0x002553FD,0x002553F4],
    [0x002553EB,0x002553E2,0x002553D9,0x002553D0,0x002553C7,0x001952D4,0x002553BE,0x002553B5,0x002553AC,0x002553A3],
    [0x0025539A,0x00255391,0x00255388,0x0025537F,0x00255376,0x0025536D,0x00255364,0x0025535B,0x00255352,0x00255349],
    [0x00255340,0x8000A249,0x8100A24A,0x8200A24B,0x8300A24C,0x8400A24D,0x8500A24E,0x8600A24F,0x8700A250,0x8800A251],
    [0x8900A252,0x8A00A253,0x8B00A254,0x8C00A255,0x8D00A256,0x8E00A257,0x8F00A258,0x9000A259,0x9100A25A,0x9200A25B],
    [0x9300A25C,0x9400A25D,0x9500A25E,0x9600A25F,0x9700A260,0x9800A261,0x9900A262,0x9A00A263,0x9B00A264,0x9C00A265],
    [0x9D00A266,0x9E00A267,0x9F00A268,0xA000A269,0xA100A26A,0xA200A26B,0xA300A26C,0xA400A26D,0xA500A26E,0xA600A26F],
    [0xA700A270,0xA800A271,0xA900A272,0xAA00A273,0xAB00A274,0xAC00A275,0xAD00A276,0xAE00A277,0xAF00A278,0xB000A279],
    [0xB100A27A,0xB200A27B,0xB300A27C,0xB400A27D,0xB500A27E,0xB600A27F,0xB700A280,0xB800A281,0xB900A282,0xBA00A283],
    [0xBB00A284,0xBC00A285,0xBD00A286,0xBE00A287,0xBF00A288,0x00255337,0x0025532E,0x00255325,0x0025531C,0x00255313],
    [0x0025530A,0x00255301,0x002552F8,0x002552EF,0x002552E6,0x002552DD,0x002552D4,0x001951E1,0x002552CB,0x002552C2],
    [0x002552B9,0x002552B0,0x002552A7,0x0025529E,0x00255295,0x0025528C,0x00255283,0x0025527A,0x00255271,0x00255268],
    [0x0025525F,0x00255256,0x0025524D,0x00255244,0x0025523B,0x00255232,0x00255229,0x00255220,0x00255217,0x0025520E],
    [0x00255205,0x002551FC,0x002551F3,0x002551EA,0x002551E1,0x001950EE,0x002551D8,0x002551CF,0x002551C6,0x002551BD],
    [0x002551B4,0x002551AB,0x002551A2,0x00255199,0x00255190,0x00255187,0x0025517E,0x00255175,0x0025516C,0x00255163],
    [0x0025515A,0x00255151,0x00255148,0x0025513F,0x00255136,0x0025512D,0x00255124,0x0025511B,0x00255112,0x8000A2C9],
    [0x8100A2CA,0x8200A2CB,0x8300A2CC,0x8400A2CD,0x8500A2CE,0x8600A2CF,0x8700A2D0,0x8800A2D1,0x8900A2D2,0x8A00A2D3],
    [0x8B00A2D4,0x8C00A2D5,0x8D00A2D6,0x8E00A2D7,0x8F00A2D8,0x9000A2D9,0x9100A2DA,0x9200A2DB,0x9300A2DC,0x9400A2DD],
    [0x9500A2DE,0x9600A2DF,0x9700A2E0,0x9800A2E1,0x9900A2E2,0x9A00A2E3,0x9B00A2E4,0x9C00A2E5,0x9D00A2E6,0x9E00A2E7],
    [0x9F00A2E8,0xA000A2E9,0xA100A2EA,0xA200A2EB,0xA300A2EC,0xA400A2ED,0xA500A2EE,0xA600A2EF,0xA700A2F0,0xA800A2F1],
    [0xA900A2F2,0xAA00A2F3,0xAB00A2F4,0xAC00A2F5,0xAD00A2F6,0xAE00A2F7,0xAF00A2F8,0xB000A2F9,0xB100A2FA,0xB200A2FB],
    [0xB300A2FC,0xB400A2FD,0xB500A2FE,0xB600A2FF,0xB700A300,0xB800A301,0xB900A302,0xBA00A303,0xBB00A304,0xBC00A305],
    [0xBD00A306,0xBE00A307,0xBF00A308,0x00255109,0x00255100,0x002550F7,0x002550EE,0x00194FFB,0x002550E5,0x002550DC],
    [0x002550D3,0x002550CA,0x002550C1,0x002550B8,0x002550AF,0x002550A6,0x0025509D,0x00255094,0x0025508B,0x00255082],
    [0x00255079,0x00255070,0x00255067,0x0025505E,0x00255055,0x0025504C,0x00255043,0x0025503A,0x00255031,0x00255028],
    [0x0025501F,0x00255016,0x0025500D,0x00255004,0x00254FFB,0x00194F08,0x00254FF2,0x00254FE9,0x00254FE0,0x00254FD7],
    [0x00254FCE,0x00254FC5,0x00254FBC,0x00254FB3,0x00254FAA,0x00254FA1,0x00254F98,0x00254F8F,0x00254F86,0x00254F7D],
    [0x00254F74,0x00254F6B,0x00254F62,0x00254F59,0x00254F50,0x00254F47,0x00254F3E,0x00254F35,0x00254F2C,0x00254F23],
    [0x00254F1A,0x00254F11,0x00254F08,0x00194E15,0x00254EFF,0x00254EF6,0x00254EED,0x8000A349,0x8100A34A,0x8200A34B],
    [0x8300A34C,0x8400A34D,0x8500A34E,0x8600A34F,0x8700A350,0x8800A351,0x8900A352,0x8A00A353,0x8B00A354,0x8C00A355],
    [0x8D00A356,0x8E00A357,0x8F00A358,0x9000A359,0x9100A35A,0x9200A35B,0x9300A35C,0x9400A35D,0x9500A35E,0x9600A35F]]"

definition NODES_29 :: "nat list list" where
  "NODES_29 = [
    [0x9700A360,0x9800A361,0x9900A362,0x9A00A363,0x9B00A364,0x9C00A365,0x9D00A366,0x9E00A367,0x9F00A368,0xA000A369],
    [0xA100A36A,0xA200A36B,0xA300A36C,0xA400A36D,0xA500A36E,0xA600A36F,0xA700A370,0xA800A371,0xA900A372,0xAA00A373],
    [0xAB00A374,0xAC00A375,0xAD00A376,0xAE00A377,0xAF00A378,0xB000A379,0xB100A37A,0xB200A37B,0xB300A37C,0xB400A37D],
    [0xB500A37E,0xB600A37F,0xB700A380,0xB800A381,0xB900A382,0xBA00A383,0xBB00A384,0xBC00A385,0xBD00A386,0xBE00A387],
    [0xBF00A388,0x00254EE4,0x00254EDB,0x00254ED2,0x00254EC9,0x00254EC0,0x00254EB7,0x00254EAE,0x00254EA5,0x00254E9C],
    [0x00254E93,0x00254E8A,0x00254E81,0x00254E78,0x00254E6F,0x00254E66,0x00254E5D,0x00254E54,0x00254E4B,0x00254E42],
    [0x00254E39,0x00254E30,0x00254E27,0x00254E1E,0x00254E15,0x00194D22,0x00254E0C,0x00254E03,0x00254DFA,0x00254DF1],
    [0x00254DE8,0x00254DDF,0x00254DD6,0x00254DCD,0x00254DC4,0x00254DBB,0x00254DB2,0x00254DA9,0x00254DA0,0x00254D97],
    [0x00254D8E,0x00254D85,0x00254D7C,0x00254D73,0x00254D6A,0x00254D61,0x00254D58,0x00254D4F,0x00254D46,0x00254D3D],
    [0x00254D34,0x00254D2B,0x00254D22,0x00194C2F,0x00254D19,0x00254D10,0x00254D07,0x00254CFE,0x00254CF5,0x00254CEC],
    [0x00254CE3,0x00254CDA,0x00254CD1,0x00254CC8,0x00254CBF,0x8000A3C9,0x8100A3CA,0x8200A3CB,0x8300A3CC,0x8400A3CD],
    [0x8500A3CE,0x8600A3CF,0x8700A3D0,0x8800A3D1,0x8900A3D2,0x8A00A3D3,0x8B00A3D4,0x8C00A3D5,0x8D00A3D6,0x8E00A3D7],
    [0x8F00A3D8,0x9000A3D9,0x9100A3DA,0x9200A3DB,0x9300A3DC,0x9400A3DD,0x9500A3DE,0x9600A3DF,0x9700A3E0,0x9800A3E1],
    [0x9900A3E2,0x9A00A3E3,0x9B00A3E4,0x9C00A3E5,0x9D00A3E6,0x9E00A3E7,0x9F00A3E8,0xA000A3E9,0xA100A3EA,0xA200A3EB],
    [0xA300A3EC,0xA400A3ED,0xA500A3EE,0xA600A3EF,0xA700A3F0,0xA800A3F1,0xA900A3F2,0xAA00A3F3,0xAB00A3F4,0xAC00A3F5],
    [0xAD00A3F6,0xAE00A3F7,0xAF00A3F8,0xB000A3F9,0xB100A3FA,0xB200A3FB,0xB300A3FC,0xB400A3FD,0xB500A3FE,0xB600A3FF],
    [0xB700A400,0xB800A401,0xB900A402,0xBA00A403,0xBB00A404,0xBC00A405,0xBD00A406,0xBE00A407,0xBF00A408,0x00254CB6],
    [0x00254CAD,0x00254CA4,0x00254C9B,0x00254C92,0x00254C89,0x00254C80,0x00254C77,0x00254C6E,0x00254C65,0x00254C5C],
    [0x00254C53,0x00254C4A,0x00254C41,0x00254C38,0x00254C2F,0x00194B3C,0x00254C26,0x00254C1D,0x00254C14,0x00254C0B],
    [0x00254C02,0x00254BF9,0x00254BF0,0x00254BE7,0x00254BDE,0x00254BD5,0x00254BCC,0x00254BC3,0x00254BBA,0x00254BB1],
    [0x00254BA8,0x00254B9F,0x00254B96,0x00254B8D,0x00254B84,0x00254B7B,0x00254B72,0x00254B69,0x00254B60,0x00254B57],
    [0x00254B4E,0x00254B45,0x00254B3C,0x00194A49,0x00254B33,0x00254B2A,0x00254B21,0x00254B18,0x00254B0F,0x00254B06],
    [0x00254AFD,0x00254AF4,0x00254AEB,0x00254AE2,0x00254AD9,0x00254AD0,0x00254AC7,0x00254ABE,0x00254AB5,0x00254AAC],
    [0x00254AA3,0x00254A9A,0x00254A91,0x8000A449,0x8100A44A,0x8200A44B,0x8300A44C,0x8400A44D,0x8500A44E,0x8600A44F],
    [0x8700A450,0x8800A451,0x8900A452,0x8A00A453,0x8B00A454,0x8C00A455,0x8D00A456,0x8E00A457,0x8F00A458,0x9000A459],
    [0x9100A45A,0x9200A45B,0x9300A45C,0x9400A45D,0x9500A45E,0x9600A45F,0x9700A460,0x9800A461,0x9900A462,0x9A00A463],
    [0x9B00A464,0x9C00A465,0x9D00A466,0x9E00A467,0x9F00A468,0xA000A469,0xA100A46A,0xA200A46B,0xA300A46C,0xA400A46D],
    [0xA500A46E,0xA600A46F,0xA700A470,0xA800A471,0xA900A472,0xAA00A473,0xAB00A474,0xAC00A475,0xAD00A476,0xAE00A477],
    [0xAF00A478,0xB000A479,0xB100A47A,0xB200A47B,0xB300A47C,0xB400A47D,0xB500A47E,0xB600A47F,0xB700A480,0xB800A481],
    [0xB900A482,0xBA00A483,0xBB00A484,0xBC00A485,0xBD00A486,0xBE00A487,0xBF00A488,0x00254A88,0x00254A7F,0x00254A76],
    [0x00254A6D,0x00254A64,0x00254A5B,0x00254A52,0x00254A49,0x00194956,0x00254A40,0x00254A37,0x00254A2E,0x00254A25],
    [0x00254A1C,0x00254A13,0x00254A0A,0x00254A01,0x002549F8,0x002549EF,0x002549E6,0x002549DD,0x002549D4,0x002549CB],
    [0x002549C2,0x002549B9,0x002549B0,0x002549A7,0x0025499E,0x00254995,0x0025498C,0x00254983,0x0025497A,0x00254971],
    [0x00254968,0x0025495F,0x00254956,0x00194863,0x0025494D,0x00254944,0x0025493B,0x00254932,0x00254929,0x00254920],
    [0x00254917,0x0025490E,0x00254905,0x002548FC,0x002548F3,0x002548EA,0x002548E1,0x002548D8,0x002548CF,0x002548C6],
    [0x002548BD,0x002548B4,0x002548AB,0x002548A2,0x00254899,0x00254890,0x00254887,0x0025487E,0x00254875,0x0025486C],
    [0x00254863,0x8000A4C9,0x8100A4CA,0x8200A4CB,0x8300A4CC,0x8400A4CD,0x8500A4CE,0x8600A4CF,0x8700A4D0,0x8800A4D1],
    [0x8900A4D2,0x8A00A4D3,0x8B00A4D4,0x8C00A4D5,0x8D00A4D6,0x8E00A4D7,0x8F00A4D8,0x9000A4D9,0x9100A4DA,0x9200A4DB],
    [0x9300A4DC,0x9400A4DD,0x9500A4DE,0x9600A4DF,0x9700A4E0,0x9800A4E1,0x9900A4E2,0x9A00A4E3,0x9B00A4E4,0x9C00A4E5],
    [0x9D00A4E6,0x9E00A4E7,0x9F00A4E8,0xA000A4E9,0xA100A4EA,0xA200A4EB,0xA300A4EC,0xA400A4ED,0xA500A4EE,0xA600A4EF],
    [0xA700A4F0,0xA800A4F1,0xA900A4F2,0xAA00A4F3,0xAB00A4F4,0xAC00A4F5,0xAD00A4F6,0xAE00A4F7,0xAF00A4F8,0xB000A4F9],
    [0xB100A4FA,0xB200A4FB,0xB300A4FC,0xB400A4FD,0xB500A4FE,0xB600A4FF,0xB700A500,0xB800A501,0xB900A502,0xBA00A503],
    [0xBB00A504,0xBC00A505,0xBD00A506,0xBE00A507,0xBF00A508,0x00194770,0x0025485A,0x00254851,0x00254848,0x0025483F],
    [0x00254836,0x0025482D,0x00254824,0x0025481B,0x00254812,0x00254809,0x00254800,0x002547F7,0x002547EE,0x002547E5],
    [0x002547DC,0x002547D3,0x002547CA,0x002547C1,0x002547B8,0x002547AF,0x002547A6,0x0025479D,0x00254794,0x0025478B],
    [0x00254782,0x00254779,0x00254770,0x0019467D,0x00254767,0x0025475E,0x00254755,0x0025474C,0x00254743,0x0025473A],
    [0x00254731,0x00254728,0x0025471F,0x00254716,0x0025470D,0x00254704,0x002546FB,0x002546F2,0x002546E9,0x002546E0],
    [0x002546D7,0x002546CE,0x002546C5,0x002546BC,0x002546B3,0x002546AA,0x002546A1,0x00254698,0x0025468F,0x00254686],
    [0x0025467D,0x0019458A,0x00254674,0x0025466B,0x00254662,0x00254659,0x00254650,0x00254647,0x0025463E,0x8000A549],
    [0x8100A54A,0x8200A54B,0x8300A54C,0x8400A54D,0x8500A54E,0x8600A54F,0x8700A550,0x8800A551,0x8900A552,0x8A00A553],
    [0x8B00A554,0x8C00A555,0x8D00A556,0x8E00A557,0x8F00A558,0x9000A559,0x9100A55A,0x9200A55B,0x9300A55C,0x9400A55D],
    [0x9500A55E,0x9600A55F,0x9700A560,0x9800A561,0x9900A562,0x9A00A563,0x9B00A564,0x9C00A565,0x9D00A566,0x9E00A567],
    [0x9F00A568,0xA000A569,0xA100A56A,0xA200A56B,0xA300A56C,0xA400A56D,0xA500A56E,0xA600A56F,0xA700A570,0xA800A571],
    [0xA900A572,0xAA00A573,0xAB00A574,0xAC00A575,0xAD00A576,0xAE00A577,0xAF00A578,0xB000A579,0xB100A57A,0xB200A57B],
    [0xB300A57C,0xB400A57D,0xB500A57E,0xB600A57F,0xB700A580,0xB800A581,0xB900A582,0xBA00A583,0xBB00A584,0xBC00A585],
    [0xBD00A586,0xBE00A587,0xBF00A588,0x00254635,0x0025462C,0x00254623,0x0025461A,0x00254611,0x00254608,0x002545FF],
    [0x002545F6,0x002545ED,0x002545E4,0x002545DB,0x002545D2,0x002545C9,0x002545C0,0x002545B7,0x002545AE,0x002545A5],
    [0x0025459C,0x00254593,0x0025458A,0x00194497,0x00254581,0x00254578,0x0025456F,0x00254566,0x0025455D,0x00254554],
    [0x0025454B,0x00254542,0x00254539,0x00254530,0x00254527,0x0025451E,0x00254515,0x0025450C,0x00254503,0x002544FA],
    [0x002544F1,0x002544E8,0x002544DF,0x002544D6,0x002544CD,0x002544C4,0x002544BB,0x002544B2,0x002544A9,0x002544A0],
    [0x00254497,0x001943A4,0x0025448E,0x00254485,0x0025447C,0x00254473,0x0025446A,0x00254461,0x00254458,0x0025444F],
    [0x00254446,0x0025443D,0x00254434,0x0025442B,0x00254422,0x00254419,0x00254410,0x8000A5C9,0x8100A5CA,0x8200A5CB],
    [0x8300A5CC,0x8400A5CD,0x8500A5CE,0x8600A5CF,0x8700A5D0,0x8800A5D1,0x8900A5D2,0x8A00A5D3,0x8B00A5D4,0x8C00A5D5],
    [0x8D00A5D6,0x8E00A5D7,0x8F00A5D8,0x9000A5D9,0x9100A5DA,0x9200A5DB,0x9300A5DC,0x9400A5DD,0x9500A5DE,0x9600A5DF],
    [0x9700A5E0,0x9800A5E1,0x9900A5E2,0x9A00A5E3,0x9B00A5E4,0x9C00A5E5,0x9D00A5E6,0x9E00A5E7,0x9F00A5E8,0xA000A5E9],
    [0xA100A5EA,0xA200A5EB,0xA300A5EC,0xA400A5ED,0xA500A5EE,0xA600A5EF,0xA700A5F0,0xA800A5F1,0xA900A5F2,0xAA00A5F3],
    [0xAB00A5F4,0xAC00A5F5,0xAD00A5F6,0xAE00A5F7,0xAF00A5F8,0xB000A5F9,0xB100A5FA,0xB200A5FB,0xB300A5FC,0xB400A5FD],
    [0xB500A5FE,0xB600A5FF,0xB700A600,0xB800A601,0xB900A602,0xBA00A603,0xBB00A604,0xBC00A605,0xBD00A606,0xBE00A607],
    [0xBF00A608,0x00254407,0x002543FE,0x002543F5,0x002543EC,0x002543E3,0x002543DA,0x002543D1,0x002543C8,0x002543BF],
    [0x002543B6,0x002543AD,0x002543A4,0x001942B1,0x0025439B,0x00254392,0x00254389,0x00254380,0x00254377,0x0025436E],
    [0x00254365,0x0025435C,0x00254353,0x0025434A,0x00254341,0x00254338,0x0025432F,0x00254326,0x0025431D,0x00254314],
    [0x0025430B,0x00254302,0x002542F9,0x002542F0,0x002542E7,0x002542DE,0x002542D5,0x002542CC,0x002542C3,0x002542BA],
    [0x002542B1,0x001941BE,0x002542A8,0x0025429F,0x00254296,0x0025428D,0x00254284,0x0025427B,0x00254272,0x00254269],
    [0x00254260,0x00254257,0x0025424E,0x00254245,0x0025423C,0x00254233,0x0025422A,0x00254221,0x00254218,0x0025420F],
    [0x00254206,0x002541FD,0x002541F4,0x002541EB,0x002541E2,0x8000A649,0x8100A64A,0x8200A64B,0x8300A64C,0x8400A64D],
    [0x8500A64E,0x8600A64F,0x8700A650,0x8800A651,0x8900A652,0x8A00A653,0x8B00A654,0x8C00A655,0x8D00A656,0x8E00A657],
    [0x8F00A658,0x9000A659,0x9100A65A,0x9200A65B,0x9300A65C,0x9400A65D,0x9500A65E,0x9600A65F,0x9700A660,0x9800A661],
    [0x9900A662,0x9A00A663,0x9B00A664,0x9C00A665,0x9D00A666,0x9E00A667,0x9F00A668,0xA000A669,0xA100A66A,0xA200A66B],
    [0xA300A66C,0xA400A66D,0xA500A66E,0xA600A66F,0xA700A670,0xA800A671,0xA900A672,0xAA00A673,0xAB00A674,0xAC00A675],
    [0xAD00A676,0xAE00A677,0xAF00A678,0xB000A679,0xB100A67A,0xB200A67B,0xB300A67C,0xB400A67D,0xB500A67E,0xB600A67F],
    [0xB700A680,0xB800A681,0xB900A682,0xBA00A683,0xBB00A684,0xBC00A685,0xBD00A686,0xBE00A687,0xBF00A688,0x002541D9],
    [0x002541D0,0x002541C7,0x002541BE,0x001940CB,0x002541B5,0x002541AC,0x002541A3,0x0025419A,0x00254191,0x00254188],
    [0x0025417F,0x00254176,0x0025416D,0x00254164,0x0025415B,0x00254152,0x00254149,0x00254140,0x00254137,0x0025412E],
    [0x00254125,0x0025411C,0x00254113,0x0025410A,0x00254101,0x002540F8,0x002540EF,0x002540E6,0x002540DD,0x002540D4],
    [0x002540CB,0x00193FD8,0x002540C2,0x002540B9,0x002540B0,0x002540A7,0x0025409E,0x00254095,0x0025408C,0x00254083],
    [0x0025407A,0x00254071,0x00254068,0x0025405F,0x00254056,0x0025404D,0x00254044,0x0025403B,0x00254032,0x00254029],
    [0x00254020,0x00254017,0x0025400E,0x00254005,0x00253FFC,0x00253FF3,0x00253FEA,0x00253FE1,0x00253FD8,0x00193EE5],
    [0x00253FCF,0x00253FC6,0x00253FBD,0x8000A6C9,0x8100A6CA,0x8200A6CB,0x8300A6CC,0x8400A6CD,0x8500A6CE,0x8600A6CF],
    [0x8700A6D0,0x8800A6D1,0x8900A6D2,0x8A00A6D3,0x8B00A6D4,0x8C00A6D5,0x8D00A6D6,0x8E00A6D7,0x8F00A6D8,0x9000A6D9],
    [0x9100A6DA,0x9200A6DB,0x9300A6DC,0x9400A6DD,0x9500A6DE,0x9600A6DF,0x9700A6E0,0x9800A6E1,0x9900A6E2,0x9A00A6E3],
    [0x9B00A6E4,0x9C00A6E5,0x9D00A6E6,0x9E00A6E7,0x9F00A6E8,0xA000A6E9,0xA100A6EA,0xA200A6EB,0xA300A6EC,0xA400A6ED],
    [0xA500A6EE,0xA600A6EF,0xA700A6F0,0xA800A6F1,0xA900A6F2,0xAA00A6F3,0xAB00A6F4,0xAC00A6F5,0xAD00A6F6,0xAE00A6F7],
    [0xAF00A6F8,0xB000A6F9,0xB100A6FA,0xB200A6FB,0xB300A6FC,0xB400A6FD,0xB500A6FE,0xB600A6FF,0xB700A700,0xB800A701],
    [0xB900A702,0xBA00A703,0xBB00A704,0xBC00A705,0xBD00A706,0xBE00A707,0xBF00A708,0x00253FB4,0x00253FAB,0x00253FA2],
    [0x00253F99,0x00253F90,0x00253F87,0x00253F7E,0x00253F75,0x00253F6C,0x00253F63,0x00253F5A,0x00253F51,0x00253F48],
    [0x00253F3F,0x00253F36,0x00253F2D,0x00253F24,0x00253F1B,0x00253F12,0x00253F09,0x00253F00,0x00253EF7,0x00253EEE],
    [0x00253EE5,0x00193DF2,0x00253EDC,0x00253ED3,0x00253ECA,0x00253EC1,0x00253EB8,0x00253EAF,0x00253EA6,0x00253E9D],
    [0x00253E94,0x00253E8B,0x00253E82,0x00253E79,0x00253E70,0x00253E67,0x00253E5E,0x00253E55,0x00253E4C,0x00253E43],
    [0x00253E3A,0x00253E31,0x00253E28,0x00253E1F,0x00253E16,0x00253E0D,0x00253E04,0x00253DFB,0x00253DF2,0x00193CFF],
    [0x00253DE9,0x00253DE0,0x00253DD7,0x00253DCE,0x00253DC5,0x00253DBC,0x00253DB3,0x00253DAA,0x00253DA1,0x00253D98],
    [0x00253D8F,0x8000A749,0x8100A74A,0x8200A74B,0x8300A74C,0x8400A74D,0x8500A74E,0x8600A74F,0x8700A750,0x8800A751],
    [0x8900A752,0x8A00A753,0x8B00A754,0x8C00A755,0x8D00A756,0x8E00A757,0x8F00A758,0x9000A759,0x9100A75A,0x9200A75B],
    [0x9300A75C,0x9400A75D,0x9500A75E,0x9600A75F,0x9700A760,0x9800A761,0x9900A762,0x9A00A763,0x9B00A764,0x9C00A765],
    [0x9D00A766,0x9E00A767,0x9F00A768,0xA000A769,0xA100A76A,0xA200A76B,0xA300A76C,0xA400A76D,0xA500A76E,0xA600A76F],
    [0xA700A770,0xA800A771,0xA900A772,0xAA00A773,0xAB00A774,0xAC00A775,0xAD00A776,0xAE00A777,0xAF00A778,0xB000A779],
    [0xB100A77A,0xB200A77B,0xB300A77C,0xB400A77D,0xB500A77E,0xB600A77F,0xB700A780,0xB800A781,0xB900A782,0xBA00A783],
    [0xBB00A784,0xBC00A785,0xBD00A786,0xBE00A787,0xBF00A788,0x00253D86,0x00253D7D,0x00253D74,0x00253D6B,0x00253D62],
    [0x00253D59,0x00253D50,0x00253D47,0x00253D3E,0x00253D35,0x00253D2C,0x00253D23,0x00253D1A,0x00253D11,0x00253D08],
    [0x00253CFF,0x00193C0C,0x00253CF6,0x00253CED,0x00253CE4,0x00253CDB,0x00253CD2,0x00253CC9,0x00253CC0,0x00253CB7],
    [0x00253CAE,0x00253CA5,0x00253C9C,0x00253C93,0x00253C8A,0x00253C81,0x00253C78,0x00253C6F,0x00253C66,0x00253C5D],
    [0x00253C54,0x00253C4B,0x00253C42,0x00253C39,0x00253C30,0x00253C27,0x00253C1E,0x00253C15,0x00253C0C,0x00193B19],
    [0x00253C03,0x00253BFA,0x00253BF1,0x00253BE8,0x00253BDF,0x00253BD6,0x00253BCD,0x00253BC4,0x00253BBB,0x00253BB2],
    [0x00253BA9,0x00253BA0,0x00253B97,0x00253B8E,0x00253B85,0x00253B7C,0x00253B73,0x00253B6A,0x00253B61,0x8000A7C9],
    [0x8100A7CA,0x8200A7CB,0x8300A7CC,0x8400A7CD,0x8500A7CE,0x8600A7CF,0x8700A7D0,0x8800A7D1,0x8900A7D2,0x8A00A7D3],
    [0x8B00A7D4,0x8C00A7D5,0x8D00A7D6,0x8E00A7D7,0x8F00A7D8,0x9000A7D9,0x9100A7DA,0x9200A7DB,0x9300A7DC,0x9400A7DD],
    [0x9500A7DE,0x9600A7DF,0x9700A7E0,0x9800A7E1,0x9900A7E2,0x9A00A7E3,0x9B00A7E4,0x9C00A7E5,0x9D00A7E6,0x9E00A7E7],
    [0x9F00A7E8,0xA000A7E9,0xA100A7EA,0xA200A7EB,0xA300A7EC,0xA400A7ED,0xA500A7EE,0xA600A7EF,0xA700A7F0,0xA800A7F1],
    [0xA900A7F2,0xAA00A7F3,0xAB00A7F4,0xAC00A7F5,0xAD00A7F6,0xAE00A7F7,0xAF00A7F8,0xB000A7F9,0xB100A7FA,0xB200A7FB],
    [0xB300A7FC,0xB400A7FD,0xB500A7FE,0xB600A7FF,0xB700A800,0xB800A801,0xB900A802,0xBA00A803,0xBB00A804,0xBC00A805],
    [0xBD00A806,0xBE00A807,0xBF00A808,0x00253B58,0x00253B4F,0x00253B46,0x00253B3D,0x00253B34,0x00253B2B,0x00253B22],
    [0x00253B19,0x00193A26,0x00253B10,0x00253B07,0x00253AFE,0x00253AF5,0x00253AEC,0x00253AE3,0x00253ADA,0x00253AD1],
    [0x00253AC8,0x00253ABF,0x00253AB6,0x00253AAD,0x00253AA4,0x00253A9B,0x00253A92,0x00253A89,0x00253A80,0x00253A77],
    [0x00253A6E,0x00253A65,0x00253A5C,0x00253A53,0x00253A4A,0x00253A41,0x00253A38,0x00253A2F,0x00253A26,0x00193933],
    [0x00253A1D,0x00253A14,0x00253A0B,0x00253A02,0x002539F9,0x002539F0,0x002539E7,0x002539DE,0x002539D5,0x002539CC],
    [0x002539C3,0x002539BA,0x002539B1,0x002539A8,0x0025399F,0x00253996,0x0025398D,0x00253984,0x0025397B,0x00253972],
    [0x00253969,0x00253960,0x00253957,0x0025394E,0x00253945,0x0025393C,0x00253933,0x8000A849,0x8100A84A,0x8200A84B],
    [0x8300A84C,0x8400A84D,0x8500A84E,0x8600A84F,0x8700A850,0x8800A851,0x8900A852,0x8A00A853,0x8B00A854,0x8C00A855],
    [0x8D00A856,0x8E00A857,0x8F00A858,0x9000A859,0x9100A85A,0x9200A85B,0x9300A85C,0x9400A85D,0x9500A85E,0x9600A85F],
    [0x9700A860,0x9800A861,0x9900A862,0x9A00A863,0x9B00A864,0x9C00A865,0x9D00A866,0x9E00A867,0x9F00A868,0xA000A869],
    [0xA100A86A,0xA200A86B,0xA300A86C,0xA400A86D,0xA500A86E,0xA600A86F,0xA700A870,0xA800A871,0xA900A872,0xAA00A873],
    [0xAB00A874,0xAC00A875,0xAD00A876,0xAE00A877,0xAF00A878,0xB000A879,0xB100A87A,0xB200A87B,0xB300A87C,0xB400A87D],
    [0xB500A87E,0xB600A87F,0xB700A880,0xB800A881,0xB900A882,0xBA00A883,0xBB00A884,0xBC00A885,0xBD00A886,0xBE00A887],
    [0xBF00A888,0x00193849,0x0025392A,0x00253921,0x00253918,0x00263543,0x0025390F,0x00253906,0x002538FD,0x002538F4],
    [0x002538EB,0x002538E2,0x002538D9,0x002538D0,0x002538C7,0x002538BE,0x002538B5,0x002538AC,0x002538A3,0x0025389A],
    [0x00253891,0x00253888,0x0025387F,0x00253876,0x0025386D,0x00253864,0x0025385B,0x00253852,0x00253849,0x00193756],
    [0x00253840,0x00253837,0x0025382E,0x00253825,0x0025381C,0x00253813,0x0025380A,0x00253801,0x002537F8,0x002537EF],
    [0x002537E6,0x002537DD,0x002537D4,0x002537CB,0x002537C2,0x002537B9,0x002537B0,0x002537A7,0x0025379E,0x00253795],
    [0x0025378C,0x00253783,0x0025377A,0x00253771,0x00253768,0x0025375F,0x00253756,0x00193663,0x0025374D,0x00253744],
    [0x0025373B,0x00253732,0x00253729,0x00253720,0x00253717,0x8000A8C9,0x8100A8CA,0x8200A8CB,0x8300A8CC,0x8400A8CD],
    [0x8500A8CE,0x8600A8CF,0x8700A8D0,0x8800A8D1,0x8900A8D2,0x8A00A8D3,0x8B00A8D4,0x8C00A8D5,0x8D00A8D6,0x8E00A8D7],
    [0x8F00A8D8,0x9000A8D9,0x9100A8DA,0x9200A8DB,0x9300A8DC,0x9400A8DD,0x9500A8DE,0x9600A8DF,0x9700A8E0,0x9800A8E1],
    [0x9900A8E2,0x9A00A8E3,0x9B00A8E4,0x9C00A8E5,0x9D00A8E6,0x9E00A8E7,0x9F00A8E8,0xA000A8E9,0xA100A8EA,0xA200A8EB],
    [0xA300A8EC,0xA400A8ED,0xA500A8EE,0xA600A8EF,0xA700A8F0,0xA800A8F1,0xA900A8F2,0xAA00A8F3,0xAB00A8F4,0xAC00A8F5],
    [0xAD00A8F6,0xAE00A8F7,0xAF00A8F8,0xB000A8F9,0xB100A8FA,0xB200A8FB,0xB300A8FC,0xB400A8FD,0xB500A8FE,0xB600A8FF]]"

definition NODES_30 :: "nat list list" where
  "NODES_30 = [
    [0xB700A900,0xB800A901,0xB900A902,0xBA00A903,0xBB00A904,0xBC00A905,0xBD00A906,0xBE00A907,0xBF00A908,0x0025370E],
    [0x00253705,0x002536FC,0x002536F3,0x002536EA,0x002536E1,0x002536D8,0x002536CF,0x002536C6,0x002536BD,0x002536B4],
    [0x002536AB,0x002536A2,0x00253699,0x00253690,0x00253687,0x0025367E,0x00253675,0x0025366C,0x00253663,0x00193570],
    [0x0025365A,0x00253651,0x00253648,0x0025363F,0x00253636,0x0025362D,0x00253624,0x0025361B,0x00253612,0x00253609],
    [0x00253600,0x002535F7,0x002535EE,0x002535E5,0x002535DC,0x002535D3,0x002535CA,0x002535C1,0x002535B8,0x002535AF],
    [0x002535A6,0x0025359D,0x00253594,0x0025358B,0x00253582,0x00253579,0x00253570,0x0019347D,0x00253567,0x0025355E],
    [0x00253555,0x0025354C,0x00253543,0x0025353A,0x00253531,0x00253528,0x0025351F,0x00253516,0x0025350D,0x00253504],
    [0x002534FB,0x002534F2,0x002534E9,0x8000A949,0x8100A94A,0x8200A94B,0x8300A94C,0x8400A94D,0x8500A94E,0x8600A94F],
    [0x8700A950,0x8800A951,0x8900A952,0x8A00A953,0x8B00A954,0x8C00A955,0x8D00A956,0x8E00A957,0x8F00A958,0x9000A959],
    [0x9100A95A,0x9200A95B,0x9300A95C,0x9400A95D,0x9500A95E,0x9600A95F,0x9700A960,0x9800A961,0x9900A962,0x9A00A963],
    [0x9B00A964,0x9C00A965,0x9D00A966,0x9E00A967,0x9F00A968,0xA000A969,0xA100A96A,0xA200A96B,0xA300A96C,0xA400A96D],
    [0xA500A96E,0xA600A96F,0xA700A970,0xA800A971,0xA900A972,0xAA00A973,0xAB00A974,0xAC00A975,0xAD00A976,0xAE00A977],
    [0xAF00A978,0xB000A979,0xB100A97A,0xB200A97B,0xB300A97C,0xB400A97D,0xB500A97E,0xB600A97F,0xB700A980,0xB800A981],
    [0xB900A982,0xBA00A983,0xBB00A984,0xBC00A985,0xBD00A986,0xBE00A987,0xBF00A988,0x002534E0,0x002534D7,0x002534CE],
    [0x002534C5,0x002534BC,0x002534B3,0x002534AA,0x002534A1,0x00253498,0x0025348F,0x00253486,0x0025347D,0x0019338A],
    [0x00253474,0x0025346B,0x00253462,0x00253459,0x00253450,0x00253447,0x0025343E,0x00253435,0x0025342C,0x00253423],
    [0x0025341A,0x00253411,0x00253408,0x002533FF,0x002533F6,0x002533ED,0x002533E4,0x002533DB,0x002533D2,0x002533C9],
    [0x002533C0,0x002533B7,0x002533AE,0x002533A5,0x0025339C,0x00253393,0x0025338A,0x00193297,0x00253381,0x00253378],
    [0x0025336F,0x00253366,0x0025335D,0x00253354,0x0025334B,0x00253342,0x00253339,0x00253330,0x00253327,0x0025331E],
    [0x00253315,0x0025330C,0x00253303,0x002532FA,0x002532F1,0x002532E8,0x002532DF,0x002532D6,0x002532CD,0x002532C4],
    [0x002532BB,0x8000A9C9,0x8100A9CA,0x8200A9CB,0x8300A9CC,0x8400A9CD,0x8500A9CE,0x8600A9CF,0x8700A9D0,0x8800A9D1],
    [0x8900A9D2,0x8A00A9D3,0x8B00A9D4,0x8C00A9D5,0x8D00A9D6,0x8E00A9D7,0x8F00A9D8,0x9000A9D9,0x9100A9DA,0x9200A9DB],
    [0x9300A9DC,0x9400A9DD,0x9500A9DE,0x9600A9DF,0x9700A9E0,0x9800A9E1,0x9900A9E2,0x9A00A9E3,0x9B00A9E4,0x9C00A9E5],
    [0x9D00A9E6,0x9E00A9E7,0x9F00A9E8,0xA000A9E9,0xA100A9EA,0xA200A9EB,0xA300A9EC,0xA400A9ED,0xA500A9EE,0xA600A9EF],
    [0xA700A9F0,0xA800A9F1,0xA900A9F2,0xAA00A9F3,0xAB00A9F4,0xAC00A9F5,0xAD00A9F6,0xAE00A9F7,0xAF00A9F8,0xB000A9F9],
    [0xB100A9FA,0xB200A9FB,0xB300A9FC,0xB400A9FD,0xB500A9FE,0xB600A9FF,0xB700AA00,0xB800AA01,0xB900AA02,0xBA00AA03],
    [0xBB00AA04,0xBC00AA05,0xBD00AA06,0xBE00AA07,0xBF00AA08,0x002532B2,0x002532A9,0x002532A0,0x00253297,0x001931A4],
    [0x0025328E,0x00253285,0x0025327C,0x00253273,0x0025326A,0x00253261,0x00253258,0x0025324F,0x00253246,0x0025323D],
    [0x00253234,0x0025322B,0x00253222,0x00253219,0x00253210,0x00253207,0x002531FE,0x002531F5,0x002531EC,0x002531E3],
    [0x002531DA,0x002531D1,0x002531C8,0x002531BF,0x002531B6,0x002531AD,0x002531A4,0x001930B1,0x0025319B,0x00253192],
    [0x00253189,0x00253180,0x00253177,0x0025316E,0x00253165,0x0025315C,0x00253153,0x0025314A,0x00253141,0x00253138],
    [0x0025312F,0x00253126,0x0025311D,0x00253114,0x0025310B,0x00253102,0x002530F9,0x002530F0,0x002530E7,0x002530DE],
    [0x002530D5,0x002530CC,0x002530C3,0x002530BA,0x002530B1,0x00192FBE,0x002530A8,0x0025309F,0x00253096,0x8000AA49],
    [0x8100AA4A,0x8200AA4B,0x8300AA4C,0x8400AA4D,0x8500AA4E,0x8600AA4F,0x8700AA50,0x8800AA51,0x8900AA52,0x8A00AA53],
    [0x8B00AA54,0x8C00AA55,0x8D00AA56,0x8E00AA57,0x8F00AA58,0x9000AA59,0x9100AA5A,0x9200AA5B,0x9300AA5C,0x9400AA5D],
    [0x9500AA5E,0x9600AA5F,0x9700AA60,0x9800AA61,0x9900AA62,0x9A00AA63,0x9B00AA64,0x9C00AA65,0x9D00AA66,0x9E00AA67],
    [0x9F00AA68,0xA000AA69,0xA100AA6A,0xA200AA6B,0xA300AA6C,0xA400AA6D,0xA500AA6E,0xA600AA6F,0xA700AA70,0xA800AA71],
    [0xA900AA72,0xAA00AA73,0xAB00AA74,0xAC00AA75,0xAD00AA76,0xAE00AA77,0xAF00AA78,0xB000AA79,0xB100AA7A,0xB200AA7B],
    [0xB300AA7C,0xB400AA7D,0xB500AA7E,0xB600AA7F,0xB700AA80,0xB800AA81,0xB900AA82,0xBA00AA83,0xBB00AA84,0xBC00AA85],
    [0xBD00AA86,0xBE00AA87,0xBF00AA88,0x0025308D,0x00253084,0x0025307B,0x00253072,0x00253069,0x00253060,0x00253057],
    [0x0025304E,0x00253045,0x0025303C,0x00253033,0x0025302A,0x00253021,0x00253018,0x0025300F,0x00253006,0x00252FFD],
    [0x00252FF4,0x00252FEB,0x00252FE2,0x00252FD9,0x00252FD0,0x00252FC7,0x00252FBE,0x00192ECB,0x00252FB5,0x00252FAC],
    [0x00252FA3,0x00252F9A,0x00252F91,0x00252F88,0x00252F7F,0x00252F76,0x00252F6D,0x00252F64,0x00252F5B,0x00252F52],
    [0x00252F49,0x00252F40,0x00252F37,0x00252F2E,0x00252F25,0x00252F1C,0x00252F13,0x00252F0A,0x00252F01,0x00252EF8],
    [0x00252EEF,0x00252EE6,0x00252EDD,0x00252ED4,0x00252ECB,0x00192DD8,0x00252EC2,0x00252EB9,0x00252EB0,0x00252EA7],
    [0x00252E9E,0x00252E95,0x00252E8C,0x00252E83,0x00252E7A,0x00252E71,0x00252E68,0x8000AAC9,0x8100AACA,0x8200AACB],
    [0x8300AACC,0x8400AACD,0x8500AACE,0x8600AACF,0x8700AAD0,0x8800AAD1,0x8900AAD2,0x8A00AAD3,0x8B00AAD4,0x8C00AAD5],
    [0x8D00AAD6,0x8E00AAD7,0x8F00AAD8,0x9000AAD9,0x9100AADA,0x9200AADB,0x9300AADC,0x9400AADD,0x9500AADE,0x9600AADF],
    [0x9700AAE0,0x9800AAE1,0x9900AAE2,0x9A00AAE3,0x9B00AAE4,0x9C00AAE5,0x9D00AAE6,0x9E00AAE7,0x9F00AAE8,0xA000AAE9],
    [0xA100AAEA,0xA200AAEB,0xA300AAEC,0xA400AAED,0xA500AAEE,0xA600AAEF,0xA700AAF0,0xA800AAF1,0xA900AAF2,0xAA00AAF3],
    [0xAB00AAF4,0xAC00AAF5,0xAD00AAF6,0xAE00AAF7,0xAF00AAF8,0xB000AAF9,0xB100AAFA,0xB200AAFB,0xB300AAFC,0xB400AAFD],
    [0xB500AAFE,0xB600AAFF,0xB700AB00,0xB800AB01,0xB900AB02,0xBA00AB03,0xBB00AB04,0xBC00AB05,0xBD00AB06,0xBE00AB07],
    [0xBF00AB08,0x00252E5F,0x00252E56,0x00252E4D,0x00252E44,0x00252E3B,0x00252E32,0x00252E29,0x00252E20,0x00252E17],
    [0x00252E0E,0x00252E05,0x00252DFC,0x00252DF3,0x00252DEA,0x00252DE1,0x00252DD8,0x00192CE5,0x00252DCF,0x00252DC6],
    [0x00252DBD,0x00252DB4,0x00252DAB,0x00252DA2,0x00252D99,0x00252D90,0x00252D87,0x00252D7E,0x00252D75,0x00252D6C],
    [0x00252D63,0x00252D5A,0x00252D51,0x00252D48,0x00252D3F,0x00252D36,0x00252D2D,0x00252D24,0x00252D1B,0x00252D12],
    [0x00252D09,0x00252D00,0x00252CF7,0x00252CEE,0x00252CE5,0x00192BF2,0x00252CDC,0x00252CD3,0x00252CCA,0x00252CC1],
    [0x00252CB8,0x00252CAF,0x00252CA6,0x00252C9D,0x00252C94,0x00252C8B,0x00252C82,0x00252C79,0x00252C70,0x00252C67],
    [0x00252C5E,0x00252C55,0x00252C4C,0x00252C43,0x00252C3A,0x8000AB49,0x8100AB4A,0x8200AB4B,0x8300AB4C,0x8400AB4D],
    [0x8500AB4E,0x8600AB4F,0x8700AB50,0x8800AB51,0x8900AB52,0x8A00AB53,0x8B00AB54,0x8C00AB55,0x8D00AB56,0x8E00AB57],
    [0x8F00AB58,0x9000AB59,0x9100AB5A,0x9200AB5B,0x9300AB5C,0x9400AB5D,0x9500AB5E,0x9600AB5F,0x9700AB60,0x9800AB61],
    [0x9900AB62,0x9A00AB63,0x9B00AB64,0x9C00AB65,0x9D00AB66,0x9E00AB67,0x9F00AB68,0xA000AB69,0xA100AB6A,0xA200AB6B],
    [0xA300AB6C,0xA400AB6D,0xA500AB6E,0xA600AB6F,0xA700AB70,0xA800AB71,0xA900AB72,0xAA00AB73,0xAB00AB74,0xAC00AB75],
    [0xAD00AB76,0xAE00AB77,0xAF00AB78,0xB000AB79,0xB100AB7A,0xB200AB7B,0xB300AB7C,0xB400AB7D,0xB500AB7E,0xB600AB7F],
    [0xB700AB80,0xB800AB81,0xB900AB82,0xBA00AB83,0xBB00AB84,0xBC00AB85,0xBD00AB86,0xBE00AB87,0xBF00AB88,0x00252C31],
    [0x00252C28,0x00252C1F,0x00252C16,0x00252C0D,0x00252C04,0x00252BFB,0x00252BF2,0x00192AFF,0x00252BE9,0x00252BE0],
    [0x00252BD7,0x00252BCE,0x00252BC5,0x00252BBC,0x00252BB3,0x00252BAA,0x00252BA1,0x00252B98,0x00252B8F,0x00252B86],
    [0x00252B7D,0x00252B74,0x00252B6B,0x00252B62,0x00252B59,0x00252B50,0x00252B47,0x00252B3E,0x00252B35,0x00252B2C],
    [0x00252B23,0x00252B1A,0x00252B11,0x00252B08,0x00252AFF,0x00192A0C,0x00252AF6,0x00252AED,0x00252AE4,0x00252ADB],
    [0x00252AD2,0x00252AC9,0x00252AC0,0x00252AB7,0x00252AAE,0x00252AA5,0x00252A9C,0x00252A93,0x00252A8A,0x00252A81],
    [0x00252A78,0x00252A6F,0x00252A66,0x00252A5D,0x00252A54,0x00252A4B,0x00252A42,0x00252A39,0x00252A30,0x00252A27],
    [0x00252A1E,0x00252A15,0x00252A0C,0x8000ABC9,0x8100ABCA,0x8200ABCB,0x8300ABCC,0x8400ABCD,0x8500ABCE,0x8600ABCF],
    [0x8700ABD0,0x8800ABD1,0x8900ABD2,0x8A00ABD3,0x8B00ABD4,0x8C00ABD5,0x8D00ABD6,0x8E00ABD7,0x8F00ABD8,0x9000ABD9],
    [0x9100ABDA,0x9200ABDB,0x9300ABDC,0x9400ABDD,0x9500ABDE,0x9600ABDF,0x9700ABE0,0x9800ABE1,0x9900ABE2,0x9A00ABE3],
    [0x9B00ABE4,0x9C00ABE5,0x9D00ABE6,0x9E00ABE7,0x9F00ABE8,0xA000ABE9,0xA100ABEA,0xA200ABEB,0xA300ABEC,0xA400ABED],
    [0xA500ABEE,0xA600ABEF,0xA700ABF0,0xA800ABF1,0xA900ABF2,0xAA00ABF3,0xAB00ABF4,0xAC00ABF5,0xAD00ABF6,0xAE00ABF7],
    [0xAF00ABF8,0xB000ABF9,0xB100ABFA,0xB200ABFB,0xB300ABFC,0xB400ABFD,0xB500ABFE,0xB600ABFF,0xB700AC00,0xB800AC01],
    [0xB900AC02,0xBA00AC03,0xBB00AC04,0xBC00AC05,0xBD00AC06,0xBE00AC07,0xBF00AC08,0x00192919,0x00252A03,0x002529FA],
    [0x002529F1,0x002529E8,0x002529DF,0x002529D6,0x002529CD,0x002529C4,0x002529BB,0x002529B2,0x002529A9,0x002529A0],
    [0x00252997,0x0025298E,0x00252985,0x0025297C,0x00252973,0x0025296A,0x00252961,0x00252958,0x0025294F,0x00252946],
    [0x0025293D,0x00252934,0x0025292B,0x00252922,0x00252919,0x00192826,0x00252910,0x00252907,0x002528FE,0x002528F5],
    [0x002528EC,0x002528E3,0x002528DA,0x002528D1,0x002528C8,0x002528BF,0x002528B6,0x002528AD,0x002528A4,0x0025289B],
    [0x00252892,0x00252889,0x00252880,0x00252877,0x0025286E,0x00252865,0x0025285C,0x00252853,0x0025284A,0x00252841],
    [0x00252838,0x0025282F,0x00252826,0x00192733,0x0025281D,0x00252814,0x0025280B,0x00252802,0x002527F9,0x002527F0],
    [0x002527E7,0x8000AC49,0x8100AC4A,0x8200AC4B,0x8300AC4C,0x8400AC4D,0x8500AC4E,0x8600AC4F,0x8700AC50,0x8800AC51],
    [0x8900AC52,0x8A00AC53,0x8B00AC54,0x8C00AC55,0x8D00AC56,0x8E00AC57,0x8F00AC58,0x9000AC59,0x9100AC5A,0x9200AC5B],
    [0x9300AC5C,0x9400AC5D,0x9500AC5E,0x9600AC5F,0x9700AC60,0x9800AC61,0x9900AC62,0x9A00AC63,0x9B00AC64,0x9C00AC65],
    [0x9D00AC66,0x9E00AC67,0x9F00AC68,0xA000AC69,0xA100AC6A,0xA200AC6B,0xA300AC6C,0xA400AC6D,0xA500AC6E,0xA600AC6F],
    [0xA700AC70,0xA800AC71,0xA900AC72,0xAA00AC73,0xAB00AC74,0xAC00AC75,0xAD00AC76,0xAE00AC77,0xAF00AC78,0xB000AC79],
    [0xB100AC7A,0xB200AC7B,0xB300AC7C,0xB400AC7D,0xB500AC7E,0xB600AC7F,0xB700AC80,0xB800AC81,0xB900AC82,0xBA00AC83],
    [0xBB00AC84,0xBC00AC85,0xBD00AC86,0xBE00AC87,0xBF00AC88,0x002527DE,0x002527D5,0x002527CC,0x002527C3,0x002527BA],
    [0x002527B1,0x002527A8,0x0025279F,0x00252796,0x0025278D,0x00252784,0x0025277B,0x00252772,0x00252769,0x00252760],
    [0x00252757,0x0025274E,0x00252745,0x0025273C,0x00252733,0x00192640,0x0025272A,0x00252721,0x00252718,0x0025270F],
    [0x00252706,0x002526FD,0x002526F4,0x002526EB,0x002526E2,0x002526D9,0x002526D0,0x002526C7,0x002526BE,0x002526B5],
    [0x002526AC,0x002526A3,0x0025269A,0x00252691,0x00252688,0x0025267F,0x00252676,0x0025266D,0x00252664,0x0025265B],
    [0x00252652,0x00252649,0x00252640,0x0019254D,0x00252637,0x0025262E,0x00252625,0x0025261C,0x00252613,0x0025260A],
    [0x00252601,0x002525F8,0x002525EF,0x002525E6,0x002525DD,0x002525D4,0x002525CB,0x002525C2,0x002525B9,0x8000ACC9],
    [0x8100ACCA,0x8200ACCB,0x8300ACCC,0x8400ACCD,0x8500ACCE,0x8600ACCF,0x8700ACD0,0x8800ACD1,0x8900ACD2,0x8A00ACD3],
    [0x8B00ACD4,0x8C00ACD5,0x8D00ACD6,0x8E00ACD7,0x8F00ACD8,0x9000ACD9,0x9100ACDA,0x9200ACDB,0x9300ACDC,0x9400ACDD],
    [0x9500ACDE,0x9600ACDF,0x9700ACE0,0x9800ACE1,0x9900ACE2,0x9A00ACE3,0x9B00ACE4,0x9C00ACE5,0x9D00ACE6,0x9E00ACE7],
    [0x9F00ACE8,0xA000ACE9,0xA100ACEA,0xA200ACEB,0xA300ACEC,0xA400ACED,0xA500ACEE,0xA600ACEF,0xA700ACF0,0xA800ACF1],
    [0xA900ACF2,0xAA00ACF3,0xAB00ACF4,0xAC00ACF5,0xAD00ACF6,0xAE00ACF7,0xAF00ACF8,0xB000ACF9,0xB100ACFA,0xB200ACFB],
    [0xB300ACFC,0xB400ACFD,0xB500ACFE,0xB600ACFF,0xB700AD00,0xB800AD01,0xB900AD02,0xBA00AD03,0xBB00AD04,0xBC00AD05],
    [0xBD00AD06,0xBE00AD07,0xBF00AD08,0x002525B0,0x002525A7,0x0025259E,0x00252595,0x0025258C,0x00252583,0x0025257A],
    [0x00252571,0x00252568,0x0025255F,0x00252556,0x0025254D,0x0019245A,0x00252544,0x0025253B,0x00252532,0x00252529],
    [0x00252520,0x00252517,0x0025250E,0x00252505,0x002524FC,0x002524F3,0x002524EA,0x002524E1,0x002524D8,0x002524CF],
    [0x002524C6,0x002524BD,0x002524B4,0x002524AB,0x002524A2,0x00252499,0x00252490,0x00252487,0x0025247E,0x00252475],
    [0x0025246C,0x00252463,0x0025245A,0x00192367,0x00252451,0x00252448,0x0025243F,0x00252436,0x0025242D,0x00252424],
    [0x0025241B,0x00252412,0x00252409,0x00252400,0x002523F7,0x002523EE,0x002523E5,0x002523DC,0x002523D3,0x002523CA],
    [0x002523C1,0x002523B8,0x002523AF,0x002523A6,0x0025239D,0x00252394,0x0025238B,0x8000AD49,0x8100AD4A,0x8200AD4B],
    [0x8300AD4C,0x8400AD4D,0x8500AD4E,0x8600AD4F,0x8700AD50,0x8800AD51,0x8900AD52,0x8A00AD53,0x8B00AD54,0x8C00AD55],
    [0x8D00AD56,0x8E00AD57,0x8F00AD58,0x9000AD59,0x9100AD5A,0x9200AD5B,0x9300AD5C,0x9400AD5D,0x9500AD5E,0x9600AD5F],
    [0x9700AD60,0x9800AD61,0x9900AD62,0x9A00AD63,0x9B00AD64,0x9C00AD65,0x9D00AD66,0x9E00AD67,0x9F00AD68,0xA000AD69],
    [0xA100AD6A,0xA200AD6B,0xA300AD6C,0xA400AD6D,0xA500AD6E,0xA600AD6F,0xA700AD70,0xA800AD71,0xA900AD72,0xAA00AD73],
    [0xAB00AD74,0xAC00AD75,0xAD00AD76,0xAE00AD77,0xAF00AD78,0xB000AD79,0xB100AD7A,0xB200AD7B,0xB300AD7C,0xB400AD7D],
    [0xB500AD7E,0xB600AD7F,0xB700AD80,0xB800AD81,0xB900AD82,0xBA00AD83,0xBB00AD84,0xBC00AD85,0xBD00AD86,0xBE00AD87],
    [0xBF00AD88,0x00252382,0x00252379,0x00252370,0x00252367,0x00192274,0x0025235E,0x00252355,0x0025234C,0x00252343],
    [0x0025233A,0x00252331,0x00252328,0x0025231F,0x00252316,0x0025230D,0x00252304,0x002522FB,0x002522F2,0x002522E9],
    [0x002522E0,0x002522D7,0x002522CE,0x002522C5,0x002522BC,0x002522B3,0x002522AA,0x002522A1,0x00252298,0x0025228F],
    [0x00252286,0x0025227D,0x00252274,0x00192181,0x0025226B,0x00252262,0x00252259,0x00252250,0x00252247,0x0025223E],
    [0x00252235,0x0025222C,0x00252223,0x0025221A,0x00252211,0x00252208,0x002521FF,0x002521F6,0x002521ED,0x002521E4],
    [0x002521DB,0x002521D2,0x002521C9,0x002521C0,0x002521B7,0x002521AE,0x002521A5,0x0025219C,0x00252193,0x0025218A],
    [0x00252181,0x0019208E,0x00252178,0x0025216F,0x00252166,0x8000ADC9,0x8100ADCA,0x8200ADCB,0x8300ADCC,0x8400ADCD],
    [0x8500ADCE,0x8600ADCF,0x8700ADD0,0x8800ADD1,0x8900ADD2,0x8A00ADD3,0x8B00ADD4,0x8C00ADD5,0x8D00ADD6,0x8E00ADD7],
    [0x8F00ADD8,0x9000ADD9,0x9100ADDA,0x9200ADDB,0x9300ADDC,0x9400ADDD,0x9500ADDE,0x9600ADDF,0x9700ADE0,0x9800ADE1],
    [0x9900ADE2,0x9A00ADE3,0x9B00ADE4,0x9C00ADE5,0x9D00ADE6,0x9E00ADE7,0x9F00ADE8,0xA000ADE9,0xA100ADEA,0xA200ADEB],
    [0xA300ADEC,0xA400ADED,0xA500ADEE,0xA600ADEF,0xA700ADF0,0xA800ADF1,0xA900ADF2,0xAA00ADF3,0xAB00ADF4,0xAC00ADF5],
    [0xAD00ADF6,0xAE00ADF7,0xAF00ADF8,0xB000ADF9,0xB100ADFA,0xB200ADFB,0xB300ADFC,0xB400ADFD,0xB500ADFE,0xB600ADFF],
    [0xB700AE00,0xB800AE01,0xB900AE02,0xBA00AE03,0xBB00AE04,0xBC00AE05,0xBD00AE06,0xBE00AE07,0xBF00AE08,0x0025215D],
    [0x00252154,0x0025214B,0x00252142,0x00252139,0x00252130,0x00252127,0x0025211E,0x00252115,0x0025210C,0x00252103],
    [0x002520FA,0x002520F1,0x002520E8,0x002520DF,0x002520D6,0x002520CD,0x002520C4,0x002520BB,0x002520B2,0x002520A9],
    [0x002520A0,0x00252097,0x0025208E,0x00191F9B,0x00252085,0x0025207C,0x00252073,0x0025206A,0x00252061,0x00252058],
    [0x0025204F,0x00252046,0x0025203D,0x00252034,0x0025202B,0x00252022,0x00252019,0x00252010,0x00252007,0x00251FFE],
    [0x00251FF5,0x00251FEC,0x00251FE3,0x00251FDA,0x00251FD1,0x00251FC8,0x00251FBF,0x00251FB6,0x00251FAD,0x00251FA4],
    [0x00251F9B,0x00191EA8,0x00251F92,0x00251F89,0x00251F80,0x00251F77,0x00251F6E,0x00251F65,0x00251F5C,0x00251F53],
    [0x00251F4A,0x00251F41,0x00251F38,0x8000AE49,0x8100AE4A,0x8200AE4B,0x8300AE4C,0x8400AE4D,0x8500AE4E,0x8600AE4F],
    [0x8700AE50,0x8800AE51,0x8900AE52,0x8A00AE53,0x8B00AE54,0x8C00AE55,0x8D00AE56,0x8E00AE57,0x8F00AE58,0x9000AE59],
    [0x9100AE5A,0x9200AE5B,0x9300AE5C,0x9400AE5D,0x9500AE5E,0x9600AE5F,0x9700AE60,0x9800AE61,0x9900AE62,0x9A00AE63],
    [0x9B00AE64,0x9C00AE65,0x9D00AE66,0x9E00AE67,0x9F00AE68,0xA000AE69,0xA100AE6A,0xA200AE6B,0xA300AE6C,0xA400AE6D],
    [0xA500AE6E,0xA600AE6F,0xA700AE70,0xA800AE71,0xA900AE72,0xAA00AE73,0xAB00AE74,0xAC00AE75,0xAD00AE76,0xAE00AE77],
    [0xAF00AE78,0xB000AE79,0xB100AE7A,0xB200AE7B,0xB300AE7C,0xB400AE7D,0xB500AE7E,0xB600AE7F,0xB700AE80,0xB800AE81],
    [0xB900AE82,0xBA00AE83,0xBB00AE84,0xBC00AE85,0xBD00AE86,0xBE00AE87,0xBF00AE88,0x00251F2F,0x00251F26,0x00251F1D],
    [0x00251F14,0x00251F0B,0x00251F02,0x00251EF9,0x00251EF0,0x00251EE7,0x00251EDE,0x00251ED5,0x00251ECC,0x00251EC3],
    [0x00251EBA,0x00251EB1,0x00251EA8,0x00191DB5,0x00251E9F,0x00251E96,0x00251E8D,0x00251E84,0x00251E7B,0x00251E72]]"

definition NODES_31 :: "nat list list" where
  "NODES_31 = [
    [0x00251E69,0x00251E60,0x00251E57,0x00251E4E,0x00251E45,0x00251E3C,0x00251E33,0x00251E2A,0x00251E21,0x00251E18],
    [0x00251E0F,0x00251E06,0x00251DFD,0x00251DF4,0x00251DEB,0x00251DE2,0x00251DD9,0x00251DD0,0x00251DC7,0x00251DBE],
    [0x00251DB5,0x00191CC2,0x00251DAC,0x00251DA3,0x00251D9A,0x00251D91,0x00251D88,0x00251D7F,0x00251D76,0x00251D6D],
    [0x00251D64,0x00251D5B,0x00251D52,0x00251D49,0x00251D40,0x00251D37,0x00251D2E,0x00251D25,0x00251D1C,0x00251D13],
    [0x00251D0A,0x8000AEC9,0x8100AECA,0x8200AECB,0x8300AECC,0x8400AECD,0x8500AECE,0x8600AECF,0x8700AED0,0x8800AED1],
    [0x8900AED2,0x8A00AED3,0x8B00AED4,0x8C00AED5,0x8D00AED6,0x8E00AED7,0x8F00AED8,0x9000AED9,0x9100AEDA,0x9200AEDB],
    [0x9300AEDC,0x9400AEDD,0x9500AEDE,0x9600AEDF,0x9700AEE0,0x9800AEE1,0x9900AEE2,0x9A00AEE3,0x9B00AEE4,0x9C00AEE5],
    [0x9D00AEE6,0x9E00AEE7,0x9F00AEE8,0xA000AEE9,0xA100AEEA,0xA200AEEB,0xA300AEEC,0xA400AEED,0xA500AEEE,0xA600AEEF],
    [0xA700AEF0,0xA800AEF1,0xA900AEF2,0xAA00AEF3,0xAB00AEF4,0xAC00AEF5,0xAD00AEF6,0xAE00AEF7,0xAF00AEF8,0xB000AEF9],
    [0xB100AEFA,0xB200AEFB,0xB300AEFC,0xB400AEFD,0xB500AEFE,0xB600AEFF,0xB700AF00,0xB800AF01,0xB900AF02,0xBA00AF03],
    [0xBB00AF04,0xBC00AF05,0xBD00AF06,0xBE00AF07,0xBF00AF08,0x00251D01,0x00251CF8,0x00251CEF,0x00251CE6,0x00251CDD],
    [0x00251CD4,0x00251CCB,0x00251CC2,0x00191BCF,0x00251CB9,0x00251CB0,0x00251CA7,0x00251C9E,0x00251C95,0x00251C8C],
    [0x00251C83,0x00251C7A,0x00251C71,0x00251C68,0x00251C5F,0x00251C56,0x00251C4D,0x00251C44,0x00251C3B,0x00251C32],
    [0x00251C29,0x00251C20,0x00251C17,0x00251C0E,0x00251C05,0x00251BFC,0x00251BF3,0x00251BEA,0x00251BE1,0x00251BD8],
    [0x00251BCF,0x00191ADC,0x00251BC6,0x00251BBD,0x00251BB4,0x00251BAB,0x00251BA2,0x00251B99,0x00251B90,0x00251B87],
    [0x00251B7E,0x00251B75,0x00251B6C,0x00251B63,0x00251B5A,0x00251B51,0x00251B48,0x00251B3F,0x00251B36,0x00251B2D],
    [0x00251B24,0x00251B1B,0x00251B12,0x00251B09,0x00251B00,0x00251AF7,0x00251AEE,0x00251AE5,0x00251ADC,0x8000AF49],
    [0x8100AF4A,0x8200AF4B,0x8300AF4C,0x8400AF4D,0x8500AF4E,0x8600AF4F,0x8700AF50,0x8800AF51,0x8900AF52,0x8A00AF53],
    [0x8B00AF54,0x8C00AF55,0x8D00AF56,0x8E00AF57,0x8F00AF58,0x9000AF59,0x9100AF5A,0x9200AF5B,0x9300AF5C,0x9400AF5D],
    [0x9500AF5E,0x9600AF5F,0x9700AF60,0x9800AF61,0x9900AF62,0x9A00AF63,0x9B00AF64,0x9C00AF65,0x9D00AF66,0x9E00AF67],
    [0x9F00AF68,0xA000AF69,0xA100AF6A,0xA200AF6B,0xA300AF6C,0xA400AF6D,0xA500AF6E,0xA600AF6F,0xA700AF70,0xA800AF71],
    [0xA900AF72,0xAA00AF73,0xAB00AF74,0xAC00AF75,0xAD00AF76,0xAE00AF77,0xAF00AF78,0xB000AF79,0xB100AF7A,0xB200AF7B],
    [0xB300AF7C,0xB400AF7D,0xB500AF7E,0xB600AF7F,0xB700AF80,0xB800AF81,0xB900AF82,0xBA00AF83,0xBB00AF84,0xBC00AF85],
    [0xBD00AF86,0xBE00AF87,0xBF00AF88,0x001919E9,0x00251AD3,0x00251ACA,0x00251AC1,0x00251AB8,0x00251AAF,0x00251AA6],
    [0x00251A9D,0x00251A94,0x00251A8B,0x00251A82,0x00251A79,0x00251A70,0x00251A67,0x00251A5E,0x00251A55,0x00251A4C],
    [0x00251A43,0x00251A3A,0x00251A31,0x00251A28,0x00251A1F,0x00251A16,0x00251A0D,0x00251A04,0x002519FB,0x002519F2],
    [0x002519E9,0x001918F6,0x002519E0,0x002519D7,0x002519CE,0x002519C5,0x002519BC,0x002519B3,0x002519AA,0x002519A1],
    [0x00251998,0x0025198F,0x00251986,0x0025197D,0x00251974,0x0025196B,0x00251962,0x00251959,0x00251950,0x00251947],
    [0x0025193E,0x00251935,0x0025192C,0x00251923,0x0025191A,0x00251911,0x00251908,0x002518FF,0x002518F6,0x00191803],
    [0x002518ED,0x002518E4,0x002518DB,0x002518D2,0x002518C9,0x002518C0,0x002518B7,0x8000AFC9,0x8100AFCA,0x8200AFCB],
    [0x8300AFCC,0x8400AFCD,0x8500AFCE,0x8600AFCF,0x8700AFD0,0x8800AFD1,0x8900AFD2,0x8A00AFD3,0x8B00AFD4,0x8C00AFD5],
    [0x8D00AFD6,0x8E00AFD7,0x8F00AFD8,0x9000AFD9,0x9100AFDA,0x9200AFDB,0x9300AFDC,0x9400AFDD,0x9500AFDE,0x9600AFDF],
    [0x9700AFE0,0x9800AFE1,0x9900AFE2,0x9A00AFE3,0x9B00AFE4,0x9C00AFE5,0x9D00AFE6,0x9E00AFE7,0x9F00AFE8,0xA000AFE9],
    [0xA100AFEA,0xA200AFEB,0xA300AFEC,0xA400AFED,0xA500AFEE,0xA600AFEF,0xA700AFF0,0xA800AFF1,0xA900AFF2,0xAA00AFF3],
    [0xAB00AFF4,0xAC00AFF5,0xAD00AFF6,0xAE00AFF7,0xAF00AFF8,0xB000AFF9,0xB100AFFA,0xB200AFFB,0xB300AFFC,0xB400AFFD],
    [0xB500AFFE,0xB600AFFF,0xB700B000,0xB800B001,0xB900B002,0xBA00B003,0xBB00B004,0xBC00B005,0xBD00B006,0xBE00B007],
    [0xBF00B008,0x002518AE,0x002518A5,0x0025189C,0x00251893,0x0025188A,0x00251881,0x00251878,0x0025186F,0x00251866],
    [0x0025185D,0x00251854,0x0025184B,0x00251842,0x00251839,0x00251830,0x00251827,0x0025181E,0x00251815,0x0025180C],
    [0x00251803,0x00191710,0x002517FA,0x002517F1,0x002517E8,0x002517DF,0x002517D6,0x002517CD,0x002517C4,0x002517BB],
    [0x002517B2,0x002517A9,0x002517A0,0x00251797,0x0025178E,0x00251785,0x0025177C,0x00251773,0x0025176A,0x00251761],
    [0x00251758,0x0025174F,0x00251746,0x0025173D,0x00251734,0x0025172B,0x00251722,0x00251719,0x00251710,0x0019161D],
    [0x00251707,0x002516FE,0x002516F5,0x002516EC,0x002516E3,0x002516DA,0x002516D1,0x002516C8,0x002516BF,0x002516B6],
    [0x002516AD,0x002516A4,0x0025169B,0x00251692,0x00251689,0x8000B049,0x8100B04A,0x8200B04B,0x8300B04C,0x8400B04D],
    [0x8500B04E,0x8600B04F,0x8700B050,0x8800B051,0x8900B052,0x8A00B053,0x8B00B054,0x8C00B055,0x8D00B056,0x8E00B057],
    [0x8F00B058,0x9000B059,0x9100B05A,0x9200B05B,0x9300B05C,0x9400B05D,0x9500B05E,0x9600B05F,0x9700B060,0x9800B061],
    [0x9900B062,0x9A00B063,0x9B00B064,0x9C00B065,0x9D00B066,0x9E00B067,0x9F00B068,0xA000B069,0xA100B06A,0xA200B06B],
    [0xA300B06C,0xA400B06D,0xA500B06E,0xA600B06F,0xA700B070,0xA800B071,0xA900B072,0xAA00B073,0xAB00B074,0xAC00B075],
    [0xAD00B076,0xAE00B077,0xAF00B078,0xB000B079,0xB100B07A,0xB200B07B,0xB300B07C,0xB400B07D,0xB500B07E,0xB600B07F],
    [0xB700B080,0xB800B081,0xB900B082,0xBA00B083,0xBB00B084,0xBC00B085,0xBD00B086,0xBE00B087,0xBF00B088,0x00251680],
    [0x00251677,0x0025166E,0x00251665,0x0025165C,0x00251653,0x0025164A,0x00251641,0x00251638,0x0025162F,0x00251626],
    [0x0025161D,0x0019152A,0x00251614,0x0025160B,0x00251602,0x002515F9,0x002515F0,0x002515E7,0x002515DE,0x002515D5],
    [0x002515CC,0x002515C3,0x002515BA,0x002515B1,0x002515A8,0x0025159F,0x00251596,0x0025158D,0x00251584,0x0025157B],
    [0x00251572,0x00251569,0x00251560,0x00251557,0x0025154E,0x00251545,0x0025153C,0x00251533,0x0025152A,0x00191440],
    [0x00251521,0x00251518,0x0025150F,0x00251506,0x002514FD,0x002514F4,0x002514EB,0x002514E2,0x002514D9,0x002514D0],
    [0x002514C7,0x002514BE,0x002514B5,0x002514AC,0x002514A3,0x0026343F,0x0025149A,0x00251491,0x00251488,0x0025147F],
    [0x00251476,0x0025146D,0x00251464,0x8000B0C9,0x8100B0CA,0x8200B0CB,0x8300B0CC,0x8400B0CD,0x8500B0CE,0x8600B0CF],
    [0x8700B0D0,0x8800B0D1,0x8900B0D2,0x8A00B0D3,0x8B00B0D4,0x8C00B0D5,0x8D00B0D6,0x8E00B0D7,0x8F00B0D8,0x9000B0D9],
    [0x9100B0DA,0x9200B0DB,0x9300B0DC,0x9400B0DD,0x9500B0DE,0x9600B0DF,0x9700B0E0,0x9800B0E1,0x9900B0E2,0x9A00B0E3],
    [0x9B00B0E4,0x9C00B0E5,0x9D00B0E6,0x9E00B0E7,0x9F00B0E8,0xA000B0E9,0xA100B0EA,0xA200B0EB,0xA300B0EC,0xA400B0ED],
    [0xA500B0EE,0xA600B0EF,0xA700B0F0,0xA800B0F1,0xA900B0F2,0xAA00B0F3,0xAB00B0F4,0xAC00B0F5,0xAD00B0F6,0xAE00B0F7],
    [0xAF00B0F8,0xB000B0F9,0xB100B0FA,0xB200B0FB,0xB300B0FC,0xB400B0FD,0xB500B0FE,0xB600B0FF,0xB700B100,0xB800B101],
    [0xB900B102,0xBA00B103,0xBB00B104,0xBC00B105,0xBD00B106,0xBE00B107,0xBF00B108,0x0025145B,0x00251452,0x00251449],
    [0x00251440,0x0019134D,0x00251437,0x0025142E,0x00251425,0x0025141C,0x00251413,0x0025140A,0x00251401,0x002513F8],
    [0x002513EF,0x002513E6,0x002513DD,0x002513D4,0x002513CB,0x002513C2,0x002513B9,0x002513B0,0x002513A7,0x0025139E],
    [0x00251395,0x0025138C,0x00251383,0x0025137A,0x00251371,0x00251368,0x0025135F,0x00251356,0x0025134D,0x0019125A],
    [0x00251344,0x0025133B,0x00251332,0x00251329,0x00251320,0x00251317,0x0025130E,0x00251305,0x002512FC,0x002512F3],
    [0x002512EA,0x002512E1,0x002512D8,0x002512CF,0x002512C6,0x002512BD,0x002512B4,0x002512AB,0x002512A2,0x00251299],
    [0x00251290,0x00251287,0x0025127E,0x00251275,0x0025126C,0x00251263,0x0025125A,0x00191167,0x00251251,0x00251248],
    [0x0025123F,0x8000B149,0x8100B14A,0x8200B14B,0x8300B14C,0x8400B14D,0x8500B14E,0x8600B14F,0x8700B150,0x8800B151],
    [0x8900B152,0x8A00B153,0x8B00B154,0x8C00B155,0x8D00B156,0x8E00B157,0x8F00B158,0x9000B159,0x9100B15A,0x9200B15B],
    [0x9300B15C,0x9400B15D,0x9500B15E,0x9600B15F,0x9700B160,0x9800B161,0x9900B162,0x9A00B163,0x9B00B164,0x9C00B165],
    [0x9D00B166,0x9E00B167,0x9F00B168,0xA000B169,0xA100B16A,0xA200B16B,0xA300B16C,0xA400B16D,0xA500B16E,0xA600B16F],
    [0xA700B170,0xA800B171,0xA900B172,0xAA00B173,0xAB00B174,0xAC00B175,0xAD00B176,0xAE00B177,0xAF00B178,0xB000B179],
    [0xB100B17A,0xB200B17B,0xB300B17C,0xB400B17D,0xB500B17E,0xB600B17F,0xB700B180,0xB800B181,0xB900B182,0xBA00B183],
    [0xBB00B184,0xBC00B185,0xBD00B186,0xBE00B187,0xBF00B188,0x00251236,0x0025122D,0x00251224,0x0025121B,0x00251212],
    [0x00251209,0x00251200,0x002511F7,0x002511EE,0x002511E5,0x002511DC,0x002511D3,0x002511CA,0x002511C1,0x002511B8],
    [0x002511AF,0x002511A6,0x0025119D,0x00251194,0x0025118B,0x00251182,0x00251179,0x00251170,0x00251167,0x00191074],
    [0x0025115E,0x00251155,0x0025114C,0x00251143,0x0025113A,0x00251131,0x00251128,0x0025111F,0x00251116,0x0025110D],
    [0x00251104,0x002510FB,0x002510F2,0x002510E9,0x002510E0,0x002510D7,0x002510CE,0x002510C5,0x002510BC,0x002510B3],
    [0x002510AA,0x002510A1,0x00251098,0x0025108F,0x00251086,0x0025107D,0x00251074,0x00190F81,0x0025106B,0x00251062],
    [0x00251059,0x00251050,0x00251047,0x0025103E,0x00251035,0x0025102C,0x00251023,0x0025101A,0x00251011,0x8000B1C9],
    [0x8100B1CA,0x8200B1CB,0x8300B1CC,0x8400B1CD,0x8500B1CE,0x8600B1CF,0x8700B1D0,0x8800B1D1,0x8900B1D2,0x8A00B1D3],
    [0x8B00B1D4,0x8C00B1D5,0x8D00B1D6,0x8E00B1D7,0x8F00B1D8,0x9000B1D9,0x9100B1DA,0x9200B1DB,0x9300B1DC,0x9400B1DD],
    [0x9500B1DE,0x9600B1DF,0x9700B1E0,0x9800B1E1,0x9900B1E2,0x9A00B1E3,0x9B00B1E4,0x9C00B1E5,0x9D00B1E6,0x9E00B1E7],
    [0x9F00B1E8,0xA000B1E9,0xA100B1EA,0xA200B1EB,0xA300B1EC,0xA400B1ED,0xA500B1EE,0xA600B1EF,0xA700B1F0,0xA800B1F1],
    [0xA900B1F2,0xAA00B1F3,0xAB00B1F4,0xAC00B1F5,0xAD00B1F6,0xAE00B1F7,0xAF00B1F8,0xB000B1F9,0xB100B1FA,0xB200B1FB],
    [0xB300B1FC,0xB400B1FD,0xB500B1FE,0xB600B1FF,0xB700B200,0xB800B201,0xB900B202,0xBA00B203,0xBB00B204,0xBC00B205],
    [0xBD00B206,0xBE00B207,0xBF00B208,0x00251008,0x00250FFF,0x00250FF6,0x00250FED,0x00250FE4,0x00250FDB,0x00250FD2],
    [0x00250FC9,0x00250FC0,0x00250FB7,0x00250FAE,0x00250FA5,0x00250F9C,0x00250F93,0x00250F8A,0x00250F81,0x00190E8E],
    [0x00250F78,0x00250F6F,0x00250F66,0x00250F5D,0x00250F54,0x00250F4B,0x00250F42,0x00250F39,0x00250F30,0x00250F27],
    [0x00250F1E,0x00250F15,0x00250F0C,0x00250F03,0x00250EFA,0x00250EF1,0x00250EE8,0x00250EDF,0x00250ED6,0x00250ECD],
    [0x00250EC4,0x00250EBB,0x00250EB2,0x00250EA9,0x00250EA0,0x00250E97,0x00250E8E,0x00190D9B,0x00250E85,0x00250E7C],
    [0x00250E73,0x00250E6A,0x00250E61,0x00250E58,0x00250E4F,0x00250E46,0x00250E3D,0x00250E34,0x00250E2B,0x00250E22],
    [0x00250E19,0x00250E10,0x00250E07,0x00250DFE,0x00250DF5,0x00250DEC,0x00250DE3,0x8000B249,0x8100B24A,0x8200B24B],
    [0x8300B24C,0x8400B24D,0x8500B24E,0x8600B24F,0x8700B250,0x8800B251,0x8900B252,0x8A00B253,0x8B00B254,0x8C00B255],
    [0x8D00B256,0x8E00B257,0x8F00B258,0x9000B259,0x9100B25A,0x9200B25B,0x9300B25C,0x9400B25D,0x9500B25E,0x9600B25F],
    [0x9700B260,0x9800B261,0x9900B262,0x9A00B263,0x9B00B264,0x9C00B265,0x9D00B266,0x9E00B267,0x9F00B268,0xA000B269],
    [0xA100B26A,0xA200B26B,0xA300B26C,0xA400B26D,0xA500B26E,0xA600B26F,0xA700B270,0xA800B271,0xA900B272,0xAA00B273],
    [0xAB00B274,0xAC00B275,0xAD00B276,0xAE00B277,0xAF00B278,0xB000B279,0xB100B27A,0xB200B27B,0xB300B27C,0xB400B27D],
    [0xB500B27E,0xB600B27F,0xB700B280,0xB800B281,0xB900B282,0xBA00B283,0xBB00B284,0xBC00B285,0xBD00B286,0xBE00B287],
    [0xBF00B288,0x00250DDA,0x00250DD1,0x00250DC8,0x00250DBF,0x00250DB6,0x00250DAD,0x00250DA4,0x00250D9B,0x00190CA8],
    [0x00250D92,0x00250D89,0x00250D80,0x00250D77,0x00250D6E,0x00250D65,0x00250D5C,0x00250D53,0x00250D4A,0x00250D41],
    [0x00250D38,0x00250D2F,0x00250D26,0x00250D1D,0x00250D14,0x00250D0B,0x00250D02,0x00250CF9,0x00250CF0,0x00250CE7],
    [0x00250CDE,0x00250CD5,0x00250CCC,0x00250CC3,0x00250CBA,0x00250CB1,0x00250CA8,0x00190BB5,0x00250C9F,0x00250C96],
    [0x00250C8D,0x00250C84,0x00250C7B,0x00250C72,0x00250C69,0x00250C60,0x00250C57,0x00250C4E,0x00250C45,0x00250C3C],
    [0x00250C33,0x00250C2A,0x00250C21,0x00250C18,0x00250C0F,0x00250C06,0x00250BFD,0x00250BF4,0x00250BEB,0x00250BE2],
    [0x00250BD9,0x00250BD0,0x00250BC7,0x00250BBE,0x00250BB5,0x8000B2C9,0x8100B2CA,0x8200B2CB,0x8300B2CC,0x8400B2CD],
    [0x8500B2CE,0x8600B2CF,0x8700B2D0,0x8800B2D1,0x8900B2D2,0x8A00B2D3,0x8B00B2D4,0x8C00B2D5,0x8D00B2D6,0x8E00B2D7],
    [0x8F00B2D8,0x9000B2D9,0x9100B2DA,0x9200B2DB,0x9300B2DC,0x9400B2DD,0x9500B2DE,0x9600B2DF,0x9700B2E0,0x9800B2E1],
    [0x9900B2E2,0x9A00B2E3,0x9B00B2E4,0x9C00B2E5,0x9D00B2E6,0x9E00B2E7,0x9F00B2E8,0xA000B2E9,0xA100B2EA,0xA200B2EB],
    [0xA300B2EC,0xA400B2ED,0xA500B2EE,0xA600B2EF,0xA700B2F0,0xA800B2F1,0xA900B2F2,0xAA00B2F3,0xAB00B2F4,0xAC00B2F5],
    [0xAD00B2F6,0xAE00B2F7,0xAF00B2F8,0xB000B2F9,0xB100B2FA,0xB200B2FB,0xB300B2FC,0xB400B2FD,0xB500B2FE,0xB600B2FF],
    [0xB700B300,0xB800B301,0xB900B302,0xBA00B303,0xBB00B304,0xBC00B305,0xBD00B306,0xBE00B307,0xBF00B308,0x00190AC2],
    [0x00250BAC,0x00250BA3,0x00250B9A,0x00250B91,0x00250B88,0x00250B7F,0x00250B76,0x00250B6D,0x00250B64,0x00250B5B],
    [0x00250B52,0x00250B49,0x00250B40,0x00250B37,0x00250B2E,0x00250B25,0x00250B1C,0x00250B13,0x00250B0A,0x00250B01],
    [0x00250AF8,0x00250AEF,0x00250AE6,0x00250ADD,0x00250AD4,0x00250ACB,0x00250AC2,0x001909CF,0x00250AB9,0x00250AB0],
    [0x00250AA7,0x00250A9E,0x00250A95,0x00250A8C,0x00250A83,0x00250A7A,0x00250A71,0x00250A68,0x00250A5F,0x00250A56],
    [0x00250A4D,0x00250A44,0x00250A3B,0x00250A32,0x00250A29,0x00250A20,0x00250A17,0x00250A0E,0x00250A05,0x002509FC],
    [0x002509F3,0x002509EA,0x002509E1,0x002509D8,0x002509CF,0x001908DC,0x002509C6,0x002509BD,0x002509B4,0x002509AB],
    [0x002509A2,0x00250999,0x00250990,0x8000B349,0x8100B34A,0x8200B34B,0x8300B34C,0x8400B34D,0x8500B34E,0x8600B34F],
    [0x8700B350,0x8800B351,0x8900B352,0x8A00B353,0x8B00B354,0x8C00B355,0x8D00B356,0x8E00B357,0x8F00B358,0x9000B359],
    [0x9100B35A,0x9200B35B,0x9300B35C,0x9400B35D,0x9500B35E,0x9600B35F,0x9700B360,0x9800B361,0x9900B362,0x9A00B363],
    [0x9B00B364,0x9C00B365,0x9D00B366,0x9E00B367,0x9F00B368,0xA000B369,0xA100B36A,0xA200B36B,0xA300B36C,0xA400B36D],
    [0xA500B36E,0xA600B36F,0xA700B370,0xA800B371,0xA900B372,0xAA00B373,0xAB00B374,0xAC00B375,0xAD00B376,0xAE00B377],
    [0xAF00B378,0xB000B379,0xB100B37A,0xB200B37B,0xB300B37C,0xB400B37D,0xB500B37E,0xB600B37F,0xB700B380,0xB800B381],
    [0xB900B382,0xBA00B383,0xBB00B384,0xBC00B385,0xBD00B386,0xBE00B387,0xBF00B388,0x00250987,0x0025097E,0x00250975],
    [0x0025096C,0x00250963,0x0025095A,0x00250951,0x00250948,0x0025093F,0x00250936,0x0025092D,0x00250924,0x0025091B],
    [0x00250912,0x00250909,0x00250900,0x002508F7,0x002508EE,0x002508E5,0x002508DC,0x001907E9,0x002508D3,0x002508CA],
    [0x002508C1,0x002508B8,0x002508AF,0x002508A6,0x0025089D,0x00250894,0x0025088B,0x00250882,0x00250879,0x00250870],
    [0x00250867,0x0025085E,0x00250855,0x0025084C,0x00250843,0x0025083A,0x00250831,0x00250828,0x0025081F,0x00250816],
    [0x0025080D,0x00250804,0x002507FB,0x002507F2,0x002507E9,0x001906F6,0x002507E0,0x002507D7,0x002507CE,0x002507C5],
    [0x002507BC,0x002507B3,0x002507AA,0x002507A1,0x00250798,0x0025078F,0x00250786,0x0025077D,0x00250774,0x0025076B],
    [0x00250762,0x8000B3C9,0x8100B3CA,0x8200B3CB,0x8300B3CC,0x8400B3CD,0x8500B3CE,0x8600B3CF,0x8700B3D0,0x8800B3D1],
    [0x8900B3D2,0x8A00B3D3,0x8B00B3D4,0x8C00B3D5,0x8D00B3D6,0x8E00B3D7,0x8F00B3D8,0x9000B3D9,0x9100B3DA,0x9200B3DB],
    [0x9300B3DC,0x9400B3DD,0x9500B3DE,0x9600B3DF,0x9700B3E0,0x9800B3E1,0x9900B3E2,0x9A00B3E3,0x9B00B3E4,0x9C00B3E5],
    [0x9D00B3E6,0x9E00B3E7,0x9F00B3E8,0xA000B3E9,0xA100B3EA,0xA200B3EB,0xA300B3EC,0xA400B3ED,0xA500B3EE,0xA600B3EF],
    [0xA700B3F0,0xA800B3F1,0xA900B3F2,0xAA00B3F3,0xAB00B3F4,0xAC00B3F5,0xAD00B3F6,0xAE00B3F7,0xAF00B3F8,0xB000B3F9],
    [0xB100B3FA,0xB200B3FB,0xB300B3FC,0xB400B3FD,0xB500B3FE,0xB600B3FF,0xB700B400,0xB800B401,0xB900B402,0xBA00B403],
    [0xBB00B404,0xBC00B405,0xBD00B406,0xBE00B407,0xBF00B408,0x00250759,0x00250750,0x00250747,0x0025073E,0x00250735],
    [0x0025072C,0x00250723,0x0025071A,0x00250711,0x00250708,0x002506FF,0x002506F6,0x00190603,0x002506ED,0x002506E4],
    [0x002506DB,0x002506D2,0x002506C9,0x002506C0,0x002506B7,0x002506AE,0x002506A5,0x0025069C,0x00250693,0x0025068A],
    [0x00250681,0x00250678,0x0025066F,0x00250666,0x0025065D,0x00250654,0x0025064B,0x00250642,0x00250639,0x00250630],
    [0x00250627,0x0025061E,0x00250615,0x0025060C,0x00250603,0x00190510,0x002505FA,0x002505F1,0x002505E8,0x002505DF],
    [0x002505D6,0x002505CD,0x002505C4,0x002505BB,0x002505B2,0x002505A9,0x002505A0,0x00250597,0x0025058E,0x00250585]]"

definition NODES_32 :: "nat list list" where
  "NODES_32 = [
    [0x0025057C,0x00250573,0x0025056A,0x00250561,0x00250558,0x0025054F,0x00250546,0x0025053D,0x00250534,0x8000B449],
    [0x8100B44A,0x8200B44B,0x8300B44C,0x8400B44D,0x8500B44E,0x8600B44F,0x8700B450,0x8800B451,0x8900B452,0x8A00B453],
    [0x8B00B454,0x8C00B455,0x8D00B456,0x8E00B457,0x8F00B458,0x9000B459,0x9100B45A,0x9200B45B,0x9300B45C,0x9400B45D],
    [0x9500B45E,0x9600B45F,0x9700B460,0x9800B461,0x9900B462,0x9A00B463,0x9B00B464,0x9C00B465,0x9D00B466,0x9E00B467],
    [0x9F00B468,0xA000B469,0xA100B46A,0xA200B46B,0xA300B46C,0xA400B46D,0xA500B46E,0xA600B46F,0xA700B470,0xA800B471],
    [0xA900B472,0xAA00B473,0xAB00B474,0xAC00B475,0xAD00B476,0xAE00B477,0xAF00B478,0xB000B479,0xB100B47A,0xB200B47B],
    [0xB300B47C,0xB400B47D,0xB500B47E,0xB600B47F,0xB700B480,0xB800B481,0xB900B482,0xBA00B483,0xBB00B484,0xBC00B485],
    [0xBD00B486,0xBE00B487,0xBF00B488,0x0025052B,0x00250522,0x00250519,0x00250510,0x0019041D,0x00250507,0x002504FE],
    [0x002504F5,0x002504EC,0x002504E3,0x002504DA,0x002504D1,0x002504C8,0x002504BF,0x002504B6,0x002504AD,0x002504A4],
    [0x0025049B,0x00250492,0x00250489,0x00250480,0x00250477,0x0025046E,0x00250465,0x0025045C,0x00250453,0x0025044A],
    [0x00250441,0x00250438,0x0025042F,0x00250426,0x0025041D,0x0019032A,0x00250414,0x0025040B,0x00250402,0x002503F9],
    [0x002503F0,0x002503E7,0x002503DE,0x002503D5,0x002503CC,0x002503C3,0x002503BA,0x002503B1,0x002503A8,0x0025039F],
    [0x00250396,0x0025038D,0x00250384,0x0025037B,0x00250372,0x00250369,0x00250360,0x00250357,0x0025034E,0x00250345],
    [0x0025033C,0x00250333,0x0025032A,0x00190237,0x00250321,0x00250318,0x0025030F,0x8000B4C9,0x8100B4CA,0x8200B4CB],
    [0x8300B4CC,0x8400B4CD,0x8500B4CE,0x8600B4CF,0x8700B4D0,0x8800B4D1,0x8900B4D2,0x8A00B4D3,0x8B00B4D4,0x8C00B4D5],
    [0x8D00B4D6,0x8E00B4D7,0x8F00B4D8,0x9000B4D9,0x9100B4DA,0x9200B4DB,0x9300B4DC,0x9400B4DD,0x9500B4DE,0x9600B4DF],
    [0x9700B4E0,0x9800B4E1,0x9900B4E2,0x9A00B4E3,0x9B00B4E4,0x9C00B4E5,0x9D00B4E6,0x9E00B4E7,0x9F00B4E8,0xA000B4E9],
    [0xA100B4EA,0xA200B4EB,0xA300B4EC,0xA400B4ED,0xA500B4EE,0xA600B4EF,0xA700B4F0,0xA800B4F1,0xA900B4F2,0xAA00B4F3],
    [0xAB00B4F4,0xAC00B4F5,0xAD00B4F6,0xAE00B4F7,0xAF00B4F8,0xB000B4F9,0xB100B4FA,0xB200B4FB,0xB300B4FC,0xB400B4FD],
    [0xB500B4FE,0xB600B4FF,0xB700B500,0xB800B501,0xB900B502,0xBA00B503,0xBB00B504,0xBC00B505,0xBD00B506,0xBE00B507],
    [0xBF00B508,0x00250306,0x002502FD,0x002502F4,0x002502EB,0x002502E2,0x002502D9,0x002502D0,0x002502C7,0x002502BE],
    [0x002502B5,0x002502AC,0x002502A3,0x0025029A,0x00250291,0x00250288,0x0025027F,0x00250276,0x0025026D,0x00250264],
    [0x0025025B,0x00250252,0x00250249,0x00250240,0x00250237,0x00190144,0x0025022E,0x00250225,0x0025021C,0x00250213],
    [0x0025020A,0x00250201,0x002501F8,0x002501EF,0x002501E6,0x002501DD,0x002501D4,0x002501CB,0x002501C2,0x002501B9],
    [0x002501B0,0x002501A7,0x0025019E,0x00250195,0x0025018C,0x00250183,0x0025017A,0x00250171,0x00250168,0x0025015F],
    [0x00250156,0x0025014D,0x00250144,0x00190051,0x0025013B,0x00250132,0x00250129,0x00250120,0x00250117,0x0025010E],
    [0x00250105,0x002500FC,0x002500F3,0x002500EA,0x002500E1,0x8000B549,0x8100B54A,0x8200B54B,0x8300B54C,0x8400B54D],
    [0x8500B54E,0x8600B54F,0x8700B550,0x8800B551,0x8900B552,0x8A00B553,0x8B00B554,0x8C00B555,0x8D00B556,0x8E00B557],
    [0x8F00B558,0x9000B559,0x9100B55A,0x9200B55B,0x9300B55C,0x9400B55D,0x9500B55E,0x9600B55F,0x9700B560,0x9800B561],
    [0x9900B562,0x9A00B563,0x9B00B564,0x9C00B565,0x9D00B566,0x9E00B567,0x9F00B568,0xA000B569,0xA100B56A,0xA200B56B],
    [0xA300B56C,0xA400B56D,0xA500B56E,0xA600B56F,0xA700B570,0xA800B571,0xA900B572,0xAA00B573,0xAB00B574,0xAC00B575],
    [0xAD00B576,0xAE00B577,0xAF00B578,0xB000B579,0xB100B57A,0xB200B57B,0xB300B57C,0xB400B57D,0xB500B57E,0xB600B57F],
    [0xB700B580,0xB800B581,0xB900B582,0xBA00B583,0xBB00B584,0xBC00B585,0xBD00B586,0xBE00B587,0xBF00B588,0x002500D8],
    [0x002500CF,0x002500C6,0x002500BD,0x002500B4,0x002500AB,0x002500A2,0x00250099,0x00250090,0x00250087,0x0025007E],
    [0x00250075,0x0025006C,0x00250063,0x0025005A,0x00250051,0x0018FF5E,0x00250048,0x0025003F,0x00250036,0x0025002D],
    [0x00250024,0x0025001B,0x00250012,0x00250009,0x00250000,0x0024FFF7,0x0024FFEE,0x0024FFE5,0x0024FFDC,0x0024FFD3],
    [0x0024FFCA,0x0024FFC1,0x0024FFB8,0x0024FFAF,0x0024FFA6,0x0024FF9D,0x0024FF94,0x0024FF8B,0x0024FF82,0x0024FF79],
    [0x0024FF70,0x0024FF67,0x0024FF5E,0x0018FE6B,0x0024FF55,0x0024FF4C,0x0024FF43,0x0024FF3A,0x0024FF31,0x0024FF28],
    [0x0024FF1F,0x0024FF16,0x0024FF0D,0x0024FF04,0x0024FEFB,0x0024FEF2,0x0024FEE9,0x0024FEE0,0x0024FED7,0x0024FECE],
    [0x0024FEC5,0x0024FEBC,0x0024FEB3,0x8000B5C9,0x8100B5CA,0x8200B5CB,0x8300B5CC,0x8400B5CD,0x8500B5CE,0x8600B5CF],
    [0x8700B5D0,0x8800B5D1,0x8900B5D2,0x8A00B5D3,0x8B00B5D4,0x8C00B5D5,0x8D00B5D6,0x8E00B5D7,0x8F00B5D8,0x9000B5D9],
    [0x9100B5DA,0x9200B5DB,0x9300B5DC,0x9400B5DD,0x9500B5DE,0x9600B5DF,0x9700B5E0,0x9800B5E1,0x9900B5E2,0x9A00B5E3],
    [0x9B00B5E4,0x9C00B5E5,0x9D00B5E6,0x9E00B5E7,0x9F00B5E8,0xA000B5E9,0xA100B5EA,0xA200B5EB,0xA300B5EC,0xA400B5ED],
    [0xA500B5EE,0xA600B5EF,0xA700B5F0,0xA800B5F1,0xA900B5F2,0xAA00B5F3,0xAB00B5F4,0xAC00B5F5,0xAD00B5F6,0xAE00B5F7],
    [0xAF00B5F8,0xB000B5F9,0xB100B5FA,0xB200B5FB,0xB300B5FC,0xB400B5FD,0xB500B5FE,0xB600B5FF,0xB700B600,0xB800B601],
    [0xB900B602,0xBA00B603,0xBB00B604,0xBC00B605,0xBD00B606,0xBE00B607,0xBF00B608,0x0024FEAA,0x0024FEA1,0x0024FE98],
    [0x0024FE8F,0x0024FE86,0x0024FE7D,0x0024FE74,0x0024FE6B,0x0018FD78,0x0024FE62,0x0024FE59,0x0024FE50,0x0024FE47],
    [0x0024FE3E,0x0024FE35,0x0024FE2C,0x0024FE23,0x0024FE1A,0x0024FE11,0x0024FE08,0x0024FDFF,0x0024FDF6,0x0024FDED],
    [0x0024FDE4,0x0024FDDB,0x0024FDD2,0x0024FDC9,0x0024FDC0,0x0024FDB7,0x0024FDAE,0x0024FDA5,0x0024FD9C,0x0024FD93],
    [0x0024FD8A,0x0024FD81,0x0024FD78,0x0018FC85,0x0024FD6F,0x0024FD66,0x0024FD5D,0x0024FD54,0x0024FD4B,0x0024FD42],
    [0x0024FD39,0x0024FD30,0x0024FD27,0x0024FD1E,0x0024FD15,0x0024FD0C,0x0024FD03,0x0024FCFA,0x0024FCF1,0x0024FCE8],
    [0x0024FCDF,0x0024FCD6,0x0024FCCD,0x0024FCC4,0x0024FCBB,0x0024FCB2,0x0024FCA9,0x0024FCA0,0x0024FC97,0x0024FC8E],
    [0x0024FC85,0x8000B649,0x8100B64A,0x8200B64B,0x8300B64C,0x8400B64D,0x8500B64E,0x8600B64F,0x8700B650,0x8800B651],
    [0x8900B652,0x8A00B653,0x8B00B654,0x8C00B655,0x8D00B656,0x8E00B657,0x8F00B658,0x9000B659,0x9100B65A,0x9200B65B],
    [0x9300B65C,0x9400B65D,0x9500B65E,0x9600B65F,0x9700B660,0x9800B661,0x9900B662,0x9A00B663,0x9B00B664,0x9C00B665],
    [0x9D00B666,0x9E00B667,0x9F00B668,0xA000B669,0xA100B66A,0xA200B66B,0xA300B66C,0xA400B66D,0xA500B66E,0xA600B66F],
    [0xA700B670,0xA800B671,0xA900B672,0xAA00B673,0xAB00B674,0xAC00B675,0xAD00B676,0xAE00B677,0xAF00B678,0xB000B679],
    [0xB100B67A,0xB200B67B,0xB300B67C,0xB400B67D,0xB500B67E,0xB600B67F,0xB700B680,0xB800B681,0xB900B682,0xBA00B683],
    [0xBB00B684,0xBC00B685,0xBD00B686,0xBE00B687,0xBF00B688,0x0018FB92,0x0024FC7C,0x0024FC73,0x0024FC6A,0x0024FC61],
    [0x0024FC58,0x0024FC4F,0x0024FC46,0x0024FC3D,0x0024FC34,0x0024FC2B,0x0024FC22,0x0024FC19,0x0024FC10,0x0024FC07],
    [0x0024FBFE,0x0024FBF5,0x0024FBEC,0x0024FBE3,0x0024FBDA,0x0024FBD1,0x0024FBC8,0x0024FBBF,0x0024FBB6,0x0024FBAD],
    [0x0024FBA4,0x0024FB9B,0x0024FB92,0x0018FA9F,0x0024FB89,0x0024FB80,0x0024FB77,0x0024FB6E,0x0024FB65,0x0024FB5C],
    [0x0024FB53,0x0024FB4A,0x0024FB41,0x0024FB38,0x0024FB2F,0x0024FB26,0x0024FB1D,0x0024FB14,0x0024FB0B,0x0024FB02],
    [0x0024FAF9,0x0024FAF0,0x0024FAE7,0x0024FADE,0x0024FAD5,0x0024FACC,0x0024FAC3,0x0024FABA,0x0024FAB1,0x0024FAA8],
    [0x0024FA9F,0x0018F9AC,0x0024FA96,0x0024FA8D,0x0024FA84,0x0024FA7B,0x0024FA72,0x0024FA69,0x0024FA60,0x8000B6C9],
    [0x8100B6CA,0x8200B6CB,0x8300B6CC,0x8400B6CD,0x8500B6CE,0x8600B6CF,0x8700B6D0,0x8800B6D1,0x8900B6D2,0x8A00B6D3],
    [0x8B00B6D4,0x8C00B6D5,0x8D00B6D6,0x8E00B6D7,0x8F00B6D8,0x9000B6D9,0x9100B6DA,0x9200B6DB,0x9300B6DC,0x9400B6DD],
    [0x9500B6DE,0x9600B6DF,0x9700B6E0,0x9800B6E1,0x9900B6E2,0x9A00B6E3,0x9B00B6E4,0x9C00B6E5,0x9D00B6E6,0x9E00B6E7],
    [0x9F00B6E8,0xA000B6E9,0xA100B6EA,0xA200B6EB,0xA300B6EC,0xA400B6ED,0xA500B6EE,0xA600B6EF,0xA700B6F0,0xA800B6F1],
    [0xA900B6F2,0xAA00B6F3,0xAB00B6F4,0xAC00B6F5,0xAD00B6F6,0xAE00B6F7,0xAF00B6F8,0xB000B6F9,0xB100B6FA,0xB200B6FB],
    [0xB300B6FC,0xB400B6FD,0xB500B6FE,0xB600B6FF,0xB700B700,0xB800B701,0xB900B702,0xBA00B703,0xBB00B704,0xBC00B705],
    [0xBD00B706,0xBE00B707,0xBF00B708,0x0024FA57,0x0024FA4E,0x0024FA45,0x0024FA3C,0x0024FA33,0x0024FA2A,0x0024FA21],
    [0x0024FA18,0x0024FA0F,0x0024FA06,0x0024F9FD,0x0024F9F4,0x0024F9EB,0x0024F9E2,0x0024F9D9,0x0024F9D0,0x0024F9C7],
    [0x0024F9BE,0x0024F9B5,0x0024F9AC,0x0018F8B9,0x0024F9A3,0x0024F99A,0x0024F991,0x0024F988,0x0024F97F,0x0024F976],
    [0x0024F96D,0x0024F964,0x0024F95B,0x0024F952,0x0024F949,0x0024F940,0x0024F937,0x0024F92E,0x0024F925,0x0024F91C],
    [0x0024F913,0x0024F90A,0x0024F901,0x0024F8F8,0x0024F8EF,0x0024F8E6,0x0024F8DD,0x0024F8D4,0x0024F8CB,0x0024F8C2],
    [0x0024F8B9,0x0018F7C6,0x0024F8B0,0x0024F8A7,0x0024F89E,0x0024F895,0x0024F88C,0x0024F883,0x0024F87A,0x0024F871],
    [0x0024F868,0x0024F85F,0x0024F856,0x0024F84D,0x0024F844,0x0024F83B,0x0024F832,0x8000B749,0x8100B74A,0x8200B74B],
    [0x8300B74C,0x8400B74D,0x8500B74E,0x8600B74F,0x8700B750,0x8800B751,0x8900B752,0x8A00B753,0x8B00B754,0x8C00B755],
    [0x8D00B756,0x8E00B757,0x8F00B758,0x9000B759,0x9100B75A,0x9200B75B,0x9300B75C,0x9400B75D,0x9500B75E,0x9600B75F],
    [0x9700B760,0x9800B761,0x9900B762,0x9A00B763,0x9B00B764,0x9C00B765,0x9D00B766,0x9E00B767,0x9F00B768,0xA000B769],
    [0xA100B76A,0xA200B76B,0xA300B76C,0xA400B76D,0xA500B76E,0xA600B76F,0xA700B770,0xA800B771,0xA900B772,0xAA00B773],
    [0xAB00B774,0xAC00B775,0xAD00B776,0xAE00B777,0xAF00B778,0xB000B779,0xB100B77A,0xB200B77B,0xB300B77C,0xB400B77D],
    [0xB500B77E,0xB600B77F,0xB700B780,0xB800B781,0xB900B782,0xBA00B783,0xBB00B784,0xBC00B785,0xBD00B786,0xBE00B787],
    [0xBF00B788,0x0024F829,0x0024F820,0x0024F817,0x0024F80E,0x0024F805,0x0024F7FC,0x0024F7F3,0x0024F7EA,0x0024F7E1],
    [0x0024F7D8,0x0024F7CF,0x0024F7C6,0x0018F6D3,0x0024F7BD,0x0024F7B4,0x0024F7AB,0x0024F7A2,0x0024F799,0x0024F790],
    [0x0024F787,0x0024F77E,0x0024F775,0x0024F76C,0x0024F763,0x0024F75A,0x0024F751,0x0024F748,0x0024F73F,0x0024F736],
    [0x0024F72D,0x0024F724,0x0024F71B,0x0024F712,0x0024F709,0x0024F700,0x0024F6F7,0x0024F6EE,0x0024F6E5,0x0024F6DC],
    [0x0024F6D3,0x0018F5E0,0x0024F6CA,0x0024F6C1,0x0024F6B8,0x0024F6AF,0x0024F6A6,0x0024F69D,0x0024F694,0x0024F68B],
    [0x0024F682,0x0024F679,0x0024F670,0x0024F667,0x0024F65E,0x0024F655,0x0024F64C,0x0024F643,0x0024F63A,0x0024F631],
    [0x0024F628,0x0024F61F,0x0024F616,0x0024F60D,0x0024F604,0x8000B7C9,0x8100B7CA,0x8200B7CB,0x8300B7CC,0x8400B7CD],
    [0x8500B7CE,0x8600B7CF,0x8700B7D0,0x8800B7D1,0x8900B7D2,0x8A00B7D3,0x8B00B7D4,0x8C00B7D5,0x8D00B7D6,0x8E00B7D7],
    [0x8F00B7D8,0x9000B7D9,0x9100B7DA,0x9200B7DB,0x9300B7DC,0x9400B7DD,0x9500B7DE,0x9600B7DF,0x9700B7E0,0x9800B7E1],
    [0x9900B7E2,0x9A00B7E3,0x9B00B7E4,0x9C00B7E5,0x9D00B7E6,0x9E00B7E7,0x9F00B7E8,0xA000B7E9,0xA100B7EA,0xA200B7EB],
    [0xA300B7EC,0xA400B7ED,0xA500B7EE,0xA600B7EF,0xA700B7F0,0xA800B7F1,0xA900B7F2,0xAA00B7F3,0xAB00B7F4,0xAC00B7F5],
    [0xAD00B7F6,0xAE00B7F7,0xAF00B7F8,0xB000B7F9,0xB100B7FA,0xB200B7FB,0xB300B7FC,0xB400B7FD,0xB500B7FE,0xB600B7FF],
    [0xB700B800,0xB800B801,0xB900B802,0xBA00B803,0xBB00B804,0xBC00B805,0xBD00B806,0xBE00B807,0xBF00B808,0x0024F5FB],
    [0x0024F5F2,0x0024F5E9,0x0024F5E0,0x0018F4ED,0x0024F5D7,0x0024F5CE,0x0024F5C5,0x0024F5BC,0x0024F5B3,0x0024F5AA],
    [0x0024F5A1,0x0024F598,0x0024F58F,0x0024F586,0x0024F57D,0x0024F574,0x0024F56B,0x0024F562,0x0024F559,0x0024F550],
    [0x0024F547,0x0024F53E,0x0024F535,0x0024F52C,0x0024F523,0x0024F51A,0x0024F511,0x0024F508,0x0024F4FF,0x0024F4F6],
    [0x0024F4ED,0x0018F3FA,0x0024F4E4,0x0024F4DB,0x0024F4D2,0x0024F4C9,0x0024F4C0,0x0024F4B7,0x0024F4AE,0x0024F4A5],
    [0x0024F49C,0x0024F493,0x0024F48A,0x0024F481,0x0024F478,0x0024F46F,0x0024F466,0x0024F45D,0x0024F454,0x0024F44B],
    [0x0024F442,0x0024F439,0x0024F430,0x0024F427,0x0024F41E,0x0024F415,0x0024F40C,0x0024F403,0x0024F3FA,0x0018F307],
    [0x0024F3F1,0x0024F3E8,0x0024F3DF,0x8000B7A8,0x8100B828,0x8200B8A8,0x8300B928,0x8400B9A8,0x8500BA28,0x8600BAA8],
    [0x8700BB28,0x8800BBA8,0x8900BC28,0x8A00BCA8,0x8B00BD28,0x8C00BDA8,0x8D00BE28,0x8E00BEA8,0x8F00BF28,0x9000BFA8],
    [0x9100C028,0x9200C0A8,0x9300C128,0x9400C1A8,0x9500C228,0x9600C2A8,0x9700C328,0x9800C3A8,0x9900C428,0x9A00C4A8],
    [0x9B00C528,0x9C00C5A8,0x9D00C628,0x9E00C6A8,0x8000B868,0x8100B869,0x8200B86A,0x8300B86B,0x8400B86C,0x8500B86D],
    [0x8600B86E,0x8700B86F,0x8800B870,0x8900B871,0x8A00B872,0x8B00B873,0x8C00B874,0x8D00B875,0x8E00B876,0x8F00B877],
    [0x9000B878,0x9100B879,0x9200B87A,0x9300B87B,0x9400B87C,0x9500B87D,0x9600B87E,0x9700B87F,0x9800B880,0x9900B881],
    [0x9A00B882,0x9B00B883,0x9C00B884,0x9D00B885,0x9E00B886,0x9F00B887,0xA000B888,0xA100B889,0xA200B88A,0xA300B88B],
    [0xA400B88C,0xA500B88D,0xA600B88E,0xA700B88F,0xA800B890,0xA900B891,0xAA00B892,0xAB00B893,0xAC00B894,0xAD00B895],
    [0xAE00B896,0xAF00B897,0xB000B898,0xB100B899,0xB200B89A,0xB300B89B,0xB400B89C,0xB500B89D,0xB600B89E,0xB700B89F],
    [0xB800B8A0,0xB900B8A1,0xBA00B8A2,0xBB00B8A3,0xBC00B8A4,0xBD00B8A5,0xBE00B8A6,0xBF00B8A7,0x0024F3D6,0x0024F3CD],
    [0x0024F3C4,0x0024F3BB,0x0024F3B2,0x0024F3A9,0x0024F3A0,0x0024F397,0x0024F38E,0x0024F385,0x0024F37C,0x0024F373],
    [0x0024F36A,0x0024F361,0x0024F358,0x0024F34F,0x0024F346,0x0024F33D,0x0024F334,0x0024F32B,0x0024F322,0x0024F319],
    [0x0024F310,0x0024F307,0x0018F214,0x0024F2FE,0x0024F2F5,0x0024F2EC,0x0024F2E3,0x0024F2DA,0x0024F2D1,0x0024F2C8],
    [0x0024F2BF,0x0024F2B6,0x0024F2AD,0x0024F2A4,0x0024F29B,0x0024F292,0x0024F289,0x0024F280,0x0024F277,0x0024F26E],
    [0x0024F265,0x0024F25C,0x0024F253,0x0024F24A,0x0024F241,0x0024F238,0x0024F22F,0x0024F226,0x0024F21D,0x0024F214],
    [0x0018F121,0x0024F20B,0x0024F202,0x0024F1F9,0x0024F1F0,0x0024F1E7,0x0024F1DE,0x0024F1D5,0x0024F1CC,0x0024F1C3],
    [0x0024F1BA,0x0024F1B1,0x8000B8E8,0x8100B8E9,0x8200B8EA,0x8300B8EB,0x8400B8EC,0x8500B8ED,0x8600B8EE,0x8700B8EF],
    [0x8800B8F0,0x8900B8F1,0x8A00B8F2,0x8B00B8F3,0x8C00B8F4,0x8D00B8F5,0x8E00B8F6,0x8F00B8F7,0x9000B8F8,0x9100B8F9],
    [0x9200B8FA,0x9300B8FB,0x9400B8FC,0x9500B8FD,0x9600B8FE,0x9700B8FF,0x9800B900,0x9900B901,0x9A00B902,0x9B00B903],
    [0x9C00B904,0x9D00B905,0x9E00B906,0x9F00B907,0xA000B908,0xA100B909,0xA200B90A,0xA300B90B,0xA400B90C,0xA500B90D],
    [0xA600B90E,0xA700B90F,0xA800B910,0xA900B911,0xAA00B912,0xAB00B913,0xAC00B914,0xAD00B915,0xAE00B916,0xAF00B917],
    [0xB000B918,0xB100B919,0xB200B91A,0xB300B91B,0xB400B91C,0xB500B91D,0xB600B91E,0xB700B91F,0xB800B920,0xB900B921],
    [0xBA00B922,0xBB00B923,0xBC00B924,0xBD00B925,0xBE00B926,0xBF00B927,0x0024F1A8,0x0024F19F,0x0024F196,0x0024F18D],
    [0x0024F184,0x0024F17B,0x0024F172,0x0024F169,0x0024F160,0x0024F157,0x0024F14E,0x0024F145,0x0024F13C,0x0024F133],
    [0x0024F12A,0x0024F121,0x0018F02E,0x0024F118,0x0024F10F,0x0024F106,0x0024F0FD,0x0024F0F4,0x0024F0EB,0x0024F0E2],
    [0x0024F0D9,0x0024F0D0,0x0024F0C7,0x0024F0BE,0x0024F0B5,0x0024F0AC,0x0024F0A3,0x0024F09A,0x0024F091,0x0024F088],
    [0x0024F07F,0x0024F076,0x0024F06D,0x0024F064,0x0024F05B,0x0024F052,0x0024F049,0x0024F040,0x0024F037,0x0024F02E],
    [0x0018EF3B,0x0024F025,0x0024F01C,0x0024F013,0x0024F00A,0x0024F001,0x0024EFF8,0x0024EFEF,0x0024EFE6,0x0024EFDD],
    [0x0024EFD4,0x0024EFCB,0x0024EFC2,0x0024EFB9,0x0024EFB0,0x0024EFA7,0x0024EF9E,0x0024EF95,0x0024EF8C,0x0024EF83],
    [0x8000B968,0x8100B969,0x8200B96A,0x8300B96B,0x8400B96C,0x8500B96D,0x8600B96E,0x8700B96F,0x8800B970,0x8900B971],
    [0x8A00B972,0x8B00B973,0x8C00B974,0x8D00B975,0x8E00B976,0x8F00B977,0x9000B978,0x9100B979,0x9200B97A,0x9300B97B],
    [0x9400B97C,0x9500B97D,0x9600B97E,0x9700B97F,0x9800B980,0x9900B981,0x9A00B982,0x9B00B983,0x9C00B984,0x9D00B985],
    [0x9E00B986,0x9F00B987,0xA000B988,0xA100B989,0xA200B98A,0xA300B98B,0xA400B98C,0xA500B98D,0xA600B98E,0xA700B98F],
    [0xA800B990,0xA900B991,0xAA00B992,0xAB00B993,0xAC00B994,0xAD00B995,0xAE00B996,0xAF00B997,0xB000B998,0xB100B999],
    [0xB200B99A,0xB300B99B,0xB400B99C,0xB500B99D,0xB600B99E,0xB700B99F,0xB800B9A0,0xB900B9A1,0xBA00B9A2,0xBB00B9A3],
    [0xBC00B9A4,0xBD00B9A5,0xBE00B9A6,0xBF00B9A7,0x0024EF7A,0x0024EF71,0x0024EF68,0x0024EF5F,0x0024EF56,0x0024EF4D],
    [0x0024EF44,0x0024EF3B,0x0018EE48,0x0024EF32,0x0024EF29,0x0024EF20,0x0024EF17,0x0024EF0E,0x0024EF05,0x0024EEFC],
    [0x0024EEF3,0x0024EEEA,0x0024EEE1,0x0024EED8,0x0024EECF,0x0024EEC6,0x0024EEBD,0x0024EEB4,0x0024EEAB,0x0024EEA2],
    [0x0024EE99,0x0024EE90,0x0024EE87,0x0024EE7E,0x0024EE75,0x0024EE6C,0x0024EE63,0x0024EE5A,0x0024EE51,0x0024EE48],
    [0x0018ED55,0x0024EE3F,0x0024EE36,0x0024EE2D,0x0024EE24,0x0024EE1B,0x0024EE12,0x0024EE09,0x0024EE00,0x0024EDF7],
    [0x0024EDEE,0x0024EDE5,0x0024EDDC,0x0024EDD3,0x0024EDCA,0x0024EDC1,0x0024EDB8,0x0024EDAF,0x0024EDA6,0x0024ED9D]]"

definition NODES_33 :: "nat list list" where
  "NODES_33 = [
    [0x0024ED94,0x0024ED8B,0x0024ED82,0x0024ED79,0x0024ED70,0x0024ED67,0x0024ED5E,0x0024ED55,0x8000B9E8,0x8100B9E9],
    [0x8200B9EA,0x8300B9EB,0x8400B9EC,0x8500B9ED,0x8600B9EE,0x8700B9EF,0x8800B9F0,0x8900B9F1,0x8A00B9F2,0x8B00B9F3],
    [0x8C00B9F4,0x8D00B9F5,0x8E00B9F6,0x8F00B9F7,0x9000B9F8,0x9100B9F9,0x9200B9FA,0x9300B9FB,0x9400B9FC,0x9500B9FD],
    [0x9600B9FE,0x9700B9FF,0x9800BA00,0x9900BA01,0x9A00BA02,0x9B00BA03,0x9C00BA04,0x9D00BA05,0x9E00BA06,0x9F00BA07],
    [0xA000BA08,0xA100BA09,0xA200BA0A,0xA300BA0B,0xA400BA0C,0xA500BA0D,0xA600BA0E,0xA700BA0F,0xA800BA10,0xA900BA11],
    [0xAA00BA12,0xAB00BA13,0xAC00BA14,0xAD00BA15,0xAE00BA16,0xAF00BA17,0xB000BA18,0xB100BA19,0xB200BA1A,0xB300BA1B],
    [0xB400BA1C,0xB500BA1D,0xB600BA1E,0xB700BA1F,0xB800BA20,0xB900BA21,0xBA00BA22,0xBB00BA23,0xBC00BA24,0xBD00BA25],
    [0xBE00BA26,0xBF00BA27,0x0018EC62,0x0024ED4C,0x0024ED43,0x0024ED3A,0x0024ED31,0x0024ED28,0x0024ED1F,0x0024ED16],
    [0x0024ED0D,0x0024ED04,0x0024ECFB,0x0024ECF2,0x0024ECE9,0x0024ECE0,0x0024ECD7,0x0024ECCE,0x0024ECC5,0x0024ECBC],
    [0x0024ECB3,0x0024ECAA,0x0024ECA1,0x0024EC98,0x0024EC8F,0x0024EC86,0x0024EC7D,0x0024EC74,0x0024EC6B,0x0024EC62],
    [0x0018EB6F,0x0024EC59,0x0024EC50,0x0024EC47,0x0024EC3E,0x0024EC35,0x0024EC2C,0x0024EC23,0x0024EC1A,0x0024EC11],
    [0x0024EC08,0x0024EBFF,0x0024EBF6,0x0024EBED,0x0024EBE4,0x0024EBDB,0x0024EBD2,0x0024EBC9,0x0024EBC0,0x0024EBB7],
    [0x0024EBAE,0x0024EBA5,0x0024EB9C,0x0024EB93,0x0024EB8A,0x0024EB81,0x0024EB78,0x0024EB6F,0x0018EA7C,0x0024EB66],
    [0x0024EB5D,0x0024EB54,0x0024EB4B,0x0024EB42,0x0024EB39,0x0024EB30,0x8000BA68,0x8100BA69,0x8200BA6A,0x8300BA6B],
    [0x8400BA6C,0x8500BA6D,0x8600BA6E,0x8700BA6F,0x8800BA70,0x8900BA71,0x8A00BA72,0x8B00BA73,0x8C00BA74,0x8D00BA75],
    [0x8E00BA76,0x8F00BA77,0x9000BA78,0x9100BA79,0x9200BA7A,0x9300BA7B,0x9400BA7C,0x9500BA7D,0x9600BA7E,0x9700BA7F],
    [0x9800BA80,0x9900BA81,0x9A00BA82,0x9B00BA83,0x9C00BA84,0x9D00BA85,0x9E00BA86,0x9F00BA87,0xA000BA88,0xA100BA89],
    [0xA200BA8A,0xA300BA8B,0xA400BA8C,0xA500BA8D,0xA600BA8E,0xA700BA8F,0xA800BA90,0xA900BA91,0xAA00BA92,0xAB00BA93],
    [0xAC00BA94,0xAD00BA95,0xAE00BA96,0xAF00BA97,0xB000BA98,0xB100BA99,0xB200BA9A,0xB300BA9B,0xB400BA9C,0xB500BA9D],
    [0xB600BA9E,0xB700BA9F,0xB800BAA0,0xB900BAA1,0xBA00BAA2,0xBB00BAA3,0xBC00BAA4,0xBD00BAA5,0xBE00BAA6,0xBF00BAA7],
    [0x0024EB27,0x0024EB1E,0x0024EB15,0x0024EB0C,0x0024EB03,0x0024EAFA,0x0024EAF1,0x0024EAE8,0x0024EADF,0x0024EAD6],
    [0x0024EACD,0x0024EAC4,0x0024EABB,0x0024EAB2,0x0024EAA9,0x0024EAA0,0x0024EA97,0x0024EA8E,0x0024EA85,0x0024EA7C],
    [0x0018E989,0x0024EA73,0x0024EA6A,0x0024EA61,0x0024EA58,0x0024EA4F,0x0024EA46,0x0024EA3D,0x0024EA34,0x0024EA2B],
    [0x0024EA22,0x0024EA19,0x0024EA10,0x0024EA07,0x0024E9FE,0x0024E9F5,0x0024E9EC,0x0024E9E3,0x0024E9DA,0x0024E9D1],
    [0x0024E9C8,0x0024E9BF,0x0024E9B6,0x0024E9AD,0x0024E9A4,0x0024E99B,0x0024E992,0x0024E989,0x0018E896,0x0024E980],
    [0x0024E977,0x0024E96E,0x0024E965,0x0024E95C,0x0024E953,0x0024E94A,0x0024E941,0x0024E938,0x0024E92F,0x0024E926],
    [0x0024E91D,0x0024E914,0x0024E90B,0x0024E902,0x8000BAE8,0x8100BAE9,0x8200BAEA,0x8300BAEB,0x8400BAEC,0x8500BAED],
    [0x8600BAEE,0x8700BAEF,0x8800BAF0,0x8900BAF1,0x8A00BAF2,0x8B00BAF3,0x8C00BAF4,0x8D00BAF5,0x8E00BAF6,0x8F00BAF7],
    [0x9000BAF8,0x9100BAF9,0x9200BAFA,0x9300BAFB,0x9400BAFC,0x9500BAFD,0x9600BAFE,0x9700BAFF,0x9800BB00,0x9900BB01],
    [0x9A00BB02,0x9B00BB03,0x9C00BB04,0x9D00BB05,0x9E00BB06,0x9F00BB07,0xA000BB08,0xA100BB09,0xA200BB0A,0xA300BB0B],
    [0xA400BB0C,0xA500BB0D,0xA600BB0E,0xA700BB0F,0xA800BB10,0xA900BB11,0xAA00BB12,0xAB00BB13,0xAC00BB14,0xAD00BB15],
    [0xAE00BB16,0xAF00BB17,0xB000BB18,0xB100BB19,0xB200BB1A,0xB300BB1B,0xB400BB1C,0xB500BB1D,0xB600BB1E,0xB700BB1F],
    [0xB800BB20,0xB900BB21,0xBA00BB22,0xBB00BB23,0xBC00BB24,0xBD00BB25,0xBE00BB26,0xBF00BB27,0x0024E8F9,0x0024E8F0],
    [0x0024E8E7,0x0024E8DE,0x0024E8D5,0x0024E8CC,0x0024E8C3,0x0024E8BA,0x0024E8B1,0x0024E8A8,0x0024E89F,0x0024E896],
    [0x0018E7A3,0x0024E88D,0x0024E884,0x0024E87B,0x0024E872,0x0024E869,0x0024E860,0x0024E857,0x0024E84E,0x0024E845],
    [0x0024E83C,0x0024E833,0x0024E82A,0x0024E821,0x0024E818,0x0024E80F,0x0024E806,0x0024E7FD,0x0024E7F4,0x0024E7EB],
    [0x0024E7E2,0x0024E7D9,0x0024E7D0,0x0024E7C7,0x0024E7BE,0x0024E7B5,0x0024E7AC,0x0024E7A3,0x0018E6B0,0x0024E79A],
    [0x0024E791,0x0024E788,0x0024E77F,0x0024E776,0x0024E76D,0x0024E764,0x0024E75B,0x0024E752,0x0024E749,0x0024E740],
    [0x0024E737,0x0024E72E,0x0024E725,0x0024E71C,0x0024E713,0x0024E70A,0x0024E701,0x0024E6F8,0x0024E6EF,0x0024E6E6],
    [0x0024E6DD,0x0024E6D4,0x8000BB68,0x8100BB69,0x8200BB6A,0x8300BB6B,0x8400BB6C,0x8500BB6D,0x8600BB6E,0x8700BB6F],
    [0x8800BB70,0x8900BB71,0x8A00BB72,0x8B00BB73,0x8C00BB74,0x8D00BB75,0x8E00BB76,0x8F00BB77,0x9000BB78,0x9100BB79],
    [0x9200BB7A,0x9300BB7B,0x9400BB7C,0x9500BB7D,0x9600BB7E,0x9700BB7F,0x9800BB80,0x9900BB81,0x9A00BB82,0x9B00BB83],
    [0x9C00BB84,0x9D00BB85,0x9E00BB86,0x9F00BB87,0xA000BB88,0xA100BB89,0xA200BB8A,0xA300BB8B,0xA400BB8C,0xA500BB8D],
    [0xA600BB8E,0xA700BB8F,0xA800BB90,0xA900BB91,0xAA00BB92,0xAB00BB93,0xAC00BB94,0xAD00BB95,0xAE00BB96,0xAF00BB97],
    [0xB000BB98,0xB100BB99,0xB200BB9A,0xB300BB9B,0xB400BB9C,0xB500BB9D,0xB600BB9E,0xB700BB9F,0xB800BBA0,0xB900BBA1],
    [0xBA00BBA2,0xBB00BBA3,0xBC00BBA4,0xBD00BBA5,0xBE00BBA6,0xBF00BBA7,0x0024E6CB,0x0024E6C2,0x0024E6B9,0x0024E6B0],
    [0x0018E5BD,0x0024E6A7,0x0024E69E,0x0024E695,0x0024E68C,0x0024E683,0x0024E67A,0x0024E671,0x0024E668,0x0024E65F],
    [0x0024E656,0x0024E64D,0x0024E644,0x0024E63B,0x0024E632,0x0024E629,0x0024E620,0x0024E617,0x0024E60E,0x0024E605],
    [0x0024E5FC,0x0024E5F3,0x0024E5EA,0x0024E5E1,0x0024E5D8,0x0024E5CF,0x0024E5C6,0x0024E5BD,0x0018E4CA,0x0024E5B4],
    [0x0024E5AB,0x0024E5A2,0x0024E599,0x0024E590,0x0024E587,0x0024E57E,0x0024E575,0x0024E56C,0x0024E563,0x0024E55A],
    [0x0024E551,0x0024E548,0x0024E53F,0x0024E536,0x0024E52D,0x0024E524,0x0024E51B,0x0024E512,0x0024E509,0x0024E500],
    [0x0024E4F7,0x0024E4EE,0x0024E4E5,0x0024E4DC,0x0024E4D3,0x0024E4CA,0x0018E3D7,0x0024E4C1,0x0024E4B8,0x0024E4AF],
    [0x8000BBE8,0x8100BBE9,0x8200BBEA,0x8300BBEB,0x8400BBEC,0x8500BBED,0x8600BBEE,0x8700BBEF,0x8800BBF0,0x8900BBF1],
    [0x8A00BBF2,0x8B00BBF3,0x8C00BBF4,0x8D00BBF5,0x8E00BBF6,0x8F00BBF7,0x9000BBF8,0x9100BBF9,0x9200BBFA,0x9300BBFB],
    [0x9400BBFC,0x9500BBFD,0x9600BBFE,0x9700BBFF,0x9800BC00,0x9900BC01,0x9A00BC02,0x9B00BC03,0x9C00BC04,0x9D00BC05],
    [0x9E00BC06,0x9F00BC07,0xA000BC08,0xA100BC09,0xA200BC0A,0xA300BC0B,0xA400BC0C,0xA500BC0D,0xA600BC0E,0xA700BC0F],
    [0xA800BC10,0xA900BC11,0xAA00BC12,0xAB00BC13,0xAC00BC14,0xAD00BC15,0xAE00BC16,0xAF00BC17,0xB000BC18,0xB100BC19],
    [0xB200BC1A,0xB300BC1B,0xB400BC1C,0xB500BC1D,0xB600BC1E,0xB700BC1F,0xB800BC20,0xB900BC21,0xBA00BC22,0xBB00BC23],
    [0xBC00BC24,0xBD00BC25,0xBE00BC26,0xBF00BC27,0x0024E4A6,0x0024E49D,0x0024E494,0x0024E48B,0x0024E482,0x0024E479],
    [0x0024E470,0x0024E467,0x0024E45E,0x0024E455,0x0024E44C,0x0024E443,0x0024E43A,0x0024E431,0x0024E428,0x0024E41F],
    [0x0024E416,0x0024E40D,0x0024E404,0x0024E3FB,0x0024E3F2,0x0024E3E9,0x0024E3E0,0x0024E3D7,0x0018E2E4,0x0024E3CE],
    [0x0024E3C5,0x0024E3BC,0x0024E3B3,0x0024E3AA,0x0024E3A1,0x0024E398,0x0024E38F,0x0024E386,0x0024E37D,0x0024E374],
    [0x0024E36B,0x0024E362,0x0024E359,0x0024E350,0x0024E347,0x0024E33E,0x0024E335,0x0024E32C,0x0024E323,0x0024E31A],
    [0x0024E311,0x0024E308,0x0024E2FF,0x0024E2F6,0x0024E2ED,0x0024E2E4,0x0018E1F1,0x0024E2DB,0x0024E2D2,0x0024E2C9],
    [0x0024E2C0,0x0024E2B7,0x0024E2AE,0x0024E2A5,0x0024E29C,0x0024E293,0x0024E28A,0x0024E281,0x8000BC68,0x8100BC69],
    [0x8200BC6A,0x8300BC6B,0x8400BC6C,0x8500BC6D,0x8600BC6E,0x8700BC6F,0x8800BC70,0x8900BC71,0x8A00BC72,0x8B00BC73],
    [0x8C00BC74,0x8D00BC75,0x8E00BC76,0x8F00BC77,0x9000BC78,0x9100BC79,0x9200BC7A,0x9300BC7B,0x9400BC7C,0x9500BC7D],
    [0x9600BC7E,0x9700BC7F,0x9800BC80,0x9900BC81,0x9A00BC82,0x9B00BC83,0x9C00BC84,0x9D00BC85,0x9E00BC86,0x9F00BC87],
    [0xA000BC88,0xA100BC89,0xA200BC8A,0xA300BC8B,0xA400BC8C,0xA500BC8D,0xA600BC8E,0xA700BC8F,0xA800BC90,0xA900BC91],
    [0xAA00BC92,0xAB00BC93,0xAC00BC94,0xAD00BC95,0xAE00BC96,0xAF00BC97,0xB000BC98,0xB100BC99,0xB200BC9A,0xB300BC9B],
    [0xB400BC9C,0xB500BC9D,0xB600BC9E,0xB700BC9F,0xB800BCA0,0xB900BCA1,0xBA00BCA2,0xBB00BCA3,0xBC00BCA4,0xBD00BCA5],
    [0xBE00BCA6,0xBF00BCA7,0x0024E278,0x0024E26F,0x0024E266,0x0024E25D,0x0024E254,0x0024E24B,0x0024E242,0x0024E239],
    [0x0024E230,0x0024E227,0x0024E21E,0x0024E215,0x0024E20C,0x0024E203,0x0024E1FA,0x0024E1F1,0x0018E0FE,0x0024E1E8],
    [0x0024E1DF,0x0024E1D6,0x0024E1CD,0x0024E1C4,0x0024E1BB,0x0024E1B2,0x0024E1A9,0x0024E1A0,0x0024E197,0x0024E18E],
    [0x0024E185,0x0024E17C,0x0024E173,0x0024E16A,0x0024E161,0x0024E158,0x0024E14F,0x0024E146,0x0024E13D,0x0024E134],
    [0x0024E12B,0x0024E122,0x0024E119,0x0024E110,0x0024E107,0x0024E0FE,0x0018E00B,0x0024E0F5,0x0024E0EC,0x0024E0E3],
    [0x0024E0DA,0x0024E0D1,0x0024E0C8,0x0024E0BF,0x0024E0B6,0x0024E0AD,0x0024E0A4,0x0024E09B,0x0024E092,0x0024E089],
    [0x0024E080,0x0024E077,0x0024E06E,0x0024E065,0x0024E05C,0x0024E053,0x8000BCE8,0x8100BCE9,0x8200BCEA,0x8300BCEB],
    [0x8400BCEC,0x8500BCED,0x8600BCEE,0x8700BCEF,0x8800BCF0,0x8900BCF1,0x8A00BCF2,0x8B00BCF3,0x8C00BCF4,0x8D00BCF5],
    [0x8E00BCF6,0x8F00BCF7,0x9000BCF8,0x9100BCF9,0x9200BCFA,0x9300BCFB,0x9400BCFC,0x9500BCFD,0x9600BCFE,0x9700BCFF],
    [0x9800BD00,0x9900BD01,0x9A00BD02,0x9B00BD03,0x9C00BD04,0x9D00BD05,0x9E00BD06,0x9F00BD07,0xA000BD08,0xA100BD09],
    [0xA200BD0A,0xA300BD0B,0xA400BD0C,0xA500BD0D,0xA600BD0E,0xA700BD0F,0xA800BD10,0xA900BD11,0xAA00BD12,0xAB00BD13],
    [0xAC00BD14,0xAD00BD15,0xAE00BD16,0xAF00BD17,0xB000BD18,0xB100BD19,0xB200BD1A,0xB300BD1B,0xB400BD1C,0xB500BD1D],
    [0xB600BD1E,0xB700BD1F,0xB800BD20,0xB900BD21,0xBA00BD22,0xBB00BD23,0xBC00BD24,0xBD00BD25,0xBE00BD26,0xBF00BD27],
    [0x0024E04A,0x0024E041,0x0024E038,0x0024E02F,0x0024E026,0x0024E01D,0x0024E014,0x0024E00B,0x0018DF18,0x0024E002],
    [0x0024DFF9,0x0024DFF0,0x0024DFE7,0x0024DFDE,0x0024DFD5,0x0024DFCC,0x0024DFC3,0x0024DFBA,0x0024DFB1,0x0024DFA8],
    [0x0024DF9F,0x0024DF96,0x0024DF8D,0x0024DF84,0x0024DF7B,0x0024DF72,0x0024DF69,0x0024DF60,0x0024DF57,0x0024DF4E],
    [0x0024DF45,0x0024DF3C,0x0024DF33,0x0024DF2A,0x0024DF21,0x0024DF18,0x0018DE25,0x0024DF0F,0x0024DF06,0x0024DEFD],
    [0x0024DEF4,0x0024DEEB,0x0024DEE2,0x0024DED9,0x0024DED0,0x0024DEC7,0x0024DEBE,0x0024DEB5,0x0024DEAC,0x0024DEA3],
    [0x0024DE9A,0x0024DE91,0x0024DE88,0x0024DE7F,0x0024DE76,0x0024DE6D,0x0024DE64,0x0024DE5B,0x0024DE52,0x0024DE49],
    [0x0024DE40,0x0024DE37,0x0024DE2E,0x0024DE25,0x8000BD68,0x8100BD69,0x8200BD6A,0x8300BD6B,0x8400BD6C,0x8500BD6D],
    [0x8600BD6E,0x8700BD6F,0x8800BD70,0x8900BD71,0x8A00BD72,0x8B00BD73,0x8C00BD74,0x8D00BD75,0x8E00BD76,0x8F00BD77],
    [0x9000BD78,0x9100BD79,0x9200BD7A,0x9300BD7B,0x9400BD7C,0x9500BD7D,0x9600BD7E,0x9700BD7F,0x9800BD80,0x9900BD81],
    [0x9A00BD82,0x9B00BD83,0x9C00BD84,0x9D00BD85,0x9E00BD86,0x9F00BD87,0xA000BD88,0xA100BD89,0xA200BD8A,0xA300BD8B],
    [0xA400BD8C,0xA500BD8D,0xA600BD8E,0xA700BD8F,0xA800BD90,0xA900BD91,0xAA00BD92,0xAB00BD93,0xAC00BD94,0xAD00BD95],
    [0xAE00BD96,0xAF00BD97,0xB000BD98,0xB100BD99,0xB200BD9A,0xB300BD9B,0xB400BD9C,0xB500BD9D,0xB600BD9E,0xB700BD9F],
    [0xB800BDA0,0xB900BDA1,0xBA00BDA2,0xBB00BDA3,0xBC00BDA4,0xBD00BDA5,0xBE00BDA6,0xBF00BDA7,0x0018DD32,0x0024DE1C],
    [0x0024DE13,0x0024DE0A,0x0024DE01,0x0024DDF8,0x0024DDEF,0x0024DDE6,0x0024DDDD,0x0024DDD4,0x0024DDCB,0x0024DDC2],
    [0x0024DDB9,0x0024DDB0,0x0024DDA7,0x0024DD9E,0x0024DD95,0x0024DD8C,0x0024DD83,0x0024DD7A,0x0024DD71,0x0024DD68],
    [0x0024DD5F,0x0024DD56,0x0024DD4D,0x0024DD44,0x0024DD3B,0x0024DD32,0x0018DC3F,0x0024DD29,0x0024DD20,0x0024DD17],
    [0x0024DD0E,0x0024DD05,0x0024DCFC,0x0024DCF3,0x0024DCEA,0x0024DCE1,0x0024DCD8,0x0024DCCF,0x0024DCC6,0x0024DCBD],
    [0x0024DCB4,0x0024DCAB,0x0024DCA2,0x0024DC99,0x0024DC90,0x0024DC87,0x0024DC7E,0x0024DC75,0x0024DC6C,0x0024DC63],
    [0x0024DC5A,0x0024DC51,0x0024DC48,0x0024DC3F,0x0018DB4C,0x0024DC36,0x0024DC2D,0x0024DC24,0x0024DC1B,0x0024DC12],
    [0x0024DC09,0x0024DC00,0x8000BDE8,0x8100BDE9,0x8200BDEA,0x8300BDEB,0x8400BDEC,0x8500BDED,0x8600BDEE,0x8700BDEF],
    [0x8800BDF0,0x8900BDF1,0x8A00BDF2,0x8B00BDF3,0x8C00BDF4,0x8D00BDF5,0x8E00BDF6,0x8F00BDF7,0x9000BDF8,0x9100BDF9],
    [0x9200BDFA,0x9300BDFB,0x9400BDFC,0x9500BDFD,0x9600BDFE,0x9700BDFF,0x9800BE00,0x9900BE01,0x9A00BE02,0x9B00BE03],
    [0x9C00BE04,0x9D00BE05,0x9E00BE06,0x9F00BE07,0xA000BE08,0xA100BE09,0xA200BE0A,0xA300BE0B,0xA400BE0C,0xA500BE0D],
    [0xA600BE0E,0xA700BE0F,0xA800BE10,0xA900BE11,0xAA00BE12,0xAB00BE13,0xAC00BE14,0xAD00BE15,0xAE00BE16,0xAF00BE17],
    [0xB000BE18,0xB100BE19,0xB200BE1A,0xB300BE1B,0xB400BE1C,0xB500BE1D,0xB600BE1E,0xB700BE1F,0xB800BE20,0xB900BE21],
    [0xBA00BE22,0xBB00BE23,0xBC00BE24,0xBD00BE25,0xBE00BE26,0xBF00BE27,0x0024DBF7,0x0024DBEE,0x0024DBE5,0x0024DBDC],
    [0x0024DBD3,0x0024DBCA,0x0024DBC1,0x0024DBB8,0x0024DBAF,0x0024DBA6,0x0024DB9D,0x0024DB94,0x0024DB8B,0x0024DB82],
    [0x0024DB79,0x0024DB70,0x0024DB67,0x0024DB5E,0x0024DB55,0x0024DB4C,0x0018DA59,0x0024DB43,0x0024DB3A,0x0024DB31],
    [0x0024DB28,0x0024DB1F,0x0024DB16,0x0024DB0D,0x0024DB04,0x0024DAFB,0x0024DAF2,0x0024DAE9,0x0024DAE0,0x0024DAD7],
    [0x0024DACE,0x0024DAC5,0x0024DABC,0x0024DAB3,0x0024DAAA,0x0024DAA1,0x0024DA98,0x0024DA8F,0x0024DA86,0x0024DA7D],
    [0x0024DA74,0x0024DA6B,0x0024DA62,0x0024DA59,0x0018D966,0x0024DA50,0x0024DA47,0x0024DA3E,0x0024DA35,0x0024DA2C],
    [0x0024DA23,0x0024DA1A,0x0024DA11,0x0024DA08,0x0024D9FF,0x0024D9F6,0x0024D9ED,0x0024D9E4,0x0024D9DB,0x0024D9D2],
    [0x8000BE68,0x8100BE69,0x8200BE6A,0x8300BE6B,0x8400BE6C,0x8500BE6D,0x8600BE6E,0x8700BE6F,0x8800BE70,0x8900BE71],
    [0x8A00BE72,0x8B00BE73,0x8C00BE74,0x8D00BE75,0x8E00BE76,0x8F00BE77,0x9000BE78,0x9100BE79,0x9200BE7A,0x9300BE7B],
    [0x9400BE7C,0x9500BE7D,0x9600BE7E,0x9700BE7F,0x9800BE80,0x9900BE81,0x9A00BE82,0x9B00BE83,0x9C00BE84,0x9D00BE85],
    [0x9E00BE86,0x9F00BE87,0xA000BE88,0xA100BE89,0xA200BE8A,0xA300BE8B,0xA400BE8C,0xA500BE8D,0xA600BE8E,0xA700BE8F],
    [0xA800BE90,0xA900BE91,0xAA00BE92,0xAB00BE93,0xAC00BE94,0xAD00BE95,0xAE00BE96,0xAF00BE97,0xB000BE98,0xB100BE99],
    [0xB200BE9A,0xB300BE9B,0xB400BE9C,0xB500BE9D,0xB600BE9E,0xB700BE9F,0xB800BEA0,0xB900BEA1,0xBA00BEA2,0xBB00BEA3],
    [0xBC00BEA4,0xBD00BEA5,0xBE00BEA6,0xBF00BEA7,0x0024D9C9,0x0024D9C0,0x0024D9B7,0x0024D9AE,0x0024D9A5,0x0024D99C],
    [0x0024D993,0x0024D98A,0x0024D981,0x0024D978,0x0024D96F,0x0024D966,0x0018D873,0x0024D95D,0x0024D954,0x0024D94B],
    [0x0024D942,0x0024D939,0x0024D930,0x0024D927,0x0024D91E,0x0024D915,0x0024D90C,0x0024D903,0x0024D8FA,0x0024D8F1],
    [0x0024D8E8,0x0024D8DF,0x0024D8D6,0x0024D8CD,0x0024D8C4,0x0024D8BB,0x0024D8B2,0x0024D8A9,0x0024D8A0,0x0024D897],
    [0x0024D88E,0x0024D885,0x0024D87C,0x0024D873,0x0018D780,0x0024D86A,0x0024D861,0x0024D858,0x0024D84F,0x0024D846],
    [0x0024D83D,0x0024D834,0x0024D82B,0x0024D822,0x0024D819,0x0024D810,0x0024D807,0x0024D7FE,0x0024D7F5,0x0024D7EC],
    [0x0024D7E3,0x0024D7DA,0x0024D7D1,0x0024D7C8,0x0024D7BF,0x0024D7B6,0x0024D7AD,0x0024D7A4,0x8000BEE8,0x8100BEE9],
    [0x8200BEEA,0x8300BEEB,0x8400BEEC,0x8500BEED,0x8600BEEE,0x8700BEEF,0x8800BEF0,0x8900BEF1,0x8A00BEF2,0x8B00BEF3],
    [0x8C00BEF4,0x8D00BEF5,0x8E00BEF6,0x8F00BEF7,0x9000BEF8,0x9100BEF9,0x9200BEFA,0x9300BEFB,0x9400BEFC,0x9500BEFD],
    [0x9600BEFE,0x9700BEFF,0x9800BF00,0x9900BF01,0x9A00BF02,0x9B00BF03,0x9C00BF04,0x9D00BF05,0x9E00BF06,0x9F00BF07],
    [0xA000BF08,0xA100BF09,0xA200BF0A,0xA300BF0B,0xA400BF0C,0xA500BF0D,0xA600BF0E,0xA700BF0F,0xA800BF10,0xA900BF11],
    [0xAA00BF12,0xAB00BF13,0xAC00BF14,0xAD00BF15,0xAE00BF16,0xAF00BF17,0xB000BF18,0xB100BF19,0xB200BF1A,0xB300BF1B],
    [0xB400BF1C,0xB500BF1D,0xB600BF1E,0xB700BF1F,0xB800BF20,0xB900BF21,0xBA00BF22,0xBB00BF23,0xBC00BF24,0xBD00BF25],
    [0xBE00BF26,0xBF00BF27,0x0024D79B,0x0024D792,0x0024D789,0x0024D780,0x0018D68D,0x0024D777,0x0024D76E,0x0024D765],
    [0x0024D75C,0x0024D753,0x0024D74A,0x0024D741,0x0024D738,0x0024D72F,0x0024D726,0x0024D71D,0x0024D714,0x0024D70B],
    [0x0024D702,0x0024D6F9,0x0024D6F0,0x0024D6E7,0x0024D6DE,0x0024D6D5,0x0024D6CC,0x0024D6C3,0x0024D6BA,0x0024D6B1],
    [0x0024D6A8,0x0024D69F,0x0024D696,0x0024D68D,0x0018D59A,0x0024D684,0x0024D67B,0x0024D672,0x0024D669,0x0024D660],
    [0x0024D657,0x0024D64E,0x0024D645,0x0024D63C,0x0024D633,0x0024D62A,0x0024D621,0x0024D618,0x0024D60F,0x0024D606],
    [0x0024D5FD,0x0024D5F4,0x0024D5EB,0x0024D5E2,0x0024D5D9,0x0024D5D0,0x0024D5C7,0x0024D5BE,0x0024D5B5,0x0024D5AC],
    [0x0024D5A3,0x0024D59A,0x0018D4A7,0x0024D591,0x0024D588,0x0024D57F,0x8000BF68,0x8100BF69,0x8200BF6A,0x8300BF6B],
    [0x8400BF6C,0x8500BF6D,0x8600BF6E,0x8700BF6F,0x8800BF70,0x8900BF71,0x8A00BF72,0x8B00BF73,0x8C00BF74,0x8D00BF75],
    [0x8E00BF76,0x8F00BF77,0x9000BF78,0x9100BF79,0x9200BF7A,0x9300BF7B,0x9400BF7C,0x9500BF7D,0x9600BF7E,0x9700BF7F]]"

definition NODES_34 :: "nat list list" where
  "NODES_34 = [
    [0x9800BF80,0x9900BF81,0x9A00BF82,0x9B00BF83,0x9C00BF84,0x9D00BF85,0x9E00BF86,0x9F00BF87,0xA000BF88,0xA100BF89],
    [0xA200BF8A,0xA300BF8B,0xA400BF8C,0xA500BF8D,0xA600BF8E,0xA700BF8F,0xA800BF90,0xA900BF91,0xAA00BF92,0xAB00BF93],
    [0xAC00BF94,0xAD00BF95,0xAE00BF96,0xAF00BF97,0xB000BF98,0xB100BF99,0xB200BF9A,0xB300BF9B,0xB400BF9C,0xB500BF9D],
    [0xB600BF9E,0xB700BF9F,0xB800BFA0,0xB900BFA1,0xBA00BFA2,0xBB00BFA3,0xBC00BFA4,0xBD00BFA5,0xBE00BFA6,0xBF00BFA7],
    [0x0024D576,0x0024D56D,0x0024D564,0x0024D55B,0x0024D552,0x0024D549,0x0024D540,0x0024D537,0x0024D52E,0x0024D525],
    [0x0024D51C,0x0024D513,0x0024D50A,0x0024D501,0x0024D4F8,0x0024D4EF,0x0024D4E6,0x0024D4DD,0x0024D4D4,0x0024D4CB],
    [0x0024D4C2,0x0024D4B9,0x0024D4B0,0x0024D4A7,0x0018D3B4,0x0024D49E,0x0024D495,0x0024D48C,0x0024D483,0x0024D47A],
    [0x0024D471,0x0024D468,0x0024D45F,0x0024D456,0x0024D44D,0x0024D444,0x0024D43B,0x0024D432,0x0024D429,0x0024D420],
    [0x0024D417,0x0024D40E,0x0024D405,0x0024D3FC,0x0024D3F3,0x0024D3EA,0x0024D3E1,0x0024D3D8,0x0024D3CF,0x0024D3C6],
    [0x0024D3BD,0x0024D3B4,0x0018D2C1,0x0024D3AB,0x0024D3A2,0x0024D399,0x0024D390,0x0024D387,0x0024D37E,0x0024D375],
    [0x0024D36C,0x0024D363,0x0024D35A,0x0024D351,0x8000BFE8,0x8100BFE9,0x8200BFEA,0x8300BFEB,0x8400BFEC,0x8500BFED],
    [0x8600BFEE,0x8700BFEF,0x8800BFF0,0x8900BFF1,0x8A00BFF2,0x8B00BFF3,0x8C00BFF4,0x8D00BFF5,0x8E00BFF6,0x8F00BFF7],
    [0x9000BFF8,0x9100BFF9,0x9200BFFA,0x9300BFFB,0x9400BFFC,0x9500BFFD,0x9600BFFE,0x9700BFFF,0x9800C000,0x9900C001],
    [0x9A00C002,0x9B00C003,0x9C00C004,0x9D00C005,0x9E00C006,0x9F00C007,0xA000C008,0xA100C009,0xA200C00A,0xA300C00B],
    [0xA400C00C,0xA500C00D,0xA600C00E,0xA700C00F,0xA800C010,0xA900C011,0xAA00C012,0xAB00C013,0xAC00C014,0xAD00C015],
    [0xAE00C016,0xAF00C017,0xB000C018,0xB100C019,0xB200C01A,0xB300C01B,0xB400C01C,0xB500C01D,0xB600C01E,0xB700C01F],
    [0xB800C020,0xB900C021,0xBA00C022,0xBB00C023,0xBC00C024,0xBD00C025,0xBE00C026,0xBF00C027,0x0024D348,0x0024D33F],
    [0x0024D336,0x0024D32D,0x0024D324,0x0024D31B,0x0024D312,0x0024D309,0x0024D300,0x0024D2F7,0x0024D2EE,0x0024D2E5],
    [0x0024D2DC,0x0024D2D3,0x0024D2CA,0x0024D2C1,0x0018D1CE,0x0024D2B8,0x0024D2AF,0x0024D2A6,0x0024D29D,0x0024D294],
    [0x0024D28B,0x0024D282,0x0024D279,0x0024D270,0x0024D267,0x0024D25E,0x0024D255,0x0024D24C,0x0024D243,0x0024D23A],
    [0x0024D231,0x0024D228,0x0024D21F,0x0024D216,0x0024D20D,0x0024D204,0x0024D1FB,0x0024D1F2,0x0024D1E9,0x0024D1E0],
    [0x0024D1D7,0x0024D1CE,0x0018D0DB,0x0024D1C5,0x0024D1BC,0x0024D1B3,0x0024D1AA,0x0024D1A1,0x0024D198,0x0024D18F],
    [0x0024D186,0x0024D17D,0x0024D174,0x0024D16B,0x0024D162,0x0024D159,0x0024D150,0x0024D147,0x0024D13E,0x0024D135],
    [0x0024D12C,0x0024D123,0x8000C068,0x8100C069,0x8200C06A,0x8300C06B,0x8400C06C,0x8500C06D,0x8600C06E,0x8700C06F],
    [0x8800C070,0x8900C071,0x8A00C072,0x8B00C073,0x8C00C074,0x8D00C075,0x8E00C076,0x8F00C077,0x9000C078,0x9100C079],
    [0x9200C07A,0x9300C07B,0x9400C07C,0x9500C07D,0x9600C07E,0x9700C07F,0x9800C080,0x9900C081,0x9A00C082,0x9B00C083],
    [0x9C00C084,0x9D00C085,0x9E00C086,0x9F00C087,0xA000C088,0xA100C089,0xA200C08A,0xA300C08B,0xA400C08C,0xA500C08D],
    [0xA600C08E,0xA700C08F,0xA800C090,0xA900C091,0xAA00C092,0xAB00C093,0xAC00C094,0xAD00C095,0xAE00C096,0xAF00C097],
    [0xB000C098,0xB100C099,0xB200C09A,0xB300C09B,0xB400C09C,0xB500C09D,0xB600C09E,0xB700C09F,0xB800C0A0,0xB900C0A1],
    [0xBA00C0A2,0xBB00C0A3,0xBC00C0A4,0xBD00C0A5,0xBE00C0A6,0xBF00C0A7,0x0024D11A,0x0024D111,0x0024D108,0x0024D0FF],
    [0x0024D0F6,0x0024D0ED,0x0024D0E4,0x0024D0DB,0x0018CFE8,0x0024D0D2,0x0024D0C9,0x0024D0C0,0x0024D0B7,0x0024D0AE],
    [0x0024D0A5,0x0024D09C,0x0024D093,0x0024D08A,0x0024D081,0x0024D078,0x0024D06F,0x0024D066,0x0024D05D,0x0024D054],
    [0x0024D04B,0x0024D042,0x0024D039,0x0024D030,0x0024D027,0x0024D01E,0x0024D015,0x0024D00C,0x0024D003,0x0024CFFA],
    [0x0024CFF1,0x0024CFE8,0x0018CEF5,0x0024CFDF,0x0024CFD6,0x0024CFCD,0x0024CFC4,0x0024CFBB,0x0024CFB2,0x0024CFA9],
    [0x0024CFA0,0x0024CF97,0x0024CF8E,0x0024CF85,0x0024CF7C,0x0024CF73,0x0024CF6A,0x0024CF61,0x0024CF58,0x0024CF4F],
    [0x0024CF46,0x0024CF3D,0x0024CF34,0x0024CF2B,0x0024CF22,0x0024CF19,0x0024CF10,0x0024CF07,0x0024CEFE,0x0024CEF5],
    [0x8000C0E8,0x8100C0E9,0x8200C0EA,0x8300C0EB,0x8400C0EC,0x8500C0ED,0x8600C0EE,0x8700C0EF,0x8800C0F0,0x8900C0F1],
    [0x8A00C0F2,0x8B00C0F3,0x8C00C0F4,0x8D00C0F5,0x8E00C0F6,0x8F00C0F7,0x9000C0F8,0x9100C0F9,0x9200C0FA,0x9300C0FB],
    [0x9400C0FC,0x9500C0FD,0x9600C0FE,0x9700C0FF,0x9800C100,0x9900C101,0x9A00C102,0x9B00C103,0x9C00C104,0x9D00C105],
    [0x9E00C106,0x9F00C107,0xA000C108,0xA100C109,0xA200C10A,0xA300C10B,0xA400C10C,0xA500C10D,0xA600C10E,0xA700C10F],
    [0xA800C110,0xA900C111,0xAA00C112,0xAB00C113,0xAC00C114,0xAD00C115,0xAE00C116,0xAF00C117,0xB000C118,0xB100C119],
    [0xB200C11A,0xB300C11B,0xB400C11C,0xB500C11D,0xB600C11E,0xB700C11F,0xB800C120,0xB900C121,0xBA00C122,0xBB00C123],
    [0xBC00C124,0xBD00C125,0xBE00C126,0xBF00C127,0x0018CE02,0x0024CEEC,0x0024CEE3,0x0024CEDA,0x0024CED1,0x0024CEC8],
    [0x0024CEBF,0x0024CEB6,0x0024CEAD,0x0024CEA4,0x0024CE9B,0x0024CE92,0x0024CE89,0x0024CE80,0x0024CE77,0x0024CE6E],
    [0x0024CE65,0x0024CE5C,0x0024CE53,0x0024CE4A,0x0024CE41,0x0024CE38,0x0024CE2F,0x0024CE26,0x0024CE1D,0x0024CE14],
    [0x0024CE0B,0x0024CE02,0x0018CD0F,0x0024CDF9,0x0024CDF0,0x0024CDE7,0x0024CDDE,0x0024CDD5,0x0024CDCC,0x0024CDC3],
    [0x0024CDBA,0x0024CDB1,0x0024CDA8,0x0024CD9F,0x0024CD96,0x0024CD8D,0x0024CD84,0x0024CD7B,0x0024CD72,0x0024CD69],
    [0x0024CD60,0x0024CD57,0x0024CD4E,0x0024CD45,0x0024CD3C,0x0024CD33,0x0024CD2A,0x0024CD21,0x0024CD18,0x0024CD0F],
    [0x0018CC1C,0x0024CD06,0x0024CCFD,0x0024CCF4,0x0024CCEB,0x0024CCE2,0x0024CCD9,0x0024CCD0,0x8000C168,0x8100C169],
    [0x8200C16A,0x8300C16B,0x8400C16C,0x8500C16D,0x8600C16E,0x8700C16F,0x8800C170,0x8900C171,0x8A00C172,0x8B00C173],
    [0x8C00C174,0x8D00C175,0x8E00C176,0x8F00C177,0x9000C178,0x9100C179,0x9200C17A,0x9300C17B,0x9400C17C,0x9500C17D],
    [0x9600C17E,0x9700C17F,0x9800C180,0x9900C181,0x9A00C182,0x9B00C183,0x9C00C184,0x9D00C185,0x9E00C186,0x9F00C187],
    [0xA000C188,0xA100C189,0xA200C18A,0xA300C18B,0xA400C18C,0xA500C18D,0xA600C18E,0xA700C18F,0xA800C190,0xA900C191],
    [0xAA00C192,0xAB00C193,0xAC00C194,0xAD00C195,0xAE00C196,0xAF00C197,0xB000C198,0xB100C199,0xB200C19A,0xB300C19B],
    [0xB400C19C,0xB500C19D,0xB600C19E,0xB700C19F,0xB800C1A0,0xB900C1A1,0xBA00C1A2,0xBB00C1A3,0xBC00C1A4,0xBD00C1A5],
    [0xBE00C1A6,0xBF00C1A7,0x0024CCC7,0x0024CCBE,0x0024CCB5,0x0024CCAC,0x0024CCA3,0x0024CC9A,0x0024CC91,0x0024CC88],
    [0x0024CC7F,0x0024CC76,0x0024CC6D,0x0024CC64,0x0024CC5B,0x0024CC52,0x0024CC49,0x0024CC40,0x0024CC37,0x0024CC2E],
    [0x0024CC25,0x0024CC1C,0x0018CB29,0x0024CC13,0x0024CC0A,0x0024CC01,0x0024CBF8,0x0024CBEF,0x0024CBE6,0x0024CBDD],
    [0x0024CBD4,0x0024CBCB,0x0024CBC2,0x0024CBB9,0x0024CBB0,0x0024CBA7,0x0024CB9E,0x0024CB95,0x0024CB8C,0x0024CB83],
    [0x0024CB7A,0x0024CB71,0x0024CB68,0x0024CB5F,0x0024CB56,0x0024CB4D,0x0024CB44,0x0024CB3B,0x0024CB32,0x0024CB29],
    [0x0018CA36,0x0024CB20,0x0024CB17,0x0024CB0E,0x0024CB05,0x0024CAFC,0x0024CAF3,0x0024CAEA,0x0024CAE1,0x0024CAD8],
    [0x0024CACF,0x0024CAC6,0x0024CABD,0x0024CAB4,0x0024CAAB,0x0024CAA2,0x8000C1E8,0x8100C1E9,0x8200C1EA,0x8300C1EB],
    [0x8400C1EC,0x8500C1ED,0x8600C1EE,0x8700C1EF,0x8800C1F0,0x8900C1F1,0x8A00C1F2,0x8B00C1F3,0x8C00C1F4,0x8D00C1F5],
    [0x8E00C1F6,0x8F00C1F7,0x9000C1F8,0x9100C1F9,0x9200C1FA,0x9300C1FB,0x9400C1FC,0x9500C1FD,0x9600C1FE,0x9700C1FF],
    [0x9800C200,0x9900C201,0x9A00C202,0x9B00C203,0x9C00C204,0x9D00C205,0x9E00C206,0x9F00C207,0xA000C208,0xA100C209],
    [0xA200C20A,0xA300C20B,0xA400C20C,0xA500C20D,0xA600C20E,0xA700C20F,0xA800C210,0xA900C211,0xAA00C212,0xAB00C213],
    [0xAC00C214,0xAD00C215,0xAE00C216,0xAF00C217,0xB000C218,0xB100C219,0xB200C21A,0xB300C21B,0xB400C21C,0xB500C21D],
    [0xB600C21E,0xB700C21F,0xB800C220,0xB900C221,0xBA00C222,0xBB00C223,0xBC00C224,0xBD00C225,0xBE00C226,0xBF00C227],
    [0x0024CA99,0x0024CA90,0x0024CA87,0x0024CA7E,0x0024CA75,0x0024CA6C,0x0024CA63,0x0024CA5A,0x0024CA51,0x0024CA48],
    [0x0024CA3F,0x0024CA36,0x0018C943,0x0024CA2D,0x0024CA24,0x0024CA1B,0x0024CA12,0x0024CA09,0x0024CA00,0x0024C9F7],
    [0x0024C9EE,0x0024C9E5,0x0024C9DC,0x0024C9D3,0x0024C9CA,0x0024C9C1,0x0024C9B8,0x0024C9AF,0x0024C9A6,0x0024C99D],
    [0x0024C994,0x0024C98B,0x0024C982,0x0024C979,0x0024C970,0x0024C967,0x0024C95E,0x0024C955,0x0024C94C,0x0024C943],
    [0x0018C850,0x0024C93A,0x0024C931,0x0024C928,0x0024C91F,0x0024C916,0x0024C90D,0x0024C904,0x0024C8FB,0x0024C8F2],
    [0x0024C8E9,0x0024C8E0,0x0024C8D7,0x0024C8CE,0x0024C8C5,0x0024C8BC,0x0024C8B3,0x0024C8AA,0x0024C8A1,0x0024C898],
    [0x0024C88F,0x0024C886,0x0024C87D,0x0024C874,0x8000C268,0x8100C269,0x8200C26A,0x8300C26B,0x8400C26C,0x8500C26D],
    [0x8600C26E,0x8700C26F,0x8800C270,0x8900C271,0x8A00C272,0x8B00C273,0x8C00C274,0x8D00C275,0x8E00C276,0x8F00C277],
    [0x9000C278,0x9100C279,0x9200C27A,0x9300C27B,0x9400C27C,0x9500C27D,0x9600C27E,0x9700C27F,0x9800C280,0x9900C281],
    [0x9A00C282,0x9B00C283,0x9C00C284,0x9D00C285,0x9E00C286,0x9F00C287,0xA000C288,0xA100C289,0xA200C28A,0xA300C28B],
    [0xA400C28C,0xA500C28D,0xA600C28E,0xA700C28F,0xA800C290,0xA900C291,0xAA00C292,0xAB00C293,0xAC00C294,0xAD00C295],
    [0xAE00C296,0xAF00C297,0xB000C298,0xB100C299,0xB200C29A,0xB300C29B,0xB400C29C,0xB500C29D,0xB600C29E,0xB700C29F],
    [0xB800C2A0,0xB900C2A1,0xBA00C2A2,0xBB00C2A3,0xBC00C2A4,0xBD00C2A5,0xBE00C2A6,0xBF00C2A7,0x0024C86B,0x0024C862],
    [0x0024C859,0x0024C850,0x0018C75D,0x0024C847,0x0024C83E,0x0024C835,0x0024C82C,0x0024C823,0x0024C81A,0x0024C811],
    [0x0024C808,0x0024C7FF,0x0024C7F6,0x0024C7ED,0x0024C7E4,0x0024C7DB,0x0024C7D2,0x0024C7C9,0x0024C7C0,0x0024C7B7],
    [0x0024C7AE,0x0024C7A5,0x0024C79C,0x0024C793,0x0024C78A,0x0024C781,0x0024C778,0x0024C76F,0x0024C766,0x0024C75D],
    [0x0018C66A,0x0024C754,0x0024C74B,0x0024C742,0x0024C739,0x0024C730,0x0024C727,0x0024C71E,0x0024C715,0x0024C70C],
    [0x0024C703,0x0024C6FA,0x0024C6F1,0x0024C6E8,0x0024C6DF,0x0024C6D6,0x0024C6CD,0x0024C6C4,0x0024C6BB,0x0024C6B2],
    [0x0024C6A9,0x0024C6A0,0x0024C697,0x0024C68E,0x0024C685,0x0024C67C,0x0024C673,0x0024C66A,0x0018C577,0x0024C661],
    [0x0024C658,0x0024C64F,0x8000C2E8,0x8100C2E9,0x8200C2EA,0x8300C2EB,0x8400C2EC,0x8500C2ED,0x8600C2EE,0x8700C2EF],
    [0x8800C2F0,0x8900C2F1,0x8A00C2F2,0x8B00C2F3,0x8C00C2F4,0x8D00C2F5,0x8E00C2F6,0x8F00C2F7,0x9000C2F8,0x9100C2F9],
    [0x9200C2FA,0x9300C2FB,0x9400C2FC,0x9500C2FD,0x9600C2FE,0x9700C2FF,0x9800C300,0x9900C301,0x9A00C302,0x9B00C303],
    [0x9C00C304,0x9D00C305,0x9E00C306,0x9F00C307,0xA000C308,0xA100C309,0xA200C30A,0xA300C30B,0xA400C30C,0xA500C30D],
    [0xA600C30E,0xA700C30F,0xA800C310,0xA900C311,0xAA00C312,0xAB00C313,0xAC00C314,0xAD00C315,0xAE00C316,0xAF00C317],
    [0xB000C318,0xB100C319,0xB200C31A,0xB300C31B,0xB400C31C,0xB500C31D,0xB600C31E,0xB700C31F,0xB800C320,0xB900C321],
    [0xBA00C322,0xBB00C323,0xBC00C324,0xBD00C325,0xBE00C326,0xBF00C327,0x0024C646,0x0024C63D,0x0024C634,0x0024C62B],
    [0x0024C622,0x0024C619,0x0024C610,0x0024C607,0x0024C5FE,0x0024C5F5,0x0024C5EC,0x0024C5E3,0x0024C5DA,0x0024C5D1],
    [0x0024C5C8,0x0024C5BF,0x0024C5B6,0x0024C5AD,0x0024C5A4,0x0024C59B,0x0024C592,0x0024C589,0x0024C580,0x0024C577],
    [0x0018C484,0x0024C56E,0x0024C565,0x0024C55C,0x0024C553,0x0024C54A,0x0024C541,0x0024C538,0x0024C52F,0x0024C526],
    [0x0024C51D,0x0024C514,0x0024C50B,0x0024C502,0x0024C4F9,0x0024C4F0,0x0024C4E7,0x0024C4DE,0x0024C4D5,0x0024C4CC],
    [0x0024C4C3,0x0024C4BA,0x0024C4B1,0x0024C4A8,0x0024C49F,0x0024C496,0x0024C48D,0x0024C484,0x0018C391,0x0024C47B],
    [0x0024C472,0x0024C469,0x0024C460,0x0024C457,0x0024C44E,0x0024C445,0x0024C43C,0x0024C433,0x0024C42A,0x0024C421],
    [0x8000C368,0x8100C369,0x8200C36A,0x8300C36B,0x8400C36C,0x8500C36D,0x8600C36E,0x8700C36F,0x8800C370,0x8900C371],
    [0x8A00C372,0x8B00C373,0x8C00C374,0x8D00C375,0x8E00C376,0x8F00C377,0x9000C378,0x9100C379,0x9200C37A,0x9300C37B],
    [0x9400C37C,0x9500C37D,0x9600C37E,0x9700C37F,0x9800C380,0x9900C381,0x9A00C382,0x9B00C383,0x9C00C384,0x9D00C385],
    [0x9E00C386,0x9F00C387,0xA000C388,0xA100C389,0xA200C38A,0xA300C38B,0xA400C38C,0xA500C38D,0xA600C38E,0xA700C38F],
    [0xA800C390,0xA900C391,0xAA00C392,0xAB00C393,0xAC00C394,0xAD00C395,0xAE00C396,0xAF00C397,0xB000C398,0xB100C399],
    [0xB200C39A,0xB300C39B,0xB400C39C,0xB500C39D,0xB600C39E,0xB700C39F,0xB800C3A0,0xB900C3A1,0xBA00C3A2,0xBB00C3A3],
    [0xBC00C3A4,0xBD00C3A5,0xBE00C3A6,0xBF00C3A7,0x0024C418,0x0024C40F,0x0024C406,0x0024C3FD,0x0024C3F4,0x0024C3EB],
    [0x0024C3E2,0x0024C3D9,0x0024C3D0,0x0024C3C7,0x0024C3BE,0x0024C3B5,0x0024C3AC,0x0024C3A3,0x0024C39A,0x0024C391],
    [0x0018C29E,0x0024C388,0x0024C37F,0x0024C376,0x0024C36D,0x0024C364,0x0024C35B,0x0024C352,0x0024C349,0x0024C340],
    [0x0024C337,0x0024C32E,0x0024C325,0x0024C31C,0x0024C313,0x0024C30A,0x0024C301,0x0024C2F8,0x0024C2EF,0x0024C2E6],
    [0x0024C2DD,0x0024C2D4,0x0024C2CB,0x0024C2C2,0x0024C2B9,0x0024C2B0,0x0024C2A7,0x0024C29E,0x0018C1AB,0x0024C295],
    [0x0024C28C,0x0024C283,0x0024C27A,0x0024C271,0x0024C268,0x0024C25F,0x0024C256,0x0024C24D,0x0024C244,0x0024C23B],
    [0x0024C232,0x0024C229,0x0024C220,0x0024C217,0x0024C20E,0x0024C205,0x0024C1FC,0x0024C1F3,0x8000C3E8,0x8100C3E9],
    [0x8200C3EA,0x8300C3EB,0x8400C3EC,0x8500C3ED,0x8600C3EE,0x8700C3EF,0x8800C3F0,0x8900C3F1,0x8A00C3F2,0x8B00C3F3],
    [0x8C00C3F4,0x8D00C3F5,0x8E00C3F6,0x8F00C3F7,0x9000C3F8,0x9100C3F9,0x9200C3FA,0x9300C3FB,0x9400C3FC,0x9500C3FD],
    [0x9600C3FE,0x9700C3FF,0x9800C400,0x9900C401,0x9A00C402,0x9B00C403,0x9C00C404,0x9D00C405,0x9E00C406,0x9F00C407],
    [0xA000C408,0xA100C409,0xA200C40A,0xA300C40B,0xA400C40C,0xA500C40D,0xA600C40E,0xA700C40F,0xA800C410,0xA900C411],
    [0xAA00C412,0xAB00C413,0xAC00C414,0xAD00C415,0xAE00C416,0xAF00C417,0xB000C418,0xB100C419,0xB200C41A,0xB300C41B],
    [0xB400C41C,0xB500C41D,0xB600C41E,0xB700C41F,0xB800C420,0xB900C421,0xBA00C422,0xBB00C423,0xBC00C424,0xBD00C425],
    [0xBE00C426,0xBF00C427,0x0024C1EA,0x0024C1E1,0x0024C1D8,0x0024C1CF,0x0024C1C6,0x0024C1BD,0x0024C1B4,0x0024C1AB],
    [0x0018C0B8,0x0024C1A2,0x0024C199,0x0024C190,0x0024C187,0x0024C17E,0x0024C175,0x0024C16C,0x0024C163,0x0024C15A],
    [0x0024C151,0x0024C148,0x0024C13F,0x0024C136,0x0024C12D,0x0024C124,0x0024C11B,0x0024C112,0x0024C109,0x0024C100],
    [0x0024C0F7,0x0024C0EE,0x0024C0E5,0x0024C0DC,0x0024C0D3,0x0024C0CA,0x0024C0C1,0x0024C0B8,0x0018BFC5,0x0024C0AF],
    [0x0024C0A6,0x0024C09D,0x0024C094,0x0024C08B,0x0024C082,0x0024C079,0x0024C070,0x0024C067,0x0024C05E,0x0024C055],
    [0x0024C04C,0x0024C043,0x0024C03A,0x0024C031,0x0024C028,0x0024C01F,0x0024C016,0x0024C00D,0x0024C004,0x0024BFFB],
    [0x0024BFF2,0x0024BFE9,0x0024BFE0,0x0024BFD7,0x0024BFCE,0x0024BFC5,0x8000C468,0x8100C469,0x8200C46A,0x8300C46B],
    [0x8400C46C,0x8500C46D,0x8600C46E,0x8700C46F,0x8800C470,0x8900C471,0x8A00C472,0x8B00C473,0x8C00C474,0x8D00C475],
    [0x8E00C476,0x8F00C477,0x9000C478,0x9100C479,0x9200C47A,0x9300C47B,0x9400C47C,0x9500C47D,0x9600C47E,0x9700C47F],
    [0x9800C480,0x9900C481,0x9A00C482,0x9B00C483,0x9C00C484,0x9D00C485,0x9E00C486,0x9F00C487,0xA000C488,0xA100C489],
    [0xA200C48A,0xA300C48B,0xA400C48C,0xA500C48D,0xA600C48E,0xA700C48F,0xA800C490,0xA900C491,0xAA00C492,0xAB00C493],
    [0xAC00C494,0xAD00C495,0xAE00C496,0xAF00C497,0xB000C498,0xB100C499,0xB200C49A,0xB300C49B,0xB400C49C,0xB500C49D],
    [0xB600C49E,0xB700C49F,0xB800C4A0,0xB900C4A1,0xBA00C4A2,0xBB00C4A3,0xBC00C4A4,0xBD00C4A5,0xBE00C4A6,0xBF00C4A7],
    [0x0018BED2,0x0024BFBC,0x0024BFB3,0x0024BFAA,0x0024BFA1,0x0024BF98,0x0024BF8F,0x0024BF86,0x0024BF7D,0x0024BF74],
    [0x0024BF6B,0x0024BF62,0x0024BF59,0x0024BF50,0x0024BF47,0x0024BF3E,0x0024BF35,0x0024BF2C,0x0024BF23,0x0024BF1A],
    [0x0024BF11,0x0024BF08,0x0024BEFF,0x0024BEF6,0x0024BEED,0x0024BEE4,0x0024BEDB,0x0024BED2,0x0018BDDF,0x0024BEC9],
    [0x0024BEC0,0x0024BEB7,0x0024BEAE,0x0024BEA5,0x0024BE9C,0x0024BE93,0x0024BE8A,0x0024BE81,0x0024BE78,0x0024BE6F],
    [0x0024BE66,0x0024BE5D,0x0024BE54,0x0024BE4B,0x0024BE42,0x0024BE39,0x0024BE30,0x0024BE27,0x0024BE1E,0x0024BE15],
    [0x0024BE0C,0x0024BE03,0x0024BDFA,0x0024BDF1,0x0024BDE8,0x0024BDDF,0x0018BCEC,0x0024BDD6,0x0024BDCD,0x0024BDC4],
    [0x0024BDBB,0x0024BDB2,0x0024BDA9,0x0024BDA0,0x8000C4E8,0x8100C4E9,0x8200C4EA,0x8300C4EB,0x8400C4EC,0x8500C4ED],
    [0x8600C4EE,0x8700C4EF,0x8800C4F0,0x8900C4F1,0x8A00C4F2,0x8B00C4F3,0x8C00C4F4,0x8D00C4F5,0x8E00C4F6,0x8F00C4F7],
    [0x9000C4F8,0x9100C4F9,0x9200C4FA,0x9300C4FB,0x9400C4FC,0x9500C4FD,0x9600C4FE,0x9700C4FF,0x9800C500,0x9900C501],
    [0x9A00C502,0x9B00C503,0x9C00C504,0x9D00C505,0x9E00C506,0x9F00C507,0xA000C508,0xA100C509,0xA200C50A,0xA300C50B],
    [0xA400C50C,0xA500C50D,0xA600C50E,0xA700C50F,0xA800C510,0xA900C511,0xAA00C512,0xAB00C513,0xAC00C514,0xAD00C515],
    [0xAE00C516,0xAF00C517,0xB000C518,0xB100C519,0xB200C51A,0xB300C51B,0xB400C51C,0xB500C51D,0xB600C51E,0xB700C51F]]"

end
