(* ===== verification/Table_Nodes_6.thy ===== *)
theory Table_Nodes_6
  imports Main
begin

text \<open>
  Lines 5053 to 6060 of \<open>unf/table.hh\<close>: part of the array \<open>NODES\<close>, one list per line of the source.
\<close>

definition NODES_35 :: "nat list list" where
  "NODES_35 = [
    [0xB800C520,0xB900C521,0xBA00C522,0xBB00C523,0xBC00C524,0xBD00C525,0xBE00C526,0xBF00C527,0x0024BD97,0x0024BD8E],
    [0x0024BD85,0x0024BD7C,0x0024BD73,0x0024BD6A,0x0024BD61,0x0024BD58,0x0024BD4F,0x0024BD46,0x0024BD3D,0x0024BD34],
    [0x0024BD2B,0x0024BD22,0x0024BD19,0x0024BD10,0x0024BD07,0x0024BCFE,0x0024BCF5,0x0024BCEC,0x0018BBF9,0x0024BCE3],
    [0x0024BCDA,0x0024BCD1,0x0024BCC8,0x0024BCBF,0x0024BCB6,0x0024BCAD,0x0024BCA4,0x0024BC9B,0x0024BC92,0x0024BC89],
    [0x0024BC80,0x0024BC77,0x0024BC6E,0x0024BC65,0x0024BC5C,0x0024BC53,0x0024BC4A,0x0024BC41,0x0024BC38,0x0024BC2F],
    [0x0024BC26,0x0024BC1D,0x0024BC14,0x0024BC0B,0x0024BC02,0x0024BBF9,0x0018BB06,0x0024BBF0,0x0024BBE7,0x0024BBDE],
    [0x0024BBD5,0x0024BBCC,0x0024BBC3,0x0024BBBA,0x0024BBB1,0x0024BBA8,0x0024BB9F,0x0024BB96,0x0024BB8D,0x0024BB84],
    [0x0024BB7B,0x0024BB72,0x8000C568,0x8100C569,0x8200C56A,0x8300C56B,0x8400C56C,0x8500C56D,0x8600C56E,0x8700C56F],
    [0x8800C570,0x8900C571,0x8A00C572,0x8B00C573,0x8C00C574,0x8D00C575,0x8E00C576,0x8F00C577,0x9000C578,0x9100C579],
    [0x9200C57A,0x9300C57B,0x9400C57C,0x9500C57D,0x9600C57E,0x9700C57F,0x9800C580,0x9900C581,0x9A00C582,0x9B00C583],
    [0x9C00C584,0x9D00C585,0x9E00C586,0x9F00C587,0xA000C588,0xA100C589,0xA200C58A,0xA300C58B,0xA400C58C,0xA500C58D],
    [0xA600C58E,0xA700C58F,0xA800C590,0xA900C591,0xAA00C592,0xAB00C593,0xAC00C594,0xAD00C595,0xAE00C596,0xAF00C597],
    [0xB000C598,0xB100C599,0xB200C59A,0xB300C59B,0xB400C59C,0xB500C59D,0xB600C59E,0xB700C59F,0xB800C5A0,0xB900C5A1],
    [0xBA00C5A2,0xBB00C5A3,0xBC00C5A4,0xBD00C5A5,0xBE00C5A6,0xBF00C5A7,0x0024BB69,0x0024BB60,0x0024BB57,0x0024BB4E],
    [0x0024BB45,0x0024BB3C,0x0024BB33,0x0024BB2A,0x0024BB21,0x0024BB18,0x0024BB0F,0x0024BB06,0x0018BA13,0x0024BAFD],
    [0x0024BAF4,0x0024BAEB,0x0024BAE2,0x0024BAD9,0x0024BAD0,0x0024BAC7,0x0024BABE,0x0024BAB5,0x0024BAAC,0x0024BAA3],
    [0x0024BA9A,0x0024BA91,0x0024BA88,0x0024BA7F,0x0024BA76,0x0024BA6D,0x0024BA64,0x0024BA5B,0x0024BA52,0x0024BA49],
    [0x0024BA40,0x0024BA37,0x0024BA2E,0x0024BA25,0x0024BA1C,0x0024BA13,0x0018B920,0x0024BA0A,0x0024BA01,0x0024B9F8],
    [0x0024B9EF,0x0024B9E6,0x0024B9DD,0x0024B9D4,0x0024B9CB,0x0024B9C2,0x0024B9B9,0x0024B9B0,0x0024B9A7,0x0024B99E],
    [0x0024B995,0x0024B98C,0x0024B983,0x0024B97A,0x0024B971,0x0024B968,0x0024B95F,0x0024B956,0x0024B94D,0x0024B944],
    [0x8000C5E8,0x8100C5E9,0x8200C5EA,0x8300C5EB,0x8400C5EC,0x8500C5ED,0x8600C5EE,0x8700C5EF,0x8800C5F0,0x8900C5F1],
    [0x8A00C5F2,0x8B00C5F3,0x8C00C5F4,0x8D00C5F5,0x8E00C5F6,0x8F00C5F7,0x9000C5F8,0x9100C5F9,0x9200C5FA,0x9300C5FB],
    [0x9400C5FC,0x9500C5FD,0x9600C5FE,0x9700C5FF,0x9800C600,0x9900C601,0x9A00C602,0x9B00C603,0x9C00C604,0x9D00C605],
    [0x9E00C606,0x9F00C607,0xA000C608,0xA100C609,0xA200C60A,0xA300C60B,0xA400C60C,0xA500C60D,0xA600C60E,0xA700C60F],
    [0xA800C610,0xA900C611,0xAA00C612,0xAB00C613,0xAC00C614,0xAD00C615,0xAE00C616,0xAF00C617,0xB000C618,0xB100C619],
    [0xB200C61A,0xB300C61B,0xB400C61C,0xB500C61D,0xB600C61E,0xB700C61F,0xB800C620,0xB900C621,0xBA00C622,0xBB00C623],
    [0xBC00C624,0xBD00C625,0xBE00C626,0xBF00C627,0x0024B93B,0x0024B932,0x0024B929,0x0024B920,0x0018B82D,0x0024B917],
    [0x0024B90E,0x0024B905,0x0024B8FC,0x0024B8F3,0x0024B8EA,0x0024B8E1,0x0024B8D8,0x0024B8CF,0x0024B8C6,0x0024B8BD],
    [0x0024B8B4,0x0024B8AB,0x0024B8A2,0x0024B899,0x0024B890,0x0024B887,0x0024B87E,0x0024B875,0x0024B86C,0x0024B863],
    [0x0024B85A,0x0024B851,0x0024B848,0x0024B83F,0x0024B836,0x0024B82D,0x0018B73A,0x0024B824,0x0024B81B,0x0024B812],
    [0x0024B809,0x0024B800,0x0024B7F7,0x0024B7EE,0x0024B7E5,0x0024B7DC,0x0024B7D3,0x0024B7CA,0x0024B7C1,0x0024B7B8],
    [0x0024B7AF,0x0024B7A6,0x0024B79D,0x0024B794,0x0024B78B,0x0024B782,0x0024B779,0x0024B770,0x0024B767,0x0024B75E],
    [0x0024B755,0x0024B74C,0x0024B743,0x0024B73A,0x0018B647,0x0024B731,0x0024B728,0x0024B71F,0x8000C668,0x8100C669],
    [0x8200C66A,0x8300C66B,0x8400C66C,0x8500C66D,0x8600C66E,0x8700C66F,0x8800C670,0x8900C671,0x8A00C672,0x8B00C673],
    [0x8C00C674,0x8D00C675,0x8E00C676,0x8F00C677,0x9000C678,0x9100C679,0x9200C67A,0x9300C67B,0x9400C67C,0x9500C67D],
    [0x9600C67E,0x9700C67F,0x9800C680,0x9900C681,0x9A00C682,0x9B00C683,0x9C00C684,0x9D00C685,0x9E00C686,0x9F00C687],
    [0xA000C688,0xA100C689,0xA200C68A,0xA300C68B,0xA400C68C,0xA500C68D,0xA600C68E,0xA700C68F,0xA800C690,0xA900C691],
    [0xAA00C692,0xAB00C693,0xAC00C694,0xAD00C695,0xAE00C696,0xAF00C697,0xB000C698,0xB100C699,0xB200C69A,0xB300C69B],
    [0xB400C69C,0xB500C69D,0xB600C69E,0xB700C69F,0xB800C6A0,0xB900C6A1,0xBA00C6A2,0xBB00C6A3,0xBC00C6A4,0xBD00C6A5],
    [0xBE00C6A6,0xBF00C6A7,0x0024B716,0x0024B70D,0x0024B704,0x0024B6FB,0x0024B6F2,0x0024B6E9,0x0024B6E0,0x0024B6D7],
    [0x0024B6CE,0x0024B6C5,0x0024B6BC,0x0024B6B3,0x0024B6AA,0x0024B6A1,0x0024B698,0x0024B68F,0x0024B686,0x0024B67D],
    [0x0024B674,0x0024B66B,0x0024B662,0x0024B659,0x0024B650,0x0024B647,0x0018B554,0x0024B63E,0x0024B635,0x0024B62C],
    [0x0024B623,0x0024B61A,0x0024B611,0x0024B608,0x0024B5FF,0x0024B5F6,0x0024B5ED,0x0024B5E4,0x0024B5DB,0x0024B5D2],
    [0x0024B5C9,0x0024B5C0,0x0024B5B7,0x0024B5AE,0x0024B5A5,0x0024B59C,0x0024B593,0x0024B58A,0x0024B581,0x0024B578],
    [0x0024B56F,0x0024B566,0x0024B55D,0x0024B554,0x0018B461,0x0024B54B,0x0024B542,0x0024B539,0x0024B530,0x0024B527],
    [0x0024B51E,0x0024B515,0x0024B50C,0x0024B503,0x0024B4FA,0x0024B4F1,0x8000C6E8,0x8100C6E9,0x8200C6EA,0x8300C6EB],
    [0x8400C6EC,0x8500C6ED,0x8600C6EE,0x8700C6EF,0x8800C6F0,0x8900C6F1,0x8A00C6F2,0x8B00C6F3,0x8C00C6F4,0x8D00C6F5],
    [0x8E00C6F6,0x8F00C6F7,0x9000C6F8,0x9100C6F9,0x9200C6FA,0x9300C6FB,0x9400C6FC,0x9500C6FD,0x9600C6FE,0x9700C6FF],
    [0x9800C700,0x9900C701,0x9A00C702,0x9B00C703,0x9C00C704,0x9D00C705,0x9E00C706,0x9F00C707,0xA000C708,0xA100C709],
    [0xA200C70A,0xA300C70B,0xA400C70C,0xA500C70D,0xA600C70E,0xA700C70F,0xA800C710,0xA900C711,0xAA00C712,0xAB00C713],
    [0xAC00C714,0xAD00C715,0xAE00C716,0xAF00C717,0xB000C718,0xB100C719,0xB200C71A,0xB300C71B,0xB400C71C,0xB500C71D],
    [0xB600C71E,0xB700C71F,0xB800C720,0xB900C721,0xBA00C722,0xBB00C723,0xBC00C724,0xBD00C725,0xBE00C726,0xBF00C727],
    [0x0024B4E8,0x0024B4DF,0x0024B4D6,0x0024B4CD,0x0024B4C4,0x0024B4BB,0x0024B4B2,0x0024B4A9,0x0024B4A0,0x0024B497],
    [0x0024B48E,0x0024B485,0x0024B47C,0x0024B473,0x0024B46A,0x0024B461,0x0018B36E,0x0024B458,0x0024B44F,0x0024B446],
    [0x0024B43D,0x0024B434,0x0024B42B,0x0024B422,0x0024B419,0x0024B410,0x0024B407,0x0024B3FE,0x0024B3F5,0x0024B3EC],
    [0x0024B3E3,0x0024B3DA,0x0024B3D1,0x0024B3C8,0x0024B3BF,0x0024B3B6,0x0024B3AD,0x0024B3A4,0x0024B39B,0x0024B392],
    [0x0024B389,0x0024B380,0x0024B377,0x0024B36E,0x0018B27B,0x0024B365,0x0024B35C,0x0024B353,0x0024B34A,0x0024B341],
    [0x0024B338,0x0024B32F,0x0024B326,0x0024B31D,0x0024B314,0x0024B30B,0x0024B302,0x0024B2F9,0x0024B2F0,0x0024B2E7],
    [0x0024B2DE,0x0024B2D5,0x0024B2CC,0x0024B2C3,0x8000C74C,0x8100C74D,0x8200C74E,0x8300C74F,0x8400C750,0x8500C751],
    [0x8600C752,0x8700C753,0x8800C754,0x8900C755,0x8A00C756,0x8B00C757,0x8C00C758,0x8D00C759,0x8E00C75A,0x8F00C75B],
    [0x9000C75C,0x9100C75D,0x9200C75E,0x9300C75F,0x9400C760,0x9500C761,0x9600C762,0x9700C763,0x9800C764,0x9900C765],
    [0x9A00C766,0x9B00C767,0x9C00C768,0x9D00C769,0x9E00C76A,0x9F00C76B,0xA000C76C,0xA100C76D,0xA200C76E,0xA300C76F],
    [0x0024B2BA,0x0024B2B1,0x0024B2A8,0x0024B29F,0x0024B296,0x0024B28D,0x0024B284,0x0024B27B,0x0018B188,0x0024B272],
    [0x0024B269,0x0024B260,0x0024B257,0x0024B24E,0x0024B245,0x0024B23C,0x0024B233,0x0024B22A,0x0024B221,0x0024B218],
    [0x0024B20F,0x0024B206,0x0024B1FD,0x0024B1F4,0x0024B1EB,0x0024B1E2,0x0024B1D9,0x0024B1D0,0x0024B1C7,0x0024B1BE],
    [0x0024B1B5,0x0024B1AC,0x0024B1A3,0x0024B19A,0x0024B191,0x0024B188,0xA400C728,0xA500C779,0xA600C7F9,0xA700C879],
    [0xA800C8F9,0xA900C979,0xAA00C9F9,0xAB00CA79,0xAC00CA34,0xAD00CA95,0x000C0FB8,0x000C0FB5,0x000C0FB2,0x000C0FAF],
    [0x000C0FAC,0x000C0FA9,0x000C0FA6,0x000C0FA3,0x000C0FA0,0x000CAF1E,0x000C0F9D,0x000C0F9A,0x000C0F97,0x000C0F94],
    [0x000C0F91,0x000C0F8E,0x000C0F8B,0x000C0F88,0x000C0F85,0x000C0F82,0x000C0F7F,0x000C0F7C,0x000C0F79,0x000C0F76],
    [0x000C0F73,0x000C0F70,0x000C0F6D,0x000C0F6A,0x000C0F67,0x000C0F64,0x000C0F61,0x000C0F5E,0x000C0F5B,0x000C0F58],
    [0x000C0F55,0x000C0F52,0x000C0F4F,0x000C0F4C,0x000C0F49,0x000C0F46,0x000C0F43,0x000C0F40,0x000C0F3D,0x000C0F3A],
    [0x000C0F37,0x000C0F34,0x8000C77A,0x8100C77B,0x8200C77C,0x8300C77D,0x8400C77E,0x8500C77F,0x8600C780,0x8700C781],
    [0x8800C781,0x8900C782,0x8A00C783,0x8B00C784,0x8C00C785,0x8D00C786,0x8E00C787,0x8F00C788,0x9000C789,0x9100C78A],
    [0x9200C78B,0x9300C78C,0x9400C78D,0x9500C78E,0x9600C78F,0x9700C790,0x9800C791,0x9900C792,0x9A00C793,0x9B00C794],
    [0x9C00C795,0x9D00C796,0x9E00C797,0x9F00C798,0xA000C799,0xA100C79A,0xA200C79B,0xA300C79C,0xA400C79D,0xA500C79E],
    [0xA600C79F,0xA700C7A0,0xA800C7A1,0xA900C7A2,0xAA00C7A3,0xAB00C7A4,0xAC00C7A5,0xAD00C7A6,0xAE00C7A7,0xAF00C7E8],
    [0xB000C7E9,0xB100C7EA,0xB200C7EB,0xB300C7EC,0xB400C7ED,0xB500C7EE,0xB600C7EF,0xB700C7F0,0xB800C7F1,0xB900C7F2],
    [0xBA00C7F3,0xBB00C7F4,0xBC00C7F5,0xBD00C7F6,0xBE00C7F7,0xBF00C7F8,0x000C0F31,0x000C0F2E,0x000C0F2B,0x000C0F28],
    [0x000C0F25,0x000C0F22,0x000C0F1F,0x000C0F1C,0x000C0F19,0x000C0F16,0x000C0F13,0x000C0F10,0x000C0F0D,0x000C0F0A],
    [0x000C0F07,0x000C0F04,0x000C0F01,0x8000C839,0x8100C83A,0x8200C83B,0x8300C83C,0x8400C83D,0x8500C83E,0x8600C83F],
    [0x8700C840,0x8800C841,0x8900C842,0x8A00C843,0x8B00C844,0x8C00C845,0x8D00C846,0x8E00C847,0x8F00C848,0x9000C849],
    [0x9100C84A,0x9200C84B,0x9300C84C,0x9400C84D,0x9500C84E,0x9600C84F,0x9700C850,0x9800C851,0x9900C852,0x9A00C853],
    [0x9B00C854,0x9C00C78D,0x9D00C855,0x9E00C856,0x9F00C857,0xA000C858,0xA100C859,0xA200C85A,0xA300C85B,0xA400C85C],
    [0xA500C85D,0xA600C85E,0xA700C85F,0xA800C860,0xA900C861,0xAA00C862,0xAB00C863,0xAC00C864,0xAD00C865,0xAE00C866],
    [0xAF00C867,0xB000C868,0xB100C869,0xB200C86A,0xB300C86B,0xB400C86C,0xB500C86D,0xB600C86E,0xB700C86F,0xB800C870],
    [0xB900C871,0xBA00C872,0xBB00C873,0xBC00C874,0xBD00C875,0xBE00C876,0xBF00C877,0x000C0EFE,0x000C0EFB,0x000C0EF8],
    [0x000C0EF5,0x000C0EF2,0x000C0EEF,0x000C0EEC,0x000C0EE9,0x000C0EE6,0x000C0EE3,0x000C0EE0,0x000C0EDD,0x000C0EDA],
    [0x000C0ED7,0x000C0ED4,0x000C0ED1,0x000C0ECE,0x000C0ECB,0x000C0EC8,0x000C0EC5,0x000C0EC2,0x000C0EBF,0x000C0EBC],
    [0x000C0EB9,0x000C0EB6,0x000C0EB3,0x000C0EB0,0x000C0EAD,0x000C0EAA,0x000C0EA7,0x000C0EA4,0x000C0EA1,0x000C0E9E],
    [0x000C0E9B,0x000C0E98,0x000C0E95,0x000C0E92,0x000C0E8F,0x000C0E8C,0x000C0E89,0x000C0E86,0x000C0E83,0x000C0E80],
    [0x000C0E7D,0x000C0E7A,0x000C0E77,0x000C0E74,0x000C0E71,0x000C0E6E,0x000C0E6B,0x000C0E68,0x000C0E65,0x000C0E62],
    [0x000C0E5F,0x000C0E5C,0x000C0E59,0x000C0E56,0x000C0E53,0x000C0E50,0x000C0E4D,0x000C0E4A,0x000C0E47,0x000C0E44],
    [0x000C0E41,0x8000C878,0x8100C8B9,0x8200C8BA,0x8300C8BB,0x8400C8BC,0x8500C8BD,0x8600C8BE,0x8700C8BF,0x8800C8C0],
    [0x8900C8C1,0x8A00C8C2,0x8B00C8C3,0x8C00C8C4,0x8D00C8C5,0x8E00C8C6,0x8F00C8C7,0x9000C8C8,0x9100C8C9,0x9200C8CA],
    [0x9300C8CB,0x9400C8CC,0x9500C8CD,0x9600C8CE,0x9700C8CF,0x9800C8D0,0x9900C8D1,0x9A00C8D2,0x9B00C8D3,0x9C00C8D4],
    [0x9D00C8D5,0x9E00C8D6,0x9F00C8D7,0xA000C8D8,0xA100C867,0xA200C8D9,0xA300C8DA,0xA400C8DB,0xA500C8DC,0xA600C8DD],
    [0xA700C8DE,0xA800C8DF,0xA900C8E0,0xAA00C857,0xAB00C8E1,0xAC00C8E2,0xAD00C8E3,0xAE00C8E4,0xAF00C8E5,0xB000C8E6],
    [0xB100C8E7,0xB200C8E8,0xB300C8E9,0xB400C8EA,0xB500C8EB,0xB600C8EC,0xB700C8ED,0xB800C8EE,0xB900C8EF,0xBA00C8F0],
    [0xBB00C8F1,0xBC00C8F2,0xBD00C8F3,0xBE00C8F4,0xBF00C78D,0x000C0E3E,0x000C0E3B,0x000C0E38,0x000C0E35,0x000C0E32],
    [0x000C0E2F,0x000C0E2C,0x000C0E29,0x000C0E26,0x000C0E23,0x000C0E20,0x000C0E1D,0x000C0E1A,0x000C0E17,0x000C0E14],
    [0x000C0E11,0x000C0E0E,0x000C0E0B,0x000C0E08,0x000C0E05,0x000C0E02,0x000C0DFF,0x000C0DFC,0x000C0DF9,0x000C0DF6],
    [0x000C0DF3,0x000C0DF0,0x000C0DED,0x000C0DEA,0x000C0DE7,0x000C0DE4,0x000C0DE1,0x000C0DDE,0x000C0DDB,0x000C0DD8],
    [0x000C0DD5,0x000C0DD2,0x000C0DCF,0x000C0DCC,0x000C0DC9,0x000C0DC6,0x000C0DC3,0x000C0DC0,0x000C0DBD,0x000C0DBA],
    [0x000C0DB7,0x000C0DB4,0x000C0DB1,0x000C0DAE,0x000C0DAB,0x000C0DA8,0x000C0DA5,0x000C0DA2,0x000C0D9F,0x000C0D9C],
    [0x000C0D99,0x000C0D96,0x000C0D93,0x000C0D90,0x000C0D8D,0x000C0D8A,0x000C0D87,0x000C0D84,0x000C0D81,0x8000C8F5],
    [0x8100C8F6,0x8200C8F7,0x8300C8F8,0x8400C939,0x8500C93A,0x8600C93B,0x8700C93C,0x8800C93D,0x8900C93E,0x8A00C93F],
    [0x8B00C940,0x8C00C941,0x8D00C942,0x8E00C943,0x8F00C944,0x9000C945,0x9100C946,0x9200C947,0x9300C948,0x9400C949],
    [0x9500C94A,0x9600C94B,0x9700C94C,0x9800C94D,0x9900C94E,0x9A00C94F,0x9B00C859,0x9C00C950,0x9D00C951,0x9E00C952],
    [0x9F00C953,0xA000C954,0xA100C955,0xA200C956,0xA300C957,0xA400C958,0xA500C959,0xA600C95A,0xA700C95B,0xA800C95C],
    [0xA900C95D,0xAA00C95E,0xAB00C95F,0xAC00C960,0xAD00C961,0xAE00C962,0xAF00C963,0xB000C964,0xB100C965,0xB200C966],
    [0xB300C967,0xB400C968,0xB500C969,0xB600C96A,0xB700C96B,0xB800C96C,0xB900C96D,0xBA00C96E,0xBB00C96F,0xBC00C970],
    [0xBD00C971,0xBE00C972,0xBF00C973,0x000C0D7E,0x000C0D7B,0x000C0D78,0x000C0D75,0x000C0D72,0x000C0D6F,0x000C0D6C],
    [0x000C0D69,0x000C0D66,0x000C0D63,0x000C0D60,0x000C0D5D,0x000C0D5A,0x000CAF4B,0x000C0D57,0x000C0D54,0x000C0D51],
    [0x000C0D4E,0x000C0D4B,0x000C0D48,0x000C0D45,0x000C0D42,0x000C0D3F,0x000C0D3C,0x000C0D39,0x000C0D36,0x000C0D33],
    [0x000C0D30,0x000C0D2D,0x000C0D2A,0x000C0D27,0x000C0D24,0x000C0D21,0x000C0D1E,0x000C0D1B,0x000C0D18,0x000C0D15],
    [0x000C0D12,0x000C0D0F,0x000C0D0C,0x000C0D09,0x000C0D06,0x000C0D03,0x000C0D00,0x000C0CFD,0x000C0CFA,0x000C0CF7],
    [0x000C0CF4,0x000C0CF1,0x000C0CEE,0x000C0CEB,0x000C0CE8,0x000C0CE5,0x000C0CE2,0x000C0CDF,0x000C0CDC,0x000C0CD9],
    [0x000C0CD6,0x000C0CD3,0x000C0CD0,0x000C0CCD,0x000C0CCA,0x000C0CC7,0x000C0CC4,0x8000C974,0x8100C975,0x8200C976],
    [0x8300C977,0x8400C978,0x8500C987,0x8600C988,0x8700C98A,0x8800C98C,0x8900C98D,0x8A00C998,0x8B00C99A,0x8C00C99C],
    [0x8D00C99D,0x000C0CC1,0x000C0CBE,0x9000C9A0,0x000C0CBB,0x9200C9A1,0x000C0CB8,0x000C0CB5,0x9500C9A2,0x9600C9A7],
    [0x9700C9A8,0x9800C9B9,0x9900C9BA,0x9A00C9BB,0x9B00C9BC,0x9C00C9BD,0x9D00C9BE,0x9E00C9BF,0x000C0CB2,0xA000C9C0],
    [0x000C0CAF,0xA200C9C1,0x000C0CAC,0x000C0CA9,0xA500C9C2,0xA600C9C3,0x000C0CA6,0x000C0CA3,0x000C0CA0,0xAA00C9C4],
    [0xAB00C9C5,0xAC00C9C6,0xAD00C9C7,0x000C0C9D,0x000C0C9A,0xB000C9C8,0xB100C9C9,0xB200C9CA,0xB300C9CB,0xB400C9CC],
    [0xB500C9CD,0xB600C9CE,0xB700C9CF,0xB800C9D0,0xB900C9D1,0xBA00C9D2,0xBB00C9D3,0xBC00C9D4,0xBD00C9D5,0xBE00C9D6],
    [0xBF00C9D7,0x000C0C97,0x000C0C94,0x000C0C91,0x000C0C8E,0x000C0C8B,0x000C0C88,0x000C0C85,0x000C0C82,0x000C0C7F],
    [0x000C0C7C,0x000C0C79,0x000C0C76,0x000C0C73,0x000C0C70,0x000C0C6D,0x000C0C6A,0x000C0C67,0x000C0C64,0x000C0C61],
    [0x000C0C5E,0x000C0C5B,0x000C0C58,0x000C0C55,0x000C0C52,0x000C0C4F,0x000C0C4C,0x000C0C49,0x000C0C46,0x000C0C43],
    [0x000C0C40,0x000C0C3D,0x000C0C3A,0x000C0C37,0x000C0C34,0x000C0C31,0x000C0C2E,0x000C0C2B,0x000C0C28,0x000C0C25],
    [0x000C0C22,0x000C0C1F,0x000C0C1C,0x000C0C19,0x000CAF05,0x000C0C16,0x000C0C13,0x000C0C10,0x000C0C0D,0x000CAEF1],
    [0x000C0C0A,0x000C0C07,0x000C0C04,0x000C0C01,0x000C0BFE,0x000C0BFB,0x000C0BF8,0x000C0BF5,0x000C0BF2,0x000C0BEF],
    [0x000C0BEC,0x000C0BE9,0x000C0BE6,0x000C0BE3,0x000C0BE0,0x8000C9D8,0x8100C9D9,0x8200C9DA,0x8300C9DB,0x8400C9DC],
    [0x8500C9DD,0x8600C9DE,0x8700C9DF,0x8800C9E0,0x8900C9E1,0x8A00C9E2,0x8B00C9E3,0x8C00C9E4,0x8D00C9E5,0x8E00C9E6],
    [0x8F00C9E7,0x9000C9E8,0x9100C9E9,0x9200C9EA,0x9300C9EB,0x9400C9EC,0x9500C9ED,0x9600C9EE,0x9700C8CE,0x9800C9EF],
    [0x9900C9F0,0x9A00C9F1,0x9B00C9F2,0x9C00C9F3,0x9D00C9F4,0x9E00C9F4,0x9F00C9F5,0xA000C9F6,0xA100C9F7,0xA200C9F8],
    [0xA300CA27,0xA400CA28,0xA500CA39,0xA600CA3A,0xA700C9C2,0xA800CA3B,0xA900CA3C,0xAA00CA3D,0xAB00CA3E,0xAC00CA3F],
    [0xAD00CA40,0x000C0BDD,0x000C0BDA,0xB000CA41,0xB100CA42,0xB200CA43,0xB300CA44,0xB400CA45,0xB500CA46,0xB600CA47],
    [0xB700CA48,0xB800C9CE,0xB900CA49,0xBA00CA4A,0xBB00CA4B,0xBC00C9A0,0xBD00CA4C,0xBE00CA4D,0xBF00CA4E,0x000C0BD7],
    [0x000C0BD4,0x000C0BD1,0x000C0BCE,0x000C0BCB,0x000C0BC8,0x00100BC4,0x000C0BC1,0x000C0BBE,0x000C0BBB,0x000C0BB8],
    [0x000C0BB5,0x000C0BB2,0x000C0BAF,0x000C0BAC,0x000C0BA9,0x000C0BA6,0x000C0BA3,0x000C0BA0,0x000C0B9D,0x000C0B9A],
    [0x000C0B97,0x000C0B94,0x000C0B91,0x000C0B8E,0x000C0B8B,0x000C0B88,0x000C0B85,0x000C0B82,0x000C0B7F,0x000C0B7C],
    [0x000C0B79,0x000C0B76,0x000C0B73,0x000C0B70,0x000C0B6D,0x000C0B6A,0x000C0B67,0x000C0B64,0x000C0B61,0x000C0B5E],
    [0x000C0B5B,0x000C0B58,0x000C0B55,0x000C0B52,0x000C0B4F,0x000C0B4C,0x000C0B49,0x000C0B46,0x000C0B43,0x000C0B40],
    [0x000C0B3D,0x000C0B3A,0x000C0B37,0x000C0B34,0x000C0B31,0x000C0B2E,0x000C0B2B,0x000C0B28,0x000C0B25,0x000C0B22],
    [0x000C0B1F,0x000C0B1C,0x000C0B19,0x8000CA4F,0x8100CA50,0x8200CA51,0x8300CA52,0x8400CA53,0x8500CA54,0x8600CA55]]"

definition NODES_36 :: "nat list list" where
  "NODES_36 = [
    [0x8700CA56,0x8800CA57,0x8900C9D7,0x8A00CA58,0x8B00C9D8,0x8C00CA59,0x8D00CA5A,0x8E00CA5B,0x8F00CA5C,0x9000CA5D],
    [0x9100C9A1,0x9200C7A2,0x9300CA5E,0x9400CA5F,0x9500CA60,0x9600C868,0x9700C93F,0x9800CA61,0x9900CA62,0x9A00C9DF],
    [0x9B00CA63,0x9C00C9E0,0x9D00CA64,0x9E00CA65,0x9F00CA66,0xA000C9A7,0xA100CA67,0xA200CA68,0xA300CA69,0xA400CA6A],
    [0xA500CA6B,0xA600C9A8,0xA700CA6C,0xA800CA6D,0xA900CA6E,0xAA00CA6F,0xAB00CA70,0xAC00CA71,0xAD00C9EE,0xAE00CA72],
    [0xAF00CA73,0xB000C8CE,0xB100CA74,0xB200C9F2,0xB300CA75,0xB400CA76,0xB500CA77,0xB600CA78,0xB700CAB9,0xB800C9F7],
    [0xB900CABA,0xBA00C9C1,0xBB00CABB,0xBC00C9F8,0xBD00C855,0xBE00CABC,0xBF00CA27,0x000C0B16,0x000C0B13,0x000C0B10],
    [0x000C0B0D,0x000C0B0A,0x000C0B07,0x000C0B04,0x000C0B01,0x000C0AFE,0x000C0AFB,0x000C0AF8,0x000C0AF5,0x000C0AF2],
    [0x00100AEE,0x00100AEA,0x00100AE6,0x000C0AE3,0x000C0AE0,0x000C0ADD,0x00100AD9,0x00100AD5,0x00100AD1,0x000C0ACE],
    [0x000C0ACB,0x9D00CAD2,0x0010A021,0x9F00CAD4,0x0010A01D,0x0010A019,0x0010A015,0x0018B182,0x0018B17C,0x0010A011],
    [0x0010A00D,0x0010A009,0x0010A005,0x0010A001,0xAA00CAD5,0xAB00CAD6,0xAC00CAD7,0xAD00CAD8,0xAE00CAD9,0xAF00CADA],
    [0xB000CADB,0xB100CADC,0xB200CADD,0xB300CAEB,0xB400CAF1,0xB500CAF3,0xB600CAF4,0x00109FFD,0xB800CAF5,0xB900CAF6],
    [0xBA00CAF7,0xBB00CAF8,0xBC00CB13,0x00109FF9,0xBE00CB14,0x00109FF5,0x00109FF1,0x00109FED,0x00109FE9,0x00109FE5],
    [0x00109FE1,0x8000CABD,0x8100CA39,0x8200CABE,0x8300CABF,0x8400CAC0,0x8500CAC1,0x8600CAC2,0x8700CA3B,0x8800C9BD],
    [0x8900CAC3,0x8A00CA3C,0x8B00CAC4,0x8C00CA3D,0x8D00CAC5,0x8E00C781,0x8F00CAC6,0x9000CAC7,0x9100CAC8,0x9200CAC9],
    [0x9300CACA,0x9400CACB,0x9500CACC,0x9600CACD,0x9700CACE,0x9800CACF,0x9900CAD0,0x00109FDD,0x00109FD9,0x8000CB17],
    [0x8100CB1A,0x00109FD5,0x8300CB24,0x8400CB25,0x00109FD1,0x8600CB26,0x8700CB27,0x8800CB28,0x8900CB29,0x8A00CB2A],
    [0x8B00CB2B,0x8C00CB2C,0x8D00CB2D,0x8E00CB2E,0x00109FCD,0x00109FC9,0x00109FC5,0x00109FC1,0x00109FBD,0x0010B17C],
    [0x00109FB9,0x00109FB5,0x00109FB1,0x00109FAD,0x00109FA9,0x91009746,0x9A00CB31,0x00209FA1,0x9C00CB33,0x00209F99],
    [0x00209F91,0x8500CAA4,0x8600CA93,0x8700CAD3,0x00209F89,0x0020B140,0x0030B170,0x9D00CAB0,0x0030B164,0x0030B158],
    [0x0030B14C,0x0030B140,0x0020B11C,0xAB00CB34,0x9E00CB38,0x9F00CB39,0xA000CB3A,0xA100CB3C,0xA200CB3D,0xA300CB3E],
    [0xA400CB3F,0x0020B110,0x0030B134,0x0030B128,0x0030B11C,0xAF00CAB5,0xBB00CB40,0xBC00CB49,0xBD00CB4A,0xBE00CB4B],
    [0xBF00CB4C,0x8000CB54,0x0030B110,0xA000CADE,0xA100CB52,0xA200CBD2,0xA300CC52,0xA400CCD2,0xA500CD52,0xA600CDD2],
    [0xA700CE52,0xA800CED2,0x8000CB9E,0x8100CB9F,0x8200CBA0,0x8300CBA1,0x8400CBA2,0x8500C9C8,0x8600CBA3,0x8700CBA4],
    [0x8800CBA5,0x8900CBA6,0x8A00C9C9,0x8B00CBA7,0x8C00CBA8,0x8D00CBA9,0x8E00C9CA,0x8F00CBAA,0x9000CBAB,0x9100CBAC],
    [0x9200CBAD,0x9300CBAE,0x9400CBAF,0x9500CBB0,0x9600CBB1,0x9700CBB2,0x9800CBB3,0x9900CBB4,0x9A00CBB5,0x9B00CA42],
    [0x9C00CBB6,0x9D00CBB7,0x9E00CBB8,0x9F00CBB9,0xA000CBBA,0xA100CBBB,0xA200CBBC,0xA300CBBD,0xA400CBBE,0xA500CA47],
    [0xA600C9CB,0xA700C9CC,0xA800CA48,0xA900CBBF,0xAA00CBC0,0xAB00C85B,0xAC00CBC1,0xAD00C9CD,0xAE00CBC2,0xAF00CBC3],
    [0xB000CBC4,0xB100CBC5,0xB200CBC5,0xB300CBC5,0xB400CBC6,0xB500CBC7,0xB600CBC8,0xB700CBC9,0xB800CBCA,0xB900CBCB],
    [0xBA00CBCC,0xBB00CBCD,0xBC00CBCE,0xBD00CBCF,0xBE00CBD0,0xBF00CBD1,0x000C0AC8,0x000C0AC5,0x000C0AC2,0x00100ABE],
    [0x000C0ABB,0x000C0AB8,0x000C0AB5,0x000C0AB2,0x000C0AAF,0x000C0AAC,0x000C0AA9,0x00100AA5,0x000C0AA2,0x000C0A9F],
    [0x000C0A9C,0x00100A98,0x000C0A95,0x000C0A92,0x000C0A8F,0x00100A8B,0x000C0A88,0x000C0A85,0x000C0A82,0x000C0A7F],
    [0x00100A7B,0x000C0A78,0x000C0A75,0x000C0A72,0x000C0A6F,0x000C0A6C,0x000C0A69,0x000C0A66,0x000C0A63,0x000C0A60],
    [0x000C0A5D,0x000C0A5A,0x000C0A57,0x000C0A54,0x000C0A51,0x000C0A4E,0x00100A4A,0x000C0A47,0x000C0A44,0x000C0A41],
    [0x00100A3D,0x000C0A3A,0x000C0A37,0x000C0A34,0x000C0A31,0x000C0A2E,0x000C0A2B,0x000C0A28,0x8000CC12,0x8100CC13],
    [0x8200CC14,0x8300CC15,0x8400CC16,0x8500CC17,0x8600CC17,0x8700CA4A,0x8800CC18,0x8900CC19,0x8A00CC1A,0x8B00CC1B],
    [0x8C00C9CF,0x8D00CC1C,0x8E00CC1D,0x8F00CC1E,0x9000C974,0x9100CC1F,0x9200CC20,0x9300CC21,0x9400CC22,0x9500CC23],
    [0x9600CC24,0x9700CC25,0x9800CC26,0x9900CC27,0x9A00CC28,0x9B00CC29,0x9C00CC2A,0x9D00CC2B,0x9E00CC2C,0x9F00CC2D],
    [0xA000CC2E,0xA100CC2F,0xA200CC30,0xA300CC31,0xA400CC32,0xA500CC33,0xA600CC34,0xA700CC35,0xA800CC36,0xA900CC37],
    [0xAA00CC38,0xAB00CC38,0xAC00CC39,0xAD00CC3A,0xAE00CC3B,0xAF00C857,0xB000CC3C,0xB100CC3D,0xB200CC3E,0xB300CC3F],
    [0xB400CC40,0xB500CC41,0xB600CC42,0xB700CC43,0xB800C9D4,0xB900CC44,0xBA00CC45,0xBB00CC46,0xBC00CC47,0xBD00CC48],
    [0xBE00CC49,0xBF00CC4A,0x000C0A25,0x000C0A22,0x000C0A1F,0x000C0A1C,0x000C0A19,0x000C0A16,0x000C0A13,0x000C0A10],
    [0x000C0A0D,0x000C0A0A,0x000C0A07,0x000C0A04,0x000C0A01,0x000C09FE,0x000C09FB,0x000C09F8,0x000C09F5,0x000C09F2],
    [0x000C09EF,0x000C09EC,0x000C09E9,0x001009E5,0x000C09E2,0x000C09DF,0x000C09DC,0x000C09D9,0x000C09D6,0x000C09D3],
    [0x001009CF,0x001009CB,0x000C09C8,0x000C09C5,0x000C09C2,0x000C09BF,0x000C09BC,0x000C09B9,0x000C09B6,0x000C09B3],
    [0x000C09B0,0x001009AC,0x000C09A9,0x000C09A6,0x000C09A3,0x0010099F,0x000C099C,0x000C0999,0x000C0996,0x000C0993],
    [0x000C0990,0x000C098D,0x000C098A,0x000C0987,0x00100983,0x000C0980,0x0010097C,0x000C0979,0x000C0976,0x000C0973],
    [0x000C0970,0x000C096D,0x000C096A,0x000C0967,0x000C0964,0x000C0961,0x8000CC4B,0x8100CC4C,0x8200CC4D,0x8300CC4E],
    [0x8400CC4F,0x8500CC50,0x8600CC51,0x8700CC92,0x8800CC93,0x8900CC94,0x8A00CC95,0x8B00CC96,0x8C00CC97,0x8D00CC98],
    [0x8E00C7A1,0x8F00CC99,0x9000CC9A,0x9100CC9B,0x9200CC9B,0x9300CC9C,0x9400CC9D,0x9500CC9D,0x9600CC9E,0x9700CC9F],
    [0x9800CCA0,0x9900CCA1,0x9A00CCA2,0x9B00CCA3,0x9C00CCA4,0x9D00CCA5,0x9E00CCA6,0x9F00CCA7,0xA000CCA8,0xA100CCA9],
    [0xA200CCAA,0xA300C9D5,0xA400CCAB,0xA500CCAC,0xA600CCAD,0xA700CCAE,0xA800CA56,0xA900CCAE,0xAA00CCAF,0xAB00C9D7],
    [0xAC00CCB0,0xAD00CCB1,0xAE00CCB2,0xAF00CCB3,0xB000C9D8,0xB100C786,0xB200CCB4,0xB300CCB5,0xB400CCB6,0xB500CCB7],
    [0xB600CCB8,0xB700CCB9,0xB800CCBA,0xB900CCBB,0xBA00CCBC,0xBB00CCBD,0xBC00CCBE,0xBD00CCBF,0xBE00CCC0,0xBF00CCC1],
    [0x000C095E,0x000C095B,0x00100957,0x000C0954,0x000C0951,0x000C094E,0x000C094B,0x00100947,0x000C0944,0x00100940],
    [0x000C093D,0x000C093A,0x000C0937,0x00100933,0x0010092F,0x000C092C,0x000C0929,0x000C0926,0x000C0923,0x000C0920],
    [0x000C091D,0x000C091A,0x000C0917,0x000C0914,0x000C0911,0x0010090D,0x000C090A,0x000C0907,0x000C0904,0x000C0901],
    [0x000C08FE,0x000C08FB,0x000C08F8,0x000C08F5,0x000C9E83,0x000C08F2,0x000C08EF,0x000C08EC,0x000C08E9,0x000C08E6],
    [0x001008E2,0x000C08DF,0x000C08DC,0x000C08D9,0x000C08D6,0x000C08D3,0x001008CF,0x000C08CC,0x000C08C9,0x000C08C6],
    [0x000C08C3,0x000C08C0,0x000C08BD,0x000C08BA,0x000C08B7,0x000C08B4,0x000C08B1,0x001008AD,0x000C08AA,0x000C08A7],
    [0x000C08A4,0x000C08A1,0x000C089E,0x000C089B,0x8000CCC2,0x8100CCC3,0x8200CCC4,0x8300CCC5,0x8400CCC6,0x8500CCC7],
    [0x8600CCC8,0x8700CCC9,0x8800C9D9,0x8900CCCA,0x8A00CCCB,0x8B00CCCC,0x8C00CCCD,0x8D00CCCE,0x8E00CCCF,0x8F00C9DB],
    [0x9000CCD0,0x9100CCD1,0x9200CD12,0x9300CD13,0x9400CD14,0x9500CD15,0x9600CD16,0x9700CD17,0x9800C7A2,0x9900CA5E],
    [0x9A00CD18,0x9B00CD19,0x9C00CD1A,0x9D00CD1B,0x9E00CD1C,0x9F00CD1D,0xA000CD1E,0xA100CD1F,0xA200C9DC,0xA300CD20],
    [0xA400CD21,0xA500CD22,0xA600CD23,0xA700CAC9,0xA800CD24,0xA900CD25,0xAA00CD26,0xAB00CD27,0xAC00CD28,0xAD00CD29],
    [0xAE00CD2A,0xAF00CD2B,0xB000CD2C,0xB100CD2D,0xB200CD2E,0xB300CD2F,0xB400CD30,0xB500C868,0xB600CD31,0xB700CD32],
    [0xB800CD33,0xB900CD34,0xBA00CD35,0xBB00CD36,0xBC00CD37,0xBD00CD38,0xBE00CD39,0xBF00CD3A,0x000C0898,0x000C0895],
    [0x000C0892,0x000C088F,0x000C088C,0x000C0889,0x000C0886,0x000C0883,0x000C0880,0x0010087C,0x000C0879,0x000C0876],
    [0x000C0873,0x000C0870,0x0010086C,0x000C0869,0x000C0866,0x000C0863,0x000C0860,0x000C085D,0x000C085A,0x000C0857],
    [0x00100853,0x000C0850,0x000C084D,0x000C084A,0x00100846,0x000C0843,0x000C0840,0x000C083D,0x000C083A,0x000C0837],
    [0x00100833,0x0010082F,0x0010082B,0x000C0828,0x00100824,0x000C0821,0x000C081E,0x000C081B,0x000C0818,0x000C0815],
    [0x000C0812,0x000C080F,0x000C080C,0x00100808,0x000C0805,0x000C0802,0x000C07FF,0x000C07FC,0x000C07F9,0x001007F5],
    [0x000C07F2,0x000C07EF,0x001007EB,0x001007E7,0x000C07E4,0x000C07E1,0x000C07DE,0x000C07DB,0x000C07D8,0x000C07D5],
    [0x000C07D2,0x000C07CF,0x8000CD3B,0x8100C9DD,0x8200C93F,0x8300CD3C,0x8400CD3D,0x8500CD3E,0x8600CD3F,0x8700CD40],
    [0x8800CD41,0x8900CD42,0x8A00CD43,0x8B00CA62,0x8C00CD44,0x8D00CD45,0x8E00CD46,0x8F00CD47,0x9000CD48,0x9100CD49],
    [0x9200CD4A,0x9300CD4B,0x9400CA63,0x9500CD4C,0x9600CD4D,0x9700CD4E,0x9800CD4F,0x9900CD50,0x9A00CD51,0x9B00CD92],
    [0x9C00CD93,0x9D00CD94,0x9E00CD95,0x9F00CD96,0xA000CD97,0xA100CA65,0xA200CD98,0xA300CD99,0xA400CD9A,0xA500CD9B],
    [0xA600CD9C,0xA700CD9D,0xA800CD9E,0xA900CD9F,0xAA00CDA0,0xAB00CDA1,0xAC00CDA2,0xAD00CDA2,0xAE00CDA3,0xAF00CDA4],
    [0xB000CA67,0xB100CDA5,0xB200CDA6,0xB300CDA7,0xB400CDA8,0xB500CDA9,0xB600CDAA,0xB700CDAB,0xB800C85A,0xB900CDAC],
    [0xBA00CDAD,0xBB00CDAE,0xBC00CDAF,0xBD00CDB0,0xBE00CDB1,0xBF00CDB2,0x001007CB,0x000C07C8,0x001007C4,0x000C07C1],
    [0x001007BD,0x000C07BA,0x000C07B7,0x001007B3,0x000C07B0,0x000C07AD,0x001007A9,0x001007A5,0x000C07A2,0x000C079F],
    [0x000C079C,0x000C0799,0x000C0796,0x000C0793,0x000C0790,0x000C078D,0x000C078A,0x000C0787,0x000C0784,0x00100780],
    [0x000C077D,0x00100779,0x00100775,0x000C0772,0x0010076E,0x0010076A,0x00100766,0x000C0763,0x000C0760,0x0010075C],
    [0x00100758,0x00100754,0x00100750,0x000C074D,0x000C074A,0x000C0747,0x000C0744,0x000C0741,0x0010073D,0x000C073A],
    [0x000C0737,0x00100733,0x0010072F,0x0010072B,0x000C0728,0x000C0725,0x000C0722,0x000C071F,0x0010071B,0x00100717],
    [0x000C0714,0x000C0711,0x0010070D,0x000C070A,0x000C0707,0x000C0704,0x00100700,0x000C06FD,0x000C06FA,0x000C06F7],
    [0x8000CA6D,0x8100CDB3,0x8200CDB4,0x8300CDB5,0x8400CDB6,0x8500CDB7,0x8600CDB8,0x8700CDB8,0x8800CA6E,0x8900CACB],
    [0x8A00CDB9,0x8B00CDBA,0x8C00CDBB,0x8D00CDBC,0x8E00CDBD,0x8F00C7F4,0x9000CA70,0x9100CDBE,0x9200CDBF,0x9300C9E8],
    [0x9400CDC0,0x9500CDC1,0x9600C9BC,0x9700CDC2,0x9800CDC3,0x9900C9EC,0x9A00CDC4,0x9B00CDC5,0x9C00CDC6,0x9D00CDC7],
    [0x9E00CDC7,0x9F00CDC8,0xA000CDC9,0xA100CDCA,0xA200CDCB,0xA300CDCC,0xA400CDCD,0xA500CDCE,0xA600CDCF,0xA700CDD0],
    [0xA800CDD1,0xA900CE12,0xAA00CE13,0xAB00CE14,0xAC00CE15,0xAD00CE16,0xAE00CE17,0xAF00CE18,0xB000CE19,0xB100CE1A],
    [0xB200CE1B,0xB300CE1C,0xB400CE1D,0xB500CE1E,0xB600CE1F,0xB700CE20,0xB800CE21,0xB900CE22,0xBA00C9F2,0xBB00CE23],
    [0xBC00CE24,0xBD00CE25,0xBE00CE26,0xBF00CE27,0x000C06F4,0x000C06F1,0x001006ED,0x000C06EA,0x000C06E7,0x000C06E4],
    [0x000C06E1,0x000C06DE,0x000C06DB,0x001006D7,0x001006D3,0x000C06D0,0x001006CC,0x000C06C9,0x001006C5,0x000C06C2],
    [0x000C06BF,0x001006BB,0x001006B7,0x000C06B4,0x001006B0,0x000C06AD,0x001006A9,0x000C06A6,0x000C06A3,0x000C06A0],
    [0x000C069D,0x000C069A,0x000C0697,0x00100693,0x0010068F,0x0010068B,0x00100687,0x000C0684,0x000C0681,0x000C067E],
    [0x000C067B,0x000C0678,0x000C0675,0x000C0672,0x000C066F,0x000C066C,0x000C0669,0x000C0666,0x00100662,0x000C065F],
    [0x000C065C,0x000C0659,0x000C0656,0x000C0653,0x000C0650,0x000C064D,0x000C064A,0x000C0647,0x000C0644,0x00100640],
    [0x0010063C,0x00100638,0x000C0635,0x000C0632,0x000C062F,0x000C062C,0x00100628,0x000C0625,0x8000CE28,0x8100CE29],
    [0x8200CE2A,0x8300CE2B,0x8400CE2C,0x8500CE2D,0x8600CE2E,0x8700CE2F,0x8800CE30,0x8900CE31,0x8A00CE32,0x8B00CC9C],
    [0x8C00CE33,0x8D00CE34,0x8E00CE35,0x8F00CE36,0x9000CE37,0x9100CE38,0x9200CE39,0x9300CE3A,0x9400CE3B,0x9500CE3C],
    [0x9600CE3D,0x9700CE3E,0x9800C86C,0x9900CE3F,0x9A00CE40,0x9B00CE41,0x9C00CE42,0x9D00CE43,0x9E00CE44,0x9F00C9F5],
    [0xA000CE45,0xA100CE46,0xA200CE47,0xA300CE48,0xA400CE49,0xA500CE4A,0xA600CE4B,0xA700CE4C,0xA800CE4D,0xA900CE4E],
    [0xAA00CE4F,0xAB00CE50,0xAC00CE51,0xAD00CE92,0xAE00CE93,0xAF00CE94,0xB000CE95,0xB100CE96,0xB200CE97,0xB300CE98],
    [0xB400C7EF,0xB500CE99,0xB600CE9A,0xB700CE9B,0xB800CE9C,0xB900CE9D,0xBA00CE9E,0xBB00CA77,0xBC00CE9F,0xBD00CEA0],
    [0xBE00CEA1,0xBF00CEA2,0x00100621,0x000C061E,0x000C061B,0x00100617,0x00100613,0x000C0610,0x000C060D,0x000C060A],
    [0x000C0607,0x000C0604,0x000C0601,0x000C05FE,0x000C05FB,0x000C05F8,0x000C05F5,0x000C05F2,0x000C05EF,0x000C05EC],
    [0x000C05E9,0x000C05E6,0x000C05E3,0x000C05E0,0x001005DC,0x000C05D9,0x000C05D6,0x000C05D3,0x000C05D0,0x000C05CD],
    [0x001005C9,0x001005C5,0x000C05C2,0x000C05BF,0x000C05BC,0x000C05B9,0x001005B5,0x000C05B2,0x000C05AF,0x000C05AC],
    [0x000C05A9,0x001005A5,0x001005A1,0x000C059E,0x000C059B,0x000C0598,0x00100594,0x000C0591,0x0010058D,0x00100589],
    [0x000C0586,0x000C0583,0x000C0580,0x0010057C,0x000C0579,0x000C0576,0x000C0573,0x000C0570,0x000C056D,0x000C056A],
    [0x000C0567,0x00100563,0x000C0560,0x000C055D,0x000C055A,0x00100556,0x8000CEA3,0x8100CEA4,0x8200CEA5,0x8300CEA6],
    [0x8400CEA7,0x8500CEA8,0x8600CEA9,0x8700CEAA,0x8800CEAB,0x8900CEAC,0x8A00CEAD,0x8B00CEAE,0x8C00CEAF,0x8D00CEB0],
    [0x8E00CEB1,0x8F00CEB2,0x9000CABC,0x9100CABD,0x9200CEB3,0x9300CEB4,0x9400CEB5,0x9500CEB6,0x9600CEB7,0x9700CEB8],
    [0x9800CEB9,0x9900CEBA,0x9A00CEBB,0x9B00CEBC,0x9C00CEBD,0x9D00CEBE,0x9E00CEBF,0x9F00CABE,0xA000CEC0,0xA100CEC1],
    [0xA200CEC2,0xA300CEC3,0xA400CEC4,0xA500CEC5,0xA600CEC6,0xA700CEC7,0xA800CEC8,0xA900CEC9,0xAA00CECA,0xAB00CECB],
    [0xAC00CECC,0xAD00CECD,0xAE00CECE,0xAF00CECF,0xB000CED0,0xB100CED1,0xB200CF12,0xB300CF13,0xB400CF14,0xB500CF15],
    [0xB600CF16,0xB700CF17,0xB800CF18,0xB900CF19,0xBA00CF1A,0xBB00CF1B,0xBC00CF1C,0xBD00CF1D,0xBE00CAC4,0xBF00CAC4],
    [0x000C0553,0x000C0550,0x000C054D,0x000C054A,0x00100546,0x00100542,0x000C053F,0x000C053C,0x000C0539,0x00100535],
    [0x000C0532,0x0010052E,0x000C052B,0x00100527,0x000C0524,0x000C0521,0x000C051E,0x000C051B,0x000C0518,0x000C0515],
    [0x000C0512,0x0010050E,0x000C050B,0x000C0508,0x000C0505,0x000C0502,0x000C04FF,0x001004FB,0x000C04F8,0x001004F4],
    [0x001004F0,0x001004EC,0x000C04E9,0x000C04E6,0x000C04E3,0x000C04E0,0x000C04DD,0x000C04DA,0x000C04D7,0x000C04D4],
    [0x001004D0,0x00049C88,0x000CB0B6,0x00049E0F,0x000C9F86,0x00049C7E,0x00049C7C,0x000C9F83,0x00089E26,0x000C9F80],
    [0x00049C80,0x00049E8A,0x0014B10B,0x0014B106,0x0014B101,0xBC00E717,0x00089F7E,0x00089F7C,0x000C9F79,0x000C9F76],
    [0x000C9F73,0x00049DF2,0x0010B0FD,0x0010B0F9,0x8000CF1E,0x8100CF1F,0x8200CF20,0x8300CF21,0x8400CF22,0x8500CF23],
    [0x8600CF24,0x8700CF25,0x8800CF26,0x8900CF27,0x8A00CAC5,0x8B00CF28,0x8C00CF29,0x8D00CF2A,0x8E00CF2B,0x8F00CF2C],
    [0x9000CF2D,0x9100CF2E,0x9200CF2F,0x9300CF30,0x9400CF31,0x9500CF32,0x9600CF33,0x9700CF34,0x9800CF35,0x9900CF36],
    [0x9A00CF37,0x9B00CF38,0x9C00CF39,0x9D00CF3A,0x0010B0F5,0x00089F71,0x00089F6F,0x00089F6D,0xA000CF3B,0x00089F6B],
    [0x00089F69,0x00089F67,0x0008B0FD,0x0008B0F9,0x0008B0F5,0x00049E0E,0xA800CF3C,0x000804CE,0xAA00CF3D,0x00049F68],
    [0x00049DF9,0x000804CC,0x000804CA,0xAF00CF3E,0x000804C8,0x0004A2ED,0xB200CF3F,0xB300CF40,0xB400CF41,0xB500CF42],
    [0x00049E11,0x000C9F64,0xB800CF43,0xB900CF44,0xBA00CF45,0x000C9F61,0xBC00CF46,0xBD00CF47,0xBE00CF48,0x000C9F5E],
    [0x000C9F5B,0xC200CED4,0xC300672A,0xC400CF49,0xC500CF89,0xC6006836,0xC700CFC5,0xC80068D6,0x000C9F58,0xCA00CFD5],
    [0xCB00CFF6,0x000C9F55,0xCD00D01B,0xCE00D01C,0xCF00D026,0xD0006956,0xD1006957,0x000804C6,0xD3006980,0x00049E00],
    [0x00049E01,0xD600CF52,0x000804C4,0xD800699B,0xD900D008,0x000C9F52,0xDB0069BA,0x0014B0F0,0x000804C2,0x000804C0],
    [0x0008A208,0xE000D039,0xE100D07A,0xE200D1ED,0xE300D599,0x000804BE,0x000804BC,0x000804BA,0x0008A218,0x000804B8],
    [0x000804B6,0xEA00DA66,0xEB007708,0xEC009788,0xED00B789,0x0008A29A,0xEF00DA82,0xF000E083,0x000804B4,0xB400E717],
    [0x00109F4E,0x00109F4A,0x00109F46,0x8000680D,0x8100680E,0x82006823,0x83006824,0x8400682E,0x8500682F,0x86006830],
    [0x87006835,0x8800683C,0x8900683D,0x8A00683E,0x8B00683F,0x8C006840,0x8D006841,0x8E006842,0x8F006843,0x8700CFC6],
    [0x00109F42,0x92006844,0x93006845,0x94006846,0x95006847,0x96006848,0x97006849,0x9800684A,0x9900684B,0x9A00684C],
    [0x9B00684D,0x9C00684E,0x9D00684F,0x9E006850,0x9F006851,0xA0006852,0xA1006853,0xA2006854,0xA3006855,0xA4006856],
    [0xA5006857,0x00109F3E,0x00189F38,0xA8006858,0xA9006859,0xAA00685A,0xAB00685B,0xAC00685C,0xAD00685D,0xAE00685E],
    [0xAF00685F,0xB0006860,0x00189F32,0xB200CF4A,0xB300CF4B,0xB4006861,0xB5006862,0xB6006863,0xB7006864,0x00189F2C],
    [0xB9006865,0xBA006866,0xBB006867,0xBC006868,0xBD006869,0xBE00686A,0xBF00CF4C,0x8000CF4D,0xB300CFFA,0x00189F26],
    [0x8300686B,0x84006872,0x85006873,0x86006874,0x8700687B,0x8800687C,0x8900CF4E,0x8C00D014,0x000C04B1,0x8C00688F],
    [0x8D006890,0x8E0068A8,0x8F0068A9,0x900068AA,0x910068AB,0xAF00D480,0x8C00D477,0x940068AC,0x950068AD,0x960068AE]]"

definition NODES_37 :: "nat list list" where
  "NODES_37 = [
    [0x970068AF,0x980068B0,0x990068B1,0x9A0068B2,0x9B0068B3,0x9C0068B4,0x9D0068B5,0x9E0068B6,0x9F0068B7,0xA00068B8],
    [0xA10068B9,0xA20068BA,0xA30068BB,0xA40068BC,0xA50068BD,0x0024B0E7,0x0024B0DE,0xA80068BE,0xA90068BF,0xAA0068C0],
    [0xAB0068C1,0xAC0068C2,0xAD0068C3,0xAE0068C4,0xAF0068C5,0xB00068C6,0xB10068C7,0xB20068C8,0xB30068C9,0xB40068CA],
    [0xB50068CB,0xB60068CC,0xB70068CD,0xB80068CE,0xB90068CF,0xBA0068D0,0xBB0068D1,0xBC0068D2,0xBD0068D3,0xBE0068D4],
    [0xBF00CF4F,0x8400CF50,0x8500CF51,0x8600CF70,0x8700CF71,0x8800CF72,0x8900CF73,0x8A00CF75,0x8B00CF76,0x8C00CF77],
    [0x8D0068DB,0x8E0068DC,0x8F0068DD,0x900068DE,0x910068DF,0x920068E0,0x930068E1,0x940068E2,0x950068E3,0x960068E4],
    [0x970068E7,0x980068E8,0x990068E9,0x9A0068EA,0x9B0068EB,0x9C0068EC,0x000C04AE,0x9E0068ED,0x9F0068EE,0xA00068EF],
    [0xA10068F0,0xA20068F1,0xA30068F2,0x9C00D001,0x9D00D00B,0xA60068F3,0xA70068F4,0xA80068F5,0xA90068F6,0xAA0068F7],
    [0xAB0068F8,0xAC006909,0xAD006910,0xAE006911,0xAF00691D,0xB000691E,0xB100CF78,0xB200CF79,0xB300CF7A,0xB400691F],
    [0xB5006922,0x00049E64,0x0008A76A,0xB8006923,0xB900692C,0xBA00692D,0xBB00692E,0xBC00692F,0xBD006930,0xBE006931],
    [0xBF006932,0xB000CF7B,0xB100CF7D,0xB200CF7F,0xB300CF80,0xB400CF81,0xB500CF82,0xB600CF84,0xB700CF85,0xB800CF8A],
    [0x9800CF8B,0x9900CF8F,0x9A00CF93,0x9B00CF94,0x9C00CF9C,0x9D00CF9F,0x00049E13,0x00049C62,0xA000CFA5,0xA100CFA7],
    [0xA200CF4F,0xA300CFA8,0xA400CFAA,0x8000698D,0x81006990,0x0004A2D7,0x83006991,0x84006992,0x8400CF41,0x8500CFAF],
    [0x86006996,0x87006997,0x88006998,0x89006999,0x8A00699A,0x000804AC,0x8C0069A1,0x00049E10,0x8E0069A3,0x8F0069A7],
    [0x900069A8,0x00049C6A,0x00049E86,0x00049C63,0x8A0069B5,0x8B0069B6,0x8C0069B7,0x8D0069B8,0x8E0069BB,0x00049F6F],
    [0x9000CFB0,0x9100CFB1,0x9200CFB2,0x930069A3,0x940069AA,0x9500CFB7,0x9600CFB8,0xB500CFC7,0xB600CFC8,0xB700CFDA],
    [0xB800CFEF,0x00049E07,0x00049F0A,0x0004A2C5,0x000804AA,0x00049DFA,0xAA0069A9,0xAB0069AA,0xAC0069AB,0xAD0069AC],
    [0xAE0069AD,0xAF0069AE,0xB00069AF,0x00049DFB,0xB000DAE6,0xB4006993,0x00049F06,0x00049E87,0x00049C64,0x000804A8],
    [0x000804A6,0xBA00CFAD,0xB000CFB9,0xB100CFBA,0xB200CFBB,0xBE006994,0xB400CFBC,0xB500CFC1,0x000C04A3,0xA40069B1],
    [0xA50069D6,0xB900CFC4,0xA70069DD,0xA80069B0,0xA90069E4,0x00049DF5,0x00049E12,0x00049EA8,0xAD006A01,0xAE0069E3],
    [0xAF006A0D,0x000804A1,0xB1006A02,0x0008049F,0xB3006A1A,0x0008049D,0xB5006A1C,0x83006A94,0xB7006A0F,0xB8006E97],
    [0x00049E52,0xBA00CF57,0xBB00CFCD,0xBC00CF87,0xBD00D06C,0xBE006A32,0x00049E04,0x8D006A95,0x80006A17,0x00049DFE],
    [0x0008049B,0x83006DA2,0x92006A96,0x00080499,0x000C0496,0x000C0493,0x00049E2B,0x97006A9B,0x00049DF3,0x0004A2B6],
    [0x000C0490,0x0008048E,0x9C006A9C,0x00049DF7,0x000C048B,0x00080489,0x00080487,0x00080485,0x00049E0A,0x00080483],
    [0x00080481,0x00049E14,0x0008047F,0x0008047D,0x00049E46,0xA9006A9F,0x0008047B,0x00080479,0x00080477,0x00080475],
    [0x00080473,0x00080471,0x000C046E,0x0008046C,0x0008046A,0xB3006AA3,0x000C0467,0xB5006AAE,0xB6006AB0,0xB700D02F],
    [0xB8006AB1,0xB900D030,0xAC006A55,0xAD006A49,0x00080465,0x00080463,0x00080461,0x0008045F,0x0008045D,0x0008045B],
    [0xB400D08E,0xB500D0CE,0xB600D0EC,0x00080459,0xB8006A97,0xB9006AEB,0xBA00D12E,0xBB006BEB,0xBC006C6B,0xBD006CEB],
    [0xBE00D16E,0xBF00D1AE,0xAC00D07B,0xAD00D07C,0xAE00D094,0x00080457,0xB000D095,0xB100D09D,0xB200D0A7,0xB300D0A9],
    [0xB400D0AD,0xB500D0AE,0xB600D0AF,0xB7006E5A,0xB800D0B5,0xB900D0C1,0xBA00D0C2,0x00080455,0xBC00D0C3,0xBD00D0C4],
    [0xBE00D0C5,0xBF00D0CD,0x8000D0D0,0x8100D0D1,0x8200D0D2,0x8300CF3D,0x8400D0D3,0x8500D0D4,0x8600D0DC,0x8700D0E3],
    [0x8800D0E4,0x8900D0E5,0x8A00D0E9,0x8B00D0EB,0x8C00D0ED,0x8D00D0F2,0x00080453,0x8F00D0F8,0x9000D0FB,0x9100D0FC],
    [0x9200CF45,0x9300D0FF,0x9400D100,0x9500D101,0x9600D102,0x9700D104,0x9800D105,0x9900D106,0x9A00D107,0x9B00D109],
    [0x9C00D10A,0x9D00CFB0,0x9E00D10B,0x9F00D10C,0xA000CFB7,0xA100D10D,0xA200D10E,0xA300CF80,0xA400D105,0xA500D109],
    [0xA600CFB0,0xA700D10B,0xA800CFBA,0xA900CFB7,0xAA00D10D,0x00080451,0x0008044F,0x0008044D,0x000C044A,0x00080448],
    [0x00080446,0x0004A2F6,0x00080444,0x00080442,0x0008A77D,0x000C9F23,0x000CB0CA,0x000C9F20,0xB800D10F,0x9B00D110],
    [0x9C00D111,0x9D00D112,0x9E00D113,0x9F00D0ED,0xA000D114,0xA100D116,0xA200D117,0xA300D118,0xA400D119,0xA500D11A],
    [0xA600D11B,0xA700D11C,0xA800D11D,0xA900D11E,0xAA00D120,0xAB00D128,0xAC00D129,0xAD00D12A,0xAE00D12B,0xAF00D12C],
    [0xB000D12D,0xB100D131,0xB200D13D,0xB300D149,0xB400D15C,0xB500D179,0xB600D17A,0xB700D17B,0xB800D17C,0xB900D17D],
    [0xBA00D17E,0xBB00D17F,0xBC00D180,0xBD00D181,0xBE00D182,0xBF00CFB1,0x0014B0D9,0x0014B0D4,0x80006BEA,0x81006C05],
    [0x82006C07,0x83006C08,0x84006C09,0x85006C0A,0x86006C2B,0x87006C2C,0x88006C2D,0x89006C2E,0x8A006C2F,0x8B006C30],
    [0x8C006C31,0x8D006C32,0x8E006C33,0x8F006C34,0x90006C35,0x91006C36,0x92006C37,0x93006C38,0x94006C39,0x95006C3A],
    [0x96006C3B,0x97006C3C,0x98006C3D,0x99006C3E,0x9A00D183,0x9B006BCB,0x0014B0CF,0x0014B0CA,0x0014B0C5,0x0014B0C0],
    [0xA0006C40,0xA1006C41,0xA2006C42,0xA3006C43,0xA4006C44,0xA5006C45,0xA6006C46,0xA7006C47,0xA8006C48,0xA9006C49],
    [0xAA006C4A,0xAB006C4B,0xAC006C4C,0xAD006C4D,0xAE006C4E,0xAF006C4F,0xB0006C50,0xB1006C51,0xB2006C52,0xB3006C53],
    [0xB4006C54,0xB5006C55,0xB6006C56,0xB7006C57,0xB8006C58,0xB9006C59,0xBA006C5A,0xBB006C5B,0xBC006C5C,0xBD006C5D],
    [0xBE006C5E,0xBF006C5F,0x80006DB1,0x81006DB2,0x82006DB3,0x83006DB4,0x84006DB5,0x85006DB6,0x86006DB7,0x87006DB8],
    [0x88006DB9,0x89006DBA,0x8A006DBB,0x8B006DBC,0x8C006DBD,0x8D006DBE,0x8E006DBF,0x8F006DC0,0x90006DC1,0x91006DC2],
    [0x92006DC3,0x93006DC4,0x94006DC5,0x95006DC6,0x96006DC7,0x97006DC8,0x98006DC9,0x99006DCA,0x9A006DCB,0x9B006DCC],
    [0x9C006DCD,0x9D006DCE,0x9E006DCF,0x9F006DD0,0xA0006DD1,0xA1006DD2,0xA2006DD3,0xA3006DD4,0xA4006DD5,0xA5006DD6],
    [0xA6006DD7,0xA7006DD8,0xA8006DD9,0xA9006DDA,0xAA006DDB,0xAB006DDC,0xAC006DDD,0xAD006DDE,0xAE006DDF,0xAF006DE0],
    [0xB0006DE1,0xB1006DE2,0xB2006DE3,0xB3006DE4,0xB4006DE5,0x0014B0BB,0xB6006DE6,0xB7006DE7,0xB8006DE8,0xB9006DE9],
    [0xBA006DEA,0xBB006996,0xBC006E20,0xBD00D184,0xBE006E28,0xBF00D184,0x8000D185,0x8100D1AC,0x82006E2B,0x83006E2C],
    [0x84006E2D,0x0014B0B6,0x86006E2E,0x87006E2F,0x88006E30,0x89006998,0x8A006E31,0x8B006999,0x8C006E32,0x8D00D1AD],
    [0x8E00D1CA,0x8F00D1CB,0x90006E36,0x91006E37,0x92006E38,0x930069A8,0x000CB0BB,0x000C043F,0x96006E39,0x97006E3A],
    [0x98006E3B,0x99006E3C,0x9A006E3D,0x9B00699A,0x000C9F1D,0x9D00D1CC,0x9E00D1CD,0x9F00D223,0xA0006E41,0xA1006E42],
    [0xA2006E43,0xA30069AF,0xA4006E44,0xA5006E45,0xA6006E46,0xA7006E47,0xA8006E48,0xA9006E49,0xAA006E4A,0xAB0069A3],
    [0xAC006E4B,0xAD00D233,0xAE00CFAF,0xAF006E4D,0x0004AD3C,0x0008B0B3,0xB2006E4E,0xB3006E4F,0xB4006E50,0x000CB0B3],
    [0xB6006E51,0xB7006E52,0xB8006E53,0xB90069A1,0xBA006E54,0xBB0069A7,0xBC006E55,0xBD00CF41,0xBE00D242,0x8000D209],
    [0x8100D21C,0x8200D25C,0x001A3241,0x8400D280,0x8500D2C0,0x8600D301,0x87006E5E,0x8800D30A,0x89006E6E,0x8A006E7C],
    [0x8B006E8C,0x8C006E27,0x00263241,0x0018B0AA,0x0024B0AA,0x00089F1B,0x9100D31B,0x9200D35B,0x9300D3C9,0x000C9F18],
    [0x00089F16,0x00089F14,0x00089F15,0x00323241,0x00049C82,0x00049C7A,0x00049C78,0x8000CF3B,0x8100CF3B,0x8200CF3B],
    [0x8300CF3B,0x8400CF3B,0x8500CF3B,0x8600CF3B,0x8700CF3B,0x8800CF3B,0x8900CF3B,0x8A00CF3B,0x00049C76,0xA800CF90],
    [0xA900D3C4,0x00049C74,0xAB006E6C,0x00049C72,0x9100D243,0x00049C70,0x0004043E,0x000C043B,0xB100D3C2,0x0004A1A2],
    [0x9700D24A,0x0004A983,0xB500CF6C,0x8700D282,0x8800D283,0x8900D284,0x0004A985,0xBA00D3E2,0xBB00D3D0,0xBC00D405],
    [0xBD00D47F,0xBE00D4FF,0xBF00D57F,0xA400D25E,0xA500D25F,0xA600D263,0x00049E03,0x00089F12,0x000CB0A7,0x9700D285],
    [0x000CB0A4,0x00049C65,0x000C9F0F,0x000CB0A1,0xAF00CF3B,0x000CB09E,0x00080439,0x9F00CF3B,0xB300D270,0xB400D27A],
    [0x000C9F0C,0xB600D27B,0xB700D27C,0x00080437,0x00089F0A,0x0004A99F,0x00089F08,0xBC00D27D,0x000CB09B,0xBE00D281],
    [0x00089F06,0x00049C6D,0x00049E58,0x00089DDA,0xB000D286,0xB100D10E,0x00089FB1,0x0008A001,0xB400D287,0xB500D288],
    [0xB600D294,0xB700D297,0xB800D299,0xB900D29B,0xBA00D29C,0xBB00D29D,0xBC00D29F,0xBD00D2A1,0xBE00D2A6,0xBF00D2B0],
    [0x8000D286,0x8100CF44,0x8200CF3F,0x8300CF40,0x8400D287,0x8500D288,0x8600D294,0x8700D297,0x8800D299,0x8900D29B],
    [0x8A00D29C,0x8B00D29D,0x8C00D29F,0x8D00D2A1,0x8E00D2A6,0x00089FFD,0x9000CF3D,0x9100D0E5,0x9200CF45,0x9300CFA8],
    [0x9400D0E9,0x9500CF7B,0x9600D0F8,0x9700CFA7,0x9800D0FB,0x9900D2B0,0x9A00D102,0x9B00CF4F,0x9C00D104,0x000CB098],
    [0x00080435,0x00080433,0x000C0430,0x0014B093,0x0014B08E,0x001A323B,0x8000D2B2,0x8100D2B4,0x8200D2B5,0x8300D2B6],
    [0xA800D2B1,0x8500D2B7,0x8600D2B9,0x8700D2BA,0x0014B089,0x8900D2BE,0x8A00D0F2,0x8B00D0AD,0x8C00D0AD,0x8D00D0AD],
    [0x8E00CF7B,0x8F00D2C1,0x9000D0AE,0x9100D0AE,0x9200D0B5,0x9300CFA7,0x0014B084,0x9500D0C2,0x9600D2C2,0x0014B07F],
    [0x0014B07A,0x9900D0C5,0x9A00D2C3,0x9B00D0CD,0x9C00D0CD,0x9D00D0CD,0x0014B075,0x0014B070,0xA000D2C4,0xA100D2C6],
    [0xA200D2C8,0x0014B06B,0xA400D2C9,0x0014B066,0xA6006E59,0x0014B061,0xA800D2C9,0x0014B05C,0xAA006E5A,0xAB00678B],
    [0xAC00D094,0xAD00D2B5,0x0014B057,0xAF00D0E5,0xB000D09D,0xB100D2CA,0x0014B052,0xB300D0C1,0xB400CF45,0xB500D2CB],
    [0xB600D2CE,0xB700D2CF,0xB800D2EB,0xB900D10E,0x0010B061,0xBB00D2F9,0xBC00CFB8,0xBD00D10B,0xBE00D2FA,0xBF00D2FB],
    [0x8000D2FC,0x0008B050,0x000E3238,0x00089F04,0x00049C6B,0x8500D095,0x8600D0E4,0x8700D0E5,0x8800D10E,0x8900CF7F],
    [0x000A3237,0x000E3237,0x00123237,0x00089F02,0x00049F03,0x00089F03,0x9000D2FD,0x9100D2FE,0x9200D2FF,0x9300D308],
    [0x9400D314,0x9500D317,0x9600D318,0x9700D31E,0x9800D31F,0x9900D323,0x9A00D325,0x9B00D327,0x9C00D329,0x9D00D32E],
    [0x9E00D332,0x9F00D33A,0xA000D0AE,0xA100D341,0xA200D342,0xA300D343,0xA400D344,0xA500D34A,0xA600D34B,0xA700D34C],
    [0xA800D34D,0xA900D34E,0xAA00D34F,0xAB00D380,0xAC00D0B5,0xAD00D2B5,0xAE00D095,0xAF00D0C1,0xB000D10E,0xB100D381],
    [0xB200D382,0xB300D383,0xB400D109,0xB500D384,0xB600D385,0xB700D386,0xB800D387,0xB900CFA8,0xBA00D388,0xBB00D389],
    [0xBC00CFA7,0xBD00D111,0xBE00D0E4,0xBF00D0FB,0x000CB04F,0x0008B04D,0x000E3234,0x00089F00,0x000A3233,0x000E3233],
    [0x00123233,0x00089EFE,0x00089EFF,0x000CB04C,0x8900D38B,0x0014B047,0x001A31FB,0x002631FB,0x84006E62,0x0018B03E],
    [0x0024B03E,0x0008AD1F,0x0008AD1A,0x89006E63,0x0008AD15,0x0008AD10,0x8C006E64,0x0008AD0B,0x0008AD06,0x0008AD01],
    [0x0008ACFC,0x9A006E5B,0x9B006E5C,0x0008ACF7,0x0008ACF2,0x0008ACED,0x000CB03B,0x000CB038,0x000CB035,0x000CB032],
    [0x000CB02F,0x000CB02C,0x000CB029,0x000CB026,0x000CB023,0x0012322F,0x0012322B,0x00123227,0x00123223,0x0012321F],
    [0xA4006E66,0xAE006E5D,0xA6006E67,0x0012321B,0x00123217,0x00123213,0x0012320F,0x0012320B,0xAC00D38C,0xAD00D38D],
    [0x00123207,0xAF00D38F,0xB000D390,0xA000CF44,0xA100CF3F,0xA200CF40,0xA300D287,0xA400D288,0xA500D294,0xA600D297],
    [0xA700D299,0xA800D29B,0xA900D391,0xAA00D392,0xAB00D394,0xAC00D395,0xAD00D397,0xAE00D398,0xAF00D399,0xB000D39A],
    [0xB100D39D,0xB200D39E,0xB300D39F,0xB400D3A0,0xB500D3A1,0xB600D3A2,0xB700D3A3,0xB800D3A4,0xB900D3A5,0xBA00D3A6],
    [0xBB00D3A7,0xBC00D3A8,0xBD00D3A9,0xBE00D3AA,0xBF00D3AB,0x8000D3AC,0x8100D3AD,0x8200D3B1,0x8300D3B2,0x8400D3B3],
    [0x8500D3B4,0x8600D3B5,0x8700D3B8,0x8800D41B,0x8900D41C,0x8A00D41D,0x8B00D41E,0x8C00D41F,0x8D00D420,0x8E00D421],
    [0x8F00D422,0x9000D423,0x9100D424,0x9200D425,0x9300D426,0x9400D427,0x9500D428,0x9600D429,0x9700D42A,0x9800D42B],
    [0x9900D42C,0x9A00D42D,0x9B00D42E,0x9C00D42F,0x9D00D430,0x9E00D431,0x9F00D432,0xA000D433,0xA100D434,0xA200D435],
    [0xA300D436,0xA400D437,0xA500D438,0xA600D439,0xA700D43A,0xA800D43B,0xA900D43C,0xAA00D43D,0xAB00D43E,0xAC00D43F],
    [0xAD00D440,0xAE00D441,0xAF00D442,0xB000D443,0xB100D444,0xB200D445,0xB300D446,0xB400D447,0xB500D448,0xB600D07B],
    [0xB700D094,0xB800D2B5,0xB900D095,0xBA00D09D,0xBB00D2CA,0xBC00D0A9,0xBD00D0AD,0xBE00D0AE,0xBF00D0AF,0x0008B01E],
    [0x0008B01B,0x0008B018,0x0008B015,0x0008B012,0x0008B00F,0x0008B00C,0x0008B009,0x0008B006,0x000CB020,0x000CB01D],
    [0x000CB01A,0x000CB017,0x000CB014,0x000CB011,0x000CB00E,0x000CB00B,0x000CB008,0x000CB005,0x000CB002,0x000CAFFF],
    [0x000CAFFC,0x000CAFF9,0x000CAFF6,0x000CAFF3,0x000CAFF0,0x000CAFED,0x000CAFEA,0x000CAFE7,0x000CAFE4,0x000CAFE1],
    [0x000CAFDE,0x000CAFDB,0x000CAFD8,0x000CAFD5,0x000CAFD2,0x000CAFCF,0x000CAFCC,0x000CAFC9,0x000CAFC6,0x000CAFC3],
    [0x000CAFC0,0x000CAFBD,0x000CAFBA,0x000CAFB7,0x000CAFB4,0x80006E5A,0x8100D0B5,0x8200D0C1,0x8300D0C2,0x8400D0C3],
    [0x8500D0C5,0x8600D2C3,0x8700D0CD,0x8800D474,0x8900D0D0,0x8A00D0D1,0x8B00D344,0x8C00D0D2,0x8D00D34E,0x8E00D475],
    [0x8F00D2C9,0x9000CF3D,0x9100D0E3,0x9200D111,0x9300D0E4,0x9400D0E5,0x9500D114,0x9600D0F2,0x9700CF7B,0x9800D10E],
    [0x9900CF7F,0x9A00D0F8,0x9B00CFA7,0x9C00D0FB,0x9D00D2B0,0x9E00CF45,0x9F00D102,0xA000D476,0xA100CF80,0xA200CF4F],
    [0xA300D104,0xA400D105,0xA500D109,0xA600CF85,0xA700CFA8,0xA800CF8A,0xA900D17F,0xAA00D286,0x00049C66,0x0004A2A1],
    [0x00049E19,0x003231FB,0xB400D47B,0xB500D47C,0xB600D47D,0x000CAFB1,0x0008AFAE,0x000CAFAE,0xBC00CF7F,0xBD00D344],
    [0x000C042D,0x9F00D482,0x000C042A,0xB300D484,0x000C0427,0x8000D4C5,0x8100D4C6,0x8200D4C7,0x8300D4C8,0x8400D4C9],
    [0x8500D4CA,0x8600D4CB,0x8700D4CC,0x8800D4CD,0x8900D4CE,0x8A00D4CF,0x8B00D4D0,0x8C00D4D1,0x8D00D4D2,0x8E00D4D3],
    [0x8F00D4D4,0x9000CBB7,0x9100D4D5,0x9200C8C2,0x9300D4D6,0x9400D4D7,0x9500D4D8,0x9600D4D9,0x9700D4DA,0x9800D4DB],
    [0x9900D4DC,0x9A00D4DD,0x9B00D4DE,0x9C00D4DF,0x9D00D4E0,0x9E00D4E1,0x9F00D4E2,0xA000D4E3,0xA100D4E4,0xA200D4E5],
    [0xA300D4E6,0xA400D4E7,0xA500C8B9,0xA600D4E8,0xA700D4E9,0xA800D4EA,0xA900D4EB,0xAA00CC41,0xAB00D4EC,0xAC00C9D4],
    [0xAD00D4ED,0xAE00D4EE,0xAF00D4EF,0xB000D4F0,0xB100D4F1,0xB200D4F2,0xB300D4F3,0xB400D4F4,0xB500D4F5,0xB600CC9A],
    [0xB700D4F6,0xB800D4F7,0xB900D4F8,0xBA00D4F9,0xBB00D4FA,0xBC00D4FB,0xBD00D4FC,0xBE00D4FD,0xBF00D4FE,0x000CAF64],
    [0x000C0424,0x000C0421,0x000C041E,0x000C041B,0x000C0418,0x000CA961,0x000C0415,0x000C0412,0x000C040F,0x000C040C],
    [0x000CAF41,0x000C0409,0x000C0406,0x000C0403,0x000C0400,0x000C03FD,0x000C03FA,0x000C03F7,0x000C03F4,0x000C03F1],
    [0x000CAF37,0x000C03EE,0x000C03EB,0x000C03E8,0x000C03E5,0x000C03E2,0x000C03DF,0x000C03DC,0x000CAF19,0x000C03D9],
    [0x000C03D6,0x000C03D3,0x000C03D0,0x000C9E74,0x000C03CD,0x000C03CA,0x000C03C7,0x000C03C4,0x000C03C1,0x000C03BE],
    [0x000C03BB,0x000C03B8,0x000C03B5,0x000C03B2,0x000C03AF,0x000C03AC,0x000C03A9,0x000C03A6,0x000C03A3,0x000C03A0],
    [0x000C039D,0x000C039A,0x000C0397,0x000C0394,0x000C0391,0x000C038E,0x000C038B,0x8000D53F,0x8100D540,0x8200D541],
    [0x8300D542,0x8400D543,0x8500D544,0x8600D545,0x8700D546,0x8800D547,0x8900D548,0x8A00D549,0x8B00D54A,0x8C00D54B],
    [0x8D00CA60,0x8E00D54C,0x8F00D54D,0x9000D54E,0x9100D54F,0x9200D550,0x9300D551,0x9400D552,0x9500D553,0x9600D554],
    [0x9700D555,0x9800D556,0x9900D557,0x9A00D558,0x9B00D559,0x9C00D55A,0x9D00D55B,0x9E00D55C,0x9F00D55D,0xA000D55E],
    [0xA100D55F,0xA200D560,0xA300D561,0xA400D562,0xA500D563,0xA600D564,0xA700D565,0xA800D566,0xA900D567,0xAA00D568],
    [0xAB00D569,0xAC00D56A,0xAD00D56B,0xAE00D56C,0xAF00D56D,0xB000D56E,0xB100D56F,0xB200D570,0xB300D571,0xB400C96B],
    [0xB500D572,0xB600D573,0xB700D574,0xB800D575,0xB900D576,0xBA00D577,0xBB00C9BF,0xBC00C7ED,0xBD00D578,0xBE00D579],
    [0xBF00D57A,0x000C0388,0x000C0385,0x000C0382,0x000C037F,0x000C037C,0x000C0379,0x000C0376,0x000CACB8,0x000C0373],
    [0x000C9EAD,0x000CAF23,0x000C0370,0x000C036D,0x000C036A,0x000C0367,0x000C0364,0x000C0361,0x000C035E,0x000C035B],
    [0x000CAF28,0x000CAF2D,0x000C0358,0x000C0355,0x000C0352,0x000C034F,0x000C034C,0x000C0349,0x000C0346,0x000C0343],
    [0x000C0340,0x000C033D,0x000C033A,0x000C0337,0x000C0334,0x000C0331,0x000C032E,0x000C032B,0x000C0328,0x000C0325],
    [0x000C0322,0x000C031F,0x000C031C,0x000C0319,0x000C0316,0x000C0313,0x000C0310,0x000C030D,0x000C030A,0x000C0307],
    [0x000C0304,0x000C0301,0x000C02FE,0x000C02FB,0x000C02F8,0x000C02F5,0x000C02F2,0x000C02EF,0x000C02EC,0x000C02E9],
    [0x000C02E6,0x000C02E3,0x000C02E0,0x000C02DD,0x000CAEBA,0x8000D57B,0x8100D57C,0x8200D57D,0x8300D57E,0x8400D5BF],
    [0x8500D5C0,0x8600D5C1,0x8700D5C2,0x8800D5C3,0x8900D5C4,0x8A00D5C5,0x8B00D5C6,0x8C00D5C7,0x8D00D5C8,0x8E00D5C9],
    [0x8F00C98C,0x9000CEA7,0x9100D5CA,0x9200C998,0x9300D5CB,0x9400D5CC,0x9500D5CD,0x9600D5CE,0x9700CEB3,0x9800D5CF],
    [0x9900D5D0,0x9A00D5D1,0x9B00D5D2,0x9C00D5D3,0x9D00D5D4,0x9E00C77C,0x9F00D5D5,0xA000C869,0xA100D5D6,0xA200D5D7],
    [0xA300D5D8,0xA400D5D9,0xA500C95D,0xA600C783,0xA700D5DA,0xA800D5DB,0xA900D5DC,0xAA00D5DD,0xAB00D5DE,0xAC00D5DF],
    [0xAD00D5E0,0xAE00D5E1,0xAF00D5E2,0xB000D5E3,0xB100D5E4,0xB200D5E5,0xB300D5E6,0xB400D5E7,0xB500D5E8,0xB600D5E9],
    [0xB700D5EA,0xB800D5EB,0xB900D5EC,0xBA00D5ED,0xBB00D5EE,0xBC00D5EF,0xBD00D5F0,0xBE00D5F1,0xBF00D5F2,0x000CAEB5]]"

definition NODES_38 :: "nat list list" where
  "NODES_38 = [
    [0x000C02DA,0x000C02D7,0x000C02D4,0x000C02D1,0x000C02CE,0x000C02CB,0x000C02C8,0x000C02C5,0x000C02C2,0x000C02BF],
    [0x000C02BC,0x000C02B9,0x000C02B6,0x000C02B3,0x000C02B0,0x000C02AD,0x000C02AA,0x000C02A7,0x000C02A4,0x000C02A1],
    [0x000C029E,0x000C029B,0x000C0298,0x000C0295,0x000C0292,0x000C028F,0x000C028C,0x000C0289,0x000C0286,0x000C0283],
    [0x000C0280,0x000C027D,0x000C027A,0x000C0277,0x000C0274,0x000C0271,0x000C026E,0x000C026B,0x000C0268,0x000C0265],
    [0x000C0262,0x000C025F,0x000C025C,0x000C0259,0x000C0256,0x000C0253,0x000C0250,0x000C024D,0x000C024A,0x000C0247],
    [0x000C0244,0x000C0241,0x000C023E,0x000C023B,0x000C0238,0x000C0235,0x000C0232,0x000C022F,0x000C022C,0x000C0229],
    [0x000C0226,0x000C0223,0x000C0220,0x8000D5F3,0x8100D5F4,0x8200D5F5,0x8300D5F6,0x8400D5F7,0x8500C839,0x8600D5F8],
    [0x8700CF32,0x8800D5F9,0x8900D5FA,0x8A00D5FB,0x8B00CF34,0x8C00D5FC,0x8D00D5FD,0x8E00D5FE,0x8F00D615,0x9000CF39],
    [0x9100D616,0x9200D617,0x9300C939,0x9400C781,0x9500D618,0x000C021D,0x000C021A,0x000C0217,0x000C0214,0x8000D5A0],
    [0x81006EAF,0x8200D5AF,0x8300D5FF,0x8400D580,0x8500D63F,0x8600D67F,0x8000CF3B,0x8800D6B3,0x8900D733,0x8A00D7B3],
    [0x8B00D827,0x8C00D866,0x8D00D8E6,0x8E00D966,0x8F00D9E6,0x000C0211,0x000C020E,0x000C020B,0x00109EFA,0x00109EF6],
    [0x00189EF0,0x00189EEA,0x000CAFAA,0xB100D630,0xB200D640,0xB300D641,0xB400D642,0xB500D644,0xB600D645,0xB700D646],
    [0xB800D647,0xB900D648,0xBA00D649,0xBB00D64C,0xBC00D64F,0xBD00D650,0xBE00D651,0xBF00D652,0x000E0455,0x000CB266],
    [0x000CAFA5,0x94006EFE,0x000CB254,0x000CB24B,0x000CAFA0,0x000DC888,0x000CAF9B,0x000CB230,0x9B00D62C,0x9C00D62D],
    [0x000CB227,0x9E006EFF,0x9F00D62E,0x000CB21E,0x000CB215,0x000CB20C,0x000CB203,0x000C0208,0x000CAF96,0x000CAF91],
    [0xB600D629,0x000D78CC,0xB800D4DA,0xB900D62A,0xBA00D62B,0xAC006F02,0x000C0205,0xAE006F03,0x000CAF8C,0xB0006F06],
    [0x000D50EE,0xB2006F07,0x000CAF87,0xB4006F0A,0x000CAF82,0xB6006F0C,0x000D152A,0xB8006F0D,0x000CAF7D,0xBA006F0F],
    [0x000CAF78,0xBC006F11,0x000CAF73,0xBE006F12,0x000CAF6E,0x000CAF69,0x000CC487,0x000CC394,0x000CC2A1,0x000CC1AE],
    [0x000CC0BB,0x000CBFC8,0x000CBED5,0x000CBDE2,0x000CBCEF,0x000CBBFC,0x000CBB09,0x000CBA16,0x000CB923,0x000CB830],
    [0x000CB73D,0x80006F13,0x000CB64A,0x82006F14,0x000CB557,0x000CB464,0x85006F15,0x000CB371,0x87006F16,0x000CB27E],
    [0x89006F17,0x000CB18B,0x000C0202,0x000C01FF,0x000C01FC,0x000C01F9,0x000C01F6,0x90006F18,0x91006F19,0x000C01F3],
    [0x93006F1A,0x94006F20,0x000C01F0,0x96006F21,0x97006F24,0x000C01ED,0x99006F25,0x9A006F30,0x000C01EA,0x9C006F31],
    [0x9D006F32,0x000C01E7,0x000C01E4,0x000C01E1,0x000C01DE,0x000C01DB,0x000C01D8,0x000C01D5,0x000C01D2,0x000C01CF],
    [0x000C01CC,0x000C01C9,0x000C01C6,0x000C01C3,0x000C01C0,0x000C01BD,0x000C01BA,0x000C01B7,0x000C01B4,0x000C01B1],
    [0x000C01AE,0x000C01AB,0x000C01A8,0xB4006F33,0x000C01A5,0x000C01A2,0xB7006F34,0xB8006F35,0xB9006F3A,0xBA006F3C],
    [0x000C019F,0x000C019C,0x000C0199,0xBE006F3E,0xBF00D62F,0x8000D653,0x8100D654,0x8200D655,0x8300D657,0x8400D65C],
    [0x8500D65E,0x8600D660,0x8700D662,0x8800D664,0x8900D666,0x8A00D668,0x8B00D66A,0x8C00D66C,0x8D00D66E,0x8E00D66F],
    [0x8F00D670,0x9000D671,0x9100D672,0x9200D673,0x9300D674,0x9400D675,0x9500D676,0x9600D677,0x9700D678,0x9800D679],
    [0x9900D67A,0x9A00D67B,0x9B00D67C,0x9C00D67D,0x9D00D67E,0x9E00D680,0x9F00D682,0xA000D683,0xA100D685,0xA200D687],
    [0xA300D689,0xA400D68A,0xA500D68B,0xA600D68C,0xA700D68D,0xA800D68E,0xA900D691,0xAA00D694,0xAB00D697,0xAC00D69A],
    [0xAD00D69D,0xAE00D69E,0xAF00D69F,0xB000D6A0,0xB100D6A1,0xB200D6A2,0xB300D6A3,0xB400D6A4,0xB500D6A5,0xB600D6A6],
    [0xB700D6A7,0xB800D6A8,0xB900D6A9,0xBA00D6AA,0xBB00D6AB,0xBC00D6AC,0xBD00D6AD,0xBE00D6AE,0xBF00D6AF,0x8000D6B0],
    [0x8100D6B1,0x8200D6B2,0x8300D6B4,0x8400D6B5,0x8500D6BA,0x8600D6BB,0x8700D6BC,0x8800D70E,0x8900D70F,0x8A00D710],
    [0x8B00D71F,0x8C00D720,0x8D00D721,0x8E00D722,0x000C0196,0x000C0193,0x000C0190,0x9200D4C5,0x9300D4CB,0x9400D723],
    [0x9500D724,0x9600D725,0x9700D726,0x9800D727,0x9900D728,0x9A00D4C9,0x9B00D729,0x9C00D72A,0x9D00D72B,0x9E00D72C],
    [0x9F00D4CD,0x000C018D,0x000C018A,0x000C0187,0x000C0184,0x000CA96A,0x000CAF55,0x000C0181,0x000C017E,0x000C017B],
    [0x000C0178,0x000C0175,0x000C0172,0x000C016F,0x000C016C,0x0014AFA9,0x0014AFA4,0x0014AF9F,0x0014AF9A,0x0014AF95],
    [0x0014AF90,0x8000D72D,0x8100D72E,0x8200D72F,0x8300D730,0x8400D731,0x8500D732,0x8600D752,0x8700D773,0x8800D774],
    [0x8900D775,0x8A00D776,0x8B00D777,0x8C00D778,0x8D00D779,0x8E00D77A,0x8F00D77B,0x9000D77C,0x9100D77D,0x9200D77E],
    [0x9300D77F,0x9400D780,0x9500D781,0x9600D782,0x9700D783,0x9800D784,0x9900D785,0x9A00D786,0x9B00D787,0x9C00D788],
    [0x9D00D789,0x9E00D78A,0x0014AF8B,0xA000D78B,0xA100D78C,0xA200D78D,0xA300D78E,0xA400D78F,0xA500D790,0xA600D791],
    [0xA700D792,0xA800D793,0xA900D794,0xAA00D795,0xAB00D796,0xAC00D797,0xAD00D798,0xAE00D799,0xAF00D79A,0xB000D79B],
    [0xB100D79C,0xB200D79D,0xB300D79E,0xB400D79F,0xB500D7A0,0xB600D7A1,0xB700D7A2,0xB800D7A3,0xB900D7A4,0xBA00D7A5],
    [0xBB00D7A6,0xBC00D7A7,0xBD00D7A8,0xBE00D7A9,0xBF00D7AA,0x0014AF86,0x0014AF81,0x0014AF7C,0x0014AF77,0x0014AF72],
    [0x0014AF6D,0x0014AF68,0x002231F3,0x002231EB,0x002231E3,0x002231DB,0x002231D3,0x002231CB,0x002231C3,0x002231BB],
    [0x002231B3,0x002231AB,0x002231A3,0x0022319B,0x00223193,0x0022318B,0x00223183,0x0046353C,0x003A352E,0x0014AF63],
    [0x0014AF5E,0x0014AF59,0x0014AF54,0x0014AF4F,0x0014AF4A,0x0014AF45,0x0014AF40,0x0014AF3B,0x0014AF36,0x0014AF31],
    [0x0014AF2C,0x0014AF27,0x0014AF22,0x0014AF1D,0x0014AF18,0x0014AF13,0x0014AF0E,0x0014AF09,0x0014AF04,0x0014AEFF],
    [0x0014AEFA,0x0014AEF5,0x0014AEF0,0x0014AEEB,0x0014AEE6,0x0014AEE1,0x0014AEDC,0x0014AED7,0x0014AED2,0x0014AECD],
    [0x0014AEC8,0x0014AEC3,0x0014AEBE,0x0014AEB9,0x0014AEB4,0x000C0169,0x000C0166,0x000C0163,0x000CAEB1,0x8000D7AB],
    [0x8100D7AC,0x8200D7AD,0x8300D7AE,0x8400D7AF,0x8500D7B0,0x8600D541,0x8700D7B1,0x0008ACE8,0x0008ACE3,0x0008ACDE],
    [0x00089ED7,0x0008ACD4,0x0008ACCF,0x0008ACCA,0x0008ACC5,0x9000D7B2,0x9100D7BB,0x9200D7BC,0x9300D7BD,0x9400D7BE],
    [0x9500D7BF,0x9600D7C0,0x9700D7C1,0x9800D7C2,0x9900D7F2,0x9A00D7F3,0x9B00D7F4,0x9C00D7F5,0x9D00D7F6,0x9E00D7F7],
    [0x9F00D7F8,0xA000D630,0xA100D642,0xA200D646,0xA300D648,0xA400D654,0xA500D655,0xA600D65E,0xA700D662,0xA800D664],
    [0xA900D668,0xAA00D66A,0xAB00D66C,0xAC00D66E,0xAD00D66F,0xAE006F40,0xAF0078E0,0xB0007D6C,0xB1008684,0xB2008B50],
    [0xB3008FDC,0xB4009975,0xB500A2CD,0xB600A759,0xB700B071,0xB800B4FD,0xB900B9E8,0xBA00BE74,0xBB00C300,0xBC00D7F9],
    [0xBD00D7FA,0xBE00A579,0x0008ACC0,0x0008ACBB,0x0008ACB6,0x00089EE8,0x00089EE6,0x00089EE4,0x00089EE2,0x003E343F],
    [0x00323177,0x000CAF50,0x000CAF46,0x000CAF3C,0x000CAF0F,0x000CAF0A,0x000CAF00,0x000CAEFB,0x000CAEF6,0x000CAEEC],
    [0x000C0160,0x000C015D,0x000C015A,0x000C0157,0x000C0154,0x000C0151,0x000C014E,0x000CAEBF,0x000C014B,0x000C9E77],
    [0x000C0148,0x000C0145,0x000C0142,0x000C013F,0x000CAEDD,0x000CAED8,0x000CAED3,0x000CAECE,0x000CAEC9,0x000C013C],
    [0x00089EE0,0x00089EDE,0x00089EDC,0x00089EDA,0x00089ED8,0x0008B105,0x00089ED6,0x00089EE5,0x00089ED4,0x00089ED2],
    [0x00089ED0,0x00089ECE,0x00089ECC,0x00089ECA,0x00089EC8,0xB700E717,0x0010AEA8,0x0010AEA3,0x00109EC4,0x00109EC0],
    [0x00109EBC,0x00109EB8,0x00109EB4,0x00109EB0,0x00109EAC,0x0014AEAC,0x0014AEA7,0x8000D4C5,0x8100D4CB,0x8200D723],
    [0x8300D724,0x8400D7FB,0x8500C946,0x8600D7FC,0x8700D4D0,0x8800D7FD,0x8900D4DA,0x8A00D548,0x8B00D553,0x8C00D552],
    [0x8D00D549,0x8E00C783,0x8F00D4E2,0x9000D546,0x9100D7FE,0x9200D7FF,0x9300C9E4,0x9400D800,0x9500D801,0x9600D802],
    [0x9700C9E9,0x9800D803,0x9900D804,0x9A00D805,0x9B00C8B9,0x9C00D806,0x9D00D807,0x9E00D808,0x9F00D809,0xA000D80A],
    [0xA100D80B,0xA200D80C,0xA300D80D,0xA400D725,0xA500D726,0xA600D727,0xA700D80E,0xA800D80F,0xA900D810,0xAA00D811],
    [0xAB00D812,0xAC00D813,0xAD00D814,0xAE00D815,0xAF00D816,0xB000D817,0xB100D818,0xB200D819,0xB300D81A,0xB400D81B],
    [0xB500D81C,0xB600D81D,0xB700D81E,0xB800D81F,0xB900D820,0xBA00D821,0xBB00D822,0xBC00D823,0xBD00D824,0xBE00D825],
    [0xBF00D826,0x0014AEA2,0x00089EAA,0x000CAE9F,0x00089EA8,0x000CAE9C,0x000CADBE,0x000CADE2,0x000CA043,0x000E315F],
    [0x000CAE6F,0x000CAE66,0x000E310B,0x000CADD3,0x000CAE5D,0x000C9C56,0x000CA067,0x000CAE48,0x000CA061,0x000CAE4B],
    [0x000CA05B,0x000E309C,0x000CA055,0x000CA04F,0x000CAE42,0x000C9EED,0x000C9EA2,0x000E30B1,0x000C0139,0x000E3108],
    [0x000C9EA5,0x000CADDC,0x000CAE15,0x000CA049,0x000CADFA,0x000C9E9C,0x000CADCD,0x000E306F,0x000C9E93,0x000E337C],
    [0x000C0136,0x000CADC4,0x000CADBB,0x000C0133,0x000C9E99,0x000C9E96,0x000CADCA,0x000C9E90,0x000E3075,0x000CA03D],
    [0x000CA037,0x000CA031,0x000CA02B,0x8000D828,0x8100D829,0x8200D82A,0x8300D82B,0x8400D82C,0x8500D82D,0x8600D82E],
    [0x8700D82F,0x8800D830,0x8900D831,0x8A00D832,0x8B00D873,0x8C00D874,0x8D00D875,0x8E00D876,0x8F00D877,0x9000D878],
    [0x9100D879,0x9200D87A,0x9300D87B,0x9400D87C,0x9500D87D,0x9600D87E,0x9700D87F,0x9800D880,0x9900D881,0x9A00D882],
    [0x9B00D883,0x9C00D884,0x9D00D885,0x9E00D886,0x9F00D887,0xA000D888,0xA100D889,0xA200D88A,0xA300D88B,0xA400D88C],
    [0xA500D88D,0xA600D88E,0xA700D88F,0xA800D890,0xA900D891,0xAA00D892,0xAB00D893,0xAC00D894,0xAD00D895,0xAE00D896],
    [0xAF00D897,0xB000D898,0xB100D899,0xB200D89A,0xB300D89B,0xB400D89C,0xB500D89D,0xB600D89E,0xB700D89F,0xB800D8A0],
    [0xB900D8A1,0xBA00D8A2,0xBB00D8A3,0xBC00D8A4,0xBD00D8A5,0xBE00D8A6,0x8000D926,0x8100D927,0x8200D928,0x8300D929],
    [0x8400D92A,0x8500D92B,0x8600D92C,0x8700D92D,0x8800D92E,0x8900D92F,0x8A00D930,0x8B00D931,0x8C00D932,0x8D00D933],
    [0x8E00D934,0x8F00D935,0x9000D936,0x9100D937,0x9200D938,0x9300D939,0x9400D93A,0x9500D93B,0x9600D93C,0x9700D93D],
    [0x9800D93E,0x9900D93F,0x9A00D940,0x9B00D941,0x9C00D942,0x9D00D943,0x9E00D944,0x9F00D945,0xA000D946,0xA100D947],
    [0xA200D948,0xA300D949,0xA400D94A,0xA500D94B,0xA600D94C,0xA700D94D,0xA800D94E,0xA900D94F,0xAA00D950,0xAB00D951],
    [0xAC00D952,0xAD00D953,0xAE00D954,0xAF00D955,0xB000D956,0xB100D957,0xB200D958,0xB300D959,0xB400D95A,0xB500D95B],
    [0xB600D95C,0xB700D95D,0xB800D95E,0xB900D95F,0xBA00D960,0xBB00D961,0xBC00D962,0xBD00D963,0xBE00D964,0xBF00D965],
    [0x003E3430,0x0032316B,0x003E3421,0x0024AE93,0x003E3412,0x0024AE8A,0x0024AE81,0x004A351C,0x0032315F,0x0024AE78],
    [0x0024AE6F,0x0024AE66,0x00323153,0x00323147,0x0032313B,0x0032312F,0x00323123,0x00323117,0x0032310B,0x004A350A],
    [0x001A3403,0x004A34F8,0x004A34E6,0x003E3403,0x003234D4,0x004A34D4,0x004A34C2,0x003230FF,0x0024AE5D,0x0024AE54],
    [0x003230F3,0x003230E7,0x003E33F4,0x003E33E5,0x0024AE4B,0x002634B9,0x003230DB,0x0024AE42,0x0024AE39,0x001A3385],
    [0x00189EA2,0x0024AE30,0x0024AE27,0x004A34B0,0x003230CF,0x003E33D6,0x004A349E,0x003230C3,0x0024AE1E,0x0024AE15],
    [0x004A348C,0x003230B7,0x004A347A,0x0024AE0C,0x003E33C7,0x0024AE03,0x003230AB,0x0024ADFA,0x0032309F,0x003E33B8],
    [0x00323093,0x003E33A9,0x00323087,0x00189E9C,0x8000D9A6,0x8100D9A7,0x8200D9A8,0x8300D9A9,0x8400D9AA,0x8500D9AB],
    [0x8600D9AC,0x8700D9AD,0x8800D9AE,0x8900D9AF,0x8A00D9B0,0x8B00D9B1,0x8C00D9B2,0x8D00D9B3,0x8E00D9B4,0x8F00D9B5],
    [0x9000D9B6,0x9100D9B7,0x9200D9B8,0x9300D9B9,0x9400D9BA,0x9500D9BB,0x9600D9BC,0x9700D9BD,0x9800D9BE,0x9900D9BF],
    [0x9A00D9C0,0x9B00D9C1,0x9C00D9C2,0x9D00D9C3,0x9E00D9C4,0x9F00D9C5,0xA000D9C6,0xA100D9C7,0xA200D9C8,0xA300D9C9],
    [0xA400D9CA,0xA500D9CB,0xA600D9CC,0xA700D9CD,0xA800D9CE,0xA900D9CF,0xAA00D9D0,0xAB00D9D1,0xAC00D9D2,0xAD00D9D3],
    [0xAE00D9D4,0xAF00D9D5,0xB000D9D6,0xB100D9D7,0xB200D9D8,0xB300D9D9,0xB400D9DA,0xB500D9DB,0xB600D9DC,0xB700D9DD],
    [0xB800D9DE,0xB900D9DF,0xBA00D9E0,0xBB00D9E1,0xBC00D9E2,0xBD00D9E3,0xBE00D9E4,0xBF00D9E5,0x003E339A,0x0024ADF1],
    [0x0024ADE8,0x0032307B,0x0024ADDF,0x0024ADD6,0x0024ADCD,0x003E338B,0x0032306F,0x001A3468,0x004A3468,0x0026337C],
    [0x003E337C,0x003234EC,0x00323063,0x0024ADC4,0x0024ADBB,0x00323057,0x00189E96,0x0032304B,0x003E336D,0x00189E90],
    [0x004A3456,0x00263409,0x0010AD85,0x0010AD80,0x0010AD7B,0x0010AD76,0x0010AD71,0x0010AD9E,0x0010AD99,0x0010AD94],
    [0x0010AD8F,0x0010AD8A,0x0014ADB6,0x0014ADB1,0x0014ADAC,0x0014ADA7,0x0014ADA2,0x0014AD9D,0x0014AD98,0x0014AD93],
    [0x0014AD8E,0x0014AD89,0x0014AD84,0x0014AD7F,0x0014AD7A,0x0014AD75,0x0014AD70,0x000CAD6D,0x00089E8E,0x00089E8C],
    [0x000CAD6A,0x00089E8A,0x00089E88,0x0008AD64,0x000CAD67,0x000CAD64,0x00089E86,0x00189E80,0x00189E7A,0x00189E74],
    [0x00189E6E,0x0032303F,0x8000DA26,0x8100DA27,0x8200DA28,0x8300DA29,0x8400DA2A,0x8500DA2B,0x8600DA2C,0x8700DA2D],
    [0x8800DA2E,0x8900DA2F,0x8A00DA30,0x8B00DA31,0x8C00DA32,0x8D00DA33,0x8E00DA34,0x8F00DA35,0x9000DA36,0x9100DA37],
    [0x9200DA38,0x9300DA39,0x9400DA3A,0x9500DA3B,0x9600DA3C,0x9700DA3D,0x9800DA3E,0x9900DA3F,0x9A00DA40,0x9B00DA41],
    [0x9C00DA42,0x9D00DA43,0x9E00DA44,0x9F00DA45,0xA000DA46,0xA100DA47,0xA200DA48,0xA300DA49,0xA400DA4A,0xA500DA4B],
    [0xA600DA4C,0xA700DA4D,0xA800DA4E,0xA900DA4F,0xAA00DA50,0xAB00DA51,0xAC00DA52,0xAD00DA53,0xAE00DA54,0xAF00DA55],
    [0xB000DA56,0xB100DA57,0xB200DA58,0xB300DA59,0xB400DA5A,0xB500DA5B,0xB600DA5C,0xB700DA5D,0xB800DA5E,0xB900DA5F],
    [0xBA00DA60,0xBB00DA61,0xBC00DA62,0xBD00DA63,0xBE00DA64,0xBF00DA65,0x00089E6C,0x00089E6A,0x000C9E67,0x00089E65],
    [0x00089E63,0x00089E61,0x00089E5F,0x00089E5D,0x000E303C,0x0012303B,0x00089E5B,0x00089E59,0x000C9E56,0x000C9E53],
    [0x00089E51,0x000A302F,0x0008AD59,0x000CAD61,0x000CAD5E,0x000CAD5B,0x000CAD58,0x000C9E4E,0x00089E4C,0x00089E4A],
    [0x00089E48,0x00089E46,0x00089E44,0x000C9E41,0x0008AD4C,0x0008AD49,0x0008AD46,0x000CAD55,0x000CAD52,0x0008AD50],
    [0x000CAD4F,0x000CAD4C,0x000CAD49,0x0008AD47,0x000CAD46,0x00163035,0x001A3035,0x0008AD3E,0x000CAD43,0x000CAD40],
    [0x000CAD3D,0x000E344E,0x001E344E,0x0022344E,0x00089E3F,0x00089E3D,0x000C9E3A,0x00089E38,0x00089E36,0x00089E34],
    [0x000C9E31,0x0008AD28,0x00089E2F,0x00089E2D,0x00089E2B,0x00089E29,0x000C9E26,0x00089E24,0x00089E22,0x00089E20],
    [0x8000DAA6,0x8100DAA7,0x8200DAA8,0x8300DAA9,0x8400DAAA,0x8500DAAB,0x8600DAAC,0x8700DAAD,0x8800DAAE,0x8900DAAF],
    [0x8A00DAB0,0x8B00DAB1,0x8C00DAB2,0x8D00DAB3,0x8E00DAB4,0x8F00DAB5,0x9000DAB6,0x9100DAB7,0x9200DAB8,0x9300DAB9],
    [0x9400DABA,0x9500DABB,0x9600DABC,0x9700DABD,0x9800DABE,0x9900DABF,0x9A00DAC0,0x9B00DAC1,0x9C00DAC2,0x9D00DAC3],
    [0x9E00DAC4,0x9F00DAC5,0xA000DAC6,0xA100DAC7,0xA200DAC8,0xA300DAC9,0xA400DACA,0xA500DACB,0xA600DACC,0xA700DACD],
    [0xA800DACE,0xA900DACF,0xAA00DAD0,0xAB00DAD1,0xAC00DAD2,0xAD00DAD3,0xAE00DAD4,0xAF00DAD5,0xB000DAD6,0xB100DAD7],
    [0xB200DAD8,0xB300DAD9,0xB400DADA,0xB500DADB,0xB600DADC,0xB700DADD,0xB800DADE,0xB900DADF,0xBA00DAE0,0xBB00DAE1],
    [0xBC00DAE2,0xBD00DAE3,0xBE00DAE4,0xBF00DAE5,0x000C9E1D,0x000C9E1A,0x00123031,0x00089E18,0x00089E16,0x00089E14],
    [0x001A302B,0x000CAD3A,0x00089E12,0x00089E10,0x00089E0E,0x00089E0C,0x00089E0A,0x00089E08,0x00089E06,0x00089E04],
    [0x00089E4B,0x00089E02,0x000CAD37,0x00089E00,0x00089DFE,0x000CAD34,0x000CAD31,0x00089DFC,0x00123027,0x000CAD2E],
    [0x00089DFA,0x00089DF8,0x00089DF6,0x00089DF4,0x0014AD29,0x0014AD24,0x0010ACB7,0x0010ACE4,0x0010ACDF,0x0010ACDA],
    [0x0010ACD5,0x0010ACD0,0x0010ACCB,0x0010ACC6,0x0010ACC1,0x0014AD1F,0x0014AD1A,0x0014AD15,0x0014AD10,0x0014AD0B],
    [0x0014AD06,0x0014AD01,0x0014ACFC,0x0014ACF7,0x0014ACF2,0x0014ACED,0x0014ACE8,0x0014ACE3,0x0014ACDE,0x0014ACD9],
    [0x0014ACD4,0x0014ACCF,0x0014ACCA,0x0014ACC5,0x0014ACC0,0x0014ACBB,0x0014ACB6,0x000CACB3,0x000C0130,0x8000E71F],
    [0x0008ACAD,0x0008ACB1,0x0008ACAE,0x000CACB0,0x000CACAD,0x00089DF2,0x00109DEE,0x00109DEA,0x00109DE6,0x00109DE2],
    [0x00109DDE,0x0008012E,0x00089FF9,0x00089FAD,0x00089DDC,0x0008012C,0x00089FBD,0x00089FB9,0x00109DDA,0x0008012A],
    [0x00080128,0x00080126,0x00080124,0x00080122,0x00080120,0x0008011E,0x0008011C,0x9D00D01E,0x0008011A,0x00080118],
    [0x00080116,0x00080114,0x00080112,0x00080110,0x0008010E,0x0008010C,0x0008010A,0x00080108,0x00080106,0x00080104],
    [0x00080102,0x00080100,0x000800FE,0x000800FC,0x000800FA,0x0008A5E2,0xB0006F4A,0xB1006F8A,0xB2007008,0xB3007088],
    [0xB4007108,0xB5007188,0xB6007208,0xB7007288,0xB8007308,0xB9007388,0xBA007408,0xBB007488,0xBC007508,0xBD007588],
    [0xBE007608,0xBF007688,0xA400C728,0xA500C779,0xA600C7F9,0xA700C879,0xA800C8F9,0xA900C979,0xAA00C9F9,0xAB00CA79],
    [0xAC00DAE7,0xAD00DB26,0xAE00DB66,0xAF00DB85,0xB000DBC5,0xB100DC1F,0xB200DC9F,0xB300DD1B,0xB400DD5B,0xB500DD89],
    [0xB600DDD6,0xB700DE56,0xB800DE63,0xB900DED6,0xBA00DF16,0xBB00DF56,0xBC00DF92,0xBD00DFD3,0xBE00E022,0xBF00E062],
    [0x000800F8,0x0008A5DE,0x000800F6,0x00089F42,0x0008AC93,0x0008AC8D,0x000800F4,0x000800F2,0x000800F0,0x0008AC87],
    [0x00089CB4,0x0018ACA7,0x0018ACA1,0x0018AC9B,0x0018AC95,0x0018AC8F,0x0018AC89,0x0018AC83,0x0018AC7D,0x000A3001],
    [0x0018AC77,0x0018AC71,0x0018AC6B,0x0018AC65,0x00109DD6,0x0010A9FB,0x0010AABB,0x00109DD2,0x00109DCE,0x00109DCA]]"

definition NODES_39 :: "nat list list" where
  "NODES_39 = [
    [0x0010AAAF,0x0010AC05,0x0010AAA3,0x0010AA97,0x00109DC6,0x00109DC2,0xFF000000,0x8000DAE8,0x8100DAE9,0x8200DAEA],
    [0x8300DAEB,0x8400DAEC,0x8500DAED,0x8600DAED,0x00109DBE,0x00109DBA,0x00109DB6,0x00109DB2,0x0010AA13,0x0010AA21],
    [0x0010AA0D,0x0010AAE7,0x0010AB05,0x00109DAE,0x0010AAFB,0x0010ABC9,0x9300DAEE,0x9400DAEF,0x9500DAF0,0x9600DAF1],
    [0x9700DAF2,0x0010ABD5,0x0010A9F5,0x0010ABB7,0x0010AA79,0x0010ABAB,0x9D00CAD2,0x8200E88B,0x9F00CAD4,0xA000DAF3],
    [0xA100D2CB,0xA200D2EB,0xA300DAF4,0xA400DAF5,0xA500DAF6,0xA600DAF7,0xA700DAF8,0xA800DAF9,0xA900D29C,0xAA00CAD5],
    [0xAB00CAD6,0xAC00CAD7,0xAD00CAD8,0xAE00CAD9,0xAF00CADA,0xB000CADB,0xB100CADC,0xB200CADD,0xB300CAEB,0xB400CAF1],
    [0xB500CAF3,0xB600CAF4,0x00109DAA,0xB800CAF5,0xB900CAF6,0xBA00CAF7,0xBB00CAF8,0xBC00CB13,0x0010AA6D,0xBE00CB14],
    [0x8000CB17,0x8100CB1A,0x0010AB87,0x8300CB24,0x8400CB25,0x00109DA6,0x8600CB26,0x8700CB27,0x8800CB28,0x8900CB29],
    [0x8A00CB2A,0x8B00CB2B,0x8C00CB2C,0x8D00CB2D,0x8E00CB2E,0x8F00DAFA,0x9000DAFB,0x9100DAFB,0x9200DAFC,0x9300DAFC],
    [0x9400DAFC,0x9500DAFC,0x9600DAFD,0x9700DAFD,0x9800DAFD,0x9900DAFD,0x9A00DAFE,0x9B00DAFE,0x9C00DAFE,0x9D00DAFE],
    [0x9E00DAFF,0x9F00DAFF,0xA000DAFF,0xA100DAFF,0xA200DB00,0xA300DB00,0xA400DB00,0xA500DB00,0xA600DB01,0xA700DB01],
    [0xA800DB01,0xA900DB01,0xAA00DB02,0xAB00DB02,0xAC00DB02,0xAD00DB02,0xAE00DB04,0xAF00DB04,0xB000DB04,0xB100DB04],
    [0xB200DB05,0xB300DB05,0xB400DB05,0xB500DB05,0xB600DB06,0xB700DB06,0xB800DB06,0xB900DB06,0xBA00DB07,0xBB00DB07],
    [0xBC00DB07,0xBD00DB07,0xBE00DB08,0xBF00DB08,0x8000DB08,0x8100DB08,0x8200DB09,0x8300DB09,0x8400DB0A,0x8500DB0A],
    [0x8600DB0B,0x8700DB0B,0x8800DB0C,0x8900DB0C,0x8A00DB0D,0x8B00DB0D,0x8C00DB0E,0x8D00DB0E,0x8E00DB0F,0x8F00DB0F],
    [0x9000DB0F,0x9100DB0F,0x9200DB10,0x9300DB10,0x9400DB10,0x9500DB10,0x9600DB11,0x9700DB11,0x9800DB11,0x9900DB11],
    [0x9A00DB12,0x9B00DB12,0x9C00DB12,0x9D00DB12,0x9E00DB13,0x9F00DB13,0xA000DB14,0xA100DB14,0xA200DB14,0xA300DB14],
    [0xA4006A20,0xA5006A20,0xA600DB15,0xA700DB15,0xA800DB15,0xA900DB15,0xAA00DB42,0xAB00DB42,0xAC00DB42,0xAD00DB42],
    [0xAE00DB43,0xAF00DB43,0xB0006A28,0xB1006A28,0x9300DB44,0x9400DB44,0x9500DB44,0x9600DB44,0x9700DB45,0x9800DB45],
    [0x9900DB46,0x9A00DB46,0x9B00DB47,0x9C00DB47,0x9D00CFDA,0x9E00DB48,0x9F00DB48,0xA000DB49,0xA100DB49,0xA200DB4A],
    [0xA300DB4A,0xA400DB4B,0xA500DB4B,0xA600DB4B,0xA700DB4B,0xA800DB4C,0xA900DB4C,0xAA00DB4D,0xAB00DB4D,0xAC00DB4E],
    [0xAD00DB4E,0xAE00DB4F,0xAF00DB4F,0xB000DB50,0xB100DB50,0xB200DB51,0xB300DB51,0xB400DB52,0xB500DB52,0xB600DB53],
    [0xB700DB53,0xB800DB53,0xB900DB54,0xBA00DB54,0xBB00DB54,0xBC00DB55,0xBD00DB55,0xBE00DB55,0xBF00DB55,0x8000DB56],
    [0x8100DB57,0x8200DB58,0x8300DB54,0x8400DB59,0x8500DB5A,0x8600DB5B,0x8700DB5C,0x8800DB5D,0x8900DB5E,0x8A00DB5F],
    [0x8B00DB60,0x8C00DB61,0x8D00DB62,0x8E00DB63,0x8F00DB64,0x9000DB65,0x9100DB6E,0x9200DB6F,0x9300DB70,0x9400DB71],
    [0x9500DB72,0x9600DB73,0x9700DB74,0x9800DB75,0x9900DB76,0x9A00DB77,0x9B00DB78,0x9C00DB79,0x9D00DB7F,0x9E00DB80],
    [0x9F00DB81,0xA000DB82,0xA100DB83,0xA200DB9E,0xA300DBA4,0xA400DBA8,0xA500DBAB,0xA600DC85,0xA700DC86,0xA800DC87],
    [0xA900DC88,0xAA00DC89,0xAB00DC8A,0xAC00DC8B,0xAD00DC8C,0xAE00DC8D,0xAF00DC8E,0xB000DC8F,0xB100DC90,0xB200DC91],
    [0xB300DC92,0xB400DC93,0xB500DC94,0xB600DC95,0xB700DC96,0xB800DC97,0xB900DC98,0xBA00DC99,0xBB00DC9A,0xBC00DC9B],
    [0xBD00DC9C,0xBE00DC9D,0xBF00DC9E,0x00109DA2,0x0010AB75,0x00109D9E,0x0010AB6F,0x0010AA37,0x00109D9A,0x0010AB57],
    [0x00109D96,0x00109D92,0x0010AB51,0x0010AA01,0x00109D8E,0x00109D8A,0x00109D86,0x0010AA43,0x00109D82,0x00109D7E],
    [0x00109D7A,0x00109D76,0x00109D72,0x00109D6E,0x00109D6A,0x0010AA19,0x00109D66,0x00109D62,0x0010AA1F,0x8000DCDF],
    [0x8100DCE0,0x8200DCE1,0x8300DCE2,0x8400DCE3,0x8500DCE4,0x8600DCE5,0x8700DCE6,0x8800DCE7,0x8900DCE8,0x8A00DCE9],
    [0x8B00DCEA,0x8C00DCEB,0x8D00DCEC,0x8E00DCED,0x8F00DCEE,0x9000DCEF,0x9100DCF0,0x9200DCF1,0x9300DCF2,0x9400DCF3],
    [0x9500DCF4,0x9600DCF5,0x9700DCF6,0x9800DCF7,0x9900DCF8,0x9A00DCF9,0x9B00DCFA,0x9C00DCFB,0x9D00DCFC,0x9E00DCFD],
    [0x9F00DCFE,0xA000DCFF,0xA100DD00,0xA200DD01,0xA300DD02,0xA400DD03,0xA500DD04,0xA600DB58,0xA700DD05,0xA800DB54],
    [0xA900DB59,0xAA00DD06,0xAB00DD07,0xAC00DB5D,0xAD00DD08,0xAE00DB5E,0xAF00DB5F,0xB000DD09,0xB100DD0A,0xB200DB63],
    [0xB300DD0B,0xB400DB64,0xB500DB65,0xB600DD0C,0xB700DD0D,0xB800DB6F,0xB900DD0E,0xBA00DB70,0xBB00DB71,0xBC00DC90],
    [0xBD00DC91,0xBE00DC94,0xBF00DC95,0x0010AB33,0x0010AB27,0x0010AA61,0x0012355E,0x0012356E,0x0010AA07,0x0010AB15],
    [0x0010AA25,0x0010AA1B,0x0010AA87,0x0010AA03,0x0010A9EF,0x0010AA3D,0x00109D5E,0x0010AAC7,0x00109D5A,0x0010AC39],
    [0x00109D56,0x0010AAEB,0x00109D52,0x00109D04,0x0010AA11,0x0010AA0B,0x00109D4E,0x0010AA05,0x00109D4A,0x0010AA4D],
    [0x00109D46,0x00109D42,0x00109D3E,0x0014AC60,0x0014AC5B,0x0014AC56,0x0014AC51,0x0014AC4C,0x0014AC47,0x0018AC41],
    [0x0018AC3B,0x0018AC35,0x00123023,0x00109D3A,0x00109D36,0x00109D32,0x00109D2E,0x00109D2A,0x00109D26,0x00109D22],
    [0x00109D1E,0x00109D1A,0x00109D16,0x00109D12,0x00109D0E,0x00109D0A,0x00109D06,0x0010AA29,0x0018AC2F,0x0018AC29],
    [0x00109D02,0x00109CFE,0x00109CFA,0xA900E62F,0x00123558,0x00109CF6,0x00109CF2,0x8000DC96,0x8100DC9A,0x8200DC9B],
    [0x8300DC9C,0x8400DC9D,0x8500DCE1,0x8600DCE2,0x8700DCE3,0x8800DD0F,0x8900DCE7,0x8A00DD10,0x8B00DD11,0x8C00DCED],
    [0x8D00DD12,0x8E00DCEE,0x8F00DCEF,0x9000DCFC,0x9100DD13,0x9200DD14,0x9300DCF7,0x9400DD15,0x9500DCF8,0x9600DCF9],
    [0x9700DB56,0x9800DB57,0x9900DD16,0x9A00DB58,0x9B00DD17,0x9C00DB5A,0x9D00DB5B,0x9E00DB5C,0x9F00DB5D,0xA000DD18],
    [0xA100DB60,0xA200DB61,0xA300DB62,0xA400DB63,0xA500DD19,0xA600DB6F,0xA700DB72,0xA800DB73,0xA900DB74,0xAA00DB75],
    [0xAB00DB76,0xAC00DB78,0xAD00DB79,0xAE00DB7F,0xAF00DB80,0xB000DB81,0xB100DB82,0xB200DD1A,0xB300DB83,0xB400DB9E],
    [0xB500DBA4,0xB600DBA8,0xB700DBAB,0xB800DC85,0xB900DC87,0xBA00DC88,0xBB00DC89,0xBC00DC8A,0xBD00DC8B,0xBE00DC8C],
    [0xBF00DC8D,0x00123570,0x00109CEE,0x00109CEA,0x0010AB93,0x00109CE6,0x0018AC23,0x0018AC1D,0x0018AC17,0x00109CE2],
    [0x00109CDE,0x00109CDA,0x00109CD6,0x00109CD2,0x00109CCE,0x00109CCA,0x00109CC6,0x00109CC2,0x00109CBE,0x0010AA8D],
    [0x0010A9FD,0x0010AAB1,0x0010A9F1,0x0010AA81,0x0010A9F7,0x00109CBA,0x00109CB6,0x00109CB2,0x00109CAE,0x0010AB9F],
    [0x0010AA73,0x00109CAA,0x00109CA6,0x00109CA2,0x00109C9E,0x00109C9A,0x00109C96,0x0018AC11,0x0018AC0B,0x0018AC05],
    [0x0018ABFF,0x0018ABF9,0x0018ABF3,0xB300E717,0x0018ABED,0x0018ABE7,0x0018ABE1,0x0018ABDB,0x0018ABD5,0x0018ABCF],
    [0x0018ABC9,0x0018ABC3,0x0018ABBD,0x0018ABB7,0x0018ABB1,0x0018ABAB,0x0018ABA5,0x0018AB9F,0x0018AB99,0x0018AB93],
    [0x0018AB8D,0x8000DC8E,0x8100DC8F,0x8200DC92,0x8300DC93,0x8400DC97,0x8500DC98,0x8600DC99,0x8700DC9A,0x8800DC9B],
    [0x8900DC9E,0x8A00DCDF,0x8B00DCE0,0x8C00DCE1,0x8D00DD1C,0x8E00DCE4,0x8F00DCE5,0x9000DCE6,0x9100DCE7,0x9200DCEA],
    [0x9300DCEB,0x9400DCEC,0x9500DCED,0x9600DD1D,0x9700DCF0,0x9800DCF1,0x9900DD1E,0x9A00DCF4,0x9B00DCF5,0x9C00DCF6],
    [0x9D00DCF7,0x9E00DD5F,0x9F00DB58,0xA000DD17,0xA100DB5D,0xA200DD18,0xA300DB63,0xA400DD19,0xA500DB6F,0xA600DD60],
    [0xA700DB81,0xA800DD61,0xA900DD62,0xAA00DD63,0xAB00DC9A,0xAC00DC9B,0xAD00DCE1,0xAE00DCED,0xAF00DD1D,0xB000DCF7],
    [0xB100DD5F,0xB200DD64,0xB300DD65,0xB400DD66,0xB500DD67,0xB600DD68,0xB700DD69,0xB800DD6A,0xB900DD6B,0xBA00DD6C],
    [0xBB00DD6D,0xBC00DD6E,0xBD00DD6F,0xBE00DD70,0xBF00DD71,0x8000DD72,0x8100DD73,0x8200DD74,0x8300DD75,0x8400DD76],
    [0x8500DD77,0x8600DD78,0x8700DD79,0x8800DD7A,0x8900DD7B,0x8A00DD7C,0x8B00DD7D,0x8C00DD62,0x8D00DD7E,0x8E00DD7F],
    [0x8F00DD80,0x9000DD81,0x9100DD67,0x9200DD68,0x9300DD69,0x9400DD6A,0x9500DD6B,0x9600DD6C,0x9700DD6D,0x9800DD6E],
    [0x9900DD6F,0x9A00DD70,0x9B00DD71,0x9C00DD72,0x9D00DD73,0x9E00DD74,0x9F00DD75,0xA000DD76,0xA100DD77,0xA200DD78],
    [0xA300DD79,0xA400DD7A,0xA500DD7B,0xA600DD7C,0xA700DD7D,0xA800DD62,0xA900DD7E,0xAA00DD7F,0xAB00DD80,0xAC00DD81],
    [0xAD00DD7B,0xAE00DD7C,0xAF00DD7D,0xB000DD62,0xB100DD61,0xB200DD63,0xB300DC86,0xB400DB79,0xB500DB7F,0xB600DB80],
    [0xB700DD7B,0xB800DD7C,0xB900DD7D,0xBA00DC86,0xBB00DC87,0xBC00DD82,0xBD00DD82,0x9000DD83,0x9100DD84,0x9200DD84],
    [0x9300DD85,0x9400DD86,0x9500DD87,0x9600DD88,0x9700DD8A,0x9800DD8B,0x9900DD8B,0x9A00DD8C,0x9B00DD8D,0x9C00DD8E],
    [0x9D00DD8F,0x9E00DD90,0x9F00DD91,0xA000DD91,0xA100DD92,0xA200DD93,0xA300DD93,0xA400DD94,0xA500DD94,0xA600DD95],
    [0xA700DD96,0xA800DD96,0xA900DD97,0xAA00DD98,0xAB00DD98,0xAC00DD99,0xAD00DD99,0xAE00DD9A,0xAF00DE49,0xB000DE49],
    [0xB100DE4A,0xB200DE4A,0xB300DE4B,0xB400DE4C,0xB500DE4D,0xB600DE4E,0xB700DE4E,0xB800DE4F,0xB900DE50,0xBA00DE51],
    [0xBB00DE52,0xBC00DE53,0xBD00DE53,0xBE00DE54,0xBF00DE55,0x0018AB87,0x0018AB81,0x0018AB7B,0x0018AB75,0x0018AB6F],
    [0x001A3013,0x0018AB69,0x0018AB63,0x0018AB5D,0x0018AB57,0x0018AB51,0x0018AB4B,0x0018AB45,0x8000DE66,0x8100DE67],
    [0x8200DE96,0x8300DE97,0x8400DE97,0x8500DE98,0x8600DE98,0x8700DE99,0x8800DE99,0x8900DE9A,0x8A00DE9B,0x8B00DE9C],
    [0x8C00DE9D,0x8D00DE9E,0x8E00DE9F,0x8F00DEA0,0x0018AB3F,0x0018AB39,0x9200DEA1,0x9300DEA2,0x9400DEA3,0x9500DEA4],
    [0x9600DEA5,0x9700DEA6,0x9800DEA6,0x9900DEA7,0x9A00DEA8,0x9B00DEA9,0x9C00DEAA,0x9D00DEAA,0x9E00DEAB,0x9F00DEAC],
    [0xA000DEAD,0xA100DEAE,0xA200DEAF,0xA300DEB0,0xA400DEB1,0xA500DEB2,0xA600DEB3,0xA700DEB4,0xA800DEB5,0xA900DEB6],
    [0xAA00DEB7,0xAB00DEB8,0xAC00DEB9,0xAD00DEBA,0xAE00DEBB,0xAF00DEBC,0xB000DEBD,0xB100DEBE,0xB200DEBF,0xB300DEC0],
    [0xB400DE54,0xB500DE66,0xB600DEC1,0xB700DEC2,0xB800DEC3,0xB900DEC4,0xBA00DEC5,0xBB00DEC6,0xBC00DEC5,0xBD00DEC3],
    [0xBE00DEC7,0xBF00DEC8,0x0018AB33,0x0018AB2D,0x0018AB27,0x0018AB21,0x0018AB1B,0x001A3017,0x0018AB15,0x0018AB0F],
    [0x0018AAF3,0x0018AB03,0x0018AAFD,0x0018AAF7,0x0018AAF1,0x0018AAEB,0x0018AAE5,0x0018AADF,0x0018AAD9,0x0018AAD3],
    [0x0018AACD,0x0018AAC7,0x0018AA47,0x0018AABB,0x0018AAB5,0x0018AAAF,0x0018AAA9,0x0018AAA3,0x0018AA9D,0x0018AA97],
    [0x0018AA91,0x0018AA8B,0x0018AA85,0x0018AA7F,0x0018AA79,0x0018AA73,0x0018AA6D,0x0018AA67,0x0018AA61,0x0018AA5B],
    [0x0018AA55,0x0018AA4F,0x0018AA49,0x0018AA43,0x0018AA3D,0x0018AA37,0x0018AA31,0x0018AA2B,0x0018AA25,0x0018AA1F],
    [0x0018AA19,0x0018AA13,0x0018AA0D,0x0018AA07,0x0018AA01,0x0018A9FB,0x0018A9F5,0x0018A9EF,0x0018A9E9,0x0018A9E3],
    [0x00223563,0x0022301F,0x00223017,0x0022300F,0x00223007,0x0022356C,0x8000DEC9,0x8100DECA,0x8200DECB,0x8300DEC6],
    [0x8400DE4D,0x8500DD95,0x8600DECC,0x8700DECD,0x00223575,0x001A355C,0x0086355C,0x003E354D,0x00222FFF,0x00049C71],
    [0x000C00ED,0x000C00EA,0x0004AFB1,0x00049F15,0x00049F14,0x000C00E7,0x000C00E4,0x000C00E1,0x000C00DE,0x000400DD],
    [0x000400DC,0x000400DB,0x000CA928,0x000CA92E,0x000C00D8,0x9000DEE3,0x9100DEE4,0x9200DEE5,0x9300DEE6,0x94006994],
    [0x9500DEE7,0x9600DEE8,0x9700DEE9,0x9800DEEA,0x9900D263,0x000C00D5,0x000C00D2,0x000C00CF,0x000C00CC,0x000C00C9],
    [0x000C00C6,0x000C00C3,0x000400C2,0x000400C1,0xB000DECE,0xB100DECF,0xB200DED0,0xB300DED1,0xB400DED2,0xB500DED3],
    [0xB600DED4,0xB700DED5,0xB800DEDE,0xB900DEDF,0xBA00DEE0,0xBB00DEE1,0xBC00DEE2,0xB000D25F,0xB100DEEB,0xB200DEEC],
    [0xB300DEED,0xB400DEED,0xB500D2A1,0xB600D2A6,0xB700DEEE,0xB800DEEF,0xB900DEF0,0xBA00DEF1,0xBB00DEF2,0xBC00DEFD],
    [0xBD00DEFE,0xBE00DEFF,0xBF006ED2,0x000400C0,0x000400BF,0x000400BE,0x000400BD,0x0004A195,0x0004A192,0x000400BC],
    [0x000400BB,0x000400BA,0x000400B9,0x000C9C93,0x00109C8F,0x000CAC60,0x000CAC5B,0x000CAC56,0x0010AC23,0x000CAC51],
    [0x0010AC1D,0x000CAC4C,0x0010AC17,0x000CAC47,0x00109C8B,0x000C9C88,0x00109C84,0x000800B7,0x00089C96,0x00089D02],
    [0x000800B5,0x00089CFE,0x00089CEE,0x00089D58,0x00089D74,0x00089CAC,0x000A301D,0x00089D46,0x00089C9C,0x00089D08],
    [0x00089CA2,0x00089CA6,0x00089C9E,0x00089C9A,0x00089CDE,0x00089D9E,0x00089CD6,0x00089CCE,0x00089D8A,0x00089D7E],
    [0x00089D62,0x00089D6C,0x00089D1A,0x00089CF6,0x80006ED3,0x8100DF00,0x8200DF01,0x8300DF02,0x8400DF03,0x00089CE8],
    [0x00089F46,0x8700DF04,0x8800DF05,0x8900D281,0x8A00D281,0x8B00D281,0x8C00D281,0x8D00DEED,0x8E00DEED,0x8F00DEED],
    [0x9000DEE3,0x9100DEE4,0x9200D25E,0x00089CB0,0x94006994,0x9500DEE6,0x9600DEE8,0x9700DEE7,0x9800DEEB,0x9900D2A1],
    [0x9A00D2A6,0x9B00DEEE,0x9C00DEEF,0x9D00DEF0,0x9E00DEF1,0x9F00DF23,0xA000DF24,0xA100DF25,0xA200D29C,0xA300DF26],
    [0xA400DF27,0xA500DF28,0xA600D29F,0x0018A9DD,0xA800DF29,0xA900DF2A,0xAA00DF2B,0xAB00DF2C,0x0018A9D7,0x0018A9D1],
    [0x0010A9D1,0x000400B4,0xB000DF2D,0xB100DF2E,0xB200DF2F,0x000400B3,0xB400DF30,0x0004B09F,0xB600DF31,0xB700DF32],
    [0xB800DF33,0xB900DF34,0xBA00DF35,0xBB00DF36,0xBC00DF37,0xBD00DF38,0xBE00DF39,0xBF00DF3A,0x8000DF3B,0x81006A0C],
    [0x82006A0C,0x83006A14,0x84006A14,0x85006A15,0x86006A15,0x87006A18,0x88006A18,0x89006A19,0x8A006A19,0x8B006A19],
    [0x8C006A19,0x8D00DF3C,0x8E00DF3C,0x8F00DF3D,0x9000DF3D,0x9100DF3D,0x9200DF3D,0x9300DF3E,0x9400DF3E,0x9500DF3F],
    [0x9600DF3F,0x9700DF3F,0x9800DF3F,0x9900DF40,0x9A00DF40,0x9B00DF40,0x9C00DF40,0x9D00DF41,0x9E00DF41,0x9F00DF41],
    [0xA000DF41,0xA100DF42,0xA200DF42,0xA300DF42,0xA400DF42,0xA500DF43,0xA600DF43,0xA700DF43,0xA800DF43,0xA900DF44],
    [0xAA00DF44,0xAB00DF45,0xAC00DF45,0xAD00DF46,0xAE00DF46,0xAF00DF47,0xB000DF47,0xB100DF48,0xB200DF48,0xB300DF48],
    [0xB400DF48,0xB500DF49,0xB600DF49,0xB700DF49,0xB800DF49,0xB900DF4A,0xBA00DF4A,0xBB00DF4A,0xBC00DF4A,0xBD00DF4B],
    [0xBE00DF4B,0xBF00DF4B,0x8000DF4B,0x8100DF4C,0x8200DF4C,0x8300DF4C,0x8400DF4C,0x8500DF4D,0x8600DF4D,0x8700DF4D],
    [0x8800DF4D,0x8900DF4E,0x8A00DF4E,0x8B00DF4E,0x8C00DF4E,0x8D00DF4F,0x8E00DF4F,0x8F00DF4F,0x9000DF4F,0x9100DF50],
    [0x9200DF50,0x9300DF50,0x9400DF50,0x9500DF51,0x9600DF51,0x9700DF51,0x9800DF51,0x9900DF52,0x9A00DF52,0x9B00DF52],
    [0x9C00DF52,0x9D00DF53,0x9E00DF53,0x9F00DF53,0xA000DF53,0xA100DF54,0xA200DF54,0xA300DF54,0xA400DF54,0xA500DF55],
    [0xA600DF55,0xA700DF55,0xA800DF55,0xA900DF5B,0xAA00DF5B,0xAB00DF5B,0xAC00DF5B,0xAD00DF5C,0xAE00DF5C,0xAF00DB4C],
    [0xB000DB4C,0xB100DF69,0xB200DF69,0xB300DF69,0xB400DF69,0xB500DF7D,0xB600DF7D,0xB700DF82,0xB800DF82,0xB900DF83],
    [0xBA00DF83,0xBB00DF84,0xBC00DF84,0x8100DEE7,0x8200DF85,0x8300DF23,0x8400DF2A,0x8500DF2B,0x8600DF24,0x8700DF89],
    [0x8800D2A1,0x8900D2A6,0x8A00DF25,0x8B00D29C,0x8C00DEE3,0x8D00DF26,0x8E00D25E,0x8F00DF8B,0x9000D286,0x9100CF44],
    [0x9200CF3F,0x9300CF40,0x9400D287,0x9500D288,0x9600D294,0x9700D297,0x9800D299,0x9900D29B,0x9A00DEE6,0x9B006994],
    [0x9C00DF27,0x9D00D29F,0x9E00DF28,0x9F00DEE8,0xA000DF2C,0xA100D07B,0xA200D094,0xA300D2B5,0xA400D095,0xA500D09D],
    [0xA600D2CA,0xA700D0A9,0xA800D0AD,0xA900D0AE,0xAA00D0AF,0xAB006E5A,0xAC00D0B5,0xAD00D0C1,0xAE00D0C2,0xAF00D0C3],
    [0xB000D0C5,0xB100D2C3,0xB200D0CD,0xB300D474,0xB400D0D0,0xB500D0D1,0xB600D344,0xB700D0D2,0xB800D34E,0xB900D475],
    [0xBA00D2C9,0xBB00DF04,0xBC00DF29,0xBD00DF05,0xBE00E052,0xBF00DEED,0x000400B2,0x80006E4D,0x8100CF3D,0x8200D0E3],
    [0x8300D111,0x8400D0E4,0x8500D0E5,0x8600D114,0x8700D0F2,0x8800CF7B,0x8900D10E,0x8A00CF7F,0x8B00D0F8,0x8C00CFA7],
    [0x8D00D0FB,0x8E00D2B0,0x8F00CF45,0x9000D102,0x9100D476,0x9200CF80,0x9300CF4F,0x9400D104,0x9500D105,0x9600D109],
    [0x9700CF85,0x9800CFA8,0x9900CF8A,0x9A00D17F,0x9B00DEEE,0x9C00E093,0x9D00DEEF,0x9E00E094,0x9F00E095,0xA000E096],
    [0xA100DEE5,0xA200DF00,0xA300DF01,0xA400DEE4,0xA500E097,0xA600D8A6,0xA700E098,0xA800E099,0xA900E09A,0xAA00E09B],
    [0xAB00E09C,0xAC00E09D,0xAD00E09E,0xAE00E09F,0xAF00E0A0,0xB000E0A1,0xB100D878,0xB200D879,0xB300D87A,0xB400D87B],
    [0xB500D87C,0xB600D87D,0xB700D87E,0xB800D87F,0xB900D880,0xBA00D881,0xBB00D882,0xBC00D883,0xBD00D884,0xBE00D885],
    [0xBF00D886,0x000400B1,0x000400B0,0x000C00AD,0x000C00AA,0x000C00A7,0x000E3174,0x000E30BA,0x000C00A4,0x000E3486],
    [0x000CAE84,0x000C00A1,0x000E310E,0x000E3394,0x000CADD9,0x000CADC7,0x8000D887,0x8100D888,0x8200D889,0x8300D88A],
    [0x8400D88B,0x8500D88C,0x8600D88D,0x8700D88E,0x8800D88F,0x8900D890,0x8A00D891,0x8B00D892,0x8C00D893,0x8D00D894],
    [0x8E00D895,0x8F00D896,0x9000D897,0x9100D898,0x9200D899,0x9300D89A,0x9400D89B,0x9500D89C,0x9600D89D,0x9700D89E],
    [0x9800D89F,0x9900D8A0,0x9A00D8A1,0x9B00D8A2,0x9C00D8A3,0x9D00E0E1,0x9E00E0E2,0x9F00E0E3,0xA000D68A,0xA100D630],
    [0xA200D640,0xA300D641,0xA400D642,0xA500D644,0xA600D645,0xA700D646,0xA800D647,0xA900D648,0xAA00D649,0xAB00D64C],
    [0xAC00D64F,0xAD00D650,0xAE00D651,0xAF00D652,0xB000D653,0xB100D654,0xB200D655,0xB300D657,0xB400D65C,0xB500D65E],
    [0xB600D660,0xB700D662,0xB800D664,0xB900D666,0xBA00D668,0xBB00D66A,0xBC00D66C,0xBD00D66E,0xBE00D66F,0x000C9E9F],
    [0x000C9EFB,0x000C9EF7,0x8200D670,0x8300D671,0x8400D672,0x8500D673,0x8600D674,0x8700D675,0x0008009F,0x0008009D],
    [0x8A00D676,0x8B00D677,0x8C00D678,0x8D00D679,0x8E00D67A,0x8F00D67B,0x0008009B,0x00080099,0x9200D67C,0x9300D67D],
    [0x9400D67E,0x9500D680,0x9600D682,0x9700D683,0x00080097,0x000C0094,0x9A00D685,0x9B00D687,0x9C00D689,0x000C0091]]"

definition NODES_40 :: "nat list list" where
  "NODES_40 = [
    [0x000CA1EB,0x000C008E,0xA000E0EA,0xA100E0EB,0xA200E0F2,0xA300CF3E,0xA400E0F3,0xA500E0FA,0xA600E0FB,0x000CA1E6],
    [0xA800E0FF,0xA900E100,0xAA00E101,0xAB00E109,0xAC00E111,0xAD00E112,0xAE00E113,0x000C008B,0x000C0088,0x000C0085],
    [0x91009746,0x00080083,0x00080081,0x0008A272,0x0008007F,0x0008007D,0x0008A266,0x0008007B,0x0008A25E,0x0008A237],
    [0x00080079,0x00080077,0x9D00E0A3,0x00080075,0x9F00E4BE,0x00080073,0x00080071,0x0008A1F8,0x0008A204,0x0008006F],
    [0x8500CAA4,0x8600CA93,0x8700CAD3,0x0008006D,0x0008006B,0x00080069,0x000C0066,0x0008A282,0x00080064,0x0008A26A],
    [0xAF00CAB5,0x9000E0C3,0x9100E103,0x9200E143,0x9300E183,0x9400E1C3,0x9500E202,0x9600E242,0x9700E282,0x9800E2C2],
    [0x9900E302,0x9A00E342,0x9B00E382,0x9C00E3C2,0x9D00E402,0x9E00E442,0x9F00E482,0x8000D07B,0x8100D094,0x8200D2B5],
    [0x8300D095,0x8400D09D,0x8500D2CA,0x8600D0A9,0x8700D0AD,0x8800D0AE,0x8900D0AF,0x8A006E5A,0x8B00D0B5,0x8C00D0C1],
    [0x8D00D0C2,0x8E00D0C3,0x8F00D0C5,0x9000D2C3,0x9100D0CD,0x9200D474,0x9300D0D0,0x9400D0D1,0x9500D344,0x9600D0D2],
    [0x9700D34E,0x9800D475,0x9900D2C9,0x9A00CF3D,0x9B00D0E3,0x9C00D111,0x9D00D0E4,0x9E00D0E5,0x9F00D114,0xA000D0F2],
    [0xA100CF7B,0xA200D10E,0xA300CF7F,0xA400D0F8,0xA500CFA7,0xA600D0FB,0xA700D2B0,0xA800CF45,0xA900D102,0xAA00D476],
    [0xAB00CF80,0xAC00CF4F,0xAD00D104,0xAE00D105,0xAF00D109,0xB000CF85,0xB100CFA8,0xB200CF8A,0xB300D17F,0xB400D07B],
    [0xB500D094,0xB600D2B5,0xB700D095,0xB800D09D,0xB900D2CA,0xBA00D0A9,0xBB00D0AD,0xBC00D0AE,0xBD00D0AF,0xBE006E5A],
    [0xBF00D0B5,0x8000D0C1,0x8100D0C2,0x8200D0C3,0x8300D0C5,0x8400D2C3,0x8500D0CD,0x8600D474,0x8700D0D0,0x8800D0D1],
    [0x8900D344,0x8A00D0D2,0x8B00D34E,0x8C00D475,0x8D00D2C9,0x8E00CF3D,0x8F00D0E3,0x9000D111,0x9100D0E4,0x9200D0E5],
    [0x9300D114,0x9400D0F2,0x00080062,0x9600D10E,0x9700CF7F,0x9800D0F8,0x9900CFA7,0x9A00D0FB,0x9B00D2B0,0x9C00CF45],
    [0x9D00D102,0x9E00D476,0x9F00CF80,0xA000CF4F,0xA100D104,0xA200D105,0xA300D109,0xA400CF85,0xA500CFA8,0xA600CF8A],
    [0xA700D17F,0xA800D07B,0xA900D094,0xAA00D2B5,0xAB00D095,0xAC00D09D,0xAD00D2CA,0xAE00D0A9,0xAF00D0AD,0xB000D0AE],
    [0xB100D0AF,0xB2006E5A,0xB300D0B5,0xB400D0C1,0xB500D0C2,0xB600D0C3,0xB700D0C5,0xB800D2C3,0xB900D0CD,0xBA00D474],
    [0xBB00D0D0,0xBC00D0D1,0xBD00D344,0xBE00D0D2,0xBF00D34E,0x8000D475,0x8100D2C9,0x8200CF3D,0x8300D0E3,0x8400D111],
    [0x8500D0E4,0x8600D0E5,0x8700D114,0x8800D0F2,0x8900CF7B,0x8A00D10E,0x8B00CF7F,0x8C00D0F8,0x8D00CFA7,0x8E00D0FB],
    [0x8F00D2B0,0x9000CF45,0x9100D102,0x9200D476,0x9300CF80,0x9400CF4F,0x9500D104,0x9600D105,0x9700D109,0x9800CF85],
    [0x9900CFA8,0x9A00CF8A,0x9B00D17F,0x9C00D07B,0x00080060,0x9E00D2B5,0x9F00D095,0x0008005E,0x0008A292,0xA200D0A9],
    [0x0008005C,0x0008005A,0xA500D0AF,0xA6006E5A,0x0008A214,0x00080058,0xA900D0C2,0xAA00D0C3,0xAB00D0C5,0xAC00D2C3],
    [0x0008A1FC,0xAE00D474,0xAF00D0D0,0xB000D0D1,0xB100D344,0xB200D0D2,0xB300D34E,0xB400D475,0xB500D2C9,0xB600CF3D],
    [0xB700D0E3,0xB800D111,0xB900D0E4,0x000C0055,0xBB00D114,0x00080053,0xBD00CF7B,0xBE00D10E,0xBF00CF7F,0x8000D0F8],
    [0x8100CFA7,0x8200D0FB,0x8300D2B0,0x00080051,0x8500D102,0x8600D476,0x8700CF80,0x8800CF4F,0x8900D104,0x8A00D105],
    [0x8B00D109,0x8C00CF85,0x8D00CFA8,0x8E00CF8A,0x8F00D17F,0x9000D07B,0x9100D094,0x9200D2B5,0x9300D095,0x9400D09D],
    [0x9500D2CA,0x9600D0A9,0x9700D0AD,0x9800D0AE,0x9900D0AF,0x9A006E5A,0x9B00D0B5,0x9C00D0C1,0x9D00D0C2,0x9E00D0C3],
    [0x9F00D0C5,0xA000D2C3,0xA100D0CD,0xA200D474,0xA300D0D0,0xA400D0D1,0xA500D344,0xA600D0D2,0xA700D34E,0xA800D475],
    [0xA900D2C9,0xAA00CF3D,0xAB00D0E3,0xAC00D111,0xAD00D0E4,0xAE00D0E5,0xAF00D114,0xB000D0F2,0xB100CF7B,0xB200D10E],
    [0xB300CF7F,0xB400D0F8,0xB500CFA7,0xB600D0FB,0xB700D2B0,0xB800CF45,0xB900D102,0xBA00D476,0xBB00CF80,0xBC00CF4F],
    [0xBD00D104,0xBE00D105,0xBF00D109,0x8000CF85,0x8100CFA8,0x8200CF8A,0x8300D17F,0x8400D07B,0x8500D094,0x0008B003],
    [0x8700D095,0x8800D09D,0x8900D2CA,0x8A00D0A9,0x00089C82,0x00089C80,0x8D00D0AF,0x8E006E5A,0x8F00D0B5,0x9000D0C1],
    [0x9100D0C2,0x9200D0C3,0x9300D0C5,0x9400D2C3,0x00089C7E,0x9600D474,0x9700D0D0,0x9800D0D1,0x9900D344,0x9A00D0D2],
    [0x9B00D34E,0x9C00D475,0x00089C7C,0x9E00CF3D,0x9F00D0E3,0xA000D111,0xA100D0E4,0xA200D0E5,0xA300D114,0xA400D0F2],
    [0xA500CF7B,0xA600D10E,0xA700CF7F,0xA800D0F8,0xA900CFA7,0xAA00D0FB,0xAB00D2B0,0xAC00CF45,0xAD00D102,0xAE00D476],
    [0xAF00CF80,0xB000CF4F,0xB100D104,0xB200D105,0xB300D109,0xB400CF85,0xB500CFA8,0xB600CF8A,0xB700D17F,0xB800D07B],
    [0xB900D094,0x00089C7A,0xBB00D095,0xBC00D09D,0xBD00D2CA,0xBE00D0A9,0x8000D0AE,0x8100D0AF,0x82006E5A,0x8300D0B5],
    [0x8400D0C1,0x00089C78,0x8600D0C3,0x00089C76,0x00089C74,0x00089C72,0x8A00D474,0x8B00D0D0,0x8C00D0D1,0x8D00D344],
    [0x8E00D0D2,0x8F00D34E,0x9000D475,0x00089C70,0x9200CF3D,0x9300D0E3,0x9400D111,0x9500D0E4,0x9600D0E5,0x9700D114],
    [0x9800D0F2,0x9900CF7B,0x9A00D10E,0x9B00CF7F,0x9C00D0F8,0x9D00CFA7,0x9E00D0FB,0x9F00D2B0,0xA000CF45,0xA100D102],
    [0xA200D476,0xA300CF80,0xA400CF4F,0xA500D104,0xA600D105,0xA700D109,0xA800CF85,0xA900CFA8,0xAA00CF8A,0xAB00D17F],
    [0xAC00D07B,0xAD00D094,0xAE00D2B5,0xAF00D095,0xB000D09D,0xB100D2CA,0xB200D0A9,0xB300D0AD,0xB400D0AE,0xB500D0AF],
    [0xB6006E5A,0xB700D0B5,0xB800D0C1,0xB900D0C2,0xBA00D0C3,0xBB00D0C5,0xBC00D2C3,0xBD00D0CD,0xBE00D474,0xBF00D0D0],
    [0x8000D0D1,0x8100D344,0x8200D0D2,0x8300D34E,0x8400D475,0x8500D2C9,0x8600CF3D,0x8700D0E3,0x8800D111,0x8900D0E4],
    [0x8A00D0E5,0x8B00D114,0x8C00D0F2,0x8D00CF7B,0x8E00D10E,0x8F00CF7F,0x9000D0F8,0x9100CFA7,0x9200D0FB,0x9300D2B0],
    [0x9400CF45,0x9500D102,0x9600D476,0x9700CF80,0x9800CF4F,0x9900D104,0x9A00D105,0x9B00D109,0x9C00CF85,0x9D00CFA8],
    [0x9E00CF8A,0x9F00D17F,0xA000D07B,0xA100D094,0xA200D2B5,0xA300D095,0xA400D09D,0xA500D2CA,0xA600D0A9,0xA700D0AD],
    [0xA800D0AE,0xA900D0AF,0xAA006E5A,0xAB00D0B5,0xAC00D0C1,0xAD00D0C2,0xAE00D0C3,0xAF00D0C5,0xB000D2C3,0xB100D0CD],
    [0xB200D474,0xB300D0D0,0xB400D0D1,0xB500D344,0xB600D0D2,0xB700D34E,0xB800D475,0xB900D2C9,0xBA00CF3D,0xBB00D0E3],
    [0xBC00D111,0xBD00D0E4,0xBE00D0E5,0xBF00D114,0x8000D0F2,0x8100CF7B,0x8200D10E,0x8300CF7F,0x8400D0F8,0x8500CFA7],
    [0x8600D0FB,0x8700D2B0,0x8800CF45,0x8900D102,0x8A00D476,0x8B00CF80,0x8C00CF4F,0x8D00D104,0x8E00D105,0x8F00D109],
    [0x9000CF85,0x9100CFA8,0x9200CF8A,0x9300D17F,0x9400D07B,0x9500D094,0x9600D2B5,0x9700D095,0x9800D09D,0x9900D2CA],
    [0x9A00D0A9,0x9B00D0AD,0x9C00D0AE,0x9D00D0AF,0x9E006E5A,0x9F00D0B5,0xA000D0C1,0xA100D0C2,0xA200D0C3,0xA300D0C5],
    [0xA400D2C3,0xA500D0CD,0xA600D474,0xA700D0D0,0xA800D0D1,0xA900D344,0xAA00D0D2,0xAB00D34E,0xAC00D475,0xAD00D2C9],
    [0xAE00CF3D,0xAF00D0E3,0xB000D111,0xB100D0E4,0xB200D0E5,0xB300D114,0xB400D0F2,0xB500CF7B,0xB600D10E,0xB700CF7F],
    [0xB800D0F8,0xB900CFA7,0xBA00D0FB,0xBB00D2B0,0xBC00CF45,0xBD00D102,0xBE00D476,0xBF00CF80,0x8000CF4F,0x8100D104],
    [0x8200D105,0x8300D109,0x8400CF85,0x8500CFA8,0x8600CF8A,0x8700D17F,0x8800D07B,0x8900D094,0x8A00D2B5,0x8B00D095],
    [0x8C00D09D,0x8D00D2CA,0x8E00D0A9,0x8F00D0AD,0x9000D0AE,0x9100D0AF,0x92006E5A,0x9300D0B5,0x9400D0C1,0x9500D0C2],
    [0x9600D0C3,0x9700D0C5,0x9800D2C3,0x9900D0CD,0x9A00D474,0x9B00D0D0,0x9C00D0D1,0x9D00D344,0x9E00D0D2,0x9F00D34E],
    [0xA000D475,0xA100D2C9,0xA200CF3D,0xA300D0E3,0xA400D111,0xA500D0E4,0xA600D0E5,0xA700D114,0xA800D0F2,0xA900CF7B],
    [0xAA00D10E,0xAB00CF7F,0xAC00D0F8,0xAD00CFA7,0xAE00D0FB,0xAF00D2B0,0xB000CF45,0xB100D102,0xB200D476,0xB300CF80],
    [0xB400CF4F,0xB500D104,0xB600D105,0xB700D109,0xB800CF85,0xB900CFA8,0xBA00CF8A,0xBB00D17F,0xBC00D07B,0xBD00D094],
    [0xBE00D2B5,0xBF00D095,0x8000D09D,0x8100D2CA,0x8200D0A9,0x8300D0AD,0x8400D0AE,0x8500D0AF,0x86006E5A,0x8700D0B5],
    [0x8800D0C1,0x8900D0C2,0x8A00D0C3,0x8B00D0C5,0x8C00D2C3,0x8D00D0CD,0x8E00D474,0x8F00D0D0,0x9000D0D1,0x9100D344],
    [0x9200D0D2,0x9300D34E,0x9400D475,0x9500D2C9,0x9600CF3D,0x9700D0E3,0x9800D111,0x9900D0E4,0x9A00D0E5,0x9B00D114],
    [0x9C00D0F2,0x9D00CF7B,0x9E00D10E,0x9F00CF7F,0xA000D0F8,0xA100CFA7,0xA200D0FB,0xA300D2B0,0xA400CF45,0xA500D102],
    [0xA600D476,0xA700CF80,0xA800CF4F,0xA900D104,0xAA00D105,0xAB00D109,0xAC00CF85,0xAD00CFA8,0xAE00CF8A,0xAF00D17F],
    [0xB000D07B,0xB100D094,0xB200D2B5,0xB300D095,0xB400D09D,0xB500D2CA,0xB600D0A9,0xB700D0AD,0xB800D0AE,0xB900D0AF],
    [0xBA006E5A,0xBB00D0B5,0xBC00D0C1,0xBD00D0C2,0xBE00D0C3,0xBF00D0C5,0x8000D2C3,0x8100D0CD,0x8200D474,0x8300D0D0],
    [0x8400D0D1,0x8500D344,0x8600D0D2,0x8700D34E,0x8800D475,0x8900D2C9,0x8A00CF3D,0x8B00D0E3,0x8C00D111,0x8D00D0E4],
    [0x8E00D0E5,0x8F00D114,0x9000D0F2,0x9100CF7B,0x9200D10E,0x9300CF7F,0x9400D0F8,0x9500CFA7,0x9600D0FB,0x9700D2B0],
    [0x9800CF45,0x9900D102,0x9A00D476,0x9B00CF80,0x9C00CF4F,0x9D00D104,0x9E00D105,0x9F00D109,0xA000CF85,0xA100CFA8],
    [0xA200CF8A,0xA300D17F,0xA400E115,0xA500E116,0x000CA9CE,0x000CA9CB,0xA800E117,0xA900E118,0xAA00D2FA,0xAB00E119],
    [0xAC00E11A,0xAD00E11B,0xAE00E11C,0xAF00CFBC,0xB000E11D,0xB100E11E,0xB200E11F,0xB300E121,0xB400E123,0xB500E124],
    [0xB600E125,0xB700D2FB,0xB800E126,0xB900CFBC,0xBA00CFC4,0xBB00E127,0xBC00CFB2,0xBD00E12B,0xBE00E12C,0xBF00E12D],
    [0x80006E59,0x8100E12E,0x8200E12F,0x8300CFB0,0x8400D10B,0x8500D10C,0x8600CFC1,0x8700E130,0x8800E131,0x8900CFB1],
    [0x8A006E28,0x8B00CFB9,0x8C00E198,0x8D00CF42,0x8E00E1E0,0x8F00E1E3,0x9000E1E4,0x9100CFB8,0x9200CFBA,0x9300CFBB],
    [0x9400E1E6,0x9500E1E7,0x9600E1EA,0x9700CFB7,0x9800D10D,0x9900E1EB,0x9A00E1F0,0x9B00E1FD,0x9C00CFC1,0x9D00CFB1],
    [0x9E00CFB9,0x9F00CFB7,0xA000CFBA,0xA100CFB8,0xA200E117,0xA300E118,0xA400D2FA,0xA500E119,0xA600E11A,0xA700E11B],
    [0xA800E11C,0xA900CFBC,0xAA00E11D,0xAB00E11E,0xAC00E11F,0xAD00E121,0xAE00E123,0xAF00E124,0xB000E125,0xB100D2FB],
    [0xB200E126,0xB300CFBC,0xB400CFC4,0xB500E127,0xB600CFB2,0xB700E12B,0xB800E12C,0xB900E12D,0xBA006E59,0xBB00E12E],
    [0xBC00E12F,0xBD00CFB0,0xBE00D10B,0xBF00D10C,0x8000CFC1,0x8100E130,0x8200E131,0x8300CFB1,0x84006E28,0x8500CFB9],
    [0x8600E198,0x8700CF42,0x8800E1E0,0x8900E1E3,0x8A00E1E4,0x8B00CFB8,0x8C00CFBA,0x8D00CFBB,0x8E00E1E6,0x8F00E1E7],
    [0x9000E1EA,0x9100CFB7,0x9200D10D,0x9300E1EB,0x9400E1F0,0x9500E1FD,0x9600CFC1,0x9700CFB1,0x9800CFB9,0x9900CFB7],
    [0x9A00CFBA,0x9B00CFB8,0x9C00E117,0x9D00E118,0x9E00D2FA,0x9F00E119,0xA000E11A,0xA100E11B,0xA200E11C,0xA300CFBC],
    [0xA400E11D,0xA500E11E,0xA600E11F,0xA700E121,0xA800E123,0xA900E124,0xAA00E125,0xAB00D2FB,0xAC00E126,0xAD00CFBC],
    [0xAE00CFC4,0xAF00E127,0xB000CFB2,0xB100E12B,0xB200E12C,0xB300E12D,0xB4006E59,0xB500E12E,0xB600E12F,0xB700CFB0],
    [0xB800D10B,0xB900D10C,0xBA00CFC1,0xBB00E130,0xBC00E131,0xBD00CFB1,0xBE006E28,0xBF00CFB9,0x8000E198,0x8100CF42],
    [0x8200E1E0,0x8300E1E3,0x8400E1E4,0x8500CFB8,0x8600CFBA,0x8700CFBB,0x8800E1E6,0x8900E1E7,0x8A00E1EA,0x8B00CFB7],
    [0x8C00D10D,0x8D00E1EB,0x8E00E1F0,0x8F00E1FD,0x9000CFC1,0x9100CFB1,0x9200CFB9,0x9300CFB7,0x9400CFBA,0x9500CFB8],
    [0x9600E117,0x9700E118,0x9800D2FA,0x9900E119,0x9A00E11A,0x9B00E11B,0x9C00E11C,0x9D00CFBC,0x9E00E11D,0x9F00E11E],
    [0xA000E11F,0xA100E121,0xA200E123,0xA300E124,0xA400E125,0xA500D2FB,0xA600E126,0xA700CFBC,0xA800CFC4,0xA900E127],
    [0xAA00CFB2,0xAB00E12B,0xAC00E12C,0xAD00E12D,0xAE006E59,0xAF00E12E,0xB000E12F,0xB100CFB0,0xB200D10B,0xB300D10C],
    [0xB400CFC1,0xB500E130,0xB600E131,0xB700CFB1,0xB8006E28,0xB900CFB9,0xBA00E198,0xBB00CF42,0xBC00E1E0,0xBD00E1E3],
    [0xBE00E1E4,0xBF00CFB8,0x8000CFBA,0x8100CFBB,0x8200E1E6,0x8300E1E7,0x8400E1EA,0x8500CFB7,0x8600D10D,0x8700E1EB],
    [0x8800E1F0,0x8900E1FD,0x8A00CFC1,0x8B00CFB1,0x8C00CFB9,0x8D00CFB7,0x8E00CFBA,0x8F00CFB8,0x9000E117,0x9100E118],
    [0x9200D2FA,0x9300E119,0x9400E11A,0x9500E11B,0x9600E11C,0x9700CFBC,0x9800E11D,0x9900E11E,0x9A00E11F,0x9B00E121],
    [0x9C00E123,0x9D00E124,0x9E00E125,0x9F00D2FB,0xA000E126,0xA100CFBC,0xA200CFC4,0xA300E127,0xA400CFB2,0xA500E12B],
    [0xA600E12C,0xA700E12D,0xA8006E59,0xA900E12E,0xAA00E12F,0xAB00CFB0,0xAC00D10B,0xAD00D10C,0xAE00CFC1,0xAF00E130],
    [0xB000E131,0xB100CFB1,0xB2006E28,0xB300CFB9,0xB400E198,0xB500CF42,0xB600E1E0,0xB700E1E3,0xB800E1E4,0xB900CFB8],
    [0xBA00CFBA,0xBB00CFBB,0xBC00E1E6,0xBD00E1E7,0xBE00E1EA,0xBF00CFB7,0x8000D10D,0x8100E1EB,0x8200E1F0,0x8300E1FD],
    [0x8400CFC1,0x8500CFB1,0x8600CFB9,0x8700CFB7,0x8800CFBA,0x8900CFB8,0x8A00E1FF,0x8B00E207,0x000CA9C8,0x000CA9C5],
    [0x8E00D286,0x8F00CF44,0x9000CF3F,0x9100CF40,0x9200D287,0x9300D288,0x9400D294,0x9500D297,0x9600D299,0x9700D29B],
    [0x9800D286,0x9900CF44,0x9A00CF3F,0x9B00CF40,0x9C00D287,0x9D00D288,0x9E00D294,0x9F00D297,0xA000D299,0xA100D29B],
    [0xA200D286,0xA300CF44,0xA400CF3F,0xA500CF40,0xA600D287,0xA700D288,0xA800D294,0xA900D297,0xAA00D299,0xAB00D29B],
    [0xAC00D286,0xAD00CF44,0xAE00CF3F,0xAF00CF40,0xB000D287,0xB100D288,0xB200D294,0xB300D297,0xB400D299,0xB500D29B],
    [0xB600D286,0xB700CF44,0xB800CF3F,0xB900CF40,0xBA00D287,0xBB00D288,0xBC00D294,0xBD00D297,0xBE00D299,0xBF00D29B],
    [0x8400E4C8,0x8500E51A,0x8600E51F,0x000CA9C2,0x8800E531,0x8900E57B,0x8000E249,0x8100E24E,0x8200E24F,0x8300E258],
    [0x8400E260,0x8500E27D,0x8600E287,0x8700E289,0x8800E28A,0x8900E28B,0x8A00E293,0x000CA9BF,0x000CA9BC,0x000CA9B9],
    [0x000CA9B6,0x000CA9B3,0x9000E3E8,0x9100E3E9,0x9200E50E,0x9300E50F,0x9400E545,0x9500E553,0x9600E554,0x9700E555],
    [0x9800E556,0x9900E557,0x9A00E577,0x9B00E588,0x9C00E589,0x9D00E58A,0x9E00E58B,0x9F00E58C,0xA000E58D,0xA100E58E],
    [0xA200E58F,0xA300E590,0xA400E591,0xA500E592,0xA600E593,0xA700E594,0xA800E595,0xA900E596,0xAA00E597,0xAB00D2B5],
    [0xAC00D0CD,0xAD00E598,0xAE00E599,0x000CA9B0,0xB000D07B,0xB100D094,0xB200D2B5,0xB300D095,0xB400D09D,0xB500D2CA],
    [0xB600D0A9,0xB700D0AD,0xB800D0AE,0xB900D0AF,0xBA006E5A,0xBB00D0B5,0xBC00D0C1,0xBD00D0C2,0xBE00D0C3,0xBF00D0C5],
    [0x000CA9AD,0x000CA9AA,0x000CA9A7,0x000CA9A4,0x000CA9A1,0x000CA99E,0x000CA99B,0x000CA998,0x000CA995,0x000CA992],
    [0x000CA98F,0x000CA98C,0x000CA989,0x000CA986,0x000CA983,0x001CA97C,0x00089C6E,0x00089C6C,0x8000D2C3,0x8100D0CD],
    [0x8200D474,0x8300D0D0,0x8400D0D1,0x8500D344,0x8600D0D2,0x8700D34E,0x8800D475,0x8900D2C9,0x8A00E5AA,0x8B00DA5F],
    [0x8C00E5AB,0x8D00E5AC,0x8E00E5AD,0x8F00E5AE,0x00089C6A,0x00089C68,0x00089C66,0x000CA979,0x00089C64,0x9000E5B0],
    [0x00089C62,0x8000E5B4,0x8100E5B5,0x8200D882,0x00189C5C,0x00189C56,0x000C004E,0x000C004B,0x000C0048,0x000C0045],
    [0x000C0042,0x000C003F,0x000C003C,0x000C0039,0x000C0036,0x000C0033,0x000C0030,0x9000D4FE,0x9100E5B6,0x9200E5B7],
    [0x93006F16,0x9400D4CB,0x9500CC2B,0x9600E5B8,0x9700D72B,0x9800E5B9,0x9900E5BA,0x9A00E5BB,0x9B00C8F4,0x9C00E5BC],
    [0x9D00E5BD,0x9E00CBB0,0x9F00E5BE,0xA000E5BF,0xA100E5C0,0xA200D561,0xA300E5EC,0xA400E5ED,0xA500E5EE,0xA600E5EF],
    [0xA700E5F0,0xA800E5F1,0xA900D4C5,0xAA00D723,0xAB00E5F2,0xAC00D80E,0xAD00D726,0xAE00D80F,0xAF00E5F3,0xB000D5D2],
    [0xB100E5F4,0xB200E5F5,0xB300E5F6,0xB400E5F7,0xB500E5F8,0xB600D7FF,0xB700D548,0xB800E5F9,0xB900CBBC,0xBA00E5FA],
    [0x000C002D,0x000C002A,0x000C0027,0x000C0024,0x000C0021,0x000C001E,0x000C001B,0x000C0018,0x000CA946,0x000C0015],
    [0x000C0012,0x000C000F,0x000C000C,0x000C0009,0x000C0006,0x8000E604,0x8100E605,0x8200E606,0x8300E607,0x8400E608],
    [0x8500E609,0x8600E60A,0x8700E60D,0x8800E60E,0x0024A970,0x0024A967,0x0024A95E,0x0024A955,0x0024A94C,0x0024A943],
    [0x0024A93A,0x9000E60F,0x9100E610,0x0024A931,0x0024A928,0x000C0003,0x000C0000,0x000000E6,0xCC00E5C1,0xCD00E601],
    [0x000000E8,0x000000DC,0x000000D8,0x000000CA,0xD200E5A7,0x00000001,0x000000F0,0x000000E9,0xD600E621,0xD700E660],
    [0xD800E658,0xD900E668,0x000000EA,0xDB00E67A,0xDC00E67D,0xDD00E6BD,0x000000DE,0xDF00E69D,0xE000E6B2,0xE100E722],
    [0xE200E73C,0xE300E740,0x8300E611,0x8400E611,0x8500E611,0x8600E611,0x8700E611,0x000000E4,0xEA00E7F8,0x0000000A],
    [0x0000000B,0x0000000C,0x0000000D,0xEF00E7E9,0xF000E809,0x0000000E,0x0000000F,0x00000010,0x00000011,0x00000012],
    [0x00000013,0x00000014,0x00000015,0x00000016,0x00000017,0x8000E611,0x8100E611,0x8200E611,0x8300E611,0x8400E611],
    [0x8500E611,0x8600E611,0x8700E611,0x8800E611,0x8900E611,0x8A00E611,0x8B00E611,0x8C00E611,0x8D00E611,0x8E00E611],
    [0x8F00E611,0x9000E611,0x9100E611,0x9200E611,0x9300E611,0x9400E611,0x9500E614,0x9600E615,0x9700E615,0x9800E615],
    [0x9900E615,0x9A00E614,0x9B00E616,0x9C00E615,0x9D00E615,0x9E00E615,0x9F00E615,0xA000E615,0xA100E617,0xA200E617],
    [0xA300E615,0xA400E615,0xA500E615,0xA600E615,0xA700E617,0xA800E617,0xA900E615,0xAA00E615,0xAB00E615,0xAC00E615],
    [0xAD00E615,0xAE00E615,0xAF00E615,0xB000E615,0xB100E615,0xB200E615,0xB300E615,0xB400E619,0xB500E619,0xB600E619],
    [0xB700E619,0xB800E619,0xB900E615,0xBA00E615,0xBB00E615,0xBC00E615,0xBD00E611,0xBE00E611,0xBF00E611,0x8000E611],
    [0x8100E611,0x8200E611,0x8300E611,0x8400E611,0x8500E61A,0x8600E611,0x8700E615,0x8800E615,0x8900E615,0x8A00E611],
    [0x8B00E611,0x8C00E611,0x8D00E615,0x8E00E615,0x00000018,0x9000E611,0x9100E611,0x9200E611,0x9300E615,0x9400E615],
    [0x9500E615,0x9600E615,0x9700E611,0x9800E614,0x9900E615,0x9A00E615,0x9B00E611,0x9C00E61B,0x9D00E620,0x9E00E620]]"

definition NODES_41 :: "nat list list" where
  "NODES_41 = [
    [0x9F00E61B,0xA000E620,0xA100E620,0xA200E61B,0xA300E611,0xA400E611,0xA500E611,0xA600E611,0xA700E611,0xA800E611],
    [0xA900E611,0xAA00E611,0xAB00E611,0xAC00E611,0xAD00E611,0xAE00E611,0xAF00E611,0x00000019,0x9100E615,0x9200E611],
    [0x9300E611,0x9400E611,0x9500E611,0x9600E615,0x9700E611,0x9800E611,0x9900E611,0x9A00E624,0x9B00E615,0x9C00E611],
    [0x9D00E611,0x9E00E611,0x9F00E611,0xA000E611,0xA100E611,0xA200E615,0xA300E615,0xA400E615,0xA500E615,0xA600E615],
    [0xA700E615,0xA800E611,0xA900E611,0xAA00E615,0xAB00E611,0xAC00E611,0xAD00E624,0xAE00E62F,0xAF00E611,0xB000E631],
    [0xB100E632,0xB200E633,0xB300E634,0xB400E637,0xB500E638,0xB600E639,0xB700E63A,0xB800E63B,0xB900E63C,0xBA00E63C],
    [0xBB00E63D,0xBC00E63E,0xBD00E63F,0x0000001E,0xBF00E640,0x8100E690,0x8200E6B1,0x0000001F,0x8400E611,0x8500E615],
    [0x00000020,0x8700E63B,0x9000E611,0x9100E611,0x9200E611,0x9300E611,0x9400E611,0x9500E611,0x9600E611,0x9700E611],
    [0x9800E6DF,0x9900E6E3,0x9A00E6E6,0x8B00E708,0x8C00E709,0x8D00E70A,0x8E00E6DF,0x8F00E6E3,0x9000E6E6,0x9100E70B],
    [0x9200E70C,0x9300E611,0x9400E611,0x9500E615,0x9600E615,0x9700E611,0x9800E611,0x9900E611,0x9A00E611,0x9B00E611],
    [0x9C00E615,0x9D00E611,0x9E00E611,0x9F00E615,0x0000001B,0x0000001C,0x0000001D,0x00000021,0x00000022,0x00000023],
    [0x9100E70F,0x00000024,0x9600E611,0x9700E611,0x9800E611,0x9900E611,0x9A00E611,0x9B00E611,0x9C00E611,0x00000007],
    [0xB000E70D,0x9F00E611,0xA000E611,0xA100E611,0xA200E611,0xA300E615,0xA400E611,0x00000009,0x8D00E71F,0xA700E611],
    [0xA800E611,0x8D00E71F,0xAA00E615,0xAB00E611,0xAC00E611,0xAD00E615,0x9900E615,0x9A00E615,0x9B00E615,0x9500E751],
    [0x9600E754,0xB000E611,0xB100E615,0xB200E611,0xB300E611,0xB400E615,0xB500E611,0xB600E611,0xB700E615,0xB800E615],
    [0xB900E615,0xBA00E611,0xBB00E615,0xBC00E615,0xBD00E611,0xBE00E615,0xBF00E611,0x8000E611,0x8100E611,0x8200E615],
    [0x8300E611,0x8400E615,0x8500E611,0x8600E615,0x8700E611,0x8800E615,0x8900E611,0x8A00E611,0xAB00E611,0xAC00E611],
    [0xAD00E611,0xAE00E611,0xAF00E611,0xB000E611,0xB100E611,0xB200E615,0xB300E611,0x00000054,0xA000E6DC,0xA100E68F],
    [0x0000005B,0x8A00E71F,0xA400CE8D,0xA500E6FD,0xA600CE8D,0xA700E693,0xA800CE8D,0xA900E693,0xAA00CE8D,0xAB00E693],
    [0xAC00CE8D,0xAD00E693,0x00000067,0xAF00E693,0x0000006B,0xB100E696,0xB200CE8D,0xB300E693,0x00000076,0xB500E693],
    [0x0000007A,0xB700E6CB,0xB800E6D3,0xB900E70E,0xBA00E6DA,0xBB00E712,0xBC00E6FC,0xBD00E6ED,0xBE00E734,0xBF00E71A],
    [0x9600E611,0x9700E611,0x9800E611,0x9900E611,0x00000081,0x9B00E611,0x9C00E611,0x9D00E611,0x9E00E611,0x9F00E611],
    [0xA000E611,0xA100E611,0xA200E611,0xA300E611,0x00000082,0xA500E611,0xA600E611,0xA700E611,0x00000084,0xA900E611],
    [0xAA00E611,0xAB00E611,0xAC00E611,0xAD00E611,0x8D00E71F,0xB800E760,0xB900E760,0xBA00E71F,0x9100E611,0x9200E615],
    [0x9300E611,0x9400E611,0xB800E766,0xB900E766,0x9800E615,0x9900E615,0x8800E762,0x8900E762,0x8A00E762,0x8B00E762],
    [0x8800E768,0x8900E768,0x8A00E768,0x8B00E768,0xB100E776,0xB200E780,0x8600E615,0xB400E784,0x8000E6EC,0xB700E717],
    [0x8200E71E,0xB900E71F,0xBA00E71F,0xBA00E780,0xBB00E780,0xBC00E780,0xBD00E780,0x8D00E615,0x9400E71F,0xAA00E71F],
    [0x9200E71F,0x8D00E72A,0x000000D6,0xB500E615,0x000000DA,0xB700E615,0x8000E780,0xB900E616,0x8200E611,0x8300E611],
    [0x8400E71F,0x9D00E611,0x8600E611,0x8700E611,0x9700E611,0x9800E615,0x9C00E718,0x8300E7C0,0x8000E74A,0x9F00E71C],
    [0x8200E744,0x000000E0,0xA200DC72,0x00000008,0xA400E71D,0x9D00E611,0x9E00E611,0x9F00E611,0xA800E725,0xA900E72D],
    [0xB400E71F,0xA000E71F,0xAC00CF11,0xAD00E74F,0xAE00E703,0xAF00E72E,0xB000D770,0x8400E71F,0xA600E717,0xB300E773],
    [0xB900E624,0xBA00E611,0xBB00E615,0xB700E7A1,0xAF00E611,0xB000E611,0xB100E611,0x9900E7C5,0x9A00E7C5,0x8600E71F],
    [0xB200E71F,0xB300E71F,0xB500E611,0xB600E611,0xB700E611,0xB800E611,0xB900E611,0xBA00E611,0xBB00E611,0xBC00E611],
    [0xB000E611,0xB100E611,0xBF00E615,0x9300E71F,0x8100E611,0xB300E72B,0xAD00E71F,0xB5006DA6,0x0000001A,0xB700E7D1],
    [0xAA00E7B2,0xAB00E62F,0xAC00E614,0xAD00E624,0xAE00E7C3,0xAF00E7C3,0xAB00E611,0xAC00E615,0xAD00E611,0xAE00E611],
    [0xAF00E611,0xB000E611,0xB100E611,0xB200E611,0xB300E611,0x9000E611,0x9100E611,0x9200E611,0xBD00E615,0x9400E619],
    [0x9500E615,0x9600E615,0x9700E615,0x9800E615,0x9900E615,0x9A00E611,0x9B00E611,0x9C00E615,0x9D00E615,0x9E00E615],
    [0x9F00E615,0xA000E611,0x000000E2,0xA200E619,0xA300E619,0xA400E619,0xA500E619,0xA600E619,0xA700E619,0xA800E619],
    [0xAB00E615,0xAC00E615,0xAD00E615,0x9E00E7F2,0xAD00E615,0x8000E611,0x8100E611,0x8200E615,0x8300E611,0x8400E611],
    [0x8500E611,0x8600E611,0x8700E611,0x8800E611,0x8900E611,0x8A00E615,0x8B00E611,0x8C00E611,0x8D00E620,0x8E00E7B0],
    [0x8F00E615,0x9000E617,0x9100E611,0x9200E611,0x9300E611,0x9400E611,0x9500E611,0x9600E611,0x9700E611,0x9800E611],
    [0x9900E611,0x9A00E611,0x9B00E611,0x9C00E611,0x9D00E611,0x9E00E611,0x9F00E611,0xA000E611,0xA100E611,0xA200E611],
    [0xA300E611,0xA400E611,0xA500E611,0xA600E611,0xA000E611,0xA100E611,0xA200E611,0xA300E611,0xA400E611,0xA500E611],
    [0xA600E611,0x00000000,0x9000E611,0x9100E611,0x9200E619,0x9300E619,0x9400E611,0x9500E611,0x9600E611,0x9700E611],
    [0x9800E619,0x9900E619,0x9A00E619,0x9B00E611,0x9C00E611,0xBC00E61B,0xBD00E615,0xBE00E611,0xBF00E615,0xA100E611],
    [0x8100E759,0x8200E7F3,0x8700E84F,0xA500E619,0xA600E619,0xA700E611,0xA800E615,0xA900E611,0xAA00E619,0xAB00E619],
    [0xAC00E615,0xAD00E615,0xAE00E615,0xAF00E615,0xB000E611,0xA000E611,0xA100E611,0xA200E611,0xA300E611,0xA400E611],
    [0xA500E611,0xA600E611,0xA700E611,0xA800E611,0xA900E611,0xAA00E611,0xAB00E611,0xAC00E611,0xAD00E611,0xAE00E611],
    [0xAF00E611,0xB000E611,0xB100E611,0xB200E611,0xB300E611,0xB400E611,0xB500E611,0xB600E611,0xB700E611,0xB800E611],
    [0xB900E611,0xBA00E611,0xBB00E611,0xBC00E611,0xBD00E611,0xBE00E611,0xBF00E611,0x9900E7E8,0x8400E71F,0x9B00E73A],
    [0xBC00E84F,0xAC00E781,0x9700E84F,0xAF00E611,0xA000E759,0x9000E819,0x9100E7E1,0xA300E80E,0xA400E771,0xA500E75A],
    [0xA600DCD6,0xA700DA67,0x8700E749,0xB800E7A8,0xAA00E810,0xAB00E76D,0xBC00E611,0xBD00E611,0x9D00E840,0xAF00E743],
    [0x8D00E615,0xBE00E84F,0x8F00E611,0x9600E84F,0xB900E71F,0xBA00E717,0xA000E611,0xA100E611,0xA200E611,0xA300E611],
    [0xA400E611,0xA500E611,0xA600E611,0xA700E611,0xA800E611,0xA900E611,0xAA00E611,0xAB00E611,0xAC00E611,0xAD00E611],
    [0xAE00E611,0xAF00E611,0xB000E611,0xB100E611,0xB000E611,0xA800E81B,0xB200E611,0xB300E611,0xB400E615,0x8500E836],
    [0x8600E876,0xB700E611,0xB800E611,0x8900E848,0x8200E611,0x8300E611,0x8400E611,0x8200E84F,0xBE00E611,0xBF00E611],
    [0x9300E84F,0x9400E84F,0x9500E84F,0xB800E611,0xB900E619,0xBA00E615,0xB300E84F,0xAE00E84F,0x9C00E84F,0xB600E84F],
    [0xBF00E71F,0xA500E616,0xA600E616,0xA700E619,0xA800E619,0xA900E619,0x9500E84F,0x9600E84F,0xB500E84F,0xAD00E814],
    [0xAE00E616,0xAF00E616,0xB000E616,0xB100E616,0xB200E616,0x9800E84F,0x9900E84F,0x9A00E84F,0x9B00E84F,0x9C00E84F],
    [0x9D00E84F,0x9E00E84F,0x9F00E84F,0xBB00E615,0xBC00E615,0xBD00E615,0xBE00E615,0xBF00E615,0x8000E615,0x8100E615],
    [0x8200E615,0x8000E84F,0x8100E84F,0x8500E611,0x8600E611,0x8700E611,0x8800E611,0x8900E611,0x8A00E615,0x8B00E615],
    [0x8200E859,0xCC00E8A8,0xCD00E886,0xCE00E7DD,0x8000E84F,0x8100E84F,0x8200E84F,0x8300E84F,0x8400E84F,0x8500E84F],
    [0x9700E84F,0x8000E84F,0x8100E84F,0x8200E84F,0xD900E83D,0x9C00E84F,0x9D00E84F,0xBA00E84F,0x9F00E84F,0x9600E84F],
    [0x9700E84F,0xE000E8B6,0xE100E8FD,0xE200E8C5,0xE300DB03,0x9C00E84F,0x9D00E84F,0xA900E84F,0xAA00E84F,0x8000E84F],
    [0xAA00E611,0xAB00E611,0xAC00E611,0xAD00E611,0x9900E84F,0x9A00E84F,0xEF00E97B,0xF000E8EA,0x8000E84F,0x8100E84F],
    [0x8200E84F,0x8300E84F,0x8400E84F,0x8C00E84F,0x8600E84F,0x8700E84F,0x8800E84F,0x8900E84F,0x8A00E84F,0x8B00E84F],
    [0x8C00E84F,0xBB00E84F,0xB300E84F,0x8F00E84F,0xBE00E84F,0x9100E84F,0xB400E84F,0x9300E84F,0x9400E84F,0x9900E84F],
    [0x9A00E84F,0x9B00E84F,0x9A00E84F,0x9B00E84F,0x9E00E84F,0x9B00E84F,0xBE00E84F,0x8000E879,0x8500E915,0x8600E8E3],
    [0x8700E89F,0x8400E8CF,0x8000E84F,0xA300E84F,0xA400E84F,0xA500E84F,0xA600E84F,0xA700E84F,0xA800E84F,0x8C00E874],
    [0x8900E84F,0x8900E84F,0xAF00E84F,0xAD00E84F,0xAE00E84F,0x9F00E84F,0xB000E84F,0xB100E84F,0xA400E7D8,0xA500E851],
    [0xA600E7EB,0xA700E875,0xA800E823,0xA900E8A4,0xB800E84F,0x8A00E84F,0xAC00E7EB,0xAD00E87F,0xAE00E7EB,0xAF00E7FF],
    [0x8F00E84F,0xB100E815,0x8300E84F,0xB300E84B,0xB400E7EB,0xB500E7FF,0x8100E84F,0xB700E8D7,0x9C00E84F,0x9D00E84F],
    [0xAB00E83C,0xBF00E84F,0x8D00E84F,0xBD00E8E5,0xBE00E8EB,0xA600E84F,0x9F00E84F,0x9200E84F,0x9D00E8D5,0xAA00E84F],
    [0xAB00E84F,0x9100E880,0x9700E84F,0x8000E829,0x9300E84F,0xB200E84F,0xB300E84F,0x9C00E84F,0x8500E91C,0x8600E92A],
    [0x8700E88D,0xB000E84F,0x9000E84F,0x9D00E8C1,0x9D00E84F,0xBF00E84F,0xBC00E84F,0xBD00E84F,0xBF00E84F,0xA200E84F],
    [0xA900E84F,0xFF000000,0x8400E84F,0x8500E84F,0xA700E84F,0x8700E84F,0xB400E84F,0xB500E84F,0xB600E84F,0xAC00E84F],
    [0xB300E84F,0xAF00E971,0xB500E84F,0xB600E84F,0xFF000000,0xB800E84F,0xBB00E84F,0xBC00E84F,0xBD00E84F,0xBE00E84F],
    [0xBF00E84F,0xFF000000,0xB900E84F,0xFF000000,0xB100E84F,0xFF000000,0xB300E84F,0xAC00E82D,0xB500E84F,0xFF000000],
    [0xB700E84F,0xFF000000,0xB900E84F,0xFF000000,0xBB00E84F,0xFF000000,0xBD00E84F,0x9E00E84F,0x9F00E84F,0xA000E84F],
    [0xA100E84F,0xA200E84F,0xA300E84F,0xA400E84F,0xBD00E8F5,0xBE00E87A,0xBF00E961,0xA100E84F,0xA200E84F,0xA300E84F],
    [0xA400E84F,0xA500E84F,0xA600E84F,0xA700E84F,0xA800E84F,0xA900E84F,0xAA00E84F,0xAB00E84F,0xAC00E84F,0xAD00E84F],
    [0xAE00E84F,0xAF00E84F,0xB000E84F,0xB100E84F,0xB200E84F,0xB300E84F,0xB400E84F,0xB500E84F,0xA800E84F,0xA900E84F],
    [0xAA00E84F,0xAB00E84F,0xAC00E84F,0xAD00E84F,0xAE00E84F,0xAF00E84F,0xB000E84F,0xB100E84F,0xB200E84F,0xB300E84F],
    [0xB400E84F,0xB500E84F,0xB600E84F,0xB700E84F,0xB800E84F,0xB900E84F,0xBA00E84F,0xBB00E84F,0xBC00E84F,0xBD00E84F],
    [0xBE00E84F,0xBF00E84F,0x8900E84F,0xFF000000,0x8B00E84F,0x9800E84F,0x9900E84F,0x9A00E84F,0x9B00E84F,0x9C00E84F],
    [0x9D00E84F,0xFF000000,0x9300E84F,0xA000E84F,0xA100E84F,0xA200E84F,0xA300E84F,0xA400E84F,0xFF000000,0xBB00E84F],
    [0x9B00E84F,0xBD00E84F,0xBE00E84F,0xBF00E84F,0xFF000000,0xFF000000,0xAC00E84F,0xAD00E84F,0xA300E84F,0xAF00E84F],
    [0xB000E84F,0x9900E84F,0x9A00E84F,0x9B00E84F,0x9C00E84F,0xFF000000,0xAB00E84F,0x9F00E84F,0xFF000000,0xAE00E84F],
    [0xAF00E84F,0xA000E9A9,0xA100E9A9,0xA200E9A9,0xA300E9A9,0xA400E9A9,0xA500E9A9,0xA600E9A9,0xA700E9A9,0xA800EAB4],
    [0xB900E84F,0xFF000000,0xBB00E84F,0xFF000000,0xBD00E84F,0xA400E9A9,0xA500E9A9,0xA600E9A9,0xA700E9A9,0xA800E9E9],
    [0xA900EA29,0xAA00E9A9,0xAB00EA69,0xAC00EA66,0xAD00EAA5,0x8000E84F,0x8100E84F,0x8200E84F,0x8300E84F,0x8400E84F],
    [0x8500E84F,0x8600E84F,0x8700E84F,0x8800E84F,0x8900E84F,0x8A00E84F,0x8B00E84F,0x8C00E84F,0x8D00E84F,0x8E00E84F],
    [0x8F00E84F,0x9000E84F,0x9100E84F,0x9200E84F,0x9300E84F,0x9400E84F,0x9500E84F,0x9600E84F,0x9700E84F,0x9800E84F],
    [0x9900E84F,0x9A00E84F,0x9B00E84F,0x9C00E84F,0x9D00E84F,0x9E00E84F,0x9F00E84F,0xA000E84F,0xA100E84F,0xA200E84F],
    [0xA300E84F,0xA400E84F,0xA500E84F,0xA600E84F,0xA700E84F,0xA800E84F,0xA900E84F,0xAA00E84F,0xAB00E84F,0xAC00E84F],
    [0xAD00E84F,0xAE00E84F,0xAF00E84F,0xB000E84F,0xB100E84F,0xB200E84F,0xB300E84F,0xB400E84F,0xB500E84F,0xB600E84F],
    [0xB700E84F,0xB800E84F,0xB900E84F,0xBA00E84F,0xBB00E84F,0xBC00E84F,0xBD00E84F,0xBE00E84F,0xBF00E84F,0x8000E84F],
    [0x8100E84F,0x8200E84F,0x8300E84F,0x8400E84F,0x8500E84F,0x8600E84F,0x8700E84F,0x8800E84F,0x8900E84F,0x8A00E84F],
    [0x8B00E84F,0x8C00E84F,0x8D00E84F,0xFF000000,0xFF000000,0x9000E84F,0xFF000000,0x9200E84F,0xFF000000,0xFF000000],
    [0x9500E84F,0x9600E84F,0x9700E84F,0x9800E84F,0x9900E84F,0x9A00E84F,0x9B00E84F,0x9C00E84F,0x9D00E84F,0x9E00E84F],
    [0xFF000000,0xA000E84F,0xFF000000,0xA200E84F,0xFF000000,0xFF000000,0xA500E84F,0xA600E84F,0xFF000000,0xFF000000],
    [0xFF000000,0xAA00E84F,0xAB00E84F,0xAC00E84F,0xAD00E84F,0xFF000000,0xFF000000,0xB000E84F,0xB100E84F,0xB200E84F],
    [0xB300E84F,0xB400E84F,0xB500E84F,0xB600E84F,0xB700E84F,0xB800E84F,0xB900E84F,0xBA00E84F,0xBB00E84F,0xBC00E84F],
    [0xBD00E84F,0xBE00E84F,0xBF00E84F,0x8000E84F,0x8100E84F,0x8200E84F,0x8300E84F,0x8400E84F,0x8500E84F,0x8600E84F],
    [0x8700E84F,0x8800E84F,0x8900E84F,0x8A00E84F,0x8B00E84F,0x8C00E84F,0x8D00E84F,0x8E00E84F,0x8F00E84F,0x9000E84F],
    [0x9100E84F,0x9200E84F,0x9300E84F,0x9400E84F,0x9500E84F,0x9600E84F,0x9700E84F,0x9800E84F,0x9900E84F,0x9A00E84F],
    [0x9B00E84F,0x9C00E84F,0x9D00E84F,0x9E00E84F,0x9F00E84F,0xA000E84F,0xA100E84F,0xA200E84F,0xA300E84F,0xA400E84F],
    [0xA500E84F,0xA600E84F,0xA700E84F,0xA800E84F,0xA900E84F,0xAA00E84F,0xAB00E84F,0xAC00E84F,0xAD00E84F,0xFF000000],
    [0xFF000000,0xB000E84F,0xB100E84F,0xB200E84F,0xB300E84F,0xB400E84F,0xB500E84F,0xB600E84F,0xB700E84F,0xB800E84F],
    [0xB900E84F,0xBA00E84F,0xBB00E84F,0xBC00E84F,0xBD00E84F,0xBE00E84F,0xBF00E84F,0x8000E84F,0x8100E84F,0x8200E84F],
    [0x8300E84F,0x8400E84F,0x8500E84F,0x8600E84F,0x8700E84F,0x8800E84F,0x8900E84F,0x8A00E84F,0x8B00E84F,0x8C00E84F],
    [0x8D00E84F,0x8E00E84F,0x8F00E84F,0x9000E84F,0x9100E84F,0x9200E84F,0x9300E84F,0x9400E84F,0x9500E84F,0x9600E84F],
    [0x9700E84F,0x9800E84F,0x9900E84F,0x9D00E84F,0xFF000000,0x9F00E84F,0xB000E84F,0xB100E84F,0xB200E84F,0xB300E84F],
    [0xB400E84F,0xB500E84F,0xB600E84F,0xB700E84F,0xB800E84F,0xFF000000,0xAA00E84F,0xAB00E84F,0xAC00E84F,0xAD00E84F],
    [0xAE00E84F,0xAF00E84F,0xB000E84F,0xB100E84F,0xB200E84F,0xB300E84F,0xB400E84F,0xB500E84F,0xB600E84F,0xFF000000],
    [0xB800E84F,0xB900E84F,0xBA00E84F,0xBB00E84F,0xBC00E84F,0xFF000000,0xBE00E84F,0x8000E84F,0x8100E84F,0xFF000000],
    [0x8300E84F,0x8400E84F,0x8000E84F,0x8600E84F,0x8700E84F,0x8800E84F,0x8900E84F,0x8A00E84F,0x8B00E84F,0x8C00E84F],
    [0x8D00E84F,0x8E00E84F,0x8000E84F,0x8100E84F,0x8200E84F,0x8300E84F,0x8400E84F,0x8500E84F,0x8600E84F,0x8700E84F],
    [0x8800E84F,0x8900E84F,0x8A00E84F,0x8B00E84F,0x8C00E84F,0x8D00E84F,0x8E00E84F,0x8F00E84F,0x9000E84F,0x9100E84F],
    [0x9200E84F,0x9300E84F,0x9400E84F,0x9500E84F,0x9600E84F,0x9700E84F,0x9800E84F,0x9900E84F,0x9A00E84F,0x9B00E84F],
    [0x9C00E84F,0x9D00E84F,0xC200EACF,0xFF000000,0xC400E8CD,0xC500E8CA,0xFF000000,0xC700EB0A,0xFF000000,0xFF000000],
    [0xCA00EA56,0xCB00E955,0xCC00E8A8,0xCD00EB17,0xCE00E90C,0xCF00EB0E,0xB600E84F,0xFF000000,0xB800E84F,0xB900E84F],
    [0xBA00E84F,0xFF000000,0xD600E7DD,0xFF000000,0x9100E880,0xD900EB18,0xFF000000,0xFF000000,0xFF000000,0xFF000000],
    [0xFF000000,0xA000E84F,0xE000EB32,0xE100EB73,0xE200EC45,0xE300EDD7,0x9D00F1AD,0xFF000000,0x9F00EB21,0xA800E84F],
    [0xFF000000,0xAA00E84F,0xEA00E8DB,0xFF000000,0xFF000000,0xFF000000,0xAF00E84F,0xEF00EEB0,0xF000EAD7,0xB200E84F],
    [0xB300E84F,0xB400E84F,0xB500E84F,0xFF000000,0xAF00E971,0xB800E84F,0xB900E84F,0xBA00E84F,0xFF000000,0xBC00E84F],
    [0xBD00E84F,0xBE00E84F,0x8400E84F,0x8500E84F,0x8600E84F,0x8700E84F,0x8800E84F,0x8900E84F,0x8A00E84F,0x8B00E84F],
    [0x8C00E84F,0x8000E84F,0x8100E84F,0x8200E84F,0x8300E84F,0x8400E84F,0x8500E84F,0xFF000000,0x9000E84F,0x9100E84F],
    [0x9200E84F,0x9300E84F,0x9400E84F,0x9500E84F,0x9600E84F,0x8400F38C,0x8500F084,0x8600E8F6,0xFF000000,0x8800F3CC],
    [0x8900EB82,0x9300E84F,0x9400E84F,0x9500E84F,0xFF000000,0xFF000000,0xFF000000,0xFF000000,0xFF000000,0xFF000000],
    [0xFF000000,0xFF000000,0xFF000000,0xFF000000,0xFF000000,0xFF000000,0xFF000000,0xB100E84F,0xB200E84F,0xB300E84F],
    [0xB000E84F,0xB100E84F,0xB200E84F,0xFF000000,0xB400E84F,0xB500E84F,0xFF000000,0xFF000000,0xFF000000,0xB900E84F],
    [0xFF000000,0xFF000000,0xFF000000,0xB400E84F,0xFF000000,0xB500E84F,0xB600E84F,0xB700E84F,0xB800E84F,0xBA00E84F],
    [0xFF000000,0xFF000000,0xFF000000,0xBE00E84F,0xA400E7D8,0xA500E851,0xA600E7EB,0xA700E875,0xA800E823,0xA900E8A4],
    [0xFF000000,0xFF000000,0xAC00E7EB,0xAD00E87F,0xAE00E7EB,0xAF00E7FF,0xFF000000,0xB100E815,0xFF000000,0xB300E84B],
    [0xB400E7EB,0xB500E7FF,0x8300E84F,0xB700E8D7,0xB800E883,0xFF000000,0xBA00E883,0xBB00E8D2,0xBC00E8A1,0xBD00EB65],
    [0xBE00E8EB,0xFF000000,0x8D00E84F,0x8000E829,0xFF000000,0xFF000000,0x8300E7D8,0x9200E84F,0x8500E91C,0x8600E92A],
    [0x8700E88D,0xFF000000,0x9700E84F,0xFF000000,0xFF000000,0xFF000000,0xFF000000,0x9C00E84F,0x8000E84F,0x8100E84F],
    [0x8200E84F,0x8300E84F,0x8400E84F,0x8500E84F,0x8600E84F,0x8700E84F,0x8800E84F,0xFF000000,0xFF000000,0xFF000000],
    [0xA900E84F,0xFF000000,0xFF000000,0xFF000000,0x9000E84F,0x9100E84F,0xFF000000,0xFF000000,0xFF000000,0xFF000000],
    [0xB300E84F,0xFF000000,0xB500E84F,0xB600E84F,0xB700E84F,0xB800E84F,0xB900E84F,0xAC00E82D,0xFF000000,0xFF000000],
    [0xFF000000,0xFF000000,0xFF000000,0xFF000000,0xFF000000,0xB400EB87,0xB500EBC7,0xB600EBE5,0xFF000000,0xFF000000],
    [0xFF000000,0xBA00E8A6,0xFF000000,0xFF000000,0xBD00E8F5,0xBE00E940,0xBF00EC25,0xAC00E84F,0xAD00E84F,0xAE00E84F],
    [0xFF000000,0xB000E84F,0xB100E84F,0xB200E84F,0xB300E84F,0xB400E84F,0xB500E84F,0xB600E84F,0xB700E84F,0xB800E84F]]"

end
