(* ===== verification/Table_Nodes_7.thy ===== *)
theory Table_Nodes_7
  imports Main
begin

text \<open>
  Lines 6061 to 6298 of \<open>unf/table.hh\<close>: part of the array \<open>NODES\<close>, one list per line of the source.
\<close>

definition NODES_42 :: "nat list list" where
  "NODES_42 = [
    [0xB900E84F,0xBA00E84F,0xFF000000,0xBC00E84F,0xBD00E84F,0xBE00E84F,0xBF00E84F,0x8000E84F,0x8100E84F,0x8200E84F],
    [0x8300E84F,0x8400E84F,0x8500E84F,0x8600E84F,0x8700E84F,0x8800E84F,0x8900E84F,0x8A00E84F,0x8B00E84F,0x8C00E84F],
    [0x8D00E84F,0xFF000000,0x8F00E84F,0x9000E84F,0x9100E84F,0x9200E84F,0x9300E84F,0x9400E84F,0x9500E84F,0x9600E84F],
    [0x9700E84F,0x9800E84F,0x9900E84F,0x9A00E84F,0x9B00E84F,0x9C00E84F,0x9D00E84F,0x9E00E84F,0x9F00E84F,0xA000E84F],
    [0xA100E84F,0xA200E84F,0xA300E84F,0xA400E84F,0xA500E84F,0xA600E84F,0xA700E84F,0xA800E84F,0xA900E84F,0xAA00E84F],
    [0xFF000000,0xFF000000,0xFF000000,0xFF000000,0xFF000000,0xFF000000,0xFF000000,0xFF000000,0xFF000000,0xFF000000],
    [0xFF000000,0xFF000000,0xFF000000,0xB800E84F,0x9B00E84F,0x9C00E84F,0x9D00E84F,0x9E00E84F,0x9F00E84F,0xA000E84F],
    [0xA100E84F,0xA200E84F,0xA300E84F,0xA400E84F,0xA500E84F,0xA600E84F,0xA700E84F,0xA800E84F,0xA900E84F,0xAA00E84F],
    [0xAB00E84F,0xAC00E84F,0xAD00E84F,0xAE00E84F,0xAF00E84F,0xB000E84F,0xB100E84F,0xB200E84F,0xB300E84F,0xB400E84F],
    [0xB500E84F,0xB600E84F,0xB700E84F,0xB800E84F,0xB900E84F,0xBA00E84F,0xBB00E84F,0xBC00E84F,0xBD00E84F,0xBE00E84F],
    [0xBF00E84F,0x8000E84F,0x8100E84F,0xFF000000,0xFF000000,0xFF000000,0xFF000000,0xFF000000,0xFF000000,0xFF000000],
    [0x8900E84F,0xFF000000,0x8B00E84F,0xFF000000,0x8D00E84F,0x8E00E84F,0x8F00E84F,0xFF000000,0xFF000000,0xFF000000],
    [0x9300E84F,0xFF000000,0xFF000000,0xFF000000,0xFF000000,0xFF000000,0xFF000000,0xFF000000,0x9B00E84F,0xFF000000],
    [0x9D00E84F,0x9E00E84F,0x9F00E84F,0x8000EC85,0x8100EC96,0x8200ECD6,0xA300E84F,0x8400ECF6,0x8500ED36,0x8600E8C9],
    [0xFF000000,0x8800E956,0xFF000000,0xFF000000,0xAB00E84F,0x8C00E874,0xAD00E84F,0xAE00E84F,0xAF00E84F,0xFF000000],
    [0x9100ED56,0x9200E9A9,0x9300ED96,0xFF000000,0xFF000000,0xFF000000,0xFF000000,0xFF000000,0xB900E84F,0xFF000000],
    [0xBB00E84F,0xFF000000,0xBD00E84F,0xBE00E84F,0xFF000000,0xFF000000,0xFF000000,0xFF000000,0xFF000000,0xFF000000],
    [0xFF000000,0xFF000000,0xFF000000,0xA800E8A1,0xA900E8E0,0xFF000000,0xAB00E83C,0xFF000000,0xFF000000,0xFF000000],
    [0xFF000000,0xFF000000,0xB100E8CE,0xFF000000,0xFF000000,0xFF000000,0xB500E8A5,0xFF000000,0xFF000000,0xFF000000],
    [0xFF000000,0xBA00E8B8,0xBB00E883,0xBC00E9A9,0xBD00E9A9,0xBE00E9A9,0xBF00EDC1,0x8000E84F,0x8100E84F,0x8200E84F],
    [0x8300E84F,0x8400E84F,0x8500E84F,0x8600E84F,0x8700E84F,0x8800E84F,0x8900E84F,0x8A00E84F,0xFF000000,0xFF000000],
    [0xFF000000,0xFF000000,0xFF000000,0xFF000000,0x9100E84F,0xFF000000,0xFF000000,0xFF000000,0xFF000000,0xFF000000],
    [0x9700E84F,0x8700E84F,0x8800E84F,0x8900E84F,0xFF000000,0xFF000000,0xFF000000,0xFF000000,0xFF000000,0xFF000000],
    [0xFF000000,0xFF000000,0xFF000000,0xA400E84F,0xA500E84F,0xA600E84F,0xFF000000,0x9700E84F,0xFF000000,0xFF000000],
    [0xFF000000,0xFF000000,0xFF000000,0xFF000000,0xAF00E84F,0x9F00E84F,0xFF000000,0xFF000000,0xB300E84F,0xB400E84F],
    [0xFF000000,0xB600E84F,0xB700E84F,0xFF000000,0xFF000000,0xFF000000,0xFF000000,0xBC00E84F,0xFF000000,0xBE00E84F],
    [0xFF000000,0xFF000000,0xB000E84F,0xB100E84F,0xFF000000,0xFF000000,0xB400E84F,0xB500E84F,0xB600E84F,0xB700E84F],
    [0xB800E84F,0xB900E84F,0xBA00E84F,0xBB00E84F,0xBC00E84F,0xBD00E84F,0xBE00E84F,0xBF00E84F,0x8000E84F,0x8100E84F],
    [0x8200E84F,0x8300E84F,0x8400E84F,0x8500E84F,0x8600E84F,0x8700E84F,0x8800E84F,0x8900E84F,0x8A00E84F,0x8B00E84F],
    [0x8C00E84F,0x8D00E84F,0x8E00E84F,0xFF000000,0x9000E84F,0x9100E84F,0x9200E84F,0x9300E84F,0x9400E84F,0x9500E84F],
    [0x9600E84F,0x9700E84F,0x9800E84F,0x9900E84F,0x9A00E84F,0x9B00E84F,0x9C00E84F,0xFF000000,0xFF000000,0xFF000000],
    [0x8000E84F,0x8100E84F,0x8200E84F,0x8300E84F,0xFF000000,0x8500E84F,0x8600E84F,0x8700E84F,0xA800E84F,0x8900E84F],
    [0x8A00E84F,0x8B00E84F,0x8C00E84F,0x8D00E84F,0x8E00E84F,0x8F00E84F,0x9000E84F,0x9100E84F,0x9200E84F,0x9300E84F],
    [0xFF000000,0x9500E84F,0x9600E84F,0xFF000000,0xFF000000,0x9900E84F,0x9A00E84F,0x9B00E84F,0x9C00E84F,0x9D00E84F],
    [0xFF000000,0xFF000000,0xA000E84F,0xA100E84F,0xA200E84F,0xFF000000,0xA400E84F,0xFF000000,0xA600E84F,0xFF000000],
    [0xA800E84F,0xFF000000,0xAA00E84F,0xAB00E84F,0xAC00E84F,0xAD00E84F,0xFF000000,0xAF00E84F,0xB000E84F,0xB100E84F],
    [0xFF000000,0xB300E84F,0xB400E84F,0xB500E84F,0xB600E84F,0xB700E84F,0xB800E84F,0xB900E84F,0xFF000000,0xBB00E84F],
    [0xBC00E84F,0xBD00E84F,0xBE00E84F,0xBF00E84F,0x8000E84F,0xFF000000,0xFF000000,0xFF000000,0xFF000000,0x8500E84F],
    [0x8600E84F,0x8700E84F,0x8800E84F,0x8900E84F,0xFF000000,0xFF000000,0xFF000000,0xFF000000,0xFF000000,0xFF000000],
    [0x9000E84F,0x9100E84F,0x9200E84F,0x9300E84F,0x9400E84F,0x9500E84F,0x9600E84F,0x9700E84F,0x9800E84F,0x9900E84F],
    [0x9A00E84F,0x9B00E84F,0x9C00E84F,0x9D00E84F,0x9E00E84F,0x9F00E84F,0xA000E84F,0xA100E84F,0xA200E84F,0xA300E84F],
    [0xA400E84F,0xA500E84F,0xA600E84F,0xA700E84F,0xA800E84F,0xA900E84F,0xAA00E84F,0xAB00E84F,0xAC00E84F,0xAD00E84F],
    [0xAE00E84F,0xAF00E84F,0xB000E84F,0xB100E84F,0xB200E84F,0xB300E84F,0xB400E84F,0xB500E84F,0xB600E84F,0xB700E84F],
    [0xB800E84F,0xB900E84F,0xBA00E84F,0xBB00E84F,0xBC00E84F,0xBD00E84F,0xBE00E84F,0xBF00E84F,0xA000E84F,0xA100E84F],
    [0xA200E84F,0xA300E84F,0xA400E84F,0xA500E84F,0xA600E84F,0xA700E84F,0xA800E84F,0xA900E84F,0xAA00E84F,0xAB00E84F],
    [0xAC00E84F,0xAD00E84F,0xAE00E84F,0xAF00E84F,0xB000E84F,0xB100E84F,0xB200E84F,0xB300E84F,0xB400E84F,0xB500E84F],
    [0xB600E84F,0xB700E84F,0xB800E84F,0xB900E84F,0xBA00E84F,0xBB00E84F,0xBC00E84F,0xBD00E84F,0xBE00E84F,0xBF00E84F],
    [0x8000E84F,0x8100E84F,0x8200E84F,0x8300E84F,0x8400E84F,0x8500E84F,0x8600E84F,0x8700E84F,0x8800E84F,0x8900E84F],
    [0x8A00E84F,0x8B00E84F,0x8C00E84F,0x8D00E84F,0x8E00E84F,0x8F00E84F,0x9000E84F,0x9100E84F,0x9200E84F,0x9300E84F],
    [0x9400E84F,0x9500E84F,0x9600E84F,0x9700E84F,0x9800E84F,0x9900E84F,0x9A00E84F,0x9B00E84F,0x9C00E84F,0x9D00E84F],
    [0x9E00E84F,0x9F00E84F,0xA000E84F,0xA100E84F,0xA200E84F,0xA300E84F,0xA400E84F,0xA500E84F,0xA600E84F,0xA700E84F],
    [0xA800E84F,0xA900E84F,0xAA00E84F,0x8000E84F,0x8100E84F,0x8200E84F,0x8300E84F,0x8400E84F,0x8500E84F,0x8600E84F],
    [0x8700E84F,0x8800E84F,0x8900E84F,0x8A00E84F,0x8B00E84F,0x8C00E84F,0x8D00E84F,0x8E00E84F,0x8F00E84F,0x9000E84F],
    [0x9100E84F,0x9200E84F,0x9300E84F,0x9400E84F,0x9500E84F,0x8000EAAA,0xFF000000,0x8200E96E,0x8300E8B2,0x8400EDB6],
    [0x8500E9A9,0x8600EDF6,0xFF000000,0x8800EE16,0x8900EE56,0x8A00E9A9,0x8B00EE95,0x8C00E9A9,0x8D00E9A9,0x8E00E9A9],
    [0x8F00E9A9,0xB100E84F,0xB200E84F,0xB300E84F,0xB400E84F,0xB500E84F,0xB600E84F,0xB700E84F,0xB800E84F,0xB900E84F],
    [0xBA00E84F,0xBB00E84F,0xBC00E84F,0xBD00E84F,0xBE00E84F,0xBF00E84F,0x8000E84F,0x8100E84F,0x8200E84F,0x8300E84F],
    [0x8400E84F,0x8500E84F,0x8600E84F,0x8700E84F,0x8800E84F,0x8900E84F,0x8A00E84F,0x8B00E84F,0x8C00E84F,0x8D00E84F],
    [0x8E00E84F,0xFF000000,0xFF000000,0xFF000000,0x9200E84F,0x9300E84F,0x9400E84F,0x9500E84F,0x9600E84F,0x9700E84F],
    [0x9800E84F,0x9900E84F,0x9A00E84F,0x9B00E84F,0x9C00E84F,0x9D00E84F,0x9E00E84F,0x9F00E84F,0x8000E84F,0x8100E84F],
    [0x8200E84F,0x8300E84F,0x8400E84F,0x8500E84F,0x8600E84F,0x8700E84F,0x8800E84F,0x8900E84F,0x8A00E84F,0x8B00E84F],
    [0x8C00E84F,0x8D00E84F,0x8E00E84F,0x8F00E84F,0x9000E84F,0x9100E84F,0x9200E84F,0x9300E84F,0x9400E84F,0x9500E84F],
    [0x9600E84F,0x9700E84F,0x9800E84F,0x9900E84F,0x9A00E84F,0x9B00E84F,0x9C00E84F,0x9D00E84F,0x9E00E84F,0xFF000000],
    [0xA000E84F,0xA100E84F,0xA200E84F,0xA300E84F,0xA400E84F,0xA500E84F,0xA600E84F,0xA700E84F,0xA800E84F,0xA900E84F],
    [0xAA00E84F,0xAB00E84F,0xAC00E84F,0xAD00E84F,0xAE00E84F,0xAF00E84F,0xB000E84F,0xB100E84F,0xB200E84F,0xB300E84F],
    [0xB400E84F,0xB500E84F,0xB600E84F,0xB700E84F,0xB800E84F,0xB900E84F,0xBA00E84F,0xBB00E84F,0xBC00E84F,0xBD00E84F],
    [0xBE00E84F,0xBF00E84F,0x8000E84F,0x8100E84F,0x8200E84F,0x8300E84F,0x8400E84F,0x8500E84F,0x8600E84F,0x8700E84F],
    [0xFF000000,0xFF000000,0xFF000000,0xFF000000,0xFF000000,0xFF000000,0xFF000000,0xFF000000,0x9000E84F,0x9100E84F],
    [0x9200E84F,0x9300E84F,0x9400E84F,0x9500E84F,0x9600E84F,0x9700E84F,0x9800E84F,0x9900E84F,0x9A00E84F,0x9B00E84F],
    [0x9C00E84F,0x9D00E84F,0x9E00E84F,0x9F00E84F,0xA000E84F,0xA100E84F,0xA200E84F,0xA300E84F,0xA400E84F,0xA500E84F],
    [0xA600E84F,0xA700E84F,0xA800E84F,0xA900E84F,0xAA00E84F,0xAB00E84F,0xAC00E84F,0xAD00E84F,0xAE00E84F,0xAF00E84F],
    [0xB000E84F,0xB100E84F,0xB200E84F,0xB300E84F,0xB400E84F,0xB500E84F,0xB600E84F,0xB700E84F,0xB800E84F,0xB900E84F],
    [0xBA00E84F,0xBB00E84F,0xBC00E84F,0xBD00E84F,0xBE00E84F,0x8000E84F,0x8100E84F,0x8200E84F,0x8300E84F,0x8400E84F],
    [0x8500E84F,0x8600E84F,0x8700E84F,0x8800E84F,0x8900E84F,0x8A00E84F,0x8B00E84F,0x8C00E84F,0x8D00E84F,0x8E00E84F],
    [0x8F00E84F,0x9000E84F,0x9100E84F,0x9200E84F,0x9300E84F,0x9400E84F,0x9500E84F,0x9600E84F,0x9700E84F,0x9800E84F],
    [0x9900E84F,0x9A00E84F,0x9B00E84F,0x9C00E84F,0x9D00E84F,0x9E00E84F,0x9F00E84F,0xA000E84F,0xA100E84F,0xA200E84F],
    [0xA300E84F,0xA400E84F,0xA500E84F,0xA600E84F,0xA700E84F,0xA800E84F,0xA900E84F,0xAA00E84F,0xAB00E84F,0xAC00E84F],
    [0xAD00E84F,0xAE00E84F,0xAF00E84F,0xB000E84F,0xB100E84F,0xB200E84F,0xB300E84F,0xB400E84F,0xB500E84F,0xB600E84F],
    [0xB700E84F,0xB800E84F,0xB900E84F,0xBA00E84F,0xBB00E84F,0xBC00E84F,0xBD00E84F,0xBE00E84F,0xA400E9A9,0xA500E9A9],
    [0xA600E9A9,0xA700E9A9,0xA800E9E9,0xA900EA29,0xAA00E9A9,0xAB00EA69,0xAC00EEF0,0xAD00EF2F,0xAE00EF6F,0xAF00EF8E],
    [0xB000E9A9,0xB100E9A9,0xB200E9A9,0xB300E9A9,0xB400EFCE,0xB500EFFC,0xB600F03C,0xB700F07C,0xB800F089,0xB900F0C9],
    [0xBA00E9A9,0xBB00F109,0xBC00F145,0xBD00E9A9,0xBE00EE95,0xBF00F183,0x8000E84F,0x8100E84F,0x8200E84F,0x8300E84F],
    [0x8400E84F,0x8500E84F,0x8600E84F,0xFF000000,0xFF000000,0xFF000000,0xFF000000,0xFF000000,0xFF000000,0xFF000000],
    [0xFF000000,0xFF000000,0xFF000000,0xFF000000,0xFF000000,0x9300E84F,0x9400E84F,0x9500E84F,0x9600E84F,0x9700E84F],
    [0xFF000000,0xFF000000,0xFF000000,0xFF000000,0xFF000000,0x9D00E84F,0xFF000000,0x9F00E84F,0xA000E84F,0xA100E84F],
    [0xA200E84F,0xA300E84F,0xA400E84F,0xA500E84F,0xA600E84F,0xA700E84F,0xA800E84F,0xA900E84F,0xAA00E84F,0xAB00E84F],
    [0xAC00E84F,0xAD00E84F,0xAE00E84F,0xAF00E84F,0xB000E84F,0xB100E84F,0xB200E84F,0xB300E84F,0xB400E84F,0xB500E84F],
    [0xB600E84F,0xFF000000,0xB800E84F,0xB900E84F,0xBA00E84F,0xBB00E84F,0xBC00E84F,0xFF000000,0xBE00E84F,0x8000E84F],
    [0x8100E84F,0xFF000000,0x8300E84F,0x8400E84F,0xFF000000,0x8600E84F,0x8700E84F,0x8800E84F,0x8900E84F,0x8A00E84F],
    [0x8B00E84F,0x8C00E84F,0x8D00E84F,0x8E00E84F,0x8F00E84F,0x9000E84F,0x9100E84F,0x9200E84F,0x9300E84F,0x9400E84F],
    [0x9500E84F,0x9600E84F,0x9700E84F,0x9800E84F,0x9900E84F,0x9A00E84F,0x9B00E84F,0x9C00E84F,0x9D00E84F,0x9E00E84F],
    [0x9F00E84F,0xA000E84F,0xA100E84F,0xA200E84F,0xA300E84F,0xA400E84F,0xA500E84F,0xA600E84F,0xA700E84F,0xA800E84F],
    [0xA900E84F,0xAA00E84F,0xAB00E84F,0xAC00E84F,0xAD00E84F,0xAE00E84F,0xAF00E84F,0xB000E84F,0xB100E84F,0xB200E84F],
    [0xB300E84F,0xB400E84F,0xB500E84F,0xB600E84F,0xB700E84F,0xB800E84F,0xB900E84F,0xBA00E84F,0xBB00E84F,0xBC00E84F],
    [0xBD00E84F,0xBE00E84F,0xBF00E84F,0x8000E84F,0x8100E84F,0x8200E84F,0x8300E84F,0x8400E84F,0x8500E84F,0x8600E84F],
    [0x8700E84F,0x8800E84F,0x8900E84F,0x8A00E84F,0x8B00E84F,0x8C00E84F,0x8D00E84F,0x8E00E84F,0x8F00E84F,0x9000E84F],
    [0x9100E84F,0x9200E84F,0x9300E84F,0x9400E84F,0x9500E84F,0x9600E84F,0x9700E84F,0x9800E84F,0x9900E84F,0x9A00E84F],
    [0x9B00E84F,0x9C00E84F,0x9D00E84F,0x9E00E84F,0x9F00E84F,0xA000E84F,0xA100E84F,0xA200E84F,0xA300E84F,0xA400E84F],
    [0xA500E84F,0xA600E84F,0xA700E84F,0xA800E84F,0xA900E84F,0xAA00E84F,0xAB00E84F,0xAC00E84F,0xAD00E84F,0xAE00E84F],
    [0xAF00E84F,0xB000E84F,0xB100E84F,0x9300E84F,0x9400E84F,0x9500E84F,0x9600E84F,0x9700E84F,0x9800E84F,0x9900E84F],
    [0x9A00E84F,0x9B00E84F,0x9C00E84F,0x9D00E84F,0x9E00E84F,0x9F00E84F,0xA000E84F,0xA100E84F,0xA200E84F,0xA300E84F],
    [0xA400E84F,0xA500E84F,0xA600E84F,0xA700E84F,0xA800E84F,0xA900E84F,0xAA00E84F,0xAB00E84F,0xAC00E84F,0xAD00E84F],
    [0xAE00E84F,0xAF00E84F,0xB000E84F,0xB100E84F,0xB200E84F,0xB300E84F,0xB400E84F,0xB500E84F,0xB600E84F,0xB700E84F],
    [0xB800E84F,0xB900E84F,0xBA00E84F,0xBB00E84F,0xBC00E84F,0xBD00E84F,0xBE00E84F,0xBF00E84F,0x8000E84F,0x8100E84F],
    [0x8200E84F,0x8300E84F,0x8400E84F,0x8500E84F,0x8600E84F,0x8700E84F,0x8800E84F,0x8900E84F,0x8A00E84F,0x8B00E84F],
    [0x8C00E84F,0x8D00E84F,0x8E00E84F,0x8F00E84F,0x9000E84F,0x9100E84F,0x9200E84F,0x9300E84F,0x9400E84F,0x9500E84F],
    [0x9600E84F,0x9700E84F,0x9800E84F,0x9900E84F,0x9A00E84F,0x9B00E84F,0x9C00E84F,0x9D00E84F,0x9E00E84F,0x9F00E84F],
    [0xA000E84F,0xA100E84F,0xA200E84F,0xA300E84F,0xA400E84F,0xA500E84F,0xA600E84F,0xA700E84F,0xA800E84F,0xA900E84F],
    [0xAA00E84F,0xAB00E84F,0xAC00E84F,0xAD00E84F,0xAE00E84F,0xAF00E84F,0xB000E84F,0xB100E84F,0xB200E84F,0xB300E84F],
    [0xB400E84F,0xB500E84F,0xB600E84F,0xB700E84F,0xB800E84F,0xB900E84F,0xBA00E84F,0xBB00E84F,0xBC00E84F,0xBD00E84F],
    [0x9000E84F,0x9100E84F,0x9200E84F,0x9300E84F,0x9400E84F,0x9500E84F,0x9600E84F,0x9700E84F,0x9800E84F,0x9900E84F],
    [0x9A00E84F,0x9B00E84F,0x9C00E84F,0x9D00E84F,0x9E00E84F,0x9F00E84F,0xA000E84F,0xA100E84F,0xA200E84F,0xA300E84F],
    [0xA400E84F,0xA500E84F,0xA600E84F,0xA700E84F,0xA800E84F,0xA900E84F,0xAA00E84F,0xAB00E84F,0xAC00E84F,0xAD00E84F],
    [0xAE00E84F,0xAF00E84F,0xB000E84F,0xB100E84F,0xB200E84F,0xB300E84F,0xB400E84F,0xB500E84F,0xB600E84F,0xB700E84F],
    [0xB800E84F,0xB900E84F,0xBA00E84F,0xBB00E84F,0xBC00E84F,0xBD00E84F,0xBE00E84F,0xBF00E84F,0x8000E84F,0x8100E84F],
    [0x8200E84F,0x8300E84F,0x8400E84F,0x8500E84F,0x8600E84F,0x8700E84F,0x8800E84F,0x8900E84F,0x8A00E84F,0x8B00E84F],
    [0x8C00E84F,0x8D00E84F,0x8E00E84F,0x8F00E84F,0xFF000000,0xFF000000,0x9200E84F,0x9300E84F,0x9400E84F,0x9500E84F],
    [0x9600E84F,0x9700E84F,0x9800E84F,0x9900E84F,0x9A00E84F,0x9B00E84F,0x9C00E84F,0x9D00E84F,0x9E00E84F,0x9F00E84F],
    [0xA000E84F,0xA100E84F,0xA200E84F,0xA300E84F,0xA400E84F,0xA500E84F,0xA600E84F,0xA700E84F,0xA800E84F,0xA900E84F],
    [0xAA00E84F,0xAB00E84F,0xAC00E84F,0xAD00E84F,0xAE00E84F,0xAF00E84F,0xB000E84F,0xB100E84F,0xB200E84F,0xB300E84F],
    [0xB400E84F,0xB500E84F,0xB600E84F,0xB700E84F,0xB800E84F,0xB900E84F,0xBA00E84F,0xBB00E84F,0xBC00E84F,0xBD00E84F],
    [0xBE00E84F,0xBF00E84F,0x8000E84F,0x8100E84F,0x8200E84F,0x8300E84F,0x8400E84F,0x8500E84F,0x8600E84F,0x8700E84F],
    [0x8000E84F,0x8100E84F,0x8200E84F,0x8300E84F,0x8400E84F,0x8500E84F,0x8600E84F,0x8700E84F,0x8800E84F,0x8900E84F],
    [0x8A00E84F,0x8B00E84F,0x8C00E84F,0x8D00E84F,0x8E00E84F,0x8F00E84F,0xFF000000,0xFF000000,0xFF000000,0xFF000000],
    [0xFF000000,0x9000E84F,0x9100E84F,0x9200E84F,0x9300E84F,0x9400E84F,0x9500E84F,0x9600E84F,0x9700E84F,0x9800E84F],
    [0x9900E84F,0xFF000000,0xFF000000,0xFF000000,0xFF000000,0xFF000000,0xFF000000,0xFF000000,0xFF000000,0xFF000000],
    [0xB000E84F,0xB100E84F,0xB200E84F,0xB300E84F,0xB400E84F,0xB500E84F,0xB600E84F,0xB700E84F,0xB800E84F,0xB900E84F],
    [0xBA00E84F,0xBB00E84F,0xBC00E84F,0xB000E84F,0xB100E84F,0xB200E84F,0xB300E84F,0xB400E84F,0xB500E84F,0xB600E84F],
    [0xB700E84F,0xB800E84F,0xB900E84F,0xBA00E84F,0xBB00E84F,0xBC00E84F,0xBD00E84F,0xBE00E84F,0xBF00E84F,0x8000E84F],
    [0x8100E84F,0x8200E84F,0x8300E84F,0x8400E84F,0xFF000000,0xFF000000,0x8700E84F,0x8800E84F,0x8900E84F,0x8A00E84F],
    [0x8B00E84F,0x8C00E84F,0x8D00E84F,0x8E00E84F,0x8F00E84F,0x9000E84F,0x9100E84F,0x9200E84F,0xFF000000,0x9400E84F],
    [0x9500E84F,0x9600E84F,0x9700E84F,0x9800E84F,0x9900E84F,0x9A00E84F,0x9B00E84F,0x9C00E84F,0x9D00E84F,0x9E00E84F],
    [0x9F00E84F,0xA000E84F,0xA100E84F,0xA200E84F,0xA300E84F,0xA400E84F,0xA500E84F,0xA600E84F,0xFF000000,0xA800E84F],
    [0xA900E84F,0xAA00E84F,0xAB00E84F,0xFF000000,0xFF000000,0xFF000000,0xFF000000,0xB000E84F,0xB100E84F,0xB200E84F],
    [0xFF000000,0xB400E84F,0xFF000000,0xB600E84F,0xB700E84F,0xB800E84F,0xB900E84F,0xBA00E84F,0xBB00E84F,0xBC00E84F],
    [0xBD00E84F,0xBE00E84F,0xBF00E84F,0x8000E84F,0x8100E84F,0x8200E84F,0x8300E84F,0x8400E84F,0x8500E84F,0x8600E84F],
    [0x8700E84F,0x8800E84F,0x8900E84F,0x8A00E84F,0x8B00E84F,0x8C00E84F,0x8D00E84F,0x8E00E84F,0x8F00E84F,0x9000E84F],
    [0x9100E84F,0x9200E84F,0x9300E84F,0x9400E84F,0x9500E84F,0x9600E84F,0x9700E84F,0x9800E84F,0x9900E84F,0x9A00E84F],
    [0x9B00E84F,0x9C00E84F,0x9D00E84F,0x9E00E84F,0x9F00E84F,0xA000E84F,0xA100E84F,0xA200E84F,0xA300E84F,0xA400E84F],
    [0xA500E84F,0xA600E84F,0xA700E84F,0xA800E84F,0xA900E84F,0xAA00E84F,0xAB00E84F,0xAC00E84F,0xAD00E84F,0xAE00E84F],
    [0xAF00E84F,0xB000E84F,0xB100E84F,0xB200E84F,0xB300E84F,0xB400E84F,0xB500E84F,0xB600E84F,0xB700E84F,0xB800E84F],
    [0xB900E84F,0xBA00E84F,0xBB00E84F,0xBC00E84F,0x8100E84F,0x8200E84F,0x8300E84F,0x8400E84F,0x8500E84F,0x8600E84F],
    [0x8700E84F,0x8800E84F,0x8900E84F,0x8A00E84F,0x8B00E84F,0x8C00E84F,0x8D00E84F,0x8E00E84F,0x8F00E84F,0x9000E84F],
    [0x9100E84F,0x9200E84F,0x9300E84F,0x9400E84F,0x9500E84F,0x9600E84F,0x9700E84F,0x9800E84F,0x9900E84F,0x9A00E84F]]"

definition NODES_43 :: "nat list list" where
  "NODES_43 = [
    [0x9B00E84F,0x9C00E84F,0x9D00E84F,0x9E00E84F,0x9F00E84F,0xA000E84F,0xA100E84F,0xA200E84F,0xA300E84F,0xA400E84F],
    [0xA500E84F,0xA600E84F,0xA700E84F,0xA800E84F,0xA900E84F,0xAA00E84F,0xAB00E84F,0xAC00E84F,0xAD00E84F,0xAE00E84F],
    [0xAF00E84F,0xB000E84F,0xB100E84F,0xB200E84F,0xB300E84F,0xB400E84F,0xB500E84F,0xB600E84F,0xB700E84F,0xB800E84F],
    [0xB900E84F,0xBA00E84F,0xBB00E84F,0xBC00E84F,0xBD00E84F,0xBE00E84F,0xBF00E84F,0x8200E84F,0x8300E84F,0x8400E84F],
    [0x8500E84F,0x8600E84F,0x8700E84F,0xFF000000,0xFF000000,0x8A00E84F,0x8B00E84F,0x8C00E84F,0x8D00E84F,0x8E00E84F],
    [0x8F00E84F,0xFF000000,0xFF000000,0x9200E84F,0x9300E84F,0x9400E84F,0x9500E84F,0x9600E84F,0x9700E84F,0xFF000000],
    [0xFF000000,0x9A00E84F,0x9B00E84F,0x9C00E84F,0xFF000000,0xFF000000,0xFF000000,0xA000E84F,0xA100E84F,0xA200E84F],
    [0xA300E84F,0xA400E84F,0xA500E84F,0xA600E84F,0xFF000000,0xA800E84F,0xA900E84F,0xAA00E84F,0xAB00E84F,0xAC00E84F],
    [0xAD00E84F,0xAE00E84F,0x8500E915,0x8600E8E3,0x8700E89F,0xFF000000,0xFF000000,0xFF000000,0xFF000000,0xFF000000],
    [0xFF000000,0xFF000000,0xFF000000,0x9000E9A9,0x9100F1CD,0x9200F20D,0x9300F24D,0x9400F28D,0x9500F2CC,0x9600E9A9],
    [0x9700E9A9,0x9800E9A9,0x9900E9A9,0x9A00F30C,0x9B00E9A9,0x9C00E9A9,0x9D00E9A9,0x9E00E9A9,0x9F00F34C,0x8000E84F],
    [0x8100E84F,0x8200E84F,0x8300E84F,0x8400E84F,0x8500E84F,0x8600E84F,0x8700E84F,0x8800E84F,0x8900E84F,0x8A00E84F],
    [0x8B00E84F,0x8C00E84F,0x8D00E84F,0x8E00E84F,0x8F00E84F,0x9000E84F,0x9100E84F,0x9200E84F,0x9300E84F,0x9400E84F],
    [0xFF000000,0x9600E84F,0x9700E84F,0x9800E84F,0x9900E84F,0x9A00E84F,0x9B00E84F,0x9C00E84F,0x9D00E84F,0x9E00E84F],
    [0x9F00E84F,0xA000E84F,0xA100E84F,0xA200E84F,0xA300E84F,0xA400E84F,0xA500E84F,0xA600E84F,0xA700E84F,0xA800E84F],
    [0xA900E84F,0xAA00E84F,0xAB00E84F,0xAC00E84F,0xAD00E84F,0xAE00E84F,0xAF00E84F,0xB000E84F,0xB100E84F,0xB200E84F],
    [0xB300E84F,0xB400E84F,0xB500E84F,0xB600E84F,0xB700E84F,0xB800E84F,0xB900E84F,0xBA00E84F,0xBB00E84F,0xBC00E84F],
    [0xBD00E84F,0xBE00E84F,0xBF00E84F,0x8000E84F,0x8100E84F,0x8200E84F,0x8300E84F,0x8400E84F,0x8500E84F,0x8600E84F],
    [0x8700E84F,0x8800E84F,0x8900E84F,0x8A00E84F,0x8B00E84F,0x8C00E84F,0x8D00E84F,0x8E00E84F,0x8F00E84F,0x9000E84F],
    [0x9100E84F,0x9200E84F,0x9300E84F,0x9400E84F,0x9500E84F,0x9600E84F,0x9700E84F,0x9800E84F,0x9900E84F,0x9A00E84F],
    [0x9B00E84F,0x9C00E84F,0xFF000000,0x9E00E84F,0x9F00E84F,0xFF000000,0xFF000000,0xA200E84F,0xFF000000,0xFF000000],
    [0xA500E84F,0xA600E84F,0xFF000000,0xFF000000,0xA900E84F,0xAA00E84F,0xAB00E84F,0xAC00E84F,0xFF000000,0xAE00E84F],
    [0xAF00E84F,0xB000E84F,0xB100E84F,0xB200E84F,0xB300E84F,0xB400E84F,0xB500E84F,0xB600E84F,0xB700E84F,0xB800E84F],
    [0xB900E84F,0xFF000000,0xBB00E84F,0xFF000000,0xBD00E84F,0xBE00E84F,0xBF00E84F,0x8000E84F,0x8100E84F,0x8200E84F],
    [0x8300E84F,0xFF000000,0x8500E84F,0x8600E84F,0x8700E84F,0x8800E84F,0x8900E84F,0x8A00E84F,0x8B00E84F,0x8C00E84F],
    [0x8D00E84F,0x8E00E84F,0x8F00E84F,0x9000E84F,0x9100E84F,0x9200E84F,0x9300E84F,0x9400E84F,0x9500E84F,0x9600E84F],
    [0x9700E84F,0x9800E84F,0x9900E84F,0x9A00E84F,0x9B00E84F,0x9C00E84F,0x9D00E84F,0x9E00E84F,0x9F00E84F,0xA000E84F],
    [0xA100E84F,0xA200E84F,0xA300E84F,0xA400E84F,0xA500E84F,0xA600E84F,0xA700E84F,0xA800E84F,0xA900E84F,0xAA00E84F],
    [0xAB00E84F,0xAC00E84F,0xAD00E84F,0xAE00E84F,0xAF00E84F,0xB000E84F,0xB100E84F,0xB200E84F,0xB300E84F,0xB400E84F],
    [0xB500E84F,0xB600E84F,0xB700E84F,0xB800E84F,0xB900E84F,0xBA00E84F,0xBB00E84F,0xBC00E84F,0xBD00E84F,0xBE00E84F],
    [0xBF00E84F,0x8000E84F,0x8100E84F,0x8200E84F,0x8300E84F,0x8400E84F,0x8500E84F,0xFF000000,0x8700E84F,0x8800E84F],
    [0x8900E84F,0x8A00E84F,0xFF000000,0xFF000000,0x8D00E84F,0x8E00E84F,0x8F00E84F,0x9000E84F,0x9100E84F,0x9200E84F],
    [0x9300E84F,0x9400E84F,0xFF000000,0x9600E84F,0x9700E84F,0x9800E84F,0x9900E84F,0x9A00E84F,0x9B00E84F,0x9C00E84F],
    [0xFF000000,0x9E00E84F,0x9F00E84F,0xA000E84F,0xA100E84F,0xA200E84F,0xA300E84F,0xA400E84F,0xA500E84F,0xA600E84F],
    [0xA700E84F,0xA800E84F,0xA900E84F,0xAA00E84F,0xAB00E84F,0xAC00E84F,0xAD00E84F,0xAE00E84F,0xAF00E84F,0xB000E84F],
    [0xB100E84F,0xB200E84F,0xB300E84F,0xB400E84F,0xB500E84F,0xB600E84F,0xB700E84F,0xB800E84F,0xB900E84F,0xFF000000],
    [0xBB00E84F,0xBC00E84F,0xBD00E84F,0xBE00E84F,0x8000E84F,0x8100E84F,0x8200E84F,0x8300E84F,0x8400E84F,0xFF000000],
    [0x8600E84F,0xFF000000,0xFF000000,0xFF000000,0x8A00E84F,0x8B00E84F,0x8C00E84F,0x8D00E84F,0x8E00E84F,0x8F00E84F],
    [0x9000E84F,0xFF000000,0x9200E84F,0x9300E84F,0x9400E84F,0x9500E84F,0x9600E84F,0x9700E84F,0x9800E84F,0x9900E84F],
    [0x9A00E84F,0x9B00E84F,0x9C00E84F,0x9D00E84F,0x9E00E84F,0x9F00E84F,0xA000E84F,0xA100E84F,0xA200E84F,0xA300E84F],
    [0xA400E84F,0xA500E84F,0xA600E84F,0xA700E84F,0xA800E84F,0xA900E84F,0xAA00E84F,0xAB00E84F,0xAC00E84F,0xAD00E84F],
    [0xAE00E84F,0xAF00E84F,0xB000E84F,0xB100E84F,0xB200E84F,0xB300E84F,0xB400E84F,0xB500E84F,0xB600E84F,0xB700E84F],
    [0xB800E84F,0xB900E84F,0xBA00E84F,0xBB00E84F,0xBC00E84F,0xBD00E84F,0xBE00E84F,0xBF00E84F,0x8000E84F,0x8100E84F],
    [0x8200E84F,0x8300E84F,0x8400E84F,0x8500E84F,0x8600E84F,0x8700E84F,0x8800E84F,0x8900E84F,0x8A00E84F,0x8B00E84F],
    [0x8C00E84F,0x8D00E84F,0x8E00E84F,0x8F00E84F,0x9000E84F,0x9100E84F,0x9200E84F,0x9300E84F,0x9400E84F,0x9500E84F],
    [0x9600E84F,0x9700E84F,0x9800E84F,0x9900E84F,0x9A00E84F,0x9B00E84F,0x9C00E84F,0x9D00E84F,0x9E00E84F,0x9F00E84F],
    [0xA000E84F,0xA100E84F,0xA200E84F,0xA300E84F,0xA400E84F,0xA500E84F,0xFF000000,0xFF000000,0xA800E84F,0xA900E84F],
    [0xAA00E84F,0xAB00E84F,0xAC00E84F,0xAD00E84F,0xAE00E84F,0xAF00E84F,0xB000E84F,0xB100E84F,0xB200E84F,0xB300E84F],
    [0xB400E84F,0xB500E84F,0xB600E84F,0xB700E84F,0xB800E84F,0xB900E84F,0xBA00E84F,0xBB00E84F,0xBC00E84F,0xBD00E84F],
    [0xBE00E84F,0xBF00E84F,0x8000E84F,0x8100E84F,0x8200E84F,0x8300E84F,0x8400E84F,0x8500E84F,0x8600E84F,0x8700E84F],
    [0x8800E84F,0x8900E84F,0x8A00E84F,0x8B00E84F,0xFF000000,0xFF000000,0x8E00E84F,0x8F00E84F,0x9000E84F,0x9100E84F],
    [0x9200E84F,0x9300E84F,0x9400E84F,0x9500E84F,0x9600E84F,0x9700E84F,0x9800E84F,0x9900E84F,0x9A00E84F,0x9B00E84F],
    [0x9C00E84F,0x9D00E84F,0x9E00E84F,0x9F00E84F,0xA000E84F,0xA100E84F,0xA200E84F,0xA300E84F,0xA400E84F,0xA500E84F],
    [0xA600E84F,0xA700E84F,0xA800E84F,0xA900E84F,0xAA00E84F,0xAB00E84F,0xAC00E84F,0xAD00E84F,0xAE00E84F,0xAF00E84F],
    [0xB000E84F,0xB100E84F,0xB200E84F,0xB300E84F,0xB400E84F,0xB500E84F,0xB600E84F,0xB700E84F,0xB800E84F,0xB900E84F],
    [0xBA00E84F,0xBB00E84F,0xBC00E84F,0xBD00E84F,0xBE00E84F,0xBF00E84F,0x8000E84F,0x8100E84F,0x8200E84F,0x8300E84F],
    [0x8400E84F,0x8500E84F,0x8600E84F,0x8700E84F,0x8800E84F,0x8900E84F,0x8A00E84F,0xFF000000,0xFF000000,0xFF000000],
    [0xFF000000,0xFF000000,0x9000E84F,0x9100E84F,0x9200E84F,0x9300E84F,0x9400E84F,0x9500E84F,0x9600E84F,0x9700E84F],
    [0x9800E84F,0x9900E84F,0x9A00E84F,0x9B00E84F,0x9C00E84F,0x9D00E84F,0x9E00E84F,0x9F00E84F,0xA000E84F,0xA100E84F],
    [0xA200E84F,0xA300E84F,0xA400E84F,0xA500E84F,0xA600E84F,0xA700E84F,0xA800E84F,0xA900E84F,0xAA00E84F,0xAB00E84F],
    [0xAC00E84F,0xAD00E84F,0xAE00E84F,0xFF000000,0xB000E84F,0xB100E84F,0xB200E84F,0xB300E84F,0xB400E84F,0xB500E84F],
    [0xB600E84F,0xB700E84F,0xB800E84F,0xB900E84F,0xBA00E84F,0xBB00E84F,0xBC00E84F,0xBD00E84F,0xBE00E84F,0xBF00E84F],
    [0x8000E84F,0x8100E84F,0x8200E84F,0xFF000000,0xFF000000,0xFF000000,0xFF000000,0xFF000000,0xFF000000,0xFF000000],
    [0xFF000000,0xFF000000,0xFF000000,0xFF000000,0xFF000000,0xFF000000,0x9000E84F,0x9100E84F,0x9200E84F,0x9300E84F],
    [0x9400E84F,0x9500E84F,0x9600E84F,0x9700E84F,0x9800E84F,0x9900E84F,0x9A00E84F,0x9B00E84F,0x9C00E84F,0x9D00E84F],
    [0x9E00E84F,0x9F00E84F,0xA000E84F,0xA100E84F,0xA200E84F,0xA300E84F,0xA400E84F,0xA500E84F,0xA600E84F,0xA700E84F],
    [0xA800E84F,0xA900E84F,0xAA00E84F,0xAB00E84F,0xAC00E84F,0xAD00E84F,0xAE00E84F,0xAF00E84F,0xB000E84F,0xB100E84F],
    [0xB200E84F,0xB300E84F,0xB400E84F,0xB500E84F,0xB600E84F,0xB700E84F,0xB800E84F,0xB900E84F,0xBA00E84F,0xFF000000],
    [0xFF000000,0xFF000000,0xFF000000,0xFF000000,0xFF000000,0xFF000000,0xFF000000,0xFF000000,0xFF000000,0xFF000000],
    [0xFF000000,0xFF000000,0xFF000000,0xFF000000,0xFF000000,0xFF000000,0xFF000000,0xFF000000,0xFF000000,0xFF000000],
    [0xFF000000,0xFF000000,0xFF000000,0xFF000000,0xFF000000,0xFF000000,0xFF000000,0xFF000000,0xFF000000,0xFF000000],
    [0xFF000000,0xFF000000,0xFF000000,0xFF000000,0xFF000000,0xFF000000,0xFF000000,0xFF000000,0xFF000000,0xFF000000],
    [0xFF000000,0xFF000000,0xFF000000,0xFF000000,0xFF000000,0xFF000000,0xFF000000,0xFF000000,0xFF000000,0xFF000000],
    [0xFF000000,0xFF000000,0xFF000000,0xFF000000,0xFF000000,0xFF000000,0xFF000000,0xFF000000,0xFF000000,0xFF000000],
    [0xFF000000,0xFF000000,0xFF000000,0xFF000000,0xFF000000,0xFF000000,0xFF000000,0xFF000000,0xFF000000,0xFF000000],
    [0xFF000000,0xFF000000,0xFF000000,0xFF000000,0xFF000000,0xFF000000,0xFF000000,0xFF000000,0xFF000000,0xFF000000],
    [0xFF000000,0xFF000000,0xFF000000,0xFF000000,0xFF000000,0xFF000000,0xFF000000,0xFF000000,0xFF000000,0xFF000000],
    [0xFF000000,0xFF000000,0xFF000000,0xFF000000,0xFF000000,0xFF000000,0xFF000000,0xFF000000,0xFF000000,0xFF000000],
    [0xFF000000,0xFF000000,0xFF000000,0xFF000000,0xFF000000,0xFF000000,0xFF000000,0xFF000000,0xFF000000,0xFF000000],
    [0xFF000000,0xFF000000,0xFF000000,0xFF000000,0xFF000000,0xFF000000,0xFF000000,0xFF000000,0xFF000000,0xFF000000],
    [0xFF000000,0xFF000000,0xFF000000,0xFF000000,0xFF000000,0xFF000000,0xFF000000,0xFF000000,0xFF000000,0xFF000000],
    [0xFF000000,0xFF000000,0xFF000000,0xFF000000,0xFF000000,0xFF000000,0xFF000000,0xFF000000,0xFF000000,0xFF000000],
    [0xFF000000,0xFF000000,0xFF000000,0xFF000000,0xFF000000,0xFF000000,0xFF000000,0xFF000000,0xFF000000,0xFF000000],
    [0xFF000000,0xFF000000,0xFF000000,0xFF000000,0xFF000000,0xFF000000,0xFF000000,0xFF000000,0xFF000000,0xFF000000],
    [0xFF000000,0xFF000000,0xFF000000,0xFF000000,0xFF000000,0xFF000000,0xFF000000,0xFF000000,0xFF000000,0xFF000000],
    [0xFF000000,0xFF000000,0xFF000000,0xFF000000,0xFF000000,0xFF000000,0xFF000000,0xFF000000,0xFF000000,0xFF000000],
    [0xFF000000,0xFF000000,0xFF000000,0xFF000000,0xFF000000,0xFF000000,0xFF000000,0xFF000000,0xFF000000,0xFF000000],
    [0xFF000000,0xFF000000,0xFF000000,0xFF000000,0xFF000000,0xFF000000,0xFF000000,0xFF000000,0xFF000000,0xFF000000],
    [0xFF000000,0xFF000000,0xFF000000,0xFF000000,0xFF000000,0xFF000000,0xFF000000,0xFF000000,0xFF000000,0xFF000000],
    [0xFF000000,0xFF000000,0xFF000000,0xFF000000,0xFF000000,0xFF000000,0xFF000000,0xFF000000,0xFF000000,0xFF000000],
    [0xFF000000,0xFF000000,0xFF000000,0xFF000000,0xFF000000,0xFF000000,0xFF000000,0xFF000000,0xFF000000,0xFF000000],
    [0xFF000000,0xFF000000,0xFF000000,0xFF000000,0xFF000000,0xFF000000,0xFF000000,0xFF000000,0xFF000000,0xFF000000],
    [0xFF000000,0xFF000000,0xFF000000,0xFF000000,0xFF000000,0xFF000000,0xFF000000,0xFF000000,0xFF000000,0xFF000000],
    [0xFF000000,0xFF000000,0xFF000000,0xFF000000,0xFF000000]]"

end
