(* ===== verification/Table_Strings_1.thy ===== *)
theory Table_Strings_1
  imports Main
begin

text \<open>
  Lines 6301 to 7308 of \<open>unf/table.hh\<close>: part of the array \<open>STRINGS\<close>, one list per line of the source.
\<close>

definition STRINGS_00 :: "int list list" where
  "STRINGS_00 = [
    [-27,-113, -81, -27, -66,-105, -27,-106, -74, -25,-108, -77, -26, -70,-128, -27,-112,-120, -25, -87],
    [-70, -25, -90,-127, -26,-116,-121, -23,-127,-118, -26,-115,-107, -26,-118,-107, -26, -68,-108, -27],
    [-112, -71, -27, -93, -80, -24, -78, -87, -25, -75,-126, -27,-120, -99, -26,-106, -80, -27, -66,-116],
    [-27,-119,-115, -25,-124, -95, -26,-104, -96, -28, -70, -92, -24, -89, -93, -27,-113,-116, -27, -83],
    [-105, -49, -99, -49,-100, -30,-120,-126, -49,-120, -49,-124, -49,-125, -50, -66, -50, -67, -50, -69],
    [-50, -74, -30,-120,-121, -50, -88, -50, -89, -50, -90, -50, -92, -50, -98, -50, -99, -50,-100, -50],
    [-101, -50,-102, -50,-106, -50,-108, -50,-110, -56, -73, -60, -79, -30,-105,-117, -30,-106, -96, -30],
    [-122,-109, -30,-122,-111, -30,-108,-126, -30,-126, -87, -62, -91, -62, -90, -62, -84, -62, -93, -62],
    [-94, -29,-125, -93, -29,-126, -91, -29,-125, -69, -30, -90,-122, -30, -90,-123, 126, 124,  94,  39],
    [34, -40, -87, -40, -95,  64,  37,  36,  92,  45,  42,  38,  35,  93,  91, -29,-128,-113, -29,-128],
    [-114, -29,-128,-115, -29,-128,-116, -29,-128,-117, -29,-128,-118, -29,-128,-111, -29,-128,-112, 125],
    [123,  95, -30,-128,-109, -30,-128,-108, -29,-128,-105, -29,-128,-106, -29,-128,-126, -29,-128,-127],
    [-37,-119, -37,-123, -37,-117, -38, -83, -38, -66, -38, -69, -38, -70, -38, -79, -38, -77, -38, -81],
    [-38, -87, -38,-111, -38,-104, -38,-120, -38,-114, -38,-116, -38,-115, -38,-121, -38,-122, -38,-125],
    [-38,-124, -38, -90, -38, -92, -39, -71, -39, -65, -39, -70, -38,-128, -39, -66, -39, -69, -39, -79],
    [-41, -99, -41, -94, -22, -99, -81, -29,-125, -88, -29,-125, -94, -29,-125,-116, -27, -92,-100, -27],
    [-82,-105, -27,-116, -69, -27,-113, -77, -27, -73, -90, -27,-122,-103, -23, -96,-123, -26, -77, -88],
    [-27,-115, -80, -27,-124, -86, -23,-127, -87, -25,-108, -73, -25, -89,-104, -25, -82,-113, -27, -71],
    [-68, -27,-107,-113, -27,-100, -80, -27, -92, -87, -28, -72,-127, -28, -72,-103, -25,-108, -78, -28],
    [-72,-117, -28, -72, -83, -28, -72,-118, -31,-122, -95, -31,-122, -98, -31,-122,-108, -31,-122,-110],
    [-31,-122,-111, -31,-122,-120, -31,-122,-123, -31,-122,-124, -31,-123,-103, -31,-123,-104, -31,-123],
    [-105, -31,-121, -78, -31,-121, -79, -31,-123,-116, -31,-123,-121, -31,-123,-128, -31,-124, -74, -31],
    [-124, -78, -31,-124, -81, -31,-124, -82, -31,-124, -83, -31,-124, -84, -31,-124, -85, -31,-124, -87],
    [-31,-124, -89, -31,-124, -93, -31,-124, -94, -31,-124, -96, -31,-124, -98, -31,-124, -99, -31,-121],
    [-97, -31,-121, -99, -31,-124,-100, -31,-121,-103, -31,-121,-105, -31,-121,-109, -31,-121,-114, -31],
    [-121,-116, -31,-121,-120, -31,-121,-121, -31,-124,-107, -31,-124,-108, -31,-123, -96, -31,-124, -95],
    [-31,-124,-102, -27,-115,-123, -27,-115,-124, -29,-128,-110, -23, -66, -96, -23, -67,-110, -23, -67],
    [-118, -23, -68, -96, -23, -68,-109, -23, -68,-114, -23, -69, -67, -23, -69,-111, -23, -69,-115, -23],
    [-69,-125, -23, -70, -91, -23, -71, -75, -23, -77, -91, -23, -83,-102, -23, -84, -68, -23, -84, -78],
    [-23, -84, -81, -23, -84, -91, -23, -85, -97, -23, -85,-104, -23, -86, -88, -23, -90, -84, -23, -90],
    [-103, -23, -90,-106, -23, -93, -97, -23, -93,-101, -23, -94, -88, -23, -96,-127, -23, -97, -77, -23],
    [-97, -83, -23, -97,-117, -23, -99, -87, -23, -99, -94, -23, -99, -98, -23, -99,-111, -23,-101, -88],
    [-23,-102, -71, -23,-102, -74, -23,-104,-100, -23,-106,-128, -23,-107, -73, -23,-121,-122, -23,-123],
    [-119, -23,-126,-111, -24, -66, -75, -24, -66,-101, -24, -70, -85, -24, -74, -77, -24, -75, -80, -24],
    [-75, -92, -24, -78, -99, -24, -79, -72, -24, -79,-122, -24, -80, -73, -24, -88,-128, -24, -89,-110],
    [-24, -91, -66, -24, -95,-128, -24,-103, -85, -24,-103,-115, -24,-119, -72, -24,-119, -78, -24,-119],
    [-82, -24,-120, -97, -24,-120,-101, -24,-120,-116, -24,-121, -68, -24,-121, -93, -24,-126,-119, -24],
    [-127, -65, -24,-128, -77, -24,-128,-110, -24,-128,-116, -25, -66,-118, -25, -67,-111, -25, -68, -74],
    [-25, -77, -72, -25, -79, -77, -25, -85, -71, -25, -87, -76, -25, -90, -66, -25, -90, -72, -25, -92],
    [-70, -25, -97, -77, -25, -97, -94, -25, -97,-101, -25,-101, -82, -25,-102, -65, -25,-102, -82, -25],
    [-103, -67, -25,-103, -74, -25,-106,-110, -25,-106,-117, -25,-108, -80, -25,-108, -88, -25,-108, -97],
    [-25,-108,-104, -25,-109, -90, -25,-109,-100, -25,-114,-119, -25,-114,-124, -25,-118, -84, -25,-119],
    [-101, -25,-119,-103, -25,-119,-121, -25,-120, -65, -25,-120, -69, -25,-120, -74, -25,-120, -86, -26],
    [-80,-108, -26, -80,-113, -26, -81,-101, -26, -81,-108, -26, -81,-117, -26, -82, -77, -26, -83, -94],
    [-26, -84, -96, -26,-101, -80, -26,-105, -96, -26,-106, -71, -26,-106, -92, -26,-106,-105, -26,-106],
    [-121, -26,-108, -76, -26,-108, -81, -26,-119,-117, -26,-120, -74, -26,-120,-120, -27, -65,-125, -27],
    [-67, -77, -27, -67, -95, -27, -67,-112, -27, -68,-109, -27, -68,-117, -27, -69, -76, -27, -71, -65],
    [-27, -71, -70, -27, -71, -78, -27, -73, -66, -27, -73, -79, -27, -73, -91, -27, -73,-101, -27, -79],
    [-79, -27, -80, -72, -27, -80,-113, -27, -81, -72, -27, -82,-128, -27, -83,-112, -27, -92,-107, -27],
    [-92,-118, -27, -92,-126, -27, -93, -85, -27,-101,-105, -27,-113, -93, -27,-113,-120, -27,-114, -74],
    [-27,-114,-126, -27,-115, -87, -27,-115,-100, -27,-116, -72, -27,-116,-102, -27,-116,-107, -27,-117],
    [-71, -27,-120,-128, -27,-121, -96, -27,-122, -85, -27,-122,-106, -27,-122,-126, -27,-123, -91, -27],
    [-124, -65, -28, -70, -70, -28, -70, -96, -28, -70,-123, -28, -71,-103, -28, -72, -65, -28, -72, -74],
    [-28, -72, -88, -23, -66, -97, -26, -81,-115, -30, -75, -95, -30,-120,-111, -50, -96, -50,-109, -60],
    [-89, -58,-112, -30,-120,-110,  43, -30,-128,-112, -54,-111, -54,-112, -54,-116, -54,-117, -31, -76],
    [-100, -54,-118, -54,-119, -58, -85, -54,-125, -54,-126, -55, -72, -55, -75, -55, -76, -55, -77, -55],
    [-78, -55, -80, -55, -79, -54, -97, -31, -74,-123, -55, -83, -54, -99, -31, -75, -69, -55, -86, -55],
    [-87, -55, -88, -55, -91, -55, -95, -55, -97, -61, -80, -55,-107, -55,-110, -48, -67, -49,-121, -50],
    [-76, -50, -77, -31, -76, -91, -55, -81, -31, -76, -99, -31, -76,-105, -31, -76,-106, -55,-108, -59],
    [-117, -55,-100, -55,-101, -55,-103, -31, -76,-126, -55,-111, -55,-112, -56, -94, -58,-114, -31,-125],
    [-100, -32, -68,-117, -50, -93, -50,-104, -49,-126, -50, -70, -49,-128, -49,-122, -50, -72, -50, -78],
    [-54,-107, -55, -93, -54,-127, -55, -69, -55, -71, -55, -90, -16, -86,-104,-128, -23, -68, -69, -23],
    [-68,-106, -23, -68,-113, -23, -68,-123, -23, -69, -66, -23, -69, -71, -28, -75,-106, -23, -70, -69],
    [-16, -86,-118,-111, -16, -86,-120,-114, -16, -86,-124,-123, -28, -77, -72, -16, -86,-125,-114, -23],
    [-75, -89, -28, -77, -83, -28, -77,-114, -23, -77, -67, -23, -79,-128, -16, -87, -84, -80, -28, -81],
    [-114, -23, -89, -66, -23, -89,-126, -23, -90, -89, -23, -92, -87, -28, -84, -77, -23, -93, -94, -16],
    [-87,-106, -74, -23, -96, -87, -16, -87,-110,-106, -28, -86, -78, -16, -87,-112,-118, -23, -97, -96],
    [-28, -87, -74, -28, -87, -82, -16, -87,-120,-102, -16, -87,-123,-123, -23,-100, -93, -27, -74, -78],
    [-23,-101,-125, -28, -89, -90, -16, -88, -75, -73, -23,-106, -73, -28, -90,-107, -23,-106,-117, -16],
    [-88, -81, -70, -23,-112,-107, -23,-113, -71, -23,-119, -68, -23,-117,-104, -23,-117,-105, -23,-120],
    [-72, -23,-124,-101, -16, -88,-100, -82, -23,-124,-111, -23,-125, -79, -23,-126,-108, -16, -88,-105],
    [-83, -16, -88,-105,-110, -24, -69,-108, -16, -96, -93, -98, -24, -73, -80, -24, -74, -68, -24, -73],
    [-117, -16, -96, -96,-124, -16, -89, -68, -81, -24, -75, -73, -24, -76,-101, -24, -77,-127, -24, -78],
    [-85, -16, -89, -78, -88, -24, -79,-107, -24, -86, -96, -28,-101,-121, -28,-102, -66, -16, -89, -91],
    [-90, -16, -89, -94, -82, -29,-110, -69, -24, -93, -70, -28,-104, -75, -24, -93, -98, -24, -93,-105],
    [-16, -89,-103, -89, -24, -95, -93, -24, -95, -96, -28,-105, -71, -24, -96,-127, -24, -97, -95, -28],
    [-105,-105, -24, -98,-122, -24, -99, -85, -24,-100, -88, -24,-101, -94, -24,-100,-114, -24,-102,-120],
    [-24,-102, -87, -24,-103, -87, -24,-103, -89, -24,-103,-112, -28,-107, -85, -16, -89,-125,-110, -16],
    [-90, -66, -79, -28,-107, -95, -28,-107, -99, -16, -90, -68, -84, -24,-107, -92, -16, -89,-113,-118],
    [-24,-108,-106, -24,-109, -77, -24,-109, -79, -28,-108, -85, -16, -90, -77,-107, -16, -90, -75, -85],
    [-16, -90, -80, -74, -24,-113,-100, -24,-113,-116, -24,-113,-118, -24,-115,-109, -24,-113, -89, -24],
    [-114, -67, -24,-116, -93, -24,-114, -83, -24,-115, -93, -24,-116, -99, -16, -90, -84, -68, -24,-117],
    [-90, -24,-118, -67, -24,-118, -77, -24,-118, -79, -27,-118, -77, -24,-118, -99, -24,-118,-117, -24],
    [-118,-111, -28,-111, -85, -24, -66, -98, -24,-120,-124, -16, -93,-114,-100, -16, -93,-114,-109, -16],
    [-90, -98, -75, -16, -90, -98, -89, -27, -86, -75, -24,-124, -66, -28,-112,-117, -24,-124,-125, -24],
    [-126, -78, -28,-113,-107, -16, -93,-115, -97, -24,-127, -80, -16, -90,-106, -88, -24,-127, -96, -16],
    [-90,-108, -93, -16, -90,-109,-102, -25, -65, -70, -25, -66,-107, -16, -90,-116, -66, -25, -67, -70],
    [-16, -90,-117,-103, -28,-115,-103, -16, -90,-119,-121, -16, -90,-120, -88, -28,-116, -76, -25, -71],
    [-123, -25, -72,-126, -25, -73,-121, -28,-116,-127, -25, -75, -93, -16, -91, -66,-122, -25, -76,-128],
    [-25, -77, -93, -25, -77, -88, -28,-118, -96, -25, -77,-110, -16, -91, -78,-128, -28,-120, -89, -25],
    [-81,-119, -25, -81,-122, -16, -91, -82, -85, -28,-120,-126, -25, -85, -82, -16, -91, -86, -89, -16],
    [-91, -91, -68, -25, -87,-113, -25, -87,-118, -28,-124, -81, -25, -89, -85, -16, -91,-101,-123, -16],
    [-91,-102,-102, -16, -91,-104, -90, -28,-125, -93, -25, -95,-114, -16, -91,-112, -99, -28,-126,-106],
    [-28,-127,-122, -25, -98,-117, -25,-100, -97, -25,-100, -98, -16, -91,-124, -77, -16, -91,-124,-103],
    [-16, -91,-125, -78, -16, -91,-125, -77, -28,-128,-120, -29, -65, -68, -16, -91,-127,-124, -16, -92],
    [-66, -72, -16, -92, -66, -95, -25,-104,-112, -16, -94,-122, -97, -16, -92, -78,-110, -25,-108, -66],
    [-16, -92, -80, -74, -25,-108, -92, -29, -68,-101, -25,-109,-118, -25,-110,-123, -25,-111,-100, -25],
    [-111,-121, -29, -70, -72, -25,-114, -91, -29, -70, -84, -25,-114,-117, -25,-115, -70, -16, -92, -96],
    [-108, -16, -92,-100, -75, -25,-118,-107, -25,-118,-128, -16, -92,-104,-120, -25,-119,-112, -25,-120],
    [-88, -16, -92,-114, -85, -25,-122,-100, -16, -92,-119, -93, -25,-123,-123, -16, -96,-108, -91, -25],
    [-126, -83, -25,-127, -73, -25,-127, -67, -25,-127,-118, -29, -74,-106, -25,-128,-101, -25,-128, -71],
    [-26, -65,-122, -16, -93, -66,-114, -16, -93, -67, -98, -26, -67, -82, -26, -73, -71, -16, -93, -69],
    [-111, -26, -69,-121, -29, -76, -77, -26, -71, -82, -26, -72, -81, -26, -76, -76, -16, -93, -76, -98],
    [-26, -74,-123, -26, -75, -72, -26, -75, -87, -26, -76, -66, -26, -76,-106, -26, -79, -89, -26, -77],
    [-115, -26, -78, -65, -16, -93, -78, -68, -26, -79,-114, -16, -93, -85, -70, -16, -95, -76,-117, -16],
    [-93, -86,-115, -26, -82, -69, -26, -82, -97, -26, -83, -78, -29, -79,-114, -26, -83,-108, -16, -93],
    [-94, -89, -26, -84, -95, -29, -80,-104, -26, -85,-101, -16, -93,-102, -93, -26, -86, -88, -26, -89],
    [-86, -26, -90, -93, -26, -91,-126, -26, -92,-108, -26, -96, -97, -26, -94,-114, -16, -93,-111, -83],
    [-26, -95,-110, -26, -98,-123, -26, -97, -70, -29, -83,-119, -16, -93,-113,-125, -26, -99,-109, -26],
    [-99, -98, -26,-100, -95, -28,-113,-103, -24,-126, -83, -26,-102,-100, -26,-100,-128, -27,-122,-107],
    [-27,-122,-110, -29, -85, -92, -29, -84,-120, -29, -84,-103, -26,-103,-119, -26,-101, -72, -26,-105],
    [-93, -16, -93,-128,-118, -26,-107, -84, -29, -87, -84, -26,-111, -73, -26,-110, -99, -26,-111, -66],
    [-26,-111, -87, -29, -88, -82, -26,-114, -87, -26,-113,-123, -26,-112, -94, -16, -94, -81, -79, -26],
    [-113, -92, -26,-114,-125, -26,-115, -88, -26,-117, -68, -26,-116, -67, -16, -94, -84,-116, -26,-115],
    [-112, -26,-117,-108, -26,-118, -79, -26,-119, -99, -26,-120,-101, -26,-121, -98, -26,-122, -81, -26],
    [-122, -92, -26,-122, -78, -26,-123, -70, -26,-123,-116, -26,-123,-120, -26,-125,-121, -16, -94,-101],
    [-108, -29, -92,-100, -29, -92, -70, -26,-126,-127, -27, -65, -71, -27, -65,-105, -27, -65,-115, -27],
    [-66,-102, -29, -93, -93, -27, -67, -85, -27, -67, -94, -16, -90,-121,-102, -16, -93,-118, -72, -29],
    [-93,-121, -27, -68, -94, -24,-120,-127, -16, -94,-116, -79, -27, -69, -66, -16, -86,-114,-110, -27],
    [-70, -74, -27, -70, -77, -27, -70, -80, -29, -95, -68, -16, -94,-122,-125, -29, -95, -94, -27, -71],
    [-87, -27, -72, -67, -27, -72, -88, -27, -73, -67, -29, -96, -81, -27, -73, -94, -27, -73, -95, -27],
    [-75, -68, -27, -75, -85, -27, -75, -82, -16, -95, -73, -90, -27, -75,-125, -16, -95, -73, -92, -27],
    [-78,-115, -27, -77,-128, -27, -79, -96, -29, -98,-127, -27, -80, -94, -27, -67,-109, -27, -80,-122],
    [-27, -81, -65, -16, -95, -84,-104, -27, -81, -77, -27, -81,-104, -27, -81,-125, -16, -95, -89,-120],
    [-27, -84, -66, -27, -84,-120, -29,-101, -68, -29,-101, -82, -27, -87, -90, -27, -89,-104, -27, -88],
    [-89, -27, -88,-101, -27, -89, -84, -16, -95,-101, -86, -16, -95,-102, -88, -27, -91, -94, -27, -92],
    [-94, -27, -92,-102, -27, -92,-122, -27, -93, -73, -27, -93, -78, -16, -95,-109, -92, -27, -94, -84],
    [-27, -96, -79, -27, -96, -78, -27, -98,-117, -27, -96,-115, -27, -97, -76, -27, -97,-114, -27, -93],
    [-82, -27,-103, -76, -27,-103,-111, -27,-100,-105, -27,-100,-106, -27,-105,-126, -27,-106, -77, -27],
    [-106, -85, -27,-106,-124, -27,-107, -93, -27,-107,-109, -27,-108,-112, -27,-109, -74, -27,-110, -94],
    [-27,-111, -88, -27,-111,-120, -27,-112, -72, -27,-110, -98, -27,-112,-122, -27,-113, -79, -27,-113],
    [-85, -16, -96, -83, -93, -27,-113, -97, -27,-113,-118, -25,-127, -80, -16, -96, -88, -84, -27,-115],
    [-65, -27,-115, -67, -27,-115, -77, -27,-115,-102, -27,-115,-119, -27,-116,-122, -27,-116,-123, -29],
    [-108,-107, -27,-119, -73, -27,-119, -78, -27,-119,-122, -27,-120, -69, -29,-109, -97, -27,-120,-125],
    [-27,-121, -75, -16, -87,-121, -97, -27,-122, -84, -28, -69,-116, -27,-122, -92, -27,-122,-105, -16],
    [-96,-107,-117, -27,-122,-115, -27,-123, -89, -29,-110, -71, -16, -96,-108,-100, -27,-123, -73, -27],
    [-123, -92, -27,-123,-108, -16, -96,-104, -70, -29,-110, -98, -27,-125,-113, -27,-126,-103, -27,-127],
    [-70, -27,-128,-126, -28, -66, -69, -28, -67, -96, -16, -96,-124, -94, -28, -71,-127, -28, -72, -72],
    [-28, -72, -67, -23, -66,-114, -23, -67,-125, -16, -89, -69,-109, -16, -91, -77,-112, -16, -91,-119],
    [-119, -28,-128, -71, -28,-128,-104, -29, -82, -99, -16, -93,-113,-107, -16, -94, -95,-124, -16, -94],
    [-95,-118, -23, -84,-110, -23, -96,-117, -23, -97,-101, -23,-103, -68, -23,-119, -74, -23,-122,-103],
    [-23,-127, -78, -24, -68, -72, -24, -82,-118, -24, -85, -83, -24, -85,-117, -24, -86, -65, -24, -90],
    [-122, -24, -91,-127, -24, -99, -71, -24,-113, -81, -24,-115,-110, -25, -68, -66, -25, -75,-101, -25],
    [-79, -69, -25, -86, -79, -25, -93,-116, -25, -99,-128, -25, -99,-118, -25,-101, -76, -25,-101,-101]]"

definition STRINGS_01 :: "int list list" where
  "STRINGS_01 = [
    [-25,-104, -97, -25,-104, -99, -25,-108, -69, -25,-108,-122, -25,-111, -79, -25,-118, -81, -25,-120],
    [-75, -25, -98, -89, -25,-128, -98, -26, -69,-117, -26, -69,-101, -26, -83, -71, -26, -99,-106, -26],
    [-100,-101, -26,-107,-106, -26,-111,-110, -26,-112,-100, -26,-113,-124, -26,-120, -76, -26,-123, -96],
    [-26,-124,-120, -26,-123,-114, -26,-125,-104, -27, -66, -83, -27, -67, -87, -27, -69,-103, -27, -69],
    [-110, -27, -84, -88, -27, -87, -94, -27, -91,-108, -27, -91,-124, -27, -94, -77, -27,-105, -94, -27],
    [-106,-103, -27,-107,-107, -27,-117, -70, -27,-117,-121, -27,-122,-128, -27,-123,-123, -28, -66,-128],
    [-27,-123, -88, -27,-122, -75, -28, -72, -90, -24,-120,-104, -16, -92,-117, -82, -26,-127, -75, -23],
    [-96, -69, -23, -97, -65, -23,-101, -93, -24, -66, -74, -24, -76,-120, -24, -77,-109, -24, -84, -71],
    [-24, -84,-127, -24, -90,-106, -24, -92,-112, -24,-111,-105, -24,-119, -71, -24,-121, -83, -24,-128],
    [-123, -25, -67, -78, -25, -71,-127, -25, -72,-119, -25, -81,-128, -25, -86,-127, -25, -87,-128, -25],
    [-90,-114, -25, -90,-115, -25, -91,-106, -25, -91,-112, -25, -91,-120, -25, -91,-119, -25, -94,-111],
    [-25,-112, -94, -25,-120, -85, -25,-123, -82, -26, -68, -94, -26, -72,-102, -26, -75, -73, -26, -94],
    [-123, -26,-102,-111, -26,-105, -94, -26,-107,-113, -26,-121, -78, -26,-122,-114, -26,-123, -88, -26],
    [-126,-108, -27, -79, -82, -27, -79, -92, -27, -94, -88, -27, -95,-128, -27,-103, -88, -27,-104,-122],
    [-27,-106, -99, -27,-115,-111, -27,-117, -92, -27,-117,-119, -27,-123,-115, -27,-125, -89, -28, -66],
    [-82, -23, -74, -76, -23, -92, -88, -23, -93, -68, -23, -93, -81, -23,-125, -67, -23,-128, -72, -24],
    [-85, -72, -24,-104,-110, -25, -66, -67, -25, -78, -66, -23, -99,-106, -25, -90,-113, -25, -91, -91],
    [-25, -91, -98, -25, -92, -68, -25,-101,-118, -25,-116, -86, -27,-121, -98, -26,-103, -76, -27, -95],
    [-102, -27,-105,-128, -27,-123,-128, -27, -69,-109, -24, -90,-117, -23,-103,-115, -24, -95,-116, -24],
    [-68, -69, -26,-102, -76, -26, -76, -98, -27, -82,-123, -25, -77,-106, -26,-117,-109, -27, -70, -90],
    [-27,-120,-121, -27,-120, -70, -24,-116, -74, -28, -69,-128, -24, -83,-104, -25,-126,-103, -25,-117],
    [-128, -25, -78,-110, -25, -84, -96, -25, -85,-117, -24,-121, -88, -26, -73,-117, -26, -98,-105, -23],
    [-70, -97, -23, -79,-105, -23,-102, -93, -24,-105, -70, -25,-110,-104, -25,-121,-112, -27,-112, -99],
    [-26, -70, -70, -27,-116, -65, -23,-101, -94, -23,-121,-116, -24, -93, -95, -24, -93,-113, -25, -67],
    [-71, -25,-105, -94, -25,-112,-122, -26, -77, -91, -26, -94, -88, -26, -99,-114, -26,-104,-109, -27],
    [-79, -91, -27,-112,-113, -27,-120, -87, -23,-102,-122, -26, -96,-105, -26,-123,-124, -27, -66,-117],
    [-24, -68, -86, -26, -73, -86, -27, -76,-103, -27,-128, -85, -23,-103, -72, -26,-120, -82, -23, -95],
    [-98, -25, -76,-112, -25, -95, -85, -25,-107,-103, -25,-112,-119, -26, -70,-100, -26, -75,-127, -26],
    [-97, -77, -26, -99, -69, -27,-118,-119, -23,-104, -82, -26,-102,-120, -23, -66,-115, -23,-127, -68],
    [-24,-109, -68, -25,-103,-126, -25,-121,-114, -26,-106,-103, -27, -80, -65, -27, -81, -82, -27,-125],
    [-102, -28, -70,-122, -26,-125, -95, -23,-102, -72, -23,-122, -76, -25, -90, -82, -28, -66,-117, -23],
    [-96,-104, -23, -99,-120, -23,-101, -74, -23,-120, -76, -24,-127,-122, -25, -66,-102, -25,-111, -87],
    [-25,-114, -78, -26,-128,-100, -27, -74, -70, -27,-101, -71, -28, -69, -92, -25,-115, -75, -25, -80],
    [-66, -26, -82, -82, -26,-115, -69, -27, -65, -75, -27, -69,-119, -24, -93,-126, -25,-125,-120, -27],
    [-110, -67, -27,-118, -93, -27,-120,-105, -23,-115,-118, -23,-128, -93, -24,-109, -82, -24, -68, -90],
    [-24,-127, -81, -25, -73, -76, -25, -89,-118, -25,-110,-119, -25,-123,-119, -26, -68, -93, -26,-110],
    [-102, -26,-120,-128, -26,-122,-112, -27, -71, -76, -24, -67, -94, -26, -83, -73, -26,-101,-122, -27],
    [-118,-101, -23, -69,-114, -23, -70,-105, -23, -87, -86, -23,-106, -83, -25, -92, -86, -26, -65, -66],
    [-26,-105,-123, -27, -69, -84, -27, -91, -77, -27,-111,-126, -27,-117, -75, -23,-121,-113, -24, -85],
    [-110, -24,-119, -81, -25, -77, -89, -26, -94,-127, -27,-121,-119, -27,-123, -87, -28, -70, -82, -25],
    [-107, -91, -26,-114, -96, -24,-117, -91, -26,-117, -66, -26, -78,-120, -24, -66, -80, -26, -82, -70],
    [-24, -86, -86, -24,-111,-119, -25,-100,-127, -27, -95, -98, -27,-113,-125, -25, -76, -94, -26,-107],
    [-72, -26, -77,-116, -28, -72,-115, -27, -66, -87, -28, -66, -65, -25, -93, -69, -27,-116,-105, -25],
    [-107, -80, -25,-114,-121, -26,-128,-110, -27, -81, -89, -28, -72, -71, -24, -85, -66, -26,-117,-113],
    [-24, -82,-128, -23,-103, -75, -24,-113, -79, -25, -74, -66, -25, -88,-100, -27,-121,-116, -27,-121],
    [-100, -24,-126,-117, -27,-117,-110, -23,-103,-117, -25, -72, -73, -25, -76, -81, -26, -68,-113, -26],
    [-73,-102, -26, -88,-109, -27, -79, -94, -27, -93,-104, -23,-101, -73, -24, -77,-126, -25, -93,-118],
    [-25,-119, -94, -24,-127, -66, -25, -79, -96, -27, -68,-124, -27, -93, -97, -24, -85,-106, -23, -71],
    [-65, -23,-116,-124, -24,-113,-119, -25, -74, -96, -25, -91, -65, -25, -94,-116, -23, -73, -70, -23],
    [-83, -81, -23,-100, -78, -24, -73, -81, -24,-103,-100, -24,-104,-122, -24,-128,-127, -25,-101, -89],
    [-25,-120,-112, -26, -85,-109, -26,-109,-124, -27,-117, -98, -27,-122, -73, -28, -66,-122, -23,-125],
    [-114, -25,-117, -68, -26, -75, -86, -26,-100,-105, -27, -69,-118, -24, -96, -97, -24,-121,-104, -26],
    [-117,-119, -24, -91, -92, -24,-105,-115, -26, -65, -85, -27, -75,-112, -23, -72, -98, -24,-104, -83],
    [-25,-120,-101, -26, -84,-124, -27,-115, -75, -28, -70,-126, -23, -89, -79, -23,-123, -86, -24,-112],
    [-67, -25,-113, -98, -25,-125,-103, -26, -76,-101, -26, -88,-126, -23,-126,-113, -24, -93, -72, -24],
    [-98, -70, -24,-104, -65, -25, -66,-123, -25,-103, -87, -26,-121, -74, -27, -91,-120, -27,-106,-121],
    [-27, -91,-111, -23, -66,-100, -27,-113, -91, -28, -72, -78, -26, -69,-111, -24, -77,-120, -24, -69],
    [-118, -26,-101, -76, -24, -79,-120, -29,-128,-119, -29,-128,-120, -30,-128,-125, -30,-128,-126, -62],
    [-76,  96,  59, -54, -71, -16,-111,-126, -85, -16,-111,-126,-100, -16,-111,-126,-102, -29,-125, -66],
    [-29,-125, -70, -29,-125, -71, -29,-125, -72, -29,-125, -73, -29,-125, -99, -29,-125,-100, -29,-125],
    [-102, -29,-125,-103, -29,-125,-105, -29,-125,-106, -29,-125,-108, -29,-125,-109, -29,-125,-111, -29],
    [-125,-112, -29,-125,-119, -29,-125,-121, -29,-125,-123, -29,-125,-126, -29,-125,-128, -29,-126, -66],
    [-29,-126, -68, -29,-126, -70, -29,-126, -72, -29,-126, -74, -29,-126, -76, -29,-126, -78, -29,-126],
    [-80, -29,-126, -82, -29,-126, -84, -29,-125, -76, -29,-126, -98, -29,-127, -67, -29,-127, -68, -29],
    [-127, -70, -29,-127, -71, -29,-127, -73, -29,-127, -74, -29,-127, -76, -29,-127, -77, -29,-127, -79],
    [-29,-127, -80, -29,-127, -87, -29,-127, -89, -29,-127, -91, -29,-127, -94, -29,-127, -96, -29,-127],
    [-98, -29,-127,-100, -29,-127,-102, -29,-127,-104, -29,-127,-106, -29,-127,-108, -29,-127,-110, -29],
    [-127,-112, -29,-127,-114, -29,-127,-116, -29,-126,-108, -30,-117, -83, -30,-117, -84, -30,-117, -85],
    [-30,-117, -86, -30,-118, -81, -30,-118, -82, -30,-118, -83, -30,-118, -84, -30,-117, -93, -30,-117],
    [-94, -30,-118,-119, -30,-118,-120, -30,-118,-123, -30,-118,-124, -30,-117, -95, -30,-117, -96, -30],
    [-118,-127, -30,-118,-128, -30,-119, -71, -30,-119, -72, -30,-119, -75, -30,-119, -76, -30,-119, -79],
    [-30,-119, -80, -30,-119, -94, -30,-119, -83, -30,-119,-119, -30,-119,-121, -30,-119,-124, -30,-119],
    [-127, -30,-120, -90, -30,-120, -92, -30,-120,-116, -30,-120,-119, -30,-120,-124, -30,-121,-114, -30],
    [-121,-113, -30,-121,-115, -30,-122, -82, -30,-122,-101, -30,-122,-102, -31, -65, -97, -31, -65, -98],
    [-31, -65, -99, -31, -65,-113, -31, -65,-114, -31, -65,-115, -31, -83,-125, -31, -83,-127, -31, -83],
    [-128, -31, -84, -67, -31, -84, -69, -31, -84,-110, -31, -84,-114, -31, -84,-116, -31, -84,-118, -31],
    [-84,-120, -31, -84,-122, -19, -98, -93, -19, -98, -94, -19, -98, -95, -19, -98, -96, -19, -98, -97],
    [-19, -98, -98, -19, -98, -99, -19, -98,-100, -19, -98,-101, -19, -98,-102, -19, -98,-103, -19, -98],
    [-104, -19, -98,-105, -19, -98,-106, -19, -98,-107, -19, -98,-108, -19, -98,-109, -19, -98,-110, -19],
    [-98,-111, -19, -98,-112, -19, -98,-113, -19, -98,-114, -19, -98,-115, -19, -98,-116, -19, -98,-117],
    [-19, -98,-118, -19, -98,-119, -19, -98,-120, -19, -98,-121, -19, -98,-122, -19, -98,-123, -19, -98],
    [-124, -19, -98,-125, -19, -98,-126, -19, -98,-127, -19, -98,-128, -19, -99, -65, -19, -99, -66, -19],
    [-99, -67, -19, -99, -68, -19, -99, -69, -19, -99, -70, -19, -99, -71, -19, -99, -72, -19, -99, -73],
    [-19, -99, -74, -19, -99, -75, -19, -99, -76, -19, -99, -77, -19, -99, -78, -19, -99, -79, -19, -99],
    [-80, -19, -99, -81, -19, -99, -82, -19, -99, -83, -19, -99, -84, -19, -99, -85, -19, -99, -86, -19],
    [-99, -87, -19, -99, -88, -19, -99, -89, -19, -99, -90, -19, -99, -91, -19, -99, -92, -19, -99, -93],
    [-19, -99, -94, -19, -99, -95, -19, -99, -96, -19, -99, -97, -19, -99, -98, -19, -99, -99, -19, -99],
    [-100, -19, -99,-101, -19, -99,-102, -19, -99,-103, -19, -99,-104, -19, -99,-105, -19, -99,-106, -19],
    [-99,-107, -19, -99,-108, -19, -99,-109, -19, -99,-110, -19, -99,-111, -19, -99,-112, -19, -99,-113],
    [-19, -99,-114, -19, -99,-115, -19, -99,-116, -19, -99,-117, -19, -99,-118, -19, -99,-119, -19, -99],
    [-120, -19, -99,-121, -19, -99,-122, -19, -99,-123, -19, -99,-124, -19, -99,-125, -19, -99,-126, -19],
    [-99,-127, -19, -99,-128, -19,-100, -65, -19,-100, -66, -19,-100, -67, -19,-100, -68, -19,-100, -69],
    [-19,-100, -70, -19,-100, -71, -19,-100, -72, -19,-100, -73, -19,-100, -74, -19,-100, -75, -19,-100],
    [-76, -19,-100, -77, -19,-100, -78, -19,-100, -79, -19,-100, -80, -19,-100, -81, -19,-100, -82, -19],
    [-100, -83, -19,-100, -84, -19,-100, -85, -19,-100, -86, -19,-100, -87, -19,-100, -88, -19,-100, -89],
    [-19,-100, -90, -19,-100, -91, -19,-100, -92, -19,-100, -93, -19,-100, -94, -19,-100, -95, -19,-100],
    [-96, -19,-100, -97, -19,-100, -98, -19,-100, -99, -19,-100,-100, -19,-100,-101, -19,-100,-102, -19],
    [-100,-103, -19,-100,-104, -19,-100,-105, -19,-100,-106, -19,-100,-107, -19,-100,-108, -19,-100,-109],
    [-19,-100,-110, -19,-100,-111, -19,-100,-112, -19,-100,-113, -19,-100,-114, -19,-100,-115, -19,-100],
    [-116, -19,-100,-117, -19,-100,-118, -19,-100,-119, -19,-100,-120, -19,-100,-121, -19,-100,-122, -19],
    [-100,-123, -19,-100,-124, -19,-100,-125, -19,-100,-126, -19,-100,-127, -19,-100,-128, -19,-101, -65],
    [-19,-101, -66, -19,-101, -67, -19,-101, -68, -19,-101, -69, -19,-101, -70, -19,-101, -71, -19,-101],
    [-72, -19,-101, -73, -19,-101, -74, -19,-101, -75, -19,-101, -76, -19,-101, -77, -19,-101, -78, -19],
    [-101, -79, -19,-101, -80, -19,-101, -81, -19,-101, -82, -19,-101, -83, -19,-101, -84, -19,-101, -85],
    [-19,-101, -86, -19,-101, -87, -19,-101, -88, -19,-101, -89, -19,-101, -90, -19,-101, -91, -19,-101],
    [-92, -19,-101, -93, -19,-101, -94, -19,-101, -95, -19,-101, -96, -19,-101, -97, -19,-101, -98, -19],
    [-101, -99, -19,-101,-100, -19,-101,-101, -19,-101,-102, -19,-101,-103, -19,-101,-104, -19,-101,-105],
    [-19,-101,-106, -19,-101,-107, -19,-101,-108, -19,-101,-109, -19,-101,-110, -19,-101,-111, -19,-101],
    [-112, -19,-101,-113, -19,-101,-114, -19,-101,-115, -19,-101,-116, -19,-101,-117, -19,-101,-118, -19],
    [-101,-119, -19,-101,-120, -19,-101,-121, -19,-101,-122, -19,-101,-123, -19,-101,-124, -19,-101,-125],
    [-19,-101,-126, -19,-101,-127, -19,-101,-128, -19,-102, -65, -19,-102, -66, -19,-102, -67, -19,-102],
    [-68, -19,-102, -69, -19,-102, -70, -19,-102, -71, -19,-102, -72, -19,-102, -73, -19,-102, -74, -19],
    [-102, -75, -19,-102, -76, -19,-102, -77, -19,-102, -78, -19,-102, -79, -19,-102, -80, -19,-102, -81],
    [-19,-102, -82, -19,-102, -83, -19,-102, -84, -19,-102, -85, -19,-102, -86, -19,-102, -87, -19,-102],
    [-88, -19,-102, -89, -19,-102, -90, -19,-102, -91, -19,-102, -92, -19,-102, -93, -19,-102, -94, -19],
    [-102, -95, -19,-102, -96, -19,-102, -97, -19,-102, -98, -19,-102, -99, -19,-102,-100, -19,-102,-101],
    [-19,-102,-102, -19,-102,-103, -19,-102,-104, -19,-102,-105, -19,-102,-106, -19,-102,-107, -19,-102],
    [-108, -19,-102,-109, -19,-102,-110, -19,-102,-111, -19,-102,-112, -19,-102,-113, -19,-102,-114, -19],
    [-102,-115, -19,-102,-116, -19,-102,-117, -19,-102,-118, -19,-102,-119, -19,-102,-120, -19,-102,-121],
    [-19,-102,-122, -19,-102,-123, -19,-102,-124, -19,-102,-125, -19,-102,-126, -19,-102,-127, -19,-102],
    [-128, -19,-103, -65, -19,-103, -66, -19,-103, -67, -19,-103, -68, -19,-103, -69, -19,-103, -70, -19],
    [-103, -71, -19,-103, -72, -19,-103, -73, -19,-103, -74, -19,-103, -75, -19,-103, -76, -19,-103, -77],
    [-19,-103, -78, -19,-103, -79, -19,-103, -80, -19,-103, -81, -19,-103, -82, -19,-103, -83, -19,-103],
    [-84, -19,-103, -85, -19,-103, -86, -19,-103, -87, -19,-103, -88, -19,-103, -89, -19,-103, -90, -19],
    [-103, -91, -19,-103, -92, -19,-103, -93, -19,-103, -94, -19,-103, -95, -19,-103, -96, -19,-103, -97],
    [-19,-103, -98, -19,-103, -99, -19,-103,-100, -19,-103,-101, -19,-103,-102, -19,-103,-103, -19,-103],
    [-104, -19,-103,-105, -19,-103,-106, -19,-103,-107, -19,-103,-108, -19,-103,-109, -19,-103,-110, -19],
    [-103,-111, -19,-103,-112, -19,-103,-113, -19,-103,-114, -19,-103,-115, -19,-103,-116, -19,-103,-117],
    [-19,-103,-118, -19,-103,-119, -19,-103,-120, -19,-103,-121, -19,-103,-122, -19,-103,-123, -19,-103],
    [-124, -19,-103,-125, -19,-103,-126, -19,-103,-127, -19,-103,-128, -19,-104, -65, -19,-104, -66, -19],
    [-104, -67, -19,-104, -68, -19,-104, -69, -19,-104, -70, -19,-104, -71, -19,-104, -72, -19,-104, -73],
    [-19,-104, -74, -19,-104, -75, -19,-104, -76, -19,-104, -77, -19,-104, -78, -19,-104, -79, -19,-104],
    [-80, -19,-104, -81, -19,-104, -82, -19,-104, -83, -19,-104, -84, -19,-104, -85, -19,-104, -86, -19],
    [-104, -87, -19,-104, -88, -19,-104, -89, -19,-104, -90, -19,-104, -91, -19,-104, -92, -19,-104, -93],
    [-19,-104, -94, -19,-104, -95, -19,-104, -96, -19,-104, -97, -19,-104, -98, -19,-104, -99, -19,-104],
    [-100, -19,-104,-101, -19,-104,-102, -19,-104,-103, -19,-104,-104, -19,-104,-105, -19,-104,-106, -19],
    [-104,-107, -19,-104,-108, -19,-104,-109, -19,-104,-110, -19,-104,-111, -19,-104,-112, -19,-104,-113],
    [-19,-104,-114, -19,-104,-115, -19,-104,-116, -19,-104,-117, -19,-104,-118, -19,-104,-119, -19,-104],
    [-120, -19,-104,-121, -19,-104,-122, -19,-104,-123, -19,-104,-124, -19,-104,-125, -19,-104,-126, -19],
    [-104,-127, -19,-104,-128, -19,-105, -65, -19,-105, -66, -19,-105, -67, -19,-105, -68, -19,-105, -69],
    [-19,-105, -70, -19,-105, -71, -19,-105, -72, -19,-105, -73, -19,-105, -74, -19,-105, -75, -19,-105],
    [-76, -19,-105, -77, -19,-105, -78, -19,-105, -79, -19,-105, -80, -19,-105, -81, -19,-105, -82, -19],
    [-105, -83, -19,-105, -84, -19,-105, -85, -19,-105, -86, -19,-105, -87, -19,-105, -88, -19,-105, -89],
    [-19,-105, -90, -19,-105, -91, -19,-105, -92, -19,-105, -93, -19,-105, -94, -19,-105, -95, -19,-105]]"

definition STRINGS_02 :: "int list list" where
  "STRINGS_02 = [
    [-96, -19,-105, -97, -19,-105, -98, -19,-105, -99, -19,-105,-100, -19,-105,-101, -19,-105,-102, -19],
    [-105,-103, -19,-105,-104, -19,-105,-105, -19,-105,-106, -19,-105,-107, -19,-105,-108, -19,-105,-109],
    [-19,-105,-110, -19,-105,-111, -19,-105,-112, -19,-105,-113, -19,-105,-114, -19,-105,-115, -19,-105],
    [-116, -19,-105,-117, -19,-105,-118, -19,-105,-119, -19,-105,-120, -19,-105,-121, -19,-105,-122, -19],
    [-105,-123, -19,-105,-124, -19,-105,-125, -19,-105,-126, -19,-105,-127, -19,-105,-128, -19,-106, -65],
    [-19,-106, -66, -19,-106, -67, -19,-106, -68, -19,-106, -69, -19,-106, -70, -19,-106, -71, -19,-106],
    [-72, -19,-106, -73, -19,-106, -74, -19,-106, -75, -19,-106, -76, -19,-106, -77, -19,-106, -78, -19],
    [-106, -79, -19,-106, -80, -19,-106, -81, -19,-106, -82, -19,-106, -83, -19,-106, -84, -19,-106, -85],
    [-19,-106, -86, -19,-106, -87, -19,-106, -88, -19,-106, -89, -19,-106, -90, -19,-106, -91, -19,-106],
    [-92, -19,-106, -93, -19,-106, -94, -19,-106, -95, -19,-106, -96, -19,-106, -97, -19,-106, -98, -19],
    [-106, -99, -19,-106,-100, -19,-106,-101, -19,-106,-102, -19,-106,-103, -19,-106,-104, -19,-106,-105],
    [-19,-106,-106, -19,-106,-107, -19,-106,-108, -19,-106,-109, -19,-106,-110, -19,-106,-111, -19,-106],
    [-112, -19,-106,-113, -19,-106,-114, -19,-106,-115, -19,-106,-116, -19,-106,-117, -19,-106,-118, -19],
    [-106,-119, -19,-106,-120, -19,-106,-121, -19,-106,-122, -19,-106,-123, -19,-106,-124, -19,-106,-125],
    [-19,-106,-126, -19,-106,-127, -19,-106,-128, -19,-107, -65, -19,-107, -66, -19,-107, -67, -19,-107],
    [-68, -19,-107, -69, -19,-107, -70, -19,-107, -71, -19,-107, -72, -19,-107, -73, -19,-107, -74, -19],
    [-107, -75, -19,-107, -76, -19,-107, -77, -19,-107, -78, -19,-107, -79, -19,-107, -80, -19,-107, -81],
    [-19,-107, -82, -19,-107, -83, -19,-107, -84, -19,-107, -85, -19,-107, -86, -19,-107, -87, -19,-107],
    [-88, -19,-107, -89, -19,-107, -90, -19,-107, -91, -19,-107, -92, -19,-107, -93, -19,-107, -94, -19],
    [-107, -95, -19,-107, -96, -19,-107, -97, -19,-107, -98, -19,-107, -99, -19,-107,-100, -19,-107,-101],
    [-19,-107,-102, -19,-107,-103, -19,-107,-104, -19,-107,-105, -19,-107,-106, -19,-107,-107, -19,-107],
    [-108, -19,-107,-109, -19,-107,-110, -19,-107,-111, -19,-107,-112, -19,-107,-113, -19,-107,-114, -19],
    [-107,-115, -19,-107,-116, -19,-107,-117, -19,-107,-118, -19,-107,-119, -19,-107,-120, -19,-107,-121],
    [-19,-107,-122, -19,-107,-123, -19,-107,-124, -19,-107,-125, -19,-107,-126, -19,-107,-127, -19,-107],
    [-128, -19,-108, -65, -19,-108, -66, -19,-108, -67, -19,-108, -68, -19,-108, -69, -19,-108, -70, -19],
    [-108, -71, -19,-108, -72, -19,-108, -73, -19,-108, -74, -19,-108, -75, -19,-108, -76, -19,-108, -77],
    [-19,-108, -78, -19,-108, -79, -19,-108, -80, -19,-108, -81, -19,-108, -82, -19,-108, -83, -19,-108],
    [-84, -19,-108, -85, -19,-108, -86, -19,-108, -87, -19,-108, -88, -19,-108, -89, -19,-108, -90, -19],
    [-108, -91, -19,-108, -92, -19,-108, -93, -19,-108, -94, -19,-108, -95, -19,-108, -96, -19,-108, -97],
    [-19,-108, -98, -19,-108, -99, -19,-108,-100, -19,-108,-101, -19,-108,-102, -19,-108,-103, -19,-108],
    [-104, -19,-108,-105, -19,-108,-106, -19,-108,-107, -19,-108,-108, -19,-108,-109, -19,-108,-110, -19],
    [-108,-111, -19,-108,-112, -19,-108,-113, -19,-108,-114, -19,-108,-115, -19,-108,-116, -19,-108,-117],
    [-19,-108,-118, -19,-108,-119, -19,-108,-120, -19,-108,-121, -19,-108,-122, -19,-108,-123, -19,-108],
    [-124, -19,-108,-125, -19,-108,-126, -19,-108,-127, -19,-108,-128, -19,-109, -65, -19,-109, -66, -19],
    [-109, -67, -19,-109, -68, -19,-109, -69, -19,-109, -70, -19,-109, -71, -19,-109, -72, -19,-109, -73],
    [-19,-109, -74, -19,-109, -75, -19,-109, -76, -19,-109, -77, -19,-109, -78, -19,-109, -79, -19,-109],
    [-80, -19,-109, -81, -19,-109, -82, -19,-109, -83, -19,-109, -84, -19,-109, -85, -19,-109, -86, -19],
    [-109, -87, -19,-109, -88, -19,-109, -89, -19,-109, -90, -19,-109, -91, -19,-109, -92, -19,-109, -93],
    [-19,-109, -94, -19,-109, -95, -19,-109, -96, -19,-109, -97, -19,-109, -98, -19,-109, -99, -19,-109],
    [-100, -19,-109,-101, -19,-109,-102, -19,-109,-103, -19,-109,-104, -19,-109,-105, -19,-109,-106, -19],
    [-109,-107, -19,-109,-108, -19,-109,-109, -19,-109,-110, -19,-109,-111, -19,-109,-112, -19,-109,-113],
    [-19,-109,-114, -19,-109,-115, -19,-109,-116, -19,-109,-117, -19,-109,-118, -19,-109,-119, -19,-109],
    [-120, -19,-109,-121, -19,-109,-122, -19,-109,-123, -19,-109,-124, -19,-109,-125, -19,-109,-126, -19],
    [-109,-127, -19,-109,-128, -19,-110, -65, -19,-110, -66, -19,-110, -67, -19,-110, -68, -19,-110, -69],
    [-19,-110, -70, -19,-110, -71, -19,-110, -72, -19,-110, -73, -19,-110, -74, -19,-110, -75, -19,-110],
    [-76, -19,-110, -77, -19,-110, -78, -19,-110, -79, -19,-110, -80, -19,-110, -81, -19,-110, -82, -19],
    [-110, -83, -19,-110, -84, -19,-110, -85, -19,-110, -86, -19,-110, -87, -19,-110, -88, -19,-110, -89],
    [-19,-110, -90, -19,-110, -91, -19,-110, -92, -19,-110, -93, -19,-110, -94, -19,-110, -95, -19,-110],
    [-96, -19,-110, -97, -19,-110, -98, -19,-110, -99, -19,-110,-100, -19,-110,-101, -19,-110,-102, -19],
    [-110,-103, -19,-110,-104, -19,-110,-105, -19,-110,-106, -19,-110,-107, -19,-110,-108, -19,-110,-109],
    [-19,-110,-110, -19,-110,-111, -19,-110,-112, -19,-110,-113, -19,-110,-114, -19,-110,-115, -19,-110],
    [-116, -19,-110,-117, -19,-110,-118, -19,-110,-119, -19,-110,-120, -19,-110,-121, -19,-110,-122, -19],
    [-110,-123, -19,-110,-124, -19,-110,-125, -19,-110,-126, -19,-110,-127, -19,-110,-128, -19,-111, -65],
    [-19,-111, -66, -19,-111, -67, -19,-111, -68, -19,-111, -69, -19,-111, -70, -19,-111, -71, -19,-111],
    [-72, -19,-111, -73, -19,-111, -74, -19,-111, -75, -19,-111, -76, -19,-111, -77, -19,-111, -78, -19],
    [-111, -79, -19,-111, -80, -19,-111, -81, -19,-111, -82, -19,-111, -83, -19,-111, -84, -19,-111, -85],
    [-19,-111, -86, -19,-111, -87, -19,-111, -88, -19,-111, -89, -19,-111, -90, -19,-111, -91, -19,-111],
    [-92, -19,-111, -93, -19,-111, -94, -19,-111, -95, -19,-111, -96, -19,-111, -97, -19,-111, -98, -19],
    [-111, -99, -19,-111,-100, -19,-111,-101, -19,-111,-102, -19,-111,-103, -19,-111,-104, -19,-111,-105],
    [-19,-111,-106, -19,-111,-107, -19,-111,-108, -19,-111,-109, -19,-111,-110, -19,-111,-111, -19,-111],
    [-112, -19,-111,-113, -19,-111,-114, -19,-111,-115, -19,-111,-116, -19,-111,-117, -19,-111,-118, -19],
    [-111,-119, -19,-111,-120, -19,-111,-121, -19,-111,-122, -19,-111,-123, -19,-111,-124, -19,-111,-125],
    [-19,-111,-126, -19,-111,-127, -19,-111,-128, -19,-112, -65, -19,-112, -66, -19,-112, -67, -19,-112],
    [-68, -19,-112, -69, -19,-112, -70, -19,-112, -71, -19,-112, -72, -19,-112, -73, -19,-112, -74, -19],
    [-112, -75, -19,-112, -76, -19,-112, -77, -19,-112, -78, -19,-112, -79, -19,-112, -80, -19,-112, -81],
    [-19,-112, -82, -19,-112, -83, -19,-112, -84, -19,-112, -85, -19,-112, -86, -19,-112, -87, -19,-112],
    [-88, -19,-112, -89, -19,-112, -90, -19,-112, -91, -19,-112, -92, -19,-112, -93, -19,-112, -94, -19],
    [-112, -95, -19,-112, -96, -19,-112, -97, -19,-112, -98, -19,-112, -99, -19,-112,-100, -19,-112,-101],
    [-19,-112,-102, -19,-112,-103, -19,-112,-104, -19,-112,-105, -19,-112,-106, -19,-112,-107, -19,-112],
    [-108, -19,-112,-109, -19,-112,-110, -19,-112,-111, -19,-112,-112, -19,-112,-113, -19,-112,-114, -19],
    [-112,-115, -19,-112,-116, -19,-112,-117, -19,-112,-118, -19,-112,-119, -19,-112,-120, -19,-112,-121],
    [-19,-112,-122, -19,-112,-123, -19,-112,-124, -19,-112,-125, -19,-112,-126, -19,-112,-127, -19,-112],
    [-128, -19,-113, -65, -19,-113, -66, -19,-113, -67, -19,-113, -68, -19,-113, -69, -19,-113, -70, -19],
    [-113, -71, -19,-113, -72, -19,-113, -73, -19,-113, -74, -19,-113, -75, -19,-113, -76, -19,-113, -77],
    [-19,-113, -78, -19,-113, -79, -19,-113, -80, -19,-113, -81, -19,-113, -82, -19,-113, -83, -19,-113],
    [-84, -19,-113, -85, -19,-113, -86, -19,-113, -87, -19,-113, -88, -19,-113, -89, -19,-113, -90, -19],
    [-113, -91, -19,-113, -92, -19,-113, -93, -19,-113, -94, -19,-113, -95, -19,-113, -96, -19,-113, -97],
    [-19,-113, -98, -19,-113, -99, -19,-113,-100, -19,-113,-101, -19,-113,-102, -19,-113,-103, -19,-113],
    [-104, -19,-113,-105, -19,-113,-106, -19,-113,-107, -19,-113,-108, -19,-113,-109, -19,-113,-110, -19],
    [-113,-111, -19,-113,-112, -19,-113,-113, -19,-113,-114, -19,-113,-115, -19,-113,-116, -19,-113,-117],
    [-19,-113,-118, -19,-113,-119, -19,-113,-120, -19,-113,-121, -19,-113,-122, -19,-113,-123, -19,-113],
    [-124, -19,-113,-125, -19,-113,-126, -19,-113,-127, -19,-113,-128, -19,-114, -65, -19,-114, -66, -19],
    [-114, -67, -19,-114, -68, -19,-114, -69, -19,-114, -70, -19,-114, -71, -19,-114, -72, -19,-114, -73],
    [-19,-114, -74, -19,-114, -75, -19,-114, -76, -19,-114, -77, -19,-114, -78, -19,-114, -79, -19,-114],
    [-80, -19,-114, -81, -19,-114, -82, -19,-114, -83, -19,-114, -84, -19,-114, -85, -19,-114, -86, -19],
    [-114, -87, -19,-114, -88, -19,-114, -89, -19,-114, -90, -19,-114, -91, -19,-114, -92, -19,-114, -93],
    [-19,-114, -94, -19,-114, -95, -19,-114, -96, -19,-114, -97, -19,-114, -98, -19,-114, -99, -19,-114],
    [-100, -19,-114,-101, -19,-114,-102, -19,-114,-103, -19,-114,-104, -19,-114,-105, -19,-114,-106, -19],
    [-114,-107, -19,-114,-108, -19,-114,-109, -19,-114,-110, -19,-114,-111, -19,-114,-112, -19,-114,-113],
    [-19,-114,-114, -19,-114,-115, -19,-114,-116, -19,-114,-117, -19,-114,-118, -19,-114,-119, -19,-114],
    [-120, -19,-114,-121, -19,-114,-122, -19,-114,-123, -19,-114,-124, -19,-114,-125, -19,-114,-126, -19],
    [-114,-127, -19,-114,-128, -19,-115, -65, -19,-115, -66, -19,-115, -67, -19,-115, -68, -19,-115, -69],
    [-19,-115, -70, -19,-115, -71, -19,-115, -72, -19,-115, -73, -19,-115, -74, -19,-115, -75, -19,-115],
    [-76, -19,-115, -77, -19,-115, -78, -19,-115, -79, -19,-115, -80, -19,-115, -81, -19,-115, -82, -19],
    [-115, -83, -19,-115, -84, -19,-115, -85, -19,-115, -86, -19,-115, -87, -19,-115, -88, -19,-115, -89],
    [-19,-115, -90, -19,-115, -91, -19,-115, -92, -19,-115, -93, -19,-115, -94, -19,-115, -95, -19,-115],
    [-96, -19,-115, -97, -19,-115, -98, -19,-115, -99, -19,-115,-100, -19,-115,-101, -19,-115,-102, -19],
    [-115,-103, -19,-115,-104, -19,-115,-105, -19,-115,-106, -19,-115,-107, -19,-115,-108, -19,-115,-109],
    [-19,-115,-110, -19,-115,-111, -19,-115,-112, -19,-115,-113, -19,-115,-114, -19,-115,-115, -19,-115],
    [-116, -19,-115,-117, -19,-115,-118, -19,-115,-119, -19,-115,-120, -19,-115,-121, -19,-115,-122, -19],
    [-115,-123, -19,-115,-124, -19,-115,-125, -19,-115,-126, -19,-115,-127, -19,-115,-128, -19,-116, -65],
    [-19,-116, -66, -19,-116, -67, -19,-116, -68, -19,-116, -69, -19,-116, -70, -19,-116, -71, -19,-116],
    [-72, -19,-116, -73, -19,-116, -74, -19,-116, -75, -19,-116, -76, -19,-116, -77, -19,-116, -78, -19],
    [-116, -79, -19,-116, -80, -19,-116, -81, -19,-116, -82, -19,-116, -83, -19,-116, -84, -19,-116, -85],
    [-19,-116, -86, -19,-116, -87, -19,-116, -88, -19,-116, -89, -19,-116, -90, -19,-116, -91, -19,-116],
    [-92, -19,-116, -93, -19,-116, -94, -19,-116, -95, -19,-116, -96, -19,-116, -97, -19,-116, -98, -19],
    [-116, -99, -19,-116,-100, -19,-116,-101, -19,-116,-102, -19,-116,-103, -19,-116,-104, -19,-116,-105],
    [-19,-116,-106, -19,-116,-107, -19,-116,-108, -19,-116,-109, -19,-116,-110, -19,-116,-111, -19,-116],
    [-112, -19,-116,-113, -19,-116,-114, -19,-116,-115, -19,-116,-116, -19,-116,-117, -19,-116,-118, -19],
    [-116,-119, -19,-116,-120, -19,-116,-121, -19,-116,-122, -19,-116,-123, -19,-116,-124, -19,-116,-125],
    [-19,-116,-126, -19,-116,-127, -19,-116,-128, -19,-117, -65, -19,-117, -66, -19,-117, -67, -19,-117],
    [-68, -19,-117, -69, -19,-117, -70, -19,-117, -71, -19,-117, -72, -19,-117, -73, -19,-117, -74, -19],
    [-117, -75, -19,-117, -76, -19,-117, -77, -19,-117, -78, -19,-117, -79, -19,-117, -80, -19,-117, -81],
    [-19,-117, -82, -19,-117, -83, -19,-117, -84, -19,-117, -85, -19,-117, -86, -19,-117, -87, -19,-117],
    [-88, -19,-117, -89, -19,-117, -90, -19,-117, -91, -19,-117, -92, -19,-117, -93, -19,-117, -94, -19],
    [-117, -95, -19,-117, -96, -19,-117, -97, -19,-117, -98, -19,-117, -99, -19,-117,-100, -19,-117,-101],
    [-19,-117,-102, -19,-117,-103, -19,-117,-104, -19,-117,-105, -19,-117,-106, -19,-117,-107, -19,-117],
    [-108, -19,-117,-109, -19,-117,-110, -19,-117,-111, -19,-117,-112, -19,-117,-113, -19,-117,-114, -19],
    [-117,-115, -19,-117,-116, -19,-117,-117, -19,-117,-118, -19,-117,-119, -19,-117,-120, -19,-117,-121],
    [-19,-117,-122, -19,-117,-123, -19,-117,-124, -19,-117,-125, -19,-117,-126, -19,-117,-127, -19,-117],
    [-128, -19,-118, -65, -19,-118, -66, -19,-118, -67, -19,-118, -68, -19,-118, -69, -19,-118, -70, -19],
    [-118, -71, -19,-118, -72, -19,-118, -73, -19,-118, -74, -19,-118, -75, -19,-118, -76, -19,-118, -77],
    [-19,-118, -78, -19,-118, -79, -19,-118, -80, -19,-118, -81, -19,-118, -82, -19,-118, -83, -19,-118],
    [-84, -19,-118, -85, -19,-118, -86, -19,-118, -87, -19,-118, -88, -19,-118, -89, -19,-118, -90, -19],
    [-118, -91, -19,-118, -92, -19,-118, -93, -19,-118, -94, -19,-118, -95, -19,-118, -96, -19,-118, -97],
    [-19,-118, -98, -19,-118, -99, -19,-118,-100, -19,-118,-101, -19,-118,-102, -19,-118,-103, -19,-118],
    [-104, -19,-118,-105, -19,-118,-106, -19,-118,-107, -19,-118,-108, -19,-118,-109, -19,-118,-110, -19],
    [-118,-111, -19,-118,-112, -19,-118,-113, -19,-118,-114, -19,-118,-115, -19,-118,-116, -19,-118,-117],
    [-19,-118,-118, -19,-118,-119, -19,-118,-120, -19,-118,-121, -19,-118,-122, -19,-118,-123, -19,-118],
    [-124, -19,-118,-125, -19,-118,-126, -19,-118,-127, -19,-118,-128, -19,-119, -65, -19,-119, -66, -19],
    [-119, -67, -19,-119, -68, -19,-119, -69, -19,-119, -70, -19,-119, -71, -19,-119, -72, -19,-119, -73],
    [-19,-119, -74, -19,-119, -75, -19,-119, -76, -19,-119, -77, -19,-119, -78, -19,-119, -79, -19,-119],
    [-80, -19,-119, -81, -19,-119, -82, -19,-119, -83, -19,-119, -84, -19,-119, -85, -19,-119, -86, -19],
    [-119, -87, -19,-119, -88, -19,-119, -89, -19,-119, -90, -19,-119, -91, -19,-119, -92, -19,-119, -93],
    [-19,-119, -94, -19,-119, -95, -19,-119, -96, -19,-119, -97, -19,-119, -98, -19,-119, -99, -19,-119],
    [-100, -19,-119,-101, -19,-119,-102, -19,-119,-103, -19,-119,-104, -19,-119,-105, -19,-119,-106, -19],
    [-119,-107, -19,-119,-108, -19,-119,-109, -19,-119,-110, -19,-119,-111, -19,-119,-112, -19,-119,-113],
    [-19,-119,-114, -19,-119,-115, -19,-119,-116, -19,-119,-117, -19,-119,-118, -19,-119,-119, -19,-119],
    [-120, -19,-119,-121, -19,-119,-122, -19,-119,-123, -19,-119,-124, -19,-119,-125, -19,-119,-126, -19],
    [-119,-127, -19,-119,-128, -19,-120, -65, -19,-120, -66, -19,-120, -67, -19,-120, -68, -19,-120, -69],
    [-19,-120, -70, -19,-120, -71, -19,-120, -72, -19,-120, -73, -19,-120, -74, -19,-120, -75, -19,-120],
    [-76, -19,-120, -77, -19,-120, -78, -19,-120, -79, -19,-120, -80, -19,-120, -81, -19,-120, -82, -19],
    [-120, -83, -19,-120, -84, -19,-120, -85, -19,-120, -86, -19,-120, -87, -19,-120, -88, -19,-120, -89],
    [-19,-120, -90, -19,-120, -91, -19,-120, -92, -19,-120, -93, -19,-120, -94, -19,-120, -95, -19,-120]]"

definition STRINGS_03 :: "int list list" where
  "STRINGS_03 = [
    [-96, -19,-120, -97, -19,-120, -98, -19,-120, -99, -19,-120,-100, -19,-120,-101, -19,-120,-102, -19],
    [-120,-103, -19,-120,-104, -19,-120,-105, -19,-120,-106, -19,-120,-107, -19,-120,-108, -19,-120,-109],
    [-19,-120,-110, -19,-120,-111, -19,-120,-112, -19,-120,-113, -19,-120,-114, -19,-120,-115, -19,-120],
    [-116, -19,-120,-117, -19,-120,-118, -19,-120,-119, -19,-120,-120, -19,-120,-121, -19,-120,-122, -19],
    [-120,-123, -19,-120,-124, -19,-120,-125, -19,-120,-126, -19,-120,-127, -19,-120,-128, -19,-121, -65],
    [-19,-121, -66, -19,-121, -67, -19,-121, -68, -19,-121, -69, -19,-121, -70, -19,-121, -71, -19,-121],
    [-72, -19,-121, -73, -19,-121, -74, -19,-121, -75, -19,-121, -76, -19,-121, -77, -19,-121, -78, -19],
    [-121, -79, -19,-121, -80, -19,-121, -81, -19,-121, -82, -19,-121, -83, -19,-121, -84, -19,-121, -85],
    [-19,-121, -86, -19,-121, -87, -19,-121, -88, -19,-121, -89, -19,-121, -90, -19,-121, -91, -19,-121],
    [-92, -19,-121, -93, -19,-121, -94, -19,-121, -95, -19,-121, -96, -19,-121, -97, -19,-121, -98, -19],
    [-121, -99, -19,-121,-100, -19,-121,-101, -19,-121,-102, -19,-121,-103, -19,-121,-104, -19,-121,-105],
    [-19,-121,-106, -19,-121,-107, -19,-121,-108, -19,-121,-109, -19,-121,-110, -19,-121,-111, -19,-121],
    [-112, -19,-121,-113, -19,-121,-114, -19,-121,-115, -19,-121,-116, -19,-121,-117, -19,-121,-118, -19],
    [-121,-119, -19,-121,-120, -19,-121,-121, -19,-121,-122, -19,-121,-123, -19,-121,-124, -19,-121,-125],
    [-19,-121,-126, -19,-121,-127, -19,-121,-128, -19,-122, -65, -19,-122, -66, -19,-122, -67, -19,-122],
    [-68, -19,-122, -69, -19,-122, -70, -19,-122, -71, -19,-122, -72, -19,-122, -73, -19,-122, -74, -19],
    [-122, -75, -19,-122, -76, -19,-122, -77, -19,-122, -78, -19,-122, -79, -19,-122, -80, -19,-122, -81],
    [-19,-122, -82, -19,-122, -83, -19,-122, -84, -19,-122, -85, -19,-122, -86, -19,-122, -87, -19,-122],
    [-88, -19,-122, -89, -19,-122, -90, -19,-122, -91, -19,-122, -92, -19,-122, -93, -19,-122, -94, -19],
    [-122, -95, -19,-122, -96, -19,-122, -97, -19,-122, -98, -19,-122, -99, -19,-122,-100, -19,-122,-101],
    [-19,-122,-102, -19,-122,-103, -19,-122,-104, -19,-122,-105, -19,-122,-106, -19,-122,-107, -19,-122],
    [-108, -19,-122,-109, -19,-122,-110, -19,-122,-111, -19,-122,-112, -19,-122,-113, -19,-122,-114, -19],
    [-122,-115, -19,-122,-116, -19,-122,-117, -19,-122,-118, -19,-122,-119, -19,-122,-120, -19,-122,-121],
    [-19,-122,-122, -19,-122,-123, -19,-122,-124, -19,-122,-125, -19,-122,-126, -19,-122,-127, -19,-122],
    [-128, -19,-123, -65, -19,-123, -66, -19,-123, -67, -19,-123, -68, -19,-123, -69, -19,-123, -70, -19],
    [-123, -71, -19,-123, -72, -19,-123, -73, -19,-123, -74, -19,-123, -75, -19,-123, -76, -19,-123, -77],
    [-19,-123, -78, -19,-123, -79, -19,-123, -80, -19,-123, -81, -19,-123, -82, -19,-123, -83, -19,-123],
    [-84, -19,-123, -85, -19,-123, -86, -19,-123, -87, -19,-123, -88, -19,-123, -89, -19,-123, -90, -19],
    [-123, -91, -19,-123, -92, -19,-123, -93, -19,-123, -94, -19,-123, -95, -19,-123, -96, -19,-123, -97],
    [-19,-123, -98, -19,-123, -99, -19,-123,-100, -19,-123,-101, -19,-123,-102, -19,-123,-103, -19,-123],
    [-104, -19,-123,-105, -19,-123,-106, -19,-123,-107, -19,-123,-108, -19,-123,-109, -19,-123,-110, -19],
    [-123,-111, -19,-123,-112, -19,-123,-113, -19,-123,-114, -19,-123,-115, -19,-123,-116, -19,-123,-117],
    [-19,-123,-118, -19,-123,-119, -19,-123,-120, -19,-123,-121, -19,-123,-122, -19,-123,-123, -19,-123],
    [-124, -19,-123,-125, -19,-123,-126, -19,-123,-127, -19,-123,-128, -19,-124, -65, -19,-124, -66, -19],
    [-124, -67, -19,-124, -68, -19,-124, -69, -19,-124, -70, -19,-124, -71, -19,-124, -72, -19,-124, -73],
    [-19,-124, -74, -19,-124, -75, -19,-124, -76, -19,-124, -77, -19,-124, -78, -19,-124, -79, -19,-124],
    [-80, -19,-124, -81, -19,-124, -82, -19,-124, -83, -19,-124, -84, -19,-124, -85, -19,-124, -86, -19],
    [-124, -87, -19,-124, -88, -19,-124, -89, -19,-124, -90, -19,-124, -91, -19,-124, -92, -19,-124, -93],
    [-19,-124, -94, -19,-124, -95, -19,-124, -96, -19,-124, -97, -19,-124, -98, -19,-124, -99, -19,-124],
    [-100, -19,-124,-101, -19,-124,-102, -19,-124,-103, -19,-124,-104, -19,-124,-105, -19,-124,-106, -19],
    [-124,-107, -19,-124,-108, -19,-124,-109, -19,-124,-110, -19,-124,-111, -19,-124,-112, -19,-124,-113],
    [-19,-124,-114, -19,-124,-115, -19,-124,-116, -19,-124,-117, -19,-124,-118, -19,-124,-119, -19,-124],
    [-120, -19,-124,-121, -19,-124,-122, -19,-124,-123, -19,-124,-124, -19,-124,-125, -19,-124,-126, -19],
    [-124,-127, -19,-124,-128, -19,-125, -65, -19,-125, -66, -19,-125, -67, -19,-125, -68, -19,-125, -69],
    [-19,-125, -70, -19,-125, -71, -19,-125, -72, -19,-125, -73, -19,-125, -74, -19,-125, -75, -19,-125],
    [-76, -19,-125, -77, -19,-125, -78, -19,-125, -79, -19,-125, -80, -19,-125, -81, -19,-125, -82, -19],
    [-125, -83, -19,-125, -84, -19,-125, -85, -19,-125, -86, -19,-125, -87, -19,-125, -88, -19,-125, -89],
    [-19,-125, -90, -19,-125, -91, -19,-125, -92, -19,-125, -93, -19,-125, -94, -19,-125, -95, -19,-125],
    [-96, -19,-125, -97, -19,-125, -98, -19,-125, -99, -19,-125,-100, -19,-125,-101, -19,-125,-102, -19],
    [-125,-103, -19,-125,-104, -19,-125,-105, -19,-125,-106, -19,-125,-107, -19,-125,-108, -19,-125,-109],
    [-19,-125,-110, -19,-125,-111, -19,-125,-112, -19,-125,-113, -19,-125,-114, -19,-125,-115, -19,-125],
    [-116, -19,-125,-117, -19,-125,-118, -19,-125,-119, -19,-125,-120, -19,-125,-121, -19,-125,-122, -19],
    [-125,-123, -19,-125,-124, -19,-125,-125, -19,-125,-126, -19,-125,-127, -19,-125,-128, -19,-126, -65],
    [-19,-126, -66, -19,-126, -67, -19,-126, -68, -19,-126, -69, -19,-126, -70, -19,-126, -71, -19,-126],
    [-72, -19,-126, -73, -19,-126, -74, -19,-126, -75, -19,-126, -76, -19,-126, -77, -19,-126, -78, -19],
    [-126, -79, -19,-126, -80, -19,-126, -81, -19,-126, -82, -19,-126, -83, -19,-126, -84, -19,-126, -85],
    [-19,-126, -86, -19,-126, -87, -19,-126, -88, -19,-126, -89, -19,-126, -90, -19,-126, -91, -19,-126],
    [-92, -19,-126, -93, -19,-126, -94, -19,-126, -95, -19,-126, -96, -19,-126, -97, -19,-126, -98, -19],
    [-126, -99, -19,-126,-100, -19,-126,-101, -19,-126,-102, -19,-126,-103, -19,-126,-104, -19,-126,-105],
    [-19,-126,-106, -19,-126,-107, -19,-126,-108, -19,-126,-109, -19,-126,-110, -19,-126,-111, -19,-126],
    [-112, -19,-126,-113, -19,-126,-114, -19,-126,-115, -19,-126,-116, -19,-126,-117, -19,-126,-118, -19],
    [-126,-119, -19,-126,-120, -19,-126,-121, -19,-126,-122, -19,-126,-123, -19,-126,-124, -19,-126,-125],
    [-19,-126,-126, -19,-126,-127, -19,-126,-128, -19,-127, -65, -19,-127, -66, -19,-127, -67, -19,-127],
    [-68, -19,-127, -69, -19,-127, -70, -19,-127, -71, -19,-127, -72, -19,-127, -73, -19,-127, -74, -19],
    [-127, -75, -19,-127, -76, -19,-127, -77, -19,-127, -78, -19,-127, -79, -19,-127, -80, -19,-127, -81],
    [-19,-127, -82, -19,-127, -83, -19,-127, -84, -19,-127, -85, -19,-127, -86, -19,-127, -87, -19,-127],
    [-88, -19,-127, -89, -19,-127, -90, -19,-127, -91, -19,-127, -92, -19,-127, -93, -19,-127, -94, -19],
    [-127, -95, -19,-127, -96, -19,-127, -97, -19,-127, -98, -19,-127, -99, -19,-127,-100, -19,-127,-101],
    [-19,-127,-102, -19,-127,-103, -19,-127,-104, -19,-127,-105, -19,-127,-106, -19,-127,-107, -19,-127],
    [-108, -19,-127,-109, -19,-127,-110, -19,-127,-111, -19,-127,-112, -19,-127,-113, -19,-127,-114, -19],
    [-127,-115, -19,-127,-116, -19,-127,-117, -19,-127,-118, -19,-127,-119, -19,-127,-120, -19,-127,-121],
    [-19,-127,-122, -19,-127,-123, -19,-127,-124, -19,-127,-125, -19,-127,-126, -19,-127,-127, -19,-127],
    [-128, -19,-128, -65, -19,-128, -66, -19,-128, -67, -19,-128, -68, -19,-128, -69, -19,-128, -70, -19],
    [-128, -71, -19,-128, -72, -19,-128, -73, -19,-128, -74, -19,-128, -75, -19,-128, -76, -19,-128, -77],
    [-19,-128, -78, -19,-128, -79, -19,-128, -80, -19,-128, -81, -19,-128, -82, -19,-128, -83, -19,-128],
    [-84, -19,-128, -85, -19,-128, -86, -19,-128, -87, -19,-128, -88, -19,-128, -89, -19,-128, -90, -19],
    [-128, -91, -19,-128, -92, -19,-128, -93, -19,-128, -94, -19,-128, -95, -19,-128, -96, -19,-128, -97],
    [-19,-128, -98, -19,-128, -99, -19,-128,-100, -19,-128,-101, -19,-128,-102, -19,-128,-103, -19,-128],
    [-104, -19,-128,-105, -19,-128,-106, -19,-128,-107, -19,-128,-108, -19,-128,-109, -19,-128,-110, -19],
    [-128,-111, -19,-128,-112, -19,-128,-113, -19,-128,-114, -19,-128,-115, -19,-128,-116, -19,-128,-117],
    [-19,-128,-118, -19,-128,-119, -19,-128,-120, -19,-128,-121, -19,-128,-122, -19,-128,-123, -19,-128],
    [-124, -19,-128,-125, -19,-128,-126, -19,-128,-127, -19,-128,-128, -20, -65, -65, -20, -65, -66, -20],
    [-65, -67, -20, -65, -68, -20, -65, -69, -20, -65, -70, -20, -65, -71, -20, -65, -72, -20, -65, -73],
    [-20, -65, -74, -20, -65, -75, -20, -65, -76, -20, -65, -77, -20, -65, -78, -20, -65, -79, -20, -65],
    [-80, -20, -65, -81, -20, -65, -82, -20, -65, -83, -20, -65, -84, -20, -65, -85, -20, -65, -86, -20],
    [-65, -87, -20, -65, -88, -20, -65, -89, -20, -65, -90, -20, -65, -91, -20, -65, -92, -20, -65, -93],
    [-20, -65, -94, -20, -65, -95, -20, -65, -96, -20, -65, -97, -20, -65, -98, -20, -65, -99, -20, -65],
    [-100, -20, -65,-101, -20, -65,-102, -20, -65,-103, -20, -65,-104, -20, -65,-105, -20, -65,-106, -20],
    [-65,-107, -20, -65,-108, -20, -65,-109, -20, -65,-110, -20, -65,-111, -20, -65,-112, -20, -65,-113],
    [-20, -65,-114, -20, -65,-115, -20, -65,-116, -20, -65,-117, -20, -65,-118, -20, -65,-119, -20, -65],
    [-120, -20, -65,-121, -20, -65,-122, -20, -65,-123, -20, -65,-124, -20, -65,-125, -20, -65,-126, -20],
    [-65,-127, -20, -65,-128, -20, -66, -65, -20, -66, -66, -20, -66, -67, -20, -66, -68, -20, -66, -69],
    [-20, -66, -70, -20, -66, -71, -20, -66, -72, -20, -66, -73, -20, -66, -74, -20, -66, -75, -20, -66],
    [-76, -20, -66, -77, -20, -66, -78, -20, -66, -79, -20, -66, -80, -20, -66, -81, -20, -66, -82, -20],
    [-66, -83, -20, -66, -84, -20, -66, -85, -20, -66, -86, -20, -66, -87, -20, -66, -88, -20, -66, -89],
    [-20, -66, -90, -20, -66, -91, -20, -66, -92, -20, -66, -93, -20, -66, -94, -20, -66, -95, -20, -66],
    [-96, -20, -66, -97, -20, -66, -98, -20, -66, -99, -20, -66,-100, -20, -66,-101, -20, -66,-102, -20],
    [-66,-103, -20, -66,-104, -20, -66,-105, -20, -66,-106, -20, -66,-107, -20, -66,-108, -20, -66,-109],
    [-20, -66,-110, -20, -66,-111, -20, -66,-112, -20, -66,-113, -20, -66,-114, -20, -66,-115, -20, -66],
    [-116, -20, -66,-117, -20, -66,-118, -20, -66,-119, -20, -66,-120, -20, -66,-121, -20, -66,-122, -20],
    [-66,-123, -20, -66,-124, -20, -66,-125, -20, -66,-126, -20, -66,-127, -20, -66,-128, -20, -67, -65],
    [-20, -67, -66, -20, -67, -67, -20, -67, -68, -20, -67, -69, -20, -67, -70, -20, -67, -71, -20, -67],
    [-72, -20, -67, -73, -20, -67, -74, -20, -67, -75, -20, -67, -76, -20, -67, -77, -20, -67, -78, -20],
    [-67, -79, -20, -67, -80, -20, -67, -81, -20, -67, -82, -20, -67, -83, -20, -67, -84, -20, -67, -85],
    [-20, -67, -86, -20, -67, -87, -20, -67, -88, -20, -67, -89, -20, -67, -90, -20, -67, -91, -20, -67],
    [-92, -20, -67, -93, -20, -67, -94, -20, -67, -95, -20, -67, -96, -20, -67, -97, -20, -67, -98, -20],
    [-67, -99, -20, -67,-100, -20, -67,-101, -20, -67,-102, -20, -67,-103, -20, -67,-104, -20, -67,-105],
    [-20, -67,-106, -20, -67,-107, -20, -67,-108, -20, -67,-109, -20, -67,-110, -20, -67,-111, -20, -67],
    [-112, -20, -67,-113, -20, -67,-114, -20, -67,-115, -20, -67,-116, -20, -67,-117, -20, -67,-118, -20],
    [-67,-119, -20, -67,-120, -20, -67,-121, -20, -67,-122, -20, -67,-123, -20, -67,-124, -20, -67,-125],
    [-20, -67,-126, -20, -67,-127, -20, -67,-128, -20, -68, -65, -20, -68, -66, -20, -68, -67, -20, -68],
    [-68, -20, -68, -69, -20, -68, -70, -20, -68, -71, -20, -68, -72, -20, -68, -73, -20, -68, -74, -20],
    [-68, -75, -20, -68, -76, -20, -68, -77, -20, -68, -78, -20, -68, -79, -20, -68, -80, -20, -68, -81],
    [-20, -68, -82, -20, -68, -83, -20, -68, -84, -20, -68, -85, -20, -68, -86, -20, -68, -87, -20, -68],
    [-88, -20, -68, -89, -20, -68, -90, -20, -68, -91, -20, -68, -92, -20, -68, -93, -20, -68, -94, -20],
    [-68, -95, -20, -68, -96, -20, -68, -97, -20, -68, -98, -20, -68, -99, -20, -68,-100, -20, -68,-101],
    [-20, -68,-102, -20, -68,-103, -20, -68,-104, -20, -68,-105, -20, -68,-106, -20, -68,-107, -20, -68],
    [-108, -20, -68,-109, -20, -68,-110, -20, -68,-111, -20, -68,-112, -20, -68,-113, -20, -68,-114, -20],
    [-68,-115, -20, -68,-116, -20, -68,-117, -20, -68,-118, -20, -68,-119, -20, -68,-120, -20, -68,-121],
    [-20, -68,-122, -20, -68,-123, -20, -68,-124, -20, -68,-125, -20, -68,-126, -20, -68,-127, -20, -68],
    [-128, -20, -69, -65, -20, -69, -66, -20, -69, -67, -20, -69, -68, -20, -69, -69, -20, -69, -70, -20],
    [-69, -71, -20, -69, -72, -20, -69, -73, -20, -69, -74, -20, -69, -75, -20, -69, -76, -20, -69, -77],
    [-20, -69, -78, -20, -69, -79, -20, -69, -80, -20, -69, -81, -20, -69, -82, -20, -69, -83, -20, -69],
    [-84, -20, -69, -85, -20, -69, -86, -20, -69, -87, -20, -69, -88, -20, -69, -89, -20, -69, -90, -20],
    [-69, -91, -20, -69, -92, -20, -69, -93, -20, -69, -94, -20, -69, -95, -20, -69, -96, -20, -69, -97],
    [-20, -69, -98, -20, -69, -99, -20, -69,-100, -20, -69,-101, -20, -69,-102, -20, -69,-103, -20, -69],
    [-104, -20, -69,-105, -20, -69,-106, -20, -69,-107, -20, -69,-108, -20, -69,-109, -20, -69,-110, -20],
    [-69,-111, -20, -69,-112, -20, -69,-113, -20, -69,-114, -20, -69,-115, -20, -69,-116, -20, -69,-117],
    [-20, -69,-118, -20, -69,-119, -20, -69,-120, -20, -69,-121, -20, -69,-122, -20, -69,-123, -20, -69],
    [-124, -20, -69,-125, -20, -69,-126, -20, -69,-127, -20, -69,-128, -20, -70, -65, -20, -70, -66, -20],
    [-70, -67, -20, -70, -68, -20, -70, -69, -20, -70, -70, -20, -70, -71, -20, -70, -72, -20, -70, -73],
    [-20, -70, -74, -20, -70, -75, -20, -70, -76, -20, -70, -77, -20, -70, -78, -20, -70, -79, -20, -70],
    [-80, -20, -70, -81, -20, -70, -82, -20, -70, -83, -20, -70, -84, -20, -70, -85, -20, -70, -86, -20],
    [-70, -87, -20, -70, -88, -20, -70, -89, -20, -70, -90, -20, -70, -91, -20, -70, -92, -20, -70, -93],
    [-20, -70, -94, -20, -70, -95, -20, -70, -96, -20, -70, -97, -20, -70, -98, -20, -70, -99, -20, -70],
    [-100, -20, -70,-101, -20, -70,-102, -20, -70,-103, -20, -70,-104, -20, -70,-105, -20, -70,-106, -20],
    [-70,-107, -20, -70,-108, -20, -70,-109, -20, -70,-110, -20, -70,-111, -20, -70,-112, -20, -70,-113],
    [-20, -70,-114, -20, -70,-115, -20, -70,-116, -20, -70,-117, -20, -70,-118, -20, -70,-119, -20, -70],
    [-120, -20, -70,-121, -20, -70,-122, -20, -70,-123, -20, -70,-124, -20, -70,-125, -20, -70,-126, -20],
    [-70,-127, -20, -70,-128, -20, -71, -65, -20, -71, -66, -20, -71, -67, -20, -71, -68, -20, -71, -69],
    [-20, -71, -70, -20, -71, -71, -20, -71, -72, -20, -71, -73, -20, -71, -74, -20, -71, -75, -20, -71],
    [-76, -20, -71, -77, -20, -71, -78, -20, -71, -79, -20, -71, -80, -20, -71, -81, -20, -71, -82, -20],
    [-71, -83, -20, -71, -84, -20, -71, -85, -20, -71, -86, -20, -71, -87, -20, -71, -88, -20, -71, -89],
    [-20, -71, -90, -20, -71, -91, -20, -71, -92, -20, -71, -93, -20, -71, -94, -20, -71, -95, -20, -71]]"

definition STRINGS_04 :: "int list list" where
  "STRINGS_04 = [
    [-96, -20, -71, -97, -20, -71, -98, -20, -71, -99, -20, -71,-100, -20, -71,-101, -20, -71,-102, -20],
    [-71,-103, -20, -71,-104, -20, -71,-105, -20, -71,-106, -20, -71,-107, -20, -71,-108, -20, -71,-109],
    [-20, -71,-110, -20, -71,-111, -20, -71,-112, -20, -71,-113, -20, -71,-114, -20, -71,-115, -20, -71],
    [-116, -20, -71,-117, -20, -71,-118, -20, -71,-119, -20, -71,-120, -20, -71,-121, -20, -71,-122, -20],
    [-71,-123, -20, -71,-124, -20, -71,-125, -20, -71,-126, -20, -71,-127, -20, -71,-128, -20, -72, -65],
    [-20, -72, -66, -20, -72, -67, -20, -72, -68, -20, -72, -69, -20, -72, -70, -20, -72, -71, -20, -72],
    [-72, -20, -72, -73, -20, -72, -74, -20, -72, -75, -20, -72, -76, -20, -72, -77, -20, -72, -78, -20],
    [-72, -79, -20, -72, -80, -20, -72, -81, -20, -72, -82, -20, -72, -83, -20, -72, -84, -20, -72, -85],
    [-20, -72, -86, -20, -72, -87, -20, -72, -88, -20, -72, -89, -20, -72, -90, -20, -72, -91, -20, -72],
    [-92, -20, -72, -93, -20, -72, -94, -20, -72, -95, -20, -72, -96, -20, -72, -97, -20, -72, -98, -20],
    [-72, -99, -20, -72,-100, -20, -72,-101, -20, -72,-102, -20, -72,-103, -20, -72,-104, -20, -72,-105],
    [-20, -72,-106, -20, -72,-107, -20, -72,-108, -20, -72,-109, -20, -72,-110, -20, -72,-111, -20, -72],
    [-112, -20, -72,-113, -20, -72,-114, -20, -72,-115, -20, -72,-116, -20, -72,-117, -20, -72,-118, -20],
    [-72,-119, -20, -72,-120, -20, -72,-121, -20, -72,-122, -20, -72,-123, -20, -72,-124, -20, -72,-125],
    [-20, -72,-126, -20, -72,-127, -20, -72,-128, -20, -73, -65, -20, -73, -66, -20, -73, -67, -20, -73],
    [-68, -20, -73, -69, -20, -73, -70, -20, -73, -71, -20, -73, -72, -20, -73, -73, -20, -73, -74, -20],
    [-73, -75, -20, -73, -76, -20, -73, -77, -20, -73, -78, -20, -73, -79, -20, -73, -80, -20, -73, -81],
    [-20, -73, -82, -20, -73, -83, -20, -73, -84, -20, -73, -85, -20, -73, -86, -20, -73, -87, -20, -73],
    [-88, -20, -73, -89, -20, -73, -90, -20, -73, -91, -20, -73, -92, -20, -73, -93, -20, -73, -94, -20],
    [-73, -95, -20, -73, -96, -20, -73, -97, -20, -73, -98, -20, -73, -99, -20, -73,-100, -20, -73,-101],
    [-20, -73,-102, -20, -73,-103, -20, -73,-104, -20, -73,-105, -20, -73,-106, -20, -73,-107, -20, -73],
    [-108, -20, -73,-109, -20, -73,-110, -20, -73,-111, -20, -73,-112, -20, -73,-113, -20, -73,-114, -20],
    [-73,-115, -20, -73,-116, -20, -73,-117, -20, -73,-118, -20, -73,-119, -20, -73,-120, -20, -73,-121],
    [-20, -73,-122, -20, -73,-123, -20, -73,-124, -20, -73,-125, -20, -73,-126, -20, -73,-127, -20, -73],
    [-128, -20, -74, -65, -20, -74, -66, -20, -74, -67, -20, -74, -68, -20, -74, -69, -20, -74, -70, -20],
    [-74, -71, -20, -74, -72, -20, -74, -73, -20, -74, -74, -20, -74, -75, -20, -74, -76, -20, -74, -77],
    [-20, -74, -78, -20, -74, -79, -20, -74, -80, -20, -74, -81, -20, -74, -82, -20, -74, -83, -20, -74],
    [-84, -20, -74, -85, -20, -74, -86, -20, -74, -87, -20, -74, -88, -20, -74, -89, -20, -74, -90, -20],
    [-74, -91, -20, -74, -92, -20, -74, -93, -20, -74, -94, -20, -74, -95, -20, -74, -96, -20, -74, -97],
    [-20, -74, -98, -20, -74, -99, -20, -74,-100, -20, -74,-101, -20, -74,-102, -20, -74,-103, -20, -74],
    [-104, -20, -74,-105, -20, -74,-106, -20, -74,-107, -20, -74,-108, -20, -74,-109, -20, -74,-110, -20],
    [-74,-111, -20, -74,-112, -20, -74,-113, -20, -74,-114, -20, -74,-115, -20, -74,-116, -20, -74,-117],
    [-20, -74,-118, -20, -74,-119, -20, -74,-120, -20, -74,-121, -20, -74,-122, -20, -74,-123, -20, -74],
    [-124, -20, -74,-125, -20, -74,-126, -20, -74,-127, -20, -74,-128, -20, -75, -65, -20, -75, -66, -20],
    [-75, -67, -20, -75, -68, -20, -75, -69, -20, -75, -70, -20, -75, -71, -20, -75, -72, -20, -75, -73],
    [-20, -75, -74, -20, -75, -75, -20, -75, -76, -20, -75, -77, -20, -75, -78, -20, -75, -79, -20, -75],
    [-80, -20, -75, -81, -20, -75, -82, -20, -75, -83, -20, -75, -84, -20, -75, -85, -20, -75, -86, -20],
    [-75, -87, -20, -75, -88, -20, -75, -89, -20, -75, -90, -20, -75, -91, -20, -75, -92, -20, -75, -93],
    [-20, -75, -94, -20, -75, -95, -20, -75, -96, -20, -75, -97, -20, -75, -98, -20, -75, -99, -20, -75],
    [-100, -20, -75,-101, -20, -75,-102, -20, -75,-103, -20, -75,-104, -20, -75,-105, -20, -75,-106, -20],
    [-75,-107, -20, -75,-108, -20, -75,-109, -20, -75,-110, -20, -75,-111, -20, -75,-112, -20, -75,-113],
    [-20, -75,-114, -20, -75,-115, -20, -75,-116, -20, -75,-117, -20, -75,-118, -20, -75,-119, -20, -75],
    [-120, -20, -75,-121, -20, -75,-122, -20, -75,-123, -20, -75,-124, -20, -75,-125, -20, -75,-126, -20],
    [-75,-127, -20, -75,-128, -20, -76, -65, -20, -76, -66, -20, -76, -67, -20, -76, -68, -20, -76, -69],
    [-20, -76, -70, -20, -76, -71, -20, -76, -72, -20, -76, -73, -20, -76, -74, -20, -76, -75, -20, -76],
    [-76, -20, -76, -77, -20, -76, -78, -20, -76, -79, -20, -76, -80, -20, -76, -81, -20, -76, -82, -20],
    [-76, -83, -20, -76, -84, -20, -76, -85, -20, -76, -86, -20, -76, -87, -20, -76, -88, -20, -76, -89],
    [-20, -76, -90, -20, -76, -91, -20, -76, -92, -20, -76, -93, -20, -76, -94, -20, -76, -95, -20, -76],
    [-96, -20, -76, -97, -20, -76, -98, -20, -76, -99, -20, -76,-100, -20, -76,-101, -20, -76,-102, -20],
    [-76,-103, -20, -76,-104, -20, -76,-105, -20, -76,-106, -20, -76,-107, -20, -76,-108, -20, -76,-109],
    [-20, -76,-110, -20, -76,-111, -20, -76,-112, -20, -76,-113, -20, -76,-114, -20, -76,-115, -20, -76],
    [-116, -20, -76,-117, -20, -76,-118, -20, -76,-119, -20, -76,-120, -20, -76,-121, -20, -76,-122, -20],
    [-76,-123, -20, -76,-124, -20, -76,-125, -20, -76,-126, -20, -76,-127, -20, -76,-128, -20, -77, -65],
    [-20, -77, -66, -20, -77, -67, -20, -77, -68, -20, -77, -69, -20, -77, -70, -20, -77, -71, -20, -77],
    [-72, -20, -77, -73, -20, -77, -74, -20, -77, -75, -20, -77, -76, -20, -77, -77, -20, -77, -78, -20],
    [-77, -79, -20, -77, -80, -20, -77, -81, -20, -77, -82, -20, -77, -83, -20, -77, -84, -20, -77, -85],
    [-20, -77, -86, -20, -77, -87, -20, -77, -88, -20, -77, -89, -20, -77, -90, -20, -77, -91, -20, -77],
    [-92, -20, -77, -93, -20, -77, -94, -20, -77, -95, -20, -77, -96, -20, -77, -97, -20, -77, -98, -20],
    [-77, -99, -20, -77,-100, -20, -77,-101, -20, -77,-102, -20, -77,-103, -20, -77,-104, -20, -77,-105],
    [-20, -77,-106, -20, -77,-107, -20, -77,-108, -20, -77,-109, -20, -77,-110, -20, -77,-111, -20, -77],
    [-112, -20, -77,-113, -20, -77,-114, -20, -77,-115, -20, -77,-116, -20, -77,-117, -20, -77,-118, -20],
    [-77,-119, -20, -77,-120, -20, -77,-121, -20, -77,-122, -20, -77,-123, -20, -77,-124, -20, -77,-125],
    [-20, -77,-126, -20, -77,-127, -20, -77,-128, -20, -78, -65, -20, -78, -66, -20, -78, -67, -20, -78],
    [-68, -20, -78, -69, -20, -78, -70, -20, -78, -71, -20, -78, -72, -20, -78, -73, -20, -78, -74, -20],
    [-78, -75, -20, -78, -76, -20, -78, -77, -20, -78, -78, -20, -78, -79, -20, -78, -80, -20, -78, -81],
    [-20, -78, -82, -20, -78, -83, -20, -78, -84, -20, -78, -85, -20, -78, -86, -20, -78, -87, -20, -78],
    [-88, -20, -78, -89, -20, -78, -90, -20, -78, -91, -20, -78, -92, -20, -78, -93, -20, -78, -94, -20],
    [-78, -95, -20, -78, -96, -20, -78, -97, -20, -78, -98, -20, -78, -99, -20, -78,-100, -20, -78,-101],
    [-20, -78,-102, -20, -78,-103, -20, -78,-104, -20, -78,-105, -20, -78,-106, -20, -78,-107, -20, -78],
    [-108, -20, -78,-109, -20, -78,-110, -20, -78,-111, -20, -78,-112, -20, -78,-113, -20, -78,-114, -20],
    [-78,-115, -20, -78,-116, -20, -78,-117, -20, -78,-118, -20, -78,-119, -20, -78,-120, -20, -78,-121],
    [-20, -78,-122, -20, -78,-123, -20, -78,-124, -20, -78,-125, -20, -78,-126, -20, -78,-127, -20, -78],
    [-128, -20, -79, -65, -20, -79, -66, -20, -79, -67, -20, -79, -68, -20, -79, -69, -20, -79, -70, -20],
    [-79, -71, -20, -79, -72, -20, -79, -73, -20, -79, -74, -20, -79, -75, -20, -79, -76, -20, -79, -77],
    [-20, -79, -78, -20, -79, -79, -20, -79, -80, -20, -79, -81, -20, -79, -82, -20, -79, -83, -20, -79],
    [-84, -20, -79, -85, -20, -79, -86, -20, -79, -87, -20, -79, -88, -20, -79, -89, -20, -79, -90, -20],
    [-79, -91, -20, -79, -92, -20, -79, -93, -20, -79, -94, -20, -79, -95, -20, -79, -96, -20, -79, -97],
    [-20, -79, -98, -20, -79, -99, -20, -79,-100, -20, -79,-101, -20, -79,-102, -20, -79,-103, -20, -79],
    [-104, -20, -79,-105, -20, -79,-106, -20, -79,-107, -20, -79,-108, -20, -79,-109, -20, -79,-110, -20],
    [-79,-111, -20, -79,-112, -20, -79,-113, -20, -79,-114, -20, -79,-115, -20, -79,-116, -20, -79,-117],
    [-20, -79,-118, -20, -79,-119, -20, -79,-120, -20, -79,-121, -20, -79,-122, -20, -79,-123, -20, -79],
    [-124, -20, -79,-125, -20, -79,-126, -20, -79,-127, -20, -79,-128, -20, -80, -65, -20, -80, -66, -20],
    [-80, -67, -20, -80, -68, -20, -80, -69, -20, -80, -70, -20, -80, -71, -20, -80, -72, -20, -80, -73],
    [-20, -80, -74, -20, -80, -75, -20, -80, -76, -20, -80, -77, -20, -80, -78, -20, -80, -79, -20, -80],
    [-80, -20, -80, -81, -20, -80, -82, -20, -80, -83, -20, -80, -84, -20, -80, -85, -20, -80, -86, -20],
    [-80, -87, -20, -80, -88, -20, -80, -89, -20, -80, -90, -20, -80, -91, -20, -80, -92, -20, -80, -93],
    [-20, -80, -94, -20, -80, -95, -20, -80, -96, -20, -80, -97, -20, -80, -98, -20, -80, -99, -20, -80],
    [-100, -20, -80,-101, -20, -80,-102, -20, -80,-103, -20, -80,-104, -20, -80,-105, -20, -80,-106, -20],
    [-80,-107, -20, -80,-108, -20, -80,-109, -20, -80,-110, -20, -80,-111, -20, -80,-112, -20, -80,-113],
    [-20, -80,-114, -20, -80,-115, -20, -80,-116, -20, -80,-117, -20, -80,-118, -20, -80,-119, -20, -80],
    [-120, -20, -80,-121, -20, -80,-122, -20, -80,-123, -20, -80,-124, -20, -80,-125, -20, -80,-126, -20],
    [-80,-127, -20, -80,-128, -20, -81, -65, -20, -81, -66, -20, -81, -67, -20, -81, -68, -20, -81, -69],
    [-20, -81, -70, -20, -81, -71, -20, -81, -72, -20, -81, -73, -20, -81, -74, -20, -81, -75, -20, -81],
    [-76, -20, -81, -77, -20, -81, -78, -20, -81, -79, -20, -81, -80, -20, -81, -81, -20, -81, -82, -20],
    [-81, -83, -20, -81, -84, -20, -81, -85, -20, -81, -86, -20, -81, -87, -20, -81, -88, -20, -81, -89],
    [-20, -81, -90, -20, -81, -91, -20, -81, -92, -20, -81, -93, -20, -81, -94, -20, -81, -95, -20, -81],
    [-96, -20, -81, -97, -20, -81, -98, -20, -81, -99, -20, -81,-100, -20, -81,-101, -20, -81,-102, -20],
    [-81,-103, -20, -81,-104, -20, -81,-105, -20, -81,-106, -20, -81,-107, -20, -81,-108, -20, -81,-109],
    [-20, -81,-110, -20, -81,-111, -20, -81,-112, -20, -81,-113, -20, -81,-114, -20, -81,-115, -20, -81],
    [-116, -20, -81,-117, -20, -81,-118, -20, -81,-119, -20, -81,-120, -20, -81,-121, -20, -81,-122, -20],
    [-81,-123, -20, -81,-124, -20, -81,-125, -20, -81,-126, -20, -81,-127, -20, -81,-128, -20, -82, -65],
    [-20, -82, -66, -20, -82, -67, -20, -82, -68, -20, -82, -69, -20, -82, -70, -20, -82, -71, -20, -82],
    [-72, -20, -82, -73, -20, -82, -74, -20, -82, -75, -20, -82, -76, -20, -82, -77, -20, -82, -78, -20],
    [-82, -79, -20, -82, -80, -20, -82, -81, -20, -82, -82, -20, -82, -83, -20, -82, -84, -20, -82, -85],
    [-20, -82, -86, -20, -82, -87, -20, -82, -88, -20, -82, -89, -20, -82, -90, -20, -82, -91, -20, -82],
    [-92, -20, -82, -93, -20, -82, -94, -20, -82, -95, -20, -82, -96, -20, -82, -97, -20, -82, -98, -20],
    [-82, -99, -20, -82,-100, -20, -82,-101, -20, -82,-102, -20, -82,-103, -20, -82,-104, -20, -82,-105],
    [-20, -82,-106, -20, -82,-107, -20, -82,-108, -20, -82,-109, -20, -82,-110, -20, -82,-111, -20, -82],
    [-112, -20, -82,-113, -20, -82,-114, -20, -82,-115, -20, -82,-116, -20, -82,-117, -20, -82,-118, -20],
    [-82,-119, -20, -82,-120, -20, -82,-121, -20, -82,-122, -20, -82,-123, -20, -82,-124, -20, -82,-125],
    [-20, -82,-126, -20, -82,-127, -20, -82,-128, -20, -83, -65, -20, -83, -66, -20, -83, -67, -20, -83],
    [-68, -20, -83, -69, -20, -83, -70, -20, -83, -71, -20, -83, -72, -20, -83, -73, -20, -83, -74, -20],
    [-83, -75, -20, -83, -76, -20, -83, -77, -20, -83, -78, -20, -83, -79, -20, -83, -80, -20, -83, -81],
    [-20, -83, -82, -20, -83, -83, -20, -83, -84, -20, -83, -85, -20, -83, -86, -20, -83, -87, -20, -83],
    [-88, -20, -83, -89, -20, -83, -90, -20, -83, -91, -20, -83, -92, -20, -83, -93, -20, -83, -94, -20],
    [-83, -95, -20, -83, -96, -20, -83, -97, -20, -83, -98, -20, -83, -99, -20, -83,-100, -20, -83,-101],
    [-20, -83,-102, -20, -83,-103, -20, -83,-104, -20, -83,-105, -20, -83,-106, -20, -83,-107, -20, -83],
    [-108, -20, -83,-109, -20, -83,-110, -20, -83,-111, -20, -83,-112, -20, -83,-113, -20, -83,-114, -20],
    [-83,-115, -20, -83,-116, -20, -83,-117, -20, -83,-118, -20, -83,-119, -20, -83,-120, -20, -83,-121],
    [-20, -83,-122, -20, -83,-123, -20, -83,-124, -20, -83,-125, -20, -83,-126, -20, -83,-127, -20, -83],
    [-128, -20, -84, -65, -20, -84, -66, -20, -84, -67, -20, -84, -68, -20, -84, -69, -20, -84, -70, -20],
    [-84, -71, -20, -84, -72, -20, -84, -73, -20, -84, -74, -20, -84, -75, -20, -84, -76, -20, -84, -77],
    [-20, -84, -78, -20, -84, -79, -20, -84, -80, -20, -84, -81, -20, -84, -82, -20, -84, -83, -20, -84],
    [-84, -20, -84, -85, -20, -84, -86, -20, -84, -87, -20, -84, -88, -20, -84, -89, -20, -84, -90, -20],
    [-84, -91, -20, -84, -92, -20, -84, -93, -20, -84, -94, -20, -84, -95, -20, -84, -96, -20, -84, -97],
    [-20, -84, -98, -20, -84, -99, -20, -84,-100, -20, -84,-101, -20, -84,-102, -20, -84,-103, -20, -84],
    [-104, -20, -84,-105, -20, -84,-106, -20, -84,-107, -20, -84,-108, -20, -84,-109, -20, -84,-110, -20],
    [-84,-111, -20, -84,-112, -20, -84,-113, -20, -84,-114, -20, -84,-115, -20, -84,-116, -20, -84,-117],
    [-20, -84,-118, -20, -84,-119, -20, -84,-120, -20, -84,-121, -20, -84,-122, -20, -84,-123, -20, -84],
    [-124, -20, -84,-125, -20, -84,-126, -20, -84,-127, -20, -84,-128, -20, -85, -65, -20, -85, -66, -20],
    [-85, -67, -20, -85, -68, -20, -85, -69, -20, -85, -70, -20, -85, -71, -20, -85, -72, -20, -85, -73],
    [-20, -85, -74, -20, -85, -75, -20, -85, -76, -20, -85, -77, -20, -85, -78, -20, -85, -79, -20, -85],
    [-80, -20, -85, -81, -20, -85, -82, -20, -85, -83, -20, -85, -84, -20, -85, -85, -20, -85, -86, -20],
    [-85, -87, -20, -85, -88, -20, -85, -89, -20, -85, -90, -20, -85, -91, -20, -85, -92, -20, -85, -93],
    [-20, -85, -94, -20, -85, -95, -20, -85, -96, -20, -85, -97, -20, -85, -98, -20, -85, -99, -20, -85],
    [-100, -20, -85,-101, -20, -85,-102, -20, -85,-103, -20, -85,-104, -20, -85,-105, -20, -85,-106, -20],
    [-85,-107, -20, -85,-108, -20, -85,-109, -20, -85,-110, -20, -85,-111, -20, -85,-112, -20, -85,-113],
    [-20, -85,-114, -20, -85,-115, -20, -85,-116, -20, -85,-117, -20, -85,-118, -20, -85,-119, -20, -85],
    [-120, -20, -85,-121, -20, -85,-122, -20, -85,-123, -20, -85,-124, -20, -85,-125, -20, -85,-126, -20],
    [-85,-127, -20, -85,-128, -20, -86, -65, -20, -86, -66, -20, -86, -67, -20, -86, -68, -20, -86, -69],
    [-20, -86, -70, -20, -86, -71, -20, -86, -72, -20, -86, -73, -20, -86, -74, -20, -86, -75, -20, -86],
    [-76, -20, -86, -77, -20, -86, -78, -20, -86, -79, -20, -86, -80, -20, -86, -81, -20, -86, -82, -20],
    [-86, -83, -20, -86, -84, -20, -86, -85, -20, -86, -86, -20, -86, -87, -20, -86, -88, -20, -86, -89],
    [-20, -86, -90, -20, -86, -91, -20, -86, -92, -20, -86, -93, -20, -86, -94, -20, -86, -95, -20, -86]]"

definition STRINGS_05 :: "int list list" where
  "STRINGS_05 = [
    [-96, -20, -86, -97, -20, -86, -98, -20, -86, -99, -20, -86,-100, -20, -86,-101, -20, -86,-102, -20],
    [-86,-103, -20, -86,-104, -20, -86,-105, -20, -86,-106, -20, -86,-107, -20, -86,-108, -20, -86,-109],
    [-20, -86,-110, -20, -86,-111, -20, -86,-112, -20, -86,-113, -20, -86,-114, -20, -86,-115, -20, -86],
    [-116, -20, -86,-117, -20, -86,-118, -20, -86,-119, -20, -86,-120, -20, -86,-121, -20, -86,-122, -20],
    [-86,-123, -20, -86,-124, -20, -86,-125, -20, -86,-126, -20, -86,-127, -20, -86,-128, -20, -87, -65],
    [-20, -87, -66, -20, -87, -67, -20, -87, -68, -20, -87, -69, -20, -87, -70, -20, -87, -71, -20, -87],
    [-72, -20, -87, -73, -20, -87, -74, -20, -87, -75, -20, -87, -76, -20, -87, -77, -20, -87, -78, -20],
    [-87, -79, -20, -87, -80, -20, -87, -81, -20, -87, -82, -20, -87, -83, -20, -87, -84, -20, -87, -85],
    [-20, -87, -86, -20, -87, -87, -20, -87, -88, -20, -87, -89, -20, -87, -90, -20, -87, -91, -20, -87],
    [-92, -20, -87, -93, -20, -87, -94, -20, -87, -95, -20, -87, -96, -20, -87, -97, -20, -87, -98, -20],
    [-87, -99, -20, -87,-100, -20, -87,-101, -20, -87,-102, -20, -87,-103, -20, -87,-104, -20, -87,-105],
    [-20, -87,-106, -20, -87,-107, -20, -87,-108, -20, -87,-109, -20, -87,-110, -20, -87,-111, -20, -87],
    [-112, -20, -87,-113, -20, -87,-114, -20, -87,-115, -20, -87,-116, -20, -87,-117, -20, -87,-118, -20],
    [-87,-119, -20, -87,-120, -20, -87,-121, -20, -87,-122, -20, -87,-123, -20, -87,-124, -20, -87,-125],
    [-20, -87,-126, -20, -87,-127, -20, -87,-128, -20, -88, -65, -20, -88, -66, -20, -88, -67, -20, -88],
    [-68, -20, -88, -69, -20, -88, -70, -20, -88, -71, -20, -88, -72, -20, -88, -73, -20, -88, -74, -20],
    [-88, -75, -20, -88, -76, -20, -88, -77, -20, -88, -78, -20, -88, -79, -20, -88, -80, -20, -88, -81],
    [-20, -88, -82, -20, -88, -83, -20, -88, -84, -20, -88, -85, -20, -88, -86, -20, -88, -87, -20, -88],
    [-88, -20, -88, -89, -20, -88, -90, -20, -88, -91, -20, -88, -92, -20, -88, -93, -20, -88, -94, -20],
    [-88, -95, -20, -88, -96, -20, -88, -97, -20, -88, -98, -20, -88, -99, -20, -88,-100, -20, -88,-101],
    [-20, -88,-102, -20, -88,-103, -20, -88,-104, -20, -88,-105, -20, -88,-106, -20, -88,-107, -20, -88],
    [-108, -20, -88,-109, -20, -88,-110, -20, -88,-111, -20, -88,-112, -20, -88,-113, -20, -88,-114, -20],
    [-88,-115, -20, -88,-116, -20, -88,-117, -20, -88,-118, -20, -88,-119, -20, -88,-120, -20, -88,-121],
    [-20, -88,-122, -20, -88,-123, -20, -88,-124, -20, -88,-125, -20, -88,-126, -20, -88,-127, -20, -88],
    [-128, -20, -89, -65, -20, -89, -66, -20, -89, -67, -20, -89, -68, -20, -89, -69, -20, -89, -70, -20],
    [-89, -71, -20, -89, -72, -20, -89, -73, -20, -89, -74, -20, -89, -75, -20, -89, -76, -20, -89, -77],
    [-20, -89, -78, -20, -89, -79, -20, -89, -80, -20, -89, -81, -20, -89, -82, -20, -89, -83, -20, -89],
    [-84, -20, -89, -85, -20, -89, -86, -20, -89, -87, -20, -89, -88, -20, -89, -89, -20, -89, -90, -20],
    [-89, -91, -20, -89, -92, -20, -89, -93, -20, -89, -94, -20, -89, -95, -20, -89, -96, -20, -89, -97],
    [-20, -89, -98, -20, -89, -99, -20, -89,-100, -20, -89,-101, -20, -89,-102, -20, -89,-103, -20, -89],
    [-104, -20, -89,-105, -20, -89,-106, -20, -89,-107, -20, -89,-108, -20, -89,-109, -20, -89,-110, -20],
    [-89,-111, -20, -89,-112, -20, -89,-113, -20, -89,-114, -20, -89,-115, -20, -89,-116, -20, -89,-117],
    [-20, -89,-118, -20, -89,-119, -20, -89,-120, -20, -89,-121, -20, -89,-122, -20, -89,-123, -20, -89],
    [-124, -20, -89,-125, -20, -89,-126, -20, -89,-127, -20, -89,-128, -20, -90, -65, -20, -90, -66, -20],
    [-90, -67, -20, -90, -68, -20, -90, -69, -20, -90, -70, -20, -90, -71, -20, -90, -72, -20, -90, -73],
    [-20, -90, -74, -20, -90, -75, -20, -90, -76, -20, -90, -77, -20, -90, -78, -20, -90, -79, -20, -90],
    [-80, -20, -90, -81, -20, -90, -82, -20, -90, -83, -20, -90, -84, -20, -90, -85, -20, -90, -86, -20],
    [-90, -87, -20, -90, -88, -20, -90, -89, -20, -90, -90, -20, -90, -91, -20, -90, -92, -20, -90, -93],
    [-20, -90, -94, -20, -90, -95, -20, -90, -96, -20, -90, -97, -20, -90, -98, -20, -90, -99, -20, -90],
    [-100, -20, -90,-101, -20, -90,-102, -20, -90,-103, -20, -90,-104, -20, -90,-105, -20, -90,-106, -20],
    [-90,-107, -20, -90,-108, -20, -90,-109, -20, -90,-110, -20, -90,-111, -20, -90,-112, -20, -90,-113],
    [-20, -90,-114, -20, -90,-115, -20, -90,-116, -20, -90,-117, -20, -90,-118, -20, -90,-119, -20, -90],
    [-120, -20, -90,-121, -20, -90,-122, -20, -90,-123, -20, -90,-124, -20, -90,-125, -20, -90,-126, -20],
    [-90,-127, -20, -90,-128, -20, -91, -65, -20, -91, -66, -20, -91, -67, -20, -91, -68, -20, -91, -69],
    [-20, -91, -70, -20, -91, -71, -20, -91, -72, -20, -91, -73, -20, -91, -74, -20, -91, -75, -20, -91],
    [-76, -20, -91, -77, -20, -91, -78, -20, -91, -79, -20, -91, -80, -20, -91, -81, -20, -91, -82, -20],
    [-91, -83, -20, -91, -84, -20, -91, -85, -20, -91, -86, -20, -91, -87, -20, -91, -88, -20, -91, -89],
    [-20, -91, -90, -20, -91, -91, -20, -91, -92, -20, -91, -93, -20, -91, -94, -20, -91, -95, -20, -91],
    [-96, -20, -91, -97, -20, -91, -98, -20, -91, -99, -20, -91,-100, -20, -91,-101, -20, -91,-102, -20],
    [-91,-103, -20, -91,-104, -20, -91,-105, -20, -91,-106, -20, -91,-107, -20, -91,-108, -20, -91,-109],
    [-20, -91,-110, -20, -91,-111, -20, -91,-112, -20, -91,-113, -20, -91,-114, -20, -91,-115, -20, -91],
    [-116, -20, -91,-117, -20, -91,-118, -20, -91,-119, -20, -91,-120, -20, -91,-121, -20, -91,-122, -20],
    [-91,-123, -20, -91,-124, -20, -91,-125, -20, -91,-126, -20, -91,-127, -20, -91,-128, -20, -92, -65],
    [-20, -92, -66, -20, -92, -67, -20, -92, -68, -20, -92, -69, -20, -92, -70, -20, -92, -71, -20, -92],
    [-72, -20, -92, -73, -20, -92, -74, -20, -92, -75, -20, -92, -76, -20, -92, -77, -20, -92, -78, -20],
    [-92, -79, -20, -92, -80, -20, -92, -81, -20, -92, -82, -20, -92, -83, -20, -92, -84, -20, -92, -85],
    [-20, -92, -86, -20, -92, -87, -20, -92, -88, -20, -92, -89, -20, -92, -90, -20, -92, -91, -20, -92],
    [-92, -20, -92, -93, -20, -92, -94, -20, -92, -95, -20, -92, -96, -20, -92, -97, -20, -92, -98, -20],
    [-92, -99, -20, -92,-100, -20, -92,-101, -20, -92,-102, -20, -92,-103, -20, -92,-104, -20, -92,-105],
    [-20, -92,-106, -20, -92,-107, -20, -92,-108, -20, -92,-109, -20, -92,-110, -20, -92,-111, -20, -92],
    [-112, -20, -92,-113, -20, -92,-114, -20, -92,-115, -20, -92,-116, -20, -92,-117, -20, -92,-118, -20],
    [-92,-119, -20, -92,-120, -20, -92,-121, -20, -92,-122, -20, -92,-123, -20, -92,-124, -20, -92,-125],
    [-20, -92,-126, -20, -92,-127, -20, -92,-128, -20, -93, -65, -20, -93, -66, -20, -93, -67, -20, -93],
    [-68, -20, -93, -69, -20, -93, -70, -20, -93, -71, -20, -93, -72, -20, -93, -73, -20, -93, -74, -20],
    [-93, -75, -20, -93, -76, -20, -93, -77, -20, -93, -78, -20, -93, -79, -20, -93, -80, -20, -93, -81],
    [-20, -93, -82, -20, -93, -83, -20, -93, -84, -20, -93, -85, -20, -93, -86, -20, -93, -87, -20, -93],
    [-88, -20, -93, -89, -20, -93, -90, -20, -93, -91, -20, -93, -92, -20, -93, -93, -20, -93, -94, -20],
    [-93, -95, -20, -93, -96, -20, -93, -97, -20, -93, -98, -20, -93, -99, -20, -93,-100, -20, -93,-101],
    [-20, -93,-102, -20, -93,-103, -20, -93,-104, -20, -93,-105, -20, -93,-106, -20, -93,-107, -20, -93],
    [-108, -20, -93,-109, -20, -93,-110, -20, -93,-111, -20, -93,-112, -20, -93,-113, -20, -93,-114, -20],
    [-93,-115, -20, -93,-116, -20, -93,-117, -20, -93,-118, -20, -93,-119, -20, -93,-120, -20, -93,-121],
    [-20, -93,-122, -20, -93,-123, -20, -93,-124, -20, -93,-125, -20, -93,-126, -20, -93,-127, -20, -93],
    [-128, -20, -94, -65, -20, -94, -66, -20, -94, -67, -20, -94, -68, -20, -94, -69, -20, -94, -70, -20],
    [-94, -71, -20, -94, -72, -20, -94, -73, -20, -94, -74, -20, -94, -75, -20, -94, -76, -20, -94, -77],
    [-20, -94, -78, -20, -94, -79, -20, -94, -80, -20, -94, -81, -20, -94, -82, -20, -94, -83, -20, -94],
    [-84, -20, -94, -85, -20, -94, -86, -20, -94, -87, -20, -94, -88, -20, -94, -89, -20, -94, -90, -20],
    [-94, -91, -20, -94, -92, -20, -94, -93, -20, -94, -94, -20, -94, -95, -20, -94, -96, -20, -94, -97],
    [-20, -94, -98, -20, -94, -99, -20, -94,-100, -20, -94,-101, -20, -94,-102, -20, -94,-103, -20, -94],
    [-104, -20, -94,-105, -20, -94,-106, -20, -94,-107, -20, -94,-108, -20, -94,-109, -20, -94,-110, -20],
    [-94,-111, -20, -94,-112, -20, -94,-113, -20, -94,-114, -20, -94,-115, -20, -94,-116, -20, -94,-117],
    [-20, -94,-118, -20, -94,-119, -20, -94,-120, -20, -94,-121, -20, -94,-122, -20, -94,-123, -20, -94],
    [-124, -20, -94,-125, -20, -94,-126, -20, -94,-127, -20, -94,-128, -20, -95, -65, -20, -95, -66, -20],
    [-95, -67, -20, -95, -68, -20, -95, -69, -20, -95, -70, -20, -95, -71, -20, -95, -72, -20, -95, -73],
    [-20, -95, -74, -20, -95, -75, -20, -95, -76, -20, -95, -77, -20, -95, -78, -20, -95, -79, -20, -95],
    [-80, -20, -95, -81, -20, -95, -82, -20, -95, -83, -20, -95, -84, -20, -95, -85, -20, -95, -86, -20],
    [-95, -87, -20, -95, -88, -20, -95, -89, -20, -95, -90, -20, -95, -91, -20, -95, -92, -20, -95, -93],
    [-20, -95, -94, -20, -95, -95, -20, -95, -96, -20, -95, -97, -20, -95, -98, -20, -95, -99, -20, -95],
    [-100, -20, -95,-101, -20, -95,-102, -20, -95,-103, -20, -95,-104, -20, -95,-105, -20, -95,-106, -20],
    [-95,-107, -20, -95,-108, -20, -95,-109, -20, -95,-110, -20, -95,-111, -20, -95,-112, -20, -95,-113],
    [-20, -95,-114, -20, -95,-115, -20, -95,-116, -20, -95,-117, -20, -95,-118, -20, -95,-119, -20, -95],
    [-120, -20, -95,-121, -20, -95,-122, -20, -95,-123, -20, -95,-124, -20, -95,-125, -20, -95,-126, -20],
    [-95,-127, -20, -95,-128, -20, -96, -65, -20, -96, -66, -20, -96, -67, -20, -96, -68, -20, -96, -69],
    [-20, -96, -70, -20, -96, -71, -20, -96, -72, -20, -96, -73, -20, -96, -74, -20, -96, -75, -20, -96],
    [-76, -20, -96, -77, -20, -96, -78, -20, -96, -79, -20, -96, -80, -20, -96, -81, -20, -96, -82, -20],
    [-96, -83, -20, -96, -84, -20, -96, -85, -20, -96, -86, -20, -96, -87, -20, -96, -88, -20, -96, -89],
    [-20, -96, -90, -20, -96, -91, -20, -96, -92, -20, -96, -93, -20, -96, -94, -20, -96, -95, -20, -96],
    [-96, -20, -96, -97, -20, -96, -98, -20, -96, -99, -20, -96,-100, -20, -96,-101, -20, -96,-102, -20],
    [-96,-103, -20, -96,-104, -20, -96,-105, -20, -96,-106, -20, -96,-107, -20, -96,-108, -20, -96,-109],
    [-20, -96,-110, -20, -96,-111, -20, -96,-112, -20, -96,-113, -20, -96,-114, -20, -96,-115, -20, -96],
    [-116, -20, -96,-117, -20, -96,-118, -20, -96,-119, -20, -96,-120, -20, -96,-121, -20, -96,-122, -20],
    [-96,-123, -20, -96,-124, -20, -96,-125, -20, -96,-126, -20, -96,-127, -20, -96,-128, -20, -97, -65],
    [-20, -97, -66, -20, -97, -67, -20, -97, -68, -20, -97, -69, -20, -97, -70, -20, -97, -71, -20, -97],
    [-72, -20, -97, -73, -20, -97, -74, -20, -97, -75, -20, -97, -76, -20, -97, -77, -20, -97, -78, -20],
    [-97, -79, -20, -97, -80, -20, -97, -81, -20, -97, -82, -20, -97, -83, -20, -97, -84, -20, -97, -85],
    [-20, -97, -86, -20, -97, -87, -20, -97, -88, -20, -97, -89, -20, -97, -90, -20, -97, -91, -20, -97],
    [-92, -20, -97, -93, -20, -97, -94, -20, -97, -95, -20, -97, -96, -20, -97, -97, -20, -97, -98, -20],
    [-97, -99, -20, -97,-100, -20, -97,-101, -20, -97,-102, -20, -97,-103, -20, -97,-104, -20, -97,-105],
    [-20, -97,-106, -20, -97,-107, -20, -97,-108, -20, -97,-109, -20, -97,-110, -20, -97,-111, -20, -97],
    [-112, -20, -97,-113, -20, -97,-114, -20, -97,-115, -20, -97,-116, -20, -97,-117, -20, -97,-118, -20],
    [-97,-119, -20, -97,-120, -20, -97,-121, -20, -97,-122, -20, -97,-123, -20, -97,-124, -20, -97,-125],
    [-20, -97,-126, -20, -97,-127, -20, -97,-128, -20, -98, -65, -20, -98, -66, -20, -98, -67, -20, -98],
    [-68, -20, -98, -69, -20, -98, -70, -20, -98, -71, -20, -98, -72, -20, -98, -73, -20, -98, -74, -20],
    [-98, -75, -20, -98, -76, -20, -98, -77, -20, -98, -78, -20, -98, -79, -20, -98, -80, -20, -98, -81],
    [-20, -98, -82, -20, -98, -83, -20, -98, -84, -20, -98, -85, -20, -98, -86, -20, -98, -87, -20, -98],
    [-88, -20, -98, -89, -20, -98, -90, -20, -98, -91, -20, -98, -92, -20, -98, -93, -20, -98, -94, -20],
    [-98, -95, -20, -98, -96, -20, -98, -97, -20, -98, -98, -20, -98, -99, -20, -98,-100, -20, -98,-101],
    [-20, -98,-102, -20, -98,-103, -20, -98,-104, -20, -98,-105, -20, -98,-106, -20, -98,-107, -20, -98],
    [-108, -20, -98,-109, -20, -98,-110, -20, -98,-111, -20, -98,-112, -20, -98,-113, -20, -98,-114, -20],
    [-98,-115, -20, -98,-116, -20, -98,-117, -20, -98,-118, -20, -98,-119, -20, -98,-120, -20, -98,-121],
    [-20, -98,-122, -20, -98,-123, -20, -98,-124, -20, -98,-125, -20, -98,-126, -20, -98,-127, -20, -98],
    [-128, -20, -99, -65, -20, -99, -66, -20, -99, -67, -20, -99, -68, -20, -99, -69, -20, -99, -70, -20],
    [-99, -71, -20, -99, -72, -20, -99, -73, -20, -99, -74, -20, -99, -75, -20, -99, -76, -20, -99, -77],
    [-20, -99, -78, -20, -99, -79, -20, -99, -80, -20, -99, -81, -20, -99, -82, -20, -99, -83, -20, -99],
    [-84, -20, -99, -85, -20, -99, -86, -20, -99, -87, -20, -99, -88, -20, -99, -89, -20, -99, -90, -20],
    [-99, -91, -20, -99, -92, -20, -99, -93, -20, -99, -94, -20, -99, -95, -20, -99, -96, -20, -99, -97],
    [-20, -99, -98, -20, -99, -99, -20, -99,-100, -20, -99,-101, -20, -99,-102, -20, -99,-103, -20, -99],
    [-104, -20, -99,-105, -20, -99,-106, -20, -99,-107, -20, -99,-108, -20, -99,-109, -20, -99,-110, -20],
    [-99,-111, -20, -99,-112, -20, -99,-113, -20, -99,-114, -20, -99,-115, -20, -99,-116, -20, -99,-117],
    [-20, -99,-118, -20, -99,-119, -20, -99,-120, -20, -99,-121, -20, -99,-122, -20, -99,-123, -20, -99],
    [-124, -20, -99,-125, -20, -99,-126, -20, -99,-127, -20, -99,-128, -20,-100, -65, -20,-100, -66, -20],
    [-100, -67, -20,-100, -68, -20,-100, -69, -20,-100, -70, -20,-100, -71, -20,-100, -72, -20,-100, -73],
    [-20,-100, -74, -20,-100, -75, -20,-100, -76, -20,-100, -77, -20,-100, -78, -20,-100, -79, -20,-100],
    [-80, -20,-100, -81, -20,-100, -82, -20,-100, -83, -20,-100, -84, -20,-100, -85, -20,-100, -86, -20],
    [-100, -87, -20,-100, -88, -20,-100, -89, -20,-100, -90, -20,-100, -91, -20,-100, -92, -20,-100, -93],
    [-20,-100, -94, -20,-100, -95, -20,-100, -96, -20,-100, -97, -20,-100, -98, -20,-100, -99, -20,-100],
    [-100, -20,-100,-101, -20,-100,-102, -20,-100,-103, -20,-100,-104, -20,-100,-105, -20,-100,-106, -20],
    [-100,-107, -20,-100,-108, -20,-100,-109, -20,-100,-110, -20,-100,-111, -20,-100,-112, -20,-100,-113],
    [-20,-100,-114, -20,-100,-115, -20,-100,-116, -20,-100,-117, -20,-100,-118, -20,-100,-119, -20,-100],
    [-120, -20,-100,-121, -20,-100,-122, -20,-100,-123, -20,-100,-124, -20,-100,-125, -20,-100,-126, -20],
    [-100,-127, -20,-100,-128, -20,-101, -65, -20,-101, -66, -20,-101, -67, -20,-101, -68, -20,-101, -69],
    [-20,-101, -70, -20,-101, -71, -20,-101, -72, -20,-101, -73, -20,-101, -74, -20,-101, -75, -20,-101],
    [-76, -20,-101, -77, -20,-101, -78, -20,-101, -79, -20,-101, -80, -20,-101, -81, -20,-101, -82, -20],
    [-101, -83, -20,-101, -84, -20,-101, -85, -20,-101, -86, -20,-101, -87, -20,-101, -88, -20,-101, -89],
    [-20,-101, -90, -20,-101, -91, -20,-101, -92, -20,-101, -93, -20,-101, -94, -20,-101, -95, -20,-101]]"

definition STRINGS_06 :: "int list list" where
  "STRINGS_06 = [
    [-96, -20,-101, -97, -20,-101, -98, -20,-101, -99, -20,-101,-100, -20,-101,-101, -20,-101,-102, -20],
    [-101,-103, -20,-101,-104, -20,-101,-105, -20,-101,-106, -20,-101,-107, -20,-101,-108, -20,-101,-109],
    [-20,-101,-110, -20,-101,-111, -20,-101,-112, -20,-101,-113, -20,-101,-114, -20,-101,-115, -20,-101],
    [-116, -20,-101,-117, -20,-101,-118, -20,-101,-119, -20,-101,-120, -20,-101,-121, -20,-101,-122, -20],
    [-101,-123, -20,-101,-124, -20,-101,-125, -20,-101,-126, -20,-101,-127, -20,-101,-128, -20,-102, -65],
    [-20,-102, -66, -20,-102, -67, -20,-102, -68, -20,-102, -69, -20,-102, -70, -20,-102, -71, -20,-102],
    [-72, -20,-102, -73, -20,-102, -74, -20,-102, -75, -20,-102, -76, -20,-102, -77, -20,-102, -78, -20],
    [-102, -79, -20,-102, -80, -20,-102, -81, -20,-102, -82, -20,-102, -83, -20,-102, -84, -20,-102, -85],
    [-20,-102, -86, -20,-102, -87, -20,-102, -88, -20,-102, -89, -20,-102, -90, -20,-102, -91, -20,-102],
    [-92, -20,-102, -93, -20,-102, -94, -20,-102, -95, -20,-102, -96, -20,-102, -97, -20,-102, -98, -20],
    [-102, -99, -20,-102,-100, -20,-102,-101, -20,-102,-102, -20,-102,-103, -20,-102,-104, -20,-102,-105],
    [-20,-102,-106, -20,-102,-107, -20,-102,-108, -20,-102,-109, -20,-102,-110, -20,-102,-111, -20,-102],
    [-112, -20,-102,-113, -20,-102,-114, -20,-102,-115, -20,-102,-116, -20,-102,-117, -20,-102,-118, -20],
    [-102,-119, -20,-102,-120, -20,-102,-121, -20,-102,-122, -20,-102,-123, -20,-102,-124, -20,-102,-125],
    [-20,-102,-126, -20,-102,-127, -20,-102,-128, -20,-103, -65, -20,-103, -66, -20,-103, -67, -20,-103],
    [-68, -20,-103, -69, -20,-103, -70, -20,-103, -71, -20,-103, -72, -20,-103, -73, -20,-103, -74, -20],
    [-103, -75, -20,-103, -76, -20,-103, -77, -20,-103, -78, -20,-103, -79, -20,-103, -80, -20,-103, -81],
    [-20,-103, -82, -20,-103, -83, -20,-103, -84, -20,-103, -85, -20,-103, -86, -20,-103, -87, -20,-103],
    [-88, -20,-103, -89, -20,-103, -90, -20,-103, -91, -20,-103, -92, -20,-103, -93, -20,-103, -94, -20],
    [-103, -95, -20,-103, -96, -20,-103, -97, -20,-103, -98, -20,-103, -99, -20,-103,-100, -20,-103,-101],
    [-20,-103,-102, -20,-103,-103, -20,-103,-104, -20,-103,-105, -20,-103,-106, -20,-103,-107, -20,-103],
    [-108, -20,-103,-109, -20,-103,-110, -20,-103,-111, -20,-103,-112, -20,-103,-113, -20,-103,-114, -20],
    [-103,-115, -20,-103,-116, -20,-103,-117, -20,-103,-118, -20,-103,-119, -20,-103,-120, -20,-103,-121],
    [-20,-103,-122, -20,-103,-123, -20,-103,-124, -20,-103,-125, -20,-103,-126, -20,-103,-127, -20,-103],
    [-128, -20,-104, -65, -20,-104, -66, -20,-104, -67, -20,-104, -68, -20,-104, -69, -20,-104, -70, -20],
    [-104, -71, -20,-104, -72, -20,-104, -73, -20,-104, -74, -20,-104, -75, -20,-104, -76, -20,-104, -77],
    [-20,-104, -78, -20,-104, -79, -20,-104, -80, -20,-104, -81, -20,-104, -82, -20,-104, -83, -20,-104],
    [-84, -20,-104, -85, -20,-104, -86, -20,-104, -87, -20,-104, -88, -20,-104, -89, -20,-104, -90, -20],
    [-104, -91, -20,-104, -92, -20,-104, -93, -20,-104, -94, -20,-104, -95, -20,-104, -96, -20,-104, -97],
    [-20,-104, -98, -20,-104, -99, -20,-104,-100, -20,-104,-101, -20,-104,-102, -20,-104,-103, -20,-104],
    [-104, -20,-104,-105, -20,-104,-106, -20,-104,-107, -20,-104,-108, -20,-104,-109, -20,-104,-110, -20],
    [-104,-111, -20,-104,-112, -20,-104,-113, -20,-104,-114, -20,-104,-115, -20,-104,-116, -20,-104,-117],
    [-20,-104,-118, -20,-104,-119, -20,-104,-120, -20,-104,-121, -20,-104,-122, -20,-104,-123, -20,-104],
    [-124, -20,-104,-125, -20,-104,-126, -20,-104,-127, -20,-104,-128, -20,-105, -65, -20,-105, -66, -20],
    [-105, -67, -20,-105, -68, -20,-105, -69, -20,-105, -70, -20,-105, -71, -20,-105, -72, -20,-105, -73],
    [-20,-105, -74, -20,-105, -75, -20,-105, -76, -20,-105, -77, -20,-105, -78, -20,-105, -79, -20,-105],
    [-80, -20,-105, -81, -20,-105, -82, -20,-105, -83, -20,-105, -84, -20,-105, -85, -20,-105, -86, -20],
    [-105, -87, -20,-105, -88, -20,-105, -89, -20,-105, -90, -20,-105, -91, -20,-105, -92, -20,-105, -93],
    [-20,-105, -94, -20,-105, -95, -20,-105, -96, -20,-105, -97, -20,-105, -98, -20,-105, -99, -20,-105],
    [-100, -20,-105,-101, -20,-105,-102, -20,-105,-103, -20,-105,-104, -20,-105,-105, -20,-105,-106, -20],
    [-105,-107, -20,-105,-108, -20,-105,-109, -20,-105,-110, -20,-105,-111, -20,-105,-112, -20,-105,-113],
    [-20,-105,-114, -20,-105,-115, -20,-105,-116, -20,-105,-117, -20,-105,-118, -20,-105,-119, -20,-105],
    [-120, -20,-105,-121, -20,-105,-122, -20,-105,-123, -20,-105,-124, -20,-105,-125, -20,-105,-126, -20],
    [-105,-127, -20,-105,-128, -20,-106, -65, -20,-106, -66, -20,-106, -67, -20,-106, -68, -20,-106, -69],
    [-20,-106, -70, -20,-106, -71, -20,-106, -72, -20,-106, -73, -20,-106, -74, -20,-106, -75, -20,-106],
    [-76, -20,-106, -77, -20,-106, -78, -20,-106, -79, -20,-106, -80, -20,-106, -81, -20,-106, -82, -20],
    [-106, -83, -20,-106, -84, -20,-106, -85, -20,-106, -86, -20,-106, -87, -20,-106, -88, -20,-106, -89],
    [-20,-106, -90, -20,-106, -91, -20,-106, -92, -20,-106, -93, -20,-106, -94, -20,-106, -95, -20,-106],
    [-96, -20,-106, -97, -20,-106, -98, -20,-106, -99, -20,-106,-100, -20,-106,-101, -20,-106,-102, -20],
    [-106,-103, -20,-106,-104, -20,-106,-105, -20,-106,-106, -20,-106,-107, -20,-106,-108, -20,-106,-109],
    [-20,-106,-110, -20,-106,-111, -20,-106,-112, -20,-106,-113, -20,-106,-114, -20,-106,-115, -20,-106],
    [-116, -20,-106,-117, -20,-106,-118, -20,-106,-119, -20,-106,-120, -20,-106,-121, -20,-106,-122, -20],
    [-106,-123, -20,-106,-124, -20,-106,-125, -20,-106,-126, -20,-106,-127, -20,-106,-128, -20,-107, -65],
    [-20,-107, -66, -20,-107, -67, -20,-107, -68, -20,-107, -69, -20,-107, -70, -20,-107, -71, -20,-107],
    [-72, -20,-107, -73, -20,-107, -74, -20,-107, -75, -20,-107, -76, -20,-107, -77, -20,-107, -78, -20],
    [-107, -79, -20,-107, -80, -20,-107, -81, -20,-107, -82, -20,-107, -83, -20,-107, -84, -20,-107, -85],
    [-20,-107, -86, -20,-107, -87, -20,-107, -88, -20,-107, -89, -20,-107, -90, -20,-107, -91, -20,-107],
    [-92, -20,-107, -93, -20,-107, -94, -20,-107, -95, -20,-107, -96, -20,-107, -97, -20,-107, -98, -20],
    [-107, -99, -20,-107,-100, -20,-107,-101, -20,-107,-102, -20,-107,-103, -20,-107,-104, -20,-107,-105],
    [-20,-107,-106, -20,-107,-107, -20,-107,-108, -20,-107,-109, -20,-107,-110, -20,-107,-111, -20,-107],
    [-112, -20,-107,-113, -20,-107,-114, -20,-107,-115, -20,-107,-116, -20,-107,-117, -20,-107,-118, -20],
    [-107,-119, -20,-107,-120, -20,-107,-121, -20,-107,-122, -20,-107,-123, -20,-107,-124, -20,-107,-125],
    [-20,-107,-126, -20,-107,-127, -20,-107,-128, -20,-108, -65, -20,-108, -66, -20,-108, -67, -20,-108],
    [-68, -20,-108, -69, -20,-108, -70, -20,-108, -71, -20,-108, -72, -20,-108, -73, -20,-108, -74, -20],
    [-108, -75, -20,-108, -76, -20,-108, -77, -20,-108, -78, -20,-108, -79, -20,-108, -80, -20,-108, -81],
    [-20,-108, -82, -20,-108, -83, -20,-108, -84, -20,-108, -85, -20,-108, -86, -20,-108, -87, -20,-108],
    [-88, -20,-108, -89, -20,-108, -90, -20,-108, -91, -20,-108, -92, -20,-108, -93, -20,-108, -94, -20],
    [-108, -95, -20,-108, -96, -20,-108, -97, -20,-108, -98, -20,-108, -99, -20,-108,-100, -20,-108,-101],
    [-20,-108,-102, -20,-108,-103, -20,-108,-104, -20,-108,-105, -20,-108,-106, -20,-108,-107, -20,-108],
    [-108, -20,-108,-109, -20,-108,-110, -20,-108,-111, -20,-108,-112, -20,-108,-113, -20,-108,-114, -20],
    [-108,-115, -20,-108,-116, -20,-108,-117, -20,-108,-118, -20,-108,-119, -20,-108,-120, -20,-108,-121],
    [-20,-108,-122, -20,-108,-123, -20,-108,-124, -20,-108,-125, -20,-108,-126, -20,-108,-127, -20,-108],
    [-128, -20,-109, -65, -20,-109, -66, -20,-109, -67, -20,-109, -68, -20,-109, -69, -20,-109, -70, -20],
    [-109, -71, -20,-109, -72, -20,-109, -73, -20,-109, -74, -20,-109, -75, -20,-109, -76, -20,-109, -77],
    [-20,-109, -78, -20,-109, -79, -20,-109, -80, -20,-109, -81, -20,-109, -82, -20,-109, -83, -20,-109],
    [-84, -20,-109, -85, -20,-109, -86, -20,-109, -87, -20,-109, -88, -20,-109, -89, -20,-109, -90, -20],
    [-109, -91, -20,-109, -92, -20,-109, -93, -20,-109, -94, -20,-109, -95, -20,-109, -96, -20,-109, -97],
    [-20,-109, -98, -20,-109, -99, -20,-109,-100, -20,-109,-101, -20,-109,-102, -20,-109,-103, -20,-109],
    [-104, -20,-109,-105, -20,-109,-106, -20,-109,-107, -20,-109,-108, -20,-109,-109, -20,-109,-110, -20],
    [-109,-111, -20,-109,-112, -20,-109,-113, -20,-109,-114, -20,-109,-115, -20,-109,-116, -20,-109,-117],
    [-20,-109,-118, -20,-109,-119, -20,-109,-120, -20,-109,-121, -20,-109,-122, -20,-109,-123, -20,-109],
    [-124, -20,-109,-125, -20,-109,-126, -20,-109,-127, -20,-109,-128, -20,-110, -65, -20,-110, -66, -20],
    [-110, -67, -20,-110, -68, -20,-110, -69, -20,-110, -70, -20,-110, -71, -20,-110, -72, -20,-110, -73],
    [-20,-110, -74, -20,-110, -75, -20,-110, -76, -20,-110, -77, -20,-110, -78, -20,-110, -79, -20,-110],
    [-80, -20,-110, -81, -20,-110, -82, -20,-110, -83, -20,-110, -84, -20,-110, -85, -20,-110, -86, -20],
    [-110, -87, -20,-110, -88, -20,-110, -89, -20,-110, -90, -20,-110, -91, -20,-110, -92, -20,-110, -93],
    [-20,-110, -94, -20,-110, -95, -20,-110, -96, -20,-110, -97, -20,-110, -98, -20,-110, -99, -20,-110],
    [-100, -20,-110,-101, -20,-110,-102, -20,-110,-103, -20,-110,-104, -20,-110,-105, -20,-110,-106, -20],
    [-110,-107, -20,-110,-108, -20,-110,-109, -20,-110,-110, -20,-110,-111, -20,-110,-112, -20,-110,-113],
    [-20,-110,-114, -20,-110,-115, -20,-110,-116, -20,-110,-117, -20,-110,-118, -20,-110,-119, -20,-110],
    [-120, -20,-110,-121, -20,-110,-122, -20,-110,-123, -20,-110,-124, -20,-110,-125, -20,-110,-126, -20],
    [-110,-127, -20,-110,-128, -20,-111, -65, -20,-111, -66, -20,-111, -67, -20,-111, -68, -20,-111, -69],
    [-20,-111, -70, -20,-111, -71, -20,-111, -72, -20,-111, -73, -20,-111, -74, -20,-111, -75, -20,-111],
    [-76, -20,-111, -77, -20,-111, -78, -20,-111, -79, -20,-111, -80, -20,-111, -81, -20,-111, -82, -20],
    [-111, -83, -20,-111, -84, -20,-111, -85, -20,-111, -86, -20,-111, -87, -20,-111, -88, -20,-111, -89],
    [-20,-111, -90, -20,-111, -91, -20,-111, -92, -20,-111, -93, -20,-111, -94, -20,-111, -95, -20,-111],
    [-96, -20,-111, -97, -20,-111, -98, -20,-111, -99, -20,-111,-100, -20,-111,-101, -20,-111,-102, -20],
    [-111,-103, -20,-111,-104, -20,-111,-105, -20,-111,-106, -20,-111,-107, -20,-111,-108, -20,-111,-109],
    [-20,-111,-110, -20,-111,-111, -20,-111,-112, -20,-111,-113, -20,-111,-114, -20,-111,-115, -20,-111],
    [-116, -20,-111,-117, -20,-111,-118, -20,-111,-119, -20,-111,-120, -20,-111,-121, -20,-111,-122, -20],
    [-111,-123, -20,-111,-124, -20,-111,-125, -20,-111,-126, -20,-111,-127, -20,-111,-128, -20,-112, -65],
    [-20,-112, -66, -20,-112, -67, -20,-112, -68, -20,-112, -69, -20,-112, -70, -20,-112, -71, -20,-112],
    [-72, -20,-112, -73, -20,-112, -74, -20,-112, -75, -20,-112, -76, -20,-112, -77, -20,-112, -78, -20],
    [-112, -79, -20,-112, -80, -20,-112, -81, -20,-112, -82, -20,-112, -83, -20,-112, -84, -20,-112, -85],
    [-20,-112, -86, -20,-112, -87, -20,-112, -88, -20,-112, -89, -20,-112, -90, -20,-112, -91, -20,-112],
    [-92, -20,-112, -93, -20,-112, -94, -20,-112, -95, -20,-112, -96, -20,-112, -97, -20,-112, -98, -20],
    [-112, -99, -20,-112,-100, -20,-112,-101, -20,-112,-102, -20,-112,-103, -20,-112,-104, -20,-112,-105],
    [-20,-112,-106, -20,-112,-107, -20,-112,-108, -20,-112,-109, -20,-112,-110, -20,-112,-111, -20,-112],
    [-112, -20,-112,-113, -20,-112,-114, -20,-112,-115, -20,-112,-116, -20,-112,-117, -20,-112,-118, -20],
    [-112,-119, -20,-112,-120, -20,-112,-121, -20,-112,-122, -20,-112,-123, -20,-112,-124, -20,-112,-125],
    [-20,-112,-126, -20,-112,-127, -20,-112,-128, -20,-113, -65, -20,-113, -66, -20,-113, -67, -20,-113],
    [-68, -20,-113, -69, -20,-113, -70, -20,-113, -71, -20,-113, -72, -20,-113, -73, -20,-113, -74, -20],
    [-113, -75, -20,-113, -76, -20,-113, -77, -20,-113, -78, -20,-113, -79, -20,-113, -80, -20,-113, -81],
    [-20,-113, -82, -20,-113, -83, -20,-113, -84, -20,-113, -85, -20,-113, -86, -20,-113, -87, -20,-113],
    [-88, -20,-113, -89, -20,-113, -90, -20,-113, -91, -20,-113, -92, -20,-113, -93, -20,-113, -94, -20],
    [-113, -95, -20,-113, -96, -20,-113, -97, -20,-113, -98, -20,-113, -99, -20,-113,-100, -20,-113,-101],
    [-20,-113,-102, -20,-113,-103, -20,-113,-104, -20,-113,-105, -20,-113,-106, -20,-113,-107, -20,-113],
    [-108, -20,-113,-109, -20,-113,-110, -20,-113,-111, -20,-113,-112, -20,-113,-113, -20,-113,-114, -20],
    [-113,-115, -20,-113,-116, -20,-113,-117, -20,-113,-118, -20,-113,-119, -20,-113,-120, -20,-113,-121],
    [-20,-113,-122, -20,-113,-123, -20,-113,-124, -20,-113,-125, -20,-113,-126, -20,-113,-127, -20,-113],
    [-128, -20,-114, -65, -20,-114, -66, -20,-114, -67, -20,-114, -68, -20,-114, -69, -20,-114, -70, -20],
    [-114, -71, -20,-114, -72, -20,-114, -73, -20,-114, -74, -20,-114, -75, -20,-114, -76, -20,-114, -77],
    [-20,-114, -78, -20,-114, -79, -20,-114, -80, -20,-114, -81, -20,-114, -82, -20,-114, -83, -20,-114],
    [-84, -20,-114, -85, -20,-114, -86, -20,-114, -87, -20,-114, -88, -20,-114, -89, -20,-114, -90, -20],
    [-114, -91, -20,-114, -92, -20,-114, -93, -20,-114, -94, -20,-114, -95, -20,-114, -96, -20,-114, -97],
    [-20,-114, -98, -20,-114, -99, -20,-114,-100, -20,-114,-101, -20,-114,-102, -20,-114,-103, -20,-114],
    [-104, -20,-114,-105, -20,-114,-106, -20,-114,-107, -20,-114,-108, -20,-114,-109, -20,-114,-110, -20],
    [-114,-111, -20,-114,-112, -20,-114,-113, -20,-114,-114, -20,-114,-115, -20,-114,-116, -20,-114,-117],
    [-20,-114,-118, -20,-114,-119, -20,-114,-120, -20,-114,-121, -20,-114,-122, -20,-114,-123, -20,-114],
    [-124, -20,-114,-125, -20,-114,-126, -20,-114,-127, -20,-114,-128, -20,-115, -65, -20,-115, -66, -20],
    [-115, -67, -20,-115, -68, -20,-115, -69, -20,-115, -70, -20,-115, -71, -20,-115, -72, -20,-115, -73],
    [-20,-115, -74, -20,-115, -75, -20,-115, -76, -20,-115, -77, -20,-115, -78, -20,-115, -79, -20,-115],
    [-80, -20,-115, -81, -20,-115, -82, -20,-115, -83, -20,-115, -84, -20,-115, -85, -20,-115, -86, -20],
    [-115, -87, -20,-115, -88, -20,-115, -89, -20,-115, -90, -20,-115, -91, -20,-115, -92, -20,-115, -93],
    [-20,-115, -94, -20,-115, -95, -20,-115, -96, -20,-115, -97, -20,-115, -98, -20,-115, -99, -20,-115],
    [-100, -20,-115,-101, -20,-115,-102, -20,-115,-103, -20,-115,-104, -20,-115,-105, -20,-115,-106, -20],
    [-115,-107, -20,-115,-108, -20,-115,-109, -20,-115,-110, -20,-115,-111, -20,-115,-112, -20,-115,-113],
    [-20,-115,-114, -20,-115,-115, -20,-115,-116, -20,-115,-117, -20,-115,-118, -20,-115,-119, -20,-115],
    [-120, -20,-115,-121, -20,-115,-122, -20,-115,-123, -20,-115,-124, -20,-115,-125, -20,-115,-126, -20],
    [-115,-127, -20,-115,-128, -20,-116, -65, -20,-116, -66, -20,-116, -67, -20,-116, -68, -20,-116, -69],
    [-20,-116, -70, -20,-116, -71, -20,-116, -72, -20,-116, -73, -20,-116, -74, -20,-116, -75, -20,-116],
    [-76, -20,-116, -77, -20,-116, -78, -20,-116, -79, -20,-116, -80, -20,-116, -81, -20,-116, -82, -20],
    [-116, -83, -20,-116, -84, -20,-116, -85, -20,-116, -86, -20,-116, -87, -20,-116, -88, -20,-116, -89],
    [-20,-116, -90, -20,-116, -91, -20,-116, -92, -20,-116, -93, -20,-116, -94, -20,-116, -95, -20,-116]]"

end
