(* ===== verification/Table_Strings_2.thy ===== *)
theory Table_Strings_2
  imports Main
begin

text \<open>
  Lines 7309 to 8316 of \<open>unf/table.hh\<close>: part of the array \<open>STRINGS\<close>, one list per line of the source.
\<close>

definition STRINGS_07 :: "int list list" where
  "STRINGS_07 = [
    [-96, -20,-116, -97, -20,-116, -98, -20,-116, -99, -20,-116,-100, -20,-116,-101, -20,-116,-102, -20],
    [-116,-103, -20,-116,-104, -20,-116,-105, -20,-116,-106, -20,-116,-107, -20,-116,-108, -20,-116,-109],
    [-20,-116,-110, -20,-116,-111, -20,-116,-112, -20,-116,-113, -20,-116,-114, -20,-116,-115, -20,-116],
    [-116, -20,-116,-117, -20,-116,-118, -20,-116,-119, -20,-116,-120, -20,-116,-121, -20,-116,-122, -20],
    [-116,-123, -20,-116,-124, -20,-116,-125, -20,-116,-126, -20,-116,-127, -20,-116,-128, -20,-117, -65],
    [-20,-117, -66, -20,-117, -67, -20,-117, -68, -20,-117, -69, -20,-117, -70, -20,-117, -71, -20,-117],
    [-72, -20,-117, -73, -20,-117, -74, -20,-117, -75, -20,-117, -76, -20,-117, -77, -20,-117, -78, -20],
    [-117, -79, -20,-117, -80, -20,-117, -81, -20,-117, -82, -20,-117, -83, -20,-117, -84, -20,-117, -85],
    [-20,-117, -86, -20,-117, -87, -20,-117, -88, -20,-117, -89, -20,-117, -90, -20,-117, -91, -20,-117],
    [-92, -20,-117, -93, -20,-117, -94, -20,-117, -95, -20,-117, -96, -20,-117, -97, -20,-117, -98, -20],
    [-117, -99, -20,-117,-100, -20,-117,-101, -20,-117,-102, -20,-117,-103, -20,-117,-104, -20,-117,-105],
    [-20,-117,-106, -20,-117,-107, -20,-117,-108, -20,-117,-109, -20,-117,-110, -20,-117,-111, -20,-117],
    [-112, -20,-117,-113, -20,-117,-114, -20,-117,-115, -20,-117,-116, -20,-117,-117, -20,-117,-118, -20],
    [-117,-119, -20,-117,-120, -20,-117,-121, -20,-117,-122, -20,-117,-123, -20,-117,-124, -20,-117,-125],
    [-20,-117,-126, -20,-117,-127, -20,-117,-128, -20,-118, -65, -20,-118, -66, -20,-118, -67, -20,-118],
    [-68, -20,-118, -69, -20,-118, -70, -20,-118, -71, -20,-118, -72, -20,-118, -73, -20,-118, -74, -20],
    [-118, -75, -20,-118, -76, -20,-118, -77, -20,-118, -78, -20,-118, -79, -20,-118, -80, -20,-118, -81],
    [-20,-118, -82, -20,-118, -83, -20,-118, -84, -20,-118, -85, -20,-118, -86, -20,-118, -87, -20,-118],
    [-88, -20,-118, -89, -20,-118, -90, -20,-118, -91, -20,-118, -92, -20,-118, -93, -20,-118, -94, -20],
    [-118, -95, -20,-118, -96, -20,-118, -97, -20,-118, -98, -20,-118, -99, -20,-118,-100, -20,-118,-101],
    [-20,-118,-102, -20,-118,-103, -20,-118,-104, -20,-118,-105, -20,-118,-106, -20,-118,-107, -20,-118],
    [-108, -20,-118,-109, -20,-118,-110, -20,-118,-111, -20,-118,-112, -20,-118,-113, -20,-118,-114, -20],
    [-118,-115, -20,-118,-116, -20,-118,-117, -20,-118,-118, -20,-118,-119, -20,-118,-120, -20,-118,-121],
    [-20,-118,-122, -20,-118,-123, -20,-118,-124, -20,-118,-125, -20,-118,-126, -20,-118,-127, -20,-118],
    [-128, -20,-119, -65, -20,-119, -66, -20,-119, -67, -20,-119, -68, -20,-119, -69, -20,-119, -70, -20],
    [-119, -71, -20,-119, -72, -20,-119, -73, -20,-119, -74, -20,-119, -75, -20,-119, -76, -20,-119, -77],
    [-20,-119, -78, -20,-119, -79, -20,-119, -80, -20,-119, -81, -20,-119, -82, -20,-119, -83, -20,-119],
    [-84, -20,-119, -85, -20,-119, -86, -20,-119, -87, -20,-119, -88, -20,-119, -89, -20,-119, -90, -20],
    [-119, -91, -20,-119, -92, -20,-119, -93, -20,-119, -94, -20,-119, -95, -20,-119, -96, -20,-119, -97],
    [-20,-119, -98, -20,-119, -99, -20,-119,-100, -20,-119,-101, -20,-119,-102, -20,-119,-103, -20,-119],
    [-104, -20,-119,-105, -20,-119,-106, -20,-119,-107, -20,-119,-108, -20,-119,-109, -20,-119,-110, -20],
    [-119,-111, -20,-119,-112, -20,-119,-113, -20,-119,-114, -20,-119,-115, -20,-119,-116, -20,-119,-117],
    [-20,-119,-118, -20,-119,-119, -20,-119,-120, -20,-119,-121, -20,-119,-122, -20,-119,-123, -20,-119],
    [-124, -20,-119,-125, -20,-119,-126, -20,-119,-127, -20,-119,-128, -20,-120, -65, -20,-120, -66, -20],
    [-120, -67, -20,-120, -68, -20,-120, -69, -20,-120, -70, -20,-120, -71, -20,-120, -72, -20,-120, -73],
    [-20,-120, -74, -20,-120, -75, -20,-120, -76, -20,-120, -77, -20,-120, -78, -20,-120, -79, -20,-120],
    [-80, -20,-120, -81, -20,-120, -82, -20,-120, -83, -20,-120, -84, -20,-120, -85, -20,-120, -86, -20],
    [-120, -87, -20,-120, -88, -20,-120, -89, -20,-120, -90, -20,-120, -91, -20,-120, -92, -20,-120, -93],
    [-20,-120, -94, -20,-120, -95, -20,-120, -96, -20,-120, -97, -20,-120, -98, -20,-120, -99, -20,-120],
    [-100, -20,-120,-101, -20,-120,-102, -20,-120,-103, -20,-120,-104, -20,-120,-105, -20,-120,-106, -20],
    [-120,-107, -20,-120,-108, -20,-120,-109, -20,-120,-110, -20,-120,-111, -20,-120,-112, -20,-120,-113],
    [-20,-120,-114, -20,-120,-115, -20,-120,-116, -20,-120,-117, -20,-120,-118, -20,-120,-119, -20,-120],
    [-120, -20,-120,-121, -20,-120,-122, -20,-120,-123, -20,-120,-124, -20,-120,-125, -20,-120,-126, -20],
    [-120,-127, -20,-120,-128, -20,-121, -65, -20,-121, -66, -20,-121, -67, -20,-121, -68, -20,-121, -69],
    [-20,-121, -70, -20,-121, -71, -20,-121, -72, -20,-121, -73, -20,-121, -74, -20,-121, -75, -20,-121],
    [-76, -20,-121, -77, -20,-121, -78, -20,-121, -79, -20,-121, -80, -20,-121, -81, -20,-121, -82, -20],
    [-121, -83, -20,-121, -84, -20,-121, -85, -20,-121, -86, -20,-121, -87, -20,-121, -88, -20,-121, -89],
    [-20,-121, -90, -20,-121, -91, -20,-121, -92, -20,-121, -93, -20,-121, -94, -20,-121, -95, -20,-121],
    [-96, -20,-121, -97, -20,-121, -98, -20,-121, -99, -20,-121,-100, -20,-121,-101, -20,-121,-102, -20],
    [-121,-103, -20,-121,-104, -20,-121,-105, -20,-121,-106, -20,-121,-107, -20,-121,-108, -20,-121,-109],
    [-20,-121,-110, -20,-121,-111, -20,-121,-112, -20,-121,-113, -20,-121,-114, -20,-121,-115, -20,-121],
    [-116, -20,-121,-117, -20,-121,-118, -20,-121,-119, -20,-121,-120, -20,-121,-121, -20,-121,-122, -20],
    [-121,-123, -20,-121,-124, -20,-121,-125, -20,-121,-126, -20,-121,-127, -20,-121,-128, -20,-122, -65],
    [-20,-122, -66, -20,-122, -67, -20,-122, -68, -20,-122, -69, -20,-122, -70, -20,-122, -71, -20,-122],
    [-72, -20,-122, -73, -20,-122, -74, -20,-122, -75, -20,-122, -76, -20,-122, -77, -20,-122, -78, -20],
    [-122, -79, -20,-122, -80, -20,-122, -81, -20,-122, -82, -20,-122, -83, -20,-122, -84, -20,-122, -85],
    [-20,-122, -86, -20,-122, -87, -20,-122, -88, -20,-122, -89, -20,-122, -90, -20,-122, -91, -20,-122],
    [-92, -20,-122, -93, -20,-122, -94, -20,-122, -95, -20,-122, -96, -20,-122, -97, -20,-122, -98, -20],
    [-122, -99, -20,-122,-100, -20,-122,-101, -20,-122,-102, -20,-122,-103, -20,-122,-104, -20,-122,-105],
    [-20,-122,-106, -20,-122,-107, -20,-122,-108, -20,-122,-109, -20,-122,-110, -20,-122,-111, -20,-122],
    [-112, -20,-122,-113, -20,-122,-114, -20,-122,-115, -20,-122,-116, -20,-122,-117, -20,-122,-118, -20],
    [-122,-119, -20,-122,-120, -20,-122,-121, -20,-122,-122, -20,-122,-123, -20,-122,-124, -20,-122,-125],
    [-20,-122,-126, -20,-122,-127, -20,-122,-128, -20,-123, -65, -20,-123, -66, -20,-123, -67, -20,-123],
    [-68, -20,-123, -69, -20,-123, -70, -20,-123, -71, -20,-123, -72, -20,-123, -73, -20,-123, -74, -20],
    [-123, -75, -20,-123, -76, -20,-123, -77, -20,-123, -78, -20,-123, -79, -20,-123, -80, -20,-123, -81],
    [-20,-123, -82, -20,-123, -83, -20,-123, -84, -20,-123, -85, -20,-123, -86, -20,-123, -87, -20,-123],
    [-88, -20,-123, -89, -20,-123, -90, -20,-123, -91, -20,-123, -92, -20,-123, -93, -20,-123, -94, -20],
    [-123, -95, -20,-123, -96, -20,-123, -97, -20,-123, -98, -20,-123, -99, -20,-123,-100, -20,-123,-101],
    [-20,-123,-102, -20,-123,-103, -20,-123,-104, -20,-123,-105, -20,-123,-106, -20,-123,-107, -20,-123],
    [-108, -20,-123,-109, -20,-123,-110, -20,-123,-111, -20,-123,-112, -20,-123,-113, -20,-123,-114, -20],
    [-123,-115, -20,-123,-116, -20,-123,-117, -20,-123,-118, -20,-123,-119, -20,-123,-120, -20,-123,-121],
    [-20,-123,-122, -20,-123,-123, -20,-123,-124, -20,-123,-125, -20,-123,-126, -20,-123,-127, -20,-123],
    [-128, -20,-124, -65, -20,-124, -66, -20,-124, -67, -20,-124, -68, -20,-124, -69, -20,-124, -70, -20],
    [-124, -71, -20,-124, -72, -20,-124, -73, -20,-124, -74, -20,-124, -75, -20,-124, -76, -20,-124, -77],
    [-20,-124, -78, -20,-124, -79, -20,-124, -80, -20,-124, -81, -20,-124, -82, -20,-124, -83, -20,-124],
    [-84, -20,-124, -85, -20,-124, -86, -20,-124, -87, -20,-124, -88, -20,-124, -89, -20,-124, -90, -20],
    [-124, -91, -20,-124, -92, -20,-124, -93, -20,-124, -94, -20,-124, -95, -20,-124, -96, -20,-124, -97],
    [-20,-124, -98, -20,-124, -99, -20,-124,-100, -20,-124,-101, -20,-124,-102, -20,-124,-103, -20,-124],
    [-104, -20,-124,-105, -20,-124,-106, -20,-124,-107, -20,-124,-108, -20,-124,-109, -20,-124,-110, -20],
    [-124,-111, -20,-124,-112, -20,-124,-113, -20,-124,-114, -20,-124,-115, -20,-124,-116, -20,-124,-117],
    [-20,-124,-118, -20,-124,-119, -20,-124,-120, -20,-124,-121, -20,-124,-122, -20,-124,-123, -20,-124],
    [-124, -20,-124,-125, -20,-124,-126, -20,-124,-127, -20,-124,-128, -20,-125, -65, -20,-125, -66, -20],
    [-125, -67, -20,-125, -68, -20,-125, -69, -20,-125, -70, -20,-125, -71, -20,-125, -72, -20,-125, -73],
    [-20,-125, -74, -20,-125, -75, -20,-125, -76, -20,-125, -77, -20,-125, -78, -20,-125, -79, -20,-125],
    [-80, -20,-125, -81, -20,-125, -82, -20,-125, -83, -20,-125, -84, -20,-125, -85, -20,-125, -86, -20],
    [-125, -87, -20,-125, -88, -20,-125, -89, -20,-125, -90, -20,-125, -91, -20,-125, -92, -20,-125, -93],
    [-20,-125, -94, -20,-125, -95, -20,-125, -96, -20,-125, -97, -20,-125, -98, -20,-125, -99, -20,-125],
    [-100, -20,-125,-101, -20,-125,-102, -20,-125,-103, -20,-125,-104, -20,-125,-105, -20,-125,-106, -20],
    [-125,-107, -20,-125,-108, -20,-125,-109, -20,-125,-110, -20,-125,-111, -20,-125,-112, -20,-125,-113],
    [-20,-125,-114, -20,-125,-115, -20,-125,-116, -20,-125,-117, -20,-125,-118, -20,-125,-119, -20,-125],
    [-120, -20,-125,-121, -20,-125,-122, -20,-125,-123, -20,-125,-124, -20,-125,-125, -20,-125,-126, -20],
    [-125,-127, -20,-125,-128, -20,-126, -65, -20,-126, -66, -20,-126, -67, -20,-126, -68, -20,-126, -69],
    [-20,-126, -70, -20,-126, -71, -20,-126, -72, -20,-126, -73, -20,-126, -74, -20,-126, -75, -20,-126],
    [-76, -20,-126, -77, -20,-126, -78, -20,-126, -79, -20,-126, -80, -20,-126, -81, -20,-126, -82, -20],
    [-126, -83, -20,-126, -84, -20,-126, -85, -20,-126, -86, -20,-126, -87, -20,-126, -88, -20,-126, -89],
    [-20,-126, -90, -20,-126, -91, -20,-126, -92, -20,-126, -93, -20,-126, -94, -20,-126, -95, -20,-126],
    [-96, -20,-126, -97, -20,-126, -98, -20,-126, -99, -20,-126,-100, -20,-126,-101, -20,-126,-102, -20],
    [-126,-103, -20,-126,-104, -20,-126,-105, -20,-126,-106, -20,-126,-107, -20,-126,-108, -20,-126,-109],
    [-20,-126,-110, -20,-126,-111, -20,-126,-112, -20,-126,-113, -20,-126,-114, -20,-126,-115, -20,-126],
    [-116, -20,-126,-117, -20,-126,-118, -20,-126,-119, -20,-126,-120, -20,-126,-121, -20,-126,-122, -20],
    [-126,-123, -20,-126,-124, -20,-126,-125, -20,-126,-126, -20,-126,-127, -20,-126,-128, -20,-127, -65],
    [-20,-127, -66, -20,-127, -67, -20,-127, -68, -20,-127, -69, -20,-127, -70, -20,-127, -71, -20,-127],
    [-72, -20,-127, -73, -20,-127, -74, -20,-127, -75, -20,-127, -76, -20,-127, -77, -20,-127, -78, -20],
    [-127, -79, -20,-127, -80, -20,-127, -81, -20,-127, -82, -20,-127, -83, -20,-127, -84, -20,-127, -85],
    [-20,-127, -86, -20,-127, -87, -20,-127, -88, -20,-127, -89, -20,-127, -90, -20,-127, -91, -20,-127],
    [-92, -20,-127, -93, -20,-127, -94, -20,-127, -95, -20,-127, -96, -20,-127, -97, -20,-127, -98, -20],
    [-127, -99, -20,-127,-100, -20,-127,-101, -20,-127,-102, -20,-127,-103, -20,-127,-104, -20,-127,-105],
    [-20,-127,-106, -20,-127,-107, -20,-127,-108, -20,-127,-109, -20,-127,-110, -20,-127,-111, -20,-127],
    [-112, -20,-127,-113, -20,-127,-114, -20,-127,-115, -20,-127,-116, -20,-127,-117, -20,-127,-118, -20],
    [-127,-119, -20,-127,-120, -20,-127,-121, -20,-127,-122, -20,-127,-123, -20,-127,-124, -20,-127,-125],
    [-20,-127,-126, -20,-127,-127, -20,-127,-128, -20,-128, -65, -20,-128, -66, -20,-128, -67, -20,-128],
    [-68, -20,-128, -69, -20,-128, -70, -20,-128, -71, -20,-128, -72, -20,-128, -73, -20,-128, -74, -20],
    [-128, -75, -20,-128, -76, -20,-128, -77, -20,-128, -78, -20,-128, -79, -20,-128, -80, -20,-128, -81],
    [-20,-128, -82, -20,-128, -83, -20,-128, -84, -20,-128, -85, -20,-128, -86, -20,-128, -87, -20,-128],
    [-88, -20,-128, -89, -20,-128, -90, -20,-128, -91, -20,-128, -92, -20,-128, -93, -20,-128, -94, -20],
    [-128, -95, -20,-128, -96, -20,-128, -97, -20,-128, -98, -20,-128, -99, -20,-128,-100, -20,-128,-101],
    [-20,-128,-102, -20,-128,-103, -20,-128,-104, -20,-128,-105, -20,-128,-106, -20,-128,-107, -20,-128],
    [-108, -20,-128,-109, -20,-128,-110, -20,-128,-111, -20,-128,-112, -20,-128,-113, -20,-128,-114, -20],
    [-128,-115, -20,-128,-116, -20,-128,-117, -20,-128,-118, -20,-128,-119, -20,-128,-120, -20,-128,-121],
    [-20,-128,-122, -20,-128,-123, -20,-128,-124, -20,-128,-125, -20,-128,-126, -20,-128,-127, -20,-128],
    [-128, -21, -65, -65, -21, -65, -66, -21, -65, -67, -21, -65, -68, -21, -65, -69, -21, -65, -70, -21],
    [-65, -71, -21, -65, -72, -21, -65, -73, -21, -65, -74, -21, -65, -75, -21, -65, -76, -21, -65, -77],
    [-21, -65, -78, -21, -65, -79, -21, -65, -80, -21, -65, -81, -21, -65, -82, -21, -65, -83, -21, -65],
    [-84, -21, -65, -85, -21, -65, -86, -21, -65, -87, -21, -65, -88, -21, -65, -89, -21, -65, -90, -21],
    [-65, -91, -21, -65, -92, -21, -65, -93, -21, -65, -94, -21, -65, -95, -21, -65, -96, -21, -65, -97],
    [-21, -65, -98, -21, -65, -99, -21, -65,-100, -21, -65,-101, -21, -65,-102, -21, -65,-103, -21, -65],
    [-104, -21, -65,-105, -21, -65,-106, -21, -65,-107, -21, -65,-108, -21, -65,-109, -21, -65,-110, -21],
    [-65,-111, -21, -65,-112, -21, -65,-113, -21, -65,-114, -21, -65,-115, -21, -65,-116, -21, -65,-117],
    [-21, -65,-118, -21, -65,-119, -21, -65,-120, -21, -65,-121, -21, -65,-122, -21, -65,-123, -21, -65],
    [-124, -21, -65,-125, -21, -65,-126, -21, -65,-127, -21, -65,-128, -21, -66, -65, -21, -66, -66, -21],
    [-66, -67, -21, -66, -68, -21, -66, -69, -21, -66, -70, -21, -66, -71, -21, -66, -72, -21, -66, -73],
    [-21, -66, -74, -21, -66, -75, -21, -66, -76, -21, -66, -77, -21, -66, -78, -21, -66, -79, -21, -66],
    [-80, -21, -66, -81, -21, -66, -82, -21, -66, -83, -21, -66, -84, -21, -66, -85, -21, -66, -86, -21],
    [-66, -87, -21, -66, -88, -21, -66, -89, -21, -66, -90, -21, -66, -91, -21, -66, -92, -21, -66, -93],
    [-21, -66, -94, -21, -66, -95, -21, -66, -96, -21, -66, -97, -21, -66, -98, -21, -66, -99, -21, -66],
    [-100, -21, -66,-101, -21, -66,-102, -21, -66,-103, -21, -66,-104, -21, -66,-105, -21, -66,-106, -21],
    [-66,-107, -21, -66,-108, -21, -66,-109, -21, -66,-110, -21, -66,-111, -21, -66,-112, -21, -66,-113],
    [-21, -66,-114, -21, -66,-115, -21, -66,-116, -21, -66,-117, -21, -66,-118, -21, -66,-119, -21, -66],
    [-120, -21, -66,-121, -21, -66,-122, -21, -66,-123, -21, -66,-124, -21, -66,-125, -21, -66,-126, -21],
    [-66,-127, -21, -66,-128, -21, -67, -65, -21, -67, -66, -21, -67, -67, -21, -67, -68, -21, -67, -69],
    [-21, -67, -70, -21, -67, -71, -21, -67, -72, -21, -67, -73, -21, -67, -74, -21, -67, -75, -21, -67],
    [-76, -21, -67, -77, -21, -67, -78, -21, -67, -79, -21, -67, -80, -21, -67, -81, -21, -67, -82, -21],
    [-67, -83, -21, -67, -84, -21, -67, -85, -21, -67, -86, -21, -67, -87, -21, -67, -88, -21, -67, -89],
    [-21, -67, -90, -21, -67, -91, -21, -67, -92, -21, -67, -93, -21, -67, -94, -21, -67, -95, -21, -67]]"

definition STRINGS_08 :: "int list list" where
  "STRINGS_08 = [
    [-96, -21, -67, -97, -21, -67, -98, -21, -67, -99, -21, -67,-100, -21, -67,-101, -21, -67,-102, -21],
    [-67,-103, -21, -67,-104, -21, -67,-105, -21, -67,-106, -21, -67,-107, -21, -67,-108, -21, -67,-109],
    [-21, -67,-110, -21, -67,-111, -21, -67,-112, -21, -67,-113, -21, -67,-114, -21, -67,-115, -21, -67],
    [-116, -21, -67,-117, -21, -67,-118, -21, -67,-119, -21, -67,-120, -21, -67,-121, -21, -67,-122, -21],
    [-67,-123, -21, -67,-124, -21, -67,-125, -21, -67,-126, -21, -67,-127, -21, -67,-128, -21, -68, -65],
    [-21, -68, -66, -21, -68, -67, -21, -68, -68, -21, -68, -69, -21, -68, -70, -21, -68, -71, -21, -68],
    [-72, -21, -68, -73, -21, -68, -74, -21, -68, -75, -21, -68, -76, -21, -68, -77, -21, -68, -78, -21],
    [-68, -79, -21, -68, -80, -21, -68, -81, -21, -68, -82, -21, -68, -83, -21, -68, -84, -21, -68, -85],
    [-21, -68, -86, -21, -68, -87, -21, -68, -88, -21, -68, -89, -21, -68, -90, -21, -68, -91, -21, -68],
    [-92, -21, -68, -93, -21, -68, -94, -21, -68, -95, -21, -68, -96, -21, -68, -97, -21, -68, -98, -21],
    [-68, -99, -21, -68,-100, -21, -68,-101, -21, -68,-102, -21, -68,-103, -21, -68,-104, -21, -68,-105],
    [-21, -68,-106, -21, -68,-107, -21, -68,-108, -21, -68,-109, -21, -68,-110, -21, -68,-111, -21, -68],
    [-112, -21, -68,-113, -21, -68,-114, -21, -68,-115, -21, -68,-116, -21, -68,-117, -21, -68,-118, -21],
    [-68,-119, -21, -68,-120, -21, -68,-121, -21, -68,-122, -21, -68,-123, -21, -68,-124, -21, -68,-125],
    [-21, -68,-126, -21, -68,-127, -21, -68,-128, -21, -69, -65, -21, -69, -66, -21, -69, -67, -21, -69],
    [-68, -21, -69, -69, -21, -69, -70, -21, -69, -71, -21, -69, -72, -21, -69, -73, -21, -69, -74, -21],
    [-69, -75, -21, -69, -76, -21, -69, -77, -21, -69, -78, -21, -69, -79, -21, -69, -80, -21, -69, -81],
    [-21, -69, -82, -21, -69, -83, -21, -69, -84, -21, -69, -85, -21, -69, -86, -21, -69, -87, -21, -69],
    [-88, -21, -69, -89, -21, -69, -90, -21, -69, -91, -21, -69, -92, -21, -69, -93, -21, -69, -94, -21],
    [-69, -95, -21, -69, -96, -21, -69, -97, -21, -69, -98, -21, -69, -99, -21, -69,-100, -21, -69,-101],
    [-21, -69,-102, -21, -69,-103, -21, -69,-104, -21, -69,-105, -21, -69,-106, -21, -69,-107, -21, -69],
    [-108, -21, -69,-109, -21, -69,-110, -21, -69,-111, -21, -69,-112, -21, -69,-113, -21, -69,-114, -21],
    [-69,-115, -21, -69,-116, -21, -69,-117, -21, -69,-118, -21, -69,-119, -21, -69,-120, -21, -69,-121],
    [-21, -69,-122, -21, -69,-123, -21, -69,-124, -21, -69,-125, -21, -69,-126, -21, -69,-127, -21, -69],
    [-128, -21, -70, -65, -21, -70, -66, -21, -70, -67, -21, -70, -68, -21, -70, -69, -21, -70, -70, -21],
    [-70, -71, -21, -70, -72, -21, -70, -73, -21, -70, -74, -21, -70, -75, -21, -70, -76, -21, -70, -77],
    [-21, -70, -78, -21, -70, -79, -21, -70, -80, -21, -70, -81, -21, -70, -82, -21, -70, -83, -21, -70],
    [-84, -21, -70, -85, -21, -70, -86, -21, -70, -87, -21, -70, -88, -21, -70, -89, -21, -70, -90, -21],
    [-70, -91, -21, -70, -92, -21, -70, -93, -21, -70, -94, -21, -70, -95, -21, -70, -96, -21, -70, -97],
    [-21, -70, -98, -21, -70, -99, -21, -70,-100, -21, -70,-101, -21, -70,-102, -21, -70,-103, -21, -70],
    [-104, -21, -70,-105, -21, -70,-106, -21, -70,-107, -21, -70,-108, -21, -70,-109, -21, -70,-110, -21],
    [-70,-111, -21, -70,-112, -21, -70,-113, -21, -70,-114, -21, -70,-115, -21, -70,-116, -21, -70,-117],
    [-21, -70,-118, -21, -70,-119, -21, -70,-120, -21, -70,-121, -21, -70,-122, -21, -70,-123, -21, -70],
    [-124, -21, -70,-125, -21, -70,-126, -21, -70,-127, -21, -70,-128, -21, -71, -65, -21, -71, -66, -21],
    [-71, -67, -21, -71, -68, -21, -71, -69, -21, -71, -70, -21, -71, -71, -21, -71, -72, -21, -71, -73],
    [-21, -71, -74, -21, -71, -75, -21, -71, -76, -21, -71, -77, -21, -71, -78, -21, -71, -79, -21, -71],
    [-80, -21, -71, -81, -21, -71, -82, -21, -71, -83, -21, -71, -84, -21, -71, -85, -21, -71, -86, -21],
    [-71, -87, -21, -71, -88, -21, -71, -89, -21, -71, -90, -21, -71, -91, -21, -71, -92, -21, -71, -93],
    [-21, -71, -94, -21, -71, -95, -21, -71, -96, -21, -71, -97, -21, -71, -98, -21, -71, -99, -21, -71],
    [-100, -21, -71,-101, -21, -71,-102, -21, -71,-103, -21, -71,-104, -21, -71,-105, -21, -71,-106, -21],
    [-71,-107, -21, -71,-108, -21, -71,-109, -21, -71,-110, -21, -71,-111, -21, -71,-112, -21, -71,-113],
    [-21, -71,-114, -21, -71,-115, -21, -71,-116, -21, -71,-117, -21, -71,-118, -21, -71,-119, -21, -71],
    [-120, -21, -71,-121, -21, -71,-122, -21, -71,-123, -21, -71,-124, -21, -71,-125, -21, -71,-126, -21],
    [-71,-127, -21, -71,-128, -21, -72, -65, -21, -72, -66, -21, -72, -67, -21, -72, -68, -21, -72, -69],
    [-21, -72, -70, -21, -72, -71, -21, -72, -72, -21, -72, -73, -21, -72, -74, -21, -72, -75, -21, -72],
    [-76, -21, -72, -77, -21, -72, -78, -21, -72, -79, -21, -72, -80, -21, -72, -81, -21, -72, -82, -21],
    [-72, -83, -21, -72, -84, -21, -72, -85, -21, -72, -86, -21, -72, -87, -21, -72, -88, -21, -72, -89],
    [-21, -72, -90, -21, -72, -91, -21, -72, -92, -21, -72, -93, -21, -72, -94, -21, -72, -95, -21, -72],
    [-96, -21, -72, -97, -21, -72, -98, -21, -72, -99, -21, -72,-100, -21, -72,-101, -21, -72,-102, -21],
    [-72,-103, -21, -72,-104, -21, -72,-105, -21, -72,-106, -21, -72,-107, -21, -72,-108, -21, -72,-109],
    [-21, -72,-110, -21, -72,-111, -21, -72,-112, -21, -72,-113, -21, -72,-114, -21, -72,-115, -21, -72],
    [-116, -21, -72,-117, -21, -72,-118, -21, -72,-119, -21, -72,-120, -21, -72,-121, -21, -72,-122, -21],
    [-72,-123, -21, -72,-124, -21, -72,-125, -21, -72,-126, -21, -72,-127, -21, -72,-128, -21, -73, -65],
    [-21, -73, -66, -21, -73, -67, -21, -73, -68, -21, -73, -69, -21, -73, -70, -21, -73, -71, -21, -73],
    [-72, -21, -73, -73, -21, -73, -74, -21, -73, -75, -21, -73, -76, -21, -73, -77, -21, -73, -78, -21],
    [-73, -79, -21, -73, -80, -21, -73, -81, -21, -73, -82, -21, -73, -83, -21, -73, -84, -21, -73, -85],
    [-21, -73, -86, -21, -73, -87, -21, -73, -88, -21, -73, -89, -21, -73, -90, -21, -73, -91, -21, -73],
    [-92, -21, -73, -93, -21, -73, -94, -21, -73, -95, -21, -73, -96, -21, -73, -97, -21, -73, -98, -21],
    [-73, -99, -21, -73,-100, -21, -73,-101, -21, -73,-102, -21, -73,-103, -21, -73,-104, -21, -73,-105],
    [-21, -73,-106, -21, -73,-107, -21, -73,-108, -21, -73,-109, -21, -73,-110, -21, -73,-111, -21, -73],
    [-112, -21, -73,-113, -21, -73,-114, -21, -73,-115, -21, -73,-116, -21, -73,-117, -21, -73,-118, -21],
    [-73,-119, -21, -73,-120, -21, -73,-121, -21, -73,-122, -21, -73,-123, -21, -73,-124, -21, -73,-125],
    [-21, -73,-126, -21, -73,-127, -21, -73,-128, -21, -74, -65, -21, -74, -66, -21, -74, -67, -21, -74],
    [-68, -21, -74, -69, -21, -74, -70, -21, -74, -71, -21, -74, -72, -21, -74, -73, -21, -74, -74, -21],
    [-74, -75, -21, -74, -76, -21, -74, -77, -21, -74, -78, -21, -74, -79, -21, -74, -80, -21, -74, -81],
    [-21, -74, -82, -21, -74, -83, -21, -74, -84, -21, -74, -85, -21, -74, -86, -21, -74, -87, -21, -74],
    [-88, -21, -74, -89, -21, -74, -90, -21, -74, -91, -21, -74, -92, -21, -74, -93, -21, -74, -94, -21],
    [-74, -95, -21, -74, -96, -21, -74, -97, -21, -74, -98, -21, -74, -99, -21, -74,-100, -21, -74,-101],
    [-21, -74,-102, -21, -74,-103, -21, -74,-104, -21, -74,-105, -21, -74,-106, -21, -74,-107, -21, -74],
    [-108, -21, -74,-109, -21, -74,-110, -21, -74,-111, -21, -74,-112, -21, -74,-113, -21, -74,-114, -21],
    [-74,-115, -21, -74,-116, -21, -74,-117, -21, -74,-118, -21, -74,-119, -21, -74,-120, -21, -74,-121],
    [-21, -74,-122, -21, -74,-123, -21, -74,-124, -21, -74,-125, -21, -74,-126, -21, -74,-127, -21, -74],
    [-128, -21, -75, -65, -21, -75, -66, -21, -75, -67, -21, -75, -68, -21, -75, -69, -21, -75, -70, -21],
    [-75, -71, -21, -75, -72, -21, -75, -73, -21, -75, -74, -21, -75, -75, -21, -75, -76, -21, -75, -77],
    [-21, -75, -78, -21, -75, -79, -21, -75, -80, -21, -75, -81, -21, -75, -82, -21, -75, -83, -21, -75],
    [-84, -21, -75, -85, -21, -75, -86, -21, -75, -87, -21, -75, -88, -21, -75, -89, -21, -75, -90, -21],
    [-75, -91, -21, -75, -92, -21, -75, -93, -21, -75, -94, -21, -75, -95, -21, -75, -96, -21, -75, -97],
    [-21, -75, -98, -21, -75, -99, -21, -75,-100, -21, -75,-101, -21, -75,-102, -21, -75,-103, -21, -75],
    [-104, -21, -75,-105, -21, -75,-106, -21, -75,-107, -21, -75,-108, -21, -75,-109, -21, -75,-110, -21],
    [-75,-111, -21, -75,-112, -21, -75,-113, -21, -75,-114, -21, -75,-115, -21, -75,-116, -21, -75,-117],
    [-21, -75,-118, -21, -75,-119, -21, -75,-120, -21, -75,-121, -21, -75,-122, -21, -75,-123, -21, -75],
    [-124, -21, -75,-125, -21, -75,-126, -21, -75,-127, -21, -75,-128, -21, -76, -65, -21, -76, -66, -21],
    [-76, -67, -21, -76, -68, -21, -76, -69, -21, -76, -70, -21, -76, -71, -21, -76, -72, -21, -76, -73],
    [-21, -76, -74, -21, -76, -75, -21, -76, -76, -21, -76, -77, -21, -76, -78, -21, -76, -79, -21, -76],
    [-80, -21, -76, -81, -21, -76, -82, -21, -76, -83, -21, -76, -84, -21, -76, -85, -21, -76, -86, -21],
    [-76, -87, -21, -76, -88, -21, -76, -89, -21, -76, -90, -21, -76, -91, -21, -76, -92, -21, -76, -93],
    [-21, -76, -94, -21, -76, -95, -21, -76, -96, -21, -76, -97, -21, -76, -98, -21, -76, -99, -21, -76],
    [-100, -21, -76,-101, -21, -76,-102, -21, -76,-103, -21, -76,-104, -21, -76,-105, -21, -76,-106, -21],
    [-76,-107, -21, -76,-108, -21, -76,-109, -21, -76,-110, -21, -76,-111, -21, -76,-112, -21, -76,-113],
    [-21, -76,-114, -21, -76,-115, -21, -76,-116, -21, -76,-117, -21, -76,-118, -21, -76,-119, -21, -76],
    [-120, -21, -76,-121, -21, -76,-122, -21, -76,-123, -21, -76,-124, -21, -76,-125, -21, -76,-126, -21],
    [-76,-127, -21, -76,-128, -21, -77, -65, -21, -77, -66, -21, -77, -67, -21, -77, -68, -21, -77, -69],
    [-21, -77, -70, -21, -77, -71, -21, -77, -72, -21, -77, -73, -21, -77, -74, -21, -77, -75, -21, -77],
    [-76, -21, -77, -77, -21, -77, -78, -21, -77, -79, -21, -77, -80, -21, -77, -81, -21, -77, -82, -21],
    [-77, -83, -21, -77, -84, -21, -77, -85, -21, -77, -86, -21, -77, -87, -21, -77, -88, -21, -77, -89],
    [-21, -77, -90, -21, -77, -91, -21, -77, -92, -21, -77, -93, -21, -77, -94, -21, -77, -95, -21, -77],
    [-96, -21, -77, -97, -21, -77, -98, -21, -77, -99, -21, -77,-100, -21, -77,-101, -21, -77,-102, -21],
    [-77,-103, -21, -77,-104, -21, -77,-105, -21, -77,-106, -21, -77,-107, -21, -77,-108, -21, -77,-109],
    [-21, -77,-110, -21, -77,-111, -21, -77,-112, -21, -77,-113, -21, -77,-114, -21, -77,-115, -21, -77],
    [-116, -21, -77,-117, -21, -77,-118, -21, -77,-119, -21, -77,-120, -21, -77,-121, -21, -77,-122, -21],
    [-77,-123, -21, -77,-124, -21, -77,-125, -21, -77,-126, -21, -77,-127, -21, -77,-128, -21, -78, -65],
    [-21, -78, -66, -21, -78, -67, -21, -78, -68, -21, -78, -69, -21, -78, -70, -21, -78, -71, -21, -78],
    [-72, -21, -78, -73, -21, -78, -74, -21, -78, -75, -21, -78, -76, -21, -78, -77, -21, -78, -78, -21],
    [-78, -79, -21, -78, -80, -21, -78, -81, -21, -78, -82, -21, -78, -83, -21, -78, -84, -21, -78, -85],
    [-21, -78, -86, -21, -78, -87, -21, -78, -88, -21, -78, -89, -21, -78, -90, -21, -78, -91, -21, -78],
    [-92, -21, -78, -93, -21, -78, -94, -21, -78, -95, -21, -78, -96, -21, -78, -97, -21, -78, -98, -21],
    [-78, -99, -21, -78,-100, -21, -78,-101, -21, -78,-102, -21, -78,-103, -21, -78,-104, -21, -78,-105],
    [-21, -78,-106, -21, -78,-107, -21, -78,-108, -21, -78,-109, -21, -78,-110, -21, -78,-111, -21, -78],
    [-112, -21, -78,-113, -21, -78,-114, -21, -78,-115, -21, -78,-116, -21, -78,-117, -21, -78,-118, -21],
    [-78,-119, -21, -78,-120, -21, -78,-121, -21, -78,-122, -21, -78,-123, -21, -78,-124, -21, -78,-125],
    [-21, -78,-126, -21, -78,-127, -21, -78,-128, -21, -79, -65, -21, -79, -66, -21, -79, -67, -21, -79],
    [-68, -21, -79, -69, -21, -79, -70, -21, -79, -71, -21, -79, -72, -21, -79, -73, -21, -79, -74, -21],
    [-79, -75, -21, -79, -76, -21, -79, -77, -21, -79, -78, -21, -79, -79, -21, -79, -80, -21, -79, -81],
    [-21, -79, -82, -21, -79, -83, -21, -79, -84, -21, -79, -85, -21, -79, -86, -21, -79, -87, -21, -79],
    [-88, -21, -79, -89, -21, -79, -90, -21, -79, -91, -21, -79, -92, -21, -79, -93, -21, -79, -94, -21],
    [-79, -95, -21, -79, -96, -21, -79, -97, -21, -79, -98, -21, -79, -99, -21, -79,-100, -21, -79,-101],
    [-21, -79,-102, -21, -79,-103, -21, -79,-104, -21, -79,-105, -21, -79,-106, -21, -79,-107, -21, -79],
    [-108, -21, -79,-109, -21, -79,-110, -21, -79,-111, -21, -79,-112, -21, -79,-113, -21, -79,-114, -21],
    [-79,-115, -21, -79,-116, -21, -79,-117, -21, -79,-118, -21, -79,-119, -21, -79,-120, -21, -79,-121],
    [-21, -79,-122, -21, -79,-123, -21, -79,-124, -21, -79,-125, -21, -79,-126, -21, -79,-127, -21, -79],
    [-128, -21, -80, -65, -21, -80, -66, -21, -80, -67, -21, -80, -68, -21, -80, -69, -21, -80, -70, -21],
    [-80, -71, -21, -80, -72, -21, -80, -73, -21, -80, -74, -21, -80, -75, -21, -80, -76, -21, -80, -77],
    [-21, -80, -78, -21, -80, -79, -21, -80, -80, -21, -80, -81, -21, -80, -82, -21, -80, -83, -21, -80],
    [-84, -21, -80, -85, -21, -80, -86, -21, -80, -87, -21, -80, -88, -21, -80, -89, -21, -80, -90, -21],
    [-80, -91, -21, -80, -92, -21, -80, -93, -21, -80, -94, -21, -80, -95, -21, -80, -96, -21, -80, -97],
    [-21, -80, -98, -21, -80, -99, -21, -80,-100, -21, -80,-101, -21, -80,-102, -21, -80,-103, -21, -80],
    [-104, -21, -80,-105, -21, -80,-106, -21, -80,-107, -21, -80,-108, -21, -80,-109, -21, -80,-110, -21],
    [-80,-111, -21, -80,-112, -21, -80,-113, -21, -80,-114, -21, -80,-115, -21, -80,-116, -21, -80,-117],
    [-21, -80,-118, -21, -80,-119, -21, -80,-120, -21, -80,-121, -21, -80,-122, -21, -80,-123, -21, -80],
    [-124, -21, -80,-125, -21, -80,-126, -21, -80,-127, -21, -80,-128, -21, -81, -65, -21, -81, -66, -21],
    [-81, -67, -21, -81, -68, -21, -81, -69, -21, -81, -70, -21, -81, -71, -21, -81, -72, -21, -81, -73],
    [-21, -81, -74, -21, -81, -75, -21, -81, -76, -21, -81, -77, -21, -81, -78, -21, -81, -79, -21, -81],
    [-80, -21, -81, -81, -21, -81, -82, -21, -81, -83, -21, -81, -84, -21, -81, -85, -21, -81, -86, -21],
    [-81, -87, -21, -81, -88, -21, -81, -89, -21, -81, -90, -21, -81, -91, -21, -81, -92, -21, -81, -93],
    [-21, -81, -94, -21, -81, -95, -21, -81, -96, -21, -81, -97, -21, -81, -98, -21, -81, -99, -21, -81],
    [-100, -21, -81,-101, -21, -81,-102, -21, -81,-103, -21, -81,-104, -21, -81,-105, -21, -81,-106, -21],
    [-81,-107, -21, -81,-108, -21, -81,-109, -21, -81,-110, -21, -81,-111, -21, -81,-112, -21, -81,-113],
    [-21, -81,-114, -21, -81,-115, -21, -81,-116, -21, -81,-117, -21, -81,-118, -21, -81,-119, -21, -81],
    [-120, -21, -81,-121, -21, -81,-122, -21, -81,-123, -21, -81,-124, -21, -81,-125, -21, -81,-126, -21],
    [-81,-127, -21, -81,-128, -21, -82, -65, -21, -82, -66, -21, -82, -67, -21, -82, -68, -21, -82, -69],
    [-21, -82, -70, -21, -82, -71, -21, -82, -72, -21, -82, -73, -21, -82, -74, -21, -82, -75, -21, -82],
    [-76, -21, -82, -77, -21, -82, -78, -21, -82, -79, -21, -82, -80, -21, -82, -81, -21, -82, -82, -21],
    [-82, -83, -21, -82, -84, -21, -82, -85, -21, -82, -86, -21, -82, -87, -21, -82, -88, -21, -82, -89],
    [-21, -82, -90, -21, -82, -91, -21, -82, -92, -21, -82, -93, -21, -82, -94, -21, -82, -95, -21, -82]]"

definition STRINGS_09 :: "int list list" where
  "STRINGS_09 = [
    [-96, -21, -82, -97, -21, -82, -98, -21, -82, -99, -21, -82,-100, -21, -82,-101, -21, -82,-102, -21],
    [-82,-103, -21, -82,-104, -21, -82,-105, -21, -82,-106, -21, -82,-107, -21, -82,-108, -21, -82,-109],
    [-21, -82,-110, -21, -82,-111, -21, -82,-112, -21, -82,-113, -21, -82,-114, -21, -82,-115, -21, -82],
    [-116, -21, -82,-117, -21, -82,-118, -21, -82,-119, -21, -82,-120, -21, -82,-121, -21, -82,-122, -21],
    [-82,-123, -21, -82,-124, -21, -82,-125, -21, -82,-126, -21, -82,-127, -21, -82,-128, -21, -83, -65],
    [-21, -83, -66, -21, -83, -67, -21, -83, -68, -21, -83, -69, -21, -83, -70, -21, -83, -71, -21, -83],
    [-72, -21, -83, -73, -21, -83, -74, -21, -83, -75, -21, -83, -76, -21, -83, -77, -21, -83, -78, -21],
    [-83, -79, -21, -83, -80, -21, -83, -81, -21, -83, -82, -21, -83, -83, -21, -83, -84, -21, -83, -85],
    [-21, -83, -86, -21, -83, -87, -21, -83, -88, -21, -83, -89, -21, -83, -90, -21, -83, -91, -21, -83],
    [-92, -21, -83, -93, -21, -83, -94, -21, -83, -95, -21, -83, -96, -21, -83, -97, -21, -83, -98, -21],
    [-83, -99, -21, -83,-100, -21, -83,-101, -21, -83,-102, -21, -83,-103, -21, -83,-104, -21, -83,-105],
    [-21, -83,-106, -21, -83,-107, -21, -83,-108, -21, -83,-109, -21, -83,-110, -21, -83,-111, -21, -83],
    [-112, -21, -83,-113, -21, -83,-114, -21, -83,-115, -21, -83,-116, -21, -83,-117, -21, -83,-118, -21],
    [-83,-119, -21, -83,-120, -21, -83,-121, -21, -83,-122, -21, -83,-123, -21, -83,-124, -21, -83,-125],
    [-21, -83,-126, -21, -83,-127, -21, -83,-128, -21, -84, -65, -21, -84, -66, -21, -84, -67, -21, -84],
    [-68, -21, -84, -69, -21, -84, -70, -21, -84, -71, -21, -84, -72, -21, -84, -73, -21, -84, -74, -21],
    [-84, -75, -21, -84, -76, -21, -84, -77, -21, -84, -78, -21, -84, -79, -21, -84, -80, -21, -84, -81],
    [-21, -84, -82, -21, -84, -83, -21, -84, -84, -21, -84, -85, -21, -84, -86, -21, -84, -87, -21, -84],
    [-88, -21, -84, -89, -21, -84, -90, -21, -84, -91, -21, -84, -92, -21, -84, -93, -21, -84, -94, -21],
    [-84, -95, -21, -84, -96, -21, -84, -97, -21, -84, -98, -21, -84, -99, -21, -84,-100, -21, -84,-101],
    [-21, -84,-102, -21, -84,-103, -21, -84,-104, -21, -84,-105, -21, -84,-106, -21, -84,-107, -21, -84],
    [-108, -21, -84,-109, -21, -84,-110, -21, -84,-111, -21, -84,-112, -21, -84,-113, -21, -84,-114, -21],
    [-84,-115, -21, -84,-116, -21, -84,-117, -21, -84,-118, -21, -84,-119, -21, -84,-120, -21, -84,-121],
    [-21, -84,-122, -21, -84,-123, -21, -84,-124, -21, -84,-125, -21, -84,-126, -21, -84,-127, -21, -84],
    [-128, -21, -85, -65, -21, -85, -66, -21, -85, -67, -21, -85, -68, -21, -85, -69, -21, -85, -70, -21],
    [-85, -71, -21, -85, -72, -21, -85, -73, -21, -85, -74, -21, -85, -75, -21, -85, -76, -21, -85, -77],
    [-21, -85, -78, -21, -85, -79, -21, -85, -80, -21, -85, -81, -21, -85, -82, -21, -85, -83, -21, -85],
    [-84, -21, -85, -85, -21, -85, -86, -21, -85, -87, -21, -85, -88, -21, -85, -89, -21, -85, -90, -21],
    [-85, -91, -21, -85, -92, -21, -85, -93, -21, -85, -94, -21, -85, -95, -21, -85, -96, -21, -85, -97],
    [-21, -85, -98, -21, -85, -99, -21, -85,-100, -21, -85,-101, -21, -85,-102, -21, -85,-103, -21, -85],
    [-104, -21, -85,-105, -21, -85,-106, -21, -85,-107, -21, -85,-108, -21, -85,-109, -21, -85,-110, -21],
    [-85,-111, -21, -85,-112, -21, -85,-113, -21, -85,-114, -21, -85,-115, -21, -85,-116, -21, -85,-117],
    [-21, -85,-118, -21, -85,-119, -21, -85,-120, -21, -85,-121, -21, -85,-122, -21, -85,-123, -21, -85],
    [-124, -21, -85,-125, -21, -85,-126, -21, -85,-127, -21, -85,-128, -21, -86, -65, -21, -86, -66, -21],
    [-86, -67, -21, -86, -68, -21, -86, -69, -21, -86, -70, -21, -86, -71, -21, -86, -72, -21, -86, -73],
    [-21, -86, -74, -21, -86, -75, -21, -86, -76, -21, -86, -77, -21, -86, -78, -21, -86, -79, -21, -86],
    [-80, -21, -86, -81, -21, -86, -82, -21, -86, -83, -21, -86, -84, -21, -86, -85, -21, -86, -86, -21],
    [-86, -87, -21, -86, -88, -21, -86, -89, -21, -86, -90, -21, -86, -91, -21, -86, -92, -21, -86, -93],
    [-21, -86, -94, -21, -86, -95, -21, -86, -96, -21, -86, -97, -21, -86, -98, -21, -86, -99, -21, -86],
    [-100, -21, -86,-101, -21, -86,-102, -21, -86,-103, -21, -86,-104, -21, -86,-105, -21, -86,-106, -21],
    [-86,-107, -21, -86,-108, -21, -86,-109, -21, -86,-110, -21, -86,-111, -21, -86,-112, -21, -86,-113],
    [-21, -86,-114, -21, -86,-115, -21, -86,-116, -21, -86,-117, -21, -86,-118, -21, -86,-119, -21, -86],
    [-120, -21, -86,-121, -21, -86,-122, -21, -86,-123, -21, -86,-124, -21, -86,-125, -21, -86,-126, -21],
    [-86,-127, -21, -86,-128, -21, -87, -65, -21, -87, -66, -21, -87, -67, -21, -87, -68, -21, -87, -69],
    [-21, -87, -70, -21, -87, -71, -21, -87, -72, -21, -87, -73, -21, -87, -74, -21, -87, -75, -21, -87],
    [-76, -21, -87, -77, -21, -87, -78, -21, -87, -79, -21, -87, -80, -21, -87, -81, -21, -87, -82, -21],
    [-87, -83, -21, -87, -84, -21, -87, -85, -21, -87, -86, -21, -87, -87, -21, -87, -88, -21, -87, -89],
    [-21, -87, -90, -21, -87, -91, -21, -87, -92, -21, -87, -93, -21, -87, -94, -21, -87, -95, -21, -87],
    [-96, -21, -87, -97, -21, -87, -98, -21, -87, -99, -21, -87,-100, -21, -87,-101, -21, -87,-102, -21],
    [-87,-103, -21, -87,-104, -21, -87,-105, -21, -87,-106, -21, -87,-107, -21, -87,-108, -21, -87,-109],
    [-21, -87,-110, -21, -87,-111, -21, -87,-112, -21, -87,-113, -21, -87,-114, -21, -87,-115, -21, -87],
    [-116, -21, -87,-117, -21, -87,-118, -21, -87,-119, -21, -87,-120, -21, -87,-121, -21, -87,-122, -21],
    [-87,-123, -21, -87,-124, -21, -87,-125, -21, -87,-126, -21, -87,-127, -21, -87,-128, -21, -88, -65],
    [-21, -88, -66, -21, -88, -67, -21, -88, -68, -21, -88, -69, -21, -88, -70, -21, -88, -71, -21, -88],
    [-72, -21, -88, -73, -21, -88, -74, -21, -88, -75, -21, -88, -76, -21, -88, -77, -21, -88, -78, -21],
    [-88, -79, -21, -88, -80, -21, -88, -81, -21, -88, -82, -21, -88, -83, -21, -88, -84, -21, -88, -85],
    [-21, -88, -86, -21, -88, -87, -21, -88, -88, -21, -88, -89, -21, -88, -90, -21, -88, -91, -21, -88],
    [-92, -21, -88, -93, -21, -88, -94, -21, -88, -95, -21, -88, -96, -21, -88, -97, -21, -88, -98, -21],
    [-88, -99, -21, -88,-100, -21, -88,-101, -21, -88,-102, -21, -88,-103, -21, -88,-104, -21, -88,-105],
    [-21, -88,-106, -21, -88,-107, -21, -88,-108, -21, -88,-109, -21, -88,-110, -21, -88,-111, -21, -88],
    [-112, -21, -88,-113, -21, -88,-114, -21, -88,-115, -21, -88,-116, -21, -88,-117, -21, -88,-118, -21],
    [-88,-119, -21, -88,-120, -21, -88,-121, -21, -88,-122, -21, -88,-123, -21, -88,-124, -21, -88,-125],
    [-21, -88,-126, -21, -88,-127, -21, -88,-128, -21, -89, -65, -21, -89, -66, -21, -89, -67, -21, -89],
    [-68, -21, -89, -69, -21, -89, -70, -21, -89, -71, -21, -89, -72, -21, -89, -73, -21, -89, -74, -21],
    [-89, -75, -21, -89, -76, -21, -89, -77, -21, -89, -78, -21, -89, -79, -21, -89, -80, -21, -89, -81],
    [-21, -89, -82, -21, -89, -83, -21, -89, -84, -21, -89, -85, -21, -89, -86, -21, -89, -87, -21, -89],
    [-88, -21, -89, -89, -21, -89, -90, -21, -89, -91, -21, -89, -92, -21, -89, -93, -21, -89, -94, -21],
    [-89, -95, -21, -89, -96, -21, -89, -97, -21, -89, -98, -21, -89, -99, -21, -89,-100, -21, -89,-101],
    [-21, -89,-102, -21, -89,-103, -21, -89,-104, -21, -89,-105, -21, -89,-106, -21, -89,-107, -21, -89],
    [-108, -21, -89,-109, -21, -89,-110, -21, -89,-111, -21, -89,-112, -21, -89,-113, -21, -89,-114, -21],
    [-89,-115, -21, -89,-116, -21, -89,-117, -21, -89,-118, -21, -89,-119, -21, -89,-120, -21, -89,-121],
    [-21, -89,-122, -21, -89,-123, -21, -89,-124, -21, -89,-125, -21, -89,-126, -21, -89,-127, -21, -89],
    [-128, -21, -90, -65, -21, -90, -66, -21, -90, -67, -21, -90, -68, -21, -90, -69, -21, -90, -70, -21],
    [-90, -71, -21, -90, -72, -21, -90, -73, -21, -90, -74, -21, -90, -75, -21, -90, -76, -21, -90, -77],
    [-21, -90, -78, -21, -90, -79, -21, -90, -80, -21, -90, -81, -21, -90, -82, -21, -90, -83, -21, -90],
    [-84, -21, -90, -85, -21, -90, -86, -21, -90, -87, -21, -90, -88, -21, -90, -89, -21, -90, -90, -21],
    [-90, -91, -21, -90, -92, -21, -90, -93, -21, -90, -94, -21, -90, -95, -21, -90, -96, -21, -90, -97],
    [-21, -90, -98, -21, -90, -99, -21, -90,-100, -21, -90,-101, -21, -90,-102, -21, -90,-103, -21, -90],
    [-104, -21, -90,-105, -21, -90,-106, -21, -90,-107, -21, -90,-108, -21, -90,-109, -21, -90,-110, -21],
    [-90,-111, -21, -90,-112, -21, -90,-113, -21, -90,-114, -21, -90,-115, -21, -90,-116, -21, -90,-117],
    [-21, -90,-118, -21, -90,-119, -21, -90,-120, -21, -90,-121, -21, -90,-122, -21, -90,-123, -21, -90],
    [-124, -21, -90,-125, -21, -90,-126, -21, -90,-127, -21, -90,-128, -21, -91, -65, -21, -91, -66, -21],
    [-91, -67, -21, -91, -68, -21, -91, -69, -21, -91, -70, -21, -91, -71, -21, -91, -72, -21, -91, -73],
    [-21, -91, -74, -21, -91, -75, -21, -91, -76, -21, -91, -77, -21, -91, -78, -21, -91, -79, -21, -91],
    [-80, -21, -91, -81, -21, -91, -82, -21, -91, -83, -21, -91, -84, -21, -91, -85, -21, -91, -86, -21],
    [-91, -87, -21, -91, -88, -21, -91, -89, -21, -91, -90, -21, -91, -91, -21, -91, -92, -21, -91, -93],
    [-21, -91, -94, -21, -91, -95, -21, -91, -96, -21, -91, -97, -21, -91, -98, -21, -91, -99, -21, -91],
    [-100, -21, -91,-101, -21, -91,-102, -21, -91,-103, -21, -91,-104, -21, -91,-105, -21, -91,-106, -21],
    [-91,-107, -21, -91,-108, -21, -91,-109, -21, -91,-110, -21, -91,-111, -21, -91,-112, -21, -91,-113],
    [-21, -91,-114, -21, -91,-115, -21, -91,-116, -21, -91,-117, -21, -91,-118, -21, -91,-119, -21, -91],
    [-120, -21, -91,-121, -21, -91,-122, -21, -91,-123, -21, -91,-124, -21, -91,-125, -21, -91,-126, -21],
    [-91,-127, -21, -91,-128, -21, -92, -65, -21, -92, -66, -21, -92, -67, -21, -92, -68, -21, -92, -69],
    [-21, -92, -70, -21, -92, -71, -21, -92, -72, -21, -92, -73, -21, -92, -74, -21, -92, -75, -21, -92],
    [-76, -21, -92, -77, -21, -92, -78, -21, -92, -79, -21, -92, -80, -21, -92, -81, -21, -92, -82, -21],
    [-92, -83, -21, -92, -84, -21, -92, -85, -21, -92, -86, -21, -92, -87, -21, -92, -88, -21, -92, -89],
    [-21, -92, -90, -21, -92, -91, -21, -92, -92, -21, -92, -93, -21, -92, -94, -21, -92, -95, -21, -92],
    [-96, -21, -92, -97, -21, -92, -98, -21, -92, -99, -21, -92,-100, -21, -92,-101, -21, -92,-102, -21],
    [-92,-103, -21, -92,-104, -21, -92,-105, -21, -92,-106, -21, -92,-107, -21, -92,-108, -21, -92,-109],
    [-21, -92,-110, -21, -92,-111, -21, -92,-112, -21, -92,-113, -21, -92,-114, -21, -92,-115, -21, -92],
    [-116, -21, -92,-117, -21, -92,-118, -21, -92,-119, -21, -92,-120, -21, -92,-121, -21, -92,-122, -21],
    [-92,-123, -21, -92,-124, -21, -92,-125, -21, -92,-126, -21, -92,-127, -21, -92,-128, -21, -93, -65],
    [-21, -93, -66, -21, -93, -67, -21, -93, -68, -21, -93, -69, -21, -93, -70, -21, -93, -71, -21, -93],
    [-72, -21, -93, -73, -21, -93, -74, -21, -93, -75, -21, -93, -76, -21, -93, -77, -21, -93, -78, -21],
    [-93, -79, -21, -93, -80, -21, -93, -81, -21, -93, -82, -21, -93, -83, -21, -93, -84, -21, -93, -85],
    [-21, -93, -86, -21, -93, -87, -21, -93, -88, -21, -93, -89, -21, -93, -90, -21, -93, -91, -21, -93],
    [-92, -21, -93, -93, -21, -93, -94, -21, -93, -95, -21, -93, -96, -21, -93, -97, -21, -93, -98, -21],
    [-93, -99, -21, -93,-100, -21, -93,-101, -21, -93,-102, -21, -93,-103, -21, -93,-104, -21, -93,-105],
    [-21, -93,-106, -21, -93,-107, -21, -93,-108, -21, -93,-109, -21, -93,-110, -21, -93,-111, -21, -93],
    [-112, -21, -93,-113, -21, -93,-114, -21, -93,-115, -21, -93,-116, -21, -93,-117, -21, -93,-118, -21],
    [-93,-119, -21, -93,-120, -21, -93,-121, -21, -93,-122, -21, -93,-123, -21, -93,-124, -21, -93,-125],
    [-21, -93,-126, -21, -93,-127, -21, -93,-128, -21, -94, -65, -21, -94, -66, -21, -94, -67, -21, -94],
    [-68, -21, -94, -69, -21, -94, -70, -21, -94, -71, -21, -94, -72, -21, -94, -73, -21, -94, -74, -21],
    [-94, -75, -21, -94, -76, -21, -94, -77, -21, -94, -78, -21, -94, -79, -21, -94, -80, -21, -94, -81],
    [-21, -94, -82, -21, -94, -83, -21, -94, -84, -21, -94, -85, -21, -94, -86, -21, -94, -87, -21, -94],
    [-88, -21, -94, -89, -21, -94, -90, -21, -94, -91, -21, -94, -92, -21, -94, -93, -21, -94, -94, -21],
    [-94, -95, -21, -94, -96, -21, -94, -97, -21, -94, -98, -21, -94, -99, -21, -94,-100, -21, -94,-101],
    [-21, -94,-102, -21, -94,-103, -21, -94,-104, -21, -94,-105, -21, -94,-106, -21, -94,-107, -21, -94],
    [-108, -21, -94,-109, -21, -94,-110, -21, -94,-111, -21, -94,-112, -21, -94,-113, -21, -94,-114, -21],
    [-94,-115, -21, -94,-116, -21, -94,-117, -21, -94,-118, -21, -94,-119, -21, -94,-120, -21, -94,-121],
    [-21, -94,-122, -21, -94,-123, -21, -94,-124, -21, -94,-125, -21, -94,-126, -21, -94,-127, -21, -94],
    [-128, -21, -95, -65, -21, -95, -66, -21, -95, -67, -21, -95, -68, -21, -95, -69, -21, -95, -70, -21],
    [-95, -71, -21, -95, -72, -21, -95, -73, -21, -95, -74, -21, -95, -75, -21, -95, -76, -21, -95, -77],
    [-21, -95, -78, -21, -95, -79, -21, -95, -80, -21, -95, -81, -21, -95, -82, -21, -95, -83, -21, -95],
    [-84, -21, -95, -85, -21, -95, -86, -21, -95, -87, -21, -95, -88, -21, -95, -89, -21, -95, -90, -21],
    [-95, -91, -21, -95, -92, -21, -95, -93, -21, -95, -94, -21, -95, -95, -21, -95, -96, -21, -95, -97],
    [-21, -95, -98, -21, -95, -99, -21, -95,-100, -21, -95,-101, -21, -95,-102, -21, -95,-103, -21, -95],
    [-104, -21, -95,-105, -21, -95,-106, -21, -95,-107, -21, -95,-108, -21, -95,-109, -21, -95,-110, -21],
    [-95,-111, -21, -95,-112, -21, -95,-113, -21, -95,-114, -21, -95,-115, -21, -95,-116, -21, -95,-117],
    [-21, -95,-118, -21, -95,-119, -21, -95,-120, -21, -95,-121, -21, -95,-122, -21, -95,-123, -21, -95],
    [-124, -21, -95,-125, -21, -95,-126, -21, -95,-127, -21, -95,-128, -21, -96, -65, -21, -96, -66, -21],
    [-96, -67, -21, -96, -68, -21, -96, -69, -21, -96, -70, -21, -96, -71, -21, -96, -72, -21, -96, -73],
    [-21, -96, -74, -21, -96, -75, -21, -96, -76, -21, -96, -77, -21, -96, -78, -21, -96, -79, -21, -96],
    [-80, -21, -96, -81, -21, -96, -82, -21, -96, -83, -21, -96, -84, -21, -96, -85, -21, -96, -86, -21],
    [-96, -87, -21, -96, -88, -21, -96, -89, -21, -96, -90, -21, -96, -91, -21, -96, -92, -21, -96, -93],
    [-21, -96, -94, -21, -96, -95, -21, -96, -96, -21, -96, -97, -21, -96, -98, -21, -96, -99, -21, -96],
    [-100, -21, -96,-101, -21, -96,-102, -21, -96,-103, -21, -96,-104, -21, -96,-105, -21, -96,-106, -21],
    [-96,-107, -21, -96,-108, -21, -96,-109, -21, -96,-110, -21, -96,-111, -21, -96,-112, -21, -96,-113],
    [-21, -96,-114, -21, -96,-115, -21, -96,-116, -21, -96,-117, -21, -96,-118, -21, -96,-119, -21, -96],
    [-120, -21, -96,-121, -21, -96,-122, -21, -96,-123, -21, -96,-124, -21, -96,-125, -21, -96,-126, -21],
    [-96,-127, -21, -96,-128, -21, -97, -65, -21, -97, -66, -21, -97, -67, -21, -97, -68, -21, -97, -69],
    [-21, -97, -70, -21, -97, -71, -21, -97, -72, -21, -97, -73, -21, -97, -74, -21, -97, -75, -21, -97],
    [-76, -21, -97, -77, -21, -97, -78, -21, -97, -79, -21, -97, -80, -21, -97, -81, -21, -97, -82, -21],
    [-97, -83, -21, -97, -84, -21, -97, -85, -21, -97, -86, -21, -97, -87, -21, -97, -88, -21, -97, -89],
    [-21, -97, -90, -21, -97, -91, -21, -97, -92, -21, -97, -93, -21, -97, -94, -21, -97, -95, -21, -97]]"

definition STRINGS_10 :: "int list list" where
  "STRINGS_10 = [
    [-96, -21, -97, -97, -21, -97, -98, -21, -97, -99, -21, -97,-100, -21, -97,-101, -21, -97,-102, -21],
    [-97,-103, -21, -97,-104, -21, -97,-105, -21, -97,-106, -21, -97,-107, -21, -97,-108, -21, -97,-109],
    [-21, -97,-110, -21, -97,-111, -21, -97,-112, -21, -97,-113, -21, -97,-114, -21, -97,-115, -21, -97],
    [-116, -21, -97,-117, -21, -97,-118, -21, -97,-119, -21, -97,-120, -21, -97,-121, -21, -97,-122, -21],
    [-97,-123, -21, -97,-124, -21, -97,-125, -21, -97,-126, -21, -97,-127, -21, -97,-128, -21, -98, -65],
    [-21, -98, -66, -21, -98, -67, -21, -98, -68, -21, -98, -69, -21, -98, -70, -21, -98, -71, -21, -98],
    [-72, -21, -98, -73, -21, -98, -74, -21, -98, -75, -21, -98, -76, -21, -98, -77, -21, -98, -78, -21],
    [-98, -79, -21, -98, -80, -21, -98, -81, -21, -98, -82, -21, -98, -83, -21, -98, -84, -21, -98, -85],
    [-21, -98, -86, -21, -98, -87, -21, -98, -88, -21, -98, -89, -21, -98, -90, -21, -98, -91, -21, -98],
    [-92, -21, -98, -93, -21, -98, -94, -21, -98, -95, -21, -98, -96, -21, -98, -97, -21, -98, -98, -21],
    [-98, -99, -21, -98,-100, -21, -98,-101, -21, -98,-102, -21, -98,-103, -21, -98,-104, -21, -98,-105],
    [-21, -98,-106, -21, -98,-107, -21, -98,-108, -21, -98,-109, -21, -98,-110, -21, -98,-111, -21, -98],
    [-112, -21, -98,-113, -21, -98,-114, -21, -98,-115, -21, -98,-116, -21, -98,-117, -21, -98,-118, -21],
    [-98,-119, -21, -98,-120, -21, -98,-121, -21, -98,-122, -21, -98,-123, -21, -98,-124, -21, -98,-125],
    [-21, -98,-126, -21, -98,-127, -21, -98,-128, -21, -99, -65, -21, -99, -66, -21, -99, -67, -21, -99],
    [-68, -21, -99, -69, -21, -99, -70, -21, -99, -71, -21, -99, -72, -21, -99, -73, -21, -99, -74, -21],
    [-99, -75, -21, -99, -76, -21, -99, -77, -21, -99, -78, -21, -99, -79, -21, -99, -80, -21, -99, -81],
    [-21, -99, -82, -21, -99, -83, -21, -99, -84, -21, -99, -85, -21, -99, -86, -21, -99, -87, -21, -99],
    [-88, -21, -99, -89, -21, -99, -90, -21, -99, -91, -21, -99, -92, -21, -99, -93, -21, -99, -94, -21],
    [-99, -95, -21, -99, -96, -21, -99, -97, -21, -99, -98, -21, -99, -99, -21, -99,-100, -21, -99,-101],
    [-21, -99,-102, -21, -99,-103, -21, -99,-104, -21, -99,-105, -21, -99,-106, -21, -99,-107, -21, -99],
    [-108, -21, -99,-109, -21, -99,-110, -21, -99,-111, -21, -99,-112, -21, -99,-113, -21, -99,-114, -21],
    [-99,-115, -21, -99,-116, -21, -99,-117, -21, -99,-118, -21, -99,-119, -21, -99,-120, -21, -99,-121],
    [-21, -99,-122, -21, -99,-123, -21, -99,-124, -21, -99,-125, -21, -99,-126, -21, -99,-127, -21, -99],
    [-128, -21,-100, -65, -21,-100, -66, -21,-100, -67, -21,-100, -68, -21,-100, -69, -21,-100, -70, -21],
    [-100, -71, -21,-100, -72, -21,-100, -73, -21,-100, -74, -21,-100, -75, -21,-100, -76, -21,-100, -77],
    [-21,-100, -78, -21,-100, -79, -21,-100, -80, -21,-100, -81, -21,-100, -82, -21,-100, -83, -21,-100],
    [-84, -21,-100, -85, -21,-100, -86, -21,-100, -87, -21,-100, -88, -21,-100, -89, -21,-100, -90, -21],
    [-100, -91, -21,-100, -92, -21,-100, -93, -21,-100, -94, -21,-100, -95, -21,-100, -96, -21,-100, -97],
    [-21,-100, -98, -21,-100, -99, -21,-100,-100, -21,-100,-101, -21,-100,-102, -21,-100,-103, -21,-100],
    [-104, -21,-100,-105, -21,-100,-106, -21,-100,-107, -21,-100,-108, -21,-100,-109, -21,-100,-110, -21],
    [-100,-111, -21,-100,-112, -21,-100,-113, -21,-100,-114, -21,-100,-115, -21,-100,-116, -21,-100,-117],
    [-21,-100,-118, -21,-100,-119, -21,-100,-120, -21,-100,-121, -21,-100,-122, -21,-100,-123, -21,-100],
    [-124, -21,-100,-125, -21,-100,-126, -21,-100,-127, -21,-100,-128, -21,-101, -65, -21,-101, -66, -21],
    [-101, -67, -21,-101, -68, -21,-101, -69, -21,-101, -70, -21,-101, -71, -21,-101, -72, -21,-101, -73],
    [-21,-101, -74, -21,-101, -75, -21,-101, -76, -21,-101, -77, -21,-101, -78, -21,-101, -79, -21,-101],
    [-80, -21,-101, -81, -21,-101, -82, -21,-101, -83, -21,-101, -84, -21,-101, -85, -21,-101, -86, -21],
    [-101, -87, -21,-101, -88, -21,-101, -89, -21,-101, -90, -21,-101, -91, -21,-101, -92, -21,-101, -93],
    [-21,-101, -94, -21,-101, -95, -21,-101, -96, -21,-101, -97, -21,-101, -98, -21,-101, -99, -21,-101],
    [-100, -21,-101,-101, -21,-101,-102, -21,-101,-103, -21,-101,-104, -21,-101,-105, -21,-101,-106, -21],
    [-101,-107, -21,-101,-108, -21,-101,-109, -21,-101,-110, -21,-101,-111, -21,-101,-112, -21,-101,-113],
    [-21,-101,-114, -21,-101,-115, -21,-101,-116, -21,-101,-117, -21,-101,-118, -21,-101,-119, -21,-101],
    [-120, -21,-101,-121, -21,-101,-122, -21,-101,-123, -21,-101,-124, -21,-101,-125, -21,-101,-126, -21],
    [-101,-127, -21,-101,-128, -21,-102, -65, -21,-102, -66, -21,-102, -67, -21,-102, -68, -21,-102, -69],
    [-21,-102, -70, -21,-102, -71, -21,-102, -72, -21,-102, -73, -21,-102, -74, -21,-102, -75, -21,-102],
    [-76, -21,-102, -77, -21,-102, -78, -21,-102, -79, -21,-102, -80, -21,-102, -81, -21,-102, -82, -21],
    [-102, -83, -21,-102, -84, -21,-102, -85, -21,-102, -86, -21,-102, -87, -21,-102, -88, -21,-102, -89],
    [-21,-102, -90, -21,-102, -91, -21,-102, -92, -21,-102, -93, -21,-102, -94, -21,-102, -95, -21,-102],
    [-96, -21,-102, -97, -21,-102, -98, -21,-102, -99, -21,-102,-100, -21,-102,-101, -21,-102,-102, -21],
    [-102,-103, -21,-102,-104, -21,-102,-105, -21,-102,-106, -21,-102,-107, -21,-102,-108, -21,-102,-109],
    [-21,-102,-110, -21,-102,-111, -21,-102,-112, -21,-102,-113, -21,-102,-114, -21,-102,-115, -21,-102],
    [-116, -21,-102,-117, -21,-102,-118, -21,-102,-119, -21,-102,-120, -21,-102,-121, -21,-102,-122, -21],
    [-102,-123, -21,-102,-124, -21,-102,-125, -21,-102,-126, -21,-102,-127, -21,-102,-128, -21,-103, -65],
    [-21,-103, -66, -21,-103, -67, -21,-103, -68, -21,-103, -69, -21,-103, -70, -21,-103, -71, -21,-103],
    [-72, -21,-103, -73, -21,-103, -74, -21,-103, -75, -21,-103, -76, -21,-103, -77, -21,-103, -78, -21],
    [-103, -79, -21,-103, -80, -21,-103, -81, -21,-103, -82, -21,-103, -83, -21,-103, -84, -21,-103, -85],
    [-21,-103, -86, -21,-103, -87, -21,-103, -88, -21,-103, -89, -21,-103, -90, -21,-103, -91, -21,-103],
    [-92, -21,-103, -93, -21,-103, -94, -21,-103, -95, -21,-103, -96, -21,-103, -97, -21,-103, -98, -21],
    [-103, -99, -21,-103,-100, -21,-103,-101, -21,-103,-102, -21,-103,-103, -21,-103,-104, -21,-103,-105],
    [-21,-103,-106, -21,-103,-107, -21,-103,-108, -21,-103,-109, -21,-103,-110, -21,-103,-111, -21,-103],
    [-112, -21,-103,-113, -21,-103,-114, -21,-103,-115, -21,-103,-116, -21,-103,-117, -21,-103,-118, -21],
    [-103,-119, -21,-103,-120, -21,-103,-121, -21,-103,-122, -21,-103,-123, -21,-103,-124, -21,-103,-125],
    [-21,-103,-126, -21,-103,-127, -21,-103,-128, -21,-104, -65, -21,-104, -66, -21,-104, -67, -21,-104],
    [-68, -21,-104, -69, -21,-104, -70, -21,-104, -71, -21,-104, -72, -21,-104, -73, -21,-104, -74, -21],
    [-104, -75, -21,-104, -76, -21,-104, -77, -21,-104, -78, -21,-104, -79, -21,-104, -80, -21,-104, -81],
    [-21,-104, -82, -21,-104, -83, -21,-104, -84, -21,-104, -85, -21,-104, -86, -21,-104, -87, -21,-104],
    [-88, -21,-104, -89, -21,-104, -90, -21,-104, -91, -21,-104, -92, -21,-104, -93, -21,-104, -94, -21],
    [-104, -95, -21,-104, -96, -21,-104, -97, -21,-104, -98, -21,-104, -99, -21,-104,-100, -21,-104,-101],
    [-21,-104,-102, -21,-104,-103, -21,-104,-104, -21,-104,-105, -21,-104,-106, -21,-104,-107, -21,-104],
    [-108, -21,-104,-109, -21,-104,-110, -21,-104,-111, -21,-104,-112, -21,-104,-113, -21,-104,-114, -21],
    [-104,-115, -21,-104,-116, -21,-104,-117, -21,-104,-118, -21,-104,-119, -21,-104,-120, -21,-104,-121],
    [-21,-104,-122, -21,-104,-123, -21,-104,-124, -21,-104,-125, -21,-104,-126, -21,-104,-127, -21,-104],
    [-128, -21,-105, -65, -21,-105, -66, -21,-105, -67, -21,-105, -68, -21,-105, -69, -21,-105, -70, -21],
    [-105, -71, -21,-105, -72, -21,-105, -73, -21,-105, -74, -21,-105, -75, -21,-105, -76, -21,-105, -77],
    [-21,-105, -78, -21,-105, -79, -21,-105, -80, -21,-105, -81, -21,-105, -82, -21,-105, -83, -21,-105],
    [-84, -21,-105, -85, -21,-105, -86, -21,-105, -87, -21,-105, -88, -21,-105, -89, -21,-105, -90, -21],
    [-105, -91, -21,-105, -92, -21,-105, -93, -21,-105, -94, -21,-105, -95, -21,-105, -96, -21,-105, -97],
    [-21,-105, -98, -21,-105, -99, -21,-105,-100, -21,-105,-101, -21,-105,-102, -21,-105,-103, -21,-105],
    [-104, -21,-105,-105, -21,-105,-106, -21,-105,-107, -21,-105,-108, -21,-105,-109, -21,-105,-110, -21],
    [-105,-111, -21,-105,-112, -21,-105,-113, -21,-105,-114, -21,-105,-115, -21,-105,-116, -21,-105,-117],
    [-21,-105,-118, -21,-105,-119, -21,-105,-120, -21,-105,-121, -21,-105,-122, -21,-105,-123, -21,-105],
    [-124, -21,-105,-125, -21,-105,-126, -21,-105,-127, -21,-105,-128, -21,-106, -65, -21,-106, -66, -21],
    [-106, -67, -21,-106, -68, -21,-106, -69, -21,-106, -70, -21,-106, -71, -21,-106, -72, -21,-106, -73],
    [-21,-106, -74, -21,-106, -75, -21,-106, -76, -21,-106, -77, -21,-106, -78, -21,-106, -79, -21,-106],
    [-80, -21,-106, -81, -21,-106, -82, -21,-106, -83, -21,-106, -84, -21,-106, -85, -21,-106, -86, -21],
    [-106, -87, -21,-106, -88, -21,-106, -89, -21,-106, -90, -21,-106, -91, -21,-106, -92, -21,-106, -93],
    [-21,-106, -94, -21,-106, -95, -21,-106, -96, -21,-106, -97, -21,-106, -98, -21,-106, -99, -21,-106],
    [-100, -21,-106,-101, -21,-106,-102, -21,-106,-103, -21,-106,-104, -21,-106,-105, -21,-106,-106, -21],
    [-106,-107, -21,-106,-108, -21,-106,-109, -21,-106,-110, -21,-106,-111, -21,-106,-112, -21,-106,-113],
    [-21,-106,-114, -21,-106,-115, -21,-106,-116, -21,-106,-117, -21,-106,-118, -21,-106,-119, -21,-106],
    [-120, -21,-106,-121, -21,-106,-122, -21,-106,-123, -21,-106,-124, -21,-106,-125, -21,-106,-126, -21],
    [-106,-127, -21,-106,-128, -21,-107, -65, -21,-107, -66, -21,-107, -67, -21,-107, -68, -21,-107, -69],
    [-21,-107, -70, -21,-107, -71, -21,-107, -72, -21,-107, -73, -21,-107, -74, -21,-107, -75, -21,-107],
    [-76, -21,-107, -77, -21,-107, -78, -21,-107, -79, -21,-107, -80, -21,-107, -81, -21,-107, -82, -21],
    [-107, -83, -21,-107, -84, -21,-107, -85, -21,-107, -86, -21,-107, -87, -21,-107, -88, -21,-107, -89],
    [-21,-107, -90, -21,-107, -91, -21,-107, -92, -21,-107, -93, -21,-107, -94, -21,-107, -95, -21,-107],
    [-96, -21,-107, -97, -21,-107, -98, -21,-107, -99, -21,-107,-100, -21,-107,-101, -21,-107,-102, -21],
    [-107,-103, -21,-107,-104, -21,-107,-105, -21,-107,-106, -21,-107,-107, -21,-107,-108, -21,-107,-109],
    [-21,-107,-110, -21,-107,-111, -21,-107,-112, -21,-107,-113, -21,-107,-114, -21,-107,-115, -21,-107],
    [-116, -21,-107,-117, -21,-107,-118, -21,-107,-119, -21,-107,-120, -21,-107,-121, -21,-107,-122, -21],
    [-107,-123, -21,-107,-124, -21,-107,-125, -21,-107,-126, -21,-107,-127, -21,-107,-128, -21,-108, -65],
    [-21,-108, -66, -21,-108, -67, -21,-108, -68, -21,-108, -69, -21,-108, -70, -21,-108, -71, -21,-108],
    [-72, -21,-108, -73, -21,-108, -74, -21,-108, -75, -21,-108, -76, -21,-108, -77, -21,-108, -78, -21],
    [-108, -79, -21,-108, -80, -21,-108, -81, -21,-108, -82, -21,-108, -83, -21,-108, -84, -21,-108, -85],
    [-21,-108, -86, -21,-108, -87, -21,-108, -88, -21,-108, -89, -21,-108, -90, -21,-108, -91, -21,-108],
    [-92, -21,-108, -93, -21,-108, -94, -21,-108, -95, -21,-108, -96, -21,-108, -97, -21,-108, -98, -21],
    [-108, -99, -21,-108,-100, -21,-108,-101, -21,-108,-102, -21,-108,-103, -21,-108,-104, -21,-108,-105],
    [-21,-108,-106, -21,-108,-107, -21,-108,-108, -21,-108,-109, -21,-108,-110, -21,-108,-111, -21,-108],
    [-112, -21,-108,-113, -21,-108,-114, -21,-108,-115, -21,-108,-116, -21,-108,-117, -21,-108,-118, -21],
    [-108,-119, -21,-108,-120, -21,-108,-121, -21,-108,-122, -21,-108,-123, -21,-108,-124, -21,-108,-125],
    [-21,-108,-126, -21,-108,-127, -21,-108,-128, -21,-109, -65, -21,-109, -66, -21,-109, -67, -21,-109],
    [-68, -21,-109, -69, -21,-109, -70, -21,-109, -71, -21,-109, -72, -21,-109, -73, -21,-109, -74, -21],
    [-109, -75, -21,-109, -76, -21,-109, -77, -21,-109, -78, -21,-109, -79, -21,-109, -80, -21,-109, -81],
    [-21,-109, -82, -21,-109, -83, -21,-109, -84, -21,-109, -85, -21,-109, -86, -21,-109, -87, -21,-109],
    [-88, -21,-109, -89, -21,-109, -90, -21,-109, -91, -21,-109, -92, -21,-109, -93, -21,-109, -94, -21],
    [-109, -95, -21,-109, -96, -21,-109, -97, -21,-109, -98, -21,-109, -99, -21,-109,-100, -21,-109,-101],
    [-21,-109,-102, -21,-109,-103, -21,-109,-104, -21,-109,-105, -21,-109,-106, -21,-109,-107, -21,-109],
    [-108, -21,-109,-109, -21,-109,-110, -21,-109,-111, -21,-109,-112, -21,-109,-113, -21,-109,-114, -21],
    [-109,-115, -21,-109,-116, -21,-109,-117, -21,-109,-118, -21,-109,-119, -21,-109,-120, -21,-109,-121],
    [-21,-109,-122, -21,-109,-123, -21,-109,-124, -21,-109,-125, -21,-109,-126, -21,-109,-127, -21,-109],
    [-128, -21,-110, -65, -21,-110, -66, -21,-110, -67, -21,-110, -68, -21,-110, -69, -21,-110, -70, -21],
    [-110, -71, -21,-110, -72, -21,-110, -73, -21,-110, -74, -21,-110, -75, -21,-110, -76, -21,-110, -77],
    [-21,-110, -78, -21,-110, -79, -21,-110, -80, -21,-110, -81, -21,-110, -82, -21,-110, -83, -21,-110],
    [-84, -21,-110, -85, -21,-110, -86, -21,-110, -87, -21,-110, -88, -21,-110, -89, -21,-110, -90, -21],
    [-110, -91, -21,-110, -92, -21,-110, -93, -21,-110, -94, -21,-110, -95, -21,-110, -96, -21,-110, -97],
    [-21,-110, -98, -21,-110, -99, -21,-110,-100, -21,-110,-101, -21,-110,-102, -21,-110,-103, -21,-110],
    [-104, -21,-110,-105, -21,-110,-106, -21,-110,-107, -21,-110,-108, -21,-110,-109, -21,-110,-110, -21],
    [-110,-111, -21,-110,-112, -21,-110,-113, -21,-110,-114, -21,-110,-115, -21,-110,-116, -21,-110,-117],
    [-21,-110,-118, -21,-110,-119, -21,-110,-120, -21,-110,-121, -21,-110,-122, -21,-110,-123, -21,-110],
    [-124, -21,-110,-125, -21,-110,-126, -21,-110,-127, -21,-110,-128, -21,-111, -65, -21,-111, -66, -21],
    [-111, -67, -21,-111, -68, -21,-111, -69, -21,-111, -70, -21,-111, -71, -21,-111, -72, -21,-111, -73],
    [-21,-111, -74, -21,-111, -75, -21,-111, -76, -21,-111, -77, -21,-111, -78, -21,-111, -79, -21,-111],
    [-80, -21,-111, -81, -21,-111, -82, -21,-111, -83, -21,-111, -84, -21,-111, -85, -21,-111, -86, -21],
    [-111, -87, -21,-111, -88, -21,-111, -89, -21,-111, -90, -21,-111, -91, -21,-111, -92, -21,-111, -93],
    [-21,-111, -94, -21,-111, -95, -21,-111, -96, -21,-111, -97, -21,-111, -98, -21,-111, -99, -21,-111],
    [-100, -21,-111,-101, -21,-111,-102, -21,-111,-103, -21,-111,-104, -21,-111,-105, -21,-111,-106, -21],
    [-111,-107, -21,-111,-108, -21,-111,-109, -21,-111,-110, -21,-111,-111, -21,-111,-112, -21,-111,-113],
    [-21,-111,-114, -21,-111,-115, -21,-111,-116, -21,-111,-117, -21,-111,-118, -21,-111,-119, -21,-111],
    [-120, -21,-111,-121, -21,-111,-122, -21,-111,-123, -21,-111,-124, -21,-111,-125, -21,-111,-126, -21],
    [-111,-127, -21,-111,-128, -21,-112, -65, -21,-112, -66, -21,-112, -67, -21,-112, -68, -21,-112, -69],
    [-21,-112, -70, -21,-112, -71, -21,-112, -72, -21,-112, -73, -21,-112, -74, -21,-112, -75, -21,-112],
    [-76, -21,-112, -77, -21,-112, -78, -21,-112, -79, -21,-112, -80, -21,-112, -81, -21,-112, -82, -21],
    [-112, -83, -21,-112, -84, -21,-112, -85, -21,-112, -86, -21,-112, -87, -21,-112, -88, -21,-112, -89],
    [-21,-112, -90, -21,-112, -91, -21,-112, -92, -21,-112, -93, -21,-112, -94, -21,-112, -95, -21,-112]]"

definition STRINGS_11 :: "int list list" where
  "STRINGS_11 = [
    [-96, -21,-112, -97, -21,-112, -98, -21,-112, -99, -21,-112,-100, -21,-112,-101, -21,-112,-102, -21],
    [-112,-103, -21,-112,-104, -21,-112,-105, -21,-112,-106, -21,-112,-107, -21,-112,-108, -21,-112,-109],
    [-21,-112,-110, -21,-112,-111, -21,-112,-112, -21,-112,-113, -21,-112,-114, -21,-112,-115, -21,-112],
    [-116, -21,-112,-117, -21,-112,-118, -21,-112,-119, -21,-112,-120, -21,-112,-121, -21,-112,-122, -21],
    [-112,-123, -21,-112,-124, -21,-112,-125, -21,-112,-126, -21,-112,-127, -21,-112,-128, -21,-113, -65],
    [-21,-113, -66, -21,-113, -67, -21,-113, -68, -21,-113, -69, -21,-113, -70, -21,-113, -71, -21,-113],
    [-72, -21,-113, -73, -21,-113, -74, -21,-113, -75, -21,-113, -76, -21,-113, -77, -21,-113, -78, -21],
    [-113, -79, -21,-113, -80, -21,-113, -81, -21,-113, -82, -21,-113, -83, -21,-113, -84, -21,-113, -85],
    [-21,-113, -86, -21,-113, -87, -21,-113, -88, -21,-113, -89, -21,-113, -90, -21,-113, -91, -21,-113],
    [-92, -21,-113, -93, -21,-113, -94, -21,-113, -95, -21,-113, -96, -21,-113, -97, -21,-113, -98, -21],
    [-113, -99, -21,-113,-100, -21,-113,-101, -21,-113,-102, -21,-113,-103, -21,-113,-104, -21,-113,-105],
    [-21,-113,-106, -21,-113,-107, -21,-113,-108, -21,-113,-109, -21,-113,-110, -21,-113,-111, -21,-113],
    [-112, -21,-113,-113, -21,-113,-114, -21,-113,-115, -21,-113,-116, -21,-113,-117, -21,-113,-118, -21],
    [-113,-119, -21,-113,-120, -21,-113,-121, -21,-113,-122, -21,-113,-123, -21,-113,-124, -21,-113,-125],
    [-21,-113,-126, -21,-113,-127, -21,-113,-128, -21,-114, -65, -21,-114, -66, -21,-114, -67, -21,-114],
    [-68, -21,-114, -69, -21,-114, -70, -21,-114, -71, -21,-114, -72, -21,-114, -73, -21,-114, -74, -21],
    [-114, -75, -21,-114, -76, -21,-114, -77, -21,-114, -78, -21,-114, -79, -21,-114, -80, -21,-114, -81],
    [-21,-114, -82, -21,-114, -83, -21,-114, -84, -21,-114, -85, -21,-114, -86, -21,-114, -87, -21,-114],
    [-88, -21,-114, -89, -21,-114, -90, -21,-114, -91, -21,-114, -92, -21,-114, -93, -21,-114, -94, -21],
    [-114, -95, -21,-114, -96, -21,-114, -97, -21,-114, -98, -21,-114, -99, -21,-114,-100, -21,-114,-101],
    [-21,-114,-102, -21,-114,-103, -21,-114,-104, -21,-114,-105, -21,-114,-106, -21,-114,-107, -21,-114],
    [-108, -21,-114,-109, -21,-114,-110, -21,-114,-111, -21,-114,-112, -21,-114,-113, -21,-114,-114, -21],
    [-114,-115, -21,-114,-116, -21,-114,-117, -21,-114,-118, -21,-114,-119, -21,-114,-120, -21,-114,-121],
    [-21,-114,-122, -21,-114,-123, -21,-114,-124, -21,-114,-125, -21,-114,-126, -21,-114,-127, -21,-114],
    [-128, -21,-115, -65, -21,-115, -66, -21,-115, -67, -21,-115, -68, -21,-115, -69, -21,-115, -70, -21],
    [-115, -71, -21,-115, -72, -21,-115, -73, -21,-115, -74, -21,-115, -75, -21,-115, -76, -21,-115, -77],
    [-21,-115, -78, -21,-115, -79, -21,-115, -80, -21,-115, -81, -21,-115, -82, -21,-115, -83, -21,-115],
    [-84, -21,-115, -85, -21,-115, -86, -21,-115, -87, -21,-115, -88, -21,-115, -89, -21,-115, -90, -21],
    [-115, -91, -21,-115, -92, -21,-115, -93, -21,-115, -94, -21,-115, -95, -21,-115, -96, -21,-115, -97],
    [-21,-115, -98, -21,-115, -99, -21,-115,-100, -21,-115,-101, -21,-115,-102, -21,-115,-103, -21,-115],
    [-104, -21,-115,-105, -21,-115,-106, -21,-115,-107, -21,-115,-108, -21,-115,-109, -21,-115,-110, -21],
    [-115,-111, -21,-115,-112, -21,-115,-113, -21,-115,-114, -21,-115,-115, -21,-115,-116, -21,-115,-117],
    [-21,-115,-118, -21,-115,-119, -21,-115,-120, -21,-115,-121, -21,-115,-122, -21,-115,-123, -21,-115],
    [-124, -21,-115,-125, -21,-115,-126, -21,-115,-127, -21,-115,-128, -21,-116, -65, -21,-116, -66, -21],
    [-116, -67, -21,-116, -68, -21,-116, -69, -21,-116, -70, -21,-116, -71, -21,-116, -72, -21,-116, -73],
    [-21,-116, -74, -21,-116, -75, -21,-116, -76, -21,-116, -77, -21,-116, -78, -21,-116, -79, -21,-116],
    [-80, -21,-116, -81, -21,-116, -82, -21,-116, -83, -21,-116, -84, -21,-116, -85, -21,-116, -86, -21],
    [-116, -87, -21,-116, -88, -21,-116, -89, -21,-116, -90, -21,-116, -91, -21,-116, -92, -21,-116, -93],
    [-21,-116, -94, -21,-116, -95, -21,-116, -96, -21,-116, -97, -21,-116, -98, -21,-116, -99, -21,-116],
    [-100, -21,-116,-101, -21,-116,-102, -21,-116,-103, -21,-116,-104, -21,-116,-105, -21,-116,-106, -21],
    [-116,-107, -21,-116,-108, -21,-116,-109, -21,-116,-110, -21,-116,-111, -21,-116,-112, -21,-116,-113],
    [-21,-116,-114, -21,-116,-115, -21,-116,-116, -21,-116,-117, -21,-116,-118, -21,-116,-119, -21,-116],
    [-120, -21,-116,-121, -21,-116,-122, -21,-116,-123, -21,-116,-124, -21,-116,-125, -21,-116,-126, -21],
    [-116,-127, -21,-116,-128, -21,-117, -65, -21,-117, -66, -21,-117, -67, -21,-117, -68, -21,-117, -69],
    [-21,-117, -70, -21,-117, -71, -21,-117, -72, -21,-117, -73, -21,-117, -74, -21,-117, -75, -21,-117],
    [-76, -21,-117, -77, -21,-117, -78, -21,-117, -79, -21,-117, -80, -21,-117, -81, -21,-117, -82, -21],
    [-117, -83, -21,-117, -84, -21,-117, -85, -21,-117, -86, -21,-117, -87, -21,-117, -88, -21,-117, -89],
    [-21,-117, -90, -21,-117, -91, -21,-117, -92, -21,-117, -93, -21,-117, -94, -21,-117, -95, -21,-117],
    [-96, -21,-117, -97, -21,-117, -98, -21,-117, -99, -21,-117,-100, -21,-117,-101, -21,-117,-102, -21],
    [-117,-103, -21,-117,-104, -21,-117,-105, -21,-117,-106, -21,-117,-107, -21,-117,-108, -21,-117,-109],
    [-21,-117,-110, -21,-117,-111, -21,-117,-112, -21,-117,-113, -21,-117,-114, -21,-117,-115, -21,-117],
    [-116, -21,-117,-117, -21,-117,-118, -21,-117,-119, -21,-117,-120, -21,-117,-121, -21,-117,-122, -21],
    [-117,-123, -21,-117,-124, -21,-117,-125, -21,-117,-126, -21,-117,-127, -21,-117,-128, -21,-118, -65],
    [-21,-118, -66, -21,-118, -67, -21,-118, -68, -21,-118, -69, -21,-118, -70, -21,-118, -71, -21,-118],
    [-72, -21,-118, -73, -21,-118, -74, -21,-118, -75, -21,-118, -76, -21,-118, -77, -21,-118, -78, -21],
    [-118, -79, -21,-118, -80, -21,-118, -81, -21,-118, -82, -21,-118, -83, -21,-118, -84, -21,-118, -85],
    [-21,-118, -86, -21,-118, -87, -21,-118, -88, -21,-118, -89, -21,-118, -90, -21,-118, -91, -21,-118],
    [-92, -21,-118, -93, -21,-118, -94, -21,-118, -95, -21,-118, -96, -21,-118, -97, -21,-118, -98, -21],
    [-118, -99, -21,-118,-100, -21,-118,-101, -21,-118,-102, -21,-118,-103, -21,-118,-104, -21,-118,-105],
    [-21,-118,-106, -21,-118,-107, -21,-118,-108, -21,-118,-109, -21,-118,-110, -21,-118,-111, -21,-118],
    [-112, -21,-118,-113, -21,-118,-114, -21,-118,-115, -21,-118,-116, -21,-118,-117, -21,-118,-118, -21],
    [-118,-119, -21,-118,-120, -21,-118,-121, -21,-118,-122, -21,-118,-123, -21,-118,-124, -21,-118,-125],
    [-21,-118,-126, -21,-118,-127, -21,-118,-128, -21,-119, -65, -21,-119, -66, -21,-119, -67, -21,-119],
    [-68, -21,-119, -69, -21,-119, -70, -21,-119, -71, -21,-119, -72, -21,-119, -73, -21,-119, -74, -21],
    [-119, -75, -21,-119, -76, -21,-119, -77, -21,-119, -78, -21,-119, -79, -21,-119, -80, -21,-119, -81],
    [-21,-119, -82, -21,-119, -83, -21,-119, -84, -21,-119, -85, -21,-119, -86, -21,-119, -87, -21,-119],
    [-88, -21,-119, -89, -21,-119, -90, -21,-119, -91, -21,-119, -92, -21,-119, -93, -21,-119, -94, -21],
    [-119, -95, -21,-119, -96, -21,-119, -97, -21,-119, -98, -21,-119, -99, -21,-119,-100, -21,-119,-101],
    [-21,-119,-102, -21,-119,-103, -21,-119,-104, -21,-119,-105, -21,-119,-106, -21,-119,-107, -21,-119],
    [-108, -21,-119,-109, -21,-119,-110, -21,-119,-111, -21,-119,-112, -21,-119,-113, -21,-119,-114, -21],
    [-119,-115, -21,-119,-116, -21,-119,-117, -21,-119,-118, -21,-119,-119, -21,-119,-120, -21,-119,-121],
    [-21,-119,-122, -21,-119,-123, -21,-119,-124, -21,-119,-125, -21,-119,-126, -21,-119,-127, -21,-119],
    [-128, -21,-120, -65, -21,-120, -66, -21,-120, -67, -21,-120, -68, -21,-120, -69, -21,-120, -70, -21],
    [-120, -71, -21,-120, -72, -21,-120, -73, -21,-120, -74, -21,-120, -75, -21,-120, -76, -21,-120, -77],
    [-21,-120, -78, -21,-120, -79, -21,-120, -80, -21,-120, -81, -21,-120, -82, -21,-120, -83, -21,-120],
    [-84, -21,-120, -85, -21,-120, -86, -21,-120, -87, -21,-120, -88, -21,-120, -89, -21,-120, -90, -21],
    [-120, -91, -21,-120, -92, -21,-120, -93, -21,-120, -94, -21,-120, -95, -21,-120, -96, -21,-120, -97],
    [-21,-120, -98, -21,-120, -99, -21,-120,-100, -21,-120,-101, -21,-120,-102, -21,-120,-103, -21,-120],
    [-104, -21,-120,-105, -21,-120,-106, -21,-120,-107, -21,-120,-108, -21,-120,-109, -21,-120,-110, -21],
    [-120,-111, -21,-120,-112, -21,-120,-113, -21,-120,-114, -21,-120,-115, -21,-120,-116, -21,-120,-117],
    [-21,-120,-118, -21,-120,-119, -21,-120,-120, -21,-120,-121, -21,-120,-122, -21,-120,-123, -21,-120],
    [-124, -21,-120,-125, -21,-120,-126, -21,-120,-127, -21,-120,-128, -21,-121, -65, -21,-121, -66, -21],
    [-121, -67, -21,-121, -68, -21,-121, -69, -21,-121, -70, -21,-121, -71, -21,-121, -72, -21,-121, -73],
    [-21,-121, -74, -21,-121, -75, -21,-121, -76, -21,-121, -77, -21,-121, -78, -21,-121, -79, -21,-121],
    [-80, -21,-121, -81, -21,-121, -82, -21,-121, -83, -21,-121, -84, -21,-121, -85, -21,-121, -86, -21],
    [-121, -87, -21,-121, -88, -21,-121, -89, -21,-121, -90, -21,-121, -91, -21,-121, -92, -21,-121, -93],
    [-21,-121, -94, -21,-121, -95, -21,-121, -96, -21,-121, -97, -21,-121, -98, -21,-121, -99, -21,-121],
    [-100, -21,-121,-101, -21,-121,-102, -21,-121,-103, -21,-121,-104, -21,-121,-105, -21,-121,-106, -21],
    [-121,-107, -21,-121,-108, -21,-121,-109, -21,-121,-110, -21,-121,-111, -21,-121,-112, -21,-121,-113],
    [-21,-121,-114, -21,-121,-115, -21,-121,-116, -21,-121,-117, -21,-121,-118, -21,-121,-119, -21,-121],
    [-120, -21,-121,-121, -21,-121,-122, -21,-121,-123, -21,-121,-124, -21,-121,-125, -21,-121,-126, -21],
    [-121,-127, -21,-121,-128, -21,-122, -65, -21,-122, -66, -21,-122, -67, -21,-122, -68, -21,-122, -69],
    [-21,-122, -70, -21,-122, -71, -21,-122, -72, -21,-122, -73, -21,-122, -74, -21,-122, -75, -21,-122],
    [-76, -21,-122, -77, -21,-122, -78, -21,-122, -79, -21,-122, -80, -21,-122, -81, -21,-122, -82, -21],
    [-122, -83, -21,-122, -84, -21,-122, -85, -21,-122, -86, -21,-122, -87, -21,-122, -88, -21,-122, -89],
    [-21,-122, -90, -21,-122, -91, -21,-122, -92, -21,-122, -93, -21,-122, -94, -21,-122, -95, -21,-122],
    [-96, -21,-122, -97, -21,-122, -98, -21,-122, -99, -21,-122,-100, -21,-122,-101, -21,-122,-102, -21],
    [-122,-103, -21,-122,-104, -21,-122,-105, -21,-122,-106, -21,-122,-107, -21,-122,-108, -21,-122,-109],
    [-21,-122,-110, -21,-122,-111, -21,-122,-112, -21,-122,-113, -21,-122,-114, -21,-122,-115, -21,-122],
    [-116, -21,-122,-117, -21,-122,-118, -21,-122,-119, -21,-122,-120, -21,-122,-121, -21,-122,-122, -21],
    [-122,-123, -21,-122,-124, -21,-122,-125, -21,-122,-126, -21,-122,-127, -21,-122,-128, -21,-123, -65],
    [-21,-123, -66, -21,-123, -67, -21,-123, -68, -21,-123, -69, -21,-123, -70, -21,-123, -71, -21,-123],
    [-72, -21,-123, -73, -21,-123, -74, -21,-123, -75, -21,-123, -76, -21,-123, -77, -21,-123, -78, -21],
    [-123, -79, -21,-123, -80, -21,-123, -81, -21,-123, -82, -21,-123, -83, -21,-123, -84, -21,-123, -85],
    [-21,-123, -86, -21,-123, -87, -21,-123, -88, -21,-123, -89, -21,-123, -90, -21,-123, -91, -21,-123],
    [-92, -21,-123, -93, -21,-123, -94, -21,-123, -95, -21,-123, -96, -21,-123, -97, -21,-123, -98, -21],
    [-123, -99, -21,-123,-100, -21,-123,-101, -21,-123,-102, -21,-123,-103, -21,-123,-104, -21,-123,-105],
    [-21,-123,-106, -21,-123,-107, -21,-123,-108, -21,-123,-109, -21,-123,-110, -21,-123,-111, -21,-123],
    [-112, -21,-123,-113, -21,-123,-114, -21,-123,-115, -21,-123,-116, -21,-123,-117, -21,-123,-118, -21],
    [-123,-119, -21,-123,-120, -21,-123,-121, -21,-123,-122, -21,-123,-123, -21,-123,-124, -21,-123,-125],
    [-21,-123,-126, -21,-123,-127, -21,-123,-128, -21,-124, -65, -21,-124, -66, -21,-124, -67, -21,-124],
    [-68, -21,-124, -69, -21,-124, -70, -21,-124, -71, -21,-124, -72, -21,-124, -73, -21,-124, -74, -21],
    [-124, -75, -21,-124, -76, -21,-124, -77, -21,-124, -78, -21,-124, -79, -21,-124, -80, -21,-124, -81],
    [-21,-124, -82, -21,-124, -83, -21,-124, -84, -21,-124, -85, -21,-124, -86, -21,-124, -87, -21,-124],
    [-88, -21,-124, -89, -21,-124, -90, -21,-124, -91, -21,-124, -92, -21,-124, -93, -21,-124, -94, -21],
    [-124, -95, -21,-124, -96, -21,-124, -97, -21,-124, -98, -21,-124, -99, -21,-124,-100, -21,-124,-101],
    [-21,-124,-102, -21,-124,-103, -21,-124,-104, -21,-124,-105, -21,-124,-106, -21,-124,-107, -21,-124],
    [-108, -21,-124,-109, -21,-124,-110, -21,-124,-111, -21,-124,-112, -21,-124,-113, -21,-124,-114, -21],
    [-124,-115, -21,-124,-116, -21,-124,-117, -21,-124,-118, -21,-124,-119, -21,-124,-120, -21,-124,-121],
    [-21,-124,-122, -21,-124,-123, -21,-124,-124, -21,-124,-125, -21,-124,-126, -21,-124,-127, -21,-124],
    [-128, -21,-125, -65, -21,-125, -66, -21,-125, -67, -21,-125, -68, -21,-125, -69, -21,-125, -70, -21],
    [-125, -71, -21,-125, -72, -21,-125, -73, -21,-125, -74, -21,-125, -75, -21,-125, -76, -21,-125, -77],
    [-21,-125, -78, -21,-125, -79, -21,-125, -80, -21,-125, -81, -21,-125, -82, -21,-125, -83, -21,-125],
    [-84, -21,-125, -85, -21,-125, -86, -21,-125, -87, -21,-125, -88, -21,-125, -89, -21,-125, -90, -21],
    [-125, -91, -21,-125, -92, -21,-125, -93, -21,-125, -94, -21,-125, -95, -21,-125, -96, -21,-125, -97],
    [-21,-125, -98, -21,-125, -99, -21,-125,-100, -21,-125,-101, -21,-125,-102, -21,-125,-103, -21,-125],
    [-104, -21,-125,-105, -21,-125,-106, -21,-125,-107, -21,-125,-108, -21,-125,-109, -21,-125,-110, -21],
    [-125,-111, -21,-125,-112, -21,-125,-113, -21,-125,-114, -21,-125,-115, -21,-125,-116, -21,-125,-117],
    [-21,-125,-118, -21,-125,-119, -21,-125,-120, -21,-125,-121, -21,-125,-122, -21,-125,-123, -21,-125],
    [-124, -21,-125,-125, -21,-125,-126, -21,-125,-127, -21,-125,-128, -21,-126, -65, -21,-126, -66, -21],
    [-126, -67, -21,-126, -68, -21,-126, -69, -21,-126, -70, -21,-126, -71, -21,-126, -72, -21,-126, -73],
    [-21,-126, -74, -21,-126, -75, -21,-126, -76, -21,-126, -77, -21,-126, -78, -21,-126, -79, -21,-126],
    [-80, -21,-126, -81, -21,-126, -82, -21,-126, -83, -21,-126, -84, -21,-126, -85, -21,-126, -86, -21],
    [-126, -87, -21,-126, -88, -21,-126, -89, -21,-126, -90, -21,-126, -91, -21,-126, -92, -21,-126, -93],
    [-21,-126, -94, -21,-126, -95, -21,-126, -96, -21,-126, -97, -21,-126, -98, -21,-126, -99, -21,-126],
    [-100, -21,-126,-101, -21,-126,-102, -21,-126,-103, -21,-126,-104, -21,-126,-105, -21,-126,-106, -21],
    [-126,-107, -21,-126,-108, -21,-126,-109, -21,-126,-110, -21,-126,-111, -21,-126,-112, -21,-126,-113],
    [-21,-126,-114, -21,-126,-115, -21,-126,-116, -21,-126,-117, -21,-126,-118, -21,-126,-119, -21,-126],
    [-120, -21,-126,-121, -21,-126,-122, -21,-126,-123, -21,-126,-124, -21,-126,-125, -21,-126,-126, -21],
    [-126,-127, -21,-126,-128, -21,-127, -65, -21,-127, -66, -21,-127, -67, -21,-127, -68, -21,-127, -69],
    [-21,-127, -70, -21,-127, -71, -21,-127, -72, -21,-127, -73, -21,-127, -74, -21,-127, -75, -21,-127],
    [-76, -21,-127, -77, -21,-127, -78, -21,-127, -79, -21,-127, -80, -21,-127, -81, -21,-127, -82, -21],
    [-127, -83, -21,-127, -84, -21,-127, -85, -21,-127, -86, -21,-127, -87, -21,-127, -88, -21,-127, -89],
    [-21,-127, -90, -21,-127, -91, -21,-127, -92, -21,-127, -93, -21,-127, -94, -21,-127, -95, -21,-127]]"

definition STRINGS_12 :: "int list list" where
  "STRINGS_12 = [
    [-96, -21,-127, -97, -21,-127, -98, -21,-127, -99, -21,-127,-100, -21,-127,-101, -21,-127,-102, -21],
    [-127,-103, -21,-127,-104, -21,-127,-105, -21,-127,-106, -21,-127,-107, -21,-127,-108, -21,-127,-109],
    [-21,-127,-110, -21,-127,-111, -21,-127,-112, -21,-127,-113, -21,-127,-114, -21,-127,-115, -21,-127],
    [-116, -21,-127,-117, -21,-127,-118, -21,-127,-119, -21,-127,-120, -21,-127,-121, -21,-127,-122, -21],
    [-127,-123, -21,-127,-124, -21,-127,-125, -21,-127,-126, -21,-127,-127, -21,-127,-128, -21,-128, -65],
    [-21,-128, -66, -21,-128, -67, -21,-128, -68, -21,-128, -69, -21,-128, -70, -21,-128, -71, -21,-128],
    [-72, -21,-128, -73, -21,-128, -74, -21,-128, -75, -21,-128, -76, -21,-128, -77, -21,-128, -78, -21],
    [-128, -79, -21,-128, -80, -21,-128, -81, -21,-128, -82, -21,-128, -83, -21,-128, -84, -21,-128, -85],
    [-21,-128, -86, -21,-128, -87, -21,-128, -88, -21,-128, -89, -21,-128, -90, -21,-128, -91, -21,-128],
    [-92, -21,-128, -93, -21,-128, -94, -21,-128, -95, -21,-128, -96, -21,-128, -97, -21,-128, -98, -21],
    [-128, -99, -21,-128,-100, -21,-128,-101, -21,-128,-102, -21,-128,-103, -21,-128,-104, -21,-128,-105],
    [-21,-128,-106, -21,-128,-107, -21,-128,-108, -21,-128,-109, -21,-128,-110, -21,-128,-111, -21,-128],
    [-112, -21,-128,-113, -21,-128,-114, -21,-128,-115, -21,-128,-116, -21,-128,-117, -21,-128,-118, -21],
    [-128,-119, -21,-128,-120, -21,-128,-121, -21,-128,-122, -21,-128,-123, -21,-128,-124, -21,-128,-125],
    [-21,-128,-126, -21,-128,-127, -21,-128,-128, -22, -65, -65, -22, -65, -66, -22, -65, -67, -22, -65],
    [-68, -22, -65, -69, -22, -65, -70, -22, -65, -71, -22, -65, -72, -22, -65, -73, -22, -65, -74, -22],
    [-65, -75, -22, -65, -76, -22, -65, -77, -22, -65, -78, -22, -65, -79, -22, -65, -80, -22, -65, -81],
    [-22, -65, -82, -22, -65, -83, -22, -65, -84, -22, -65, -85, -22, -65, -86, -22, -65, -87, -22, -65],
    [-88, -22, -65, -89, -22, -65, -90, -22, -65, -91, -22, -65, -92, -22, -65, -93, -22, -65, -94, -22],
    [-65, -95, -22, -65, -96, -22, -65, -97, -22, -65, -98, -22, -65, -99, -22, -65,-100, -22, -65,-101],
    [-22, -65,-102, -22, -65,-103, -22, -65,-104, -22, -65,-105, -22, -65,-106, -22, -65,-107, -22, -65],
    [-108, -22, -65,-109, -22, -65,-110, -22, -65,-111, -22, -65,-112, -22, -65,-113, -22, -65,-114, -22],
    [-65,-115, -22, -65,-116, -22, -65,-117, -22, -65,-118, -22, -65,-119, -22, -65,-120, -22, -65,-121],
    [-22, -65,-122, -22, -65,-123, -22, -65,-124, -22, -65,-125, -22, -65,-126, -22, -65,-127, -22, -65],
    [-128, -22, -66, -65, -22, -66, -66, -22, -66, -67, -22, -66, -68, -22, -66, -69, -22, -66, -70, -22],
    [-66, -71, -22, -66, -72, -22, -66, -73, -22, -66, -74, -22, -66, -75, -22, -66, -76, -22, -66, -77],
    [-22, -66, -78, -22, -66, -79, -22, -66, -80, -22, -66, -81, -22, -66, -82, -22, -66, -83, -22, -66],
    [-84, -22, -66, -85, -22, -66, -86, -22, -66, -87, -22, -66, -88, -22, -66, -89, -22, -66, -90, -22],
    [-66, -91, -22, -66, -92, -22, -66, -93, -22, -66, -94, -22, -66, -95, -22, -66, -96, -22, -66, -97],
    [-22, -66, -98, -22, -66, -99, -22, -66,-100, -22, -66,-101, -22, -66,-102, -22, -66,-103, -22, -66],
    [-104, -22, -66,-105, -22, -66,-106, -22, -66,-107, -22, -66,-108, -22, -66,-109, -22, -66,-110, -22],
    [-66,-111, -22, -66,-112, -22, -66,-113, -22, -66,-114, -22, -66,-115, -22, -66,-116, -22, -66,-117],
    [-22, -66,-118, -22, -66,-119, -22, -66,-120, -22, -66,-121, -22, -66,-122, -22, -66,-123, -22, -66],
    [-124, -22, -66,-125, -22, -66,-126, -22, -66,-127, -22, -66,-128, -22, -67, -65, -22, -67, -66, -22],
    [-67, -67, -22, -67, -68, -22, -67, -69, -22, -67, -70, -22, -67, -71, -22, -67, -72, -22, -67, -73],
    [-22, -67, -74, -22, -67, -75, -22, -67, -76, -22, -67, -77, -22, -67, -78, -22, -67, -79, -22, -67],
    [-80, -22, -67, -81, -22, -67, -82, -22, -67, -83, -22, -67, -84, -22, -67, -85, -22, -67, -86, -22],
    [-67, -87, -22, -67, -88, -22, -67, -89, -22, -67, -90, -22, -67, -91, -22, -67, -92, -22, -67, -93],
    [-22, -67, -94, -22, -67, -95, -22, -67, -96, -22, -67, -97, -22, -67, -98, -22, -67, -99, -22, -67],
    [-100, -22, -67,-101, -22, -67,-102, -22, -67,-103, -22, -67,-104, -22, -67,-105, -22, -67,-106, -22],
    [-67,-107, -22, -67,-108, -22, -67,-109, -22, -67,-110, -22, -67,-111, -22, -67,-112, -22, -67,-113],
    [-22, -67,-114, -22, -67,-115, -22, -67,-116, -22, -67,-117, -22, -67,-118, -22, -67,-119, -22, -67],
    [-120, -22, -67,-121, -22, -67,-122, -22, -67,-123, -22, -67,-124, -22, -67,-125, -22, -67,-126, -22],
    [-67,-127, -22, -67,-128, -22, -68, -65, -22, -68, -66, -22, -68, -67, -22, -68, -68, -22, -68, -69],
    [-22, -68, -70, -22, -68, -71, -22, -68, -72, -22, -68, -73, -22, -68, -74, -22, -68, -75, -22, -68],
    [-76, -22, -68, -77, -22, -68, -78, -22, -68, -79, -22, -68, -80, -22, -68, -81, -22, -68, -82, -22],
    [-68, -83, -22, -68, -84, -22, -68, -85, -22, -68, -86, -22, -68, -87, -22, -68, -88, -22, -68, -89],
    [-22, -68, -90, -22, -68, -91, -22, -68, -92, -22, -68, -93, -22, -68, -94, -22, -68, -95, -22, -68],
    [-96, -22, -68, -97, -22, -68, -98, -22, -68, -99, -22, -68,-100, -22, -68,-101, -22, -68,-102, -22],
    [-68,-103, -22, -68,-104, -22, -68,-105, -22, -68,-106, -22, -68,-107, -22, -68,-108, -22, -68,-109],
    [-22, -68,-110, -22, -68,-111, -22, -68,-112, -22, -68,-113, -22, -68,-114, -22, -68,-115, -22, -68],
    [-116, -22, -68,-117, -22, -68,-118, -22, -68,-119, -22, -68,-120, -22, -68,-121, -22, -68,-122, -22],
    [-68,-123, -22, -68,-124, -22, -68,-125, -22, -68,-126, -22, -68,-127, -22, -68,-128, -22, -69, -65],
    [-22, -69, -66, -22, -69, -67, -22, -69, -68, -22, -69, -69, -22, -69, -70, -22, -69, -71, -22, -69],
    [-72, -22, -69, -73, -22, -69, -74, -22, -69, -75, -22, -69, -76, -22, -69, -77, -22, -69, -78, -22],
    [-69, -79, -22, -69, -80, -22, -69, -81, -22, -69, -82, -22, -69, -83, -22, -69, -84, -22, -69, -85],
    [-22, -69, -86, -22, -69, -87, -22, -69, -88, -22, -69, -89, -22, -69, -90, -22, -69, -91, -22, -69],
    [-92, -22, -69, -93, -22, -69, -94, -22, -69, -95, -22, -69, -96, -22, -69, -97, -22, -69, -98, -22],
    [-69, -99, -22, -69,-100, -22, -69,-101, -22, -69,-102, -22, -69,-103, -22, -69,-104, -22, -69,-105],
    [-22, -69,-106, -22, -69,-107, -22, -69,-108, -22, -69,-109, -22, -69,-110, -22, -69,-111, -22, -69],
    [-112, -22, -69,-113, -22, -69,-114, -22, -69,-115, -22, -69,-116, -22, -69,-117, -22, -69,-118, -22],
    [-69,-119, -22, -69,-120, -22, -69,-121, -22, -69,-122, -22, -69,-123, -22, -69,-124, -22, -69,-125],
    [-22, -69,-126, -22, -69,-127, -22, -69,-128, -22, -70, -65, -22, -70, -66, -22, -70, -67, -22, -70],
    [-68, -22, -70, -69, -22, -70, -70, -22, -70, -71, -22, -70, -72, -22, -70, -73, -22, -70, -74, -22],
    [-70, -75, -22, -70, -76, -22, -70, -77, -22, -70, -78, -22, -70, -79, -22, -70, -80, -22, -70, -81],
    [-22, -70, -82, -22, -70, -83, -22, -70, -84, -22, -70, -85, -22, -70, -86, -22, -70, -87, -22, -70],
    [-88, -22, -70, -89, -22, -70, -90, -22, -70, -91, -22, -70, -92, -22, -70, -93, -22, -70, -94, -22],
    [-70, -95, -22, -70, -96, -22, -70, -97, -22, -70, -98, -22, -70, -99, -22, -70,-100, -22, -70,-101],
    [-22, -70,-102, -22, -70,-103, -22, -70,-104, -22, -70,-105, -22, -70,-106, -22, -70,-107, -22, -70],
    [-108, -22, -70,-109, -22, -70,-110, -22, -70,-111, -22, -70,-112, -22, -70,-113, -22, -70,-114, -22],
    [-70,-115, -22, -70,-116, -22, -70,-117, -22, -70,-118, -22, -70,-119, -22, -70,-120, -22, -70,-121],
    [-22, -70,-122, -22, -70,-123, -22, -70,-124, -22, -70,-125, -22, -70,-126, -22, -70,-127, -22, -70],
    [-128, -22, -71, -65, -22, -71, -66, -22, -71, -67, -22, -71, -68, -22, -71, -69, -22, -71, -70, -22],
    [-71, -71, -22, -71, -72, -22, -71, -73, -22, -71, -74, -22, -71, -75, -22, -71, -76, -22, -71, -77],
    [-22, -71, -78, -22, -71, -79, -22, -71, -80, -22, -71, -81, -22, -71, -82, -22, -71, -83, -22, -71],
    [-84, -22, -71, -85, -22, -71, -86, -22, -71, -87, -22, -71, -88, -22, -71, -89, -22, -71, -90, -22],
    [-71, -91, -22, -71, -92, -22, -71, -93, -22, -71, -94, -22, -71, -95, -22, -71, -96, -22, -71, -97],
    [-22, -71, -98, -22, -71, -99, -22, -71,-100, -22, -71,-101, -22, -71,-102, -22, -71,-103, -22, -71],
    [-104, -22, -71,-105, -22, -71,-106, -22, -71,-107, -22, -71,-108, -22, -71,-109, -22, -71,-110, -22],
    [-71,-111, -22, -71,-112, -22, -71,-113, -22, -71,-114, -22, -71,-115, -22, -71,-116, -22, -71,-117],
    [-22, -71,-118, -22, -71,-119, -22, -71,-120, -22, -71,-121, -22, -71,-122, -22, -71,-123, -22, -71],
    [-124, -22, -71,-125, -22, -71,-126, -22, -71,-127, -22, -71,-128, -22, -72, -65, -22, -72, -66, -22],
    [-72, -67, -22, -72, -68, -22, -72, -69, -22, -72, -70, -22, -72, -71, -22, -72, -72, -22, -72, -73],
    [-22, -72, -74, -22, -72, -75, -22, -72, -76, -22, -72, -77, -22, -72, -78, -22, -72, -79, -22, -72],
    [-80, -22, -72, -81, -22, -72, -82, -22, -72, -83, -22, -72, -84, -22, -72, -85, -22, -72, -86, -22],
    [-72, -87, -22, -72, -88, -22, -72, -89, -22, -72, -90, -22, -72, -91, -22, -72, -92, -22, -72, -93],
    [-22, -72, -94, -22, -72, -95, -22, -72, -96, -22, -72, -97, -22, -72, -98, -22, -72, -99, -22, -72],
    [-100, -22, -72,-101, -22, -72,-102, -22, -72,-103, -22, -72,-104, -22, -72,-105, -22, -72,-106, -22],
    [-72,-107, -22, -72,-108, -22, -72,-109, -22, -72,-110, -22, -72,-111, -22, -72,-112, -22, -72,-113],
    [-22, -72,-114, -22, -72,-115, -22, -72,-116, -22, -72,-117, -22, -72,-118, -22, -72,-119, -22, -72],
    [-120, -22, -72,-121, -22, -72,-122, -22, -72,-123, -22, -72,-124, -22, -72,-125, -22, -72,-126, -22],
    [-72,-127, -22, -72,-128, -22, -73, -65, -22, -73, -66, -22, -73, -67, -22, -73, -68, -22, -73, -69],
    [-22, -73, -70, -22, -73, -71, -22, -73, -72, -22, -73, -73, -22, -73, -74, -22, -73, -75, -22, -73],
    [-76, -22, -73, -77, -22, -73, -78, -22, -73, -79, -22, -73, -80, -22, -73, -81, -22, -73, -82, -22],
    [-73, -83, -22, -73, -84, -22, -73, -85, -22, -73, -86, -22, -73, -87, -22, -73, -88, -22, -73, -89],
    [-22, -73, -90, -22, -73, -91, -22, -73, -92, -22, -73, -93, -22, -73, -94, -22, -73, -95, -22, -73],
    [-96, -22, -73, -97, -22, -73, -98, -22, -73, -99, -22, -73,-100, -22, -73,-101, -22, -73,-102, -22],
    [-73,-103, -22, -73,-104, -22, -73,-105, -22, -73,-106, -22, -73,-107, -22, -73,-108, -22, -73,-109],
    [-22, -73,-110, -22, -73,-111, -22, -73,-112, -22, -73,-113, -22, -73,-114, -22, -73,-115, -22, -73],
    [-116, -22, -73,-117, -22, -73,-118, -22, -73,-119, -22, -73,-120, -22, -73,-121, -22, -73,-122, -22],
    [-73,-123, -22, -73,-124, -22, -73,-125, -22, -73,-126, -22, -73,-127, -22, -73,-128, -22, -74, -65],
    [-22, -74, -66, -22, -74, -67, -22, -74, -68, -22, -74, -69, -22, -74, -70, -22, -74, -71, -22, -74],
    [-72, -22, -74, -73, -22, -74, -74, -22, -74, -75, -22, -74, -76, -22, -74, -77, -22, -74, -78, -22],
    [-74, -79, -22, -74, -80, -22, -74, -81, -22, -74, -82, -22, -74, -83, -22, -74, -84, -22, -74, -85],
    [-22, -74, -86, -22, -74, -87, -22, -74, -88, -22, -74, -89, -22, -74, -90, -22, -74, -91, -22, -74],
    [-92, -22, -74, -93, -22, -74, -94, -22, -74, -95, -22, -74, -96, -22, -74, -97, -22, -74, -98, -22],
    [-74, -99, -22, -74,-100, -22, -74,-101, -22, -74,-102, -22, -74,-103, -22, -74,-104, -22, -74,-105],
    [-22, -74,-106, -22, -74,-107, -22, -74,-108, -22, -74,-109, -22, -74,-110, -22, -74,-111, -22, -74],
    [-112, -22, -74,-113, -22, -74,-114, -22, -74,-115, -22, -74,-116, -22, -74,-117, -22, -74,-118, -22],
    [-74,-119, -22, -74,-120, -22, -74,-121, -22, -74,-122, -22, -74,-123, -22, -74,-124, -22, -74,-125],
    [-22, -74,-126, -22, -74,-127, -22, -74,-128, -22, -75, -65, -22, -75, -66, -22, -75, -67, -22, -75],
    [-68, -22, -75, -69, -22, -75, -70, -22, -75, -71, -22, -75, -72, -22, -75, -73, -22, -75, -74, -22],
    [-75, -75, -22, -75, -76, -22, -75, -77, -22, -75, -78, -22, -75, -79, -22, -75, -80, -22, -75, -81],
    [-22, -75, -82, -22, -75, -83, -22, -75, -84, -22, -75, -85, -22, -75, -86, -22, -75, -87, -22, -75],
    [-88, -22, -75, -89, -22, -75, -90, -22, -75, -91, -22, -75, -92, -22, -75, -93, -22, -75, -94, -22],
    [-75, -95, -22, -75, -96, -22, -75, -97, -22, -75, -98, -22, -75, -99, -22, -75,-100, -22, -75,-101],
    [-22, -75,-102, -22, -75,-103, -22, -75,-104, -22, -75,-105, -22, -75,-106, -22, -75,-107, -22, -75],
    [-108, -22, -75,-109, -22, -75,-110, -22, -75,-111, -22, -75,-112, -22, -75,-113, -22, -75,-114, -22],
    [-75,-115, -22, -75,-116, -22, -75,-117, -22, -75,-118, -22, -75,-119, -22, -75,-120, -22, -75,-121],
    [-22, -75,-122, -22, -75,-123, -22, -75,-124, -22, -75,-125, -22, -75,-126, -22, -75,-127, -22, -75],
    [-128, -22, -76, -65, -22, -76, -66, -22, -76, -67, -22, -76, -68, -22, -76, -69, -22, -76, -70, -22],
    [-76, -71, -22, -76, -72, -22, -76, -73, -22, -76, -74, -22, -76, -75, -22, -76, -76, -22, -76, -77],
    [-22, -76, -78, -22, -76, -79, -22, -76, -80, -22, -76, -81, -22, -76, -82, -22, -76, -83, -22, -76],
    [-84, -22, -76, -85, -22, -76, -86, -22, -76, -87, -22, -76, -88, -22, -76, -89, -22, -76, -90, -22],
    [-76, -91, -22, -76, -92, -22, -76, -93, -22, -76, -94, -22, -76, -95, -22, -76, -96, -22, -76, -97],
    [-22, -76, -98, -22, -76, -99, -22, -76,-100, -22, -76,-101, -22, -76,-102, -22, -76,-103, -22, -76],
    [-104, -22, -76,-105, -22, -76,-106, -22, -76,-107, -22, -76,-108, -22, -76,-109, -22, -76,-110, -22],
    [-76,-111, -22, -76,-112, -22, -76,-113, -22, -76,-114, -22, -76,-115, -22, -76,-116, -22, -76,-117],
    [-22, -76,-118, -22, -76,-119, -22, -76,-120, -22, -76,-121, -22, -76,-122, -22, -76,-123, -22, -76],
    [-124, -22, -76,-125, -22, -76,-126, -22, -76,-127, -22, -76,-128, -22, -77, -65, -22, -77, -66, -22],
    [-77, -67, -22, -77, -68, -22, -77, -69, -22, -77, -70, -22, -77, -71, -22, -77, -72, -22, -77, -73],
    [-22, -77, -74, -22, -77, -75, -22, -77, -76, -22, -77, -77, -22, -77, -78, -22, -77, -79, -22, -77],
    [-80, -22, -77, -81, -22, -77, -82, -22, -77, -83, -22, -77, -84, -22, -77, -85, -22, -77, -86, -22],
    [-77, -87, -22, -77, -88, -22, -77, -89, -22, -77, -90, -22, -77, -91, -22, -77, -92, -22, -77, -93],
    [-22, -77, -94, -22, -77, -95, -22, -77, -96, -22, -77, -97, -22, -77, -98, -22, -77, -99, -22, -77],
    [-100, -22, -77,-101, -22, -77,-102, -22, -77,-103, -22, -77,-104, -22, -77,-105, -22, -77,-106, -22],
    [-77,-107, -22, -77,-108, -22, -77,-109, -22, -77,-110, -22, -77,-111, -22, -77,-112, -22, -77,-113],
    [-22, -77,-114, -22, -77,-115, -22, -77,-116, -22, -77,-117, -22, -77,-118, -22, -77,-119, -22, -77],
    [-120, -22, -77,-121, -22, -77,-122, -22, -77,-123, -22, -77,-124, -22, -77,-125, -22, -77,-126, -22],
    [-77,-127, -22, -77,-128, -22, -78, -65, -22, -78, -66, -22, -78, -67, -22, -78, -68, -22, -78, -69],
    [-22, -78, -70, -22, -78, -71, -22, -78, -72, -22, -78, -73, -22, -78, -74, -22, -78, -75, -22, -78],
    [-76, -22, -78, -77, -22, -78, -78, -22, -78, -79, -22, -78, -80, -22, -78, -81, -22, -78, -82, -22],
    [-78, -83, -22, -78, -84, -22, -78, -85, -22, -78, -86, -22, -78, -87, -22, -78, -88, -22, -78, -89],
    [-22, -78, -90, -22, -78, -91, -22, -78, -92, -22, -78, -93, -22, -78, -94, -22, -78, -95, -22, -78]]"

definition STRINGS_13 :: "int list list" where
  "STRINGS_13 = [
    [-96, -22, -78, -97, -22, -78, -98, -22, -78, -99, -22, -78,-100, -22, -78,-101, -22, -78,-102, -22],
    [-78,-103, -22, -78,-104, -22, -78,-105, -22, -78,-106, -22, -78,-107, -22, -78,-108, -22, -78,-109],
    [-22, -78,-110, -22, -78,-111, -22, -78,-112, -22, -78,-113, -22, -78,-114, -22, -78,-115, -22, -78],
    [-116, -22, -78,-117, -22, -78,-118, -22, -78,-119, -22, -78,-120, -22, -78,-121, -22, -78,-122, -22],
    [-78,-123, -22, -78,-124, -22, -78,-125, -22, -78,-126, -22, -78,-127, -22, -78,-128, -22, -79, -65],
    [-22, -79, -66, -22, -79, -67, -22, -79, -68, -22, -79, -69, -22, -79, -70, -22, -79, -71, -22, -79],
    [-72, -22, -79, -73, -22, -79, -74, -22, -79, -75, -22, -79, -76, -22, -79, -77, -22, -79, -78, -22],
    [-79, -79, -22, -79, -80, -22, -79, -81, -22, -79, -82, -22, -79, -83, -22, -79, -84, -22, -79, -85],
    [-22, -79, -86, -22, -79, -87, -22, -79, -88, -22, -79, -89, -22, -79, -90, -22, -79, -91, -22, -79],
    [-92, -22, -79, -93, -22, -79, -94, -22, -79, -95, -22, -79, -96, -22, -79, -97, -22, -79, -98, -22],
    [-79, -99, -22, -79,-100, -22, -79,-101, -22, -79,-102, -22, -79,-103, -22, -79,-104, -22, -79,-105],
    [-22, -79,-106, -22, -79,-107, -22, -79,-108, -22, -79,-109, -22, -79,-110, -22, -79,-111, -22, -79],
    [-112, -22, -79,-113, -22, -79,-114, -22, -79,-115, -22, -79,-116, -22, -79,-117, -22, -79,-118, -22],
    [-79,-119, -22, -79,-120, -22, -79,-121, -22, -79,-122, -22, -79,-123, -22, -79,-124, -22, -79,-125],
    [-22, -79,-126, -22, -79,-127, -22, -79,-128, -22, -80, -65, -22, -80, -66, -22, -80, -67, -22, -80],
    [-68, -22, -80, -69, -22, -80, -70, -22, -80, -71, -22, -80, -72, -22, -80, -73, -22, -80, -74, -22],
    [-80, -75, -22, -80, -76, -22, -80, -77, -22, -80, -78, -22, -80, -79, -22, -80, -80, -22, -80, -81],
    [-22, -80, -82, -22, -80, -83, -22, -80, -84, -22, -80, -85, -22, -80, -86, -22, -80, -87, -22, -80],
    [-88, -22, -80, -89, -22, -80, -90, -22, -80, -91, -22, -80, -92, -22, -80, -93, -22, -80, -94, -22],
    [-80, -95, -22, -80, -96, -22, -80, -97, -22, -80, -98, -22, -80, -99, -22, -80,-100, -22, -80,-101],
    [-22, -80,-102, -22, -80,-103, -22, -80,-104, -22, -80,-105, -22, -80,-106, -22, -80,-107, -22, -80],
    [-108, -22, -80,-109, -22, -80,-110, -22, -80,-111, -22, -80,-112, -22, -80,-113, -22, -80,-114, -22],
    [-80,-115, -22, -80,-116, -22, -80,-117, -22, -80,-118, -22, -80,-119, -22, -80,-120, -22, -80,-121],
    [-22, -80,-122, -22, -80,-123, -22, -80,-124, -22, -80,-125, -22, -80,-126, -22, -80,-127, -22, -80],
    [-128, -31,-128, -90, -32, -73, -98, -32, -73, -99, -32, -73,-100, -32, -73,-102, -32, -75,-117, -32],
    [-75,-116, -32, -75,-118, -32, -77,-120, -32, -77,-121, -32, -77,-117, -32, -77,-118, -32, -77,-128],
    [-32, -79,-120, -32, -81,-117, -32, -81,-116, -32, -81,-118, -32, -82,-108, -32, -83,-116, -32, -83],
    [-120, -32, -83,-117, -32, -89,-116, -32, -89,-117, -32, -92, -76, -32, -92, -79, -32, -92, -87, -37],
    [-128, -37,-109, -37,-126, -40, -90, -40, -92, -40, -91, -40, -93, -40, -94, -45, -85, -45, -86, -45],
    [-101, -45,-102, -47, -73, -47, -74, -47,-105, -45, -83, -45, -71, -45, -75, -45, -77, -45, -79, -47],
    [-98, -45, -81, -45, -89, -47,-100, -45, -91, -48, -71, -45, -93, -47, -99, -45, -97, -45, -99, -45],
    [-126, -47,-111, -45,-105, -47,-112, -47,-109, -45,-109, -45,-111, -45, -84, -45, -72, -45, -76, -45],
    [-78, -45, -80, -48,-114, -45, -82, -45, -90, -48,-116, -45, -92, -48,-103, -45, -94, -48,-115, -45],
    [-98, -45,-100, -45,-127, -48,-127, -45,-106, -48,-128, -48,-125, -45,-110, -45,-112, -48,-121, -49],
    [-108, -49,-109, -31, -65, -77, -31, -65, -73, -31, -65, -74, -31, -66, -95, -31, -66, -89, -31, -67],
    [-89, -31, -66, -91, -31, -67, -91, -31, -66, -93, -31, -67, -93, -31, -67, -95, -31, -66, -96, -31],
    [-66, -90, -31, -67, -90, -31, -66, -92, -31, -67, -92, -31, -66, -94, -31, -67, -94, -31, -67, -96],
    [-31, -65, -76, -49,-114, -31, -65, -78, -31, -67, -68, -31, -65, -90, -31, -67,-105, -31, -67,-107],
    [-31, -67,-109, -31, -67,-111, -31, -67,-106, -31, -67,-108, -31, -67,-110, -31, -67,-112, -31, -65],
    [-89, -50, -80, -31, -65, -94, -49,-117, -31, -65, -96, -31, -65, -95, -49,-115, -31, -67, -70, -31],
    [-65, -91, -31, -65, -92, -31, -67,-123, -31, -67,-125, -31, -67,-127, -31, -67,-124, -31, -67,-126],
    [-31, -67,-128, -49,-116, -31, -67, -72, -31, -65,-106, -31, -68, -73, -31, -68, -75, -31, -68, -77],
    [-31, -68, -79, -31, -68, -74, -31, -68, -76, -31, -68, -78, -31, -68, -80, -31, -65,-105, -50,-112],
    [-31, -65,-110, -49,-118, -31, -65,-112, -31, -65,-111, -50, -81, -31, -67, -74, -31, -65,-125, -31],
    [-65,-121, -31, -65,-122, -31, -66,-111, -31, -66,-105, -31, -68, -89, -31, -66,-107, -31, -68, -91],
    [-31, -66,-109, -31, -68, -93, -31, -68, -95, -31, -66,-112, -31, -66,-106, -31, -68, -90, -31, -66],
    [-108, -31, -68, -92, -31, -66,-110, -31, -68, -94, -31, -68, -96, -31, -65,-124, -50, -82, -31, -65],
    [-126, -31, -67, -76, -31, -68,-107, -31, -68,-109, -31, -68,-111, -31, -68,-108, -31, -68,-110, -31],
    [-68,-112, -50, -83, -31, -67, -78, -31, -66, -77, -31, -66, -73, -31, -66, -74, -31, -66,-127, -31],
    [-66,-121, -31, -68,-121, -31, -66,-123, -31, -68,-123, -31, -66,-125, -31, -68,-125, -31, -68,-127],
    [-31, -66,-128, -31, -66,-122, -31, -68,-122, -31, -66,-124, -31, -68,-124, -31, -66,-126, -31, -68],
    [-126, -31, -68,-128, -31, -66, -80, -31, -66, -79, -31, -66, -76, -50, -84, -31, -66, -78, -31, -67],
    [-80, -31, -65, -68, -31, -66, -87, -31, -66, -81, -31, -67, -81, -31, -66, -83, -31, -67, -83, -31],
    [-66, -85, -31, -67, -85, -31, -67, -87, -31, -66, -88, -31, -66, -82, -31, -67, -82, -31, -66, -84],
    [-31, -67, -84, -31, -66, -86, -31, -67, -86, -31, -67, -88, -50,-113, -31, -65, -70, -31, -67, -97],
    [-31, -67, -99, -31, -67,-101, -31, -67,-103, -50, -85, -31, -65, -88, -31, -65, -87, -50,-114, -31],
    [-65, -86, -31, -65, -84, -31, -67,-115, -31, -67,-117, -31, -67,-119, -31, -67,-116, -31, -67,-118],
    [-31, -67,-120, -50,-116, -31, -65, -72, -31, -68, -65, -31, -68, -67, -31, -68, -69, -31, -68, -71],
    [-31, -68, -66, -31, -68, -68, -31, -68, -70, -31, -68, -72, -50, -86, -31, -65,-104, -31, -65,-103],
    [-50,-118, -31, -65,-102, -31, -65,-116, -31, -66,-103, -31, -66, -97, -31, -68, -81, -31, -66, -99],
    [-31, -68, -83, -31, -66,-101, -31, -68, -85, -31, -68, -87, -31, -66,-104, -31, -66, -98, -31, -68],
    [-82, -31, -66,-100, -31, -68, -84, -31, -66,-102, -31, -68, -86, -31, -68, -88, -50,-119, -31, -65],
    [-118, -31, -68, -99, -31, -68,-101, -31, -68,-103, -31, -68,-100, -31, -68,-102, -31, -68,-104, -50],
    [-120, -31, -65,-120, -31, -66, -68, -31, -66,-119, -31, -66,-113, -31, -68,-113, -31, -66,-115, -31],
    [-68,-115, -31, -66,-117, -31, -68,-117, -31, -68,-119, -31, -66,-120, -31, -66,-114, -31, -68,-114],
    [-31, -66,-116, -31, -68,-116, -31, -66,-118, -31, -68,-118, -31, -68,-120, -31, -66, -72, -31, -66],
    [-71, -50,-122, -31, -66, -70, -57, -81, -57, -82, -31, -70,-101, -57, -65, -57, -93, -57, -67, -57],
    [-66, -57, -94, -57, -68, -31, -65,-127, -50,-123, -31, -65, -83, -31, -70,-107, -31, -70,-109, -59],
    [-66, -59, -68, -31, -70,-111, -59, -70, -31, -69, -75, -31, -70,-103, -31, -69, -73, -61, -65, -31],
    [-70,-113, -56, -77, -31, -69, -71, -59, -73, -61, -67, -31, -69, -77, -31, -70,-115, -31, -70,-117],
    [-31, -70,-119, -31, -70,-104, -31, -70,-123, -31, -70,-121, -59, -75, -31, -70,-125, -31, -70,-127],
    [-31, -71, -65, -31, -71, -67, -31, -71, -75, -31, -71, -73, -59, -77, -31, -71, -77, -31, -69, -91],
    [-31, -69, -79, -31, -69, -83, -31, -69, -81, -31, -69, -87, -31, -69, -85, -58, -80, -56,-105, -56],
    [-107, -57,-108, -59, -79, -59, -81, -31, -69, -89, -57,-102, -57,-106, -57,-104, -57,-100, -61, -68],
    [-59, -83, -31, -71, -69, -59, -85, -31, -71, -71, -59, -87, -61, -69, -61, -70, -61, -71, -31, -71],
    [-81, -31, -71, -79, -59, -93, -56,-101, -31, -71, -83, -59, -91, -31, -70,-105, -31, -71, -85, -59],
    [-97, -56,-103, -31, -71, -87, -31, -71, -93, -31, -71, -89, -59, -95, -31, -71, -95, -59, -99, -31],
    [-71, -91, -59,-101, -31, -71, -97, -59,-105, -31, -71, -99, -31, -71,-101, -56,-109, -56,-111, -59],
    [-103, -31, -71,-103, -59,-107, -31, -71,-105, -31, -71,-107, -57, -83, -57, -85, -31, -69,-103, -31],
    [-69,-115, -31, -69, -93, -31, -69, -97, -31, -69, -95, -31, -69,-101, -31, -69, -99, -58, -95, -56],
    [-113, -56,-115, -57,-110, -59,-111, -31, -69,-113, -56, -85, -61, -74, -56, -79, -56, -81, -59,-113],
    [-31, -71,-109, -31, -71,-111, -59,-115, -31, -71,-113, -56, -83, -31, -71,-115, -61, -75, -31, -69],
    [-107, -31, -69,-105, -31, -69,-111, -31, -69,-109, -61, -76, -61, -77, -61, -78, -31, -71,-119, -31],
    [-71,-117, -59,-122, -31, -71,-121, -59,-120, -31, -71,-123, -61, -79, -59,-124, -57, -71, -31, -71],
    [-125, -31, -71,-127, -31, -72, -65, -31, -72, -69, -31, -72, -67, -60, -68, -31, -72, -71, -31, -72],
    [-73, -60, -66, -60, -70, -31, -72, -75, -60, -73, -31, -72, -77, -57, -87, -31, -72, -79, -57, -80],
    [-60, -75, -31, -72, -83, -60, -81, -31, -69,-117, -56,-117, -56,-119, -57,-112, -31, -69,-119, -31],
    [-72, -81, -61, -81, -60, -83, -60, -85, -60, -87, -61, -82, -61, -83, -61, -84, -31, -70,-106, -31],
    [-72, -85, -31, -72, -87, -31, -72, -91, -56, -97, -31, -72, -89, -31, -72, -93, -60, -91, -60, -93],
    [-57, -89, -60, -95, -60, -97, -31, -72, -95, -60, -99, -57, -75, -31, -72, -97, -31, -72,-101, -31],
    [-72,-103, -60,-103, -31, -72, -99, -56, -87, -31, -69,-121, -31, -70, -71, -56,-121, -56,-123, -60],
    [-101, -31, -70, -69, -61, -85, -60,-105, -60,-107, -31, -72,-105, -31, -72,-107, -60,-109, -31, -70],
    [-67, -31, -69,-125, -31, -69,-123, -31, -70, -65, -31, -69,-127, -61, -86, -61, -87, -61, -88, -31],
    [-72,-113, -31, -72,-109, -31, -72,-111, -31, -72,-115, -60,-113, -31, -72,-117, -31, -72,-119, -61],
    [-89, -60,-115, -60,-117, -60,-119, -60,-121, -31, -72,-121, -31, -72,-123, -31, -72,-125, -60,-123],
    [-31, -72,-127, -31, -70, -73, -31, -70, -83, -31, -70, -95, -56,-125, -56,-127, -57,-114, -57, -69],
    [-61, -91, -31, -70, -93, -57, -97, -61, -92, -57, -95, -56, -89, -31, -70, -77, -31, -70, -75, -31],
    [-70, -81, -31, -70, -79, -60,-125, -60,-127, -61, -93, -31, -70, -87, -31, -70, -85, -31, -70, -91],
    [-31, -70, -89, -61, -94, -61, -95, -61, -96, -31, -70,-108, -31, -70,-110, -59, -67, -59, -69, -31],
    [-70,-112, -59, -71, -31, -69, -76, -31, -69, -74, -59, -72, -31, -70,-114, -56, -78, -31, -69, -72],
    [-59, -74, -61, -99, -31, -69, -78, -31, -70,-116, -31, -70,-118, -31, -70,-120, -31, -70,-124, -31],
    [-70,-122, -59, -76, -31, -70,-126, -31, -70,-128, -31, -71, -66, -31, -71, -68, -31, -71, -76, -31],
    [-71, -74, -59, -78, -31, -71, -78, -31, -69, -92, -31, -69, -80, -31, -69, -84, -31, -69, -82, -31],
    [-69, -88, -31, -69, -86, -58, -81, -56,-106, -56,-108, -57,-109, -59, -80, -59, -82, -31, -69, -90],
    [-57,-103, -57,-107, -57,-105, -57,-101, -61,-100, -59, -84, -31, -71, -70, -59, -86, -31, -71, -72],
    [-59, -88, -61,-101, -61,-102, -61,-103, -31, -71, -82, -31, -71, -80, -59, -94, -56,-102, -31, -71],
    [-84, -59, -92, -31, -71, -86, -59, -98, -56,-104, -31, -71, -88, -31, -71, -94, -31, -71, -90, -59],
    [-96, -31, -71, -96, -59,-100, -31, -71, -92, -59,-102, -31, -71, -98, -59,-106, -31, -71,-100, -31],
    [-71,-102, -56,-110, -56,-112, -59,-104, -31, -71,-104, -59,-108, -31, -71,-106, -31, -71,-108, -57],
    [-84, -57, -86, -31, -69,-104, -31, -69,-116, -31, -69, -94, -31, -69, -98, -31, -69, -96, -31, -69],
    [-102, -31, -69,-100, -58, -96, -56,-114, -56,-116, -57,-111, -59,-112, -31, -69,-114, -56, -86, -61],
    [-106, -56, -80, -56, -82, -59,-114, -31, -71,-110, -31, -71,-112, -59,-116, -31, -71,-114, -56, -84],
    [-31, -71,-116, -61,-107, -31, -69,-108, -31, -69,-106, -31, -69,-112, -31, -69,-110, -61,-108, -61],
    [-109, -61,-110, -31, -71,-120, -31, -71,-118, -59,-123, -31, -71,-122, -59,-121, -31, -71,-124, -61],
    [-111, -59,-125, -57, -72, -31, -71,-126, -31, -71,-128, -31, -72, -66, -31, -72, -70, -31, -72, -68],
    [-60, -69, -31, -72, -72, -31, -72, -74, -60, -67, -60, -71, -31, -72, -76, -60, -74, -31, -72, -78],
    [-57, -88, -31, -72, -80, -60, -76, -31, -72, -84, -60, -82, -31, -69,-118, -56,-118, -56,-120, -57],
    [-113, -31, -69,-120, -31, -72, -82, -61,-113, -60, -80, -60, -84, -60, -86, -60, -88, -61,-114, -61],
    [-115, -61,-116, -31, -72, -86, -31, -72, -88, -31, -72, -92, -56, -98, -31, -72, -90, -31, -72, -94],
    [-60, -92, -60, -94, -57, -90, -60, -96, -60, -98, -31, -72, -96, -60,-100, -57, -76, -31, -72, -98],
    [-31, -72,-102, -31, -72,-104, -60,-104, -31, -72,-100, -56, -88, -31, -69,-122, -31, -70, -72, -56],
    [-122, -56,-124, -60,-102, -31, -70, -70, -61,-117, -60,-106, -60,-108, -31, -72,-106, -31, -72,-108],
    [-60,-110, -31, -70, -68, -31, -69,-126, -31, -69,-124, -31, -70, -66, -31, -69,-128, -61,-118, -61],
    [-119, -61,-120, -31, -72,-114, -31, -72,-110, -31, -72,-112, -31, -72,-116, -60,-114, -31, -72,-118],
    [-31, -72,-120, -61,-121, -60,-116, -60,-118, -60,-120, -60,-122, -31, -72,-122, -31, -72,-124, -31],
    [-72,-126, -60,-124, -31, -72,-128, -31, -70, -74, -31, -70, -84, -31, -70, -96, -56,-126, -56,-128],
    [-57,-115, -57, -70, -61,-123, -31, -70, -94, -57, -98, -61,-124, -57, -96, -56, -90, -31, -70, -78],
    [-31, -70, -76, -31, -70, -82, -31, -70, -80, -60,-126, -60,-128, -61,-125, -31, -70, -88, -31, -70],
    [-86, -31, -70, -92, -31, -70, -90, -61,-126, -61,-127, -61,-128, -30,-119, -81, -30,-119, -96, -30],
    [-119, -82, -29,-126, -77, -29,-126, -77, -29,-127, -69, -29,-127,-117,  68,  74,  87,  67,  83,  83],
    [83,  68,  72,  86,  87,  90,  67,  68,  57,  44,  56,  44,  55,  44,  54,  44,  53,  44,  52,  44],
    [51,  44,  50,  44,  49,  44,  48,  44, -39,-128, -39,-110,  32, -39,-110, -39,-128, -39,-111, -39],
    [-128, -39,-117,  32, -39,-117, -40, -89, -39,-117, -40, -74, -40, -79, -40, -75, -40, -79, -40, -77],
    [-40, -79, -40, -76, -40, -79, -40, -76, -40, -82, -40, -74, -39,-118, -40, -74, -39,-119, -40, -75],
    [-39,-118, -40, -75, -39,-119, -40, -76, -39,-118, -40, -76, -39,-119, -40, -77, -39,-118, -40, -77],
    [-39,-119, -40, -70, -39,-118, -40, -70, -39,-119, -40, -71, -39,-118, -40, -71, -39,-119, -40, -73],
    [-39,-118, -40, -73, -39,-119, -40, -76, -39,-121, -40, -77, -39,-121, -40, -85, -39,-121, -39,-121],
    [-39, -80, -39,-122, -39,-121, -40, -75, -40, -82, -40, -86, -39,-121, -40, -88, -39,-121, -39,-118],
    [-40, -78, -39,-118, -40, -79, -39,-122, -39,-122, -39,-122, -40, -78, -39,-122, -40, -79, -39,-123],
    [-40, -89, -40, -85, -39,-122, -40, -85, -40, -78, -40, -85, -40, -79, -40, -86, -39,-122, -40, -86],
    [-40, -78, -40, -86, -40, -79, -40, -88, -39,-122, -40, -88, -40, -78, -39,-119, -39, -80, -40, -79],
    [-39, -80, -40, -80, -39, -80, -39,-118, -39,-119, -39,-118, -40, -82, -39,-121, -39,-119, -39,-121],
    [-40, -84, -39,-122, -39,-119, -39,-122, -40, -82, -39,-125, -39,-118, -39,-125, -39,-119, -39,-125],
    [-39,-124, -39,-125, -40, -82, -39,-125, -40, -83, -39,-125, -40, -84, -39,-125, -40, -89, -39,-126]]"

end
