(* ===== verification/Table_Strings_3.thy ===== *)
theory Table_Strings_3
  imports Main
begin

text \<open>
  Lines 8317 to 9324 of \<open>unf/table.hh\<close>: part of the array \<open>STRINGS\<close>, one list per line of the source.
\<close>

definition STRINGS_14 :: "int list list" where
  "STRINGS_14 = [
    [-39,-118, -39,-126, -39,-119, -39,-126, -40, -83, -39,-127, -39,-118, -39,-127, -39,-119, -39,-127],
    [-40, -83, -39,-127, -40, -84, -40, -70, -40, -84, -40, -72, -39,-123, -40, -73, -40, -83, -40, -74],
    [-39,-123, -40, -74, -40, -84, -40, -82, -40, -83, -40, -85, -39,-118, -40, -85, -39,-119, -40, -85],
    [-39,-123, -40, -85, -40, -84, -40, -86, -39,-118, -40, -86, -39,-119, -40, -88, -39,-118, -40, -88],
    [-39,-119, -40, -88, -39,-123, -40, -88, -40, -84, -41,-112, -41,-100, -43, -76, -43, -83, -43, -66],
    [-43, -74, -43, -76, -43, -85, -43, -76, -43, -91, -43, -76, -43, -74, 115, 116,  87,  98,  83, 118],
    [115, 114,  80,  82,  80,  72, 109,  98, 108, 120, 108, 110, 107, 116,  75,  77,  75,  75, 105, 110],
    [72,  80, 104,  97,  71, 121, 100,  66,  99, 100,  99,  99,  66, 113,  77, -50, -87, 107, -50, -87],
    [77,  87, 107,  87, 109,  87, -50, -68,  87, 110,  87, 112,  87,  77,  86, 107,  86, -50, -68,  86],
    [110,  86, 112,  86, 109, 115, -50, -68, 115, 110, 115, 112, 115, -50, -68, 109, 110, 109, 102, 109],
    [107, 108, 100, 108, 109, 108, -50, -68, 108, 109, 103, -50, -68, 103, -50, -68,  70, 110,  70, 112],
    [70,  71,  66,  77,  66,  75,  66, 107,  65, 109,  65, -50, -68,  65, 110,  65, 112,  65, -26,-104],
    [-114, -26, -78, -69, -27, -92, -89, -26, -83, -93, -26,-104, -83, -27,-110,-116, -27, -71, -77, -26],
    [-120,-112,  73,  85, 112,  99, 111,  86,  65,  85, 100,  97, -29,-125, -84, -29,-125, -96, -29,-125],
    [-86, -29,-125, -87, -29,-125,-101, -29,-125, -77, -29,-125,-118, -29,-125,-114, 101,  86,  72, 103],
    [57, -26,-100,-120,  56, -26,-100,-120,  55, -26,-100,-120,  54, -26,-100,-120,  53, -26,-100,-120],
    [52, -26,-100,-120,  51, -26,-100,-120,  53,  48,  52,  57,  52,  56,  52,  55,  52,  54,  52,  53],
    [52,  52,  52,  50,  52,  48,  51,  57,  51,  56,  51,  55,  51,  54,  51,  53,  51,  52,  51,  51],
    [51,  50, -29,-126, -77, -29,-125,-120, -29,-126,-120, -29,-126,-118,  32, -29,-126,-102,  32, -29],
    [-126,-103, 105, 120, 105, 118,  73,  88,  73,  86,  84,  77,  83,  77,  78, 111, -62, -80,  70, -62],
    [-80,  67,  82, 115,  63,  33,  63,  63,  32, -52,-123,  33,  33,  32, -52, -77,  32, -51,-126,  97],
    [-54, -66, -32, -70, -85, -32, -70, -95, -32, -70, -85, -32, -70,-103, -32, -69,-115, -32, -70, -78],
    [-32, -71,-115, -32, -72, -78, -39,-118, -39, -76, -37,-121, -39, -76, -39,-120, -39, -76, -40, -89],
    [-39, -76, -43, -91, -42,-126,  32, -51,-123,  32, -52,-117,  32, -52,-125,  32, -52, -88,  32, -52],
    [-118,  32, -52,-121,  32, -52,-122, 110, 106,  78, 106,  78,  74, 108, 106,  76, 106,  76,  74, -54],
    [-68, 110, 108, -62, -73,  76, -62, -73, 105, 106,  73,  74,  32, -52, -89,  32, -52,-127,  32, -52],
    [-124, -16, -99,-123,-105, -16, -99,-123, -91, -16,-111,-126, -91, -16,-111,-126, -70, -16,-111,-126],
    [-101, -16,-111,-126, -70, -16,-111,-126,-103, -16,-111,-126, -70, -41, -92, -42, -65, -41,-101, -42],
    [-65, -41,-111, -42, -65, -41,-107, -42, -71, -41, -86, -42, -68, -41, -88, -42, -68, -41, -89, -42],
    [-68, -41, -90, -42, -68, -41, -92, -42, -68, -41, -93, -42, -68, -41, -95, -42, -68, -41, -96, -42],
    [-68, -41, -98, -42, -68, -41,-100, -42, -68, -41,-101, -42, -68, -41,-102, -42, -68, -41,-103, -42],
    [-68, -41,-104, -42, -68, -41,-106, -42, -68, -41,-107, -42, -68, -41,-108, -42, -68, -41,-109, -42],
    [-68, -41,-110, -42, -68, -41,-111, -42, -68, -41,-112, -42, -68, -41,-112, -42, -72, -41,-112, -42],
    [-73, -41, -87, -41,-126, -41, -87, -41,-127, -41, -78, -42, -73, -41,-103, -42, -76, -29,-125, -67],
    [-29,-126,-103, -29,-125, -78, -29,-126,-103, -29,-125, -79, -29,-126,-103, -29,-125, -80, -29,-126],
    [-103, -29,-125, -81, -29,-126,-103, -29,-126, -90, -29,-126,-103, -29,-125,-107, -29,-126,-102, -29],
    [-125,-124, -29,-126,-103, -29,-125,-127, -29,-126,-103, -29,-126, -67, -29,-126,-103, -29,-126, -71],
    [-29,-126,-103, -29,-126, -75, -29,-126,-103, -29,-126, -77, -29,-126,-103, -29,-126, -99, -29,-126],
    [-103, -29,-127,-122, -29,-126,-103, -29,-127, -69, -29,-126,-102, -29,-127, -69, -29,-126,-103, -29],
    [-127, -72, -29,-126,-102, -29,-127, -72, -29,-126,-103, -29,-127, -75, -29,-126,-102, -29,-127, -75],
    [-29,-126,-103, -29,-127, -78, -29,-126,-102, -29,-127, -78, -29,-126,-103, -29,-127, -81, -29,-126],
    [-102, -29,-127, -81, -29,-126,-103, -29,-127, -88, -29,-126,-103, -29,-127, -90, -29,-126,-103, -29],
    [-127, -92, -29,-126,-103, -29,-127, -95, -29,-126,-103, -29,-127, -97, -29,-126,-103, -29,-127, -99],
    [-29,-126,-103, -29,-127,-101, -29,-126,-103, -29,-127,-103, -29,-126,-103, -29,-127,-105, -29,-126],
    [-103, -29,-127,-107, -29,-126,-103, -29,-127,-109, -29,-126,-103, -29,-127,-111, -29,-126,-103, -29],
    [-127,-113, -29,-126,-103, -29,-127,-115, -29,-126,-103, -29,-127,-117, -29,-126,-103, -30, -85, -99],
    [-52, -72, -30,-118, -75, -52, -72, -30,-118, -76, -52, -72, -30,-118, -77, -52, -72, -30,-118, -78],
    [-52, -72, -30,-118,-110, -52, -72, -30,-118,-111, -52, -72, -30,-119, -67, -52, -72, -30,-119, -68],
    [-52, -72, -30,-118, -85, -52, -72, -30,-118, -87, -52, -72, -30,-118, -88, -52, -72, -30,-118, -94],
    [-52, -72, -30,-118,-121, -52, -72, -30,-118,-122, -52, -72, -30,-118,-125, -52, -72, -30,-118,-126],
    [-52, -72, -30,-119, -69, -52, -72, -30,-119, -70, -52, -72, -30,-119, -73, -52, -72, -30,-119, -74],
    [-52, -72, -30,-119, -77, -52, -72, -30,-119, -78, -52, -72, -30,-119, -91, -52, -72, -30,-119, -92],
    [-52, -72,  62, -52, -72,  60, -52, -72, -30,-119,-115, -52, -72, -30,-119, -95, -52, -72,  61, -52],
    [-72, -30,-119,-120, -52, -72, -30,-119,-123, -52, -72, -30,-119,-125, -52, -72, -30,-120, -68, -52],
    [-72, -30,-120, -91, -52, -72, -30,-120, -93, -52, -72, -30,-120,-117, -52, -72, -30,-120,-120, -52],
    [-72, -30,-120,-125, -52, -72, -30,-121,-110, -52, -72, -30,-121,-108, -52, -72, -30,-121,-112, -52],
    [-72, -30,-122,-108, -52, -72, -30,-122,-110, -52, -72, -30,-122,-112, -52, -72, -50, -87, -51,-123],
    [-50, -87, -52,-128, -50, -97, -52,-128, -49,-119, -51,-123, -62, -88, -52,-128, -50, -95, -52,-108],
    [-50, -91, -52,-128, -50, -91, -52,-124, -50, -91, -52,-122, -49,-123, -51,-126, -49,-127, -52,-108],
    [-49,-127, -52,-109, -49,-123, -52,-124, -49,-123, -52,-122, -31, -65, -66, -51,-126, -31, -65, -66],
    [-52,-127, -31, -65, -66, -52,-128, -50,-103, -52,-128, -50,-103, -52,-124, -50,-103, -52,-122, -50],
    [-71, -51,-126, -50, -71, -52,-124, -50, -71, -52,-122, -31, -66, -65, -51,-126, -31, -66, -65, -52],
    [-127, -31, -66, -65, -52,-128, -50,-105, -51,-123, -50,-105, -52,-128, -50,-107, -52,-128, -50, -73],
    [-51,-123, -62, -88, -51,-126, -50,-111, -51,-123, -50,-111, -52,-128, -50,-111, -52,-124, -50,-111],
    [-52,-122, -50, -79, -51,-123, -50, -79, -52,-124, -50, -79, -52,-122, -49,-123, -52,-128, -50, -65],
    [-52,-128, -50, -71, -52,-128, -50, -75, -52,-128, 121, -52,-125,  89, -52,-125, 121, -52,-119,  89],
    [-52,-119, 121, -52, -93,  89, -52, -93, 121, -52,-128,  89, -52,-128, 117, -52,-119,  85, -52,-119],
    [117, -52, -93,  85, -52, -93, 111, -52,-119,  79, -52,-119, 105, -52, -93,  73, -52, -93, 105, -52],
    [-119,  73, -52,-119, 101, -52,-125,  69, -52,-125, 101, -52,-119,  69, -52,-119,  97, -52,-119,  65],
    [-52,-119, -59, -65, -52,-121, 121, -52,-118, 119, -52,-118, 116, -52,-120, 104, -52, -79, 122, -52],
    [-79,  90, -52, -79, 122, -52, -93,  90, -52, -93, 122, -52,-126,  90, -52,-126, 121, -52,-121,  89],
    [-52,-121, 120, -52,-120,  88, -52,-120, 120, -52,-121,  88, -52,-121, 119, -52, -93,  87, -52, -93],
    [119, -52,-121,  87, -52,-121, 119, -52,-120,  87, -52,-120, 119, -52,-127,  87, -52,-127, 119, -52],
    [-128,  87, -52,-128, 118, -52, -93,  86, -52, -93, 118, -52,-125,  86, -52,-125, 117, -52, -83,  85],
    [-52, -83, 117, -52, -80,  85, -52, -80, 117, -52, -92,  85, -52, -92, 116, -52, -83,  84, -52, -83],
    [116, -52, -79,  84, -52, -79, 116, -52, -93,  84, -52, -93, 116, -52,-121,  84, -52,-121, 115, -52],
    [-121,  83, -52,-121, 114, -52, -79,  82, -52, -79, 114, -52,-121,  82, -52,-121, 112, -52,-121,  80],
    [-52,-121, 112, -52,-127,  80, -52,-127, 110, -52, -83,  78, -52, -83, 110, -52, -79,  78, -52, -79],
    [110, -52, -93,  78, -52, -93, 110, -52,-121,  78, -52,-121, 109, -52, -93,  77, -52, -93, 109, -52],
    [-121,  77, -52,-121, 109, -52,-127,  77, -52,-127, 108, -52, -83,  76, -52, -83, 108, -52, -79,  76],
    [-52, -79, 107, -52, -79,  75, -52, -79, 107, -52, -93,  75, -52, -93, 107, -52,-127,  75, -52,-127],
    [105, -52, -80,  73, -52, -80, 104, -52, -82,  72, -52, -82, 104, -52, -89,  72, -52, -89, 104, -52],
    [-120,  72, -52,-120, 104, -52, -93,  72, -52, -93, 104, -52,-121,  72, -52,-121, 103, -52,-124,  71],
    [-52,-124, 102, -52,-121,  70, -52,-121, 101, -52, -80,  69, -52, -80, 101, -52, -83,  69, -52, -83],
    [100, -52, -83,  68, -52, -83, 100, -52, -89,  68, -52, -89, 100, -52, -79,  68, -52, -79, 100, -52],
    [-93,  68, -52, -93, 100, -52,-121,  68, -52,-121,  98, -52, -79,  66, -52, -79,  98, -52, -93,  66],
    [-52, -93,  98, -52,-121,  66, -52,-121,  97, -52, -91,  65, -52, -91, -31, -83,-126, -31, -84, -75],
    [-31, -84, -65, -31, -84, -75, -31, -84, -66, -31, -84, -75, -31, -84, -68, -31, -84, -75, -31, -84],
    [-70, -31, -84, -75, -31, -84,-111, -31, -84, -75, -31, -84,-115, -31, -84, -75, -31, -84,-117, -31],
    [-84, -75, -31, -84,-119, -31, -84, -75, -31, -84,-121, -31, -84, -75, -31, -84,-123, -31, -84, -75],
    [-31,-128, -91, -31,-128, -82, -32, -66,-112, -32, -66, -75, -32, -66, -85, -32, -66, -73, -32, -66],
    [-90, -32, -66, -73, -32, -66, -95, -32, -66, -73, -32, -66,-100, -32, -66, -73, -32, -66,-110, -32],
    [-66, -73, -32, -66, -77, -32, -66,-128, -32, -66, -78, -32, -66,-128, -32, -67, -79, -32, -67, -76],
    [-32, -67, -79, -32, -67, -78, -32, -67,-128, -32, -66, -75, -32, -67,-101, -32, -66, -73, -32, -67],
    [-106, -32, -66, -73, -32, -67,-111, -32, -66, -73, -32, -67,-116, -32, -66, -73, -32, -67,-126, -32],
    [-66, -73, -32, -73,-103, -32, -73, -97, -32, -73,-103, -32, -73,-118, -32, -75,-122, -32, -75,-105],
    [-32, -75,-121, -32, -76, -66, -32, -75,-122, -32, -76, -66, -32, -77,-122, -32, -77,-106, -32, -77],
    [-122, -32, -77,-107, -32, -78, -65, -32, -77,-107, -32, -79,-122, -32, -79,-106, -32, -81,-122, -32],
    [-81,-105, -32, -81,-121, -32, -82, -66, -32, -81,-122, -32, -82, -66, -32, -82,-110, -32, -81,-105],
    [-32, -84, -94, -32, -84, -68, -32, -84, -95, -32, -84, -68, -32, -83,-121, -32, -83,-105, -32, -83],
    [-121, -32, -84, -66, -32, -83,-121, -32, -83,-106, -32, -88, -85, -32, -88, -68, -32, -88,-100, -32],
    [-88, -68, -32, -88,-105, -32, -88, -68, -32, -88,-106, -32, -88, -68, -32, -88, -72, -32, -88, -68],
    [-32, -88, -78, -32, -88, -68, -32, -90, -81, -32, -90, -68, -32, -90, -94, -32, -90, -68, -32, -90],
    [-95, -32, -90, -68, -32, -89,-121, -32, -89,-105, -32, -89,-121, -32, -90, -66, -32, -92, -81, -32],
    [-92, -68, -32, -92, -85, -32, -92, -68, -32, -92, -94, -32, -92, -68, -32, -92, -95, -32, -92, -68],
    [-32, -92,-100, -32, -92, -68, -32, -92,-105, -32, -92, -68, -32, -92,-106, -32, -92, -68, -32, -92],
    [-107, -32, -92, -68, -32, -92, -77, -32, -92, -68, -32, -92, -80, -32, -92, -68, -32, -92, -88, -32],
    [-92, -68, -37,-110, -39,-108, -37,-127, -39,-108, -37,-107, -39,-108, -39,-120, -39,-108, -47,-117],
    [-52,-120, -48, -85, -52,-120, -47,-121, -52,-120, -48, -89, -52,-120, -47,-125, -52,-117, -48, -93],
    [-52,-117, -47,-125, -52,-120, -48, -93, -52,-120, -47,-125, -52,-124, -48, -93, -52,-124, -47,-115],
    [-52,-120, -48, -83, -52,-120, -45, -87, -52,-120, -45, -88, -52,-120, -48, -66, -52,-120, -48, -98],
    [-52,-120, -48, -72, -52,-120, -48,-104, -52,-120, -48, -72, -52,-124, -48,-104, -52,-124, -48, -73],
    [-52,-120, -48,-105, -52,-120, -48, -74, -52,-120, -48,-106, -52,-120, -45,-103, -52,-120, -45,-104],
    [-52,-120, -48, -75, -52,-122, -48,-107, -52,-122, -48, -80, -52,-120, -48,-112, -52,-120, -48, -80],
    [-52,-122, -48,-112, -52,-122, -48, -74, -52,-122, -48,-106, -52,-122, -47, -75, -52,-113, -47, -76],
    [-52,-113, -47,-125, -52,-122, -48, -72, -52,-128, -48, -70, -52,-127, -47,-106, -52,-120, -48, -77],
    [-52,-127, -48, -75, -52,-120, -48, -75, -52,-128, -48, -72, -52,-122, -48,-104, -52,-122, -48, -93],
    [-52,-122, -48,-104, -52,-128, -48,-102, -52,-127, -48,-122, -52,-120, -48,-109, -52,-127, -48,-107],
    [-52,-120, -48,-107, -52,-128, -49,-110, -52,-120, -49,-110, -52,-127, -49,-123, -52,-127, -50, -65],
    [-52,-127, -50, -71, -52,-127, -50, -75, -52,-127, -50, -91, -52,-120, -50,-103, -52,-120, -50, -87],
    [-52,-127, -50, -91, -52,-127, -50, -97, -52,-127, -50,-103, -52,-127, -50,-105, -52,-127, -50,-107],
    [-52,-127, -50,-111, -52,-127, -62, -88, -52,-127, 121, -52,-124,  89, -52,-124, 104, -52,-116,  72],
    [-52,-116, 116, -52, -90,  84, -52, -90, 115, -52, -90,  83, -52, -90, 117, -52,-111,  85, -52,-111],
    [117, -52,-113,  85, -52,-113, 114, -52,-111,  82, -52,-111, 114, -52,-113,  82, -52,-113, 111, -52],
    [-111,  79, -52,-111, 111, -52,-113,  79, -52,-113, 105, -52,-111,  73, -52,-111, 105, -52,-113,  73],
    [-52,-113, 101, -52,-111,  69, -52,-111, 101, -52,-113,  69, -52,-113,  97, -52,-111,  65, -52,-111],
    [97, -52,-113,  65, -52,-113, -61, -72, -52,-127, -61,-104, -52,-127, -61, -90, -52,-127, -61,-122],
    [-52,-127, 110, -52,-128,  78, -52,-128, 103, -52,-127,  71, -52,-127, 106, -52,-116, -54,-110, -52],
    [-116, -58, -73, -52,-116, 107, -52,-116,  75, -52,-116, 103, -52,-116,  71, -52,-116, -61, -90, -52],
    [-124, -61,-122, -52,-124, 117, -52,-116,  85, -52,-116, 111, -52,-116,  79, -52,-116, 105, -52,-116],
    [73, -52,-116,  97, -52,-116,  65, -52,-116, 122, -52,-121,  90, -52,-121, 122, -52,-127,  90, -52],
    [-127,  89, -52,-120, 121, -52,-126,  89, -52,-126, 119, -52,-126,  87, -52,-126, 117, -52, -88,  85],
    [-52, -88, 117, -52,-117,  85, -52,-117, 117, -52,-118,  85, -52,-118, 117, -52,-122,  85, -52,-122],
    [116, -52,-116,  84, -52,-116, 116, -52, -89,  84, -52, -89, 115, -52, -89,  83, -52, -89, 115, -52],
    [-126,  83, -52,-126, 114, -52,-116,  82, -52,-116, 114, -52, -89,  82, -52, -89, 114, -52,-127,  82],
    [-52,-127, 111, -52,-117,  79, -52,-117, 111, -52,-122,  79, -52,-122, 110, -52,-116,  78, -52,-116],
    [110, -52, -89,  78, -52, -89, 110, -52,-127,  78, -52,-127, 108, -52,-116,  76, -52,-116, 108, -52],
    [-89,  76, -52, -89, 108, -52,-127,  76, -52,-127, 107, -52, -89,  75, -52, -89, 106, -52,-126,  74],
    [-52,-126,  73, -52,-121, 105, -52, -88,  73, -52, -88, 105, -52,-122,  73, -52,-122, 105, -52,-124],
    [73, -52,-124, 105, -52,-125,  73, -52,-125, 104, -52,-126,  72, -52,-126, 103, -52, -89,  71, -52],
    [-89, 103, -52,-121,  71, -52,-121, 103, -52,-122,  71, -52,-122, 103, -52,-126,  71, -52,-126, 101],
    [-52,-116,  69, -52,-116, 101, -52, -88,  69, -52, -88, 101, -52,-121,  69, -52,-121, 101, -52,-122],
    [69, -52,-122, 100, -52,-116,  68, -52,-116,  99, -52,-116,  67, -52,-116,  99, -52,-121,  67, -52],
    [-121,  99, -52,-126,  67, -52,-126,  99, -52,-127,  67, -52,-127,  97, -52, -88,  65, -52, -88,  97]]"

definition STRINGS_15 :: "int list list" where
  "STRINGS_15 = [
    [-52,-124,  65, -52,-124, 121, -52,-120, 121, -52,-127, 117, -52,-126, 117, -52,-127, 117, -52,-128],
    [111, -52,-127, 111, -52,-128, 110, -52,-125, 105, -52,-126, 105, -52,-127, 105, -52,-128, 101, -52],
    [-120, 101, -52,-127, 101, -52,-128,  97, -52,-125,  97, -52,-127,  97, -52,-128,  89, -52,-127,  85],
    [-52,-126,  85, -52,-127,  85, -52,-128,  79, -52,-127,  79, -52,-128,  78, -52,-125,  73, -52,-126],
    [73, -52,-127,  73, -52,-128,  69, -52,-120,  69, -52,-127,  69, -52,-128,  65, -52,-125,  65, -52],
    [-127,  65, -52,-128, -29,-128,-108, -26,-107,-105, -29,-128,-107, -29,-128,-108, -27,-117, -99, -29],
    [-128,-107, -29,-128,-108, -25,-101,-105, -29,-128,-107, -29,-128,-108, -26,-119,-109, -29,-128,-107],
    [-29,-128,-108, -25,-126, -71, -29,-128,-107, -29,-128,-108, -27, -82,-119, -29,-128,-107, -29,-128],
    [-108, -28, -70,-116, -29,-128,-107, -29,-128,-108, -28, -72,-119, -29,-128,-107, -29,-128,-108, -26],
    [-100, -84, -29,-128,-107,  80,  80,  86, -29,-128,-108,  83, -29,-128,-107,  40,  90,  41,  40,  89],
    [41,  40,  88,  41,  40,  87,  41,  40,  86,  41,  40,  85,  41,  40,  84,  41,  40,  83,  41,  40],
    [82,  41,  40,  81,  41,  40,  80,  41,  40,  79,  41,  40,  78,  41,  40,  77,  41,  40,  76,  41],
    [40,  75,  41,  40,  74,  41,  40,  73,  41,  40,  72,  41,  40,  71,  41,  40,  70,  41,  40,  69],
    [41,  40,  68,  41,  40,  67,  41,  40,  66,  41,  40,  65,  41, -39,-124, -40, -89, -39,-107, -39],
    [-124, -40, -89, -39,-108, -39,-124, -40, -89, -39,-109, -39,-126, -39,-124, -37,-110, -40, -75, -39],
    [-124, -37,-110, -39,-122, -40, -84, -39,-118, -40, -77, -40, -82, -39,-118, -40, -88, -40, -83, -39],
    [-118, -39,-127, -39,-123, -39,-118, -39,-123, -40, -84, -39,-118, -40, -83, -40, -84, -39,-118, -40],
    [-84, -40, -83, -39,-118, -39,-125, -39,-123, -39,-123, -39,-124, -40, -84, -39,-123, -39,-123, -40],
    [-82, -39,-118, -39,-122, -40, -84, -40, -83, -39,-125, -39,-123, -39,-118, -40, -71, -39,-123, -39],
    [-118, -39,-122, -40, -83, -39,-118, -39,-126, -39,-123, -39,-118, -39,-123, -39,-123, -39,-118, -39],
    [-118, -39,-123, -39,-118, -39,-118, -40, -84, -39,-118, -39,-118, -40, -83, -39,-118, -39,-124, -39],
    [-123, -39,-118, -39,-124, -40, -84, -39,-118, -40, -74, -40, -83, -39,-118, -40, -76, -40, -83, -39],
    [-118, -40, -75, -40, -83, -39,-118, -40, -77, -40, -82, -39,-119, -40, -84, -39,-123, -39,-119, -40],
    [-84, -40, -83, -39,-119, -40, -84, -39,-123, -39,-118, -40, -86, -39,-123, -39,-119, -40, -86, -39],
    [-123, -39,-118, -40, -86, -40, -82, -39,-119, -40, -86, -40, -82, -39,-118, -40, -86, -40, -84, -39],
    [-119, -40, -86, -40, -84, -39,-118, -40, -88, -40, -82, -39,-118, -39,-118, -39,-123, -39,-123, -39],
    [-122, -39,-123, -39,-119, -39,-122, -39,-123, -39,-118, -39,-122, -40, -84, -39,-119, -39,-122, -40],
    [-84, -39,-123, -39,-122, -40, -83, -39,-119, -39,-122, -40, -83, -39,-123, -39,-121, -39,-123, -39],
    [-123, -39,-121, -39,-123, -40, -84, -39,-123, -40, -84, -40, -82, -39,-123, -40, -82, -39,-123, -39],
    [-123, -40, -82, -40, -84, -39,-123, -40, -84, -39,-123, -39,-123, -40, -84, -40, -83, -39,-123, -40],
    [-83, -39,-118, -39,-123, -40, -83, -40, -84, -39,-124, -39,-123, -40, -83, -39,-124, -40, -82, -39],
    [-123, -39,-124, -40, -84, -40, -84, -39,-124, -40, -83, -39,-119, -39,-124, -40, -83, -39,-118, -39],
    [-124, -40, -83, -39,-123, -39,-126, -39,-123, -39,-123, -39,-126, -39,-123, -40, -83, -39,-127, -40],
    [-82, -39,-123, -40, -70, -39,-123, -39,-119, -40, -70, -39,-123, -39,-118, -40, -70, -39,-123, -39],
    [-123, -40, -71, -39,-123, -39,-119, -40, -71, -40, -84, -39,-123, -40, -73, -39,-123, -39,-118, -40],
    [-73, -39,-123, -39,-123, -40, -73, -39,-123, -40, -83, -40, -74, -40, -82, -39,-123, -40, -74, -40],
    [-83, -39,-119, -40, -76, -39,-123, -39,-123, -40, -76, -39,-123, -40, -82, -40, -76, -40, -84, -39],
    [-118, -40, -76, -40, -83, -39,-123, -40, -75, -39,-123, -39,-123, -40, -75, -40, -83, -40, -83, -40],
    [-77, -39,-123, -39,-123, -40, -77, -39,-123, -40, -84, -40, -77, -39,-123, -40, -83, -40, -77, -40],
    [-84, -39,-119, -40, -77, -40, -84, -40, -83, -40, -77, -40, -83, -40, -84, -40, -83, -39,-123, -39],
    [-119, -40, -83, -39,-123, -39,-118, -40, -84, -39,-123, -40, -83, -40, -86, -39,-123, -40, -82, -40],
    [-86, -39,-123, -40, -83, -40, -86, -39,-123, -40, -84, -40, -86, -40, -82, -39,-123, -40, -86, -40],
    [-83, -39,-123, -40, -86, -40, -83, -40, -84, -40, -86, -40, -84, -39,-123, -39,-128, -39,-112, -39],
    [-111, -39,-128, -39,-113, -39,-111, -39,-128, -39,-114, -39,-111, -39,-118, -39,-108, -39,-121, -39],
    [-118, -39,-108, -40, -82, -39,-118, -39,-108, -39,-122, -39,-118, -39,-108, -40, -78, -39,-118, -39],
    [-108, -40, -79,  32, -39,-111, -39, -80,  32, -39,-112, -39,-111,  32, -39,-113, -39,-111,  32, -39],
    [-114, -39,-111,  32, -39,-115, -39,-111,  32, -39,-116, -39,-111, -39,-118, -39,-108, -39,-118, -39],
    [-118, -39,-108, -39,-123, -39,-118, -39,-108, -40, -83, -39,-118, -39,-108, -40, -84, -39,-118, -39],
    [-108, -39,-119, -39,-118, -39,-108, -37,-112, -39,-118, -39,-108, -37,-120, -39,-118, -39,-108, -37],
    [-122, -39,-118, -39,-108, -37,-121, -39,-118, -39,-108, -39,-120, -39,-118, -39,-108, -37,-107, -39],
    [-118, -39,-108, -40, -89, 102, 102, 108, 102, 102, 105, 103,  97, 108,  51,  49, -26,-105, -91,  51],
    [48, -26,-105, -91,  50,  57, -26,-105, -91,  50,  56, -26,-105, -91,  50,  55, -26,-105, -91,  50],
    [54, -26,-105, -91,  50,  53, -26,-105, -91,  50,  52, -26,-105, -91,  50,  51, -26,-105, -91,  50],
    [50, -26,-105, -91,  50,  49, -26,-105, -91,  50,  48, -26,-105, -91,  49,  57, -26,-105, -91,  49],
    [56, -26,-105, -91,  49,  55, -26,-105, -91,  49,  54, -26,-105, -91,  49,  53, -26,-105, -91,  49],
    [52, -26,-105, -91,  49,  51, -26,-105, -91,  49,  50, -26,-105, -91,  49,  49, -26,-105, -91,  49],
    [48, -26,-105, -91,  65, -30,-120,-107, 109,  86, -30,-120,-107, 109,  80,  80,  77, 109, 111, 108],
    [109, 105, 108, 108, 111, 103,  67, 111,  46,  71,  80,  97,  77,  80,  97, 107,  80,  97, 107, 109],
    [51,  99, 109,  51, 109, 109,  51, 107, 109,  50,  99, 109,  50, 109, 109,  50,  84,  72, 122,  71],
    [72, 122,  77,  72, 122, 107,  72, 122, 100, 109,  51, 100, 109,  50,  98,  97, 114, 104,  80,  97],
    [50,  52, -25,-126, -71,  50,  51, -25,-126, -71,  50,  50, -25,-126, -71,  50,  49, -25,-126, -71],
    [50,  48, -25,-126, -71,  49,  57, -25,-126, -71,  49,  56, -25,-126, -71,  49,  55, -25,-126, -71],
    [49,  54, -25,-126, -71,  49,  53, -25,-126, -71,  49,  52, -25,-126, -71,  49,  51, -25,-126, -71],
    [49,  50, -25,-126, -71,  49,  49, -25,-126, -71,  49,  48, -25,-126, -71, -29,-125, -90, -29,-126],
    [-94, -29,-125, -77, -29,-125, -92, -29,-125, -68, -29,-125, -85, -29,-125, -98, -29,-125, -85, -29],
    [-126, -81, -29,-125, -98, -29,-125,-125, -29,-125,-113, -29,-125, -98, -29,-126, -92, -29,-125, -85],
    [-29,-125,-101, -29,-125, -68, -29,-125, -77, -29,-125,-101, -29,-125, -68, -29,-125, -85, -29,-125],
    [-104, -29,-125, -85, -29,-125,-124, -29,-125,-104, -29,-126,-102, -29,-126, -67, -29,-125,-107, -29],
    [-125, -87, -29,-125, -77, -29,-125,-110, -29,-126,-103, -29,-125, -85, -29,-125,-110, -29,-126,-102],
    [-29,-126, -77, -29,-125,-113, -29,-126, -92, -29,-125,-124, -29,-125,-114, -29,-125,-125, -29,-125],
    [-120, -29,-125,-120, -29,-126,-103, -29,-125, -85, -29,-125,-122, -29,-126,-103, -29,-126, -73, -29],
    [-126, -69, -29,-125, -77, -29,-125,-127, -29,-126, -77, -29,-125, -85, -29,-125,-118, -29,-126, -79],
    [-29,-125, -68, -29,-126, -71, -29,-126, -85, -29,-126, -92, -29,-125, -86, -29,-126, -86, -29,-125],
    [-68, -29,-125, -96, -29,-126, -86, -29,-125, -77, -29,-126, -71, -29,-126, -90, -29,-126, -87, -29],
    [-125, -77, -29,-126, -92, -29,-125, -77, -29,-125,-127, -29,-126, -94, -29,-125, -68, -29,-125, -85],
    [76,  84,  68, 101, 114, 103,  49,  50, -26,-100,-120,  49,  49, -26,-100,-120,  49,  48, -26,-100],
    [-120,  80,  84,  69,  40, -24,-121, -77,  41,  40, -24,-121, -86,  41,  40, -28, -68,-111,  41,  40],
    [-25, -91, -83,  41,  40, -27,-115,-108,  41,  40, -24, -77,-121,  41,  40, -28, -68,-127,  41,  40],
    [-25,-101, -93,  41,  40, -27, -83, -90,  41,  40, -27,-111, -68,  41,  40, -28, -69, -93,  41,  40],
    [-27,-118, -76,  41,  40, -25, -91, -99,  41,  40, -24, -78, -95,  41,  40, -25,-119, -71,  41,  40],
    [-27,-112,-115,  41,  40, -25, -92, -66,  41,  40, -26,-100,-119,  41,  40, -26, -96, -86,  41,  40],
    [-26,-105, -91,  41,  40, -27,-100, -97,  41,  40, -23,-121,-111,  41,  40, -26,-100, -88,  41,  40],
    [-26, -80, -76,  41,  40, -25,-127, -85,  41,  40, -26,-100,-120,  41,  40, -27,-115,-127,  41,  40],
    [-28, -71, -99,  41,  40, -27,-123, -85,  41,  40, -28, -72,-125,  41,  40, -27,-123, -83,  41,  40],
    [-28, -70,-108,  41,  40, -27,-101,-101,  41,  40, -28, -72,-119,  41,  40, -28, -70,-116,  41,  40],
    [-28, -72,-128,  41,  40, -31,-124,-110,  41,  40, -31,-124,-111,  41,  40, -31,-124,-112,  41,  40],
    [-31,-124,-113,  41,  40, -31,-124,-114,  41,  40, -31,-124,-116,  41,  40, -31,-124,-117,  41,  40],
    [-31,-124,-119,  41,  40, -31,-124,-121,  41,  40, -31,-124,-122,  41,  40, -31,-124,-123,  41,  40],
    [-31,-124,-125,  41,  40, -31,-124,-126,  41,  40, -31,-124,-128,  41,  61,  61,  61,  58,  58,  61],
    [40, 122,  41,  40, 121,  41,  40, 120,  41,  40, 119,  41,  40, 118,  41,  40, 117,  41,  40, 116],
    [41,  40, 115,  41,  40, 114,  41,  40, 113,  41,  40, 112,  41,  40, 111,  41,  40, 110,  41,  40],
    [109,  41,  40, 108,  41,  40, 107,  41,  40, 106,  41,  40, 105,  41,  40, 104,  41,  40, 103,  41],
    [40, 102,  41,  40, 101,  41,  40, 100,  41,  40,  99,  41,  40,  98,  41,  40,  97,  41,  50,  48],
    [46,  49,  57,  46,  49,  56,  46,  49,  55,  46,  49,  54,  46,  49,  53,  46,  49,  52,  46,  49],
    [51,  46,  49,  50,  46,  49,  49,  46,  49,  48,  46,  40,  57,  41,  40,  56,  41,  40,  55,  41],
    [40,  54,  41,  40,  53,  41,  40,  52,  41,  40,  51,  41,  40,  50,  41,  40,  49,  41, -30,-120],
    [-82, -30,-120, -82, -30,-120, -82,  48, -30,-127,-124,  51, 120, 105, 105,  88,  73,  73,  55, -30],
    [-127,-124,  56,  53, -30,-127,-124,  56,  51, -30,-127,-124,  56,  49, -30,-127,-124,  56,  53, -30],
    [-127,-124,  54,  49, -30,-127,-124,  54,  52, -30,-127,-124,  53,  51, -30,-127,-124,  53,  50, -30],
    [-127,-124,  53,  49, -30,-127,-124,  53,  50, -30,-127,-124,  51,  49, -30,-127,-124,  51,  49, -30],
    [-127,-124,  57,  49, -30,-127,-124,  55,  70,  65,  88,  84,  69,  76,  99,  47, 117,  99,  47, 111],
    [97,  47, 115,  97,  47,  99, -30,-128, -75, -30,-128, -75, -30,-128, -75,  46,  46,  46,  32, -52],
    [-120, -52,-128,  32, -52,-108, -51,-126,  32, -52,-108, -52,-127,  32, -52,-108, -52,-128,  32, -52],
    [-109, -51,-126,  32, -52,-109, -52,-127,  32, -52,-109, -52,-128,  32, -52,-120, -51,-126, -32, -66],
    [-77, -32, -67, -79, -32, -66,-128, -32, -66, -78, -32, -67, -79, -32, -66,-128,  32, -52,-120, -52],
    [-127, 100, 122, -52,-116,  68, 122, -52,-116,  68,  90, -52,-116,  51, -30,-127,-124,  52,  49, -30],
    [-127,-124,  50,  49, -30,-127,-124,  52, -16, -99,-122, -70, -16, -99,-123, -91, -16, -99,-123, -81],
    [-16, -99,-122, -71, -16, -99,-123, -91, -16, -99,-123, -81, -16, -99,-122, -70, -16, -99,-123, -91],
    [-16, -99,-123, -82, -16, -99,-122, -71, -16, -99,-123, -91, -16, -99,-123, -82, -16, -99,-123,-104],
    [-16, -99,-123, -91, -16, -99,-123, -78, -16, -99,-123,-104, -16, -99,-123, -91, -16, -99,-123, -79],
    [-16, -99,-123,-104, -16, -99,-123, -91, -16, -99,-123, -80, -16, -99,-123,-104, -16, -99,-123, -91],
    [-16, -99,-123, -81, -16, -99,-123,-104, -16, -99,-123, -91, -16, -99,-123, -82, -41, -87, -42, -68],
    [-41,-126, -41, -87, -42, -68, -41,-127, -31,-124,-110, -31,-123, -75, -31,-121,-126, -31,-124,-110],
    [-31,-123, -75, -31,-121,-127, -31,-124,-110, -31,-123, -75, -31,-121,-128, -31,-124,-110, -31,-123],
    [-75, -31,-122, -65, -31,-124,-110, -31,-123, -75, -31,-122, -66, -31,-124,-110, -31,-123, -75, -31],
    [-122, -67, -31,-124,-110, -31,-123, -75, -31,-122, -68, -31,-124,-110, -31,-123, -75, -31,-122, -69],
    [-31,-124,-110, -31,-123, -75, -31,-122, -70, -31,-124,-110, -31,-123, -75, -31,-122, -71, -31,-124],
    [-110, -31,-123, -75, -31,-122, -72, -31,-124,-110, -31,-123, -75, -31,-122, -73, -31,-124,-110, -31],
    [-123, -75, -31,-122, -74, -31,-124,-110, -31,-123, -75, -31,-122, -75, -31,-124,-110, -31,-123, -75],
    [-31,-122, -76, -31,-124,-110, -31,-123, -75, -31,-122, -77, -31,-124,-110, -31,-123, -75, -31,-122],
    [-78, -31,-124,-110, -31,-123, -75, -31,-122, -79, -31,-124,-110, -31,-123, -75, -31,-122, -80, -31],
    [-124,-110, -31,-123, -75, -31,-122, -81, -31,-124,-110, -31,-123, -75, -31,-122, -82, -31,-124,-110],
    [-31,-123, -75, -31,-122, -83, -31,-124,-110, -31,-123, -75, -31,-122, -84, -31,-124,-110, -31,-123],
    [-75, -31,-122, -85, -31,-124,-110, -31,-123, -75, -31,-122, -86, -31,-124,-110, -31,-123, -75, -31],
    [-122, -87, -31,-124,-110, -31,-123, -75, -31,-122, -88, -31,-124,-110, -31,-123, -76, -31,-121,-126],
    [-31,-124,-110, -31,-123, -76, -31,-121,-127, -31,-124,-110, -31,-123, -76, -31,-121,-128, -31,-124],
    [-110, -31,-123, -76, -31,-122, -65, -31,-124,-110, -31,-123, -76, -31,-122, -66, -31,-124,-110, -31],
    [-123, -76, -31,-122, -67, -31,-124,-110, -31,-123, -76, -31,-122, -68, -31,-124,-110, -31,-123, -76],
    [-31,-122, -69, -31,-124,-110, -31,-123, -76, -31,-122, -70, -31,-124,-110, -31,-123, -76, -31,-122],
    [-71, -31,-124,-110, -31,-123, -76, -31,-122, -72, -31,-124,-110, -31,-123, -76, -31,-122, -73, -31],
    [-124,-110, -31,-123, -76, -31,-122, -74, -31,-124,-110, -31,-123, -76, -31,-122, -75, -31,-124,-110],
    [-31,-123, -76, -31,-122, -76, -31,-124,-110, -31,-123, -76, -31,-122, -77, -31,-124,-110, -31,-123],
    [-76, -31,-122, -78, -31,-124,-110, -31,-123, -76, -31,-122, -79, -31,-124,-110, -31,-123, -76, -31],
    [-122, -80, -31,-124,-110, -31,-123, -76, -31,-122, -81, -31,-124,-110, -31,-123, -76, -31,-122, -82],
    [-31,-124,-110, -31,-123, -76, -31,-122, -83, -31,-124,-110, -31,-123, -76, -31,-122, -84, -31,-124],
    [-110, -31,-123, -76, -31,-122, -85, -31,-124,-110, -31,-123, -76, -31,-122, -86, -31,-124,-110, -31],
    [-123, -76, -31,-122, -87, -31,-124,-110, -31,-123, -76, -31,-122, -88, -31,-124,-110, -31,-123, -77],
    [-31,-121,-126, -31,-124,-110, -31,-123, -77, -31,-121,-127, -31,-124,-110, -31,-123, -77, -31,-121],
    [-128, -31,-124,-110, -31,-123, -77, -31,-122, -65, -31,-124,-110, -31,-123, -77, -31,-122, -66, -31],
    [-124,-110, -31,-123, -77, -31,-122, -67, -31,-124,-110, -31,-123, -77, -31,-122, -68, -31,-124,-110],
    [-31,-123, -77, -31,-122, -69, -31,-124,-110, -31,-123, -77, -31,-122, -70, -31,-124,-110, -31,-123],
    [-77, -31,-122, -71, -31,-124,-110, -31,-123, -77, -31,-122, -72, -31,-124,-110, -31,-123, -77, -31],
    [-122, -73, -31,-124,-110, -31,-123, -77, -31,-122, -74, -31,-124,-110, -31,-123, -77, -31,-122, -75],
    [-31,-124,-110, -31,-123, -77, -31,-122, -76, -31,-124,-110, -31,-123, -77, -31,-122, -77, -31,-124]]"

definition STRINGS_16 :: "int list list" where
  "STRINGS_16 = [
    [-110, -31,-123, -77, -31,-122, -78, -31,-124,-110, -31,-123, -77, -31,-122, -79, -31,-124,-110, -31],
    [-123, -77, -31,-122, -80, -31,-124,-110, -31,-123, -77, -31,-122, -81, -31,-124,-110, -31,-123, -77],
    [-31,-122, -82, -31,-124,-110, -31,-123, -77, -31,-122, -83, -31,-124,-110, -31,-123, -77, -31,-122],
    [-84, -31,-124,-110, -31,-123, -77, -31,-122, -85, -31,-124,-110, -31,-123, -77, -31,-122, -86, -31],
    [-124,-110, -31,-123, -77, -31,-122, -87, -31,-124,-110, -31,-123, -77, -31,-122, -88, -31,-124,-110],
    [-31,-123, -78, -31,-121,-126, -31,-124,-110, -31,-123, -78, -31,-121,-127, -31,-124,-110, -31,-123],
    [-78, -31,-121,-128, -31,-124,-110, -31,-123, -78, -31,-122, -65, -31,-124,-110, -31,-123, -78, -31],
    [-122, -66, -31,-124,-110, -31,-123, -78, -31,-122, -67, -31,-124,-110, -31,-123, -78, -31,-122, -68],
    [-31,-124,-110, -31,-123, -78, -31,-122, -69, -31,-124,-110, -31,-123, -78, -31,-122, -70, -31,-124],
    [-110, -31,-123, -78, -31,-122, -71, -31,-124,-110, -31,-123, -78, -31,-122, -72, -31,-124,-110, -31],
    [-123, -78, -31,-122, -73, -31,-124,-110, -31,-123, -78, -31,-122, -74, -31,-124,-110, -31,-123, -78],
    [-31,-122, -75, -31,-124,-110, -31,-123, -78, -31,-122, -76, -31,-124,-110, -31,-123, -78, -31,-122],
    [-77, -31,-124,-110, -31,-123, -78, -31,-122, -78, -31,-124,-110, -31,-123, -78, -31,-122, -79, -31],
    [-124,-110, -31,-123, -78, -31,-122, -80, -31,-124,-110, -31,-123, -78, -31,-122, -81, -31,-124,-110],
    [-31,-123, -78, -31,-122, -82, -31,-124,-110, -31,-123, -78, -31,-122, -83, -31,-124,-110, -31,-123],
    [-78, -31,-122, -84, -31,-124,-110, -31,-123, -78, -31,-122, -85, -31,-124,-110, -31,-123, -78, -31],
    [-122, -86, -31,-124,-110, -31,-123, -78, -31,-122, -87, -31,-124,-110, -31,-123, -78, -31,-122, -88],
    [-31,-124,-110, -31,-123, -79, -31,-121,-126, -31,-124,-110, -31,-123, -79, -31,-121,-127, -31,-124],
    [-110, -31,-123, -79, -31,-121,-128, -31,-124,-110, -31,-123, -79, -31,-122, -65, -31,-124,-110, -31],
    [-123, -79, -31,-122, -66, -31,-124,-110, -31,-123, -79, -31,-122, -67, -31,-124,-110, -31,-123, -79],
    [-31,-122, -68, -31,-124,-110, -31,-123, -79, -31,-122, -69, -31,-124,-110, -31,-123, -79, -31,-122],
    [-70, -31,-124,-110, -31,-123, -79, -31,-122, -71, -31,-124,-110, -31,-123, -79, -31,-122, -72, -31],
    [-124,-110, -31,-123, -79, -31,-122, -73, -31,-124,-110, -31,-123, -79, -31,-122, -74, -31,-124,-110],
    [-31,-123, -79, -31,-122, -75, -31,-124,-110, -31,-123, -79, -31,-122, -76, -31,-124,-110, -31,-123],
    [-79, -31,-122, -77, -31,-124,-110, -31,-123, -79, -31,-122, -78, -31,-124,-110, -31,-123, -79, -31],
    [-122, -79, -31,-124,-110, -31,-123, -79, -31,-122, -80, -31,-124,-110, -31,-123, -79, -31,-122, -81],
    [-31,-124,-110, -31,-123, -79, -31,-122, -82, -31,-124,-110, -31,-123, -79, -31,-122, -83, -31,-124],
    [-110, -31,-123, -79, -31,-122, -84, -31,-124,-110, -31,-123, -79, -31,-122, -85, -31,-124,-110, -31],
    [-123, -79, -31,-122, -86, -31,-124,-110, -31,-123, -79, -31,-122, -87, -31,-124,-110, -31,-123, -79],
    [-31,-122, -88, -31,-124,-110, -31,-123, -80, -31,-121,-126, -31,-124,-110, -31,-123, -80, -31,-121],
    [-127, -31,-124,-110, -31,-123, -80, -31,-121,-128, -31,-124,-110, -31,-123, -80, -31,-122, -65, -31],
    [-124,-110, -31,-123, -80, -31,-122, -66, -31,-124,-110, -31,-123, -80, -31,-122, -67, -31,-124,-110],
    [-31,-123, -80, -31,-122, -68, -31,-124,-110, -31,-123, -80, -31,-122, -69, -31,-124,-110, -31,-123],
    [-80, -31,-122, -70, -31,-124,-110, -31,-123, -80, -31,-122, -71, -31,-124,-110, -31,-123, -80, -31],
    [-122, -72, -31,-124,-110, -31,-123, -80, -31,-122, -73, -31,-124,-110, -31,-123, -80, -31,-122, -74],
    [-31,-124,-110, -31,-123, -80, -31,-122, -75, -31,-124,-110, -31,-123, -80, -31,-122, -76, -31,-124],
    [-110, -31,-123, -80, -31,-122, -77, -31,-124,-110, -31,-123, -80, -31,-122, -78, -31,-124,-110, -31],
    [-123, -80, -31,-122, -79, -31,-124,-110, -31,-123, -80, -31,-122, -80, -31,-124,-110, -31,-123, -80],
    [-31,-122, -81, -31,-124,-110, -31,-123, -80, -31,-122, -82, -31,-124,-110, -31,-123, -80, -31,-122],
    [-83, -31,-124,-110, -31,-123, -80, -31,-122, -84, -31,-124,-110, -31,-123, -80, -31,-122, -85, -31],
    [-124,-110, -31,-123, -80, -31,-122, -86, -31,-124,-110, -31,-123, -80, -31,-122, -87, -31,-124,-110],
    [-31,-123, -80, -31,-122, -88, -31,-124,-110, -31,-123, -81, -31,-121,-126, -31,-124,-110, -31,-123],
    [-81, -31,-121,-127, -31,-124,-110, -31,-123, -81, -31,-121,-128, -31,-124,-110, -31,-123, -81, -31],
    [-122, -65, -31,-124,-110, -31,-123, -81, -31,-122, -66, -31,-124,-110, -31,-123, -81, -31,-122, -67],
    [-31,-124,-110, -31,-123, -81, -31,-122, -68, -31,-124,-110, -31,-123, -81, -31,-122, -69, -31,-124],
    [-110, -31,-123, -81, -31,-122, -70, -31,-124,-110, -31,-123, -81, -31,-122, -71, -31,-124,-110, -31],
    [-123, -81, -31,-122, -72, -31,-124,-110, -31,-123, -81, -31,-122, -73, -31,-124,-110, -31,-123, -81],
    [-31,-122, -74, -31,-124,-110, -31,-123, -81, -31,-122, -75, -31,-124,-110, -31,-123, -81, -31,-122],
    [-76, -31,-124,-110, -31,-123, -81, -31,-122, -77, -31,-124,-110, -31,-123, -81, -31,-122, -78, -31],
    [-124,-110, -31,-123, -81, -31,-122, -79, -31,-124,-110, -31,-123, -81, -31,-122, -80, -31,-124,-110],
    [-31,-123, -81, -31,-122, -81, -31,-124,-110, -31,-123, -81, -31,-122, -82, -31,-124,-110, -31,-123],
    [-81, -31,-122, -83, -31,-124,-110, -31,-123, -81, -31,-122, -84, -31,-124,-110, -31,-123, -81, -31],
    [-122, -85, -31,-124,-110, -31,-123, -81, -31,-122, -86, -31,-124,-110, -31,-123, -81, -31,-122, -87],
    [-31,-124,-110, -31,-123, -81, -31,-122, -88, -31,-124,-110, -31,-123, -82, -31,-121,-126, -31,-124],
    [-110, -31,-123, -82, -31,-121,-127, -31,-124,-110, -31,-123, -82, -31,-121,-128, -31,-124,-110, -31],
    [-123, -82, -31,-122, -65, -31,-124,-110, -31,-123, -82, -31,-122, -66, -31,-124,-110, -31,-123, -82],
    [-31,-122, -67, -31,-124,-110, -31,-123, -82, -31,-122, -68, -31,-124,-110, -31,-123, -82, -31,-122],
    [-69, -31,-124,-110, -31,-123, -82, -31,-122, -70, -31,-124,-110, -31,-123, -82, -31,-122, -71, -31],
    [-124,-110, -31,-123, -82, -31,-122, -72, -31,-124,-110, -31,-123, -82, -31,-122, -73, -31,-124,-110],
    [-31,-123, -82, -31,-122, -74, -31,-124,-110, -31,-123, -82, -31,-122, -75, -31,-124,-110, -31,-123],
    [-82, -31,-122, -76, -31,-124,-110, -31,-123, -82, -31,-122, -77, -31,-124,-110, -31,-123, -82, -31],
    [-122, -78, -31,-124,-110, -31,-123, -82, -31,-122, -79, -31,-124,-110, -31,-123, -82, -31,-122, -80],
    [-31,-124,-110, -31,-123, -82, -31,-122, -81, -31,-124,-110, -31,-123, -82, -31,-122, -82, -31,-124],
    [-110, -31,-123, -82, -31,-122, -83, -31,-124,-110, -31,-123, -82, -31,-122, -84, -31,-124,-110, -31],
    [-123, -82, -31,-122, -85, -31,-124,-110, -31,-123, -82, -31,-122, -86, -31,-124,-110, -31,-123, -82],
    [-31,-122, -87, -31,-124,-110, -31,-123, -82, -31,-122, -88, -31,-124,-110, -31,-123, -83, -31,-121],
    [-126, -31,-124,-110, -31,-123, -83, -31,-121,-127, -31,-124,-110, -31,-123, -83, -31,-121,-128, -31],
    [-124,-110, -31,-123, -83, -31,-122, -65, -31,-124,-110, -31,-123, -83, -31,-122, -66, -31,-124,-110],
    [-31,-123, -83, -31,-122, -67, -31,-124,-110, -31,-123, -83, -31,-122, -68, -31,-124,-110, -31,-123],
    [-83, -31,-122, -69, -31,-124,-110, -31,-123, -83, -31,-122, -70, -31,-124,-110, -31,-123, -83, -31],
    [-122, -71, -31,-124,-110, -31,-123, -83, -31,-122, -72, -31,-124,-110, -31,-123, -83, -31,-122, -73],
    [-31,-124,-110, -31,-123, -83, -31,-122, -74, -31,-124,-110, -31,-123, -83, -31,-122, -75, -31,-124],
    [-110, -31,-123, -83, -31,-122, -76, -31,-124,-110, -31,-123, -83, -31,-122, -77, -31,-124,-110, -31],
    [-123, -83, -31,-122, -78, -31,-124,-110, -31,-123, -83, -31,-122, -79, -31,-124,-110, -31,-123, -83],
    [-31,-122, -80, -31,-124,-110, -31,-123, -83, -31,-122, -81, -31,-124,-110, -31,-123, -83, -31,-122],
    [-82, -31,-124,-110, -31,-123, -83, -31,-122, -83, -31,-124,-110, -31,-123, -83, -31,-122, -84, -31],
    [-124,-110, -31,-123, -83, -31,-122, -85, -31,-124,-110, -31,-123, -83, -31,-122, -86, -31,-124,-110],
    [-31,-123, -83, -31,-122, -87, -31,-124,-110, -31,-123, -83, -31,-122, -88, -31,-124,-110, -31,-123],
    [-84, -31,-121,-126, -31,-124,-110, -31,-123, -84, -31,-121,-127, -31,-124,-110, -31,-123, -84, -31],
    [-121,-128, -31,-124,-110, -31,-123, -84, -31,-122, -65, -31,-124,-110, -31,-123, -84, -31,-122, -66],
    [-31,-124,-110, -31,-123, -84, -31,-122, -67, -31,-124,-110, -31,-123, -84, -31,-122, -68, -31,-124],
    [-110, -31,-123, -84, -31,-122, -69, -31,-124,-110, -31,-123, -84, -31,-122, -70, -31,-124,-110, -31],
    [-123, -84, -31,-122, -71, -31,-124,-110, -31,-123, -84, -31,-122, -72, -31,-124,-110, -31,-123, -84],
    [-31,-122, -73, -31,-124,-110, -31,-123, -84, -31,-122, -74, -31,-124,-110, -31,-123, -84, -31,-122],
    [-75, -31,-124,-110, -31,-123, -84, -31,-122, -76, -31,-124,-110, -31,-123, -84, -31,-122, -77, -31],
    [-124,-110, -31,-123, -84, -31,-122, -78, -31,-124,-110, -31,-123, -84, -31,-122, -79, -31,-124,-110],
    [-31,-123, -84, -31,-122, -80, -31,-124,-110, -31,-123, -84, -31,-122, -81, -31,-124,-110, -31,-123],
    [-84, -31,-122, -82, -31,-124,-110, -31,-123, -84, -31,-122, -83, -31,-124,-110, -31,-123, -84, -31],
    [-122, -84, -31,-124,-110, -31,-123, -84, -31,-122, -85, -31,-124,-110, -31,-123, -84, -31,-122, -86],
    [-31,-124,-110, -31,-123, -84, -31,-122, -87, -31,-124,-110, -31,-123, -84, -31,-122, -88, -31,-124],
    [-110, -31,-123, -85, -31,-121,-126, -31,-124,-110, -31,-123, -85, -31,-121,-127, -31,-124,-110, -31],
    [-123, -85, -31,-121,-128, -31,-124,-110, -31,-123, -85, -31,-122, -65, -31,-124,-110, -31,-123, -85],
    [-31,-122, -66, -31,-124,-110, -31,-123, -85, -31,-122, -67, -31,-124,-110, -31,-123, -85, -31,-122],
    [-68, -31,-124,-110, -31,-123, -85, -31,-122, -69, -31,-124,-110, -31,-123, -85, -31,-122, -70, -31],
    [-124,-110, -31,-123, -85, -31,-122, -71, -31,-124,-110, -31,-123, -85, -31,-122, -72, -31,-124,-110],
    [-31,-123, -85, -31,-122, -73, -31,-124,-110, -31,-123, -85, -31,-122, -74, -31,-124,-110, -31,-123],
    [-85, -31,-122, -75, -31,-124,-110, -31,-123, -85, -31,-122, -76, -31,-124,-110, -31,-123, -85, -31],
    [-122, -77, -31,-124,-110, -31,-123, -85, -31,-122, -78, -31,-124,-110, -31,-123, -85, -31,-122, -79],
    [-31,-124,-110, -31,-123, -85, -31,-122, -80, -31,-124,-110, -31,-123, -85, -31,-122, -81, -31,-124],
    [-110, -31,-123, -85, -31,-122, -82, -31,-124,-110, -31,-123, -85, -31,-122, -83, -31,-124,-110, -31],
    [-123, -85, -31,-122, -84, -31,-124,-110, -31,-123, -85, -31,-122, -85, -31,-124,-110, -31,-123, -85],
    [-31,-122, -86, -31,-124,-110, -31,-123, -85, -31,-122, -87, -31,-124,-110, -31,-123, -85, -31,-122],
    [-88, -31,-124,-110, -31,-123, -86, -31,-121,-126, -31,-124,-110, -31,-123, -86, -31,-121,-127, -31],
    [-124,-110, -31,-123, -86, -31,-121,-128, -31,-124,-110, -31,-123, -86, -31,-122, -65, -31,-124,-110],
    [-31,-123, -86, -31,-122, -66, -31,-124,-110, -31,-123, -86, -31,-122, -67, -31,-124,-110, -31,-123],
    [-86, -31,-122, -68, -31,-124,-110, -31,-123, -86, -31,-122, -69, -31,-124,-110, -31,-123, -86, -31],
    [-122, -70, -31,-124,-110, -31,-123, -86, -31,-122, -71, -31,-124,-110, -31,-123, -86, -31,-122, -72],
    [-31,-124,-110, -31,-123, -86, -31,-122, -73, -31,-124,-110, -31,-123, -86, -31,-122, -74, -31,-124],
    [-110, -31,-123, -86, -31,-122, -75, -31,-124,-110, -31,-123, -86, -31,-122, -76, -31,-124,-110, -31],
    [-123, -86, -31,-122, -77, -31,-124,-110, -31,-123, -86, -31,-122, -78, -31,-124,-110, -31,-123, -86],
    [-31,-122, -79, -31,-124,-110, -31,-123, -86, -31,-122, -80, -31,-124,-110, -31,-123, -86, -31,-122],
    [-81, -31,-124,-110, -31,-123, -86, -31,-122, -82, -31,-124,-110, -31,-123, -86, -31,-122, -83, -31],
    [-124,-110, -31,-123, -86, -31,-122, -84, -31,-124,-110, -31,-123, -86, -31,-122, -85, -31,-124,-110],
    [-31,-123, -86, -31,-122, -86, -31,-124,-110, -31,-123, -86, -31,-122, -87, -31,-124,-110, -31,-123],
    [-86, -31,-122, -88, -31,-124,-110, -31,-123, -87, -31,-121,-126, -31,-124,-110, -31,-123, -87, -31],
    [-121,-127, -31,-124,-110, -31,-123, -87, -31,-121,-128, -31,-124,-110, -31,-123, -87, -31,-122, -65],
    [-31,-124,-110, -31,-123, -87, -31,-122, -66, -31,-124,-110, -31,-123, -87, -31,-122, -67, -31,-124],
    [-110, -31,-123, -87, -31,-122, -68, -31,-124,-110, -31,-123, -87, -31,-122, -69, -31,-124,-110, -31],
    [-123, -87, -31,-122, -70, -31,-124,-110, -31,-123, -87, -31,-122, -71, -31,-124,-110, -31,-123, -87],
    [-31,-122, -72, -31,-124,-110, -31,-123, -87, -31,-122, -73, -31,-124,-110, -31,-123, -87, -31,-122],
    [-74, -31,-124,-110, -31,-123, -87, -31,-122, -75, -31,-124,-110, -31,-123, -87, -31,-122, -76, -31],
    [-124,-110, -31,-123, -87, -31,-122, -77, -31,-124,-110, -31,-123, -87, -31,-122, -78, -31,-124,-110],
    [-31,-123, -87, -31,-122, -79, -31,-124,-110, -31,-123, -87, -31,-122, -80, -31,-124,-110, -31,-123],
    [-87, -31,-122, -81, -31,-124,-110, -31,-123, -87, -31,-122, -82, -31,-124,-110, -31,-123, -87, -31],
    [-122, -83, -31,-124,-110, -31,-123, -87, -31,-122, -84, -31,-124,-110, -31,-123, -87, -31,-122, -85],
    [-31,-124,-110, -31,-123, -87, -31,-122, -86, -31,-124,-110, -31,-123, -87, -31,-122, -87, -31,-124],
    [-110, -31,-123, -87, -31,-122, -88, -31,-124,-110, -31,-123, -88, -31,-121,-126, -31,-124,-110, -31],
    [-123, -88, -31,-121,-127, -31,-124,-110, -31,-123, -88, -31,-121,-128, -31,-124,-110, -31,-123, -88],
    [-31,-122, -65, -31,-124,-110, -31,-123, -88, -31,-122, -66, -31,-124,-110, -31,-123, -88, -31,-122],
    [-67, -31,-124,-110, -31,-123, -88, -31,-122, -68, -31,-124,-110, -31,-123, -88, -31,-122, -69, -31],
    [-124,-110, -31,-123, -88, -31,-122, -70, -31,-124,-110, -31,-123, -88, -31,-122, -71, -31,-124,-110],
    [-31,-123, -88, -31,-122, -72, -31,-124,-110, -31,-123, -88, -31,-122, -73, -31,-124,-110, -31,-123],
    [-88, -31,-122, -74, -31,-124,-110, -31,-123, -88, -31,-122, -75, -31,-124,-110, -31,-123, -88, -31],
    [-122, -76, -31,-124,-110, -31,-123, -88, -31,-122, -77, -31,-124,-110, -31,-123, -88, -31,-122, -78],
    [-31,-124,-110, -31,-123, -88, -31,-122, -79, -31,-124,-110, -31,-123, -88, -31,-122, -80, -31,-124],
    [-110, -31,-123, -88, -31,-122, -81, -31,-124,-110, -31,-123, -88, -31,-122, -82, -31,-124,-110, -31],
    [-123, -88, -31,-122, -83, -31,-124,-110, -31,-123, -88, -31,-122, -84, -31,-124,-110, -31,-123, -88],
    [-31,-122, -85, -31,-124,-110, -31,-123, -88, -31,-122, -86, -31,-124,-110, -31,-123, -88, -31,-122],
    [-87, -31,-124,-110, -31,-123, -88, -31,-122, -88, -31,-124,-110, -31,-123, -89, -31,-121,-126, -31],
    [-124,-110, -31,-123, -89, -31,-121,-127, -31,-124,-110, -31,-123, -89, -31,-121,-128, -31,-124,-110],
    [-31,-123, -89, -31,-122, -65, -31,-124,-110, -31,-123, -89, -31,-122, -66, -31,-124,-110, -31,-123],
    [-89, -31,-122, -67, -31,-124,-110, -31,-123, -89, -31,-122, -68, -31,-124,-110, -31,-123, -89, -31],
    [-122, -69, -31,-124,-110, -31,-123, -89, -31,-122, -70, -31,-124,-110, -31,-123, -89, -31,-122, -71],
    [-31,-124,-110, -31,-123, -89, -31,-122, -72, -31,-124,-110, -31,-123, -89, -31,-122, -73, -31,-124]]"

definition STRINGS_17 :: "int list list" where
  "STRINGS_17 = [
    [-110, -31,-123, -89, -31,-122, -74, -31,-124,-110, -31,-123, -89, -31,-122, -75, -31,-124,-110, -31],
    [-123, -89, -31,-122, -76, -31,-124,-110, -31,-123, -89, -31,-122, -77, -31,-124,-110, -31,-123, -89],
    [-31,-122, -78, -31,-124,-110, -31,-123, -89, -31,-122, -79, -31,-124,-110, -31,-123, -89, -31,-122],
    [-80, -31,-124,-110, -31,-123, -89, -31,-122, -81, -31,-124,-110, -31,-123, -89, -31,-122, -82, -31],
    [-124,-110, -31,-123, -89, -31,-122, -83, -31,-124,-110, -31,-123, -89, -31,-122, -84, -31,-124,-110],
    [-31,-123, -89, -31,-122, -85, -31,-124,-110, -31,-123, -89, -31,-122, -86, -31,-124,-110, -31,-123],
    [-89, -31,-122, -87, -31,-124,-110, -31,-123, -89, -31,-122, -88, -31,-124,-110, -31,-123, -90, -31],
    [-121,-126, -31,-124,-110, -31,-123, -90, -31,-121,-127, -31,-124,-110, -31,-123, -90, -31,-121,-128],
    [-31,-124,-110, -31,-123, -90, -31,-122, -65, -31,-124,-110, -31,-123, -90, -31,-122, -66, -31,-124],
    [-110, -31,-123, -90, -31,-122, -67, -31,-124,-110, -31,-123, -90, -31,-122, -68, -31,-124,-110, -31],
    [-123, -90, -31,-122, -69, -31,-124,-110, -31,-123, -90, -31,-122, -70, -31,-124,-110, -31,-123, -90],
    [-31,-122, -71, -31,-124,-110, -31,-123, -90, -31,-122, -72, -31,-124,-110, -31,-123, -90, -31,-122],
    [-73, -31,-124,-110, -31,-123, -90, -31,-122, -74, -31,-124,-110, -31,-123, -90, -31,-122, -75, -31],
    [-124,-110, -31,-123, -90, -31,-122, -76, -31,-124,-110, -31,-123, -90, -31,-122, -77, -31,-124,-110],
    [-31,-123, -90, -31,-122, -78, -31,-124,-110, -31,-123, -90, -31,-122, -79, -31,-124,-110, -31,-123],
    [-90, -31,-122, -80, -31,-124,-110, -31,-123, -90, -31,-122, -81, -31,-124,-110, -31,-123, -90, -31],
    [-122, -82, -31,-124,-110, -31,-123, -90, -31,-122, -83, -31,-124,-110, -31,-123, -90, -31,-122, -84],
    [-31,-124,-110, -31,-123, -90, -31,-122, -85, -31,-124,-110, -31,-123, -90, -31,-122, -86, -31,-124],
    [-110, -31,-123, -90, -31,-122, -87, -31,-124,-110, -31,-123, -90, -31,-122, -88, -31,-124,-110, -31],
    [-123, -91, -31,-121,-126, -31,-124,-110, -31,-123, -91, -31,-121,-127, -31,-124,-110, -31,-123, -91],
    [-31,-121,-128, -31,-124,-110, -31,-123, -91, -31,-122, -65, -31,-124,-110, -31,-123, -91, -31,-122],
    [-66, -31,-124,-110, -31,-123, -91, -31,-122, -67, -31,-124,-110, -31,-123, -91, -31,-122, -68, -31],
    [-124,-110, -31,-123, -91, -31,-122, -69, -31,-124,-110, -31,-123, -91, -31,-122, -70, -31,-124,-110],
    [-31,-123, -91, -31,-122, -71, -31,-124,-110, -31,-123, -91, -31,-122, -72, -31,-124,-110, -31,-123],
    [-91, -31,-122, -73, -31,-124,-110, -31,-123, -91, -31,-122, -74, -31,-124,-110, -31,-123, -91, -31],
    [-122, -75, -31,-124,-110, -31,-123, -91, -31,-122, -76, -31,-124,-110, -31,-123, -91, -31,-122, -77],
    [-31,-124,-110, -31,-123, -91, -31,-122, -78, -31,-124,-110, -31,-123, -91, -31,-122, -79, -31,-124],
    [-110, -31,-123, -91, -31,-122, -80, -31,-124,-110, -31,-123, -91, -31,-122, -81, -31,-124,-110, -31],
    [-123, -91, -31,-122, -82, -31,-124,-110, -31,-123, -91, -31,-122, -83, -31,-124,-110, -31,-123, -91],
    [-31,-122, -84, -31,-124,-110, -31,-123, -91, -31,-122, -85, -31,-124,-110, -31,-123, -91, -31,-122],
    [-86, -31,-124,-110, -31,-123, -91, -31,-122, -87, -31,-124,-110, -31,-123, -91, -31,-122, -88, -31],
    [-124,-110, -31,-123, -92, -31,-121,-126, -31,-124,-110, -31,-123, -92, -31,-121,-127, -31,-124,-110],
    [-31,-123, -92, -31,-121,-128, -31,-124,-110, -31,-123, -92, -31,-122, -65, -31,-124,-110, -31,-123],
    [-92, -31,-122, -66, -31,-124,-110, -31,-123, -92, -31,-122, -67, -31,-124,-110, -31,-123, -92, -31],
    [-122, -68, -31,-124,-110, -31,-123, -92, -31,-122, -69, -31,-124,-110, -31,-123, -92, -31,-122, -70],
    [-31,-124,-110, -31,-123, -92, -31,-122, -71, -31,-124,-110, -31,-123, -92, -31,-122, -72, -31,-124],
    [-110, -31,-123, -92, -31,-122, -73, -31,-124,-110, -31,-123, -92, -31,-122, -74, -31,-124,-110, -31],
    [-123, -92, -31,-122, -75, -31,-124,-110, -31,-123, -92, -31,-122, -76, -31,-124,-110, -31,-123, -92],
    [-31,-122, -77, -31,-124,-110, -31,-123, -92, -31,-122, -78, -31,-124,-110, -31,-123, -92, -31,-122],
    [-79, -31,-124,-110, -31,-123, -92, -31,-122, -80, -31,-124,-110, -31,-123, -92, -31,-122, -81, -31],
    [-124,-110, -31,-123, -92, -31,-122, -82, -31,-124,-110, -31,-123, -92, -31,-122, -83, -31,-124,-110],
    [-31,-123, -92, -31,-122, -84, -31,-124,-110, -31,-123, -92, -31,-122, -85, -31,-124,-110, -31,-123],
    [-92, -31,-122, -86, -31,-124,-110, -31,-123, -92, -31,-122, -87, -31,-124,-110, -31,-123, -92, -31],
    [-122, -88, -31,-124,-110, -31,-123, -93, -31,-121,-126, -31,-124,-110, -31,-123, -93, -31,-121,-127],
    [-31,-124,-110, -31,-123, -93, -31,-121,-128, -31,-124,-110, -31,-123, -93, -31,-122, -65, -31,-124],
    [-110, -31,-123, -93, -31,-122, -66, -31,-124,-110, -31,-123, -93, -31,-122, -67, -31,-124,-110, -31],
    [-123, -93, -31,-122, -68, -31,-124,-110, -31,-123, -93, -31,-122, -69, -31,-124,-110, -31,-123, -93],
    [-31,-122, -70, -31,-124,-110, -31,-123, -93, -31,-122, -71, -31,-124,-110, -31,-123, -93, -31,-122],
    [-72, -31,-124,-110, -31,-123, -93, -31,-122, -73, -31,-124,-110, -31,-123, -93, -31,-122, -74, -31],
    [-124,-110, -31,-123, -93, -31,-122, -75, -31,-124,-110, -31,-123, -93, -31,-122, -76, -31,-124,-110],
    [-31,-123, -93, -31,-122, -77, -31,-124,-110, -31,-123, -93, -31,-122, -78, -31,-124,-110, -31,-123],
    [-93, -31,-122, -79, -31,-124,-110, -31,-123, -93, -31,-122, -80, -31,-124,-110, -31,-123, -93, -31],
    [-122, -81, -31,-124,-110, -31,-123, -93, -31,-122, -82, -31,-124,-110, -31,-123, -93, -31,-122, -83],
    [-31,-124,-110, -31,-123, -93, -31,-122, -84, -31,-124,-110, -31,-123, -93, -31,-122, -85, -31,-124],
    [-110, -31,-123, -93, -31,-122, -86, -31,-124,-110, -31,-123, -93, -31,-122, -87, -31,-124,-110, -31],
    [-123, -93, -31,-122, -88, -31,-124,-110, -31,-123, -94, -31,-121,-126, -31,-124,-110, -31,-123, -94],
    [-31,-121,-127, -31,-124,-110, -31,-123, -94, -31,-121,-128, -31,-124,-110, -31,-123, -94, -31,-122],
    [-65, -31,-124,-110, -31,-123, -94, -31,-122, -66, -31,-124,-110, -31,-123, -94, -31,-122, -67, -31],
    [-124,-110, -31,-123, -94, -31,-122, -68, -31,-124,-110, -31,-123, -94, -31,-122, -69, -31,-124,-110],
    [-31,-123, -94, -31,-122, -70, -31,-124,-110, -31,-123, -94, -31,-122, -71, -31,-124,-110, -31,-123],
    [-94, -31,-122, -72, -31,-124,-110, -31,-123, -94, -31,-122, -73, -31,-124,-110, -31,-123, -94, -31],
    [-122, -74, -31,-124,-110, -31,-123, -94, -31,-122, -75, -31,-124,-110, -31,-123, -94, -31,-122, -76],
    [-31,-124,-110, -31,-123, -94, -31,-122, -77, -31,-124,-110, -31,-123, -94, -31,-122, -78, -31,-124],
    [-110, -31,-123, -94, -31,-122, -79, -31,-124,-110, -31,-123, -94, -31,-122, -80, -31,-124,-110, -31],
    [-123, -94, -31,-122, -81, -31,-124,-110, -31,-123, -94, -31,-122, -82, -31,-124,-110, -31,-123, -94],
    [-31,-122, -83, -31,-124,-110, -31,-123, -94, -31,-122, -84, -31,-124,-110, -31,-123, -94, -31,-122],
    [-85, -31,-124,-110, -31,-123, -94, -31,-122, -86, -31,-124,-110, -31,-123, -94, -31,-122, -87, -31],
    [-124,-110, -31,-123, -94, -31,-122, -88, -31,-124,-110, -31,-123, -95, -31,-121,-126, -31,-124,-110],
    [-31,-123, -95, -31,-121,-127, -31,-124,-110, -31,-123, -95, -31,-121,-128, -31,-124,-110, -31,-123],
    [-95, -31,-122, -65, -31,-124,-110, -31,-123, -95, -31,-122, -66, -31,-124,-110, -31,-123, -95, -31],
    [-122, -67, -31,-124,-110, -31,-123, -95, -31,-122, -68, -31,-124,-110, -31,-123, -95, -31,-122, -69],
    [-31,-124,-110, -31,-123, -95, -31,-122, -70, -31,-124,-110, -31,-123, -95, -31,-122, -71, -31,-124],
    [-110, -31,-123, -95, -31,-122, -72, -31,-124,-110, -31,-123, -95, -31,-122, -73, -31,-124,-110, -31],
    [-123, -95, -31,-122, -74, -31,-124,-110, -31,-123, -95, -31,-122, -75, -31,-124,-110, -31,-123, -95],
    [-31,-122, -76, -31,-124,-110, -31,-123, -95, -31,-122, -77, -31,-124,-110, -31,-123, -95, -31,-122],
    [-78, -31,-124,-110, -31,-123, -95, -31,-122, -79, -31,-124,-110, -31,-123, -95, -31,-122, -80, -31],
    [-124,-110, -31,-123, -95, -31,-122, -81, -31,-124,-110, -31,-123, -95, -31,-122, -82, -31,-124,-110],
    [-31,-123, -95, -31,-122, -83, -31,-124,-110, -31,-123, -95, -31,-122, -84, -31,-124,-110, -31,-123],
    [-95, -31,-122, -85, -31,-124,-110, -31,-123, -95, -31,-122, -86, -31,-124,-110, -31,-123, -95, -31],
    [-122, -87, -31,-124,-110, -31,-123, -95, -31,-122, -88, -31,-124,-111, -31,-123, -75, -31,-121,-126],
    [-31,-124,-111, -31,-123, -75, -31,-121,-127, -31,-124,-111, -31,-123, -75, -31,-121,-128, -31,-124],
    [-111, -31,-123, -75, -31,-122, -65, -31,-124,-111, -31,-123, -75, -31,-122, -66, -31,-124,-111, -31],
    [-123, -75, -31,-122, -67, -31,-124,-111, -31,-123, -75, -31,-122, -68, -31,-124,-111, -31,-123, -75],
    [-31,-122, -69, -31,-124,-111, -31,-123, -75, -31,-122, -70, -31,-124,-111, -31,-123, -75, -31,-122],
    [-71, -31,-124,-111, -31,-123, -75, -31,-122, -72, -31,-124,-111, -31,-123, -75, -31,-122, -73, -31],
    [-124,-111, -31,-123, -75, -31,-122, -74, -31,-124,-111, -31,-123, -75, -31,-122, -75, -31,-124,-111],
    [-31,-123, -75, -31,-122, -76, -31,-124,-111, -31,-123, -75, -31,-122, -77, -31,-124,-111, -31,-123],
    [-75, -31,-122, -78, -31,-124,-111, -31,-123, -75, -31,-122, -79, -31,-124,-111, -31,-123, -75, -31],
    [-122, -80, -31,-124,-111, -31,-123, -75, -31,-122, -81, -31,-124,-111, -31,-123, -75, -31,-122, -82],
    [-31,-124,-111, -31,-123, -75, -31,-122, -83, -31,-124,-111, -31,-123, -75, -31,-122, -84, -31,-124],
    [-111, -31,-123, -75, -31,-122, -85, -31,-124,-111, -31,-123, -75, -31,-122, -86, -31,-124,-111, -31],
    [-123, -75, -31,-122, -87, -31,-124,-111, -31,-123, -75, -31,-122, -88, -31,-124,-111, -31,-123, -76],
    [-31,-121,-126, -31,-124,-111, -31,-123, -76, -31,-121,-127, -31,-124,-111, -31,-123, -76, -31,-121],
    [-128, -31,-124,-111, -31,-123, -76, -31,-122, -65, -31,-124,-111, -31,-123, -76, -31,-122, -66, -31],
    [-124,-111, -31,-123, -76, -31,-122, -67, -31,-124,-111, -31,-123, -76, -31,-122, -68, -31,-124,-111],
    [-31,-123, -76, -31,-122, -69, -31,-124,-111, -31,-123, -76, -31,-122, -70, -31,-124,-111, -31,-123],
    [-76, -31,-122, -71, -31,-124,-111, -31,-123, -76, -31,-122, -72, -31,-124,-111, -31,-123, -76, -31],
    [-122, -73, -31,-124,-111, -31,-123, -76, -31,-122, -74, -31,-124,-111, -31,-123, -76, -31,-122, -75],
    [-31,-124,-111, -31,-123, -76, -31,-122, -76, -31,-124,-111, -31,-123, -76, -31,-122, -77, -31,-124],
    [-111, -31,-123, -76, -31,-122, -78, -31,-124,-111, -31,-123, -76, -31,-122, -79, -31,-124,-111, -31],
    [-123, -76, -31,-122, -80, -31,-124,-111, -31,-123, -76, -31,-122, -81, -31,-124,-111, -31,-123, -76],
    [-31,-122, -82, -31,-124,-111, -31,-123, -76, -31,-122, -83, -31,-124,-111, -31,-123, -76, -31,-122],
    [-84, -31,-124,-111, -31,-123, -76, -31,-122, -85, -31,-124,-111, -31,-123, -76, -31,-122, -86, -31],
    [-124,-111, -31,-123, -76, -31,-122, -87, -31,-124,-111, -31,-123, -76, -31,-122, -88, -31,-124,-111],
    [-31,-123, -77, -31,-121,-126, -31,-124,-111, -31,-123, -77, -31,-121,-127, -31,-124,-111, -31,-123],
    [-77, -31,-121,-128, -31,-124,-111, -31,-123, -77, -31,-122, -65, -31,-124,-111, -31,-123, -77, -31],
    [-122, -66, -31,-124,-111, -31,-123, -77, -31,-122, -67, -31,-124,-111, -31,-123, -77, -31,-122, -68],
    [-31,-124,-111, -31,-123, -77, -31,-122, -69, -31,-124,-111, -31,-123, -77, -31,-122, -70, -31,-124],
    [-111, -31,-123, -77, -31,-122, -71, -31,-124,-111, -31,-123, -77, -31,-122, -72, -31,-124,-111, -31],
    [-123, -77, -31,-122, -73, -31,-124,-111, -31,-123, -77, -31,-122, -74, -31,-124,-111, -31,-123, -77],
    [-31,-122, -75, -31,-124,-111, -31,-123, -77, -31,-122, -76, -31,-124,-111, -31,-123, -77, -31,-122],
    [-77, -31,-124,-111, -31,-123, -77, -31,-122, -78, -31,-124,-111, -31,-123, -77, -31,-122, -79, -31],
    [-124,-111, -31,-123, -77, -31,-122, -80, -31,-124,-111, -31,-123, -77, -31,-122, -81, -31,-124,-111],
    [-31,-123, -77, -31,-122, -82, -31,-124,-111, -31,-123, -77, -31,-122, -83, -31,-124,-111, -31,-123],
    [-77, -31,-122, -84, -31,-124,-111, -31,-123, -77, -31,-122, -85, -31,-124,-111, -31,-123, -77, -31],
    [-122, -86, -31,-124,-111, -31,-123, -77, -31,-122, -87, -31,-124,-111, -31,-123, -77, -31,-122, -88],
    [-31,-124,-111, -31,-123, -78, -31,-121,-126, -31,-124,-111, -31,-123, -78, -31,-121,-127, -31,-124],
    [-111, -31,-123, -78, -31,-121,-128, -31,-124,-111, -31,-123, -78, -31,-122, -65, -31,-124,-111, -31],
    [-123, -78, -31,-122, -66, -31,-124,-111, -31,-123, -78, -31,-122, -67, -31,-124,-111, -31,-123, -78],
    [-31,-122, -68, -31,-124,-111, -31,-123, -78, -31,-122, -69, -31,-124,-111, -31,-123, -78, -31,-122],
    [-70, -31,-124,-111, -31,-123, -78, -31,-122, -71, -31,-124,-111, -31,-123, -78, -31,-122, -72, -31],
    [-124,-111, -31,-123, -78, -31,-122, -73, -31,-124,-111, -31,-123, -78, -31,-122, -74, -31,-124,-111],
    [-31,-123, -78, -31,-122, -75, -31,-124,-111, -31,-123, -78, -31,-122, -76, -31,-124,-111, -31,-123],
    [-78, -31,-122, -77, -31,-124,-111, -31,-123, -78, -31,-122, -78, -31,-124,-111, -31,-123, -78, -31],
    [-122, -79, -31,-124,-111, -31,-123, -78, -31,-122, -80, -31,-124,-111, -31,-123, -78, -31,-122, -81],
    [-31,-124,-111, -31,-123, -78, -31,-122, -82, -31,-124,-111, -31,-123, -78, -31,-122, -83, -31,-124],
    [-111, -31,-123, -78, -31,-122, -84, -31,-124,-111, -31,-123, -78, -31,-122, -85, -31,-124,-111, -31],
    [-123, -78, -31,-122, -86, -31,-124,-111, -31,-123, -78, -31,-122, -87, -31,-124,-111, -31,-123, -78],
    [-31,-122, -88, -31,-124,-111, -31,-123, -79, -31,-121,-126, -31,-124,-111, -31,-123, -79, -31,-121],
    [-127, -31,-124,-111, -31,-123, -79, -31,-121,-128, -31,-124,-111, -31,-123, -79, -31,-122, -65, -31],
    [-124,-111, -31,-123, -79, -31,-122, -66, -31,-124,-111, -31,-123, -79, -31,-122, -67, -31,-124,-111],
    [-31,-123, -79, -31,-122, -68, -31,-124,-111, -31,-123, -79, -31,-122, -69, -31,-124,-111, -31,-123],
    [-79, -31,-122, -70, -31,-124,-111, -31,-123, -79, -31,-122, -71, -31,-124,-111, -31,-123, -79, -31],
    [-122, -72, -31,-124,-111, -31,-123, -79, -31,-122, -73, -31,-124,-111, -31,-123, -79, -31,-122, -74],
    [-31,-124,-111, -31,-123, -79, -31,-122, -75, -31,-124,-111, -31,-123, -79, -31,-122, -76, -31,-124],
    [-111, -31,-123, -79, -31,-122, -77, -31,-124,-111, -31,-123, -79, -31,-122, -78, -31,-124,-111, -31],
    [-123, -79, -31,-122, -79, -31,-124,-111, -31,-123, -79, -31,-122, -80, -31,-124,-111, -31,-123, -79],
    [-31,-122, -81, -31,-124,-111, -31,-123, -79, -31,-122, -82, -31,-124,-111, -31,-123, -79, -31,-122],
    [-83, -31,-124,-111, -31,-123, -79, -31,-122, -84, -31,-124,-111, -31,-123, -79, -31,-122, -85, -31],
    [-124,-111, -31,-123, -79, -31,-122, -86, -31,-124,-111, -31,-123, -79, -31,-122, -87, -31,-124,-111],
    [-31,-123, -79, -31,-122, -88, -31,-124,-111, -31,-123, -80, -31,-121,-126, -31,-124,-111, -31,-123],
    [-80, -31,-121,-127, -31,-124,-111, -31,-123, -80, -31,-121,-128, -31,-124,-111, -31,-123, -80, -31],
    [-122, -65, -31,-124,-111, -31,-123, -80, -31,-122, -66, -31,-124,-111, -31,-123, -80, -31,-122, -67],
    [-31,-124,-111, -31,-123, -80, -31,-122, -68, -31,-124,-111, -31,-123, -80, -31,-122, -69, -31,-124]]"

definition STRINGS_18 :: "int list list" where
  "STRINGS_18 = [
    [-111, -31,-123, -80, -31,-122, -70, -31,-124,-111, -31,-123, -80, -31,-122, -71, -31,-124,-111, -31],
    [-123, -80, -31,-122, -72, -31,-124,-111, -31,-123, -80, -31,-122, -73, -31,-124,-111, -31,-123, -80],
    [-31,-122, -74, -31,-124,-111, -31,-123, -80, -31,-122, -75, -31,-124,-111, -31,-123, -80, -31,-122],
    [-76, -31,-124,-111, -31,-123, -80, -31,-122, -77, -31,-124,-111, -31,-123, -80, -31,-122, -78, -31],
    [-124,-111, -31,-123, -80, -31,-122, -79, -31,-124,-111, -31,-123, -80, -31,-122, -80, -31,-124,-111],
    [-31,-123, -80, -31,-122, -81, -31,-124,-111, -31,-123, -80, -31,-122, -82, -31,-124,-111, -31,-123],
    [-80, -31,-122, -83, -31,-124,-111, -31,-123, -80, -31,-122, -84, -31,-124,-111, -31,-123, -80, -31],
    [-122, -85, -31,-124,-111, -31,-123, -80, -31,-122, -86, -31,-124,-111, -31,-123, -80, -31,-122, -87],
    [-31,-124,-111, -31,-123, -80, -31,-122, -88, -31,-124,-111, -31,-123, -81, -31,-121,-126, -31,-124],
    [-111, -31,-123, -81, -31,-121,-127, -31,-124,-111, -31,-123, -81, -31,-121,-128, -31,-124,-111, -31],
    [-123, -81, -31,-122, -65, -31,-124,-111, -31,-123, -81, -31,-122, -66, -31,-124,-111, -31,-123, -81],
    [-31,-122, -67, -31,-124,-111, -31,-123, -81, -31,-122, -68, -31,-124,-111, -31,-123, -81, -31,-122],
    [-69, -31,-124,-111, -31,-123, -81, -31,-122, -70, -31,-124,-111, -31,-123, -81, -31,-122, -71, -31],
    [-124,-111, -31,-123, -81, -31,-122, -72, -31,-124,-111, -31,-123, -81, -31,-122, -73, -31,-124,-111],
    [-31,-123, -81, -31,-122, -74, -31,-124,-111, -31,-123, -81, -31,-122, -75, -31,-124,-111, -31,-123],
    [-81, -31,-122, -76, -31,-124,-111, -31,-123, -81, -31,-122, -77, -31,-124,-111, -31,-123, -81, -31],
    [-122, -78, -31,-124,-111, -31,-123, -81, -31,-122, -79, -31,-124,-111, -31,-123, -81, -31,-122, -80],
    [-31,-124,-111, -31,-123, -81, -31,-122, -81, -31,-124,-111, -31,-123, -81, -31,-122, -82, -31,-124],
    [-111, -31,-123, -81, -31,-122, -83, -31,-124,-111, -31,-123, -81, -31,-122, -84, -31,-124,-111, -31],
    [-123, -81, -31,-122, -85, -31,-124,-111, -31,-123, -81, -31,-122, -86, -31,-124,-111, -31,-123, -81],
    [-31,-122, -87, -31,-124,-111, -31,-123, -81, -31,-122, -88, -31,-124,-111, -31,-123, -82, -31,-121],
    [-126, -31,-124,-111, -31,-123, -82, -31,-121,-127, -31,-124,-111, -31,-123, -82, -31,-121,-128, -31],
    [-124,-111, -31,-123, -82, -31,-122, -65, -31,-124,-111, -31,-123, -82, -31,-122, -66, -31,-124,-111],
    [-31,-123, -82, -31,-122, -67, -31,-124,-111, -31,-123, -82, -31,-122, -68, -31,-124,-111, -31,-123],
    [-82, -31,-122, -69, -31,-124,-111, -31,-123, -82, -31,-122, -70, -31,-124,-111, -31,-123, -82, -31],
    [-122, -71, -31,-124,-111, -31,-123, -82, -31,-122, -72, -31,-124,-111, -31,-123, -82, -31,-122, -73],
    [-31,-124,-111, -31,-123, -82, -31,-122, -74, -31,-124,-111, -31,-123, -82, -31,-122, -75, -31,-124],
    [-111, -31,-123, -82, -31,-122, -76, -31,-124,-111, -31,-123, -82, -31,-122, -77, -31,-124,-111, -31],
    [-123, -82, -31,-122, -78, -31,-124,-111, -31,-123, -82, -31,-122, -79, -31,-124,-111, -31,-123, -82],
    [-31,-122, -80, -31,-124,-111, -31,-123, -82, -31,-122, -81, -31,-124,-111, -31,-123, -82, -31,-122],
    [-82, -31,-124,-111, -31,-123, -82, -31,-122, -83, -31,-124,-111, -31,-123, -82, -31,-122, -84, -31],
    [-124,-111, -31,-123, -82, -31,-122, -85, -31,-124,-111, -31,-123, -82, -31,-122, -86, -31,-124,-111],
    [-31,-123, -82, -31,-122, -87, -31,-124,-111, -31,-123, -82, -31,-122, -88, -31,-124,-111, -31,-123],
    [-83, -31,-121,-126, -31,-124,-111, -31,-123, -83, -31,-121,-127, -31,-124,-111, -31,-123, -83, -31],
    [-121,-128, -31,-124,-111, -31,-123, -83, -31,-122, -65, -31,-124,-111, -31,-123, -83, -31,-122, -66],
    [-31,-124,-111, -31,-123, -83, -31,-122, -67, -31,-124,-111, -31,-123, -83, -31,-122, -68, -31,-124],
    [-111, -31,-123, -83, -31,-122, -69, -31,-124,-111, -31,-123, -83, -31,-122, -70, -31,-124,-111, -31],
    [-123, -83, -31,-122, -71, -31,-124,-111, -31,-123, -83, -31,-122, -72, -31,-124,-111, -31,-123, -83],
    [-31,-122, -73, -31,-124,-111, -31,-123, -83, -31,-122, -74, -31,-124,-111, -31,-123, -83, -31,-122],
    [-75, -31,-124,-111, -31,-123, -83, -31,-122, -76, -31,-124,-111, -31,-123, -83, -31,-122, -77, -31],
    [-124,-111, -31,-123, -83, -31,-122, -78, -31,-124,-111, -31,-123, -83, -31,-122, -79, -31,-124,-111],
    [-31,-123, -83, -31,-122, -80, -31,-124,-111, -31,-123, -83, -31,-122, -81, -31,-124,-111, -31,-123],
    [-83, -31,-122, -82, -31,-124,-111, -31,-123, -83, -31,-122, -83, -31,-124,-111, -31,-123, -83, -31],
    [-122, -84, -31,-124,-111, -31,-123, -83, -31,-122, -85, -31,-124,-111, -31,-123, -83, -31,-122, -86],
    [-31,-124,-111, -31,-123, -83, -31,-122, -87, -31,-124,-111, -31,-123, -83, -31,-122, -88, -31,-124],
    [-111, -31,-123, -84, -31,-121,-126, -31,-124,-111, -31,-123, -84, -31,-121,-127, -31,-124,-111, -31],
    [-123, -84, -31,-121,-128, -31,-124,-111, -31,-123, -84, -31,-122, -65, -31,-124,-111, -31,-123, -84],
    [-31,-122, -66, -31,-124,-111, -31,-123, -84, -31,-122, -67, -31,-124,-111, -31,-123, -84, -31,-122],
    [-68, -31,-124,-111, -31,-123, -84, -31,-122, -69, -31,-124,-111, -31,-123, -84, -31,-122, -70, -31],
    [-124,-111, -31,-123, -84, -31,-122, -71, -31,-124,-111, -31,-123, -84, -31,-122, -72, -31,-124,-111],
    [-31,-123, -84, -31,-122, -73, -31,-124,-111, -31,-123, -84, -31,-122, -74, -31,-124,-111, -31,-123],
    [-84, -31,-122, -75, -31,-124,-111, -31,-123, -84, -31,-122, -76, -31,-124,-111, -31,-123, -84, -31],
    [-122, -77, -31,-124,-111, -31,-123, -84, -31,-122, -78, -31,-124,-111, -31,-123, -84, -31,-122, -79],
    [-31,-124,-111, -31,-123, -84, -31,-122, -80, -31,-124,-111, -31,-123, -84, -31,-122, -81, -31,-124],
    [-111, -31,-123, -84, -31,-122, -82, -31,-124,-111, -31,-123, -84, -31,-122, -83, -31,-124,-111, -31],
    [-123, -84, -31,-122, -84, -31,-124,-111, -31,-123, -84, -31,-122, -85, -31,-124,-111, -31,-123, -84],
    [-31,-122, -86, -31,-124,-111, -31,-123, -84, -31,-122, -87, -31,-124,-111, -31,-123, -84, -31,-122],
    [-88, -31,-124,-111, -31,-123, -85, -31,-121,-126, -31,-124,-111, -31,-123, -85, -31,-121,-127, -31],
    [-124,-111, -31,-123, -85, -31,-121,-128, -31,-124,-111, -31,-123, -85, -31,-122, -65, -31,-124,-111],
    [-31,-123, -85, -31,-122, -66, -31,-124,-111, -31,-123, -85, -31,-122, -67, -31,-124,-111, -31,-123],
    [-85, -31,-122, -68, -31,-124,-111, -31,-123, -85, -31,-122, -69, -31,-124,-111, -31,-123, -85, -31],
    [-122, -70, -31,-124,-111, -31,-123, -85, -31,-122, -71, -31,-124,-111, -31,-123, -85, -31,-122, -72],
    [-31,-124,-111, -31,-123, -85, -31,-122, -73, -31,-124,-111, -31,-123, -85, -31,-122, -74, -31,-124],
    [-111, -31,-123, -85, -31,-122, -75, -31,-124,-111, -31,-123, -85, -31,-122, -76, -31,-124,-111, -31],
    [-123, -85, -31,-122, -77, -31,-124,-111, -31,-123, -85, -31,-122, -78, -31,-124,-111, -31,-123, -85],
    [-31,-122, -79, -31,-124,-111, -31,-123, -85, -31,-122, -80, -31,-124,-111, -31,-123, -85, -31,-122],
    [-81, -31,-124,-111, -31,-123, -85, -31,-122, -82, -31,-124,-111, -31,-123, -85, -31,-122, -83, -31],
    [-124,-111, -31,-123, -85, -31,-122, -84, -31,-124,-111, -31,-123, -85, -31,-122, -85, -31,-124,-111],
    [-31,-123, -85, -31,-122, -86, -31,-124,-111, -31,-123, -85, -31,-122, -87, -31,-124,-111, -31,-123],
    [-85, -31,-122, -88, -31,-124,-111, -31,-123, -86, -31,-121,-126, -31,-124,-111, -31,-123, -86, -31],
    [-121,-127, -31,-124,-111, -31,-123, -86, -31,-121,-128, -31,-124,-111, -31,-123, -86, -31,-122, -65],
    [-31,-124,-111, -31,-123, -86, -31,-122, -66, -31,-124,-111, -31,-123, -86, -31,-122, -67, -31,-124],
    [-111, -31,-123, -86, -31,-122, -68, -31,-124,-111, -31,-123, -86, -31,-122, -69, -31,-124,-111, -31],
    [-123, -86, -31,-122, -70, -31,-124,-111, -31,-123, -86, -31,-122, -71, -31,-124,-111, -31,-123, -86],
    [-31,-122, -72, -31,-124,-111, -31,-123, -86, -31,-122, -73, -31,-124,-111, -31,-123, -86, -31,-122],
    [-74, -31,-124,-111, -31,-123, -86, -31,-122, -75, -31,-124,-111, -31,-123, -86, -31,-122, -76, -31],
    [-124,-111, -31,-123, -86, -31,-122, -77, -31,-124,-111, -31,-123, -86, -31,-122, -78, -31,-124,-111],
    [-31,-123, -86, -31,-122, -79, -31,-124,-111, -31,-123, -86, -31,-122, -80, -31,-124,-111, -31,-123],
    [-86, -31,-122, -81, -31,-124,-111, -31,-123, -86, -31,-122, -82, -31,-124,-111, -31,-123, -86, -31],
    [-122, -83, -31,-124,-111, -31,-123, -86, -31,-122, -84, -31,-124,-111, -31,-123, -86, -31,-122, -85],
    [-31,-124,-111, -31,-123, -86, -31,-122, -86, -31,-124,-111, -31,-123, -86, -31,-122, -87, -31,-124],
    [-111, -31,-123, -86, -31,-122, -88, -31,-124,-111, -31,-123, -87, -31,-121,-126, -31,-124,-111, -31],
    [-123, -87, -31,-121,-127, -31,-124,-111, -31,-123, -87, -31,-121,-128, -31,-124,-111, -31,-123, -87],
    [-31,-122, -65, -31,-124,-111, -31,-123, -87, -31,-122, -66, -31,-124,-111, -31,-123, -87, -31,-122],
    [-67, -31,-124,-111, -31,-123, -87, -31,-122, -68, -31,-124,-111, -31,-123, -87, -31,-122, -69, -31],
    [-124,-111, -31,-123, -87, -31,-122, -70, -31,-124,-111, -31,-123, -87, -31,-122, -71, -31,-124,-111],
    [-31,-123, -87, -31,-122, -72, -31,-124,-111, -31,-123, -87, -31,-122, -73, -31,-124,-111, -31,-123],
    [-87, -31,-122, -74, -31,-124,-111, -31,-123, -87, -31,-122, -75, -31,-124,-111, -31,-123, -87, -31],
    [-122, -76, -31,-124,-111, -31,-123, -87, -31,-122, -77, -31,-124,-111, -31,-123, -87, -31,-122, -78],
    [-31,-124,-111, -31,-123, -87, -31,-122, -79, -31,-124,-111, -31,-123, -87, -31,-122, -80, -31,-124],
    [-111, -31,-123, -87, -31,-122, -81, -31,-124,-111, -31,-123, -87, -31,-122, -82, -31,-124,-111, -31],
    [-123, -87, -31,-122, -83, -31,-124,-111, -31,-123, -87, -31,-122, -84, -31,-124,-111, -31,-123, -87],
    [-31,-122, -85, -31,-124,-111, -31,-123, -87, -31,-122, -86, -31,-124,-111, -31,-123, -87, -31,-122],
    [-87, -31,-124,-111, -31,-123, -87, -31,-122, -88, -31,-124,-111, -31,-123, -88, -31,-121,-126, -31],
    [-124,-111, -31,-123, -88, -31,-121,-127, -31,-124,-111, -31,-123, -88, -31,-121,-128, -31,-124,-111],
    [-31,-123, -88, -31,-122, -65, -31,-124,-111, -31,-123, -88, -31,-122, -66, -31,-124,-111, -31,-123],
    [-88, -31,-122, -67, -31,-124,-111, -31,-123, -88, -31,-122, -68, -31,-124,-111, -31,-123, -88, -31],
    [-122, -69, -31,-124,-111, -31,-123, -88, -31,-122, -70, -31,-124,-111, -31,-123, -88, -31,-122, -71],
    [-31,-124,-111, -31,-123, -88, -31,-122, -72, -31,-124,-111, -31,-123, -88, -31,-122, -73, -31,-124],
    [-111, -31,-123, -88, -31,-122, -74, -31,-124,-111, -31,-123, -88, -31,-122, -75, -31,-124,-111, -31],
    [-123, -88, -31,-122, -76, -31,-124,-111, -31,-123, -88, -31,-122, -77, -31,-124,-111, -31,-123, -88],
    [-31,-122, -78, -31,-124,-111, -31,-123, -88, -31,-122, -79, -31,-124,-111, -31,-123, -88, -31,-122],
    [-80, -31,-124,-111, -31,-123, -88, -31,-122, -81, -31,-124,-111, -31,-123, -88, -31,-122, -82, -31],
    [-124,-111, -31,-123, -88, -31,-122, -83, -31,-124,-111, -31,-123, -88, -31,-122, -84, -31,-124,-111],
    [-31,-123, -88, -31,-122, -85, -31,-124,-111, -31,-123, -88, -31,-122, -86, -31,-124,-111, -31,-123],
    [-88, -31,-122, -87, -31,-124,-111, -31,-123, -88, -31,-122, -88, -31,-124,-111, -31,-123, -89, -31],
    [-121,-126, -31,-124,-111, -31,-123, -89, -31,-121,-127, -31,-124,-111, -31,-123, -89, -31,-121,-128],
    [-31,-124,-111, -31,-123, -89, -31,-122, -65, -31,-124,-111, -31,-123, -89, -31,-122, -66, -31,-124],
    [-111, -31,-123, -89, -31,-122, -67, -31,-124,-111, -31,-123, -89, -31,-122, -68, -31,-124,-111, -31],
    [-123, -89, -31,-122, -69, -31,-124,-111, -31,-123, -89, -31,-122, -70, -31,-124,-111, -31,-123, -89],
    [-31,-122, -71, -31,-124,-111, -31,-123, -89, -31,-122, -72, -31,-124,-111, -31,-123, -89, -31,-122],
    [-73, -31,-124,-111, -31,-123, -89, -31,-122, -74, -31,-124,-111, -31,-123, -89, -31,-122, -75, -31],
    [-124,-111, -31,-123, -89, -31,-122, -76, -31,-124,-111, -31,-123, -89, -31,-122, -77, -31,-124,-111],
    [-31,-123, -89, -31,-122, -78, -31,-124,-111, -31,-123, -89, -31,-122, -79, -31,-124,-111, -31,-123],
    [-89, -31,-122, -80, -31,-124,-111, -31,-123, -89, -31,-122, -81, -31,-124,-111, -31,-123, -89, -31],
    [-122, -82, -31,-124,-111, -31,-123, -89, -31,-122, -83, -31,-124,-111, -31,-123, -89, -31,-122, -84],
    [-31,-124,-111, -31,-123, -89, -31,-122, -85, -31,-124,-111, -31,-123, -89, -31,-122, -86, -31,-124],
    [-111, -31,-123, -89, -31,-122, -87, -31,-124,-111, -31,-123, -89, -31,-122, -88, -31,-124,-111, -31],
    [-123, -90, -31,-121,-126, -31,-124,-111, -31,-123, -90, -31,-121,-127, -31,-124,-111, -31,-123, -90],
    [-31,-121,-128, -31,-124,-111, -31,-123, -90, -31,-122, -65, -31,-124,-111, -31,-123, -90, -31,-122],
    [-66, -31,-124,-111, -31,-123, -90, -31,-122, -67, -31,-124,-111, -31,-123, -90, -31,-122, -68, -31],
    [-124,-111, -31,-123, -90, -31,-122, -69, -31,-124,-111, -31,-123, -90, -31,-122, -70, -31,-124,-111],
    [-31,-123, -90, -31,-122, -71, -31,-124,-111, -31,-123, -90, -31,-122, -72, -31,-124,-111, -31,-123],
    [-90, -31,-122, -73, -31,-124,-111, -31,-123, -90, -31,-122, -74, -31,-124,-111, -31,-123, -90, -31],
    [-122, -75, -31,-124,-111, -31,-123, -90, -31,-122, -76, -31,-124,-111, -31,-123, -90, -31,-122, -77],
    [-31,-124,-111, -31,-123, -90, -31,-122, -78, -31,-124,-111, -31,-123, -90, -31,-122, -79, -31,-124],
    [-111, -31,-123, -90, -31,-122, -80, -31,-124,-111, -31,-123, -90, -31,-122, -81, -31,-124,-111, -31],
    [-123, -90, -31,-122, -82, -31,-124,-111, -31,-123, -90, -31,-122, -83, -31,-124,-111, -31,-123, -90],
    [-31,-122, -84, -31,-124,-111, -31,-123, -90, -31,-122, -85, -31,-124,-111, -31,-123, -90, -31,-122],
    [-86, -31,-124,-111, -31,-123, -90, -31,-122, -87, -31,-124,-111, -31,-123, -90, -31,-122, -88, -31],
    [-124,-111, -31,-123, -91, -31,-121,-126, -31,-124,-111, -31,-123, -91, -31,-121,-127, -31,-124,-111],
    [-31,-123, -91, -31,-121,-128, -31,-124,-111, -31,-123, -91, -31,-122, -65, -31,-124,-111, -31,-123],
    [-91, -31,-122, -66, -31,-124,-111, -31,-123, -91, -31,-122, -67, -31,-124,-111, -31,-123, -91, -31],
    [-122, -68, -31,-124,-111, -31,-123, -91, -31,-122, -69, -31,-124,-111, -31,-123, -91, -31,-122, -70],
    [-31,-124,-111, -31,-123, -91, -31,-122, -71, -31,-124,-111, -31,-123, -91, -31,-122, -72, -31,-124],
    [-111, -31,-123, -91, -31,-122, -73, -31,-124,-111, -31,-123, -91, -31,-122, -74, -31,-124,-111, -31],
    [-123, -91, -31,-122, -75, -31,-124,-111, -31,-123, -91, -31,-122, -76, -31,-124,-111, -31,-123, -91],
    [-31,-122, -77, -31,-124,-111, -31,-123, -91, -31,-122, -78, -31,-124,-111, -31,-123, -91, -31,-122],
    [-79, -31,-124,-111, -31,-123, -91, -31,-122, -80, -31,-124,-111, -31,-123, -91, -31,-122, -81, -31],
    [-124,-111, -31,-123, -91, -31,-122, -82, -31,-124,-111, -31,-123, -91, -31,-122, -83, -31,-124,-111],
    [-31,-123, -91, -31,-122, -84, -31,-124,-111, -31,-123, -91, -31,-122, -85, -31,-124,-111, -31,-123],
    [-91, -31,-122, -86, -31,-124,-111, -31,-123, -91, -31,-122, -87, -31,-124,-111, -31,-123, -91, -31],
    [-122, -88, -31,-124,-111, -31,-123, -92, -31,-121,-126, -31,-124,-111, -31,-123, -92, -31,-121,-127],
    [-31,-124,-111, -31,-123, -92, -31,-121,-128, -31,-124,-111, -31,-123, -92, -31,-122, -65, -31,-124]]"

definition STRINGS_19 :: "int list list" where
  "STRINGS_19 = [
    [-111, -31,-123, -92, -31,-122, -66, -31,-124,-111, -31,-123, -92, -31,-122, -67, -31,-124,-111, -31],
    [-123, -92, -31,-122, -68, -31,-124,-111, -31,-123, -92, -31,-122, -69, -31,-124,-111, -31,-123, -92],
    [-31,-122, -70, -31,-124,-111, -31,-123, -92, -31,-122, -71, -31,-124,-111, -31,-123, -92, -31,-122],
    [-72, -31,-124,-111, -31,-123, -92, -31,-122, -73, -31,-124,-111, -31,-123, -92, -31,-122, -74, -31],
    [-124,-111, -31,-123, -92, -31,-122, -75, -31,-124,-111, -31,-123, -92, -31,-122, -76, -31,-124,-111],
    [-31,-123, -92, -31,-122, -77, -31,-124,-111, -31,-123, -92, -31,-122, -78, -31,-124,-111, -31,-123],
    [-92, -31,-122, -79, -31,-124,-111, -31,-123, -92, -31,-122, -80, -31,-124,-111, -31,-123, -92, -31],
    [-122, -81, -31,-124,-111, -31,-123, -92, -31,-122, -82, -31,-124,-111, -31,-123, -92, -31,-122, -83],
    [-31,-124,-111, -31,-123, -92, -31,-122, -84, -31,-124,-111, -31,-123, -92, -31,-122, -85, -31,-124],
    [-111, -31,-123, -92, -31,-122, -86, -31,-124,-111, -31,-123, -92, -31,-122, -87, -31,-124,-111, -31],
    [-123, -92, -31,-122, -88, -31,-124,-111, -31,-123, -93, -31,-121,-126, -31,-124,-111, -31,-123, -93],
    [-31,-121,-127, -31,-124,-111, -31,-123, -93, -31,-121,-128, -31,-124,-111, -31,-123, -93, -31,-122],
    [-65, -31,-124,-111, -31,-123, -93, -31,-122, -66, -31,-124,-111, -31,-123, -93, -31,-122, -67, -31],
    [-124,-111, -31,-123, -93, -31,-122, -68, -31,-124,-111, -31,-123, -93, -31,-122, -69, -31,-124,-111],
    [-31,-123, -93, -31,-122, -70, -31,-124,-111, -31,-123, -93, -31,-122, -71, -31,-124,-111, -31,-123],
    [-93, -31,-122, -72, -31,-124,-111, -31,-123, -93, -31,-122, -73, -31,-124,-111, -31,-123, -93, -31],
    [-122, -74, -31,-124,-111, -31,-123, -93, -31,-122, -75, -31,-124,-111, -31,-123, -93, -31,-122, -76],
    [-31,-124,-111, -31,-123, -93, -31,-122, -77, -31,-124,-111, -31,-123, -93, -31,-122, -78, -31,-124],
    [-111, -31,-123, -93, -31,-122, -79, -31,-124,-111, -31,-123, -93, -31,-122, -80, -31,-124,-111, -31],
    [-123, -93, -31,-122, -81, -31,-124,-111, -31,-123, -93, -31,-122, -82, -31,-124,-111, -31,-123, -93],
    [-31,-122, -83, -31,-124,-111, -31,-123, -93, -31,-122, -84, -31,-124,-111, -31,-123, -93, -31,-122],
    [-85, -31,-124,-111, -31,-123, -93, -31,-122, -86, -31,-124,-111, -31,-123, -93, -31,-122, -87, -31],
    [-124,-111, -31,-123, -93, -31,-122, -88, -31,-124,-111, -31,-123, -94, -31,-121,-126, -31,-124,-111],
    [-31,-123, -94, -31,-121,-127, -31,-124,-111, -31,-123, -94, -31,-121,-128, -31,-124,-111, -31,-123],
    [-94, -31,-122, -65, -31,-124,-111, -31,-123, -94, -31,-122, -66, -31,-124,-111, -31,-123, -94, -31],
    [-122, -67, -31,-124,-111, -31,-123, -94, -31,-122, -68, -31,-124,-111, -31,-123, -94, -31,-122, -69],
    [-31,-124,-111, -31,-123, -94, -31,-122, -70, -31,-124,-111, -31,-123, -94, -31,-122, -71, -31,-124],
    [-111, -31,-123, -94, -31,-122, -72, -31,-124,-111, -31,-123, -94, -31,-122, -73, -31,-124,-111, -31],
    [-123, -94, -31,-122, -74, -31,-124,-111, -31,-123, -94, -31,-122, -75, -31,-124,-111, -31,-123, -94],
    [-31,-122, -76, -31,-124,-111, -31,-123, -94, -31,-122, -77, -31,-124,-111, -31,-123, -94, -31,-122],
    [-78, -31,-124,-111, -31,-123, -94, -31,-122, -79, -31,-124,-111, -31,-123, -94, -31,-122, -80, -31],
    [-124,-111, -31,-123, -94, -31,-122, -81, -31,-124,-111, -31,-123, -94, -31,-122, -82, -31,-124,-111],
    [-31,-123, -94, -31,-122, -83, -31,-124,-111, -31,-123, -94, -31,-122, -84, -31,-124,-111, -31,-123],
    [-94, -31,-122, -85, -31,-124,-111, -31,-123, -94, -31,-122, -86, -31,-124,-111, -31,-123, -94, -31],
    [-122, -87, -31,-124,-111, -31,-123, -94, -31,-122, -88, -31,-124,-111, -31,-123, -95, -31,-121,-126],
    [-31,-124,-111, -31,-123, -95, -31,-121,-127, -31,-124,-111, -31,-123, -95, -31,-121,-128, -31,-124],
    [-111, -31,-123, -95, -31,-122, -65, -31,-124,-111, -31,-123, -95, -31,-122, -66, -31,-124,-111, -31],
    [-123, -95, -31,-122, -67, -31,-124,-111, -31,-123, -95, -31,-122, -68, -31,-124,-111, -31,-123, -95],
    [-31,-122, -69, -31,-124,-111, -31,-123, -95, -31,-122, -70, -31,-124,-111, -31,-123, -95, -31,-122],
    [-71, -31,-124,-111, -31,-123, -95, -31,-122, -72, -31,-124,-111, -31,-123, -95, -31,-122, -73, -31],
    [-124,-111, -31,-123, -95, -31,-122, -74, -31,-124,-111, -31,-123, -95, -31,-122, -75, -31,-124,-111],
    [-31,-123, -95, -31,-122, -76, -31,-124,-111, -31,-123, -95, -31,-122, -77, -31,-124,-111, -31,-123],
    [-95, -31,-122, -78, -31,-124,-111, -31,-123, -95, -31,-122, -79, -31,-124,-111, -31,-123, -95, -31],
    [-122, -80, -31,-124,-111, -31,-123, -95, -31,-122, -81, -31,-124,-111, -31,-123, -95, -31,-122, -82],
    [-31,-124,-111, -31,-123, -95, -31,-122, -83, -31,-124,-111, -31,-123, -95, -31,-122, -84, -31,-124],
    [-111, -31,-123, -95, -31,-122, -85, -31,-124,-111, -31,-123, -95, -31,-122, -86, -31,-124,-111, -31],
    [-123, -95, -31,-122, -87, -31,-124,-111, -31,-123, -95, -31,-122, -88, -31,-124,-112, -31,-123, -75],
    [-31,-121,-126, -31,-124,-112, -31,-123, -75, -31,-121,-127, -31,-124,-112, -31,-123, -75, -31,-121],
    [-128, -31,-124,-112, -31,-123, -75, -31,-122, -65, -31,-124,-112, -31,-123, -75, -31,-122, -66, -31],
    [-124,-112, -31,-123, -75, -31,-122, -67, -31,-124,-112, -31,-123, -75, -31,-122, -68, -31,-124,-112],
    [-31,-123, -75, -31,-122, -69, -31,-124,-112, -31,-123, -75, -31,-122, -70, -31,-124,-112, -31,-123],
    [-75, -31,-122, -71, -31,-124,-112, -31,-123, -75, -31,-122, -72, -31,-124,-112, -31,-123, -75, -31],
    [-122, -73, -31,-124,-112, -31,-123, -75, -31,-122, -74, -31,-124,-112, -31,-123, -75, -31,-122, -75],
    [-31,-124,-112, -31,-123, -75, -31,-122, -76, -31,-124,-112, -31,-123, -75, -31,-122, -77, -31,-124],
    [-112, -31,-123, -75, -31,-122, -78, -31,-124,-112, -31,-123, -75, -31,-122, -79, -31,-124,-112, -31],
    [-123, -75, -31,-122, -80, -31,-124,-112, -31,-123, -75, -31,-122, -81, -31,-124,-112, -31,-123, -75],
    [-31,-122, -82, -31,-124,-112, -31,-123, -75, -31,-122, -83, -31,-124,-112, -31,-123, -75, -31,-122],
    [-84, -31,-124,-112, -31,-123, -75, -31,-122, -85, -31,-124,-112, -31,-123, -75, -31,-122, -86, -31],
    [-124,-112, -31,-123, -75, -31,-122, -87, -31,-124,-112, -31,-123, -75, -31,-122, -88, -31,-124,-112],
    [-31,-123, -76, -31,-121,-126, -31,-124,-112, -31,-123, -76, -31,-121,-127, -31,-124,-112, -31,-123],
    [-76, -31,-121,-128, -31,-124,-112, -31,-123, -76, -31,-122, -65, -31,-124,-112, -31,-123, -76, -31],
    [-122, -66, -31,-124,-112, -31,-123, -76, -31,-122, -67, -31,-124,-112, -31,-123, -76, -31,-122, -68],
    [-31,-124,-112, -31,-123, -76, -31,-122, -69, -31,-124,-112, -31,-123, -76, -31,-122, -70, -31,-124],
    [-112, -31,-123, -76, -31,-122, -71, -31,-124,-112, -31,-123, -76, -31,-122, -72, -31,-124,-112, -31],
    [-123, -76, -31,-122, -73, -31,-124,-112, -31,-123, -76, -31,-122, -74, -31,-124,-112, -31,-123, -76],
    [-31,-122, -75, -31,-124,-112, -31,-123, -76, -31,-122, -76, -31,-124,-112, -31,-123, -76, -31,-122],
    [-77, -31,-124,-112, -31,-123, -76, -31,-122, -78, -31,-124,-112, -31,-123, -76, -31,-122, -79, -31],
    [-124,-112, -31,-123, -76, -31,-122, -80, -31,-124,-112, -31,-123, -76, -31,-122, -81, -31,-124,-112],
    [-31,-123, -76, -31,-122, -82, -31,-124,-112, -31,-123, -76, -31,-122, -83, -31,-124,-112, -31,-123],
    [-76, -31,-122, -84, -31,-124,-112, -31,-123, -76, -31,-122, -85, -31,-124,-112, -31,-123, -76, -31],
    [-122, -86, -31,-124,-112, -31,-123, -76, -31,-122, -87, -31,-124,-112, -31,-123, -76, -31,-122, -88],
    [-31,-124,-112, -31,-123, -77, -31,-121,-126, -31,-124,-112, -31,-123, -77, -31,-121,-127, -31,-124],
    [-112, -31,-123, -77, -31,-121,-128, -31,-124,-112, -31,-123, -77, -31,-122, -65, -31,-124,-112, -31],
    [-123, -77, -31,-122, -66, -31,-124,-112, -31,-123, -77, -31,-122, -67, -31,-124,-112, -31,-123, -77],
    [-31,-122, -68, -31,-124,-112, -31,-123, -77, -31,-122, -69, -31,-124,-112, -31,-123, -77, -31,-122],
    [-70, -31,-124,-112, -31,-123, -77, -31,-122, -71, -31,-124,-112, -31,-123, -77, -31,-122, -72, -31],
    [-124,-112, -31,-123, -77, -31,-122, -73, -31,-124,-112, -31,-123, -77, -31,-122, -74, -31,-124,-112],
    [-31,-123, -77, -31,-122, -75, -31,-124,-112, -31,-123, -77, -31,-122, -76, -31,-124,-112, -31,-123],
    [-77, -31,-122, -77, -31,-124,-112, -31,-123, -77, -31,-122, -78, -31,-124,-112, -31,-123, -77, -31],
    [-122, -79, -31,-124,-112, -31,-123, -77, -31,-122, -80, -31,-124,-112, -31,-123, -77, -31,-122, -81],
    [-31,-124,-112, -31,-123, -77, -31,-122, -82, -31,-124,-112, -31,-123, -77, -31,-122, -83, -31,-124],
    [-112, -31,-123, -77, -31,-122, -84, -31,-124,-112, -31,-123, -77, -31,-122, -85, -31,-124,-112, -31],
    [-123, -77, -31,-122, -86, -31,-124,-112, -31,-123, -77, -31,-122, -87, -31,-124,-112, -31,-123, -77],
    [-31,-122, -88, -31,-124,-112, -31,-123, -78, -31,-121,-126, -31,-124,-112, -31,-123, -78, -31,-121],
    [-127, -31,-124,-112, -31,-123, -78, -31,-121,-128, -31,-124,-112, -31,-123, -78, -31,-122, -65, -31],
    [-124,-112, -31,-123, -78, -31,-122, -66, -31,-124,-112, -31,-123, -78, -31,-122, -67, -31,-124,-112],
    [-31,-123, -78, -31,-122, -68, -31,-124,-112, -31,-123, -78, -31,-122, -69, -31,-124,-112, -31,-123],
    [-78, -31,-122, -70, -31,-124,-112, -31,-123, -78, -31,-122, -71, -31,-124,-112, -31,-123, -78, -31],
    [-122, -72, -31,-124,-112, -31,-123, -78, -31,-122, -73, -31,-124,-112, -31,-123, -78, -31,-122, -74],
    [-31,-124,-112, -31,-123, -78, -31,-122, -75, -31,-124,-112, -31,-123, -78, -31,-122, -76, -31,-124],
    [-112, -31,-123, -78, -31,-122, -77, -31,-124,-112, -31,-123, -78, -31,-122, -78, -31,-124,-112, -31],
    [-123, -78, -31,-122, -79, -31,-124,-112, -31,-123, -78, -31,-122, -80, -31,-124,-112, -31,-123, -78],
    [-31,-122, -81, -31,-124,-112, -31,-123, -78, -31,-122, -82, -31,-124,-112, -31,-123, -78, -31,-122],
    [-83, -31,-124,-112, -31,-123, -78, -31,-122, -84, -31,-124,-112, -31,-123, -78, -31,-122, -85, -31],
    [-124,-112, -31,-123, -78, -31,-122, -86, -31,-124,-112, -31,-123, -78, -31,-122, -87, -31,-124,-112],
    [-31,-123, -78, -31,-122, -88, -31,-124,-112, -31,-123, -79, -31,-121,-126, -31,-124,-112, -31,-123],
    [-79, -31,-121,-127, -31,-124,-112, -31,-123, -79, -31,-121,-128, -31,-124,-112, -31,-123, -79, -31],
    [-122, -65, -31,-124,-112, -31,-123, -79, -31,-122, -66, -31,-124,-112, -31,-123, -79, -31,-122, -67],
    [-31,-124,-112, -31,-123, -79, -31,-122, -68, -31,-124,-112, -31,-123, -79, -31,-122, -69, -31,-124],
    [-112, -31,-123, -79, -31,-122, -70, -31,-124,-112, -31,-123, -79, -31,-122, -71, -31,-124,-112, -31],
    [-123, -79, -31,-122, -72, -31,-124,-112, -31,-123, -79, -31,-122, -73, -31,-124,-112, -31,-123, -79],
    [-31,-122, -74, -31,-124,-112, -31,-123, -79, -31,-122, -75, -31,-124,-112, -31,-123, -79, -31,-122],
    [-76, -31,-124,-112, -31,-123, -79, -31,-122, -77, -31,-124,-112, -31,-123, -79, -31,-122, -78, -31],
    [-124,-112, -31,-123, -79, -31,-122, -79, -31,-124,-112, -31,-123, -79, -31,-122, -80, -31,-124,-112],
    [-31,-123, -79, -31,-122, -81, -31,-124,-112, -31,-123, -79, -31,-122, -82, -31,-124,-112, -31,-123],
    [-79, -31,-122, -83, -31,-124,-112, -31,-123, -79, -31,-122, -84, -31,-124,-112, -31,-123, -79, -31],
    [-122, -85, -31,-124,-112, -31,-123, -79, -31,-122, -86, -31,-124,-112, -31,-123, -79, -31,-122, -87],
    [-31,-124,-112, -31,-123, -79, -31,-122, -88, -31,-124,-112, -31,-123, -80, -31,-121,-126, -31,-124],
    [-112, -31,-123, -80, -31,-121,-127, -31,-124,-112, -31,-123, -80, -31,-121,-128, -31,-124,-112, -31],
    [-123, -80, -31,-122, -65, -31,-124,-112, -31,-123, -80, -31,-122, -66, -31,-124,-112, -31,-123, -80],
    [-31,-122, -67, -31,-124,-112, -31,-123, -80, -31,-122, -68, -31,-124,-112, -31,-123, -80, -31,-122],
    [-69, -31,-124,-112, -31,-123, -80, -31,-122, -70, -31,-124,-112, -31,-123, -80, -31,-122, -71, -31],
    [-124,-112, -31,-123, -80, -31,-122, -72, -31,-124,-112, -31,-123, -80, -31,-122, -73, -31,-124,-112],
    [-31,-123, -80, -31,-122, -74, -31,-124,-112, -31,-123, -80, -31,-122, -75, -31,-124,-112, -31,-123],
    [-80, -31,-122, -76, -31,-124,-112, -31,-123, -80, -31,-122, -77, -31,-124,-112, -31,-123, -80, -31],
    [-122, -78, -31,-124,-112, -31,-123, -80, -31,-122, -79, -31,-124,-112, -31,-123, -80, -31,-122, -80],
    [-31,-124,-112, -31,-123, -80, -31,-122, -81, -31,-124,-112, -31,-123, -80, -31,-122, -82, -31,-124],
    [-112, -31,-123, -80, -31,-122, -83, -31,-124,-112, -31,-123, -80, -31,-122, -84, -31,-124,-112, -31],
    [-123, -80, -31,-122, -85, -31,-124,-112, -31,-123, -80, -31,-122, -86, -31,-124,-112, -31,-123, -80],
    [-31,-122, -87, -31,-124,-112, -31,-123, -80, -31,-122, -88, -31,-124,-112, -31,-123, -81, -31,-121],
    [-126, -31,-124,-112, -31,-123, -81, -31,-121,-127, -31,-124,-112, -31,-123, -81, -31,-121,-128, -31],
    [-124,-112, -31,-123, -81, -31,-122, -65, -31,-124,-112, -31,-123, -81, -31,-122, -66, -31,-124,-112],
    [-31,-123, -81, -31,-122, -67, -31,-124,-112, -31,-123, -81, -31,-122, -68, -31,-124,-112, -31,-123],
    [-81, -31,-122, -69, -31,-124,-112, -31,-123, -81, -31,-122, -70, -31,-124,-112, -31,-123, -81, -31],
    [-122, -71, -31,-124,-112, -31,-123, -81, -31,-122, -72, -31,-124,-112, -31,-123, -81, -31,-122, -73],
    [-31,-124,-112, -31,-123, -81, -31,-122, -74, -31,-124,-112, -31,-123, -81, -31,-122, -75, -31,-124],
    [-112, -31,-123, -81, -31,-122, -76, -31,-124,-112, -31,-123, -81, -31,-122, -77, -31,-124,-112, -31],
    [-123, -81, -31,-122, -78, -31,-124,-112, -31,-123, -81, -31,-122, -79, -31,-124,-112, -31,-123, -81],
    [-31,-122, -80, -31,-124,-112, -31,-123, -81, -31,-122, -81, -31,-124,-112, -31,-123, -81, -31,-122],
    [-82, -31,-124,-112, -31,-123, -81, -31,-122, -83, -31,-124,-112, -31,-123, -81, -31,-122, -84, -31],
    [-124,-112, -31,-123, -81, -31,-122, -85, -31,-124,-112, -31,-123, -81, -31,-122, -86, -31,-124,-112],
    [-31,-123, -81, -31,-122, -87, -31,-124,-112, -31,-123, -81, -31,-122, -88, -31,-124,-112, -31,-123],
    [-82, -31,-121,-126, -31,-124,-112, -31,-123, -82, -31,-121,-127, -31,-124,-112, -31,-123, -82, -31],
    [-121,-128, -31,-124,-112, -31,-123, -82, -31,-122, -65, -31,-124,-112, -31,-123, -82, -31,-122, -66],
    [-31,-124,-112, -31,-123, -82, -31,-122, -67, -31,-124,-112, -31,-123, -82, -31,-122, -68, -31,-124],
    [-112, -31,-123, -82, -31,-122, -69, -31,-124,-112, -31,-123, -82, -31,-122, -70, -31,-124,-112, -31],
    [-123, -82, -31,-122, -71, -31,-124,-112, -31,-123, -82, -31,-122, -72, -31,-124,-112, -31,-123, -82],
    [-31,-122, -73, -31,-124,-112, -31,-123, -82, -31,-122, -74, -31,-124,-112, -31,-123, -82, -31,-122],
    [-75, -31,-124,-112, -31,-123, -82, -31,-122, -76, -31,-124,-112, -31,-123, -82, -31,-122, -77, -31],
    [-124,-112, -31,-123, -82, -31,-122, -78, -31,-124,-112, -31,-123, -82, -31,-122, -79, -31,-124,-112],
    [-31,-123, -82, -31,-122, -80, -31,-124,-112, -31,-123, -82, -31,-122, -81, -31,-124,-112, -31,-123],
    [-82, -31,-122, -82, -31,-124,-112, -31,-123, -82, -31,-122, -83, -31,-124,-112, -31,-123, -82, -31],
    [-122, -84, -31,-124,-112, -31,-123, -82, -31,-122, -85, -31,-124,-112, -31,-123, -82, -31,-122, -86],
    [-31,-124,-112, -31,-123, -82, -31,-122, -87, -31,-124,-112, -31,-123, -82, -31,-122, -88, -31,-124]]"

definition STRINGS_20 :: "int list list" where
  "STRINGS_20 = [
    [-112, -31,-123, -83, -31,-121,-126, -31,-124,-112, -31,-123, -83, -31,-121,-127, -31,-124,-112, -31],
    [-123, -83, -31,-121,-128, -31,-124,-112, -31,-123, -83, -31,-122, -65, -31,-124,-112, -31,-123, -83],
    [-31,-122, -66, -31,-124,-112, -31,-123, -83, -31,-122, -67, -31,-124,-112, -31,-123, -83, -31,-122],
    [-68, -31,-124,-112, -31,-123, -83, -31,-122, -69, -31,-124,-112, -31,-123, -83, -31,-122, -70, -31],
    [-124,-112, -31,-123, -83, -31,-122, -71, -31,-124,-112, -31,-123, -83, -31,-122, -72, -31,-124,-112],
    [-31,-123, -83, -31,-122, -73, -31,-124,-112, -31,-123, -83, -31,-122, -74, -31,-124,-112, -31,-123],
    [-83, -31,-122, -75, -31,-124,-112, -31,-123, -83, -31,-122, -76, -31,-124,-112, -31,-123, -83, -31],
    [-122, -77, -31,-124,-112, -31,-123, -83, -31,-122, -78, -31,-124,-112, -31,-123, -83, -31,-122, -79],
    [-31,-124,-112, -31,-123, -83, -31,-122, -80, -31,-124,-112, -31,-123, -83, -31,-122, -81, -31,-124],
    [-112, -31,-123, -83, -31,-122, -82, -31,-124,-112, -31,-123, -83, -31,-122, -83, -31,-124,-112, -31],
    [-123, -83, -31,-122, -84, -31,-124,-112, -31,-123, -83, -31,-122, -85, -31,-124,-112, -31,-123, -83],
    [-31,-122, -86, -31,-124,-112, -31,-123, -83, -31,-122, -87, -31,-124,-112, -31,-123, -83, -31,-122],
    [-88, -31,-124,-112, -31,-123, -84, -31,-121,-126, -31,-124,-112, -31,-123, -84, -31,-121,-127, -31],
    [-124,-112, -31,-123, -84, -31,-121,-128, -31,-124,-112, -31,-123, -84, -31,-122, -65, -31,-124,-112],
    [-31,-123, -84, -31,-122, -66, -31,-124,-112, -31,-123, -84, -31,-122, -67, -31,-124,-112, -31,-123],
    [-84, -31,-122, -68, -31,-124,-112, -31,-123, -84, -31,-122, -69, -31,-124,-112, -31,-123, -84, -31],
    [-122, -70, -31,-124,-112, -31,-123, -84, -31,-122, -71, -31,-124,-112, -31,-123, -84, -31,-122, -72],
    [-31,-124,-112, -31,-123, -84, -31,-122, -73, -31,-124,-112, -31,-123, -84, -31,-122, -74, -31,-124],
    [-112, -31,-123, -84, -31,-122, -75, -31,-124,-112, -31,-123, -84, -31,-122, -76, -31,-124,-112, -31],
    [-123, -84, -31,-122, -77, -31,-124,-112, -31,-123, -84, -31,-122, -78, -31,-124,-112, -31,-123, -84],
    [-31,-122, -79, -31,-124,-112, -31,-123, -84, -31,-122, -80, -31,-124,-112, -31,-123, -84, -31,-122],
    [-81, -31,-124,-112, -31,-123, -84, -31,-122, -82, -31,-124,-112, -31,-123, -84, -31,-122, -83, -31],
    [-124,-112, -31,-123, -84, -31,-122, -84, -31,-124,-112, -31,-123, -84, -31,-122, -85, -31,-124,-112],
    [-31,-123, -84, -31,-122, -86, -31,-124,-112, -31,-123, -84, -31,-122, -87, -31,-124,-112, -31,-123],
    [-84, -31,-122, -88, -31,-124,-112, -31,-123, -85, -31,-121,-126, -31,-124,-112, -31,-123, -85, -31],
    [-121,-127, -31,-124,-112, -31,-123, -85, -31,-121,-128, -31,-124,-112, -31,-123, -85, -31,-122, -65],
    [-31,-124,-112, -31,-123, -85, -31,-122, -66, -31,-124,-112, -31,-123, -85, -31,-122, -67, -31,-124],
    [-112, -31,-123, -85, -31,-122, -68, -31,-124,-112, -31,-123, -85, -31,-122, -69, -31,-124,-112, -31],
    [-123, -85, -31,-122, -70, -31,-124,-112, -31,-123, -85, -31,-122, -71, -31,-124,-112, -31,-123, -85],
    [-31,-122, -72, -31,-124,-112, -31,-123, -85, -31,-122, -73, -31,-124,-112, -31,-123, -85, -31,-122],
    [-74, -31,-124,-112, -31,-123, -85, -31,-122, -75, -31,-124,-112, -31,-123, -85, -31,-122, -76, -31],
    [-124,-112, -31,-123, -85, -31,-122, -77, -31,-124,-112, -31,-123, -85, -31,-122, -78, -31,-124,-112],
    [-31,-123, -85, -31,-122, -79, -31,-124,-112, -31,-123, -85, -31,-122, -80, -31,-124,-112, -31,-123],
    [-85, -31,-122, -81, -31,-124,-112, -31,-123, -85, -31,-122, -82, -31,-124,-112, -31,-123, -85, -31],
    [-122, -83, -31,-124,-112, -31,-123, -85, -31,-122, -84, -31,-124,-112, -31,-123, -85, -31,-122, -85],
    [-31,-124,-112, -31,-123, -85, -31,-122, -86, -31,-124,-112, -31,-123, -85, -31,-122, -87, -31,-124],
    [-112, -31,-123, -85, -31,-122, -88, -31,-124,-112, -31,-123, -86, -31,-121,-126, -31,-124,-112, -31],
    [-123, -86, -31,-121,-127, -31,-124,-112, -31,-123, -86, -31,-121,-128, -31,-124,-112, -31,-123, -86],
    [-31,-122, -65, -31,-124,-112, -31,-123, -86, -31,-122, -66, -31,-124,-112, -31,-123, -86, -31,-122],
    [-67, -31,-124,-112, -31,-123, -86, -31,-122, -68, -31,-124,-112, -31,-123, -86, -31,-122, -69, -31],
    [-124,-112, -31,-123, -86, -31,-122, -70, -31,-124,-112, -31,-123, -86, -31,-122, -71, -31,-124,-112],
    [-31,-123, -86, -31,-122, -72, -31,-124,-112, -31,-123, -86, -31,-122, -73, -31,-124,-112, -31,-123],
    [-86, -31,-122, -74, -31,-124,-112, -31,-123, -86, -31,-122, -75, -31,-124,-112, -31,-123, -86, -31],
    [-122, -76, -31,-124,-112, -31,-123, -86, -31,-122, -77, -31,-124,-112, -31,-123, -86, -31,-122, -78],
    [-31,-124,-112, -31,-123, -86, -31,-122, -79, -31,-124,-112, -31,-123, -86, -31,-122, -80, -31,-124],
    [-112, -31,-123, -86, -31,-122, -81, -31,-124,-112, -31,-123, -86, -31,-122, -82, -31,-124,-112, -31],
    [-123, -86, -31,-122, -83, -31,-124,-112, -31,-123, -86, -31,-122, -84, -31,-124,-112, -31,-123, -86],
    [-31,-122, -85, -31,-124,-112, -31,-123, -86, -31,-122, -86, -31,-124,-112, -31,-123, -86, -31,-122],
    [-87, -31,-124,-112, -31,-123, -86, -31,-122, -88, -31,-124,-112, -31,-123, -87, -31,-121,-126, -31],
    [-124,-112, -31,-123, -87, -31,-121,-127, -31,-124,-112, -31,-123, -87, -31,-121,-128, -31,-124,-112],
    [-31,-123, -87, -31,-122, -65, -31,-124,-112, -31,-123, -87, -31,-122, -66, -31,-124,-112, -31,-123],
    [-87, -31,-122, -67, -31,-124,-112, -31,-123, -87, -31,-122, -68, -31,-124,-112, -31,-123, -87, -31],
    [-122, -69, -31,-124,-112, -31,-123, -87, -31,-122, -70, -31,-124,-112, -31,-123, -87, -31,-122, -71],
    [-31,-124,-112, -31,-123, -87, -31,-122, -72, -31,-124,-112, -31,-123, -87, -31,-122, -73, -31,-124],
    [-112, -31,-123, -87, -31,-122, -74, -31,-124,-112, -31,-123, -87, -31,-122, -75, -31,-124,-112, -31],
    [-123, -87, -31,-122, -76, -31,-124,-112, -31,-123, -87, -31,-122, -77, -31,-124,-112, -31,-123, -87],
    [-31,-122, -78, -31,-124,-112, -31,-123, -87, -31,-122, -79, -31,-124,-112, -31,-123, -87, -31,-122],
    [-80, -31,-124,-112, -31,-123, -87, -31,-122, -81, -31,-124,-112, -31,-123, -87, -31,-122, -82, -31],
    [-124,-112, -31,-123, -87, -31,-122, -83, -31,-124,-112, -31,-123, -87, -31,-122, -84, -31,-124,-112],
    [-31,-123, -87, -31,-122, -85, -31,-124,-112, -31,-123, -87, -31,-122, -86, -31,-124,-112, -31,-123],
    [-87, -31,-122, -87, -31,-124,-112, -31,-123, -87, -31,-122, -88, -31,-124,-112, -31,-123, -88, -31],
    [-121,-126, -31,-124,-112, -31,-123, -88, -31,-121,-127, -31,-124,-112, -31,-123, -88, -31,-121,-128],
    [-31,-124,-112, -31,-123, -88, -31,-122, -65, -31,-124,-112, -31,-123, -88, -31,-122, -66, -31,-124],
    [-112, -31,-123, -88, -31,-122, -67, -31,-124,-112, -31,-123, -88, -31,-122, -68, -31,-124,-112, -31],
    [-123, -88, -31,-122, -69, -31,-124,-112, -31,-123, -88, -31,-122, -70, -31,-124,-112, -31,-123, -88],
    [-31,-122, -71, -31,-124,-112, -31,-123, -88, -31,-122, -72, -31,-124,-112, -31,-123, -88, -31,-122],
    [-73, -31,-124,-112, -31,-123, -88, -31,-122, -74, -31,-124,-112, -31,-123, -88, -31,-122, -75, -31],
    [-124,-112, -31,-123, -88, -31,-122, -76, -31,-124,-112, -31,-123, -88, -31,-122, -77, -31,-124,-112],
    [-31,-123, -88, -31,-122, -78, -31,-124,-112, -31,-123, -88, -31,-122, -79, -31,-124,-112, -31,-123],
    [-88, -31,-122, -80, -31,-124,-112, -31,-123, -88, -31,-122, -81, -31,-124,-112, -31,-123, -88, -31],
    [-122, -82, -31,-124,-112, -31,-123, -88, -31,-122, -83, -31,-124,-112, -31,-123, -88, -31,-122, -84],
    [-31,-124,-112, -31,-123, -88, -31,-122, -85, -31,-124,-112, -31,-123, -88, -31,-122, -86, -31,-124],
    [-112, -31,-123, -88, -31,-122, -87, -31,-124,-112, -31,-123, -88, -31,-122, -88, -31,-124,-112, -31],
    [-123, -89, -31,-121,-126, -31,-124,-112, -31,-123, -89, -31,-121,-127, -31,-124,-112, -31,-123, -89],
    [-31,-121,-128, -31,-124,-112, -31,-123, -89, -31,-122, -65, -31,-124,-112, -31,-123, -89, -31,-122],
    [-66, -31,-124,-112, -31,-123, -89, -31,-122, -67, -31,-124,-112, -31,-123, -89, -31,-122, -68, -31],
    [-124,-112, -31,-123, -89, -31,-122, -69, -31,-124,-112, -31,-123, -89, -31,-122, -70, -31,-124,-112],
    [-31,-123, -89, -31,-122, -71, -31,-124,-112, -31,-123, -89, -31,-122, -72, -31,-124,-112, -31,-123],
    [-89, -31,-122, -73, -31,-124,-112, -31,-123, -89, -31,-122, -74, -31,-124,-112, -31,-123, -89, -31],
    [-122, -75, -31,-124,-112, -31,-123, -89, -31,-122, -76, -31,-124,-112, -31,-123, -89, -31,-122, -77],
    [-31,-124,-112, -31,-123, -89, -31,-122, -78, -31,-124,-112, -31,-123, -89, -31,-122, -79, -31,-124],
    [-112, -31,-123, -89, -31,-122, -80, -31,-124,-112, -31,-123, -89, -31,-122, -81, -31,-124,-112, -31],
    [-123, -89, -31,-122, -82, -31,-124,-112, -31,-123, -89, -31,-122, -83, -31,-124,-112, -31,-123, -89],
    [-31,-122, -84, -31,-124,-112, -31,-123, -89, -31,-122, -85, -31,-124,-112, -31,-123, -89, -31,-122],
    [-86, -31,-124,-112, -31,-123, -89, -31,-122, -87, -31,-124,-112, -31,-123, -89, -31,-122, -88, -31],
    [-124,-112, -31,-123, -90, -31,-121,-126, -31,-124,-112, -31,-123, -90, -31,-121,-127, -31,-124,-112],
    [-31,-123, -90, -31,-121,-128, -31,-124,-112, -31,-123, -90, -31,-122, -65, -31,-124,-112, -31,-123],
    [-90, -31,-122, -66, -31,-124,-112, -31,-123, -90, -31,-122, -67, -31,-124,-112, -31,-123, -90, -31],
    [-122, -68, -31,-124,-112, -31,-123, -90, -31,-122, -69, -31,-124,-112, -31,-123, -90, -31,-122, -70],
    [-31,-124,-112, -31,-123, -90, -31,-122, -71, -31,-124,-112, -31,-123, -90, -31,-122, -72, -31,-124],
    [-112, -31,-123, -90, -31,-122, -73, -31,-124,-112, -31,-123, -90, -31,-122, -74, -31,-124,-112, -31],
    [-123, -90, -31,-122, -75, -31,-124,-112, -31,-123, -90, -31,-122, -76, -31,-124,-112, -31,-123, -90],
    [-31,-122, -77, -31,-124,-112, -31,-123, -90, -31,-122, -78, -31,-124,-112, -31,-123, -90, -31,-122],
    [-79, -31,-124,-112, -31,-123, -90, -31,-122, -80, -31,-124,-112, -31,-123, -90, -31,-122, -81, -31],
    [-124,-112, -31,-123, -90, -31,-122, -82, -31,-124,-112, -31,-123, -90, -31,-122, -83, -31,-124,-112],
    [-31,-123, -90, -31,-122, -84, -31,-124,-112, -31,-123, -90, -31,-122, -85, -31,-124,-112, -31,-123],
    [-90, -31,-122, -86, -31,-124,-112, -31,-123, -90, -31,-122, -87, -31,-124,-112, -31,-123, -90, -31],
    [-122, -88, -31,-124,-112, -31,-123, -91, -31,-121,-126, -31,-124,-112, -31,-123, -91, -31,-121,-127],
    [-31,-124,-112, -31,-123, -91, -31,-121,-128, -31,-124,-112, -31,-123, -91, -31,-122, -65, -31,-124],
    [-112, -31,-123, -91, -31,-122, -66, -31,-124,-112, -31,-123, -91, -31,-122, -67, -31,-124,-112, -31],
    [-123, -91, -31,-122, -68, -31,-124,-112, -31,-123, -91, -31,-122, -69, -31,-124,-112, -31,-123, -91],
    [-31,-122, -70, -31,-124,-112, -31,-123, -91, -31,-122, -71, -31,-124,-112, -31,-123, -91, -31,-122],
    [-72, -31,-124,-112, -31,-123, -91, -31,-122, -73, -31,-124,-112, -31,-123, -91, -31,-122, -74, -31],
    [-124,-112, -31,-123, -91, -31,-122, -75, -31,-124,-112, -31,-123, -91, -31,-122, -76, -31,-124,-112],
    [-31,-123, -91, -31,-122, -77, -31,-124,-112, -31,-123, -91, -31,-122, -78, -31,-124,-112, -31,-123],
    [-91, -31,-122, -79, -31,-124,-112, -31,-123, -91, -31,-122, -80, -31,-124,-112, -31,-123, -91, -31],
    [-122, -81, -31,-124,-112, -31,-123, -91, -31,-122, -82, -31,-124,-112, -31,-123, -91, -31,-122, -83],
    [-31,-124,-112, -31,-123, -91, -31,-122, -84, -31,-124,-112, -31,-123, -91, -31,-122, -85, -31,-124],
    [-112, -31,-123, -91, -31,-122, -86, -31,-124,-112, -31,-123, -91, -31,-122, -87, -31,-124,-112, -31],
    [-123, -91, -31,-122, -88, -31,-124,-112, -31,-123, -92, -31,-121,-126, -31,-124,-112, -31,-123, -92],
    [-31,-121,-127, -31,-124,-112, -31,-123, -92, -31,-121,-128, -31,-124,-112, -31,-123, -92, -31,-122],
    [-65, -31,-124,-112, -31,-123, -92, -31,-122, -66, -31,-124,-112, -31,-123, -92, -31,-122, -67, -31],
    [-124,-112, -31,-123, -92, -31,-122, -68, -31,-124,-112, -31,-123, -92, -31,-122, -69, -31,-124,-112],
    [-31,-123, -92, -31,-122, -70, -31,-124,-112, -31,-123, -92, -31,-122, -71, -31,-124,-112, -31,-123],
    [-92, -31,-122, -72, -31,-124,-112, -31,-123, -92, -31,-122, -73, -31,-124,-112, -31,-123, -92, -31],
    [-122, -74, -31,-124,-112, -31,-123, -92, -31,-122, -75, -31,-124,-112, -31,-123, -92, -31,-122, -76],
    [-31,-124,-112, -31,-123, -92, -31,-122, -77, -31,-124,-112, -31,-123, -92, -31,-122, -78, -31,-124],
    [-112, -31,-123, -92, -31,-122, -79, -31,-124,-112, -31,-123, -92, -31,-122, -80, -31,-124,-112, -31],
    [-123, -92, -31,-122, -81, -31,-124,-112, -31,-123, -92, -31,-122, -82, -31,-124,-112, -31,-123, -92],
    [-31,-122, -83, -31,-124,-112, -31,-123, -92, -31,-122, -84, -31,-124,-112, -31,-123, -92, -31,-122],
    [-85, -31,-124,-112, -31,-123, -92, -31,-122, -86, -31,-124,-112, -31,-123, -92, -31,-122, -87, -31],
    [-124,-112, -31,-123, -92, -31,-122, -88, -31,-124,-112, -31,-123, -93, -31,-121,-126, -31,-124,-112],
    [-31,-123, -93, -31,-121,-127, -31,-124,-112, -31,-123, -93, -31,-121,-128, -31,-124,-112, -31,-123],
    [-93, -31,-122, -65, -31,-124,-112, -31,-123, -93, -31,-122, -66, -31,-124,-112, -31,-123, -93, -31],
    [-122, -67, -31,-124,-112, -31,-123, -93, -31,-122, -68, -31,-124,-112, -31,-123, -93, -31,-122, -69],
    [-31,-124,-112, -31,-123, -93, -31,-122, -70, -31,-124,-112, -31,-123, -93, -31,-122, -71, -31,-124],
    [-112, -31,-123, -93, -31,-122, -72, -31,-124,-112, -31,-123, -93, -31,-122, -73, -31,-124,-112, -31],
    [-123, -93, -31,-122, -74, -31,-124,-112, -31,-123, -93, -31,-122, -75, -31,-124,-112, -31,-123, -93],
    [-31,-122, -76, -31,-124,-112, -31,-123, -93, -31,-122, -77, -31,-124,-112, -31,-123, -93, -31,-122],
    [-78, -31,-124,-112, -31,-123, -93, -31,-122, -79, -31,-124,-112, -31,-123, -93, -31,-122, -80, -31],
    [-124,-112, -31,-123, -93, -31,-122, -81, -31,-124,-112, -31,-123, -93, -31,-122, -82, -31,-124,-112],
    [-31,-123, -93, -31,-122, -83, -31,-124,-112, -31,-123, -93, -31,-122, -84, -31,-124,-112, -31,-123],
    [-93, -31,-122, -85, -31,-124,-112, -31,-123, -93, -31,-122, -86, -31,-124,-112, -31,-123, -93, -31],
    [-122, -87, -31,-124,-112, -31,-123, -93, -31,-122, -88, -31,-124,-112, -31,-123, -94, -31,-121,-126],
    [-31,-124,-112, -31,-123, -94, -31,-121,-127, -31,-124,-112, -31,-123, -94, -31,-121,-128, -31,-124],
    [-112, -31,-123, -94, -31,-122, -65, -31,-124,-112, -31,-123, -94, -31,-122, -66, -31,-124,-112, -31],
    [-123, -94, -31,-122, -67, -31,-124,-112, -31,-123, -94, -31,-122, -68, -31,-124,-112, -31,-123, -94],
    [-31,-122, -69, -31,-124,-112, -31,-123, -94, -31,-122, -70, -31,-124,-112, -31,-123, -94, -31,-122],
    [-71, -31,-124,-112, -31,-123, -94, -31,-122, -72, -31,-124,-112, -31,-123, -94, -31,-122, -73, -31],
    [-124,-112, -31,-123, -94, -31,-122, -74, -31,-124,-112, -31,-123, -94, -31,-122, -75, -31,-124,-112],
    [-31,-123, -94, -31,-122, -76, -31,-124,-112, -31,-123, -94, -31,-122, -77, -31,-124,-112, -31,-123],
    [-94, -31,-122, -78, -31,-124,-112, -31,-123, -94, -31,-122, -79, -31,-124,-112, -31,-123, -94, -31],
    [-122, -80, -31,-124,-112, -31,-123, -94, -31,-122, -81, -31,-124,-112, -31,-123, -94, -31,-122, -82],
    [-31,-124,-112, -31,-123, -94, -31,-122, -83, -31,-124,-112, -31,-123, -94, -31,-122, -84, -31,-124]]"

end
