(* ===== verification/Table_Strings_6.thy ===== *)
theory Table_Strings_6
  imports Main
begin

text \<open>
  Lines 11341 to 12348 of \<open>unf/table.hh\<close>: part of the array \<open>STRINGS\<close>, one list per line of the source.
\<close>

definition STRINGS_35 :: "int list list" where
  "STRINGS_35 = [
    [-120, -31,-123, -92, -31,-122, -85, -31,-124,-120, -31,-123, -92, -31,-122, -86, -31,-124,-120, -31],
    [-123, -92, -31,-122, -87, -31,-124,-120, -31,-123, -92, -31,-122, -88, -31,-124,-120, -31,-123, -93],
    [-31,-121,-126, -31,-124,-120, -31,-123, -93, -31,-121,-127, -31,-124,-120, -31,-123, -93, -31,-121],
    [-128, -31,-124,-120, -31,-123, -93, -31,-122, -65, -31,-124,-120, -31,-123, -93, -31,-122, -66, -31],
    [-124,-120, -31,-123, -93, -31,-122, -67, -31,-124,-120, -31,-123, -93, -31,-122, -68, -31,-124,-120],
    [-31,-123, -93, -31,-122, -69, -31,-124,-120, -31,-123, -93, -31,-122, -70, -31,-124,-120, -31,-123],
    [-93, -31,-122, -71, -31,-124,-120, -31,-123, -93, -31,-122, -72, -31,-124,-120, -31,-123, -93, -31],
    [-122, -73, -31,-124,-120, -31,-123, -93, -31,-122, -74, -31,-124,-120, -31,-123, -93, -31,-122, -75],
    [-31,-124,-120, -31,-123, -93, -31,-122, -76, -31,-124,-120, -31,-123, -93, -31,-122, -77, -31,-124],
    [-120, -31,-123, -93, -31,-122, -78, -31,-124,-120, -31,-123, -93, -31,-122, -79, -31,-124,-120, -31],
    [-123, -93, -31,-122, -80, -31,-124,-120, -31,-123, -93, -31,-122, -81, -31,-124,-120, -31,-123, -93],
    [-31,-122, -82, -31,-124,-120, -31,-123, -93, -31,-122, -83, -31,-124,-120, -31,-123, -93, -31,-122],
    [-84, -31,-124,-120, -31,-123, -93, -31,-122, -85, -31,-124,-120, -31,-123, -93, -31,-122, -86, -31],
    [-124,-120, -31,-123, -93, -31,-122, -87, -31,-124,-120, -31,-123, -93, -31,-122, -88, -31,-124,-120],
    [-31,-123, -94, -31,-121,-126, -31,-124,-120, -31,-123, -94, -31,-121,-127, -31,-124,-120, -31,-123],
    [-94, -31,-121,-128, -31,-124,-120, -31,-123, -94, -31,-122, -65, -31,-124,-120, -31,-123, -94, -31],
    [-122, -66, -31,-124,-120, -31,-123, -94, -31,-122, -67, -31,-124,-120, -31,-123, -94, -31,-122, -68],
    [-31,-124,-120, -31,-123, -94, -31,-122, -69, -31,-124,-120, -31,-123, -94, -31,-122, -70, -31,-124],
    [-120, -31,-123, -94, -31,-122, -71, -31,-124,-120, -31,-123, -94, -31,-122, -72, -31,-124,-120, -31],
    [-123, -94, -31,-122, -73, -31,-124,-120, -31,-123, -94, -31,-122, -74, -31,-124,-120, -31,-123, -94],
    [-31,-122, -75, -31,-124,-120, -31,-123, -94, -31,-122, -76, -31,-124,-120, -31,-123, -94, -31,-122],
    [-77, -31,-124,-120, -31,-123, -94, -31,-122, -78, -31,-124,-120, -31,-123, -94, -31,-122, -79, -31],
    [-124,-120, -31,-123, -94, -31,-122, -80, -31,-124,-120, -31,-123, -94, -31,-122, -81, -31,-124,-120],
    [-31,-123, -94, -31,-122, -82, -31,-124,-120, -31,-123, -94, -31,-122, -83, -31,-124,-120, -31,-123],
    [-94, -31,-122, -84, -31,-124,-120, -31,-123, -94, -31,-122, -85, -31,-124,-120, -31,-123, -94, -31],
    [-122, -86, -31,-124,-120, -31,-123, -94, -31,-122, -87, -31,-124,-120, -31,-123, -94, -31,-122, -88],
    [-31,-124,-120, -31,-123, -95, -31,-121,-126, -31,-124,-120, -31,-123, -95, -31,-121,-127, -31,-124],
    [-120, -31,-123, -95, -31,-121,-128, -31,-124,-120, -31,-123, -95, -31,-122, -65, -31,-124,-120, -31],
    [-123, -95, -31,-122, -66, -31,-124,-120, -31,-123, -95, -31,-122, -67, -31,-124,-120, -31,-123, -95],
    [-31,-122, -68, -31,-124,-120, -31,-123, -95, -31,-122, -69, -31,-124,-120, -31,-123, -95, -31,-122],
    [-70, -31,-124,-120, -31,-123, -95, -31,-122, -71, -31,-124,-120, -31,-123, -95, -31,-122, -72, -31],
    [-124,-120, -31,-123, -95, -31,-122, -73, -31,-124,-120, -31,-123, -95, -31,-122, -74, -31,-124,-120],
    [-31,-123, -95, -31,-122, -75, -31,-124,-120, -31,-123, -95, -31,-122, -76, -31,-124,-120, -31,-123],
    [-95, -31,-122, -77, -31,-124,-120, -31,-123, -95, -31,-122, -78, -31,-124,-120, -31,-123, -95, -31],
    [-122, -79, -31,-124,-120, -31,-123, -95, -31,-122, -80, -31,-124,-120, -31,-123, -95, -31,-122, -81],
    [-31,-124,-120, -31,-123, -95, -31,-122, -82, -31,-124,-120, -31,-123, -95, -31,-122, -83, -31,-124],
    [-120, -31,-123, -95, -31,-122, -84, -31,-124,-120, -31,-123, -95, -31,-122, -85, -31,-124,-120, -31],
    [-123, -95, -31,-122, -86, -31,-124,-120, -31,-123, -95, -31,-122, -87, -31,-124,-120, -31,-123, -95],
    [-31,-122, -88, -31,-124,-121, -31,-123, -75, -31,-121,-126, -31,-124,-121, -31,-123, -75, -31,-121],
    [-127, -31,-124,-121, -31,-123, -75, -31,-121,-128, -31,-124,-121, -31,-123, -75, -31,-122, -65, -31],
    [-124,-121, -31,-123, -75, -31,-122, -66, -31,-124,-121, -31,-123, -75, -31,-122, -67, -31,-124,-121],
    [-31,-123, -75, -31,-122, -68, -31,-124,-121, -31,-123, -75, -31,-122, -69, -31,-124,-121, -31,-123],
    [-75, -31,-122, -70, -31,-124,-121, -31,-123, -75, -31,-122, -71, -31,-124,-121, -31,-123, -75, -31],
    [-122, -72, -31,-124,-121, -31,-123, -75, -31,-122, -73, -31,-124,-121, -31,-123, -75, -31,-122, -74],
    [-31,-124,-121, -31,-123, -75, -31,-122, -75, -31,-124,-121, -31,-123, -75, -31,-122, -76, -31,-124],
    [-121, -31,-123, -75, -31,-122, -77, -31,-124,-121, -31,-123, -75, -31,-122, -78, -31,-124,-121, -31],
    [-123, -75, -31,-122, -79, -31,-124,-121, -31,-123, -75, -31,-122, -80, -31,-124,-121, -31,-123, -75],
    [-31,-122, -81, -31,-124,-121, -31,-123, -75, -31,-122, -82, -31,-124,-121, -31,-123, -75, -31,-122],
    [-83, -31,-124,-121, -31,-123, -75, -31,-122, -84, -31,-124,-121, -31,-123, -75, -31,-122, -85, -31],
    [-124,-121, -31,-123, -75, -31,-122, -86, -31,-124,-121, -31,-123, -75, -31,-122, -87, -31,-124,-121],
    [-31,-123, -75, -31,-122, -88, -31,-124,-121, -31,-123, -76, -31,-121,-126, -31,-124,-121, -31,-123],
    [-76, -31,-121,-127, -31,-124,-121, -31,-123, -76, -31,-121,-128, -31,-124,-121, -31,-123, -76, -31],
    [-122, -65, -31,-124,-121, -31,-123, -76, -31,-122, -66, -31,-124,-121, -31,-123, -76, -31,-122, -67],
    [-31,-124,-121, -31,-123, -76, -31,-122, -68, -31,-124,-121, -31,-123, -76, -31,-122, -69, -31,-124],
    [-121, -31,-123, -76, -31,-122, -70, -31,-124,-121, -31,-123, -76, -31,-122, -71, -31,-124,-121, -31],
    [-123, -76, -31,-122, -72, -31,-124,-121, -31,-123, -76, -31,-122, -73, -31,-124,-121, -31,-123, -76],
    [-31,-122, -74, -31,-124,-121, -31,-123, -76, -31,-122, -75, -31,-124,-121, -31,-123, -76, -31,-122],
    [-76, -31,-124,-121, -31,-123, -76, -31,-122, -77, -31,-124,-121, -31,-123, -76, -31,-122, -78, -31],
    [-124,-121, -31,-123, -76, -31,-122, -79, -31,-124,-121, -31,-123, -76, -31,-122, -80, -31,-124,-121],
    [-31,-123, -76, -31,-122, -81, -31,-124,-121, -31,-123, -76, -31,-122, -82, -31,-124,-121, -31,-123],
    [-76, -31,-122, -83, -31,-124,-121, -31,-123, -76, -31,-122, -84, -31,-124,-121, -31,-123, -76, -31],
    [-122, -85, -31,-124,-121, -31,-123, -76, -31,-122, -86, -31,-124,-121, -31,-123, -76, -31,-122, -87],
    [-31,-124,-121, -31,-123, -76, -31,-122, -88, -31,-124,-121, -31,-123, -77, -31,-121,-126, -31,-124],
    [-121, -31,-123, -77, -31,-121,-127, -31,-124,-121, -31,-123, -77, -31,-121,-128, -31,-124,-121, -31],
    [-123, -77, -31,-122, -65, -31,-124,-121, -31,-123, -77, -31,-122, -66, -31,-124,-121, -31,-123, -77],
    [-31,-122, -67, -31,-124,-121, -31,-123, -77, -31,-122, -68, -31,-124,-121, -31,-123, -77, -31,-122],
    [-69, -31,-124,-121, -31,-123, -77, -31,-122, -70, -31,-124,-121, -31,-123, -77, -31,-122, -71, -31],
    [-124,-121, -31,-123, -77, -31,-122, -72, -31,-124,-121, -31,-123, -77, -31,-122, -73, -31,-124,-121],
    [-31,-123, -77, -31,-122, -74, -31,-124,-121, -31,-123, -77, -31,-122, -75, -31,-124,-121, -31,-123],
    [-77, -31,-122, -76, -31,-124,-121, -31,-123, -77, -31,-122, -77, -31,-124,-121, -31,-123, -77, -31],
    [-122, -78, -31,-124,-121, -31,-123, -77, -31,-122, -79, -31,-124,-121, -31,-123, -77, -31,-122, -80],
    [-31,-124,-121, -31,-123, -77, -31,-122, -81, -31,-124,-121, -31,-123, -77, -31,-122, -82, -31,-124],
    [-121, -31,-123, -77, -31,-122, -83, -31,-124,-121, -31,-123, -77, -31,-122, -84, -31,-124,-121, -31],
    [-123, -77, -31,-122, -85, -31,-124,-121, -31,-123, -77, -31,-122, -86, -31,-124,-121, -31,-123, -77],
    [-31,-122, -87, -31,-124,-121, -31,-123, -77, -31,-122, -88, -31,-124,-121, -31,-123, -78, -31,-121],
    [-126, -31,-124,-121, -31,-123, -78, -31,-121,-127, -31,-124,-121, -31,-123, -78, -31,-121,-128, -31],
    [-124,-121, -31,-123, -78, -31,-122, -65, -31,-124,-121, -31,-123, -78, -31,-122, -66, -31,-124,-121],
    [-31,-123, -78, -31,-122, -67, -31,-124,-121, -31,-123, -78, -31,-122, -68, -31,-124,-121, -31,-123],
    [-78, -31,-122, -69, -31,-124,-121, -31,-123, -78, -31,-122, -70, -31,-124,-121, -31,-123, -78, -31],
    [-122, -71, -31,-124,-121, -31,-123, -78, -31,-122, -72, -31,-124,-121, -31,-123, -78, -31,-122, -73],
    [-31,-124,-121, -31,-123, -78, -31,-122, -74, -31,-124,-121, -31,-123, -78, -31,-122, -75, -31,-124],
    [-121, -31,-123, -78, -31,-122, -76, -31,-124,-121, -31,-123, -78, -31,-122, -77, -31,-124,-121, -31],
    [-123, -78, -31,-122, -78, -31,-124,-121, -31,-123, -78, -31,-122, -79, -31,-124,-121, -31,-123, -78],
    [-31,-122, -80, -31,-124,-121, -31,-123, -78, -31,-122, -81, -31,-124,-121, -31,-123, -78, -31,-122],
    [-82, -31,-124,-121, -31,-123, -78, -31,-122, -83, -31,-124,-121, -31,-123, -78, -31,-122, -84, -31],
    [-124,-121, -31,-123, -78, -31,-122, -85, -31,-124,-121, -31,-123, -78, -31,-122, -86, -31,-124,-121],
    [-31,-123, -78, -31,-122, -87, -31,-124,-121, -31,-123, -78, -31,-122, -88, -31,-124,-121, -31,-123],
    [-79, -31,-121,-126, -31,-124,-121, -31,-123, -79, -31,-121,-127, -31,-124,-121, -31,-123, -79, -31],
    [-121,-128, -31,-124,-121, -31,-123, -79, -31,-122, -65, -31,-124,-121, -31,-123, -79, -31,-122, -66],
    [-31,-124,-121, -31,-123, -79, -31,-122, -67, -31,-124,-121, -31,-123, -79, -31,-122, -68, -31,-124],
    [-121, -31,-123, -79, -31,-122, -69, -31,-124,-121, -31,-123, -79, -31,-122, -70, -31,-124,-121, -31],
    [-123, -79, -31,-122, -71, -31,-124,-121, -31,-123, -79, -31,-122, -72, -31,-124,-121, -31,-123, -79],
    [-31,-122, -73, -31,-124,-121, -31,-123, -79, -31,-122, -74, -31,-124,-121, -31,-123, -79, -31,-122],
    [-75, -31,-124,-121, -31,-123, -79, -31,-122, -76, -31,-124,-121, -31,-123, -79, -31,-122, -77, -31],
    [-124,-121, -31,-123, -79, -31,-122, -78, -31,-124,-121, -31,-123, -79, -31,-122, -79, -31,-124,-121],
    [-31,-123, -79, -31,-122, -80, -31,-124,-121, -31,-123, -79, -31,-122, -81, -31,-124,-121, -31,-123],
    [-79, -31,-122, -82, -31,-124,-121, -31,-123, -79, -31,-122, -83, -31,-124,-121, -31,-123, -79, -31],
    [-122, -84, -31,-124,-121, -31,-123, -79, -31,-122, -85, -31,-124,-121, -31,-123, -79, -31,-122, -86],
    [-31,-124,-121, -31,-123, -79, -31,-122, -87, -31,-124,-121, -31,-123, -79, -31,-122, -88, -31,-124],
    [-121, -31,-123, -80, -31,-121,-126, -31,-124,-121, -31,-123, -80, -31,-121,-127, -31,-124,-121, -31],
    [-123, -80, -31,-121,-128, -31,-124,-121, -31,-123, -80, -31,-122, -65, -31,-124,-121, -31,-123, -80],
    [-31,-122, -66, -31,-124,-121, -31,-123, -80, -31,-122, -67, -31,-124,-121, -31,-123, -80, -31,-122],
    [-68, -31,-124,-121, -31,-123, -80, -31,-122, -69, -31,-124,-121, -31,-123, -80, -31,-122, -70, -31],
    [-124,-121, -31,-123, -80, -31,-122, -71, -31,-124,-121, -31,-123, -80, -31,-122, -72, -31,-124,-121],
    [-31,-123, -80, -31,-122, -73, -31,-124,-121, -31,-123, -80, -31,-122, -74, -31,-124,-121, -31,-123],
    [-80, -31,-122, -75, -31,-124,-121, -31,-123, -80, -31,-122, -76, -31,-124,-121, -31,-123, -80, -31],
    [-122, -77, -31,-124,-121, -31,-123, -80, -31,-122, -78, -31,-124,-121, -31,-123, -80, -31,-122, -79],
    [-31,-124,-121, -31,-123, -80, -31,-122, -80, -31,-124,-121, -31,-123, -80, -31,-122, -81, -31,-124],
    [-121, -31,-123, -80, -31,-122, -82, -31,-124,-121, -31,-123, -80, -31,-122, -83, -31,-124,-121, -31],
    [-123, -80, -31,-122, -84, -31,-124,-121, -31,-123, -80, -31,-122, -85, -31,-124,-121, -31,-123, -80],
    [-31,-122, -86, -31,-124,-121, -31,-123, -80, -31,-122, -87, -31,-124,-121, -31,-123, -80, -31,-122],
    [-88, -31,-124,-121, -31,-123, -81, -31,-121,-126, -31,-124,-121, -31,-123, -81, -31,-121,-127, -31],
    [-124,-121, -31,-123, -81, -31,-121,-128, -31,-124,-121, -31,-123, -81, -31,-122, -65, -31,-124,-121],
    [-31,-123, -81, -31,-122, -66, -31,-124,-121, -31,-123, -81, -31,-122, -67, -31,-124,-121, -31,-123],
    [-81, -31,-122, -68, -31,-124,-121, -31,-123, -81, -31,-122, -69, -31,-124,-121, -31,-123, -81, -31],
    [-122, -70, -31,-124,-121, -31,-123, -81, -31,-122, -71, -31,-124,-121, -31,-123, -81, -31,-122, -72],
    [-31,-124,-121, -31,-123, -81, -31,-122, -73, -31,-124,-121, -31,-123, -81, -31,-122, -74, -31,-124],
    [-121, -31,-123, -81, -31,-122, -75, -31,-124,-121, -31,-123, -81, -31,-122, -76, -31,-124,-121, -31],
    [-123, -81, -31,-122, -77, -31,-124,-121, -31,-123, -81, -31,-122, -78, -31,-124,-121, -31,-123, -81],
    [-31,-122, -79, -31,-124,-121, -31,-123, -81, -31,-122, -80, -31,-124,-121, -31,-123, -81, -31,-122],
    [-81, -31,-124,-121, -31,-123, -81, -31,-122, -82, -31,-124,-121, -31,-123, -81, -31,-122, -83, -31],
    [-124,-121, -31,-123, -81, -31,-122, -84, -31,-124,-121, -31,-123, -81, -31,-122, -85, -31,-124,-121],
    [-31,-123, -81, -31,-122, -86, -31,-124,-121, -31,-123, -81, -31,-122, -87, -31,-124,-121, -31,-123],
    [-81, -31,-122, -88, -31,-124,-121, -31,-123, -82, -31,-121,-126, -31,-124,-121, -31,-123, -82, -31],
    [-121,-127, -31,-124,-121, -31,-123, -82, -31,-121,-128, -31,-124,-121, -31,-123, -82, -31,-122, -65],
    [-31,-124,-121, -31,-123, -82, -31,-122, -66, -31,-124,-121, -31,-123, -82, -31,-122, -67, -31,-124],
    [-121, -31,-123, -82, -31,-122, -68, -31,-124,-121, -31,-123, -82, -31,-122, -69, -31,-124,-121, -31],
    [-123, -82, -31,-122, -70, -31,-124,-121, -31,-123, -82, -31,-122, -71, -31,-124,-121, -31,-123, -82],
    [-31,-122, -72, -31,-124,-121, -31,-123, -82, -31,-122, -73, -31,-124,-121, -31,-123, -82, -31,-122],
    [-74, -31,-124,-121, -31,-123, -82, -31,-122, -75, -31,-124,-121, -31,-123, -82, -31,-122, -76, -31],
    [-124,-121, -31,-123, -82, -31,-122, -77, -31,-124,-121, -31,-123, -82, -31,-122, -78, -31,-124,-121],
    [-31,-123, -82, -31,-122, -79, -31,-124,-121, -31,-123, -82, -31,-122, -80, -31,-124,-121, -31,-123],
    [-82, -31,-122, -81, -31,-124,-121, -31,-123, -82, -31,-122, -82, -31,-124,-121, -31,-123, -82, -31],
    [-122, -83, -31,-124,-121, -31,-123, -82, -31,-122, -84, -31,-124,-121, -31,-123, -82, -31,-122, -85],
    [-31,-124,-121, -31,-123, -82, -31,-122, -86, -31,-124,-121, -31,-123, -82, -31,-122, -87, -31,-124],
    [-121, -31,-123, -82, -31,-122, -88, -31,-124,-121, -31,-123, -83, -31,-121,-126, -31,-124,-121, -31],
    [-123, -83, -31,-121,-127, -31,-124,-121, -31,-123, -83, -31,-121,-128, -31,-124,-121, -31,-123, -83],
    [-31,-122, -65, -31,-124,-121, -31,-123, -83, -31,-122, -66, -31,-124,-121, -31,-123, -83, -31,-122],
    [-67, -31,-124,-121, -31,-123, -83, -31,-122, -68, -31,-124,-121, -31,-123, -83, -31,-122, -69, -31],
    [-124,-121, -31,-123, -83, -31,-122, -70, -31,-124,-121, -31,-123, -83, -31,-122, -71, -31,-124,-121],
    [-31,-123, -83, -31,-122, -72, -31,-124,-121, -31,-123, -83, -31,-122, -73, -31,-124,-121, -31,-123],
    [-83, -31,-122, -74, -31,-124,-121, -31,-123, -83, -31,-122, -75, -31,-124,-121, -31,-123, -83, -31],
    [-122, -76, -31,-124,-121, -31,-123, -83, -31,-122, -77, -31,-124,-121, -31,-123, -83, -31,-122, -78],
    [-31,-124,-121, -31,-123, -83, -31,-122, -79, -31,-124,-121, -31,-123, -83, -31,-122, -80, -31,-124]]"

definition STRINGS_36 :: "int list list" where
  "STRINGS_36 = [
    [-121, -31,-123, -83, -31,-122, -81, -31,-124,-121, -31,-123, -83, -31,-122, -82, -31,-124,-121, -31],
    [-123, -83, -31,-122, -83, -31,-124,-121, -31,-123, -83, -31,-122, -84, -31,-124,-121, -31,-123, -83],
    [-31,-122, -85, -31,-124,-121, -31,-123, -83, -31,-122, -86, -31,-124,-121, -31,-123, -83, -31,-122],
    [-87, -31,-124,-121, -31,-123, -83, -31,-122, -88, -31,-124,-121, -31,-123, -84, -31,-121,-126, -31],
    [-124,-121, -31,-123, -84, -31,-121,-127, -31,-124,-121, -31,-123, -84, -31,-121,-128, -31,-124,-121],
    [-31,-123, -84, -31,-122, -65, -31,-124,-121, -31,-123, -84, -31,-122, -66, -31,-124,-121, -31,-123],
    [-84, -31,-122, -67, -31,-124,-121, -31,-123, -84, -31,-122, -68, -31,-124,-121, -31,-123, -84, -31],
    [-122, -69, -31,-124,-121, -31,-123, -84, -31,-122, -70, -31,-124,-121, -31,-123, -84, -31,-122, -71],
    [-31,-124,-121, -31,-123, -84, -31,-122, -72, -31,-124,-121, -31,-123, -84, -31,-122, -73, -31,-124],
    [-121, -31,-123, -84, -31,-122, -74, -31,-124,-121, -31,-123, -84, -31,-122, -75, -31,-124,-121, -31],
    [-123, -84, -31,-122, -76, -31,-124,-121, -31,-123, -84, -31,-122, -77, -31,-124,-121, -31,-123, -84],
    [-31,-122, -78, -31,-124,-121, -31,-123, -84, -31,-122, -79, -31,-124,-121, -31,-123, -84, -31,-122],
    [-80, -31,-124,-121, -31,-123, -84, -31,-122, -81, -31,-124,-121, -31,-123, -84, -31,-122, -82, -31],
    [-124,-121, -31,-123, -84, -31,-122, -83, -31,-124,-121, -31,-123, -84, -31,-122, -84, -31,-124,-121],
    [-31,-123, -84, -31,-122, -85, -31,-124,-121, -31,-123, -84, -31,-122, -86, -31,-124,-121, -31,-123],
    [-84, -31,-122, -87, -31,-124,-121, -31,-123, -84, -31,-122, -88, -31,-124,-121, -31,-123, -85, -31],
    [-121,-126, -31,-124,-121, -31,-123, -85, -31,-121,-127, -31,-124,-121, -31,-123, -85, -31,-121,-128],
    [-31,-124,-121, -31,-123, -85, -31,-122, -65, -31,-124,-121, -31,-123, -85, -31,-122, -66, -31,-124],
    [-121, -31,-123, -85, -31,-122, -67, -31,-124,-121, -31,-123, -85, -31,-122, -68, -31,-124,-121, -31],
    [-123, -85, -31,-122, -69, -31,-124,-121, -31,-123, -85, -31,-122, -70, -31,-124,-121, -31,-123, -85],
    [-31,-122, -71, -31,-124,-121, -31,-123, -85, -31,-122, -72, -31,-124,-121, -31,-123, -85, -31,-122],
    [-73, -31,-124,-121, -31,-123, -85, -31,-122, -74, -31,-124,-121, -31,-123, -85, -31,-122, -75, -31],
    [-124,-121, -31,-123, -85, -31,-122, -76, -31,-124,-121, -31,-123, -85, -31,-122, -77, -31,-124,-121],
    [-31,-123, -85, -31,-122, -78, -31,-124,-121, -31,-123, -85, -31,-122, -79, -31,-124,-121, -31,-123],
    [-85, -31,-122, -80, -31,-124,-121, -31,-123, -85, -31,-122, -81, -31,-124,-121, -31,-123, -85, -31],
    [-122, -82, -31,-124,-121, -31,-123, -85, -31,-122, -83, -31,-124,-121, -31,-123, -85, -31,-122, -84],
    [-31,-124,-121, -31,-123, -85, -31,-122, -85, -31,-124,-121, -31,-123, -85, -31,-122, -86, -31,-124],
    [-121, -31,-123, -85, -31,-122, -87, -31,-124,-121, -31,-123, -85, -31,-122, -88, -31,-124,-121, -31],
    [-123, -86, -31,-121,-126, -31,-124,-121, -31,-123, -86, -31,-121,-127, -31,-124,-121, -31,-123, -86],
    [-31,-121,-128, -31,-124,-121, -31,-123, -86, -31,-122, -65, -31,-124,-121, -31,-123, -86, -31,-122],
    [-66, -31,-124,-121, -31,-123, -86, -31,-122, -67, -31,-124,-121, -31,-123, -86, -31,-122, -68, -31],
    [-124,-121, -31,-123, -86, -31,-122, -69, -31,-124,-121, -31,-123, -86, -31,-122, -70, -31,-124,-121],
    [-31,-123, -86, -31,-122, -71, -31,-124,-121, -31,-123, -86, -31,-122, -72, -31,-124,-121, -31,-123],
    [-86, -31,-122, -73, -31,-124,-121, -31,-123, -86, -31,-122, -74, -31,-124,-121, -31,-123, -86, -31],
    [-122, -75, -31,-124,-121, -31,-123, -86, -31,-122, -76, -31,-124,-121, -31,-123, -86, -31,-122, -77],
    [-31,-124,-121, -31,-123, -86, -31,-122, -78, -31,-124,-121, -31,-123, -86, -31,-122, -79, -31,-124],
    [-121, -31,-123, -86, -31,-122, -80, -31,-124,-121, -31,-123, -86, -31,-122, -81, -31,-124,-121, -31],
    [-123, -86, -31,-122, -82, -31,-124,-121, -31,-123, -86, -31,-122, -83, -31,-124,-121, -31,-123, -86],
    [-31,-122, -84, -31,-124,-121, -31,-123, -86, -31,-122, -85, -31,-124,-121, -31,-123, -86, -31,-122],
    [-86, -31,-124,-121, -31,-123, -86, -31,-122, -87, -31,-124,-121, -31,-123, -86, -31,-122, -88, -31],
    [-124,-121, -31,-123, -87, -31,-121,-126, -31,-124,-121, -31,-123, -87, -31,-121,-127, -31,-124,-121],
    [-31,-123, -87, -31,-121,-128, -31,-124,-121, -31,-123, -87, -31,-122, -65, -31,-124,-121, -31,-123],
    [-87, -31,-122, -66, -31,-124,-121, -31,-123, -87, -31,-122, -67, -31,-124,-121, -31,-123, -87, -31],
    [-122, -68, -31,-124,-121, -31,-123, -87, -31,-122, -69, -31,-124,-121, -31,-123, -87, -31,-122, -70],
    [-31,-124,-121, -31,-123, -87, -31,-122, -71, -31,-124,-121, -31,-123, -87, -31,-122, -72, -31,-124],
    [-121, -31,-123, -87, -31,-122, -73, -31,-124,-121, -31,-123, -87, -31,-122, -74, -31,-124,-121, -31],
    [-123, -87, -31,-122, -75, -31,-124,-121, -31,-123, -87, -31,-122, -76, -31,-124,-121, -31,-123, -87],
    [-31,-122, -77, -31,-124,-121, -31,-123, -87, -31,-122, -78, -31,-124,-121, -31,-123, -87, -31,-122],
    [-79, -31,-124,-121, -31,-123, -87, -31,-122, -80, -31,-124,-121, -31,-123, -87, -31,-122, -81, -31],
    [-124,-121, -31,-123, -87, -31,-122, -82, -31,-124,-121, -31,-123, -87, -31,-122, -83, -31,-124,-121],
    [-31,-123, -87, -31,-122, -84, -31,-124,-121, -31,-123, -87, -31,-122, -85, -31,-124,-121, -31,-123],
    [-87, -31,-122, -86, -31,-124,-121, -31,-123, -87, -31,-122, -87, -31,-124,-121, -31,-123, -87, -31],
    [-122, -88, -31,-124,-121, -31,-123, -88, -31,-121,-126, -31,-124,-121, -31,-123, -88, -31,-121,-127],
    [-31,-124,-121, -31,-123, -88, -31,-121,-128, -31,-124,-121, -31,-123, -88, -31,-122, -65, -31,-124],
    [-121, -31,-123, -88, -31,-122, -66, -31,-124,-121, -31,-123, -88, -31,-122, -67, -31,-124,-121, -31],
    [-123, -88, -31,-122, -68, -31,-124,-121, -31,-123, -88, -31,-122, -69, -31,-124,-121, -31,-123, -88],
    [-31,-122, -70, -31,-124,-121, -31,-123, -88, -31,-122, -71, -31,-124,-121, -31,-123, -88, -31,-122],
    [-72, -31,-124,-121, -31,-123, -88, -31,-122, -73, -31,-124,-121, -31,-123, -88, -31,-122, -74, -31],
    [-124,-121, -31,-123, -88, -31,-122, -75, -31,-124,-121, -31,-123, -88, -31,-122, -76, -31,-124,-121],
    [-31,-123, -88, -31,-122, -77, -31,-124,-121, -31,-123, -88, -31,-122, -78, -31,-124,-121, -31,-123],
    [-88, -31,-122, -79, -31,-124,-121, -31,-123, -88, -31,-122, -80, -31,-124,-121, -31,-123, -88, -31],
    [-122, -81, -31,-124,-121, -31,-123, -88, -31,-122, -82, -31,-124,-121, -31,-123, -88, -31,-122, -83],
    [-31,-124,-121, -31,-123, -88, -31,-122, -84, -31,-124,-121, -31,-123, -88, -31,-122, -85, -31,-124],
    [-121, -31,-123, -88, -31,-122, -86, -31,-124,-121, -31,-123, -88, -31,-122, -87, -31,-124,-121, -31],
    [-123, -88, -31,-122, -88, -31,-124,-121, -31,-123, -89, -31,-121,-126, -31,-124,-121, -31,-123, -89],
    [-31,-121,-127, -31,-124,-121, -31,-123, -89, -31,-121,-128, -31,-124,-121, -31,-123, -89, -31,-122],
    [-65, -31,-124,-121, -31,-123, -89, -31,-122, -66, -31,-124,-121, -31,-123, -89, -31,-122, -67, -31],
    [-124,-121, -31,-123, -89, -31,-122, -68, -31,-124,-121, -31,-123, -89, -31,-122, -69, -31,-124,-121],
    [-31,-123, -89, -31,-122, -70, -31,-124,-121, -31,-123, -89, -31,-122, -71, -31,-124,-121, -31,-123],
    [-89, -31,-122, -72, -31,-124,-121, -31,-123, -89, -31,-122, -73, -31,-124,-121, -31,-123, -89, -31],
    [-122, -74, -31,-124,-121, -31,-123, -89, -31,-122, -75, -31,-124,-121, -31,-123, -89, -31,-122, -76],
    [-31,-124,-121, -31,-123, -89, -31,-122, -77, -31,-124,-121, -31,-123, -89, -31,-122, -78, -31,-124],
    [-121, -31,-123, -89, -31,-122, -79, -31,-124,-121, -31,-123, -89, -31,-122, -80, -31,-124,-121, -31],
    [-123, -89, -31,-122, -81, -31,-124,-121, -31,-123, -89, -31,-122, -82, -31,-124,-121, -31,-123, -89],
    [-31,-122, -83, -31,-124,-121, -31,-123, -89, -31,-122, -84, -31,-124,-121, -31,-123, -89, -31,-122],
    [-85, -31,-124,-121, -31,-123, -89, -31,-122, -86, -31,-124,-121, -31,-123, -89, -31,-122, -87, -31],
    [-124,-121, -31,-123, -89, -31,-122, -88, -31,-124,-121, -31,-123, -90, -31,-121,-126, -31,-124,-121],
    [-31,-123, -90, -31,-121,-127, -31,-124,-121, -31,-123, -90, -31,-121,-128, -31,-124,-121, -31,-123],
    [-90, -31,-122, -65, -31,-124,-121, -31,-123, -90, -31,-122, -66, -31,-124,-121, -31,-123, -90, -31],
    [-122, -67, -31,-124,-121, -31,-123, -90, -31,-122, -68, -31,-124,-121, -31,-123, -90, -31,-122, -69],
    [-31,-124,-121, -31,-123, -90, -31,-122, -70, -31,-124,-121, -31,-123, -90, -31,-122, -71, -31,-124],
    [-121, -31,-123, -90, -31,-122, -72, -31,-124,-121, -31,-123, -90, -31,-122, -73, -31,-124,-121, -31],
    [-123, -90, -31,-122, -74, -31,-124,-121, -31,-123, -90, -31,-122, -75, -31,-124,-121, -31,-123, -90],
    [-31,-122, -76, -31,-124,-121, -31,-123, -90, -31,-122, -77, -31,-124,-121, -31,-123, -90, -31,-122],
    [-78, -31,-124,-121, -31,-123, -90, -31,-122, -79, -31,-124,-121, -31,-123, -90, -31,-122, -80, -31],
    [-124,-121, -31,-123, -90, -31,-122, -81, -31,-124,-121, -31,-123, -90, -31,-122, -82, -31,-124,-121],
    [-31,-123, -90, -31,-122, -83, -31,-124,-121, -31,-123, -90, -31,-122, -84, -31,-124,-121, -31,-123],
    [-90, -31,-122, -85, -31,-124,-121, -31,-123, -90, -31,-122, -86, -31,-124,-121, -31,-123, -90, -31],
    [-122, -87, -31,-124,-121, -31,-123, -90, -31,-122, -88, -31,-124,-121, -31,-123, -91, -31,-121,-126],
    [-31,-124,-121, -31,-123, -91, -31,-121,-127, -31,-124,-121, -31,-123, -91, -31,-121,-128, -31,-124],
    [-121, -31,-123, -91, -31,-122, -65, -31,-124,-121, -31,-123, -91, -31,-122, -66, -31,-124,-121, -31],
    [-123, -91, -31,-122, -67, -31,-124,-121, -31,-123, -91, -31,-122, -68, -31,-124,-121, -31,-123, -91],
    [-31,-122, -69, -31,-124,-121, -31,-123, -91, -31,-122, -70, -31,-124,-121, -31,-123, -91, -31,-122],
    [-71, -31,-124,-121, -31,-123, -91, -31,-122, -72, -31,-124,-121, -31,-123, -91, -31,-122, -73, -31],
    [-124,-121, -31,-123, -91, -31,-122, -74, -31,-124,-121, -31,-123, -91, -31,-122, -75, -31,-124,-121],
    [-31,-123, -91, -31,-122, -76, -31,-124,-121, -31,-123, -91, -31,-122, -77, -31,-124,-121, -31,-123],
    [-91, -31,-122, -78, -31,-124,-121, -31,-123, -91, -31,-122, -79, -31,-124,-121, -31,-123, -91, -31],
    [-122, -80, -31,-124,-121, -31,-123, -91, -31,-122, -81, -31,-124,-121, -31,-123, -91, -31,-122, -82],
    [-31,-124,-121, -31,-123, -91, -31,-122, -83, -31,-124,-121, -31,-123, -91, -31,-122, -84, -31,-124],
    [-121, -31,-123, -91, -31,-122, -85, -31,-124,-121, -31,-123, -91, -31,-122, -86, -31,-124,-121, -31],
    [-123, -91, -31,-122, -87, -31,-124,-121, -31,-123, -91, -31,-122, -88, -31,-124,-121, -31,-123, -92],
    [-31,-121,-126, -31,-124,-121, -31,-123, -92, -31,-121,-127, -31,-124,-121, -31,-123, -92, -31,-121],
    [-128, -31,-124,-121, -31,-123, -92, -31,-122, -65, -31,-124,-121, -31,-123, -92, -31,-122, -66, -31],
    [-124,-121, -31,-123, -92, -31,-122, -67, -31,-124,-121, -31,-123, -92, -31,-122, -68, -31,-124,-121],
    [-31,-123, -92, -31,-122, -69, -31,-124,-121, -31,-123, -92, -31,-122, -70, -31,-124,-121, -31,-123],
    [-92, -31,-122, -71, -31,-124,-121, -31,-123, -92, -31,-122, -72, -31,-124,-121, -31,-123, -92, -31],
    [-122, -73, -31,-124,-121, -31,-123, -92, -31,-122, -74, -31,-124,-121, -31,-123, -92, -31,-122, -75],
    [-31,-124,-121, -31,-123, -92, -31,-122, -76, -31,-124,-121, -31,-123, -92, -31,-122, -77, -31,-124],
    [-121, -31,-123, -92, -31,-122, -78, -31,-124,-121, -31,-123, -92, -31,-122, -79, -31,-124,-121, -31],
    [-123, -92, -31,-122, -80, -31,-124,-121, -31,-123, -92, -31,-122, -81, -31,-124,-121, -31,-123, -92],
    [-31,-122, -82, -31,-124,-121, -31,-123, -92, -31,-122, -83, -31,-124,-121, -31,-123, -92, -31,-122],
    [-84, -31,-124,-121, -31,-123, -92, -31,-122, -85, -31,-124,-121, -31,-123, -92, -31,-122, -86, -31],
    [-124,-121, -31,-123, -92, -31,-122, -87, -31,-124,-121, -31,-123, -92, -31,-122, -88, -31,-124,-121],
    [-31,-123, -93, -31,-121,-126, -31,-124,-121, -31,-123, -93, -31,-121,-127, -31,-124,-121, -31,-123],
    [-93, -31,-121,-128, -31,-124,-121, -31,-123, -93, -31,-122, -65, -31,-124,-121, -31,-123, -93, -31],
    [-122, -66, -31,-124,-121, -31,-123, -93, -31,-122, -67, -31,-124,-121, -31,-123, -93, -31,-122, -68],
    [-31,-124,-121, -31,-123, -93, -31,-122, -69, -31,-124,-121, -31,-123, -93, -31,-122, -70, -31,-124],
    [-121, -31,-123, -93, -31,-122, -71, -31,-124,-121, -31,-123, -93, -31,-122, -72, -31,-124,-121, -31],
    [-123, -93, -31,-122, -73, -31,-124,-121, -31,-123, -93, -31,-122, -74, -31,-124,-121, -31,-123, -93],
    [-31,-122, -75, -31,-124,-121, -31,-123, -93, -31,-122, -76, -31,-124,-121, -31,-123, -93, -31,-122],
    [-77, -31,-124,-121, -31,-123, -93, -31,-122, -78, -31,-124,-121, -31,-123, -93, -31,-122, -79, -31],
    [-124,-121, -31,-123, -93, -31,-122, -80, -31,-124,-121, -31,-123, -93, -31,-122, -81, -31,-124,-121],
    [-31,-123, -93, -31,-122, -82, -31,-124,-121, -31,-123, -93, -31,-122, -83, -31,-124,-121, -31,-123],
    [-93, -31,-122, -84, -31,-124,-121, -31,-123, -93, -31,-122, -85, -31,-124,-121, -31,-123, -93, -31],
    [-122, -86, -31,-124,-121, -31,-123, -93, -31,-122, -87, -31,-124,-121, -31,-123, -93, -31,-122, -88],
    [-31,-124,-121, -31,-123, -94, -31,-121,-126, -31,-124,-121, -31,-123, -94, -31,-121,-127, -31,-124],
    [-121, -31,-123, -94, -31,-121,-128, -31,-124,-121, -31,-123, -94, -31,-122, -65, -31,-124,-121, -31],
    [-123, -94, -31,-122, -66, -31,-124,-121, -31,-123, -94, -31,-122, -67, -31,-124,-121, -31,-123, -94],
    [-31,-122, -68, -31,-124,-121, -31,-123, -94, -31,-122, -69, -31,-124,-121, -31,-123, -94, -31,-122],
    [-70, -31,-124,-121, -31,-123, -94, -31,-122, -71, -31,-124,-121, -31,-123, -94, -31,-122, -72, -31],
    [-124,-121, -31,-123, -94, -31,-122, -73, -31,-124,-121, -31,-123, -94, -31,-122, -74, -31,-124,-121],
    [-31,-123, -94, -31,-122, -75, -31,-124,-121, -31,-123, -94, -31,-122, -76, -31,-124,-121, -31,-123],
    [-94, -31,-122, -77, -31,-124,-121, -31,-123, -94, -31,-122, -78, -31,-124,-121, -31,-123, -94, -31],
    [-122, -79, -31,-124,-121, -31,-123, -94, -31,-122, -80, -31,-124,-121, -31,-123, -94, -31,-122, -81],
    [-31,-124,-121, -31,-123, -94, -31,-122, -82, -31,-124,-121, -31,-123, -94, -31,-122, -83, -31,-124],
    [-121, -31,-123, -94, -31,-122, -84, -31,-124,-121, -31,-123, -94, -31,-122, -85, -31,-124,-121, -31],
    [-123, -94, -31,-122, -86, -31,-124,-121, -31,-123, -94, -31,-122, -87, -31,-124,-121, -31,-123, -94],
    [-31,-122, -88, -31,-124,-121, -31,-123, -95, -31,-121,-126, -31,-124,-121, -31,-123, -95, -31,-121],
    [-127, -31,-124,-121, -31,-123, -95, -31,-121,-128, -31,-124,-121, -31,-123, -95, -31,-122, -65, -31],
    [-124,-121, -31,-123, -95, -31,-122, -66, -31,-124,-121, -31,-123, -95, -31,-122, -67, -31,-124,-121],
    [-31,-123, -95, -31,-122, -68, -31,-124,-121, -31,-123, -95, -31,-122, -69, -31,-124,-121, -31,-123],
    [-95, -31,-122, -70, -31,-124,-121, -31,-123, -95, -31,-122, -71, -31,-124,-121, -31,-123, -95, -31],
    [-122, -72, -31,-124,-121, -31,-123, -95, -31,-122, -73, -31,-124,-121, -31,-123, -95, -31,-122, -74],
    [-31,-124,-121, -31,-123, -95, -31,-122, -75, -31,-124,-121, -31,-123, -95, -31,-122, -76, -31,-124]]"

definition STRINGS_37 :: "int list list" where
  "STRINGS_37 = [
    [-121, -31,-123, -95, -31,-122, -77, -31,-124,-121, -31,-123, -95, -31,-122, -78, -31,-124,-121, -31],
    [-123, -95, -31,-122, -79, -31,-124,-121, -31,-123, -95, -31,-122, -80, -31,-124,-121, -31,-123, -95],
    [-31,-122, -81, -31,-124,-121, -31,-123, -95, -31,-122, -82, -31,-124,-121, -31,-123, -95, -31,-122],
    [-83, -31,-124,-121, -31,-123, -95, -31,-122, -84, -31,-124,-121, -31,-123, -95, -31,-122, -85, -31],
    [-124,-121, -31,-123, -95, -31,-122, -86, -31,-124,-121, -31,-123, -95, -31,-122, -87, -31,-124,-121],
    [-31,-123, -95, -31,-122, -88, -31,-124,-122, -31,-123, -75, -31,-121,-126, -31,-124,-122, -31,-123],
    [-75, -31,-121,-127, -31,-124,-122, -31,-123, -75, -31,-121,-128, -31,-124,-122, -31,-123, -75, -31],
    [-122, -65, -31,-124,-122, -31,-123, -75, -31,-122, -66, -31,-124,-122, -31,-123, -75, -31,-122, -67],
    [-31,-124,-122, -31,-123, -75, -31,-122, -68, -31,-124,-122, -31,-123, -75, -31,-122, -69, -31,-124],
    [-122, -31,-123, -75, -31,-122, -70, -31,-124,-122, -31,-123, -75, -31,-122, -71, -31,-124,-122, -31],
    [-123, -75, -31,-122, -72, -31,-124,-122, -31,-123, -75, -31,-122, -73, -31,-124,-122, -31,-123, -75],
    [-31,-122, -74, -31,-124,-122, -31,-123, -75, -31,-122, -75, -31,-124,-122, -31,-123, -75, -31,-122],
    [-76, -31,-124,-122, -31,-123, -75, -31,-122, -77, -31,-124,-122, -31,-123, -75, -31,-122, -78, -31],
    [-124,-122, -31,-123, -75, -31,-122, -79, -31,-124,-122, -31,-123, -75, -31,-122, -80, -31,-124,-122],
    [-31,-123, -75, -31,-122, -81, -31,-124,-122, -31,-123, -75, -31,-122, -82, -31,-124,-122, -31,-123],
    [-75, -31,-122, -83, -31,-124,-122, -31,-123, -75, -31,-122, -84, -31,-124,-122, -31,-123, -75, -31],
    [-122, -85, -31,-124,-122, -31,-123, -75, -31,-122, -86, -31,-124,-122, -31,-123, -75, -31,-122, -87],
    [-31,-124,-122, -31,-123, -75, -31,-122, -88, -31,-124,-122, -31,-123, -76, -31,-121,-126, -31,-124],
    [-122, -31,-123, -76, -31,-121,-127, -31,-124,-122, -31,-123, -76, -31,-121,-128, -31,-124,-122, -31],
    [-123, -76, -31,-122, -65, -31,-124,-122, -31,-123, -76, -31,-122, -66, -31,-124,-122, -31,-123, -76],
    [-31,-122, -67, -31,-124,-122, -31,-123, -76, -31,-122, -68, -31,-124,-122, -31,-123, -76, -31,-122],
    [-69, -31,-124,-122, -31,-123, -76, -31,-122, -70, -31,-124,-122, -31,-123, -76, -31,-122, -71, -31],
    [-124,-122, -31,-123, -76, -31,-122, -72, -31,-124,-122, -31,-123, -76, -31,-122, -73, -31,-124,-122],
    [-31,-123, -76, -31,-122, -74, -31,-124,-122, -31,-123, -76, -31,-122, -75, -31,-124,-122, -31,-123],
    [-76, -31,-122, -76, -31,-124,-122, -31,-123, -76, -31,-122, -77, -31,-124,-122, -31,-123, -76, -31],
    [-122, -78, -31,-124,-122, -31,-123, -76, -31,-122, -79, -31,-124,-122, -31,-123, -76, -31,-122, -80],
    [-31,-124,-122, -31,-123, -76, -31,-122, -81, -31,-124,-122, -31,-123, -76, -31,-122, -82, -31,-124],
    [-122, -31,-123, -76, -31,-122, -83, -31,-124,-122, -31,-123, -76, -31,-122, -84, -31,-124,-122, -31],
    [-123, -76, -31,-122, -85, -31,-124,-122, -31,-123, -76, -31,-122, -86, -31,-124,-122, -31,-123, -76],
    [-31,-122, -87, -31,-124,-122, -31,-123, -76, -31,-122, -88, -31,-124,-122, -31,-123, -77, -31,-121],
    [-126, -31,-124,-122, -31,-123, -77, -31,-121,-127, -31,-124,-122, -31,-123, -77, -31,-121,-128, -31],
    [-124,-122, -31,-123, -77, -31,-122, -65, -31,-124,-122, -31,-123, -77, -31,-122, -66, -31,-124,-122],
    [-31,-123, -77, -31,-122, -67, -31,-124,-122, -31,-123, -77, -31,-122, -68, -31,-124,-122, -31,-123],
    [-77, -31,-122, -69, -31,-124,-122, -31,-123, -77, -31,-122, -70, -31,-124,-122, -31,-123, -77, -31],
    [-122, -71, -31,-124,-122, -31,-123, -77, -31,-122, -72, -31,-124,-122, -31,-123, -77, -31,-122, -73],
    [-31,-124,-122, -31,-123, -77, -31,-122, -74, -31,-124,-122, -31,-123, -77, -31,-122, -75, -31,-124],
    [-122, -31,-123, -77, -31,-122, -76, -31,-124,-122, -31,-123, -77, -31,-122, -77, -31,-124,-122, -31],
    [-123, -77, -31,-122, -78, -31,-124,-122, -31,-123, -77, -31,-122, -79, -31,-124,-122, -31,-123, -77],
    [-31,-122, -80, -31,-124,-122, -31,-123, -77, -31,-122, -81, -31,-124,-122, -31,-123, -77, -31,-122],
    [-82, -31,-124,-122, -31,-123, -77, -31,-122, -83, -31,-124,-122, -31,-123, -77, -31,-122, -84, -31],
    [-124,-122, -31,-123, -77, -31,-122, -85, -31,-124,-122, -31,-123, -77, -31,-122, -86, -31,-124,-122],
    [-31,-123, -77, -31,-122, -87, -31,-124,-122, -31,-123, -77, -31,-122, -88, -31,-124,-122, -31,-123],
    [-78, -31,-121,-126, -31,-124,-122, -31,-123, -78, -31,-121,-127, -31,-124,-122, -31,-123, -78, -31],
    [-121,-128, -31,-124,-122, -31,-123, -78, -31,-122, -65, -31,-124,-122, -31,-123, -78, -31,-122, -66],
    [-31,-124,-122, -31,-123, -78, -31,-122, -67, -31,-124,-122, -31,-123, -78, -31,-122, -68, -31,-124],
    [-122, -31,-123, -78, -31,-122, -69, -31,-124,-122, -31,-123, -78, -31,-122, -70, -31,-124,-122, -31],
    [-123, -78, -31,-122, -71, -31,-124,-122, -31,-123, -78, -31,-122, -72, -31,-124,-122, -31,-123, -78],
    [-31,-122, -73, -31,-124,-122, -31,-123, -78, -31,-122, -74, -31,-124,-122, -31,-123, -78, -31,-122],
    [-75, -31,-124,-122, -31,-123, -78, -31,-122, -76, -31,-124,-122, -31,-123, -78, -31,-122, -77, -31],
    [-124,-122, -31,-123, -78, -31,-122, -78, -31,-124,-122, -31,-123, -78, -31,-122, -79, -31,-124,-122],
    [-31,-123, -78, -31,-122, -80, -31,-124,-122, -31,-123, -78, -31,-122, -81, -31,-124,-122, -31,-123],
    [-78, -31,-122, -82, -31,-124,-122, -31,-123, -78, -31,-122, -83, -31,-124,-122, -31,-123, -78, -31],
    [-122, -84, -31,-124,-122, -31,-123, -78, -31,-122, -85, -31,-124,-122, -31,-123, -78, -31,-122, -86],
    [-31,-124,-122, -31,-123, -78, -31,-122, -87, -31,-124,-122, -31,-123, -78, -31,-122, -88, -31,-124],
    [-122, -31,-123, -79, -31,-121,-126, -31,-124,-122, -31,-123, -79, -31,-121,-127, -31,-124,-122, -31],
    [-123, -79, -31,-121,-128, -31,-124,-122, -31,-123, -79, -31,-122, -65, -31,-124,-122, -31,-123, -79],
    [-31,-122, -66, -31,-124,-122, -31,-123, -79, -31,-122, -67, -31,-124,-122, -31,-123, -79, -31,-122],
    [-68, -31,-124,-122, -31,-123, -79, -31,-122, -69, -31,-124,-122, -31,-123, -79, -31,-122, -70, -31],
    [-124,-122, -31,-123, -79, -31,-122, -71, -31,-124,-122, -31,-123, -79, -31,-122, -72, -31,-124,-122],
    [-31,-123, -79, -31,-122, -73, -31,-124,-122, -31,-123, -79, -31,-122, -74, -31,-124,-122, -31,-123],
    [-79, -31,-122, -75, -31,-124,-122, -31,-123, -79, -31,-122, -76, -31,-124,-122, -31,-123, -79, -31],
    [-122, -77, -31,-124,-122, -31,-123, -79, -31,-122, -78, -31,-124,-122, -31,-123, -79, -31,-122, -79],
    [-31,-124,-122, -31,-123, -79, -31,-122, -80, -31,-124,-122, -31,-123, -79, -31,-122, -81, -31,-124],
    [-122, -31,-123, -79, -31,-122, -82, -31,-124,-122, -31,-123, -79, -31,-122, -83, -31,-124,-122, -31],
    [-123, -79, -31,-122, -84, -31,-124,-122, -31,-123, -79, -31,-122, -85, -31,-124,-122, -31,-123, -79],
    [-31,-122, -86, -31,-124,-122, -31,-123, -79, -31,-122, -87, -31,-124,-122, -31,-123, -79, -31,-122],
    [-88, -31,-124,-122, -31,-123, -80, -31,-121,-126, -31,-124,-122, -31,-123, -80, -31,-121,-127, -31],
    [-124,-122, -31,-123, -80, -31,-121,-128, -31,-124,-122, -31,-123, -80, -31,-122, -65, -31,-124,-122],
    [-31,-123, -80, -31,-122, -66, -31,-124,-122, -31,-123, -80, -31,-122, -67, -31,-124,-122, -31,-123],
    [-80, -31,-122, -68, -31,-124,-122, -31,-123, -80, -31,-122, -69, -31,-124,-122, -31,-123, -80, -31],
    [-122, -70, -31,-124,-122, -31,-123, -80, -31,-122, -71, -31,-124,-122, -31,-123, -80, -31,-122, -72],
    [-31,-124,-122, -31,-123, -80, -31,-122, -73, -31,-124,-122, -31,-123, -80, -31,-122, -74, -31,-124],
    [-122, -31,-123, -80, -31,-122, -75, -31,-124,-122, -31,-123, -80, -31,-122, -76, -31,-124,-122, -31],
    [-123, -80, -31,-122, -77, -31,-124,-122, -31,-123, -80, -31,-122, -78, -31,-124,-122, -31,-123, -80],
    [-31,-122, -79, -31,-124,-122, -31,-123, -80, -31,-122, -80, -31,-124,-122, -31,-123, -80, -31,-122],
    [-81, -31,-124,-122, -31,-123, -80, -31,-122, -82, -31,-124,-122, -31,-123, -80, -31,-122, -83, -31],
    [-124,-122, -31,-123, -80, -31,-122, -84, -31,-124,-122, -31,-123, -80, -31,-122, -85, -31,-124,-122],
    [-31,-123, -80, -31,-122, -86, -31,-124,-122, -31,-123, -80, -31,-122, -87, -31,-124,-122, -31,-123],
    [-80, -31,-122, -88, -31,-124,-122, -31,-123, -81, -31,-121,-126, -31,-124,-122, -31,-123, -81, -31],
    [-121,-127, -31,-124,-122, -31,-123, -81, -31,-121,-128, -31,-124,-122, -31,-123, -81, -31,-122, -65],
    [-31,-124,-122, -31,-123, -81, -31,-122, -66, -31,-124,-122, -31,-123, -81, -31,-122, -67, -31,-124],
    [-122, -31,-123, -81, -31,-122, -68, -31,-124,-122, -31,-123, -81, -31,-122, -69, -31,-124,-122, -31],
    [-123, -81, -31,-122, -70, -31,-124,-122, -31,-123, -81, -31,-122, -71, -31,-124,-122, -31,-123, -81],
    [-31,-122, -72, -31,-124,-122, -31,-123, -81, -31,-122, -73, -31,-124,-122, -31,-123, -81, -31,-122],
    [-74, -31,-124,-122, -31,-123, -81, -31,-122, -75, -31,-124,-122, -31,-123, -81, -31,-122, -76, -31],
    [-124,-122, -31,-123, -81, -31,-122, -77, -31,-124,-122, -31,-123, -81, -31,-122, -78, -31,-124,-122],
    [-31,-123, -81, -31,-122, -79, -31,-124,-122, -31,-123, -81, -31,-122, -80, -31,-124,-122, -31,-123],
    [-81, -31,-122, -81, -31,-124,-122, -31,-123, -81, -31,-122, -82, -31,-124,-122, -31,-123, -81, -31],
    [-122, -83, -31,-124,-122, -31,-123, -81, -31,-122, -84, -31,-124,-122, -31,-123, -81, -31,-122, -85],
    [-31,-124,-122, -31,-123, -81, -31,-122, -86, -31,-124,-122, -31,-123, -81, -31,-122, -87, -31,-124],
    [-122, -31,-123, -81, -31,-122, -88, -31,-124,-122, -31,-123, -82, -31,-121,-126, -31,-124,-122, -31],
    [-123, -82, -31,-121,-127, -31,-124,-122, -31,-123, -82, -31,-121,-128, -31,-124,-122, -31,-123, -82],
    [-31,-122, -65, -31,-124,-122, -31,-123, -82, -31,-122, -66, -31,-124,-122, -31,-123, -82, -31,-122],
    [-67, -31,-124,-122, -31,-123, -82, -31,-122, -68, -31,-124,-122, -31,-123, -82, -31,-122, -69, -31],
    [-124,-122, -31,-123, -82, -31,-122, -70, -31,-124,-122, -31,-123, -82, -31,-122, -71, -31,-124,-122],
    [-31,-123, -82, -31,-122, -72, -31,-124,-122, -31,-123, -82, -31,-122, -73, -31,-124,-122, -31,-123],
    [-82, -31,-122, -74, -31,-124,-122, -31,-123, -82, -31,-122, -75, -31,-124,-122, -31,-123, -82, -31],
    [-122, -76, -31,-124,-122, -31,-123, -82, -31,-122, -77, -31,-124,-122, -31,-123, -82, -31,-122, -78],
    [-31,-124,-122, -31,-123, -82, -31,-122, -79, -31,-124,-122, -31,-123, -82, -31,-122, -80, -31,-124],
    [-122, -31,-123, -82, -31,-122, -81, -31,-124,-122, -31,-123, -82, -31,-122, -82, -31,-124,-122, -31],
    [-123, -82, -31,-122, -83, -31,-124,-122, -31,-123, -82, -31,-122, -84, -31,-124,-122, -31,-123, -82],
    [-31,-122, -85, -31,-124,-122, -31,-123, -82, -31,-122, -86, -31,-124,-122, -31,-123, -82, -31,-122],
    [-87, -31,-124,-122, -31,-123, -82, -31,-122, -88, -31,-124,-122, -31,-123, -83, -31,-121,-126, -31],
    [-124,-122, -31,-123, -83, -31,-121,-127, -31,-124,-122, -31,-123, -83, -31,-121,-128, -31,-124,-122],
    [-31,-123, -83, -31,-122, -65, -31,-124,-122, -31,-123, -83, -31,-122, -66, -31,-124,-122, -31,-123],
    [-83, -31,-122, -67, -31,-124,-122, -31,-123, -83, -31,-122, -68, -31,-124,-122, -31,-123, -83, -31],
    [-122, -69, -31,-124,-122, -31,-123, -83, -31,-122, -70, -31,-124,-122, -31,-123, -83, -31,-122, -71],
    [-31,-124,-122, -31,-123, -83, -31,-122, -72, -31,-124,-122, -31,-123, -83, -31,-122, -73, -31,-124],
    [-122, -31,-123, -83, -31,-122, -74, -31,-124,-122, -31,-123, -83, -31,-122, -75, -31,-124,-122, -31],
    [-123, -83, -31,-122, -76, -31,-124,-122, -31,-123, -83, -31,-122, -77, -31,-124,-122, -31,-123, -83],
    [-31,-122, -78, -31,-124,-122, -31,-123, -83, -31,-122, -79, -31,-124,-122, -31,-123, -83, -31,-122],
    [-80, -31,-124,-122, -31,-123, -83, -31,-122, -81, -31,-124,-122, -31,-123, -83, -31,-122, -82, -31],
    [-124,-122, -31,-123, -83, -31,-122, -83, -31,-124,-122, -31,-123, -83, -31,-122, -84, -31,-124,-122],
    [-31,-123, -83, -31,-122, -85, -31,-124,-122, -31,-123, -83, -31,-122, -86, -31,-124,-122, -31,-123],
    [-83, -31,-122, -87, -31,-124,-122, -31,-123, -83, -31,-122, -88, -31,-124,-122, -31,-123, -84, -31],
    [-121,-126, -31,-124,-122, -31,-123, -84, -31,-121,-127, -31,-124,-122, -31,-123, -84, -31,-121,-128],
    [-31,-124,-122, -31,-123, -84, -31,-122, -65, -31,-124,-122, -31,-123, -84, -31,-122, -66, -31,-124],
    [-122, -31,-123, -84, -31,-122, -67, -31,-124,-122, -31,-123, -84, -31,-122, -68, -31,-124,-122, -31],
    [-123, -84, -31,-122, -69, -31,-124,-122, -31,-123, -84, -31,-122, -70, -31,-124,-122, -31,-123, -84],
    [-31,-122, -71, -31,-124,-122, -31,-123, -84, -31,-122, -72, -31,-124,-122, -31,-123, -84, -31,-122],
    [-73, -31,-124,-122, -31,-123, -84, -31,-122, -74, -31,-124,-122, -31,-123, -84, -31,-122, -75, -31],
    [-124,-122, -31,-123, -84, -31,-122, -76, -31,-124,-122, -31,-123, -84, -31,-122, -77, -31,-124,-122],
    [-31,-123, -84, -31,-122, -78, -31,-124,-122, -31,-123, -84, -31,-122, -79, -31,-124,-122, -31,-123],
    [-84, -31,-122, -80, -31,-124,-122, -31,-123, -84, -31,-122, -81, -31,-124,-122, -31,-123, -84, -31],
    [-122, -82, -31,-124,-122, -31,-123, -84, -31,-122, -83, -31,-124,-122, -31,-123, -84, -31,-122, -84],
    [-31,-124,-122, -31,-123, -84, -31,-122, -85, -31,-124,-122, -31,-123, -84, -31,-122, -86, -31,-124],
    [-122, -31,-123, -84, -31,-122, -87, -31,-124,-122, -31,-123, -84, -31,-122, -88, -31,-124,-122, -31],
    [-123, -85, -31,-121,-126, -31,-124,-122, -31,-123, -85, -31,-121,-127, -31,-124,-122, -31,-123, -85],
    [-31,-121,-128, -31,-124,-122, -31,-123, -85, -31,-122, -65, -31,-124,-122, -31,-123, -85, -31,-122],
    [-66, -31,-124,-122, -31,-123, -85, -31,-122, -67, -31,-124,-122, -31,-123, -85, -31,-122, -68, -31],
    [-124,-122, -31,-123, -85, -31,-122, -69, -31,-124,-122, -31,-123, -85, -31,-122, -70, -31,-124,-122],
    [-31,-123, -85, -31,-122, -71, -31,-124,-122, -31,-123, -85, -31,-122, -72, -31,-124,-122, -31,-123],
    [-85, -31,-122, -73, -31,-124,-122, -31,-123, -85, -31,-122, -74, -31,-124,-122, -31,-123, -85, -31],
    [-122, -75, -31,-124,-122, -31,-123, -85, -31,-122, -76, -31,-124,-122, -31,-123, -85, -31,-122, -77],
    [-31,-124,-122, -31,-123, -85, -31,-122, -78, -31,-124,-122, -31,-123, -85, -31,-122, -79, -31,-124],
    [-122, -31,-123, -85, -31,-122, -80, -31,-124,-122, -31,-123, -85, -31,-122, -81, -31,-124,-122, -31],
    [-123, -85, -31,-122, -82, -31,-124,-122, -31,-123, -85, -31,-122, -83, -31,-124,-122, -31,-123, -85],
    [-31,-122, -84, -31,-124,-122, -31,-123, -85, -31,-122, -85, -31,-124,-122, -31,-123, -85, -31,-122],
    [-86, -31,-124,-122, -31,-123, -85, -31,-122, -87, -31,-124,-122, -31,-123, -85, -31,-122, -88, -31],
    [-124,-122, -31,-123, -86, -31,-121,-126, -31,-124,-122, -31,-123, -86, -31,-121,-127, -31,-124,-122],
    [-31,-123, -86, -31,-121,-128, -31,-124,-122, -31,-123, -86, -31,-122, -65, -31,-124,-122, -31,-123],
    [-86, -31,-122, -66, -31,-124,-122, -31,-123, -86, -31,-122, -67, -31,-124,-122, -31,-123, -86, -31],
    [-122, -68, -31,-124,-122, -31,-123, -86, -31,-122, -69, -31,-124,-122, -31,-123, -86, -31,-122, -70],
    [-31,-124,-122, -31,-123, -86, -31,-122, -71, -31,-124,-122, -31,-123, -86, -31,-122, -72, -31,-124]]"

definition STRINGS_38 :: "int list list" where
  "STRINGS_38 = [
    [-122, -31,-123, -86, -31,-122, -73, -31,-124,-122, -31,-123, -86, -31,-122, -74, -31,-124,-122, -31],
    [-123, -86, -31,-122, -75, -31,-124,-122, -31,-123, -86, -31,-122, -76, -31,-124,-122, -31,-123, -86],
    [-31,-122, -77, -31,-124,-122, -31,-123, -86, -31,-122, -78, -31,-124,-122, -31,-123, -86, -31,-122],
    [-79, -31,-124,-122, -31,-123, -86, -31,-122, -80, -31,-124,-122, -31,-123, -86, -31,-122, -81, -31],
    [-124,-122, -31,-123, -86, -31,-122, -82, -31,-124,-122, -31,-123, -86, -31,-122, -83, -31,-124,-122],
    [-31,-123, -86, -31,-122, -84, -31,-124,-122, -31,-123, -86, -31,-122, -85, -31,-124,-122, -31,-123],
    [-86, -31,-122, -86, -31,-124,-122, -31,-123, -86, -31,-122, -87, -31,-124,-122, -31,-123, -86, -31],
    [-122, -88, -31,-124,-122, -31,-123, -87, -31,-121,-126, -31,-124,-122, -31,-123, -87, -31,-121,-127],
    [-31,-124,-122, -31,-123, -87, -31,-121,-128, -31,-124,-122, -31,-123, -87, -31,-122, -65, -31,-124],
    [-122, -31,-123, -87, -31,-122, -66, -31,-124,-122, -31,-123, -87, -31,-122, -67, -31,-124,-122, -31],
    [-123, -87, -31,-122, -68, -31,-124,-122, -31,-123, -87, -31,-122, -69, -31,-124,-122, -31,-123, -87],
    [-31,-122, -70, -31,-124,-122, -31,-123, -87, -31,-122, -71, -31,-124,-122, -31,-123, -87, -31,-122],
    [-72, -31,-124,-122, -31,-123, -87, -31,-122, -73, -31,-124,-122, -31,-123, -87, -31,-122, -74, -31],
    [-124,-122, -31,-123, -87, -31,-122, -75, -31,-124,-122, -31,-123, -87, -31,-122, -76, -31,-124,-122],
    [-31,-123, -87, -31,-122, -77, -31,-124,-122, -31,-123, -87, -31,-122, -78, -31,-124,-122, -31,-123],
    [-87, -31,-122, -79, -31,-124,-122, -31,-123, -87, -31,-122, -80, -31,-124,-122, -31,-123, -87, -31],
    [-122, -81, -31,-124,-122, -31,-123, -87, -31,-122, -82, -31,-124,-122, -31,-123, -87, -31,-122, -83],
    [-31,-124,-122, -31,-123, -87, -31,-122, -84, -31,-124,-122, -31,-123, -87, -31,-122, -85, -31,-124],
    [-122, -31,-123, -87, -31,-122, -86, -31,-124,-122, -31,-123, -87, -31,-122, -87, -31,-124,-122, -31],
    [-123, -87, -31,-122, -88, -31,-124,-122, -31,-123, -88, -31,-121,-126, -31,-124,-122, -31,-123, -88],
    [-31,-121,-127, -31,-124,-122, -31,-123, -88, -31,-121,-128, -31,-124,-122, -31,-123, -88, -31,-122],
    [-65, -31,-124,-122, -31,-123, -88, -31,-122, -66, -31,-124,-122, -31,-123, -88, -31,-122, -67, -31],
    [-124,-122, -31,-123, -88, -31,-122, -68, -31,-124,-122, -31,-123, -88, -31,-122, -69, -31,-124,-122],
    [-31,-123, -88, -31,-122, -70, -31,-124,-122, -31,-123, -88, -31,-122, -71, -31,-124,-122, -31,-123],
    [-88, -31,-122, -72, -31,-124,-122, -31,-123, -88, -31,-122, -73, -31,-124,-122, -31,-123, -88, -31],
    [-122, -74, -31,-124,-122, -31,-123, -88, -31,-122, -75, -31,-124,-122, -31,-123, -88, -31,-122, -76],
    [-31,-124,-122, -31,-123, -88, -31,-122, -77, -31,-124,-122, -31,-123, -88, -31,-122, -78, -31,-124],
    [-122, -31,-123, -88, -31,-122, -79, -31,-124,-122, -31,-123, -88, -31,-122, -80, -31,-124,-122, -31],
    [-123, -88, -31,-122, -81, -31,-124,-122, -31,-123, -88, -31,-122, -82, -31,-124,-122, -31,-123, -88],
    [-31,-122, -83, -31,-124,-122, -31,-123, -88, -31,-122, -84, -31,-124,-122, -31,-123, -88, -31,-122],
    [-85, -31,-124,-122, -31,-123, -88, -31,-122, -86, -31,-124,-122, -31,-123, -88, -31,-122, -87, -31],
    [-124,-122, -31,-123, -88, -31,-122, -88, -31,-124,-122, -31,-123, -89, -31,-121,-126, -31,-124,-122],
    [-31,-123, -89, -31,-121,-127, -31,-124,-122, -31,-123, -89, -31,-121,-128, -31,-124,-122, -31,-123],
    [-89, -31,-122, -65, -31,-124,-122, -31,-123, -89, -31,-122, -66, -31,-124,-122, -31,-123, -89, -31],
    [-122, -67, -31,-124,-122, -31,-123, -89, -31,-122, -68, -31,-124,-122, -31,-123, -89, -31,-122, -69],
    [-31,-124,-122, -31,-123, -89, -31,-122, -70, -31,-124,-122, -31,-123, -89, -31,-122, -71, -31,-124],
    [-122, -31,-123, -89, -31,-122, -72, -31,-124,-122, -31,-123, -89, -31,-122, -73, -31,-124,-122, -31],
    [-123, -89, -31,-122, -74, -31,-124,-122, -31,-123, -89, -31,-122, -75, -31,-124,-122, -31,-123, -89],
    [-31,-122, -76, -31,-124,-122, -31,-123, -89, -31,-122, -77, -31,-124,-122, -31,-123, -89, -31,-122],
    [-78, -31,-124,-122, -31,-123, -89, -31,-122, -79, -31,-124,-122, -31,-123, -89, -31,-122, -80, -31],
    [-124,-122, -31,-123, -89, -31,-122, -81, -31,-124,-122, -31,-123, -89, -31,-122, -82, -31,-124,-122],
    [-31,-123, -89, -31,-122, -83, -31,-124,-122, -31,-123, -89, -31,-122, -84, -31,-124,-122, -31,-123],
    [-89, -31,-122, -85, -31,-124,-122, -31,-123, -89, -31,-122, -86, -31,-124,-122, -31,-123, -89, -31],
    [-122, -87, -31,-124,-122, -31,-123, -89, -31,-122, -88, -31,-124,-122, -31,-123, -90, -31,-121,-126],
    [-31,-124,-122, -31,-123, -90, -31,-121,-127, -31,-124,-122, -31,-123, -90, -31,-121,-128, -31,-124],
    [-122, -31,-123, -90, -31,-122, -65, -31,-124,-122, -31,-123, -90, -31,-122, -66, -31,-124,-122, -31],
    [-123, -90, -31,-122, -67, -31,-124,-122, -31,-123, -90, -31,-122, -68, -31,-124,-122, -31,-123, -90],
    [-31,-122, -69, -31,-124,-122, -31,-123, -90, -31,-122, -70, -31,-124,-122, -31,-123, -90, -31,-122],
    [-71, -31,-124,-122, -31,-123, -90, -31,-122, -72, -31,-124,-122, -31,-123, -90, -31,-122, -73, -31],
    [-124,-122, -31,-123, -90, -31,-122, -74, -31,-124,-122, -31,-123, -90, -31,-122, -75, -31,-124,-122],
    [-31,-123, -90, -31,-122, -76, -31,-124,-122, -31,-123, -90, -31,-122, -77, -31,-124,-122, -31,-123],
    [-90, -31,-122, -78, -31,-124,-122, -31,-123, -90, -31,-122, -79, -31,-124,-122, -31,-123, -90, -31],
    [-122, -80, -31,-124,-122, -31,-123, -90, -31,-122, -81, -31,-124,-122, -31,-123, -90, -31,-122, -82],
    [-31,-124,-122, -31,-123, -90, -31,-122, -83, -31,-124,-122, -31,-123, -90, -31,-122, -84, -31,-124],
    [-122, -31,-123, -90, -31,-122, -85, -31,-124,-122, -31,-123, -90, -31,-122, -86, -31,-124,-122, -31],
    [-123, -90, -31,-122, -87, -31,-124,-122, -31,-123, -90, -31,-122, -88, -31,-124,-122, -31,-123, -91],
    [-31,-121,-126, -31,-124,-122, -31,-123, -91, -31,-121,-127, -31,-124,-122, -31,-123, -91, -31,-121],
    [-128, -31,-124,-122, -31,-123, -91, -31,-122, -65, -31,-124,-122, -31,-123, -91, -31,-122, -66, -31],
    [-124,-122, -31,-123, -91, -31,-122, -67, -31,-124,-122, -31,-123, -91, -31,-122, -68, -31,-124,-122],
    [-31,-123, -91, -31,-122, -69, -31,-124,-122, -31,-123, -91, -31,-122, -70, -31,-124,-122, -31,-123],
    [-91, -31,-122, -71, -31,-124,-122, -31,-123, -91, -31,-122, -72, -31,-124,-122, -31,-123, -91, -31],
    [-122, -73, -31,-124,-122, -31,-123, -91, -31,-122, -74, -31,-124,-122, -31,-123, -91, -31,-122, -75],
    [-31,-124,-122, -31,-123, -91, -31,-122, -76, -31,-124,-122, -31,-123, -91, -31,-122, -77, -31,-124],
    [-122, -31,-123, -91, -31,-122, -78, -31,-124,-122, -31,-123, -91, -31,-122, -79, -31,-124,-122, -31],
    [-123, -91, -31,-122, -80, -31,-124,-122, -31,-123, -91, -31,-122, -81, -31,-124,-122, -31,-123, -91],
    [-31,-122, -82, -31,-124,-122, -31,-123, -91, -31,-122, -83, -31,-124,-122, -31,-123, -91, -31,-122],
    [-84, -31,-124,-122, -31,-123, -91, -31,-122, -85, -31,-124,-122, -31,-123, -91, -31,-122, -86, -31],
    [-124,-122, -31,-123, -91, -31,-122, -87, -31,-124,-122, -31,-123, -91, -31,-122, -88, -31,-124,-122],
    [-31,-123, -92, -31,-121,-126, -31,-124,-122, -31,-123, -92, -31,-121,-127, -31,-124,-122, -31,-123],
    [-92, -31,-121,-128, -31,-124,-122, -31,-123, -92, -31,-122, -65, -31,-124,-122, -31,-123, -92, -31],
    [-122, -66, -31,-124,-122, -31,-123, -92, -31,-122, -67, -31,-124,-122, -31,-123, -92, -31,-122, -68],
    [-31,-124,-122, -31,-123, -92, -31,-122, -69, -31,-124,-122, -31,-123, -92, -31,-122, -70, -31,-124],
    [-122, -31,-123, -92, -31,-122, -71, -31,-124,-122, -31,-123, -92, -31,-122, -72, -31,-124,-122, -31],
    [-123, -92, -31,-122, -73, -31,-124,-122, -31,-123, -92, -31,-122, -74, -31,-124,-122, -31,-123, -92],
    [-31,-122, -75, -31,-124,-122, -31,-123, -92, -31,-122, -76, -31,-124,-122, -31,-123, -92, -31,-122],
    [-77, -31,-124,-122, -31,-123, -92, -31,-122, -78, -31,-124,-122, -31,-123, -92, -31,-122, -79, -31],
    [-124,-122, -31,-123, -92, -31,-122, -80, -31,-124,-122, -31,-123, -92, -31,-122, -81, -31,-124,-122],
    [-31,-123, -92, -31,-122, -82, -31,-124,-122, -31,-123, -92, -31,-122, -83, -31,-124,-122, -31,-123],
    [-92, -31,-122, -84, -31,-124,-122, -31,-123, -92, -31,-122, -85, -31,-124,-122, -31,-123, -92, -31],
    [-122, -86, -31,-124,-122, -31,-123, -92, -31,-122, -87, -31,-124,-122, -31,-123, -92, -31,-122, -88],
    [-31,-124,-122, -31,-123, -93, -31,-121,-126, -31,-124,-122, -31,-123, -93, -31,-121,-127, -31,-124],
    [-122, -31,-123, -93, -31,-121,-128, -31,-124,-122, -31,-123, -93, -31,-122, -65, -31,-124,-122, -31],
    [-123, -93, -31,-122, -66, -31,-124,-122, -31,-123, -93, -31,-122, -67, -31,-124,-122, -31,-123, -93],
    [-31,-122, -68, -31,-124,-122, -31,-123, -93, -31,-122, -69, -31,-124,-122, -31,-123, -93, -31,-122],
    [-70, -31,-124,-122, -31,-123, -93, -31,-122, -71, -31,-124,-122, -31,-123, -93, -31,-122, -72, -31],
    [-124,-122, -31,-123, -93, -31,-122, -73, -31,-124,-122, -31,-123, -93, -31,-122, -74, -31,-124,-122],
    [-31,-123, -93, -31,-122, -75, -31,-124,-122, -31,-123, -93, -31,-122, -76, -31,-124,-122, -31,-123],
    [-93, -31,-122, -77, -31,-124,-122, -31,-123, -93, -31,-122, -78, -31,-124,-122, -31,-123, -93, -31],
    [-122, -79, -31,-124,-122, -31,-123, -93, -31,-122, -80, -31,-124,-122, -31,-123, -93, -31,-122, -81],
    [-31,-124,-122, -31,-123, -93, -31,-122, -82, -31,-124,-122, -31,-123, -93, -31,-122, -83, -31,-124],
    [-122, -31,-123, -93, -31,-122, -84, -31,-124,-122, -31,-123, -93, -31,-122, -85, -31,-124,-122, -31],
    [-123, -93, -31,-122, -86, -31,-124,-122, -31,-123, -93, -31,-122, -87, -31,-124,-122, -31,-123, -93],
    [-31,-122, -88, -31,-124,-122, -31,-123, -94, -31,-121,-126, -31,-124,-122, -31,-123, -94, -31,-121],
    [-127, -31,-124,-122, -31,-123, -94, -31,-121,-128, -31,-124,-122, -31,-123, -94, -31,-122, -65, -31],
    [-124,-122, -31,-123, -94, -31,-122, -66, -31,-124,-122, -31,-123, -94, -31,-122, -67, -31,-124,-122],
    [-31,-123, -94, -31,-122, -68, -31,-124,-122, -31,-123, -94, -31,-122, -69, -31,-124,-122, -31,-123],
    [-94, -31,-122, -70, -31,-124,-122, -31,-123, -94, -31,-122, -71, -31,-124,-122, -31,-123, -94, -31],
    [-122, -72, -31,-124,-122, -31,-123, -94, -31,-122, -73, -31,-124,-122, -31,-123, -94, -31,-122, -74],
    [-31,-124,-122, -31,-123, -94, -31,-122, -75, -31,-124,-122, -31,-123, -94, -31,-122, -76, -31,-124],
    [-122, -31,-123, -94, -31,-122, -77, -31,-124,-122, -31,-123, -94, -31,-122, -78, -31,-124,-122, -31],
    [-123, -94, -31,-122, -79, -31,-124,-122, -31,-123, -94, -31,-122, -80, -31,-124,-122, -31,-123, -94],
    [-31,-122, -81, -31,-124,-122, -31,-123, -94, -31,-122, -82, -31,-124,-122, -31,-123, -94, -31,-122],
    [-83, -31,-124,-122, -31,-123, -94, -31,-122, -84, -31,-124,-122, -31,-123, -94, -31,-122, -85, -31],
    [-124,-122, -31,-123, -94, -31,-122, -86, -31,-124,-122, -31,-123, -94, -31,-122, -87, -31,-124,-122],
    [-31,-123, -94, -31,-122, -88, -31,-124,-122, -31,-123, -95, -31,-121,-126, -31,-124,-122, -31,-123],
    [-95, -31,-121,-127, -31,-124,-122, -31,-123, -95, -31,-121,-128, -31,-124,-122, -31,-123, -95, -31],
    [-122, -65, -31,-124,-122, -31,-123, -95, -31,-122, -66, -31,-124,-122, -31,-123, -95, -31,-122, -67],
    [-31,-124,-122, -31,-123, -95, -31,-122, -68, -31,-124,-122, -31,-123, -95, -31,-122, -69, -31,-124],
    [-122, -31,-123, -95, -31,-122, -70, -31,-124,-122, -31,-123, -95, -31,-122, -71, -31,-124,-122, -31],
    [-123, -95, -31,-122, -72, -31,-124,-122, -31,-123, -95, -31,-122, -73, -31,-124,-122, -31,-123, -95],
    [-31,-122, -74, -31,-124,-122, -31,-123, -95, -31,-122, -75, -31,-124,-122, -31,-123, -95, -31,-122],
    [-76, -31,-124,-122, -31,-123, -95, -31,-122, -77, -31,-124,-122, -31,-123, -95, -31,-122, -78, -31],
    [-124,-122, -31,-123, -95, -31,-122, -79, -31,-124,-122, -31,-123, -95, -31,-122, -80, -31,-124,-122],
    [-31,-123, -95, -31,-122, -81, -31,-124,-122, -31,-123, -95, -31,-122, -82, -31,-124,-122, -31,-123],
    [-95, -31,-122, -83, -31,-124,-122, -31,-123, -95, -31,-122, -84, -31,-124,-122, -31,-123, -95, -31],
    [-122, -85, -31,-124,-122, -31,-123, -95, -31,-122, -86, -31,-124,-122, -31,-123, -95, -31,-122, -87],
    [-31,-124,-122, -31,-123, -95, -31,-122, -88, -31,-124,-123, -31,-123, -75, -31,-121,-126, -31,-124],
    [-123, -31,-123, -75, -31,-121,-127, -31,-124,-123, -31,-123, -75, -31,-121,-128, -31,-124,-123, -31],
    [-123, -75, -31,-122, -65, -31,-124,-123, -31,-123, -75, -31,-122, -66, -31,-124,-123, -31,-123, -75],
    [-31,-122, -67, -31,-124,-123, -31,-123, -75, -31,-122, -68, -31,-124,-123, -31,-123, -75, -31,-122],
    [-69, -31,-124,-123, -31,-123, -75, -31,-122, -70, -31,-124,-123, -31,-123, -75, -31,-122, -71, -31],
    [-124,-123, -31,-123, -75, -31,-122, -72, -31,-124,-123, -31,-123, -75, -31,-122, -73, -31,-124,-123],
    [-31,-123, -75, -31,-122, -74, -31,-124,-123, -31,-123, -75, -31,-122, -75, -31,-124,-123, -31,-123],
    [-75, -31,-122, -76, -31,-124,-123, -31,-123, -75, -31,-122, -77, -31,-124,-123, -31,-123, -75, -31],
    [-122, -78, -31,-124,-123, -31,-123, -75, -31,-122, -79, -31,-124,-123, -31,-123, -75, -31,-122, -80],
    [-31,-124,-123, -31,-123, -75, -31,-122, -81, -31,-124,-123, -31,-123, -75, -31,-122, -82, -31,-124],
    [-123, -31,-123, -75, -31,-122, -83, -31,-124,-123, -31,-123, -75, -31,-122, -84, -31,-124,-123, -31],
    [-123, -75, -31,-122, -85, -31,-124,-123, -31,-123, -75, -31,-122, -86, -31,-124,-123, -31,-123, -75],
    [-31,-122, -87, -31,-124,-123, -31,-123, -75, -31,-122, -88, -31,-124,-123, -31,-123, -76, -31,-121],
    [-126, -31,-124,-123, -31,-123, -76, -31,-121,-127, -31,-124,-123, -31,-123, -76, -31,-121,-128, -31],
    [-124,-123, -31,-123, -76, -31,-122, -65, -31,-124,-123, -31,-123, -76, -31,-122, -66, -31,-124,-123],
    [-31,-123, -76, -31,-122, -67, -31,-124,-123, -31,-123, -76, -31,-122, -68, -31,-124,-123, -31,-123],
    [-76, -31,-122, -69, -31,-124,-123, -31,-123, -76, -31,-122, -70, -31,-124,-123, -31,-123, -76, -31],
    [-122, -71, -31,-124,-123, -31,-123, -76, -31,-122, -72, -31,-124,-123, -31,-123, -76, -31,-122, -73],
    [-31,-124,-123, -31,-123, -76, -31,-122, -74, -31,-124,-123, -31,-123, -76, -31,-122, -75, -31,-124],
    [-123, -31,-123, -76, -31,-122, -76, -31,-124,-123, -31,-123, -76, -31,-122, -77, -31,-124,-123, -31],
    [-123, -76, -31,-122, -78, -31,-124,-123, -31,-123, -76, -31,-122, -79, -31,-124,-123, -31,-123, -76],
    [-31,-122, -80, -31,-124,-123, -31,-123, -76, -31,-122, -81, -31,-124,-123, -31,-123, -76, -31,-122],
    [-82, -31,-124,-123, -31,-123, -76, -31,-122, -83, -31,-124,-123, -31,-123, -76, -31,-122, -84, -31],
    [-124,-123, -31,-123, -76, -31,-122, -85, -31,-124,-123, -31,-123, -76, -31,-122, -86, -31,-124,-123],
    [-31,-123, -76, -31,-122, -87, -31,-124,-123, -31,-123, -76, -31,-122, -88, -31,-124,-123, -31,-123],
    [-77, -31,-121,-126, -31,-124,-123, -31,-123, -77, -31,-121,-127, -31,-124,-123, -31,-123, -77, -31],
    [-121,-128, -31,-124,-123, -31,-123, -77, -31,-122, -65, -31,-124,-123, -31,-123, -77, -31,-122, -66],
    [-31,-124,-123, -31,-123, -77, -31,-122, -67, -31,-124,-123, -31,-123, -77, -31,-122, -68, -31,-124]]"

definition STRINGS_39 :: "int list list" where
  "STRINGS_39 = [
    [-123, -31,-123, -77, -31,-122, -69, -31,-124,-123, -31,-123, -77, -31,-122, -70, -31,-124,-123, -31],
    [-123, -77, -31,-122, -71, -31,-124,-123, -31,-123, -77, -31,-122, -72, -31,-124,-123, -31,-123, -77],
    [-31,-122, -73, -31,-124,-123, -31,-123, -77, -31,-122, -74, -31,-124,-123, -31,-123, -77, -31,-122],
    [-75, -31,-124,-123, -31,-123, -77, -31,-122, -76, -31,-124,-123, -31,-123, -77, -31,-122, -77, -31],
    [-124,-123, -31,-123, -77, -31,-122, -78, -31,-124,-123, -31,-123, -77, -31,-122, -79, -31,-124,-123],
    [-31,-123, -77, -31,-122, -80, -31,-124,-123, -31,-123, -77, -31,-122, -81, -31,-124,-123, -31,-123],
    [-77, -31,-122, -82, -31,-124,-123, -31,-123, -77, -31,-122, -83, -31,-124,-123, -31,-123, -77, -31],
    [-122, -84, -31,-124,-123, -31,-123, -77, -31,-122, -85, -31,-124,-123, -31,-123, -77, -31,-122, -86],
    [-31,-124,-123, -31,-123, -77, -31,-122, -87, -31,-124,-123, -31,-123, -77, -31,-122, -88, -31,-124],
    [-123, -31,-123, -78, -31,-121,-126, -31,-124,-123, -31,-123, -78, -31,-121,-127, -31,-124,-123, -31],
    [-123, -78, -31,-121,-128, -31,-124,-123, -31,-123, -78, -31,-122, -65, -31,-124,-123, -31,-123, -78],
    [-31,-122, -66, -31,-124,-123, -31,-123, -78, -31,-122, -67, -31,-124,-123, -31,-123, -78, -31,-122],
    [-68, -31,-124,-123, -31,-123, -78, -31,-122, -69, -31,-124,-123, -31,-123, -78, -31,-122, -70, -31],
    [-124,-123, -31,-123, -78, -31,-122, -71, -31,-124,-123, -31,-123, -78, -31,-122, -72, -31,-124,-123],
    [-31,-123, -78, -31,-122, -73, -31,-124,-123, -31,-123, -78, -31,-122, -74, -31,-124,-123, -31,-123],
    [-78, -31,-122, -75, -31,-124,-123, -31,-123, -78, -31,-122, -76, -31,-124,-123, -31,-123, -78, -31],
    [-122, -77, -31,-124,-123, -31,-123, -78, -31,-122, -78, -31,-124,-123, -31,-123, -78, -31,-122, -79],
    [-31,-124,-123, -31,-123, -78, -31,-122, -80, -31,-124,-123, -31,-123, -78, -31,-122, -81, -31,-124],
    [-123, -31,-123, -78, -31,-122, -82, -31,-124,-123, -31,-123, -78, -31,-122, -83, -31,-124,-123, -31],
    [-123, -78, -31,-122, -84, -31,-124,-123, -31,-123, -78, -31,-122, -85, -31,-124,-123, -31,-123, -78],
    [-31,-122, -86, -31,-124,-123, -31,-123, -78, -31,-122, -87, -31,-124,-123, -31,-123, -78, -31,-122],
    [-88, -31,-124,-123, -31,-123, -79, -31,-121,-126, -31,-124,-123, -31,-123, -79, -31,-121,-127, -31],
    [-124,-123, -31,-123, -79, -31,-121,-128, -31,-124,-123, -31,-123, -79, -31,-122, -65, -31,-124,-123],
    [-31,-123, -79, -31,-122, -66, -31,-124,-123, -31,-123, -79, -31,-122, -67, -31,-124,-123, -31,-123],
    [-79, -31,-122, -68, -31,-124,-123, -31,-123, -79, -31,-122, -69, -31,-124,-123, -31,-123, -79, -31],
    [-122, -70, -31,-124,-123, -31,-123, -79, -31,-122, -71, -31,-124,-123, -31,-123, -79, -31,-122, -72],
    [-31,-124,-123, -31,-123, -79, -31,-122, -73, -31,-124,-123, -31,-123, -79, -31,-122, -74, -31,-124],
    [-123, -31,-123, -79, -31,-122, -75, -31,-124,-123, -31,-123, -79, -31,-122, -76, -31,-124,-123, -31],
    [-123, -79, -31,-122, -77, -31,-124,-123, -31,-123, -79, -31,-122, -78, -31,-124,-123, -31,-123, -79],
    [-31,-122, -79, -31,-124,-123, -31,-123, -79, -31,-122, -80, -31,-124,-123, -31,-123, -79, -31,-122],
    [-81, -31,-124,-123, -31,-123, -79, -31,-122, -82, -31,-124,-123, -31,-123, -79, -31,-122, -83, -31],
    [-124,-123, -31,-123, -79, -31,-122, -84, -31,-124,-123, -31,-123, -79, -31,-122, -85, -31,-124,-123],
    [-31,-123, -79, -31,-122, -86, -31,-124,-123, -31,-123, -79, -31,-122, -87, -31,-124,-123, -31,-123],
    [-79, -31,-122, -88, -31,-124,-123, -31,-123, -80, -31,-121,-126, -31,-124,-123, -31,-123, -80, -31],
    [-121,-127, -31,-124,-123, -31,-123, -80, -31,-121,-128, -31,-124,-123, -31,-123, -80, -31,-122, -65],
    [-31,-124,-123, -31,-123, -80, -31,-122, -66, -31,-124,-123, -31,-123, -80, -31,-122, -67, -31,-124],
    [-123, -31,-123, -80, -31,-122, -68, -31,-124,-123, -31,-123, -80, -31,-122, -69, -31,-124,-123, -31],
    [-123, -80, -31,-122, -70, -31,-124,-123, -31,-123, -80, -31,-122, -71, -31,-124,-123, -31,-123, -80],
    [-31,-122, -72, -31,-124,-123, -31,-123, -80, -31,-122, -73, -31,-124,-123, -31,-123, -80, -31,-122],
    [-74, -31,-124,-123, -31,-123, -80, -31,-122, -75, -31,-124,-123, -31,-123, -80, -31,-122, -76, -31],
    [-124,-123, -31,-123, -80, -31,-122, -77, -31,-124,-123, -31,-123, -80, -31,-122, -78, -31,-124,-123],
    [-31,-123, -80, -31,-122, -79, -31,-124,-123, -31,-123, -80, -31,-122, -80, -31,-124,-123, -31,-123],
    [-80, -31,-122, -81, -31,-124,-123, -31,-123, -80, -31,-122, -82, -31,-124,-123, -31,-123, -80, -31],
    [-122, -83, -31,-124,-123, -31,-123, -80, -31,-122, -84, -31,-124,-123, -31,-123, -80, -31,-122, -85],
    [-31,-124,-123, -31,-123, -80, -31,-122, -86, -31,-124,-123, -31,-123, -80, -31,-122, -87, -31,-124],
    [-123, -31,-123, -80, -31,-122, -88, -31,-124,-123, -31,-123, -81, -31,-121,-126, -31,-124,-123, -31],
    [-123, -81, -31,-121,-127, -31,-124,-123, -31,-123, -81, -31,-121,-128, -31,-124,-123, -31,-123, -81],
    [-31,-122, -65, -31,-124,-123, -31,-123, -81, -31,-122, -66, -31,-124,-123, -31,-123, -81, -31,-122],
    [-67, -31,-124,-123, -31,-123, -81, -31,-122, -68, -31,-124,-123, -31,-123, -81, -31,-122, -69, -31],
    [-124,-123, -31,-123, -81, -31,-122, -70, -31,-124,-123, -31,-123, -81, -31,-122, -71, -31,-124,-123],
    [-31,-123, -81, -31,-122, -72, -31,-124,-123, -31,-123, -81, -31,-122, -73, -31,-124,-123, -31,-123],
    [-81, -31,-122, -74, -31,-124,-123, -31,-123, -81, -31,-122, -75, -31,-124,-123, -31,-123, -81, -31],
    [-122, -76, -31,-124,-123, -31,-123, -81, -31,-122, -77, -31,-124,-123, -31,-123, -81, -31,-122, -78],
    [-31,-124,-123, -31,-123, -81, -31,-122, -79, -31,-124,-123, -31,-123, -81, -31,-122, -80, -31,-124],
    [-123, -31,-123, -81, -31,-122, -81, -31,-124,-123, -31,-123, -81, -31,-122, -82, -31,-124,-123, -31],
    [-123, -81, -31,-122, -83, -31,-124,-123, -31,-123, -81, -31,-122, -84, -31,-124,-123, -31,-123, -81],
    [-31,-122, -85, -31,-124,-123, -31,-123, -81, -31,-122, -86, -31,-124,-123, -31,-123, -81, -31,-122],
    [-87, -31,-124,-123, -31,-123, -81, -31,-122, -88, -31,-124,-123, -31,-123, -82, -31,-121,-126, -31],
    [-124,-123, -31,-123, -82, -31,-121,-127, -31,-124,-123, -31,-123, -82, -31,-121,-128, -31,-124,-123],
    [-31,-123, -82, -31,-122, -65, -31,-124,-123, -31,-123, -82, -31,-122, -66, -31,-124,-123, -31,-123],
    [-82, -31,-122, -67, -31,-124,-123, -31,-123, -82, -31,-122, -68, -31,-124,-123, -31,-123, -82, -31],
    [-122, -69, -31,-124,-123, -31,-123, -82, -31,-122, -70, -31,-124,-123, -31,-123, -82, -31,-122, -71],
    [-31,-124,-123, -31,-123, -82, -31,-122, -72, -31,-124,-123, -31,-123, -82, -31,-122, -73, -31,-124],
    [-123, -31,-123, -82, -31,-122, -74, -31,-124,-123, -31,-123, -82, -31,-122, -75, -31,-124,-123, -31],
    [-123, -82, -31,-122, -76, -31,-124,-123, -31,-123, -82, -31,-122, -77, -31,-124,-123, -31,-123, -82],
    [-31,-122, -78, -31,-124,-123, -31,-123, -82, -31,-122, -79, -31,-124,-123, -31,-123, -82, -31,-122],
    [-80, -31,-124,-123, -31,-123, -82, -31,-122, -81, -31,-124,-123, -31,-123, -82, -31,-122, -82, -31],
    [-124,-123, -31,-123, -82, -31,-122, -83, -31,-124,-123, -31,-123, -82, -31,-122, -84, -31,-124,-123],
    [-31,-123, -82, -31,-122, -85, -31,-124,-123, -31,-123, -82, -31,-122, -86, -31,-124,-123, -31,-123],
    [-82, -31,-122, -87, -31,-124,-123, -31,-123, -82, -31,-122, -88, -31,-124,-123, -31,-123, -83, -31],
    [-121,-126, -31,-124,-123, -31,-123, -83, -31,-121,-127, -31,-124,-123, -31,-123, -83, -31,-121,-128],
    [-31,-124,-123, -31,-123, -83, -31,-122, -65, -31,-124,-123, -31,-123, -83, -31,-122, -66, -31,-124],
    [-123, -31,-123, -83, -31,-122, -67, -31,-124,-123, -31,-123, -83, -31,-122, -68, -31,-124,-123, -31],
    [-123, -83, -31,-122, -69, -31,-124,-123, -31,-123, -83, -31,-122, -70, -31,-124,-123, -31,-123, -83],
    [-31,-122, -71, -31,-124,-123, -31,-123, -83, -31,-122, -72, -31,-124,-123, -31,-123, -83, -31,-122],
    [-73, -31,-124,-123, -31,-123, -83, -31,-122, -74, -31,-124,-123, -31,-123, -83, -31,-122, -75, -31],
    [-124,-123, -31,-123, -83, -31,-122, -76, -31,-124,-123, -31,-123, -83, -31,-122, -77, -31,-124,-123],
    [-31,-123, -83, -31,-122, -78, -31,-124,-123, -31,-123, -83, -31,-122, -79, -31,-124,-123, -31,-123],
    [-83, -31,-122, -80, -31,-124,-123, -31,-123, -83, -31,-122, -81, -31,-124,-123, -31,-123, -83, -31],
    [-122, -82, -31,-124,-123, -31,-123, -83, -31,-122, -83, -31,-124,-123, -31,-123, -83, -31,-122, -84],
    [-31,-124,-123, -31,-123, -83, -31,-122, -85, -31,-124,-123, -31,-123, -83, -31,-122, -86, -31,-124],
    [-123, -31,-123, -83, -31,-122, -87, -31,-124,-123, -31,-123, -83, -31,-122, -88, -31,-124,-123, -31],
    [-123, -84, -31,-121,-126, -31,-124,-123, -31,-123, -84, -31,-121,-127, -31,-124,-123, -31,-123, -84],
    [-31,-121,-128, -31,-124,-123, -31,-123, -84, -31,-122, -65, -31,-124,-123, -31,-123, -84, -31,-122],
    [-66, -31,-124,-123, -31,-123, -84, -31,-122, -67, -31,-124,-123, -31,-123, -84, -31,-122, -68, -31],
    [-124,-123, -31,-123, -84, -31,-122, -69, -31,-124,-123, -31,-123, -84, -31,-122, -70, -31,-124,-123],
    [-31,-123, -84, -31,-122, -71, -31,-124,-123, -31,-123, -84, -31,-122, -72, -31,-124,-123, -31,-123],
    [-84, -31,-122, -73, -31,-124,-123, -31,-123, -84, -31,-122, -74, -31,-124,-123, -31,-123, -84, -31],
    [-122, -75, -31,-124,-123, -31,-123, -84, -31,-122, -76, -31,-124,-123, -31,-123, -84, -31,-122, -77],
    [-31,-124,-123, -31,-123, -84, -31,-122, -78, -31,-124,-123, -31,-123, -84, -31,-122, -79, -31,-124],
    [-123, -31,-123, -84, -31,-122, -80, -31,-124,-123, -31,-123, -84, -31,-122, -81, -31,-124,-123, -31],
    [-123, -84, -31,-122, -82, -31,-124,-123, -31,-123, -84, -31,-122, -83, -31,-124,-123, -31,-123, -84],
    [-31,-122, -84, -31,-124,-123, -31,-123, -84, -31,-122, -85, -31,-124,-123, -31,-123, -84, -31,-122],
    [-86, -31,-124,-123, -31,-123, -84, -31,-122, -87, -31,-124,-123, -31,-123, -84, -31,-122, -88, -31],
    [-124,-123, -31,-123, -85, -31,-121,-126, -31,-124,-123, -31,-123, -85, -31,-121,-127, -31,-124,-123],
    [-31,-123, -85, -31,-121,-128, -31,-124,-123, -31,-123, -85, -31,-122, -65, -31,-124,-123, -31,-123],
    [-85, -31,-122, -66, -31,-124,-123, -31,-123, -85, -31,-122, -67, -31,-124,-123, -31,-123, -85, -31],
    [-122, -68, -31,-124,-123, -31,-123, -85, -31,-122, -69, -31,-124,-123, -31,-123, -85, -31,-122, -70],
    [-31,-124,-123, -31,-123, -85, -31,-122, -71, -31,-124,-123, -31,-123, -85, -31,-122, -72, -31,-124],
    [-123, -31,-123, -85, -31,-122, -73, -31,-124,-123, -31,-123, -85, -31,-122, -74, -31,-124,-123, -31],
    [-123, -85, -31,-122, -75, -31,-124,-123, -31,-123, -85, -31,-122, -76, -31,-124,-123, -31,-123, -85],
    [-31,-122, -77, -31,-124,-123, -31,-123, -85, -31,-122, -78, -31,-124,-123, -31,-123, -85, -31,-122],
    [-79, -31,-124,-123, -31,-123, -85, -31,-122, -80, -31,-124,-123, -31,-123, -85, -31,-122, -81, -31],
    [-124,-123, -31,-123, -85, -31,-122, -82, -31,-124,-123, -31,-123, -85, -31,-122, -83, -31,-124,-123],
    [-31,-123, -85, -31,-122, -84, -31,-124,-123, -31,-123, -85, -31,-122, -85, -31,-124,-123, -31,-123],
    [-85, -31,-122, -86, -31,-124,-123, -31,-123, -85, -31,-122, -87, -31,-124,-123, -31,-123, -85, -31],
    [-122, -88, -31,-124,-123, -31,-123, -86, -31,-121,-126, -31,-124,-123, -31,-123, -86, -31,-121,-127],
    [-31,-124,-123, -31,-123, -86, -31,-121,-128, -31,-124,-123, -31,-123, -86, -31,-122, -65, -31,-124],
    [-123, -31,-123, -86, -31,-122, -66, -31,-124,-123, -31,-123, -86, -31,-122, -67, -31,-124,-123, -31],
    [-123, -86, -31,-122, -68, -31,-124,-123, -31,-123, -86, -31,-122, -69, -31,-124,-123, -31,-123, -86],
    [-31,-122, -70, -31,-124,-123, -31,-123, -86, -31,-122, -71, -31,-124,-123, -31,-123, -86, -31,-122],
    [-72, -31,-124,-123, -31,-123, -86, -31,-122, -73, -31,-124,-123, -31,-123, -86, -31,-122, -74, -31],
    [-124,-123, -31,-123, -86, -31,-122, -75, -31,-124,-123, -31,-123, -86, -31,-122, -76, -31,-124,-123],
    [-31,-123, -86, -31,-122, -77, -31,-124,-123, -31,-123, -86, -31,-122, -78, -31,-124,-123, -31,-123],
    [-86, -31,-122, -79, -31,-124,-123, -31,-123, -86, -31,-122, -80, -31,-124,-123, -31,-123, -86, -31],
    [-122, -81, -31,-124,-123, -31,-123, -86, -31,-122, -82, -31,-124,-123, -31,-123, -86, -31,-122, -83],
    [-31,-124,-123, -31,-123, -86, -31,-122, -84, -31,-124,-123, -31,-123, -86, -31,-122, -85, -31,-124],
    [-123, -31,-123, -86, -31,-122, -86, -31,-124,-123, -31,-123, -86, -31,-122, -87, -31,-124,-123, -31],
    [-123, -86, -31,-122, -88, -31,-124,-123, -31,-123, -87, -31,-121,-126, -31,-124,-123, -31,-123, -87],
    [-31,-121,-127, -31,-124,-123, -31,-123, -87, -31,-121,-128, -31,-124,-123, -31,-123, -87, -31,-122],
    [-65, -31,-124,-123, -31,-123, -87, -31,-122, -66, -31,-124,-123, -31,-123, -87, -31,-122, -67, -31],
    [-124,-123, -31,-123, -87, -31,-122, -68, -31,-124,-123, -31,-123, -87, -31,-122, -69, -31,-124,-123],
    [-31,-123, -87, -31,-122, -70, -31,-124,-123, -31,-123, -87, -31,-122, -71, -31,-124,-123, -31,-123],
    [-87, -31,-122, -72, -31,-124,-123, -31,-123, -87, -31,-122, -73, -31,-124,-123, -31,-123, -87, -31],
    [-122, -74, -31,-124,-123, -31,-123, -87, -31,-122, -75, -31,-124,-123, -31,-123, -87, -31,-122, -76],
    [-31,-124,-123, -31,-123, -87, -31,-122, -77, -31,-124,-123, -31,-123, -87, -31,-122, -78, -31,-124],
    [-123, -31,-123, -87, -31,-122, -79, -31,-124,-123, -31,-123, -87, -31,-122, -80, -31,-124,-123, -31],
    [-123, -87, -31,-122, -81, -31,-124,-123, -31,-123, -87, -31,-122, -82, -31,-124,-123, -31,-123, -87],
    [-31,-122, -83, -31,-124,-123, -31,-123, -87, -31,-122, -84, -31,-124,-123, -31,-123, -87, -31,-122],
    [-85, -31,-124,-123, -31,-123, -87, -31,-122, -86, -31,-124,-123, -31,-123, -87, -31,-122, -87, -31],
    [-124,-123, -31,-123, -87, -31,-122, -88, -31,-124,-123, -31,-123, -88, -31,-121,-126, -31,-124,-123],
    [-31,-123, -88, -31,-121,-127, -31,-124,-123, -31,-123, -88, -31,-121,-128, -31,-124,-123, -31,-123],
    [-88, -31,-122, -65, -31,-124,-123, -31,-123, -88, -31,-122, -66, -31,-124,-123, -31,-123, -88, -31],
    [-122, -67, -31,-124,-123, -31,-123, -88, -31,-122, -68, -31,-124,-123, -31,-123, -88, -31,-122, -69],
    [-31,-124,-123, -31,-123, -88, -31,-122, -70, -31,-124,-123, -31,-123, -88, -31,-122, -71, -31,-124],
    [-123, -31,-123, -88, -31,-122, -72, -31,-124,-123, -31,-123, -88, -31,-122, -73, -31,-124,-123, -31],
    [-123, -88, -31,-122, -74, -31,-124,-123, -31,-123, -88, -31,-122, -75, -31,-124,-123, -31,-123, -88],
    [-31,-122, -76, -31,-124,-123, -31,-123, -88, -31,-122, -77, -31,-124,-123, -31,-123, -88, -31,-122],
    [-78, -31,-124,-123, -31,-123, -88, -31,-122, -79, -31,-124,-123, -31,-123, -88, -31,-122, -80, -31],
    [-124,-123, -31,-123, -88, -31,-122, -81, -31,-124,-123, -31,-123, -88, -31,-122, -82, -31,-124,-123],
    [-31,-123, -88, -31,-122, -83, -31,-124,-123, -31,-123, -88, -31,-122, -84, -31,-124,-123, -31,-123],
    [-88, -31,-122, -85, -31,-124,-123, -31,-123, -88, -31,-122, -86, -31,-124,-123, -31,-123, -88, -31],
    [-122, -87, -31,-124,-123, -31,-123, -88, -31,-122, -88, -31,-124,-123, -31,-123, -89, -31,-121,-126],
    [-31,-124,-123, -31,-123, -89, -31,-121,-127, -31,-124,-123, -31,-123, -89, -31,-121,-128, -31,-124]]"

definition STRINGS_40 :: "int list list" where
  "STRINGS_40 = [
    [-123, -31,-123, -89, -31,-122, -65, -31,-124,-123, -31,-123, -89, -31,-122, -66, -31,-124,-123, -31],
    [-123, -89, -31,-122, -67, -31,-124,-123, -31,-123, -89, -31,-122, -68, -31,-124,-123, -31,-123, -89],
    [-31,-122, -69, -31,-124,-123, -31,-123, -89, -31,-122, -70, -31,-124,-123, -31,-123, -89, -31,-122],
    [-71, -31,-124,-123, -31,-123, -89, -31,-122, -72, -31,-124,-123, -31,-123, -89, -31,-122, -73, -31],
    [-124,-123, -31,-123, -89, -31,-122, -74, -31,-124,-123, -31,-123, -89, -31,-122, -75, -31,-124,-123],
    [-31,-123, -89, -31,-122, -76, -31,-124,-123, -31,-123, -89, -31,-122, -77, -31,-124,-123, -31,-123],
    [-89, -31,-122, -78, -31,-124,-123, -31,-123, -89, -31,-122, -79, -31,-124,-123, -31,-123, -89, -31],
    [-122, -80, -31,-124,-123, -31,-123, -89, -31,-122, -81, -31,-124,-123, -31,-123, -89, -31,-122, -82],
    [-31,-124,-123, -31,-123, -89, -31,-122, -83, -31,-124,-123, -31,-123, -89, -31,-122, -84, -31,-124],
    [-123, -31,-123, -89, -31,-122, -85, -31,-124,-123, -31,-123, -89, -31,-122, -86, -31,-124,-123, -31],
    [-123, -89, -31,-122, -87, -31,-124,-123, -31,-123, -89, -31,-122, -88, -31,-124,-123, -31,-123, -90],
    [-31,-121,-126, -31,-124,-123, -31,-123, -90, -31,-121,-127, -31,-124,-123, -31,-123, -90, -31,-121],
    [-128, -31,-124,-123, -31,-123, -90, -31,-122, -65, -31,-124,-123, -31,-123, -90, -31,-122, -66, -31],
    [-124,-123, -31,-123, -90, -31,-122, -67, -31,-124,-123, -31,-123, -90, -31,-122, -68, -31,-124,-123],
    [-31,-123, -90, -31,-122, -69, -31,-124,-123, -31,-123, -90, -31,-122, -70, -31,-124,-123, -31,-123],
    [-90, -31,-122, -71, -31,-124,-123, -31,-123, -90, -31,-122, -72, -31,-124,-123, -31,-123, -90, -31],
    [-122, -73, -31,-124,-123, -31,-123, -90, -31,-122, -74, -31,-124,-123, -31,-123, -90, -31,-122, -75],
    [-31,-124,-123, -31,-123, -90, -31,-122, -76, -31,-124,-123, -31,-123, -90, -31,-122, -77, -31,-124],
    [-123, -31,-123, -90, -31,-122, -78, -31,-124,-123, -31,-123, -90, -31,-122, -79, -31,-124,-123, -31],
    [-123, -90, -31,-122, -80, -31,-124,-123, -31,-123, -90, -31,-122, -81, -31,-124,-123, -31,-123, -90],
    [-31,-122, -82, -31,-124,-123, -31,-123, -90, -31,-122, -83, -31,-124,-123, -31,-123, -90, -31,-122],
    [-84, -31,-124,-123, -31,-123, -90, -31,-122, -85, -31,-124,-123, -31,-123, -90, -31,-122, -86, -31],
    [-124,-123, -31,-123, -90, -31,-122, -87, -31,-124,-123, -31,-123, -90, -31,-122, -88, -31,-124,-123],
    [-31,-123, -91, -31,-121,-126, -31,-124,-123, -31,-123, -91, -31,-121,-127, -31,-124,-123, -31,-123],
    [-91, -31,-121,-128, -31,-124,-123, -31,-123, -91, -31,-122, -65, -31,-124,-123, -31,-123, -91, -31],
    [-122, -66, -31,-124,-123, -31,-123, -91, -31,-122, -67, -31,-124,-123, -31,-123, -91, -31,-122, -68],
    [-31,-124,-123, -31,-123, -91, -31,-122, -69, -31,-124,-123, -31,-123, -91, -31,-122, -70, -31,-124],
    [-123, -31,-123, -91, -31,-122, -71, -31,-124,-123, -31,-123, -91, -31,-122, -72, -31,-124,-123, -31],
    [-123, -91, -31,-122, -73, -31,-124,-123, -31,-123, -91, -31,-122, -74, -31,-124,-123, -31,-123, -91],
    [-31,-122, -75, -31,-124,-123, -31,-123, -91, -31,-122, -76, -31,-124,-123, -31,-123, -91, -31,-122],
    [-77, -31,-124,-123, -31,-123, -91, -31,-122, -78, -31,-124,-123, -31,-123, -91, -31,-122, -79, -31],
    [-124,-123, -31,-123, -91, -31,-122, -80, -31,-124,-123, -31,-123, -91, -31,-122, -81, -31,-124,-123],
    [-31,-123, -91, -31,-122, -82, -31,-124,-123, -31,-123, -91, -31,-122, -83, -31,-124,-123, -31,-123],
    [-91, -31,-122, -84, -31,-124,-123, -31,-123, -91, -31,-122, -85, -31,-124,-123, -31,-123, -91, -31],
    [-122, -86, -31,-124,-123, -31,-123, -91, -31,-122, -87, -31,-124,-123, -31,-123, -91, -31,-122, -88],
    [-31,-124,-123, -31,-123, -92, -31,-121,-126, -31,-124,-123, -31,-123, -92, -31,-121,-127, -31,-124],
    [-123, -31,-123, -92, -31,-121,-128, -31,-124,-123, -31,-123, -92, -31,-122, -65, -31,-124,-123, -31],
    [-123, -92, -31,-122, -66, -31,-124,-123, -31,-123, -92, -31,-122, -67, -31,-124,-123, -31,-123, -92],
    [-31,-122, -68, -31,-124,-123, -31,-123, -92, -31,-122, -69, -31,-124,-123, -31,-123, -92, -31,-122],
    [-70, -31,-124,-123, -31,-123, -92, -31,-122, -71, -31,-124,-123, -31,-123, -92, -31,-122, -72, -31],
    [-124,-123, -31,-123, -92, -31,-122, -73, -31,-124,-123, -31,-123, -92, -31,-122, -74, -31,-124,-123],
    [-31,-123, -92, -31,-122, -75, -31,-124,-123, -31,-123, -92, -31,-122, -76, -31,-124,-123, -31,-123],
    [-92, -31,-122, -77, -31,-124,-123, -31,-123, -92, -31,-122, -78, -31,-124,-123, -31,-123, -92, -31],
    [-122, -79, -31,-124,-123, -31,-123, -92, -31,-122, -80, -31,-124,-123, -31,-123, -92, -31,-122, -81],
    [-31,-124,-123, -31,-123, -92, -31,-122, -82, -31,-124,-123, -31,-123, -92, -31,-122, -83, -31,-124],
    [-123, -31,-123, -92, -31,-122, -84, -31,-124,-123, -31,-123, -92, -31,-122, -85, -31,-124,-123, -31],
    [-123, -92, -31,-122, -86, -31,-124,-123, -31,-123, -92, -31,-122, -87, -31,-124,-123, -31,-123, -92],
    [-31,-122, -88, -31,-124,-123, -31,-123, -93, -31,-121,-126, -31,-124,-123, -31,-123, -93, -31,-121],
    [-127, -31,-124,-123, -31,-123, -93, -31,-121,-128, -31,-124,-123, -31,-123, -93, -31,-122, -65, -31],
    [-124,-123, -31,-123, -93, -31,-122, -66, -31,-124,-123, -31,-123, -93, -31,-122, -67, -31,-124,-123],
    [-31,-123, -93, -31,-122, -68, -31,-124,-123, -31,-123, -93, -31,-122, -69, -31,-124,-123, -31,-123],
    [-93, -31,-122, -70, -31,-124,-123, -31,-123, -93, -31,-122, -71, -31,-124,-123, -31,-123, -93, -31],
    [-122, -72, -31,-124,-123, -31,-123, -93, -31,-122, -73, -31,-124,-123, -31,-123, -93, -31,-122, -74],
    [-31,-124,-123, -31,-123, -93, -31,-122, -75, -31,-124,-123, -31,-123, -93, -31,-122, -76, -31,-124],
    [-123, -31,-123, -93, -31,-122, -77, -31,-124,-123, -31,-123, -93, -31,-122, -78, -31,-124,-123, -31],
    [-123, -93, -31,-122, -79, -31,-124,-123, -31,-123, -93, -31,-122, -80, -31,-124,-123, -31,-123, -93],
    [-31,-122, -81, -31,-124,-123, -31,-123, -93, -31,-122, -82, -31,-124,-123, -31,-123, -93, -31,-122],
    [-83, -31,-124,-123, -31,-123, -93, -31,-122, -84, -31,-124,-123, -31,-123, -93, -31,-122, -85, -31],
    [-124,-123, -31,-123, -93, -31,-122, -86, -31,-124,-123, -31,-123, -93, -31,-122, -87, -31,-124,-123],
    [-31,-123, -93, -31,-122, -88, -31,-124,-123, -31,-123, -94, -31,-121,-126, -31,-124,-123, -31,-123],
    [-94, -31,-121,-127, -31,-124,-123, -31,-123, -94, -31,-121,-128, -31,-124,-123, -31,-123, -94, -31],
    [-122, -65, -31,-124,-123, -31,-123, -94, -31,-122, -66, -31,-124,-123, -31,-123, -94, -31,-122, -67],
    [-31,-124,-123, -31,-123, -94, -31,-122, -68, -31,-124,-123, -31,-123, -94, -31,-122, -69, -31,-124],
    [-123, -31,-123, -94, -31,-122, -70, -31,-124,-123, -31,-123, -94, -31,-122, -71, -31,-124,-123, -31],
    [-123, -94, -31,-122, -72, -31,-124,-123, -31,-123, -94, -31,-122, -73, -31,-124,-123, -31,-123, -94],
    [-31,-122, -74, -31,-124,-123, -31,-123, -94, -31,-122, -75, -31,-124,-123, -31,-123, -94, -31,-122],
    [-76, -31,-124,-123, -31,-123, -94, -31,-122, -77, -31,-124,-123, -31,-123, -94, -31,-122, -78, -31],
    [-124,-123, -31,-123, -94, -31,-122, -79, -31,-124,-123, -31,-123, -94, -31,-122, -80, -31,-124,-123],
    [-31,-123, -94, -31,-122, -81, -31,-124,-123, -31,-123, -94, -31,-122, -82, -31,-124,-123, -31,-123],
    [-94, -31,-122, -83, -31,-124,-123, -31,-123, -94, -31,-122, -84, -31,-124,-123, -31,-123, -94, -31],
    [-122, -85, -31,-124,-123, -31,-123, -94, -31,-122, -86, -31,-124,-123, -31,-123, -94, -31,-122, -87],
    [-31,-124,-123, -31,-123, -94, -31,-122, -88, -31,-124,-123, -31,-123, -95, -31,-121,-126, -31,-124],
    [-123, -31,-123, -95, -31,-121,-127, -31,-124,-123, -31,-123, -95, -31,-121,-128, -31,-124,-123, -31],
    [-123, -95, -31,-122, -65, -31,-124,-123, -31,-123, -95, -31,-122, -66, -31,-124,-123, -31,-123, -95],
    [-31,-122, -67, -31,-124,-123, -31,-123, -95, -31,-122, -68, -31,-124,-123, -31,-123, -95, -31,-122],
    [-69, -31,-124,-123, -31,-123, -95, -31,-122, -70, -31,-124,-123, -31,-123, -95, -31,-122, -71, -31],
    [-124,-123, -31,-123, -95, -31,-122, -72, -31,-124,-123, -31,-123, -95, -31,-122, -73, -31,-124,-123],
    [-31,-123, -95, -31,-122, -74, -31,-124,-123, -31,-123, -95, -31,-122, -75, -31,-124,-123, -31,-123],
    [-95, -31,-122, -76, -31,-124,-123, -31,-123, -95, -31,-122, -77, -31,-124,-123, -31,-123, -95, -31],
    [-122, -78, -31,-124,-123, -31,-123, -95, -31,-122, -79, -31,-124,-123, -31,-123, -95, -31,-122, -80],
    [-31,-124,-123, -31,-123, -95, -31,-122, -81, -31,-124,-123, -31,-123, -95, -31,-122, -82, -31,-124],
    [-123, -31,-123, -95, -31,-122, -83, -31,-124,-123, -31,-123, -95, -31,-122, -84, -31,-124,-123, -31],
    [-123, -95, -31,-122, -85, -31,-124,-123, -31,-123, -95, -31,-122, -86, -31,-124,-123, -31,-123, -95],
    [-31,-122, -87, -31,-124,-123, -31,-123, -95, -31,-122, -88, -31,-124,-124, -31,-123, -75, -31,-121],
    [-126, -31,-124,-124, -31,-123, -75, -31,-121,-127, -31,-124,-124, -31,-123, -75, -31,-121,-128, -31],
    [-124,-124, -31,-123, -75, -31,-122, -65, -31,-124,-124, -31,-123, -75, -31,-122, -66, -31,-124,-124],
    [-31,-123, -75, -31,-122, -67, -31,-124,-124, -31,-123, -75, -31,-122, -68, -31,-124,-124, -31,-123],
    [-75, -31,-122, -69, -31,-124,-124, -31,-123, -75, -31,-122, -70, -31,-124,-124, -31,-123, -75, -31],
    [-122, -71, -31,-124,-124, -31,-123, -75, -31,-122, -72, -31,-124,-124, -31,-123, -75, -31,-122, -73],
    [-31,-124,-124, -31,-123, -75, -31,-122, -74, -31,-124,-124, -31,-123, -75, -31,-122, -75, -31,-124],
    [-124, -31,-123, -75, -31,-122, -76, -31,-124,-124, -31,-123, -75, -31,-122, -77, -31,-124,-124, -31],
    [-123, -75, -31,-122, -78, -31,-124,-124, -31,-123, -75, -31,-122, -79, -31,-124,-124, -31,-123, -75],
    [-31,-122, -80, -31,-124,-124, -31,-123, -75, -31,-122, -81, -31,-124,-124, -31,-123, -75, -31,-122],
    [-82, -31,-124,-124, -31,-123, -75, -31,-122, -83, -31,-124,-124, -31,-123, -75, -31,-122, -84, -31],
    [-124,-124, -31,-123, -75, -31,-122, -85, -31,-124,-124, -31,-123, -75, -31,-122, -86, -31,-124,-124],
    [-31,-123, -75, -31,-122, -87, -31,-124,-124, -31,-123, -75, -31,-122, -88, -31,-124,-124, -31,-123],
    [-76, -31,-121,-126, -31,-124,-124, -31,-123, -76, -31,-121,-127, -31,-124,-124, -31,-123, -76, -31],
    [-121,-128, -31,-124,-124, -31,-123, -76, -31,-122, -65, -31,-124,-124, -31,-123, -76, -31,-122, -66],
    [-31,-124,-124, -31,-123, -76, -31,-122, -67, -31,-124,-124, -31,-123, -76, -31,-122, -68, -31,-124],
    [-124, -31,-123, -76, -31,-122, -69, -31,-124,-124, -31,-123, -76, -31,-122, -70, -31,-124,-124, -31],
    [-123, -76, -31,-122, -71, -31,-124,-124, -31,-123, -76, -31,-122, -72, -31,-124,-124, -31,-123, -76],
    [-31,-122, -73, -31,-124,-124, -31,-123, -76, -31,-122, -74, -31,-124,-124, -31,-123, -76, -31,-122],
    [-75, -31,-124,-124, -31,-123, -76, -31,-122, -76, -31,-124,-124, -31,-123, -76, -31,-122, -77, -31],
    [-124,-124, -31,-123, -76, -31,-122, -78, -31,-124,-124, -31,-123, -76, -31,-122, -79, -31,-124,-124],
    [-31,-123, -76, -31,-122, -80, -31,-124,-124, -31,-123, -76, -31,-122, -81, -31,-124,-124, -31,-123],
    [-76, -31,-122, -82, -31,-124,-124, -31,-123, -76, -31,-122, -83, -31,-124,-124, -31,-123, -76, -31],
    [-122, -84, -31,-124,-124, -31,-123, -76, -31,-122, -85, -31,-124,-124, -31,-123, -76, -31,-122, -86],
    [-31,-124,-124, -31,-123, -76, -31,-122, -87, -31,-124,-124, -31,-123, -76, -31,-122, -88, -31,-124],
    [-124, -31,-123, -77, -31,-121,-126, -31,-124,-124, -31,-123, -77, -31,-121,-127, -31,-124,-124, -31],
    [-123, -77, -31,-121,-128, -31,-124,-124, -31,-123, -77, -31,-122, -65, -31,-124,-124, -31,-123, -77],
    [-31,-122, -66, -31,-124,-124, -31,-123, -77, -31,-122, -67, -31,-124,-124, -31,-123, -77, -31,-122],
    [-68, -31,-124,-124, -31,-123, -77, -31,-122, -69, -31,-124,-124, -31,-123, -77, -31,-122, -70, -31],
    [-124,-124, -31,-123, -77, -31,-122, -71, -31,-124,-124, -31,-123, -77, -31,-122, -72, -31,-124,-124],
    [-31,-123, -77, -31,-122, -73, -31,-124,-124, -31,-123, -77, -31,-122, -74, -31,-124,-124, -31,-123],
    [-77, -31,-122, -75, -31,-124,-124, -31,-123, -77, -31,-122, -76, -31,-124,-124, -31,-123, -77, -31],
    [-122, -77, -31,-124,-124, -31,-123, -77, -31,-122, -78, -31,-124,-124, -31,-123, -77, -31,-122, -79],
    [-31,-124,-124, -31,-123, -77, -31,-122, -80, -31,-124,-124, -31,-123, -77, -31,-122, -81, -31,-124],
    [-124, -31,-123, -77, -31,-122, -82, -31,-124,-124, -31,-123, -77, -31,-122, -83, -31,-124,-124, -31],
    [-123, -77, -31,-122, -84, -31,-124,-124, -31,-123, -77, -31,-122, -85, -31,-124,-124, -31,-123, -77],
    [-31,-122, -86, -31,-124,-124, -31,-123, -77, -31,-122, -87, -31,-124,-124, -31,-123, -77, -31,-122],
    [-88, -31,-124,-124, -31,-123, -78, -31,-121,-126, -31,-124,-124, -31,-123, -78, -31,-121,-127, -31],
    [-124,-124, -31,-123, -78, -31,-121,-128, -31,-124,-124, -31,-123, -78, -31,-122, -65, -31,-124,-124],
    [-31,-123, -78, -31,-122, -66, -31,-124,-124, -31,-123, -78, -31,-122, -67, -31,-124,-124, -31,-123],
    [-78, -31,-122, -68, -31,-124,-124, -31,-123, -78, -31,-122, -69, -31,-124,-124, -31,-123, -78, -31],
    [-122, -70, -31,-124,-124, -31,-123, -78, -31,-122, -71, -31,-124,-124, -31,-123, -78, -31,-122, -72],
    [-31,-124,-124, -31,-123, -78, -31,-122, -73, -31,-124,-124, -31,-123, -78, -31,-122, -74, -31,-124],
    [-124, -31,-123, -78, -31,-122, -75, -31,-124,-124, -31,-123, -78, -31,-122, -76, -31,-124,-124, -31],
    [-123, -78, -31,-122, -77, -31,-124,-124, -31,-123, -78, -31,-122, -78, -31,-124,-124, -31,-123, -78],
    [-31,-122, -79, -31,-124,-124, -31,-123, -78, -31,-122, -80, -31,-124,-124, -31,-123, -78, -31,-122],
    [-81, -31,-124,-124, -31,-123, -78, -31,-122, -82, -31,-124,-124, -31,-123, -78, -31,-122, -83, -31],
    [-124,-124, -31,-123, -78, -31,-122, -84, -31,-124,-124, -31,-123, -78, -31,-122, -85, -31,-124,-124],
    [-31,-123, -78, -31,-122, -86, -31,-124,-124, -31,-123, -78, -31,-122, -87, -31,-124,-124, -31,-123],
    [-78, -31,-122, -88, -31,-124,-124, -31,-123, -79, -31,-121,-126, -31,-124,-124, -31,-123, -79, -31],
    [-121,-127, -31,-124,-124, -31,-123, -79, -31,-121,-128, -31,-124,-124, -31,-123, -79, -31,-122, -65],
    [-31,-124,-124, -31,-123, -79, -31,-122, -66, -31,-124,-124, -31,-123, -79, -31,-122, -67, -31,-124],
    [-124, -31,-123, -79, -31,-122, -68, -31,-124,-124, -31,-123, -79, -31,-122, -69, -31,-124,-124, -31],
    [-123, -79, -31,-122, -70, -31,-124,-124, -31,-123, -79, -31,-122, -71, -31,-124,-124, -31,-123, -79],
    [-31,-122, -72, -31,-124,-124, -31,-123, -79, -31,-122, -73, -31,-124,-124, -31,-123, -79, -31,-122],
    [-74, -31,-124,-124, -31,-123, -79, -31,-122, -75, -31,-124,-124, -31,-123, -79, -31,-122, -76, -31],
    [-124,-124, -31,-123, -79, -31,-122, -77, -31,-124,-124, -31,-123, -79, -31,-122, -78, -31,-124,-124],
    [-31,-123, -79, -31,-122, -79, -31,-124,-124, -31,-123, -79, -31,-122, -80, -31,-124,-124, -31,-123],
    [-79, -31,-122, -81, -31,-124,-124, -31,-123, -79, -31,-122, -82, -31,-124,-124, -31,-123, -79, -31],
    [-122, -83, -31,-124,-124, -31,-123, -79, -31,-122, -84, -31,-124,-124, -31,-123, -79, -31,-122, -85],
    [-31,-124,-124, -31,-123, -79, -31,-122, -86, -31,-124,-124, -31,-123, -79, -31,-122, -87, -31,-124]]"

definition STRINGS_41 :: "int list list" where
  "STRINGS_41 = [
    [-124, -31,-123, -79, -31,-122, -88, -31,-124,-124, -31,-123, -80, -31,-121,-126, -31,-124,-124, -31],
    [-123, -80, -31,-121,-127, -31,-124,-124, -31,-123, -80, -31,-121,-128, -31,-124,-124, -31,-123, -80],
    [-31,-122, -65, -31,-124,-124, -31,-123, -80, -31,-122, -66, -31,-124,-124, -31,-123, -80, -31,-122],
    [-67, -31,-124,-124, -31,-123, -80, -31,-122, -68, -31,-124,-124, -31,-123, -80, -31,-122, -69, -31],
    [-124,-124, -31,-123, -80, -31,-122, -70, -31,-124,-124, -31,-123, -80, -31,-122, -71, -31,-124,-124],
    [-31,-123, -80, -31,-122, -72, -31,-124,-124, -31,-123, -80, -31,-122, -73, -31,-124,-124, -31,-123],
    [-80, -31,-122, -74, -31,-124,-124, -31,-123, -80, -31,-122, -75, -31,-124,-124, -31,-123, -80, -31],
    [-122, -76, -31,-124,-124, -31,-123, -80, -31,-122, -77, -31,-124,-124, -31,-123, -80, -31,-122, -78],
    [-31,-124,-124, -31,-123, -80, -31,-122, -79, -31,-124,-124, -31,-123, -80, -31,-122, -80, -31,-124],
    [-124, -31,-123, -80, -31,-122, -81, -31,-124,-124, -31,-123, -80, -31,-122, -82, -31,-124,-124, -31],
    [-123, -80, -31,-122, -83, -31,-124,-124, -31,-123, -80, -31,-122, -84, -31,-124,-124, -31,-123, -80],
    [-31,-122, -85, -31,-124,-124, -31,-123, -80, -31,-122, -86, -31,-124,-124, -31,-123, -80, -31,-122],
    [-87, -31,-124,-124, -31,-123, -80, -31,-122, -88, -31,-124,-124, -31,-123, -81, -31,-121,-126, -31],
    [-124,-124, -31,-123, -81, -31,-121,-127, -31,-124,-124, -31,-123, -81, -31,-121,-128, -31,-124,-124],
    [-31,-123, -81, -31,-122, -65, -31,-124,-124, -31,-123, -81, -31,-122, -66, -31,-124,-124, -31,-123],
    [-81, -31,-122, -67, -31,-124,-124, -31,-123, -81, -31,-122, -68, -31,-124,-124, -31,-123, -81, -31],
    [-122, -69, -31,-124,-124, -31,-123, -81, -31,-122, -70, -31,-124,-124, -31,-123, -81, -31,-122, -71],
    [-31,-124,-124, -31,-123, -81, -31,-122, -72, -31,-124,-124, -31,-123, -81, -31,-122, -73, -31,-124],
    [-124, -31,-123, -81, -31,-122, -74, -31,-124,-124, -31,-123, -81, -31,-122, -75, -31,-124,-124, -31],
    [-123, -81, -31,-122, -76, -31,-124,-124, -31,-123, -81, -31,-122, -77, -31,-124,-124, -31,-123, -81],
    [-31,-122, -78, -31,-124,-124, -31,-123, -81, -31,-122, -79, -31,-124,-124, -31,-123, -81, -31,-122],
    [-80, -31,-124,-124, -31,-123, -81, -31,-122, -81, -31,-124,-124, -31,-123, -81, -31,-122, -82, -31],
    [-124,-124, -31,-123, -81, -31,-122, -83, -31,-124,-124, -31,-123, -81, -31,-122, -84, -31,-124,-124],
    [-31,-123, -81, -31,-122, -85, -31,-124,-124, -31,-123, -81, -31,-122, -86, -31,-124,-124, -31,-123],
    [-81, -31,-122, -87, -31,-124,-124, -31,-123, -81, -31,-122, -88, -31,-124,-124, -31,-123, -82, -31],
    [-121,-126, -31,-124,-124, -31,-123, -82, -31,-121,-127, -31,-124,-124, -31,-123, -82, -31,-121,-128],
    [-31,-124,-124, -31,-123, -82, -31,-122, -65, -31,-124,-124, -31,-123, -82, -31,-122, -66, -31,-124],
    [-124, -31,-123, -82, -31,-122, -67, -31,-124,-124, -31,-123, -82, -31,-122, -68, -31,-124,-124, -31],
    [-123, -82, -31,-122, -69, -31,-124,-124, -31,-123, -82, -31,-122, -70, -31,-124,-124, -31,-123, -82],
    [-31,-122, -71, -31,-124,-124, -31,-123, -82, -31,-122, -72, -31,-124,-124, -31,-123, -82, -31,-122],
    [-73, -31,-124,-124, -31,-123, -82, -31,-122, -74, -31,-124,-124, -31,-123, -82, -31,-122, -75, -31],
    [-124,-124, -31,-123, -82, -31,-122, -76, -31,-124,-124, -31,-123, -82, -31,-122, -77, -31,-124,-124],
    [-31,-123, -82, -31,-122, -78, -31,-124,-124, -31,-123, -82, -31,-122, -79, -31,-124,-124, -31,-123],
    [-82, -31,-122, -80, -31,-124,-124, -31,-123, -82, -31,-122, -81, -31,-124,-124, -31,-123, -82, -31],
    [-122, -82, -31,-124,-124, -31,-123, -82, -31,-122, -83, -31,-124,-124, -31,-123, -82, -31,-122, -84],
    [-31,-124,-124, -31,-123, -82, -31,-122, -85, -31,-124,-124, -31,-123, -82, -31,-122, -86, -31,-124],
    [-124, -31,-123, -82, -31,-122, -87, -31,-124,-124, -31,-123, -82, -31,-122, -88, -31,-124,-124, -31],
    [-123, -83, -31,-121,-126, -31,-124,-124, -31,-123, -83, -31,-121,-127, -31,-124,-124, -31,-123, -83],
    [-31,-121,-128, -31,-124,-124, -31,-123, -83, -31,-122, -65, -31,-124,-124, -31,-123, -83, -31,-122],
    [-66, -31,-124,-124, -31,-123, -83, -31,-122, -67, -31,-124,-124, -31,-123, -83, -31,-122, -68, -31],
    [-124,-124, -31,-123, -83, -31,-122, -69, -31,-124,-124, -31,-123, -83, -31,-122, -70, -31,-124,-124],
    [-31,-123, -83, -31,-122, -71, -31,-124,-124, -31,-123, -83, -31,-122, -72, -31,-124,-124, -31,-123],
    [-83, -31,-122, -73, -31,-124,-124, -31,-123, -83, -31,-122, -74, -31,-124,-124, -31,-123, -83, -31],
    [-122, -75, -31,-124,-124, -31,-123, -83, -31,-122, -76, -31,-124,-124, -31,-123, -83, -31,-122, -77],
    [-31,-124,-124, -31,-123, -83, -31,-122, -78, -31,-124,-124, -31,-123, -83, -31,-122, -79, -31,-124],
    [-124, -31,-123, -83, -31,-122, -80, -31,-124,-124, -31,-123, -83, -31,-122, -81, -31,-124,-124, -31],
    [-123, -83, -31,-122, -82, -31,-124,-124, -31,-123, -83, -31,-122, -83, -31,-124,-124, -31,-123, -83],
    [-31,-122, -84, -31,-124,-124, -31,-123, -83, -31,-122, -85, -31,-124,-124, -31,-123, -83, -31,-122],
    [-86, -31,-124,-124, -31,-123, -83, -31,-122, -87, -31,-124,-124, -31,-123, -83, -31,-122, -88, -31],
    [-124,-124, -31,-123, -84, -31,-121,-126, -31,-124,-124, -31,-123, -84, -31,-121,-127, -31,-124,-124],
    [-31,-123, -84, -31,-121,-128, -31,-124,-124, -31,-123, -84, -31,-122, -65, -31,-124,-124, -31,-123],
    [-84, -31,-122, -66, -31,-124,-124, -31,-123, -84, -31,-122, -67, -31,-124,-124, -31,-123, -84, -31],
    [-122, -68, -31,-124,-124, -31,-123, -84, -31,-122, -69, -31,-124,-124, -31,-123, -84, -31,-122, -70],
    [-31,-124,-124, -31,-123, -84, -31,-122, -71, -31,-124,-124, -31,-123, -84, -31,-122, -72, -31,-124],
    [-124, -31,-123, -84, -31,-122, -73, -31,-124,-124, -31,-123, -84, -31,-122, -74, -31,-124,-124, -31],
    [-123, -84, -31,-122, -75, -31,-124,-124, -31,-123, -84, -31,-122, -76, -31,-124,-124, -31,-123, -84],
    [-31,-122, -77, -31,-124,-124, -31,-123, -84, -31,-122, -78, -31,-124,-124, -31,-123, -84, -31,-122],
    [-79, -31,-124,-124, -31,-123, -84, -31,-122, -80, -31,-124,-124, -31,-123, -84, -31,-122, -81, -31],
    [-124,-124, -31,-123, -84, -31,-122, -82, -31,-124,-124, -31,-123, -84, -31,-122, -83, -31,-124,-124],
    [-31,-123, -84, -31,-122, -84, -31,-124,-124, -31,-123, -84, -31,-122, -85, -31,-124,-124, -31,-123],
    [-84, -31,-122, -86, -31,-124,-124, -31,-123, -84, -31,-122, -87, -31,-124,-124, -31,-123, -84, -31],
    [-122, -88, -31,-124,-124, -31,-123, -85, -31,-121,-126, -31,-124,-124, -31,-123, -85, -31,-121,-127],
    [-31,-124,-124, -31,-123, -85, -31,-121,-128, -31,-124,-124, -31,-123, -85, -31,-122, -65, -31,-124],
    [-124, -31,-123, -85, -31,-122, -66, -31,-124,-124, -31,-123, -85, -31,-122, -67, -31,-124,-124, -31],
    [-123, -85, -31,-122, -68, -31,-124,-124, -31,-123, -85, -31,-122, -69, -31,-124,-124, -31,-123, -85],
    [-31,-122, -70, -31,-124,-124, -31,-123, -85, -31,-122, -71, -31,-124,-124, -31,-123, -85, -31,-122],
    [-72, -31,-124,-124, -31,-123, -85, -31,-122, -73, -31,-124,-124, -31,-123, -85, -31,-122, -74, -31],
    [-124,-124, -31,-123, -85, -31,-122, -75, -31,-124,-124, -31,-123, -85, -31,-122, -76, -31,-124,-124],
    [-31,-123, -85, -31,-122, -77, -31,-124,-124, -31,-123, -85, -31,-122, -78, -31,-124,-124, -31,-123],
    [-85, -31,-122, -79, -31,-124,-124, -31,-123, -85, -31,-122, -80, -31,-124,-124, -31,-123, -85, -31],
    [-122, -81, -31,-124,-124, -31,-123, -85, -31,-122, -82, -31,-124,-124, -31,-123, -85, -31,-122, -83],
    [-31,-124,-124, -31,-123, -85, -31,-122, -84, -31,-124,-124, -31,-123, -85, -31,-122, -85, -31,-124],
    [-124, -31,-123, -85, -31,-122, -86, -31,-124,-124, -31,-123, -85, -31,-122, -87, -31,-124,-124, -31],
    [-123, -85, -31,-122, -88, -31,-124,-124, -31,-123, -86, -31,-121,-126, -31,-124,-124, -31,-123, -86],
    [-31,-121,-127, -31,-124,-124, -31,-123, -86, -31,-121,-128, -31,-124,-124, -31,-123, -86, -31,-122],
    [-65, -31,-124,-124, -31,-123, -86, -31,-122, -66, -31,-124,-124, -31,-123, -86, -31,-122, -67, -31],
    [-124,-124, -31,-123, -86, -31,-122, -68, -31,-124,-124, -31,-123, -86, -31,-122, -69, -31,-124,-124],
    [-31,-123, -86, -31,-122, -70, -31,-124,-124, -31,-123, -86, -31,-122, -71, -31,-124,-124, -31,-123],
    [-86, -31,-122, -72, -31,-124,-124, -31,-123, -86, -31,-122, -73, -31,-124,-124, -31,-123, -86, -31],
    [-122, -74, -31,-124,-124, -31,-123, -86, -31,-122, -75, -31,-124,-124, -31,-123, -86, -31,-122, -76],
    [-31,-124,-124, -31,-123, -86, -31,-122, -77, -31,-124,-124, -31,-123, -86, -31,-122, -78, -31,-124],
    [-124, -31,-123, -86, -31,-122, -79, -31,-124,-124, -31,-123, -86, -31,-122, -80, -31,-124,-124, -31],
    [-123, -86, -31,-122, -81, -31,-124,-124, -31,-123, -86, -31,-122, -82, -31,-124,-124, -31,-123, -86],
    [-31,-122, -83, -31,-124,-124, -31,-123, -86, -31,-122, -84, -31,-124,-124, -31,-123, -86, -31,-122],
    [-85, -31,-124,-124, -31,-123, -86, -31,-122, -86, -31,-124,-124, -31,-123, -86, -31,-122, -87, -31],
    [-124,-124, -31,-123, -86, -31,-122, -88, -31,-124,-124, -31,-123, -87, -31,-121,-126, -31,-124,-124],
    [-31,-123, -87, -31,-121,-127, -31,-124,-124, -31,-123, -87, -31,-121,-128, -31,-124,-124, -31,-123],
    [-87, -31,-122, -65, -31,-124,-124, -31,-123, -87, -31,-122, -66, -31,-124,-124, -31,-123, -87, -31],
    [-122, -67, -31,-124,-124, -31,-123, -87, -31,-122, -68, -31,-124,-124, -31,-123, -87, -31,-122, -69],
    [-31,-124,-124, -31,-123, -87, -31,-122, -70, -31,-124,-124, -31,-123, -87, -31,-122, -71, -31,-124],
    [-124, -31,-123, -87, -31,-122, -72, -31,-124,-124, -31,-123, -87, -31,-122, -73, -31,-124,-124, -31],
    [-123, -87, -31,-122, -74, -31,-124,-124, -31,-123, -87, -31,-122, -75, -31,-124,-124, -31,-123, -87],
    [-31,-122, -76, -31,-124,-124, -31,-123, -87, -31,-122, -77, -31,-124,-124, -31,-123, -87, -31,-122],
    [-78, -31,-124,-124, -31,-123, -87, -31,-122, -79, -31,-124,-124, -31,-123, -87, -31,-122, -80, -31],
    [-124,-124, -31,-123, -87, -31,-122, -81, -31,-124,-124, -31,-123, -87, -31,-122, -82, -31,-124,-124],
    [-31,-123, -87, -31,-122, -83, -31,-124,-124, -31,-123, -87, -31,-122, -84, -31,-124,-124, -31,-123],
    [-87, -31,-122, -85, -31,-124,-124, -31,-123, -87, -31,-122, -86, -31,-124,-124, -31,-123, -87, -31],
    [-122, -87, -31,-124,-124, -31,-123, -87, -31,-122, -88, -31,-124,-124, -31,-123, -88, -31,-121,-126],
    [-31,-124,-124, -31,-123, -88, -31,-121,-127, -31,-124,-124, -31,-123, -88, -31,-121,-128, -31,-124],
    [-124, -31,-123, -88, -31,-122, -65, -31,-124,-124, -31,-123, -88, -31,-122, -66, -31,-124,-124, -31],
    [-123, -88, -31,-122, -67, -31,-124,-124, -31,-123, -88, -31,-122, -68, -31,-124,-124, -31,-123, -88],
    [-31,-122, -69, -31,-124,-124, -31,-123, -88, -31,-122, -70, -31,-124,-124, -31,-123, -88, -31,-122],
    [-71, -31,-124,-124, -31,-123, -88, -31,-122, -72, -31,-124,-124, -31,-123, -88, -31,-122, -73, -31],
    [-124,-124, -31,-123, -88, -31,-122, -74, -31,-124,-124, -31,-123, -88, -31,-122, -75, -31,-124,-124],
    [-31,-123, -88, -31,-122, -76, -31,-124,-124, -31,-123, -88, -31,-122, -77, -31,-124,-124, -31,-123],
    [-88, -31,-122, -78, -31,-124,-124, -31,-123, -88, -31,-122, -79, -31,-124,-124, -31,-123, -88, -31],
    [-122, -80, -31,-124,-124, -31,-123, -88, -31,-122, -81, -31,-124,-124, -31,-123, -88, -31,-122, -82],
    [-31,-124,-124, -31,-123, -88, -31,-122, -83, -31,-124,-124, -31,-123, -88, -31,-122, -84, -31,-124],
    [-124, -31,-123, -88, -31,-122, -85, -31,-124,-124, -31,-123, -88, -31,-122, -86, -31,-124,-124, -31],
    [-123, -88, -31,-122, -87, -31,-124,-124, -31,-123, -88, -31,-122, -88, -31,-124,-124, -31,-123, -89],
    [-31,-121,-126, -31,-124,-124, -31,-123, -89, -31,-121,-127, -31,-124,-124, -31,-123, -89, -31,-121],
    [-128, -31,-124,-124, -31,-123, -89, -31,-122, -65, -31,-124,-124, -31,-123, -89, -31,-122, -66, -31],
    [-124,-124, -31,-123, -89, -31,-122, -67, -31,-124,-124, -31,-123, -89, -31,-122, -68, -31,-124,-124],
    [-31,-123, -89, -31,-122, -69, -31,-124,-124, -31,-123, -89, -31,-122, -70, -31,-124,-124, -31,-123],
    [-89, -31,-122, -71, -31,-124,-124, -31,-123, -89, -31,-122, -72, -31,-124,-124, -31,-123, -89, -31],
    [-122, -73, -31,-124,-124, -31,-123, -89, -31,-122, -74, -31,-124,-124, -31,-123, -89, -31,-122, -75],
    [-31,-124,-124, -31,-123, -89, -31,-122, -76, -31,-124,-124, -31,-123, -89, -31,-122, -77, -31,-124],
    [-124, -31,-123, -89, -31,-122, -78, -31,-124,-124, -31,-123, -89, -31,-122, -79, -31,-124,-124, -31],
    [-123, -89, -31,-122, -80, -31,-124,-124, -31,-123, -89, -31,-122, -81, -31,-124,-124, -31,-123, -89],
    [-31,-122, -82, -31,-124,-124, -31,-123, -89, -31,-122, -83, -31,-124,-124, -31,-123, -89, -31,-122],
    [-84, -31,-124,-124, -31,-123, -89, -31,-122, -85, -31,-124,-124, -31,-123, -89, -31,-122, -86, -31],
    [-124,-124, -31,-123, -89, -31,-122, -87, -31,-124,-124, -31,-123, -89, -31,-122, -88, -31,-124,-124],
    [-31,-123, -90, -31,-121,-126, -31,-124,-124, -31,-123, -90, -31,-121,-127, -31,-124,-124, -31,-123],
    [-90, -31,-121,-128, -31,-124,-124, -31,-123, -90, -31,-122, -65, -31,-124,-124, -31,-123, -90, -31],
    [-122, -66, -31,-124,-124, -31,-123, -90, -31,-122, -67, -31,-124,-124, -31,-123, -90, -31,-122, -68],
    [-31,-124,-124, -31,-123, -90, -31,-122, -69, -31,-124,-124, -31,-123, -90, -31,-122, -70, -31,-124],
    [-124, -31,-123, -90, -31,-122, -71, -31,-124,-124, -31,-123, -90, -31,-122, -72, -31,-124,-124, -31],
    [-123, -90, -31,-122, -73, -31,-124,-124, -31,-123, -90, -31,-122, -74, -31,-124,-124, -31,-123, -90],
    [-31,-122, -75, -31,-124,-124, -31,-123, -90, -31,-122, -76, -31,-124,-124, -31,-123, -90, -31,-122],
    [-77, -31,-124,-124, -31,-123, -90, -31,-122, -78, -31,-124,-124, -31,-123, -90, -31,-122, -79, -31],
    [-124,-124, -31,-123, -90, -31,-122, -80, -31,-124,-124, -31,-123, -90, -31,-122, -81, -31,-124,-124],
    [-31,-123, -90, -31,-122, -82, -31,-124,-124, -31,-123, -90, -31,-122, -83, -31,-124,-124, -31,-123],
    [-90, -31,-122, -84, -31,-124,-124, -31,-123, -90, -31,-122, -85, -31,-124,-124, -31,-123, -90, -31],
    [-122, -86, -31,-124,-124, -31,-123, -90, -31,-122, -87, -31,-124,-124, -31,-123, -90, -31,-122, -88],
    [-31,-124,-124, -31,-123, -91, -31,-121,-126, -31,-124,-124, -31,-123, -91, -31,-121,-127, -31,-124],
    [-124, -31,-123, -91, -31,-121,-128, -31,-124,-124, -31,-123, -91, -31,-122, -65, -31,-124,-124, -31],
    [-123, -91, -31,-122, -66, -31,-124,-124, -31,-123, -91, -31,-122, -67, -31,-124,-124, -31,-123, -91],
    [-31,-122, -68, -31,-124,-124, -31,-123, -91, -31,-122, -69, -31,-124,-124, -31,-123, -91, -31,-122],
    [-70, -31,-124,-124, -31,-123, -91, -31,-122, -71, -31,-124,-124, -31,-123, -91, -31,-122, -72, -31],
    [-124,-124, -31,-123, -91, -31,-122, -73, -31,-124,-124, -31,-123, -91, -31,-122, -74, -31,-124,-124],
    [-31,-123, -91, -31,-122, -75, -31,-124,-124, -31,-123, -91, -31,-122, -76, -31,-124,-124, -31,-123],
    [-91, -31,-122, -77, -31,-124,-124, -31,-123, -91, -31,-122, -78, -31,-124,-124, -31,-123, -91, -31],
    [-122, -79, -31,-124,-124, -31,-123, -91, -31,-122, -80, -31,-124,-124, -31,-123, -91, -31,-122, -81],
    [-31,-124,-124, -31,-123, -91, -31,-122, -82, -31,-124,-124, -31,-123, -91, -31,-122, -83, -31,-124]]"

end
