(* ===== verification/Table_Strings_7.thy ===== *)
theory Table_Strings_7
  imports Main
begin

text \<open>
  Lines 12349 to 13356 of \<open>unf/table.hh\<close>: part of the array \<open>STRINGS\<close>, one list per line of the source.
\<close>

definition STRINGS_42 :: "int list list" where
  "STRINGS_42 = [
    [-124, -31,-123, -91, -31,-122, -84, -31,-124,-124, -31,-123, -91, -31,-122, -85, -31,-124,-124, -31],
    [-123, -91, -31,-122, -86, -31,-124,-124, -31,-123, -91, -31,-122, -87, -31,-124,-124, -31,-123, -91],
    [-31,-122, -88, -31,-124,-124, -31,-123, -92, -31,-121,-126, -31,-124,-124, -31,-123, -92, -31,-121],
    [-127, -31,-124,-124, -31,-123, -92, -31,-121,-128, -31,-124,-124, -31,-123, -92, -31,-122, -65, -31],
    [-124,-124, -31,-123, -92, -31,-122, -66, -31,-124,-124, -31,-123, -92, -31,-122, -67, -31,-124,-124],
    [-31,-123, -92, -31,-122, -68, -31,-124,-124, -31,-123, -92, -31,-122, -69, -31,-124,-124, -31,-123],
    [-92, -31,-122, -70, -31,-124,-124, -31,-123, -92, -31,-122, -71, -31,-124,-124, -31,-123, -92, -31],
    [-122, -72, -31,-124,-124, -31,-123, -92, -31,-122, -73, -31,-124,-124, -31,-123, -92, -31,-122, -74],
    [-31,-124,-124, -31,-123, -92, -31,-122, -75, -31,-124,-124, -31,-123, -92, -31,-122, -76, -31,-124],
    [-124, -31,-123, -92, -31,-122, -77, -31,-124,-124, -31,-123, -92, -31,-122, -78, -31,-124,-124, -31],
    [-123, -92, -31,-122, -79, -31,-124,-124, -31,-123, -92, -31,-122, -80, -31,-124,-124, -31,-123, -92],
    [-31,-122, -81, -31,-124,-124, -31,-123, -92, -31,-122, -82, -31,-124,-124, -31,-123, -92, -31,-122],
    [-83, -31,-124,-124, -31,-123, -92, -31,-122, -84, -31,-124,-124, -31,-123, -92, -31,-122, -85, -31],
    [-124,-124, -31,-123, -92, -31,-122, -86, -31,-124,-124, -31,-123, -92, -31,-122, -87, -31,-124,-124],
    [-31,-123, -92, -31,-122, -88, -31,-124,-124, -31,-123, -93, -31,-121,-126, -31,-124,-124, -31,-123],
    [-93, -31,-121,-127, -31,-124,-124, -31,-123, -93, -31,-121,-128, -31,-124,-124, -31,-123, -93, -31],
    [-122, -65, -31,-124,-124, -31,-123, -93, -31,-122, -66, -31,-124,-124, -31,-123, -93, -31,-122, -67],
    [-31,-124,-124, -31,-123, -93, -31,-122, -68, -31,-124,-124, -31,-123, -93, -31,-122, -69, -31,-124],
    [-124, -31,-123, -93, -31,-122, -70, -31,-124,-124, -31,-123, -93, -31,-122, -71, -31,-124,-124, -31],
    [-123, -93, -31,-122, -72, -31,-124,-124, -31,-123, -93, -31,-122, -73, -31,-124,-124, -31,-123, -93],
    [-31,-122, -74, -31,-124,-124, -31,-123, -93, -31,-122, -75, -31,-124,-124, -31,-123, -93, -31,-122],
    [-76, -31,-124,-124, -31,-123, -93, -31,-122, -77, -31,-124,-124, -31,-123, -93, -31,-122, -78, -31],
    [-124,-124, -31,-123, -93, -31,-122, -79, -31,-124,-124, -31,-123, -93, -31,-122, -80, -31,-124,-124],
    [-31,-123, -93, -31,-122, -81, -31,-124,-124, -31,-123, -93, -31,-122, -82, -31,-124,-124, -31,-123],
    [-93, -31,-122, -83, -31,-124,-124, -31,-123, -93, -31,-122, -84, -31,-124,-124, -31,-123, -93, -31],
    [-122, -85, -31,-124,-124, -31,-123, -93, -31,-122, -86, -31,-124,-124, -31,-123, -93, -31,-122, -87],
    [-31,-124,-124, -31,-123, -93, -31,-122, -88, -31,-124,-124, -31,-123, -94, -31,-121,-126, -31,-124],
    [-124, -31,-123, -94, -31,-121,-127, -31,-124,-124, -31,-123, -94, -31,-121,-128, -31,-124,-124, -31],
    [-123, -94, -31,-122, -65, -31,-124,-124, -31,-123, -94, -31,-122, -66, -31,-124,-124, -31,-123, -94],
    [-31,-122, -67, -31,-124,-124, -31,-123, -94, -31,-122, -68, -31,-124,-124, -31,-123, -94, -31,-122],
    [-69, -31,-124,-124, -31,-123, -94, -31,-122, -70, -31,-124,-124, -31,-123, -94, -31,-122, -71, -31],
    [-124,-124, -31,-123, -94, -31,-122, -72, -31,-124,-124, -31,-123, -94, -31,-122, -73, -31,-124,-124],
    [-31,-123, -94, -31,-122, -74, -31,-124,-124, -31,-123, -94, -31,-122, -75, -31,-124,-124, -31,-123],
    [-94, -31,-122, -76, -31,-124,-124, -31,-123, -94, -31,-122, -77, -31,-124,-124, -31,-123, -94, -31],
    [-122, -78, -31,-124,-124, -31,-123, -94, -31,-122, -79, -31,-124,-124, -31,-123, -94, -31,-122, -80],
    [-31,-124,-124, -31,-123, -94, -31,-122, -81, -31,-124,-124, -31,-123, -94, -31,-122, -82, -31,-124],
    [-124, -31,-123, -94, -31,-122, -83, -31,-124,-124, -31,-123, -94, -31,-122, -84, -31,-124,-124, -31],
    [-123, -94, -31,-122, -85, -31,-124,-124, -31,-123, -94, -31,-122, -86, -31,-124,-124, -31,-123, -94],
    [-31,-122, -87, -31,-124,-124, -31,-123, -94, -31,-122, -88, -31,-124,-124, -31,-123, -95, -31,-121],
    [-126, -31,-124,-124, -31,-123, -95, -31,-121,-127, -31,-124,-124, -31,-123, -95, -31,-121,-128, -31],
    [-124,-124, -31,-123, -95, -31,-122, -65, -31,-124,-124, -31,-123, -95, -31,-122, -66, -31,-124,-124],
    [-31,-123, -95, -31,-122, -67, -31,-124,-124, -31,-123, -95, -31,-122, -68, -31,-124,-124, -31,-123],
    [-95, -31,-122, -69, -31,-124,-124, -31,-123, -95, -31,-122, -70, -31,-124,-124, -31,-123, -95, -31],
    [-122, -71, -31,-124,-124, -31,-123, -95, -31,-122, -72, -31,-124,-124, -31,-123, -95, -31,-122, -73],
    [-31,-124,-124, -31,-123, -95, -31,-122, -74, -31,-124,-124, -31,-123, -95, -31,-122, -75, -31,-124],
    [-124, -31,-123, -95, -31,-122, -76, -31,-124,-124, -31,-123, -95, -31,-122, -77, -31,-124,-124, -31],
    [-123, -95, -31,-122, -78, -31,-124,-124, -31,-123, -95, -31,-122, -79, -31,-124,-124, -31,-123, -95],
    [-31,-122, -80, -31,-124,-124, -31,-123, -95, -31,-122, -81, -31,-124,-124, -31,-123, -95, -31,-122],
    [-82, -31,-124,-124, -31,-123, -95, -31,-122, -83, -31,-124,-124, -31,-123, -95, -31,-122, -84, -31],
    [-124,-124, -31,-123, -95, -31,-122, -85, -31,-124,-124, -31,-123, -95, -31,-122, -86, -31,-124,-124],
    [-31,-123, -95, -31,-122, -87, -31,-124,-124, -31,-123, -95, -31,-122, -88, -31,-124,-125, -31,-123],
    [-75, -31,-121,-126, -31,-124,-125, -31,-123, -75, -31,-121,-127, -31,-124,-125, -31,-123, -75, -31],
    [-121,-128, -31,-124,-125, -31,-123, -75, -31,-122, -65, -31,-124,-125, -31,-123, -75, -31,-122, -66],
    [-31,-124,-125, -31,-123, -75, -31,-122, -67, -31,-124,-125, -31,-123, -75, -31,-122, -68, -31,-124],
    [-125, -31,-123, -75, -31,-122, -69, -31,-124,-125, -31,-123, -75, -31,-122, -70, -31,-124,-125, -31],
    [-123, -75, -31,-122, -71, -31,-124,-125, -31,-123, -75, -31,-122, -72, -31,-124,-125, -31,-123, -75],
    [-31,-122, -73, -31,-124,-125, -31,-123, -75, -31,-122, -74, -31,-124,-125, -31,-123, -75, -31,-122],
    [-75, -31,-124,-125, -31,-123, -75, -31,-122, -76, -31,-124,-125, -31,-123, -75, -31,-122, -77, -31],
    [-124,-125, -31,-123, -75, -31,-122, -78, -31,-124,-125, -31,-123, -75, -31,-122, -79, -31,-124,-125],
    [-31,-123, -75, -31,-122, -80, -31,-124,-125, -31,-123, -75, -31,-122, -81, -31,-124,-125, -31,-123],
    [-75, -31,-122, -82, -31,-124,-125, -31,-123, -75, -31,-122, -83, -31,-124,-125, -31,-123, -75, -31],
    [-122, -84, -31,-124,-125, -31,-123, -75, -31,-122, -85, -31,-124,-125, -31,-123, -75, -31,-122, -86],
    [-31,-124,-125, -31,-123, -75, -31,-122, -87, -31,-124,-125, -31,-123, -75, -31,-122, -88, -31,-124],
    [-125, -31,-123, -76, -31,-121,-126, -31,-124,-125, -31,-123, -76, -31,-121,-127, -31,-124,-125, -31],
    [-123, -76, -31,-121,-128, -31,-124,-125, -31,-123, -76, -31,-122, -65, -31,-124,-125, -31,-123, -76],
    [-31,-122, -66, -31,-124,-125, -31,-123, -76, -31,-122, -67, -31,-124,-125, -31,-123, -76, -31,-122],
    [-68, -31,-124,-125, -31,-123, -76, -31,-122, -69, -31,-124,-125, -31,-123, -76, -31,-122, -70, -31],
    [-124,-125, -31,-123, -76, -31,-122, -71, -31,-124,-125, -31,-123, -76, -31,-122, -72, -31,-124,-125],
    [-31,-123, -76, -31,-122, -73, -31,-124,-125, -31,-123, -76, -31,-122, -74, -31,-124,-125, -31,-123],
    [-76, -31,-122, -75, -31,-124,-125, -31,-123, -76, -31,-122, -76, -31,-124,-125, -31,-123, -76, -31],
    [-122, -77, -31,-124,-125, -31,-123, -76, -31,-122, -78, -31,-124,-125, -31,-123, -76, -31,-122, -79],
    [-31,-124,-125, -31,-123, -76, -31,-122, -80, -31,-124,-125, -31,-123, -76, -31,-122, -81, -31,-124],
    [-125, -31,-123, -76, -31,-122, -82, -31,-124,-125, -31,-123, -76, -31,-122, -83, -31,-124,-125, -31],
    [-123, -76, -31,-122, -84, -31,-124,-125, -31,-123, -76, -31,-122, -85, -31,-124,-125, -31,-123, -76],
    [-31,-122, -86, -31,-124,-125, -31,-123, -76, -31,-122, -87, -31,-124,-125, -31,-123, -76, -31,-122],
    [-88, -31,-124,-125, -31,-123, -77, -31,-121,-126, -31,-124,-125, -31,-123, -77, -31,-121,-127, -31],
    [-124,-125, -31,-123, -77, -31,-121,-128, -31,-124,-125, -31,-123, -77, -31,-122, -65, -31,-124,-125],
    [-31,-123, -77, -31,-122, -66, -31,-124,-125, -31,-123, -77, -31,-122, -67, -31,-124,-125, -31,-123],
    [-77, -31,-122, -68, -31,-124,-125, -31,-123, -77, -31,-122, -69, -31,-124,-125, -31,-123, -77, -31],
    [-122, -70, -31,-124,-125, -31,-123, -77, -31,-122, -71, -31,-124,-125, -31,-123, -77, -31,-122, -72],
    [-31,-124,-125, -31,-123, -77, -31,-122, -73, -31,-124,-125, -31,-123, -77, -31,-122, -74, -31,-124],
    [-125, -31,-123, -77, -31,-122, -75, -31,-124,-125, -31,-123, -77, -31,-122, -76, -31,-124,-125, -31],
    [-123, -77, -31,-122, -77, -31,-124,-125, -31,-123, -77, -31,-122, -78, -31,-124,-125, -31,-123, -77],
    [-31,-122, -79, -31,-124,-125, -31,-123, -77, -31,-122, -80, -31,-124,-125, -31,-123, -77, -31,-122],
    [-81, -31,-124,-125, -31,-123, -77, -31,-122, -82, -31,-124,-125, -31,-123, -77, -31,-122, -83, -31],
    [-124,-125, -31,-123, -77, -31,-122, -84, -31,-124,-125, -31,-123, -77, -31,-122, -85, -31,-124,-125],
    [-31,-123, -77, -31,-122, -86, -31,-124,-125, -31,-123, -77, -31,-122, -87, -31,-124,-125, -31,-123],
    [-77, -31,-122, -88, -31,-124,-125, -31,-123, -78, -31,-121,-126, -31,-124,-125, -31,-123, -78, -31],
    [-121,-127, -31,-124,-125, -31,-123, -78, -31,-121,-128, -31,-124,-125, -31,-123, -78, -31,-122, -65],
    [-31,-124,-125, -31,-123, -78, -31,-122, -66, -31,-124,-125, -31,-123, -78, -31,-122, -67, -31,-124],
    [-125, -31,-123, -78, -31,-122, -68, -31,-124,-125, -31,-123, -78, -31,-122, -69, -31,-124,-125, -31],
    [-123, -78, -31,-122, -70, -31,-124,-125, -31,-123, -78, -31,-122, -71, -31,-124,-125, -31,-123, -78],
    [-31,-122, -72, -31,-124,-125, -31,-123, -78, -31,-122, -73, -31,-124,-125, -31,-123, -78, -31,-122],
    [-74, -31,-124,-125, -31,-123, -78, -31,-122, -75, -31,-124,-125, -31,-123, -78, -31,-122, -76, -31],
    [-124,-125, -31,-123, -78, -31,-122, -77, -31,-124,-125, -31,-123, -78, -31,-122, -78, -31,-124,-125],
    [-31,-123, -78, -31,-122, -79, -31,-124,-125, -31,-123, -78, -31,-122, -80, -31,-124,-125, -31,-123],
    [-78, -31,-122, -81, -31,-124,-125, -31,-123, -78, -31,-122, -82, -31,-124,-125, -31,-123, -78, -31],
    [-122, -83, -31,-124,-125, -31,-123, -78, -31,-122, -84, -31,-124,-125, -31,-123, -78, -31,-122, -85],
    [-31,-124,-125, -31,-123, -78, -31,-122, -86, -31,-124,-125, -31,-123, -78, -31,-122, -87, -31,-124],
    [-125, -31,-123, -78, -31,-122, -88, -31,-124,-125, -31,-123, -79, -31,-121,-126, -31,-124,-125, -31],
    [-123, -79, -31,-121,-127, -31,-124,-125, -31,-123, -79, -31,-121,-128, -31,-124,-125, -31,-123, -79],
    [-31,-122, -65, -31,-124,-125, -31,-123, -79, -31,-122, -66, -31,-124,-125, -31,-123, -79, -31,-122],
    [-67, -31,-124,-125, -31,-123, -79, -31,-122, -68, -31,-124,-125, -31,-123, -79, -31,-122, -69, -31],
    [-124,-125, -31,-123, -79, -31,-122, -70, -31,-124,-125, -31,-123, -79, -31,-122, -71, -31,-124,-125],
    [-31,-123, -79, -31,-122, -72, -31,-124,-125, -31,-123, -79, -31,-122, -73, -31,-124,-125, -31,-123],
    [-79, -31,-122, -74, -31,-124,-125, -31,-123, -79, -31,-122, -75, -31,-124,-125, -31,-123, -79, -31],
    [-122, -76, -31,-124,-125, -31,-123, -79, -31,-122, -77, -31,-124,-125, -31,-123, -79, -31,-122, -78],
    [-31,-124,-125, -31,-123, -79, -31,-122, -79, -31,-124,-125, -31,-123, -79, -31,-122, -80, -31,-124],
    [-125, -31,-123, -79, -31,-122, -81, -31,-124,-125, -31,-123, -79, -31,-122, -82, -31,-124,-125, -31],
    [-123, -79, -31,-122, -83, -31,-124,-125, -31,-123, -79, -31,-122, -84, -31,-124,-125, -31,-123, -79],
    [-31,-122, -85, -31,-124,-125, -31,-123, -79, -31,-122, -86, -31,-124,-125, -31,-123, -79, -31,-122],
    [-87, -31,-124,-125, -31,-123, -79, -31,-122, -88, -31,-124,-125, -31,-123, -80, -31,-121,-126, -31],
    [-124,-125, -31,-123, -80, -31,-121,-127, -31,-124,-125, -31,-123, -80, -31,-121,-128, -31,-124,-125],
    [-31,-123, -80, -31,-122, -65, -31,-124,-125, -31,-123, -80, -31,-122, -66, -31,-124,-125, -31,-123],
    [-80, -31,-122, -67, -31,-124,-125, -31,-123, -80, -31,-122, -68, -31,-124,-125, -31,-123, -80, -31],
    [-122, -69, -31,-124,-125, -31,-123, -80, -31,-122, -70, -31,-124,-125, -31,-123, -80, -31,-122, -71],
    [-31,-124,-125, -31,-123, -80, -31,-122, -72, -31,-124,-125, -31,-123, -80, -31,-122, -73, -31,-124],
    [-125, -31,-123, -80, -31,-122, -74, -31,-124,-125, -31,-123, -80, -31,-122, -75, -31,-124,-125, -31],
    [-123, -80, -31,-122, -76, -31,-124,-125, -31,-123, -80, -31,-122, -77, -31,-124,-125, -31,-123, -80],
    [-31,-122, -78, -31,-124,-125, -31,-123, -80, -31,-122, -79, -31,-124,-125, -31,-123, -80, -31,-122],
    [-80, -31,-124,-125, -31,-123, -80, -31,-122, -81, -31,-124,-125, -31,-123, -80, -31,-122, -82, -31],
    [-124,-125, -31,-123, -80, -31,-122, -83, -31,-124,-125, -31,-123, -80, -31,-122, -84, -31,-124,-125],
    [-31,-123, -80, -31,-122, -85, -31,-124,-125, -31,-123, -80, -31,-122, -86, -31,-124,-125, -31,-123],
    [-80, -31,-122, -87, -31,-124,-125, -31,-123, -80, -31,-122, -88, -31,-124,-125, -31,-123, -81, -31],
    [-121,-126, -31,-124,-125, -31,-123, -81, -31,-121,-127, -31,-124,-125, -31,-123, -81, -31,-121,-128],
    [-31,-124,-125, -31,-123, -81, -31,-122, -65, -31,-124,-125, -31,-123, -81, -31,-122, -66, -31,-124],
    [-125, -31,-123, -81, -31,-122, -67, -31,-124,-125, -31,-123, -81, -31,-122, -68, -31,-124,-125, -31],
    [-123, -81, -31,-122, -69, -31,-124,-125, -31,-123, -81, -31,-122, -70, -31,-124,-125, -31,-123, -81],
    [-31,-122, -71, -31,-124,-125, -31,-123, -81, -31,-122, -72, -31,-124,-125, -31,-123, -81, -31,-122],
    [-73, -31,-124,-125, -31,-123, -81, -31,-122, -74, -31,-124,-125, -31,-123, -81, -31,-122, -75, -31],
    [-124,-125, -31,-123, -81, -31,-122, -76, -31,-124,-125, -31,-123, -81, -31,-122, -77, -31,-124,-125],
    [-31,-123, -81, -31,-122, -78, -31,-124,-125, -31,-123, -81, -31,-122, -79, -31,-124,-125, -31,-123],
    [-81, -31,-122, -80, -31,-124,-125, -31,-123, -81, -31,-122, -81, -31,-124,-125, -31,-123, -81, -31],
    [-122, -82, -31,-124,-125, -31,-123, -81, -31,-122, -83, -31,-124,-125, -31,-123, -81, -31,-122, -84],
    [-31,-124,-125, -31,-123, -81, -31,-122, -85, -31,-124,-125, -31,-123, -81, -31,-122, -86, -31,-124],
    [-125, -31,-123, -81, -31,-122, -87, -31,-124,-125, -31,-123, -81, -31,-122, -88, -31,-124,-125, -31],
    [-123, -82, -31,-121,-126, -31,-124,-125, -31,-123, -82, -31,-121,-127, -31,-124,-125, -31,-123, -82],
    [-31,-121,-128, -31,-124,-125, -31,-123, -82, -31,-122, -65, -31,-124,-125, -31,-123, -82, -31,-122],
    [-66, -31,-124,-125, -31,-123, -82, -31,-122, -67, -31,-124,-125, -31,-123, -82, -31,-122, -68, -31],
    [-124,-125, -31,-123, -82, -31,-122, -69, -31,-124,-125, -31,-123, -82, -31,-122, -70, -31,-124,-125],
    [-31,-123, -82, -31,-122, -71, -31,-124,-125, -31,-123, -82, -31,-122, -72, -31,-124,-125, -31,-123],
    [-82, -31,-122, -73, -31,-124,-125, -31,-123, -82, -31,-122, -74, -31,-124,-125, -31,-123, -82, -31],
    [-122, -75, -31,-124,-125, -31,-123, -82, -31,-122, -76, -31,-124,-125, -31,-123, -82, -31,-122, -77],
    [-31,-124,-125, -31,-123, -82, -31,-122, -78, -31,-124,-125, -31,-123, -82, -31,-122, -79, -31,-124]]"

definition STRINGS_43 :: "int list list" where
  "STRINGS_43 = [
    [-125, -31,-123, -82, -31,-122, -80, -31,-124,-125, -31,-123, -82, -31,-122, -81, -31,-124,-125, -31],
    [-123, -82, -31,-122, -82, -31,-124,-125, -31,-123, -82, -31,-122, -83, -31,-124,-125, -31,-123, -82],
    [-31,-122, -84, -31,-124,-125, -31,-123, -82, -31,-122, -85, -31,-124,-125, -31,-123, -82, -31,-122],
    [-86, -31,-124,-125, -31,-123, -82, -31,-122, -87, -31,-124,-125, -31,-123, -82, -31,-122, -88, -31],
    [-124,-125, -31,-123, -83, -31,-121,-126, -31,-124,-125, -31,-123, -83, -31,-121,-127, -31,-124,-125],
    [-31,-123, -83, -31,-121,-128, -31,-124,-125, -31,-123, -83, -31,-122, -65, -31,-124,-125, -31,-123],
    [-83, -31,-122, -66, -31,-124,-125, -31,-123, -83, -31,-122, -67, -31,-124,-125, -31,-123, -83, -31],
    [-122, -68, -31,-124,-125, -31,-123, -83, -31,-122, -69, -31,-124,-125, -31,-123, -83, -31,-122, -70],
    [-31,-124,-125, -31,-123, -83, -31,-122, -71, -31,-124,-125, -31,-123, -83, -31,-122, -72, -31,-124],
    [-125, -31,-123, -83, -31,-122, -73, -31,-124,-125, -31,-123, -83, -31,-122, -74, -31,-124,-125, -31],
    [-123, -83, -31,-122, -75, -31,-124,-125, -31,-123, -83, -31,-122, -76, -31,-124,-125, -31,-123, -83],
    [-31,-122, -77, -31,-124,-125, -31,-123, -83, -31,-122, -78, -31,-124,-125, -31,-123, -83, -31,-122],
    [-79, -31,-124,-125, -31,-123, -83, -31,-122, -80, -31,-124,-125, -31,-123, -83, -31,-122, -81, -31],
    [-124,-125, -31,-123, -83, -31,-122, -82, -31,-124,-125, -31,-123, -83, -31,-122, -83, -31,-124,-125],
    [-31,-123, -83, -31,-122, -84, -31,-124,-125, -31,-123, -83, -31,-122, -85, -31,-124,-125, -31,-123],
    [-83, -31,-122, -86, -31,-124,-125, -31,-123, -83, -31,-122, -87, -31,-124,-125, -31,-123, -83, -31],
    [-122, -88, -31,-124,-125, -31,-123, -84, -31,-121,-126, -31,-124,-125, -31,-123, -84, -31,-121,-127],
    [-31,-124,-125, -31,-123, -84, -31,-121,-128, -31,-124,-125, -31,-123, -84, -31,-122, -65, -31,-124],
    [-125, -31,-123, -84, -31,-122, -66, -31,-124,-125, -31,-123, -84, -31,-122, -67, -31,-124,-125, -31],
    [-123, -84, -31,-122, -68, -31,-124,-125, -31,-123, -84, -31,-122, -69, -31,-124,-125, -31,-123, -84],
    [-31,-122, -70, -31,-124,-125, -31,-123, -84, -31,-122, -71, -31,-124,-125, -31,-123, -84, -31,-122],
    [-72, -31,-124,-125, -31,-123, -84, -31,-122, -73, -31,-124,-125, -31,-123, -84, -31,-122, -74, -31],
    [-124,-125, -31,-123, -84, -31,-122, -75, -31,-124,-125, -31,-123, -84, -31,-122, -76, -31,-124,-125],
    [-31,-123, -84, -31,-122, -77, -31,-124,-125, -31,-123, -84, -31,-122, -78, -31,-124,-125, -31,-123],
    [-84, -31,-122, -79, -31,-124,-125, -31,-123, -84, -31,-122, -80, -31,-124,-125, -31,-123, -84, -31],
    [-122, -81, -31,-124,-125, -31,-123, -84, -31,-122, -82, -31,-124,-125, -31,-123, -84, -31,-122, -83],
    [-31,-124,-125, -31,-123, -84, -31,-122, -84, -31,-124,-125, -31,-123, -84, -31,-122, -85, -31,-124],
    [-125, -31,-123, -84, -31,-122, -86, -31,-124,-125, -31,-123, -84, -31,-122, -87, -31,-124,-125, -31],
    [-123, -84, -31,-122, -88, -31,-124,-125, -31,-123, -85, -31,-121,-126, -31,-124,-125, -31,-123, -85],
    [-31,-121,-127, -31,-124,-125, -31,-123, -85, -31,-121,-128, -31,-124,-125, -31,-123, -85, -31,-122],
    [-65, -31,-124,-125, -31,-123, -85, -31,-122, -66, -31,-124,-125, -31,-123, -85, -31,-122, -67, -31],
    [-124,-125, -31,-123, -85, -31,-122, -68, -31,-124,-125, -31,-123, -85, -31,-122, -69, -31,-124,-125],
    [-31,-123, -85, -31,-122, -70, -31,-124,-125, -31,-123, -85, -31,-122, -71, -31,-124,-125, -31,-123],
    [-85, -31,-122, -72, -31,-124,-125, -31,-123, -85, -31,-122, -73, -31,-124,-125, -31,-123, -85, -31],
    [-122, -74, -31,-124,-125, -31,-123, -85, -31,-122, -75, -31,-124,-125, -31,-123, -85, -31,-122, -76],
    [-31,-124,-125, -31,-123, -85, -31,-122, -77, -31,-124,-125, -31,-123, -85, -31,-122, -78, -31,-124],
    [-125, -31,-123, -85, -31,-122, -79, -31,-124,-125, -31,-123, -85, -31,-122, -80, -31,-124,-125, -31],
    [-123, -85, -31,-122, -81, -31,-124,-125, -31,-123, -85, -31,-122, -82, -31,-124,-125, -31,-123, -85],
    [-31,-122, -83, -31,-124,-125, -31,-123, -85, -31,-122, -84, -31,-124,-125, -31,-123, -85, -31,-122],
    [-85, -31,-124,-125, -31,-123, -85, -31,-122, -86, -31,-124,-125, -31,-123, -85, -31,-122, -87, -31],
    [-124,-125, -31,-123, -85, -31,-122, -88, -31,-124,-125, -31,-123, -86, -31,-121,-126, -31,-124,-125],
    [-31,-123, -86, -31,-121,-127, -31,-124,-125, -31,-123, -86, -31,-121,-128, -31,-124,-125, -31,-123],
    [-86, -31,-122, -65, -31,-124,-125, -31,-123, -86, -31,-122, -66, -31,-124,-125, -31,-123, -86, -31],
    [-122, -67, -31,-124,-125, -31,-123, -86, -31,-122, -68, -31,-124,-125, -31,-123, -86, -31,-122, -69],
    [-31,-124,-125, -31,-123, -86, -31,-122, -70, -31,-124,-125, -31,-123, -86, -31,-122, -71, -31,-124],
    [-125, -31,-123, -86, -31,-122, -72, -31,-124,-125, -31,-123, -86, -31,-122, -73, -31,-124,-125, -31],
    [-123, -86, -31,-122, -74, -31,-124,-125, -31,-123, -86, -31,-122, -75, -31,-124,-125, -31,-123, -86],
    [-31,-122, -76, -31,-124,-125, -31,-123, -86, -31,-122, -77, -31,-124,-125, -31,-123, -86, -31,-122],
    [-78, -31,-124,-125, -31,-123, -86, -31,-122, -79, -31,-124,-125, -31,-123, -86, -31,-122, -80, -31],
    [-124,-125, -31,-123, -86, -31,-122, -81, -31,-124,-125, -31,-123, -86, -31,-122, -82, -31,-124,-125],
    [-31,-123, -86, -31,-122, -83, -31,-124,-125, -31,-123, -86, -31,-122, -84, -31,-124,-125, -31,-123],
    [-86, -31,-122, -85, -31,-124,-125, -31,-123, -86, -31,-122, -86, -31,-124,-125, -31,-123, -86, -31],
    [-122, -87, -31,-124,-125, -31,-123, -86, -31,-122, -88, -31,-124,-125, -31,-123, -87, -31,-121,-126],
    [-31,-124,-125, -31,-123, -87, -31,-121,-127, -31,-124,-125, -31,-123, -87, -31,-121,-128, -31,-124],
    [-125, -31,-123, -87, -31,-122, -65, -31,-124,-125, -31,-123, -87, -31,-122, -66, -31,-124,-125, -31],
    [-123, -87, -31,-122, -67, -31,-124,-125, -31,-123, -87, -31,-122, -68, -31,-124,-125, -31,-123, -87],
    [-31,-122, -69, -31,-124,-125, -31,-123, -87, -31,-122, -70, -31,-124,-125, -31,-123, -87, -31,-122],
    [-71, -31,-124,-125, -31,-123, -87, -31,-122, -72, -31,-124,-125, -31,-123, -87, -31,-122, -73, -31],
    [-124,-125, -31,-123, -87, -31,-122, -74, -31,-124,-125, -31,-123, -87, -31,-122, -75, -31,-124,-125],
    [-31,-123, -87, -31,-122, -76, -31,-124,-125, -31,-123, -87, -31,-122, -77, -31,-124,-125, -31,-123],
    [-87, -31,-122, -78, -31,-124,-125, -31,-123, -87, -31,-122, -79, -31,-124,-125, -31,-123, -87, -31],
    [-122, -80, -31,-124,-125, -31,-123, -87, -31,-122, -81, -31,-124,-125, -31,-123, -87, -31,-122, -82],
    [-31,-124,-125, -31,-123, -87, -31,-122, -83, -31,-124,-125, -31,-123, -87, -31,-122, -84, -31,-124],
    [-125, -31,-123, -87, -31,-122, -85, -31,-124,-125, -31,-123, -87, -31,-122, -86, -31,-124,-125, -31],
    [-123, -87, -31,-122, -87, -31,-124,-125, -31,-123, -87, -31,-122, -88, -31,-124,-125, -31,-123, -88],
    [-31,-121,-126, -31,-124,-125, -31,-123, -88, -31,-121,-127, -31,-124,-125, -31,-123, -88, -31,-121],
    [-128, -31,-124,-125, -31,-123, -88, -31,-122, -65, -31,-124,-125, -31,-123, -88, -31,-122, -66, -31],
    [-124,-125, -31,-123, -88, -31,-122, -67, -31,-124,-125, -31,-123, -88, -31,-122, -68, -31,-124,-125],
    [-31,-123, -88, -31,-122, -69, -31,-124,-125, -31,-123, -88, -31,-122, -70, -31,-124,-125, -31,-123],
    [-88, -31,-122, -71, -31,-124,-125, -31,-123, -88, -31,-122, -72, -31,-124,-125, -31,-123, -88, -31],
    [-122, -73, -31,-124,-125, -31,-123, -88, -31,-122, -74, -31,-124,-125, -31,-123, -88, -31,-122, -75],
    [-31,-124,-125, -31,-123, -88, -31,-122, -76, -31,-124,-125, -31,-123, -88, -31,-122, -77, -31,-124],
    [-125, -31,-123, -88, -31,-122, -78, -31,-124,-125, -31,-123, -88, -31,-122, -79, -31,-124,-125, -31],
    [-123, -88, -31,-122, -80, -31,-124,-125, -31,-123, -88, -31,-122, -81, -31,-124,-125, -31,-123, -88],
    [-31,-122, -82, -31,-124,-125, -31,-123, -88, -31,-122, -83, -31,-124,-125, -31,-123, -88, -31,-122],
    [-84, -31,-124,-125, -31,-123, -88, -31,-122, -85, -31,-124,-125, -31,-123, -88, -31,-122, -86, -31],
    [-124,-125, -31,-123, -88, -31,-122, -87, -31,-124,-125, -31,-123, -88, -31,-122, -88, -31,-124,-125],
    [-31,-123, -89, -31,-121,-126, -31,-124,-125, -31,-123, -89, -31,-121,-127, -31,-124,-125, -31,-123],
    [-89, -31,-121,-128, -31,-124,-125, -31,-123, -89, -31,-122, -65, -31,-124,-125, -31,-123, -89, -31],
    [-122, -66, -31,-124,-125, -31,-123, -89, -31,-122, -67, -31,-124,-125, -31,-123, -89, -31,-122, -68],
    [-31,-124,-125, -31,-123, -89, -31,-122, -69, -31,-124,-125, -31,-123, -89, -31,-122, -70, -31,-124],
    [-125, -31,-123, -89, -31,-122, -71, -31,-124,-125, -31,-123, -89, -31,-122, -72, -31,-124,-125, -31],
    [-123, -89, -31,-122, -73, -31,-124,-125, -31,-123, -89, -31,-122, -74, -31,-124,-125, -31,-123, -89],
    [-31,-122, -75, -31,-124,-125, -31,-123, -89, -31,-122, -76, -31,-124,-125, -31,-123, -89, -31,-122],
    [-77, -31,-124,-125, -31,-123, -89, -31,-122, -78, -31,-124,-125, -31,-123, -89, -31,-122, -79, -31],
    [-124,-125, -31,-123, -89, -31,-122, -80, -31,-124,-125, -31,-123, -89, -31,-122, -81, -31,-124,-125],
    [-31,-123, -89, -31,-122, -82, -31,-124,-125, -31,-123, -89, -31,-122, -83, -31,-124,-125, -31,-123],
    [-89, -31,-122, -84, -31,-124,-125, -31,-123, -89, -31,-122, -85, -31,-124,-125, -31,-123, -89, -31],
    [-122, -86, -31,-124,-125, -31,-123, -89, -31,-122, -87, -31,-124,-125, -31,-123, -89, -31,-122, -88],
    [-31,-124,-125, -31,-123, -90, -31,-121,-126, -31,-124,-125, -31,-123, -90, -31,-121,-127, -31,-124],
    [-125, -31,-123, -90, -31,-121,-128, -31,-124,-125, -31,-123, -90, -31,-122, -65, -31,-124,-125, -31],
    [-123, -90, -31,-122, -66, -31,-124,-125, -31,-123, -90, -31,-122, -67, -31,-124,-125, -31,-123, -90],
    [-31,-122, -68, -31,-124,-125, -31,-123, -90, -31,-122, -69, -31,-124,-125, -31,-123, -90, -31,-122],
    [-70, -31,-124,-125, -31,-123, -90, -31,-122, -71, -31,-124,-125, -31,-123, -90, -31,-122, -72, -31],
    [-124,-125, -31,-123, -90, -31,-122, -73, -31,-124,-125, -31,-123, -90, -31,-122, -74, -31,-124,-125],
    [-31,-123, -90, -31,-122, -75, -31,-124,-125, -31,-123, -90, -31,-122, -76, -31,-124,-125, -31,-123],
    [-90, -31,-122, -77, -31,-124,-125, -31,-123, -90, -31,-122, -78, -31,-124,-125, -31,-123, -90, -31],
    [-122, -79, -31,-124,-125, -31,-123, -90, -31,-122, -80, -31,-124,-125, -31,-123, -90, -31,-122, -81],
    [-31,-124,-125, -31,-123, -90, -31,-122, -82, -31,-124,-125, -31,-123, -90, -31,-122, -83, -31,-124],
    [-125, -31,-123, -90, -31,-122, -84, -31,-124,-125, -31,-123, -90, -31,-122, -85, -31,-124,-125, -31],
    [-123, -90, -31,-122, -86, -31,-124,-125, -31,-123, -90, -31,-122, -87, -31,-124,-125, -31,-123, -90],
    [-31,-122, -88, -31,-124,-125, -31,-123, -91, -31,-121,-126, -31,-124,-125, -31,-123, -91, -31,-121],
    [-127, -31,-124,-125, -31,-123, -91, -31,-121,-128, -31,-124,-125, -31,-123, -91, -31,-122, -65, -31],
    [-124,-125, -31,-123, -91, -31,-122, -66, -31,-124,-125, -31,-123, -91, -31,-122, -67, -31,-124,-125],
    [-31,-123, -91, -31,-122, -68, -31,-124,-125, -31,-123, -91, -31,-122, -69, -31,-124,-125, -31,-123],
    [-91, -31,-122, -70, -31,-124,-125, -31,-123, -91, -31,-122, -71, -31,-124,-125, -31,-123, -91, -31],
    [-122, -72, -31,-124,-125, -31,-123, -91, -31,-122, -73, -31,-124,-125, -31,-123, -91, -31,-122, -74],
    [-31,-124,-125, -31,-123, -91, -31,-122, -75, -31,-124,-125, -31,-123, -91, -31,-122, -76, -31,-124],
    [-125, -31,-123, -91, -31,-122, -77, -31,-124,-125, -31,-123, -91, -31,-122, -78, -31,-124,-125, -31],
    [-123, -91, -31,-122, -79, -31,-124,-125, -31,-123, -91, -31,-122, -80, -31,-124,-125, -31,-123, -91],
    [-31,-122, -81, -31,-124,-125, -31,-123, -91, -31,-122, -82, -31,-124,-125, -31,-123, -91, -31,-122],
    [-83, -31,-124,-125, -31,-123, -91, -31,-122, -84, -31,-124,-125, -31,-123, -91, -31,-122, -85, -31],
    [-124,-125, -31,-123, -91, -31,-122, -86, -31,-124,-125, -31,-123, -91, -31,-122, -87, -31,-124,-125],
    [-31,-123, -91, -31,-122, -88, -31,-124,-125, -31,-123, -92, -31,-121,-126, -31,-124,-125, -31,-123],
    [-92, -31,-121,-127, -31,-124,-125, -31,-123, -92, -31,-121,-128, -31,-124,-125, -31,-123, -92, -31],
    [-122, -65, -31,-124,-125, -31,-123, -92, -31,-122, -66, -31,-124,-125, -31,-123, -92, -31,-122, -67],
    [-31,-124,-125, -31,-123, -92, -31,-122, -68, -31,-124,-125, -31,-123, -92, -31,-122, -69, -31,-124],
    [-125, -31,-123, -92, -31,-122, -70, -31,-124,-125, -31,-123, -92, -31,-122, -71, -31,-124,-125, -31],
    [-123, -92, -31,-122, -72, -31,-124,-125, -31,-123, -92, -31,-122, -73, -31,-124,-125, -31,-123, -92],
    [-31,-122, -74, -31,-124,-125, -31,-123, -92, -31,-122, -75, -31,-124,-125, -31,-123, -92, -31,-122],
    [-76, -31,-124,-125, -31,-123, -92, -31,-122, -77, -31,-124,-125, -31,-123, -92, -31,-122, -78, -31],
    [-124,-125, -31,-123, -92, -31,-122, -79, -31,-124,-125, -31,-123, -92, -31,-122, -80, -31,-124,-125],
    [-31,-123, -92, -31,-122, -81, -31,-124,-125, -31,-123, -92, -31,-122, -82, -31,-124,-125, -31,-123],
    [-92, -31,-122, -83, -31,-124,-125, -31,-123, -92, -31,-122, -84, -31,-124,-125, -31,-123, -92, -31],
    [-122, -85, -31,-124,-125, -31,-123, -92, -31,-122, -86, -31,-124,-125, -31,-123, -92, -31,-122, -87],
    [-31,-124,-125, -31,-123, -92, -31,-122, -88, -31,-124,-125, -31,-123, -93, -31,-121,-126, -31,-124],
    [-125, -31,-123, -93, -31,-121,-127, -31,-124,-125, -31,-123, -93, -31,-121,-128, -31,-124,-125, -31],
    [-123, -93, -31,-122, -65, -31,-124,-125, -31,-123, -93, -31,-122, -66, -31,-124,-125, -31,-123, -93],
    [-31,-122, -67, -31,-124,-125, -31,-123, -93, -31,-122, -68, -31,-124,-125, -31,-123, -93, -31,-122],
    [-69, -31,-124,-125, -31,-123, -93, -31,-122, -70, -31,-124,-125, -31,-123, -93, -31,-122, -71, -31],
    [-124,-125, -31,-123, -93, -31,-122, -72, -31,-124,-125, -31,-123, -93, -31,-122, -73, -31,-124,-125],
    [-31,-123, -93, -31,-122, -74, -31,-124,-125, -31,-123, -93, -31,-122, -75, -31,-124,-125, -31,-123],
    [-93, -31,-122, -76, -31,-124,-125, -31,-123, -93, -31,-122, -77, -31,-124,-125, -31,-123, -93, -31],
    [-122, -78, -31,-124,-125, -31,-123, -93, -31,-122, -79, -31,-124,-125, -31,-123, -93, -31,-122, -80],
    [-31,-124,-125, -31,-123, -93, -31,-122, -81, -31,-124,-125, -31,-123, -93, -31,-122, -82, -31,-124],
    [-125, -31,-123, -93, -31,-122, -83, -31,-124,-125, -31,-123, -93, -31,-122, -84, -31,-124,-125, -31],
    [-123, -93, -31,-122, -85, -31,-124,-125, -31,-123, -93, -31,-122, -86, -31,-124,-125, -31,-123, -93],
    [-31,-122, -87, -31,-124,-125, -31,-123, -93, -31,-122, -88, -31,-124,-125, -31,-123, -94, -31,-121],
    [-126, -31,-124,-125, -31,-123, -94, -31,-121,-127, -31,-124,-125, -31,-123, -94, -31,-121,-128, -31],
    [-124,-125, -31,-123, -94, -31,-122, -65, -31,-124,-125, -31,-123, -94, -31,-122, -66, -31,-124,-125],
    [-31,-123, -94, -31,-122, -67, -31,-124,-125, -31,-123, -94, -31,-122, -68, -31,-124,-125, -31,-123],
    [-94, -31,-122, -69, -31,-124,-125, -31,-123, -94, -31,-122, -70, -31,-124,-125, -31,-123, -94, -31],
    [-122, -71, -31,-124,-125, -31,-123, -94, -31,-122, -72, -31,-124,-125, -31,-123, -94, -31,-122, -73],
    [-31,-124,-125, -31,-123, -94, -31,-122, -74, -31,-124,-125, -31,-123, -94, -31,-122, -75, -31,-124]]"

definition STRINGS_44 :: "int list list" where
  "STRINGS_44 = [
    [-125, -31,-123, -94, -31,-122, -76, -31,-124,-125, -31,-123, -94, -31,-122, -77, -31,-124,-125, -31],
    [-123, -94, -31,-122, -78, -31,-124,-125, -31,-123, -94, -31,-122, -79, -31,-124,-125, -31,-123, -94],
    [-31,-122, -80, -31,-124,-125, -31,-123, -94, -31,-122, -81, -31,-124,-125, -31,-123, -94, -31,-122],
    [-82, -31,-124,-125, -31,-123, -94, -31,-122, -83, -31,-124,-125, -31,-123, -94, -31,-122, -84, -31],
    [-124,-125, -31,-123, -94, -31,-122, -85, -31,-124,-125, -31,-123, -94, -31,-122, -86, -31,-124,-125],
    [-31,-123, -94, -31,-122, -87, -31,-124,-125, -31,-123, -94, -31,-122, -88, -31,-124,-125, -31,-123],
    [-95, -31,-121,-126, -31,-124,-125, -31,-123, -95, -31,-121,-127, -31,-124,-125, -31,-123, -95, -31],
    [-121,-128, -31,-124,-125, -31,-123, -95, -31,-122, -65, -31,-124,-125, -31,-123, -95, -31,-122, -66],
    [-31,-124,-125, -31,-123, -95, -31,-122, -67, -31,-124,-125, -31,-123, -95, -31,-122, -68, -31,-124],
    [-125, -31,-123, -95, -31,-122, -69, -31,-124,-125, -31,-123, -95, -31,-122, -70, -31,-124,-125, -31],
    [-123, -95, -31,-122, -71, -31,-124,-125, -31,-123, -95, -31,-122, -72, -31,-124,-125, -31,-123, -95],
    [-31,-122, -73, -31,-124,-125, -31,-123, -95, -31,-122, -74, -31,-124,-125, -31,-123, -95, -31,-122],
    [-75, -31,-124,-125, -31,-123, -95, -31,-122, -76, -31,-124,-125, -31,-123, -95, -31,-122, -77, -31],
    [-124,-125, -31,-123, -95, -31,-122, -78, -31,-124,-125, -31,-123, -95, -31,-122, -79, -31,-124,-125],
    [-31,-123, -95, -31,-122, -80, -31,-124,-125, -31,-123, -95, -31,-122, -81, -31,-124,-125, -31,-123],
    [-95, -31,-122, -82, -31,-124,-125, -31,-123, -95, -31,-122, -83, -31,-124,-125, -31,-123, -95, -31],
    [-122, -84, -31,-124,-125, -31,-123, -95, -31,-122, -85, -31,-124,-125, -31,-123, -95, -31,-122, -86],
    [-31,-124,-125, -31,-123, -95, -31,-122, -87, -31,-124,-125, -31,-123, -95, -31,-122, -88, -31,-124],
    [-126, -31,-123, -75, -31,-121,-126, -31,-124,-126, -31,-123, -75, -31,-121,-127, -31,-124,-126, -31],
    [-123, -75, -31,-121,-128, -31,-124,-126, -31,-123, -75, -31,-122, -65, -31,-124,-126, -31,-123, -75],
    [-31,-122, -66, -31,-124,-126, -31,-123, -75, -31,-122, -67, -31,-124,-126, -31,-123, -75, -31,-122],
    [-68, -31,-124,-126, -31,-123, -75, -31,-122, -69, -31,-124,-126, -31,-123, -75, -31,-122, -70, -31],
    [-124,-126, -31,-123, -75, -31,-122, -71, -31,-124,-126, -31,-123, -75, -31,-122, -72, -31,-124,-126],
    [-31,-123, -75, -31,-122, -73, -31,-124,-126, -31,-123, -75, -31,-122, -74, -31,-124,-126, -31,-123],
    [-75, -31,-122, -75, -31,-124,-126, -31,-123, -75, -31,-122, -76, -31,-124,-126, -31,-123, -75, -31],
    [-122, -77, -31,-124,-126, -31,-123, -75, -31,-122, -78, -31,-124,-126, -31,-123, -75, -31,-122, -79],
    [-31,-124,-126, -31,-123, -75, -31,-122, -80, -31,-124,-126, -31,-123, -75, -31,-122, -81, -31,-124],
    [-126, -31,-123, -75, -31,-122, -82, -31,-124,-126, -31,-123, -75, -31,-122, -83, -31,-124,-126, -31],
    [-123, -75, -31,-122, -84, -31,-124,-126, -31,-123, -75, -31,-122, -85, -31,-124,-126, -31,-123, -75],
    [-31,-122, -86, -31,-124,-126, -31,-123, -75, -31,-122, -87, -31,-124,-126, -31,-123, -75, -31,-122],
    [-88, -31,-124,-126, -31,-123, -76, -31,-121,-126, -31,-124,-126, -31,-123, -76, -31,-121,-127, -31],
    [-124,-126, -31,-123, -76, -31,-121,-128, -31,-124,-126, -31,-123, -76, -31,-122, -65, -31,-124,-126],
    [-31,-123, -76, -31,-122, -66, -31,-124,-126, -31,-123, -76, -31,-122, -67, -31,-124,-126, -31,-123],
    [-76, -31,-122, -68, -31,-124,-126, -31,-123, -76, -31,-122, -69, -31,-124,-126, -31,-123, -76, -31],
    [-122, -70, -31,-124,-126, -31,-123, -76, -31,-122, -71, -31,-124,-126, -31,-123, -76, -31,-122, -72],
    [-31,-124,-126, -31,-123, -76, -31,-122, -73, -31,-124,-126, -31,-123, -76, -31,-122, -74, -31,-124],
    [-126, -31,-123, -76, -31,-122, -75, -31,-124,-126, -31,-123, -76, -31,-122, -76, -31,-124,-126, -31],
    [-123, -76, -31,-122, -77, -31,-124,-126, -31,-123, -76, -31,-122, -78, -31,-124,-126, -31,-123, -76],
    [-31,-122, -79, -31,-124,-126, -31,-123, -76, -31,-122, -80, -31,-124,-126, -31,-123, -76, -31,-122],
    [-81, -31,-124,-126, -31,-123, -76, -31,-122, -82, -31,-124,-126, -31,-123, -76, -31,-122, -83, -31],
    [-124,-126, -31,-123, -76, -31,-122, -84, -31,-124,-126, -31,-123, -76, -31,-122, -85, -31,-124,-126],
    [-31,-123, -76, -31,-122, -86, -31,-124,-126, -31,-123, -76, -31,-122, -87, -31,-124,-126, -31,-123],
    [-76, -31,-122, -88, -31,-124,-126, -31,-123, -77, -31,-121,-126, -31,-124,-126, -31,-123, -77, -31],
    [-121,-127, -31,-124,-126, -31,-123, -77, -31,-121,-128, -31,-124,-126, -31,-123, -77, -31,-122, -65],
    [-31,-124,-126, -31,-123, -77, -31,-122, -66, -31,-124,-126, -31,-123, -77, -31,-122, -67, -31,-124],
    [-126, -31,-123, -77, -31,-122, -68, -31,-124,-126, -31,-123, -77, -31,-122, -69, -31,-124,-126, -31],
    [-123, -77, -31,-122, -70, -31,-124,-126, -31,-123, -77, -31,-122, -71, -31,-124,-126, -31,-123, -77],
    [-31,-122, -72, -31,-124,-126, -31,-123, -77, -31,-122, -73, -31,-124,-126, -31,-123, -77, -31,-122],
    [-74, -31,-124,-126, -31,-123, -77, -31,-122, -75, -31,-124,-126, -31,-123, -77, -31,-122, -76, -31],
    [-124,-126, -31,-123, -77, -31,-122, -77, -31,-124,-126, -31,-123, -77, -31,-122, -78, -31,-124,-126],
    [-31,-123, -77, -31,-122, -79, -31,-124,-126, -31,-123, -77, -31,-122, -80, -31,-124,-126, -31,-123],
    [-77, -31,-122, -81, -31,-124,-126, -31,-123, -77, -31,-122, -82, -31,-124,-126, -31,-123, -77, -31],
    [-122, -83, -31,-124,-126, -31,-123, -77, -31,-122, -84, -31,-124,-126, -31,-123, -77, -31,-122, -85],
    [-31,-124,-126, -31,-123, -77, -31,-122, -86, -31,-124,-126, -31,-123, -77, -31,-122, -87, -31,-124],
    [-126, -31,-123, -77, -31,-122, -88, -31,-124,-126, -31,-123, -78, -31,-121,-126, -31,-124,-126, -31],
    [-123, -78, -31,-121,-127, -31,-124,-126, -31,-123, -78, -31,-121,-128, -31,-124,-126, -31,-123, -78],
    [-31,-122, -65, -31,-124,-126, -31,-123, -78, -31,-122, -66, -31,-124,-126, -31,-123, -78, -31,-122],
    [-67, -31,-124,-126, -31,-123, -78, -31,-122, -68, -31,-124,-126, -31,-123, -78, -31,-122, -69, -31],
    [-124,-126, -31,-123, -78, -31,-122, -70, -31,-124,-126, -31,-123, -78, -31,-122, -71, -31,-124,-126],
    [-31,-123, -78, -31,-122, -72, -31,-124,-126, -31,-123, -78, -31,-122, -73, -31,-124,-126, -31,-123],
    [-78, -31,-122, -74, -31,-124,-126, -31,-123, -78, -31,-122, -75, -31,-124,-126, -31,-123, -78, -31],
    [-122, -76, -31,-124,-126, -31,-123, -78, -31,-122, -77, -31,-124,-126, -31,-123, -78, -31,-122, -78],
    [-31,-124,-126, -31,-123, -78, -31,-122, -79, -31,-124,-126, -31,-123, -78, -31,-122, -80, -31,-124],
    [-126, -31,-123, -78, -31,-122, -81, -31,-124,-126, -31,-123, -78, -31,-122, -82, -31,-124,-126, -31],
    [-123, -78, -31,-122, -83, -31,-124,-126, -31,-123, -78, -31,-122, -84, -31,-124,-126, -31,-123, -78],
    [-31,-122, -85, -31,-124,-126, -31,-123, -78, -31,-122, -86, -31,-124,-126, -31,-123, -78, -31,-122],
    [-87, -31,-124,-126, -31,-123, -78, -31,-122, -88, -31,-124,-126, -31,-123, -79, -31,-121,-126, -31],
    [-124,-126, -31,-123, -79, -31,-121,-127, -31,-124,-126, -31,-123, -79, -31,-121,-128, -31,-124,-126],
    [-31,-123, -79, -31,-122, -65, -31,-124,-126, -31,-123, -79, -31,-122, -66, -31,-124,-126, -31,-123],
    [-79, -31,-122, -67, -31,-124,-126, -31,-123, -79, -31,-122, -68, -31,-124,-126, -31,-123, -79, -31],
    [-122, -69, -31,-124,-126, -31,-123, -79, -31,-122, -70, -31,-124,-126, -31,-123, -79, -31,-122, -71],
    [-31,-124,-126, -31,-123, -79, -31,-122, -72, -31,-124,-126, -31,-123, -79, -31,-122, -73, -31,-124],
    [-126, -31,-123, -79, -31,-122, -74, -31,-124,-126, -31,-123, -79, -31,-122, -75, -31,-124,-126, -31],
    [-123, -79, -31,-122, -76, -31,-124,-126, -31,-123, -79, -31,-122, -77, -31,-124,-126, -31,-123, -79],
    [-31,-122, -78, -31,-124,-126, -31,-123, -79, -31,-122, -79, -31,-124,-126, -31,-123, -79, -31,-122],
    [-80, -31,-124,-126, -31,-123, -79, -31,-122, -81, -31,-124,-126, -31,-123, -79, -31,-122, -82, -31],
    [-124,-126, -31,-123, -79, -31,-122, -83, -31,-124,-126, -31,-123, -79, -31,-122, -84, -31,-124,-126],
    [-31,-123, -79, -31,-122, -85, -31,-124,-126, -31,-123, -79, -31,-122, -86, -31,-124,-126, -31,-123],
    [-79, -31,-122, -87, -31,-124,-126, -31,-123, -79, -31,-122, -88, -31,-124,-126, -31,-123, -80, -31],
    [-121,-126, -31,-124,-126, -31,-123, -80, -31,-121,-127, -31,-124,-126, -31,-123, -80, -31,-121,-128],
    [-31,-124,-126, -31,-123, -80, -31,-122, -65, -31,-124,-126, -31,-123, -80, -31,-122, -66, -31,-124],
    [-126, -31,-123, -80, -31,-122, -67, -31,-124,-126, -31,-123, -80, -31,-122, -68, -31,-124,-126, -31],
    [-123, -80, -31,-122, -69, -31,-124,-126, -31,-123, -80, -31,-122, -70, -31,-124,-126, -31,-123, -80],
    [-31,-122, -71, -31,-124,-126, -31,-123, -80, -31,-122, -72, -31,-124,-126, -31,-123, -80, -31,-122],
    [-73, -31,-124,-126, -31,-123, -80, -31,-122, -74, -31,-124,-126, -31,-123, -80, -31,-122, -75, -31],
    [-124,-126, -31,-123, -80, -31,-122, -76, -31,-124,-126, -31,-123, -80, -31,-122, -77, -31,-124,-126],
    [-31,-123, -80, -31,-122, -78, -31,-124,-126, -31,-123, -80, -31,-122, -79, -31,-124,-126, -31,-123],
    [-80, -31,-122, -80, -31,-124,-126, -31,-123, -80, -31,-122, -81, -31,-124,-126, -31,-123, -80, -31],
    [-122, -82, -31,-124,-126, -31,-123, -80, -31,-122, -83, -31,-124,-126, -31,-123, -80, -31,-122, -84],
    [-31,-124,-126, -31,-123, -80, -31,-122, -85, -31,-124,-126, -31,-123, -80, -31,-122, -86, -31,-124],
    [-126, -31,-123, -80, -31,-122, -87, -31,-124,-126, -31,-123, -80, -31,-122, -88, -31,-124,-126, -31],
    [-123, -81, -31,-121,-126, -31,-124,-126, -31,-123, -81, -31,-121,-127, -31,-124,-126, -31,-123, -81],
    [-31,-121,-128, -31,-124,-126, -31,-123, -81, -31,-122, -65, -31,-124,-126, -31,-123, -81, -31,-122],
    [-66, -31,-124,-126, -31,-123, -81, -31,-122, -67, -31,-124,-126, -31,-123, -81, -31,-122, -68, -31],
    [-124,-126, -31,-123, -81, -31,-122, -69, -31,-124,-126, -31,-123, -81, -31,-122, -70, -31,-124,-126],
    [-31,-123, -81, -31,-122, -71, -31,-124,-126, -31,-123, -81, -31,-122, -72, -31,-124,-126, -31,-123],
    [-81, -31,-122, -73, -31,-124,-126, -31,-123, -81, -31,-122, -74, -31,-124,-126, -31,-123, -81, -31],
    [-122, -75, -31,-124,-126, -31,-123, -81, -31,-122, -76, -31,-124,-126, -31,-123, -81, -31,-122, -77],
    [-31,-124,-126, -31,-123, -81, -31,-122, -78, -31,-124,-126, -31,-123, -81, -31,-122, -79, -31,-124],
    [-126, -31,-123, -81, -31,-122, -80, -31,-124,-126, -31,-123, -81, -31,-122, -81, -31,-124,-126, -31],
    [-123, -81, -31,-122, -82, -31,-124,-126, -31,-123, -81, -31,-122, -83, -31,-124,-126, -31,-123, -81],
    [-31,-122, -84, -31,-124,-126, -31,-123, -81, -31,-122, -85, -31,-124,-126, -31,-123, -81, -31,-122],
    [-86, -31,-124,-126, -31,-123, -81, -31,-122, -87, -31,-124,-126, -31,-123, -81, -31,-122, -88, -31],
    [-124,-126, -31,-123, -82, -31,-121,-126, -31,-124,-126, -31,-123, -82, -31,-121,-127, -31,-124,-126],
    [-31,-123, -82, -31,-121,-128, -31,-124,-126, -31,-123, -82, -31,-122, -65, -31,-124,-126, -31,-123],
    [-82, -31,-122, -66, -31,-124,-126, -31,-123, -82, -31,-122, -67, -31,-124,-126, -31,-123, -82, -31],
    [-122, -68, -31,-124,-126, -31,-123, -82, -31,-122, -69, -31,-124,-126, -31,-123, -82, -31,-122, -70],
    [-31,-124,-126, -31,-123, -82, -31,-122, -71, -31,-124,-126, -31,-123, -82, -31,-122, -72, -31,-124],
    [-126, -31,-123, -82, -31,-122, -73, -31,-124,-126, -31,-123, -82, -31,-122, -74, -31,-124,-126, -31],
    [-123, -82, -31,-122, -75, -31,-124,-126, -31,-123, -82, -31,-122, -76, -31,-124,-126, -31,-123, -82],
    [-31,-122, -77, -31,-124,-126, -31,-123, -82, -31,-122, -78, -31,-124,-126, -31,-123, -82, -31,-122],
    [-79, -31,-124,-126, -31,-123, -82, -31,-122, -80, -31,-124,-126, -31,-123, -82, -31,-122, -81, -31],
    [-124,-126, -31,-123, -82, -31,-122, -82, -31,-124,-126, -31,-123, -82, -31,-122, -83, -31,-124,-126],
    [-31,-123, -82, -31,-122, -84, -31,-124,-126, -31,-123, -82, -31,-122, -85, -31,-124,-126, -31,-123],
    [-82, -31,-122, -86, -31,-124,-126, -31,-123, -82, -31,-122, -87, -31,-124,-126, -31,-123, -82, -31],
    [-122, -88, -31,-124,-126, -31,-123, -83, -31,-121,-126, -31,-124,-126, -31,-123, -83, -31,-121,-127],
    [-31,-124,-126, -31,-123, -83, -31,-121,-128, -31,-124,-126, -31,-123, -83, -31,-122, -65, -31,-124],
    [-126, -31,-123, -83, -31,-122, -66, -31,-124,-126, -31,-123, -83, -31,-122, -67, -31,-124,-126, -31],
    [-123, -83, -31,-122, -68, -31,-124,-126, -31,-123, -83, -31,-122, -69, -31,-124,-126, -31,-123, -83],
    [-31,-122, -70, -31,-124,-126, -31,-123, -83, -31,-122, -71, -31,-124,-126, -31,-123, -83, -31,-122],
    [-72, -31,-124,-126, -31,-123, -83, -31,-122, -73, -31,-124,-126, -31,-123, -83, -31,-122, -74, -31],
    [-124,-126, -31,-123, -83, -31,-122, -75, -31,-124,-126, -31,-123, -83, -31,-122, -76, -31,-124,-126],
    [-31,-123, -83, -31,-122, -77, -31,-124,-126, -31,-123, -83, -31,-122, -78, -31,-124,-126, -31,-123],
    [-83, -31,-122, -79, -31,-124,-126, -31,-123, -83, -31,-122, -80, -31,-124,-126, -31,-123, -83, -31],
    [-122, -81, -31,-124,-126, -31,-123, -83, -31,-122, -82, -31,-124,-126, -31,-123, -83, -31,-122, -83],
    [-31,-124,-126, -31,-123, -83, -31,-122, -84, -31,-124,-126, -31,-123, -83, -31,-122, -85, -31,-124],
    [-126, -31,-123, -83, -31,-122, -86, -31,-124,-126, -31,-123, -83, -31,-122, -87, -31,-124,-126, -31],
    [-123, -83, -31,-122, -88, -31,-124,-126, -31,-123, -84, -31,-121,-126, -31,-124,-126, -31,-123, -84],
    [-31,-121,-127, -31,-124,-126, -31,-123, -84, -31,-121,-128, -31,-124,-126, -31,-123, -84, -31,-122],
    [-65, -31,-124,-126, -31,-123, -84, -31,-122, -66, -31,-124,-126, -31,-123, -84, -31,-122, -67, -31],
    [-124,-126, -31,-123, -84, -31,-122, -68, -31,-124,-126, -31,-123, -84, -31,-122, -69, -31,-124,-126],
    [-31,-123, -84, -31,-122, -70, -31,-124,-126, -31,-123, -84, -31,-122, -71, -31,-124,-126, -31,-123],
    [-84, -31,-122, -72, -31,-124,-126, -31,-123, -84, -31,-122, -73, -31,-124,-126, -31,-123, -84, -31],
    [-122, -74, -31,-124,-126, -31,-123, -84, -31,-122, -75, -31,-124,-126, -31,-123, -84, -31,-122, -76],
    [-31,-124,-126, -31,-123, -84, -31,-122, -77, -31,-124,-126, -31,-123, -84, -31,-122, -78, -31,-124],
    [-126, -31,-123, -84, -31,-122, -79, -31,-124,-126, -31,-123, -84, -31,-122, -80, -31,-124,-126, -31],
    [-123, -84, -31,-122, -81, -31,-124,-126, -31,-123, -84, -31,-122, -82, -31,-124,-126, -31,-123, -84],
    [-31,-122, -83, -31,-124,-126, -31,-123, -84, -31,-122, -84, -31,-124,-126, -31,-123, -84, -31,-122],
    [-85, -31,-124,-126, -31,-123, -84, -31,-122, -86, -31,-124,-126, -31,-123, -84, -31,-122, -87, -31],
    [-124,-126, -31,-123, -84, -31,-122, -88, -31,-124,-126, -31,-123, -85, -31,-121,-126, -31,-124,-126],
    [-31,-123, -85, -31,-121,-127, -31,-124,-126, -31,-123, -85, -31,-121,-128, -31,-124,-126, -31,-123],
    [-85, -31,-122, -65, -31,-124,-126, -31,-123, -85, -31,-122, -66, -31,-124,-126, -31,-123, -85, -31],
    [-122, -67, -31,-124,-126, -31,-123, -85, -31,-122, -68, -31,-124,-126, -31,-123, -85, -31,-122, -69],
    [-31,-124,-126, -31,-123, -85, -31,-122, -70, -31,-124,-126, -31,-123, -85, -31,-122, -71, -31,-124]]"

definition STRINGS_45 :: "int list list" where
  "STRINGS_45 = [
    [-126, -31,-123, -85, -31,-122, -72, -31,-124,-126, -31,-123, -85, -31,-122, -73, -31,-124,-126, -31],
    [-123, -85, -31,-122, -74, -31,-124,-126, -31,-123, -85, -31,-122, -75, -31,-124,-126, -31,-123, -85],
    [-31,-122, -76, -31,-124,-126, -31,-123, -85, -31,-122, -77, -31,-124,-126, -31,-123, -85, -31,-122],
    [-78, -31,-124,-126, -31,-123, -85, -31,-122, -79, -31,-124,-126, -31,-123, -85, -31,-122, -80, -31],
    [-124,-126, -31,-123, -85, -31,-122, -81, -31,-124,-126, -31,-123, -85, -31,-122, -82, -31,-124,-126],
    [-31,-123, -85, -31,-122, -83, -31,-124,-126, -31,-123, -85, -31,-122, -84, -31,-124,-126, -31,-123],
    [-85, -31,-122, -85, -31,-124,-126, -31,-123, -85, -31,-122, -86, -31,-124,-126, -31,-123, -85, -31],
    [-122, -87, -31,-124,-126, -31,-123, -85, -31,-122, -88, -31,-124,-126, -31,-123, -86, -31,-121,-126],
    [-31,-124,-126, -31,-123, -86, -31,-121,-127, -31,-124,-126, -31,-123, -86, -31,-121,-128, -31,-124],
    [-126, -31,-123, -86, -31,-122, -65, -31,-124,-126, -31,-123, -86, -31,-122, -66, -31,-124,-126, -31],
    [-123, -86, -31,-122, -67, -31,-124,-126, -31,-123, -86, -31,-122, -68, -31,-124,-126, -31,-123, -86],
    [-31,-122, -69, -31,-124,-126, -31,-123, -86, -31,-122, -70, -31,-124,-126, -31,-123, -86, -31,-122],
    [-71, -31,-124,-126, -31,-123, -86, -31,-122, -72, -31,-124,-126, -31,-123, -86, -31,-122, -73, -31],
    [-124,-126, -31,-123, -86, -31,-122, -74, -31,-124,-126, -31,-123, -86, -31,-122, -75, -31,-124,-126],
    [-31,-123, -86, -31,-122, -76, -31,-124,-126, -31,-123, -86, -31,-122, -77, -31,-124,-126, -31,-123],
    [-86, -31,-122, -78, -31,-124,-126, -31,-123, -86, -31,-122, -79, -31,-124,-126, -31,-123, -86, -31],
    [-122, -80, -31,-124,-126, -31,-123, -86, -31,-122, -81, -31,-124,-126, -31,-123, -86, -31,-122, -82],
    [-31,-124,-126, -31,-123, -86, -31,-122, -83, -31,-124,-126, -31,-123, -86, -31,-122, -84, -31,-124],
    [-126, -31,-123, -86, -31,-122, -85, -31,-124,-126, -31,-123, -86, -31,-122, -86, -31,-124,-126, -31],
    [-123, -86, -31,-122, -87, -31,-124,-126, -31,-123, -86, -31,-122, -88, -31,-124,-126, -31,-123, -87],
    [-31,-121,-126, -31,-124,-126, -31,-123, -87, -31,-121,-127, -31,-124,-126, -31,-123, -87, -31,-121],
    [-128, -31,-124,-126, -31,-123, -87, -31,-122, -65, -31,-124,-126, -31,-123, -87, -31,-122, -66, -31],
    [-124,-126, -31,-123, -87, -31,-122, -67, -31,-124,-126, -31,-123, -87, -31,-122, -68, -31,-124,-126],
    [-31,-123, -87, -31,-122, -69, -31,-124,-126, -31,-123, -87, -31,-122, -70, -31,-124,-126, -31,-123],
    [-87, -31,-122, -71, -31,-124,-126, -31,-123, -87, -31,-122, -72, -31,-124,-126, -31,-123, -87, -31],
    [-122, -73, -31,-124,-126, -31,-123, -87, -31,-122, -74, -31,-124,-126, -31,-123, -87, -31,-122, -75],
    [-31,-124,-126, -31,-123, -87, -31,-122, -76, -31,-124,-126, -31,-123, -87, -31,-122, -77, -31,-124],
    [-126, -31,-123, -87, -31,-122, -78, -31,-124,-126, -31,-123, -87, -31,-122, -79, -31,-124,-126, -31],
    [-123, -87, -31,-122, -80, -31,-124,-126, -31,-123, -87, -31,-122, -81, -31,-124,-126, -31,-123, -87],
    [-31,-122, -82, -31,-124,-126, -31,-123, -87, -31,-122, -83, -31,-124,-126, -31,-123, -87, -31,-122],
    [-84, -31,-124,-126, -31,-123, -87, -31,-122, -85, -31,-124,-126, -31,-123, -87, -31,-122, -86, -31],
    [-124,-126, -31,-123, -87, -31,-122, -87, -31,-124,-126, -31,-123, -87, -31,-122, -88, -31,-124,-126],
    [-31,-123, -88, -31,-121,-126, -31,-124,-126, -31,-123, -88, -31,-121,-127, -31,-124,-126, -31,-123],
    [-88, -31,-121,-128, -31,-124,-126, -31,-123, -88, -31,-122, -65, -31,-124,-126, -31,-123, -88, -31],
    [-122, -66, -31,-124,-126, -31,-123, -88, -31,-122, -67, -31,-124,-126, -31,-123, -88, -31,-122, -68],
    [-31,-124,-126, -31,-123, -88, -31,-122, -69, -31,-124,-126, -31,-123, -88, -31,-122, -70, -31,-124],
    [-126, -31,-123, -88, -31,-122, -71, -31,-124,-126, -31,-123, -88, -31,-122, -72, -31,-124,-126, -31],
    [-123, -88, -31,-122, -73, -31,-124,-126, -31,-123, -88, -31,-122, -74, -31,-124,-126, -31,-123, -88],
    [-31,-122, -75, -31,-124,-126, -31,-123, -88, -31,-122, -76, -31,-124,-126, -31,-123, -88, -31,-122],
    [-77, -31,-124,-126, -31,-123, -88, -31,-122, -78, -31,-124,-126, -31,-123, -88, -31,-122, -79, -31],
    [-124,-126, -31,-123, -88, -31,-122, -80, -31,-124,-126, -31,-123, -88, -31,-122, -81, -31,-124,-126],
    [-31,-123, -88, -31,-122, -82, -31,-124,-126, -31,-123, -88, -31,-122, -83, -31,-124,-126, -31,-123],
    [-88, -31,-122, -84, -31,-124,-126, -31,-123, -88, -31,-122, -85, -31,-124,-126, -31,-123, -88, -31],
    [-122, -86, -31,-124,-126, -31,-123, -88, -31,-122, -87, -31,-124,-126, -31,-123, -88, -31,-122, -88],
    [-31,-124,-126, -31,-123, -89, -31,-121,-126, -31,-124,-126, -31,-123, -89, -31,-121,-127, -31,-124],
    [-126, -31,-123, -89, -31,-121,-128, -31,-124,-126, -31,-123, -89, -31,-122, -65, -31,-124,-126, -31],
    [-123, -89, -31,-122, -66, -31,-124,-126, -31,-123, -89, -31,-122, -67, -31,-124,-126, -31,-123, -89],
    [-31,-122, -68, -31,-124,-126, -31,-123, -89, -31,-122, -69, -31,-124,-126, -31,-123, -89, -31,-122],
    [-70, -31,-124,-126, -31,-123, -89, -31,-122, -71, -31,-124,-126, -31,-123, -89, -31,-122, -72, -31],
    [-124,-126, -31,-123, -89, -31,-122, -73, -31,-124,-126, -31,-123, -89, -31,-122, -74, -31,-124,-126],
    [-31,-123, -89, -31,-122, -75, -31,-124,-126, -31,-123, -89, -31,-122, -76, -31,-124,-126, -31,-123],
    [-89, -31,-122, -77, -31,-124,-126, -31,-123, -89, -31,-122, -78, -31,-124,-126, -31,-123, -89, -31],
    [-122, -79, -31,-124,-126, -31,-123, -89, -31,-122, -80, -31,-124,-126, -31,-123, -89, -31,-122, -81],
    [-31,-124,-126, -31,-123, -89, -31,-122, -82, -31,-124,-126, -31,-123, -89, -31,-122, -83, -31,-124],
    [-126, -31,-123, -89, -31,-122, -84, -31,-124,-126, -31,-123, -89, -31,-122, -85, -31,-124,-126, -31],
    [-123, -89, -31,-122, -86, -31,-124,-126, -31,-123, -89, -31,-122, -87, -31,-124,-126, -31,-123, -89],
    [-31,-122, -88, -31,-124,-126, -31,-123, -90, -31,-121,-126, -31,-124,-126, -31,-123, -90, -31,-121],
    [-127, -31,-124,-126, -31,-123, -90, -31,-121,-128, -31,-124,-126, -31,-123, -90, -31,-122, -65, -31],
    [-124,-126, -31,-123, -90, -31,-122, -66, -31,-124,-126, -31,-123, -90, -31,-122, -67, -31,-124,-126],
    [-31,-123, -90, -31,-122, -68, -31,-124,-126, -31,-123, -90, -31,-122, -69, -31,-124,-126, -31,-123],
    [-90, -31,-122, -70, -31,-124,-126, -31,-123, -90, -31,-122, -71, -31,-124,-126, -31,-123, -90, -31],
    [-122, -72, -31,-124,-126, -31,-123, -90, -31,-122, -73, -31,-124,-126, -31,-123, -90, -31,-122, -74],
    [-31,-124,-126, -31,-123, -90, -31,-122, -75, -31,-124,-126, -31,-123, -90, -31,-122, -76, -31,-124],
    [-126, -31,-123, -90, -31,-122, -77, -31,-124,-126, -31,-123, -90, -31,-122, -78, -31,-124,-126, -31],
    [-123, -90, -31,-122, -79, -31,-124,-126, -31,-123, -90, -31,-122, -80, -31,-124,-126, -31,-123, -90],
    [-31,-122, -81, -31,-124,-126, -31,-123, -90, -31,-122, -82, -31,-124,-126, -31,-123, -90, -31,-122],
    [-83, -31,-124,-126, -31,-123, -90, -31,-122, -84, -31,-124,-126, -31,-123, -90, -31,-122, -85, -31],
    [-124,-126, -31,-123, -90, -31,-122, -86, -31,-124,-126, -31,-123, -90, -31,-122, -87, -31,-124,-126],
    [-31,-123, -90, -31,-122, -88, -31,-124,-126, -31,-123, -91, -31,-121,-126, -31,-124,-126, -31,-123],
    [-91, -31,-121,-127, -31,-124,-126, -31,-123, -91, -31,-121,-128, -31,-124,-126, -31,-123, -91, -31],
    [-122, -65, -31,-124,-126, -31,-123, -91, -31,-122, -66, -31,-124,-126, -31,-123, -91, -31,-122, -67],
    [-31,-124,-126, -31,-123, -91, -31,-122, -68, -31,-124,-126, -31,-123, -91, -31,-122, -69, -31,-124],
    [-126, -31,-123, -91, -31,-122, -70, -31,-124,-126, -31,-123, -91, -31,-122, -71, -31,-124,-126, -31],
    [-123, -91, -31,-122, -72, -31,-124,-126, -31,-123, -91, -31,-122, -73, -31,-124,-126, -31,-123, -91],
    [-31,-122, -74, -31,-124,-126, -31,-123, -91, -31,-122, -75, -31,-124,-126, -31,-123, -91, -31,-122],
    [-76, -31,-124,-126, -31,-123, -91, -31,-122, -77, -31,-124,-126, -31,-123, -91, -31,-122, -78, -31],
    [-124,-126, -31,-123, -91, -31,-122, -79, -31,-124,-126, -31,-123, -91, -31,-122, -80, -31,-124,-126],
    [-31,-123, -91, -31,-122, -81, -31,-124,-126, -31,-123, -91, -31,-122, -82, -31,-124,-126, -31,-123],
    [-91, -31,-122, -83, -31,-124,-126, -31,-123, -91, -31,-122, -84, -31,-124,-126, -31,-123, -91, -31],
    [-122, -85, -31,-124,-126, -31,-123, -91, -31,-122, -86, -31,-124,-126, -31,-123, -91, -31,-122, -87],
    [-31,-124,-126, -31,-123, -91, -31,-122, -88, -31,-124,-126, -31,-123, -92, -31,-121,-126, -31,-124],
    [-126, -31,-123, -92, -31,-121,-127, -31,-124,-126, -31,-123, -92, -31,-121,-128, -31,-124,-126, -31],
    [-123, -92, -31,-122, -65, -31,-124,-126, -31,-123, -92, -31,-122, -66, -31,-124,-126, -31,-123, -92],
    [-31,-122, -67, -31,-124,-126, -31,-123, -92, -31,-122, -68, -31,-124,-126, -31,-123, -92, -31,-122],
    [-69, -31,-124,-126, -31,-123, -92, -31,-122, -70, -31,-124,-126, -31,-123, -92, -31,-122, -71, -31],
    [-124,-126, -31,-123, -92, -31,-122, -72, -31,-124,-126, -31,-123, -92, -31,-122, -73, -31,-124,-126],
    [-31,-123, -92, -31,-122, -74, -31,-124,-126, -31,-123, -92, -31,-122, -75, -31,-124,-126, -31,-123],
    [-92, -31,-122, -76, -31,-124,-126, -31,-123, -92, -31,-122, -77, -31,-124,-126, -31,-123, -92, -31],
    [-122, -78, -31,-124,-126, -31,-123, -92, -31,-122, -79, -31,-124,-126, -31,-123, -92, -31,-122, -80],
    [-31,-124,-126, -31,-123, -92, -31,-122, -81, -31,-124,-126, -31,-123, -92, -31,-122, -82, -31,-124],
    [-126, -31,-123, -92, -31,-122, -83, -31,-124,-126, -31,-123, -92, -31,-122, -84, -31,-124,-126, -31],
    [-123, -92, -31,-122, -85, -31,-124,-126, -31,-123, -92, -31,-122, -86, -31,-124,-126, -31,-123, -92],
    [-31,-122, -87, -31,-124,-126, -31,-123, -92, -31,-122, -88, -31,-124,-126, -31,-123, -93, -31,-121],
    [-126, -31,-124,-126, -31,-123, -93, -31,-121,-127, -31,-124,-126, -31,-123, -93, -31,-121,-128, -31],
    [-124,-126, -31,-123, -93, -31,-122, -65, -31,-124,-126, -31,-123, -93, -31,-122, -66, -31,-124,-126],
    [-31,-123, -93, -31,-122, -67, -31,-124,-126, -31,-123, -93, -31,-122, -68, -31,-124,-126, -31,-123],
    [-93, -31,-122, -69, -31,-124,-126, -31,-123, -93, -31,-122, -70, -31,-124,-126, -31,-123, -93, -31],
    [-122, -71, -31,-124,-126, -31,-123, -93, -31,-122, -72, -31,-124,-126, -31,-123, -93, -31,-122, -73],
    [-31,-124,-126, -31,-123, -93, -31,-122, -74, -31,-124,-126, -31,-123, -93, -31,-122, -75, -31,-124],
    [-126, -31,-123, -93, -31,-122, -76, -31,-124,-126, -31,-123, -93, -31,-122, -77, -31,-124,-126, -31],
    [-123, -93, -31,-122, -78, -31,-124,-126, -31,-123, -93, -31,-122, -79, -31,-124,-126, -31,-123, -93],
    [-31,-122, -80, -31,-124,-126, -31,-123, -93, -31,-122, -81, -31,-124,-126, -31,-123, -93, -31,-122],
    [-82, -31,-124,-126, -31,-123, -93, -31,-122, -83, -31,-124,-126, -31,-123, -93, -31,-122, -84, -31],
    [-124,-126, -31,-123, -93, -31,-122, -85, -31,-124,-126, -31,-123, -93, -31,-122, -86, -31,-124,-126],
    [-31,-123, -93, -31,-122, -87, -31,-124,-126, -31,-123, -93, -31,-122, -88, -31,-124,-126, -31,-123],
    [-94, -31,-121,-126, -31,-124,-126, -31,-123, -94, -31,-121,-127, -31,-124,-126, -31,-123, -94, -31],
    [-121,-128, -31,-124,-126, -31,-123, -94, -31,-122, -65, -31,-124,-126, -31,-123, -94, -31,-122, -66],
    [-31,-124,-126, -31,-123, -94, -31,-122, -67, -31,-124,-126, -31,-123, -94, -31,-122, -68, -31,-124],
    [-126, -31,-123, -94, -31,-122, -69, -31,-124,-126, -31,-123, -94, -31,-122, -70, -31,-124,-126, -31],
    [-123, -94, -31,-122, -71, -31,-124,-126, -31,-123, -94, -31,-122, -72, -31,-124,-126, -31,-123, -94],
    [-31,-122, -73, -31,-124,-126, -31,-123, -94, -31,-122, -74, -31,-124,-126, -31,-123, -94, -31,-122],
    [-75, -31,-124,-126, -31,-123, -94, -31,-122, -76, -31,-124,-126, -31,-123, -94, -31,-122, -77, -31],
    [-124,-126, -31,-123, -94, -31,-122, -78, -31,-124,-126, -31,-123, -94, -31,-122, -79, -31,-124,-126],
    [-31,-123, -94, -31,-122, -80, -31,-124,-126, -31,-123, -94, -31,-122, -81, -31,-124,-126, -31,-123],
    [-94, -31,-122, -82, -31,-124,-126, -31,-123, -94, -31,-122, -83, -31,-124,-126, -31,-123, -94, -31],
    [-122, -84, -31,-124,-126, -31,-123, -94, -31,-122, -85, -31,-124,-126, -31,-123, -94, -31,-122, -86],
    [-31,-124,-126, -31,-123, -94, -31,-122, -87, -31,-124,-126, -31,-123, -94, -31,-122, -88, -31,-124],
    [-126, -31,-123, -95, -31,-121,-126, -31,-124,-126, -31,-123, -95, -31,-121,-127, -31,-124,-126, -31],
    [-123, -95, -31,-121,-128, -31,-124,-126, -31,-123, -95, -31,-122, -65, -31,-124,-126, -31,-123, -95],
    [-31,-122, -66, -31,-124,-126, -31,-123, -95, -31,-122, -67, -31,-124,-126, -31,-123, -95, -31,-122],
    [-68, -31,-124,-126, -31,-123, -95, -31,-122, -69, -31,-124,-126, -31,-123, -95, -31,-122, -70, -31],
    [-124,-126, -31,-123, -95, -31,-122, -71, -31,-124,-126, -31,-123, -95, -31,-122, -72, -31,-124,-126],
    [-31,-123, -95, -31,-122, -73, -31,-124,-126, -31,-123, -95, -31,-122, -74, -31,-124,-126, -31,-123],
    [-95, -31,-122, -75, -31,-124,-126, -31,-123, -95, -31,-122, -76, -31,-124,-126, -31,-123, -95, -31],
    [-122, -77, -31,-124,-126, -31,-123, -95, -31,-122, -78, -31,-124,-126, -31,-123, -95, -31,-122, -79],
    [-31,-124,-126, -31,-123, -95, -31,-122, -80, -31,-124,-126, -31,-123, -95, -31,-122, -81, -31,-124],
    [-126, -31,-123, -95, -31,-122, -82, -31,-124,-126, -31,-123, -95, -31,-122, -83, -31,-124,-126, -31],
    [-123, -95, -31,-122, -84, -31,-124,-126, -31,-123, -95, -31,-122, -85, -31,-124,-126, -31,-123, -95],
    [-31,-122, -86, -31,-124,-126, -31,-123, -95, -31,-122, -87, -31,-124,-126, -31,-123, -95, -31,-122],
    [-88, -31,-124,-127, -31,-123, -75, -31,-121,-126, -31,-124,-127, -31,-123, -75, -31,-121,-127, -31],
    [-124,-127, -31,-123, -75, -31,-121,-128, -31,-124,-127, -31,-123, -75, -31,-122, -65, -31,-124,-127],
    [-31,-123, -75, -31,-122, -66, -31,-124,-127, -31,-123, -75, -31,-122, -67, -31,-124,-127, -31,-123],
    [-75, -31,-122, -68, -31,-124,-127, -31,-123, -75, -31,-122, -69, -31,-124,-127, -31,-123, -75, -31],
    [-122, -70, -31,-124,-127, -31,-123, -75, -31,-122, -71, -31,-124,-127, -31,-123, -75, -31,-122, -72],
    [-31,-124,-127, -31,-123, -75, -31,-122, -73, -31,-124,-127, -31,-123, -75, -31,-122, -74, -31,-124],
    [-127, -31,-123, -75, -31,-122, -75, -31,-124,-127, -31,-123, -75, -31,-122, -76, -31,-124,-127, -31],
    [-123, -75, -31,-122, -77, -31,-124,-127, -31,-123, -75, -31,-122, -78, -31,-124,-127, -31,-123, -75],
    [-31,-122, -79, -31,-124,-127, -31,-123, -75, -31,-122, -80, -31,-124,-127, -31,-123, -75, -31,-122],
    [-81, -31,-124,-127, -31,-123, -75, -31,-122, -82, -31,-124,-127, -31,-123, -75, -31,-122, -83, -31],
    [-124,-127, -31,-123, -75, -31,-122, -84, -31,-124,-127, -31,-123, -75, -31,-122, -85, -31,-124,-127],
    [-31,-123, -75, -31,-122, -86, -31,-124,-127, -31,-123, -75, -31,-122, -87, -31,-124,-127, -31,-123],
    [-75, -31,-122, -88, -31,-124,-127, -31,-123, -76, -31,-121,-126, -31,-124,-127, -31,-123, -76, -31],
    [-121,-127, -31,-124,-127, -31,-123, -76, -31,-121,-128, -31,-124,-127, -31,-123, -76, -31,-122, -65],
    [-31,-124,-127, -31,-123, -76, -31,-122, -66, -31,-124,-127, -31,-123, -76, -31,-122, -67, -31,-124]]"

definition STRINGS_46 :: "int list list" where
  "STRINGS_46 = [
    [-127, -31,-123, -76, -31,-122, -68, -31,-124,-127, -31,-123, -76, -31,-122, -69, -31,-124,-127, -31],
    [-123, -76, -31,-122, -70, -31,-124,-127, -31,-123, -76, -31,-122, -71, -31,-124,-127, -31,-123, -76],
    [-31,-122, -72, -31,-124,-127, -31,-123, -76, -31,-122, -73, -31,-124,-127, -31,-123, -76, -31,-122],
    [-74, -31,-124,-127, -31,-123, -76, -31,-122, -75, -31,-124,-127, -31,-123, -76, -31,-122, -76, -31],
    [-124,-127, -31,-123, -76, -31,-122, -77, -31,-124,-127, -31,-123, -76, -31,-122, -78, -31,-124,-127],
    [-31,-123, -76, -31,-122, -79, -31,-124,-127, -31,-123, -76, -31,-122, -80, -31,-124,-127, -31,-123],
    [-76, -31,-122, -81, -31,-124,-127, -31,-123, -76, -31,-122, -82, -31,-124,-127, -31,-123, -76, -31],
    [-122, -83, -31,-124,-127, -31,-123, -76, -31,-122, -84, -31,-124,-127, -31,-123, -76, -31,-122, -85],
    [-31,-124,-127, -31,-123, -76, -31,-122, -86, -31,-124,-127, -31,-123, -76, -31,-122, -87, -31,-124],
    [-127, -31,-123, -76, -31,-122, -88, -31,-124,-127, -31,-123, -77, -31,-121,-126, -31,-124,-127, -31],
    [-123, -77, -31,-121,-127, -31,-124,-127, -31,-123, -77, -31,-121,-128, -31,-124,-127, -31,-123, -77],
    [-31,-122, -65, -31,-124,-127, -31,-123, -77, -31,-122, -66, -31,-124,-127, -31,-123, -77, -31,-122],
    [-67, -31,-124,-127, -31,-123, -77, -31,-122, -68, -31,-124,-127, -31,-123, -77, -31,-122, -69, -31],
    [-124,-127, -31,-123, -77, -31,-122, -70, -31,-124,-127, -31,-123, -77, -31,-122, -71, -31,-124,-127],
    [-31,-123, -77, -31,-122, -72, -31,-124,-127, -31,-123, -77, -31,-122, -73, -31,-124,-127, -31,-123],
    [-77, -31,-122, -74, -31,-124,-127, -31,-123, -77, -31,-122, -75, -31,-124,-127, -31,-123, -77, -31],
    [-122, -76, -31,-124,-127, -31,-123, -77, -31,-122, -77, -31,-124,-127, -31,-123, -77, -31,-122, -78],
    [-31,-124,-127, -31,-123, -77, -31,-122, -79, -31,-124,-127, -31,-123, -77, -31,-122, -80, -31,-124],
    [-127, -31,-123, -77, -31,-122, -81, -31,-124,-127, -31,-123, -77, -31,-122, -82, -31,-124,-127, -31],
    [-123, -77, -31,-122, -83, -31,-124,-127, -31,-123, -77, -31,-122, -84, -31,-124,-127, -31,-123, -77],
    [-31,-122, -85, -31,-124,-127, -31,-123, -77, -31,-122, -86, -31,-124,-127, -31,-123, -77, -31,-122],
    [-87, -31,-124,-127, -31,-123, -77, -31,-122, -88, -31,-124,-127, -31,-123, -78, -31,-121,-126, -31],
    [-124,-127, -31,-123, -78, -31,-121,-127, -31,-124,-127, -31,-123, -78, -31,-121,-128, -31,-124,-127],
    [-31,-123, -78, -31,-122, -65, -31,-124,-127, -31,-123, -78, -31,-122, -66, -31,-124,-127, -31,-123],
    [-78, -31,-122, -67, -31,-124,-127, -31,-123, -78, -31,-122, -68, -31,-124,-127, -31,-123, -78, -31],
    [-122, -69, -31,-124,-127, -31,-123, -78, -31,-122, -70, -31,-124,-127, -31,-123, -78, -31,-122, -71],
    [-31,-124,-127, -31,-123, -78, -31,-122, -72, -31,-124,-127, -31,-123, -78, -31,-122, -73, -31,-124],
    [-127, -31,-123, -78, -31,-122, -74, -31,-124,-127, -31,-123, -78, -31,-122, -75, -31,-124,-127, -31],
    [-123, -78, -31,-122, -76, -31,-124,-127, -31,-123, -78, -31,-122, -77, -31,-124,-127, -31,-123, -78],
    [-31,-122, -78, -31,-124,-127, -31,-123, -78, -31,-122, -79, -31,-124,-127, -31,-123, -78, -31,-122],
    [-80, -31,-124,-127, -31,-123, -78, -31,-122, -81, -31,-124,-127, -31,-123, -78, -31,-122, -82, -31],
    [-124,-127, -31,-123, -78, -31,-122, -83, -31,-124,-127, -31,-123, -78, -31,-122, -84, -31,-124,-127],
    [-31,-123, -78, -31,-122, -85, -31,-124,-127, -31,-123, -78, -31,-122, -86, -31,-124,-127, -31,-123],
    [-78, -31,-122, -87, -31,-124,-127, -31,-123, -78, -31,-122, -88, -31,-124,-127, -31,-123, -79, -31],
    [-121,-126, -31,-124,-127, -31,-123, -79, -31,-121,-127, -31,-124,-127, -31,-123, -79, -31,-121,-128],
    [-31,-124,-127, -31,-123, -79, -31,-122, -65, -31,-124,-127, -31,-123, -79, -31,-122, -66, -31,-124],
    [-127, -31,-123, -79, -31,-122, -67, -31,-124,-127, -31,-123, -79, -31,-122, -68, -31,-124,-127, -31],
    [-123, -79, -31,-122, -69, -31,-124,-127, -31,-123, -79, -31,-122, -70, -31,-124,-127, -31,-123, -79],
    [-31,-122, -71, -31,-124,-127, -31,-123, -79, -31,-122, -72, -31,-124,-127, -31,-123, -79, -31,-122],
    [-73, -31,-124,-127, -31,-123, -79, -31,-122, -74, -31,-124,-127, -31,-123, -79, -31,-122, -75, -31],
    [-124,-127, -31,-123, -79, -31,-122, -76, -31,-124,-127, -31,-123, -79, -31,-122, -77, -31,-124,-127],
    [-31,-123, -79, -31,-122, -78, -31,-124,-127, -31,-123, -79, -31,-122, -79, -31,-124,-127, -31,-123],
    [-79, -31,-122, -80, -31,-124,-127, -31,-123, -79, -31,-122, -81, -31,-124,-127, -31,-123, -79, -31],
    [-122, -82, -31,-124,-127, -31,-123, -79, -31,-122, -83, -31,-124,-127, -31,-123, -79, -31,-122, -84],
    [-31,-124,-127, -31,-123, -79, -31,-122, -85, -31,-124,-127, -31,-123, -79, -31,-122, -86, -31,-124],
    [-127, -31,-123, -79, -31,-122, -87, -31,-124,-127, -31,-123, -79, -31,-122, -88, -31,-124,-127, -31],
    [-123, -80, -31,-121,-126, -31,-124,-127, -31,-123, -80, -31,-121,-127, -31,-124,-127, -31,-123, -80],
    [-31,-121,-128, -31,-124,-127, -31,-123, -80, -31,-122, -65, -31,-124,-127, -31,-123, -80, -31,-122],
    [-66, -31,-124,-127, -31,-123, -80, -31,-122, -67, -31,-124,-127, -31,-123, -80, -31,-122, -68, -31],
    [-124,-127, -31,-123, -80, -31,-122, -69, -31,-124,-127, -31,-123, -80, -31,-122, -70, -31,-124,-127],
    [-31,-123, -80, -31,-122, -71, -31,-124,-127, -31,-123, -80, -31,-122, -72, -31,-124,-127, -31,-123],
    [-80, -31,-122, -73, -31,-124,-127, -31,-123, -80, -31,-122, -74, -31,-124,-127, -31,-123, -80, -31],
    [-122, -75, -31,-124,-127, -31,-123, -80, -31,-122, -76, -31,-124,-127, -31,-123, -80, -31,-122, -77],
    [-31,-124,-127, -31,-123, -80, -31,-122, -78, -31,-124,-127, -31,-123, -80, -31,-122, -79, -31,-124],
    [-127, -31,-123, -80, -31,-122, -80, -31,-124,-127, -31,-123, -80, -31,-122, -81, -31,-124,-127, -31],
    [-123, -80, -31,-122, -82, -31,-124,-127, -31,-123, -80, -31,-122, -83, -31,-124,-127, -31,-123, -80],
    [-31,-122, -84, -31,-124,-127, -31,-123, -80, -31,-122, -85, -31,-124,-127, -31,-123, -80, -31,-122],
    [-86, -31,-124,-127, -31,-123, -80, -31,-122, -87, -31,-124,-127, -31,-123, -80, -31,-122, -88, -31],
    [-124,-127, -31,-123, -81, -31,-121,-126, -31,-124,-127, -31,-123, -81, -31,-121,-127, -31,-124,-127],
    [-31,-123, -81, -31,-121,-128, -31,-124,-127, -31,-123, -81, -31,-122, -65, -31,-124,-127, -31,-123],
    [-81, -31,-122, -66, -31,-124,-127, -31,-123, -81, -31,-122, -67, -31,-124,-127, -31,-123, -81, -31],
    [-122, -68, -31,-124,-127, -31,-123, -81, -31,-122, -69, -31,-124,-127, -31,-123, -81, -31,-122, -70],
    [-31,-124,-127, -31,-123, -81, -31,-122, -71, -31,-124,-127, -31,-123, -81, -31,-122, -72, -31,-124],
    [-127, -31,-123, -81, -31,-122, -73, -31,-124,-127, -31,-123, -81, -31,-122, -74, -31,-124,-127, -31],
    [-123, -81, -31,-122, -75, -31,-124,-127, -31,-123, -81, -31,-122, -76, -31,-124,-127, -31,-123, -81],
    [-31,-122, -77, -31,-124,-127, -31,-123, -81, -31,-122, -78, -31,-124,-127, -31,-123, -81, -31,-122],
    [-79, -31,-124,-127, -31,-123, -81, -31,-122, -80, -31,-124,-127, -31,-123, -81, -31,-122, -81, -31],
    [-124,-127, -31,-123, -81, -31,-122, -82, -31,-124,-127, -31,-123, -81, -31,-122, -83, -31,-124,-127],
    [-31,-123, -81, -31,-122, -84, -31,-124,-127, -31,-123, -81, -31,-122, -85, -31,-124,-127, -31,-123],
    [-81, -31,-122, -86, -31,-124,-127, -31,-123, -81, -31,-122, -87, -31,-124,-127, -31,-123, -81, -31],
    [-122, -88, -31,-124,-127, -31,-123, -82, -31,-121,-126, -31,-124,-127, -31,-123, -82, -31,-121,-127],
    [-31,-124,-127, -31,-123, -82, -31,-121,-128, -31,-124,-127, -31,-123, -82, -31,-122, -65, -31,-124],
    [-127, -31,-123, -82, -31,-122, -66, -31,-124,-127, -31,-123, -82, -31,-122, -67, -31,-124,-127, -31],
    [-123, -82, -31,-122, -68, -31,-124,-127, -31,-123, -82, -31,-122, -69, -31,-124,-127, -31,-123, -82],
    [-31,-122, -70, -31,-124,-127, -31,-123, -82, -31,-122, -71, -31,-124,-127, -31,-123, -82, -31,-122],
    [-72, -31,-124,-127, -31,-123, -82, -31,-122, -73, -31,-124,-127, -31,-123, -82, -31,-122, -74, -31],
    [-124,-127, -31,-123, -82, -31,-122, -75, -31,-124,-127, -31,-123, -82, -31,-122, -76, -31,-124,-127],
    [-31,-123, -82, -31,-122, -77, -31,-124,-127, -31,-123, -82, -31,-122, -78, -31,-124,-127, -31,-123],
    [-82, -31,-122, -79, -31,-124,-127, -31,-123, -82, -31,-122, -80, -31,-124,-127, -31,-123, -82, -31],
    [-122, -81, -31,-124,-127, -31,-123, -82, -31,-122, -82, -31,-124,-127, -31,-123, -82, -31,-122, -83],
    [-31,-124,-127, -31,-123, -82, -31,-122, -84, -31,-124,-127, -31,-123, -82, -31,-122, -85, -31,-124],
    [-127, -31,-123, -82, -31,-122, -86, -31,-124,-127, -31,-123, -82, -31,-122, -87, -31,-124,-127, -31],
    [-123, -82, -31,-122, -88, -31,-124,-127, -31,-123, -83, -31,-121,-126, -31,-124,-127, -31,-123, -83],
    [-31,-121,-127, -31,-124,-127, -31,-123, -83, -31,-121,-128, -31,-124,-127, -31,-123, -83, -31,-122],
    [-65, -31,-124,-127, -31,-123, -83, -31,-122, -66, -31,-124,-127, -31,-123, -83, -31,-122, -67, -31],
    [-124,-127, -31,-123, -83, -31,-122, -68, -31,-124,-127, -31,-123, -83, -31,-122, -69, -31,-124,-127],
    [-31,-123, -83, -31,-122, -70, -31,-124,-127, -31,-123, -83, -31,-122, -71, -31,-124,-127, -31,-123],
    [-83, -31,-122, -72, -31,-124,-127, -31,-123, -83, -31,-122, -73, -31,-124,-127, -31,-123, -83, -31],
    [-122, -74, -31,-124,-127, -31,-123, -83, -31,-122, -75, -31,-124,-127, -31,-123, -83, -31,-122, -76],
    [-31,-124,-127, -31,-123, -83, -31,-122, -77, -31,-124,-127, -31,-123, -83, -31,-122, -78, -31,-124],
    [-127, -31,-123, -83, -31,-122, -79, -31,-124,-127, -31,-123, -83, -31,-122, -80, -31,-124,-127, -31],
    [-123, -83, -31,-122, -81, -31,-124,-127, -31,-123, -83, -31,-122, -82, -31,-124,-127, -31,-123, -83],
    [-31,-122, -83, -31,-124,-127, -31,-123, -83, -31,-122, -84, -31,-124,-127, -31,-123, -83, -31,-122],
    [-85, -31,-124,-127, -31,-123, -83, -31,-122, -86, -31,-124,-127, -31,-123, -83, -31,-122, -87, -31],
    [-124,-127, -31,-123, -83, -31,-122, -88, -31,-124,-127, -31,-123, -84, -31,-121,-126, -31,-124,-127],
    [-31,-123, -84, -31,-121,-127, -31,-124,-127, -31,-123, -84, -31,-121,-128, -31,-124,-127, -31,-123],
    [-84, -31,-122, -65, -31,-124,-127, -31,-123, -84, -31,-122, -66, -31,-124,-127, -31,-123, -84, -31],
    [-122, -67, -31,-124,-127, -31,-123, -84, -31,-122, -68, -31,-124,-127, -31,-123, -84, -31,-122, -69],
    [-31,-124,-127, -31,-123, -84, -31,-122, -70, -31,-124,-127, -31,-123, -84, -31,-122, -71, -31,-124],
    [-127, -31,-123, -84, -31,-122, -72, -31,-124,-127, -31,-123, -84, -31,-122, -73, -31,-124,-127, -31],
    [-123, -84, -31,-122, -74, -31,-124,-127, -31,-123, -84, -31,-122, -75, -31,-124,-127, -31,-123, -84],
    [-31,-122, -76, -31,-124,-127, -31,-123, -84, -31,-122, -77, -31,-124,-127, -31,-123, -84, -31,-122],
    [-78, -31,-124,-127, -31,-123, -84, -31,-122, -79, -31,-124,-127, -31,-123, -84, -31,-122, -80, -31],
    [-124,-127, -31,-123, -84, -31,-122, -81, -31,-124,-127, -31,-123, -84, -31,-122, -82, -31,-124,-127],
    [-31,-123, -84, -31,-122, -83, -31,-124,-127, -31,-123, -84, -31,-122, -84, -31,-124,-127, -31,-123],
    [-84, -31,-122, -85, -31,-124,-127, -31,-123, -84, -31,-122, -86, -31,-124,-127, -31,-123, -84, -31],
    [-122, -87, -31,-124,-127, -31,-123, -84, -31,-122, -88, -31,-124,-127, -31,-123, -85, -31,-121,-126],
    [-31,-124,-127, -31,-123, -85, -31,-121,-127, -31,-124,-127, -31,-123, -85, -31,-121,-128, -31,-124],
    [-127, -31,-123, -85, -31,-122, -65, -31,-124,-127, -31,-123, -85, -31,-122, -66, -31,-124,-127, -31],
    [-123, -85, -31,-122, -67, -31,-124,-127, -31,-123, -85, -31,-122, -68, -31,-124,-127, -31,-123, -85],
    [-31,-122, -69, -31,-124,-127, -31,-123, -85, -31,-122, -70, -31,-124,-127, -31,-123, -85, -31,-122],
    [-71, -31,-124,-127, -31,-123, -85, -31,-122, -72, -31,-124,-127, -31,-123, -85, -31,-122, -73, -31],
    [-124,-127, -31,-123, -85, -31,-122, -74, -31,-124,-127, -31,-123, -85, -31,-122, -75, -31,-124,-127],
    [-31,-123, -85, -31,-122, -76, -31,-124,-127, -31,-123, -85, -31,-122, -77, -31,-124,-127, -31,-123],
    [-85, -31,-122, -78, -31,-124,-127, -31,-123, -85, -31,-122, -79, -31,-124,-127, -31,-123, -85, -31],
    [-122, -80, -31,-124,-127, -31,-123, -85, -31,-122, -81, -31,-124,-127, -31,-123, -85, -31,-122, -82],
    [-31,-124,-127, -31,-123, -85, -31,-122, -83, -31,-124,-127, -31,-123, -85, -31,-122, -84, -31,-124],
    [-127, -31,-123, -85, -31,-122, -85, -31,-124,-127, -31,-123, -85, -31,-122, -86, -31,-124,-127, -31],
    [-123, -85, -31,-122, -87, -31,-124,-127, -31,-123, -85, -31,-122, -88, -31,-124,-127, -31,-123, -86],
    [-31,-121,-126, -31,-124,-127, -31,-123, -86, -31,-121,-127, -31,-124,-127, -31,-123, -86, -31,-121],
    [-128, -31,-124,-127, -31,-123, -86, -31,-122, -65, -31,-124,-127, -31,-123, -86, -31,-122, -66, -31],
    [-124,-127, -31,-123, -86, -31,-122, -67, -31,-124,-127, -31,-123, -86, -31,-122, -68, -31,-124,-127],
    [-31,-123, -86, -31,-122, -69, -31,-124,-127, -31,-123, -86, -31,-122, -70, -31,-124,-127, -31,-123],
    [-86, -31,-122, -71, -31,-124,-127, -31,-123, -86, -31,-122, -72, -31,-124,-127, -31,-123, -86, -31],
    [-122, -73, -31,-124,-127, -31,-123, -86, -31,-122, -74, -31,-124,-127, -31,-123, -86, -31,-122, -75],
    [-31,-124,-127, -31,-123, -86, -31,-122, -76, -31,-124,-127, -31,-123, -86, -31,-122, -77, -31,-124],
    [-127, -31,-123, -86, -31,-122, -78, -31,-124,-127, -31,-123, -86, -31,-122, -79, -31,-124,-127, -31],
    [-123, -86, -31,-122, -80, -31,-124,-127, -31,-123, -86, -31,-122, -81, -31,-124,-127, -31,-123, -86],
    [-31,-122, -82, -31,-124,-127, -31,-123, -86, -31,-122, -83, -31,-124,-127, -31,-123, -86, -31,-122],
    [-84, -31,-124,-127, -31,-123, -86, -31,-122, -85, -31,-124,-127, -31,-123, -86, -31,-122, -86, -31],
    [-124,-127, -31,-123, -86, -31,-122, -87, -31,-124,-127, -31,-123, -86, -31,-122, -88, -31,-124,-127],
    [-31,-123, -87, -31,-121,-126, -31,-124,-127, -31,-123, -87, -31,-121,-127, -31,-124,-127, -31,-123],
    [-87, -31,-121,-128, -31,-124,-127, -31,-123, -87, -31,-122, -65, -31,-124,-127, -31,-123, -87, -31],
    [-122, -66, -31,-124,-127, -31,-123, -87, -31,-122, -67, -31,-124,-127, -31,-123, -87, -31,-122, -68],
    [-31,-124,-127, -31,-123, -87, -31,-122, -69, -31,-124,-127, -31,-123, -87, -31,-122, -70, -31,-124],
    [-127, -31,-123, -87, -31,-122, -71, -31,-124,-127, -31,-123, -87, -31,-122, -72, -31,-124,-127, -31],
    [-123, -87, -31,-122, -73, -31,-124,-127, -31,-123, -87, -31,-122, -74, -31,-124,-127, -31,-123, -87],
    [-31,-122, -75, -31,-124,-127, -31,-123, -87, -31,-122, -76, -31,-124,-127, -31,-123, -87, -31,-122],
    [-77, -31,-124,-127, -31,-123, -87, -31,-122, -78, -31,-124,-127, -31,-123, -87, -31,-122, -79, -31],
    [-124,-127, -31,-123, -87, -31,-122, -80, -31,-124,-127, -31,-123, -87, -31,-122, -81, -31,-124,-127],
    [-31,-123, -87, -31,-122, -82, -31,-124,-127, -31,-123, -87, -31,-122, -83, -31,-124,-127, -31,-123],
    [-87, -31,-122, -84, -31,-124,-127, -31,-123, -87, -31,-122, -85, -31,-124,-127, -31,-123, -87, -31],
    [-122, -86, -31,-124,-127, -31,-123, -87, -31,-122, -87, -31,-124,-127, -31,-123, -87, -31,-122, -88],
    [-31,-124,-127, -31,-123, -88, -31,-121,-126, -31,-124,-127, -31,-123, -88, -31,-121,-127, -31,-124]]"

definition STRINGS_47 :: "int list list" where
  "STRINGS_47 = [
    [-127, -31,-123, -88, -31,-121,-128, -31,-124,-127, -31,-123, -88, -31,-122, -65, -31,-124,-127, -31],
    [-123, -88, -31,-122, -66, -31,-124,-127, -31,-123, -88, -31,-122, -67, -31,-124,-127, -31,-123, -88],
    [-31,-122, -68, -31,-124,-127, -31,-123, -88, -31,-122, -69, -31,-124,-127, -31,-123, -88, -31,-122],
    [-70, -31,-124,-127, -31,-123, -88, -31,-122, -71, -31,-124,-127, -31,-123, -88, -31,-122, -72, -31],
    [-124,-127, -31,-123, -88, -31,-122, -73, -31,-124,-127, -31,-123, -88, -31,-122, -74, -31,-124,-127],
    [-31,-123, -88, -31,-122, -75, -31,-124,-127, -31,-123, -88, -31,-122, -76, -31,-124,-127, -31,-123],
    [-88, -31,-122, -77, -31,-124,-127, -31,-123, -88, -31,-122, -78, -31,-124,-127, -31,-123, -88, -31],
    [-122, -79, -31,-124,-127, -31,-123, -88, -31,-122, -80, -31,-124,-127, -31,-123, -88, -31,-122, -81],
    [-31,-124,-127, -31,-123, -88, -31,-122, -82, -31,-124,-127, -31,-123, -88, -31,-122, -83, -31,-124],
    [-127, -31,-123, -88, -31,-122, -84, -31,-124,-127, -31,-123, -88, -31,-122, -85, -31,-124,-127, -31],
    [-123, -88, -31,-122, -86, -31,-124,-127, -31,-123, -88, -31,-122, -87, -31,-124,-127, -31,-123, -88],
    [-31,-122, -88, -31,-124,-127, -31,-123, -89, -31,-121,-126, -31,-124,-127, -31,-123, -89, -31,-121],
    [-127, -31,-124,-127, -31,-123, -89, -31,-121,-128, -31,-124,-127, -31,-123, -89, -31,-122, -65, -31],
    [-124,-127, -31,-123, -89, -31,-122, -66, -31,-124,-127, -31,-123, -89, -31,-122, -67, -31,-124,-127],
    [-31,-123, -89, -31,-122, -68, -31,-124,-127, -31,-123, -89, -31,-122, -69, -31,-124,-127, -31,-123],
    [-89, -31,-122, -70, -31,-124,-127, -31,-123, -89, -31,-122, -71, -31,-124,-127, -31,-123, -89, -31],
    [-122, -72, -31,-124,-127, -31,-123, -89, -31,-122, -73, -31,-124,-127, -31,-123, -89, -31,-122, -74],
    [-31,-124,-127, -31,-123, -89, -31,-122, -75, -31,-124,-127, -31,-123, -89, -31,-122, -76, -31,-124],
    [-127, -31,-123, -89, -31,-122, -77, -31,-124,-127, -31,-123, -89, -31,-122, -78, -31,-124,-127, -31],
    [-123, -89, -31,-122, -79, -31,-124,-127, -31,-123, -89, -31,-122, -80, -31,-124,-127, -31,-123, -89],
    [-31,-122, -81, -31,-124,-127, -31,-123, -89, -31,-122, -82, -31,-124,-127, -31,-123, -89, -31,-122],
    [-83, -31,-124,-127, -31,-123, -89, -31,-122, -84, -31,-124,-127, -31,-123, -89, -31,-122, -85, -31],
    [-124,-127, -31,-123, -89, -31,-122, -86, -31,-124,-127, -31,-123, -89, -31,-122, -87, -31,-124,-127],
    [-31,-123, -89, -31,-122, -88, -31,-124,-127, -31,-123, -90, -31,-121,-126, -31,-124,-127, -31,-123],
    [-90, -31,-121,-127, -31,-124,-127, -31,-123, -90, -31,-121,-128, -31,-124,-127, -31,-123, -90, -31],
    [-122, -65, -31,-124,-127, -31,-123, -90, -31,-122, -66, -31,-124,-127, -31,-123, -90, -31,-122, -67],
    [-31,-124,-127, -31,-123, -90, -31,-122, -68, -31,-124,-127, -31,-123, -90, -31,-122, -69, -31,-124],
    [-127, -31,-123, -90, -31,-122, -70, -31,-124,-127, -31,-123, -90, -31,-122, -71, -31,-124,-127, -31],
    [-123, -90, -31,-122, -72, -31,-124,-127, -31,-123, -90, -31,-122, -73, -31,-124,-127, -31,-123, -90],
    [-31,-122, -74, -31,-124,-127, -31,-123, -90, -31,-122, -75, -31,-124,-127, -31,-123, -90, -31,-122],
    [-76, -31,-124,-127, -31,-123, -90, -31,-122, -77, -31,-124,-127, -31,-123, -90, -31,-122, -78, -31],
    [-124,-127, -31,-123, -90, -31,-122, -79, -31,-124,-127, -31,-123, -90, -31,-122, -80, -31,-124,-127],
    [-31,-123, -90, -31,-122, -81, -31,-124,-127, -31,-123, -90, -31,-122, -82, -31,-124,-127, -31,-123],
    [-90, -31,-122, -83, -31,-124,-127, -31,-123, -90, -31,-122, -84, -31,-124,-127, -31,-123, -90, -31],
    [-122, -85, -31,-124,-127, -31,-123, -90, -31,-122, -86, -31,-124,-127, -31,-123, -90, -31,-122, -87],
    [-31,-124,-127, -31,-123, -90, -31,-122, -88, -31,-124,-127, -31,-123, -91, -31,-121,-126, -31,-124],
    [-127, -31,-123, -91, -31,-121,-127, -31,-124,-127, -31,-123, -91, -31,-121,-128, -31,-124,-127, -31],
    [-123, -91, -31,-122, -65, -31,-124,-127, -31,-123, -91, -31,-122, -66, -31,-124,-127, -31,-123, -91],
    [-31,-122, -67, -31,-124,-127, -31,-123, -91, -31,-122, -68, -31,-124,-127, -31,-123, -91, -31,-122],
    [-69, -31,-124,-127, -31,-123, -91, -31,-122, -70, -31,-124,-127, -31,-123, -91, -31,-122, -71, -31],
    [-124,-127, -31,-123, -91, -31,-122, -72, -31,-124,-127, -31,-123, -91, -31,-122, -73, -31,-124,-127],
    [-31,-123, -91, -31,-122, -74, -31,-124,-127, -31,-123, -91, -31,-122, -75, -31,-124,-127, -31,-123],
    [-91, -31,-122, -76, -31,-124,-127, -31,-123, -91, -31,-122, -77, -31,-124,-127, -31,-123, -91, -31],
    [-122, -78, -31,-124,-127, -31,-123, -91, -31,-122, -79, -31,-124,-127, -31,-123, -91, -31,-122, -80],
    [-31,-124,-127, -31,-123, -91, -31,-122, -81, -31,-124,-127, -31,-123, -91, -31,-122, -82, -31,-124],
    [-127, -31,-123, -91, -31,-122, -83, -31,-124,-127, -31,-123, -91, -31,-122, -84, -31,-124,-127, -31],
    [-123, -91, -31,-122, -85, -31,-124,-127, -31,-123, -91, -31,-122, -86, -31,-124,-127, -31,-123, -91],
    [-31,-122, -87, -31,-124,-127, -31,-123, -91, -31,-122, -88, -31,-124,-127, -31,-123, -92, -31,-121],
    [-126, -31,-124,-127, -31,-123, -92, -31,-121,-127, -31,-124,-127, -31,-123, -92, -31,-121,-128, -31],
    [-124,-127, -31,-123, -92, -31,-122, -65, -31,-124,-127, -31,-123, -92, -31,-122, -66, -31,-124,-127],
    [-31,-123, -92, -31,-122, -67, -31,-124,-127, -31,-123, -92, -31,-122, -68, -31,-124,-127, -31,-123],
    [-92, -31,-122, -69, -31,-124,-127, -31,-123, -92, -31,-122, -70, -31,-124,-127, -31,-123, -92, -31],
    [-122, -71, -31,-124,-127, -31,-123, -92, -31,-122, -72, -31,-124,-127, -31,-123, -92, -31,-122, -73],
    [-31,-124,-127, -31,-123, -92, -31,-122, -74, -31,-124,-127, -31,-123, -92, -31,-122, -75, -31,-124],
    [-127, -31,-123, -92, -31,-122, -76, -31,-124,-127, -31,-123, -92, -31,-122, -77, -31,-124,-127, -31],
    [-123, -92, -31,-122, -78, -31,-124,-127, -31,-123, -92, -31,-122, -79, -31,-124,-127, -31,-123, -92],
    [-31,-122, -80, -31,-124,-127, -31,-123, -92, -31,-122, -81, -31,-124,-127, -31,-123, -92, -31,-122],
    [-82, -31,-124,-127, -31,-123, -92, -31,-122, -83, -31,-124,-127, -31,-123, -92, -31,-122, -84, -31],
    [-124,-127, -31,-123, -92, -31,-122, -85, -31,-124,-127, -31,-123, -92, -31,-122, -86, -31,-124,-127],
    [-31,-123, -92, -31,-122, -87, -31,-124,-127, -31,-123, -92, -31,-122, -88, -31,-124,-127, -31,-123],
    [-93, -31,-121,-126, -31,-124,-127, -31,-123, -93, -31,-121,-127, -31,-124,-127, -31,-123, -93, -31],
    [-121,-128, -31,-124,-127, -31,-123, -93, -31,-122, -65, -31,-124,-127, -31,-123, -93, -31,-122, -66],
    [-31,-124,-127, -31,-123, -93, -31,-122, -67, -31,-124,-127, -31,-123, -93, -31,-122, -68, -31,-124],
    [-127, -31,-123, -93, -31,-122, -69, -31,-124,-127, -31,-123, -93, -31,-122, -70, -31,-124,-127, -31],
    [-123, -93, -31,-122, -71, -31,-124,-127, -31,-123, -93, -31,-122, -72, -31,-124,-127, -31,-123, -93],
    [-31,-122, -73, -31,-124,-127, -31,-123, -93, -31,-122, -74, -31,-124,-127, -31,-123, -93, -31,-122],
    [-75, -31,-124,-127, -31,-123, -93, -31,-122, -76, -31,-124,-127, -31,-123, -93, -31,-122, -77, -31],
    [-124,-127, -31,-123, -93, -31,-122, -78, -31,-124,-127, -31,-123, -93, -31,-122, -79, -31,-124,-127],
    [-31,-123, -93, -31,-122, -80, -31,-124,-127, -31,-123, -93, -31,-122, -81, -31,-124,-127, -31,-123],
    [-93, -31,-122, -82, -31,-124,-127, -31,-123, -93, -31,-122, -83, -31,-124,-127, -31,-123, -93, -31],
    [-122, -84, -31,-124,-127, -31,-123, -93, -31,-122, -85, -31,-124,-127, -31,-123, -93, -31,-122, -86],
    [-31,-124,-127, -31,-123, -93, -31,-122, -87, -31,-124,-127, -31,-123, -93, -31,-122, -88, -31,-124],
    [-127, -31,-123, -94, -31,-121,-126, -31,-124,-127, -31,-123, -94, -31,-121,-127, -31,-124,-127, -31],
    [-123, -94, -31,-121,-128, -31,-124,-127, -31,-123, -94, -31,-122, -65, -31,-124,-127, -31,-123, -94],
    [-31,-122, -66, -31,-124,-127, -31,-123, -94, -31,-122, -67, -31,-124,-127, -31,-123, -94, -31,-122],
    [-68, -31,-124,-127, -31,-123, -94, -31,-122, -69, -31,-124,-127, -31,-123, -94, -31,-122, -70, -31],
    [-124,-127, -31,-123, -94, -31,-122, -71, -31,-124,-127, -31,-123, -94, -31,-122, -72, -31,-124,-127],
    [-31,-123, -94, -31,-122, -73, -31,-124,-127, -31,-123, -94, -31,-122, -74, -31,-124,-127, -31,-123],
    [-94, -31,-122, -75, -31,-124,-127, -31,-123, -94, -31,-122, -76, -31,-124,-127, -31,-123, -94, -31],
    [-122, -77, -31,-124,-127, -31,-123, -94, -31,-122, -78, -31,-124,-127, -31,-123, -94, -31,-122, -79],
    [-31,-124,-127, -31,-123, -94, -31,-122, -80, -31,-124,-127, -31,-123, -94, -31,-122, -81, -31,-124],
    [-127, -31,-123, -94, -31,-122, -82, -31,-124,-127, -31,-123, -94, -31,-122, -83, -31,-124,-127, -31],
    [-123, -94, -31,-122, -84, -31,-124,-127, -31,-123, -94, -31,-122, -85, -31,-124,-127, -31,-123, -94],
    [-31,-122, -86, -31,-124,-127, -31,-123, -94, -31,-122, -87, -31,-124,-127, -31,-123, -94, -31,-122],
    [-88, -31,-124,-127, -31,-123, -95, -31,-121,-126, -31,-124,-127, -31,-123, -95, -31,-121,-127, -31],
    [-124,-127, -31,-123, -95, -31,-121,-128, -31,-124,-127, -31,-123, -95, -31,-122, -65, -31,-124,-127],
    [-31,-123, -95, -31,-122, -66, -31,-124,-127, -31,-123, -95, -31,-122, -67, -31,-124,-127, -31,-123],
    [-95, -31,-122, -68, -31,-124,-127, -31,-123, -95, -31,-122, -69, -31,-124,-127, -31,-123, -95, -31],
    [-122, -70, -31,-124,-127, -31,-123, -95, -31,-122, -71, -31,-124,-127, -31,-123, -95, -31,-122, -72],
    [-31,-124,-127, -31,-123, -95, -31,-122, -73, -31,-124,-127, -31,-123, -95, -31,-122, -74, -31,-124],
    [-127, -31,-123, -95, -31,-122, -75, -31,-124,-127, -31,-123, -95, -31,-122, -76, -31,-124,-127, -31],
    [-123, -95, -31,-122, -77, -31,-124,-127, -31,-123, -95, -31,-122, -78, -31,-124,-127, -31,-123, -95],
    [-31,-122, -79, -31,-124,-127, -31,-123, -95, -31,-122, -80, -31,-124,-127, -31,-123, -95, -31,-122],
    [-81, -31,-124,-127, -31,-123, -95, -31,-122, -82, -31,-124,-127, -31,-123, -95, -31,-122, -83, -31],
    [-124,-127, -31,-123, -95, -31,-122, -84, -31,-124,-127, -31,-123, -95, -31,-122, -85, -31,-124,-127],
    [-31,-123, -95, -31,-122, -86, -31,-124,-127, -31,-123, -95, -31,-122, -87, -31,-124,-127, -31,-123],
    [-95, -31,-122, -88, -31,-124,-128, -31,-123, -75, -31,-121,-126, -31,-124,-128, -31,-123, -75, -31],
    [-121,-127, -31,-124,-128, -31,-123, -75, -31,-121,-128, -31,-124,-128, -31,-123, -75, -31,-122, -65],
    [-31,-124,-128, -31,-123, -75, -31,-122, -66, -31,-124,-128, -31,-123, -75, -31,-122, -67, -31,-124],
    [-128, -31,-123, -75, -31,-122, -68, -31,-124,-128, -31,-123, -75, -31,-122, -69, -31,-124,-128, -31],
    [-123, -75, -31,-122, -70, -31,-124,-128, -31,-123, -75, -31,-122, -71, -31,-124,-128, -31,-123, -75],
    [-31,-122, -72, -31,-124,-128, -31,-123, -75, -31,-122, -73, -31,-124,-128, -31,-123, -75, -31,-122],
    [-74, -31,-124,-128, -31,-123, -75, -31,-122, -75, -31,-124,-128, -31,-123, -75, -31,-122, -76, -31],
    [-124,-128, -31,-123, -75, -31,-122, -77, -31,-124,-128, -31,-123, -75, -31,-122, -78, -31,-124,-128],
    [-31,-123, -75, -31,-122, -79, -31,-124,-128, -31,-123, -75, -31,-122, -80, -31,-124,-128, -31,-123],
    [-75, -31,-122, -81, -31,-124,-128, -31,-123, -75, -31,-122, -82, -31,-124,-128, -31,-123, -75, -31],
    [-122, -83, -31,-124,-128, -31,-123, -75, -31,-122, -84, -31,-124,-128, -31,-123, -75, -31,-122, -85],
    [-31,-124,-128, -31,-123, -75, -31,-122, -86, -31,-124,-128, -31,-123, -75, -31,-122, -87, -31,-124],
    [-128, -31,-123, -75, -31,-122, -88, -31,-124,-128, -31,-123, -76, -31,-121,-126, -31,-124,-128, -31],
    [-123, -76, -31,-121,-127, -31,-124,-128, -31,-123, -76, -31,-121,-128, -31,-124,-128, -31,-123, -76],
    [-31,-122, -65, -31,-124,-128, -31,-123, -76, -31,-122, -66, -31,-124,-128, -31,-123, -76, -31,-122],
    [-67, -31,-124,-128, -31,-123, -76, -31,-122, -68, -31,-124,-128, -31,-123, -76, -31,-122, -69, -31],
    [-124,-128, -31,-123, -76, -31,-122, -70, -31,-124,-128, -31,-123, -76, -31,-122, -71, -31,-124,-128],
    [-31,-123, -76, -31,-122, -72, -31,-124,-128, -31,-123, -76, -31,-122, -73, -31,-124,-128, -31,-123],
    [-76, -31,-122, -74, -31,-124,-128, -31,-123, -76, -31,-122, -75, -31,-124,-128, -31,-123, -76, -31],
    [-122, -76, -31,-124,-128, -31,-123, -76, -31,-122, -77, -31,-124,-128, -31,-123, -76, -31,-122, -78],
    [-31,-124,-128, -31,-123, -76, -31,-122, -79, -31,-124,-128, -31,-123, -76, -31,-122, -80, -31,-124],
    [-128, -31,-123, -76, -31,-122, -81, -31,-124,-128, -31,-123, -76, -31,-122, -82, -31,-124,-128, -31],
    [-123, -76, -31,-122, -83, -31,-124,-128, -31,-123, -76, -31,-122, -84, -31,-124,-128, -31,-123, -76],
    [-31,-122, -85, -31,-124,-128, -31,-123, -76, -31,-122, -86, -31,-124,-128, -31,-123, -76, -31,-122],
    [-87, -31,-124,-128, -31,-123, -76, -31,-122, -88, -31,-124,-128, -31,-123, -77, -31,-121,-126, -31],
    [-124,-128, -31,-123, -77, -31,-121,-127, -31,-124,-128, -31,-123, -77, -31,-121,-128, -31,-124,-128],
    [-31,-123, -77, -31,-122, -65, -31,-124,-128, -31,-123, -77, -31,-122, -66, -31,-124,-128, -31,-123],
    [-77, -31,-122, -67, -31,-124,-128, -31,-123, -77, -31,-122, -68, -31,-124,-128, -31,-123, -77, -31],
    [-122, -69, -31,-124,-128, -31,-123, -77, -31,-122, -70, -31,-124,-128, -31,-123, -77, -31,-122, -71],
    [-31,-124,-128, -31,-123, -77, -31,-122, -72, -31,-124,-128, -31,-123, -77, -31,-122, -73, -31,-124],
    [-128, -31,-123, -77, -31,-122, -74, -31,-124,-128, -31,-123, -77, -31,-122, -75, -31,-124,-128, -31],
    [-123, -77, -31,-122, -76, -31,-124,-128, -31,-123, -77, -31,-122, -77, -31,-124,-128, -31,-123, -77],
    [-31,-122, -78, -31,-124,-128, -31,-123, -77, -31,-122, -79, -31,-124,-128, -31,-123, -77, -31,-122],
    [-80, -31,-124,-128, -31,-123, -77, -31,-122, -81, -31,-124,-128, -31,-123, -77, -31,-122, -82, -31],
    [-124,-128, -31,-123, -77, -31,-122, -83, -31,-124,-128, -31,-123, -77, -31,-122, -84, -31,-124,-128],
    [-31,-123, -77, -31,-122, -85, -31,-124,-128, -31,-123, -77, -31,-122, -86, -31,-124,-128, -31,-123],
    [-77, -31,-122, -87, -31,-124,-128, -31,-123, -77, -31,-122, -88, -31,-124,-128, -31,-123, -78, -31],
    [-121,-126, -31,-124,-128, -31,-123, -78, -31,-121,-127, -31,-124,-128, -31,-123, -78, -31,-121,-128],
    [-31,-124,-128, -31,-123, -78, -31,-122, -65, -31,-124,-128, -31,-123, -78, -31,-122, -66, -31,-124],
    [-128, -31,-123, -78, -31,-122, -67, -31,-124,-128, -31,-123, -78, -31,-122, -68, -31,-124,-128, -31],
    [-123, -78, -31,-122, -69, -31,-124,-128, -31,-123, -78, -31,-122, -70, -31,-124,-128, -31,-123, -78],
    [-31,-122, -71, -31,-124,-128, -31,-123, -78, -31,-122, -72, -31,-124,-128, -31,-123, -78, -31,-122],
    [-73, -31,-124,-128, -31,-123, -78, -31,-122, -74, -31,-124,-128, -31,-123, -78, -31,-122, -75, -31],
    [-124,-128, -31,-123, -78, -31,-122, -76, -31,-124,-128, -31,-123, -78, -31,-122, -77, -31,-124,-128],
    [-31,-123, -78, -31,-122, -78, -31,-124,-128, -31,-123, -78, -31,-122, -79, -31,-124,-128, -31,-123],
    [-78, -31,-122, -80, -31,-124,-128, -31,-123, -78, -31,-122, -81, -31,-124,-128, -31,-123, -78, -31],
    [-122, -82, -31,-124,-128, -31,-123, -78, -31,-122, -83, -31,-124,-128, -31,-123, -78, -31,-122, -84],
    [-31,-124,-128, -31,-123, -78, -31,-122, -85, -31,-124,-128, -31,-123, -78, -31,-122, -86, -31,-124]]"

definition STRINGS_48 :: "int list list" where
  "STRINGS_48 = [
    [-128, -31,-123, -78, -31,-122, -87, -31,-124,-128, -31,-123, -78, -31,-122, -88, -31,-124,-128, -31],
    [-123, -79, -31,-121,-126, -31,-124,-128, -31,-123, -79, -31,-121,-127, -31,-124,-128, -31,-123, -79],
    [-31,-121,-128, -31,-124,-128, -31,-123, -79, -31,-122, -65, -31,-124,-128, -31,-123, -79, -31,-122],
    [-66, -31,-124,-128, -31,-123, -79, -31,-122, -67, -31,-124,-128, -31,-123, -79, -31,-122, -68, -31],
    [-124,-128, -31,-123, -79, -31,-122, -69, -31,-124,-128, -31,-123, -79, -31,-122, -70, -31,-124,-128],
    [-31,-123, -79, -31,-122, -71, -31,-124,-128, -31,-123, -79, -31,-122, -72, -31,-124,-128, -31,-123],
    [-79, -31,-122, -73, -31,-124,-128, -31,-123, -79, -31,-122, -74, -31,-124,-128, -31,-123, -79, -31],
    [-122, -75, -31,-124,-128, -31,-123, -79, -31,-122, -76, -31,-124,-128, -31,-123, -79, -31,-122, -77],
    [-31,-124,-128, -31,-123, -79, -31,-122, -78, -31,-124,-128, -31,-123, -79, -31,-122, -79, -31,-124],
    [-128, -31,-123, -79, -31,-122, -80, -31,-124,-128, -31,-123, -79, -31,-122, -81, -31,-124,-128, -31],
    [-123, -79, -31,-122, -82, -31,-124,-128, -31,-123, -79, -31,-122, -83, -31,-124,-128, -31,-123, -79],
    [-31,-122, -84, -31,-124,-128, -31,-123, -79, -31,-122, -85, -31,-124,-128, -31,-123, -79, -31,-122],
    [-86, -31,-124,-128, -31,-123, -79, -31,-122, -87, -31,-124,-128, -31,-123, -79, -31,-122, -88, -31],
    [-124,-128, -31,-123, -80, -31,-121,-126, -31,-124,-128, -31,-123, -80, -31,-121,-127, -31,-124,-128],
    [-31,-123, -80, -31,-121,-128, -31,-124,-128, -31,-123, -80, -31,-122, -65, -31,-124,-128, -31,-123],
    [-80, -31,-122, -66, -31,-124,-128, -31,-123, -80, -31,-122, -67, -31,-124,-128, -31,-123, -80, -31],
    [-122, -68, -31,-124,-128, -31,-123, -80, -31,-122, -69, -31,-124,-128, -31,-123, -80, -31,-122, -70],
    [-31,-124,-128, -31,-123, -80, -31,-122, -71, -31,-124,-128, -31,-123, -80, -31,-122, -72, -31,-124],
    [-128, -31,-123, -80, -31,-122, -73, -31,-124,-128, -31,-123, -80, -31,-122, -74, -31,-124,-128, -31],
    [-123, -80, -31,-122, -75, -31,-124,-128, -31,-123, -80, -31,-122, -76, -31,-124,-128, -31,-123, -80],
    [-31,-122, -77, -31,-124,-128, -31,-123, -80, -31,-122, -78, -31,-124,-128, -31,-123, -80, -31,-122],
    [-79, -31,-124,-128, -31,-123, -80, -31,-122, -80, -31,-124,-128, -31,-123, -80, -31,-122, -81, -31],
    [-124,-128, -31,-123, -80, -31,-122, -82, -31,-124,-128, -31,-123, -80, -31,-122, -83, -31,-124,-128],
    [-31,-123, -80, -31,-122, -84, -31,-124,-128, -31,-123, -80, -31,-122, -85, -31,-124,-128, -31,-123],
    [-80, -31,-122, -86, -31,-124,-128, -31,-123, -80, -31,-122, -87, -31,-124,-128, -31,-123, -80, -31],
    [-122, -88, -31,-124,-128, -31,-123, -81, -31,-121,-126, -31,-124,-128, -31,-123, -81, -31,-121,-127],
    [-31,-124,-128, -31,-123, -81, -31,-121,-128, -31,-124,-128, -31,-123, -81, -31,-122, -65, -31,-124],
    [-128, -31,-123, -81, -31,-122, -66, -31,-124,-128, -31,-123, -81, -31,-122, -67, -31,-124,-128, -31],
    [-123, -81, -31,-122, -68, -31,-124,-128, -31,-123, -81, -31,-122, -69, -31,-124,-128, -31,-123, -81],
    [-31,-122, -70, -31,-124,-128, -31,-123, -81, -31,-122, -71, -31,-124,-128, -31,-123, -81, -31,-122],
    [-72, -31,-124,-128, -31,-123, -81, -31,-122, -73, -31,-124,-128, -31,-123, -81, -31,-122, -74, -31],
    [-124,-128, -31,-123, -81, -31,-122, -75, -31,-124,-128, -31,-123, -81, -31,-122, -76, -31,-124,-128],
    [-31,-123, -81, -31,-122, -77, -31,-124,-128, -31,-123, -81, -31,-122, -78, -31,-124,-128, -31,-123],
    [-81, -31,-122, -79, -31,-124,-128, -31,-123, -81, -31,-122, -80, -31,-124,-128, -31,-123, -81, -31],
    [-122, -81, -31,-124,-128, -31,-123, -81, -31,-122, -82, -31,-124,-128, -31,-123, -81, -31,-122, -83],
    [-31,-124,-128, -31,-123, -81, -31,-122, -84, -31,-124,-128, -31,-123, -81, -31,-122, -85, -31,-124],
    [-128, -31,-123, -81, -31,-122, -86, -31,-124,-128, -31,-123, -81, -31,-122, -87, -31,-124,-128, -31],
    [-123, -81, -31,-122, -88, -31,-124,-128, -31,-123, -82, -31,-121,-126, -31,-124,-128, -31,-123, -82],
    [-31,-121,-127, -31,-124,-128, -31,-123, -82, -31,-121,-128, -31,-124,-128, -31,-123, -82, -31,-122],
    [-65, -31,-124,-128, -31,-123, -82, -31,-122, -66, -31,-124,-128, -31,-123, -82, -31,-122, -67, -31],
    [-124,-128, -31,-123, -82, -31,-122, -68, -31,-124,-128, -31,-123, -82, -31,-122, -69, -31,-124,-128],
    [-31,-123, -82, -31,-122, -70, -31,-124,-128, -31,-123, -82, -31,-122, -71, -31,-124,-128, -31,-123],
    [-82, -31,-122, -72, -31,-124,-128, -31,-123, -82, -31,-122, -73, -31,-124,-128, -31,-123, -82, -31],
    [-122, -74, -31,-124,-128, -31,-123, -82, -31,-122, -75, -31,-124,-128, -31,-123, -82, -31,-122, -76],
    [-31,-124,-128, -31,-123, -82, -31,-122, -77, -31,-124,-128, -31,-123, -82, -31,-122, -78, -31,-124],
    [-128, -31,-123, -82, -31,-122, -79, -31,-124,-128, -31,-123, -82, -31,-122, -80, -31,-124,-128, -31],
    [-123, -82, -31,-122, -81, -31,-124,-128, -31,-123, -82, -31,-122, -82, -31,-124,-128, -31,-123, -82],
    [-31,-122, -83, -31,-124,-128, -31,-123, -82, -31,-122, -84, -31,-124,-128, -31,-123, -82, -31,-122],
    [-85, -31,-124,-128, -31,-123, -82, -31,-122, -86, -31,-124,-128, -31,-123, -82, -31,-122, -87, -31],
    [-124,-128, -31,-123, -82, -31,-122, -88, -31,-124,-128, -31,-123, -83, -31,-121,-126, -31,-124,-128],
    [-31,-123, -83, -31,-121,-127, -31,-124,-128, -31,-123, -83, -31,-121,-128, -31,-124,-128, -31,-123],
    [-83, -31,-122, -65, -31,-124,-128, -31,-123, -83, -31,-122, -66, -31,-124,-128, -31,-123, -83, -31],
    [-122, -67, -31,-124,-128, -31,-123, -83, -31,-122, -68, -31,-124,-128, -31,-123, -83, -31,-122, -69],
    [-31,-124,-128, -31,-123, -83, -31,-122, -70, -31,-124,-128, -31,-123, -83, -31,-122, -71, -31,-124],
    [-128, -31,-123, -83, -31,-122, -72, -31,-124,-128, -31,-123, -83, -31,-122, -73, -31,-124,-128, -31],
    [-123, -83, -31,-122, -74, -31,-124,-128, -31,-123, -83, -31,-122, -75, -31,-124,-128, -31,-123, -83],
    [-31,-122, -76, -31,-124,-128, -31,-123, -83, -31,-122, -77, -31,-124,-128, -31,-123, -83, -31,-122],
    [-78, -31,-124,-128, -31,-123, -83, -31,-122, -79, -31,-124,-128, -31,-123, -83, -31,-122, -80, -31],
    [-124,-128, -31,-123, -83, -31,-122, -81, -31,-124,-128, -31,-123, -83, -31,-122, -82, -31,-124,-128],
    [-31,-123, -83, -31,-122, -83, -31,-124,-128, -31,-123, -83, -31,-122, -84, -31,-124,-128, -31,-123],
    [-83, -31,-122, -85, -31,-124,-128, -31,-123, -83, -31,-122, -86, -31,-124,-128, -31,-123, -83, -31],
    [-122, -87, -31,-124,-128, -31,-123, -83, -31,-122, -88, -31,-124,-128, -31,-123, -84, -31,-121,-126],
    [-31,-124,-128, -31,-123, -84, -31,-121,-127, -31,-124,-128, -31,-123, -84, -31,-121,-128, -31,-124],
    [-128, -31,-123, -84, -31,-122, -65, -31,-124,-128, -31,-123, -84, -31,-122, -66, -31,-124,-128, -31],
    [-123, -84, -31,-122, -67, -31,-124,-128, -31,-123, -84, -31,-122, -68, -31,-124,-128, -31,-123, -84],
    [-31,-122, -69, -31,-124,-128, -31,-123, -84, -31,-122, -70, -31,-124,-128, -31,-123, -84, -31,-122],
    [-71, -31,-124,-128, -31,-123, -84, -31,-122, -72, -31,-124,-128, -31,-123, -84, -31,-122, -73, -31],
    [-124,-128, -31,-123, -84, -31,-122, -74, -31,-124,-128, -31,-123, -84, -31,-122, -75, -31,-124,-128],
    [-31,-123, -84, -31,-122, -76, -31,-124,-128, -31,-123, -84, -31,-122, -77, -31,-124,-128, -31,-123],
    [-84, -31,-122, -78, -31,-124,-128, -31,-123, -84, -31,-122, -79, -31,-124,-128, -31,-123, -84, -31],
    [-122, -80, -31,-124,-128, -31,-123, -84, -31,-122, -81, -31,-124,-128, -31,-123, -84, -31,-122, -82],
    [-31,-124,-128, -31,-123, -84, -31,-122, -83, -31,-124,-128, -31,-123, -84, -31,-122, -84, -31,-124],
    [-128, -31,-123, -84, -31,-122, -85, -31,-124,-128, -31,-123, -84, -31,-122, -86, -31,-124,-128, -31],
    [-123, -84, -31,-122, -87, -31,-124,-128, -31,-123, -84, -31,-122, -88, -31,-124,-128, -31,-123, -85],
    [-31,-121,-126, -31,-124,-128, -31,-123, -85, -31,-121,-127, -31,-124,-128, -31,-123, -85, -31,-121],
    [-128, -31,-124,-128, -31,-123, -85, -31,-122, -65, -31,-124,-128, -31,-123, -85, -31,-122, -66, -31],
    [-124,-128, -31,-123, -85, -31,-122, -67, -31,-124,-128, -31,-123, -85, -31,-122, -68, -31,-124,-128],
    [-31,-123, -85, -31,-122, -69, -31,-124,-128, -31,-123, -85, -31,-122, -70, -31,-124,-128, -31,-123],
    [-85, -31,-122, -71, -31,-124,-128, -31,-123, -85, -31,-122, -72, -31,-124,-128, -31,-123, -85, -31],
    [-122, -73, -31,-124,-128, -31,-123, -85, -31,-122, -74, -31,-124,-128, -31,-123, -85, -31,-122, -75],
    [-31,-124,-128, -31,-123, -85, -31,-122, -76, -31,-124,-128, -31,-123, -85, -31,-122, -77, -31,-124],
    [-128, -31,-123, -85, -31,-122, -78, -31,-124,-128, -31,-123, -85, -31,-122, -79, -31,-124,-128, -31],
    [-123, -85, -31,-122, -80, -31,-124,-128, -31,-123, -85, -31,-122, -81, -31,-124,-128, -31,-123, -85],
    [-31,-122, -82, -31,-124,-128, -31,-123, -85, -31,-122, -83, -31,-124,-128, -31,-123, -85, -31,-122],
    [-84, -31,-124,-128, -31,-123, -85, -31,-122, -85, -31,-124,-128, -31,-123, -85, -31,-122, -86, -31],
    [-124,-128, -31,-123, -85, -31,-122, -87, -31,-124,-128, -31,-123, -85, -31,-122, -88, -31,-124,-128],
    [-31,-123, -86, -31,-121,-126, -31,-124,-128, -31,-123, -86, -31,-121,-127, -31,-124,-128, -31,-123],
    [-86, -31,-121,-128, -31,-124,-128, -31,-123, -86, -31,-122, -65, -31,-124,-128, -31,-123, -86, -31],
    [-122, -66, -31,-124,-128, -31,-123, -86, -31,-122, -67, -31,-124,-128, -31,-123, -86, -31,-122, -68],
    [-31,-124,-128, -31,-123, -86, -31,-122, -69, -31,-124,-128, -31,-123, -86, -31,-122, -70, -31,-124],
    [-128, -31,-123, -86, -31,-122, -71, -31,-124,-128, -31,-123, -86, -31,-122, -72, -31,-124,-128, -31],
    [-123, -86, -31,-122, -73, -31,-124,-128, -31,-123, -86, -31,-122, -74, -31,-124,-128, -31,-123, -86],
    [-31,-122, -75, -31,-124,-128, -31,-123, -86, -31,-122, -76, -31,-124,-128, -31,-123, -86, -31,-122],
    [-77, -31,-124,-128, -31,-123, -86, -31,-122, -78, -31,-124,-128, -31,-123, -86, -31,-122, -79, -31],
    [-124,-128, -31,-123, -86, -31,-122, -80, -31,-124,-128, -31,-123, -86, -31,-122, -81, -31,-124,-128],
    [-31,-123, -86, -31,-122, -82, -31,-124,-128, -31,-123, -86, -31,-122, -83, -31,-124,-128, -31,-123],
    [-86, -31,-122, -84, -31,-124,-128, -31,-123, -86, -31,-122, -85, -31,-124,-128, -31,-123, -86, -31],
    [-122, -86, -31,-124,-128, -31,-123, -86, -31,-122, -87, -31,-124,-128, -31,-123, -86, -31,-122, -88],
    [-31,-124,-128, -31,-123, -87, -31,-121,-126, -31,-124,-128, -31,-123, -87, -31,-121,-127, -31,-124],
    [-128, -31,-123, -87, -31,-121,-128, -31,-124,-128, -31,-123, -87, -31,-122, -65, -31,-124,-128, -31],
    [-123, -87, -31,-122, -66, -31,-124,-128, -31,-123, -87, -31,-122, -67, -31,-124,-128, -31,-123, -87],
    [-31,-122, -68, -31,-124,-128, -31,-123, -87, -31,-122, -69, -31,-124,-128, -31,-123, -87, -31,-122],
    [-70, -31,-124,-128, -31,-123, -87, -31,-122, -71, -31,-124,-128, -31,-123, -87, -31,-122, -72, -31],
    [-124,-128, -31,-123, -87, -31,-122, -73, -31,-124,-128, -31,-123, -87, -31,-122, -74, -31,-124,-128],
    [-31,-123, -87, -31,-122, -75, -31,-124,-128, -31,-123, -87, -31,-122, -76, -31,-124,-128, -31,-123],
    [-87, -31,-122, -77, -31,-124,-128, -31,-123, -87, -31,-122, -78, -31,-124,-128, -31,-123, -87, -31],
    [-122, -79, -31,-124,-128, -31,-123, -87, -31,-122, -80, -31,-124,-128, -31,-123, -87, -31,-122, -81],
    [-31,-124,-128, -31,-123, -87, -31,-122, -82, -31,-124,-128, -31,-123, -87, -31,-122, -83, -31,-124],
    [-128, -31,-123, -87, -31,-122, -84, -31,-124,-128, -31,-123, -87, -31,-122, -85, -31,-124,-128, -31],
    [-123, -87, -31,-122, -86, -31,-124,-128, -31,-123, -87, -31,-122, -87, -31,-124,-128, -31,-123, -87],
    [-31,-122, -88, -31,-124,-128, -31,-123, -88, -31,-121,-126, -31,-124,-128, -31,-123, -88, -31,-121],
    [-127, -31,-124,-128, -31,-123, -88, -31,-121,-128, -31,-124,-128, -31,-123, -88, -31,-122, -65, -31],
    [-124,-128, -31,-123, -88, -31,-122, -66, -31,-124,-128, -31,-123, -88, -31,-122, -67, -31,-124,-128],
    [-31,-123, -88, -31,-122, -68, -31,-124,-128, -31,-123, -88, -31,-122, -69, -31,-124,-128, -31,-123],
    [-88, -31,-122, -70, -31,-124,-128, -31,-123, -88, -31,-122, -71, -31,-124,-128, -31,-123, -88, -31],
    [-122, -72, -31,-124,-128, -31,-123, -88, -31,-122, -73, -31,-124,-128, -31,-123, -88, -31,-122, -74],
    [-31,-124,-128, -31,-123, -88, -31,-122, -75, -31,-124,-128, -31,-123, -88, -31,-122, -76, -31,-124],
    [-128, -31,-123, -88, -31,-122, -77, -31,-124,-128, -31,-123, -88, -31,-122, -78, -31,-124,-128, -31],
    [-123, -88, -31,-122, -79, -31,-124,-128, -31,-123, -88, -31,-122, -80, -31,-124,-128, -31,-123, -88],
    [-31,-122, -81, -31,-124,-128, -31,-123, -88, -31,-122, -82, -31,-124,-128, -31,-123, -88, -31,-122],
    [-83, -31,-124,-128, -31,-123, -88, -31,-122, -84, -31,-124,-128, -31,-123, -88, -31,-122, -85, -31],
    [-124,-128, -31,-123, -88, -31,-122, -86, -31,-124,-128, -31,-123, -88, -31,-122, -87, -31,-124,-128],
    [-31,-123, -88, -31,-122, -88, -31,-124,-128, -31,-123, -89, -31,-121,-126, -31,-124,-128, -31,-123],
    [-89, -31,-121,-127, -31,-124,-128, -31,-123, -89, -31,-121,-128, -31,-124,-128, -31,-123, -89, -31],
    [-122, -65, -31,-124,-128, -31,-123, -89, -31,-122, -66, -31,-124,-128, -31,-123, -89, -31,-122, -67],
    [-31,-124,-128, -31,-123, -89, -31,-122, -68, -31,-124,-128, -31,-123, -89, -31,-122, -69, -31,-124],
    [-128, -31,-123, -89, -31,-122, -70, -31,-124,-128, -31,-123, -89, -31,-122, -71, -31,-124,-128, -31],
    [-123, -89, -31,-122, -72, -31,-124,-128, -31,-123, -89, -31,-122, -73, -31,-124,-128, -31,-123, -89],
    [-31,-122, -74, -31,-124,-128, -31,-123, -89, -31,-122, -75, -31,-124,-128, -31,-123, -89, -31,-122],
    [-76, -31,-124,-128, -31,-123, -89, -31,-122, -77, -31,-124,-128, -31,-123, -89, -31,-122, -78, -31],
    [-124,-128, -31,-123, -89, -31,-122, -79, -31,-124,-128, -31,-123, -89, -31,-122, -80, -31,-124,-128],
    [-31,-123, -89, -31,-122, -81, -31,-124,-128, -31,-123, -89, -31,-122, -82, -31,-124,-128, -31,-123],
    [-89, -31,-122, -83, -31,-124,-128, -31,-123, -89, -31,-122, -84, -31,-124,-128, -31,-123, -89, -31],
    [-122, -85, -31,-124,-128, -31,-123, -89, -31,-122, -86, -31,-124,-128, -31,-123, -89, -31,-122, -87],
    [-31,-124,-128, -31,-123, -89, -31,-122, -88, -31,-124,-128, -31,-123, -90, -31,-121,-126, -31,-124],
    [-128, -31,-123, -90, -31,-121,-127, -31,-124,-128, -31,-123, -90, -31,-121,-128, -31,-124,-128, -31],
    [-123, -90, -31,-122, -65, -31,-124,-128, -31,-123, -90, -31,-122, -66, -31,-124,-128, -31,-123, -90],
    [-31,-122, -67, -31,-124,-128, -31,-123, -90, -31,-122, -68, -31,-124,-128, -31,-123, -90, -31,-122],
    [-69, -31,-124,-128, -31,-123, -90, -31,-122, -70, -31,-124,-128, -31,-123, -90, -31,-122, -71, -31],
    [-124,-128, -31,-123, -90, -31,-122, -72, -31,-124,-128, -31,-123, -90, -31,-122, -73, -31,-124,-128],
    [-31,-123, -90, -31,-122, -74, -31,-124,-128, -31,-123, -90, -31,-122, -75, -31,-124,-128, -31,-123],
    [-90, -31,-122, -76, -31,-124,-128, -31,-123, -90, -31,-122, -77, -31,-124,-128, -31,-123, -90, -31],
    [-122, -78, -31,-124,-128, -31,-123, -90, -31,-122, -79, -31,-124,-128, -31,-123, -90, -31,-122, -80],
    [-31,-124,-128, -31,-123, -90, -31,-122, -81, -31,-124,-128, -31,-123, -90, -31,-122, -82, -31,-124]]"

end
