(* ===== verification/Table_Strings_8.thy ===== *)
theory Table_Strings_8
  imports Main
begin

text \<open>
  Lines 13357 to 13539 of \<open>unf/table.hh\<close>: part of the array \<open>STRINGS\<close>, one list per line of the source.
\<close>

definition STRINGS_49 :: "int list list" where
  "STRINGS_49 = [
    [-128, -31,-123, -90, -31,-122, -83, -31,-124,-128, -31,-123, -90, -31,-122, -84, -31,-124,-128, -31],
    [-123, -90, -31,-122, -85, -31,-124,-128, -31,-123, -90, -31,-122, -86, -31,-124,-128, -31,-123, -90],
    [-31,-122, -87, -31,-124,-128, -31,-123, -90, -31,-122, -88, -31,-124,-128, -31,-123, -91, -31,-121],
    [-126, -31,-124,-128, -31,-123, -91, -31,-121,-127, -31,-124,-128, -31,-123, -91, -31,-121,-128, -31],
    [-124,-128, -31,-123, -91, -31,-122, -65, -31,-124,-128, -31,-123, -91, -31,-122, -66, -31,-124,-128],
    [-31,-123, -91, -31,-122, -67, -31,-124,-128, -31,-123, -91, -31,-122, -68, -31,-124,-128, -31,-123],
    [-91, -31,-122, -69, -31,-124,-128, -31,-123, -91, -31,-122, -70, -31,-124,-128, -31,-123, -91, -31],
    [-122, -71, -31,-124,-128, -31,-123, -91, -31,-122, -72, -31,-124,-128, -31,-123, -91, -31,-122, -73],
    [-31,-124,-128, -31,-123, -91, -31,-122, -74, -31,-124,-128, -31,-123, -91, -31,-122, -75, -31,-124],
    [-128, -31,-123, -91, -31,-122, -76, -31,-124,-128, -31,-123, -91, -31,-122, -77, -31,-124,-128, -31],
    [-123, -91, -31,-122, -78, -31,-124,-128, -31,-123, -91, -31,-122, -79, -31,-124,-128, -31,-123, -91],
    [-31,-122, -80, -31,-124,-128, -31,-123, -91, -31,-122, -81, -31,-124,-128, -31,-123, -91, -31,-122],
    [-82, -31,-124,-128, -31,-123, -91, -31,-122, -83, -31,-124,-128, -31,-123, -91, -31,-122, -84, -31],
    [-124,-128, -31,-123, -91, -31,-122, -85, -31,-124,-128, -31,-123, -91, -31,-122, -86, -31,-124,-128],
    [-31,-123, -91, -31,-122, -87, -31,-124,-128, -31,-123, -91, -31,-122, -88, -31,-124,-128, -31,-123],
    [-92, -31,-121,-126, -31,-124,-128, -31,-123, -92, -31,-121,-127, -31,-124,-128, -31,-123, -92, -31],
    [-121,-128, -31,-124,-128, -31,-123, -92, -31,-122, -65, -31,-124,-128, -31,-123, -92, -31,-122, -66],
    [-31,-124,-128, -31,-123, -92, -31,-122, -67, -31,-124,-128, -31,-123, -92, -31,-122, -68, -31,-124],
    [-128, -31,-123, -92, -31,-122, -69, -31,-124,-128, -31,-123, -92, -31,-122, -70, -31,-124,-128, -31],
    [-123, -92, -31,-122, -71, -31,-124,-128, -31,-123, -92, -31,-122, -72, -31,-124,-128, -31,-123, -92],
    [-31,-122, -73, -31,-124,-128, -31,-123, -92, -31,-122, -74, -31,-124,-128, -31,-123, -92, -31,-122],
    [-75, -31,-124,-128, -31,-123, -92, -31,-122, -76, -31,-124,-128, -31,-123, -92, -31,-122, -77, -31],
    [-124,-128, -31,-123, -92, -31,-122, -78, -31,-124,-128, -31,-123, -92, -31,-122, -79, -31,-124,-128],
    [-31,-123, -92, -31,-122, -80, -31,-124,-128, -31,-123, -92, -31,-122, -81, -31,-124,-128, -31,-123],
    [-92, -31,-122, -82, -31,-124,-128, -31,-123, -92, -31,-122, -83, -31,-124,-128, -31,-123, -92, -31],
    [-122, -84, -31,-124,-128, -31,-123, -92, -31,-122, -85, -31,-124,-128, -31,-123, -92, -31,-122, -86],
    [-31,-124,-128, -31,-123, -92, -31,-122, -87, -31,-124,-128, -31,-123, -92, -31,-122, -88, -31,-124],
    [-128, -31,-123, -93, -31,-121,-126, -31,-124,-128, -31,-123, -93, -31,-121,-127, -31,-124,-128, -31],
    [-123, -93, -31,-121,-128, -31,-124,-128, -31,-123, -93, -31,-122, -65, -31,-124,-128, -31,-123, -93],
    [-31,-122, -66, -31,-124,-128, -31,-123, -93, -31,-122, -67, -31,-124,-128, -31,-123, -93, -31,-122],
    [-68, -31,-124,-128, -31,-123, -93, -31,-122, -69, -31,-124,-128, -31,-123, -93, -31,-122, -70, -31],
    [-124,-128, -31,-123, -93, -31,-122, -71, -31,-124,-128, -31,-123, -93, -31,-122, -72, -31,-124,-128],
    [-31,-123, -93, -31,-122, -73, -31,-124,-128, -31,-123, -93, -31,-122, -74, -31,-124,-128, -31,-123],
    [-93, -31,-122, -75, -31,-124,-128, -31,-123, -93, -31,-122, -76, -31,-124,-128, -31,-123, -93, -31],
    [-122, -77, -31,-124,-128, -31,-123, -93, -31,-122, -78, -31,-124,-128, -31,-123, -93, -31,-122, -79],
    [-31,-124,-128, -31,-123, -93, -31,-122, -80, -31,-124,-128, -31,-123, -93, -31,-122, -81, -31,-124],
    [-128, -31,-123, -93, -31,-122, -82, -31,-124,-128, -31,-123, -93, -31,-122, -83, -31,-124,-128, -31],
    [-123, -93, -31,-122, -84, -31,-124,-128, -31,-123, -93, -31,-122, -85, -31,-124,-128, -31,-123, -93],
    [-31,-122, -86, -31,-124,-128, -31,-123, -93, -31,-122, -87, -31,-124,-128, -31,-123, -93, -31,-122],
    [-88, -31,-124,-128, -31,-123, -94, -31,-121,-126, -31,-124,-128, -31,-123, -94, -31,-121,-127, -31],
    [-124,-128, -31,-123, -94, -31,-121,-128, -31,-124,-128, -31,-123, -94, -31,-122, -65, -31,-124,-128],
    [-31,-123, -94, -31,-122, -66, -31,-124,-128, -31,-123, -94, -31,-122, -67, -31,-124,-128, -31,-123],
    [-94, -31,-122, -68, -31,-124,-128, -31,-123, -94, -31,-122, -69, -31,-124,-128, -31,-123, -94, -31],
    [-122, -70, -31,-124,-128, -31,-123, -94, -31,-122, -71, -31,-124,-128, -31,-123, -94, -31,-122, -72],
    [-31,-124,-128, -31,-123, -94, -31,-122, -73, -31,-124,-128, -31,-123, -94, -31,-122, -74, -31,-124],
    [-128, -31,-123, -94, -31,-122, -75, -31,-124,-128, -31,-123, -94, -31,-122, -76, -31,-124,-128, -31],
    [-123, -94, -31,-122, -77, -31,-124,-128, -31,-123, -94, -31,-122, -78, -31,-124,-128, -31,-123, -94],
    [-31,-122, -79, -31,-124,-128, -31,-123, -94, -31,-122, -80, -31,-124,-128, -31,-123, -94, -31,-122],
    [-81, -31,-124,-128, -31,-123, -94, -31,-122, -82, -31,-124,-128, -31,-123, -94, -31,-122, -83, -31],
    [-124,-128, -31,-123, -94, -31,-122, -84, -31,-124,-128, -31,-123, -94, -31,-122, -85, -31,-124,-128],
    [-31,-123, -94, -31,-122, -86, -31,-124,-128, -31,-123, -94, -31,-122, -87, -31,-124,-128, -31,-123],
    [-94, -31,-122, -88, -31,-124,-128, -31,-123, -95, -31,-121,-126, -31,-124,-128, -31,-123, -95, -31],
    [-121,-127, -31,-124,-128, -31,-123, -95, -31,-121,-128, -31,-124,-128, -31,-123, -95, -31,-122, -65],
    [-31,-124,-128, -31,-123, -95, -31,-122, -66, -31,-124,-128, -31,-123, -95, -31,-122, -67, -31,-124],
    [-128, -31,-123, -95, -31,-122, -68, -31,-124,-128, -31,-123, -95, -31,-122, -69, -31,-124,-128, -31],
    [-123, -95, -31,-122, -70, -31,-124,-128, -31,-123, -95, -31,-122, -71, -31,-124,-128, -31,-123, -95],
    [-31,-122, -72, -31,-124,-128, -31,-123, -95, -31,-122, -73, -31,-124,-128, -31,-123, -95, -31,-122],
    [-74, -31,-124,-128, -31,-123, -95, -31,-122, -75, -31,-124,-128, -31,-123, -95, -31,-122, -76, -31],
    [-124,-128, -31,-123, -95, -31,-122, -77, -31,-124,-128, -31,-123, -95, -31,-122, -78, -31,-124,-128],
    [-31,-123, -95, -31,-122, -79, -31,-124,-128, -31,-123, -95, -31,-122, -80, -31,-124,-128, -31,-123],
    [-95, -31,-122, -81, -31,-124,-128, -31,-123, -95, -31,-122, -82, -31,-124,-128, -31,-123, -95, -31],
    [-122, -83, -31,-124,-128, -31,-123, -95, -31,-122, -84, -31,-124,-128, -31,-123, -95, -31,-122, -85],
    [-31,-124,-128, -31,-123, -95, -31,-122, -86, -31,-124,-128, -31,-123, -95, -31,-122, -87, -31,-124],
    [-128, -31,-123, -95, -31,-122, -88, -49,-119, -51,-126, -51,-123, -49,-119, -52,-127, -51,-123, -49],
    [-119, -52,-128, -51,-123, -49,-123, -52,-120, -51,-126, -49,-123, -52,-120, -52,-128, -50, -71, -52],
    [-120, -51,-126, -50, -71, -52,-120, -52,-128, -50, -73, -51,-126, -51,-123, -50, -73, -52,-127, -51],
    [-123, -50, -73, -52,-128, -51,-123, -50, -79, -51,-126, -51,-123, -50, -79, -52,-127, -51,-123, -50],
    [-79, -52,-128, -51,-123, -50, -87, -52,-108, -51,-123, -50, -87, -52,-109, -51,-123, -49,-119, -52],
    [-108, -51,-123, -49,-119, -52,-109, -51,-123, -50,-105, -52,-108, -51,-123, -50,-105, -52,-109, -51],
    [-123, -50, -73, -52,-108, -51,-123, -50, -73, -52,-109, -51,-123, -50,-111, -52,-108, -51,-123, -50],
    [-111, -52,-109, -51,-123, -50, -79, -52,-108, -51,-123, -50, -79, -52,-109, -51,-123, -50, -91, -52],
    [-108, -51,-126, -50, -91, -52,-108, -52,-127, -50, -91, -52,-108, -52,-128, -49,-123, -52,-108, -51],
    [-126, -49,-123, -52,-109, -51,-126, -49,-123, -52,-108, -52,-127, -49,-123, -52,-109, -52,-127, -49],
    [-123, -52,-108, -52,-128, -49,-123, -52,-109, -52,-128, -50, -97, -52,-108, -52,-127, -50, -97, -52],
    [-109, -52,-127, -50, -97, -52,-108, -52,-128, -50, -97, -52,-109, -52,-128, -50, -65, -52,-108, -52],
    [-127, -50, -65, -52,-109, -52,-127, -50, -65, -52,-108, -52,-128, -50, -65, -52,-109, -52,-128, -50],
    [-103, -52,-108, -51,-126, -50,-103, -52,-109, -51,-126, -50,-103, -52,-108, -52,-127, -50,-103, -52],
    [-109, -52,-127, -50,-103, -52,-108, -52,-128, -50,-103, -52,-109, -52,-128, -50, -71, -52,-108, -51],
    [-126, -50, -71, -52,-109, -51,-126, -50, -71, -52,-108, -52,-127, -50, -71, -52,-109, -52,-127, -50],
    [-71, -52,-108, -52,-128, -50, -71, -52,-109, -52,-128, -50,-107, -52,-108, -52,-127, -50,-107, -52],
    [-109, -52,-127, -50,-107, -52,-108, -52,-128, -50,-107, -52,-109, -52,-128, -50, -75, -52,-108, -52],
    [-127, -50, -75, -52,-109, -52,-127, -50, -75, -52,-108, -52,-128, -50, -75, -52,-109, -52,-128, 117],
    [-52,-101, -52, -93,  85, -52,-101, -52, -93, 117, -52,-101, -52,-125,  85, -52,-101, -52,-125, 117],
    [-52,-101, -52,-119,  85, -52,-101, -52,-119, 117, -52,-101, -52,-128,  85, -52,-101, -52,-128, 117],
    [-52,-101, -52,-127,  85, -52,-101, -52,-127, 111, -52,-101, -52, -93,  79, -52,-101, -52, -93, 111],
    [-52,-101, -52,-125,  79, -52,-101, -52,-125, 111, -52,-101, -52,-119,  79, -52,-101, -52,-119, 111],
    [-52,-101, -52,-128,  79, -52,-101, -52,-128, 111, -52,-101, -52,-127,  79, -52,-101, -52,-127, 111],
    [-52, -93, -52,-126,  79, -52, -93, -52,-126, 111, -52,-126, -52,-125,  79, -52,-126, -52,-125, 111],
    [-52,-126, -52,-119,  79, -52,-126, -52,-119, 111, -52,-126, -52,-128,  79, -52,-126, -52,-128, 111],
    [-52,-126, -52,-127,  79, -52,-126, -52,-127, 101, -52, -93, -52,-126,  69, -52, -93, -52,-126, 101],
    [-52,-126, -52,-125,  69, -52,-126, -52,-125, 101, -52,-126, -52,-119,  69, -52,-126, -52,-119, 101],
    [-52,-126, -52,-128,  69, -52,-126, -52,-128, 101, -52,-126, -52,-127,  69, -52,-126, -52,-127,  97],
    [-52, -93, -52,-122,  65, -52, -93, -52,-122,  97, -52,-122, -52,-125,  65, -52,-122, -52,-125,  97],
    [-52,-122, -52,-119,  65, -52,-122, -52,-119,  97, -52,-122, -52,-128,  65, -52,-122, -52,-128,  97],
    [-52,-122, -52,-127,  65, -52,-122, -52,-127,  97, -52, -93, -52,-126,  65, -52, -93, -52,-126,  97],
    [-52,-126, -52,-125,  65, -52,-126, -52,-125,  97, -52,-126, -52,-119,  65, -52,-126, -52,-119,  97],
    [-52,-126, -52,-128,  65, -52,-126, -52,-128,  97, -52,-126, -52,-127,  65, -52,-126, -52,-127, 117],
    [-52,-124, -52,-120,  85, -52,-124, -52,-120, 117, -52,-125, -52,-127,  85, -52,-125, -52,-127, 115],
    [-52, -93, -52,-121,  83, -52, -93, -52,-121, 115, -52,-116, -52,-121,  83, -52,-116, -52,-121, 115],
    [-52,-127, -52,-121,  83, -52,-127, -52,-121, 114, -52, -93, -52,-124,  82, -52, -93, -52,-124, 111],
    [-52,-124, -52,-127,  79, -52,-124, -52,-127, 111, -52,-124, -52,-128,  79, -52,-124, -52,-128, 111],
    [-52,-125, -52,-120,  79, -52,-125, -52,-120, 111, -52,-125, -52,-127,  79, -52,-125, -52,-127, 108],
    [-52, -93, -52,-124,  76, -52, -93, -52,-124, 105, -52,-120, -52,-127,  73, -52,-120, -52,-127, 101],
    [-52, -89, -52,-122,  69, -52, -89, -52,-122, 101, -52,-124, -52,-127,  69, -52,-124, -52,-127, 101],
    [-52,-124, -52,-128,  69, -52,-124, -52,-128,  99, -52, -89, -52,-127,  67, -52, -89, -52,-127, -32],
    [-73,-103, -32, -73,-113, -32, -73,-118, -32, -77,-122, -32, -77,-126, -32, -77,-107, -49,-123, -52],
    [-120, -52,-127, -50, -71, -52,-120, -52,-127, 111, -52,-121, -52,-124,  79, -52,-121, -52,-124, 111],
    [-52,-125, -52,-124,  79, -52,-125, -52,-124, 111, -52,-120, -52,-124,  79, -52,-120, -52,-124,  97],
    [-52,-118, -52,-127,  65, -52,-118, -52,-127, 111, -52, -88, -52,-124,  79, -52, -88, -52,-124,  97],
    [-52,-121, -52,-124,  65, -52,-121, -52,-124,  97, -52,-120, -52,-124,  65, -52,-120, -52,-124, 117],
    [-52,-120, -52,-128,  85, -52,-120, -52,-128, 117, -52,-120, -52,-116,  85, -52,-120, -52,-116, 117],
    [-52,-120, -52,-127,  85, -52,-120, -52,-127, 117, -52,-120, -52,-124,  85, -52,-120, -52,-124, -40],
    [-79, -37,-116, -40, -89, -39,-124, -40, -79, -40, -77, -39,-120, -39,-124, -40, -75, -39,-124, -40],
    [-71, -39,-123, -39,-123, -40, -83, -39,-123, -40, -81, -40, -89, -39,-125, -40, -88, -40, -79, 112],
    [46, 109,  46,  67, -30,-120,-107, 107, 103,  97,  46, 109,  46, 109, -30,-120,-107, 115,  50, 107],
    [99,  97, 108, -26, -96, -86, -27, -68,-113, -28, -68,-102, -25, -92, -66, -29,-125, -85, -29,-125],
    [-110, -29,-126,-102, -29,-125, -68, -29,-125, -86, -29,-125,-125, -29,-125,-120, -29,-125, -85, -29],
    [-125, -92, -29,-125, -68, -29,-125,-120, -29,-126,-103, -29,-125, -97, -29,-126, -81, -29,-125, -83],
    [-29,-125, -77, -29,-125, -98, -29,-126, -92, -29,-126, -81, -29,-125, -83, -29,-125,-101, -29,-126],
    [-103, -29,-125, -85, -29,-125,-120, -29,-125,-104, -29,-126,-103, -29,-125, -68, -29,-126, -65, -29],
    [-125,-104, -29,-126,-102, -29,-125, -77, -29,-126, -71, -29,-125,-104, -29,-126,-102, -29,-125,-117],
    [-29,-125,-110, -29,-125,-107, -29,-126, -93, -29,-125, -68, -29,-125,-120, -29,-125,-110, -29,-126],
    [-102, -29,-126, -81, -29,-125, -85, -29,-125,-113, -29,-126,-102, -29,-125, -68, -29,-125,-124, -29],
    [-126, -65, -29,-126,-103, -29,-125, -68, -29,-126, -71, -29,-126, -75, -29,-126, -92, -29,-126, -81],
    [-29,-125, -85, -29,-126, -77, -29,-125, -68, -29,-125,-101, -29,-126,-102, -29,-126, -81, -29,-125],
    [-83, -29,-125, -68, -29,-125,-115, -29,-126, -83, -29,-125, -91, -29,-125, -86, -29,-125, -68, -29],
    [-126, -83, -29,-126,-103, -29,-125,-117, -29,-125, -68, -29,-126, -83, -29,-126,-103, -29,-126, -85],
    [-29,-126,-103, -29,-126, -85, -29,-126,-103, -29,-125, -77, -29,-125, -98, -29,-126, -85, -29,-126],
    [-103, -29,-125, -83, -29,-125, -77, -29,-126, -85, -29,-125, -83, -29,-125, -86, -29,-125, -68, -29],
    [-126, -85, -29,-125, -87, -29,-125,-125, -29,-125,-120, -29,-126, -88, -29,-125, -68, -29,-126, -85],
    [-29,-125, -68, -29,-126, -94, -29,-125, -85, -29,-125,-107, -29,-126, -95, -31,-124,-116, -31,-123],
    [-82, -31,-124,-117, -31,-123, -76,  40, -31,-124,-116, -31,-123, -82,  41,  40, -31,-124,-110, -31],
    [-123, -95,  41,  40, -31,-124,-111, -31,-123, -95,  41,  40, -31,-124,-112, -31,-123, -95,  41,  40],
    [-31,-124,-113, -31,-123, -95,  41,  40, -31,-124,-114, -31,-123, -95,  41,  40, -31,-124,-116, -31],
    [-123, -95,  41,  40, -31,-124,-117, -31,-123, -95,  41,  40, -31,-124,-119, -31,-123, -95,  41,  40],
    [-31,-124,-121, -31,-123, -95,  41,  40, -31,-124,-122, -31,-123, -95,  41,  40, -31,-124,-123, -31],
    [-123, -95,  41,  40, -31,-124,-125, -31,-123, -95,  41,  40, -31,-124,-126, -31,-123, -95,  41,  40],
    [-31,-124,-128, -31,-123, -95,  41, -30,-120, -85, -30,-120, -85, -30,-120, -85, -30,-120, -85,  40],
    [50,  48,  41,  40,  49,  57,  41,  40,  49,  56,  41,  40,  49,  55,  41,  40,  49,  54,  41,  40],
    [49,  53,  41,  40,  49,  52,  41,  40,  49,  51,  41,  40,  49,  50,  41,  40,  49,  49,  41,  40],
    [49,  48,  41, 118, 105, 105, 105,  86,  73,  73,  73,  49, -30,-127,-124,  49,  48, -30,-128, -78],
    [-30,-128, -78, -30,-128, -78, -30,-128, -78, -50, -87, -52,-108, -51,-126, -51,-123, -50, -87, -52],
    [-109, -51,-126, -51,-123, -50, -87, -52,-108, -52,-127, -51,-123, -50, -87, -52,-109, -52,-127, -51],
    [-123, -50, -87, -52,-108, -52,-128, -51,-123, -50, -87, -52,-109, -52,-128, -51,-123, -49,-119, -52]]"

definition STRINGS_50 :: "int list list" where
  "STRINGS_50 = [
    [-108, -51,-126, -51,-123, -49,-119, -52,-109, -51,-126, -51,-123, -49,-119, -52,-108, -52,-127, -51],
    [-123, -49,-119, -52,-109, -52,-127, -51,-123, -49,-119, -52,-108, -52,-128, -51,-123, -49,-119, -52],
    [-109, -52,-128, -51,-123, -50,-105, -52,-108, -51,-126, -51,-123, -50,-105, -52,-109, -51,-126, -51],
    [-123, -50,-105, -52,-108, -52,-127, -51,-123, -50,-105, -52,-109, -52,-127, -51,-123, -50,-105, -52],
    [-108, -52,-128, -51,-123, -50,-105, -52,-109, -52,-128, -51,-123, -50, -73, -52,-108, -51,-126, -51],
    [-123, -50, -73, -52,-109, -51,-126, -51,-123, -50, -73, -52,-108, -52,-127, -51,-123, -50, -73, -52],
    [-109, -52,-127, -51,-123, -50, -73, -52,-108, -52,-128, -51,-123, -50, -73, -52,-109, -52,-128, -51],
    [-123, -50,-111, -52,-108, -51,-126, -51,-123, -50,-111, -52,-109, -51,-126, -51,-123, -50,-111, -52],
    [-108, -52,-127, -51,-123, -50,-111, -52,-109, -52,-127, -51,-123, -50,-111, -52,-108, -52,-128, -51],
    [-123, -50,-111, -52,-109, -52,-128, -51,-123, -50, -79, -52,-108, -51,-126, -51,-123, -50, -79, -52],
    [-109, -51,-126, -51,-123, -50, -79, -52,-108, -52,-127, -51,-123, -50, -79, -52,-109, -52,-127, -51],
    [-123, -50, -79, -52,-108, -52,-128, -51,-123, -50, -79, -52,-109, -52,-128, -51,-123, -29,-125, -85],
    [-29,-125, -68, -29,-125,-107, -29,-126,-103, -29,-125, -85, -29,-125, -95, -29,-126, -85, -29,-126],
    [-103, -29,-125,-120, -29,-125, -77, -29,-125, -98, -29,-125, -77, -29,-126, -73, -29,-125, -89, -29],
    [-125, -77, -29,-125,-101, -29,-126,-102, -29,-125, -77, -29,-125,-120, -29,-126,-103, -29,-125,-101],
    [-29,-126,-102, -29,-126, -92, -29,-125, -77, -29,-125,-120, -29,-125,-104, -29,-126,-102, -29,-125],
    [-68, -29,-126, -73, -29,-126,-103, -29,-125,-104, -29,-126, -81, -29,-126, -65, -29,-125, -68, -29],
    [-125, -85, -29,-125,-113, -29,-126,-103, -29,-125, -68, -29,-125, -84, -29,-125, -85, -29,-126, -73],
    [-29,-125, -86, -29,-125, -77, -29,-126, -81, -29,-126,-103, -29,-126, -75, -29,-125, -77, -29,-125],
    [-127, -29,-125, -68, -29,-125, -96, -29,-126, -83, -29,-125, -83, -29,-125, -81, -29,-125,-125, -29],
    [-125,-120, -29,-126, -92, -29,-125,-117, -29,-125, -77, -29,-126, -81, -29,-126,-103, -29,-126, -94],
    [-29,-125, -77, -29,-125,-104, -29,-126,-102, -29,-126, -94, -29,-126, -94, -29,-125,-113, -29,-126],
    [-102, -29,-125, -68, -29,-125,-120, -31,-124,-114, -31,-123, -95, -31,-122, -73, -31,-124,-128, -31],
    [-123, -87, 114,  97, 100, -30,-120,-107, 115,  50, -29,-125, -84, -29,-125, -77, -29,-125,-120, -29],
    [-126, -79, -29,-126,-103, -29,-125, -77, -29,-125, -97, -29,-125, -86, -29,-125,-113, -29,-126,-103],
    [-29,-125, -68, -29,-125, -85, -29,-125,-107, -29,-126,-103, -29,-125,-125, -29,-126, -73, -29,-126],
    [-89, -29,-125, -85, -29,-125,-107, -29,-126, -95, -29,-125, -87, -29,-125,-125, -29,-125,-120, -29],
    [-126,-103, -29,-125,-110, -29,-126,-102, -29,-126, -94, -29,-126, -71, -29,-125,-120, -29,-125, -85],
    [-29,-125,-113, -29,-126,-102, -29,-125, -68, -29,-126, -69, -29,-125, -77, -29,-125,-120, -29,-126],
    [-81, -29,-125, -85, -29,-126, -69, -29,-126,-103, -29,-126, -92, -29,-125, -83, -29,-126, -81, -29],
    [-126,-103, -29,-125, -87, -29,-125, -96, -29,-125,-120, -29,-125, -77, -29,-126, -83, -29,-125, -83],
    [-29,-125, -95, -29,-125, -68, -29,-125,-120, -29,-125, -85, -29,-126, -83, -29,-125, -83, -29,-126],
    [-81, -29,-126,-103, -29,-125, -87, -29,-125, -96, -29,-126, -83, -29,-126,-103, -29,-125, -85, -29],
    [-126, -65, -29,-126,-103, -29,-125, -68, -29,-126, -88, -29,-126, -71, -29,-126, -81, -29,-125, -68],
    [-29,-125,-120, -29,-126,-103,  40, -31,-124,-117, -31,-123, -87, -31,-124,-110, -31,-123, -82,  41],
    [40, -31,-124,-117, -31,-123, -87, -31,-124,-116, -31,-123, -91, -31,-122, -85,  41, -40, -84, -39],
    [-124,  32, -40, -84, -39,-124, -40, -89, -39,-124, -39,-121, -40, -75, -39,-124, -39,-119,  32, -40],
    [-89, -39,-124, -39,-124, -39,-121,  32, -40, -71, -39,-124, -39,-118, -39,-121,  32, -39,-120, -40],
    [-77, -39,-124, -39,-123]]"

end
