(* ===== verification/Table.thy ===== *)
theory Table
  imports Normalizer Table_Access
    Table_Nodes_1 Table_Nodes_2 Table_Nodes_3 Table_Nodes_4 Table_Nodes_5 Table_Nodes_6 Table_Nodes_7
    Table_Strings_1 Table_Strings_2 Table_Strings_3 Table_Strings_4 Table_Strings_5 Table_Strings_6 Table_Strings_7 Table_Strings_8
begin

text \<open>
  \<open>UNF::TABLE\<close> of \<open>unf/table.hh\<close>, put together from its parts: the node array, the string table
  and the indices of the roots. \<open>TABLE\<close> is the table the constructor \<open>Normalizer()\<close> uses.
  There is one rule per block of sixteen entries. \<open>decomp_rules\<close>, \<open>compat_rules\<close>, \<open>class_rules\<close>,
  \<open>nfc_rules\<close> and \<open>nfkc_rules\<close> collect those of the parts of \<open>NODES\<close> in which the trie has nodes,
  \<open>string_rules\<close> those of the parts of \<open>STRINGS\<close> that hold decompositions.
\<close>

named_theorems decomp_rules
named_theorems compat_rules
named_theorems class_rules
named_theorems nfc_rules
named_theorems nfkc_rules
named_theorems string_rules

section \<open>Definitions\<close>

definition node_lines :: "nat list list" where
  "node_lines = concat
    [NODES_00, NODES_01, NODES_02, NODES_03, NODES_04, NODES_05, NODES_06, NODES_07,
     NODES_08, NODES_09, NODES_10, NODES_11, NODES_12, NODES_13, NODES_14, NODES_15,
     NODES_16, NODES_17, NODES_18, NODES_19, NODES_20, NODES_21, NODES_22, NODES_23,
     NODES_24, NODES_25, NODES_26, NODES_27, NODES_28, NODES_29, NODES_30, NODES_31,
     NODES_32, NODES_33, NODES_34, NODES_35, NODES_36, NODES_37, NODES_38, NODES_39,
     NODES_40, NODES_41, NODES_42, NODES_43]"

definition string_lines :: "int list list" where
  "string_lines = concat
    [STRINGS_00, STRINGS_01, STRINGS_02, STRINGS_03, STRINGS_04, STRINGS_05, STRINGS_06, STRINGS_07,
     STRINGS_08, STRINGS_09, STRINGS_10, STRINGS_11, STRINGS_12, STRINGS_13, STRINGS_14, STRINGS_15,
     STRINGS_16, STRINGS_17, STRINGS_18, STRINGS_19, STRINGS_20, STRINGS_21, STRINGS_22, STRINGS_23,
     STRINGS_24, STRINGS_25, STRINGS_26, STRINGS_27, STRINGS_28, STRINGS_29, STRINGS_30, STRINGS_31,
     STRINGS_32, STRINGS_33, STRINGS_34, STRINGS_35, STRINGS_36, STRINGS_37, STRINGS_38, STRINGS_39,
     STRINGS_40, STRINGS_41, STRINGS_42, STRINGS_43, STRINGS_44, STRINGS_45, STRINGS_46, STRINGS_47,
     STRINGS_48, STRINGS_49, STRINGS_50]"

definition TABLE_NODES :: "u32 list" where
  "TABLE_NODES = map of_nat (concat node_lines)"

definition TABLE_STRINGS :: bytes where
  "TABLE_STRINGS = map word_of_int (concat string_lines)"

definition TABLE :: table where
  "TABLE =
     \<lparr>NODES = TABLE_NODES,
      STRINGS = TABLE_STRINGS,
      CANONICAL_COM_ROOT = 257,
      CANONICAL_DECOM_ROOT = 258,
      COMPATIBILITY_DECOM_ROOT = 259,
      CANONICAL_CLASS_ROOT = 260,
      NFC_ILLEGAL_ROOT = 261,
      NFKC_ILLEGAL_ROOT = 262\<rparr>"

section \<open>Blocks\<close>

definition node_block :: "(nat list \<Rightarrow> bool) \<Rightarrow> nat \<Rightarrow> bool" where
  "node_block = with_block node_lines"

definition string_block :: "(int list \<Rightarrow> bool) \<Rightarrow> nat \<Rightarrow> bool" where
  "string_block = with_block string_lines"

lemmas node_count_simps = count_10 count_from_Nil sum_simps

lemma size_NODES_00: "length (concat NODES_00) = 16 * 90"
proof -
  have "count_from 0 NODES_00 = 1440" by (simp only: NODES_00_def node_count_simps)
  then show ?thesis by (simp add: count_from_def)
qed

lemma size_NODES_01: "length (concat NODES_01) = 16 * 90"
proof -
  have "count_from 0 NODES_01 = 1440" by (simp only: NODES_01_def node_count_simps)
  then show ?thesis by (simp add: count_from_def)
qed

lemma size_NODES_02: "length (concat NODES_02) = 16 * 90"
proof -
  have "count_from 0 NODES_02 = 1440" by (simp only: NODES_02_def node_count_simps)
  then show ?thesis by (simp add: count_from_def)
qed

lemma size_NODES_03: "length (concat NODES_03) = 16 * 90"
proof -
  have "count_from 0 NODES_03 = 1440" by (simp only: NODES_03_def node_count_simps)
  then show ?thesis by (simp add: count_from_def)
qed

lemma size_NODES_04: "length (concat NODES_04) = 16 * 90"
proof -
  have "count_from 0 NODES_04 = 1440" by (simp only: NODES_04_def node_count_simps)
  then show ?thesis by (simp add: count_from_def)
qed

lemma size_NODES_05: "length (concat NODES_05) = 16 * 90"
proof -
  have "count_from 0 NODES_05 = 1440" by (simp only: NODES_05_def node_count_simps)
  then show ?thesis by (simp add: count_from_def)
qed

lemma size_NODES_06: "length (concat NODES_06) = 16 * 90"
proof -
  have "count_from 0 NODES_06 = 1440" by (simp only: NODES_06_def node_count_simps)
  then show ?thesis by (simp add: count_from_def)
qed

lemma size_NODES_07: "length (concat NODES_07) = 16 * 90"
proof -
  have "count_from 0 NODES_07 = 1440" by (simp only: NODES_07_def node_count_simps)
  then show ?thesis by (simp add: count_from_def)
qed

lemma size_NODES_08: "length (concat NODES_08) = 16 * 90"
proof -
  have "count_from 0 NODES_08 = 1440" by (simp only: NODES_08_def node_count_simps)
  then show ?thesis by (simp add: count_from_def)
qed

lemma size_NODES_09: "length (concat NODES_09) = 16 * 90"
proof -
  have "count_from 0 NODES_09 = 1440" by (simp only: NODES_09_def node_count_simps)
  then show ?thesis by (simp add: count_from_def)
qed

lemma size_NODES_10: "length (concat NODES_10) = 16 * 90"
proof -
  have "count_from 0 NODES_10 = 1440" by (simp only: NODES_10_def node_count_simps)
  then show ?thesis by (simp add: count_from_def)
qed

lemma size_NODES_11: "length (concat NODES_11) = 16 * 90"
proof -
  have "count_from 0 NODES_11 = 1440" by (simp only: NODES_11_def node_count_simps)
  then show ?thesis by (simp add: count_from_def)
qed

lemma size_NODES_12: "length (concat NODES_12) = 16 * 90"
proof -
  have "count_from 0 NODES_12 = 1440" by (simp only: NODES_12_def node_count_simps)
  then show ?thesis by (simp add: count_from_def)
qed

lemma size_NODES_13: "length (concat NODES_13) = 16 * 90"
proof -
  have "count_from 0 NODES_13 = 1440" by (simp only: NODES_13_def node_count_simps)
  then show ?thesis by (simp add: count_from_def)
qed

lemma size_NODES_14: "length (concat NODES_14) = 16 * 90"
proof -
  have "count_from 0 NODES_14 = 1440" by (simp only: NODES_14_def node_count_simps)
  then show ?thesis by (simp add: count_from_def)
qed

lemma size_NODES_15: "length (concat NODES_15) = 16 * 90"
proof -
  have "count_from 0 NODES_15 = 1440" by (simp only: NODES_15_def node_count_simps)
  then show ?thesis by (simp add: count_from_def)
qed

lemma size_NODES_16: "length (concat NODES_16) = 16 * 90"
proof -
  have "count_from 0 NODES_16 = 1440" by (simp only: NODES_16_def node_count_simps)
  then show ?thesis by (simp add: count_from_def)
qed

lemma size_NODES_17: "length (concat NODES_17) = 16 * 90"
proof -
  have "count_from 0 NODES_17 = 1440" by (simp only: NODES_17_def node_count_simps)
  then show ?thesis by (simp add: count_from_def)
qed

lemma size_NODES_18: "length (concat NODES_18) = 16 * 90"
proof -
  have "count_from 0 NODES_18 = 1440" by (simp only: NODES_18_def node_count_simps)
  then show ?thesis by (simp add: count_from_def)
qed

lemma size_NODES_19: "length (concat NODES_19) = 16 * 90"
proof -
  have "count_from 0 NODES_19 = 1440" by (simp only: NODES_19_def node_count_simps)
  then show ?thesis by (simp add: count_from_def)
qed

lemma size_NODES_20: "length (concat NODES_20) = 16 * 90"
proof -
  have "count_from 0 NODES_20 = 1440" by (simp only: NODES_20_def node_count_simps)
  then show ?thesis by (simp add: count_from_def)
qed

lemma size_NODES_21: "length (concat NODES_21) = 16 * 90"
proof -
  have "count_from 0 NODES_21 = 1440" by (simp only: NODES_21_def node_count_simps)
  then show ?thesis by (simp add: count_from_def)
qed

lemma size_NODES_22: "length (concat NODES_22) = 16 * 90"
proof -
  have "count_from 0 NODES_22 = 1440" by (simp only: NODES_22_def node_count_simps)
  then show ?thesis by (simp add: count_from_def)
qed

lemma size_NODES_23: "length (concat NODES_23) = 16 * 90"
proof -
  have "count_from 0 NODES_23 = 1440" by (simp only: NODES_23_def node_count_simps)
  then show ?thesis by (simp add: count_from_def)
qed

lemma size_NODES_24: "length (concat NODES_24) = 16 * 90"
proof -
  have "count_from 0 NODES_24 = 1440" by (simp only: NODES_24_def node_count_simps)
  then show ?thesis by (simp add: count_from_def)
qed

lemma size_NODES_25: "length (concat NODES_25) = 16 * 90"
proof -
  have "count_from 0 NODES_25 = 1440" by (simp only: NODES_25_def node_count_simps)
  then show ?thesis by (simp add: count_from_def)
qed

lemma size_NODES_26: "length (concat NODES_26) = 16 * 90"
proof -
  have "count_from 0 NODES_26 = 1440" by (simp only: NODES_26_def node_count_simps)
  then show ?thesis by (simp add: count_from_def)
qed

lemma size_NODES_27: "length (concat NODES_27) = 16 * 90"
proof -
  have "count_from 0 NODES_27 = 1440" by (simp only: NODES_27_def node_count_simps)
  then show ?thesis by (simp add: count_from_def)
qed

lemma size_NODES_28: "length (concat NODES_28) = 16 * 90"
proof -
  have "count_from 0 NODES_28 = 1440" by (simp only: NODES_28_def node_count_simps)
  then show ?thesis by (simp add: count_from_def)
qed

lemma size_NODES_29: "length (concat NODES_29) = 16 * 90"
proof -
  have "count_from 0 NODES_29 = 1440" by (simp only: NODES_29_def node_count_simps)
  then show ?thesis by (simp add: count_from_def)
qed

lemma size_NODES_30: "length (concat NODES_30) = 16 * 90"
proof -
  have "count_from 0 NODES_30 = 1440" by (simp only: NODES_30_def node_count_simps)
  then show ?thesis by (simp add: count_from_def)
qed

lemma size_NODES_31: "length (concat NODES_31) = 16 * 90"
proof -
  have "count_from 0 NODES_31 = 1440" by (simp only: NODES_31_def node_count_simps)
  then show ?thesis by (simp add: count_from_def)
qed

lemma size_NODES_32: "length (concat NODES_32) = 16 * 90"
proof -
  have "count_from 0 NODES_32 = 1440" by (simp only: NODES_32_def node_count_simps)
  then show ?thesis by (simp add: count_from_def)
qed

lemma size_NODES_33: "length (concat NODES_33) = 16 * 90"
proof -
  have "count_from 0 NODES_33 = 1440" by (simp only: NODES_33_def node_count_simps)
  then show ?thesis by (simp add: count_from_def)
qed

lemma size_NODES_34: "length (concat NODES_34) = 16 * 90"
proof -
  have "count_from 0 NODES_34 = 1440" by (simp only: NODES_34_def node_count_simps)
  then show ?thesis by (simp add: count_from_def)
qed

lemma size_NODES_35: "length (concat NODES_35) = 16 * 90"
proof -
  have "count_from 0 NODES_35 = 1440" by (simp only: NODES_35_def node_count_simps)
  then show ?thesis by (simp add: count_from_def)
qed

lemma size_NODES_36: "length (concat NODES_36) = 16 * 90"
proof -
  have "count_from 0 NODES_36 = 1440" by (simp only: NODES_36_def node_count_simps)
  then show ?thesis by (simp add: count_from_def)
qed

lemma size_NODES_37: "length (concat NODES_37) = 16 * 90"
proof -
  have "count_from 0 NODES_37 = 1440" by (simp only: NODES_37_def node_count_simps)
  then show ?thesis by (simp add: count_from_def)
qed

lemma size_NODES_38: "length (concat NODES_38) = 16 * 90"
proof -
  have "count_from 0 NODES_38 = 1440" by (simp only: NODES_38_def node_count_simps)
  then show ?thesis by (simp add: count_from_def)
qed

lemma size_NODES_39: "length (concat NODES_39) = 16 * 90"
proof -
  have "count_from 0 NODES_39 = 1440" by (simp only: NODES_39_def node_count_simps)
  then show ?thesis by (simp add: count_from_def)
qed

lemma size_NODES_40: "length (concat NODES_40) = 16 * 90"
proof -
  have "count_from 0 NODES_40 = 1440" by (simp only: NODES_40_def node_count_simps)
  then show ?thesis by (simp add: count_from_def)
qed

lemma size_NODES_41: "length (concat NODES_41) = 16 * 90"
proof -
  have "count_from 0 NODES_41 = 1440" by (simp only: NODES_41_def node_count_simps)
  then show ?thesis by (simp add: count_from_def)
qed

lemma size_NODES_42: "length (concat NODES_42) = 16 * 90"
proof -
  have "count_from 0 NODES_42 = 1440" by (simp only: NODES_42_def node_count_simps)
  then show ?thesis by (simp add: count_from_def)
qed

lemma size_NODES_43: "length (concat NODES_43) = 935"
  by (simp add: NODES_43_def)

lemma line_blocks_node_lines: "line_blocks node_block 0 node_lines"
  by (simp add: node_block_def line_blocks_with_block)

lemma node_parts:
  shows "line_blocks node_block 0 NODES_00"
    and "line_blocks node_block 90 NODES_01"
    and "line_blocks node_block 180 NODES_02"
    and "line_blocks node_block 270 NODES_03"
    and "line_blocks node_block 360 NODES_04"
    and "line_blocks node_block 450 NODES_05"
    and "line_blocks node_block 540 NODES_06"
    and "line_blocks node_block 630 NODES_07"
    and "line_blocks node_block 720 NODES_08"
    and "line_blocks node_block 810 NODES_09"
    and "line_blocks node_block 900 NODES_10"
    and "line_blocks node_block 990 NODES_11"
    and "line_blocks node_block 1080 NODES_12"
    and "line_blocks node_block 1170 NODES_13"
    and "line_blocks node_block 1260 NODES_14"
    and "line_blocks node_block 1350 NODES_15"
    and "line_blocks node_block 1440 NODES_16"
    and "line_blocks node_block 1530 NODES_17"
    and "line_blocks node_block 1620 NODES_18"
    and "line_blocks node_block 1710 NODES_19"
    and "line_blocks node_block 1800 NODES_20"
    and "line_blocks node_block 1890 NODES_21"
    and "line_blocks node_block 1980 NODES_22"
    and "line_blocks node_block 2070 NODES_23"
    and "line_blocks node_block 2160 NODES_24"
    and "line_blocks node_block 2250 NODES_25"
    and "line_blocks node_block 2340 NODES_26"
    and "line_blocks node_block 2430 NODES_27"
    and "line_blocks node_block 2520 NODES_28"
    and "line_blocks node_block 2610 NODES_29"
    and "line_blocks node_block 2700 NODES_30"
    and "line_blocks node_block 2790 NODES_31"
    and "line_blocks node_block 2880 NODES_32"
    and "line_blocks node_block 2970 NODES_33"
    and "line_blocks node_block 3060 NODES_34"
    and "line_blocks node_block 3150 NODES_35"
    and "line_blocks node_block 3240 NODES_36"
    and "line_blocks node_block 3330 NODES_37"
    and "line_blocks node_block 3420 NODES_38"
    and "line_blocks node_block 3510 NODES_39"
    and "line_blocks node_block 3600 NODES_40"
    and "line_blocks node_block 3690 NODES_41"
    and "line_blocks node_block 3780 NODES_42"
    and "line_blocks node_block 3870 NODES_43"
  using line_blocks_node_lines
  unfolding node_lines_def concat.simps append_Nil2 sum_simps
    line_blocks_append [OF size_NODES_00] line_blocks_append [OF size_NODES_01]
    line_blocks_append [OF size_NODES_02] line_blocks_append [OF size_NODES_03]
    line_blocks_append [OF size_NODES_04] line_blocks_append [OF size_NODES_05]
    line_blocks_append [OF size_NODES_06] line_blocks_append [OF size_NODES_07]
    line_blocks_append [OF size_NODES_08] line_blocks_append [OF size_NODES_09]
    line_blocks_append [OF size_NODES_10] line_blocks_append [OF size_NODES_11]
    line_blocks_append [OF size_NODES_12] line_blocks_append [OF size_NODES_13]
    line_blocks_append [OF size_NODES_14] line_blocks_append [OF size_NODES_15]
    line_blocks_append [OF size_NODES_16] line_blocks_append [OF size_NODES_17]
    line_blocks_append [OF size_NODES_18] line_blocks_append [OF size_NODES_19]
    line_blocks_append [OF size_NODES_20] line_blocks_append [OF size_NODES_21]
    line_blocks_append [OF size_NODES_22] line_blocks_append [OF size_NODES_23]
    line_blocks_append [OF size_NODES_24] line_blocks_append [OF size_NODES_25]
    line_blocks_append [OF size_NODES_26] line_blocks_append [OF size_NODES_27]
    line_blocks_append [OF size_NODES_28] line_blocks_append [OF size_NODES_29]
    line_blocks_append [OF size_NODES_30] line_blocks_append [OF size_NODES_31]
    line_blocks_append [OF size_NODES_32] line_blocks_append [OF size_NODES_33]
    line_blocks_append [OF size_NODES_34] line_blocks_append [OF size_NODES_35]
    line_blocks_append [OF size_NODES_36] line_blocks_append [OF size_NODES_37]
    line_blocks_append [OF size_NODES_38] line_blocks_append [OF size_NODES_39]
    line_blocks_append [OF size_NODES_40] line_blocks_append [OF size_NODES_41]
    line_blocks_append [OF size_NODES_42]
  by blast+

lemmas string_count_simps = count_20 count_from_Nil sum_simps

lemma size_STRINGS_00: "length (concat STRINGS_00) = 16 * 180"
proof -
  have "count_from 0 STRINGS_00 = 2880" by (simp only: STRINGS_00_def string_count_simps)
  then show ?thesis by (simp add: count_from_def)
qed

lemma size_STRINGS_01: "length (concat STRINGS_01) = 16 * 180"
proof -
  have "count_from 0 STRINGS_01 = 2880" by (simp only: STRINGS_01_def string_count_simps)
  then show ?thesis by (simp add: count_from_def)
qed

lemma size_STRINGS_02: "length (concat STRINGS_02) = 16 * 180"
proof -
  have "count_from 0 STRINGS_02 = 2880" by (simp only: STRINGS_02_def string_count_simps)
  then show ?thesis by (simp add: count_from_def)
qed

lemma size_STRINGS_03: "length (concat STRINGS_03) = 16 * 180"
proof -
  have "count_from 0 STRINGS_03 = 2880" by (simp only: STRINGS_03_def string_count_simps)
  then show ?thesis by (simp add: count_from_def)
qed

lemma size_STRINGS_04: "length (concat STRINGS_04) = 16 * 180"
proof -
  have "count_from 0 STRINGS_04 = 2880" by (simp only: STRINGS_04_def string_count_simps)
  then show ?thesis by (simp add: count_from_def)
qed

lemma size_STRINGS_05: "length (concat STRINGS_05) = 16 * 180"
proof -
  have "count_from 0 STRINGS_05 = 2880" by (simp only: STRINGS_05_def string_count_simps)
  then show ?thesis by (simp add: count_from_def)
qed

lemma size_STRINGS_06: "length (concat STRINGS_06) = 16 * 180"
proof -
  have "count_from 0 STRINGS_06 = 2880" by (simp only: STRINGS_06_def string_count_simps)
  then show ?thesis by (simp add: count_from_def)
qed

lemma size_STRINGS_07: "length (concat STRINGS_07) = 16 * 180"
proof -
  have "count_from 0 STRINGS_07 = 2880" by (simp only: STRINGS_07_def string_count_simps)
  then show ?thesis by (simp add: count_from_def)
qed

lemma size_STRINGS_08: "length (concat STRINGS_08) = 16 * 180"
proof -
  have "count_from 0 STRINGS_08 = 2880" by (simp only: STRINGS_08_def string_count_simps)
  then show ?thesis by (simp add: count_from_def)
qed

lemma size_STRINGS_09: "length (concat STRINGS_09) = 16 * 180"
proof -
  have "count_from 0 STRINGS_09 = 2880" by (simp only: STRINGS_09_def string_count_simps)
  then show ?thesis by (simp add: count_from_def)
qed

lemma size_STRINGS_10: "length (concat STRINGS_10) = 16 * 180"
proof -
  have "count_from 0 STRINGS_10 = 2880" by (simp only: STRINGS_10_def string_count_simps)
  then show ?thesis by (simp add: count_from_def)
qed

lemma size_STRINGS_11: "length (concat STRINGS_11) = 16 * 180"
proof -
  have "count_from 0 STRINGS_11 = 2880" by (simp only: STRINGS_11_def string_count_simps)
  then show ?thesis by (simp add: count_from_def)
qed

lemma size_STRINGS_12: "length (concat STRINGS_12) = 16 * 180"
proof -
  have "count_from 0 STRINGS_12 = 2880" by (simp only: STRINGS_12_def string_count_simps)
  then show ?thesis by (simp add: count_from_def)
qed

lemma size_STRINGS_13: "length (concat STRINGS_13) = 16 * 180"
proof -
  have "count_from 0 STRINGS_13 = 2880" by (simp only: STRINGS_13_def string_count_simps)
  then show ?thesis by (simp add: count_from_def)
qed

lemma size_STRINGS_14: "length (concat STRINGS_14) = 16 * 180"
proof -
  have "count_from 0 STRINGS_14 = 2880" by (simp only: STRINGS_14_def string_count_simps)
  then show ?thesis by (simp add: count_from_def)
qed

lemma size_STRINGS_15: "length (concat STRINGS_15) = 16 * 180"
proof -
  have "count_from 0 STRINGS_15 = 2880" by (simp only: STRINGS_15_def string_count_simps)
  then show ?thesis by (simp add: count_from_def)
qed

lemma size_STRINGS_16: "length (concat STRINGS_16) = 16 * 180"
proof -
  have "count_from 0 STRINGS_16 = 2880" by (simp only: STRINGS_16_def string_count_simps)
  then show ?thesis by (simp add: count_from_def)
qed

lemma size_STRINGS_17: "length (concat STRINGS_17) = 16 * 180"
proof -
  have "count_from 0 STRINGS_17 = 2880" by (simp only: STRINGS_17_def string_count_simps)
  then show ?thesis by (simp add: count_from_def)
qed

lemma size_STRINGS_18: "length (concat STRINGS_18) = 16 * 180"
proof -
  have "count_from 0 STRINGS_18 = 2880" by (simp only: STRINGS_18_def string_count_simps)
  then show ?thesis by (simp add: count_from_def)
qed

lemma size_STRINGS_19: "length (concat STRINGS_19) = 16 * 180"
proof -
  have "count_from 0 STRINGS_19 = 2880" by (simp only: STRINGS_19_def string_count_simps)
  then show ?thesis by (simp add: count_from_def)
qed

lemma size_STRINGS_20: "length (concat STRINGS_20) = 16 * 180"
proof -
  have "count_from 0 STRINGS_20 = 2880" by (simp only: STRINGS_20_def string_count_simps)
  then show ?thesis by (simp add: count_from_def)
qed

lemma size_STRINGS_21: "length (concat STRINGS_21) = 16 * 180"
proof -
  have "count_from 0 STRINGS_21 = 2880" by (simp only: STRINGS_21_def string_count_simps)
  then show ?thesis by (simp add: count_from_def)
qed

lemma size_STRINGS_22: "length (concat STRINGS_22) = 16 * 180"
proof -
  have "count_from 0 STRINGS_22 = 2880" by (simp only: STRINGS_22_def string_count_simps)
  then show ?thesis by (simp add: count_from_def)
qed

lemma size_STRINGS_23: "length (concat STRINGS_23) = 16 * 180"
proof -
  have "count_from 0 STRINGS_23 = 2880" by (simp only: STRINGS_23_def string_count_simps)
  then show ?thesis by (simp add: count_from_def)
qed

lemma size_STRINGS_24: "length (concat STRINGS_24) = 16 * 180"
proof -
  have "count_from 0 STRINGS_24 = 2880" by (simp only: STRINGS_24_def string_count_simps)
  then show ?thesis by (simp add: count_from_def)
qed

lemma size_STRINGS_25: "length (concat STRINGS_25) = 16 * 180"
proof -
  have "count_from 0 STRINGS_25 = 2880" by (simp only: STRINGS_25_def string_count_simps)
  then show ?thesis by (simp add: count_from_def)
qed

lemma size_STRINGS_26: "length (concat STRINGS_26) = 16 * 180"
proof -
  have "count_from 0 STRINGS_26 = 2880" by (simp only: STRINGS_26_def string_count_simps)
  then show ?thesis by (simp add: count_from_def)
qed

lemma size_STRINGS_27: "length (concat STRINGS_27) = 16 * 180"
proof -
  have "count_from 0 STRINGS_27 = 2880" by (simp only: STRINGS_27_def string_count_simps)
  then show ?thesis by (simp add: count_from_def)
qed

lemma size_STRINGS_28: "length (concat STRINGS_28) = 16 * 180"
proof -
  have "count_from 0 STRINGS_28 = 2880" by (simp only: STRINGS_28_def string_count_simps)
  then show ?thesis by (simp add: count_from_def)
qed

lemma size_STRINGS_29: "length (concat STRINGS_29) = 16 * 180"
proof -
  have "count_from 0 STRINGS_29 = 2880" by (simp only: STRINGS_29_def string_count_simps)
  then show ?thesis by (simp add: count_from_def)
qed

lemma size_STRINGS_30: "length (concat STRINGS_30) = 16 * 180"
proof -
  have "count_from 0 STRINGS_30 = 2880" by (simp only: STRINGS_30_def string_count_simps)
  then show ?thesis by (simp add: count_from_def)
qed

lemma size_STRINGS_31: "length (concat STRINGS_31) = 16 * 180"
proof -
  have "count_from 0 STRINGS_31 = 2880" by (simp only: STRINGS_31_def string_count_simps)
  then show ?thesis by (simp add: count_from_def)
qed

lemma size_STRINGS_32: "length (concat STRINGS_32) = 16 * 180"
proof -
  have "count_from 0 STRINGS_32 = 2880" by (simp only: STRINGS_32_def string_count_simps)
  then show ?thesis by (simp add: count_from_def)
qed

lemma size_STRINGS_33: "length (concat STRINGS_33) = 16 * 180"
proof -
  have "count_from 0 STRINGS_33 = 2880" by (simp only: STRINGS_33_def string_count_simps)
  then show ?thesis by (simp add: count_from_def)
qed

lemma size_STRINGS_34: "length (concat STRINGS_34) = 16 * 180"
proof -
  have "count_from 0 STRINGS_34 = 2880" by (simp only: STRINGS_34_def string_count_simps)
  then show ?thesis by (simp add: count_from_def)
qed

lemma size_STRINGS_35: "length (concat STRINGS_35) = 16 * 180"
proof -
  have "count_from 0 STRINGS_35 = 2880" by (simp only: STRINGS_35_def string_count_simps)
  then show ?thesis by (simp add: count_from_def)
qed

lemma size_STRINGS_36: "length (concat STRINGS_36) = 16 * 180"
proof -
  have "count_from 0 STRINGS_36 = 2880" by (simp only: STRINGS_36_def string_count_simps)
  then show ?thesis by (simp add: count_from_def)
qed

lemma size_STRINGS_37: "length (concat STRINGS_37) = 16 * 180"
proof -
  have "count_from 0 STRINGS_37 = 2880" by (simp only: STRINGS_37_def string_count_simps)
  then show ?thesis by (simp add: count_from_def)
qed

lemma size_STRINGS_38: "length (concat STRINGS_38) = 16 * 180"
proof -
  have "count_from 0 STRINGS_38 = 2880" by (simp only: STRINGS_38_def string_count_simps)
  then show ?thesis by (simp add: count_from_def)
qed

lemma size_STRINGS_39: "length (concat STRINGS_39) = 16 * 180"
proof -
  have "count_from 0 STRINGS_39 = 2880" by (simp only: STRINGS_39_def string_count_simps)
  then show ?thesis by (simp add: count_from_def)
qed

lemma size_STRINGS_40: "length (concat STRINGS_40) = 16 * 180"
proof -
  have "count_from 0 STRINGS_40 = 2880" by (simp only: STRINGS_40_def string_count_simps)
  then show ?thesis by (simp add: count_from_def)
qed

lemma size_STRINGS_41: "length (concat STRINGS_41) = 16 * 180"
proof -
  have "count_from 0 STRINGS_41 = 2880" by (simp only: STRINGS_41_def string_count_simps)
  then show ?thesis by (simp add: count_from_def)
qed

lemma size_STRINGS_42: "length (concat STRINGS_42) = 16 * 180"
proof -
  have "count_from 0 STRINGS_42 = 2880" by (simp only: STRINGS_42_def string_count_simps)
  then show ?thesis by (simp add: count_from_def)
qed

lemma size_STRINGS_43: "length (concat STRINGS_43) = 16 * 180"
proof -
  have "count_from 0 STRINGS_43 = 2880" by (simp only: STRINGS_43_def string_count_simps)
  then show ?thesis by (simp add: count_from_def)
qed

lemma size_STRINGS_44: "length (concat STRINGS_44) = 16 * 180"
proof -
  have "count_from 0 STRINGS_44 = 2880" by (simp only: STRINGS_44_def string_count_simps)
  then show ?thesis by (simp add: count_from_def)
qed

lemma size_STRINGS_45: "length (concat STRINGS_45) = 16 * 180"
proof -
  have "count_from 0 STRINGS_45 = 2880" by (simp only: STRINGS_45_def string_count_simps)
  then show ?thesis by (simp add: count_from_def)
qed

lemma size_STRINGS_46: "length (concat STRINGS_46) = 16 * 180"
proof -
  have "count_from 0 STRINGS_46 = 2880" by (simp only: STRINGS_46_def string_count_simps)
  then show ?thesis by (simp add: count_from_def)
qed

lemma size_STRINGS_47: "length (concat STRINGS_47) = 16 * 180"
proof -
  have "count_from 0 STRINGS_47 = 2880" by (simp only: STRINGS_47_def string_count_simps)
  then show ?thesis by (simp add: count_from_def)
qed

lemma size_STRINGS_48: "length (concat STRINGS_48) = 16 * 180"
proof -
  have "count_from 0 STRINGS_48 = 2880" by (simp only: STRINGS_48_def string_count_simps)
  then show ?thesis by (simp add: count_from_def)
qed

lemma size_STRINGS_49: "length (concat STRINGS_49) = 16 * 180"
proof -
  have "count_from 0 STRINGS_49 = 2880" by (simp only: STRINGS_49_def string_count_simps)
  then show ?thesis by (simp add: count_from_def)
qed

lemma size_STRINGS_50: "length (concat STRINGS_50) = 765"
  by (simp add: STRINGS_50_def)

lemma line_blocks_string_lines: "line_blocks string_block 0 string_lines"
  by (simp add: string_block_def line_blocks_with_block)

lemma string_parts:
  shows "line_blocks string_block 0 STRINGS_00"
    and "line_blocks string_block 180 STRINGS_01"
    and "line_blocks string_block 360 STRINGS_02"
    and "line_blocks string_block 540 STRINGS_03"
    and "line_blocks string_block 720 STRINGS_04"
    and "line_blocks string_block 900 STRINGS_05"
    and "line_blocks string_block 1080 STRINGS_06"
    and "line_blocks string_block 1260 STRINGS_07"
    and "line_blocks string_block 1440 STRINGS_08"
    and "line_blocks string_block 1620 STRINGS_09"
    and "line_blocks string_block 1800 STRINGS_10"
    and "line_blocks string_block 1980 STRINGS_11"
    and "line_blocks string_block 2160 STRINGS_12"
    and "line_blocks string_block 2340 STRINGS_13"
    and "line_blocks string_block 2520 STRINGS_14"
    and "line_blocks string_block 2700 STRINGS_15"
    and "line_blocks string_block 2880 STRINGS_16"
    and "line_blocks string_block 3060 STRINGS_17"
    and "line_blocks string_block 3240 STRINGS_18"
    and "line_blocks string_block 3420 STRINGS_19"
    and "line_blocks string_block 3600 STRINGS_20"
    and "line_blocks string_block 3780 STRINGS_21"
    and "line_blocks string_block 3960 STRINGS_22"
    and "line_blocks string_block 4140 STRINGS_23"
    and "line_blocks string_block 4320 STRINGS_24"
    and "line_blocks string_block 4500 STRINGS_25"
    and "line_blocks string_block 4680 STRINGS_26"
    and "line_blocks string_block 4860 STRINGS_27"
    and "line_blocks string_block 5040 STRINGS_28"
    and "line_blocks string_block 5220 STRINGS_29"
    and "line_blocks string_block 5400 STRINGS_30"
    and "line_blocks string_block 5580 STRINGS_31"
    and "line_blocks string_block 5760 STRINGS_32"
    and "line_blocks string_block 5940 STRINGS_33"
    and "line_blocks string_block 6120 STRINGS_34"
    and "line_blocks string_block 6300 STRINGS_35"
    and "line_blocks string_block 6480 STRINGS_36"
    and "line_blocks string_block 6660 STRINGS_37"
    and "line_blocks string_block 6840 STRINGS_38"
    and "line_blocks string_block 7020 STRINGS_39"
    and "line_blocks string_block 7200 STRINGS_40"
    and "line_blocks string_block 7380 STRINGS_41"
    and "line_blocks string_block 7560 STRINGS_42"
    and "line_blocks string_block 7740 STRINGS_43"
    and "line_blocks string_block 7920 STRINGS_44"
    and "line_blocks string_block 8100 STRINGS_45"
    and "line_blocks string_block 8280 STRINGS_46"
    and "line_blocks string_block 8460 STRINGS_47"
    and "line_blocks string_block 8640 STRINGS_48"
    and "line_blocks string_block 8820 STRINGS_49"
    and "line_blocks string_block 9000 STRINGS_50"
  using line_blocks_string_lines
  unfolding string_lines_def concat.simps append_Nil2 sum_simps
    line_blocks_append [OF size_STRINGS_00] line_blocks_append [OF size_STRINGS_01]
    line_blocks_append [OF size_STRINGS_02] line_blocks_append [OF size_STRINGS_03]
    line_blocks_append [OF size_STRINGS_04] line_blocks_append [OF size_STRINGS_05]
    line_blocks_append [OF size_STRINGS_06] line_blocks_append [OF size_STRINGS_07]
    line_blocks_append [OF size_STRINGS_08] line_blocks_append [OF size_STRINGS_09]
    line_blocks_append [OF size_STRINGS_10] line_blocks_append [OF size_STRINGS_11]
    line_blocks_append [OF size_STRINGS_12] line_blocks_append [OF size_STRINGS_13]
    line_blocks_append [OF size_STRINGS_14] line_blocks_append [OF size_STRINGS_15]
    line_blocks_append [OF size_STRINGS_16] line_blocks_append [OF size_STRINGS_17]
    line_blocks_append [OF size_STRINGS_18] line_blocks_append [OF size_STRINGS_19]
    line_blocks_append [OF size_STRINGS_20] line_blocks_append [OF size_STRINGS_21]
    line_blocks_append [OF size_STRINGS_22] line_blocks_append [OF size_STRINGS_23]
    line_blocks_append [OF size_STRINGS_24] line_blocks_append [OF size_STRINGS_25]
    line_blocks_append [OF size_STRINGS_26] line_blocks_append [OF size_STRINGS_27]
    line_blocks_append [OF size_STRINGS_28] line_blocks_append [OF size_STRINGS_29]
    line_blocks_append [OF size_STRINGS_30] line_blocks_append [OF size_STRINGS_31]
    line_blocks_append [OF size_STRINGS_32] line_blocks_append [OF size_STRINGS_33]
    line_blocks_append [OF size_STRINGS_34] line_blocks_append [OF size_STRINGS_35]
    line_blocks_append [OF size_STRINGS_36] line_blocks_append [OF size_STRINGS_37]
    line_blocks_append [OF size_STRINGS_38] line_blocks_append [OF size_STRINGS_39]
    line_blocks_append [OF size_STRINGS_40] line_blocks_append [OF size_STRINGS_41]
    line_blocks_append [OF size_STRINGS_42] line_blocks_append [OF size_STRINGS_43]
    line_blocks_append [OF size_STRINGS_44] line_blocks_append [OF size_STRINGS_45]
    line_blocks_append [OF size_STRINGS_46] line_blocks_append [OF size_STRINGS_47]
    line_blocks_append [OF size_STRINGS_48] line_blocks_append [OF size_STRINGS_49]
  by blast+

section \<open>One rule per block\<close>

lemmas node_group3 = line_blocks_24_10

lemmas node_group1 = line_blocks_8_10

lemmas node_rule_simps = line_blocks_def concat.simps append.simps blocks_Nil blocks_16 blocks_7 index_simps HOL.simp_thms(21)

declare node_parts(1)
  [simplified NODES_00_def node_group3, simplified node_group1, simplified node_rule_simps,
    decomp_rules, compat_rules, class_rules, nfc_rules, nfkc_rules]

declare node_parts(19)
  [simplified NODES_18_def node_group3, simplified node_group1, simplified node_rule_simps,
    decomp_rules, compat_rules]

declare node_parts(20)
  [simplified NODES_19_def node_group3, simplified node_group1, simplified node_rule_simps,
    decomp_rules, compat_rules, class_rules]

declare node_parts(21)
  [simplified NODES_20_def node_group3, simplified node_group1, simplified node_rule_simps,
    decomp_rules, compat_rules]

declare node_parts(22)
  [simplified NODES_21_def node_group3, simplified node_group1, simplified node_rule_simps,
    decomp_rules, compat_rules]

declare node_parts(23)
  [simplified NODES_22_def node_group3, simplified node_group1, simplified node_rule_simps,
    decomp_rules, compat_rules]

declare node_parts(24)
  [simplified NODES_23_def node_group3, simplified node_group1, simplified node_rule_simps,
    decomp_rules, compat_rules]

declare node_parts(25)
  [simplified NODES_24_def node_group3, simplified node_group1, simplified node_rule_simps,
    decomp_rules, compat_rules]

declare node_parts(26)
  [simplified NODES_25_def node_group3, simplified node_group1, simplified node_rule_simps,
    decomp_rules, compat_rules]

declare node_parts(27)
  [simplified NODES_26_def node_group3, simplified node_group1, simplified node_rule_simps,
    decomp_rules, compat_rules]

declare node_parts(28)
  [simplified NODES_27_def node_group3, simplified node_group1, simplified node_rule_simps,
    decomp_rules, compat_rules]

declare node_parts(29)
  [simplified NODES_28_def node_group3, simplified node_group1, simplified node_rule_simps,
    decomp_rules, compat_rules]

declare node_parts(30)
  [simplified NODES_29_def node_group3, simplified node_group1, simplified node_rule_simps,
    decomp_rules, compat_rules]

declare node_parts(31)
  [simplified NODES_30_def node_group3, simplified node_group1, simplified node_rule_simps,
    decomp_rules, compat_rules]

declare node_parts(32)
  [simplified NODES_31_def node_group3, simplified node_group1, simplified node_rule_simps,
    decomp_rules, compat_rules]

declare node_parts(33)
  [simplified NODES_32_def node_group3, simplified node_group1, simplified node_rule_simps,
    decomp_rules, compat_rules]

declare node_parts(34)
  [simplified NODES_33_def node_group3, simplified node_group1, simplified node_rule_simps,
    decomp_rules, compat_rules]

declare node_parts(35)
  [simplified NODES_34_def node_group3, simplified node_group1, simplified node_rule_simps,
    decomp_rules, compat_rules]

declare node_parts(36)
  [simplified NODES_35_def node_group3, simplified node_group1, simplified node_rule_simps,
    decomp_rules, compat_rules]

declare node_parts(37)
  [simplified NODES_36_def node_group3, simplified node_group1, simplified node_rule_simps,
    decomp_rules, compat_rules, class_rules]

declare node_parts(38)
  [simplified NODES_37_def node_group3, simplified node_group1, simplified node_rule_simps,
    compat_rules]

declare node_parts(39)
  [simplified NODES_38_def node_group3, simplified node_group1, simplified node_rule_simps,
    compat_rules, class_rules, nfc_rules]

declare node_parts(40)
  [simplified NODES_39_def node_group3, simplified node_group1, simplified node_rule_simps,
    compat_rules, class_rules, nfc_rules]

declare node_parts(41)
  [simplified NODES_40_def node_group3, simplified node_group1, simplified node_rule_simps,
    compat_rules, class_rules]

declare node_parts(42)
  [simplified NODES_41_def node_group3, simplified node_group1, simplified node_rule_simps,
    class_rules, nfc_rules, nfkc_rules]

declare node_parts(43)
  [simplified NODES_42_def node_group3, simplified node_group1, simplified node_rule_simps,
    nfkc_rules]

declare node_parts(44)
  [simplified NODES_43_def node_group3, simplified node_group1, simplified node_rule_simps,
    nfkc_rules]

lemmas string_group3 = line_blocks_12_20

lemmas string_group1 = line_blocks_4_20

lemmas string_rule_simps = line_blocks_def concat.simps append.simps blocks_Nil blocks_16 blocks_13 index_simps HOL.simp_thms(21)

declare string_parts(1)
  [simplified STRINGS_00_def string_group3, simplified string_group1, simplified string_rule_simps,
    string_rules]

declare string_parts(2)
  [simplified STRINGS_01_def string_group3, simplified string_group1, simplified string_rule_simps,
    string_rules]

declare string_parts(14)
  [simplified STRINGS_13_def string_group3, simplified string_group1, simplified string_rule_simps,
    string_rules]

declare string_parts(15)
  [simplified STRINGS_14_def string_group3, simplified string_group1, simplified string_rule_simps,
    string_rules]

declare string_parts(16)
  [simplified STRINGS_15_def string_group3, simplified string_group1, simplified string_rule_simps,
    string_rules]

declare string_parts(17)
  [simplified STRINGS_16_def string_group3, simplified string_group1, simplified string_rule_simps,
    string_rules]

declare string_parts(18)
  [simplified STRINGS_17_def string_group3, simplified string_group1, simplified string_rule_simps,
    string_rules]

declare string_parts(19)
  [simplified STRINGS_18_def string_group3, simplified string_group1, simplified string_rule_simps,
    string_rules]

declare string_parts(20)
  [simplified STRINGS_19_def string_group3, simplified string_group1, simplified string_rule_simps,
    string_rules]

declare string_parts(21)
  [simplified STRINGS_20_def string_group3, simplified string_group1, simplified string_rule_simps,
    string_rules]

declare string_parts(22)
  [simplified STRINGS_21_def string_group3, simplified string_group1, simplified string_rule_simps,
    string_rules]

declare string_parts(23)
  [simplified STRINGS_22_def string_group3, simplified string_group1, simplified string_rule_simps,
    string_rules]

declare string_parts(24)
  [simplified STRINGS_23_def string_group3, simplified string_group1, simplified string_rule_simps,
    string_rules]

declare string_parts(25)
  [simplified STRINGS_24_def string_group3, simplified string_group1, simplified string_rule_simps,
    string_rules]

declare string_parts(26)
  [simplified STRINGS_25_def string_group3, simplified string_group1, simplified string_rule_simps,
    string_rules]

declare string_parts(27)
  [simplified STRINGS_26_def string_group3, simplified string_group1, simplified string_rule_simps,
    string_rules]

declare string_parts(28)
  [simplified STRINGS_27_def string_group3, simplified string_group1, simplified string_rule_simps,
    string_rules]

declare string_parts(29)
  [simplified STRINGS_28_def string_group3, simplified string_group1, simplified string_rule_simps,
    string_rules]

declare string_parts(30)
  [simplified STRINGS_29_def string_group3, simplified string_group1, simplified string_rule_simps,
    string_rules]

declare string_parts(31)
  [simplified STRINGS_30_def string_group3, simplified string_group1, simplified string_rule_simps,
    string_rules]

declare string_parts(32)
  [simplified STRINGS_31_def string_group3, simplified string_group1, simplified string_rule_simps,
    string_rules]

declare string_parts(33)
  [simplified STRINGS_32_def string_group3, simplified string_group1, simplified string_rule_simps,
    string_rules]

declare string_parts(34)
  [simplified STRINGS_33_def string_group3, simplified string_group1, simplified string_rule_simps,
    string_rules]

declare string_parts(35)
  [simplified STRINGS_34_def string_group3, simplified string_group1, simplified string_rule_simps,
    string_rules]

declare string_parts(36)
  [simplified STRINGS_35_def string_group3, simplified string_group1, simplified string_rule_simps,
    string_rules]

declare string_parts(37)
  [simplified STRINGS_36_def string_group3, simplified string_group1, simplified string_rule_simps,
    string_rules]

declare string_parts(38)
  [simplified STRINGS_37_def string_group3, simplified string_group1, simplified string_rule_simps,
    string_rules]

declare string_parts(39)
  [simplified STRINGS_38_def string_group3, simplified string_group1, simplified string_rule_simps,
    string_rules]

declare string_parts(40)
  [simplified STRINGS_39_def string_group3, simplified string_group1, simplified string_rule_simps,
    string_rules]

declare string_parts(41)
  [simplified STRINGS_40_def string_group3, simplified string_group1, simplified string_rule_simps,
    string_rules]

declare string_parts(42)
  [simplified STRINGS_41_def string_group3, simplified string_group1, simplified string_rule_simps,
    string_rules]

declare string_parts(43)
  [simplified STRINGS_42_def string_group3, simplified string_group1, simplified string_rule_simps,
    string_rules]

declare string_parts(44)
  [simplified STRINGS_43_def string_group3, simplified string_group1, simplified string_rule_simps,
    string_rules]

declare string_parts(45)
  [simplified STRINGS_44_def string_group3, simplified string_group1, simplified string_rule_simps,
    string_rules]

declare string_parts(46)
  [simplified STRINGS_45_def string_group3, simplified string_group1, simplified string_rule_simps,
    string_rules]

declare string_parts(47)
  [simplified STRINGS_46_def string_group3, simplified string_group1, simplified string_rule_simps,
    string_rules]

declare string_parts(48)
  [simplified STRINGS_47_def string_group3, simplified string_group1, simplified string_rule_simps,
    string_rules]

declare string_parts(49)
  [simplified STRINGS_48_def string_group3, simplified string_group1, simplified string_rule_simps,
    string_rules]

declare string_parts(50)
  [simplified STRINGS_49_def string_group3, simplified string_group1, simplified string_rule_simps,
    string_rules]

declare string_parts(51)
  [simplified STRINGS_50_def string_group3, simplified string_group1, simplified string_rule_simps,
    string_rules]

end
