(* ===== verification/Table_Check.thy ===== *)
theory Table_Check
  imports Table
begin

text \<open>
  Executable checks of the table: that no search leaves the node array, that a trie maps whole
  characters, and that the words of a decomposition trie are texts. Each check comes with the rules
  that evaluate it on the blocks of the table and with the lemma that says what it shows.
\<close>

section \<open>Every node\<close>

text \<open>
  A word has 32 bits, and a word with a label has a base that leaves room for all 256 children. As
  a value, a word denotes a place and a length inside the string table; nearly all of them leave
  room for the greatest length, 63.
\<close>

definition word_inside :: "nat \<Rightarrow> bool" where
  "word_inside d \<longleftrightarrow> lo18 d < 144703 \<or> lo18 d + hi18 d \<le> 144765"

definition word_bounded :: "nat \<Rightarrow> bool" where
  "word_bounded d \<longleftrightarrow> d < 2 ^ 32 \<and> (d < 2 ^ 24 \<or> d mod 2 ^ 24 < 62600) \<and> word_inside d"

definition bound_bits :: "bool list" where
  "bound_bits = [False, False, False, True, False, False, False, True, False, False, True, False, True, True, True, True, False, False, False, False, False, False, False, False]"

definition bits8 :: "unit list" where
  "bits8 = [(), (), (), (), (), (), (), ()]"

definition inside_bits :: "bool list" where
  "inside_bits = [True, True, True, True, True, True, False, False, True, False, True, False, True, True, False, False, False, True]"

lemma word_inside_simps:
  "word_inside (numeral n) \<longleftrightarrow>
     (if low_below inside_bits n False then True else lower bits18 n + upper bits18 n \<le> 144765)"
  "word_inside 0" "word_inside 1"
proof -
  have "low_below inside_bits n False \<longleftrightarrow> lo18 (numeral n) < 144703"
    by (subst low_below_eq) (simp_all add: inside_bits_def lo18_def del: numeral_mod_numeral)
  then show "word_inside (numeral n) \<longleftrightarrow>
      (if low_below inside_bits n False then True else lower bits18 n + upper bits18 n \<le> 144765)"
    by (simp add: word_inside_def split18)
qed (simp_all add: word_inside_def split18 del: One_nat_def)

lemma word_bounded_simps:
  "word_bounded (numeral n) \<longleftrightarrow> low_less bits8 bound_bits n False \<and> word_inside (numeral n)"
  "word_bounded 0" "word_bounded 1"
proof -
  have "d < 2 ^ 24 \<Longrightarrow> d < 2 ^ 32" for d :: nat by simp
  from this [of "numeral n"]
  show "word_bounded (numeral n) \<longleftrightarrow> low_less bits8 bound_bits n False \<and> word_inside (numeral n)"
    unfolding word_bounded_def low_less_eq by (auto simp: bound_bits_def bits8_def)
qed (simp_all add: word_bounded_def word_inside_simps(2,3) del: One_nat_def)

fun lines_bounded :: "nat list list \<Rightarrow> bool" where
  "lines_bounded [] = True"
| "lines_bounded ([] # ls) = lines_bounded ls"
| "lines_bounded ((d # ds) # ls) = (word_bounded d \<and> lines_bounded (ds # ls))"

lemma lines_bounded_eq: "lines_bounded ls \<longleftrightarrow> list_all word_bounded (concat ls)"
  by (induction ls rule: lines_bounded.induct) auto

lemma lines_bounded_cong: "lines_bounded ls = lines_bounded ls"
  by simp

lemma lines_bounded_concat: "list_all lines_bounded cs \<Longrightarrow> lines_bounded (concat cs)"
  by (induction cs) (auto simp: lines_bounded_eq)

section \<open>Entries\<close>

definition node_word :: "nat \<Rightarrow> nat" where
  "node_word k = concat node_lines ! k"

definition node_count :: nat where
  "node_count = length (concat node_lines)"

text \<open>\<open>entry P k\<close> checks entry \<open>k\<close>; \<open>pick k P\<close> checks entry \<open>k\<close> of a block.\<close>

definition entry :: "(nat \<Rightarrow> bool) \<Rightarrow> nat \<Rightarrow> bool" where
  "entry P k \<longleftrightarrow> k < node_count \<and> P (node_word k)"

definition pick :: "nat \<Rightarrow> ('a \<Rightarrow> bool) \<Rightarrow> 'a list \<Rightarrow> bool" where
  "pick k P xs \<longleftrightarrow> k < length xs \<and> P (xs ! k)"

lemma entry_block: "k < 16 \<Longrightarrow> entry P (16 * n + k) = node_block (pick k P) n"
  by (auto simp: entry_def pick_def node_block_def with_block_def node_count_def node_word_def)

lemma entry_0: "entry P 0 = node_block (pick 0 P) 0"
  using entry_block [of 0 P 0] by simp

lemma nibble:
  "(numeral (num.Bit0 (num.Bit0 (num.Bit0 (num.Bit0 n)))) :: nat) = 16 * numeral n + 0"
  "(numeral (num.Bit1 (num.Bit0 (num.Bit0 (num.Bit0 n)))) :: nat) = 16 * numeral n + 1"
  "(numeral (num.Bit0 (num.Bit1 (num.Bit0 (num.Bit0 n)))) :: nat) = 16 * numeral n + 2"
  "(numeral (num.Bit1 (num.Bit1 (num.Bit0 (num.Bit0 n)))) :: nat) = 16 * numeral n + 3"
  "(numeral (num.Bit0 (num.Bit0 (num.Bit1 (num.Bit0 n)))) :: nat) = 16 * numeral n + 4"
  "(numeral (num.Bit1 (num.Bit0 (num.Bit1 (num.Bit0 n)))) :: nat) = 16 * numeral n + 5"
  "(numeral (num.Bit0 (num.Bit1 (num.Bit1 (num.Bit0 n)))) :: nat) = 16 * numeral n + 6"
  "(numeral (num.Bit1 (num.Bit1 (num.Bit1 (num.Bit0 n)))) :: nat) = 16 * numeral n + 7"
  "(numeral (num.Bit0 (num.Bit0 (num.Bit0 (num.Bit1 n)))) :: nat) = 16 * numeral n + 8"
  "(numeral (num.Bit1 (num.Bit0 (num.Bit0 (num.Bit1 n)))) :: nat) = 16 * numeral n + 9"
  "(numeral (num.Bit0 (num.Bit1 (num.Bit0 (num.Bit1 n)))) :: nat) = 16 * numeral n + 10"
  "(numeral (num.Bit1 (num.Bit1 (num.Bit0 (num.Bit1 n)))) :: nat) = 16 * numeral n + 11"
  "(numeral (num.Bit0 (num.Bit0 (num.Bit1 (num.Bit1 n)))) :: nat) = 16 * numeral n + 12"
  "(numeral (num.Bit1 (num.Bit0 (num.Bit1 (num.Bit1 n)))) :: nat) = 16 * numeral n + 13"
  "(numeral (num.Bit0 (num.Bit1 (num.Bit1 (num.Bit1 n)))) :: nat) = 16 * numeral n + 14"
  "(numeral (num.Bit1 (num.Bit1 (num.Bit1 (num.Bit1 n)))) :: nat) = 16 * numeral n + 15"
  by (simp_all only: numeral.simps distrib_left mult_1_right ac_simps add_0_right)

lemma entry_simps:
  "entry P (numeral (num.Bit0 (num.Bit0 (num.Bit0 (num.Bit0 n))))) = node_block (pick 0 P) (numeral n)"
  "entry P (numeral (num.Bit1 (num.Bit0 (num.Bit0 (num.Bit0 n))))) = node_block (pick 1 P) (numeral n)"
  "entry P (numeral (num.Bit0 (num.Bit1 (num.Bit0 (num.Bit0 n))))) = node_block (pick 2 P) (numeral n)"
  "entry P (numeral (num.Bit1 (num.Bit1 (num.Bit0 (num.Bit0 n))))) = node_block (pick 3 P) (numeral n)"
  "entry P (numeral (num.Bit0 (num.Bit0 (num.Bit1 (num.Bit0 n))))) = node_block (pick 4 P) (numeral n)"
  "entry P (numeral (num.Bit1 (num.Bit0 (num.Bit1 (num.Bit0 n))))) = node_block (pick 5 P) (numeral n)"
  "entry P (numeral (num.Bit0 (num.Bit1 (num.Bit1 (num.Bit0 n))))) = node_block (pick 6 P) (numeral n)"
  "entry P (numeral (num.Bit1 (num.Bit1 (num.Bit1 (num.Bit0 n))))) = node_block (pick 7 P) (numeral n)"
  "entry P (numeral (num.Bit0 (num.Bit0 (num.Bit0 (num.Bit1 n))))) = node_block (pick 8 P) (numeral n)"
  "entry P (numeral (num.Bit1 (num.Bit0 (num.Bit0 (num.Bit1 n))))) = node_block (pick 9 P) (numeral n)"
  "entry P (numeral (num.Bit0 (num.Bit1 (num.Bit0 (num.Bit1 n))))) = node_block (pick 10 P) (numeral n)"
  "entry P (numeral (num.Bit1 (num.Bit1 (num.Bit0 (num.Bit1 n))))) = node_block (pick 11 P) (numeral n)"
  "entry P (numeral (num.Bit0 (num.Bit0 (num.Bit1 (num.Bit1 n))))) = node_block (pick 12 P) (numeral n)"
  "entry P (numeral (num.Bit1 (num.Bit0 (num.Bit1 (num.Bit1 n))))) = node_block (pick 13 P) (numeral n)"
  "entry P (numeral (num.Bit0 (num.Bit1 (num.Bit1 (num.Bit1 n))))) = node_block (pick 14 P) (numeral n)"
  "entry P (numeral (num.Bit1 (num.Bit1 (num.Bit1 (num.Bit1 n))))) = node_block (pick 15 P) (numeral n)"
  by (subst nibble, rule entry_block, simp)+

lemma pick_simps:
  "pick 0 P (a0 # xs) = P a0"
  "pick 1 P (a0 # a1 # xs) = P a1"
  "pick 2 P (a0 # a1 # a2 # xs) = P a2"
  "pick 3 P (a0 # a1 # a2 # a3 # xs) = P a3"
  "pick 4 P (a0 # a1 # a2 # a3 # a4 # xs) = P a4"
  "pick 5 P (a0 # a1 # a2 # a3 # a4 # a5 # xs) = P a5"
  "pick 6 P (a0 # a1 # a2 # a3 # a4 # a5 # a6 # xs) = P a6"
  "pick 7 P (a0 # a1 # a2 # a3 # a4 # a5 # a6 # a7 # xs) = P a7"
  "pick 8 P (a0 # a1 # a2 # a3 # a4 # a5 # a6 # a7 # a8 # xs) = P a8"
  "pick 9 P (a0 # a1 # a2 # a3 # a4 # a5 # a6 # a7 # a8 # a9 # xs) = P a9"
  "pick 10 P (a0 # a1 # a2 # a3 # a4 # a5 # a6 # a7 # a8 # a9 # a10 # xs) = P a10"
  "pick 11 P (a0 # a1 # a2 # a3 # a4 # a5 # a6 # a7 # a8 # a9 # a10 # a11 # xs) = P a11"
  "pick 12 P (a0 # a1 # a2 # a3 # a4 # a5 # a6 # a7 # a8 # a9 # a10 # a11 # a12 # xs) = P a12"
  "pick 13 P (a0 # a1 # a2 # a3 # a4 # a5 # a6 # a7 # a8 # a9 # a10 # a11 # a12 # a13 # xs) = P a13"
  "pick 14 P (a0 # a1 # a2 # a3 # a4 # a5 # a6 # a7 # a8 # a9 # a10 # a11 # a12 # a13 # a14 # xs) = P a14"
  "pick 15 P (a0 # a1 # a2 # a3 # a4 # a5 # a6 # a7 # a8 # a9 # a10 # a11 # a12 # a13 # a14 # a15 # xs) = P a15"
  by (simp_all add: pick_def)

lemma pick_cong: "P = Q \<Longrightarrow> pick k P xs = pick k Q xs"
  by simp

section \<open>Windows of children\<close>

text \<open>
  \<open>window K cs k\<close> checks the entries from \<open>k\<close> on against the labels \<open>cs\<close>. \<open>scan\<close> is the same from
  inside a block: \<open>xs\<close> is what is left of it, \<open>n\<close> the number of the next one.
\<close>

definition scan :: "(nat \<Rightarrow> nat \<Rightarrow> bool) \<Rightarrow> nat list \<Rightarrow> nat \<Rightarrow> nat list \<Rightarrow> bool" where
  "scan K cs n xs \<longleftrightarrow> (let ys = xs @ drop (16 * n) (concat node_lines)
     in length cs \<le> length ys \<and> list_all2 K cs (take (length cs) ys))"

definition window :: "(nat \<Rightarrow> nat \<Rightarrow> bool) \<Rightarrow> nat list \<Rightarrow> nat \<Rightarrow> bool" where
  "window K cs k \<longleftrightarrow> length cs \<le> node_count - k \<and> (\<forall>j < length cs. K (cs ! j) (node_word (k + j)))"

definition window_in :: "nat \<Rightarrow> (nat \<Rightarrow> nat \<Rightarrow> bool) \<Rightarrow> nat list \<Rightarrow> nat \<Rightarrow> nat list \<Rightarrow> bool" where
  "window_in j K cs n xs \<longleftrightarrow> scan K cs (Suc n) (drop j xs)"

definition refill :: "(nat \<Rightarrow> nat \<Rightarrow> bool) \<Rightarrow> nat list \<Rightarrow> nat \<Rightarrow> nat list \<Rightarrow> bool" where
  "refill K cs n xs \<longleftrightarrow> scan K cs (Suc n) xs"

lemma take_drop_block: "take 16 (drop (16 * n) zs) @ drop (16 * Suc n) zs = drop (16 * n) zs"
  by (metis append_take_drop_id drop_drop mult_Suc_right add.commute)

lemma scan_simps:
  "scan K [] n xs = True"
  "scan K (c # cs) n (d # xs) = (K c d \<and> scan K cs n xs)"
  "scan K (c # cs) n [] = node_block (refill K (c # cs) n) n"
proof -
  show "scan K (c # cs) n [] = node_block (refill K (c # cs) n) n"
    unfolding scan_def refill_def node_block_def with_block_def take_drop_block by simp
qed (auto simp: scan_def Let_def)

lemma drop_block:
  assumes "j \<le> 16"
  shows "drop j (take 16 (drop (16 * n) zs)) @ drop (16 * Suc n) zs = drop (16 * n + j) zs"
proof (cases "length zs \<le> 16 * n")
  case False
  have "drop j (take 16 (drop (16 * n) zs) @ drop (16 * Suc n) zs) = drop (16 * n + j) zs"
    by (simp only: take_drop_block drop_drop add.commute)
  then show ?thesis
    using assms by (cases "length zs < 16 * n + 16") auto
qed simp

lemma window_block:
  assumes "j < 16"
  shows "window K cs (16 * n + j) = node_block (window_in j K cs n) n"
  using drop_block [of j n "concat node_lines"] assms
  by (auto simp: window_def window_in_def node_block_def with_block_def scan_def Let_def
      node_count_def node_word_def list_all2_conv_all_nth min_def)

lemma window_simps:
  "window K cs (numeral (num.Bit0 (num.Bit0 (num.Bit0 (num.Bit0 n))))) = node_block (window_in 0 K cs (numeral n)) (numeral n)"
  "window K cs (numeral (num.Bit1 (num.Bit0 (num.Bit0 (num.Bit0 n))))) = node_block (window_in 1 K cs (numeral n)) (numeral n)"
  "window K cs (numeral (num.Bit0 (num.Bit1 (num.Bit0 (num.Bit0 n))))) = node_block (window_in 2 K cs (numeral n)) (numeral n)"
  "window K cs (numeral (num.Bit1 (num.Bit1 (num.Bit0 (num.Bit0 n))))) = node_block (window_in 3 K cs (numeral n)) (numeral n)"
  "window K cs (numeral (num.Bit0 (num.Bit0 (num.Bit1 (num.Bit0 n))))) = node_block (window_in 4 K cs (numeral n)) (numeral n)"
  "window K cs (numeral (num.Bit1 (num.Bit0 (num.Bit1 (num.Bit0 n))))) = node_block (window_in 5 K cs (numeral n)) (numeral n)"
  "window K cs (numeral (num.Bit0 (num.Bit1 (num.Bit1 (num.Bit0 n))))) = node_block (window_in 6 K cs (numeral n)) (numeral n)"
  "window K cs (numeral (num.Bit1 (num.Bit1 (num.Bit1 (num.Bit0 n))))) = node_block (window_in 7 K cs (numeral n)) (numeral n)"
  "window K cs (numeral (num.Bit0 (num.Bit0 (num.Bit0 (num.Bit1 n))))) = node_block (window_in 8 K cs (numeral n)) (numeral n)"
  "window K cs (numeral (num.Bit1 (num.Bit0 (num.Bit0 (num.Bit1 n))))) = node_block (window_in 9 K cs (numeral n)) (numeral n)"
  "window K cs (numeral (num.Bit0 (num.Bit1 (num.Bit0 (num.Bit1 n))))) = node_block (window_in 10 K cs (numeral n)) (numeral n)"
  "window K cs (numeral (num.Bit1 (num.Bit1 (num.Bit0 (num.Bit1 n))))) = node_block (window_in 11 K cs (numeral n)) (numeral n)"
  "window K cs (numeral (num.Bit0 (num.Bit0 (num.Bit1 (num.Bit1 n))))) = node_block (window_in 12 K cs (numeral n)) (numeral n)"
  "window K cs (numeral (num.Bit1 (num.Bit0 (num.Bit1 (num.Bit1 n))))) = node_block (window_in 13 K cs (numeral n)) (numeral n)"
  "window K cs (numeral (num.Bit0 (num.Bit1 (num.Bit1 (num.Bit1 n))))) = node_block (window_in 14 K cs (numeral n)) (numeral n)"
  "window K cs (numeral (num.Bit1 (num.Bit1 (num.Bit1 (num.Bit1 n))))) = node_block (window_in 15 K cs (numeral n)) (numeral n)"
  by (subst nibble, rule window_block, simp)+

lemma window_in_simps:
  "window_in 0 K cs n xs = scan K cs (Suc n) xs"
  "window_in 1 K cs n (a0 # xs) = scan K cs (Suc n) xs"
  "window_in 2 K cs n (a0 # a1 # xs) = scan K cs (Suc n) xs"
  "window_in 3 K cs n (a0 # a1 # a2 # xs) = scan K cs (Suc n) xs"
  "window_in 4 K cs n (a0 # a1 # a2 # a3 # xs) = scan K cs (Suc n) xs"
  "window_in 5 K cs n (a0 # a1 # a2 # a3 # a4 # xs) = scan K cs (Suc n) xs"
  "window_in 6 K cs n (a0 # a1 # a2 # a3 # a4 # a5 # xs) = scan K cs (Suc n) xs"
  "window_in 7 K cs n (a0 # a1 # a2 # a3 # a4 # a5 # a6 # xs) = scan K cs (Suc n) xs"
  "window_in 8 K cs n (a0 # a1 # a2 # a3 # a4 # a5 # a6 # a7 # xs) = scan K cs (Suc n) xs"
  "window_in 9 K cs n (a0 # a1 # a2 # a3 # a4 # a5 # a6 # a7 # a8 # xs) = scan K cs (Suc n) xs"
  "window_in 10 K cs n (a0 # a1 # a2 # a3 # a4 # a5 # a6 # a7 # a8 # a9 # xs) = scan K cs (Suc n) xs"
  "window_in 11 K cs n (a0 # a1 # a2 # a3 # a4 # a5 # a6 # a7 # a8 # a9 # a10 # xs) = scan K cs (Suc n) xs"
  "window_in 12 K cs n (a0 # a1 # a2 # a3 # a4 # a5 # a6 # a7 # a8 # a9 # a10 # a11 # xs) = scan K cs (Suc n) xs"
  "window_in 13 K cs n (a0 # a1 # a2 # a3 # a4 # a5 # a6 # a7 # a8 # a9 # a10 # a11 # a12 # xs) = scan K cs (Suc n) xs"
  "window_in 14 K cs n (a0 # a1 # a2 # a3 # a4 # a5 # a6 # a7 # a8 # a9 # a10 # a11 # a12 # a13 # xs) = scan K cs (Suc n) xs"
  "window_in 15 K cs n (a0 # a1 # a2 # a3 # a4 # a5 # a6 # a7 # a8 # a9 # a10 # a11 # a12 # a13 # a14 # xs) = scan K cs (Suc n) xs"
  by (simp_all add: window_in_def)

text \<open>While a check is evaluated, the lists and the labels stay as they are.\<close>

lemma scan_cong: "scan K cs n xs = scan K cs n xs"
  by (rule refl)

lemma window_in_cong: "window_in j K cs n xs = window_in j K cs n xs"
  by (rule refl)

lemma refill_cong: "refill K cs n xs = refill K cs n xs"
  by (rule refl)

lemma window_cong: "k = l \<Longrightarrow> window K cs k = window K cs l"
  by simp

section \<open>Tries over characters\<close>

definition terminal :: "(nat \<Rightarrow> bool) \<Rightarrow> nat \<Rightarrow> bool" where
  "terminal V w \<longleftrightarrow> (if hi24 w = 0 then V (lo24 w) else False)"

definition labelled :: "nat \<Rightarrow> bool" where
  "labelled w \<longleftrightarrow> hi24 w \<noteq> 0"

definition kid :: "(nat \<Rightarrow> bool) \<Rightarrow> nat \<Rightarrow> nat \<Rightarrow> bool" where
  "kid Q c d \<longleftrightarrow> (if hi24 d = c then Q d else True)"

definition single_bytes :: "nat list" where
  "single_bytes = [1, 2, 3, 4, 5, 6, 7, 8, 9, 0xa, 0xb, 0xc, 0xd, 0xe, 0xf, 0x10,
    0x11, 0x12, 0x13, 0x14, 0x15, 0x16, 0x17, 0x18, 0x19, 0x1a, 0x1b, 0x1c, 0x1d, 0x1e, 0x1f, 0x20,
    0x21, 0x22, 0x23, 0x24, 0x25, 0x26, 0x27, 0x28, 0x29, 0x2a, 0x2b, 0x2c, 0x2d, 0x2e, 0x2f, 0x30,
    0x31, 0x32, 0x33, 0x34, 0x35, 0x36, 0x37, 0x38, 0x39, 0x3a, 0x3b, 0x3c, 0x3d, 0x3e, 0x3f, 0x40,
    0x41, 0x42, 0x43, 0x44, 0x45, 0x46, 0x47, 0x48, 0x49, 0x4a, 0x4b, 0x4c, 0x4d, 0x4e, 0x4f, 0x50,
    0x51, 0x52, 0x53, 0x54, 0x55, 0x56, 0x57, 0x58, 0x59, 0x5a, 0x5b, 0x5c, 0x5d, 0x5e, 0x5f, 0x60,
    0x61, 0x62, 0x63, 0x64, 0x65, 0x66, 0x67, 0x68, 0x69, 0x6a, 0x6b, 0x6c, 0x6d, 0x6e, 0x6f, 0x70,
    0x71, 0x72, 0x73, 0x74, 0x75, 0x76, 0x77, 0x78, 0x79, 0x7a, 0x7b, 0x7c, 0x7d, 0x7e, 0x7f]"

definition cont_bytes :: "nat list" where
  "cont_bytes = [0x80, 0x81, 0x82, 0x83, 0x84, 0x85, 0x86, 0x87, 0x88, 0x89, 0x8a, 0x8b, 0x8c, 0x8d, 0x8e, 0x8f,
    0x90, 0x91, 0x92, 0x93, 0x94, 0x95, 0x96, 0x97, 0x98, 0x99, 0x9a, 0x9b, 0x9c, 0x9d, 0x9e, 0x9f,
    0xa0, 0xa1, 0xa2, 0xa3, 0xa4, 0xa5, 0xa6, 0xa7, 0xa8, 0xa9, 0xaa, 0xab, 0xac, 0xad, 0xae, 0xaf,
    0xb0, 0xb1, 0xb2, 0xb3, 0xb4, 0xb5, 0xb6, 0xb7, 0xb8, 0xb9, 0xba, 0xbb, 0xbc, 0xbd, 0xbe, 0xbf]"

definition lead2_bytes :: "nat list" where
  "lead2_bytes = [0xc0, 0xc1, 0xc2, 0xc3, 0xc4, 0xc5, 0xc6, 0xc7, 0xc8, 0xc9, 0xca, 0xcb, 0xcc, 0xcd, 0xce, 0xcf,
    0xd0, 0xd1, 0xd2, 0xd3, 0xd4, 0xd5, 0xd6, 0xd7, 0xd8, 0xd9, 0xda, 0xdb, 0xdc, 0xdd, 0xde, 0xdf]"

definition lead3_bytes :: "nat list" where
  "lead3_bytes = [0xe0, 0xe1, 0xe2, 0xe3, 0xe4, 0xe5, 0xe6, 0xe7, 0xe8, 0xe9, 0xea, 0xeb, 0xec, 0xed, 0xee, 0xef]"

definition lead4_bytes :: "nat list" where
  "lead4_bytes = [0xf0, 0xf1, 0xf2, 0xf3, 0xf4, 0xf5, 0xf6, 0xf7]"

definition children :: "(nat \<Rightarrow> bool) \<Rightarrow> nat \<Rightarrow> bool" where
  "children Q b \<longleftrightarrow> entry labelled b \<and> window (kid Q) cont_bytes (b + 0x80)"

text \<open>
  \<open>node_ok V m d\<close>: below the node with word \<open>d\<close> the paths of \<open>length m\<close> continuation bytes
  end in a terminal node whose value satisfies \<open>V\<close>, and no shorter path does.
\<close>

primrec node_ok :: "(nat \<Rightarrow> bool) \<Rightarrow> unit list \<Rightarrow> nat \<Rightarrow> bool" where
  "node_ok V [] d = entry (terminal V) (lo24 d)"
| "node_ok V (u # m) d = children (node_ok V m) (lo24 d)"

definition root_ok :: "(nat \<Rightarrow> bool) \<Rightarrow> nat \<Rightarrow> bool" where
  "root_ok V b \<longleftrightarrow>
     window (kid (node_ok V [])) single_bytes (b + 1) \<and>
     window (kid (node_ok V [()])) lead2_bytes (b + 0xC0) \<and>
     window (kid (node_ok V [(), ()])) lead3_bytes (b + 0xE0) \<and>
     window (kid (node_ok V [(), (), ()])) lead4_bytes (b + 0xF0)"

lemmas split_simps = split24 upper.simps lower.simps twice_simps bits24_def

lemmas check_simps = entry_0 entry_simps pick_simps scan_simps window_simps window_in_simps refill_def
  terminal_def labelled_def kid_def children_def node_ok.simps root_ok_def
  single_bytes_def cont_bytes_def lead2_bytes_def lead3_bytes_def lead4_bytes_def
  split_simps index_simps add_num_simps numeral_plus_numeral numeral_plus_one
  rel_simps HOL.simp_thms if_True if_False refl

lemmas check_congs = scan_cong window_in_cong refill_cong window_cong pick_cong if_weak_cong

section \<open>Words of the string table\<close>

text \<open>
  A character of the string table is a signed byte. \<open>Lead us\<close> announces \<open>length us\<close>
  continuation bytes.
\<close>

datatype byte_kind = Lead "unit list" | Cont | Bad

definition byte_kind :: "int \<Rightarrow> byte_kind" where
  "byte_kind x =
     (if 0 < x \<and> x < 128 then Lead []
      else if -128 \<le> x \<and> x < -64 then Cont
      else if -64 \<le> x \<and> x < -32 then Lead [()]
      else if -32 \<le> x \<and> x < -16 then Lead [(), ()]
      else if -16 \<le> x \<and> x < -8 then Lead [(), (), ()]
      else Bad)"

fun text_run :: "unit list \<Rightarrow> int list \<Rightarrow> bool" where
  "text_run us [] \<longleftrightarrow> us = []"
| "text_run [] (x # xs) = (case byte_kind x of Lead us \<Rightarrow> text_run us xs | _ \<Rightarrow> False)"
| "text_run (u # us) (x # xs) = (case byte_kind x of Cont \<Rightarrow> text_run us xs | _ \<Rightarrow> False)"

text \<open>
  \<open>text_in us l n xs\<close> runs over the next \<open>length l\<close> bytes, with \<open>xs\<close> left of the current block
  and \<open>n\<close> the number of the next one.
\<close>

definition text_in :: "unit list \<Rightarrow> unit list \<Rightarrow> nat \<Rightarrow> int list \<Rightarrow> bool" where
  "text_in us l n xs \<longleftrightarrow> (let ys = xs @ drop (16 * n) (concat string_lines)
     in length l \<le> length ys \<and> text_run us (take (length l) ys))"

definition text_refill :: "unit list \<Rightarrow> unit list \<Rightarrow> nat \<Rightarrow> int list \<Rightarrow> bool" where
  "text_refill us l n xs \<longleftrightarrow> text_in us l (Suc n) xs"

definition text_step :: "byte_kind \<Rightarrow> unit list \<Rightarrow> unit list \<Rightarrow> nat \<Rightarrow> int list \<Rightarrow> bool" where
  "text_step k us l n xs \<longleftrightarrow>
     (case k of Lead vs \<Rightarrow> us = [] \<and> text_in vs l n xs
      | Cont \<Rightarrow> (case us of [] \<Rightarrow> False | v # vs \<Rightarrow> text_in vs l n xs)
      | Bad \<Rightarrow> False)"

definition text_at :: "unit list \<Rightarrow> nat \<Rightarrow> bool" where
  "text_at l k \<longleftrightarrow> length l \<le> length (concat string_lines) - k \<and>
     text_run [] (take (length l) (drop k (concat string_lines)))"

definition text_skip :: "nat \<Rightarrow> unit list \<Rightarrow> nat \<Rightarrow> int list \<Rightarrow> bool" where
  "text_skip j l n xs \<longleftrightarrow> text_in [] l (Suc n) (drop j xs)"

definition units :: "nat \<Rightarrow> unit list" where
  "units k = replicate k ()"

definition word_ok :: "nat \<Rightarrow> bool" where
  "word_ok v \<longleftrightarrow> hi18 v \<noteq> 0 \<and> text_at (units (hi18 v)) (lo18 v)"

lemma text_in_simps:
  "text_in [] [] n xs = True"
  "text_in (u # us) [] n xs = False"
  "text_in us (v # l) n (x # xs) = text_step (byte_kind x) us l n xs"
  "text_in us (v # l) n [] = string_block (text_refill us (v # l) n) n"
proof -
  show "text_in us (v # l) n [] = string_block (text_refill us (v # l) n) n"
    unfolding text_in_def text_refill_def string_block_def with_block_def take_drop_block by simp
  show "text_in us (v # l) n (x # xs) = text_step (byte_kind x) us l n xs"
    by (cases us) (auto simp: text_in_def text_step_def Let_def split: byte_kind.splits)
qed (auto simp: text_in_def Let_def)

lemma text_step_simps:
  "text_step (Lead vs) [] l n xs = text_in vs l n xs"
  "text_step Cont (u # us) l n xs = text_in us l n xs"
  by (simp_all add: text_step_def)

lemma text_block: "j < 16 \<Longrightarrow> text_at l (16 * n + j) = string_block (text_skip j l n) n"
  using drop_block [of j n "concat string_lines"]
  by (simp add: text_at_def text_skip_def string_block_def with_block_def text_in_def Let_def)

lemma text_at_first:
  "text_at l 0 = string_block (text_skip 0 l 0) 0"
  "text_at l 1 = string_block (text_skip 1 l 0) 0"
  "text_at l 2 = string_block (text_skip 2 l 0) 0"
  "text_at l 3 = string_block (text_skip 3 l 0) 0"
  "text_at l 4 = string_block (text_skip 4 l 0) 0"
  "text_at l 5 = string_block (text_skip 5 l 0) 0"
  "text_at l 6 = string_block (text_skip 6 l 0) 0"
  "text_at l 7 = string_block (text_skip 7 l 0) 0"
  "text_at l 8 = string_block (text_skip 8 l 0) 0"
  "text_at l 9 = string_block (text_skip 9 l 0) 0"
  "text_at l 10 = string_block (text_skip 10 l 0) 0"
  "text_at l 11 = string_block (text_skip 11 l 0) 0"
  "text_at l 12 = string_block (text_skip 12 l 0) 0"
  "text_at l 13 = string_block (text_skip 13 l 0) 0"
  "text_at l 14 = string_block (text_skip 14 l 0) 0"
  "text_at l 15 = string_block (text_skip 15 l 0) 0"
  using text_block [of _ l 0] by simp_all

lemma text_at_simps:
  "text_at l (numeral (num.Bit0 (num.Bit0 (num.Bit0 (num.Bit0 n))))) = string_block (text_skip 0 l (numeral n)) (numeral n)"
  "text_at l (numeral (num.Bit1 (num.Bit0 (num.Bit0 (num.Bit0 n))))) = string_block (text_skip 1 l (numeral n)) (numeral n)"
  "text_at l (numeral (num.Bit0 (num.Bit1 (num.Bit0 (num.Bit0 n))))) = string_block (text_skip 2 l (numeral n)) (numeral n)"
  "text_at l (numeral (num.Bit1 (num.Bit1 (num.Bit0 (num.Bit0 n))))) = string_block (text_skip 3 l (numeral n)) (numeral n)"
  "text_at l (numeral (num.Bit0 (num.Bit0 (num.Bit1 (num.Bit0 n))))) = string_block (text_skip 4 l (numeral n)) (numeral n)"
  "text_at l (numeral (num.Bit1 (num.Bit0 (num.Bit1 (num.Bit0 n))))) = string_block (text_skip 5 l (numeral n)) (numeral n)"
  "text_at l (numeral (num.Bit0 (num.Bit1 (num.Bit1 (num.Bit0 n))))) = string_block (text_skip 6 l (numeral n)) (numeral n)"
  "text_at l (numeral (num.Bit1 (num.Bit1 (num.Bit1 (num.Bit0 n))))) = string_block (text_skip 7 l (numeral n)) (numeral n)"
  "text_at l (numeral (num.Bit0 (num.Bit0 (num.Bit0 (num.Bit1 n))))) = string_block (text_skip 8 l (numeral n)) (numeral n)"
  "text_at l (numeral (num.Bit1 (num.Bit0 (num.Bit0 (num.Bit1 n))))) = string_block (text_skip 9 l (numeral n)) (numeral n)"
  "text_at l (numeral (num.Bit0 (num.Bit1 (num.Bit0 (num.Bit1 n))))) = string_block (text_skip 10 l (numeral n)) (numeral n)"
  "text_at l (numeral (num.Bit1 (num.Bit1 (num.Bit0 (num.Bit1 n))))) = string_block (text_skip 11 l (numeral n)) (numeral n)"
  "text_at l (numeral (num.Bit0 (num.Bit0 (num.Bit1 (num.Bit1 n))))) = string_block (text_skip 12 l (numeral n)) (numeral n)"
  "text_at l (numeral (num.Bit1 (num.Bit0 (num.Bit1 (num.Bit1 n))))) = string_block (text_skip 13 l (numeral n)) (numeral n)"
  "text_at l (numeral (num.Bit0 (num.Bit1 (num.Bit1 (num.Bit1 n))))) = string_block (text_skip 14 l (numeral n)) (numeral n)"
  "text_at l (numeral (num.Bit1 (num.Bit1 (num.Bit1 (num.Bit1 n))))) = string_block (text_skip 15 l (numeral n)) (numeral n)"
  by (subst nibble, rule text_block, simp)+

lemma text_skip_simps:
  "text_skip 0 l n xs = text_in [] l (Suc n) xs"
  "text_skip 1 l n (a0 # xs) = text_in [] l (Suc n) xs"
  "text_skip 2 l n (a0 # a1 # xs) = text_in [] l (Suc n) xs"
  "text_skip 3 l n (a0 # a1 # a2 # xs) = text_in [] l (Suc n) xs"
  "text_skip 4 l n (a0 # a1 # a2 # a3 # xs) = text_in [] l (Suc n) xs"
  "text_skip 5 l n (a0 # a1 # a2 # a3 # a4 # xs) = text_in [] l (Suc n) xs"
  "text_skip 6 l n (a0 # a1 # a2 # a3 # a4 # a5 # xs) = text_in [] l (Suc n) xs"
  "text_skip 7 l n (a0 # a1 # a2 # a3 # a4 # a5 # a6 # xs) = text_in [] l (Suc n) xs"
  "text_skip 8 l n (a0 # a1 # a2 # a3 # a4 # a5 # a6 # a7 # xs) = text_in [] l (Suc n) xs"
  "text_skip 9 l n (a0 # a1 # a2 # a3 # a4 # a5 # a6 # a7 # a8 # xs) = text_in [] l (Suc n) xs"
  "text_skip 10 l n (a0 # a1 # a2 # a3 # a4 # a5 # a6 # a7 # a8 # a9 # xs) = text_in [] l (Suc n) xs"
  "text_skip 11 l n (a0 # a1 # a2 # a3 # a4 # a5 # a6 # a7 # a8 # a9 # a10 # xs) = text_in [] l (Suc n) xs"
  "text_skip 12 l n (a0 # a1 # a2 # a3 # a4 # a5 # a6 # a7 # a8 # a9 # a10 # a11 # xs) = text_in [] l (Suc n) xs"
  "text_skip 13 l n (a0 # a1 # a2 # a3 # a4 # a5 # a6 # a7 # a8 # a9 # a10 # a11 # a12 # xs) = text_in [] l (Suc n) xs"
  "text_skip 14 l n (a0 # a1 # a2 # a3 # a4 # a5 # a6 # a7 # a8 # a9 # a10 # a11 # a12 # a13 # xs) = text_in [] l (Suc n) xs"
  "text_skip 15 l n (a0 # a1 # a2 # a3 # a4 # a5 # a6 # a7 # a8 # a9 # a10 # a11 # a12 # a13 # a14 # xs) = text_in [] l (Suc n) xs"
  by (simp_all add: text_skip_def)

lemma units_simps:
  "units 1 = [()]"
  "units 2 = [(), ()]"
  "units 3 = [(), (), ()]"
  "units 4 = [(), (), (), ()]"
  "units 5 = [(), (), (), (), ()]"
  "units 6 = [(), (), (), (), (), ()]"
  "units 7 = [(), (), (), (), (), (), ()]"
  "units 8 = [(), (), (), (), (), (), (), ()]"
  "units 9 = [(), (), (), (), (), (), (), (), ()]"
  "units 10 = [(), (), (), (), (), (), (), (), (), ()]"
  "units 11 = [(), (), (), (), (), (), (), (), (), (), ()]"
  "units 12 = [(), (), (), (), (), (), (), (), (), (), (), ()]"
  "units 13 = [(), (), (), (), (), (), (), (), (), (), (), (), ()]"
  "units 14 = [(), (), (), (), (), (), (), (), (), (), (), (), (), ()]"
  "units 15 = [(), (), (), (), (), (), (), (), (), (), (), (), (), (), ()]"
  "units 16 = [(), (), (), (), (), (), (), (), (), (), (), (), (), (), (), ()]"
  "units 17 = [(), (), (), (), (), (), (), (), (), (), (), (), (), (), (), (), ()]"
  "units 18 = [(), (), (), (), (), (), (), (), (), (), (), (), (), (), (), (), (), ()]"
  "units 19 = [(), (), (), (), (), (), (), (), (), (), (), (), (), (), (), (), (), (), ()]"
  "units 20 = [(), (), (), (), (), (), (), (), (), (), (), (), (), (), (), (), (), (), (), ()]"
  "units 21 = [(), (), (), (), (), (), (), (), (), (), (), (), (), (), (), (), (), (), (), (), ()]"
  "units 22 = [(), (), (), (), (), (), (), (), (), (), (), (), (), (), (), (), (), (), (), (), (), ()]"
  "units 23 = [(), (), (), (), (), (), (), (), (), (), (), (), (), (), (), (), (), (), (), (), (), (), ()]"
  "units 24 = [(), (), (), (), (), (), (), (), (), (), (), (), (), (), (), (), (), (), (), (), (), (), (), ()]"
  "units 25 = [(), (), (), (), (), (), (), (), (), (), (), (), (), (), (), (), (), (), (), (), (), (), (), (), ()]"
  "units 26 = [(), (), (), (), (), (), (), (), (), (), (), (), (), (), (), (), (), (), (), (), (), (), (), (), (), ()]"
  "units 27 = [(), (), (), (), (), (), (), (), (), (), (), (), (), (), (), (), (), (), (), (), (), (), (), (), (), (), ()]"
  "units 28 = [(), (), (), (), (), (), (), (), (), (), (), (), (), (), (), (), (), (), (), (), (), (), (), (), (), (), (), ()]"
  "units 29 = [(), (), (), (), (), (), (), (), (), (), (), (), (), (), (), (), (), (), (), (), (), (), (), (), (), (), (), (), ()]"
  "units 30 = [(), (), (), (), (), (), (), (), (), (), (), (), (), (), (), (), (), (), (), (), (), (), (), (), (), (), (), (), (), ()]"
  "units 31 = [(), (), (), (), (), (), (), (), (), (), (), (), (), (), (), (), (), (), (), (), (), (), (), (), (), (), (), (), (), (), ()]"
  "units 32 = [(), (), (), (), (), (), (), (), (), (), (), (), (), (), (), (), (), (), (), (), (), (), (), (), (), (), (), (), (), (), (), ()]"
  "units 33 = [(), (), (), (), (), (), (), (), (), (), (), (), (), (), (), (), (), (), (), (), (), (), (), (), (), (), (), (), (), (), (), (), ()]"
  "units (numeral num.One) = [()]"
  by (simp_all add: units_def numeral_nat)

text \<open>The kind of each byte that occurs, by its value.\<close>

lemma byte_kind_simps:
  "byte_kind (-128) = Cont" "byte_kind (-127) = Cont" "byte_kind (-126) = Cont" "byte_kind (-125) = Cont"
  "byte_kind (-124) = Cont" "byte_kind (-123) = Cont" "byte_kind (-122) = Cont" "byte_kind (-121) = Cont"
  "byte_kind (-120) = Cont" "byte_kind (-119) = Cont" "byte_kind (-118) = Cont" "byte_kind (-117) = Cont"
  "byte_kind (-116) = Cont" "byte_kind (-115) = Cont" "byte_kind (-114) = Cont" "byte_kind (-113) = Cont"
  "byte_kind (-112) = Cont" "byte_kind (-111) = Cont" "byte_kind (-110) = Cont" "byte_kind (-109) = Cont"
  "byte_kind (-108) = Cont" "byte_kind (-107) = Cont" "byte_kind (-106) = Cont" "byte_kind (-105) = Cont"
  "byte_kind (-104) = Cont" "byte_kind (-103) = Cont" "byte_kind (-102) = Cont" "byte_kind (-101) = Cont"
  "byte_kind (-100) = Cont" "byte_kind (-99) = Cont" "byte_kind (-98) = Cont" "byte_kind (-97) = Cont"
  "byte_kind (-96) = Cont" "byte_kind (-95) = Cont" "byte_kind (-94) = Cont" "byte_kind (-93) = Cont"
  "byte_kind (-92) = Cont" "byte_kind (-91) = Cont" "byte_kind (-90) = Cont" "byte_kind (-89) = Cont"
  "byte_kind (-88) = Cont" "byte_kind (-87) = Cont" "byte_kind (-86) = Cont" "byte_kind (-85) = Cont"
  "byte_kind (-84) = Cont" "byte_kind (-83) = Cont" "byte_kind (-82) = Cont" "byte_kind (-81) = Cont"
  "byte_kind (-80) = Cont" "byte_kind (-79) = Cont" "byte_kind (-78) = Cont" "byte_kind (-77) = Cont"
  "byte_kind (-76) = Cont" "byte_kind (-75) = Cont" "byte_kind (-74) = Cont" "byte_kind (-73) = Cont"
  "byte_kind (-72) = Cont" "byte_kind (-71) = Cont" "byte_kind (-70) = Cont" "byte_kind (-69) = Cont"
  "byte_kind (-68) = Cont" "byte_kind (-67) = Cont" "byte_kind (-66) = Cont" "byte_kind (-65) = Cont"
  "byte_kind (-62) = Lead [()]" "byte_kind (-61) = Lead [()]" "byte_kind (-60) = Lead [()]" "byte_kind (-59) = Lead [()]"
  "byte_kind (-58) = Lead [()]" "byte_kind (-57) = Lead [()]" "byte_kind (-56) = Lead [()]" "byte_kind (-55) = Lead [()]"
  "byte_kind (-54) = Lead [()]" "byte_kind (-52) = Lead [()]" "byte_kind (-51) = Lead [()]" "byte_kind (-50) = Lead [()]"
  "byte_kind (-49) = Lead [()]" "byte_kind (-48) = Lead [()]" "byte_kind (-47) = Lead [()]" "byte_kind (-45) = Lead [()]"
  "byte_kind (-43) = Lead [()]" "byte_kind (-42) = Lead [()]" "byte_kind (-41) = Lead [()]" "byte_kind (-40) = Lead [()]"
  "byte_kind (-39) = Lead [()]" "byte_kind (-38) = Lead [()]" "byte_kind (-37) = Lead [()]" "byte_kind (-32) = Lead [(), ()]"
  "byte_kind (-31) = Lead [(), ()]" "byte_kind (-30) = Lead [(), ()]" "byte_kind (-29) = Lead [(), ()]" "byte_kind (-28) = Lead [(), ()]"
  "byte_kind (-27) = Lead [(), ()]" "byte_kind (-26) = Lead [(), ()]" "byte_kind (-25) = Lead [(), ()]" "byte_kind (-24) = Lead [(), ()]"
  "byte_kind (-23) = Lead [(), ()]" "byte_kind (-22) = Lead [(), ()]" "byte_kind (-21) = Lead [(), ()]" "byte_kind (-20) = Lead [(), ()]"
  "byte_kind (-19) = Lead [(), ()]" "byte_kind (-16) = Lead [(), (), ()]" "byte_kind 32 = Lead []" "byte_kind 33 = Lead []"
  "byte_kind 34 = Lead []" "byte_kind 35 = Lead []" "byte_kind 36 = Lead []" "byte_kind 37 = Lead []"
  "byte_kind 38 = Lead []" "byte_kind 39 = Lead []" "byte_kind 40 = Lead []" "byte_kind 41 = Lead []"
  "byte_kind 42 = Lead []" "byte_kind 43 = Lead []" "byte_kind 44 = Lead []" "byte_kind 45 = Lead []"
  "byte_kind 46 = Lead []" "byte_kind 47 = Lead []" "byte_kind 48 = Lead []" "byte_kind 49 = Lead []"
  "byte_kind 50 = Lead []" "byte_kind 51 = Lead []" "byte_kind 52 = Lead []" "byte_kind 53 = Lead []"
  "byte_kind 54 = Lead []" "byte_kind 55 = Lead []" "byte_kind 56 = Lead []" "byte_kind 57 = Lead []"
  "byte_kind 58 = Lead []" "byte_kind 59 = Lead []" "byte_kind 60 = Lead []" "byte_kind 61 = Lead []"
  "byte_kind 62 = Lead []" "byte_kind 63 = Lead []" "byte_kind 64 = Lead []" "byte_kind 65 = Lead []"
  "byte_kind 66 = Lead []" "byte_kind 67 = Lead []" "byte_kind 68 = Lead []" "byte_kind 69 = Lead []"
  "byte_kind 70 = Lead []" "byte_kind 71 = Lead []" "byte_kind 72 = Lead []" "byte_kind 73 = Lead []"
  "byte_kind 74 = Lead []" "byte_kind 75 = Lead []" "byte_kind 76 = Lead []" "byte_kind 77 = Lead []"
  "byte_kind 78 = Lead []" "byte_kind 79 = Lead []" "byte_kind 80 = Lead []" "byte_kind 81 = Lead []"
  "byte_kind 82 = Lead []" "byte_kind 83 = Lead []" "byte_kind 84 = Lead []" "byte_kind 85 = Lead []"
  "byte_kind 86 = Lead []" "byte_kind 87 = Lead []" "byte_kind 88 = Lead []" "byte_kind 89 = Lead []"
  "byte_kind 90 = Lead []" "byte_kind 91 = Lead []" "byte_kind 92 = Lead []" "byte_kind 93 = Lead []"
  "byte_kind 94 = Lead []" "byte_kind 95 = Lead []" "byte_kind 96 = Lead []" "byte_kind 97 = Lead []"
  "byte_kind 98 = Lead []" "byte_kind 99 = Lead []" "byte_kind 100 = Lead []" "byte_kind 101 = Lead []"
  "byte_kind 102 = Lead []" "byte_kind 103 = Lead []" "byte_kind 104 = Lead []" "byte_kind 105 = Lead []"
  "byte_kind 106 = Lead []" "byte_kind 107 = Lead []" "byte_kind 108 = Lead []" "byte_kind 109 = Lead []"
  "byte_kind 110 = Lead []" "byte_kind 111 = Lead []" "byte_kind 112 = Lead []" "byte_kind 113 = Lead []"
  "byte_kind 114 = Lead []" "byte_kind 115 = Lead []" "byte_kind 116 = Lead []" "byte_kind 117 = Lead []"
  "byte_kind 118 = Lead []" "byte_kind 119 = Lead []" "byte_kind 120 = Lead []" "byte_kind 121 = Lead []"
  "byte_kind 122 = Lead []" "byte_kind 123 = Lead []" "byte_kind 124 = Lead []" "byte_kind 125 = Lead []"
  "byte_kind 126 = Lead []"
  by (simp_all add: byte_kind_def)

lemma text_in_cong: "text_in us l n xs = text_in us l n xs"
  by (rule refl)

lemma text_refill_cong: "text_refill us l n xs = text_refill us l n xs"
  by (rule refl)

lemma text_skip_cong: "text_skip j l n xs = text_skip j l n xs"
  by (rule refl)

lemma text_step_cong: "k = k' \<Longrightarrow> text_step k us l n xs = text_step k' us l n xs"
  by simp

lemmas text_simps = word_ok_def text_in_simps text_step_simps text_at_first text_at_simps text_skip_simps
  text_refill_def units_simps byte_kind_simps split18 bits18_def numeral_One

lemmas text_congs = text_in_cong text_refill_cong text_skip_cong text_step_cong

section \<open>Single lookups\<close>

text \<open>
  \<open>path b cs P\<close> looks the key \<open>cs\<close> up from a node with base \<open>b\<close> and hands \<open>P\<close> the value
  found, or \<open>None\<close> where an edge is missing; a key that ends inside the trie does not pass.
\<close>

fun path :: "nat \<Rightarrow> nat list \<Rightarrow> (nat option \<Rightarrow> bool) \<Rightarrow> bool"
and path_edge :: "nat \<Rightarrow> nat list \<Rightarrow> (nat option \<Rightarrow> bool) \<Rightarrow> nat \<Rightarrow> bool"
and path_node :: "nat \<Rightarrow> nat list \<Rightarrow> (nat option \<Rightarrow> bool) \<Rightarrow> nat \<Rightarrow> bool" where
  "path b [] P = False"
| "path b (c # cs) P = entry (path_edge c cs P) (b + c)"
| "path_edge c cs P w = (if hi24 w = c then entry (path_node (lo24 w) cs P) (lo24 w) else P None)"
| "path_node b cs P t = (if hi24 t = 0 then P (Some (lo24 t)) else path b cs P)"

definition string_entry :: "(int \<Rightarrow> bool) \<Rightarrow> nat \<Rightarrow> bool" where
  "string_entry P k \<longleftrightarrow> k < length (concat string_lines) \<and> P (concat string_lines ! k)"

lemma string_entry_block: "k < 16 \<Longrightarrow> string_entry P (16 * n + k) = string_block (pick k P) n"
  by (auto simp: string_entry_def pick_def string_block_def with_block_def)

lemma string_entry_simps:
  "string_entry P (numeral (num.Bit0 (num.Bit0 (num.Bit0 (num.Bit0 n))))) = string_block (pick 0 P) (numeral n)"
  "string_entry P (numeral (num.Bit1 (num.Bit0 (num.Bit0 (num.Bit0 n))))) = string_block (pick 1 P) (numeral n)"
  "string_entry P (numeral (num.Bit0 (num.Bit1 (num.Bit0 (num.Bit0 n))))) = string_block (pick 2 P) (numeral n)"
  "string_entry P (numeral (num.Bit1 (num.Bit1 (num.Bit0 (num.Bit0 n))))) = string_block (pick 3 P) (numeral n)"
  "string_entry P (numeral (num.Bit0 (num.Bit0 (num.Bit1 (num.Bit0 n))))) = string_block (pick 4 P) (numeral n)"
  "string_entry P (numeral (num.Bit1 (num.Bit0 (num.Bit1 (num.Bit0 n))))) = string_block (pick 5 P) (numeral n)"
  "string_entry P (numeral (num.Bit0 (num.Bit1 (num.Bit1 (num.Bit0 n))))) = string_block (pick 6 P) (numeral n)"
  "string_entry P (numeral (num.Bit1 (num.Bit1 (num.Bit1 (num.Bit0 n))))) = string_block (pick 7 P) (numeral n)"
  "string_entry P (numeral (num.Bit0 (num.Bit0 (num.Bit0 (num.Bit1 n))))) = string_block (pick 8 P) (numeral n)"
  "string_entry P (numeral (num.Bit1 (num.Bit0 (num.Bit0 (num.Bit1 n))))) = string_block (pick 9 P) (numeral n)"
  "string_entry P (numeral (num.Bit0 (num.Bit1 (num.Bit0 (num.Bit1 n))))) = string_block (pick 10 P) (numeral n)"
  "string_entry P (numeral (num.Bit1 (num.Bit1 (num.Bit0 (num.Bit1 n))))) = string_block (pick 11 P) (numeral n)"
  "string_entry P (numeral (num.Bit0 (num.Bit0 (num.Bit1 (num.Bit1 n))))) = string_block (pick 12 P) (numeral n)"
  "string_entry P (numeral (num.Bit1 (num.Bit0 (num.Bit1 (num.Bit1 n))))) = string_block (pick 13 P) (numeral n)"
  "string_entry P (numeral (num.Bit0 (num.Bit1 (num.Bit1 (num.Bit1 n))))) = string_block (pick 14 P) (numeral n)"
  "string_entry P (numeral (num.Bit1 (num.Bit1 (num.Bit1 (num.Bit1 n))))) = string_block (pick 15 P) (numeral n)"
  by (subst nibble, rule string_entry_block, simp)+

lemmas path_simps = path.simps path_edge.simps path_node.simps option.inject option.distinct

end
