(* ===== verification/Table_Facts.thy ===== *)
theory Table_Facts
  imports Table_Check
begin

text \<open>
  What the checks show of \<open>UNF::TABLE\<close>: every search in its node array stays inside, its five
  tries over characters map whole characters, the combining classes are bytes other than 0, and
  the decompositions are non-empty texts. With these facts the interfaces of the components are
  interpreted on the table.
\<close>

section \<open>Sizes\<close>

lemma node_count_eq: "node_count = 62855"
  by (simp add: node_count_def node_lines_def
    size_NODES_00 size_NODES_01 size_NODES_02 size_NODES_03 size_NODES_04
    size_NODES_05 size_NODES_06 size_NODES_07 size_NODES_08 size_NODES_09
    size_NODES_10 size_NODES_11 size_NODES_12 size_NODES_13 size_NODES_14
    size_NODES_15 size_NODES_16 size_NODES_17 size_NODES_18 size_NODES_19
    size_NODES_20 size_NODES_21 size_NODES_22 size_NODES_23 size_NODES_24
    size_NODES_25 size_NODES_26 size_NODES_27 size_NODES_28 size_NODES_29
    size_NODES_30 size_NODES_31 size_NODES_32 size_NODES_33 size_NODES_34
    size_NODES_35 size_NODES_36 size_NODES_37 size_NODES_38 size_NODES_39
    size_NODES_40 size_NODES_41 size_NODES_42 size_NODES_43)

lemma string_count_eq: "length (concat string_lines) = 144765"
  by (simp add: string_lines_def
    size_STRINGS_00 size_STRINGS_01 size_STRINGS_02 size_STRINGS_03 size_STRINGS_04
    size_STRINGS_05 size_STRINGS_06 size_STRINGS_07 size_STRINGS_08 size_STRINGS_09
    size_STRINGS_10 size_STRINGS_11 size_STRINGS_12 size_STRINGS_13 size_STRINGS_14
    size_STRINGS_15 size_STRINGS_16 size_STRINGS_17 size_STRINGS_18 size_STRINGS_19
    size_STRINGS_20 size_STRINGS_21 size_STRINGS_22 size_STRINGS_23 size_STRINGS_24
    size_STRINGS_25 size_STRINGS_26 size_STRINGS_27 size_STRINGS_28 size_STRINGS_29
    size_STRINGS_30 size_STRINGS_31 size_STRINGS_32 size_STRINGS_33 size_STRINGS_34
    size_STRINGS_35 size_STRINGS_36 size_STRINGS_37 size_STRINGS_38 size_STRINGS_39
    size_STRINGS_40 size_STRINGS_41 size_STRINGS_42 size_STRINGS_43 size_STRINGS_44
    size_STRINGS_45 size_STRINGS_46 size_STRINGS_47 size_STRINGS_48 size_STRINGS_49
    size_STRINGS_50)

section \<open>Every node\<close>

lemmas bounded_simps = lines_bounded.simps word_bounded_simps short.simps bits8_def low_less.simps
  bound_bits_def word_inside_simps low_below.simps inside_bits_def upper.simps lower.simps twice_simps
  bits18_def add_num_simps numeral_plus_numeral rel_simps HOL.simp_thms if_True if_False

lemma bounded_NODES_00: "lines_bounded NODES_00"
  unfolding NODES_00_def by (simp only: bounded_simps cong: lines_bounded_cong if_weak_cong)

lemma bounded_NODES_01: "lines_bounded NODES_01"
  unfolding NODES_01_def by (simp only: bounded_simps cong: lines_bounded_cong if_weak_cong)

lemma bounded_NODES_02: "lines_bounded NODES_02"
  unfolding NODES_02_def by (simp only: bounded_simps cong: lines_bounded_cong if_weak_cong)

lemma bounded_NODES_03: "lines_bounded NODES_03"
  unfolding NODES_03_def by (simp only: bounded_simps cong: lines_bounded_cong if_weak_cong)

lemma bounded_NODES_04: "lines_bounded NODES_04"
  unfolding NODES_04_def by (simp only: bounded_simps cong: lines_bounded_cong if_weak_cong)

lemma bounded_NODES_05: "lines_bounded NODES_05"
  unfolding NODES_05_def by (simp only: bounded_simps cong: lines_bounded_cong if_weak_cong)

lemma bounded_NODES_06: "lines_bounded NODES_06"
  unfolding NODES_06_def by (simp only: bounded_simps cong: lines_bounded_cong if_weak_cong)

lemma bounded_NODES_07: "lines_bounded NODES_07"
  unfolding NODES_07_def by (simp only: bounded_simps cong: lines_bounded_cong if_weak_cong)

lemma bounded_NODES_08: "lines_bounded NODES_08"
  unfolding NODES_08_def by (simp only: bounded_simps cong: lines_bounded_cong if_weak_cong)

lemma bounded_NODES_09: "lines_bounded NODES_09"
  unfolding NODES_09_def by (simp only: bounded_simps cong: lines_bounded_cong if_weak_cong)

lemma bounded_NODES_10: "lines_bounded NODES_10"
  unfolding NODES_10_def by (simp only: bounded_simps cong: lines_bounded_cong if_weak_cong)

lemma bounded_NODES_11: "lines_bounded NODES_11"
  unfolding NODES_11_def by (simp only: bounded_simps cong: lines_bounded_cong if_weak_cong)

lemma bounded_NODES_12: "lines_bounded NODES_12"
  unfolding NODES_12_def by (simp only: bounded_simps cong: lines_bounded_cong if_weak_cong)

lemma bounded_NODES_13: "lines_bounded NODES_13"
  unfolding NODES_13_def by (simp only: bounded_simps cong: lines_bounded_cong if_weak_cong)

lemma bounded_NODES_14: "lines_bounded NODES_14"
  unfolding NODES_14_def by (simp only: bounded_simps cong: lines_bounded_cong if_weak_cong)

lemma bounded_NODES_15: "lines_bounded NODES_15"
  unfolding NODES_15_def by (simp only: bounded_simps cong: lines_bounded_cong if_weak_cong)

lemma bounded_NODES_16: "lines_bounded NODES_16"
  unfolding NODES_16_def by (simp only: bounded_simps cong: lines_bounded_cong if_weak_cong)

lemma bounded_NODES_17: "lines_bounded NODES_17"
  unfolding NODES_17_def by (simp only: bounded_simps cong: lines_bounded_cong if_weak_cong)

lemma bounded_NODES_18: "lines_bounded NODES_18"
  unfolding NODES_18_def by (simp only: bounded_simps cong: lines_bounded_cong if_weak_cong)

lemma bounded_NODES_19: "lines_bounded NODES_19"
  unfolding NODES_19_def by (simp only: bounded_simps cong: lines_bounded_cong if_weak_cong)

lemma bounded_NODES_20: "lines_bounded NODES_20"
  unfolding NODES_20_def by (simp only: bounded_simps cong: lines_bounded_cong if_weak_cong)

lemma bounded_NODES_21: "lines_bounded NODES_21"
  unfolding NODES_21_def by (simp only: bounded_simps cong: lines_bounded_cong if_weak_cong)

lemma bounded_NODES_22: "lines_bounded NODES_22"
  unfolding NODES_22_def by (simp only: bounded_simps cong: lines_bounded_cong if_weak_cong)

lemma bounded_NODES_23: "lines_bounded NODES_23"
  unfolding NODES_23_def by (simp only: bounded_simps cong: lines_bounded_cong if_weak_cong)

lemma bounded_NODES_24: "lines_bounded NODES_24"
  unfolding NODES_24_def by (simp only: bounded_simps cong: lines_bounded_cong if_weak_cong)

lemma bounded_NODES_25: "lines_bounded NODES_25"
  unfolding NODES_25_def by (simp only: bounded_simps cong: lines_bounded_cong if_weak_cong)

lemma bounded_NODES_26: "lines_bounded NODES_26"
  unfolding NODES_26_def by (simp only: bounded_simps cong: lines_bounded_cong if_weak_cong)

lemma bounded_NODES_27: "lines_bounded NODES_27"
  unfolding NODES_27_def by (simp only: bounded_simps cong: lines_bounded_cong if_weak_cong)

lemma bounded_NODES_28: "lines_bounded NODES_28"
  unfolding NODES_28_def by (simp only: bounded_simps cong: lines_bounded_cong if_weak_cong)

lemma bounded_NODES_29: "lines_bounded NODES_29"
  unfolding NODES_29_def by (simp only: bounded_simps cong: lines_bounded_cong if_weak_cong)

lemma bounded_NODES_30: "lines_bounded NODES_30"
  unfolding NODES_30_def by (simp only: bounded_simps cong: lines_bounded_cong if_weak_cong)

lemma bounded_NODES_31: "lines_bounded NODES_31"
  unfolding NODES_31_def by (simp only: bounded_simps cong: lines_bounded_cong if_weak_cong)

lemma bounded_NODES_32: "lines_bounded NODES_32"
  unfolding NODES_32_def by (simp only: bounded_simps cong: lines_bounded_cong if_weak_cong)

lemma bounded_NODES_33: "lines_bounded NODES_33"
  unfolding NODES_33_def by (simp only: bounded_simps cong: lines_bounded_cong if_weak_cong)

lemma bounded_NODES_34: "lines_bounded NODES_34"
  unfolding NODES_34_def by (simp only: bounded_simps cong: lines_bounded_cong if_weak_cong)

lemma bounded_NODES_35: "lines_bounded NODES_35"
  unfolding NODES_35_def by (simp only: bounded_simps cong: lines_bounded_cong if_weak_cong)

lemma bounded_NODES_36: "lines_bounded NODES_36"
  unfolding NODES_36_def by (simp only: bounded_simps cong: lines_bounded_cong if_weak_cong)

lemma bounded_NODES_37: "lines_bounded NODES_37"
  unfolding NODES_37_def by (simp only: bounded_simps cong: lines_bounded_cong if_weak_cong)

lemma bounded_NODES_38: "lines_bounded NODES_38"
  unfolding NODES_38_def by (simp only: bounded_simps cong: lines_bounded_cong if_weak_cong)

lemma bounded_NODES_39: "lines_bounded NODES_39"
  unfolding NODES_39_def by (simp only: bounded_simps cong: lines_bounded_cong if_weak_cong)

lemma bounded_NODES_40: "lines_bounded NODES_40"
  unfolding NODES_40_def by (simp only: bounded_simps cong: lines_bounded_cong if_weak_cong)

lemma bounded_NODES_41: "lines_bounded NODES_41"
  unfolding NODES_41_def by (simp only: bounded_simps cong: lines_bounded_cong if_weak_cong)

lemma bounded_NODES_42: "lines_bounded NODES_42"
  unfolding NODES_42_def by (simp only: bounded_simps cong: lines_bounded_cong if_weak_cong)

lemma bounded_NODES_43: "lines_bounded NODES_43"
  unfolding NODES_43_def by (simp only: bounded_simps cong: lines_bounded_cong if_weak_cong)

lemma node_lines_bounded: "list_all word_bounded (concat node_lines)"
  unfolding node_lines_def lines_bounded_eq [symmetric]
  by (rule lines_bounded_concat) (simp add:
    bounded_NODES_00 bounded_NODES_01 bounded_NODES_02 bounded_NODES_03 bounded_NODES_04
    bounded_NODES_05 bounded_NODES_06 bounded_NODES_07 bounded_NODES_08 bounded_NODES_09
    bounded_NODES_10 bounded_NODES_11 bounded_NODES_12 bounded_NODES_13 bounded_NODES_14
    bounded_NODES_15 bounded_NODES_16 bounded_NODES_17 bounded_NODES_18 bounded_NODES_19
    bounded_NODES_20 bounded_NODES_21 bounded_NODES_22 bounded_NODES_23 bounded_NODES_24
    bounded_NODES_25 bounded_NODES_26 bounded_NODES_27 bounded_NODES_28 bounded_NODES_29
    bounded_NODES_30 bounded_NODES_31 bounded_NODES_32 bounded_NODES_33 bounded_NODES_34
    bounded_NODES_35 bounded_NODES_36 bounded_NODES_37 bounded_NODES_38 bounded_NODES_39
    bounded_NODES_40 bounded_NODES_41 bounded_NODES_42 bounded_NODES_43)

section \<open>The tries\<close>

definition class_ok :: "nat \<Rightarrow> bool" where
  "class_ok v \<longleftrightarrow> 0 < v \<and> v < 256"

definition any_value :: "nat \<Rightarrow> bool" where
  "any_value v \<longleftrightarrow> True"

lemma class_trie_checked: "root_ok class_ok 58694"
  by (simp only: class_ok_def check_simps class_rules cong: check_congs)

lemma nfc_trie_checked: "root_ok any_value 59447"
  by (simp only: any_value_def check_simps nfc_rules cong: check_congs)

lemma nfkc_trie_checked: "root_ok any_value 60048"
  by (simp only: any_value_def check_simps nfkc_rules cong: check_congs)

lemma decomp_trie_checked: "root_ok word_ok 26297"
  by (simp only: text_simps check_simps decomp_rules string_rules cong: check_congs text_congs)

lemma compat_trie_checked: "root_ok word_ok 52947"
  by (simp only: text_simps check_simps compat_rules string_rules cong: check_congs text_congs)

text \<open>No character of the composition trie starts with a continuation byte.\<close>

definition no_node :: "nat \<Rightarrow> bool" where
  "no_node d \<longleftrightarrow> False"

lemma com_trie_checked: "window (kid no_node) cont_bytes (203 + 0x80)"
  by (simp only: no_node_def check_simps class_rules cong: check_congs)

text \<open>The words of the roots and of the entries their bases point to.\<close>

definition root_word :: "nat \<Rightarrow> nat \<Rightarrow> bool" where
  "root_word b w \<longleftrightarrow> hi24 w \<noteq> 0 \<and> lo24 w = b"

lemma roots_checked:
  "entry (root_word 203) 257" "entry (root_word 26297) 258" "entry (root_word 52947) 259"
  "entry (root_word 58694) 260" "entry (root_word 59447) 261" "entry (root_word 60048) 262"
  "entry labelled 203" "entry labelled 26297" "entry labelled 52947"
  "entry labelled 58694" "entry labelled 59447" "entry labelled 60048"
  by (simp_all only: root_word_def check_simps compat_rules class_rules nfc_rules nfkc_rules cong: check_congs)

end
