(* ===== verification/Scanner.thy ===== *)
theory Scanner
  imports Normalizer
begin

text \<open>
  What \<open>next_invalid_char\<close> and \<open>next_valid_starter\<close> find in a text. The locale \<open>scanner\<close>
  combines a class trie with a quick-check trie over the same nodes; the lemmas hold for each of
  the four normalization forms, which differ in the quick-check trie only.
\<close>

lemma sint_ucast_u8 [simp]: "sint (ucast (k :: u8) :: u32) = uint k"
proof -
  have k: "0 \<le> uint k" "uint k < 256" using uint_lt2p [of k] by simp_all
  then have "take_bit 32 (uint k) = uint k" "signed_take_bit 31 (uint k) = uint k"
    by (simp_all add: take_bit_int_eq_self_iff signed_take_bit_int_eq_self_iff order_trans [OF _ k(1)])
  then show ?thesis
    by (simp add: sint_uint unsigned_ucast_eq)
qed

locale scanner = cls: class_trie ns rc + qc: char_trie ns rq for ns rc rq
begin

abbreviation klass :: "bytes \<Rightarrow> u8" where
  "klass \<equiv> char_class ns rc"

definition passes :: "bytes \<Rightarrow> bool" where
  "passes c \<longleftrightarrow> char_value ns rq c = None"

fun scan :: "u8 \<Rightarrow> nat \<Rightarrow> nat \<Rightarrow> bytes list \<Rightarrow> nat" where
  "scan l s p [] = p"
| "scan l s p (c # cs) =
     (if l > klass c \<and> klass c \<noteq> 0 \<or> \<not> passes c then s
      else scan (klass c) (if klass c = 0 then p else s) (p + length c) cs)"

definition set_up :: "normalizer \<Rightarrow> searcher \<Rightarrow> bool" where
  "set_up n nf \<longleftrightarrow> nodes (ccc n) = ns \<and> root (ccc n) = rc \<and> nodes nf = ns \<and> root nf = rq"

lemma next_invalid_char_loop_eq:
  assumes "set_up n nf"
  shows "list_all utf8_char cs \<Longrightarrow>
    next_invalid_char_loop n nf (pre @ concat cs) (uint l) s (length pre) =
      Some (scan l s (length pre) cs)"
proof (induction cs arbitrary: pre l s)
  case Nil
  then show ?case by (subst next_invalid_char_loop.simps) (simp add: rd_def)
next
  case (Cons c cs)
  then have c: "utf8_char c" and cs: "list_all utf8_char cs" by simp_all
  obtain b bs where b: "c = b # bs" "b \<noteq> 0" using c by (auto elim: utf8_charE)
  have nul: "0 \<notin> set (concat cs)" using text_no_nul [OF cs] .
  have k: "get_class (ccc n) (pre @ c @ concat cs) (length pre) = Some (ucast (klass c))"
    using cls.get_class_char [OF _ _ c nul] assms by (simp add: set_up_def)
  have q: "quick_check nf (pre @ c @ concat cs) (length pre) = Some (passes c)"
    using qc.quick_check_char [OF _ _ c nul] assms by (simp add: set_up_def passes_def)
  have IH: "next_invalid_char_loop n nf (pre @ c @ concat cs) (uint (klass c)) s' (length pre + length c) =
      Some (scan (klass c) s' (length pre + length c) cs)" for s'
    using Cons.IH [OF cs, of "pre @ c"] by simp
  have rd: "rd (pre @ c @ concat cs) (length pre) = Some b" by (simp add: rd_append0 b)
  have "next_invalid_char_loop n nf (pre @ c @ concat cs) (uint l) s (length pre) =
      Some (scan l s (length pre) (c # cs))"
    using IH nearest_after_char [OF c cs, of pre]
    by (subst next_invalid_char_loop.simps)
      (simp add: rd b(2) k q Let_def uint_0_iff word_less_def)
  then show ?case by simp
qed

lemma next_invalid_char_eq:
  assumes "set_up n nf" "list_all utf8_char cs"
  shows "next_invalid_char n nf (pre @ concat cs) (length pre) =
    Some (scan 0 (length pre) (length pre) cs)"
  using nearest_at_text [OF assms(2)] next_invalid_char_loop_eq [OF assms, of pre 0]
  by (simp add: next_invalid_char_def)

text \<open>
  The scan cuts the text into a part that may be copied, in which every character passes the
  quick check and the classes are in order, and a rest that starts the text or starts with a
  starter that passes.
\<close>

lemma scan_split:
  "list_all passes pend \<Longrightarrow> ordered klass pend \<Longrightarrow> l = (if pend = [] then 0 else klass (last pend)) \<Longrightarrow>
   \<exists>as bs. pend @ cs = as @ bs \<and> scan l s (s + length (concat pend)) cs = s + length (concat as) \<and>
     list_all passes as \<and> ordered klass as \<and>
     (bs = [] \<or> as = [] \<or> klass (hd bs) = 0 \<and> passes (hd bs))"
proof (induction cs arbitrary: pend l s)
  case Nil
  then show ?case by (intro exI [of _ pend] exI [of _ "[]"]) simp
next
  case (Cons c cs)
  consider (stop) "l > klass c \<and> klass c \<noteq> 0 \<or> \<not> passes c"
    | (starter) "passes c" "klass c = 0" | (mark) "passes c" "klass c \<noteq> 0" "l \<le> klass c"
    by force
  then show ?case
  proof cases
    case stop
    then show ?thesis by (intro exI [of _ "[]"] exI [of _ "pend @ c # cs"]) auto
  next
    case starter
    with Cons.IH [of "[c]" 0 "s + length (concat pend)"] obtain as bs where
      IH: "c # cs = as @ bs" "scan 0 (s + length (concat pend)) (s + length (concat pend) + length c) cs =
        s + length (concat pend) + length (concat as)"
      "list_all passes as" "ordered klass as" "bs = [] \<or> as = [] \<or> klass (hd bs) = 0 \<and> passes (hd bs)"
      by auto
    have "as = [] \<or> hd as = c" "as = [] \<longrightarrow> hd bs = c"
      using IH(1) [unfolded Cons_eq_append_conv] by auto
    then have "ordered klass (pend @ as)" "bs = [] \<or> pend @ as = [] \<or> klass (hd bs) = 0 \<and> passes (hd bs)"
      using IH(4,5) starter Cons.prems(2) by (auto intro!: ordered_append)
    moreover have "scan l s (s + length (concat pend)) (c # cs) = s + length (concat (pend @ as))"
      using IH(2) starter by simp
    moreover have "pend @ c # cs = (pend @ as) @ bs" using IH(1) by simp
    ultimately show ?thesis
      using IH(3) Cons.prems(1) by (metis list_all_append)
  next
    case mark
    have "ordered klass (pend @ [c])"
      using Cons.prems mark by (induction klass pend rule: ordered.induct) auto
    with Cons.IH [of "pend @ [c]" "klass c" s] Cons.prems mark show ?thesis
      by (simp add: add.assoc not_less [symmetric])
  qed
qed

lemma next_invalid_char_split:
  assumes "set_up n nf" "list_all utf8_char cs"
  obtains as bs where "cs = as @ bs"
    "next_invalid_char n nf (pre @ concat cs) (length pre) = Some (length (pre @ concat as))"
    "list_all passes as" "ordered klass as" "bs = [] \<or> as = [] \<or> klass (hd bs) = 0 \<and> passes (hd bs)"
proof -
  from scan_split [of "[]" 0 cs "length pre"] obtain as bs where
    "cs = as @ bs" "scan 0 (length pre) (length pre) cs = length pre + length (concat as)"
    "list_all passes as" "ordered klass as" "bs = [] \<or> as = [] \<or> klass (hd bs) = 0 \<and> passes (hd bs)"
    by auto
  with next_invalid_char_eq [OF assms, of pre] show ?thesis by (intro that) simp_all
qed

text \<open>A text that passes and is in order is scanned to its end.\<close>

lemma scan_normalized:
  "list_all passes cs \<Longrightarrow> ordered klass cs \<Longrightarrow> cs = [] \<or> klass (hd cs) = 0 \<or> l \<le> klass (hd cs) \<Longrightarrow>
   scan l s p cs = p + length (concat cs)"
proof (induction cs arbitrary: l s p)
  case (Cons c cs)
  have "ordered klass cs" "cs = [] \<or> klass (hd cs) = 0 \<or> klass c \<le> klass (hd cs)"
    using Cons.prems(2) by (cases cs; auto)+
  with Cons show ?case by (auto simp: not_less)
qed simp

lemma next_invalid_char_normalized:
  assumes "set_up n nf" "list_all utf8_char cs" "list_all passes cs" "ordered klass cs"
  shows "next_invalid_char n nf (pre @ concat cs) (length pre) = Some (length pre + length (concat cs))"
  using next_invalid_char_eq [OF assms(1,2), of pre] scan_normalized [OF assms(3,4), of 0] by simp

text \<open>\<open>next_valid_starter\<close> skips one character and then all that are no valid starters.\<close>

lemma next_valid_starter_loop_eq:
  assumes "set_up n nf"
  shows "list_all utf8_char cs \<Longrightarrow>
    next_valid_starter_loop n nf (pre @ concat cs) (length pre) =
      Some (length pre + length (concat (takeWhile (\<lambda>c. klass c \<noteq> 0 \<or> \<not> passes c) cs)))"
proof (induction cs arbitrary: pre)
  case Nil
  then show ?case
    using cls.get_class_end [of "ccc n" pre] qc.quick_check_end [of nf pre] assms
    by (subst next_valid_starter_loop.simps) (simp add: set_up_def)
next
  case (Cons c cs)
  then have c: "utf8_char c" and cs: "list_all utf8_char cs" by simp_all
  have nul: "0 \<notin> set (concat cs)" using text_no_nul [OF cs] .
  have k: "get_class (ccc n) (pre @ c @ concat cs) (length pre) = Some (ucast (klass c))"
    using cls.get_class_char [OF _ _ c nul] assms by (simp add: set_up_def)
  have q: "quick_check nf (pre @ c @ concat cs) (length pre) = Some (passes c)"
    using qc.quick_check_char [OF _ _ c nul] assms by (simp add: set_up_def passes_def)
  have IH: "next_valid_starter_loop n nf (pre @ c @ concat cs) (length pre + length c) =
      Some (length pre + length c + length (concat (takeWhile (\<lambda>c. klass c \<noteq> 0 \<or> \<not> passes c) cs)))"
    using Cons.IH [OF cs, of "pre @ c"] by simp
  have "next_valid_starter_loop n nf (pre @ c @ concat cs) (length pre) =
      Some (length pre + length (concat (takeWhile (\<lambda>c. klass c \<noteq> 0 \<or> \<not> passes c) (c # cs))))"
    using IH nearest_after_char [OF c cs, of pre]
    by (subst next_valid_starter_loop.simps) (simp add: k q)
  then show ?case by simp
qed

lemma next_valid_starter_split:
  assumes "set_up n nf" "list_all utf8_char (c # cs)"
  obtains seg rest where "cs = seg @ rest"
    "next_valid_starter n nf (pre @ concat (c # cs)) (length pre) = Some (length (pre @ concat (c # seg)))"
    "rest = [] \<or> klass (hd rest) = 0 \<and> passes (hd rest)"
proof -
  let ?P = "\<lambda>c. klass c \<noteq> 0 \<or> \<not> passes c"
  have "next_valid_starter n nf (pre @ concat (c # cs)) (length pre) =
      Some (length (pre @ concat (c # takeWhile ?P cs)))"
    using assms nearest_after_char [of c cs pre] next_valid_starter_loop_eq [OF assms(1), of cs "pre @ c"]
    by (simp add: next_valid_starter_def)
  moreover have "dropWhile ?P cs = [] \<or> klass (hd (dropWhile ?P cs)) = 0 \<and> passes (hd (dropWhile ?P cs))"
    using hd_dropWhile [of ?P cs] by blast
  ultimately show ?thesis
    by (intro that [of "takeWhile ?P cs" "dropWhile ?P cs"]) simp_all
qed

end

end
