(* ===== verification/Decomposer.thy ===== *)
theory Decomposer
  imports Scanner
begin

text \<open>
  Correctness of \<open>Normalizer::decompose\<close> (NFD and NFKD). The reference definition decomposes every
  character of the text and puts the result in canonical order, with no scanning and no copying;
  the code's incremental algorithm is shown to return, to be memory safe, and to compute it.
\<close>

section \<open>The reference definition\<close>

definition char_decomposition :: "node list \<Rightarrow> u32 \<Rightarrow> bytes \<Rightarrow> bytes \<Rightarrow> bytes list" where
  "char_decomposition ns r strs c =
     (case utf8_split (decomp_char ns r strs c) of Some ds \<Rightarrow> ds | None \<Rightarrow> [])"

definition full_decomposition :: "node list \<Rightarrow> u32 \<Rightarrow> bytes \<Rightarrow> bytes list \<Rightarrow> bytes list" where
  "full_decomposition ns r strs cs = concat (map (char_decomposition ns r strs) cs)"

definition normal_decomposition ::
    "node list \<Rightarrow> u32 \<Rightarrow> u32 \<Rightarrow> bytes \<Rightarrow> bytes list \<Rightarrow> bytes list" where
  "normal_decomposition ns rc r strs cs =
     canonical_order (char_class ns rc) (full_decomposition ns r strs cs)"

lemma full_decomposition_simps [simp]:
  "full_decomposition ns r strs [] = []"
  "full_decomposition ns r strs (c # cs) =
     char_decomposition ns r strs c @ full_decomposition ns r strs cs"
  "full_decomposition ns r strs (as @ bs) = full_decomposition ns r strs as @ full_decomposition ns r strs bs"
  by (simp_all add: full_decomposition_def)

lemma normal_decomposition_Nil [simp]: "normal_decomposition ns rc r strs [] = []"
  by (simp add: normal_decomposition_def canonical_order_def)

section \<open>The code computes it\<close>

locale decomposer = cls: class_trie ns rc + dec: decomp_trie ns dr strs for ns rc dr strs

sublocale decomposer \<subseteq> scanner ns rc dr
  by unfold_locales

context decomposer
begin

abbreviation spec :: "bytes list \<Rightarrow> bytes list" where
  "spec \<equiv> normal_decomposition ns rc dr strs"

lemma char_decomposition_text:
  assumes "utf8_char c"
  shows "list_all utf8_char (char_decomposition ns dr strs c)"
    and "concat (char_decomposition ns dr strs c) = dec.decomp c"
    and "char_decomposition ns dr strs c \<noteq> []"
proof -
  have "\<exists>ds. ds \<noteq> [] \<and> utf8_split (dec.decomp c) = Some ds"
    using dec.word_text [OF assms] utf8_split_concat [of "[c]"] assms
    by (cases "char_value ns dr c") (auto simp: decomp_char_def)
  then obtain ds where ds: "ds \<noteq> []" "utf8_split (dec.decomp c) = Some ds" by blast
  with utf8_split_SomeD [OF ds(2)] show "list_all utf8_char (char_decomposition ns dr strs c)"
    "concat (char_decomposition ns dr strs c) = dec.decomp c" "char_decomposition ns dr strs c \<noteq> []"
    by (simp_all add: char_decomposition_def)
qed

lemma full_decomposition_text:
  assumes "list_all utf8_char cs"
  shows "list_all utf8_char (full_decomposition ns dr strs cs)"
    and "concat (full_decomposition ns dr strs cs) = concat (map dec.decomp cs)"
    and "cs \<noteq> [] \<Longrightarrow> full_decomposition ns dr strs cs \<noteq> []"
  using assms by (induction cs) (auto simp: char_decomposition_text)

lemma char_decomposition_passes:
  assumes "utf8_char c" "passes c"
  shows "char_decomposition ns dr strs c = [c]"
  using assms utf8_split_concat [of "[c]"]
  by (simp add: char_decomposition_def decomp_char_def passes_def)

lemma full_decomposition_passes:
  "list_all utf8_char cs \<Longrightarrow> list_all passes cs \<Longrightarrow> full_decomposition ns dr strs cs = cs"
  by (induction cs) (simp_all add: char_decomposition_passes)

text \<open>The reference definition cut at a starter that passes, and on a part that may be copied.\<close>

lemma spec_append:
  assumes "list_all utf8_char bs" "bs = [] \<or> as = [] \<or> klass (hd bs) = 0 \<and> passes (hd bs)"
  shows "spec (as @ bs) = spec as @ spec bs"
proof (cases "bs = [] \<or> as = []")
  case False
  then obtain b cs where bs: "bs = b # cs" by (cases bs) auto
  with assms False have "full_decomposition ns dr strs bs = b # full_decomposition ns dr strs cs"
    by (simp add: char_decomposition_passes)
  with assms False bs show ?thesis
    by (simp add: normal_decomposition_def canonical_order_append)
qed auto

lemma spec_copied:
  "list_all utf8_char as \<Longrightarrow> list_all passes as \<Longrightarrow> ordered klass as \<Longrightarrow> spec as = as"
  by (simp add: normal_decomposition_def full_decomposition_passes canonical_order_id)

lemma decompose_one_eq:
  assumes up: "set_up n nf" "value_ptr nf = Some strs"
    and seg: "list_all utf8_char (c # seg)" and post: "list_all utf8_char post"
    and small: "length (buf @ concat (spec (c # seg))) < 2 ^ 32"
  shows "decompose_one n (pre @ concat (c # seg) @ concat post) (length pre)
      (length pre + length (concat (c # seg))) nf buf =
    Some (n\<lparr>canonical_classes := class_bytes klass (spec (c # seg)) @ [0]\<rparr>, buf @ concat (spec (c # seg)))"
proof -
  let ?ds = "full_decomposition ns dr strs (c # seg)"
  have nf: "nodes nf = ns" "root nf = dr" and cc: "nodes (ccc n) = ns" "root (ccc n) = rc"
    using up by (simp_all add: set_up_def)
  have dec: "decompose nf (RangeCharStream (pre @ concat (c # seg) @ concat post) (length pre)
      (length pre + length (concat (c # seg)))) buf = Some (buf @ concat ?ds)"
    using dec.decompose_eq [OF nf up(2) post seg] full_decomposition_text(2) [OF seg] by simp
  have len: "length (concat ?ds) = length (concat (spec (c # seg)))"
    by (simp add: normal_decomposition_def length_concat_canonical_order)
  have last: "unat (of_nat (length buf) :: u32) = length buf" using small by (simp add: unat_of_nat take_bit_nat_eq_self_iff)
  have "ccc_sort (ccc n) (buf @ concat ?ds) (length buf) (replicate (Suc (length (concat ?ds))) 0) =
      Some (buf @ concat (spec (c # seg)), class_bytes klass (spec (c # seg)) @ [0])"
    unfolding normal_decomposition_def
    by (rule cls.ccc_sort_eq [OF cc]) (use full_decomposition_text [OF seg] len small in auto)
  then show ?thesis
    by (simp only: decompose_one_def canonical_combining_class_ordering_def dec Let_def last)
      (simp add: Let_def del: full_decomposition_simps replicate_Suc)
qed

lemma norm_decompose_loop_eq:
  "set_up n nf \<Longrightarrow> value_ptr nf = Some strs \<Longrightarrow> list_all utf8_char cs \<Longrightarrow> cs \<noteq> [] \<Longrightarrow>
   length (buffer n @ concat (spec cs)) < 2 ^ 32 \<Longrightarrow>
   \<exists>kl. norm_decompose_loop n nf (pre @ concat cs) (length pre) =
     Some (n\<lparr>buffer := buffer n @ concat (spec cs), canonical_classes := kl\<rparr>)"
proof (induction "length cs" arbitrary: cs n pre rule: less_induct)
  case less
  obtain c ds where cs: "cs = c # ds" using less.prems(4) by (cases cs) auto
  obtain seg rest where split: "ds = seg @ rest"
    and valid: "next_valid_starter n nf (pre @ concat (c # ds)) (length pre) =
      Some (length (pre @ concat (c # seg)))"
    and rest: "rest = [] \<or> klass (hd rest) = 0 \<and> passes (hd rest)"
    using next_valid_starter_split [OF less.prems(1), of c ds pre] less.prems(3) cs by blast
  have texts: "list_all utf8_char (c # seg)" "list_all utf8_char rest"
    using less.prems(3) cs split by auto
  define n1 where "n1 = n\<lparr>canonical_classes := class_bytes klass (spec (c # seg)) @ [0],
    buffer := buffer n @ concat (spec (c # seg))\<rparr>"
  have up1: "set_up n1 nf" using less.prems(1) by (simp add: n1_def set_up_def)
  obtain as bs where ab: "rest = as @ bs"
    and inv: "next_invalid_char n1 nf ((pre @ concat (c # seg)) @ concat rest) (length (pre @ concat (c # seg))) =
      Some (length ((pre @ concat (c # seg)) @ concat as))"
    and as: "list_all passes as" "ordered klass as"
    and bs: "bs = [] \<or> as = [] \<or> klass (hd bs) = 0 \<and> passes (hd bs)"
    using next_invalid_char_split [OF up1 texts(2)] by blast
  define str where "str = pre @ concat cs"
  define e where "e = length (pre @ concat (c # seg))"
  define q where "q = length ((pre @ concat (c # seg)) @ concat as)"
  define n2 where "n2 = n1\<lparr>buffer := buffer n1 @ concat as\<rparr>"
  have valid': "next_valid_starter n nf str (length pre) = Some e"
    using valid by (simp add: str_def cs e_def)
  have inv': "next_invalid_char n1 nf str e = Some q"
    using inv by (simp add: str_def cs split e_def q_def)
  have spec: "spec cs = spec (c # seg) @ as @ spec bs"
    using spec_append [OF texts(2), of "c # seg"] rest spec_append [of bs as] bs texts(2)
      spec_copied [OF _ as] by (simp add: cs split ab)
  have "length (buffer n @ concat (spec (c # seg))) < 2 ^ 32" using less.prems(5) by (simp add: spec)
  from decompose_one_eq [OF less.prems(1,2) texts this, of pre]
  have one: "decompose_one n str (length pre) e nf (buffer n) =
      Some (n\<lparr>canonical_classes := class_bytes klass (spec (c # seg)) @ [0]\<rparr>, buffer n1)"
    by (simp add: str_def cs split n1_def e_def)
  have n1: "n\<lparr>canonical_classes := class_bytes klass (spec (c # seg)) @ [0], buffer := buffer n1\<rparr> = n1"
    by (simp add: n1_def)
  have n2: "n\<lparr>canonical_classes := class_bytes klass (spec (c # seg)) @ [0],
      buffer := buffer n1 @ concat as\<rparr> = n2"
    by (simp add: n1_def n2_def)
  have sl: "slice str e q = Some (concat as)"
    by (simp add: str_def cs split ab slice_def e_def q_def)
  have loop: "norm_decompose_loop n nf str (length pre) =
      do { b \<leftarrow> rd str q; if b \<noteq> 0 then norm_decompose_loop n2 nf str q else Some n2 }"
    by (subst norm_decompose_loop.simps)
      (simp add: valid' inv' one n1 sl n2 Let_def cong: if_cong)
  show ?case
  proof (cases "bs = []")
    case True
    then have "rd str q = Some 0" by (simp add: str_def cs split ab rd_def q_def)
    with True have "norm_decompose_loop n nf str (length pre) =
        Some (n\<lparr>buffer := buffer n @ concat (spec cs), canonical_classes := canonical_classes n2\<rparr>)"
      using loop spec by (simp add: n2_def n1_def)
    then show ?thesis by (auto simp: str_def)
  next
    case False
    have b0: "\<exists>b. rd str q = Some b \<and> b \<noteq> 0"
      using texts(2) ab False
      by (cases bs) (auto elim!: utf8_charE simp: str_def cs split rd_def nth_append q_def)
    have up2: "set_up n2 nf" using up1 by (simp add: n2_def set_up_def)
    have bs': "length bs < length cs" "list_all utf8_char bs" using cs split ab texts(2) by auto
    have "length (buffer n2 @ concat (spec bs)) < 2 ^ 32" using less.prems(5) by (simp add: n2_def n1_def spec)
    from less.hyps [OF bs'(1) up2 less.prems(2) bs'(2) False this, of "(pre @ concat (c # seg)) @ concat as"]
    obtain kl where "norm_decompose_loop n2 nf str q =
        Some (n2\<lparr>buffer := buffer n2 @ concat (spec bs), canonical_classes := kl\<rparr>)"
      unfolding q_def str_def cs split ab by (metis append_assoc concat_append append_Cons)
    then have "norm_decompose_loop n nf str (length pre) =
        Some (n\<lparr>buffer := buffer n @ concat (spec cs), canonical_classes := kl\<rparr>)"
      using loop b0 spec by (auto simp: n2_def n1_def)
    then show ?thesis by (auto simp: str_def)
  qed
qed

text \<open>
  The result of \<open>norm_decompose\<close>: the source itself, if it is in normal form already, and the
  buffer otherwise. No other member changes.
\<close>

lemma norm_decompose_eq:
  assumes "set_up n nf" "value_ptr nf = Some strs" "list_all utf8_char cs" "length (concat (spec cs)) < 2 ^ 32"
  shows "\<exists>res n'. norm_decompose n (concat cs) 0 nf = Some (res, n') \<and>
    result_text (concat cs) (res, n') = concat (spec cs) \<and>
    n\<lparr>buffer := buffer n', canonical_classes := canonical_classes n'\<rparr> = n'"
proof -
  obtain as bs where ab: "cs = as @ bs"
    and inv: "next_invalid_char n nf ([] @ concat cs) (length ([] :: bytes)) = Some (length ([] @ concat as))"
    and as: "list_all passes as" "ordered klass as"
    and bs: "bs = [] \<or> as = [] \<or> klass (hd bs) = 0 \<and> passes (hd bs)"
    by (rule next_invalid_char_split [OF assms(1,3), of "[]"])
  have spec: "spec cs = as @ spec bs"
    using spec_append [of bs as] spec_copied [OF _ as] bs assms(3) by (simp add: ab)
  show ?thesis
  proof (cases "bs = []")
    case True
    then show ?thesis
      using inv spec ab by (auto simp: norm_decompose_def rd_def result_text_def)
  next
    case False
    have b0: "\<exists>b. rd (concat cs) (length (concat as)) = Some b \<and> b \<noteq> 0"
      using assms(3) ab False by (cases bs) (auto elim!: utf8_charE simp: rd_def nth_append)
    have "set_up (n\<lparr>buffer := concat as\<rparr>) nf" using assms(1) by (simp add: set_up_def)
    from norm_decompose_loop_eq [OF this assms(2) _ False, of "concat as"] assms(3,4) spec ab
    obtain kl where "norm_decompose_loop (n\<lparr>buffer := concat as\<rparr>) nf (concat as @ concat bs) (length (concat as)) =
        Some (n\<lparr>buffer := concat as, buffer := buffer (n\<lparr>buffer := concat as\<rparr>) @ concat (spec bs),
          canonical_classes := kl\<rparr>)"
      by auto
    then have loop: "norm_decompose_loop (n\<lparr>buffer := concat as\<rparr>) nf (concat cs) (length (concat as)) =
        Some (n\<lparr>buffer := concat (spec cs), canonical_classes := kl\<rparr>)"
      using spec by (simp add: ab)
    have "slice (concat cs) 0 (length (concat as)) = Some (concat as)"
      by (simp add: ab slice_def)
    with inv b0 loop have "norm_decompose n (concat cs) 0 nf =
        Some (Buffer_c_str, n\<lparr>buffer := concat (spec cs), canonical_classes := kl\<rparr>)"
      by (auto simp: norm_decompose_def)
    then show ?thesis by (simp add: result_text_def)
  qed
qed

end

end
