(* ===== verification/Compound_Stream.thy ===== *)
theory Compound_Stream
  imports Decomposer
begin

text \<open>
  The compound stream of \<open>unf/trie/char_stream.hh\<close> seen as one text. A stream made from two texts is
  in a place \<open>i\<close> of the text that the two make together (\<open>stream_at\<close>); the lemmas say what each member
  function does there. The text and the classes that composition uses are kept in the record \<open>texts\<close>.
\<close>

section \<open>Places in two texts\<close>

record texts =
  text1 :: bytes
  text2 :: bytes
  start2 :: nat
  class_list :: "u8 list"

definition joined :: "texts \<Rightarrow> bytes" where
  "joined T = text1 T @ drop (start2 T) (text2 T)"

definition ptr_at :: "texts \<Rightarrow> nat \<Rightarrow> ptr" where
  "ptr_at T i =
     (if i < length (text1 T) then First i else Second (start2 T + (i - length (text1 T))))"

definition stream_at ::
    "texts \<Rightarrow> nat \<Rightarrow> bytes \<Rightarrow> nat option \<Rightarrow> ptr option \<Rightarrow> char_stream_for_composition" where
  "stream_at T i sk tail mark =
     \<lparr>str1 = text1 T, str2 = text2 T, beg1 = First 0, beg2 = Second (start2 T),
      cur1 = First (min i (length (text1 T))), cur2 = Second (start2 T + (i - length (text1 T))),
      classes = class_list T, skipped = sk, skipped_tail = tail, marked_point = mark\<rparr>"

text \<open>
  Texts that \<open>compose_one\<close> makes a stream of: no NUL in them, together shorter than \<open>2 ^ 32\<close>, and a
  class for every byte of the first one and the NUL behind it.
\<close>

definition texts_ok :: "texts \<Rightarrow> bool" where
  "texts_ok T \<longleftrightarrow> 0 \<notin> set (text1 T) \<and> 0 \<notin> set (text2 T) \<and> start2 T \<le> length (text2 T) \<and>
     length (joined T) < 2 ^ 32 \<and> length (class_list T) = Suc (length (text1 T)) \<and>
     last (class_list T) = 0"

lemma length_joined: "length (joined T) = length (text1 T) + (length (text2 T) - start2 T)"
  by (simp add: joined_def)

lemma joined_not_0: "texts_ok T \<Longrightarrow> i < length (joined T) \<Longrightarrow> joined T ! i \<noteq> 0"
  using nth_mem [of i "joined T"] by (auto simp: texts_ok_def joined_def dest: in_set_dropD)

lemma text1_joined: "length (text1 T) \<le> length (joined T)"
  by (simp add: length_joined)

section \<open>What the members do at a place\<close>

lemma deref_at:
  "deref (stream_at T i sk t m) (cur1 (stream_at T i sk t m)) =
    Some (if i < length (text1 T) then joined T ! i else 0)"
  by (simp add: stream_at_def rd_def joined_def nth_append)

lemma deref_at2:
  "texts_ok T \<Longrightarrow> length (text1 T) \<le> i \<Longrightarrow> i \<le> length (joined T) \<Longrightarrow>
    deref (stream_at T i sk t m) (cur2 (stream_at T i sk t m)) =
      Some (if i < length (joined T) then joined T ! i else 0)"
  by (auto simp: stream_at_def rd_def joined_def nth_append texts_ok_def)

lemma eos1_at:
  "texts_ok T \<Longrightarrow> i \<le> length (joined T) \<Longrightarrow> eos1 (stream_at T i sk t m) = Some (length (text1 T) \<le> i)"
  using joined_not_0 [of T i] by (auto simp: eos1_def deref_at length_joined)

lemma eos2_at:
  "texts_ok T \<Longrightarrow> length (text1 T) \<le> i \<Longrightarrow> i \<le> length (joined T) \<Longrightarrow>
    eos2 (stream_at T i sk t m) = Some (i = length (joined T))"
  using joined_not_0 [of T i] by (auto simp: eos2_def deref_at2)

lemma peek_at:
  "texts_ok T \<Longrightarrow> i \<le> length (joined T) \<Longrightarrow>
    ccs_peek (stream_at T i sk t m) = Some (if i < length (joined T) then joined T ! i else 0)"
  by (auto simp: ccs_peek_def eos1_at deref_at deref_at2 length_joined)

lemma cur_Suc:
  "i < length (text1 T) \<Longrightarrow>
    (stream_at T i sk t m)\<lparr>cur1 := ptr_succ (cur1 (stream_at T i sk t m))\<rparr> = stream_at T (Suc i) sk t m"
  "length (text1 T) \<le> i \<Longrightarrow>
    (stream_at T i sk t m)\<lparr>cur2 := ptr_succ (cur2 (stream_at T i sk t m))\<rparr> = stream_at T (Suc i) sk t m"
  by (simp_all add: stream_at_def Suc_diff_le)

lemma read_at:
  "texts_ok T \<Longrightarrow> i \<le> length (joined T) \<Longrightarrow>
    ccs_read (stream_at T i sk t m) =
      Some (if i < length (joined T) then (joined T ! i, stream_at T (Suc i) sk t m)
        else (0, stream_at T i sk t m))"
  by (cases "i < length (text1 T)")
    (auto simp: ccs_read_def read1_def read2_def eos1_at eos2_at deref_at deref_at2 cur_Suc length_joined)

lemma eos_at:
  "texts_ok T \<Longrightarrow> i \<le> length (joined T) \<Longrightarrow> ccs_eos (stream_at T i sk t m) = Some (i = length (joined T))"
  by (auto simp: ccs_eos_def eos1_at eos2_at length_joined)

lemma within_first_at:
  "texts_ok T \<Longrightarrow> i \<le> length (joined T) \<Longrightarrow>
    within_first (stream_at T i sk t m) = Some (i < length (text1 T))"
  by (auto simp: within_first_def eos1_at)

lemma cur_at:
  "texts_ok T \<Longrightarrow> i \<le> length (joined T) \<Longrightarrow> ccs_cur (stream_at T i sk t m) = Some (ptr_at T i)"
  by (simp add: ccs_cur_def eos1_at) (simp add: stream_at_def ptr_at_def)

lemma offset_at:
  "texts_ok T \<Longrightarrow> i \<le> length (joined T) \<Longrightarrow> offset (stream_at T i sk t m) = Some (int i)"
  by (auto simp: offset_def stream_at_def texts_ok_def)

lemma classes_at: "classes (stream_at T i sk t m) = class_list T"
  by (simp add: stream_at_def)

lemma class_at:
  assumes "texts_ok T" "i \<le> length (joined T)"
  shows "\<exists>k. get_canonical_class (stream_at T i sk t m) = Some k \<and> (k \<noteq> 0 \<longrightarrow> i < length (text1 T))"
proof -
  have l: "length (class_list T) = Suc (length (text1 T))" "last (class_list T) = 0"
    using assms(1) by (simp_all add: texts_ok_def)
  then have "class_list T ! length (text1 T) = 0" using last_conv_nth [of "class_list T"] by fastforce
  moreover have "get_canonical_class (stream_at T i sk t m) =
      Some (if i < Suc (length (text1 T)) then class_list T ! i else 0)"
    using l by (simp add: get_canonical_class_def offset_at [OF assms] classes_at)
  ultimately show ?thesis by (auto simp: less_Suc_eq)
qed

lemma prev_class_at:
  "texts_ok T \<Longrightarrow> i \<le> length (joined T) \<Longrightarrow> \<exists>k. get_prev_canonical_class (stream_at T i sk t m) = Some k"
  by (simp add: get_prev_canonical_class_def offset_at Let_def)

lemma mark_at:
  "texts_ok T \<Longrightarrow> i \<le> length (joined T) \<Longrightarrow>
    mark_as_last_valid_point (stream_at T i sk t m) =
      Some (stream_at T i sk (Some (length sk)) (Some (ptr_at T i)))"
  by (simp add: mark_as_last_valid_point_def cur_at) (simp add: stream_at_def)

lemma setCur_at: "j \<le> i \<Longrightarrow> ccs_setCur (stream_at T i sk t m) (ptr_at T j) = stream_at T j sk t m"
  by (auto simp: ccs_setCur_def stream_at_def ptr_at_def)

lemma marked_at: "marked_point (stream_at T i sk t m) = m"
  by (simp add: stream_at_def)

lemma reset_at:
  "j \<le> i \<Longrightarrow> reset_at_marked_point (stream_at T i sk t (Some (ptr_at T j))) =
    Some (stream_at T j sk t (Some (ptr_at T j)))"
  by (simp add: reset_at_marked_point_def marked_at setCur_at)

lemma slice_at:
  "h \<le> i \<Longrightarrow> i < length (text1 T) \<Longrightarrow>
    \<exists>xs. ptr_slice (stream_at T i sk t m) (ptr_at T h) (ptr_at T i) = Some xs"
  by (simp add: ptr_at_def stream_at_def slice_def)

lemma skipped_at: "skipped (stream_at T i sk t m) = sk"
  by (simp add: stream_at_def)

lemma skip_at: "(stream_at T i sk t m)\<lparr>skipped := sk'\<rparr> = stream_at T i sk' t m"
  by (simp add: stream_at_def)

lemma init_at: "init_skipinfo (stream_at T i sk t m) = stream_at T i [] (Some 0) m"
  by (simp add: init_skipinfo_def stream_at_def)

lemmas at_simps = eos1_at peek_at read_at eos_at within_first_at cur_at mark_at setCur_at reset_at
  skipped_at skip_at init_at

section \<open>Loops over the stream\<close>

text \<open>The loop to the next start byte ends, at the NUL behind the texts at the latest.\<close>

lemma eat_at:
  assumes "texts_ok T" "i \<le> length (joined T)"
  shows "\<exists>j. i \<le> j \<and> j \<le> length (joined T) \<and>
    eat_until_utf8_char_start_point ccs_peek ccs_read (stream_at T i sk t m) = Some (stream_at T j sk t m)"
  using assms(2)
proof (induction "length (joined T) - i" arbitrary: i)
  case 0
  then show ?case
    by (intro exI [of _ i], subst eat_until_utf8_char_start_point.simps) (simp add: at_simps assms(1))
next
  case (Suc n)
  then have i: "i < length (joined T)" by simp
  have "\<exists>j. Suc i \<le> j \<and> j \<le> length (joined T) \<and>
      eat_until_utf8_char_start_point ccs_peek ccs_read (stream_at T (Suc i) sk t m) = Some (stream_at T j sk t m)"
    by (rule Suc.hyps(1)) (use Suc.hyps(2) i in auto)
  then obtain j where j: "Suc i \<le> j" "j \<le> length (joined T)"
    "eat_until_utf8_char_start_point ccs_peek ccs_read (stream_at T (Suc i) sk t m) = Some (stream_at T j sk t m)"
    by blast
  show ?case
  proof (cases "is_utf8_char_start_byte (joined T ! i)")
    case True
    then show ?thesis
      using i by (intro exI [of _ i], subst eat_until_utf8_char_start_point.simps) (simp add: at_simps assms(1))
  next
    case False
    then show ?thesis
      using i j by (intro exI [of _ j], subst eat_until_utf8_char_start_point.simps) (simp add: at_simps assms(1))
  qed
qed

text \<open>
  The search for the next combining character ends. It says yes only inside the first text, and it
  never moves back.
\<close>

lemma next_combining_char_at:
  assumes "texts_ok T" "h \<le> i" "i \<le> length (joined T)"
  shows "\<exists>b j sk'. next_combining_char (stream_at T i sk t m) k (ptr_at T h) = Some (b, stream_at T j sk' t m) \<and>
    i \<le> j \<and> j \<le> length (joined T) \<and> (b \<longrightarrow> j < length (text1 T)) \<and> length sk \<le> length sk'"
  using assms(2,3)
proof (induction "length (joined T) - i" arbitrary: i rule: less_induct)
  case less
  obtain j where j: "i \<le> j" "j \<le> length (joined T)"
    and eat: "eat_until_utf8_char_start_point ccs_peek ccs_read (stream_at T i sk t m) = Some (stream_at T j sk t m)"
    using eat_at [OF assms(1) less.prems(2)] by blast
  obtain mid where mid: "get_prev_canonical_class (stream_at T j sk t m) = Some mid"
    using prev_class_at [OF assms(1) j(2)] by blast
  obtain c where c: "get_canonical_class (stream_at T j sk t m) = Some c" "c \<noteq> 0 \<longrightarrow> j < length (text1 T)"
    using class_at [OF assms(1) j(2)] by blast
  note unf = next_combining_char.simps [of "stream_at T i sk t m"]
  consider (stop) "k = 0 \<and> mid = 0 \<and> c \<noteq> 0" | (found) "\<not> (k = 0 \<and> mid = 0 \<and> c \<noteq> 0)" "k < c" "mid < c"
    | (more) "\<not> (k = 0 \<and> mid = 0)" "\<not> (k < c \<and> mid < c)" "c \<noteq> 0"
    | (no) "\<not> (k < c \<and> mid < c)" "c = 0"
    by blast
  then show ?case
  proof cases
    case stop
    then show ?thesis using j by (subst unf) (auto simp: eat mid c)
  next
    case found
    then have l: "j < length (text1 T)" using c(2) by (metis word_not_simps(1))
    then obtain xs where xs: "ptr_slice (stream_at T j sk t m) (ptr_at T h) (ptr_at T j) = Some xs"
      using slice_at [of h j T sk t m] less.prems(1) j(1) by auto
    have "next_combining_char (stream_at T i sk t m) k (ptr_at T h) = Some (True, stream_at T j (sk @ xs) t m)"
      by (subst unf) (simp only: eat mid c(1) xs bind.bind_lunit found if_False if_True
          cur_at [OF assms(1) j(2)] skipped_at skip_at HOL.simp_thms)
    then show ?thesis using j l by (intro exI conjI) (assumption | simp)+
  next
    case more
    then have l: "j < length (text1 T)" "j < length (joined T)" using c(2) by (simp_all add: length_joined)
    have "\<exists>b j' sk'. next_combining_char (stream_at T (Suc j) sk t m) k (ptr_at T h) =
        Some (b, stream_at T j' sk' t m) \<and> Suc j \<le> j' \<and> j' \<le> length (joined T) \<and>
        (b \<longrightarrow> j' < length (text1 T)) \<and> length sk \<le> length sk'"
      by (rule less.hyps) (use less.prems(1) j l(2) in auto)
    then obtain b j' sk' where r:
      "next_combining_char (stream_at T (Suc j) sk t m) k (ptr_at T h) = Some (b, stream_at T j' sk' t m)"
      "Suc j \<le> j'" "j' \<le> length (joined T)" "b \<longrightarrow> j' < length (text1 T)" "length sk \<le> length sk'"
      by blast
    have "next_combining_char (stream_at T i sk t m) k (ptr_at T h) =
        next_combining_char (stream_at T (Suc j) sk t m) k (ptr_at T h)"
      by (subst unf) (simp only: eat mid c(1) bind.bind_lunit more HOL.simp_thms if_False if_True
          read_at [OF assms(1) j(2)] l(2) snd_conv)
    then show ?thesis
      by (intro exI [of _ b] exI [of _ j'] exI [of _ sk']) (use r j in auto)
  next
    case no
    then show ?thesis using j by (subst unf) (auto simp: eat mid c)
  qed
qed

end
