(* ===== verification/Composer.thy ===== *)
theory Composer
  imports Compound_Stream
begin

text \<open>
  \<open>NormalizationForm::compose\<close> and \<open>Normalizer::compose\<close> (NFC and NFKC): on every text composition
  returns and stays inside its objects. The interface \<open>comp_trie\<close> says what it needs of its trie.
\<close>

section \<open>The trie\<close>

definition word_fits :: "bytes \<Rightarrow> u32 \<Rightarrow> bool" where
  "word_fits strs v \<longleftrightarrow> word_pos v + word_len v \<le> length strs"

locale comp_trie = trie_nodes +
  fixes strs :: bytes
  assumes word_in: "n \<in> set ns \<Longrightarrow> check_char n = 0 \<Longrightarrow> word_fits strs (value_of n)"
    and no_cont: "cont_byte b \<Longrightarrow> check_char (ns ! unat (jump (ns ! unat r) b)) \<noteq> ucast b"

section \<open>One character\<close>

text \<open>
  What holds of the local variables between two steps: \<open>compose\<close> has started in place \<open>p\<close> and the
  stream is in place \<open>k\<close>. The marked point lies between the two if a word has been found.
\<close>

definition composed_to :: "texts \<Rightarrow> bytes \<Rightarrow> nat \<Rightarrow> nat \<Rightarrow> compose_state \<Rightarrow> bool" where
  "composed_to T strs p k st \<longleftrightarrow> k \<le> length (joined T) \<and>
     (\<exists>sk n m. comp_in st = stream_at T k sk (Some n) m \<and> n \<le> length sk \<and>
       (composed_char_info st = 0 \<or>
         word_fits strs (composed_char_info st) \<and> (\<exists>j. m = Some (ptr_at T j) \<and> p < j \<and> j \<le> k)))"

definition node_inv :: "texts \<Rightarrow> node list \<Rightarrow> nat \<Rightarrow> compose_state \<Rightarrow> bool" where
  "node_inv T ns k st \<longleftrightarrow> (\<exists>h \<le> k. current_char_head st = ptr_at T h) \<and>
     inner_node ns (node_index st) \<and> inner_node ns (retry_root_node st) \<and>
     (k = length (joined T) \<longrightarrow> check_char (ns ! unat (jump (ns ! unat (node_index st)) 0)) \<noteq> 0)"

lemma composed_toI:
  "comp_in st = stream_at T k sk (Some n) m \<Longrightarrow> n \<le> length sk \<Longrightarrow> k \<le> length (joined T) \<Longrightarrow>
   composed_char_info st = 0 \<or>
     word_fits strs (composed_char_info st) \<and> (\<exists>j. m = Some (ptr_at T j) \<and> p < j \<and> j \<le> k) \<Longrightarrow>
   composed_to T strs p k st"
  unfolding composed_to_def by blast

lemma node_invI:
  "current_char_head st = ptr_at T h \<Longrightarrow> h \<le> k \<Longrightarrow> inner_node ns (node_index st) \<Longrightarrow>
   inner_node ns (retry_root_node st) \<Longrightarrow>
   (k = length (joined T) \<Longrightarrow> check_char (ns ! unat (jump (ns ! unat (node_index st)) 0)) \<noteq> 0) \<Longrightarrow>
   node_inv T ns k st"
  unfolding node_inv_def by blast

context comp_trie
begin

lemma compose_head_ok:
  assumes "texts_ok T" "composed_to T strs p k st" "node_inv T ns k st"
  shows "\<exists>st'. compose_head nf st = Some st' \<and> composed_to T strs p k st' \<and> node_inv T ns k st'"
proof -
  obtain sk n m where s: "comp_in st = stream_at T k sk (Some n) m" and k: "k \<le> length (joined T)"
    using assms(2) by (auto simp: composed_to_def)
  obtain c where c: "get_canonical_class (stream_at T k sk (Some n) m) = Some c"
    using class_at [OF assms(1) k] by blast
  obtain b where peek: "ccs_peek (stream_at T k sk (Some n) m) = Some b"
    using peek_at [OF assms(1) k] by blast
  define st' where "st' = (if node_index st \<noteq> root nf then st\<lparr>first := False\<rparr> else st)
    \<lparr>current_char_head := ptr_at T k, retry_root_node := node_index st, retry_root_class := c\<rparr>"
  have "composed_to T strs p k st'" "node_inv T ns k st'"
    using assms(2,3) by (auto simp: composed_to_def node_inv_def st'_def)
  moreover have "compose_head nf st = Some st \<or> compose_head nf st = Some st'"
    using s c by (simp add: compose_head_def peek cur_at [OF assms(1) k] st'_def Let_def)
  ultimately show ?thesis using assms(2,3) by blast
qed

text \<open>A step from \<open>retry\<close> on moves the stream by a byte or more, or ends the loop.\<close>

lemma compose_retry_ok:
  assumes nf: "nodes nf = ns"
    and T: "texts_ok T" and to: "composed_to T strs p k st" and inv: "node_inv T ns k st"
    and p: "p \<le> k" "p < length (joined T)"
  shows "\<exists>nx st' k'. compose_retry nf st = Some (nx, st') \<and> composed_to T strs p k' st' \<and> p < k' \<and>
    (nx \<noteq> Break \<longrightarrow> k < k' \<and> node_inv T ns k' st')"
proof -
  obtain sk n m where s: "comp_in st = stream_at T k sk (Some n) m" and n: "n \<le> length sk"
    and k: "k \<le> length (joined T)"
    and found: "composed_char_info st = 0 \<or>
      word_fits strs (composed_char_info st) \<and> (\<exists>j. m = Some (ptr_at T j) \<and> p < j \<and> j \<le> k)"
    using to by (auto simp: composed_to_def)
  obtain h where h: "current_char_head st = ptr_at T h" "h \<le> k" using inv by (auto simp: node_inv_def)
  have inner: "inner_node ns (node_index st)" "inner_node ns (retry_root_node st)"
    using inv by (simp_all add: node_inv_def)
  define b where "b = (if k < length (joined T) then joined T ! k else 0)"
  define k1 where "k1 = (if k < length (joined T) then Suc k else k)"
  have peek: "ccs_peek (comp_in st) = Some b" using peek_at [OF T k] by (simp add: s b_def)
  have read: "ccs_read (comp_in st) = Some (b, stream_at T k1 sk (Some n) m)"
    using read_at [OF T k] by (simp add: s b_def k1_def)
  have k1: "k \<le> k1" "p < k1" "k1 \<le> length (joined T)" using k p by (auto simp: k1_def)
  define nx where "nx = jump (ns ! unat (node_index st)) b"
  define st1 where "st1 = st\<lparr>comp_in := stream_at T k1 sk (Some n) m\<rparr>"
  have nx: "unat nx < length ns" using jump_less [OF inner(1)] by (simp add: nx_def)
  have at: "node_at nf (node_index st) = Some (ns ! unat (node_index st))" "node_at nf nx = Some (ns ! unat nx)"
    using node_at_inner [OF nf inner(1)] node_at_jump [OF nf inner(1)] by (simp_all add: nx_def)
  show ?thesis
  proof (cases "check_char (ns ! unat nx) = ucast b")
    case True
    have lt: "k < length (joined T)"
    proof (rule ccontr)
      assume "\<not> k < length (joined T)"
      then have "k = length (joined T)" "b = 0" using k by (simp_all add: b_def)
      with inv True show False by (simp add: node_inv_def nx_def)
    qed
    then have b: "b \<noteq> 0" "k1 = Suc k" using joined_not_0 [OF T] by (simp_all add: b_def k1_def)
    have inx: "inner_node ns nx" using inner_jump [OF inner(1), of b] True b(1) by (simp add: nx_def)
    define t where "t = ns ! unat (jump (ns ! unat nx) 0)"
    have t: "node_at nf (jump (ns ! unat nx) 0) = Some t" "t \<in> set ns"
      using node_at_jump [OF nf inx] jump_less [OF inx] by (simp_all add: t_def)
    define st2 where "st2 = st1\<lparr>node_index := nx\<rparr>"
    define st3 where "st3 = st2\<lparr>composed_char_info := value_of t,
      comp_in := stream_at T k1 sk (Some (length sk)) (Some (ptr_at T k1))\<rparr>"
    obtain c where c: "get_canonical_class (stream_at T k1 sk (Some (length sk)) (Some (ptr_at T k1))) = Some c"
      using class_at [OF T k1(3)] by blast
    have to2: "composed_to T strs p k1 st2"
      by (rule composed_toI [of _ _ _ sk n m]) (use k1 n found b(2) in \<open>auto simp: st2_def st1_def\<close>)
    have to3: "composed_to T strs p k1 st3" if "check_char t = 0"
      by (rule composed_toI [of _ _ _ sk "length sk" "Some (ptr_at T k1)"])
        (use k1 word_in [OF t(2) that] in \<open>auto simp: st3_def\<close>)
    have inv2: "node_inv T ns k1 st2" if "check_char t \<noteq> 0 \<or> k1 \<noteq> length (joined T)"
      by (rule node_invI [of _ _ h]) (use h k1 inner(2) inx that in \<open>auto simp: st2_def st1_def t_def\<close>)
    have inv3: "node_inv T ns k1 st3" if "k1 \<noteq> length (joined T)"
      using inv2 that by (simp add: node_inv_def st3_def)
    have "compose_retry nf st =
        (if check_char t = 0
         then if k1 = length (joined T) \<or> retry_root_class st3 > c then Some (Break, st3) else Some (Next_Char, st3)
         else Some (Next_Char, st2))"
      using True t(1) c mark_at [OF T k1(3)] eos_at [OF T k1(3)]
      by (simp add: compose_retry_def at peek read Let_def st1_def st2_def st3_def flip: nx_def)
    then show ?thesis
      using to2 to3 inv2 inv3 k1(2) b(2) by (cases "check_char t = 0") auto
  next
    case False
    have hk: "h \<le> k1" using h(2) k1(1) by simp
    obtain q j sk' where q: "next_combining_char (stream_at T k1 sk (Some n) m) (retry_root_class st) (ptr_at T h) =
        Some (q, stream_at T j sk' (Some n) m)" "k1 \<le> j" "j \<le> length (joined T)"
        "q \<longrightarrow> j < length (text1 T)" "length sk \<le> length sk'"
      using next_combining_char_at [OF T hk k1(3)] by blast
    define st2 where "st2 = st\<lparr>comp_in := stream_at T j sk' (Some n) m\<rparr>"
    define st3 where "st3 = st2\<lparr>node_index := retry_root_node st, current_char_head := ptr_at T j\<rparr>"
    have to1: "composed_to T strs p k1 st1"
      by (rule composed_toI [of _ _ _ sk n m]) (use k1 n found in \<open>auto simp: st1_def\<close>)
    have to2: "composed_to T strs p j st2"
      by (rule composed_toI [of _ _ _ sk' n m]) (use k1 n found q(2,3,5) in \<open>auto simp: st2_def\<close>)
    then have to3: "composed_to T strs p j st3" by (simp add: composed_to_def st3_def)
    have inv3: "k < j \<and> node_inv T ns j st3" if q
      using that q(2,4) text1_joined [of T] k inner(2) by (auto simp: node_inv_def st3_def st2_def k1_def split: if_splits)
    have "compose_retry nf st =
        (if first st then Some (Break, st1) else if q then Some (Retry, st3) else Some (Break, st2))"
      using False q(1) h(1) cur_at [OF T q(3)]
      by (simp add: compose_retry_def at peek read Let_def st1_def st2_def st3_def flip: nx_def)
    then show ?thesis
      using to1 to2 to3 inv3 k1 q(2) by (cases "first st"; cases q) auto
  qed
qed

lemma compose_loop_ok:
  assumes nf: "nodes nf = ns" and T: "texts_ok T" and p: "p < length (joined T)"
  shows "composed_to T strs p k st \<Longrightarrow> node_inv T ns k st \<Longrightarrow> p \<le> k \<Longrightarrow>
    \<exists>st' k'. compose_loop nf retry st = Some st' \<and> composed_to T strs p k' st' \<and> p < k'"
proof (induction "length (joined T) - k" arbitrary: k st retry rule: less_induct)
  case less
  obtain st1 where st1: "(if retry then Some st else compose_head nf st) = Some st1"
    "composed_to T strs p k st1" "node_inv T ns k st1"
    using compose_head_ok [OF T less.prems(1,2)] less.prems(1,2) by (cases retry) auto
  obtain nx st2 k' where step: "compose_retry nf st1 = Some (nx, st2)" "composed_to T strs p k' st2" "p < k'"
    "nx \<noteq> Break \<longrightarrow> k < k' \<and> node_inv T ns k' st2"
    using compose_retry_ok [OF nf T st1(2,3) less.prems(3) p] by blast
  have unf: "compose_loop nf retry st =
      (case nx of Break \<Rightarrow> Some st2 | Next_Char \<Rightarrow> compose_loop nf False st2 | Retry \<Rightarrow> compose_loop nf True st2)"
    by (subst compose_loop.simps) (simp add: st1(1) step(1) cong: compose_next.case_cong)
  show ?case
  proof (cases "nx = Break")
    case True
    with unf step(2,3) show ?thesis by auto
  next
    case False
    then have "length (joined T) - k' < length (joined T) - k"
      using step(2,4) by (auto simp: composed_to_def)
    from less.hyps [OF this step(2)] False step(3,4)
    have "\<exists>st' k'. compose_loop nf r st2 = Some st' \<and> composed_to T strs p k' st' \<and> p < k'" for r by simp
    with unf False show ?thesis by (cases nx) auto
  qed
qed

end

section \<open>The places of the stream between two characters\<close>

text \<open>
  If composition fails inside the first character, \<open>setCur\<close> is called with a point that the stream
  has not reached: it then puts \<open>cur2\<close> into the first text. The rest of the character is copied
  byte by byte before \<open>cur2\<close> is used.
\<close>

definition stray_stream :: "texts \<Rightarrow> nat \<Rightarrow> nat \<Rightarrow> char_stream_for_composition \<Rightarrow> bool" where
  "stray_stream T k q s \<longleftrightarrow> k < q \<and> q \<le> length (text1 T) \<and>
     (\<forall>i. k \<le> i \<and> i < q \<longrightarrow> cont_byte (text1 T ! i)) \<and>
     (q < length (text1 T) \<longrightarrow> is_utf8_char_start_byte (text1 T ! q)) \<and>
     (\<exists>sk t m. s = (stream_at T k sk t m)\<lparr>cur2 := First q\<rparr>)"

definition between :: "texts \<Rightarrow> nat \<Rightarrow> char_stream_for_composition \<Rightarrow> bool" where
  "between T k s \<longleftrightarrow> k \<le> length (joined T) \<and> (\<exists>sk t m. s = stream_at T k sk t m) \<or> (\<exists>q. stray_stream T k q s)"

lemma between_at: "k \<le> length (joined T) \<Longrightarrow> between T k (stream_at T k sk t m)"
  unfolding between_def by blast

lemma nearest_unique:
  assumes "p \<le> q" "q \<le> length str" "\<forall>i. p \<le> i \<and> i < q \<longrightarrow> cont_byte (str ! i)"
    and "q < length str \<longrightarrow> is_utf8_char_start_byte (str ! q)"
  shows "nearest_utf8_char_start_point str p = Some q"
proof -
  obtain q' where q': "nearest_utf8_char_start_point str p = Some q'" "p \<le> q'" "q' \<le> length str"
    "q' < length str \<longrightarrow> is_utf8_char_start_byte (str ! q')"
    "\<forall>k. p \<le> k \<and> k < q' \<longrightarrow> \<not> is_utf8_char_start_byte (str ! k)"
    using nearest_start_point_first [of p str] assms(1,2) by auto
  have "q' = q"
  proof (cases q' q rule: linorder_cases)
    case less
    then show ?thesis using q'(2,4) assms(2,3) by auto
  next
    case greater
    then show ?thesis using q'(3,5) assms(1,4) by auto
  qed simp
  with q'(1) show ?thesis by simp
qed

lemma setCur_first:
  "q \<le> k \<Longrightarrow> q \<le> length (text1 T) \<Longrightarrow> ccs_setCur (stream_at T k sk t m) (First q) = stream_at T q sk t m"
  "q \<le> k \<Longrightarrow> q \<le> length (text1 T) \<Longrightarrow>
    ccs_setCur ((stream_at T k sk t m)\<lparr>cur2 := x\<rparr>) (First q) = stream_at T q sk t m"
  "k < q \<Longrightarrow> ccs_setCur (stream_at T k sk t m) (First q) = (stream_at T k sk t m)\<lparr>cur2 := First q\<rparr>"
  "k < q \<Longrightarrow> ccs_setCur ((stream_at T k sk t m)\<lparr>cur2 := x\<rparr>) (First q) = (stream_at T k sk t m)\<lparr>cur2 := First q\<rparr>"
  by (simp_all add: ccs_setCur_def stream_at_def)

text \<open>The two copies of the first text that \<open>append_read_char_to_str\<close> makes.\<close>

lemma append_read_at:
  assumes "texts_ok T" "p \<le> q" "q \<le> length (text1 T)"
  shows "append_read_char_to_str (stream_at T q sk t m) buf (First p) =
    Some (buf @ take (q - p) (drop p (text1 T)))"
proof -
  have q: "q \<le> length (joined T)" using assms(3) text1_joined [of T] by simp
  show ?thesis
    using assms by (simp add: append_read_char_to_str_def eos1_at [OF assms(1) q] cur_at [OF assms(1) q])
      (auto simp: stream_at_def ptr_at_def slice_def texts_ok_def)
qed

lemma append_read_stray:
  assumes "texts_ok T" "p \<le> k" "k < length (text1 T)"
  shows "append_read_char_to_str ((stream_at T k sk t m)\<lparr>cur2 := x\<rparr>) buf (First p) =
    Some (buf @ take (k - p) (drop p (text1 T)))"
proof -
  have k: "k \<le> length (joined T)" using assms(3) text1_joined [of T] by simp
  have "eos1 ((stream_at T k sk t m)\<lparr>cur2 := x\<rparr>) = Some False"
    using eos1_at [OF assms(1) k, of sk t m] assms(3) by (simp add: eos1_def stream_at_def)
  then show ?thesis
    using assms by (simp add: append_read_char_to_str_def ccs_cur_def) (simp add: stream_at_def slice_def)
qed

context comp_trie
begin

lemma compose_at:
  assumes nf: "nodes nf = ns" "root nf = r" "value_ptr nf = Some strs"
    and T: "texts_ok T" and p: "p < length (text1 T)"
  shows "\<exists>s' xs k. compose nf (stream_at T p sk t m) buf = Some (s', buf @ xs) \<and> between T k s' \<and> p < k"
proof -
  have pj: "p < length (joined T)" "p \<le> length (joined T)" using p text1_joined [of T] by simp_all
  define st where "st = \<lparr>comp_in = stream_at T p [] (Some 0) m, current_char_head = ptr_at T p,
    composed_char_info = 0, node_index = root nf, retry_root_node = root nf, retry_root_class = 0, first = True\<rparr>"
  have "composed_to T strs p p st"
    by (rule composed_toI [of _ _ _ "[]" 0 m]) (simp_all add: st_def pj)
  moreover have "node_inv T ns p st"
    by (rule node_invI [of _ _ p]) (use inner_root root_no_terminal in \<open>simp_all add: st_def nf\<close>)
  ultimately obtain st' k where loop: "compose_loop nf False st = Some st'" "composed_to T strs p k st'" "p < k"
    using compose_loop_ok [OF nf(1) T pj(1), of p st False] by auto
  from loop(2) obtain sk' n m' where s': "comp_in st' = stream_at T k sk' (Some n) m'" "n \<le> length sk'"
    and k: "k \<le> length (joined T)"
    and found: "composed_char_info st' = 0 \<or>
      word_fits strs (composed_char_info st') \<and> (\<exists>j. m' = Some (ptr_at T j) \<and> p < j \<and> j \<le> k)"
    by (auto simp: composed_to_def)
  have unf: "compose nf (stream_at T p sk t m) buf =
      (if composed_char_info st' \<noteq> 0 then do {
         buf \<leftarrow> word_append buf (Some strs) (composed_char_info st');
         buf \<leftarrow> append_skipped_chars_to_str (comp_in st') buf;
         inp \<leftarrow> reset_at_marked_point (comp_in st');
         Some (inp, buf)
       }
       else do {
         q \<leftarrow> nearest_ptr (comp_in st') (First (Suc p));
         let inp = ccs_setCur (comp_in st') q;
         buf \<leftarrow> append_read_char_to_str inp buf (First p);
         Some (inp, buf)
       })"
    using loop(1) p nf(3) by (simp add: compose_def at_simps T pj(2) st_def ptr_at_def Let_def)
  show ?thesis
  proof (cases "composed_char_info st' = 0")
    case False
    then obtain j where j: "m' = Some (ptr_at T j)" "p < j" "j \<le> k" "word_fits strs (composed_char_info st')"
      using found by blast
    have "skipped_tail (comp_in st') = Some n" "skipped (comp_in st') = sk'"
      using s'(1) by (simp_all add: stream_at_def)
    then have "\<exists>xs. compose nf (stream_at T p sk t m) buf =
        Some (stream_at T j sk' (Some n) (Some (ptr_at T j)), buf @ xs)"
      using unf False j s' by (simp add: word_append_def slice_def word_fits_def append_skipped_chars_to_str_def reset_at)
    then show ?thesis using between_at [of j T] j k by (metis order_trans)
  next
    case True
    obtain q where q: "nearest_utf8_char_start_point (text1 T) (Suc p) = Some q" "Suc p \<le> q" "q \<le> length (text1 T)"
      "q < length (text1 T) \<longrightarrow> is_utf8_char_start_byte (text1 T ! q)"
      "\<forall>k. Suc p \<le> k \<and> k < q \<longrightarrow> \<not> is_utf8_char_start_byte (text1 T ! k)"
      using nearest_start_point_first [of "Suc p" "text1 T"] p by auto
    have near: "nearest_ptr (comp_in st') (First (Suc p)) = Some (First q)"
      using q(1) by (simp add: s'(1) stream_at_def)
    show ?thesis
    proof (cases "q \<le> k")
      case True
      have "\<exists>xs. compose nf (stream_at T p sk t m) buf = Some (stream_at T q sk' (Some n) m', buf @ xs)"
        using unf \<open>composed_char_info st' = 0\<close> near q(2,3) True
        by (simp add: s'(1) setCur_first append_read_at [OF T] Let_def)
      moreover have "q \<le> length (joined T)" using q(3) text1_joined [of T] by simp
      ultimately show ?thesis using between_at [of q T] q(2) by (metis Suc_le_lessD)
    next
      case False
      then have "\<exists>xs. compose nf (stream_at T p sk t m) buf =
          Some ((stream_at T k sk' (Some n) m')\<lparr>cur2 := First q\<rparr>, buf @ xs)"
        using unf \<open>composed_char_info st' = 0\<close> near q(3) loop(3)
        by (simp add: s'(1) setCur_first append_read_stray [OF T] Let_def)
      moreover have "stray_stream T k q ((stream_at T k sk' (Some n) m')\<lparr>cur2 := First q\<rparr>)"
        using False q loop(3) by (auto simp: stray_stream_def)
      ultimately show ?thesis using loop(3) unfolding between_def by blast
    qed
  qed
qed

text \<open>In a stray place composition copies one byte: no character starts with it.\<close>

lemma compose_stray:
  assumes nf: "nodes nf = ns" "root nf = r" "value_ptr nf = Some strs"
    and T: "texts_ok T" and s: "stray_stream T k q s"
  shows "\<exists>s' xs. compose nf s buf = Some (s', buf @ xs) \<and> between T (Suc k) s'"
proof -
  obtain sk t m where s_eq: "s = (stream_at T k sk t m)\<lparr>cur2 := First q\<rparr>"
    using s by (auto simp: stray_stream_def)
  have q: "k < q" "q \<le> length (text1 T)" "\<forall>i. k \<le> i \<and> i < q \<longrightarrow> cont_byte (text1 T ! i)"
    "q < length (text1 T) \<longrightarrow> is_utf8_char_start_byte (text1 T ! q)"
    using s by (auto simp: stray_stream_def)
  let ?b = "text1 T ! k"
  define s0 where "s0 = (stream_at T k [] (Some 0) m)\<lparr>cur2 := First q\<rparr>"
  define s1 where "s1 = (stream_at T (Suc k) [] (Some 0) m)\<lparr>cur2 := First q\<rparr>"
  have b: "cont_byte ?b" "?b \<noteq> 0" using q cont_byte_not_0 by auto
  have deref: "deref s0 (cur1 s0) = Some ?b" using q(1,2) by (simp add: s0_def stream_at_def rd_def)
  have s0: "ccs_peek s0 = Some ?b" "ccs_cur s0 = Some (First k)" "init_skipinfo s = s0"
    using b q(1,2) by (simp_all add: ccs_peek_def ccs_cur_def eos1_def deref)
      (simp_all add: s0_def s_eq stream_at_def init_skipinfo_def)
  have read: "ccs_read s0 = Some (?b, s1)"
    using b(2) q(1,2) by (simp add: ccs_read_def read1_def eos1_def deref)
      (simp add: s0_def s1_def stream_at_def)
  let ?st = "\<lambda>x. \<lparr>comp_in = x, current_char_head = First k, composed_char_info = 0, node_index = root nf,
    retry_root_node = root nf, retry_root_class = 0, first = True\<rparr>"
  have node: "node_at nf r = Some (ns ! unat r)"
    "node_at nf (jump (ns ! unat r) ?b) = Some (ns ! unat (jump (ns ! unat r) ?b))"
    using node_at_inner [OF nf(1) inner_root] node_at_jump [OF nf(1) inner_root] nf(2) by simp_all
  have loop: "compose_loop nf False (?st s0) = Some (?st s1)"
    using no_cont [OF b(1)] b(1)
    by (subst compose_loop.simps)
      (simp add: compose_head_def compose_retry_def s0 read node nf(2) Let_def)
  have near: "nearest_ptr s1 (First (Suc k)) = Some (First q)"
    using nearest_unique [of "Suc k" q "text1 T"] q by (simp add: s1_def stream_at_def)
  have unf: "compose nf s buf = do {
      let inp = ccs_setCur s1 (First q);
      buf \<leftarrow> append_read_char_to_str inp buf (First k);
      Some (inp, buf)
    }"
    using near by (simp add: compose_def s0 loop)
  show ?thesis
  proof (cases "q = Suc k")
    case True
    then have "\<exists>xs. compose nf s buf = Some (stream_at T q [] (Some 0) m, buf @ xs)"
      using unf q(2) by (simp add: s1_def setCur_first append_read_at [OF T] Let_def)
    moreover have "q \<le> length (joined T)" using q(2) text1_joined [of T] by simp
    ultimately show ?thesis using between_at [of q T] True by metis
  next
    case False
    then have lt: "Suc k < q" using q(1) by simp
    then have "\<exists>xs. compose nf s buf = Some (s1, buf @ xs)"
      using unf q(2) by (simp add: s1_def setCur_first append_read_stray [OF T] Let_def)
    moreover have "stray_stream T (Suc k) q s1"
      using lt q by (auto simp: stray_stream_def s1_def)
    ultimately show ?thesis unfolding between_def by blast
  qed
qed

section \<open>A part of the text\<close>

lemma compose_one_loop_ok:
  assumes nf: "nodes nf = ns" "root nf = r" "value_ptr nf = Some strs" and T: "texts_ok T"
  shows "between T k s \<Longrightarrow> \<exists>j sk t m xs. compose_one_loop nf s buf = Some (stream_at T j sk t m, buf @ xs) \<and>
    length (text1 T) \<le> j \<and> j \<le> length (joined T)"
proof (induction "length (text1 T) - k" arbitrary: k s buf rule: less_induct)
  case less
  note unf = compose_one_loop.simps [of nf s buf]
  have step: ?case if w: "within_first s = Some True" "k < length (text1 T)"
    and c: "\<exists>s' xs k'. compose nf s buf = Some (s', buf @ xs) \<and> between T k' s' \<and> k < k'"
  proof -
    obtain s' xs k' where c': "compose nf s buf = Some (s', buf @ xs)" "between T k' s'" "k < k'"
      using c by blast
    have "length (text1 T) - k' < length (text1 T) - k" using c'(3) w(2) by simp
    from less.hyps [OF this c'(2), of "buf @ xs"] show ?case by (subst unf) (simp add: w(1) c'(1), metis)
  qed
  from less.prems consider (at) sk t m where "s = stream_at T k sk t m" "k \<le> length (joined T)"
    | (stray) q where "stray_stream T k q s"
    unfolding between_def by blast
  then show ?case
  proof cases
    case at
    show ?thesis
    proof (cases "k < length (text1 T)")
      case True
      with at compose_at [OF nf T True] within_first_at [OF T at(2)] show ?thesis by (intro step) simp_all
    next
      case False
      then have "compose_one_loop nf s buf = Some (stream_at T k sk t m, buf)"
        using within_first_at [OF T at(2), of sk t m] by (subst unf) (simp add: at(1))
      then show ?thesis
        by (intro exI [of _ k] exI [of _ sk] exI [of _ t] exI [of _ m] exI [of _ "[]"]) (use False at(2) in simp)
    qed
  next
    case stray
    then obtain sk t m where "s = (stream_at T k sk t m)\<lparr>cur2 := First q\<rparr>" and k: "k < length (text1 T)"
      by (auto simp: stray_stream_def)
    moreover have "within_first (stream_at T k sk t m) = Some True"
      using within_first_at [OF T, of k sk t m] k text1_joined [of T] by simp
    ultimately have "within_first s = Some True" by (simp add: within_first_def eos1_def stream_at_def)
    with compose_stray [OF nf T stray] k show ?thesis by (intro step) blast+
  qed
qed

lemma compose_one_ok:
  assumes nf: "nodes (nf_c n) = ns" "root (nf_c n) = r" "value_ptr (nf_c n) = Some strs"
    and T: "texts_ok \<lparr>text1 = buffer2 n, text2 = str, start2 = e, class_list = canonical_classes n\<rparr>"
  shows "\<exists>q b3 xs. compose_one n str e buf = Some (Second q, n\<lparr>buffer3 := b3\<rparr>, buf @ xs) \<and>
    e \<le> q \<and> q \<le> length str"
proof -
  let ?T = "\<lparr>text1 = buffer2 n, text2 = str, start2 = e, class_list = canonical_classes n\<rparr>"
  have start: "CharStreamForComposition (buffer2 n) (First 0) str (Second e) (canonical_classes n) (buffer3 n) =
      stream_at ?T 0 (buffer3 n) None None"
    by (simp add: CharStreamForComposition_def stream_at_def)
  obtain j sk t m xs where
    j: "compose_one_loop (nf_c n) (stream_at ?T 0 (buffer3 n) None None) buf = Some (stream_at ?T j sk t m, buf @ xs)"
      "length (buffer2 n) \<le> j" "j \<le> length (joined ?T)"
    using compose_one_loop_ok [OF nf T between_at [of 0 ?T "buffer3 n" None None], of buf] by auto
  have "e \<le> length str" using T by (simp add: texts_ok_def)
  with j cur_at [OF T j(3), of sk t m] show ?thesis
    by (intro exI [of _ "e + (j - length (buffer2 n))"] exI [of _ sk] exI [of _ xs])
      (auto simp: compose_one_def start Let_def ptr_at_def skipped_at length_joined)
qed

end

end
