(* ===== verification/Recomposer.thy ===== *)
theory Recomposer
  imports Composer
begin

text \<open>
  \<open>Normalizer::compose\<close>, the loop of NFC and NFKC: it decomposes a part of the text, recomposes it,
  perhaps together with characters behind it, and goes on where that has stopped. On every text it
  returns, reads and writes inside its objects, and only appends to the result.
\<close>

section \<open>Scanning from any place in a text\<close>

lemma nearest_in_text:
  "list_all utf8_char cs \<Longrightarrow> length pre \<le> q \<Longrightarrow> q \<le> length (pre @ concat cs) \<Longrightarrow>
   \<exists>as bs. cs = as @ bs \<and> q \<le> length (pre @ concat as) \<and>
     nearest_utf8_char_start_point (pre @ concat cs) q = Some (length (pre @ concat as))"
proof (induction cs arbitrary: pre)
  case Nil
  then show ?case using nearest_at_text [of "[]" pre] by simp
next
  case (Cons c cs)
  then have c: "utf8_char c" and cs: "list_all utf8_char cs" by simp_all
  consider "q = length pre" | "length pre < q" "q \<le> length (pre @ c)" | "length (pre @ c) < q"
    using Cons.prems(2) by linarith
  then show ?case
  proof cases
    case 1
    then show ?thesis
      using nearest_at_text [OF Cons.prems(1), of pre] by (intro exI [of _ "[]"] exI [of _ "c # cs"]) simp
  next
    case 2
    obtain b bs where b: "c = b # bs" "list_all cont_byte bs" using c by (rule utf8_charE)
    have "nearest_utf8_char_start_point (pre @ c @ concat cs) q = Some (length (pre @ c))"
    proof (rule nearest_unique)
      show "\<forall>i. q \<le> i \<and> i < length (pre @ c) \<longrightarrow> cont_byte ((pre @ c @ concat cs) ! i)"
        using b 2(1) by (auto simp: nth_append list_all_length nth_Cons')
      show "length (pre @ c) < length (pre @ c @ concat cs) \<longrightarrow>
          is_utf8_char_start_byte ((pre @ c @ concat cs) ! length (pre @ c))"
        using start_of_text [OF cs] by (auto simp: nth_append)
    qed (use 2(2) in simp_all)
    then show ?thesis using 2(2) by (intro exI [of _ "[c]"] exI [of _ cs]) simp
  next
    case 3
    with Cons.IH [of "pre @ c"] Cons.prems(3) cs obtain as bs where
      "cs = as @ bs" "q \<le> length ((pre @ c) @ concat as)"
      "nearest_utf8_char_start_point ((pre @ c) @ concat cs) q = Some (length ((pre @ c) @ concat as))"
      by auto
    then show ?thesis by (intro exI [of _ "c # as"] exI [of _ bs]) simp
  qed
qed

lemma next_invalid_char_nearest:
  assumes "nearest_utf8_char_start_point str p = Some q" "nearest_utf8_char_start_point str q = Some q"
  shows "next_invalid_char n nf str p = next_invalid_char n nf str q"
  using assms by (simp add: next_invalid_char_def)

context scanner
begin

lemma next_invalid_char_from:
  assumes "set_up n nf" "list_all utf8_char cs" "length pre \<le> q" "q \<le> length (pre @ concat cs)"
  shows "\<exists>as bs. cs = as @ bs \<and> q \<le> length (pre @ concat as) \<and>
    next_invalid_char n nf (pre @ concat cs) q = Some (length (pre @ concat as))"
proof -
  obtain as bs where cs: "cs = as @ bs" and q: "q \<le> length (pre @ concat as)"
    and near: "nearest_utf8_char_start_point (pre @ concat cs) q = Some (length (pre @ concat as))"
    using nearest_in_text [OF assms(2-4)] by blast
  have bs: "list_all utf8_char bs" using assms(2) cs by simp
  obtain as' bs' where split: "bs = as' @ bs'"
    "next_invalid_char n nf ((pre @ concat as) @ concat bs) (length (pre @ concat as)) =
      Some (length ((pre @ concat as) @ concat as'))"
    by (rule next_invalid_char_split [OF assms(1) bs])
  have "next_invalid_char n nf (pre @ concat cs) q = Some (length ((pre @ concat as) @ concat as'))"
    using next_invalid_char_nearest [OF near] nearest_at_text [OF bs, of "pre @ concat as"] split(2)
    by (simp add: cs)
  with q show ?thesis by (intro exI [of _ "as @ as'"] exI [of _ bs']) (simp add: cs split(1))
qed

end

section \<open>How long a decomposed part can be\<close>

text \<open>The length of a word is kept in six bits.\<close>

lemma word_len_less: "word_len (value_of t) < 64"
proof -
  have "unat (value_of t) div 2 ^ 18 < 2 ^ 6"
    using unat_base_less [of t] by (simp add: value_of_def less_mult_imp_div_less)
  moreover have "take_bit 32 (unat (value_of t)) = unat (value_of t)"
    using unsigned_less [of "value_of t"] by (simp add: take_bit_nat_eq_self_iff)
  ultimately show ?thesis
    using drop_bit_eq_div [of 18 "unat (value_of t)"] by (simp add: word_len_def unsigned_drop_bit_eq)
qed

lemma decomp_char_length:
  assumes "c \<noteq> []"
  shows "length (decomp_char ns r strs c) \<le> 63 * length c"
proof (cases "char_value ns r c")
  case (Some v)
  then obtain t where "v = value_of t" by (auto simp: char_value_def split: walk.splits)
  moreover have "1 \<le> length c" using assms by (cases c) simp_all
  ultimately show ?thesis
    using Some word_len_less [of t] by (simp add: decomp_char_def table_word_def min_def)
qed (simp add: decomp_char_def)

context decomposer
begin

lemma spec_length:
  assumes "list_all utf8_char cs"
  shows "length (concat (spec cs)) \<le> 63 * length (concat cs)"
proof -
  have "sum_list (map length (spec cs)) = sum_mset (image_mset length (mset (spec cs)))"
    by (simp flip: mset_map sum_mset_sum_list)
  also have "\<dots> = sum_list (map length (full_decomposition ns dr strs cs))"
    by (simp add: normal_decomposition_def mset_canonical_order flip: mset_map sum_mset_sum_list)
  finally have "length (concat (spec cs)) = length (concat (map dec.decomp cs))"
    using arg_cong [OF full_decomposition_text(2) [OF assms], of length] by (simp add: length_concat)
  also have "\<dots> \<le> 63 * length (concat cs)"
    using assms
  proof (induction cs)
    case (Cons c cs)
    then have "c \<noteq> []" by auto
    from decomp_char_length [OF this, of ns dr strs] Cons show ?case by simp
  qed simp
  finally show ?thesis .
qed

end

section \<open>The loop\<close>

locale recomposer = dec: decomposer ns rc dr strs + sc: scanner ns rc rq + com: comp_trie ns r strs
  for ns rc dr rq r strs
begin

definition ready :: "normalizer \<Rightarrow> searcher \<Rightarrow> searcher \<Rightarrow> bool" where
  "ready n nf nf_decomp \<longleftrightarrow> sc.set_up n nf \<and> dec.set_up n nf_decomp \<and> value_ptr nf_decomp = Some strs \<and>
     nodes (nf_c n) = ns \<and> root (nf_c n) = r \<and> value_ptr (nf_c n) = Some strs"

lemma compose_part:
  assumes up: "ready n nf nf_decomp" and texts: "list_all utf8_char (c # seg)" "list_all utf8_char rest"
    and pre: "0 \<notin> set pre" and small: "length (pre @ concat (c # seg) @ concat rest) < 2 ^ 26"
  defines "str \<equiv> pre @ concat (c # seg) @ concat rest" and "e \<equiv> length (pre @ concat (c # seg))"
  shows "\<exists>q b3 xs b2 kl. do {
      r \<leftarrow> decompose_one n str (length pre) e nf_decomp [];
      let n = (fst r)\<lparr>buffer2 := snd r\<rparr>;
      compose_one n str e (buffer n)
    } = Some (Second q, n\<lparr>buffer2 := b2, buffer3 := b3, canonical_classes := kl\<rparr>, buffer n @ xs) \<and>
    e \<le> q \<and> q \<le> length str"
proof -
  let ?ds = "dec.spec (c # seg)"
  define kl where "kl = class_bytes dec.klass ?ds @ [0]"
  define n1 where "n1 = n\<lparr>canonical_classes := kl, buffer2 := concat ?ds\<rparr>"
  have "length ([] @ concat ?ds) < 2 ^ 32" using dec.spec_length [OF texts(1)] small by simp
  from dec.decompose_one_eq [OF _ _ texts this, of n nf_decomp pre] up
  have one: "decompose_one n str (length pre) e nf_decomp [] =
      Some (n\<lparr>canonical_classes := kl\<rparr>, concat ?ds)"
    by (simp add: ready_def str_def e_def kl_def)
  have "list_all utf8_char ?ds"
    using dec.full_decomposition_text(1) [OF texts(1)] by (simp add: normal_decomposition_def list_all_iff)
  then have "texts_ok \<lparr>text1 = buffer2 n1, text2 = str, start2 = e, class_list = canonical_classes n1\<rparr>"
    using dec.spec_length [OF texts(1)] small pre text_no_nul [OF texts(1)] text_no_nul [OF texts(2)]
      text_no_nul [of ?ds]
    by (simp add: texts_ok_def n1_def str_def e_def kl_def length_joined)
  from com.compose_one_ok [OF _ _ _ this, of "buffer n"] up obtain q b3 xs where
    q: "compose_one n1 str e (buffer n) = Some (Second q, n1\<lparr>buffer3 := b3\<rparr>, buffer n @ xs)"
      "e \<le> q" "q \<le> length str"
    by (auto simp: ready_def n1_def)
  then show ?thesis
    by (intro exI [of _ q] exI [of _ b3] exI [of _ xs] exI [of _ "concat ?ds"] exI [of _ kl])
      (simp add: one n1_def)
qed

lemma norm_compose_loop_ok:
  "ready n nf nf_decomp \<Longrightarrow> list_all utf8_char cs \<Longrightarrow> 0 \<notin> set pre \<Longrightarrow> length (pre @ concat cs) < 2 ^ 26 \<Longrightarrow>
   \<exists>xs b2 b3 kl. norm_compose_loop n nf nf_decomp (pre @ concat cs) (length pre) =
     Some (n\<lparr>buffer := buffer n @ xs, buffer2 := b2, buffer3 := b3, canonical_classes := kl\<rparr>)"
proof (induction "length cs" arbitrary: cs n pre rule: less_induct)
  case less
  note unf = norm_compose_loop.simps [of n nf nf_decomp "pre @ concat cs" "length pre"]
  show ?case
  proof (cases cs)
    case Nil
    then have "norm_compose_loop n nf nf_decomp (pre @ concat cs) (length pre) =
        Some (n\<lparr>buffer := buffer n @ [], buffer2 := buffer2 n, buffer3 := buffer3 n,
          canonical_classes := canonical_classes n\<rparr>)"
      by (subst unf) (simp add: rd_def)
    then show ?thesis by blast
  next
    case (Cons c ds)
    define str where "str = pre @ concat cs"
    have up: "sc.set_up n nf" using less.prems(1) by (simp add: ready_def)
    obtain seg rest where split: "ds = seg @ rest"
      and valid: "next_valid_starter n nf (pre @ concat (c # ds)) (length pre) =
        Some (length (pre @ concat (c # seg)))"
      using sc.next_valid_starter_split [OF up, of c ds pre] less.prems(2) Cons by blast
    define e where "e = length (pre @ concat (c # seg))"
    have texts: "list_all utf8_char (c # seg)" "list_all utf8_char rest"
      using less.prems(2) Cons split by auto
    have str: "str = pre @ concat (c # seg) @ concat rest" by (simp add: str_def Cons split)
    obtain b bs where b: "c = b # bs" "b \<noteq> 0" using texts(1) by (auto elim: utf8_charE)
    have rd: "rd str (length pre) = Some b" by (simp add: str rd_append0 b(1))
    have valid': "next_valid_starter n nf str (length pre) = Some e"
      using valid by (simp add: str_def Cons e_def)
    obtain q b3 xs b2 kl where part: "do {
        r \<leftarrow> decompose_one n str (length pre) e nf_decomp [];
        let n = (fst r)\<lparr>buffer2 := snd r\<rparr>;
        compose_one n str e (buffer n)
      } = Some (Second q, n\<lparr>buffer2 := b2, buffer3 := b3, canonical_classes := kl\<rparr>, buffer n @ xs)"
      and q: "e \<le> q" "q \<le> length str"
      using compose_part [OF less.prems(1) texts less.prems(3), folded str e_def] less.prems(4)
      unfolding str_def [symmetric] by blast
    define n1 where "n1 = n\<lparr>buffer2 := b2, buffer3 := b3, canonical_classes := kl, buffer := buffer n @ xs\<rparr>"
    have up1: "ready n1 nf nf_decomp" using less.prems(1) by (simp add: ready_def n1_def sc.set_up_def dec.set_up_def)
    then have up1': "sc.set_up n1 nf" by (simp add: ready_def)
    obtain as bs where ab: "rest = as @ bs" and qe: "q \<le> length (pre @ concat (c # seg) @ concat as)"
      and inv: "next_invalid_char n1 nf str q = Some (length (pre @ concat (c # seg) @ concat as))"
      using sc.next_invalid_char_from [OF up1' texts(2), of "pre @ concat (c # seg)" q] q
      by (auto simp: str e_def)
    define pre' where "pre' = pre @ concat (c # seg) @ concat as"
    have str': "str = pre' @ concat bs" by (simp add: str ab pre'_def)
    obtain ys where ys: "slice str q (length pre') = Some ys"
      using qe [folded pre'_def] by (simp add: slice_def str')
    define n2 where "n2 = n\<lparr>buffer2 := b2, buffer3 := b3, canonical_classes := kl, buffer := buffer n @ xs @ ys\<rparr>"
    have loop: "norm_compose_loop n nf nf_decomp str (length pre) = norm_compose_loop n2 nf nf_decomp str (length pre')"
    proof -
      obtain n0 where one: "decompose_one n str (length pre) e nf_decomp [] = Some n0"
        and two: "compose_one ((fst n0)\<lparr>buffer2 := snd n0\<rparr>) str e (buffer (fst n0)) =
          Some (Second q, n\<lparr>buffer2 := b2, buffer3 := b3, canonical_classes := kl\<rparr>, buffer n @ xs)"
        using part by (auto simp: Option.bind_eq_Some_conv Let_def)
      show ?thesis
        using unf [folded str_def] inv [folded pre'_def, unfolded n1_def]
        by (simp add: rd b(2) valid' one two ys Let_def n2_def)
    qed
    have "length bs < length cs" "list_all utf8_char bs" "0 \<notin> set pre'" "length (pre' @ concat bs) < 2 ^ 26"
      using texts less.prems(3,4) text_no_nul [OF texts(1)] text_no_nul [of as]
      by (auto simp: Cons split ab pre'_def)
    moreover have "ready n2 nf nf_decomp"
      using less.prems(1) by (simp add: ready_def n2_def sc.set_up_def dec.set_up_def)
    ultimately obtain zs b2' b3' kl' where "norm_compose_loop n2 nf nf_decomp str (length pre') =
        Some (n2\<lparr>buffer := buffer n2 @ zs, buffer2 := b2', buffer3 := b3', canonical_classes := kl'\<rparr>)"
      using less.hyps [of bs n2 pre'] unfolding str' by blast
    with loop have "norm_compose_loop n nf nf_decomp str (length pre) =
        Some (n\<lparr>buffer := buffer n @ (xs @ ys @ zs), buffer2 := b2', buffer3 := b3', canonical_classes := kl'\<rparr>)"
      by (simp add: n2_def)
    then show ?thesis unfolding str_def by blast
  qed
qed

text \<open>The result starts with the part of the text in front of the first place to change.\<close>

lemma norm_compose_ok:
  assumes up: "ready n nf nf_decomp" and cs: "list_all utf8_char cs" and small: "length (concat cs) < 2 ^ 26"
  shows "\<exists>k res n' xs. next_invalid_char n nf (concat cs) 0 = Some k \<and> k \<le> length (concat cs) \<and>
    norm_compose n (concat cs) 0 nf nf_decomp = Some (res, n') \<and>
    result_text (concat cs) (res, n') = take k (concat cs) @ xs \<and> (k = length (concat cs) \<longrightarrow> res = Source 0) \<and>
    n\<lparr>buffer := buffer n', buffer2 := buffer2 n', buffer3 := buffer3 n',
      canonical_classes := canonical_classes n'\<rparr> = n'"
proof -
  have set_up: "sc.set_up n nf" using up by (simp add: ready_def)
  obtain as bs where ab: "cs = as @ bs"
    and inv: "next_invalid_char n nf ([] @ concat cs) (length ([] :: bytes)) = Some (length ([] @ concat as))"
    by (rule sc.next_invalid_char_split [OF set_up cs, of "[]"])
  let ?k = "length (concat as)"
  have k: "next_invalid_char n nf (concat cs) 0 = Some ?k" "?k \<le> length (concat cs)"
    "take ?k (concat cs) = concat as" using inv by (simp_all add: ab)
  show ?thesis
  proof (cases "bs = []")
    case True
    then have "norm_compose n (concat cs) 0 nf nf_decomp = Some (Source 0, n)"
      using k ab by (simp add: norm_compose_def rd_def)
    with True ab k show ?thesis
      by (intro exI [of _ ?k] exI [of _ "Source 0"] exI [of _ n] exI [of _ "[]"]) (simp add: result_text_def)
  next
    case False
    obtain b where b: "rd (concat cs) ?k = Some b" "b \<noteq> 0"
      using cs ab False by (cases bs) (auto elim!: utf8_charE simp: rd_def nth_append)
    then have lt: "?k \<noteq> length (concat cs)" by (auto simp: rd_def)
    have bs: "list_all utf8_char bs" "0 \<notin> set (concat as)" using cs ab text_no_nul [of as] by simp_all
    have "ready (n\<lparr>buffer := concat as\<rparr>) nf nf_decomp"
      using up by (simp add: ready_def sc.set_up_def dec.set_up_def)
    from norm_compose_loop_ok [OF this bs] small ab obtain xs b2 b3 kl where
      "norm_compose_loop (n\<lparr>buffer := concat as\<rparr>) nf nf_decomp (concat cs) ?k =
        Some (n\<lparr>buffer := concat as @ xs, buffer2 := b2, buffer3 := b3, canonical_classes := kl\<rparr>)"
      by auto
    moreover have "slice (concat cs) 0 ?k = Some (concat as)"
      by (simp add: ab slice_def)
    ultimately have "norm_compose n (concat cs) 0 nf nf_decomp =
        Some (Buffer_c_str, n\<lparr>buffer := concat as @ xs, buffer2 := b2, buffer3 := b3, canonical_classes := kl\<rparr>)"
      using k(1) b by (simp add: norm_compose_def)
    with k lt show ?thesis
      by (intro exI [of _ ?k] exI [of _ Buffer_c_str] exI [of _ xs]
          exI [of _ "n\<lparr>buffer := concat as @ xs, buffer2 := b2, buffer3 := b3, canonical_classes := kl\<rparr>"])
        (simp add: result_text_def)
  qed
qed

end

end
