(* ===== verification/Table_Tries.thy ===== *)
theory Table_Tries
  imports Table_Facts Recomposer
begin

text \<open>
  What the checks of \<open>Table_Facts\<close> say of the tries of \<open>UNF::TABLE\<close>, and the interpretation of
  the interfaces of the components on them: every search stays inside the node array
  (\<open>trie_nodes\<close>), five of the six tries map whole characters (\<open>char_trie\<close>), the combining classes
  are bytes other than 0 (\<open>class_trie\<close>), the decompositions are non-empty texts (\<open>decomp_trie\<close>,
  \<open>decomposer\<close>), and composition finds its words in the string table (\<open>comp_trie\<close>, \<open>recomposer\<close>).
\<close>

section \<open>Words and nodes\<close>

abbreviation table_nodes :: "node list" where
  "table_nodes \<equiv> from_uint_array TABLE_NODES"

lemma length_TABLE_NODES: "length TABLE_NODES = node_count"
  by (simp add: TABLE_NODES_def node_count_def)

lemma length_table_nodes: "length table_nodes = node_count"
  by (simp add: length_TABLE_NODES)

lemma node_word_bounded: "k < node_count \<Longrightarrow> word_bounded (node_word k)"
  using node_lines_bounded by (simp add: list_all_length node_count_def node_word_def)

lemma unat_node_word:
  assumes "k < node_count"
  shows "unat (data (table_nodes ! k)) = node_word k"
proof -
  have "node_word k < 2 ^ 32" using node_word_bounded [OF assms] by (simp add: word_bounded_def)
  then have "unat (of_nat (node_word k) :: u32) = node_word k"
    by (simp add: unat_of_nat take_bit_nat_eq_self_iff)
  then show ?thesis
    using assms
    by (simp add: from_uint_array_def TABLE_NODES_def node_count_def node_word_def)
qed

lemma unat_node_parts:
  assumes "k < node_count"
  shows "unat (check_char (table_nodes ! k)) = hi24 (node_word k)"
    and "unat (base (table_nodes ! k)) = lo24 (node_word k)"
  using assms by (simp_all add: unat_check_char unat_base unat_node_word hi24_def lo24_def)

lemma check_char_0: "k < node_count \<Longrightarrow> check_char (table_nodes ! k) = 0 \<longleftrightarrow> hi24 (node_word k) = 0"
  by (simp flip: unat_node_parts(1) add: unat_eq_0)

lemma check_char_byte:
  "k < node_count \<Longrightarrow> check_char (table_nodes ! k) = ucast (c :: u8) \<longleftrightarrow> hi24 (node_word k) = unat c"
  by (simp flip: unat_node_parts(1) add: word_unat_eq_iff)

section \<open>Windows and bytes\<close>

lemma window_upt:
  assumes "window K [a..<b] k" "a \<le> c" "c < b"
  shows "k + (c - a) < node_count" and "K c (node_word (k + (c - a)))"
proof -
  have *: "b - a \<le> node_count - k" "\<forall>j < b - a. K (a + j) (node_word (k + j))"
    using assms(1) by (auto simp: window_def)
  show "k + (c - a) < node_count" using *(1) assms(2,3) by simp
  show "K c (node_word (k + (c - a)))" using *(2) [rule_format, of "c - a"] assms(2,3) by simp
qed

lemma label_lists:
  "single_bytes = [1..<0x80]" "cont_bytes = [0x80..<0xC0]" "lead2_bytes = [0xC0..<0xE0]"
  "lead3_bytes = [0xE0..<0xF0]" "lead4_bytes = [0xF0..<0xF8]"
  by (simp_all only: single_bytes_def cont_bytes_def lead2_bytes_def lead3_bytes_def lead4_bytes_def,
      code_simp+)

section \<open>The walk over one character\<close>

text \<open>How a walk that is decided by the end of a character may end.\<close>

definition decided :: "(nat \<Rightarrow> bool) \<Rightarrow> nat \<Rightarrow> walk \<Rightarrow> bool" where
  "decided V n w \<longleftrightarrow> (case w of Hit t m \<Rightarrow> m = n \<and> V (unat (value_of t)) | Miss m \<Rightarrow> True | Mid i \<Rightarrow> False)"

lemma node_ok_walk:
  assumes "node_ok V m (node_word j)" "j < node_count" "list_all cont_byte bs" "length bs = length m"
    and "unat i = j"
  shows "decided V (k + length bs)
    (let t = table_nodes ! unat (jump (table_nodes ! j) 0)
     in if check_char t = 0 then Hit t k else trie_walk table_nodes i bs k)"
  using assms
proof (induction m arbitrary: j bs i k)
  case Nil
  then show ?case
    by (auto simp: entry_def terminal_def decided_def unat_jump_0 unat_node_parts check_char_0 value_of_def
        Let_def split: if_splits)
next
  case (Cons u m)
  obtain c cs where bs: "bs = c # cs" using Cons.prems(4) by (cases bs) auto
  define b where "b = lo24 (node_word j)"
  have b: "unat (base (table_nodes ! j)) = b" using unat_node_parts(2) [OF Cons.prems(2)] b_def by simp
  have e: "b < node_count" "hi24 (node_word b) \<noteq> 0"
    and w: "window (kid (node_ok V m)) [0x80..<0xC0] (b + 0x80)"
    using Cons.prems(1) by (auto simp: children_def entry_def labelled_def label_lists b_def)
  have c: "0x80 \<le> unat c" "unat c < 0xC0" using Cons.prems(3) by (auto simp: bs start_byte_unat)
  define l where "l = jump (table_nodes ! j) c"
  have l: "unat l = b + unat c" by (simp add: l_def unat_jump b)
  have lw: "unat l < node_count" "kid (node_ok V m) (unat c) (node_word (unat l))"
    using window_upt [OF w c] c by (simp_all add: l)
  show ?case
  proof (cases "check_char (table_nodes ! unat l) = ucast c")
    case True
    then have "node_ok V m (node_word (unat l))"
      using lw by (simp add: kid_def check_char_byte)
    from Cons.IH [OF this lw(1) _ _ refl, of cs "Suc k"] show ?thesis
      using Cons.prems(3,4) True e
      by (simp add: bs Let_def unat_jump_0 b check_char_0 Cons.prems(5) flip: l_def)
  next
    case False
    then show ?thesis
      using e by (simp add: bs Let_def unat_jump_0 b check_char_0 Cons.prems(5) decided_def flip: l_def)
  qed
qed

lemma root_kid:
  assumes "root_ok V b" "utf8_len c = Suc n"
  shows "b + unat c < node_count"
    and "kid (node_ok V (replicate n ())) (unat c) (node_word (b + unat c))"
proof -
  have w: "window (kid (node_ok V [])) [1..<0x80] (b + 1)"
    "window (kid (node_ok V [()])) [0xC0..<0xE0] (b + 0xC0)"
    "window (kid (node_ok V [(), ()])) [0xE0..<0xF0] (b + 0xE0)"
    "window (kid (node_ok V [(), (), ()])) [0xF0..<0xF8] (b + 0xF0)"
    using assms(1) by (simp_all add: root_ok_def label_lists)
  have u: "c \<noteq> 0 \<Longrightarrow> 1 \<le> unat c" by (simp add: Suc_le_eq unat_gt_0)
  from assms(2) have "b + unat c < node_count \<and>
      kid (node_ok V (replicate n ())) (unat c) (node_word (b + unat c))"
    using window_upt [OF w(1), of "unat c"] window_upt [OF w(2), of "unat c"]
      window_upt [OF w(3), of "unat c"] window_upt [OF w(4), of "unat c"] u
    by (auto simp: utf8_len_def numeral_2_eq_2 numeral_3_eq_3 split: if_splits)
  then show "b + unat c < node_count" "kid (node_ok V (replicate n ())) (unat c) (node_word (b + unat c))"
    by auto
qed

lemma root_ok_walk:
  assumes "root_ok V b" "entry (root_word b) (unat r)" "utf8_char c"
  shows "decided V (length c) (trie_walk table_nodes r c 0)"
proof -
  obtain l bs where c: "c = l # bs" and len: "utf8_len l = Suc (length bs)" and cont: "list_all cont_byte bs"
    using assms(3) by (auto elim: utf8_charE)
  define j where "j = jump (table_nodes ! unat r) l"
  have j: "unat j = b + unat l"
    using assms(2) by (simp add: j_def unat_jump unat_node_parts entry_def root_word_def)
  note kid = root_kid [OF assms(1) len, folded j]
  show ?thesis
  proof (cases "check_char (table_nodes ! unat j) = ucast l")
    case True
    then have "node_ok V (replicate (length bs) ()) (node_word (unat j))"
      using kid by (simp add: kid_def check_char_byte)
    from node_ok_walk [OF this kid(1) cont _ refl, of "Suc 0"] True show ?thesis
      by (simp add: c Let_def flip: j_def)
  next
    case False
    then show ?thesis by (simp add: c Let_def j_def decided_def)
  qed
qed

section \<open>The words of the string table\<close>

abbreviation char_byte :: "int \<Rightarrow> u8" where
  "char_byte \<equiv> word_of_int"

lemma unat_char_byte: "unat (char_byte x) = nat (x mod 256)"
  by (simp add: unsigned_of_int take_bit_eq_mod)

lemma char_mod:
  assumes "-128 \<le> x" "x < (128 :: int)"
  shows "x mod 256 = (if x < 0 then x + 256 else x)"
  using assms mod_pos_pos_trivial [of "x + 256" 256] mod_pos_pos_trivial [of x 256]
    mod_add_self2 [of x 256] by (auto simp del: mod_add_self2)

lemma byte_kind_Lead:
  assumes "byte_kind x = Lead us"
  shows "utf8_len (char_byte x) = Suc (length us)"
proof -
  have "-128 \<le> x" "x < 128" "x \<noteq> 0" using assms by (auto simp: byte_kind_def split: if_splits)
  then have u: "unat (char_byte x) = (if x < 0 then nat (x + 256) else nat x)"
    by (simp add: unat_char_byte char_mod)
  then have "char_byte x \<noteq> 0" using \<open>-128 \<le> x\<close> \<open>x \<noteq> 0\<close> by (auto split: if_splits)
  with assms u show ?thesis
    by (auto simp: byte_kind_def utf8_len_def nat_less_iff split: if_splits)
qed

lemma byte_kind_Cont:
  assumes "byte_kind x = Cont"
  shows "cont_byte (char_byte x)"
proof -
  have "-128 \<le> x" "x < -64" using assms by (auto simp: byte_kind_def split: if_splits)
  then show ?thesis by (auto simp: start_byte_unat unat_char_byte char_mod nat_less_iff le_nat_iff)
qed

lemma text_run_split:
  "text_run us xs \<Longrightarrow> \<exists>bs ds. map char_byte xs = bs @ concat ds \<and> length bs = length us \<and>
     list_all cont_byte bs \<and> list_all utf8_char ds"
proof (induction us xs rule: text_run.induct)
  case (1 us)
  then show ?case by (intro exI [of _ "[]"]) simp
next
  case (2 x xs)
  then obtain us where k: "byte_kind x = Lead us" and "text_run us xs"
    by (auto split: byte_kind.splits)
  with "2.IH" obtain bs ds where *: "map char_byte xs = bs @ concat ds" "length bs = length us"
    "list_all cont_byte bs" "list_all utf8_char ds" by blast
  have "utf8_char (char_byte x # bs)"
    using byte_kind_Lead [OF k] * by (simp add: utf8_char_def)
  with * show ?case by (intro exI [of _ "[]"] exI [of _ "(char_byte x # bs) # ds"]) simp
next
  case (3 u us x xs)
  then have k: "byte_kind x = Cont" and "text_run us xs" by (auto split: byte_kind.splits)
  with "3.IH" obtain bs ds where *: "map char_byte xs = bs @ concat ds" "length bs = length us"
    "list_all cont_byte bs" "list_all utf8_char ds" by blast
  with byte_kind_Cont [OF k] show ?case
    by (intro exI [of _ "char_byte x # bs"] exI [of _ ds]) simp
qed

lemma word_parts: "word_pos v = lo18 (unat v)" "word_len v = hi18 (unat v)"
proof -
  have "(0x3FFFF :: u32) = mask 18" by (simp add: mask_eq_exp_minus_1)
  then have "v AND 0x3FFFF = take_bit 18 v" by (simp only: take_bit_eq_mask)
  then show "word_pos v = lo18 (unat v)"
    by (simp add: word_pos_def lo18_def unsigned_take_bit_eq take_bit_eq_mod [of 18 "unat v"])
  have "take_bit 32 (unat v) = unat v"
    using unsigned_less [of v] by (simp add: take_bit_nat_eq_self_iff)
  then show "word_len v = hi18 (unat v)"
    using drop_bit_eq_div [of 18 "unat v"] by (simp add: word_len_def hi18_def unsigned_drop_bit_eq)
qed

lemma word_ok_text:
  assumes "word_ok (unat v)"
  shows "word_pos v + word_len v \<le> length TABLE_STRINGS"
    and "\<exists>ds. ds \<noteq> [] \<and> utf8_split (table_word TABLE_STRINGS v) = Some ds"
proof -
  let ?p = "word_pos v" and ?l = "word_len v" and ?xs = "concat string_lines"
  have l: "?l \<noteq> 0" "?l \<le> length ?xs - ?p" and run: "text_run [] (take ?l (drop ?p ?xs))"
    using assms by (simp_all add: word_ok_def text_at_def word_parts units_def)
  then show "?p + ?l \<le> length TABLE_STRINGS"
    by (simp add: TABLE_STRINGS_def)
  obtain ds where ds: "map char_byte (take ?l (drop ?p ?xs)) = concat ds" "list_all utf8_char ds"
    using text_run_split [OF run] by auto
  then have "utf8_split (table_word TABLE_STRINGS v) = Some ds"
    using utf8_split_concat by (simp add: table_word_def TABLE_STRINGS_def take_map drop_map)
  moreover have "ds \<noteq> []" using ds(1) l by auto
  ultimately show "\<exists>ds. ds \<noteq> [] \<and> utf8_split (table_word TABLE_STRINGS v) = Some ds" by blast
qed

section \<open>Interpretations\<close>

lemma table_bounds:
  assumes "n \<in> set table_nodes" "check_char n \<noteq> 0"
  shows "unat (base n) + 255 < length table_nodes"
proof -
  obtain k where k: "k < node_count" "n = table_nodes ! k"
    using assms(1) by (metis in_set_conv_nth length_table_nodes)
  have "hi24 (node_word k) \<noteq> 0" using assms(2) k by (simp add: check_char_0)
  then have "\<not> node_word k < 2 ^ 24" by (auto simp: hi24_def)
  then have "lo24 (node_word k) < 62600"
    using node_word_bounded [OF k(1)] by (simp add: word_bounded_def lo24_def)
  then show ?thesis
    using unat_node_parts(2) [OF k(1)] k by (simp only: length_table_nodes node_count_eq)
qed

lemma table_trie_nodes:
  assumes "entry (root_word b) (unat r)" "entry labelled b"
  shows "trie_nodes table_nodes r"
proof
  show "unat r < length table_nodes" "check_char (table_nodes ! unat r) \<noteq> 0"
    using assms(1) check_char_0 [of "unat r"]
    by (simp_all only: entry_def root_word_def length_table_nodes not_False_eq_True)
  show "check_char (table_nodes ! unat (jump (table_nodes ! unat r) 0)) \<noteq> 0"
    using assms by (auto simp: entry_def root_word_def labelled_def unat_jump_0 unat_node_parts check_char_0)
qed (rule table_bounds)

lemma table_char_trie:
  assumes "root_ok V b" "entry (root_word b) (unat r)" "entry labelled b"
  shows "char_trie table_nodes r"
proof (rule char_trie.intro)
  show "trie_nodes table_nodes r" using table_trie_nodes assms(2,3) .
  show "char_trie_axioms table_nodes r"
  proof
    fix c
    assume "utf8_char c"
    from root_ok_walk [OF assms(1,2) this]
    show "(\<exists>t. trie_walk table_nodes r c 0 = Hit t (length c)) \<or> (\<exists>n. trie_walk table_nodes r c 0 = Miss n)"
      by (auto simp: decided_def split: walk.splits)
  qed
qed

lemma table_value:
  assumes "root_ok V b" "entry (root_word b) (unat r)" "utf8_char c" "char_value table_nodes r c = Some v"
  shows "V (unat v)"
  using root_ok_walk [OF assms(1-3)] assms(4)
  by (auto simp: decided_def char_value_def split: walk.splits)

lemma table_decomp_trie:
  assumes "root_ok word_ok b" "entry (root_word b) (unat r)" "entry labelled b"
  shows "decomp_trie table_nodes r TABLE_STRINGS"
proof (rule decomp_trie.intro)
  show "char_trie table_nodes r" using table_char_trie assms .
  show "decomp_trie_axioms table_nodes r TABLE_STRINGS"
    using word_ok_text table_value [OF assms(1,2)] by unfold_locales blast+
qed

lemma table_word_fits:
  assumes "n \<in> set table_nodes" "check_char n = 0"
  shows "word_fits TABLE_STRINGS (value_of n)"
proof -
  obtain k where k: "k < node_count" "n = table_nodes ! k"
    using assms(1) by (metis in_set_conv_nth length_table_nodes)
  have "node_word k < 2 ^ 24" using assms(2) k by (simp add: check_char_0 hi24_def div_eq_0_iff)
  moreover from this have v: "unat (value_of n) = node_word k"
    using unat_node_parts(2) [OF k(1)] by (simp add: k(2) value_of_def lo24_def)
  ultimately have "hi18 (node_word k) < 64" by (simp add: hi18_def less_mult_imp_div_less)
  moreover have "word_inside (node_word k)"
    using node_word_bounded [OF k(1)] by (simp add: word_bounded_def)
  ultimately show ?thesis
    by (auto simp: word_fits_def word_parts v word_inside_def TABLE_STRINGS_def string_count_eq)
qed

lemma com_no_cont:
  assumes "cont_byte b"
  shows "check_char (table_nodes ! unat (jump (table_nodes ! 257) b)) \<noteq> ucast b"
proof -
  have b: "0x80 \<le> unat b" "unat b < 0xC0" using assms by (auto simp: start_byte_unat)
  have "unat (jump (table_nodes ! 257) b) = 203 + unat b"
    using roots_checked(1) by (simp add: unat_jump unat_node_parts entry_def root_word_def)
  moreover have "203 + unat b < node_count" "kid no_node (unat b) (node_word (203 + unat b))"
    using window_upt [OF com_trie_checked [unfolded label_lists] b] b by simp_all
  ultimately show ?thesis by (simp add: check_char_byte kid_def no_node_def split: if_splits)
qed

lemma table_comp_trie: "comp_trie table_nodes 257 TABLE_STRINGS"
proof (rule comp_trie.intro)
  show "trie_nodes table_nodes 257"
    by (rule table_trie_nodes [of 203]) (simp_all add: roots_checked)
  show "comp_trie_axioms table_nodes 257 TABLE_STRINGS"
    using table_word_fits com_no_cont by unfold_locales simp_all
qed

interpretation com: comp_trie table_nodes 257 TABLE_STRINGS
  by (rule table_comp_trie)

interpretation nfc_qc: char_trie table_nodes 261
  by (rule table_char_trie [OF nfc_trie_checked]) (simp_all add: roots_checked)

interpretation nfkc_qc: char_trie table_nodes 262
  by (rule table_char_trie [OF nfkc_trie_checked]) (simp_all add: roots_checked)

interpretation ccc: class_trie table_nodes 260
proof (rule class_trie.intro)
  show "char_trie table_nodes 260"
    by (rule table_char_trie [OF class_trie_checked]) (simp_all add: roots_checked)
  show "class_trie_axioms table_nodes 260"
    using table_value [OF class_trie_checked, of 260]
    by unfold_locales (simp add: roots_checked class_ok_def)
qed

interpretation nfd: decomposer table_nodes 260 258 TABLE_STRINGS
  by (rule decomposer.intro [OF ccc.class_trie_axioms table_decomp_trie [OF decomp_trie_checked]])
    (simp_all add: roots_checked)

interpretation nfkd: decomposer table_nodes 260 259 TABLE_STRINGS
  by (rule decomposer.intro [OF ccc.class_trie_axioms table_decomp_trie [OF compat_trie_checked]])
    (simp_all add: roots_checked)

interpretation nfc: scanner table_nodes 260 261
  by (rule scanner.intro [OF ccc.class_trie_axioms nfc_qc.char_trie_axioms])

interpretation nfkc: scanner table_nodes 260 262
  by (rule scanner.intro [OF ccc.class_trie_axioms nfkc_qc.char_trie_axioms])

interpretation nfc_com: recomposer table_nodes 260 258 261 257 TABLE_STRINGS
  by (rule recomposer.intro [OF nfd.decomposer_axioms nfc.scanner_axioms table_comp_trie])

interpretation nfkc_com: recomposer table_nodes 260 259 262 257 TABLE_STRINGS
  by (rule recomposer.intro [OF nfkd.decomposer_axioms nfkc.scanner_axioms table_comp_trie])

end
