(* ===== verification/Table_Lookup.thy ===== *)
theory Table_Lookup
  imports Table_Tries
begin

text \<open>
  Lookups in \<open>UNF::TABLE\<close> on concrete keys, used by the examples and by the witnesses.
\<close>

lemma path_walk:
  "path (lo24 (node_word (unat i))) cs P \<Longrightarrow> unat i < node_count \<Longrightarrow> list_all (\<lambda>c. c < 256) cs \<Longrightarrow>
   P (case trie_walk table_nodes i (map of_nat cs) k of Hit t _ \<Rightarrow> Some (unat (value_of t)) | _ \<Rightarrow> None)"
proof (induction cs arbitrary: i k)
  case (Cons c cs)
  define b where "b = lo24 (node_word (unat i))"
  define j where "j = jump (table_nodes ! unat i) (of_nat c)"
  have c: "unat (of_nat c :: u8) = c" using Cons.prems(3) by (simp add: unat_of_nat take_bit_nat_eq_self_iff)
  have j: "unat j = b + c" by (simp add: j_def unat_jump unat_node_parts(2) [OF Cons.prems(2)] b_def c)
  have e: "unat j < node_count" "path_edge c cs P (node_word (unat j))"
    using Cons.prems(1) by (simp_all only: path.simps entry_def j b_def)
  show ?case
  proof (cases "check_char (table_nodes ! unat j) = ucast (of_nat c :: u8)")
    case True
    then have l: "hi24 (node_word (unat j)) = c" using e(1) c by (simp only: check_char_byte)
    define t where "t = lo24 (node_word (unat j))"
    have n: "t < node_count" "path_node t cs P (node_word t)"
      using e(2) l by (simp_all add: entry_def t_def)
    have jt: "unat (jump (table_nodes ! unat j) 0) = t"
      by (simp add: unat_jump_0 unat_node_parts(2) [OF e(1)] t_def)
    show ?thesis
      using n True Cons.IH [of j "Suc k"] e(1) Cons.prems(3)
      by (auto simp: Let_def jt check_char_0 unat_node_parts value_of_def t_def split: if_splits simp flip: j_def)
  next
    case False
    then have "hi24 (node_word (unat j)) \<noteq> c" using e(1) c by (metis check_char_byte)
    then have "P None" using e(2) by simp
    with False show ?thesis by (simp add: Let_def flip: j_def)
  qed
qed simp

lemma path_value:
  assumes "path b cs P" "entry (root_word b) (unat r)" "list_all (\<lambda>c. c < 256) cs"
  shows "P (map_option unat (char_value table_nodes r (map of_nat cs)))"
proof -
  have "lo24 (node_word (unat r)) = b" "unat r < node_count"
    using assms(2) by (simp_all add: entry_def root_word_def)
  with path_walk [of r cs P 0] assms(1,3) show ?thesis
    by (auto simp: char_value_def split: walk.splits)
qed

section \<open>Concrete entries\<close>

definition the_word :: "nat \<Rightarrow> nat \<Rightarrow> bool" where
  "the_word d w \<longleftrightarrow> d = w"

lemma entry_data: "entry (the_word d) k \<Longrightarrow> data (table_nodes ! k) = of_nat d"
  by (simp add: entry_def the_word_def node_word_def node_count_def TABLE_NODES_def from_uint_array_def)

text \<open>The entries on the way of the bytes \<open>EA A7 FF\<close> from the root of the classes, and the first entry.\<close>

lemma slot_entries:
  "entry (the_word 209) 0" "entry (the_word 0x3300E546) 260" "entry (the_word 0xEA00E7F8) 58928"
  "entry (the_word 0xAE00E7C3) 59384" "entry (the_word 0xA700DA67) 59551" "entry (the_word 0x8100DAA7) 55911"
  "entry (the_word 0xFF000000) 56166"
  by (simp_all only: the_word_def check_simps class_rules rel_simps HOL.simp_thms cong: check_congs)

section \<open>Concrete keys\<close>

definition the_value :: "nat option \<Rightarrow> nat option \<Rightarrow> bool" where
  "the_value u v \<longleftrightarrow> u = v"

definition the_char :: "int \<Rightarrow> int \<Rightarrow> bool" where
  "the_char u v \<longleftrightarrow> u = v"

lemma decomp_keys:
  "path 26297 [0xC3, 0x85] (the_value (Some 929716))" "path 26297 [0x41] (the_value None)"
  "path 26297 [0xCC, 0x8A] (the_value None)"
  by (simp_all only: path_simps check_simps decomp_rules(2) the_value_def cong: check_congs)

lemma compat_keys: "path 52947 [0xEF, 0xAC, 0x81] (the_value (Some 568497))"
  by (simp only: path_simps check_simps compat_rules(20,22,23) the_value_def cong: check_congs)

lemma class_keys:
  "path 58694 [0x41] (the_value None)" "path 58694 [0x66] (the_value None)"
  "path 58694 [0x69] (the_value None)" "path 58694 [0xCC, 0x8A] (the_value (Some 230))"
  by (simp_all only: path_simps check_simps class_rules the_value_def cong: check_congs)

lemma decomp_word:
  "string_entry (the_char 65) 143284" "string_entry (the_char (-52)) 143285"
  "string_entry (the_char (-118)) 143286"
  "string_entry (the_char 102) 44209" "string_entry (the_char 105) 44210"
  by (simp_all only: string_entry_simps pick_simps string_rules(5,39) the_char_def simp_thms rel_simps
      cong: pick_cong)

lemma value_Some: "the_value (Some m) (map_option unat v) \<Longrightarrow> v = Some (of_nat m)" for v :: "u32 option"
  by (cases v) (auto simp: the_value_def)

lemma value_None: "the_value None (map_option unat v) \<Longrightarrow> v = None" for v :: "u32 option"
  by (cases v) (auto simp: the_value_def)

lemma table_values:
  "char_value table_nodes 258 [0xC3, 0x85] = Some 929716" "char_value table_nodes 258 [0x41] = None"
  "char_value table_nodes 258 [0xCC, 0x8A] = None" "char_value table_nodes 259 [0xEF, 0xAC, 0x81] = Some 568497"
  using value_Some [OF path_value [OF decomp_keys(1), of 258]] value_None [OF path_value [OF decomp_keys(2), of 258]]
    value_None [OF path_value [OF decomp_keys(3), of 258]] value_Some [OF path_value [OF compat_keys(1), of 259]]
  by (simp_all add: roots_checked)

lemma table_class_values:
  "char_value table_nodes 260 [0x41] = None" "char_value table_nodes 260 [0x66] = None"
  "char_value table_nodes 260 [0x69] = None" "char_value table_nodes 260 [0xCC, 0x8A] = Some 230"
  using value_None [OF path_value [OF class_keys(1), of 260]] value_None [OF path_value [OF class_keys(2), of 260]]
    value_None [OF path_value [OF class_keys(3), of 260]] value_Some [OF path_value [OF class_keys(4), of 260]]
  by (simp_all add: roots_checked)

lemma table_words:
  "table_word TABLE_STRINGS 929716 = [0x41, 0xCC, 0x8A]" "table_word TABLE_STRINGS 568497 = [0x66, 0x69]"
proof -
  have "word_pos 929716 = 143284" "word_len 929716 = 3" "word_pos 568497 = 44209" "word_len 568497 = 2"
    by (simp_all add: word_parts lo18_def hi18_def)
  moreover have "take 3 (drop 143284 (concat string_lines)) = [65, -52, -118]"
    "take 2 (drop 44209 (concat string_lines)) = [102, 105]"
    using decomp_word
    by (auto simp: string_entry_def the_char_def take_Suc_conv_app_nth numeral_3_eq_3 numeral_2_eq_2
        string_count_eq)
  ultimately show
    "table_word TABLE_STRINGS 929716 = [0x41, 0xCC, 0x8A]" "table_word TABLE_STRINGS 568497 = [0x66, 0x69]"
    by (simp_all add: table_word_def TABLE_STRINGS_def drop_map take_map)
qed

end
