(* ===== verification/Ruby.thy ===== *)
theory Ruby
  imports Prelude
begin

text \<open>
  Exceptions of Ruby. A C function that may raise is a function into \<open>rb_error + 'a\<close>, wrapped in
  \<open>option\<close> where it may also be undefined: \<open>None\<close> is undefined, \<open>Some (Inl e)\<close> is the exception
  \<open>e\<close>, which unwinds to the Ruby caller, \<open>Some (Inr x)\<close> is the result \<open>x\<close>.
\<close>

datatype rb_error =
  TypeError string
| ArgError string
| GeneratorError string
| NestingError int
| RangeError string
| ParserError nat bytes
| RuntimeError string

text \<open>Threads and other objects are known by a number.\<close>

type_synonym rb_thread = nat
type_synonym rb_object = nat

type_synonym 'a rb = "(rb_error + 'a) option"

definition rb_return :: "'a \<Rightarrow> 'a rb" where
  "rb_return x = Some (Inr x)"

definition rb_raise :: "rb_error \<Rightarrow> 'a rb" where
  "rb_raise e = Some (Inl e)"

text \<open>What follows a call that may raise, and a call that may not.\<close>

definition and_then :: "'a rb \<Rightarrow> ('a \<Rightarrow> 'b rb) \<Rightarrow> 'b rb" where
  "and_then m f = (case m of None \<Rightarrow> None | Some (Inl e) \<Rightarrow> Some (Inl e) | Some (Inr x) \<Rightarrow> f x)"

definition total :: "'a option \<Rightarrow> 'a rb" where
  "total m = map_option Inr m"

lemma and_then_simps [simp]:
  "and_then None f = None" "and_then (Some (Inl e)) f = Some (Inl e)" "and_then (Some (Inr x)) f = f x"
  "and_then (rb_return x) f = f x" "and_then (rb_raise e) f = rb_raise e"
  by (simp_all add: and_then_def rb_return_def rb_raise_def)

lemma total_simps [simp]: "total None = None" "total (Some x) = Some (Inr x)"
  by (simp_all add: total_def)

lemma and_then_cong [fundef_cong]:
  "m = m' \<Longrightarrow> (\<And>x. m' = Some (Inr x) \<Longrightarrow> f x = g x) \<Longrightarrow> and_then m f = and_then m' g"
  by (auto simp: and_then_def split: option.splits sum.splits)

text \<open>Hashes keep the order in which the keys were first entered.\<close>

fun hash_aset :: "('k \<times> 'v) list \<Rightarrow> 'k \<Rightarrow> 'v \<Rightarrow> ('k \<times> 'v) list" where
  "hash_aset [] k v = [(k, v)]"
| "hash_aset ((k', v') # kvs) k v = (if k' = k then (k', v) # kvs else (k', v') # hash_aset kvs k v)"

lemma map_of_hash_aset [simp]: "map_of (hash_aset kvs k v) = (map_of kvs)(k \<mapsto> v)"
  by (induction kvs k v rule: hash_aset.induct) auto

lemma hash_aset_new: "k \<notin> fst ` set kvs \<Longrightarrow> hash_aset kvs k v = kvs @ [(k, v)]"
  by (induction kvs k v rule: hash_aset.induct) auto

text \<open>A call on a state returns it, with the exception or the result.\<close>

type_synonym ('s, 'a) act = "('s \<times> (rb_error + 'a)) option"

definition checked :: "'s \<Rightarrow> rb_error + 'a \<Rightarrow> ('a \<Rightarrow> ('s, 'b) act) \<Rightarrow> ('s, 'b) act" where
  "checked s r f = (case r of Inl e \<Rightarrow> Some (s, Inl e) | Inr x \<Rightarrow> f x)"

definition act_then :: "('s, 'a) act \<Rightarrow> ('s \<Rightarrow> 'a \<Rightarrow> ('s, 'b) act) \<Rightarrow> ('s, 'b) act" where
  "act_then m f = (case m of None \<Rightarrow> None | Some (s, Inl e) \<Rightarrow> Some (s, Inl e) | Some (s, Inr x) \<Rightarrow> f s x)"

definition stay :: "'s \<Rightarrow> 'a rb \<Rightarrow> ('s, 'a) act" where
  "stay s m = map_option (\<lambda>r. (s, r)) m"

definition gives :: "'s \<Rightarrow> 'a \<Rightarrow> ('s, 'a) act" where
  "gives s x = Some (s, Inr x)"

end
