(* ===== verification/Unf_Ruby.thy ===== *)
theory Unf_Ruby
  imports Table Ruby
begin

text \<open>
  The Ruby class \<open>UNF::Normalizer\<close> of \<open>unf_ext/unf.cc\<close>. What the extension uses of Ruby's C
  interface is a parameter: \<open>rb_intern\<close> (a symbol's identifier from its name), \<open>StringValueCStr\<close>
  and \<open>SYM2ID\<close>, both of which may raise. The result of a call is \<open>None\<close> where the C++ code has no
  defined behaviour, and otherwise an exception (\<open>Inl\<close>) or a value (\<open>Inr\<close>).
\<close>

section \<open>Definitions\<close>

record 'id form_ids =
  ID_NFD :: 'id
  ID_NFC :: 'id
  ID_NFKD :: 'id
  ID_NFKC :: 'id

definition Init_unf_ext :: "(string \<Rightarrow> 'id) \<Rightarrow> 'id form_ids" where
  "Init_unf_ext rb_intern =
     \<lparr>ID_NFD = rb_intern ''nfd'', ID_NFC = rb_intern ''nfc'',
      ID_NFKD = rb_intern ''nfkd'', ID_NFKC = rb_intern ''nfkc''\<rparr>"

definition unf_allocate :: normalizer where
  "unf_allocate = Normalizer TABLE"

definition unf_initialize :: "normalizer \<Rightarrow> normalizer" where
  "unf_initialize self = self"

definition unknown_form :: string where
  "unknown_form = ''Specified Normalization-Form is unknown. Please select one from among :nfc, :nfd, :nfkc, :nfkd.''"

definition form_of :: "'id form_ids \<Rightarrow> 'id \<Rightarrow> form option" where
  "form_of ids form_id =
     (if form_id = ID_NFD ids then Some FORM_NFD
      else if form_id = ID_NFC ids then Some FORM_NFC
      else if form_id = ID_NFKD ids then Some FORM_NFKD
      else if form_id = ID_NFKC ids then Some FORM_NFKC
      else None)"

text \<open>\<open>rb_enc_str_new(rlt, strlen(rlt), ...)\<close> copies the string up to its first NUL.\<close>

definition c_string :: "bytes \<Rightarrow> bytes" where
  "c_string s = takeWhile (\<lambda>b. b \<noteq> 0) s"

definition unf_normalize ::
    "'id form_ids \<Rightarrow> ('v \<Rightarrow> rb_error + bytes) \<Rightarrow> ('v \<Rightarrow> rb_error + 'id) \<Rightarrow>
     normalizer \<Rightarrow> 'v \<Rightarrow> 'v \<Rightarrow> (rb_error + bytes \<times> normalizer) option" where
  "unf_normalize ids string_value_cstr sym2id self source normalization_form =
     (case string_value_cstr source of
        Inl e \<Rightarrow> Some (Inl e)
      | Inr src \<Rightarrow>
          (case sym2id normalization_form of
             Inl e \<Rightarrow> Some (Inl e)
           | Inr form_id \<Rightarrow>
               (case form_of ids form_id of
                  None \<Rightarrow> Some (Inl (ArgError unknown_form))
                | Some f \<Rightarrow> do {
                    r \<leftarrow> normalize self src 0 f;
                    Some (Inr (c_string (result_text src r), snd r))
                  })))"

section \<open>Lemmas\<close>

lemma c_string_id: "0 \<notin> set s \<Longrightarrow> c_string s = s"
  by (auto simp: c_string_def takeWhile_eq_all_conv)

lemma form_of_Init:
  assumes "inj rb_intern"
  shows "form_of (Init_unf_ext rb_intern) (rb_intern s) =
    (if s = ''nfd'' then Some FORM_NFD else if s = ''nfc'' then Some FORM_NFC
     else if s = ''nfkd'' then Some FORM_NFKD else if s = ''nfkc'' then Some FORM_NFKC else None)"
  using assms by (simp add: form_of_def Init_unf_ext_def inj_eq)

end
