(* ===== verification/Unf_Correct.thy ===== *)
theory Unf_Correct
  imports Table_Lookup Unf_Ruby
begin

text \<open>
  The properties of the normalizer on its own table, \<open>UNF::TABLE\<close>: the interfaces of the
  components have been interpreted on it in \<open>Table_Tries\<close>, so nothing is assumed of the table here.
\<close>

section \<open>The state of a normalizer object\<close>

text \<open>
  What holds of every object between two calls: the tries are those of the constructor; only the
  buffers differ.
\<close>

definition table_normalizer :: "normalizer \<Rightarrow> bool" where
  "table_normalizer n \<longleftrightarrow>
     n\<lparr>buffer := [], buffer2 := [], buffer3 := [], canonical_classes := []\<rparr> = Normalizer TABLE"

lemma table_normalizer_members:
  "table_normalizer n \<longleftrightarrow>
     nf_d n = NormalizationForm TABLE_NODES 258 (Some TABLE_STRINGS) \<and>
     nf_kd n = NormalizationForm TABLE_NODES 259 (Some TABLE_STRINGS) \<and>
     nf_c n = NormalizationForm TABLE_NODES 257 (Some TABLE_STRINGS) \<and>
     nf_c_qc n = NormalizationForm TABLE_NODES 261 None \<and>
     nf_kc_qc n = NormalizationForm TABLE_NODES 262 None \<and>
     ccc n = CanonicalCombiningClass TABLE_NODES 260"
  by (cases n) (auto simp: table_normalizer_def Normalizer_def TABLE_def)

lemma table_normalizer_buffers:
  "table_normalizer (n\<lparr>buffer := b, canonical_classes := kl\<rparr>) = table_normalizer n"
  "table_normalizer (n\<lparr>buffer := b, buffer2 := b2, buffer3 := b3, canonical_classes := kl\<rparr>) = table_normalizer n"
  by (simp_all add: table_normalizer_members)

lemma searcher_members [simp]:
  "nodes (NormalizationForm us r v) = from_uint_array us" "root (NormalizationForm us r v) = r"
  "value_ptr (NormalizationForm us r v) = v"
  "nodes (CanonicalCombiningClass us r) = from_uint_array us" "root (CanonicalCombiningClass us r) = r"
  by (simp_all add: NormalizationForm_def CanonicalCombiningClass_def Searcher_def)

section \<open>The reference definitions on the table\<close>

definition combining_class :: "bytes \<Rightarrow> u8" where
  "combining_class = char_class table_nodes 260"

definition canonical_decomposition :: "bytes list \<Rightarrow> bytes list" where
  "canonical_decomposition = normal_decomposition table_nodes 260 258 TABLE_STRINGS"

definition compatibility_decomposition :: "bytes list \<Rightarrow> bytes list" where
  "compatibility_decomposition = normal_decomposition table_nodes 260 259 TABLE_STRINGS"

lemma set_up_d:
  assumes "table_normalizer n"
  shows "nfd.set_up n (nf_d n)" "nfkd.set_up n (nf_kd n)" "nfc.set_up n (nf_c_qc n)"
    "nfkc.set_up n (nf_kc_qc n)"
    and "value_ptr (nf_d n) = Some TABLE_STRINGS" "value_ptr (nf_kd n) = Some TABLE_STRINGS"
  using assms
  by (simp_all add: table_normalizer_members nfd.set_up_def nfkd.set_up_def nfc.set_up_def nfkc.set_up_def)

lemma keeps_tries:
  "n\<lparr>buffer := buffer n', canonical_classes := canonical_classes n'\<rparr> = n' \<Longrightarrow>
   table_normalizer n \<Longrightarrow> table_normalizer n'"
  by (metis table_normalizer_buffers(1))

lemma decomposed:
  assumes "\<exists>res n'. x = Some (res, n') \<and> result_text s (res, n') = t \<and>
    n\<lparr>buffer := buffer n', canonical_classes := canonical_classes n'\<rparr> = n'"
    and "table_normalizer n"
  shows "\<exists>r. x = Some r \<and> result_text s r = t \<and> table_normalizer (snd r)"
  using assms keeps_tries by fastforce

lemma nfd_returns:
  assumes "table_normalizer n" "utf8_split src = Some cs" "length (concat (canonical_decomposition cs)) < 2 ^ 32"
  shows "\<exists>r. nfd n src 0 = Some r \<and> result_text src r = concat (canonical_decomposition cs) \<and>
    table_normalizer (snd r)"
  using decomposed [OF nfd.norm_decompose_eq assms(1)] set_up_d [OF assms(1)] utf8_split_SomeD [OF assms(2)] assms(3)
  by (simp add: nfd_def canonical_decomposition_def)

lemma nfkd_returns:
  assumes "table_normalizer n" "utf8_split src = Some cs" "length (concat (compatibility_decomposition cs)) < 2 ^ 32"
  shows "\<exists>r. nfkd n src 0 = Some r \<and> result_text src r = concat (compatibility_decomposition cs) \<and>
    table_normalizer (snd r)"
  using decomposed [OF nfkd.norm_decompose_eq assms(1)] set_up_d [OF assms(1)] utf8_split_SomeD [OF assms(2)] assms(3)
  by (simp add: nfkd_def compatibility_decomposition_def)

lemma decompositions_text:
  assumes "list_all utf8_char cs"
  shows "list_all utf8_char (canonical_decomposition cs)" "list_all utf8_char (compatibility_decomposition cs)"
  using nfd.full_decomposition_text(1) [OF assms] nfkd.full_decomposition_text(1) [OF assms]
  by (simp_all add: canonical_decomposition_def compatibility_decomposition_def normal_decomposition_def
      list_all_iff)

section \<open>Examples\<close>

text \<open>\<open>A\<close> with a ring above (\<open>C3 85\<close>) and the ligature \<open>fi\<close> (\<open>EF AC 81\<close>).\<close>

lemma utf8_chars [simp]:
  "utf8_char [0xC3, 0x85]" "utf8_char [0xCC, 0x8A]" "utf8_char [0x41]" "utf8_char [0x66]"
  "utf8_char [0x69]" "utf8_char [0xEF, 0xAC, 0x81]"
  by (simp_all add: utf8_char_def utf8_len_def start_byte_unat)

lemma example_splits:
  "utf8_split [0xC3, 0x85] = Some [[0xC3, 0x85]]" "utf8_split [0x41] = Some [[0x41]]"
  "utf8_split [0xEF, 0xAC, 0x81] = Some [[0xEF, 0xAC, 0x81]]"
  "utf8_split [0x41, 0xCC, 0x8A] = Some [[0x41], [0xCC, 0x8A]]" "utf8_split [0x66, 0x69] = Some [[0x66], [0x69]]"
  using utf8_split_concat [of "[[0xC3, 0x85]]"] utf8_split_concat [of "[[0x41]]"]
    utf8_split_concat [of "[[0xEF, 0xAC, 0x81]]"] utf8_split_concat [of "[[0x41], [0xCC, 0x8A]]"]
    utf8_split_concat [of "[[0x66], [0x69]]"] by simp_all

lemma example_classes:
  "combining_class [0x41] = 0" "combining_class [0xCC, 0x8A] = 230" "combining_class [0x66] = 0"
  "combining_class [0x69] = 0"
  by (simp_all add: combining_class_def char_class_def table_class_values)

lemma example_decompositions:
  "canonical_decomposition [[0xC3, 0x85]] = [[0x41], [0xCC, 0x8A]]"
  "compatibility_decomposition [[0xEF, 0xAC, 0x81]] = [[0x66], [0x69]]"
  using example_classes
  by (simp_all add: canonical_decomposition_def compatibility_decomposition_def normal_decomposition_def
      char_decomposition_def decomp_char_def table_values table_words example_splits canonical_order_def
      combining_class_def del: utf8_split.simps)

lemma table_normalizer_new: "table_normalizer unf_allocate"
  by (simp add: table_normalizer_def unf_allocate_def Normalizer_def)

section \<open>Decomposed forms\<close>

text \<open>
  C1. NFD: for every UTF-8 text whose decomposition has fewer than \<open>2\<^sup>3\<^sup>2\<close> bytes, which is what the
  code's unsigned offsets can hold, a normalizer object returns, reads and writes inside its objects
  only, and returns the canonical decomposition of the text: every character replaced by its
  decomposition in the table, then put in canonical order. The object stays ready for the next call.
\<close>

theorem nfd_correct:
  assumes "table_normalizer n" "utf8_split src = Some cs" "length (concat (canonical_decomposition cs)) < 2 ^ 32"
  shows "\<exists>r. nfd n src 0 = Some r \<and> result_text src r = concat (canonical_decomposition cs) \<and>
    table_normalizer (snd r)"
  using nfd_returns [OF assms] .

theorem nfd_correct_witness:
  "\<exists>r. nfd unf_allocate [0xC3, 0x85] 0 = Some r \<and> result_text [0xC3, 0x85] r = [0x41, 0xCC, 0x8A] \<and>
    table_normalizer (snd r)"
  using nfd_correct [OF table_normalizer_new example_splits(1)] by (simp add: example_decompositions)

text \<open>
  C2. NFKD: the same with the compatibility decompositions, with the same bound on the result.
\<close>

theorem nfkd_correct:
  assumes "table_normalizer n" "utf8_split src = Some cs" "length (concat (compatibility_decomposition cs)) < 2 ^ 32"
  shows "\<exists>r. nfkd n src 0 = Some r \<and> result_text src r = concat (compatibility_decomposition cs) \<and>
    table_normalizer (snd r)"
  using nfkd_returns [OF assms] .

theorem nfkd_correct_witness:
  "\<exists>r. nfkd unf_allocate [0xEF, 0xAC, 0x81] 0 = Some r \<and>
    result_text [0xEF, 0xAC, 0x81] r = [0x66, 0x69] \<and> table_normalizer (snd r)"
  using nfkd_correct [OF table_normalizer_new example_splits(3)] by (simp add: example_decompositions)

text \<open>
  C3. If the decomposition has fewer than \<open>2\<^sup>3\<^sup>2\<close> bytes, what NFD returns is a text again; it has the characters of the full decomposition, no two
  neighbours of it are out of canonical order, starters are where they were, and characters with
  the same combining class have kept their order.
\<close>

theorem nfd_canonical:
  assumes "table_normalizer n" "utf8_split src = Some cs" "length (concat (canonical_decomposition cs)) < 2 ^ 32"
  shows "\<exists>r ds. nfd n src 0 = Some r \<and> utf8_split (result_text src r) = Some ds \<and>
    ordered combining_class ds \<and>
    (let fs = full_decomposition table_nodes 258 TABLE_STRINGS cs in
      mset ds = mset fs \<and>
      map (\<lambda>c. combining_class c = 0) ds = map (\<lambda>c. combining_class c = 0) fs \<and>
      (\<forall>k. filter (\<lambda>c. combining_class c = k) ds = filter (\<lambda>c. combining_class c = k) fs))"
proof -
  obtain r where r: "nfd n src 0 = Some r" "result_text src r = concat (canonical_decomposition cs)"
    using nfd_returns [OF assms] by blast
  have "utf8_split (result_text src r) = Some (canonical_decomposition cs)"
    using decompositions_text utf8_split_SomeD [OF assms(2)] r(2) by (simp add: utf8_split_concat)
  with r(1) show ?thesis
    by (intro exI [of _ r] exI [of _ "canonical_decomposition cs"])
      (simp add: canonical_decomposition_def normal_decomposition_def combining_class_def
        ordered_canonical_order mset_canonical_order canonical_order_starters canonical_order_stable)
qed

theorem nfd_canonical_witness:
  "\<exists>r ds. nfd unf_allocate [0xC3, 0x85] 0 = Some r \<and> utf8_split (result_text [0xC3, 0x85] r) = Some ds \<and>
    ordered combining_class ds"
  using nfd_canonical [OF table_normalizer_new example_splits(1)] by (simp add: example_decompositions) blast

section \<open>Texts in normal form\<close>

definition illegal_root :: "form \<Rightarrow> u32" where
  "illegal_root f = (case f of FORM_NFD \<Rightarrow> 258 | FORM_NFC \<Rightarrow> 261 | FORM_NFKD \<Rightarrow> 259 | FORM_NFKC \<Rightarrow> 262)"

definition quick_check_passes :: "form \<Rightarrow> bytes list \<Rightarrow> bool" where
  "quick_check_passes f cs \<longleftrightarrow>
     list_all (\<lambda>c. char_value table_nodes (illegal_root f) c = None) cs \<and> ordered combining_class cs"

text \<open>
  C4. A text in which every character passes the quick check of the form and the combining
  classes are in order is returned as it is: the caller's pointer, with the object untouched.
\<close>

theorem normalized_unchanged:
  assumes "table_normalizer n" "utf8_split src = Some cs" "quick_check_passes f cs"
  shows "normalize n src 0 f = Some (Source 0, n)"
proof -
  note up = set_up_d [OF assms(1)]
  have src: "src = concat cs" "list_all utf8_char cs" using utf8_split_SomeD [OF assms(2)] by simp_all
  have end0: "rd src (length src) = Some 0" by (simp add: rd_def)
  from assms(3) show ?thesis
    using nfd.next_invalid_char_normalized [OF up(1) src(2), of "[]"]
      nfkd.next_invalid_char_normalized [OF up(2) src(2), of "[]"]
      nfc.next_invalid_char_normalized [OF up(3) src(2), of "[]"]
      nfkc.next_invalid_char_normalized [OF up(4) src(2), of "[]"] end0
    by (cases f) (simp_all add: quick_check_passes_def illegal_root_def combining_class_def
        nfd_def nfkd_def nfc_def nfkc_def norm_decompose_def norm_compose_def src(1)
        nfd.passes_def [abs_def] nfkd.passes_def [abs_def] nfc.passes_def [abs_def] nfkc.passes_def [abs_def])
qed

theorem normalized_unchanged_witness:
  "normalize unf_allocate [0x41, 0xCC, 0x8A] 0 FORM_NFD = Some (Source 0, unf_allocate)"
proof -
  have "quick_check_passes FORM_NFD [[0x41], [0xCC, 0x8A]]"
    by (simp add: quick_check_passes_def illegal_root_def table_values example_classes)
  from normalized_unchanged [OF table_normalizer_new example_splits(4) this] show ?thesis .
qed

section \<open>Searches\<close>

text \<open>
  C5. No search in the table leaves the node array: from each of the six roots, on any string at
  any offset (UTF-8 or not), the lookup terminates, reads inside the string and the array, and
  returns what the walk over the remaining bytes finds.
\<close>

theorem find_value_safe:
  assumes "r \<in> {257, 258, 259, 260, 261, 262}" "p \<le> length str" "0 \<notin> set (drop p str)"
  shows "find_value (Searcher table_nodes r v) str p d =
    Some (walk_value d (trie_walk table_nodes r (drop p str) 0))"
proof -
  let ?s = "Searcher table_nodes r v"
  have n: "nodes ?s = table_nodes" "root ?s = r" by (simp_all add: Searcher_def)
  consider "r = 257" | "r = 258" | "r = 259" | "r = 260" | "r = 261" | "r = 262"
    using assms(1) by auto
  then show ?thesis
    using com.find_value_eq [OF n(1) _ assms(2,3)] nfd.dec.find_value_eq [OF n(1) _ assms(2,3)]
      nfkd.dec.find_value_eq [OF n(1) _ assms(2,3)] ccc.find_value_eq [OF n(1) _ assms(2,3)]
      nfc_qc.find_value_eq [OF n(1) _ assms(2,3)] nfkc_qc.find_value_eq [OF n(1) _ assms(2,3)] n(2)
    by cases auto
qed

theorem find_value_safe_witness:
  "find_value (Searcher table_nodes 260 None) [0xCC, 0x8A] 0 0 =
    Some (walk_value 0 (trie_walk table_nodes 260 [0xCC, 0x8A] 0))"
  using find_value_safe [of 260 0 "[0xCC, 0x8A]" None 0] by simp

text \<open>
  C6. The free slots of the node array carry the label \<open>FF\<close> and lead to node 0, whose label is that of
  a terminal node. Wherever the bytes of a string have led a search into the trie, from any of the
  roots that are searched, and the slot for a byte \<open>FF\<close> is free there, the search takes this byte for
  an edge and ends with a hit: the value is 209, the word of node 0, and not the default value. As a
  combining class it makes the byte a mark; in a quick check it makes it a character to replace.
\<close>

theorem free_slot_matches:
  assumes "r \<in> {258, 259, 260, 261, 262}" "trie_walk table_nodes r w 0 = Mid i"
    "data (table_nodes ! unat (jump (table_nodes ! unat i) 0xFF)) = 0xFF000000" "0 \<notin> set (w @ post)"
  shows "find_value (Searcher table_nodes r v) (pre @ w @ 0xFF # post) (length pre) d = Some 209"
proof -
  let ?m = "table_nodes ! unat (jump (table_nodes ! unat i) 0xFF)"
  have "unat (check_char ?m) = 255" "unat (jump ?m 0) = 0"
    using assms(3) by (simp_all add: unat_check_char unat_jump_0 unat_base)
  moreover have "unat (check_char (table_nodes ! 0)) = 0" "unat (value_of (table_nodes ! 0)) = 209"
    using entry_data [OF slot_entries(1)] by (simp_all add: unat_check_char value_of_def unat_base)
  ultimately have hit: "trie_walk table_nodes i (0xFF # post) k = Hit (table_nodes ! 0) (Suc k)"
    "value_of (table_nodes ! 0) = 209" for k
    by (simp_all add: word_unat_eq_iff Let_def)
  have "trie_walk table_nodes r (w @ 0xFF # post) 0 = Hit (table_nodes ! 0) (Suc (length w))"
    using trie_walk_Mid [OF assms(2)] hit(1) by simp
  moreover have "find_value (Searcher table_nodes r v) (pre @ w @ 0xFF # post) (length pre) d =
      Some (walk_value d (trie_walk table_nodes r (w @ 0xFF # post) 0))"
  proof -
    let ?s = "Searcher table_nodes r v" and ?str = "pre @ w @ 0xFF # post"
    have n: "nodes ?s = table_nodes" "root ?s = r" by (simp_all add: Searcher_def)
    have str: "length pre \<le> length ?str" "0 \<notin> set (drop (length pre) ?str)" using assms(4) by simp_all
    consider "r = 258" | "r = 259" | "r = 260" | "r = 261" | "r = 262" using assms(1) by auto
    then have "find_value ?s ?str (length pre) d = Some (walk_value d (trie_walk table_nodes r (drop (length pre) ?str) 0))"
      using nfd.dec.find_value_eq [OF n(1) _ str] nfkd.dec.find_value_eq [OF n(1) _ str] ccc.find_value_eq [OF n(1) _ str]
        nfc_qc.find_value_eq [OF n(1) _ str] nfkc_qc.find_value_eq [OF n(1) _ str] n(2)
      by cases auto
    then show ?thesis by simp
  qed
  ultimately show ?thesis by (simp add: hit(2))
qed

text \<open>From the root of the classes the bytes \<open>EA A7\<close> lead to node 59551, which has a free slot for \<open>FF\<close>.\<close>

lemma slot_walk:
  "trie_walk table_nodes 260 [0xEA, 0xA7] 0 = Mid 59551"
  "data (table_nodes ! unat (jump (table_nodes ! unat (59551 :: u32)) 0xFF)) = 0xFF000000"
proof -
  note d = slot_entries [THEN entry_data]
  have "jump (table_nodes ! 260) 0xEA = 58928" "jump (table_nodes ! 58928) 0 = 59384" "jump (table_nodes ! 58928) 0xA7 = 59551"
    "jump (table_nodes ! 59551) 0 = 55911" "jump (table_nodes ! 59551) 0xFF = 56166"
    "check_char (table_nodes ! 58928) = 0xEA" "check_char (table_nodes ! 59384) \<noteq> 0" "check_char (table_nodes ! 59551) = 0xA7"
    "check_char (table_nodes ! 55911) \<noteq> 0"
    by (simp_all add: word_unat_eq_iff unat_jump unat_base unat_check_char d)
  then show "trie_walk table_nodes 260 [0xEA, 0xA7] 0 = Mid 59551"
    "data (table_nodes ! unat (jump (table_nodes ! unat (59551 :: u32)) 0xFF)) = 0xFF000000"
    using d by (simp_all add: Let_def)
qed

theorem free_slot_matches_witness:
  "get_class (CanonicalCombiningClass TABLE_NODES 260) ([0x41] @ [0xEA, 0xA7] @ 0xFF # [0x42]) (length [0x41 :: u8]) = Some 209"
  using free_slot_matches [OF _ slot_walk, of "[0x42]" None "[0x41]" 0]
  by (simp add: get_class_def CanonicalCombiningClass_def)

section \<open>Scanning\<close>

definition quick_check_form :: "normalizer \<Rightarrow> form \<Rightarrow> searcher" where
  "quick_check_form n f =
     (case f of FORM_NFD \<Rightarrow> nf_d n | FORM_NFC \<Rightarrow> nf_c_qc n | FORM_NFKD \<Rightarrow> nf_kd n | FORM_NFKC \<Rightarrow> nf_kc_qc n)"

lemma scanner_table: "scanner table_nodes 260 (illegal_root f)"
  using nfd.scanner_axioms nfkd.scanner_axioms nfc.scanner_axioms nfkc.scanner_axioms
  by (cases f) (simp_all add: illegal_root_def)

lemma set_up_form:
  "table_normalizer n \<Longrightarrow> scanner.set_up table_nodes 260 (illegal_root f) n (quick_check_form n f)"
  using set_up_d [of n]
  by (cases f) (simp_all add: illegal_root_def quick_check_form_def)

lemma passes_form: "scanner.passes table_nodes (illegal_root f) c \<longleftrightarrow> char_value table_nodes (illegal_root f) c = None"
  by (rule scanner.passes_def [OF scanner_table])

text \<open>
  C10. Scanning for the next part to normalize, in each of the four forms: the scan cuts the text
  into a part that passes the quick check, with its classes in order, and a rest; the cut is at the
  start, at the end, or in front of a starter that passes, and a rest is left only if the text as a
  whole does not pass.
\<close>

theorem next_invalid_char_cut:
  assumes "table_normalizer n" "list_all utf8_char cs"
  shows "\<exists>as bs. cs = as @ bs \<and>
    next_invalid_char n (quick_check_form n f) (pre @ concat cs) (length pre) =
      Some (length pre + length (concat as)) \<and>
    quick_check_passes f as \<and>
    (bs = [] \<or> \<not> quick_check_passes f cs) \<and>
    (bs = [] \<or> as = [] \<or> combining_class (hd bs) = 0 \<and> quick_check_passes f [hd bs])"
proof -
  note up = set_up_form [OF assms(1), of f]
  obtain as bs where *: "cs = as @ bs"
    "next_invalid_char n (quick_check_form n f) (pre @ concat cs) (length pre) = Some (length (pre @ concat as))"
    "list_all (scanner.passes table_nodes (illegal_root f)) as" "ordered (char_class table_nodes 260) as"
    "bs = [] \<or> as = [] \<or> char_class table_nodes 260 (hd bs) = 0 \<and> scanner.passes table_nodes (illegal_root f) (hd bs)"
    by (rule scanner.next_invalid_char_split [OF scanner_table up assms(2)])
  have "bs = []" if "quick_check_passes f cs"
  proof -
    have "next_invalid_char n (quick_check_form n f) (pre @ concat cs) (length pre) =
        Some (length pre + length (concat cs))"
      using that scanner.next_invalid_char_normalized [OF scanner_table up assms(2)]
      by (simp add: quick_check_passes_def passes_form combining_class_def list_all_iff)
    then have "concat bs = []" using * by simp
    then show ?thesis using assms(2) * by (cases bs) auto
  qed
  then have "bs = [] \<or> \<not> quick_check_passes f cs" by blast
  moreover have "quick_check_passes f as"
    using *(3,4) by (simp add: quick_check_passes_def passes_form combining_class_def list_all_iff)
  moreover have "bs = [] \<or> as = [] \<or> combining_class (hd bs) = 0 \<and> quick_check_passes f [hd bs]"
    using *(5) by (simp add: quick_check_passes_def passes_form combining_class_def)
  ultimately show ?thesis using *(1,2) by (metis length_append)
qed

theorem next_invalid_char_cut_witness:
  "\<exists>as bs. [[0x41 :: u8]] = as @ bs \<and>
    next_invalid_char unf_allocate (quick_check_form unf_allocate FORM_NFD) [0x41] 0 =
      Some (length (concat as)) \<and> (bs = [] \<or> \<not> quick_check_passes FORM_NFD [[0x41]])"
  using next_invalid_char_cut [OF table_normalizer_new, of "[[0x41]]" FORM_NFD "[]"] by simp blast

text \<open>
  Scanning for the end of the part to normalize: the scan skips the character it starts at and
  every following character that is not a starter or does not pass, and stops at the first one that
  is a starter and passes, or at the end of the text.
\<close>

theorem next_valid_starter_first:
  assumes "table_normalizer n" "list_all utf8_char (c # cs)"
  shows "next_valid_starter n (quick_check_form n f) (pre @ concat (c # cs)) (length pre) =
    Some (length pre + length c +
      length (concat (takeWhile (\<lambda>d. combining_class d \<noteq> 0 \<or> \<not> quick_check_passes f [d]) cs)))"
  using assms(2) nearest_after_char [of c cs pre]
    scanner.next_valid_starter_loop_eq [OF scanner_table set_up_form [OF assms(1), of f], of cs "pre @ c"]
  by (simp add: next_valid_starter_def quick_check_passes_def passes_form combining_class_def)

theorem next_valid_starter_first_witness:
  "next_valid_starter unf_allocate (quick_check_form unf_allocate FORM_NFD) [0x41, 0xCC, 0x8A] 0 = Some 3"
  using next_valid_starter_first [OF table_normalizer_new, of "[0x41]" "[[0xCC, 0x8A]]" FORM_NFD "[]"]
  by (simp add: example_classes)

section \<open>Composed forms\<close>

lemma ready_com:
  assumes "table_normalizer n"
  shows "nfc_com.ready n (nf_c_qc n) (nf_d n)" "nfkc_com.ready n (nf_kc_qc n) (nf_kd n)"
  using assms set_up_d [OF assms]
  by (simp_all add: nfc_com.ready_def nfkc_com.ready_def table_normalizer_members)

text \<open>
  C11. NFC and NFKC: for every UTF-8 text shorter than 64 MB, however its characters combine, a
  normalizer object returns and reads and writes inside its objects only: the trie, the string
  table, the vector of classes and the texts that composition runs over. The result starts with the
  part of the text in front of the first place to change; if there is none, it is the caller's own
  pointer. The object stays ready for the next call.
\<close>

theorem composed_forms_return:
  assumes "table_normalizer n" "utf8_split src = Some cs" "length src < 2 ^ 26"
    and "f \<in> {FORM_NFC, FORM_NFKC}"
  shows "\<exists>k res n' xs. next_invalid_char n (quick_check_form n f) src 0 = Some k \<and> k \<le> length src \<and>
    normalize n src 0 f = Some (res, n') \<and> table_normalizer n' \<and>
    result_text src (res, n') = take k src @ xs \<and> (k = length src \<longrightarrow> res = Source 0)"
proof -
  have src: "src = concat cs" "list_all utf8_char cs" using utf8_split_SomeD [OF assms(2)] by simp_all
  then have small: "length (concat cs) < 2 ^ 26" using assms(3) by simp
  have keep: "table_normalizer n'" if "n\<lparr>buffer := buffer n', buffer2 := buffer2 n', buffer3 := buffer3 n',
      canonical_classes := canonical_classes n'\<rparr> = n'" for n'
    using assms(1) that by (metis table_normalizer_buffers(2))
  from assms(4) consider "f = FORM_NFC" | "f = FORM_NFKC" by auto
  then show ?thesis
  proof cases
    case 1
    with nfc_com.norm_compose_ok [OF ready_com(1) [OF assms(1)] src(2) small] keep show ?thesis
      unfolding src(1) by (simp add: nfc_def quick_check_form_def) blast
  next
    case 2
    with nfkc_com.norm_compose_ok [OF ready_com(2) [OF assms(1)] src(2) small] keep show ?thesis
      unfolding src(1) by (simp add: nfkc_def quick_check_form_def) blast
  qed
qed

theorem composed_forms_return_witness:
  "\<exists>k res n' xs. normalize unf_allocate [0x41, 0xCC, 0x8A] 0 FORM_NFC = Some (res, n') \<and>
    table_normalizer n' \<and> result_text [0x41, 0xCC, 0x8A] (res, n') = take k [0x41, 0xCC, 0x8A] @ xs"
  using composed_forms_return [OF table_normalizer_new example_splits(4), of FORM_NFC] by auto

section \<open>Canonical ordering and decomposition of a part\<close>

text \<open>
  C7. The sort of a buffer's tail by combining class: for every text of fewer than \<open>2\<^sup>3\<^sup>2\<close> bytes, so
  that the unsigned offsets and the count of characters do not wrap around, it terminates, stays inside the
  buffer and the vector of classes, leaves the front of the buffer alone, and leaves the tail a
  permutation of its characters in canonical order, with characters of one class in their order,
  and every byte's class in the vector.
\<close>

theorem ccc_sort_correct:
  assumes "list_all utf8_char cs" "cs \<noteq> []" "length (concat cs) < 2 ^ 32"
  shows "\<exists>ds. ccc_sort (CanonicalCombiningClass TABLE_NODES 260) (pre @ concat cs) (length pre)
      (replicate (length (concat cs) + 1) 0) =
        Some (pre @ concat ds, concat (map (\<lambda>c. replicate (length c) (combining_class c)) ds) @ [0]) \<and>
    mset ds = mset cs \<and> ordered combining_class ds \<and>
    map (\<lambda>c. combining_class c = 0) ds = map (\<lambda>c. combining_class c = 0) cs \<and>
    (\<forall>k. filter (\<lambda>c. combining_class c = k) ds = filter (\<lambda>c. combining_class c = k) cs)"
proof -
  have "class_bytes k ds = concat (map (\<lambda>c. replicate (length c) (k c)) ds)" for k :: "bytes \<Rightarrow> u8" and ds
    by (induction ds) simp_all
  then show ?thesis
    using ccc.ccc_sort_eq [OF _ _ assms, of "CanonicalCombiningClass TABLE_NODES 260" pre]
    by (intro exI [of _ "canonical_order combining_class cs"])
      (simp add: combining_class_def ordered_canonical_order mset_canonical_order canonical_order_starters
        canonical_order_stable)
qed

theorem ccc_sort_correct_witness:
  "\<exists>ds. ccc_sort (CanonicalCombiningClass TABLE_NODES 260) [0x41, 0xCC, 0x8A] 0 [0, 0, 0, 0] =
      Some (concat ds, concat (map (\<lambda>c. replicate (length c) (combining_class c)) ds) @ [0]) \<and>
    mset ds = mset [[0x41], [0xCC, 0x8A]]"
proof -
  let ?cs = "[[0x41], [0xCC, 0x8A]] :: bytes list"
  have "replicate (length (concat ?cs) + 1) (0 :: u8) = [0, 0, 0, 0]" by (simp add: numeral_eq_Suc)
  moreover have "list_all utf8_char ?cs" "?cs \<noteq> []" "length (concat ?cs) < 2 ^ 32" by simp_all
  ultimately show ?thesis using ccc_sort_correct [of ?cs "[]"] by auto
qed

text \<open>
  C9. Decomposing a part of a text appends the decomposition of each of its characters to the
  buffer, in order: the table's word for a character that has one, and the character itself
  otherwise. Nothing outside the part is read but the byte behind it.
\<close>

theorem decompose_range:
  assumes "r \<in> {258, 259}" "list_all utf8_char (c # cs)" "list_all utf8_char post"
  shows "decompose (NormalizationForm TABLE_NODES r (Some TABLE_STRINGS))
      (RangeCharStream (pre @ concat (c # cs) @ concat post) (length pre) (length pre + length (concat (c # cs))))
      buf =
    Some (buf @ concat (map (\<lambda>d. case char_value table_nodes r d of None \<Rightarrow> d
      | Some v \<Rightarrow> table_word TABLE_STRINGS v) (c # cs)))"
proof -
  have "decomp_trie table_nodes r TABLE_STRINGS"
    using assms(1) nfd.dec.decomp_trie_axioms nfkd.dec.decomp_trie_axioms by auto
  from decomp_trie.decompose_eq [OF this _ _ _ assms(3,2),
      of "NormalizationForm TABLE_NODES r (Some TABLE_STRINGS)" pre buf]
  show ?thesis by (simp add: decomp_char_def [abs_def])
qed

theorem decompose_range_witness:
  "decompose (NormalizationForm TABLE_NODES 258 (Some TABLE_STRINGS))
      (RangeCharStream [0x41, 0xC3, 0x85] 1 3) [0x41] = Some [0x41, 0x41, 0xCC, 0x8A]"
  using decompose_range [of 258 "[0xC3, 0x85]" "[]" "[]" "[0x41]" "[0x41]"]
  by (simp add: table_values table_words numeral_3_eq_3)

section \<open>The Ruby class\<close>

text \<open>
  A symbol other than the four names of forms raises the argument error of the code, and the
  object is not used.
\<close>

theorem unf_normalize_unknown:
  assumes "inj rb_intern" "string_value_cstr source = Inr src" "sym2id nform = Inr (rb_intern s)"
    and "s \<notin> {''nfd'', ''nfc'', ''nfkd'', ''nfkc''}"
  shows "unf_normalize (Init_unf_ext rb_intern) string_value_cstr sym2id self source nform =
    Some (Inl (ArgError unknown_form))"
  using assms by (simp add: unf_normalize_def form_of_Init)

theorem unf_normalize_unknown_witness:
  "unf_normalize (Init_unf_ext (\<lambda>s. s)) (\<lambda>v. Inr [0x41]) Inr unf_allocate ''A'' ''nfx'' =
    Some (Inl (ArgError unknown_form))"
  using unf_normalize_unknown [of "\<lambda>s. s" "\<lambda>v. Inr [0x41]" "''A''" "[0x41]" Inr "''nfx''" "''nfx''" unf_allocate]
  by simp

text \<open>
  C13. The method \<open>normalize\<close> with \<open>:nfd\<close> or \<open>:nfkd\<close>, on an object that is new or has been used
  before: for every UTF-8 string Ruby hands over whose decomposition has fewer than \<open>2\<^sup>3\<^sup>2\<close> bytes, the
  result is a string with the reference decomposition, complete up to its end, and the object stays
  usable.
\<close>

theorem unf_normalize_decomposes:
  assumes "inj rb_intern" "string_value_cstr source = Inr src" "sym2id nform = Inr (rb_intern s)"
    and "table_normalizer self" "utf8_split src = Some cs" "s \<in> {''nfd'', ''nfkd''}"
    "length (concat (if s = ''nfd'' then canonical_decomposition cs else compatibility_decomposition cs)) < 2 ^ 32"
  shows "\<exists>self'. unf_normalize (Init_unf_ext rb_intern) string_value_cstr sym2id self source nform =
      Some (Inr (concat (if s = ''nfd'' then canonical_decomposition cs else compatibility_decomposition cs),
        self')) \<and> table_normalizer self'"
proof -
  note wf = decompositions_text [OF conjunct2 [OF utf8_split_SomeD [OF assms(5)]]]
  from assms(6) consider "s = ''nfd''" | "s = ''nfkd''" by blast
  then show ?thesis
  proof cases
    case 1
    then obtain r where "nfd self src 0 = Some r" "result_text src r = concat (canonical_decomposition cs)"
      "table_normalizer (snd r)" using nfd_returns [OF assms(4,5)] assms(7) by auto
    with 1 show ?thesis
      using assms(1-3) text_no_nul [OF wf(1)] by (auto simp: unf_normalize_def form_of_Init c_string_id)
  next
    case 2
    then obtain r where "nfkd self src 0 = Some r" "result_text src r = concat (compatibility_decomposition cs)"
      "table_normalizer (snd r)" using nfkd_returns [OF assms(4,5)] assms(7) by auto
    with 2 show ?thesis
      using assms(1-3) text_no_nul [OF wf(2)] by (auto simp: unf_normalize_def form_of_Init c_string_id)
  qed
qed

theorem unf_normalize_decomposes_witness:
  "\<exists>self'. unf_normalize (Init_unf_ext (\<lambda>s. s)) (\<lambda>v. Inr [0xC3, 0x85]) Inr unf_allocate ''A'' ''nfd'' =
      Some (Inr ([0x41, 0xCC, 0x8A], self')) \<and> table_normalizer self'"
  using unf_normalize_decomposes [of "\<lambda>s. s" "\<lambda>v. Inr [0xC3, 0x85]" "''A''" "[0xC3, 0x85]" Inr "''nfd''" "''nfd''"
      unf_allocate "[[0xC3, 0x85]]"] table_normalizer_new example_splits(1)
  by (simp add: example_decompositions)

end
