(* ===== verification/Json_Utf8.thy ===== *)
theory Json_Utf8
  imports Prelude
begin

text \<open>
  UTF-8 in the json generator (\<open>ext/json/ext/generator/generator.c\<close>): the table of trailing
  bytes, the check of a byte sequence and the arithmetic that decodes it. The reference is the
  encoding of a Unicode scalar value: the check accepts every encoding, and besides only
  sequences whose lead byte is ED or F4 and whose second byte is below 80, which it does not
  check; the arithmetic inverts the encoding.
\<close>

section \<open>Definitions\<close>

definition trailingBytesForUTF8 :: "nat list" where
  "trailingBytesForUTF8 = [
    0,0,0,0,0,0,0,0,0,0,0,0,0,0,0,0, 0,0,0,0,0,0,0,0,0,0,0,0,0,0,0,0,
    0,0,0,0,0,0,0,0,0,0,0,0,0,0,0,0, 0,0,0,0,0,0,0,0,0,0,0,0,0,0,0,0,
    0,0,0,0,0,0,0,0,0,0,0,0,0,0,0,0, 0,0,0,0,0,0,0,0,0,0,0,0,0,0,0,0,
    0,0,0,0,0,0,0,0,0,0,0,0,0,0,0,0, 0,0,0,0,0,0,0,0,0,0,0,0,0,0,0,0,
    0,0,0,0,0,0,0,0,0,0,0,0,0,0,0,0, 0,0,0,0,0,0,0,0,0,0,0,0,0,0,0,0,
    0,0,0,0,0,0,0,0,0,0,0,0,0,0,0,0, 0,0,0,0,0,0,0,0,0,0,0,0,0,0,0,0,
    1,1,1,1,1,1,1,1,1,1,1,1,1,1,1,1, 1,1,1,1,1,1,1,1,1,1,1,1,1,1,1,1,
    2,2,2,2,2,2,2,2,2,2,2,2,2,2,2,2, 3,3,3,3,3,3,3,3,4,4,4,4,5,5,5,5]"

definition offsetsFromUTF8 :: "64 word list" where
  "offsetsFromUTF8 = [0x00000000, 0x00003080, 0x000E2080, 0x03C82080, 0xFA082080, 0x82082080]"

text \<open>The cases of the \<open>switch\<close> fall through; \<open>source\<close> is the offset \<open>p\<close> of \<open>str\<close>.\<close>

definition legal_case1 :: "bytes \<Rightarrow> nat \<Rightarrow> bool option" where
  "legal_case1 str p = do {
     s \<leftarrow> vec_at str p;
     if s \<ge> 0x80 \<and> s < 0xC2 then Some False
     else if s > 0xF4 then Some False
     else Some True
   }"

definition legal_case2 :: "bytes \<Rightarrow> nat \<Rightarrow> bool option" where
  "legal_case2 str p = do {
     a \<leftarrow> vec_at str (p + 1);
     if a > 0xBF then Some False
     else do {
       s \<leftarrow> vec_at str p;
       if s = 0xE0 then (if a < 0xA0 then Some False else legal_case1 str p)
       else if s = 0xED then (if a > 0x9F then Some False else legal_case1 str p)
       else if s = 0xF0 then (if a < 0x90 then Some False else legal_case1 str p)
       else if s = 0xF4 then (if a > 0x8F then Some False else legal_case1 str p)
       else (if a < 0x80 then Some False else legal_case1 str p)
     }
   }"

definition legal_case3 :: "bytes \<Rightarrow> nat \<Rightarrow> bool option" where
  "legal_case3 str p = do {
     a \<leftarrow> vec_at str (p + 2);
     if a < 0x80 \<or> a > 0xBF then Some False else legal_case2 str p
   }"

definition isLegalUTF8 :: "bytes \<Rightarrow> nat \<Rightarrow> nat \<Rightarrow> bool option" where
  "isLegalUTF8 str p len =
     (if len = 4 then do {
        a \<leftarrow> vec_at str (p + 3);
        if a < 0x80 \<or> a > 0xBF then Some False else legal_case3 str p
      }
      else if len = 3 then legal_case3 str p
      else if len = 2 then legal_case2 str p
      else if len = 1 then legal_case1 str p
      else Some False)"

text \<open>The \<open>switch\<close> that adds up a character, one byte per case.\<close>

fun gather :: "bytes \<Rightarrow> nat \<Rightarrow> nat \<Rightarrow> 64 word \<Rightarrow> 64 word option" where
  "gather str p 0 ch = do { b \<leftarrow> vec_at str p; Some (ch + ucast b) }"
| "gather str p (Suc e) ch = do { b \<leftarrow> vec_at str p; gather str (p + 1) e (push_bit 6 (ch + ucast b)) }"

definition decode_char :: "bytes \<Rightarrow> nat \<Rightarrow> nat \<Rightarrow> 64 word option" where
  "decode_char str p extraBytesToRead = do {
     ch \<leftarrow> gather str p extraBytesToRead 0;
     off \<leftarrow> vec_at offsetsFromUTF8 extraBytesToRead;
     Some (ch - off)
   }"

section \<open>Scalar values and their encoding\<close>

definition scalar :: "nat \<Rightarrow> bool" where
  "scalar cp \<longleftrightarrow> cp < 0xD800 \<or> 0xE000 \<le> cp \<and> cp \<le> 0x10FFFF"

definition encode_nat :: "nat \<Rightarrow> nat list" where
  "encode_nat cp =
     (if cp < 0x80 then [cp]
      else if cp < 0x800 then [0xC0 + cp div 64, 0x80 + cp mod 64]
      else if cp < 0x10000 then [0xE0 + cp div 4096, 0x80 + cp div 64 mod 64, 0x80 + cp mod 64]
      else [0xF0 + cp div 262144, 0x80 + cp div 4096 mod 64, 0x80 + cp div 64 mod 64, 0x80 + cp mod 64])"

definition encode :: "nat \<Rightarrow> bytes" where
  "encode cp = map of_nat (encode_nat cp)"

definition trailing :: "u8 \<Rightarrow> nat" where
  "trailing b = trailingBytesForUTF8 ! unat b"

lemma vec_at_trailing: "vec_at trailingBytesForUTF8 (unat b) = Some (trailing b)"
proof -
  have "length trailingBytesForUTF8 = 256" by (simp add: trailingBytesForUTF8_def)
  then show ?thesis by (simp add: vec_at_def trailing_def)
qed

lemma trailing_table:
  "\<forall>n \<in> {0..<256}. trailingBytesForUTF8 ! n =
     (if n < 0xC0 then 0 else if n < 0xE0 then 1 else if n < 0xF0 then 2 else if n < 0xF8 then 3
      else if n < 0xFC then 4 else 5)"
  by code_simp

lemma trailing_eq:
  "trailing b =
     (if unat b < 0xC0 then 0 else if unat b < 0xE0 then 1 else if unat b < 0xF0 then 2
      else if unat b < 0xF8 then 3 else if unat b < 0xFC then 4 else 5)"
  using trailing_table [rule_format, of "unat b"] by (simp add: trailing_def)

text \<open>Which byte sequences are encodings, by their length.\<close>

lemma split_digits:
  "(64 * x + y) div 64 = x" "(64 * x + y) mod 64 = y" if "y < 64" for x y :: nat
  using that by auto

text \<open>The encodings of two, three and four bytes, from the digits to the base 64.\<close>

lemma encode_nat_2: "0x80 \<le> cp \<Longrightarrow> cp < 0x800 \<Longrightarrow> encode_nat cp = [0xC0 + cp div 64, 0x80 + cp mod 64]"
  by (simp add: encode_nat_def)

lemma encode_nat_3:
  assumes "cp = 64 * (64 * u + v) + w" "v < 64" "w < 64" "0x800 \<le> cp" "cp < 0x10000"
  shows "encode_nat cp = [0xE0 + u, 0x80 + v, 0x80 + w]"
proof -
  have "cp div 64 = 64 * u + v" "cp mod 64 = w" unfolding assms(1) using assms(2,3) by (simp_all only: split_digits)
  moreover have "(64 * u + v) div 64 = u" "(64 * u + v) mod 64 = v" using assms(2) by (simp_all only: split_digits)
  moreover have "cp div 4096 = cp div 64 div 64" by (simp flip: div_mult2_eq)
  ultimately show ?thesis using assms(4,5) by (simp add: encode_nat_def)
qed

lemma encode_nat_4:
  assumes "cp = 64 * (64 * (64 * u + v) + w) + r" "v < 64" "w < 64" "r < 64" "0x10000 \<le> cp"
  shows "encode_nat cp = [0xF0 + u, 0x80 + v, 0x80 + w, 0x80 + r]"
proof -
  have "cp div 64 = 64 * (64 * u + v) + w" "cp mod 64 = r"
    unfolding assms(1) using assms(4) by (simp_all only: split_digits)
  moreover have "(64 * (64 * u + v) + w) div 64 = 64 * u + v" "(64 * (64 * u + v) + w) mod 64 = w"
    using assms(3) by (simp_all only: split_digits)
  moreover have "(64 * u + v) div 64 = u" "(64 * u + v) mod 64 = v" using assms(2) by (simp_all only: split_digits)
  moreover have "cp div 4096 = cp div 64 div 64" "cp div 262144 = cp div 64 div 64 div 64"
    by (simp_all flip: div_mult2_eq)
  ultimately show ?thesis using assms(5) by (simp add: encode_nat_def)
qed

lemma encode2_iff:
  "(\<exists>cp. scalar cp \<and> encode_nat cp = [x, y]) \<longleftrightarrow> 0xC2 \<le> x \<and> x \<le> 0xDF \<and> 0x80 \<le> y \<and> y \<le> 0xBF"
proof
  assume "\<exists>cp. scalar cp \<and> encode_nat cp = [x, y]"
  then obtain cp where cp: "encode_nat cp = [x, y]" by blast
  then have "0x80 \<le> cp" "cp < 0x800" "x = 0xC0 + cp div 64" "y = 0x80 + cp mod 64"
    by (auto simp: encode_nat_def split: if_splits)
  moreover have "2 \<le> cp div 64" "cp div 64 < 32" "cp mod 64 < 64"
    using \<open>0x80 \<le> cp\<close> \<open>cp < 0x800\<close> by (auto simp: less_eq_div_iff_mult_less_eq div_less_iff_less_mult)
  ultimately show "0xC2 \<le> x \<and> x \<le> 0xDF \<and> 0x80 \<le> y \<and> y \<le> 0xBF" by simp
next
  assume xy: "0xC2 \<le> x \<and> x \<le> 0xDF \<and> 0x80 \<le> y \<and> y \<le> 0xBF"
  define u v where "u = x - 0xC0" and "v = y - 0x80"
  have uv: "2 \<le> u" "u < 32" "v < 64" "x = 0xC0 + u" "y = 0x80 + v" using xy by (auto simp: u_def v_def)
  then have "scalar (64 * u + v)" "encode_nat (64 * u + v) = [x, y]"
    by (auto simp: scalar_def encode_nat_def split_digits)
  then show "\<exists>cp. scalar cp \<and> encode_nat cp = [x, y]" by blast
qed

lemma div_4096: "cp div 4096 = cp div 64 div 64" and div_262144: "cp div 262144 = cp div 64 div 64 div 64"
  for cp :: nat
  by (simp_all flip: div_mult2_eq)

lemma encode3_iff:
  "(\<exists>cp. scalar cp \<and> encode_nat cp = [x, y, z]) \<longleftrightarrow>
     0xE0 \<le> x \<and> x \<le> 0xEF \<and> 0x80 \<le> y \<and> y \<le> 0xBF \<and> 0x80 \<le> z \<and> z \<le> 0xBF \<and>
     (x = 0xE0 \<longrightarrow> 0xA0 \<le> y) \<and> (x = 0xED \<longrightarrow> y \<le> 0x9F)"
  (is "?L \<longleftrightarrow> ?R")
proof
  assume ?L
  then obtain cp where cp: "scalar cp" "encode_nat cp = [x, y, z]" by blast
  define u v w where "u = cp div 64 div 64" and "v = cp div 64 mod 64" and "w = cp mod 64"
  have "cp = 64 * (64 * u + v) + w" by (simp add: u_def v_def w_def)
  moreover have "v < 64" "w < 64" by (simp_all add: v_def w_def)
  moreover have "0x800 \<le> cp" "cp < 0x10000" "x = 0xE0 + u" "y = 0x80 + v" "z = 0x80 + w"
    using cp(2) by (auto simp: encode_nat_def u_def v_def w_def div_4096 split: if_splits)
  ultimately show ?R using cp(1) unfolding scalar_def by auto
next
  assume xyz: ?R
  define u v w where "u = x - 0xE0" and "v = y - 0x80" and "w = z - 0x80"
  have uvw: "u < 16" "v < 64" "w < 64" "x = 0xE0 + u" "y = 0x80 + v" "z = 0x80 + w"
    "u = 0 \<longrightarrow> 32 \<le> v" "u = 13 \<longrightarrow> v < 32" using xyz by (auto simp: u_def v_def w_def)
  let ?cp = "64 * (64 * u + v) + w"
  have "0x800 \<le> ?cp" "?cp < 0x10000" using uvw by (cases "u = 0"; auto)+
  moreover have "scalar ?cp"
  proof -
    consider "u < 13" | "u = 13" | "13 < u" by linarith
    then show ?thesis using uvw by cases (auto simp: scalar_def)
  qed
  ultimately have "scalar ?cp" "encode_nat ?cp = [x, y, z]"
    using encode_nat_3 [OF refl uvw(2,3)] uvw(4-6) by simp_all
  then show ?L by blast
qed

lemma encode4_iff:
  "(\<exists>cp. scalar cp \<and> encode_nat cp = [x, y, z, t]) \<longleftrightarrow>
     0xF0 \<le> x \<and> x \<le> 0xF4 \<and> 0x80 \<le> y \<and> y \<le> 0xBF \<and> 0x80 \<le> z \<and> z \<le> 0xBF \<and> 0x80 \<le> t \<and> t \<le> 0xBF \<and>
     (x = 0xF0 \<longrightarrow> 0x90 \<le> y) \<and> (x = 0xF4 \<longrightarrow> y \<le> 0x8F)"
  (is "?L \<longleftrightarrow> ?R")
proof
  assume ?L
  then obtain cp where cp: "scalar cp" "encode_nat cp = [x, y, z, t]" by blast
  define u v w r where "u = cp div 64 div 64 div 64" and "v = cp div 64 div 64 mod 64"
    and "w = cp div 64 mod 64" and "r = cp mod 64"
  have "cp = 64 * (64 * (64 * u + v) + w) + r" by (simp add: u_def v_def w_def r_def)
  moreover have "v < 64" "w < 64" "r < 64" by (simp_all add: v_def w_def r_def)
  moreover have "0x10000 \<le> cp" "x = 0xF0 + u" "y = 0x80 + v" "z = 0x80 + w" "t = 0x80 + r"
    using cp(2) by (auto simp: encode_nat_def u_def v_def w_def r_def div_4096 div_262144 split: if_splits)
  ultimately show ?R using cp(1) unfolding scalar_def by auto
next
  assume xyzt: ?R
  define u v w r where "u = x - 0xF0" and "v = y - 0x80" and "w = z - 0x80" and "r = t - 0x80"
  have uvw: "u \<le> 4" "v < 64" "w < 64" "r < 64" "x = 0xF0 + u" "y = 0x80 + v" "z = 0x80 + w" "t = 0x80 + r"
    "u = 0 \<longrightarrow> 16 \<le> v" "u = 4 \<longrightarrow> v < 16" using xyzt by (auto simp: u_def v_def w_def r_def)
  let ?cp = "64 * (64 * (64 * u + v) + w) + r"
  have "0x10000 \<le> ?cp" using uvw by (cases "u = 0") auto
  moreover have "?cp \<le> 0x10FFFF" using uvw by (cases "u = 4") auto
  ultimately have "scalar ?cp" "encode_nat ?cp = [x, y, z, t]"
    using encode_nat_4 [OF refl uvw(2-4)] uvw(5-8) by (simp_all add: scalar_def)
  then show ?L by blast
qed

section \<open>What the check accepts\<close>

text \<open>The sequences that are no encodings and pass: the second byte is not checked from below.\<close>

definition loose :: "bytes \<Rightarrow> bool" where
  "loose bs \<longleftrightarrow> (case map unat bs of
      [x, y, z] \<Rightarrow> x = 0xED \<and> y < 0x80 \<and> 0x80 \<le> z \<and> z \<le> 0xBF
    | [x, y, z, t] \<Rightarrow> x = 0xF4 \<and> y < 0x80 \<and> 0x80 \<le> z \<and> z \<le> 0xBF \<and> 0x80 \<le> t \<and> t \<le> 0xBF
    | _ \<Rightarrow> False)"

definition legal :: "bytes \<Rightarrow> bool" where
  "legal bs \<longleftrightarrow> (\<exists>cp. scalar cp \<and> encode_nat cp = map unat bs) \<or> loose bs"

lemma encode1_iff: "(\<exists>cp. scalar cp \<and> encode_nat cp = [x]) \<longleftrightarrow> x < 0x80"
  by (auto simp: encode_nat_def scalar_def split: if_splits intro!: exI [of _ x])

lemma vec_at_window: "i < length bs \<Longrightarrow> vec_at (xs @ bs @ ys) (length xs + i) = Some (bs ! i)"
  by (simp add: vec_at_def nth_append)

lemmas word_cmp = word_le_nat_alt word_less_nat_alt word_unat_eq_iff

lemma unat_literals [simp]:
  "unat (0xED :: u8) = 0xED" "unat (0xF4 :: u8) = 0xF4" "unat (0xE0 :: u8) = 0xE0" "unat (0xF0 :: u8) = 0xF0"
  by simp_all

lemma legal_case1_eq: "vec_at str p = Some s \<Longrightarrow> legal_case1 str p = Some (unat s < 0x80 \<or> 0xC2 \<le> unat s \<and> unat s \<le> 0xF4)"
  by (auto simp: legal_case1_def word_cmp)

definition second :: "nat \<Rightarrow> nat \<Rightarrow> bool" where
  "second x y \<longleftrightarrow> y \<le> 0xBF \<and> (x = 0xE0 \<longrightarrow> 0xA0 \<le> y) \<and> (x = 0xED \<longrightarrow> y \<le> 0x9F) \<and>
     (x = 0xF0 \<longrightarrow> 0x90 \<le> y) \<and> (x = 0xF4 \<longrightarrow> y \<le> 0x8F) \<and>
     (x \<notin> {0xE0, 0xED, 0xF0, 0xF4} \<longrightarrow> 0x80 \<le> y)"

lemma legal_case2_eq:
  assumes "vec_at str p = Some s" "vec_at str (p + 1) = Some a" "0xC0 \<le> unat s" "unat s < 0xF8"
  shows "legal_case2 str p = Some (second (unat s) (unat a) \<and> 0xC2 \<le> unat s \<and> unat s \<le> 0xF4)"
proof -
  have [simp]: "s \<noteq> 0xE0 \<longleftrightarrow> unat s \<noteq> 0xE0" "s \<noteq> 0xED \<longleftrightarrow> unat s \<noteq> 0xED"
    "s \<noteq> 0xF0 \<longleftrightarrow> unat s \<noteq> 0xF0" "s \<noteq> 0xF4 \<longleftrightarrow> unat s \<noteq> 0xF4"
    by (simp_all add: word_unat_eq_iff)
  show ?thesis
    using assms legal_case1_eq [OF assms(1)]
    by (cases "s = 0xE0"; cases "s = 0xED"; cases "s = 0xF0"; cases "s = 0xF4")
      (auto simp: legal_case2_def second_def word_le_nat_alt word_less_nat_alt)
qed

lemma legal_case3_eq:
  assumes "vec_at str (p + 2) = Some a"
  shows "legal_case3 str p = (if 0x80 \<le> unat a \<and> unat a \<le> 0xBF then legal_case2 str p else Some False)"
  using assms by (auto simp: legal_case3_def word_cmp)

text \<open>The conditions of the check against the bounds of the encodings.\<close>

lemma legal_2: "legal [a, b] \<longleftrightarrow> second (unat a) (unat b) \<and> 0xC2 \<le> unat a"
  if "0xC0 \<le> unat a" "unat a < 0xE0"
  using that by (auto simp: legal_def loose_def encode2_iff second_def)

lemma legal_3: "legal [a, b, c] \<longleftrightarrow> second (unat a) (unat b) \<and> 0x80 \<le> unat c \<and> unat c \<le> 0xBF"
  if "0xE0 \<le> unat a" "unat a < 0xF0"
proof -
  have "unat a \<noteq> 0xF0" "unat a \<noteq> 0xF4" "unat a \<le> 0xEF" using that by auto
  then show ?thesis
    using that unfolding legal_def loose_def second_def encode3_iff list.map by simp linarith
qed

lemma legal_4: "legal [a, b, c, d] \<longleftrightarrow> second (unat a) (unat b) \<and> 0x80 \<le> unat c \<and> unat c \<le> 0xBF \<and>
    0x80 \<le> unat d \<and> unat d \<le> 0xBF \<and> unat a \<le> 0xF4"
  if "0xF0 \<le> unat a" "unat a < 0xF8"
proof -
  have "unat a \<noteq> 0xE0" "unat a \<noteq> 0xED" using that by auto
  then show ?thesis
    using that unfolding legal_def loose_def second_def encode4_iff list.map by simp linarith
qed

lemma isLegalUTF8_iff:
  assumes "bs \<noteq> []" "length bs = trailing (hd bs) + 1"
  shows "isLegalUTF8 (xs @ bs @ ys) (length xs) (length bs) = Some (legal bs)"
proof -
  have at: "\<And>i. i < length bs \<Longrightarrow> vec_at (xs @ bs @ ys) (length xs + i) = Some (bs ! i)"
    by (rule vec_at_window)
  have at0: "vec_at (xs @ bs @ ys) (length xs) = Some (bs ! 0)" using at [of 0] assms(1) by simp
  consider a where "bs = [a]" | a b where "bs = [a, b]" | a b c where "bs = [a, b, c]"
    | a b c d where "bs = [a, b, c, d]" | "length bs > 4"
  proof (cases bs)
    case (Cons a as)
    then show ?thesis
    proof (cases as)
      case (Cons b cs)
      with \<open>bs = a # as\<close> that show ?thesis by (cases cs; cases "tl cs"; cases "tl (tl cs)") auto
    qed (use that in auto)
  qed (use assms(1) in auto)
  then show ?thesis
  proof cases
    case 1
    with assms(2) at0 show ?thesis
      by (auto simp: isLegalUTF8_def legal_case1_def legal_def loose_def encode1_iff trailing_eq
          word_cmp split: if_splits)
  next
    case (2 a b)
    with assms(2) have x: "0xC0 \<le> unat a" "unat a < 0xE0" by (auto simp: trailing_eq split: if_splits)
    with 2 at0 at [of 1] show ?thesis
      using legal_case2_eq [of "xs @ bs @ ys" "length xs" a b]
      by (auto simp: isLegalUTF8_def legal_2)
  next
    case (3 a b c)
    with assms(2) have x: "0xE0 \<le> unat a" "unat a < 0xF0" by (auto simp: trailing_eq split: if_splits)
    with 3 at0 at [of 1] at [of 2] show ?thesis
      using legal_case2_eq [of "xs @ bs @ ys" "length xs" a b] legal_case3_eq [of "xs @ bs @ ys" "length xs" c]
      by (auto simp: isLegalUTF8_def legal_3)
  next
    case (4 a b c d)
    with assms(2) have x: "0xF0 \<le> unat a" "unat a < 0xF8" by (auto simp: trailing_eq split: if_splits)
    with 4 at0 at [of 1] at [of 2] at [of 3] show ?thesis
      using legal_case2_eq [of "xs @ bs @ ys" "length xs" a b] legal_case3_eq [of "xs @ bs @ ys" "length xs" c]
      by (auto simp: isLegalUTF8_def legal_4 word_le_nat_alt word_less_nat_alt)
  next
    case 5
    then have "\<not> legal bs"
      by (auto simp: legal_def loose_def encode_nat_def dest: arg_cong [where f = length] split: if_splits list.splits)
    with 5 show ?thesis by (simp add: isLegalUTF8_def)
  qed
qed

section \<open>What the arithmetic decodes\<close>

definition code :: "bytes \<Rightarrow> nat" where
  "code bs = (case map unat bs of
      [x] \<Rightarrow> x
    | [x, y] \<Rightarrow> 64 * x + y - 0x3080
    | [x, y, z] \<Rightarrow> 4096 * x + 64 * y + z - 0xE2080
    | [x, y, z, t] \<Rightarrow> 262144 * x + 4096 * y + 64 * z + t - 0x3C82080
    | _ \<Rightarrow> 0)"

lemma ucast_of_nat_u8: "ucast b = (of_nat (unat b) :: 64 word)" for b :: u8
  by simp

lemma of_nat_minus: "n \<le> m \<Longrightarrow> of_nat m - of_nat n = (of_nat (m - n) :: 64 word)"
  by simp

lemma encode_1_code: "encode_nat cp = [x] \<Longrightarrow> cp = x"
  by (auto simp: encode_nat_def split: if_splits)

lemma legal_cases:
  assumes "legal bs"
  obtains (one) a where "bs = [a]" "unat a < 0x80"
  | (two) a b where "bs = [a, b]" "0xC2 \<le> unat a" "unat a < 0xE0" "0x80 \<le> unat b" "unat b < 0xC0"
  | (three) a b c where "bs = [a, b, c]" "0xE0 \<le> unat a" "unat a < 0xF0" "unat b < 0xC0"
      "0x80 \<le> unat c" "unat c < 0xC0" "unat a = 0xE0 \<longrightarrow> 0xA0 \<le> unat b"
      "unat a = 0xED \<longrightarrow> unat b < 0xA0" "unat a \<noteq> 0xED \<longrightarrow> 0x80 \<le> unat b"
  | (four) a b c d where "bs = [a, b, c, d]" "0xF0 \<le> unat a" "unat a \<le> 0xF4" "unat b < 0xC0"
      "0x80 \<le> unat c" "unat c < 0xC0" "0x80 \<le> unat d" "unat d < 0xC0"
      "unat a = 0xF0 \<longrightarrow> 0x90 \<le> unat b" "unat a = 0xF4 \<longrightarrow> unat b < 0x90" "unat a \<noteq> 0xF4 \<longrightarrow> 0x80 \<le> unat b"
proof -
  have len: "length (encode_nat cp) \<in> {1, 2, 3, 4}" for cp by (auto simp: encode_nat_def)
  have "length (map unat bs) \<in> {1, 2, 3, 4}"
    using assms unfolding legal_def
  proof
    assume "\<exists>cp. scalar cp \<and> encode_nat cp = map unat bs"
    then show ?thesis using len by metis
  qed (auto simp: loose_def split: list.splits)
  then have "length bs \<in> {1, 2, 3, 4}" by simp
  then consider a where "bs = [a]" | a b where "bs = [a, b]" | a b c where "bs = [a, b, c]"
    | a b c d where "bs = [a, b, c, d]"
    by (auto simp: numeral_eq_Suc length_Suc_conv)
  then show thesis
  proof cases
    case 1
    with assms one show thesis by (auto simp: legal_def loose_def encode1_iff)
  next
    case (2 a b)
    with assms show thesis by (intro two [of a b]) (simp_all add: legal_def loose_def encode2_iff)
  next
    case (3 a b c)
    with assms have "0xE0 \<le> unat a \<and> unat a \<le> 0xEF"
      by (auto simp: legal_def loose_def encode3_iff)
    with 3 assms show thesis
      by (intro three [of a b c]) (auto simp: legal_3 second_def)
  next
    case (4 a b c d)
    with assms have "0xF0 \<le> unat a \<and> unat a \<le> 0xF4"
      by (auto simp: legal_def loose_def encode4_iff)
    with 4 assms show thesis
      by (intro four [of a b c d]) (auto simp: legal_4 second_def)
  qed
qed

lemma gather_window:
  "length bs = Suc e \<Longrightarrow> gather (xs @ bs @ ys) (length xs) e ch =
     Some (fold (\<lambda>b ch. push_bit 6 ch + ucast b) (tl bs) (ch + ucast (hd bs)))"
proof (induction e arbitrary: xs bs ch)
  case 0
  then show ?case using vec_at_window [of 0 bs xs ys] by (cases bs) auto
next
  case (Suc e)
  then obtain b bs' where bs: "bs = b # bs'" "length bs' = Suc e" by (cases bs) auto
  then obtain c cs where cs: "bs' = c # cs" by (cases bs') auto
  have "vec_at (xs @ bs @ ys) (length xs) = Some b" using vec_at_window [of 0 bs xs ys] bs by simp
  with Suc.IH [of bs' "xs @ [b]" "push_bit 6 (ch + ucast b)"] bs cs show ?case by simp
qed

lemma vec_at_offsets:
  "vec_at offsetsFromUTF8 0 = Some 0" "vec_at offsetsFromUTF8 1 = Some 0x3080"
  "vec_at offsetsFromUTF8 2 = Some 0xE2080" "vec_at offsetsFromUTF8 3 = Some 0x3C82080"
  by (simp_all add: offsetsFromUTF8_def vec_at_def)

lemma decode_window:
  assumes "length bs = Suc e" "vec_at offsetsFromUTF8 e = Some off"
  shows "decode_char (xs @ bs @ ys) (length xs) (length bs - 1) =
    Some (fold (\<lambda>b ch. push_bit 6 ch + ucast b) (tl bs) (ucast (hd bs)) - off)"
  using gather_window [OF assms(1), of xs ys 0] assms by (simp add: decode_char_def)

lemma decode_legal:
  assumes "legal bs"
  shows "decode_char (xs @ bs @ ys) (length xs) (length bs - 1) = Some (of_nat (code bs))"
  using assms
proof (cases rule: legal_cases)
  case one
  then show ?thesis
    using decode_window [of bs 0 0 xs ys] by (simp add: vec_at_offsets code_def)
next
  case (two a b)
  then have "0x3080 \<le> 64 * unat a + unat b" by simp
  from of_nat_minus [OF this] two(1) show ?thesis
    using decode_window [of bs 1 "0x3080" xs ys]
    by (simp add: vec_at_offsets [simplified] code_def push_bit_eq_mult algebra_simps)
next
  case (three a b c)
  then have "0xE2080 \<le> 4096 * unat a + 64 * unat b + unat c" by (cases "unat a = 0xE0") auto
  from of_nat_minus [OF this] three(1) show ?thesis
    using decode_window [of bs 2 "0xE2080" xs ys]
    by (simp add: vec_at_offsets code_def push_bit_eq_mult algebra_simps)
next
  case (four a b c d)
  then have "0x3C82080 \<le> 262144 * unat a + 4096 * unat b + 64 * unat c + unat d" by (cases "unat a = 0xF0") auto
  from of_nat_minus [OF this] four(1) show ?thesis
    using decode_window [of bs 3 "0x3C82080" xs ys]
    by (simp add: vec_at_offsets code_def push_bit_eq_mult algebra_simps)
qed

lemma scalar_code:
  assumes "legal bs"
  shows "scalar (code bs)"
  using assms
proof (cases rule: legal_cases)
  case (three a b c)
  then consider "unat a < 0xED" | "unat a = 0xED" | "0xED < unat a" by linarith
  then show ?thesis using three by cases (auto simp: scalar_def code_def)
next
  case (four a b c d)
  then show ?thesis by (cases "unat a = 0xF0"; cases "unat a = 0xF4") (auto simp: scalar_def code_def)
qed (auto simp: scalar_def code_def)

lemma trailing_legal:
  assumes "legal bs"
  shows "length bs = trailing (hd bs) + 1"
  using assms by (cases rule: legal_cases) (auto simp: trailing_eq)

text \<open>The encoding of a scalar value is legal, and decodes to it.\<close>

lemma encode_bytes: "scalar cp \<Longrightarrow> list_all (\<lambda>n. n < 256) (encode_nat cp)"
  by (auto simp: encode_nat_def scalar_def div_less_iff_less_mult intro: order.strict_trans1)

lemma unat_encode: "scalar cp \<Longrightarrow> map unat (encode cp) = encode_nat cp"
  using encode_bytes [of cp]
  by (auto simp: encode_def list_all_iff unat_of_nat take_bit_nat_eq_self_iff intro: map_idI)

lemma legal_encode: "scalar cp \<Longrightarrow> legal (encode cp)"
  using unat_encode by (auto simp: legal_def)

lemma digits64: "cp div 64 = 64 * (cp div 4096) + cp div 64 mod 64" "cp div 4096 = 64 * (cp div 262144) + cp div 4096 mod 64"
  "cp = 64 * (cp div 64) + cp mod 64" for cp :: nat
proof -
  have "cp div 4096 = cp div 64 div 64" "cp div 262144 = cp div 4096 div 64" by (simp_all flip: div_mult2_eq)
  then show "cp div 64 = 64 * (cp div 4096) + cp div 64 mod 64" "cp div 4096 = 64 * (cp div 262144) + cp div 4096 mod 64"
    by simp_all
qed simp

lemma code_encode: "scalar cp \<Longrightarrow> code (encode cp) = cp"
proof -
  assume "scalar cp"
  note u = unat_encode [OF this]
  have "4096 * (cp div 4096) + (64 * (cp div 64 mod 64) + cp mod 64) = cp"
    "262144 * (cp div 262144) + (4096 * (cp div 4096 mod 64) + (64 * (cp div 64 mod 64) + cp mod 64)) = cp"
    using digits64 [of cp] by linarith+
  then show ?thesis unfolding code_def u encode_nat_def by simp
qed

lemma encode_not_Nil [simp]: "encode cp \<noteq> []"
  by (simp add: encode_def encode_nat_def)

end
