(* ===== verification/Simulation.thy ===== *)
theory Simulation
  imports Prelude
begin

text \<open>
  Data refinement, as an interface: operations on a concrete state that may be undefined, the
  same operations on an abstract state, and a relation between the two. A provider shows that one
  operation keeps the relation; a client gets it for whole runs.
\<close>

primrec run :: "('op \<Rightarrow> 'c \<Rightarrow> 'c option) \<Rightarrow> 'op list \<Rightarrow> 'c \<Rightarrow> 'c option" where
  "run step [] c = Some c"
| "run step (op # ops) c = do { c \<leftarrow> step op c; run step ops c }"

primrec enabled :: "('op \<Rightarrow> 'a \<Rightarrow> bool) \<Rightarrow> ('op \<Rightarrow> 'a \<Rightarrow> 'a) \<Rightarrow> 'op list \<Rightarrow> 'a \<Rightarrow> bool" where
  "enabled ok spec [] a \<longleftrightarrow> True"
| "enabled ok spec (op # ops) a \<longleftrightarrow> ok op a \<and> enabled ok spec ops (spec op a)"

locale simulation =
  fixes R :: "'c \<Rightarrow> 'a \<Rightarrow> bool"
    and step :: "'op \<Rightarrow> 'c \<Rightarrow> 'c option"
    and spec :: "'op \<Rightarrow> 'a \<Rightarrow> 'a"
    and ok :: "'op \<Rightarrow> 'a \<Rightarrow> bool"
  assumes step_refines: "R c a \<Longrightarrow> ok op a \<Longrightarrow> \<exists>c'. step op c = Some c' \<and> R c' (spec op a)"
begin

lemma run_refines:
  "R c a \<Longrightarrow> enabled ok spec ops a \<Longrightarrow> \<exists>c'. run step ops c = Some c' \<and> R c' (fold spec ops a)"
proof (induction ops arbitrary: c a)
  case (Cons op ops)
  then obtain c' where "step op c = Some c'" "R c' (spec op a)" using step_refines [of c a op] by auto
  with Cons show ?case by auto
qed simp

lemma run_append: "run step (xs @ ys) c = do { c \<leftarrow> run step xs c; run step ys c }"
  by (induction xs arbitrary: c) (auto split: bind_splits)

end

end
