(* ===== verification/Fbuffer.thy ===== *)
theory Fbuffer
  imports Simulation
begin

text \<open>
  The growing byte buffer of the json gem (\<open>ext/json/ext/fbuffer/fbuffer.h\<close>), with which the
  generator builds its output. Lengths and capacities are \<open>unsigned long\<close>, 64-bit words that wrap
  around. A block of memory is a list of cells; a cell that has not been written is \<open>None\<close>. An
  access outside a block is undefined (\<open>None\<close> of the result). Allocation is taken to succeed (Ruby
  raises otherwise).
\<close>

section \<open>Definitions\<close>

type_synonym u64 = "64 word"
type_synonym cells = "u8 option list"

record fbuffer =
  initial_length :: u64
  fb_ptr :: "cells option"
  fb_len :: u64
  fb_capa :: u64

definition FBUFFER_INITIAL_LENGTH_DEFAULT :: u64 where
  "FBUFFER_INITIAL_LENGTH_DEFAULT = 1024"

definition fbuffer_alloc :: "u64 \<Rightarrow> fbuffer" where
  "fbuffer_alloc initial =
     (let initial = (if initial \<le> 0 then FBUFFER_INITIAL_LENGTH_DEFAULT else initial)
      in \<lparr>initial_length = initial, fb_ptr = None, fb_len = 0, fb_capa = 0\<rparr>)"

text \<open>A buffer that has been freed is gone.\<close>

definition fbuffer_free :: "fbuffer \<Rightarrow> fbuffer option" where
  "fbuffer_free fb = None"

definition fbuffer_clear :: "fbuffer \<Rightarrow> fbuffer" where
  "fbuffer_clear fb = fb\<lparr>fb_len := 0\<rparr>"

partial_function (option) required_loop :: "u64 \<Rightarrow> u64 \<Rightarrow> u64 \<Rightarrow> u64 option" where
  "required_loop requested len required =
     (if requested > required - len then required_loop requested len (push_bit 1 required)
      else Some required)"

definition fbuffer_first_block :: "fbuffer \<Rightarrow> fbuffer" where
  "fbuffer_first_block fb =
     (case fb_ptr fb of
        None \<Rightarrow> fb\<lparr>fb_ptr := Some (replicate (unat (initial_length fb)) None), fb_capa := initial_length fb\<rparr>
      | Some p \<Rightarrow> fb)"

definition realloc :: "cells \<Rightarrow> nat \<Rightarrow> cells" where
  "realloc p n = take n p @ replicate (n - length p) None"

definition fbuffer_inc_capa :: "fbuffer \<Rightarrow> u64 \<Rightarrow> fbuffer option" where
  "fbuffer_inc_capa fb requested = do {
     let fb = fbuffer_first_block fb;
     required \<leftarrow> required_loop requested (fb_len fb) (fb_capa fb);
     if required > fb_capa fb then do {
       p \<leftarrow> fb_ptr fb;
       Some (fb\<lparr>fb_ptr := Some (realloc p (unat required)), fb_capa := required\<rparr>)
     }
     else Some fb
   }"

text \<open>\<open>MEMCPY\<close> of \<open>n\<close> cells of \<open>src\<close> to offset \<open>i\<close> of the block \<open>p\<close>.\<close>

definition memcpy :: "cells \<Rightarrow> nat \<Rightarrow> cells \<Rightarrow> nat \<Rightarrow> cells option" where
  "memcpy p i src n =
     (if n \<le> length src \<and> i + n \<le> length p
      then Some (take i p @ take n src @ drop (i + n) p) else None)"

definition fbuffer_append :: "fbuffer \<Rightarrow> cells \<Rightarrow> u64 \<Rightarrow> fbuffer option" where
  "fbuffer_append fb newstr len =
     (if len > 0 then do {
        fb \<leftarrow> fbuffer_inc_capa fb len;
        p \<leftarrow> fb_ptr fb;
        p \<leftarrow> memcpy p (unat (fb_len fb)) newstr (unat len);
        Some (fb\<lparr>fb_ptr := Some p, fb_len := fb_len fb + len\<rparr>)
      }
      else Some fb)"

text \<open>A Ruby string: its bytes and their number.\<close>

definition fbuffer_append_str :: "fbuffer \<Rightarrow> bytes \<Rightarrow> fbuffer option" where
  "fbuffer_append_str fb str = fbuffer_append fb (map Some str) (of_nat (length str))"

definition fbuffer_append_char :: "fbuffer \<Rightarrow> u8 \<Rightarrow> fbuffer option" where
  "fbuffer_append_char fb newchr = do {
     fb \<leftarrow> fbuffer_inc_capa fb 1;
     p \<leftarrow> fb_ptr fb;
     if unat (fb_len fb) < length p
     then Some (fb\<lparr>fb_ptr := Some (p[unat (fb_len fb) := Some newchr]), fb_len := fb_len fb + 1\<rparr>)
     else None
   }"

text \<open>\<open>start\<close> and \<open>end\<close> are offsets into the array.\<close>

function freverse :: "cells \<Rightarrow> nat \<Rightarrow> nat \<Rightarrow> cells option" where
  "freverse buf start end' =
     (if end' > start then do {
        a \<leftarrow> vec_at buf end';
        b \<leftarrow> vec_at buf start;
        freverse (buf[end' := b, start := a]) (start + 1) (end' - 1)
      }
      else Some buf)"
  by pat_completeness auto
termination
  by (relation "measure (\<lambda>(buf, s, e). e - s)") auto

declare freverse.simps [simp del]

definition digits :: bytes where
  "digits = [0x30, 0x31, 0x32, 0x33, 0x34, 0x35, 0x36, 0x37, 0x38, 0x39]"

text \<open>\<open>*tmp++ = c\<close> for a pointer \<open>tmp\<close> into the array \<open>buf\<close>.\<close>

definition put :: "cells \<Rightarrow> nat \<Rightarrow> u8 \<Rightarrow> cells option" where
  "put buf tmp c = (if tmp < length buf then Some (buf[tmp := Some c]) else None)"

text \<open>The \<open>do ... while\<close> loop, on a number that is not negative.\<close>

function fltoa_loop :: "nat \<Rightarrow> cells \<Rightarrow> nat \<Rightarrow> (cells \<times> nat) option" where
  "fltoa_loop number buf tmp = do {
     d \<leftarrow> vec_at digits (number mod 10);
     buf \<leftarrow> put buf tmp d;
     let number = number div 10;
     if number \<noteq> 0 then fltoa_loop number buf (tmp + 1) else Some (buf, tmp + 1)
   }"
  by pat_completeness auto
termination
  by (relation "measure (\<lambda>(n, buf, tmp). n)") auto

declare fltoa_loop.simps [simp del]

text \<open>A \<open>long\<close> is an integer here; to negate the least one is undefined.\<close>

definition fltoa :: "int \<Rightarrow> cells \<Rightarrow> (cells \<times> nat) option" where
  "fltoa number buf = do {
     let sign = number;
     number \<leftarrow> (if sign < 0 then (if number = - (2 ^ 63) then None else Some (- number)) else Some number);
     r \<leftarrow> fltoa_loop (nat number) buf 0;
     r \<leftarrow> (if sign < 0 then do { buf \<leftarrow> put (fst r) (snd r) 0x2D; Some (buf, snd r + 1) } else Some r);
     buf \<leftarrow> freverse (fst r) 0 (snd r - 1);
     Some (buf, snd r)
   }"

definition fbuffer_append_long :: "fbuffer \<Rightarrow> int \<Rightarrow> fbuffer option" where
  "fbuffer_append_long fb number = do {
     r \<leftarrow> fltoa number (replicate 20 None);
     fbuffer_append fb (fst r) (of_nat (snd r))
   }"

text \<open>The contents handed to another buffer or to Ruby; the null pointer has no cells.\<close>

definition fb_cells :: "fbuffer \<Rightarrow> cells" where
  "fb_cells fb = (case fb_ptr fb of None \<Rightarrow> [] | Some p \<Rightarrow> p)"

definition fbuffer_dup :: "fbuffer \<Rightarrow> fbuffer option" where
  "fbuffer_dup fb =
     (let len = fb_len fb; result = fbuffer_alloc len
      in fbuffer_append result (fb_cells fb) (fb_len fb))"

text \<open>\<open>rb_str_new\<close> copies \<open>len\<close> cells; the string is determined only if all have been written.\<close>

definition rb_str_new :: "cells \<Rightarrow> u64 \<Rightarrow> bytes option" where
  "rb_str_new p len =
     (if unat len \<le> length p \<and> None \<notin> set (take (unat len) p)
      then Some (map the (take (unat len) p)) else None)"

definition fbuffer_to_s :: "fbuffer \<Rightarrow> bytes option" where
  "fbuffer_to_s fb = rb_str_new (fb_cells fb) (fb_len fb)"

section \<open>What a buffer holds\<close>

text \<open>
  The abstract view of a buffer: the cells appended so far. The invariant ties the block, the
  length and the capacity together.
\<close>

definition holds :: "fbuffer \<Rightarrow> cells \<Rightarrow> bool" where
  "holds fb xs \<longleftrightarrow> 0 < initial_length fb \<and> unat (fb_len fb) = length xs \<and>
     (case fb_ptr fb of
        None \<Rightarrow> xs = [] \<and> fb_capa fb = 0
      | Some p \<Rightarrow> 0 < fb_capa fb \<and> length p = unat (fb_capa fb) \<and> length xs \<le> length p \<and>
          take (length xs) p = xs)"

lemma holds_alloc: "holds (fbuffer_alloc n) []"
  by (auto simp: holds_def fbuffer_alloc_def Let_def FBUFFER_INITIAL_LENGTH_DEFAULT_def word_gt_0)

lemma holds_clear: "holds fb xs \<Longrightarrow> holds (fbuffer_clear fb) []"
  by (auto simp: holds_def fbuffer_clear_def split: option.splits)

lemma holds_first_block:
  assumes "holds fb xs"
  obtains p where "fb_ptr (fbuffer_first_block fb) = Some p" "holds (fbuffer_first_block fb) xs"
    "fb_len (fbuffer_first_block fb) = fb_len fb"
  using assms
  by (cases "fb_ptr fb") (auto simp: holds_def fbuffer_first_block_def)

lemma unat_double: "unat w < 2 ^ 63 \<Longrightarrow> unat (push_bit 1 w) = 2 * unat w" for w :: u64
  by (simp add: push_bit_eq_mult unat_word_ariths)

text \<open>The loop that looks for a capacity terminates as long as the sizes stay below \<open>2\<^sup>6\<^sup>3\<close>.\<close>

lemma required_loop_returns:
  fixes required :: u64
  shows "len \<le> required \<Longrightarrow> 0 < required \<Longrightarrow> unat len + unat requested \<le> 2 ^ 63 \<Longrightarrow>
    \<exists>r. required_loop requested len required = Some r \<and> required \<le> r \<and>
      unat len + unat requested \<le> unat r \<and> (r = required \<or> unat r < 2 * (unat len + unat requested))"
proof (induction "2 ^ 64 - unat required" arbitrary: required rule: less_induct)
  case less
  have diff: "unat (required - len) = unat required - unat len"
    using less.prems(1) by (simp add: unat_sub)
  have le: "unat len \<le> unat required" using less.prems(1) by (simp add: word_le_nat_alt)
  show ?case
  proof (cases "requested > required - len")
    case True
    then have lt: "unat required < unat len + unat requested"
      using diff le by (simp add: word_less_nat_alt)
    then have dbl: "unat (push_bit 1 required) = 2 * unat required"
      using less.prems(3) by (intro unat_double) simp
    have pos: "0 < unat required" using less.prems(2) by (simp add: word_less_nat_alt)
    have "2 ^ 64 - unat (push_bit 1 required) < 2 ^ 64 - unat required"
      using dbl pos lt less.prems(3) by simp
    moreover have "len \<le> push_bit 1 required" "0 < push_bit 1 required"
      using dbl le pos by (simp_all add: word_le_nat_alt word_less_nat_alt)
    ultimately obtain r where r: "required_loop requested len (push_bit 1 required) = Some r"
      "push_bit 1 required \<le> r" "unat len + unat requested \<le> unat r"
      "r = push_bit 1 required \<or> unat r < 2 * (unat len + unat requested)"
      using less.hyps [OF _ _ _ less.prems(3)] by blast
    moreover have "required \<le> r" using r(2) dbl by (simp add: word_le_nat_alt)
    moreover have "unat r < 2 * (unat len + unat requested)" using r(4) dbl lt by auto
    ultimately show ?thesis using True by (subst required_loop.simps) simp
  next
    case False
    then have "unat len + unat requested \<le> unat required"
      using diff le by (simp add: word_less_nat_alt)
    with False show ?thesis by (subst required_loop.simps) simp
  qed
qed

lemma inc_capa_holds:
  assumes "holds fb xs" "length xs + unat n \<le> 2 ^ 63"
  obtains fb' p where "fbuffer_inc_capa fb n = Some fb'" "holds fb' xs" "fb_ptr fb' = Some p"
    "length xs + unat n \<le> length p" "fb_len fb' = fb_len fb" "initial_length fb' = initial_length fb"
proof -
  define f where "f = fbuffer_first_block fb"
  obtain p where p: "fb_ptr f = Some p" "holds f xs" "fb_len f = fb_len fb"
    using holds_first_block [OF assms(1)] unfolding f_def by metis
  have init: "initial_length f = initial_length fb"
    by (simp add: f_def fbuffer_first_block_def split: option.splits)
  have len: "unat (fb_len f) = length xs" "fb_len f \<le> fb_capa f" "0 < fb_capa f" "length p = unat (fb_capa f)"
    "length xs \<le> length p" "take (length xs) p = xs" "0 < initial_length f"
    using p by (auto simp: holds_def word_le_nat_alt)
  have room: "unat (fb_len f) + unat n \<le> 2 ^ 63" using assms(2) len(1) by simp
  obtain r where r: "required_loop n (fb_len f) (fb_capa f) = Some r" "fb_capa f \<le> r"
    "length xs + unat n \<le> unat r"
    using required_loop_returns [OF len(2,3) room] len(1) by auto
  show thesis
  proof (cases "fb_capa f < r")
    case True
    have "length p \<le> unat r" using r(2) len(4) by (simp add: word_le_nat_alt)
    then have q: "realloc p (unat r) = p @ replicate (unat r - length p) None"
      "length (realloc p (unat r)) = unat r" by (simp_all add: realloc_def)
    show thesis
    proof
      show "fbuffer_inc_capa fb n = Some (f\<lparr>fb_ptr := Some (realloc p (unat r)), fb_capa := r\<rparr>)"
        using r(1) True p(1) by (simp add: fbuffer_inc_capa_def f_def [symmetric])
      show "holds (f\<lparr>fb_ptr := Some (realloc p (unat r)), fb_capa := r\<rparr>) xs"
        using len q r(2) by (auto simp: holds_def)
      show "length xs + unat n \<le> length (realloc p (unat r))" using q r(3) by simp
    qed (simp_all add: p(3) init)
  next
    case False
    then have "r = fb_capa f" using r(2) by simp
    with r(3) len(4) have "length xs + unat n \<le> length p" by simp
    with False r(1) p init that [of f p] show thesis
      by (simp add: fbuffer_inc_capa_def f_def [symmetric])
  qed
qed

lemma append_holds:
  assumes "holds fb xs" "unat n \<le> length src" "length xs + unat n \<le> 2 ^ 63"
  shows "\<exists>fb'. fbuffer_append fb src n = Some fb' \<and> holds fb' (xs @ take (unat n) src) \<and>
    initial_length fb' = initial_length fb"
proof (cases "n = 0")
  case True
  with assms(1) show ?thesis by (simp add: fbuffer_append_def)
next
  case False
  obtain f p where f: "fbuffer_inc_capa fb n = Some f" "holds f xs" "fb_ptr f = Some p"
    "length xs + unat n \<le> length p" "fb_len f = fb_len fb" "initial_length f = initial_length fb"
    using inc_capa_holds [OF assms(1,3)] .
  have len: "unat (fb_len f) = length xs" "take (length xs) p = xs" "length p = unat (fb_capa f)"
    "0 < fb_capa f" "0 < initial_length f"
    using f(2,3) by (simp_all add: holds_def)
  have "unat (fb_len f + n) = length xs + unat n"
    using assms(3) len(1) by (simp add: unat_word_ariths)
  with False f len assms(2) show ?thesis
    by (auto simp: fbuffer_append_def memcpy_def holds_def word_neq_0_conv)
qed

lemma append_char_holds:
  assumes "holds fb xs" "length xs < 2 ^ 63"
  shows "\<exists>fb'. fbuffer_append_char fb c = Some fb' \<and> holds fb' (xs @ [Some c]) \<and>
    initial_length fb' = initial_length fb"
proof -
  obtain f p where f: "fbuffer_inc_capa fb 1 = Some f" "holds f xs" "fb_ptr f = Some p"
    "length xs + unat (1 :: u64) \<le> length p" "fb_len f = fb_len fb" "initial_length f = initial_length fb"
    using inc_capa_holds [OF assms(1), of 1] assms(2) by auto
  have len: "unat (fb_len f) = length xs" "take (length xs) p = xs" "length p = unat (fb_capa f)"
    "0 < fb_capa f" "0 < initial_length f"
    using f(2,3) by (simp_all add: holds_def)
  have "unat (fb_len f + 1) = length xs + 1"
    using assms(2) len(1) by (simp add: unat_word_ariths)
  moreover have "take (Suc (length xs)) (p[length xs := Some c]) = xs @ [Some c]"
    using f(4) len(2) by (simp add: take_Suc_conv_app_nth)
  ultimately show ?thesis
    using f len by (auto simp: fbuffer_append_char_def holds_def)
qed

lemma to_s_holds: "holds fb (map Some bs) \<Longrightarrow> fbuffer_to_s fb = Some bs"
  by (auto simp: holds_def fbuffer_to_s_def rb_str_new_def fb_cells_def comp_def split: option.splits)

lemma dup_holds:
  assumes "holds fb xs" "length xs \<le> 2 ^ 63"
  shows "\<exists>fb'. fbuffer_dup fb = Some fb' \<and> holds fb' xs"
proof -
  have "unat (fb_len fb) = length xs" "length xs \<le> length (fb_cells fb)" "take (length xs) (fb_cells fb) = xs"
    using assms(1) by (auto simp: holds_def fb_cells_def split: option.splits)
  with append_holds [OF holds_alloc [of "fb_len fb"], of "fb_len fb" "fb_cells fb"] assms(2) show ?thesis
    by (auto simp: fbuffer_dup_def Let_def)
qed

section \<open>Numbers\<close>

text \<open>The decimal notation of a number, least significant digit first, and how it is read.\<close>

fun dec_rev :: "nat \<Rightarrow> bytes" where
  "dec_rev n = of_nat (0x30 + n mod 10) # (if n div 10 = 0 then [] else dec_rev (n div 10))"

declare dec_rev.simps [simp del]

definition decimal :: "int \<Rightarrow> bytes" where
  "decimal i = (if i < 0 then 0x2D # rev (dec_rev (nat (- i))) else rev (dec_rev (nat i)))"

fun read_rev :: "bytes \<Rightarrow> int" where
  "read_rev [] = 0"
| "read_rev (d # ds) = (int (unat d) - 0x30) + 10 * read_rev ds"

definition read_decimal :: "bytes \<Rightarrow> int" where
  "read_decimal bs = (case bs of [] \<Rightarrow> 0
     | b # ds \<Rightarrow> if b = 0x2D then - read_rev (rev ds) else read_rev (rev bs))"

lemma unat_digit: "d < 10 \<Longrightarrow> unat (of_nat (0x30 + d) :: u8) = 0x30 + d"
  by (simp add: unat_of_nat take_bit_nat_eq_self_iff del: of_nat_add)

lemma dec_rev_digits: "list_all (\<lambda>d. 0x30 \<le> unat d \<and> unat d \<le> 0x39) (dec_rev n)"
proof (induction n rule: dec_rev.induct)
  case (1 n)
  then show ?case
    using unat_digit [of "n mod 10"] by (subst dec_rev.simps) auto
qed

lemma read_rev_dec: "read_rev (dec_rev n) = int n"
proof (induction n rule: dec_rev.induct)
  case (1 n)
  have u: "int (unat (of_nat (0x30 + n mod 10) :: u8)) - 0x30 = int (n mod 10)"
    using unat_digit [of "n mod 10"] by simp
  have n: "int n = int (n mod 10) + 10 * int (n div 10)"
    by (metis of_nat_add of_nat_mult of_nat_numeral mod_mult_div_eq)
  show ?case
    using 1 u n by (subst dec_rev.simps) (simp del: of_nat_add)
qed

lemma dec_rev_not_Nil [simp]: "dec_rev n \<noteq> []"
  by (subst dec_rev.simps) simp

lemma read_decimal_decimal: "read_decimal (decimal i) = i"
proof (cases "i < 0")
  case True
  then show ?thesis by (simp add: read_decimal_def decimal_def read_rev_dec)
next
  case False
  obtain d ds where d: "rev (dec_rev (nat i)) = d # ds"
    by (metis dec_rev_not_Nil list.exhaust rev_is_Nil_conv)
  have "d \<in> set (dec_rev (nat i))" using d by (metis list.set_intros(1) set_rev)
  then have "0x30 \<le> unat d" using dec_rev_digits [of "nat i"] by (simp add: list_all_iff)
  then have "d \<noteq> 0x2D" by auto
  with False d show ?thesis
    by (simp add: read_decimal_def decimal_def) (metis d read_rev_dec rev_rev_ident int_nat_eq not_less)
qed

lemma length_dec_rev: "n < 10 ^ Suc k \<Longrightarrow> length (dec_rev n) \<le> Suc k"
proof (induction k arbitrary: n)
  case 0
  then show ?case by (subst dec_rev.simps) simp
next
  case (Suc k)
  then have "n div 10 < 10 ^ Suc k" by (simp add: div_less_iff_less_mult mult.commute)
  with Suc.IH show ?case by (subst dec_rev.simps) simp
qed

lemma vec_at_digits: "d < 10 \<Longrightarrow> vec_at digits d = Some (of_nat (0x30 + d))"
proof -
  assume "d < 10"
  then have "d \<in> {0, 1, 2, 3, 4, 5, 6, 7, 8, 9}" by auto
  then show ?thesis by (auto simp: digits_def vec_at_def)
qed

lemma fltoa_loop_eq:
  "length xs = tmp \<Longrightarrow> length ys = length (dec_rev n) \<Longrightarrow>
   fltoa_loop n (xs @ ys @ zs) tmp = Some (xs @ map Some (dec_rev n) @ zs, tmp + length (dec_rev n))"
proof (induction n arbitrary: xs ys tmp rule: dec_rev.induct)
  case (1 n)
  let ?d = "of_nat (0x30 + n mod 10) :: u8"
  obtain y ys' where ys: "ys = y # ys'"
    using "1.prems"(2) by (cases ys) (auto simp: dec_rev.simps [of n])
  have put: "put (xs @ ys @ zs) tmp ?d = Some ((xs @ [Some ?d]) @ ys' @ zs)"
    using "1.prems"(1) by (simp add: put_def ys list_update_append)
  show ?case
  proof (cases "n div 10 = 0")
    case True
    then have "ys' = []" using "1.prems"(2) ys by (simp add: dec_rev.simps [of n])
    with True put show ?thesis
      using "1.prems"(1)
      by (subst fltoa_loop.simps, subst (1 2) dec_rev.simps) (simp add: vec_at_digits del: of_nat_add)
  next
    case False
    have "length ys' = length (dec_rev (n div 10))"
      using "1.prems"(2) ys False by (simp add: dec_rev.simps [of n])
    with "1.IH" [OF False, of "xs @ [Some ?d]" "tmp + 1" ys'] "1.prems"(1)
    have "fltoa_loop (n div 10) ((xs @ [Some ?d]) @ ys' @ zs) (tmp + 1) =
        Some ((xs @ [Some ?d]) @ map Some (dec_rev (n div 10)) @ zs, tmp + 1 + length (dec_rev (n div 10)))"
      by (simp del: of_nat_add)
    with False put show ?thesis
      by (subst fltoa_loop.simps, subst (1 2) dec_rev.simps) (simp add: vec_at_digits del: of_nat_add)
  qed
qed

lemma freverse_eq:
  "freverse (as @ xs @ bs) (length as) (length as + length xs - 1) = Some (as @ rev xs @ bs)"
proof (induction "length xs" arbitrary: as xs bs rule: less_induct)
  case less
  show ?case
  proof (cases "length xs < 2")
    case True
    then show ?thesis by (cases xs) (auto simp: freverse.simps)
  next
    case False
    then obtain a ys where "xs = a # ys" "ys \<noteq> []" by (cases xs) auto
    then obtain b zs where xs: "xs = a # zs @ [b]" by (metis append_butlast_last_id)
    let ?e = "length as + length xs - 1"
    have e: "?e = length (as @ a # zs)" by (simp add: xs)
    have swap: "(as @ xs @ bs)[?e := a, length as := b] = (as @ [b]) @ zs @ a # bs"
      by (simp add: xs list_update_append)
    have acc: "vec_at (as @ xs @ bs) ?e = Some b" "vec_at (as @ xs @ bs) (length as) = Some a"
      using vec_at_append [of "as @ a # zs" b bs] vec_at_append [of as a "zs @ b # bs"]
      by (simp_all add: xs)
    have "freverse ((as @ [b]) @ zs @ a # bs) (length (as @ [b])) (length (as @ [b]) + length zs - 1) =
        Some ((as @ [b]) @ rev zs @ a # bs)"
      by (rule less.hyps) (simp add: xs)
    then have IH: "freverse ((as @ [b]) @ zs @ a # bs) (Suc (length as)) (length as + length zs) =
        Some ((as @ [b]) @ rev zs @ a # bs)" by simp
    show ?thesis
      using swap acc IH by (subst freverse.simps) (simp add: xs)
  qed
qed

lemma fltoa_eq:
  assumes "- (2 ^ 63) < i" "i < 2 ^ 63"
  shows "\<exists>zs. fltoa i (replicate 20 None) = Some (map Some (decimal i) @ zs, length (decimal i)) \<and>
    length (decimal i) \<le> 20"
proof -
  define n where "n = nat \<bar>i\<bar>"
  have "n < 10 ^ Suc 18" using assms by (simp add: n_def)
  then have len: "length (dec_rev n) \<le> 19" using length_dec_rev [of n 18] by simp
  define k where "k = 19 - length (dec_rev n)"
  have rep: "replicate 20 None = [] @ replicate (length (dec_rev n)) None @ None # replicate k (None :: u8 option)"
    using len replicate_add [of "length (dec_rev n)" "Suc k" None] by (simp add: k_def)
  have loop: "fltoa_loop n (replicate 20 None) 0 =
      Some (map Some (dec_rev n) @ None # replicate k None, length (dec_rev n))"
    using fltoa_loop_eq [of "[]" 0 "replicate (length (dec_rev n)) None" n "None # replicate k None"]
    unfolding rep by simp
  show ?thesis
  proof (cases "i < 0")
    case True
    then have n: "nat (- i) = n" by (simp add: n_def)
    have "freverse ([] @ (map Some (dec_rev n) @ [Some 0x2D]) @ replicate k None) (length ([] :: cells))
        (length ([] :: cells) + length (map Some (dec_rev n) @ [Some (0x2D :: u8)]) - 1) =
        Some ([] @ rev (map Some (dec_rev n) @ [Some 0x2D]) @ replicate k None)"
      by (rule freverse_eq)
    then have "fltoa i (replicate 20 None) =
        Some (map Some (decimal i) @ replicate k None, length (decimal i))"
      using True loop n assms(1)
      by (simp add: fltoa_def put_def list_update_append decimal_def rev_map)
    with True len n show ?thesis by (simp add: decimal_def)
  next
    case False
    then have n: "nat i = n" by (simp add: n_def)
    have "freverse ([] @ map Some (dec_rev n) @ (None # replicate k None)) (length ([] :: cells))
        (length ([] :: cells) + length (map Some (dec_rev n)) - 1) =
        Some ([] @ rev (map Some (dec_rev n)) @ (None # replicate k None))"
      by (rule freverse_eq)
    then have "fltoa i (replicate 20 None) =
        Some (map Some (decimal i) @ None # replicate k None, length (decimal i))"
      using False loop n by (simp add: fltoa_def decimal_def rev_map)
    with False len n show ?thesis by (simp add: decimal_def)
  qed
qed

lemma append_long_holds:
  assumes "holds fb xs" "- (2 ^ 63) < i" "i < 2 ^ 63" "length xs + length (decimal i) \<le> 2 ^ 63"
  shows "\<exists>fb'. fbuffer_append_long fb i = Some fb' \<and> holds fb' (xs @ map Some (decimal i)) \<and>
    initial_length fb' = initial_length fb"
proof -
  obtain zs where zs: "fltoa i (replicate 20 None) = Some (map Some (decimal i) @ zs, length (decimal i))"
    "length (decimal i) \<le> 20" using fltoa_eq [OF assms(2,3)] by blast
  then have "unat (of_nat (length (decimal i)) :: u64) = length (decimal i)"
    by (simp add: unat_of_nat take_bit_nat_eq_self_iff)
  with append_holds [OF assms(1), of "of_nat (length (decimal i))" "map Some (decimal i) @ zs"] assms(4) zs(1)
  show ?thesis by (simp add: fbuffer_append_long_def)
qed

section \<open>Runs\<close>

text \<open>The operations that fill a buffer, and what they do to the bytes appended so far.\<close>

datatype fb_op =
  Append bytes
| Append_char u8
| Append_long int
| Clear

fun fb_step :: "fb_op \<Rightarrow> fbuffer \<Rightarrow> fbuffer option" where
  "fb_step (Append s) fb = fbuffer_append_str fb s"
| "fb_step (Append_char c) fb = fbuffer_append_char fb c"
| "fb_step (Append_long i) fb = fbuffer_append_long fb i"
| "fb_step Clear fb = Some (fbuffer_clear fb)"

fun fb_spec :: "fb_op \<Rightarrow> bytes \<Rightarrow> bytes" where
  "fb_spec (Append s) xs = xs @ s"
| "fb_spec (Append_char c) xs = xs @ [c]"
| "fb_spec (Append_long i) xs = xs @ decimal i"
| "fb_spec Clear xs = []"

fun fb_ok :: "fb_op \<Rightarrow> bytes \<Rightarrow> bool" where
  "fb_ok (Append s) xs \<longleftrightarrow> length xs + length s \<le> 2 ^ 63"
| "fb_ok (Append_char c) xs \<longleftrightarrow> length xs < 2 ^ 63"
| "fb_ok (Append_long i) xs \<longleftrightarrow> length xs + length (decimal i) \<le> 2 ^ 63 \<and> - (2 ^ 63) < i \<and> i < 2 ^ 63"
| "fb_ok Clear xs \<longleftrightarrow> True"

lemma append_str_holds:
  assumes "holds fb (map Some xs)" "length xs + length s \<le> 2 ^ 63"
  shows "\<exists>fb'. fbuffer_append_str fb s = Some fb' \<and> holds fb' (map Some (xs @ s))"
proof -
  have "unat (of_nat (length s) :: u64) = length s"
    using assms(2) by (simp add: unat_of_nat take_bit_nat_eq_self_iff)
  with append_holds [OF assms(1), of "of_nat (length s)" "map Some s"] assms(2) show ?thesis
    by (auto simp: fbuffer_append_str_def)
qed

interpretation fb: simulation "\<lambda>fb xs. holds fb (map Some xs)" fb_step fb_spec fb_ok
proof
  fix fb xs op assume h: "holds fb (map Some xs)" and ok: "fb_ok op xs"
  show "\<exists>fb'. fb_step op fb = Some fb' \<and> holds fb' (map Some (fb_spec op xs))"
  proof (cases op)
    case (Append s)
    with append_str_holds [OF h] ok show ?thesis by simp
  next
    case (Append_char c)
    with append_char_holds [OF h, of c] ok show ?thesis by auto
  next
    case (Append_long i)
    with append_long_holds [OF h, of i] ok show ?thesis by auto
  next
    case Clear
    with holds_clear [OF h] show ?thesis by simp
  qed
qed

end
