(* ===== verification/Json_Convert.thy ===== *)
theory Json_Convert
  imports Json_Utf8 Fbuffer Ruby
begin

text \<open>
  Strings in the json generator (\<open>generator.c\<close>): the two conversions of a Ruby string into the
  inside of a JSON string. \<open>convert_UTF8_to_JSON\<close> copies stretches of characters that need no
  escape in one piece; \<open>convert_UTF8_to_JSON_ASCII\<close> decodes every character. Both are shown equal to
  a reference that splits the string into characters and escapes one after the other, on every
  string of bytes, so that they are defined on every string and raise exactly where the reference
  does.
\<close>

section \<open>Definitions\<close>

type_synonym u16 = "16 word"

definition hexdigits :: bytes where
  "hexdigits = [0x30, 0x31, 0x32, 0x33, 0x34, 0x35, 0x36, 0x37, 0x38, 0x39, 0x61, 0x62, 0x63, 0x64, 0x65, 0x66]"

definition unicode_escape :: "cells \<Rightarrow> u16 \<Rightarrow> cells option" where
  "unicode_escape buf character = do {
     d \<leftarrow> vec_at hexdigits (unat (drop_bit 12 character));
     buf \<leftarrow> put buf 2 d;
     d \<leftarrow> vec_at hexdigits (unat (drop_bit 8 character AND 0xF));
     buf \<leftarrow> put buf 3 d;
     d \<leftarrow> vec_at hexdigits (unat (drop_bit 4 character AND 0xF));
     buf \<leftarrow> put buf 4 d;
     d \<leftarrow> vec_at hexdigits (unat (character AND 0xF));
     put buf 5 d
   }"

definition unicode_escape_to_buffer :: "fbuffer \<Rightarrow> cells \<Rightarrow> u16 \<Rightarrow> (fbuffer \<times> cells) option" where
  "unicode_escape_to_buffer fb buf character = do {
     buf \<leftarrow> unicode_escape buf character;
     fb \<leftarrow> fbuffer_append fb buf 6;
     Some (fb, buf)
   }"

text \<open>The array \<open>buf\<close> of both functions, as it is initialised, and the escapes of two bytes.\<close>

definition escape_buf :: cells where
  "escape_buf = [Some 0x5C, Some 0x75, Some 0, Some 0, Some 0, Some 0]"

definition esc2 :: "u8 \<Rightarrow> cells" where
  "esc2 c = [Some 0x5C, Some c]"

definition partial_character :: rb_error where
  "partial_character = GeneratorError ''partial character in source, but hit end''"

definition malformed :: rb_error where
  "malformed = GeneratorError ''source sequence is illegal/malformed utf-8''"

definition UNI_MAX_BMP :: u64 where "UNI_MAX_BMP = 0xFFFF"
definition UNI_MAX_UTF16 :: u64 where "UNI_MAX_UTF16 = 0x10FFFF"
definition UNI_SUR_HIGH_START :: u64 where "UNI_SUR_HIGH_START = 0xD800"
definition UNI_SUR_LOW_START :: u64 where "UNI_SUR_LOW_START = 0xDC00"
definition UNI_SUR_LOW_END :: u64 where "UNI_SUR_LOW_END = 0xDFFF"
definition halfShift :: nat where "halfShift = 10"
definition halfBase :: u64 where "halfBase = 0x10000"
definition halfMask :: u64 where "halfMask = 0x3FF"

text \<open>The output of one character of the basic plane.\<close>

definition ascii_normal :: "fbuffer \<Rightarrow> cells \<Rightarrow> u64 \<Rightarrow> (fbuffer \<times> cells) option" where
  "ascii_normal fb buf ch =
     (if ch \<ge> 0x20 \<and> ch \<le> 0x7F then
        (if ch = 0x5C then do { fb \<leftarrow> fbuffer_append fb (esc2 0x5C) 2; Some (fb, buf) }
         else if ch = 0x22 then do { fb \<leftarrow> fbuffer_append fb (esc2 0x22) 2; Some (fb, buf) }
         else do { fb \<leftarrow> fbuffer_append_char fb (ucast ch); Some (fb, buf) })
      else
        (if ch = 0x0A then do { fb \<leftarrow> fbuffer_append fb (esc2 0x6E) 2; Some (fb, buf) }
         else if ch = 0x0D then do { fb \<leftarrow> fbuffer_append fb (esc2 0x72) 2; Some (fb, buf) }
         else if ch = 0x09 then do { fb \<leftarrow> fbuffer_append fb (esc2 0x74) 2; Some (fb, buf) }
         else if ch = 0x0C then do { fb \<leftarrow> fbuffer_append fb (esc2 0x66) 2; Some (fb, buf) }
         else if ch = 0x08 then do { fb \<leftarrow> fbuffer_append fb (esc2 0x62) 2; Some (fb, buf) }
         else unicode_escape_to_buffer fb buf (ucast ch)))"

text \<open>The output of one decoded character; \<open>UNI_STRICT_CONVERSION\<close> is set.\<close>

definition ascii_char :: "fbuffer \<Rightarrow> cells \<Rightarrow> u64 \<Rightarrow> (fbuffer \<times> cells) rb" where
  "ascii_char fb buf ch =
     (if ch \<le> UNI_MAX_BMP then
        (if ch \<ge> UNI_SUR_HIGH_START \<and> ch \<le> UNI_SUR_LOW_END then rb_raise malformed
         else total (ascii_normal fb buf ch))
      else if ch > UNI_MAX_UTF16 then rb_raise (GeneratorError ''source sequence is illegal/malformed utf8'')
      else total (do {
        let ch = ch - halfBase;
        (fb, buf) \<leftarrow> unicode_escape_to_buffer fb buf (ucast (drop_bit halfShift ch + UNI_SUR_HIGH_START));
        unicode_escape_to_buffer fb buf (ucast ((ch AND halfMask) + UNI_SUR_LOW_START))
      }))"

function ascii_loop :: "bytes \<Rightarrow> nat \<Rightarrow> cells \<Rightarrow> fbuffer \<Rightarrow> fbuffer rb" where
  "ascii_loop str source buf fb =
     (if source < length str then
        and_then (total (vec_at trailingBytesForUTF8 (unat (str ! source)))) (\<lambda>extraBytesToRead.
        if source + extraBytesToRead \<ge> length str then rb_raise partial_character
        else and_then (total (isLegalUTF8 str source (extraBytesToRead + 1))) (\<lambda>is_legal.
        if \<not> is_legal then rb_raise malformed
        else and_then (total (decode_char str source extraBytesToRead)) (\<lambda>ch.
        and_then (ascii_char fb buf ch) (\<lambda>(fb, buf).
        ascii_loop str (source + extraBytesToRead + 1) buf fb))))
      else rb_return fb)"
  by pat_completeness auto
termination
  by (relation "measure (\<lambda>(str, source, buf, fb). length str - source)") auto

declare ascii_loop.simps [simp del]

definition convert_UTF8_to_JSON_ASCII :: "fbuffer \<Rightarrow> bytes \<Rightarrow> fbuffer rb" where
  "convert_UTF8_to_JSON_ASCII fb string = ascii_loop string 0 escape_buf fb"

text \<open>The escape of a byte below 20, and the array \<open>buf\<close> after it.\<close>

definition control_escape :: "cells \<Rightarrow> u8 \<Rightarrow> (cells \<times> cells) option" where
  "control_escape buf c =
     (if c = 0x0A then Some (esc2 0x6E, buf)
      else if c = 0x0D then Some (esc2 0x72, buf)
      else if c = 0x09 then Some (esc2 0x74, buf)
      else if c = 0x0C then Some (esc2 0x66, buf)
      else if c = 0x08 then Some (esc2 0x62, buf)
      else do { buf \<leftarrow> unicode_escape buf (ucast c); Some (buf, buf) })"

text \<open>What follows the two \<open>switch\<close> statements: the pending stretch, then the escape.\<close>

definition flush_escape :: "bytes \<Rightarrow> nat \<Rightarrow> nat \<Rightarrow> cells \<Rightarrow> fbuffer \<Rightarrow> fbuffer option" where
  "flush_escape str start end' escape fb = do {
     fb \<leftarrow> fbuffer_append fb (map Some (drop start str)) (of_nat (end' - start));
     fbuffer_append fb escape (of_nat (length escape))
   }"

function json_loop :: "bytes \<Rightarrow> cells \<Rightarrow> nat \<Rightarrow> nat \<Rightarrow> fbuffer \<Rightarrow> fbuffer rb" where
  "json_loop str buf start end' fb =
     (if end' < length str then
        let c = str ! end' in
        if c < 0x20 then
          and_then (total (control_escape buf c)) (\<lambda>(escape, buf).
          and_then (total (flush_escape str start end' escape fb)) (\<lambda>fb.
          json_loop str buf (end' + 1) (end' + 1) fb))
        else if c = 0x5C \<or> c = 0x22 then
          and_then (total (flush_escape str start end' (esc2 c) fb)) (\<lambda>fb.
          json_loop str buf (end' + 1) (end' + 1) fb)
        else
          and_then (total (vec_at trailingBytesForUTF8 (unat c))) (\<lambda>extra.
          if end' + (extra + 1) > length str then rb_raise partial_character
          else and_then (total (isLegalUTF8 str end' (extra + 1))) (\<lambda>is_legal.
          if \<not> is_legal then rb_raise malformed
          else json_loop str buf start (end' + (extra + 1)) fb))
      else total (fbuffer_append fb (map Some (drop start str)) (of_nat (end' - start))))"
  by pat_completeness auto
termination
  by (relation "measure (\<lambda>(str, buf, start, end', fb). length str - end')") auto

declare json_loop.simps [simp del]

definition convert_UTF8_to_JSON :: "fbuffer \<Rightarrow> bytes \<Rightarrow> fbuffer rb" where
  "convert_UTF8_to_JSON fb string = json_loop string escape_buf 0 0 fb"

section \<open>The reference\<close>

text \<open>A string of bytes as a list of characters, from the front.\<close>

function split_chars :: "bytes \<Rightarrow> rb_error + bytes list" where
  "split_chars s =
     (if s = [] then Inr []
      else let n = trailing (hd s) + 1 in
        if n > length s then Inl partial_character
        else if \<not> legal (take n s) then Inl malformed
        else map_sum id (\<lambda>cs. take n s # cs) (split_chars (drop n s)))"
  by pat_completeness auto
termination
  by (relation "measure length") auto

declare split_chars.simps [simp del]

definition hex4 :: "nat \<Rightarrow> bytes" where
  "hex4 n = [hexdigits ! (n div 4096), hexdigits ! (n div 256 mod 16), hexdigits ! (n div 16 mod 16),
     hexdigits ! (n mod 16)]"

definition u_escape :: "nat \<Rightarrow> bytes" where
  "u_escape n = [0x5C, 0x75] @ hex4 n"

definition short_escape :: "nat \<Rightarrow> bytes option" where
  "short_escape cp =
     (if cp = 0x5C then Some [0x5C, 0x5C] else if cp = 0x22 then Some [0x5C, 0x22]
      else if cp = 0x0A then Some [0x5C, 0x6E] else if cp = 0x0D then Some [0x5C, 0x72]
      else if cp = 0x09 then Some [0x5C, 0x74] else if cp = 0x0C then Some [0x5C, 0x66]
      else if cp = 0x08 then Some [0x5C, 0x62] else None)"

text \<open>The escape of one character, given by its bytes.\<close>

definition json_char :: "bytes \<Rightarrow> bytes" where
  "json_char bs = (case short_escape (code bs) of
      Some e \<Rightarrow> e
    | None \<Rightarrow> if code bs < 0x20 then u_escape (code bs) else bs)"

definition ascii_char_ref :: "bytes \<Rightarrow> bytes" where
  "ascii_char_ref bs = (case short_escape (code bs) of
      Some e \<Rightarrow> e
    | None \<Rightarrow>
        if 0x20 \<le> code bs \<and> code bs \<le> 0x7F then [of_nat (code bs)]
        else if code bs \<le> 0xFFFF then u_escape (code bs)
        else u_escape (0xD800 + (code bs - 0x10000) div 1024) @ u_escape (0xDC00 + (code bs - 0x10000) mod 1024))"

definition convert_ref :: "(bytes \<Rightarrow> bytes) \<Rightarrow> bytes \<Rightarrow> rb_error + bytes" where
  "convert_ref esc s = map_sum id (\<lambda>cs. concat (map esc cs)) (split_chars s)"

text \<open>What is written before the end of the string or the exception.\<close>

function written :: "(bytes \<Rightarrow> bytes) \<Rightarrow> bytes \<Rightarrow> bytes" where
  "written esc s =
     (if s = [] then []
      else let n = trailing (hd s) + 1 in
        if n > length s \<or> \<not> legal (take n s) then []
        else esc (take n s) @ written esc (drop n s))"
  by pat_completeness auto
termination
  by (relation "measure (\<lambda>(esc, s). length s)") auto

declare written.simps [simp del]

section \<open>The escape of one code unit\<close>

definition escape_ok :: "cells \<Rightarrow> bool" where
  "escape_ok buf \<longleftrightarrow> length buf = 6 \<and> take 2 buf = [Some 0x5C, Some 0x75]"

lemma escape_ok_init: "escape_ok escape_buf"
  by (simp add: escape_ok_def escape_buf_def)

lemma vec_at_hex: "n < 16 \<Longrightarrow> vec_at hexdigits n = Some (hexdigits ! n)"
  by (simp add: vec_at_def hexdigits_def)

lemma unat_nibbles:
  "unat (drop_bit 12 ch) = unat ch div 4096" "unat (drop_bit 8 ch AND 0xF) = unat ch div 256 mod 16"
  "unat (drop_bit 4 ch AND 0xF) = unat ch div 16 mod 16" "unat (ch AND 0xF) = unat ch mod 16" for ch :: u16
proof -
  have nibble: "unat (w AND 0xF) = unat w mod 16" for w :: u16
    using take_bit_eq_mask [of 4 w] unat_mod [of w 16] by (simp add: mask_eq_exp_minus_1 take_bit_eq_mod)
  have shift: "unat (drop_bit n ch) = unat ch div 2 ^ n" for n
    by (subst unat_drop_bit_eq) (rule drop_bit_eq_div)
  show "unat (drop_bit 12 ch) = unat ch div 4096" "unat (drop_bit 8 ch AND 0xF) = unat ch div 256 mod 16"
    "unat (drop_bit 4 ch AND 0xF) = unat ch div 16 mod 16" "unat (ch AND 0xF) = unat ch mod 16"
    using shift [of 12] shift [of 8] shift [of 4] by (simp_all add: nibble)
qed

lemma unicode_escape_eq:
  assumes "escape_ok buf"
  shows "unicode_escape buf ch = Some (map Some (u_escape (unat ch)))"
proof -
  obtain a b c d where buf: "buf = [Some 0x5C, Some 0x75, a, b, c, d]"
    using assms by (auto simp: escape_ok_def numeral_eq_Suc length_Suc_conv)
  have "unat ch < 2 ^ 16" using unsigned_less [of ch, where 'a = nat] by simp
  then have "unat ch div 4096 < 16" by (simp add: div_less_iff_less_mult)
  then show ?thesis
    unfolding unicode_escape_def unat_nibbles
    by (simp add: vec_at_hex put_def buf u_escape_def hex4_def drop_bit_eq_div unat_div)
qed

lemma escape_ok_result: "escape_ok (map Some (u_escape n))"
  by (simp add: escape_ok_def u_escape_def hex4_def)


section \<open>Output of one character\<close>

text \<open>
  A step of the generator that returns delivers a buffer with the bytes of the reference, and
  raises when the reference does.
\<close>

definition delivers :: "fbuffer rb \<Rightarrow> rb_error + bytes \<Rightarrow> bool" where
  "delivers r v = (case v of Inl e \<Rightarrow> r = Some (Inl e) | Inr bs \<Rightarrow> \<exists>fb. r = Some (Inr fb) \<and> holds fb (map Some bs))"

lemma deliversI: "r = Some (Inr fb) \<Longrightarrow> holds fb (map Some bs) \<Longrightarrow> delivers r (Inr bs)"
  by (simp add: delivers_def)

lemma append_bytes:
  assumes "holds fb (map Some zs)" "length zs + length bs \<le> 2 ^ 63"
  obtains fb' where "fbuffer_append fb (map Some bs @ rest) (of_nat (length bs)) = Some fb'"
    "holds fb' (map Some (zs @ bs))"
proof -
  have "unat (of_nat (length bs) :: u64) = length bs"
    using assms(2) by (simp add: unat_of_nat take_bit_nat_eq_self_iff)
  then show thesis
    using append_holds [OF assms(1), of "of_nat (length bs)" "map Some bs @ rest"] assms(2) that by auto
qed

lemma append_escape:
  assumes "holds fb (map Some zs)" "length zs + 6 \<le> 2 ^ 63" "escape_ok buf"
  obtains fb' where "unicode_escape_to_buffer fb buf ch = Some (fb', map Some (u_escape (unat ch)))"
    "holds fb' (map Some (zs @ u_escape (unat ch)))"
proof -
  have len: "length (u_escape (unat ch)) = 6" by (simp add: u_escape_def hex4_def)
  then obtain fb' where "fbuffer_append fb (map Some (u_escape (unat ch)) @ []) (of_nat 6) = Some fb'"
    "holds fb' (map Some (zs @ u_escape (unat ch)))"
    using append_bytes [OF assms(1), of "u_escape (unat ch)" "[]"] assms(2) by metis
  with that show thesis
    by (simp add: unicode_escape_to_buffer_def unicode_escape_eq [OF assms(3)])
qed

lemma append_esc2:
  assumes "holds fb (map Some zs)" "length zs + 2 \<le> 2 ^ 63"
  obtains fb' where "fbuffer_append fb (esc2 c) 2 = Some fb'" "holds fb' (map Some (zs @ [0x5C, c]))"
  using append_bytes [OF assms(1), of "[0x5C, c]" "[]"] assms(2) by (auto simp: esc2_def)

lemma append_char:
  assumes "holds fb (map Some zs)" "length zs + 1 \<le> 2 ^ 63"
  obtains fb' where "fbuffer_append_char fb c = Some fb'" "holds fb' (map Some (zs @ [c]))"
  using append_char_holds [OF assms(1), of c] assms(2) by auto

lemma length_u_escape [simp]: "length (u_escape n) = 6"
  by (simp add: u_escape_def hex4_def)

lemma ascii_normal_ref:
  assumes "holds fb (map Some zs)" "length zs + length (ascii_char_ref bs) \<le> 2 ^ 63" "escape_ok buf"
    "code bs \<le> 0xFFFF"
  shows "\<exists>fb' buf'. ascii_normal fb buf (of_nat (code bs)) = Some (fb', buf') \<and> escape_ok buf' \<and>
    holds fb' (map Some (zs @ ascii_char_ref bs))"
proof -
  let ?n = "code bs" and ?ch = "of_nat (code bs) :: u64"
  have u: "unat ?ch = ?n" "unat (ucast ?ch :: u16) = ?n"
    using assms(4) by (simp_all add: unat_of_nat unsigned_ucast_eq take_bit_nat_eq_self_iff)
  from u(1) have c: "ucast ?ch = (of_nat ?n :: u8)"
    by (simp add: word_unat_eq_iff unsigned_ucast_eq unat_of_nat take_bit_eq_mod)
  from u(1) have cmp: "?ch = c \<longleftrightarrow> ?n = unat c" "?ch \<ge> c \<longleftrightarrow> unat c \<le> ?n" "?ch \<le> c \<longleftrightarrow> ?n \<le> unat c" for c
    by (auto simp: word_le_nat_alt word_unat_eq_iff)
  have char: "\<exists>fb'. fbuffer_append_char fb (ucast ?ch) = Some fb' \<and> holds fb' (map Some (zs @ [of_nat ?n]))"
    if "length zs + 1 \<le> 2 ^ 63"
    using append_char [OF assms(1) that, of "ucast ?ch"] c by metis
  have esc: "\<exists>fb'. unicode_escape_to_buffer fb buf (ucast ?ch) = Some (fb', map Some (u_escape ?n)) \<and>
      holds fb' (map Some (zs @ u_escape ?n))" if "length zs + 6 \<le> 2 ^ 63"
    using append_escape [OF assms(1) that assms(3), of "ucast ?ch"] u(2) by metis
  have e: "\<exists>fb'. fbuffer_append fb (esc2 c) 2 = Some fb' \<and> holds fb' (map Some (zs @ [0x5C, c]))"
    if "length zs + 2 \<le> 2 ^ 63" for c
    using append_esc2 [OF assms(1) that] by metis
  show ?thesis
  proof (cases "short_escape ?n")
    case None
    then show ?thesis
      using char esc assms(2-4)
      by (auto simp: ascii_normal_def cmp ascii_char_ref_def escape_ok_result short_escape_def split: if_splits)
  next
    case (Some x)
    then show ?thesis
      using e [of "0x5C"] e [of "0x22"] e [of "0x6E"] e [of "0x72"] e [of "0x74"] e [of "0x66"] e [of "0x62"]
        assms(2-4)
      by (auto simp: ascii_normal_def cmp ascii_char_ref_def short_escape_def split: if_splits)
  qed
qed

text \<open>The two code units of a character above the basic plane.\<close>

lemma surrogates:
  fixes n :: nat
  assumes "0xFFFF < n" "n \<le> 0x10FFFF"
  defines "ch \<equiv> of_nat n - halfBase"
  shows "unat (ucast (drop_bit halfShift ch + UNI_SUR_HIGH_START) :: u16) = 0xD800 + (n - 0x10000) div 1024"
    and "unat (ucast ((ch AND halfMask) + UNI_SUR_LOW_START) :: u16) = 0xDC00 + (n - 0x10000) mod 1024"
proof -
  have ch: "ch = of_nat (n - 0x10000)" using assms(1) by (simp add: ch_def halfBase_def)
  then have u: "unat ch = n - 0x10000" using assms(2) by (simp add: unat_of_nat take_bit_nat_eq_self_iff)
  have hi: "unat (drop_bit halfShift ch) = (n - 0x10000) div 1024"
    by (simp add: halfShift_def unat_drop_bit_eq u) (simp add: drop_bit_eq_div)
  have lo: "unat (ch AND halfMask) = (n - 0x10000) mod 1024"
    using take_bit_eq_mask [of 10 ch] unat_mod [of ch 1024] by (simp add: mask_eq_exp_minus_1 take_bit_eq_mod halfMask_def u)
  have "(n - 0x10000) div 1024 < 1024" using assms(2) by (simp add: div_less_iff_less_mult)
  with hi have "unat (drop_bit halfShift ch + UNI_SUR_HIGH_START) = 0xD800 + (n - 0x10000) div 1024"
    by (simp add: unat_word_ariths UNI_SUR_HIGH_START_def)
  with \<open>(n - 0x10000) div 1024 < 1024\<close>
  show "unat (ucast (drop_bit halfShift ch + UNI_SUR_HIGH_START) :: u16) = 0xD800 + (n - 0x10000) div 1024"
    by (simp add: unsigned_ucast_eq take_bit_nat_eq_self_iff)
  have "(n - 0x10000) mod 1024 < 1024" by simp
  with lo have "unat ((ch AND halfMask) + UNI_SUR_LOW_START) = 0xDC00 + (n - 0x10000) mod 1024"
    by (simp add: unat_word_ariths UNI_SUR_LOW_START_def)
  with \<open>(n - 0x10000) mod 1024 < 1024\<close>
  show "unat (ucast ((ch AND halfMask) + UNI_SUR_LOW_START) :: u16) = 0xDC00 + (n - 0x10000) mod 1024"
    by (simp add: unsigned_ucast_eq take_bit_nat_eq_self_iff)
qed

lemma ascii_char_ok:
  assumes "holds fb (map Some zs)" "length zs + length (ascii_char_ref bs) \<le> 2 ^ 63" "escape_ok buf"
    "scalar (code bs)"
  shows "\<exists>fb' buf'. ascii_char fb buf (of_nat (code bs)) = Some (Inr (fb', buf')) \<and> escape_ok buf' \<and>
    holds fb' (map Some (zs @ ascii_char_ref bs))"
proof -
  let ?n = "code bs" and ?ch = "of_nat (code bs) :: u64"
  have u: "unat ?ch = ?n" using assms(4) by (auto simp: scalar_def unat_of_nat take_bit_nat_eq_self_iff)
  show ?thesis
  proof (cases "?n \<le> 0xFFFF")
    case True
    have "\<not> (?ch \<ge> UNI_SUR_HIGH_START \<and> ?ch \<le> UNI_SUR_LOW_END)" "?ch \<le> UNI_MAX_BMP"
      using assms(4) True u
      by (auto simp: scalar_def UNI_SUR_HIGH_START_def UNI_SUR_LOW_END_def UNI_MAX_BMP_def word_le_nat_alt)
    then show ?thesis
      using ascii_normal_ref [OF assms(1-3) True] by (auto simp: ascii_char_def)
  next
    case False
    then have n: "0xFFFF < ?n" "?n \<le> 0x10FFFF" using assms(4) by (auto simp: scalar_def)
    then have out: "\<not> ?ch \<le> UNI_MAX_BMP" "\<not> ?ch > UNI_MAX_UTF16"
      using u by (simp_all add: UNI_MAX_BMP_def UNI_MAX_UTF16_def word_le_nat_alt word_less_nat_alt)
    have out12: "length zs + 12 \<le> 2 ^ 63" using assms(2) n by (simp add: ascii_char_ref_def short_escape_def)
    then have room: "length zs + 6 \<le> 2 ^ 63" by simp
    obtain f where f: "unicode_escape_to_buffer fb buf (ucast (drop_bit halfShift (?ch - halfBase) + UNI_SUR_HIGH_START))
        = Some (f, map Some (u_escape (0xD800 + (?n - 0x10000) div 1024)))"
      "holds f (map Some (zs @ u_escape (0xD800 + (?n - 0x10000) div 1024)))"
      using append_escape [OF assms(1) room assms(3)] surrogates(1) [OF n] by metis
    from out12 have "length (zs @ u_escape (0xD800 + (?n - 0x10000) div 1024)) + 6 \<le> 2 ^ 63" by simp
    then obtain g where "unicode_escape_to_buffer f (map Some (u_escape (0xD800 + (?n - 0x10000) div 1024)))
        (ucast ((?ch - halfBase AND halfMask) + UNI_SUR_LOW_START))
        = Some (g, map Some (u_escape (0xDC00 + (?n - 0x10000) mod 1024)))"
      "holds g (map Some ((zs @ u_escape (0xD800 + (?n - 0x10000) div 1024)) @ u_escape (0xDC00 + (?n - 0x10000) mod 1024)))"
      using append_escape [OF f(2) _ escape_ok_result] surrogates(2) [OF n] by metis
    with f(1) out n show ?thesis
      by (simp add: ascii_char_def ascii_char_ref_def short_escape_def escape_ok_result)
  qed
qed

section \<open>The loops\<close>

lemma split_chars_Nil [simp]: "split_chars [] = Inr []"
  by (simp add: split_chars.simps)

lemma split_chars_partial:
  "s \<noteq> [] \<Longrightarrow> length s < trailing (hd s) + 1 \<Longrightarrow> split_chars s = Inl partial_character"
  by (subst split_chars.simps) simp

lemma split_chars_malformed:
  "bs \<noteq> [] \<Longrightarrow> length bs = trailing (hd bs) + 1 \<Longrightarrow> \<not> legal bs \<Longrightarrow> split_chars (bs @ s) = Inl malformed"
  by (subst split_chars.simps) (simp add: Let_def)

lemma split_chars_legal:
  assumes "legal bs"
  shows "split_chars (bs @ s) = map_sum id (\<lambda>cs. bs # cs) (split_chars s)"
proof -
  have "length bs = trailing (hd bs) + 1" using assms by (rule trailing_legal)
  moreover from this have "bs \<noteq> []" by auto
  ultimately show ?thesis using assms by (subst split_chars.simps) (simp add: Let_def)
qed

text \<open>Every byte string is empty, too short, or starts with as many bytes as its first one asks for.\<close>

lemma string_cases:
  obtains (Nil) "s = []"
  | (partial) "s \<noteq> []" "length s < trailing (hd s) + 1"
  | (char) bs rest where "s = bs @ rest" "bs \<noteq> []" "length bs = trailing (hd bs) + 1"
proof -
  let ?n = "trailing (hd s) + 1"
  have "s = take ?n s @ drop ?n s" by simp
  moreover have "s \<noteq> [] \<Longrightarrow> \<not> length s < ?n \<Longrightarrow> take ?n s \<noteq> [] \<and> length (take ?n s) = trailing (hd (take ?n s)) + 1"
    by (cases s) auto
  ultimately show thesis using that by (metis linorder_not_less)
qed

lemma written_Nil [simp]: "written esc [] = []"
  by (simp add: written.simps)

lemma written_legal:
  assumes "legal bs"
  shows "written esc (bs @ s) = esc bs @ written esc s"
proof -
  have "length bs = trailing (hd bs) + 1" using assms by (rule trailing_legal)
  moreover from this have "bs \<noteq> []" by auto
  ultimately show ?thesis using assms by (subst written.simps) (simp add: Let_def)
qed

lemma written_split: "split_chars s = Inr cs \<Longrightarrow> written esc s = concat (map esc cs)"
proof (induction s arbitrary: cs rule: split_chars.induct)
  case (1 s)
  let ?n = "trailing (hd s) + 1"
  show ?case
  proof (cases "s = []")
    case True
    with 1 show ?thesis by simp
  next
    case False
    with "1.prems" have n: "\<not> ?n > length s" "legal (take ?n s)"
      by (auto simp: split_chars.simps [of s] split: if_splits)
    have s: "s = take ?n s @ drop ?n s" by simp
    from "1.prems" obtain ds where ds: "split_chars (drop ?n s) = Inr ds" "cs = take ?n s # ds"
      using split_chars_legal [OF n(2), of "drop ?n s"] by (cases "split_chars (drop ?n s)") auto
    have "written esc s = esc (take ?n s) @ written esc (drop ?n s)"
      using written_legal [OF n(2), of esc "drop ?n s"] by simp
    also have "written esc (drop ?n s) = concat (map esc ds)"
      using "1.IH" [OF False refl] n ds(1) by blast
    finally show ?thesis using ds(2) by simp
  qed
qed

lemma map_sum_prefix: "map_sum id f (map_sum id g x) = map_sum id (f \<circ> g) x"
  by (cases x) auto

lemma ascii_loop_ref:
  "escape_ok buf \<Longrightarrow> holds fb (map Some zs) \<Longrightarrow> length zs + length (written ascii_char_ref s) \<le> 2 ^ 63 \<Longrightarrow>
   delivers (ascii_loop (xs @ s) (length xs) buf fb)
     (map_sum id (\<lambda>cs. zs @ concat (map ascii_char_ref cs)) (split_chars s))"
proof (induction "length s" arbitrary: s xs zs buf fb rule: less_induct)
  case less
  note unfold = ascii_loop.simps [of "xs @ s"]
  show ?case
  proof (cases s rule: string_cases)
    case Nil
    with less.prems(2) show ?thesis by (subst unfold) (simp add: delivers_def rb_return_def)
  next
    case partial
    then have "(xs @ s) ! length xs = hd s" by (cases s) auto
    with partial show ?thesis
      by (subst unfold) (simp add: vec_at_trailing delivers_def rb_raise_def split_chars_partial)
  next
    case (char bs rest)
    then have hd: "(xs @ s) ! length xs = hd bs" by (cases bs) auto
    have legal: "isLegalUTF8 (xs @ s) (length xs) (trailing (hd bs) + 1) = Some (legal bs)"
      using isLegalUTF8_iff [OF char(2,3), of xs rest] char(1,3) by simp
    show ?thesis
    proof (cases "legal bs")
      case False
      with char hd legal show ?thesis
        by (subst unfold) (auto simp: vec_at_trailing delivers_def rb_raise_def split_chars_malformed)
    next
      case True
      have decode: "decode_char (xs @ s) (length xs) (trailing (hd bs)) = Some (of_nat (code bs))"
        using decode_legal [OF True, of xs rest] char(1,3) by simp
      have pos: "0 < length bs" using char(2) by simp
      have room: "length zs + length (ascii_char_ref bs) \<le> 2 ^ 63"
        using less.prems(3) char(1) written_legal [OF True] by simp
      obtain f b where f: "ascii_char fb buf (of_nat (code bs)) = Some (Inr (f, b))" "escape_ok b"
        "holds f (map Some (zs @ ascii_char_ref bs))"
        using ascii_char_ok [OF less.prems(2) room less.prems(1) scalar_code [OF True]] by blast
      have "length (zs @ ascii_char_ref bs) + length (written ascii_char_ref rest) \<le> 2 ^ 63"
        using less.prems(3) char(1) written_legal [OF True] by simp
      from less.hyps [OF _ f(2,3) this, of "xs @ bs"] char(1) pos
      have "delivers (ascii_loop (xs @ s) (length xs + length bs) b f)
          (map_sum id (\<lambda>cs. zs @ concat (map ascii_char_ref cs)) (split_chars s))"
        by (simp add: split_chars_legal [OF True] map_sum_prefix comp_def)
      with char hd legal decode f(1) True show ?thesis
        by (subst unfold) (simp add: vec_at_trailing)
    qed
  qed
qed

text \<open>
  The copying version keeps a stretch of bytes that need no escape (\<open>pend\<close>) and writes it with
  the next escape.
\<close>

lemma json_char_byte:
  "json_char [c] = (if c < 0x20 then (case short_escape (unat c) of Some e \<Rightarrow> e | None \<Rightarrow> u_escape (unat c))
     else if c = 0x5C \<or> c = 0x22 then [0x5C, c] else [c])"
  by (auto simp: json_char_def code_def short_escape_def word_less_nat_alt word_unat_eq_iff)

lemma code_long:
  assumes "legal bs"
  shows "(\<exists>c. bs = [c]) \<or> 0x80 \<le> code bs"
  using assms
proof (cases rule: legal_cases)
  case (three a b c)
  then consider "unat a = 0xE0" | "unat a = 0xED" | "0xE1 \<le> unat a" "0x80 \<le> unat b" by linarith
  then show ?thesis using three by cases (simp_all add: code_def)
next
  case (four a b c d)
  then consider "unat a = 0xF0" | "unat a = 0xF4" | "0xF1 \<le> unat a" "0x80 \<le> unat b" by linarith
  then show ?thesis using four by cases (simp_all add: code_def)
qed (simp_all add: code_def)

lemma json_char_long:
  assumes "legal bs" "\<not> hd bs < 0x20" "hd bs \<noteq> 0x5C" "hd bs \<noteq> 0x22"
  shows "json_char bs = bs"
  using code_long [OF assms(1)]
proof
  assume "0x80 \<le> code bs"
  then show ?thesis by (simp add: json_char_def short_escape_def)
qed (use assms in \<open>auto simp: json_char_byte\<close>)

lemma control_escape_ref:
  assumes "escape_ok buf" "c < 0x20"
  shows "\<exists>buf'. control_escape buf c = Some (map Some (json_char [c]), buf') \<and> escape_ok buf'"
proof -
  have "unat (ucast c :: u16) = unat c"
    using nat_lt_256_u8 [of c] by (simp add: unsigned_ucast_eq take_bit_nat_eq_self_iff del: nat_lt_256_u8)
  with unicode_escape_eq [OF assms(1), of "ucast c"] assms show ?thesis
    by (auto simp: control_escape_def json_char_byte short_escape_def esc2_def escape_ok_result word_unat_eq_iff word_less_nat_alt)
qed

lemma flush_escape_ok:
  assumes "holds fb (map Some zs)" "length zs + length pend + length e \<le> 2 ^ 63"
  obtains fb' where "flush_escape (xs @ pend @ s) (length xs) (length xs + length pend) (map Some e) fb = Some fb'"
    "holds fb' (map Some (zs @ pend @ e))"
proof -
  obtain f where f: "fbuffer_append fb (map Some pend @ map Some s) (of_nat (length pend)) = Some f"
    "holds f (map Some (zs @ pend))"
    using append_bytes [OF assms(1), of pend "map Some s"] assms(2) by auto
  obtain g where "fbuffer_append f (map Some e @ []) (of_nat (length e)) = Some g"
    "holds g (map Some ((zs @ pend) @ e))"
    using append_bytes [OF f(2), of e "[]"] assms(2) by auto
  with f that show thesis by (simp add: flush_escape_def)
qed

lemma short_byte: "c < 0x80 \<Longrightarrow> legal [c] \<and> trailing c = 0"
  by (auto simp: legal_def encode1_iff trailing_eq word_less_nat_alt)

lemma json_loop_ref:
  "escape_ok buf \<Longrightarrow> holds fb (map Some zs) \<Longrightarrow> length zs + length pend + length (written json_char s) \<le> 2 ^ 63 \<Longrightarrow>
   delivers (json_loop (xs @ pend @ s) buf (length xs) (length xs + length pend) fb)
     (map_sum id (\<lambda>cs. zs @ pend @ concat (map json_char cs)) (split_chars s))"
proof (induction "length s" arbitrary: s xs pend zs buf fb rule: less_induct)
  case less
  note unfold = json_loop.simps [of "xs @ pend @ s"]
  have at: "s \<noteq> [] \<Longrightarrow> (xs @ pend @ s) ! (length xs + length pend) = hd s" by (cases s) (auto simp: nth_append)
  have escaped: ?case
    if s: "s = c # rest" "c < 0x80" and e: "escape = map Some (json_char [c])" "escape_ok b"
    and step: "json_loop (xs @ pend @ s) buf (length xs) (length xs + length pend) fb =
      and_then (total (flush_escape (xs @ pend @ s) (length xs) (length xs + length pend) escape fb))
        (\<lambda>fb. json_loop (xs @ pend @ s) b (length xs + length pend + 1) (length xs + length pend + 1) fb)"
    for c rest escape b
  proof -
    have w: "written json_char s = json_char [c] @ written json_char rest"
      using written_legal [of "[c]" json_char rest] short_byte [OF s(2)] s(1) by simp
    obtain f where f: "flush_escape (xs @ pend @ s) (length xs) (length xs + length pend) escape fb = Some f"
      "holds f (map Some (zs @ pend @ json_char [c]))"
      using flush_escape_ok [OF less.prems(2), of pend "json_char [c]" xs s] less.prems(3) w e(1) by auto
    have room: "length (zs @ pend @ json_char [c]) + length ([] :: bytes) + length (written json_char rest) \<le> 2 ^ 63"
      using less.prems(3) w by simp
    have "split_chars s = map_sum id (\<lambda>cs. [c] # cs) (split_chars rest)"
      using split_chars_legal [of "[c]" rest] short_byte [OF s(2)] s(1) by simp
    with less.hyps [OF _ e(2) f(2) room, of "xs @ pend @ [c]"] s(1) f(1) step show ?thesis
      by (simp add: map_sum_prefix comp_def)
  qed
  show ?case
  proof (cases "s = []")
    case True
    obtain f where "fbuffer_append fb (map Some pend @ []) (of_nat (length pend)) = Some f" "holds f (map Some (zs @ pend))"
      using append_bytes [OF less.prems(2), of pend "[]"] less.prems(3) by auto
    with True show ?thesis by (subst unfold) (simp add: delivers_def)
  next
    case False
    consider (control) "hd s < 0x20" | (quote) "\<not> hd s < 0x20" "hd s = 0x5C \<or> hd s = 0x22"
      | (other) "\<not> hd s < 0x20" "hd s \<noteq> 0x5C" "hd s \<noteq> 0x22" by blast
    then show ?thesis
    proof cases
      case control
      obtain b where b: "control_escape buf (hd s) = Some (map Some (json_char [hd s]), b)" "escape_ok b"
        using control_escape_ref [OF less.prems(1) control] by blast
      have "hd s < 0x80" using control by (simp add: word_less_nat_alt)
      show ?thesis
        by (rule escaped [of "hd s" "tl s", OF _ \<open>hd s < 0x80\<close> refl b(2)]; (subst unfold)?)
          (use False control at b(1) in auto)
    next
      case quote
      then have "hd s < 0x80" "esc2 (hd s) = map Some (json_char [hd s])"
        by (auto simp: esc2_def json_char_byte)
      show ?thesis
        by (rule escaped [of "hd s" "tl s", OF _ \<open>hd s < 0x80\<close> \<open>esc2 (hd s) = _\<close> less.prems(1)]; (subst unfold)?)
          (use False quote at in auto)
    next
      case other
      show ?thesis
      proof (cases s rule: string_cases)
        case partial
        with other at show ?thesis
          by (subst unfold) (simp add: vec_at_trailing delivers_def rb_raise_def split_chars_partial)
      next
        case (char bs rest)
        then have hd: "hd s = hd bs" by simp
        have legal: "isLegalUTF8 (xs @ pend @ s) (length xs + length pend) (trailing (hd bs) + 1) = Some (legal bs)"
          using isLegalUTF8_iff [OF char(2,3), of "xs @ pend" rest] char(1,3) by simp
        show ?thesis
        proof (cases "legal bs")
          case True
          with less.hyps [OF _ less.prems(1,2), of rest "pend @ bs" xs] less.prems(3) char other hd
          have "delivers (json_loop (xs @ pend @ s) buf (length xs) (length xs + length pend + length bs) fb)
            (map_sum id (\<lambda>cs. zs @ pend @ concat (map json_char cs)) (split_chars s))"
            by (simp add: split_chars_legal written_legal map_sum_prefix comp_def json_char_long add.assoc)
          with char hd legal True other at show ?thesis
            by (subst unfold) (simp add: vec_at_trailing)
        next
          case False
          with char hd legal other at show ?thesis
            by (subst unfold) (auto simp: vec_at_trailing delivers_def rb_raise_def split_chars_malformed)
        qed
      qed (use False in simp)
    qed
  qed
qed

section \<open>Correctness\<close>

lemma convert_json_ref:
  assumes "holds fb (map Some zs)" "length zs + length (written json_char s) \<le> 2 ^ 63"
  shows "delivers (convert_UTF8_to_JSON fb s) (map_sum id (\<lambda>r. zs @ r) (convert_ref json_char s))"
  using json_loop_ref [OF escape_ok_init assms(1), of "[]" s "[]"] assms(2)
  by (simp add: convert_UTF8_to_JSON_def convert_ref_def map_sum_prefix comp_def)

lemma convert_ascii_ref:
  assumes "holds fb (map Some zs)" "length zs + length (written ascii_char_ref s) \<le> 2 ^ 63"
  shows "delivers (convert_UTF8_to_JSON_ASCII fb s) (map_sum id (\<lambda>r. zs @ r) (convert_ref ascii_char_ref s))"
  using ascii_loop_ref [OF escape_ok_init assms(1), of s "[]"] assms(2)
  by (simp add: convert_UTF8_to_JSON_ASCII_def convert_ref_def map_sum_prefix comp_def)

text \<open>Either conversion writes at most six bytes for a byte.\<close>

lemma length_ascii_char:
  assumes "legal bs"
  shows "length (ascii_char_ref bs) \<le> 6 * length bs"
proof -
  have any: "length (ascii_char_ref bs) \<le> 12" "code bs \<le> 0xFFFF \<Longrightarrow> length (ascii_char_ref bs) \<le> 6"
    by (simp_all add: ascii_char_ref_def short_escape_def u_escape_def hex4_def)
  from assms show ?thesis
  proof (cases rule: legal_cases)
    case one
    then show ?thesis using any(2) by (simp add: code_def)
  qed (use any(1) in simp_all)
qed

lemma length_json_char:
  assumes "legal bs"
  shows "length (json_char bs) \<le> 6 * length bs"
  using code_long [OF assms]
  by (auto simp: json_char_def u_escape_def hex4_def short_escape_def)

lemma length_written:
  assumes "\<And>bs. legal bs \<Longrightarrow> length (esc bs) \<le> 6 * length bs"
  shows "length (written esc s) \<le> 6 * length s"
proof (induction s rule: split_chars.induct)
  case (1 s)
  let ?n = "trailing (hd s) + 1"
  show ?case
  proof (cases "s = [] \<or> ?n > length s \<or> \<not> legal (take ?n s)")
    case True
    then show ?thesis by (subst written.simps) (auto simp: Let_def)
  next
    case False
    then have "length (written esc (drop ?n s)) \<le> 6 * (length s - ?n)" "length (esc (take ?n s)) \<le> 6 * ?n" "?n \<le> length s"
      using 1 [OF _ refl] assms [of "take ?n s"] by simp_all
    with False show ?thesis by (subst written.simps) (simp add: Let_def)
  qed
qed

lemma legal_not_Nil: "\<not> legal []"
  by (simp add: legal_def loose_def encode_nat_def)

text \<open>A text is a list of scalar values; its bytes split into the encodings.\<close>

definition utf8 :: "nat list \<Rightarrow> bytes" where
  "utf8 cps = concat (map encode cps)"

lemma split_chars_utf8: "list_all scalar cps \<Longrightarrow> split_chars (utf8 cps) = Inr (map encode cps)"
  by (induction cps) (simp_all add: utf8_def split_chars_legal legal_encode)

end
