(* ===== verification/Json_State.thy ===== *)
theory Json_State
  imports Json_Convert
begin

text \<open>
  The Ruby class \<open>JSON::Ext::Generator::State\<close> (\<open>generator.c\<close>, \<open>generator.h\<close>): its C struct, the
  accessors, \<open>configure\<close>, \<open>initialize\<close>, \<open>initialize_copy\<close> and \<open>to_h\<close>. A \<open>char *\<close> of the struct is the
  block it points to, \<open>None\<close> for the null pointer; the length beside it is a number of its own.
  Ruby values are immediate values or references to objects on a heap. The message of a type error
  is reduced to the type that was asked for.
\<close>

section \<open>Ruby values\<close>

datatype rb_value =
  Qnil
| Qfalse
| Qtrue
| Fixnum int
| Bignum int
| Flonum u64
| Ref nat

text \<open>
  Objects whose class is exactly Hash, Array or String, and objects of any other class; those may
  still be strings by their type (\<open>T_STRING\<close>), as the instances of a subclass are. A float is its
  64 bits.
\<close>

datatype rb_obj =
  RHash "(rb_value \<times> rb_value) list"
| RArray "rb_value list"
| RString bytes
| RObject "bytes option"

type_synonym rb_heap = "nat \<Rightarrow> rb_obj option"

definition RTEST :: "rb_value \<Rightarrow> bool" where
  "RTEST v \<longleftrightarrow> v \<noteq> Qnil \<and> v \<noteq> Qfalse"

text \<open>The contents of a value of type \<open>T_STRING\<close>.\<close>

definition string_of :: "rb_heap \<Rightarrow> rb_value \<Rightarrow> bytes option" where
  "string_of h v = (case v of
      Ref a \<Rightarrow> (case h a of Some (RString s) \<Rightarrow> Some s | Some (RObject t) \<Rightarrow> t | _ \<Rightarrow> None)
    | _ \<Rightarrow> None)"

definition Check_String :: "rb_heap \<Rightarrow> rb_value \<Rightarrow> rb_error + bytes" where
  "Check_String h v = (case string_of h v of Some s \<Rightarrow> Inr s | None \<Rightarrow> Inl (TypeError ''String''))"

definition Check_Fixnum :: "rb_value \<Rightarrow> rb_error + int" where
  "Check_Fixnum v = (case v of Fixnum i \<Rightarrow> Inr i | _ \<Rightarrow> Inl (TypeError ''Integer''))"

section \<open>The state\<close>

record JSON_Generator_State =
  indent :: "cells option"
  indent_len :: nat
  space :: "cells option"
  space_len :: nat
  space_before :: "cells option"
  space_before_len :: nat
  object_nl :: "cells option"
  object_nl_len :: nat
  array_nl :: "cells option"
  array_nl_len :: nat
  array_delim :: "fbuffer option"
  object_delim :: "fbuffer option"
  object_delim2 :: "fbuffer option"
  max_nesting :: int
  allow_nan :: bool
  ascii_only :: bool
  depth :: int
  buffer_initial_length :: int

text \<open>The struct is allocated with all bits zero.\<close>

definition cState_s_allocate :: JSON_Generator_State where
  "cState_s_allocate = \<lparr>
     indent = None, indent_len = 0, space = None, space_len = 0, space_before = None, space_before_len = 0,
     object_nl = None, object_nl_len = 0, array_nl = None, array_nl_len = 0,
     array_delim = None, object_delim = None, object_delim2 = None,
     max_nesting = 0, allow_nan = False, ascii_only = False, depth = 0, buffer_initial_length = 0\<rparr>"

text \<open>
  \<open>memccpy(result, ptr, 0, len)\<close> into a fresh block copies up to the first NUL, which it copies
  too; the cells behind it stay as they were allocated. Reading a cell that is not there, or an
  uninitialised one, is undefined.
\<close>

fun memccpy0 :: "cells \<Rightarrow> nat \<Rightarrow> cells option" where
  "memccpy0 src 0 = Some []"
| "memccpy0 [] (Suc n) = None"
| "memccpy0 (None # src) (Suc n) = None"
| "memccpy0 (Some c # src) (Suc n) =
     (if c = 0 then Some (Some c # replicate n None)
      else map_option (\<lambda>xs. Some c # xs) (memccpy0 src n))"

definition fstrndup :: "cells option \<Rightarrow> nat \<Rightarrow> cells option option" where
  "fstrndup ptr len =
     (if len \<le> 0 then Some None
      else do {
        p \<leftarrow> ptr;
        r \<leftarrow> memccpy0 p len;
        Some (Some r)
      })"

text \<open>The bytes of a Ruby string are followed by a NUL; \<open>strdup\<close> copies up to the first NUL.\<close>

definition RSTRING_PTR :: "bytes \<Rightarrow> cells" where
  "RSTRING_PTR s = map Some (s @ [0])"

definition strdup :: "bytes \<Rightarrow> cells" where
  "strdup s = map Some (takeWhile (\<lambda>c. c \<noteq> 0) s @ [0])"

section \<open>Accessors\<close>

definition get_string :: "cells option \<Rightarrow> nat \<Rightarrow> bytes option" where
  "get_string ptr len = (case ptr of Some p \<Rightarrow> rb_str_new p (of_nat len) | None \<Rightarrow> Some [])"

definition cState_indent :: "JSON_Generator_State \<Rightarrow> bytes option" where
  "cState_indent st = get_string (indent st) (indent_len st)"

definition cState_indent_set :: "rb_heap \<Rightarrow> JSON_Generator_State \<Rightarrow> rb_value \<Rightarrow> (JSON_Generator_State, rb_value) act" where
  "cState_indent_set h st v = checked st (Check_String h v) (\<lambda>s.
     if length s = 0 then
       (if indent st \<noteq> None then Some (st\<lparr>indent := None, indent_len := 0\<rparr>, Inr Qnil) else Some (st, Inr Qnil))
     else Some (st\<lparr>indent := Some (strdup s), indent_len := length s\<rparr>, Inr Qnil))"

definition cState_space :: "JSON_Generator_State \<Rightarrow> bytes option" where
  "cState_space st = get_string (space st) (space_len st)"

definition cState_space_set :: "rb_heap \<Rightarrow> JSON_Generator_State \<Rightarrow> rb_value \<Rightarrow> (JSON_Generator_State, rb_value) act" where
  "cState_space_set h st v = checked st (Check_String h v) (\<lambda>s.
     if length s = 0 then
       (if space st \<noteq> None then Some (st\<lparr>space := None, space_len := 0\<rparr>, Inr Qnil) else Some (st, Inr Qnil))
     else Some (st\<lparr>space := Some (strdup s), space_len := length s\<rparr>, Inr Qnil))"

definition cState_space_before :: "JSON_Generator_State \<Rightarrow> bytes option" where
  "cState_space_before st = get_string (space_before st) (space_before_len st)"

definition cState_space_before_set :: "rb_heap \<Rightarrow> JSON_Generator_State \<Rightarrow> rb_value \<Rightarrow> (JSON_Generator_State, rb_value) act" where
  "cState_space_before_set h st v = checked st (Check_String h v) (\<lambda>s.
     if length s = 0 then
       (if space_before st \<noteq> None then Some (st\<lparr>space_before := None, space_before_len := 0\<rparr>, Inr Qnil)
        else Some (st, Inr Qnil))
     else Some (st\<lparr>space_before := Some (strdup s), space_before_len := length s\<rparr>, Inr Qnil))"

text \<open>These two leave the length as it was when the string is emptied.\<close>

definition cState_object_nl :: "JSON_Generator_State \<Rightarrow> bytes option" where
  "cState_object_nl st = get_string (object_nl st) (object_nl_len st)"

definition cState_object_nl_set :: "rb_heap \<Rightarrow> JSON_Generator_State \<Rightarrow> rb_value \<Rightarrow> (JSON_Generator_State, rb_value) act" where
  "cState_object_nl_set h st v = checked st (Check_String h v) (\<lambda>s.
     if length s = 0 then
       (if object_nl st \<noteq> None then Some (st\<lparr>object_nl := None\<rparr>, Inr Qnil) else Some (st, Inr Qnil))
     else Some (st\<lparr>object_nl := Some (strdup s), object_nl_len := length s\<rparr>, Inr Qnil))"

definition cState_array_nl :: "JSON_Generator_State \<Rightarrow> bytes option" where
  "cState_array_nl st = get_string (array_nl st) (array_nl_len st)"

definition cState_array_nl_set :: "rb_heap \<Rightarrow> JSON_Generator_State \<Rightarrow> rb_value \<Rightarrow> (JSON_Generator_State, rb_value) act" where
  "cState_array_nl_set h st v = checked st (Check_String h v) (\<lambda>s.
     if length s = 0 then
       (if array_nl st \<noteq> None then Some (st\<lparr>array_nl := None\<rparr>, Inr Qnil) else Some (st, Inr Qnil))
     else Some (st\<lparr>array_nl := Some (strdup s), array_nl_len := length s\<rparr>, Inr Qnil))"

definition cState_check_circular_p :: "JSON_Generator_State \<Rightarrow> rb_value" where
  "cState_check_circular_p st = (if max_nesting st \<noteq> 0 then Qtrue else Qfalse)"

definition cState_max_nesting :: "JSON_Generator_State \<Rightarrow> rb_value" where
  "cState_max_nesting st = Fixnum (max_nesting st)"

text \<open>The setter returns the number itself where a \<open>VALUE\<close> is expected; the result is not modelled.\<close>

definition cState_max_nesting_set :: "JSON_Generator_State \<Rightarrow> rb_value \<Rightarrow> (JSON_Generator_State, unit) act" where
  "cState_max_nesting_set st v = checked st (Check_Fixnum v) (\<lambda>i. Some (st\<lparr>max_nesting := i\<rparr>, Inr ()))"

definition cState_allow_nan_p :: "JSON_Generator_State \<Rightarrow> rb_value" where
  "cState_allow_nan_p st = (if allow_nan st then Qtrue else Qfalse)"

definition cState_ascii_only_p :: "JSON_Generator_State \<Rightarrow> rb_value" where
  "cState_ascii_only_p st = (if ascii_only st then Qtrue else Qfalse)"

definition cState_depth :: "JSON_Generator_State \<Rightarrow> rb_value" where
  "cState_depth st = Fixnum (depth st)"

definition cState_depth_set :: "JSON_Generator_State \<Rightarrow> rb_value \<Rightarrow> (JSON_Generator_State, rb_value) act" where
  "cState_depth_set st v = checked st (Check_Fixnum v) (\<lambda>i. Some (st\<lparr>depth := i\<rparr>, Inr Qnil))"

definition cState_buffer_initial_length :: "JSON_Generator_State \<Rightarrow> rb_value" where
  "cState_buffer_initial_length st = Fixnum (buffer_initial_length st)"

definition cState_buffer_initial_length_set :: "JSON_Generator_State \<Rightarrow> rb_value \<Rightarrow> (JSON_Generator_State, rb_value) act" where
  "cState_buffer_initial_length_set st v = checked st (Check_Fixnum v) (\<lambda>i.
     if i > 0 then Some (st\<lparr>buffer_initial_length := i\<rparr>, Inr Qnil) else Some (st, Inr Qnil))"

section \<open>Configuration\<close>

text \<open>
  The options are a hash from symbols, given by their names; \<open>rb_hash_aref\<close> of a missing one is
  \<open>Qnil\<close>. The conversion of the argument into a hash is left to Ruby.
\<close>

type_synonym opts = "string \<rightharpoonup> rb_value"

definition aref :: "opts \<Rightarrow> string \<Rightarrow> rb_value" where
  "aref opts k = (case opts k of Some v \<Rightarrow> v | None \<Rightarrow> Qnil)"

text \<open>One of the five strings: the block and the length, if the option is set.\<close>

definition configure_string ::
  "rb_heap \<Rightarrow> opts \<Rightarrow> string \<Rightarrow> (cells option \<Rightarrow> nat \<Rightarrow> JSON_Generator_State \<Rightarrow> JSON_Generator_State) \<Rightarrow>
   JSON_Generator_State \<Rightarrow> (JSON_Generator_State, unit) act" where
  "configure_string h opts key upd st =
     (let tmp = aref opts key in
      if RTEST tmp then checked st (Check_String h tmp) (\<lambda>s. do {
        p \<leftarrow> fstrndup (Some (RSTRING_PTR s)) (length s + 1);
        Some (upd p (length s) st, Inr ())
      })
      else Some (st, Inr ()))"

definition configure_max_nesting :: "opts \<Rightarrow> JSON_Generator_State \<Rightarrow> (JSON_Generator_State, unit) act" where
  "configure_max_nesting opts st =
     (let st = st\<lparr>max_nesting := 100\<rparr> in
      case opts ''max_nesting'' of
        None \<Rightarrow> Some (st, Inr ())
      | Some v \<Rightarrow> if RTEST v then checked st (Check_Fixnum v) (\<lambda>i. Some (st\<lparr>max_nesting := i\<rparr>, Inr ()))
                  else Some (st\<lparr>max_nesting := 0\<rparr>, Inr ()))"

definition configure_depth :: "opts \<Rightarrow> JSON_Generator_State \<Rightarrow> (JSON_Generator_State, unit) act" where
  "configure_depth opts st =
     (let st = st\<lparr>depth := 0\<rparr> in
      case opts ''depth'' of
        None \<Rightarrow> Some (st, Inr ())
      | Some v \<Rightarrow> if RTEST v then checked st (Check_Fixnum v) (\<lambda>i. Some (st\<lparr>depth := i\<rparr>, Inr ()))
                  else Some (st\<lparr>depth := 0\<rparr>, Inr ()))"

definition configure_initial_length :: "opts \<Rightarrow> JSON_Generator_State \<Rightarrow> (JSON_Generator_State, unit) act" where
  "configure_initial_length opts st =
     (case opts ''buffer_initial_length'' of
        None \<Rightarrow> Some (st, Inr ())
      | Some v \<Rightarrow> if RTEST v then checked st (Check_Fixnum v) (\<lambda>i.
                    if i > 0 then Some (st\<lparr>buffer_initial_length := i\<rparr>, Inr ()) else Some (st, Inr ()))
                  else Some (st, Inr ()))"

definition cState_configure :: "rb_heap \<Rightarrow> opts \<Rightarrow> JSON_Generator_State \<Rightarrow> (JSON_Generator_State, unit) act" where
  "cState_configure h opts st =
     act_then (configure_string h opts ''indent'' (\<lambda>p n st. st\<lparr>indent := p, indent_len := n\<rparr>) st) (\<lambda>st _.
     act_then (configure_string h opts ''space'' (\<lambda>p n st. st\<lparr>space := p, space_len := n\<rparr>) st) (\<lambda>st _.
     act_then (configure_string h opts ''space_before'' (\<lambda>p n st. st\<lparr>space_before := p, space_before_len := n\<rparr>) st) (\<lambda>st _.
     act_then (configure_string h opts ''array_nl'' (\<lambda>p n st. st\<lparr>array_nl := p, array_nl_len := n\<rparr>) st) (\<lambda>st _.
     act_then (configure_string h opts ''object_nl'' (\<lambda>p n st. st\<lparr>object_nl := p, object_nl_len := n\<rparr>) st) (\<lambda>st _.
     act_then (configure_max_nesting opts st) (\<lambda>st _.
     act_then (configure_depth opts st) (\<lambda>st _.
     act_then (configure_initial_length opts st) (\<lambda>st _.
     Some (st\<lparr>allow_nan := RTEST (aref opts ''allow_nan''), ascii_only := RTEST (aref opts ''ascii_only'')\<rparr>,
       Inr ())))))))))"

definition cState_initialize :: "rb_heap \<Rightarrow> opts option \<Rightarrow> JSON_Generator_State \<Rightarrow> (JSON_Generator_State, unit) act" where
  "cState_initialize h opts st =
     (let st = st\<lparr>max_nesting := 100, buffer_initial_length := uint FBUFFER_INITIAL_LENGTH_DEFAULT\<rparr> in
      case opts of None \<Rightarrow> Some (st, Inr ()) | Some opts \<Rightarrow> cState_configure h opts st)"

definition dup_delim :: "fbuffer option \<Rightarrow> fbuffer option option" where
  "dup_delim d = (case d of None \<Rightarrow> Some None | Some fb \<Rightarrow> map_option Some (fbuffer_dup fb))"

text \<open>\<open>orig\<close> is another object; the struct is copied and the blocks are duplicated.\<close>

definition cState_init_copy :: "JSON_Generator_State \<Rightarrow> JSON_Generator_State option" where
  "cState_init_copy orig = do {
     p1 \<leftarrow> fstrndup (indent orig) (indent_len orig);
     p2 \<leftarrow> fstrndup (space orig) (space_len orig);
     p3 \<leftarrow> fstrndup (space_before orig) (space_before_len orig);
     p4 \<leftarrow> fstrndup (object_nl orig) (object_nl_len orig);
     p5 \<leftarrow> fstrndup (array_nl orig) (array_nl_len orig);
     d1 \<leftarrow> dup_delim (array_delim orig);
     d2 \<leftarrow> dup_delim (object_delim orig);
     d3 \<leftarrow> dup_delim (object_delim2 orig);
     Some (orig\<lparr>indent := p1, space := p2, space_before := p3, object_nl := p4, array_nl := p5,
       array_delim := d1, object_delim := d2, object_delim2 := d3\<rparr>)
   }"

text \<open>
  A state as a hash: first its instance variables, whose names lose their first character, then the
  settings, which replace entries of the same name. A name with a NUL in it is refused.
\<close>

datatype setting = SString bytes | SValue rb_value

fun set_state_ivars :: "(string \<times> rb_value) list \<Rightarrow> (string \<times> setting) list \<Rightarrow> rb_error + (string \<times> setting) list" where
  "set_state_ivars [] hash = Inr hash"
| "set_state_ivars ((key, value) # ivars) hash =
     (if CHR 0x00 \<in> set key then Inl (ArgError ''string contains null byte'')
      else set_state_ivars ivars (hash_aset hash (tl key) (SValue value)))"

definition new_string :: "cells option \<Rightarrow> nat \<Rightarrow> setting option" where
  "new_string ptr len =
     map_option SString (rb_str_new (case ptr of None \<Rightarrow> [] | Some p \<Rightarrow> p) (of_nat len))"

definition cState_to_h :: "(string \<times> rb_value) list \<Rightarrow> JSON_Generator_State \<Rightarrow> (string \<times> setting) list rb" where
  "cState_to_h ivars st =
     and_then (Some (set_state_ivars ivars [])) (\<lambda>result. total (do {
       s1 \<leftarrow> new_string (indent st) (indent_len st);
       s2 \<leftarrow> new_string (space st) (space_len st);
       s3 \<leftarrow> new_string (space_before st) (space_before_len st);
       s4 \<leftarrow> new_string (object_nl st) (object_nl_len st);
       s5 \<leftarrow> new_string (array_nl st) (array_nl_len st);
       Some (fold (\<lambda>(k, v) result. hash_aset result k v)
         [(''indent'', s1), (''space'', s2), (''space_before'', s3), (''object_nl'', s4),
          (''array_nl'', s5), (''allow_nan'', SValue (cState_allow_nan_p st)),
          (''ascii_only'', SValue (cState_ascii_only_p st)), (''max_nesting'', SValue (Fixnum (max_nesting st))),
          (''depth'', SValue (Fixnum (depth st))),
          (''buffer_initial_length'', SValue (Fixnum (buffer_initial_length st)))] result)
     }))"

text \<open>The number of bytes that the state reports, given the size of the struct.\<close>

definition string_size :: "cells option \<Rightarrow> nat \<Rightarrow> nat" where
  "string_size p n = (if p \<noteq> None then n + 1 else 0)"

definition delim_size :: "fbuffer option \<Rightarrow> nat" where
  "delim_size d = (case d of None \<Rightarrow> 0 | Some fb \<Rightarrow> unat (fb_capa fb))"

definition State_memsize :: "nat \<Rightarrow> JSON_Generator_State \<Rightarrow> nat" where
  "State_memsize sizeof st = sizeof + string_size (indent st) (indent_len st) + string_size (space st) (space_len st)
     + string_size (space_before st) (space_before_len st) + string_size (object_nl st) (object_nl_len st)
     + string_size (array_nl st) (array_nl_len st)
     + delim_size (array_delim st) + delim_size (object_delim st) + delim_size (object_delim2 st)"

section \<open>What a state stands for\<close>

text \<open>
  The abstract view of a state: the five strings, and the settings. A string that is represented
  needs its block to hold as many initialised cells as its length says. For the two line ends it
  also matters whether the pointer is null: an empty one makes the closing bracket indented.
\<close>

record config =
  c_indent :: bytes
  c_space :: bytes
  c_space_before :: bytes
  c_object_nl :: "bytes option"
  c_array_nl :: "bytes option"
  c_max_nesting :: int
  c_allow_nan :: bool
  c_ascii_only :: bool

definition str_is :: "cells option \<Rightarrow> nat \<Rightarrow> bytes \<Rightarrow> bool" where
  "str_is ptr len bs \<longleftrightarrow> (case ptr of
      None \<Rightarrow> bs = []
    | Some p \<Rightarrow> len = length bs \<and> len < 2 ^ 62 \<and> len \<le> length p \<and> take len p = map Some bs)"

definition opt_is :: "cells option \<Rightarrow> nat \<Rightarrow> bytes option \<Rightarrow> bool" where
  "opt_is ptr len bo \<longleftrightarrow> (case bo of None \<Rightarrow> ptr = None | Some bs \<Rightarrow> ptr \<noteq> None \<and> str_is ptr len bs)"

definition stands_for :: "JSON_Generator_State \<Rightarrow> config \<Rightarrow> bool" where
  "stands_for st c \<longleftrightarrow>
     str_is (indent st) (indent_len st) (c_indent c) \<and>
     str_is (space st) (space_len st) (c_space c) \<and>
     str_is (space_before st) (space_before_len st) (c_space_before c) \<and>
     opt_is (object_nl st) (object_nl_len st) (c_object_nl c) \<and>
     opt_is (array_nl st) (array_nl_len st) (c_array_nl c) \<and>
     max_nesting st = c_max_nesting c \<and> allow_nan st = c_allow_nan c \<and> ascii_only st = c_ascii_only c"

text \<open>A null pointer goes with length zero: what the state needs to be copied.\<close>

definition no_stale :: "JSON_Generator_State \<Rightarrow> bool" where
  "no_stale st \<longleftrightarrow>
     (indent st = None \<longrightarrow> indent_len st = 0) \<and> (space st = None \<longrightarrow> space_len st = 0) \<and>
     (space_before st = None \<longrightarrow> space_before_len st = 0) \<and>
     (object_nl st = None \<longrightarrow> object_nl_len st = 0) \<and> (array_nl st = None \<longrightarrow> array_nl_len st = 0)"

lemma take_whole: "0 \<notin> set s \<Longrightarrow> takeWhile (\<lambda>c. c \<noteq> 0) s = s"
  by (auto simp: takeWhile_eq_all_conv)

lemma str_is_strdup: "0 \<notin> set s \<Longrightarrow> length s < 2 ^ 62 \<Longrightarrow> str_is (Some (strdup s)) (length s) s"
  by (simp add: str_is_def strdup_def take_whole)

lemma memccpy0_all: "0 \<notin> set s \<Longrightarrow> memccpy0 (map Some s @ rest) (length s) = Some (map Some s)"
  by (induction s) auto

lemma memccpy0_string: "0 \<notin> set s \<Longrightarrow> memccpy0 (map Some s @ [Some 0]) (Suc (length s)) = Some (map Some s @ [Some 0])"
  by (induction s) auto

lemma fstrndup_string:
  "0 \<notin> set s \<Longrightarrow> fstrndup (Some (RSTRING_PTR s)) (length s + 1) = Some (Some (map Some (s @ [0])))"
  by (simp add: fstrndup_def RSTRING_PTR_def memccpy0_string)

lemma str_is_string: "length s < 2 ^ 62 \<Longrightarrow> str_is (Some (map Some (s @ [0]))) (length s) s"
  by (simp add: str_is_def)

text \<open>A copy stands for the same string, and has no NUL behind it.\<close>

lemma fstrndup_copy:
  assumes "str_is p n s" "0 \<notin> set s" "p = None \<longrightarrow> n = 0"
  shows "\<exists>q. fstrndup p n = Some q \<and> str_is q n s \<and> (q = None \<longrightarrow> n = 0)"
proof (cases p)
  case None
  with assms show ?thesis by (simp add: fstrndup_def str_is_def)
next
  case (Some c)
  then have n: "n = length s" "n < 2 ^ 62" "take n c = map Some s" using assms(1) by (auto simp: str_is_def)
  have "c = map Some s @ drop n c" using n(3) by (metis append_take_drop_id)
  then have "memccpy0 c n = Some (map Some s)" using memccpy0_all [OF assms(2)] n(1) by metis
  with Some n show ?thesis by (auto simp: fstrndup_def str_is_def)
qed

lemma get_string_is: "str_is p n s \<Longrightarrow> get_string p n = Some s"
proof (cases p)
  case (Some c)
  assume "str_is p n s"
  with Some have "n = length s" "n < 2 ^ 62" "n \<le> length c" "take n c = map Some s" by (auto simp: str_is_def)
  moreover from this(2) have "unat (of_nat n :: u64) = n" by (simp add: unat_of_nat take_bit_nat_eq_self_iff)
  ultimately show ?thesis using Some by (auto simp: get_string_def rb_str_new_def comp_def)
qed (simp add: str_is_def get_string_def)

lemma new_string_is: "str_is p n s \<Longrightarrow> (p = None \<longrightarrow> n = 0) \<Longrightarrow> new_string p n = Some (SString s)"
proof (cases p)
  case (Some c)
  assume "str_is p n s"
  from get_string_is [OF this] Some show ?thesis by (simp add: new_string_def get_string_def)
qed (simp add: str_is_def new_string_def rb_str_new_def)

end
