(* ===== verification/Json_Generator.thy ===== *)
theory Json_Generator
  imports Json_State
begin

text \<open>
  The generator proper (\<open>generator.c\<close>): \<open>generate_json\<close> and its cases, the preparation of the
  buffers, and the Ruby methods. Values are read from a heap, which may be circular.

  The C functions call each other recursively. The model counts the calls of \<open>generate_json\<close> that
  are open: with no call left it is \<open>None\<close>. That the recursion ends is therefore a theorem.

  What generation calls back in Ruby is a parameter: \<open>to_s\<close>, \<open>respond_to?(:to_json)\<close>,
  \<open>to_json\<close> (which is handed the state and may leave another depth in it) and \<open>encode\<close>. The Ruby
  code that is called does not change the objects that are being generated and does not
  reconfigure the state.
\<close>

section \<open>Definitions\<close>

record ruby =
  to_s :: "rb_value \<Rightarrow> rb_error + rb_value"
  responds_to_json :: "rb_value \<Rightarrow> bool"
  to_json :: "rb_value \<Rightarrow> JSON_Generator_State \<Rightarrow> int \<times> (rb_error + rb_value)"
  encode_utf8 :: "bytes \<Rightarrow> rb_error + bytes"

type_synonym gen = "JSON_Generator_State \<Rightarrow> fbuffer \<Rightarrow> rb_value \<Rightarrow> (JSON_Generator_State, fbuffer) act"

text \<open>An \<open>fbuffer_append\<close> from a block of the state, and the loop that indents.\<close>

definition append_block :: "fbuffer \<Rightarrow> cells \<Rightarrow> nat \<Rightarrow> fbuffer rb" where
  "append_block fb p n = total (fbuffer_append fb p (of_nat n))"

text \<open>
  The depth is a \<open>long\<close>, but the loops count with an \<open>int\<close>. Going over the end of either type is
  undefined.
\<close>

definition to_long :: "int \<Rightarrow> int option" where
  "to_long i = (if - (2 ^ 63) \<le> i \<and> i < 2 ^ 63 then Some i else None)"

definition int_succ :: "int \<Rightarrow> int option" where
  "int_succ i = (if i < 2 ^ 31 - 1 then Some (i + 1) else None)"

function append_times :: "int \<Rightarrow> int \<Rightarrow> fbuffer \<Rightarrow> cells \<Rightarrow> nat \<Rightarrow> fbuffer rb" where
  "append_times j d fb p n =
     (if j < d then and_then (append_block fb p n) (\<lambda>fb.
        case int_succ j of None \<Rightarrow> None | Some j' \<Rightarrow> append_times j' d fb p n)
      else rb_return fb)"
  by pat_completeness auto
termination
  by (relation "measure (\<lambda>(j, d, fb, p, n). nat (d - j))") (auto simp: int_succ_def split: if_splits)

declare append_times.simps [simp del]

definition append_nl :: "cells option \<Rightarrow> nat \<Rightarrow> fbuffer \<Rightarrow> fbuffer rb" where
  "append_nl p n fb = (case p of Some c \<Rightarrow> append_block fb c n | None \<Rightarrow> rb_return fb)"

definition append_indent :: "cells option \<Rightarrow> nat \<Rightarrow> int \<Rightarrow> fbuffer \<Rightarrow> fbuffer rb" where
  "append_indent p n d fb = (case p of Some c \<Rightarrow> append_times 0 d fb c n | None \<Rightarrow> rb_return fb)"

definition append_chr :: "u8 \<Rightarrow> fbuffer \<Rightarrow> fbuffer rb" where
  "append_chr c fb = total (fbuffer_append_char fb c)"

text \<open>The contents of a delimiter buffer, read through its pointer.\<close>

definition append_delim :: "fbuffer option \<Rightarrow> fbuffer \<Rightarrow> fbuffer rb" where
  "append_delim d fb = total (do { d \<leftarrow> d; fbuffer_append fb (fb_cells d) (fb_len d) })"

definition generate_json_string :: "ruby \<Rightarrow> JSON_Generator_State \<Rightarrow> fbuffer \<Rightarrow> bytes \<Rightarrow> fbuffer rb" where
  "generate_json_string rb st fb obj =
     and_then (append_chr 0x22 fb) (\<lambda>fb.
     and_then (Some (encode_utf8 rb obj)) (\<lambda>obj.
     and_then (if ascii_only st then convert_UTF8_to_JSON_ASCII fb obj else convert_UTF8_to_JSON fb obj) (\<lambda>fb.
     append_chr 0x22 fb)))"

definition generate_json_null :: "fbuffer \<Rightarrow> fbuffer rb" where
  "generate_json_null fb = append_block fb (map Some [0x6E, 0x75, 0x6C, 0x6C]) 4"

definition generate_json_false :: "fbuffer \<Rightarrow> fbuffer rb" where
  "generate_json_false fb = append_block fb (map Some [0x66, 0x61, 0x6C, 0x73, 0x65]) 5"

definition generate_json_true :: "fbuffer \<Rightarrow> fbuffer rb" where
  "generate_json_true fb = append_block fb (map Some [0x74, 0x72, 0x75, 0x65]) 4"

definition generate_json_fixnum :: "fbuffer \<Rightarrow> int \<Rightarrow> fbuffer rb" where
  "generate_json_fixnum fb i = total (fbuffer_append_long fb i)"

text \<open>Ruby's conversion of a number into a string gives a string.\<close>

definition generate_json_bignum :: "ruby \<Rightarrow> rb_heap \<Rightarrow> fbuffer \<Rightarrow> rb_value \<Rightarrow> fbuffer rb" where
  "generate_json_bignum rb h fb obj =
     and_then (Some (to_s rb obj)) (\<lambda>tmp.
     total (do { s \<leftarrow> string_of h tmp; fbuffer_append_str fb s }))"

definition isinf :: "u64 \<Rightarrow> bool" where
  "isinf d \<longleftrightarrow> d AND 0x7FFFFFFFFFFFFFFF = 0x7FF0000000000000"

definition isnan :: "u64 \<Rightarrow> bool" where
  "isnan d \<longleftrightarrow> d AND 0x7FFFFFFFFFFFFFFF > 0x7FF0000000000000"

definition not_allowed :: "string \<Rightarrow> bytes \<Rightarrow> rb_error" where
  "not_allowed line tmp = GeneratorError (line @ '': '' @ map (\<lambda>b. char_of (unat b)) tmp @ '' not allowed in JSON'')"

definition generate_json_float :: "ruby \<Rightarrow> rb_heap \<Rightarrow> JSON_Generator_State \<Rightarrow> fbuffer \<Rightarrow> u64 \<Rightarrow> fbuffer rb" where
  "generate_json_float rb h st fb value =
     and_then (Some (to_s rb (Flonum value))) (\<lambda>tmp.
     and_then (total (string_of h tmp)) (\<lambda>s.
     if \<not> allow_nan st \<and> isinf value then rb_raise (not_allowed ''862'' s)
     else if \<not> allow_nan st \<and> isnan value then rb_raise (not_allowed ''865'' s)
     else total (fbuffer_append_str fb s)))"

text \<open>The entries of an object and of an array; \<open>i\<close> counts them, \<open>depth\<close> is the depth inside.\<close>

fun object_entries :: "ruby \<Rightarrow> rb_heap \<Rightarrow> gen \<Rightarrow> (cells option \<times> nat) \<Rightarrow> (cells option \<times> nat) \<Rightarrow> fbuffer option \<Rightarrow>
    fbuffer option \<Rightarrow> int \<Rightarrow> int \<Rightarrow> (rb_value \<times> rb_value) list \<Rightarrow> JSON_Generator_State \<Rightarrow> fbuffer \<Rightarrow>
    (JSON_Generator_State, fbuffer) act" where
  "object_entries rb h gen nl ind delim delim2 d i [] st fb = stay st (rb_return fb)"
| "object_entries rb h gen nl ind delim delim2 d i ((key, val) # kvs) st fb =
     act_then (stay st (if i > 0 then append_delim delim fb else rb_return fb)) (\<lambda>st fb.
     act_then (stay st (append_nl (fst nl) (snd nl) fb)) (\<lambda>st fb.
     act_then (stay st (append_indent (fst ind) (snd ind) d fb)) (\<lambda>st fb.
     act_then (stay st (Some (to_s rb key))) (\<lambda>st key_to_s.
     checked st (Check_String h key_to_s) (\<lambda>_.
     act_then (gen st fb key_to_s) (\<lambda>st fb.
     act_then (stay st (append_delim delim2 fb)) (\<lambda>st fb.
     act_then (gen st fb val) (\<lambda>st fb. do {
     i \<leftarrow> int_succ i;
     object_entries rb h gen nl ind delim delim2 d i kvs st fb
     }))))))))"

definition generate_json_object ::
  "ruby \<Rightarrow> rb_heap \<Rightarrow> gen \<Rightarrow> JSON_Generator_State \<Rightarrow> fbuffer \<Rightarrow> (rb_value \<times> rb_value) list \<Rightarrow>
   (JSON_Generator_State, fbuffer) act" where
  "generate_json_object rb h gen st fb kvs =
     (let nl = (object_nl st, object_nl_len st); ind = (indent st, indent_len st);
          delim = object_delim st; delim2 = object_delim2 st in do {
      d \<leftarrow> to_long (depth st + 1);
      let st = st\<lparr>depth := d\<rparr>;
      if max_nesting st \<noteq> 0 \<and> d > max_nesting st then Some (st\<lparr>depth := d - 1\<rparr>, Inl (NestingError (d - 1)))
      else
        act_then (stay st (append_chr 0x7B fb)) (\<lambda>st fb.
        act_then (object_entries rb h gen nl ind delim delim2 d 0 kvs st fb) (\<lambda>st fb.
        do {
        d \<leftarrow> to_long (depth st - 1);
        let st = st\<lparr>depth := d\<rparr>;
        act_then (stay st (if fst nl \<noteq> None then
            and_then (append_nl (fst nl) (snd nl) fb) (append_indent (fst ind) (snd ind) d) else rb_return fb)) (\<lambda>st fb.
        stay st (append_chr 0x7D fb))
        }))
      })"

fun array_entries :: "gen \<Rightarrow> (cells option \<times> nat) \<Rightarrow> fbuffer option \<Rightarrow> int \<Rightarrow> int \<Rightarrow> rb_value list \<Rightarrow>
    JSON_Generator_State \<Rightarrow> fbuffer \<Rightarrow> (JSON_Generator_State, fbuffer) act" where
  "array_entries gen ind delim d i [] st fb = stay st (rb_return fb)"
| "array_entries gen ind delim d i (v # vs) st fb =
     act_then (stay st (if i > 0 then append_delim delim fb else rb_return fb)) (\<lambda>st fb.
     act_then (stay st (append_indent (fst ind) (snd ind) d fb)) (\<lambda>st fb.
     act_then (gen st fb v) (\<lambda>st fb. do {
     i \<leftarrow> int_succ i;
     array_entries gen ind delim d i vs st fb
     })))"

definition generate_json_array ::
  "gen \<Rightarrow> JSON_Generator_State \<Rightarrow> fbuffer \<Rightarrow> rb_value list \<Rightarrow> (JSON_Generator_State, fbuffer) act" where
  "generate_json_array gen st fb vs =
     (let nl = (array_nl st, array_nl_len st); ind = (indent st, indent_len st); delim = array_delim st in do {
      d \<leftarrow> to_long (depth st + 1);
      let st = st\<lparr>depth := d\<rparr>;
      if max_nesting st \<noteq> 0 \<and> d > max_nesting st then Some (st\<lparr>depth := d - 1\<rparr>, Inl (NestingError (d - 1)))
      else
        act_then (stay st (append_chr 0x5B fb)) (\<lambda>st fb.
        act_then (stay st (append_nl (fst nl) (snd nl) fb)) (\<lambda>st fb.
        act_then (array_entries gen ind delim d 0 vs st fb) (\<lambda>st fb.
        let d = d - 1; st = st\<lparr>depth := d\<rparr> in
        act_then (stay st (if fst nl \<noteq> None then
            and_then (append_nl (fst nl) (snd nl) fb) (append_indent (fst ind) (snd ind) d) else rb_return fb)) (\<lambda>st fb.
        stay st (append_chr 0x5D fb)))))
      })"

text \<open>Objects of other classes: their own \<open>to_json\<close>, or the string they convert to.\<close>

definition generate_json_other ::
  "ruby \<Rightarrow> rb_heap \<Rightarrow> JSON_Generator_State \<Rightarrow> fbuffer \<Rightarrow> rb_value \<Rightarrow> (JSON_Generator_State, fbuffer) act" where
  "generate_json_other rb h st fb obj =
     (if responds_to_json rb obj then
        (let (d, tmp) = to_json rb obj st; st = st\<lparr>depth := d\<rparr> in
         act_then (stay st (Some tmp)) (\<lambda>st tmp.
         checked st (Check_String h tmp) (\<lambda>s. stay st (total (fbuffer_append_str fb s)))))
      else
        act_then (stay st (Some (to_s rb obj))) (\<lambda>st tmp.
        checked st (Check_String h tmp) (\<lambda>s. stay st (generate_json_string rb st fb s))))"

primrec generate_json :: "ruby \<Rightarrow> rb_heap \<Rightarrow> nat \<Rightarrow> gen" where
  "generate_json rb h 0 st fb obj = None"
| "generate_json rb h (Suc n) st fb obj =
     (case obj of
        Qnil \<Rightarrow> stay st (generate_json_null fb)
      | Qfalse \<Rightarrow> stay st (generate_json_false fb)
      | Qtrue \<Rightarrow> stay st (generate_json_true fb)
      | Fixnum i \<Rightarrow> stay st (generate_json_fixnum fb i)
      | Bignum i \<Rightarrow> stay st (generate_json_bignum rb h fb obj)
      | Flonum d \<Rightarrow> stay st (generate_json_float rb h st fb d)
      | Ref a \<Rightarrow> do {
          x \<leftarrow> h a;
          case x of
            RHash kvs \<Rightarrow> generate_json_object rb h (generate_json rb h n) st fb kvs
          | RArray vs \<Rightarrow> generate_json_array (generate_json rb h n) st fb vs
          | RString s \<Rightarrow> stay st (generate_json_string rb st fb s)
          | RObject _ \<Rightarrow> generate_json_other rb h st fb obj
        })"

text \<open>The buffers of a state before generation: an old one is cleared, a missing one allocated.\<close>

definition fresh_delim :: "fbuffer option \<Rightarrow> fbuffer" where
  "fresh_delim d = (case d of Some fb \<Rightarrow> fbuffer_clear fb | None \<Rightarrow> fbuffer_alloc 16)"

definition append_opt :: "cells option \<Rightarrow> nat \<Rightarrow> fbuffer \<Rightarrow> fbuffer option" where
  "append_opt p n fb = (case p of Some c \<Rightarrow> fbuffer_append fb c (of_nat n) | None \<Rightarrow> Some fb)"

definition cState_prepare_buffer :: "JSON_Generator_State \<Rightarrow> (JSON_Generator_State \<times> fbuffer) option" where
  "cState_prepare_buffer st = do {
     let buffer = fbuffer_alloc (of_int (buffer_initial_length st));
     d \<leftarrow> fbuffer_append_char (fresh_delim (object_delim st)) 0x2C;
     let d2 = fresh_delim (object_delim2 st);
     d2 \<leftarrow> append_opt (space_before st) (space_before_len st) d2;
     d2 \<leftarrow> fbuffer_append_char d2 0x3A;
     d2 \<leftarrow> append_opt (space st) (space_len st) d2;
     a \<leftarrow> fbuffer_append_char (fresh_delim (array_delim st)) 0x2C;
     a \<leftarrow> append_opt (array_nl st) (array_nl_len st) a;
     Some (st\<lparr>object_delim := Some d, object_delim2 := Some d2, array_delim := Some a\<rparr>, buffer)
   }"

definition finish :: "(JSON_Generator_State, fbuffer) act \<Rightarrow> (JSON_Generator_State, bytes) act" where
  "finish r = act_then r (\<lambda>st fb. stay st (total (fbuffer_to_s fb)))"

definition cState_partial_generate ::
  "ruby \<Rightarrow> rb_heap \<Rightarrow> nat \<Rightarrow> JSON_Generator_State \<Rightarrow> rb_value \<Rightarrow> (JSON_Generator_State, bytes) act" where
  "cState_partial_generate rb h n st obj = do {
     (st, buffer) \<leftarrow> cState_prepare_buffer st;
     finish (generate_json rb h n st buffer obj)
   }"

definition cState_generate ::
  "ruby \<Rightarrow> rb_heap \<Rightarrow> nat \<Rightarrow> JSON_Generator_State \<Rightarrow> rb_value \<Rightarrow> (JSON_Generator_State, bytes) act" where
  "cState_generate rb h n st obj = cState_partial_generate rb h n st obj"

section \<open>What a step writes\<close>

text \<open>
  A step emits bytes if it appends them to any buffer with room for them; an action emits them and
  leaves a state behind.
\<close>

definition emits :: "(fbuffer \<Rightarrow> fbuffer rb) \<Rightarrow> bytes \<Rightarrow> bool" where
  "emits f bs \<longleftrightarrow> (\<forall>fb zs. holds fb (map Some zs) \<longrightarrow> length zs + length bs \<le> 2 ^ 63 \<longrightarrow>
     (\<exists>fb'. f fb = Some (Inr fb') \<and> holds fb' (map Some (zs @ bs))))"

definition emits_act :: "JSON_Generator_State \<Rightarrow> (fbuffer \<Rightarrow> (JSON_Generator_State, fbuffer) act) \<Rightarrow> bytes \<Rightarrow> bool" where
  "emits_act st f bs \<longleftrightarrow> (\<forall>fb zs. holds fb (map Some zs) \<longrightarrow> length zs + length bs \<le> 2 ^ 63 \<longrightarrow>
     (\<exists>fb'. f fb = Some (st, Inr fb') \<and> holds fb' (map Some (zs @ bs))))"

named_theorems emit \<open>what the steps of the generator emit\<close>

lemma emits_return [emit]: "emits rb_return []"
  by (simp add: emits_def rb_return_def)

lemma emits_then [emit]:
  assumes "emits f as" "emits g bs"
  shows "emits (\<lambda>fb. and_then (f fb) g) (as @ bs)"
  unfolding emits_def
proof (intro allI impI)
  fix fb zs assume z: "holds fb (map Some zs)" "length zs + length (as @ bs) \<le> 2 ^ 63"
  then obtain f1 where f1: "f fb = Some (Inr f1)" "holds f1 (map Some (zs @ as))"
    using assms(1) unfolding emits_def by (metis add_leD1 add.assoc length_append)
  moreover obtain f2 where "g f1 = Some (Inr f2)" "holds f2 (map Some ((zs @ as) @ bs))"
    using assms(2) f1(2) z(2) unfolding emits_def by (metis add.assoc length_append)
  ultimately show "\<exists>fb'. and_then (f fb) g = Some (Inr fb') \<and> holds fb' (map Some (zs @ as @ bs))" by simp
qed

lemma emits_stay [emit]: "emits f bs \<Longrightarrow> emits_act st (\<lambda>fb. stay st (f fb)) bs"
  by (fastforce simp: emits_def emits_act_def stay_def)

lemma emits_act_then [emit]:
  assumes "emits_act st f as" "emits_act st' (g st) bs"
  shows "emits_act st' (\<lambda>fb. act_then (f fb) g) (as @ bs)"
  unfolding emits_act_def
proof (intro allI impI)
  fix fb zs assume z: "holds fb (map Some zs)" "length zs + length (as @ bs) \<le> 2 ^ 63"
  then obtain f1 where f1: "f fb = Some (st, Inr f1)" "holds f1 (map Some (zs @ as))"
    using assms(1) unfolding emits_act_def by (metis add_leD1 add.assoc length_append)
  moreover obtain f2 where "g st f1 = Some (st', Inr f2)" "holds f2 (map Some ((zs @ as) @ bs))"
    using assms(2) f1(2) z(2) unfolding emits_act_def by (metis add.assoc length_append)
  ultimately show "\<exists>fb'. act_then (f fb) g = Some (st', Inr fb') \<and> holds fb' (map Some (zs @ as @ bs))"
    by (simp add: act_then_def)
qed

lemma emits_chr [emit]: "emits (append_chr c) [c]"
  unfolding emits_def append_chr_def
proof (intro allI impI)
  fix fb zs assume "holds fb (map Some zs)" "length zs + length [c] \<le> 2 ^ 63"
  then show "\<exists>fb'. total (fbuffer_append_char fb c) = Some (Inr fb') \<and> holds fb' (map Some (zs @ [c]))"
    using append_char [of fb zs c] by (metis length_Cons list.size(3) One_nat_def total_simps(2))
qed

lemma emits_cells:
  assumes "length bs = n" "take n p = map Some bs"
  shows "emits (\<lambda>fb. append_block fb p n) bs"
  unfolding emits_def append_block_def
proof (intro allI impI)
  fix fb zs assume z: "holds fb (map Some zs)" "length zs + length bs \<le> 2 ^ 63"
  have p: "p = map Some bs @ drop n p" using assms(2) by (metis append_take_drop_id)
  obtain f where "fbuffer_append fb (map Some bs @ drop n p) (of_nat (length bs)) = Some f" "holds f (map Some (zs @ bs))"
    using append_bytes [OF z] .
  with p assms(1)
  show "\<exists>fb'. total (fbuffer_append fb p (of_nat n)) = Some (Inr fb') \<and> holds fb' (map Some (zs @ bs))"
    by (metis total_simps(2))
qed

lemma emits_str: "emits (\<lambda>fb. total (fbuffer_append_str fb s)) s"
  using emits_cells [of s "length s" "map Some s"]
  by (simp add: append_block_def fbuffer_append_str_def)

lemma emits_nl: "str_is p n bs \<Longrightarrow> emits (append_nl p n) bs"
  by (cases p) (auto simp: append_nl_def [abs_def] str_is_def intro: emits_cells emits_return)

definition repeat :: "nat \<Rightarrow> bytes \<Rightarrow> bytes" where
  "repeat n bs = concat (replicate n bs)"

lemma emits_times:
  assumes "emits (\<lambda>fb. append_block fb p n) bs" "d < 2 ^ 31"
  shows "emits (\<lambda>fb. append_times j d fb p n) (repeat (nat (d - j)) bs)"
proof (induction "nat (d - j)" arbitrary: j)
  case 0
  then show ?case
    using emits_return by (subst append_times.simps) (simp add: repeat_def)
next
  case (Suc m)
  then have j: "j < d" "m = nat (d - (j + 1))" "int_succ j = Some (j + 1)"
    using assms(2) by (auto simp: int_succ_def)
  have "nat (d - j) = Suc (nat (d - (j + 1)))" using j(1) by simp
  with emits_then [OF assms(1) Suc.hyps(1) [OF j(2)]] j(1,3) show ?case
    by (subst append_times.simps) (simp add: repeat_def)
qed

lemma emits_indent: "str_is p n bs \<Longrightarrow> d < 2 ^ 31 \<Longrightarrow> emits (append_indent p n d) (repeat (nat d) bs)"
  using emits_times [of _ n bs d 0]
  by (cases p) (auto simp: append_indent_def [abs_def] str_is_def repeat_def intro: emits_return emits_cells)

text \<open>A depth that does not fit into an \<open>int\<close> makes the indentation undefined.\<close>

lemma deep_indent:
  assumes "2 ^ 31 \<le> d" "j < 2 ^ 31"
  shows "append_times j d fb p n = None"
  using assms(2)
proof (induction "nat (2 ^ 31 - 1 - j)" arbitrary: j fb)
  case 0
  with assms(1) show ?case
    by (subst append_times.simps) (auto simp: int_succ_def append_block_def total_def and_then_def split: option.splits)
next
  case (Suc m)
  then have j: "int_succ j = Some (j + 1)" "m = nat (2 ^ 31 - 1 - (j + 1))" "j + 1 < 2 ^ 31" "j < d"
    using assms(1) by (auto simp: int_succ_def)
  from Suc.hyps(1) [OF j(2,3)] j(1,4) show ?case
    by (subst append_times.simps) (auto simp: append_block_def total_def and_then_def split: option.splits)
qed

lemma emits_delim:
  assumes "holds d (map Some bs)"
  shows "emits (append_delim (Some d)) bs"
proof -
  have "unat (fb_len d) = length bs" using assms by (simp add: holds_def)
  moreover have "of_nat (unat (fb_len d)) = fb_len d" by simp
  ultimately have "fb_len d = of_nat (length bs)" by metis
  moreover have "take (length bs) (fb_cells d) = map Some bs"
    using assms by (auto simp: holds_def fb_cells_def split: option.splits)
  ultimately show ?thesis
    using emits_cells [of bs "length bs" "fb_cells d"] by (simp add: append_delim_def [abs_def] append_block_def)
qed

section \<open>The reference\<close>

text \<open>
  What a value stands for: a tree. A string is the list of its characters; \<open>JText\<close> is a text that
  is copied as it is, the name of a number or the result of a \<open>to_json\<close> of Ruby code.
\<close>

datatype json =
  JNull
| JFalse
| JTrue
| JInt int
| JText bytes
| JString "bytes list"
| JArray "json list"
| JObject "(json \<times> json) list"

definition opt_bytes :: "bytes option \<Rightarrow> bytes" where
  "opt_bytes bo = (case bo of None \<Rightarrow> [] | Some bs \<Rightarrow> bs)"

definition closing :: "bytes option \<Rightarrow> bytes \<Rightarrow> int \<Rightarrow> bytes" where
  "closing nl ind d = (case nl of None \<Rightarrow> [] | Some bs \<Rightarrow> bs @ repeat (nat d) ind)"

fun sep_concat :: "bytes \<Rightarrow> bytes list \<Rightarrow> bytes" where
  "sep_concat sep [] = []"
| "sep_concat sep (x # xs) = x @ concat (map (\<lambda>y. sep @ y) xs)"

definition escape_of :: "config \<Rightarrow> bytes \<Rightarrow> bytes" where
  "escape_of c = (if c_ascii_only c then ascii_char_ref else json_char)"

fun render :: "config \<Rightarrow> int \<Rightarrow> json \<Rightarrow> bytes" where
  "render c d JNull = [0x6E, 0x75, 0x6C, 0x6C]"
| "render c d JFalse = [0x66, 0x61, 0x6C, 0x73, 0x65]"
| "render c d JTrue = [0x74, 0x72, 0x75, 0x65]"
| "render c d (JInt i) = decimal i"
| "render c d (JText s) = s"
| "render c d (JString cs) = [0x22] @ concat (map (escape_of c) cs) @ [0x22]"
| "render c d (JArray ts) =
     [0x5B] @ opt_bytes (c_array_nl c) @
     sep_concat ([0x2C] @ opt_bytes (c_array_nl c))
       (map (\<lambda>t. repeat (nat (d + 1)) (c_indent c) @ render c (d + 1) t) ts) @
     closing (c_array_nl c) (c_indent c) d @ [0x5D]"
| "render c d (JObject kvs) =
     [0x7B] @
     sep_concat [0x2C]
       (map (\<lambda>(k, v). opt_bytes (c_object_nl c) @ repeat (nat (d + 1)) (c_indent c) @ render c (d + 1) k @
         c_space_before c @ [0x3A] @ c_space c @ render c (d + 1) v) kvs) @
     closing (c_object_nl c) (c_indent c) d @ [0x7D]"

fun nesting :: "json \<Rightarrow> nat" where
  "nesting (JArray ts) = Suc (foldr max (map nesting ts) 0)"
| "nesting (JObject kvs) = Suc (foldr max (map (\<lambda>(k, v). max (nesting k) (nesting v)) kvs) 0)"
| "nesting _ = 0"

definition nesting_ok :: "config \<Rightarrow> int \<Rightarrow> json \<Rightarrow> bool" where
  "nesting_ok c d t \<longleftrightarrow> nesting t = 0 \<or> c_max_nesting c = 0 \<or> d + int (nesting t) \<le> c_max_nesting c"

text \<open>
  What the types of the counters can hold: no array or object has more entries than an \<open>int\<close> counts,
  and no depth that is reached is larger than an \<open>int\<close>.
\<close>

fun entries_fit :: "json \<Rightarrow> bool" where
  "entries_fit (JArray ts) \<longleftrightarrow> length ts < 2 ^ 31 \<and> (\<forall>t \<in> set ts. entries_fit t)"
| "entries_fit (JObject kvs) \<longleftrightarrow> length kvs < 2 ^ 31 \<and> (\<forall>(k, v) \<in> set kvs. entries_fit k \<and> entries_fit v)"
| "entries_fit _ \<longleftrightarrow> True"

definition counters_fit :: "config \<Rightarrow> int \<Rightarrow> json \<Rightarrow> bool" where
  "counters_fit c d t \<longleftrightarrow> entries_fit t \<and> - (2 ^ 63) \<le> d \<and>
     (nesting t = 0 \<or> d + int (nesting t) < 2 ^ 31 \<or> c_max_nesting c \<noteq> 0 \<and> c_max_nesting c < 2 ^ 31)"

text \<open>Which values are generated without an exception, and the tree they stand for.\<close>

inductive denotes :: "ruby \<Rightarrow> rb_heap \<Rightarrow> config \<Rightarrow> rb_value \<Rightarrow> json \<Rightarrow> bool"
  for rb :: ruby and h :: rb_heap and c :: config where
  den_nil: "denotes rb h c Qnil JNull"
| den_false: "denotes rb h c Qfalse JFalse"
| den_true: "denotes rb h c Qtrue JTrue"
| den_fixnum: "- (2 ^ 62) \<le> i \<Longrightarrow> i < 2 ^ 62 \<Longrightarrow> denotes rb h c (Fixnum i) (JInt i)"
| den_bignum: "to_s rb (Bignum i) = Inr v \<Longrightarrow> string_of h v = Some s \<Longrightarrow> denotes rb h c (Bignum i) (JText s)"
| den_float: "to_s rb (Flonum x) = Inr v \<Longrightarrow> string_of h v = Some s \<Longrightarrow>
    c_allow_nan c \<or> \<not> isinf x \<and> \<not> isnan x \<Longrightarrow> denotes rb h c (Flonum x) (JText s)"
| den_string: "h a = Some (RString s) \<Longrightarrow> encode_utf8 rb s = Inr u \<Longrightarrow> split_chars u = Inr cs \<Longrightarrow>
    denotes rb h c (Ref a) (JString cs)"
| den_to_json: "h a = Some (RObject x) \<Longrightarrow> responds_to_json rb (Ref a) \<Longrightarrow>
    to_json rb (Ref a) = (\<lambda>st. (depth st, Inr v)) \<Longrightarrow> string_of h v = Some s \<Longrightarrow> denotes rb h c (Ref a) (JText s)"
| den_to_s: "h a = Some (RObject x) \<Longrightarrow> \<not> responds_to_json rb (Ref a) \<Longrightarrow> to_s rb (Ref a) = Inr v \<Longrightarrow>
    string_of h v = Some s \<Longrightarrow> encode_utf8 rb s = Inr u \<Longrightarrow> split_chars u = Inr cs \<Longrightarrow> denotes rb h c (Ref a) (JString cs)"
| den_array: "h a = Some (RArray vs) \<Longrightarrow> list_all2 (denotes rb h c) vs ts \<Longrightarrow> denotes rb h c (Ref a) (JArray ts)"
| den_object: "h a = Some (RHash kvs) \<Longrightarrow>
    list_all2 (\<lambda>kv t. \<exists>k s. to_s rb (fst kv) = Inr k \<and> string_of h k = Some s \<and> denotes rb h c k (fst t) \<and>
      denotes rb h c (snd kv) (snd t)) kvs ts \<Longrightarrow>
    denotes rb h c (Ref a) (JObject ts)"

text \<open>A state that is ready: it stands for the configuration, and its delimiters are prepared.\<close>

definition ready :: "JSON_Generator_State \<Rightarrow> config \<Rightarrow> bool" where
  "ready st c \<longleftrightarrow> stands_for st c \<and>
     (\<exists>d d2 a. object_delim st = Some d \<and> object_delim2 st = Some d2 \<and> array_delim st = Some a \<and>
        holds d (map Some [0x2C]) \<and> holds d2 (map Some (c_space_before c @ [0x3A] @ c_space c)) \<and>
        holds a (map Some ([0x2C] @ opt_bytes (c_array_nl c))))"

lemma ready_depth [simp]: "ready (st\<lparr>depth := d\<rparr>) c \<longleftrightarrow> ready st c"
  by (simp add: ready_def stands_for_def)

section \<open>Generation writes the reference\<close>

declare array_entries.simps [simp del] object_entries.simps [simp del]

lemma emits_convert:
  assumes "split_chars u = Inr cs"
  shows "emits (\<lambda>fb. convert_UTF8_to_JSON fb u) (concat (map json_char cs))"
    and "emits (\<lambda>fb. convert_UTF8_to_JSON_ASCII fb u) (concat (map ascii_char_ref cs))"
  using convert_json_ref [of _ _ u] convert_ascii_ref [of _ _ u] written_split [OF assms] assms
  by (fastforce simp: emits_def delivers_def convert_ref_def)+

lemma emits_string:
  assumes "encode_utf8 rb s = Inr u" "split_chars u = Inr cs" "ascii_only st = c_ascii_only c"
  shows "emits (\<lambda>fb. generate_json_string rb st fb s) (render c d (JString cs))"
proof -
  have "emits (\<lambda>fb. if ascii_only st then convert_UTF8_to_JSON_ASCII fb u else convert_UTF8_to_JSON fb u)
      (concat (map (escape_of c) cs))"
    using emits_convert [OF assms(2)] assms(3) by (simp add: escape_of_def)
  from emits_then [OF emits_chr [of "0x22"] emits_then [OF this emits_chr [of "0x22"]]] show ?thesis
    by (simp add: generate_json_string_def assms(1))
qed

lemma emits_long: "- (2 ^ 62) \<le> i \<Longrightarrow> i < 2 ^ 62 \<Longrightarrow> emits (\<lambda>fb. generate_json_fixnum fb i) (decimal i)"
  using append_long_holds [of _ "map Some _" i]
  by (fastforce simp: emits_def generate_json_fixnum_def simp flip: map_append)

lemma opt_is_str: "opt_is p n bo \<Longrightarrow> str_is p n (opt_bytes bo)"
  by (cases bo) (auto simp: opt_is_def opt_bytes_def str_is_def)

lemma emits_closing:
  assumes "opt_is p n bo" "str_is q m ind" "d < 2 ^ 31"
  shows "emits (\<lambda>fb. if p \<noteq> None then and_then (append_nl p n fb) (append_indent q m d) else rb_return fb)
    (closing bo ind d)"
proof (cases bo)
  case None
  with assms(1) show ?thesis by (simp add: opt_is_def closing_def emits_return)
next
  case (Some bs)
  with assms(1) have "p \<noteq> None" "str_is p n bs" by (simp_all add: opt_is_def)
  with emits_then [OF emits_nl emits_indent [OF assms(2,3)]] Some show ?thesis by (simp add: closing_def)
qed

lemma foldr_max_le: "x \<in> set xs \<Longrightarrow> f x \<le> foldr max (map f xs) (0 :: nat)"
  by (induction xs) auto

text \<open>The entries: all but the first are preceded by the delimiter.\<close>

lemma emits_first: "emits (\<lambda>fb. if i > 0 then f fb else rb_return fb) (if i > (0 :: int) then bs else [])"
  if "emits f bs"
  using that by (simp add: emits_return)

definition fails_act :: "JSON_Generator_State \<Rightarrow> rb_error \<Rightarrow> (fbuffer \<Rightarrow> (JSON_Generator_State, fbuffer) act) \<Rightarrow> nat \<Rightarrow> bool" where
  "fails_act st e f k \<longleftrightarrow> (\<forall>fb zs. holds fb (map Some zs) \<longrightarrow> length zs + k \<le> 2 ^ 63 \<longrightarrow> f fb = Some (st, Inl e))"

lemma fails_first: "fails_act st e f k \<Longrightarrow> fails_act st e (\<lambda>fb. act_then (f fb) g) k"
  by (auto simp: fails_act_def act_then_def)

lemma fails_later:
  assumes "emits_act st f as" "fails_act st' e (g st) k"
  shows "fails_act st' e (\<lambda>fb. act_then (f fb) g) (length as + k)"
  unfolding fails_act_def
proof (intro allI impI)
  fix fb zs assume z: "holds fb (map Some zs)" "length zs + (length as + k) \<le> 2 ^ 63"
  then have "length zs + length as \<le> 2 ^ 63" by simp
  with assms(1) z(1) obtain f1 where f1: "f fb = Some (st, Inr f1)" "holds f1 (map Some (zs @ as))"
    unfolding emits_act_def by blast
  have "length (zs @ as) + k \<le> 2 ^ 63" using z(2) by simp
  with assms(2) f1(2) have "g st f1 = Some (st', Inl e)" unfolding fails_act_def by blast
  with f1(1) show "act_then (f fb) g = Some (st', Inl e)" by (simp add: act_then_def)
qed

lemma fails_mono: "fails_act st e f k \<Longrightarrow> k \<le> m \<Longrightarrow> fails_act st e f m"
  by (fastforce simp: fails_act_def)

text \<open>Every entry is either written or fails; one that fails makes the whole fail.\<close>

definition step_ok :: "JSON_Generator_State \<Rightarrow> JSON_Generator_State \<Rightarrow> rb_error \<Rightarrow> bool \<Rightarrow> (fbuffer \<Rightarrow> (JSON_Generator_State, fbuffer) act) \<Rightarrow> bytes \<Rightarrow> bool" where
  "step_ok st st' e good f bs \<longleftrightarrow> (if good then emits_act st f bs else fails_act st' e f (length bs))"

lemma step_ok_then:
  assumes "emits_act st1 f as" "step_ok st st' e good (g st1) bs"
  shows "step_ok st st' e good (\<lambda>fb. act_then (f fb) g) (as @ bs)"
  using assms emits_act_then [of st1 f as st g bs] fails_later [of st1 f as st' e g "length bs"]
  by (auto simp: step_ok_def)

lemma step_ok_both:
  assumes "step_ok st1 st' e p f as" "p \<Longrightarrow> step_ok st st' e q (g st1) bs"
  shows "step_ok st st' e (p \<and> q) (\<lambda>fb. act_then (f fb) g) (as @ bs)"
proof (cases p)
  case True
  with assms(1) have "emits_act st1 f as" by (simp add: step_ok_def)
  from step_ok_then [where g = g, OF this assms(2) [OF True]] True show ?thesis by simp
next
  case False
  with assms(1) fails_mono [OF fails_first [of st' e f "length as" g]] show ?thesis by (simp add: step_ok_def)
qed

lemma step_ok_emits: "emits_act st f bs \<Longrightarrow> step_ok st st' e True f bs"
  by (simp add: step_ok_def)

lemma step_ok_entry:
  assumes "step_ok st st' e good (\<lambda>fb. gen st fb v) b" "emits (append_delim delim) sep"
    "emits (append_indent (fst ind) (snd ind) d) ib"
    "step_ok st st' e q (array_entries gen ind delim d (i + 1) vs st) bs" "i < 2 ^ 31 - 1"
  shows "step_ok st st' e (good \<and> q) (array_entries gen ind delim d i (v # vs) st) ((if i > 0 then sep else []) @ ib @ b @ bs)"
proof -
  have succ: "int_succ i = Some (i + 1)" using assms(5) by (simp add: int_succ_def)
  have "step_ok st st' e (good \<and> q) (\<lambda>fb. array_entries gen ind delim d i (v # vs) st fb)
      ((if i > 0 then sep else []) @ ib @ b @ bs)"
    unfolding array_entries.simps succ bind.bind_lunit
    by (rule step_ok_then, rule emits_stay, rule emits_first, fact, rule step_ok_then, rule emits_stay, fact,
        rule step_ok_both, fact, rule assms(4))
  then show ?thesis .
qed

lemma array_entries_step:
  assumes "list_all2 (\<lambda>v t. step_ok st st' e (good t) (\<lambda>fb. gen st fb v) (r t)) vs ts"
    "emits (append_delim delim) sep" "emits (append_indent (fst ind) (snd ind) d) ib" "int (length ts) < 2 ^ 31"
  shows "step_ok st st' e (list_all good ts) (array_entries gen ind delim d 0 vs st) (sep_concat sep (map (\<lambda>t. ib @ r t) ts))"
proof -
  have nil: "step_ok st st' e True (array_entries gen ind delim d i [] st) []" for i
  proof -
    have "array_entries gen ind delim d i [] st = (\<lambda>fb. stay st (rb_return fb))" by (rule ext) (simp add: array_entries.simps)
    then show ?thesis using emits_stay [OF emits_return] by (simp add: step_ok_emits)
  qed
  have pos: "step_ok st st' e (list_all good ts) (array_entries gen ind delim d i vs st) (concat (map (\<lambda>t. sep @ ib @ r t) ts))"
    if "0 < i" "i + int (length ts) < 2 ^ 31" "list_all2 (\<lambda>v t. step_ok st st' e (good t) (\<lambda>fb. gen st fb v) (r t)) vs ts" for i vs ts
    using that(3,1,2)
  proof (induction arbitrary: i rule: list_all2_induct)
    case (Cons v vs t ts)
    from step_ok_entry [OF Cons.hyps(1) assms(2,3) Cons.IH [of "i + 1"]] Cons.prems show ?case by simp
  qed (simp add: nil)
  from assms(1) show ?thesis
  proof cases
    case Nil
    then show ?thesis by (simp add: nil)
  next
    case (Cons v vs' t ts')
    with step_ok_entry [OF Cons(3) assms(2,3) pos [of "0 + 1", OF _ _ Cons(4)]] assms(4) show ?thesis by (simp add: comp_def)
  qed
qed

definition entry_ok :: "ruby \<Rightarrow> rb_heap \<Rightarrow> JSON_Generator_State \<Rightarrow> JSON_Generator_State \<Rightarrow> rb_error \<Rightarrow> (json \<Rightarrow> bool) \<Rightarrow> gen \<Rightarrow>
    (json \<Rightarrow> bytes) \<Rightarrow> rb_value \<times> rb_value \<Rightarrow> json \<times> json \<Rightarrow> bool" where
  "entry_ok rb h st st' e good gen r kv t \<longleftrightarrow> (\<exists>ks s. to_s rb (fst kv) = Inr ks \<and> string_of h ks = Some s \<and>
     step_ok st st' e (good (fst t)) (\<lambda>fb. gen st fb ks) (r (fst t)) \<and>
     step_ok st st' e (good (snd t)) (\<lambda>fb. gen st fb (snd kv)) (r (snd t)))"

lemma step_ok_object_entry:
  assumes "entry_ok rb h st st' e good gen r kv t"
    "emits (append_delim delim) sep" "emits (append_delim delim2) sep2" "emits (append_nl (fst nl) (snd nl)) nb"
    "emits (append_indent (fst ind) (snd ind) d) ib"
    "step_ok st st' e q (object_entries rb h gen nl ind delim delim2 d (i + 1) kvs st) bs" "i < 2 ^ 31 - 1"
  shows "step_ok st st' e (good (fst t) \<and> good (snd t) \<and> q) (object_entries rb h gen nl ind delim delim2 d i (kv # kvs) st)
    ((if i > 0 then sep else []) @ nb @ ib @ r (fst t) @ sep2 @ r (snd t) @ bs)"
proof -
  have succ: "int_succ i = Some (i + 1)" using assms(7) by (simp add: int_succ_def)
  obtain k v where kv: "kv = (k, v)" by (cases kv)
  obtain ks s where k: "to_s rb k = Inr ks" "string_of h ks = Some s"
    "step_ok st st' e (good (fst t)) (\<lambda>fb. gen st fb ks) (r (fst t))" "step_ok st st' e (good (snd t)) (\<lambda>fb. gen st fb v) (r (snd t))"
    using assms(1) kv unfolding entry_ok_def by auto
  have key: "act_then (stay st (Some (to_s rb k))) (\<lambda>st key_to_s. checked st (Check_String h key_to_s) (\<lambda>_. f st key_to_s)) = f st ks"
    for st and f :: "JSON_Generator_State \<Rightarrow> rb_value \<Rightarrow> (JSON_Generator_State, fbuffer) act"
    using k(1,2) by (simp add: stay_def act_then_def checked_def Check_String_def)
  have "step_ok st st' e (good (fst t) \<and> good (snd t) \<and> q) (\<lambda>fb. object_entries rb h gen nl ind delim delim2 d i ((k, v) # kvs) st fb)
    ((if i > 0 then sep else []) @ nb @ ib @ r (fst t) @ sep2 @ r (snd t) @ bs)"
    unfolding object_entries.simps key succ bind.bind_lunit
    by (rule step_ok_then, rule emits_stay, rule emits_first, fact, rule step_ok_then, rule emits_stay, fact,
        rule step_ok_then, rule emits_stay, fact, rule step_ok_both, rule k(3), rule step_ok_then, rule emits_stay, rule assms(3),
        rule step_ok_both, rule k(4), rule assms(6))
  then show ?thesis unfolding kv .
qed

lemma object_entries_step:
  assumes "list_all2 (entry_ok rb h st st' e good gen r) kvs ts"
    "emits (append_delim delim) sep" "emits (append_delim delim2) sep2" "emits (append_nl (fst nl) (snd nl)) nb"
    "emits (append_indent (fst ind) (snd ind) d) ib" "int (length ts) < 2 ^ 31"
  shows "step_ok st st' e (list_all (\<lambda>t. good (fst t) \<and> good (snd t)) ts) (object_entries rb h gen nl ind delim delim2 d 0 kvs st)
    (sep_concat sep (map (\<lambda>(k, v). nb @ ib @ r k @ sep2 @ r v) ts))"
proof -
  let ?entries = "\<lambda>i kvs. object_entries rb h gen nl ind delim delim2 d i kvs st"
  note one = step_ok_object_entry [OF _ assms(2-5)]
  have nil: "step_ok st st' e True (?entries i []) []" for i
  proof -
    have "?entries i [] = (\<lambda>fb. stay st (rb_return fb))" by (rule ext) (simp add: object_entries.simps)
    then show ?thesis using emits_stay [OF emits_return] by (simp add: step_ok_emits)
  qed
  have pos: "step_ok st st' e (list_all (\<lambda>t. good (fst t) \<and> good (snd t)) ts) (?entries i kvs)
      (concat (map (\<lambda>t. sep @ nb @ ib @ r (fst t) @ sep2 @ r (snd t)) ts))"
    if "0 < i" "i + int (length ts) < 2 ^ 31" "list_all2 (entry_ok rb h st st' e good gen r) kvs ts" for i kvs ts
    using that(3,1,2)
  proof (induction arbitrary: i rule: list_all2_induct)
    case (Cons kv kvs t ts)
    from one [OF Cons.hyps(1) Cons.IH [of "i + 1"]] Cons.prems show ?case by simp
  qed (simp add: nil)
  from assms(1) show ?thesis
  proof cases
    case Nil
    then show ?thesis by (simp add: nil)
  next
    case (Cons kv kvs' t ts')
    with one [OF Cons(3) pos [of "0 + 1", OF _ _ Cons(4)]] assms(6)
    show ?thesis by (simp add: case_prod_unfold comp_def)
  qed
qed

text \<open>Arrays and objects: one level deeper inside, and back to the depth outside.\<close>

definition limit_state :: "JSON_Generator_State \<Rightarrow> config \<Rightarrow> JSON_Generator_State" where
  "limit_state st c = st\<lparr>depth := c_max_nesting c\<rparr>"

abbreviation generates :: "JSON_Generator_State \<Rightarrow> config \<Rightarrow> json \<Rightarrow> (fbuffer \<Rightarrow> (JSON_Generator_State, fbuffer) act) \<Rightarrow> bool" where
  "generates st c t f \<equiv> step_ok st (limit_state st c) (NestingError (c_max_nesting c)) (nesting_ok c (depth st) t) f (render c (depth st) t)"

definition depth_ok :: "JSON_Generator_State \<Rightarrow> config \<Rightarrow> bool" where
  "depth_ok st c \<longleftrightarrow> c_max_nesting c = 0 \<or> depth st \<le> c_max_nesting c"

lemma foldr_max_le_iff: "foldr max (map f xs) (0 :: nat) \<le> k \<longleftrightarrow> (\<forall>x \<in> set xs. f x \<le> k)"
  by (induction xs) auto

lemma nesting_ok_array:
  "nesting_ok c d (JArray ts) \<longleftrightarrow> (c_max_nesting c = 0 \<or> d + 1 \<le> c_max_nesting c) \<and> list_all (nesting_ok c (d + 1)) ts"
proof -
  have *: "d + int (Suc k) \<le> m \<longleftrightarrow> d + 1 \<le> m \<and> k \<le> nat (m - (d + 1))" for k m by auto
  show ?thesis by (auto simp: nesting_ok_def list_all_iff * foldr_max_le_iff simp del: of_nat_Suc)
qed

lemma nesting_ok_object:
  "nesting_ok c d (JObject ts) \<longleftrightarrow> (c_max_nesting c = 0 \<or> d + 1 \<le> c_max_nesting c) \<and>
     list_all (\<lambda>t. nesting_ok c (d + 1) (fst t) \<and> nesting_ok c (d + 1) (snd t)) ts"
proof -
  have *: "d + int (Suc k) \<le> m \<longleftrightarrow> d + 1 \<le> m \<and> k \<le> nat (m - (d + 1))" for k m by auto
  show ?thesis
    by (fastforce simp: nesting_ok_def list_all_iff * foldr_max_le_iff case_prod_unfold simp del: of_nat_Suc)
qed

lemma deeper:
  assumes "counters_fit c (depth st) t" "depth_ok st c" "nesting t \<noteq> 0"
  shows "to_long (depth st + 1) = Some (depth st + 1)" "depth st < 2 ^ 31"
    "c_max_nesting c = 0 \<or> depth st + 1 \<le> c_max_nesting c \<Longrightarrow> depth st + 1 < 2 ^ 31"
  using assms by (auto simp: counters_fit_def depth_ok_def to_long_def)

lemma counters_inner:
  assumes "counters_fit c d t" "entries_fit u" "nesting u < nesting t"
  shows "counters_fit c (d + 1) u"
  using assms by (auto simp: counters_fit_def)

lemma too_deep:
  assumes "stands_for st c" "depth_ok st c" "\<not> (c_max_nesting c = 0 \<or> depth st + 1 \<le> c_max_nesting c)"
    "to_long (depth st + 1) = Some (depth st + 1)"
  shows "generate_json_array gen st fb vs = Some (limit_state st c, Inl (NestingError (c_max_nesting c)))"
    "generate_json_object rb h gen st fb kvs = Some (limit_state st c, Inl (NestingError (c_max_nesting c)))"
proof -
  have "max_nesting st = c_max_nesting c" using assms(1) by (simp add: stands_for_def)
  moreover have "depth st = c_max_nesting c" using assms(2,3) by (simp add: depth_ok_def)
  ultimately show "generate_json_array gen st fb vs = Some (limit_state st c, Inl (NestingError (c_max_nesting c)))"
    "generate_json_object rb h gen st fb kvs = Some (limit_state st c, Inl (NestingError (c_max_nesting c)))"
    using assms(3,4) by (simp_all add: generate_json_array_def generate_json_object_def limit_state_def Let_def)
qed

lemma array_step:
  fixes st c
  defines "st1 \<equiv> st\<lparr>depth := depth st + 1\<rparr>"
  assumes "ready st c" "depth_ok st c" "counters_fit c (depth st) (JArray ts)"
    "c_max_nesting c = 0 \<or> depth st + 1 \<le> c_max_nesting c \<Longrightarrow> list_all2 (\<lambda>v t. generates st1 c t (\<lambda>fb. gen st1 fb v)) vs ts"
  shows "generates st c (JArray ts) (\<lambda>fb. generate_json_array gen st fb vs)"
proof -
  have nest: "nesting (JArray ts) \<noteq> 0" by simp
  show ?thesis
  proof (cases "c_max_nesting c = 0 \<or> depth st + 1 \<le> c_max_nesting c")
    case False
    with too_deep(1) [OF _ assms(3) False deeper(1) [OF assms(4,3) nest]] assms(2) show ?thesis
      by (auto simp: step_ok_def fails_act_def nesting_ok_array ready_def)
  next
    case True
    let ?ind = "(indent st, indent_len st)" and ?e = "NestingError (c_max_nesting c)" and ?l = "limit_state st c"
    obtain a where a: "array_delim st = Some a" "holds a (map Some ([0x2C] @ opt_bytes (c_array_nl c)))"
      using assms(2) by (auto simp: ready_def)
    have str: "str_is (indent st) (indent_len st) (c_indent c)" "opt_is (array_nl st) (array_nl_len st) (c_array_nl c)"
      "max_nesting st = c_max_nesting c"
      using assms(2) by (simp_all add: ready_def stands_for_def)
    have st1: "depth st1 = depth st + 1" "limit_state st1 c = ?l" by (simp_all add: st1_def limit_state_def)
    note deep = deeper [OF assms(4,3) nest] and deep1 = deeper(3) [OF assms(4,3) nest True]
    have len: "int (length ts) < 2 ^ 31" using assms(4) by (simp add: counters_fit_def)
    have entries: "step_ok st1 ?l ?e (list_all (nesting_ok c (depth st + 1)) ts) (array_entries gen ?ind (array_delim st) (depth st + 1) 0 vs st1)
        (sep_concat ([0x2C] @ opt_bytes (c_array_nl c))
          (map (\<lambda>t. repeat (nat (depth st + 1)) (c_indent c) @ render c (depth st + 1) t) ts))"
      by (rule array_entries_step)
        (simp_all only: a(1) fst_conv snd_conv emits_delim [OF a(2)] emits_indent [OF str(1) deep1] assms(5) [OF True, unfolded st1] len)
    have eq: "generate_json_array gen st fb vs =
        act_then (stay st1 (append_chr 0x5B fb)) (\<lambda>s fb.
        act_then (stay s (append_nl (array_nl st) (array_nl_len st) fb)) (\<lambda>s fb.
        act_then (array_entries gen ?ind (array_delim st) (depth st + 1) 0 vs s fb) (\<lambda>s fb.
        act_then (stay (s\<lparr>depth := depth st\<rparr>) (if array_nl st \<noteq> None then and_then (append_nl (array_nl st) (array_nl_len st) fb)
            (append_indent (indent st) (indent_len st) (depth st)) else rb_return fb)) (\<lambda>s fb.
        stay s (append_chr 0x5D fb)))))" for fb
      using True str(3) unfolding generate_json_array_def Let_def fst_conv snd_conv st1_def deep(1) bind.bind_lunit
      by (cases "max_nesting st = 0") (simp_all cong del: if_weak_cong)
    note open_nl = emits_nl [OF opt_is_str [OF str(2)]] and close = emits_closing [OF str(2,1) deep(2)]
    have "step_ok (st1\<lparr>depth := depth st\<rparr>) ?l ?e (list_all (nesting_ok c (depth st + 1)) ts \<and> True)
        (\<lambda>fb. generate_json_array gen st fb vs) (render c (depth st) (JArray ts))"
      unfolding eq render.simps
      by (rule step_ok_then, rule emits_stay, rule emits_chr, rule step_ok_then, rule emits_stay, rule open_nl,
          rule step_ok_both, rule entries, rule step_ok_emits, rule emits_act_then, rule emits_stay, rule close,
          rule emits_stay, rule emits_chr)
    with True show ?thesis by (simp add: nesting_ok_array st1_def)
  qed
qed

lemma object_step:
  fixes st c
  defines "st1 \<equiv> st\<lparr>depth := depth st + 1\<rparr>"
  assumes "ready st c" "depth_ok st c" "counters_fit c (depth st) (JObject ts)"
    "c_max_nesting c = 0 \<or> depth st + 1 \<le> c_max_nesting c \<Longrightarrow>
     list_all2 (entry_ok rb h st1 (limit_state st c) (NestingError (c_max_nesting c)) (nesting_ok c (depth st + 1)) gen
       (render c (depth st + 1))) kvs ts"
  shows "generates st c (JObject ts) (\<lambda>fb. generate_json_object rb h gen st fb kvs)"
proof -
  have nest: "nesting (JObject ts) \<noteq> 0" by simp
  show ?thesis
  proof (cases "c_max_nesting c = 0 \<or> depth st + 1 \<le> c_max_nesting c")
    case False
    with too_deep(2) [OF _ assms(3) False deeper(1) [OF assms(4,3) nest]] assms(2) show ?thesis
      by (auto simp: step_ok_def fails_act_def nesting_ok_object ready_def)
  next
    case True
    let ?ind = "(indent st, indent_len st)" and ?nl = "(object_nl st, object_nl_len st)"
      and ?e = "NestingError (c_max_nesting c)" and ?l = "limit_state st c"
      and ?good = "\<lambda>t. nesting_ok c (depth st + 1) (fst t) \<and> nesting_ok c (depth st + 1) (snd t)"
    obtain d d2 where d: "object_delim st = Some d" "holds d (map Some [0x2C])"
      "object_delim2 st = Some d2" "holds d2 (map Some (c_space_before c @ [0x3A] @ c_space c))"
      using assms(2) by (auto simp: ready_def)
    have str: "str_is (indent st) (indent_len st) (c_indent c)" "opt_is (object_nl st) (object_nl_len st) (c_object_nl c)"
      "max_nesting st = c_max_nesting c"
      using assms(2) by (simp_all add: ready_def stands_for_def)
    note deep = deeper [OF assms(4,3) nest] and deep1 = deeper(3) [OF assms(4,3) nest True]
    have len: "int (length ts) < 2 ^ 31" using assms(4) by (simp add: counters_fit_def)
    have outer: "to_long (depth st1 - 1) = Some (depth st)" using assms(4) deep(2) by (simp add: counters_fit_def to_long_def st1_def)
    note open_nl = emits_nl [OF opt_is_str [OF str(2)]] and close = emits_closing [OF str(2,1) deep(2)]
    let ?body = "sep_concat [0x2C] (map (\<lambda>(k, v). opt_bytes (c_object_nl c) @ repeat (nat (depth st + 1)) (c_indent c) @
          render c (depth st + 1) k @ (c_space_before c @ [0x3A] @ c_space c) @ render c (depth st + 1) v) ts)"
    have entries: "step_ok st1 ?l ?e (list_all ?good ts)
        (object_entries rb h gen ?nl ?ind (object_delim st) (object_delim2 st) (depth st + 1) 0 kvs st1) ?body"
      by (rule object_entries_step [OF assms(5) [OF True]])
        (simp_all only: len d(1,3) fst_conv snd_conv emits_delim [OF d(2)] emits_delim [OF d(4)] emits_indent [OF str(1) deep1] open_nl)
    have eq: "generate_json_object rb h gen st fb kvs =
        act_then (stay st1 (append_chr 0x7B fb)) (\<lambda>s fb.
        act_then (object_entries rb h gen ?nl ?ind (object_delim st) (object_delim2 st) (depth st + 1) 0 kvs s fb) (\<lambda>s fb.
        do {
          d \<leftarrow> to_long (depth s - 1);
          act_then (stay (s\<lparr>depth := d\<rparr>) (if object_nl st \<noteq> None then and_then (append_nl (object_nl st) (object_nl_len st) fb)
            (append_indent (indent st) (indent_len st) d) else rb_return fb)) (\<lambda>s fb.
          stay s (append_chr 0x7D fb))
        }))" for fb
      using True str(3) unfolding generate_json_object_def Let_def fst_conv snd_conv st1_def deep(1) bind.bind_lunit
      by (cases "max_nesting st = 0") (simp_all cong del: if_weak_cong)
    have "step_ok (st1\<lparr>depth := depth st\<rparr>) ?l ?e (list_all ?good ts \<and> True) (\<lambda>fb. generate_json_object rb h gen st fb kvs)
      ([0x7B] @ ?body @ closing (c_object_nl c) (c_indent c) (depth st) @ [0x7D])"
      unfolding eq
      by (rule step_ok_then, rule emits_stay, rule emits_chr, rule step_ok_both, rule entries,
          simp only: outer bind.bind_lunit, rule step_ok_emits,
          rule emits_act_then, rule emits_stay, rule close, rule emits_stay, rule emits_chr)
    with True show ?thesis by (simp add: nesting_ok_object st1_def)
  qed
qed

lemma leaf_step: "emits f bs \<Longrightarrow> nesting t = 0 \<Longrightarrow> bs = render c (depth st) t \<Longrightarrow> generates st c t (\<lambda>fb. stay st (f fb))"
  using emits_stay [of f bs st] by (simp add: step_ok_def nesting_ok_def)

lemma generate_step:
  "denotes rb h c v t \<Longrightarrow> nesting t < n \<Longrightarrow> ready st c \<Longrightarrow> depth_ok st c \<Longrightarrow> counters_fit c (depth st) t \<Longrightarrow>
   generates st c t (\<lambda>fb. generate_json rb h n st fb v)"
proof (induction arbitrary: n st rule: denotes.induct)
  case den_nil
  have "generates st c JNull (\<lambda>fb. stay st (generate_json_null fb))"
    by (rule leaf_step, unfold generate_json_null_def, rule emits_cells) simp_all
  with den_nil show ?case by (cases n) simp_all
next
  case den_false
  have "generates st c JFalse (\<lambda>fb. stay st (generate_json_false fb))"
    by (rule leaf_step, unfold generate_json_false_def, rule emits_cells) simp_all
  with den_false show ?case by (cases n) simp_all
next
  case den_true
  have "generates st c JTrue (\<lambda>fb. stay st (generate_json_true fb))"
    by (rule leaf_step, unfold generate_json_true_def, rule emits_cells) simp_all
  with den_true show ?case by (cases n) simp_all
next
  case (den_fixnum i)
  then show ?case using leaf_step [OF emits_long, of i "JInt i"] by (cases n) simp_all
next
  case (den_bignum i v s)
  then show ?case
    using leaf_step [OF emits_str [of s], of "JText s"] by (cases n) (simp_all add: generate_json_bignum_def)
next
  case (den_float x v s)
  moreover have "allow_nan st = c_allow_nan c" using den_float.prems(2) by (simp add: ready_def stands_for_def)
  ultimately have "generate_json_float rb h st fb x = total (fbuffer_append_str fb s)" for fb
    by (auto simp: generate_json_float_def)
  with den_float.prems(1) show ?case using leaf_step [OF emits_str [of s], of "JText s"] by (cases n) simp_all
next
  case (den_string a s u cs)
  have "ascii_only st = c_ascii_only c" using den_string.prems(2) by (simp add: ready_def stands_for_def)
  with den_string show ?case
    using leaf_step [OF emits_string [of rb s u cs st c "depth st"], of "JString cs"] by (cases n) simp_all
next
  case (den_to_json a x v s)
  then show ?case
    using leaf_step [OF emits_str [of s], of "JText s" c st]
    by (cases n) (simp_all add: generate_json_other_def stay_def act_then_def checked_def Check_String_def)
next
  case (den_to_s a x v s u cs)
  have "ascii_only st = c_ascii_only c" using den_to_s.prems(2) by (simp add: ready_def stands_for_def)
  with den_to_s show ?case
    using leaf_step [OF emits_string [of rb s u cs st c "depth st"], of "JString cs" c st]
    by (cases n) (simp_all add: generate_json_other_def stay_def act_then_def checked_def Check_String_def)
next
  case (den_array a vs ts)
  then obtain m where n: "n = Suc m" by (cases n) auto
  let ?st = "st\<lparr>depth := depth st + 1\<rparr>"
  have inner: "list_all2 (\<lambda>v t. generates ?st c t (\<lambda>fb. generate_json rb h m ?st fb v)) vs ts"
    if "c_max_nesting c = 0 \<or> depth st + 1 \<le> c_max_nesting c"
    using den_array.IH
  proof (rule list.rel_mono_strong)
    fix v t assume t: "t \<in> set ts"
      and IH: "denotes rb h c v t \<and> (\<forall>n>nesting t. \<forall>st. ready st c \<longrightarrow> depth_ok st c \<longrightarrow> counters_fit c (depth st) t \<longrightarrow>
        generates st c t (\<lambda>fb. generate_json rb h n st fb v))"
    have m: "nesting t < m" using foldr_max_le [OF t, of nesting] den_array.prems(1) n by simp
    moreover have "ready ?st c" "depth_ok ?st c" using den_array.prems(2) that by (auto simp: depth_ok_def)
    moreover have "nesting t < nesting (JArray ts)" "entries_fit t"
      using foldr_max_le [OF t, of nesting] den_array.prems(4) t by (simp_all add: counters_fit_def)
    then have "counters_fit c (depth ?st) t" using counters_inner [OF den_array.prems(4)] by simp
    ultimately show "generates ?st c t (\<lambda>fb. generate_json rb h m ?st fb v)" using IH by blast
  qed
  from array_step [where gen = "generate_json rb h m", OF den_array.prems(2,3,4) inner] den_array.hyps n
  show ?case by simp
next
  case (den_object a kvs ts)
  then obtain m where n: "n = Suc m" by (cases n) auto
  let ?st = "st\<lparr>depth := depth st + 1\<rparr>" and ?l = "limit_state st c" and ?e = "NestingError (c_max_nesting c)"
  have inner: "list_all2 (entry_ok rb h ?st ?l ?e (nesting_ok c (depth st + 1)) (generate_json rb h m) (render c (depth st + 1))) kvs ts"
    if "c_max_nesting c = 0 \<or> depth st + 1 \<le> c_max_nesting c"
    using den_object.IH
  proof (rule list.rel_mono_strong)
    fix kv t assume t: "t \<in> set ts"
      and IH: "\<exists>k s. to_s rb (fst kv) = Inr k \<and> string_of h k = Some s \<and>
        (denotes rb h c k (fst t) \<and> (\<forall>n>nesting (fst t). \<forall>st. ready st c \<longrightarrow> depth_ok st c \<longrightarrow> counters_fit c (depth st) (fst t) \<longrightarrow>
          generates st c (fst t) (\<lambda>fb. generate_json rb h n st fb k))) \<and>
        (denotes rb h c (snd kv) (snd t) \<and> (\<forall>n>nesting (snd t). \<forall>st. ready st c \<longrightarrow> depth_ok st c \<longrightarrow> counters_fit c (depth st) (snd t) \<longrightarrow>
          generates st c (snd t) (\<lambda>fb. generate_json rb h n st fb (snd kv))))"
    have "(fst t, snd t) \<in> set ts" using t by simp
    from foldr_max_le [OF this, of "\<lambda>(k, v). max (nesting k) (nesting v)"]
    have m: "nesting (fst t) < m" "nesting (snd t) < m"
      using den_object.prems(1) n by (simp_all add: case_prod_unfold)
    have st: "ready ?st c" "depth_ok ?st c" using den_object.prems(2) that by (auto simp: depth_ok_def)
    have "nesting (fst t) < nesting (JObject ts)" "nesting (snd t) < nesting (JObject ts)" "entries_fit (fst t)" "entries_fit (snd t)"
      using foldr_max_le [OF \<open>(fst t, snd t) \<in> set ts\<close>, of "\<lambda>(k, v). max (nesting k) (nesting v)"] den_object.prems(4) t
      by (auto simp: counters_fit_def case_prod_unfold)
    then have fit: "counters_fit c (depth ?st) (fst t)" "counters_fit c (depth ?st) (snd t)" using counters_inner [OF den_object.prems(4)] by simp_all
    have eqs: "depth ?st = depth st + 1" "limit_state ?st c = ?l" by (simp_all add: limit_state_def)
    from IH obtain k s where k: "to_s rb (fst kv) = Inr k" "string_of h k = Some s"
      "generates ?st c (fst t) (\<lambda>fb. generate_json rb h m ?st fb k)"
      "generates ?st c (snd t) (\<lambda>fb. generate_json rb h m ?st fb (snd kv))"
      using m st fit by blast
    then show "entry_ok rb h ?st ?l ?e (nesting_ok c (depth st + 1)) (generate_json rb h m) (render c (depth st + 1)) kv t"
      unfolding entry_ok_def eqs by blast
  qed
  from object_step [OF den_object.prems(2,3,4) inner] den_object.hyps n show ?case by simp
qed

section \<open>Whole documents\<close>

text \<open>Between calls a state stands for a configuration, and the buffers it owns are well formed.\<close>

definition delims_ok :: "JSON_Generator_State \<Rightarrow> bool" where
  "delims_ok st \<longleftrightarrow> (\<forall>d \<in> {object_delim st, object_delim2 st, array_delim st}. \<forall>fb. d = Some fb \<longrightarrow>
     (\<exists>xs. holds fb xs \<and> length xs \<le> 2 ^ 63))"

lemma fresh_delim_holds: "(\<And>fb. d = Some fb \<Longrightarrow> \<exists>xs. holds fb xs) \<Longrightarrow> holds (fresh_delim d) (map Some [])"
  by (cases d) (auto simp: fresh_delim_def holds_alloc intro: holds_clear)

lemma append_opt_ok:
  assumes "holds fb (map Some zs)" "str_is p n bs" "length zs + length bs \<le> 2 ^ 63"
  shows "\<exists>fb'. append_opt p n fb = Some fb' \<and> holds fb' (map Some (zs @ bs))"
proof (cases p)
  case None
  with assms show ?thesis by (simp add: append_opt_def str_is_def)
next
  case (Some q)
  then have "emits (append_nl p n) bs" using assms(2) by (intro emits_nl)
  with assms(1,3) Some show ?thesis
    by (fastforce simp: emits_def append_nl_def append_block_def append_opt_def total_def)
qed

lemma append_char_ok:
  assumes "holds fb (map Some zs)" "length zs < 2 ^ 63"
  shows "\<exists>fb'. fbuffer_append_char fb c = Some fb' \<and> holds fb' (map Some (zs @ [c]))"
  using append_char [of fb zs c] assms by auto

lemma str_is_length: "str_is p n bs \<Longrightarrow> length bs < 2 ^ 62"
  by (auto simp: str_is_def split: option.splits)

lemma prepare_ready:
  assumes "stands_for st c" "delims_ok st"
  shows "\<exists>st' fb. cState_prepare_buffer st = Some (st', fb) \<and> ready st' c \<and> delims_ok st' \<and> depth st' = depth st \<and>
    no_stale st' = no_stale st \<and> holds fb (map Some [])"
proof -
  have str: "str_is (space st) (space_len st) (c_space c)" "str_is (space_before st) (space_before_len st) (c_space_before c)"
    "str_is (array_nl st) (array_nl_len st) (opt_bytes (c_array_nl c))"
    using assms(1) by (auto simp: stands_for_def intro: opt_is_str)
  note len = str [THEN str_is_length]
  have fresh: "holds (fresh_delim (object_delim st)) (map Some [])" "holds (fresh_delim (object_delim2 st)) (map Some [])"
    "holds (fresh_delim (array_delim st)) (map Some [])"
    using assms(2) by (auto simp: delims_ok_def intro!: fresh_delim_holds [simplified])
  obtain d where d: "fbuffer_append_char (fresh_delim (object_delim st)) 0x2C = Some d" "holds d (map Some [0x2C])"
    using append_char_ok [OF fresh(1), of "0x2C"] by auto
  obtain d2 where d2: "append_opt (space_before st) (space_before_len st) (fresh_delim (object_delim2 st)) = Some d2"
    "holds d2 (map Some (c_space_before c))"
    using append_opt_ok [OF fresh(2) str(2)] len(2) by auto
  obtain d3 where d3: "fbuffer_append_char d2 0x3A = Some d3" "holds d3 (map Some (c_space_before c @ [0x3A]))"
    using append_char_ok [OF d2(2), of "0x3A"] len(2) by auto
  obtain d4 where d4: "append_opt (space st) (space_len st) d3 = Some d4"
    "holds d4 (map Some ((c_space_before c @ [0x3A]) @ c_space c))"
    using append_opt_ok [OF d3(2) str(1)] len(1,2) by auto
  obtain a where a: "fbuffer_append_char (fresh_delim (array_delim st)) 0x2C = Some a" "holds a (map Some [0x2C])"
    using append_char_ok [OF fresh(3), of "0x2C"] by auto
  obtain a2 where a2: "append_opt (array_nl st) (array_nl_len st) a = Some a2"
    "holds a2 (map Some ([0x2C] @ opt_bytes (c_array_nl c)))"
    using append_opt_ok [OF a(2) str(3)] len(3) by auto
  have "length [0x2C :: u8] \<le> 2 ^ 63" "length ((c_space_before c @ [0x3A]) @ c_space c) \<le> 2 ^ 63"
    "length ([0x2C] @ opt_bytes (c_array_nl c)) \<le> 2 ^ 63" using len by simp_all
  with d(2) d4(2) a2(2) have bounded: "\<exists>xs. holds d xs \<and> length xs \<le> 2 ^ 63" "\<exists>xs. holds d4 xs \<and> length xs \<le> 2 ^ 63"
    "\<exists>xs. holds a2 xs \<and> length xs \<le> 2 ^ 63" by (metis length_map)+
  show ?thesis
    using d d2(1) d3(1) d4 a(1) a2 assms(1) holds_alloc bounded
    by (auto simp: cState_prepare_buffer_def ready_def stands_for_def delims_ok_def no_stale_def)
qed

lemma generate_correct:
  assumes "stands_for st c" "delims_ok st" "denotes rb h c v t" "nesting t < n" "depth_ok st c" "counters_fit c (depth st) t"
    "length (render c (depth st) t) \<le> 2 ^ 63"
  shows "\<exists>st'. cState_generate rb h n st v =
      Some (st', if nesting_ok c (depth st) t then Inr (render c (depth st) t) else Inl (NestingError (c_max_nesting c))) \<and>
    stands_for st' c \<and> delims_ok st' \<and> depth st' = (if nesting_ok c (depth st) t then depth st else c_max_nesting c)"
proof -
  obtain st' fb where p: "cState_prepare_buffer st = Some (st', fb)" "ready st' c" "delims_ok st'" "depth st' = depth st"
    "holds fb (map Some [])"
    using prepare_ready [OF assms(1,2)] by blast
  have "depth_ok st' c" using assms(5) p(4) by (simp add: depth_ok_def)
  from generate_step [OF assms(3,4) p(2) this] p(4) assms(6) have step: "generates st' c t (\<lambda>fb. generate_json rb h n st' fb v)" by simp
  have same: "stands_for (limit_state st' c) c" "delims_ok (limit_state st' c)" "depth (limit_state st' c) = c_max_nesting c"
    using p(2,3) by (simp_all add: limit_state_def ready_def stands_for_def delims_ok_def)
  show ?thesis
  proof (cases "nesting_ok c (depth st) t")
    case True
    with step p(4) have "emits_act st' (\<lambda>fb. generate_json rb h n st' fb v) (render c (depth st) t)"
      by (simp add: step_ok_def)
    then obtain fb' where "generate_json rb h n st' fb v = Some (st', Inr fb')" "holds fb' (map Some (render c (depth st) t))"
      using p(5) assms(7) unfolding emits_act_def by fastforce
    with True p to_s_holds [of fb'] show ?thesis
      by (simp add: cState_generate_def cState_partial_generate_def finish_def act_then_def stay_def ready_def)
  next
    case False
    with step p(4) have "fails_act (limit_state st' c) (NestingError (c_max_nesting c)) (\<lambda>fb. generate_json rb h n st' fb v)
        (length (render c (depth st) t))"
      by (simp add: step_ok_def)
    then have "generate_json rb h n st' fb v = Some (limit_state st' c, Inl (NestingError (c_max_nesting c)))"
      using p(5) assms(7) unfolding fails_act_def by fastforce
    with False p(1) same show ?thesis
      by (simp add: cState_generate_def cState_partial_generate_def finish_def act_then_def)
  qed
qed

end
