(* ===== verification/Json_Methods.thy ===== *)
theory Json_Methods
  imports Json_Generator
begin

text \<open>
  The methods of Ruby's classes that enter the generator, and the life of a state: the invariant
  that \<open>initialize\<close>, \<open>configure\<close>, the accessors, \<open>initialize_copy\<close> and generation keep, as long as no
  string with a NUL in it is configured. Which strings are configured is a parameter of \<open>reachable\<close>.
\<close>

section \<open>Definitions\<close>

text \<open>
  The argument of \<open>to_json\<close>: a state, a hash of options or anything else; \<open>proto\<close> is the constant
  \<open>SAFE_STATE_PROTOTYPE\<close> of the Ruby part of the gem. What comes back is a state, and whether it
  could be made.
\<close>

datatype state_arg =
  AState JSON_Generator_State
| AOpts opts
| AOther

definition cState_from_state_s :: "rb_heap \<Rightarrow> JSON_Generator_State \<Rightarrow> state_arg \<Rightarrow> (JSON_Generator_State, unit) act" where
  "cState_from_state_s h proto arg = (case arg of
      AState st \<Rightarrow> Some (st, Inr ())
    | AOpts opts \<Rightarrow> cState_initialize h (Some opts) cState_s_allocate
    | AOther \<Rightarrow> do { st \<leftarrow> cState_init_copy proto; Some (st, Inr ()) })"

definition GENERATE_JSON ::
  "rb_heap \<Rightarrow> JSON_Generator_State \<Rightarrow> state_arg \<Rightarrow>
   (JSON_Generator_State \<Rightarrow> fbuffer \<Rightarrow> (JSON_Generator_State, fbuffer) act) \<Rightarrow> (JSON_Generator_State, bytes) act" where
  "GENERATE_JSON h proto arg generate =
     act_then (cState_from_state_s h proto arg) (\<lambda>st _. do {
       (st, buffer) \<leftarrow> cState_prepare_buffer st;
       finish (generate st buffer)
     })"

definition mHash_to_json :: "ruby \<Rightarrow> rb_heap \<Rightarrow> nat \<Rightarrow> JSON_Generator_State \<Rightarrow> state_arg \<Rightarrow> (rb_value \<times> rb_value) list \<Rightarrow> (JSON_Generator_State, bytes) act" where
  "mHash_to_json rb h n proto arg self =
     GENERATE_JSON h proto arg (\<lambda>st fb. generate_json_object rb h (generate_json rb h n) st fb self)"

definition mArray_to_json :: "ruby \<Rightarrow> rb_heap \<Rightarrow> nat \<Rightarrow> JSON_Generator_State \<Rightarrow> state_arg \<Rightarrow> rb_value list \<Rightarrow> (JSON_Generator_State, bytes) act" where
  "mArray_to_json rb h n proto arg self =
     GENERATE_JSON h proto arg (\<lambda>st fb. generate_json_array (generate_json rb h n) st fb self)"

text \<open>With one integer class, and with two.\<close>

definition generate_json_integer :: "ruby \<Rightarrow> rb_heap \<Rightarrow> fbuffer \<Rightarrow> rb_value \<Rightarrow> fbuffer rb" where
  "generate_json_integer rb h fb obj =
     (case obj of Fixnum i \<Rightarrow> generate_json_fixnum fb i | _ \<Rightarrow> generate_json_bignum rb h fb obj)"

definition mInteger_to_json :: "ruby \<Rightarrow> rb_heap \<Rightarrow> JSON_Generator_State \<Rightarrow> state_arg \<Rightarrow> rb_value \<Rightarrow> (JSON_Generator_State, bytes) act" where
  "mInteger_to_json rb h proto arg self = GENERATE_JSON h proto arg (\<lambda>st fb. stay st (generate_json_integer rb h fb self))"

definition mFixnum_to_json :: "rb_heap \<Rightarrow> JSON_Generator_State \<Rightarrow> state_arg \<Rightarrow> int \<Rightarrow> (JSON_Generator_State, bytes) act" where
  "mFixnum_to_json h proto arg self = GENERATE_JSON h proto arg (\<lambda>st fb. stay st (generate_json_fixnum fb self))"

definition mBignum_to_json :: "ruby \<Rightarrow> rb_heap \<Rightarrow> JSON_Generator_State \<Rightarrow> state_arg \<Rightarrow> rb_value \<Rightarrow> (JSON_Generator_State, bytes) act" where
  "mBignum_to_json rb h proto arg self = GENERATE_JSON h proto arg (\<lambda>st fb. stay st (generate_json_bignum rb h fb self))"

definition mFloat_to_json :: "ruby \<Rightarrow> rb_heap \<Rightarrow> JSON_Generator_State \<Rightarrow> state_arg \<Rightarrow> u64 \<Rightarrow> (JSON_Generator_State, bytes) act" where
  "mFloat_to_json rb h proto arg self = GENERATE_JSON h proto arg (\<lambda>st fb. stay st (generate_json_float rb h st fb self))"

definition mString_to_json :: "ruby \<Rightarrow> rb_heap \<Rightarrow> JSON_Generator_State \<Rightarrow> state_arg \<Rightarrow> bytes \<Rightarrow> (JSON_Generator_State, bytes) act" where
  "mString_to_json rb h proto arg self = GENERATE_JSON h proto arg (\<lambda>st fb. stay st (generate_json_string rb st fb self))"

definition mTrueClass_to_json :: "rb_heap \<Rightarrow> JSON_Generator_State \<Rightarrow> state_arg \<Rightarrow> (JSON_Generator_State, bytes) act" where
  "mTrueClass_to_json h proto arg = GENERATE_JSON h proto arg (\<lambda>st fb. stay st (generate_json_true fb))"

definition mFalseClass_to_json :: "rb_heap \<Rightarrow> JSON_Generator_State \<Rightarrow> state_arg \<Rightarrow> (JSON_Generator_State, bytes) act" where
  "mFalseClass_to_json h proto arg = GENERATE_JSON h proto arg (\<lambda>st fb. stay st (generate_json_false fb))"

definition mNilClass_to_json :: "rb_heap \<Rightarrow> JSON_Generator_State \<Rightarrow> state_arg \<Rightarrow> (JSON_Generator_State, bytes) act" where
  "mNilClass_to_json h proto arg = GENERATE_JSON h proto arg (\<lambda>st fb. stay st (generate_json_null fb))"

text \<open>
  The fallback for all objects: the string of the object is generated, whatever its class. An
  exception of \<open>to_s\<close> or of the type check comes before a state is made; the state of the result
  is then the prototype, which nobody changed.
\<close>

definition mObject_to_json :: "ruby \<Rightarrow> rb_heap \<Rightarrow> nat \<Rightarrow> JSON_Generator_State \<Rightarrow> state_arg \<Rightarrow> rb_value \<Rightarrow> (JSON_Generator_State, bytes) act" where
  "mObject_to_json rb h n proto arg self =
     act_then (stay proto (Some (to_s rb self))) (\<lambda>_ string.
     checked proto (Check_String h string) (\<lambda>_.
     act_then (cState_from_state_s h proto arg) (\<lambda>st _.
     cState_partial_generate rb h n st string)))"

section \<open>The invariant of a state\<close>

definition clean :: "bytes \<Rightarrow> bool" where
  "clean s \<longleftrightarrow> 0 \<notin> set s \<and> length s < 2 ^ 62"

definition clean_config :: "config \<Rightarrow> bool" where
  "clean_config c \<longleftrightarrow> clean (c_indent c) \<and> clean (c_space c) \<and> clean (c_space_before c) \<and>
     clean (opt_bytes (c_object_nl c)) \<and> clean (opt_bytes (c_array_nl c))"

definition well_formed :: "JSON_Generator_State \<Rightarrow> bool" where
  "well_formed st \<longleftrightarrow> (\<exists>c. stands_for st c \<and> clean_config c) \<and> delims_ok st"

text \<open>The same, string by string.\<close>

definition good_str :: "cells option \<Rightarrow> nat \<Rightarrow> bool" where
  "good_str p n \<longleftrightarrow> (\<exists>s. str_is p n s \<and> clean s)"

lemma clean_Nil: "clean []"
  by (simp add: clean_def)

lemma well_formed_iff:
  "well_formed st \<longleftrightarrow> good_str (indent st) (indent_len st) \<and> good_str (space st) (space_len st) \<and>
     good_str (space_before st) (space_before_len st) \<and> good_str (object_nl st) (object_nl_len st) \<and>
     good_str (array_nl st) (array_nl_len st) \<and> delims_ok st"
  (is "?L \<longleftrightarrow> ?R")
proof
  assume ?L
  then show ?R
    by (auto simp: well_formed_def stands_for_def clean_config_def good_str_def dest: opt_is_str)
next
  have opt: "\<exists>bo. opt_is p n bo \<and> clean (opt_bytes bo)" if g: "good_str p n" for p n
  proof (cases p)
    case None
    then show ?thesis by (intro exI [of _ None]) (simp add: opt_is_def opt_bytes_def clean_Nil)
  next
    case (Some q)
    then obtain s where "str_is p n s" "clean s" using g by (auto simp: good_str_def)
    with Some show ?thesis by (intro exI [of _ "Some s"]) (simp add: opt_is_def opt_bytes_def)
  qed
  assume R: ?R
  then obtain s1 s2 s3 where s: "str_is (indent st) (indent_len st) s1" "clean s1" "str_is (space st) (space_len st) s2" "clean s2"
    "str_is (space_before st) (space_before_len st) s3" "clean s3" by (auto simp: good_str_def)
  obtain o1 o2 where o: "opt_is (object_nl st) (object_nl_len st) o1" "clean (opt_bytes o1)"
    "opt_is (array_nl st) (array_nl_len st) o2" "clean (opt_bytes o2)" using R opt by meson
  let ?c = "\<lparr>c_indent = s1, c_space = s2, c_space_before = s3, c_object_nl = o1, c_array_nl = o2,
    c_max_nesting = max_nesting st, c_allow_nan = allow_nan st, c_ascii_only = ascii_only st\<rparr>"
  have "stands_for st ?c" "clean_config ?c" using s o by (simp_all add: stands_for_def clean_config_def)
  with R show ?L by (auto simp: well_formed_def)
qed

lemma good_str_None [simp]: "good_str None n"
  by (auto simp: good_str_def str_is_def intro: clean_Nil)

lemma good_str_strdup: "clean s \<Longrightarrow> good_str (Some (strdup s)) (length s)"
  using str_is_strdup [of s] by (auto simp: good_str_def clean_def)

lemma good_str_string: "clean s \<Longrightarrow> good_str (Some (map Some (s @ [0]))) (length s)"
  using str_is_string [of s] by (auto simp: good_str_def clean_def)

lemma good_str_copy: "good_str p n \<Longrightarrow> fstrndup p n = Some q \<Longrightarrow> good_str q n"
proof -
  assume g: "good_str p n" and q: "fstrndup p n = Some q"
  show ?thesis
  proof (cases p)
    case None
    with q have "q = None" by (simp add: fstrndup_def split: if_splits)
    then show ?thesis by simp
  next
    case (Some b)
    from g obtain s where "str_is p n s" "clean s" by (auto simp: good_str_def)
    with fstrndup_copy [of p n s] Some q show ?thesis by (auto simp: good_str_def clean_def)
  qed
qed

section \<open>Every operation keeps the invariant\<close>

text \<open>Generation changes nothing of a state but its depth, and the buffers it prepares.\<close>

definition frames :: "gen \<Rightarrow> bool" where
  "frames gen \<longleftrightarrow> (\<forall>st fb v st' r. gen st fb v = Some (st', r) \<longrightarrow> (\<exists>d. st' = st\<lparr>depth := d\<rparr>))"

definition framed :: "JSON_Generator_State \<Rightarrow> (JSON_Generator_State, 'a) act \<Rightarrow> bool" where
  "framed st m \<longleftrightarrow> (\<forall>st' r. m = Some (st', r) \<longrightarrow> (\<exists>d. st' = st\<lparr>depth := d\<rparr>))"

lemma depth_self [simp]: "\<exists>d. st = st\<lparr>depth := d\<rparr>"
  by (rule exI [of _ "depth st"]) simp

lemma framed_bind: "(\<And>x. framed st (f x)) \<Longrightarrow> framed st (Option.bind m f)"
  by (cases m) (auto simp: framed_def)

lemma framed_stay: "framed st (stay (st\<lparr>depth := d\<rparr>) m)" "framed st (stay st m)"
  by (auto simp: framed_def stay_def)

lemma framed_then: "framed st m \<Longrightarrow> (\<And>d x. framed st (f (st\<lparr>depth := d\<rparr>) x)) \<Longrightarrow> framed st (act_then m f)"
  by (fastforce simp: framed_def act_then_def split: option.splits sum.splits prod.splits)

lemma framed_checked: "(\<And>x. framed st (f x)) \<Longrightarrow> framed st (checked (st\<lparr>depth := d\<rparr>) r f)"
  by (auto simp: framed_def checked_def split: sum.splits)

lemma framed_deeper: "framed st m \<longleftrightarrow> framed (st\<lparr>depth := d\<rparr>) m"
  by (auto simp: framed_def)

lemma framed_gen: "frames gen \<Longrightarrow> framed st (gen (st\<lparr>depth := d\<rparr>) fb v)"
  by (fastforce simp: frames_def framed_def)

lemma array_entries_framed:
  assumes "frames gen"
  shows "framed st (array_entries gen ind delim d i vs (st\<lparr>depth := e\<rparr>) fb)"
  by (induction vs arbitrary: i e fb)
    (auto simp: array_entries.simps intro!: framed_bind framed_then framed_stay framed_gen [OF assms])

lemma object_entries_framed:
  assumes "frames gen"
  shows "framed st (object_entries rb h gen nl ind delim delim2 d i kvs (st\<lparr>depth := e\<rparr>) fb)"
proof (induction kvs arbitrary: i e fb)
  case (Cons kv kvs)
  then show ?case
    by (cases kv) (auto simp: object_entries.simps intro!: framed_bind framed_then framed_stay framed_gen [OF assms] framed_checked)
qed (auto simp: object_entries.simps intro!: framed_stay)

lemma array_framed: "frames gen \<Longrightarrow> framed st (generate_json_array gen st fb vs)"
  by (auto simp: generate_json_array_def Let_def intro!: framed_bind framed_then framed_stay array_entries_framed)
    (auto simp: framed_def)

lemma object_framed: "frames gen \<Longrightarrow> framed st (generate_json_object rb h gen st fb kvs)"
  by (auto simp: generate_json_object_def Let_def intro!: framed_bind framed_then framed_stay object_entries_framed)
    (auto simp: framed_def)

lemma other_framed: "framed st (generate_json_other rb h st fb v)"
  by (auto simp: generate_json_other_def split: prod.splits intro!: framed_then framed_stay framed_checked)

lemma generate_frames: "frames (generate_json rb h n)"
proof (induction n)
  case (Suc n)
  have "framed st (generate_json rb h (Suc n) st fb v)" for st fb v
    by (auto split: rb_value.splits rb_obj.splits
        intro!: framed_bind framed_stay(2) array_framed [OF Suc] object_framed [OF Suc] other_framed)
  then show ?case by (auto simp: frames_def framed_def)
qed (simp add: frames_def)

lemma well_formed_depth [simp]: "well_formed (st\<lparr>depth := d\<rparr>) \<longleftrightarrow> well_formed st"
  by (simp add: well_formed_iff delims_ok_def)

lemma prepare_well_formed:
  assumes "well_formed st"
  shows "\<exists>st' fb. cState_prepare_buffer st = Some (st', fb) \<and> well_formed st'"
proof -
  obtain c where c: "stands_for st c" "clean_config c" "delims_ok st" using assms by (auto simp: well_formed_def)
  with prepare_ready [OF c(1,3)] show ?thesis by (auto simp: well_formed_def ready_def)
qed

lemma generate_well_formed:
  assumes "well_formed st" "cState_generate rb h n st v = Some (st', r)"
  shows "well_formed st'"
proof -
  obtain s fb where s: "cState_prepare_buffer st = Some (s, fb)" "well_formed s" using prepare_well_formed [OF assms(1)] by blast
  have "framed s (generate_json rb h n s fb v)" using generate_frames [of rb h n] by (auto simp: frames_def framed_def)
  then have "framed s (finish (generate_json rb h n s fb v))" by (auto simp: finish_def intro!: framed_then framed_stay)
  moreover have "finish (generate_json rb h n s fb v) = Some (st', r)"
    using assms(2) s(1) by (simp add: cState_generate_def cState_partial_generate_def)
  ultimately show ?thesis using s(2) by (auto simp: framed_def)
qed

lemma dup_delim_ok:
  assumes "\<And>fb. d = Some fb \<Longrightarrow> \<exists>xs. holds fb xs \<and> length xs \<le> 2 ^ 63" "dup_delim d = Some d'"
  shows "d' = Some fb \<Longrightarrow> \<exists>xs. holds fb xs \<and> length xs \<le> 2 ^ 63"
  using assms dup_holds by (fastforce simp: dup_delim_def split: option.splits)

lemma copy_well_formed:
  assumes "well_formed st" "cState_init_copy st = Some st'"
  shows "well_formed st'"
proof -
  from assms(2) obtain p1 p2 p3 p4 p5 d1 d2 d3 where c: "fstrndup (indent st) (indent_len st) = Some p1"
    "fstrndup (space st) (space_len st) = Some p2" "fstrndup (space_before st) (space_before_len st) = Some p3"
    "fstrndup (object_nl st) (object_nl_len st) = Some p4" "fstrndup (array_nl st) (array_nl_len st) = Some p5"
    "dup_delim (array_delim st) = Some d1" "dup_delim (object_delim st) = Some d2" "dup_delim (object_delim2 st) = Some d3"
    "st' = st\<lparr>indent := p1, space := p2, space_before := p3, object_nl := p4, array_nl := p5,
       array_delim := d1, object_delim := d2, object_delim2 := d3\<rparr>"
    by (auto simp: cState_init_copy_def bind_eq_Some_conv)
  have del: "delims_ok st'"
    using assms(1) dup_delim_ok [OF _ c(6)] dup_delim_ok [OF _ c(7)] dup_delim_ok [OF _ c(8)]
    by (simp add: well_formed_iff delims_ok_def c(9))
  with assms(1) c(9) good_str_copy [OF _ c(1)] good_str_copy [OF _ c(2)] good_str_copy [OF _ c(3)]
    good_str_copy [OF _ c(4)] good_str_copy [OF _ c(5)] show ?thesis
    by (simp add: well_formed_iff)
qed

text \<open>A value, and the string options, whose contents satisfy a predicate on strings.\<close>

definition string_val :: "(bytes \<Rightarrow> bool) \<Rightarrow> rb_heap \<Rightarrow> rb_value \<Rightarrow> bool" where
  "string_val P h v \<longleftrightarrow> (\<forall>s. string_of h v = Some s \<longrightarrow> P s)"

lemma checked_string:
  assumes "checked st (Check_String h v) f = Some (st', r)" "string_val clean h v"
  obtains "st' = st" | s where "clean s" "f s = Some (st', r)"
  using assms by (cases "string_of h v") (auto simp: checked_def Check_String_def string_val_def)

lemma set_well_formed:
  assumes "well_formed st" "string_val clean h v"
  shows "cState_indent_set h st v = Some (st', r) \<Longrightarrow> well_formed st'"
    "cState_space_set h st v = Some (st', r) \<Longrightarrow> well_formed st'"
    "cState_space_before_set h st v = Some (st', r) \<Longrightarrow> well_formed st'"
    "cState_object_nl_set h st v = Some (st', r) \<Longrightarrow> well_formed st'"
    "cState_array_nl_set h st v = Some (st', r) \<Longrightarrow> well_formed st'"
  unfolding cState_indent_set_def cState_space_set_def cState_space_before_set_def cState_object_nl_set_def cState_array_nl_set_def
  by (erule checked_string [OF _ assms(2)]; use assms(1) good_str_strdup in \<open>auto simp: well_formed_iff delims_ok_def split: if_splits\<close>)+

lemma number_set_well_formed:
  assumes "well_formed st"
  shows "cState_max_nesting_set st v = Some (st', r1) \<Longrightarrow> well_formed st'"
    "cState_depth_set st v = Some (st', r2) \<Longrightarrow> well_formed st'"
    "cState_buffer_initial_length_set st v = Some (st', r3) \<Longrightarrow> well_formed st'"
  using assms
  by (auto simp: cState_max_nesting_set_def cState_depth_set_def cState_buffer_initial_length_set_def checked_def
      well_formed_iff delims_ok_def split: sum.splits if_splits)

definition string_opts :: "(bytes \<Rightarrow> bool) \<Rightarrow> rb_heap \<Rightarrow> opts \<Rightarrow> bool" where
  "string_opts P h opts \<longleftrightarrow> (\<forall>k \<in> {''indent'', ''space'', ''space_before'', ''array_nl'', ''object_nl''}. string_val P h (aref opts k))"

text \<open>An action that keeps the invariant, whatever it returns.\<close>

definition keeps_wf :: "(JSON_Generator_State, 'a) act \<Rightarrow> bool" where
  "keeps_wf m \<longleftrightarrow> (\<forall>st r. m = Some (st, r) \<longrightarrow> well_formed st)"

lemma keeps_wf_then: "keeps_wf m \<Longrightarrow> (\<And>st x. well_formed st \<Longrightarrow> keeps_wf (f st x)) \<Longrightarrow> keeps_wf (act_then m f)"
  by (fastforce simp: keeps_wf_def act_then_def split: option.splits sum.splits prod.splits)

lemma configure_string_wf:
  assumes "well_formed st" "string_val clean h (aref opts key)"
    "\<And>p n. good_str p n \<Longrightarrow> well_formed (upd p n st)"
  shows "keeps_wf (configure_string h opts key upd st)"
proof (cases "RTEST (aref opts key)")
  case True
  have "well_formed st'" if act: "checked st (Check_String h (aref opts key)) (\<lambda>s. do {
      p \<leftarrow> fstrndup (Some (RSTRING_PTR s)) (length s + 1); Some (upd p (length s) st, Inr ()) }) = Some (st', r)" for st' r
    using act assms(2)
  proof (rule checked_string)
    fix s assume s: "clean s" "do { p \<leftarrow> fstrndup (Some (RSTRING_PTR s)) (length s + 1); Some (upd p (length s) st, Inr ()) } = Some (st', r)"
    then have "st' = upd (Some (map Some (s @ [0]))) (length s) st"
      using fstrndup_string [of s] by (simp add: clean_def)
    with assms(3) [OF good_str_string [OF s(1)]] show ?thesis by simp
  qed (use assms(1) in simp)
  with True show ?thesis by (simp add: configure_string_def Let_def keeps_wf_def)
qed (use assms(1) in \<open>simp add: configure_string_def keeps_wf_def\<close>)

lemma configure_well_formed:
  assumes "well_formed st" "string_opts clean h opts"
  shows "keeps_wf (cState_configure h opts st)"
proof -
  have cl: "string_val clean h (aref opts k)" if "k \<in> {''indent'', ''space'', ''space_before'', ''array_nl'', ''object_nl''}" for k
    by (rule bspec [OF assms(2) [unfolded string_opts_def] that])
  have num: "keeps_wf (configure_max_nesting opts st)" "keeps_wf (configure_depth opts st)" "keeps_wf (configure_initial_length opts st)"
    if "well_formed st" for st
    using that
    by (auto simp: keeps_wf_def configure_max_nesting_def configure_depth_def configure_initial_length_def Let_def checked_def
        well_formed_iff delims_ok_def split: option.splits sum.splits if_splits)
  show ?thesis
    unfolding cState_configure_def
    by (intro keeps_wf_then configure_string_wf num cl assms(1); (use assms(1) in \<open>simp add: well_formed_iff delims_ok_def keeps_wf_def\<close>)?)
qed

lemma initialize_well_formed:
  assumes "\<And>os. opts = Some os \<Longrightarrow> string_opts clean h os"
  shows "keeps_wf (cState_initialize h opts cState_s_allocate)"
proof -
  have "well_formed (cState_s_allocate\<lparr>max_nesting := 100, buffer_initial_length := uint FBUFFER_INITIAL_LENGTH_DEFAULT\<rparr>)"
    by (simp add: well_formed_iff cState_s_allocate_def delims_ok_def)
  with configure_well_formed assms show ?thesis
    by (auto simp: cState_initialize_def Let_def keeps_wf_def split: option.splits)
qed

text \<open>The states that a program can make, if every string it configures satisfies \<open>P\<close>.\<close>

inductive reachable :: "(bytes \<Rightarrow> bool) \<Rightarrow> ruby \<Rightarrow> JSON_Generator_State \<Rightarrow> bool" for P :: "bytes \<Rightarrow> bool" and rb :: ruby where
  reach_new: "(\<And>os. opts = Some os \<Longrightarrow> string_opts P h os) \<Longrightarrow>
    cState_initialize h opts cState_s_allocate = Some (st, r) \<Longrightarrow> reachable P rb st"
| reach_configure: "reachable P rb st \<Longrightarrow> string_opts P h opts \<Longrightarrow> cState_configure h opts st = Some (st', r) \<Longrightarrow> reachable P rb st'"
| reach_indent: "reachable P rb st \<Longrightarrow> string_val P h v \<Longrightarrow> cState_indent_set h st v = Some (st', r') \<Longrightarrow> reachable P rb st'"
| reach_space: "reachable P rb st \<Longrightarrow> string_val P h v \<Longrightarrow> cState_space_set h st v = Some (st', r') \<Longrightarrow> reachable P rb st'"
| reach_space_before: "reachable P rb st \<Longrightarrow> string_val P h v \<Longrightarrow> cState_space_before_set h st v = Some (st', r') \<Longrightarrow> reachable P rb st'"
| reach_object_nl: "reachable P rb st \<Longrightarrow> string_val P h v \<Longrightarrow> cState_object_nl_set h st v = Some (st', r') \<Longrightarrow> reachable P rb st'"
| reach_array_nl: "reachable P rb st \<Longrightarrow> string_val P h v \<Longrightarrow> cState_array_nl_set h st v = Some (st', r') \<Longrightarrow> reachable P rb st'"
| reach_max_nesting: "reachable P rb st \<Longrightarrow> cState_max_nesting_set st v = Some (st', r) \<Longrightarrow> reachable P rb st'"
| reach_depth: "reachable P rb st \<Longrightarrow> cState_depth_set st v = Some (st', r') \<Longrightarrow> reachable P rb st'"
| reach_initial_length: "reachable P rb st \<Longrightarrow> cState_buffer_initial_length_set st v = Some (st', r') \<Longrightarrow> reachable P rb st'"
| reach_copy: "reachable P rb st \<Longrightarrow> cState_init_copy st = Some st' \<Longrightarrow> reachable P rb st'"
| reach_generate: "reachable P rb st \<Longrightarrow> cState_generate rb h n st v = Some (st', r'') \<Longrightarrow> reachable P rb st'"

lemma reachable_well_formed: "reachable clean rb st \<Longrightarrow> well_formed st"
proof (induction rule: reachable.induct)
  case (reach_new opts h st r)
  then show ?case using initialize_well_formed [of opts h] by (auto simp: keeps_wf_def)
next
  case (reach_configure st h opts st' r)
  then show ?case using configure_well_formed [of st h opts] by (auto simp: keeps_wf_def)
qed (auto intro: set_well_formed number_set_well_formed copy_well_formed generate_well_formed)

end
