(* ===== verification/Json_Returns.thy ===== *)
theory Json_Returns
  imports Json_Generator
begin

text \<open>
  Generation returns, a document or an exception, on every heap if the nesting is limited: also on
  values that contain themselves, for which there is no tree. The heap and Ruby's methods are only
  bounded: how many entries a container has, and how long a string is.
\<close>

section \<open>Steps that return\<close>

text \<open>A step that returns from any buffer with room for \<open>k\<close> bytes, of which it writes some.\<close>

definition yields :: "(fbuffer \<Rightarrow> fbuffer rb) \<Rightarrow> nat \<Rightarrow> bool" where
  "yields f k \<longleftrightarrow> (\<forall>fb zs. holds fb (map Some zs) \<longrightarrow> length zs + k \<le> 2 ^ 63 \<longrightarrow>
     (\<exists>r. f fb = Some r \<and> (\<forall>fb'. r = Inr fb' \<longrightarrow> (\<exists>ws. holds fb' (map Some (zs @ ws)) \<and> length ws \<le> k))))"

definition settles :: "JSON_Generator_State \<Rightarrow> (fbuffer \<Rightarrow> (JSON_Generator_State, fbuffer) act) \<Rightarrow> nat \<Rightarrow> bool" where
  "settles st f k \<longleftrightarrow> (\<forall>fb zs. holds fb (map Some zs) \<longrightarrow> length zs + k \<le> 2 ^ 63 \<longrightarrow>
     (\<exists>st' r. f fb = Some (st', r) \<and>
       (\<forall>fb'. r = Inr fb' \<longrightarrow> st' = st \<and> (\<exists>ws. holds fb' (map Some (zs @ ws)) \<and> length ws \<le> k))))"

lemma yieldsE:
  assumes "yields f k" "holds fb (map Some zs)" "length zs + k \<le> 2 ^ 63"
  obtains (raised) e where "f fb = Some (Inl e)"
  | (written) fb' ws where "f fb = Some (Inr fb')" "holds fb' (map Some (zs @ ws))" "length ws \<le> k"
proof -
  obtain r where "f fb = Some r" "\<forall>fb'. r = Inr fb' \<longrightarrow> (\<exists>ws. holds fb' (map Some (zs @ ws)) \<and> length ws \<le> k)"
    using assms unfolding yields_def by blast
  then show thesis by (cases r) (auto intro: raised written)
qed

lemma settlesE:
  assumes "settles st f k" "holds fb (map Some zs)" "length zs + k \<le> 2 ^ 63"
  obtains (raised) st' e where "f fb = Some (st', Inl e)"
  | (written) fb' ws where "f fb = Some (st, Inr fb')" "holds fb' (map Some (zs @ ws))" "length ws \<le> k"
proof -
  obtain st' r where "f fb = Some (st', r)"
    "\<forall>fb'. r = Inr fb' \<longrightarrow> st' = st \<and> (\<exists>ws. holds fb' (map Some (zs @ ws)) \<and> length ws \<le> k)"
    using assms unfolding settles_def by blast
  then show thesis by (cases r) (auto intro: raised written)
qed

lemma yields_then:
  assumes "yields f j" "yields g k"
  shows "yields (\<lambda>fb. and_then (f fb) g) (j + k)"
  unfolding yields_def
proof (intro allI impI)
  fix fb zs assume z: "holds fb (map Some zs)" "length zs + (j + k) \<le> 2 ^ 63"
  have "length zs + j \<le> 2 ^ 63" using z(2) by simp
  with assms(1) z(1) show "\<exists>r. and_then (f fb) g = Some r \<and>
      (\<forall>fb'. r = Inr fb' \<longrightarrow> (\<exists>ws. holds fb' (map Some (zs @ ws)) \<and> length ws \<le> j + k))"
  proof (cases rule: yieldsE)
    case (written f1 us)
    have "length (zs @ us) + k \<le> 2 ^ 63" using z(2) written(3) by simp
    with assms(2) written(2) show ?thesis
    proof (cases rule: yieldsE)
      case (written f2 vs)
      with \<open>f fb = _\<close> \<open>length us \<le> j\<close> show ?thesis by (auto intro!: exI [of _ "us @ vs"])
    qed (use written in simp)
  qed simp
qed

lemma settles_then:
  assumes "settles st f j" "settles st' (g st) k"
  shows "settles st' (\<lambda>fb. act_then (f fb) g) (j + k)"
  unfolding settles_def
proof (intro allI impI)
  fix fb zs assume z: "holds fb (map Some zs)" "length zs + (j + k) \<le> 2 ^ 63"
  have "length zs + j \<le> 2 ^ 63" using z(2) by simp
  with assms(1) z(1) show "\<exists>st'' r. act_then (f fb) g = Some (st'', r) \<and>
      (\<forall>fb'. r = Inr fb' \<longrightarrow> st'' = st' \<and> (\<exists>ws. holds fb' (map Some (zs @ ws)) \<and> length ws \<le> j + k))"
  proof (cases rule: settlesE)
    case (written f1 us)
    have "length (zs @ us) + k \<le> 2 ^ 63" using z(2) written(3) by simp
    with assms(2) written(2) show ?thesis
    proof (cases rule: settlesE)
      case (written f2 vs)
      with \<open>f fb = _\<close> \<open>length us \<le> j\<close> show ?thesis
        by (auto simp: act_then_def intro!: exI [of _ "us @ vs"])
    qed (use written in \<open>simp add: act_then_def\<close>)
  qed (simp add: act_then_def)
qed

lemma yields_emits: "emits f bs \<Longrightarrow> length bs \<le> k \<Longrightarrow> yields f k"
  unfolding yields_def
proof (intro allI impI)
  fix fb zs assume e: "emits f bs" "length bs \<le> k" and z: "holds fb (map Some zs)" "length zs + k \<le> 2 ^ 63"
  then have "length zs + length bs \<le> 2 ^ 63" by simp
  with e(1) z(1) obtain f' where "f fb = Some (Inr f')" "holds f' (map Some (zs @ bs))" unfolding emits_def by blast
  with e(2) show "\<exists>r. f fb = Some r \<and> (\<forall>fb'. r = Inr fb' \<longrightarrow> (\<exists>ws. holds fb' (map Some (zs @ ws)) \<and> length ws \<le> k))"
    by auto
qed

lemma yields_mono: "yields f j \<Longrightarrow> j \<le> k \<Longrightarrow> yields f k"
  unfolding yields_def by (meson add_left_mono order_trans)

lemma settles_mono: "settles st f j \<Longrightarrow> j \<le> k \<Longrightarrow> settles st f k"
  unfolding settles_def by (meson add_left_mono order_trans)

lemma settles_stay: "yields f k \<Longrightarrow> settles st (\<lambda>fb. stay st (f fb)) k"
  by (fastforce simp: yields_def settles_def stay_def)

lemma settles_emits: "emits f bs \<Longrightarrow> length bs \<le> k \<Longrightarrow> settles st (\<lambda>fb. stay st (f fb)) k"
  by (intro settles_stay yields_emits)

lemma settles_raised: "settles st (\<lambda>fb. Some (s, Inl e)) k"
  by (simp add: settles_def)

lemma settles_first:
  assumes "emits f bs" "length bs \<le> k"
  shows "settles st (\<lambda>fb. stay st (if i > (0 :: int) then f fb else rb_return fb)) k"
  using settles_emits [OF assms] settles_emits [OF emits_return, of k st] by (cases "i > 0") simp_all

section \<open>Entries\<close>

lemma array_entries_return:
  assumes "\<forall>v \<in> set vs. settles st (\<lambda>fb. gen st fb v) (k v)" "int (length vs) + i < 2 ^ 31" "0 \<le> i"
    "emits (append_delim delim) sep" "emits (append_indent (fst ind) (snd ind) d) ib"
  shows "settles st (array_entries gen ind delim d i vs st) (\<Sum>v\<leftarrow>vs. length sep + length ib + k v)"
  using assms(1-3)
proof (induction vs arbitrary: i)
  case Nil
  have "array_entries gen ind delim d i [] st = (\<lambda>fb. stay st (rb_return fb))" by (rule ext) (simp add: array_entries.simps)
  then show ?case using settles_emits [OF emits_return] by simp
next
  case (Cons v vs)
  have succ: "int_succ i = Some (i + 1)" using Cons.prems(2) by (simp add: int_succ_def)
  have v: "settles st (\<lambda>fb. gen st fb v) (k v)" using Cons.prems(1) by simp
  have rest: "settles st (array_entries gen ind delim d (i + 1) vs st) (\<Sum>v\<leftarrow>vs. length sep + length ib + k v)"
    by (rule Cons.IH) (use Cons.prems in auto)
  have "settles st (\<lambda>fb. array_entries gen ind delim d i (v # vs) st fb)
      (length sep + (length ib + (k v + (\<Sum>v\<leftarrow>vs. length sep + length ib + k v))))"
    unfolding array_entries.simps succ bind.bind_lunit
    by (rule settles_then, rule settles_first [OF assms(4) order_refl], rule settles_then,
        rule settles_emits [OF assms(5) order_refl], rule settles_then, rule v, rule rest)
  then show ?case by (simp add: add.assoc)
qed

text \<open>A key is converted first; what comes back is a string, or a type error is raised.\<close>

lemma object_entries_return:
  assumes "\<forall>(x, v) \<in> set kvs. settles st (\<lambda>fb. gen st fb v) (k v)"
    "\<forall>(x, v) \<in> set kvs. \<forall>y. to_s rb x = Inr y \<longrightarrow> settles st (\<lambda>fb. gen st fb y) (kk x)"
    "int (length kvs) + i < 2 ^ 31" "0 \<le> i"
    "emits (append_delim delim) sep" "emits (append_delim delim2) sep2" "emits (append_nl (fst nl) (snd nl)) nb"
    "emits (append_indent (fst ind) (snd ind) d) ib"
  shows "settles st (object_entries rb h gen nl ind delim delim2 d i kvs st)
    (\<Sum>(x, v)\<leftarrow>kvs. length sep + length nb + length ib + kk x + length sep2 + k v)"
  using assms(1-4)
proof (induction kvs arbitrary: i)
  case Nil
  have "object_entries rb h gen nl ind delim delim2 d i [] st = (\<lambda>fb. stay st (rb_return fb))"
    by (rule ext) (simp add: object_entries.simps)
  then show ?case using settles_emits [OF emits_return] by simp
next
  case (Cons kv kvs)
  obtain x v where kv: "kv = (x, v)" by (cases kv)
  have succ: "int_succ i = Some (i + 1)" using Cons.prems(3) by (simp add: int_succ_def)
  have v: "settles st (\<lambda>fb. gen st fb v) (k v)" using Cons.prems(1) by (simp add: kv)
  let ?rest = "\<Sum>(x, v)\<leftarrow>kvs. length sep + length nb + length ib + kk x + length sep2 + k v"
  have rest: "settles st (object_entries rb h gen nl ind delim delim2 d (i + 1) kvs st) ?rest"
    by (rule Cons.IH) (use Cons.prems in auto)
  have key: "settles st (\<lambda>fb. act_then (stay st (Some (to_s rb x))) (\<lambda>st key_to_s.
      checked st (Check_String h key_to_s) (\<lambda>_. act_then (gen st fb key_to_s) f))) (kk x + m)"
    if f: "settles st (f st) m" for f m
  proof (cases "to_s rb x")
    case (Inl e)
    then show ?thesis by (simp add: stay_def act_then_def settles_raised)
  next
    case (Inr y)
    then have y: "settles st (\<lambda>fb. gen st fb y) (kk x)" using Cons.prems(2) by (simp add: kv)
    show ?thesis
    proof (cases "Check_String h y")
      case (Inl e)
      with Inr show ?thesis by (simp add: stay_def act_then_def checked_def settles_raised)
    next
      case _: (Inr s)
      with Inr settles_then [where f = "\<lambda>fb. gen st fb y" and g = f, OF y f] show ?thesis by (simp add: stay_def act_then_def [of "Some _"] checked_def)
    qed
  qed
  have "settles st (\<lambda>fb. object_entries rb h gen nl ind delim delim2 d i ((x, v) # kvs) st fb)
      (length sep + (length nb + (length ib + (kk x + (length sep2 + (k v + ?rest))))))"
    unfolding object_entries.simps succ bind.bind_lunit
    by (rule settles_then, rule settles_first [OF assms(5) order_refl], rule settles_then,
        rule settles_emits [OF assms(7) order_refl], rule settles_then, rule settles_emits [OF assms(8) order_refl],
        rule key, rule settles_then, rule settles_emits [OF assms(6) order_refl], rule settles_then, rule v, rule rest)
  then show ?case by (simp add: kv add.assoc)
qed

section \<open>The bounds\<close>

text \<open>
  A value that generation may meet: a reference to an object, a number that fits its type or that
  Ruby converts into a string.
\<close>

definition known :: "ruby \<Rightarrow> rb_heap \<Rightarrow> rb_value \<Rightarrow> bool" where
  "known rb h v \<longleftrightarrow> (case v of
      Ref a \<Rightarrow> h a \<noteq> None
    | Fixnum i \<Rightarrow> - (2 ^ 62) \<le> i \<and> i < 2 ^ 62
    | Bignum _ \<Rightarrow> (\<forall>r. to_s rb v = Inr r \<longrightarrow> string_of h r \<noteq> None)
    | Flonum _ \<Rightarrow> (\<forall>r. to_s rb v = Inr r \<longrightarrow> string_of h r \<noteq> None)
    | _ \<Rightarrow> True)"

text \<open>
  No array or hash has more entries than an \<open>int\<close> counts, no string more than \<open>B\<close> bytes; \<open>to_s\<close> gives such
  values, and \<open>to_json\<close> leaves the depth as it found it.
\<close>

definition bounded :: "ruby \<Rightarrow> rb_heap \<Rightarrow> nat \<Rightarrow> bool" where
  "bounded rb h B \<longleftrightarrow>
     (\<forall>a vs. h a = Some (RArray vs) \<longrightarrow> length vs < 2 ^ 31 \<and> (\<forall>v \<in> set vs. known rb h v)) \<and>
     (\<forall>a kvs. h a = Some (RHash kvs) \<longrightarrow> length kvs < 2 ^ 31 \<and> (\<forall>(k, v) \<in> set kvs. known rb h k \<and> known rb h v)) \<and>
     (\<forall>v r. known rb h v \<longrightarrow> to_s rb v = Inr r \<longrightarrow> known rb h r) \<and>
     (\<forall>v st. fst (to_json rb v st) = depth st) \<and>
     (\<forall>v s. string_of h v = Some s \<longrightarrow> length s \<le> B \<and> (\<forall>u. encode_utf8 rb s = Inr u \<longrightarrow> length u \<le> B))"

text \<open>
  The bytes around a value in a container, at most; and the bytes of a value, unfolded for \<open>n\<close> levels.
  A value that contains itself is unfolded again and again; there are \<open>n\<close> levels below the limit.
\<close>

definition width :: "config \<Rightarrow> nat" where
  "width c = nat (c_max_nesting c) * length (c_indent c) + length (c_space c) + length (c_space_before c) +
     length (opt_bytes (c_object_nl c)) + length (opt_bytes (c_array_nl c)) + 2"

primrec bulk :: "ruby \<Rightarrow> rb_heap \<Rightarrow> nat \<Rightarrow> nat \<Rightarrow> nat \<Rightarrow> rb_value \<Rightarrow> nat" where
  "bulk rb h w B 0 v = 6 * B + 22"
| "bulk rb h w B (Suc n) v = 6 * B + 22 +
     (case v of
        Ref a \<Rightarrow> (case h a of
            Some (RArray vs) \<Rightarrow> 2 * w + (\<Sum>v\<leftarrow>vs. 2 * w + bulk rb h w B n v)
          | Some (RHash kvs) \<Rightarrow> 2 * w + (\<Sum>(x, v)\<leftarrow>kvs. 2 * w +
              (case to_s rb x of Inl e \<Rightarrow> 0 | Inr k \<Rightarrow> bulk rb h w B n k) + bulk rb h w B n v)
          | _ \<Rightarrow> 0)
      | _ \<Rightarrow> 0)"

lemma bulk_leaf: "6 * B + 22 \<le> bulk rb h w B n v"
  by (cases n) simp_all

section \<open>Values that are not containers\<close>

lemma length_converted:
  assumes "\<And>bs. legal bs \<Longrightarrow> length (esc bs) \<le> 6 * length bs" "convert_ref esc u = Inr out"
  shows "length out \<le> 6 * length u"
proof -
  obtain cs where "split_chars u = Inr cs" "out = concat (map esc cs)"
    using assms(2) by (cases "split_chars u") (auto simp: convert_ref_def)
  with written_split [of u cs esc] length_written [of esc u, OF assms(1)] show ?thesis by simp
qed

lemma yields_delivers:
  assumes "\<And>bs. legal bs \<Longrightarrow> length (esc bs) \<le> 6 * length bs"
    "\<And>fb zs. holds fb (map Some zs) \<Longrightarrow> length zs + length (written esc u) \<le> 2 ^ 63 \<Longrightarrow>
       delivers (f fb) (map_sum id (\<lambda>r. zs @ r) (convert_ref esc u))"
  shows "yields f (6 * length u)"
  unfolding yields_def
proof (intro allI impI)
  fix fb zs assume z: "holds fb (map Some zs)" "length zs + 6 * length u \<le> 2 ^ 63"
  have "delivers (f fb) (map_sum id (\<lambda>r. zs @ r) (convert_ref esc u))"
    using assms(2) [OF z(1)] z(2) length_written [of esc u, OF assms(1)] by simp
  with length_converted [of esc u, OF assms(1)] show "\<exists>r. f fb = Some r \<and>
      (\<forall>fb'. r = Inr fb' \<longrightarrow> (\<exists>ws. holds fb' (map Some (zs @ ws)) \<and> length ws \<le> 6 * length u))"
    by (cases "convert_ref esc u") (auto simp: delivers_def)
qed

lemma yields_string:
  assumes "\<And>u. encode_utf8 rb s = Inr u \<Longrightarrow> length u \<le> B"
  shows "yields (\<lambda>fb. generate_json_string rb st fb s) (6 * B + 22)"
proof (cases "encode_utf8 rb s")
  case (Inl e)
  have "yields (\<lambda>fb. and_then (append_chr 0x22 fb) (\<lambda>fb. Some (Inl e))) (1 + (6 * B + 21))"
    by (rule yields_then [OF yields_emits [OF emits_chr]]) (simp_all add: yields_def)
  with Inl show ?thesis by (simp add: generate_json_string_def add.commute)
next
  case (Inr u)
  have "yields (\<lambda>fb. convert_UTF8_to_JSON fb u) (6 * length u)"
    by (rule yields_delivers [OF length_json_char convert_json_ref])
  moreover have "yields (\<lambda>fb. convert_UTF8_to_JSON_ASCII fb u) (6 * length u)"
    by (rule yields_delivers [OF length_ascii_char convert_ascii_ref])
  ultimately have u: "yields (\<lambda>fb. if ascii_only st then convert_UTF8_to_JSON_ASCII fb u else convert_UTF8_to_JSON fb u) (6 * length u)"
    by (cases "ascii_only st") simp_all
  have y: "yields (\<lambda>fb. generate_json_string rb st fb s) (1 + (6 * length u + 1))"
    unfolding generate_json_string_def Inr and_then_simps
    by (rule yields_then [OF yields_emits [OF emits_chr] yields_then [OF u yields_emits [OF emits_chr]]]) simp_all
  show ?thesis by (rule yields_mono [OF y]) (use assms [OF Inr] in simp)
qed

lemma yields_converted:
  assumes "\<And>r. to_s rb v = Inr r \<Longrightarrow> string_of h r \<noteq> None" "\<And>r s. string_of h r = Some s \<Longrightarrow> length s \<le> B"
    "\<And>fb. f fb = and_then (Some (to_s rb v)) (\<lambda>tmp. and_then (total (string_of h tmp)) (g fb))"
    "\<And>fb s. g fb s = total (fbuffer_append_str fb s) \<or> (\<exists>e. \<forall>fb. g fb s = rb_raise e)"
  shows "yields f (6 * B + 22)"
proof (cases "to_s rb v")
  case (Inl e)
  then show ?thesis by (simp add: yields_def assms(3))
next
  case (Inr r)
  then obtain s where s: "string_of h r = Some s" "length s \<le> B" using assms(1,2) by blast
  have f: "f = (\<lambda>fb. g fb s)" using Inr s(1) by (simp add: assms(3) fun_eq_iff)
  show ?thesis
  proof (cases "\<exists>e. \<forall>fb. g fb s = rb_raise e")
    case True
    then show ?thesis by (auto simp: f yields_def rb_raise_def)
  next
    case False
    then have "f = (\<lambda>fb. total (fbuffer_append_str fb s))" using assms(4) unfolding f fun_eq_iff by blast
    with yields_emits [OF emits_str [of s], of "6 * B + 22"] s(2) show ?thesis by simp
  qed
qed

lemma leaves_return:
  assumes "bounded rb h B" "known rb h v" "depth st = d"
  shows "v = Fixnum i \<Longrightarrow> yields (\<lambda>fb. generate_json_fixnum fb i) (6 * B + 22)"
    "v = Bignum i \<Longrightarrow> yields (\<lambda>fb. generate_json_bignum rb h fb v) (6 * B + 22)"
    "v = Flonum x \<Longrightarrow> yields (\<lambda>fb. generate_json_float rb h st fb x) (6 * B + 22)"
    "string_of h r = Some s \<Longrightarrow> yields (\<lambda>fb. generate_json_string rb st fb s) (6 * B + 22)"
proof -
  have B: "\<And>v s. string_of h v = Some s \<Longrightarrow> length s \<le> B \<and> (\<forall>u. encode_utf8 rb s = Inr u \<longrightarrow> length u \<le> B)"
    using assms(1) unfolding bounded_def by blast
  show "yields (\<lambda>fb. generate_json_fixnum fb i) (6 * B + 22)" if "v = Fixnum i"
  proof -
    have i: "- (2 ^ 62) \<le> i" "i < 2 ^ 62" using assms(2) that by (simp_all add: known_def)
    then have "length (decimal i) \<le> 20" using fltoa_eq [of i] by simp
    then show ?thesis using yields_emits [OF emits_long [OF i]] by simp
  qed
  show "yields (\<lambda>fb. generate_json_bignum rb h fb v) (6 * B + 22)" if "v = Bignum i"
    by (rule yields_converted [where rb = rb and h = h and v = v and g = "\<lambda>fb s. total (fbuffer_append_str fb s)"])
      (use assms(2) that B in \<open>auto simp: known_def generate_json_bignum_def total_def and_then_def split: sum.splits option.splits\<close>)
  show "yields (\<lambda>fb. generate_json_float rb h st fb x) (6 * B + 22)" if "v = Flonum x"
    by (rule yields_converted [where rb = rb and h = h and v = v and
        g = "\<lambda>fb s. if \<not> allow_nan st \<and> isinf x then rb_raise (not_allowed ''862'' s)
          else if \<not> allow_nan st \<and> isnan x then rb_raise (not_allowed ''865'' s) else total (fbuffer_append_str fb s)"])
      (use assms(2) that B in \<open>auto simp: known_def generate_json_float_def\<close>)
  show "yields (\<lambda>fb. generate_json_string rb st fb s) (6 * B + 22)" if "string_of h r = Some s"
    using yields_string B [OF that] by blast
qed

lemma other_returns:
  assumes "bounded rb h B" "known rb h v"
  shows "settles st (\<lambda>fb. generate_json_other rb h st fb v) (6 * B + 22)"
proof (cases "responds_to_json rb v")
  case True
  obtain d tmp where t: "to_json rb v st = (d, tmp)" by (cases "to_json rb v st")
  have "d = depth st" using assms(1) t unfolding bounded_def by (metis fst_conv)
  then have st: "st\<lparr>depth := d\<rparr> = st" by simp
  show ?thesis
  proof (cases "\<exists>r s. tmp = Inr r \<and> string_of h r = Some s")
    case True
    then obtain r s where r: "tmp = Inr r" "string_of h r = Some s" by blast
    then have "length s \<le> B" using assms(1) unfolding bounded_def by blast
    then have "settles st (\<lambda>fb. stay st (total (fbuffer_append_str fb s))) (6 * B + 22)"
      by (intro settles_emits [OF emits_str]) simp
    with r t st \<open>responds_to_json rb v\<close> show ?thesis
      by (simp add: generate_json_other_def stay_def act_then_def checked_def Check_String_def)
  next
    case False
    with t \<open>responds_to_json rb v\<close> obtain s e where "\<And>fb. generate_json_other rb h st fb v = Some (s, Inl e)"
      by (cases tmp) (auto simp: generate_json_other_def stay_def act_then_def checked_def Check_String_def split: option.splits)
    then show ?thesis by (simp add: settles_raised)
  qed
next
  case False
  show ?thesis
  proof (cases "\<exists>r s. to_s rb v = Inr r \<and> string_of h r = Some s")
    case True
    then obtain r s where r: "to_s rb v = Inr r" "string_of h r = Some s" by blast
    have "settles st (\<lambda>fb. stay st (generate_json_string rb st fb s)) (6 * B + 22)"
      using settles_stay [OF leaves_return(4) [OF assms refl r(2)]] .
    with r \<open>\<not> responds_to_json rb v\<close> show ?thesis
      by (simp add: generate_json_other_def stay_def act_then_def checked_def Check_String_def)
  next
    case no: False
    with \<open>\<not> responds_to_json rb v\<close> obtain s e where "\<And>fb. generate_json_other rb h st fb v = Some (s, Inl e)"
      by (cases "to_s rb v") (auto simp: generate_json_other_def stay_def act_then_def checked_def Check_String_def split: option.splits)
    then show ?thesis by (simp add: settles_raised)
  qed
qed

section \<open>Containers\<close>

text \<open>What the limit on the nesting gives at the depth of a container that may still be opened.\<close>

lemma limited:
  assumes "0 < c_max_nesting c" "c_max_nesting c < 2 ^ 31" "- (2 ^ 63) \<le> d" "d + 1 \<le> c_max_nesting c"
  shows "to_long (d + 1) = Some (d + 1)" "d + 1 < 2 ^ 31" "d < 2 ^ 31" "to_long d = Some d"
    "nat (d + 1) * n \<le> nat (c_max_nesting c) * n" "nat d * n \<le> nat (c_max_nesting c) * n"
  using assms by (auto simp: to_long_def intro!: mult_right_mono)

lemma array_returns:
  fixes st c
  defines "st1 \<equiv> st\<lparr>depth := depth st + 1\<rparr>"
  assumes "ready st c" "0 < c_max_nesting c" "c_max_nesting c < 2 ^ 31" "- (2 ^ 63) \<le> depth st" "depth st + 1 \<le> c_max_nesting c"
    "\<forall>v \<in> set vs. settles st1 (\<lambda>fb. gen st1 fb v) (k v)" "length vs < 2 ^ 31"
  shows "settles st (\<lambda>fb. generate_json_array gen st fb vs) (2 * width c + (\<Sum>v\<leftarrow>vs. 2 * width c + k v))"
proof -
  let ?ind = "(indent st, indent_len st)" and ?w = "width c"
  note lim = limited [OF assms(3-6)]
  obtain a where a: "array_delim st = Some a" "holds a (map Some ([0x2C] @ opt_bytes (c_array_nl c)))"
    using assms(2) by (auto simp: ready_def)
  have str: "str_is (indent st) (indent_len st) (c_indent c)" "opt_is (array_nl st) (array_nl_len st) (c_array_nl c)"
    "max_nesting st = c_max_nesting c"
    using assms(2) by (simp_all add: ready_def stands_for_def)
  let ?sep = "[0x2C] @ opt_bytes (c_array_nl c)" and ?ib = "repeat (nat (depth st + 1)) (c_indent c)"
  have entries: "settles st1 (array_entries gen ?ind (array_delim st) (depth st + 1) 0 vs st1) (\<Sum>v\<leftarrow>vs. length ?sep + length ?ib + k v)"
    by (rule array_entries_return)
      (use assms(7,8) a emits_delim [OF a(2)] emits_indent [OF str(1) lim(2)] in simp_all)
  have eq: "generate_json_array gen st fb vs =
      act_then (stay st1 (append_chr 0x5B fb)) (\<lambda>s fb.
      act_then (stay s (append_nl (array_nl st) (array_nl_len st) fb)) (\<lambda>s fb.
      act_then (array_entries gen ?ind (array_delim st) (depth st + 1) 0 vs s fb) (\<lambda>s fb.
      act_then (stay (s\<lparr>depth := depth st\<rparr>) (if array_nl st \<noteq> None then and_then (append_nl (array_nl st) (array_nl_len st) fb)
          (append_indent (indent st) (indent_len st) (depth st)) else rb_return fb)) (\<lambda>s fb.
      stay s (append_chr 0x5D fb)))))" for fb
    using assms(3,6) str(3) unfolding generate_json_array_def Let_def fst_conv snd_conv st1_def lim(1) bind.bind_lunit
    by (cases "max_nesting st = 0") (simp_all cong del: if_weak_cong)
  let ?close = "closing (c_array_nl c) (c_indent c) (depth st)"
  have "settles (st1\<lparr>depth := depth st\<rparr>) (\<lambda>fb. generate_json_array gen st fb vs)
      (1 + (length (opt_bytes (c_array_nl c)) + ((\<Sum>v\<leftarrow>vs. length ?sep + length ?ib + k v) + (length ?close + 1))))"
    unfolding eq
    by (rule settles_then, rule settles_emits [OF emits_chr], simp, rule settles_then,
        rule settles_emits [OF emits_nl [OF opt_is_str [OF str(2)]] order_refl], rule settles_then, rule entries, rule settles_then,
        rule settles_emits [OF emits_closing [OF str(2,1) lim(3)] order_refl], rule settles_emits [OF emits_chr], simp)
  moreover have "length ?ib \<le> nat (c_max_nesting c) * length (c_indent c)"
    "length ?close \<le> length (opt_bytes (c_array_nl c)) + nat (c_max_nesting c) * length (c_indent c)"
    using lim(5,6) [of "length (c_indent c)"]
    by (auto simp: repeat_def length_concat sum_list_replicate closing_def opt_bytes_def split: option.splits)
  then have "length ?sep + length ?ib \<le> 2 * ?w" "1 + length (opt_bytes (c_array_nl c)) + length ?close + 1 \<le> 2 * ?w"
    by (simp_all add: width_def)
  then have "1 + (length (opt_bytes (c_array_nl c)) + ((\<Sum>v\<leftarrow>vs. length ?sep + length ?ib + k v) + (length ?close + 1))) \<le>
      2 * ?w + (\<Sum>v\<leftarrow>vs. 2 * ?w + k v)"
    using sum_list_mono [of vs "\<lambda>v. length ?sep + length ?ib + k v" "\<lambda>v. 2 * ?w + k v"] by linarith
  ultimately show ?thesis using settles_mono by (fastforce simp: st1_def)
qed

lemma object_returns:
  fixes st c
  defines "st1 \<equiv> st\<lparr>depth := depth st + 1\<rparr>"
  assumes "ready st c" "0 < c_max_nesting c" "c_max_nesting c < 2 ^ 31" "- (2 ^ 63) \<le> depth st" "depth st + 1 \<le> c_max_nesting c"
    "\<forall>(x, v) \<in> set kvs. settles st1 (\<lambda>fb. gen st1 fb v) (k v)"
    "\<forall>(x, v) \<in> set kvs. \<forall>y. to_s rb x = Inr y \<longrightarrow> settles st1 (\<lambda>fb. gen st1 fb y) (kk x)"
    "length kvs < 2 ^ 31"
  shows "settles st (\<lambda>fb. generate_json_object rb h gen st fb kvs) (2 * width c + (\<Sum>(x, v)\<leftarrow>kvs. 2 * width c + kk x + k v))"
proof -
  let ?ind = "(indent st, indent_len st)" and ?nl = "(object_nl st, object_nl_len st)" and ?w = "width c"
  note lim = limited [OF assms(3-6)]
  obtain d d2 where d: "object_delim st = Some d" "holds d (map Some [0x2C])"
    "object_delim2 st = Some d2" "holds d2 (map Some (c_space_before c @ [0x3A] @ c_space c))"
    using assms(2) by (auto simp: ready_def)
  have str: "str_is (indent st) (indent_len st) (c_indent c)" "opt_is (object_nl st) (object_nl_len st) (c_object_nl c)"
    "max_nesting st = c_max_nesting c"
    using assms(2) by (simp_all add: ready_def stands_for_def)
  let ?nb = "opt_bytes (c_object_nl c)" and ?ib = "repeat (nat (depth st + 1)) (c_indent c)"
    and ?sep2 = "c_space_before c @ [0x3A] @ c_space c"
  let ?sum = "\<Sum>(x, v)\<leftarrow>kvs. length [0x2C :: u8] + length ?nb + length ?ib + kk x + length ?sep2 + k v"
  have entries: "settles st1 (object_entries rb h gen ?nl ?ind (object_delim st) (object_delim2 st) (depth st + 1) 0 kvs st1)
      ?sum"
    by (rule object_entries_return)
      (use assms(7-9) d emits_delim [OF d(2)] emits_delim [OF d(4)] emits_indent [OF str(1) lim(2)]
        emits_nl [OF opt_is_str [OF str(2)]] in simp_all)
  have eq: "generate_json_object rb h gen st fb kvs =
      act_then (stay st1 (append_chr 0x7B fb)) (\<lambda>s fb.
      act_then (object_entries rb h gen ?nl ?ind (object_delim st) (object_delim2 st) (depth st + 1) 0 kvs s fb) (\<lambda>s fb.
      do {
        d \<leftarrow> to_long (depth s - 1);
        act_then (stay (s\<lparr>depth := d\<rparr>) (if object_nl st \<noteq> None then and_then (append_nl (object_nl st) (object_nl_len st) fb)
          (append_indent (indent st) (indent_len st) d) else rb_return fb)) (\<lambda>s fb.
        stay s (append_chr 0x7D fb))
      }))" for fb
    using assms(3,6) str(3) unfolding generate_json_object_def Let_def fst_conv snd_conv st1_def lim(1) bind.bind_lunit
    by (cases "max_nesting st = 0") (simp_all cong del: if_weak_cong)
  have outer: "to_long (depth st1 - 1) = Some (depth st)" using lim(4) by (simp add: st1_def)
  let ?close = "closing (c_object_nl c) (c_indent c) (depth st)"
  have "settles (st1\<lparr>depth := depth st\<rparr>) (\<lambda>fb. generate_json_object rb h gen st fb kvs)
      (1 + (?sum + (length ?close + 1)))"
    unfolding eq
    by (rule settles_then, rule settles_emits [OF emits_chr], simp, rule settles_then, rule entries,
        simp only: outer bind.bind_lunit, rule settles_then,
        rule settles_emits [OF emits_closing [OF str(2,1) lim(3)] order_refl], rule settles_emits [OF emits_chr], simp)
  moreover have "length ?ib \<le> nat (c_max_nesting c) * length (c_indent c)"
    "length ?close \<le> length ?nb + nat (c_max_nesting c) * length (c_indent c)"
    using lim(5,6) [of "length (c_indent c)"]
    by (auto simp: repeat_def length_concat sum_list_replicate closing_def opt_bytes_def split: option.splits)
  then have w: "length [0x2C :: u8] + length ?nb + length ?ib + length ?sep2 \<le> 2 * ?w" "1 + length ?close + 1 \<le> 2 * ?w"
    by (simp_all add: width_def)
  have "?sum \<le> (\<Sum>(x, v)\<leftarrow>kvs. 2 * ?w + kk x + k v)"
    by (rule sum_list_mono) (use w(1) in auto)
  with w(2) have "1 + (?sum + (length ?close + 1)) \<le> 2 * ?w + (\<Sum>(x, v)\<leftarrow>kvs. 2 * ?w + kk x + k v)" by linarith
  ultimately show ?thesis using settles_mono by (fastforce simp: st1_def)
qed

section \<open>All values\<close>

lemma ready_deeper: "ready st c \<Longrightarrow> ready (st\<lparr>depth := d\<rparr>) c"
  by simp

text \<open>At the limit a container raises at once, before anything is written.\<close>

lemma at_limit:
  assumes "ready st c" "0 < c_max_nesting c" "c_max_nesting c < 2 ^ 31" "- (2 ^ 63) \<le> depth st" "depth st \<le> c_max_nesting c"
    "\<not> depth st + 1 \<le> c_max_nesting c"
  shows "settles st (\<lambda>fb. generate_json_array gen st fb vs) k" "settles st (\<lambda>fb. generate_json_object rb h gen st fb kvs) k"
proof -
  have "stands_for st c" "depth_ok st c" "\<not> (c_max_nesting c = 0 \<or> depth st + 1 \<le> c_max_nesting c)"
    "to_long (depth st + 1) = Some (depth st + 1)"
    using assms by (auto simp: ready_def depth_ok_def to_long_def)
  from too_deep [OF this] show "settles st (\<lambda>fb. generate_json_array gen st fb vs) k"
    "settles st (\<lambda>fb. generate_json_object rb h gen st fb kvs) k"
    by (simp_all add: settles_raised)
qed

lemma generate_returns:
  assumes "bounded rb h B" "0 < c_max_nesting c" "c_max_nesting c < 2 ^ 31"
  shows "known rb h v \<Longrightarrow> ready st c \<Longrightarrow> - (2 ^ 63) \<le> depth st \<Longrightarrow> depth st \<le> c_max_nesting c \<Longrightarrow>
    m = nat (c_max_nesting c - depth st) \<Longrightarrow> m < n \<Longrightarrow>
    settles st (\<lambda>fb. generate_json rb h n st fb v) (bulk rb h (width c) B m v)"
proof (induction n arbitrary: m st v)
  case (Suc n)
  let ?st = "st\<lparr>depth := depth st + 1\<rparr>" and ?V = "bulk rb h (width c) B"
  have leaf: "settles st f (?V m v)" if "settles st f (6 * B + 22)" for f
    using that bulk_leaf by (rule settles_mono)
  note yields = leaf [OF settles_stay]
  have inner: "settles ?st (\<lambda>fb. generate_json rb h n ?st fb w) (?V (m - 1) w)"
    if "known rb h w" "depth st + 1 \<le> c_max_nesting c" for w
    by (rule Suc.IH [OF that(1)]) (use Suc.prems that(2) in auto)
  have m: "m = Suc (m - 1)" if "depth st + 1 \<le> c_max_nesting c"
    using Suc.prems(5) that by simp
  show ?case
  proof (cases v)
    case (Ref a)
    then obtain x where x: "h a = Some x" using Suc.prems(1) by (auto simp: known_def)
    show ?thesis
    proof (cases x)
      case (RHash kvs)
      have kvs: "length kvs < 2 ^ 31" "\<forall>(k, w) \<in> set kvs. known rb h k \<and> known rb h w"
        using assms(1) x RHash unfolding bounded_def by blast+
      have keys: "\<forall>(k, w) \<in> set kvs. \<forall>y. to_s rb k = Inr y \<longrightarrow> known rb h y"
        using kvs(2) assms(1) unfolding bounded_def by blast
      have obj: "settles st (\<lambda>fb. generate_json_object rb h (generate_json rb h n) st fb kvs) (?V m v)"
        if d: "depth st + 1 \<le> c_max_nesting c"
      proof -
        let ?kk = "\<lambda>x. case to_s rb x of Inl e \<Rightarrow> 0 | Inr k \<Rightarrow> ?V (m - 1) k"
        have "settles st (\<lambda>fb. generate_json_object rb h (generate_json rb h n) st fb kvs)
            (2 * width c + (\<Sum>(x, v)\<leftarrow>kvs. 2 * width c + ?kk x + ?V (m - 1) v))"
          by (rule object_returns [OF Suc.prems(2) assms(2,3) Suc.prems(3) d])
            (use kvs keys inner [OF _ d] in \<open>auto split: sum.splits\<close>)
        moreover obtain m' where m': "m = Suc m'" using m [OF d] by blast
        ultimately show ?thesis unfolding m' diff_Suc_1 by (elim settles_mono) (simp add: Ref x RHash)
      qed
      have "settles st (\<lambda>fb. generate_json_object rb h (generate_json rb h n) st fb kvs) (?V m v)"
        using obj at_limit(2) [OF Suc.prems(2) assms(2,3) Suc.prems(3,4)] by blast
      then show ?thesis by (simp add: Ref x RHash)
    next
      case (RArray vs)
      have vs: "length vs < 2 ^ 31" "\<forall>w \<in> set vs. known rb h w" using assms(1) x RArray unfolding bounded_def by blast+
      have arr: "settles st (\<lambda>fb. generate_json_array (generate_json rb h n) st fb vs) (?V m v)"
        if d: "depth st + 1 \<le> c_max_nesting c"
      proof -
        have "settles st (\<lambda>fb. generate_json_array (generate_json rb h n) st fb vs)
            (2 * width c + (\<Sum>v\<leftarrow>vs. 2 * width c + ?V (m - 1) v))"
          by (rule array_returns [OF Suc.prems(2) assms(2,3) Suc.prems(3) d]) (use vs inner [OF _ d] in auto)
        moreover obtain m' where m': "m = Suc m'" using m [OF d] by blast
        ultimately show ?thesis unfolding m' diff_Suc_1 by (elim settles_mono) (simp add: Ref x RArray)
      qed
      have "settles st (\<lambda>fb. generate_json_array (generate_json rb h n) st fb vs) (?V m v)"
        using arr at_limit(1) [OF Suc.prems(2) assms(2,3) Suc.prems(3,4)] by blast
      then show ?thesis by (simp add: Ref x RArray)
    next
      case (RString s)
      then have "string_of h (Ref a) = Some s" by (simp add: string_of_def x)
      from yields [OF leaves_return(4) [OF assms(1) Suc.prems(1) refl this]] show ?thesis by (simp add: Ref x RString)
    next
      case (RObject t)
      with leaf [OF other_returns [OF assms(1) Suc.prems(1)]] show ?thesis by (simp add: Ref x)
    qed
  next
    case (Fixnum i)
    from yields [OF leaves_return(1) [OF assms(1) Suc.prems(1) refl Fixnum]] show ?thesis by (simp add: Fixnum)
  next
    case (Bignum i)
    from yields [OF leaves_return(2) [OF assms(1) Suc.prems(1) refl Bignum]] show ?thesis by (simp add: Bignum)
  next
    case (Flonum x)
    from yields [OF leaves_return(3) [OF assms(1) Suc.prems(1) refl Flonum]] show ?thesis by (simp add: Flonum)
  next
    case Qnil
    have "yields generate_json_null (6 * B + 22)"
      unfolding generate_json_null_def by (rule yields_emits [OF emits_cells [of "[0x6E, 0x75, 0x6C, 0x6C]"]]) simp_all
    from yields [OF this] show ?thesis by (simp add: Qnil)
  next
    case Qfalse
    have "yields generate_json_false (6 * B + 22)"
      unfolding generate_json_false_def by (rule yields_emits [OF emits_cells [of "[0x66, 0x61, 0x6C, 0x73, 0x65]"]]) simp_all
    from yields [OF this] show ?thesis by (simp add: Qfalse)
  next
    case Qtrue
    have "yields generate_json_true (6 * B + 22)"
      unfolding generate_json_true_def by (rule yields_emits [OF emits_cells [of "[0x74, 0x72, 0x75, 0x65]"]]) simp_all
    from yields [OF this] show ?thesis by (simp add: Qtrue)
  qed
qed simp

lemma cState_generate_returns:
  assumes "stands_for st c" "delims_ok st" "bounded rb h B" "known rb h v" "0 < c_max_nesting c"
    "c_max_nesting c < 2 ^ 31" "- (2 ^ 63) \<le> depth st" "depth st \<le> c_max_nesting c" "nat (c_max_nesting c - depth st) < n"
    "bulk rb h (width c) B (nat (c_max_nesting c - depth st)) v \<le> 2 ^ 63"
  shows "\<exists>st' r. cState_generate rb h n st v = Some (st', r) \<and> (\<forall>out. r = Inr out \<longrightarrow> depth st' = depth st)"
proof -
  obtain st' fb where p: "cState_prepare_buffer st = Some (st', fb)" "ready st' c" "depth st' = depth st" "holds fb (map Some [])"
    using prepare_ready [OF assms(1,2)] by blast
  have ret: "settles st' (\<lambda>fb. generate_json rb h n st' fb v) (bulk rb h (width c) B (nat (c_max_nesting c - depth st)) v)"
    by (rule generate_returns [OF assms(3,5,6,4) p(2)]) (use p(3) assms(7-9) in simp_all)
  have room: "length ([] :: bytes) + bulk rb h (width c) B (nat (c_max_nesting c - depth st)) v \<le> 2 ^ 63"
    using assms(10) by simp
  from ret p(4) room show ?thesis
  proof (cases rule: settlesE)
    case (written fb' ws)
    with p(1,3) to_s_holds [of fb' ws] show ?thesis
      by (simp add: cState_generate_def cState_partial_generate_def finish_def act_then_def stay_def)
  qed (use p in \<open>simp_all add: cState_generate_def cState_partial_generate_def finish_def act_then_def\<close>)
qed

end
