(* ===== verification/Json_Correct.thy ===== *)
theory Json_Correct
  imports Json_Methods Json_Returns
begin

text \<open>
  The properties of the json generator: whole documents, the limit on nesting, the life of a state,
  the conversion of strings, the byte buffer. Each is a short consequence of the lemmas of the
  component theories; a witness applies it to a concrete document, string or buffer.
\<close>

section \<open>A small world for the witnesses\<close>

definition plain_ruby :: ruby where
  "plain_ruby = \<lparr>to_s = \<lambda>v. Inr v, responds_to_json = \<lambda>v. False, to_json = \<lambda>v st. (depth st, Inr v), encode_utf8 = Inr\<rparr>"

definition plain_state :: JSON_Generator_State where
  "plain_state = cState_s_allocate\<lparr>max_nesting := 100, buffer_initial_length := uint FBUFFER_INITIAL_LENGTH_DEFAULT\<rparr>"

definition plain_config :: config where
  "plain_config = \<lparr>c_indent = [], c_space = [], c_space_before = [], c_object_nl = None, c_array_nl = None,
     c_max_nesting = 100, c_allow_nan = False, c_ascii_only = False\<rparr>"

text \<open>An array of \<open>nil\<close> and the string of one quote, and an array that contains itself.\<close>

definition sample_heap :: rb_heap where
  "sample_heap a = (if a = 0 then Some (RArray [Qnil, Ref 1]) else if a = 1 then Some (RString [0x22])
     else if a = 2 then Some (RArray [Ref 2]) else None)"

lemma plain_reachable: "reachable clean plain_ruby plain_state"
  by (rule reach_new [of None]) (simp_all add: cState_initialize_def plain_state_def Let_def)

lemma plain_stands_for: "stands_for plain_state plain_config"
  by (simp add: stands_for_def plain_state_def cState_s_allocate_def plain_config_def str_is_def opt_is_def)

lemma plain_depth [simp]: "depth plain_state = 0" "max_nesting plain_state = 100"
  by (simp_all add: plain_state_def cState_s_allocate_def)

lemma quote_char: "split_chars [0x22] = Inr [[0x22]]"
  using split_chars_legal [of "[0x22]" "[]"] short_byte [of "0x22"] by simp

lemma sample_denotes: "denotes plain_ruby sample_heap plain_config (Ref 0) (JArray [JNull, JString [[0x22]]])"
proof (rule den_array)
  show "sample_heap 0 = Some (RArray [Qnil, Ref 1])" by (simp add: sample_heap_def)
  have "denotes plain_ruby sample_heap plain_config (Ref 1) (JString [[0x22]])"
    by (rule den_string [of _ _ "[0x22]" _ "[0x22]"]) (simp_all add: sample_heap_def plain_ruby_def quote_char)
  then show "list_all2 (denotes plain_ruby sample_heap plain_config) [Qnil, Ref 1] [JNull, JString [[0x22]]]"
    by (simp add: den_nil)
qed

lemma sample_render:
  "render plain_config 0 (JArray [JNull, JString [[0x22]]]) = [0x5B, 0x6E, 0x75, 0x6C, 0x6C, 0x2C, 0x22, 0x5C, 0x22, 0x22, 0x5D]"
  by (simp add: plain_config_def opt_bytes_def closing_def repeat_def escape_of_def json_char_def short_escape_def code_def)

section \<open>Documents\<close>

text \<open>
  C16. Generation of a document. In every state that a program can make with strings that hold no
  NUL, if the value stands for a tree and the nesting of the tree is within the limit,
  \<open>generate\<close> is defined and returns the bytes of the reference rendering: brackets, separators,
  line ends, indentation and escapes as configured. The state stands for the same configuration
  afterwards, at the same depth. The document must not be larger than \<open>2\<^sup>6\<^sup>3\<close> bytes, and what the
  loops count in an \<open>int\<close> must fit it: the entries of each container, and the depth.
\<close>

theorem generate_document:
  assumes "reachable clean rb st" "stands_for st c" "denotes rb h c v t" "nesting t < n" "depth_ok st c"
    "nesting_ok c (depth st) t" "counters_fit c (depth st) t" "length (render c (depth st) t) \<le> 2 ^ 63"
  shows "\<exists>st'. cState_generate rb h n st v = Some (st', Inr (render c (depth st) t)) \<and>
    stands_for st' c \<and> depth st' = depth st"
proof -
  have "delims_ok st" using reachable_well_formed [OF assms(1)] by (simp add: well_formed_def)
  from generate_correct [OF assms(2) this assms(3-5,7,8)] assms(6) show ?thesis by auto
qed

theorem generate_document_witness:
  "\<exists>st'. cState_generate plain_ruby sample_heap 2 plain_state (Ref 0) =
     Some (st', Inr [0x5B, 0x6E, 0x75, 0x6C, 0x6C, 0x2C, 0x22, 0x5C, 0x22, 0x22, 0x5D])"
proof -
  have "depth_ok plain_state plain_config" "nesting_ok plain_config (depth plain_state) (JArray [JNull, JString [[0x22]]])"
    "counters_fit plain_config (depth plain_state) (JArray [JNull, JString [[0x22]]])"
    by (simp_all add: depth_ok_def nesting_ok_def counters_fit_def plain_config_def)
  moreover have "length (render plain_config (depth plain_state) (JArray [JNull, JString [[0x22]]])) \<le> 2 ^ 63"
    unfolding plain_depth sample_render by simp
  moreover have "nesting (JArray [JNull, JString [[0x22]]]) < 2" by simp
  ultimately show ?thesis
    using generate_document [OF plain_reachable plain_stands_for sample_denotes, of 2]
    unfolding plain_depth sample_render by blast
qed





text \<open>
  C18. Generation returns. In every state that a program can make, with a limit on the nesting that an
  \<open>int\<close> can hold, \<open>generate\<close> returns a string or raises, on every heap: also when an array contains
  itself, so that there is no tree it could stand for. The calls that the limit leaves room for are
  enough. The heap and Ruby's methods are only bounded: containers have fewer than \<open>2\<^sup>3\<^sup>1\<close> entries,
  which are there, strings have at most \<open>B\<close> bytes before and after Ruby encodes them, \<open>to_json\<close>
  leaves the depth as it found it, and the values down to the limit fill at most \<open>2\<^sup>6\<^sup>3\<close> bytes.
  If a string is returned the depth is the one before the call.
\<close>

theorem generate_terminates:
  assumes "reachable clean rb st" "stands_for st c" "bounded rb h B" "known rb h v"
    "0 < c_max_nesting c" "c_max_nesting c < 2 ^ 31" "- (2 ^ 63) \<le> depth st" "depth st \<le> c_max_nesting c"
    "nat (c_max_nesting c - depth st) < n" "bulk rb h (width c) B (nat (c_max_nesting c - depth st)) v \<le> 2 ^ 63"
  shows "\<exists>st' r. cState_generate rb h n st v = Some (st', r) \<and> (\<forall>out. r = Inr out \<longrightarrow> depth st' = depth st)"
proof -
  have "delims_ok st" using reachable_well_formed [OF assms(1)] by (simp add: well_formed_def)
  from cState_generate_returns [OF assms(2) this assms(3-10)] show ?thesis .
qed

text \<open>The array that contains itself.\<close>

lemma sample_strings: "string_of sample_heap v = Some s \<Longrightarrow> s = [0x22]"
  by (cases v) (auto simp: string_of_def sample_heap_def split: if_splits)

lemma sample_bounded: "bounded plain_ruby sample_heap 1"
  unfolding bounded_def
  by (auto simp: plain_ruby_def known_def sample_heap_def dest!: sample_strings split: if_splits)

lemma sample_bulk: "bulk plain_ruby sample_heap 2 1 n (Ref 2) = 28 + 36 * n"
  by (induction n) (simp_all add: sample_heap_def)

theorem generate_terminates_witness:
  "\<exists>st' r. cState_generate plain_ruby sample_heap 101 plain_state (Ref 2) = Some (st', r)"
proof -
  have "width plain_config = 2" by (simp add: width_def plain_config_def opt_bytes_def)
  then have "bulk plain_ruby sample_heap (width plain_config) 1 (nat (c_max_nesting plain_config - depth plain_state)) (Ref 2) \<le> 2 ^ 63"
    by (simp only: sample_bulk) (simp add: plain_config_def)
  moreover have "known plain_ruby sample_heap (Ref 2)" by (simp add: known_def sample_heap_def)
  ultimately show ?thesis
    using generate_terminates [OF plain_reachable plain_stands_for sample_bounded, of "Ref 2" 101]
    by (auto simp: plain_config_def)
qed

text \<open>
  C19. The invariant of a state. As long as every string that is configured has no NUL and fewer than
  \<open>2\<^sup>6\<^sup>2\<close> bytes, whatever is done with a state (configuring, setting, copying, generating, with or
  without an exception), a block that is there holds as many bytes as its length says: all five
  strings can be read, and the buffers for generation can be prepared. A null pointer may go with any
  length (C21), which the readers and the generator do not look at.
\<close>

theorem reachable_usable:
  assumes "reachable clean rb st"
  shows "\<exists>c st' fb. stands_for st c \<and> cState_indent st = Some (c_indent c) \<and> cState_space st = Some (c_space c) \<and>
    cState_space_before st = Some (c_space_before c) \<and> cState_object_nl st = Some (opt_bytes (c_object_nl c)) \<and>
    cState_array_nl st = Some (opt_bytes (c_array_nl c)) \<and> cState_prepare_buffer st = Some (st', fb) \<and> ready st' c"
proof -
  obtain c where c: "stands_for st c" "delims_ok st" using reachable_well_formed [OF assms] by (auto simp: well_formed_def)
  then have "cState_indent st = Some (c_indent c)" "cState_space st = Some (c_space c)"
    "cState_space_before st = Some (c_space_before c)" "cState_object_nl st = Some (opt_bytes (c_object_nl c))"
    "cState_array_nl st = Some (opt_bytes (c_array_nl c))"
    by (auto simp: stands_for_def cState_indent_def cState_space_def cState_space_before_def cState_object_nl_def
        cState_array_nl_def get_string_is opt_is_str)
  with c(1) prepare_ready [OF c] show ?thesis by blast
qed

theorem reachable_usable_witness:
  "\<exists>c. stands_for plain_state c \<and> cState_prepare_buffer plain_state \<noteq> None"
  using reachable_usable [OF plain_reachable] by auto

section \<open>Settings\<close>

text \<open>
  Setting and reading. A string without a NUL that is assigned to one of the five settings is
  what the getter returns afterwards; an empty one is read as empty.
\<close>

theorem settings_read_back:
  assumes "string_of h v = Some s" "clean s"
  shows "\<exists>st1 st2 st3 st4 st5.
    cState_indent_set h st v = Some (st1, Inr Qnil) \<and> cState_indent st1 = Some s \<and>
    cState_space_set h st v = Some (st2, Inr Qnil) \<and> cState_space st2 = Some s \<and>
    cState_space_before_set h st v = Some (st3, Inr Qnil) \<and> cState_space_before st3 = Some s \<and>
    cState_object_nl_set h st v = Some (st4, Inr Qnil) \<and> cState_object_nl st4 = Some s \<and>
    cState_array_nl_set h st v = Some (st5, Inr Qnil) \<and> cState_array_nl st5 = Some s"
proof -
  have "get_string (Some (strdup s)) (length s) = Some s"
    using str_is_strdup [of s] assms(2) by (intro get_string_is) (simp add: clean_def)
  moreover have "get_string None n = Some []" for n by (simp add: get_string_def)
  moreover have "Check_String h v = Inr s" using assms(1) by (simp add: Check_String_def)
  ultimately show ?thesis
    by (cases "s = []") (simp_all add: checked_def cState_indent_set_def cState_space_set_def cState_space_before_set_def
        cState_object_nl_set_def cState_array_nl_set_def cState_indent_def cState_space_def cState_space_before_def
        cState_object_nl_def cState_array_nl_def)
qed

theorem settings_read_back_witness:
  "\<exists>st. cState_indent_set sample_heap plain_state (Ref 1) = Some (st, Inr Qnil) \<and> cState_indent st = Some [0x22]"
  using settings_read_back [of sample_heap "Ref 1" "[0x22]" plain_state]
  by (auto simp: string_of_def sample_heap_def clean_def)

lemma set_state_ivars_defined: "\<forall>(k, v) \<in> set ivars. CHR 0x00 \<notin> set k \<Longrightarrow> \<exists>hash'. set_state_ivars ivars hash = Inr hash'"
  by (induction ivars arbitrary: hash) auto

text \<open>
  C21. A length that is left behind. When \<open>object_nl\<close> or \<open>array_nl\<close> is set to a string that is not empty
  (of fewer than \<open>2\<^sup>6\<^sup>2\<close> bytes) and then emptied, the string reads as empty, but its length stays, whatever the state was before: the state
  cannot be copied (the copy reads through the null pointer), and \<open>to_h\<close>, with instance variables
  whose names have no NUL, makes a string of memory nobody wrote. Emptying \<open>indent\<close> in the same way leaves a state that can be copied as before.
\<close>

theorem stale_length:
  assumes "string_of h v = Some s" "s \<noteq> []" "length s < 2 ^ 62" "string_of h w = Some []"
    "\<forall>(k, x) \<in> set ivars. CHR 0x00 \<notin> set k"
  shows "(\<exists>st1 st2. cState_object_nl_set h st v = Some (st1, Inr Qnil) \<and> cState_object_nl_set h st1 w = Some (st2, Inr Qnil) \<and>
      cState_object_nl st2 = Some [] \<and> cState_init_copy st2 = None \<and> cState_to_h ivars st2 = None) \<and>
    (\<exists>st1 st2. cState_array_nl_set h st v = Some (st1, Inr Qnil) \<and> cState_array_nl_set h st1 w = Some (st2, Inr Qnil) \<and>
      cState_array_nl st2 = Some [] \<and> cState_init_copy st2 = None \<and> cState_to_h ivars st2 = None) \<and>
    (\<exists>st1 st2. cState_indent_set h st v = Some (st1, Inr Qnil) \<and> cState_indent_set h st1 w = Some (st2, Inr Qnil) \<and>
      cState_indent st2 = Some [] \<and> (cState_init_copy st \<noteq> None \<longrightarrow> cState_init_copy st2 \<noteq> None))"
proof -
  obtain hash where hash: "set_state_ivars ivars [] = Inr hash" using set_state_ivars_defined [OF assms(5)] by blast
  have str: "Check_String h v = Inr s" "Check_String h w = Inr []" using assms(1,4) by (simp_all add: Check_String_def)
  have stale: "fstrndup None (length s) = None" "new_string None (length s) = None"
    using assms(2,3) by (simp_all add: fstrndup_def new_string_def rb_str_new_def unat_of_nat take_bit_nat_eq_self_iff)
  have copies: "cState_init_copy (st\<lparr>indent := None, indent_len := 0\<rparr>) \<noteq> None" if "cState_init_copy st \<noteq> None"
    using that by (auto simp: cState_init_copy_def fstrndup_def bind_eq_None_conv bind_eq_Some_conv)
  show ?thesis
  proof (intro conjI)
    show "\<exists>st1 st2. cState_object_nl_set h st v = Some (st1, Inr Qnil) \<and> cState_object_nl_set h st1 w = Some (st2, Inr Qnil) \<and>
        cState_object_nl st2 = Some [] \<and> cState_init_copy st2 = None \<and> cState_to_h ivars st2 = None"
      using assms(2) hash
      by (simp add: cState_object_nl_set_def checked_def str cState_object_nl_def get_string_def cState_init_copy_def
          cState_to_h_def stale bind_eq_None_conv)
    show "\<exists>st1 st2. cState_array_nl_set h st v = Some (st1, Inr Qnil) \<and> cState_array_nl_set h st1 w = Some (st2, Inr Qnil) \<and>
        cState_array_nl st2 = Some [] \<and> cState_init_copy st2 = None \<and> cState_to_h ivars st2 = None"
      using assms(2) hash
      by (simp add: cState_array_nl_set_def checked_def str cState_array_nl_def get_string_def cState_init_copy_def
          cState_to_h_def stale bind_eq_None_conv)
    show "\<exists>st1 st2. cState_indent_set h st v = Some (st1, Inr Qnil) \<and> cState_indent_set h st1 w = Some (st2, Inr Qnil) \<and>
        cState_indent st2 = Some [] \<and> (cState_init_copy st \<noteq> None \<longrightarrow> cState_init_copy st2 \<noteq> None)"
      using assms(2) copies
      by (simp add: cState_indent_set_def checked_def str cState_indent_def get_string_def)
  qed
qed

theorem stale_length_witness:
  "\<exists>st1 st2. cState_object_nl_set (\<lambda>a. Some (RString (if a = 0 then [0x0A] else []))) plain_state (Ref 0) = Some (st1, Inr Qnil) \<and>
    cState_object_nl_set (\<lambda>a. Some (RString (if a = 0 then [0x0A] else []))) st1 (Ref 1) = Some (st2, Inr Qnil) \<and>
    cState_object_nl st2 = Some [] \<and> cState_init_copy st2 = None \<and> cState_to_h [(''@x'', Qtrue)] st2 = None"
  using stale_length [of "\<lambda>a. Some (RString (if a = 0 then [0x0A] else []))" "Ref 0" "[0x0A]" "Ref 1" "[(''@x'', Qtrue)]" plain_state]
  by (auto simp: string_of_def)

section \<open>Strings\<close>

lemma split_chars_append:
  "split_chars as = Inr cs \<Longrightarrow> split_chars bs = Inr ds \<Longrightarrow> split_chars (as @ bs) = Inr (cs @ ds)"
proof (induction as arbitrary: cs rule: split_chars.induct)
  case (1 s)
  show ?case
  proof (cases "s = []")
    case False
    let ?n = "trailing (hd s) + 1"
    from False "1.prems"(1) have n: "?n \<le> length s" "legal (take ?n s)"
      by (auto simp: split_chars.simps [of s] Let_def split: if_splits)
    from False n "1.prems"(1) obtain ds' where d: "split_chars (drop ?n s) = Inr ds'" "cs = take ?n s # ds'"
      by (cases "split_chars (drop ?n s)") (auto simp: split_chars.simps [of s] Let_def)
    have "split_chars (drop ?n s @ bs) = Inr (ds' @ ds)" using "1.IH" [OF False refl _ _ d(1) "1.prems"(2)] n by simp
    then have "split_chars (take ?n s @ drop ?n s @ bs) = Inr (cs @ ds)"
      by (simp only: split_chars_legal [OF n(2)] map_sum.simps d(2) append_Cons)
    then show ?thesis by (simp only: append_assoc [symmetric] append_take_drop_id)
  qed (use "1.prems" in simp)
qed

text \<open>
  C22. Conversion of a string. On every string of bytes \<open>convert_UTF8_to_JSON\<close> appends exactly what
  splitting the string into characters and escaping each of them gives, and raises exactly the
  exception at which the splitting stops; it never reads outside the string or writes outside the
  buffer.
\<close>

theorem convert_json_equals_reference:
  assumes "holds fb (map Some zs)" "length zs + 6 * length s \<le> 2 ^ 63"
  shows "delivers (convert_UTF8_to_JSON fb s) (map_sum id (\<lambda>r. zs @ r) (convert_ref json_char s))"
  using convert_json_ref [OF assms(1), of s] length_written [OF length_json_char, of s] assms(2) by simp

theorem convert_json_equals_reference_witness:
  "delivers (convert_UTF8_to_JSON (fbuffer_alloc 0) [0x41, 0x0A]) (map_sum id (\<lambda>r. r) (convert_ref json_char [0x41, 0x0A]))"
  using convert_json_equals_reference [of "fbuffer_alloc 0" "[]" "[0x41, 0x0A]"] holds_alloc by simp

lemma hex_ascii: "n < 16 \<Longrightarrow> 0x20 \<le> hexdigits ! n \<and> hexdigits ! n \<le> 0x7F"
proof -
  assume "n < 16"
  then have "hexdigits ! n \<in> set hexdigits" by (intro nth_mem) (simp add: hexdigits_def)
  then show ?thesis by (auto simp: hexdigits_def)
qed

lemma u_escape_ascii: "n \<le> 0xFFFF \<Longrightarrow> b \<in> set (u_escape n) \<Longrightarrow> 0x20 \<le> b \<and> b \<le> 0x7F"
  using hex_ascii [of "n div 4096"] hex_ascii [of "n div 256 mod 16"] hex_ascii [of "n div 16 mod 16"] hex_ascii [of "n mod 16"]
  by (auto simp: u_escape_def hex4_def div_less_iff_less_mult)

lemma ascii_char_ascii:
  assumes "legal bs" "b \<in> set (ascii_char_ref bs)"
  shows "0x20 \<le> b \<and> b \<le> 0x7F"
proof (cases "short_escape (code bs)")
  case (Some e)
  with assms(2) show ?thesis by (auto simp: ascii_char_ref_def short_escape_def split: if_splits)
next
  case None
  have n: "code bs \<le> 0x10FFFF" using scalar_code [OF assms(1)] by (auto simp: scalar_def)
  then have "0xD800 + (code bs - 0x10000) div 1024 \<le> 0xFFFF" "0xDC00 + (code bs - 0x10000) mod 1024 \<le> 0xFFFF"
    using mod_less_divisor [of 1024 "code bs - 0x10000"] by linarith+
  note escapes = u_escape_ascii [OF this(1), of b] u_escape_ascii [OF this(2), of b] u_escape_ascii [of "code bs" b]
  consider "0x20 \<le> code bs" "code bs \<le> 0x7F" "b = of_nat (code bs)"
    | "b \<in> set (u_escape (code bs))" "code bs \<le> 0xFFFF"
    | "b \<in> set (u_escape (0xD800 + (code bs - 0x10000) div 1024)) \<or> b \<in> set (u_escape (0xDC00 + (code bs - 0x10000) mod 1024))"
    using None assms(2) by (auto simp: ascii_char_ref_def split: if_splits)
  then show ?thesis
  proof cases
    case 1
    then show ?thesis by (simp add: word_le_nat_alt unat_of_nat take_bit_nat_eq_self_iff)
  qed (use escapes in blast)+
qed

lemma split_chars_all_legal: "split_chars s = Inr cs \<Longrightarrow> list_all legal cs"
proof (induction s arbitrary: cs rule: split_chars.induct)
  case (1 s)
  show ?case
  proof (cases "s = [] \<or> trailing (hd s) + 1 > length s \<or> \<not> legal (take (trailing (hd s) + 1) s)")
    case True
    with "1.prems" show ?thesis by (auto simp: split_chars.simps [of s] split: if_splits)
  next
    case False
    with "1.prems" obtain ds where "split_chars (drop (trailing (hd s) + 1) s) = Inr ds" "cs = take (trailing (hd s) + 1) s # ds"
      using split_chars_legal [of "take (trailing (hd s) + 1) s" "drop (trailing (hd s) + 1) s"]
      by (cases "split_chars (drop (trailing (hd s) + 1) s)") auto
    with "1.IH" [OF _ refl] False show ?thesis by auto
  qed
qed

text \<open>
  C23. Conversion into ASCII. \<open>convert_UTF8_to_JSON_ASCII\<close> agrees with its reference on every string
  of bytes, and all bytes that it appends are ASCII characters from the space on, the last of them,
  DEL, included.
\<close>

theorem convert_ascii_equals_reference:
  assumes "holds fb (map Some zs)" "length zs + 6 * length s \<le> 2 ^ 63"
  shows "delivers (convert_UTF8_to_JSON_ASCII fb s) (map_sum id (\<lambda>r. zs @ r) (convert_ref ascii_char_ref s)) \<and>
    (\<forall>out. convert_ref ascii_char_ref s = Inr out \<longrightarrow> list_all (\<lambda>b. 0x20 \<le> b \<and> b \<le> 0x7F) out)"
proof
  show "delivers (convert_UTF8_to_JSON_ASCII fb s) (map_sum id (\<lambda>r. zs @ r) (convert_ref ascii_char_ref s))"
    using convert_ascii_ref [OF assms(1), of s] length_written [OF length_ascii_char, of s] assms(2) by simp
  show "\<forall>out. convert_ref ascii_char_ref s = Inr out \<longrightarrow> list_all (\<lambda>b. 0x20 \<le> b \<and> b \<le> 0x7F) out"
    using split_chars_all_legal [of s] ascii_char_ascii
    by (cases "split_chars s") (auto simp: convert_ref_def list_all_iff)
qed

theorem convert_ascii_equals_reference_witness:
  "delivers (convert_UTF8_to_JSON_ASCII (fbuffer_alloc 0) [0xC3, 0xA4]) (map_sum id (\<lambda>r. r) (convert_ref ascii_char_ref [0xC3, 0xA4]))"
  using convert_ascii_equals_reference [of "fbuffer_alloc 0" "[]" "[0xC3, 0xA4]"] holds_alloc by simp

text \<open>
  C24. What \<open>isLegalUTF8\<close> accepts: the encodings of the Unicode scalar values, and besides them only
  sequences with lead byte ED or F4 whose second byte is below 80. The check of those two lead
  bytes has no lower bound.
\<close>

theorem isLegalUTF8_accepts:
  assumes "bs \<noteq> []" "length bs = trailing (hd bs) + 1"
  shows "isLegalUTF8 (xs @ bs @ ys) (length xs) (length bs) = Some ((\<exists>cp. scalar cp \<and> bs = encode cp) \<or> loose bs)"
proof -
  have "(\<exists>cp. scalar cp \<and> encode_nat cp = map unat bs) \<longleftrightarrow> (\<exists>cp. scalar cp \<and> bs = encode cp)"
    using unat_encode by (metis (no_types, lifting) list.inj_map_strong word_unat_eq_iff)
  with isLegalUTF8_iff [OF assms] show ?thesis by (simp add: legal_def)
qed

theorem isLegalUTF8_accepts_witness:
  "isLegalUTF8 ([] @ [0xC3, 0xA4] @ []) (length ([] :: bytes)) (length [0xC3 :: u8, 0xA4]) =
     Some ((\<exists>cp. scalar cp \<and> [0xC3, 0xA4] = encode cp) \<or> loose [0xC3, 0xA4])"
  by (rule isLegalUTF8_accepts) (simp_all add: trailing_eq)

text \<open>
  Three bytes ED \<open>y\<close> \<open>z\<close> with \<open>y\<close> below 80 and a continuation byte \<open>z\<close> pass the check as one
  character, and are copied as they are: a quote or a backslash among them is not escaped.
\<close>

lemma split_chars_loose:
  assumes "split_chars as = Inr cs" "split_chars bs = Inr ds" "y < 0x80" "0x80 \<le> z" "z \<le> 0xBF"
  shows "split_chars (as @ [0xED, y, z] @ bs) = Inr (cs @ [0xED, y, z] # ds)" "json_char [0xED, y, z] = [0xED, y, z]"
proof -
  have n: "unat y < 128" "128 \<le> unat z" "unat z \<le> 191" using assms(3-5) by (simp_all add: word_less_nat_alt word_le_nat_alt)
  then have "legal [0xED, y, z]" by (simp add: legal_def loose_def)
  then have "split_chars ([0xED, y, z] @ bs) = Inr ([0xED, y, z] # ds)" by (simp only: split_chars_legal assms(2) map_sum.simps id_apply)
  with assms(1) show "split_chars (as @ [0xED, y, z] @ bs) = Inr (cs @ [0xED, y, z] # ds)" by (rule split_chars_append)
  show "json_char [0xED, y, z] = [0xED, y, z]" using n by (simp add: json_char_def code_def short_escape_def)
qed

section \<open>The byte buffer\<close>

text \<open>
  C26. The buffer refines a list of bytes. Every sequence of appends of strings, characters and
  numbers and of clears, from a fresh buffer of whatever initial length, is defined and leaves the
  bytes that the same operations leave in a list, as long as there are never more than \<open>2\<^sup>6\<^sup>3\<close>.
\<close>

theorem fbuffer_refines_list:
  assumes "enabled fb_ok fb_spec ops []"
  shows "\<exists>fb. run fb_step ops (fbuffer_alloc n) = Some fb \<and> fbuffer_to_s fb = Some (fold fb_spec ops [])"
  using fb.run_refines [of "fbuffer_alloc n" "[]" ops] holds_alloc assms to_s_holds by fastforce

theorem fbuffer_refines_list_witness:
  "\<exists>fb. run fb_step [Append [0x5B], Append_long (-7), Append_char 0x5D] (fbuffer_alloc 1) = Some fb \<and>
     fbuffer_to_s fb = Some (fold fb_spec [Append [0x5B], Append_long (-7), Append_char 0x5D] [])"
  by (rule fbuffer_refines_list) (simp add: decimal_def dec_rev.simps)

text \<open>
  C27. Numbers. \<open>fbuffer_append_long\<close> fits every \<open>long\<close> but the least one into its array of twenty
  characters, and what it appends reads back as the number.
\<close>

theorem append_long_reads_back:
  assumes "holds fb (map Some zs)" "- (2 ^ 63) < i" "i < 2 ^ 63" "length zs + 20 \<le> 2 ^ 63"
  shows "\<exists>fb' ds. fbuffer_append_long fb i = Some fb' \<and> fbuffer_to_s fb' = Some (zs @ ds) \<and> length ds \<le> 20 \<and>
    read_decimal ds = i"
proof -
  have len: "length (decimal i) \<le> 20" using fltoa_eq [OF assms(2,3)] by blast
  then obtain fb' where "fbuffer_append_long fb i = Some fb'" "holds fb' (map Some (zs @ decimal i))"
    using append_long_holds [OF assms(1-3)] assms(4) by auto
  with to_s_holds len read_decimal_decimal show ?thesis by blast
qed

theorem append_long_reads_back_witness:
  "\<exists>fb' ds. fbuffer_append_long (fbuffer_alloc 4) (- 9223372036854775807) = Some fb' \<and> fbuffer_to_s fb' = Some ds \<and>
    length ds \<le> 20 \<and> read_decimal ds = - 9223372036854775807"
  using append_long_reads_back [of "fbuffer_alloc 4" "[]" "- 9223372036854775807"] holds_alloc by simp

text \<open>
  C28. The capacity. The loop that doubles the capacity until a request fits ends, without
  wrapping around, with a capacity that is large enough and less than twice what is needed (or the
  old one), as long as no more than \<open>2\<^sup>6\<^sup>3\<close> bytes are asked for.
\<close>

theorem capacity_found:
  fixes required :: u64
  assumes "len \<le> required" "0 < required" "unat len + unat requested \<le> 2 ^ 63"
  shows "\<exists>r. required_loop requested len required = Some r \<and> unat len + unat requested \<le> unat r \<and>
    (r = required \<or> unat r < 2 * (unat len + unat requested))"
  using required_loop_returns [OF assms] by blast

theorem capacity_found_witness:
  "\<exists>r. required_loop 5000 1000 1024 = Some r \<and> 6000 \<le> unat r"
  using capacity_found [of 1000 1024 5000] by auto

end
