(* ===== verification/Json_Settings.thy ===== *)
theory Json_Settings
  imports Json_Correct
begin

text \<open>
  A State as a hash of its settings (\<open>generator.c\<close>): \<open>[]\<close> and \<open>[]=\<close>, which call the method of the name
  if the object has one and use an instance variable if not, and what \<open>configure\<close> makes of the result
  of \<open>to_h\<close>. The object is of the class State itself. The name is the string that \<open>to_s\<close> gives.
\<close>

section \<open>Definitions\<close>

record state_object =
  so_state :: JSON_Generator_State
  so_ivars :: "(string \<times> rb_value) list"

text \<open>The methods that read and write a setting; the results of the writers are of no use.\<close>

definition state_readers :: "(string \<times> (JSON_Generator_State \<Rightarrow> setting option)) list" where
  "state_readers =
     [(''indent'', \<lambda>st. map_option SString (cState_indent st)),
      (''space'', \<lambda>st. map_option SString (cState_space st)),
      (''space_before'', \<lambda>st. map_option SString (cState_space_before st)),
      (''object_nl'', \<lambda>st. map_option SString (cState_object_nl st)),
      (''array_nl'', \<lambda>st. map_option SString (cState_array_nl st)),
      (''max_nesting'', \<lambda>st. Some (SValue (cState_max_nesting st))),
      (''check_circular?'', \<lambda>st. Some (SValue (cState_check_circular_p st))),
      (''allow_nan?'', \<lambda>st. Some (SValue (cState_allow_nan_p st))),
      (''ascii_only?'', \<lambda>st. Some (SValue (cState_ascii_only_p st))),
      (''depth'', \<lambda>st. Some (SValue (cState_depth st))),
      (''buffer_initial_length'', \<lambda>st. Some (SValue (cState_buffer_initial_length st)))]"

type_synonym writer = "rb_heap \<Rightarrow> JSON_Generator_State \<Rightarrow> rb_value \<Rightarrow> (JSON_Generator_State, unit) act"

definition writes :: "(rb_heap \<Rightarrow> JSON_Generator_State \<Rightarrow> rb_value \<Rightarrow> (JSON_Generator_State, rb_value) act) \<Rightarrow> writer" where
  "writes f h st v = act_then (f h st v) (\<lambda>st _. gives st ())"

definition state_writers :: "(string \<times> writer) list" where
  "state_writers = map (\<lambda>(k, w). (k @ ''='', w))
     [(''indent'', writes cState_indent_set),
      (''space'', writes cState_space_set),
      (''space_before'', writes cState_space_before_set),
      (''object_nl'', writes cState_object_nl_set),
      (''array_nl'', writes cState_array_nl_set),
      (''max_nesting'', \<lambda>h. cState_max_nesting_set),
      (''depth'', writes (\<lambda>h. cState_depth_set)),
      (''buffer_initial_length'', writes (\<lambda>h. cState_buffer_initial_length_set))]"

text \<open>All other methods of the object are given by a function, called with the list of arguments.\<close>

type_synonym rb_method = "rb_value list \<Rightarrow> state_object \<Rightarrow> (state_object, setting) act"

definition rb_ivar_get :: "(string \<times> rb_value) list \<Rightarrow> string \<Rightarrow> rb_value" where
  "rb_ivar_get ivars name = (case map_of ivars name of Some v \<Rightarrow> v | None \<Rightarrow> Qnil)"

definition cState_aref :: "(string \<Rightarrow> rb_method option) \<Rightarrow> string \<Rightarrow> state_object \<Rightarrow> (state_object, setting) act" where
  "cState_aref others name ob =
     (case map_of state_readers name of
        Some reader \<Rightarrow> map_option (\<lambda>v. (ob, Inr v)) (reader (so_state ob))
      | None \<Rightarrow>
          if map_of state_writers name \<noteq> None then Some (ob, Inl (ArgError ''wrong number of arguments''))
          else (case others name of
              Some call \<Rightarrow> call [] ob
            | None \<Rightarrow> gives ob (SValue (rb_ivar_get (so_ivars ob) (''@'' @ name)))))"

definition cState_aset :: "(string \<Rightarrow> rb_method option) \<Rightarrow> rb_heap \<Rightarrow> string \<Rightarrow> rb_value \<Rightarrow> state_object \<Rightarrow> (state_object, unit) act" where
  "cState_aset others h name value ob =
     (let name_writer = name @ ''='' in
      case map_of state_writers name_writer of
        Some writer \<Rightarrow> map_option (\<lambda>(st, r). (ob\<lparr>so_state := st\<rparr>, r)) (writer h (so_state ob) value)
      | None \<Rightarrow>
          (case others name_writer of
              Some call \<Rightarrow> act_then (call [value] ob) (\<lambda>ob _. gives ob ())
            | None \<Rightarrow> gives (ob\<lparr>so_ivars := hash_aset (so_ivars ob) (''@'' @ name) value\<rparr>) ()))"

section \<open>Setting, then reading\<close>

lemma map_of_suffix: "map_of (map (\<lambda>(k, w). (k @ x, w)) kvs) (name @ x) = map_of kvs name"
  by (induction kvs) auto

definition string_names :: "string set" where
  "string_names = {''indent'', ''space'', ''space_before'', ''object_nl'', ''array_nl''}"

definition number_names :: "string set" where
  "number_names = {''max_nesting'', ''depth'', ''buffer_initial_length''}"

text \<open>
  The values that can be set under a name, and what is read after such a value was set. A string is
  kept as \<open>strdup\<close> copies it, up to its first NUL, but with its whole length: unless the NUL is the
  last byte, reading it goes beyond the block. An initial length that is not positive is ignored.
\<close>

definition accepts :: "rb_heap \<Rightarrow> string \<Rightarrow> rb_value \<Rightarrow> bool" where
  "accepts h name v =
     (if name \<in> string_names then string_of h v \<noteq> None
      else if name \<in> number_names then (case v of Fixnum i \<Rightarrow> True | _ \<Rightarrow> False)
      else True)"

definition read_back :: "rb_heap \<Rightarrow> string \<Rightarrow> rb_value \<Rightarrow> JSON_Generator_State \<Rightarrow> setting option" where
  "read_back h name v old =
     (if name \<in> string_names then
        (case string_of h v of None \<Rightarrow> None | Some s \<Rightarrow> if 0 \<in> set (butlast s) then None else Some (SString s))
      else case v of
        Fixnum i \<Rightarrow> Some (SValue (Fixnum (if name = ''buffer_initial_length'' \<and> i \<le> 0 then buffer_initial_length old else i)))
      | _ \<Rightarrow> Some (SValue v))"

definition wanted :: "string \<Rightarrow> string" where
  "wanted name = (if name \<in> string_names then ''String'' else ''Integer'')"

text \<open>A name that reads what it writes: a setting that can be written, or no method at all.\<close>

definition plain_name :: "(string \<Rightarrow> rb_method option) \<Rightarrow> string \<Rightarrow> bool" where
  "plain_name others name \<longleftrightarrow> map_of state_writers (name @ ''='') \<noteq> None \<or>
     map_of state_readers name = None \<and> map_of state_writers name = None \<and> others name = None \<and> others (name @ ''='') = None"

lemma get_string_strdup:
  assumes "length s < 2 ^ 62"
  shows "get_string (Some (strdup s)) (length s) = (if 0 \<in> set (butlast s) then None else Some s)"
proof -
  have len: "unat (of_nat (length s) :: u64) = length s" using assms by (simp add: unat_of_nat take_bit_nat_eq_self_iff)
  let ?t = "takeWhile (\<lambda>c. c \<noteq> 0) s"
  consider "0 \<in> set (butlast s)" | "0 \<notin> set (butlast s)" "s = butlast s @ [0]" | "0 \<notin> set s"
    by (cases s rule: rev_cases) auto
  then show ?thesis
  proof cases
    case 1
    then obtain us vs where "butlast s = us @ 0 # vs" "0 \<notin> set us" by (meson split_list_first)
    moreover have "s \<noteq> []" using 1 by auto
    ultimately have s: "s = us @ 0 # vs @ [last s]" by (metis append_Cons append_assoc append_butlast_last_id)
    have "?t = us" by (subst s, subst takeWhile_append2) (use \<open>0 \<notin> set us\<close> in auto)
    moreover have "length s = length us + 1 + length vs + 1" by (subst s) simp
    ultimately have "\<not> length s \<le> length (strdup s)" by (simp add: strdup_def)
    with 1 len show ?thesis by (simp add: get_string_def rb_str_new_def)
  next
    case 2
    then obtain us where s: "s = us @ [0]" "0 \<notin> set us" by metis
    have "?t = us" by (subst s(1), subst takeWhile_append2) (use s(2) in auto)
    with s len show ?thesis by (simp add: get_string_def rb_str_new_def strdup_def comp_def)
  next
    case 3
    then have "0 \<notin> set (butlast s)" by (auto dest: in_set_butlastD)
    with 3 get_string_is [OF str_is_strdup [OF 3 assms]] show ?thesis by simp
  qed
qed

lemma get_string_None: "get_string None n = Some []"
  by (simp add: get_string_def)

lemmas string_setters = cState_indent_set_def cState_space_set_def cState_space_before_set_def cState_object_nl_set_def
  cState_array_nl_set_def

lemmas string_getters = cState_indent_def cState_space_def cState_space_before_def cState_object_nl_def cState_array_nl_def

lemma aset_string:
  assumes "name \<in> string_names" "string_of h v = Some s" "length s < 2 ^ 62"
  shows "\<exists>ob'. cState_aset others h name v ob = Some (ob', Inr ()) \<and>
    cState_aref others name ob' = (if 0 \<in> set (butlast s) then None else Some (ob', Inr (SString s)))"
proof -
  have "Check_String h v = Inr s" using assms(2) by (simp add: Check_String_def)
  with assms(1,3) show ?thesis
    unfolding string_names_def
    by (cases "s = []"; elim insertE emptyE)
      (simp_all add: cState_aset_def cState_aref_def state_writers_def state_readers_def writes_def act_then_def gives_def
        checked_def string_setters string_getters get_string_strdup get_string_None)
qed

lemma aset_number:
  assumes "name \<in> number_names"
  shows "\<exists>ob'. cState_aset others h name (Fixnum i) ob = Some (ob', Inr ()) \<and>
    cState_aref others name ob' = Some (ob', Inr (SValue (Fixnum
      (if name = ''buffer_initial_length'' \<and> i \<le> 0 then buffer_initial_length (so_state ob) else i))))"
  using assms unfolding number_names_def
  by (elim insertE emptyE)
    (simp_all add: cState_aset_def cState_aref_def state_writers_def state_readers_def writes_def act_then_def gives_def
      checked_def Check_Fixnum_def cState_max_nesting_set_def cState_max_nesting_def cState_depth_set_def cState_depth_def
      cState_buffer_initial_length_set_def cState_buffer_initial_length_def)

text \<open>A value of the wrong type is refused, and nothing changes.\<close>

lemma aset_refused:
  assumes "name \<in> string_names \<and> string_of h v = None \<or> name \<in> number_names \<and> (\<forall>i. v \<noteq> Fixnum i)"
  shows "cState_aset others h name v ob = Some (ob, Inl (TypeError (wanted name)))"
proof -
  have "Check_String h v = Inl (TypeError ''String'')" if "string_of h v = None" using that by (simp add: Check_String_def)
  moreover have "Check_Fixnum v = Inl (TypeError ''Integer'')" if "\<forall>i. v \<noteq> Fixnum i"
    using that by (cases v) (auto simp: Check_Fixnum_def)
  ultimately show ?thesis
    using assms unfolding string_names_def number_names_def
    by (elim disjE conjE insertE emptyE)
      (simp_all add: cState_aset_def state_writers_def writes_def act_then_def checked_def string_setters wanted_def
        string_names_def cState_max_nesting_set_def cState_depth_set_def cState_buffer_initial_length_set_def)
qed

lemma aset_ivar:
  assumes "map_of state_writers (name @ ''='') = None" "plain_name others name"
  shows "\<exists>ob'. cState_aset others h name v ob = Some (ob', Inr ()) \<and> cState_aref others name ob' = Some (ob', Inr (SValue v))"
  using assms by (simp add: plain_name_def cState_aset_def cState_aref_def gives_def rb_ivar_get_def Let_def)

lemma writer_names:
  "map_of state_writers (name @ ''='') \<noteq> None \<longleftrightarrow>
     name \<in> string_names \<or> name \<in> number_names"
  unfolding state_writers_def map_of_suffix string_names_def number_names_def by auto

text \<open>There is no writer for the two flags: the state keeps its flag, and the value goes to a variable.\<close>

lemma allow_nan_not_set:
  assumes "others ''allow_nan='' = None"
  shows "\<exists>ob'. cState_aset others h ''allow_nan'' v ob = Some (ob', Inr ()) \<and> so_state ob' = so_state ob"
  using assms by (simp add: cState_aset_def state_writers_def gives_def)

section \<open>The hash of a state\<close>

text \<open>The options that a hash of settings gives, with its strings on the heap.\<close>

definition same_options :: "rb_heap \<Rightarrow> opts \<Rightarrow> (string \<times> setting) list \<Rightarrow> bool" where
  "same_options h opts kvs \<longleftrightarrow> (\<forall>k. case map_of kvs k of
      None \<Rightarrow> opts k = None
    | Some (SValue v) \<Rightarrow> opts k = Some v
    | Some (SString s) \<Rightarrow> (\<exists>a. opts k = Some (Ref a) \<and> h a = Some (RString s)))"

lemma same_options_string: "same_options h opts kvs \<Longrightarrow> map_of kvs k = Some (SString s) \<Longrightarrow> \<exists>a. opts k = Some (Ref a) \<and> h a = Some (RString s)"
  by (drule spec [where x = k, OF same_options_def [THEN iffD1]]) simp

lemma same_options_value: "same_options h opts kvs \<Longrightarrow> map_of kvs k = Some (SValue v) \<Longrightarrow> opts k = Some v"
  by (drule spec [where x = k, OF same_options_def [THEN iffD1]]) simp

lemma configure_string_sets:
  assumes "same_options h opts kvs" "map_of kvs k = Some (SString s)" "clean s"
  shows "configure_string h opts k upd st = Some (upd (Some (map Some (s @ [0]))) (length s) st, Inr ())"
proof -
  obtain a where "opts k = Some (Ref a)" "h a = Some (RString s)" using same_options_string [OF assms(1,2)] by blast
  then show ?thesis
    using fstrndup_string [of s] assms(3)
    by (simp add: configure_string_def aref_def RTEST_def checked_def Check_String_def string_of_def clean_def)
qed

text \<open>The settings of a state, entry by entry.\<close>

lemma to_h_entries:
  assumes "stands_for st c" "no_stale st" "\<forall>(k, v) \<in> set ivars. CHR 0x00 \<notin> set k"
  shows "\<exists>kvs. cState_to_h ivars st = Some (Inr kvs) \<and>
    map_of kvs ''indent'' = Some (SString (c_indent c)) \<and> map_of kvs ''space'' = Some (SString (c_space c)) \<and>
    map_of kvs ''space_before'' = Some (SString (c_space_before c)) \<and>
    map_of kvs ''object_nl'' = Some (SString (opt_bytes (c_object_nl c))) \<and>
    map_of kvs ''array_nl'' = Some (SString (opt_bytes (c_array_nl c))) \<and>
    map_of kvs ''allow_nan'' = Some (SValue (cState_allow_nan_p st)) \<and> map_of kvs ''ascii_only'' = Some (SValue (cState_ascii_only_p st)) \<and>
    map_of kvs ''max_nesting'' = Some (SValue (Fixnum (max_nesting st))) \<and> map_of kvs ''depth'' = Some (SValue (Fixnum (depth st))) \<and>
    map_of kvs ''buffer_initial_length'' = Some (SValue (Fixnum (buffer_initial_length st)))"
proof -
  obtain hash where hash: "set_state_ivars ivars [] = Inr hash" using set_state_ivars_defined [OF assms(3)] by blast
  have "new_string (indent st) (indent_len st) = Some (SString (c_indent c))"
    "new_string (space st) (space_len st) = Some (SString (c_space c))"
    "new_string (space_before st) (space_before_len st) = Some (SString (c_space_before c))"
    "new_string (object_nl st) (object_nl_len st) = Some (SString (opt_bytes (c_object_nl c)))"
    "new_string (array_nl st) (array_nl_len st) = Some (SString (opt_bytes (c_array_nl c)))"
    using assms(1,2) by (auto simp: stands_for_def no_stale_def intro!: new_string_is dest: opt_is_str)
  with hash show ?thesis by (simp add: cState_to_h_def)
qed

lemma RTEST_Fixnum: "RTEST (Fixnum i)"
  by (simp add: RTEST_def)

text \<open>An absent line end becomes an empty one.\<close>

definition with_line_ends :: "config \<Rightarrow> config" where
  "with_line_ends c = c\<lparr>c_object_nl := Some (opt_bytes (c_object_nl c)), c_array_nl := Some (opt_bytes (c_array_nl c))\<rparr>"

lemma configure_to_h:
  assumes "stands_for st c" "clean_config c" "0 < buffer_initial_length st" "same_options h opts kvs"
    "map_of kvs ''indent'' = Some (SString (c_indent c))" "map_of kvs ''space'' = Some (SString (c_space c))"
    "map_of kvs ''space_before'' = Some (SString (c_space_before c))"
    "map_of kvs ''object_nl'' = Some (SString (opt_bytes (c_object_nl c)))"
    "map_of kvs ''array_nl'' = Some (SString (opt_bytes (c_array_nl c)))"
    "map_of kvs ''allow_nan'' = Some (SValue (cState_allow_nan_p st))" "map_of kvs ''ascii_only'' = Some (SValue (cState_ascii_only_p st))"
    "map_of kvs ''max_nesting'' = Some (SValue (Fixnum (max_nesting st)))" "map_of kvs ''depth'' = Some (SValue (Fixnum (depth st)))"
    "map_of kvs ''buffer_initial_length'' = Some (SValue (Fixnum (buffer_initial_length st)))"
  shows "\<exists>st'. cState_configure h opts st0 = Some (st', Inr ()) \<and> stands_for st' (with_line_ends c) \<and> depth st' = depth st \<and>
    buffer_initial_length st' = buffer_initial_length st"
proof -
  have clean: "clean (c_indent c)" "clean (c_space c)" "clean (c_space_before c)" "clean (opt_bytes (c_object_nl c))"
    "clean (opt_bytes (c_array_nl c))" using assms(2) by (simp_all add: clean_config_def)
  note strings = configure_string_sets [OF assms(4,5) clean(1)] configure_string_sets [OF assms(4,6) clean(2)]
    configure_string_sets [OF assms(4,7) clean(3)] configure_string_sets [OF assms(4,8) clean(4)]
    configure_string_sets [OF assms(4,9) clean(5)]
  note numbers = same_options_value [OF assms(4,10)] same_options_value [OF assms(4,11)] same_options_value [OF assms(4,12)]
    same_options_value [OF assms(4,13)] same_options_value [OF assms(4,14)]
  have flags: "RTEST (cState_allow_nan_p st) = c_allow_nan c" "RTEST (cState_ascii_only_p st) = c_ascii_only c"
    using assms(1) by (simp_all add: stands_for_def RTEST_def cState_allow_nan_p_def cState_ascii_only_p_def)
  have "max_nesting st = c_max_nesting c" using assms(1) by (simp add: stands_for_def)
  with clean assms(3) strings numbers flags show ?thesis
    by (simp add: cState_configure_def act_then_def configure_max_nesting_def configure_depth_def configure_initial_length_def
        checked_def Check_Fixnum_def RTEST_Fixnum aref_def stands_for_def with_line_ends_def opt_is_def
        str_is_def clean_def)
qed

section \<open>Properties\<close>

text \<open>
  C12. Setting and reading by name, for the eight settings that have a writer and for every name that is
  no method of the object. A value that the writer accepts is what \<open>[]\<close> reads after \<open>[]=\<close>, strings as
  their contents, with two exceptions: an initial length that is not positive leaves the old one, and a
  string with a NUL before its last byte is kept in a block shorter than its length, so that reading it
  is undefined. A value of another type raises the type error and changes nothing.
\<close>

theorem aset_then_aref:
  assumes "plain_name others name" "string_val (\<lambda>s. length s < 2 ^ 62) h v"
  shows "if accepts h name v then
      \<exists>ob'. cState_aset others h name v ob = Some (ob', Inr ()) \<and>
        cState_aref others name ob' = map_option (\<lambda>x. (ob', Inr x)) (read_back h name v (so_state ob))
    else cState_aset others h name v ob = Some (ob, Inl (TypeError (wanted name)))"
proof (cases "map_of state_writers (name @ ''='') = None")
  case True
  then have names: "name \<notin> string_names" "name \<notin> number_names" using writer_names by blast+
  then have "read_back h name v (so_state ob) = Some (SValue v)"
    unfolding read_back_def if_not_P [OF names(1)] by (cases v) (auto simp: number_names_def)
  moreover have "accepts h name v" unfolding accepts_def using names by simp
  ultimately show ?thesis using aset_ivar [OF True assms(1)] by simp
next
  case False
  then consider (str) "name \<in> string_names" | (num) "name \<in> number_names" using writer_names by blast
  then show ?thesis
  proof cases
    case str
    then have eq: "accepts h name v \<longleftrightarrow> string_of h v \<noteq> None"
      "read_back h name v (so_state ob) = (case string_of h v of None \<Rightarrow> None | Some s \<Rightarrow> if 0 \<in> set (butlast s) then None else Some (SString s))"
      by (simp_all only: accepts_def read_back_def if_P)
    show ?thesis
    proof (cases "string_of h v")
      case None
      with aset_refused [of name h v] str eq show ?thesis by simp
    next
      case (Some s)
      then have "length s < 2 ^ 62" using assms(2) by (simp add: string_val_def)
      from aset_string [OF str Some this, of others ob] Some eq show ?thesis by auto
    qed
  next
    case num
    then have "name \<notin> string_names" by (auto simp: number_names_def string_names_def)
    with num have eq: "accepts h name v \<longleftrightarrow> (case v of Fixnum i \<Rightarrow> True | _ \<Rightarrow> False)"
      "read_back h name v (so_state ob) = (case v of
        Fixnum i \<Rightarrow> Some (SValue (Fixnum (if name = ''buffer_initial_length'' \<and> i \<le> 0 then buffer_initial_length (so_state ob) else i)))
      | _ \<Rightarrow> Some (SValue v))"
      by (simp_all only: accepts_def read_back_def if_P if_False)
    show ?thesis
      unfolding eq using aset_number [OF num, of others h _ ob] aset_refused [of name h v others ob] num
      by (cases v) simp_all
  qed
qed

text \<open>A plain string; one with a NUL in its middle; and a negative initial length.\<close>

theorem aset_then_aref_witness:
  "(\<exists>ob'. cState_aset (\<lambda>m. None) sample_heap ''indent'' (Ref 1) \<lparr>so_state = plain_state, so_ivars = []\<rparr> = Some (ob', Inr ()) \<and>
      cState_aref (\<lambda>m. None) ''indent'' ob' = Some (ob', Inr (SString [0x22]))) \<and>
   (\<exists>ob'. cState_aset (\<lambda>m. None) (\<lambda>a. Some (RString [0x20, 0, 0x20])) ''indent'' (Ref 1) \<lparr>so_state = plain_state, so_ivars = []\<rparr> = Some (ob', Inr ()) \<and>
      cState_aref (\<lambda>m. None) ''indent'' ob' = None)"
proof -
  have name: "''indent'' \<in> string_names" by (simp add: string_names_def)
  then have plain: "plain_name (\<lambda>m. None) ''indent''" unfolding plain_name_def writer_names by blast
  have one: "string_of sample_heap (Ref 1) = Some [0x22]" by (simp add: string_of_def sample_heap_def)
  let ?h = "\<lambda>a :: nat. Some (RString [0x20, 0, 0x20])"
  have nul: "string_of ?h (Ref 1) = Some [0x20, 0, 0x20]" by (simp add: string_of_def)
  show ?thesis
    using aset_then_aref [OF plain, of sample_heap "Ref 1" "\<lparr>so_state = plain_state, so_ivars = []\<rparr>"]
      aset_then_aref [OF plain, of ?h "Ref 1" "\<lparr>so_state = plain_state, so_ivars = []\<rparr>"] one nul name
    by (simp add: string_val_def accepts_def read_back_def)
qed

text \<open>
  C14. A state and its hash. For a state without stale lengths and without a NUL in its strings,
  \<open>to_h\<close> is defined, whatever instance variables the object has. Every state that is configured with
  these options stands for the same configuration, depth and initial length, with one difference:
  a line end that was absent is there, as an empty one.
\<close>

theorem to_h_configures:
  assumes "stands_for st c" "clean_config c" "no_stale st" "0 < buffer_initial_length st"
    "\<forall>(k, v) \<in> set ivars. CHR 0x00 \<notin> set k"
  shows "\<exists>kvs. cState_to_h ivars st = Some (Inr kvs) \<and> (\<forall>h opts st0. same_options h opts kvs \<longrightarrow>
    (\<exists>st'. cState_configure h opts st0 = Some (st', Inr ()) \<and> stands_for st' (with_line_ends c) \<and> depth st' = depth st \<and>
      buffer_initial_length st' = buffer_initial_length st))"
  using to_h_entries [OF assms(1,3,5)] configure_to_h [OF assms(1,2,4)] by blast

theorem to_h_configures_witness:
  "\<exists>kvs. cState_to_h [(''@indent'', Qtrue)] plain_state = Some (Inr kvs)"
proof -
  have "clean_config plain_config" by (simp add: clean_config_def plain_config_def clean_def opt_bytes_def)
  moreover have "no_stale plain_state" "0 < buffer_initial_length plain_state"
    by (simp_all add: no_stale_def plain_state_def cState_s_allocate_def FBUFFER_INITIAL_LENGTH_DEFAULT_def)
  ultimately show ?thesis
    using to_h_configures [OF plain_stands_for, of "[(''@indent'', Qtrue)]"] by auto
qed

text \<open>The difference is seen: with an indentation, closing brackets of inner values move.\<close>

lemma line_ends_matter:
  "render (with_line_ends (plain_config\<lparr>c_indent := [0x20]\<rparr>)) 0 (JArray [JArray []]) \<noteq>
   render (plain_config\<lparr>c_indent := [0x20]\<rparr>) 0 (JArray [JArray []])"
  by (simp add: with_line_ends_def plain_config_def opt_bytes_def closing_def repeat_def)

end
