(* ===== verification/Json_Unescape.thy ===== *)
theory Json_Unescape
  imports Json_Convert
begin

text \<open>
  The escapes of a JSON string, read back (\<open>parser.c\<close>): the digits of a \<open>\u\<close> escape, the UTF-8
  form of a character, and \<open>json_string_unescape\<close>. The text is a part of the source, a Ruby
  string, which is followed by a NUL; a pointer into it is an offset.
\<close>

section \<open>Definitions\<close>

definition digit_values :: "int list" where
  "digit_values = replicate 48 (- 1) @ [0, 1, 2, 3, 4, 5, 6, 7, 8, 9] @ replicate 7 (- 1) @
     [10, 11, 12, 13, 14, 15] @ replicate 26 (- 1) @ [10, 11, 12, 13, 14, 15] @ replicate 153 (- 1)"

definition UNI_REPLACEMENT_CHAR :: u64 where "UNI_REPLACEMENT_CHAR = 0xFFFD"

text \<open>The four digits; the first one that is none makes the result the replacement character.\<close>

definition digit_value :: "bytes \<Rightarrow> nat \<Rightarrow> int option" where
  "digit_value src p = do { c \<leftarrow> rd src p; vec_at digit_values (unat c) }"

definition shift_in :: "u64 \<Rightarrow> int \<Rightarrow> u64" where
  "shift_in result b = push_bit 4 result OR of_int b"

definition unescape_unicode :: "bytes \<Rightarrow> nat \<Rightarrow> u64 option" where
  "unescape_unicode src p = do {
     b \<leftarrow> digit_value src p;
     if b < 0 then Some UNI_REPLACEMENT_CHAR else do {
       let result = shift_in 0 b;
       b \<leftarrow> digit_value src (p + 1);
       if b < 0 then Some UNI_REPLACEMENT_CHAR else do {
         let result = shift_in result b;
         b \<leftarrow> digit_value src (p + 2);
         if b < 0 then Some UNI_REPLACEMENT_CHAR else do {
           let result = shift_in result b;
           b \<leftarrow> digit_value src (p + 3);
           if b < 0 then Some UNI_REPLACEMENT_CHAR else Some (shift_in result b)
         }
       }
     }
   }"

text \<open>The bytes that are left in \<open>buf\<close>; their number is the result of the C function.\<close>

definition convert_UTF32_to_UTF8 :: "u64 \<Rightarrow> bytes" where
  "convert_UTF32_to_UTF8 ch =
     (if ch \<le> 0x7F then [ucast ch]
      else if ch \<le> 0x07FF then [ucast (drop_bit 6 ch OR 0xC0), ucast (ch AND 0x3F OR 0x80)]
      else if ch \<le> 0xFFFF then
        [ucast (drop_bit 12 ch OR 0xE0), ucast (drop_bit 6 ch AND 0x3F OR 0x80), ucast (ch AND 0x3F OR 0x80)]
      else if ch \<le> 0x1FFFFF then
        [ucast (drop_bit 18 ch OR 0xF0), ucast (drop_bit 12 ch AND 0x3F OR 0x80),
         ucast (drop_bit 6 ch AND 0x3F OR 0x80), ucast (ch AND 0x3F OR 0x80)]
      else [0x3F])"

text \<open>
  The escape behind a backslash; \<open>pe\<close> is the offset of the character after it. \<open>EscNil\<close> is the early
  return of \<open>Qnil\<close>, \<open>EscOther\<close> the default case, \<open>Esc\<close> gives the bytes and the offset that \<open>pe\<close> has
  at the end of the switch.
\<close>

datatype escape = EscNil | EscOther | Esc bytes nat

definition surrogate_pair :: "u64 \<Rightarrow> u64 \<Rightarrow> u64" where
  "surrogate_pair ch sur =
     push_bit 10 (ch AND 0x3F) OR push_bit 16 ((drop_bit 6 ch AND 0xF) + 1) OR (sur AND 0x3FF)"

definition read_unicode :: "bytes \<Rightarrow> nat \<Rightarrow> nat \<Rightarrow> escape option" where
  "read_unicode src stringEnd pe =
     (if pe + 4 > stringEnd then Some EscNil
      else do {
        ch \<leftarrow> unescape_unicode src (pe + 1);
        let pe = pe + 4;
        if UNI_SUR_HIGH_START = ch AND 0xFC00 then do {
          let pe = pe + 1;
          if pe + 6 > stringEnd then Some EscNil
          else do {
            c0 \<leftarrow> rd src pe;
            c1 \<leftarrow> rd src (pe + 1);
            if c0 = 0x5C \<and> c1 = 0x75 then do {
              sur \<leftarrow> unescape_unicode src (pe + 2);
              Some (Esc (convert_UTF32_to_UTF8 (surrogate_pair ch sur)) (pe + 5))
            }
            else Some (Esc [0x3F] pe)
          }
        }
        else Some (Esc (convert_UTF32_to_UTF8 ch) pe)
      })"

definition read_escape :: "bytes \<Rightarrow> nat \<Rightarrow> nat \<Rightarrow> escape option" where
  "read_escape src stringEnd pe = do {
     c \<leftarrow> rd src pe;
     if c = 0x6E then Some (Esc [0x0A] pe)
     else if c = 0x72 then Some (Esc [0x0D] pe)
     else if c = 0x74 then Some (Esc [0x09] pe)
     else if c = 0x22 then Some (Esc [0x22] pe)
     else if c = 0x5C then Some (Esc [0x5C] pe)
     else if c = 0x62 then Some (Esc [0x08] pe)
     else if c = 0x66 then Some (Esc [0x0C] pe)
     else if c = 0x75 then read_unicode src stringEnd pe
     else Some EscOther
   }"

lemma read_escape_ge: "read_escape src stringEnd pe = Some (Esc bs q) \<Longrightarrow> pe \<le> q"
  by (auto simp: read_escape_def read_unicode_def Let_def split: if_splits bind_splits)

text \<open>The loop; \<open>None\<close> inside the result is \<open>Qnil\<close>.\<close>

function unescape_loop :: "bytes \<Rightarrow> nat \<Rightarrow> nat \<Rightarrow> nat \<Rightarrow> bytes \<Rightarrow> bytes option option" where
  "unescape_loop src stringEnd p pe result =
     (if pe < stringEnd then do {
        c \<leftarrow> rd src pe;
        if c = 0x5C then do {
          seg \<leftarrow> (if pe > p then slice src p pe else Some []);
          e \<leftarrow> read_escape src stringEnd (pe + 1);
          case e of
            EscNil \<Rightarrow> Some None
          | EscOther \<Rightarrow> unescape_loop src stringEnd (pe + 1) (pe + 1) (result @ seg)
          | Esc bs q \<Rightarrow> unescape_loop src stringEnd (q + 1) (q + 1) (result @ seg @ bs)
        }
        else unescape_loop src stringEnd p (pe + 1) result
      }
      else do {
        seg \<leftarrow> slice src p pe;
        Some (Some (result @ seg))
      })"
  by pat_completeness auto
termination
  by (relation "measure (\<lambda>(src, stringEnd, p, pe, result). stringEnd - pe)") (auto dest!: read_escape_ge)

declare unescape_loop.simps [simp del]

definition json_string_unescape :: "bytes \<Rightarrow> bytes \<Rightarrow> nat \<Rightarrow> nat \<Rightarrow> bytes option option" where
  "json_string_unescape result src string stringEnd = unescape_loop src stringEnd string string result"

section \<open>Memory safety\<close>

lemma rd_defined: "i \<le> length src \<Longrightarrow> \<exists>c. rd src i = Some c"
  by (simp add: rd_Some_iff)

lemma digit_value_defined: "i \<le> length src \<Longrightarrow> \<exists>d. digit_value src i = Some d"
proof -
  assume "i \<le> length src"
  then obtain c where c: "rd src i = Some c" using rd_defined by blast
  have "unat c < length digit_values" by (simp add: digit_values_def)
  with c show ?thesis by (auto simp: digit_value_def vec_at_Some)
qed

lemma unescape_unicode_defined: "p + 3 \<le> length src \<Longrightarrow> \<exists>ch. unescape_unicode src p = Some ch"
  using digit_value_defined [of p src] digit_value_defined [of "p + 1" src] digit_value_defined [of "p + 2" src]
    digit_value_defined [of "p + 3" src]
  by (auto simp: unescape_unicode_def Let_def)

lemma read_escape_defined:
  assumes "pe \<le> e" "e < length src"
  shows "\<exists>r. read_escape src e pe = Some r \<and> (\<forall>bs q. r = Esc bs q \<longrightarrow> q \<le> e)"
proof -
  have rd: "\<exists>c. rd src i = Some c" if "i \<le> e" for i using rd_defined assms(2) that by simp
  have u: "\<exists>ch. unescape_unicode src i = Some ch" if "i + 3 \<le> e" for i
    using unescape_unicode_defined assms(2) that by simp
  obtain c where c: "rd src pe = Some c" using rd assms(1) by blast
  have "\<exists>r. read_unicode src e pe = Some r \<and> (\<forall>bs q. r = Esc bs q \<longrightarrow> q \<le> e)"
  proof (cases "pe + 4 > e")
    case False
    then obtain ch where ch: "unescape_unicode src (pe + 1) = Some ch" using u [of "pe + 1"] by auto
    show ?thesis
    proof (cases "UNI_SUR_HIGH_START = ch AND 0xFC00 \<and> pe + 11 \<le> e")
      case True
      then obtain c0 c1 sur where "rd src (pe + 5) = Some c0" "rd src (pe + 6) = Some c1" "unescape_unicode src (pe + 7) = Some sur"
        using rd [of "pe + 5"] rd [of "pe + 6"] u [of "pe + 7"] by auto
      with True ch show ?thesis by (simp add: read_unicode_def Let_def add.commute add.left_commute)
    qed (use False ch in \<open>auto simp: read_unicode_def Let_def\<close>)
  qed (simp add: read_unicode_def)
  with c assms(1) show ?thesis by (auto simp: read_escape_def)
qed

lemma unescape_loop_defined:
  "p \<le> pe \<Longrightarrow> pe \<le> e + 1 \<Longrightarrow> e < length src \<Longrightarrow> \<exists>r. unescape_loop src e p pe result = Some r"
proof (induction src e p pe result rule: unescape_loop.induct)
  case (1 src e p pe result)
  show ?case
  proof (cases "pe < e")
    case True
    then obtain c where c: "rd src pe = Some c" using rd_defined 1(6) by (metis less_imp_le less_trans)
    obtain r where r: "read_escape src e (pe + 1) = Some r" "\<forall>bs q. r = Esc bs q \<longrightarrow> q \<le> e"
      using read_escape_defined [of "pe + 1" e src] True 1(6) by auto
    have seg: "\<exists>seg. (if pe > p then slice src p pe else Some []) = Some seg" using True 1(4,6) by (simp add: slice_def)
    then obtain seg where seg: "(if pe > p then slice src p pe else Some []) = Some seg" by blast
    show ?thesis
    proof (cases "c = 0x5C")
      case True
      with c r seg \<open>pe < e\<close> 1(1,2) [OF \<open>pe < e\<close> c True seg r(1)] 1(6) show ?thesis
        by (subst unescape_loop.simps) (auto split: escape.splits)
    next
      case False
      with c \<open>pe < e\<close> 1(3) [OF \<open>pe < e\<close> c False] 1(4,6) show ?thesis
        by (subst unescape_loop.simps) simp
    qed
  next
    case False
    with 1(4-6) show ?thesis by (subst unescape_loop.simps) (simp add: slice_def)
  qed
qed

lemma unescape_defined:
  "s \<le> e \<Longrightarrow> e < length src \<Longrightarrow> \<exists>r. json_string_unescape result src s e = Some r"
  by (simp add: json_string_unescape_def unescape_loop_defined)

text \<open>Nothing behind the byte at the end offset is read: two sources that agree up to it give the same.\<close>

definition agree_to :: "nat \<Rightarrow> bytes \<Rightarrow> bytes \<Rightarrow> bool" where
  "agree_to e src src' \<longleftrightarrow> e < length src \<and> e < length src' \<and> take (Suc e) src = take (Suc e) src'"

lemma rd_agree:
  assumes "agree_to e src src'" "i \<le> e"
  shows "rd src i = rd src' i"
proof -
  have "src ! i = take (Suc e) src ! i" "src' ! i = take (Suc e) src' ! i" using assms(2) by simp_all
  then have "src ! i = src' ! i" using assms(1) unfolding agree_to_def by metis
  then show ?thesis using assms by (simp add: agree_to_def rd_def)
qed

lemma slice_agree:
  assumes "agree_to e src src'" "q \<le> Suc e"
  shows "slice src p q = slice src' p q"
proof -
  have "take q (take (Suc e) src) = take q (take (Suc e) src')" using assms(1) by (simp add: agree_to_def)
  then have "take q src = take q src'" using assms(2) by (simp add: min_absorb1)
  then have "drop p (take q src) = drop p (take q src')" by (rule arg_cong)
  with assms show ?thesis by (auto simp: agree_to_def slice_def drop_take)
qed

lemma unescape_unicode_agree:
  assumes "agree_to e src src'" "p + 3 \<le> e"
  shows "unescape_unicode src p = unescape_unicode src' p"
  using assms(2) by (simp add: unescape_unicode_def digit_value_def rd_agree [OF assms(1)] cong: if_cong)

lemma read_escape_agree:
  assumes "agree_to e src src'" "pe \<le> e"
  shows "read_escape src e pe = read_escape src' e pe"
proof -
  have u: "unescape_unicode src i = unescape_unicode src' i" if "i + 3 \<le> e" for i
    by (rule unescape_unicode_agree [OF assms(1) that])
  have "read_unicode src e pe = read_unicode src' e pe"
  proof (cases "pe + 4 > e")
    case False
    then obtain ch where ch: "unescape_unicode src (pe + 1) = Some ch" "unescape_unicode src' (pe + 1) = Some ch"
      using unescape_unicode_defined [of "pe + 1" src] u [of "pe + 1"] assms by (auto simp: agree_to_def)
    show ?thesis
    proof (cases "pe + 4 + 1 + 6 > e")
      case True
      with ch False show ?thesis by (simp add: read_unicode_def Let_def)
    next
      case short: False
      with u [of "pe + 4 + 1 + 2"] rd_agree [OF assms(1), of "pe + 4 + 1"] rd_agree [OF assms(1), of "pe + 4 + 1 + 1"]
      show ?thesis unfolding read_unicode_def Let_def ch by (simp cong: if_cong)
    qed
  qed (simp add: read_unicode_def)
  then show ?thesis unfolding read_escape_def rd_agree [OF assms] by (simp only:)
qed

lemma unescape_loop_agree:
  "p \<le> pe \<Longrightarrow> pe \<le> e + 1 \<Longrightarrow> agree_to e src src' \<Longrightarrow> unescape_loop src e p pe result = unescape_loop src' e p pe result"
proof (induction src e p pe result rule: unescape_loop.induct)
  case (1 src e p pe result)
  show ?case
  proof (cases "pe < e")
    case True
    have len: "e < length src" using 1(6) by (simp add: agree_to_def)
    obtain c where c: "rd src pe = Some c" using rd_defined True len by (metis less_imp_le less_trans)
    obtain r where r: "read_escape src e (pe + 1) = Some r" "\<forall>bs q. r = Esc bs q \<longrightarrow> q \<le> e"
      using read_escape_defined [of "pe + 1" e src] True len by auto
    have "\<exists>seg. (if pe > p then slice src p pe else Some []) = Some seg" using True 1(4) len by (simp add: slice_def)
    then obtain seg where seg: "(if pe > p then slice src p pe else Some []) = Some seg" by blast
    have "slice src' p pe = slice src p pe" using slice_agree [OF 1(6), of pe p] True by simp
    with seg have "(if pe > p then slice src' p pe else Some []) = Some seg" by (simp only:)
    moreover have "rd src' pe = Some c" "read_escape src' e (pe + 1) = Some r"
      using rd_agree [OF 1(6), of pe] read_escape_agree [OF 1(6), of "pe + 1"] True c r by simp_all
    ultimately have other: "rd src' pe = Some c" "read_escape src' e (pe + 1) = Some r"
      "(if pe > p then slice src' p pe else Some []) = Some seg" by simp_all
    show ?thesis
    proof (cases "c = 0x5C")
      case True
      with c r seg other \<open>pe < e\<close> 1(1,2) [OF \<open>pe < e\<close> c True seg r(1)] 1(6) show ?thesis
        by (subst (1 2) unescape_loop.simps) (auto split: escape.splits)
    next
      case False
      with c other \<open>pe < e\<close> 1(3) [OF \<open>pe < e\<close> c False] 1(4,6) show ?thesis
        by (subst (1 2) unescape_loop.simps) simp
    qed
  next
    case False
    with slice_agree [OF 1(6), of pe p] 1(5) show ?thesis by (subst (1 2) unescape_loop.simps) simp
  qed
qed

lemma unescape_agree: "s \<le> e \<Longrightarrow> agree_to e src src' \<Longrightarrow> json_string_unescape result src s e = json_string_unescape result src' s e"
  by (simp add: json_string_unescape_def unescape_loop_agree)

section \<open>Characters\<close>

lemma or_add: "n < 2 ^ k \<Longrightarrow> n OR (m * 2 ^ k) = n + m * 2 ^ k" for n m :: nat
proof -
  assume n: "n < 2 ^ k"
  have "\<not> bit n i \<or> \<not> bit (m * 2 ^ k) i" for i
  proof (cases "i < k")
    case True
    then have "\<not> bit (push_bit k m) i" by (simp add: bit_push_bit_iff_nat)
    then show ?thesis by (simp add: push_bit_eq_mult)
  next
    case False
    then have "take_bit k n = n \<Longrightarrow> \<not> bit n i" by (metis bit_take_bit_iff)
    with n show ?thesis by (simp add: take_bit_nat_eq_self)
  qed
  then show ?thesis using disjunctive_add [of n "m * 2 ^ k"] by simp
qed

lemma digit_of_hex: "k < 16 \<Longrightarrow> vec_at digit_values (unat (hexdigits ! k)) = Some (int k)"
proof -
  have "list_all (\<lambda>k. vec_at digit_values (unat (hexdigits ! k)) = Some (int k)) [0..<16]" by code_simp
  then show "k < 16 \<Longrightarrow> ?thesis" by (simp add: list_all_iff)
qed

lemma unat_small: "n < 2 ^ 64 \<Longrightarrow> unat (of_nat n :: u64) = n"
  by (simp add: unat_of_nat take_bit_nat_eq_self_iff)

lemma word_of_unat: "unat w = n \<Longrightarrow> w = of_nat n"
  by auto

lemma unat_push: "m * 2 ^ k < 2 ^ 64 \<Longrightarrow> unat (push_bit k (of_nat m :: u64)) = m * 2 ^ k"
  using unat_small [of "m * 2 ^ k"] by (simp add: push_bit_eq_mult)

lemma shift_in_of_nat: "m < 2 ^ 12 \<Longrightarrow> k < 16 \<Longrightarrow> shift_in (of_nat m) (int k) = of_nat (16 * m + k)"
proof -
  assume m: "m < 2 ^ 12" "k < 16"
  have "unat (shift_in (of_nat m) (int k)) = (m * 2 ^ 4) OR k"
    using m unat_push [of m 4] by (simp only: shift_in_def unsigned_or_eq) (simp add: unat_small)
  also have "\<dots> = 16 * m + k" using or_add [of k 4 m] m by (simp add: or.commute)
  finally have "unat (shift_in (of_nat m) (int k)) = unat (of_nat (16 * m + k) :: u64)"
    using m by (simp only: unat_small) (simp add: unat_small del: of_nat_add of_nat_mult)
  then show ?thesis by (simp only: word_unat_eq_iff)
qed

definition text_at :: "bytes \<Rightarrow> nat \<Rightarrow> bytes \<Rightarrow> bool" where
  "text_at src p bs \<longleftrightarrow> p + length bs \<le> length src \<and> take (length bs) (drop p src) = bs"

lemma text_at_Nil [simp]: "text_at src p [] \<longleftrightarrow> p \<le> length src"
  by (simp add: text_at_def)

lemma text_at_Cons: "text_at src p (b # bs) \<longleftrightarrow> rd src p = Some b \<and> p < length src \<and> text_at src (p + 1) bs"
proof (cases "p < length src")
  case True
  then have "drop p src = src ! p # drop (p + 1) src" by (simp add: Cons_nth_drop_Suc)
  with True show ?thesis by (auto simp: text_at_def rd_def)
qed (simp add: text_at_def)

lemma text_at_append: "text_at src p (as @ bs) \<longleftrightarrow> text_at src p as \<and> text_at src (p + length as) bs"
proof (induction as arbitrary: p)
  case Nil
  show ?case by (auto simp: text_at_def)
next
  case (Cons a as)
  then show ?case by (auto simp: text_at_Cons)
qed

lemma text_at_slice: "text_at src p bs \<Longrightarrow> slice src p (p + length bs) = Some bs"
  by (simp add: text_at_def slice_def)

lemma unescape_hex4:
  assumes "n < 0x10000" "text_at src p (hex4 n)"
  shows "unescape_unicode src p = Some (of_nat n)"
proof -
  have n: "n div 4096 < 16" using assms(1) by (simp add: div_less_iff_less_mult)
  have d: "digit_value src p = Some (int (n div 4096))" "digit_value src (p + 1) = Some (int (n div 256 mod 16))"
    "digit_value src (p + 2) = Some (int (n div 16 mod 16))" "digit_value src (p + 3) = Some (int (n mod 16))"
    using assms(2) n by (simp_all add: hex4_def text_at_Cons digit_value_def digit_of_hex numeral_3_eq_3)
  have e: "n div 256 = 16 * (n div 4096) + n div 256 mod 16" "n div 16 = 16 * (n div 256) + n div 16 mod 16"
    "n = 16 * (n div 16) + n mod 16" using div_mult_mod_eq [of "n div 256" 16] div_mult_mod_eq [of "n div 16" 16]
    by (simp_all add: div_mult2_eq [symmetric])
  have s: "shift_in 0 (int (n div 4096)) = of_nat (n div 4096)"
      "shift_in (of_nat (n div 4096)) (int (n div 256 mod 16)) = of_nat (n div 256)"
      "shift_in (of_nat (n div 256)) (int (n div 16 mod 16)) = of_nat (n div 16)"
      "shift_in (of_nat (n div 16)) (int (n mod 16)) = of_nat n"
    using shift_in_of_nat [of 0 "n div 4096"] shift_in_of_nat [of "n div 4096" "n div 256 mod 16"]
      shift_in_of_nat [of "n div 256" "n div 16 mod 16"] shift_in_of_nat [of "n div 16" "n mod 16"] n e assms(1)
    by (simp_all add: div_less_iff_less_mult del: of_nat_add of_nat_mult)
  show ?thesis unfolding unescape_unicode_def Let_def d bind.bind_lunit s by (simp add: s)
qed


text \<open>The bytes of a character.\<close>

lemma unat_drop: "unat (drop_bit k w) = unat w div 2 ^ k" for w :: u64
  by (simp add: unat_drop_bit_eq) (simp add: drop_bit_eq_div)

lemma unat_and_mask: "unat (w AND 0x3F) = unat w mod 64" "unat (w AND 0xF) = unat w mod 16"
  "unat (w AND 0x3FF) = unat w mod 1024" for w :: u64
  using take_bit_eq_mask [of 6 w] unat_mod [of w 64] take_bit_eq_mask [of 4 w] unat_mod [of w 16]
    take_bit_eq_mask [of 10 w] unat_mod [of w 1024]
  by (simp_all add: mask_eq_exp_minus_1 take_bit_eq_mod)

lemma or_prefix:
  "n < 64 \<Longrightarrow> n OR 0x80 = 0x80 + n" "n < 32 \<Longrightarrow> n OR 0xC0 = 0xC0 + n" "n < 16 \<Longrightarrow> n OR 0xE0 = 0xE0 + n"
  "n < 8 \<Longrightarrow> n OR 0xF0 = 0xF0 + n" for n :: nat
  using or_add [of n 6 2] or_add [of n 5 6] or_add [of n 4 14] or_add [of n 3 30] by simp_all

lemma convert_encode:
  assumes "cp \<le> 0x10FFFF"
  shows "convert_UTF32_to_UTF8 (of_nat cp) = encode cp"
proof -
  have u: "unat (of_nat cp :: u64) = cp" using assms by (simp add: unat_small)
  have le: "(of_nat cp :: u64) \<le> w \<longleftrightarrow> cp \<le> unat w" for w by (simp add: word_le_nat_alt u)
  have d: "cp < 0x800 \<Longrightarrow> cp div 64 < 32" "cp < 0x10000 \<Longrightarrow> cp div 4096 < 16" "cp div 262144 < 8"
    using assms by (simp_all add: div_less_iff_less_mult)
  have u8: "ucast w = (of_nat (unat w) :: u8)" for w :: u64 by (simp add: word_unat_eq_iff unsigned_ucast_eq unat_of_nat take_bit_eq_mod)
  show ?thesis
    using assms d
    by (simp only: convert_UTF32_to_UTF8_def le u8 unsigned_or_eq unat_drop unat_and_mask u)
      (simp add: encode_def encode_nat_def or_prefix less_Suc_eq_le del: of_nat_add)
qed

lemma surrogate_pair_eq:
  assumes "hi < 1024" "lo < 1024"
  shows "surrogate_pair (of_nat (0xD800 + hi)) (of_nat (0xDC00 + lo)) = of_nat (0x10000 + hi * 1024 + lo)"
proof -
  have u: "unat (of_nat (0xD800 + hi) :: u64) = 0xD800 + hi" "unat (of_nat (0xDC00 + lo) :: u64) = 0xDC00 + lo"
    using unat_small [of "0xD800 + hi"] unat_small [of "0xDC00 + lo"] assms by (simp_all del: of_nat_add)
  have "hi div 64 < 16" using assms(1) by (simp add: div_less_iff_less_mult)
  then have "(864 + hi div 64) mod 16 = hi div 64" using mod_mult_self2 [of "hi div 64" 16 54] by (simp add: add.commute)
  moreover have "(0xD800 + hi) div 64 = 864 + hi div 64" using div_mult_self2 [of 64 hi 864] by (simp add: add.commute)
  moreover have "(0xD800 + hi) mod 64 = hi mod 64" using mod_mult_self2 [of hi 64 864] by (simp add: add.commute)
  moreover have "(0xDC00 + lo) mod 1024 = lo" using mod_mult_self2 [of lo 1024 55] assms(2) by (simp add: add.commute)
  ultimately have m: "(0xD800 + hi) mod 64 = hi mod 64" "(0xD800 + hi) div 2 ^ 6 mod 16 = hi div 64"
    "(0xDC00 + lo) mod 1024 = lo"
    by simp_all
  let ?x = "hi mod 64 * 2 ^ 10" and ?y = "(hi div 64 + 1) * 2 ^ 16"
  have "unat (surrogate_pair (of_nat (0xD800 + hi)) (of_nat (0xDC00 + lo))) = (?x OR ?y) OR lo"
  proof -
    have a: "of_nat (0xD800 + hi) AND 0x3F = (of_nat (hi mod 64) :: u64)"
        "(drop_bit 6 (of_nat (0xD800 + hi)) AND 0xF) + 1 = (of_nat (hi div 64 + 1) :: u64)"
    proof -
      have "unat (of_nat (0xD800 + hi) AND 0x3F :: u64) = hi mod 64" by (simp only: unat_and_mask u m)
      then show "of_nat (0xD800 + hi) AND 0x3F = (of_nat (hi mod 64) :: u64)" by (rule word_of_unat)
      have "unat (drop_bit 6 (of_nat (0xD800 + hi) :: u64) AND 0xF) = hi div 64" by (simp only: unat_and_mask unat_drop u m)
      from word_of_unat [OF this] show "(drop_bit 6 (of_nat (0xD800 + hi)) AND 0xF) + 1 = (of_nat (hi div 64 + 1) :: u64)"
        by (simp only: of_nat_add of_nat_1)
    qed
    have "hi div 64 < 16" using assms(1) by (simp add: div_less_iff_less_mult)
    then have "unat (push_bit 10 (of_nat (hi mod 64) :: u64)) = ?x" "unat (push_bit 16 (of_nat (hi div 64 + 1) :: u64)) = ?y"
      using unat_push [of "hi mod 64" 10] unat_push [of "hi div 64 + 1" 16] by simp_all
    then show ?thesis by (simp only: surrogate_pair_def a unsigned_or_eq unat_and_mask u m or.assoc)
  qed
  also have "?x OR ?y = ?x + ?y" using or_add [of ?x 16 "hi div 64 + 1"] by simp
  also have "?x + ?y = (hi mod 64 + (hi div 64 + 1) * 64) * 2 ^ 10"
  proof -
    have "m * 2 ^ 10 + (d + 1) * 2 ^ 16 = (m + (d + 1) * 64) * 2 ^ 10" for m d :: nat by simp
    then show ?thesis .
  qed
  also have "\<dots> OR lo = lo + (hi mod 64 + (hi div 64 + 1) * 64) * 2 ^ 10"
    using or_add [of lo 10 "hi mod 64 + (hi div 64 + 1) * 64"] assms(2) by (simp add: or.commute)
  also have "\<dots> = 0x10000 + hi * 1024 + lo"
  proof -
    have "lo + (m + (d + 1) * 64) * 2 ^ 10 = 0x10000 + hi * 1024 + lo" if "d * 64 + m = hi" for d m
      using that by auto
    then show ?thesis using div_mult_mod_eq by blast
  qed
  finally show ?thesis by (rule word_of_unat)
qed


section \<open>The loop\<close>

text \<open>The pending run from \<open>p\<close> to \<open>pe\<close> can be copied at once.\<close>

lemma slice_Suc: "slice src p pe = Some seg \<Longrightarrow> rd src pe = Some c \<Longrightarrow> pe < length src \<Longrightarrow> slice src p (pe + 1) = Some (seg @ [c])"
  by (auto simp: slice_def rd_def Suc_diff_le take_Suc_conv_app_nth split: if_splits)

lemma slice_self: "p \<le> length src \<Longrightarrow> slice src p p = Some []"
  by (simp add: slice_def)

lemma unescape_flush:
  "slice src p pe = Some seg \<Longrightarrow> e < length src \<Longrightarrow> unescape_loop src e p pe result = unescape_loop src e pe pe (result @ seg)"
proof (induction "e - pe" arbitrary: p pe seg result)
  case 0
  then show ?case by (simp add: unescape_loop.simps slice_def split: if_splits)
next
  case (Suc n)
  then have pe: "pe < e" "pe < length src" "p \<le> pe" by (auto simp: slice_def split: if_splits)
  then obtain c where c: "rd src pe = Some c" using rd_defined by (metis less_imp_le)
  show ?case
  proof (cases "c = 0x5C")
    case True
    from Suc.prems(1) pe(3) have "(if pe > p then slice src p pe else Some []) = Some seg"
      by (auto simp: slice_def split: if_splits)
    with True c pe show ?thesis
      by (subst (1 2) unescape_loop.simps) simp
  next
    case False
    note step = slice_Suc [OF _ c pe(2)]
    have n: "n = e - (pe + 1)" using Suc.hyps(2) by simp
    have "unescape_loop src e p pe result = unescape_loop src e p (pe + 1) result"
      using False c pe by (subst unescape_loop.simps) simp
    also have "\<dots> = unescape_loop src e (pe + 1) (pe + 1) (result @ seg @ [c])"
      by (rule Suc.hyps(1) [OF n step [OF Suc.prems(1)] Suc.prems(2)])
    also have "\<dots> = unescape_loop src e pe (pe + 1) (result @ seg)"
      using Suc.hyps(1) [OF n step [OF slice_self] Suc.prems(2)] pe(2) by simp
    also have "\<dots> = unescape_loop src e pe pe (result @ seg)"
      using False c pe by (subst (2) unescape_loop.simps) simp
    finally show ?thesis .
  qed
qed

lemma unescape_plain:
  "text_at src pe bs \<Longrightarrow> 0x5C \<notin> set bs \<Longrightarrow> pe + length bs \<le> e \<Longrightarrow> e < length src \<Longrightarrow>
     unescape_loop src e pe pe result = unescape_loop src e (pe + length bs) (pe + length bs) (result @ bs)"
proof (induction bs arbitrary: pe result)
  case (Cons b bs)
  from Cons.prems have b: "rd src pe = Some b" "pe < length src" "text_at src (pe + 1) bs" by (auto simp: text_at_Cons)
  have "unescape_loop src e pe pe result = unescape_loop src e pe (pe + 1) result"
    using b Cons.prems by (subst unescape_loop.simps) simp
  also have "\<dots> = unescape_loop src e (pe + 1) (pe + 1) (result @ [b])"
    using unescape_flush [OF slice_Suc [OF slice_self]] b Cons.prems by simp
  also have "\<dots> = unescape_loop src e (pe + 1 + length bs) (pe + 1 + length bs) ((result @ [b]) @ bs)"
    using Cons b by simp
  finally show ?case by simp
qed simp

lemma unescape_step:
  assumes "rd src pe = Some 0x5C" "pe < e" "e < length src" "read_escape src e (pe + 1) = Some (Esc bs q)"
  shows "unescape_loop src e pe pe result = unescape_loop src e (q + 1) (q + 1) (result @ bs)"
  using assms by (subst unescape_loop.simps) simp

lemma and_push: "w AND push_bit k m = push_bit k (drop_bit k w AND m)" for w m :: u64
  by (rule bit_eqI) (auto simp: bit_simps)

lemma is_high:
  assumes "n < 0x10000"
  shows "(of_nat n :: u64) AND 0xFC00 = UNI_SUR_HIGH_START \<longleftrightarrow> 0xD800 \<le> n \<and> n < 0xDC00"
proof -
  have "n div 1024 < 64" using assms by (simp add: div_less_iff_less_mult)
  moreover have "unat (of_nat n :: u64) = n" using assms by (simp add: unat_small)
  ultimately have "unat (drop_bit 10 (of_nat n :: u64) AND 0x3F) = n div 1024" by (simp add: unat_drop unat_and_mask)
  from word_of_unat [OF this] have "(of_nat n :: u64) AND 0xFC00 = push_bit 10 (of_nat (n div 1024))"
    using and_push [of "of_nat n" 10 "0x3F"] by simp
  then have "unat ((of_nat n :: u64) AND 0xFC00) = n div 1024 * 1024"
    using unat_push [of "n div 1024" 10] \<open>n div 1024 < 64\<close> by simp
  then have "(of_nat n :: u64) AND 0xFC00 = UNI_SUR_HIGH_START \<longleftrightarrow> n div 1024 = 54"
    by (simp add: UNI_SUR_HIGH_START_def word_unat_eq_iff)
  then show ?thesis by auto
qed

lemma unescape_u:
  assumes "text_at src pe (u_escape n)" "pe + 6 \<le> e" "e < length src" "n < 0x10000" "n < 0xD800 \<or> 0xDC00 \<le> n"
  shows "unescape_loop src e pe pe result = unescape_loop src e (pe + 6) (pe + 6) (result @ encode n)"
proof -
  have a: "rd src pe = Some 0x5C" "rd src (pe + 1) = Some 0x75" "text_at src (pe + 2) (hex4 n)"
    using assms(1) by (auto simp: u_escape_def text_at_Cons)
  have "(of_nat n :: u64) AND 0xFC00 \<noteq> UNI_SUR_HIGH_START"
    using is_high [OF assms(4)] assms(5) by auto
  moreover have "convert_UTF32_to_UTF8 (of_nat n) = encode n" using assms(4) by (intro convert_encode) simp
  ultimately have "read_escape src e (pe + 1) = Some (Esc (encode n) (pe + 5))"
    using unescape_hex4 [OF assms(4) a(3)] a(2) assms(2)
    by (auto simp: read_escape_def read_unicode_def Let_def)
  from unescape_step [OF a(1) _ assms(3) this] assms(2) show ?thesis by (simp add: add.commute)
qed

lemma unescape_pair:
  assumes "text_at src pe (u_escape (0xD800 + hi) @ u_escape (0xDC00 + lo))" "pe + 12 \<le> e" "e < length src" "hi < 1024" "lo < 1024"
  shows "unescape_loop src e pe pe result = unescape_loop src e (pe + 12) (pe + 12) (result @ encode (0x10000 + hi * 1024 + lo))"
proof -
  have a: "rd src pe = Some 0x5C" "rd src (pe + 1) = Some 0x75" "text_at src (pe + 2) (hex4 (0xD800 + hi))"
    "rd src (pe + 6) = Some 0x5C" "rd src (pe + 7) = Some 0x75" "text_at src (pe + 8) (hex4 (0xDC00 + lo))"
  proof -
    have s: "pe + 2 = Suc (Suc pe)" "pe + 7 = Suc (pe + 6)" "pe + 8 = Suc (Suc (pe + 6))" by simp_all
    have "text_at src pe (u_escape (0xD800 + hi))" "text_at src (pe + 6) (u_escape (0xDC00 + lo))"
      using assms(1) by (simp_all add: text_at_append)
    then show "rd src pe = Some 0x5C" "rd src (pe + 1) = Some 0x75" "text_at src (pe + 2) (hex4 (0xD800 + hi))"
        "rd src (pe + 6) = Some 0x5C" "rd src (pe + 7) = Some 0x75" "text_at src (pe + 8) (hex4 (0xDC00 + lo))"
      unfolding s by (simp_all add: u_escape_def text_at_Cons)
  qed
  have "(of_nat (0xD800 + hi) :: u64) AND 0xFC00 = UNI_SUR_HIGH_START"
    using is_high [of "0xD800 + hi"] assms(4) by simp
  moreover have "convert_UTF32_to_UTF8 (of_nat (0x10000 + hi * 1024 + lo)) = encode (0x10000 + hi * 1024 + lo)"
    using assms(4,5) by (intro convert_encode) simp
  ultimately have "read_escape src e (pe + 1) = Some (Esc (encode (0x10000 + hi * 1024 + lo)) (pe + 11))"
    using unescape_hex4 [OF _ a(3)] unescape_hex4 [OF _ a(6)] a(2,4,5) assms(2,4,5) surrogate_pair_eq [OF assms(4,5)]
    by (auto simp: read_escape_def read_unicode_def Let_def add.commute [of _ pe] simp del: of_nat_add of_nat_mult)
  from unescape_step [OF a(1) _ assms(3) this] assms(2) show ?thesis by (simp add: add.commute)
qed


text \<open>A character, escaped in either way, is read back.\<close>

definition escaped :: "(bytes \<Rightarrow> bytes) \<Rightarrow> nat \<Rightarrow> bool" where
  "escaped esc cp \<longleftrightarrow> (\<forall>src pe e result. text_at src pe (esc (encode cp)) \<longrightarrow> pe + length (esc (encode cp)) \<le> e \<longrightarrow> e < length src \<longrightarrow>
     unescape_loop src e pe pe result =
       unescape_loop src e (pe + length (esc (encode cp))) (pe + length (esc (encode cp))) (result @ encode cp))"

lemma encode_ascii: "cp < 0x80 \<Longrightarrow> encode cp = [of_nat cp]"
  by (simp add: encode_def encode_nat_def)

lemma unescape_short:
  assumes "short_escape cp = Some x" "text_at src pe x" "pe + length x \<le> e" "e < length src"
  shows "unescape_loop src e pe pe result = unescape_loop src e (pe + length x) (pe + length x) (result @ encode cp)"
proof -
  obtain c where x: "x = [0x5C, c]" "c \<noteq> 0x75" "\<And>src' e' pe'. rd src' pe' = Some c \<Longrightarrow> read_escape src' e' pe' = Some (Esc (encode cp) pe')"
    using assms(1) by (auto simp: short_escape_def read_escape_def encode_ascii split: if_splits)
  with assms(2) have "rd src pe = Some 0x5C" "rd src (pe + 1) = Some c" by (simp_all add: text_at_Cons)
  with x assms(3) unescape_step [OF _ _ assms(4)] show ?thesis by (simp add: add.commute)
qed

lemma encode_high: "0x80 \<le> cp \<Longrightarrow> scalar cp \<Longrightarrow> b \<in> set (encode cp) \<Longrightarrow> 0x80 \<le> unat b"
proof -
  assume a: "0x80 \<le> cp" "scalar cp" "b \<in> set (encode cp)"
  then have "unat b \<in> set (encode_nat cp)" using unat_encode [OF a(2)] by (metis image_eqI set_map)
  with a(1) show ?thesis by (auto simp: encode_nat_def split: if_splits)
qed

lemma json_char_escaped:
  assumes "scalar cp"
  shows "escaped json_char cp"
proof (cases "short_escape cp")
  case None
  have c: "code (encode cp) = cp" by (rule code_encode [OF assms])
  show ?thesis
  proof (cases "cp < 0x20")
    case True
    with None c unescape_u [of _ _ cp] show ?thesis by (simp add: escaped_def json_char_def)
  next
    case False
    have "0x5C \<notin> set (encode cp)"
    proof
      assume *: "0x5C \<in> set (encode cp)"
      show False
      proof (cases "cp < 0x80")
        case True
        with * have "unat (of_nat cp :: u8) = 0x5C" by (simp add: encode_ascii)
        with True None show False by (simp add: unat_of_nat take_bit_nat_eq_self_iff short_escape_def)
      qed (use encode_high [OF _ assms *] in simp)
    qed
    with False None c unescape_plain show ?thesis by (simp add: escaped_def json_char_def)
  qed
qed (use unescape_short code_encode [OF assms] in \<open>simp add: escaped_def json_char_def\<close>)

lemma ascii_char_escaped:
  assumes "scalar cp"
  shows "escaped ascii_char_ref cp"
proof (cases "short_escape cp")
  case None
  have c: "code (encode cp) = cp" by (rule code_encode [OF assms])
  consider "0x20 \<le> cp \<and> cp \<le> 0x7F" | "\<not> (0x20 \<le> cp \<and> cp \<le> 0x7F)" "cp \<le> 0xFFFF" | "0xFFFF < cp" by linarith
  then show ?thesis
  proof cases
    case 1
    then have "unat (of_nat cp :: u8) = cp" by (simp add: unat_of_nat take_bit_nat_eq_self_iff)
    with 1 None have "(0x5C :: u8) \<notin> set [of_nat cp]" by (auto simp: short_escape_def)
    with 1 None c unescape_plain [of _ _ "[of_nat cp]"] show ?thesis
      by (simp add: escaped_def ascii_char_ref_def encode_ascii)
  next
    case 2
    with None c assms unescape_u [of _ _ cp] show ?thesis by (auto simp: escaped_def ascii_char_ref_def scalar_def)
  next
    case 3
    then have "(cp - 0x10000) div 1024 < 1024" "0x10000 + (cp - 0x10000) div 1024 * 1024 + (cp - 0x10000) mod 1024 = cp"
      using assms by (auto simp: scalar_def div_less_iff_less_mult)
    with 3 None c unescape_pair [of _ _ "(cp - 0x10000) div 1024" "(cp - 0x10000) mod 1024"] show ?thesis
      by (auto simp: escaped_def ascii_char_ref_def)
  qed
qed (use unescape_short code_encode [OF assms] in \<open>simp add: escaped_def ascii_char_ref_def\<close>)

lemma unescape_escaped:
  assumes "list_all (escaped esc) cps" "text_at src pe (concat (map (\<lambda>cp. esc (encode cp)) cps))"
    "e = pe + length (concat (map (\<lambda>cp. esc (encode cp)) cps))" "e < length src"
  shows "unescape_loop src e pe pe result = Some (Some (result @ utf8 cps))"
  using assms
proof (induction cps arbitrary: pe result)
  case Nil
  then show ?case by (subst unescape_loop.simps) (simp add: slice_def utf8_def)
next
  case (Cons cp cps)
  let ?x = "esc (encode cp)"
  have "unescape_loop src e pe pe result = unescape_loop src e (pe + length ?x) (pe + length ?x) (result @ encode cp)"
    using Cons.prems by (auto simp: escaped_def text_at_append)
  with Cons show ?case by (simp add: text_at_append utf8_def add.assoc)
qed

end
