(* ===== verification/Json_Machines.thy ===== *)
theory Json_Machines
  imports Json_Unescape
begin

text \<open>
  The state machines of the parser (\<open>parser.c\<close>), which Ragel has written as \<open>goto\<close> code. The
  \<open>case\<close> of a state becomes its row in a table: the state to go to, or the action. A character is a
  \<open>signed char\<close>. State 0 is the error state; \<open>Tr k\<close> is the label \<open>trk\<close>, whose action is part of the
  function that runs the machine.

  Left out are the states that no character leads into, because every way into them passes an
  action that leaves the machine: 27 of \<open>JSON_parse_object\<close>, 17 of \<open>JSON_parse_array\<close>, 4 of
  \<open>JSON_parse_integer\<close>, 9 of \<open>JSON_parse_float\<close>, 8 of \<open>JSON_parse_string\<close>, and 29 with the comments
  behind it, 2 to 5, of \<open>JSON_parse_value\<close>.
\<close>

section \<open>Running a machine\<close>

datatype target = St nat | Tr nat

text \<open>
  How a run ends: at the end of the source in a state, in the error state, or at an action. The end
  of the source, \<open>pe\<close>, is the same in every call.
\<close>

datatype stop = Eof nat nat | Fail nat | Act nat nat

function scan :: "(nat \<Rightarrow> int \<Rightarrow> target) \<Rightarrow> bytes \<Rightarrow> nat \<Rightarrow> nat \<Rightarrow> stop option" where
  "scan tab src cs p =
     (if p = length src then Some (Eof cs p)
      else if length src < p then None
      else do {
        b \<leftarrow> rd src p;
        case tab cs (sint b) of
          St n \<Rightarrow> if n = 0 then Some (Fail p) else scan tab src n (p + 1)
        | Tr k \<Rightarrow> Some (Act k p)
      })"
  by pat_completeness auto
termination
  by (relation "measure (\<lambda>(tab, src, cs, p). length src - p)") auto

declare scan.simps [simp del]

section \<open>The tables\<close>

text \<open>The states of \<open>JSON_parse_object\<close>.\<close>

definition object_open :: "nat \<Rightarrow> int \<Rightarrow> target" where
  "object_open s c =
    (if s = 1 then (if c = 123 then St 2
      else St 0)
     else if s = 2 then (if c \<in> {13, 32} then St 2
      else if c = 34 then Tr 2
      else if c = 47 then St 23
      else if c = 125 then Tr 4
      else if 9 \<le> c \<and> c \<le> 10 then St 2
      else St 0)
     else St 0)"

definition object_name_end :: "nat \<Rightarrow> int \<Rightarrow> target" where
  "object_name_end s c =
    (if s = 3 then (if c \<in> {13, 32} then St 3
      else if c = 47 then St 4
      else if c = 58 then St 8
      else if 9 \<le> c \<and> c \<le> 10 then St 3
      else St 0)
     else if s = 4 then (if c = 42 then St 5
      else if c = 47 then St 7
      else St 0)
     else if s = 5 then (if c = 42 then St 6
      else St 5)
     else if s = 6 then (if c = 42 then St 6
      else if c = 47 then St 3
      else St 5)
     else if s = 7 then (if c = 10 then St 3
      else St 7)
     else if s = 8 then (if c \<in> {13, 32} then St 8
      else if c \<in> {34, 45, 73, 78, 91, 102, 110, 116, 123} then Tr 11
      else if c = 47 then St 19
      else if c > 10 then (if 48 \<le> c \<and> c \<le> 57 then Tr 11
        else St 0)
      else if 9 \<le> c then St 8
      else St 0)
     else St 0)"

definition object_value_end :: "nat \<Rightarrow> int \<Rightarrow> target" where
  "object_value_end s c =
    (if s = 9 then (if c \<in> {13, 32} then St 9
      else if c = 44 then St 10
      else if c = 47 then St 15
      else if c = 125 then Tr 4
      else if 9 \<le> c \<and> c \<le> 10 then St 9
      else St 0)
     else if s = 10 then (if c \<in> {13, 32} then St 10
      else if c = 34 then Tr 2
      else if c = 47 then St 11
      else if 9 \<le> c \<and> c \<le> 10 then St 10
      else St 0)
     else if s = 11 then (if c = 42 then St 12
      else if c = 47 then St 14
      else St 0)
     else if s = 12 then (if c = 42 then St 13
      else St 12)
     else if s = 13 then (if c = 42 then St 13
      else if c = 47 then St 10
      else St 12)
     else if s = 14 then (if c = 10 then St 10
      else St 14)
     else if s = 15 then (if c = 42 then St 16
      else if c = 47 then St 18
      else St 0)
     else if s = 16 then (if c = 42 then St 17
      else St 16)
     else if s = 17 then (if c = 42 then St 17
      else if c = 47 then St 9
      else St 16)
     else if s = 18 then (if c = 10 then St 9
      else St 18)
     else St 0)"

definition object_value_comment :: "nat \<Rightarrow> int \<Rightarrow> target" where
  "object_value_comment s c =
    (if s = 19 then (if c = 42 then St 20
      else if c = 47 then St 22
      else St 0)
     else if s = 20 then (if c = 42 then St 21
      else St 20)
     else if s = 21 then (if c = 42 then St 21
      else if c = 47 then St 8
      else St 20)
     else if s = 22 then (if c = 10 then St 8
      else St 22)
     else St 0)"

definition object_open_comment :: "nat \<Rightarrow> int \<Rightarrow> target" where
  "object_open_comment s c =
    (if s = 23 then (if c = 42 then St 24
      else if c = 47 then St 26
      else St 0)
     else if s = 24 then (if c = 42 then St 25
      else St 24)
     else if s = 25 then (if c = 42 then St 25
      else if c = 47 then St 2
      else St 24)
     else if s = 26 then (if c = 10 then St 2
      else St 26)
     else St 0)"

definition object_next :: "nat \<Rightarrow> int \<Rightarrow> target" where
  "object_next s c =
    (if s \<in> {1, 2} then object_open s c
     else if s \<in> {3, 4, 5, 6, 7, 8} then object_name_end s c
     else if s \<in> {9, 10, 11, 12, 13, 14, 15, 16, 17, 18} then object_value_end s c
     else if s \<in> {19, 20, 21, 22} then object_value_comment s c
     else object_open_comment s c)"

text \<open>The states of \<open>JSON_parse_value\<close>.\<close>

definition value_begin :: "nat \<Rightarrow> int \<Rightarrow> target" where
  "value_begin s c =
    (if s = 1 then (if c \<in> {13, 32} then St 1
      else if c = 34 then Tr 2
      else if c = 45 then Tr 3
      else if c = 47 then St 6
      else if c = 73 then St 10
      else if c = 78 then St 17
      else if c = 91 then Tr 7
      else if c = 102 then St 19
      else if c = 110 then St 23
      else if c = 116 then St 26
      else if c = 123 then Tr 11
      else if c > 10 then (if 48 \<le> c \<and> c \<le> 57 then Tr 3
        else St 0)
      else if 9 \<le> c then St 1
      else St 0)
     else St 0)"

definition value_comment :: "nat \<Rightarrow> int \<Rightarrow> target" where
  "value_comment s c =
    (if s = 6 then (if c = 42 then St 7
      else if c = 47 then St 9
      else St 0)
     else if s = 7 then (if c = 42 then St 8
      else St 7)
     else if s = 8 then (if c = 42 then St 8
      else if c = 47 then St 1
      else St 7)
     else if s = 9 then (if c = 10 then St 1
      else St 9)
     else St 0)"

definition value_literal :: "nat \<Rightarrow> int \<Rightarrow> target" where
  "value_literal s c =
    (if s = 10 then (if c = 110 then St 11
      else St 0)
     else if s = 11 then (if c = 102 then St 12
      else St 0)
     else if s = 12 then (if c = 105 then St 13
      else St 0)
     else if s = 13 then (if c = 110 then St 14
      else St 0)
     else if s = 14 then (if c = 105 then St 15
      else St 0)
     else if s = 15 then (if c = 116 then St 16
      else St 0)
     else if s = 16 then (if c = 121 then Tr 25
      else St 0)
     else if s = 17 then (if c = 97 then St 18
      else St 0)
     else if s = 18 then (if c = 78 then Tr 27
      else St 0)
     else if s = 19 then (if c = 97 then St 20
      else St 0)
     else if s = 20 then (if c = 108 then St 21
      else St 0)
     else if s = 21 then (if c = 115 then St 22
      else St 0)
     else if s = 22 then (if c = 101 then Tr 31
      else St 0)
     else if s = 23 then (if c = 117 then St 24
      else St 0)
     else if s = 24 then (if c = 108 then St 25
      else St 0)
     else if s = 25 then (if c = 108 then Tr 34
      else St 0)
     else if s = 26 then (if c = 114 then St 27
      else St 0)
     else if s = 27 then (if c = 117 then St 28
      else St 0)
     else if s = 28 then (if c = 101 then Tr 37
      else St 0)
     else St 0)"

definition value_next :: "nat \<Rightarrow> int \<Rightarrow> target" where
  "value_next s c =
    (if s \<in> {1} then value_begin s c
     else if s \<in> {6, 7, 8, 9} then value_comment s c
     else value_literal s c)"

text \<open>The states of \<open>JSON_parse_integer\<close>.\<close>

definition integer_next :: "nat \<Rightarrow> int \<Rightarrow> target" where
  "integer_next s c =
    (if s = 1 then (if c = 45 then St 2
      else if c = 48 then St 3
      else if 49 \<le> c \<and> c \<le> 57 then St 5
      else St 0)
     else if s = 2 then (if c = 48 then St 3
      else if 49 \<le> c \<and> c \<le> 57 then St 5
      else St 0)
     else if s = 3 then (if 48 \<le> c \<and> c \<le> 57 then St 0
      else Tr 4)
     else if s = 5 then (if 48 \<le> c \<and> c \<le> 57 then St 5
      else Tr 4)
     else St 0)"

text \<open>The states of \<open>JSON_parse_float\<close>.\<close>

definition float_next :: "nat \<Rightarrow> int \<Rightarrow> target" where
  "float_next s c =
    (if s = 1 then (if c = 45 then St 2
      else if c = 48 then St 3
      else if 49 \<le> c \<and> c \<le> 57 then St 7
      else St 0)
     else if s = 2 then (if c = 48 then St 3
      else if 49 \<le> c \<and> c \<le> 57 then St 7
      else St 0)
     else if s = 3 then (if c = 46 then St 4
      else if c \<in> {69, 101} then St 5
      else St 0)
     else if s = 4 then (if 48 \<le> c \<and> c \<le> 57 then St 8
      else St 0)
     else if s = 8 then (if c \<in> {69, 101} then St 5
      else if c > 46 then (if 48 \<le> c \<and> c \<le> 57 then St 8
        else Tr 9)
      else if 45 \<le> c then St 0
      else Tr 9)
     else if s = 5 then (if c \<in> {43, 45} then St 6
      else if 48 \<le> c \<and> c \<le> 57 then St 10
      else St 0)
     else if s = 6 then (if 48 \<le> c \<and> c \<le> 57 then St 10
      else St 0)
     else if s = 10 then (if c \<in> {69, 101} then St 0
      else if c > 46 then (if 48 \<le> c \<and> c \<le> 57 then St 10
        else Tr 9)
      else if 45 \<le> c then St 0
      else Tr 9)
     else if s = 7 then (if c = 46 then St 4
      else if c \<in> {69, 101} then St 5
      else if 48 \<le> c \<and> c \<le> 57 then St 7
      else St 0)
     else St 0)"

text \<open>The states of \<open>JSON_parse_array\<close>.\<close>

definition array_open :: "nat \<Rightarrow> int \<Rightarrow> target" where
  "array_open s c =
    (if s = 1 then (if c = 91 then St 2
      else St 0)
     else if s = 2 then (if c \<in> {13, 32} then St 2
      else if c \<in> {34, 45, 73, 78, 91, 102, 110, 116, 123} then Tr 2
      else if c = 47 then St 13
      else if c = 93 then Tr 4
      else if c > 10 then (if 48 \<le> c \<and> c \<le> 57 then Tr 2
        else St 0)
      else if 9 \<le> c then St 2
      else St 0)
     else St 0)"

definition array_value_end :: "nat \<Rightarrow> int \<Rightarrow> target" where
  "array_value_end s c =
    (if s = 3 then (if c \<in> {13, 32} then St 3
      else if c = 44 then St 4
      else if c = 47 then St 9
      else if c = 93 then Tr 4
      else if 9 \<le> c \<and> c \<le> 10 then St 3
      else St 0)
     else if s = 4 then (if c \<in> {13, 32} then St 4
      else if c \<in> {34, 45, 73, 78, 91, 102, 110, 116, 123} then Tr 2
      else if c = 47 then St 5
      else if c > 10 then (if 48 \<le> c \<and> c \<le> 57 then Tr 2
        else St 0)
      else if 9 \<le> c then St 4
      else St 0)
     else if s = 5 then (if c = 42 then St 6
      else if c = 47 then St 8
      else St 0)
     else if s = 6 then (if c = 42 then St 7
      else St 6)
     else if s = 7 then (if c = 42 then St 7
      else if c = 47 then St 4
      else St 6)
     else if s = 8 then (if c = 10 then St 4
      else St 8)
     else if s = 9 then (if c = 42 then St 10
      else if c = 47 then St 12
      else St 0)
     else if s = 10 then (if c = 42 then St 11
      else St 10)
     else if s = 11 then (if c = 42 then St 11
      else if c = 47 then St 3
      else St 10)
     else if s = 12 then (if c = 10 then St 3
      else St 12)
     else St 0)"

definition array_open_comment :: "nat \<Rightarrow> int \<Rightarrow> target" where
  "array_open_comment s c =
    (if s = 13 then (if c = 42 then St 14
      else if c = 47 then St 16
      else St 0)
     else if s = 14 then (if c = 42 then St 15
      else St 14)
     else if s = 15 then (if c = 42 then St 15
      else if c = 47 then St 2
      else St 14)
     else if s = 16 then (if c = 10 then St 2
      else St 16)
     else St 0)"

definition array_next :: "nat \<Rightarrow> int \<Rightarrow> target" where
  "array_next s c =
    (if s \<in> {1, 2} then array_open s c
     else if s \<in> {3, 4, 5, 6, 7, 8, 9, 10, 11, 12} then array_value_end s c
     else array_open_comment s c)"

text \<open>The states of \<open>JSON_parse_string\<close>.\<close>

definition string_text :: "nat \<Rightarrow> int \<Rightarrow> target" where
  "string_text s c =
    (if s = 1 then (if c = 34 then St 2
      else St 0)
     else if s = 2 then (if c = 34 then Tr 2
      else if c = 92 then St 3
      else if 0 \<le> c \<and> c \<le> 31 then St 0
      else St 2)
     else St 0)"

definition string_escape :: "nat \<Rightarrow> int \<Rightarrow> target" where
  "string_escape s c =
    (if s = 3 then (if c = 117 then St 4
      else if 0 \<le> c \<and> c \<le> 31 then St 0
      else St 2)
     else if s = 4 then (if c < 65 then (if 48 \<le> c \<and> c \<le> 57 then St 5
        else St 0)
      else if c > 70 then (if 97 \<le> c \<and> c \<le> 102 then St 5
        else St 0)
      else St 5)
     else if s = 5 then (if c < 65 then (if 48 \<le> c \<and> c \<le> 57 then St 6
        else St 0)
      else if c > 70 then (if 97 \<le> c \<and> c \<le> 102 then St 6
        else St 0)
      else St 6)
     else if s = 6 then (if c < 65 then (if 48 \<le> c \<and> c \<le> 57 then St 7
        else St 0)
      else if c > 70 then (if 97 \<le> c \<and> c \<le> 102 then St 7
        else St 0)
      else St 7)
     else if s = 7 then (if c < 65 then (if 48 \<le> c \<and> c \<le> 57 then St 2
        else St 0)
      else if c > 70 then (if 97 \<le> c \<and> c \<le> 102 then St 2
        else St 0)
      else St 2)
     else St 0)"

definition string_next :: "nat \<Rightarrow> int \<Rightarrow> target" where
  "string_next s c =
    (if s \<in> {1, 2} then string_text s c
     else string_escape s c)"

text \<open>The states of \<open>cParser_parse\<close>.\<close>

definition document_begin :: "nat \<Rightarrow> int \<Rightarrow> target" where
  "document_begin s c =
    (if s = 1 then (if c \<in> {13, 32} then St 1
      else if c \<in> {34, 45, 73, 78, 91, 102, 110, 116, 123} then Tr 2
      else if c = 47 then St 6
      else if c > 10 then (if 48 \<le> c \<and> c \<le> 57 then Tr 2
        else St 0)
      else if 9 \<le> c then St 1
      else St 0)
     else St 0)"

definition document_end :: "nat \<Rightarrow> int \<Rightarrow> target" where
  "document_end s c =
    (if s = 10 then (if c \<in> {13, 32} then St 10
      else if c = 47 then St 2
      else if 9 \<le> c \<and> c \<le> 10 then St 10
      else St 0)
     else if s = 2 then (if c = 42 then St 3
      else if c = 47 then St 5
      else St 0)
     else if s = 3 then (if c = 42 then St 4
      else St 3)
     else if s = 4 then (if c = 42 then St 4
      else if c = 47 then St 10
      else St 3)
     else if s = 5 then (if c = 10 then St 10
      else St 5)
     else St 0)"

definition document_comment :: "nat \<Rightarrow> int \<Rightarrow> target" where
  "document_comment s c =
    (if s = 6 then (if c = 42 then St 7
      else if c = 47 then St 9
      else St 0)
     else if s = 7 then (if c = 42 then St 8
      else St 7)
     else if s = 8 then (if c = 42 then St 8
      else if c = 47 then St 1
      else St 7)
     else if s = 9 then (if c = 10 then St 1
      else St 9)
     else St 0)"

definition document_next :: "nat \<Rightarrow> int \<Rightarrow> target" where
  "document_next s c =
    (if s \<in> {1} then document_begin s c
     else if s \<in> {10, 2, 3, 4, 5} then document_end s c
     else document_comment s c)"

end
