(* ===== verification/Json_Parser.thy ===== *)
theory Json_Parser
  imports Json_Machines Ruby
begin

text \<open>
  The Ruby class \<open>JSON::Ext::Parser\<close> (\<open>parser.c\<close>, \<open>parser.h\<close>): the functions that run the machines
  and act on them, \<open>initialize\<close>, \<open>parse\<close> and \<open>source\<close>.

  The struct is split in two: what \<open>initialize\<close> sets and parsing only reads, and the fields that
  parsing writes (\<open>work\<close>), which are passed from call to call. A pointer into the source is an
  offset; the end of the source is its length. A null pointer is \<open>None\<close>.

  The functions call each other recursively. The model counts the calls of \<open>JSON_parse_value\<close> that
  are open; the loops of objects and arrays have as many rounds as the source has characters, and
  one. With no call or round left the result is \<open>None\<close>: that this does not happen is a theorem.
\<close>

section \<open>Ruby values and hooks\<close>

text \<open>
  What the parser makes. A float is the text that \<open>rb_cstr_to_dbl\<close> reads. \<open>PObject\<close> is an object of
  a class that Ruby code has chosen.
\<close>

datatype 'o pvalue =
  PNil
| PTrue
| PFalse
| PInt int
| PFloat bytes
| PNaN
| PInfinity
| PMinusInfinity
| PString bytes
| PSymbol bytes
| PArray "'o pvalue list"
| PHash "('o pvalue \<times> 'o pvalue) list"
| PObject 'o

definition truthy :: "'o pvalue \<Rightarrow> bool" where
  "truthy v \<longleftrightarrow> v \<noteq> PNil \<and> v \<noteq> PFalse"

text \<open>
  The Ruby code that may be called: \<open>new\<close> of a class, \<open>[]=\<close> and \<open><<\<close>, which give the receiver as it is
  afterwards, \<open>[]\<close>, \<open>JSON.deep_const_get\<close>, \<open>json_creatable?\<close>, \<open>json_create\<close>, \<open>match\<close>, \<open>JSON.create_id\<close>;
  the interning of a string, which fails for a malformed one; and whether an object is a string by
  its type. Each may raise; none changes the parser.
\<close>

record 'o hooks =
  new_instance :: "'o pvalue \<Rightarrow> rb_error + 'o pvalue"
  call_aset :: "'o pvalue \<Rightarrow> 'o pvalue \<Rightarrow> 'o pvalue \<Rightarrow> rb_error + 'o pvalue"
  call_leftshift :: "'o pvalue \<Rightarrow> 'o pvalue \<Rightarrow> rb_error + 'o pvalue"
  call_aref :: "'o pvalue \<Rightarrow> 'o pvalue \<Rightarrow> rb_error + 'o pvalue"
  deep_const_get :: "'o pvalue \<Rightarrow> rb_error + 'o pvalue"
  json_creatable :: "'o pvalue \<Rightarrow> rb_error + bool"
  json_create :: "'o pvalue \<Rightarrow> 'o pvalue \<Rightarrow> rb_error + 'o pvalue"
  call_match :: "'o pvalue \<Rightarrow> 'o pvalue \<Rightarrow> rb_error + bool"
  str_intern :: "bytes \<Rightarrow> rb_error + 'o pvalue"
  json_create_id :: "rb_error + 'o pvalue"
  is_string :: "'o \<Rightarrow> bool"

definition hash_aref :: "('o pvalue \<times> 'o pvalue) list \<Rightarrow> 'o pvalue \<Rightarrow> 'o pvalue" where
  "hash_aref kvs k = (case map_of kvs k of Some v \<Rightarrow> v | None \<Rightarrow> PNil)"

section \<open>The parser\<close>

record work =
  memo :: nat
  parsing_name :: bool
  num_buffer :: fbuffer

record 'o JSON_Parser =
  Vsource :: "bytes option"
  create_id :: "'o pvalue"
  jp_max_nesting :: int
  jp_allow_nan :: bool
  symbolize_names :: bool
  object_class :: "'o pvalue"
  array_class :: "'o pvalue"
  create_additions :: bool
  match_string :: "'o pvalue"
  jp_work :: work

text \<open>A \<open>ParserError\<close> that shows the source from an offset.\<close>

definition unexpected :: "'s \<Rightarrow> bytes \<Rightarrow> nat \<Rightarrow> nat \<Rightarrow> ('s, 'a) act" where
  "unexpected s src line p =
     (if p \<le> length src then Some (s, Inl (ParserError line (takeWhile (\<lambda>c. c \<noteq> 0) (drop p src)))) else None)"

section \<open>Numbers\<close>

text \<open>The text of a number is copied into the buffer and read from there, up to its NUL.\<close>

fun c_text :: "cells \<Rightarrow> bytes option" where
  "c_text [] = None"
| "c_text (None # cs) = None"
| "c_text (Some c # cs) = (if c = 0 then Some [] else map_option (\<lambda>s. c # s) (c_text cs))"

definition number_text :: "bytes \<Rightarrow> nat \<Rightarrow> work \<Rightarrow> (work \<times> bytes) option" where
  "number_text src p w = do {
     let len = p - memo w;
     let fb = fbuffer_clear (num_buffer w);
     fb \<leftarrow> fbuffer_append fb (map Some (drop (memo w) src)) (of_nat len);
     fb \<leftarrow> fbuffer_append_char fb 0;
     s \<leftarrow> c_text (fb_cells fb);
     Some (w\<lparr>num_buffer := fb\<rparr>, s)
   }"

text \<open>State and offset when the machine is left; the actions of the numbers set their own label as state.\<close>

fun outcome :: "stop \<Rightarrow> nat \<times> nat" where
  "outcome (Eof cs p) = (cs, p)"
| "outcome (Fail p) = (0, p)"
| "outcome (Act k p) = (k, p)"

definition JSON_parse_integer :: "bytes \<Rightarrow> nat \<Rightarrow> work \<Rightarrow> (work, (nat \<times> 'o pvalue) option) act" where
  "JSON_parse_integer src p w = do {
     let w = w\<lparr>memo := p\<rparr>;
     r \<leftarrow> scan integer_next src 1 p;
     let (cs, p) = outcome r;
     if cs \<ge> 3 then do {
       (w, s) \<leftarrow> number_text src p w;
       gives w (Some (p + 1, PInt (read_decimal s)))
     }
     else gives w None
   }"

definition JSON_parse_float :: "bytes \<Rightarrow> nat \<Rightarrow> work \<Rightarrow> (work, (nat \<times> 'o pvalue) option) act" where
  "JSON_parse_float src p w = do {
     let w = w\<lparr>memo := p\<rparr>;
     r \<leftarrow> scan float_next src 1 p;
     let (cs, p) = outcome r;
     if cs \<ge> 8 then do {
       (w, s) \<leftarrow> number_text src p w;
       gives w (Some (p + 1, PFloat s))
     }
     else gives w None
   }"

section \<open>Strings\<close>

text \<open>The entries of \<open>match_string\<close>, up to the first class whose pattern matches.\<close>

fun match_i :: "'o hooks \<Rightarrow> 'o pvalue \<Rightarrow> ('o pvalue \<times> 'o pvalue) list \<Rightarrow> rb_error + 'o pvalue" where
  "match_i hk s [] = Inr PNil"
| "match_i hk s ((regexp, klass) # kvs) =
     (case json_creatable hk klass of
        Inl e \<Rightarrow> Inl e
      | Inr False \<Rightarrow> match_i hk s kvs
      | Inr True \<Rightarrow> (case call_match hk regexp s of
          Inl e \<Rightarrow> Inl e
        | Inr m \<Rightarrow> if m then Inr klass else match_i hk s kvs))"

definition string_matched :: "'o hooks \<Rightarrow> 'o JSON_Parser \<Rightarrow> 'o pvalue \<Rightarrow> 'o pvalue rb" where
  "string_matched hk json result =
     (if create_additions json \<and> truthy (match_string json) then
        (case match_string json of
           PHash kvs \<Rightarrow> and_then (Some (match_i hk result kvs)) (\<lambda>klass.
             if truthy klass then Some (json_create hk klass result) else rb_return result)
         | _ \<Rightarrow> None)
      else rb_return result)"

text \<open>
  Interning, or the call \<open>rb_str_resize\<close> to the length the string has: both are undefined for a
  value that is no string.
\<close>

definition string_finished :: "'o hooks \<Rightarrow> 'o JSON_Parser \<Rightarrow> work \<Rightarrow> 'o pvalue \<Rightarrow> 'o pvalue rb" where
  "string_finished hk json w result =
     (if symbolize_names json \<and> parsing_name w then
        (case result of PString s \<Rightarrow> Some (str_intern hk s) | _ \<Rightarrow> None)
      else
        (case result of
           PString s \<Rightarrow> rb_return result
         | PObject x \<Rightarrow> if is_string hk x then rb_return result else None
         | _ \<Rightarrow> None))"

text \<open>The run of the machine: state, offset and result at its end.\<close>

definition string_run :: "bytes \<Rightarrow> nat \<Rightarrow> work \<Rightarrow> (nat \<times> nat \<times> 'o pvalue) option" where
  "string_run src p w = do {
     r \<leftarrow> scan string_next src 1 p;
     case r of
       Act _ q \<Rightarrow> do {
         s \<leftarrow> json_string_unescape [] src (memo w + 1) q;
         case s of None \<Rightarrow> Some (8, q, PNil) | Some s \<Rightarrow> Some (8, q, PString s)
       }
     | _ \<Rightarrow> Some (fst (outcome r), snd (outcome r), PString [])
   }"

definition JSON_parse_string ::
  "'o hooks \<Rightarrow> 'o JSON_Parser \<Rightarrow> bytes \<Rightarrow> nat \<Rightarrow> work \<Rightarrow> (work, nat option \<times> 'o pvalue) act" where
  "JSON_parse_string hk json src p w = do {
     let w = w\<lparr>memo := p\<rparr>;
     (cs, p, result) \<leftarrow> string_run src p w;
     act_then (stay w (string_matched hk json result)) (\<lambda>w result.
     act_then (stay w (string_finished hk json w result)) (\<lambda>w result.
     gives w (if cs \<ge> 8 then Some (p + 1) else None, result)))
   }"

section \<open>Arrays\<close>

type_synonym 'o parse = "nat \<Rightarrow> int \<Rightarrow> work \<Rightarrow> (work, (nat \<times> 'o pvalue) option) act"

definition too_deep_nesting :: "'o JSON_Parser \<Rightarrow> int \<Rightarrow> bool" where
  "too_deep_nesting json current_nesting \<longleftrightarrow> jp_max_nesting json \<noteq> 0 \<and> current_nesting > jp_max_nesting json"

definition array_push :: "'o hooks \<Rightarrow> 'o JSON_Parser \<Rightarrow> 'o pvalue \<Rightarrow> 'o pvalue \<Rightarrow> 'o pvalue rb" where
  "array_push hk json result v =
     (if array_class json = PNil then
        (case result of PArray vs \<Rightarrow> rb_return (PArray (vs @ [v])) | _ \<Rightarrow> None)
      else Some (call_leftshift hk result v))"

primrec array_loop :: "'o hooks \<Rightarrow> 'o JSON_Parser \<Rightarrow> 'o parse \<Rightarrow> bytes \<Rightarrow> int \<Rightarrow> nat \<Rightarrow>
    nat \<Rightarrow> nat \<Rightarrow> 'o pvalue \<Rightarrow> work \<Rightarrow> (work, nat \<times> 'o pvalue) act" where
  "array_loop hk json pv src current_nesting 0 cs p result w = None"
| "array_loop hk json pv src current_nesting (Suc k) cs p result w = do {
     r \<leftarrow> scan array_next src cs p;
     case r of
       Eof _ p \<Rightarrow> unexpected w src 409 p
     | Fail p \<Rightarrow> unexpected w src 409 p
     | Act a p \<Rightarrow>
         if a = 2 then
           act_then (pv p current_nesting w) (\<lambda>w v.
           case v of
             None \<Rightarrow> unexpected w src 409 p
           | Some (np, v) \<Rightarrow>
               act_then (stay w (array_push hk json result v)) (\<lambda>w result.
               array_loop hk json pv src current_nesting k 3 np result w))
         else gives w (p + 1, result)
   }"

definition JSON_parse_array :: "'o hooks \<Rightarrow> 'o JSON_Parser \<Rightarrow> 'o parse \<Rightarrow> bytes \<Rightarrow> nat \<Rightarrow> int \<Rightarrow> work \<Rightarrow>
    (work, nat \<times> 'o pvalue) act" where
  "JSON_parse_array hk json pv src p current_nesting w =
     (if too_deep_nesting json current_nesting then Some (w, Inl (NestingError current_nesting))
      else
        act_then (stay w (if array_class json = PNil then rb_return (PArray [])
          else Some (new_instance hk (array_class json)))) (\<lambda>w result.
        array_loop hk json pv src current_nesting (Suc (length src)) 1 p result w))"

section \<open>Objects\<close>

definition object_aset :: "'o hooks \<Rightarrow> 'o JSON_Parser \<Rightarrow> 'o pvalue \<Rightarrow> 'o pvalue \<Rightarrow> 'o pvalue \<Rightarrow> 'o pvalue rb" where
  "object_aset hk json result last_name v =
     (if object_class json = PNil then
        (case result of PHash kvs \<Rightarrow> rb_return (PHash (hash_aset kvs last_name v)) | _ \<Rightarrow> None)
      else Some (call_aset hk result last_name v))"

text \<open>The result of the whole function: \<open>None\<close> for the null pointer, and what \<open>*result\<close> holds.\<close>

primrec object_loop :: "'o hooks \<Rightarrow> 'o JSON_Parser \<Rightarrow> 'o parse \<Rightarrow> bytes \<Rightarrow> int \<Rightarrow> nat \<Rightarrow>
    nat \<Rightarrow> nat \<Rightarrow> 'o pvalue \<Rightarrow> 'o pvalue \<Rightarrow> work \<Rightarrow> (work, nat option \<times> 'o pvalue) act" where
  "object_loop hk json pv src current_nesting 0 cs p last_name result w = None"
| "object_loop hk json pv src current_nesting (Suc k) cs p last_name result w = do {
     r \<leftarrow> scan object_next src cs p;
     case r of
       Eof _ _ \<Rightarrow> gives w (None, result)
     | Fail _ \<Rightarrow> gives w (None, result)
     | Act a p \<Rightarrow>
         if a = 2 then
           act_then (JSON_parse_string hk json src p (w\<lparr>parsing_name := True\<rparr>)) (\<lambda>w (np, last_name).
           let w = w\<lparr>parsing_name := False\<rparr> in
           case np of
             None \<Rightarrow> gives w (None, result)
           | Some np \<Rightarrow> object_loop hk json pv src current_nesting k 3 np last_name result w)
         else if a = 11 then
           act_then (pv p current_nesting w) (\<lambda>w v.
           case v of
             None \<Rightarrow> gives w (None, result)
           | Some (np, v) \<Rightarrow>
               act_then (stay w (object_aset hk json result last_name v)) (\<lambda>w result.
               object_loop hk json pv src current_nesting k 9 np last_name result w))
         else gives w (Some p, result)
   }"

text \<open>What is done with an object that is complete.\<close>

definition object_created :: "'o hooks \<Rightarrow> 'o JSON_Parser \<Rightarrow> 'o pvalue \<Rightarrow> 'o pvalue rb" where
  "object_created hk json result =
     (if create_additions json then
        and_then (if object_class json = PNil then
            (case result of PHash kvs \<Rightarrow> rb_return (hash_aref kvs (create_id json)) | _ \<Rightarrow> None)
          else Some (call_aref hk result (create_id json))) (\<lambda>klassname.
        if klassname \<noteq> PNil then
          and_then (Some (deep_const_get hk klassname)) (\<lambda>klass.
          and_then (Some (json_creatable hk klass)) (\<lambda>creatable.
          if creatable then Some (json_create hk klass result) else rb_return result))
        else rb_return result)
      else rb_return result)"

definition JSON_parse_object :: "'o hooks \<Rightarrow> 'o JSON_Parser \<Rightarrow> 'o parse \<Rightarrow> bytes \<Rightarrow> nat \<Rightarrow> int \<Rightarrow> work \<Rightarrow>
    (work, nat option \<times> 'o pvalue) act" where
  "JSON_parse_object hk json pv src p current_nesting w =
     (if too_deep_nesting json current_nesting then Some (w, Inl (NestingError current_nesting))
      else
        act_then (stay w (if object_class json = PNil then rb_return (PHash [])
          else Some (new_instance hk (object_class json)))) (\<lambda>w result.
        act_then (object_loop hk json pv src current_nesting (Suc (length src)) 1 p PNil result w) (\<lambda>w (p, result).
        case p of
          None \<Rightarrow> gives w (None, result)
        | Some p \<Rightarrow>
            act_then (stay w (object_created hk json result)) (\<lambda>w result.
            gives w (Some (p + 1), result)))))"

section \<open>Values\<close>

definition MinusInfinity :: bytes where
  "MinusInfinity = [0x2D, 0x49, 0x6E, 0x66, 0x69, 0x6E, 0x69, 0x74, 0x79]"

text \<open>The action for a number: both parsers are tried, and the offset is where they leave it.\<close>

definition parse_number :: "'o JSON_Parser \<Rightarrow> bytes \<Rightarrow> nat \<Rightarrow> work \<Rightarrow> (work, (nat \<times> 'o pvalue) option) act" where
  "parse_number json src p w =
     (if length src > p + 8 \<and> take 9 (drop p src) = MinusInfinity then
        (if jp_allow_nan json then gives w (Some (p + 9, PMinusInfinity)) else unexpected w src 246 p)
      else
        act_then (JSON_parse_float src p w) (\<lambda>w r.
        let (p, result) = (case r of None \<Rightarrow> (p, PNil) | Some (np, v) \<Rightarrow> (np - 1, v)) in
        act_then (JSON_parse_integer src p w) (\<lambda>w r.
        gives w (Some (case r of None \<Rightarrow> (p, result) | Some (np, v) \<Rightarrow> (np - 1, v))))))"

text \<open>
  Every caller passes a result that is \<open>nil\<close>. When an action returns to the machine it goes to
  state 29, which is left at the next character with the offset of that character.
\<close>

definition value_action ::
  "'o hooks \<Rightarrow> 'o JSON_Parser \<Rightarrow> 'o parse \<Rightarrow> bytes \<Rightarrow> int \<Rightarrow> nat \<Rightarrow> nat \<Rightarrow> work \<Rightarrow> (work, (nat \<times> 'o pvalue) option) act" where
  "value_action hk json pv src current_nesting a p w =
     (if a = 2 then
        act_then (JSON_parse_string hk json src p w) (\<lambda>w (np, result).
        gives w (Some (case np of None \<Rightarrow> (p, result) | Some np \<Rightarrow> (np, result))))
      else if a = 3 then parse_number json src p w
      else if a = 7 then
        act_then (JSON_parse_array hk json pv src p (current_nesting + 1) w) (\<lambda>w r. gives w (Some r))
      else if a = 11 then
        act_then (JSON_parse_object hk json pv src p (current_nesting + 1) w) (\<lambda>w (np, result).
        gives w (Some (case np of None \<Rightarrow> (p, result) | Some np \<Rightarrow> (np, result))))
      else if a = 25 then
        (if jp_allow_nan json then gives w (Some (p + 1, PInfinity))
         else if p < 8 then None else unexpected w src 230 (p - 8))
      else if a = 27 then
        (if jp_allow_nan json then gives w (Some (p + 1, PNaN))
         else if p < 2 then None else unexpected w src 223 (p - 2))
      else if a = 31 then gives w (Some (p + 1, PFalse))
      else if a = 34 then gives w (Some (p + 1, PNil))
      else gives w (Some (p + 1, PTrue)))"

primrec JSON_parse_value :: "'o hooks \<Rightarrow> 'o JSON_Parser \<Rightarrow> bytes \<Rightarrow> nat \<Rightarrow> 'o parse" where
  "JSON_parse_value hk json src 0 p current_nesting w = None"
| "JSON_parse_value hk json src (Suc n) p current_nesting w = do {
     r \<leftarrow> scan value_next src 1 p;
     case r of
       Act a p \<Rightarrow> value_action hk json (JSON_parse_value hk json src n) src current_nesting a p w
     | _ \<Rightarrow> gives w None
   }"

section \<open>Methods\<close>

text \<open>The encoding of a Ruby string; Ruby converts from any other than binary.\<close>

datatype encoding = ASCII_8BIT | Encoding string

definition convert_encoding :: "(string \<Rightarrow> bytes \<Rightarrow> bytes) \<Rightarrow> encoding \<times> bytes \<Rightarrow> bytes" where
  "convert_encoding conv source =
     (case source of (ASCII_8BIT, s) \<Rightarrow> s | (Encoding enc, s) \<Rightarrow> conv enc s)"

definition cJSON_parser_s_allocate :: "'o JSON_Parser" where
  "cJSON_parser_s_allocate = \<lparr>Vsource = None, create_id = PFalse, jp_max_nesting = 0, jp_allow_nan = False,
     symbolize_names = False, object_class = PFalse, array_class = PFalse, create_additions = False,
     match_string = PFalse,
     jp_work = \<lparr>memo = 0, parsing_name = False, num_buffer = fbuffer_alloc 0\<rparr>\<rparr>"

type_synonym 'o popts = "string \<rightharpoonup> 'o pvalue"

text \<open>\<open>Check_Type\<close> for a fixnum and \<open>FIX2INT\<close>.\<close>

definition fix2int :: "'o pvalue \<Rightarrow> rb_error + int" where
  "fix2int v = (case v of
      PInt i \<Rightarrow> if - (2 ^ 62) \<le> i \<and> i < 2 ^ 62 then
          (if - (2 ^ 31) \<le> i \<and> i < 2 ^ 31 then Inr i else Inl (RangeError ''int''))
        else Inl (TypeError ''Integer'')
    | _ \<Rightarrow> Inl (TypeError ''Integer''))"

definition option_max_nesting :: "'o popts \<Rightarrow> 'o JSON_Parser \<Rightarrow> ('o JSON_Parser, unit) act" where
  "option_max_nesting opts json =
     (case opts ''max_nesting'' of
        None \<Rightarrow> gives (json\<lparr>jp_max_nesting := 100\<rparr>) ()
      | Some v \<Rightarrow> if truthy v then checked json (fix2int v) (\<lambda>i. gives (json\<lparr>jp_max_nesting := i\<rparr>) ())
                  else gives (json\<lparr>jp_max_nesting := 0\<rparr>) ())"

definition flag :: "'o popts \<Rightarrow> string \<Rightarrow> bool" where
  "flag opts key = (case opts key of None \<Rightarrow> False | Some v \<Rightarrow> truthy v)"

definition given :: "'o popts \<Rightarrow> string \<Rightarrow> 'o pvalue" where
  "given opts key = (case opts key of None \<Rightarrow> PNil | Some v \<Rightarrow> v)"

definition option_create_id :: "'o hooks \<Rightarrow> 'o popts \<Rightarrow> 'o JSON_Parser \<Rightarrow> ('o JSON_Parser, unit) act" where
  "option_create_id hk opts json =
     (case opts ''create_id'' of
        Some v \<Rightarrow> gives (json\<lparr>create_id := v\<rparr>) ()
      | None \<Rightarrow> checked json (json_create_id hk) (\<lambda>v. gives (json\<lparr>create_id := v\<rparr>) ()))"

definition parser_options :: "'o hooks \<Rightarrow> 'o popts \<Rightarrow> 'o JSON_Parser \<Rightarrow> ('o JSON_Parser, unit) act" where
  "parser_options hk opts json =
     act_then (option_max_nesting opts json) (\<lambda>json _.
     let json = json\<lparr>jp_allow_nan := flag opts ''allow_nan'', symbolize_names := flag opts ''symbolize_names'',
           create_additions := flag opts ''create_additions''\<rparr> in
     if symbolize_names json \<and> create_additions json then
       Some (json, Inl (ArgError ''options :symbolize_names and :create_additions cannot be  used in conjunction''))
     else
       act_then (option_create_id hk opts json) (\<lambda>json _.
       let ms = given opts ''match_string'' in
       gives (json\<lparr>object_class := given opts ''object_class'', array_class := given opts ''array_class'',
         match_string := if truthy ms then ms else PNil\<rparr>) ()))"

definition cParser_initialize :: "'o hooks \<Rightarrow> (string \<Rightarrow> bytes \<Rightarrow> bytes) \<Rightarrow> encoding \<times> bytes \<Rightarrow> 'o popts option \<Rightarrow>
    'o JSON_Parser \<Rightarrow> ('o JSON_Parser, unit) act" where
  "cParser_initialize hk conv source opts json =
     (if Vsource json \<noteq> None then Some (json, Inl (TypeError ''already initialized instance''))
      else
        act_then (case opts of
            Some opts \<Rightarrow> parser_options hk opts json
          | None \<Rightarrow>
              let json = json\<lparr>jp_max_nesting := 100, jp_allow_nan := False, create_additions := True\<rparr> in
              checked json (json_create_id hk) (\<lambda>v.
              gives (json\<lparr>create_id := v, object_class := PNil, array_class := PNil\<rparr>) ())) (\<lambda>json _.
        gives (json\<lparr>Vsource := Some (convert_encoding conv source)\<rparr>) ()))"

text \<open>The machine of the whole text, and its action.\<close>

definition parse_document :: "'o parse \<Rightarrow> bytes \<Rightarrow> work \<Rightarrow> (work, 'o pvalue) act" where
  "parse_document pv src w = do {
     r \<leftarrow> scan document_next src 1 0;
     case r of
       Act _ p \<Rightarrow>
         act_then (pv p 0 w) (\<lambda>w v.
         case v of
           None \<Rightarrow> unexpected w src 743 p
         | Some (np, result) \<Rightarrow> do {
             r \<leftarrow> scan document_next src 10 np;
             let (cs, p) = outcome r;
             if cs \<ge> 10 \<and> p = length src then gives w result else unexpected w src 743 p
           })
     | _ \<Rightarrow> unexpected w src 743 (snd (outcome r))
   }"

definition cParser_parse :: "'o hooks \<Rightarrow> nat \<Rightarrow> 'o JSON_Parser \<Rightarrow> ('o JSON_Parser, 'o pvalue) act" where
  "cParser_parse hk n json =
     (case Vsource json of
        None \<Rightarrow> Some (json, Inl (TypeError ''uninitialized instance''))
      | Some src \<Rightarrow>
          map_option (\<lambda>(w, r). (json\<lparr>jp_work := w\<rparr>, r))
            (parse_document (JSON_parse_value hk json src n) src (jp_work json)))"

definition cParser_source :: "'o JSON_Parser \<Rightarrow> rb_error + bytes" where
  "cParser_source json = (case Vsource json of None \<Rightarrow> Inl (TypeError ''uninitialized instance'') | Some s \<Rightarrow> Inr s)"

text \<open>The memory that a parser reports, given the size of the struct.\<close>

definition JSON_memsize :: "nat \<Rightarrow> 'o JSON_Parser \<Rightarrow> nat" where
  "JSON_memsize sizeof json = sizeof + unat (fb_capa (num_buffer (jp_work json)))"

end
