(* ===== verification/Json_Scan.thy ===== *)
theory Json_Scan
  imports Json_Machines
begin

text \<open>
  What the machines of the parser do: a run stays inside the source and ends, an action is far
  enough behind the start, and the machine of strings accepts the texts of \<open>string_body\<close>. Without an
  escaped surrogate in it, such a text is unescaped to its end.
\<close>

section \<open>Runs of a machine\<close>

lemma scan_stop: "scan tab src cs (length src) = Some (Eof cs (length src))"
  by (simp add: scan.simps)

lemma rd_nth: "p < length src \<Longrightarrow> rd src p = Some (src ! p)"
  by (simp add: rd_def)

lemma scan_step:
  "p < length src \<Longrightarrow> scan tab src cs p = (case tab cs (sint (src ! p)) of
     St n \<Rightarrow> if n = 0 then Some (Fail p) else scan tab src n (p + 1) | Tr k \<Rightarrow> Some (Act k p))"
  by (subst scan.simps) (simp add: rd_nth)

lemma scan_ends:
  "p \<le> length src \<Longrightarrow> \<exists>r. scan tab src cs p = Some r \<and>
     (case r of Eof c q \<Rightarrow> q = length src | Fail q \<Rightarrow> p \<le> q \<and> q < length src | Act k q \<Rightarrow> p \<le> q \<and> q < length src)"
proof (induction "length src - p" arbitrary: cs p)
  case 0
  then show ?case using scan_stop [of tab src cs] by simp
next
  case (Suc n)
  then have p: "p < length src" "n = length src - (p + 1)" by auto
  show ?case
  proof (cases "tab cs (sint (src ! p))")
    case (St m)
    show ?thesis
    proof (cases "m = 0")
      case False
      obtain r where r: "scan tab src m (p + 1) = Some r"
          "case r of Eof c q \<Rightarrow> q = length src | Fail q \<Rightarrow> p + 1 \<le> q \<and> q < length src | Act k q \<Rightarrow> p + 1 \<le> q \<and> q < length src"
        using Suc.hyps(1) [OF p(2)] p(1) by fastforce
      with False St p(1) show ?thesis by (auto simp: scan_step split: stop.splits)
    qed (use St p in \<open>simp add: scan_step\<close>)
  qed (use p in \<open>simp add: scan_step\<close>)
qed

lemma scan_act: "scan tab src cs p = Some (Act k q) \<Longrightarrow> p \<le> q \<and> q < length src"
proof -
  assume a: "scan tab src cs p = Some (Act k q)"
  then have "p \<le> length src" by (subst (asm) scan.simps) (auto split: if_splits)
  from scan_ends [OF this, of tab cs] a show ?thesis by auto
qed

text \<open>An action is at the first character, or behind it.\<close>

lemma scan_act_step:
  assumes "scan tab src cs p = Some (Act k q)"
  obtains (here) "q = p" "p < length src" "tab cs (sint (src ! p)) = Tr k"
  | (later) n where "tab cs (sint (src ! p)) = St n" "n \<noteq> 0" "scan tab src n (p + 1) = Some (Act k q)" "p < length src"
proof -
  have p: "p < length src" using scan_act [OF assms] by simp
  show thesis
    using assms here later p by (auto simp: scan_step split: target.splits if_splits)
qed

lemma scan_same: "(\<And>b. b \<in> set bs \<Longrightarrow> tab cs (sint b) = St cs) \<Longrightarrow> cs \<noteq> 0 \<Longrightarrow> text_at src p bs \<Longrightarrow>
  scan tab src cs p = scan tab src cs (p + length bs)"
proof (induction bs arbitrary: p)
  case (Cons b bs)
  then have "p < length src" "src ! p = b" by (auto simp: text_at_Cons rd_def)
  with Cons show ?case by (simp add: scan_step text_at_Cons)
qed simp

section \<open>Where an action is\<close>

lemmas array_tables = array_next_def array_open_def array_value_end_def array_open_comment_def
lemmas object_tables = object_next_def object_open_def object_name_end_def object_value_end_def
  object_value_comment_def object_open_comment_def

lemma array_act_later:
  assumes "scan array_next src cs p = Some (Act 2 q)" "cs \<in> {1, 3}"
  shows "p < q"
  using assms(1)
proof (cases rule: scan_act_step)
  case here
  then show ?thesis using assms(2) by (auto simp: array_tables split: if_splits)
qed (use scan_act in fastforce)

lemma object_act_later:
  assumes "scan object_next src cs p = Some (Act a q)" "cs \<in> {1, 3}  \<or> cs = 9 \<and> a \<noteq> 4"
  shows "p < q"
  using assms(1)
proof (cases rule: scan_act_step)
  case here
  then show ?thesis using assms(2) by (auto simp: object_tables split: if_splits)
qed (use scan_act in fastforce)

text \<open>
  A lower bound for the way to an action: each character brings the state at most one step closer.
\<close>

locale act_distance =
  fixes tab :: "nat \<Rightarrow> int \<Rightarrow> target"
    and k :: nat
    and d :: "nat \<Rightarrow> nat"
  assumes at_label: "tab s c = Tr k \<Longrightarrow> d s = 0"
    and one_step: "tab s c = St m \<Longrightarrow> m \<noteq> 0 \<Longrightarrow> d s \<le> d m + 1"
begin

lemma act_far: "scan tab src cs p = Some (Act k q) \<Longrightarrow> p + d cs \<le> q"
proof (induction "length src - p" arbitrary: cs p)
  case 0
  then show ?case using scan_act by fastforce
next
  case (Suc n)
  from Suc.prems show ?case
  proof (cases rule: scan_act_step)
    case here
    then show ?thesis by (simp add: at_label)
  next
    case (later m)
    then have "p + 1 + d m \<le> q" using Suc by force
    with one_step [OF later(1,2)] show ?thesis by simp
  qed
qed

end

lemma value_begin_target:
  "value_begin s c = St m \<Longrightarrow> m \<noteq> 0 \<Longrightarrow> m \<in> {1, 6, 10, 17, 19, 23, 26}" "value_begin s c = Tr k \<Longrightarrow> k \<in> {2, 3, 7, 11}"
  by (auto simp: value_begin_def split: if_splits)

lemma value_comment_target:
  "value_comment s c = St m \<Longrightarrow> m \<noteq> 0 \<Longrightarrow> m \<in> {1, 6, 7, 8, 9}" "value_comment s c \<noteq> Tr k"
  by (auto simp: value_comment_def split: if_splits)

lemma value_literal_target:
  "value_literal s c = St m \<Longrightarrow> m \<noteq> 0 \<Longrightarrow> m = s + 1 \<and> s \<in> {10..27}"
  "value_literal s c = Tr k \<Longrightarrow> (s, k) \<in> {(16, 25), (18, 27), (22, 31), (25, 34), (28, 37)}"
  by (auto simp: value_literal_def split: if_splits)

definition to_infinity :: "nat \<Rightarrow> nat" where
  "to_infinity s = (if s \<in> {10..16} then 16 - s else 7)"

definition to_nan :: "nat \<Rightarrow> nat" where
  "to_nan s = (if s \<in> {17, 18} then 18 - s else 2)"

interpretation infinity: act_distance value_next 25 to_infinity
proof
  show "to_infinity s = 0" if "value_next s c = Tr 25" for s c
    using that value_begin_target(2) [of s c 25] value_comment_target(2) [of s c 25] value_literal_target(2) [of s c 25]
    by (auto simp: value_next_def to_infinity_def split: if_splits)
  show "to_infinity s \<le> to_infinity m + 1" if "value_next s c = St m" "m \<noteq> 0" for s c m
    using that value_begin_target(1) [of s c m] value_comment_target(1) [of s c m] value_literal_target(1) [of s c m]
    by (auto simp: value_next_def to_infinity_def split: if_splits)
qed

interpretation nan: act_distance value_next 27 to_nan
proof
  show "to_nan s = 0" if "value_next s c = Tr 27" for s c
    using that value_begin_target(2) [of s c 27] value_comment_target(2) [of s c 27] value_literal_target(2) [of s c 27]
    by (auto simp: value_next_def to_nan_def split: if_splits)
  show "to_nan s \<le> to_nan m + 1" if "value_next s c = St m" "m \<noteq> 0" for s c m
    using that value_begin_target(1) [of s c m] value_comment_target(1) [of s c m] value_literal_target(1) [of s c m]
    by (auto simp: value_next_def to_nan_def split: if_splits)
qed

lemma sint_byte: "sint b = (if unat b < 128 then int (unat b) else int (unat b) - 256)" for b :: u8
proof -
  have b: "0 \<le> uint b" "uint b < 256" using uint_lt2p [of b] by simp_all
  have "bit (uint b) 7 \<longleftrightarrow> 128 \<le> uint b"
  proof -
    have "odd (k div 128) \<longleftrightarrow> 128 \<le> k" if "0 \<le> k" "k < 256" for k :: int
    proof -
      have "k div 128 \<le> 1" "0 \<le> k div 128" "128 \<le> k \<longrightarrow> 1 \<le> k div 128" "k < 128 \<longrightarrow> k div 128 \<le> 0" using that by linarith+
      then have "k div 128 = 0 \<and> k < 128 \<or> k div 128 = 1 \<and> 128 \<le> k" by linarith
      then show ?thesis by auto
    qed
    with b show ?thesis by (simp add: bit_iff_odd)
  qed
  moreover have "take_bit 8 (uint b) = uint b" using b by (simp add: take_bit_int_eq_self_iff)
  ultimately have "sint b = uint b - (if 128 \<le> uint b then 256 else 0)"
    by (simp add: sint_uint signed_take_bit_eq_take_bit_minus)
  moreover have i: "int (unat b) = uint b" by simp
  moreover have "unat b < 128 \<longleftrightarrow> uint b < 128" using i by linarith
  ultimately show ?thesis by auto
qed

lemma sint_eq: "0 \<le> k \<Longrightarrow> k < 128 \<Longrightarrow> sint b = k \<longleftrightarrow> unat b = nat k" for b :: u8
  using nat_lt_256_u8 [of b] by (auto simp only: sint_byte split: if_splits)

lemma infinity_act_first:
  assumes "scan value_next src 1 p = Some (Act 25 q)" "src ! p \<noteq> 0x49"
  shows "p + 8 \<le> q"
  using assms(1)
proof (cases rule: scan_act_step)
  case here
  then show ?thesis using value_begin_target(2) [of 1 "sint (src ! p)" 25] by (simp add: value_next_def)
next
  case (later n)
  have "sint (src ! p) \<noteq> 73" using assms(2) by (simp add: sint_eq word_unat_eq_iff)
  with later(1) have "n \<noteq> 10" by (auto simp: value_next_def value_begin_def split: if_splits)
  moreover have "n \<in> {1, 6, 10, 17, 19, 23, 26}"
    using value_begin_target(1) [of 1 "sint (src ! p)" n] later(1,2) by (simp add: value_next_def)
  ultimately show ?thesis using infinity.act_far [OF later(3)] by (auto simp: to_infinity_def)
qed

section \<open>The text of a string\<close>

text \<open>What the machine accepts between the quotes.\<close>

definition hex_digit :: "u8 \<Rightarrow> bool" where
  "hex_digit b \<longleftrightarrow> 0x30 \<le> unat b \<and> unat b \<le> 0x39 \<or> 0x41 \<le> unat b \<and> unat b \<le> 0x46 \<or> 0x61 \<le> unat b \<and> unat b \<le> 0x66"

inductive string_body :: "bytes \<Rightarrow> nat \<Rightarrow> nat \<Rightarrow> bool" for src :: bytes where
  body_end: "string_body src e e"
| body_plain: "p < length src \<Longrightarrow> src ! p \<noteq> 0x22 \<Longrightarrow> src ! p \<noteq> 0x5C \<Longrightarrow> 0x20 \<le> unat (src ! p) \<Longrightarrow>
    string_body src (p + 1) e \<Longrightarrow> string_body src p e"
| body_short: "p + 1 < length src \<Longrightarrow> src ! p = 0x5C \<Longrightarrow> src ! (p + 1) \<noteq> 0x75 \<Longrightarrow> 0x20 \<le> unat (src ! (p + 1)) \<Longrightarrow>
    string_body src (p + 2) e \<Longrightarrow> string_body src p e"
| body_unicode: "p + 5 < length src \<Longrightarrow> src ! p = 0x5C \<Longrightarrow> src ! (p + 1) = 0x75 \<Longrightarrow>
    hex_digit (src ! (p + 2)) \<Longrightarrow> hex_digit (src ! (p + 3)) \<Longrightarrow> hex_digit (src ! (p + 4)) \<Longrightarrow> hex_digit (src ! (p + 5)) \<Longrightarrow>
    string_body src (p + 6) e \<Longrightarrow> string_body src p e"

lemma string_text_row:
  "string_next 2 (sint b) = (if b = 0x22 then Tr 2 else if b = 0x5C then St 3 else if unat b < 0x20 then St 0 else St 2)"
  for b :: u8
proof -
  have "0 \<le> sint b \<and> sint b \<le> 31 \<longleftrightarrow> unat b < 0x20" using nat_lt_256_u8 [of b] by (auto simp only: sint_byte split: if_splits)
  then show ?thesis by (simp add: string_next_def string_text_def sint_eq word_unat_eq_iff)
qed

lemma string_escape_row:
  "string_next 3 (sint b) = (if b = 0x75 then St 4 else if unat b < 0x20 then St 0 else St 2)" for b :: u8
proof -
  have "0 \<le> sint b \<and> sint b \<le> 31 \<longleftrightarrow> unat b < 0x20" using nat_lt_256_u8 [of b] by (auto simp only: sint_byte split: if_splits)
  then show ?thesis by (simp add: string_next_def string_escape_def sint_eq word_unat_eq_iff)
qed

lemma string_hex_row:
  "s \<in> {4, 5, 6, 7} \<Longrightarrow> string_next s (sint b) = (if hex_digit b then St (if s = 7 then 2 else s + 1) else St 0)" for b :: u8
proof -
  have *: "(if c < 65 then 48 \<le> c \<and> c \<le> 57 else if c > 70 then 97 \<le> c \<and> c \<le> 102 else True) \<longleftrightarrow>
      0x30 \<le> n \<and> n \<le> 0x39 \<or> 0x41 \<le> n \<and> n \<le> 0x46 \<or> 0x61 \<le> n \<and> n \<le> 0x66"
    if "c = (if n < 128 then int n else int n - 256)" "n < 256" for c :: int and n :: nat
    using that by (cases "n < 128") presburger+
  have "(if c < 65 then if 48 \<le> c \<and> c \<le> 57 then A else B else if c > 70 then if 97 \<le> c \<and> c \<le> 102 then A else B else A) =
      (if (if c < 65 then 48 \<le> c \<and> c \<le> 57 else if c > 70 then 97 \<le> c \<and> c \<le> 102 else True) then A else B)"
    for A B :: target and c :: int by simp
  note r = this [of "sint b", unfolded * [OF sint_byte nat_lt_256_u8], folded hex_digit_def]
  assume "s \<in> {4, 5, 6, 7}"
  then consider "s = 4" | "s = 5" | "s = 6" | "s = 7" by blast
  then show ?thesis
    using r [of "St 5" "St 0"] r [of "St 6" "St 0"] r [of "St 7" "St 0"] r [of "St 2" "St 0"]
    by cases (simp_all add: string_next_def string_escape_def)
qed

lemma scan_string_step:
  assumes "scan string_next src 2 p = Some (Act k q)"
  obtains (quote) "k = 2" "q = p" "p < length src" "src ! p = 0x22"
  | (plain) "p < length src" "src ! p \<noteq> 0x22" "src ! p \<noteq> 0x5C" "0x20 \<le> unat (src ! p)"
      "scan string_next src 2 (p + 1) = Some (Act k q)"
  | (escape) "p < length src" "src ! p = 0x5C" "scan string_next src 3 (p + 1) = Some (Act k q)"
proof -
  from scan_act [OF assms] have "p < length src" by simp
  then show thesis
    using assms quote plain escape by (auto simp: scan_step string_text_row split: if_splits)
qed

lemma scan_hex_step:
  assumes "scan string_next src s p = Some (Act k q)" "s \<in> {4, 5, 6, 7}"
  shows "p < length src \<and> hex_digit (src ! p) \<and> scan string_next src (if s = 7 then 2 else s + 1) (p + 1) = Some (Act k q)"
proof -
  from scan_act [OF assms(1)] have p: "p < length src" by simp
  with assms string_hex_row [OF assms(2), of "src ! p"] show ?thesis
    by (auto simp: scan_step split: if_splits)
qed

lemma scan_string_body: "scan string_next src 2 p = Some (Act k q) \<Longrightarrow> k = 2 \<and> q < length src \<and> src ! q = 0x22 \<and> p \<le> q \<and> string_body src p q"
proof (induction "length src - p" arbitrary: p rule: less_induct)
  case less
  from less.prems show ?case
  proof (cases rule: scan_string_step)
    case quote
    then show ?thesis by (simp add: body_end)
  next
    case plain
    with less.hyps [OF _ plain(5)] scan_act [OF less.prems] show ?thesis by (auto intro: body_plain)
  next
    case escape
    then have p1: "p + 1 < length src" using scan_act [OF escape(3)] by simp
    show ?thesis
    proof (cases "src ! (p + 1) = 0x75")
      case True
      then have "string_next 3 (sint (src ! (p + 1))) = St 4" by (subst string_escape_row) simp
      then have "scan string_next src 4 (p + 2) = Some (Act k q)"
        using escape(3) p1 by (simp add: scan_step)
      then have 1: "hex_digit (src ! (p + 2))" "scan string_next src 5 (p + 3) = Some (Act k q)"
        using scan_hex_step [of src 4 "p + 2" k q] by (simp_all add: numeral_3_eq_3)
      then have 2: "hex_digit (src ! (p + 3))" "scan string_next src 6 (p + 4) = Some (Act k q)"
        using scan_hex_step [of src 5 "p + 3" k q] by (simp_all add: eval_nat_numeral)
      then have 3: "hex_digit (src ! (p + 4))" "scan string_next src 7 (p + 5) = Some (Act k q)"
        using scan_hex_step [of src 6 "p + 4" k q] by (simp_all add: eval_nat_numeral)
      then have 4: "hex_digit (src ! (p + 5))" "scan string_next src 2 (p + 6) = Some (Act k q)" "p + 5 < length src"
        using scan_hex_step [of src 7 "p + 5" k q] by (simp_all add: eval_nat_numeral)
      from less.hyps [OF _ 4(2)] p1 1 2 3 4 True escape scan_act [OF less.prems] show ?thesis by (auto intro: body_unicode)
    next
      case False
      then have "0x20 \<le> unat (src ! (p + 1))" "scan string_next src 2 (p + 2) = Some (Act k q)"
        using escape(3) p1 by (auto simp: scan_step string_escape_row split: if_splits)
      with less.hyps [OF _ this(2)] False p1 escape scan_act [OF less.prems] show ?thesis by (auto intro: body_short)
    qed
  qed
qed

lemma body_le: "string_body src p e \<Longrightarrow> p \<le> e"
  by (induction rule: string_body.induct) auto

text \<open>Without an escape of a surrogate, the escapes are read to the end.\<close>

definition no_surrogates :: "bytes \<Rightarrow> bool" where
  "no_surrogates src \<longleftrightarrow> (\<forall>i < length src. src ! i = 0x5C \<and> rd src (i + 1) = Some 0x75 \<longrightarrow>
     rd src (i + 2) \<noteq> Some 0x44 \<and> rd src (i + 2) \<noteq> Some 0x64)"

lemma digit_values_range:
  assumes "n < 256"
  shows "digit_values ! n < 16 \<and> (digit_values ! n = 13 \<longrightarrow> n = 0x44 \<or> n = 0x64)"
proof -
  have "\<forall>d \<in> set digit_values. d < 16" by (simp add: digit_values_def)
  moreover have "length digit_values = 256" by (simp add: digit_values_def)
  moreover have "digit_values ! n = 13 \<Longrightarrow> n = 0x44 \<or> n = 0x64"
    using assms by (auto simp: digit_values_def nth_append nth_Cons' split: if_splits)
  ultimately show ?thesis using assms by (metis nth_mem)
qed

lemma digit_value_some:
  assumes "digit_value src p = Some d"
  shows "d < 16 \<and> (d = 13 \<longrightarrow> rd src p = Some 0x44 \<or> rd src p = Some 0x64)"
proof -
  obtain c where c: "rd src p = Some c" "vec_at digit_values (unat c) = Some d"
    using assms by (auto simp: digit_value_def split: bind_splits)
  then have "d = digit_values ! unat c" by (auto simp: vec_at_def split: if_splits)
  with digit_values_range [of "unat c"] c(1) show ?thesis by (auto simp: word_unat_eq_iff)
qed

lemma unescape_unicode_high:
  assumes "unescape_unicode src p = Some ch" "ch AND 0xFC00 = UNI_SUR_HIGH_START"
  shows "rd src p = Some 0x44 \<or> rd src p = Some 0x64"
proof -
  have r: "UNI_REPLACEMENT_CHAR AND 0xFC00 \<noteq> UNI_SUR_HIGH_START"
    by (simp add: UNI_REPLACEMENT_CHAR_def UNI_SUR_HIGH_START_def)
  then obtain a b c d where d: "digit_value src p = Some a" "digit_value src (p + 1) = Some b"
      "digit_value src (p + 2) = Some c" "digit_value src (p + 3) = Some d" "a \<ge> 0" "b \<ge> 0" "c \<ge> 0" "d \<ge> 0"
      "ch = shift_in (shift_in (shift_in (shift_in 0 a) b) c) d"
    using assms by (auto simp: unescape_unicode_def Let_def split: if_splits bind_splits)
  have lt: "a < 16" "b < 16" "c < 16" "d < 16" using d(1-4) digit_value_some by blast+
  obtain i j k l where n: "a = int i" "b = int j" "c = int k" "d = int l"
    using d(5-8) by (metis nonneg_int_cases)
  with lt have lt': "i < 16" "j < 16" "k < 16" "l < 16" by simp_all
  have "ch = of_nat (16 * (16 * (16 * i + j) + k) + l)"
    using d(9) n lt' shift_in_of_nat [of 0 i] shift_in_of_nat [of i j] shift_in_of_nat [of "16 * i + j" k]
      shift_in_of_nat [of "16 * (16 * i + j) + k" l]
    by (simp del: of_nat_add of_nat_mult)
  with assms(2) is_high [of "16 * (16 * (16 * i + j) + k) + l"] lt'
  have "0xD800 \<le> 16 * (16 * (16 * i + j) + k) + l" "16 * (16 * (16 * i + j) + k) + l < 0xDC00" by auto
  with lt' have "i \<ge> 13 \<and> i \<le> 13" by auto
  with n(1) digit_value_some [OF d(1)] show ?thesis by simp
qed

lemma unescape_calm:
  "string_body src pe e \<Longrightarrow> e < length src \<Longrightarrow> no_surrogates src \<Longrightarrow> p \<le> pe \<Longrightarrow>
     \<exists>s. unescape_loop src e p pe result = Some (Some s)"
proof (induction arbitrary: p result rule: string_body.induct)
  case (body_end e)
  then show ?case by (subst unescape_loop.simps) (simp add: slice_def)
next
  case (body_plain pe e)
  then show ?case using body_le [OF body_plain(5)] by (subst unescape_loop.simps) (simp add: rd_nth)
next
  case (body_short pe e)
  have e: "pe + 2 \<le> e" using body_le [OF body_short(5)] .
  have "\<exists>seg. (if pe > p then slice src p pe else Some []) = Some seg"
    using body_short by (simp add: slice_def)
  then obtain seg where seg: "(if pe > p then slice src p pe else Some []) = Some seg" by blast
  note ih = body_short.IH [OF body_short.prems(1,2)]
  show ?case
  proof (cases "read_escape src e (pe + 1)")
    case None
    then show ?thesis using read_escape_defined [of "pe + 1" e src] e body_short.prems by simp
  next
    case (Some r)
    then consider bs where "r = Esc bs (pe + 1)" | "r = EscOther" "src ! (pe + 1) \<noteq> 0x5C"
      using body_short by (auto simp: read_escape_def rd_nth split: if_splits)
    then show ?thesis
    proof cases
      case 1
      with ih [of "pe + 2" "result @ seg @ bs"] Some seg body_short e show ?thesis
        by (subst unescape_loop.simps) (simp add: rd_nth)
    next
      case 2
      have "unescape_loop src e p pe result = unescape_loop src e (pe + 1) (pe + 1) (result @ seg)"
        using 2 Some seg body_short e by (subst unescape_loop.simps) (simp add: rd_nth)
      also have "\<dots> = unescape_loop src e (pe + 1) (pe + 2) (result @ seg)"
        using 2 body_short e by (subst unescape_loop.simps) (simp add: rd_nth)
      finally show ?thesis using ih [of "pe + 1" "result @ seg"] by simp
    qed
  qed
next
  case (body_unicode pe e)
  have e: "pe + 6 \<le> e" using body_le [OF body_unicode(8)] .
  have "\<exists>seg. (if pe > p then slice src p pe else Some []) = Some seg"
    using body_unicode by (simp add: slice_def)
  then obtain seg where seg: "(if pe > p then slice src p pe else Some []) = Some seg" by blast
  obtain ch where ch: "unescape_unicode src (pe + 2) = Some ch"
    using unescape_unicode_defined [of "pe + 2" src] body_unicode by auto
  have "\<not> (rd src (pe + 2) = Some 0x44 \<or> rd src (pe + 2) = Some 0x64)"
    using body_unicode.prems(2) [unfolded no_surrogates_def, rule_format, of pe] body_unicode.hyps by (simp add: rd_nth)
  with unescape_unicode_high [OF ch] have "ch AND 0xFC00 \<noteq> UNI_SUR_HIGH_START" by blast
  then have "read_escape src e (pe + 1) = Some (Esc (convert_UTF32_to_UTF8 ch) (pe + 5))"
    using ch e body_unicode.hyps by (auto simp: read_escape_def read_unicode_def rd_nth Let_def)
  with seg body_unicode e show ?case
    using body_unicode.IH [OF body_unicode.prems(1,2), of "pe + 6" "result @ seg @ convert_UTF32_to_UTF8 ch"]
    by (subst unescape_loop.simps) (simp add: rd_nth add.commute)
qed

end
