(* ===== verification/Json_Parse_Safe.thy ===== *)
theory Json_Parse_Safe
  imports Json_Parser Json_Scan
begin

text \<open>
  Parsing is defined and ends: no call reads outside the source, and with as many open calls as the
  source has characters the recursion is never cut off. What has to be assumed is what the code
  relies on: no escaped surrogate, no \<open>Infinity\<close> at the very start unless it is allowed, and no
  \<open>match_string\<close>.
\<close>

section \<open>Results that keep the buffer usable\<close>

definition usable :: "work \<Rightarrow> bool" where
  "usable w \<longleftrightarrow> (\<exists>xs. holds (num_buffer w) xs)"

definition returns :: "(work, 'a) act \<Rightarrow> ('a \<Rightarrow> bool) \<Rightarrow> bool" where
  "returns m P \<longleftrightarrow> (\<exists>w r. m = Some (w, r) \<and> usable w \<and> (\<forall>x. r = Inr x \<longrightarrow> P x))"

lemma usable_fields [simp]: "usable (w\<lparr>memo := p\<rparr>) \<longleftrightarrow> usable w" "usable (w\<lparr>parsing_name := b\<rparr>) \<longleftrightarrow> usable w"
  by (simp_all add: usable_def)

lemma returns_gives: "usable w \<Longrightarrow> P x \<Longrightarrow> returns (gives w x) P"
  by (simp add: returns_def gives_def)

lemma returns_unexpected: "usable w \<Longrightarrow> p \<le> length src \<Longrightarrow> returns (unexpected w src line p) P"
  by (simp add: returns_def unexpected_def)

lemma returns_raise: "usable w \<Longrightarrow> returns (Some (w, Inl e)) P"
  by (simp add: returns_def)

lemma returns_then:
  "returns m P \<Longrightarrow> (\<And>w x. usable w \<Longrightarrow> P x \<Longrightarrow> returns (f w x) Q) \<Longrightarrow> returns (act_then m f) Q"
  by (fastforce simp: returns_def act_then_def split: sum.splits)

lemma returns_stay: "usable w \<Longrightarrow> m = Some r \<Longrightarrow> (\<And>x. r = Inr x \<Longrightarrow> P x) \<Longrightarrow> returns (stay w m) P"
  by (auto simp: returns_def stay_def)

lemma returns_mono: "returns m P \<Longrightarrow> (\<And>x. P x \<Longrightarrow> Q x) \<Longrightarrow> returns m Q"
  by (auto simp: returns_def)

section \<open>Numbers\<close>

lemma c_text_prefix: "c_text (map Some (bs @ 0 # rest)) = Some (takeWhile (\<lambda>c. c \<noteq> 0) bs)"
  by (induction bs) auto

lemma c_text_take: "take n cs = map Some (bs @ [0]) \<Longrightarrow> c_text cs = Some (takeWhile (\<lambda>c. c \<noteq> 0) bs)"
proof (induction bs arbitrary: n cs)
  case Nil
  then show ?case by (cases n; cases cs) auto
next
  case (Cons b bs)
  then obtain m ds where "n = Suc m" "cs = Some b # ds" "take m ds = map Some (bs @ [0])" by (cases n; cases cs) auto
  with Cons.IH [of m ds] show ?case by simp
qed

lemma number_text_eq:
  assumes "usable w" "memo w \<le> q" "q \<le> length src" "length src < 2 ^ 62"
  shows "\<exists>w'. number_text src q w = Some (w', takeWhile (\<lambda>c. c \<noteq> 0) (take (q - memo w) (drop (memo w) src))) \<and> usable w' \<and>
    parsing_name w' = parsing_name w"
proof -
  let ?t = "take (q - memo w) (drop (memo w) src)"
  obtain xs where "holds (num_buffer w) xs" using assms(1) by (auto simp: usable_def)
  then have 0: "holds (fbuffer_clear (num_buffer w)) (map Some [])" using holds_clear by simp
  have t: "length ?t = q - memo w" "length ?t < 2 ^ 62" using assms by simp_all
  have s: "map Some (drop (memo w) src) = map Some ?t @ map Some (drop (q - memo w) (drop (memo w) src))"
    by (metis append_take_drop_id map_append)
  have room: "length ([] :: bytes) + length ?t \<le> 2 ^ 63" using t(2) by simp
  obtain f where "fbuffer_append (fbuffer_clear (num_buffer w))
      (map Some ?t @ map Some (drop (q - memo w) (drop (memo w) src))) (of_nat (length ?t)) = Some f"
    "holds f (map Some ([] @ ?t))"
    by (rule append_bytes [OF 0 room])
  then have f: "fbuffer_append (fbuffer_clear (num_buffer w)) (map Some (drop (memo w) src)) (of_nat (q - memo w)) = Some f"
    "holds f (map Some ?t)" by (simp_all only: t(1) append_Nil s [symmetric])
  obtain g where g: "fbuffer_append_char f 0 = Some g" "holds g (map Some (?t @ [0]))"
    using append_char [OF f(2)] t by auto
  have "take (length (?t @ [0])) (fb_cells g) = map Some (?t @ [0])"
    using g(2) by (auto simp: holds_def fb_cells_def split: option.splits)
  from c_text_take [OF this] f(1) g show ?thesis
    by (auto simp: number_text_def Let_def usable_def)
qed


definition number_ok :: "bytes \<Rightarrow> nat \<Rightarrow> (nat \<times> 'o pvalue) option \<Rightarrow> bool" where
  "number_ok src p r \<longleftrightarrow> (case r of None \<Rightarrow> True | Some (np, v) \<Rightarrow> p < np \<and> np \<le> length src + 1)"

lemma scan_outcome:
  assumes "p \<le> length src"
  obtains r where "scan tab src cs p = Some r" "p \<le> snd (outcome r)" "snd (outcome r) \<le> length src"
proof -
  obtain r where "scan tab src cs p = Some r"
    "case r of Eof c q \<Rightarrow> q = length src | Fail q \<Rightarrow> p \<le> q \<and> q < length src | Act k q \<Rightarrow> p \<le> q \<and> q < length src"
    using scan_ends [OF assms] by blast
  with assms that show thesis by (cases r) auto
qed

lemma number_returns:
  assumes "usable w" "p \<le> length src" "length src < 2 ^ 62"
  shows "returns (JSON_parse_integer src p w) (number_ok src p)" "returns (JSON_parse_float src p w) (number_ok src p)"
proof -
  have copy: "\<exists>w' t. number_text src q (w\<lparr>memo := p\<rparr>) = Some (w', t) \<and> usable w'" if "p \<le> q" "q \<le> length src" for q
    using number_text_eq [of "w\<lparr>memo := p\<rparr>" q src] assms that by auto
  obtain r where r: "scan integer_next src 1 p = Some r" "p \<le> snd (outcome r)" "snd (outcome r) \<le> length src"
    using scan_outcome [OF assms(2)] .
  from copy [OF r(2,3)] r assms show "returns (JSON_parse_integer src p w) (number_ok src p)"
    by (cases "outcome r") (auto simp: JSON_parse_integer_def Let_def returns_gives number_ok_def)
  obtain r where r: "scan float_next src 1 p = Some r" "p \<le> snd (outcome r)" "snd (outcome r) \<le> length src"
    using scan_outcome [OF assms(2)] .
  from copy [OF r(2,3)] r assms show "returns (JSON_parse_float src p w) (number_ok src p)"
    by (cases "outcome r") (auto simp: JSON_parse_float_def Let_def returns_gives number_ok_def)
qed

definition value_ok :: "bytes \<Rightarrow> nat \<Rightarrow> (nat \<times> 'o pvalue) option \<Rightarrow> bool" where
  "value_ok src p r \<longleftrightarrow> (case r of None \<Rightarrow> True | Some (np, v) \<Rightarrow> p \<le> np \<and> np \<le> length src)"

lemma parse_number_returns:
  assumes "usable w" "p \<le> length src" "length src < 2 ^ 62"
  shows "returns (parse_number json src p w) (value_ok src p)"
proof -
  have "returns (act_then (JSON_parse_float src p w) (\<lambda>w r.
        let (p, result) = (case r of None \<Rightarrow> (p, PNil) | Some (np, v) \<Rightarrow> (np - 1, v)) in
        act_then (JSON_parse_integer src p w) (\<lambda>w r.
        gives w (Some (case r of None \<Rightarrow> (p, result) | Some (np, v) \<Rightarrow> (np - 1, v)))))) (value_ok src p)"
  proof (rule returns_then [OF number_returns(2) [OF assms]])
    fix w' r
    assume w': "usable w'" and r: "number_ok src p r"
    obtain q x where q: "(case r of None \<Rightarrow> (p, PNil) | Some (np, v) \<Rightarrow> (np - 1, v)) = (q, x)" by fastforce
    with r assms(2) have "p \<le> q" "q \<le> length src" by (auto simp: number_ok_def split: option.splits)
    then have "returns (act_then (JSON_parse_integer src q w') (\<lambda>w r.
        gives w (Some (case r of None \<Rightarrow> (q, x) | Some (np, v) \<Rightarrow> (np - 1, v))))) (value_ok src p)"
      by (intro returns_then [OF number_returns(1) [OF w' _ assms(3)]])
        (auto intro!: returns_gives simp: number_ok_def value_ok_def split: option.splits)
    with q show "returns (let (p, result) = (case r of None \<Rightarrow> (p, PNil) | Some (np, v) \<Rightarrow> (np - 1, v)) in
        act_then (JSON_parse_integer src p w') (\<lambda>w r.
        gives w (Some (case r of None \<Rightarrow> (p, result) | Some (np, v) \<Rightarrow> (np - 1, v))))) (value_ok src p)"
      by simp
  qed
  with assms show ?thesis
    by (auto simp: parse_number_def value_ok_def intro: returns_gives returns_unexpected)
qed

section \<open>Strings\<close>

text \<open>What is assumed of the source and the settings.\<close>

definition calm :: "'o JSON_Parser \<Rightarrow> bytes \<Rightarrow> bool" where
  "calm json src \<longleftrightarrow> no_surrogates src \<and> \<not> truthy (match_string json) \<and> length src < 2 ^ 62"

definition string_ok :: "bytes \<Rightarrow> nat \<Rightarrow> nat option \<times> 'o pvalue \<Rightarrow> bool" where
  "string_ok src p r \<longleftrightarrow> (case fst r of None \<Rightarrow> True | Some np \<Rightarrow> p < np \<and> np \<le> length src)"

lemma scan_state:
  assumes "\<And>s c m. tab s c = St m \<Longrightarrow> m < b"
  shows "scan tab src cs p = Some (Eof c q) \<Longrightarrow> cs < b \<Longrightarrow> c < b"
proof (induction "length src - p" arbitrary: cs p rule: less_induct)
  case less
  from less.prems(1) consider "c = cs" | m where "p < length src" "tab cs (sint (src ! p)) = St m"
      "scan tab src m (p + 1) = Some (Eof c q)"
    by (subst (asm) scan.simps) (auto simp: rd_nth split: if_splits target.splits)
  then show ?case
  proof cases
    case (2 m)
    then show ?thesis using less.hyps [OF _ 2(3)] assms [OF 2(2)] by simp
  qed (use less.prems in simp)
qed

lemma string_target: "string_next s c = St m \<Longrightarrow> m < 8"
  by (auto simp: string_next_def string_text_def string_escape_def split: if_splits)

lemma string_run_returns:
  assumes "calm json src" "p < length src" "memo w = p"
  obtains cs q s where "string_run src p w = Some (cs, q, PString s)" "cs \<ge> 8 \<longrightarrow> p \<le> q \<and> q < length src"
proof -
  obtain r where r: "scan string_next src 1 p = Some r"
    using scan_ends [of p src string_next 1] assms(2) by auto
  show thesis
  proof (cases r)
    case (Act k q)
    then have act: "scan string_next src 1 p = Some (Act k q)" using r by simp
    then obtain n where "scan string_next src n (p + 1) = Some (Act k q)" "n = 2"
      by (cases rule: scan_act_step) (auto simp: string_next_def string_text_def split: if_splits)
    then have q: "q < length src" "p + 1 \<le> q" "string_body src (p + 1) q" using scan_string_body by blast+
    obtain s where "json_string_unescape [] src (p + 1) q = Some (Some s)"
      using unescape_calm [OF q(3,1) _ le_refl, of "[]"] assms(1) by (auto simp: json_string_unescape_def calm_def)
    with r Act assms(3) q that [of 8 q s] show thesis by (simp add: string_run_def)
  next
    case (Eof c q)
    have "c < 8" using scan_state [OF string_target] r Eof by auto
    with r Eof that [of c q "[]"] show thesis by (simp add: string_run_def)
  next
    case (Fail q)
    with r that [of 0 q "[]"] show thesis by (simp add: string_run_def)
  qed
qed

lemma string_returns:
  fixes json :: "'o JSON_Parser"
  assumes "calm json src" "usable w" "p < length src"
  shows "returns (JSON_parse_string hk json src p w) (string_ok src p)"
proof -
  obtain cs q s where run: "string_run src p (w\<lparr>memo := p\<rparr>) = Some (cs, q, PString s :: 'o pvalue)" "cs \<ge> 8 \<longrightarrow> p \<le> q \<and> q < length src"
    using string_run_returns [OF assms(1,3), of "w\<lparr>memo := p\<rparr>"] by auto
  have "string_matched hk json (PString s) = rb_return (PString s)"
    using assms(1) by (simp add: string_matched_def calm_def)
  moreover obtain r where "string_finished hk json (w\<lparr>memo := p\<rparr>) (PString s) = Some r"
    by (cases "symbolize_names json \<and> parsing_name w") (auto simp: string_finished_def rb_return_def)
  ultimately have "JSON_parse_string hk json src p w = act_then (stay (w\<lparr>memo := p\<rparr>) (Some r))
      (\<lambda>w result. gives w (if cs \<ge> 8 then Some (q + 1) else None, result))"
    using run by (simp add: JSON_parse_string_def act_then_def stay_def rb_return_def Let_def)
  then show ?thesis
    using assms(2) run(2)
    by (auto simp: string_ok_def intro!: returns_then [OF returns_stay [where P = "\<lambda>_. True"]] returns_gives)
qed


section \<open>Arrays and objects\<close>

text \<open>What the loops need of the calls of \<open>JSON_parse_value\<close> behind an offset.\<close>

definition parses :: "bytes \<Rightarrow> nat \<Rightarrow> 'o parse \<Rightarrow> bool" where
  "parses src b pv \<longleftrightarrow> (\<forall>p nest w. b \<le> p \<longrightarrow> p < length src \<longrightarrow> usable w \<longrightarrow> returns (pv p nest w) (value_ok src p))"

lemma parsesD: "parses src b pv \<Longrightarrow> b \<le> p \<Longrightarrow> p < length src \<Longrightarrow> usable w \<Longrightarrow> returns (pv p nest w) (value_ok src p)"
  by (simp add: parses_def)

lemma parses_mono: "parses src b pv \<Longrightarrow> b \<le> b' \<Longrightarrow> parses src b' pv"
  by (auto simp: parses_def)

lemma array_loop_returns:
  "cs \<in> {1, 3} \<Longrightarrow> p \<le> length src \<Longrightarrow> length src - p < k \<Longrightarrow> usable w \<Longrightarrow> parses src (p + 1) pv \<Longrightarrow>
     (array_class json = PNil \<longrightarrow> (\<exists>vs. result = PArray vs)) \<Longrightarrow>
     returns (array_loop hk json pv src nest k cs p result w) (\<lambda>r. p < fst r \<and> fst r \<le> length src)"
proof (induction k arbitrary: cs p w result)
  case (Suc k)
  obtain r where r: "scan array_next src cs p = Some r" using scan_ends [OF Suc.prems(2)] by blast
  show ?case
  proof (cases r)
    case (Eof c q)
    with scan_ends [OF Suc.prems(2), of array_next cs] r Suc.prems(4) show ?thesis by (auto intro: returns_unexpected)
  next
    case (Fail q)
    with scan_ends [OF Suc.prems(2), of array_next cs] r Suc.prems(4) show ?thesis by (auto intro: returns_unexpected)
  next
    case (Act a q)
    then have q: "p \<le> q" "q < length src" using r scan_act by blast+
    show ?thesis
    proof (cases "a = 2")
      case True
      then have pq: "p < q" using array_act_later r Act Suc.prems(1) by blast
      have "returns (pv q nest w) (value_ok src q)" using parsesD [OF Suc.prems(5)] pq q(2) Suc.prems(4) by simp
      moreover have "returns (case v of None \<Rightarrow> unexpected w' src 409 q
         | Some (np, v) \<Rightarrow> act_then (stay w' (array_push hk json result v)) (\<lambda>w result.
             array_loop hk json pv src nest k 3 np result w)) (\<lambda>r. p < fst r \<and> fst r \<le> length src)"
        if w': "usable w'" and v: "value_ok src q v" for w' v
      proof (cases v)
        case (Some x)
        then obtain np u where x: "v = Some (np, u)" "q \<le> np" "np \<le> length src" using v by (cases x) (auto simp: value_ok_def)
        then have np: "p < np" "length src - np < k" using pq Suc.prems(3) by auto
        obtain y where y: "array_push hk json result u = Some y" "array_class json = PNil \<longrightarrow> (\<exists>vs. y = Inr (PArray vs))"
          using Suc.prems(6) by (cases "array_class json = PNil") (auto simp: array_push_def rb_return_def)
        have "returns (array_loop hk json pv src nest k 3 np z w'') (\<lambda>r. p < fst r \<and> fst r \<le> length src)"
          if "usable w''" "y = Inr z" for w'' z
          using Suc.IH [of 3 np w'' z] parses_mono [OF Suc.prems(5)] np x y(2) that
          by (auto elim!: returns_mono)
        then show ?thesis using x(1) y(1) w' by (auto intro!: returns_then [OF returns_stay [where P = "\<lambda>z. y = Inr z"]])
      qed (use w' q in \<open>simp add: returns_unexpected\<close>)
      ultimately show ?thesis using r Act True by (auto intro: returns_then)
    qed (use r Act q Suc.prems(4) in \<open>auto intro: returns_gives\<close>)
  qed
qed simp

definition object_ok :: "'o JSON_Parser \<Rightarrow> bytes \<Rightarrow> nat \<Rightarrow> nat option \<times> 'o pvalue \<Rightarrow> bool" where
  "object_ok json src p r \<longleftrightarrow> (case fst r of None \<Rightarrow> True | Some q \<Rightarrow> p \<le> q \<and> q < length src) \<and>
     (object_class json = PNil \<longrightarrow> (\<exists>kvs. snd r = PHash kvs))"

lemma object_ok_mono: "object_ok json src q r \<Longrightarrow> p \<le> q \<Longrightarrow> object_ok json src p r"
  by (auto simp: object_ok_def split: option.splits)

lemma object_loop_returns:
  "cs \<in> {1, 3, 9} \<Longrightarrow> p \<le> length src \<Longrightarrow> length src - p < k \<Longrightarrow> usable w \<Longrightarrow> parses src (p + 1) pv \<Longrightarrow> calm json src \<Longrightarrow>
     (object_class json = PNil \<longrightarrow> (\<exists>kvs. result = PHash kvs)) \<Longrightarrow>
     returns (object_loop hk json pv src nest k cs p name result w) (object_ok json src p)"
proof (induction k arbitrary: cs p name w result)
  case (Suc k)
  obtain r where r: "scan object_next src cs p = Some r" using scan_ends [OF Suc.prems(2)] by blast
  have none: "returns (gives w' (None, result)) (object_ok json src p)" if "usable w'" for w'
    using that Suc.prems(7) by (simp add: returns_gives object_ok_def)
  have again: "returns (object_loop hk json pv src nest k c np n' res w') (object_ok json src p)"
    if "p < np" "np \<le> length src" "c \<in> {3, 9}" "usable w'" "object_class json = PNil \<longrightarrow> (\<exists>kvs. res = PHash kvs)" for c np n' res w'
    using that parses_mono [OF Suc.prems(5)] Suc.prems(3,6) object_ok_mono [of json src np _ p]
    by (intro returns_mono [OF Suc.IH [of c np w' res n']]) auto
  show ?case
  proof (cases r)
    case (Act a q)
    then have q: "p \<le> q" "q < length src" using r scan_act by blast+
    consider "a = 2" | "a = 11" | "a \<noteq> 2 \<and> a \<noteq> 11" by blast
    then show ?thesis
    proof cases
      case 1
      have pq: "p < q" using object_act_later r Act 1 Suc.prems(1) by fastforce
      have "returns (JSON_parse_string hk json src q (w\<lparr>parsing_name := True\<rparr>)) (string_ok src q)"
        using string_returns [OF Suc.prems(6)] Suc.prems(4) q(2) by simp
      then show ?thesis using r Act 1 pq none again Suc.prems(7)
        by (auto intro!: returns_then [of _ "string_ok src q"] simp: string_ok_def Let_def split: option.splits)
    next
      case 2
      have pq: "p < q" using object_act_later r Act 2 Suc.prems(1) by fastforce
      have "returns (pv q nest w) (value_ok src q)" using parsesD [OF Suc.prems(5)] pq q(2) Suc.prems(4) by simp
      moreover have "returns (case v of None \<Rightarrow> gives w' (None, result)
         | Some (np, v) \<Rightarrow> act_then (stay w' (object_aset hk json result name v)) (\<lambda>w result.
             object_loop hk json pv src nest k 9 np name result w)) (object_ok json src p)"
        if w': "usable w'" and v: "value_ok src q v" for w' v
      proof (cases v)
        case (Some x)
        then obtain np u where x: "v = Some (np, u)" "q \<le> np" "np \<le> length src" using v by (cases x) (auto simp: value_ok_def)
        obtain y where y: "object_aset hk json result name u = Some y" "object_class json = PNil \<longrightarrow> (\<exists>kvs. y = Inr (PHash kvs))"
          using Suc.prems(7) by (cases "object_class json = PNil") (auto simp: object_aset_def rb_return_def)
        have "returns (object_loop hk json pv src nest k 9 np name z w'') (object_ok json src p)" if "usable w''" "y = Inr z" for w'' z
          using again [of np 9 w'' z name] x(2,3) pq y(2) that by simp
        then show ?thesis using x(1) y(1) w' by (auto intro!: returns_then [OF returns_stay [where P = "\<lambda>z. y = Inr z"]])
      qed (use w' none in simp)
      ultimately show ?thesis using r Act 2 by (auto intro: returns_then)
    next
      case 3
      then show ?thesis using r Act q Suc.prems(4,7) by (simp add: returns_gives object_ok_def)
    qed
  qed (use r none Suc.prems(4) in simp_all)
qed simp


definition progress :: "bytes \<Rightarrow> nat \<Rightarrow> nat \<times> 'o pvalue \<Rightarrow> bool" where
  "progress src p r \<longleftrightarrow> p < fst r \<and> fst r \<le> length src"

lemma parse_array_returns:
  assumes "p < length src" "parses src (p + 1) pv" "usable w"
  shows "returns (JSON_parse_array hk json pv src p nest w) (progress src p)"
proof -
  have "returns (array_loop hk json pv src nest (Suc (length src)) 1 p x w') (progress src p)"
    if "usable w'" "array_class json = PNil \<longrightarrow> (\<exists>vs. x = PArray vs)" for x w'
    using array_loop_returns [of 1 p src "Suc (length src)" w' pv json x hk nest] assms that
    by (simp add: progress_def [abs_def])
  moreover obtain y where "(if array_class json = PNil then rb_return (PArray []) else Some (new_instance hk (array_class json))) = Some y"
    "array_class json = PNil \<longrightarrow> y = Inr (PArray [])"
    by (cases "array_class json = PNil") (auto simp: rb_return_def)
  ultimately show ?thesis
    using assms(3)
    by (auto simp: JSON_parse_array_def returns_raise intro!: returns_then [OF returns_stay [where P = "\<lambda>z. y = Inr z"]])
qed

lemma object_created_returns:
  "object_class json = PNil \<longrightarrow> (\<exists>kvs. x = PHash kvs) \<Longrightarrow> \<exists>y. object_created hk json x = Some y"
  by (auto simp: object_created_def and_then_def rb_return_def split: sum.splits)

lemma parse_object_returns:
  assumes "p < length src" "parses src (p + 1) pv" "usable w" "calm json src"
  shows "returns (JSON_parse_object hk json pv src p nest w) (string_ok src p)"
proof -
  have loop: "returns (object_loop hk json pv src nest (Suc (length src)) 1 p PNil x w') (object_ok json src p)"
    if "usable w'" "object_class json = PNil \<longrightarrow> (\<exists>kvs. x = PHash kvs)" for x w'
    using object_loop_returns [of 1 p src "Suc (length src)" w' pv json x hk nest PNil] assms that by simp
  have "returns (case q of None \<Rightarrow> gives w' (None, x) | Some p \<Rightarrow> act_then (stay w' (object_created hk json x))
      (\<lambda>w result. gives w (Some (p + 1), result))) (string_ok src p)"
    if w': "usable w'" and ok: "object_ok json src p (q, x)" for q x w'
  proof (cases q)
    case (Some n)
    have "\<exists>y. object_created hk json x = Some y" using ok by (intro object_created_returns) (simp add: object_ok_def)
    then obtain y where "object_created hk json x = Some y" by blast
    with Some w' ok show ?thesis
      by (auto simp: object_ok_def string_ok_def intro!: returns_then [OF returns_stay [where P = "\<lambda>_. True"]] returns_gives)
  qed (use w' in \<open>simp add: returns_gives string_ok_def\<close>)
  then have "returns (act_then (object_loop hk json pv src nest (Suc (length src)) 1 p PNil x w') (\<lambda>w (p, result).
        case p of
          None \<Rightarrow> gives w (None, result)
        | Some p \<Rightarrow> act_then (stay w (object_created hk json result)) (\<lambda>w result. gives w (Some (p + 1), result))))
      (string_ok src p)" if "usable w'" "object_class json = PNil \<longrightarrow> (\<exists>kvs. x = PHash kvs)" for x w'
    by (intro returns_then [OF loop [OF that]]) auto
  moreover obtain y where "(if object_class json = PNil then rb_return (PHash []) else Some (new_instance hk (object_class json))) = Some y"
    "object_class json = PNil \<longrightarrow> y = Inr (PHash [])"
    by (cases "object_class json = PNil") (auto simp: rb_return_def)
  ultimately show ?thesis
    using assms(3)
    by (auto simp: JSON_parse_object_def returns_raise intro!: returns_then [OF returns_stay [where P = "\<lambda>z. y = Inr z"]])
qed

section \<open>Values and documents\<close>

text \<open>The word \<open>Infinity\<close>, where it is not allowed, does not start the source.\<close>

definition infinity_ok :: "'o JSON_Parser \<Rightarrow> bytes \<Rightarrow> nat \<Rightarrow> bool" where
  "infinity_ok json src p \<longleftrightarrow> jp_allow_nan json \<or> p \<noteq> 0 \<or> src ! 0 \<noteq> 0x49"

lemma value_action_returns:
  fixes json :: "'o JSON_Parser"
  assumes "scan value_next src 1 p = Some (Act a q)" "calm json src" "infinity_ok json src p" "usable w" "parses src (q + 1) pv"
  shows "returns (value_action hk json pv src nest a q w) (value_ok src p)"
proof -
  have q: "p \<le> q" "q < length src" using scan_act [OF assms(1)] by simp_all
  have s: "string_ok src q (np, x) \<Longrightarrow> value_ok src p (Some (case np of None \<Rightarrow> (q, x) | Some np \<Rightarrow> (np, x)))" for np and x :: "'o pvalue"
    using q by (auto simp: string_ok_def value_ok_def split: option.splits)
  have inf: "8 \<le> q" if "a = 25" "\<not> jp_allow_nan json"
  proof (cases "p = 0")
    case True
    with assms(3) that(2) have "src ! p \<noteq> 0x49" by (simp add: infinity_ok_def)
    with infinity_act_first [of src p q] assms(1) that(1) show ?thesis by simp
  next
    case False
    with infinity.act_far [of src 1 p q] assms(1) that(1) show ?thesis by (simp add: to_infinity_def)
  qed
  have nan: "2 \<le> q" if "a = 27" using nan.act_far [of src 1 p q] assms(1) that by (simp add: to_nan_def)
  have word: "returns (gives w (Some (q + 1, x))) (value_ok src p)" for x :: "'o pvalue"
    using assms(4) q by (simp add: returns_gives value_ok_def)
  have num: "returns (parse_number json src q w) (value_ok src p)"
    using parse_number_returns [OF assms(4), of q src json] q assms(2)
    by (auto simp: calm_def value_ok_def split: option.splits elim!: returns_mono)
  have arr: "returns (act_then (JSON_parse_array hk json pv src q (nest + 1) w) (\<lambda>w r. gives w (Some r))) (value_ok src p)"
    using parse_array_returns [OF q(2) assms(5,4)] q(1)
    by (auto simp: progress_def value_ok_def intro!: returns_gives returns_then [of _ "progress src q"])
  have str: "returns (act_then (JSON_parse_string hk json src q w) (\<lambda>w (np, result).
        gives w (Some (case np of None \<Rightarrow> (q, result) | Some np \<Rightarrow> (np, result))))) (value_ok src p)"
    using string_returns [OF assms(2,4) q(2)] s by (auto intro!: returns_gives returns_then [of _ "string_ok src q"])
  have obj: "returns (act_then (JSON_parse_object hk json pv src q (nest + 1) w) (\<lambda>w (np, result).
        gives w (Some (case np of None \<Rightarrow> (q, result) | Some np \<Rightarrow> (np, result))))) (value_ok src p)"
    using parse_object_returns [OF q(2) assms(5,4,2)] s by (auto intro!: returns_gives returns_then [of _ "string_ok src q"])
  show ?thesis
    using num arr str obj word inf nan assms(4) q
    by (cases "a = 25"; cases "a = 27"; cases "jp_allow_nan json") (simp_all add: value_action_def returns_unexpected)
qed

lemma value_returns:
  "calm json src \<Longrightarrow> infinity_ok json src p \<Longrightarrow> p < length src \<Longrightarrow> length src - p < n \<Longrightarrow> usable w \<Longrightarrow>
     returns (JSON_parse_value hk json src n p nest w) (value_ok src p)"
proof (induction n arbitrary: p nest w)
  case (Suc n)
  obtain r where r: "scan value_next src 1 p = Some r" using scan_ends [of p src value_next 1] Suc.prems(3) by auto
  show ?case
  proof (cases r)
    case (Act a q)
    then have act: "scan value_next src 1 p = Some (Act a q)" using r by simp
    then have q: "p \<le> q" using scan_act by blast
    have "parses src (q + 1) (JSON_parse_value hk json src n)"
      using Suc.IH Suc.prems(1,4) q by (auto simp: parses_def infinity_ok_def)
    from value_action_returns [OF act Suc.prems(1,2,5) this] r Act show ?thesis by simp
  qed (use r Suc.prems(5) in \<open>simp_all add: returns_gives value_ok_def\<close>)
qed simp

lemma document_returns:
  assumes "calm json src" "infinity_ok json src 0" "length src < n" "usable w"
  shows "returns (parse_document (JSON_parse_value hk json src n) src w) (\<lambda>_. True)"
proof -
  obtain r where r: "scan document_next src 1 0 = Some r" "snd (outcome r) \<le> length src"
    using scan_outcome [of 0 src document_next 1] by auto
  show ?thesis
  proof (cases r)
    case (Act a q)
    then have q: "q < length src" using r scan_act by blast
    have "infinity_ok json src q" using assms(2) by (auto simp: infinity_ok_def)
    then have v: "returns (JSON_parse_value hk json src n q 0 w) (value_ok src q)"
      using value_returns [OF assms(1)] q assms(3,4) by simp
    have "returns (case v of None \<Rightarrow> unexpected w' src 743 q
         | Some (np, result) \<Rightarrow> do {
             r \<leftarrow> scan document_next src 10 np;
             let (cs, p) = outcome r;
             if cs \<ge> 10 \<and> p = length src then gives w' result else unexpected w' src 743 p
           }) (\<lambda>_. True)" if w': "usable w'" and v: "value_ok src q v" for w' v
    proof (cases v)
      case (Some x)
      then obtain np u where x: "v = Some (np, u)" "np \<le> length src" using v by (cases x) (auto simp: value_ok_def)
      obtain r' where "scan document_next src 10 np = Some r'" "snd (outcome r') \<le> length src"
        using scan_outcome [OF x(2)] by metis
      with x(1) w' show ?thesis by (cases "outcome r'") (auto intro: returns_gives returns_unexpected)
    qed (use w' q in \<open>simp add: returns_unexpected\<close>)
    note step = this
    have "parse_document (JSON_parse_value hk json src n) src w =
        act_then (JSON_parse_value hk json src n q 0 w) (\<lambda>w' v. case v of None \<Rightarrow> unexpected w' src 743 q
         | Some (np, result) \<Rightarrow> do {
             r \<leftarrow> scan document_next src 10 np;
             let (cs, p) = outcome r;
             if cs \<ge> 10 \<and> p = length src then gives w' result else unexpected w' src 743 p
           })" by (simp only: parse_document_def r(1) Act bind.bind_lunit stop.case)
    then show ?thesis by (simp only:) (rule returns_then [OF v], rule step)
  qed (use r assms(4) in \<open>auto simp: parse_document_def intro!: returns_unexpected\<close>)
qed

end
