(* ===== verification/Json_Paths.thy ===== *)
theory Json_Paths
  imports Json_Parse_Safe
begin

text \<open>
  Texts that the machines of the parser run through: white space, strings in either escape of the
  generator, decimal numbers. For strings and numbers the functions of the parser are shown to
  give back what the text was written for.
\<close>

section \<open>Paths through a machine\<close>

fun path :: "(nat \<Rightarrow> int \<Rightarrow> target) \<Rightarrow> nat \<Rightarrow> bytes \<Rightarrow> nat" where
  "path tab s [] = s"
| "path tab s (b # bs) = (case tab s (sint b) of St m \<Rightarrow> if m = 0 then 0 else path tab m bs | Tr k \<Rightarrow> 0)"

lemma text_at_nth: "text_at src p (b # bs) \<longleftrightarrow> p < length src \<and> src ! p = b \<and> text_at src (p + 1) bs"
  by (auto simp: text_at_Cons rd_def)

lemma path_append: "path tab s as \<noteq> 0 \<Longrightarrow> path tab s (as @ bs) = path tab (path tab s as) bs"
  by (induction as arbitrary: s) (auto split: target.splits)

lemma scan_path:
  "text_at src p bs \<Longrightarrow> s \<noteq> 0 \<Longrightarrow> path tab s bs \<noteq> 0 \<Longrightarrow> scan tab src s p = scan tab src (path tab s bs) (p + length bs)"
proof (induction bs arbitrary: s p)
  case (Cons b bs)
  then show ?case by (auto simp: text_at_nth scan_step split: target.splits if_splits)
qed simp

lemma scan_label: "p < length src \<Longrightarrow> tab s (sint (src ! p)) = Tr k \<Longrightarrow> scan tab src s p = Some (Act k p)"
  by (simp add: scan_step)

lemma path_same: "s \<noteq> 0 \<Longrightarrow> (\<And>b. b \<in> set bs \<Longrightarrow> tab s (sint b) = St s) \<Longrightarrow> path tab s bs = s"
  by (induction bs) auto

text \<open>White space keeps the states between the values.\<close>

definition white :: "bytes \<Rightarrow> bool" where
  "white bs \<longleftrightarrow> set bs \<subseteq> {0x09, 0x0A, 0x0D, 0x20}"

lemma white_simps [simp]: "white []" "white (as @ bs) \<longleftrightarrow> white as \<and> white bs"
  by (auto simp: white_def)

lemma white_rows:
  assumes "c \<in> {9, 10, 13, 32}"
  shows "s \<in> {2, 3, 4} \<Longrightarrow> array_next s c = St s" "s \<in> {2, 3, 8, 9, 10} \<Longrightarrow> object_next s c = St s"
    "s \<in> {1, 10} \<Longrightarrow> document_next s c = St s"
  using assms
  by (elim insertE emptyE; simp add: array_tables object_tables document_next_def document_begin_def document_end_def)+

lemma white_path:
  assumes "white bs"
  shows "s \<in> {2, 3, 4} \<Longrightarrow> path array_next s bs = s" "s \<in> {2, 3, 8, 9, 10} \<Longrightarrow> path object_next s bs = s"
    "s \<in> {1, 10} \<Longrightarrow> path document_next s bs = s"
proof -
  have c: "b \<in> set bs \<Longrightarrow> sint b \<in> {9, 10, 13, 32}" for b using assms by (auto simp: white_def)
  show "s \<in> {2, 3, 4} \<Longrightarrow> path array_next s bs = s" "s \<in> {2, 3, 8, 9, 10} \<Longrightarrow> path object_next s bs = s"
    "s \<in> {1, 10} \<Longrightarrow> path document_next s bs = s"
    using white_rows [OF c] by (auto intro!: path_same)
qed

text \<open>The first character of a value leads to the action that parses one.\<close>

definition starts_value :: "u8 \<Rightarrow> bool" where
  "starts_value b \<longleftrightarrow> b \<in> {0x22, 0x2D, 0x5B, 0x66, 0x6E, 0x74, 0x7B} \<or> 0x30 \<le> unat b \<and> unat b \<le> 0x39"

lemma starts_value_tables:
  assumes "starts_value b"
  shows "s \<in> {2, 4} \<Longrightarrow> array_next s (sint b) = Tr 2" "object_next 8 (sint b) = Tr 11" "document_next 1 (sint b) = Tr 2"
proof -
  consider "b \<in> {0x22, 0x2D, 0x5B, 0x66, 0x6E, 0x74, 0x7B}" | "0x30 \<le> unat b \<and> unat b \<le> 0x39"
    using assms by (auto simp: starts_value_def)
  then have "(s \<in> {2, 4} \<longrightarrow> array_next s (sint b) = Tr 2) \<and> object_next 8 (sint b) = Tr 11 \<and> document_next 1 (sint b) = Tr 2"
  proof cases
    case 1
    then show ?thesis by (auto simp: array_tables object_tables document_next_def document_begin_def)
  next
    case 2
    then have "sint b = int (unat b)" by (simp add: sint_byte)
    with 2 have "48 \<le> sint b" "sint b \<le> 57" by linarith+
    then show ?thesis by (auto simp: array_tables object_tables document_next_def document_begin_def)
  qed
  then show "s \<in> {2, 4} \<Longrightarrow> array_next s (sint b) = Tr 2" "object_next 8 (sint b) = Tr 11" "document_next 1 (sint b) = Tr 2"
    by blast+
qed

section \<open>Strings\<close>

lemma string_plain: "path string_next 2 bs = 2" if "\<forall>b \<in> set bs. b \<noteq> 0x22 \<and> b \<noteq> 0x5C \<and> 0x20 \<le> unat b"
  using that by (intro path_same) (simp_all add: string_text_row not_less)

lemma hex_digit_hexdigits: "k < 16 \<Longrightarrow> hex_digit (hexdigits ! k)"
proof -
  have "list_all (\<lambda>k. hex_digit (hexdigits ! k)) [0..<16]" unfolding hexdigits_def hex_digit_def by code_simp
  then show "k < 16 \<Longrightarrow> ?thesis" by (simp add: list_all_iff)
qed

lemma string_u_escape:
  assumes "n < 0x10000"
  shows "path string_next 2 (u_escape n) = 2"
proof -
  have "n div 4096 < 16" using assms by (simp add: div_less_iff_less_mult)
  then have h: "hex_digit (hexdigits ! (n div 4096))" "hex_digit (hexdigits ! (n div 256 mod 16))"
    "hex_digit (hexdigits ! (n div 16 mod 16))" "hex_digit (hexdigits ! (n mod 16))" by (simp_all add: hex_digit_hexdigits)
  have "path string_next 2 [0x5C, 0x75] = 4" by code_simp
  moreover have "path string_next 4 (hex4 n) = 2" using h by (simp add: hex4_def string_hex_row)
  ultimately show ?thesis using path_append [of string_next 2 "[0x5C, 0x75]" "hex4 n"] by (simp add: u_escape_def)
qed

lemma string_short_escape: "short_escape cp = Some x \<Longrightarrow> path string_next 2 x = 2"
proof -
  have "list_all (\<lambda>c. path string_next 2 [0x5C, c] = 2) [0x5C, 0x22, 0x6E, 0x72, 0x74, 0x66, 0x62]" by code_simp
  then show "short_escape cp = Some x \<Longrightarrow> ?thesis" by (auto simp: short_escape_def split: if_splits)
qed

lemma string_path_escaped:
  assumes "scalar cp"
  shows "path string_next 2 (json_char (encode cp)) = 2" "path string_next 2 (ascii_char_ref (encode cp)) = 2"
proof -
  note c = code_encode [OF assms]
  have plain: "path string_next 2 (encode cp) = 2" if "short_escape cp = None" "0x20 \<le> cp"
  proof (rule string_plain, rule ballI)
    fix b assume b: "b \<in> set (encode cp)"
    show "b \<noteq> 0x22 \<and> b \<noteq> 0x5C \<and> 0x20 \<le> unat b"
    proof (cases "cp < 0x80")
      case True
      with b have "unat b = cp" by (simp add: encode_ascii unat_of_nat take_bit_nat_eq_self_iff)
      with that show ?thesis by (auto simp: short_escape_def)
    qed (use encode_high [OF _ assms b] in auto)
  qed
  show "path string_next 2 (json_char (encode cp)) = 2"
    using plain string_short_escape [of cp] string_u_escape [of cp]
    by (cases "short_escape cp") (auto simp: json_char_def c)
  have "(cp - 0x10000) div 1024 < 1024" "(cp - 0x10000) mod 1024 < 1024"
    using assms by (auto simp: scalar_def div_less_iff_less_mult)
  then have pair: "path string_next 2 (u_escape (0xD800 + (cp - 0x10000) div 1024) @ u_escape (0xDC00 + (cp - 0x10000) mod 1024)) = 2"
    using string_u_escape [of "0xD800 + (cp - 0x10000) div 1024"] string_u_escape [of "0xDC00 + (cp - 0x10000) mod 1024"]
    by (simp add: path_append)
  have "cp \<le> 0x7F \<Longrightarrow> [of_nat cp] = encode cp" by (simp add: encode_ascii)
  then show "path string_next 2 (ascii_char_ref (encode cp)) = 2"
    using plain pair string_short_escape [of cp] string_u_escape [of cp]
    by (cases "short_escape cp") (auto simp: ascii_char_ref_def c simp del: path.simps)
qed


text \<open>The settings under which a document is read back, and an escape that can be read back.\<close>

definition plain_parser :: "'o JSON_Parser \<Rightarrow> bool" where
  "plain_parser json \<longleftrightarrow> \<not> create_additions json \<and> \<not> symbolize_names json \<and> object_class json = PNil \<and>
     array_class json = PNil \<and> 0 \<le> jp_max_nesting json"

definition readable_escape :: "(bytes \<Rightarrow> bytes) \<Rightarrow> bool" where
  "readable_escape esc \<longleftrightarrow> (\<forall>cp. scalar cp \<longrightarrow> escaped esc cp \<and> path string_next 2 (esc (encode cp)) = 2)"

lemma readable_escapes: "readable_escape json_char" "readable_escape ascii_char_ref"
  by (simp_all add: readable_escape_def json_char_escaped ascii_char_escaped string_path_escaped)

lemma path_concat: "(\<And>x. x \<in> set xs \<Longrightarrow> path tab s x = s) \<Longrightarrow> s \<noteq> 0 \<Longrightarrow> path tab s (concat xs) = s"
  by (induction xs) (auto simp: path_append)

lemma parse_string_text:
  assumes "plain_parser json" "readable_escape esc" "list_all scalar cps" "usable w"
    "text_at src p ([0x22] @ concat (map (\<lambda>cp. esc (encode cp)) cps) @ [0x22])"
  shows "JSON_parse_string hk json src p w =
    Some (w\<lparr>memo := p\<rparr>, Inr (Some (p + 2 + length (concat (map (\<lambda>cp. esc (encode cp)) cps))), PString (utf8 cps)))"
proof -
  let ?b = "concat (map (\<lambda>cp. esc (encode cp)) cps)"
  define q where "q = p + 1 + length ?b"
  have at: "p < length src" "src ! p = 0x22" "text_at src (p + 1) ?b" "q < length src" "src ! q = 0x22"
    using assms(5) by (auto simp: text_at_nth text_at_append q_def)
  have "path string_next 2 ?b = 2"
    using assms(2,3) by (intro path_concat) (auto simp: readable_escape_def list_all_iff)
  moreover have "scan string_next src 1 p = scan string_next src 2 (p + 1)"
    using at(1,2) by (simp add: scan_step string_next_def string_text_def)
  ultimately have "scan string_next src 1 p = scan string_next src 2 q"
    using scan_path [OF at(3), of 2 string_next] by (simp add: q_def)
  moreover have "scan string_next src 2 q = Some (Act 2 q)"
    using at(4,5) string_text_row [of "src ! q"] by (intro scan_label) simp_all
  ultimately have run: "scan string_next src 1 p = Some (Act 2 q)" by simp
  have "list_all (escaped esc) cps" using assms(2,3) by (auto simp: readable_escape_def list_all_iff)
  from unescape_escaped [OF this at(3), of q "[]"] at(4)
  have "json_string_unescape [] src (p + 1) q = Some (Some (utf8 cps))"
    by (simp add: json_string_unescape_def q_def)
  with run assms(1) show ?thesis
    by (simp add: JSON_parse_string_def Let_def string_run_def string_matched_def string_finished_def plain_parser_def
        act_then_def stay_def rb_return_def gives_def q_def)
qed

section \<open>Numbers\<close>

definition digit :: "u8 \<Rightarrow> bool" where
  "digit b \<longleftrightarrow> 0x30 \<le> unat b \<and> unat b \<le> 0x39"

lemma digit_sint: "digit b \<Longrightarrow> 48 \<le> sint b \<and> sint b \<le> 57"
proof -
  assume b: "digit b"
  then have "sint b = int (unat b)" by (simp add: sint_byte digit_def)
  with b show ?thesis unfolding digit_def by linarith
qed

lemma dec_digits: "\<forall>b \<in> set (rev (dec_rev n)). digit b"
  using dec_rev_digits [of n] by (simp add: list_all_iff digit_def)

lemma dec_lead: "0 < n \<Longrightarrow> \<exists>b ds. rev (dec_rev n) = b # ds \<and> 0x31 \<le> unat b"
proof (induction n rule: dec_rev.induct)
  case (1 n)
  show ?case
  proof (cases "n div 10 = 0")
    case True
    then have "n < 10" by (simp add: div_eq_0_iff)
    with 1(2) True unat_digit [of n] show ?thesis by (subst dec_rev.simps) (simp del: of_nat_add)
  next
    case False
    then obtain b ds where "rev (dec_rev (n div 10)) = b # ds" "0x31 \<le> unat b" using 1(1) by auto
    with False show ?thesis by (subst dec_rev.simps) simp
  qed
qed

lemma digits_path:
  "\<forall>b \<in> set ds. digit b \<Longrightarrow> path integer_next 5 ds = 5" "\<forall>b \<in> set ds. digit b \<Longrightarrow> path float_next 7 ds = 7"
  using digit_sint by (fastforce intro!: path_same simp: integer_next_def float_next_def)+

lemma number_path:
  assumes "s \<in> {1, 2}"
  shows "path integer_next s (rev (dec_rev n)) \<in> {3, 5} \<and> path float_next s (rev (dec_rev n)) \<in> {3, 7}"
proof (cases "n = 0")
  case True
  have "rev (dec_rev 0) = [0x30]" by (subst dec_rev.simps) simp
  with assms True show ?thesis by (auto simp: integer_next_def float_next_def)
next
  case False
  then have "0 < n" by simp
  from dec_lead [OF this] obtain b ds where b: "rev (dec_rev n) = b # ds" "0x31 \<le> unat b" by blast
  then have d: "digit b" "\<forall>b \<in> set ds. digit b" using dec_digits [of n] by auto
  then have "sint b = int (unat b)" by (simp add: sint_byte digit_def)
  with b(2) digit_sint [OF d(1)] have "49 \<le> sint b" "sint b \<le> 57" by linarith+
  then have "integer_next s (sint b) = St 5" "float_next s (sint b) = St 7"
    using assms by (auto simp: integer_next_def float_next_def)
  with b(1) digits_path [OF d(2)] show ?thesis by simp
qed

lemma decimal_path: "path integer_next 1 (decimal i) \<in> {3, 5}" "path float_next 1 (decimal i) \<in> {3, 7}"
  using number_path [of 1 "nat i"] number_path [of 2 "nat (- i)"]
  by (auto simp: decimal_def integer_next_def float_next_def)

lemma decimal_chars: "b \<in> set (decimal i) \<Longrightarrow> b \<noteq> 0"
  using dec_digits [of "nat i"] dec_digits [of "nat (- i)"] by (auto simp: decimal_def digit_def split: if_splits)

lemma decimal_starts: "\<exists>b bs. decimal i = b # bs \<and> starts_value b \<and> (bs = [] \<or> digit (hd bs)) \<and> (b = 0x2D \<longrightarrow> bs \<noteq> [])"
proof (cases "i < 0")
  case True
  then show ?thesis using dec_digits [of "nat (- i)"]
    by (cases "rev (dec_rev (nat (- i)))") (auto simp: decimal_def starts_value_def)
next
  case False
  then show ?thesis using dec_digits [of "nat i"] hd_in_set [of "tl (rev (dec_rev (nat i)))"]
    by (cases "rev (dec_rev (nat i))") (auto simp: decimal_def starts_value_def digit_def)
qed

lemma decimal_first: "decimal i = b # bs \<Longrightarrow> b = 0x2D \<or> digit b"
  using dec_digits [of "nat i"] by (auto simp: decimal_def split: if_splits)

text \<open>What may follow a value.\<close>

definition ends_value :: "bytes \<Rightarrow> nat \<Rightarrow> bool" where
  "ends_value src q \<longleftrightarrow> q = length src \<or> q < length src \<and> src ! q \<in> {0x2C, 0x5D, 0x7D, 0x09, 0x0A, 0x0D, 0x20}"

lemma ends_number:
  assumes "ends_value src q" "s \<in> {3, 5}" "t \<in> {3, 7}"
  shows "\<exists>k \<ge> 3. outcome (the (scan integer_next src s q)) = (k, q) \<and> scan integer_next src s q \<noteq> None"
    and "\<exists>r. scan float_next src t q = Some r \<and> fst (outcome r) < 8"
proof -
  have "(\<exists>k \<ge> 3. outcome (the (scan integer_next src s q)) = (k, q) \<and> scan integer_next src s q \<noteq> None) \<and>
      (\<exists>r. scan float_next src t q = Some r \<and> fst (outcome r) < 8)"
  proof (cases "q = length src")
    case True
    then show ?thesis using assms(2,3) by (auto simp: scan_stop)
  next
    case False
    then have "q < length src" and c: "sint (src ! q) \<in> {44, 93, 125, 9, 10, 13, 32}" using assms(1) by (auto simp: ends_value_def)
    have "integer_next s (sint (src ! q)) = Tr 4" "float_next t (sint (src ! q)) = St 0"
      using c assms(2,3) by (elim insertE emptyE; simp add: integer_next_def float_next_def)+
    with \<open>q < length src\<close> show ?thesis by (simp add: scan_step)
  qed
  then show "\<exists>k \<ge> 3. outcome (the (scan integer_next src s q)) = (k, q) \<and> scan integer_next src s q \<noteq> None"
    "\<exists>r. scan float_next src t q = Some r \<and> fst (outcome r) < 8" by blast+
qed

lemma parse_number_text:
  fixes json :: "'o JSON_Parser"
  assumes "text_at src p (decimal i)" "ends_value src (p + length (decimal i))" "usable w" "length src < 2 ^ 62"
  shows "\<exists>w'. parse_number json src p w = Some (w', Inr (Some (p + length (decimal i), PInt i))) \<and> usable w' \<and>
    parsing_name w' = parsing_name w"
proof -
  define q where "q = p + length (decimal i)"
  have q: "p \<le> q" "q \<le> length src" "take (q - p) (drop p src) = decimal i"
    using assms(1) by (simp_all add: q_def text_at_def)
  have no_inf: "\<not> (length src > p + 8 \<and> take 9 (drop p src) = MinusInfinity)"
  proof
    assume inf: "length src > p + 8 \<and> take 9 (drop p src) = MinusInfinity"
    then have "src ! p = 0x2D" "src ! (p + 1) = 0x49"
      using nth_take [of 0 9 "drop p src"] nth_take [of 1 9 "drop p src"] by (simp_all add: MinusInfinity_def)
    moreover obtain b bs where d: "decimal i = b # bs" "bs = [] \<or> digit (hd bs)" "b = 0x2D \<longrightarrow> bs \<noteq> []"
      using decimal_starts by blast
    ultimately show False using assms(1) by (cases bs) (auto simp: text_at_nth digit_def)
  qed
  obtain r where r: "scan float_next src 1 p = Some r" "fst (outcome r) < 8"
    using ends_number(2) [OF assms(2), of 3] decimal_path(2) [of i] scan_path [OF assms(1), of 1 float_next] by fastforce
  have "JSON_parse_float src p w = Some (w\<lparr>memo := p\<rparr>, Inr (None :: (nat \<times> 'o pvalue) option))"
    using r by (cases "outcome r") (simp add: JSON_parse_float_def gives_def)
  moreover have "\<exists>w'. JSON_parse_integer src p (w\<lparr>memo := p\<rparr>) = Some (w', Inr (Some (q + 1, PInt i :: 'o pvalue))) \<and>
      usable w' \<and> parsing_name w' = parsing_name w"
  proof -
    obtain k where k: "k \<ge> 3" "outcome (the (scan integer_next src 1 p)) = (k, q)" "scan integer_next src 1 p \<noteq> None"
      using ends_number(1) [OF assms(2), of _ 3] decimal_path(1) [of i] scan_path [OF assms(1), of 1 integer_next]
      unfolding q_def by fastforce
    obtain w' where w': "number_text src q (w\<lparr>memo := p\<rparr>) = Some (w', decimal i)" "usable w'" "parsing_name w' = parsing_name w"
      using number_text_eq [of "w\<lparr>memo := p\<rparr>" q src] q assms(3,4) decimal_chars
      by (auto simp: takeWhile_eq_all_conv [THEN iffD2])
    with k show ?thesis by (auto simp: JSON_parse_integer_def gives_def read_decimal_decimal Let_def)
  qed
  ultimately show ?thesis using no_inf
    by (auto simp: parse_number_def act_then_def gives_def q_def)
qed

end
