(* ===== verification/Json_Roundtrip.thy ===== *)
theory Json_Roundtrip
  imports Json_Paths Json_Generator
begin

text \<open>
  The parser reads what the generator writes. A tree that is rendered with white space for
  separators is read back as the values it stands for; where it is nested too deeply, the parser
  raises the error of the limit. Arrays and objects are read entry by entry: the outcomes of the
  entries are collected, up to the first error.
\<close>

section \<open>Trees\<close>

text \<open>What a tree is read as; a hash keeps the last value for a key, at the place of the first.\<close>

definition hash_of :: "('k \<times> 'v) list \<Rightarrow> ('k \<times> 'v) list" where
  "hash_of kvs = fold (\<lambda>(k, v) h. hash_aset h k v) kvs []"

fun tree_value :: "json \<Rightarrow> 'o pvalue" where
  "tree_value JNull = PNil"
| "tree_value JFalse = PFalse"
| "tree_value JTrue = PTrue"
| "tree_value (JInt i) = PInt i"
| "tree_value (JText s) = PString s"
| "tree_value (JString cs) = PString (concat cs)"
| "tree_value (JArray ts) = PArray (map tree_value ts)"
| "tree_value (JObject kvs) = PHash (hash_of (map (\<lambda>(k, v). (tree_value k, tree_value v)) kvs))"

text \<open>The trees that are read back: strings of Unicode text, and names that are strings.\<close>

definition is_text :: "json \<Rightarrow> bool" where
  "is_text t \<longleftrightarrow> (\<exists>cps. t = JString (map encode cps) \<and> list_all scalar cps)"

fun readable :: "json \<Rightarrow> bool" where
  "readable (JText s) \<longleftrightarrow> False"
| "readable (JString cs) \<longleftrightarrow> is_text (JString cs)"
| "readable (JArray ts) \<longleftrightarrow> (\<forall>t \<in> set ts. readable t)"
| "readable (JObject kvs) \<longleftrightarrow> (\<forall>(k, v) \<in> set kvs. is_text k \<and> readable v)"
| "readable _ \<longleftrightarrow> True"

definition white_config :: "config \<Rightarrow> bool" where
  "white_config c \<longleftrightarrow> white (c_indent c) \<and> white (c_space c) \<and> white (c_space_before c) \<and>
     white (opt_bytes (c_object_nl c)) \<and> white (opt_bytes (c_array_nl c))"

definition fits :: "'o JSON_Parser \<Rightarrow> int \<Rightarrow> json \<Rightarrow> bool" where
  "fits json nest t \<longleftrightarrow> nesting t = 0 \<or> jp_max_nesting json = 0 \<or> nest + int (nesting t) \<le> jp_max_nesting json"

definition idle :: "work \<Rightarrow> bool" where
  "idle w \<longleftrightarrow> usable w \<and> \<not> parsing_name w"

text \<open>A call reads a text: it gives the value and stops behind it, or raises an error.\<close>

definition reads :: "'o parse \<Rightarrow> bytes \<Rightarrow> int \<Rightarrow> bytes \<Rightarrow> rb_error + 'o pvalue \<Rightarrow> bool" where
  "reads pv src nest bs v \<longleftrightarrow> (\<forall>p w. idle w \<longrightarrow> text_at src p bs \<longrightarrow> ends_value src (p + length bs) \<longrightarrow>
     (\<exists>w'. idle w' \<and> pv p nest w = Some (w', map_sum id (\<lambda>v. Some (p + length bs, v)) v)))"

lemma readsD:
  assumes "reads pv src nest bs v" "idle w" "text_at src p bs" "ends_value src (p + length bs)"
  obtains w' where "idle w'" "pv p nest w = Some (w', map_sum id (\<lambda>v. Some (p + length bs, v)) v)"
  using assms unfolding reads_def by blast

lemma white_repeat: "white bs \<Longrightarrow> white (repeat n bs)"
  by (induction n) (auto simp: repeat_def)

lemma white_closing: "white ind \<Longrightarrow> white (opt_bytes nl) \<Longrightarrow> white (closing nl ind d)"
  by (cases nl) (simp_all add: closing_def opt_bytes_def white_repeat)

lemma ends_white:
  assumes "white ws" "text_at src p (ws @ b # bs)" "b \<in> {0x2C, 0x5D, 0x7D}"
  shows "ends_value src p"
  using assms by (cases ws) (auto simp: white_def ends_value_def text_at_nth)

section \<open>Arrays\<close>

declare array_loop.simps [simp del] object_loop.simps [simp del]

lemma array_entry:
  assumes "plain_parser json" "idle w" "text_at src p (pre @ bs @ rest)" "path array_next s pre \<in> {2, 4}" "s \<noteq> 0"
    "starts_value (hd bs)" "bs \<noteq> []" "reads pv src nest bs v" "ends_value src (p + length (pre @ bs))"
  obtains w' where "idle w'" "array_loop hk json pv src nest (Suc k) s p (PArray vs) w =
    (case v of Inl e \<Rightarrow> Some (w', Inl e)
       | Inr v \<Rightarrow> array_loop hk json pv src nest k 3 (p + length (pre @ bs)) (PArray (vs @ [v])) w')"
proof -
  define q where "q = p + length pre"
  have at: "text_at src p pre" "text_at src q bs" using assms(3) by (simp_all add: text_at_append q_def)
  then have b: "q < length src" "src ! q = hd bs" using assms(7) by (cases bs; simp add: text_at_nth)+
  have "scan array_next src s p = scan array_next src (path array_next s pre) q"
    using scan_path [OF at(1) assms(5)] assms(4) q_def by auto
  also have "\<dots> = Some (Act 2 q)"
    using starts_value_tables(1) [OF assms(6,4)] b by (intro scan_label) simp_all
  finally have run: "scan array_next src s p = Some (Act 2 q)" .
  obtain w' where w': "idle w'" "pv q nest w = Some (w', map_sum id (\<lambda>v. Some (q + length bs, v)) v)"
    using readsD [OF assms(8,2) at(2)] assms(9) by (auto simp: q_def add.assoc)
  have "array_loop hk json pv src nest (Suc k) s p (PArray vs) w =
    (case v of Inl e \<Rightarrow> Some (w', Inl e)
       | Inr v \<Rightarrow> array_loop hk json pv src nest k 3 (p + length (pre @ bs)) (PArray (vs @ [v])) w')"
    using run w'(2) assms(1)
    by (cases v) (simp_all add: array_loop.simps act_then_def array_push_def plain_parser_def stay_def rb_return_def q_def add.assoc)
  with w'(1) that show thesis by blast
qed

lemma array_end:
  assumes "idle w" "text_at src p (pre @ [0x5D])" "path array_next s pre \<in> {2, 3}" "s \<noteq> 0"
  shows "array_loop hk json pv src nest (Suc k) s p x w = Some (w, Inr (p + length pre + 1, x))"
proof -
  define q where "q = p + length pre"
  have at: "text_at src p pre" "q < length src" "src ! q = 0x5D" using assms(2) by (simp_all add: text_at_append text_at_nth q_def)
  have "array_next (path array_next s pre) (sint (src ! q)) = Tr 4" using assms(3) at(3) by (auto simp: array_tables)
  then have "scan array_next src s p = Some (Act 4 q)"
    using scan_path [OF at(1) assms(4)] assms(3) scan_label [OF at(2)] q_def by auto
  then show ?thesis by (simp add: array_loop.simps gives_def q_def)
qed

text \<open>The outcomes of entries that are read from left to right: all values, or the first error.\<close>

fun collect :: "(rb_error + 'a) list \<Rightarrow> rb_error + 'a list" where
  "collect [] = Inr []"
| "collect (Inl e # rs) = Inl e"
| "collect (Inr v # rs) = map_sum id (\<lambda>vs. v # vs) (collect rs)"

lemma array_rest:
  assumes "plain_parser json" "path array_next 3 pre = 4" "hd pre = 0x2C" "pre \<noteq> []" "white cl"
  shows "list_all (\<lambda>(x, v). x \<noteq> [] \<and> starts_value (hd x) \<and> reads pv src nest x v) es \<Longrightarrow>
     idle w \<Longrightarrow> text_at src p (concat (map (\<lambda>e. pre @ fst e) es) @ cl @ [0x5D]) \<Longrightarrow> length es < k \<Longrightarrow>
     \<exists>w'. idle w' \<and> array_loop hk json pv src nest k 3 p (PArray vs) w = Some (w',
       map_sum id (\<lambda>us. (p + length (concat (map (\<lambda>e. pre @ fst e) es) @ cl @ [0x5D]), PArray (vs @ us))) (collect (map snd es)))"
proof (induction es arbitrary: p w vs k)
  case Nil
  then obtain j where "k = Suc j" by (cases k) auto
  with array_end [of w src p cl 3 hk json pv nest j "PArray vs"] Nil white_path(1) [OF assms(5), of 3] show ?case by auto
next
  case (Cons e es)
  obtain x v where e: "e = (x, v)" by fastforce
  obtain j where k: "k = Suc j" "length es < j" using Cons.prems(4) by (cases k) auto
  have x: "x \<noteq> []" "starts_value (hd x)" "reads pv src nest x v" using Cons.prems(1) e by auto
  let ?rest = "concat (map (\<lambda>e. pre @ fst e) es) @ cl @ [0x5D]"
  have at: "text_at src p (pre @ x @ ?rest)" using Cons.prems(3) e by simp
  then have rest: "text_at src (p + length (pre @ x)) ?rest" using text_at_append [of src p "pre @ x" ?rest] by simp
  have ends: "ends_value src (p + length (pre @ x))"
  proof (cases es)
    case Nil
    with rest show ?thesis using ends_white [OF assms(5), of src _ "0x5D" "[]"] by simp
  next
    case (Cons e' es')
    obtain pre' where "pre = 0x2C # pre'" using assms(3,4) by (cases pre) auto
    with Cons rest show ?thesis using ends_white [of "[]" src _ "0x2C"] by simp
  qed
  have st: "path array_next 3 pre \<in> {2, 4}" "3 \<noteq> (0 :: nat)" using assms(2) by simp_all
  obtain w' where w': "idle w'" "array_loop hk json pv src nest (Suc j) 3 p (PArray vs) w =
    (case v of Inl e \<Rightarrow> Some (w', Inl e)
       | Inr v \<Rightarrow> array_loop hk json pv src nest j 3 (p + length (pre @ x)) (PArray (vs @ [v])) w')"
    by (rule array_entry [OF assms(1) Cons.prems(2) at st x(2,1,3) ends])
  show ?case
  proof (cases v)
    case (Inl err)
    with w' k e show ?thesis by auto
  next
    case (Inr u)
    from Cons.IH [OF _ w'(1) rest k(2), of "vs @ [u]"] Cons.prems(1)
    obtain w'' where "idle w''" "array_loop hk json pv src nest j 3 (p + length (pre @ x)) (PArray (vs @ [u])) w' = Some (w'',
       map_sum id (\<lambda>us. (p + length (pre @ x) + length ?rest, PArray ((vs @ [u]) @ us))) (collect (map snd es)))" by (auto simp: id_def)
    with w' k e Inr show ?thesis by (auto simp: sum.map_comp comp_def id_def add.assoc)
  qed
qed


lemma array_text:
  assumes "plain_parser json" "\<not> too_deep_nesting json nest" "idle w" "white nl" "white ind" "white cl"
    "list_all (\<lambda>(x, v). x \<noteq> [] \<and> starts_value (hd x) \<and> reads pv src nest x v) es"
    "text_at src p bs" "bs = [0x5B] @ nl @ sep_concat ([0x2C] @ nl) (map (\<lambda>e. ind @ fst e) es) @ cl @ [0x5D]"
  shows "\<exists>w'. idle w' \<and> JSON_parse_array hk json pv src p nest w = Some (w',
    map_sum id (\<lambda>us. (p + length bs, PArray us)) (collect (map snd es)))"
proof -
  have open1: "path array_next 1 [0x5B] = 2" by (simp add: array_tables)
  have loop: "JSON_parse_array hk json pv src p nest w = array_loop hk json pv src nest (Suc (length src)) 1 p (PArray []) w"
    using assms(1,2) by (simp add: JSON_parse_array_def act_then_def stay_def rb_return_def plain_parser_def)
  show ?thesis
  proof (cases es)
    case Nil
    let ?pre = "[0x5B] @ nl @ cl"
    have "path array_next 1 ?pre = 2"
      using path_append [of array_next 1 "[0x5B]" "nl @ cl"] white_path(1) [of "nl @ cl" 2] open1 assms(4,6) by simp
    moreover have "text_at src p (?pre @ [0x5D])" using assms(8,9) Nil by simp
    ultimately show ?thesis
      using array_end [of w src p ?pre 1 hk json pv nest "length src" "PArray []"] assms(3,9) Nil loop by auto
  next
    case (Cons e es')
    obtain x v where e: "e = (x, v)" by fastforce
    have x: "x \<noteq> []" "starts_value (hd x)" "reads pv src nest x v" using assms(7) Cons e by auto
    let ?pre = "[0x5B] @ nl @ ind" and ?sep = "[0x2C] @ nl @ ind"
    let ?rest = "concat (map (\<lambda>e. ?sep @ fst e) es') @ cl @ [0x5D]"
    have bs: "bs = ?pre @ x @ ?rest" using assms(9) Cons e by (simp add: comp_def)
    have st: "path array_next 1 ?pre \<in> {2, 4}" "1 \<noteq> (0 :: nat)"
      using path_append [of array_next 1 "[0x5B]" "nl @ ind"] white_path(1) [of "nl @ ind" 2] open1 assms(4,5) by simp_all
    have comma: "path array_next 3 [0x2C] = 4" by (simp add: array_tables)
    have sep: "path array_next 3 ?sep = 4"
      using path_append [of array_next 3 "[0x2C]" "nl @ ind"] white_path(1) [of "nl @ ind" 4] comma assms(4,5) by simp
    have rest: "text_at src (p + length (?pre @ x)) ?rest" using assms(8) bs text_at_append [of src p "?pre @ x" ?rest] by simp
    have ends: "ends_value src (p + length (?pre @ x))"
    proof (cases es')
      case Nil
      with rest show ?thesis using ends_white [OF assms(6), of src _ "0x5D" "[]"] by simp
    next
      case (Cons e' es'')
      with rest show ?thesis using ends_white [of "[]" src _ "0x2C"] by simp
    qed
    obtain w' where w': "idle w'" "array_loop hk json pv src nest (Suc (length src)) 1 p (PArray []) w =
      (case v of Inl e \<Rightarrow> Some (w', Inl e)
         | Inr v \<Rightarrow> array_loop hk json pv src nest (length src) 3 (p + length (?pre @ x)) (PArray ([] @ [v])) w')"
      using assms(8) bs by - (rule array_entry [OF assms(1,3) _ st x(2,1,3) ends], simp)
    show ?thesis
    proof (cases v)
      case (Inl err)
      with w' loop Cons e show ?thesis by auto
    next
      case (Inr u)
      have "length es' \<le> length (concat (map (\<lambda>e. ?sep @ fst e) es'))" by (induction es') auto
      moreover have "length ?rest \<le> length src" using rest by (simp add: text_at_def)
      ultimately have k: "length es' < length src" by simp
      have "list_all (\<lambda>(x, v). x \<noteq> [] \<and> starts_value (hd x) \<and> reads pv src nest x v) es'" using assms(7) Cons by simp
      from array_rest [OF assms(1) sep _ _ assms(6) this w'(1) rest k, of hk "[u]"]
      obtain w'' where "idle w''" "array_loop hk json pv src nest (length src) 3 (p + length (?pre @ x)) (PArray [u]) w' = Some (w'',
         map_sum id (\<lambda>us. (p + length (?pre @ x) + length ?rest, PArray ([u] @ us))) (collect (map snd es')))" by (auto simp: id_def)
      with w' loop Cons e Inr bs show ?thesis by (auto simp: sum.map_comp comp_def id_def add.assoc)
    qed
  qed
qed

section \<open>Objects\<close>

definition reads_name :: "'o hooks \<Rightarrow> 'o JSON_Parser \<Rightarrow> bytes \<Rightarrow> bytes \<Rightarrow> 'o pvalue \<Rightarrow> bool" where
  "reads_name hk json src bs v \<longleftrightarrow> bs \<noteq> [] \<and> hd bs = 0x22 \<and> (\<forall>p w. usable w \<longrightarrow> text_at src p bs \<longrightarrow>
     (\<exists>w'. usable w' \<and> JSON_parse_string hk json src p w = Some (w', Inr (Some (p + length bs), v))))"

lemma object_entry:
  assumes "plain_parser json" "idle w" "text_at src p (pre @ kt @ mid @ bs @ rest)" "path object_next s pre \<in> {2, 10}" "s \<noteq> 0"
    "reads_name hk json src kt key" "path object_next 3 mid = 8"
    "starts_value (hd bs)" "bs \<noteq> []" "reads pv src nest bs v" "ends_value src (p + length (pre @ kt @ mid @ bs))"
  obtains w' where "idle w'" "object_loop hk json pv src nest (Suc (Suc k)) s p name (PHash h) w =
    (case v of Inl e \<Rightarrow> Some (w', Inl e)
       | Inr v \<Rightarrow> object_loop hk json pv src nest k 9 (p + length (pre @ kt @ mid @ bs)) key (PHash (hash_aset h key v)) w')"
proof -
  define q where "q = p + length pre"
  define n where "n = q + length kt"
  define m where "m = n + length mid"
  have at: "text_at src p pre" "text_at src q kt" "text_at src n mid" "text_at src m bs"
    using assms(3) by (simp_all add: text_at_append q_def n_def m_def add.assoc)
  have q: "q < length src" "src ! q = 0x22" using assms(6) at(2) by (cases kt; simp add: text_at_nth reads_name_def)+
  have b: "m < length src" "src ! m = hd bs" using at(4) assms(9) by (cases bs; simp add: text_at_nth)+
  have "object_next (path object_next s pre) (sint (src ! q)) = Tr 2" using assms(4) q(2) by (auto simp: object_tables)
  then have name: "scan object_next src s p = Some (Act 2 q)"
    using scan_path [OF at(1) assms(5)] assms(4) scan_label [OF q(1)] q_def by auto
  have "scan object_next src 3 n = scan object_next src 8 m" using scan_path [OF at(3), of 3 object_next] assms(7) m_def by simp
  also have "\<dots> = Some (Act 11 m)" using starts_value_tables(2) [OF assms(8)] b by (intro scan_label) simp_all
  finally have val: "scan object_next src 3 n = Some (Act 11 m)" .
  have "usable (w\<lparr>parsing_name := True\<rparr>)" using assms(2) by (simp add: idle_def)
  then obtain w1 where w1: "usable w1" "JSON_parse_string hk json src q (w\<lparr>parsing_name := True\<rparr>) = Some (w1, Inr (Some n, key))"
    using assms(6) at(2) unfolding reads_name_def n_def by blast
  have "idle (w1\<lparr>parsing_name := False\<rparr>)" using w1(1) by (simp add: idle_def)
  then obtain w' where w': "idle w'" "pv m nest (w1\<lparr>parsing_name := False\<rparr>) = Some (w', map_sum id (\<lambda>v. Some (m + length bs, v)) v)"
    using readsD [OF assms(10) _ at(4)] assms(11) by (auto simp: q_def n_def m_def add.assoc)
  have "object_loop hk json pv src nest (Suc (Suc k)) s p name (PHash h) w =
      object_loop hk json pv src nest (Suc k) 3 n key (PHash h) (w1\<lparr>parsing_name := False\<rparr>)"
    using name w1(2) by (subst object_loop.simps(2)) (simp add: act_then_def)
  also have "\<dots> = (case v of Inl e \<Rightarrow> Some (w', Inl e)
       | Inr v \<Rightarrow> object_loop hk json pv src nest k 9 (p + length (pre @ kt @ mid @ bs)) key (PHash (hash_aset h key v)) w')"
    using val w'(2) assms(1)
    by (cases v; subst object_loop.simps(2))
      (simp_all add: act_then_def object_aset_def plain_parser_def stay_def rb_return_def q_def n_def m_def add.assoc)
  finally show thesis using w'(1) that by blast
qed

lemma object_end:
  assumes "text_at src p (pre @ [0x7D])" "path object_next s pre \<in> {2, 9}" "s \<noteq> 0"
  shows "object_loop hk json pv src nest (Suc k) s p name x w = Some (w, Inr (Some (p + length pre), x))"
proof -
  define q where "q = p + length pre"
  have at: "text_at src p pre" "q < length src" "src ! q = 0x7D" using assms(1) by (simp_all add: text_at_append text_at_nth q_def)
  have "object_next (path object_next s pre) (sint (src ! q)) = Tr 4" using assms(2) at(3) by (auto simp: object_tables)
  then have "scan object_next src s p = Some (Act 4 q)"
    using scan_path [OF at(1) assms(3)] assms(2) scan_label [OF at(2)] q_def by auto
  then show ?thesis by (simp add: object_loop.simps gives_def q_def)
qed


text \<open>An entry: the text of the name, the name, the text of the value and its outcome.\<close>

type_synonym 'o entry = "bytes \<times> 'o pvalue \<times> bytes \<times> (rb_error + 'o pvalue)"

fun entry_text :: "bytes \<Rightarrow> bytes \<Rightarrow> 'o entry \<Rightarrow> bytes" where
  "entry_text pre mid (kt, key, x, v) = pre @ kt @ mid @ x"

fun entry_outcome :: "'o entry \<Rightarrow> rb_error + 'o pvalue \<times> 'o pvalue" where
  "entry_outcome (kt, key, x, v) = map_sum id (Pair key) v"

fun entry_ok :: "'o hooks \<Rightarrow> 'o JSON_Parser \<Rightarrow> 'o parse \<Rightarrow> bytes \<Rightarrow> int \<Rightarrow> 'o entry \<Rightarrow> bool" where
  "entry_ok hk json pv src nest (kt, key, x, v) \<longleftrightarrow>
     reads_name hk json src kt key \<and> x \<noteq> [] \<and> starts_value (hd x) \<and> reads pv src nest x v"

definition enter :: "('k \<times> 'v) list \<Rightarrow> ('k \<times> 'v) list \<Rightarrow> ('k \<times> 'v) list" where
  "enter kvs h = fold (\<lambda>(k, v) h. hash_aset h k v) kvs h"

lemma enter_simps [simp]: "enter [] h = h" "enter ((k, v) # kvs) h = enter kvs (hash_aset h k v)"
  by (simp_all add: enter_def)

lemma object_rest:
  assumes "plain_parser json" "path object_next 9 pre = 10" "hd pre = 0x2C" "pre \<noteq> []" "path object_next 3 mid = 8" "white cl"
  shows "list_all (entry_ok hk json pv src nest) es \<Longrightarrow> idle w \<Longrightarrow>
     text_at src p (concat (map (entry_text pre mid) es) @ cl @ [0x7D]) \<Longrightarrow> 2 * length es < k \<Longrightarrow>
     \<exists>w'. idle w' \<and> object_loop hk json pv src nest k 9 p name (PHash h) w =
       (case collect (map entry_outcome es) of Inl e \<Rightarrow> Some (w', Inl e)
          | Inr us \<Rightarrow> Some (w', Inr (Some (p + length (concat (map (entry_text pre mid) es) @ cl)), PHash (enter us h))))"
proof (induction es arbitrary: p w h k name)
  case Nil
  then obtain j where "k = Suc j" by (cases k) auto
  with object_end [of src p cl 9 hk json pv nest j name "PHash h" w] Nil white_path(2) [OF assms(6), of 9] show ?case by auto
next
  case (Cons e es)
  obtain kt key x v where e: "e = (kt, key, x, v)" by (cases e) auto
  obtain j where k: "k = Suc (Suc j)" "2 * length es < j"
    using Cons.prems(4) by (cases k; cases "k - 1") auto
  have x: "reads_name hk json src kt key" "x \<noteq> []" "starts_value (hd x)" "reads pv src nest x v" using Cons.prems(1) e by auto
  let ?rest = "concat (map (entry_text pre mid) es) @ cl @ [0x7D]"
  have at: "text_at src p (pre @ kt @ mid @ x @ ?rest)" using Cons.prems(3) e by simp
  then have rest: "text_at src (p + length (pre @ kt @ mid @ x)) ?rest"
    using text_at_append [of src p "pre @ kt @ mid @ x" ?rest] by simp
  have ends: "ends_value src (p + length (pre @ kt @ mid @ x))"
  proof (cases es)
    case Nil
    with rest show ?thesis using ends_white [OF assms(6), of src _ "0x7D" "[]"] by simp
  next
    case (Cons e' es')
    obtain pre' where "pre = 0x2C # pre'" using assms(3,4) by (cases pre) auto
    with Cons rest show ?thesis using ends_white [of "[]" src _ "0x2C"] by (cases e') simp
  qed
  have st: "path object_next 9 pre \<in> {2, 10}" "9 \<noteq> (0 :: nat)" using assms(2) by simp_all
  obtain w' where w': "idle w'" "object_loop hk json pv src nest (Suc (Suc j)) 9 p name (PHash h) w =
    (case v of Inl e \<Rightarrow> Some (w', Inl e)
       | Inr v \<Rightarrow> object_loop hk json pv src nest j 9 (p + length (pre @ kt @ mid @ x)) key (PHash (hash_aset h key v)) w')"
    by (rule object_entry [OF assms(1) Cons.prems(2) at st x(1) assms(5) x(3,2,4) ends])
  show ?case
  proof (cases v)
    case (Inl err)
    with w' k e show ?thesis by auto
  next
    case (Inr u)
    from Cons.IH [OF _ w'(1) rest k(2), of key "hash_aset h key u"] Cons.prems(1)
    obtain w'' where "idle w''" "object_loop hk json pv src nest j 9 (p + length (pre @ kt @ mid @ x)) key (PHash (hash_aset h key u)) w' =
       (case collect (map entry_outcome es) of Inl e \<Rightarrow> Some (w'', Inl e)
          | Inr us \<Rightarrow> Some (w'', Inr (Some (p + length (pre @ kt @ mid @ x) + length (concat (map (entry_text pre mid) es) @ cl)),
              PHash (enter us (hash_aset h key u)))))" by auto
    with w' k e Inr show ?thesis
      by (cases "collect (map entry_outcome es)") (auto simp: add.assoc)
  qed
qed

lemma object_text:
  assumes "plain_parser json" "\<not> too_deep_nesting json nest" "idle w" "white nl" "white ind" "white cl" "white sb" "white sp"
    "list_all (entry_ok hk json pv src nest) es" "mid = sb @ [0x3A] @ sp"
    "text_at src p bs" "bs = [0x7B] @ sep_concat [0x2C] (map (entry_text (nl @ ind) mid) es) @ cl @ [0x7D]"
  shows "\<exists>w'. idle w' \<and> JSON_parse_object hk json pv src p nest w =
    (case collect (map entry_outcome es) of Inl e \<Rightarrow> Some (w', Inl e)
       | Inr us \<Rightarrow> Some (w', Inr (Some (p + length bs), PHash (hash_of us))))"
proof -
  have open1: "path object_next 1 [0x7B] = 2" by (simp add: object_tables)
  have loop: "JSON_parse_object hk json pv src p nest w = act_then (object_loop hk json pv src nest (Suc (length src)) 1 p PNil (PHash []) w)
      (\<lambda>w (p, result). case p of None \<Rightarrow> gives w (None, result) | Some p \<Rightarrow> gives w (Some (p + 1), result))"
  proof -
    have "object_created hk json = rb_return" using assms(1) by (intro ext) (simp add: object_created_def plain_parser_def)
    moreover have "act_then (stay s (rb_return x)) f = f s x" for s x and f :: "work \<Rightarrow> 'a pvalue \<Rightarrow> (work, nat option \<times> 'a pvalue) act"
      by (simp add: act_then_def stay_def rb_return_def)
    ultimately show ?thesis using assms(1,2) by (simp add: JSON_parse_object_def plain_parser_def cong: option.case_cong)
  qed
  have mid: "path object_next 3 mid = 8"
  proof -
    have "path object_next 3 (sb @ [0x3A]) = 8"
      using path_append [of object_next 3 sb "[0x3A]"] white_path(2) [OF assms(7), of 3] by (simp add: object_tables)
    then show ?thesis using path_append [of object_next 3 "sb @ [0x3A]" sp] white_path(2) [OF assms(8), of 8] assms(10) by simp
  qed
  show ?thesis
  proof (cases es)
    case Nil
    let ?pre = "[0x7B] @ cl"
    have "path object_next 1 ?pre = 2"
      using path_append [of object_next 1 "[0x7B]" cl] white_path(2) [OF assms(6), of 2] open1 by simp
    moreover have "text_at src p (?pre @ [0x7D])" using assms(11,12) Nil by simp
    ultimately show ?thesis
      using object_end [of src p ?pre 1 hk json pv nest "length src" PNil "PHash []" w] assms(3,12) Nil loop
      by (auto simp: act_then_def gives_def hash_of_def)
  next
    case (Cons e es')
    obtain kt key x v where e: "e = (kt, key, x, v)" by (cases e) auto
    have x: "reads_name hk json src kt key" "x \<noteq> []" "starts_value (hd x)" "reads pv src nest x v" using assms(9) Cons e by auto
    let ?pre = "[0x7B] @ nl @ ind" and ?sep = "[0x2C] @ nl @ ind"
    let ?rest = "concat (map (entry_text ?sep mid) es') @ cl @ [0x7D]"
    have sep_text: "[0x2C] @ entry_text (nl @ ind) mid e = entry_text ?sep mid e" for e :: "'a entry" by (cases e) simp
    have bs: "bs = ?pre @ kt @ mid @ x @ ?rest" using assms(12) Cons e by (simp add: comp_def sep_text [simplified])
    have st: "path object_next 1 ?pre \<in> {2, 10}" "1 \<noteq> (0 :: nat)"
      using path_append [of object_next 1 "[0x7B]" "nl @ ind"] white_path(2) [of "nl @ ind" 2] open1 assms(4,5) by simp_all
    have comma: "path object_next 9 [0x2C] = 10" by (simp add: object_tables)
    have sep: "path object_next 9 ?sep = 10"
      using path_append [of object_next 9 "[0x2C]" "nl @ ind"] white_path(2) [of "nl @ ind" 10] comma assms(4,5) by simp
    have rest: "text_at src (p + length (?pre @ kt @ mid @ x)) ?rest"
      using assms(11) bs text_at_append [of src p "?pre @ kt @ mid @ x" ?rest] by simp
    have ends: "ends_value src (p + length (?pre @ kt @ mid @ x))"
    proof (cases es')
      case Nil
      with rest show ?thesis using ends_white [OF assms(6), of src _ "0x7D" "[]"] by simp
    next
      case (Cons e' es'')
      with rest show ?thesis using ends_white [of "[]" src _ "0x2C"] by (cases e') simp
    qed
    have len: "2 * length es' < length src - 1"
    proof -
      have "2 * length es' \<le> length (concat (map (entry_text ?sep mid) es'))"
        using assms(10) by (induction es') (auto split: prod.splits)
      moreover have "text_at src p bs" "length bs \<ge> 3 + length (concat (map (entry_text ?sep mid) es'))"
        using assms(11) bs x(2) by (auto simp: Suc_le_eq)
      ultimately show ?thesis by (auto simp: text_at_def)
    qed
    then obtain j where j: "length src = Suc j" "2 * length es' < j" by (cases "length src") auto
    obtain w' where w': "idle w'" "object_loop hk json pv src nest (Suc (Suc j)) 1 p PNil (PHash []) w =
      (case v of Inl e \<Rightarrow> Some (w', Inl e)
         | Inr v \<Rightarrow> object_loop hk json pv src nest j 9 (p + length (?pre @ kt @ mid @ x)) key (PHash (hash_aset [] key v)) w')"
      using assms(11) bs by - (rule object_entry [OF assms(1,3) _ st x(1) mid x(3,2,4) ends], simp)
    show ?thesis
    proof (cases v)
      case (Inl err)
      with w' loop Cons e j show ?thesis by (auto simp: act_then_def)
    next
      case (Inr u)
      have "list_all (entry_ok hk json pv src nest) es'" using assms(9) Cons by simp
      from object_rest [OF assms(1) sep _ _ mid assms(6) this w'(1) rest j(2), of key "hash_aset [] key u"]
      obtain w'' where "idle w''" "object_loop hk json pv src nest j 9 (p + length (?pre @ kt @ mid @ x)) key (PHash (hash_aset [] key u)) w' =
       (case collect (map entry_outcome es') of Inl e \<Rightarrow> Some (w'', Inl e)
          | Inr us \<Rightarrow> Some (w'', Inr (Some (p + length (?pre @ kt @ mid @ x) + length (concat (map (entry_text ?sep mid) es') @ cl)),
              PHash (enter us (hash_aset [] key u)))))" by auto
      with w' loop Cons e Inr bs j show ?thesis
        by (cases "collect (map entry_outcome es')")
          (auto simp: act_then_def gives_def hash_of_def enter_def add.assoc)
    qed
  qed
qed


section \<open>Documents\<close>

definition tree_outcome :: "'o JSON_Parser \<Rightarrow> int \<Rightarrow> json \<Rightarrow> rb_error + 'o pvalue" where
  "tree_outcome json nest t =
     (if fits json nest t then Inr (tree_value t) else Inl (NestingError (jp_max_nesting json + 1)))"

lemma collect_uniform:
  "collect (map (\<lambda>t. if P t then Inr (f t) else Inl e) ts) = (if \<forall>t \<in> set ts. P t then Inr (map f ts) else Inl e)"
  by (induction ts) auto

lemma is_text_render:
  assumes "is_text t"
  obtains cps where "list_all scalar cps" "render c d t = [0x22] @ concat (map (\<lambda>cp. escape_of c (encode cp)) cps) @ [0x22]"
    "tree_value t = PString (utf8 cps)" "nesting t = 0"
  using assms by (auto simp: is_text_def comp_def utf8_def)

lemma readable_escape_of: "readable_escape (escape_of c)"
  by (simp add: escape_of_def readable_escapes)

lemma render_starts: "readable t \<Longrightarrow> \<exists>b bs. render c d t = b # bs \<and> starts_value b"
proof (cases t)
  case (JInt i)
  then show ?thesis using decimal_starts [of i] by auto
qed (auto simp: starts_value_def)

lemma name_reads:
  fixes json :: "'o JSON_Parser"
  assumes "is_text t" "plain_parser json"
  shows "reads_name hk json src (render c d t) (tree_value t)"
proof -
  obtain cps where c: "list_all scalar cps" "render c d t = [0x22] @ concat (map (\<lambda>cp. escape_of c (encode cp)) cps) @ [0x22]"
    "tree_value t = (PString (utf8 cps) :: 'o pvalue)" using is_text_render [OF assms(1)] by metis
  have "\<exists>w'. usable w' \<and> JSON_parse_string hk json src p w = Some (w', Inr (Some (p + length (render c d t)), tree_value t))"
    if "usable w" "text_at src p (render c d t)" for p w
    using parse_string_text [OF assms(2) readable_escape_of c(1) that(1), of src p c hk] that c(2,3) by simp
  then show ?thesis unfolding reads_name_def c(2) by simp
qed

text \<open>The first character of a value, and the words.\<close>

declare JSON_parse_value.simps [simp del]

lemma value_first:
  assumes "p < length src" "value_next 1 (sint (src ! p)) = Tr k"
  shows "JSON_parse_value hk json src (Suc n) p nest w = value_action hk json (JSON_parse_value hk json src n) src nest k p w"
  using scan_label [of p src value_next 1 k] assms by (simp add: JSON_parse_value.simps)

lemma value_word:
  assumes "text_at src p (pre @ [b])" "path value_next 1 pre = s" "s \<noteq> 0" "value_next s (sint b) = Tr k"
  shows "JSON_parse_value hk json src (Suc n) p nest w =
    value_action hk json (JSON_parse_value hk json src n) src nest k (p + length pre) w"
proof -
  have "scan value_next src 1 p = scan value_next src s (p + length pre)"
    using scan_path [of src p pre 1 value_next] assms(1-3) by (simp add: text_at_append)
  also have "\<dots> = Some (Act k (p + length pre))"
    using assms(1,4) by (intro scan_label) (simp_all add: text_at_append text_at_nth)
  finally show ?thesis by (simp add: JSON_parse_value.simps)
qed

lemma word_reads:
  assumes "path value_next 1 pre = s" "s \<noteq> 0" "value_next s (sint b) = Tr k" "(k, v) \<in> {(31, PFalse), (34, PNil), (37, PTrue)}"
  shows "reads (JSON_parse_value hk json src (Suc m)) src nest (pre @ [b]) (Inr v)"
  unfolding reads_def
proof (intro allI impI)
  fix p w assume w: "idle w" "text_at src p (pre @ [b])"
  have "JSON_parse_value hk json src (Suc m) p nest w = value_action hk json (JSON_parse_value hk json src m) src nest k (p + length pre) w"
    by (rule value_word [OF w(2) assms(1-3)])
  with w(1) assms(4) show "\<exists>w'. idle w' \<and> JSON_parse_value hk json src (Suc m) p nest w =
      Some (w', map_sum id (\<lambda>v. Some (p + length (pre @ [b]), v)) (Inr v))"
    by (auto simp: value_action_def gives_def)
qed

lemma decimal_reads:
  assumes "length src < 2 ^ 62"
  shows "reads (JSON_parse_value hk json src (Suc m)) src nest (decimal i) (Inr (PInt i))"
  unfolding reads_def
proof (intro allI impI)
  fix p w assume w: "idle w" and at: "text_at src p (decimal i)" and ends: "ends_value src (p + length (decimal i))"
  obtain b bs where b: "decimal i = b # bs" "b = 0x2D \<or> digit b" using decimal_starts [of i] decimal_first [of i] by auto
  then have p: "p < length src" "src ! p = b" using at by (simp_all add: text_at_nth)
  have "value_next 1 (sint (src ! p)) = Tr 3"
  proof (cases "b = 0x2D")
    case False
    then have "digit b" using b(2) by simp
    from digit_sint [OF this] p(2) show ?thesis by (auto simp: value_next_def value_begin_def)
  qed (simp add: p(2) value_next_def value_begin_def)
  from value_first [OF p(1) this, of hk json m nest w]
  have "JSON_parse_value hk json src (Suc m) p nest w = parse_number json src p w"
    by (simp add: value_action_def)
  then show "\<exists>w'. idle w' \<and> JSON_parse_value hk json src (Suc m) p nest w =
      Some (w', map_sum id (\<lambda>v. Some (p + length (decimal i), v)) (Inr (PInt i)))"
    using parse_number_text [OF at ends _ assms, of w json] w by (auto simp: idle_def)
qed

text \<open>The limit for the entries of a container.\<close>

lemma fits_container:
  assumes "\<not> too_deep_nesting json (nest + 1)"
  shows "fits json nest (JArray ts) \<longleftrightarrow> (\<forall>t \<in> set ts. fits json (nest + 1) t)"
    "fits json nest (JObject kvs) \<longleftrightarrow> (\<forall>(k, v) \<in> set kvs. fits json (nest + 1) k \<and> fits json (nest + 1) v)"
proof -
  define c where "c = (undefined :: config) \<lparr>c_max_nesting := jp_max_nesting json\<rparr>"
  have f: "fits json d t \<longleftrightarrow> nesting_ok c d t" for d t by (simp add: fits_def nesting_ok_def c_def)
  have "c_max_nesting c = 0 \<or> nest + 1 \<le> c_max_nesting c" using assms by (auto simp: too_deep_nesting_def c_def)
  then show "fits json nest (JArray ts) \<longleftrightarrow> (\<forall>t \<in> set ts. fits json (nest + 1) t)"
    "fits json nest (JObject kvs) \<longleftrightarrow> (\<forall>(k, v) \<in> set kvs. fits json (nest + 1) k \<and> fits json (nest + 1) v)"
    by (auto simp: f nesting_ok_array nesting_ok_object list_all_iff)
qed

lemma deep_outcome:
  assumes "too_deep_nesting json (nest + 1)" "jp_max_nesting json = 0 \<or> nest \<le> jp_max_nesting json" "0 < nesting t"
  shows "tree_outcome json nest t = Inl (NestingError (nest + 1))"
  using assms by (auto simp: tree_outcome_def fits_def too_deep_nesting_def)

lemma collect_array:
  "\<not> too_deep_nesting json (nest + 1) \<Longrightarrow>
   map_sum id (\<lambda>us. (q, PArray us)) (collect (map (tree_outcome json (nest + 1)) ts)) =
   map_sum id (Pair q) (tree_outcome json nest (JArray ts))"
  by (simp add: tree_outcome_def [abs_def] collect_uniform fits_container)

lemma nesting_entries:
  "nesting (JArray ts) < Suc n \<Longrightarrow> t \<in> set ts \<Longrightarrow> nesting t < n"
  "nesting (JObject kvs) < Suc n \<Longrightarrow> (k, v) \<in> set kvs \<Longrightarrow> nesting v < n"
  using foldr_max_le [of t ts nesting] foldr_max_le [of "(k, v)" kvs "\<lambda>(k, v). max (nesting k) (nesting v)"] by auto

lemma tree_reads:
  fixes json :: "'o JSON_Parser"
  assumes "plain_parser json" "white_config c" "length src < 2 ^ 62"
  shows "readable t \<Longrightarrow> nesting t < n \<Longrightarrow> jp_max_nesting json = 0 \<or> nest \<le> jp_max_nesting json \<Longrightarrow>
    reads (JSON_parse_value hk json src n) src nest (render c d t) (tree_outcome json nest t)"
  using assms(2)
proof (induction c d t arbitrary: n nest rule: render.induct)
  case (6 c d cs)
  obtain m where n: "n = Suc m" using 6 by (cases n) auto
  obtain cps where s: "list_all scalar cps" "render c d (JString cs) = [0x22] @ concat (map (\<lambda>cp. escape_of c (encode cp)) cps) @ [0x22]"
    "tree_value (JString cs) = (PString (utf8 cps) :: 'o pvalue)" using 6 is_text_render [of "JString cs"] by (metis readable.simps(2))
  show ?case
    unfolding reads_def n
  proof (intro allI impI)
    fix p w assume w: "idle w" and at: "text_at src p (render c d (JString cs))"
    then have "p < length src" "src ! p = 0x22" by (auto simp: text_at_nth)
    then have "JSON_parse_value hk json src (Suc m) p nest w = value_action hk json (JSON_parse_value hk json src m) src nest 2 p w"
      by (intro value_first) (simp_all add: value_next_def value_begin_def)
    moreover have "JSON_parse_string hk json src p w = Some (w\<lparr>memo := p\<rparr>, Inr (Some (p + length (render c d (JString cs))), PString (utf8 cps)))"
      using parse_string_text [OF assms(1) readable_escape_of s(1), of w src p c hk] w at s(2) by (simp add: idle_def)
    ultimately show "\<exists>w'. idle w' \<and> JSON_parse_value hk json src (Suc m) p nest w =
        Some (w', map_sum id (\<lambda>v. Some (p + length (render c d (JString cs)), v)) (tree_outcome json nest (JString cs)))"
      using w s(3) by (simp add: value_action_def act_then_def gives_def tree_outcome_def fits_def idle_def)
  qed
next
  case (7 c d ts)
  obtain m where n: "n = Suc m" using 7 by (cases n) auto
  let ?t = "JArray ts" and ?pv = "JSON_parse_value hk json src m"
  let ?nl = "opt_bytes (c_array_nl c)" and ?ind = "repeat (nat (d + 1)) (c_indent c)"
    and ?cl = "closing (c_array_nl c) (c_indent c) d"
  let ?es = "map (\<lambda>t. (render c (d + 1) t, tree_outcome json (nest + 1) t)) ts"
  have white: "white ?nl" "white ?ind" "white ?cl" using 7(5) white_closing by (auto simp: white_config_def white_repeat)
  show ?case
    unfolding reads_def n
  proof (intro allI impI)
    fix p w assume w: "idle w" and at: "text_at src p (render c d ?t)"
    then have "p < length src" "src ! p = 0x5B" by (auto simp: text_at_nth)
    then have first: "JSON_parse_value hk json src (Suc m) p nest w = value_action hk json ?pv src nest 7 p w"
      by (intro value_first) (simp_all add: value_next_def value_begin_def)
    have array: "\<exists>w'. idle w' \<and> JSON_parse_array hk json ?pv src p (nest + 1) w =
        Some (w', map_sum id (Pair (p + length (render c d ?t))) (tree_outcome json nest ?t))"
    proof (cases "too_deep_nesting json (nest + 1)")
      case True
      with w deep_outcome [OF True 7(4), of ?t] show ?thesis by (auto simp: JSON_parse_array_def)
    next
      case False
      then have "jp_max_nesting json = 0 \<or> nest + 1 \<le> jp_max_nesting json" by (auto simp: too_deep_nesting_def)
      then have "reads ?pv src (nest + 1) (render c (d + 1) t) (tree_outcome json (nest + 1) t)" if "t \<in> set ts" for t
        using 7(1) [OF that, of m "nest + 1"] 7(2,3,5) that nesting_entries(1) n by auto
      then have "list_all (\<lambda>(x, v). x \<noteq> [] \<and> starts_value (hd x) \<and> reads ?pv src (nest + 1) x v) ?es"
        using 7(2) render_starts [of _ c "d + 1"] by (fastforce simp: list_all_iff)
      moreover have "render c d ?t = [0x5B] @ ?nl @ sep_concat ([0x2C] @ ?nl) (map (\<lambda>e. ?ind @ fst e) ?es) @ ?cl @ [0x5D]"
        by (simp add: comp_def)
      ultimately have "\<exists>w'. idle w' \<and> JSON_parse_array hk json ?pv src p (nest + 1) w =
          Some (w', map_sum id (\<lambda>us. (p + length (render c d ?t), PArray us)) (collect (map snd ?es)))"
        by (rule array_text [OF assms(1) False w white _ at])
      moreover have "map snd ?es = map (tree_outcome json (nest + 1)) ts" by simp
      ultimately show ?thesis using collect_array [OF False, of "p + length (render c d ?t)" ts] by (simp only:)
    qed
    then show "\<exists>w'. idle w' \<and> JSON_parse_value hk json src (Suc m) p nest w =
        Some (w', map_sum id (\<lambda>v. Some (p + length (render c d ?t), v)) (tree_outcome json nest ?t))"
      unfolding first by (cases "tree_outcome json nest ?t") (auto simp: value_action_def act_then_def gives_def)
  qed
next
  case (8 c d kvs)
  obtain m where n: "n = Suc m" using 8 by (cases n) auto
  let ?t = "JObject kvs" and ?pv = "JSON_parse_value hk json src m"
  let ?nl = "opt_bytes (c_object_nl c)" and ?ind = "repeat (nat (d + 1)) (c_indent c)"
    and ?cl = "closing (c_object_nl c) (c_indent c) d" and ?mid = "c_space_before c @ [0x3A] @ c_space c"
  let ?es = "map (\<lambda>(k, v). (render c (d + 1) k, tree_value k, render c (d + 1) v, tree_outcome json (nest + 1) v)) kvs"
  have white: "white ?nl" "white ?ind" "white ?cl" "white (c_space_before c)" "white (c_space c)"
    using 8(6) white_closing by (auto simp: white_config_def white_repeat)
  show ?case
    unfolding reads_def n
  proof (intro allI impI)
    fix p w assume w: "idle w" and at: "text_at src p (render c d ?t)"
    then have "p < length src" "src ! p = 0x7B" by (auto simp: text_at_nth)
    then have first: "JSON_parse_value hk json src (Suc m) p nest w = value_action hk json ?pv src nest 11 p w"
      by (intro value_first) (simp_all add: value_next_def value_begin_def)
    have "\<exists>w'. idle w' \<and> JSON_parse_object hk json ?pv src p (nest + 1) w =
        Some (w', map_sum id (Pair (Some (p + length (render c d ?t)))) (tree_outcome json nest ?t))"
    proof (cases "too_deep_nesting json (nest + 1)")
      case True
      with w deep_outcome [OF True 8(5), of ?t] show ?thesis by (auto simp: JSON_parse_object_def)
    next
      case False
      then have lim: "jp_max_nesting json = 0 \<or> nest + 1 \<le> jp_max_nesting json" by (auto simp: too_deep_nesting_def)
      have "reads ?pv src (nest + 1) (render c (d + 1) v) (tree_outcome json (nest + 1) v)" if "(k, v) \<in> set kvs" for k v
      proof -
        have "readable v" using 8(3) that by auto
        moreover have "nesting v < m" using nesting_entries(2) [OF _ that] 8(4) n by simp
        ultimately show ?thesis using 8(2) [OF that refl] lim 8(6) by blast
      qed
      then have ok: "list_all (entry_ok hk json ?pv src (nest + 1)) ?es"
        using 8(3) render_starts [of _ c "d + 1"] name_reads [OF _ assms(1)] by (fastforce simp: list_all_iff)
      have "render c d ?t = [0x7B] @ sep_concat [0x2C] (map (entry_text (?nl @ ?ind) ?mid) ?es) @ ?cl @ [0x7D]"
        by (simp add: comp_def case_prod_unfold)
      from object_text [OF assms(1) False w white ok refl at this]
      obtain w' where w': "idle w'" "JSON_parse_object hk json ?pv src p (nest + 1) w =
        (case collect (map entry_outcome ?es) of Inl e \<Rightarrow> Some (w', Inl e)
           | Inr us \<Rightarrow> Some (w', Inr (Some (p + length (render c d ?t)), PHash (hash_of us))))" by blast
      define Q where "Q \<longleftrightarrow> (\<forall>(k, v) \<in> set kvs. fits json (nest + 1) v)"
      have all: "collect (map entry_outcome ?es) = (if \<forall>(k, v) \<in> set kvs. fits json (nest + 1) v
          then Inr (map (\<lambda>(k, v). (tree_value k, tree_value v)) kvs) else Inl (NestingError (jp_max_nesting json + 1)))"
      proof -
        have "map entry_outcome ?es = map (\<lambda>kv. if fits json (nest + 1) (snd kv)
            then Inr (tree_value (fst kv), tree_value (snd kv)) else Inl (NestingError (jp_max_nesting json + 1))) kvs"
          by (auto simp: tree_outcome_def)
        then show ?thesis by (simp only: collect_uniform) (simp add: case_prod_unfold)
      qed
      have f: "fits json nest ?t \<longleftrightarrow> (\<forall>(k, v) \<in> set kvs. fits json (nest + 1) v)"
      proof -
        have "fits json (nest + 1) k" if "(k, v) \<in> set kvs" for k v
          using 8(3) that by (fastforce simp: fits_def is_text_def)
        then show ?thesis unfolding fits_container(2) [OF False] by blast
      qed
      have "JSON_parse_object hk json ?pv src p (nest + 1) w =
          Some (w', map_sum id (Pair (Some (p + length (render c d ?t)))) (tree_outcome json nest ?t))"
        unfolding w'(2) all unfolding tree_outcome_def f Q_def [symmetric]
        by (cases Q) (simp_all only: if_True if_False sum.case map_sum.simps id_apply tree_value.simps)
      with w'(1) show ?thesis by blast
    qed
    then show "\<exists>w'. idle w' \<and> JSON_parse_value hk json src (Suc m) p nest w =
        Some (w', map_sum id (\<lambda>v. Some (p + length (render c d ?t), v)) (tree_outcome json nest ?t))"
      unfolding first by (cases "tree_outcome json nest ?t") (auto simp: value_action_def act_then_def gives_def)
  qed
next
  case (1 c d)
  have "path value_next 1 [0x6E, 0x75, 0x6C] = 25" "value_next 25 (sint (0x6C :: u8)) = Tr 34" by code_simp+
  moreover obtain m where "n = Suc m" using 1 by (cases n) auto
  ultimately show ?case using word_reads [of "[0x6E, 0x75, 0x6C]" 25 "0x6C" 34 PNil hk json src m nest]
    by (simp add: tree_outcome_def fits_def)
next
  case (2 c d)
  have "path value_next 1 [0x66, 0x61, 0x6C, 0x73] = 22" "value_next 22 (sint (0x65 :: u8)) = Tr 31" by code_simp+
  moreover obtain m where "n = Suc m" using 2 by (cases n) auto
  ultimately show ?case using word_reads [of "[0x66, 0x61, 0x6C, 0x73]" 22 "0x65" 31 PFalse hk json src m nest]
    by (simp add: tree_outcome_def fits_def)
next
  case (3 c d)
  have "path value_next 1 [0x74, 0x72, 0x75] = 28" "value_next 28 (sint (0x65 :: u8)) = Tr 37" by code_simp+
  moreover obtain m where "n = Suc m" using 3 by (cases n) auto
  ultimately show ?case using word_reads [of "[0x74, 0x72, 0x75]" 28 "0x65" 37 PTrue hk json src m nest]
    by (simp add: tree_outcome_def fits_def)
next
  case (4 c d i)
  then obtain m where "n = Suc m" by (cases n) auto
  then show ?case using decimal_reads [OF assms(3), of hk json m nest i] by (simp add: tree_outcome_def fits_def)
qed simp


text \<open>A whole document, between white space.\<close>

lemma document_between:
  fixes pv :: "'o parse"
  assumes "white ws" "white ws'" "src = ws @ x @ ws'" "x = b # bs" "starts_value b"
  shows "parse_document pv src w = act_then (pv (length ws) 0 w) (\<lambda>w v.
      case v of
        None \<Rightarrow> unexpected w src 743 (length ws)
      | Some (np, result) \<Rightarrow> do {
          r \<leftarrow> scan document_next src 10 np;
          let (cs, p) = outcome r;
          if cs \<ge> 10 \<and> p = length src then gives w result else unexpected w src 743 p
        })"
    "scan document_next src 10 (length ws + length x) = Some (Eof 10 (length src))"
proof -
  define p q where "p = length ws" and "q = p + length x"
  have at: "text_at src 0 ws" "text_at src p x" "text_at src q ws'"
    using assms(3) by (simp_all add: text_at_def p_def q_def)
  then have p: "p < length src" "src ! p = b" using assms(4) by (simp_all add: text_at_nth)
  have "scan document_next src 1 0 = scan document_next src 1 p"
    using scan_path [OF at(1), of 1 document_next] white_path(3) [OF assms(1), of 1] by (simp add: p_def)
  also have "\<dots> = Some (Act 2 p)" using p starts_value_tables(3) [OF assms(5)] by (intro scan_label) simp_all
  finally have first: "scan document_next src 1 0 = Some (Act 2 p)" .
  show "parse_document pv src w = act_then (pv (length ws) 0 w) (\<lambda>w v.
      case v of
        None \<Rightarrow> unexpected w src 743 (length ws)
      | Some (np, result) \<Rightarrow> do {
          r \<leftarrow> scan document_next src 10 np;
          let (cs, p) = outcome r;
          if cs \<ge> 10 \<and> p = length src then gives w result else unexpected w src 743 p
        })"
    unfolding parse_document_def first p_def by (simp only: bind.bind_lunit stop.case)
  have "scan document_next src 10 q = scan document_next src 10 (length src)"
    using scan_path [OF at(3), of 10 document_next] white_path(3) [OF assms(2), of 10] assms(3) by (simp add: p_def q_def add.assoc)
  then show "scan document_next src 10 (length ws + length x) = Some (Eof 10 (length src))"
    by (simp add: scan_stop p_def q_def)
qed

lemma document_value:
  fixes pv :: "'o parse"
  assumes "white ws" "white ws'" "src = ws @ x @ ws'" "x = b # bs" "starts_value b"
    "pv (length ws) 0 w = Some (w', map_sum id (\<lambda>v. Some (length ws + length x, v)) r)"
  shows "parse_document pv src w = Some (w', r)"
  using assms(6) document_between(2) [OF assms(1-5)]
  by (cases r) (simp_all add: document_between(1) [OF assms(1-5)] act_then_def gives_def)

lemma document_reads:
  fixes json :: "'o JSON_Parser"
  assumes "plain_parser json" "white_config c" "readable t" "nesting t < n" "idle w" "white ws" "white ws'"
    "src = ws @ render c d t @ ws'" "length src < 2 ^ 62"
  shows "\<exists>w'. idle w' \<and> parse_document (JSON_parse_value hk json src n) src w = Some (w', tree_outcome json 0 t)"
proof -
  let ?p = "length ws" and ?q = "length ws + length (render c d t)"
  obtain b bs where b: "render c d t = b # bs" "starts_value b" using render_starts [OF assms(3)] by metis
  have at: "text_at src ?p (render c d t)" "text_at src ?q ws'"
    using assms(8) by (simp_all add: text_at_def)
  have ends: "ends_value src ?q"
  proof (cases ws')
    case Nil
    then show ?thesis using assms(8) by (simp add: ends_value_def)
  next
    case (Cons x xs)
    with at(2) assms(7) show ?thesis by (auto simp: ends_value_def text_at_nth white_def)
  qed
  have "jp_max_nesting json = 0 \<or> 0 \<le> jp_max_nesting json" using assms(1) by (simp add: plain_parser_def)
  from readsD [OF tree_reads [OF assms(1,2,9,3,4) this] assms(5) at(1) ends]
  obtain w' where w': "idle w'"
      "JSON_parse_value hk json src n ?p 0 w = Some (w', map_sum id (\<lambda>v. Some (?q, v)) (tree_outcome json 0 t))" .
  have "parse_document (JSON_parse_value hk json src n) src w = Some (w', tree_outcome json 0 t)"
    by (rule document_value [OF assms(6-8) b]) (rule w'(2))
  with w'(1) show ?thesis by blast
qed

end
