(* ===== verification/Json_Strings.thy ===== *)
theory Json_Strings
  imports Json_Roundtrip
begin

text \<open>
  Strings of the parser beyond what the generator writes: which texts the machine accepts, and what
  becomes of the escape of a high surrogate that no escape follows. The first half of a pair is not
  read before twelve characters are left for the pair; with fewer the result is \<open>nil\<close>. With enough
  of them the escape becomes a question mark and the character behind it is passed over.
\<close>

section \<open>What the machine accepts\<close>

lemma escape_rows: "string_next 2 92 = St 3" "string_next 3 117 = St 4"
  by (simp_all add: string_next_def string_text_def string_escape_def)

lemma scan_body:
  "string_body src p e \<Longrightarrow> e < length src \<Longrightarrow> src ! e = 0x22 \<Longrightarrow> scan string_next src 2 p = Some (Act 2 e)"
proof (induction rule: string_body.induct)
  case (body_end e)
  then show ?case using string_text_row [of "src ! e"] by (intro scan_label) simp_all
next
  case (body_plain p e)
  then show ?case by (simp add: scan_step string_text_row)
next
  case (body_short p e)
  then have "scan string_next src 3 (p + 1) = scan string_next src 2 (p + 2)"
    by (simp add: scan_step string_escape_row)
  with body_short show ?case by (simp add: scan_step escape_rows)
next
  case (body_unicode p e)
  have s: "p + 3 = Suc (p + 2)" "p + 4 = Suc (p + 3)" "p + 5 = Suc (p + 4)" "p + 6 = Suc (p + 5)" by simp_all
  have h: "scan string_next src 4 (p + 2) = scan string_next src 5 (p + 3)"
    "scan string_next src 5 (p + 3) = scan string_next src 6 (p + 4)"
    "scan string_next src 6 (p + 4) = scan string_next src 7 (p + 5)"
    "scan string_next src 7 (p + 5) = scan string_next src 2 (p + 6)"
    using body_unicode.hyps(1,4-7) by (simp_all add: scan_step string_hex_row s)
  have "scan string_next src 2 p = scan string_next src 3 (p + 1)"
    using body_unicode.hyps(1,2) by (simp add: scan_step escape_rows)
  also have "\<dots> = scan string_next src 4 (p + 2)"
    using body_unicode.hyps(1,3) by (simp add: scan_step escape_rows)
  finally show ?case using body_unicode.IH body_unicode.prems by (simp only: h)
qed

lemma scan_body_iff:
  "scan string_next src 2 p = Some (Act k e) \<longleftrightarrow> k = 2 \<and> string_body src p e \<and> e < length src \<and> src ! e = 0x22"
  using scan_body [of src p e] scan_string_body [of src p k e] by auto

lemma scan_string_iff:
  assumes "p < length src"
  shows "scan string_next src 1 p = Some (Act k e) \<longleftrightarrow>
    k = 2 \<and> src ! p = 0x22 \<and> string_body src (p + 1) e \<and> e < length src \<and> src ! e = 0x22"
proof -
  have "string_next 1 (sint (src ! p)) = (if src ! p = 0x22 then St 2 else St 0)"
    by (simp add: string_next_def string_text_def sint_eq word_unat_eq_iff)
  then show ?thesis using assms scan_body_iff [of src "p + 1" k e] by (auto simp: scan_step)
qed

text \<open>The answer of the function, where the text has no surrogates.\<close>

lemma string_answer:
  fixes json :: "'o JSON_Parser"
  assumes "calm json src" "p < length src" "\<not> (symbolize_names json \<and> parsing_name w)"
  shows "\<exists>np s. JSON_parse_string hk json src p w = Some (w\<lparr>memo := p\<rparr>, Inr (np, PString s)) \<and>
    (\<forall>e. np = Some (e + 1) \<longleftrightarrow> src ! p = 0x22 \<and> string_body src (p + 1) e \<and> e < length src \<and> src ! e = 0x22)"
proof -
  obtain cs q s where run: "string_run src p (w\<lparr>memo := p\<rparr>) = Some (cs, q, PString s :: 'o pvalue)" "cs \<ge> 8 \<longrightarrow> p \<le> q \<and> q < length src"
    using string_run_returns [OF assms(1,2), of "w\<lparr>memo := p\<rparr>"] by auto
  have "string_matched hk json (PString s) = rb_return (PString s)"
    using assms(1) by (simp add: string_matched_def calm_def)
  then have "JSON_parse_string hk json src p w = Some (w\<lparr>memo := p\<rparr>, Inr (if cs \<ge> 8 then Some (q + 1) else None, PString s))"
    using run assms(3)
    by (auto simp: JSON_parse_string_def Let_def string_finished_def act_then_def stay_def rb_return_def gives_def)
  moreover have "(if cs \<ge> 8 then Some (q + 1) else None) = Some (e + 1) \<longleftrightarrow> scan string_next src 1 p = Some (Act 2 e)" for e
  proof -
    obtain r where r: "scan string_next src 1 p = Some r" using scan_ends [of p src string_next 1] assms(2) by auto
    show ?thesis
    proof (cases r)
      case (Act k f)
      with r have "k = 2" using scan_string_iff [OF assms(2), of k f] by simp
      then show ?thesis using run r Act by (auto simp: string_run_def split: bind_splits option.splits)
    next
      case (Eof c f)
      have "c < 8" using scan_state [OF string_target] r Eof by auto
      with r Eof run show ?thesis by (auto simp: string_run_def)
    qed (use r run in \<open>auto simp: string_run_def\<close>)
  qed
  ultimately show ?thesis using scan_string_iff [OF assms(2), of 2] by blast
qed

section \<open>The first half of a pair alone\<close>

definition plain_chars :: "bytes \<Rightarrow> bool" where
  "plain_chars bs \<longleftrightarrow> list_all (\<lambda>b. b \<noteq> 0x22 \<and> b \<noteq> 0x5C \<and> 0x20 \<le> unat b) bs"

definition high_surrogate :: "nat \<Rightarrow> bool" where
  "high_surrogate n \<longleftrightarrow> 0xD800 \<le> n \<and> n < 0xDC00"

lemma plain_chars_simps [simp]:
  "plain_chars []" "plain_chars (b # bs) \<longleftrightarrow> b \<noteq> 0x22 \<and> b \<noteq> 0x5C \<and> 0x20 \<le> unat b \<and> plain_chars bs"
  "plain_chars (as @ bs) \<longleftrightarrow> plain_chars as \<and> plain_chars bs"
  by (auto simp: plain_chars_def)

lemma plain_chars_set: "plain_chars bs \<Longrightarrow> 0x5C \<notin> set bs"
  by (auto simp: plain_chars_def list_all_iff)

lemma read_high:
  assumes "text_at src pe (u_escape n)" "pe + 6 \<le> e" "high_surrogate n"
  shows "read_escape src e (pe + 1) = (if pe + 12 > e then Some EscNil else do {
      c0 \<leftarrow> rd src (pe + 6);
      c1 \<leftarrow> rd src (pe + 7);
      if c0 = 0x5C \<and> c1 = 0x75 then do {
        sur \<leftarrow> unescape_unicode src (pe + 8);
        Some (Esc (convert_UTF32_to_UTF8 (surrogate_pair (of_nat n) sur)) (pe + 11))
      }
      else Some (Esc [0x3F] (pe + 6))
    })"
proof -
  have n: "n < 0x10000" "UNI_SUR_HIGH_START = (of_nat n :: u64) AND 0xFC00"
    using assms(3) is_high [of n] by (simp_all add: high_surrogate_def)
  have a: "rd src (pe + 1) = Some 0x75" "text_at src (pe + 2) (hex4 n)"
    using assms(1) by (auto simp: u_escape_def text_at_Cons)
  have s: "pe + 1 + 4 + 1 = pe + 6" "pe + 6 + 1 = pe + 7" "pe + 6 + 2 = pe + 8" "pe + 6 + 5 = pe + 11" "pe + 1 + 1 = pe + 2"
    "pe + 6 + 6 = pe + 12" "\<not> pe + 1 + 4 > e"
    using assms(2) by simp_all
  show ?thesis
    using a(1) n(2) unescape_hex4 [OF n(1) a(2)]
    by (simp only: read_escape_def read_unicode_def Let_def bind.bind_lunit s if_False if_True) simp
qed

text \<open>The escape with too little behind it, and with a character behind it.\<close>

lemma unescape_high_end:
  assumes "text_at src pe (u_escape n)" "pe + 6 \<le> e" "e < pe + 12" "e < length src" "high_surrogate n"
  shows "unescape_loop src e pe pe result = Some None"
proof -
  have "rd src pe = Some 0x5C" using assms(1) by (simp add: u_escape_def text_at_Cons)
  with read_high [OF assms(1,2,5)] assms(2-4) show ?thesis by (subst unescape_loop.simps) simp
qed

lemma unescape_high_swallow:
  assumes "text_at src pe (u_escape n @ [b])" "b \<noteq> 0x5C" "pe + 12 \<le> e" "e < length src" "high_surrogate n"
  shows "unescape_loop src e pe pe result = unescape_loop src e (pe + 7) (pe + 7) (result @ [0x3F])"
proof -
  have a: "text_at src pe (u_escape n)" "rd src pe = Some 0x5C" "rd src (pe + 6) = Some b"
    using assms(1) by (auto simp: text_at_append text_at_Cons) (simp add: u_escape_def text_at_Cons)
  obtain c where "rd src (pe + 7) = Some c" using rd_defined [of "pe + 7" src] assms(3,4) by auto
  with read_high [OF a(1) _ assms(5), of e] a(3) assms(2,3) have "read_escape src e (pe + 1) = Some (Esc [0x3F] (pe + 6))" by simp
  from unescape_step [OF a(2) _ assms(4) this] assms(3) show ?thesis by (simp add: add.commute)
qed

text \<open>Strings with such an escape.\<close>

definition high_string :: "bytes \<Rightarrow> nat \<Rightarrow> bytes \<Rightarrow> bytes" where
  "high_string pre n post = [0x22] @ pre @ u_escape n @ post @ [0x22]"

lemma high_string_scan:
  assumes "text_at src p (high_string pre n post)" "plain_chars pre" "plain_chars post" "high_surrogate n"
  shows "scan string_next src 1 p = Some (Act 2 (p + 7 + length pre + length post))"
proof -
  define q where "q = p + 7 + length pre + length post"
  have at: "p < length src" "src ! p = 0x22" "text_at src (p + 1) (pre @ u_escape n @ post)" "q < length src" "src ! q = 0x22"
    using assms(1) by (auto simp: high_string_def text_at_nth text_at_append q_def add.assoc add.commute add.left_commute)
  have plain: "path string_next 2 pre = 2" "path string_next 2 post = 2"
    using assms(2,3) by (auto simp: plain_chars_def list_all_iff intro!: string_plain)
  have "path string_next 2 (u_escape n) = 2" using assms(4) by (intro string_u_escape) (simp add: high_surrogate_def)
  with plain have "path string_next 2 (pre @ u_escape n @ post) = 2" by (simp add: path_append)
  moreover have "scan string_next src 1 p = scan string_next src 2 (p + 1)"
    using at(1,2) by (simp add: scan_step string_next_def string_text_def)
  ultimately have "scan string_next src 1 p = scan string_next src 2 q"
    using scan_path [OF at(3), of 2 string_next] by (simp add: q_def add.assoc add.commute add.left_commute)
  also have "\<dots> = Some (Act 2 q)"
    using at(4,5) string_text_row [of "src ! q"] by (intro scan_label) simp_all
  finally show ?thesis by (simp add: q_def)
qed

lemma high_string_unescape:
  assumes "text_at src p (high_string pre n post)" "plain_chars pre" "plain_chars post" "high_surrogate n"
  shows "length post < 6 \<Longrightarrow> json_string_unescape [] src (p + 1) (p + 7 + length pre + length post) = Some None"
    "6 \<le> length post \<Longrightarrow> json_string_unescape [] src (p + 1) (p + 7 + length pre + length post) = Some (Some (pre @ [0x3F] @ tl post))"
proof -
  define e pe where "e = p + 7 + length pre + length post" and "pe = p + 1 + length pre"
  have at: "text_at src (p + 1) pre" "text_at src pe (u_escape n @ post)" "e < length src"
    using assms(1) by (auto simp: high_string_def text_at_nth text_at_append e_def pe_def add.assoc add.commute add.left_commute)
  have e: "pe + 6 + length post = e" by (simp add: e_def pe_def)
  have pre: "json_string_unescape [] src (p + 1) e = unescape_loop src e pe pe pre"
    using unescape_plain [OF at(1) plain_chars_set [OF assms(2)] _ at(3), of "[]"] e
    by (simp add: pe_def json_string_unescape_def)
  show "json_string_unescape [] src (p + 1) (p + 7 + length pre + length post) = Some None" if "length post < 6"
    unfolding e_def [symmetric] pre
    using unescape_high_end [of src pe n e pre] at(2,3) e that assms(4) by (simp add: text_at_append)
  show "json_string_unescape [] src (p + 1) (p + 7 + length pre + length post) = Some (Some (pre @ [0x3F] @ tl post))"
    if long: "6 \<le> length post"
  proof -
    obtain b bs where b: "post = b # bs" using long by (cases post) auto
    have at': "text_at src pe (u_escape n @ [b])" "text_at src (pe + 7) bs"
      using at(2) by (simp_all add: b text_at_append text_at_Cons add.commute)
    have "unescape_loop src e pe pe pre = unescape_loop src e (pe + 7) (pe + 7) (pre @ [0x3F])"
      using unescape_high_swallow [OF at'(1) _ _ at(3) assms(4)] assms(3) b e long by simp
    also have "\<dots> = unescape_loop src e e e ((pre @ [0x3F]) @ bs)"
    proof -
      have "pe + 7 + length bs = e" "plain_chars bs" using e b assms(3) by simp_all
      with unescape_plain [OF at'(2) plain_chars_set _ at(3)] show ?thesis by simp
    qed
    also have "\<dots> = Some (Some ((pre @ [0x3F]) @ bs))"
      using at(3) by (subst unescape_loop.simps) (simp add: slice_def)
    finally show ?thesis unfolding e_def [symmetric] pre by (simp add: b)
  qed
qed

text \<open>What the parser makes of a document that is such a string.\<close>

lemma value_high_string:
  fixes json :: "'o JSON_Parser"
  assumes "text_at src p (high_string pre n post)" "plain_chars pre" "plain_chars post" "high_surrogate n"
    "\<not> create_additions json" "\<not> (symbolize_names json \<and> parsing_name w)"
  shows "JSON_parse_value hk json src (Suc m) p nest w =
    (if length post < 6 then None
     else Some (w\<lparr>memo := p\<rparr>, Inr (Some (p + length (high_string pre n post), PString (pre @ [0x3F] @ tl post)))))"
proof -
  have "p < length src" "src ! p = 0x22" using assms(1) by (simp_all add: high_string_def text_at_nth)
  then have "JSON_parse_value hk json src (Suc m) p nest w = value_action hk json (JSON_parse_value hk json src m) src nest 2 p w"
    by (intro value_first) (simp_all add: value_next_def value_begin_def)
  also have "\<dots> = (if length post < 6 then None
     else Some (w\<lparr>memo := p\<rparr>, Inr (Some (p + length (high_string pre n post), PString (pre @ [0x3F] @ tl post)))))"
    using high_string_scan [OF assms(1-4)] high_string_unescape [OF assms(1-4)] assms(5,6)
    by (auto simp: value_action_def JSON_parse_string_def Let_def string_run_def string_matched_def string_finished_def
        act_then_def stay_def rb_return_def gives_def high_string_def u_escape_def hex4_def not_less)
  finally show ?thesis .
qed

section \<open>A quote inside a character\<close>

text \<open>Escaped characters, byte ED and a quote: the string ends at the quote, and what follows is no JSON.\<close>

definition json_text :: "nat list \<Rightarrow> bytes" where
  "json_text cps = concat (map (\<lambda>cp. json_char (encode cp)) cps)"

lemma unescape_text:
  assumes "list_all scalar cps" "text_at src pe (json_text cps)" "pe + length (json_text cps) \<le> e" "e < length src"
  shows "unescape_loop src e pe pe result = unescape_loop src e (pe + length (json_text cps)) (pe + length (json_text cps)) (result @ utf8 cps)"
  using assms
proof (induction cps arbitrary: pe result)
  case (Cons cp cps)
  let ?x = "json_char (encode cp)"
  have "escaped json_char cp" using Cons.prems(1) by (simp add: json_char_escaped)
  then have "unescape_loop src e pe pe result = unescape_loop src e (pe + length ?x) (pe + length ?x) (result @ encode cp)"
    using Cons.prems by (auto simp: escaped_def text_at_append json_text_def)
  with Cons show ?case by (simp add: text_at_append utf8_def json_text_def add.assoc)
qed (simp add: json_text_def utf8_def)

lemma torn_string:
  assumes "text_at src p ([0x22] @ json_text cps @ [0xED, 0x22])" "list_all scalar cps" "plain_parser json"
  shows "JSON_parse_string hk json src p w =
    Some (w\<lparr>memo := p\<rparr>, Inr (Some (p + length (json_text cps) + 3), PString (utf8 cps @ [0xED])))"
proof -
  let ?b = "json_text cps"
  define q where "q = p + 2 + length ?b"
  have at: "p < length src" "src ! p = 0x22" "text_at src (p + 1) (?b @ [0xED])" "q < length src" "src ! q = 0x22"
    using assms(1) by (auto simp: text_at_nth text_at_append q_def)
  have "path string_next 2 ?b = 2"
    unfolding json_text_def using assms(2) by (intro path_concat) (auto simp: list_all_iff string_path_escaped)
  then have "path string_next 2 (?b @ [0xED]) = 2" using string_plain [of "[0xED]"] by (simp add: path_append del: path.simps)
  moreover have "scan string_next src 1 p = scan string_next src 2 (p + 1)"
    using at(1,2) by (simp add: scan_step string_next_def string_text_def)
  ultimately have "scan string_next src 1 p = scan string_next src 2 q"
    using scan_path [OF at(3), of 2 string_next] by (simp add: q_def)
  moreover have "scan string_next src 2 q = Some (Act 2 q)"
    using at(4,5) string_text_row [of "src ! q"] by (intro scan_label) simp_all
  ultimately have run: "scan string_next src 1 p = Some (Act 2 q)" by simp
  have ed: "text_at src (p + 1) ?b" "text_at src (p + 1 + length ?b) [0xED]" using at(3) by (simp_all add: text_at_append)
  have end': "p + 1 + length ?b + length [0xED :: u8] = q" by (simp add: q_def)
  have "json_string_unescape [] src (p + 1) q = unescape_loop src q (p + 1 + length ?b) (p + 1 + length ?b) (utf8 cps)"
    using unescape_text [OF assms(2) ed(1) _ at(4), of "[]"] by (simp add: json_string_unescape_def q_def)
  also have "\<dots> = unescape_loop src q q q (utf8 cps @ [0xED])"
    using unescape_plain [OF ed(2) _ _ at(4), of "utf8 cps"] by (simp only: end') simp
  also have "\<dots> = Some (Some (utf8 cps @ [0xED]))"
    using at(4) by (subst unescape_loop.simps) (simp add: slice_def)
  finally have "json_string_unescape [] src (p + 1) q = Some (Some (utf8 cps @ [0xED]))" .
  with run assms(3) show ?thesis
    by (simp add: JSON_parse_string_def Let_def string_run_def string_matched_def string_finished_def plain_parser_def
        act_then_def stay_def rb_return_def gives_def q_def)
qed

lemma torn_document:
  fixes rest :: bytes
  defines "src \<equiv> \<lambda>cps z. [0x22] @ json_text cps @ [0xED, 0x22] @ z # rest"
  assumes "list_all scalar cps" "plain_parser json" "0x80 \<le> z"
  shows "parse_document (JSON_parse_value hk json (src cps z) (Suc m)) (src cps z) w =
    Some (w\<lparr>memo := 0\<rparr>, Inl (ParserError 743 (takeWhile (\<lambda>c. c \<noteq> 0) (z # rest))))"
proof -
  let ?src = "src cps z"
  define q where "q = length (json_text cps) + 3"
  have src: "0 < length ?src" "?src ! 0 = 0x22" "text_at ?src 0 ([0x22] @ json_text cps @ [0xED, 0x22])"
    by (simp_all add: src_def text_at_def)
  have split: "?src = ([0x22] @ json_text cps @ [0xED, 0x22]) @ z # rest" "length ([0x22] @ json_text cps @ [0xED, 0x22]) = q"
    by (simp_all add: src_def q_def)
  have q: "q < length ?src" "?src ! q = z" "drop q ?src = z # rest"
  proof -
    show "q < length ?src" unfolding split(1) length_append [of _ "z # rest"] split(2) by simp
    show "?src ! q = z" unfolding split(1) split(2) [symmetric] by (rule nth_append_length)
    have "drop (length xs) (xs @ ys) = ys" for xs ys :: bytes by simp
    then show "drop q ?src = z # rest" unfolding split(1) split(2) [symmetric] .
  qed
  have "document_next 1 (sint (?src ! 0)) = Tr 2" unfolding src(2) by (simp add: document_next_def document_begin_def)
  then have first: "scan document_next ?src 1 0 = Some (Act 2 0)" using src(1) by (intro scan_label)
  have "JSON_parse_value hk json ?src (Suc m) 0 0 w = value_action hk json (JSON_parse_value hk json ?src m) ?src 0 2 0 w"
    using src(1,2) by (intro value_first) (simp_all add: value_next_def value_begin_def)
  also have "\<dots> = Some (w\<lparr>memo := 0\<rparr>, Inr (Some (q, PString (utf8 cps @ [0xED]))))"
    using torn_string [OF src(3) assms(2,3), of hk w]
    by (simp add: value_action_def act_then_def gives_def q_def)
  finally have v: "JSON_parse_value hk json ?src (Suc m) 0 0 w = Some (w\<lparr>memo := 0\<rparr>, Inr (Some (q, PString (utf8 cps @ [0xED]))))" .
  have "\<not> unat z < 128" using assms(4) by (simp add: word_le_nat_alt)
  then have "sint z = int (unat z) - 256" by (simp only: sint_byte if_False)
  with nat_lt_256_u8 [of z] have "sint z < 0" by linarith
  then have "document_next 10 (sint z) = St 0" by (simp add: document_next_def document_end_def)
  with q have "scan document_next ?src 10 q = Some (Fail q)" by (simp add: scan_step)
  with first v q show ?thesis by (simp add: parse_document_def act_then_def unexpected_def)
qed

end
