(* ===== verification/Json_Parse_Calls.thy ===== *)
theory Json_Parse_Calls
  imports Json_Parse_Safe
begin

text \<open>
  The number of open calls that the model allows does not matter: a result that is there with some
  number is the same with any larger one.
\<close>

declare array_loop.simps [simp del] object_loop.simps [simp del] JSON_parse_value.simps [simp del]

section \<open>A call that is defined stays the same\<close>

definition extends :: "'o parse \<Rightarrow> 'o parse \<Rightarrow> bool" where
  "extends pv pv' \<longleftrightarrow> (\<forall>p nest w r. pv p nest w = Some r \<longrightarrow> pv' p nest w = Some r)"

lemma act_then_extends:
  "act_then m f = Some r \<Longrightarrow> (\<And>s. m = Some s \<Longrightarrow> m' = Some s) \<Longrightarrow> (\<And>w x. f w x = Some r \<Longrightarrow> f' w x = Some r) \<Longrightarrow>
     act_then m' f' = Some r"
  by (cases m) (auto simp: act_then_def split: sum.splits)

lemma array_loop_extends:
  assumes "extends pv pv'"
  shows "array_loop hk json pv src nest k cs p result w = Some r \<Longrightarrow> array_loop hk json pv' src nest k cs p result w = Some r"
proof (induction k arbitrary: cs p result w)
  case (Suc k)
  then show ?case
    using assms unfolding extends_def
    by (auto simp: array_loop.simps split: bind_splits stop.splits if_splits option.splits elim!: act_then_extends)
qed (simp add: array_loop.simps)

lemma object_loop_extends:
  assumes "extends pv pv'"
  shows "object_loop hk json pv src nest k cs p name result w = Some r \<Longrightarrow> object_loop hk json pv' src nest k cs p name result w = Some r"
proof (induction k arbitrary: cs p name result w)
  case (Suc k)
  then show ?case
    using assms unfolding extends_def
    by (auto simp: object_loop.simps Let_def split: bind_splits stop.splits if_splits option.splits elim!: act_then_extends)
qed (simp add: object_loop.simps)

lemma action_extends:
  assumes "extends pv pv'" "value_action hk json pv src nest a p w = Some r"
  shows "value_action hk json pv' src nest a p w = Some r"
  using assms array_loop_extends [OF assms(1)] object_loop_extends [OF assms(1)]
  by (auto simp: value_action_def JSON_parse_array_def JSON_parse_object_def split: if_splits elim!: act_then_extends)

lemma value_extends: "extends (JSON_parse_value hk json src n) (JSON_parse_value hk json src (Suc n))"
proof (induction n)
  case (Suc n)
  let ?v = "JSON_parse_value hk json src"
  show ?case
    unfolding extends_def
  proof (intro allI impI)
    fix p nest w r
    assume r: "?v (Suc n) p nest w = Some r"
    show "?v (Suc (Suc n)) p nest w = Some r"
    proof (cases "scan value_next src 1 p")
      case None
      then show ?thesis using r by (simp add: JSON_parse_value.simps(2))
    next
      case (Some s)
      show ?thesis
      proof (cases s)
        case (Act a q)
        then have "value_action hk json (?v n) src nest a q w = Some r"
          using r Some by (subst (asm) JSON_parse_value.simps(2)) simp
        from action_extends [OF Suc.IH this] show ?thesis
          using Some Act by (subst JSON_parse_value.simps(2)) simp
      qed (use r Some in \<open>simp_all add: JSON_parse_value.simps(2)\<close>)
    qed
  qed
qed (simp add: extends_def JSON_parse_value.simps(1))

lemma extends_trans: "extends f g \<Longrightarrow> extends g h \<Longrightarrow> extends f h"
  by (simp add: extends_def)

lemma value_more: "n \<le> m \<Longrightarrow> extends (JSON_parse_value hk json src n) (JSON_parse_value hk json src m)"
proof (induction m rule: dec_induct)
  case (step m)
  from extends_trans [OF step.IH value_extends] show ?case .
qed (simp add: extends_def)

lemma document_extends:
  fixes pv :: "'o parse"
  assumes "extends pv pv'" "parse_document pv src w = Some r"
  shows "parse_document pv' src w = Some r"
proof -
  have *: "pv p nest w = Some s \<Longrightarrow> pv' p nest w = Some s" for p nest w s
    using assms(1) unfolding extends_def by blast
  obtain s where s: "scan document_next src 1 0 = Some s" using assms(2) by (auto simp: parse_document_def split: bind_splits)
  show ?thesis
  proof (cases s)
    case (Act a q)
    define k where "k w v = (case v of
           None \<Rightarrow> unexpected w src 743 q
         | Some (np, result) \<Rightarrow> do {
             r \<leftarrow> scan document_next src 10 np;
             let (cs, p) = outcome r;
             if cs \<ge> 10 \<and> p = length src then gives w result else unexpected w src 743 p
           })" for w :: work and v :: "(nat \<times> 'o pvalue) option"
    have eq: "parse_document f src w = act_then (f q 0 w) k" for f
      by (simp only: parse_document_def s Act bind.bind_lunit stop.case k_def [abs_def])
    show ?thesis
      using assms(2) * unfolding eq by (rule act_then_extends)
  qed (use assms(2) s in \<open>simp_all add: parse_document_def\<close>)
qed

end
