(* ===== verification/Json_Parse_Correct.thy ===== *)
theory Json_Parse_Correct
  imports Json_Strings Json_Parse_Calls Json_Correct
begin

text \<open>
  The properties of the json parser: rendered documents are read back, alone and after the generator
  has written them; parsing returns; the unescaping reads at most one byte behind its text; which
  strings are accepted; and the documents on which the parser fails: an escaped first half of a
  surrogate pair, a text that starts with \<open>Infinity\<close>, and a generated one with a quote not escaped.
\<close>

section \<open>A small world for the witnesses\<close>

definition bare_hooks :: "unit hooks" where
  "bare_hooks = \<lparr>new_instance = Inr, call_aset = \<lambda>r k v. Inr r, call_leftshift = \<lambda>r v. Inr r, call_aref = \<lambda>r k. Inr PNil,
     deep_const_get = Inr, json_creatable = \<lambda>k. Inr False, json_create = \<lambda>k v. Inr v, call_match = \<lambda>r s. Inr False,
     str_intern = \<lambda>s. Inr (PSymbol s), json_create_id = Inr (PString [0x69]), is_string = \<lambda>x. False\<rparr>"

definition bare_parser :: "bytes \<Rightarrow> unit JSON_Parser" where
  "bare_parser src = cJSON_parser_s_allocate\<lparr>Vsource := Some src, jp_max_nesting := 100, create_id := PString [0x69],
     object_class := PNil, array_class := PNil, match_string := PNil\<rparr>"

lemma bare_fields [simp]:
  "Vsource (bare_parser src) = Some src" "jp_max_nesting (bare_parser src) = 100" "\<not> jp_allow_nan (bare_parser src)"
  "plain_parser (bare_parser src)" "\<not> truthy (match_string (bare_parser src))" "\<not> create_additions (bare_parser src)"
  "\<not> symbolize_names (bare_parser src)"
  by (simp_all add: bare_parser_def cJSON_parser_s_allocate_def plain_parser_def truthy_def)

lemma fresh_idle: "idle (jp_work cJSON_parser_s_allocate)"
  using holds_alloc [of 0] by (auto simp: idle_def usable_def cJSON_parser_s_allocate_def)

lemma bare_idle [simp]: "idle (jp_work (bare_parser src))"
  using fresh_idle by (simp add: bare_parser_def)

lemma bare_usable [simp]: "usable (jp_work (bare_parser src))"
  using bare_idle by (simp add: idle_def)



section \<open>Documents\<close>








text \<open>
  C31. Parsing returns. If no \<open>match_string\<close> is set, the source has no escaped surrogate, and it does
  not start with I unless \<open>NaN\<close> and \<open>Infinity\<close> are allowed, then, whatever Ruby code the other
  settings call in, \<open>parse\<close> returns a value or raises: it reads and writes only what is there, leaves
  the parser ready for the next call, and opens no more calls than the source has characters, and one.
  (C33 and C35 show that the two conditions on the source are needed.)
\<close>

theorem parse_returns:
  assumes "Vsource json = Some src" "calm json src" "infinity_ok json src 0" "usable (jp_work json)" "length src < n"
  shows "\<exists>w r. cParser_parse hk n json = Some (json\<lparr>jp_work := w\<rparr>, r) \<and> usable w \<and>
    cParser_parse hk n json = cParser_parse hk (Suc (length src)) json"
proof -
  obtain w r where least: "usable w" "parse_document (JSON_parse_value hk json src (Suc (length src))) src (jp_work json) = Some (w, r)"
    using document_returns [OF assms(2,3) _ assms(4), of "Suc (length src)" hk] by (auto simp: returns_def)
  have "parse_document (JSON_parse_value hk json src n) src (jp_work json) = Some (w, r)"
    using document_extends [OF value_more least(2)] assms(5) by simp
  with assms(1) least show ?thesis
    by (intro exI [of _ w] exI [of _ r]) (simp add: cParser_parse_def)
qed

theorem parse_returns_witness:
  "\<exists>w r. cParser_parse bare_hooks 9 (bare_parser [0x5B, 0x31, 0x2C]) = Some ((bare_parser [0x5B, 0x31, 0x2C])\<lparr>jp_work := w\<rparr>, r)"
proof -
  have "no_surrogates [0x5B, 0x31, 0x2C]" by (auto simp: no_surrogates_def less_Suc_eq_0_disj numeral_3_eq_3)
  then show ?thesis
    using parse_returns [of "bare_parser [0x5B, 0x31, 0x2C]" "[0x5B, 0x31, 0x2C]" 9 bare_hooks]
    by (auto simp: calm_def infinity_ok_def)
qed

section \<open>Strings\<close>

text \<open>
  C32. Memory safety of the unescaping. For every text in a source, given by two offsets, and whatever its
  bytes are, \<open>json_string_unescape\<close> returns, and the bytes of the source behind the end offset have no
  influence: it reads at most the one byte at the end offset, which for the parser is the closing
  quote.
\<close>

theorem unescape_in_bounds:
  assumes "s \<le> e" "e < length src"
  shows "\<exists>r. json_string_unescape result src s e = Some r \<and>
    (\<forall>src'. take (e + 1) src' = take (e + 1) src \<longrightarrow> json_string_unescape result src' s e = Some r)"
proof -
  obtain r where r: "json_string_unescape result src s e = Some r" using unescape_defined [OF assms] by blast
  have "json_string_unescape result src' s e = Some r" if same: "take (e + 1) src' = take (e + 1) src" for src'
  proof -
    have "length (take (e + 1) src') = e + 1" using same assms(2) by simp
    then have "agree_to e src src'" using same assms(2) by (simp add: agree_to_def)
    from unescape_agree [OF assms(1) this] r show ?thesis by simp
  qed
  with r show ?thesis by blast
qed

theorem unescape_in_bounds_witness:
  "\<exists>r. json_string_unescape [] [0x22, 0x5C, 0x75, 0x64, 0x22] 1 4 = Some r \<and>
    json_string_unescape [] [0x22, 0x5C, 0x75, 0x64, 0x22, 0x5D] 1 4 = Some r"
  using unescape_in_bounds [of 1 4 "[0x22, 0x5C, 0x75, 0x64, 0x22]" "[]"] by auto

text \<open>
  The byte at the end offset is read: the guard of \<open>\u\<close> lets a fourth digit be there, and the result
  depends on it.
\<close>

lemma end_byte_read:
  "json_string_unescape [] [0x5C, 0x75, 0x30, 0x30, 0x34, 0x31] 0 5 = Some (Some [0x41])"
  "json_string_unescape [] [0x5C, 0x75, 0x30, 0x30, 0x34, 0x22] 0 5 = Some (Some [0xEF, 0xBF, 0xBD])"
  by code_simp+

text \<open>
  C33. Half a pair at the end. A document that is a string in which an escaped high surrogate is
  followed by fewer than six ordinary characters is undefined: the unescaping gives \<open>nil\<close>, which
  is then resized as a string.
\<close>

theorem lone_surrogate_undefined:
  assumes "Vsource json = Some (ws @ high_string pre n post @ ws')" "plain_parser json"
    "white ws" "white ws'" "plain_chars pre" "plain_chars post" "high_surrogate n" "length post < 6"
  shows "cParser_parse hk m json = None"
proof -
  let ?src = "ws @ high_string pre n post @ ws'"
  have "text_at ?src (length ws) (high_string pre n post)" by (simp add: text_at_def)
  from value_high_string [OF this assms(5-7), of json "jp_work json" hk _ 0] assms(2,8)
  have "JSON_parse_value hk json ?src m (length ws) 0 (jp_work json) = None"
    by (cases m) (simp_all add: plain_parser_def JSON_parse_value.simps(1))
  moreover have "high_string pre n post = 0x22 # (pre @ u_escape n @ post @ [0x22])" "starts_value 0x22"
    by (simp_all add: high_string_def starts_value_def)
  note document_between(1) [OF assms(3,4) refl this, of "JSON_parse_value hk json ?src m" "jp_work json"]
  ultimately show ?thesis using assms(1) by (simp add: cParser_parse_def act_then_def)
qed

theorem lone_surrogate_undefined_witness:
  "cParser_parse bare_hooks 100 (bare_parser ([] @ high_string [0x61] 0xD83D [] @ [])) = None"
  by (rule lone_surrogate_undefined [of _ "[]" "[0x61]" "0xD83D" "[]" "[]"]) (simp_all add: high_surrogate_def)

text \<open>
  C34. Half a pair with text behind it. With six or more ordinary characters behind the escape, the
  document is read as a string that has a question mark for the escape and lacks the character
  that follows it.
\<close>

theorem swallowed_character:
  assumes "Vsource json = Some (ws @ high_string pre n (b # post) @ ws')" "plain_parser json" "idle (jp_work json)"
    "white ws" "white ws'" "plain_chars pre" "plain_chars (b # post)" "high_surrogate n" "5 \<le> length post"
  shows "\<exists>w. cParser_parse hk (Suc m) json = Some (json\<lparr>jp_work := w\<rparr>, Inr (PString (pre @ [0x3F] @ post)))"
proof -
  let ?x = "high_string pre n (b # post)" and ?w = "(jp_work json)\<lparr>memo := length ws\<rparr>"
  let ?src = "ws @ ?x @ ws'" and ?r = "Inr (PString (pre @ [0x3F] @ post))"
  have at: "text_at ?src (length ws) ?x" by (simp add: text_at_def)
  have v: "JSON_parse_value hk json ?src (Suc m) (length ws) 0 (jp_work json) =
      Some (?w, map_sum id (\<lambda>v. Some (length ws + length ?x, v)) ?r)"
    using value_high_string [OF at assms(6-8), of json "jp_work json" hk m 0] assms(2,9) by (simp add: plain_parser_def)
  have "?x = 0x22 # (pre @ u_escape n @ (b # post) @ [0x22])" "starts_value 0x22"
    by (simp_all add: high_string_def starts_value_def)
  then have "parse_document (JSON_parse_value hk json ?src (Suc m)) ?src (jp_work json) = Some (?w, ?r)"
    by (rule document_value [OF assms(4,5) refl]) (rule v)
  with assms(1) show ?thesis by (auto simp: cParser_parse_def)
qed

theorem swallowed_character_witness:
  "\<exists>json. cParser_parse bare_hooks 1 (bare_parser ([] @ high_string [] 0xD83D [0x61, 0x62, 0x63, 0x64, 0x65, 0x66] @ [])) =
     Some (json, Inr (PString [0x3F, 0x62, 0x63, 0x64, 0x65, 0x66]))"
  using swallowed_character [of "bare_parser ([] @ high_string [] 0xD83D [0x61, 0x62, 0x63, 0x64, 0x65, 0x66] @ [])" "[]" "[]" "0xD83D"
      "0x61" "[0x62, 0x63, 0x64, 0x65, 0x66]" "[]" bare_hooks 0]
  by (auto simp: high_surrogate_def)

text \<open>
  C35. \<open>Infinity\<close> at the start of the source. Where it is not allowed, the parser wants to raise an
  error that shows the source from eight characters before the last of the word, which is before
  the source.
\<close>

theorem infinity_before_source:
  assumes "Vsource json = Some ([0x49, 0x6E, 0x66, 0x69, 0x6E, 0x69, 0x74, 0x79] @ rest)" "\<not> jp_allow_nan json"
  shows "cParser_parse hk n json = None"
proof -
  let ?src = "[0x49, 0x6E, 0x66, 0x69, 0x6E, 0x69, 0x74, 0x79] @ rest"
  have "document_next 1 (sint (?src ! 0)) = Tr 2" by (simp add: document_next_def document_begin_def)
  then have first: "scan document_next ?src 1 0 = Some (Act 2 0)" by (intro scan_label) simp_all
  have "text_at ?src 0 ([0x49, 0x6E, 0x66, 0x69, 0x6E, 0x69, 0x74] @ [0x79])" by (simp add: text_at_def)
  moreover have "path value_next 1 [0x49, 0x6E, 0x66, 0x69, 0x6E, 0x69, 0x74] = 16" "value_next 16 (sint (0x79 :: u8)) = Tr 25"
    by code_simp+
  ultimately have "JSON_parse_value hk json ?src (Suc m) 0 0 w = None" for m w
    using value_word [of ?src 0 "[0x49, 0x6E, 0x66, 0x69, 0x6E, 0x69, 0x74]" "0x79" 16 25 hk json m 0 w] assms(2)
    by (simp add: value_action_def)
  then have "JSON_parse_value hk json ?src n 0 0 w = None" for w by (cases n) (simp_all add: JSON_parse_value.simps(1))
  with first assms(1) show ?thesis by (simp add: cParser_parse_def parse_document_def act_then_def)
qed

theorem infinity_before_source_witness:
  "cParser_parse bare_hooks 100 (bare_parser ([0x49, 0x6E, 0x66, 0x69, 0x6E, 0x69, 0x74, 0x79] @ [])) = None"
  by (rule infinity_before_source [where hk = bare_hooks and n = 100]) simp_all

text \<open>
  C36. The strings that are accepted. In a source without an escaped surrogate, and where no symbol is
  made of it, \<open>JSON_parse_string\<close> accepts exactly a quote, a body of characters from the space on
  and of escapes (a backslash and such a character, or \<open>\u\<close> and four hexadecimal digits), and a
  quote; the offset it returns is the one behind the last quote. It is defined in every case.
\<close>

theorem accepted_strings:
  assumes "calm json src" "p < length src" "\<not> (symbolize_names json \<and> parsing_name w)"
  shows "\<exists>np s. JSON_parse_string hk json src p w = Some (w\<lparr>memo := p\<rparr>, Inr (np, PString s)) \<and>
    (\<forall>e. np = Some (e + 1) \<longleftrightarrow> src ! p = 0x22 \<and> string_body src (p + 1) e \<and> e < length src \<and> src ! e = 0x22)"
  by (rule string_answer [OF assms])

theorem accepted_strings_witness:
  "\<exists>w s. JSON_parse_string bare_hooks (bare_parser [0x22, 0x61, 0x22]) [0x22, 0x61, 0x22] 0 (jp_work (bare_parser [0x22, 0x61, 0x22])) =
     Some (w, Inr (Some 3, PString s))"
proof -
  let ?src = "[0x22, 0x61, 0x22] :: bytes" and ?w = "jp_work (bare_parser [0x22, 0x61, 0x22])"
  have body: "string_body ?src (0 + 1) 2"
  proof (rule body_plain)
    show "string_body ?src (0 + 1 + 1) 2" by (simp only: add_0 one_add_one body_end)
  qed simp_all
  have "no_surrogates ?src" by (auto simp: no_surrogates_def less_Suc_eq_0_disj numeral_3_eq_3)
  then have "calm (bare_parser ?src) ?src" by (simp add: calm_def)
  from accepted_strings [OF this, of 0 ?w bare_hooks] obtain np s where
    np: "JSON_parse_string bare_hooks (bare_parser ?src) ?src 0 ?w = Some (?w\<lparr>memo := 0\<rparr>, Inr (np, PString s))"
    "\<And>e. np = Some (e + 1) \<longleftrightarrow> ?src ! 0 = 0x22 \<and> string_body ?src (0 + 1) e \<and> e < length ?src \<and> ?src ! e = 0x22"
    by auto
  from np(2) [of 2] body have "np = Some 3" by simp
  with np(1) show ?thesis by blast
qed

end
