(* ===== verification/Json_Raw.thy ===== *)
theory Json_Raw
  imports Json_Parse_Correct
begin

text \<open>
  Raw strings (\<open>generator.c\<close>): \<open>to_json_raw_object\<close> makes a hash of the name of the class and the array of
  the bytes, \<open>to_json_raw\<close> generates it, and \<open>json_create\<close> makes the string from such a hash again. New
  objects get the given address and the ones behind it. Ruby's \<open>pack\<close> and \<open>unpack\<close> with \<open>"C*"\<close> are
  conversions between bytes and lists of integers; what \<open>pack\<close> does with other values is a parameter,
  and so are the entries of objects whose class derives from Hash.
\<close>

section \<open>Definitions\<close>







section \<open>From the string to the string\<close>












end
