(* ===== verification/Debase_Locker.thy ===== *)
theory Debase_Locker
  imports Simulation Ruby
begin

text \<open>
  The queue of threads that wait for the debugger of the gem \<open>debase\<close> (\<open>ext/locker.c\<close>): a linked list
  with a pointer to its first and to its last node. Nodes live in a store; addresses are given out
  one after the other. To follow a null pointer, or one to a node that was freed, is undefined.
\<close>

section \<open>Definitions\<close>

record locked_thread =
  lt_thread :: rb_thread
  lt_next :: "nat option"

record locked_threads =
  lt_nodes :: "nat \<Rightarrow> locked_thread option"
  lt_fresh :: nat
  locked_head :: "nat option"
  locked_tail :: "nat option"

definition no_locked :: locked_threads where
  "no_locked = \<lparr>lt_nodes = (\<lambda>a. None), lt_fresh = 0, locked_head = None, locked_tail = None\<rparr>"

partial_function (option) locked_loop :: "(nat \<Rightarrow> locked_thread option) \<Rightarrow> nat option \<Rightarrow> rb_thread \<Rightarrow> nat option \<Rightarrow> bool option" where
  "locked_loop nodes tail th node =
     (if node = tail then Some False
      else do {
        a \<leftarrow> node;
        n \<leftarrow> nodes a;
        if lt_thread n = th then Some True else locked_loop nodes tail th (lt_next n)
      })"

definition is_in_locked :: "rb_thread \<Rightarrow> locked_threads \<Rightarrow> bool option" where
  "is_in_locked th l =
     (if locked_head l = None then Some False
      else locked_loop (lt_nodes l) (locked_tail l) th (locked_head l))"

definition set_next :: "nat \<Rightarrow> nat option \<Rightarrow> locked_threads \<Rightarrow> locked_threads option" where
  "set_next a next l = do {
     n \<leftarrow> lt_nodes l a;
     Some (l\<lparr>lt_nodes := (lt_nodes l)(a \<mapsto> n\<lparr>lt_next := next\<rparr>)\<rparr>)
   }"

definition add_to_locked :: "rb_thread \<Rightarrow> locked_threads \<Rightarrow> locked_threads option" where
  "add_to_locked th l = do {
     b \<leftarrow> is_in_locked th l;
     if b then Some l
     else do {
       let node = lt_fresh l;
       let l = l\<lparr>lt_nodes := (lt_nodes l)(node \<mapsto> \<lparr>lt_thread = th, lt_next = None\<rparr>), lt_fresh := node + 1\<rparr>;
       l \<leftarrow> (case locked_tail l of None \<Rightarrow> Some l | Some t \<Rightarrow> set_next t (Some node) l);
       let l = l\<lparr>locked_tail := Some node\<rparr>;
       Some (if locked_head l = None then l\<lparr>locked_head := Some node\<rparr> else l)
     }
   }"

text \<open>The first thread, if there is one; its node is freed.\<close>

definition remove_from_locked :: "locked_threads \<Rightarrow> (locked_threads \<times> rb_thread option) option" where
  "remove_from_locked l =
     (case locked_head l of
        None \<Rightarrow> Some (l, None)
      | Some node \<Rightarrow> do {
          n \<leftarrow> lt_nodes l node;
          let l = l\<lparr>locked_head := lt_next n\<rparr>;
          let l = (if locked_tail l = Some node then l\<lparr>locked_tail := None\<rparr> else l);
          Some (l\<lparr>lt_nodes := (lt_nodes l)(node := None)\<rparr>, Some (lt_thread n))
        })"

section \<open>The list of the queue\<close>

fun chain :: "(nat \<Rightarrow> locked_thread option) \<Rightarrow> nat option \<Rightarrow> (nat \<times> rb_thread) list \<Rightarrow> bool" where
  "chain nodes p [] \<longleftrightarrow> p = None"
| "chain nodes p ((a, th) # xs) \<longleftrightarrow>
     (\<exists>n. p = Some a \<and> nodes a = Some n \<and> lt_thread n = th \<and> chain nodes (lt_next n) xs)"

definition queue_is :: "locked_threads \<Rightarrow> rb_thread list \<Rightarrow> bool" where
  "queue_is l ths \<longleftrightarrow> (\<exists>xs. ths = map snd xs \<and> chain (lt_nodes l) (locked_head l) xs \<and> distinct (map fst xs) \<and>
     (\<forall>a \<in> set (map fst xs). a < lt_fresh l) \<and> locked_tail l = (if xs = [] then None else Some (fst (last xs))))"

lemma queue_no_locked: "queue_is no_locked []"
  by (simp add: queue_is_def no_locked_def)

lemma chain_frame: "a \<notin> set (map fst xs) \<Longrightarrow> chain (nodes(a := m)) p xs = chain nodes p xs"
  by (induction xs arbitrary: p) auto

lemma chain_snoc:
  "chain nodes p xs \<Longrightarrow> xs \<noteq> [] \<Longrightarrow> distinct (map fst xs) \<Longrightarrow> a \<notin> set (map fst xs) \<Longrightarrow>
     nodes (fst (last xs)) = Some n \<Longrightarrow>
     chain (nodes(a \<mapsto> \<lparr>lt_thread = th, lt_next = None\<rparr>, fst (last xs) \<mapsto> n\<lparr>lt_next := Some a\<rparr>)) p (xs @ [(a, th)])"
proof (induction xs arbitrary: p)
  case (Cons x xs)
  obtain b u where x: "x = (b, u)" by force
  show ?case
  proof (cases "xs = []")
    case True
    with Cons.prems x show ?thesis by auto
  next
    case False
    with Cons.prems x have "b \<noteq> a" "b \<noteq> fst (last xs)" by (auto simp: last_in_set)
    with Cons x False show ?thesis by auto
  qed
qed simp

lemma chain_last: "chain nodes p xs \<Longrightarrow> xs \<noteq> [] \<Longrightarrow> \<exists>n. nodes (fst (last xs)) = Some n \<and> lt_next n = None"
  by (induction xs arbitrary: p) (auto split: if_splits)

text \<open>The loop looks at every node but the last.\<close>

lemma locked_loop_eq:
  "chain nodes p xs \<Longrightarrow> xs \<noteq> [] \<Longrightarrow> distinct (map fst xs) \<Longrightarrow> tail = Some (fst (last xs)) \<Longrightarrow>
     locked_loop nodes tail th p = Some (th \<in> set (butlast (map snd xs)))"
proof (induction xs arbitrary: p)
  case (Cons x xs)
  obtain b u where x: "x = (b, u)" by force
  show ?case
  proof (cases "xs = []")
    case True
    with Cons.prems x show ?thesis by (subst locked_loop.simps) simp
  next
    case False
    with Cons.prems x have "b \<noteq> fst (last xs)" by (auto simp: last_in_set)
    with Cons x False show ?thesis by (subst locked_loop.simps) auto
  qed
qed simp

lemma is_in_locked_eq: "queue_is l ths \<Longrightarrow> is_in_locked th l = Some (th \<in> set (butlast ths))"
proof -
  assume "queue_is l ths"
  then obtain xs where xs: "ths = map snd xs" "chain (lt_nodes l) (locked_head l) xs" "distinct (map fst xs)"
      "locked_tail l = (if xs = [] then None else Some (fst (last xs)))"
    by (auto simp: queue_is_def)
  show ?thesis
  proof (cases "xs = []")
    case False
    then obtain a where "locked_head l = Some a" using xs(2) by (cases xs) auto
    with locked_loop_eq [OF xs(2) False xs(3)] xs(1,4) False show ?thesis by (simp add: is_in_locked_def)
  qed (use xs in \<open>simp add: is_in_locked_def\<close>)
qed

section \<open>Refinement\<close>

text \<open>What adding and removing do to the list: a thread that is the last one is not noticed.\<close>

datatype locked_op = Add rb_thread | Remove

definition queue_add :: "rb_thread \<Rightarrow> rb_thread list \<Rightarrow> rb_thread list" where
  "queue_add th ths = (if th \<in> set (butlast ths) then ths else ths @ [th])"

fun locked_spec :: "locked_op \<Rightarrow> rb_thread list \<Rightarrow> rb_thread list" where
  "locked_spec (Add th) ths = queue_add th ths"
| "locked_spec Remove ths = tl ths"

fun locked_step :: "locked_op \<Rightarrow> locked_threads \<Rightarrow> locked_threads option" where
  "locked_step (Add th) l = add_to_locked th l"
| "locked_step Remove l = map_option fst (remove_from_locked l)"

lemma add_refines: "queue_is l ths \<Longrightarrow> \<exists>l'. add_to_locked th l = Some l' \<and> queue_is l' (queue_add th ths)"
proof -
  assume q: "queue_is l ths"
  then obtain xs where xs: "ths = map snd xs" "chain (lt_nodes l) (locked_head l) xs" "distinct (map fst xs)"
      "\<forall>a \<in> set (map fst xs). a < lt_fresh l" "locked_tail l = (if xs = [] then None else Some (fst (last xs)))"
    unfolding queue_is_def by blast
  show ?thesis
  proof (cases "th \<in> set (butlast ths)")
    case True
    with q is_in_locked_eq [OF q, of th] show ?thesis by (simp add: add_to_locked_def queue_add_def)
  next
    case False
    let ?a = "lt_fresh l" and ?n = "\<lparr>lt_thread = th, lt_next = None\<rparr>"
    have a: "?a \<notin> set (map fst xs)" using xs(4) by auto
    show ?thesis
    proof (cases "xs = []")
      case True
      with False q is_in_locked_eq [OF q, of th] xs show ?thesis
        by (auto simp: add_to_locked_def queue_add_def queue_is_def Let_def intro!: exI [of _ "[(?a, th)]"])
    next
      case False
      let ?t = "fst (last xs)"
      obtain n where n: "lt_nodes l ?t = Some n" "lt_next n = None" using chain_last [OF xs(2) False] by blast
      have t: "?t \<noteq> ?a" using a imageI [OF last_in_set [OF False], of fst] by (metis set_map)
      define l' where "l' = l\<lparr>lt_nodes := (lt_nodes l)(?a \<mapsto> ?n, ?t \<mapsto> n\<lparr>lt_next := Some ?a\<rparr>), lt_fresh := ?a + 1,
        locked_tail := Some ?a\<rparr>"
      have "locked_head l \<noteq> None" using xs(2) False by (cases xs) auto
      then have "add_to_locked th l = Some l'"
        using is_in_locked_eq [OF q, of th] \<open>th \<notin> set (butlast ths)\<close> xs(5) False n(1) t
        by (simp add: add_to_locked_def set_next_def l'_def Let_def)
      moreover have "queue_is l' (ths @ [th])"
        unfolding queue_is_def
      proof (intro exI [of _ "xs @ [(?a, th)]"] conjI)
        show "chain (lt_nodes l') (locked_head l') (xs @ [(?a, th)])"
          using chain_snoc [OF xs(2) False xs(3) a n(1)] by (simp add: l'_def)
      qed (use xs a in \<open>auto simp: l'_def less_Suc_eq\<close>)
      ultimately show ?thesis using \<open>th \<notin> set (butlast ths)\<close> by (simp add: queue_add_def)
    qed
  qed
qed

lemma remove_refines:
  "queue_is l ths \<Longrightarrow> \<exists>l'. remove_from_locked l = Some (l', if ths = [] then None else Some (hd ths)) \<and> queue_is l' (tl ths)"
proof -
  assume q: "queue_is l ths"
  then obtain xs where xs: "ths = map snd xs" "chain (lt_nodes l) (locked_head l) xs" "distinct (map fst xs)"
      "\<forall>a \<in> set (map fst xs). a < lt_fresh l" "locked_tail l = (if xs = [] then None else Some (fst (last xs)))"
    unfolding queue_is_def by blast
  show ?thesis
  proof (cases xs)
    case Nil
    with q xs show ?thesis by (simp add: remove_from_locked_def)
  next
    case (Cons x ys)
    obtain a th where x: "x = (a, th)" by force
    with Cons xs obtain n where n: "locked_head l = Some a" "lt_nodes l a = Some n" "lt_thread n = th" "chain (lt_nodes l) (lt_next n) ys"
      by auto
    have a: "a \<notin> set (map fst ys)" using xs(3) Cons x by simp
    then have t: "locked_tail l = Some a \<longleftrightarrow> ys = []"
      using xs(5) Cons x last_in_set [of ys] by (cases "last ys") force
    define l' where "l' = l\<lparr>locked_head := lt_next n, locked_tail := (if ys = [] then None else locked_tail l),
      lt_nodes := (lt_nodes l)(a := None)\<rparr>"
    have "remove_from_locked l = Some (l', Some th)"
      using n t by (simp add: remove_from_locked_def l'_def Let_def)
    moreover have "queue_is l' (map snd ys)"
      unfolding queue_is_def
      using n(4) a xs(3-5) Cons by (intro exI [of _ ys]) (auto simp: l'_def chain_frame)
    ultimately show ?thesis using xs(1) Cons x by simp
  qed
qed

interpretation locked: simulation queue_is locked_step locked_spec "\<lambda>op ths. True"
proof
  fix l ths op
  assume "queue_is l ths"
  then show "\<exists>l'. locked_step op l = Some l' \<and> queue_is l' (locked_spec op ths)"
    using add_refines remove_refines by (cases op) fastforce+
qed

end
