(* ===== verification/Debase_Context.thy ===== *)
theory Debase_Context
  imports Ruby
begin

text \<open>
  The contexts of the debugger \<open>debase\<close> (\<open>ext/context.c\<close>, \<open>ext/debase_internals.h\<close>): for each thread the
  frames that were collected when it stopped, and where it is to stop next. The frames are a linked
  list that nothing else points into; here it is the list of the frames from the first node on, and
  to go behind its end is undefined. An \<open>int\<close> of C is an integer, and overflow is undefined. A Ruby
  argument is an integer, the truth value it has in C, or \<open>None\<close> for \<open>nil\<close> or a missing one.
\<close>

section \<open>Numbers\<close>

definition c_int :: "int \<Rightarrow> int option" where
  "c_int i = (if - (2 ^ 31) \<le> i \<and> i < 2 ^ 31 then Some i else None)"

definition FIX2INT :: "int \<Rightarrow> rb_error + int" where
  "FIX2INT i = (if - (2 ^ 31) \<le> i \<and> i < 2 ^ 31 then Inr i else Inl (RangeError ''int''))"

section \<open>Contexts\<close>

datatype ctx_stop_reason = CTX_STOP_NONE | CTX_STOP_STEP | CTX_STOP_BREAKPOINT | CTX_STOP_CATCHPOINT

record debug_frame =
  fr_file :: bytes
  fr_line :: int
  fr_binding :: rb_object
  fr_self :: rb_object

record debug_context =
  stack :: "debug_frame list"
  stack_size :: int
  ctx_thread :: rb_thread
  thnum :: int
  flags :: u32
  stop_reason :: ctx_stop_reason
  stop_next :: int
  stop_line :: int
  stop_frame :: int
  thread_pause :: bool
  dest_frame :: int
  calced_stack_size :: int
  last_file :: "bytes option"
  last_line :: int

definition CTX_FL_SUSPEND :: u32 where "CTX_FL_SUSPEND = 2"
definition CTX_FL_SKIPPED :: u32 where "CTX_FL_SKIPPED = 8"
definition CTX_FL_IGNORE :: u32 where "CTX_FL_IGNORE = 16"
definition CTX_FL_DEAD :: u32 where "CTX_FL_DEAD = 32"
definition CTX_FL_WAS_RUNNING :: u32 where "CTX_FL_WAS_RUNNING = 64"
definition CTX_FL_STEPPED :: u32 where "CTX_FL_STEPPED = 256"
definition CTX_FL_FORCE_MOVE :: u32 where "CTX_FL_FORCE_MOVE = 512"
definition CTX_FL_UPDATE_STACK :: u32 where "CTX_FL_UPDATE_STACK = 2048"

definition CTX_FL_TEST :: "debug_context \<Rightarrow> u32 \<Rightarrow> bool" where
  "CTX_FL_TEST c f \<longleftrightarrow> flags c AND f \<noteq> 0"

definition CTX_FL_SET :: "debug_context \<Rightarrow> u32 \<Rightarrow> debug_context" where
  "CTX_FL_SET c f = c\<lparr>flags := flags c OR f\<rparr>"

definition CTX_FL_UNSET :: "debug_context \<Rightarrow> u32 \<Rightarrow> debug_context" where
  "CTX_FL_UNSET c f = c\<lparr>flags := flags c AND NOT f\<rparr>"

definition reset_stepping_stop_points :: "debug_context \<Rightarrow> debug_context" where
  "reset_stepping_stop_points c = c\<lparr>dest_frame := -1, stop_line := -1, stop_next := -1\<rparr>"

text \<open>A new context; the caller counts the threads, and knows the backtrace and the class of the thread.\<close>

definition context_create :: "rb_thread \<Rightarrow> int \<Rightarrow> nat option \<Rightarrow> bool \<Rightarrow> debug_context" where
  "context_create thread num locations is_debug_thread =
     (let c = reset_stepping_stop_points \<lparr>stack = [], stack_size = 0, ctx_thread = thread, thnum = num, flags = 0,
            stop_reason = CTX_STOP_NONE, stop_next = 0, stop_line = 0, stop_frame = -1, thread_pause = False,
            dest_frame = 0, calced_stack_size = (case locations of None \<Rightarrow> 0 | Some n \<Rightarrow> int n),
            last_file = None, last_line = -1\<rparr>
      in if is_debug_thread then CTX_FL_SET c CTX_FL_IGNORE else c)"

definition Context_thnum :: "debug_context \<Rightarrow> int" where "Context_thnum c = thnum c"
definition Context_stack_size :: "debug_context \<Rightarrow> int" where "Context_stack_size c = stack_size c"
definition Context_thread :: "debug_context \<Rightarrow> rb_thread" where "Context_thread c = ctx_thread c"

definition Context_dead :: "(rb_thread \<Rightarrow> bool) \<Rightarrow> debug_context \<Rightarrow> bool" where
  "Context_dead alive c = (\<not> alive (ctx_thread c))"

definition Context_ignored :: "debug_context option \<Rightarrow> bool" where
  "Context_ignored self = (case self of None \<Rightarrow> True | Some c \<Rightarrow> CTX_FL_TEST c CTX_FL_IGNORE)"

definition Context_stop_reason :: "debug_context \<Rightarrow> string" where
  "Context_stop_reason c =
     (let symbol = (case stop_reason c of
          CTX_STOP_STEP \<Rightarrow> ''step''
        | CTX_STOP_BREAKPOINT \<Rightarrow> ''breakpoint''
        | CTX_STOP_CATCHPOINT \<Rightarrow> ''catchpoint''
        | CTX_STOP_NONE \<Rightarrow> ''none'')
      in if CTX_FL_TEST c CTX_FL_DEAD then ''post-mortem'' else symbol)"

section \<open>Frames\<close>

text \<open>A location of the inspector: its path, its line, and what the inspector knows of the frame.\<close>

record location =
  loc_path :: "bytes option"
  loc_line :: int
  loc_binding :: rb_object
  loc_self :: rb_object

definition fill_frame :: "bytes \<Rightarrow> int \<Rightarrow> rb_object \<Rightarrow> rb_object \<Rightarrow> debug_frame" where
  "fill_frame file line binding self = \<lparr>fr_file = file, fr_line = line, fr_binding = binding, fr_self = self\<rparr>"

primrec fill_loop :: "location list \<Rightarrow> debug_context \<Rightarrow> debug_context" where
  "fill_loop [] c = c"
| "fill_loop (l # ls) c =
     (let file = (case loc_path l of None \<Rightarrow> [] | Some path \<Rightarrow> path);
          frame = fill_frame file (loc_line l) (loc_binding l) (loc_self l)
      in fill_loop ls (c\<lparr>stack := frame # stack c\<rparr>))"

definition fill_stack :: "location list option \<Rightarrow> debug_context \<Rightarrow> debug_context" where
  "fill_stack locations c =
     (let ls = (case locations of None \<Rightarrow> [] | Some ls \<Rightarrow> ls)
      in fill_loop ls (c\<lparr>stack_size := int (length ls)\<rparr>))"

text \<open>All frames are freed; the size stays.\<close>

definition clear_stack :: "debug_context \<Rightarrow> debug_context" where
  "clear_stack c = c\<lparr>stack := []\<rparr>"

definition check_frame_number_valid :: "debug_context \<Rightarrow> int \<Rightarrow> rb_error + unit" where
  "check_frame_number_valid c frame_no =
     (if frame_no < 0 \<or> frame_no \<ge> stack_size c then Inl (ArgError ''Invalid frame number'') else Inr ())"

text \<open>The pointer after following \<open>prev\<close> a number of times.\<close>

fun prev_frame :: "nat \<Rightarrow> debug_frame list \<Rightarrow> debug_frame list option" where
  "prev_frame 0 fs = Some fs"
| "prev_frame (Suc n) [] = None"
| "prev_frame (Suc n) (f # fs) = prev_frame n fs"

definition get_frame_no :: "debug_context \<Rightarrow> int \<Rightarrow> debug_frame list rb" where
  "get_frame_no c frame_no =
     and_then (Some (check_frame_number_valid c frame_no)) (\<lambda>_.
     total (prev_frame (nat (stack_size c - frame_no - 1)) (stack c)))"

definition frame_arg :: "int option \<Rightarrow> rb_error + int" where
  "frame_arg frame_no = (case frame_no of None \<Rightarrow> Inr 0 | Some n \<Rightarrow> FIX2INT n)"

definition frame_field :: "(debug_frame \<Rightarrow> 'a) \<Rightarrow> debug_context \<Rightarrow> int option \<Rightarrow> 'a rb" where
  "frame_field field c frame_no =
     and_then (Some (frame_arg frame_no)) (\<lambda>n.
     and_then (get_frame_no c n) (\<lambda>p.
     case p of [] \<Rightarrow> None | f # _ \<Rightarrow> rb_return (field f)))"

definition Context_frame_file :: "debug_context \<Rightarrow> int option \<Rightarrow> bytes rb" where
  "Context_frame_file = frame_field (\<lambda>f. takeWhile (\<lambda>b. b \<noteq> 0) (fr_file f))"

definition Context_frame_line :: "debug_context \<Rightarrow> int option \<Rightarrow> int rb" where
  "Context_frame_line = frame_field fr_line"

definition Context_frame_binding :: "debug_context \<Rightarrow> int option \<Rightarrow> rb_object rb" where
  "Context_frame_binding = frame_field fr_binding"

definition Context_frame_self :: "debug_context \<Rightarrow> int option \<Rightarrow> rb_object rb" where
  "Context_frame_self = frame_field fr_self"

section \<open>Where to stop next\<close>

definition set_force :: "bool \<Rightarrow> debug_context \<Rightarrow> debug_context" where
  "set_force force c = (if force then CTX_FL_SET c CTX_FL_FORCE_MOVE else CTX_FL_UNSET c CTX_FL_FORCE_MOVE)"

definition Context_stop_next :: "int \<Rightarrow> bool \<Rightarrow> debug_context \<Rightarrow> (debug_context, int) act" where
  "Context_stop_next steps force c =
     checked c (FIX2INT steps) (\<lambda>n.
     if n < 0 then Some (c, Inl (RuntimeError ''Steps argument can't be negative.''))
     else Some (set_force force (c\<lparr>stop_next := n\<rparr>), Inr steps))"

definition Context_step_over :: "int \<Rightarrow> int option \<Rightarrow> bool \<Rightarrow> debug_context \<Rightarrow> (debug_context, unit) act" where
  "Context_step_over lines frame force c =
     (if stack_size c = 0 then Some (c, Inl (RuntimeError ''No frames collected.''))
      else
        checked c (FIX2INT lines) (\<lambda>n.
        let c = CTX_FL_UNSET (c\<lparr>stop_line := n\<rparr>) CTX_FL_STEPPED in
        act_then (case frame of
            None \<Rightarrow> Some (c\<lparr>dest_frame := calced_stack_size c\<rparr>, Inr ())
          | Some f \<Rightarrow>
              checked c (FIX2INT f) (\<lambda>f.
              if f < 0 \<and> f \<ge> calced_stack_size c then Some (c, Inl (RuntimeError ''Destination frame is out of range.''))
              else do {
                d \<leftarrow> c_int (calced_stack_size c - f);
                Some (c\<lparr>dest_frame := d\<rparr>, Inr ())
              })) (\<lambda>c _.
        Some (set_force force c, Inr ()))))"

definition Context_stop_frame :: "int \<Rightarrow> debug_context \<Rightarrow> (debug_context, int) act" where
  "Context_stop_frame frame c =
     checked c (FIX2INT frame) (\<lambda>f.
     if f < 0 \<and> f \<ge> calced_stack_size c then Some (c, Inl (RuntimeError ''Stop frame is out of range.''))
     else do {
       d \<leftarrow> c_int (calced_stack_size c - f);
       d \<leftarrow> c_int (d - 1);
       Some (c\<lparr>stop_frame := d\<rparr>, Inr frame)
     })"

section \<open>Frames that were collected\<close>

definition frame_at :: "location \<Rightarrow> debug_frame" where
  "frame_at l = \<lparr>fr_file = (case loc_path l of None \<Rightarrow> [] | Some path \<Rightarrow> path), fr_line = loc_line l,
     fr_binding = loc_binding l, fr_self = loc_self l\<rparr>"

lemma fill_loop_eq: "fill_loop ls c = c\<lparr>stack := map frame_at (rev ls) @ stack c\<rparr>"
  by (induction ls arbitrary: c) (simp_all add: Let_def fill_frame_def frame_at_def)

lemma prev_frame_eq: "n \<le> length fs \<Longrightarrow> prev_frame n fs = Some (drop n fs)"
  by (induction n fs rule: prev_frame.induct) auto

lemma prev_frame_None: "length fs < n \<Longrightarrow> prev_frame n fs = None"
  by (induction n fs rule: prev_frame.induct) auto

text \<open>Frame number \<open>n\<close> is the one of location \<open>n\<close>.\<close>

lemma frame_field_filled:
  assumes "stack c = []" "n < length ls" "length ls < 2 ^ 31"
  shows "frame_field field (fill_stack (Some ls) c) (Some (int n)) = Some (Inr (field (frame_at (ls ! n))))"
proof -
  let ?k = "length ls - n - 1"
  have "drop ?k (map frame_at (rev ls)) = frame_at (ls ! n) # drop (Suc ?k) (map frame_at (rev ls))"
    using assms(2) by (subst Cons_nth_drop_Suc [symmetric]) (simp_all add: rev_nth Suc_diff_Suc)
  moreover have "nat (int (length ls) - int n - 1) = ?k" using assms(2) by linarith
  ultimately show ?thesis
    using assms
    by (simp add: frame_field_def frame_arg_def FIX2INT_def get_frame_no_def check_frame_number_valid_def fill_stack_def
        fill_loop_eq prev_frame_eq rb_return_def)
qed

lemma frame_field_range:
  assumes "\<not> (0 \<le> n \<and> n < stack_size c)" "- (2 ^ 31) \<le> n" "n < 2 ^ 31"
  shows "frame_field field c (Some n) = Some (Inl (ArgError ''Invalid frame number''))"
  using assms by (auto simp: frame_field_def frame_arg_def FIX2INT_def get_frame_no_def check_frame_number_valid_def rb_raise_def)

text \<open>When the frames are gone, their number is still there.\<close>

lemma frame_field_cleared:
  assumes "0 \<le> n" "n < stack_size c" "stack_size c < 2 ^ 31"
  shows "frame_field field (clear_stack c) (Some n) = None"
proof -
  have "prev_frame (nat (stack_size c - n - 1)) [] \<in> {None, Some []}" by (cases "nat (stack_size c - n - 1)") auto
  then show ?thesis
    using assms
    by (auto simp: frame_field_def frame_arg_def FIX2INT_def get_frame_no_def check_frame_number_valid_def clear_stack_def)
qed

text \<open>The checks of the frame let every number pass, as long as the size is not negative.\<close>

lemma step_over_accepts:
  assumes "stack_size c \<noteq> 0" "0 \<le> calced_stack_size c" "calced_stack_size c < 2 ^ 31" "0 \<le> lines" "lines < 2 ^ 31"
    "- (2 ^ 31) \<le> f" "f < 2 ^ 31" "calced_stack_size c - f < 2 ^ 31"
  shows "\<exists>c'. Context_step_over lines (Some f) force c = Some (c', Inr ()) \<and> dest_frame c' = calced_stack_size c - f"
  using assms
  by (auto simp: Context_step_over_def checked_def FIX2INT_def act_then_def c_int_def CTX_FL_UNSET_def CTX_FL_SET_def set_force_def Let_def)

end
