(* ===== verification/Debase_Breakpoint.thy ===== *)
theory Debase_Breakpoint
  imports Debase_Context
begin

text \<open>
  Breakpoints and catchpoints of \<open>debase\<close> (\<open>ext/breakpoint.c\<close>). The array of breakpoints is a list whose
  entries are breakpoints, or \<open>nil\<close>. Two file names are compared from their ends; the lemmas say
  which names are taken for the same file.
\<close>

section \<open>Breakpoints\<close>

record breakpoint =
  bp_enabled :: bool
  bp_source :: bytes
  bp_expr :: "bytes option"
  bp_line :: int
  bp_id :: int

text \<open>The number of the last breakpoint is passed on; it is counted up before the line is looked at.\<close>

definition Breakpoint_initialize :: "bytes \<Rightarrow> int \<Rightarrow> bytes option \<Rightarrow> int \<Rightarrow> (int, breakpoint) act" where
  "Breakpoint_initialize source pos expr breakpoint_max = do {
     breakpoint_max \<leftarrow> c_int (breakpoint_max + 1);
     checked breakpoint_max (FIX2INT pos) (\<lambda>line.
       Some (breakpoint_max, Inr \<lparr>bp_enabled = True, bp_source = source, bp_expr = expr, bp_line = line, bp_id = breakpoint_max\<rparr>))
   }"

text \<open>The position of the first breakpoint with the number; \<open>nil\<close> has no data.\<close>

fun remove_loop :: "int \<Rightarrow> nat \<Rightarrow> breakpoint option list \<Rightarrow> rb_error + nat option" where
  "remove_loop num i [] = Inr None"
| "remove_loop num i (None # bs) = Inl (TypeError ''Data'')"
| "remove_loop num i (Some b # bs) = (if bp_id b = num then Inr (Some i) else remove_loop num (i + 1) bs)"

definition delete_at :: "nat \<Rightarrow> 'a list \<Rightarrow> 'a list" where
  "delete_at i xs = take i xs @ drop (Suc i) xs"

definition Breakpoint_remove :: "int \<Rightarrow> breakpoint option list option \<Rightarrow> (breakpoint option list option, breakpoint option) act" where
  "Breakpoint_remove id_value breakpoints =
     (case breakpoints of
        None \<Rightarrow> Some (None, Inr None)
      | Some bs \<Rightarrow>
          checked breakpoints (FIX2INT id_value) (\<lambda>num.
          checked breakpoints (remove_loop num 0 bs) (\<lambda>r.
          case r of
            None \<Rightarrow> Some (Some bs, Inr None)
          | Some i \<Rightarrow> do { b \<leftarrow> vec_at bs i; Some (Some (delete_at i bs), Inr b) })))"

definition Breakpoint_id :: "breakpoint \<Rightarrow> int" where "Breakpoint_id b = bp_id b"
definition Breakpoint_source :: "breakpoint \<Rightarrow> bytes" where "Breakpoint_source b = bp_source b"
definition Breakpoint_pos :: "breakpoint \<Rightarrow> int" where "Breakpoint_pos b = bp_line b"

section \<open>File names\<close>

definition isdirsep :: "u8 \<Rightarrow> bool" where
  "isdirsep x \<longleftrightarrow> x = 0x2F"

text \<open>The loop; \<open>low\<close> and \<open>low'\<close> are the least indices that are compared.\<close>

function filename_loop :: "bytes \<Rightarrow> bytes \<Rightarrow> int \<Rightarrow> int \<Rightarrow> int \<Rightarrow> int \<Rightarrow> bool \<Rightarrow> bool option" where
  "filename_loop source file low low' s f dirsep_flag =
     (if s \<ge> low \<and> f \<ge> low' then do {
        a \<leftarrow> (if s < 0 then None else vec_at source (nat s));
        b \<leftarrow> (if f < 0 then None else vec_at file (nat f));
        if (a = 0x2E \<or> b = 0x2E) \<and> dirsep_flag then Some True
        else if isdirsep a \<and> isdirsep b then filename_loop source file low low' (s - 1) (f - 1) True
        else if a \<noteq> b then Some False
        else filename_loop source file low low' (s - 1) (f - 1) dirsep_flag
      }
      else Some True)"
  by pat_completeness auto
termination
  by (relation "measure (\<lambda>(source, file, low, low', s, f, dirsep_flag). nat (s - low + 1))") auto

declare filename_loop.simps [simp del]

text \<open>The file is a C string, given by its characters.\<close>

definition filename_cmp_impl :: "bytes \<Rightarrow> bytes \<Rightarrow> bool option" where
  "filename_cmp_impl source file =
     (let s_len = int (length source); f_len = int (length file);
          min_len = (if s_len < f_len then s_len else f_len)
      in filename_loop source file (s_len - min_len) (f_len - min_len) (s_len - 1) (f_len - 1) False)"

definition filename_cmp :: "(bytes \<Rightarrow> bytes option) \<Rightarrow> bytes \<Rightarrow> bytes \<Rightarrow> bool option" where
  "filename_cmp realpath source file =
     filename_cmp_impl source (case realpath file of Some path \<Rightarrow> path | None \<Rightarrow> file)"

section \<open>Looking for a breakpoint\<close>

definition check_breakpoint_by_pos :: "(bytes \<Rightarrow> bytes option) \<Rightarrow> breakpoint option \<Rightarrow> bytes \<Rightarrow> int \<Rightarrow> bool option" where
  "check_breakpoint_by_pos realpath b file line =
     (case b of
        None \<Rightarrow> Some False
      | Some b \<Rightarrow>
          if \<not> bp_enabled b then Some False
          else if bp_line b \<noteq> line then Some False
          else filename_cmp realpath (bp_source b) file)"

fun find_loop :: "(bytes \<Rightarrow> bytes option) \<Rightarrow> bytes \<Rightarrow> int \<Rightarrow> breakpoint option list \<Rightarrow> breakpoint option option" where
  "find_loop realpath file line [] = Some None"
| "find_loop realpath file line (b # bs) = do {
     hit \<leftarrow> check_breakpoint_by_pos realpath b file line;
     if hit then Some b else find_loop realpath file line bs
   }"

text \<open>The file is what the string holds up to its first NUL; without an array the access is undefined.\<close>

definition breakpoint_find :: "(bytes \<Rightarrow> bytes option) \<Rightarrow> breakpoint option list option \<Rightarrow> bytes \<Rightarrow> int \<Rightarrow> breakpoint option rb" where
  "breakpoint_find realpath breakpoints source pos =
     and_then (Some (FIX2INT pos)) (\<lambda>line.
     total (do {
       bs \<leftarrow> breakpoints;
       find_loop realpath (takeWhile (\<lambda>c. c \<noteq> 0) source) line bs
     }))"

definition Breakpoint_find :: "(bytes \<Rightarrow> bytes option) \<Rightarrow> breakpoint option list option \<Rightarrow> bytes \<Rightarrow> int \<Rightarrow> breakpoint option rb" where
  "Breakpoint_find realpath breakpoints source pos = breakpoint_find realpath breakpoints source pos"

section \<open>Catchpoints\<close>

text \<open>
  The classes that are caught, with the number of hits; the names of a class and of what it
  inherits from are given. A name may be \<open>nil\<close>.
\<close>

type_synonym catchpoints = "(bytes option \<times> int) list"

fun catch_loop :: "catchpoints \<Rightarrow> bytes option list \<Rightarrow> (int \<times> bytes option) option" where
  "catch_loop catchpoints [] = None"
| "catch_loop catchpoints (mod_name # ancestors) =
     (case map_of catchpoints mod_name of
        Some hit_count \<Rightarrow> Some (hit_count, mod_name)
      | None \<Rightarrow> catch_loop catchpoints ancestors)"

definition catchpoint_hit_count :: "catchpoints option \<Rightarrow> bytes option list \<Rightarrow> (int \<times> bytes option) option" where
  "catchpoint_hit_count catchpoints ancestors =
     (case catchpoints of None \<Rightarrow> None | Some cs \<Rightarrow> catch_loop cs ancestors)"

section \<open>Which file names match\<close>

text \<open>The comparison on reversed names.\<close>

fun rev_match :: "bytes \<Rightarrow> bytes \<Rightarrow> bool \<Rightarrow> bool" where
  "rev_match (a # as) (b # bs) flag =
     (if (a = 0x2E \<or> b = 0x2E) \<and> flag then True
      else if isdirsep a \<and> isdirsep b then rev_match as bs True
      else if a \<noteq> b then False
      else rev_match as bs flag)"
| "rev_match _ _ flag = True"

lemma filename_loop_eq:
  assumes "m \<le> length as" "m \<le> length bs" "m = length as \<or> m = length bs"
  shows "filename_loop (rev as @ xs) (rev bs @ ys) (int (length as) - int m) (int (length bs) - int m)
    (int (length as) - 1) (int (length bs) - 1) flag = Some (rev_match as bs flag)"
  using assms
proof (induction as bs flag arbitrary: xs ys m rule: rev_match.induct)
  case (1 a as b bs flag)
  then obtain k where m: "m = Suc k" by (cases m) auto
  let ?xs = "rev as @ a # xs" and ?ys = "rev bs @ b # ys"
  let ?p = "int (length as)" and ?q = "int (length bs)"
  have k: "k \<le> length as" "k \<le> length bs" "k = length as \<or> k = length bs" using "1.prems" m by auto
  have n: "vec_at ?xs (length as) = Some a" "vec_at ?ys (length bs) = Some b" by (simp_all add: vec_at_def nth_append)
  have unfold: "filename_loop ?xs ?ys (?p - int k) (?q - int k) ?p ?q flag =
      (if (a = 0x2E \<or> b = 0x2E) \<and> flag then Some True
       else if isdirsep a \<and> isdirsep b then filename_loop ?xs ?ys (?p - int k) (?q - int k) (?p - 1) (?q - 1) True
       else if a \<noteq> b then Some False
       else filename_loop ?xs ?ys (?p - int k) (?q - int k) (?p - 1) (?q - 1) flag)"
    by (subst filename_loop.simps) (simp add: n)
  have "filename_loop ?xs ?ys (?p - int k) (?q - int k) ?p ?q flag = Some (rev_match (a # as) (b # bs) flag)"
    unfolding unfold using "1.IH"(1) [OF _ _ k] "1.IH"(2) [OF _ _ _ k] by (cases flag) simp_all
  moreover have "int (length (a # as)) - int m = ?p - int k" "int (length (b # bs)) - int m = ?q - int k"
    "int (length (a # as)) - 1 = ?p" "int (length (b # bs)) - 1 = ?q" by (simp_all add: m)
  ultimately show ?case by (simp only: rev.simps append_assoc append.simps)
qed (auto simp: filename_loop.simps)

lemma filename_cmp_eq: "filename_cmp_impl source file = Some (rev_match (rev source) (rev file) False)"
proof -
  have "filename_loop (rev (rev source) @ []) (rev (rev file) @ [])
      (int (length (rev source)) - int (min (length source) (length file))) (int (length (rev file)) - int (min (length source) (length file)))
      (int (length (rev source)) - 1) (int (length (rev file)) - 1) False = Some (rev_match (rev source) (rev file) False)"
    by (rule filename_loop_eq) (auto simp: min_def)
  moreover have "int (min (length source) (length file)) =
      (if int (length source) < int (length file) then int (length source) else int (length file))" by simp
  ultimately show ?thesis by (simp only: filename_cmp_impl_def Let_def rev_rev_ident append_Nil2 length_rev)
qed

text \<open>
  A match: the names agree on a common end that is one of them, or that contains a slash and has a
  dot before it in one of them.
\<close>

definition same_file :: "bytes \<Rightarrow> bytes \<Rightarrow> bool" where
  "same_file source file \<longleftrightarrow> (\<exists>as bs c. source = as @ c \<and> file = bs @ c \<and>
     (as = [] \<or> bs = [] \<or> 0x2F \<in> set c \<and> (last as = 0x2E \<or> last bs = 0x2E)))"

definition rev_same :: "bytes \<Rightarrow> bytes \<Rightarrow> bool \<Rightarrow> bool" where
  "rev_same xs ys flag \<longleftrightarrow> (\<exists>as bs c. xs = c @ as \<and> ys = c @ bs \<and>
     (as = [] \<or> bs = [] \<or> (flag \<or> 0x2F \<in> set c) \<and> (hd as = 0x2E \<or> hd bs = 0x2E)))"

lemma rev_same_Nil: "rev_same [] ys flag" "rev_same xs [] flag"
  by (auto simp: rev_same_def)

lemma rev_same_dot: "(a = 0x2E \<or> b = 0x2E) \<and> flag \<Longrightarrow> rev_same (a # as) (b # bs) flag"
  unfolding rev_same_def by (intro exI [of _ "a # as"] exI [of _ "b # bs"] exI [of _ "[]"]) auto

lemma rev_same_Cons:
  assumes "\<not> ((a = 0x2E \<or> b = 0x2E) \<and> flag)"
  shows "rev_same (a # xs) (b # ys) flag \<longleftrightarrow> a = b \<and> rev_same xs ys (flag \<or> a = 0x2F)"
proof
  assume "rev_same (a # xs) (b # ys) flag"
  then obtain as bs c where c: "a # xs = c @ as" "b # ys = c @ bs"
      "as = [] \<or> bs = [] \<or> (flag \<or> 0x2F \<in> set c) \<and> (hd as = 0x2E \<or> hd bs = 0x2E)"
    unfolding rev_same_def by blast
  show "a = b \<and> rev_same xs ys (flag \<or> a = 0x2F)"
  proof (cases c)
    case Nil
    with c assms show ?thesis by auto
  next
    case (Cons d ds)
    with c have "a = d" "b = d" "xs = ds @ as" "ys = ds @ bs" by auto
    with c(3) Cons show ?thesis
      unfolding rev_same_def by (intro conjI exI [of _ as] exI [of _ bs] exI [of _ ds]) auto
  qed
next
  assume *: "a = b \<and> rev_same xs ys (flag \<or> a = 0x2F)"
  then obtain as bs c where "xs = c @ as" "ys = c @ bs"
      "as = [] \<or> bs = [] \<or> (flag \<or> a = 0x2F \<or> 0x2F \<in> set c) \<and> (hd as = 0x2E \<or> hd bs = 0x2E)"
    unfolding rev_same_def by blast
  moreover have "b = a" using * by simp
  ultimately show "rev_same (a # xs) (b # ys) flag"
    unfolding rev_same_def
    by (intro exI [of _ as] exI [of _ bs] exI [of _ "a # c"]) auto
qed

lemma rev_match_same: "rev_match xs ys flag \<longleftrightarrow> rev_same xs ys flag"
proof (induction xs ys flag rule: rev_match.induct)
  case (1 a as b bs flag)
  show ?case
  proof (cases "(a = 0x2E \<or> b = 0x2E) \<and> flag")
    case True
    with rev_same_dot [OF True] show ?thesis by simp
  next
    case False
    then show ?thesis
      using "1.IH" rev_same_Cons [OF False] by (auto simp: isdirsep_def)
  qed
qed (simp_all add: rev_same_Nil)

lemma same_file_rev: "same_file source file \<longleftrightarrow> rev_same (rev source) (rev file) False"
proof
  assume "same_file source file"
  then obtain as bs c where "source = as @ c" "file = bs @ c"
      "as = [] \<or> bs = [] \<or> 0x2F \<in> set c \<and> (last as = 0x2E \<or> last bs = 0x2E)"
    unfolding same_file_def by blast
  then show "rev_same (rev source) (rev file) False"
    unfolding rev_same_def
    by (intro exI [of _ "rev as"] exI [of _ "rev bs"] exI [of _ "rev c"]) (auto simp: hd_rev)
next
  assume "rev_same (rev source) (rev file) False"
  then obtain as bs c where "rev source = c @ as" "rev file = c @ bs"
      "as = [] \<or> bs = [] \<or> 0x2F \<in> set c \<and> (hd as = 0x2E \<or> hd bs = 0x2E)"
    unfolding rev_same_def by blast
  moreover from this have "source = rev as @ rev c" "file = rev bs @ rev c"
    by (metis rev_append rev_rev_ident)+
  ultimately show "same_file source file"
    unfolding same_file_def
    by (intro exI [of _ "rev as"] exI [of _ "rev bs"] exI [of _ "rev c"]) (auto simp: last_rev)
qed

lemma filename_cmp_same: "filename_cmp_impl source file = Some (same_file source file)"
  by (simp add: filename_cmp_eq rev_match_same same_file_rev)

section \<open>The breakpoint that is found\<close>

definition hits :: "(bytes \<Rightarrow> bytes option) \<Rightarrow> bytes \<Rightarrow> int \<Rightarrow> breakpoint option \<Rightarrow> bool" where
  "hits realpath file line b \<longleftrightarrow> (case b of None \<Rightarrow> False
     | Some b \<Rightarrow> bp_enabled b \<and> bp_line b = line \<and>
         same_file (bp_source b) (case realpath file of Some path \<Rightarrow> path | None \<Rightarrow> file))"

lemma check_breakpoint_eq: "check_breakpoint_by_pos realpath b file line = Some (hits realpath file line b)"
  by (cases b) (auto simp: check_breakpoint_by_pos_def hits_def filename_cmp_def filename_cmp_same)

lemma find_loop_eq: "find_loop realpath file line bs = Some (case List.find (hits realpath file line) bs of None \<Rightarrow> None | Some b \<Rightarrow> b)"
  by (induction bs) (simp_all add: check_breakpoint_eq)

lemma catch_loop_eq:
  "catch_loop cs ns = (case List.find (\<lambda>n. map_of cs n \<noteq> None) ns of None \<Rightarrow> None | Some n \<Rightarrow> Some (the (map_of cs n), n))"
  by (induction ns) (auto split: option.splits)

text \<open>Removing takes away the first breakpoint with the number, and no other.\<close>

lemma remove_loop_eq:
  "None \<notin> set bs \<Longrightarrow> remove_loop num i bs = Inr (if \<exists>b. Some b \<in> set bs \<and> bp_id b = num
     then Some (i + length (takeWhile (\<lambda>b. bp_id (the b) \<noteq> num) bs)) else None)"
  by (induction num i bs rule: remove_loop.induct) auto

end
