(* ===== verification/Debase_Internals.thy ===== *)
theory Debase_Internals
  imports Debase_Locker Debase_Breakpoint "HOL-Library.AList"
begin

text \<open>
  The debugger \<open>debase\<close> itself (\<open>ext/debase_internals.c\<close>, \<open>ext/hacks.h\<close>): its global variables, the
  methods of the module \<open>Debase\<close>, and the handlers that Ruby calls at each line, call, return and
  exception. Contexts are objects with a number, as other places refer to them. What the handlers
  ask of Ruby, and the Ruby code that they call, is in the record \<open>vm\<close>. The verbose output of events
  is left out.

  A thread that has to wait calls \<open>rb_thread_stop\<close>; the handler then returns \<open>Waits\<close>, and goes on with
  \<open>resume\<close> when the thread runs again. Threads that were told to run are noted in \<open>woken\<close>.
\<close>

section \<open>State\<close>

record lock =
  locker :: "rb_thread option"
  locked :: locked_threads
  woken :: "rb_thread list"

record tracepoints =
  tpLine :: bool
  tpCall :: bool
  tpReturn :: bool
  tpRaise :: bool

record debase = lock +
  started :: bool
  verbose :: bool
  file_filter_enabled :: bool
  contexts :: "(rb_thread \<times> rb_object) list option"
  catchpoints :: "catchpoints option"
  breakpoints :: "breakpoint option list option"
  tps :: "tracepoints option"
  ctxs :: "debug_context list"
  thnum_current :: int
  breakpoint_max :: int

text \<open>A value of Ruby where C asks whether it is \<open>true\<close>, or whether it is \<open>false\<close>.\<close>

datatype rb_answer = AnswerTrue | AnswerFalse | AnswerOther

datatype callback =
  At_line rb_object bytes int
| At_breakpoint rb_object breakpoint
| At_catchpoint rb_object rb_object

record vm =
  alive :: "rb_thread \<Rightarrow> bool"
  is_debug_thread :: "rb_thread \<Rightarrow> bool"
  backtrace_size :: "rb_thread \<Rightarrow> nat option"
  inspector :: "rb_thread \<Rightarrow> location list option"
  real_stack_size :: "rb_thread \<Rightarrow> int"
  realpath :: "bytes \<Rightarrow> bytes option"
  accepts :: "bytes \<Rightarrow> rb_error + rb_answer"
  ancestors :: "rb_object \<Rightarrow> bytes option list"
  call_back :: "callback \<Rightarrow> debase \<Rightarrow> (debase, unit) act"

record event =
  ev_path :: bytes
  ev_line :: int
  ev_exception :: rb_object

text \<open>Contexts by their number.\<close>

definition upd_ctx :: "rb_object \<Rightarrow> (debug_context \<Rightarrow> debug_context option) \<Rightarrow> debase \<Rightarrow> (debase, unit) act" where
  "upd_ctx i f s = do {
     c \<leftarrow> vec_at (ctxs s) i;
     c \<leftarrow> f c;
     Some (s\<lparr>ctxs := (ctxs s)[i := c]\<rparr>, Inr ())
   }"

section \<open>Trace points\<close>

text \<open>A trace point that has not been made is no object of its class.\<close>

definition enable_trace_points :: "debase \<Rightarrow> (debase, bool) act" where
  "enable_trace_points s =
     (case tps s of
        None \<Rightarrow> Some (s, Inl (TypeError ''tracepoint''))
      | Some t \<Rightarrow>
          if tpLine t then Some (s, Inr True)
          else Some (s\<lparr>tps := Some \<lparr>tpLine = True, tpCall = True, tpReturn = True, tpRaise = True\<rparr>\<rparr>, Inr False))"

definition Debase_enable_trace_points :: "debase \<Rightarrow> (debase, bool) act" where
  "Debase_enable_trace_points s = enable_trace_points s"

definition can_disable_trace_points :: "debug_context \<Rightarrow> bool" where
  "can_disable_trace_points c \<longleftrightarrow> \<not> (- 1 \<noteq> dest_frame c \<or> stop_line c \<ge> 0 \<or> - 1 \<noteq> stop_next c \<or>
     stop_reason c \<noteq> CTX_STOP_NONE \<or> thread_pause c)"

text \<open>The loops over the contexts: the objects in the hash, one after the other.\<close>

fun each_context :: "(debug_context \<Rightarrow> debug_context) \<Rightarrow> (rb_thread \<times> rb_object) list \<Rightarrow> debug_context list \<Rightarrow> debug_context list option" where
  "each_context f [] cs = Some cs"
| "each_context f ((th, i) # kvs) cs = do {
     c \<leftarrow> vec_at cs i;
     each_context f kvs (cs[i := f c])
   }"

fun all_contexts :: "(debug_context \<Rightarrow> bool) \<Rightarrow> (rb_thread \<times> rb_object) list \<Rightarrow> debug_context list \<Rightarrow> bool option" where
  "all_contexts P [] cs = Some True"
| "all_contexts P ((th, i) # kvs) cs = do {
     c \<leftarrow> vec_at cs i;
     if P c then all_contexts P kvs cs else Some False
   }"

definition set_recalc_flag :: "debug_context \<Rightarrow> debug_context" where
  "set_recalc_flag c = CTX_FL_SET c CTX_FL_UPDATE_STACK"

definition try_disable_trace_points :: "debase \<Rightarrow> (debase, unit) act" where
  "try_disable_trace_points s = do {
     bs \<leftarrow> breakpoints s;
     if bs \<noteq> [] then gives s ()
     else do {
       cs \<leftarrow> catchpoints s;
       if cs \<noteq> [] then gives s ()
       else (case tps s of
           None \<Rightarrow> Some (s, Inl (TypeError ''tracepoint''))
         | Some t \<Rightarrow>
             if \<not> tpLine t then gives s ()
             else do {
               kvs \<leftarrow> contexts s;
               can_disable \<leftarrow> all_contexts can_disable_trace_points kvs (ctxs s);
               if \<not> can_disable then gives s ()
               else do {
                 let s = s\<lparr>tps := Some \<lparr>tpLine = False, tpCall = False, tpReturn = False, tpRaise = False\<rparr>\<rparr>;
                 cs \<leftarrow> each_context set_recalc_flag kvs (ctxs s);
                 gives (s\<lparr>ctxs := cs\<rparr>) ()
               }
             })
     }
   }"

section \<open>The lock\<close>

text \<open>The lock is given back, and the first thread that waits is told to run, which fails for a dead one.\<close>

definition release :: "(rb_thread \<Rightarrow> bool) \<Rightarrow> 'a lock_scheme \<Rightarrow> ('a lock_scheme, unit) act" where
  "release live s = do {
     let s = s\<lparr>locker := None\<rparr>;
     (l, thread) \<leftarrow> remove_from_locked (locked s);
     let s = s\<lparr>locked := l\<rparr>;
     case thread of
       None \<Rightarrow> gives s ()
     | Some th \<Rightarrow>
         if live th then gives (s\<lparr>woken := th # woken s\<rparr>) ()
         else Some (s, Inl (RuntimeError ''killed thread''))
   }"

definition cleanup :: "vm \<Rightarrow> rb_object \<Rightarrow> debase \<Rightarrow> (debase, unit) act" where
  "cleanup W i s =
     act_then (upd_ctx i (\<lambda>c. Some (clear_stack (c\<lparr>stop_reason := CTX_STOP_NONE\<rparr>))) s) (\<lambda>s _.
     act_then (release (alive W) s) (\<lambda>s _.
     try_disable_trace_points s))"

text \<open>One round of the loop: to wait for the lock, or as a suspended thread; not to go on; to go on with the lock.\<close>

datatype entry = Must_wait | Suspended | Not_now | Skipped | Entered

definition start_round :: "u32 \<Rightarrow> rb_thread \<Rightarrow> 'a lock_scheme \<Rightarrow> ('a lock_scheme \<times> entry) option" where
  "start_round fl thread s =
     (if locker s \<noteq> None \<and> locker s \<noteq> Some thread then do {
        l \<leftarrow> add_to_locked thread (locked s);
        Some (s\<lparr>locked := l\<rparr>, Must_wait)
      }
      else if fl AND CTX_FL_SUSPEND \<noteq> 0 \<and> locker s \<noteq> Some thread then Some (s, Suspended)
      else if locker s \<noteq> None then Some (s, Not_now)
      else do {
        let s = s\<lparr>locker := Some thread\<rparr>;
        if fl AND CTX_FL_SKIPPED \<noteq> 0 then Some (s, Skipped) else Some (s, Entered)
      })"

datatype outcome_of = Done | Waits

text \<open>The handler behind the check, for a thread that runs again.\<close>

definition resume :: "vm \<Rightarrow> rb_thread \<Rightarrow> rb_object \<Rightarrow> (debase \<Rightarrow> (debase, unit) act) \<Rightarrow> debase \<Rightarrow> (debase, outcome_of) act" where
  "resume W thread i body s = do {
     c \<leftarrow> vec_at (ctxs s) i;
     (s, e) \<leftarrow> start_round (flags c) thread s;
     case e of
       Must_wait \<Rightarrow> gives s Waits
     | Suspended \<Rightarrow> act_then (upd_ctx i (\<lambda>c. Some (CTX_FL_SET c CTX_FL_WAS_RUNNING)) s) (\<lambda>s _. gives s Waits)
     | Not_now \<Rightarrow> gives s Done
     | Skipped \<Rightarrow> act_then (cleanup W i s) (\<lambda>s _. gives s Done)
     | Entered \<Rightarrow> act_then (body s) (\<lambda>s _. gives s Done)
   }"

definition check_start_processing :: "vm \<Rightarrow> rb_thread \<Rightarrow> rb_object \<Rightarrow> (debase \<Rightarrow> (debase, unit) act) \<Rightarrow> debase \<Rightarrow> (debase, outcome_of) act" where
  "check_start_processing W thread i body s = do {
     c \<leftarrow> vec_at (ctxs s) i;
     if CTX_FL_TEST c CTX_FL_IGNORE then gives s Done else resume W thread i body s
   }"

section \<open>Contexts of threads\<close>

definition Debase_thread_context :: "vm \<Rightarrow> rb_thread \<Rightarrow> debase \<Rightarrow> (debase, rb_object) act" where
  "Debase_thread_context W thread s = do {
     kvs \<leftarrow> contexts s;
     case map_of kvs thread of
       Some i \<Rightarrow> gives s i
     | None \<Rightarrow> do {
         n \<leftarrow> c_int (thnum_current s + 1);
         let c = context_create thread n (backtrace_size W thread) (is_debug_thread W thread);
         let i = length (ctxs s);
         gives (s\<lparr>thnum_current := n, ctxs := ctxs s @ [c], contexts := Some (AList.update thread i kvs)\<rparr>) i
       }
   }"

definition Debase_current_context :: "vm \<Rightarrow> rb_thread \<Rightarrow> debase \<Rightarrow> (debase, rb_object) act" where
  "Debase_current_context W current s = Debase_thread_context W current s"

text \<open>Pausing, which is in \<open>context.c\<close> but enables the trace points.\<close>

definition Context_pause :: "rb_thread \<Rightarrow> rb_object \<Rightarrow> debase \<Rightarrow> (debase, bool) act" where
  "Context_pause current i s = do {
     c \<leftarrow> vec_at (ctxs s) i;
     if ctx_thread c = current then gives s False
     else
       act_then (enable_trace_points s) (\<lambda>s _.
       act_then (upd_ctx i (\<lambda>c. Some (c\<lparr>thread_pause := True\<rparr>)) s) (\<lambda>s _. gives s True))
   }"

section \<open>Events\<close>

definition check_stop_frame :: "debug_context \<Rightarrow> bool" where
  "check_stop_frame c \<longleftrightarrow> calced_stack_size c = stop_frame c \<and> calced_stack_size c \<ge> 0"

definition is_path_accepted :: "vm \<Rightarrow> bytes \<Rightarrow> debase \<Rightarrow> rb_error + rb_answer" where
  "is_path_accepted W path s = (if \<not> file_filter_enabled s then Inr AnswerTrue else accepts W path)"

definition update_stack_size :: "int \<Rightarrow> debug_context \<Rightarrow> debug_context" where
  "update_stack_size real c =
     (let c = c\<lparr>stack_size := real\<rparr> in
      if CTX_FL_TEST c CTX_FL_UPDATE_STACK
      then CTX_FL_UNSET (c\<lparr>calced_stack_size := stack_size c\<rparr>) CTX_FL_UPDATE_STACK else c)"

definition remove_pause_flag :: "debug_context \<Rightarrow> debug_context" where
  "remove_pause_flag c = c\<lparr>thread_pause := False\<rparr>"

definition call_at_line :: "vm \<Rightarrow> rb_object \<Rightarrow> bytes \<Rightarrow> int \<Rightarrow> debase \<Rightarrow> (debase, unit) act" where
  "call_at_line W i file line s = do {
     kvs \<leftarrow> contexts s;
     cs \<leftarrow> each_context remove_pause_flag kvs (ctxs s);
     let s = s\<lparr>ctxs := cs\<rparr>;
     act_then (upd_ctx i (\<lambda>c. Some ((CTX_FL_UNSET (CTX_FL_UNSET c CTX_FL_STEPPED) CTX_FL_FORCE_MOVE)
         \<lparr>last_file := Some file, last_line := line\<rparr>)) s) (\<lambda>s _.
     call_back W (At_line i (takeWhile (\<lambda>b. b \<noteq> 0) file) line) s)
   }"

text \<open>What a line does to the counters of the context. Files are compared up to a NUL.\<close>

definition c_str :: "bytes \<Rightarrow> bytes" where
  "c_str s = takeWhile (\<lambda>b. b \<noteq> 0) s"

definition line_moved :: "bytes \<Rightarrow> int \<Rightarrow> debug_context \<Rightarrow> bool" where
  "line_moved file line c \<longleftrightarrow>
     thread_pause c \<or> last_line c \<noteq> line \<or> (case last_file c of None \<Rightarrow> True | Some f \<Rightarrow> c_str f \<noteq> c_str file)"

definition count_line :: "bool \<Rightarrow> debug_context \<Rightarrow> debug_context option" where
  "count_line moved c = do {
     c \<leftarrow> (if moved \<or> \<not> CTX_FL_TEST c CTX_FL_FORCE_MOVE
          then do { n \<leftarrow> c_int (stop_next c - 1); Some (c\<lparr>stop_next := n\<rparr>) } else Some c);
     let c = (if stop_next c < 0 then c\<lparr>stop_next := -1\<rparr> else c);
     if moved \<or> (CTX_FL_TEST c CTX_FL_STEPPED \<and> \<not> CTX_FL_TEST c CTX_FL_FORCE_MOVE)
     then do { n \<leftarrow> c_int (stop_line c - 1); Some (CTX_FL_UNSET (c\<lparr>stop_line := n\<rparr>) CTX_FL_STEPPED) }
     else Some c
   }"

definition line_step :: "bytes \<Rightarrow> int \<Rightarrow> debug_context \<Rightarrow> debug_context option" where
  "line_step file line c = do {
     let moved = line_moved file line c;
     let c = (if thread_pause c then c\<lparr>stop_next := 1, dest_frame := -1\<rparr> else c);
     c \<leftarrow> (if dest_frame c = -1 \<or> calced_stack_size c = dest_frame c then count_line moved c
          else Some (if calced_stack_size c < dest_frame c then c\<lparr>stop_next := 0\<rparr> else c));
     Some (if check_stop_frame c then c\<lparr>stop_next := 0, stop_frame := -1\<rparr> else c)
   }"

definition fill_context :: "vm \<Rightarrow> rb_thread \<Rightarrow> rb_object \<Rightarrow> debase \<Rightarrow> (debase, unit) act" where
  "fill_context W thread i s = upd_ctx i (\<lambda>c. Some (fill_stack (inspector W thread) c)) s"

text \<open>The stop at a line.\<close>

definition line_stop :: "vm \<Rightarrow> rb_thread \<Rightarrow> rb_object \<Rightarrow> event \<Rightarrow> breakpoint option \<Rightarrow> debase \<Rightarrow> (debase, unit) act" where
  "line_stop W thread i ev b s =
     act_then (fill_context W thread i s) (\<lambda>s _.
     act_then (upd_ctx i (\<lambda>c. Some (c\<lparr>stop_reason := CTX_STOP_STEP\<rparr>)) s) (\<lambda>s _.
     act_then (case b of
         None \<Rightarrow> gives s ()
       | Some b \<Rightarrow>
           act_then (upd_ctx i (\<lambda>c. Some (c\<lparr>stop_reason := CTX_STOP_BREAKPOINT\<rparr>)) s) (\<lambda>s _.
           call_back W (At_breakpoint i b) s)) (\<lambda>s _.
     act_then (upd_ctx i (\<lambda>c. Some (reset_stepping_stop_points c)) s) (\<lambda>s _.
     call_at_line W i (ev_path ev) (ev_line ev) s))))"

definition line_accepted :: "vm \<Rightarrow> rb_thread \<Rightarrow> rb_object \<Rightarrow> event \<Rightarrow> debase \<Rightarrow> (debase, unit) act" where
  "line_accepted W thread i ev s =
     checked s (FIX2INT (ev_line ev)) (\<lambda>line.
     act_then (upd_ctx i (\<lambda>c. line_step (ev_path ev) line (update_stack_size (real_stack_size W thread) c)) s) (\<lambda>s _.
     act_then (stay s (breakpoint_find (realpath W) (breakpoints s) (ev_path ev) (ev_line ev))) (\<lambda>s b. do {
     c \<leftarrow> vec_at (ctxs s) i;
     if stop_next c = 0 \<or> stop_line c = 0 \<or> b \<noteq> None then line_stop W thread i ev b s else gives s ()
   })))"

definition line_body :: "vm \<Rightarrow> rb_thread \<Rightarrow> rb_object \<Rightarrow> event \<Rightarrow> debase \<Rightarrow> (debase, unit) act" where
  "line_body W thread i ev s =
     act_then (checked s (is_path_accepted W (ev_path ev) s) (\<lambda>a.
         if a \<noteq> AnswerFalse then line_accepted W thread i ev s else gives s ())) (\<lambda>s _.
     cleanup W i s)"

definition process_line_event :: "vm \<Rightarrow> rb_thread \<Rightarrow> event \<Rightarrow> debase \<Rightarrow> (debase, outcome_of) act" where
  "process_line_event W thread ev s =
     act_then (Debase_current_context W thread s) (\<lambda>s i.
     check_start_processing W thread i (line_body W thread i ev) s)"

definition return_body :: "vm \<Rightarrow> rb_thread \<Rightarrow> rb_object \<Rightarrow> debase \<Rightarrow> (debase, unit) act" where
  "return_body W thread i s =
     act_then (upd_ctx i (\<lambda>c. do {
         n \<leftarrow> c_int (calced_stack_size c - 1);
         let c = update_stack_size (real_stack_size W thread) (c\<lparr>calced_stack_size := n\<rparr>);
         Some (if check_stop_frame c then c\<lparr>stop_next := 1, stop_frame := -1\<rparr> else c)
       }) s) (\<lambda>s _.
     cleanup W i s)"

definition process_return_event :: "vm \<Rightarrow> rb_thread \<Rightarrow> event \<Rightarrow> debase \<Rightarrow> (debase, outcome_of) act" where
  "process_return_event W thread ev s =
     act_then (Debase_current_context W thread s) (\<lambda>s i.
     check_start_processing W thread i (return_body W thread i) s)"

definition call_body :: "vm \<Rightarrow> rb_thread \<Rightarrow> rb_object \<Rightarrow> debase \<Rightarrow> (debase, unit) act" where
  "call_body W thread i s =
     act_then (upd_ctx i (\<lambda>c. do {
         n \<leftarrow> c_int (calced_stack_size c + 1);
         Some (update_stack_size (real_stack_size W thread) (c\<lparr>calced_stack_size := n\<rparr>))
       }) s) (\<lambda>s _.
     cleanup W i s)"

definition process_call_event :: "vm \<Rightarrow> rb_thread \<Rightarrow> event \<Rightarrow> debase \<Rightarrow> (debase, outcome_of) act" where
  "process_call_event W thread ev s =
     act_then (Debase_current_context W thread s) (\<lambda>s i.
     check_start_processing W thread i (call_body W thread i) s)"

text \<open>An exception that is caught: the number of hits goes up, and Ruby is told.\<close>

definition catch_stop :: "vm \<Rightarrow> rb_thread \<Rightarrow> rb_object \<Rightarrow> event \<Rightarrow> bytes option \<Rightarrow> debase \<Rightarrow> (debase, unit) act" where
  "catch_stop W thread i ev exception_name s = do {
     cs \<leftarrow> catchpoints s;
     checked s (FIX2INT (ev_line ev)) (\<lambda>line.
     checked s (case map_of cs exception_name of None \<Rightarrow> Inl (TypeError ''Integer'') | Some n \<Rightarrow> FIX2INT n) (\<lambda>n. do {
       n \<leftarrow> c_int (n + 1);
       let s = s\<lparr>catchpoints := Some (AList.update exception_name n cs)\<rparr>;
       act_then (upd_ctx i (\<lambda>c. Some (c\<lparr>stop_reason := CTX_STOP_CATCHPOINT\<rparr>)) s) (\<lambda>s _.
       act_then (call_back W (At_catchpoint i (ev_exception ev)) s) (\<lambda>s _.
       call_at_line W i (ev_path ev) line s))
     }))
   }"

definition raise_body :: "vm \<Rightarrow> rb_thread \<Rightarrow> rb_object \<Rightarrow> event \<Rightarrow> debase \<Rightarrow> (debase, unit) act" where
  "raise_body W thread i ev s =
     act_then (upd_ctx i (\<lambda>c. Some (update_stack_size (real_stack_size W thread) c)) s) (\<lambda>s _.
     act_then (case catchpoint_hit_count (catchpoints s) (ancestors W (ev_exception ev)) of
         None \<Rightarrow> gives s ()
       | Some (hit_count, exception_name) \<Rightarrow>
           act_then (fill_context W thread i s) (\<lambda>s _.
           checked s (is_path_accepted W (ev_path ev) s) (\<lambda>a.
           if a = AnswerTrue then catch_stop W thread i ev exception_name s else gives s ()))) (\<lambda>s _.
     cleanup W i s))"

definition process_raise_event :: "vm \<Rightarrow> rb_thread \<Rightarrow> event \<Rightarrow> debase \<Rightarrow> (debase, outcome_of) act" where
  "process_raise_event W thread ev s =
     act_then (Debase_current_context W thread s) (\<lambda>s i.
     check_start_processing W thread i (raise_body W thread i ev) s)"

section \<open>Methods of the module\<close>

definition Debase_setup_tracepoints :: "debase \<Rightarrow> debase" where
  "Debase_setup_tracepoints s =
     (if started s then s
      else s\<lparr>started := True, contexts := Some [], breakpoints := Some [], catchpoints := Some [],
        tps := Some \<lparr>tpLine = False, tpCall = False, tpReturn = False, tpRaise = False\<rparr>\<rparr>)"

text \<open>The four variables start as zero, which is not \<open>nil\<close>.\<close>

definition Debase_remove_tracepoints :: "debase \<Rightarrow> (debase, unit) act" where
  "Debase_remove_tracepoints s =
     (let s = s\<lparr>started := False\<rparr> in
      case tps s of
        None \<Rightarrow> Some (s, Inl (TypeError ''tracepoint''))
      | Some t \<Rightarrow> gives (s\<lparr>tps := Some \<lparr>tpLine = False, tpCall = False, tpReturn = False, tpRaise = False\<rparr>\<rparr>) ())"

definition debase_prepare_context :: "vm \<Rightarrow> rb_thread \<Rightarrow> bool \<Rightarrow> debase \<Rightarrow> (debase, unit) act" where
  "debase_prepare_context W current stop s =
     act_then (Debase_current_context W current s) (\<lambda>s i.
     if stop then
       act_then (upd_ctx i (\<lambda>c. Some (c\<lparr>stop_next := 1\<rparr>)) s) (\<lambda>s _.
       act_then (Debase_enable_trace_points s) (\<lambda>s _. gives s ()))
     else gives s ())"

definition Debase_prepare_context :: "vm \<Rightarrow> rb_thread \<Rightarrow> debase \<Rightarrow> (debase, unit) act" where
  "Debase_prepare_context W current s = act_then (Debase_current_context W current s) (\<lambda>s _. gives s ())"

text \<open>The load may raise; the exception is then the result.\<close>

definition Debase_debug_load :: "vm \<Rightarrow> (debase \<Rightarrow> (debase, unit) act) \<Rightarrow> rb_thread \<Rightarrow> bool option \<Rightarrow> debase \<Rightarrow> (debase, rb_error option) act" where
  "Debase_debug_load W load current stop s =
     act_then (debase_prepare_context W current (case stop of None \<Rightarrow> False | Some b \<Rightarrow> b) (Debase_setup_tracepoints s)) (\<lambda>s _.
     map_option (\<lambda>(s, r). (s, Inr (case r of Inl e \<Rightarrow> Some e | Inr _ \<Rightarrow> None))) (load s))"

definition remove_dead_threads :: "(rb_thread \<Rightarrow> bool) \<Rightarrow> (rb_thread \<times> rb_object) list \<Rightarrow> (rb_thread \<times> rb_object) list" where
  "remove_dead_threads live kvs = filter (\<lambda>(th, i). live th) kvs"

definition Debase_contexts :: "vm \<Rightarrow> debase \<Rightarrow> (debase, rb_object list) act" where
  "Debase_contexts W s = do {
     kvs \<leftarrow> contexts s;
     let kvs = remove_dead_threads (alive W) kvs;
     gives (s\<lparr>contexts := Some kvs\<rparr>) (map snd kvs)
   }"

definition Debase_breakpoints :: "debase \<Rightarrow> breakpoint option list option" where
  "Debase_breakpoints s = breakpoints s"

definition Debase_catchpoints :: "debase \<Rightarrow> rb_error + catchpoints" where
  "Debase_catchpoints s =
     (case catchpoints s of None \<Rightarrow> Inl (RuntimeError ''Debugger.start is not called yet.'') | Some cs \<Rightarrow> Inr cs)"

definition Debase_started :: "debase \<Rightarrow> bool" where "Debase_started s = started s"
definition Debase_verbose :: "debase \<Rightarrow> bool" where "Debase_verbose s = verbose s"
definition Debase_set_verbose :: "bool \<Rightarrow> debase \<Rightarrow> debase" where "Debase_set_verbose b s = s\<lparr>verbose := b\<rparr>"

definition Debase_enable_file_filtering :: "bool \<Rightarrow> debase \<Rightarrow> debase" where
  "Debase_enable_file_filtering b s = s\<lparr>file_filter_enabled := b\<rparr>"

definition context_init_variables :: "debase \<Rightarrow> debase" where
  "context_init_variables s = s\<lparr>thnum_current := 0\<rparr>"

definition breakpoint_init_variables :: "debase \<Rightarrow> debase" where
  "breakpoint_init_variables s = s\<lparr>breakpoint_max := 0\<rparr>"

definition Debase_init_variables :: "debase \<Rightarrow> debase" where
  "Debase_init_variables s =
     breakpoint_init_variables (context_init_variables
       (s\<lparr>started := False, verbose := False, locker := None, file_filter_enabled := False,
          contexts := None, catchpoints := None, breakpoints := None\<rparr>))"

text \<open>The state when the library has been loaded.\<close>

definition debase_loaded :: debase where
  "debase_loaded = Debase_init_variables \<lparr>locker = None, locked = no_locked, woken = [], started = False, verbose = False,
     file_filter_enabled = False, contexts = None, catchpoints = None, breakpoints = None, tps = None, ctxs = [],
     thnum_current = 0, breakpoint_max = 0\<rparr>"

end
