(* ===== verification/Debase_Stepping.thy ===== *)
theory Debase_Stepping
  imports Debase_Internals
begin

text \<open>
  Stepping by lines: what the handler of lines does in a thread whose context counts the lines to
  the next stop, when no other thread uses the debugger and there are no breakpoints.
\<close>

section \<open>A thread alone\<close>

definition alone :: "rb_thread \<Rightarrow> rb_object \<Rightarrow> debase \<Rightarrow> bool" where
  "alone t i s \<longleftrightarrow> locker s = None \<and> queue_is (locked s) [] \<and> \<not> file_filter_enabled s \<and> breakpoints s = Some [] \<and>
     catchpoints s \<noteq> None \<and> (\<exists>tp. tps s = Some tp \<and> tpLine tp) \<and>
     (\<exists>kvs. contexts s = Some kvs \<and> map_of kvs t = Some i \<and> (\<forall>(u, j) \<in> set kvs. j < length (ctxs s)))"

text \<open>A context that counts lines: \<open>n\<close> of them are left, and none is counted for stepping over. It has no frames.\<close>

definition counting :: "int \<Rightarrow> debug_context \<Rightarrow> bool" where
  "counting n c \<longleftrightarrow> stack c = [] \<and> stop_next c = n \<and> dest_frame c = -1 \<and> stop_frame c = -1 \<and> stop_line c < 0 \<and> \<not> thread_pause c \<and>
     \<not> CTX_FL_TEST c CTX_FL_FORCE_MOVE \<and> \<not> CTX_FL_TEST c CTX_FL_IGNORE \<and> \<not> CTX_FL_TEST c CTX_FL_SUSPEND \<and>
     \<not> CTX_FL_TEST c CTX_FL_SKIPPED"

lemma alone_index: "alone t i s \<Longrightarrow> i < length (ctxs s)"
  by (auto simp: alone_def dest!: map_of_SomeD)

lemma flag_unset: "CTX_FL_TEST (CTX_FL_UNSET c g) f \<longleftrightarrow> CTX_FL_TEST c f" if "NOT g AND f = f"
proof -
  have "(flags c AND NOT g) AND f = flags c AND f" using that by (simp only: and.assoc)
  then show ?thesis by (simp add: CTX_FL_TEST_def CTX_FL_UNSET_def)
qed

lemma flag_fields [simp]:
  "CTX_FL_TEST (c\<lparr>stop_next := n\<rparr>) f = CTX_FL_TEST c f" "CTX_FL_TEST (c\<lparr>stop_line := n\<rparr>) f = CTX_FL_TEST c f"
  "CTX_FL_TEST (c\<lparr>stack_size := n\<rparr>) f = CTX_FL_TEST c f" "CTX_FL_TEST (c\<lparr>calced_stack_size := n\<rparr>) f = CTX_FL_TEST c f"
  "CTX_FL_TEST (c\<lparr>stop_reason := r\<rparr>) f = CTX_FL_TEST c f" "CTX_FL_TEST (c\<lparr>stack := fs\<rparr>) f = CTX_FL_TEST c f"
  by (simp_all add: CTX_FL_TEST_def)

lemma flag_unset_simps [simp]:
  "CTX_FL_TEST (CTX_FL_UNSET c CTX_FL_STEPPED) CTX_FL_FORCE_MOVE = CTX_FL_TEST c CTX_FL_FORCE_MOVE"
  "CTX_FL_TEST (CTX_FL_UNSET c CTX_FL_STEPPED) CTX_FL_IGNORE = CTX_FL_TEST c CTX_FL_IGNORE"
  "CTX_FL_TEST (CTX_FL_UNSET c CTX_FL_STEPPED) CTX_FL_SUSPEND = CTX_FL_TEST c CTX_FL_SUSPEND"
  "CTX_FL_TEST (CTX_FL_UNSET c CTX_FL_STEPPED) CTX_FL_SKIPPED = CTX_FL_TEST c CTX_FL_SKIPPED"
  "CTX_FL_TEST (CTX_FL_UNSET c CTX_FL_FORCE_MOVE) CTX_FL_IGNORE = CTX_FL_TEST c CTX_FL_IGNORE"
  "CTX_FL_TEST (CTX_FL_UNSET c CTX_FL_FORCE_MOVE) CTX_FL_SUSPEND = CTX_FL_TEST c CTX_FL_SUSPEND"
  "CTX_FL_TEST (CTX_FL_UNSET c CTX_FL_FORCE_MOVE) CTX_FL_SKIPPED = CTX_FL_TEST c CTX_FL_SKIPPED"
  "CTX_FL_TEST (CTX_FL_UNSET c CTX_FL_UPDATE_STACK) CTX_FL_FORCE_MOVE = CTX_FL_TEST c CTX_FL_FORCE_MOVE"
  "CTX_FL_TEST (CTX_FL_UNSET c CTX_FL_UPDATE_STACK) CTX_FL_IGNORE = CTX_FL_TEST c CTX_FL_IGNORE"
  "CTX_FL_TEST (CTX_FL_UNSET c CTX_FL_UPDATE_STACK) CTX_FL_SUSPEND = CTX_FL_TEST c CTX_FL_SUSPEND"
  "CTX_FL_TEST (CTX_FL_UNSET c CTX_FL_UPDATE_STACK) CTX_FL_SKIPPED = CTX_FL_TEST c CTX_FL_SKIPPED"
  by (rule flag_unset; simp add: CTX_FL_STEPPED_def CTX_FL_UPDATE_STACK_def CTX_FL_FORCE_MOVE_def CTX_FL_IGNORE_def
      CTX_FL_SUSPEND_def CTX_FL_SKIPPED_def)+

lemma unset_fields [simp]:
  "stop_next (CTX_FL_UNSET c f) = stop_next c" "stop_line (CTX_FL_UNSET c f) = stop_line c"
  "dest_frame (CTX_FL_UNSET c f) = dest_frame c" "stop_frame (CTX_FL_UNSET c f) = stop_frame c"
  "thread_pause (CTX_FL_UNSET c f) = thread_pause c" "stack (CTX_FL_UNSET c f) = stack c" "calced_stack_size (CTX_FL_UNSET c f) = calced_stack_size c"
  by (simp_all add: CTX_FL_UNSET_def)

lemma update_fields [simp]:
  "stop_next (update_stack_size r c) = stop_next c" "stop_line (update_stack_size r c) = stop_line c"
  "dest_frame (update_stack_size r c) = dest_frame c" "stop_frame (update_stack_size r c) = stop_frame c"
  "thread_pause (update_stack_size r c) = thread_pause c" "stack (update_stack_size r c) = stack c"
  by (simp_all add: update_stack_size_def Let_def)

lemma counting_update: "counting n c \<Longrightarrow> counting n (update_stack_size r c)"
  by (simp add: counting_def update_stack_size_def Let_def)

text \<open>A line is counted.\<close>

lemma line_step_counts:
  assumes "counting n c" "0 < n" "n < 2 ^ 31" "- (2 ^ 31) < stop_line c"
  shows "\<exists>c'. line_step file line c = Some c' \<and> counting (n - 1) c' \<and> stop_line c - 1 \<le> stop_line c'"
proof -
  have f: "\<not> thread_pause c" "dest_frame c = -1" "stop_next c = n" "stop_line c < 0" "\<not> CTX_FL_TEST c CTX_FL_FORCE_MOVE"
    using assms(1) by (simp_all add: counting_def)
  define m where "m = line_moved file line c"
  obtain c' where c': "count_line m c = Some c'" "counting (n - 1) c'" "stop_line c - 1 \<le> stop_line c'"
  proof (cases "m \<or> CTX_FL_TEST c CTX_FL_STEPPED")
    case True
    show thesis
    proof (rule that)
      show "count_line m c = Some (CTX_FL_UNSET (c\<lparr>stop_next := n - 1, stop_line := stop_line c - 1\<rparr>) CTX_FL_STEPPED)"
        using f assms(2-4) True by (auto simp: count_line_def c_int_def Let_def)
    qed (use assms(1) in \<open>simp_all add: counting_def\<close>)
  next
    case False
    show thesis
    proof (rule that)
      show "count_line m c = Some (c\<lparr>stop_next := n - 1\<rparr>)"
        using f assms(2-4) False by (simp add: count_line_def c_int_def Let_def)
    qed (use assms(1) in \<open>simp_all add: counting_def\<close>)
  qed
  moreover have "\<not> check_stop_frame c'" using c'(2) by (auto simp: check_stop_frame_def counting_def)
  ultimately show ?thesis using f(1,2) by (simp add: line_step_def Let_def m_def)
qed

lemma flag_unset_self [simp]: "\<not> CTX_FL_TEST (CTX_FL_UNSET c f) f"
proof -
  have "NOT f AND f = 0" by (simp add: and.commute)
  then have "(flags c AND NOT f) AND f = 0" by (simp add: and.assoc)
  then show ?thesis by (simp add: CTX_FL_TEST_def CTX_FL_UNSET_def)
qed

text \<open>Asking for \<open>n\<close> steps makes the context count \<open>n\<close> lines.\<close>

lemma stop_next_counts:
  assumes "counting m c" "Context_stop_next n False c = Some (c', Inr r)"
  shows "counting n c' \<and> stop_line c' = stop_line c"
  using assms
  by (auto simp: Context_stop_next_def FIX2INT_def checked_def set_force_def counting_def split: if_splits)

section \<open>One event\<close>

lemma upd_ctx_eq: "i < length (ctxs s) \<Longrightarrow> f (ctxs s ! i) = Some c \<Longrightarrow> upd_ctx i f s = gives (s\<lparr>ctxs := (ctxs s)[i := c]\<rparr>) ()"
  by (simp add: upd_ctx_def vec_at_Some gives_def)

lemma act_then_gives [simp]: "act_then (gives s x) f = f s x"
  by (simp add: act_then_def gives_def)

lemma stay_return [simp]: "act_then (stay s (Some (Inr x))) f = f s x"
  by (simp add: act_then_def stay_def)

lemma locker_ctxs [simp]: "s\<lparr>locker := l, ctxs := cs\<rparr> = s\<lparr>ctxs := cs, locker := l\<rparr>" for s :: debase
  by simp

text \<open>With the lock free, the event runs its body.\<close>

lemma alone_enters:
  assumes "alone t i s" "counting n (ctxs s ! i)"
  shows "process_line_event W t ev s = act_then (line_body W t i ev (s\<lparr>locker := Some t\<rparr>)) (\<lambda>s _. gives s Done)"
proof -
  have i: "i < length (ctxs s)" by (rule alone_index [OF assms(1)])
  have fl: "flags (ctxs s ! i) AND CTX_FL_IGNORE = 0" "flags (ctxs s ! i) AND CTX_FL_SUSPEND = 0" "flags (ctxs s ! i) AND CTX_FL_SKIPPED = 0"
    using assms(2) by (simp_all add: counting_def CTX_FL_TEST_def)
  have "Debase_current_context W t s = gives s i"
    using assms(1) by (auto simp: Debase_current_context_def Debase_thread_context_def alone_def)
  moreover have "start_round (flags (ctxs s ! i)) t s = Some (s\<lparr>locker := Some t\<rparr>, Entered)"
    using assms(1) fl by (simp add: start_round_def alone_def Let_def)
  ultimately show ?thesis
    using i fl by (simp add: process_line_event_def check_start_processing_def resume_def CTX_FL_TEST_def vec_at_Some)
qed

lemma all_contexts_eq:
  "\<forall>(u, j) \<in> set kvs. j < length cs \<Longrightarrow> all_contexts P kvs cs = Some (\<forall>(u, j) \<in> set kvs. P (cs ! j))"
  by (induction kvs) (auto simp: vec_at_Some)

text \<open>At the end of the event the context is as the event left it, its frames are gone, and the lock is free.\<close>

lemma cleanup_counting:
  assumes "alone t i s" "counting n (ctxs s ! i)" "n \<noteq> -1"
  shows "cleanup W i (s\<lparr>locker := Some t\<rparr>) =
    gives (s\<lparr>ctxs := (ctxs s)[i := clear_stack ((ctxs s ! i)\<lparr>stop_reason := CTX_STOP_NONE\<rparr>)], locker := None\<rparr>) ()"
proof -
  let ?c = "clear_stack ((ctxs s ! i)\<lparr>stop_reason := CTX_STOP_NONE\<rparr>)"
  let ?s = "s\<lparr>ctxs := (ctxs s)[i := ?c], locker := None\<rparr>"
  have i: "i < length (ctxs s)" by (rule alone_index [OF assms(1)])
  have queue: "remove_from_locked (locked s) = Some (locked s, None)"
  proof -
    obtain l where "remove_from_locked (locked s) = Some (l, None)" using remove_refines [of "locked s" "[]"] assms(1) by (auto simp: alone_def)
    then show ?thesis by (auto simp: remove_from_locked_def Let_def split: option.splits bind_splits)
  qed
  obtain kvs tp cs where s: "contexts s = Some kvs" "map_of kvs t = Some i" "\<forall>(u, j) \<in> set kvs. j < length (ctxs s)"
      "tps s = Some tp" "tpLine tp" "breakpoints s = Some []" "catchpoints s = Some cs"
    using assms(1) by (auto simp: alone_def)
  have "stop_next ?c \<noteq> -1" using assms(2,3) by (simp add: counting_def clear_stack_def)
  then have "\<not> can_disable_trace_points ?c" by (simp add: can_disable_trace_points_def)
  then have "\<exists>x \<in> set kvs. \<not> (case x of (u, j) \<Rightarrow> can_disable_trace_points ((ctxs s)[i := ?c] ! j))"
    using map_of_SomeD [OF s(2)] i by (intro bexI [of _ "(t, i)"]) simp_all
  then have "all_contexts can_disable_trace_points kvs ((ctxs s)[i := ?c]) = Some False"
    using all_contexts_eq [of kvs "(ctxs s)[i := ?c]"] s(3) by simp
  then have "try_disable_trace_points ?s = gives ?s ()"
    using s by (simp add: try_disable_trace_points_def)
  moreover have "release (alive W) (s\<lparr>locker := Some t, ctxs := (ctxs s)[i := ?c]\<rparr>) = gives (s\<lparr>ctxs := (ctxs s)[i := ?c], locker := None\<rparr>) ()"
    using queue by (simp add: release_def Let_def)
  ultimately show ?thesis
    using i by (simp add: cleanup_def upd_ctx_eq)
qed

text \<open>What happens behind the lock, up to the stop.\<close>

lemma line_body_counts:
  assumes "alone t i s" "counting n (ctxs s ! i)" "0 < n" "n < 2 ^ 31" "- (2 ^ 31) < stop_line (ctxs s ! i)"
    "- (2 ^ 31) \<le> ev_line ev" "ev_line ev < 2 ^ 31"
  shows "\<exists>c. counting (n - 1) c \<and> stop_line (ctxs s ! i) - 1 \<le> stop_line c \<and>
    (\<forall>W'. real_stack_size W' t = r \<longrightarrow> line_body W' t i ev (s\<lparr>locker := Some t\<rparr>) =
      act_then (let s = s\<lparr>locker := Some t, ctxs := (ctxs s)[i := c]\<rparr> in
          if n = 1 then line_stop W' t i ev None s else gives s ()) (\<lambda>s _. cleanup W' i s))"
proof -
  have i: "i < length (ctxs s)" by (rule alone_index [OF assms(1)])
  let ?c = "update_stack_size r (ctxs s ! i)"
  obtain c where c: "line_step (ev_path ev) (ev_line ev) ?c = Some c" "counting (n - 1) c" "stop_line (ctxs s ! i) - 1 \<le> stop_line c"
    using line_step_counts [OF counting_update [OF assms(2), of r], of "ev_path ev" "ev_line ev"] assms(3-5) by auto
  have "line_body W' t i ev (s\<lparr>locker := Some t\<rparr>) =
      act_then (let s = s\<lparr>locker := Some t, ctxs := (ctxs s)[i := c]\<rparr> in
          if n = 1 then line_stop W' t i ev None s else gives s ()) (\<lambda>s _. cleanup W' i s)" if "real_stack_size W' t = r" for W'
  proof -
    have "breakpoint_find (realpath W') (Some []) (ev_path ev) (ev_line ev) = Some (Inr None)"
      using assms(6,7) by (simp add: breakpoint_find_def FIX2INT_def)
    moreover have "stop_next c = 0 \<or> stop_line c = 0 \<longleftrightarrow> n = 1" using c(2) by (auto simp: counting_def)
    moreover have "FIX2INT (ev_line ev) = Inr (ev_line ev)" using assms(6,7) by (simp add: FIX2INT_def)
    ultimately show ?thesis
      using assms(1) c(1) i that
      by (simp add: line_body_def is_path_accepted_def alone_def checked_def line_accepted_def upd_ctx_eq vec_at_Some Let_def)
  qed
  with c(2,3) show ?thesis by blast
qed

lemma line_counts:
  assumes "alone t i s" "counting n (ctxs s ! i)" "1 < n" "n < 2 ^ 31" "- (2 ^ 31) < stop_line (ctxs s ! i)"
    "- (2 ^ 31) \<le> ev_line ev" "ev_line ev < 2 ^ 31"
  shows "\<exists>s'. (\<forall>W'. real_stack_size W' t = r \<longrightarrow> process_line_event W' t ev s = Some (s', Inr Done)) \<and>
    alone t i s' \<and> counting (n - 1) (ctxs s' ! i) \<and> stop_line (ctxs s ! i) - 1 \<le> stop_line (ctxs s' ! i)"
proof -
  have i: "i < length (ctxs s)" by (rule alone_index [OF assms(1)])
  obtain c where c: "counting (n - 1) c" "stop_line (ctxs s ! i) - 1 \<le> stop_line c"
    "\<And>W'. real_stack_size W' t = r \<Longrightarrow> line_body W' t i ev (s\<lparr>locker := Some t\<rparr>) =
      act_then (let s = s\<lparr>locker := Some t, ctxs := (ctxs s)[i := c]\<rparr> in
          if n = 1 then line_stop W' t i ev None s else gives s ()) (\<lambda>s _. cleanup W' i s)"
    using line_body_counts [OF assms(1,2) _ assms(4-7), of r] assms(3) by auto
  let ?s = "s\<lparr>ctxs := (ctxs s)[i := c]\<rparr>" and ?c = "clear_stack (c\<lparr>stop_reason := CTX_STOP_NONE\<rparr>)"
  have alone: "alone t i ?s" using assms(1) by (auto simp: alone_def)
  have "cleanup W' i (?s\<lparr>locker := Some t\<rparr>) = gives (s\<lparr>ctxs := (ctxs s)[i := ?c], locker := None\<rparr>) ()" for W'
    using cleanup_counting [OF alone, of "n - 1" W'] c(1) assms(3) i by simp
  then have "process_line_event W' t ev s = Some (s\<lparr>ctxs := (ctxs s)[i := ?c], locker := None\<rparr>, Inr Done)"
    if "real_stack_size W' t = r" for W'
    using alone_enters [OF assms(1,2)] c(3) [OF that] assms(3) by (simp add: gives_def [of _ Done])
  moreover have "alone t i (s\<lparr>ctxs := (ctxs s)[i := ?c], locker := None\<rparr>)" using assms(1) by (auto simp: alone_def)
  moreover have "counting (n - 1) ?c" using c(1) by (simp add: counting_def clear_stack_def)
  ultimately show ?thesis
    using c(2) i by (intro exI [of _ "s\<lparr>ctxs := (ctxs s)[i := ?c], locker := None\<rparr>"]) (simp add: clear_stack_def)
qed

section \<open>Several events\<close>

primrec lines :: "vm \<Rightarrow> rb_thread \<Rightarrow> event list \<Rightarrow> debase \<Rightarrow> debase option" where
  "lines W t [] s = Some s"
| "lines W t (ev # evs) s = (case process_line_event W t ev s of
     Some (s, Inr Done) \<Rightarrow> lines W t evs s | _ \<Rightarrow> None)"

definition int_lines :: "event list \<Rightarrow> bool" where
  "int_lines evs \<longleftrightarrow> (\<forall>ev \<in> set evs. - (2 ^ 31) \<le> ev_line ev \<and> ev_line ev < 2 ^ 31)"

lemma lines_count:
  assumes "alone t i s" "counting n (ctxs s ! i)" "int (length evs) < n" "n < 2 ^ 31"
    "- (2 ^ 31) + int (length evs) < stop_line (ctxs s ! i)" "int_lines evs"
  shows "\<exists>s'. (\<forall>W'. real_stack_size W' t = r \<longrightarrow> lines W' t evs s = Some s') \<and> alone t i s' \<and>
    counting (n - int (length evs)) (ctxs s' ! i) \<and> stop_line (ctxs s ! i) - int (length evs) \<le> stop_line (ctxs s' ! i)"
  using assms
proof (induction evs arbitrary: s n)
  case (Cons ev evs)
  obtain s1 where s1: "\<And>W'. real_stack_size W' t = r \<Longrightarrow> process_line_event W' t ev s = Some (s1, Inr Done)" "alone t i s1"
      "counting (n - 1) (ctxs s1 ! i)" "stop_line (ctxs s ! i) - 1 \<le> stop_line (ctxs s1 ! i)"
    using line_counts [OF Cons.prems(1,2), of ev r] Cons.prems(3-6) by (auto simp: int_lines_def)
  obtain s' where "\<forall>W'. real_stack_size W' t = r \<longrightarrow> lines W' t evs s1 = Some s'" "alone t i s'"
      "counting (n - 1 - int (length evs)) (ctxs s' ! i)" "stop_line (ctxs s1 ! i) - int (length evs) \<le> stop_line (ctxs s' ! i)"
    using Cons.IH [OF s1(2,3)] s1(4) Cons.prems(3-6) by (auto simp: int_lines_def)
  with s1 show ?case by (intro exI [of _ s']) (simp add: algebra_simps)
next
  case Nil
  then show ?case by (intro exI [of _ s]) simp
qed

text \<open>The last line: the frames are collected and Ruby is told, and afterwards the event ends.\<close>

definition told :: "vm \<Rightarrow> rb_thread \<Rightarrow> rb_object \<Rightarrow> event \<Rightarrow> debase \<Rightarrow> bool" where
  "told W t i ev s \<longleftrightarrow> (\<exists>s1. process_line_event W t ev s =
     act_then (call_back W (At_line i (c_str (ev_path ev)) (ev_line ev)) s1) (\<lambda>s _.
     act_then (cleanup W i s) (\<lambda>s _. gives s Done)) \<and>
     locker s1 = Some t \<and> stop_reason (ctxs s1 ! i) = CTX_STOP_STEP \<and> stop_next (ctxs s1 ! i) = -1 \<and>
     stack (ctxs s1 ! i) = map frame_at (rev (case inspector W t of None \<Rightarrow> [] | Some ls \<Rightarrow> ls)))"

lemma each_context_eq:
  "\<forall>(u, j) \<in> set kvs. j < length cs \<Longrightarrow>
     \<exists>cs'. each_context f kvs cs = Some cs' \<and> length cs' = length cs \<and> (\<forall>j < length cs. \<exists>k. cs' ! j = (f ^^ k) (cs ! j))"
proof (induction kvs arbitrary: cs)
  case Nil
  show ?case by (auto intro: exI [of _ 0])
next
  case (Cons kv kvs)
  obtain u m where kv: "kv = (u, m)" by force
  with Cons.prems have m: "m < length cs" by simp
  obtain cs' where "each_context f kvs (cs[m := f (cs ! m)]) = Some cs'" "length cs' = length cs"
    and k: "\<forall>j < length cs. \<exists>k. cs' ! j = (f ^^ k) (cs[m := f (cs ! m)] ! j)"
    using Cons.IH [of "cs[m := f (cs ! m)]"] Cons.prems by auto
  moreover have "\<exists>k. cs' ! j = (f ^^ k) (cs ! j)" if j: "j < length cs" for j
  proof -
    obtain k where "cs' ! j = (f ^^ k) (cs[m := f (cs ! m)] ! j)" using k j by blast
    with m show ?thesis by (cases "j = m") (auto simp: funpow_swap1 intro: exI [of _ "Suc k"])
  qed
  ultimately show ?case using m kv by (simp add: vec_at_Some)
qed

lemma unpaused: "(remove_pause_flag ^^ k) c = c \<or> (remove_pause_flag ^^ k) c = remove_pause_flag c"
  by (induction k) (auto simp: remove_pause_flag_def)

lemma act_then_assoc: "act_then (act_then m f) g = act_then m (\<lambda>s x. act_then (f s x) g)"
  by (auto simp: act_then_def split: option.splits sum.splits)

lemma line_stop_eq:
  assumes "i < length (ctxs s)" "contexts s = Some kvs" "\<forall>(u, j) \<in> set kvs. j < length (ctxs s)"
  shows "\<exists>s1. line_stop W t i ev None s = call_back W (At_line i (c_str (ev_path ev)) (ev_line ev)) s1 \<and> locker s1 = locker s \<and>
    stop_reason (ctxs s1 ! i) = CTX_STOP_STEP \<and> stop_next (ctxs s1 ! i) = -1 \<and>
    stack (ctxs s1 ! i) = map frame_at (rev (case inspector W t of None \<Rightarrow> [] | Some ls \<Rightarrow> ls)) @ stack (ctxs s ! i)"
proof -
  let ?c = "reset_stepping_stop_points ((fill_stack (inspector W t) (ctxs s ! i))\<lparr>stop_reason := CTX_STOP_STEP\<rparr>)"
  let ?s = "s\<lparr>ctxs := (ctxs s)[i := ?c]\<rparr>"
  obtain cs' k where cs': "each_context remove_pause_flag kvs (ctxs ?s) = Some cs'" "length cs' = length (ctxs s)"
      "cs' ! i = (remove_pause_flag ^^ k) ?c"
    using each_context_eq [of kvs "ctxs ?s" remove_pause_flag] assms by auto
  let ?d = "(CTX_FL_UNSET (CTX_FL_UNSET (cs' ! i) CTX_FL_STEPPED) CTX_FL_FORCE_MOVE)\<lparr>last_file := Some (ev_path ev), last_line := ev_line ev\<rparr>"
  have "line_stop W t i ev None s = call_at_line W i (ev_path ev) (ev_line ev) ?s"
    using assms(1) by (simp add: line_stop_def fill_context_def upd_ctx_eq)
  also have "\<dots> = call_back W (At_line i (c_str (ev_path ev)) (ev_line ev)) (?s\<lparr>ctxs := cs'[i := ?d]\<rparr>)"
    using assms(1,2) cs'(1,2) by (simp add: call_at_line_def upd_ctx_eq c_str_def)
  finally have "line_stop W t i ev None s = call_back W (At_line i (c_str (ev_path ev)) (ev_line ev)) (?s\<lparr>ctxs := cs'[i := ?d]\<rparr>)" .
  moreover have "stop_reason ?d = CTX_STOP_STEP \<and> stop_next ?d = -1 \<and>
      stack ?d = map frame_at (rev (case inspector W t of None \<Rightarrow> [] | Some ls \<Rightarrow> ls)) @ stack (ctxs s ! i)"
    using unpaused [of k ?c] cs'(3)
    by (auto simp: CTX_FL_UNSET_def remove_pause_flag_def reset_stepping_stop_points_def fill_stack_def fill_loop_eq Let_def)
  ultimately show ?thesis
    using assms(1) cs'(2) by (intro exI [of _ "?s\<lparr>ctxs := cs'[i := ?d]\<rparr>"]) simp
qed

lemma last_line_told:
  assumes "alone t i s" "counting 1 (ctxs s ! i)" "- (2 ^ 31) < stop_line (ctxs s ! i)" "int_lines [ev]"
  shows "told W t i ev s"
proof -
  have i: "i < length (ctxs s)" by (rule alone_index [OF assms(1)])
  obtain kvs where kvs: "contexts s = Some kvs" "\<forall>(u, j) \<in> set kvs. j < length (ctxs s)" using assms(1) by (auto simp: alone_def)
  obtain c where c: "counting 0 c" "line_body W t i ev (s\<lparr>locker := Some t\<rparr>) =
      act_then (line_stop W t i ev None (s\<lparr>ctxs := (ctxs s)[i := c], locker := Some t\<rparr>)) (\<lambda>s _. cleanup W i s)"
    using line_body_counts [OF assms(1,2) _ _ assms(3), of ev "real_stack_size W t"] assms(4) by (auto simp: int_lines_def)
  let ?s = "s\<lparr>ctxs := (ctxs s)[i := c], locker := Some t\<rparr>"
  obtain s1 where "line_stop W t i ev None ?s = call_back W (At_line i (c_str (ev_path ev)) (ev_line ev)) s1" "locker s1 = locker ?s"
    "stop_reason (ctxs s1 ! i) = CTX_STOP_STEP" "stop_next (ctxs s1 ! i) = -1"
    "stack (ctxs s1 ! i) = map frame_at (rev (case inspector W t of None \<Rightarrow> [] | Some ls \<Rightarrow> ls)) @ stack (ctxs ?s ! i)"
    using line_stop_eq [of i ?s kvs W t ev] i kvs by auto
  moreover have "stack c = []" using c(1) by (simp add: counting_def)
  ultimately show ?thesis
    unfolding told_def alone_enters [OF assms(1,2)] c(2) using i by (intro exI [of _ s1]) (simp add: act_then_assoc)
qed

end
