(* ===== verification/Debase_Schedule.thy ===== *)
theory Debase_Schedule
  imports Debase_Internals
begin

text \<open>
  How threads share the debugger: each event takes the lock, or makes the thread wait in the queue,
  and the end of the event gives the lock back and wakes the first thread of the queue. A step is
  what one thread does between two points at which Ruby may switch to another. No context is
  suspended or skipped (the code never sets those flags), and no thread is killed. A handler can be
  left by an exception at every point where it runs: of \<open>at_line\<close> and the other callbacks, of the filter,
  of a type check. Then \<open>cleanup\<close> is not called, and the thread goes on outside the debugger while it
  still holds the lock (\<open>Escaped\<close>). A parameter says whether others may interfere with a thread that
  waits: wake it, as Ruby's \<open>wakeup\<close> does, or raise an exception in it, so that it gives up.
\<close>

section \<open>Steps\<close>

datatype activity = Outside | Sleeping | Runnable | Inside | Escaped

record sched =
  lk :: lock
  act_of :: "rb_thread \<Rightarrow> activity"

definition sched_init :: sched where
  "sched_init = \<lparr>lk = \<lparr>locker = None, locked = no_locked, woken = []\<rparr>, act_of = (\<lambda>t. Outside)\<rparr>"

definition after_round :: "entry \<Rightarrow> activity" where
  "after_round e = (case e of Must_wait \<Rightarrow> Sleeping | Suspended \<Rightarrow> Sleeping | Not_now \<Rightarrow> Outside | Skipped \<Rightarrow> Outside | Entered \<Rightarrow> Inside)"

definition wake :: "rb_thread list \<Rightarrow> (rb_thread \<Rightarrow> activity) \<Rightarrow> rb_thread \<Rightarrow> activity" where
  "wake ths act u = (if u \<in> set ths \<and> act u = Sleeping then Runnable else act u)"

inductive sched_step :: "bool \<Rightarrow> sched \<Rightarrow> sched \<Rightarrow> bool" for spurious :: bool where
  step_enter: "act_of s t = Outside \<or> act_of s t = Runnable \<Longrightarrow> start_round 0 t (lk s) = Some (l, e) \<Longrightarrow>
    sched_step spurious s (s\<lparr>lk := l, act_of := (act_of s)(t := after_round e)\<rparr>)"
| step_nested: "act_of s t = Inside \<or> act_of s t = Escaped \<Longrightarrow> start_round 0 t (lk s) = Some (l, Not_now) \<Longrightarrow>
    sched_step spurious s (s\<lparr>lk := l\<rparr>)"
| step_leave: "act_of s t = Inside \<Longrightarrow> release (\<lambda>u. True) (lk s) = Some (l, Inr ()) \<Longrightarrow>
    sched_step spurious s (s\<lparr>lk := l\<lparr>woken := []\<rparr>, act_of := wake (woken l) ((act_of s)(t := Outside))\<rparr>)"
| step_raise: "act_of s t = Inside \<Longrightarrow>
    sched_step spurious s (s\<lparr>act_of := (act_of s)(t := Escaped)\<rparr>)"
| step_spurious: "spurious \<Longrightarrow> act_of s t = Sleeping \<Longrightarrow>
    sched_step spurious s (s\<lparr>act_of := (act_of s)(t := Runnable)\<rparr>)"
| step_give_up: "spurious \<Longrightarrow> act_of s t = Sleeping \<or> act_of s t = Runnable \<Longrightarrow>
    sched_step spurious s (s\<lparr>act_of := (act_of s)(t := Outside)\<rparr>)"

inductive_cases sched_stepE: "sched_step spurious s s'"

inductive sched_reachable :: "bool \<Rightarrow> sched \<Rightarrow> bool" for spurious :: bool where
  sched_start: "sched_reachable spurious sched_init"
| sched_next: "sched_reachable spurious s \<Longrightarrow> sched_step spurious s s' \<Longrightarrow> sched_reachable spurious s'"

section \<open>The rounds and the release, on the list of the queue\<close>

lemma round_cases:
  assumes "start_round 0 t (l :: lock) = Some (l', e)" "queue_is (locked l) q"
  obtains (wait) u where "locker l = Some u" "u \<noteq> t" "e = Must_wait" "locker l' = Some u" "woken l' = woken l"
      "queue_is (locked l') (queue_add t q)"
  | (nested) "locker l = Some t" "e = Not_now" "l' = l"
  | (enter) "locker l = None" "e = Entered" "l' = l\<lparr>locker := Some t\<rparr>"
proof (cases "locker l")
  case None
  with assms(1) have "e = Entered" "l' = l\<lparr>locker := Some t\<rparr>" by (simp_all add: start_round_def)
  with None show ?thesis by (rule enter)
next
  case (Some u)
  show ?thesis
  proof (cases "u = t")
    case True
    with Some assms(1) have "locker l = Some t" "e = Not_now" "l' = l" by (simp_all add: start_round_def)
    then show ?thesis by (rule nested)
  next
    case False
    obtain l1 where "add_to_locked t (locked l) = Some l1" "queue_is l1 (queue_add t q)" using add_refines [OF assms(2)] by blast
    with False Some assms(1) have "e = Must_wait" "l' = l\<lparr>locked := l1\<rparr>" by (simp_all add: start_round_def)
    with wait [OF Some False] Some \<open>queue_is l1 _\<close> show ?thesis by simp
  qed
qed

lemma release_cases:
  assumes "release (\<lambda>u. True) (l :: lock) = Some (l', Inr ())" "queue_is (locked l) q"
  shows "locker l' = None" "queue_is (locked l') (tl q)" "woken l' = (if q = [] then woken l else hd q # woken l)"
proof -
  obtain r where "remove_from_locked (locked l) = Some (r, if q = [] then None else Some (hd q))" "queue_is r (tl q)"
    using remove_refines [OF assms(2)] by blast
  with assms(1) show "locker l' = None" "queue_is (locked l') (tl q)" "woken l' = (if q = [] then woken l else hd q # woken l)"
    by (auto simp: release_def gives_def split: if_splits)
qed

section \<open>Invariants\<close>

definition exclusive :: "sched \<Rightarrow> rb_thread list \<Rightarrow> bool" where
  "exclusive s q \<longleftrightarrow> queue_is (locked (lk s)) q \<and> woken (lk s) = [] \<and>
     (\<forall>t. act_of s t = Inside \<or> act_of s t = Escaped \<longleftrightarrow> locker (lk s) = Some t) \<and> (\<forall>t. act_of s t = Sleeping \<longrightarrow> t \<in> set q)"

text \<open>Without interference, nobody is in the queue twice, and somebody is always about to serve it.\<close>

definition orderly :: "sched \<Rightarrow> rb_thread list \<Rightarrow> bool" where
  "orderly s q \<longleftrightarrow> distinct q \<and> set q = {t. act_of s t = Sleeping} \<and>
     (locker (lk s) = None \<and> q \<noteq> [] \<longrightarrow> (\<exists>t. act_of s t = Runnable))"

lemma exclusive_holder:
  "exclusive s q \<Longrightarrow> act_of s t = Inside \<Longrightarrow> locker (lk s) = Some t"
  "exclusive s q \<Longrightarrow> act_of s t = Escaped \<Longrightarrow> locker (lk s) = Some t"
  "exclusive s q \<Longrightarrow> locker (lk s) = Some t \<Longrightarrow> act_of s t = Inside \<or> act_of s t = Escaped"
  unfolding exclusive_def by blast+

lemma set_queue_add: "set (queue_add t q) = insert t (set q)"
  by (auto simp: queue_add_def dest: in_set_butlastD)

lemma hd_or_tl: "t \<in> set q \<Longrightarrow> t \<noteq> hd q \<Longrightarrow> t \<in> set (tl q)"
  by (cases q) auto

lemma step_exclusive:
  assumes "sched_step spurious s s'" "exclusive s q"
  shows "\<exists>q'. exclusive s' q' \<and> (\<not> spurious \<and> orderly s q \<longrightarrow> orderly s' q')"
  using assms(1)
proof cases
  case (step_enter t l e)
  have q: "queue_is (locked (lk s)) q" using assms(2) by (simp add: exclusive_def)
  from step_enter(3) q show ?thesis
  proof (cases rule: round_cases)
    case (wait u)
    have "exclusive s' (queue_add t q)"
      using assms(2) step_enter wait by (auto simp: exclusive_def after_round_def set_queue_add split: if_splits)
    moreover have "orderly s' (queue_add t q)" if "orderly s q"
    proof -
      from that step_enter(2) have "t \<notin> set q" by (auto simp: orderly_def)
      then have "queue_add t q = q @ [t]" by (auto simp: queue_add_def dest: in_set_butlastD)
      with that \<open>t \<notin> set q\<close> step_enter(1) wait show ?thesis by (auto simp: orderly_def after_round_def)
    qed
    ultimately show ?thesis by blast
  next
    case nested
    then have "act_of s t = Inside \<or> act_of s t = Escaped" using assms(2) by (simp add: exclusive_def)
    with step_enter(2) show ?thesis by auto
  next
    case enter
    have "exclusive s' q"
      using assms(2) step_enter enter by (auto simp: exclusive_def after_round_def split: if_splits)
    moreover have "orderly s' q" if "orderly s q"
      using that step_enter enter by (auto simp: orderly_def after_round_def)
    ultimately show ?thesis by blast
  qed
next
  case (step_nested t l)
  have q: "queue_is (locked (lk s)) q" using assms(2) by (simp add: exclusive_def)
  from step_nested(3) q have "l = lk s" by (cases rule: round_cases) auto
  with assms(2) step_nested(1) show ?thesis by (intro exI [of _ q]) simp
next
  case (step_leave t l)
  have q: "queue_is (locked (lk s)) q" using assms(2) by (simp add: exclusive_def)
  note r = release_cases [OF step_leave(3) q]
  have w: "woken l = (if q = [] then [] else [hd q])" using r(3) assms(2) by (simp add: exclusive_def)
  have "locker (lk s) = Some t" by (rule exclusive_holder(1) [OF assms(2) step_leave(2)])
  then have in': "act_of s u = Inside \<or> act_of s u = Escaped \<longleftrightarrow> u = t" for u
    using assms(2) by (auto simp: exclusive_def)
  have act: "act_of s' u = (if u = t then Outside else if q \<noteq> [] \<and> u = hd q \<and> act_of s u = Sleeping then Runnable else act_of s u)" for u
    using w by (auto simp: step_leave(1) wake_def)
  have "u \<in> set (tl q)" if "act_of s' u = Sleeping" for u
  proof -
    have "act_of s u = Sleeping" "q = [] \<or> u \<noteq> hd q" using that act [of u] by (auto split: if_splits)
    moreover from this(1) have "u \<in> set q" using assms(2) by (simp add: exclusive_def)
    ultimately show ?thesis using hd_or_tl by auto
  qed
  moreover have "act_of s' u \<noteq> Inside \<and> act_of s' u \<noteq> Escaped" for u
    using act [of u] in' [of u] by (auto split: if_splits)
  ultimately have "exclusive s' (tl q)"
    using r(1,2) by (simp add: exclusive_def step_leave(1))
  moreover have "orderly s' (tl q)" if o: "orderly s q"
  proof (cases q)
    case Nil
    with o in' act show ?thesis by (auto simp: orderly_def)
  next
    case (Cons h q1)
    with o have h: "act_of s h = Sleeping" "set q1 = {u. act_of s u = Sleeping} - {h}" "distinct q1"
      by (auto simp: orderly_def)
    from h(1) have "h \<noteq> t" using step_leave(2) by auto
    with Cons h(1) have run: "act_of s' h = Runnable" using act [of h] by simp
    have sleep: "{u. act_of s' u = Sleeping} = {u. act_of s u = Sleeping} - {h}"
      using act Cons step_leave(2) by (auto split: if_splits)
    show ?thesis
      unfolding orderly_def Cons list.sel sleep
      using h(2,3) run by blast
  qed
  ultimately show ?thesis by blast
next
  case (step_raise t)
  then have "locker (lk s) = Some t" by (intro exclusive_holder(1) [OF assms(2)])
  with step_raise assms(2) show ?thesis by (intro exI [of _ q]) (auto simp: exclusive_def orderly_def)
next
  case (step_spurious t)
  then have "locker (lk s) \<noteq> Some t" using exclusive_holder(3) [OF assms(2), of t] by auto
  with step_spurious assms(2) show ?thesis by (intro exI [of _ q]) (simp add: exclusive_def)
next
  case (step_give_up t)
  then have "locker (lk s) \<noteq> Some t" using exclusive_holder(3) [OF assms(2), of t] by auto
  with step_give_up assms(2) show ?thesis by (intro exI [of _ q]) (simp add: exclusive_def)
qed

lemma reachable_exclusive: "sched_reachable spurious s \<Longrightarrow> \<exists>q. exclusive s q \<and> (\<not> spurious \<longrightarrow> orderly s q)"
proof (induction rule: sched_reachable.induct)
  case sched_start
  show ?case
    by (intro exI [of _ "[]"]) (simp add: exclusive_def orderly_def sched_init_def queue_no_locked)
next
  case (sched_next s s')
  then obtain q where q: "exclusive s q" "\<not> spurious \<longrightarrow> orderly s q" by blast
  from step_exclusive [OF sched_next(2) q(1)] q(2) show ?case by blast
qed

section \<open>After an exception\<close>

text \<open>
  A thread that has left its handler by an exception keeps the lock: its further events are taken
  for events inside the handler, so it never comes to \<open>cleanup\<close>.
\<close>

lemma step_escaped:
  assumes "sched_step spurious s s'" "exclusive s q" "act_of s t = Escaped"
  shows "act_of s' t = Escaped" "\<not> spurious \<Longrightarrow> act_of s u = Sleeping \<Longrightarrow> act_of s' u = Sleeping"
proof -
  have q: "queue_is (locked (lk s)) q" using assms(2) by (simp add: exclusive_def)
  have t: "locker (lk s) = Some t" by (rule exclusive_holder(2) [OF assms(2,3)])
  then have in': "act_of s v \<noteq> Inside" for v using assms(3) exclusive_holder(1) [OF assms(2), of v] by auto
  from assms(1) have "act_of s' t = Escaped \<and> (\<not> spurious \<longrightarrow> act_of s u = Sleeping \<longrightarrow> act_of s' u = Sleeping)"
  proof cases
    case (step_enter v l e)
    then have "v \<noteq> t" using assms(3) by auto
    with step_enter(3) q t have "e = Must_wait" by (cases rule: round_cases) auto
    with step_enter \<open>v \<noteq> t\<close> assms(3) show ?thesis by (simp add: after_round_def)
  qed (use assms(3) in' in auto)
  then show "act_of s' t = Escaped" "\<not> spurious \<Longrightarrow> act_of s u = Sleeping \<Longrightarrow> act_of s' u = Sleeping" by simp_all
qed

lemma steps_escaped:
  assumes "rtranclp (sched_step spurious) s s'" "sched_reachable spurious s" "act_of s t = Escaped"
  shows "sched_reachable spurious s' \<and> act_of s' t = Escaped \<and>
    (\<not> spurious \<longrightarrow> (\<forall>u. act_of s u = Sleeping \<longrightarrow> act_of s' u = Sleeping))"
  using assms(1)
proof (induction rule: rtranclp_induct)
  case (step s1 s2)
  then have s1: "sched_reachable spurious s1" "act_of s1 t = Escaped" by simp_all
  obtain q where "exclusive s1 q" using reachable_exclusive [OF s1(1)] by blast
  with step_escaped [OF step(2) this s1(2)] step sched_next [OF s1(1) step(2)] show ?case by blast
qed (use assms in simp)

lemma escaped_waits:
  assumes "exclusive s q" "act_of s t = Escaped" "u \<noteq> t"
  shows "\<exists>l. start_round 0 u (lk s) = Some (l, Must_wait)"
proof -
  have "queue_is (locked (lk s)) q" "locker (lk s) = Some t"
    using assms(1) exclusive_holder(2) [OF assms(1,2)] by (simp_all add: exclusive_def)
  moreover obtain l where "add_to_locked u (locked (lk s)) = Some l" using add_refines [OF calculation(1)] by blast
  ultimately show ?thesis using assms(3) by (simp add: start_round_def)
qed

end
