(* ===== verification/Debase_Correct.thy ===== *)
theory Debase_Correct
  imports Debase_Stepping Debase_Schedule
begin

text \<open>
  The properties of the debugger: which breakpoint is found, that one thread at a time uses the
  debugger and none is forgotten as long as no handler raises and nobody else wakes threads, when a
  thread stops that steps by lines; and what goes wrong with \<open>finish\<close>, after an exception in a handler,
  and with a thread that is woken from outside.
\<close>

section \<open>A small world for the witnesses\<close>

definition demo_context :: debug_context where
  "demo_context = context_create 0 1 (Some 1) False"

definition demo_state :: debase where
  "demo_state = debase_loaded\<lparr>started := True, contexts := Some [(0, 0)], breakpoints := Some [], catchpoints := Some [],
     tps := Some \<lparr>tpLine = True, tpCall = True, tpReturn = True, tpRaise = True\<rparr>, ctxs := [demo_context]\<rparr>"

definition demo_vm :: vm where
  "demo_vm = \<lparr>alive = \<lambda>t. True, is_debug_thread = \<lambda>t. False, backtrace_size = \<lambda>t. Some 1, inspector = \<lambda>t. None,
     real_stack_size = \<lambda>t. 1, realpath = \<lambda>f. None, accepts = \<lambda>p. Inr AnswerTrue, ancestors = \<lambda>e. [],
     call_back = \<lambda>cb s. gives s ()\<rparr>"

definition demo_event :: event where
  "demo_event = \<lparr>ev_path = [0x61], ev_line = 7, ev_exception = 0\<rparr>"

lemma demo_context_eq:
  "demo_context = \<lparr>stack = [], stack_size = 0, ctx_thread = 0, thnum = 1, flags = 0, stop_reason = CTX_STOP_NONE, stop_next = -1,
     stop_line = -1, stop_frame = -1, thread_pause = False, dest_frame = -1, calced_stack_size = 1, last_file = None, last_line = -1\<rparr>"
  by (simp add: demo_context_def context_create_def reset_stepping_stop_points_def)

lemma demo_alone: "alone 0 0 demo_state"
  by (simp add: alone_def demo_state_def debase_loaded_def Debase_init_variables_def breakpoint_init_variables_def
      context_init_variables_def queue_no_locked)

lemma demo_counting: "counting (-1) (ctxs demo_state ! 0)"
  by (simp add: demo_state_def demo_context_eq counting_def CTX_FL_TEST_def)

section \<open>Breakpoints\<close>

text \<open>
  C15. The breakpoint that is found. For a file and a line, \<open>breakpoint_find\<close> returns the first enabled
  breakpoint at that line whose file is the same: the resolved name of the file and the name in
  the breakpoint agree on a common end that is one of the two names, or on one that contains a
  slash and has a dot before it.
\<close>

theorem breakpoint_found:
  assumes "- (2 ^ 31) \<le> line" "line < 2 ^ 31"
  shows "breakpoint_find rp (Some bs) file line =
    Some (Inr (case List.find (hits rp (c_str file) line) bs of None \<Rightarrow> None | Some b \<Rightarrow> b))"
  using assms by (simp add: breakpoint_find_def FIX2INT_def find_loop_eq c_str_def)

theorem breakpoint_found_witness:
  "breakpoint_find (\<lambda>f. None) (Some [None]) [0x61] 3 =
     Some (Inr (case List.find (hits (\<lambda>f. None) (c_str [0x61]) 3) [None] of None \<Rightarrow> None | Some b \<Rightarrow> b))"
  by (rule breakpoint_found) simp_all

text \<open>A breakpoint in one directory that is found in another one.\<close>

lemma dotted_directory:
  assumes "0x2F \<in> set name"
  shows "same_file (dir @ [0x2F] @ name) (dir' @ [0x2E] @ name)"
  unfolding same_file_def
  by (intro exI [of _ "dir @ [0x2F]"] exI [of _ "dir' @ [0x2E]"] exI [of _ name]) (simp add: assms)

section \<open>Threads\<close>

text \<open>Runs of the threads, seen from the lock and the queue.\<close>

definition reaches :: "bool \<Rightarrow> rb_thread option \<Rightarrow> rb_thread list \<Rightarrow> (rb_thread \<Rightarrow> activity) \<Rightarrow> bool" where
  "reaches sp l q act \<longleftrightarrow> (\<exists>s. sched_reachable sp s \<and> locker (lk s) = l \<and> woken (lk s) = [] \<and> queue_is (locked (lk s)) q \<and> act_of s = act)"

lemma reaches_init: "reaches sp None [] (\<lambda>t. Outside)"
  unfolding reaches_def
  by (intro exI [of _ sched_init] conjI sched_start) (simp_all add: sched_init_def queue_no_locked)

lemma reaches_enter:
  assumes "reaches sp None q act" "act t = Outside \<or> act t = Runnable"
  shows "reaches sp (Some t) q (act(t := Inside))"
proof -
  obtain s where s: "sched_reachable sp s" "locker (lk s) = None" "woken (lk s) = []" "queue_is (locked (lk s)) q" "act_of s = act"
    using assms(1) by (auto simp: reaches_def)
  have "start_round 0 t (lk s) = Some ((lk s)\<lparr>locker := Some t\<rparr>, Entered)" using s(2) by (simp add: start_round_def)
  from step_enter [OF _ this, of sp] assms(2) s sched_next [OF s(1)] show ?thesis
    by (fastforce simp: reaches_def after_round_def)
qed

lemma reaches_wait:
  assumes "reaches sp (Some u) q act" "act t = Outside \<or> act t = Runnable" "t \<noteq> u"
  shows "reaches sp (Some u) (queue_add t q) (act(t := Sleeping))"
proof -
  obtain s where s: "sched_reachable sp s" "locker (lk s) = Some u" "woken (lk s) = []" "queue_is (locked (lk s)) q" "act_of s = act"
    using assms(1) by (auto simp: reaches_def)
  obtain l where l: "add_to_locked t (locked (lk s)) = Some l" "queue_is l (queue_add t q)" using add_refines [OF s(4)] by blast
  have "start_round 0 t (lk s) = Some ((lk s)\<lparr>locked := l\<rparr>, Must_wait)" using s(2) assms(3) l(1) by (simp add: start_round_def)
  from step_enter [OF _ this, of sp] assms(2) s l(2) sched_next [OF s(1)] show ?thesis
    by (fastforce simp: reaches_def after_round_def)
qed

lemma reaches_leave:
  assumes "reaches sp (Some t) q act" "act t = Inside"
  shows "reaches sp None (tl q) (wake (if q = [] then [] else [hd q]) (act(t := Outside)))"
proof -
  obtain s where s: "sched_reachable sp s" "locker (lk s) = Some t" "woken (lk s) = []" "queue_is (locked (lk s)) q" "act_of s = act"
    using assms(1) by (auto simp: reaches_def)
  obtain l where l: "remove_from_locked (locked (lk s)) = Some (l, if q = [] then None else Some (hd q))" "queue_is l (tl q)"
    using remove_refines [OF s(4)] by blast
  have "release (\<lambda>u. True) (lk s) = Some ((lk s)\<lparr>locker := None, locked := l, woken := if q = [] then [] else [hd q]\<rparr>, Inr ())"
    using l(1) s(3) by (simp add: release_def gives_def Let_def)
  from step_leave [OF _ this, where spurious = sp and t = t] assms(2) s l(2) sched_next [OF s(1)] show ?thesis
    by (fastforce simp: reaches_def)
qed

lemma reaches_spurious:
  assumes "reaches True l q act" "act t = Sleeping"
  shows "reaches True l q (act(t := Runnable))"
proof -
  obtain s where s: "sched_reachable True s" "locker (lk s) = l" "woken (lk s) = []" "queue_is (locked (lk s)) q" "act_of s = act"
    using assms(1) by (auto simp: reaches_def)
  from step_spurious [where spurious = True and s = s and t = t] assms(2) s sched_next [OF s(1)] show ?thesis
    by (fastforce simp: reaches_def)
qed


text \<open>Thread 0 is inside, and thread 1 sleeps.\<close>

lemma two_threads: "reaches sp (Some 0) [1] ((\<lambda>t. Outside)(0 := Inside, 1 := Sleeping))"
proof -
  have "reaches sp (Some 0) [] ((\<lambda>t. Outside)(0 := Inside))" by (rule reaches_enter [OF reaches_init]) simp
  from reaches_wait [OF this, of 1] show ?thesis by (simp add: queue_add_def)
qed





text \<open>
  The queue does not notice a thread that is its last entry. If a waiting thread is woken from outside
  while the lock is held, it is entered twice; one of the two entries then uses up the wake-up of the
  thread behind it, which sleeps although the lock is free and nobody is about to run, until another
  thread goes through the debugger.
\<close>

lemma entered_twice:
  "\<exists>s. sched_reachable True s \<and> locker (lk s) = Some 0 \<and> queue_is (locked (lk s)) [1, 1, 2]"
  "\<exists>s. sched_reachable True s \<and> locker (lk s) = None \<and> act_of s 2 = Sleeping \<and>
    (\<forall>u. act_of s u \<noteq> Inside \<and> act_of s u \<noteq> Runnable \<and> act_of s u \<noteq> Escaped)"
proof -
  let ?o = "\<lambda>t. Outside"
  from reaches_spurious [OF two_threads, of 1] have "reaches True (Some 0) [1] (?o(0 := Inside, 1 := Runnable))" by simp
  from reaches_wait [OF this, of 1] have "reaches True (Some 0) [1, 1] (?o(0 := Inside, 1 := Sleeping))" by (simp add: queue_add_def)
  from reaches_wait [OF this, of 2] have "reaches True (Some 0) [1, 1, 2] (?o(0 := Inside, 1 := Sleeping, 2 := Sleeping))"
    by (simp add: queue_add_def)
  then show "\<exists>s. sched_reachable True s \<and> locker (lk s) = Some 0 \<and> queue_is (locked (lk s)) [1, 1, 2]"
    by (auto simp: reaches_def)
  from reaches_leave [OF \<open>reaches True (Some 0) [1, 1, 2] _\<close>]
  have "reaches True None [1, 2] (wake [1] ((?o(0 := Inside, 1 := Sleeping, 2 := Sleeping))(0 := Outside)))" by simp
  moreover have "wake [1] ((?o(0 := Inside, 1 := Sleeping, 2 := Sleeping))(0 := Outside)) = ?o(1 := Runnable, 2 := Sleeping)"
    by (auto simp: wake_def fun_eq_iff)
  ultimately have "reaches True None [1, 2] (?o(1 := Runnable, 2 := Sleeping))" by simp
  from reaches_enter [OF this, of 1] have "reaches True (Some 1) [1, 2] (?o(2 := Sleeping, 1 := Inside))" by (simp add: fun_upd_twist)
  from reaches_leave [OF this] have "reaches True None [2] (wake [1] ((?o(2 := Sleeping, 1 := Inside))(1 := Outside)))" by simp
  moreover have "wake [1] ((?o(2 := Sleeping, 1 := Inside))(1 := Outside)) = ?o(2 := Sleeping)" by (auto simp: wake_def fun_eq_iff)
  ultimately have "reaches True None [2] (?o(2 := Sleeping))" by simp
  then obtain s where "sched_reachable True s" "locker (lk s) = None" "act_of s = ?o(2 := Sleeping)" by (auto simp: reaches_def)
  then show "\<exists>s. sched_reachable True s \<and> locker (lk s) = None \<and> act_of s 2 = Sleeping \<and>
      (\<forall>u. act_of s u \<noteq> Inside \<and> act_of s u \<noteq> Runnable \<and> act_of s u \<noteq> Escaped)"
    by (intro exI [of _ s]) simp
qed

section \<open>Stepping\<close>

text \<open>
  C38. Stepping by lines. When \<open>n\<close> steps are asked for in a thread that is alone in the debugger,
  without breakpoints, then the next \<open>n - 1\<close> lines go by without a word to Ruby, whatever Ruby
  would do with it; at the line after them the frames are collected and \<open>at_line\<close> is called with
  the file and the line, with the reason \<open>step\<close>.
\<close>

theorem step_stops:
  assumes "alone t i s" "counting m (ctxs s ! i)" "Context_stop_next n False (ctxs s ! i) = Some (c, Inr r)"
    "n = int (length evs) + 1" "- (2 ^ 31) + n \<le> stop_line (ctxs s ! i)" "n < 2 ^ 31" "int_lines (evs @ [ev])"
  shows "\<exists>s'. (\<forall>cb. lines (W\<lparr>call_back := cb\<rparr>) t evs (s\<lparr>ctxs := (ctxs s)[i := c]\<rparr>) = Some s') \<and> told W t i ev s'"
proof -
  have i: "i < length (ctxs s)" by (rule alone_index [OF assms(1)])
  let ?s = "s\<lparr>ctxs := (ctxs s)[i := c]\<rparr>"
  have c: "counting n c" "stop_line c = stop_line (ctxs s ! i)" using stop_next_counts [OF assms(2,3)] by auto
  have "alone t i ?s" using assms(1) by (auto simp: alone_def)
  moreover have "int_lines evs" using assms(7) by (simp add: int_lines_def)
  ultimately obtain s' where s': "\<forall>W'. real_stack_size W' t = real_stack_size W t \<longrightarrow> lines W' t evs ?s = Some s'"
      "alone t i s'" "counting (n - int (length evs)) (ctxs s' ! i)" "stop_line c - int (length evs) \<le> stop_line (ctxs s' ! i)"
    using lines_count [of t i ?s n evs "real_stack_size W t"] c i assms(4-6) by auto
  have "told W t i ev s'"
    using last_line_told [OF s'(2), of ev W] s'(3,4) c(2) assms(4,5,7) by (simp add: int_lines_def)
  with s'(1) show ?thesis by auto
qed

theorem step_stops_witness:
  "\<exists>s'. (\<forall>cb. lines (demo_vm\<lparr>call_back := cb\<rparr>) 0 [demo_event]
     (demo_state\<lparr>ctxs := (ctxs demo_state)[0 := demo_context\<lparr>stop_next := 2\<rparr>]\<rparr>) = Some s') \<and> told demo_vm 0 0 demo_event s'"
proof -
  have "Context_stop_next 2 False (ctxs demo_state ! 0) = Some (demo_context\<lparr>stop_next := 2\<rparr>, Inr 2)"
    by (simp add: demo_state_def demo_context_eq Context_stop_next_def FIX2INT_def checked_def set_force_def CTX_FL_UNSET_def)
  note stop = step_stops [OF demo_alone demo_counting this]
  have line: "stop_line (ctxs demo_state ! 0) = -1" by (simp add: demo_state_def demo_context_eq)
  show ?thesis by (rule stop) (simp_all only: line, simp_all add: int_lines_def demo_event_def)
qed

text \<open>If Ruby's \<open>at_line\<close> raises, the event does not end: the thread keeps the lock.\<close>

lemma lock_kept:
  assumes "told W t i ev s" "\<And>cb s. \<exists>s'. call_back W cb s = Some (s', Inl e) \<and> locker s' = locker s"
  shows "\<exists>s'. process_line_event W t ev s = Some (s', Inl e) \<and> locker s' = Some t"
proof -
  obtain s1 where s1: "process_line_event W t ev s =
      act_then (call_back W (At_line i (c_str (ev_path ev)) (ev_line ev)) s1) (\<lambda>s _.
      act_then (cleanup W i s) (\<lambda>s _. gives s Done))" "locker s1 = Some t"
    using assms(1) by (auto simp: told_def)
  obtain s' where "call_back W (At_line i (c_str (ev_path ev)) (ev_line ev)) s1 = Some (s', Inl e)" "locker s' = locker s1"
    using assms(2) by blast
  with s1 show ?thesis by (intro exI [of _ s']) (simp add: act_then_def)
qed

text \<open>
  C39. A stop at the end of a frame that is lost. If there are no breakpoints and catchpoints and no
  thread steps, and \<open>stop_frame=\<close> has just been called for the current thread (the command
  \<open>finish\<close>), then the end of the event turns off all trace points, although the context still waits
  for its frame: the returns that it waits for are not seen any more.
\<close>

theorem finish_lost:
  assumes "breakpoints s = Some []" "catchpoints s = Some []" "tps s = Some tp" "tpLine tp" "contexts s = Some kvs"
    "\<forall>(u, j) \<in> set kvs. j < length (ctxs s) \<and> (j \<noteq> i \<longrightarrow> can_disable_trace_points (ctxs s ! j))" "i < length (ctxs s)"
    "Context_stop_frame f (ctxs s ! i) = Some (c, Inr f)"
    "dest_frame (ctxs s ! i) = -1" "stop_line (ctxs s ! i) < 0" "stop_next (ctxs s ! i) = -1" "\<not> thread_pause (ctxs s ! i)"
    "queue_is (locked s) []"
  shows "\<exists>s'. cleanup W i (s\<lparr>ctxs := (ctxs s)[i := c]\<rparr>) = Some (s', Inr ()) \<and>
    tps s' = Some \<lparr>tpLine = False, tpCall = False, tpReturn = False, tpRaise = False\<rparr> \<and>
    stop_frame (ctxs s' ! i) = calced_stack_size (ctxs s ! i) - f - 1"
proof -
  let ?c = "clear_stack (c\<lparr>stop_reason := CTX_STOP_NONE\<rparr>)"
  let ?cs = "(ctxs s)[i := ?c]"
  have c: "c = (ctxs s ! i)\<lparr>stop_frame := calced_stack_size (ctxs s ! i) - f - 1\<rparr>"
    using assms(8) by (auto simp: Context_stop_frame_def checked_def FIX2INT_def c_int_def split: if_splits bind_splits)
  obtain l where l: "remove_from_locked (locked s) = Some (l, None)" using remove_refines [OF assms(13)] by auto
  have "can_disable_trace_points ?c" using assms(9-12) by (simp add: can_disable_trace_points_def clear_stack_def c)
  then have "\<forall>(u, j) \<in> set kvs. can_disable_trace_points (?cs ! j)" "\<forall>(u, j) \<in> set kvs. j < length ?cs"
    using assms(6,7) by (auto simp: nth_list_update)
  then have all: "all_contexts can_disable_trace_points kvs ?cs = Some True" using all_contexts_eq by simp
  obtain cs' k where cs': "each_context set_recalc_flag kvs ?cs = Some cs'" "cs' ! i = (set_recalc_flag ^^ k) ?c"
    using each_context_eq [OF \<open>\<forall>(u, j) \<in> set kvs. j < length ?cs\<close>, of set_recalc_flag] assms(7) by auto
  have "stop_frame ((set_recalc_flag ^^ k) ?c) = stop_frame ?c"
    by (induction k) (simp_all add: set_recalc_flag_def CTX_FL_SET_def)
  then have "stop_frame (cs' ! i) = calced_stack_size (ctxs s ! i) - f - 1" using cs'(2) by (simp add: clear_stack_def c)
  moreover have "cleanup W i (s\<lparr>ctxs := (ctxs s)[i := c]\<rparr>) = Some (s\<lparr>ctxs := cs', locker := None, locked := l,
      tps := Some \<lparr>tpLine = False, tpCall = False, tpReturn = False, tpRaise = False\<rparr>\<rparr>, Inr ())"
    using assms(1-5,7) l all cs'(1)
    by (simp add: cleanup_def upd_ctx_eq release_def try_disable_trace_points_def gives_def act_then_def Let_def)
  ultimately show ?thesis by auto
qed

theorem finish_lost_witness:
  "\<exists>s'. cleanup demo_vm 0 (demo_state\<lparr>ctxs := (ctxs demo_state)[0 := demo_context\<lparr>stop_frame := 0\<rparr>]\<rparr>) = Some (s', Inr ()) \<and>
    tps s' = Some \<lparr>tpLine = False, tpCall = False, tpReturn = False, tpRaise = False\<rparr> \<and> stop_frame (ctxs s' ! 0) = 0"
proof -
  have "Context_stop_frame 0 (ctxs demo_state ! 0) = Some (demo_context\<lparr>stop_frame := 0\<rparr>, Inr 0)"
    by (simp add: demo_state_def demo_context_eq Context_stop_frame_def checked_def FIX2INT_def c_int_def)
  then show ?thesis
    using finish_lost [of demo_state "\<lparr>tpLine = True, tpCall = True, tpReturn = True, tpRaise = True\<rparr>" "[(0, 0)]" 0 0
        "demo_context\<lparr>stop_frame := 0\<rparr>" demo_vm]
    by (simp add: demo_state_def debase_loaded_def Debase_init_variables_def breakpoint_init_variables_def
        context_init_variables_def queue_no_locked demo_context_eq)
qed

end
