(* ===== verification/Debase_Attach.thy ===== *)
theory Debase_Attach
  imports Ruby
begin

text \<open>
  Attaching to a running process (\<open>ext/attach/attach.c\<close>). A debugger for C loads this library, sets a
  breakpoint at the function \<open>__func_to_set_breakpoint_at\<close> and calls \<open>debase_start_attach\<close>: the process
  stops there at its next line of Ruby. The state has the event hooks of Ruby, and how often the
  function was reached. Whether the garbage collector runs is an argument.
\<close>

section \<open>Definitions\<close>

datatype event_hook = Catch_line_event | Other_hook nat

record attach =
  event_hooks :: "event_hook list"
  reached :: nat

text \<open>Ruby's functions for hooks: one is added, or all with the function are removed.\<close>

definition rb_add_event_hook :: "event_hook \<Rightarrow> attach \<Rightarrow> attach" where
  "rb_add_event_hook f s = s\<lparr>event_hooks := f # event_hooks s\<rparr>"

definition rb_remove_event_hook :: "event_hook \<Rightarrow> attach \<Rightarrow> attach" where
  "rb_remove_event_hook f s = s\<lparr>event_hooks := removeAll f (event_hooks s)\<rparr>"

definition func_to_set_breakpoint_at :: "attach \<Rightarrow> attach" where
  "func_to_set_breakpoint_at s = s\<lparr>reached := reached s + 1\<rparr>"

definition catch_line_event :: "bool \<Rightarrow> attach \<Rightarrow> attach" where
  "catch_line_event during_gc s =
     (let s = rb_remove_event_hook Catch_line_event s in
      if during_gc then s else func_to_set_breakpoint_at s)"

definition debase_start_attach :: "bool \<Rightarrow> attach \<Rightarrow> attach \<times> int" where
  "debase_start_attach during_gc s =
     (if during_gc then (s, 1) else (rb_add_event_hook Catch_line_event s, 0))"

text \<open>The code that is evaluated is a parameter; its exceptions are dropped.\<close>

definition debase_rb_eval :: "(bytes \<Rightarrow> 's \<Rightarrow> ('s, unit) act) \<Rightarrow> bytes \<Rightarrow> 's \<Rightarrow> 's option" where
  "debase_rb_eval eval string_to_eval s = map_option fst (eval string_to_eval s)"

section \<open>One stop\<close>

text \<open>An event calls the hook if it is there; a hook that a call removes is not called any more.\<close>

definition line_event :: "bool \<Rightarrow> attach \<Rightarrow> attach" where
  "line_event during_gc s = (if Catch_line_event \<in> set (event_hooks s) then catch_line_event during_gc s else s)"

lemma line_event_without [simp]: "Catch_line_event \<notin> set (event_hooks s) \<Longrightarrow> fold line_event gcs s = s"
  by (induction gcs) (simp_all add: line_event_def)

text \<open>
  After the attachment the function is reached at the first line, and at no other one; if that line
  is met by the garbage collector, it is never reached.
\<close>

lemma attach_stops_once:
  assumes "Catch_line_event \<notin> set (event_hooks s)"
  shows "fold line_event (gc # gcs) (fst (debase_start_attach False s)) = s\<lparr>reached := reached s + (if gc then 0 else 1)\<rparr>"
proof -
  have "line_event gc (fst (debase_start_attach False s)) = s\<lparr>reached := reached s + (if gc then 0 else 1)\<rparr>"
    using assms
    by (simp add: debase_start_attach_def rb_add_event_hook_def line_event_def catch_line_event_def rb_remove_event_hook_def
        func_to_set_breakpoint_at_def)
  with assms show ?thesis by simp
qed

lemma attach_refused: "debase_start_attach True s = (s, 1)"
  by (simp add: debase_start_attach_def)

end
