(* ===== verification/Spec2Isabelle.thy ===== *)
theory Spec2Isabelle
  imports Unf_Correct Json_Settings Json_Raw Debase_Correct Debase_Attach
begin

text \<open>
  A verification of the native parts of the repository: the Ruby gems it ships under
  \<open>src/main/resources/gems\<close> are the C and C++ code of the program (the cluster itself is Scala
  and Java). Modelled are the gem \<open>unf_ext\<close>, which normalizes Unicode text, the C extensions of the
  gem \<open>json\<close>, the generator and the parser, and the gem \<open>debase\<close>, a debugger for Ruby. The gems share
  nothing but \<open>Prelude\<close> and the exceptions of \<open>Ruby\<close>; generator and parser meet in the byte buffer,
  and in the theorem that the parser reads what the generator writes.

  \<^bold>\<open>unf_ext\<close> (\<open>ext/unf_ext\<close>). A Ruby object \<open>UNF::Normalizer\<close> (\<open>unf.cc\<close>) owns a C++ object
  \<open>UNF::Normalizer\<close> (\<open>unf/normalizer.hh\<close>), which scans a C string for parts that are not normalized,
  decomposes and reorders each part, recomposes it where the form asks for that, and copies the
  rest. It relies on tries over bytes (\<open>unf/trie/searcher.hh\<close>, \<open>unf/trie/node.hh\<close>), read through
  streams (\<open>unf/trie/char_stream.hh\<close>), in a generated table (\<open>unf/table.hh\<close>), and on helpers for
  UTF-8 (\<open>unf/util.hh\<close>).

  \<^bold>\<open>json\<close> (\<open>ext/json/ext\<close>). A \<open>State\<close> (\<open>generator/generator.c\<close>) holds the settings of a generator and
  its depth; \<open>generate_json\<close> walks over Ruby objects and appends their text to a byte buffer
  (\<open>fbuffer/fbuffer.h\<close>). A \<open>Parser\<close> (\<open>parser/parser.c\<close>) holds a source and settings; seven functions,
  each around a state machine that Ragel has generated, call each other over the source and make
  Ruby objects.

  \<^bold>\<open>debase\<close> (\<open>ext\<close>). Ruby calls a handler of \<open>debase_internals.c\<close> at each line, call, return and
  exception of any thread. A handler takes the lock of the debugger, or waits in the queue of
  \<open>locker.c\<close>; it counts steps and frames in the context of its thread (\<open>context.c\<close>), looks for a
  breakpoint or a catchpoint (\<open>breakpoint.c\<close>), calls Ruby code if the thread is to stop, gives the
  lock to the next thread, and turns the trace points off if nobody needs them.

  Conventions. Bytes are 8-bit words, node words 32-bit words. A pointer into a string is an
  offset; a C string is its bytes, with one NUL behind them (\<open>Prelude\<close>). An access outside its
  object is \<open>None\<close>, so a theorem that says \<open>Some\<close> of an operation says that it is memory safe.
  Loops that are not structural are \<open>partial_function (option)\<close> or have a measure; that they return
  is a theorem. Exceptions of Ruby are \<open>Inl\<close> values; what a call leaves in its state is returned with
  them (\<open>Ruby\<close>). Lengths and capacities of the byte buffer are 64-bit words, and memory cells that
  nobody wrote are \<open>None\<close>; allocation succeeds. The offsets into a text that the normalizer keeps in
  \<open>unsigned\<close> variables are 32-bit words that wrap around, so its properties (C1 to C3, C7, C13) are about
  texts of fewer than \<open>2\<^sup>3\<^sup>2\<close> bytes. The loops of the generator count with an \<open>int\<close> up to the number of
  entries and up to the depth, a \<open>long\<close>: an overflow is undefined, that is \<open>None\<close> (\<open>deep_indent\<close>), and
  \<open>counters_fit\<close> says of a tree that there is none. Ruby code that C calls back is a parameter: the record
  \<open>ruby\<close> for the generator, \<open>hooks\<close> for the parser, \<open>vm\<close> for the debugger. An \<open>int\<close> of the debugger is an
  integer, and \<open>c_int\<close> makes an overflow undefined; contexts are objects with a number; a pointer to
  a file name is its string. Nodes of the queue live in a store whose addresses are not used again.
  C code runs until it calls back Ruby or stops its thread, so threads interleave at these points
  only (\<open>Debase_Schedule\<close>); an exception can leave a handler at every such point, and then the thread
  is outside with the lock still held (C37, C40).

  Fuel. \<open>generate_json\<close> and \<open>JSON_parse_value\<close> take the number of calls that may be open at a time. For
  the generator one more than the nesting of the tree is enough (C16), or one more than the levels left
  below the limit on the nesting, on a heap that may be circular (C18); for the parser the length of the source plus one, or the nesting plus one (C29, C31). The loops over the
  entries of an array or object of the source have one round more than the source has characters.

  Theories of \<open>unf_ext\<close>, in the order of the code:
  \<^item> \<open>Prelude\<close>: bytes, objects, generic lemmas.
  \<^item> \<open>Utf8_Util\<close>: \<open>util.hh\<close>; the interface \<open>byte_stream\<close> of the template over streams.
  \<^item> \<open>Char_Stream\<close>: the stream classes; \<open>byte_stream_prev\<close> interpreted on two of them.
  \<^item> \<open>Trie_Node\<close>, \<open>Searcher\<close>: node words and searches; \<open>trie_nodes\<close> is what an array has to satisfy
    for searches to stay inside it, and the lemmas relate every search to a walk over a list.
  \<^item> \<open>Utf8_Text\<close>: texts as lists of characters; \<open>char_trie\<close>, tries whose keys are characters.
  \<^item> \<open>Bubble_Sort\<close>, \<open>Canonical_Order\<close>, \<open>Combining_Class\<close>: the sort by combining class, and the
    canonical order as a reference definition; \<open>class_trie\<close>.
  \<^item> \<open>Norm_Form\<close>: quick check, decomposition and composition with a trie; \<open>decomp_trie\<close>.
  \<^item> \<open>Normalizer\<close>: the class; \<open>Scanner\<close> and \<open>Decomposer\<close> show what scanning and decomposing do.
  \<^item> \<open>Compound_Stream\<close>: the stream over two texts as places in one text. \<open>Composer\<close>, \<open>Recomposer\<close>:
    composition of a character, a part and a text returns inside its objects; \<open>comp_trie\<close> is what it
    needs of its trie. Which text it returns is not stated but for texts that need no change (C4).
  \<^item> \<open>Table_Nodes_1\<close> to \<open>Table_Nodes_7\<close>, \<open>Table_Strings_1\<close> to \<open>Table_Strings_8\<close>, \<open>Table\<close>: the
    generated table, line by line; \<open>Table_Access\<close> and \<open>Table_Check\<close> are the means to evaluate
    checks over it in the kernel, \<open>Table_Facts\<close> the checks, \<open>Table_Tries\<close> what they show and the
    interpretation of all interfaces on the table, \<open>Table_Lookup\<close> single lookups.
  \<^item> \<open>Unf_Ruby\<close>: the Ruby class, with Ruby's functions as parameters.
  \<^item> \<open>Unf_Correct\<close>: the properties of the normalizer on its table (C1 to C11 and C13; C8 is in
    \<open>Bubble_Sort\<close>).

  Theories of \<open>json\<close>:
  \<^item> \<open>Ruby\<close>: exceptions, and sequences of calls that may raise. \<open>Simulation\<close>: the interface of a
    component that refines an abstract one, for runs of operations.
  \<^item> \<open>Fbuffer\<close>: the byte buffer; it refines a list of bytes.
  \<^item> \<open>Json_Utf8\<close>: the check of UTF-8 sequences and the escapes; \<open>Json_Convert\<close>: the two conversions of
    strings, and their reference definitions, character by character.
  \<^item> \<open>Json_State\<close>: Ruby values, the struct of a State and its methods; \<open>Json_Generator\<close>: \<open>generate_json\<close>
    and its cases, the trees that values stand for and their rendering; \<open>Json_Returns\<close>: generation
    returns on every bounded heap; \<open>Json_Methods\<close>: the \<open>to_json\<close> methods, and the states that a program
    can reach, given which strings it configures (\<open>clean\<close>: no NUL, fewer than \<open>2\<^sup>6\<^sup>2\<close> bytes).
  \<^item> \<open>Json_Correct\<close>: the properties of the generator (C16 to C28, but C20 and C25).
  \<^item> \<open>Json_Settings\<close>: \<open>[]\<close> and \<open>[]=\<close> of a State, and what its hash is good for (C12, C14). \<open>Json_Raw\<close>:
    strings of bytes as arrays, through generator and parser (C20).
  \<^item> \<open>Json_Unescape\<close>: the unescaping of strings. \<open>Json_Machines\<close>: the seven machines, state by state.
    \<open>Json_Parser\<close>: the functions around them and the methods.
  \<^item> \<open>Json_Scan\<close>: runs of a machine; the interface \<open>act_distance\<close> bounds how early an action can come.
    \<open>Json_Parse_Safe\<close>: every function returns; \<open>Json_Parse_Calls\<close>: more open calls change nothing.
  \<^item> \<open>Json_Paths\<close>, \<open>Json_Roundtrip\<close>: texts that the machines run through, up to whole documents.
    \<open>Json_Strings\<close>: which strings are accepted, and the escape of half a surrogate pair.
  \<^item> \<open>Json_Parse_Correct\<close>: the properties of the parser (C29 to C36), and a document of the generator
    that it rejects (C25).

  Theories of \<open>debase\<close>:
  \<^item> \<open>Debase_Locker\<close>: the queue of waiting threads, a linked list that refines a list of threads.
  \<^item> \<open>Debase_Context\<close>: contexts, their flags and frames, and where to stop next.
  \<^item> \<open>Debase_Breakpoint\<close>: breakpoints, catchpoints, and which file names are taken for the same.
  \<^item> \<open>Debase_Internals\<close>: the global state, the lock, the four handlers and the methods of the module.
    A handler is one round of the loop that waits, and \<open>resume\<close> is the next one.
  \<^item> \<open>Debase_Schedule\<close>: threads that share the debugger, as steps, with handlers left by exceptions, and
    the invariant of lock and queue.
    \<open>Debase_Stepping\<close>: what line events do to a thread that steps.
  \<^item> \<open>Debase_Correct\<close>: the properties of the debugger (C15 and C37 to C40).
  \<^item> \<open>Debase_Attach\<close>: the library that is loaded into a running process (\<open>attach/attach.c\<close>).

  Not modelled: destructors, marking for the garbage collector and the calls that register methods
  with Ruby; the text of floats, which Ruby writes and reads; of the debugger the verbose output
  of events.
\<close>

end
